(* ===== verification/Prelude.thy ===== *)
theory Prelude
  imports Main "HOL-Library.Word"
begin

section \<open>Prelude: machine types, byte lists and shared lemmas\<close>

text \<open>
  Types and generic lemmas every component uses: the fixed-width integers of the code
  as words, byte arrays as lists of 8-bit words, little- and big-endian conversion
  between the two, and the collections of facts (\<open>codec_simps\<close>, \<open>len_simps\<close>) that the
  component proofs simplify with.
\<close>

unbundle bit_operations_syntax

type_synonym byte = "8 word"
type_synonym bytes = "8 word list"
type_synonym i32 = "32 word"
type_synonym i64 = "64 word"

named_theorems codec_simps "what a reader returns on what a writer emitted"
named_theorems len_simps "lengths of emitted byte strings and digests"
named_theorems step_defs "unfoldings of the state-changing operations"

subsection \<open>Endianness\<close>

text \<open>
  \<open>le_encode n w\<close> is the \<open>n\<close> low bytes of \<open>w\<close>, least significant first: what
  \<open>QDataStream\<close> in \<open>LittleEndian\<close> order writes and \<open>qFromLittleEndian\<close> reads.
\<close>

fun le_encode :: "nat \<Rightarrow> 'a::len word \<Rightarrow> bytes" where
  "le_encode 0 w = []"
| "le_encode (Suc n) w = ucast w # le_encode n (drop_bit 8 w)"

fun le_decode :: "bytes \<Rightarrow> 'a::len word" where
  "le_decode [] = 0"
| "le_decode (b # bs) = ucast b OR push_bit 8 (le_decode bs)"

definition be_encode :: "nat \<Rightarrow> 'a::len word \<Rightarrow> bytes" where
  "be_encode n w = rev (le_encode n w)"

definition be_decode :: "bytes \<Rightarrow> 'a::len word" where
  "be_decode bs = le_decode (rev bs)"

lemma length_le_encode [simp, len_simps]: "length (le_encode n w) = n"
  by (induction n arbitrary: w) auto

lemma length_be_encode [simp, len_simps]: "length (be_encode n w) = n"
  by (simp add: be_encode_def)

lemma bit_le_decode:
  "bit (le_decode bs :: 'a::len word) i \<longleftrightarrow>
     i < LENGTH('a) \<and> i div 8 < length bs \<and> bit (bs ! (i div 8)) (i mod 8)"
proof (induction bs arbitrary: i)
  case Nil
  then show ?case by simp
next
  case (Cons b bs)
  show ?case
  proof (cases "i < 8")
    case True
    then show ?thesis
      by (auto simp: bit_or_iff bit_push_bit_iff bit_ucast_iff)
  next
    case False
    have "bit b i = False"
      using False bit_imp_le_length [of b i] by auto
    moreover have "(i - 8) div 8 = i div 8 - 1" "(i - 8) mod 8 = i mod 8"
      using False by (simp_all add: le_div_geq le_mod_geq)
    moreover have "i div 8 = Suc (i div 8 - 1)" using False by auto
    ultimately show ?thesis
      using False Cons.IH [of "i - 8"]
      by (auto simp: bit_or_iff bit_push_bit_iff bit_ucast_iff nth_Cons split: nat.splits)
  qed
qed

lemma nth_le_encode: "k < n \<Longrightarrow> le_encode n w ! k = ucast (drop_bit (8 * k) w)"
proof (induction n arbitrary: w k)
  case 0
  then show ?case by simp
next
  case (Suc n)
  then show ?case by (cases k) (simp_all add: drop_bit_drop_bit algebra_simps)
qed

lemma le_decode_encode [codec_simps]:
  fixes w :: "'a::len word"
  assumes "LENGTH('a) \<le> 8 * n"
  shows "le_decode (le_encode n w) = w"
proof (rule bit_word_eqI)
  fix i assume i: "i < LENGTH('a)"
  then have d: "i div 8 < n" using assms by auto
  have "8 * (i div 8) + i mod 8 = i" by simp
  then show "bit (le_decode (le_encode n w) :: 'a word) i = bit w i"
    using i d by (simp add: bit_le_decode nth_le_encode bit_ucast_iff bit_drop_bit_eq)
qed

lemma le_encode_decode [codec_simps]:
  assumes "8 * length bs \<le> LENGTH('a::len)"
  shows "le_encode (length bs) (le_decode bs :: 'a word) = bs"
proof (rule nth_equalityI)
  show "length (le_encode (length bs) (le_decode bs :: 'a word)) = length bs" by simp
  fix k assume "k < length (le_encode (length bs) (le_decode bs :: 'a word))"
  then have k: "k < length bs" by simp
  have "bit (le_encode (length bs) (le_decode bs :: 'a word) ! k) j = bit (bs ! k) j"
    if j: "j < 8" for j
  proof -
    have "8 * k + j < LENGTH('a)" using k j assms by linarith
    moreover have "(8 * k + j) div 8 = k" "(8 * k + j) mod 8 = j" using j by simp_all
    ultimately show ?thesis
      using k j by (simp add: nth_le_encode bit_ucast_iff bit_drop_bit_eq bit_le_decode)
  qed
  then show "le_encode (length bs) (le_decode bs :: 'a word) ! k = bs ! k"
    by (intro bit_word_eqI) simp
qed

lemma be_decode_encode [codec_simps]:
  fixes w :: "'a::len word"
  assumes "LENGTH('a) \<le> 8 * n"
  shows "be_decode (be_encode n w) = w"
  using assms by (simp add: be_decode_def be_encode_def le_decode_encode)

lemma be_encode_decode [codec_simps]:
  assumes "8 * length bs \<le> LENGTH('a::len)"
  shows "be_encode (length bs) (be_decode bs :: 'a word) = bs"
proof -
  have "le_encode (length (rev bs)) (le_decode (rev bs) :: 'a word) = rev bs"
    by (rule le_encode_decode) (simp add: assms)
  then show ?thesis by (simp add: be_decode_def be_encode_def)
qed

lemma le_encode_inj:
  fixes v w :: "'a::len word"
  assumes "LENGTH('a) \<le> 8 * n" and "le_encode n v = le_encode n w"
  shows "v = w"
proof -
  have "le_decode (le_encode n v) = (le_decode (le_encode n w) :: 'a word)"
    by (simp only: assms(2))
  then show ?thesis by (simp only: le_decode_encode [OF assms(1)])
qed

subsection \<open>Words of small numbers\<close>
lemma ucast_of_nat_byte: "(ucast (of_nat n :: i32) :: byte) = of_nat n"
  by (rule word_unat_eq_iff [THEN iffD2])
    (simp add: unsigned_ucast_eq unat_of_nat take_bit_eq_mod mod_mod_cancel)
lemma drop_bit_of_nat32:
  assumes "n < 2 ^ 32" and "k < 32"
  shows "drop_bit k (of_nat n :: i32) = of_nat (n div 2 ^ k)"
proof (rule word_unat_eq_iff [THEN iffD2])
  have "n div 2 ^ k < 2 ^ 32" using assms(1) by (rule order_le_less_trans [OF div_le_dividend])
  moreover have "unat (drop_bit k (of_nat n :: i32)) = drop_bit k (unat (of_nat n :: i32))"
    by (rule unat_drop_bit_eq)
  ultimately show "unat (drop_bit k (of_nat n :: i32)) = unat (of_nat (n div 2 ^ k) :: i32)"
    using assms by (simp add: drop_bit_nat_def unat_of_nat)
qed
lemma ucast_byte_nat: "(ucast (of_nat n :: byte) :: i32) = of_nat (n mod 256)"
  by (rule word_unat_eq_iff [THEN iffD2])
    (simp add: unsigned_ucast_eq unat_of_nat take_bit_eq_mod)
lemma base256: "n < 16777216 \<Longrightarrow>  n mod 256 + n div 256 mod 256 * 256 + n div 65536 mod 256 * 65536 = (n::nat)"
proof -
  assume "n < 16777216"
  have "n div 65536 = n div 256 div 256" by (simp add: div_mult2_eq [symmetric])
  moreover have "n div 65536 mod 256 = n div 65536" using \<open>n < 16777216\<close> by (simp add: less_mult_imp_div_less)
  moreover have "n div 256 mod 256 + n div 256 div 256 * 256 = n div 256" by (simp add: mod_div_mult_eq)
  moreover have "n mod 256 + n div 256 * 256 = n" by (simp add: mod_div_mult_eq)
  ultimately show ?thesis by linarith
qed
lemma three_bytes:
  assumes "n < 2 ^ 24"
  shows "(ucast (of_nat n :: byte) :: i32) + push_bit 8 (ucast (of_nat (n div 256) :: byte))
    + push_bit 16 (ucast (of_nat (n div 65536) :: byte)) = of_nat n"
proof -
  have "n mod 256 + (n div 256 mod 256) * 256 + (n div 65536 mod 256) * 65536 = n"
    using assms by (intro base256) simp
  then have "of_nat (n mod 256 + (n div 256 mod 256) * 256 + (n div 65536 mod 256) * 65536) = (of_nat n :: i32)"
    by (simp only:)
  then show ?thesis unfolding ucast_byte_nat push_bit_eq_mult by simp
qed
lemma sint_of_nat32: "n < 2 ^ 31 \<Longrightarrow> sint (of_nat n :: i32) = int n"
  by (simp add: signed_of_nat signed_take_bit_int_eq_self) 
lemma and_255: "x AND 0xFF = take_bit 8 (x :: i32)"
  by (simp add: take_bit_eq_mask mask_eq_exp_minus_1)
lemma byte_of_masked: "(ucast (x AND 0xFF :: i32) :: byte) = ucast x"
  unfolding and_255 by (rule bit_word_eqI) (simp add: bit_ucast_iff bit_take_bit_iff)


subsection \<open>Lists\<close>

lemma take_drop_append_exact:
  "length a = n \<Longrightarrow> take n (a @ b) = a \<and> drop n (a @ b) = b"
  by simp

lemma map2_xor_cancel:
  "length a = length b \<Longrightarrow> map2 (XOR) (map2 (XOR) a b) b = (a :: 'a::len word list)"
  by (induction a b rule: list_induct2) (simp_all add: xor.assoc)

lemma remove1_append_mem: "x \<in> set xs \<Longrightarrow> set (remove1 x xs @ [y]) \<subseteq> insert y (set xs)"
  by (auto dest: notin_set_remove1 set_remove1_subset [THEN subsetD])

subsection \<open>Systems with an invariant\<close>

text \<open>
  The contract of a step relation with an invariant of its states: its client learns that every state
  reached satisfies it.
\<close>

locale invariant_system =
  fixes initial :: "'s \<Rightarrow> bool" and step :: "'s \<Rightarrow> 's \<Rightarrow> bool" and inv :: "'s \<Rightarrow> bool"
  assumes starts: "initial s \<Longrightarrow> inv s" and keeps: "inv s \<Longrightarrow> step s s' \<Longrightarrow> inv s'"
begin

lemma kept: "step\<^sup>*\<^sup>* s t \<Longrightarrow> inv s \<Longrightarrow> inv t"
  by (induction rule: rtranclp_induct) (auto intro: keeps)

lemma reached: "initial s \<Longrightarrow> step\<^sup>*\<^sup>* s t \<Longrightarrow> inv t"
  using kept starts by blast

end

end
