(* ===== verification/QtBase.thy ===== *)
theory QtBase
  imports Prelude
begin

section \<open>The Qt value types the client computes with\<close>

text \<open>
  The client keeps every protocol object as a \<open>QVariantMap\<close> (\<open>TgObject\<close> in
  libkg/tgstream.h) whose entries are \<open>QVariant\<close>s. This theory models those values and
  the conversions the code calls on them. A \<open>QString\<close> is its list of UTF-16 units, a
  \<open>QByteArray\<close> a list of bytes, a \<open>QVariantMap\<close> an association list with unique keys.
  The two UTF-8 conversions of \<open>QString\<close> and the contents of freshly allocated memory
  are not code of the repository: they are fields of the environment record \<open>qtenv\<close>.
  A \<open>double\<close> is its 64 bits; the conversion of other values to one is a field of \<open>qtenv\<close> too. The
  protocol code never converts a \<open>double\<close> to an integer or to text, and here such a conversion gives 0 and
  the empty text.
\<close>

type_synonym qstring = "16 word list"

definition qs :: "string \<Rightarrow> qstring" where
  "qs s = map of_char s"

datatype variant =
    VNull
  | VInt i32
  | VUInt i32
  | VLong i64
  | VULong i64
  | VBool bool
  | VDouble i64
  | VBytes bytes
  | VStr qstring
  | VList "variant list"
  | VMap "(string \<times> variant) list"

type_synonym tgobject = "(string \<times> variant) list"

record qtenv =
  from_utf8 :: "bytes \<Rightarrow> qstring"
  to_utf8 :: "qstring \<Rightarrow> bytes"
  uninit :: "nat \<Rightarrow> byte"
  to_double :: "variant \<Rightarrow> i64"

text \<open>A concrete environment, for evaluation: strings of 7-bit characters only.\<close>

definition ascii_env :: qtenv where
  "ascii_env = \<lparr>from_utf8 = map ucast, to_utf8 = map ucast, uninit = (\<lambda>_. 0), to_double = (\<lambda>_. 0)\<rparr>"

subsection \<open>Maps with string keys\<close>

text \<open>
  \<open>obj_get m k\<close> is \<open>m.value(k)\<close> (a null \<open>QVariant\<close> when absent) and \<open>obj_put k v m\<close> is
  \<open>m[k] = v\<close>.
\<close>

definition obj_get :: "tgobject \<Rightarrow> string \<Rightarrow> variant" where
  "obj_get m k = (case map_of m k of None \<Rightarrow> VNull | Some v \<Rightarrow> v)"

definition obj_has :: "tgobject \<Rightarrow> string \<Rightarrow> bool" where
  "obj_has m k = (map_of m k \<noteq> None)"

fun obj_put :: "string \<Rightarrow> variant \<Rightarrow> tgobject \<Rightarrow> tgobject" where
  "obj_put k v [] = [(k, v)]"
| "obj_put k v ((k', v') # m) =
     (if k = k' then (k, v) # m else (k', v') # obj_put k v m)"

lemma map_of_obj_put [simp]: "map_of (obj_put k v m) = (map_of m)(k \<mapsto> v)"
  by (induction m) (auto simp: fun_eq_iff)

lemma obj_get_put [simp]: "obj_get (obj_put k v m) k' = (if k' = k then v else obj_get m k')"
  by (simp add: obj_get_def)

lemma obj_has_put [simp]: "obj_has (obj_put k v m) k' \<longleftrightarrow> k' = k \<or> obj_has m k'"
  by (simp add: obj_has_def)

lemma obj_has_Nil [simp]: "\<not> obj_has [] k"
  by (simp add: obj_has_def)

lemma obj_get_Nil [simp]: "obj_get [] k = VNull"
  by (simp add: obj_get_def)

lemma obj_get_Cons [simp]: "obj_get ((k, v) # m) k' = (if k' = k then v else obj_get m k')"
  by (simp add: obj_get_def)

lemma obj_has_Cons [simp]: "obj_has ((k, v) # m) k' \<longleftrightarrow> k' = k \<or> obj_has m k'"
  by (simp add: obj_has_def)

lemma obj_put_fresh: "k \<notin> fst ` set m \<Longrightarrow> obj_put k v m = m @ [(k, v)]"
  by (induction m) auto

lemma obj_get_append: "obj_get (m @ m') k = (if obj_has m k then obj_get m k else obj_get m' k)"
  by (auto simp: obj_get_def obj_has_def map_add_def split: option.splits)

lemma obj_has_append [simp]: "obj_has (m @ m') k \<longleftrightarrow> obj_has m k \<or> obj_has m' k"
  by (auto simp: obj_has_def map_add_def split: option.splits)

lemma obj_has_iff: "obj_has m k \<longleftrightarrow> k \<in> fst ` set m"
  by (induction m) auto

lemma obj_put_keys: "fst ` set (obj_put k v m) = insert k (fst ` set m)"
  by (induction k v m rule: obj_put.induct) (simp_all add: insert_commute)

lemma distinct_obj_put: "distinct (map fst m) \<Longrightarrow> distinct (map fst (obj_put k v m))"
  by (induction m) (auto simp: obj_put_keys)

subsection \<open>Decimal text\<close>

text \<open>
  \<open>QString::toLongLong\<close> in base 10: optional surrounding white space, an optional sign,
  at least one digit and nothing else; out-of-range text and anything else is a failure,
  which every caller here reads as 0.
\<close>

definition is_ws :: "16 word \<Rightarrow> bool" where
  "is_ws c \<longleftrightarrow> c = 32 \<or> (9 \<le> c \<and> c \<le> 13)"

fun parse_digits :: "nat \<Rightarrow> qstring \<Rightarrow> nat option" where
  "parse_digits acc [] = Some acc"
| "parse_digits acc (c # cs) =
     (if 48 \<le> c \<and> c \<le> 57 then parse_digits (acc * 10 + unat (c - 48)) cs else None)"

definition parse_unsigned :: "qstring \<Rightarrow> nat option" where
  "parse_unsigned cs = (if cs = [] then None else parse_digits 0 cs)"

definition parse_signed :: "qstring \<Rightarrow> int option" where
  "parse_signed cs =
     (case cs of
        [] \<Rightarrow> None
      | c # cs' \<Rightarrow>
          if c = 45 then map_option (\<lambda>n. - int n) (parse_unsigned cs')
          else if c = 43 then map_option int (parse_unsigned cs')
          else map_option int (parse_unsigned cs))"

definition trimmed :: "qstring \<Rightarrow> qstring" where
  "trimmed cs = rev (dropWhile is_ws (rev (dropWhile is_ws cs)))"

definition qs_toLongLong :: "qstring \<Rightarrow> i64" where
  "qs_toLongLong cs =
     (case parse_signed (trimmed cs) of
        None \<Rightarrow> 0
      | Some n \<Rightarrow> if - (2 ^ 63) \<le> n \<and> n < 2 ^ 63 then word_of_int n else 0)"

definition qs_toInt :: "qstring \<Rightarrow> i32" where
  "qs_toInt cs =
     (case parse_signed (trimmed cs) of
        None \<Rightarrow> 0
      | Some n \<Rightarrow> if - (2 ^ 31) \<le> n \<and> n < 2 ^ 31 then word_of_int n else 0)"

function (sequential) dec_digits :: "nat \<Rightarrow> qstring" where
  "dec_digits n = (if n < 10 then [of_nat (48 + n)]
                   else dec_digits (n div 10) @ [of_nat (48 + n mod 10)])"
  by pat_completeness auto
termination by (relation "measure id") auto

declare dec_digits.simps [simp del]

text \<open>\<open>QString::number\<close> of a signed 64-bit value.\<close>

definition qs_number :: "i64 \<Rightarrow> qstring" where
  "qs_number w = (if sint w < 0 then 45 # dec_digits (nat (- sint w)) else dec_digits (nat (sint w)))"

text \<open>Writing a number in decimal and reading it back is the identity.\<close>

lemma parse_digits_append:
  "parse_digits acc (xs @ ys) = Option.bind (parse_digits acc xs) (\<lambda>v. parse_digits v ys)"
  by (induction xs arbitrary: acc) auto

lemma digit_unit:
  assumes "d < 10"
  shows "(48 :: 16 word) \<le> of_nat (48 + d)" "of_nat (48 + d) \<le> (57 :: 16 word)"
    "unat (of_nat (48 + d) - 48 :: 16 word) = d"
proof -
  have u: "unat (of_nat (48 + d) :: 16 word) = 48 + d"
    using assms by (subst unat_of_nat) simp
  show 1: "(48 :: 16 word) \<le> of_nat (48 + d)"
    unfolding word_le_nat_alt u by simp
  show "of_nat (48 + d) \<le> (57 :: 16 word)"
    unfolding word_le_nat_alt u using assms by simp
  show "unat (of_nat (48 + d) - 48 :: 16 word) = d"
    using assms by (simp add: unat_of_nat)
qed

lemma parse_dec_digits: "parse_digits 0 (dec_digits n) = Some n"
proof (induction n rule: dec_digits.induct)
  case (1 n)
  show ?case
  proof (cases "n < 10")
    case True
    then show ?thesis
      using digit_unit [of n] by (subst dec_digits.simps) simp
  next
    case False
    have "n div 10 * 10 + n mod 10 = n" by (rule div_mult_mod_eq)
    then show ?thesis
      using False "1.IH" digit_unit [of "n mod 10"]
      by (subst dec_digits.simps) (simp add: parse_digits_append)
  qed
qed

lemma dec_digits_range: "c \<in> set (dec_digits n) \<Longrightarrow> 48 \<le> c \<and> c \<le> 57"
proof (induction n rule: dec_digits.induct)
  case (1 n)
  show ?case
  proof (cases "n < 10")
    case True
    then show ?thesis
      using digit_unit [of n] "1.prems" by (subst (asm) dec_digits.simps) simp
  next
    case False
    then show ?thesis
      using "1.prems" "1.IH" digit_unit [of "n mod 10"]
      by (subst (asm) dec_digits.simps) auto
  qed
qed

lemma dec_digits_not_Nil [simp]: "dec_digits n \<noteq> []"
  by (subst dec_digits.simps) simp

lemma dropWhile_none: "(\<forall>c \<in> set xs. \<not> P c) \<Longrightarrow> dropWhile P xs = xs"
  by (cases xs) auto

lemma trimmed_id: "(\<forall>c \<in> set s. \<not> is_ws c) \<Longrightarrow> trimmed s = s"
  by (simp add: trimmed_def dropWhile_none)

lemma not_ws_ge: "43 \<le> c \<Longrightarrow> \<not> is_ws c"
  by (auto simp: is_ws_def word_le_nat_alt)

lemma qs_number_chars: "\<forall>c \<in> set (qs_number w). 43 \<le> c"
  using order_trans [of 43 "48 :: 16 word"]
  by (auto simp: qs_number_def dest: dec_digits_range)

lemma parse_signed_digits:
  "parse_signed (dec_digits n) = Some (int n)"
proof -
  obtain c cs where c: "dec_digits n = c # cs" by (cases "dec_digits n") auto
  then have "48 \<le> c" using dec_digits_range [of c n] by simp
  then have "c \<noteq> 45" "c \<noteq> 43" by auto
  then show ?thesis
    using parse_dec_digits [of n] c by (simp add: parse_signed_def parse_unsigned_def)
qed

lemma parse_signed_neg: "parse_signed (45 # dec_digits n) = Some (- int n)"
  by (simp add: parse_signed_def parse_unsigned_def parse_dec_digits)

lemma qs_toLongLong_number [simp]: "qs_toLongLong (qs_number w) = w"
proof -
  have t: "trimmed (qs_number w) = qs_number w"
    by (intro trimmed_id ballI not_ws_ge) (simp add: bspec [OF qs_number_chars])
  have "parse_signed (qs_number w) = Some (sint w)"
    by (simp add: qs_number_def parse_signed_digits parse_signed_neg)
  moreover have "- (2 ^ 63) \<le> sint w" "sint w < 2 ^ 63"
    using sint_ge [of w] sint_lt [of w] by simp_all
  ultimately show ?thesis by (simp add: qs_toLongLong_def t)
qed

lemma qs_number_inj: "qs_number v = qs_number w \<Longrightarrow> v = w"
  by (metis qs_toLongLong_number)

subsection \<open>Conversions of a QVariant\<close>

text \<open>The 64-bit number a \<open>QVariant\<close> converts to; the narrower reads truncate it.\<close>

fun qv_number :: "variant \<Rightarrow> i64" where
  "qv_number (VInt w) = scast w"
| "qv_number (VUInt w) = ucast w"
| "qv_number (VLong w) = w"
| "qv_number (VULong w) = w"
| "qv_number (VBool b) = (if b then 1 else 0)"
| "qv_number (VStr s) = qs_toLongLong s"
| "qv_number (VBytes b) = qs_toLongLong (map ucast b)"
| "qv_number _ = 0"

definition qv_toLongLong :: "variant \<Rightarrow> i64" where
  "qv_toLongLong v = qv_number v"

definition qv_toInt :: "variant \<Rightarrow> i32" where
  "qv_toInt v = ucast (qv_number v)"

definition lower_unit :: "16 word \<Rightarrow> 16 word" where
  "lower_unit c = (if 65 \<le> c \<and> c \<le> 90 then c + 32 else c)"

definition text_truth :: "qstring \<Rightarrow> bool" where
  "text_truth s = (let l = map lower_unit s in l \<noteq> [] \<and> l \<noteq> qs ''0'' \<and> l \<noteq> qs ''false'')"

fun qv_toBool :: "variant \<Rightarrow> bool" where
  "qv_toBool (VBool b) = b"
| "qv_toBool (VStr s) = text_truth s"
| "qv_toBool (VBytes b) = text_truth (map ucast b)"
| "qv_toBool (VDouble w) = (w \<noteq> 0 \<and> w \<noteq> push_bit 63 1)"
| "qv_toBool v = (qv_number v \<noteq> 0)"

fun qv_toBytes :: "qtenv \<Rightarrow> variant \<Rightarrow> bytes" where
  "qv_toBytes q (VBytes b) = b"
| "qv_toBytes q (VStr s) = to_utf8 q s"
| "qv_toBytes q (VInt w) = to_utf8 q (qs_number (scast w))"
| "qv_toBytes q (VLong w) = to_utf8 q (qs_number w)"
| "qv_toBytes q (VUInt w) = to_utf8 q (dec_digits (unat w))"
| "qv_toBytes q (VULong w) = to_utf8 q (dec_digits (unat w))"
| "qv_toBytes q (VBool b) = to_utf8 q (qs (if b then ''true'' else ''false''))"
| "qv_toBytes q _ = []"

fun qv_toString :: "variant \<Rightarrow> qstring" where
  "qv_toString (VStr s) = s"
| "qv_toString (VBytes b) = map ucast b"
| "qv_toString (VInt w) = qs_number (scast w)"
| "qv_toString (VLong w) = qs_number w"
| "qv_toString (VUInt w) = dec_digits (unat w)"
| "qv_toString (VULong w) = dec_digits (unat w)"
| "qv_toString (VBool b) = qs (if b then ''true'' else ''false'')"
| "qv_toString _ = []"

definition qv_toDouble :: "qtenv \<Rightarrow> variant \<Rightarrow> i64" where
  "qv_toDouble q v = (case v of VDouble w \<Rightarrow> w | _ \<Rightarrow> to_double q v)"

fun qv_toList :: "variant \<Rightarrow> variant list" where
  "qv_toList (VList l) = l"
| "qv_toList _ = []"

fun qv_toMap :: "variant \<Rightarrow> tgobject" where
  "qv_toMap (VMap m) = m"
| "qv_toMap _ = []"

fun qv_isNull :: "variant \<Rightarrow> bool" where
  "qv_isNull VNull = True"
| "qv_isNull _ = False"

lemma qv_number_simps [simp]:
  "qv_toLongLong (VLong w) = w" "qv_toInt (VInt i) = i" "qv_toInt (VUInt i) = i"
  "qv_toInt VNull = 0" "qv_toLongLong VNull = 0"
proof -
  show "qv_toLongLong (VLong w) = w" "qv_toInt VNull = 0" "qv_toLongLong VNull = 0"
    by (simp_all add: qv_toLongLong_def qv_toInt_def)
  show "qv_toInt (VInt i) = i"
    unfolding qv_toInt_def
    by (rule bit_word_eqI) (simp add: bit_ucast_iff bit_signed_iff)
  show "qv_toInt (VUInt i) = i"
    unfolding qv_toInt_def
    by (rule bit_word_eqI) (simp add: bit_ucast_iff)
qed

text \<open>\<open>ID(obj)\<close> of tgstream.h: the constructor id of an object, 0 when it has none.\<close>

definition objID :: "tgobject \<Rightarrow> i32" where
  "objID m = qv_toInt (obj_get m ''_'')"

definition objEMPTY :: "tgobject \<Rightarrow> bool" where
  "objEMPTY m = (objID m = 0)"

subsection \<open>QByteArray and QString operations\<close>

definition ba_mid :: "nat \<Rightarrow> nat \<Rightarrow> bytes \<Rightarrow> bytes" where
  "ba_mid pos n a = take n (drop pos a)"

lemma length_ba_mid [len_simps]: "length (ba_mid pos n a) = min n (length a - pos)"
  by (simp add: ba_mid_def)

definition qs_startsWith :: "qstring \<Rightarrow> qstring \<Rightarrow> bool" where
  "qs_startsWith s p = (take (length p) s = p)"

fun qs_contains :: "qstring \<Rightarrow> qstring \<Rightarrow> bool" where
  "qs_contains [] p = (p = [])"
| "qs_contains (c # cs) p = (qs_startsWith (c # cs) p \<or> qs_contains cs p)"

text \<open>The part after the last underscore: \<open>s.split("_").last()\<close>.\<close>

definition qs_last_part :: "qstring \<Rightarrow> qstring" where
  "qs_last_part s = rev (takeWhile (\<lambda>c. c \<noteq> 95) (rev s))"

end
