(* ===== verification/TgStream.thy ===== *)
theory TgStream
  imports QtBase
begin

section \<open>The TL stream: libkg/tgstream.cpp\<close>

text \<open>
  \<open>TelegramStream\<close> is a byte array under a little-endian \<open>QDataStream\<close>: the buffer, the
  read/write position and the stream status. A reader takes the \<open>QVariant\<close> it is about
  to overwrite and the stream, because \<open>readVector\<close> leaves its argument alone when the
  constructor id is wrong. A read past the end yields zero, consumes what is left and
  spoils the status; it never stops the parse.
\<close>

record tgstream =
  sbuf :: bytes
  spos :: nat
  sok :: bool
  sqt :: qtenv

type_synonym tl_reader = "variant \<Rightarrow> tgstream \<Rightarrow> variant \<times> tgstream"
type_synonym tl_writer = "tgstream \<Rightarrow> variant \<Rightarrow> tgstream"

definition mk_stream :: "qtenv \<Rightarrow> bytes \<Rightarrow> tgstream" where
  "mk_stream q b = \<lparr>sbuf = b, spos = 0, sok = True, sqt = q\<rparr>"

definition toByteArray :: "tgstream \<Rightarrow> bytes" where
  "toByteArray s = sbuf s"

definition avail :: "tgstream \<Rightarrow> bytes" where
  "avail s = drop (spos s) (sbuf s)"

definition advance :: "nat \<Rightarrow> tgstream \<Rightarrow> tgstream" where
  "advance n s = s\<lparr>spos := spos s + n\<rparr>"

subsection \<open>Raw bytes\<close>

definition skipRawBytes :: "i32 \<Rightarrow> tgstream \<Rightarrow> tgstream" where
  "skipRawBytes n s =
     (if sint n < 0 then s else advance (min (nat (sint n)) (length (avail s))) s)"

text \<open>
  \<open>QByteArray::resize\<close> leaves the bytes it adds uninitialised, and \<open>readRawData\<close> fills
  only as many as the buffer still has.
\<close>

definition resize_to :: "qtenv \<Rightarrow> nat \<Rightarrow> bytes \<Rightarrow> bytes" where
  "resize_to q n a = take n a @ map (uninit q) [length a..<n]"

definition readRawBytes :: "i32 \<Rightarrow> tgstream \<Rightarrow> bytes \<times> tgstream" where
  "readRawBytes count s =
     (if sint count \<le> 0 then ([], s)
      else let n = nat (sint count); got = take n (avail s)
           in (resize_to (sqt s) n got, advance (length got) s))"

definition writeRawBytes :: "tgstream \<Rightarrow> bytes \<Rightarrow> tgstream" where
  "writeRawBytes s b =
     (if sok s
      then s\<lparr>sbuf := take (spos s) (sbuf s) @ b @ drop (spos s + length b) (sbuf s),
             spos := spos s + length b\<rparr>
      else s)"

subsection \<open>Integers\<close>

definition read_word :: "nat \<Rightarrow> tgstream \<Rightarrow> 'a::len word \<times> tgstream" where
  "read_word n s =
     (let got = take n (avail s); s' = advance (length got) s
      in if length got < n then (0, s'\<lparr>sok := False\<rparr>) else (le_decode got, s'))"

definition readUInt8 :: tl_reader where
  "readUInt8 i s = (let (w, s') = read_word 1 s in (VUInt (ucast (w :: 8 word)), s'))"

definition readUInt32 :: tl_reader where
  "readUInt32 i s = (let (w, s') = read_word 4 s in (VUInt w, s'))"

definition readUInt64 :: tl_reader where
  "readUInt64 i s = (let (w, s') = read_word 8 s in (VULong w, s'))"

definition readInt32 :: tl_reader where
  "readInt32 i s = (let (w, s') = read_word 4 s in (VInt w, s'))"

definition readInt64 :: tl_reader where
  "readInt64 i s = (let (w, s') = read_word 8 s in (VLong w, s'))"

definition readDouble :: tl_reader where
  "readDouble i s = (let (w, s') = read_word 8 s in (VDouble w, s'))"

definition writeUInt8 :: tl_writer where
  "writeUInt8 s i = writeRawBytes s (le_encode 1 (ucast (qv_toInt i) :: 8 word))"

definition writeUInt32 :: tl_writer where
  "writeUInt32 s i = writeRawBytes s (le_encode 4 (qv_toInt i))"

definition writeUInt64 :: tl_writer where
  "writeUInt64 s i = writeRawBytes s (le_encode 8 (qv_toLongLong i))"

definition writeInt32 :: tl_writer where
  "writeInt32 s i = writeRawBytes s (le_encode 4 (qv_toInt i))"

definition writeInt64 :: tl_writer where
  "writeInt64 s i = writeRawBytes s (le_encode 8 (qv_toLongLong i))"

definition writeDouble :: tl_writer where
  "writeDouble s i = writeRawBytes s (le_encode 8 (qv_toDouble (sqt s) i))"

definition BOOL_TRUE :: i32 where "BOOL_TRUE = - 1720552011"
definition BOOL_FALSE :: i32 where "BOOL_FALSE = - 1132882121"
definition VECTOR_ID :: i32 where "VECTOR_ID = 481674261"

definition writeBool :: tl_writer where
  "writeBool s i = writeRawBytes s (le_encode 4 (if qv_toBool i then BOOL_TRUE else BOOL_FALSE))"

definition readBool :: tl_reader where
  "readBool i s = (let (w, s') = read_word 4 s in (VBool (w = BOOL_TRUE), s'))"

subsection \<open>Byte strings\<close>

text \<open>
  The length prefix is one byte below 254, or the byte 254 and three bytes of length;
  the whole is padded with zeroes to a multiple of four.
\<close>

definition write_pad :: "nat \<Rightarrow> tgstream \<Rightarrow> tgstream" where
  "write_pad offset s = (if offset \<noteq> 0 then writeRawBytes s (replicate (4 - offset) 0) else s)"

definition skip_pad :: "int \<Rightarrow> tgstream \<Rightarrow> tgstream" where
  "skip_pad offset s = (if offset \<noteq> 0 then skipRawBytes (word_of_int (4 - offset)) s else s)"

definition writeByteArray :: tl_writer where
  "writeByteArray s i =
     (let array = qv_toBytes (sqt s) i;
          len = (of_nat (length array) :: i32);
          (startOffset, s1) =
            (if length array \<ge> 254
             then (4, writeUInt8 (writeUInt8 (writeUInt8 (writeUInt8 s (VInt 254))
                        (VInt (len AND 0xFF))) (VInt (drop_bit 8 len AND 0xFF)))
                        (VInt (drop_bit 16 len AND 0xFF)))
             else (1, writeUInt8 s (VInt (len AND 0xFF))));
          s2 = writeRawBytes s1 array
      in write_pad ((length array + startOffset) mod 4) s2)"

definition readByteArray :: tl_reader where
  "readByteArray i s =
     (let (var, s1) = readUInt8 VNull s;
          length1 = qv_toInt var;
          (len, startOffset, s2) =
            (if sint length1 \<ge> 254
             then let (v1, t1) = readUInt8 var s1;
                      (v2, t2) = readUInt8 v1 t1;
                      (v3, t3) = readUInt8 v2 t2
                  in (qv_toInt v1 + push_bit 8 (qv_toInt v2) + push_bit 16 (qv_toInt v3), 4, t3)
             else (length1, 1, s1));
          (array, s3) = readRawBytes len s2
      in (VBytes array, skip_pad ((sint len + startOffset) mod 4) s3))"

definition writeString :: tl_writer where
  "writeString s i = writeByteArray s (VBytes (to_utf8 (sqt s) (qv_toString i)))"

definition readString :: tl_reader where
  "readString i s =
     (let (var, s') = readByteArray VNull s
      in (VStr (from_utf8 (sqt s) (qv_toBytes (sqt s) var)), s'))"

definition writeInt128 :: tl_writer where
  "writeInt128 s i = writeRawBytes s (resize_to (sqt s) 16 (qv_toBytes (sqt s) i))"

definition writeInt256 :: tl_writer where
  "writeInt256 s i = writeRawBytes s (resize_to (sqt s) 32 (qv_toBytes (sqt s) i))"

definition readInt128 :: tl_reader where
  "readInt128 i s = (let (var, s') = readRawBytes 16 s in (VBytes var, s'))"

definition readInt256 :: tl_reader where
  "readInt256 i s = (let (var, s') = readRawBytes 32 s in (VBytes var, s'))"

subsection \<open>Vectors\<close>

definition writeVector :: "tl_writer option \<Rightarrow> tl_writer" where
  "writeVector callback s i =
     (let list = qv_toList i;
          s1 = writeInt32 s (VInt VECTOR_ID);
          s2 = writeInt32 s1 (VInt (of_nat (length list)))
      in case callback of None \<Rightarrow> s2 | Some w \<Rightarrow> foldl w s2 list)"

text \<open>The element loop keeps one \<open>QVariant\<close> that every element reader overwrites.\<close>

fun read_elems :: "tl_reader \<Rightarrow> nat \<Rightarrow> variant \<Rightarrow> tgstream \<Rightarrow> variant list \<times> tgstream" where
  "read_elems r 0 var s = ([], s)"
| "read_elems r (Suc n) var s =
     (let (v, s1) = r var s; (vs, s2) = read_elems r n v s1 in (v # vs, s2))"

definition readVector :: "tl_reader option \<Rightarrow> tl_reader" where
  "readVector callback i s =
     (let (var, s1) = readInt32 VNull s
      in if qv_toInt var \<noteq> VECTOR_ID then (i, s1)
         else let (var2, s2) = readInt32 var s1
              in case callback of
                   None \<Rightarrow> (VList [], s2)
                 | Some r \<Rightarrow> let (vs, s3) = read_elems r (nat (sint (qv_toInt var2))) var2 s2
                             in (VList vs, s3))"

definition writeList :: "tl_writer option \<Rightarrow> tl_writer" where
  "writeList callback s i = writeVector callback s i"

definition readList :: "tl_reader option \<Rightarrow> tl_reader" where
  "readList callback i s = readVector callback i s"

definition tlSerialize :: "qtenv \<Rightarrow> tl_writer \<Rightarrow> variant \<Rightarrow> bytes" where
  "tlSerialize q w obj = toByteArray (w (mk_stream q []) obj)"

definition tlDeserialize :: "qtenv \<Rightarrow> tl_reader \<Rightarrow> bytes \<Rightarrow> variant" where
  "tlDeserialize q r array = fst (r VNull (mk_stream q array))"


subsection \<open>Reading a whole frame from a device\<close>

text \<open>
  \<open>readFully\<close> loops over \<open>QIODevice::read\<close> and \<open>waitForReadyRead\<close>, the two parameters: a
  read of at most \<open>n\<close> bytes returns the bytes it got, or \<open>None\<close> for the result -1. The
  loop may run forever, which is the value \<open>None\<close>.
\<close>

type_synonym 'd device_read = "'d \<Rightarrow> nat \<Rightarrow> bytes option \<times> 'd"

definition KG_MAX_FRAME :: int where "KG_MAX_FRAME = 2 * 1024 * 1024"

partial_function (option) read_loop ::
  "'d device_read \<Rightarrow> ('d \<Rightarrow> 'd) \<Rightarrow> nat \<Rightarrow> bytes \<Rightarrow> 'd \<Rightarrow> (bytes \<times> 'd) option" where
  "read_loop rd wait n buffer d =
     (if n = 0 then Some (buffer, d)
      else case rd d n of
             (None, d') \<Rightarrow> Some ([], d')
           | (Some got, d') \<Rightarrow>
               if n - length got > 0 then read_loop rd wait (n - length got) (buffer @ got) (wait d')
               else Some (buffer @ got, d'))"

definition readFully :: "'d device_read \<Rightarrow> ('d \<Rightarrow> 'd) \<Rightarrow> i32 \<Rightarrow> 'd \<Rightarrow> (bytes \<times> 'd) option" where
  "readFully rd wait len d =
     (if sint len < 0 \<or> sint len > KG_MAX_FRAME then Some ([], d)
      else read_loop rd wait (nat (sint len)) [] d)"

text \<open>
  The documented behaviour of a device that delivers \<open>incoming d\<close>: a read returns a prefix
  of it of at most the size asked for and fails only when nothing is left to come;
  \<open>waiting d\<close> bounds how many reads in a row may find nothing yet.
\<close>

definition delivers :: "'d device_read \<Rightarrow> ('d \<Rightarrow> 'd) \<Rightarrow> ('d \<Rightarrow> bytes) \<Rightarrow> ('d \<Rightarrow> nat) \<Rightarrow> bool" where
  "delivers rd wait incoming waiting \<longleftrightarrow>
     (\<forall>d n. incoming d \<noteq> [] \<longrightarrow> 0 < n \<longrightarrow>
        (\<exists>got d'. rd d n = (Some got, d') \<and> incoming d = got @ incoming d' \<and> length got \<le> n \<and>
          (got = [] \<longrightarrow> waiting (wait d') < waiting d))) \<and>
     (\<forall>d. incoming (wait d) = incoming d)"

lemma read_loop_delivers:
  assumes D: "delivers rd wait incoming waiting" and "n \<le> length (incoming d)"
  shows "\<exists>d'. read_loop rd wait n buffer d = Some (buffer @ take n (incoming d), d') \<and>
              incoming d' = drop n (incoming d)"
  using assms(2)
proof (induction "(n, waiting d)" arbitrary: n d buffer rule: wf_induct_rule [OF wf_lex_prod [OF wf_less_than wf_less_than]])
  case (1 n d buffer)
  show ?case
  proof (cases "n = 0")
    case True
    then show ?thesis by (subst read_loop.simps) simp
  next
    case False
    with 1(2) D obtain got d' where r: "rd d n = (Some got, d')" and i: "incoming d = got @ incoming d'"
      and l: "length got \<le> n" and w: "got = [] \<longrightarrow> waiting (wait d') < waiting d"
      unfolding delivers_def by (metis length_greater_0_conv not_gr_zero not_less)
    have iw: "incoming (wait d') = incoming d'" using D by (simp add: delivers_def)
    show ?thesis
    proof (cases "n - length got > 0")
      case False
      then show ?thesis using r i l \<open>n \<noteq> 0\<close> by (subst read_loop.simps) simp
    next
      case True
      have "\<exists>d''. read_loop rd wait (n - length got) (buffer @ got) (wait d')
          = Some ((buffer @ got) @ take (n - length got) (incoming (wait d')), d'') \<and>
          incoming d'' = drop (n - length got) (incoming (wait d'))"
        using 1(1) [of "n - length got" "wait d'" "buffer @ got"] 1(2) True w i iw
        by (cases got) auto
      then show ?thesis using r i l True \<open>n \<noteq> 0\<close> iw by (subst read_loop.simps) simp
    qed
  qed
qed

text \<open>A device that has nothing more and does not fail keeps the loop running forever.\<close>

lemma read_loop_diverges:
  assumes "rd d n = (Some [], d)" and "wait d = d" and "0 < n"
  shows "read_loop rd wait n buffer d = None"
proof -
  have "\<not> (rd = rd \<and> wait = wait \<and> n = n \<and> d = d)" if "read_loop rd wait n buffer d = Some y" for y
  proof (rule read_loop.raw_induct [where P = "\<lambda>rd' wait' n' buffer' d' y.
      \<not> (rd' = rd \<and> wait' = wait \<and> n' = n \<and> d' = d)", OF _ that])
    fix loop :: "'a device_read \<Rightarrow> ('a \<Rightarrow> 'a) \<Rightarrow> nat \<Rightarrow> bytes \<Rightarrow> 'a \<Rightarrow> (bytes \<times> 'a) option"
      and rd' wait' n' buffer' d' y
    assume IH: "\<And>rd' wait' n' buffer' d' y. loop rd' wait' n' buffer' d' = Some y \<Longrightarrow>
        \<not> (rd' = rd \<and> wait' = wait \<and> n' = n \<and> d' = d)"
      and eq: "(if n' = 0 then Some (buffer', d')
        else case rd' d' n' of (None, d'') \<Rightarrow> Some ([], d'')
           | (Some got, d'') \<Rightarrow>
               if n' - length got > 0 then loop rd' wait' (n' - length got) (buffer' @ got) (wait' d'')
               else Some (buffer' @ got, d'')) = Some y"
    show "\<not> (rd' = rd \<and> wait' = wait \<and> n' = n \<and> d' = d)"
    proof
      assume "rd' = rd \<and> wait' = wait \<and> n' = n \<and> d' = d"
      then have "loop rd wait n (buffer' @ []) d = Some y" using eq assms by simp
      then show False using IH by blast
    qed
  qed
  then show ?thesis by (cases "read_loop rd wait n buffer d") auto
qed

text \<open>A concrete device: the chunks that arrive, one per wait; reading at the end fails.\<close>

fun chunk_read :: "bytes list device_read" where
  "chunk_read [] n = (None, [])"
| "chunk_read (c # cs) n = (Some (take n c), drop n c # cs)"

fun chunk_wait :: "bytes list \<Rightarrow> bytes list" where
  "chunk_wait ([] # cs) = cs"
| "chunk_wait cs = cs"

lemma delivers_chunks: "delivers chunk_read chunk_wait concat length"
proof -
  have "\<exists>got d'. chunk_read d n = (Some got, d') \<and> concat d = got @ concat d' \<and> length got \<le> n \<and>
          (got = [] \<longrightarrow> length (chunk_wait d') < length d)" if "concat d \<noteq> []" "0 < n" for d n
    using that by (cases d) auto
  moreover have "concat (chunk_wait d) = concat d" for d
    by (induction d rule: chunk_wait.induct) auto
  ultimately show ?thesis by (simp add: delivers_def)
qed

end
