(* ===== verification/TlCodec.thy ===== *)
theory TlCodec
  imports TgStream
begin

section \<open>The codec contract and the codecs of tgstream.cpp\<close>

text \<open>
  \<open>tl_codec R W enc ok\<close> is the contract between a reader and a writer: on the values
  \<open>ok\<close> admits, the writer appends \<open>enc\<close> and the reader takes exactly these bytes back
  and returns the value; whatever the stream holds, the reader gives no bytes back to it. Every client of a codec (vectors, objects, packets) is proved
  once from the contract; the interpretations below discharge it for the functions of
  tgstream.cpp.
\<close>

subsection \<open>Positions and packets\<close>

lemma avail_advance [simp]: "avail (advance n s) = drop n (avail s)"
  by (simp add: avail_def advance_def add.commute)

lemma advance_fields [simp]:
  "sqt (advance n s) = sqt s" "sok (advance n s) = sok s" "sbuf (advance n s) = sbuf s"
  "spos (advance n s) = spos s + n"
  by (simp_all add: advance_def)

lemma advance_advance [simp]: "advance m (advance n s) = advance (n + m) s"
  by (simp add: advance_def)

lemma advance_0 [simp]: "advance 0 s = s"
  by (simp add: advance_def)

lemma avail_mk_stream [simp]: "avail (mk_stream q b) = b"
  by (simp add: avail_def mk_stream_def)

lemma sqt_mk_stream [simp]: "sqt (mk_stream q b) = q"
  by (simp add: mk_stream_def)

text \<open>A packet under construction: everything written so far, the position at its end.\<close>

definition packet :: "qtenv \<Rightarrow> bytes \<Rightarrow> tgstream" where
  "packet q b = \<lparr>sbuf = b, spos = length b, sok = True, sqt = q\<rparr>"

lemma packet_fields [simp]: "sqt (packet q b) = q" "sbuf (packet q b) = b"
  by (simp_all add: packet_def)

lemma mk_stream_Nil: "mk_stream q [] = packet q []"
  by (simp add: packet_def mk_stream_def)

lemma writeRawBytes_packet [simp]: "writeRawBytes (packet q b) a = packet q (b @ a)"
  by (simp add: packet_def writeRawBytes_def)

lemma resize_to_exact [simp]: "length a = n \<Longrightarrow> resize_to q n a = a"
  by (simp add: resize_to_def)

lemma length_resize_to [simp, len_simps]: "length (resize_to q n a) = n"
  by (simp add: resize_to_def min_def)

lemma read_word_encoded [codec_simps]:
  fixes w :: "'a::len word"
  assumes "avail s = le_encode n w @ r" and "LENGTH('a) \<le> 8 * n"
  shows "read_word n s = (w, advance n s)"
  using assms by (simp add: read_word_def le_decode_encode)

lemma readRawBytes_exact [codec_simps]:
  assumes "avail s = b @ r" and "sint c = int (length b)"
  shows "readRawBytes c s = (b, advance (length b) s)"
  using assms by (auto simp: readRawBytes_def)

lemma skipRawBytes_exact [codec_simps]:
  assumes "sint c = int n" and "n \<le> length (avail s)"
  shows "skipRawBytes c s = advance n s"
  using assms by (simp add: skipRawBytes_def min_def)

subsection \<open>The contract\<close>

text \<open>
  \<open>like L r r'\<close>: with at most \<open>L\<close> bytes left the two readers do the same, and give no bytes back to the stream.
\<close>

definition like :: "nat \<Rightarrow> (variant \<Rightarrow> tgstream \<Rightarrow> variant \<times> tgstream) \<Rightarrow> (variant \<Rightarrow> tgstream \<Rightarrow> variant \<times> tgstream) \<Rightarrow> bool" where
  "like L r r' \<longleftrightarrow> (\<forall>i s. length (avail s) \<le> L \<longrightarrow> r i s = r' i s \<and> length (avail (snd (r' i s))) \<le> length (avail s))"

locale tl_codec =
  fixes R :: "variant \<Rightarrow> tgstream \<Rightarrow> variant \<times> tgstream"
    and W :: "tgstream \<Rightarrow> variant \<Rightarrow> tgstream"
    and enc :: "qtenv \<Rightarrow> variant \<Rightarrow> bytes"
    and ok :: "qtenv \<Rightarrow> variant \<Rightarrow> bool"
  assumes writes: "ok q v \<Longrightarrow> W (packet q b) v = packet q (b @ enc q v)"
    and reads: "ok (sqt s) v \<Longrightarrow> avail s = enc (sqt s) v @ r \<Longrightarrow>
                  R old s = (v, advance (length (enc (sqt s) v)) s)"
    and shrinks: "length (avail (snd (R old s))) \<le> length (avail s)"
begin

lemma self_like: "like L R R"
  by (simp add: like_def shrinks)

lemma serialize: "ok q v \<Longrightarrow> tlSerialize q W v = enc q v"
  by (simp add: tlSerialize_def toByteArray_def mk_stream_Nil writes)

lemma deserialize_serialize: "ok q v \<Longrightarrow> tlDeserialize q R (tlSerialize q W v) = v"
  by (simp add: serialize tlDeserialize_def reads [where r = "[]"])

lemma enc_inj:
  assumes "ok q v" and "ok q v'" and "enc q v = enc q v'"
  shows "v = v'"
proof -
  have "R VNull (mk_stream q (enc q v)) = (v, advance (length (enc q v)) (mk_stream q (enc q v)))"
    using reads [of "mk_stream q (enc q v)" v "[]" VNull] assms by simp
  moreover have "R VNull (mk_stream q (enc q v)) =
      (v', advance (length (enc q v')) (mk_stream q (enc q v)))"
    using reads [of "mk_stream q (enc q v)" v' "[]" VNull] assms by simp
  ultimately show ?thesis by simp
qed

lemma foldl_writes:
  "list_all (ok q) vs \<Longrightarrow> foldl W (packet q b) vs = packet q (b @ concat (map (enc q) vs))"
  by (induction vs arbitrary: b) (simp_all add: writes)

lemma read_elems_encoded:
  "list_all (ok (sqt s)) vs \<Longrightarrow> avail s = concat (map (enc (sqt s)) vs) @ r \<Longrightarrow>
   read_elems R (length vs) old s = (vs, advance (length (concat (map (enc (sqt s)) vs))) s)"
proof (induction vs arbitrary: s old)
  case Nil
  then show ?case by simp
next
  case (Cons v vs)
  from Cons.prems have 1: "R old s = (v, advance (length (enc (sqt s) v)) s)"
    by (intro reads [where r = "concat (map (enc (sqt s)) vs) @ r"]) simp_all
  have "read_elems R (length vs) v (advance (length (enc (sqt s) v)) s) =
      (vs, advance (length (concat (map (enc (sqt s)) vs))) (advance (length (enc (sqt s) v)) s))"
    using Cons.IH [of "advance (length (enc (sqt s) v)) s" v] Cons.prems by simp
  then show ?case by (simp add: 1)
qed

end

subsection \<open>Integers, booleans and fixed-size byte strings\<close>

definition is_VInt :: "qtenv \<Rightarrow> variant \<Rightarrow> bool" where
  "is_VInt q v = (case v of VInt _ \<Rightarrow> True | _ \<Rightarrow> False)"
definition is_VUInt :: "qtenv \<Rightarrow> variant \<Rightarrow> bool" where
  "is_VUInt q v = (case v of VUInt _ \<Rightarrow> True | _ \<Rightarrow> False)"
definition is_VLong :: "qtenv \<Rightarrow> variant \<Rightarrow> bool" where
  "is_VLong q v = (case v of VLong _ \<Rightarrow> True | _ \<Rightarrow> False)"
definition is_VULong :: "qtenv \<Rightarrow> variant \<Rightarrow> bool" where
  "is_VULong q v = (case v of VULong _ \<Rightarrow> True | _ \<Rightarrow> False)"
definition is_VBool :: "qtenv \<Rightarrow> variant \<Rightarrow> bool" where
  "is_VBool q v = (case v of VBool _ \<Rightarrow> True | _ \<Rightarrow> False)"
definition is_bytes_of :: "nat \<Rightarrow> qtenv \<Rightarrow> variant \<Rightarrow> bool" where
  "is_bytes_of n q v = (case v of VBytes b \<Rightarrow> length b = n | _ \<Rightarrow> False)"

definition is_VDouble :: "qtenv \<Rightarrow> variant \<Rightarrow> bool" where
  "is_VDouble q v = (case v of VDouble _ \<Rightarrow> True | _ \<Rightarrow> False)"

lemmas is_defs = is_VInt_def is_VUInt_def is_VLong_def is_VULong_def is_VBool_def is_bytes_of_def is_VDouble_def

definition enc_int32 :: "qtenv \<Rightarrow> variant \<Rightarrow> bytes" where
  "enc_int32 q v = le_encode 4 (qv_toInt v)"
definition enc_int64 :: "qtenv \<Rightarrow> variant \<Rightarrow> bytes" where
  "enc_int64 q v = le_encode 8 (qv_toLongLong v)"
definition enc_double :: "qtenv \<Rightarrow> variant \<Rightarrow> bytes" where
  "enc_double q v = le_encode 8 (qv_toDouble q v)"
definition enc_bool :: "qtenv \<Rightarrow> variant \<Rightarrow> bytes" where
  "enc_bool q v = le_encode 4 (if qv_toBool v then BOOL_TRUE else BOOL_FALSE)"
definition enc_fixed :: "qtenv \<Rightarrow> variant \<Rightarrow> bytes" where
  "enc_fixed q v = qv_toBytes q v"

lemma bool_ids_differ: "BOOL_FALSE \<noteq> BOOL_TRUE"
  by (simp add: BOOL_FALSE_def BOOL_TRUE_def)

lemma read_word_shorter: "length (avail (snd (read_word n s))) \<le> length (avail s)"
  by (simp add: read_word_def Let_def) (simp add: avail_def diff_le_mono2)

lemma readRawBytes_shorter: "length (avail (snd (readRawBytes n s))) \<le> length (avail s)"
  by (simp add: readRawBytes_def Let_def)

lemma skip_pad_shorter: "length (avail (skip_pad n s)) \<le> length (avail s)"
  by (simp add: skip_pad_def skipRawBytes_def)

lemma int_readers_shorter:
  "length (avail (snd (readUInt8 i s))) \<le> length (avail s)"
  "length (avail (snd (readInt32 i s))) \<le> length (avail s)" "length (avail (snd (readUInt32 i s))) \<le> length (avail s)"
  "length (avail (snd (readInt64 i s))) \<le> length (avail s)" "length (avail (snd (readUInt64 i s))) \<le> length (avail s)"
  "length (avail (snd (readDouble i s))) \<le> length (avail s)" "length (avail (snd (readBool i s))) \<le> length (avail s)"
  "length (avail (snd (readInt128 i s))) \<le> length (avail s)" "length (avail (snd (readInt256 i s))) \<le> length (avail s)"
  by (simp_all add: readUInt8_def readInt32_def readUInt32_def readInt64_def readUInt64_def readDouble_def readBool_def
      readInt128_def readInt256_def split_beta read_word_shorter readRawBytes_shorter)

lemma readByteArray_shorter: "length (avail (snd (readByteArray i s))) \<le> length (avail s)"
proof -
  obtain v1 s1 where 1: "readUInt8 VNull s = (v1, s1)" by fastforce
  obtain v2 s2 where 2: "readUInt8 v1 s1 = (v2, s2)" by fastforce
  obtain v3 s3 where 3: "readUInt8 v2 s2 = (v3, s3)" by fastforce
  obtain v4 s4 where 4: "readUInt8 v3 s3 = (v4, s4)" by fastforce
  have "length (avail s1) \<le> length (avail s)" "length (avail s2) \<le> length (avail s1)" "length (avail s3) \<le> length (avail s2)"
    "length (avail s4) \<le> length (avail s3)"
    using int_readers_shorter(1) [of VNull s] int_readers_shorter(1) [of v1 s1] int_readers_shorter(1) [of v2 s2]
      int_readers_shorter(1) [of v3 s3]
    by (simp_all add: 1 2 3 4)
  then have le: "length (avail s4) \<le> length (avail s)" "length (avail s1) \<le> length (avail s)" by simp_all
  have raw: "length (avail (skip_pad a (snd (readRawBytes b t)))) \<le> length (avail t)" for a b t
    using skip_pad_shorter [of a "snd (readRawBytes b t)"] readRawBytes_shorter [of b t] by simp
  show ?thesis
    using le(1) raw [THEN order_trans, OF le(1)] raw [THEN order_trans, OF le(2)]
    by (simp add: readByteArray_def 1 2 3 4 Let_def split_beta)
qed

interpretation int32: tl_codec readInt32 writeInt32 enc_int32 is_VInt
  by unfold_locales
    ((auto simp: is_defs readInt32_def writeInt32_def enc_int32_def codec_simps split: variant.splits)[2], rule int_readers_shorter)

interpretation uint32: tl_codec readUInt32 writeUInt32 enc_int32 is_VUInt
  by unfold_locales
    ((auto simp: is_defs readUInt32_def writeUInt32_def enc_int32_def codec_simps split: variant.splits)[2], rule int_readers_shorter)

interpretation int64: tl_codec readInt64 writeInt64 enc_int64 is_VLong
  by unfold_locales
    ((auto simp: is_defs readInt64_def writeInt64_def enc_int64_def codec_simps split: variant.splits)[2], rule int_readers_shorter)

interpretation uint64: tl_codec readUInt64 writeUInt64 enc_int64 is_VULong
  by unfold_locales
    ((auto simp: is_defs readUInt64_def writeUInt64_def enc_int64_def qv_toLongLong_def codec_simps
       split: variant.splits)[2], rule int_readers_shorter)

interpretation tdouble: tl_codec readDouble writeDouble enc_double is_VDouble
  by unfold_locales
    ((auto simp: is_defs readDouble_def writeDouble_def enc_double_def qv_toDouble_def codec_simps
       split: variant.splits)[2], rule int_readers_shorter)

interpretation tbool: tl_codec readBool writeBool enc_bool is_VBool
  by unfold_locales
    ((auto simp: is_defs readBool_def writeBool_def enc_bool_def bool_ids_differ codec_simps
       split: variant.splits if_splits)[2], rule int_readers_shorter)

interpretation int128: tl_codec readInt128 writeInt128 enc_fixed "is_bytes_of 16"
  by unfold_locales
    ((auto simp: is_defs readInt128_def writeInt128_def enc_fixed_def codec_simps
       split: variant.splits)[2], rule int_readers_shorter)

interpretation int256: tl_codec readInt256 writeInt256 enc_fixed "is_bytes_of 32"
  by unfold_locales
    ((auto simp: is_defs readInt256_def writeInt256_def enc_fixed_def codec_simps
       split: variant.splits)[2], rule int_readers_shorter)

subsection \<open>Byte strings and text\<close>

text \<open>
  \<open>frame b\<close> is the wire form of a byte string. The prefix has room for 24 bits of length,
  so the contract holds below 16 MiB; a longer array is written with its length truncated.
\<close>

definition len_prefix :: "nat \<Rightarrow> bytes" where
  "len_prefix n =
     (if n \<ge> 254 then [254, of_nat n, of_nat (n div 256), of_nat (n div 65536)] else [of_nat n])"

definition pad_len :: "nat \<Rightarrow> nat" where
  "pad_len n = (4 - (n + length (len_prefix n)) mod 4) mod 4"

definition frame :: "bytes \<Rightarrow> bytes" where
  "frame b = len_prefix (length b) @ b @ replicate (pad_len (length b)) 0"

lemma pad_aligned: "4 dvd m + (4 - m mod 4) mod (4::nat)"
proof (cases "m mod 4 = 0")
  case True
  then show ?thesis by (simp add: dvd_eq_mod_eq_0)
next
  case False
  then have "(4 - m mod 4) mod 4 = 4 - m mod 4" by simp
  moreover have "m + (4 - m mod 4) = 4 * (m div 4) + 4"
    using mult_div_mod_eq [of 4 m] mod_less_divisor [of 4 m] by linarith
  ultimately show ?thesis by simp
qed

lemma frame_aligned: "4 dvd length (frame b)"
  using pad_aligned [of "length b + length (len_prefix (length b))"]
  by (simp add: frame_def pad_len_def ac_simps)

definition enc_bytes :: "qtenv \<Rightarrow> variant \<Rightarrow> bytes" where
  "enc_bytes q v = frame (qv_toBytes q v)"

definition enc_string :: "qtenv \<Rightarrow> variant \<Rightarrow> bytes" where
  "enc_string q v = frame (to_utf8 q (qv_toString v))"

definition is_short_bytes :: "qtenv \<Rightarrow> variant \<Rightarrow> bool" where
  "is_short_bytes q v = (case v of VBytes b \<Rightarrow> length b < 2 ^ 24 | _ \<Rightarrow> False)"

definition is_short_text :: "qtenv \<Rightarrow> variant \<Rightarrow> bool" where
  "is_short_text q v =
     (case v of VStr t \<Rightarrow> from_utf8 q (to_utf8 q t) = t \<and> length (to_utf8 q t) < 2 ^ 24 | _ \<Rightarrow> False)"

lemma writeByteArray_frame:
  assumes "length (qv_toBytes q v) < 2 ^ 24"
  shows "writeByteArray (packet q a) v = packet q (a @ frame (qv_toBytes q v))"
proof -
  let ?b = "qv_toBytes q v"
  have "length ?b < 2 ^ 32" using assms by simp
  then have [simp]: "drop_bit 8 (of_nat (length ?b) :: i32) = of_nat (length ?b div 256)"
    "drop_bit 16 (of_nat (length ?b) :: i32) = of_nat (length ?b div 65536)"
    by (simp_all add: drop_bit_of_nat32)
  have pad: "write_pad (m mod 4) (packet q c) = packet q (c @ replicate ((4 - m mod 4) mod 4) 0)" for m c
    by (simp add: write_pad_def)
  show ?thesis
    by (simp add: writeByteArray_def writeUInt8_def byte_of_masked ucast_of_nat_byte frame_def
        len_prefix_def pad_len_def pad Let_def del: qv_toBytes.simps)
qed

lemma readUInt8_Cons:
  "avail s = x # r \<Longrightarrow> readUInt8 old s = (VUInt (ucast x), advance (Suc 0) s)"
  by (simp add: readUInt8_def read_word_def)

lemma skip_pad_advance:
  assumes d: "d = (4 - k mod 4) mod 4" and av: "d \<le> length (avail s)"
  shows "skip_pad (int k mod 4) s = advance d s"
proof (cases "k mod 4 = 0")
  case True
  then have "int k mod 4 = 0" by presburger
  then show ?thesis using d True by (simp add: skip_pad_def)
next
  case False
  have z: "int k mod 4 = int (k mod 4)" by (simp add: zmod_int)
  have d': "d = 4 - k mod 4" using False d by simp
  have "(word_of_int (4 - int k mod 4) :: i32) = of_nat d"
    unfolding z d' by (simp add: of_nat_diff)
  moreover have "sint (of_nat d :: i32) = int d" using d' by (intro sint_of_nat32) simp
  ultimately show ?thesis
    using False av by (simp add: skip_pad_def z skipRawBytes_exact)
qed

lemma readByteArray_frame:
  assumes av: "avail s = frame b @ r" and len: "length b < 2 ^ 24"
  shows "readByteArray old s = (VBytes b, advance (length (frame b)) s)"
proof -
  let ?n = "length b"
  let ?pad = "pad_len ?n"
  have sn: "sint (of_nat ?n :: i32) = int ?n" using len by (simp add: sint_of_nat32)
  have skip: "skip_pad (int (?n + length (len_prefix ?n)) mod 4) t = advance ?pad t"
    if "?pad \<le> length (avail t)" for t
    using that by (intro skip_pad_advance) (simp_all add: pad_len_def)
  show ?thesis
  proof (cases "?n \<ge> 254")
    case True
    then have P: "len_prefix ?n = [254, of_nat ?n, of_nat (?n div 256), of_nat (?n div 65536)]"
      by (simp add: len_prefix_def)
    have av4: "avail s = 254 # of_nat ?n # of_nat (?n div 256) # of_nat (?n div 65536) # b @ replicate ?pad 0 @ r"
      using av by (simp add: frame_def P)
    have u: "readUInt8 VNull s = (VUInt 254, advance (Suc 0) s)"
      using readUInt8_Cons [OF av4] by simp
    have v1: "readUInt8 old (advance (Suc 0) s) = (VUInt (ucast (of_nat ?n :: byte)), advance 2 s)" for old
      by (subst readUInt8_Cons) (simp_all add: av4)
    have v2: "readUInt8 old (advance 2 s) = (VUInt (ucast (of_nat (?n div 256) :: byte)), advance 3 s)" for old
      by (subst readUInt8_Cons) (simp_all add: av4)
    have v3: "readUInt8 old (advance 3 s) = (VUInt (ucast (of_nat (?n div 65536) :: byte)), advance 4 s)" for old
      by (subst readUInt8_Cons) (simp_all add: av4)
    have w: "readRawBytes (of_nat ?n) (advance 4 s) = (b, advance (4 + ?n) s)"
      using sn by (subst readRawBytes_exact [where r = "replicate ?pad 0 @ r"]) (simp_all add: av4)
    have k: "skip_pad (int ?n mod 4) (advance (4 + ?n) s) = advance (4 + ?n + ?pad) s"
      using skip [of "advance (4 + ?n) s"] by (simp add: P av4)
    show ?thesis
      unfolding readByteArray_def
      by (simp add: u v1 v2 v3 three_bytes [OF len] w sn k) (simp add: frame_def P)
  next
    case False
    then have P: "len_prefix ?n = [of_nat ?n]" by (simp add: len_prefix_def)
    have av1: "avail s = of_nat ?n # b @ replicate ?pad 0 @ r"
      using av by (simp add: frame_def P)
    have u: "readUInt8 VNull s = (VUInt (of_nat ?n), advance (Suc 0) s)"
      using readUInt8_Cons [OF av1] False by (simp add: ucast_byte_nat)
    have w: "readRawBytes (of_nat ?n) (advance (Suc 0) s) = (b, advance (1 + ?n) s)"
      using sn by (subst readRawBytes_exact [where r = "replicate ?pad 0 @ r"]) (simp_all add: av1)
    have k: "skip_pad ((int ?n + 1) mod 4) (advance (Suc ?n) s) = advance (Suc (?n + ?pad)) s"
      using skip [of "advance (Suc ?n) s"] by (simp add: P av1 add.commute)
    show ?thesis
      unfolding readByteArray_def
      using False by (simp add: u w sn k) (simp add: frame_def P)
  qed
qed

interpretation tbytes: tl_codec readByteArray writeByteArray enc_bytes is_short_bytes
  by unfold_locales
    ((auto simp: is_short_bytes_def enc_bytes_def writeByteArray_frame readByteArray_frame
       split: variant.splits)[2], rule readByteArray_shorter)

interpretation tstring: tl_codec readString writeString enc_string is_short_text
  by unfold_locales
    ((auto simp: is_short_text_def enc_string_def writeString_def readString_def
       writeByteArray_frame readByteArray_frame split: variant.splits)[2], simp add: readString_def split_beta readByteArray_shorter)

end
