(* ===== verification/TlObject.thy ===== *)
theory TlObject
  imports TlCodec
begin

section \<open>Vectors and generated object readers\<close>

text \<open>
  The generated schema (libkg/mtschema.cpp, libkg/tlschema.cpp) has one reader and one
  writer per TL type, all of one shape: read or look up the constructor id, switch on it,
  and run the fields of the matching case in order; there is no \<open>default\<close> case. This
  theory has that shape as combinators (\<open>read_object\<close>, \<open>write_object\<close>, \<open>read_method\<close>)
  and the theorem that a reader and a writer built from the same table form a codec.
\<close>

subsection \<open>The shape of the generated code\<close>

text \<open>One statement \<open>readT(stream, obj["n"], callback)\<close>: the entry is created, then read.\<close>

definition rd :: "string \<Rightarrow> tl_reader \<Rightarrow> tgobject \<times> tgstream \<Rightarrow> tgobject \<times> tgstream" where
  "rd n r = (\<lambda>(obj, s). let (v, s') = r (obj_get obj n) s in (obj_put n v obj, s'))"

text \<open>One statement \<open>writeT(stream, obj["n"], callback)\<close>.\<close>

definition wr :: "string \<Rightarrow> tl_writer \<Rightarrow> tgobject \<Rightarrow> tgstream \<Rightarrow> tgstream" where
  "wr n w obj s = w s (obj_get obj n)"

type_synonym rd_case = "i32 \<times> (tgobject \<times> tgstream \<Rightarrow> tgobject \<times> tgstream) list"
type_synonym wr_case = "i32 \<times> (tgobject \<Rightarrow> tgstream \<Rightarrow> tgstream) list"

definition read_object :: "rd_case list \<Rightarrow> tl_reader" where
  "read_object cases i s =
     (let (conId, s1) = readInt32 VNull s
      in case map_of cases (qv_toInt conId) of
           None \<Rightarrow> (VMap [], s1)
         | Some flds \<Rightarrow>
             let (obj, s2) = fold (\<lambda>f. f) flds ([(''_'', VInt (qv_toInt conId))], s1)
             in (VMap obj, s2))"

definition write_object :: "wr_case list \<Rightarrow> tl_writer" where
  "write_object cases s i =
     (let obj = qv_toMap i
      in case map_of cases (objID obj) of
           None \<Rightarrow> s
         | Some flds \<Rightarrow> fold (\<lambda>f. f obj) flds s)"

text \<open>A method's reader decodes the method id and then the reply the method returns.\<close>

definition read_method :: "i32 \<Rightarrow> tl_reader \<Rightarrow> tl_reader" where
  "read_method cid r i s =
     (let (conId, s1) = readInt32 VNull s
      in if qv_toInt conId = cid then r i s1 else (i, s1))"

lemma read_object_unknown:
  assumes "avail s = le_encode 4 cid @ r" and "map_of cases cid = None"
  shows "read_object cases old s = (VMap [], advance 4 s)"
  using assms by (simp add: read_object_def readInt32_def read_word_encoded [OF assms(1)])

subsection \<open>Vectors\<close>

definition enc_vector :: "(qtenv \<Rightarrow> variant \<Rightarrow> bytes) \<Rightarrow> qtenv \<Rightarrow> variant \<Rightarrow> bytes" where
  "enc_vector enc q v =
     le_encode 4 VECTOR_ID @ le_encode 4 (of_nat (length (qv_toList v)) :: i32)
     @ concat (map (enc q) (qv_toList v))"

definition ok_vector :: "(qtenv \<Rightarrow> variant \<Rightarrow> bool) \<Rightarrow> qtenv \<Rightarrow> variant \<Rightarrow> bool" where
  "ok_vector ok q v =
     (case v of VList l \<Rightarrow> length l < 2 ^ 31 \<and> list_all (ok q) l | _ \<Rightarrow> False)"

context tl_codec
begin

lemma read_elems_shrinks: "length (avail (snd (read_elems R n old s))) \<le> length (avail s)"
proof (induction n arbitrary: old s)
  case (Suc n)
  show ?case using Suc.IH [of "fst (R old s)" "snd (R old s)"] shrinks [of old s] by (simp add: split_beta)
qed simp

lemma vector_codec:
  "tl_codec (readVector (Some R)) (writeVector (Some W)) (enc_vector enc) (ok_vector ok)"
proof
  fix q v b assume "ok_vector ok q v"
  then show "writeVector (Some W) (packet q b) v = packet q (b @ enc_vector enc q v)"
    by (auto simp: ok_vector_def enc_vector_def writeVector_def writeInt32_def foldl_writes
        split: variant.splits)
next
  fix s v r old assume "ok_vector ok (sqt s) v" and av: "avail s = enc_vector enc (sqt s) v @ r"
  then obtain l where v: "v = VList l" and len: "length l < 2 ^ 31" and l: "list_all (ok (sqt s)) l"
    by (auto simp: ok_vector_def split: variant.splits)
  let ?body = "concat (map (enc (sqt s)) l)"
  have w1: "read_word 4 s = (VECTOR_ID, advance 4 s)"
    using av by (subst read_word_encoded) (simp_all add: enc_vector_def v)
  have w2: "read_word 4 (advance 4 s) = (of_nat (length l) :: i32, advance 8 s)"
    using av by (subst read_word_encoded [where r = "?body @ r"]) (simp_all add: enc_vector_def v)
  have "read_elems R (length l) (VInt (of_nat (length l))) (advance 8 s)
      = (l, advance (length ?body) (advance 8 s))"
    using read_elems_encoded [of "advance 8 s" l r] l av by (simp add: enc_vector_def v)
  then show "readVector (Some R) old s = (v, advance (length (enc_vector enc (sqt s) v)) s)"
    using len by (simp add: readVector_def readInt32_def w1 w2 v enc_vector_def sint_of_nat32)
next
  fix old s
  obtain v1 s1 where 1: "readInt32 VNull s = (v1, s1)" by fastforce
  obtain v2 s2 where 2: "readInt32 v1 s1 = (v2, s2)" by fastforce
  have "length (avail s1) \<le> length (avail s)" "length (avail s2) \<le> length (avail s1)"
    using int_readers_shorter(2) [of VNull s] int_readers_shorter(2) [of v1 s1] by (simp_all add: 1 2)
  then show "length (avail (snd (readVector (Some R) old s))) \<le> length (avail s)"
    using read_elems_shrinks [of "nat (sint (qv_toInt v2))" v2 s2] by (simp add: readVector_def 1 2 split_beta)
qed

end

interpretation vec_int64: tl_codec "readVector (Some readInt64)" "writeVector (Some writeInt64)"
  "enc_vector enc_int64" "ok_vector is_VLong"
  by (rule int64.vector_codec)

subsection \<open>Objects\<close>

text \<open>
  A codec table lists, per constructor, its field names with the reader, writer, encoding
  and admissible values of each. \<open>rd_cases\<close> and \<open>wr_cases\<close> are the switch statements the
  generator emits for it.
\<close>

type_synonym field_codec =
  "string \<times> tl_reader \<times> tl_writer \<times> (qtenv \<Rightarrow> variant \<Rightarrow> bytes) \<times> (qtenv \<Rightarrow> variant \<Rightarrow> bool)"
type_synonym codec_table = "(i32 \<times> field_codec list) list"

fun rd_step :: "field_codec \<Rightarrow> tgobject \<times> tgstream \<Rightarrow> tgobject \<times> tgstream" where
  "rd_step (n, r, w, e, k) = rd n r"

fun wr_step :: "field_codec \<Rightarrow> tgobject \<Rightarrow> tgstream \<Rightarrow> tgstream" where
  "wr_step (n, r, w, e, k) = wr n w"

fun enc_step :: "qtenv \<Rightarrow> field_codec \<Rightarrow> variant \<Rightarrow> bytes" where
  "enc_step q (n, r, w, e, k) = e q"

fun ok_step :: "qtenv \<Rightarrow> field_codec \<Rightarrow> variant \<Rightarrow> bool" where
  "ok_step q (n, r, w, e, k) = k q"

fun codec_step :: "field_codec \<Rightarrow> bool" where
  "codec_step (n, r, w, e, k) = tl_codec r w e k"

definition rd_cases :: "codec_table \<Rightarrow> rd_case list" where
  "rd_cases t = map (\<lambda>(cid, fs). (cid, map rd_step fs)) t"

definition wr_cases :: "codec_table \<Rightarrow> wr_case list" where
  "wr_cases t = map (\<lambda>(cid, fs). (cid, wr ''_'' writeInt32 # map wr_step fs)) t"

definition codec_fields :: "field_codec list \<Rightarrow> bool" where
  "codec_fields fs =
     (distinct (''_'' # map fst fs) \<and> list_all codec_step fs)"

definition codec_table :: "codec_table \<Rightarrow> bool" where
  "codec_table t = (\<forall>(cid, fs) \<in> set t. codec_fields fs)"

definition enc_values :: "field_codec list \<Rightarrow> qtenv \<Rightarrow> variant list \<Rightarrow> bytes" where
  "enc_values fs q xs = concat (map2 (enc_step q) fs xs)"

definition ok_values :: "field_codec list \<Rightarrow> qtenv \<Rightarrow> variant list \<Rightarrow> bool" where
  "ok_values fs q xs = list_all2 (ok_step q) fs xs"

definition field_values :: "field_codec list \<Rightarrow> tgobject \<Rightarrow> variant list" where
  "field_values fs obj = map (\<lambda>f. obj_get obj (fst f)) fs"

definition enc_object :: "codec_table \<Rightarrow> qtenv \<Rightarrow> variant \<Rightarrow> bytes" where
  "enc_object t q v =
     (let obj = qv_toMap v
      in case map_of t (objID obj) of
           None \<Rightarrow> []
         | Some fs \<Rightarrow> le_encode 4 (objID obj) @ enc_values fs q (field_values fs obj))"

text \<open>An object a writer accepts: a known constructor id, then exactly its fields in order.\<close>

definition ok_object :: "codec_table \<Rightarrow> qtenv \<Rightarrow> variant \<Rightarrow> bool" where
  "ok_object t q v =
     (case v of
        VMap ((k, VInt cid) # obj) \<Rightarrow>
          k = ''_'' \<and>
          (case map_of t cid of
             None \<Rightarrow> False
           | Some fs \<Rightarrow> map fst obj = map fst fs \<and> ok_values fs q (map snd obj))
      | _ \<Rightarrow> False)"

lemma obj_get_keys: "distinct (map fst obj) \<Longrightarrow> map (obj_get obj) (map fst obj) = map snd obj"
proof (induction obj)
  case Nil
  then show ?case by simp
next
  case (Cons x obj)
  then have "map (obj_get (x # obj)) (map fst obj) = map (obj_get obj) (map fst obj)"
    by (cases x) (auto simp: image_iff)
  with Cons show ?case by (cases x) simp
qed

lemma field_values_object:
  assumes "map fst obj = map fst fs" and "distinct (''_'' # map fst fs)"
  shows "field_values fs ((''_'', v) # obj) = map snd obj"
proof -
  have "field_values fs ((''_'', v) # obj) = map (obj_get ((''_'', v) # obj)) (map fst obj)"
    using assms(1) by (simp add: field_values_def)
  also have "\<dots> = map (obj_get obj) (map fst obj)"
    using assms by (auto simp: image_iff dest: arg_cong [where f = set])
  also have "\<dots> = map snd obj"
    by (rule obj_get_keys) (use assms in simp)
  finally show ?thesis .
qed

lemma ok_objectE:
  assumes "ok_object t q v"
  obtains cid obj fs where "v = VMap ((''_'', VInt cid) # obj)" and "map_of t cid = Some fs"
    and "map fst obj = map fst fs" and "ok_values fs q (map snd obj)"
proof -
  from assms obtain k b obj where v: "v = VMap ((k, b) # obj)"
    by (auto simp: ok_object_def split: variant.splits list.splits)
  with assms obtain cid where "b = VInt cid"
    by (cases b) (auto simp: ok_object_def)
  with assms v that show ?thesis
    by (auto simp: ok_object_def split: option.splits)
qed

lemma write_fields:
  assumes "list_all codec_step fs"
    and "ok_values fs q (field_values fs obj)"
  shows "fold (\<lambda>f. f obj) (map wr_step fs) (packet q b)
       = packet q (b @ enc_values fs q (field_values fs obj))"
  using assms
proof (induction fs arbitrary: b)
  case Nil
  then show ?case by (simp add: enc_values_def)
next
  case (Cons f fs)
  obtain n r w e k where f: "f = (n, r, w, e, k)" by (cases f)
  have "w (packet q b) (obj_get obj n) = packet q (b @ e q (obj_get obj n))"
    using Cons.prems f by (auto simp: ok_values_def field_values_def intro: tl_codec.writes)
  then show ?case
    using Cons by (simp add: f wr_def enc_values_def ok_values_def field_values_def)
qed

lemma read_fields:
  assumes "list_all codec_step fs"
    and "distinct (map fst (pre :: tgobject) @ map fst fs)"
    and "ok_values fs (sqt s) xs"
    and "avail s = enc_values fs (sqt s) xs @ rest"
  shows "fold (\<lambda>f. f) (map rd_step fs) (pre, s)
       = (pre @ zip (map fst fs) xs, advance (length (enc_values fs (sqt s) xs)) s)"
  using assms
proof (induction fs arbitrary: xs pre s)
  case Nil
  then show ?case by (simp add: enc_values_def)
next
  case (Cons f fs)
  obtain n r w e k where f: "f = (n, r, w, e, k)" by (cases f)
  from Cons.prems(3) obtain x xs' where xs: "xs = x # xs'" and x: "k (sqt s) x"
    and xs': "ok_values fs (sqt s) xs'"
    by (auto simp: f ok_values_def list_all2_Cons1)
  let ?s = "advance (length (e (sqt s) x)) s"
  have av: "avail s = e (sqt s) x @ enc_values fs (sqt s) xs' @ rest"
    using Cons.prems(4) by (simp add: f xs enc_values_def)
  have C: "tl_codec r w e k" using Cons.prems(1) by (simp add: f)
  have "rd n r (pre, s) = (obj_put n x pre, ?s)"
    using tl_codec.reads [OF C, where v = x, OF x av] by (simp add: rd_def)
  moreover have "obj_put n x pre = pre @ [(n, x)]"
    using Cons.prems(2) by (intro obj_put_fresh) (simp add: f)
  moreover have "fold (\<lambda>f. f) (map rd_step fs) (pre @ [(n, x)], ?s)
      = ((pre @ [(n, x)]) @ zip (map fst fs) xs', advance (length (enc_values fs (sqt ?s) xs')) ?s)"
    using Cons.prems xs' av by (intro Cons.IH) (auto simp: f)
  ultimately show ?case by (simp add: f xs enc_values_def)
qed

lemma read_object_shrinks:
  assumes "\<And>c fs f x. map_of cases c = Some fs \<Longrightarrow> f \<in> set fs \<Longrightarrow> length (avail (snd (f x))) \<le> length (avail (snd x))"
  shows "length (avail (snd (read_object cases old s))) \<le> length (avail s)"
proof -
  obtain v s1 where 1: "readInt32 VNull s = (v, s1)" by fastforce
  have s1: "length (avail s1) \<le> length (avail s)" using int_readers_shorter(2) [of VNull s] by (simp add: 1)
  have steps: "length (avail (snd (fold (\<lambda>f. f) fs x))) \<le> length (avail (snd x))"
    if "\<And>f x. f \<in> set fs \<Longrightarrow> length (avail (snd (f x))) \<le> length (avail (snd x))"
    for fs :: "(tgobject \<times> tgstream \<Rightarrow> tgobject \<times> tgstream) list" and x
    using that
  proof (induction fs arbitrary: x)
    case (Cons f fs)
    have "length (avail (snd (fold (\<lambda>f. f) fs (f x)))) \<le> length (avail (snd (f x)))" by (rule Cons) (simp add: Cons.prems)
    moreover have "length (avail (snd (f x))) \<le> length (avail (snd x))" by (simp add: Cons.prems)
    ultimately show ?case by simp
  qed simp
  show ?thesis
  proof (cases "map_of cases (qv_toInt v)")
    case None
    then show ?thesis using s1 by (simp add: read_object_def 1)
  next
    case (Some fs)
    have "length (avail (snd (fold (\<lambda>f. f) fs ([(''_'', VInt (qv_toInt v))], s1)))) \<le> length (avail s1)"
      using steps [of fs "([(''_'', VInt (qv_toInt v))], s1)"] assms [OF Some] by simp
    then show ?thesis using s1 by (simp add: read_object_def 1 Some split_beta)
  qed
qed

lemma rd_shrinks: "codec_step (n, r, w, e, k) \<Longrightarrow> length (avail (snd (rd n r x))) \<le> length (avail (snd x))"
  using tl_codec.shrinks [of r w e k "obj_get (fst x) n" "snd x"] by (simp add: rd_def split_beta)

lemma rd_step_shrinks: "codec_step f \<Longrightarrow> length (avail (snd (rd_step f x))) \<le> length (avail (snd x))"
  by (cases f) (use rd_shrinks in auto)

theorem object_codec:
  assumes t: "codec_table t"
  shows "tl_codec (read_object (rd_cases t)) (write_object (wr_cases t)) (enc_object t) (ok_object t)"
proof
  have lookup: "map_of (rd_cases t) c = map_option (map rd_step) (map_of t c)"
    "map_of (wr_cases t) c = map_option (\<lambda>fs. wr ''_'' writeInt32 # map wr_step fs) (map_of t c)" for c
    by (simp_all add: rd_cases_def wr_cases_def map_of_map)
  have fields: "distinct (''_'' # map fst fs)"
    "list_all codec_step fs" if "map_of t c = Some fs" for c fs
    using t map_of_SomeD [OF that] by (auto simp: codec_table_def codec_fields_def)
  fix q v b assume "ok_object t q v"
  then obtain cid obj fs where v: "v = VMap ((''_'', VInt cid) # obj)" and fs: "map_of t cid = Some fs"
    and keys: "map fst obj = map fst fs" and ok: "ok_values fs q (map snd obj)"
    by (rule ok_objectE)
  have fv: "field_values fs ((''_'', VInt cid) # obj) = map snd obj"
    using keys fields(1) [OF fs] by (rule field_values_object)
  show "write_object (wr_cases t) (packet q b) v = packet q (b @ enc_object t q v)"
    using write_fields [OF fields(2) [OF fs], of q "(''_'', VInt cid) # obj"] ok
    by (simp add: v write_object_def lookup objID_def fs fv enc_object_def wr_def writeInt32_def)
next
  have lookup: "map_of (rd_cases t) c = map_option (map rd_step) (map_of t c)" for c
    by (simp add: rd_cases_def map_of_map)
  have fields: "distinct (''_'' # map fst fs)"
    "list_all codec_step fs" if "map_of t c = Some fs" for c fs
    using t map_of_SomeD [OF that] by (auto simp: codec_table_def codec_fields_def)
  fix s v r old assume okv: "ok_object t (sqt s) v" and av: "avail s = enc_object t (sqt s) v @ r"
  from okv obtain cid obj fs where v: "v = VMap ((''_'', VInt cid) # obj)" and fs: "map_of t cid = Some fs"
    and keys: "map fst obj = map fst fs" and ok: "ok_values fs (sqt s) (map snd obj)"
    by (rule ok_objectE)
  have fv: "field_values fs ((''_'', VInt cid) # obj) = map snd obj"
    using keys fields(1) [OF fs] by (rule field_values_object)
  let ?e = "enc_values fs (sqt s) (map snd obj)"
  have enc: "enc_object t (sqt s) v = le_encode 4 cid @ ?e"
    by (simp add: v enc_object_def objID_def fs fv)
  have "read_word 4 s = (cid, advance 4 s)"
    using av by (subst read_word_encoded) (simp_all add: enc)
  moreover have "fold (\<lambda>f. f) (map rd_step fs) ([(''_'', VInt cid)], advance 4 s)
      = ([(''_'', VInt cid)] @ zip (map fst fs) (map snd obj),
         advance (length (enc_values fs (sqt (advance 4 s)) (map snd obj))) (advance 4 s))"
    using fields [OF fs] ok av enc by (intro read_fields [where rest = r]) auto
  moreover have "zip (map fst fs) (map snd obj) = obj"
    unfolding keys [symmetric] by (rule zip_map_fst_snd)
  ultimately show "read_object (rd_cases t) old s = (v, advance (length (enc_object t (sqt s) v)) s)"
    by (simp add: read_object_def readInt32_def lookup fs v [symmetric] enc)
next
  fix old s
  show "length (avail (snd (read_object (rd_cases t) old s))) \<le> length (avail s)"
  proof (rule read_object_shrinks)
    fix c fs f and x :: "tgobject \<times> tgstream" assume c: "map_of (rd_cases t) c = Some fs" "f \<in> set fs"
    then obtain gs where gs: "map_of t c = Some gs" "fs = map rd_step gs" by (auto simp: rd_cases_def map_of_map)
    then have "list_all codec_step gs" using t map_of_SomeD by (fastforce simp: codec_table_def codec_fields_def)
    moreover obtain g where "g \<in> set gs" "f = rd_step g" using c(2) gs(2) by auto
    ultimately show "length (avail (snd (f x))) \<le> length (avail (snd x))"
      using rd_step_shrinks [of g x] by (simp add: list_all_iff)
  qed
qed

text \<open>How a schema type obtains the contract: its functions are those of its table.\<close>

lemma schema_codec:
  assumes "R = read_object (rd_cases t)" and "W = write_object (wr_cases t)" and "codec_table t"
  shows "tl_codec R W (enc_object t) (ok_object t)"
  using object_codec [OF assms(3)] assms(1,2) by simp

lemmas leaf_codecs = int32.tl_codec_axioms uint32.tl_codec_axioms int64.tl_codec_axioms
  uint64.tl_codec_axioms tbool.tl_codec_axioms tdouble.tl_codec_axioms int128.tl_codec_axioms int256.tl_codec_axioms
  tbytes.tl_codec_axioms tstring.tl_codec_axioms vec_int64.tl_codec_axioms

lemmas schema_simps = rd_cases_def wr_cases_def codec_table_def codec_fields_def leaf_codecs

end
