(* ===== verification/MtSchema.thy ===== *)
theory MtSchema
  imports TlObject
begin

section \<open>The MTProto schema: libkg/mtschema.cpp\<close>

text \<open>
  Every reader and writer of libkg/mtschema.cpp, as the switch statement it is: a list of
  cases, each a constructor id and the field reads or writes of that case in source order.
  The codec tables after them repeat each type once as names, readers, writers, encodings
  and admissible values, and the interpretations discharge the codec contract for all of
  the types. The templates of mtschema.h (rpc_result, message, msg_container and
  msg_copy), which take their payload's functions as parameters, are not used by the
  client and not modelled.
\<close>

subsection \<open>Readers and writers\<close>

definition readMTVector :: tl_reader where
  "readMTVector = read_object
     [(481674261, [])]"

definition writeMTVector :: tl_writer where
  "writeMTVector = write_object
     [(481674261, [wr ''_'' writeInt32])]"

definition readMTResPQ :: tl_reader where
  "readMTResPQ = read_object
     [(85337187, [rd ''nonce'' readInt128, rd ''server_nonce'' readInt128, rd ''pq'' readByteArray,
         rd ''server_public_key_fingerprints'' (readVector (Some readInt64))])]"

definition writeMTResPQ :: tl_writer where
  "writeMTResPQ = write_object
     [(85337187, [wr ''_'' writeInt32, wr ''nonce'' writeInt128, wr ''server_nonce'' writeInt128,
         wr ''pq'' writeByteArray,
         wr ''server_public_key_fingerprints'' (writeVector (Some writeInt64))])]"

definition readMTPQInnerData :: tl_reader where
  "readMTPQInnerData = read_object
     [(- 1443537003, [rd ''pq'' readByteArray, rd ''p'' readByteArray, rd ''q'' readByteArray,
         rd ''nonce'' readInt128, rd ''server_nonce'' readInt128, rd ''new_nonce'' readInt256,
         rd ''dc'' readInt32]),
      (1459478408, [rd ''pq'' readByteArray, rd ''p'' readByteArray, rd ''q'' readByteArray,
         rd ''nonce'' readInt128, rd ''server_nonce'' readInt128, rd ''new_nonce'' readInt256,
         rd ''dc'' readInt32, rd ''expires_in'' readInt32])]"

definition writeMTPQInnerData :: tl_writer where
  "writeMTPQInnerData = write_object
     [(- 1443537003, [wr ''_'' writeInt32, wr ''pq'' writeByteArray, wr ''p'' writeByteArray,
         wr ''q'' writeByteArray, wr ''nonce'' writeInt128, wr ''server_nonce'' writeInt128,
         wr ''new_nonce'' writeInt256, wr ''dc'' writeInt32]),
      (1459478408, [wr ''_'' writeInt32, wr ''pq'' writeByteArray, wr ''p'' writeByteArray,
         wr ''q'' writeByteArray, wr ''nonce'' writeInt128, wr ''server_nonce'' writeInt128,
         wr ''new_nonce'' writeInt256, wr ''dc'' writeInt32, wr ''expires_in'' writeInt32])]"

definition readMTServerDHParams :: tl_reader where
  "readMTServerDHParams = read_object
     [(- 790100132, [rd ''nonce'' readInt128, rd ''server_nonce'' readInt128,
         rd ''encrypted_answer'' readByteArray])]"

definition writeMTServerDHParams :: tl_writer where
  "writeMTServerDHParams = write_object
     [(- 790100132, [wr ''_'' writeInt32, wr ''nonce'' writeInt128,
         wr ''server_nonce'' writeInt128, wr ''encrypted_answer'' writeByteArray])]"

definition readMTServerDHInnerData :: tl_reader where
  "readMTServerDHInnerData = read_object
     [(- 1249309254, [rd ''nonce'' readInt128, rd ''server_nonce'' readInt128, rd ''g'' readInt32,
         rd ''dh_prime'' readByteArray, rd ''g_a'' readByteArray, rd ''server_time'' readInt32])]"

definition writeMTServerDHInnerData :: tl_writer where
  "writeMTServerDHInnerData = write_object
     [(- 1249309254, [wr ''_'' writeInt32, wr ''nonce'' writeInt128,
         wr ''server_nonce'' writeInt128, wr ''g'' writeInt32, wr ''dh_prime'' writeByteArray,
         wr ''g_a'' writeByteArray, wr ''server_time'' writeInt32])]"

definition readMTClientDHInnerData :: tl_reader where
  "readMTClientDHInnerData = read_object
     [(1715713620, [rd ''nonce'' readInt128, rd ''server_nonce'' readInt128,
         rd ''retry_id'' readInt64, rd ''g_b'' readByteArray])]"

definition writeMTClientDHInnerData :: tl_writer where
  "writeMTClientDHInnerData = write_object
     [(1715713620, [wr ''_'' writeInt32, wr ''nonce'' writeInt128, wr ''server_nonce'' writeInt128,
         wr ''retry_id'' writeInt64, wr ''g_b'' writeByteArray])]"

definition readMTSetClientDHParamsAnswer :: tl_reader where
  "readMTSetClientDHParamsAnswer = read_object
     [(1003222836, [rd ''nonce'' readInt128, rd ''server_nonce'' readInt128,
         rd ''new_nonce_hash1'' readInt128]),
      (1188831161, [rd ''nonce'' readInt128, rd ''server_nonce'' readInt128,
         rd ''new_nonce_hash2'' readInt128]),
      (- 1499615742, [rd ''nonce'' readInt128, rd ''server_nonce'' readInt128,
         rd ''new_nonce_hash3'' readInt128])]"

definition writeMTSetClientDHParamsAnswer :: tl_writer where
  "writeMTSetClientDHParamsAnswer = write_object
     [(1003222836, [wr ''_'' writeInt32, wr ''nonce'' writeInt128, wr ''server_nonce'' writeInt128,
         wr ''new_nonce_hash1'' writeInt128]),
      (1188831161, [wr ''_'' writeInt32, wr ''nonce'' writeInt128, wr ''server_nonce'' writeInt128,
         wr ''new_nonce_hash2'' writeInt128]),
      (- 1499615742, [wr ''_'' writeInt32, wr ''nonce'' writeInt128,
         wr ''server_nonce'' writeInt128, wr ''new_nonce_hash3'' writeInt128])]"

definition readMTBindAuthKeyInner :: tl_reader where
  "readMTBindAuthKeyInner = read_object
     [(1973679973, [rd ''nonce'' readInt64, rd ''temp_auth_key_id'' readInt64,
         rd ''perm_auth_key_id'' readInt64, rd ''temp_session_id'' readInt64,
         rd ''expires_at'' readInt32])]"

definition writeMTBindAuthKeyInner :: tl_writer where
  "writeMTBindAuthKeyInner = write_object
     [(1973679973, [wr ''_'' writeInt32, wr ''nonce'' writeInt64,
         wr ''temp_auth_key_id'' writeInt64, wr ''perm_auth_key_id'' writeInt64,
         wr ''temp_session_id'' writeInt64, wr ''expires_at'' writeInt32])]"

definition readMTRpcError :: tl_reader where
  "readMTRpcError = read_object
     [(558156313, [rd ''error_code'' readInt32, rd ''error_message'' readString])]"

definition writeMTRpcError :: tl_writer where
  "writeMTRpcError = write_object
     [(558156313, [wr ''_'' writeInt32, wr ''error_code'' writeInt32,
         wr ''error_message'' writeString])]"

definition readMTRpcDropAnswer :: tl_reader where
  "readMTRpcDropAnswer = read_object
     [(1579864942, []),
      (- 847714938, []),
      (- 1539647305, [rd ''msg_id'' readInt64, rd ''seq_no'' readInt32, rd ''bytes'' readInt32])]"

definition writeMTRpcDropAnswer :: tl_writer where
  "writeMTRpcDropAnswer = write_object
     [(1579864942, [wr ''_'' writeInt32]),
      (- 847714938, [wr ''_'' writeInt32]),
      (- 1539647305, [wr ''_'' writeInt32, wr ''msg_id'' writeInt64, wr ''seq_no'' writeInt32,
         wr ''bytes'' writeInt32])]"

definition readMTFutureSalt :: tl_reader where
  "readMTFutureSalt = read_object
     [(155834844, [rd ''valid_since'' readInt32, rd ''valid_until'' readInt32,
         rd ''salt'' readInt64])]"

definition writeMTFutureSalt :: tl_writer where
  "writeMTFutureSalt = write_object
     [(155834844, [wr ''_'' writeInt32, wr ''valid_since'' writeInt32,
         wr ''valid_until'' writeInt32, wr ''salt'' writeInt64])]"

definition readMTFutureSalts :: tl_reader where
  "readMTFutureSalts = read_object
     [(- 1370486635, [rd ''req_msg_id'' readInt64, rd ''now'' readInt32,
         rd ''salts'' (readVector (Some readMTFutureSalt))])]"

definition writeMTFutureSalts :: tl_writer where
  "writeMTFutureSalts = write_object
     [(- 1370486635, [wr ''_'' writeInt32, wr ''req_msg_id'' writeInt64, wr ''now'' writeInt32,
         wr ''salts'' (writeVector (Some writeMTFutureSalt))])]"

definition readMTPong :: tl_reader where
  "readMTPong = read_object
     [(880243653, [rd ''msg_id'' readInt64, rd ''ping_id'' readInt64])]"

definition writeMTPong :: tl_writer where
  "writeMTPong = write_object
     [(880243653, [wr ''_'' writeInt32, wr ''msg_id'' writeInt64, wr ''ping_id'' writeInt64])]"

definition readMTDestroySessionRes :: tl_reader where
  "readMTDestroySessionRes = read_object
     [(- 501201412, [rd ''session_id'' readInt64]),
      (1658015945, [rd ''session_id'' readInt64])]"

definition writeMTDestroySessionRes :: tl_writer where
  "writeMTDestroySessionRes = write_object
     [(- 501201412, [wr ''_'' writeInt32, wr ''session_id'' writeInt64]),
      (1658015945, [wr ''_'' writeInt32, wr ''session_id'' writeInt64])]"

definition readMTNewSession :: tl_reader where
  "readMTNewSession = read_object
     [(- 1631450872, [rd ''first_msg_id'' readInt64, rd ''unique_id'' readInt64,
         rd ''server_salt'' readInt64])]"

definition writeMTNewSession :: tl_writer where
  "writeMTNewSession = write_object
     [(- 1631450872, [wr ''_'' writeInt32, wr ''first_msg_id'' writeInt64,
         wr ''unique_id'' writeInt64, wr ''server_salt'' writeInt64])]"

definition readMTObject :: tl_reader where
  "readMTObject = read_object
     [(812830625, [rd ''packed_data'' readByteArray])]"

definition writeMTObject :: tl_writer where
  "writeMTObject = write_object
     [(812830625, [wr ''_'' writeInt32, wr ''packed_data'' writeByteArray])]"

definition readMTMsgsAck :: tl_reader where
  "readMTMsgsAck = read_object
     [(1658238041, [rd ''msg_ids'' (readVector (Some readInt64))])]"

definition writeMTMsgsAck :: tl_writer where
  "writeMTMsgsAck = write_object
     [(1658238041, [wr ''_'' writeInt32, wr ''msg_ids'' (writeVector (Some writeInt64))])]"

definition readMTBadMsgNotification :: tl_reader where
  "readMTBadMsgNotification = read_object
     [(- 1477445615, [rd ''bad_msg_id'' readInt64, rd ''bad_msg_seqno'' readInt32,
         rd ''error_code'' readInt32]),
      (- 307542917, [rd ''bad_msg_id'' readInt64, rd ''bad_msg_seqno'' readInt32,
         rd ''error_code'' readInt32, rd ''new_server_salt'' readInt64])]"

definition writeMTBadMsgNotification :: tl_writer where
  "writeMTBadMsgNotification = write_object
     [(- 1477445615, [wr ''_'' writeInt32, wr ''bad_msg_id'' writeInt64,
         wr ''bad_msg_seqno'' writeInt32, wr ''error_code'' writeInt32]),
      (- 307542917, [wr ''_'' writeInt32, wr ''bad_msg_id'' writeInt64,
         wr ''bad_msg_seqno'' writeInt32, wr ''error_code'' writeInt32,
         wr ''new_server_salt'' writeInt64])]"

definition readMTMsgResendReq :: tl_reader where
  "readMTMsgResendReq = read_object
     [(2105940488, [rd ''msg_ids'' (readVector (Some readInt64))])]"

definition writeMTMsgResendReq :: tl_writer where
  "writeMTMsgResendReq = write_object
     [(2105940488, [wr ''_'' writeInt32, wr ''msg_ids'' (writeVector (Some writeInt64))])]"

definition readMTMsgsStateReq :: tl_reader where
  "readMTMsgsStateReq = read_object
     [(- 630588590, [rd ''msg_ids'' (readVector (Some readInt64))])]"

definition writeMTMsgsStateReq :: tl_writer where
  "writeMTMsgsStateReq = write_object
     [(- 630588590, [wr ''_'' writeInt32, wr ''msg_ids'' (writeVector (Some writeInt64))])]"

definition readMTMsgsStateInfo :: tl_reader where
  "readMTMsgsStateInfo = read_object
     [(81704317, [rd ''req_msg_id'' readInt64, rd ''info'' readByteArray])]"

definition writeMTMsgsStateInfo :: tl_writer where
  "writeMTMsgsStateInfo = write_object
     [(81704317, [wr ''_'' writeInt32, wr ''req_msg_id'' writeInt64, wr ''info'' writeByteArray])]"

definition readMTMsgsAllInfo :: tl_reader where
  "readMTMsgsAllInfo = read_object
     [(- 1933520591, [rd ''msg_ids'' (readVector (Some readInt64)), rd ''info'' readByteArray])]"

definition writeMTMsgsAllInfo :: tl_writer where
  "writeMTMsgsAllInfo = write_object
     [(- 1933520591, [wr ''_'' writeInt32, wr ''msg_ids'' (writeVector (Some writeInt64)),
         wr ''info'' writeByteArray])]"

definition readMTMsgDetailedInfo :: tl_reader where
  "readMTMsgDetailedInfo = read_object
     [(661470918, [rd ''msg_id'' readInt64, rd ''answer_msg_id'' readInt64, rd ''bytes'' readInt32,
         rd ''status'' readInt32]),
      (- 2137147681, [rd ''answer_msg_id'' readInt64, rd ''bytes'' readInt32,
         rd ''status'' readInt32])]"

definition writeMTMsgDetailedInfo :: tl_writer where
  "writeMTMsgDetailedInfo = write_object
     [(661470918, [wr ''_'' writeInt32, wr ''msg_id'' writeInt64, wr ''answer_msg_id'' writeInt64,
         wr ''bytes'' writeInt32, wr ''status'' writeInt32]),
      (- 2137147681, [wr ''_'' writeInt32, wr ''answer_msg_id'' writeInt64,
         wr ''bytes'' writeInt32, wr ''status'' writeInt32])]"

definition readMTDestroyAuthKeyRes :: tl_reader where
  "readMTDestroyAuthKeyRes = read_object
     [(- 161422892, []),
      (178201177, []),
      (- 368010477, [])]"

definition writeMTDestroyAuthKeyRes :: tl_writer where
  "writeMTDestroyAuthKeyRes = write_object
     [(- 161422892, [wr ''_'' writeInt32]),
      (178201177, [wr ''_'' writeInt32]),
      (- 368010477, [wr ''_'' writeInt32])]"

definition readMTMethodReqPqMulti :: tl_reader where
  "readMTMethodReqPqMulti = read_method (- 1099002127) readMTResPQ"

definition writeMTMethodReqPqMulti :: tl_writer where
  "writeMTMethodReqPqMulti = write_object
     [(- 1099002127, [wr ''_'' writeInt32, wr ''nonce'' writeInt128])]"

definition readMTMethodReqDHParams :: tl_reader where
  "readMTMethodReqDHParams = read_method (- 686627650) readMTServerDHParams"

definition writeMTMethodReqDHParams :: tl_writer where
  "writeMTMethodReqDHParams = write_object
     [(- 686627650, [wr ''_'' writeInt32, wr ''nonce'' writeInt128,
         wr ''server_nonce'' writeInt128, wr ''p'' writeByteArray, wr ''q'' writeByteArray,
         wr ''public_key_fingerprint'' writeInt64, wr ''encrypted_data'' writeByteArray])]"

definition readMTMethodSetClientDHParams :: tl_reader where
  "readMTMethodSetClientDHParams = read_method (- 184262881) readMTSetClientDHParamsAnswer"

definition writeMTMethodSetClientDHParams :: tl_writer where
  "writeMTMethodSetClientDHParams = write_object
     [(- 184262881, [wr ''_'' writeInt32, wr ''nonce'' writeInt128,
         wr ''server_nonce'' writeInt128, wr ''encrypted_data'' writeByteArray])]"

definition readMTMethodRpcDropAnswer :: tl_reader where
  "readMTMethodRpcDropAnswer = read_method (1491380032) readMTRpcDropAnswer"

definition writeMTMethodRpcDropAnswer :: tl_writer where
  "writeMTMethodRpcDropAnswer = write_object
     [(1491380032, [wr ''_'' writeInt32, wr ''req_msg_id'' writeInt64])]"

definition readMTMethodGetFutureSalts :: tl_reader where
  "readMTMethodGetFutureSalts = read_method (- 1188971260) readMTFutureSalts"

definition writeMTMethodGetFutureSalts :: tl_writer where
  "writeMTMethodGetFutureSalts = write_object
     [(- 1188971260, [wr ''_'' writeInt32, wr ''num'' writeInt32])]"

definition readMTMethodPing :: tl_reader where
  "readMTMethodPing = read_method (2059302892) readMTPong"

definition writeMTMethodPing :: tl_writer where
  "writeMTMethodPing = write_object
     [(2059302892, [wr ''_'' writeInt32, wr ''ping_id'' writeInt64])]"

definition readMTMethodPingDelayDisconnect :: tl_reader where
  "readMTMethodPingDelayDisconnect = read_method (- 213746804) readMTPong"

definition writeMTMethodPingDelayDisconnect :: tl_writer where
  "writeMTMethodPingDelayDisconnect = write_object
     [(- 213746804, [wr ''_'' writeInt32, wr ''ping_id'' writeInt64,
         wr ''disconnect_delay'' writeInt32])]"

definition readMTMethodDestroySession :: tl_reader where
  "readMTMethodDestroySession = read_method (- 414113498) readMTDestroySessionRes"

definition writeMTMethodDestroySession :: tl_writer where
  "writeMTMethodDestroySession = write_object
     [(- 414113498, [wr ''_'' writeInt32, wr ''session_id'' writeInt64])]"

definition readMTMethodHttpWait :: tl_reader where
  "readMTMethodHttpWait = read_method (- 1835453025) (\<lambda>i s. (i, s))"

definition writeMTMethodHttpWait :: tl_writer where
  "writeMTMethodHttpWait = write_object
     [(- 1835453025, [wr ''_'' writeInt32, wr ''max_delay'' writeInt32,
         wr ''wait_after'' writeInt32, wr ''max_wait'' writeInt32])]"

definition readMTMethodDestroyAuthKey :: tl_reader where
  "readMTMethodDestroyAuthKey = read_method (- 784117408) readMTDestroyAuthKeyRes"

definition writeMTMethodDestroyAuthKey :: tl_writer where
  "writeMTMethodDestroyAuthKey = write_object
     [(- 784117408, [wr ''_'' writeInt32])]"

subsection \<open>Codec tables\<close>

definition Vector_table :: codec_table where
  "Vector_table =
     [(481674261, [])]"

interpretation mt_Vector: tl_codec readMTVector writeMTVector "enc_object Vector_table" "ok_object Vector_table"
  by (rule schema_codec)
    (simp_all add: readMTVector_def writeMTVector_def Vector_table_def schema_simps)

definition ResPQ_table :: codec_table where
  "ResPQ_table =
     [(85337187, [(''nonce'', readInt128, writeInt128, enc_fixed, is_bytes_of 16),
        (''server_nonce'', readInt128, writeInt128, enc_fixed, is_bytes_of 16),
        (''pq'', readByteArray, writeByteArray, enc_bytes, is_short_bytes),
        (''server_public_key_fingerprints'', readVector (Some readInt64),
         writeVector (Some writeInt64), enc_vector enc_int64, ok_vector is_VLong)])]"

interpretation mt_ResPQ: tl_codec readMTResPQ writeMTResPQ "enc_object ResPQ_table" "ok_object ResPQ_table"
  by (rule schema_codec)
    (simp_all add: readMTResPQ_def writeMTResPQ_def ResPQ_table_def schema_simps)

definition PQInnerData_table :: codec_table where
  "PQInnerData_table =
     [(- 1443537003, [(''pq'', readByteArray, writeByteArray, enc_bytes, is_short_bytes),
        (''p'', readByteArray, writeByteArray, enc_bytes, is_short_bytes),
        (''q'', readByteArray, writeByteArray, enc_bytes, is_short_bytes),
        (''nonce'', readInt128, writeInt128, enc_fixed, is_bytes_of 16),
        (''server_nonce'', readInt128, writeInt128, enc_fixed, is_bytes_of 16),
        (''new_nonce'', readInt256, writeInt256, enc_fixed, is_bytes_of 32),
        (''dc'', readInt32, writeInt32, enc_int32, is_VInt)]),
      (1459478408, [(''pq'', readByteArray, writeByteArray, enc_bytes, is_short_bytes),
        (''p'', readByteArray, writeByteArray, enc_bytes, is_short_bytes),
        (''q'', readByteArray, writeByteArray, enc_bytes, is_short_bytes),
        (''nonce'', readInt128, writeInt128, enc_fixed, is_bytes_of 16),
        (''server_nonce'', readInt128, writeInt128, enc_fixed, is_bytes_of 16),
        (''new_nonce'', readInt256, writeInt256, enc_fixed, is_bytes_of 32),
        (''dc'', readInt32, writeInt32, enc_int32, is_VInt),
        (''expires_in'', readInt32, writeInt32, enc_int32, is_VInt)])]"

interpretation mt_PQInnerData: tl_codec readMTPQInnerData writeMTPQInnerData "enc_object PQInnerData_table" "ok_object PQInnerData_table"
  by (rule schema_codec)
    (simp_all add: readMTPQInnerData_def writeMTPQInnerData_def PQInnerData_table_def schema_simps)

definition ServerDHParams_table :: codec_table where
  "ServerDHParams_table =
     [(- 790100132, [(''nonce'', readInt128, writeInt128, enc_fixed, is_bytes_of 16),
        (''server_nonce'', readInt128, writeInt128, enc_fixed, is_bytes_of 16),
        (''encrypted_answer'', readByteArray, writeByteArray, enc_bytes, is_short_bytes)])]"

interpretation mt_ServerDHParams: tl_codec readMTServerDHParams writeMTServerDHParams "enc_object ServerDHParams_table" "ok_object ServerDHParams_table"
  by (rule schema_codec)
    (simp_all add: readMTServerDHParams_def writeMTServerDHParams_def ServerDHParams_table_def schema_simps)

definition ServerDHInnerData_table :: codec_table where
  "ServerDHInnerData_table =
     [(- 1249309254, [(''nonce'', readInt128, writeInt128, enc_fixed, is_bytes_of 16),
        (''server_nonce'', readInt128, writeInt128, enc_fixed, is_bytes_of 16),
        (''g'', readInt32, writeInt32, enc_int32, is_VInt),
        (''dh_prime'', readByteArray, writeByteArray, enc_bytes, is_short_bytes),
        (''g_a'', readByteArray, writeByteArray, enc_bytes, is_short_bytes),
        (''server_time'', readInt32, writeInt32, enc_int32, is_VInt)])]"

interpretation mt_ServerDHInnerData: tl_codec readMTServerDHInnerData writeMTServerDHInnerData "enc_object ServerDHInnerData_table" "ok_object ServerDHInnerData_table"
  by (rule schema_codec)
    (simp_all add: readMTServerDHInnerData_def writeMTServerDHInnerData_def ServerDHInnerData_table_def schema_simps)

definition ClientDHInnerData_table :: codec_table where
  "ClientDHInnerData_table =
     [(1715713620, [(''nonce'', readInt128, writeInt128, enc_fixed, is_bytes_of 16),
        (''server_nonce'', readInt128, writeInt128, enc_fixed, is_bytes_of 16),
        (''retry_id'', readInt64, writeInt64, enc_int64, is_VLong),
        (''g_b'', readByteArray, writeByteArray, enc_bytes, is_short_bytes)])]"

interpretation mt_ClientDHInnerData: tl_codec readMTClientDHInnerData writeMTClientDHInnerData "enc_object ClientDHInnerData_table" "ok_object ClientDHInnerData_table"
  by (rule schema_codec)
    (simp_all add: readMTClientDHInnerData_def writeMTClientDHInnerData_def ClientDHInnerData_table_def schema_simps)

definition SetClientDHParamsAnswer_table :: codec_table where
  "SetClientDHParamsAnswer_table =
     [(1003222836, [(''nonce'', readInt128, writeInt128, enc_fixed, is_bytes_of 16),
        (''server_nonce'', readInt128, writeInt128, enc_fixed, is_bytes_of 16),
        (''new_nonce_hash1'', readInt128, writeInt128, enc_fixed, is_bytes_of 16)]),
      (1188831161, [(''nonce'', readInt128, writeInt128, enc_fixed, is_bytes_of 16),
        (''server_nonce'', readInt128, writeInt128, enc_fixed, is_bytes_of 16),
        (''new_nonce_hash2'', readInt128, writeInt128, enc_fixed, is_bytes_of 16)]),
      (- 1499615742, [(''nonce'', readInt128, writeInt128, enc_fixed, is_bytes_of 16),
        (''server_nonce'', readInt128, writeInt128, enc_fixed, is_bytes_of 16),
        (''new_nonce_hash3'', readInt128, writeInt128, enc_fixed, is_bytes_of 16)])]"

interpretation mt_SetClientDHParamsAnswer: tl_codec readMTSetClientDHParamsAnswer writeMTSetClientDHParamsAnswer "enc_object SetClientDHParamsAnswer_table" "ok_object SetClientDHParamsAnswer_table"
  by (rule schema_codec)
    (simp_all add: readMTSetClientDHParamsAnswer_def writeMTSetClientDHParamsAnswer_def SetClientDHParamsAnswer_table_def schema_simps)

definition BindAuthKeyInner_table :: codec_table where
  "BindAuthKeyInner_table =
     [(1973679973, [(''nonce'', readInt64, writeInt64, enc_int64, is_VLong),
        (''temp_auth_key_id'', readInt64, writeInt64, enc_int64, is_VLong),
        (''perm_auth_key_id'', readInt64, writeInt64, enc_int64, is_VLong),
        (''temp_session_id'', readInt64, writeInt64, enc_int64, is_VLong),
        (''expires_at'', readInt32, writeInt32, enc_int32, is_VInt)])]"

interpretation mt_BindAuthKeyInner: tl_codec readMTBindAuthKeyInner writeMTBindAuthKeyInner "enc_object BindAuthKeyInner_table" "ok_object BindAuthKeyInner_table"
  by (rule schema_codec)
    (simp_all add: readMTBindAuthKeyInner_def writeMTBindAuthKeyInner_def BindAuthKeyInner_table_def schema_simps)

definition RpcError_table :: codec_table where
  "RpcError_table =
     [(558156313, [(''error_code'', readInt32, writeInt32, enc_int32, is_VInt),
        (''error_message'', readString, writeString, enc_string, is_short_text)])]"

interpretation mt_RpcError: tl_codec readMTRpcError writeMTRpcError "enc_object RpcError_table" "ok_object RpcError_table"
  by (rule schema_codec)
    (simp_all add: readMTRpcError_def writeMTRpcError_def RpcError_table_def schema_simps)

definition RpcDropAnswer_table :: codec_table where
  "RpcDropAnswer_table =
     [(1579864942, []),
      (- 847714938, []),
      (- 1539647305, [(''msg_id'', readInt64, writeInt64, enc_int64, is_VLong),
        (''seq_no'', readInt32, writeInt32, enc_int32, is_VInt),
        (''bytes'', readInt32, writeInt32, enc_int32, is_VInt)])]"

interpretation mt_RpcDropAnswer: tl_codec readMTRpcDropAnswer writeMTRpcDropAnswer "enc_object RpcDropAnswer_table" "ok_object RpcDropAnswer_table"
  by (rule schema_codec)
    (simp_all add: readMTRpcDropAnswer_def writeMTRpcDropAnswer_def RpcDropAnswer_table_def schema_simps)

definition FutureSalt_table :: codec_table where
  "FutureSalt_table =
     [(155834844, [(''valid_since'', readInt32, writeInt32, enc_int32, is_VInt),
        (''valid_until'', readInt32, writeInt32, enc_int32, is_VInt),
        (''salt'', readInt64, writeInt64, enc_int64, is_VLong)])]"

interpretation mt_FutureSalt: tl_codec readMTFutureSalt writeMTFutureSalt "enc_object FutureSalt_table" "ok_object FutureSalt_table"
  by (rule schema_codec)
    (simp_all add: readMTFutureSalt_def writeMTFutureSalt_def FutureSalt_table_def schema_simps)

definition FutureSalts_table :: codec_table where
  "FutureSalts_table =
     [(- 1370486635, [(''req_msg_id'', readInt64, writeInt64, enc_int64, is_VLong),
        (''now'', readInt32, writeInt32, enc_int32, is_VInt),
        (''salts'', readVector (Some readMTFutureSalt), writeVector (Some writeMTFutureSalt),
         enc_vector (enc_object FutureSalt_table), ok_vector (ok_object FutureSalt_table))])]"

interpretation mt_FutureSalts: tl_codec readMTFutureSalts writeMTFutureSalts "enc_object FutureSalts_table" "ok_object FutureSalts_table"
  by (rule schema_codec)
    (simp_all add: readMTFutureSalts_def writeMTFutureSalts_def FutureSalts_table_def schema_simps mt_FutureSalt.vector_codec)

definition Pong_table :: codec_table where
  "Pong_table =
     [(880243653, [(''msg_id'', readInt64, writeInt64, enc_int64, is_VLong),
        (''ping_id'', readInt64, writeInt64, enc_int64, is_VLong)])]"

interpretation mt_Pong: tl_codec readMTPong writeMTPong "enc_object Pong_table" "ok_object Pong_table"
  by (rule schema_codec)
    (simp_all add: readMTPong_def writeMTPong_def Pong_table_def schema_simps)

definition DestroySessionRes_table :: codec_table where
  "DestroySessionRes_table =
     [(- 501201412, [(''session_id'', readInt64, writeInt64, enc_int64, is_VLong)]),
      (1658015945, [(''session_id'', readInt64, writeInt64, enc_int64, is_VLong)])]"

interpretation mt_DestroySessionRes: tl_codec readMTDestroySessionRes writeMTDestroySessionRes "enc_object DestroySessionRes_table" "ok_object DestroySessionRes_table"
  by (rule schema_codec)
    (simp_all add: readMTDestroySessionRes_def writeMTDestroySessionRes_def DestroySessionRes_table_def schema_simps)

definition NewSession_table :: codec_table where
  "NewSession_table =
     [(- 1631450872, [(''first_msg_id'', readInt64, writeInt64, enc_int64, is_VLong),
        (''unique_id'', readInt64, writeInt64, enc_int64, is_VLong),
        (''server_salt'', readInt64, writeInt64, enc_int64, is_VLong)])]"

interpretation mt_NewSession: tl_codec readMTNewSession writeMTNewSession "enc_object NewSession_table" "ok_object NewSession_table"
  by (rule schema_codec)
    (simp_all add: readMTNewSession_def writeMTNewSession_def NewSession_table_def schema_simps)

definition Object_table :: codec_table where
  "Object_table =
     [(812830625, [(''packed_data'', readByteArray, writeByteArray, enc_bytes, is_short_bytes)])]"

interpretation mt_Object: tl_codec readMTObject writeMTObject "enc_object Object_table" "ok_object Object_table"
  by (rule schema_codec)
    (simp_all add: readMTObject_def writeMTObject_def Object_table_def schema_simps)

definition MsgsAck_table :: codec_table where
  "MsgsAck_table =
     [(1658238041, [(''msg_ids'', readVector (Some readInt64), writeVector (Some writeInt64),
         enc_vector enc_int64, ok_vector is_VLong)])]"

interpretation mt_MsgsAck: tl_codec readMTMsgsAck writeMTMsgsAck "enc_object MsgsAck_table" "ok_object MsgsAck_table"
  by (rule schema_codec)
    (simp_all add: readMTMsgsAck_def writeMTMsgsAck_def MsgsAck_table_def schema_simps)

definition BadMsgNotification_table :: codec_table where
  "BadMsgNotification_table =
     [(- 1477445615, [(''bad_msg_id'', readInt64, writeInt64, enc_int64, is_VLong),
        (''bad_msg_seqno'', readInt32, writeInt32, enc_int32, is_VInt),
        (''error_code'', readInt32, writeInt32, enc_int32, is_VInt)]),
      (- 307542917, [(''bad_msg_id'', readInt64, writeInt64, enc_int64, is_VLong),
        (''bad_msg_seqno'', readInt32, writeInt32, enc_int32, is_VInt),
        (''error_code'', readInt32, writeInt32, enc_int32, is_VInt),
        (''new_server_salt'', readInt64, writeInt64, enc_int64, is_VLong)])]"

interpretation mt_BadMsgNotification: tl_codec readMTBadMsgNotification writeMTBadMsgNotification "enc_object BadMsgNotification_table" "ok_object BadMsgNotification_table"
  by (rule schema_codec)
    (simp_all add: readMTBadMsgNotification_def writeMTBadMsgNotification_def BadMsgNotification_table_def schema_simps)

definition MsgResendReq_table :: codec_table where
  "MsgResendReq_table =
     [(2105940488, [(''msg_ids'', readVector (Some readInt64), writeVector (Some writeInt64),
         enc_vector enc_int64, ok_vector is_VLong)])]"

interpretation mt_MsgResendReq: tl_codec readMTMsgResendReq writeMTMsgResendReq "enc_object MsgResendReq_table" "ok_object MsgResendReq_table"
  by (rule schema_codec)
    (simp_all add: readMTMsgResendReq_def writeMTMsgResendReq_def MsgResendReq_table_def schema_simps)

definition MsgsStateReq_table :: codec_table where
  "MsgsStateReq_table =
     [(- 630588590, [(''msg_ids'', readVector (Some readInt64), writeVector (Some writeInt64),
         enc_vector enc_int64, ok_vector is_VLong)])]"

interpretation mt_MsgsStateReq: tl_codec readMTMsgsStateReq writeMTMsgsStateReq "enc_object MsgsStateReq_table" "ok_object MsgsStateReq_table"
  by (rule schema_codec)
    (simp_all add: readMTMsgsStateReq_def writeMTMsgsStateReq_def MsgsStateReq_table_def schema_simps)

definition MsgsStateInfo_table :: codec_table where
  "MsgsStateInfo_table =
     [(81704317, [(''req_msg_id'', readInt64, writeInt64, enc_int64, is_VLong),
        (''info'', readByteArray, writeByteArray, enc_bytes, is_short_bytes)])]"

interpretation mt_MsgsStateInfo: tl_codec readMTMsgsStateInfo writeMTMsgsStateInfo "enc_object MsgsStateInfo_table" "ok_object MsgsStateInfo_table"
  by (rule schema_codec)
    (simp_all add: readMTMsgsStateInfo_def writeMTMsgsStateInfo_def MsgsStateInfo_table_def schema_simps)

definition MsgsAllInfo_table :: codec_table where
  "MsgsAllInfo_table =
     [(- 1933520591, [(''msg_ids'', readVector (Some readInt64), writeVector (Some writeInt64),
         enc_vector enc_int64, ok_vector is_VLong),
        (''info'', readByteArray, writeByteArray, enc_bytes, is_short_bytes)])]"

interpretation mt_MsgsAllInfo: tl_codec readMTMsgsAllInfo writeMTMsgsAllInfo "enc_object MsgsAllInfo_table" "ok_object MsgsAllInfo_table"
  by (rule schema_codec)
    (simp_all add: readMTMsgsAllInfo_def writeMTMsgsAllInfo_def MsgsAllInfo_table_def schema_simps)

definition MsgDetailedInfo_table :: codec_table where
  "MsgDetailedInfo_table =
     [(661470918, [(''msg_id'', readInt64, writeInt64, enc_int64, is_VLong),
        (''answer_msg_id'', readInt64, writeInt64, enc_int64, is_VLong),
        (''bytes'', readInt32, writeInt32, enc_int32, is_VInt),
        (''status'', readInt32, writeInt32, enc_int32, is_VInt)]),
      (- 2137147681, [(''answer_msg_id'', readInt64, writeInt64, enc_int64, is_VLong),
        (''bytes'', readInt32, writeInt32, enc_int32, is_VInt),
        (''status'', readInt32, writeInt32, enc_int32, is_VInt)])]"

interpretation mt_MsgDetailedInfo: tl_codec readMTMsgDetailedInfo writeMTMsgDetailedInfo "enc_object MsgDetailedInfo_table" "ok_object MsgDetailedInfo_table"
  by (rule schema_codec)
    (simp_all add: readMTMsgDetailedInfo_def writeMTMsgDetailedInfo_def MsgDetailedInfo_table_def schema_simps)

definition DestroyAuthKeyRes_table :: codec_table where
  "DestroyAuthKeyRes_table =
     [(- 161422892, []),
      (178201177, []),
      (- 368010477, [])]"

interpretation mt_DestroyAuthKeyRes: tl_codec readMTDestroyAuthKeyRes writeMTDestroyAuthKeyRes "enc_object DestroyAuthKeyRes_table" "ok_object DestroyAuthKeyRes_table"
  by (rule schema_codec)
    (simp_all add: readMTDestroyAuthKeyRes_def writeMTDestroyAuthKeyRes_def DestroyAuthKeyRes_table_def schema_simps)

subsection \<open>All types at once\<close>

definition mt_types :: "(tl_reader \<times> tl_writer \<times> codec_table) list" where
  "mt_types =
     [(readMTVector, writeMTVector, Vector_table),
      (readMTResPQ, writeMTResPQ, ResPQ_table),
      (readMTPQInnerData, writeMTPQInnerData, PQInnerData_table),
      (readMTServerDHParams, writeMTServerDHParams, ServerDHParams_table),
      (readMTServerDHInnerData, writeMTServerDHInnerData, ServerDHInnerData_table),
      (readMTClientDHInnerData, writeMTClientDHInnerData, ClientDHInnerData_table),
      (readMTSetClientDHParamsAnswer, writeMTSetClientDHParamsAnswer, SetClientDHParamsAnswer_table),
      (readMTBindAuthKeyInner, writeMTBindAuthKeyInner, BindAuthKeyInner_table),
      (readMTRpcError, writeMTRpcError, RpcError_table),
      (readMTRpcDropAnswer, writeMTRpcDropAnswer, RpcDropAnswer_table),
      (readMTFutureSalt, writeMTFutureSalt, FutureSalt_table),
      (readMTFutureSalts, writeMTFutureSalts, FutureSalts_table),
      (readMTPong, writeMTPong, Pong_table),
      (readMTDestroySessionRes, writeMTDestroySessionRes, DestroySessionRes_table),
      (readMTNewSession, writeMTNewSession, NewSession_table),
      (readMTObject, writeMTObject, Object_table),
      (readMTMsgsAck, writeMTMsgsAck, MsgsAck_table),
      (readMTBadMsgNotification, writeMTBadMsgNotification, BadMsgNotification_table),
      (readMTMsgResendReq, writeMTMsgResendReq, MsgResendReq_table),
      (readMTMsgsStateReq, writeMTMsgsStateReq, MsgsStateReq_table),
      (readMTMsgsStateInfo, writeMTMsgsStateInfo, MsgsStateInfo_table),
      (readMTMsgsAllInfo, writeMTMsgsAllInfo, MsgsAllInfo_table),
      (readMTMsgDetailedInfo, writeMTMsgDetailedInfo, MsgDetailedInfo_table),
      (readMTDestroyAuthKeyRes, writeMTDestroyAuthKeyRes, DestroyAuthKeyRes_table)]"

lemma mt_types_codec: "(R, W, t) \<in> set mt_types \<Longrightarrow> tl_codec R W (enc_object t) (ok_object t)"
  by (auto simp: mt_types_def
      intro: mt_Vector.tl_codec_axioms mt_ResPQ.tl_codec_axioms mt_PQInnerData.tl_codec_axioms mt_ServerDHParams.tl_codec_axioms mt_ServerDHInnerData.tl_codec_axioms mt_ClientDHInnerData.tl_codec_axioms mt_SetClientDHParamsAnswer.tl_codec_axioms mt_BindAuthKeyInner.tl_codec_axioms mt_RpcError.tl_codec_axioms mt_RpcDropAnswer.tl_codec_axioms mt_FutureSalt.tl_codec_axioms mt_FutureSalts.tl_codec_axioms mt_Pong.tl_codec_axioms mt_DestroySessionRes.tl_codec_axioms mt_NewSession.tl_codec_axioms mt_Object.tl_codec_axioms mt_MsgsAck.tl_codec_axioms mt_BadMsgNotification.tl_codec_axioms mt_MsgResendReq.tl_codec_axioms mt_MsgsStateReq.tl_codec_axioms mt_MsgsStateInfo.tl_codec_axioms mt_MsgsAllInfo.tl_codec_axioms mt_MsgDetailedInfo.tl_codec_axioms mt_DestroyAuthKeyRes.tl_codec_axioms)

end
