(* ===== verification/UpdatesState.thy ===== *)
theory UpdatesState
  imports QtBase "HOL-Library.AList"
begin

section \<open>The update sequences: libkg/tgupdatesstate.cpp\<close>

text \<open>
  The class \<open>TgUpdatesState\<close>: the common \<open>pts\<close>, \<open>qts\<close>, \<open>date\<close> and \<open>seq\<close> counters, one
  \<open>pts\<close> per channel, and the verdicts over them. A \<open>QHash\<close> is an association list with
  unique keys. \<open>QSettings\<close> is a store from a group and a key to a value that reads back
  what was written. Counters are 32-bit words compared as signed numbers.
\<close>

type_synonym settings = "((string \<times> qstring) \<times> variant) list"

record updstate =
  us_pts :: i32
  us_qts :: i32
  us_date :: i32
  us_seq :: i32
  us_valid :: bool
  us_channelPts :: "(i64 \<times> i32) list"

datatype verdict = Apply | Duplicate | Gap

datatype seq_verdict = SeqIgnore | SeqApply | SeqDuplicate | SeqGap

definition us_init :: updstate where
  "us_init = \<lparr>us_pts = 0, us_qts = 0, us_date = 0, us_seq = 0, us_valid = False, us_channelPts = []\<rparr>"

definition us_reset :: "i32 \<Rightarrow> i32 \<Rightarrow> i32 \<Rightarrow> i32 \<Rightarrow> updstate \<Rightarrow> updstate" where
  "us_reset pts qts date seq u =
     u\<lparr>us_pts := pts, us_qts := qts, us_date := date, us_seq := seq, us_valid := True\<rparr>"

definition us_clear :: "updstate \<Rightarrow> updstate" where
  "us_clear u =
     u\<lparr>us_pts := 0, us_qts := 0, us_date := 0, us_seq := 0, us_valid := False, us_channelPts := []\<rparr>"

definition us_setPts :: "i32 \<Rightarrow> updstate \<Rightarrow> updstate" where
  "us_setPts pts u = u\<lparr>us_pts := pts, us_valid := True\<rparr>"

definition us_setQts :: "i32 \<Rightarrow> updstate \<Rightarrow> updstate" where
  "us_setQts qts u = (if sint qts > sint (us_qts u) then u\<lparr>us_qts := qts\<rparr> else u)"

definition us_setDate :: "i32 \<Rightarrow> updstate \<Rightarrow> updstate" where
  "us_setDate date u = (if sint date > sint (us_date u) then u\<lparr>us_date := date\<rparr> else u)"

definition us_knowsChannel :: "i64 \<Rightarrow> updstate \<Rightarrow> bool" where
  "us_knowsChannel ch u = (map_of (us_channelPts u) ch \<noteq> None)"

definition us_channel_pts :: "i64 \<Rightarrow> updstate \<Rightarrow> i32" where
  "us_channel_pts ch u = (case map_of (us_channelPts u) ch of None \<Rightarrow> 0 | Some p \<Rightarrow> p)"

definition us_setChannelPts :: "i64 \<Rightarrow> i32 \<Rightarrow> updstate \<Rightarrow> updstate" where
  "us_setChannelPts ch pts u = u\<lparr>us_channelPts := AList.update ch pts (us_channelPts u)\<rparr>"

definition us_forgetChannel :: "i64 \<Rightarrow> updstate \<Rightarrow> updstate" where
  "us_forgetChannel ch u = u\<lparr>us_channelPts := AList.delete ch (us_channelPts u)\<rparr>"

definition us_clearChannels :: "updstate \<Rightarrow> updstate" where
  "us_clearChannels u = u\<lparr>us_channelPts := []\<rparr>"

definition us_channels :: "updstate \<Rightarrow> i64 list" where
  "us_channels u = map fst (us_channelPts u)"

text \<open>The position of the sequence an id names: 0 is the common one.\<close>

definition us_local :: "i64 \<Rightarrow> updstate \<Rightarrow> i32" where
  "us_local ch u = (if ch \<noteq> 0 then us_channel_pts ch u else us_pts u)"

definition us_check :: "i64 \<Rightarrow> i32 \<Rightarrow> i32 \<Rightarrow> updstate \<Rightarrow> verdict" where
  "us_check ch pts ptsCount u =
     (let loc = us_local ch u
      in if loc = 0 then Apply
         else if loc + ptsCount = pts then Apply
         else if sint pts \<le> sint loc then Duplicate
         else Gap)"

definition us_advance :: "i64 \<Rightarrow> i32 \<Rightarrow> updstate \<Rightarrow> updstate" where
  "us_advance ch pts u =
     (if ch \<noteq> 0
      then if sint pts > sint (us_channel_pts ch u) then us_setChannelPts ch pts u else u
      else if sint pts > sint (us_pts u) then u\<lparr>us_pts := pts\<rparr> else u)"

definition us_checkSeq :: "i32 \<Rightarrow> i32 \<Rightarrow> updstate \<Rightarrow> seq_verdict" where
  "us_checkSeq seqStart seq u =
     (if seq = 0 then SeqIgnore
      else let seqStart = (if seqStart = 0 then seq else seqStart)
           in if us_seq u + 1 = seqStart then SeqApply
              else if sint seqStart \<le> sint (us_seq u) then SeqDuplicate
              else SeqGap)"

definition us_advanceSeq :: "i32 \<Rightarrow> i32 \<Rightarrow> updstate \<Rightarrow> updstate" where
  "us_advanceSeq seq date u =
     us_setDate date (if sint seq > sint (us_seq u) then u\<lparr>us_seq := seq\<rparr> else u)"

definition PeerChannel :: i32 where "PeerChannel = - 1566230754"

definition channelIdOf :: "tgobject \<Rightarrow> i64" where
  "channelIdOf update =
     (if obj_has update ''channel_id'' then qv_toLongLong (obj_get update ''channel_id'')
      else let message = qv_toMap (obj_get update ''message'')
           in if message \<noteq> []
              then let peer = qv_toMap (obj_get message ''peer_id'')
                   in if objID peer = PeerChannel
                      then qv_toLongLong (obj_get peer ''channel_id'') else 0
              else 0)"

definition hasPts :: "tgobject \<Rightarrow> bool" where
  "hasPts update = obj_has update ''pts''"

subsection \<open>Persistence\<close>

definition set_value :: "string \<Rightarrow> qstring \<Rightarrow> variant \<Rightarrow> settings \<Rightarrow> settings" where
  "set_value g k v st = AList.update (g, k) v st"

definition get_value :: "string \<Rightarrow> qstring \<Rightarrow> settings \<Rightarrow> variant" where
  "get_value g k st = (case map_of st (g, k) of None \<Rightarrow> VNull | Some v \<Rightarrow> v)"

definition remove_group :: "string \<Rightarrow> settings \<Rightarrow> settings" where
  "remove_group g st = filter (\<lambda>((g', k), v). g' \<noteq> g) st"

definition child_keys :: "string \<Rightarrow> settings \<Rightarrow> qstring list" where
  "child_keys g st = map (snd \<circ> fst) (filter (\<lambda>((g', k), v). g' = g) st)"

definition us_load :: "settings \<Rightarrow> updstate \<Rightarrow> updstate" where
  "us_load st u =
     (let pts = qv_toInt (get_value ''UpdateState'' (qs ''Pts'') st);
          chans = fold (\<lambda>key cs.
                      let p = qv_toInt (get_value ''UpdateState/ChannelPts'' key st)
                      in if p \<noteq> 0 then AList.update (qs_toLongLong key) p cs else cs)
                    (child_keys ''UpdateState/ChannelPts'' st) []
      in \<lparr>us_pts = pts,
          us_qts = qv_toInt (get_value ''UpdateState'' (qs ''Qts'') st),
          us_date = qv_toInt (get_value ''UpdateState'' (qs ''Date'') st),
          us_seq = qv_toInt (get_value ''UpdateState'' (qs ''Seq'') st),
          us_valid = (pts \<noteq> 0),
          us_channelPts = chans\<rparr>)"

definition us_save :: "updstate \<Rightarrow> settings \<Rightarrow> settings" where
  "us_save u st =
     (let st1 = set_value ''UpdateState'' (qs ''Seq'') (VInt (us_seq u))
                 (set_value ''UpdateState'' (qs ''Date'') (VInt (us_date u))
                   (set_value ''UpdateState'' (qs ''Qts'') (VInt (us_qts u))
                     (set_value ''UpdateState'' (qs ''Pts'') (VInt (us_pts u)) st)));
          st2 = remove_group ''UpdateState/ChannelPts'' st1
      in fold (\<lambda>(ch, p) s. set_value ''UpdateState/ChannelPts'' (qs_number ch) (VInt p) s)
           (us_channelPts u) st2)"

subsection \<open>Laws of one sequence\<close>

lemma us_channel_pts_setChannelPts [simp]:
  "us_channel_pts c (us_setChannelPts ch p u) = (if c = ch then p else us_channel_pts c u)"
  by (simp add: us_channel_pts_def us_setChannelPts_def update_conv')

lemma us_fields_setChannelPts [simp]:
  "us_pts (us_setChannelPts ch p u) = us_pts u" "us_qts (us_setChannelPts ch p u) = us_qts u"
  "us_date (us_setChannelPts ch p u) = us_date u" "us_seq (us_setChannelPts ch p u) = us_seq u"
  "us_valid (us_setChannelPts ch p u) = us_valid u"
  by (simp_all add: us_setChannelPts_def)

lemma us_local_advance:
  "us_local c (us_advance ch pts u) =
     (if c = ch \<and> sint pts > sint (us_local ch u) then pts else us_local c u)"
  by (auto simp: us_local_def us_advance_def us_channel_pts_def us_setChannelPts_def update_conv')

lemma us_advance_frame [simp]:
  "us_qts (us_advance ch p u) = us_qts u" "us_date (us_advance ch p u) = us_date u"
  "us_seq (us_advance ch p u) = us_seq u" "us_valid (us_advance ch p u) = us_valid u"
  by (auto simp: us_advance_def us_setChannelPts_def)

lemma us_advance_mono: "sint (us_local c u) \<le> sint (us_local c (us_advance ch pts u))"
  by (simp add: us_local_advance)

lemma us_check_after_advance:
  assumes "pts \<noteq> 0" and "cnt \<noteq> 0" and "sint (us_local ch u) < sint pts"
  shows "us_check ch pts cnt (us_advance ch pts u) = Duplicate"
  using assms by (simp add: us_check_def us_local_advance)

lemma us_local_setDate [simp]: "us_local c (us_setDate d u) = us_local c u"
  by (simp add: us_local_def us_setDate_def us_channel_pts_def)

lemma us_local_advanceSeq [simp]: "us_local c (us_advanceSeq s d u) = us_local c u"
  by (simp add: us_advanceSeq_def) (simp add: us_local_def us_channel_pts_def)

subsection \<open>Saving and loading\<close>


lemma AList_update_fresh: "k \<notin> fst ` set al \<Longrightarrow> AList.update k v al = al @ [(k, v)]"
  by (induction al) auto

abbreviation channel_entry :: "i64 \<times> i32 \<Rightarrow> (string \<times> qstring) \<times> variant" where
  "channel_entry \<equiv> \<lambda>(ch, p). ((''UpdateState/ChannelPts'', qs_number ch), VInt p)"

lemma save_channels:
  assumes "distinct (map fst chs)"
    and "\<And>ch. ch \<in> fst ` set chs \<Longrightarrow> (''UpdateState/ChannelPts'', qs_number ch) \<notin> fst ` set st"
  shows "fold (\<lambda>(ch, p) s. set_value ''UpdateState/ChannelPts'' (qs_number ch) (VInt p) s) chs st
       = st @ map channel_entry chs"
  using assms
proof (induction chs arbitrary: st)
  case Nil
  then show ?case by simp
next
  case (Cons c chs)
  obtain ch p where c: "c = (ch, p)" by (cases c)
  have "set_value ''UpdateState/ChannelPts'' (qs_number ch) (VInt p) st = st @ [channel_entry c]"
    using Cons.prems(2) [of ch] by (simp add: set_value_def c AList_update_fresh)
  moreover have "fold (\<lambda>(ch, p) s. set_value ''UpdateState/ChannelPts'' (qs_number ch) (VInt p) s)
        chs (st @ [channel_entry c]) = (st @ [channel_entry c]) @ map channel_entry chs"
  proof (rule Cons.IH)
    show "distinct (map fst chs)" using Cons.prems(1) by simp
    show "(''UpdateState/ChannelPts'', qs_number d) \<notin> fst ` set (st @ [channel_entry c])"
      if "d \<in> fst ` set chs" for d
      using that Cons.prems c qs_number_inj [of d ch] by auto
  qed
  ultimately show ?case by (simp add: c)
qed

lemma load_channels:
  assumes "distinct (map fst (acc @ chs))"
    and "\<And>ch p. (ch, p) \<in> set chs \<Longrightarrow>
           get_value ''UpdateState/ChannelPts'' (qs_number ch) st = VInt p"
  shows "fold (\<lambda>key cs. let p = qv_toInt (get_value ''UpdateState/ChannelPts'' key st)
              in if p \<noteq> 0 then AList.update (qs_toLongLong key) p cs else cs)
            (map (\<lambda>(ch, p). qs_number ch) chs) acc
       = acc @ filter (\<lambda>(ch, p). p \<noteq> 0) chs"
  using assms
proof (induction chs arbitrary: acc)
  case Nil
  then show ?case by simp
next
  case (Cons c chs)
  obtain ch p where c: "c = (ch, p)" by (cases c)
  have g: "get_value ''UpdateState/ChannelPts'' (qs_number ch) st = VInt p"
    using Cons.prems(2) by (simp add: c)
  show ?case
  proof (cases "p = 0")
    case True
    then show ?thesis using Cons by (simp add: c g)
  next
    case False
    moreover have "AList.update ch p acc = acc @ [(ch, p)]"
      using Cons.prems(1) by (intro AList_update_fresh) (simp add: c)
    ultimately show ?thesis
      using Cons.IH [of "acc @ [(ch, p)]"] Cons.prems by (simp add: c g)
  qed
qed

lemma map_of_channel_entries:
  assumes "distinct (map fst chs)" and "(ch, p) \<in> set chs"
  shows "map_of (map channel_entry chs) (''UpdateState/ChannelPts'', qs_number ch) = Some (VInt p)"
  using assms by (induction chs) (force dest: qs_number_inj)+

lemma get_value_group:
  "g \<noteq> ''UpdateState/ChannelPts'' \<Longrightarrow>
   get_value g k (remove_group ''UpdateState/ChannelPts'' st @ map channel_entry chs) = get_value g k st"
proof -
  assume g: "g \<noteq> ''UpdateState/ChannelPts''"
  have "map_of (map channel_entry chs) (g, k) = None"
    using g by (induction chs) auto
  moreover have "map_of (remove_group ''UpdateState/ChannelPts'' st) (g, k) = map_of st (g, k)"
    using g by (induction st) (auto simp: remove_group_def)
  ultimately show ?thesis by (simp add: get_value_def map_add_def split: option.splits)
qed

lemma get_value_channel:
  assumes "distinct (map fst chs)" and "(ch, p) \<in> set chs"
  shows "get_value ''UpdateState/ChannelPts'' (qs_number ch)
           (remove_group ''UpdateState/ChannelPts'' st @ map channel_entry chs) = VInt p"
proof -
  have "map_of (remove_group ''UpdateState/ChannelPts'' st) (''UpdateState/ChannelPts'', qs_number ch) = None"
    by (induction st) (auto simp: remove_group_def)
  then show ?thesis
    using map_of_channel_entries [OF assms] by (simp add: get_value_def map_add_def split: option.splits)
qed

lemma child_keys_saved:
  "child_keys ''UpdateState/ChannelPts''
     (remove_group ''UpdateState/ChannelPts'' st @ map channel_entry chs)
   = map (\<lambda>(ch, p). qs_number ch) chs"
proof -
  have "filter (\<lambda>((g', k), v). g' = ''UpdateState/ChannelPts'')
      (remove_group ''UpdateState/ChannelPts'' st) = []"
    by (auto simp: remove_group_def filter_empty_conv)
  moreover have "filter (\<lambda>((g', k), v). g' = ''UpdateState/ChannelPts'') (map channel_entry chs)
      = map channel_entry chs"
    by (auto simp: filter_id_conv)
  ultimately show ?thesis by (simp add: child_keys_def comp_def case_prod_unfold)
qed

lemma us_save_eq:
  assumes "distinct (map fst (us_channelPts u))"
  obtains st' where "us_save u st = remove_group ''UpdateState/ChannelPts'' st' @ map channel_entry (us_channelPts u)"
    and "get_value ''UpdateState'' (qs ''Pts'') st' = VInt (us_pts u)"
    and "get_value ''UpdateState'' (qs ''Qts'') st' = VInt (us_qts u)"
    and "get_value ''UpdateState'' (qs ''Date'') st' = VInt (us_date u)"
    and "get_value ''UpdateState'' (qs ''Seq'') st' = VInt (us_seq u)"
proof -
  define st' where "st' = set_value ''UpdateState'' (qs ''Seq'') (VInt (us_seq u))
                 (set_value ''UpdateState'' (qs ''Date'') (VInt (us_date u))
                   (set_value ''UpdateState'' (qs ''Qts'') (VInt (us_qts u))
                     (set_value ''UpdateState'' (qs ''Pts'') (VInt (us_pts u)) st)))"
  have "us_save u st = remove_group ''UpdateState/ChannelPts'' st' @ map channel_entry (us_channelPts u)"
    unfolding us_save_def Let_def st'_def [symmetric]
    by (rule save_channels [OF assms]) (auto simp: remove_group_def)
  then show ?thesis
    by (rule that) (simp_all add: st'_def get_value_def set_value_def update_conv' qs_def)
qed

lemma us_load_save:
  assumes "distinct (map fst (us_channelPts u))"
  shows "us_load (us_save u st) v =
     u\<lparr>us_valid := (us_pts u \<noteq> 0), us_channelPts := filter (\<lambda>(ch, p). p \<noteq> 0) (us_channelPts u)\<rparr>"
proof -
  obtain st' where e: "us_save u st = remove_group ''UpdateState/ChannelPts'' st' @ map channel_entry (us_channelPts u)"
    and g: "get_value ''UpdateState'' (qs ''Pts'') st' = VInt (us_pts u)"
    "get_value ''UpdateState'' (qs ''Qts'') st' = VInt (us_qts u)"
    "get_value ''UpdateState'' (qs ''Date'') st' = VInt (us_date u)"
    "get_value ''UpdateState'' (qs ''Seq'') st' = VInt (us_seq u)"
    using us_save_eq [OF assms] by blast
  have "fold (\<lambda>key cs. let p = qv_toInt (get_value ''UpdateState/ChannelPts'' key (us_save u st))
              in if p \<noteq> 0 then AList.update (qs_toLongLong key) p cs else cs)
            (child_keys ''UpdateState/ChannelPts'' (us_save u st)) []
       = filter (\<lambda>(ch, p). p \<noteq> 0) (us_channelPts u)"
    unfolding e child_keys_saved
    using load_channels [of "[]" "us_channelPts u"] assms
    by (simp add: get_value_channel)
  moreover have "get_value ''UpdateState'' k (us_save u st) = get_value ''UpdateState'' k st'" for k
    unfolding e by (rule get_value_group) simp
  ultimately show ?thesis
    by (simp add: us_load_def Let_def g)
qed

end
