(* ===== verification/Updates.thy ===== *)
theory Updates
  imports UpdatesState "HOL-Library.Sublist" "HOL-Library.Multiset"
begin

section \<open>The update pipeline: libkg/tgupdates.cpp, libkg/tgc_updates.cpp\<close>

text \<open>
  The class \<open>TgUpdatesManager\<close>: one record for its members, one definition per method.
  The client it talks to is represented by what the manager calls on it: requests and
  dispatches are appended to the log \<open>m_out\<close> in the order of the calls, the message id
  of the n-th request is \<open>m_newid n\<close> (it comes from the transport), the two settings
  objects are the store \<open>m_settings\<close>, and the clock behind \<open>_lastSave\<close> is \<open>m_elapsed\<close>,
  the milliseconds since it was restarted. The slots behind the dispatched signals do not
  call back into the manager.
\<close>

subsection \<open>Constructor ids\<close>

definition Channel :: i32 where "Channel = - 727763770"
definition ChannelForbidden :: i32 where "ChannelForbidden = 399807445"
definition UpdateNewMessage :: i32 where "UpdateNewMessage = 522914557"
definition UpdateNewChannelMessage :: i32 where "UpdateNewChannelMessage = 1656358105"
definition UpdateChannelTooLong :: i32 where "UpdateChannelTooLong = 277713951"
definition UpdatesDifferenceEmpty :: i32 where "UpdatesDifferenceEmpty = 1567990072"
definition UpdatesDifference :: i32 where "UpdatesDifference = 16030880"
definition UpdatesDifferenceSlice :: i32 where "UpdatesDifferenceSlice = - 1459938943"
definition UpdatesDifferenceTooLong :: i32 where "UpdatesDifferenceTooLong = 1258196845"
definition UpdatesTooLong :: i32 where "UpdatesTooLong = - 484987010"
definition UpdateShortMessage :: i32 where "UpdateShortMessage = 826001400"
definition UpdateShortChatMessage :: i32 where "UpdateShortChatMessage = 1299050149"
definition UpdateShort :: i32 where "UpdateShort = 2027216577"
definition UpdatesCombined :: i32 where "UpdatesCombined = 1918567619"
definition UpdatesCtor :: i32 where "UpdatesCtor = 1957577280"
definition UpdateShortSentMessage :: i32 where "UpdateShortSentMessage = - 1877614335"
definition InputChannel :: i32 where "InputChannel = - 212145112"
definition UpdatesChannelDifferenceEmpty :: i32 where "UpdatesChannelDifferenceEmpty = 1041346555"
definition UpdatesChannelDifferenceTooLong :: i32 where "UpdatesChannelDifferenceTooLong = - 1531132162"
definition UpdatesChannelDifference :: i32 where "UpdatesChannelDifference = 543450958"
definition ChannelMessagesFilterEmpty :: i32 where "ChannelMessagesFilterEmpty = - 1798033689"
definition UpdatesGetStateMethod :: i32 where "UpdatesGetStateMethod = - 304838614"
definition UpdatesGetDifferenceMethod :: i32 where "UpdatesGetDifferenceMethod = 432207715"
definition UpdatesGetChannelDifferenceMethod :: i32 where "UpdatesGetChannelDifferenceMethod = 51854712"

lemmas upd_ctor_defs =
  Channel_def ChannelForbidden_def UpdateNewMessage_def UpdateNewChannelMessage_def
  UpdateChannelTooLong_def UpdatesDifferenceEmpty_def UpdatesDifference_def
  UpdatesDifferenceSlice_def UpdatesDifferenceTooLong_def UpdatesTooLong_def
  UpdateShortMessage_def UpdateShortChatMessage_def UpdateShort_def UpdatesCombined_def
  UpdatesCtor_def UpdateShortSentMessage_def InputChannel_def UpdatesChannelDifferenceEmpty_def
  UpdatesChannelDifferenceTooLong_def UpdatesChannelDifference_def ChannelMessagesFilterEmpty_def
  UpdatesGetStateMethod_def UpdatesGetDifferenceMethod_def UpdatesGetChannelDifferenceMethod_def

definition MaxChannelPolls :: nat where "MaxChannelPolls = 10"
definition MaxPending :: nat where "MaxPending = 64"
definition DifferenceLimit :: i32 where "DifferenceLimit = 100"
definition SaveIntervalMs :: nat where "SaveIntervalMs = 30000"

subsection \<open>State\<close>

record pending =
  pd_update :: tgobject
  pd_users :: "variant list"
  pd_chats :: "variant list"
  pd_messageId :: i64
  pd_channelId :: i64
  pd_pts :: i32
  pd_ptsCount :: i32
  pd_date :: i32
  pd_shortForm :: bool
  pd_parkedAt :: i32

datatype event =
    Request tgobject i64
  | GotUpdate tgobject "variant list" "variant list" i32
  | GotMessageUpdate tgobject i64
  | StateChanged i32 i32 i32 i32
  | UpdatesReset
  | ChannelReset i64

record manager =
  m_state :: updstate
  m_stateReq :: i64
  m_diffReq :: i64
  m_chanReq :: "(i64 \<times> i64) list"
  m_affected :: "(i64 \<times> i64) list"
  m_queue :: "i64 list"
  m_hash :: "(i64 \<times> i64) list"
  m_pending :: "pending list"
  m_timer :: bool
  m_tick :: i32
  m_elapsed :: nat
  m_settings :: settings
  m_authorized :: bool
  m_newid :: "nat \<Rightarrow> i64"
  m_sent :: nat
  m_out :: "event list"

definition manager_new :: "settings \<Rightarrow> (nat \<Rightarrow> i64) \<Rightarrow> manager" where
  "manager_new st newid =
     \<lparr>m_state = us_load st us_init, m_stateReq = 0, m_diffReq = 0, m_chanReq = [],
      m_affected = [], m_queue = [], m_hash = [], m_pending = [], m_timer = False,
      m_tick = 0, m_elapsed = 0, m_settings = st, m_authorized = False, m_newid = newid,
      m_sent = 0, m_out = []\<rparr>"

definition emit_event :: "event \<Rightarrow> manager \<Rightarrow> manager" where
  "emit_event e m = m\<lparr>m_out := m_out m @ [e]\<rparr>"

text \<open>\<open>TgClient::sendObject\<close> as the manager sees it: the request leaves, an id comes back.\<close>

definition send :: "tgobject \<Rightarrow> manager \<Rightarrow> i64 \<times> manager" where
  "send req m = (let i = m_newid m (m_sent m)
                 in (i, m\<lparr>m_sent := m_sent m + 1, m_out := m_out m @ [Request req i]\<rparr>))"

definition save :: "manager \<Rightarrow> manager" where
  "save m = (if us_valid (m_state m)
             then m\<lparr>m_settings := us_save (m_state m) (m_settings m), m_elapsed := 0\<rparr> else m)"

definition maybeSave :: "manager \<Rightarrow> manager" where
  "maybeSave m = (if m_elapsed m \<ge> SaveIntervalMs then save m else m)"

definition publishState :: "manager \<Rightarrow> manager" where
  "publishState m =
     (let u = m_state m
      in emit_event (StateChanged (us_pts u) (us_qts u) (us_date u) (us_seq u)) m)"

subsection \<open>Requests\<close>

definition updatesGetState :: tgobject where
  "updatesGetState = [(''_'', VInt UpdatesGetStateMethod)]"

definition updatesGetDifference :: "i32 \<Rightarrow> i32 \<Rightarrow> i32 \<Rightarrow> tgobject" where
  "updatesGetDifference pts date qts =
     [(''_'', VInt UpdatesGetDifferenceMethod), (''pts'', VInt pts),
      (''date'', VInt (if date \<noteq> 0 then date else 1)), (''qts'', VInt (if qts \<noteq> 0 then qts else 1))]"

definition updatesGetChannelDifference :: "tgobject \<Rightarrow> i32 \<Rightarrow> i32 \<Rightarrow> bool \<Rightarrow> tgobject" where
  "updatesGetChannelDifference inputChannel pts limit force =
     [(''_'', VInt UpdatesGetChannelDifferenceMethod)] @
     (if force then [(''force'', VBool True)] else []) @
     [(''channel'', VMap inputChannel),
      (''filter'', VMap [(''_'', VInt ChannelMessagesFilterEmpty)]),
      (''pts'', VInt pts), (''limit'', VInt limit)]"

definition requestState :: "manager \<Rightarrow> manager" where
  "requestState m =
     (if m_stateReq m \<noteq> 0 then m
      else let (i, m1) = send updatesGetState m in m1\<lparr>m_stateReq := i\<rparr>)"

definition requestDifference :: "manager \<Rightarrow> manager" where
  "requestDifference m =
     (if \<not> us_valid (m_state m) then requestState m
      else if m_diffReq m \<noteq> 0 then m
      else let u = m_state m;
               (i, m1) = send (updatesGetDifference (us_pts u) (us_date u) (us_qts u)) m
           in m1\<lparr>m_diffReq := i\<rparr>)"

definition requestChannelDifference :: "i64 \<Rightarrow> manager \<Rightarrow> manager" where
  "requestChannelDifference ch m =
     (case map_of (m_hash m) ch of
        None \<Rightarrow> m
      | Some h \<Rightarrow>
          let inputChannel = [(''_'', VInt InputChannel), (''channel_id'', VLong ch),
                              (''access_hash'', VLong h)];
              (i, m1) = send (updatesGetChannelDifference inputChannel
                           (us_channel_pts ch (m_state m)) DifferenceLimit False) m
          in if i \<noteq> 0 then m1\<lparr>m_chanReq := AList.update i ch (m_chanReq m1)\<rparr> else m1)"

text \<open>The \<open>while\<close> loop of \<open>pumpChannelQueue\<close>: one iteration takes one queued channel.\<close>

lemma queue_requestChannelDifference [simp]:
  "m_queue (requestChannelDifference ch m) = m_queue m"
  by (auto simp: requestChannelDifference_def send_def Let_def split: option.splits)

function pumpChannelQueue :: "manager \<Rightarrow> manager" where
  "pumpChannelQueue m =
     (if m_queue m \<noteq> [] \<and> length (m_chanReq m) < MaxChannelPolls
      then pumpChannelQueue
             (requestChannelDifference (hd (m_queue m)) (m\<lparr>m_queue := tl (m_queue m)\<rparr>))
      else m)"
  by pat_completeness auto
termination by (relation "measure (\<lambda>m. length (m_queue m))") auto

declare pumpChannelQueue.simps [simp del]

definition enqueueChannel :: "i64 \<Rightarrow> manager \<Rightarrow> manager" where
  "enqueueChannel ch m =
     (if ch = 0 then m
      else if ch \<in> set (map snd (m_chanReq m)) \<or> ch \<in> set (m_queue m) then m
      else pumpChannelQueue (m\<lparr>m_queue := m_queue m @ [ch]\<rparr>))"

definition rememberChat :: "tgobject \<Rightarrow> manager \<Rightarrow> manager" where
  "rememberChat chat m =
     (if objID chat \<noteq> Channel \<and> objID chat \<noteq> ChannelForbidden then m
      else if \<not> obj_has chat ''access_hash'' then m
      else m\<lparr>m_hash := AList.update (qv_toLongLong (obj_get chat ''id''))
                       (qv_toLongLong (obj_get chat ''access_hash'')) (m_hash m)\<rparr>)"

definition rememberChats :: "variant list \<Rightarrow> manager \<Rightarrow> manager" where
  "rememberChats chats m = fold (\<lambda>c. rememberChat (qv_toMap c)) chats m"

subsection \<open>The pending queue\<close>

definition emitOne :: "tgobject \<Rightarrow> variant list \<Rightarrow> variant list \<Rightarrow> i32 \<Rightarrow> i64 \<Rightarrow> bool \<Rightarrow> manager \<Rightarrow> manager" where
  "emitOne update users chats date mid shortForm m =
     (if shortForm then emit_event (GotMessageUpdate update mid) m
      else emit_event (GotUpdate update users chats date) m)"

definition park :: "tgobject \<Rightarrow> variant list \<Rightarrow> variant list \<Rightarrow> i64 \<Rightarrow> i32 \<Rightarrow> i32 \<Rightarrow> i32 \<Rightarrow> i64 \<Rightarrow> bool
    \<Rightarrow> manager \<Rightarrow> manager" where
  "park update users chats ch pts ptsCount date mid shortForm m =
     (if length (m_pending m) \<ge> MaxPending
      then requestDifference (m\<lparr>m_pending := []\<rparr>)
      else let item = \<lparr>pd_update = update, pd_users = users, pd_chats = chats, pd_messageId = mid,
                       pd_channelId = ch, pd_pts = pts, pd_ptsCount = ptsCount, pd_date = date,
                       pd_shortForm = shortForm, pd_parkedAt = m_tick m\<rparr>
           in m\<lparr>m_pending := m_pending m @ [item], m_timer := True\<rparr>)"

definition item_check :: "updstate \<Rightarrow> pending \<Rightarrow> verdict" where
  "item_check u p = us_check (pd_channelId p) (pd_pts p) (pd_ptsCount p) u"

definition remove_at :: "nat \<Rightarrow> 'a list \<Rightarrow> 'a list" where
  "remove_at i xs = take i xs @ drop (Suc i) xs"

definition apply_item :: "pending \<Rightarrow> manager \<Rightarrow> manager" where
  "apply_item p m =
     emitOne (pd_update p) (pd_users p) (pd_chats p) (pd_date p) (pd_messageId p) (pd_shortForm p)
       (m\<lparr>m_state := us_advance (pd_channelId p) (pd_pts p) (m_state m)\<rparr>)"

lemma m_pending_apply_item [simp]: "m_pending (apply_item p m) = m_pending m"
  by (simp add: apply_item_def emitOne_def emit_event_def)

text \<open>
  The \<open>for\<close> loop of \<open>drainPending\<close> from index \<open>i\<close>, with the flag \<open>progress\<close>; and the \<open>while\<close>
  loop around it.
\<close>

function drain_pass :: "nat \<Rightarrow> bool \<Rightarrow> manager \<Rightarrow> bool \<times> manager" where
  "drain_pass i progress m =
     (if i < length (m_pending m)
      then let item = m_pending m ! i
           in case item_check (m_state m) item of
                Gap \<Rightarrow> drain_pass (Suc i) progress m
              | Duplicate \<Rightarrow> drain_pass i True (m\<lparr>m_pending := remove_at i (m_pending m)\<rparr>)
              | Apply \<Rightarrow> drain_pass i True
                           (apply_item item (m\<lparr>m_pending := remove_at i (m_pending m)\<rparr>))
      else (progress, m))"
  by pat_completeness auto
termination
  by (relation "measure (\<lambda>(i, p, m). length (m_pending m) - i)") (auto simp: remove_at_def)

declare drain_pass.simps [simp del]

lemma drain_pass_shrinks:
  "length (m_pending (snd (drain_pass i p m))) \<le> length (m_pending m) \<and>
   (fst (drain_pass i p m) \<longrightarrow> p \<or> length (m_pending (snd (drain_pass i p m))) < length (m_pending m))"
proof (induction i p m rule: drain_pass.induct)
  case (1 i p m)
  show ?case
  proof (cases "i < length (m_pending m)")
    case False
    then show ?thesis by (simp add: drain_pass.simps [of i p m])
  next
    case True
    then have l: "length (remove_at i (m_pending m)) < length (m_pending m)"
      by (simp add: remove_at_def)
    show ?thesis
      using True l 1 [OF True refl]
      by (cases "item_check (m_state m) (m_pending m ! i)")
        (auto simp: drain_pass.simps [of i p m] Let_def)
  qed
qed

function drain_loop :: "manager \<Rightarrow> manager" where
  "drain_loop m = (let r = drain_pass 0 False m in if fst r then drain_loop (snd r) else snd r)"
  by pat_completeness auto
termination
proof (relation "measure (\<lambda>m. length (m_pending m))")
  show "wf (measure (\<lambda>m. length (m_pending m)))" by simp
  fix m r
  assume "r = drain_pass 0 False m" "fst r"
  then show "(snd r, m) \<in> measure (\<lambda>m. length (m_pending m))"
    using drain_pass_shrinks [of 0 False m] by auto
qed

declare drain_loop.simps [simp del]

definition stop_if_empty :: "manager \<Rightarrow> manager" where
  "stop_if_empty m = (if m_pending m = [] then m\<lparr>m_timer := False\<rparr> else m)"

definition drainPending :: "manager \<Rightarrow> manager" where
  "drainPending m = (if m_pending m = [] then m else stop_if_empty (drain_loop m))"

text \<open>The loop of \<open>expirePending\<close> removes the items parked before the current tick.\<close>

definition parked_before :: "i32 \<Rightarrow> pending \<Rightarrow> bool" where
  "parked_before tick p \<longleftrightarrow> \<not> sint (tick - pd_parkedAt p) < 1"

definition expirePending :: "manager \<Rightarrow> manager" where
  "expirePending m =
     (if filter (parked_before (m_tick m)) (m_pending m) = [] then m
      else stop_if_empty (requestDifference
             (m\<lparr>m_pending := filter (\<lambda>p. \<not> parked_before (m_tick m) p) (m_pending m)\<rparr>)))"

definition dropPending :: "i64 \<Rightarrow> manager \<Rightarrow> manager" where
  "dropPending ch m =
     stop_if_empty (m\<lparr>m_pending := filter (\<lambda>p. pd_channelId p \<noteq> ch) (m_pending m)\<rparr>)"

definition clearPending :: "manager \<Rightarrow> manager" where
  "clearPending m = m\<lparr>m_pending := [], m_timer := False\<rparr>"

text \<open>The timer event of the gap timer; other timer ids are ignored.\<close>

definition timerEvent :: "bool \<Rightarrow> manager \<Rightarrow> manager" where
  "timerEvent own m = (if own then expirePending (m\<lparr>m_tick := m_tick m + 1\<rparr>) else m)"

subsection \<open>Ingress\<close>

definition applyOne :: "tgobject \<Rightarrow> variant list \<Rightarrow> variant list \<Rightarrow> i32 \<Rightarrow> i64 \<Rightarrow> bool \<Rightarrow> manager \<Rightarrow> manager" where
  "applyOne update users chats date mid shortForm m =
     (let ch = channelIdOf update
      in if objID update = UpdateChannelTooLong then enqueueChannel ch (dropPending ch m)
         else if \<not> hasPts update then emitOne update users chats date mid shortForm m
         else let pts = qv_toInt (obj_get update ''pts'');
                  ptsCount = qv_toInt (obj_get update ''pts_count'')
              in if \<not> us_valid (m_state m)
                 then requestState (park update users chats ch pts ptsCount date mid shortForm m)
                 else case us_check ch pts ptsCount (m_state m) of
                        Apply \<Rightarrow>
                          let m1 = emitOne update users chats date mid shortForm
                                     (m\<lparr>m_state := us_advance ch pts (m_state m)\<rparr>);
                              m2 = (if ch = 0 then publishState m1 else m1)
                          in drainPending (maybeSave m2)
                      | Duplicate \<Rightarrow> m
                      | Gap \<Rightarrow>
                          let m1 = park update users chats ch pts ptsCount date mid shortForm m
                          in if ch \<noteq> 0 then enqueueChannel ch m1 else requestDifference m1)"

definition applyAll :: "variant list \<Rightarrow> variant list \<Rightarrow> variant list \<Rightarrow> i32 \<Rightarrow> i64 \<Rightarrow> manager \<Rightarrow> manager" where
  "applyAll updates users chats date mid m =
     fold (\<lambda>u. applyOne (qv_toMap u) users chats date mid False) updates m"

definition processUpdates :: "tgobject \<Rightarrow> i64 \<Rightarrow> manager \<Rightarrow> manager" where
  "processUpdates updates mid m0 =
     (let users = qv_toList (obj_get updates ''users'');
          chats = qv_toList (obj_get updates ''chats'');
          m = rememberChats chats m0;
          date = qv_toInt (obj_get updates ''date'')
      in if objID updates = UpdatesTooLong then requestDifference m
         else if objID updates = UpdateShort
         then applyOne (qv_toMap (obj_get updates ''update'')) [] [] date mid False
                (m\<lparr>m_state := us_setDate date (m_state m)\<rparr>)
         else if objID updates = UpdatesCtor \<or> objID updates = UpdatesCombined
         then let seq = qv_toInt (obj_get updates ''seq'');
                  seqStart = qv_toInt (obj_get updates ''seq_start'');
                  list = qv_toList (obj_get updates ''updates'')
              in case us_checkSeq seqStart seq (m_state m) of
                   SeqDuplicate \<Rightarrow> m
                 | SeqGap \<Rightarrow> requestDifference m
                 | SeqApply \<Rightarrow> applyAll list users chats date mid
                                (m\<lparr>m_state := us_advanceSeq seq date (m_state m)\<rparr>)
                 | SeqIgnore \<Rightarrow> applyAll list users chats date mid
                                (m\<lparr>m_state := us_setDate date (m_state m)\<rparr>)
         else if objID updates = UpdateShortMessage \<or> objID updates = UpdateShortChatMessage
                 \<or> objID updates = UpdateShortSentMessage
         then applyOne updates [] [] date mid True m
         else m)"

subsection \<open>Lifecycle\<close>

definition authorized :: "manager \<Rightarrow> manager" where
  "authorized m = (if \<not> us_valid (m_state m) then requestState m else requestDifference m)"

definition initialized :: "manager \<Rightarrow> manager" where
  "initialized m =
     (if \<not> m_authorized m then m
      else if us_valid (m_state m) then requestDifference m else requestState m)"

definition disconnected :: "manager \<Rightarrow> manager" where
  "disconnected m = save (m\<lparr>m_stateReq := 0, m_diffReq := 0, m_chanReq := []\<rparr>)"

definition messageChanged :: "i64 \<Rightarrow> i64 \<Rightarrow> manager \<Rightarrow> manager" where
  "messageChanged old new m =
     (let m1 = (if m_stateReq m = old then m\<lparr>m_stateReq := new\<rparr> else m);
          m2 = (if m_diffReq m1 = old then m1\<lparr>m_diffReq := new\<rparr> else m1)
      in case map_of (m_chanReq m2) old of
           None \<Rightarrow> m2
         | Some ch \<Rightarrow> m2\<lparr>m_chanReq := AList.update new ch (AList.delete old (m_chanReq m2))\<rparr>)"

subsection \<open>Replies\<close>

definition wrapNewMessage :: "tgobject \<Rightarrow> tgobject" where
  "wrapNewMessage message =
     (let peer = qv_toMap (obj_get message ''peer_id'')
      in [(''_'', VInt (if objID peer = PeerChannel then UpdateNewChannelMessage else UpdateNewMessage)),
          (''message'', VMap message)])"

definition apply_other :: "variant list \<Rightarrow> variant list \<Rightarrow> i32 \<Rightarrow> tgobject \<Rightarrow> manager \<Rightarrow> manager" where
  "apply_other users chats date update m =
     (let m1 = (if hasPts update \<and> channelIdOf update \<noteq> 0
                then m\<lparr>m_state := us_advance (channelIdOf update)
                         (qv_toInt (obj_get update ''pts'')) (m_state m)\<rparr>
                else m)
      in emit_event (GotUpdate update users chats date) m1)"

definition applyDifferenceBody :: "tgobject \<Rightarrow> manager \<Rightarrow> manager" where
  "applyDifferenceBody difference m0 =
     (let users = qv_toList (obj_get difference ''users'');
          chats = qv_toList (obj_get difference ''chats'');
          m = rememberChats chats m0;
          date = us_date (m_state m);
          m1 = fold (\<lambda>v. emit_event (GotUpdate (wrapNewMessage (qv_toMap v)) users chats date))
                 (qv_toList (obj_get difference ''new_messages'')) m
      in fold (\<lambda>v. apply_other users chats date (qv_toMap v))
           (qv_toList (obj_get difference ''other_updates'')) m1)"

definition reset_to :: "tgobject \<Rightarrow> manager \<Rightarrow> manager" where
  "reset_to st m =
     m\<lparr>m_state := us_reset (qv_toInt (obj_get st ''pts'')) (qv_toInt (obj_get st ''qts''))
         (qv_toInt (obj_get st ''date'')) (qv_toInt (obj_get st ''seq'')) (m_state m)\<rparr>"

definition handleState :: "tgobject \<Rightarrow> i64 \<Rightarrow> manager \<Rightarrow> bool \<times> manager" where
  "handleState st mid m =
     (if m_stateReq m = 0 \<or> m_stateReq m \<noteq> mid then (True, m)
      else let m1 = m\<lparr>m_stateReq := 0\<rparr>
           in if objEMPTY st then (True, m1)
              else (True, drainPending (publishState (save (reset_to st m1)))))"

definition handleDifference :: "tgobject \<Rightarrow> i64 \<Rightarrow> manager \<Rightarrow> bool \<times> manager" where
  "handleDifference difference mid m0 =
     (if m_diffReq m0 = 0 \<or> m_diffReq m0 \<noteq> mid then (True, m0)
      else let m = m0\<lparr>m_diffReq := 0\<rparr>
      in if objEMPTY difference then (True, requestState m)
         else if objID difference = UpdatesDifferenceEmpty
         then (True, drainPending (m\<lparr>m_state := us_advanceSeq (qv_toInt (obj_get difference ''seq''))
                       (qv_toInt (obj_get difference ''date'')) (m_state m)\<rparr>))
         else if objID difference = UpdatesDifference \<or> objID difference = UpdatesDifferenceSlice
         then let m1 = applyDifferenceBody difference m;
                  newState = (if obj_has difference ''intermediate_state''
                              then qv_toMap (obj_get difference ''intermediate_state'')
                              else qv_toMap (obj_get difference ''state''));
                  m2 = drainPending (publishState (save (reset_to newState m1)))
              in (True, if objID difference = UpdatesDifferenceSlice then requestDifference m2 else m2)
         else if objID difference = UpdatesDifferenceTooLong
         then let m1 = clearPending m;
                  m2 = m1\<lparr>m_state := us_clearChannels
                             (us_setPts (qv_toInt (obj_get difference ''pts'')) (m_state m1)),
                           m_queue := []\<rparr>
              in (True, emit_event UpdatesReset (save m2))
         else (True, m))"

definition handleChannelDifference :: "tgobject \<Rightarrow> i64 \<Rightarrow> manager \<Rightarrow> bool \<times> manager" where
  "handleChannelDifference difference mid m0 =
     (case map_of (m_chanReq m0) mid of
        None \<Rightarrow> (True, m0)
      | Some ch \<Rightarrow>
          let m = m0\<lparr>m_chanReq := AList.delete mid (m_chanReq m0)\<rparr>
          in if objEMPTY difference then (True, pumpChannelQueue m)
             else let m1 =
               (if objID difference = UpdatesChannelDifferenceEmpty
                then m\<lparr>m_state := us_setChannelPts ch (qv_toInt (obj_get difference ''pts'')) (m_state m)\<rparr>
                else if objID difference = UpdatesChannelDifference
                then let b = applyDifferenceBody difference m;
                         b1 = b\<lparr>m_state := us_setChannelPts ch
                                  (qv_toInt (obj_get difference ''pts'')) (m_state b)\<rparr>
                     in if \<not> qv_toBool (obj_get difference ''final'')
                        then b1\<lparr>m_queue := m_queue b1 @ [ch]\<rparr> else b1
                else if objID difference = UpdatesChannelDifferenceTooLong
                then let dialog = qv_toMap (obj_get difference ''dialog'');
                         b = rememberChats (qv_toList (obj_get difference ''chats'')) m;
                         b1 = b\<lparr>m_state := us_setChannelPts ch
                                  (qv_toInt (obj_get dialog ''pts'')) (m_state b)\<rparr>
                     in emit_event (ChannelReset ch) (dropPending ch b1)
                else m)
             in (True, pumpChannelQueue (drainPending (save m1))))"

definition expectAffected :: "i64 \<Rightarrow> i64 \<Rightarrow> manager \<Rightarrow> manager" where
  "expectAffected mid ch m =
     (if mid \<noteq> 0 then m\<lparr>m_affected := AList.update mid ch (m_affected m)\<rparr> else m)"

definition handleAffected :: "tgobject \<Rightarrow> i64 \<Rightarrow> manager \<Rightarrow> bool \<times> manager" where
  "handleAffected affected mid m0 =
     (case map_of (m_affected m0) mid of
        None \<Rightarrow> (False, m0)
      | Some ch \<Rightarrow>
          let m = m0\<lparr>m_affected := AList.delete mid (m_affected m0)\<rparr>;
              pts = qv_toInt (obj_get affected ''pts'');
              ptsCount = qv_toInt (obj_get affected ''pts_count'')
          in case us_check ch pts ptsCount (m_state m) of
               Apply \<Rightarrow>
                 let m1 = maybeSave (m\<lparr>m_state := us_advance ch pts (m_state m)\<rparr>);
                     m2 = (if ch = 0 then publishState m1 else m1)
                 in (True, drainPending m2)
             | Duplicate \<Rightarrow> (True, m)
             | Gap \<Rightarrow> (True, if ch = 0 then requestDifference m else enqueueChannel ch m))"

definition handleRpcError :: "qstring \<Rightarrow> i64 \<Rightarrow> manager \<Rightarrow> bool \<times> manager" where
  "handleRpcError msg mid m =
     (if m_stateReq m = mid then (True, m\<lparr>m_stateReq := 0\<rparr>)
      else if m_diffReq m = mid
      then let m1 = m\<lparr>m_diffReq := 0\<rparr>
           in (True, if qs_startsWith msg (qs ''PERSISTENT_TIMESTAMP'')
                     then requestState (clearPending (m1\<lparr>m_state := us_clear (m_state m1)\<rparr>))
                     else m1)
      else case map_of (m_chanReq m) mid of
             None \<Rightarrow> (False, m)
           | Some ch \<Rightarrow>
               let m1 = m\<lparr>m_chanReq := AList.delete mid (m_chanReq m)\<rparr>;
                   m2 = (if qs_startsWith msg (qs ''CHANNEL_PRIVATE'') \<or> qs_startsWith msg (qs ''CHANNEL_INVALID'')
                         then dropPending ch (m1\<lparr>m_state := us_forgetChannel ch (m_state m1),
                                                m_hash := AList.delete ch (m_hash m1)\<rparr>)
                         else m1)
               in (True, pumpChannelQueue m2))"

subsection \<open>The manager as a state machine\<close>

text \<open>One step for every entry point; \<open>elapse\<close> is the clock and the authorization of the client.\<close>

inductive mstep :: "manager \<Rightarrow> manager \<Rightarrow> bool" where
  st_authorized: "mstep m (authorized m)"
| st_initialized: "mstep m (initialized m)"
| st_disconnected: "mstep m (disconnected m)"
| st_messageChanged: "mstep m (messageChanged old new m)"
| st_processUpdates: "mstep m (processUpdates u mid m)"
| st_timerEvent: "mstep m (timerEvent own m)"
| st_handleState: "mstep m (snd (handleState st mid m))"
| st_handleDifference: "mstep m (snd (handleDifference d mid m))"
| st_handleChannelDifference: "mstep m (snd (handleChannelDifference d mid m))"
| st_handleAffected: "mstep m (snd (handleAffected a mid m))"
| st_handleRpcError: "mstep m (snd (handleRpcError msg mid m))"
| st_expectAffected: "mstep m (expectAffected mid ch m)"
| st_save: "mstep m (save m)"
| st_elapse: "mstep m (m\<lparr>m_elapsed := m_elapsed m + ms, m_authorized := a\<rparr>)"

inductive reachable :: "manager \<Rightarrow> bool" where
  reach_new: "reachable (manager_new st newid)"
| reach_step: "reachable m \<Longrightarrow> mstep m m' \<Longrightarrow> reachable m'"

end
