(* ===== verification/UpdatesInv.thy ===== *)
theory UpdatesInv
  imports Updates
begin

section \<open>Invariants of the update pipeline\<close>

subsection \<open>What each helper leaves alone\<close>

text \<open>
  The part of the manager the bookkeeping invariant reads: the pending items, the timer,
  the tick, the requests in flight and the queue of channels.
\<close>

definition book :: "manager \<Rightarrow> pending list \<times> bool \<times> i32 \<times> (i64 \<times> i64) list \<times> i64 list" where
  "book m = (m_pending m, m_timer m, m_tick m, m_chanReq m, m_queue m)"

named_theorems frame_simps

lemma frame_emit [frame_simps]:
  "book (emit_event e m) = book m" "m_state (emit_event e m) = m_state m"
  by (simp_all add: emit_event_def book_def)

lemma frame_send [frame_simps]:
  "book (snd (send r m)) = book m" "m_state (snd (send r m)) = m_state m"
  by (simp_all add: send_def Let_def book_def)

lemma frame_save [frame_simps]:
  "book (save m) = book m" "m_state (save m) = m_state m"
  "book (maybeSave m) = book m" "m_state (maybeSave m) = m_state m"
  by (simp_all add: save_def maybeSave_def book_def)

lemma frame_publish [frame_simps]:
  "book (publishState m) = book m" "m_state (publishState m) = m_state m"
  by (simp_all add: publishState_def Let_def frame_simps)

lemma frame_emitOne [frame_simps]:
  "book (emitOne u us cs d i b m) = book m" "m_state (emitOne u us cs d i b m) = m_state m"
  by (simp_all add: emitOne_def frame_simps)

lemma frame_requestState [frame_simps]:
  "book (requestState m) = book m" "m_state (requestState m) = m_state m"
  by (simp_all add: requestState_def send_def Let_def book_def)

lemma frame_requestDifference [frame_simps]:
  "book (requestDifference m) = book m" "m_state (requestDifference m) = m_state m"
  by (simp_all add: requestDifference_def frame_simps) (simp_all add: send_def Let_def book_def)

lemma frame_rememberChats [frame_simps]:
  "book (rememberChats cs m) = book m" "m_state (rememberChats cs m) = m_state m"
  unfolding rememberChats_def
  by (induction cs arbitrary: m) (simp_all add: rememberChat_def book_def)

lemma book_apply_other [frame_simps]: "book (apply_other us cs d u m) = book m"
  by (simp add: apply_other_def Let_def frame_simps) (simp add: book_def)

lemma book_fold:
  "(\<And>x m. book (f x m) = book m) \<Longrightarrow> book (fold f xs m) = book m"
  by (induction xs arbitrary: m) simp_all

lemma book_applyDifferenceBody [frame_simps]: "book (applyDifferenceBody d m) = book m"
  by (simp add: applyDifferenceBody_def Let_def book_fold frame_simps)

lemma book_reset_to [frame_simps]: "book (reset_to st m) = book m"
  by (simp add: reset_to_def book_def)

lemma book_state_update [frame_simps]: "book (m\<lparr>m_state := u\<rparr>) = book m"
  by (simp add: book_def)

lemma book_fields:
  assumes "book m' = book m"
  shows "m_pending m' = m_pending m" "m_timer m' = m_timer m" "m_tick m' = m_tick m"
    "m_chanReq m' = m_chanReq m" "m_queue m' = m_queue m"
  using assms by (simp_all add: book_def)

lemma length_delete_le: "length (AList.delete k al) \<le> length al"
  by (simp add: AList.delete_eq)

lemma length_delete_less: "(k, v) \<in> set al \<Longrightarrow> length (AList.delete k al) < length al"
  by (simp add: AList.delete_eq length_filter_less)

lemma delete_values:
  assumes "distinct (map snd al @ q)"
  shows "distinct (map snd (AList.delete k al) @ q)"
    and "(k, v) \<in> set al \<Longrightarrow> v \<notin> set (map snd (AList.delete k al) @ q)"
proof -
  show "distinct (map snd (AList.delete k al) @ q)"
    using assms
  proof (induction al)
    case (Cons e al)
    have "snd ` set (AList.delete k al) \<subseteq> snd ` set al" by (auto simp: AList.delete_eq)
    then show ?case using Cons by (cases e) auto
  qed simp
  show "v \<notin> set (map snd (AList.delete k al) @ q)" if "(k, v) \<in> set al"
    using assms that
  proof (induction al)
    case (Cons e al)
    have "snd ` set (AList.delete k al) \<subseteq> snd ` set al" by (auto simp: AList.delete_eq)
    moreover have "(k, v) \<in> set al \<Longrightarrow> v \<in> snd ` set al" by force
    ultimately show ?case using Cons by (cases e) auto
  qed simp
qed

subsection \<open>The bookkeeping invariant\<close>

text \<open>
  At most \<open>MaxPending\<close> items are held and at most \<open>MaxChannelPolls\<close> channel requests are in
  flight; an item is only ever held while the gap timer runs and was parked in the current
  tick; no channel is polled or queued twice.
\<close>

definition inv_book :: "pending list \<times> bool \<times> i32 \<times> (i64 \<times> i64) list \<times> i64 list \<Rightarrow> bool" where
  "inv_book = (\<lambda>(pend, timer, tick, req, queue).
     length pend \<le> MaxPending \<and> length req \<le> MaxChannelPolls \<and> (pend \<noteq> [] \<longrightarrow> timer) \<and>
     (\<forall>p \<in> set pend. pd_parkedAt p = tick) \<and> distinct (map snd req @ queue))"

abbreviation inv :: "manager \<Rightarrow> bool" where
  "inv m \<equiv> inv_book (book m)"

named_theorems inv_intro

lemma inv_frames [inv_intro]:
  "inv m \<Longrightarrow> inv (emit_event e m)" "inv m \<Longrightarrow> inv (save m)" "inv m \<Longrightarrow> inv (maybeSave m)"
  "inv m \<Longrightarrow> inv (publishState m)" "inv m \<Longrightarrow> inv (requestState m)"
  "inv m \<Longrightarrow> inv (requestDifference m)" "inv m \<Longrightarrow> inv (rememberChats cs m)"
  "inv m \<Longrightarrow> inv (applyDifferenceBody d m)" "inv m \<Longrightarrow> inv (reset_to st m)"
  "inv m \<Longrightarrow> inv (m\<lparr>m_state := u\<rparr>)" "inv m \<Longrightarrow> inv (emitOne up us cs dt i b m)"
  by (simp_all add: frame_simps)

lemma distinct_update_new:
  assumes "distinct (map snd req @ c # queue)"
  shows "distinct (map snd (AList.update i c req) @ queue)"
  using assms
proof (induction req)
  case Nil
  then show ?case by simp
next
  case (Cons e req)
  have "snd ` set (AList.update i c req) \<subseteq> insert c (snd ` set req)"
    by (induction req) auto
  then show ?case using Cons by (cases e) auto
qed

lemma length_update_le: "length al < n \<Longrightarrow> length (AList.update k v al) \<le> n"
  by (induction al arbitrary: n) (auto, metis Suc_lessE Suc_less_eq Suc_le_mono)

lemma inv_request [inv_intro]:
  assumes "inv (m\<lparr>m_queue := c # q\<rparr>)" and "length (m_chanReq m) < MaxChannelPolls" and "m_queue m = q"
  shows "inv (requestChannelDifference c m)"
  using assms length_update_le [of "m_chanReq m" MaxChannelPolls] distinct_update_new [of "m_chanReq m" c "m_queue m"]
  by (auto simp: requestChannelDifference_def inv_book_def book_def send_def Let_def
      split: option.splits)

lemma inv_pump [inv_intro]: "inv m \<Longrightarrow> inv (pumpChannelQueue m)"
proof (induction m rule: pumpChannelQueue.induct)
  case (1 m)
  show ?case
  proof (cases "m_queue m \<noteq> [] \<and> length (m_chanReq m) < MaxChannelPolls")
    case True
    have "inv (requestChannelDifference (hd (m_queue m)) (m\<lparr>m_queue := tl (m_queue m)\<rparr>))"
      by (rule inv_request [where q = "tl (m_queue m)"]) (use 1 True in \<open>simp_all add: book_def\<close>)
    then show ?thesis using True 1 by (simp add: pumpChannelQueue.simps [of m])
  next
    case False
    then show ?thesis using 1(2) by (auto simp: pumpChannelQueue.simps [of m])
  qed
qed

lemma inv_append_queue:
  "inv m \<Longrightarrow> c \<notin> set (map snd (m_chanReq m)) \<Longrightarrow> c \<notin> set (m_queue m) \<Longrightarrow>
   inv (m\<lparr>m_queue := m_queue m @ [c]\<rparr>)"
  by (auto simp: inv_book_def book_def)

lemma inv_enqueue [inv_intro]: "inv m \<Longrightarrow> inv (enqueueChannel c m)"
  unfolding enqueueChannel_def by (simp add: inv_pump inv_append_queue)

lemma inv_park [inv_intro]: "inv m \<Longrightarrow> inv (park u us cs c p n d i b m)"
  by (auto simp: park_def frame_simps Let_def) (auto simp: inv_book_def book_def)

lemma inv_stop [inv_intro]: "inv m \<Longrightarrow> inv (stop_if_empty m)"
  by (auto simp: stop_if_empty_def inv_book_def book_def)

lemma set_remove_at: "set (remove_at i xs) \<subseteq> set xs"
  by (auto simp: remove_at_def dest: in_set_takeD in_set_dropD)

lemma length_remove_at: "length (remove_at i xs) \<le> length xs"
  by (simp add: remove_at_def)

lemma inv_sub_pending:
  assumes "inv m" and "set xs \<subseteq> set (m_pending m)" and "length xs \<le> length (m_pending m)"
  shows "inv (m\<lparr>m_pending := xs\<rparr>)"
  using assms by (auto simp: inv_book_def book_def)

lemma inv_apply_item [inv_intro]: "inv m \<Longrightarrow> inv (apply_item p m)"
  by (simp add: apply_item_def frame_simps)

lemma inv_drain_pass [inv_intro]: "inv m \<Longrightarrow> inv (snd (drain_pass i p m))"
proof (induction i p m rule: drain_pass.induct)
  case (1 i p m)
  have r: "inv (m\<lparr>m_pending := remove_at i (m_pending m)\<rparr>)"
    using 1(4) by (rule inv_sub_pending) (simp_all add: set_remove_at length_remove_at)
  show ?case
    using 1 r by (cases "i < length (m_pending m)"; cases "item_check (m_state m) (m_pending m ! i)")
      (simp_all add: drain_pass.simps [of i p m] Let_def inv_apply_item)
qed

lemma inv_drain_loop: "inv m \<Longrightarrow> inv (drain_loop m)"
proof (induction m rule: drain_loop.induct)
  case (1 m)
  then show ?case
    by (simp add: drain_loop.simps [of m] Let_def inv_drain_pass)
qed

lemma inv_drain [inv_intro]: "inv m \<Longrightarrow> inv (drainPending m)"
  by (simp add: drainPending_def inv_stop inv_drain_loop)

lemma inv_drop [inv_intro]: "inv m \<Longrightarrow> inv (dropPending c m)"
  unfolding dropPending_def
  by (intro inv_stop inv_sub_pending) (auto simp: length_filter_le)

lemma inv_clear [inv_intro]: "inv m \<Longrightarrow> inv (clearPending m)"
  by (simp add: clearPending_def inv_book_def book_def)

lemma inv_applyOne [inv_intro]: "inv m \<Longrightarrow> inv (applyOne u us cs d i b m)"
  by (auto simp: applyOne_def Let_def intro!: inv_intro split: verdict.split)

lemma inv_applyAll [inv_intro]: "inv m \<Longrightarrow> inv (applyAll l us cs d i m)"
  unfolding applyAll_def by (induction l arbitrary: m) (simp_all add: inv_applyOne)

lemma inv_processUpdates [inv_intro]: "inv m \<Longrightarrow> inv (processUpdates u i m)"
  by (auto simp: processUpdates_def Let_def intro!: inv_intro split: seq_verdict.split)


lemma inv_messageChanged [inv_intro]: "inv m \<Longrightarrow> inv (messageChanged old new m)"
proof -
  assume m: "inv m"
  define m1 where "m1 = (if m_stateReq m = old then m\<lparr>m_stateReq := new\<rparr> else m)"
  define m2 where "m2 = (if m_diffReq m1 = old then m1\<lparr>m_diffReq := new\<rparr> else m1)"
  have b: "book m2 = book m" by (simp add: m2_def m1_def book_def)
  show ?thesis
  proof (cases "map_of (m_chanReq m2) old")
    case None
    then show ?thesis using m b
      by (simp add: messageChanged_def Let_def m1_def [symmetric] m2_def [symmetric])
  next
    case (Some ch)
    then have "(old, ch) \<in> set (m_chanReq m)" using book_fields(4) [OF b] by (auto dest: map_of_SomeD)
    moreover have q: "distinct (map snd (m_chanReq m) @ m_queue m)" "length (m_chanReq m) \<le> MaxChannelPolls"
      using m by (simp_all add: inv_book_def book_def)
    ultimately have d: "distinct (map snd (AList.delete old (m_chanReq m)) @ m_queue m)"
      "ch \<notin> set (map snd (AList.delete old (m_chanReq m)) @ m_queue m)"
      and l: "length (AList.delete old (m_chanReq m)) < MaxChannelPolls"
      using length_delete_less [of old ch "m_chanReq m"] delete_values(1) [OF q(1), of old] delete_values(2) [OF q(1), of old ch]
      by auto
    from d have "distinct (map snd (AList.update new ch (AList.delete old (m_chanReq m))) @ m_queue m)"
      by (intro distinct_update_new) simp
    moreover have "length (AList.update new ch (AList.delete old (m_chanReq m))) \<le> MaxChannelPolls"
      by (rule length_update_le [OF l])
    ultimately show ?thesis
      using m Some b
      by (simp add: messageChanged_def Let_def m1_def [symmetric] m2_def [symmetric])
        (simp add: inv_book_def book_def)
  qed
qed

lemma inv_delete_request [inv_intro]:
  "inv m \<Longrightarrow> inv (m\<lparr>m_chanReq := AList.delete i (m_chanReq m)\<rparr>)"
  using delete_values(1) [of "m_chanReq m" "m_queue m" i] order_trans [OF length_delete_le [of i "m_chanReq m"]]
  unfolding inv_book_def book_def by simp

lemma inv_requests_cleared [inv_intro]: "inv m \<Longrightarrow> inv (disconnected m)"
  unfolding disconnected_def by (intro inv_frames(2)) (auto simp: inv_book_def book_def)

lemma inv_other_fields [inv_intro]:
  "inv m \<Longrightarrow> inv (m\<lparr>m_stateReq := i\<rparr>)" "inv m \<Longrightarrow> inv (m\<lparr>m_diffReq := i\<rparr>)"
  "inv m \<Longrightarrow> inv (m\<lparr>m_affected := al\<rparr>)" "inv m \<Longrightarrow> inv (m\<lparr>m_hash := al\<rparr>)"
  "inv m \<Longrightarrow> inv (m\<lparr>m_queue := []\<rparr>)" "inv m \<Longrightarrow> inv (m\<lparr>m_elapsed := e, m_authorized := a\<rparr>)"
  by (simp_all add: inv_book_def book_def)

lemma expired_all:
  assumes "inv m" shows "filter (\<lambda>p. \<not> parked_before (m_tick m + 1) p) (m_pending m) = []"
    and "filter (parked_before (m_tick m + 1)) (m_pending m) = m_pending m"
  using assms by (auto simp: inv_book_def book_def parked_before_def filter_empty_conv filter_id_conv)

lemma timerEvent_eq:
  assumes "inv m"
  shows "timerEvent True m =
     (if m_pending m = [] then m\<lparr>m_tick := m_tick m + 1\<rparr>
      else stop_if_empty (requestDifference (m\<lparr>m_tick := m_tick m + 1, m_pending := []\<rparr>)))"
  using expired_all [OF assms] by (simp add: timerEvent_def expirePending_def)

lemma inv_timerEvent [inv_intro]: "inv m \<Longrightarrow> inv (timerEvent own m)"
proof (cases own)
  case True
  assume "inv m"
  moreover from this have "inv (m\<lparr>m_tick := m_tick m + 1, m_pending := []\<rparr>)"
    by (simp add: inv_book_def book_def)
  moreover from \<open>inv m\<close> have "m_pending m = [] \<Longrightarrow> inv (m\<lparr>m_tick := m_tick m + 1\<rparr>)"
    by (simp add: inv_book_def book_def)
  ultimately show ?thesis
    using True by (simp add: timerEvent_eq inv_frames inv_stop)
qed (simp add: timerEvent_def)

lemma inv_handleState [inv_intro]: "inv m \<Longrightarrow> inv (snd (handleState st i m))"
  by (auto simp: handleState_def Let_def intro!: inv_intro)

lemma inv_handleDifference [inv_intro]: "inv m \<Longrightarrow> inv (snd (handleDifference d i m))"
proof -
  assume "inv m"
  then have "inv (m\<lparr>m_diffReq := 0\<rparr>)" by (rule inv_intro)
  moreover have "inv (clearPending m'\<lparr>m_state := u, m_queue := []\<rparr>)" if "inv m'" for m' u
    using that by (simp add: clearPending_def inv_book_def book_def)
  ultimately show ?thesis using \<open>inv m\<close>
    by (auto simp: handleDifference_def Let_def intro!: inv_intro)
qed

lemma inv_handleChannelDifference [inv_intro]:
  assumes m: "inv m" shows "inv (snd (handleChannelDifference d i m))"
proof (cases "map_of (m_chanReq m) i")
  case None
  then show ?thesis using m by (simp add: handleChannelDifference_def)
next
  case (Some c)
  define n where "n = m\<lparr>m_chanReq := AList.delete i (m_chanReq m)\<rparr>"
  have n: "inv n" unfolding n_def by (rule inv_delete_request [OF m])
  have "(i, c) \<in> set (m_chanReq m)" using Some by (rule map_of_SomeD)
  then have fresh: "c \<notin> set (map snd (m_chanReq n))" "c \<notin> set (m_queue n)"
    using m delete_values(2) [of "m_chanReq m" "m_queue m" i c] by (auto simp: n_def inv_book_def book_def)
  define b where "b = applyDifferenceBody d n"
  have b: "book b = book n" by (simp add: b_def frame_simps)
  have "inv (b\<lparr>m_state := u, m_queue := m_queue b @ [c]\<rparr>)" for u
    using inv_append_queue [of "b\<lparr>m_state := u\<rparr>" c] n b fresh book_fields [OF b]
    by (simp add: frame_simps)
  then show ?thesis
    using Some n b unfolding handleChannelDifference_def
    by (auto simp: Let_def n_def [symmetric] b_def [symmetric] frame_simps intro!: inv_pump inv_drain inv_drop)
qed

lemma inv_handleAffected [inv_intro]: "inv m \<Longrightarrow> inv (snd (handleAffected a i m))"
  by (auto simp: handleAffected_def Let_def intro!: inv_intro split: option.split verdict.split)

lemma inv_handleRpcError [inv_intro]: "inv m \<Longrightarrow> inv (snd (handleRpcError e i m))"
proof -
  assume m: "inv m"
  then have "inv (m\<lparr>m_chanReq := AList.delete i (m_chanReq m), m_state := u, m_hash := h\<rparr>)" for u h
    using inv_delete_request [OF m, of i] by (simp add: inv_book_def book_def)
  moreover have "inv (m\<lparr>m_diffReq := 0, m_state := u\<rparr>)" for u
    using m by (simp add: inv_book_def book_def)
  ultimately show ?thesis using m
    by (auto simp: handleRpcError_def Let_def intro!: inv_intro split: option.split)
qed

lemma inv_step:
  assumes "mstep m m'" and "inv m" shows "inv m'"
  using assms
  by (cases rule: mstep.cases)
    (auto simp: authorized_def initialized_def expectAffected_def intro!: inv_intro)

lemma inv_reachable: "reachable m \<Longrightarrow> inv m"
proof (induction rule: reachable.induct)
  case (reach_new st newid)
  show ?case by (simp add: manager_new_def inv_book_def book_def)
next
  case (reach_step m m')
  then show ?case by (blast intro: inv_step)
qed

end
