(* ===== verification/UpdatesSeq.thy ===== *)
theory UpdatesSeq
  imports UpdatesInv
begin

section \<open>Ordering of updates\<close>

subsection \<open>The contract of a sequence\<close>

text \<open>
  What the manager relies on: positions, the verdict over them and the advance. The
  interface is \<open>TgUpdatesState\<close>; the lemmas below are proved once over it.
\<close>

locale sequencer =
  fixes pos :: "'c \<Rightarrow> 's \<Rightarrow> i32"
    and check :: "'c \<Rightarrow> i32 \<Rightarrow> i32 \<Rightarrow> 's \<Rightarrow> verdict"
    and adv :: "'c \<Rightarrow> i32 \<Rightarrow> 's \<Rightarrow> 's"
  assumes check_pos: "check c p n s =
      (if pos c s = 0 \<or> pos c s + n = p then Apply
       else if sint p \<le> sint (pos c s) then Duplicate else Gap)"
    and pos_adv: "pos c' (adv c p s) =
      (if c' = c \<and> sint p > sint (pos c s) then p else pos c' s)"
begin

lemma adv_mono: "sint (pos c' s) \<le> sint (pos c' (adv c p s))"
  by (simp add: pos_adv)

lemma adv_reaches: "sint p \<le> sint (pos c (adv c p s))"
  by (simp add: pos_adv)

lemma sint_add_bounded:
  fixes a b :: i32
  assumes "0 \<le> sint a" and "0 < sint b" and "sint a + sint b < 2 ^ 31"
  shows "sint (a + b) = sint a + sint b"
proof -
  have "sint (a + b) = signed_take_bit 31 (sint a + sint b)"
    by (simp add: sint_word_ariths)
  also have "\<dots> = sint a + sint b"
    using assms by (intro signed_take_bit_int_eq_self) simp_all
  finally show ?thesis .
qed

text \<open>An update at or below the position is never applied again, whatever its count.\<close>

lemma check_behind:
  assumes "0 < sint p" and "0 < sint n" and "sint p \<le> sint (pos c s)"
  shows "check c p n s = Duplicate"
proof -
  have "pos c s + n \<noteq> p"
  proof
    assume e: "pos c s + n = p"
    have r: "sint (p - n) = sint p - sint n"
    proof -
      have "sint (p - n) = signed_take_bit 31 (sint p - sint n)"
        by (simp add: sint_word_ariths)
      also have "\<dots> = sint p - sint n"
        using assms sint_lt [of p] sint_lt [of n] by (intro signed_take_bit_int_eq_self) simp_all
      finally show ?thesis .
    qed
    have "pos c s = p - n" using e by (simp add: algebra_simps flip: e)
    then show False using assms r by simp
  qed
  moreover have "pos c s \<noteq> 0" using assms by auto
  ultimately show ?thesis using assms by (simp add: check_pos)
qed

lemma check_next:
  assumes "0 < sint (pos c s)" and "0 < sint n" and "sint (pos c s) + sint n = sint p"
  shows "check c p n s = Apply"
proof -
  have "sint (pos c s + n) = sint p"
    using assms sint_lt [of p] by (subst sint_add_bounded) simp_all
  then have "pos c s + n = p" by (rule signed_word_eqI)
  then show ?thesis by (simp add: check_pos)
qed

lemma check_later:
  assumes "0 < sint (pos c s)" and "0 < sint n" and "sint (pos c s) + sint n < sint p"
  shows "check c p n s = Gap"
proof -
  have "sint (pos c s + n) \<noteq> sint p"
    using assms sint_lt [of p] by (subst sint_add_bounded) simp_all
  then have "pos c s + n \<noteq> p" by auto
  moreover have "pos c s \<noteq> 0" using assms by auto
  ultimately show ?thesis using assms by (simp add: check_pos)
qed

end

interpretation us: sequencer us_local us_check us_advance
  by unfold_locales (auto simp: us_check_def us_local_advance Let_def)


subsection \<open>Draining the pending queue\<close>

text \<open>
  The specification of a drain, with no order: as long as some held item is next in its
  sequence it may be applied, and one at or below the position may be dropped.
\<close>

inductive drains :: "updstate \<Rightarrow> pending multiset \<Rightarrow> pending list \<Rightarrow> updstate \<Rightarrow> pending multiset \<Rightarrow> bool" where
  drains_done: "drains u P [] u P"
| drains_apply: "x \<in># P \<Longrightarrow> item_check u x = Apply \<Longrightarrow>
     drains (us_advance (pd_channelId x) (pd_pts x) u) (P - {#x#}) xs u' P' \<Longrightarrow>
     drains u P (x # xs) u' P'"
| drains_drop: "x \<in># P \<Longrightarrow> item_check u x = Duplicate \<Longrightarrow>
     drains u (P - {#x#}) xs u' P' \<Longrightarrow> drains u P xs u' P'"

lemma drains_trans:
  "drains u P xs u' P' \<Longrightarrow> drains u' P' ys u'' P'' \<Longrightarrow> drains u P (xs @ ys) u'' P''"
  by (induction rule: drains.induct) (auto intro: drains.intros)

lemma drains_mono: "drains u P xs u' P' \<Longrightarrow> sint (us_local c u) \<le> sint (us_local c u')"
  by (induction rule: drains.induct) (auto intro: order_trans [OF us.adv_mono])

lemma drains_subset: "drains u P xs u' P' \<Longrightarrow> mset xs + P' \<subseteq># P"
proof (induction rule: drains.induct)
  case (drains_apply x P u xs u' P')
  then show ?case by (simp add: insert_subset_eq_iff)
next
  case (drains_drop x P u xs u' P')
  then show ?case by (meson diff_subset_eq_self subset_mset.order_trans)
qed simp

text \<open>The dispatch an item turns into.\<close>

definition item_event :: "pending \<Rightarrow> event" where
  "item_event p = (if pd_shortForm p then GotMessageUpdate (pd_update p) (pd_messageId p)
                   else GotUpdate (pd_update p) (pd_users p) (pd_chats p) (pd_date p))"

lemma apply_item_fields [simp]:
  "m_state (apply_item p m) = us_advance (pd_channelId p) (pd_pts p) (m_state m)"
  "m_out (apply_item p m) = m_out m @ [item_event p]"
  by (simp_all add: apply_item_def emitOne_def emit_event_def item_event_def)

lemma mset_remove_at: "i < length xs \<Longrightarrow> mset (remove_at i xs) = mset xs - {#xs ! i#}"
  using id_take_nth_drop [of i xs]
  by (metis add_mset_remove_trivial mset.simps(2) mset_append remove_at_def union_mset_add_mset_right)

lemma take_remove_at: "i < length xs \<Longrightarrow> take i (remove_at i xs) = take i xs"
  by (simp add: remove_at_def)

lemma length_remove_at_eq: "i < length xs \<Longrightarrow> length (remove_at i xs) = length xs - 1"
  by (auto simp: remove_at_def)

text \<open>
  One pass drains; and a pass that reports no progress has changed nothing and seen a gap
  in front of every item.
\<close>

lemma drain_pass_drains:
  assumes "drain_pass i p m = (q, m')"
  shows "\<exists>xs. drains (m_state m) (mset (m_pending m)) xs (m_state m') (mset (m_pending m')) \<and>
              m_out m' = m_out m @ map item_event xs"
  using assms
proof (induction i p m rule: drain_pass.induct)
  case (1 i p m)
  show ?case
  proof (cases "i < length (m_pending m)")
    case False
    then show ?thesis using 1(4) by (auto simp: drain_pass.simps [of i p m] intro!: exI [of _ "[]"] drains_done)
  next
    case True
    define x where "x = m_pending m ! i"
    have x: "x \<in># mset (m_pending m)" using True by (simp add: x_def)
    note eq = 1(4) [unfolded drain_pass.simps [of i p m], simplified True if_True Let_def, folded x_def]
    show ?thesis
    proof (cases "item_check (m_state m) x")
      case Apply
      then obtain xs where
        "drains (us_advance (pd_channelId x) (pd_pts x) (m_state m)) (mset (m_pending m) - {#x#}) xs
           (m_state m') (mset (m_pending m'))" "m_out m' = m_out m @ map item_event (x # xs)"
        using 1(1) [OF True x_def Apply] eq Apply mset_remove_at [OF True, folded x_def] by auto
      then show ?thesis using drains_apply [OF x Apply] by blast
    next
      case Duplicate
      then obtain xs where
        "drains (m_state m) (mset (m_pending m) - {#x#}) xs
           (m_state m') (mset (m_pending m'))" "m_out m' = m_out m @ map item_event xs"
        using 1(2) [OF True x_def Duplicate] eq Duplicate mset_remove_at [OF True, folded x_def] by auto
      then show ?thesis using drains_drop [OF x Duplicate] by blast
    next
      case Gap
      then show ?thesis using 1(3) [OF True x_def Gap] eq by simp
    qed
  qed
qed

lemma drain_pass_progress: "fst (drain_pass i True m)"
proof (induction "length (m_pending m) - i" arbitrary: i m rule: less_induct)
  case less
  show ?case
  proof (cases "i < length (m_pending m)")
    case True
    then have "length (remove_at i (m_pending m)) - i < length (m_pending m) - i"
      "length (m_pending m) - Suc i < length (m_pending m) - i"
      by (auto simp: length_remove_at_eq)
    then show ?thesis using less True
      by (simp add: drain_pass.simps [of i True m] Let_def split: verdict.split)
  qed (simp add: drain_pass.simps [of i True m])
qed

lemma drain_pass_idle:
  assumes "drain_pass i p m = (False, m')"
    and "\<forall>x \<in> set (take i (m_pending m)). item_check (m_state m) x = Gap"
  shows "m' = m \<and> (\<forall>x \<in> set (m_pending m). item_check (m_state m) x = Gap)"
  using assms
proof (induction i p m rule: drain_pass.induct)
  case (1 i p m)
  show ?case
  proof (cases "i < length (m_pending m)")
    case False
    then show ?thesis using 1(4-5) by (simp add: drain_pass.simps [of i p m])
  next
    case True
    define x where "x = m_pending m ! i"
    note eq = 1(4) [unfolded drain_pass.simps [of i p m], simplified True if_True Let_def, folded x_def]
    have gap: "item_check (m_state m) x = Gap"
      using eq drain_pass_progress [of i]
      by (cases "item_check (m_state m) x") (metis fst_conv verdict.case)+
    then have "\<forall>y \<in> set (take (Suc i) (m_pending m)). item_check (m_state m) y = Gap"
      using True 1(5) by (auto simp: take_Suc_conv_app_nth x_def)
    then show ?thesis using 1(3) [OF True x_def gap] eq gap by simp
  qed
qed

text \<open>A drain applies and drops items until every item left is behind a gap.\<close>

lemma drain_loop_spec:
  "\<exists>xs. drains (m_state m) (mset (m_pending m)) xs (m_state (drain_loop m)) (mset (m_pending (drain_loop m))) \<and>
        m_out (drain_loop m) = m_out m @ map item_event xs \<and>
        (\<forall>x \<in> set (m_pending (drain_loop m)). item_check (m_state (drain_loop m)) x = Gap)"
proof (induction m rule: drain_loop.induct)
  case (1 m)
  obtain q m1 where r: "drain_pass 0 False m = (q, m1)" by (cases "drain_pass 0 False m")
  show ?case
  proof (cases q)
    case True
    obtain xs where xs: "drains (m_state m) (mset (m_pending m)) xs (m_state m1) (mset (m_pending m1))"
      "m_out m1 = m_out m @ map item_event xs"
      using drain_pass_drains [OF r] by blast
    obtain ys where ys: "drains (m_state m1) (mset (m_pending m1)) ys (m_state (drain_loop m1)) (mset (m_pending (drain_loop m1)))"
      "m_out (drain_loop m1) = m_out m1 @ map item_event ys"
      "\<forall>x \<in> set (m_pending (drain_loop m1)). item_check (m_state (drain_loop m1)) x = Gap"
      using 1 r True by auto
    have "drain_loop m = drain_loop m1" using r True by (simp add: drain_loop.simps [of m])
    then show ?thesis
      using drains_trans [OF xs(1) ys(1)] xs(2) ys(2,3) by (intro exI [of _ "xs @ ys"]) simp
  next
    case False
    then have "m1 = m" "\<forall>x \<in> set (m_pending m). item_check (m_state m) x = Gap"
      using drain_pass_idle [of 0 False m m1] r by simp_all
    moreover have "drain_loop m = m1" using r False by (simp add: drain_loop.simps [of m])
    ultimately show ?thesis by (intro exI [of _ "[]"]) (simp add: drains_done)
  qed
qed

lemma stop_if_empty_fields [simp]:
  "m_state (stop_if_empty m) = m_state m" "m_pending (stop_if_empty m) = m_pending m"
  "m_out (stop_if_empty m) = m_out m"
  by (simp_all add: stop_if_empty_def)

lemma drainPending_spec:
  obtains xs where
    "drains (m_state m) (mset (m_pending m)) xs (m_state (drainPending m)) (mset (m_pending (drainPending m)))"
    "m_out (drainPending m) = m_out m @ map item_event xs"
    "\<forall>x \<in> set (m_pending (drainPending m)). item_check (m_state (drainPending m)) x = Gap"
proof (cases "m_pending m = []")
  case True
  then show ?thesis by (intro that [of "[]"]) (simp_all add: drainPending_def drains_done)
next
  case False
  then show ?thesis using drain_loop_spec [of m] that by (auto simp: drainPending_def)
qed

subsection \<open>A held run is delivered whole and in order\<close>

fun run :: "i64 \<Rightarrow> int \<Rightarrow> pending list \<Rightarrow> bool" where
  "run c p [] = True"
| "run c p (x # xs) \<longleftrightarrow> pd_channelId x = c \<and> 0 < sint (pd_ptsCount x) \<and>
     p + sint (pd_ptsCount x) = sint (pd_pts x) \<and> run c (sint (pd_pts x)) xs"

lemma run_later:
  "run c p xs \<Longrightarrow> x \<in> set xs \<Longrightarrow>
   pd_channelId x = c \<and> 0 < sint (pd_ptsCount x) \<and> p + sint (pd_ptsCount x) \<le> sint (pd_pts x)"
  by (induction xs arbitrary: p) fastforce+

lemma run_head:
  assumes "run c (sint (us_local c u)) (x # xs)" and "0 < sint (us_local c u)"
  shows "item_check u x = Apply"
    and "\<forall>y \<in> set xs. item_check u y = Gap"
    and "us_local c (us_advance (pd_channelId x) (pd_pts x) u) = pd_pts x"
    and "0 < sint (pd_pts x)"
proof -
  show "item_check u x = Apply"
    using assms us.check_next [of c u "pd_ptsCount x" "pd_pts x"] by (simp add: item_check_def)
  show "\<forall>y \<in> set xs. item_check u y = Gap"
  proof
    fix y assume "y \<in> set xs"
    with assms run_later [of c "sint (pd_pts x)" xs y]
    have "pd_channelId y = c" "0 < sint (pd_ptsCount y)"
      "sint (us_local c u) + sint (pd_ptsCount y) < sint (pd_pts y)" by auto
    then show "item_check u y = Gap"
      using us.check_later [of c u "pd_ptsCount y" "pd_pts y"] assms by (simp add: item_check_def)
  qed
  show "us_local c (us_advance (pd_channelId x) (pd_pts x) u) = pd_pts x"
    using assms by (auto simp: us_local_advance)
  show "0 < sint (pd_pts x)" using assms by auto
qed

lemma drains_run:
  assumes "drains u P ys u' P'" and "P = mset xs" and "run c (sint (us_local c u)) xs"
    and "0 < sint (us_local c u)" and "\<forall>x \<in># P'. item_check u' x = Gap"
  shows "ys = xs \<and> P' = {#}"
  using assms
proof (induction arbitrary: xs rule: drains.induct)
  case (drains_done u P)
  then show ?case using run_head(1) [of c u] by (cases xs) auto
next
  case (drains_apply x P u ys u' P')
  obtain z zs where xs: "xs = z # zs" using drains_apply by (cases xs) auto
  note h = run_head [OF drains_apply.prems(2) [unfolded xs] drains_apply.prems(3)]
  have "x = z" using drains_apply.hyps(1,2) drains_apply.prems(1) h(2) xs by auto
  then show ?case
    using drains_apply.IH [of zs] drains_apply.prems h xs by auto
next
  case (drains_drop x P u ys u' P')
  obtain z zs where xs: "xs = z # zs" using drains_drop by (cases xs) auto
  note h = run_head [OF drains_drop.prems(2) [unfolded xs] drains_drop.prems(3)]
  show ?case using drains_drop.hyps(1,2) drains_drop.prems(1) h(1,2) xs by auto
qed


subsection \<open>Positions of the manager\<close>

lemma state_requestChannel [frame_simps]: "m_state (requestChannelDifference c m) = m_state m"
  by (auto simp: requestChannelDifference_def send_def Let_def split: option.splits)

lemma state_pump [frame_simps]: "m_state (pumpChannelQueue m) = m_state m"
proof (induction m rule: pumpChannelQueue.induct)
  case (1 m)
  then show ?case
    by (cases "m_queue m \<noteq> [] \<and> length (m_chanReq m) < MaxChannelPolls")
      (auto simp: pumpChannelQueue.simps [of m] frame_simps)
qed

lemma state_enqueue [frame_simps]: "m_state (enqueueChannel c m) = m_state m"
  by (simp add: enqueueChannel_def frame_simps)

lemma state_park [frame_simps]: "m_state (park u us cs c p n d i b m) = m_state m"
  by (simp add: park_def Let_def frame_simps)

lemma state_dropPending [frame_simps]:
  "m_state (dropPending c m) = m_state m" "m_state (clearPending m) = m_state m"
  by (simp_all add: dropPending_def clearPending_def)

lemma state_timerEvent [frame_simps]: "m_state (timerEvent own m) = m_state m"
  by (simp add: timerEvent_def expirePending_def frame_simps)

definition not_behind :: "manager \<Rightarrow> manager \<Rightarrow> bool" where
  "not_behind m m' \<longleftrightarrow> (\<forall>c. sint (us_local c (m_state m)) \<le> sint (us_local c (m_state m')))"

lemma not_behind_refl: "m_state m' = m_state m \<Longrightarrow> not_behind m m'"
  by (simp add: not_behind_def)

lemma not_behind_trans: "not_behind m m' \<Longrightarrow> not_behind m' m'' \<Longrightarrow> not_behind m m''"
  unfolding not_behind_def by (meson order_trans)

lemma not_behind_drain: "not_behind m (drainPending m)"
  by (rule drainPending_spec [of m]) (auto simp: not_behind_def dest: drains_mono)

lemma not_behind_advance:
  "m_state m' = us_advance c p (m_state m) \<Longrightarrow> not_behind m m'"
  by (simp add: not_behind_def us_advance_mono)

lemma not_behind_applyOne: "not_behind m (applyOne u us cs d i b m)"
proof -
  have "not_behind m (drainPending (maybeSave m2))"
    if "m_state m2 = us_advance c p (m_state m)" for m2 c p
    by (rule not_behind_trans [OF not_behind_advance not_behind_drain]) (simp add: that frame_simps)
  then show ?thesis
    by (auto simp: applyOne_def Let_def frame_simps intro!: not_behind_refl split: verdict.split)
qed

lemma not_behind_applyAll: "not_behind m (applyAll l us cs d i m)"
  unfolding applyAll_def
  by (induction l arbitrary: m)
    (auto intro: not_behind_refl not_behind_trans [OF not_behind_applyOne])

lemma not_behind_processUpdates: "not_behind m (processUpdates u i m)"
proof -
  define n where "n = rememberChats (qv_toList (obj_get u ''chats'')) m"
  have n: "m_state n = m_state m" by (simp add: n_def frame_simps)
  have one: "not_behind m (applyOne u' us cs d i b m')"
    if "\<forall>c. us_local c (m_state m') = us_local c (m_state m)" for u' us cs d i b m'
    using not_behind_applyOne [of m' u' us cs d i b] that by (simp add: not_behind_def)
  have all: "not_behind m (applyAll l us cs d i m')"
    if "\<forall>c. us_local c (m_state m') = us_local c (m_state m)" for l us cs d i m'
    using not_behind_applyAll [of m' l us cs d i] that by (simp add: not_behind_def)
  have same: "not_behind m n" "not_behind m (requestDifference n)"
    by (simp_all add: not_behind_def frame_simps n)
  show ?thesis
    unfolding processUpdates_def Let_def n_def [symmetric]
    by (simp add: one all same n split: seq_verdict.split)
qed

lemma not_behind_handleAffected: "not_behind m (snd (handleAffected a i m))"
proof (cases "map_of (m_affected m) i")
  case None
  then show ?thesis by (simp add: handleAffected_def not_behind_refl)
next
  case (Some c)
  have "not_behind m (drainPending m2)"
    if "m_state m2 = us_advance c p (m_state m)" for m2 c p
    by (rule not_behind_trans [OF not_behind_advance not_behind_drain]) (rule that)
  then show ?thesis using Some
    by (auto simp: handleAffected_def Let_def frame_simps intro!: not_behind_refl split: verdict.split)
qed

subsection \<open>Resent updates\<close>

lemma validity_drains: "drains u P xs u' P' \<Longrightarrow> us_valid u' = us_valid u"
  by (induction rule: drains.induct) simp_all

lemma valid_drainPending [simp]: "us_valid (m_state (drainPending m)) = us_valid (m_state m)"
  by (rule drainPending_spec [of m]) (simp add: validity_drains)

lemma applyOne_applied:
  assumes "us_valid (m_state m)" "hasPts u" "objID u \<noteq> UpdateChannelTooLong"
    and "us_check (channelIdOf u) (qv_toInt (obj_get u ''pts'')) (qv_toInt (obj_get u ''pts_count'')) (m_state m) = Apply"
  shows "sint (qv_toInt (obj_get u ''pts'')) \<le> sint (us_local (channelIdOf u) (m_state (applyOne u us cs d i b m)))"
    and "us_valid (m_state (applyOne u us cs d i b m))"
proof -
  define n where "n = maybeSave (if channelIdOf u = 0 then publishState (emitOne u us cs d i b
       (m\<lparr>m_state := us_advance (channelIdOf u) (qv_toInt (obj_get u ''pts'')) (m_state m)\<rparr>))
     else emitOne u us cs d i b (m\<lparr>m_state := us_advance (channelIdOf u) (qv_toInt (obj_get u ''pts'')) (m_state m)\<rparr>))"
  have e: "applyOne u us cs d i b m = drainPending n"
    using assms by (simp add: applyOne_def Let_def n_def)
  have s: "m_state n = us_advance (channelIdOf u) (qv_toInt (obj_get u ''pts'')) (m_state m)"
    by (simp add: n_def frame_simps)
  show "sint (qv_toInt (obj_get u ''pts'')) \<le> sint (us_local (channelIdOf u) (m_state (applyOne u us cs d i b m)))"
    using not_behind_drain [of n] us.adv_reaches [of _ "channelIdOf u" "m_state m"] unfolding e
    by (auto simp: not_behind_def s intro: order_trans)
  show "us_valid (m_state (applyOne u us cs d i b m))" using assms(1) by (simp add: e s)
qed

lemma applyOne_duplicate:
  assumes "us_valid (m_state m)" "hasPts u" "objID u \<noteq> UpdateChannelTooLong"
    and "0 < sint (qv_toInt (obj_get u ''pts''))" "0 < sint (qv_toInt (obj_get u ''pts_count''))"
    and "sint (qv_toInt (obj_get u ''pts'')) \<le> sint (us_local (channelIdOf u) (m_state m))"
  shows "applyOne u us cs d i b m = m"
  using assms us.check_behind [of "qv_toInt (obj_get u ''pts'')" "qv_toInt (obj_get u ''pts_count'')" "channelIdOf u" "m_state m"]
  by (simp add: applyOne_def Let_def)

subsection \<open>Channel polling\<close>

lemma pump_post: "m_queue (pumpChannelQueue m) = [] \<or> MaxChannelPolls \<le> length (m_chanReq (pumpChannelQueue m))"
proof (induction m rule: pumpChannelQueue.induct)
  case (1 m)
  then show ?case
    by (cases "m_queue m \<noteq> [] \<and> length (m_chanReq m) < MaxChannelPolls")
      (auto simp: pumpChannelQueue.simps [of m])
qed

lemma drains_state:
  "drains u P xs u' P' \<Longrightarrow> u' = fold (\<lambda>x. us_advance (pd_channelId x) (pd_pts x)) xs u"
  by (induction rule: drains.induct) simp_all

lemma run_end:
  assumes "run c (sint (us_local c u)) xs" and "0 < sint (us_local c u)" and "xs \<noteq> []"
  shows "us_local c (fold (\<lambda>x. us_advance (pd_channelId x) (pd_pts x)) xs u) = pd_pts (last xs)"
  using assms
proof (induction xs arbitrary: u)
  case (Cons x xs)
  note h = run_head [OF Cons.prems(1,2)]
  show ?case
  proof (cases "xs = []")
    case True
    then show ?thesis using h(3) by simp
  next
    case False
    then show ?thesis
      using Cons.IH [of "us_advance (pd_channelId x) (pd_pts x) u"] Cons.prems h(3,4) by simp
  qed
qed simp

lemma drain_run_parts:
  assumes "mset (m_pending m) = mset xs" and "run c (sint (us_local c (m_state m))) xs"
    and "0 < sint (us_local c (m_state m))"
  shows "m_out (drainPending m) = m_out m @ map item_event xs"
    and "m_pending (drainPending m) = []"
    and "xs \<noteq> [] \<Longrightarrow> us_local c (m_state (drainPending m)) = pd_pts (last xs)"
proof -
  obtain ys where ys: "drains (m_state m) (mset (m_pending m)) ys (m_state (drainPending m)) (mset (m_pending (drainPending m)))"
    "m_out (drainPending m) = m_out m @ map item_event ys"
    "\<forall>x \<in> set (m_pending (drainPending m)). item_check (m_state (drainPending m)) x = Gap"
    by (rule drainPending_spec)
  then have "ys = xs \<and> mset (m_pending (drainPending m)) = {#}"
    by (intro drains_run [OF ys(1) assms]) simp
  with ys run_end [OF assms(2,3)] show
    "m_out (drainPending m) = m_out m @ map item_event xs" "m_pending (drainPending m) = []"
    "xs \<noteq> [] \<Longrightarrow> us_local c (m_state (drainPending m)) = pd_pts (last xs)"
    by (simp_all add: drains_state [OF ys(1)])
qed

subsection \<open>The request that is waited for\<close>

lemma diffReq_frame [simp]:
  "m_diffReq (save m) = m_diffReq m" "m_diffReq (publishState m) = m_diffReq m"
  "m_diffReq (reset_to st m) = m_diffReq m" "m_diffReq (stop_if_empty m) = m_diffReq m"
  "m_diffReq (apply_item p m) = m_diffReq m" "m_diffReq (emit_event e m) = m_diffReq m"
  by (simp_all add: save_def publishState_def emit_event_def reset_to_def stop_if_empty_def
      apply_item_def emitOne_def Let_def)

lemma diffReq_drain_pass [simp]: "m_diffReq (snd (drain_pass i p m)) = m_diffReq m"
proof (induction i p m rule: drain_pass.induct)
  case (1 i p m)
  then show ?case
    by (cases "i < length (m_pending m)")
      (auto simp: drain_pass.simps [of i p m] Let_def split: verdict.split)
qed

lemma diffReq_drain [simp]: "m_diffReq (drainPending m) = m_diffReq m"
proof -
  have "m_diffReq (drain_loop m) = m_diffReq m"
  proof (induction m rule: drain_loop.induct)
    case (1 m)
    then show ?case by (simp add: drain_loop.simps [of m] Let_def)
  qed
  then show ?thesis by (simp add: drainPending_def)
qed

lemma diffReq_rememberChats [simp]: "m_diffReq (rememberChats cs m) = m_diffReq m"
  unfolding rememberChats_def by (induction cs arbitrary: m) (simp_all add: rememberChat_def)

lemma diffReq_applyDifferenceBody [simp]: "m_diffReq (applyDifferenceBody d m) = m_diffReq m"
proof -
  have f: "m_diffReq (fold g xs m) = m_diffReq m" if "\<And>x m. m_diffReq (g x m) = m_diffReq m"
    for g :: "variant \<Rightarrow> manager \<Rightarrow> manager" and xs m
    by (induction xs arbitrary: m) (simp_all add: that)
  show ?thesis
    by (simp add: applyDifferenceBody_def Let_def f apply_other_def)
qed

lemma requestDifference_sends:
  assumes "us_valid (m_state m)" and "m_diffReq m = 0"
  shows "m_out (requestDifference m) = m_out m @
     [Request (updatesGetDifference (us_pts (m_state m)) (us_date (m_state m)) (us_qts (m_state m)))
        (m_diffReq (requestDifference m))]"
  using assms by (simp add: requestDifference_def send_def Let_def)

end
