(* ===== verification/TlFlags.thy ===== *)
theory TlFlags
  imports TlObject
begin

section \<open>Objects with flags words\<close>

text \<open>
  The API schema (libkg/tlschema.cpp) adds optional fields to the shape of TlObject. A
  reader reads a flags word first and then, per bit, sets an entry to true or reads a
  field; a writer computes the word from which entries are present, stores it in the
  object it is writing, and then tests the same bits. This theory has the combinators the
  generated statements translate to, and the theorem that a reader and a writer built from
  one table form a codec.
\<close>

subsection \<open>The statements of the generated code\<close>

type_synonym tl_step = "tgobject \<times> tgstream \<Rightarrow> tgobject \<times> tgstream"

definition has_bit :: "tgobject \<Rightarrow> string \<Rightarrow> nat \<Rightarrow> bool" where
  "has_bit obj fl b = (qv_toInt (obj_get obj fl) AND push_bit b 1 \<noteq> 0)"

text \<open>\<open>if (obj["fl"].toUInt() & mask) obj["n"] = true\<close>\<close>

definition set_if :: "string \<Rightarrow> nat \<Rightarrow> string \<Rightarrow> tl_step" where
  "set_if fl b n = (\<lambda>(obj, s). (if has_bit obj fl b then obj_put n (VBool True) obj else obj, s))"

text \<open>\<open>if (obj["fl"].toUInt() & mask) readT(stream, obj["n"], ..)\<close>\<close>

definition rd_if :: "string \<Rightarrow> nat \<Rightarrow> string \<Rightarrow> tl_reader \<Rightarrow> tl_step" where
  "rd_if fl b n r = (\<lambda>(obj, s). if has_bit obj fl b then rd n r (obj, s) else (obj, s))"

text \<open>\<open>writeT(stream, obj["n"], ..)\<close>, alone and under a condition\<close>

definition wf :: "string \<Rightarrow> tl_writer \<Rightarrow> tl_step" where
  "wf n w = (\<lambda>(obj, s). (obj, w s (obj_get obj n)))"

definition wf_if :: "string \<Rightarrow> nat \<Rightarrow> string \<Rightarrow> tl_writer \<Rightarrow> tl_step" where
  "wf_if fl b n w = (\<lambda>(obj, s). (obj, if has_bit obj fl b then w s (obj_get obj n) else s))"

text \<open>\<open>writeUInt32(stream, obj["fl"] = ((!obj["a"].isNull() << i) | ... | 0), ..)\<close>\<close>

definition flag_word :: "tgobject \<Rightarrow> (string \<times> nat) list \<Rightarrow> i32" where
  "flag_word obj bits =
     fold (\<lambda>(n, b) w. w OR push_bit b (if qv_isNull (obj_get obj n) then 0 else 1)) bits 0"

definition wf_flags :: "string \<Rightarrow> (string \<times> nat) list \<Rightarrow> tl_step" where
  "wf_flags fl bits = (\<lambda>(obj, s).
     let v = VInt (flag_word obj bits) in (obj_put fl v obj, writeUInt32 s v))"

type_synonym step_case = "i32 \<times> tl_step list"

definition write_fobject :: "step_case list \<Rightarrow> tl_writer" where
  "write_fobject cases s i =
     (let obj = qv_toMap i
      in case map_of cases (objID obj) of
           None \<Rightarrow> s
         | Some flds \<Rightarrow> snd (fold (\<lambda>f. f) flds (obj, s)))"

subsection \<open>Tables\<close>

datatype tl_field =
    Plain field_codec
  | Flags string "(string \<times> nat) list"
  | TrueBit string nat string
  | Cond string nat field_codec

type_synonym flag_table = "(i32 \<times> tl_field list) list"

fun rd_field :: "tl_field \<Rightarrow> tl_step" where
  "rd_field (Plain f) = rd_step f"
| "rd_field (Flags n bits) = rd n readUInt32"
| "rd_field (TrueBit fl b n) = set_if fl b n"
| "rd_field (Cond fl b (n, r, w, e, k)) = rd_if fl b n r"

fun wr_field :: "tl_field \<Rightarrow> tl_step list" where
  "wr_field (Plain (n, r, w, e, k)) = [wf n w]"
| "wr_field (Flags n bits) = [wf_flags n bits]"
| "wr_field (TrueBit fl b n) = []"
| "wr_field (Cond fl b (n, r, w, e, k)) = [wf_if fl b n w]"

definition rd_fcases :: "flag_table \<Rightarrow> step_case list" where
  "rd_fcases t = map (\<lambda>(cid, fs). (cid, map rd_field fs)) t"

definition wr_fcases :: "flag_table \<Rightarrow> step_case list" where
  "wr_fcases t = map (\<lambda>(cid, fs). (cid, wf ''_'' writeInt32 # concat (map wr_field fs))) t"

text \<open>The entries a well-formed object has for a field, what they must satisfy, their encoding.\<close>

fun present :: "tgobject \<Rightarrow> tl_field \<Rightarrow> string list" where
  "present obj (Plain f) = [fst f]"
| "present obj (Flags n bits) = [n]"
| "present obj (TrueBit fl b n) = (if has_bit obj fl b then [n] else [])"
| "present obj (Cond fl b f) = (if has_bit obj fl b then [fst f] else [])"

fun ok_field :: "qtenv \<Rightarrow> tgobject \<Rightarrow> tl_field \<Rightarrow> bool" where
  "ok_field q obj (Plain f) = ok_step q f (obj_get obj (fst f))"
| "ok_field q obj (Flags n bits) = (obj_get obj n = VUInt (flag_word obj bits))"
| "ok_field q obj (TrueBit fl b n) = (has_bit obj fl b \<longrightarrow> obj_get obj n = VBool True)"
| "ok_field q obj (Cond fl b f) = (has_bit obj fl b \<longrightarrow> ok_step q f (obj_get obj (fst f)))"

fun enc_field :: "qtenv \<Rightarrow> tgobject \<Rightarrow> tl_field \<Rightarrow> bytes" where
  "enc_field q obj (Plain f) = enc_step q f (obj_get obj (fst f))"
| "enc_field q obj (Flags n bits) = le_encode 4 (flag_word obj bits)"
| "enc_field q obj (TrueBit fl b n) = []"
| "enc_field q obj (Cond fl b f) = (if has_bit obj fl b then enc_step q f (obj_get obj (fst f)) else [])"

definition flag_names :: "tl_field list \<Rightarrow> string list" where
  "flag_names fs = concat (map (\<lambda>f. case f of Flags n bits \<Rightarrow> [n] | _ \<Rightarrow> []) fs)"

lemma flag_names_simps [simp]:
  "flag_names [] = []" "flag_names (Plain f # fs) = flag_names fs"
  "flag_names (Flags n bits # fs) = n # flag_names fs"
  "flag_names (TrueBit g b n # fs) = flag_names fs" "flag_names (Cond g b f # fs) = flag_names fs"
  by (simp_all add: flag_names_def)

text \<open>
  A table is sound when its codecs are, every conditional field tests a flags word read
  before it, and no other field has the name of a flags word.
\<close>

fun flag_fields :: "string list \<Rightarrow> string list \<Rightarrow> tl_field list \<Rightarrow> bool" where
  "flag_fields fl seen [] = True"
| "flag_fields fl seen (Plain f # fs) \<longleftrightarrow> codec_step f \<and> fst f \<notin> set fl \<and> flag_fields fl seen fs"
| "flag_fields fl seen (Flags n bits # fs) \<longleftrightarrow> flag_fields fl (n # seen) fs"
| "flag_fields fl seen (TrueBit g b n # fs) \<longleftrightarrow> g \<in> set seen \<and> n \<notin> set fl \<and> flag_fields fl seen fs"
| "flag_fields fl seen (Cond g b f # fs) \<longleftrightarrow>
     g \<in> set seen \<and> codec_step f \<and> fst f \<notin> set fl \<and> flag_fields fl seen fs"

definition flag_codec_table :: "flag_table \<Rightarrow> bool" where
  "flag_codec_table t =
     (\<forall>(cid, fs) \<in> set t. ''_'' \<notin> set (flag_names fs) \<and> flag_fields (flag_names fs) [] fs)"

definition enc_fobject :: "flag_table \<Rightarrow> qtenv \<Rightarrow> variant \<Rightarrow> bytes" where
  "enc_fobject t q v =
     (let obj = qv_toMap v
      in case map_of t (objID obj) of
           None \<Rightarrow> []
         | Some fs \<Rightarrow> le_encode 4 (objID obj) @ concat (map (enc_field q obj) fs))"

definition ok_fobject :: "flag_table \<Rightarrow> qtenv \<Rightarrow> variant \<Rightarrow> bool" where
  "ok_fobject t q v =
     (case v of
        VMap obj \<Rightarrow>
          (case obj_get obj ''_'' of
             VInt cid \<Rightarrow>
               (case map_of t cid of
                  None \<Rightarrow> False
                | Some fs \<Rightarrow>
                    distinct (map fst obj) \<and> map fst obj = ''_'' # concat (map (present obj) fs) \<and>
                    list_all (ok_field q obj) fs)
           | _ \<Rightarrow> False)
      | _ \<Rightarrow> False)"

lemma ok_fobjectE:
  assumes "ok_fobject t q v"
  obtains obj cid fs where "v = VMap obj" "obj_get obj ''_'' = VInt cid" "map_of t cid = Some fs"
    "distinct (map fst obj)" "map fst obj = ''_'' # concat (map (present obj) fs)"
    "list_all (ok_field q obj) fs"
  using assms by (auto simp: ok_fobject_def split: variant.splits option.splits)

subsection \<open>Writing\<close>

text \<open>The object a writer works on: the original up to the variants of its flags words.\<close>

definition same_but :: "string list \<Rightarrow> tgobject \<Rightarrow> tgobject \<Rightarrow> bool" where
  "same_but fl obj full =
     (\<forall>n. (n \<notin> set fl \<longrightarrow> obj_get obj n = obj_get full n) \<and>
          qv_toInt (obj_get obj n) = qv_toInt (obj_get full n) \<and>
          qv_isNull (obj_get obj n) = qv_isNull (obj_get full n))"

lemma same_but_has_bit: "same_but fl obj full \<Longrightarrow> has_bit obj g b = has_bit full g b"
  by (simp add: same_but_def has_bit_def)

lemma same_but_flag_word: "same_but fl obj full \<Longrightarrow> flag_word obj bits = flag_word full bits"
  by (simp add: same_but_def flag_word_def)

lemma write_flag_fields:
  assumes "flag_fields fl seen fs" and "set (flag_names fs) \<subseteq> set fl" and "same_but fl obj full"
    and "list_all (ok_field q full) fs"
  shows "snd (fold (\<lambda>f. f) (concat (map wr_field fs)) (obj, packet q b))
       = packet q (b @ concat (map (enc_field q full) fs))"
  using assms
proof (induction fs arbitrary: obj seen b)
  case Nil
  then show ?case by simp
next
  case (Cons f fs)
  show ?case
  proof (cases f)
    case (Plain f')
    obtain n r w e k where f': "f' = (n, r, w, e, k)" by (cases f')
    have "obj_get obj n = obj_get full n" using Cons.prems by (simp add: Plain f' same_but_def)
    moreover have "w (packet q b) (obj_get full n) = packet q (b @ e q (obj_get full n))"
      using Cons.prems by (auto simp: Plain f' intro: tl_codec.writes)
    ultimately show ?thesis
      using Cons.IH [of seen obj] Cons.prems by (simp add: Plain f' wf_def)
  next
    case (Flags n bits)
    let ?v = "VInt (flag_word obj bits)"
    have "same_but fl (obj_put n ?v obj) full"
      using Cons.prems same_but_flag_word [OF Cons.prems(3)]
      by (auto simp: Flags same_but_def)
    then show ?thesis
      using Cons.IH [of "n # seen" "obj_put n ?v obj"] Cons.prems
      by (simp add: Flags wf_flags_def Let_def writeUInt32_def same_but_flag_word)
  next
    case (TrueBit g i n)
    then show ?thesis using Cons.IH [of seen obj] Cons.prems by simp
  next
    case (Cond g i f')
    obtain n r w e k where f': "f' = (n, r, w, e, k)" by (cases f')
    have "obj_get obj n = obj_get full n" using Cons.prems by (simp add: Cond f' same_but_def)
    moreover have "w (packet q b) (obj_get full n) = packet q (b @ e q (obj_get full n))"
      if "has_bit full g i"
      using Cons.prems that by (auto simp: Cond f' intro: tl_codec.writes)
    ultimately show ?thesis
      using Cons.IH [of seen obj] Cons.prems same_but_has_bit [OF Cons.prems(3)]
      by (simp add: Cond f' wf_if_def)
  qed
qed

subsection \<open>Reading\<close>

definition known :: "string list \<Rightarrow> tgobject \<Rightarrow> tgobject \<Rightarrow> bool" where
  "known seen pre full = (\<forall>n \<in> set seen. obj_get pre n = obj_get full n \<and> obj_has pre n)"

lemma known_append: "known seen pre full \<Longrightarrow> known seen (pre @ xs) full"
  by (simp add: known_def obj_get_append)

lemma known_has_bit: "known seen pre full \<Longrightarrow> g \<in> set seen \<Longrightarrow> has_bit pre g b = has_bit full g b"
  by (simp add: known_def has_bit_def)

abbreviation entries :: "tgobject \<Rightarrow> string list \<Rightarrow> tgobject" where
  "entries full ns \<equiv> map (\<lambda>n. (n, obj_get full n)) ns"

lemma read_flag_fields:
  assumes "flag_fields fl seen fs" and "known seen pre full" and "list_all (ok_field (sqt s) full) fs"
    and "distinct (map fst pre @ concat (map (present full) fs))"
    and "avail s = concat (map (enc_field (sqt s) full) fs) @ rest"
  shows "fold (\<lambda>f. f) (map rd_field fs) (pre, s)
       = (pre @ entries full (concat (map (present full) fs)),
          advance (length (concat (map (enc_field (sqt s) full) fs))) s)"
  using assms
proof (induction fs arbitrary: seen pre s)
  case Nil
  then show ?case by simp
next
  case (Cons f fs)
  show ?case
  proof (cases f)
    case (Plain f')
    obtain n r w e k where f': "f' = (n, r, w, e, k)" by (cases f')
    let ?s = "advance (length (e (sqt s) (obj_get full n))) s"
    have C: "tl_codec r w e k" using Cons.prems(1) by (simp add: Plain f')
    have "r (obj_get pre n) s = (obj_get full n, ?s)"
      using Cons.prems(3,5) by (intro tl_codec.reads [OF C]) (simp_all add: Plain f')
    moreover have "obj_put n (obj_get full n) pre = pre @ [(n, obj_get full n)]"
      using Cons.prems(4) by (intro obj_put_fresh) (simp add: Plain f')
    moreover have "fold (\<lambda>f. f) (map rd_field fs) (pre @ [(n, obj_get full n)], ?s)
       = ((pre @ [(n, obj_get full n)]) @ entries full (concat (map (present full) fs)),
          advance (length (concat (map (enc_field (sqt ?s) full) fs))) ?s)"
      using Cons.prems by (intro Cons.IH [of seen]) (auto simp: Plain f' known_append)
    ultimately show ?thesis by (simp add: Plain f' rd_def)
  next
    case (Flags n bits)
    let ?v = "VUInt (flag_word full bits)"
    have v: "obj_get full n = ?v" using Cons.prems(3) by (simp add: Flags)
    have "readUInt32 (obj_get pre n) s = (?v, advance 4 s)"
      using uint32.reads [of s ?v _ "obj_get pre n"] Cons.prems(5)
      by (simp add: Flags is_defs enc_int32_def)
    moreover have p: "obj_put n ?v pre = pre @ [(n, ?v)]"
      using Cons.prems(4) by (intro obj_put_fresh) (simp add: Flags)
    moreover have "known (n # seen) (pre @ [(n, ?v)]) full"
      using Cons.prems(2,4) v by (auto simp: known_def obj_get_append obj_has_iff Flags)
    then have "fold (\<lambda>f. f) (map rd_field fs) (pre @ [(n, ?v)], advance 4 s)
       = ((pre @ [(n, ?v)]) @ entries full (concat (map (present full) fs)),
          advance (length (concat (map (enc_field (sqt (advance 4 s)) full) fs))) (advance 4 s))"
      using Cons.prems by (intro Cons.IH [of "n # seen"]) (auto simp: Flags)
    ultimately show ?thesis by (simp add: Flags rd_def v)
  next
    case (TrueBit g i n)
    show ?thesis
    proof (cases "has_bit full g i")
      case False
      then show ?thesis
        using Cons.IH [of seen pre s] Cons.prems known_has_bit [of seen pre full g i]
        by (simp add: TrueBit set_if_def)
    next
      case True
      have v: "obj_get full n = VBool True" using Cons.prems(3) True by (simp add: TrueBit)
      have "obj_put n (VBool True) pre = pre @ [(n, VBool True)]"
        using Cons.prems(4) True by (intro obj_put_fresh) (simp add: TrueBit)
      moreover have "fold (\<lambda>f. f) (map rd_field fs) (pre @ [(n, VBool True)], s)
         = ((pre @ [(n, VBool True)]) @ entries full (concat (map (present full) fs)),
            advance (length (concat (map (enc_field (sqt s) full) fs))) s)"
        using Cons.prems True by (intro Cons.IH [of seen]) (auto simp: TrueBit known_append)
      ultimately show ?thesis
        using True v Cons.prems known_has_bit [of seen pre full g i] by (simp add: TrueBit set_if_def)
    qed
  next
    case (Cond g i f')
    obtain n r w e k where f': "f' = (n, r, w, e, k)" by (cases f')
    show ?thesis
    proof (cases "has_bit full g i")
      case False
      then show ?thesis
        using Cons.IH [of seen pre s] Cons.prems known_has_bit [of seen pre full g i]
        by (simp add: Cond f' rd_if_def)
    next
      case True
      let ?s = "advance (length (e (sqt s) (obj_get full n))) s"
      have C: "tl_codec r w e k" using Cons.prems(1) by (simp add: Cond f')
      have "r (obj_get pre n) s = (obj_get full n, ?s)"
        using Cons.prems(3,5) True by (intro tl_codec.reads [OF C]) (simp_all add: Cond f')
      moreover have "obj_put n (obj_get full n) pre = pre @ [(n, obj_get full n)]"
        using Cons.prems(4) True by (intro obj_put_fresh) (simp add: Cond f')
      moreover have "fold (\<lambda>f. f) (map rd_field fs) (pre @ [(n, obj_get full n)], ?s)
         = ((pre @ [(n, obj_get full n)]) @ entries full (concat (map (present full) fs)),
            advance (length (concat (map (enc_field (sqt ?s) full) fs))) ?s)"
        using Cons.prems True by (intro Cons.IH [of seen]) (auto simp: Cond f' known_append)
      ultimately show ?thesis
        using True Cons.prems known_has_bit [of seen pre full g i] by (simp add: Cond f' rd_def rd_if_def)
    qed
  qed
qed

lemma entries_self: "distinct (map fst obj) \<Longrightarrow> entries obj (map fst obj) = obj"
proof -
  assume "distinct (map fst obj)"
  then have "map (obj_get obj) (map fst obj) = map snd obj" by (rule obj_get_keys)
  then show ?thesis
    by (induction obj) (auto simp: comp_def intro!: nth_equalityI)
qed

subsection \<open>The contract of a flagged type\<close>

lemma rd_field_shrinks:
  "flag_fields fl seen fs \<Longrightarrow> f \<in> set fs \<Longrightarrow> length (avail (snd (rd_field f x))) \<le> length (avail (snd x))"
proof (induction fs arbitrary: seen)
  case (Cons g fs)
  show ?case
  proof (cases "f = g")
    case False
    then show ?thesis using Cons by (cases g) auto
  next
    case True
    then show ?thesis
    proof (cases g)
      case (Plain h)
      then show ?thesis using True Cons.prems(1) rd_step_shrinks [of h x] by simp
    next
      case (Flags n bits)
      then show ?thesis using True rd_shrinks [of n readUInt32 writeUInt32 enc_int32 is_VUInt x] uint32.tl_codec_axioms by simp
    next
      case (TrueBit h b n)
      then show ?thesis using True by (cases x) (simp add: set_if_def)
    next
      case (Cond h b k)
      then show ?thesis
        using True Cons.prems(1) rd_step_shrinks [of k x] by (cases k; cases x) (simp add: rd_if_def)
    qed
  qed
qed simp

lemma flag_object_codec:
  assumes t: "flag_codec_table t"
  shows "tl_codec (read_object (rd_fcases t)) (write_fobject (wr_fcases t)) (enc_fobject t) (ok_fobject t)"
proof
  fix q v b assume "ok_fobject t q v"
  then obtain full cid fs where v: "v = VMap full" and c: "obj_get full ''_'' = VInt cid"
    and fs: "map_of t cid = Some fs" and ok: "list_all (ok_field q full) fs"
    by (rule ok_fobjectE)
  have "''_'' \<notin> set (flag_names fs)" and F: "flag_fields (flag_names fs) [] fs"
    using t map_of_SomeD [OF fs] by (auto simp: flag_codec_table_def)
  have "same_but (flag_names fs) full full" by (simp add: same_but_def)
  from write_flag_fields [OF F order_refl this ok, of "b @ le_encode 4 cid"]
  show "write_fobject (wr_fcases t) (packet q b) v = packet q (b @ enc_fobject t q v)"
    by (simp add: v write_fobject_def enc_fobject_def objID_def c fs wr_fcases_def map_of_map
        wf_def writeInt32_def)
next
  fix s v r old assume o: "ok_fobject t (sqt s) v" and av: "avail s = enc_fobject t (sqt s) v @ r"
  from o obtain full cid fs where v: "v = VMap full" and c: "obj_get full ''_'' = VInt cid"
    and fs: "map_of t cid = Some fs" and d: "distinct (map fst full)"
    and keys: "map fst full = ''_'' # concat (map (present full) fs)"
    and ok: "list_all (ok_field (sqt s) full) fs"
    by (rule ok_fobjectE)
  have F: "flag_fields (flag_names fs) [] fs"
    using t map_of_SomeD [OF fs] by (auto simp: flag_codec_table_def)
  let ?e = "concat (map (enc_field (sqt s) full) fs)"
  have enc: "enc_fobject t (sqt s) v = le_encode 4 cid @ ?e"
    by (simp add: v enc_fobject_def objID_def c fs)
  have w: "read_word 4 s = (cid, advance 4 s)"
    using av by (subst read_word_encoded) (simp_all add: enc)
  have "fold (\<lambda>f. f) (map rd_field fs) ([(''_'', VInt cid)], advance 4 s)
      = ([(''_'', VInt cid)] @ entries full (concat (map (present full) fs)),
         advance (length (concat (map (enc_field (sqt (advance 4 s)) full) fs))) (advance 4 s))"
  proof (rule read_flag_fields [OF F])
    show "known [] [(''_'', VInt cid)] full" by (simp add: known_def)
    show "list_all (ok_field (sqt (advance 4 s)) full) fs" using ok by simp
    show "distinct (map fst [(''_'', VInt cid)] @ concat (map (present full) fs))"
      using d keys by simp
    show "avail (advance 4 s) = concat (map (enc_field (sqt (advance 4 s)) full) fs) @ r"
      using av enc by simp
  qed
  moreover have "[(''_'', VInt cid)] @ entries full (concat (map (present full) fs)) = full"
    using entries_self [OF d] unfolding keys by (simp add: c)
  ultimately show "read_object (rd_fcases t) old s = (v, advance (length (enc_fobject t (sqt s) v)) s)"
    by (simp add: read_object_def readInt32_def rd_fcases_def map_of_map fs w v enc [unfolded v])
next
  fix old s
  show "length (avail (snd (read_object (rd_fcases t) old s))) \<le> length (avail s)"
  proof (rule read_object_shrinks)
    fix c fs f and x :: "tgobject \<times> tgstream" assume c: "map_of (rd_fcases t) c = Some fs" "f \<in> set fs"
    then obtain gs where gs: "map_of t c = Some gs" "fs = map rd_field gs" by (auto simp: rd_fcases_def map_of_map)
    then have "flag_fields (flag_names gs) [] gs" using t map_of_SomeD by (fastforce simp: flag_codec_table_def)
    then show "length (avail (snd (f x))) \<le> length (avail (snd x))"
      using c(2) gs(2) rd_field_shrinks [of "flag_names gs" "[]" gs _ x] by auto
  qed
qed

lemma flag_tableI: "flag_codec_table []"
  "''_'' \<notin> set (flag_names fs) \<Longrightarrow> flag_fields (flag_names fs) [] fs \<Longrightarrow> flag_codec_table t \<Longrightarrow>
   flag_codec_table ((c, fs) # t)"
  by (auto simp: flag_codec_table_def)

lemma flag_schema_codec:
  assumes "flag_codec_table t" and "R = read_object (rd_fcases t)" and "W = write_fobject (wr_fcases t)"
  shows "tl_codec R W (enc_fobject t) (ok_fobject t)"
  using flag_object_codec [OF assms(1)] assms(2,3) by simp

text \<open>A table is checked constructor by constructor: \<open>unfold\<close> it, \<open>intro flag_tableI\<close>, simplify each case.\<close>

lemmas flag_schema_simps = rd_fcases_def wr_fcases_def leaf_codecs
  int32.vector_codec tstring.vector_codec tbytes.vector_codec

end
