(* ===== verification/TlSchema.thy ===== *)
theory TlSchema
  imports TlFlags
begin

section \<open>The API schema, types of users, chats and peers: libkg/tlschema.cpp\<close>

text \<open>
  The readers and writers of libkg/tlschema.cpp the client needs outside message bodies:
  the statements of each constructor's case in source order. After each type its table,
  whose interpretation discharges the codec contract for its reader and writer.
\<close>

definition readTLDcOption :: tl_reader where
  "readTLDcOption = read_object
     [(414687501, [rd ''flags'' readUInt32, set_if ''flags'' 0 ''ipv6'',
         set_if ''flags'' 1 ''media_only'', set_if ''flags'' 2 ''tcpo_only'',
         set_if ''flags'' 3 ''cdn'', set_if ''flags'' 4 ''static'',
         set_if ''flags'' 5 ''this_port_only'', rd ''id'' readInt32, rd ''ip_address'' readString,
         rd ''port'' readInt32, rd_if ''flags'' 10 ''secret'' readByteArray])]"

definition writeTLDcOption :: tl_writer where
  "writeTLDcOption = write_fobject
     [(414687501, [wf ''_'' writeInt32, wf_flags ''flags'' [(''ipv6'', 0), (''media_only'', 1),
         (''tcpo_only'', 2), (''cdn'', 3), (''static'', 4), (''this_port_only'', 5), (''secret'',
         10)], wf ''id'' writeInt32, wf ''ip_address'' writeString, wf ''port'' writeInt32,
         wf_if ''flags'' 10 ''secret'' writeByteArray])]"

definition TL_DcOption_table :: flag_table where
  "TL_DcOption_table =
     [(414687501, [Flags ''flags'' [(''ipv6'', 0), (''media_only'', 1), (''tcpo_only'', 2),
         (''cdn'', 3), (''static'', 4), (''this_port_only'', 5), (''secret'', 10)],
        TrueBit ''flags'' 0 ''ipv6'',
        TrueBit ''flags'' 1 ''media_only'',
        TrueBit ''flags'' 2 ''tcpo_only'',
        TrueBit ''flags'' 3 ''cdn'',
        TrueBit ''flags'' 4 ''static'',
        TrueBit ''flags'' 5 ''this_port_only'',
        Plain (''id'', readInt32, writeInt32, enc_int32, is_VInt),
        Plain (''ip_address'', readString, writeString, enc_string, is_short_text),
        Plain (''port'', readInt32, writeInt32, enc_int32, is_VInt),
        Cond ''flags'' 10 (''secret'', readByteArray, writeByteArray, enc_bytes, is_short_bytes)])]"

interpretation tl_DcOption: tl_codec readTLDcOption writeTLDcOption "enc_fobject TL_DcOption_table" "ok_fobject TL_DcOption_table"
  by (rule flag_schema_codec, unfold TL_DcOption_table_def, intro flag_tableI)
    (simp_all add: readTLDcOption_def writeTLDcOption_def flag_schema_simps)

definition readTLReaction :: tl_reader where
  "readTLReaction = read_object
     [(2046153753, []),
      (455247544, [rd ''emoticon'' readString]),
      (- 1992950669, [rd ''document_id'' readInt64]),
      (1379771627, [])]"

definition writeTLReaction :: tl_writer where
  "writeTLReaction = write_fobject
     [(2046153753, [wf ''_'' writeInt32]),
      (455247544, [wf ''_'' writeInt32, wf ''emoticon'' writeString]),
      (- 1992950669, [wf ''_'' writeInt32, wf ''document_id'' writeInt64]),
      (1379771627, [wf ''_'' writeInt32])]"

definition TL_Reaction_table :: flag_table where
  "TL_Reaction_table =
     [(2046153753, []),
      (455247544, [Plain (''emoticon'', readString, writeString, enc_string, is_short_text)]),
      (- 1992950669, [Plain (''document_id'', readInt64, writeInt64, enc_int64, is_VLong)]),
      (1379771627, [])]"

interpretation tl_Reaction: tl_codec readTLReaction writeTLReaction "enc_fobject TL_Reaction_table" "ok_fobject TL_Reaction_table"
  by (rule flag_schema_codec, unfold TL_Reaction_table_def, intro flag_tableI)
    (simp_all add: readTLReaction_def writeTLReaction_def flag_schema_simps)

definition readTLConfig :: tl_reader where
  "readTLConfig = read_object
     [(- 870702050, [rd ''flags'' readUInt32, set_if ''flags'' 3 ''default_p2p_contacts'',
         set_if ''flags'' 4 ''preload_featured_stickers'', set_if ''flags'' 6 ''revoke_pm_inbox'',
         set_if ''flags'' 8 ''blocked_mode'', set_if ''flags'' 14 ''force_try_ipv6'',
         rd ''date'' readInt32, rd ''expires'' readInt32, rd ''test_mode'' readBool,
         rd ''this_dc'' readInt32, rd ''dc_options'' (readVector (Some readTLDcOption)),
         rd ''dc_txt_domain_name'' readString, rd ''chat_size_max'' readInt32,
         rd ''megagroup_size_max'' readInt32, rd ''forwarded_count_max'' readInt32,
         rd ''online_update_period_ms'' readInt32, rd ''offline_blur_timeout_ms'' readInt32,
         rd ''offline_idle_timeout_ms'' readInt32, rd ''online_cloud_timeout_ms'' readInt32,
         rd ''notify_cloud_delay_ms'' readInt32, rd ''notify_default_delay_ms'' readInt32,
         rd ''push_chat_period_ms'' readInt32, rd ''push_chat_limit'' readInt32,
         rd ''edit_time_limit'' readInt32, rd ''revoke_time_limit'' readInt32,
         rd ''revoke_pm_time_limit'' readInt32, rd ''rating_e_decay'' readInt32,
         rd ''stickers_recent_limit'' readInt32, rd ''channels_read_media_period'' readInt32,
         rd_if ''flags'' 0 ''tmp_sessions'' readInt32, rd ''call_receive_timeout_ms'' readInt32,
         rd ''call_ring_timeout_ms'' readInt32, rd ''call_connect_timeout_ms'' readInt32,
         rd ''call_packet_timeout_ms'' readInt32, rd ''me_url_prefix'' readString,
         rd_if ''flags'' 7 ''autoupdate_url_prefix'' readString,
         rd_if ''flags'' 9 ''gif_search_username'' readString,
         rd_if ''flags'' 10 ''venue_search_username'' readString,
         rd_if ''flags'' 11 ''img_search_username'' readString,
         rd_if ''flags'' 12 ''static_maps_provider'' readString,
         rd ''caption_length_max'' readInt32, rd ''message_length_max'' readInt32,
         rd ''webfile_dc_id'' readInt32, rd_if ''flags'' 2 ''suggested_lang_code'' readString,
         rd_if ''flags'' 2 ''lang_pack_version'' readInt32,
         rd_if ''flags'' 2 ''base_lang_pack_version'' readInt32,
         rd_if ''flags'' 15 ''reactions_default'' readTLReaction,
         rd_if ''flags'' 16 ''autologin_token'' readString])]"

definition writeTLConfig :: tl_writer where
  "writeTLConfig = write_fobject
     [(- 870702050, [wf ''_'' writeInt32, wf_flags ''flags'' [(''default_p2p_contacts'', 3),
         (''preload_featured_stickers'', 4), (''revoke_pm_inbox'', 6), (''blocked_mode'', 8),
         (''force_try_ipv6'', 14), (''tmp_sessions'', 0), (''autoupdate_url_prefix'', 7),
         (''gif_search_username'', 9), (''venue_search_username'', 10), (''img_search_username'',
         11), (''static_maps_provider'', 12), (''suggested_lang_code'', 2), (''lang_pack_version'',
         2), (''base_lang_pack_version'', 2), (''reactions_default'', 15), (''autologin_token'',
         16)], wf ''date'' writeInt32, wf ''expires'' writeInt32, wf ''test_mode'' writeBool,
         wf ''this_dc'' writeInt32, wf ''dc_options'' (writeVector (Some writeTLDcOption)),
         wf ''dc_txt_domain_name'' writeString, wf ''chat_size_max'' writeInt32,
         wf ''megagroup_size_max'' writeInt32, wf ''forwarded_count_max'' writeInt32,
         wf ''online_update_period_ms'' writeInt32, wf ''offline_blur_timeout_ms'' writeInt32,
         wf ''offline_idle_timeout_ms'' writeInt32, wf ''online_cloud_timeout_ms'' writeInt32,
         wf ''notify_cloud_delay_ms'' writeInt32, wf ''notify_default_delay_ms'' writeInt32,
         wf ''push_chat_period_ms'' writeInt32, wf ''push_chat_limit'' writeInt32,
         wf ''edit_time_limit'' writeInt32, wf ''revoke_time_limit'' writeInt32,
         wf ''revoke_pm_time_limit'' writeInt32, wf ''rating_e_decay'' writeInt32,
         wf ''stickers_recent_limit'' writeInt32, wf ''channels_read_media_period'' writeInt32,
         wf_if ''flags'' 0 ''tmp_sessions'' writeInt32, wf ''call_receive_timeout_ms'' writeInt32,
         wf ''call_ring_timeout_ms'' writeInt32, wf ''call_connect_timeout_ms'' writeInt32,
         wf ''call_packet_timeout_ms'' writeInt32, wf ''me_url_prefix'' writeString,
         wf_if ''flags'' 7 ''autoupdate_url_prefix'' writeString,
         wf_if ''flags'' 9 ''gif_search_username'' writeString,
         wf_if ''flags'' 10 ''venue_search_username'' writeString,
         wf_if ''flags'' 11 ''img_search_username'' writeString,
         wf_if ''flags'' 12 ''static_maps_provider'' writeString,
         wf ''caption_length_max'' writeInt32, wf ''message_length_max'' writeInt32,
         wf ''webfile_dc_id'' writeInt32, wf_if ''flags'' 2 ''suggested_lang_code'' writeString,
         wf_if ''flags'' 2 ''lang_pack_version'' writeInt32,
         wf_if ''flags'' 2 ''base_lang_pack_version'' writeInt32,
         wf_if ''flags'' 15 ''reactions_default'' writeTLReaction,
         wf_if ''flags'' 16 ''autologin_token'' writeString])]"

definition TL_Config_table :: flag_table where
  "TL_Config_table =
     [(- 870702050, [Flags ''flags'' [(''default_p2p_contacts'', 3),
         (''preload_featured_stickers'', 4), (''revoke_pm_inbox'', 6), (''blocked_mode'', 8),
         (''force_try_ipv6'', 14), (''tmp_sessions'', 0), (''autoupdate_url_prefix'', 7),
         (''gif_search_username'', 9), (''venue_search_username'', 10), (''img_search_username'',
         11), (''static_maps_provider'', 12), (''suggested_lang_code'', 2), (''lang_pack_version'',
         2), (''base_lang_pack_version'', 2), (''reactions_default'', 15), (''autologin_token'',
         16)],
        TrueBit ''flags'' 3 ''default_p2p_contacts'',
        TrueBit ''flags'' 4 ''preload_featured_stickers'',
        TrueBit ''flags'' 6 ''revoke_pm_inbox'',
        TrueBit ''flags'' 8 ''blocked_mode'',
        TrueBit ''flags'' 14 ''force_try_ipv6'',
        Plain (''date'', readInt32, writeInt32, enc_int32, is_VInt),
        Plain (''expires'', readInt32, writeInt32, enc_int32, is_VInt),
        Plain (''test_mode'', readBool, writeBool, enc_bool, is_VBool),
        Plain (''this_dc'', readInt32, writeInt32, enc_int32, is_VInt),
        Plain (''dc_options'', readVector (Some readTLDcOption),
         writeVector (Some writeTLDcOption), enc_vector (enc_fobject TL_DcOption_table),
         ok_vector (ok_fobject TL_DcOption_table)),
        Plain (''dc_txt_domain_name'', readString, writeString, enc_string, is_short_text),
        Plain (''chat_size_max'', readInt32, writeInt32, enc_int32, is_VInt),
        Plain (''megagroup_size_max'', readInt32, writeInt32, enc_int32, is_VInt),
        Plain (''forwarded_count_max'', readInt32, writeInt32, enc_int32, is_VInt),
        Plain (''online_update_period_ms'', readInt32, writeInt32, enc_int32, is_VInt),
        Plain (''offline_blur_timeout_ms'', readInt32, writeInt32, enc_int32, is_VInt),
        Plain (''offline_idle_timeout_ms'', readInt32, writeInt32, enc_int32, is_VInt),
        Plain (''online_cloud_timeout_ms'', readInt32, writeInt32, enc_int32, is_VInt),
        Plain (''notify_cloud_delay_ms'', readInt32, writeInt32, enc_int32, is_VInt),
        Plain (''notify_default_delay_ms'', readInt32, writeInt32, enc_int32, is_VInt),
        Plain (''push_chat_period_ms'', readInt32, writeInt32, enc_int32, is_VInt),
        Plain (''push_chat_limit'', readInt32, writeInt32, enc_int32, is_VInt),
        Plain (''edit_time_limit'', readInt32, writeInt32, enc_int32, is_VInt),
        Plain (''revoke_time_limit'', readInt32, writeInt32, enc_int32, is_VInt),
        Plain (''revoke_pm_time_limit'', readInt32, writeInt32, enc_int32, is_VInt),
        Plain (''rating_e_decay'', readInt32, writeInt32, enc_int32, is_VInt),
        Plain (''stickers_recent_limit'', readInt32, writeInt32, enc_int32, is_VInt),
        Plain (''channels_read_media_period'', readInt32, writeInt32, enc_int32, is_VInt),
        Cond ''flags'' 0 (''tmp_sessions'', readInt32, writeInt32, enc_int32, is_VInt),
        Plain (''call_receive_timeout_ms'', readInt32, writeInt32, enc_int32, is_VInt),
        Plain (''call_ring_timeout_ms'', readInt32, writeInt32, enc_int32, is_VInt),
        Plain (''call_connect_timeout_ms'', readInt32, writeInt32, enc_int32, is_VInt),
        Plain (''call_packet_timeout_ms'', readInt32, writeInt32, enc_int32, is_VInt),
        Plain (''me_url_prefix'', readString, writeString, enc_string, is_short_text),
        Cond ''flags'' 7 (''autoupdate_url_prefix'', readString, writeString, enc_string,
         is_short_text),
        Cond ''flags'' 9 (''gif_search_username'', readString, writeString, enc_string,
         is_short_text),
        Cond ''flags'' 10 (''venue_search_username'', readString, writeString, enc_string,
         is_short_text),
        Cond ''flags'' 11 (''img_search_username'', readString, writeString, enc_string,
         is_short_text),
        Cond ''flags'' 12 (''static_maps_provider'', readString, writeString, enc_string,
         is_short_text),
        Plain (''caption_length_max'', readInt32, writeInt32, enc_int32, is_VInt),
        Plain (''message_length_max'', readInt32, writeInt32, enc_int32, is_VInt),
        Plain (''webfile_dc_id'', readInt32, writeInt32, enc_int32, is_VInt),
        Cond ''flags'' 2 (''suggested_lang_code'', readString, writeString, enc_string,
         is_short_text),
        Cond ''flags'' 2 (''lang_pack_version'', readInt32, writeInt32, enc_int32, is_VInt),
        Cond ''flags'' 2 (''base_lang_pack_version'', readInt32, writeInt32, enc_int32, is_VInt),
        Cond ''flags'' 15 (''reactions_default'', readTLReaction, writeTLReaction,
         enc_fobject TL_Reaction_table, ok_fobject TL_Reaction_table),
        Cond ''flags'' 16 (''autologin_token'', readString, writeString, enc_string,
         is_short_text)])]"

interpretation tl_Config: tl_codec readTLConfig writeTLConfig "enc_fobject TL_Config_table" "ok_fobject TL_Config_table"
  by (rule flag_schema_codec, unfold TL_Config_table_def, intro flag_tableI)
    (simp_all add: readTLConfig_def writeTLConfig_def flag_schema_simps tl_DcOption.tl_codec_axioms tl_DcOption.vector_codec tl_Reaction.tl_codec_axioms tl_Reaction.vector_codec)

definition readTLUserProfilePhoto :: tl_reader where
  "readTLUserProfilePhoto = read_object
     [(1326562017, []),
      (- 2100168954, [rd ''flags'' readUInt32, set_if ''flags'' 0 ''has_video'',
         set_if ''flags'' 2 ''personal'', rd ''photo_id'' readInt64,
         rd_if ''flags'' 1 ''stripped_thumb'' readByteArray, rd ''dc_id'' readInt32])]"

definition writeTLUserProfilePhoto :: tl_writer where
  "writeTLUserProfilePhoto = write_fobject
     [(1326562017, [wf ''_'' writeInt32]),
      (- 2100168954, [wf ''_'' writeInt32, wf_flags ''flags'' [(''has_video'', 0), (''personal'',
         2), (''stripped_thumb'', 1)], wf ''photo_id'' writeInt64,
         wf_if ''flags'' 1 ''stripped_thumb'' writeByteArray, wf ''dc_id'' writeInt32])]"

definition TL_UserProfilePhoto_table :: flag_table where
  "TL_UserProfilePhoto_table =
     [(1326562017, []),
      (- 2100168954, [Flags ''flags'' [(''has_video'', 0), (''personal'', 2), (''stripped_thumb'',
         1)],
        TrueBit ''flags'' 0 ''has_video'',
        TrueBit ''flags'' 2 ''personal'',
        Plain (''photo_id'', readInt64, writeInt64, enc_int64, is_VLong),
        Cond ''flags'' 1 (''stripped_thumb'', readByteArray, writeByteArray, enc_bytes,
         is_short_bytes),
        Plain (''dc_id'', readInt32, writeInt32, enc_int32, is_VInt)])]"

interpretation tl_UserProfilePhoto: tl_codec readTLUserProfilePhoto writeTLUserProfilePhoto "enc_fobject TL_UserProfilePhoto_table" "ok_fobject TL_UserProfilePhoto_table"
  by (rule flag_schema_codec, unfold TL_UserProfilePhoto_table_def, intro flag_tableI)
    (simp_all add: readTLUserProfilePhoto_def writeTLUserProfilePhoto_def flag_schema_simps)

definition readTLUserStatus :: tl_reader where
  "readTLUserStatus = read_object
     [(164646985, []),
      (- 306628279, [rd ''expires'' readInt32]),
      (9203775, [rd ''was_online'' readInt32]),
      (2065268168, [rd ''flags'' readUInt32, set_if ''flags'' 0 ''by_me'']),
      (1410997530, [rd ''flags'' readUInt32, set_if ''flags'' 0 ''by_me'']),
      (1703516023, [rd ''flags'' readUInt32, set_if ''flags'' 0 ''by_me''])]"

definition writeTLUserStatus :: tl_writer where
  "writeTLUserStatus = write_fobject
     [(164646985, [wf ''_'' writeInt32]),
      (- 306628279, [wf ''_'' writeInt32, wf ''expires'' writeInt32]),
      (9203775, [wf ''_'' writeInt32, wf ''was_online'' writeInt32]),
      (2065268168, [wf ''_'' writeInt32, wf_flags ''flags'' [(''by_me'', 0)]]),
      (1410997530, [wf ''_'' writeInt32, wf_flags ''flags'' [(''by_me'', 0)]]),
      (1703516023, [wf ''_'' writeInt32, wf_flags ''flags'' [(''by_me'', 0)]])]"

definition TL_UserStatus_table :: flag_table where
  "TL_UserStatus_table =
     [(164646985, []),
      (- 306628279, [Plain (''expires'', readInt32, writeInt32, enc_int32, is_VInt)]),
      (9203775, [Plain (''was_online'', readInt32, writeInt32, enc_int32, is_VInt)]),
      (2065268168, [Flags ''flags'' [(''by_me'', 0)],
        TrueBit ''flags'' 0 ''by_me'']),
      (1410997530, [Flags ''flags'' [(''by_me'', 0)],
        TrueBit ''flags'' 0 ''by_me'']),
      (1703516023, [Flags ''flags'' [(''by_me'', 0)],
        TrueBit ''flags'' 0 ''by_me''])]"

interpretation tl_UserStatus: tl_codec readTLUserStatus writeTLUserStatus "enc_fobject TL_UserStatus_table" "ok_fobject TL_UserStatus_table"
  by (rule flag_schema_codec, unfold TL_UserStatus_table_def, intro flag_tableI)
    (simp_all add: readTLUserStatus_def writeTLUserStatus_def flag_schema_simps)

definition readTLRestrictionReason :: tl_reader where
  "readTLRestrictionReason = read_object
     [(- 797791052, [rd ''platform'' readString, rd ''reason'' readString,
         rd ''text'' readString])]"

definition writeTLRestrictionReason :: tl_writer where
  "writeTLRestrictionReason = write_fobject
     [(- 797791052, [wf ''_'' writeInt32, wf ''platform'' writeString, wf ''reason'' writeString,
         wf ''text'' writeString])]"

definition TL_RestrictionReason_table :: flag_table where
  "TL_RestrictionReason_table =
     [(- 797791052, [Plain (''platform'', readString, writeString, enc_string, is_short_text),
        Plain (''reason'', readString, writeString, enc_string, is_short_text),
        Plain (''text'', readString, writeString, enc_string, is_short_text)])]"

interpretation tl_RestrictionReason: tl_codec readTLRestrictionReason writeTLRestrictionReason "enc_fobject TL_RestrictionReason_table" "ok_fobject TL_RestrictionReason_table"
  by (rule flag_schema_codec, unfold TL_RestrictionReason_table_def, intro flag_tableI)
    (simp_all add: readTLRestrictionReason_def writeTLRestrictionReason_def flag_schema_simps)

definition readTLEmojiStatus :: tl_reader where
  "readTLEmojiStatus = read_object
     [(769727150, []),
      (- 402717046, [rd ''flags'' readUInt32, rd ''document_id'' readInt64,
         rd_if ''flags'' 0 ''until'' readInt32]),
      (1904500795, [rd ''flags'' readUInt32, rd ''collectible_id'' readInt64,
         rd ''document_id'' readInt64, rd ''title'' readString, rd ''slug'' readString,
         rd ''pattern_document_id'' readInt64, rd ''center_color'' readInt32,
         rd ''edge_color'' readInt32, rd ''pattern_color'' readInt32, rd ''text_color'' readInt32,
         rd_if ''flags'' 0 ''until'' readInt32]),
      (118758847, [rd ''flags'' readUInt32, rd ''collectible_id'' readInt64,
         rd_if ''flags'' 0 ''until'' readInt32])]"

definition writeTLEmojiStatus :: tl_writer where
  "writeTLEmojiStatus = write_fobject
     [(769727150, [wf ''_'' writeInt32]),
      (- 402717046, [wf ''_'' writeInt32, wf_flags ''flags'' [(''until'', 0)],
         wf ''document_id'' writeInt64, wf_if ''flags'' 0 ''until'' writeInt32]),
      (1904500795, [wf ''_'' writeInt32, wf_flags ''flags'' [(''until'', 0)],
         wf ''collectible_id'' writeInt64, wf ''document_id'' writeInt64, wf ''title'' writeString,
         wf ''slug'' writeString, wf ''pattern_document_id'' writeInt64,
         wf ''center_color'' writeInt32, wf ''edge_color'' writeInt32,
         wf ''pattern_color'' writeInt32, wf ''text_color'' writeInt32,
         wf_if ''flags'' 0 ''until'' writeInt32]),
      (118758847, [wf ''_'' writeInt32, wf_flags ''flags'' [(''until'', 0)],
         wf ''collectible_id'' writeInt64, wf_if ''flags'' 0 ''until'' writeInt32])]"

definition TL_EmojiStatus_table :: flag_table where
  "TL_EmojiStatus_table =
     [(769727150, []),
      (- 402717046, [Flags ''flags'' [(''until'', 0)],
        Plain (''document_id'', readInt64, writeInt64, enc_int64, is_VLong),
        Cond ''flags'' 0 (''until'', readInt32, writeInt32, enc_int32, is_VInt)]),
      (1904500795, [Flags ''flags'' [(''until'', 0)],
        Plain (''collectible_id'', readInt64, writeInt64, enc_int64, is_VLong),
        Plain (''document_id'', readInt64, writeInt64, enc_int64, is_VLong),
        Plain (''title'', readString, writeString, enc_string, is_short_text),
        Plain (''slug'', readString, writeString, enc_string, is_short_text),
        Plain (''pattern_document_id'', readInt64, writeInt64, enc_int64, is_VLong),
        Plain (''center_color'', readInt32, writeInt32, enc_int32, is_VInt),
        Plain (''edge_color'', readInt32, writeInt32, enc_int32, is_VInt),
        Plain (''pattern_color'', readInt32, writeInt32, enc_int32, is_VInt),
        Plain (''text_color'', readInt32, writeInt32, enc_int32, is_VInt),
        Cond ''flags'' 0 (''until'', readInt32, writeInt32, enc_int32, is_VInt)]),
      (118758847, [Flags ''flags'' [(''until'', 0)],
        Plain (''collectible_id'', readInt64, writeInt64, enc_int64, is_VLong),
        Cond ''flags'' 0 (''until'', readInt32, writeInt32, enc_int32, is_VInt)])]"

interpretation tl_EmojiStatus: tl_codec readTLEmojiStatus writeTLEmojiStatus "enc_fobject TL_EmojiStatus_table" "ok_fobject TL_EmojiStatus_table"
  by (rule flag_schema_codec, unfold TL_EmojiStatus_table_def, intro flag_tableI)
    (simp_all add: readTLEmojiStatus_def writeTLEmojiStatus_def flag_schema_simps)

definition readTLUsername :: tl_reader where
  "readTLUsername = read_object
     [(- 1274595769, [rd ''flags'' readUInt32, set_if ''flags'' 0 ''editable'',
         set_if ''flags'' 1 ''active'', rd ''username'' readString])]"

definition writeTLUsername :: tl_writer where
  "writeTLUsername = write_fobject
     [(- 1274595769, [wf ''_'' writeInt32, wf_flags ''flags'' [(''editable'', 0), (''active'', 1)],
         wf ''username'' writeString])]"

definition TL_Username_table :: flag_table where
  "TL_Username_table =
     [(- 1274595769, [Flags ''flags'' [(''editable'', 0), (''active'', 1)],
        TrueBit ''flags'' 0 ''editable'',
        TrueBit ''flags'' 1 ''active'',
        Plain (''username'', readString, writeString, enc_string, is_short_text)])]"

interpretation tl_Username: tl_codec readTLUsername writeTLUsername "enc_fobject TL_Username_table" "ok_fobject TL_Username_table"
  by (rule flag_schema_codec, unfold TL_Username_table_def, intro flag_tableI)
    (simp_all add: readTLUsername_def writeTLUsername_def flag_schema_simps)

definition readTLRecentStory :: tl_reader where
  "readTLRecentStory = read_object
     [(1897752877, [rd ''flags'' readUInt32, set_if ''flags'' 0 ''live'',
         rd_if ''flags'' 1 ''max_id'' readInt32])]"

definition writeTLRecentStory :: tl_writer where
  "writeTLRecentStory = write_fobject
     [(1897752877, [wf ''_'' writeInt32, wf_flags ''flags'' [(''live'', 0), (''max_id'', 1)],
         wf_if ''flags'' 1 ''max_id'' writeInt32])]"

definition TL_RecentStory_table :: flag_table where
  "TL_RecentStory_table =
     [(1897752877, [Flags ''flags'' [(''live'', 0), (''max_id'', 1)],
        TrueBit ''flags'' 0 ''live'',
        Cond ''flags'' 1 (''max_id'', readInt32, writeInt32, enc_int32, is_VInt)])]"

interpretation tl_RecentStory: tl_codec readTLRecentStory writeTLRecentStory "enc_fobject TL_RecentStory_table" "ok_fobject TL_RecentStory_table"
  by (rule flag_schema_codec, unfold TL_RecentStory_table_def, intro flag_tableI)
    (simp_all add: readTLRecentStory_def writeTLRecentStory_def flag_schema_simps)

definition readTLPeerColor :: tl_reader where
  "readTLPeerColor = read_object
     [(- 1253352753, [rd ''flags'' readUInt32, rd_if ''flags'' 0 ''color'' readInt32,
         rd_if ''flags'' 1 ''background_emoji_id'' readInt64]),
      (- 1178573926, [rd ''flags'' readUInt32, rd ''collectible_id'' readInt64,
         rd ''gift_emoji_id'' readInt64, rd ''background_emoji_id'' readInt64,
         rd ''accent_color'' readInt32, rd ''colors'' (readVector (Some readInt32)),
         rd_if ''flags'' 0 ''dark_accent_color'' readInt32,
         rd_if ''flags'' 1 ''dark_colors'' (readVector (Some readInt32))]),
      (- 1192589655, [rd ''collectible_id'' readInt64])]"

definition writeTLPeerColor :: tl_writer where
  "writeTLPeerColor = write_fobject
     [(- 1253352753, [wf ''_'' writeInt32, wf_flags ''flags'' [(''color'', 0),
         (''background_emoji_id'', 1)], wf_if ''flags'' 0 ''color'' writeInt32,
         wf_if ''flags'' 1 ''background_emoji_id'' writeInt64]),
      (- 1178573926, [wf ''_'' writeInt32, wf_flags ''flags'' [(''dark_accent_color'', 0),
         (''dark_colors'', 1)], wf ''collectible_id'' writeInt64, wf ''gift_emoji_id'' writeInt64,
         wf ''background_emoji_id'' writeInt64, wf ''accent_color'' writeInt32,
         wf ''colors'' (writeVector (Some writeInt32)),
         wf_if ''flags'' 0 ''dark_accent_color'' writeInt32,
         wf_if ''flags'' 1 ''dark_colors'' (writeVector (Some writeInt32))]),
      (- 1192589655, [wf ''_'' writeInt32, wf ''collectible_id'' writeInt64])]"

definition TL_PeerColor_table :: flag_table where
  "TL_PeerColor_table =
     [(- 1253352753, [Flags ''flags'' [(''color'', 0), (''background_emoji_id'', 1)],
        Cond ''flags'' 0 (''color'', readInt32, writeInt32, enc_int32, is_VInt),
        Cond ''flags'' 1 (''background_emoji_id'', readInt64, writeInt64, enc_int64, is_VLong)]),
      (- 1178573926, [Flags ''flags'' [(''dark_accent_color'', 0), (''dark_colors'', 1)],
        Plain (''collectible_id'', readInt64, writeInt64, enc_int64, is_VLong),
        Plain (''gift_emoji_id'', readInt64, writeInt64, enc_int64, is_VLong),
        Plain (''background_emoji_id'', readInt64, writeInt64, enc_int64, is_VLong),
        Plain (''accent_color'', readInt32, writeInt32, enc_int32, is_VInt),
        Plain (''colors'', readVector (Some readInt32), writeVector (Some writeInt32),
         enc_vector enc_int32, ok_vector is_VInt),
        Cond ''flags'' 0 (''dark_accent_color'', readInt32, writeInt32, enc_int32, is_VInt),
        Cond ''flags'' 1 (''dark_colors'', readVector (Some readInt32),
         writeVector (Some writeInt32), enc_vector enc_int32, ok_vector is_VInt)]),
      (- 1192589655, [Plain (''collectible_id'', readInt64, writeInt64, enc_int64, is_VLong)])]"

interpretation tl_PeerColor: tl_codec readTLPeerColor writeTLPeerColor "enc_fobject TL_PeerColor_table" "ok_fobject TL_PeerColor_table"
  by (rule flag_schema_codec, unfold TL_PeerColor_table_def, intro flag_tableI)
    (simp_all add: readTLPeerColor_def writeTLPeerColor_def flag_schema_simps)

definition readTLUser :: tl_reader where
  "readTLUser = read_object
     [(- 742634630, [rd ''id'' readInt64]),
      (- 1313289085, [rd ''flags'' readUInt32, set_if ''flags'' 10 ''self'',
         set_if ''flags'' 11 ''contact'', set_if ''flags'' 12 ''mutual_contact'',
         set_if ''flags'' 13 ''deleted'', set_if ''flags'' 14 ''bot'',
         set_if ''flags'' 15 ''bot_chat_history'', set_if ''flags'' 16 ''bot_nochats'',
         set_if ''flags'' 17 ''verified'', set_if ''flags'' 18 ''restricted'',
         set_if ''flags'' 20 ''min'', set_if ''flags'' 21 ''bot_inline_geo'',
         set_if ''flags'' 23 ''support'', set_if ''flags'' 24 ''scam'',
         set_if ''flags'' 25 ''apply_min_photo'', set_if ''flags'' 26 ''fake'',
         set_if ''flags'' 27 ''bot_attach_menu'', set_if ''flags'' 28 ''premium'',
         set_if ''flags'' 29 ''attach_menu_enabled'', rd ''flags2'' readUInt32,
         set_if ''flags2'' 1 ''bot_can_edit'', set_if ''flags2'' 2 ''close_friend'',
         set_if ''flags2'' 3 ''stories_hidden'', set_if ''flags2'' 4 ''stories_unavailable'',
         set_if ''flags2'' 10 ''contact_require_premium'', set_if ''flags2'' 11 ''bot_business'',
         set_if ''flags2'' 13 ''bot_has_main_app'', set_if ''flags2'' 16 ''bot_forum_view'',
         set_if ''flags2'' 17 ''bot_forum_can_manage_topics'',
         set_if ''flags2'' 18 ''bot_can_manage_bots'', set_if ''flags2'' 19 ''bot_guestchat'',
         set_if ''flags2'' 20 ''bot_guard'', rd ''id'' readInt64,
         rd_if ''flags'' 0 ''access_hash'' readInt64, rd_if ''flags'' 1 ''first_name'' readString,
         rd_if ''flags'' 2 ''last_name'' readString, rd_if ''flags'' 3 ''username'' readString,
         rd_if ''flags'' 4 ''phone'' readString,
         rd_if ''flags'' 5 ''photo'' readTLUserProfilePhoto,
         rd_if ''flags'' 6 ''status'' readTLUserStatus,
         rd_if ''flags'' 14 ''bot_info_version'' readInt32,
         rd_if ''flags'' 18 ''restriction_reason'' (readVector (Some readTLRestrictionReason)),
         rd_if ''flags'' 19 ''bot_inline_placeholder'' readString,
         rd_if ''flags'' 22 ''lang_code'' readString,
         rd_if ''flags'' 30 ''emoji_status'' readTLEmojiStatus,
         rd_if ''flags2'' 0 ''usernames'' (readVector (Some readTLUsername)),
         rd_if ''flags2'' 5 ''stories_max_id'' readTLRecentStory,
         rd_if ''flags2'' 8 ''color'' readTLPeerColor,
         rd_if ''flags2'' 9 ''profile_color'' readTLPeerColor,
         rd_if ''flags2'' 12 ''bot_active_users'' readInt32,
         rd_if ''flags2'' 14 ''bot_verification_icon'' readInt64,
         rd_if ''flags2'' 15 ''send_paid_messages_stars'' readInt64,
         rd_if ''flags2'' 21 ''linked_community_id'' readInt64])]"

definition writeTLUser :: tl_writer where
  "writeTLUser = write_fobject
     [(- 742634630, [wf ''_'' writeInt32, wf ''id'' writeInt64]),
      (- 1313289085, [wf ''_'' writeInt32, wf_flags ''flags'' [(''self'', 10), (''contact'', 11),
         (''mutual_contact'', 12), (''deleted'', 13), (''bot'', 14), (''bot_chat_history'', 15),
         (''bot_nochats'', 16), (''verified'', 17), (''restricted'', 18), (''min'', 20),
         (''bot_inline_geo'', 21), (''support'', 23), (''scam'', 24), (''apply_min_photo'', 25),
         (''fake'', 26), (''bot_attach_menu'', 27), (''premium'', 28), (''attach_menu_enabled'',
         29), (''access_hash'', 0), (''first_name'', 1), (''last_name'', 2), (''username'', 3),
         (''phone'', 4), (''photo'', 5), (''status'', 6), (''bot_info_version'', 14),
         (''restriction_reason'', 18), (''bot_inline_placeholder'', 19), (''lang_code'', 22),
         (''emoji_status'', 30)], wf_flags ''flags2'' [(''bot_can_edit'', 1), (''close_friend'',
         2), (''stories_hidden'', 3), (''stories_unavailable'', 4), (''contact_require_premium'',
         10), (''bot_business'', 11), (''bot_has_main_app'', 13), (''bot_forum_view'', 16),
         (''bot_forum_can_manage_topics'', 17), (''bot_can_manage_bots'', 18), (''bot_guestchat'',
         19), (''bot_guard'', 20), (''usernames'', 0), (''stories_max_id'', 5), (''color'', 8),
         (''profile_color'', 9), (''bot_active_users'', 12), (''bot_verification_icon'', 14),
         (''send_paid_messages_stars'', 15), (''linked_community_id'', 21)], wf ''id'' writeInt64,
         wf_if ''flags'' 0 ''access_hash'' writeInt64,
         wf_if ''flags'' 1 ''first_name'' writeString, wf_if ''flags'' 2 ''last_name'' writeString,
         wf_if ''flags'' 3 ''username'' writeString, wf_if ''flags'' 4 ''phone'' writeString,
         wf_if ''flags'' 5 ''photo'' writeTLUserProfilePhoto,
         wf_if ''flags'' 6 ''status'' writeTLUserStatus,
         wf_if ''flags'' 14 ''bot_info_version'' writeInt32,
         wf_if ''flags'' 18 ''restriction_reason'' (writeVector (Some writeTLRestrictionReason)),
         wf_if ''flags'' 19 ''bot_inline_placeholder'' writeString,
         wf_if ''flags'' 22 ''lang_code'' writeString,
         wf_if ''flags'' 30 ''emoji_status'' writeTLEmojiStatus,
         wf_if ''flags2'' 0 ''usernames'' (writeVector (Some writeTLUsername)),
         wf_if ''flags2'' 5 ''stories_max_id'' writeTLRecentStory,
         wf_if ''flags2'' 8 ''color'' writeTLPeerColor,
         wf_if ''flags2'' 9 ''profile_color'' writeTLPeerColor,
         wf_if ''flags2'' 12 ''bot_active_users'' writeInt32,
         wf_if ''flags2'' 14 ''bot_verification_icon'' writeInt64,
         wf_if ''flags2'' 15 ''send_paid_messages_stars'' writeInt64,
         wf_if ''flags2'' 21 ''linked_community_id'' writeInt64])]"

definition TL_User_table :: flag_table where
  "TL_User_table =
     [(- 742634630, [Plain (''id'', readInt64, writeInt64, enc_int64, is_VLong)]),
      (- 1313289085, [Flags ''flags'' [(''self'', 10), (''contact'', 11), (''mutual_contact'', 12),
         (''deleted'', 13), (''bot'', 14), (''bot_chat_history'', 15), (''bot_nochats'', 16),
         (''verified'', 17), (''restricted'', 18), (''min'', 20), (''bot_inline_geo'', 21),
         (''support'', 23), (''scam'', 24), (''apply_min_photo'', 25), (''fake'', 26),
         (''bot_attach_menu'', 27), (''premium'', 28), (''attach_menu_enabled'', 29),
         (''access_hash'', 0), (''first_name'', 1), (''last_name'', 2), (''username'', 3),
         (''phone'', 4), (''photo'', 5), (''status'', 6), (''bot_info_version'', 14),
         (''restriction_reason'', 18), (''bot_inline_placeholder'', 19), (''lang_code'', 22),
         (''emoji_status'', 30)],
        TrueBit ''flags'' 10 ''self'',
        TrueBit ''flags'' 11 ''contact'',
        TrueBit ''flags'' 12 ''mutual_contact'',
        TrueBit ''flags'' 13 ''deleted'',
        TrueBit ''flags'' 14 ''bot'',
        TrueBit ''flags'' 15 ''bot_chat_history'',
        TrueBit ''flags'' 16 ''bot_nochats'',
        TrueBit ''flags'' 17 ''verified'',
        TrueBit ''flags'' 18 ''restricted'',
        TrueBit ''flags'' 20 ''min'',
        TrueBit ''flags'' 21 ''bot_inline_geo'',
        TrueBit ''flags'' 23 ''support'',
        TrueBit ''flags'' 24 ''scam'',
        TrueBit ''flags'' 25 ''apply_min_photo'',
        TrueBit ''flags'' 26 ''fake'',
        TrueBit ''flags'' 27 ''bot_attach_menu'',
        TrueBit ''flags'' 28 ''premium'',
        TrueBit ''flags'' 29 ''attach_menu_enabled'',
        Flags ''flags2'' [(''bot_can_edit'', 1), (''close_friend'', 2), (''stories_hidden'', 3),
         (''stories_unavailable'', 4), (''contact_require_premium'', 10), (''bot_business'', 11),
         (''bot_has_main_app'', 13), (''bot_forum_view'', 16), (''bot_forum_can_manage_topics'',
         17), (''bot_can_manage_bots'', 18), (''bot_guestchat'', 19), (''bot_guard'', 20),
         (''usernames'', 0), (''stories_max_id'', 5), (''color'', 8), (''profile_color'', 9),
         (''bot_active_users'', 12), (''bot_verification_icon'', 14),
         (''send_paid_messages_stars'', 15), (''linked_community_id'', 21)],
        TrueBit ''flags2'' 1 ''bot_can_edit'',
        TrueBit ''flags2'' 2 ''close_friend'',
        TrueBit ''flags2'' 3 ''stories_hidden'',
        TrueBit ''flags2'' 4 ''stories_unavailable'',
        TrueBit ''flags2'' 10 ''contact_require_premium'',
        TrueBit ''flags2'' 11 ''bot_business'',
        TrueBit ''flags2'' 13 ''bot_has_main_app'',
        TrueBit ''flags2'' 16 ''bot_forum_view'',
        TrueBit ''flags2'' 17 ''bot_forum_can_manage_topics'',
        TrueBit ''flags2'' 18 ''bot_can_manage_bots'',
        TrueBit ''flags2'' 19 ''bot_guestchat'',
        TrueBit ''flags2'' 20 ''bot_guard'',
        Plain (''id'', readInt64, writeInt64, enc_int64, is_VLong),
        Cond ''flags'' 0 (''access_hash'', readInt64, writeInt64, enc_int64, is_VLong),
        Cond ''flags'' 1 (''first_name'', readString, writeString, enc_string, is_short_text),
        Cond ''flags'' 2 (''last_name'', readString, writeString, enc_string, is_short_text),
        Cond ''flags'' 3 (''username'', readString, writeString, enc_string, is_short_text),
        Cond ''flags'' 4 (''phone'', readString, writeString, enc_string, is_short_text),
        Cond ''flags'' 5 (''photo'', readTLUserProfilePhoto, writeTLUserProfilePhoto,
         enc_fobject TL_UserProfilePhoto_table, ok_fobject TL_UserProfilePhoto_table),
        Cond ''flags'' 6 (''status'', readTLUserStatus, writeTLUserStatus,
         enc_fobject TL_UserStatus_table, ok_fobject TL_UserStatus_table),
        Cond ''flags'' 14 (''bot_info_version'', readInt32, writeInt32, enc_int32, is_VInt),
        Cond ''flags'' 18 (''restriction_reason'', readVector (Some readTLRestrictionReason),
         writeVector (Some writeTLRestrictionReason),
         enc_vector (enc_fobject TL_RestrictionReason_table),
         ok_vector (ok_fobject TL_RestrictionReason_table)),
        Cond ''flags'' 19 (''bot_inline_placeholder'', readString, writeString, enc_string,
         is_short_text),
        Cond ''flags'' 22 (''lang_code'', readString, writeString, enc_string, is_short_text),
        Cond ''flags'' 30 (''emoji_status'', readTLEmojiStatus, writeTLEmojiStatus,
         enc_fobject TL_EmojiStatus_table, ok_fobject TL_EmojiStatus_table),
        Cond ''flags2'' 0 (''usernames'', readVector (Some readTLUsername),
         writeVector (Some writeTLUsername), enc_vector (enc_fobject TL_Username_table),
         ok_vector (ok_fobject TL_Username_table)),
        Cond ''flags2'' 5 (''stories_max_id'', readTLRecentStory, writeTLRecentStory,
         enc_fobject TL_RecentStory_table, ok_fobject TL_RecentStory_table),
        Cond ''flags2'' 8 (''color'', readTLPeerColor, writeTLPeerColor,
         enc_fobject TL_PeerColor_table, ok_fobject TL_PeerColor_table),
        Cond ''flags2'' 9 (''profile_color'', readTLPeerColor, writeTLPeerColor,
         enc_fobject TL_PeerColor_table, ok_fobject TL_PeerColor_table),
        Cond ''flags2'' 12 (''bot_active_users'', readInt32, writeInt32, enc_int32, is_VInt),
        Cond ''flags2'' 14 (''bot_verification_icon'', readInt64, writeInt64, enc_int64, is_VLong),
        Cond ''flags2'' 15 (''send_paid_messages_stars'', readInt64, writeInt64, enc_int64,
         is_VLong),
        Cond ''flags2'' 21 (''linked_community_id'', readInt64, writeInt64, enc_int64, is_VLong)])]"

interpretation tl_User: tl_codec readTLUser writeTLUser "enc_fobject TL_User_table" "ok_fobject TL_User_table"
  by (rule flag_schema_codec, unfold TL_User_table_def, intro flag_tableI)
    (simp_all add: readTLUser_def writeTLUser_def flag_schema_simps tl_UserProfilePhoto.tl_codec_axioms tl_UserProfilePhoto.vector_codec tl_UserStatus.tl_codec_axioms tl_UserStatus.vector_codec tl_RestrictionReason.tl_codec_axioms tl_RestrictionReason.vector_codec tl_EmojiStatus.tl_codec_axioms tl_EmojiStatus.vector_codec tl_Username.tl_codec_axioms tl_Username.vector_codec tl_RecentStory.tl_codec_axioms tl_RecentStory.vector_codec tl_PeerColor.tl_codec_axioms tl_PeerColor.vector_codec)

definition readTLDataJSON :: tl_reader where
  "readTLDataJSON = read_object
     [(2104790276, [rd ''data'' readString])]"

definition writeTLDataJSON :: tl_writer where
  "writeTLDataJSON = write_fobject
     [(2104790276, [wf ''_'' writeInt32, wf ''data'' writeString])]"

definition TL_DataJSON_table :: flag_table where
  "TL_DataJSON_table =
     [(2104790276, [Plain (''data'', readString, writeString, enc_string, is_short_text)])]"

interpretation tl_DataJSON: tl_codec readTLDataJSON writeTLDataJSON "enc_fobject TL_DataJSON_table" "ok_fobject TL_DataJSON_table"
  by (rule flag_schema_codec, unfold TL_DataJSON_table_def, intro flag_tableI)
    (simp_all add: readTLDataJSON_def writeTLDataJSON_def flag_schema_simps)

definition readTLUpdatesState :: tl_reader where
  "readTLUpdatesState = read_object
     [(- 1519637954, [rd ''pts'' readInt32, rd ''qts'' readInt32, rd ''date'' readInt32,
         rd ''seq'' readInt32, rd ''unread_count'' readInt32])]"

definition writeTLUpdatesState :: tl_writer where
  "writeTLUpdatesState = write_fobject
     [(- 1519637954, [wf ''_'' writeInt32, wf ''pts'' writeInt32, wf ''qts'' writeInt32,
         wf ''date'' writeInt32, wf ''seq'' writeInt32, wf ''unread_count'' writeInt32])]"

definition TL_UpdatesState_table :: flag_table where
  "TL_UpdatesState_table =
     [(- 1519637954, [Plain (''pts'', readInt32, writeInt32, enc_int32, is_VInt),
        Plain (''qts'', readInt32, writeInt32, enc_int32, is_VInt),
        Plain (''date'', readInt32, writeInt32, enc_int32, is_VInt),
        Plain (''seq'', readInt32, writeInt32, enc_int32, is_VInt),
        Plain (''unread_count'', readInt32, writeInt32, enc_int32, is_VInt)])]"

interpretation tl_UpdatesState: tl_codec readTLUpdatesState writeTLUpdatesState "enc_fobject TL_UpdatesState_table" "ok_fobject TL_UpdatesState_table"
  by (rule flag_schema_codec, unfold TL_UpdatesState_table_def, intro flag_tableI)
    (simp_all add: readTLUpdatesState_def writeTLUpdatesState_def flag_schema_simps)

definition readTLPasswordKdfAlgo :: tl_reader where
  "readTLPasswordKdfAlgo = read_object
     [(- 732254058, []),
      (982592842, [rd ''salt1'' readByteArray, rd ''salt2'' readByteArray, rd ''g'' readInt32,
         rd ''p'' readByteArray])]"

definition writeTLPasswordKdfAlgo :: tl_writer where
  "writeTLPasswordKdfAlgo = write_fobject
     [(- 732254058, [wf ''_'' writeInt32]),
      (982592842, [wf ''_'' writeInt32, wf ''salt1'' writeByteArray, wf ''salt2'' writeByteArray,
         wf ''g'' writeInt32, wf ''p'' writeByteArray])]"

definition TL_PasswordKdfAlgo_table :: flag_table where
  "TL_PasswordKdfAlgo_table =
     [(- 732254058, []),
      (982592842, [Plain (''salt1'', readByteArray, writeByteArray, enc_bytes, is_short_bytes),
        Plain (''salt2'', readByteArray, writeByteArray, enc_bytes, is_short_bytes),
        Plain (''g'', readInt32, writeInt32, enc_int32, is_VInt),
        Plain (''p'', readByteArray, writeByteArray, enc_bytes, is_short_bytes)])]"

interpretation tl_PasswordKdfAlgo: tl_codec readTLPasswordKdfAlgo writeTLPasswordKdfAlgo "enc_fobject TL_PasswordKdfAlgo_table" "ok_fobject TL_PasswordKdfAlgo_table"
  by (rule flag_schema_codec, unfold TL_PasswordKdfAlgo_table_def, intro flag_tableI)
    (simp_all add: readTLPasswordKdfAlgo_def writeTLPasswordKdfAlgo_def flag_schema_simps)

definition readTLSecurePasswordKdfAlgo :: tl_reader where
  "readTLSecurePasswordKdfAlgo = read_object
     [(4883767, []),
      (- 1141711456, [rd ''salt'' readByteArray]),
      (- 2042159726, [rd ''salt'' readByteArray])]"

definition writeTLSecurePasswordKdfAlgo :: tl_writer where
  "writeTLSecurePasswordKdfAlgo = write_fobject
     [(4883767, [wf ''_'' writeInt32]),
      (- 1141711456, [wf ''_'' writeInt32, wf ''salt'' writeByteArray]),
      (- 2042159726, [wf ''_'' writeInt32, wf ''salt'' writeByteArray])]"

definition TL_SecurePasswordKdfAlgo_table :: flag_table where
  "TL_SecurePasswordKdfAlgo_table =
     [(4883767, []),
      (- 1141711456, [Plain (''salt'', readByteArray, writeByteArray, enc_bytes, is_short_bytes)]),
      (- 2042159726, [Plain (''salt'', readByteArray, writeByteArray, enc_bytes, is_short_bytes)])]"

interpretation tl_SecurePasswordKdfAlgo: tl_codec readTLSecurePasswordKdfAlgo writeTLSecurePasswordKdfAlgo "enc_fobject TL_SecurePasswordKdfAlgo_table" "ok_fobject TL_SecurePasswordKdfAlgo_table"
  by (rule flag_schema_codec, unfold TL_SecurePasswordKdfAlgo_table_def, intro flag_tableI)
    (simp_all add: readTLSecurePasswordKdfAlgo_def writeTLSecurePasswordKdfAlgo_def flag_schema_simps)

definition readTLAccountPassword :: tl_reader where
  "readTLAccountPassword = read_object
     [(- 1787080453, [rd ''flags'' readUInt32, set_if ''flags'' 0 ''has_recovery'',
         set_if ''flags'' 1 ''has_secure_values'', set_if ''flags'' 2 ''has_password'',
         rd_if ''flags'' 2 ''current_algo'' readTLPasswordKdfAlgo,
         rd_if ''flags'' 2 ''srp_B'' readByteArray, rd_if ''flags'' 2 ''srp_id'' readInt64,
         rd_if ''flags'' 3 ''hint'' readString,
         rd_if ''flags'' 4 ''email_unconfirmed_pattern'' readString,
         rd ''new_algo'' readTLPasswordKdfAlgo, rd ''new_secure_algo'' readTLSecurePasswordKdfAlgo,
         rd ''secure_random'' readByteArray, rd_if ''flags'' 5 ''pending_reset_date'' readInt32,
         rd_if ''flags'' 6 ''login_email_pattern'' readString])]"

definition writeTLAccountPassword :: tl_writer where
  "writeTLAccountPassword = write_fobject
     [(- 1787080453, [wf ''_'' writeInt32, wf_flags ''flags'' [(''has_recovery'', 0),
         (''has_secure_values'', 1), (''has_password'', 2), (''current_algo'', 2), (''srp_B'', 2),
         (''srp_id'', 2), (''hint'', 3), (''email_unconfirmed_pattern'', 4),
         (''pending_reset_date'', 5), (''login_email_pattern'', 6)],
         wf_if ''flags'' 2 ''current_algo'' writeTLPasswordKdfAlgo,
         wf_if ''flags'' 2 ''srp_B'' writeByteArray, wf_if ''flags'' 2 ''srp_id'' writeInt64,
         wf_if ''flags'' 3 ''hint'' writeString,
         wf_if ''flags'' 4 ''email_unconfirmed_pattern'' writeString,
         wf ''new_algo'' writeTLPasswordKdfAlgo,
         wf ''new_secure_algo'' writeTLSecurePasswordKdfAlgo, wf ''secure_random'' writeByteArray,
         wf_if ''flags'' 5 ''pending_reset_date'' writeInt32,
         wf_if ''flags'' 6 ''login_email_pattern'' writeString])]"

definition TL_AccountPassword_table :: flag_table where
  "TL_AccountPassword_table =
     [(- 1787080453, [Flags ''flags'' [(''has_recovery'', 0), (''has_secure_values'', 1),
         (''has_password'', 2), (''current_algo'', 2), (''srp_B'', 2), (''srp_id'', 2), (''hint'',
         3), (''email_unconfirmed_pattern'', 4), (''pending_reset_date'', 5),
         (''login_email_pattern'', 6)],
        TrueBit ''flags'' 0 ''has_recovery'',
        TrueBit ''flags'' 1 ''has_secure_values'',
        TrueBit ''flags'' 2 ''has_password'',
        Cond ''flags'' 2 (''current_algo'', readTLPasswordKdfAlgo, writeTLPasswordKdfAlgo,
         enc_fobject TL_PasswordKdfAlgo_table, ok_fobject TL_PasswordKdfAlgo_table),
        Cond ''flags'' 2 (''srp_B'', readByteArray, writeByteArray, enc_bytes, is_short_bytes),
        Cond ''flags'' 2 (''srp_id'', readInt64, writeInt64, enc_int64, is_VLong),
        Cond ''flags'' 3 (''hint'', readString, writeString, enc_string, is_short_text),
        Cond ''flags'' 4 (''email_unconfirmed_pattern'', readString, writeString, enc_string,
         is_short_text),
        Plain (''new_algo'', readTLPasswordKdfAlgo, writeTLPasswordKdfAlgo,
         enc_fobject TL_PasswordKdfAlgo_table, ok_fobject TL_PasswordKdfAlgo_table),
        Plain (''new_secure_algo'', readTLSecurePasswordKdfAlgo, writeTLSecurePasswordKdfAlgo,
         enc_fobject TL_SecurePasswordKdfAlgo_table, ok_fobject TL_SecurePasswordKdfAlgo_table),
        Plain (''secure_random'', readByteArray, writeByteArray, enc_bytes, is_short_bytes),
        Cond ''flags'' 5 (''pending_reset_date'', readInt32, writeInt32, enc_int32, is_VInt),
        Cond ''flags'' 6 (''login_email_pattern'', readString, writeString, enc_string,
         is_short_text)])]"

interpretation tl_AccountPassword: tl_codec readTLAccountPassword writeTLAccountPassword "enc_fobject TL_AccountPassword_table" "ok_fobject TL_AccountPassword_table"
  by (rule flag_schema_codec, unfold TL_AccountPassword_table_def, intro flag_tableI)
    (simp_all add: readTLAccountPassword_def writeTLAccountPassword_def flag_schema_simps tl_PasswordKdfAlgo.tl_codec_axioms tl_SecurePasswordKdfAlgo.tl_codec_axioms)

definition readTLStorageFileType :: tl_reader where
  "readTLStorageFileType = read_object
     [(- 1432995067, []),
      (1086091090, []),
      (8322574, []),
      (- 891180321, []),
      (172975040, []),
      (- 1373745011, []),
      (1384777335, []),
      (1258941372, []),
      (- 1278304028, []),
      (276907596, [])]"

definition writeTLStorageFileType :: tl_writer where
  "writeTLStorageFileType = write_fobject
     [(- 1432995067, [wf ''_'' writeInt32]),
      (1086091090, [wf ''_'' writeInt32]),
      (8322574, [wf ''_'' writeInt32]),
      (- 891180321, [wf ''_'' writeInt32]),
      (172975040, [wf ''_'' writeInt32]),
      (- 1373745011, [wf ''_'' writeInt32]),
      (1384777335, [wf ''_'' writeInt32]),
      (1258941372, [wf ''_'' writeInt32]),
      (- 1278304028, [wf ''_'' writeInt32]),
      (276907596, [wf ''_'' writeInt32])]"

definition TL_StorageFileType_table :: flag_table where
  "TL_StorageFileType_table =
     [(- 1432995067, []),
      (1086091090, []),
      (8322574, []),
      (- 891180321, []),
      (172975040, []),
      (- 1373745011, []),
      (1384777335, []),
      (1258941372, []),
      (- 1278304028, []),
      (276907596, [])]"

interpretation tl_StorageFileType: tl_codec readTLStorageFileType writeTLStorageFileType "enc_fobject TL_StorageFileType_table" "ok_fobject TL_StorageFileType_table"
  by (rule flag_schema_codec, unfold TL_StorageFileType_table_def, intro flag_tableI)
    (simp_all add: readTLStorageFileType_def writeTLStorageFileType_def flag_schema_simps)

definition readTLFileHash :: tl_reader where
  "readTLFileHash = read_object
     [(- 207944868, [rd ''offset'' readInt64, rd ''limit'' readInt32, rd ''hash'' readByteArray])]"

definition writeTLFileHash :: tl_writer where
  "writeTLFileHash = write_fobject
     [(- 207944868, [wf ''_'' writeInt32, wf ''offset'' writeInt64, wf ''limit'' writeInt32,
         wf ''hash'' writeByteArray])]"

definition TL_FileHash_table :: flag_table where
  "TL_FileHash_table =
     [(- 207944868, [Plain (''offset'', readInt64, writeInt64, enc_int64, is_VLong),
        Plain (''limit'', readInt32, writeInt32, enc_int32, is_VInt),
        Plain (''hash'', readByteArray, writeByteArray, enc_bytes, is_short_bytes)])]"

interpretation tl_FileHash: tl_codec readTLFileHash writeTLFileHash "enc_fobject TL_FileHash_table" "ok_fobject TL_FileHash_table"
  by (rule flag_schema_codec, unfold TL_FileHash_table_def, intro flag_tableI)
    (simp_all add: readTLFileHash_def writeTLFileHash_def flag_schema_simps)

end
