(* ===== verification/TlSchema2.thy ===== *)
theory TlSchema2
  imports TlSchema
begin

section \<open>The API schema, account and configuration types and methods: libkg/tlschema.cpp\<close>

text \<open>
  The remaining types, and the writers of the methods the client calls.
\<close>

definition readTLUploadFile :: tl_reader where
  "readTLUploadFile = read_object
     [(157948117, [rd ''type'' readTLStorageFileType, rd ''mtime'' readInt32,
         rd ''bytes'' readByteArray]),
      (- 242427324, [rd ''dc_id'' readInt32, rd ''file_token'' readByteArray,
         rd ''encryption_key'' readByteArray, rd ''encryption_iv'' readByteArray,
         rd ''file_hashes'' (readVector (Some readTLFileHash))])]"

definition writeTLUploadFile :: tl_writer where
  "writeTLUploadFile = write_fobject
     [(157948117, [wf ''_'' writeInt32, wf ''type'' writeTLStorageFileType,
         wf ''mtime'' writeInt32, wf ''bytes'' writeByteArray]),
      (- 242427324, [wf ''_'' writeInt32, wf ''dc_id'' writeInt32,
         wf ''file_token'' writeByteArray, wf ''encryption_key'' writeByteArray,
         wf ''encryption_iv'' writeByteArray,
         wf ''file_hashes'' (writeVector (Some writeTLFileHash))])]"

definition TL_UploadFile_table :: flag_table where
  "TL_UploadFile_table =
     [(157948117, [Plain (''type'', readTLStorageFileType, writeTLStorageFileType,
         enc_fobject TL_StorageFileType_table, ok_fobject TL_StorageFileType_table),
        Plain (''mtime'', readInt32, writeInt32, enc_int32, is_VInt),
        Plain (''bytes'', readByteArray, writeByteArray, enc_bytes, is_short_bytes)]),
      (- 242427324, [Plain (''dc_id'', readInt32, writeInt32, enc_int32, is_VInt),
        Plain (''file_token'', readByteArray, writeByteArray, enc_bytes, is_short_bytes),
        Plain (''encryption_key'', readByteArray, writeByteArray, enc_bytes, is_short_bytes),
        Plain (''encryption_iv'', readByteArray, writeByteArray, enc_bytes, is_short_bytes),
        Plain (''file_hashes'', readVector (Some readTLFileHash),
         writeVector (Some writeTLFileHash), enc_vector (enc_fobject TL_FileHash_table),
         ok_vector (ok_fobject TL_FileHash_table))])]"

interpretation tl_UploadFile: tl_codec readTLUploadFile writeTLUploadFile "enc_fobject TL_UploadFile_table" "ok_fobject TL_UploadFile_table"
  by (rule flag_schema_codec, unfold TL_UploadFile_table_def, intro flag_tableI)
    (simp_all add: readTLUploadFile_def writeTLUploadFile_def flag_schema_simps tl_StorageFileType.tl_codec_axioms tl_StorageFileType.vector_codec tl_FileHash.tl_codec_axioms tl_FileHash.vector_codec)

definition readTLPeer :: tl_reader where
  "readTLPeer = read_object
     [(1498486562, [rd ''user_id'' readInt64]),
      (918946202, [rd ''chat_id'' readInt64]),
      (- 1566230754, [rd ''channel_id'' readInt64])]"

definition writeTLPeer :: tl_writer where
  "writeTLPeer = write_fobject
     [(1498486562, [wf ''_'' writeInt32, wf ''user_id'' writeInt64]),
      (918946202, [wf ''_'' writeInt32, wf ''chat_id'' writeInt64]),
      (- 1566230754, [wf ''_'' writeInt32, wf ''channel_id'' writeInt64])]"

definition TL_Peer_table :: flag_table where
  "TL_Peer_table =
     [(1498486562, [Plain (''user_id'', readInt64, writeInt64, enc_int64, is_VLong)]),
      (918946202, [Plain (''chat_id'', readInt64, writeInt64, enc_int64, is_VLong)]),
      (- 1566230754, [Plain (''channel_id'', readInt64, writeInt64, enc_int64, is_VLong)])]"

interpretation tl_Peer: tl_codec readTLPeer writeTLPeer "enc_fobject TL_Peer_table" "ok_fobject TL_Peer_table"
  by (rule flag_schema_codec, unfold TL_Peer_table_def, intro flag_tableI)
    (simp_all add: readTLPeer_def writeTLPeer_def flag_schema_simps)

definition readTLInputStickerSet :: tl_reader where
  "readTLInputStickerSet = read_object
     [(- 4838507, []),
      (- 1645763991, [rd ''id'' readInt64, rd ''access_hash'' readInt64]),
      (- 2044933984, [rd ''short_name'' readString]),
      (42402760, []),
      (- 427863538, [rd ''emoticon'' readString]),
      (215889721, []),
      (- 930399486, []),
      (80008398, []),
      (701560302, []),
      (1153562857, []),
      (1232373075, []),
      (485912992, [])]"

definition writeTLInputStickerSet :: tl_writer where
  "writeTLInputStickerSet = write_fobject
     [(- 4838507, [wf ''_'' writeInt32]),
      (- 1645763991, [wf ''_'' writeInt32, wf ''id'' writeInt64, wf ''access_hash'' writeInt64]),
      (- 2044933984, [wf ''_'' writeInt32, wf ''short_name'' writeString]),
      (42402760, [wf ''_'' writeInt32]),
      (- 427863538, [wf ''_'' writeInt32, wf ''emoticon'' writeString]),
      (215889721, [wf ''_'' writeInt32]),
      (- 930399486, [wf ''_'' writeInt32]),
      (80008398, [wf ''_'' writeInt32]),
      (701560302, [wf ''_'' writeInt32]),
      (1153562857, [wf ''_'' writeInt32]),
      (1232373075, [wf ''_'' writeInt32]),
      (485912992, [wf ''_'' writeInt32])]"

definition TL_InputStickerSet_table :: flag_table where
  "TL_InputStickerSet_table =
     [(- 4838507, []),
      (- 1645763991, [Plain (''id'', readInt64, writeInt64, enc_int64, is_VLong),
        Plain (''access_hash'', readInt64, writeInt64, enc_int64, is_VLong)]),
      (- 2044933984, [Plain (''short_name'', readString, writeString, enc_string, is_short_text)]),
      (42402760, []),
      (- 427863538, [Plain (''emoticon'', readString, writeString, enc_string, is_short_text)]),
      (215889721, []),
      (- 930399486, []),
      (80008398, []),
      (701560302, []),
      (1153562857, []),
      (1232373075, []),
      (485912992, [])]"

interpretation tl_InputStickerSet: tl_codec readTLInputStickerSet writeTLInputStickerSet "enc_fobject TL_InputStickerSet_table" "ok_fobject TL_InputStickerSet_table"
  by (rule flag_schema_codec, unfold TL_InputStickerSet_table_def, intro flag_tableI)
    (simp_all add: readTLInputStickerSet_def writeTLInputStickerSet_def flag_schema_simps)

definition readTLInputGroupCall :: tl_reader where
  "readTLInputGroupCall = read_object
     [(- 659913713, [rd ''id'' readInt64, rd ''access_hash'' readInt64]),
      (- 33127873, [rd ''slug'' readString]),
      (- 1945083841, [rd ''msg_id'' readInt32])]"

definition writeTLInputGroupCall :: tl_writer where
  "writeTLInputGroupCall = write_fobject
     [(- 659913713, [wf ''_'' writeInt32, wf ''id'' writeInt64, wf ''access_hash'' writeInt64]),
      (- 33127873, [wf ''_'' writeInt32, wf ''slug'' writeString]),
      (- 1945083841, [wf ''_'' writeInt32, wf ''msg_id'' writeInt32])]"

definition TL_InputGroupCall_table :: flag_table where
  "TL_InputGroupCall_table =
     [(- 659913713, [Plain (''id'', readInt64, writeInt64, enc_int64, is_VLong),
        Plain (''access_hash'', readInt64, writeInt64, enc_int64, is_VLong)]),
      (- 33127873, [Plain (''slug'', readString, writeString, enc_string, is_short_text)]),
      (- 1945083841, [Plain (''msg_id'', readInt32, writeInt32, enc_int32, is_VInt)])]"

interpretation tl_InputGroupCall: tl_codec readTLInputGroupCall writeTLInputGroupCall "enc_fobject TL_InputGroupCall_table" "ok_fobject TL_InputGroupCall_table"
  by (rule flag_schema_codec, unfold TL_InputGroupCall_table_def, intro flag_tableI)
    (simp_all add: readTLInputGroupCall_def writeTLInputGroupCall_def flag_schema_simps)

definition readTLChatPhoto :: tl_reader where
  "readTLChatPhoto = read_object
     [(935395612, []),
      (476978193, [rd ''flags'' readUInt32, set_if ''flags'' 0 ''has_video'',
         rd ''photo_id'' readInt64, rd_if ''flags'' 1 ''stripped_thumb'' readByteArray,
         rd ''dc_id'' readInt32])]"

definition writeTLChatPhoto :: tl_writer where
  "writeTLChatPhoto = write_fobject
     [(935395612, [wf ''_'' writeInt32]),
      (476978193, [wf ''_'' writeInt32, wf_flags ''flags'' [(''has_video'', 0),
         (''stripped_thumb'', 1)], wf ''photo_id'' writeInt64,
         wf_if ''flags'' 1 ''stripped_thumb'' writeByteArray, wf ''dc_id'' writeInt32])]"

definition TL_ChatPhoto_table :: flag_table where
  "TL_ChatPhoto_table =
     [(935395612, []),
      (476978193, [Flags ''flags'' [(''has_video'', 0), (''stripped_thumb'', 1)],
        TrueBit ''flags'' 0 ''has_video'',
        Plain (''photo_id'', readInt64, writeInt64, enc_int64, is_VLong),
        Cond ''flags'' 1 (''stripped_thumb'', readByteArray, writeByteArray, enc_bytes,
         is_short_bytes),
        Plain (''dc_id'', readInt32, writeInt32, enc_int32, is_VInt)])]"

interpretation tl_ChatPhoto: tl_codec readTLChatPhoto writeTLChatPhoto "enc_fobject TL_ChatPhoto_table" "ok_fobject TL_ChatPhoto_table"
  by (rule flag_schema_codec, unfold TL_ChatPhoto_table_def, intro flag_tableI)
    (simp_all add: readTLChatPhoto_def writeTLChatPhoto_def flag_schema_simps)

definition readTLChatAdminRights :: tl_reader where
  "readTLChatAdminRights = read_object
     [(1605510357, [rd ''flags'' readUInt32, set_if ''flags'' 0 ''change_info'',
         set_if ''flags'' 1 ''post_messages'', set_if ''flags'' 2 ''edit_messages'',
         set_if ''flags'' 3 ''delete_messages'', set_if ''flags'' 4 ''ban_users'',
         set_if ''flags'' 5 ''invite_users'', set_if ''flags'' 7 ''pin_messages'',
         set_if ''flags'' 9 ''add_admins'', set_if ''flags'' 10 ''anonymous'',
         set_if ''flags'' 11 ''manage_call'', set_if ''flags'' 12 ''other'',
         set_if ''flags'' 13 ''manage_topics'', set_if ''flags'' 14 ''post_stories'',
         set_if ''flags'' 15 ''edit_stories'', set_if ''flags'' 16 ''delete_stories'',
         set_if ''flags'' 17 ''manage_direct_messages'', set_if ''flags'' 18 ''manage_ranks'',
         set_if ''flags'' 19 ''manage_linked_peers'',
         set_if ''flags'' 20 ''manage_welcome_messages''])]"

definition writeTLChatAdminRights :: tl_writer where
  "writeTLChatAdminRights = write_fobject
     [(1605510357, [wf ''_'' writeInt32, wf_flags ''flags'' [(''change_info'', 0),
         (''post_messages'', 1), (''edit_messages'', 2), (''delete_messages'', 3), (''ban_users'',
         4), (''invite_users'', 5), (''pin_messages'', 7), (''add_admins'', 9), (''anonymous'',
         10), (''manage_call'', 11), (''other'', 12), (''manage_topics'', 13), (''post_stories'',
         14), (''edit_stories'', 15), (''delete_stories'', 16), (''manage_direct_messages'', 17),
         (''manage_ranks'', 18), (''manage_linked_peers'', 19), (''manage_welcome_messages'',
         20)]])]"

definition TL_ChatAdminRights_table :: flag_table where
  "TL_ChatAdminRights_table =
     [(1605510357, [Flags ''flags'' [(''change_info'', 0), (''post_messages'', 1),
         (''edit_messages'', 2), (''delete_messages'', 3), (''ban_users'', 4), (''invite_users'',
         5), (''pin_messages'', 7), (''add_admins'', 9), (''anonymous'', 10), (''manage_call'',
         11), (''other'', 12), (''manage_topics'', 13), (''post_stories'', 14), (''edit_stories'',
         15), (''delete_stories'', 16), (''manage_direct_messages'', 17), (''manage_ranks'', 18),
         (''manage_linked_peers'', 19), (''manage_welcome_messages'', 20)],
        TrueBit ''flags'' 0 ''change_info'',
        TrueBit ''flags'' 1 ''post_messages'',
        TrueBit ''flags'' 2 ''edit_messages'',
        TrueBit ''flags'' 3 ''delete_messages'',
        TrueBit ''flags'' 4 ''ban_users'',
        TrueBit ''flags'' 5 ''invite_users'',
        TrueBit ''flags'' 7 ''pin_messages'',
        TrueBit ''flags'' 9 ''add_admins'',
        TrueBit ''flags'' 10 ''anonymous'',
        TrueBit ''flags'' 11 ''manage_call'',
        TrueBit ''flags'' 12 ''other'',
        TrueBit ''flags'' 13 ''manage_topics'',
        TrueBit ''flags'' 14 ''post_stories'',
        TrueBit ''flags'' 15 ''edit_stories'',
        TrueBit ''flags'' 16 ''delete_stories'',
        TrueBit ''flags'' 17 ''manage_direct_messages'',
        TrueBit ''flags'' 18 ''manage_ranks'',
        TrueBit ''flags'' 19 ''manage_linked_peers'',
        TrueBit ''flags'' 20 ''manage_welcome_messages''])]"

interpretation tl_ChatAdminRights: tl_codec readTLChatAdminRights writeTLChatAdminRights "enc_fobject TL_ChatAdminRights_table" "ok_fobject TL_ChatAdminRights_table"
  by (rule flag_schema_codec, unfold TL_ChatAdminRights_table_def, intro flag_tableI)
    (simp_all add: readTLChatAdminRights_def writeTLChatAdminRights_def flag_schema_simps)

definition readTLChatBannedRights :: tl_reader where
  "readTLChatBannedRights = read_object
     [(- 1626209256, [rd ''flags'' readUInt32, set_if ''flags'' 0 ''view_messages'',
         set_if ''flags'' 1 ''send_messages'', set_if ''flags'' 2 ''send_media'',
         set_if ''flags'' 3 ''send_stickers'', set_if ''flags'' 4 ''send_gifs'',
         set_if ''flags'' 5 ''send_games'', set_if ''flags'' 6 ''send_inline'',
         set_if ''flags'' 7 ''embed_links'', set_if ''flags'' 8 ''send_polls'',
         set_if ''flags'' 10 ''change_info'', set_if ''flags'' 15 ''invite_users'',
         set_if ''flags'' 17 ''pin_messages'', set_if ''flags'' 18 ''manage_topics'',
         set_if ''flags'' 19 ''send_photos'', set_if ''flags'' 20 ''send_videos'',
         set_if ''flags'' 21 ''send_roundvideos'', set_if ''flags'' 22 ''send_audios'',
         set_if ''flags'' 23 ''send_voices'', set_if ''flags'' 24 ''send_docs'',
         set_if ''flags'' 25 ''send_plain'', set_if ''flags'' 26 ''edit_rank'',
         set_if ''flags'' 27 ''send_reactions'', set_if ''flags'' 28 ''manage_linked_peers'',
         rd ''until_date'' readInt32])]"

definition writeTLChatBannedRights :: tl_writer where
  "writeTLChatBannedRights = write_fobject
     [(- 1626209256, [wf ''_'' writeInt32, wf_flags ''flags'' [(''view_messages'', 0),
         (''send_messages'', 1), (''send_media'', 2), (''send_stickers'', 3), (''send_gifs'', 4),
         (''send_games'', 5), (''send_inline'', 6), (''embed_links'', 7), (''send_polls'', 8),
         (''change_info'', 10), (''invite_users'', 15), (''pin_messages'', 17), (''manage_topics'',
         18), (''send_photos'', 19), (''send_videos'', 20), (''send_roundvideos'', 21),
         (''send_audios'', 22), (''send_voices'', 23), (''send_docs'', 24), (''send_plain'', 25),
         (''edit_rank'', 26), (''send_reactions'', 27), (''manage_linked_peers'', 28)],
         wf ''until_date'' writeInt32])]"

definition TL_ChatBannedRights_table :: flag_table where
  "TL_ChatBannedRights_table =
     [(- 1626209256, [Flags ''flags'' [(''view_messages'', 0), (''send_messages'', 1),
         (''send_media'', 2), (''send_stickers'', 3), (''send_gifs'', 4), (''send_games'', 5),
         (''send_inline'', 6), (''embed_links'', 7), (''send_polls'', 8), (''change_info'', 10),
         (''invite_users'', 15), (''pin_messages'', 17), (''manage_topics'', 18), (''send_photos'',
         19), (''send_videos'', 20), (''send_roundvideos'', 21), (''send_audios'', 22),
         (''send_voices'', 23), (''send_docs'', 24), (''send_plain'', 25), (''edit_rank'', 26),
         (''send_reactions'', 27), (''manage_linked_peers'', 28)],
        TrueBit ''flags'' 0 ''view_messages'',
        TrueBit ''flags'' 1 ''send_messages'',
        TrueBit ''flags'' 2 ''send_media'',
        TrueBit ''flags'' 3 ''send_stickers'',
        TrueBit ''flags'' 4 ''send_gifs'',
        TrueBit ''flags'' 5 ''send_games'',
        TrueBit ''flags'' 6 ''send_inline'',
        TrueBit ''flags'' 7 ''embed_links'',
        TrueBit ''flags'' 8 ''send_polls'',
        TrueBit ''flags'' 10 ''change_info'',
        TrueBit ''flags'' 15 ''invite_users'',
        TrueBit ''flags'' 17 ''pin_messages'',
        TrueBit ''flags'' 18 ''manage_topics'',
        TrueBit ''flags'' 19 ''send_photos'',
        TrueBit ''flags'' 20 ''send_videos'',
        TrueBit ''flags'' 21 ''send_roundvideos'',
        TrueBit ''flags'' 22 ''send_audios'',
        TrueBit ''flags'' 23 ''send_voices'',
        TrueBit ''flags'' 24 ''send_docs'',
        TrueBit ''flags'' 25 ''send_plain'',
        TrueBit ''flags'' 26 ''edit_rank'',
        TrueBit ''flags'' 27 ''send_reactions'',
        TrueBit ''flags'' 28 ''manage_linked_peers'',
        Plain (''until_date'', readInt32, writeInt32, enc_int32, is_VInt)])]"

interpretation tl_ChatBannedRights: tl_codec readTLChatBannedRights writeTLChatBannedRights "enc_fobject TL_ChatBannedRights_table" "ok_fobject TL_ChatBannedRights_table"
  by (rule flag_schema_codec, unfold TL_ChatBannedRights_table_def, intro flag_tableI)
    (simp_all add: readTLChatBannedRights_def writeTLChatBannedRights_def flag_schema_simps)

definition readTLMessagesAffectedMessages :: tl_reader where
  "readTLMessagesAffectedMessages = read_object
     [(- 2066640507, [rd ''pts'' readInt32, rd ''pts_count'' readInt32])]"

definition writeTLMessagesAffectedMessages :: tl_writer where
  "writeTLMessagesAffectedMessages = write_fobject
     [(- 2066640507, [wf ''_'' writeInt32, wf ''pts'' writeInt32, wf ''pts_count'' writeInt32])]"

definition TL_MessagesAffectedMessages_table :: flag_table where
  "TL_MessagesAffectedMessages_table =
     [(- 2066640507, [Plain (''pts'', readInt32, writeInt32, enc_int32, is_VInt),
        Plain (''pts_count'', readInt32, writeInt32, enc_int32, is_VInt)])]"

interpretation tl_MessagesAffectedMessages: tl_codec readTLMessagesAffectedMessages writeTLMessagesAffectedMessages "enc_fobject TL_MessagesAffectedMessages_table" "ok_fobject TL_MessagesAffectedMessages_table"
  by (rule flag_schema_codec, unfold TL_MessagesAffectedMessages_table_def, intro flag_tableI)
    (simp_all add: readTLMessagesAffectedMessages_def writeTLMessagesAffectedMessages_def flag_schema_simps)

definition readTLInputCheckPasswordSRP :: tl_reader where
  "readTLInputCheckPasswordSRP = read_object
     [(- 1736378792, []),
      (- 763367294, [rd ''srp_id'' readInt64, rd ''A'' readByteArray, rd ''M1'' readByteArray])]"

definition writeTLInputCheckPasswordSRP :: tl_writer where
  "writeTLInputCheckPasswordSRP = write_fobject
     [(- 1736378792, [wf ''_'' writeInt32]),
      (- 763367294, [wf ''_'' writeInt32, wf ''srp_id'' writeInt64, wf ''A'' writeByteArray,
         wf ''M1'' writeByteArray])]"

definition TL_InputCheckPasswordSRP_table :: flag_table where
  "TL_InputCheckPasswordSRP_table =
     [(- 1736378792, []),
      (- 763367294, [Plain (''srp_id'', readInt64, writeInt64, enc_int64, is_VLong),
        Plain (''A'', readByteArray, writeByteArray, enc_bytes, is_short_bytes),
        Plain (''M1'', readByteArray, writeByteArray, enc_bytes, is_short_bytes)])]"

interpretation tl_InputCheckPasswordSRP: tl_codec readTLInputCheckPasswordSRP writeTLInputCheckPasswordSRP "enc_fobject TL_InputCheckPasswordSRP_table" "ok_fobject TL_InputCheckPasswordSRP_table"
  by (rule flag_schema_codec, unfold TL_InputCheckPasswordSRP_table_def, intro flag_tableI)
    (simp_all add: readTLInputCheckPasswordSRP_def writeTLInputCheckPasswordSRP_def flag_schema_simps)

definition readTLHelpCountryCode :: tl_reader where
  "readTLHelpCountryCode = read_object
     [(1107543535, [rd ''flags'' readUInt32, rd ''country_code'' readString,
         rd_if ''flags'' 0 ''prefixes'' (readVector (Some readString)),
         rd_if ''flags'' 1 ''patterns'' (readVector (Some readString))])]"

definition writeTLHelpCountryCode :: tl_writer where
  "writeTLHelpCountryCode = write_fobject
     [(1107543535, [wf ''_'' writeInt32, wf_flags ''flags'' [(''prefixes'', 0), (''patterns'', 1)],
         wf ''country_code'' writeString,
         wf_if ''flags'' 0 ''prefixes'' (writeVector (Some writeString)),
         wf_if ''flags'' 1 ''patterns'' (writeVector (Some writeString))])]"

definition TL_HelpCountryCode_table :: flag_table where
  "TL_HelpCountryCode_table =
     [(1107543535, [Flags ''flags'' [(''prefixes'', 0), (''patterns'', 1)],
        Plain (''country_code'', readString, writeString, enc_string, is_short_text),
        Cond ''flags'' 0 (''prefixes'', readVector (Some readString),
         writeVector (Some writeString), enc_vector enc_string, ok_vector is_short_text),
        Cond ''flags'' 1 (''patterns'', readVector (Some readString),
         writeVector (Some writeString), enc_vector enc_string, ok_vector is_short_text)])]"

interpretation tl_HelpCountryCode: tl_codec readTLHelpCountryCode writeTLHelpCountryCode "enc_fobject TL_HelpCountryCode_table" "ok_fobject TL_HelpCountryCode_table"
  by (rule flag_schema_codec, unfold TL_HelpCountryCode_table_def, intro flag_tableI)
    (simp_all add: readTLHelpCountryCode_def writeTLHelpCountryCode_def flag_schema_simps)

definition readTLHelpCountry :: tl_reader where
  "readTLHelpCountry = read_object
     [(- 1014526429, [rd ''flags'' readUInt32, set_if ''flags'' 0 ''hidden'',
         rd ''iso2'' readString, rd ''default_name'' readString,
         rd_if ''flags'' 1 ''name'' readString,
         rd ''country_codes'' (readVector (Some readTLHelpCountryCode))])]"

definition writeTLHelpCountry :: tl_writer where
  "writeTLHelpCountry = write_fobject
     [(- 1014526429, [wf ''_'' writeInt32, wf_flags ''flags'' [(''hidden'', 0), (''name'', 1)],
         wf ''iso2'' writeString, wf ''default_name'' writeString,
         wf_if ''flags'' 1 ''name'' writeString,
         wf ''country_codes'' (writeVector (Some writeTLHelpCountryCode))])]"

definition TL_HelpCountry_table :: flag_table where
  "TL_HelpCountry_table =
     [(- 1014526429, [Flags ''flags'' [(''hidden'', 0), (''name'', 1)],
        TrueBit ''flags'' 0 ''hidden'',
        Plain (''iso2'', readString, writeString, enc_string, is_short_text),
        Plain (''default_name'', readString, writeString, enc_string, is_short_text),
        Cond ''flags'' 1 (''name'', readString, writeString, enc_string, is_short_text),
        Plain (''country_codes'', readVector (Some readTLHelpCountryCode),
         writeVector (Some writeTLHelpCountryCode),
         enc_vector (enc_fobject TL_HelpCountryCode_table),
         ok_vector (ok_fobject TL_HelpCountryCode_table))])]"

interpretation tl_HelpCountry: tl_codec readTLHelpCountry writeTLHelpCountry "enc_fobject TL_HelpCountry_table" "ok_fobject TL_HelpCountry_table"
  by (rule flag_schema_codec, unfold TL_HelpCountry_table_def, intro flag_tableI)
    (simp_all add: readTLHelpCountry_def writeTLHelpCountry_def flag_schema_simps tl_HelpCountryCode.tl_codec_axioms tl_HelpCountryCode.vector_codec)

definition readTLHelpCountriesList :: tl_reader where
  "readTLHelpCountriesList = read_object
     [(- 1815339214, []),
      (- 2016381538, [rd ''countries'' (readVector (Some readTLHelpCountry)),
         rd ''hash'' readInt32])]"

definition writeTLHelpCountriesList :: tl_writer where
  "writeTLHelpCountriesList = write_fobject
     [(- 1815339214, [wf ''_'' writeInt32]),
      (- 2016381538, [wf ''_'' writeInt32,
         wf ''countries'' (writeVector (Some writeTLHelpCountry)), wf ''hash'' writeInt32])]"

definition TL_HelpCountriesList_table :: flag_table where
  "TL_HelpCountriesList_table =
     [(- 1815339214, []),
      (- 2016381538, [Plain (''countries'', readVector (Some readTLHelpCountry),
         writeVector (Some writeTLHelpCountry), enc_vector (enc_fobject TL_HelpCountry_table),
         ok_vector (ok_fobject TL_HelpCountry_table)),
        Plain (''hash'', readInt32, writeInt32, enc_int32, is_VInt)])]"

interpretation tl_HelpCountriesList: tl_codec readTLHelpCountriesList writeTLHelpCountriesList "enc_fobject TL_HelpCountriesList_table" "ok_fobject TL_HelpCountriesList_table"
  by (rule flag_schema_codec, unfold TL_HelpCountriesList_table_def, intro flag_tableI)
    (simp_all add: readTLHelpCountriesList_def writeTLHelpCountriesList_def flag_schema_simps tl_HelpCountry.tl_codec_axioms tl_HelpCountry.vector_codec)

definition readTLInputDocument :: tl_reader where
  "readTLInputDocument = read_object
     [(1928391342, []),
      (448771445, [rd ''id'' readInt64, rd ''access_hash'' readInt64,
         rd ''file_reference'' readByteArray])]"

definition writeTLInputDocument :: tl_writer where
  "writeTLInputDocument = write_fobject
     [(1928391342, [wf ''_'' writeInt32]),
      (448771445, [wf ''_'' writeInt32, wf ''id'' writeInt64, wf ''access_hash'' writeInt64,
         wf ''file_reference'' writeByteArray])]"

definition TL_InputDocument_table :: flag_table where
  "TL_InputDocument_table =
     [(1928391342, []),
      (448771445, [Plain (''id'', readInt64, writeInt64, enc_int64, is_VLong),
        Plain (''access_hash'', readInt64, writeInt64, enc_int64, is_VLong),
        Plain (''file_reference'', readByteArray, writeByteArray, enc_bytes, is_short_bytes)])]"

interpretation tl_InputDocument: tl_codec readTLInputDocument writeTLInputDocument "enc_fobject TL_InputDocument_table" "ok_fobject TL_InputDocument_table"
  by (rule flag_schema_codec, unfold TL_InputDocument_table_def, intro flag_tableI)
    (simp_all add: readTLInputDocument_def writeTLInputDocument_def flag_schema_simps)

definition readTLInputFile :: tl_reader where
  "readTLInputFile = read_object
     [(- 181407105, [rd ''id'' readInt64, rd ''parts'' readInt32, rd ''name'' readString,
         rd ''md5_checksum'' readString]),
      (- 95482955, [rd ''id'' readInt64, rd ''parts'' readInt32, rd ''name'' readString]),
      (1658620744, [rd ''id'' readTLInputDocument])]"

definition writeTLInputFile :: tl_writer where
  "writeTLInputFile = write_fobject
     [(- 181407105, [wf ''_'' writeInt32, wf ''id'' writeInt64, wf ''parts'' writeInt32,
         wf ''name'' writeString, wf ''md5_checksum'' writeString]),
      (- 95482955, [wf ''_'' writeInt32, wf ''id'' writeInt64, wf ''parts'' writeInt32,
         wf ''name'' writeString]),
      (1658620744, [wf ''_'' writeInt32, wf ''id'' writeTLInputDocument])]"

definition TL_InputFile_table :: flag_table where
  "TL_InputFile_table =
     [(- 181407105, [Plain (''id'', readInt64, writeInt64, enc_int64, is_VLong),
        Plain (''parts'', readInt32, writeInt32, enc_int32, is_VInt),
        Plain (''name'', readString, writeString, enc_string, is_short_text),
        Plain (''md5_checksum'', readString, writeString, enc_string, is_short_text)]),
      (- 95482955, [Plain (''id'', readInt64, writeInt64, enc_int64, is_VLong),
        Plain (''parts'', readInt32, writeInt32, enc_int32, is_VInt),
        Plain (''name'', readString, writeString, enc_string, is_short_text)]),
      (1658620744, [Plain (''id'', readTLInputDocument, writeTLInputDocument,
         enc_fobject TL_InputDocument_table, ok_fobject TL_InputDocument_table)])]"

interpretation tl_InputFile: tl_codec readTLInputFile writeTLInputFile "enc_fobject TL_InputFile_table" "ok_fobject TL_InputFile_table"
  by (rule flag_schema_codec, unfold TL_InputFile_table_def, intro flag_tableI)
    (simp_all add: readTLInputFile_def writeTLInputFile_def flag_schema_simps tl_InputDocument.tl_codec_axioms)

definition readTLAuthExportedAuthorization :: tl_reader where
  "readTLAuthExportedAuthorization = read_object
     [(- 1271602504, [rd ''id'' readInt64, rd ''bytes'' readByteArray])]"

definition writeTLAuthExportedAuthorization :: tl_writer where
  "writeTLAuthExportedAuthorization = write_fobject
     [(- 1271602504, [wf ''_'' writeInt32, wf ''id'' writeInt64, wf ''bytes'' writeByteArray])]"

definition TL_AuthExportedAuthorization_table :: flag_table where
  "TL_AuthExportedAuthorization_table =
     [(- 1271602504, [Plain (''id'', readInt64, writeInt64, enc_int64, is_VLong),
        Plain (''bytes'', readByteArray, writeByteArray, enc_bytes, is_short_bytes)])]"

interpretation tl_AuthExportedAuthorization: tl_codec readTLAuthExportedAuthorization writeTLAuthExportedAuthorization "enc_fobject TL_AuthExportedAuthorization_table" "ok_fobject TL_AuthExportedAuthorization_table"
  by (rule flag_schema_codec, unfold TL_AuthExportedAuthorization_table_def, intro flag_tableI)
    (simp_all add: readTLAuthExportedAuthorization_def writeTLAuthExportedAuthorization_def flag_schema_simps)

definition readTLAuthSentCodeType :: tl_reader where
  "readTLAuthSentCodeType = read_object
     [(1035688326, [rd ''length'' readInt32]),
      (- 1073693790, [rd ''length'' readInt32]),
      (1398007207, [rd ''length'' readInt32]),
      (- 1425815847, [rd ''pattern'' readString]),
      (- 2113903484, [rd ''prefix'' readString, rd ''length'' readInt32]),
      (- 196020837, [rd ''flags'' readUInt32, set_if ''flags'' 0 ''apple_signin_allowed'',
         set_if ''flags'' 1 ''google_signin_allowed'', rd ''email_pattern'' readString,
         rd ''length'' readInt32, rd_if ''flags'' 3 ''reset_available_period'' readInt32,
         rd_if ''flags'' 4 ''reset_pending_date'' readInt32]),
      (- 1521934870, [rd ''flags'' readUInt32, set_if ''flags'' 0 ''apple_signin_allowed'',
         set_if ''flags'' 1 ''google_signin_allowed'']),
      (- 648651719, [rd ''url'' readString, rd ''length'' readInt32]),
      (10475318, [rd ''flags'' readUInt32, rd_if ''flags'' 0 ''nonce'' readByteArray,
         rd_if ''flags'' 2 ''play_integrity_project_id'' readInt64,
         rd_if ''flags'' 2 ''play_integrity_nonce'' readByteArray,
         rd_if ''flags'' 1 ''receipt'' readString, rd_if ''flags'' 1 ''push_timeout'' readInt32,
         rd ''length'' readInt32]),
      (- 1542017919, [rd ''flags'' readUInt32, rd_if ''flags'' 0 ''beginning'' readString]),
      (- 1284008785, [rd ''flags'' readUInt32, rd_if ''flags'' 0 ''beginning'' readString])]"

definition writeTLAuthSentCodeType :: tl_writer where
  "writeTLAuthSentCodeType = write_fobject
     [(1035688326, [wf ''_'' writeInt32, wf ''length'' writeInt32]),
      (- 1073693790, [wf ''_'' writeInt32, wf ''length'' writeInt32]),
      (1398007207, [wf ''_'' writeInt32, wf ''length'' writeInt32]),
      (- 1425815847, [wf ''_'' writeInt32, wf ''pattern'' writeString]),
      (- 2113903484, [wf ''_'' writeInt32, wf ''prefix'' writeString, wf ''length'' writeInt32]),
      (- 196020837, [wf ''_'' writeInt32, wf_flags ''flags'' [(''apple_signin_allowed'', 0),
         (''google_signin_allowed'', 1), (''reset_available_period'', 3), (''reset_pending_date'',
         4)], wf ''email_pattern'' writeString, wf ''length'' writeInt32,
         wf_if ''flags'' 3 ''reset_available_period'' writeInt32,
         wf_if ''flags'' 4 ''reset_pending_date'' writeInt32]),
      (- 1521934870, [wf ''_'' writeInt32, wf_flags ''flags'' [(''apple_signin_allowed'', 0),
         (''google_signin_allowed'', 1)]]),
      (- 648651719, [wf ''_'' writeInt32, wf ''url'' writeString, wf ''length'' writeInt32]),
      (10475318, [wf ''_'' writeInt32, wf_flags ''flags'' [(''nonce'', 0),
         (''play_integrity_project_id'', 2), (''play_integrity_nonce'', 2), (''receipt'', 1),
         (''push_timeout'', 1)], wf_if ''flags'' 0 ''nonce'' writeByteArray,
         wf_if ''flags'' 2 ''play_integrity_project_id'' writeInt64,
         wf_if ''flags'' 2 ''play_integrity_nonce'' writeByteArray,
         wf_if ''flags'' 1 ''receipt'' writeString, wf_if ''flags'' 1 ''push_timeout'' writeInt32,
         wf ''length'' writeInt32]),
      (- 1542017919, [wf ''_'' writeInt32, wf_flags ''flags'' [(''beginning'', 0)],
         wf_if ''flags'' 0 ''beginning'' writeString]),
      (- 1284008785, [wf ''_'' writeInt32, wf_flags ''flags'' [(''beginning'', 0)],
         wf_if ''flags'' 0 ''beginning'' writeString])]"

definition TL_AuthSentCodeType_table :: flag_table where
  "TL_AuthSentCodeType_table =
     [(1035688326, [Plain (''length'', readInt32, writeInt32, enc_int32, is_VInt)]),
      (- 1073693790, [Plain (''length'', readInt32, writeInt32, enc_int32, is_VInt)]),
      (1398007207, [Plain (''length'', readInt32, writeInt32, enc_int32, is_VInt)]),
      (- 1425815847, [Plain (''pattern'', readString, writeString, enc_string, is_short_text)]),
      (- 2113903484, [Plain (''prefix'', readString, writeString, enc_string, is_short_text),
        Plain (''length'', readInt32, writeInt32, enc_int32, is_VInt)]),
      (- 196020837, [Flags ''flags'' [(''apple_signin_allowed'', 0), (''google_signin_allowed'',
         1), (''reset_available_period'', 3), (''reset_pending_date'', 4)],
        TrueBit ''flags'' 0 ''apple_signin_allowed'',
        TrueBit ''flags'' 1 ''google_signin_allowed'',
        Plain (''email_pattern'', readString, writeString, enc_string, is_short_text),
        Plain (''length'', readInt32, writeInt32, enc_int32, is_VInt),
        Cond ''flags'' 3 (''reset_available_period'', readInt32, writeInt32, enc_int32, is_VInt),
        Cond ''flags'' 4 (''reset_pending_date'', readInt32, writeInt32, enc_int32, is_VInt)]),
      (- 1521934870, [Flags ''flags'' [(''apple_signin_allowed'', 0), (''google_signin_allowed'',
         1)],
        TrueBit ''flags'' 0 ''apple_signin_allowed'',
        TrueBit ''flags'' 1 ''google_signin_allowed'']),
      (- 648651719, [Plain (''url'', readString, writeString, enc_string, is_short_text),
        Plain (''length'', readInt32, writeInt32, enc_int32, is_VInt)]),
      (10475318, [Flags ''flags'' [(''nonce'', 0), (''play_integrity_project_id'', 2),
         (''play_integrity_nonce'', 2), (''receipt'', 1), (''push_timeout'', 1)],
        Cond ''flags'' 0 (''nonce'', readByteArray, writeByteArray, enc_bytes, is_short_bytes),
        Cond ''flags'' 2 (''play_integrity_project_id'', readInt64, writeInt64, enc_int64,
         is_VLong),
        Cond ''flags'' 2 (''play_integrity_nonce'', readByteArray, writeByteArray, enc_bytes,
         is_short_bytes),
        Cond ''flags'' 1 (''receipt'', readString, writeString, enc_string, is_short_text),
        Cond ''flags'' 1 (''push_timeout'', readInt32, writeInt32, enc_int32, is_VInt),
        Plain (''length'', readInt32, writeInt32, enc_int32, is_VInt)]),
      (- 1542017919, [Flags ''flags'' [(''beginning'', 0)],
        Cond ''flags'' 0 (''beginning'', readString, writeString, enc_string, is_short_text)]),
      (- 1284008785, [Flags ''flags'' [(''beginning'', 0)],
        Cond ''flags'' 0 (''beginning'', readString, writeString, enc_string, is_short_text)])]"

interpretation tl_AuthSentCodeType: tl_codec readTLAuthSentCodeType writeTLAuthSentCodeType "enc_fobject TL_AuthSentCodeType_table" "ok_fobject TL_AuthSentCodeType_table"
  by (rule flag_schema_codec, unfold TL_AuthSentCodeType_table_def, intro flag_tableI)
    (simp_all add: readTLAuthSentCodeType_def writeTLAuthSentCodeType_def flag_schema_simps)

definition readTLAuthCodeType :: tl_reader where
  "readTLAuthCodeType = read_object
     [(1923290508, []),
      (1948046307, []),
      (577556219, []),
      (- 702884114, []),
      (116234636, [])]"

definition writeTLAuthCodeType :: tl_writer where
  "writeTLAuthCodeType = write_fobject
     [(1923290508, [wf ''_'' writeInt32]),
      (1948046307, [wf ''_'' writeInt32]),
      (577556219, [wf ''_'' writeInt32]),
      (- 702884114, [wf ''_'' writeInt32]),
      (116234636, [wf ''_'' writeInt32])]"

definition TL_AuthCodeType_table :: flag_table where
  "TL_AuthCodeType_table =
     [(1923290508, []),
      (1948046307, []),
      (577556219, []),
      (- 702884114, []),
      (116234636, [])]"

interpretation tl_AuthCodeType: tl_codec readTLAuthCodeType writeTLAuthCodeType "enc_fobject TL_AuthCodeType_table" "ok_fobject TL_AuthCodeType_table"
  by (rule flag_schema_codec, unfold TL_AuthCodeType_table_def, intro flag_tableI)
    (simp_all add: readTLAuthCodeType_def writeTLAuthCodeType_def flag_schema_simps)

definition readTLMessageRange :: tl_reader where
  "readTLMessageRange = read_object
     [(182649427, [rd ''min_id'' readInt32, rd ''max_id'' readInt32])]"

definition writeTLMessageRange :: tl_writer where
  "writeTLMessageRange = write_fobject
     [(182649427, [wf ''_'' writeInt32, wf ''min_id'' writeInt32, wf ''max_id'' writeInt32])]"

definition TL_MessageRange_table :: flag_table where
  "TL_MessageRange_table =
     [(182649427, [Plain (''min_id'', readInt32, writeInt32, enc_int32, is_VInt),
        Plain (''max_id'', readInt32, writeInt32, enc_int32, is_VInt)])]"

interpretation tl_MessageRange: tl_codec readTLMessageRange writeTLMessageRange "enc_fobject TL_MessageRange_table" "ok_fobject TL_MessageRange_table"
  by (rule flag_schema_codec, unfold TL_MessageRange_table_def, intro flag_tableI)
    (simp_all add: readTLMessageRange_def writeTLMessageRange_def flag_schema_simps)

definition readTLChannelMessagesFilter :: tl_reader where
  "readTLChannelMessagesFilter = read_object
     [(- 1798033689, []),
      (- 847783593, [rd ''flags'' readUInt32, set_if ''flags'' 1 ''exclude_new_messages'',
         rd ''ranges'' (readVector (Some readTLMessageRange))])]"

definition writeTLChannelMessagesFilter :: tl_writer where
  "writeTLChannelMessagesFilter = write_fobject
     [(- 1798033689, [wf ''_'' writeInt32]),
      (- 847783593, [wf ''_'' writeInt32, wf_flags ''flags'' [(''exclude_new_messages'', 1)],
         wf ''ranges'' (writeVector (Some writeTLMessageRange))])]"

definition TL_ChannelMessagesFilter_table :: flag_table where
  "TL_ChannelMessagesFilter_table =
     [(- 1798033689, []),
      (- 847783593, [Flags ''flags'' [(''exclude_new_messages'', 1)],
        TrueBit ''flags'' 1 ''exclude_new_messages'',
        Plain (''ranges'', readVector (Some readTLMessageRange),
         writeVector (Some writeTLMessageRange), enc_vector (enc_fobject TL_MessageRange_table),
         ok_vector (ok_fobject TL_MessageRange_table))])]"

interpretation tl_ChannelMessagesFilter: tl_codec readTLChannelMessagesFilter writeTLChannelMessagesFilter "enc_fobject TL_ChannelMessagesFilter_table" "ok_fobject TL_ChannelMessagesFilter_table"
  by (rule flag_schema_codec, unfold TL_ChannelMessagesFilter_table_def, intro flag_tableI)
    (simp_all add: readTLChannelMessagesFilter_def writeTLChannelMessagesFilter_def flag_schema_simps tl_MessageRange.tl_codec_axioms tl_MessageRange.vector_codec)

definition readTLEmailVerification :: tl_reader where
  "readTLEmailVerification = read_object
     [(- 1842457175, [rd ''code'' readString]),
      (- 611279166, [rd ''token'' readString]),
      (- 1764723459, [rd ''token'' readString])]"

definition writeTLEmailVerification :: tl_writer where
  "writeTLEmailVerification = write_fobject
     [(- 1842457175, [wf ''_'' writeInt32, wf ''code'' writeString]),
      (- 611279166, [wf ''_'' writeInt32, wf ''token'' writeString]),
      (- 1764723459, [wf ''_'' writeInt32, wf ''token'' writeString])]"

definition TL_EmailVerification_table :: flag_table where
  "TL_EmailVerification_table =
     [(- 1842457175, [Plain (''code'', readString, writeString, enc_string, is_short_text)]),
      (- 611279166, [Plain (''token'', readString, writeString, enc_string, is_short_text)]),
      (- 1764723459, [Plain (''token'', readString, writeString, enc_string, is_short_text)])]"

interpretation tl_EmailVerification: tl_codec readTLEmailVerification writeTLEmailVerification "enc_fobject TL_EmailVerification_table" "ok_fobject TL_EmailVerification_table"
  by (rule flag_schema_codec, unfold TL_EmailVerification_table_def, intro flag_tableI)
    (simp_all add: readTLEmailVerification_def writeTLEmailVerification_def flag_schema_simps)

definition readTLCodeSettings :: tl_reader where
  "readTLCodeSettings = read_object
     [(- 1390068360, [rd ''flags'' readUInt32, set_if ''flags'' 0 ''allow_flashcall'',
         set_if ''flags'' 1 ''current_number'', set_if ''flags'' 4 ''allow_app_hash'',
         set_if ''flags'' 5 ''allow_missed_call'', set_if ''flags'' 7 ''allow_firebase'',
         set_if ''flags'' 9 ''unknown_number'',
         rd_if ''flags'' 6 ''logout_tokens'' (readVector (Some readByteArray)),
         rd_if ''flags'' 8 ''token'' readString, rd_if ''flags'' 8 ''app_sandbox'' readBool])]"

definition writeTLCodeSettings :: tl_writer where
  "writeTLCodeSettings = write_fobject
     [(- 1390068360, [wf ''_'' writeInt32, wf_flags ''flags'' [(''allow_flashcall'', 0),
         (''current_number'', 1), (''allow_app_hash'', 4), (''allow_missed_call'', 5),
         (''allow_firebase'', 7), (''unknown_number'', 9), (''logout_tokens'', 6), (''token'', 8),
         (''app_sandbox'', 8)],
         wf_if ''flags'' 6 ''logout_tokens'' (writeVector (Some writeByteArray)),
         wf_if ''flags'' 8 ''token'' writeString, wf_if ''flags'' 8 ''app_sandbox'' writeBool])]"

definition TL_CodeSettings_table :: flag_table where
  "TL_CodeSettings_table =
     [(- 1390068360, [Flags ''flags'' [(''allow_flashcall'', 0), (''current_number'', 1),
         (''allow_app_hash'', 4), (''allow_missed_call'', 5), (''allow_firebase'', 7),
         (''unknown_number'', 9), (''logout_tokens'', 6), (''token'', 8), (''app_sandbox'', 8)],
        TrueBit ''flags'' 0 ''allow_flashcall'',
        TrueBit ''flags'' 1 ''current_number'',
        TrueBit ''flags'' 4 ''allow_app_hash'',
        TrueBit ''flags'' 5 ''allow_missed_call'',
        TrueBit ''flags'' 7 ''allow_firebase'',
        TrueBit ''flags'' 9 ''unknown_number'',
        Cond ''flags'' 6 (''logout_tokens'', readVector (Some readByteArray),
         writeVector (Some writeByteArray), enc_vector enc_bytes, ok_vector is_short_bytes),
        Cond ''flags'' 8 (''token'', readString, writeString, enc_string, is_short_text),
        Cond ''flags'' 8 (''app_sandbox'', readBool, writeBool, enc_bool, is_VBool)])]"

interpretation tl_CodeSettings: tl_codec readTLCodeSettings writeTLCodeSettings "enc_fobject TL_CodeSettings_table" "ok_fobject TL_CodeSettings_table"
  by (rule flag_schema_codec, unfold TL_CodeSettings_table_def, intro flag_tableI)
    (simp_all add: readTLCodeSettings_def writeTLCodeSettings_def flag_schema_simps)

subsection \<open>Methods\<close>

definition writeTLMethodUploadSaveFilePart :: tl_writer where
  "writeTLMethodUploadSaveFilePart = write_fobject
     [(- 1291540959, [wf ''_'' writeInt32, wf ''file_id'' writeInt64, wf ''file_part'' writeInt32,
         wf ''bytes'' writeByteArray])]"

definition writeTLMethodUploadSaveBigFilePart :: tl_writer where
  "writeTLMethodUploadSaveBigFilePart = write_fobject
     [(- 562337987, [wf ''_'' writeInt32, wf ''file_id'' writeInt64, wf ''file_part'' writeInt32,
         wf ''file_total_parts'' writeInt32, wf ''bytes'' writeByteArray])]"

definition writeTLMethodUpdatesGetState :: tl_writer where
  "writeTLMethodUpdatesGetState = write_fobject
     [(- 304838614, [wf ''_'' writeInt32])]"

definition writeTLMethodUpdatesGetDifference :: tl_writer where
  "writeTLMethodUpdatesGetDifference = write_fobject
     [(432207715, [wf ''_'' writeInt32, wf_flags ''flags'' [(''pts_limit'', 1),
         (''pts_total_limit'', 0), (''qts_limit'', 2)], wf ''pts'' writeInt32,
         wf_if ''flags'' 1 ''pts_limit'' writeInt32,
         wf_if ''flags'' 0 ''pts_total_limit'' writeInt32, wf ''date'' writeInt32,
         wf ''qts'' writeInt32, wf_if ''flags'' 2 ''qts_limit'' writeInt32])]"

definition writeTLMethodMessagesGetDialogFilters :: tl_writer where
  "writeTLMethodMessagesGetDialogFilters = write_fobject
     [(- 271283063, [wf ''_'' writeInt32])]"

definition writeTLMethodMessagesDeleteMessages :: tl_writer where
  "writeTLMethodMessagesDeleteMessages = write_fobject
     [(- 443640366, [wf ''_'' writeInt32, wf_flags ''flags'' [(''revoke'', 0)],
         wf ''id'' (writeVector (Some writeInt32))])]"

definition writeTLMethodHelpGetCountriesList :: tl_writer where
  "writeTLMethodHelpGetCountriesList = write_fobject
     [(1935116200, [wf ''_'' writeInt32, wf ''lang_code'' writeString, wf ''hash'' writeInt32])]"

definition writeTLMethodAuthSignUp :: tl_writer where
  "writeTLMethodAuthSignUp = write_fobject
     [(- 1429752041, [wf ''_'' writeInt32, wf_flags ''flags'' [(''no_joined_notifications'', 0)],
         wf ''phone_number'' writeString, wf ''phone_code_hash'' writeString,
         wf ''first_name'' writeString, wf ''last_name'' writeString])]"

definition writeTLMethodAuthSignIn :: tl_writer where
  "writeTLMethodAuthSignIn = write_fobject
     [(- 1923962543, [wf ''_'' writeInt32, wf_flags ''flags'' [(''phone_code'', 0),
         (''email_verification'', 1)], wf ''phone_number'' writeString,
         wf ''phone_code_hash'' writeString, wf_if ''flags'' 0 ''phone_code'' writeString,
         wf_if ''flags'' 1 ''email_verification'' writeTLEmailVerification])]"

definition writeTLMethodAuthSendCode :: tl_writer where
  "writeTLMethodAuthSendCode = write_fobject
     [(- 1502141361, [wf ''_'' writeInt32, wf ''phone_number'' writeString,
         wf ''api_id'' writeInt32, wf ''api_hash'' writeString,
         wf ''settings'' writeTLCodeSettings])]"

definition writeTLMethodAuthImportAuthorization :: tl_writer where
  "writeTLMethodAuthImportAuthorization = write_fobject
     [(- 1518699091, [wf ''_'' writeInt32, wf ''id'' writeInt64, wf ''bytes'' writeByteArray])]"

definition writeTLMethodAuthExportAuthorization :: tl_writer where
  "writeTLMethodAuthExportAuthorization = write_fobject
     [(- 440401971, [wf ''_'' writeInt32, wf ''dc_id'' writeInt32])]"

definition writeTLMethodAuthCheckPassword :: tl_writer where
  "writeTLMethodAuthCheckPassword = write_fobject
     [(- 779399914, [wf ''_'' writeInt32, wf ''password'' writeTLInputCheckPasswordSRP])]"

definition writeTLMethodAccountGetPassword :: tl_writer where
  "writeTLMethodAccountGetPassword = write_fobject
     [(1418342645, [wf ''_'' writeInt32])]"

definition writeTLMethodHelpGetConfig :: tl_writer where
  "writeTLMethodHelpGetConfig = write_fobject
     [(- 990308245, [wf ''_'' writeInt32])]"

subsection \<open>All types at once\<close>

definition tl_types :: "(tl_reader \<times> tl_writer \<times> flag_table) list" where
  "tl_types =
     [(readTLDcOption, writeTLDcOption, TL_DcOption_table),
      (readTLReaction, writeTLReaction, TL_Reaction_table),
      (readTLConfig, writeTLConfig, TL_Config_table),
      (readTLUserProfilePhoto, writeTLUserProfilePhoto, TL_UserProfilePhoto_table),
      (readTLUserStatus, writeTLUserStatus, TL_UserStatus_table),
      (readTLRestrictionReason, writeTLRestrictionReason, TL_RestrictionReason_table),
      (readTLEmojiStatus, writeTLEmojiStatus, TL_EmojiStatus_table),
      (readTLUsername, writeTLUsername, TL_Username_table),
      (readTLRecentStory, writeTLRecentStory, TL_RecentStory_table),
      (readTLPeerColor, writeTLPeerColor, TL_PeerColor_table),
      (readTLUser, writeTLUser, TL_User_table),
      (readTLDataJSON, writeTLDataJSON, TL_DataJSON_table),
      (readTLUpdatesState, writeTLUpdatesState, TL_UpdatesState_table),
      (readTLPasswordKdfAlgo, writeTLPasswordKdfAlgo, TL_PasswordKdfAlgo_table),
      (readTLSecurePasswordKdfAlgo, writeTLSecurePasswordKdfAlgo, TL_SecurePasswordKdfAlgo_table),
      (readTLAccountPassword, writeTLAccountPassword, TL_AccountPassword_table),
      (readTLStorageFileType, writeTLStorageFileType, TL_StorageFileType_table),
      (readTLFileHash, writeTLFileHash, TL_FileHash_table),
      (readTLUploadFile, writeTLUploadFile, TL_UploadFile_table),
      (readTLPeer, writeTLPeer, TL_Peer_table),
      (readTLInputStickerSet, writeTLInputStickerSet, TL_InputStickerSet_table),
      (readTLInputGroupCall, writeTLInputGroupCall, TL_InputGroupCall_table),
      (readTLChatPhoto, writeTLChatPhoto, TL_ChatPhoto_table),
      (readTLChatAdminRights, writeTLChatAdminRights, TL_ChatAdminRights_table),
      (readTLChatBannedRights, writeTLChatBannedRights, TL_ChatBannedRights_table),
      (readTLMessagesAffectedMessages, writeTLMessagesAffectedMessages, TL_MessagesAffectedMessages_table),
      (readTLInputCheckPasswordSRP, writeTLInputCheckPasswordSRP, TL_InputCheckPasswordSRP_table),
      (readTLHelpCountryCode, writeTLHelpCountryCode, TL_HelpCountryCode_table),
      (readTLHelpCountry, writeTLHelpCountry, TL_HelpCountry_table),
      (readTLHelpCountriesList, writeTLHelpCountriesList, TL_HelpCountriesList_table),
      (readTLInputDocument, writeTLInputDocument, TL_InputDocument_table),
      (readTLInputFile, writeTLInputFile, TL_InputFile_table),
      (readTLAuthExportedAuthorization, writeTLAuthExportedAuthorization, TL_AuthExportedAuthorization_table),
      (readTLAuthSentCodeType, writeTLAuthSentCodeType, TL_AuthSentCodeType_table),
      (readTLAuthCodeType, writeTLAuthCodeType, TL_AuthCodeType_table),
      (readTLMessageRange, writeTLMessageRange, TL_MessageRange_table),
      (readTLChannelMessagesFilter, writeTLChannelMessagesFilter, TL_ChannelMessagesFilter_table),
      (readTLEmailVerification, writeTLEmailVerification, TL_EmailVerification_table),
      (readTLCodeSettings, writeTLCodeSettings, TL_CodeSettings_table)]"

lemma tl_types_codec: "(R, W, t) \<in> set tl_types \<Longrightarrow> tl_codec R W (enc_fobject t) (ok_fobject t)"
  by (auto simp: tl_types_def
      intro: tl_DcOption.tl_codec_axioms tl_Reaction.tl_codec_axioms tl_Config.tl_codec_axioms tl_UserProfilePhoto.tl_codec_axioms tl_UserStatus.tl_codec_axioms tl_RestrictionReason.tl_codec_axioms tl_EmojiStatus.tl_codec_axioms tl_Username.tl_codec_axioms tl_RecentStory.tl_codec_axioms tl_PeerColor.tl_codec_axioms tl_User.tl_codec_axioms tl_DataJSON.tl_codec_axioms tl_UpdatesState.tl_codec_axioms tl_PasswordKdfAlgo.tl_codec_axioms tl_SecurePasswordKdfAlgo.tl_codec_axioms tl_AccountPassword.tl_codec_axioms tl_StorageFileType.tl_codec_axioms tl_FileHash.tl_codec_axioms tl_UploadFile.tl_codec_axioms tl_Peer.tl_codec_axioms tl_InputStickerSet.tl_codec_axioms tl_InputGroupCall.tl_codec_axioms tl_ChatPhoto.tl_codec_axioms tl_ChatAdminRights.tl_codec_axioms tl_ChatBannedRights.tl_codec_axioms tl_MessagesAffectedMessages.tl_codec_axioms tl_InputCheckPasswordSRP.tl_codec_axioms tl_HelpCountryCode.tl_codec_axioms tl_HelpCountry.tl_codec_axioms tl_HelpCountriesList.tl_codec_axioms tl_InputDocument.tl_codec_axioms tl_InputFile.tl_codec_axioms tl_AuthExportedAuthorization.tl_codec_axioms tl_AuthSentCodeType.tl_codec_axioms tl_AuthCodeType.tl_codec_axioms tl_MessageRange.tl_codec_axioms tl_ChannelMessagesFilter.tl_codec_axioms tl_EmailVerification.tl_codec_axioms tl_CodeSettings.tl_codec_axioms)


end
