(* ===== verification/TlRecursion.thy ===== *)
theory TlRecursion
  imports TlFlags
begin

section \<open>Types of the API schema that contain themselves\<close>

text \<open>
  Some readers and writers of libkg/tlschema.cpp call themselves, alone or in a group: a paragraph of rich text
  contains rich text. A group is given by the cases of its readers and writers, as functions of the readers and writers
  they call; here they get the depth still allowed, the readers starting with the number of bytes left and the
  writers with the size of the variant. Neither can run out, so the equations of the source hold
  (\<open>read_rec_unfold\<close>, \<open>write_rec_unfold\<close>), and a group keeps the codec contract at every depth. The locale \<open>tl_recursion\<close>
  states what a group owes for that: it calls what it is given on what is left of the stream and on entries of the
  object, and the contract holds for one level when it holds for what is called.
\<close>

subsection \<open>Depth\<close>

fun read_at :: "(('t \<Rightarrow> tl_reader) \<Rightarrow> 't \<Rightarrow> step_case list) \<Rightarrow> nat \<Rightarrow> 't \<Rightarrow> tl_reader" where
  "read_at reads 0 t = read_object (reads (\<lambda>t v s. (v, s)) t)"
| "read_at reads (Suc n) t = read_object (reads (read_at reads n) t)"

definition read_rec :: "(('t \<Rightarrow> tl_reader) \<Rightarrow> 't \<Rightarrow> step_case list) \<Rightarrow> 't \<Rightarrow> tl_reader" where
  "read_rec reads t i s = read_at reads (length (avail s)) t i s"

fun write_at :: "(('t \<Rightarrow> tl_writer) \<Rightarrow> 't \<Rightarrow> step_case list) \<Rightarrow> nat \<Rightarrow> 't \<Rightarrow> tl_writer" where
  "write_at writes 0 t = write_fobject (writes (\<lambda>t s v. s) t)"
| "write_at writes (Suc n) t = write_fobject (writes (write_at writes n) t)"

definition write_rec :: "(('t \<Rightarrow> tl_writer) \<Rightarrow> 't \<Rightarrow> step_case list) \<Rightarrow> 't \<Rightarrow> tl_writer" where
  "write_rec writes t s i = write_at writes (size i) t s i"

type_synonym 't group_fields =
  "('t \<Rightarrow> tl_reader) \<Rightarrow> ('t \<Rightarrow> tl_writer) \<Rightarrow> ('t \<Rightarrow> qtenv \<Rightarrow> variant \<Rightarrow> bytes) \<Rightarrow>
   ('t \<Rightarrow> qtenv \<Rightarrow> variant \<Rightarrow> bool) \<Rightarrow> flag_table"

type_synonym 't group_table =
  "('t \<Rightarrow> tl_reader) \<Rightarrow> ('t \<Rightarrow> tl_writer) \<Rightarrow> ('t \<Rightarrow> qtenv \<Rightarrow> variant \<Rightarrow> bytes) \<Rightarrow>
   ('t \<Rightarrow> qtenv \<Rightarrow> variant \<Rightarrow> bool) \<Rightarrow> 't \<Rightarrow> flag_table"

fun table_at ::
    "(('t \<Rightarrow> tl_reader) \<Rightarrow> 't \<Rightarrow> step_case list) \<Rightarrow> (('t \<Rightarrow> tl_writer) \<Rightarrow> 't \<Rightarrow> step_case list) \<Rightarrow>
     't group_table \<Rightarrow> nat \<Rightarrow> 't \<Rightarrow> flag_table" where
  "table_at reads writes table 0 t =
     table (\<lambda>t v s. (v, s)) (\<lambda>t s v. s) (\<lambda>t q v. []) (\<lambda>t q v. False) t"
| "table_at reads writes table (Suc n) t =
     table (read_at reads n) (write_at writes n) (\<lambda>t. enc_fobject (table_at reads writes table n t))
       (\<lambda>t. ok_fobject (table_at reads writes table n t)) t"

definition enc_rec ::
    "(('t \<Rightarrow> tl_reader) \<Rightarrow> 't \<Rightarrow> step_case list) \<Rightarrow> (('t \<Rightarrow> tl_writer) \<Rightarrow> 't \<Rightarrow> step_case list) \<Rightarrow>
     't group_table \<Rightarrow> 't \<Rightarrow> qtenv \<Rightarrow> variant \<Rightarrow> bytes" where
  "enc_rec reads writes table t q v = enc_fobject (table_at reads writes table (size v) t) q v"

definition ok_rec ::
    "(('t \<Rightarrow> tl_reader) \<Rightarrow> 't \<Rightarrow> step_case list) \<Rightarrow> (('t \<Rightarrow> tl_writer) \<Rightarrow> 't \<Rightarrow> step_case list) \<Rightarrow>
     't group_table \<Rightarrow> 't \<Rightarrow> qtenv \<Rightarrow> variant \<Rightarrow> bool" where
  "ok_rec reads writes table t q v = ok_fobject (table_at reads writes table (size v) t) q v"

subsection \<open>Readers that agree on short streams\<close>

definition step_like :: "nat \<Rightarrow> tl_step \<Rightarrow> tl_step \<Rightarrow> bool" where
  "step_like L f f' \<longleftrightarrow>
     (\<forall>obj s. length (avail s) \<le> L \<longrightarrow> f (obj, s) = f' (obj, s) \<and> length (avail (snd (f' (obj, s)))) \<le> length (avail s))"

definition cases_like :: "nat \<Rightarrow> step_case list \<Rightarrow> step_case list \<Rightarrow> bool" where
  "cases_like L cs cs' \<longleftrightarrow> list_all2 (\<lambda>(c, fs) (c', fs'). c = c' \<and> list_all2 (step_like L) fs fs') cs cs'"

lemma likeD: "like L r r' \<Longrightarrow> length (avail s) \<le> L \<Longrightarrow> r i s = r' i s"
  "like L r r' \<Longrightarrow> length (avail s) \<le> L \<Longrightarrow> length (avail (snd (r' i s))) \<le> length (avail s)"
  by (auto simp: like_def)

lemma likeI:
  assumes "\<And>i s. length (avail s) \<le> L \<Longrightarrow> r i s = r' i s"
    and "\<And>i s. length (avail s) \<le> L \<Longrightarrow> length (avail (snd (r' i s))) \<le> length (avail s)"
  shows "like L r r'"
  unfolding like_def by (auto simp: assms)

lemma like_sym:
  assumes "like L r r'"
  shows "like L r' r"
proof (rule likeI)
  fix i s assume s: "length (avail s) \<le> L"
  show "r' i s = r i s" using likeD(1) [OF assms s, of i] by simp
  show "length (avail (snd (r i s))) \<le> length (avail s)" using likeD [OF assms s, of i] by simp
qed

lemma like_trans: "like L r r' \<Longrightarrow> like L r' r'' \<Longrightarrow> like L r r''"
  by (rule likeI) (simp_all add: likeD)

lemma like_less: "like L r r' \<Longrightarrow> L' \<le> L \<Longrightarrow> like L' r r'"
  by (rule likeI) (simp_all add: likeD)

lemma step_like_rd [simp]: "like L r r' \<Longrightarrow> step_like L (rd n r) (rd n r')"
  by (simp add: step_like_def rd_def split_beta likeD)

lemma step_likeD: "step_like L f f' \<Longrightarrow> length (avail s) \<le> L \<Longrightarrow> f (obj, s) = f' (obj, s)"
  "step_like L f f' \<Longrightarrow> length (avail s) \<le> L \<Longrightarrow> length (avail (snd (f' (obj, s)))) \<le> length (avail s)"
  by (auto simp: step_like_def)

lemma step_like_rd_if [simp]: "like L r r' \<Longrightarrow> step_like L (rd_if fl b n r) (rd_if fl b n r')"
  unfolding step_like_def [of L "rd_if fl b n r"] by (simp add: rd_if_def step_likeD [OF step_like_rd])

lemma step_like_set_if [simp]: "step_like L (set_if fl b n) (set_if fl b n)"
  by (simp add: step_like_def set_if_def)

lemma read_elems_like:
  assumes "like L r r'"
  shows "length (avail s) \<le> L \<Longrightarrow> read_elems r n i s = read_elems r' n i s \<and>
    length (avail (snd (read_elems r' n i s))) \<le> length (avail s)"
proof (induction n arbitrary: i s)
  case (Suc n)
  note r = likeD [OF assms Suc.prems, of i]
  have "length (avail (snd (r' i s))) \<le> L" using r(2) Suc.prems by simp
  from Suc.IH [OF this, of "fst (r' i s)"] show ?case using r by (simp add: split_beta)
qed simp

lemma like_vector [simp]:
  assumes "like L r r'"
  shows "like L (readVector (Some r)) (readVector (Some r'))"
proof (rule likeI)
  fix i s assume s: "length (avail s) \<le> L"
  obtain v1 s1 where 1: "readInt32 VNull s = (v1, s1)" by fastforce
  obtain v2 s2 where 2: "readInt32 v1 s1 = (v2, s2)" by fastforce
  have le: "length (avail s1) \<le> length (avail s)" "length (avail s2) \<le> length (avail s)"
    using int_readers_shorter(2) [of VNull s] int_readers_shorter(2) [of v1 s1] by (simp_all add: 1 2)
  then have "length (avail s2) \<le> L" using s by simp
  note e = read_elems_like [OF assms this]
  show "readVector (Some r) i s = readVector (Some r') i s"
    by (simp add: readVector_def 1 2 e [THEN conjunct1])
  show "length (avail (snd (readVector (Some r') i s))) \<le> length (avail s)"
    using le e [THEN conjunct2, THEN order_trans, OF le(2)] by (simp add: readVector_def 1 2 split_beta)
qed

lemma steps_like:
  "list_all2 (step_like L) fs fs' \<Longrightarrow> length (avail s) \<le> L \<Longrightarrow>
   fold (\<lambda>f. f) fs (obj, s) = fold (\<lambda>f. f) fs' (obj, s) \<and> length (avail (snd (fold (\<lambda>f. f) fs' (obj, s)))) \<le> length (avail s)"
proof (induction arbitrary: obj s rule: list_all2_induct)
  case (Cons f fs f' fs')
  obtain obj1 s1 where f: "f' (obj, s) = (obj1, s1)" by fastforce
  then have "f (obj, s) = (obj1, s1)" "length (avail s1) \<le> length (avail s)"
    using step_likeD [OF Cons.hyps(1) Cons.prems, of obj] by simp_all
  then show ?case using Cons.IH [of s1 obj1] Cons.prems f by simp
qed simp

lemma cases_like_lookup: "cases_like L cs cs' \<Longrightarrow> rel_option (list_all2 (step_like L)) (map_of cs c) (map_of cs' c)"
  unfolding cases_like_def by (induction rule: list_all2_induct) auto

text \<open>Each level has read a constructor id.\<close>

lemma read_object_like:
  assumes "cases_like n cs cs'" and "map_of cs 0 = None"
  shows "like (Suc n) (read_object cs) (read_object cs')"
  unfolding like_def
proof (intro allI impI)
  fix i s assume s: "length (avail s) \<le> Suc n"
  define w where "w = fst (read_word 4 s :: i32 \<times> tgstream)"
  define s1 where "s1 = snd (read_word 4 s :: i32 \<times> tgstream)"
  have rw: "read_word 4 s = (w, s1)" by (simp add: w_def s1_def)
  have le: "length (avail s1) \<le> length (avail s)" unfolding s1_def by (rule read_word_shorter)
  have "rel_option (list_all2 (step_like n)) (map_of cs 0) (map_of cs' 0)" by (rule cases_like_lookup [OF assms(1)])
  then have zero: "map_of cs' 0 = None" using assms(2) by simp
  show "read_object cs i s = read_object cs' i s \<and> length (avail (snd (read_object cs' i s))) \<le> length (avail s)"
  proof (cases "length (avail s) < 4")
    case True
    then have "w = 0" by (simp add: w_def read_word_def min_def)
    then show ?thesis using assms(2) zero le by (simp add: read_object_def readInt32_def rw)
  next
    case False
    then have "s1 = advance 4 s" by (simp add: s1_def read_word_def min_def)
    then have s1: "length (avail s1) \<le> n" using s False by simp
    show ?thesis
    proof (cases "map_of cs w")
      case None
      then have "map_of cs' w = None" using cases_like_lookup [OF assms(1), of w] by simp
      then show ?thesis using None le by (simp add: read_object_def readInt32_def rw)
    next
      case (Some fs)
      then obtain fs' where fs': "map_of cs' w = Some fs'" "list_all2 (step_like n) fs fs'"
        using cases_like_lookup [OF assms(1), of w] by (auto simp: option_rel_Some1)
      from steps_like [OF fs'(2) s1, of "[(''_'', VInt w)]"] show ?thesis
        using Some fs'(1) le by (auto simp: read_object_def readInt32_def rw split_beta)
    qed
  qed
qed

subsection \<open>Writers that agree on small values\<close>

definition wlike :: "nat \<Rightarrow> tl_writer \<Rightarrow> tl_writer \<Rightarrow> bool" where
  "wlike B w w' \<longleftrightarrow> (\<forall>s i. size i \<le> B \<longrightarrow> w s i = w' s i)"

definition small :: "nat \<Rightarrow> tgobject \<Rightarrow> bool" where
  "small B obj \<longleftrightarrow> (\<forall>n. size (obj_get obj n) \<le> B)"

definition wstep_like :: "nat \<Rightarrow> tl_step \<Rightarrow> tl_step \<Rightarrow> bool" where
  "wstep_like B f f' \<longleftrightarrow> (\<forall>obj s. small B obj \<longrightarrow> f (obj, s) = f' (obj, s) \<and> small B (fst (f (obj, s))))"

definition wcases_like :: "nat \<Rightarrow> step_case list \<Rightarrow> step_case list \<Rightarrow> bool" where
  "wcases_like B cs cs' \<longleftrightarrow> list_all2 (\<lambda>(c, fs) (c', fs'). c = c' \<and> list_all2 (wstep_like B) fs fs') cs cs'"

lemma wlike_self [simp]: "wlike B w w"
  by (simp add: wlike_def)

lemma wlike_less: "wlike B w w' \<Longrightarrow> B' \<le> B \<Longrightarrow> wlike B' w w'"
  by (simp add: wlike_def)

lemma wstep_like_wf [simp]: "wlike B w w' \<Longrightarrow> wstep_like B (wf n w) (wf n w')"
  by (auto simp: wlike_def wstep_like_def wf_def small_def)

lemma wstep_like_wf_if [simp]: "wlike B w w' \<Longrightarrow> wstep_like B (wf_if fl b n w) (wf_if fl b n w')"
  by (auto simp: wlike_def wstep_like_def wf_if_def small_def)

lemma wstep_like_flags [simp]: "wstep_like B (wf_flags fl bits) (wf_flags fl bits)"
  by (auto simp: wstep_like_def wf_flags_def small_def Let_def)

lemma wlike_vector [simp]:
  assumes "wlike B w w'"
  shows "wlike B (writeVector (Some w)) (writeVector (Some w'))"
  unfolding wlike_def
proof (intro allI impI)
  fix s and i :: variant assume i: "size i \<le> B"
  have small: "size v \<le> B" if "v \<in> set (qv_toList i)" for v
    using i size_list_estimation' [OF that order_refl, of size] that by (cases i) auto
  have "foldl w s1 vs = foldl w' s1 vs" if "set vs \<subseteq> set (qv_toList i)" for s1 vs
    using that assms small by (induction vs arbitrary: s1) (auto simp: wlike_def)
  then show "writeVector (Some w) s i = writeVector (Some w') s i" by (simp add: writeVector_def Let_def)
qed

lemma wsteps_like:
  "list_all2 (wstep_like B) fs fs' \<Longrightarrow> small B obj \<Longrightarrow> fold (\<lambda>f. f) fs (obj, s) = fold (\<lambda>f. f) fs' (obj, s)"
proof (induction arbitrary: obj s rule: list_all2_induct)
  case (Cons f fs f' fs')
  obtain obj1 s1 where f: "f (obj, s) = (obj1, s1)" by fastforce
  then have "f' (obj, s) = (obj1, s1)" "small B obj1"
    using Cons.hyps(1) Cons.prems unfolding wstep_like_def by (metis, metis fst_conv)
  then show ?case using Cons.IH [of obj1 s1] f by simp
qed simp

lemma wcases_like_lookup: "wcases_like B cs cs' \<Longrightarrow> rel_option (list_all2 (wstep_like B)) (map_of cs c) (map_of cs' c)"
  unfolding wcases_like_def by (induction rule: list_all2_induct) auto

lemma obj_get_size: "obj_get m k = v \<Longrightarrow> v \<noteq> VNull \<Longrightarrow> size v < size (VMap m)"
proof (induction m)
  case (Cons p m)
  then show ?case by (cases p) (auto simp: obj_get_def split: if_splits)
qed (simp add: obj_get_def)

lemma small_entries: "size (VMap obj) \<le> Suc B \<Longrightarrow> small B obj"
  unfolding small_def
proof
  fix n assume a: "size (VMap obj) \<le> Suc B"
  show "size (obj_get obj n) \<le> B"
    using obj_get_size [of obj n, OF refl] a by (cases "obj_get obj n = VNull") auto
qed

lemma write_fobject_like: "wcases_like B cs cs' \<Longrightarrow> wlike (Suc B) (write_fobject cs) (write_fobject cs')"
  unfolding wlike_def
proof (intro allI impI)
  fix s i assume c: "wcases_like B cs cs'" and i: "size (i :: variant) \<le> Suc B"
  have "small B (qv_toMap i)" using i small_entries by (cases i) (simp_all add: small_def)
  then show "write_fobject cs s i = write_fobject cs' s i"
    using wcases_like_lookup [OF c, of "objID (qv_toMap i)"] wsteps_like
    by (auto simp: write_fobject_def Let_def split: option.splits)
qed

subsection \<open>Tables that refine one another\<close>

text \<open>
  \<open>field_le f g\<close>: what \<open>f\<close> admits \<open>g\<close> admits and encodes alike. A table whose fields are so
  related admits and encodes alike every object of the smaller.
\<close>

definition step_le :: "field_codec \<Rightarrow> field_codec \<Rightarrow> bool" where
  "step_le f g \<longleftrightarrow> fst f = fst g \<and>
     (\<forall>q v. ok_step q f v \<longrightarrow> ok_step q g v \<and> enc_step q g v = enc_step q f v)"

fun field_le :: "tl_field \<Rightarrow> tl_field \<Rightarrow> bool" where
  "field_le (Plain f) (Plain g) = step_le f g"
| "field_le (Cond fl b f) (Cond fl' b' g) = (fl = fl' \<and> b = b' \<and> step_le f g)"
| "field_le f g = (f = g)"

definition table_le :: "flag_table \<Rightarrow> flag_table \<Rightarrow> bool" where
  "table_le t t' = list_all2 (\<lambda>(c, fs) (c', fs'). c = c' \<and> list_all2 field_le fs fs') t t'"

lemma step_le_refl [simp]: "step_le f f"
  by (simp add: step_le_def)

lemma field_le_refl [simp]: "field_le f f"
  by (cases f) simp_all

lemma fields_le_refl [simp]: "list_all2 field_le fs fs"
  by (simp add: list.rel_refl)

lemma field_le_present: "field_le f g \<Longrightarrow> present obj g = present obj f"
  by (cases f; cases g) (auto simp: step_le_def)

lemma field_le_ok: "field_le f g \<Longrightarrow> ok_field q obj f \<Longrightarrow> ok_field q obj g \<and> enc_field q obj g = enc_field q obj f"
  by (cases f; cases g) (auto simp: step_le_def)

lemma fields_le:
  "list_all2 field_le fs gs \<Longrightarrow> list_all (ok_field q obj) fs \<Longrightarrow>
   list_all (ok_field q obj) gs \<and> concat (map (present obj) gs) = concat (map (present obj) fs) \<and>
   concat (map (enc_field q obj) gs) = concat (map (enc_field q obj) fs)"
  by (induction rule: list_all2_induct) (auto dest: field_le_ok field_le_present)

lemma table_le_lookup:
  "table_le t t' \<Longrightarrow> map_of t c = Some fs \<Longrightarrow> \<exists>gs. map_of t' c = Some gs \<and> list_all2 field_le fs gs"
  unfolding table_le_def by (induction rule: list_all2_induct) (auto split: if_splits)

lemma table_le_object:
  assumes "table_le t t'" and "ok_fobject t q v"
  shows "ok_fobject t' q v" and "enc_fobject t' q v = enc_fobject t q v"
proof -
  from assms(2) obtain obj cid fs where v: "v = VMap obj" "obj_get obj ''_'' = VInt cid" "map_of t cid = Some fs"
    "distinct (map fst obj)" "map fst obj = ''_'' # concat (map (present obj) fs)" "list_all (ok_field q obj) fs"
    by (rule ok_fobjectE)
  obtain gs where g: "map_of t' cid = Some gs" "list_all2 field_le fs gs" using table_le_lookup [OF assms(1) v(3)] by blast
  note le = fields_le [OF g(2) v(6)]
  show "ok_fobject t' q v" using v g le by (simp add: ok_fobject_def)
  show "enc_fobject t' q v = enc_fobject t q v" using v g le by (simp add: enc_fobject_def objID_def)
qed

lemma step_le_vector:
  assumes "\<And>q v. K q v \<Longrightarrow> K' q v \<and> E' q v = E q v"
  shows "step_le (n, R, W, enc_vector E, ok_vector K) (n, R', W', enc_vector E', ok_vector K')"
proof -
  have "list_all (K q) vs \<Longrightarrow> list_all (K' q) vs \<and> concat (map (E' q) vs) = concat (map (E q) vs)" for q vs
    using assms by (induction vs) auto
  then show ?thesis by (auto simp: step_le_def ok_vector_def enc_vector_def split: variant.splits)
qed

lemma step_le_direct: "(\<And>q v. K q v \<Longrightarrow> K' q v \<and> E' q v = E q v) \<Longrightarrow> step_le (n, R, W, E, K) (n, R', W', E', K')"
  by (simp add: step_le_def)

lemmas leaf_likes = int32.self_like uint32.self_like int64.self_like uint64.self_like tbool.self_like tdouble.self_like
  int128.self_like int256.self_like tbytes.self_like tstring.self_like

subsection \<open>The contract of a group\<close>

locale tl_recursion =
  fixes reads :: "('t \<Rightarrow> tl_reader) \<Rightarrow> 't \<Rightarrow> step_case list"
    and writes :: "('t \<Rightarrow> tl_writer) \<Rightarrow> 't \<Rightarrow> step_case list"
    and table :: "'t group_table"
  assumes reads_like: "(\<And>t. like L (r t) (r' t)) \<Longrightarrow> cases_like L (reads r t) (reads r' t)"
    and reads_zero: "map_of (reads r t) 0 = None"
    and writes_like: "(\<And>t. wlike B (w t) (w' t)) \<Longrightarrow> wcases_like B (writes w t) (writes w' t)"
    and writes_zero: "map_of (writes w t) 0 = None"
    and level_codec: "(\<And>t. tl_codec (r t) (w t) (e t) (k t)) \<Longrightarrow>
      tl_codec (read_object (reads r t)) (write_fobject (writes w t)) (enc_fobject (table r w e k t)) (ok_fobject (table r w e k t))"
    and level_le: "(\<And>t q v. k t q v \<Longrightarrow> k' t q v \<and> e' t q v = e t q v) \<Longrightarrow> table_le (table r w e k t) (table r' w' e' k' t)"
begin

lemma read_at_empty: "avail s = [] \<Longrightarrow> read_at reads k t i s = (VMap [], s\<lparr>sok := False\<rparr>)"
  by (cases k) (simp_all add: read_object_def readInt32_def read_word_def reads_zero)

lemma read_at_like: "like (min n m) (read_at reads n t) (read_at reads m t)"
proof (induction n arbitrary: m t)
  case 0
  show ?case by (rule likeI) (simp_all add: read_at_empty avail_def del: read_at.simps)
next
  case (Suc n)
  show ?case
  proof (cases m)
    case 0
    then show ?thesis by (intro likeI) (simp_all add: read_at_empty avail_def del: read_at.simps)
  next
    case m: (Suc m')
    have "like (Suc (min n m')) (read_object (reads (read_at reads n) t)) (read_object (reads (read_at reads m') t))"
      by (rule read_object_like [OF reads_like [OF Suc.IH] reads_zero])
    then show ?thesis by (simp add: m)
  qed
qed

lemma read_at_enough: "length (avail s) \<le> n \<Longrightarrow> length (avail s) \<le> m \<Longrightarrow> read_at reads n t i s = read_at reads m t i s"
  using likeD(1) [OF read_at_like, of s n m t i] by simp

lemma read_at_shorter: "length (avail s) \<le> n \<Longrightarrow> length (avail (snd (read_at reads n t i s))) \<le> length (avail s)"
  using likeD(2) [OF read_at_like, of s n n t i] by simp

lemma read_rec_like: "like n (read_at reads n t) (read_rec reads t)"
proof (rule likeI)
  fix i s assume s: "length (avail s) \<le> n"
  show "read_at reads n t i s = read_rec reads t i s"
    unfolding read_rec_def by (rule read_at_enough [OF s order_refl])
  show "length (avail (snd (read_rec reads t i s))) \<le> length (avail s)"
    unfolding read_rec_def by (rule read_at_shorter [OF order_refl])
qed

lemma read_rec_unfold: "read_rec reads t i s = read_object (reads (read_rec reads) t) i s"
proof -
  let ?n = "length (avail s)"
  have "like (Suc ?n) (read_object (reads (read_at reads ?n) t)) (read_object (reads (read_rec reads) t))"
    by (rule read_object_like [OF reads_like [OF read_rec_like] reads_zero])
  then have "read_at reads (Suc ?n) t i s = read_object (reads (read_rec reads) t) i s" by (simp add: likeD(1))
  then show ?thesis unfolding read_rec_def using read_at_enough [of s "?n" "Suc ?n" t i] by simp
qed

lemma write_at_empty: "size v = 0 \<Longrightarrow> write_at writes k t s v = s"
proof -
  assume "size v = 0"
  then have "qv_toMap v = []" by (cases v) simp_all
  then show ?thesis using writes_zero by (cases k) (simp_all add: write_fobject_def objID_def obj_get_def)
qed

lemma write_at_like: "wlike (min n m) (write_at writes n t) (write_at writes m t)"
proof (induction n arbitrary: m t)
  case 0
  show ?case by (simp add: wlike_def write_at_empty del: write_at.simps)
next
  case (Suc n)
  show ?case
  proof (cases m)
    case 0
    then show ?thesis by (simp add: wlike_def write_at_empty del: write_at.simps)
  next
    case m: (Suc m')
    have "wlike (Suc (min n m')) (write_fobject (writes (write_at writes n) t)) (write_fobject (writes (write_at writes m') t))"
      by (rule write_fobject_like [OF writes_like [OF Suc.IH]])
    then show ?thesis by (simp add: m)
  qed
qed

lemma write_rec_like: "wlike n (write_at writes n t) (write_rec writes t)"
  unfolding wlike_def write_rec_def
proof (intro allI impI)
  fix s i assume i: "size (i :: variant) \<le> n"
  then show "write_at writes n t s i = write_at writes (size i) t s i"
    using write_at_like [of n "size i" t] by (simp add: wlike_def min_def)
qed

lemma write_rec_unfold: "write_rec writes t s i = write_fobject (writes (write_rec writes) t) s i"
proof -
  let ?n = "size i"
  have "wlike (Suc ?n) (write_fobject (writes (write_at writes ?n) t)) (write_fobject (writes (write_rec writes) t))"
    by (rule write_fobject_like [OF writes_like [OF write_rec_like]])
  then have "write_at writes (Suc ?n) t s i = write_fobject (writes (write_rec writes) t) s i" by (simp add: wlike_def)
  moreover have "write_at writes (Suc ?n) t s i = write_rec writes t s i"
    using write_rec_like [of "Suc ?n" t] unfolding wlike_def by (metis le_Suc_eq order_refl)
  ultimately show ?thesis by simp
qed

lemma codec_at: "tl_codec (read_at reads n t) (write_at writes n t) (enc_fobject (table_at reads writes table n t))
    (ok_fobject (table_at reads writes table n t))"
proof (induction n arbitrary: t)
  case 0
  have "tl_codec (\<lambda>v s. (v, s)) (\<lambda>s v. s) (\<lambda>q v. []) (\<lambda>q v. False)" by unfold_locales simp_all
  then show ?case by (simp add: level_codec)
next
  case (Suc n)
  then show ?case by (simp add: level_codec)
qed

lemma table_Suc: "table_le (table_at reads writes table n t) (table_at reads writes table (Suc n) t)"
proof (induction n arbitrary: t)
  case 0
  show ?case by (simp add: level_le)
next
  case (Suc n)
  show ?case
    unfolding table_at.simps(2) [of _ _ _ "Suc n"] table_at.simps(2) [of _ _ _ n t]
    by (rule level_le) (simp only: table_le_object [OF Suc] simp_thms)
qed

lemma table_mono:
  assumes "n \<le> m" and "ok_fobject (table_at reads writes table n t) q v"
  shows "ok_fobject (table_at reads writes table m t) q v \<and>
    enc_fobject (table_at reads writes table m t) q v = enc_fobject (table_at reads writes table n t) q v"
  using assms(1)
proof (induction m rule: dec_induct)
  case base
  show ?case using assms(2) by simp
next
  case (step m)
  then show ?case using table_le_object [OF table_Suc, of m t q v] by simp
qed

lemma ok_recI:
  assumes "ok_fobject (table_at reads writes table n t) q v" and "n \<le> size v"
  shows "ok_rec reads writes table t q v"
  using table_mono [OF assms(2,1)] by (simp add: ok_rec_def)

lemma rec_codec: "tl_codec (read_rec reads t) (write_rec writes t) (enc_rec reads writes table t) (ok_rec reads writes table t)"
proof
  fix q v b assume "ok_rec reads writes table t q v"
  then show "write_rec writes t (packet q b) v = packet q (b @ enc_rec reads writes table t q v)"
    unfolding ok_rec_def enc_rec_def write_rec_def by (rule tl_codec.writes [OF codec_at])
next
  fix s v r old
  assume ok: "ok_rec reads writes table t (sqt s) v" and av: "avail s = enc_rec reads writes table t (sqt s) v @ r"
  define n where "n = max (size v) (length (avail s))"
  have le: "ok_fobject (table_at reads writes table n t) (sqt s) v"
    "enc_fobject (table_at reads writes table n t) (sqt s) v = enc_rec reads writes table t (sqt s) v"
    using table_mono [OF _ ok [unfolded ok_rec_def], of n] by (simp_all add: n_def enc_rec_def)
  have "read_rec reads t old s = read_at reads n t old s"
    unfolding read_rec_def by (rule read_at_enough) (simp_all add: n_def)
  then show "read_rec reads t old s = (v, advance (length (enc_rec reads writes table t (sqt s) v)) s)"
    using tl_codec.reads [OF codec_at [of n t], of s v r old] le av by simp
next
  fix old s
  show "length (avail (snd (read_rec reads t old s))) \<le> length (avail s)"
    using likeD(2) [OF read_rec_like order_refl] .
qed

end

text \<open>What a group needs to establish its contract case by case.\<close>

lemmas recursion_simps = cases_like_def wcases_like_def table_le_def leaf_likes step_le_vector step_le_direct

end
