(* ===== verification/TlInputPeer.thy ===== *)
theory TlInputPeer
  imports TlSchema2 TlRecursion
begin

section \<open>A recursive type of the API schema: InputPeer\<close>

text \<open>
  \<open>readTLInputPeer\<close> and \<open>writeTLInputPeer\<close> of libkg/tlschema.cpp call themselves: a peer
  known through a message contains the peer of its chat. They are a group of one type, and the interpretation
  of \<open>tl_recursion\<close> gives the equations of the source and the codec contract for objects of every depth.
\<close>

definition input_peer_reads :: "(unit \<Rightarrow> tl_reader) \<Rightarrow> unit \<Rightarrow> step_case list" where
  "input_peer_reads r t =
     [(2134579434, []),
      (2107670217, []),
      (900291769, [rd ''chat_id'' readInt64]),
      (- 571955892, [rd ''user_id'' readInt64, rd ''access_hash'' readInt64]),
      (666680316, [rd ''channel_id'' readInt64, rd ''access_hash'' readInt64]),
      (- 1468331492, [rd ''peer'' (r ()), rd ''msg_id'' readInt32, rd ''user_id'' readInt64]),
      (- 1121318848, [rd ''peer'' (r ()), rd ''msg_id'' readInt32, rd ''channel_id'' readInt64])]"

definition input_peer_writes :: "(unit \<Rightarrow> tl_writer) \<Rightarrow> unit \<Rightarrow> step_case list" where
  "input_peer_writes w t =
     [(2134579434, [wf ''_'' writeInt32]),
      (2107670217, [wf ''_'' writeInt32]),
      (900291769, [wf ''_'' writeInt32, wf ''chat_id'' writeInt64]),
      (- 571955892, [wf ''_'' writeInt32, wf ''user_id'' writeInt64, wf ''access_hash'' writeInt64]),
      (666680316, [wf ''_'' writeInt32, wf ''channel_id'' writeInt64, wf ''access_hash'' writeInt64]),
      (- 1468331492, [wf ''_'' writeInt32, wf ''peer'' (w ()), wf ''msg_id'' writeInt32, wf ''user_id'' writeInt64]),
      (- 1121318848, [wf ''_'' writeInt32, wf ''peer'' (w ()), wf ''msg_id'' writeInt32, wf ''channel_id'' writeInt64])]"

definition input_peer_fields :: "unit group_table" where
  "input_peer_fields r w e k t =
     [(2134579434, []),
      (2107670217, []),
      (900291769, [Plain (''chat_id'', readInt64, writeInt64, enc_int64, is_VLong)]),
      (- 571955892, [Plain (''user_id'', readInt64, writeInt64, enc_int64, is_VLong),
         Plain (''access_hash'', readInt64, writeInt64, enc_int64, is_VLong)]),
      (666680316, [Plain (''channel_id'', readInt64, writeInt64, enc_int64, is_VLong),
         Plain (''access_hash'', readInt64, writeInt64, enc_int64, is_VLong)]),
      (- 1468331492, [Plain (''peer'', r (), w (), e (), k ()), Plain (''msg_id'', readInt32, writeInt32, enc_int32, is_VInt),
         Plain (''user_id'', readInt64, writeInt64, enc_int64, is_VLong)]),
      (- 1121318848, [Plain (''peer'', r (), w (), e (), k ()), Plain (''msg_id'', readInt32, writeInt32, enc_int32, is_VInt),
         Plain (''channel_id'', readInt64, writeInt64, enc_int64, is_VLong)])]"

interpretation input_peer: tl_recursion input_peer_reads input_peer_writes input_peer_fields
proof (rule tl_recursion.intro)
  fix r :: "unit \<Rightarrow> tl_reader" and w e k t assume "\<And>t. tl_codec (r t) (w t) (e t) (k t)"
  then show "tl_codec (read_object (input_peer_reads r t)) (write_fobject (input_peer_writes w t))
      (enc_fobject (input_peer_fields r w e k t)) (ok_fobject (input_peer_fields r w e k t))"
    by (intro flag_schema_codec, unfold input_peer_fields_def, intro flag_tableI)
      (simp_all add: input_peer_reads_def input_peer_writes_def flag_schema_simps)
qed (simp_all add: input_peer_reads_def input_peer_writes_def input_peer_fields_def recursion_simps)

definition readTLInputPeer :: tl_reader where
  "readTLInputPeer = read_rec input_peer_reads ()"

definition writeTLInputPeer :: tl_writer where
  "writeTLInputPeer = write_rec input_peer_writes ()"

definition enc_InputPeer :: "qtenv \<Rightarrow> variant \<Rightarrow> bytes" where
  "enc_InputPeer = enc_rec input_peer_reads input_peer_writes input_peer_fields ()"

definition ok_InputPeer :: "qtenv \<Rightarrow> variant \<Rightarrow> bool" where
  "ok_InputPeer = ok_rec input_peer_reads input_peer_writes input_peer_fields ()"

text \<open>The equations of the source.\<close>

lemma readTLInputPeer_unfold: "readTLInputPeer i s = read_object (input_peer_reads (\<lambda>t. readTLInputPeer) ()) i s"
  using input_peer.read_rec_unfold [of "()" i s] by (simp add: readTLInputPeer_def)

lemma writeTLInputPeer_unfold: "writeTLInputPeer s i = write_fobject (input_peer_writes (\<lambda>t. writeTLInputPeer) ()) s i"
  using input_peer.write_rec_unfold [of "()" s i] by (simp add: writeTLInputPeer_def)

interpretation tl_InputPeer: tl_codec readTLInputPeer writeTLInputPeer enc_InputPeer ok_InputPeer
  unfolding readTLInputPeer_def writeTLInputPeer_def enc_InputPeer_def ok_InputPeer_def by (rule input_peer.rec_codec)

end
