(* ===== verification/TlSchema3.thy ===== *)
theory TlSchema3
  imports TlInputPeer
begin

section \<open>The API schema, types that refer to a peer: libkg/tlschema.cpp\<close>

text \<open>
  The types reached through InputPeer, and the writers of the methods that use them.
\<close>

definition readTLInputUser :: tl_reader where
  "readTLInputUser = read_object
     [(- 1182234929, []),
      (- 138301121, []),
      (- 233744186, [rd ''user_id'' readInt64, rd ''access_hash'' readInt64]),
      (497305826, [rd ''peer'' readTLInputPeer, rd ''msg_id'' readInt32,
         rd ''user_id'' readInt64])]"

definition writeTLInputUser :: tl_writer where
  "writeTLInputUser = write_fobject
     [(- 1182234929, [wf ''_'' writeInt32]),
      (- 138301121, [wf ''_'' writeInt32]),
      (- 233744186, [wf ''_'' writeInt32, wf ''user_id'' writeInt64,
         wf ''access_hash'' writeInt64]),
      (497305826, [wf ''_'' writeInt32, wf ''peer'' writeTLInputPeer, wf ''msg_id'' writeInt32,
         wf ''user_id'' writeInt64])]"

definition TL_InputUser_table :: flag_table where
  "TL_InputUser_table =
     [(- 1182234929, []),
      (- 138301121, []),
      (- 233744186, [Plain (''user_id'', readInt64, writeInt64, enc_int64, is_VLong),
        Plain (''access_hash'', readInt64, writeInt64, enc_int64, is_VLong)]),
      (497305826, [Plain (''peer'', readTLInputPeer, writeTLInputPeer, enc_InputPeer, ok_InputPeer),
        Plain (''msg_id'', readInt32, writeInt32, enc_int32, is_VInt),
        Plain (''user_id'', readInt64, writeInt64, enc_int64, is_VLong)])]"

interpretation tl_InputUser: tl_codec readTLInputUser writeTLInputUser "enc_fobject TL_InputUser_table" "ok_fobject TL_InputUser_table"
  by (rule flag_schema_codec, unfold TL_InputUser_table_def, intro flag_tableI)
    (simp_all add: readTLInputUser_def writeTLInputUser_def flag_schema_simps tl_InputPeer.tl_codec_axioms)

definition readTLInputChannel :: tl_reader where
  "readTLInputChannel = read_object
     [(- 292807034, []),
      (- 212145112, [rd ''channel_id'' readInt64, rd ''access_hash'' readInt64]),
      (1536380829, [rd ''peer'' readTLInputPeer, rd ''msg_id'' readInt32,
         rd ''channel_id'' readInt64])]"

definition writeTLInputChannel :: tl_writer where
  "writeTLInputChannel = write_fobject
     [(- 292807034, [wf ''_'' writeInt32]),
      (- 212145112, [wf ''_'' writeInt32, wf ''channel_id'' writeInt64,
         wf ''access_hash'' writeInt64]),
      (1536380829, [wf ''_'' writeInt32, wf ''peer'' writeTLInputPeer, wf ''msg_id'' writeInt32,
         wf ''channel_id'' writeInt64])]"

definition TL_InputChannel_table :: flag_table where
  "TL_InputChannel_table =
     [(- 292807034, []),
      (- 212145112, [Plain (''channel_id'', readInt64, writeInt64, enc_int64, is_VLong),
        Plain (''access_hash'', readInt64, writeInt64, enc_int64, is_VLong)]),
      (1536380829, [Plain (''peer'', readTLInputPeer, writeTLInputPeer, enc_InputPeer,
         ok_InputPeer),
        Plain (''msg_id'', readInt32, writeInt32, enc_int32, is_VInt),
        Plain (''channel_id'', readInt64, writeInt64, enc_int64, is_VLong)])]"

interpretation tl_InputChannel: tl_codec readTLInputChannel writeTLInputChannel "enc_fobject TL_InputChannel_table" "ok_fobject TL_InputChannel_table"
  by (rule flag_schema_codec, unfold TL_InputChannel_table_def, intro flag_tableI)
    (simp_all add: readTLInputChannel_def writeTLInputChannel_def flag_schema_simps tl_InputPeer.tl_codec_axioms)

definition readTLMessageEntity :: tl_reader where
  "readTLMessageEntity = read_object
     [(- 1148011883, [rd ''offset'' readInt32, rd ''length'' readInt32]),
      (- 100378723, [rd ''offset'' readInt32, rd ''length'' readInt32]),
      (1868782349, [rd ''offset'' readInt32, rd ''length'' readInt32]),
      (1827637959, [rd ''offset'' readInt32, rd ''length'' readInt32]),
      (1859134776, [rd ''offset'' readInt32, rd ''length'' readInt32]),
      (1692693954, [rd ''offset'' readInt32, rd ''length'' readInt32]),
      (- 1117713463, [rd ''offset'' readInt32, rd ''length'' readInt32]),
      (- 2106619040, [rd ''offset'' readInt32, rd ''length'' readInt32]),
      (681706865, [rd ''offset'' readInt32, rd ''length'' readInt32]),
      (1938967520, [rd ''offset'' readInt32, rd ''length'' readInt32, rd ''language'' readString]),
      (1990644519, [rd ''offset'' readInt32, rd ''length'' readInt32, rd ''url'' readString]),
      (- 595914432, [rd ''offset'' readInt32, rd ''length'' readInt32, rd ''user_id'' readInt64]),
      (546203849, [rd ''offset'' readInt32, rd ''length'' readInt32,
         rd ''user_id'' readTLInputUser]),
      (- 1687559349, [rd ''offset'' readInt32, rd ''length'' readInt32]),
      (1280209983, [rd ''offset'' readInt32, rd ''length'' readInt32]),
      (- 1672577397, [rd ''offset'' readInt32, rd ''length'' readInt32]),
      (- 1090087980, [rd ''offset'' readInt32, rd ''length'' readInt32]),
      (1981704948, [rd ''offset'' readInt32, rd ''length'' readInt32]),
      (852137487, [rd ''offset'' readInt32, rd ''length'' readInt32]),
      (- 925956616, [rd ''offset'' readInt32, rd ''length'' readInt32,
         rd ''document_id'' readInt64]),
      (- 238245204, [rd ''flags'' readUInt32, set_if ''flags'' 0 ''collapsed'',
         rd ''offset'' readInt32, rd ''length'' readInt32]),
      (- 1874147385, [rd ''flags'' readUInt32, set_if ''flags'' 0 ''relative'',
         set_if ''flags'' 1 ''short_time'', set_if ''flags'' 2 ''long_time'',
         set_if ''flags'' 3 ''short_date'', set_if ''flags'' 4 ''long_date'',
         set_if ''flags'' 5 ''day_of_week'', rd ''offset'' readInt32, rd ''length'' readInt32,
         rd ''date'' readInt32]),
      (1903653142, [rd ''offset'' readInt32, rd ''length'' readInt32]),
      (- 960371289, [rd ''offset'' readInt32, rd ''length'' readInt32, rd ''old_text'' readString]),
      (106086853, [rd ''offset'' readInt32, rd ''length'' readInt32])]"

definition writeTLMessageEntity :: tl_writer where
  "writeTLMessageEntity = write_fobject
     [(- 1148011883, [wf ''_'' writeInt32, wf ''offset'' writeInt32, wf ''length'' writeInt32]),
      (- 100378723, [wf ''_'' writeInt32, wf ''offset'' writeInt32, wf ''length'' writeInt32]),
      (1868782349, [wf ''_'' writeInt32, wf ''offset'' writeInt32, wf ''length'' writeInt32]),
      (1827637959, [wf ''_'' writeInt32, wf ''offset'' writeInt32, wf ''length'' writeInt32]),
      (1859134776, [wf ''_'' writeInt32, wf ''offset'' writeInt32, wf ''length'' writeInt32]),
      (1692693954, [wf ''_'' writeInt32, wf ''offset'' writeInt32, wf ''length'' writeInt32]),
      (- 1117713463, [wf ''_'' writeInt32, wf ''offset'' writeInt32, wf ''length'' writeInt32]),
      (- 2106619040, [wf ''_'' writeInt32, wf ''offset'' writeInt32, wf ''length'' writeInt32]),
      (681706865, [wf ''_'' writeInt32, wf ''offset'' writeInt32, wf ''length'' writeInt32]),
      (1938967520, [wf ''_'' writeInt32, wf ''offset'' writeInt32, wf ''length'' writeInt32,
         wf ''language'' writeString]),
      (1990644519, [wf ''_'' writeInt32, wf ''offset'' writeInt32, wf ''length'' writeInt32,
         wf ''url'' writeString]),
      (- 595914432, [wf ''_'' writeInt32, wf ''offset'' writeInt32, wf ''length'' writeInt32,
         wf ''user_id'' writeInt64]),
      (546203849, [wf ''_'' writeInt32, wf ''offset'' writeInt32, wf ''length'' writeInt32,
         wf ''user_id'' writeTLInputUser]),
      (- 1687559349, [wf ''_'' writeInt32, wf ''offset'' writeInt32, wf ''length'' writeInt32]),
      (1280209983, [wf ''_'' writeInt32, wf ''offset'' writeInt32, wf ''length'' writeInt32]),
      (- 1672577397, [wf ''_'' writeInt32, wf ''offset'' writeInt32, wf ''length'' writeInt32]),
      (- 1090087980, [wf ''_'' writeInt32, wf ''offset'' writeInt32, wf ''length'' writeInt32]),
      (1981704948, [wf ''_'' writeInt32, wf ''offset'' writeInt32, wf ''length'' writeInt32]),
      (852137487, [wf ''_'' writeInt32, wf ''offset'' writeInt32, wf ''length'' writeInt32]),
      (- 925956616, [wf ''_'' writeInt32, wf ''offset'' writeInt32, wf ''length'' writeInt32,
         wf ''document_id'' writeInt64]),
      (- 238245204, [wf ''_'' writeInt32, wf_flags ''flags'' [(''collapsed'', 0)],
         wf ''offset'' writeInt32, wf ''length'' writeInt32]),
      (- 1874147385, [wf ''_'' writeInt32, wf_flags ''flags'' [(''relative'', 0), (''short_time'',
         1), (''long_time'', 2), (''short_date'', 3), (''long_date'', 4), (''day_of_week'', 5)],
         wf ''offset'' writeInt32, wf ''length'' writeInt32, wf ''date'' writeInt32]),
      (1903653142, [wf ''_'' writeInt32, wf ''offset'' writeInt32, wf ''length'' writeInt32]),
      (- 960371289, [wf ''_'' writeInt32, wf ''offset'' writeInt32, wf ''length'' writeInt32,
         wf ''old_text'' writeString]),
      (106086853, [wf ''_'' writeInt32, wf ''offset'' writeInt32, wf ''length'' writeInt32])]"

definition TL_MessageEntity_table :: flag_table where
  "TL_MessageEntity_table =
     [(- 1148011883, [Plain (''offset'', readInt32, writeInt32, enc_int32, is_VInt),
        Plain (''length'', readInt32, writeInt32, enc_int32, is_VInt)]),
      (- 100378723, [Plain (''offset'', readInt32, writeInt32, enc_int32, is_VInt),
        Plain (''length'', readInt32, writeInt32, enc_int32, is_VInt)]),
      (1868782349, [Plain (''offset'', readInt32, writeInt32, enc_int32, is_VInt),
        Plain (''length'', readInt32, writeInt32, enc_int32, is_VInt)]),
      (1827637959, [Plain (''offset'', readInt32, writeInt32, enc_int32, is_VInt),
        Plain (''length'', readInt32, writeInt32, enc_int32, is_VInt)]),
      (1859134776, [Plain (''offset'', readInt32, writeInt32, enc_int32, is_VInt),
        Plain (''length'', readInt32, writeInt32, enc_int32, is_VInt)]),
      (1692693954, [Plain (''offset'', readInt32, writeInt32, enc_int32, is_VInt),
        Plain (''length'', readInt32, writeInt32, enc_int32, is_VInt)]),
      (- 1117713463, [Plain (''offset'', readInt32, writeInt32, enc_int32, is_VInt),
        Plain (''length'', readInt32, writeInt32, enc_int32, is_VInt)]),
      (- 2106619040, [Plain (''offset'', readInt32, writeInt32, enc_int32, is_VInt),
        Plain (''length'', readInt32, writeInt32, enc_int32, is_VInt)]),
      (681706865, [Plain (''offset'', readInt32, writeInt32, enc_int32, is_VInt),
        Plain (''length'', readInt32, writeInt32, enc_int32, is_VInt)]),
      (1938967520, [Plain (''offset'', readInt32, writeInt32, enc_int32, is_VInt),
        Plain (''length'', readInt32, writeInt32, enc_int32, is_VInt),
        Plain (''language'', readString, writeString, enc_string, is_short_text)]),
      (1990644519, [Plain (''offset'', readInt32, writeInt32, enc_int32, is_VInt),
        Plain (''length'', readInt32, writeInt32, enc_int32, is_VInt),
        Plain (''url'', readString, writeString, enc_string, is_short_text)]),
      (- 595914432, [Plain (''offset'', readInt32, writeInt32, enc_int32, is_VInt),
        Plain (''length'', readInt32, writeInt32, enc_int32, is_VInt),
        Plain (''user_id'', readInt64, writeInt64, enc_int64, is_VLong)]),
      (546203849, [Plain (''offset'', readInt32, writeInt32, enc_int32, is_VInt),
        Plain (''length'', readInt32, writeInt32, enc_int32, is_VInt),
        Plain (''user_id'', readTLInputUser, writeTLInputUser, enc_fobject TL_InputUser_table,
         ok_fobject TL_InputUser_table)]),
      (- 1687559349, [Plain (''offset'', readInt32, writeInt32, enc_int32, is_VInt),
        Plain (''length'', readInt32, writeInt32, enc_int32, is_VInt)]),
      (1280209983, [Plain (''offset'', readInt32, writeInt32, enc_int32, is_VInt),
        Plain (''length'', readInt32, writeInt32, enc_int32, is_VInt)]),
      (- 1672577397, [Plain (''offset'', readInt32, writeInt32, enc_int32, is_VInt),
        Plain (''length'', readInt32, writeInt32, enc_int32, is_VInt)]),
      (- 1090087980, [Plain (''offset'', readInt32, writeInt32, enc_int32, is_VInt),
        Plain (''length'', readInt32, writeInt32, enc_int32, is_VInt)]),
      (1981704948, [Plain (''offset'', readInt32, writeInt32, enc_int32, is_VInt),
        Plain (''length'', readInt32, writeInt32, enc_int32, is_VInt)]),
      (852137487, [Plain (''offset'', readInt32, writeInt32, enc_int32, is_VInt),
        Plain (''length'', readInt32, writeInt32, enc_int32, is_VInt)]),
      (- 925956616, [Plain (''offset'', readInt32, writeInt32, enc_int32, is_VInt),
        Plain (''length'', readInt32, writeInt32, enc_int32, is_VInt),
        Plain (''document_id'', readInt64, writeInt64, enc_int64, is_VLong)]),
      (- 238245204, [Flags ''flags'' [(''collapsed'', 0)],
        TrueBit ''flags'' 0 ''collapsed'',
        Plain (''offset'', readInt32, writeInt32, enc_int32, is_VInt),
        Plain (''length'', readInt32, writeInt32, enc_int32, is_VInt)]),
      (- 1874147385, [Flags ''flags'' [(''relative'', 0), (''short_time'', 1), (''long_time'', 2),
         (''short_date'', 3), (''long_date'', 4), (''day_of_week'', 5)],
        TrueBit ''flags'' 0 ''relative'',
        TrueBit ''flags'' 1 ''short_time'',
        TrueBit ''flags'' 2 ''long_time'',
        TrueBit ''flags'' 3 ''short_date'',
        TrueBit ''flags'' 4 ''long_date'',
        TrueBit ''flags'' 5 ''day_of_week'',
        Plain (''offset'', readInt32, writeInt32, enc_int32, is_VInt),
        Plain (''length'', readInt32, writeInt32, enc_int32, is_VInt),
        Plain (''date'', readInt32, writeInt32, enc_int32, is_VInt)]),
      (1903653142, [Plain (''offset'', readInt32, writeInt32, enc_int32, is_VInt),
        Plain (''length'', readInt32, writeInt32, enc_int32, is_VInt)]),
      (- 960371289, [Plain (''offset'', readInt32, writeInt32, enc_int32, is_VInt),
        Plain (''length'', readInt32, writeInt32, enc_int32, is_VInt),
        Plain (''old_text'', readString, writeString, enc_string, is_short_text)]),
      (106086853, [Plain (''offset'', readInt32, writeInt32, enc_int32, is_VInt),
        Plain (''length'', readInt32, writeInt32, enc_int32, is_VInt)])]"

interpretation tl_MessageEntity: tl_codec readTLMessageEntity writeTLMessageEntity "enc_fobject TL_MessageEntity_table" "ok_fobject TL_MessageEntity_table"
  by (rule flag_schema_codec, unfold TL_MessageEntity_table_def, intro flag_tableI)
    (simp_all add: readTLMessageEntity_def writeTLMessageEntity_def flag_schema_simps tl_InputUser.tl_codec_axioms)

definition readTLHelpTermsOfService :: tl_reader where
  "readTLHelpTermsOfService = read_object
     [(2013922064, [rd ''flags'' readUInt32, set_if ''flags'' 0 ''popup'',
         rd ''id'' readTLDataJSON, rd ''text'' readString,
         rd ''entities'' (readVector (Some readTLMessageEntity)),
         rd_if ''flags'' 1 ''min_age_confirm'' readInt32])]"

definition writeTLHelpTermsOfService :: tl_writer where
  "writeTLHelpTermsOfService = write_fobject
     [(2013922064, [wf ''_'' writeInt32, wf_flags ''flags'' [(''popup'', 0), (''min_age_confirm'',
         1)], wf ''id'' writeTLDataJSON, wf ''text'' writeString,
         wf ''entities'' (writeVector (Some writeTLMessageEntity)),
         wf_if ''flags'' 1 ''min_age_confirm'' writeInt32])]"

definition TL_HelpTermsOfService_table :: flag_table where
  "TL_HelpTermsOfService_table =
     [(2013922064, [Flags ''flags'' [(''popup'', 0), (''min_age_confirm'', 1)],
        TrueBit ''flags'' 0 ''popup'',
        Plain (''id'', readTLDataJSON, writeTLDataJSON, enc_fobject TL_DataJSON_table,
         ok_fobject TL_DataJSON_table),
        Plain (''text'', readString, writeString, enc_string, is_short_text),
        Plain (''entities'', readVector (Some readTLMessageEntity),
         writeVector (Some writeTLMessageEntity), enc_vector (enc_fobject TL_MessageEntity_table),
         ok_vector (ok_fobject TL_MessageEntity_table)),
        Cond ''flags'' 1 (''min_age_confirm'', readInt32, writeInt32, enc_int32, is_VInt)])]"

interpretation tl_HelpTermsOfService: tl_codec readTLHelpTermsOfService writeTLHelpTermsOfService "enc_fobject TL_HelpTermsOfService_table" "ok_fobject TL_HelpTermsOfService_table"
  by (rule flag_schema_codec, unfold TL_HelpTermsOfService_table_def, intro flag_tableI)
    (simp_all add: readTLHelpTermsOfService_def writeTLHelpTermsOfService_def flag_schema_simps tl_DataJSON.tl_codec_axioms tl_DataJSON.vector_codec tl_MessageEntity.tl_codec_axioms tl_MessageEntity.vector_codec)

definition readTLAuthAuthorization :: tl_reader where
  "readTLAuthAuthorization = read_object
     [(782418132, [rd ''flags'' readUInt32, set_if ''flags'' 1 ''setup_password_required'',
         rd_if ''flags'' 1 ''otherwise_relogin_days'' readInt32,
         rd_if ''flags'' 0 ''tmp_sessions'' readInt32,
         rd_if ''flags'' 2 ''future_auth_token'' readByteArray, rd ''user'' readTLUser]),
      (1148485274, [rd ''flags'' readUInt32,
         rd_if ''flags'' 0 ''terms_of_service'' readTLHelpTermsOfService])]"

definition writeTLAuthAuthorization :: tl_writer where
  "writeTLAuthAuthorization = write_fobject
     [(782418132, [wf ''_'' writeInt32, wf_flags ''flags'' [(''setup_password_required'', 1),
         (''otherwise_relogin_days'', 1), (''tmp_sessions'', 0), (''future_auth_token'', 2)],
         wf_if ''flags'' 1 ''otherwise_relogin_days'' writeInt32,
         wf_if ''flags'' 0 ''tmp_sessions'' writeInt32,
         wf_if ''flags'' 2 ''future_auth_token'' writeByteArray, wf ''user'' writeTLUser]),
      (1148485274, [wf ''_'' writeInt32, wf_flags ''flags'' [(''terms_of_service'', 0)],
         wf_if ''flags'' 0 ''terms_of_service'' writeTLHelpTermsOfService])]"

definition TL_AuthAuthorization_table :: flag_table where
  "TL_AuthAuthorization_table =
     [(782418132, [Flags ''flags'' [(''setup_password_required'', 1), (''otherwise_relogin_days'',
         1), (''tmp_sessions'', 0), (''future_auth_token'', 2)],
        TrueBit ''flags'' 1 ''setup_password_required'',
        Cond ''flags'' 1 (''otherwise_relogin_days'', readInt32, writeInt32, enc_int32, is_VInt),
        Cond ''flags'' 0 (''tmp_sessions'', readInt32, writeInt32, enc_int32, is_VInt),
        Cond ''flags'' 2 (''future_auth_token'', readByteArray, writeByteArray, enc_bytes,
         is_short_bytes),
        Plain (''user'', readTLUser, writeTLUser, enc_fobject TL_User_table,
         ok_fobject TL_User_table)]),
      (1148485274, [Flags ''flags'' [(''terms_of_service'', 0)],
        Cond ''flags'' 0 (''terms_of_service'', readTLHelpTermsOfService,
         writeTLHelpTermsOfService, enc_fobject TL_HelpTermsOfService_table,
         ok_fobject TL_HelpTermsOfService_table)])]"

interpretation tl_AuthAuthorization: tl_codec readTLAuthAuthorization writeTLAuthAuthorization "enc_fobject TL_AuthAuthorization_table" "ok_fobject TL_AuthAuthorization_table"
  by (rule flag_schema_codec, unfold TL_AuthAuthorization_table_def, intro flag_tableI)
    (simp_all add: readTLAuthAuthorization_def writeTLAuthAuthorization_def flag_schema_simps tl_User.tl_codec_axioms tl_HelpTermsOfService.tl_codec_axioms)

definition readTLChat :: tl_reader where
  "readTLChat = read_object
     [(693512293, [rd ''id'' readInt64]),
      (1103884886, [rd ''flags'' readUInt32, set_if ''flags'' 0 ''creator'',
         set_if ''flags'' 2 ''left'', set_if ''flags'' 5 ''deactivated'',
         set_if ''flags'' 23 ''call_active'', set_if ''flags'' 24 ''call_not_empty'',
         set_if ''flags'' 25 ''noforwards'', rd ''id'' readInt64, rd ''title'' readString,
         rd ''photo'' readTLChatPhoto, rd ''participants_count'' readInt32, rd ''date'' readInt32,
         rd ''version'' readInt32, rd_if ''flags'' 6 ''migrated_to'' readTLInputChannel,
         rd_if ''flags'' 14 ''admin_rights'' readTLChatAdminRights,
         rd_if ''flags'' 18 ''default_banned_rights'' readTLChatBannedRights]),
      (1704108455, [rd ''id'' readInt64, rd ''title'' readString]),
      (- 727763770, [rd ''flags'' readUInt32, set_if ''flags'' 0 ''creator'',
         set_if ''flags'' 2 ''left'', set_if ''flags'' 5 ''broadcast'',
         set_if ''flags'' 7 ''verified'', set_if ''flags'' 8 ''megagroup'',
         set_if ''flags'' 9 ''restricted'', set_if ''flags'' 11 ''signatures'',
         set_if ''flags'' 12 ''min'', set_if ''flags'' 19 ''scam'',
         set_if ''flags'' 20 ''has_link'', set_if ''flags'' 21 ''has_geo'',
         set_if ''flags'' 22 ''slowmode_enabled'', set_if ''flags'' 23 ''call_active'',
         set_if ''flags'' 24 ''call_not_empty'', set_if ''flags'' 25 ''fake'',
         set_if ''flags'' 26 ''gigagroup'', set_if ''flags'' 27 ''noforwards'',
         set_if ''flags'' 28 ''join_to_send'', set_if ''flags'' 29 ''join_request'',
         set_if ''flags'' 30 ''forum'', rd ''flags2'' readUInt32,
         set_if ''flags2'' 1 ''stories_hidden'', set_if ''flags2'' 2 ''stories_hidden_min'',
         set_if ''flags2'' 3 ''stories_unavailable'', set_if ''flags2'' 12 ''signature_profiles'',
         set_if ''flags2'' 15 ''autotranslation'',
         set_if ''flags2'' 16 ''broadcast_messages_allowed'', set_if ''flags2'' 17 ''monoforum'',
         set_if ''flags2'' 19 ''forum_tabs'', rd ''id'' readInt64,
         rd_if ''flags'' 13 ''access_hash'' readInt64, rd ''title'' readString,
         rd_if ''flags'' 6 ''username'' readString, rd ''photo'' readTLChatPhoto,
         rd ''date'' readInt32,
         rd_if ''flags'' 9 ''restriction_reason'' (readVector (Some readTLRestrictionReason)),
         rd_if ''flags'' 14 ''admin_rights'' readTLChatAdminRights,
         rd_if ''flags'' 15 ''banned_rights'' readTLChatBannedRights,
         rd_if ''flags'' 18 ''default_banned_rights'' readTLChatBannedRights,
         rd_if ''flags'' 17 ''participants_count'' readInt32,
         rd_if ''flags2'' 0 ''usernames'' (readVector (Some readTLUsername)),
         rd_if ''flags2'' 4 ''stories_max_id'' readTLRecentStory,
         rd_if ''flags2'' 7 ''color'' readTLPeerColor,
         rd_if ''flags2'' 8 ''profile_color'' readTLPeerColor,
         rd_if ''flags2'' 9 ''emoji_status'' readTLEmojiStatus,
         rd_if ''flags2'' 10 ''level'' readInt32,
         rd_if ''flags2'' 11 ''subscription_until_date'' readInt32,
         rd_if ''flags2'' 13 ''bot_verification_icon'' readInt64,
         rd_if ''flags2'' 14 ''send_paid_messages_stars'' readInt64,
         rd_if ''flags2'' 18 ''linked_monoforum_id'' readInt64,
         rd_if ''flags2'' 20 ''linked_community_id'' readInt64]),
      (399807445, [rd ''flags'' readUInt32, set_if ''flags'' 5 ''broadcast'',
         set_if ''flags'' 8 ''megagroup'', set_if ''flags'' 10 ''monoforum'', rd ''id'' readInt64,
         rd ''access_hash'' readInt64, rd ''title'' readString,
         rd_if ''flags'' 16 ''until_date'' readInt32]),
      (- 46343496, [rd ''flags'' readUInt32, rd ''id'' readInt64,
         rd_if ''flags'' 13 ''access_hash'' readInt64, rd ''title'' readString]),
      (1710221652, [rd ''flags'' readUInt32, set_if ''flags'' 0 ''creator'',
         set_if ''flags'' 2 ''left'', set_if ''flags'' 12 ''min'', rd ''flags2'' readUInt32,
         set_if ''flags2'' 20 ''collapsed_in_dialogs'', rd ''id'' readInt64,
         rd_if ''flags'' 13 ''access_hash'' readInt64, rd ''title'' readString,
         rd ''photo'' readTLChatPhoto, rd ''date'' readInt32,
         rd_if ''flags'' 14 ''admin_rights'' readTLChatAdminRights,
         rd_if ''flags'' 18 ''default_banned_rights'' readTLChatBannedRights])]"

definition writeTLChat :: tl_writer where
  "writeTLChat = write_fobject
     [(693512293, [wf ''_'' writeInt32, wf ''id'' writeInt64]),
      (1103884886, [wf ''_'' writeInt32, wf_flags ''flags'' [(''creator'', 0), (''left'', 2),
         (''deactivated'', 5), (''call_active'', 23), (''call_not_empty'', 24), (''noforwards'',
         25), (''migrated_to'', 6), (''admin_rights'', 14), (''default_banned_rights'', 18)],
         wf ''id'' writeInt64, wf ''title'' writeString, wf ''photo'' writeTLChatPhoto,
         wf ''participants_count'' writeInt32, wf ''date'' writeInt32, wf ''version'' writeInt32,
         wf_if ''flags'' 6 ''migrated_to'' writeTLInputChannel,
         wf_if ''flags'' 14 ''admin_rights'' writeTLChatAdminRights,
         wf_if ''flags'' 18 ''default_banned_rights'' writeTLChatBannedRights]),
      (1704108455, [wf ''_'' writeInt32, wf ''id'' writeInt64, wf ''title'' writeString]),
      (- 727763770, [wf ''_'' writeInt32, wf_flags ''flags'' [(''creator'', 0), (''left'', 2),
         (''broadcast'', 5), (''verified'', 7), (''megagroup'', 8), (''restricted'', 9),
         (''signatures'', 11), (''min'', 12), (''scam'', 19), (''has_link'', 20), (''has_geo'',
         21), (''slowmode_enabled'', 22), (''call_active'', 23), (''call_not_empty'', 24),
         (''fake'', 25), (''gigagroup'', 26), (''noforwards'', 27), (''join_to_send'', 28),
         (''join_request'', 29), (''forum'', 30), (''access_hash'', 13), (''username'', 6),
         (''restriction_reason'', 9), (''admin_rights'', 14), (''banned_rights'', 15),
         (''default_banned_rights'', 18), (''participants_count'', 17)],
         wf_flags ''flags2'' [(''stories_hidden'', 1), (''stories_hidden_min'', 2),
         (''stories_unavailable'', 3), (''signature_profiles'', 12), (''autotranslation'', 15),
         (''broadcast_messages_allowed'', 16), (''monoforum'', 17), (''forum_tabs'', 19),
         (''usernames'', 0), (''stories_max_id'', 4), (''color'', 7), (''profile_color'', 8),
         (''emoji_status'', 9), (''level'', 10), (''subscription_until_date'', 11),
         (''bot_verification_icon'', 13), (''send_paid_messages_stars'', 14),
         (''linked_monoforum_id'', 18), (''linked_community_id'', 20)], wf ''id'' writeInt64,
         wf_if ''flags'' 13 ''access_hash'' writeInt64, wf ''title'' writeString,
         wf_if ''flags'' 6 ''username'' writeString, wf ''photo'' writeTLChatPhoto,
         wf ''date'' writeInt32,
         wf_if ''flags'' 9 ''restriction_reason'' (writeVector (Some writeTLRestrictionReason)),
         wf_if ''flags'' 14 ''admin_rights'' writeTLChatAdminRights,
         wf_if ''flags'' 15 ''banned_rights'' writeTLChatBannedRights,
         wf_if ''flags'' 18 ''default_banned_rights'' writeTLChatBannedRights,
         wf_if ''flags'' 17 ''participants_count'' writeInt32,
         wf_if ''flags2'' 0 ''usernames'' (writeVector (Some writeTLUsername)),
         wf_if ''flags2'' 4 ''stories_max_id'' writeTLRecentStory,
         wf_if ''flags2'' 7 ''color'' writeTLPeerColor,
         wf_if ''flags2'' 8 ''profile_color'' writeTLPeerColor,
         wf_if ''flags2'' 9 ''emoji_status'' writeTLEmojiStatus,
         wf_if ''flags2'' 10 ''level'' writeInt32,
         wf_if ''flags2'' 11 ''subscription_until_date'' writeInt32,
         wf_if ''flags2'' 13 ''bot_verification_icon'' writeInt64,
         wf_if ''flags2'' 14 ''send_paid_messages_stars'' writeInt64,
         wf_if ''flags2'' 18 ''linked_monoforum_id'' writeInt64,
         wf_if ''flags2'' 20 ''linked_community_id'' writeInt64]),
      (399807445, [wf ''_'' writeInt32, wf_flags ''flags'' [(''broadcast'', 5), (''megagroup'', 8),
         (''monoforum'', 10), (''until_date'', 16)], wf ''id'' writeInt64,
         wf ''access_hash'' writeInt64, wf ''title'' writeString,
         wf_if ''flags'' 16 ''until_date'' writeInt32]),
      (- 46343496, [wf ''_'' writeInt32, wf_flags ''flags'' [(''access_hash'', 13)],
         wf ''id'' writeInt64, wf_if ''flags'' 13 ''access_hash'' writeInt64,
         wf ''title'' writeString]),
      (1710221652, [wf ''_'' writeInt32, wf_flags ''flags'' [(''creator'', 0), (''left'', 2),
         (''min'', 12), (''access_hash'', 13), (''admin_rights'', 14), (''default_banned_rights'',
         18)], wf_flags ''flags2'' [(''collapsed_in_dialogs'', 20)], wf ''id'' writeInt64,
         wf_if ''flags'' 13 ''access_hash'' writeInt64, wf ''title'' writeString,
         wf ''photo'' writeTLChatPhoto, wf ''date'' writeInt32,
         wf_if ''flags'' 14 ''admin_rights'' writeTLChatAdminRights,
         wf_if ''flags'' 18 ''default_banned_rights'' writeTLChatBannedRights])]"

definition TL_Chat_table :: flag_table where
  "TL_Chat_table =
     [(693512293, [Plain (''id'', readInt64, writeInt64, enc_int64, is_VLong)]),
      (1103884886, [Flags ''flags'' [(''creator'', 0), (''left'', 2), (''deactivated'', 5),
         (''call_active'', 23), (''call_not_empty'', 24), (''noforwards'', 25), (''migrated_to'',
         6), (''admin_rights'', 14), (''default_banned_rights'', 18)],
        TrueBit ''flags'' 0 ''creator'',
        TrueBit ''flags'' 2 ''left'',
        TrueBit ''flags'' 5 ''deactivated'',
        TrueBit ''flags'' 23 ''call_active'',
        TrueBit ''flags'' 24 ''call_not_empty'',
        TrueBit ''flags'' 25 ''noforwards'',
        Plain (''id'', readInt64, writeInt64, enc_int64, is_VLong),
        Plain (''title'', readString, writeString, enc_string, is_short_text),
        Plain (''photo'', readTLChatPhoto, writeTLChatPhoto, enc_fobject TL_ChatPhoto_table,
         ok_fobject TL_ChatPhoto_table),
        Plain (''participants_count'', readInt32, writeInt32, enc_int32, is_VInt),
        Plain (''date'', readInt32, writeInt32, enc_int32, is_VInt),
        Plain (''version'', readInt32, writeInt32, enc_int32, is_VInt),
        Cond ''flags'' 6 (''migrated_to'', readTLInputChannel, writeTLInputChannel,
         enc_fobject TL_InputChannel_table, ok_fobject TL_InputChannel_table),
        Cond ''flags'' 14 (''admin_rights'', readTLChatAdminRights, writeTLChatAdminRights,
         enc_fobject TL_ChatAdminRights_table, ok_fobject TL_ChatAdminRights_table),
        Cond ''flags'' 18 (''default_banned_rights'', readTLChatBannedRights,
         writeTLChatBannedRights, enc_fobject TL_ChatBannedRights_table,
         ok_fobject TL_ChatBannedRights_table)]),
      (1704108455, [Plain (''id'', readInt64, writeInt64, enc_int64, is_VLong),
        Plain (''title'', readString, writeString, enc_string, is_short_text)]),
      (- 727763770, [Flags ''flags'' [(''creator'', 0), (''left'', 2), (''broadcast'', 5),
         (''verified'', 7), (''megagroup'', 8), (''restricted'', 9), (''signatures'', 11),
         (''min'', 12), (''scam'', 19), (''has_link'', 20), (''has_geo'', 21),
         (''slowmode_enabled'', 22), (''call_active'', 23), (''call_not_empty'', 24), (''fake'',
         25), (''gigagroup'', 26), (''noforwards'', 27), (''join_to_send'', 28), (''join_request'',
         29), (''forum'', 30), (''access_hash'', 13), (''username'', 6), (''restriction_reason'',
         9), (''admin_rights'', 14), (''banned_rights'', 15), (''default_banned_rights'', 18),
         (''participants_count'', 17)],
        TrueBit ''flags'' 0 ''creator'',
        TrueBit ''flags'' 2 ''left'',
        TrueBit ''flags'' 5 ''broadcast'',
        TrueBit ''flags'' 7 ''verified'',
        TrueBit ''flags'' 8 ''megagroup'',
        TrueBit ''flags'' 9 ''restricted'',
        TrueBit ''flags'' 11 ''signatures'',
        TrueBit ''flags'' 12 ''min'',
        TrueBit ''flags'' 19 ''scam'',
        TrueBit ''flags'' 20 ''has_link'',
        TrueBit ''flags'' 21 ''has_geo'',
        TrueBit ''flags'' 22 ''slowmode_enabled'',
        TrueBit ''flags'' 23 ''call_active'',
        TrueBit ''flags'' 24 ''call_not_empty'',
        TrueBit ''flags'' 25 ''fake'',
        TrueBit ''flags'' 26 ''gigagroup'',
        TrueBit ''flags'' 27 ''noforwards'',
        TrueBit ''flags'' 28 ''join_to_send'',
        TrueBit ''flags'' 29 ''join_request'',
        TrueBit ''flags'' 30 ''forum'',
        Flags ''flags2'' [(''stories_hidden'', 1), (''stories_hidden_min'', 2),
         (''stories_unavailable'', 3), (''signature_profiles'', 12), (''autotranslation'', 15),
         (''broadcast_messages_allowed'', 16), (''monoforum'', 17), (''forum_tabs'', 19),
         (''usernames'', 0), (''stories_max_id'', 4), (''color'', 7), (''profile_color'', 8),
         (''emoji_status'', 9), (''level'', 10), (''subscription_until_date'', 11),
         (''bot_verification_icon'', 13), (''send_paid_messages_stars'', 14),
         (''linked_monoforum_id'', 18), (''linked_community_id'', 20)],
        TrueBit ''flags2'' 1 ''stories_hidden'',
        TrueBit ''flags2'' 2 ''stories_hidden_min'',
        TrueBit ''flags2'' 3 ''stories_unavailable'',
        TrueBit ''flags2'' 12 ''signature_profiles'',
        TrueBit ''flags2'' 15 ''autotranslation'',
        TrueBit ''flags2'' 16 ''broadcast_messages_allowed'',
        TrueBit ''flags2'' 17 ''monoforum'',
        TrueBit ''flags2'' 19 ''forum_tabs'',
        Plain (''id'', readInt64, writeInt64, enc_int64, is_VLong),
        Cond ''flags'' 13 (''access_hash'', readInt64, writeInt64, enc_int64, is_VLong),
        Plain (''title'', readString, writeString, enc_string, is_short_text),
        Cond ''flags'' 6 (''username'', readString, writeString, enc_string, is_short_text),
        Plain (''photo'', readTLChatPhoto, writeTLChatPhoto, enc_fobject TL_ChatPhoto_table,
         ok_fobject TL_ChatPhoto_table),
        Plain (''date'', readInt32, writeInt32, enc_int32, is_VInt),
        Cond ''flags'' 9 (''restriction_reason'', readVector (Some readTLRestrictionReason),
         writeVector (Some writeTLRestrictionReason),
         enc_vector (enc_fobject TL_RestrictionReason_table),
         ok_vector (ok_fobject TL_RestrictionReason_table)),
        Cond ''flags'' 14 (''admin_rights'', readTLChatAdminRights, writeTLChatAdminRights,
         enc_fobject TL_ChatAdminRights_table, ok_fobject TL_ChatAdminRights_table),
        Cond ''flags'' 15 (''banned_rights'', readTLChatBannedRights, writeTLChatBannedRights,
         enc_fobject TL_ChatBannedRights_table, ok_fobject TL_ChatBannedRights_table),
        Cond ''flags'' 18 (''default_banned_rights'', readTLChatBannedRights,
         writeTLChatBannedRights, enc_fobject TL_ChatBannedRights_table,
         ok_fobject TL_ChatBannedRights_table),
        Cond ''flags'' 17 (''participants_count'', readInt32, writeInt32, enc_int32, is_VInt),
        Cond ''flags2'' 0 (''usernames'', readVector (Some readTLUsername),
         writeVector (Some writeTLUsername), enc_vector (enc_fobject TL_Username_table),
         ok_vector (ok_fobject TL_Username_table)),
        Cond ''flags2'' 4 (''stories_max_id'', readTLRecentStory, writeTLRecentStory,
         enc_fobject TL_RecentStory_table, ok_fobject TL_RecentStory_table),
        Cond ''flags2'' 7 (''color'', readTLPeerColor, writeTLPeerColor,
         enc_fobject TL_PeerColor_table, ok_fobject TL_PeerColor_table),
        Cond ''flags2'' 8 (''profile_color'', readTLPeerColor, writeTLPeerColor,
         enc_fobject TL_PeerColor_table, ok_fobject TL_PeerColor_table),
        Cond ''flags2'' 9 (''emoji_status'', readTLEmojiStatus, writeTLEmojiStatus,
         enc_fobject TL_EmojiStatus_table, ok_fobject TL_EmojiStatus_table),
        Cond ''flags2'' 10 (''level'', readInt32, writeInt32, enc_int32, is_VInt),
        Cond ''flags2'' 11 (''subscription_until_date'', readInt32, writeInt32, enc_int32, is_VInt),
        Cond ''flags2'' 13 (''bot_verification_icon'', readInt64, writeInt64, enc_int64, is_VLong),
        Cond ''flags2'' 14 (''send_paid_messages_stars'', readInt64, writeInt64, enc_int64,
         is_VLong),
        Cond ''flags2'' 18 (''linked_monoforum_id'', readInt64, writeInt64, enc_int64, is_VLong),
        Cond ''flags2'' 20 (''linked_community_id'', readInt64, writeInt64, enc_int64, is_VLong)]),
      (399807445, [Flags ''flags'' [(''broadcast'', 5), (''megagroup'', 8), (''monoforum'', 10),
         (''until_date'', 16)],
        TrueBit ''flags'' 5 ''broadcast'',
        TrueBit ''flags'' 8 ''megagroup'',
        TrueBit ''flags'' 10 ''monoforum'',
        Plain (''id'', readInt64, writeInt64, enc_int64, is_VLong),
        Plain (''access_hash'', readInt64, writeInt64, enc_int64, is_VLong),
        Plain (''title'', readString, writeString, enc_string, is_short_text),
        Cond ''flags'' 16 (''until_date'', readInt32, writeInt32, enc_int32, is_VInt)]),
      (- 46343496, [Flags ''flags'' [(''access_hash'', 13)],
        Plain (''id'', readInt64, writeInt64, enc_int64, is_VLong),
        Cond ''flags'' 13 (''access_hash'', readInt64, writeInt64, enc_int64, is_VLong),
        Plain (''title'', readString, writeString, enc_string, is_short_text)]),
      (1710221652, [Flags ''flags'' [(''creator'', 0), (''left'', 2), (''min'', 12),
         (''access_hash'', 13), (''admin_rights'', 14), (''default_banned_rights'', 18)],
        TrueBit ''flags'' 0 ''creator'',
        TrueBit ''flags'' 2 ''left'',
        TrueBit ''flags'' 12 ''min'',
        Flags ''flags2'' [(''collapsed_in_dialogs'', 20)],
        TrueBit ''flags2'' 20 ''collapsed_in_dialogs'',
        Plain (''id'', readInt64, writeInt64, enc_int64, is_VLong),
        Cond ''flags'' 13 (''access_hash'', readInt64, writeInt64, enc_int64, is_VLong),
        Plain (''title'', readString, writeString, enc_string, is_short_text),
        Plain (''photo'', readTLChatPhoto, writeTLChatPhoto, enc_fobject TL_ChatPhoto_table,
         ok_fobject TL_ChatPhoto_table),
        Plain (''date'', readInt32, writeInt32, enc_int32, is_VInt),
        Cond ''flags'' 14 (''admin_rights'', readTLChatAdminRights, writeTLChatAdminRights,
         enc_fobject TL_ChatAdminRights_table, ok_fobject TL_ChatAdminRights_table),
        Cond ''flags'' 18 (''default_banned_rights'', readTLChatBannedRights,
         writeTLChatBannedRights, enc_fobject TL_ChatBannedRights_table,
         ok_fobject TL_ChatBannedRights_table)])]"

interpretation tl_Chat: tl_codec readTLChat writeTLChat "enc_fobject TL_Chat_table" "ok_fobject TL_Chat_table"
  by (rule flag_schema_codec, unfold TL_Chat_table_def, intro flag_tableI)
    (simp_all add: readTLChat_def writeTLChat_def flag_schema_simps tl_ChatPhoto.tl_codec_axioms tl_ChatPhoto.vector_codec tl_InputChannel.tl_codec_axioms tl_InputChannel.vector_codec tl_ChatAdminRights.tl_codec_axioms tl_ChatAdminRights.vector_codec tl_ChatBannedRights.tl_codec_axioms tl_ChatBannedRights.vector_codec tl_RestrictionReason.tl_codec_axioms tl_RestrictionReason.vector_codec tl_Username.tl_codec_axioms tl_Username.vector_codec tl_RecentStory.tl_codec_axioms tl_RecentStory.vector_codec tl_PeerColor.tl_codec_axioms tl_PeerColor.vector_codec tl_EmojiStatus.tl_codec_axioms tl_EmojiStatus.vector_codec)

definition readTLInputFileLocation :: tl_reader where
  "readTLInputFileLocation = read_object
     [(- 539317279, [rd ''volume_id'' readInt64, rd ''local_id'' readInt32,
         rd ''secret'' readInt64, rd ''file_reference'' readByteArray]),
      (- 182231723, [rd ''id'' readInt64, rd ''access_hash'' readInt64]),
      (- 1160743548, [rd ''id'' readInt64, rd ''access_hash'' readInt64,
         rd ''file_reference'' readByteArray, rd ''thumb_size'' readString]),
      (- 876089816, [rd ''id'' readInt64, rd ''access_hash'' readInt64]),
      (700340377, []),
      (1075322878, [rd ''id'' readInt64, rd ''access_hash'' readInt64,
         rd ''file_reference'' readByteArray, rd ''thumb_size'' readString]),
      (- 667654413, [rd ''id'' readInt64, rd ''access_hash'' readInt64,
         rd ''file_reference'' readByteArray, rd ''volume_id'' readInt64,
         rd ''local_id'' readInt32, rd ''secret'' readInt64]),
      (925204121, [rd ''flags'' readUInt32, set_if ''flags'' 0 ''big'',
         rd ''peer'' readTLInputPeer, rd ''photo_id'' readInt64]),
      (- 1652231205, [rd ''stickerset'' readTLInputStickerSet, rd ''thumb_version'' readInt32]),
      (93890858, [rd ''flags'' readUInt32, rd ''call'' readTLInputGroupCall,
         rd ''time_ms'' readInt64, rd ''scale'' readInt32,
         rd_if ''flags'' 0 ''video_channel'' readInt32,
         rd_if ''flags'' 0 ''video_quality'' readInt32])]"

definition writeTLInputFileLocation :: tl_writer where
  "writeTLInputFileLocation = write_fobject
     [(- 539317279, [wf ''_'' writeInt32, wf ''volume_id'' writeInt64, wf ''local_id'' writeInt32,
         wf ''secret'' writeInt64, wf ''file_reference'' writeByteArray]),
      (- 182231723, [wf ''_'' writeInt32, wf ''id'' writeInt64, wf ''access_hash'' writeInt64]),
      (- 1160743548, [wf ''_'' writeInt32, wf ''id'' writeInt64, wf ''access_hash'' writeInt64,
         wf ''file_reference'' writeByteArray, wf ''thumb_size'' writeString]),
      (- 876089816, [wf ''_'' writeInt32, wf ''id'' writeInt64, wf ''access_hash'' writeInt64]),
      (700340377, [wf ''_'' writeInt32]),
      (1075322878, [wf ''_'' writeInt32, wf ''id'' writeInt64, wf ''access_hash'' writeInt64,
         wf ''file_reference'' writeByteArray, wf ''thumb_size'' writeString]),
      (- 667654413, [wf ''_'' writeInt32, wf ''id'' writeInt64, wf ''access_hash'' writeInt64,
         wf ''file_reference'' writeByteArray, wf ''volume_id'' writeInt64,
         wf ''local_id'' writeInt32, wf ''secret'' writeInt64]),
      (925204121, [wf ''_'' writeInt32, wf_flags ''flags'' [(''big'', 0)],
         wf ''peer'' writeTLInputPeer, wf ''photo_id'' writeInt64]),
      (- 1652231205, [wf ''_'' writeInt32, wf ''stickerset'' writeTLInputStickerSet,
         wf ''thumb_version'' writeInt32]),
      (93890858, [wf ''_'' writeInt32, wf_flags ''flags'' [(''video_channel'', 0),
         (''video_quality'', 0)], wf ''call'' writeTLInputGroupCall, wf ''time_ms'' writeInt64,
         wf ''scale'' writeInt32, wf_if ''flags'' 0 ''video_channel'' writeInt32,
         wf_if ''flags'' 0 ''video_quality'' writeInt32])]"

definition TL_InputFileLocation_table :: flag_table where
  "TL_InputFileLocation_table =
     [(- 539317279, [Plain (''volume_id'', readInt64, writeInt64, enc_int64, is_VLong),
        Plain (''local_id'', readInt32, writeInt32, enc_int32, is_VInt),
        Plain (''secret'', readInt64, writeInt64, enc_int64, is_VLong),
        Plain (''file_reference'', readByteArray, writeByteArray, enc_bytes, is_short_bytes)]),
      (- 182231723, [Plain (''id'', readInt64, writeInt64, enc_int64, is_VLong),
        Plain (''access_hash'', readInt64, writeInt64, enc_int64, is_VLong)]),
      (- 1160743548, [Plain (''id'', readInt64, writeInt64, enc_int64, is_VLong),
        Plain (''access_hash'', readInt64, writeInt64, enc_int64, is_VLong),
        Plain (''file_reference'', readByteArray, writeByteArray, enc_bytes, is_short_bytes),
        Plain (''thumb_size'', readString, writeString, enc_string, is_short_text)]),
      (- 876089816, [Plain (''id'', readInt64, writeInt64, enc_int64, is_VLong),
        Plain (''access_hash'', readInt64, writeInt64, enc_int64, is_VLong)]),
      (700340377, []),
      (1075322878, [Plain (''id'', readInt64, writeInt64, enc_int64, is_VLong),
        Plain (''access_hash'', readInt64, writeInt64, enc_int64, is_VLong),
        Plain (''file_reference'', readByteArray, writeByteArray, enc_bytes, is_short_bytes),
        Plain (''thumb_size'', readString, writeString, enc_string, is_short_text)]),
      (- 667654413, [Plain (''id'', readInt64, writeInt64, enc_int64, is_VLong),
        Plain (''access_hash'', readInt64, writeInt64, enc_int64, is_VLong),
        Plain (''file_reference'', readByteArray, writeByteArray, enc_bytes, is_short_bytes),
        Plain (''volume_id'', readInt64, writeInt64, enc_int64, is_VLong),
        Plain (''local_id'', readInt32, writeInt32, enc_int32, is_VInt),
        Plain (''secret'', readInt64, writeInt64, enc_int64, is_VLong)]),
      (925204121, [Flags ''flags'' [(''big'', 0)],
        TrueBit ''flags'' 0 ''big'',
        Plain (''peer'', readTLInputPeer, writeTLInputPeer, enc_InputPeer, ok_InputPeer),
        Plain (''photo_id'', readInt64, writeInt64, enc_int64, is_VLong)]),
      (- 1652231205, [Plain (''stickerset'', readTLInputStickerSet, writeTLInputStickerSet,
         enc_fobject TL_InputStickerSet_table, ok_fobject TL_InputStickerSet_table),
        Plain (''thumb_version'', readInt32, writeInt32, enc_int32, is_VInt)]),
      (93890858, [Flags ''flags'' [(''video_channel'', 0), (''video_quality'', 0)],
        Plain (''call'', readTLInputGroupCall, writeTLInputGroupCall,
         enc_fobject TL_InputGroupCall_table, ok_fobject TL_InputGroupCall_table),
        Plain (''time_ms'', readInt64, writeInt64, enc_int64, is_VLong),
        Plain (''scale'', readInt32, writeInt32, enc_int32, is_VInt),
        Cond ''flags'' 0 (''video_channel'', readInt32, writeInt32, enc_int32, is_VInt),
        Cond ''flags'' 0 (''video_quality'', readInt32, writeInt32, enc_int32, is_VInt)])]"

interpretation tl_InputFileLocation: tl_codec readTLInputFileLocation writeTLInputFileLocation "enc_fobject TL_InputFileLocation_table" "ok_fobject TL_InputFileLocation_table"
  by (rule flag_schema_codec, unfold TL_InputFileLocation_table_def, intro flag_tableI)
    (simp_all add: readTLInputFileLocation_def writeTLInputFileLocation_def flag_schema_simps tl_InputPeer.tl_codec_axioms tl_InputStickerSet.tl_codec_axioms tl_InputGroupCall.tl_codec_axioms)

definition readTLTextWithEntities :: tl_reader where
  "readTLTextWithEntities = read_object
     [(1964978502, [rd ''text'' readString,
         rd ''entities'' (readVector (Some readTLMessageEntity))])]"

definition writeTLTextWithEntities :: tl_writer where
  "writeTLTextWithEntities = write_fobject
     [(1964978502, [wf ''_'' writeInt32, wf ''text'' writeString,
         wf ''entities'' (writeVector (Some writeTLMessageEntity))])]"

definition TL_TextWithEntities_table :: flag_table where
  "TL_TextWithEntities_table =
     [(1964978502, [Plain (''text'', readString, writeString, enc_string, is_short_text),
        Plain (''entities'', readVector (Some readTLMessageEntity),
         writeVector (Some writeTLMessageEntity), enc_vector (enc_fobject TL_MessageEntity_table),
         ok_vector (ok_fobject TL_MessageEntity_table))])]"

interpretation tl_TextWithEntities: tl_codec readTLTextWithEntities writeTLTextWithEntities "enc_fobject TL_TextWithEntities_table" "ok_fobject TL_TextWithEntities_table"
  by (rule flag_schema_codec, unfold TL_TextWithEntities_table_def, intro flag_tableI)
    (simp_all add: readTLTextWithEntities_def writeTLTextWithEntities_def flag_schema_simps tl_MessageEntity.tl_codec_axioms tl_MessageEntity.vector_codec)

definition readTLDialogFilter :: tl_reader where
  "readTLDialogFilter = read_object
     [(- 1438177711, [rd ''flags'' readUInt32, set_if ''flags'' 0 ''contacts'',
         set_if ''flags'' 1 ''non_contacts'', set_if ''flags'' 2 ''groups'',
         set_if ''flags'' 3 ''broadcasts'', set_if ''flags'' 4 ''bots'',
         set_if ''flags'' 11 ''exclude_muted'', set_if ''flags'' 12 ''exclude_read'',
         set_if ''flags'' 13 ''exclude_archived'', set_if ''flags'' 28 ''title_noanimate'',
         rd ''id'' readInt32, rd ''title'' readTLTextWithEntities,
         rd_if ''flags'' 25 ''emoticon'' readString, rd_if ''flags'' 27 ''color'' readInt32,
         rd ''pinned_peers'' (readVector (Some readTLInputPeer)),
         rd ''include_peers'' (readVector (Some readTLInputPeer)),
         rd ''exclude_peers'' (readVector (Some readTLInputPeer))]),
      (909284270, []),
      (- 1772913705, [rd ''flags'' readUInt32, set_if ''flags'' 26 ''has_my_invites'',
         set_if ''flags'' 28 ''title_noanimate'', rd ''id'' readInt32,
         rd ''title'' readTLTextWithEntities, rd_if ''flags'' 25 ''emoticon'' readString,
         rd_if ''flags'' 27 ''color'' readInt32,
         rd ''pinned_peers'' (readVector (Some readTLInputPeer)),
         rd ''include_peers'' (readVector (Some readTLInputPeer))])]"

definition writeTLDialogFilter :: tl_writer where
  "writeTLDialogFilter = write_fobject
     [(- 1438177711, [wf ''_'' writeInt32, wf_flags ''flags'' [(''contacts'', 0),
         (''non_contacts'', 1), (''groups'', 2), (''broadcasts'', 3), (''bots'', 4),
         (''exclude_muted'', 11), (''exclude_read'', 12), (''exclude_archived'', 13),
         (''title_noanimate'', 28), (''emoticon'', 25), (''color'', 27)], wf ''id'' writeInt32,
         wf ''title'' writeTLTextWithEntities, wf_if ''flags'' 25 ''emoticon'' writeString,
         wf_if ''flags'' 27 ''color'' writeInt32,
         wf ''pinned_peers'' (writeVector (Some writeTLInputPeer)),
         wf ''include_peers'' (writeVector (Some writeTLInputPeer)),
         wf ''exclude_peers'' (writeVector (Some writeTLInputPeer))]),
      (909284270, [wf ''_'' writeInt32]),
      (- 1772913705, [wf ''_'' writeInt32, wf_flags ''flags'' [(''has_my_invites'', 26),
         (''title_noanimate'', 28), (''emoticon'', 25), (''color'', 27)], wf ''id'' writeInt32,
         wf ''title'' writeTLTextWithEntities, wf_if ''flags'' 25 ''emoticon'' writeString,
         wf_if ''flags'' 27 ''color'' writeInt32,
         wf ''pinned_peers'' (writeVector (Some writeTLInputPeer)),
         wf ''include_peers'' (writeVector (Some writeTLInputPeer))])]"

definition TL_DialogFilter_table :: flag_table where
  "TL_DialogFilter_table =
     [(- 1438177711, [Flags ''flags'' [(''contacts'', 0), (''non_contacts'', 1), (''groups'', 2),
         (''broadcasts'', 3), (''bots'', 4), (''exclude_muted'', 11), (''exclude_read'', 12),
         (''exclude_archived'', 13), (''title_noanimate'', 28), (''emoticon'', 25), (''color'',
         27)],
        TrueBit ''flags'' 0 ''contacts'',
        TrueBit ''flags'' 1 ''non_contacts'',
        TrueBit ''flags'' 2 ''groups'',
        TrueBit ''flags'' 3 ''broadcasts'',
        TrueBit ''flags'' 4 ''bots'',
        TrueBit ''flags'' 11 ''exclude_muted'',
        TrueBit ''flags'' 12 ''exclude_read'',
        TrueBit ''flags'' 13 ''exclude_archived'',
        TrueBit ''flags'' 28 ''title_noanimate'',
        Plain (''id'', readInt32, writeInt32, enc_int32, is_VInt),
        Plain (''title'', readTLTextWithEntities, writeTLTextWithEntities,
         enc_fobject TL_TextWithEntities_table, ok_fobject TL_TextWithEntities_table),
        Cond ''flags'' 25 (''emoticon'', readString, writeString, enc_string, is_short_text),
        Cond ''flags'' 27 (''color'', readInt32, writeInt32, enc_int32, is_VInt),
        Plain (''pinned_peers'', readVector (Some readTLInputPeer),
         writeVector (Some writeTLInputPeer), enc_vector enc_InputPeer, ok_vector ok_InputPeer),
        Plain (''include_peers'', readVector (Some readTLInputPeer),
         writeVector (Some writeTLInputPeer), enc_vector enc_InputPeer, ok_vector ok_InputPeer),
        Plain (''exclude_peers'', readVector (Some readTLInputPeer),
         writeVector (Some writeTLInputPeer), enc_vector enc_InputPeer, ok_vector ok_InputPeer)]),
      (909284270, []),
      (- 1772913705, [Flags ''flags'' [(''has_my_invites'', 26), (''title_noanimate'', 28),
         (''emoticon'', 25), (''color'', 27)],
        TrueBit ''flags'' 26 ''has_my_invites'',
        TrueBit ''flags'' 28 ''title_noanimate'',
        Plain (''id'', readInt32, writeInt32, enc_int32, is_VInt),
        Plain (''title'', readTLTextWithEntities, writeTLTextWithEntities,
         enc_fobject TL_TextWithEntities_table, ok_fobject TL_TextWithEntities_table),
        Cond ''flags'' 25 (''emoticon'', readString, writeString, enc_string, is_short_text),
        Cond ''flags'' 27 (''color'', readInt32, writeInt32, enc_int32, is_VInt),
        Plain (''pinned_peers'', readVector (Some readTLInputPeer),
         writeVector (Some writeTLInputPeer), enc_vector enc_InputPeer, ok_vector ok_InputPeer),
        Plain (''include_peers'', readVector (Some readTLInputPeer),
         writeVector (Some writeTLInputPeer), enc_vector enc_InputPeer, ok_vector ok_InputPeer)])]"

interpretation tl_DialogFilter: tl_codec readTLDialogFilter writeTLDialogFilter "enc_fobject TL_DialogFilter_table" "ok_fobject TL_DialogFilter_table"
  by (rule flag_schema_codec, unfold TL_DialogFilter_table_def, intro flag_tableI)
    (simp_all add: readTLDialogFilter_def writeTLDialogFilter_def flag_schema_simps tl_TextWithEntities.tl_codec_axioms tl_TextWithEntities.vector_codec tl_InputPeer.tl_codec_axioms tl_InputPeer.vector_codec)

subsection \<open>Methods\<close>

definition writeTLMethodUsersGetUsers :: tl_writer where
  "writeTLMethodUsersGetUsers = write_fobject
     [(227648840, [wf ''_'' writeInt32, wf ''id'' (writeVector (Some writeTLInputUser))])]"

definition writeTLMethodUploadGetFile :: tl_writer where
  "writeTLMethodUploadGetFile = write_fobject
     [(- 1101843010, [wf ''_'' writeInt32, wf_flags ''flags'' [(''precise'', 0),
         (''cdn_supported'', 1)], wf ''location'' writeTLInputFileLocation,
         wf ''offset'' writeInt64, wf ''limit'' writeInt32])]"

definition writeTLMethodUpdatesGetChannelDifference :: tl_writer where
  "writeTLMethodUpdatesGetChannelDifference = write_fobject
     [(51854712, [wf ''_'' writeInt32, wf_flags ''flags'' [(''force'', 0)],
         wf ''channel'' writeTLInputChannel, wf ''filter'' writeTLChannelMessagesFilter,
         wf ''pts'' writeInt32, wf ''limit'' writeInt32])]"

definition writeTLMethodMessagesReadHistory :: tl_writer where
  "writeTLMethodMessagesReadHistory = write_fobject
     [(238054714, [wf ''_'' writeInt32, wf ''peer'' writeTLInputPeer, wf ''max_id'' writeInt32])]"

definition writeTLMethodMessagesGetHistory :: tl_writer where
  "writeTLMethodMessagesGetHistory = write_fobject
     [(1143203525, [wf ''_'' writeInt32, wf ''peer'' writeTLInputPeer, wf ''offset_id'' writeInt32,
         wf ''offset_date'' writeInt32, wf ''add_offset'' writeInt32, wf ''limit'' writeInt32,
         wf ''max_id'' writeInt32, wf ''min_id'' writeInt32, wf ''hash'' writeInt64])]"

definition writeTLMethodMessagesGetDialogs :: tl_writer where
  "writeTLMethodMessagesGetDialogs = write_fobject
     [(- 1594569905, [wf ''_'' writeInt32, wf_flags ''flags'' [(''exclude_pinned'', 0),
         (''folder_id'', 1)], wf_if ''flags'' 1 ''folder_id'' writeInt32,
         wf ''offset_date'' writeInt32, wf ''offset_id'' writeInt32,
         wf ''offset_peer'' writeTLInputPeer, wf ''limit'' writeInt32, wf ''hash'' writeInt64])]"

definition writeTLMethodChannelsReadHistory :: tl_writer where
  "writeTLMethodChannelsReadHistory = write_fobject
     [(- 871347913, [wf ''_'' writeInt32, wf ''channel'' writeTLInputChannel,
         wf ''max_id'' writeInt32])]"

definition writeTLMethodChannelsDeleteMessages :: tl_writer where
  "writeTLMethodChannelsDeleteMessages = write_fobject
     [(- 2067661490, [wf ''_'' writeInt32, wf ''channel'' writeTLInputChannel,
         wf ''id'' (writeVector (Some writeInt32))])]"

subsection \<open>All types at once\<close>

definition tl_types3 :: "(tl_reader \<times> tl_writer \<times> flag_table) list" where
  "tl_types3 =
     [(readTLInputUser, writeTLInputUser, TL_InputUser_table),
      (readTLInputChannel, writeTLInputChannel, TL_InputChannel_table),
      (readTLMessageEntity, writeTLMessageEntity, TL_MessageEntity_table),
      (readTLHelpTermsOfService, writeTLHelpTermsOfService, TL_HelpTermsOfService_table),
      (readTLAuthAuthorization, writeTLAuthAuthorization, TL_AuthAuthorization_table),
      (readTLChat, writeTLChat, TL_Chat_table),
      (readTLInputFileLocation, writeTLInputFileLocation, TL_InputFileLocation_table),
      (readTLTextWithEntities, writeTLTextWithEntities, TL_TextWithEntities_table),
      (readTLDialogFilter, writeTLDialogFilter, TL_DialogFilter_table)]"

lemma tl_types3_codec: "(R, W, t) \<in> set tl_types3 \<Longrightarrow> tl_codec R W (enc_fobject t) (ok_fobject t)"
  by (auto simp: tl_types3_def
      intro: tl_InputUser.tl_codec_axioms tl_InputChannel.tl_codec_axioms tl_MessageEntity.tl_codec_axioms tl_HelpTermsOfService.tl_codec_axioms tl_AuthAuthorization.tl_codec_axioms tl_Chat.tl_codec_axioms tl_InputFileLocation.tl_codec_axioms tl_TextWithEntities.tl_codec_axioms tl_DialogFilter.tl_codec_axioms)

lemma api_types_codec: "(R, W, t) \<in> set (tl_types @ tl_types3) \<Longrightarrow> tl_codec R W (enc_fobject t) (ok_fobject t)"
  using tl_types_codec tl_types3_codec by auto

end
