(* ===== verification/TlTypes1.thy ===== *)
theory TlTypes1
  imports TlSchema3
begin

section \<open>The API schema, further types: libkg/tlschema.cpp\<close>

text \<open>
  Readers and writers of the types Bool to AccountTmpPassword, in dependency order, each with its table and the
  interpretation of the codec contract for it.
\<close>

definition readTLBool :: tl_reader where
  "readTLBool = read_object
     [(- 1132882121, []),
      (- 1720552011, [])]"

definition writeTLBool :: tl_writer where
  "writeTLBool = write_fobject
     [(- 1132882121, [wf ''_'' writeInt32]),
      (- 1720552011, [wf ''_'' writeInt32])]"

definition TL_Bool_table :: flag_table where
  "TL_Bool_table =
     [(- 1132882121, []),
      (- 1720552011, [])]"

interpretation tl_Bool: tl_codec readTLBool writeTLBool "enc_fobject TL_Bool_table" "ok_fobject TL_Bool_table"
  by (rule flag_schema_codec, unfold TL_Bool_table_def, intro flag_tableI)
    (simp_all add: readTLBool_def writeTLBool_def flag_schema_simps)

definition readTLTrue :: tl_reader where
  "readTLTrue = read_object
     [(1072550713, [])]"

definition writeTLTrue :: tl_writer where
  "writeTLTrue = write_fobject
     [(1072550713, [wf ''_'' writeInt32])]"

definition TL_True_table :: flag_table where
  "TL_True_table =
     [(1072550713, [])]"

interpretation tl_True: tl_codec readTLTrue writeTLTrue "enc_fobject TL_True_table" "ok_fobject TL_True_table"
  by (rule flag_schema_codec, unfold TL_True_table_def, intro flag_tableI)
    (simp_all add: readTLTrue_def writeTLTrue_def flag_schema_simps)

definition readTLVector :: tl_reader where
  "readTLVector = read_object
     [(481674261, [])]"

definition writeTLVector :: tl_writer where
  "writeTLVector = write_fobject
     [(481674261, [wf ''_'' writeInt32])]"

definition TL_Vector_table :: flag_table where
  "TL_Vector_table =
     [(481674261, [])]"

interpretation tl_Vector: tl_codec readTLVector writeTLVector "enc_fobject TL_Vector_table" "ok_fobject TL_Vector_table"
  by (rule flag_schema_codec, unfold TL_Vector_table_def, intro flag_tableI)
    (simp_all add: readTLVector_def writeTLVector_def flag_schema_simps)

definition readTLError :: tl_reader where
  "readTLError = read_object
     [(- 994444869, [rd ''code'' readInt32, rd ''text'' readString])]"

definition writeTLError :: tl_writer where
  "writeTLError = write_fobject
     [(- 994444869, [wf ''_'' writeInt32, wf ''code'' writeInt32, wf ''text'' writeString])]"

definition TL_Error_table :: flag_table where
  "TL_Error_table =
     [(- 994444869, [Plain (''code'', readInt32, writeInt32, enc_int32, is_VInt),
        Plain (''text'', readString, writeString, enc_string, is_short_text)])]"

interpretation tl_Error: tl_codec readTLError writeTLError "enc_fobject TL_Error_table" "ok_fobject TL_Error_table"
  by (rule flag_schema_codec, unfold TL_Error_table_def, intro flag_tableI)
    (simp_all add: readTLError_def writeTLError_def flag_schema_simps)

definition readTLNull :: tl_reader where
  "readTLNull = read_object
     [(1450380236, [])]"

definition writeTLNull :: tl_writer where
  "writeTLNull = write_fobject
     [(1450380236, [wf ''_'' writeInt32])]"

definition TL_Null_table :: flag_table where
  "TL_Null_table =
     [(1450380236, [])]"

interpretation tl_Null: tl_codec readTLNull writeTLNull "enc_fobject TL_Null_table" "ok_fobject TL_Null_table"
  by (rule flag_schema_codec, unfold TL_Null_table_def, intro flag_tableI)
    (simp_all add: readTLNull_def writeTLNull_def flag_schema_simps)

definition readTLInputContact :: tl_reader where
  "readTLInputContact = read_object
     [(1780335806, [rd ''flags'' readUInt32, rd ''client_id'' readInt64, rd ''phone'' readString,
         rd ''first_name'' readString, rd ''last_name'' readString,
         rd_if ''flags'' 0 ''note'' readTLTextWithEntities])]"

definition writeTLInputContact :: tl_writer where
  "writeTLInputContact = write_fobject
     [(1780335806, [wf ''_'' writeInt32, wf_flags ''flags'' [(''note'', 0)],
         wf ''client_id'' writeInt64, wf ''phone'' writeString, wf ''first_name'' writeString,
         wf ''last_name'' writeString, wf_if ''flags'' 0 ''note'' writeTLTextWithEntities])]"

definition TL_InputContact_table :: flag_table where
  "TL_InputContact_table =
     [(1780335806, [Flags ''flags'' [(''note'', 0)],
        Plain (''client_id'', readInt64, writeInt64, enc_int64, is_VLong),
        Plain (''phone'', readString, writeString, enc_string, is_short_text),
        Plain (''first_name'', readString, writeString, enc_string, is_short_text),
        Plain (''last_name'', readString, writeString, enc_string, is_short_text),
        Cond ''flags'' 0 (''note'', readTLTextWithEntities, writeTLTextWithEntities,
         enc_fobject TL_TextWithEntities_table, ok_fobject TL_TextWithEntities_table)])]"

interpretation tl_InputContact: tl_codec readTLInputContact writeTLInputContact "enc_fobject TL_InputContact_table" "ok_fobject TL_InputContact_table"
  by (rule flag_schema_codec, unfold TL_InputContact_table_def, intro flag_tableI)
    (simp_all add: readTLInputContact_def writeTLInputContact_def flag_schema_simps tl_TextWithEntities.tl_codec_axioms)

definition readTLInputPhoto :: tl_reader where
  "readTLInputPhoto = read_object
     [(483901197, []),
      (1001634122, [rd ''id'' readInt64, rd ''access_hash'' readInt64,
         rd ''file_reference'' readByteArray])]"

definition writeTLInputPhoto :: tl_writer where
  "writeTLInputPhoto = write_fobject
     [(483901197, [wf ''_'' writeInt32]),
      (1001634122, [wf ''_'' writeInt32, wf ''id'' writeInt64, wf ''access_hash'' writeInt64,
         wf ''file_reference'' writeByteArray])]"

definition TL_InputPhoto_table :: flag_table where
  "TL_InputPhoto_table =
     [(483901197, []),
      (1001634122, [Plain (''id'', readInt64, writeInt64, enc_int64, is_VLong),
        Plain (''access_hash'', readInt64, writeInt64, enc_int64, is_VLong),
        Plain (''file_reference'', readByteArray, writeByteArray, enc_bytes, is_short_bytes)])]"

interpretation tl_InputPhoto: tl_codec readTLInputPhoto writeTLInputPhoto "enc_fobject TL_InputPhoto_table" "ok_fobject TL_InputPhoto_table"
  by (rule flag_schema_codec, unfold TL_InputPhoto_table_def, intro flag_tableI)
    (simp_all add: readTLInputPhoto_def writeTLInputPhoto_def flag_schema_simps)

definition readTLChatParticipant :: tl_reader where
  "readTLChatParticipant = read_object
     [(954703838, [rd ''flags'' readUInt32, rd ''user_id'' readInt64, rd ''inviter_id'' readInt64,
         rd ''date'' readInt32, rd_if ''flags'' 0 ''rank'' readString]),
      (- 503814216, [rd ''flags'' readUInt32, rd ''user_id'' readInt64,
         rd_if ''flags'' 0 ''rank'' readString]),
      (56677842, [rd ''flags'' readUInt32, rd ''user_id'' readInt64, rd ''inviter_id'' readInt64,
         rd ''date'' readInt32, rd_if ''flags'' 0 ''rank'' readString])]"

definition writeTLChatParticipant :: tl_writer where
  "writeTLChatParticipant = write_fobject
     [(954703838, [wf ''_'' writeInt32, wf_flags ''flags'' [(''rank'', 0)],
         wf ''user_id'' writeInt64, wf ''inviter_id'' writeInt64, wf ''date'' writeInt32,
         wf_if ''flags'' 0 ''rank'' writeString]),
      (- 503814216, [wf ''_'' writeInt32, wf_flags ''flags'' [(''rank'', 0)],
         wf ''user_id'' writeInt64, wf_if ''flags'' 0 ''rank'' writeString]),
      (56677842, [wf ''_'' writeInt32, wf_flags ''flags'' [(''rank'', 0)],
         wf ''user_id'' writeInt64, wf ''inviter_id'' writeInt64, wf ''date'' writeInt32,
         wf_if ''flags'' 0 ''rank'' writeString])]"

definition TL_ChatParticipant_table :: flag_table where
  "TL_ChatParticipant_table =
     [(954703838, [Flags ''flags'' [(''rank'', 0)],
        Plain (''user_id'', readInt64, writeInt64, enc_int64, is_VLong),
        Plain (''inviter_id'', readInt64, writeInt64, enc_int64, is_VLong),
        Plain (''date'', readInt32, writeInt32, enc_int32, is_VInt),
        Cond ''flags'' 0 (''rank'', readString, writeString, enc_string, is_short_text)]),
      (- 503814216, [Flags ''flags'' [(''rank'', 0)],
        Plain (''user_id'', readInt64, writeInt64, enc_int64, is_VLong),
        Cond ''flags'' 0 (''rank'', readString, writeString, enc_string, is_short_text)]),
      (56677842, [Flags ''flags'' [(''rank'', 0)],
        Plain (''user_id'', readInt64, writeInt64, enc_int64, is_VLong),
        Plain (''inviter_id'', readInt64, writeInt64, enc_int64, is_VLong),
        Plain (''date'', readInt32, writeInt32, enc_int32, is_VInt),
        Cond ''flags'' 0 (''rank'', readString, writeString, enc_string, is_short_text)])]"

interpretation tl_ChatParticipant: tl_codec readTLChatParticipant writeTLChatParticipant "enc_fobject TL_ChatParticipant_table" "ok_fobject TL_ChatParticipant_table"
  by (rule flag_schema_codec, unfold TL_ChatParticipant_table_def, intro flag_tableI)
    (simp_all add: readTLChatParticipant_def writeTLChatParticipant_def flag_schema_simps)

definition readTLChatParticipants :: tl_reader where
  "readTLChatParticipants = read_object
     [(- 2023500831, [rd ''flags'' readUInt32, rd ''chat_id'' readInt64,
         rd_if ''flags'' 0 ''self_participant'' readTLChatParticipant]),
      (1018991608, [rd ''chat_id'' readInt64,
         rd ''participants'' (readVector (Some readTLChatParticipant)), rd ''version'' readInt32])]"

definition writeTLChatParticipants :: tl_writer where
  "writeTLChatParticipants = write_fobject
     [(- 2023500831, [wf ''_'' writeInt32, wf_flags ''flags'' [(''self_participant'', 0)],
         wf ''chat_id'' writeInt64, wf_if ''flags'' 0 ''self_participant'' writeTLChatParticipant]),
      (1018991608, [wf ''_'' writeInt32, wf ''chat_id'' writeInt64,
         wf ''participants'' (writeVector (Some writeTLChatParticipant)),
         wf ''version'' writeInt32])]"

definition TL_ChatParticipants_table :: flag_table where
  "TL_ChatParticipants_table =
     [(- 2023500831, [Flags ''flags'' [(''self_participant'', 0)],
        Plain (''chat_id'', readInt64, writeInt64, enc_int64, is_VLong),
        Cond ''flags'' 0 (''self_participant'', readTLChatParticipant, writeTLChatParticipant,
         enc_fobject TL_ChatParticipant_table, ok_fobject TL_ChatParticipant_table)]),
      (1018991608, [Plain (''chat_id'', readInt64, writeInt64, enc_int64, is_VLong),
        Plain (''participants'', readVector (Some readTLChatParticipant),
         writeVector (Some writeTLChatParticipant),
         enc_vector (enc_fobject TL_ChatParticipant_table),
         ok_vector (ok_fobject TL_ChatParticipant_table)),
        Plain (''version'', readInt32, writeInt32, enc_int32, is_VInt)])]"

interpretation tl_ChatParticipants: tl_codec readTLChatParticipants writeTLChatParticipants "enc_fobject TL_ChatParticipants_table" "ok_fobject TL_ChatParticipants_table"
  by (rule flag_schema_codec, unfold TL_ChatParticipants_table_def, intro flag_tableI)
    (simp_all add: readTLChatParticipants_def writeTLChatParticipants_def flag_schema_simps tl_ChatParticipant.tl_codec_axioms tl_ChatParticipant.vector_codec)

definition readTLPhotoSize :: tl_reader where
  "readTLPhotoSize = read_object
     [(236446268, [rd ''type'' readString]),
      (1976012384, [rd ''type'' readString, rd ''w'' readInt32, rd ''h'' readInt32,
         rd ''size'' readInt32]),
      (35527382, [rd ''type'' readString, rd ''w'' readInt32, rd ''h'' readInt32,
         rd ''bytes'' readByteArray]),
      (- 525288402, [rd ''type'' readString, rd ''bytes'' readByteArray]),
      (- 96535659, [rd ''type'' readString, rd ''w'' readInt32, rd ''h'' readInt32,
         rd ''sizes'' (readVector (Some readInt32))]),
      (- 668906175, [rd ''type'' readString, rd ''bytes'' readByteArray])]"

definition writeTLPhotoSize :: tl_writer where
  "writeTLPhotoSize = write_fobject
     [(236446268, [wf ''_'' writeInt32, wf ''type'' writeString]),
      (1976012384, [wf ''_'' writeInt32, wf ''type'' writeString, wf ''w'' writeInt32,
         wf ''h'' writeInt32, wf ''size'' writeInt32]),
      (35527382, [wf ''_'' writeInt32, wf ''type'' writeString, wf ''w'' writeInt32,
         wf ''h'' writeInt32, wf ''bytes'' writeByteArray]),
      (- 525288402, [wf ''_'' writeInt32, wf ''type'' writeString, wf ''bytes'' writeByteArray]),
      (- 96535659, [wf ''_'' writeInt32, wf ''type'' writeString, wf ''w'' writeInt32,
         wf ''h'' writeInt32, wf ''sizes'' (writeVector (Some writeInt32))]),
      (- 668906175, [wf ''_'' writeInt32, wf ''type'' writeString, wf ''bytes'' writeByteArray])]"

definition TL_PhotoSize_table :: flag_table where
  "TL_PhotoSize_table =
     [(236446268, [Plain (''type'', readString, writeString, enc_string, is_short_text)]),
      (1976012384, [Plain (''type'', readString, writeString, enc_string, is_short_text),
        Plain (''w'', readInt32, writeInt32, enc_int32, is_VInt),
        Plain (''h'', readInt32, writeInt32, enc_int32, is_VInt),
        Plain (''size'', readInt32, writeInt32, enc_int32, is_VInt)]),
      (35527382, [Plain (''type'', readString, writeString, enc_string, is_short_text),
        Plain (''w'', readInt32, writeInt32, enc_int32, is_VInt),
        Plain (''h'', readInt32, writeInt32, enc_int32, is_VInt),
        Plain (''bytes'', readByteArray, writeByteArray, enc_bytes, is_short_bytes)]),
      (- 525288402, [Plain (''type'', readString, writeString, enc_string, is_short_text),
        Plain (''bytes'', readByteArray, writeByteArray, enc_bytes, is_short_bytes)]),
      (- 96535659, [Plain (''type'', readString, writeString, enc_string, is_short_text),
        Plain (''w'', readInt32, writeInt32, enc_int32, is_VInt),
        Plain (''h'', readInt32, writeInt32, enc_int32, is_VInt),
        Plain (''sizes'', readVector (Some readInt32), writeVector (Some writeInt32),
         enc_vector enc_int32, ok_vector is_VInt)]),
      (- 668906175, [Plain (''type'', readString, writeString, enc_string, is_short_text),
        Plain (''bytes'', readByteArray, writeByteArray, enc_bytes, is_short_bytes)])]"

interpretation tl_PhotoSize: tl_codec readTLPhotoSize writeTLPhotoSize "enc_fobject TL_PhotoSize_table" "ok_fobject TL_PhotoSize_table"
  by (rule flag_schema_codec, unfold TL_PhotoSize_table_def, intro flag_tableI)
    (simp_all add: readTLPhotoSize_def writeTLPhotoSize_def flag_schema_simps)

definition readTLMessageFwdHeader :: tl_reader where
  "readTLMessageFwdHeader = read_object
     [(1313731771, [rd ''flags'' readUInt32, set_if ''flags'' 7 ''imported'',
         set_if ''flags'' 11 ''saved_out'', rd_if ''flags'' 0 ''from_id'' readTLPeer,
         rd_if ''flags'' 5 ''from_name'' readString, rd ''date'' readInt32,
         rd_if ''flags'' 2 ''channel_post'' readInt32,
         rd_if ''flags'' 3 ''post_author'' readString,
         rd_if ''flags'' 4 ''saved_from_peer'' readTLPeer,
         rd_if ''flags'' 4 ''saved_from_msg_id'' readInt32,
         rd_if ''flags'' 8 ''saved_from_id'' readTLPeer,
         rd_if ''flags'' 9 ''saved_from_name'' readString,
         rd_if ''flags'' 10 ''saved_date'' readInt32, rd_if ''flags'' 6 ''psa_type'' readString])]"

definition writeTLMessageFwdHeader :: tl_writer where
  "writeTLMessageFwdHeader = write_fobject
     [(1313731771, [wf ''_'' writeInt32, wf_flags ''flags'' [(''imported'', 7), (''saved_out'',
         11), (''from_id'', 0), (''from_name'', 5), (''channel_post'', 2), (''post_author'', 3),
         (''saved_from_peer'', 4), (''saved_from_msg_id'', 4), (''saved_from_id'', 8),
         (''saved_from_name'', 9), (''saved_date'', 10), (''psa_type'', 6)],
         wf_if ''flags'' 0 ''from_id'' writeTLPeer, wf_if ''flags'' 5 ''from_name'' writeString,
         wf ''date'' writeInt32, wf_if ''flags'' 2 ''channel_post'' writeInt32,
         wf_if ''flags'' 3 ''post_author'' writeString,
         wf_if ''flags'' 4 ''saved_from_peer'' writeTLPeer,
         wf_if ''flags'' 4 ''saved_from_msg_id'' writeInt32,
         wf_if ''flags'' 8 ''saved_from_id'' writeTLPeer,
         wf_if ''flags'' 9 ''saved_from_name'' writeString,
         wf_if ''flags'' 10 ''saved_date'' writeInt32,
         wf_if ''flags'' 6 ''psa_type'' writeString])]"

definition TL_MessageFwdHeader_table :: flag_table where
  "TL_MessageFwdHeader_table =
     [(1313731771, [Flags ''flags'' [(''imported'', 7), (''saved_out'', 11), (''from_id'', 0),
         (''from_name'', 5), (''channel_post'', 2), (''post_author'', 3), (''saved_from_peer'', 4),
         (''saved_from_msg_id'', 4), (''saved_from_id'', 8), (''saved_from_name'', 9),
         (''saved_date'', 10), (''psa_type'', 6)],
        TrueBit ''flags'' 7 ''imported'',
        TrueBit ''flags'' 11 ''saved_out'',
        Cond ''flags'' 0 (''from_id'', readTLPeer, writeTLPeer, enc_fobject TL_Peer_table,
         ok_fobject TL_Peer_table),
        Cond ''flags'' 5 (''from_name'', readString, writeString, enc_string, is_short_text),
        Plain (''date'', readInt32, writeInt32, enc_int32, is_VInt),
        Cond ''flags'' 2 (''channel_post'', readInt32, writeInt32, enc_int32, is_VInt),
        Cond ''flags'' 3 (''post_author'', readString, writeString, enc_string, is_short_text),
        Cond ''flags'' 4 (''saved_from_peer'', readTLPeer, writeTLPeer, enc_fobject TL_Peer_table,
         ok_fobject TL_Peer_table),
        Cond ''flags'' 4 (''saved_from_msg_id'', readInt32, writeInt32, enc_int32, is_VInt),
        Cond ''flags'' 8 (''saved_from_id'', readTLPeer, writeTLPeer, enc_fobject TL_Peer_table,
         ok_fobject TL_Peer_table),
        Cond ''flags'' 9 (''saved_from_name'', readString, writeString, enc_string, is_short_text),
        Cond ''flags'' 10 (''saved_date'', readInt32, writeInt32, enc_int32, is_VInt),
        Cond ''flags'' 6 (''psa_type'', readString, writeString, enc_string, is_short_text)])]"

interpretation tl_MessageFwdHeader: tl_codec readTLMessageFwdHeader writeTLMessageFwdHeader "enc_fobject TL_MessageFwdHeader_table" "ok_fobject TL_MessageFwdHeader_table"
  by (rule flag_schema_codec, unfold TL_MessageFwdHeader_table_def, intro flag_tableI)
    (simp_all add: readTLMessageFwdHeader_def writeTLMessageFwdHeader_def flag_schema_simps tl_Peer.tl_codec_axioms)

definition readTLNotificationSound :: tl_reader where
  "readTLNotificationSound = read_object
     [(- 1746354498, []),
      (1863070943, []),
      (- 2096391452, [rd ''title'' readString, rd ''data'' readString]),
      (- 9666487, [rd ''id'' readInt64])]"

definition writeTLNotificationSound :: tl_writer where
  "writeTLNotificationSound = write_fobject
     [(- 1746354498, [wf ''_'' writeInt32]),
      (1863070943, [wf ''_'' writeInt32]),
      (- 2096391452, [wf ''_'' writeInt32, wf ''title'' writeString, wf ''data'' writeString]),
      (- 9666487, [wf ''_'' writeInt32, wf ''id'' writeInt64])]"

definition TL_NotificationSound_table :: flag_table where
  "TL_NotificationSound_table =
     [(- 1746354498, []),
      (1863070943, []),
      (- 2096391452, [Plain (''title'', readString, writeString, enc_string, is_short_text),
        Plain (''data'', readString, writeString, enc_string, is_short_text)]),
      (- 9666487, [Plain (''id'', readInt64, writeInt64, enc_int64, is_VLong)])]"

interpretation tl_NotificationSound: tl_codec readTLNotificationSound writeTLNotificationSound "enc_fobject TL_NotificationSound_table" "ok_fobject TL_NotificationSound_table"
  by (rule flag_schema_codec, unfold TL_NotificationSound_table_def, intro flag_tableI)
    (simp_all add: readTLNotificationSound_def writeTLNotificationSound_def flag_schema_simps)

definition readTLPeerNotifySettings :: tl_reader where
  "readTLPeerNotifySettings = read_object
     [(- 1721619444, [rd ''flags'' readUInt32, rd_if ''flags'' 0 ''show_previews'' readBool,
         rd_if ''flags'' 1 ''silent'' readBool, rd_if ''flags'' 2 ''mute_until'' readInt32,
         rd_if ''flags'' 3 ''ios_sound'' readTLNotificationSound,
         rd_if ''flags'' 4 ''android_sound'' readTLNotificationSound,
         rd_if ''flags'' 5 ''other_sound'' readTLNotificationSound,
         rd_if ''flags'' 6 ''stories_muted'' readBool,
         rd_if ''flags'' 7 ''stories_hide_sender'' readBool,
         rd_if ''flags'' 8 ''stories_ios_sound'' readTLNotificationSound,
         rd_if ''flags'' 9 ''stories_android_sound'' readTLNotificationSound,
         rd_if ''flags'' 10 ''stories_other_sound'' readTLNotificationSound])]"

definition writeTLPeerNotifySettings :: tl_writer where
  "writeTLPeerNotifySettings = write_fobject
     [(- 1721619444, [wf ''_'' writeInt32, wf_flags ''flags'' [(''show_previews'', 0), (''silent'',
         1), (''mute_until'', 2), (''ios_sound'', 3), (''android_sound'', 4), (''other_sound'', 5),
         (''stories_muted'', 6), (''stories_hide_sender'', 7), (''stories_ios_sound'', 8),
         (''stories_android_sound'', 9), (''stories_other_sound'', 10)],
         wf_if ''flags'' 0 ''show_previews'' writeBool, wf_if ''flags'' 1 ''silent'' writeBool,
         wf_if ''flags'' 2 ''mute_until'' writeInt32,
         wf_if ''flags'' 3 ''ios_sound'' writeTLNotificationSound,
         wf_if ''flags'' 4 ''android_sound'' writeTLNotificationSound,
         wf_if ''flags'' 5 ''other_sound'' writeTLNotificationSound,
         wf_if ''flags'' 6 ''stories_muted'' writeBool,
         wf_if ''flags'' 7 ''stories_hide_sender'' writeBool,
         wf_if ''flags'' 8 ''stories_ios_sound'' writeTLNotificationSound,
         wf_if ''flags'' 9 ''stories_android_sound'' writeTLNotificationSound,
         wf_if ''flags'' 10 ''stories_other_sound'' writeTLNotificationSound])]"

definition TL_PeerNotifySettings_table :: flag_table where
  "TL_PeerNotifySettings_table =
     [(- 1721619444, [Flags ''flags'' [(''show_previews'', 0), (''silent'', 1), (''mute_until'',
         2), (''ios_sound'', 3), (''android_sound'', 4), (''other_sound'', 5), (''stories_muted'',
         6), (''stories_hide_sender'', 7), (''stories_ios_sound'', 8), (''stories_android_sound'',
         9), (''stories_other_sound'', 10)],
        Cond ''flags'' 0 (''show_previews'', readBool, writeBool, enc_bool, is_VBool),
        Cond ''flags'' 1 (''silent'', readBool, writeBool, enc_bool, is_VBool),
        Cond ''flags'' 2 (''mute_until'', readInt32, writeInt32, enc_int32, is_VInt),
        Cond ''flags'' 3 (''ios_sound'', readTLNotificationSound, writeTLNotificationSound,
         enc_fobject TL_NotificationSound_table, ok_fobject TL_NotificationSound_table),
        Cond ''flags'' 4 (''android_sound'', readTLNotificationSound, writeTLNotificationSound,
         enc_fobject TL_NotificationSound_table, ok_fobject TL_NotificationSound_table),
        Cond ''flags'' 5 (''other_sound'', readTLNotificationSound, writeTLNotificationSound,
         enc_fobject TL_NotificationSound_table, ok_fobject TL_NotificationSound_table),
        Cond ''flags'' 6 (''stories_muted'', readBool, writeBool, enc_bool, is_VBool),
        Cond ''flags'' 7 (''stories_hide_sender'', readBool, writeBool, enc_bool, is_VBool),
        Cond ''flags'' 8 (''stories_ios_sound'', readTLNotificationSound, writeTLNotificationSound,
         enc_fobject TL_NotificationSound_table, ok_fobject TL_NotificationSound_table),
        Cond ''flags'' 9 (''stories_android_sound'', readTLNotificationSound,
         writeTLNotificationSound, enc_fobject TL_NotificationSound_table,
         ok_fobject TL_NotificationSound_table),
        Cond ''flags'' 10 (''stories_other_sound'', readTLNotificationSound,
         writeTLNotificationSound, enc_fobject TL_NotificationSound_table,
         ok_fobject TL_NotificationSound_table)])]"

interpretation tl_PeerNotifySettings: tl_codec readTLPeerNotifySettings writeTLPeerNotifySettings "enc_fobject TL_PeerNotifySettings_table" "ok_fobject TL_PeerNotifySettings_table"
  by (rule flag_schema_codec, unfold TL_PeerNotifySettings_table_def, intro flag_tableI)
    (simp_all add: readTLPeerNotifySettings_def writeTLPeerNotifySettings_def flag_schema_simps tl_NotificationSound.tl_codec_axioms)

definition readTLInputReplyTo :: tl_reader where
  "readTLInputReplyTo = read_object
     [(1003796418, [rd ''flags'' readUInt32, rd ''reply_to_msg_id'' readInt32,
         rd_if ''flags'' 0 ''top_msg_id'' readInt32,
         rd_if ''flags'' 1 ''reply_to_peer_id'' readTLInputPeer,
         rd_if ''flags'' 2 ''quote_text'' readString,
         rd_if ''flags'' 3 ''quote_entities'' (readVector (Some readTLMessageEntity)),
         rd_if ''flags'' 4 ''quote_offset'' readInt32,
         rd_if ''flags'' 5 ''monoforum_peer_id'' readTLInputPeer,
         rd_if ''flags'' 6 ''todo_item_id'' readInt32,
         rd_if ''flags'' 7 ''poll_option'' readByteArray]),
      (1484862010, [rd ''peer'' readTLInputPeer, rd ''story_id'' readInt32]),
      (1775660101, [rd ''monoforum_peer_id'' readTLInputPeer]),
      (1092204894, [rd ''id'' readInt32])]"

definition writeTLInputReplyTo :: tl_writer where
  "writeTLInputReplyTo = write_fobject
     [(1003796418, [wf ''_'' writeInt32, wf_flags ''flags'' [(''top_msg_id'', 0),
         (''reply_to_peer_id'', 1), (''quote_text'', 2), (''quote_entities'', 3),
         (''quote_offset'', 4), (''monoforum_peer_id'', 5), (''todo_item_id'', 6),
         (''poll_option'', 7)], wf ''reply_to_msg_id'' writeInt32,
         wf_if ''flags'' 0 ''top_msg_id'' writeInt32,
         wf_if ''flags'' 1 ''reply_to_peer_id'' writeTLInputPeer,
         wf_if ''flags'' 2 ''quote_text'' writeString,
         wf_if ''flags'' 3 ''quote_entities'' (writeVector (Some writeTLMessageEntity)),
         wf_if ''flags'' 4 ''quote_offset'' writeInt32,
         wf_if ''flags'' 5 ''monoforum_peer_id'' writeTLInputPeer,
         wf_if ''flags'' 6 ''todo_item_id'' writeInt32,
         wf_if ''flags'' 7 ''poll_option'' writeByteArray]),
      (1484862010, [wf ''_'' writeInt32, wf ''peer'' writeTLInputPeer, wf ''story_id'' writeInt32]),
      (1775660101, [wf ''_'' writeInt32, wf ''monoforum_peer_id'' writeTLInputPeer]),
      (1092204894, [wf ''_'' writeInt32, wf ''id'' writeInt32])]"

definition TL_InputReplyTo_table :: flag_table where
  "TL_InputReplyTo_table =
     [(1003796418, [Flags ''flags'' [(''top_msg_id'', 0), (''reply_to_peer_id'', 1),
         (''quote_text'', 2), (''quote_entities'', 3), (''quote_offset'', 4),
         (''monoforum_peer_id'', 5), (''todo_item_id'', 6), (''poll_option'', 7)],
        Plain (''reply_to_msg_id'', readInt32, writeInt32, enc_int32, is_VInt),
        Cond ''flags'' 0 (''top_msg_id'', readInt32, writeInt32, enc_int32, is_VInt),
        Cond ''flags'' 1 (''reply_to_peer_id'', readTLInputPeer, writeTLInputPeer, enc_InputPeer,
         ok_InputPeer),
        Cond ''flags'' 2 (''quote_text'', readString, writeString, enc_string, is_short_text),
        Cond ''flags'' 3 (''quote_entities'', readVector (Some readTLMessageEntity),
         writeVector (Some writeTLMessageEntity), enc_vector (enc_fobject TL_MessageEntity_table),
         ok_vector (ok_fobject TL_MessageEntity_table)),
        Cond ''flags'' 4 (''quote_offset'', readInt32, writeInt32, enc_int32, is_VInt),
        Cond ''flags'' 5 (''monoforum_peer_id'', readTLInputPeer, writeTLInputPeer, enc_InputPeer,
         ok_InputPeer),
        Cond ''flags'' 6 (''todo_item_id'', readInt32, writeInt32, enc_int32, is_VInt),
        Cond ''flags'' 7 (''poll_option'', readByteArray, writeByteArray, enc_bytes,
         is_short_bytes)]),
      (1484862010, [Plain (''peer'', readTLInputPeer, writeTLInputPeer, enc_InputPeer,
         ok_InputPeer),
        Plain (''story_id'', readInt32, writeInt32, enc_int32, is_VInt)]),
      (1775660101, [Plain (''monoforum_peer_id'', readTLInputPeer, writeTLInputPeer, enc_InputPeer,
         ok_InputPeer)]),
      (1092204894, [Plain (''id'', readInt32, writeInt32, enc_int32, is_VInt)])]"

interpretation tl_InputReplyTo: tl_codec readTLInputReplyTo writeTLInputReplyTo "enc_fobject TL_InputReplyTo_table" "ok_fobject TL_InputReplyTo_table"
  by (rule flag_schema_codec, unfold TL_InputReplyTo_table_def, intro flag_tableI)
    (simp_all add: readTLInputReplyTo_def writeTLInputReplyTo_def flag_schema_simps tl_InputPeer.tl_codec_axioms tl_InputPeer.vector_codec tl_MessageEntity.tl_codec_axioms tl_MessageEntity.vector_codec)

definition readTLAuthSentCode :: tl_reader where
  "readTLAuthSentCode = read_object
     [(1577067778, [rd ''flags'' readUInt32, rd ''type'' readTLAuthSentCodeType,
         rd ''phone_code_hash'' readString, rd_if ''flags'' 1 ''next_type'' readTLAuthCodeType,
         rd_if ''flags'' 2 ''timeout'' readInt32]),
      (596704836, [rd ''authorization'' readTLAuthAuthorization]),
      (- 125665601, [rd ''store_product'' readString, rd ''phone_code_hash'' readString,
         rd ''support_email_address'' readString, rd ''support_email_subject'' readString,
         rd ''premium_days'' readInt32, rd ''currency'' readString, rd ''amount'' readInt64])]"

definition writeTLAuthSentCode :: tl_writer where
  "writeTLAuthSentCode = write_fobject
     [(1577067778, [wf ''_'' writeInt32, wf_flags ''flags'' [(''next_type'', 1), (''timeout'', 2)],
         wf ''type'' writeTLAuthSentCodeType, wf ''phone_code_hash'' writeString,
         wf_if ''flags'' 1 ''next_type'' writeTLAuthCodeType,
         wf_if ''flags'' 2 ''timeout'' writeInt32]),
      (596704836, [wf ''_'' writeInt32, wf ''authorization'' writeTLAuthAuthorization]),
      (- 125665601, [wf ''_'' writeInt32, wf ''store_product'' writeString,
         wf ''phone_code_hash'' writeString, wf ''support_email_address'' writeString,
         wf ''support_email_subject'' writeString, wf ''premium_days'' writeInt32,
         wf ''currency'' writeString, wf ''amount'' writeInt64])]"

definition TL_AuthSentCode_table :: flag_table where
  "TL_AuthSentCode_table =
     [(1577067778, [Flags ''flags'' [(''next_type'', 1), (''timeout'', 2)],
        Plain (''type'', readTLAuthSentCodeType, writeTLAuthSentCodeType,
         enc_fobject TL_AuthSentCodeType_table, ok_fobject TL_AuthSentCodeType_table),
        Plain (''phone_code_hash'', readString, writeString, enc_string, is_short_text),
        Cond ''flags'' 1 (''next_type'', readTLAuthCodeType, writeTLAuthCodeType,
         enc_fobject TL_AuthCodeType_table, ok_fobject TL_AuthCodeType_table),
        Cond ''flags'' 2 (''timeout'', readInt32, writeInt32, enc_int32, is_VInt)]),
      (596704836, [Plain (''authorization'', readTLAuthAuthorization, writeTLAuthAuthorization,
         enc_fobject TL_AuthAuthorization_table, ok_fobject TL_AuthAuthorization_table)]),
      (- 125665601, [Plain (''store_product'', readString, writeString, enc_string, is_short_text),
        Plain (''phone_code_hash'', readString, writeString, enc_string, is_short_text),
        Plain (''support_email_address'', readString, writeString, enc_string, is_short_text),
        Plain (''support_email_subject'', readString, writeString, enc_string, is_short_text),
        Plain (''premium_days'', readInt32, writeInt32, enc_int32, is_VInt),
        Plain (''currency'', readString, writeString, enc_string, is_short_text),
        Plain (''amount'', readInt64, writeInt64, enc_int64, is_VLong)])]"

interpretation tl_AuthSentCode: tl_codec readTLAuthSentCode writeTLAuthSentCode "enc_fobject TL_AuthSentCode_table" "ok_fobject TL_AuthSentCode_table"
  by (rule flag_schema_codec, unfold TL_AuthSentCode_table_def, intro flag_tableI)
    (simp_all add: readTLAuthSentCode_def writeTLAuthSentCode_def flag_schema_simps tl_AuthSentCodeType.tl_codec_axioms tl_AuthCodeType.tl_codec_axioms tl_AuthAuthorization.tl_codec_axioms)

definition readTLInputNotifyPeer :: tl_reader where
  "readTLInputNotifyPeer = read_object
     [(- 1195615476, [rd ''peer'' readTLInputPeer]),
      (423314455, []),
      (1251338318, []),
      (- 1311015810, []),
      (1548122514, [rd ''peer'' readTLInputPeer, rd ''top_msg_id'' readInt32]),
      (666573532, [rd ''community'' readTLInputChannel])]"

definition writeTLInputNotifyPeer :: tl_writer where
  "writeTLInputNotifyPeer = write_fobject
     [(- 1195615476, [wf ''_'' writeInt32, wf ''peer'' writeTLInputPeer]),
      (423314455, [wf ''_'' writeInt32]),
      (1251338318, [wf ''_'' writeInt32]),
      (- 1311015810, [wf ''_'' writeInt32]),
      (1548122514, [wf ''_'' writeInt32, wf ''peer'' writeTLInputPeer,
         wf ''top_msg_id'' writeInt32]),
      (666573532, [wf ''_'' writeInt32, wf ''community'' writeTLInputChannel])]"

definition TL_InputNotifyPeer_table :: flag_table where
  "TL_InputNotifyPeer_table =
     [(- 1195615476, [Plain (''peer'', readTLInputPeer, writeTLInputPeer, enc_InputPeer,
         ok_InputPeer)]),
      (423314455, []),
      (1251338318, []),
      (- 1311015810, []),
      (1548122514, [Plain (''peer'', readTLInputPeer, writeTLInputPeer, enc_InputPeer,
         ok_InputPeer),
        Plain (''top_msg_id'', readInt32, writeInt32, enc_int32, is_VInt)]),
      (666573532, [Plain (''community'', readTLInputChannel, writeTLInputChannel,
         enc_fobject TL_InputChannel_table, ok_fobject TL_InputChannel_table)])]"

interpretation tl_InputNotifyPeer: tl_codec readTLInputNotifyPeer writeTLInputNotifyPeer "enc_fobject TL_InputNotifyPeer_table" "ok_fobject TL_InputNotifyPeer_table"
  by (rule flag_schema_codec, unfold TL_InputNotifyPeer_table_def, intro flag_tableI)
    (simp_all add: readTLInputNotifyPeer_def writeTLInputNotifyPeer_def flag_schema_simps tl_InputPeer.tl_codec_axioms tl_InputChannel.tl_codec_axioms)

definition readTLInputPeerNotifySettings :: tl_reader where
  "readTLInputPeerNotifySettings = read_object
     [(- 892638494, [rd ''flags'' readUInt32, rd_if ''flags'' 0 ''show_previews'' readBool,
         rd_if ''flags'' 1 ''silent'' readBool, rd_if ''flags'' 2 ''mute_until'' readInt32,
         rd_if ''flags'' 3 ''sound'' readTLNotificationSound,
         rd_if ''flags'' 6 ''stories_muted'' readBool,
         rd_if ''flags'' 7 ''stories_hide_sender'' readBool,
         rd_if ''flags'' 8 ''stories_sound'' readTLNotificationSound])]"

definition writeTLInputPeerNotifySettings :: tl_writer where
  "writeTLInputPeerNotifySettings = write_fobject
     [(- 892638494, [wf ''_'' writeInt32, wf_flags ''flags'' [(''show_previews'', 0), (''silent'',
         1), (''mute_until'', 2), (''sound'', 3), (''stories_muted'', 6), (''stories_hide_sender'',
         7), (''stories_sound'', 8)], wf_if ''flags'' 0 ''show_previews'' writeBool,
         wf_if ''flags'' 1 ''silent'' writeBool, wf_if ''flags'' 2 ''mute_until'' writeInt32,
         wf_if ''flags'' 3 ''sound'' writeTLNotificationSound,
         wf_if ''flags'' 6 ''stories_muted'' writeBool,
         wf_if ''flags'' 7 ''stories_hide_sender'' writeBool,
         wf_if ''flags'' 8 ''stories_sound'' writeTLNotificationSound])]"

definition TL_InputPeerNotifySettings_table :: flag_table where
  "TL_InputPeerNotifySettings_table =
     [(- 892638494, [Flags ''flags'' [(''show_previews'', 0), (''silent'', 1), (''mute_until'', 2),
         (''sound'', 3), (''stories_muted'', 6), (''stories_hide_sender'', 7), (''stories_sound'',
         8)],
        Cond ''flags'' 0 (''show_previews'', readBool, writeBool, enc_bool, is_VBool),
        Cond ''flags'' 1 (''silent'', readBool, writeBool, enc_bool, is_VBool),
        Cond ''flags'' 2 (''mute_until'', readInt32, writeInt32, enc_int32, is_VInt),
        Cond ''flags'' 3 (''sound'', readTLNotificationSound, writeTLNotificationSound,
         enc_fobject TL_NotificationSound_table, ok_fobject TL_NotificationSound_table),
        Cond ''flags'' 6 (''stories_muted'', readBool, writeBool, enc_bool, is_VBool),
        Cond ''flags'' 7 (''stories_hide_sender'', readBool, writeBool, enc_bool, is_VBool),
        Cond ''flags'' 8 (''stories_sound'', readTLNotificationSound, writeTLNotificationSound,
         enc_fobject TL_NotificationSound_table, ok_fobject TL_NotificationSound_table)])]"

interpretation tl_InputPeerNotifySettings: tl_codec readTLInputPeerNotifySettings writeTLInputPeerNotifySettings "enc_fobject TL_InputPeerNotifySettings_table" "ok_fobject TL_InputPeerNotifySettings_table"
  by (rule flag_schema_codec, unfold TL_InputPeerNotifySettings_table_def, intro flag_tableI)
    (simp_all add: readTLInputPeerNotifySettings_def writeTLInputPeerNotifySettings_def flag_schema_simps tl_NotificationSound.tl_codec_axioms)

definition readTLPeerSettings :: tl_reader where
  "readTLPeerSettings = read_object
     [(- 193510921, [rd ''flags'' readUInt32, set_if ''flags'' 0 ''report_spam'',
         set_if ''flags'' 1 ''add_contact'', set_if ''flags'' 2 ''block_contact'',
         set_if ''flags'' 3 ''share_contact'', set_if ''flags'' 4 ''need_contacts_exception'',
         set_if ''flags'' 5 ''report_geo'', set_if ''flags'' 7 ''autoarchived'',
         set_if ''flags'' 8 ''invite_members'', set_if ''flags'' 10 ''request_chat_broadcast'',
         set_if ''flags'' 11 ''business_bot_paused'',
         set_if ''flags'' 12 ''business_bot_can_reply'',
         rd_if ''flags'' 6 ''geo_distance'' readInt32,
         rd_if ''flags'' 9 ''request_chat_title'' readString,
         rd_if ''flags'' 9 ''request_chat_date'' readInt32,
         rd_if ''flags'' 13 ''business_bot_id'' readInt64,
         rd_if ''flags'' 13 ''business_bot_manage_url'' readString,
         rd_if ''flags'' 14 ''charge_paid_message_stars'' readInt64,
         rd_if ''flags'' 15 ''registration_month'' readString,
         rd_if ''flags'' 16 ''phone_country'' readString,
         rd_if ''flags'' 17 ''name_change_date'' readInt32,
         rd_if ''flags'' 18 ''photo_change_date'' readInt32])]"

definition writeTLPeerSettings :: tl_writer where
  "writeTLPeerSettings = write_fobject
     [(- 193510921, [wf ''_'' writeInt32, wf_flags ''flags'' [(''report_spam'', 0),
         (''add_contact'', 1), (''block_contact'', 2), (''share_contact'', 3),
         (''need_contacts_exception'', 4), (''report_geo'', 5), (''autoarchived'', 7),
         (''invite_members'', 8), (''request_chat_broadcast'', 10), (''business_bot_paused'', 11),
         (''business_bot_can_reply'', 12), (''geo_distance'', 6), (''request_chat_title'', 9),
         (''request_chat_date'', 9), (''business_bot_id'', 13), (''business_bot_manage_url'', 13),
         (''charge_paid_message_stars'', 14), (''registration_month'', 15), (''phone_country'',
         16), (''name_change_date'', 17), (''photo_change_date'', 18)],
         wf_if ''flags'' 6 ''geo_distance'' writeInt32,
         wf_if ''flags'' 9 ''request_chat_title'' writeString,
         wf_if ''flags'' 9 ''request_chat_date'' writeInt32,
         wf_if ''flags'' 13 ''business_bot_id'' writeInt64,
         wf_if ''flags'' 13 ''business_bot_manage_url'' writeString,
         wf_if ''flags'' 14 ''charge_paid_message_stars'' writeInt64,
         wf_if ''flags'' 15 ''registration_month'' writeString,
         wf_if ''flags'' 16 ''phone_country'' writeString,
         wf_if ''flags'' 17 ''name_change_date'' writeInt32,
         wf_if ''flags'' 18 ''photo_change_date'' writeInt32])]"

definition TL_PeerSettings_table :: flag_table where
  "TL_PeerSettings_table =
     [(- 193510921, [Flags ''flags'' [(''report_spam'', 0), (''add_contact'', 1),
         (''block_contact'', 2), (''share_contact'', 3), (''need_contacts_exception'', 4),
         (''report_geo'', 5), (''autoarchived'', 7), (''invite_members'', 8),
         (''request_chat_broadcast'', 10), (''business_bot_paused'', 11),
         (''business_bot_can_reply'', 12), (''geo_distance'', 6), (''request_chat_title'', 9),
         (''request_chat_date'', 9), (''business_bot_id'', 13), (''business_bot_manage_url'', 13),
         (''charge_paid_message_stars'', 14), (''registration_month'', 15), (''phone_country'',
         16), (''name_change_date'', 17), (''photo_change_date'', 18)],
        TrueBit ''flags'' 0 ''report_spam'',
        TrueBit ''flags'' 1 ''add_contact'',
        TrueBit ''flags'' 2 ''block_contact'',
        TrueBit ''flags'' 3 ''share_contact'',
        TrueBit ''flags'' 4 ''need_contacts_exception'',
        TrueBit ''flags'' 5 ''report_geo'',
        TrueBit ''flags'' 7 ''autoarchived'',
        TrueBit ''flags'' 8 ''invite_members'',
        TrueBit ''flags'' 10 ''request_chat_broadcast'',
        TrueBit ''flags'' 11 ''business_bot_paused'',
        TrueBit ''flags'' 12 ''business_bot_can_reply'',
        Cond ''flags'' 6 (''geo_distance'', readInt32, writeInt32, enc_int32, is_VInt),
        Cond ''flags'' 9 (''request_chat_title'', readString, writeString, enc_string,
         is_short_text),
        Cond ''flags'' 9 (''request_chat_date'', readInt32, writeInt32, enc_int32, is_VInt),
        Cond ''flags'' 13 (''business_bot_id'', readInt64, writeInt64, enc_int64, is_VLong),
        Cond ''flags'' 13 (''business_bot_manage_url'', readString, writeString, enc_string,
         is_short_text),
        Cond ''flags'' 14 (''charge_paid_message_stars'', readInt64, writeInt64, enc_int64,
         is_VLong),
        Cond ''flags'' 15 (''registration_month'', readString, writeString, enc_string,
         is_short_text),
        Cond ''flags'' 16 (''phone_country'', readString, writeString, enc_string, is_short_text),
        Cond ''flags'' 17 (''name_change_date'', readInt32, writeInt32, enc_int32, is_VInt),
        Cond ''flags'' 18 (''photo_change_date'', readInt32, writeInt32, enc_int32, is_VInt)])]"

interpretation tl_PeerSettings: tl_codec readTLPeerSettings writeTLPeerSettings "enc_fobject TL_PeerSettings_table" "ok_fobject TL_PeerSettings_table"
  by (rule flag_schema_codec, unfold TL_PeerSettings_table_def, intro flag_tableI)
    (simp_all add: readTLPeerSettings_def writeTLPeerSettings_def flag_schema_simps)

definition readTLReportReason :: tl_reader where
  "readTLReportReason = read_object
     [(1490799288, []),
      (505595789, []),
      (777640226, []),
      (- 1376497949, []),
      (- 1041980751, []),
      (- 1685456582, []),
      (- 606798099, []),
      (- 170010905, []),
      (177124030, []),
      (- 1631091139, [])]"

definition writeTLReportReason :: tl_writer where
  "writeTLReportReason = write_fobject
     [(1490799288, [wf ''_'' writeInt32]),
      (505595789, [wf ''_'' writeInt32]),
      (777640226, [wf ''_'' writeInt32]),
      (- 1376497949, [wf ''_'' writeInt32]),
      (- 1041980751, [wf ''_'' writeInt32]),
      (- 1685456582, [wf ''_'' writeInt32]),
      (- 606798099, [wf ''_'' writeInt32]),
      (- 170010905, [wf ''_'' writeInt32]),
      (177124030, [wf ''_'' writeInt32]),
      (- 1631091139, [wf ''_'' writeInt32])]"

definition TL_ReportReason_table :: flag_table where
  "TL_ReportReason_table =
     [(1490799288, []),
      (505595789, []),
      (777640226, []),
      (- 1376497949, []),
      (- 1041980751, []),
      (- 1685456582, []),
      (- 606798099, []),
      (- 170010905, []),
      (177124030, []),
      (- 1631091139, [])]"

interpretation tl_ReportReason: tl_codec readTLReportReason writeTLReportReason "enc_fobject TL_ReportReason_table" "ok_fobject TL_ReportReason_table"
  by (rule flag_schema_codec, unfold TL_ReportReason_table_def, intro flag_tableI)
    (simp_all add: readTLReportReason_def writeTLReportReason_def flag_schema_simps)

definition readTLContact :: tl_reader where
  "readTLContact = read_object
     [(341499403, [rd ''user_id'' readInt64, rd ''mutual'' readBool])]"

definition writeTLContact :: tl_writer where
  "writeTLContact = write_fobject
     [(341499403, [wf ''_'' writeInt32, wf ''user_id'' writeInt64, wf ''mutual'' writeBool])]"

definition TL_Contact_table :: flag_table where
  "TL_Contact_table =
     [(341499403, [Plain (''user_id'', readInt64, writeInt64, enc_int64, is_VLong),
        Plain (''mutual'', readBool, writeBool, enc_bool, is_VBool)])]"

interpretation tl_Contact: tl_codec readTLContact writeTLContact "enc_fobject TL_Contact_table" "ok_fobject TL_Contact_table"
  by (rule flag_schema_codec, unfold TL_Contact_table_def, intro flag_tableI)
    (simp_all add: readTLContact_def writeTLContact_def flag_schema_simps)

definition readTLImportedContact :: tl_reader where
  "readTLImportedContact = read_object
     [(- 1052885936, [rd ''user_id'' readInt64, rd ''client_id'' readInt64])]"

definition writeTLImportedContact :: tl_writer where
  "writeTLImportedContact = write_fobject
     [(- 1052885936, [wf ''_'' writeInt32, wf ''user_id'' writeInt64,
         wf ''client_id'' writeInt64])]"

definition TL_ImportedContact_table :: flag_table where
  "TL_ImportedContact_table =
     [(- 1052885936, [Plain (''user_id'', readInt64, writeInt64, enc_int64, is_VLong),
        Plain (''client_id'', readInt64, writeInt64, enc_int64, is_VLong)])]"

interpretation tl_ImportedContact: tl_codec readTLImportedContact writeTLImportedContact "enc_fobject TL_ImportedContact_table" "ok_fobject TL_ImportedContact_table"
  by (rule flag_schema_codec, unfold TL_ImportedContact_table_def, intro flag_tableI)
    (simp_all add: readTLImportedContact_def writeTLImportedContact_def flag_schema_simps)

definition readTLContactStatus :: tl_reader where
  "readTLContactStatus = read_object
     [(383348795, [rd ''user_id'' readInt64, rd ''status'' readTLUserStatus])]"

definition writeTLContactStatus :: tl_writer where
  "writeTLContactStatus = write_fobject
     [(383348795, [wf ''_'' writeInt32, wf ''user_id'' writeInt64,
         wf ''status'' writeTLUserStatus])]"

definition TL_ContactStatus_table :: flag_table where
  "TL_ContactStatus_table =
     [(383348795, [Plain (''user_id'', readInt64, writeInt64, enc_int64, is_VLong),
        Plain (''status'', readTLUserStatus, writeTLUserStatus, enc_fobject TL_UserStatus_table,
         ok_fobject TL_UserStatus_table)])]"

interpretation tl_ContactStatus: tl_codec readTLContactStatus writeTLContactStatus "enc_fobject TL_ContactStatus_table" "ok_fobject TL_ContactStatus_table"
  by (rule flag_schema_codec, unfold TL_ContactStatus_table_def, intro flag_tableI)
    (simp_all add: readTLContactStatus_def writeTLContactStatus_def flag_schema_simps tl_UserStatus.tl_codec_axioms)

definition readTLContactsContacts :: tl_reader where
  "readTLContactsContacts = read_object
     [(- 1219778094, []),
      (- 353862078, [rd ''contacts'' (readVector (Some readTLContact)),
         rd ''saved_count'' readInt32, rd ''users'' (readVector (Some readTLUser))])]"

definition writeTLContactsContacts :: tl_writer where
  "writeTLContactsContacts = write_fobject
     [(- 1219778094, [wf ''_'' writeInt32]),
      (- 353862078, [wf ''_'' writeInt32, wf ''contacts'' (writeVector (Some writeTLContact)),
         wf ''saved_count'' writeInt32, wf ''users'' (writeVector (Some writeTLUser))])]"

definition TL_ContactsContacts_table :: flag_table where
  "TL_ContactsContacts_table =
     [(- 1219778094, []),
      (- 353862078, [Plain (''contacts'', readVector (Some readTLContact),
         writeVector (Some writeTLContact), enc_vector (enc_fobject TL_Contact_table),
         ok_vector (ok_fobject TL_Contact_table)),
        Plain (''saved_count'', readInt32, writeInt32, enc_int32, is_VInt),
        Plain (''users'', readVector (Some readTLUser), writeVector (Some writeTLUser),
         enc_vector (enc_fobject TL_User_table), ok_vector (ok_fobject TL_User_table))])]"

interpretation tl_ContactsContacts: tl_codec readTLContactsContacts writeTLContactsContacts "enc_fobject TL_ContactsContacts_table" "ok_fobject TL_ContactsContacts_table"
  by (rule flag_schema_codec, unfold TL_ContactsContacts_table_def, intro flag_tableI)
    (simp_all add: readTLContactsContacts_def writeTLContactsContacts_def flag_schema_simps tl_Contact.tl_codec_axioms tl_Contact.vector_codec tl_User.tl_codec_axioms tl_User.vector_codec)

definition readTLPopularContact :: tl_reader where
  "readTLPopularContact = read_object
     [(1558266229, [rd ''client_id'' readInt64, rd ''importers'' readInt32])]"

definition writeTLPopularContact :: tl_writer where
  "writeTLPopularContact = write_fobject
     [(1558266229, [wf ''_'' writeInt32, wf ''client_id'' writeInt64,
         wf ''importers'' writeInt32])]"

definition TL_PopularContact_table :: flag_table where
  "TL_PopularContact_table =
     [(1558266229, [Plain (''client_id'', readInt64, writeInt64, enc_int64, is_VLong),
        Plain (''importers'', readInt32, writeInt32, enc_int32, is_VInt)])]"

interpretation tl_PopularContact: tl_codec readTLPopularContact writeTLPopularContact "enc_fobject TL_PopularContact_table" "ok_fobject TL_PopularContact_table"
  by (rule flag_schema_codec, unfold TL_PopularContact_table_def, intro flag_tableI)
    (simp_all add: readTLPopularContact_def writeTLPopularContact_def flag_schema_simps)

definition readTLContactsImportedContacts :: tl_reader where
  "readTLContactsImportedContacts = read_object
     [(2010127419, [rd ''imported'' (readVector (Some readTLImportedContact)),
         rd ''popular_invites'' (readVector (Some readTLPopularContact)),
         rd ''retry_contacts'' (readVector (Some readInt64)),
         rd ''users'' (readVector (Some readTLUser))])]"

definition writeTLContactsImportedContacts :: tl_writer where
  "writeTLContactsImportedContacts = write_fobject
     [(2010127419, [wf ''_'' writeInt32,
         wf ''imported'' (writeVector (Some writeTLImportedContact)),
         wf ''popular_invites'' (writeVector (Some writeTLPopularContact)),
         wf ''retry_contacts'' (writeVector (Some writeInt64)),
         wf ''users'' (writeVector (Some writeTLUser))])]"

definition TL_ContactsImportedContacts_table :: flag_table where
  "TL_ContactsImportedContacts_table =
     [(2010127419, [Plain (''imported'', readVector (Some readTLImportedContact),
         writeVector (Some writeTLImportedContact),
         enc_vector (enc_fobject TL_ImportedContact_table),
         ok_vector (ok_fobject TL_ImportedContact_table)),
        Plain (''popular_invites'', readVector (Some readTLPopularContact),
         writeVector (Some writeTLPopularContact),
         enc_vector (enc_fobject TL_PopularContact_table),
         ok_vector (ok_fobject TL_PopularContact_table)),
        Plain (''retry_contacts'', readVector (Some readInt64), writeVector (Some writeInt64),
         enc_vector enc_int64, ok_vector is_VLong),
        Plain (''users'', readVector (Some readTLUser), writeVector (Some writeTLUser),
         enc_vector (enc_fobject TL_User_table), ok_vector (ok_fobject TL_User_table))])]"

interpretation tl_ContactsImportedContacts: tl_codec readTLContactsImportedContacts writeTLContactsImportedContacts "enc_fobject TL_ContactsImportedContacts_table" "ok_fobject TL_ContactsImportedContacts_table"
  by (rule flag_schema_codec, unfold TL_ContactsImportedContacts_table_def, intro flag_tableI)
    (simp_all add: readTLContactsImportedContacts_def writeTLContactsImportedContacts_def flag_schema_simps tl_ImportedContact.tl_codec_axioms tl_ImportedContact.vector_codec tl_PopularContact.tl_codec_axioms tl_PopularContact.vector_codec tl_User.tl_codec_axioms tl_User.vector_codec)

definition readTLPeerBlocked :: tl_reader where
  "readTLPeerBlocked = read_object
     [(- 386039788, [rd ''peer_id'' readTLPeer, rd ''date'' readInt32])]"

definition writeTLPeerBlocked :: tl_writer where
  "writeTLPeerBlocked = write_fobject
     [(- 386039788, [wf ''_'' writeInt32, wf ''peer_id'' writeTLPeer, wf ''date'' writeInt32])]"

definition TL_PeerBlocked_table :: flag_table where
  "TL_PeerBlocked_table =
     [(- 386039788, [Plain (''peer_id'', readTLPeer, writeTLPeer, enc_fobject TL_Peer_table,
         ok_fobject TL_Peer_table),
        Plain (''date'', readInt32, writeInt32, enc_int32, is_VInt)])]"

interpretation tl_PeerBlocked: tl_codec readTLPeerBlocked writeTLPeerBlocked "enc_fobject TL_PeerBlocked_table" "ok_fobject TL_PeerBlocked_table"
  by (rule flag_schema_codec, unfold TL_PeerBlocked_table_def, intro flag_tableI)
    (simp_all add: readTLPeerBlocked_def writeTLPeerBlocked_def flag_schema_simps tl_Peer.tl_codec_axioms)

definition readTLContactsBlocked :: tl_reader where
  "readTLContactsBlocked = read_object
     [(182326673, [rd ''blocked'' (readVector (Some readTLPeerBlocked)),
         rd ''chats'' (readVector (Some readTLChat)), rd ''users'' (readVector (Some readTLUser))]),
      (- 513392236, [rd ''count'' readInt32, rd ''blocked'' (readVector (Some readTLPeerBlocked)),
         rd ''chats'' (readVector (Some readTLChat)),
         rd ''users'' (readVector (Some readTLUser))])]"

definition writeTLContactsBlocked :: tl_writer where
  "writeTLContactsBlocked = write_fobject
     [(182326673, [wf ''_'' writeInt32, wf ''blocked'' (writeVector (Some writeTLPeerBlocked)),
         wf ''chats'' (writeVector (Some writeTLChat)),
         wf ''users'' (writeVector (Some writeTLUser))]),
      (- 513392236, [wf ''_'' writeInt32, wf ''count'' writeInt32,
         wf ''blocked'' (writeVector (Some writeTLPeerBlocked)),
         wf ''chats'' (writeVector (Some writeTLChat)),
         wf ''users'' (writeVector (Some writeTLUser))])]"

definition TL_ContactsBlocked_table :: flag_table where
  "TL_ContactsBlocked_table =
     [(182326673, [Plain (''blocked'', readVector (Some readTLPeerBlocked),
         writeVector (Some writeTLPeerBlocked), enc_vector (enc_fobject TL_PeerBlocked_table),
         ok_vector (ok_fobject TL_PeerBlocked_table)),
        Plain (''chats'', readVector (Some readTLChat), writeVector (Some writeTLChat),
         enc_vector (enc_fobject TL_Chat_table), ok_vector (ok_fobject TL_Chat_table)),
        Plain (''users'', readVector (Some readTLUser), writeVector (Some writeTLUser),
         enc_vector (enc_fobject TL_User_table), ok_vector (ok_fobject TL_User_table))]),
      (- 513392236, [Plain (''count'', readInt32, writeInt32, enc_int32, is_VInt),
        Plain (''blocked'', readVector (Some readTLPeerBlocked),
         writeVector (Some writeTLPeerBlocked), enc_vector (enc_fobject TL_PeerBlocked_table),
         ok_vector (ok_fobject TL_PeerBlocked_table)),
        Plain (''chats'', readVector (Some readTLChat), writeVector (Some writeTLChat),
         enc_vector (enc_fobject TL_Chat_table), ok_vector (ok_fobject TL_Chat_table)),
        Plain (''users'', readVector (Some readTLUser), writeVector (Some writeTLUser),
         enc_vector (enc_fobject TL_User_table), ok_vector (ok_fobject TL_User_table))])]"

interpretation tl_ContactsBlocked: tl_codec readTLContactsBlocked writeTLContactsBlocked "enc_fobject TL_ContactsBlocked_table" "ok_fobject TL_ContactsBlocked_table"
  by (rule flag_schema_codec, unfold TL_ContactsBlocked_table_def, intro flag_tableI)
    (simp_all add: readTLContactsBlocked_def writeTLContactsBlocked_def flag_schema_simps tl_PeerBlocked.tl_codec_axioms tl_PeerBlocked.vector_codec tl_Chat.tl_codec_axioms tl_Chat.vector_codec tl_User.tl_codec_axioms tl_User.vector_codec)

definition readTLMessagesChats :: tl_reader where
  "readTLMessagesChats = read_object
     [(1694474197, [rd ''chats'' (readVector (Some readTLChat))]),
      (- 1663561404, [rd ''count'' readInt32, rd ''chats'' (readVector (Some readTLChat))])]"

definition writeTLMessagesChats :: tl_writer where
  "writeTLMessagesChats = write_fobject
     [(1694474197, [wf ''_'' writeInt32, wf ''chats'' (writeVector (Some writeTLChat))]),
      (- 1663561404, [wf ''_'' writeInt32, wf ''count'' writeInt32,
         wf ''chats'' (writeVector (Some writeTLChat))])]"

definition TL_MessagesChats_table :: flag_table where
  "TL_MessagesChats_table =
     [(1694474197, [Plain (''chats'', readVector (Some readTLChat), writeVector (Some writeTLChat),
         enc_vector (enc_fobject TL_Chat_table), ok_vector (ok_fobject TL_Chat_table))]),
      (- 1663561404, [Plain (''count'', readInt32, writeInt32, enc_int32, is_VInt),
        Plain (''chats'', readVector (Some readTLChat), writeVector (Some writeTLChat),
         enc_vector (enc_fobject TL_Chat_table), ok_vector (ok_fobject TL_Chat_table))])]"

interpretation tl_MessagesChats: tl_codec readTLMessagesChats writeTLMessagesChats "enc_fobject TL_MessagesChats_table" "ok_fobject TL_MessagesChats_table"
  by (rule flag_schema_codec, unfold TL_MessagesChats_table_def, intro flag_tableI)
    (simp_all add: readTLMessagesChats_def writeTLMessagesChats_def flag_schema_simps tl_Chat.tl_codec_axioms tl_Chat.vector_codec)

definition readTLMessagesAffectedHistory :: tl_reader where
  "readTLMessagesAffectedHistory = read_object
     [(- 1269012015, [rd ''pts'' readInt32, rd ''pts_count'' readInt32, rd ''offset'' readInt32])]"

definition writeTLMessagesAffectedHistory :: tl_writer where
  "writeTLMessagesAffectedHistory = write_fobject
     [(- 1269012015, [wf ''_'' writeInt32, wf ''pts'' writeInt32, wf ''pts_count'' writeInt32,
         wf ''offset'' writeInt32])]"

definition TL_MessagesAffectedHistory_table :: flag_table where
  "TL_MessagesAffectedHistory_table =
     [(- 1269012015, [Plain (''pts'', readInt32, writeInt32, enc_int32, is_VInt),
        Plain (''pts_count'', readInt32, writeInt32, enc_int32, is_VInt),
        Plain (''offset'', readInt32, writeInt32, enc_int32, is_VInt)])]"

interpretation tl_MessagesAffectedHistory: tl_codec readTLMessagesAffectedHistory writeTLMessagesAffectedHistory "enc_fobject TL_MessagesAffectedHistory_table" "ok_fobject TL_MessagesAffectedHistory_table"
  by (rule flag_schema_codec, unfold TL_MessagesAffectedHistory_table_def, intro flag_tableI)
    (simp_all add: readTLMessagesAffectedHistory_def writeTLMessagesAffectedHistory_def flag_schema_simps)

definition readTLMessagesFilter :: tl_reader where
  "readTLMessagesFilter = read_object
     [(1474492012, []),
      (- 1777752804, []),
      (- 1614803355, []),
      (1458172132, []),
      (- 1629621880, []),
      (2129714567, []),
      (- 3644025, []),
      (1358283666, []),
      (928101534, []),
      (975236280, []),
      (- 2134272152, [rd ''flags'' readUInt32, set_if ''flags'' 0 ''missed'']),
      (2054952868, []),
      (- 1253451181, []),
      (- 1040652646, []),
      (- 419271411, []),
      (- 530392189, []),
      (464520273, []),
      (- 97793782, [])]"

definition writeTLMessagesFilter :: tl_writer where
  "writeTLMessagesFilter = write_fobject
     [(1474492012, [wf ''_'' writeInt32]),
      (- 1777752804, [wf ''_'' writeInt32]),
      (- 1614803355, [wf ''_'' writeInt32]),
      (1458172132, [wf ''_'' writeInt32]),
      (- 1629621880, [wf ''_'' writeInt32]),
      (2129714567, [wf ''_'' writeInt32]),
      (- 3644025, [wf ''_'' writeInt32]),
      (1358283666, [wf ''_'' writeInt32]),
      (928101534, [wf ''_'' writeInt32]),
      (975236280, [wf ''_'' writeInt32]),
      (- 2134272152, [wf ''_'' writeInt32, wf_flags ''flags'' [(''missed'', 0)]]),
      (2054952868, [wf ''_'' writeInt32]),
      (- 1253451181, [wf ''_'' writeInt32]),
      (- 1040652646, [wf ''_'' writeInt32]),
      (- 419271411, [wf ''_'' writeInt32]),
      (- 530392189, [wf ''_'' writeInt32]),
      (464520273, [wf ''_'' writeInt32]),
      (- 97793782, [wf ''_'' writeInt32])]"

definition TL_MessagesFilter_table :: flag_table where
  "TL_MessagesFilter_table =
     [(1474492012, []),
      (- 1777752804, []),
      (- 1614803355, []),
      (1458172132, []),
      (- 1629621880, []),
      (2129714567, []),
      (- 3644025, []),
      (1358283666, []),
      (928101534, []),
      (975236280, []),
      (- 2134272152, [Flags ''flags'' [(''missed'', 0)],
        TrueBit ''flags'' 0 ''missed'']),
      (2054952868, []),
      (- 1253451181, []),
      (- 1040652646, []),
      (- 419271411, []),
      (- 530392189, []),
      (464520273, []),
      (- 97793782, [])]"

interpretation tl_MessagesFilter: tl_codec readTLMessagesFilter writeTLMessagesFilter "enc_fobject TL_MessagesFilter_table" "ok_fobject TL_MessagesFilter_table"
  by (rule flag_schema_codec, unfold TL_MessagesFilter_table_def, intro flag_tableI)
    (simp_all add: readTLMessagesFilter_def writeTLMessagesFilter_def flag_schema_simps)

definition readTLNearestDc :: tl_reader where
  "readTLNearestDc = read_object
     [(- 1910892683, [rd ''country'' readString, rd ''this_dc'' readInt32,
         rd ''nearest_dc'' readInt32])]"

definition writeTLNearestDc :: tl_writer where
  "writeTLNearestDc = write_fobject
     [(- 1910892683, [wf ''_'' writeInt32, wf ''country'' writeString, wf ''this_dc'' writeInt32,
         wf ''nearest_dc'' writeInt32])]"

definition TL_NearestDc_table :: flag_table where
  "TL_NearestDc_table =
     [(- 1910892683, [Plain (''country'', readString, writeString, enc_string, is_short_text),
        Plain (''this_dc'', readInt32, writeInt32, enc_int32, is_VInt),
        Plain (''nearest_dc'', readInt32, writeInt32, enc_int32, is_VInt)])]"

interpretation tl_NearestDc: tl_codec readTLNearestDc writeTLNearestDc "enc_fobject TL_NearestDc_table" "ok_fobject TL_NearestDc_table"
  by (rule flag_schema_codec, unfold TL_NearestDc_table_def, intro flag_tableI)
    (simp_all add: readTLNearestDc_def writeTLNearestDc_def flag_schema_simps)

definition readTLHelpInviteText :: tl_reader where
  "readTLHelpInviteText = read_object
     [(415997816, [rd ''message'' readString])]"

definition writeTLHelpInviteText :: tl_writer where
  "writeTLHelpInviteText = write_fobject
     [(415997816, [wf ''_'' writeInt32, wf ''message'' writeString])]"

definition TL_HelpInviteText_table :: flag_table where
  "TL_HelpInviteText_table =
     [(415997816, [Plain (''message'', readString, writeString, enc_string, is_short_text)])]"

interpretation tl_HelpInviteText: tl_codec readTLHelpInviteText writeTLHelpInviteText "enc_fobject TL_HelpInviteText_table" "ok_fobject TL_HelpInviteText_table"
  by (rule flag_schema_codec, unfold TL_HelpInviteText_table_def, intro flag_tableI)
    (simp_all add: readTLHelpInviteText_def writeTLHelpInviteText_def flag_schema_simps)

definition readTLEncryptedChat :: tl_reader where
  "readTLEncryptedChat = read_object
     [(- 1417756512, [rd ''id'' readInt32]),
      (1722964307, [rd ''id'' readInt32, rd ''access_hash'' readInt64, rd ''date'' readInt32,
         rd ''admin_id'' readInt64, rd ''participant_id'' readInt64]),
      (1223809356, [rd ''flags'' readUInt32, rd_if ''flags'' 0 ''folder_id'' readInt32,
         rd ''id'' readInt32, rd ''access_hash'' readInt64, rd ''date'' readInt32,
         rd ''admin_id'' readInt64, rd ''participant_id'' readInt64, rd ''g_a'' readByteArray]),
      (1643173063, [rd ''id'' readInt32, rd ''access_hash'' readInt64, rd ''date'' readInt32,
         rd ''admin_id'' readInt64, rd ''participant_id'' readInt64, rd ''g_a_or_b'' readByteArray,
         rd ''key_fingerprint'' readInt64]),
      (505183301, [rd ''flags'' readUInt32, set_if ''flags'' 0 ''history_deleted'',
         rd ''id'' readInt32])]"

definition writeTLEncryptedChat :: tl_writer where
  "writeTLEncryptedChat = write_fobject
     [(- 1417756512, [wf ''_'' writeInt32, wf ''id'' writeInt32]),
      (1722964307, [wf ''_'' writeInt32, wf ''id'' writeInt32, wf ''access_hash'' writeInt64,
         wf ''date'' writeInt32, wf ''admin_id'' writeInt64, wf ''participant_id'' writeInt64]),
      (1223809356, [wf ''_'' writeInt32, wf_flags ''flags'' [(''folder_id'', 0)],
         wf_if ''flags'' 0 ''folder_id'' writeInt32, wf ''id'' writeInt32,
         wf ''access_hash'' writeInt64, wf ''date'' writeInt32, wf ''admin_id'' writeInt64,
         wf ''participant_id'' writeInt64, wf ''g_a'' writeByteArray]),
      (1643173063, [wf ''_'' writeInt32, wf ''id'' writeInt32, wf ''access_hash'' writeInt64,
         wf ''date'' writeInt32, wf ''admin_id'' writeInt64, wf ''participant_id'' writeInt64,
         wf ''g_a_or_b'' writeByteArray, wf ''key_fingerprint'' writeInt64]),
      (505183301, [wf ''_'' writeInt32, wf_flags ''flags'' [(''history_deleted'', 0)],
         wf ''id'' writeInt32])]"

definition TL_EncryptedChat_table :: flag_table where
  "TL_EncryptedChat_table =
     [(- 1417756512, [Plain (''id'', readInt32, writeInt32, enc_int32, is_VInt)]),
      (1722964307, [Plain (''id'', readInt32, writeInt32, enc_int32, is_VInt),
        Plain (''access_hash'', readInt64, writeInt64, enc_int64, is_VLong),
        Plain (''date'', readInt32, writeInt32, enc_int32, is_VInt),
        Plain (''admin_id'', readInt64, writeInt64, enc_int64, is_VLong),
        Plain (''participant_id'', readInt64, writeInt64, enc_int64, is_VLong)]),
      (1223809356, [Flags ''flags'' [(''folder_id'', 0)],
        Cond ''flags'' 0 (''folder_id'', readInt32, writeInt32, enc_int32, is_VInt),
        Plain (''id'', readInt32, writeInt32, enc_int32, is_VInt),
        Plain (''access_hash'', readInt64, writeInt64, enc_int64, is_VLong),
        Plain (''date'', readInt32, writeInt32, enc_int32, is_VInt),
        Plain (''admin_id'', readInt64, writeInt64, enc_int64, is_VLong),
        Plain (''participant_id'', readInt64, writeInt64, enc_int64, is_VLong),
        Plain (''g_a'', readByteArray, writeByteArray, enc_bytes, is_short_bytes)]),
      (1643173063, [Plain (''id'', readInt32, writeInt32, enc_int32, is_VInt),
        Plain (''access_hash'', readInt64, writeInt64, enc_int64, is_VLong),
        Plain (''date'', readInt32, writeInt32, enc_int32, is_VInt),
        Plain (''admin_id'', readInt64, writeInt64, enc_int64, is_VLong),
        Plain (''participant_id'', readInt64, writeInt64, enc_int64, is_VLong),
        Plain (''g_a_or_b'', readByteArray, writeByteArray, enc_bytes, is_short_bytes),
        Plain (''key_fingerprint'', readInt64, writeInt64, enc_int64, is_VLong)]),
      (505183301, [Flags ''flags'' [(''history_deleted'', 0)],
        TrueBit ''flags'' 0 ''history_deleted'',
        Plain (''id'', readInt32, writeInt32, enc_int32, is_VInt)])]"

interpretation tl_EncryptedChat: tl_codec readTLEncryptedChat writeTLEncryptedChat "enc_fobject TL_EncryptedChat_table" "ok_fobject TL_EncryptedChat_table"
  by (rule flag_schema_codec, unfold TL_EncryptedChat_table_def, intro flag_tableI)
    (simp_all add: readTLEncryptedChat_def writeTLEncryptedChat_def flag_schema_simps)

definition readTLInputEncryptedChat :: tl_reader where
  "readTLInputEncryptedChat = read_object
     [(- 247351839, [rd ''chat_id'' readInt32, rd ''access_hash'' readInt64])]"

definition writeTLInputEncryptedChat :: tl_writer where
  "writeTLInputEncryptedChat = write_fobject
     [(- 247351839, [wf ''_'' writeInt32, wf ''chat_id'' writeInt32,
         wf ''access_hash'' writeInt64])]"

definition TL_InputEncryptedChat_table :: flag_table where
  "TL_InputEncryptedChat_table =
     [(- 247351839, [Plain (''chat_id'', readInt32, writeInt32, enc_int32, is_VInt),
        Plain (''access_hash'', readInt64, writeInt64, enc_int64, is_VLong)])]"

interpretation tl_InputEncryptedChat: tl_codec readTLInputEncryptedChat writeTLInputEncryptedChat "enc_fobject TL_InputEncryptedChat_table" "ok_fobject TL_InputEncryptedChat_table"
  by (rule flag_schema_codec, unfold TL_InputEncryptedChat_table_def, intro flag_tableI)
    (simp_all add: readTLInputEncryptedChat_def writeTLInputEncryptedChat_def flag_schema_simps)

subsection \<open>The types since the last list at once\<close>

definition tl_types_part1 :: "(tl_reader \<times> tl_writer \<times> flag_table) list" where
  "tl_types_part1 =
     [(readTLBool, writeTLBool, TL_Bool_table),
      (readTLTrue, writeTLTrue, TL_True_table),
      (readTLVector, writeTLVector, TL_Vector_table),
      (readTLError, writeTLError, TL_Error_table),
      (readTLNull, writeTLNull, TL_Null_table),
      (readTLInputContact, writeTLInputContact, TL_InputContact_table),
      (readTLInputPhoto, writeTLInputPhoto, TL_InputPhoto_table),
      (readTLChatParticipant, writeTLChatParticipant, TL_ChatParticipant_table),
      (readTLChatParticipants, writeTLChatParticipants, TL_ChatParticipants_table),
      (readTLPhotoSize, writeTLPhotoSize, TL_PhotoSize_table),
      (readTLMessageFwdHeader, writeTLMessageFwdHeader, TL_MessageFwdHeader_table),
      (readTLNotificationSound, writeTLNotificationSound, TL_NotificationSound_table),
      (readTLPeerNotifySettings, writeTLPeerNotifySettings, TL_PeerNotifySettings_table),
      (readTLInputReplyTo, writeTLInputReplyTo, TL_InputReplyTo_table),
      (readTLAuthSentCode, writeTLAuthSentCode, TL_AuthSentCode_table),
      (readTLInputNotifyPeer, writeTLInputNotifyPeer, TL_InputNotifyPeer_table),
      (readTLInputPeerNotifySettings, writeTLInputPeerNotifySettings, TL_InputPeerNotifySettings_table),
      (readTLPeerSettings, writeTLPeerSettings, TL_PeerSettings_table),
      (readTLReportReason, writeTLReportReason, TL_ReportReason_table),
      (readTLContact, writeTLContact, TL_Contact_table),
      (readTLImportedContact, writeTLImportedContact, TL_ImportedContact_table),
      (readTLContactStatus, writeTLContactStatus, TL_ContactStatus_table),
      (readTLContactsContacts, writeTLContactsContacts, TL_ContactsContacts_table),
      (readTLPopularContact, writeTLPopularContact, TL_PopularContact_table),
      (readTLContactsImportedContacts, writeTLContactsImportedContacts, TL_ContactsImportedContacts_table),
      (readTLPeerBlocked, writeTLPeerBlocked, TL_PeerBlocked_table),
      (readTLContactsBlocked, writeTLContactsBlocked, TL_ContactsBlocked_table),
      (readTLMessagesChats, writeTLMessagesChats, TL_MessagesChats_table),
      (readTLMessagesAffectedHistory, writeTLMessagesAffectedHistory, TL_MessagesAffectedHistory_table),
      (readTLMessagesFilter, writeTLMessagesFilter, TL_MessagesFilter_table),
      (readTLNearestDc, writeTLNearestDc, TL_NearestDc_table),
      (readTLHelpInviteText, writeTLHelpInviteText, TL_HelpInviteText_table),
      (readTLEncryptedChat, writeTLEncryptedChat, TL_EncryptedChat_table),
      (readTLInputEncryptedChat, writeTLInputEncryptedChat, TL_InputEncryptedChat_table)]"

lemma tl_types_part1_codec: "(R, W, t) \<in> set tl_types_part1 \<Longrightarrow> tl_codec R W (enc_fobject t) (ok_fobject t)"
  by (auto simp: tl_types_part1_def
      intro: tl_Bool.tl_codec_axioms tl_True.tl_codec_axioms tl_Vector.tl_codec_axioms
         tl_Error.tl_codec_axioms tl_Null.tl_codec_axioms tl_InputContact.tl_codec_axioms
         tl_InputPhoto.tl_codec_axioms tl_ChatParticipant.tl_codec_axioms
         tl_ChatParticipants.tl_codec_axioms tl_PhotoSize.tl_codec_axioms
         tl_MessageFwdHeader.tl_codec_axioms tl_NotificationSound.tl_codec_axioms
         tl_PeerNotifySettings.tl_codec_axioms tl_InputReplyTo.tl_codec_axioms
         tl_AuthSentCode.tl_codec_axioms tl_InputNotifyPeer.tl_codec_axioms
         tl_InputPeerNotifySettings.tl_codec_axioms tl_PeerSettings.tl_codec_axioms
         tl_ReportReason.tl_codec_axioms tl_Contact.tl_codec_axioms
         tl_ImportedContact.tl_codec_axioms tl_ContactStatus.tl_codec_axioms
         tl_ContactsContacts.tl_codec_axioms tl_PopularContact.tl_codec_axioms
         tl_ContactsImportedContacts.tl_codec_axioms tl_PeerBlocked.tl_codec_axioms
         tl_ContactsBlocked.tl_codec_axioms tl_MessagesChats.tl_codec_axioms
         tl_MessagesAffectedHistory.tl_codec_axioms tl_MessagesFilter.tl_codec_axioms
         tl_NearestDc.tl_codec_axioms tl_HelpInviteText.tl_codec_axioms
         tl_EncryptedChat.tl_codec_axioms tl_InputEncryptedChat.tl_codec_axioms)

definition readTLEncryptedFile :: tl_reader where
  "readTLEncryptedFile = read_object
     [(- 1038136962, []),
      (- 1476358952, [rd ''id'' readInt64, rd ''access_hash'' readInt64, rd ''size'' readInt64,
         rd ''dc_id'' readInt32, rd ''key_fingerprint'' readInt32])]"

definition writeTLEncryptedFile :: tl_writer where
  "writeTLEncryptedFile = write_fobject
     [(- 1038136962, [wf ''_'' writeInt32]),
      (- 1476358952, [wf ''_'' writeInt32, wf ''id'' writeInt64, wf ''access_hash'' writeInt64,
         wf ''size'' writeInt64, wf ''dc_id'' writeInt32, wf ''key_fingerprint'' writeInt32])]"

definition TL_EncryptedFile_table :: flag_table where
  "TL_EncryptedFile_table =
     [(- 1038136962, []),
      (- 1476358952, [Plain (''id'', readInt64, writeInt64, enc_int64, is_VLong),
        Plain (''access_hash'', readInt64, writeInt64, enc_int64, is_VLong),
        Plain (''size'', readInt64, writeInt64, enc_int64, is_VLong),
        Plain (''dc_id'', readInt32, writeInt32, enc_int32, is_VInt),
        Plain (''key_fingerprint'', readInt32, writeInt32, enc_int32, is_VInt)])]"

interpretation tl_EncryptedFile: tl_codec readTLEncryptedFile writeTLEncryptedFile "enc_fobject TL_EncryptedFile_table" "ok_fobject TL_EncryptedFile_table"
  by (rule flag_schema_codec, unfold TL_EncryptedFile_table_def, intro flag_tableI)
    (simp_all add: readTLEncryptedFile_def writeTLEncryptedFile_def flag_schema_simps)

definition readTLInputEncryptedFile :: tl_reader where
  "readTLInputEncryptedFile = read_object
     [(406307684, []),
      (1690108678, [rd ''id'' readInt64, rd ''parts'' readInt32, rd ''md5_checksum'' readString,
         rd ''key_fingerprint'' readInt32]),
      (1511503333, [rd ''id'' readInt64, rd ''access_hash'' readInt64]),
      (767652808, [rd ''id'' readInt64, rd ''parts'' readInt32, rd ''key_fingerprint'' readInt32])]"

definition writeTLInputEncryptedFile :: tl_writer where
  "writeTLInputEncryptedFile = write_fobject
     [(406307684, [wf ''_'' writeInt32]),
      (1690108678, [wf ''_'' writeInt32, wf ''id'' writeInt64, wf ''parts'' writeInt32,
         wf ''md5_checksum'' writeString, wf ''key_fingerprint'' writeInt32]),
      (1511503333, [wf ''_'' writeInt32, wf ''id'' writeInt64, wf ''access_hash'' writeInt64]),
      (767652808, [wf ''_'' writeInt32, wf ''id'' writeInt64, wf ''parts'' writeInt32,
         wf ''key_fingerprint'' writeInt32])]"

definition TL_InputEncryptedFile_table :: flag_table where
  "TL_InputEncryptedFile_table =
     [(406307684, []),
      (1690108678, [Plain (''id'', readInt64, writeInt64, enc_int64, is_VLong),
        Plain (''parts'', readInt32, writeInt32, enc_int32, is_VInt),
        Plain (''md5_checksum'', readString, writeString, enc_string, is_short_text),
        Plain (''key_fingerprint'', readInt32, writeInt32, enc_int32, is_VInt)]),
      (1511503333, [Plain (''id'', readInt64, writeInt64, enc_int64, is_VLong),
        Plain (''access_hash'', readInt64, writeInt64, enc_int64, is_VLong)]),
      (767652808, [Plain (''id'', readInt64, writeInt64, enc_int64, is_VLong),
        Plain (''parts'', readInt32, writeInt32, enc_int32, is_VInt),
        Plain (''key_fingerprint'', readInt32, writeInt32, enc_int32, is_VInt)])]"

interpretation tl_InputEncryptedFile: tl_codec readTLInputEncryptedFile writeTLInputEncryptedFile "enc_fobject TL_InputEncryptedFile_table" "ok_fobject TL_InputEncryptedFile_table"
  by (rule flag_schema_codec, unfold TL_InputEncryptedFile_table_def, intro flag_tableI)
    (simp_all add: readTLInputEncryptedFile_def writeTLInputEncryptedFile_def flag_schema_simps)

definition readTLEncryptedMessage :: tl_reader where
  "readTLEncryptedMessage = read_object
     [(- 317144808, [rd ''random_id'' readInt64, rd ''chat_id'' readInt32, rd ''date'' readInt32,
         rd ''bytes'' readByteArray, rd ''file'' readTLEncryptedFile]),
      (594758406, [rd ''random_id'' readInt64, rd ''chat_id'' readInt32, rd ''date'' readInt32,
         rd ''bytes'' readByteArray])]"

definition writeTLEncryptedMessage :: tl_writer where
  "writeTLEncryptedMessage = write_fobject
     [(- 317144808, [wf ''_'' writeInt32, wf ''random_id'' writeInt64, wf ''chat_id'' writeInt32,
         wf ''date'' writeInt32, wf ''bytes'' writeByteArray, wf ''file'' writeTLEncryptedFile]),
      (594758406, [wf ''_'' writeInt32, wf ''random_id'' writeInt64, wf ''chat_id'' writeInt32,
         wf ''date'' writeInt32, wf ''bytes'' writeByteArray])]"

definition TL_EncryptedMessage_table :: flag_table where
  "TL_EncryptedMessage_table =
     [(- 317144808, [Plain (''random_id'', readInt64, writeInt64, enc_int64, is_VLong),
        Plain (''chat_id'', readInt32, writeInt32, enc_int32, is_VInt),
        Plain (''date'', readInt32, writeInt32, enc_int32, is_VInt),
        Plain (''bytes'', readByteArray, writeByteArray, enc_bytes, is_short_bytes),
        Plain (''file'', readTLEncryptedFile, writeTLEncryptedFile,
         enc_fobject TL_EncryptedFile_table, ok_fobject TL_EncryptedFile_table)]),
      (594758406, [Plain (''random_id'', readInt64, writeInt64, enc_int64, is_VLong),
        Plain (''chat_id'', readInt32, writeInt32, enc_int32, is_VInt),
        Plain (''date'', readInt32, writeInt32, enc_int32, is_VInt),
        Plain (''bytes'', readByteArray, writeByteArray, enc_bytes, is_short_bytes)])]"

interpretation tl_EncryptedMessage: tl_codec readTLEncryptedMessage writeTLEncryptedMessage "enc_fobject TL_EncryptedMessage_table" "ok_fobject TL_EncryptedMessage_table"
  by (rule flag_schema_codec, unfold TL_EncryptedMessage_table_def, intro flag_tableI)
    (simp_all add: readTLEncryptedMessage_def writeTLEncryptedMessage_def flag_schema_simps tl_EncryptedFile.tl_codec_axioms)

definition readTLMessagesDhConfig :: tl_reader where
  "readTLMessagesDhConfig = read_object
     [(- 1058912715, [rd ''random'' readByteArray]),
      (740433629, [rd ''g'' readInt32, rd ''p'' readByteArray, rd ''version'' readInt32,
         rd ''random'' readByteArray])]"

definition writeTLMessagesDhConfig :: tl_writer where
  "writeTLMessagesDhConfig = write_fobject
     [(- 1058912715, [wf ''_'' writeInt32, wf ''random'' writeByteArray]),
      (740433629, [wf ''_'' writeInt32, wf ''g'' writeInt32, wf ''p'' writeByteArray,
         wf ''version'' writeInt32, wf ''random'' writeByteArray])]"

definition TL_MessagesDhConfig_table :: flag_table where
  "TL_MessagesDhConfig_table =
     [(- 1058912715, [Plain (''random'', readByteArray, writeByteArray, enc_bytes,
         is_short_bytes)]),
      (740433629, [Plain (''g'', readInt32, writeInt32, enc_int32, is_VInt),
        Plain (''p'', readByteArray, writeByteArray, enc_bytes, is_short_bytes),
        Plain (''version'', readInt32, writeInt32, enc_int32, is_VInt),
        Plain (''random'', readByteArray, writeByteArray, enc_bytes, is_short_bytes)])]"

interpretation tl_MessagesDhConfig: tl_codec readTLMessagesDhConfig writeTLMessagesDhConfig "enc_fobject TL_MessagesDhConfig_table" "ok_fobject TL_MessagesDhConfig_table"
  by (rule flag_schema_codec, unfold TL_MessagesDhConfig_table_def, intro flag_tableI)
    (simp_all add: readTLMessagesDhConfig_def writeTLMessagesDhConfig_def flag_schema_simps)

definition readTLMessagesSentEncryptedMessage :: tl_reader where
  "readTLMessagesSentEncryptedMessage = read_object
     [(1443858741, [rd ''date'' readInt32]),
      (- 1802240206, [rd ''date'' readInt32, rd ''file'' readTLEncryptedFile])]"

definition writeTLMessagesSentEncryptedMessage :: tl_writer where
  "writeTLMessagesSentEncryptedMessage = write_fobject
     [(1443858741, [wf ''_'' writeInt32, wf ''date'' writeInt32]),
      (- 1802240206, [wf ''_'' writeInt32, wf ''date'' writeInt32,
         wf ''file'' writeTLEncryptedFile])]"

definition TL_MessagesSentEncryptedMessage_table :: flag_table where
  "TL_MessagesSentEncryptedMessage_table =
     [(1443858741, [Plain (''date'', readInt32, writeInt32, enc_int32, is_VInt)]),
      (- 1802240206, [Plain (''date'', readInt32, writeInt32, enc_int32, is_VInt),
        Plain (''file'', readTLEncryptedFile, writeTLEncryptedFile,
         enc_fobject TL_EncryptedFile_table, ok_fobject TL_EncryptedFile_table)])]"

interpretation tl_MessagesSentEncryptedMessage: tl_codec readTLMessagesSentEncryptedMessage writeTLMessagesSentEncryptedMessage "enc_fobject TL_MessagesSentEncryptedMessage_table" "ok_fobject TL_MessagesSentEncryptedMessage_table"
  by (rule flag_schema_codec, unfold TL_MessagesSentEncryptedMessage_table_def, intro flag_tableI)
    (simp_all add: readTLMessagesSentEncryptedMessage_def writeTLMessagesSentEncryptedMessage_def flag_schema_simps tl_EncryptedFile.tl_codec_axioms)

definition readTLHelpSupport :: tl_reader where
  "readTLHelpSupport = read_object
     [(398898678, [rd ''phone_number'' readString, rd ''user'' readTLUser])]"

definition writeTLHelpSupport :: tl_writer where
  "writeTLHelpSupport = write_fobject
     [(398898678, [wf ''_'' writeInt32, wf ''phone_number'' writeString, wf ''user'' writeTLUser])]"

definition TL_HelpSupport_table :: flag_table where
  "TL_HelpSupport_table =
     [(398898678, [Plain (''phone_number'', readString, writeString, enc_string, is_short_text),
        Plain (''user'', readTLUser, writeTLUser, enc_fobject TL_User_table,
         ok_fobject TL_User_table)])]"

interpretation tl_HelpSupport: tl_codec readTLHelpSupport writeTLHelpSupport "enc_fobject TL_HelpSupport_table" "ok_fobject TL_HelpSupport_table"
  by (rule flag_schema_codec, unfold TL_HelpSupport_table_def, intro flag_tableI)
    (simp_all add: readTLHelpSupport_def writeTLHelpSupport_def flag_schema_simps tl_User.tl_codec_axioms)

definition readTLNotifyPeer :: tl_reader where
  "readTLNotifyPeer = read_object
     [(- 1613493288, [rd ''peer'' readTLPeer]),
      (- 1261946036, []),
      (- 1073230141, []),
      (- 703403793, []),
      (577659656, [rd ''peer'' readTLPeer, rd ''top_msg_id'' readInt32]),
      (- 1103664743, [rd ''community_id'' readInt64])]"

definition writeTLNotifyPeer :: tl_writer where
  "writeTLNotifyPeer = write_fobject
     [(- 1613493288, [wf ''_'' writeInt32, wf ''peer'' writeTLPeer]),
      (- 1261946036, [wf ''_'' writeInt32]),
      (- 1073230141, [wf ''_'' writeInt32]),
      (- 703403793, [wf ''_'' writeInt32]),
      (577659656, [wf ''_'' writeInt32, wf ''peer'' writeTLPeer, wf ''top_msg_id'' writeInt32]),
      (- 1103664743, [wf ''_'' writeInt32, wf ''community_id'' writeInt64])]"

definition TL_NotifyPeer_table :: flag_table where
  "TL_NotifyPeer_table =
     [(- 1613493288, [Plain (''peer'', readTLPeer, writeTLPeer, enc_fobject TL_Peer_table,
         ok_fobject TL_Peer_table)]),
      (- 1261946036, []),
      (- 1073230141, []),
      (- 703403793, []),
      (577659656, [Plain (''peer'', readTLPeer, writeTLPeer, enc_fobject TL_Peer_table,
         ok_fobject TL_Peer_table),
        Plain (''top_msg_id'', readInt32, writeInt32, enc_int32, is_VInt)]),
      (- 1103664743, [Plain (''community_id'', readInt64, writeInt64, enc_int64, is_VLong)])]"

interpretation tl_NotifyPeer: tl_codec readTLNotifyPeer writeTLNotifyPeer "enc_fobject TL_NotifyPeer_table" "ok_fobject TL_NotifyPeer_table"
  by (rule flag_schema_codec, unfold TL_NotifyPeer_table_def, intro flag_tableI)
    (simp_all add: readTLNotifyPeer_def writeTLNotifyPeer_def flag_schema_simps tl_Peer.tl_codec_axioms)

definition readTLInlineQueryPeerType :: tl_reader where
  "readTLInlineQueryPeerType = read_object
     [(813821341, []),
      (- 2093215828, []),
      (- 681130742, []),
      (1589952067, []),
      (1664413338, []),
      (238759180, [])]"

definition writeTLInlineQueryPeerType :: tl_writer where
  "writeTLInlineQueryPeerType = write_fobject
     [(813821341, [wf ''_'' writeInt32]),
      (- 2093215828, [wf ''_'' writeInt32]),
      (- 681130742, [wf ''_'' writeInt32]),
      (1589952067, [wf ''_'' writeInt32]),
      (1664413338, [wf ''_'' writeInt32]),
      (238759180, [wf ''_'' writeInt32])]"

definition TL_InlineQueryPeerType_table :: flag_table where
  "TL_InlineQueryPeerType_table =
     [(813821341, []),
      (- 2093215828, []),
      (- 681130742, []),
      (1589952067, []),
      (1664413338, []),
      (238759180, [])]"

interpretation tl_InlineQueryPeerType: tl_codec readTLInlineQueryPeerType writeTLInlineQueryPeerType "enc_fobject TL_InlineQueryPeerType_table" "ok_fobject TL_InlineQueryPeerType_table"
  by (rule flag_schema_codec, unfold TL_InlineQueryPeerType_table_def, intro flag_tableI)
    (simp_all add: readTLInlineQueryPeerType_def writeTLInlineQueryPeerType_def flag_schema_simps)

definition readTLInlineButtonType :: tl_reader where
  "readTLInlineButtonType = read_object
     [(- 324732716, [rd ''url'' readString]),
      (- 1076875870, [rd ''flags'' readUInt32, rd_if ''flags'' 0 ''fwd_text'' readString,
         rd ''url'' readString, rd ''button_id'' readInt32]),
      (- 1721647948, [rd ''flags'' readUInt32, set_if ''flags'' 0 ''request_write_access'',
         rd_if ''flags'' 1 ''fwd_text'' readString, rd ''url'' readString,
         rd_if ''flags'' 2 ''bot'' readTLInputUser]),
      (1003140532, [rd ''url'' readString]),
      (693484600, [rd ''flags'' readUInt32, set_if ''flags'' 0 ''requires_password'',
         rd ''data'' readByteArray]),
      (1557360797, []),
      (1220204453, []),
      (- 1820901387, [rd ''flags'' readUInt32, set_if ''flags'' 0 ''same_peer'',
         rd ''query'' readString,
         rd_if ''flags'' 1 ''peer_types'' (readVector (Some readTLInlineQueryPeerType))]),
      (1067663311, [rd ''user_id'' readInt64]),
      (1408487002, [rd ''user_id'' readTLInputUser]),
      (- 1273154958, [rd ''copy_text'' readString]),
      (- 1539808867, [])]"

definition writeTLInlineButtonType :: tl_writer where
  "writeTLInlineButtonType = write_fobject
     [(- 324732716, [wf ''_'' writeInt32, wf ''url'' writeString]),
      (- 1076875870, [wf ''_'' writeInt32, wf_flags ''flags'' [(''fwd_text'', 0)],
         wf_if ''flags'' 0 ''fwd_text'' writeString, wf ''url'' writeString,
         wf ''button_id'' writeInt32]),
      (- 1721647948, [wf ''_'' writeInt32, wf_flags ''flags'' [(''request_write_access'', 0),
         (''fwd_text'', 1), (''bot'', 2)], wf_if ''flags'' 1 ''fwd_text'' writeString,
         wf ''url'' writeString, wf_if ''flags'' 2 ''bot'' writeTLInputUser]),
      (1003140532, [wf ''_'' writeInt32, wf ''url'' writeString]),
      (693484600, [wf ''_'' writeInt32, wf_flags ''flags'' [(''requires_password'', 0)],
         wf ''data'' writeByteArray]),
      (1557360797, [wf ''_'' writeInt32]),
      (1220204453, [wf ''_'' writeInt32]),
      (- 1820901387, [wf ''_'' writeInt32, wf_flags ''flags'' [(''same_peer'', 0), (''peer_types'',
         1)], wf ''query'' writeString,
         wf_if ''flags'' 1 ''peer_types'' (writeVector (Some writeTLInlineQueryPeerType))]),
      (1067663311, [wf ''_'' writeInt32, wf ''user_id'' writeInt64]),
      (1408487002, [wf ''_'' writeInt32, wf ''user_id'' writeTLInputUser]),
      (- 1273154958, [wf ''_'' writeInt32, wf ''copy_text'' writeString]),
      (- 1539808867, [wf ''_'' writeInt32])]"

definition TL_InlineButtonType_table :: flag_table where
  "TL_InlineButtonType_table =
     [(- 324732716, [Plain (''url'', readString, writeString, enc_string, is_short_text)]),
      (- 1076875870, [Flags ''flags'' [(''fwd_text'', 0)],
        Cond ''flags'' 0 (''fwd_text'', readString, writeString, enc_string, is_short_text),
        Plain (''url'', readString, writeString, enc_string, is_short_text),
        Plain (''button_id'', readInt32, writeInt32, enc_int32, is_VInt)]),
      (- 1721647948, [Flags ''flags'' [(''request_write_access'', 0), (''fwd_text'', 1), (''bot'',
         2)],
        TrueBit ''flags'' 0 ''request_write_access'',
        Cond ''flags'' 1 (''fwd_text'', readString, writeString, enc_string, is_short_text),
        Plain (''url'', readString, writeString, enc_string, is_short_text),
        Cond ''flags'' 2 (''bot'', readTLInputUser, writeTLInputUser,
         enc_fobject TL_InputUser_table, ok_fobject TL_InputUser_table)]),
      (1003140532, [Plain (''url'', readString, writeString, enc_string, is_short_text)]),
      (693484600, [Flags ''flags'' [(''requires_password'', 0)],
        TrueBit ''flags'' 0 ''requires_password'',
        Plain (''data'', readByteArray, writeByteArray, enc_bytes, is_short_bytes)]),
      (1557360797, []),
      (1220204453, []),
      (- 1820901387, [Flags ''flags'' [(''same_peer'', 0), (''peer_types'', 1)],
        TrueBit ''flags'' 0 ''same_peer'',
        Plain (''query'', readString, writeString, enc_string, is_short_text),
        Cond ''flags'' 1 (''peer_types'', readVector (Some readTLInlineQueryPeerType),
         writeVector (Some writeTLInlineQueryPeerType),
         enc_vector (enc_fobject TL_InlineQueryPeerType_table),
         ok_vector (ok_fobject TL_InlineQueryPeerType_table))]),
      (1067663311, [Plain (''user_id'', readInt64, writeInt64, enc_int64, is_VLong)]),
      (1408487002, [Plain (''user_id'', readTLInputUser, writeTLInputUser,
         enc_fobject TL_InputUser_table, ok_fobject TL_InputUser_table)]),
      (- 1273154958, [Plain (''copy_text'', readString, writeString, enc_string, is_short_text)]),
      (- 1539808867, [])]"

interpretation tl_InlineButtonType: tl_codec readTLInlineButtonType writeTLInlineButtonType "enc_fobject TL_InlineButtonType_table" "ok_fobject TL_InlineButtonType_table"
  by (rule flag_schema_codec, unfold TL_InlineButtonType_table_def, intro flag_tableI)
    (simp_all add: readTLInlineButtonType_def writeTLInlineButtonType_def flag_schema_simps tl_InputUser.tl_codec_axioms tl_InputUser.vector_codec tl_InlineQueryPeerType.tl_codec_axioms tl_InlineQueryPeerType.vector_codec)

definition readTLRichButtonStyle :: tl_reader where
  "readTLRichButtonStyle = read_object
     [(63312061, [rd ''flags'' readUInt32, set_if ''flags'' 0 ''bg_primary'',
         set_if ''flags'' 1 ''bg_danger'', set_if ''flags'' 2 ''bg_success'',
         set_if ''flags'' 3 ''link''])]"

definition writeTLRichButtonStyle :: tl_writer where
  "writeTLRichButtonStyle = write_fobject
     [(63312061, [wf ''_'' writeInt32, wf_flags ''flags'' [(''bg_primary'', 0), (''bg_danger'', 1),
         (''bg_success'', 2), (''link'', 3)]])]"

definition TL_RichButtonStyle_table :: flag_table where
  "TL_RichButtonStyle_table =
     [(63312061, [Flags ''flags'' [(''bg_primary'', 0), (''bg_danger'', 1), (''bg_success'', 2),
         (''link'', 3)],
        TrueBit ''flags'' 0 ''bg_primary'',
        TrueBit ''flags'' 1 ''bg_danger'',
        TrueBit ''flags'' 2 ''bg_success'',
        TrueBit ''flags'' 3 ''link''])]"

interpretation tl_RichButtonStyle: tl_codec readTLRichButtonStyle writeTLRichButtonStyle "enc_fobject TL_RichButtonStyle_table" "ok_fobject TL_RichButtonStyle_table"
  by (rule flag_schema_codec, unfold TL_RichButtonStyle_table_def, intro flag_tableI)
    (simp_all add: readTLRichButtonStyle_def writeTLRichButtonStyle_def flag_schema_simps)

definition readTLContactsFound :: tl_reader where
  "readTLContactsFound = read_object
     [(- 1290580579, [rd ''my_results'' (readVector (Some readTLPeer)),
         rd ''results'' (readVector (Some readTLPeer)),
         rd ''chats'' (readVector (Some readTLChat)),
         rd ''users'' (readVector (Some readTLUser))])]"

definition writeTLContactsFound :: tl_writer where
  "writeTLContactsFound = write_fobject
     [(- 1290580579, [wf ''_'' writeInt32, wf ''my_results'' (writeVector (Some writeTLPeer)),
         wf ''results'' (writeVector (Some writeTLPeer)),
         wf ''chats'' (writeVector (Some writeTLChat)),
         wf ''users'' (writeVector (Some writeTLUser))])]"

definition TL_ContactsFound_table :: flag_table where
  "TL_ContactsFound_table =
     [(- 1290580579, [Plain (''my_results'', readVector (Some readTLPeer),
         writeVector (Some writeTLPeer), enc_vector (enc_fobject TL_Peer_table),
         ok_vector (ok_fobject TL_Peer_table)),
        Plain (''results'', readVector (Some readTLPeer), writeVector (Some writeTLPeer),
         enc_vector (enc_fobject TL_Peer_table), ok_vector (ok_fobject TL_Peer_table)),
        Plain (''chats'', readVector (Some readTLChat), writeVector (Some writeTLChat),
         enc_vector (enc_fobject TL_Chat_table), ok_vector (ok_fobject TL_Chat_table)),
        Plain (''users'', readVector (Some readTLUser), writeVector (Some writeTLUser),
         enc_vector (enc_fobject TL_User_table), ok_vector (ok_fobject TL_User_table))])]"

interpretation tl_ContactsFound: tl_codec readTLContactsFound writeTLContactsFound "enc_fobject TL_ContactsFound_table" "ok_fobject TL_ContactsFound_table"
  by (rule flag_schema_codec, unfold TL_ContactsFound_table_def, intro flag_tableI)
    (simp_all add: readTLContactsFound_def writeTLContactsFound_def flag_schema_simps tl_Peer.tl_codec_axioms tl_Peer.vector_codec tl_Chat.tl_codec_axioms tl_Chat.vector_codec tl_User.tl_codec_axioms tl_User.vector_codec)

definition readTLInputPrivacyKey :: tl_reader where
  "readTLInputPrivacyKey = read_object
     [(1335282456, []),
      (- 1107622874, []),
      (- 88417185, []),
      (- 610373422, []),
      (- 1529000952, []),
      (1461304012, []),
      (55761658, []),
      (- 786326563, []),
      (- 1360618136, []),
      (941870144, []),
      (- 698740276, []),
      (- 512548031, []),
      (- 1111124044, []),
      (1304334886, [])]"

definition writeTLInputPrivacyKey :: tl_writer where
  "writeTLInputPrivacyKey = write_fobject
     [(1335282456, [wf ''_'' writeInt32]),
      (- 1107622874, [wf ''_'' writeInt32]),
      (- 88417185, [wf ''_'' writeInt32]),
      (- 610373422, [wf ''_'' writeInt32]),
      (- 1529000952, [wf ''_'' writeInt32]),
      (1461304012, [wf ''_'' writeInt32]),
      (55761658, [wf ''_'' writeInt32]),
      (- 786326563, [wf ''_'' writeInt32]),
      (- 1360618136, [wf ''_'' writeInt32]),
      (941870144, [wf ''_'' writeInt32]),
      (- 698740276, [wf ''_'' writeInt32]),
      (- 512548031, [wf ''_'' writeInt32]),
      (- 1111124044, [wf ''_'' writeInt32]),
      (1304334886, [wf ''_'' writeInt32])]"

definition TL_InputPrivacyKey_table :: flag_table where
  "TL_InputPrivacyKey_table =
     [(1335282456, []),
      (- 1107622874, []),
      (- 88417185, []),
      (- 610373422, []),
      (- 1529000952, []),
      (1461304012, []),
      (55761658, []),
      (- 786326563, []),
      (- 1360618136, []),
      (941870144, []),
      (- 698740276, []),
      (- 512548031, []),
      (- 1111124044, []),
      (1304334886, [])]"

interpretation tl_InputPrivacyKey: tl_codec readTLInputPrivacyKey writeTLInputPrivacyKey "enc_fobject TL_InputPrivacyKey_table" "ok_fobject TL_InputPrivacyKey_table"
  by (rule flag_schema_codec, unfold TL_InputPrivacyKey_table_def, intro flag_tableI)
    (simp_all add: readTLInputPrivacyKey_def writeTLInputPrivacyKey_def flag_schema_simps)

definition readTLPrivacyKey :: tl_reader where
  "readTLPrivacyKey = read_object
     [(- 1137792208, []),
      (1343122938, []),
      (1030105979, []),
      (961092808, []),
      (1777096355, []),
      (- 1777000467, []),
      (- 778378131, []),
      (1124062251, []),
      (110621716, []),
      (- 1534675103, []),
      (536913176, []),
      (749010424, []),
      (399722706, []),
      (- 8759525, [])]"

definition writeTLPrivacyKey :: tl_writer where
  "writeTLPrivacyKey = write_fobject
     [(- 1137792208, [wf ''_'' writeInt32]),
      (1343122938, [wf ''_'' writeInt32]),
      (1030105979, [wf ''_'' writeInt32]),
      (961092808, [wf ''_'' writeInt32]),
      (1777096355, [wf ''_'' writeInt32]),
      (- 1777000467, [wf ''_'' writeInt32]),
      (- 778378131, [wf ''_'' writeInt32]),
      (1124062251, [wf ''_'' writeInt32]),
      (110621716, [wf ''_'' writeInt32]),
      (- 1534675103, [wf ''_'' writeInt32]),
      (536913176, [wf ''_'' writeInt32]),
      (749010424, [wf ''_'' writeInt32]),
      (399722706, [wf ''_'' writeInt32]),
      (- 8759525, [wf ''_'' writeInt32])]"

definition TL_PrivacyKey_table :: flag_table where
  "TL_PrivacyKey_table =
     [(- 1137792208, []),
      (1343122938, []),
      (1030105979, []),
      (961092808, []),
      (1777096355, []),
      (- 1777000467, []),
      (- 778378131, []),
      (1124062251, []),
      (110621716, []),
      (- 1534675103, []),
      (536913176, []),
      (749010424, []),
      (399722706, []),
      (- 8759525, [])]"

interpretation tl_PrivacyKey: tl_codec readTLPrivacyKey writeTLPrivacyKey "enc_fobject TL_PrivacyKey_table" "ok_fobject TL_PrivacyKey_table"
  by (rule flag_schema_codec, unfold TL_PrivacyKey_table_def, intro flag_tableI)
    (simp_all add: readTLPrivacyKey_def writeTLPrivacyKey_def flag_schema_simps)

definition readTLInputPrivacyRule :: tl_reader where
  "readTLInputPrivacyRule = read_object
     [(218751099, []),
      (407582158, []),
      (320652927, [rd ''users'' (readVector (Some readTLInputUser))]),
      (195371015, []),
      (- 697604407, []),
      (- 1877932953, [rd ''users'' (readVector (Some readTLInputUser))]),
      (- 2079962673, [rd ''chats'' (readVector (Some readInt64))]),
      (- 380694650, [rd ''chats'' (readVector (Some readInt64))]),
      (793067081, []),
      (2009975281, []),
      (1515179237, []),
      (- 991594219, [])]"

definition writeTLInputPrivacyRule :: tl_writer where
  "writeTLInputPrivacyRule = write_fobject
     [(218751099, [wf ''_'' writeInt32]),
      (407582158, [wf ''_'' writeInt32]),
      (320652927, [wf ''_'' writeInt32, wf ''users'' (writeVector (Some writeTLInputUser))]),
      (195371015, [wf ''_'' writeInt32]),
      (- 697604407, [wf ''_'' writeInt32]),
      (- 1877932953, [wf ''_'' writeInt32, wf ''users'' (writeVector (Some writeTLInputUser))]),
      (- 2079962673, [wf ''_'' writeInt32, wf ''chats'' (writeVector (Some writeInt64))]),
      (- 380694650, [wf ''_'' writeInt32, wf ''chats'' (writeVector (Some writeInt64))]),
      (793067081, [wf ''_'' writeInt32]),
      (2009975281, [wf ''_'' writeInt32]),
      (1515179237, [wf ''_'' writeInt32]),
      (- 991594219, [wf ''_'' writeInt32])]"

definition TL_InputPrivacyRule_table :: flag_table where
  "TL_InputPrivacyRule_table =
     [(218751099, []),
      (407582158, []),
      (320652927, [Plain (''users'', readVector (Some readTLInputUser),
         writeVector (Some writeTLInputUser), enc_vector (enc_fobject TL_InputUser_table),
         ok_vector (ok_fobject TL_InputUser_table))]),
      (195371015, []),
      (- 697604407, []),
      (- 1877932953, [Plain (''users'', readVector (Some readTLInputUser),
         writeVector (Some writeTLInputUser), enc_vector (enc_fobject TL_InputUser_table),
         ok_vector (ok_fobject TL_InputUser_table))]),
      (- 2079962673, [Plain (''chats'', readVector (Some readInt64), writeVector (Some writeInt64),
         enc_vector enc_int64, ok_vector is_VLong)]),
      (- 380694650, [Plain (''chats'', readVector (Some readInt64), writeVector (Some writeInt64),
         enc_vector enc_int64, ok_vector is_VLong)]),
      (793067081, []),
      (2009975281, []),
      (1515179237, []),
      (- 991594219, [])]"

interpretation tl_InputPrivacyRule: tl_codec readTLInputPrivacyRule writeTLInputPrivacyRule "enc_fobject TL_InputPrivacyRule_table" "ok_fobject TL_InputPrivacyRule_table"
  by (rule flag_schema_codec, unfold TL_InputPrivacyRule_table_def, intro flag_tableI)
    (simp_all add: readTLInputPrivacyRule_def writeTLInputPrivacyRule_def flag_schema_simps tl_InputUser.tl_codec_axioms tl_InputUser.vector_codec)

definition readTLPrivacyRule :: tl_reader where
  "readTLPrivacyRule = read_object
     [(- 123988, []),
      (1698855810, []),
      (- 1198497870, [rd ''users'' (readVector (Some readInt64))]),
      (- 125240806, []),
      (- 1955338397, []),
      (- 463335103, [rd ''users'' (readVector (Some readInt64))]),
      (1796427406, [rd ''chats'' (readVector (Some readInt64))]),
      (1103656293, [rd ''chats'' (readVector (Some readInt64))]),
      (- 135735141, []),
      (- 320241333, []),
      (558242653, []),
      (- 156895185, [])]"

definition writeTLPrivacyRule :: tl_writer where
  "writeTLPrivacyRule = write_fobject
     [(- 123988, [wf ''_'' writeInt32]),
      (1698855810, [wf ''_'' writeInt32]),
      (- 1198497870, [wf ''_'' writeInt32, wf ''users'' (writeVector (Some writeInt64))]),
      (- 125240806, [wf ''_'' writeInt32]),
      (- 1955338397, [wf ''_'' writeInt32]),
      (- 463335103, [wf ''_'' writeInt32, wf ''users'' (writeVector (Some writeInt64))]),
      (1796427406, [wf ''_'' writeInt32, wf ''chats'' (writeVector (Some writeInt64))]),
      (1103656293, [wf ''_'' writeInt32, wf ''chats'' (writeVector (Some writeInt64))]),
      (- 135735141, [wf ''_'' writeInt32]),
      (- 320241333, [wf ''_'' writeInt32]),
      (558242653, [wf ''_'' writeInt32]),
      (- 156895185, [wf ''_'' writeInt32])]"

definition TL_PrivacyRule_table :: flag_table where
  "TL_PrivacyRule_table =
     [(- 123988, []),
      (1698855810, []),
      (- 1198497870, [Plain (''users'', readVector (Some readInt64), writeVector (Some writeInt64),
         enc_vector enc_int64, ok_vector is_VLong)]),
      (- 125240806, []),
      (- 1955338397, []),
      (- 463335103, [Plain (''users'', readVector (Some readInt64), writeVector (Some writeInt64),
         enc_vector enc_int64, ok_vector is_VLong)]),
      (1796427406, [Plain (''chats'', readVector (Some readInt64), writeVector (Some writeInt64),
         enc_vector enc_int64, ok_vector is_VLong)]),
      (1103656293, [Plain (''chats'', readVector (Some readInt64), writeVector (Some writeInt64),
         enc_vector enc_int64, ok_vector is_VLong)]),
      (- 135735141, []),
      (- 320241333, []),
      (558242653, []),
      (- 156895185, [])]"

interpretation tl_PrivacyRule: tl_codec readTLPrivacyRule writeTLPrivacyRule "enc_fobject TL_PrivacyRule_table" "ok_fobject TL_PrivacyRule_table"
  by (rule flag_schema_codec, unfold TL_PrivacyRule_table_def, intro flag_tableI)
    (simp_all add: readTLPrivacyRule_def writeTLPrivacyRule_def flag_schema_simps)

definition readTLAccountPrivacyRules :: tl_reader where
  "readTLAccountPrivacyRules = read_object
     [(1352683077, [rd ''rules'' (readVector (Some readTLPrivacyRule)),
         rd ''chats'' (readVector (Some readTLChat)),
         rd ''users'' (readVector (Some readTLUser))])]"

definition writeTLAccountPrivacyRules :: tl_writer where
  "writeTLAccountPrivacyRules = write_fobject
     [(1352683077, [wf ''_'' writeInt32, wf ''rules'' (writeVector (Some writeTLPrivacyRule)),
         wf ''chats'' (writeVector (Some writeTLChat)),
         wf ''users'' (writeVector (Some writeTLUser))])]"

definition TL_AccountPrivacyRules_table :: flag_table where
  "TL_AccountPrivacyRules_table =
     [(1352683077, [Plain (''rules'', readVector (Some readTLPrivacyRule),
         writeVector (Some writeTLPrivacyRule), enc_vector (enc_fobject TL_PrivacyRule_table),
         ok_vector (ok_fobject TL_PrivacyRule_table)),
        Plain (''chats'', readVector (Some readTLChat), writeVector (Some writeTLChat),
         enc_vector (enc_fobject TL_Chat_table), ok_vector (ok_fobject TL_Chat_table)),
        Plain (''users'', readVector (Some readTLUser), writeVector (Some writeTLUser),
         enc_vector (enc_fobject TL_User_table), ok_vector (ok_fobject TL_User_table))])]"

interpretation tl_AccountPrivacyRules: tl_codec readTLAccountPrivacyRules writeTLAccountPrivacyRules "enc_fobject TL_AccountPrivacyRules_table" "ok_fobject TL_AccountPrivacyRules_table"
  by (rule flag_schema_codec, unfold TL_AccountPrivacyRules_table_def, intro flag_tableI)
    (simp_all add: readTLAccountPrivacyRules_def writeTLAccountPrivacyRules_def flag_schema_simps tl_PrivacyRule.tl_codec_axioms tl_PrivacyRule.vector_codec tl_Chat.tl_codec_axioms tl_Chat.vector_codec tl_User.tl_codec_axioms tl_User.vector_codec)

definition readTLAccountDaysTTL :: tl_reader where
  "readTLAccountDaysTTL = read_object
     [(- 1194283041, [rd ''days'' readInt32])]"

definition writeTLAccountDaysTTL :: tl_writer where
  "writeTLAccountDaysTTL = write_fobject
     [(- 1194283041, [wf ''_'' writeInt32, wf ''days'' writeInt32])]"

definition TL_AccountDaysTTL_table :: flag_table where
  "TL_AccountDaysTTL_table =
     [(- 1194283041, [Plain (''days'', readInt32, writeInt32, enc_int32, is_VInt)])]"

interpretation tl_AccountDaysTTL: tl_codec readTLAccountDaysTTL writeTLAccountDaysTTL "enc_fobject TL_AccountDaysTTL_table" "ok_fobject TL_AccountDaysTTL_table"
  by (rule flag_schema_codec, unfold TL_AccountDaysTTL_table_def, intro flag_tableI)
    (simp_all add: readTLAccountDaysTTL_def writeTLAccountDaysTTL_def flag_schema_simps)

definition readTLStickerPack :: tl_reader where
  "readTLStickerPack = read_object
     [(313694676, [rd ''emoticon'' readString, rd ''documents'' (readVector (Some readInt64))])]"

definition writeTLStickerPack :: tl_writer where
  "writeTLStickerPack = write_fobject
     [(313694676, [wf ''_'' writeInt32, wf ''emoticon'' writeString,
         wf ''documents'' (writeVector (Some writeInt64))])]"

definition TL_StickerPack_table :: flag_table where
  "TL_StickerPack_table =
     [(313694676, [Plain (''emoticon'', readString, writeString, enc_string, is_short_text),
        Plain (''documents'', readVector (Some readInt64), writeVector (Some writeInt64),
         enc_vector enc_int64, ok_vector is_VLong)])]"

interpretation tl_StickerPack: tl_codec readTLStickerPack writeTLStickerPack "enc_fobject TL_StickerPack_table" "ok_fobject TL_StickerPack_table"
  by (rule flag_schema_codec, unfold TL_StickerPack_table_def, intro flag_tableI)
    (simp_all add: readTLStickerPack_def writeTLStickerPack_def flag_schema_simps)

definition readTLStickerSet :: tl_reader where
  "readTLStickerSet = read_object
     [(768691932, [rd ''flags'' readUInt32, set_if ''flags'' 1 ''archived'',
         set_if ''flags'' 2 ''official'', set_if ''flags'' 3 ''masks'',
         set_if ''flags'' 7 ''emojis'', set_if ''flags'' 9 ''text_color'',
         set_if ''flags'' 10 ''channel_emoji_status'', set_if ''flags'' 11 ''creator'',
         rd_if ''flags'' 0 ''installed_date'' readInt32, rd ''id'' readInt64,
         rd ''access_hash'' readInt64, rd ''title'' readString, rd ''short_name'' readString,
         rd_if ''flags'' 4 ''thumbs'' (readVector (Some readTLPhotoSize)),
         rd_if ''flags'' 4 ''thumb_dc_id'' readInt32,
         rd_if ''flags'' 4 ''thumb_version'' readInt32,
         rd_if ''flags'' 8 ''thumb_document_id'' readInt64, rd ''count'' readInt32,
         rd ''hash'' readInt32])]"

definition writeTLStickerSet :: tl_writer where
  "writeTLStickerSet = write_fobject
     [(768691932, [wf ''_'' writeInt32, wf_flags ''flags'' [(''archived'', 1), (''official'', 2),
         (''masks'', 3), (''emojis'', 7), (''text_color'', 9), (''channel_emoji_status'', 10),
         (''creator'', 11), (''installed_date'', 0), (''thumbs'', 4), (''thumb_dc_id'', 4),
         (''thumb_version'', 4), (''thumb_document_id'', 8)],
         wf_if ''flags'' 0 ''installed_date'' writeInt32, wf ''id'' writeInt64,
         wf ''access_hash'' writeInt64, wf ''title'' writeString, wf ''short_name'' writeString,
         wf_if ''flags'' 4 ''thumbs'' (writeVector (Some writeTLPhotoSize)),
         wf_if ''flags'' 4 ''thumb_dc_id'' writeInt32,
         wf_if ''flags'' 4 ''thumb_version'' writeInt32,
         wf_if ''flags'' 8 ''thumb_document_id'' writeInt64, wf ''count'' writeInt32,
         wf ''hash'' writeInt32])]"

definition TL_StickerSet_table :: flag_table where
  "TL_StickerSet_table =
     [(768691932, [Flags ''flags'' [(''archived'', 1), (''official'', 2), (''masks'', 3),
         (''emojis'', 7), (''text_color'', 9), (''channel_emoji_status'', 10), (''creator'', 11),
         (''installed_date'', 0), (''thumbs'', 4), (''thumb_dc_id'', 4), (''thumb_version'', 4),
         (''thumb_document_id'', 8)],
        TrueBit ''flags'' 1 ''archived'',
        TrueBit ''flags'' 2 ''official'',
        TrueBit ''flags'' 3 ''masks'',
        TrueBit ''flags'' 7 ''emojis'',
        TrueBit ''flags'' 9 ''text_color'',
        TrueBit ''flags'' 10 ''channel_emoji_status'',
        TrueBit ''flags'' 11 ''creator'',
        Cond ''flags'' 0 (''installed_date'', readInt32, writeInt32, enc_int32, is_VInt),
        Plain (''id'', readInt64, writeInt64, enc_int64, is_VLong),
        Plain (''access_hash'', readInt64, writeInt64, enc_int64, is_VLong),
        Plain (''title'', readString, writeString, enc_string, is_short_text),
        Plain (''short_name'', readString, writeString, enc_string, is_short_text),
        Cond ''flags'' 4 (''thumbs'', readVector (Some readTLPhotoSize),
         writeVector (Some writeTLPhotoSize), enc_vector (enc_fobject TL_PhotoSize_table),
         ok_vector (ok_fobject TL_PhotoSize_table)),
        Cond ''flags'' 4 (''thumb_dc_id'', readInt32, writeInt32, enc_int32, is_VInt),
        Cond ''flags'' 4 (''thumb_version'', readInt32, writeInt32, enc_int32, is_VInt),
        Cond ''flags'' 8 (''thumb_document_id'', readInt64, writeInt64, enc_int64, is_VLong),
        Plain (''count'', readInt32, writeInt32, enc_int32, is_VInt),
        Plain (''hash'', readInt32, writeInt32, enc_int32, is_VInt)])]"

interpretation tl_StickerSet: tl_codec readTLStickerSet writeTLStickerSet "enc_fobject TL_StickerSet_table" "ok_fobject TL_StickerSet_table"
  by (rule flag_schema_codec, unfold TL_StickerSet_table_def, intro flag_tableI)
    (simp_all add: readTLStickerSet_def writeTLStickerSet_def flag_schema_simps tl_PhotoSize.tl_codec_axioms tl_PhotoSize.vector_codec)

definition readTLMessagesAllStickers :: tl_reader where
  "readTLMessagesAllStickers = read_object
     [(- 395967805, []),
      (- 843329861, [rd ''hash'' readInt64, rd ''sets'' (readVector (Some readTLStickerSet))])]"

definition writeTLMessagesAllStickers :: tl_writer where
  "writeTLMessagesAllStickers = write_fobject
     [(- 395967805, [wf ''_'' writeInt32]),
      (- 843329861, [wf ''_'' writeInt32, wf ''hash'' writeInt64,
         wf ''sets'' (writeVector (Some writeTLStickerSet))])]"

definition TL_MessagesAllStickers_table :: flag_table where
  "TL_MessagesAllStickers_table =
     [(- 395967805, []),
      (- 843329861, [Plain (''hash'', readInt64, writeInt64, enc_int64, is_VLong),
        Plain (''sets'', readVector (Some readTLStickerSet), writeVector (Some writeTLStickerSet),
         enc_vector (enc_fobject TL_StickerSet_table),
         ok_vector (ok_fobject TL_StickerSet_table))])]"

interpretation tl_MessagesAllStickers: tl_codec readTLMessagesAllStickers writeTLMessagesAllStickers "enc_fobject TL_MessagesAllStickers_table" "ok_fobject TL_MessagesAllStickers_table"
  by (rule flag_schema_codec, unfold TL_MessagesAllStickers_table_def, intro flag_tableI)
    (simp_all add: readTLMessagesAllStickers_def writeTLMessagesAllStickers_def flag_schema_simps tl_StickerSet.tl_codec_axioms tl_StickerSet.vector_codec)

definition readTLAuthorization :: tl_reader where
  "readTLAuthorization = read_object
     [(- 1392388579, [rd ''flags'' readUInt32, set_if ''flags'' 0 ''current'',
         set_if ''flags'' 1 ''official_app'', set_if ''flags'' 2 ''password_pending'',
         set_if ''flags'' 3 ''encrypted_requests_disabled'',
         set_if ''flags'' 4 ''call_requests_disabled'', set_if ''flags'' 5 ''unconfirmed'',
         rd ''hash'' readInt64, rd ''device_model'' readString, rd ''platform'' readString,
         rd ''system_version'' readString, rd ''api_id'' readInt32, rd ''app_name'' readString,
         rd ''app_version'' readString, rd ''date_created'' readInt32,
         rd ''date_active'' readInt32, rd ''ip'' readString, rd ''country'' readString,
         rd ''region'' readString])]"

definition writeTLAuthorization :: tl_writer where
  "writeTLAuthorization = write_fobject
     [(- 1392388579, [wf ''_'' writeInt32, wf_flags ''flags'' [(''current'', 0), (''official_app'',
         1), (''password_pending'', 2), (''encrypted_requests_disabled'', 3),
         (''call_requests_disabled'', 4), (''unconfirmed'', 5)], wf ''hash'' writeInt64,
         wf ''device_model'' writeString, wf ''platform'' writeString,
         wf ''system_version'' writeString, wf ''api_id'' writeInt32, wf ''app_name'' writeString,
         wf ''app_version'' writeString, wf ''date_created'' writeInt32,
         wf ''date_active'' writeInt32, wf ''ip'' writeString, wf ''country'' writeString,
         wf ''region'' writeString])]"

definition TL_Authorization_table :: flag_table where
  "TL_Authorization_table =
     [(- 1392388579, [Flags ''flags'' [(''current'', 0), (''official_app'', 1),
         (''password_pending'', 2), (''encrypted_requests_disabled'', 3),
         (''call_requests_disabled'', 4), (''unconfirmed'', 5)],
        TrueBit ''flags'' 0 ''current'',
        TrueBit ''flags'' 1 ''official_app'',
        TrueBit ''flags'' 2 ''password_pending'',
        TrueBit ''flags'' 3 ''encrypted_requests_disabled'',
        TrueBit ''flags'' 4 ''call_requests_disabled'',
        TrueBit ''flags'' 5 ''unconfirmed'',
        Plain (''hash'', readInt64, writeInt64, enc_int64, is_VLong),
        Plain (''device_model'', readString, writeString, enc_string, is_short_text),
        Plain (''platform'', readString, writeString, enc_string, is_short_text),
        Plain (''system_version'', readString, writeString, enc_string, is_short_text),
        Plain (''api_id'', readInt32, writeInt32, enc_int32, is_VInt),
        Plain (''app_name'', readString, writeString, enc_string, is_short_text),
        Plain (''app_version'', readString, writeString, enc_string, is_short_text),
        Plain (''date_created'', readInt32, writeInt32, enc_int32, is_VInt),
        Plain (''date_active'', readInt32, writeInt32, enc_int32, is_VInt),
        Plain (''ip'', readString, writeString, enc_string, is_short_text),
        Plain (''country'', readString, writeString, enc_string, is_short_text),
        Plain (''region'', readString, writeString, enc_string, is_short_text)])]"

interpretation tl_Authorization: tl_codec readTLAuthorization writeTLAuthorization "enc_fobject TL_Authorization_table" "ok_fobject TL_Authorization_table"
  by (rule flag_schema_codec, unfold TL_Authorization_table_def, intro flag_tableI)
    (simp_all add: readTLAuthorization_def writeTLAuthorization_def flag_schema_simps)

definition readTLAccountAuthorizations :: tl_reader where
  "readTLAccountAuthorizations = read_object
     [(1275039392, [rd ''authorization_ttl_days'' readInt32,
         rd ''authorizations'' (readVector (Some readTLAuthorization))])]"

definition writeTLAccountAuthorizations :: tl_writer where
  "writeTLAccountAuthorizations = write_fobject
     [(1275039392, [wf ''_'' writeInt32, wf ''authorization_ttl_days'' writeInt32,
         wf ''authorizations'' (writeVector (Some writeTLAuthorization))])]"

definition TL_AccountAuthorizations_table :: flag_table where
  "TL_AccountAuthorizations_table =
     [(1275039392, [Plain (''authorization_ttl_days'', readInt32, writeInt32, enc_int32, is_VInt),
        Plain (''authorizations'', readVector (Some readTLAuthorization),
         writeVector (Some writeTLAuthorization), enc_vector (enc_fobject TL_Authorization_table),
         ok_vector (ok_fobject TL_Authorization_table))])]"

interpretation tl_AccountAuthorizations: tl_codec readTLAccountAuthorizations writeTLAccountAuthorizations "enc_fobject TL_AccountAuthorizations_table" "ok_fobject TL_AccountAuthorizations_table"
  by (rule flag_schema_codec, unfold TL_AccountAuthorizations_table_def, intro flag_tableI)
    (simp_all add: readTLAccountAuthorizations_def writeTLAccountAuthorizations_def flag_schema_simps tl_Authorization.tl_codec_axioms tl_Authorization.vector_codec)

definition readTLSecureSecretSettings :: tl_reader where
  "readTLSecureSecretSettings = read_object
     [(354925740, [rd ''secure_algo'' readTLSecurePasswordKdfAlgo,
         rd ''secure_secret'' readByteArray, rd ''secure_secret_id'' readInt64])]"

definition writeTLSecureSecretSettings :: tl_writer where
  "writeTLSecureSecretSettings = write_fobject
     [(354925740, [wf ''_'' writeInt32, wf ''secure_algo'' writeTLSecurePasswordKdfAlgo,
         wf ''secure_secret'' writeByteArray, wf ''secure_secret_id'' writeInt64])]"

definition TL_SecureSecretSettings_table :: flag_table where
  "TL_SecureSecretSettings_table =
     [(354925740, [Plain (''secure_algo'', readTLSecurePasswordKdfAlgo,
         writeTLSecurePasswordKdfAlgo, enc_fobject TL_SecurePasswordKdfAlgo_table,
         ok_fobject TL_SecurePasswordKdfAlgo_table),
        Plain (''secure_secret'', readByteArray, writeByteArray, enc_bytes, is_short_bytes),
        Plain (''secure_secret_id'', readInt64, writeInt64, enc_int64, is_VLong)])]"

interpretation tl_SecureSecretSettings: tl_codec readTLSecureSecretSettings writeTLSecureSecretSettings "enc_fobject TL_SecureSecretSettings_table" "ok_fobject TL_SecureSecretSettings_table"
  by (rule flag_schema_codec, unfold TL_SecureSecretSettings_table_def, intro flag_tableI)
    (simp_all add: readTLSecureSecretSettings_def writeTLSecureSecretSettings_def flag_schema_simps tl_SecurePasswordKdfAlgo.tl_codec_axioms)

definition readTLAccountPasswordSettings :: tl_reader where
  "readTLAccountPasswordSettings = read_object
     [(- 1705233435, [rd ''flags'' readUInt32, rd_if ''flags'' 0 ''email'' readString,
         rd_if ''flags'' 1 ''secure_settings'' readTLSecureSecretSettings])]"

definition writeTLAccountPasswordSettings :: tl_writer where
  "writeTLAccountPasswordSettings = write_fobject
     [(- 1705233435, [wf ''_'' writeInt32, wf_flags ''flags'' [(''email'', 0),
         (''secure_settings'', 1)], wf_if ''flags'' 0 ''email'' writeString,
         wf_if ''flags'' 1 ''secure_settings'' writeTLSecureSecretSettings])]"

definition TL_AccountPasswordSettings_table :: flag_table where
  "TL_AccountPasswordSettings_table =
     [(- 1705233435, [Flags ''flags'' [(''email'', 0), (''secure_settings'', 1)],
        Cond ''flags'' 0 (''email'', readString, writeString, enc_string, is_short_text),
        Cond ''flags'' 1 (''secure_settings'', readTLSecureSecretSettings,
         writeTLSecureSecretSettings, enc_fobject TL_SecureSecretSettings_table,
         ok_fobject TL_SecureSecretSettings_table)])]"

interpretation tl_AccountPasswordSettings: tl_codec readTLAccountPasswordSettings writeTLAccountPasswordSettings "enc_fobject TL_AccountPasswordSettings_table" "ok_fobject TL_AccountPasswordSettings_table"
  by (rule flag_schema_codec, unfold TL_AccountPasswordSettings_table_def, intro flag_tableI)
    (simp_all add: readTLAccountPasswordSettings_def writeTLAccountPasswordSettings_def flag_schema_simps tl_SecureSecretSettings.tl_codec_axioms)

definition readTLAccountPasswordInputSettings :: tl_reader where
  "readTLAccountPasswordInputSettings = read_object
     [(- 1036572727, [rd ''flags'' readUInt32,
         rd_if ''flags'' 0 ''new_algo'' readTLPasswordKdfAlgo,
         rd_if ''flags'' 0 ''new_password_hash'' readByteArray,
         rd_if ''flags'' 0 ''hint'' readString, rd_if ''flags'' 1 ''email'' readString,
         rd_if ''flags'' 2 ''new_secure_settings'' readTLSecureSecretSettings])]"

definition writeTLAccountPasswordInputSettings :: tl_writer where
  "writeTLAccountPasswordInputSettings = write_fobject
     [(- 1036572727, [wf ''_'' writeInt32, wf_flags ''flags'' [(''new_algo'', 0),
         (''new_password_hash'', 0), (''hint'', 0), (''email'', 1), (''new_secure_settings'', 2)],
         wf_if ''flags'' 0 ''new_algo'' writeTLPasswordKdfAlgo,
         wf_if ''flags'' 0 ''new_password_hash'' writeByteArray,
         wf_if ''flags'' 0 ''hint'' writeString, wf_if ''flags'' 1 ''email'' writeString,
         wf_if ''flags'' 2 ''new_secure_settings'' writeTLSecureSecretSettings])]"

definition TL_AccountPasswordInputSettings_table :: flag_table where
  "TL_AccountPasswordInputSettings_table =
     [(- 1036572727, [Flags ''flags'' [(''new_algo'', 0), (''new_password_hash'', 0), (''hint'',
         0), (''email'', 1), (''new_secure_settings'', 2)],
        Cond ''flags'' 0 (''new_algo'', readTLPasswordKdfAlgo, writeTLPasswordKdfAlgo,
         enc_fobject TL_PasswordKdfAlgo_table, ok_fobject TL_PasswordKdfAlgo_table),
        Cond ''flags'' 0 (''new_password_hash'', readByteArray, writeByteArray, enc_bytes,
         is_short_bytes),
        Cond ''flags'' 0 (''hint'', readString, writeString, enc_string, is_short_text),
        Cond ''flags'' 1 (''email'', readString, writeString, enc_string, is_short_text),
        Cond ''flags'' 2 (''new_secure_settings'', readTLSecureSecretSettings,
         writeTLSecureSecretSettings, enc_fobject TL_SecureSecretSettings_table,
         ok_fobject TL_SecureSecretSettings_table)])]"

interpretation tl_AccountPasswordInputSettings: tl_codec readTLAccountPasswordInputSettings writeTLAccountPasswordInputSettings "enc_fobject TL_AccountPasswordInputSettings_table" "ok_fobject TL_AccountPasswordInputSettings_table"
  by (rule flag_schema_codec, unfold TL_AccountPasswordInputSettings_table_def, intro flag_tableI)
    (simp_all add: readTLAccountPasswordInputSettings_def writeTLAccountPasswordInputSettings_def flag_schema_simps tl_PasswordKdfAlgo.tl_codec_axioms tl_SecureSecretSettings.tl_codec_axioms)

definition readTLAuthPasswordRecovery :: tl_reader where
  "readTLAuthPasswordRecovery = read_object
     [(326715557, [rd ''email_pattern'' readString])]"

definition writeTLAuthPasswordRecovery :: tl_writer where
  "writeTLAuthPasswordRecovery = write_fobject
     [(326715557, [wf ''_'' writeInt32, wf ''email_pattern'' writeString])]"

definition TL_AuthPasswordRecovery_table :: flag_table where
  "TL_AuthPasswordRecovery_table =
     [(326715557, [Plain (''email_pattern'', readString, writeString, enc_string, is_short_text)])]"

interpretation tl_AuthPasswordRecovery: tl_codec readTLAuthPasswordRecovery writeTLAuthPasswordRecovery "enc_fobject TL_AuthPasswordRecovery_table" "ok_fobject TL_AuthPasswordRecovery_table"
  by (rule flag_schema_codec, unfold TL_AuthPasswordRecovery_table_def, intro flag_tableI)
    (simp_all add: readTLAuthPasswordRecovery_def writeTLAuthPasswordRecovery_def flag_schema_simps)

definition readTLReceivedNotifyMessage :: tl_reader where
  "readTLReceivedNotifyMessage = read_object
     [(- 1551583367, [rd ''id'' readInt32, rd ''flags'' readInt32])]"

definition writeTLReceivedNotifyMessage :: tl_writer where
  "writeTLReceivedNotifyMessage = write_fobject
     [(- 1551583367, [wf ''_'' writeInt32, wf ''id'' writeInt32, wf ''flags'' writeInt32])]"

definition TL_ReceivedNotifyMessage_table :: flag_table where
  "TL_ReceivedNotifyMessage_table =
     [(- 1551583367, [Plain (''id'', readInt32, writeInt32, enc_int32, is_VInt),
        Plain (''flags'', readInt32, writeInt32, enc_int32, is_VInt)])]"

interpretation tl_ReceivedNotifyMessage: tl_codec readTLReceivedNotifyMessage writeTLReceivedNotifyMessage "enc_fobject TL_ReceivedNotifyMessage_table" "ok_fobject TL_ReceivedNotifyMessage_table"
  by (rule flag_schema_codec, unfold TL_ReceivedNotifyMessage_table_def, intro flag_tableI)
    (simp_all add: readTLReceivedNotifyMessage_def writeTLReceivedNotifyMessage_def flag_schema_simps)

definition readTLStarsSubscriptionPricing :: tl_reader where
  "readTLStarsSubscriptionPricing = read_object
     [(88173912, [rd ''period'' readInt32, rd ''amount'' readInt64])]"

definition writeTLStarsSubscriptionPricing :: tl_writer where
  "writeTLStarsSubscriptionPricing = write_fobject
     [(88173912, [wf ''_'' writeInt32, wf ''period'' writeInt32, wf ''amount'' writeInt64])]"

definition TL_StarsSubscriptionPricing_table :: flag_table where
  "TL_StarsSubscriptionPricing_table =
     [(88173912, [Plain (''period'', readInt32, writeInt32, enc_int32, is_VInt),
        Plain (''amount'', readInt64, writeInt64, enc_int64, is_VLong)])]"

interpretation tl_StarsSubscriptionPricing: tl_codec readTLStarsSubscriptionPricing writeTLStarsSubscriptionPricing "enc_fobject TL_StarsSubscriptionPricing_table" "ok_fobject TL_StarsSubscriptionPricing_table"
  by (rule flag_schema_codec, unfold TL_StarsSubscriptionPricing_table_def, intro flag_tableI)
    (simp_all add: readTLStarsSubscriptionPricing_def writeTLStarsSubscriptionPricing_def flag_schema_simps)

definition readTLExportedChatInvite :: tl_reader where
  "readTLExportedChatInvite = read_object
     [(- 1574126186, [rd ''flags'' readUInt32, set_if ''flags'' 0 ''revoked'',
         set_if ''flags'' 5 ''permanent'', set_if ''flags'' 6 ''request_needed'',
         rd ''link'' readString, rd ''admin_id'' readInt64, rd ''date'' readInt32,
         rd_if ''flags'' 4 ''start_date'' readInt32, rd_if ''flags'' 1 ''expire_date'' readInt32,
         rd_if ''flags'' 2 ''usage_limit'' readInt32, rd_if ''flags'' 3 ''usage'' readInt32,
         rd_if ''flags'' 7 ''requested'' readInt32,
         rd_if ''flags'' 10 ''subscription_expired'' readInt32,
         rd_if ''flags'' 8 ''title'' readString,
         rd_if ''flags'' 9 ''subscription_pricing'' readTLStarsSubscriptionPricing]),
      (- 317687113, [])]"

definition writeTLExportedChatInvite :: tl_writer where
  "writeTLExportedChatInvite = write_fobject
     [(- 1574126186, [wf ''_'' writeInt32, wf_flags ''flags'' [(''revoked'', 0), (''permanent'',
         5), (''request_needed'', 6), (''start_date'', 4), (''expire_date'', 1), (''usage_limit'',
         2), (''usage'', 3), (''requested'', 7), (''subscription_expired'', 10), (''title'', 8),
         (''subscription_pricing'', 9)], wf ''link'' writeString, wf ''admin_id'' writeInt64,
         wf ''date'' writeInt32, wf_if ''flags'' 4 ''start_date'' writeInt32,
         wf_if ''flags'' 1 ''expire_date'' writeInt32,
         wf_if ''flags'' 2 ''usage_limit'' writeInt32, wf_if ''flags'' 3 ''usage'' writeInt32,
         wf_if ''flags'' 7 ''requested'' writeInt32,
         wf_if ''flags'' 10 ''subscription_expired'' writeInt32,
         wf_if ''flags'' 8 ''title'' writeString,
         wf_if ''flags'' 9 ''subscription_pricing'' writeTLStarsSubscriptionPricing]),
      (- 317687113, [wf ''_'' writeInt32])]"

definition TL_ExportedChatInvite_table :: flag_table where
  "TL_ExportedChatInvite_table =
     [(- 1574126186, [Flags ''flags'' [(''revoked'', 0), (''permanent'', 5), (''request_needed'',
         6), (''start_date'', 4), (''expire_date'', 1), (''usage_limit'', 2), (''usage'', 3),
         (''requested'', 7), (''subscription_expired'', 10), (''title'', 8),
         (''subscription_pricing'', 9)],
        TrueBit ''flags'' 0 ''revoked'',
        TrueBit ''flags'' 5 ''permanent'',
        TrueBit ''flags'' 6 ''request_needed'',
        Plain (''link'', readString, writeString, enc_string, is_short_text),
        Plain (''admin_id'', readInt64, writeInt64, enc_int64, is_VLong),
        Plain (''date'', readInt32, writeInt32, enc_int32, is_VInt),
        Cond ''flags'' 4 (''start_date'', readInt32, writeInt32, enc_int32, is_VInt),
        Cond ''flags'' 1 (''expire_date'', readInt32, writeInt32, enc_int32, is_VInt),
        Cond ''flags'' 2 (''usage_limit'', readInt32, writeInt32, enc_int32, is_VInt),
        Cond ''flags'' 3 (''usage'', readInt32, writeInt32, enc_int32, is_VInt),
        Cond ''flags'' 7 (''requested'', readInt32, writeInt32, enc_int32, is_VInt),
        Cond ''flags'' 10 (''subscription_expired'', readInt32, writeInt32, enc_int32, is_VInt),
        Cond ''flags'' 8 (''title'', readString, writeString, enc_string, is_short_text),
        Cond ''flags'' 9 (''subscription_pricing'', readTLStarsSubscriptionPricing,
         writeTLStarsSubscriptionPricing, enc_fobject TL_StarsSubscriptionPricing_table,
         ok_fobject TL_StarsSubscriptionPricing_table)]),
      (- 317687113, [])]"

interpretation tl_ExportedChatInvite: tl_codec readTLExportedChatInvite writeTLExportedChatInvite "enc_fobject TL_ExportedChatInvite_table" "ok_fobject TL_ExportedChatInvite_table"
  by (rule flag_schema_codec, unfold TL_ExportedChatInvite_table_def, intro flag_tableI)
    (simp_all add: readTLExportedChatInvite_def writeTLExportedChatInvite_def flag_schema_simps tl_StarsSubscriptionPricing.tl_codec_axioms)

definition readTLStickerKeyword :: tl_reader where
  "readTLStickerKeyword = read_object
     [(- 50416996, [rd ''document_id'' readInt64, rd ''keyword'' (readVector (Some readString))])]"

definition writeTLStickerKeyword :: tl_writer where
  "writeTLStickerKeyword = write_fobject
     [(- 50416996, [wf ''_'' writeInt32, wf ''document_id'' writeInt64,
         wf ''keyword'' (writeVector (Some writeString))])]"

definition TL_StickerKeyword_table :: flag_table where
  "TL_StickerKeyword_table =
     [(- 50416996, [Plain (''document_id'', readInt64, writeInt64, enc_int64, is_VLong),
        Plain (''keyword'', readVector (Some readString), writeVector (Some writeString),
         enc_vector enc_string, ok_vector is_short_text)])]"

interpretation tl_StickerKeyword: tl_codec readTLStickerKeyword writeTLStickerKeyword "enc_fobject TL_StickerKeyword_table" "ok_fobject TL_StickerKeyword_table"
  by (rule flag_schema_codec, unfold TL_StickerKeyword_table_def, intro flag_tableI)
    (simp_all add: readTLStickerKeyword_def writeTLStickerKeyword_def flag_schema_simps)

definition readTLBotCommand :: tl_reader where
  "readTLBotCommand = read_object
     [(- 1739401518, [rd ''flags'' readUInt32, set_if ''flags'' 0 ''ephemeral'',
         rd ''command'' readString, rd ''description'' readString])]"

definition writeTLBotCommand :: tl_writer where
  "writeTLBotCommand = write_fobject
     [(- 1739401518, [wf ''_'' writeInt32, wf_flags ''flags'' [(''ephemeral'', 0)],
         wf ''command'' writeString, wf ''description'' writeString])]"

definition TL_BotCommand_table :: flag_table where
  "TL_BotCommand_table =
     [(- 1739401518, [Flags ''flags'' [(''ephemeral'', 0)],
        TrueBit ''flags'' 0 ''ephemeral'',
        Plain (''command'', readString, writeString, enc_string, is_short_text),
        Plain (''description'', readString, writeString, enc_string, is_short_text)])]"

interpretation tl_BotCommand: tl_codec readTLBotCommand writeTLBotCommand "enc_fobject TL_BotCommand_table" "ok_fobject TL_BotCommand_table"
  by (rule flag_schema_codec, unfold TL_BotCommand_table_def, intro flag_tableI)
    (simp_all add: readTLBotCommand_def writeTLBotCommand_def flag_schema_simps)

definition readTLKeyboardButtonStyle :: tl_reader where
  "readTLKeyboardButtonStyle = read_object
     [(1339896880, [rd ''flags'' readUInt32, set_if ''flags'' 0 ''bg_primary'',
         set_if ''flags'' 1 ''bg_danger'', set_if ''flags'' 2 ''bg_success'',
         rd_if ''flags'' 3 ''icon'' readInt64])]"

definition writeTLKeyboardButtonStyle :: tl_writer where
  "writeTLKeyboardButtonStyle = write_fobject
     [(1339896880, [wf ''_'' writeInt32, wf_flags ''flags'' [(''bg_primary'', 0), (''bg_danger'',
         1), (''bg_success'', 2), (''icon'', 3)], wf_if ''flags'' 3 ''icon'' writeInt64])]"

definition TL_KeyboardButtonStyle_table :: flag_table where
  "TL_KeyboardButtonStyle_table =
     [(1339896880, [Flags ''flags'' [(''bg_primary'', 0), (''bg_danger'', 1), (''bg_success'', 2),
         (''icon'', 3)],
        TrueBit ''flags'' 0 ''bg_primary'',
        TrueBit ''flags'' 1 ''bg_danger'',
        TrueBit ''flags'' 2 ''bg_success'',
        Cond ''flags'' 3 (''icon'', readInt64, writeInt64, enc_int64, is_VLong)])]"

interpretation tl_KeyboardButtonStyle: tl_codec readTLKeyboardButtonStyle writeTLKeyboardButtonStyle "enc_fobject TL_KeyboardButtonStyle_table" "ok_fobject TL_KeyboardButtonStyle_table"
  by (rule flag_schema_codec, unfold TL_KeyboardButtonStyle_table_def, intro flag_tableI)
    (simp_all add: readTLKeyboardButtonStyle_def writeTLKeyboardButtonStyle_def flag_schema_simps)

subsection \<open>The types since the last list at once\<close>

definition tl_types_part2 :: "(tl_reader \<times> tl_writer \<times> flag_table) list" where
  "tl_types_part2 =
     [(readTLEncryptedFile, writeTLEncryptedFile, TL_EncryptedFile_table),
      (readTLInputEncryptedFile, writeTLInputEncryptedFile, TL_InputEncryptedFile_table),
      (readTLEncryptedMessage, writeTLEncryptedMessage, TL_EncryptedMessage_table),
      (readTLMessagesDhConfig, writeTLMessagesDhConfig, TL_MessagesDhConfig_table),
      (readTLMessagesSentEncryptedMessage, writeTLMessagesSentEncryptedMessage, TL_MessagesSentEncryptedMessage_table),
      (readTLHelpSupport, writeTLHelpSupport, TL_HelpSupport_table),
      (readTLNotifyPeer, writeTLNotifyPeer, TL_NotifyPeer_table),
      (readTLInlineQueryPeerType, writeTLInlineQueryPeerType, TL_InlineQueryPeerType_table),
      (readTLInlineButtonType, writeTLInlineButtonType, TL_InlineButtonType_table),
      (readTLRichButtonStyle, writeTLRichButtonStyle, TL_RichButtonStyle_table),
      (readTLContactsFound, writeTLContactsFound, TL_ContactsFound_table),
      (readTLInputPrivacyKey, writeTLInputPrivacyKey, TL_InputPrivacyKey_table),
      (readTLPrivacyKey, writeTLPrivacyKey, TL_PrivacyKey_table),
      (readTLInputPrivacyRule, writeTLInputPrivacyRule, TL_InputPrivacyRule_table),
      (readTLPrivacyRule, writeTLPrivacyRule, TL_PrivacyRule_table),
      (readTLAccountPrivacyRules, writeTLAccountPrivacyRules, TL_AccountPrivacyRules_table),
      (readTLAccountDaysTTL, writeTLAccountDaysTTL, TL_AccountDaysTTL_table),
      (readTLStickerPack, writeTLStickerPack, TL_StickerPack_table),
      (readTLStickerSet, writeTLStickerSet, TL_StickerSet_table),
      (readTLMessagesAllStickers, writeTLMessagesAllStickers, TL_MessagesAllStickers_table),
      (readTLAuthorization, writeTLAuthorization, TL_Authorization_table),
      (readTLAccountAuthorizations, writeTLAccountAuthorizations, TL_AccountAuthorizations_table),
      (readTLSecureSecretSettings, writeTLSecureSecretSettings, TL_SecureSecretSettings_table),
      (readTLAccountPasswordSettings, writeTLAccountPasswordSettings, TL_AccountPasswordSettings_table),
      (readTLAccountPasswordInputSettings, writeTLAccountPasswordInputSettings, TL_AccountPasswordInputSettings_table),
      (readTLAuthPasswordRecovery, writeTLAuthPasswordRecovery, TL_AuthPasswordRecovery_table),
      (readTLReceivedNotifyMessage, writeTLReceivedNotifyMessage, TL_ReceivedNotifyMessage_table),
      (readTLStarsSubscriptionPricing, writeTLStarsSubscriptionPricing, TL_StarsSubscriptionPricing_table),
      (readTLExportedChatInvite, writeTLExportedChatInvite, TL_ExportedChatInvite_table),
      (readTLStickerKeyword, writeTLStickerKeyword, TL_StickerKeyword_table),
      (readTLBotCommand, writeTLBotCommand, TL_BotCommand_table),
      (readTLKeyboardButtonStyle, writeTLKeyboardButtonStyle, TL_KeyboardButtonStyle_table)]"

lemma tl_types_part2_codec: "(R, W, t) \<in> set tl_types_part2 \<Longrightarrow> tl_codec R W (enc_fobject t) (ok_fobject t)"
  by (auto simp: tl_types_part2_def
      intro: tl_EncryptedFile.tl_codec_axioms tl_InputEncryptedFile.tl_codec_axioms
         tl_EncryptedMessage.tl_codec_axioms tl_MessagesDhConfig.tl_codec_axioms
         tl_MessagesSentEncryptedMessage.tl_codec_axioms tl_HelpSupport.tl_codec_axioms
         tl_NotifyPeer.tl_codec_axioms tl_InlineQueryPeerType.tl_codec_axioms
         tl_InlineButtonType.tl_codec_axioms tl_RichButtonStyle.tl_codec_axioms
         tl_ContactsFound.tl_codec_axioms tl_InputPrivacyKey.tl_codec_axioms
         tl_PrivacyKey.tl_codec_axioms tl_InputPrivacyRule.tl_codec_axioms
         tl_PrivacyRule.tl_codec_axioms tl_AccountPrivacyRules.tl_codec_axioms
         tl_AccountDaysTTL.tl_codec_axioms tl_StickerPack.tl_codec_axioms
         tl_StickerSet.tl_codec_axioms tl_MessagesAllStickers.tl_codec_axioms
         tl_Authorization.tl_codec_axioms tl_AccountAuthorizations.tl_codec_axioms
         tl_SecureSecretSettings.tl_codec_axioms tl_AccountPasswordSettings.tl_codec_axioms
         tl_AccountPasswordInputSettings.tl_codec_axioms tl_AuthPasswordRecovery.tl_codec_axioms
         tl_ReceivedNotifyMessage.tl_codec_axioms tl_StarsSubscriptionPricing.tl_codec_axioms
         tl_ExportedChatInvite.tl_codec_axioms tl_StickerKeyword.tl_codec_axioms
         tl_BotCommand.tl_codec_axioms tl_KeyboardButtonStyle.tl_codec_axioms)

definition readTLRequestPeerType :: tl_reader where
  "readTLRequestPeerType = read_object
     [(1597737472, [rd ''flags'' readUInt32, rd_if ''flags'' 0 ''bot'' readBool,
         rd_if ''flags'' 1 ''premium'' readBool]),
      (- 906990053, [rd ''flags'' readUInt32, set_if ''flags'' 0 ''creator'',
         set_if ''flags'' 5 ''bot_participant'', rd_if ''flags'' 3 ''has_username'' readBool,
         rd_if ''flags'' 4 ''forum'' readBool,
         rd_if ''flags'' 1 ''user_admin_rights'' readTLChatAdminRights,
         rd_if ''flags'' 2 ''bot_admin_rights'' readTLChatAdminRights]),
      (865857388, [rd ''flags'' readUInt32, set_if ''flags'' 0 ''creator'',
         rd_if ''flags'' 3 ''has_username'' readBool,
         rd_if ''flags'' 1 ''user_admin_rights'' readTLChatAdminRights,
         rd_if ''flags'' 2 ''bot_admin_rights'' readTLChatAdminRights]),
      (1048699000, [rd ''flags'' readUInt32, set_if ''flags'' 0 ''bot_managed'',
         rd_if ''flags'' 1 ''suggested_name'' readString,
         rd_if ''flags'' 2 ''suggested_username'' readString])]"

definition writeTLRequestPeerType :: tl_writer where
  "writeTLRequestPeerType = write_fobject
     [(1597737472, [wf ''_'' writeInt32, wf_flags ''flags'' [(''bot'', 0), (''premium'', 1)],
         wf_if ''flags'' 0 ''bot'' writeBool, wf_if ''flags'' 1 ''premium'' writeBool]),
      (- 906990053, [wf ''_'' writeInt32, wf_flags ''flags'' [(''creator'', 0),
         (''bot_participant'', 5), (''has_username'', 3), (''forum'', 4), (''user_admin_rights'',
         1), (''bot_admin_rights'', 2)], wf_if ''flags'' 3 ''has_username'' writeBool,
         wf_if ''flags'' 4 ''forum'' writeBool,
         wf_if ''flags'' 1 ''user_admin_rights'' writeTLChatAdminRights,
         wf_if ''flags'' 2 ''bot_admin_rights'' writeTLChatAdminRights]),
      (865857388, [wf ''_'' writeInt32, wf_flags ''flags'' [(''creator'', 0), (''has_username'',
         3), (''user_admin_rights'', 1), (''bot_admin_rights'', 2)],
         wf_if ''flags'' 3 ''has_username'' writeBool,
         wf_if ''flags'' 1 ''user_admin_rights'' writeTLChatAdminRights,
         wf_if ''flags'' 2 ''bot_admin_rights'' writeTLChatAdminRights]),
      (1048699000, [wf ''_'' writeInt32, wf_flags ''flags'' [(''bot_managed'', 0),
         (''suggested_name'', 1), (''suggested_username'', 2)],
         wf_if ''flags'' 1 ''suggested_name'' writeString,
         wf_if ''flags'' 2 ''suggested_username'' writeString])]"

definition TL_RequestPeerType_table :: flag_table where
  "TL_RequestPeerType_table =
     [(1597737472, [Flags ''flags'' [(''bot'', 0), (''premium'', 1)],
        Cond ''flags'' 0 (''bot'', readBool, writeBool, enc_bool, is_VBool),
        Cond ''flags'' 1 (''premium'', readBool, writeBool, enc_bool, is_VBool)]),
      (- 906990053, [Flags ''flags'' [(''creator'', 0), (''bot_participant'', 5),
         (''has_username'', 3), (''forum'', 4), (''user_admin_rights'', 1), (''bot_admin_rights'',
         2)],
        TrueBit ''flags'' 0 ''creator'',
        TrueBit ''flags'' 5 ''bot_participant'',
        Cond ''flags'' 3 (''has_username'', readBool, writeBool, enc_bool, is_VBool),
        Cond ''flags'' 4 (''forum'', readBool, writeBool, enc_bool, is_VBool),
        Cond ''flags'' 1 (''user_admin_rights'', readTLChatAdminRights, writeTLChatAdminRights,
         enc_fobject TL_ChatAdminRights_table, ok_fobject TL_ChatAdminRights_table),
        Cond ''flags'' 2 (''bot_admin_rights'', readTLChatAdminRights, writeTLChatAdminRights,
         enc_fobject TL_ChatAdminRights_table, ok_fobject TL_ChatAdminRights_table)]),
      (865857388, [Flags ''flags'' [(''creator'', 0), (''has_username'', 3),
         (''user_admin_rights'', 1), (''bot_admin_rights'', 2)],
        TrueBit ''flags'' 0 ''creator'',
        Cond ''flags'' 3 (''has_username'', readBool, writeBool, enc_bool, is_VBool),
        Cond ''flags'' 1 (''user_admin_rights'', readTLChatAdminRights, writeTLChatAdminRights,
         enc_fobject TL_ChatAdminRights_table, ok_fobject TL_ChatAdminRights_table),
        Cond ''flags'' 2 (''bot_admin_rights'', readTLChatAdminRights, writeTLChatAdminRights,
         enc_fobject TL_ChatAdminRights_table, ok_fobject TL_ChatAdminRights_table)]),
      (1048699000, [Flags ''flags'' [(''bot_managed'', 0), (''suggested_name'', 1),
         (''suggested_username'', 2)],
        TrueBit ''flags'' 0 ''bot_managed'',
        Cond ''flags'' 1 (''suggested_name'', readString, writeString, enc_string, is_short_text),
        Cond ''flags'' 2 (''suggested_username'', readString, writeString, enc_string,
         is_short_text)])]"

interpretation tl_RequestPeerType: tl_codec readTLRequestPeerType writeTLRequestPeerType "enc_fobject TL_RequestPeerType_table" "ok_fobject TL_RequestPeerType_table"
  by (rule flag_schema_codec, unfold TL_RequestPeerType_table_def, intro flag_tableI)
    (simp_all add: readTLRequestPeerType_def writeTLRequestPeerType_def flag_schema_simps tl_ChatAdminRights.tl_codec_axioms)

definition readTLButtonType :: tl_reader where
  "readTLButtonType = read_object
     [(- 908226327, []),
      (- 549636359, []),
      (- 1678843584, []),
      (- 1429209212, [rd ''flags'' readUInt32, rd_if ''flags'' 0 ''quiz'' readBool]),
      (1331208759, [rd ''flags'' readUInt32, rd ''button_id'' readInt32,
         rd ''peer_type'' readTLRequestPeerType, rd ''max_quantity'' readInt32]),
      (1071802622, [rd ''flags'' readUInt32, set_if ''flags'' 0 ''name_requested'',
         set_if ''flags'' 1 ''username_requested'', set_if ''flags'' 2 ''photo_requested'',
         rd ''button_id'' readInt32, rd ''peer_type'' readTLRequestPeerType,
         rd ''max_quantity'' readInt32]),
      (- 1072014982, [rd ''url'' readString])]"

definition writeTLButtonType :: tl_writer where
  "writeTLButtonType = write_fobject
     [(- 908226327, [wf ''_'' writeInt32]),
      (- 549636359, [wf ''_'' writeInt32]),
      (- 1678843584, [wf ''_'' writeInt32]),
      (- 1429209212, [wf ''_'' writeInt32, wf_flags ''flags'' [(''quiz'', 0)],
         wf_if ''flags'' 0 ''quiz'' writeBool]),
      (1331208759, [wf ''_'' writeInt32, wf_flags ''flags'' [], wf ''button_id'' writeInt32,
         wf ''peer_type'' writeTLRequestPeerType, wf ''max_quantity'' writeInt32]),
      (1071802622, [wf ''_'' writeInt32, wf_flags ''flags'' [(''name_requested'', 0),
         (''username_requested'', 1), (''photo_requested'', 2)], wf ''button_id'' writeInt32,
         wf ''peer_type'' writeTLRequestPeerType, wf ''max_quantity'' writeInt32]),
      (- 1072014982, [wf ''_'' writeInt32, wf ''url'' writeString])]"

definition TL_ButtonType_table :: flag_table where
  "TL_ButtonType_table =
     [(- 908226327, []),
      (- 549636359, []),
      (- 1678843584, []),
      (- 1429209212, [Flags ''flags'' [(''quiz'', 0)],
        Cond ''flags'' 0 (''quiz'', readBool, writeBool, enc_bool, is_VBool)]),
      (1331208759, [Flags ''flags'' [],
        Plain (''button_id'', readInt32, writeInt32, enc_int32, is_VInt),
        Plain (''peer_type'', readTLRequestPeerType, writeTLRequestPeerType,
         enc_fobject TL_RequestPeerType_table, ok_fobject TL_RequestPeerType_table),
        Plain (''max_quantity'', readInt32, writeInt32, enc_int32, is_VInt)]),
      (1071802622, [Flags ''flags'' [(''name_requested'', 0), (''username_requested'', 1),
         (''photo_requested'', 2)],
        TrueBit ''flags'' 0 ''name_requested'',
        TrueBit ''flags'' 1 ''username_requested'',
        TrueBit ''flags'' 2 ''photo_requested'',
        Plain (''button_id'', readInt32, writeInt32, enc_int32, is_VInt),
        Plain (''peer_type'', readTLRequestPeerType, writeTLRequestPeerType,
         enc_fobject TL_RequestPeerType_table, ok_fobject TL_RequestPeerType_table),
        Plain (''max_quantity'', readInt32, writeInt32, enc_int32, is_VInt)]),
      (- 1072014982, [Plain (''url'', readString, writeString, enc_string, is_short_text)])]"

interpretation tl_ButtonType: tl_codec readTLButtonType writeTLButtonType "enc_fobject TL_ButtonType_table" "ok_fobject TL_ButtonType_table"
  by (rule flag_schema_codec, unfold TL_ButtonType_table_def, intro flag_tableI)
    (simp_all add: readTLButtonType_def writeTLButtonType_def flag_schema_simps tl_RequestPeerType.tl_codec_axioms)

definition readTLKeyboardButton :: tl_reader where
  "readTLKeyboardButton = read_object
     [(795322159, [rd ''flags'' readUInt32, rd_if ''flags'' 10 ''style'' readTLKeyboardButtonStyle,
         rd ''text'' readString, rd ''type'' readTLButtonType])]"

definition writeTLKeyboardButton :: tl_writer where
  "writeTLKeyboardButton = write_fobject
     [(795322159, [wf ''_'' writeInt32, wf_flags ''flags'' [(''style'', 10)],
         wf_if ''flags'' 10 ''style'' writeTLKeyboardButtonStyle, wf ''text'' writeString,
         wf ''type'' writeTLButtonType])]"

definition TL_KeyboardButton_table :: flag_table where
  "TL_KeyboardButton_table =
     [(795322159, [Flags ''flags'' [(''style'', 10)],
        Cond ''flags'' 10 (''style'', readTLKeyboardButtonStyle, writeTLKeyboardButtonStyle,
         enc_fobject TL_KeyboardButtonStyle_table, ok_fobject TL_KeyboardButtonStyle_table),
        Plain (''text'', readString, writeString, enc_string, is_short_text),
        Plain (''type'', readTLButtonType, writeTLButtonType, enc_fobject TL_ButtonType_table,
         ok_fobject TL_ButtonType_table)])]"

interpretation tl_KeyboardButton: tl_codec readTLKeyboardButton writeTLKeyboardButton "enc_fobject TL_KeyboardButton_table" "ok_fobject TL_KeyboardButton_table"
  by (rule flag_schema_codec, unfold TL_KeyboardButton_table_def, intro flag_tableI)
    (simp_all add: readTLKeyboardButton_def writeTLKeyboardButton_def flag_schema_simps tl_KeyboardButtonStyle.tl_codec_axioms tl_ButtonType.tl_codec_axioms)

definition readTLKeyboardButtonRow :: tl_reader where
  "readTLKeyboardButtonRow = read_object
     [(2002815875, [rd ''buttons'' (readVector (Some readTLKeyboardButton))])]"

definition writeTLKeyboardButtonRow :: tl_writer where
  "writeTLKeyboardButtonRow = write_fobject
     [(2002815875, [wf ''_'' writeInt32,
         wf ''buttons'' (writeVector (Some writeTLKeyboardButton))])]"

definition TL_KeyboardButtonRow_table :: flag_table where
  "TL_KeyboardButtonRow_table =
     [(2002815875, [Plain (''buttons'', readVector (Some readTLKeyboardButton),
         writeVector (Some writeTLKeyboardButton),
         enc_vector (enc_fobject TL_KeyboardButton_table),
         ok_vector (ok_fobject TL_KeyboardButton_table))])]"

interpretation tl_KeyboardButtonRow: tl_codec readTLKeyboardButtonRow writeTLKeyboardButtonRow "enc_fobject TL_KeyboardButtonRow_table" "ok_fobject TL_KeyboardButtonRow_table"
  by (rule flag_schema_codec, unfold TL_KeyboardButtonRow_table_def, intro flag_tableI)
    (simp_all add: readTLKeyboardButtonRow_def writeTLKeyboardButtonRow_def flag_schema_simps tl_KeyboardButton.tl_codec_axioms tl_KeyboardButton.vector_codec)

definition readTLKeyboardInlineButton :: tl_reader where
  "readTLKeyboardInlineButton = read_object
     [(297902882, [rd ''flags'' readUInt32, rd_if ''flags'' 10 ''style'' readTLKeyboardButtonStyle,
         rd ''text'' readString, rd ''type'' readTLInlineButtonType])]"

definition writeTLKeyboardInlineButton :: tl_writer where
  "writeTLKeyboardInlineButton = write_fobject
     [(297902882, [wf ''_'' writeInt32, wf_flags ''flags'' [(''style'', 10)],
         wf_if ''flags'' 10 ''style'' writeTLKeyboardButtonStyle, wf ''text'' writeString,
         wf ''type'' writeTLInlineButtonType])]"

definition TL_KeyboardInlineButton_table :: flag_table where
  "TL_KeyboardInlineButton_table =
     [(297902882, [Flags ''flags'' [(''style'', 10)],
        Cond ''flags'' 10 (''style'', readTLKeyboardButtonStyle, writeTLKeyboardButtonStyle,
         enc_fobject TL_KeyboardButtonStyle_table, ok_fobject TL_KeyboardButtonStyle_table),
        Plain (''text'', readString, writeString, enc_string, is_short_text),
        Plain (''type'', readTLInlineButtonType, writeTLInlineButtonType,
         enc_fobject TL_InlineButtonType_table, ok_fobject TL_InlineButtonType_table)])]"

interpretation tl_KeyboardInlineButton: tl_codec readTLKeyboardInlineButton writeTLKeyboardInlineButton "enc_fobject TL_KeyboardInlineButton_table" "ok_fobject TL_KeyboardInlineButton_table"
  by (rule flag_schema_codec, unfold TL_KeyboardInlineButton_table_def, intro flag_tableI)
    (simp_all add: readTLKeyboardInlineButton_def writeTLKeyboardInlineButton_def flag_schema_simps tl_KeyboardButtonStyle.tl_codec_axioms tl_InlineButtonType.tl_codec_axioms)

definition readTLKeyboardInlineButtonRow :: tl_reader where
  "readTLKeyboardInlineButtonRow = read_object
     [(423758582, [rd ''buttons'' (readVector (Some readTLKeyboardInlineButton))])]"

definition writeTLKeyboardInlineButtonRow :: tl_writer where
  "writeTLKeyboardInlineButtonRow = write_fobject
     [(423758582, [wf ''_'' writeInt32,
         wf ''buttons'' (writeVector (Some writeTLKeyboardInlineButton))])]"

definition TL_KeyboardInlineButtonRow_table :: flag_table where
  "TL_KeyboardInlineButtonRow_table =
     [(423758582, [Plain (''buttons'', readVector (Some readTLKeyboardInlineButton),
         writeVector (Some writeTLKeyboardInlineButton),
         enc_vector (enc_fobject TL_KeyboardInlineButton_table),
         ok_vector (ok_fobject TL_KeyboardInlineButton_table))])]"

interpretation tl_KeyboardInlineButtonRow: tl_codec readTLKeyboardInlineButtonRow writeTLKeyboardInlineButtonRow "enc_fobject TL_KeyboardInlineButtonRow_table" "ok_fobject TL_KeyboardInlineButtonRow_table"
  by (rule flag_schema_codec, unfold TL_KeyboardInlineButtonRow_table_def, intro flag_tableI)
    (simp_all add: readTLKeyboardInlineButtonRow_def writeTLKeyboardInlineButtonRow_def flag_schema_simps tl_KeyboardInlineButton.tl_codec_axioms tl_KeyboardInlineButton.vector_codec)

definition readTLReplyMarkup :: tl_reader where
  "readTLReplyMarkup = read_object
     [(- 1606526075, [rd ''flags'' readUInt32, set_if ''flags'' 2 ''selective'']),
      (- 2035021048, [rd ''flags'' readUInt32, set_if ''flags'' 1 ''single_use'',
         set_if ''flags'' 2 ''selective'', rd_if ''flags'' 3 ''placeholder'' readString]),
      (- 2049074735, [rd ''flags'' readUInt32, set_if ''flags'' 0 ''resize'',
         set_if ''flags'' 1 ''single_use'', set_if ''flags'' 2 ''selective'',
         set_if ''flags'' 4 ''persistent'', set_if ''flags'' 5 ''force_reply'',
         rd ''rows'' (readVector (Some readTLKeyboardButtonRow)),
         rd_if ''flags'' 3 ''placeholder'' readString]),
      (- 1297000592, [rd ''flags'' readUInt32, set_if ''flags'' 5 ''force_reply'',
         rd ''rows'' (readVector (Some readTLKeyboardInlineButtonRow))])]"

definition writeTLReplyMarkup :: tl_writer where
  "writeTLReplyMarkup = write_fobject
     [(- 1606526075, [wf ''_'' writeInt32, wf_flags ''flags'' [(''selective'', 2)]]),
      (- 2035021048, [wf ''_'' writeInt32, wf_flags ''flags'' [(''single_use'', 1), (''selective'',
         2), (''placeholder'', 3)], wf_if ''flags'' 3 ''placeholder'' writeString]),
      (- 2049074735, [wf ''_'' writeInt32, wf_flags ''flags'' [(''resize'', 0), (''single_use'',
         1), (''selective'', 2), (''persistent'', 4), (''force_reply'', 5), (''placeholder'', 3)],
         wf ''rows'' (writeVector (Some writeTLKeyboardButtonRow)),
         wf_if ''flags'' 3 ''placeholder'' writeString]),
      (- 1297000592, [wf ''_'' writeInt32, wf_flags ''flags'' [(''force_reply'', 5)],
         wf ''rows'' (writeVector (Some writeTLKeyboardInlineButtonRow))])]"

definition TL_ReplyMarkup_table :: flag_table where
  "TL_ReplyMarkup_table =
     [(- 1606526075, [Flags ''flags'' [(''selective'', 2)],
        TrueBit ''flags'' 2 ''selective'']),
      (- 2035021048, [Flags ''flags'' [(''single_use'', 1), (''selective'', 2), (''placeholder'',
         3)],
        TrueBit ''flags'' 1 ''single_use'',
        TrueBit ''flags'' 2 ''selective'',
        Cond ''flags'' 3 (''placeholder'', readString, writeString, enc_string, is_short_text)]),
      (- 2049074735, [Flags ''flags'' [(''resize'', 0), (''single_use'', 1), (''selective'', 2),
         (''persistent'', 4), (''force_reply'', 5), (''placeholder'', 3)],
        TrueBit ''flags'' 0 ''resize'',
        TrueBit ''flags'' 1 ''single_use'',
        TrueBit ''flags'' 2 ''selective'',
        TrueBit ''flags'' 4 ''persistent'',
        TrueBit ''flags'' 5 ''force_reply'',
        Plain (''rows'', readVector (Some readTLKeyboardButtonRow),
         writeVector (Some writeTLKeyboardButtonRow),
         enc_vector (enc_fobject TL_KeyboardButtonRow_table),
         ok_vector (ok_fobject TL_KeyboardButtonRow_table)),
        Cond ''flags'' 3 (''placeholder'', readString, writeString, enc_string, is_short_text)]),
      (- 1297000592, [Flags ''flags'' [(''force_reply'', 5)],
        TrueBit ''flags'' 5 ''force_reply'',
        Plain (''rows'', readVector (Some readTLKeyboardInlineButtonRow),
         writeVector (Some writeTLKeyboardInlineButtonRow),
         enc_vector (enc_fobject TL_KeyboardInlineButtonRow_table),
         ok_vector (ok_fobject TL_KeyboardInlineButtonRow_table))])]"

interpretation tl_ReplyMarkup: tl_codec readTLReplyMarkup writeTLReplyMarkup "enc_fobject TL_ReplyMarkup_table" "ok_fobject TL_ReplyMarkup_table"
  by (rule flag_schema_codec, unfold TL_ReplyMarkup_table_def, intro flag_tableI)
    (simp_all add: readTLReplyMarkup_def writeTLReplyMarkup_def flag_schema_simps tl_KeyboardButtonRow.tl_codec_axioms tl_KeyboardButtonRow.vector_codec tl_KeyboardInlineButtonRow.tl_codec_axioms tl_KeyboardInlineButtonRow.vector_codec)

definition readTLContactsResolvedPeer :: tl_reader where
  "readTLContactsResolvedPeer = read_object
     [(2131196633, [rd ''peer'' readTLPeer, rd ''chats'' (readVector (Some readTLChat)),
         rd ''users'' (readVector (Some readTLUser))])]"

definition writeTLContactsResolvedPeer :: tl_writer where
  "writeTLContactsResolvedPeer = write_fobject
     [(2131196633, [wf ''_'' writeInt32, wf ''peer'' writeTLPeer,
         wf ''chats'' (writeVector (Some writeTLChat)),
         wf ''users'' (writeVector (Some writeTLUser))])]"

definition TL_ContactsResolvedPeer_table :: flag_table where
  "TL_ContactsResolvedPeer_table =
     [(2131196633, [Plain (''peer'', readTLPeer, writeTLPeer, enc_fobject TL_Peer_table,
         ok_fobject TL_Peer_table),
        Plain (''chats'', readVector (Some readTLChat), writeVector (Some writeTLChat),
         enc_vector (enc_fobject TL_Chat_table), ok_vector (ok_fobject TL_Chat_table)),
        Plain (''users'', readVector (Some readTLUser), writeVector (Some writeTLUser),
         enc_vector (enc_fobject TL_User_table), ok_vector (ok_fobject TL_User_table))])]"

interpretation tl_ContactsResolvedPeer: tl_codec readTLContactsResolvedPeer writeTLContactsResolvedPeer "enc_fobject TL_ContactsResolvedPeer_table" "ok_fobject TL_ContactsResolvedPeer_table"
  by (rule flag_schema_codec, unfold TL_ContactsResolvedPeer_table_def, intro flag_tableI)
    (simp_all add: readTLContactsResolvedPeer_def writeTLContactsResolvedPeer_def flag_schema_simps tl_Peer.tl_codec_axioms tl_Peer.vector_codec tl_Chat.tl_codec_axioms tl_Chat.vector_codec tl_User.tl_codec_axioms tl_User.vector_codec)

definition readTLChannelParticipant :: tl_reader where
  "readTLChannelParticipant = read_object
     [(466961494, [rd ''flags'' readUInt32, rd ''user_id'' readInt64, rd ''date'' readInt32,
         rd_if ''flags'' 0 ''subscription_until_date'' readInt32,
         rd_if ''flags'' 2 ''rank'' readString]),
      (- 1454929382, [rd ''flags'' readUInt32, set_if ''flags'' 0 ''via_request'',
         rd ''user_id'' readInt64, rd ''inviter_id'' readInt64, rd ''date'' readInt32,
         rd_if ''flags'' 1 ''subscription_until_date'' readInt32,
         rd_if ''flags'' 2 ''rank'' readString]),
      (803602899, [rd ''flags'' readUInt32, rd ''user_id'' readInt64,
         rd ''admin_rights'' readTLChatAdminRights, rd_if ''flags'' 0 ''rank'' readString]),
      (885242707, [rd ''flags'' readUInt32, set_if ''flags'' 0 ''can_edit'',
         set_if ''flags'' 1 ''self'', rd ''user_id'' readInt64,
         rd_if ''flags'' 1 ''inviter_id'' readInt64, rd ''promoted_by'' readInt64,
         rd ''date'' readInt32, rd ''admin_rights'' readTLChatAdminRights,
         rd_if ''flags'' 2 ''rank'' readString]),
      (- 705647215, [rd ''flags'' readUInt32, set_if ''flags'' 0 ''left'', rd ''peer'' readTLPeer,
         rd ''kicked_by'' readInt64, rd ''date'' readInt32,
         rd ''banned_rights'' readTLChatBannedRights, rd_if ''flags'' 2 ''rank'' readString]),
      (453242886, [rd ''peer'' readTLPeer])]"

definition writeTLChannelParticipant :: tl_writer where
  "writeTLChannelParticipant = write_fobject
     [(466961494, [wf ''_'' writeInt32, wf_flags ''flags'' [(''subscription_until_date'', 0),
         (''rank'', 2)], wf ''user_id'' writeInt64, wf ''date'' writeInt32,
         wf_if ''flags'' 0 ''subscription_until_date'' writeInt32,
         wf_if ''flags'' 2 ''rank'' writeString]),
      (- 1454929382, [wf ''_'' writeInt32, wf_flags ''flags'' [(''via_request'', 0),
         (''subscription_until_date'', 1), (''rank'', 2)], wf ''user_id'' writeInt64,
         wf ''inviter_id'' writeInt64, wf ''date'' writeInt32,
         wf_if ''flags'' 1 ''subscription_until_date'' writeInt32,
         wf_if ''flags'' 2 ''rank'' writeString]),
      (803602899, [wf ''_'' writeInt32, wf_flags ''flags'' [(''rank'', 0)],
         wf ''user_id'' writeInt64, wf ''admin_rights'' writeTLChatAdminRights,
         wf_if ''flags'' 0 ''rank'' writeString]),
      (885242707, [wf ''_'' writeInt32, wf_flags ''flags'' [(''can_edit'', 0), (''self'', 1),
         (''inviter_id'', 1), (''rank'', 2)], wf ''user_id'' writeInt64,
         wf_if ''flags'' 1 ''inviter_id'' writeInt64, wf ''promoted_by'' writeInt64,
         wf ''date'' writeInt32, wf ''admin_rights'' writeTLChatAdminRights,
         wf_if ''flags'' 2 ''rank'' writeString]),
      (- 705647215, [wf ''_'' writeInt32, wf_flags ''flags'' [(''left'', 0), (''rank'', 2)],
         wf ''peer'' writeTLPeer, wf ''kicked_by'' writeInt64, wf ''date'' writeInt32,
         wf ''banned_rights'' writeTLChatBannedRights, wf_if ''flags'' 2 ''rank'' writeString]),
      (453242886, [wf ''_'' writeInt32, wf ''peer'' writeTLPeer])]"

definition TL_ChannelParticipant_table :: flag_table where
  "TL_ChannelParticipant_table =
     [(466961494, [Flags ''flags'' [(''subscription_until_date'', 0), (''rank'', 2)],
        Plain (''user_id'', readInt64, writeInt64, enc_int64, is_VLong),
        Plain (''date'', readInt32, writeInt32, enc_int32, is_VInt),
        Cond ''flags'' 0 (''subscription_until_date'', readInt32, writeInt32, enc_int32, is_VInt),
        Cond ''flags'' 2 (''rank'', readString, writeString, enc_string, is_short_text)]),
      (- 1454929382, [Flags ''flags'' [(''via_request'', 0), (''subscription_until_date'', 1),
         (''rank'', 2)],
        TrueBit ''flags'' 0 ''via_request'',
        Plain (''user_id'', readInt64, writeInt64, enc_int64, is_VLong),
        Plain (''inviter_id'', readInt64, writeInt64, enc_int64, is_VLong),
        Plain (''date'', readInt32, writeInt32, enc_int32, is_VInt),
        Cond ''flags'' 1 (''subscription_until_date'', readInt32, writeInt32, enc_int32, is_VInt),
        Cond ''flags'' 2 (''rank'', readString, writeString, enc_string, is_short_text)]),
      (803602899, [Flags ''flags'' [(''rank'', 0)],
        Plain (''user_id'', readInt64, writeInt64, enc_int64, is_VLong),
        Plain (''admin_rights'', readTLChatAdminRights, writeTLChatAdminRights,
         enc_fobject TL_ChatAdminRights_table, ok_fobject TL_ChatAdminRights_table),
        Cond ''flags'' 0 (''rank'', readString, writeString, enc_string, is_short_text)]),
      (885242707, [Flags ''flags'' [(''can_edit'', 0), (''self'', 1), (''inviter_id'', 1),
         (''rank'', 2)],
        TrueBit ''flags'' 0 ''can_edit'',
        TrueBit ''flags'' 1 ''self'',
        Plain (''user_id'', readInt64, writeInt64, enc_int64, is_VLong),
        Cond ''flags'' 1 (''inviter_id'', readInt64, writeInt64, enc_int64, is_VLong),
        Plain (''promoted_by'', readInt64, writeInt64, enc_int64, is_VLong),
        Plain (''date'', readInt32, writeInt32, enc_int32, is_VInt),
        Plain (''admin_rights'', readTLChatAdminRights, writeTLChatAdminRights,
         enc_fobject TL_ChatAdminRights_table, ok_fobject TL_ChatAdminRights_table),
        Cond ''flags'' 2 (''rank'', readString, writeString, enc_string, is_short_text)]),
      (- 705647215, [Flags ''flags'' [(''left'', 0), (''rank'', 2)],
        TrueBit ''flags'' 0 ''left'',
        Plain (''peer'', readTLPeer, writeTLPeer, enc_fobject TL_Peer_table,
         ok_fobject TL_Peer_table),
        Plain (''kicked_by'', readInt64, writeInt64, enc_int64, is_VLong),
        Plain (''date'', readInt32, writeInt32, enc_int32, is_VInt),
        Plain (''banned_rights'', readTLChatBannedRights, writeTLChatBannedRights,
         enc_fobject TL_ChatBannedRights_table, ok_fobject TL_ChatBannedRights_table),
        Cond ''flags'' 2 (''rank'', readString, writeString, enc_string, is_short_text)]),
      (453242886, [Plain (''peer'', readTLPeer, writeTLPeer, enc_fobject TL_Peer_table,
         ok_fobject TL_Peer_table)])]"

interpretation tl_ChannelParticipant: tl_codec readTLChannelParticipant writeTLChannelParticipant "enc_fobject TL_ChannelParticipant_table" "ok_fobject TL_ChannelParticipant_table"
  by (rule flag_schema_codec, unfold TL_ChannelParticipant_table_def, intro flag_tableI)
    (simp_all add: readTLChannelParticipant_def writeTLChannelParticipant_def flag_schema_simps tl_ChatAdminRights.tl_codec_axioms tl_Peer.tl_codec_axioms tl_ChatBannedRights.tl_codec_axioms)

definition readTLChannelParticipantsFilter :: tl_reader where
  "readTLChannelParticipantsFilter = read_object
     [(- 566281095, []),
      (- 1268741783, []),
      (- 1548400251, [rd ''q'' readString]),
      (- 1328445861, []),
      (338142689, [rd ''q'' readString]),
      (106343499, [rd ''q'' readString]),
      (- 1150621555, [rd ''q'' readString]),
      (- 531931925, [rd ''flags'' readUInt32, rd_if ''flags'' 0 ''q'' readString,
         rd_if ''flags'' 1 ''top_msg_id'' readInt32])]"

definition writeTLChannelParticipantsFilter :: tl_writer where
  "writeTLChannelParticipantsFilter = write_fobject
     [(- 566281095, [wf ''_'' writeInt32]),
      (- 1268741783, [wf ''_'' writeInt32]),
      (- 1548400251, [wf ''_'' writeInt32, wf ''q'' writeString]),
      (- 1328445861, [wf ''_'' writeInt32]),
      (338142689, [wf ''_'' writeInt32, wf ''q'' writeString]),
      (106343499, [wf ''_'' writeInt32, wf ''q'' writeString]),
      (- 1150621555, [wf ''_'' writeInt32, wf ''q'' writeString]),
      (- 531931925, [wf ''_'' writeInt32, wf_flags ''flags'' [(''q'', 0), (''top_msg_id'', 1)],
         wf_if ''flags'' 0 ''q'' writeString, wf_if ''flags'' 1 ''top_msg_id'' writeInt32])]"

definition TL_ChannelParticipantsFilter_table :: flag_table where
  "TL_ChannelParticipantsFilter_table =
     [(- 566281095, []),
      (- 1268741783, []),
      (- 1548400251, [Plain (''q'', readString, writeString, enc_string, is_short_text)]),
      (- 1328445861, []),
      (338142689, [Plain (''q'', readString, writeString, enc_string, is_short_text)]),
      (106343499, [Plain (''q'', readString, writeString, enc_string, is_short_text)]),
      (- 1150621555, [Plain (''q'', readString, writeString, enc_string, is_short_text)]),
      (- 531931925, [Flags ''flags'' [(''q'', 0), (''top_msg_id'', 1)],
        Cond ''flags'' 0 (''q'', readString, writeString, enc_string, is_short_text),
        Cond ''flags'' 1 (''top_msg_id'', readInt32, writeInt32, enc_int32, is_VInt)])]"

interpretation tl_ChannelParticipantsFilter: tl_codec readTLChannelParticipantsFilter writeTLChannelParticipantsFilter "enc_fobject TL_ChannelParticipantsFilter_table" "ok_fobject TL_ChannelParticipantsFilter_table"
  by (rule flag_schema_codec, unfold TL_ChannelParticipantsFilter_table_def, intro flag_tableI)
    (simp_all add: readTLChannelParticipantsFilter_def writeTLChannelParticipantsFilter_def flag_schema_simps)

definition readTLChannelsChannelParticipants :: tl_reader where
  "readTLChannelsChannelParticipants = read_object
     [(- 1699676497, [rd ''count'' readInt32,
         rd ''participants'' (readVector (Some readTLChannelParticipant)),
         rd ''chats'' (readVector (Some readTLChat)), rd ''users'' (readVector (Some readTLUser))]),
      (- 266911767, [])]"

definition writeTLChannelsChannelParticipants :: tl_writer where
  "writeTLChannelsChannelParticipants = write_fobject
     [(- 1699676497, [wf ''_'' writeInt32, wf ''count'' writeInt32,
         wf ''participants'' (writeVector (Some writeTLChannelParticipant)),
         wf ''chats'' (writeVector (Some writeTLChat)),
         wf ''users'' (writeVector (Some writeTLUser))]),
      (- 266911767, [wf ''_'' writeInt32])]"

definition TL_ChannelsChannelParticipants_table :: flag_table where
  "TL_ChannelsChannelParticipants_table =
     [(- 1699676497, [Plain (''count'', readInt32, writeInt32, enc_int32, is_VInt),
        Plain (''participants'', readVector (Some readTLChannelParticipant),
         writeVector (Some writeTLChannelParticipant),
         enc_vector (enc_fobject TL_ChannelParticipant_table),
         ok_vector (ok_fobject TL_ChannelParticipant_table)),
        Plain (''chats'', readVector (Some readTLChat), writeVector (Some writeTLChat),
         enc_vector (enc_fobject TL_Chat_table), ok_vector (ok_fobject TL_Chat_table)),
        Plain (''users'', readVector (Some readTLUser), writeVector (Some writeTLUser),
         enc_vector (enc_fobject TL_User_table), ok_vector (ok_fobject TL_User_table))]),
      (- 266911767, [])]"

interpretation tl_ChannelsChannelParticipants: tl_codec readTLChannelsChannelParticipants writeTLChannelsChannelParticipants "enc_fobject TL_ChannelsChannelParticipants_table" "ok_fobject TL_ChannelsChannelParticipants_table"
  by (rule flag_schema_codec, unfold TL_ChannelsChannelParticipants_table_def, intro flag_tableI)
    (simp_all add: readTLChannelsChannelParticipants_def writeTLChannelsChannelParticipants_def flag_schema_simps tl_ChannelParticipant.tl_codec_axioms tl_ChannelParticipant.vector_codec tl_Chat.tl_codec_axioms tl_Chat.vector_codec tl_User.tl_codec_axioms tl_User.vector_codec)

definition readTLChannelsChannelParticipant :: tl_reader where
  "readTLChannelsChannelParticipant = read_object
     [(- 541588713, [rd ''participant'' readTLChannelParticipant,
         rd ''chats'' (readVector (Some readTLChat)),
         rd ''users'' (readVector (Some readTLUser))])]"

definition writeTLChannelsChannelParticipant :: tl_writer where
  "writeTLChannelsChannelParticipant = write_fobject
     [(- 541588713, [wf ''_'' writeInt32, wf ''participant'' writeTLChannelParticipant,
         wf ''chats'' (writeVector (Some writeTLChat)),
         wf ''users'' (writeVector (Some writeTLUser))])]"

definition TL_ChannelsChannelParticipant_table :: flag_table where
  "TL_ChannelsChannelParticipant_table =
     [(- 541588713, [Plain (''participant'', readTLChannelParticipant, writeTLChannelParticipant,
         enc_fobject TL_ChannelParticipant_table, ok_fobject TL_ChannelParticipant_table),
        Plain (''chats'', readVector (Some readTLChat), writeVector (Some writeTLChat),
         enc_vector (enc_fobject TL_Chat_table), ok_vector (ok_fobject TL_Chat_table)),
        Plain (''users'', readVector (Some readTLUser), writeVector (Some writeTLUser),
         enc_vector (enc_fobject TL_User_table), ok_vector (ok_fobject TL_User_table))])]"

interpretation tl_ChannelsChannelParticipant: tl_codec readTLChannelsChannelParticipant writeTLChannelsChannelParticipant "enc_fobject TL_ChannelsChannelParticipant_table" "ok_fobject TL_ChannelsChannelParticipant_table"
  by (rule flag_schema_codec, unfold TL_ChannelsChannelParticipant_table_def, intro flag_tableI)
    (simp_all add: readTLChannelsChannelParticipant_def writeTLChannelsChannelParticipant_def flag_schema_simps tl_ChannelParticipant.tl_codec_axioms tl_ChannelParticipant.vector_codec tl_Chat.tl_codec_axioms tl_Chat.vector_codec tl_User.tl_codec_axioms tl_User.vector_codec)

definition readTLInlineBotSwitchPM :: tl_reader where
  "readTLInlineBotSwitchPM = read_object
     [(1008755359, [rd ''text'' readString, rd ''start_param'' readString])]"

definition writeTLInlineBotSwitchPM :: tl_writer where
  "writeTLInlineBotSwitchPM = write_fobject
     [(1008755359, [wf ''_'' writeInt32, wf ''text'' writeString, wf ''start_param'' writeString])]"

definition TL_InlineBotSwitchPM_table :: flag_table where
  "TL_InlineBotSwitchPM_table =
     [(1008755359, [Plain (''text'', readString, writeString, enc_string, is_short_text),
        Plain (''start_param'', readString, writeString, enc_string, is_short_text)])]"

interpretation tl_InlineBotSwitchPM: tl_codec readTLInlineBotSwitchPM writeTLInlineBotSwitchPM "enc_fobject TL_InlineBotSwitchPM_table" "ok_fobject TL_InlineBotSwitchPM_table"
  by (rule flag_schema_codec, unfold TL_InlineBotSwitchPM_table_def, intro flag_tableI)
    (simp_all add: readTLInlineBotSwitchPM_def writeTLInlineBotSwitchPM_def flag_schema_simps)

definition readTLInlineBotWebView :: tl_reader where
  "readTLInlineBotWebView = read_object
     [(- 1250781739, [rd ''text'' readString, rd ''url'' readString])]"

definition writeTLInlineBotWebView :: tl_writer where
  "writeTLInlineBotWebView = write_fobject
     [(- 1250781739, [wf ''_'' writeInt32, wf ''text'' writeString, wf ''url'' writeString])]"

definition TL_InlineBotWebView_table :: flag_table where
  "TL_InlineBotWebView_table =
     [(- 1250781739, [Plain (''text'', readString, writeString, enc_string, is_short_text),
        Plain (''url'', readString, writeString, enc_string, is_short_text)])]"

interpretation tl_InlineBotWebView: tl_codec readTLInlineBotWebView writeTLInlineBotWebView "enc_fobject TL_InlineBotWebView_table" "ok_fobject TL_InlineBotWebView_table"
  by (rule flag_schema_codec, unfold TL_InlineBotWebView_table_def, intro flag_tableI)
    (simp_all add: readTLInlineBotWebView_def writeTLInlineBotWebView_def flag_schema_simps)

definition readTLExportedMessageLink :: tl_reader where
  "readTLExportedMessageLink = read_object
     [(1571494644, [rd ''link'' readString, rd ''html'' readString])]"

definition writeTLExportedMessageLink :: tl_writer where
  "writeTLExportedMessageLink = write_fobject
     [(1571494644, [wf ''_'' writeInt32, wf ''link'' writeString, wf ''html'' writeString])]"

definition TL_ExportedMessageLink_table :: flag_table where
  "TL_ExportedMessageLink_table =
     [(1571494644, [Plain (''link'', readString, writeString, enc_string, is_short_text),
        Plain (''html'', readString, writeString, enc_string, is_short_text)])]"

interpretation tl_ExportedMessageLink: tl_codec readTLExportedMessageLink writeTLExportedMessageLink "enc_fobject TL_ExportedMessageLink_table" "ok_fobject TL_ExportedMessageLink_table"
  by (rule flag_schema_codec, unfold TL_ExportedMessageLink_table_def, intro flag_tableI)
    (simp_all add: readTLExportedMessageLink_def writeTLExportedMessageLink_def flag_schema_simps)

definition readTLMessagesBotCallbackAnswer :: tl_reader where
  "readTLMessagesBotCallbackAnswer = read_object
     [(911761060, [rd ''flags'' readUInt32, set_if ''flags'' 1 ''alert'',
         set_if ''flags'' 3 ''has_url'', set_if ''flags'' 4 ''native_ui'',
         rd_if ''flags'' 0 ''message'' readString, rd_if ''flags'' 2 ''url'' readString,
         rd ''cache_time'' readInt32])]"

definition writeTLMessagesBotCallbackAnswer :: tl_writer where
  "writeTLMessagesBotCallbackAnswer = write_fobject
     [(911761060, [wf ''_'' writeInt32, wf_flags ''flags'' [(''alert'', 1), (''has_url'', 3),
         (''native_ui'', 4), (''message'', 0), (''url'', 2)],
         wf_if ''flags'' 0 ''message'' writeString, wf_if ''flags'' 2 ''url'' writeString,
         wf ''cache_time'' writeInt32])]"

definition TL_MessagesBotCallbackAnswer_table :: flag_table where
  "TL_MessagesBotCallbackAnswer_table =
     [(911761060, [Flags ''flags'' [(''alert'', 1), (''has_url'', 3), (''native_ui'', 4),
         (''message'', 0), (''url'', 2)],
        TrueBit ''flags'' 1 ''alert'',
        TrueBit ''flags'' 3 ''has_url'',
        TrueBit ''flags'' 4 ''native_ui'',
        Cond ''flags'' 0 (''message'', readString, writeString, enc_string, is_short_text),
        Cond ''flags'' 2 (''url'', readString, writeString, enc_string, is_short_text),
        Plain (''cache_time'', readInt32, writeInt32, enc_int32, is_VInt)])]"

interpretation tl_MessagesBotCallbackAnswer: tl_codec readTLMessagesBotCallbackAnswer writeTLMessagesBotCallbackAnswer "enc_fobject TL_MessagesBotCallbackAnswer_table" "ok_fobject TL_MessagesBotCallbackAnswer_table"
  by (rule flag_schema_codec, unfold TL_MessagesBotCallbackAnswer_table_def, intro flag_tableI)
    (simp_all add: readTLMessagesBotCallbackAnswer_def writeTLMessagesBotCallbackAnswer_def flag_schema_simps)

definition readTLMessagesMessageEditData :: tl_reader where
  "readTLMessagesMessageEditData = read_object
     [(649453030, [rd ''flags'' readUInt32, set_if ''flags'' 0 ''caption''])]"

definition writeTLMessagesMessageEditData :: tl_writer where
  "writeTLMessagesMessageEditData = write_fobject
     [(649453030, [wf ''_'' writeInt32, wf_flags ''flags'' [(''caption'', 0)]])]"

definition TL_MessagesMessageEditData_table :: flag_table where
  "TL_MessagesMessageEditData_table =
     [(649453030, [Flags ''flags'' [(''caption'', 0)],
        TrueBit ''flags'' 0 ''caption''])]"

interpretation tl_MessagesMessageEditData: tl_codec readTLMessagesMessageEditData writeTLMessagesMessageEditData "enc_fobject TL_MessagesMessageEditData_table" "ok_fobject TL_MessagesMessageEditData_table"
  by (rule flag_schema_codec, unfold TL_MessagesMessageEditData_table_def, intro flag_tableI)
    (simp_all add: readTLMessagesMessageEditData_def writeTLMessagesMessageEditData_def flag_schema_simps)

definition readTLInputBotInlineMessageID :: tl_reader where
  "readTLInputBotInlineMessageID = read_object
     [(- 1995686519, [rd ''dc_id'' readInt32, rd ''id'' readInt64, rd ''access_hash'' readInt64]),
      (- 1227287081, [rd ''dc_id'' readInt32, rd ''owner_id'' readInt64, rd ''id'' readInt32,
         rd ''access_hash'' readInt64])]"

definition writeTLInputBotInlineMessageID :: tl_writer where
  "writeTLInputBotInlineMessageID = write_fobject
     [(- 1995686519, [wf ''_'' writeInt32, wf ''dc_id'' writeInt32, wf ''id'' writeInt64,
         wf ''access_hash'' writeInt64]),
      (- 1227287081, [wf ''_'' writeInt32, wf ''dc_id'' writeInt32, wf ''owner_id'' writeInt64,
         wf ''id'' writeInt32, wf ''access_hash'' writeInt64])]"

definition TL_InputBotInlineMessageID_table :: flag_table where
  "TL_InputBotInlineMessageID_table =
     [(- 1995686519, [Plain (''dc_id'', readInt32, writeInt32, enc_int32, is_VInt),
        Plain (''id'', readInt64, writeInt64, enc_int64, is_VLong),
        Plain (''access_hash'', readInt64, writeInt64, enc_int64, is_VLong)]),
      (- 1227287081, [Plain (''dc_id'', readInt32, writeInt32, enc_int32, is_VInt),
        Plain (''owner_id'', readInt64, writeInt64, enc_int64, is_VLong),
        Plain (''id'', readInt32, writeInt32, enc_int32, is_VInt),
        Plain (''access_hash'', readInt64, writeInt64, enc_int64, is_VLong)])]"

interpretation tl_InputBotInlineMessageID: tl_codec readTLInputBotInlineMessageID writeTLInputBotInlineMessageID "enc_fobject TL_InputBotInlineMessageID_table" "ok_fobject TL_InputBotInlineMessageID_table"
  by (rule flag_schema_codec, unfold TL_InputBotInlineMessageID_table_def, intro flag_tableI)
    (simp_all add: readTLInputBotInlineMessageID_def writeTLInputBotInlineMessageID_def flag_schema_simps)

definition readTLTopPeerCategory :: tl_reader where
  "readTLTopPeerCategory = read_object
     [(- 1419371685, []),
      (344356834, []),
      (104314861, []),
      (- 1122524854, []),
      (371037736, []),
      (511092620, []),
      (- 1472172887, []),
      (- 68239120, []),
      (- 39945236, []),
      (1814361053, [])]"

definition writeTLTopPeerCategory :: tl_writer where
  "writeTLTopPeerCategory = write_fobject
     [(- 1419371685, [wf ''_'' writeInt32]),
      (344356834, [wf ''_'' writeInt32]),
      (104314861, [wf ''_'' writeInt32]),
      (- 1122524854, [wf ''_'' writeInt32]),
      (371037736, [wf ''_'' writeInt32]),
      (511092620, [wf ''_'' writeInt32]),
      (- 1472172887, [wf ''_'' writeInt32]),
      (- 68239120, [wf ''_'' writeInt32]),
      (- 39945236, [wf ''_'' writeInt32]),
      (1814361053, [wf ''_'' writeInt32])]"

definition TL_TopPeerCategory_table :: flag_table where
  "TL_TopPeerCategory_table =
     [(- 1419371685, []),
      (344356834, []),
      (104314861, []),
      (- 1122524854, []),
      (371037736, []),
      (511092620, []),
      (- 1472172887, []),
      (- 68239120, []),
      (- 39945236, []),
      (1814361053, [])]"

interpretation tl_TopPeerCategory: tl_codec readTLTopPeerCategory writeTLTopPeerCategory "enc_fobject TL_TopPeerCategory_table" "ok_fobject TL_TopPeerCategory_table"
  by (rule flag_schema_codec, unfold TL_TopPeerCategory_table_def, intro flag_tableI)
    (simp_all add: readTLTopPeerCategory_def writeTLTopPeerCategory_def flag_schema_simps)

definition readTLInputStickeredMedia :: tl_reader where
  "readTLInputStickeredMedia = read_object
     [(1251549527, [rd ''id'' readTLInputPhoto]),
      (70813275, [rd ''id'' readTLInputDocument])]"

definition writeTLInputStickeredMedia :: tl_writer where
  "writeTLInputStickeredMedia = write_fobject
     [(1251549527, [wf ''_'' writeInt32, wf ''id'' writeTLInputPhoto]),
      (70813275, [wf ''_'' writeInt32, wf ''id'' writeTLInputDocument])]"

definition TL_InputStickeredMedia_table :: flag_table where
  "TL_InputStickeredMedia_table =
     [(1251549527, [Plain (''id'', readTLInputPhoto, writeTLInputPhoto,
         enc_fobject TL_InputPhoto_table, ok_fobject TL_InputPhoto_table)]),
      (70813275, [Plain (''id'', readTLInputDocument, writeTLInputDocument,
         enc_fobject TL_InputDocument_table, ok_fobject TL_InputDocument_table)])]"

interpretation tl_InputStickeredMedia: tl_codec readTLInputStickeredMedia writeTLInputStickeredMedia "enc_fobject TL_InputStickeredMedia_table" "ok_fobject TL_InputStickeredMedia_table"
  by (rule flag_schema_codec, unfold TL_InputStickeredMedia_table_def, intro flag_tableI)
    (simp_all add: readTLInputStickeredMedia_def writeTLInputStickeredMedia_def flag_schema_simps tl_InputPhoto.tl_codec_axioms tl_InputDocument.tl_codec_axioms)

definition readTLInputGame :: tl_reader where
  "readTLInputGame = read_object
     [(53231223, [rd ''id'' readInt64, rd ''access_hash'' readInt64]),
      (- 1020139510, [rd ''bot_id'' readTLInputUser, rd ''short_name'' readString])]"

definition writeTLInputGame :: tl_writer where
  "writeTLInputGame = write_fobject
     [(53231223, [wf ''_'' writeInt32, wf ''id'' writeInt64, wf ''access_hash'' writeInt64]),
      (- 1020139510, [wf ''_'' writeInt32, wf ''bot_id'' writeTLInputUser,
         wf ''short_name'' writeString])]"

definition TL_InputGame_table :: flag_table where
  "TL_InputGame_table =
     [(53231223, [Plain (''id'', readInt64, writeInt64, enc_int64, is_VLong),
        Plain (''access_hash'', readInt64, writeInt64, enc_int64, is_VLong)]),
      (- 1020139510, [Plain (''bot_id'', readTLInputUser, writeTLInputUser,
         enc_fobject TL_InputUser_table, ok_fobject TL_InputUser_table),
        Plain (''short_name'', readString, writeString, enc_string, is_short_text)])]"

interpretation tl_InputGame: tl_codec readTLInputGame writeTLInputGame "enc_fobject TL_InputGame_table" "ok_fobject TL_InputGame_table"
  by (rule flag_schema_codec, unfold TL_InputGame_table_def, intro flag_tableI)
    (simp_all add: readTLInputGame_def writeTLInputGame_def flag_schema_simps tl_InputUser.tl_codec_axioms)

definition readTLHighScore :: tl_reader where
  "readTLHighScore = read_object
     [(1940093419, [rd ''pos'' readInt32, rd ''user_id'' readInt64, rd ''score'' readInt32])]"

definition writeTLHighScore :: tl_writer where
  "writeTLHighScore = write_fobject
     [(1940093419, [wf ''_'' writeInt32, wf ''pos'' writeInt32, wf ''user_id'' writeInt64,
         wf ''score'' writeInt32])]"

definition TL_HighScore_table :: flag_table where
  "TL_HighScore_table =
     [(1940093419, [Plain (''pos'', readInt32, writeInt32, enc_int32, is_VInt),
        Plain (''user_id'', readInt64, writeInt64, enc_int64, is_VLong),
        Plain (''score'', readInt32, writeInt32, enc_int32, is_VInt)])]"

interpretation tl_HighScore: tl_codec readTLHighScore writeTLHighScore "enc_fobject TL_HighScore_table" "ok_fobject TL_HighScore_table"
  by (rule flag_schema_codec, unfold TL_HighScore_table_def, intro flag_tableI)
    (simp_all add: readTLHighScore_def writeTLHighScore_def flag_schema_simps)

definition readTLMessagesHighScores :: tl_reader where
  "readTLMessagesHighScores = read_object
     [(- 1707344487, [rd ''scores'' (readVector (Some readTLHighScore)),
         rd ''users'' (readVector (Some readTLUser))])]"

definition writeTLMessagesHighScores :: tl_writer where
  "writeTLMessagesHighScores = write_fobject
     [(- 1707344487, [wf ''_'' writeInt32, wf ''scores'' (writeVector (Some writeTLHighScore)),
         wf ''users'' (writeVector (Some writeTLUser))])]"

definition TL_MessagesHighScores_table :: flag_table where
  "TL_MessagesHighScores_table =
     [(- 1707344487, [Plain (''scores'', readVector (Some readTLHighScore),
         writeVector (Some writeTLHighScore), enc_vector (enc_fobject TL_HighScore_table),
         ok_vector (ok_fobject TL_HighScore_table)),
        Plain (''users'', readVector (Some readTLUser), writeVector (Some writeTLUser),
         enc_vector (enc_fobject TL_User_table), ok_vector (ok_fobject TL_User_table))])]"

interpretation tl_MessagesHighScores: tl_codec readTLMessagesHighScores writeTLMessagesHighScores "enc_fobject TL_MessagesHighScores_table" "ok_fobject TL_MessagesHighScores_table"
  by (rule flag_schema_codec, unfold TL_MessagesHighScores_table_def, intro flag_tableI)
    (simp_all add: readTLMessagesHighScores_def writeTLMessagesHighScores_def flag_schema_simps tl_HighScore.tl_codec_axioms tl_HighScore.vector_codec tl_User.tl_codec_axioms tl_User.vector_codec)

definition readTLPhoneCallDiscardReason :: tl_reader where
  "readTLPhoneCallDiscardReason = read_object
     [(- 2048646399, []),
      (- 527056480, []),
      (1471006352, []),
      (- 84416311, []),
      (- 1615072777, [rd ''slug'' readString])]"

definition writeTLPhoneCallDiscardReason :: tl_writer where
  "writeTLPhoneCallDiscardReason = write_fobject
     [(- 2048646399, [wf ''_'' writeInt32]),
      (- 527056480, [wf ''_'' writeInt32]),
      (1471006352, [wf ''_'' writeInt32]),
      (- 84416311, [wf ''_'' writeInt32]),
      (- 1615072777, [wf ''_'' writeInt32, wf ''slug'' writeString])]"

definition TL_PhoneCallDiscardReason_table :: flag_table where
  "TL_PhoneCallDiscardReason_table =
     [(- 2048646399, []),
      (- 527056480, []),
      (1471006352, []),
      (- 84416311, []),
      (- 1615072777, [Plain (''slug'', readString, writeString, enc_string, is_short_text)])]"

interpretation tl_PhoneCallDiscardReason: tl_codec readTLPhoneCallDiscardReason writeTLPhoneCallDiscardReason "enc_fobject TL_PhoneCallDiscardReason_table" "ok_fobject TL_PhoneCallDiscardReason_table"
  by (rule flag_schema_codec, unfold TL_PhoneCallDiscardReason_table_def, intro flag_tableI)
    (simp_all add: readTLPhoneCallDiscardReason_def writeTLPhoneCallDiscardReason_def flag_schema_simps)

definition readTLLabeledPrice :: tl_reader where
  "readTLLabeledPrice = read_object
     [(- 886477832, [rd ''label'' readString, rd ''amount'' readInt64])]"

definition writeTLLabeledPrice :: tl_writer where
  "writeTLLabeledPrice = write_fobject
     [(- 886477832, [wf ''_'' writeInt32, wf ''label'' writeString, wf ''amount'' writeInt64])]"

definition TL_LabeledPrice_table :: flag_table where
  "TL_LabeledPrice_table =
     [(- 886477832, [Plain (''label'', readString, writeString, enc_string, is_short_text),
        Plain (''amount'', readInt64, writeInt64, enc_int64, is_VLong)])]"

interpretation tl_LabeledPrice: tl_codec readTLLabeledPrice writeTLLabeledPrice "enc_fobject TL_LabeledPrice_table" "ok_fobject TL_LabeledPrice_table"
  by (rule flag_schema_codec, unfold TL_LabeledPrice_table_def, intro flag_tableI)
    (simp_all add: readTLLabeledPrice_def writeTLLabeledPrice_def flag_schema_simps)

definition readTLInvoice :: tl_reader where
  "readTLInvoice = read_object
     [(77522308, [rd ''flags'' readUInt32, set_if ''flags'' 0 ''test'',
         set_if ''flags'' 1 ''name_requested'', set_if ''flags'' 2 ''phone_requested'',
         set_if ''flags'' 3 ''email_requested'', set_if ''flags'' 4 ''shipping_address_requested'',
         set_if ''flags'' 5 ''flexible'', set_if ''flags'' 6 ''phone_to_provider'',
         set_if ''flags'' 7 ''email_to_provider'', set_if ''flags'' 9 ''recurring'',
         rd ''currency'' readString, rd ''prices'' (readVector (Some readTLLabeledPrice)),
         rd_if ''flags'' 8 ''max_tip_amount'' readInt64,
         rd_if ''flags'' 8 ''suggested_tip_amounts'' (readVector (Some readInt64)),
         rd_if ''flags'' 10 ''terms_url'' readString,
         rd_if ''flags'' 11 ''subscription_period'' readInt32])]"

definition writeTLInvoice :: tl_writer where
  "writeTLInvoice = write_fobject
     [(77522308, [wf ''_'' writeInt32, wf_flags ''flags'' [(''test'', 0), (''name_requested'', 1),
         (''phone_requested'', 2), (''email_requested'', 3), (''shipping_address_requested'', 4),
         (''flexible'', 5), (''phone_to_provider'', 6), (''email_to_provider'', 7), (''recurring'',
         9), (''max_tip_amount'', 8), (''suggested_tip_amounts'', 8), (''terms_url'', 10),
         (''subscription_period'', 11)], wf ''currency'' writeString,
         wf ''prices'' (writeVector (Some writeTLLabeledPrice)),
         wf_if ''flags'' 8 ''max_tip_amount'' writeInt64,
         wf_if ''flags'' 8 ''suggested_tip_amounts'' (writeVector (Some writeInt64)),
         wf_if ''flags'' 10 ''terms_url'' writeString,
         wf_if ''flags'' 11 ''subscription_period'' writeInt32])]"

definition TL_Invoice_table :: flag_table where
  "TL_Invoice_table =
     [(77522308, [Flags ''flags'' [(''test'', 0), (''name_requested'', 1), (''phone_requested'',
         2), (''email_requested'', 3), (''shipping_address_requested'', 4), (''flexible'', 5),
         (''phone_to_provider'', 6), (''email_to_provider'', 7), (''recurring'', 9),
         (''max_tip_amount'', 8), (''suggested_tip_amounts'', 8), (''terms_url'', 10),
         (''subscription_period'', 11)],
        TrueBit ''flags'' 0 ''test'',
        TrueBit ''flags'' 1 ''name_requested'',
        TrueBit ''flags'' 2 ''phone_requested'',
        TrueBit ''flags'' 3 ''email_requested'',
        TrueBit ''flags'' 4 ''shipping_address_requested'',
        TrueBit ''flags'' 5 ''flexible'',
        TrueBit ''flags'' 6 ''phone_to_provider'',
        TrueBit ''flags'' 7 ''email_to_provider'',
        TrueBit ''flags'' 9 ''recurring'',
        Plain (''currency'', readString, writeString, enc_string, is_short_text),
        Plain (''prices'', readVector (Some readTLLabeledPrice),
         writeVector (Some writeTLLabeledPrice), enc_vector (enc_fobject TL_LabeledPrice_table),
         ok_vector (ok_fobject TL_LabeledPrice_table)),
        Cond ''flags'' 8 (''max_tip_amount'', readInt64, writeInt64, enc_int64, is_VLong),
        Cond ''flags'' 8 (''suggested_tip_amounts'', readVector (Some readInt64),
         writeVector (Some writeInt64), enc_vector enc_int64, ok_vector is_VLong),
        Cond ''flags'' 10 (''terms_url'', readString, writeString, enc_string, is_short_text),
        Cond ''flags'' 11 (''subscription_period'', readInt32, writeInt32, enc_int32, is_VInt)])]"

interpretation tl_Invoice: tl_codec readTLInvoice writeTLInvoice "enc_fobject TL_Invoice_table" "ok_fobject TL_Invoice_table"
  by (rule flag_schema_codec, unfold TL_Invoice_table_def, intro flag_tableI)
    (simp_all add: readTLInvoice_def writeTLInvoice_def flag_schema_simps tl_LabeledPrice.tl_codec_axioms tl_LabeledPrice.vector_codec)

definition readTLPaymentCharge :: tl_reader where
  "readTLPaymentCharge = read_object
     [(- 368917890, [rd ''id'' readString, rd ''provider_charge_id'' readString])]"

definition writeTLPaymentCharge :: tl_writer where
  "writeTLPaymentCharge = write_fobject
     [(- 368917890, [wf ''_'' writeInt32, wf ''id'' writeString,
         wf ''provider_charge_id'' writeString])]"

definition TL_PaymentCharge_table :: flag_table where
  "TL_PaymentCharge_table =
     [(- 368917890, [Plain (''id'', readString, writeString, enc_string, is_short_text),
        Plain (''provider_charge_id'', readString, writeString, enc_string, is_short_text)])]"

interpretation tl_PaymentCharge: tl_codec readTLPaymentCharge writeTLPaymentCharge "enc_fobject TL_PaymentCharge_table" "ok_fobject TL_PaymentCharge_table"
  by (rule flag_schema_codec, unfold TL_PaymentCharge_table_def, intro flag_tableI)
    (simp_all add: readTLPaymentCharge_def writeTLPaymentCharge_def flag_schema_simps)

definition readTLPostAddress :: tl_reader where
  "readTLPostAddress = read_object
     [(512535275, [rd ''street_line1'' readString, rd ''street_line2'' readString,
         rd ''city'' readString, rd ''state'' readString, rd ''country_iso2'' readString,
         rd ''post_code'' readString])]"

definition writeTLPostAddress :: tl_writer where
  "writeTLPostAddress = write_fobject
     [(512535275, [wf ''_'' writeInt32, wf ''street_line1'' writeString,
         wf ''street_line2'' writeString, wf ''city'' writeString, wf ''state'' writeString,
         wf ''country_iso2'' writeString, wf ''post_code'' writeString])]"

definition TL_PostAddress_table :: flag_table where
  "TL_PostAddress_table =
     [(512535275, [Plain (''street_line1'', readString, writeString, enc_string, is_short_text),
        Plain (''street_line2'', readString, writeString, enc_string, is_short_text),
        Plain (''city'', readString, writeString, enc_string, is_short_text),
        Plain (''state'', readString, writeString, enc_string, is_short_text),
        Plain (''country_iso2'', readString, writeString, enc_string, is_short_text),
        Plain (''post_code'', readString, writeString, enc_string, is_short_text)])]"

interpretation tl_PostAddress: tl_codec readTLPostAddress writeTLPostAddress "enc_fobject TL_PostAddress_table" "ok_fobject TL_PostAddress_table"
  by (rule flag_schema_codec, unfold TL_PostAddress_table_def, intro flag_tableI)
    (simp_all add: readTLPostAddress_def writeTLPostAddress_def flag_schema_simps)

definition readTLPaymentRequestedInfo :: tl_reader where
  "readTLPaymentRequestedInfo = read_object
     [(- 1868808300, [rd ''flags'' readUInt32, rd_if ''flags'' 0 ''name'' readString,
         rd_if ''flags'' 1 ''phone'' readString, rd_if ''flags'' 2 ''email'' readString,
         rd_if ''flags'' 3 ''shipping_address'' readTLPostAddress])]"

definition writeTLPaymentRequestedInfo :: tl_writer where
  "writeTLPaymentRequestedInfo = write_fobject
     [(- 1868808300, [wf ''_'' writeInt32, wf_flags ''flags'' [(''name'', 0), (''phone'', 1),
         (''email'', 2), (''shipping_address'', 3)], wf_if ''flags'' 0 ''name'' writeString,
         wf_if ''flags'' 1 ''phone'' writeString, wf_if ''flags'' 2 ''email'' writeString,
         wf_if ''flags'' 3 ''shipping_address'' writeTLPostAddress])]"

definition TL_PaymentRequestedInfo_table :: flag_table where
  "TL_PaymentRequestedInfo_table =
     [(- 1868808300, [Flags ''flags'' [(''name'', 0), (''phone'', 1), (''email'', 2),
         (''shipping_address'', 3)],
        Cond ''flags'' 0 (''name'', readString, writeString, enc_string, is_short_text),
        Cond ''flags'' 1 (''phone'', readString, writeString, enc_string, is_short_text),
        Cond ''flags'' 2 (''email'', readString, writeString, enc_string, is_short_text),
        Cond ''flags'' 3 (''shipping_address'', readTLPostAddress, writeTLPostAddress,
         enc_fobject TL_PostAddress_table, ok_fobject TL_PostAddress_table)])]"

interpretation tl_PaymentRequestedInfo: tl_codec readTLPaymentRequestedInfo writeTLPaymentRequestedInfo "enc_fobject TL_PaymentRequestedInfo_table" "ok_fobject TL_PaymentRequestedInfo_table"
  by (rule flag_schema_codec, unfold TL_PaymentRequestedInfo_table_def, intro flag_tableI)
    (simp_all add: readTLPaymentRequestedInfo_def writeTLPaymentRequestedInfo_def flag_schema_simps tl_PostAddress.tl_codec_axioms)

definition readTLPaymentSavedCredentials :: tl_reader where
  "readTLPaymentSavedCredentials = read_object
     [(- 842892769, [rd ''id'' readString, rd ''title'' readString])]"

definition writeTLPaymentSavedCredentials :: tl_writer where
  "writeTLPaymentSavedCredentials = write_fobject
     [(- 842892769, [wf ''_'' writeInt32, wf ''id'' writeString, wf ''title'' writeString])]"

definition TL_PaymentSavedCredentials_table :: flag_table where
  "TL_PaymentSavedCredentials_table =
     [(- 842892769, [Plain (''id'', readString, writeString, enc_string, is_short_text),
        Plain (''title'', readString, writeString, enc_string, is_short_text)])]"

interpretation tl_PaymentSavedCredentials: tl_codec readTLPaymentSavedCredentials writeTLPaymentSavedCredentials "enc_fobject TL_PaymentSavedCredentials_table" "ok_fobject TL_PaymentSavedCredentials_table"
  by (rule flag_schema_codec, unfold TL_PaymentSavedCredentials_table_def, intro flag_tableI)
    (simp_all add: readTLPaymentSavedCredentials_def writeTLPaymentSavedCredentials_def flag_schema_simps)

definition readTLUploadWebFile :: tl_reader where
  "readTLUploadWebFile = read_object
     [(568808380, [rd ''size'' readInt32, rd ''mime_type'' readString,
         rd ''file_type'' readTLStorageFileType, rd ''mtime'' readInt32,
         rd ''bytes'' readByteArray])]"

definition writeTLUploadWebFile :: tl_writer where
  "writeTLUploadWebFile = write_fobject
     [(568808380, [wf ''_'' writeInt32, wf ''size'' writeInt32, wf ''mime_type'' writeString,
         wf ''file_type'' writeTLStorageFileType, wf ''mtime'' writeInt32,
         wf ''bytes'' writeByteArray])]"

definition TL_UploadWebFile_table :: flag_table where
  "TL_UploadWebFile_table =
     [(568808380, [Plain (''size'', readInt32, writeInt32, enc_int32, is_VInt),
        Plain (''mime_type'', readString, writeString, enc_string, is_short_text),
        Plain (''file_type'', readTLStorageFileType, writeTLStorageFileType,
         enc_fobject TL_StorageFileType_table, ok_fobject TL_StorageFileType_table),
        Plain (''mtime'', readInt32, writeInt32, enc_int32, is_VInt),
        Plain (''bytes'', readByteArray, writeByteArray, enc_bytes, is_short_bytes)])]"

interpretation tl_UploadWebFile: tl_codec readTLUploadWebFile writeTLUploadWebFile "enc_fobject TL_UploadWebFile_table" "ok_fobject TL_UploadWebFile_table"
  by (rule flag_schema_codec, unfold TL_UploadWebFile_table_def, intro flag_tableI)
    (simp_all add: readTLUploadWebFile_def writeTLUploadWebFile_def flag_schema_simps tl_StorageFileType.tl_codec_axioms)

definition readTLShippingOption :: tl_reader where
  "readTLShippingOption = read_object
     [(- 1239335713, [rd ''id'' readString, rd ''title'' readString,
         rd ''prices'' (readVector (Some readTLLabeledPrice))])]"

definition writeTLShippingOption :: tl_writer where
  "writeTLShippingOption = write_fobject
     [(- 1239335713, [wf ''_'' writeInt32, wf ''id'' writeString, wf ''title'' writeString,
         wf ''prices'' (writeVector (Some writeTLLabeledPrice))])]"

definition TL_ShippingOption_table :: flag_table where
  "TL_ShippingOption_table =
     [(- 1239335713, [Plain (''id'', readString, writeString, enc_string, is_short_text),
        Plain (''title'', readString, writeString, enc_string, is_short_text),
        Plain (''prices'', readVector (Some readTLLabeledPrice),
         writeVector (Some writeTLLabeledPrice), enc_vector (enc_fobject TL_LabeledPrice_table),
         ok_vector (ok_fobject TL_LabeledPrice_table))])]"

interpretation tl_ShippingOption: tl_codec readTLShippingOption writeTLShippingOption "enc_fobject TL_ShippingOption_table" "ok_fobject TL_ShippingOption_table"
  by (rule flag_schema_codec, unfold TL_ShippingOption_table_def, intro flag_tableI)
    (simp_all add: readTLShippingOption_def writeTLShippingOption_def flag_schema_simps tl_LabeledPrice.tl_codec_axioms tl_LabeledPrice.vector_codec)

definition readTLPaymentsValidatedRequestedInfo :: tl_reader where
  "readTLPaymentsValidatedRequestedInfo = read_object
     [(- 784000893, [rd ''flags'' readUInt32, rd_if ''flags'' 0 ''id'' readString,
         rd_if ''flags'' 1 ''shipping_options'' (readVector (Some readTLShippingOption))])]"

definition writeTLPaymentsValidatedRequestedInfo :: tl_writer where
  "writeTLPaymentsValidatedRequestedInfo = write_fobject
     [(- 784000893, [wf ''_'' writeInt32, wf_flags ''flags'' [(''id'', 0), (''shipping_options'',
         1)], wf_if ''flags'' 0 ''id'' writeString,
         wf_if ''flags'' 1 ''shipping_options'' (writeVector (Some writeTLShippingOption))])]"

definition TL_PaymentsValidatedRequestedInfo_table :: flag_table where
  "TL_PaymentsValidatedRequestedInfo_table =
     [(- 784000893, [Flags ''flags'' [(''id'', 0), (''shipping_options'', 1)],
        Cond ''flags'' 0 (''id'', readString, writeString, enc_string, is_short_text),
        Cond ''flags'' 1 (''shipping_options'', readVector (Some readTLShippingOption),
         writeVector (Some writeTLShippingOption),
         enc_vector (enc_fobject TL_ShippingOption_table),
         ok_vector (ok_fobject TL_ShippingOption_table))])]"

interpretation tl_PaymentsValidatedRequestedInfo: tl_codec readTLPaymentsValidatedRequestedInfo writeTLPaymentsValidatedRequestedInfo "enc_fobject TL_PaymentsValidatedRequestedInfo_table" "ok_fobject TL_PaymentsValidatedRequestedInfo_table"
  by (rule flag_schema_codec, unfold TL_PaymentsValidatedRequestedInfo_table_def, intro flag_tableI)
    (simp_all add: readTLPaymentsValidatedRequestedInfo_def writeTLPaymentsValidatedRequestedInfo_def flag_schema_simps tl_ShippingOption.tl_codec_axioms tl_ShippingOption.vector_codec)

definition readTLPaymentsSavedInfo :: tl_reader where
  "readTLPaymentsSavedInfo = read_object
     [(- 74456004, [rd ''flags'' readUInt32, set_if ''flags'' 1 ''has_saved_credentials'',
         rd_if ''flags'' 0 ''saved_info'' readTLPaymentRequestedInfo])]"

definition writeTLPaymentsSavedInfo :: tl_writer where
  "writeTLPaymentsSavedInfo = write_fobject
     [(- 74456004, [wf ''_'' writeInt32, wf_flags ''flags'' [(''has_saved_credentials'', 1),
         (''saved_info'', 0)], wf_if ''flags'' 0 ''saved_info'' writeTLPaymentRequestedInfo])]"

definition TL_PaymentsSavedInfo_table :: flag_table where
  "TL_PaymentsSavedInfo_table =
     [(- 74456004, [Flags ''flags'' [(''has_saved_credentials'', 1), (''saved_info'', 0)],
        TrueBit ''flags'' 1 ''has_saved_credentials'',
        Cond ''flags'' 0 (''saved_info'', readTLPaymentRequestedInfo, writeTLPaymentRequestedInfo,
         enc_fobject TL_PaymentRequestedInfo_table, ok_fobject TL_PaymentRequestedInfo_table)])]"

interpretation tl_PaymentsSavedInfo: tl_codec readTLPaymentsSavedInfo writeTLPaymentsSavedInfo "enc_fobject TL_PaymentsSavedInfo_table" "ok_fobject TL_PaymentsSavedInfo_table"
  by (rule flag_schema_codec, unfold TL_PaymentsSavedInfo_table_def, intro flag_tableI)
    (simp_all add: readTLPaymentsSavedInfo_def writeTLPaymentsSavedInfo_def flag_schema_simps tl_PaymentRequestedInfo.tl_codec_axioms)

definition readTLInputPaymentCredentials :: tl_reader where
  "readTLInputPaymentCredentials = read_object
     [(- 1056001329, [rd ''id'' readString, rd ''tmp_password'' readByteArray]),
      (873977640, [rd ''flags'' readUInt32, set_if ''flags'' 0 ''save'',
         rd ''data'' readTLDataJSON]),
      (178373535, [rd ''payment_data'' readTLDataJSON]),
      (- 1966921727, [rd ''payment_token'' readTLDataJSON])]"

definition writeTLInputPaymentCredentials :: tl_writer where
  "writeTLInputPaymentCredentials = write_fobject
     [(- 1056001329, [wf ''_'' writeInt32, wf ''id'' writeString,
         wf ''tmp_password'' writeByteArray]),
      (873977640, [wf ''_'' writeInt32, wf_flags ''flags'' [(''save'', 0)],
         wf ''data'' writeTLDataJSON]),
      (178373535, [wf ''_'' writeInt32, wf ''payment_data'' writeTLDataJSON]),
      (- 1966921727, [wf ''_'' writeInt32, wf ''payment_token'' writeTLDataJSON])]"

definition TL_InputPaymentCredentials_table :: flag_table where
  "TL_InputPaymentCredentials_table =
     [(- 1056001329, [Plain (''id'', readString, writeString, enc_string, is_short_text),
        Plain (''tmp_password'', readByteArray, writeByteArray, enc_bytes, is_short_bytes)]),
      (873977640, [Flags ''flags'' [(''save'', 0)],
        TrueBit ''flags'' 0 ''save'',
        Plain (''data'', readTLDataJSON, writeTLDataJSON, enc_fobject TL_DataJSON_table,
         ok_fobject TL_DataJSON_table)]),
      (178373535, [Plain (''payment_data'', readTLDataJSON, writeTLDataJSON,
         enc_fobject TL_DataJSON_table, ok_fobject TL_DataJSON_table)]),
      (- 1966921727, [Plain (''payment_token'', readTLDataJSON, writeTLDataJSON,
         enc_fobject TL_DataJSON_table, ok_fobject TL_DataJSON_table)])]"

interpretation tl_InputPaymentCredentials: tl_codec readTLInputPaymentCredentials writeTLInputPaymentCredentials "enc_fobject TL_InputPaymentCredentials_table" "ok_fobject TL_InputPaymentCredentials_table"
  by (rule flag_schema_codec, unfold TL_InputPaymentCredentials_table_def, intro flag_tableI)
    (simp_all add: readTLInputPaymentCredentials_def writeTLInputPaymentCredentials_def flag_schema_simps tl_DataJSON.tl_codec_axioms)

definition readTLAccountTmpPassword :: tl_reader where
  "readTLAccountTmpPassword = read_object
     [(- 614138572, [rd ''tmp_password'' readByteArray, rd ''valid_until'' readInt32])]"

definition writeTLAccountTmpPassword :: tl_writer where
  "writeTLAccountTmpPassword = write_fobject
     [(- 614138572, [wf ''_'' writeInt32, wf ''tmp_password'' writeByteArray,
         wf ''valid_until'' writeInt32])]"

definition TL_AccountTmpPassword_table :: flag_table where
  "TL_AccountTmpPassword_table =
     [(- 614138572, [Plain (''tmp_password'', readByteArray, writeByteArray, enc_bytes,
         is_short_bytes),
        Plain (''valid_until'', readInt32, writeInt32, enc_int32, is_VInt)])]"

interpretation tl_AccountTmpPassword: tl_codec readTLAccountTmpPassword writeTLAccountTmpPassword "enc_fobject TL_AccountTmpPassword_table" "ok_fobject TL_AccountTmpPassword_table"
  by (rule flag_schema_codec, unfold TL_AccountTmpPassword_table_def, intro flag_tableI)
    (simp_all add: readTLAccountTmpPassword_def writeTLAccountTmpPassword_def flag_schema_simps)

subsection \<open>The types since the last list at once\<close>

definition tl_types_part3 :: "(tl_reader \<times> tl_writer \<times> flag_table) list" where
  "tl_types_part3 =
     [(readTLRequestPeerType, writeTLRequestPeerType, TL_RequestPeerType_table),
      (readTLButtonType, writeTLButtonType, TL_ButtonType_table),
      (readTLKeyboardButton, writeTLKeyboardButton, TL_KeyboardButton_table),
      (readTLKeyboardButtonRow, writeTLKeyboardButtonRow, TL_KeyboardButtonRow_table),
      (readTLKeyboardInlineButton, writeTLKeyboardInlineButton, TL_KeyboardInlineButton_table),
      (readTLKeyboardInlineButtonRow, writeTLKeyboardInlineButtonRow, TL_KeyboardInlineButtonRow_table),
      (readTLReplyMarkup, writeTLReplyMarkup, TL_ReplyMarkup_table),
      (readTLContactsResolvedPeer, writeTLContactsResolvedPeer, TL_ContactsResolvedPeer_table),
      (readTLChannelParticipant, writeTLChannelParticipant, TL_ChannelParticipant_table),
      (readTLChannelParticipantsFilter, writeTLChannelParticipantsFilter, TL_ChannelParticipantsFilter_table),
      (readTLChannelsChannelParticipants, writeTLChannelsChannelParticipants, TL_ChannelsChannelParticipants_table),
      (readTLChannelsChannelParticipant, writeTLChannelsChannelParticipant, TL_ChannelsChannelParticipant_table),
      (readTLInlineBotSwitchPM, writeTLInlineBotSwitchPM, TL_InlineBotSwitchPM_table),
      (readTLInlineBotWebView, writeTLInlineBotWebView, TL_InlineBotWebView_table),
      (readTLExportedMessageLink, writeTLExportedMessageLink, TL_ExportedMessageLink_table),
      (readTLMessagesBotCallbackAnswer, writeTLMessagesBotCallbackAnswer, TL_MessagesBotCallbackAnswer_table),
      (readTLMessagesMessageEditData, writeTLMessagesMessageEditData, TL_MessagesMessageEditData_table),
      (readTLInputBotInlineMessageID, writeTLInputBotInlineMessageID, TL_InputBotInlineMessageID_table),
      (readTLTopPeerCategory, writeTLTopPeerCategory, TL_TopPeerCategory_table),
      (readTLInputStickeredMedia, writeTLInputStickeredMedia, TL_InputStickeredMedia_table),
      (readTLInputGame, writeTLInputGame, TL_InputGame_table),
      (readTLHighScore, writeTLHighScore, TL_HighScore_table),
      (readTLMessagesHighScores, writeTLMessagesHighScores, TL_MessagesHighScores_table),
      (readTLPhoneCallDiscardReason, writeTLPhoneCallDiscardReason, TL_PhoneCallDiscardReason_table),
      (readTLLabeledPrice, writeTLLabeledPrice, TL_LabeledPrice_table),
      (readTLInvoice, writeTLInvoice, TL_Invoice_table),
      (readTLPaymentCharge, writeTLPaymentCharge, TL_PaymentCharge_table),
      (readTLPostAddress, writeTLPostAddress, TL_PostAddress_table),
      (readTLPaymentRequestedInfo, writeTLPaymentRequestedInfo, TL_PaymentRequestedInfo_table),
      (readTLPaymentSavedCredentials, writeTLPaymentSavedCredentials, TL_PaymentSavedCredentials_table),
      (readTLUploadWebFile, writeTLUploadWebFile, TL_UploadWebFile_table),
      (readTLShippingOption, writeTLShippingOption, TL_ShippingOption_table),
      (readTLPaymentsValidatedRequestedInfo, writeTLPaymentsValidatedRequestedInfo, TL_PaymentsValidatedRequestedInfo_table),
      (readTLPaymentsSavedInfo, writeTLPaymentsSavedInfo, TL_PaymentsSavedInfo_table),
      (readTLInputPaymentCredentials, writeTLInputPaymentCredentials, TL_InputPaymentCredentials_table),
      (readTLAccountTmpPassword, writeTLAccountTmpPassword, TL_AccountTmpPassword_table)]"

lemma tl_types_part3_codec: "(R, W, t) \<in> set tl_types_part3 \<Longrightarrow> tl_codec R W (enc_fobject t) (ok_fobject t)"
  by (auto simp: tl_types_part3_def
      intro: tl_RequestPeerType.tl_codec_axioms tl_ButtonType.tl_codec_axioms
         tl_KeyboardButton.tl_codec_axioms tl_KeyboardButtonRow.tl_codec_axioms
         tl_KeyboardInlineButton.tl_codec_axioms tl_KeyboardInlineButtonRow.tl_codec_axioms
         tl_ReplyMarkup.tl_codec_axioms tl_ContactsResolvedPeer.tl_codec_axioms
         tl_ChannelParticipant.tl_codec_axioms tl_ChannelParticipantsFilter.tl_codec_axioms
         tl_ChannelsChannelParticipants.tl_codec_axioms
         tl_ChannelsChannelParticipant.tl_codec_axioms tl_InlineBotSwitchPM.tl_codec_axioms
         tl_InlineBotWebView.tl_codec_axioms tl_ExportedMessageLink.tl_codec_axioms
         tl_MessagesBotCallbackAnswer.tl_codec_axioms tl_MessagesMessageEditData.tl_codec_axioms
         tl_InputBotInlineMessageID.tl_codec_axioms tl_TopPeerCategory.tl_codec_axioms
         tl_InputStickeredMedia.tl_codec_axioms tl_InputGame.tl_codec_axioms
         tl_HighScore.tl_codec_axioms tl_MessagesHighScores.tl_codec_axioms
         tl_PhoneCallDiscardReason.tl_codec_axioms tl_LabeledPrice.tl_codec_axioms
         tl_Invoice.tl_codec_axioms tl_PaymentCharge.tl_codec_axioms
         tl_PostAddress.tl_codec_axioms tl_PaymentRequestedInfo.tl_codec_axioms
         tl_PaymentSavedCredentials.tl_codec_axioms tl_UploadWebFile.tl_codec_axioms
         tl_ShippingOption.tl_codec_axioms tl_PaymentsValidatedRequestedInfo.tl_codec_axioms
         tl_PaymentsSavedInfo.tl_codec_axioms tl_InputPaymentCredentials.tl_codec_axioms
         tl_AccountTmpPassword.tl_codec_axioms)

end
