(* ===== verification/TlTypes2.thy ===== *)
theory TlTypes2
  imports TlTypes1
begin

section \<open>The API schema, further types: libkg/tlschema.cpp\<close>

text \<open>
  Readers and writers of the types InputPhoneCall to InputStorePaymentPurpose, in dependency order, each with its table and the
  interpretation of the codec contract for it.
\<close>

definition readTLInputPhoneCall :: tl_reader where
  "readTLInputPhoneCall = read_object
     [(506920429, [rd ''id'' readInt64, rd ''access_hash'' readInt64])]"

definition writeTLInputPhoneCall :: tl_writer where
  "writeTLInputPhoneCall = write_fobject
     [(506920429, [wf ''_'' writeInt32, wf ''id'' writeInt64, wf ''access_hash'' writeInt64])]"

definition TL_InputPhoneCall_table :: flag_table where
  "TL_InputPhoneCall_table =
     [(506920429, [Plain (''id'', readInt64, writeInt64, enc_int64, is_VLong),
        Plain (''access_hash'', readInt64, writeInt64, enc_int64, is_VLong)])]"

interpretation tl_InputPhoneCall: tl_codec readTLInputPhoneCall writeTLInputPhoneCall "enc_fobject TL_InputPhoneCall_table" "ok_fobject TL_InputPhoneCall_table"
  by (rule flag_schema_codec, unfold TL_InputPhoneCall_table_def, intro flag_tableI)
    (simp_all add: readTLInputPhoneCall_def writeTLInputPhoneCall_def flag_schema_simps)

definition readTLPhoneCallProtocol :: tl_reader where
  "readTLPhoneCallProtocol = read_object
     [(- 58224696, [rd ''flags'' readUInt32, set_if ''flags'' 0 ''udp_p2p'',
         set_if ''flags'' 1 ''udp_reflector'', rd ''min_layer'' readInt32,
         rd ''max_layer'' readInt32, rd ''library_versions'' (readVector (Some readString))])]"

definition writeTLPhoneCallProtocol :: tl_writer where
  "writeTLPhoneCallProtocol = write_fobject
     [(- 58224696, [wf ''_'' writeInt32, wf_flags ''flags'' [(''udp_p2p'', 0), (''udp_reflector'',
         1)], wf ''min_layer'' writeInt32, wf ''max_layer'' writeInt32,
         wf ''library_versions'' (writeVector (Some writeString))])]"

definition TL_PhoneCallProtocol_table :: flag_table where
  "TL_PhoneCallProtocol_table =
     [(- 58224696, [Flags ''flags'' [(''udp_p2p'', 0), (''udp_reflector'', 1)],
        TrueBit ''flags'' 0 ''udp_p2p'',
        TrueBit ''flags'' 1 ''udp_reflector'',
        Plain (''min_layer'', readInt32, writeInt32, enc_int32, is_VInt),
        Plain (''max_layer'', readInt32, writeInt32, enc_int32, is_VInt),
        Plain (''library_versions'', readVector (Some readString), writeVector (Some writeString),
         enc_vector enc_string, ok_vector is_short_text)])]"

interpretation tl_PhoneCallProtocol: tl_codec readTLPhoneCallProtocol writeTLPhoneCallProtocol "enc_fobject TL_PhoneCallProtocol_table" "ok_fobject TL_PhoneCallProtocol_table"
  by (rule flag_schema_codec, unfold TL_PhoneCallProtocol_table_def, intro flag_tableI)
    (simp_all add: readTLPhoneCallProtocol_def writeTLPhoneCallProtocol_def flag_schema_simps)

definition readTLPhoneConnection :: tl_reader where
  "readTLPhoneConnection = read_object
     [(- 1665063993, [rd ''flags'' readUInt32, set_if ''flags'' 0 ''tcp'', rd ''id'' readInt64,
         rd ''ip'' readString, rd ''ipv6'' readString, rd ''port'' readInt32,
         rd ''peer_tag'' readByteArray]),
      (1667228533, [rd ''flags'' readUInt32, set_if ''flags'' 0 ''turn'',
         set_if ''flags'' 1 ''stun'', rd ''id'' readInt64, rd ''ip'' readString,
         rd ''ipv6'' readString, rd ''port'' readInt32, rd ''username'' readString,
         rd ''password'' readString])]"

definition writeTLPhoneConnection :: tl_writer where
  "writeTLPhoneConnection = write_fobject
     [(- 1665063993, [wf ''_'' writeInt32, wf_flags ''flags'' [(''tcp'', 0)], wf ''id'' writeInt64,
         wf ''ip'' writeString, wf ''ipv6'' writeString, wf ''port'' writeInt32,
         wf ''peer_tag'' writeByteArray]),
      (1667228533, [wf ''_'' writeInt32, wf_flags ''flags'' [(''turn'', 0), (''stun'', 1)],
         wf ''id'' writeInt64, wf ''ip'' writeString, wf ''ipv6'' writeString,
         wf ''port'' writeInt32, wf ''username'' writeString, wf ''password'' writeString])]"

definition TL_PhoneConnection_table :: flag_table where
  "TL_PhoneConnection_table =
     [(- 1665063993, [Flags ''flags'' [(''tcp'', 0)],
        TrueBit ''flags'' 0 ''tcp'',
        Plain (''id'', readInt64, writeInt64, enc_int64, is_VLong),
        Plain (''ip'', readString, writeString, enc_string, is_short_text),
        Plain (''ipv6'', readString, writeString, enc_string, is_short_text),
        Plain (''port'', readInt32, writeInt32, enc_int32, is_VInt),
        Plain (''peer_tag'', readByteArray, writeByteArray, enc_bytes, is_short_bytes)]),
      (1667228533, [Flags ''flags'' [(''turn'', 0), (''stun'', 1)],
        TrueBit ''flags'' 0 ''turn'',
        TrueBit ''flags'' 1 ''stun'',
        Plain (''id'', readInt64, writeInt64, enc_int64, is_VLong),
        Plain (''ip'', readString, writeString, enc_string, is_short_text),
        Plain (''ipv6'', readString, writeString, enc_string, is_short_text),
        Plain (''port'', readInt32, writeInt32, enc_int32, is_VInt),
        Plain (''username'', readString, writeString, enc_string, is_short_text),
        Plain (''password'', readString, writeString, enc_string, is_short_text)])]"

interpretation tl_PhoneConnection: tl_codec readTLPhoneConnection writeTLPhoneConnection "enc_fobject TL_PhoneConnection_table" "ok_fobject TL_PhoneConnection_table"
  by (rule flag_schema_codec, unfold TL_PhoneConnection_table_def, intro flag_tableI)
    (simp_all add: readTLPhoneConnection_def writeTLPhoneConnection_def flag_schema_simps)

definition readTLPhoneCall :: tl_reader where
  "readTLPhoneCall = read_object
     [(1399245077, [rd ''id'' readInt64]),
      (- 987599081, [rd ''flags'' readUInt32, set_if ''flags'' 6 ''video'', rd ''id'' readInt64,
         rd ''access_hash'' readInt64, rd ''date'' readInt32, rd ''admin_id'' readInt64,
         rd ''participant_id'' readInt64, rd ''protocol'' readTLPhoneCallProtocol,
         rd_if ''flags'' 0 ''receive_date'' readInt32]),
      (347139340, [rd ''flags'' readUInt32, set_if ''flags'' 6 ''video'', rd ''id'' readInt64,
         rd ''access_hash'' readInt64, rd ''date'' readInt32, rd ''admin_id'' readInt64,
         rd ''participant_id'' readInt64, rd ''g_a_hash'' readByteArray,
         rd ''protocol'' readTLPhoneCallProtocol]),
      (912311057, [rd ''flags'' readUInt32, set_if ''flags'' 6 ''video'', rd ''id'' readInt64,
         rd ''access_hash'' readInt64, rd ''date'' readInt32, rd ''admin_id'' readInt64,
         rd ''participant_id'' readInt64, rd ''g_b'' readByteArray,
         rd ''protocol'' readTLPhoneCallProtocol]),
      (810769141, [rd ''flags'' readUInt32, set_if ''flags'' 5 ''p2p_allowed'',
         set_if ''flags'' 6 ''video'', set_if ''flags'' 8 ''conference_supported'',
         rd ''id'' readInt64, rd ''access_hash'' readInt64, rd ''date'' readInt32,
         rd ''admin_id'' readInt64, rd ''participant_id'' readInt64, rd ''g_a_or_b'' readByteArray,
         rd ''key_fingerprint'' readInt64, rd ''protocol'' readTLPhoneCallProtocol,
         rd ''connections'' (readVector (Some readTLPhoneConnection)), rd ''start_date'' readInt32,
         rd_if ''flags'' 7 ''custom_parameters'' readTLDataJSON]),
      (1355435489, [rd ''flags'' readUInt32, set_if ''flags'' 2 ''need_rating'',
         set_if ''flags'' 3 ''need_debug'', set_if ''flags'' 6 ''video'', rd ''id'' readInt64,
         rd_if ''flags'' 0 ''reason'' readTLPhoneCallDiscardReason,
         rd_if ''flags'' 1 ''duration'' readInt32])]"

definition writeTLPhoneCall :: tl_writer where
  "writeTLPhoneCall = write_fobject
     [(1399245077, [wf ''_'' writeInt32, wf ''id'' writeInt64]),
      (- 987599081, [wf ''_'' writeInt32, wf_flags ''flags'' [(''video'', 6), (''receive_date'',
         0)], wf ''id'' writeInt64, wf ''access_hash'' writeInt64, wf ''date'' writeInt32,
         wf ''admin_id'' writeInt64, wf ''participant_id'' writeInt64,
         wf ''protocol'' writeTLPhoneCallProtocol, wf_if ''flags'' 0 ''receive_date'' writeInt32]),
      (347139340, [wf ''_'' writeInt32, wf_flags ''flags'' [(''video'', 6)], wf ''id'' writeInt64,
         wf ''access_hash'' writeInt64, wf ''date'' writeInt32, wf ''admin_id'' writeInt64,
         wf ''participant_id'' writeInt64, wf ''g_a_hash'' writeByteArray,
         wf ''protocol'' writeTLPhoneCallProtocol]),
      (912311057, [wf ''_'' writeInt32, wf_flags ''flags'' [(''video'', 6)], wf ''id'' writeInt64,
         wf ''access_hash'' writeInt64, wf ''date'' writeInt32, wf ''admin_id'' writeInt64,
         wf ''participant_id'' writeInt64, wf ''g_b'' writeByteArray,
         wf ''protocol'' writeTLPhoneCallProtocol]),
      (810769141, [wf ''_'' writeInt32, wf_flags ''flags'' [(''p2p_allowed'', 5), (''video'', 6),
         (''conference_supported'', 8), (''custom_parameters'', 7)], wf ''id'' writeInt64,
         wf ''access_hash'' writeInt64, wf ''date'' writeInt32, wf ''admin_id'' writeInt64,
         wf ''participant_id'' writeInt64, wf ''g_a_or_b'' writeByteArray,
         wf ''key_fingerprint'' writeInt64, wf ''protocol'' writeTLPhoneCallProtocol,
         wf ''connections'' (writeVector (Some writeTLPhoneConnection)),
         wf ''start_date'' writeInt32, wf_if ''flags'' 7 ''custom_parameters'' writeTLDataJSON]),
      (1355435489, [wf ''_'' writeInt32, wf_flags ''flags'' [(''need_rating'', 2), (''need_debug'',
         3), (''video'', 6), (''reason'', 0), (''duration'', 1)], wf ''id'' writeInt64,
         wf_if ''flags'' 0 ''reason'' writeTLPhoneCallDiscardReason,
         wf_if ''flags'' 1 ''duration'' writeInt32])]"

definition TL_PhoneCall_table :: flag_table where
  "TL_PhoneCall_table =
     [(1399245077, [Plain (''id'', readInt64, writeInt64, enc_int64, is_VLong)]),
      (- 987599081, [Flags ''flags'' [(''video'', 6), (''receive_date'', 0)],
        TrueBit ''flags'' 6 ''video'',
        Plain (''id'', readInt64, writeInt64, enc_int64, is_VLong),
        Plain (''access_hash'', readInt64, writeInt64, enc_int64, is_VLong),
        Plain (''date'', readInt32, writeInt32, enc_int32, is_VInt),
        Plain (''admin_id'', readInt64, writeInt64, enc_int64, is_VLong),
        Plain (''participant_id'', readInt64, writeInt64, enc_int64, is_VLong),
        Plain (''protocol'', readTLPhoneCallProtocol, writeTLPhoneCallProtocol,
         enc_fobject TL_PhoneCallProtocol_table, ok_fobject TL_PhoneCallProtocol_table),
        Cond ''flags'' 0 (''receive_date'', readInt32, writeInt32, enc_int32, is_VInt)]),
      (347139340, [Flags ''flags'' [(''video'', 6)],
        TrueBit ''flags'' 6 ''video'',
        Plain (''id'', readInt64, writeInt64, enc_int64, is_VLong),
        Plain (''access_hash'', readInt64, writeInt64, enc_int64, is_VLong),
        Plain (''date'', readInt32, writeInt32, enc_int32, is_VInt),
        Plain (''admin_id'', readInt64, writeInt64, enc_int64, is_VLong),
        Plain (''participant_id'', readInt64, writeInt64, enc_int64, is_VLong),
        Plain (''g_a_hash'', readByteArray, writeByteArray, enc_bytes, is_short_bytes),
        Plain (''protocol'', readTLPhoneCallProtocol, writeTLPhoneCallProtocol,
         enc_fobject TL_PhoneCallProtocol_table, ok_fobject TL_PhoneCallProtocol_table)]),
      (912311057, [Flags ''flags'' [(''video'', 6)],
        TrueBit ''flags'' 6 ''video'',
        Plain (''id'', readInt64, writeInt64, enc_int64, is_VLong),
        Plain (''access_hash'', readInt64, writeInt64, enc_int64, is_VLong),
        Plain (''date'', readInt32, writeInt32, enc_int32, is_VInt),
        Plain (''admin_id'', readInt64, writeInt64, enc_int64, is_VLong),
        Plain (''participant_id'', readInt64, writeInt64, enc_int64, is_VLong),
        Plain (''g_b'', readByteArray, writeByteArray, enc_bytes, is_short_bytes),
        Plain (''protocol'', readTLPhoneCallProtocol, writeTLPhoneCallProtocol,
         enc_fobject TL_PhoneCallProtocol_table, ok_fobject TL_PhoneCallProtocol_table)]),
      (810769141, [Flags ''flags'' [(''p2p_allowed'', 5), (''video'', 6),
         (''conference_supported'', 8), (''custom_parameters'', 7)],
        TrueBit ''flags'' 5 ''p2p_allowed'',
        TrueBit ''flags'' 6 ''video'',
        TrueBit ''flags'' 8 ''conference_supported'',
        Plain (''id'', readInt64, writeInt64, enc_int64, is_VLong),
        Plain (''access_hash'', readInt64, writeInt64, enc_int64, is_VLong),
        Plain (''date'', readInt32, writeInt32, enc_int32, is_VInt),
        Plain (''admin_id'', readInt64, writeInt64, enc_int64, is_VLong),
        Plain (''participant_id'', readInt64, writeInt64, enc_int64, is_VLong),
        Plain (''g_a_or_b'', readByteArray, writeByteArray, enc_bytes, is_short_bytes),
        Plain (''key_fingerprint'', readInt64, writeInt64, enc_int64, is_VLong),
        Plain (''protocol'', readTLPhoneCallProtocol, writeTLPhoneCallProtocol,
         enc_fobject TL_PhoneCallProtocol_table, ok_fobject TL_PhoneCallProtocol_table),
        Plain (''connections'', readVector (Some readTLPhoneConnection),
         writeVector (Some writeTLPhoneConnection),
         enc_vector (enc_fobject TL_PhoneConnection_table),
         ok_vector (ok_fobject TL_PhoneConnection_table)),
        Plain (''start_date'', readInt32, writeInt32, enc_int32, is_VInt),
        Cond ''flags'' 7 (''custom_parameters'', readTLDataJSON, writeTLDataJSON,
         enc_fobject TL_DataJSON_table, ok_fobject TL_DataJSON_table)]),
      (1355435489, [Flags ''flags'' [(''need_rating'', 2), (''need_debug'', 3), (''video'', 6),
         (''reason'', 0), (''duration'', 1)],
        TrueBit ''flags'' 2 ''need_rating'',
        TrueBit ''flags'' 3 ''need_debug'',
        TrueBit ''flags'' 6 ''video'',
        Plain (''id'', readInt64, writeInt64, enc_int64, is_VLong),
        Cond ''flags'' 0 (''reason'', readTLPhoneCallDiscardReason, writeTLPhoneCallDiscardReason,
         enc_fobject TL_PhoneCallDiscardReason_table, ok_fobject TL_PhoneCallDiscardReason_table),
        Cond ''flags'' 1 (''duration'', readInt32, writeInt32, enc_int32, is_VInt)])]"

interpretation tl_PhoneCall: tl_codec readTLPhoneCall writeTLPhoneCall "enc_fobject TL_PhoneCall_table" "ok_fobject TL_PhoneCall_table"
  by (rule flag_schema_codec, unfold TL_PhoneCall_table_def, intro flag_tableI)
    (simp_all add: readTLPhoneCall_def writeTLPhoneCall_def flag_schema_simps tl_PhoneCallProtocol.tl_codec_axioms tl_PhoneCallProtocol.vector_codec tl_PhoneConnection.tl_codec_axioms tl_PhoneConnection.vector_codec tl_DataJSON.tl_codec_axioms tl_DataJSON.vector_codec tl_PhoneCallDiscardReason.tl_codec_axioms tl_PhoneCallDiscardReason.vector_codec)

definition readTLPhonePhoneCall :: tl_reader where
  "readTLPhonePhoneCall = read_object
     [(- 326966976, [rd ''phone_call'' readTLPhoneCall,
         rd ''users'' (readVector (Some readTLUser))])]"

definition writeTLPhonePhoneCall :: tl_writer where
  "writeTLPhonePhoneCall = write_fobject
     [(- 326966976, [wf ''_'' writeInt32, wf ''phone_call'' writeTLPhoneCall,
         wf ''users'' (writeVector (Some writeTLUser))])]"

definition TL_PhonePhoneCall_table :: flag_table where
  "TL_PhonePhoneCall_table =
     [(- 326966976, [Plain (''phone_call'', readTLPhoneCall, writeTLPhoneCall,
         enc_fobject TL_PhoneCall_table, ok_fobject TL_PhoneCall_table),
        Plain (''users'', readVector (Some readTLUser), writeVector (Some writeTLUser),
         enc_vector (enc_fobject TL_User_table), ok_vector (ok_fobject TL_User_table))])]"

interpretation tl_PhonePhoneCall: tl_codec readTLPhonePhoneCall writeTLPhonePhoneCall "enc_fobject TL_PhonePhoneCall_table" "ok_fobject TL_PhonePhoneCall_table"
  by (rule flag_schema_codec, unfold TL_PhonePhoneCall_table_def, intro flag_tableI)
    (simp_all add: readTLPhonePhoneCall_def writeTLPhonePhoneCall_def flag_schema_simps tl_PhoneCall.tl_codec_axioms tl_PhoneCall.vector_codec tl_User.tl_codec_axioms tl_User.vector_codec)

definition readTLUploadCdnFile :: tl_reader where
  "readTLUploadCdnFile = read_object
     [(- 290921362, [rd ''request_token'' readByteArray]),
      (- 1449145777, [rd ''bytes'' readByteArray])]"

definition writeTLUploadCdnFile :: tl_writer where
  "writeTLUploadCdnFile = write_fobject
     [(- 290921362, [wf ''_'' writeInt32, wf ''request_token'' writeByteArray]),
      (- 1449145777, [wf ''_'' writeInt32, wf ''bytes'' writeByteArray])]"

definition TL_UploadCdnFile_table :: flag_table where
  "TL_UploadCdnFile_table =
     [(- 290921362, [Plain (''request_token'', readByteArray, writeByteArray, enc_bytes,
         is_short_bytes)]),
      (- 1449145777, [Plain (''bytes'', readByteArray, writeByteArray, enc_bytes,
         is_short_bytes)])]"

interpretation tl_UploadCdnFile: tl_codec readTLUploadCdnFile writeTLUploadCdnFile "enc_fobject TL_UploadCdnFile_table" "ok_fobject TL_UploadCdnFile_table"
  by (rule flag_schema_codec, unfold TL_UploadCdnFile_table_def, intro flag_tableI)
    (simp_all add: readTLUploadCdnFile_def writeTLUploadCdnFile_def flag_schema_simps)

definition readTLCdnPublicKey :: tl_reader where
  "readTLCdnPublicKey = read_object
     [(- 914167110, [rd ''dc_id'' readInt32, rd ''public_key'' readString])]"

definition writeTLCdnPublicKey :: tl_writer where
  "writeTLCdnPublicKey = write_fobject
     [(- 914167110, [wf ''_'' writeInt32, wf ''dc_id'' writeInt32, wf ''public_key'' writeString])]"

definition TL_CdnPublicKey_table :: flag_table where
  "TL_CdnPublicKey_table =
     [(- 914167110, [Plain (''dc_id'', readInt32, writeInt32, enc_int32, is_VInt),
        Plain (''public_key'', readString, writeString, enc_string, is_short_text)])]"

interpretation tl_CdnPublicKey: tl_codec readTLCdnPublicKey writeTLCdnPublicKey "enc_fobject TL_CdnPublicKey_table" "ok_fobject TL_CdnPublicKey_table"
  by (rule flag_schema_codec, unfold TL_CdnPublicKey_table_def, intro flag_tableI)
    (simp_all add: readTLCdnPublicKey_def writeTLCdnPublicKey_def flag_schema_simps)

definition readTLCdnConfig :: tl_reader where
  "readTLCdnConfig = read_object
     [(1462101002, [rd ''public_keys'' (readVector (Some readTLCdnPublicKey))])]"

definition writeTLCdnConfig :: tl_writer where
  "writeTLCdnConfig = write_fobject
     [(1462101002, [wf ''_'' writeInt32,
         wf ''public_keys'' (writeVector (Some writeTLCdnPublicKey))])]"

definition TL_CdnConfig_table :: flag_table where
  "TL_CdnConfig_table =
     [(1462101002, [Plain (''public_keys'', readVector (Some readTLCdnPublicKey),
         writeVector (Some writeTLCdnPublicKey), enc_vector (enc_fobject TL_CdnPublicKey_table),
         ok_vector (ok_fobject TL_CdnPublicKey_table))])]"

interpretation tl_CdnConfig: tl_codec readTLCdnConfig writeTLCdnConfig "enc_fobject TL_CdnConfig_table" "ok_fobject TL_CdnConfig_table"
  by (rule flag_schema_codec, unfold TL_CdnConfig_table_def, intro flag_tableI)
    (simp_all add: readTLCdnConfig_def writeTLCdnConfig_def flag_schema_simps tl_CdnPublicKey.tl_codec_axioms tl_CdnPublicKey.vector_codec)

definition readTLLangPackString :: tl_reader where
  "readTLLangPackString = read_object
     [(- 892239370, [rd ''key'' readString, rd ''value'' readString]),
      (1816636575, [rd ''flags'' readUInt32, rd ''key'' readString,
         rd_if ''flags'' 0 ''zero_value'' readString, rd_if ''flags'' 1 ''one_value'' readString,
         rd_if ''flags'' 2 ''two_value'' readString, rd_if ''flags'' 3 ''few_value'' readString,
         rd_if ''flags'' 4 ''many_value'' readString, rd ''other_value'' readString]),
      (695856818, [rd ''key'' readString])]"

definition writeTLLangPackString :: tl_writer where
  "writeTLLangPackString = write_fobject
     [(- 892239370, [wf ''_'' writeInt32, wf ''key'' writeString, wf ''value'' writeString]),
      (1816636575, [wf ''_'' writeInt32, wf_flags ''flags'' [(''zero_value'', 0), (''one_value'',
         1), (''two_value'', 2), (''few_value'', 3), (''many_value'', 4)], wf ''key'' writeString,
         wf_if ''flags'' 0 ''zero_value'' writeString, wf_if ''flags'' 1 ''one_value'' writeString,
         wf_if ''flags'' 2 ''two_value'' writeString, wf_if ''flags'' 3 ''few_value'' writeString,
         wf_if ''flags'' 4 ''many_value'' writeString, wf ''other_value'' writeString]),
      (695856818, [wf ''_'' writeInt32, wf ''key'' writeString])]"

definition TL_LangPackString_table :: flag_table where
  "TL_LangPackString_table =
     [(- 892239370, [Plain (''key'', readString, writeString, enc_string, is_short_text),
        Plain (''value'', readString, writeString, enc_string, is_short_text)]),
      (1816636575, [Flags ''flags'' [(''zero_value'', 0), (''one_value'', 1), (''two_value'', 2),
         (''few_value'', 3), (''many_value'', 4)],
        Plain (''key'', readString, writeString, enc_string, is_short_text),
        Cond ''flags'' 0 (''zero_value'', readString, writeString, enc_string, is_short_text),
        Cond ''flags'' 1 (''one_value'', readString, writeString, enc_string, is_short_text),
        Cond ''flags'' 2 (''two_value'', readString, writeString, enc_string, is_short_text),
        Cond ''flags'' 3 (''few_value'', readString, writeString, enc_string, is_short_text),
        Cond ''flags'' 4 (''many_value'', readString, writeString, enc_string, is_short_text),
        Plain (''other_value'', readString, writeString, enc_string, is_short_text)]),
      (695856818, [Plain (''key'', readString, writeString, enc_string, is_short_text)])]"

interpretation tl_LangPackString: tl_codec readTLLangPackString writeTLLangPackString "enc_fobject TL_LangPackString_table" "ok_fobject TL_LangPackString_table"
  by (rule flag_schema_codec, unfold TL_LangPackString_table_def, intro flag_tableI)
    (simp_all add: readTLLangPackString_def writeTLLangPackString_def flag_schema_simps)

definition readTLLangPackDifference :: tl_reader where
  "readTLLangPackDifference = read_object
     [(- 209337866, [rd ''lang_code'' readString, rd ''from_version'' readInt32,
         rd ''version'' readInt32, rd ''strings'' (readVector (Some readTLLangPackString))])]"

definition writeTLLangPackDifference :: tl_writer where
  "writeTLLangPackDifference = write_fobject
     [(- 209337866, [wf ''_'' writeInt32, wf ''lang_code'' writeString,
         wf ''from_version'' writeInt32, wf ''version'' writeInt32,
         wf ''strings'' (writeVector (Some writeTLLangPackString))])]"

definition TL_LangPackDifference_table :: flag_table where
  "TL_LangPackDifference_table =
     [(- 209337866, [Plain (''lang_code'', readString, writeString, enc_string, is_short_text),
        Plain (''from_version'', readInt32, writeInt32, enc_int32, is_VInt),
        Plain (''version'', readInt32, writeInt32, enc_int32, is_VInt),
        Plain (''strings'', readVector (Some readTLLangPackString),
         writeVector (Some writeTLLangPackString),
         enc_vector (enc_fobject TL_LangPackString_table),
         ok_vector (ok_fobject TL_LangPackString_table))])]"

interpretation tl_LangPackDifference: tl_codec readTLLangPackDifference writeTLLangPackDifference "enc_fobject TL_LangPackDifference_table" "ok_fobject TL_LangPackDifference_table"
  by (rule flag_schema_codec, unfold TL_LangPackDifference_table_def, intro flag_tableI)
    (simp_all add: readTLLangPackDifference_def writeTLLangPackDifference_def flag_schema_simps tl_LangPackString.tl_codec_axioms tl_LangPackString.vector_codec)

definition readTLLangPackLanguage :: tl_reader where
  "readTLLangPackLanguage = read_object
     [(- 288727837, [rd ''flags'' readUInt32, set_if ''flags'' 0 ''official'',
         set_if ''flags'' 2 ''rtl'', set_if ''flags'' 3 ''beta'', rd ''name'' readString,
         rd ''native_name'' readString, rd ''lang_code'' readString,
         rd_if ''flags'' 1 ''base_lang_code'' readString, rd ''plural_code'' readString,
         rd ''strings_count'' readInt32, rd ''translated_count'' readInt32,
         rd ''translations_url'' readString])]"

definition writeTLLangPackLanguage :: tl_writer where
  "writeTLLangPackLanguage = write_fobject
     [(- 288727837, [wf ''_'' writeInt32, wf_flags ''flags'' [(''official'', 0), (''rtl'', 2),
         (''beta'', 3), (''base_lang_code'', 1)], wf ''name'' writeString,
         wf ''native_name'' writeString, wf ''lang_code'' writeString,
         wf_if ''flags'' 1 ''base_lang_code'' writeString, wf ''plural_code'' writeString,
         wf ''strings_count'' writeInt32, wf ''translated_count'' writeInt32,
         wf ''translations_url'' writeString])]"

definition TL_LangPackLanguage_table :: flag_table where
  "TL_LangPackLanguage_table =
     [(- 288727837, [Flags ''flags'' [(''official'', 0), (''rtl'', 2), (''beta'', 3),
         (''base_lang_code'', 1)],
        TrueBit ''flags'' 0 ''official'',
        TrueBit ''flags'' 2 ''rtl'',
        TrueBit ''flags'' 3 ''beta'',
        Plain (''name'', readString, writeString, enc_string, is_short_text),
        Plain (''native_name'', readString, writeString, enc_string, is_short_text),
        Plain (''lang_code'', readString, writeString, enc_string, is_short_text),
        Cond ''flags'' 1 (''base_lang_code'', readString, writeString, enc_string, is_short_text),
        Plain (''plural_code'', readString, writeString, enc_string, is_short_text),
        Plain (''strings_count'', readInt32, writeInt32, enc_int32, is_VInt),
        Plain (''translated_count'', readInt32, writeInt32, enc_int32, is_VInt),
        Plain (''translations_url'', readString, writeString, enc_string, is_short_text)])]"

interpretation tl_LangPackLanguage: tl_codec readTLLangPackLanguage writeTLLangPackLanguage "enc_fobject TL_LangPackLanguage_table" "ok_fobject TL_LangPackLanguage_table"
  by (rule flag_schema_codec, unfold TL_LangPackLanguage_table_def, intro flag_tableI)
    (simp_all add: readTLLangPackLanguage_def writeTLLangPackLanguage_def flag_schema_simps)

definition readTLChannelAdminLogEventsFilter :: tl_reader where
  "readTLChannelAdminLogEventsFilter = read_object
     [(- 368018716, [rd ''flags'' readUInt32, set_if ''flags'' 0 ''join'',
         set_if ''flags'' 1 ''leave'', set_if ''flags'' 2 ''invite'', set_if ''flags'' 3 ''ban'',
         set_if ''flags'' 4 ''unban'', set_if ''flags'' 5 ''kick'', set_if ''flags'' 6 ''unkick'',
         set_if ''flags'' 7 ''promote'', set_if ''flags'' 8 ''demote'',
         set_if ''flags'' 9 ''info'', set_if ''flags'' 10 ''settings'',
         set_if ''flags'' 11 ''pinned'', set_if ''flags'' 12 ''edit'',
         set_if ''flags'' 13 ''delete'', set_if ''flags'' 14 ''group_call'',
         set_if ''flags'' 15 ''invites'', set_if ''flags'' 16 ''send'',
         set_if ''flags'' 17 ''forums'', set_if ''flags'' 18 ''sub_extend'',
         set_if ''flags'' 19 ''edit_rank''])]"

definition writeTLChannelAdminLogEventsFilter :: tl_writer where
  "writeTLChannelAdminLogEventsFilter = write_fobject
     [(- 368018716, [wf ''_'' writeInt32, wf_flags ''flags'' [(''join'', 0), (''leave'', 1),
         (''invite'', 2), (''ban'', 3), (''unban'', 4), (''kick'', 5), (''unkick'', 6),
         (''promote'', 7), (''demote'', 8), (''info'', 9), (''settings'', 10), (''pinned'', 11),
         (''edit'', 12), (''delete'', 13), (''group_call'', 14), (''invites'', 15), (''send'', 16),
         (''forums'', 17), (''sub_extend'', 18), (''edit_rank'', 19)]])]"

definition TL_ChannelAdminLogEventsFilter_table :: flag_table where
  "TL_ChannelAdminLogEventsFilter_table =
     [(- 368018716, [Flags ''flags'' [(''join'', 0), (''leave'', 1), (''invite'', 2), (''ban'', 3),
         (''unban'', 4), (''kick'', 5), (''unkick'', 6), (''promote'', 7), (''demote'', 8),
         (''info'', 9), (''settings'', 10), (''pinned'', 11), (''edit'', 12), (''delete'', 13),
         (''group_call'', 14), (''invites'', 15), (''send'', 16), (''forums'', 17),
         (''sub_extend'', 18), (''edit_rank'', 19)],
        TrueBit ''flags'' 0 ''join'',
        TrueBit ''flags'' 1 ''leave'',
        TrueBit ''flags'' 2 ''invite'',
        TrueBit ''flags'' 3 ''ban'',
        TrueBit ''flags'' 4 ''unban'',
        TrueBit ''flags'' 5 ''kick'',
        TrueBit ''flags'' 6 ''unkick'',
        TrueBit ''flags'' 7 ''promote'',
        TrueBit ''flags'' 8 ''demote'',
        TrueBit ''flags'' 9 ''info'',
        TrueBit ''flags'' 10 ''settings'',
        TrueBit ''flags'' 11 ''pinned'',
        TrueBit ''flags'' 12 ''edit'',
        TrueBit ''flags'' 13 ''delete'',
        TrueBit ''flags'' 14 ''group_call'',
        TrueBit ''flags'' 15 ''invites'',
        TrueBit ''flags'' 16 ''send'',
        TrueBit ''flags'' 17 ''forums'',
        TrueBit ''flags'' 18 ''sub_extend'',
        TrueBit ''flags'' 19 ''edit_rank''])]"

interpretation tl_ChannelAdminLogEventsFilter: tl_codec readTLChannelAdminLogEventsFilter writeTLChannelAdminLogEventsFilter "enc_fobject TL_ChannelAdminLogEventsFilter_table" "ok_fobject TL_ChannelAdminLogEventsFilter_table"
  by (rule flag_schema_codec, unfold TL_ChannelAdminLogEventsFilter_table_def, intro flag_tableI)
    (simp_all add: readTLChannelAdminLogEventsFilter_def writeTLChannelAdminLogEventsFilter_def flag_schema_simps)

definition readTLWebAuthorization :: tl_reader where
  "readTLWebAuthorization = read_object
     [(- 1493633966, [rd ''hash'' readInt64, rd ''bot_id'' readInt64, rd ''domain'' readString,
         rd ''browser'' readString, rd ''platform'' readString, rd ''date_created'' readInt32,
         rd ''date_active'' readInt32, rd ''ip'' readString, rd ''region'' readString])]"

definition writeTLWebAuthorization :: tl_writer where
  "writeTLWebAuthorization = write_fobject
     [(- 1493633966, [wf ''_'' writeInt32, wf ''hash'' writeInt64, wf ''bot_id'' writeInt64,
         wf ''domain'' writeString, wf ''browser'' writeString, wf ''platform'' writeString,
         wf ''date_created'' writeInt32, wf ''date_active'' writeInt32, wf ''ip'' writeString,
         wf ''region'' writeString])]"

definition TL_WebAuthorization_table :: flag_table where
  "TL_WebAuthorization_table =
     [(- 1493633966, [Plain (''hash'', readInt64, writeInt64, enc_int64, is_VLong),
        Plain (''bot_id'', readInt64, writeInt64, enc_int64, is_VLong),
        Plain (''domain'', readString, writeString, enc_string, is_short_text),
        Plain (''browser'', readString, writeString, enc_string, is_short_text),
        Plain (''platform'', readString, writeString, enc_string, is_short_text),
        Plain (''date_created'', readInt32, writeInt32, enc_int32, is_VInt),
        Plain (''date_active'', readInt32, writeInt32, enc_int32, is_VInt),
        Plain (''ip'', readString, writeString, enc_string, is_short_text),
        Plain (''region'', readString, writeString, enc_string, is_short_text)])]"

interpretation tl_WebAuthorization: tl_codec readTLWebAuthorization writeTLWebAuthorization "enc_fobject TL_WebAuthorization_table" "ok_fobject TL_WebAuthorization_table"
  by (rule flag_schema_codec, unfold TL_WebAuthorization_table_def, intro flag_tableI)
    (simp_all add: readTLWebAuthorization_def writeTLWebAuthorization_def flag_schema_simps)

definition readTLAccountWebAuthorizations :: tl_reader where
  "readTLAccountWebAuthorizations = read_object
     [(- 313079300, [rd ''authorizations'' (readVector (Some readTLWebAuthorization)),
         rd ''users'' (readVector (Some readTLUser))])]"

definition writeTLAccountWebAuthorizations :: tl_writer where
  "writeTLAccountWebAuthorizations = write_fobject
     [(- 313079300, [wf ''_'' writeInt32,
         wf ''authorizations'' (writeVector (Some writeTLWebAuthorization)),
         wf ''users'' (writeVector (Some writeTLUser))])]"

definition TL_AccountWebAuthorizations_table :: flag_table where
  "TL_AccountWebAuthorizations_table =
     [(- 313079300, [Plain (''authorizations'', readVector (Some readTLWebAuthorization),
         writeVector (Some writeTLWebAuthorization),
         enc_vector (enc_fobject TL_WebAuthorization_table),
         ok_vector (ok_fobject TL_WebAuthorization_table)),
        Plain (''users'', readVector (Some readTLUser), writeVector (Some writeTLUser),
         enc_vector (enc_fobject TL_User_table), ok_vector (ok_fobject TL_User_table))])]"

interpretation tl_AccountWebAuthorizations: tl_codec readTLAccountWebAuthorizations writeTLAccountWebAuthorizations "enc_fobject TL_AccountWebAuthorizations_table" "ok_fobject TL_AccountWebAuthorizations_table"
  by (rule flag_schema_codec, unfold TL_AccountWebAuthorizations_table_def, intro flag_tableI)
    (simp_all add: readTLAccountWebAuthorizations_def writeTLAccountWebAuthorizations_def flag_schema_simps tl_WebAuthorization.tl_codec_axioms tl_WebAuthorization.vector_codec tl_User.tl_codec_axioms tl_User.vector_codec)

definition readTLInputMessage :: tl_reader where
  "readTLInputMessage = read_object
     [(- 1502174430, [rd ''id'' readInt32]),
      (- 1160215659, [rd ''id'' readInt32]),
      (- 2037963464, []),
      (- 1392895362, [rd ''id'' readInt32, rd ''query_id'' readInt64])]"

definition writeTLInputMessage :: tl_writer where
  "writeTLInputMessage = write_fobject
     [(- 1502174430, [wf ''_'' writeInt32, wf ''id'' writeInt32]),
      (- 1160215659, [wf ''_'' writeInt32, wf ''id'' writeInt32]),
      (- 2037963464, [wf ''_'' writeInt32]),
      (- 1392895362, [wf ''_'' writeInt32, wf ''id'' writeInt32, wf ''query_id'' writeInt64])]"

definition TL_InputMessage_table :: flag_table where
  "TL_InputMessage_table =
     [(- 1502174430, [Plain (''id'', readInt32, writeInt32, enc_int32, is_VInt)]),
      (- 1160215659, [Plain (''id'', readInt32, writeInt32, enc_int32, is_VInt)]),
      (- 2037963464, []),
      (- 1392895362, [Plain (''id'', readInt32, writeInt32, enc_int32, is_VInt),
        Plain (''query_id'', readInt64, writeInt64, enc_int64, is_VLong)])]"

interpretation tl_InputMessage: tl_codec readTLInputMessage writeTLInputMessage "enc_fobject TL_InputMessage_table" "ok_fobject TL_InputMessage_table"
  by (rule flag_schema_codec, unfold TL_InputMessage_table_def, intro flag_tableI)
    (simp_all add: readTLInputMessage_def writeTLInputMessage_def flag_schema_simps)

definition readTLInputDialogPeer :: tl_reader where
  "readTLInputDialogPeer = read_object
     [(- 55902537, [rd ''peer'' readTLInputPeer]),
      (1684014375, [rd ''folder_id'' readInt32]),
      (1777300164, [rd ''community'' readTLInputChannel])]"

definition writeTLInputDialogPeer :: tl_writer where
  "writeTLInputDialogPeer = write_fobject
     [(- 55902537, [wf ''_'' writeInt32, wf ''peer'' writeTLInputPeer]),
      (1684014375, [wf ''_'' writeInt32, wf ''folder_id'' writeInt32]),
      (1777300164, [wf ''_'' writeInt32, wf ''community'' writeTLInputChannel])]"

definition TL_InputDialogPeer_table :: flag_table where
  "TL_InputDialogPeer_table =
     [(- 55902537, [Plain (''peer'', readTLInputPeer, writeTLInputPeer, enc_InputPeer,
         ok_InputPeer)]),
      (1684014375, [Plain (''folder_id'', readInt32, writeInt32, enc_int32, is_VInt)]),
      (1777300164, [Plain (''community'', readTLInputChannel, writeTLInputChannel,
         enc_fobject TL_InputChannel_table, ok_fobject TL_InputChannel_table)])]"

interpretation tl_InputDialogPeer: tl_codec readTLInputDialogPeer writeTLInputDialogPeer "enc_fobject TL_InputDialogPeer_table" "ok_fobject TL_InputDialogPeer_table"
  by (rule flag_schema_codec, unfold TL_InputDialogPeer_table_def, intro flag_tableI)
    (simp_all add: readTLInputDialogPeer_def writeTLInputDialogPeer_def flag_schema_simps tl_InputPeer.tl_codec_axioms tl_InputChannel.tl_codec_axioms)

definition readTLDialogPeer :: tl_reader where
  "readTLDialogPeer = read_object
     [(- 445792507, [rd ''peer'' readTLPeer]),
      (1363483106, [rd ''folder_id'' readInt32]),
      (795199716, [rd ''community_id'' readInt64])]"

definition writeTLDialogPeer :: tl_writer where
  "writeTLDialogPeer = write_fobject
     [(- 445792507, [wf ''_'' writeInt32, wf ''peer'' writeTLPeer]),
      (1363483106, [wf ''_'' writeInt32, wf ''folder_id'' writeInt32]),
      (795199716, [wf ''_'' writeInt32, wf ''community_id'' writeInt64])]"

definition TL_DialogPeer_table :: flag_table where
  "TL_DialogPeer_table =
     [(- 445792507, [Plain (''peer'', readTLPeer, writeTLPeer, enc_fobject TL_Peer_table,
         ok_fobject TL_Peer_table)]),
      (1363483106, [Plain (''folder_id'', readInt32, writeInt32, enc_int32, is_VInt)]),
      (795199716, [Plain (''community_id'', readInt64, writeInt64, enc_int64, is_VLong)])]"

interpretation tl_DialogPeer: tl_codec readTLDialogPeer writeTLDialogPeer "enc_fobject TL_DialogPeer_table" "ok_fobject TL_DialogPeer_table"
  by (rule flag_schema_codec, unfold TL_DialogPeer_table_def, intro flag_tableI)
    (simp_all add: readTLDialogPeer_def writeTLDialogPeer_def flag_schema_simps tl_Peer.tl_codec_axioms)

definition readTLInputClientProxy :: tl_reader where
  "readTLInputClientProxy = read_object
     [(1968737087, [rd ''address'' readString, rd ''port'' readInt32])]"

definition writeTLInputClientProxy :: tl_writer where
  "writeTLInputClientProxy = write_fobject
     [(1968737087, [wf ''_'' writeInt32, wf ''address'' writeString, wf ''port'' writeInt32])]"

definition TL_InputClientProxy_table :: flag_table where
  "TL_InputClientProxy_table =
     [(1968737087, [Plain (''address'', readString, writeString, enc_string, is_short_text),
        Plain (''port'', readInt32, writeInt32, enc_int32, is_VInt)])]"

interpretation tl_InputClientProxy: tl_codec readTLInputClientProxy writeTLInputClientProxy "enc_fobject TL_InputClientProxy_table" "ok_fobject TL_InputClientProxy_table"
  by (rule flag_schema_codec, unfold TL_InputClientProxy_table_def, intro flag_tableI)
    (simp_all add: readTLInputClientProxy_def writeTLInputClientProxy_def flag_schema_simps)

definition readTLHelpTermsOfServiceUpdate :: tl_reader where
  "readTLHelpTermsOfServiceUpdate = read_object
     [(- 483352705, [rd ''expires'' readInt32]),
      (686618977, [rd ''expires'' readInt32, rd ''terms_of_service'' readTLHelpTermsOfService])]"

definition writeTLHelpTermsOfServiceUpdate :: tl_writer where
  "writeTLHelpTermsOfServiceUpdate = write_fobject
     [(- 483352705, [wf ''_'' writeInt32, wf ''expires'' writeInt32]),
      (686618977, [wf ''_'' writeInt32, wf ''expires'' writeInt32,
         wf ''terms_of_service'' writeTLHelpTermsOfService])]"

definition TL_HelpTermsOfServiceUpdate_table :: flag_table where
  "TL_HelpTermsOfServiceUpdate_table =
     [(- 483352705, [Plain (''expires'', readInt32, writeInt32, enc_int32, is_VInt)]),
      (686618977, [Plain (''expires'', readInt32, writeInt32, enc_int32, is_VInt),
        Plain (''terms_of_service'', readTLHelpTermsOfService, writeTLHelpTermsOfService,
         enc_fobject TL_HelpTermsOfService_table, ok_fobject TL_HelpTermsOfService_table)])]"

interpretation tl_HelpTermsOfServiceUpdate: tl_codec readTLHelpTermsOfServiceUpdate writeTLHelpTermsOfServiceUpdate "enc_fobject TL_HelpTermsOfServiceUpdate_table" "ok_fobject TL_HelpTermsOfServiceUpdate_table"
  by (rule flag_schema_codec, unfold TL_HelpTermsOfServiceUpdate_table_def, intro flag_tableI)
    (simp_all add: readTLHelpTermsOfServiceUpdate_def writeTLHelpTermsOfServiceUpdate_def flag_schema_simps tl_HelpTermsOfService.tl_codec_axioms)

definition readTLInputSecureFile :: tl_reader where
  "readTLInputSecureFile = read_object
     [(859091184, [rd ''id'' readInt64, rd ''parts'' readInt32, rd ''md5_checksum'' readString,
         rd ''file_hash'' readByteArray, rd ''secret'' readByteArray]),
      (1399317950, [rd ''id'' readInt64, rd ''access_hash'' readInt64])]"

definition writeTLInputSecureFile :: tl_writer where
  "writeTLInputSecureFile = write_fobject
     [(859091184, [wf ''_'' writeInt32, wf ''id'' writeInt64, wf ''parts'' writeInt32,
         wf ''md5_checksum'' writeString, wf ''file_hash'' writeByteArray,
         wf ''secret'' writeByteArray]),
      (1399317950, [wf ''_'' writeInt32, wf ''id'' writeInt64, wf ''access_hash'' writeInt64])]"

definition TL_InputSecureFile_table :: flag_table where
  "TL_InputSecureFile_table =
     [(859091184, [Plain (''id'', readInt64, writeInt64, enc_int64, is_VLong),
        Plain (''parts'', readInt32, writeInt32, enc_int32, is_VInt),
        Plain (''md5_checksum'', readString, writeString, enc_string, is_short_text),
        Plain (''file_hash'', readByteArray, writeByteArray, enc_bytes, is_short_bytes),
        Plain (''secret'', readByteArray, writeByteArray, enc_bytes, is_short_bytes)]),
      (1399317950, [Plain (''id'', readInt64, writeInt64, enc_int64, is_VLong),
        Plain (''access_hash'', readInt64, writeInt64, enc_int64, is_VLong)])]"

interpretation tl_InputSecureFile: tl_codec readTLInputSecureFile writeTLInputSecureFile "enc_fobject TL_InputSecureFile_table" "ok_fobject TL_InputSecureFile_table"
  by (rule flag_schema_codec, unfold TL_InputSecureFile_table_def, intro flag_tableI)
    (simp_all add: readTLInputSecureFile_def writeTLInputSecureFile_def flag_schema_simps)

definition readTLSecureFile :: tl_reader where
  "readTLSecureFile = read_object
     [(1679398724, []),
      (2097791614, [rd ''id'' readInt64, rd ''access_hash'' readInt64, rd ''size'' readInt64,
         rd ''dc_id'' readInt32, rd ''date'' readInt32, rd ''file_hash'' readByteArray,
         rd ''secret'' readByteArray])]"

definition writeTLSecureFile :: tl_writer where
  "writeTLSecureFile = write_fobject
     [(1679398724, [wf ''_'' writeInt32]),
      (2097791614, [wf ''_'' writeInt32, wf ''id'' writeInt64, wf ''access_hash'' writeInt64,
         wf ''size'' writeInt64, wf ''dc_id'' writeInt32, wf ''date'' writeInt32,
         wf ''file_hash'' writeByteArray, wf ''secret'' writeByteArray])]"

definition TL_SecureFile_table :: flag_table where
  "TL_SecureFile_table =
     [(1679398724, []),
      (2097791614, [Plain (''id'', readInt64, writeInt64, enc_int64, is_VLong),
        Plain (''access_hash'', readInt64, writeInt64, enc_int64, is_VLong),
        Plain (''size'', readInt64, writeInt64, enc_int64, is_VLong),
        Plain (''dc_id'', readInt32, writeInt32, enc_int32, is_VInt),
        Plain (''date'', readInt32, writeInt32, enc_int32, is_VInt),
        Plain (''file_hash'', readByteArray, writeByteArray, enc_bytes, is_short_bytes),
        Plain (''secret'', readByteArray, writeByteArray, enc_bytes, is_short_bytes)])]"

interpretation tl_SecureFile: tl_codec readTLSecureFile writeTLSecureFile "enc_fobject TL_SecureFile_table" "ok_fobject TL_SecureFile_table"
  by (rule flag_schema_codec, unfold TL_SecureFile_table_def, intro flag_tableI)
    (simp_all add: readTLSecureFile_def writeTLSecureFile_def flag_schema_simps)

definition readTLSecureData :: tl_reader where
  "readTLSecureData = read_object
     [(- 1964327229, [rd ''data'' readByteArray, rd ''data_hash'' readByteArray,
         rd ''secret'' readByteArray])]"

definition writeTLSecureData :: tl_writer where
  "writeTLSecureData = write_fobject
     [(- 1964327229, [wf ''_'' writeInt32, wf ''data'' writeByteArray,
         wf ''data_hash'' writeByteArray, wf ''secret'' writeByteArray])]"

definition TL_SecureData_table :: flag_table where
  "TL_SecureData_table =
     [(- 1964327229, [Plain (''data'', readByteArray, writeByteArray, enc_bytes, is_short_bytes),
        Plain (''data_hash'', readByteArray, writeByteArray, enc_bytes, is_short_bytes),
        Plain (''secret'', readByteArray, writeByteArray, enc_bytes, is_short_bytes)])]"

interpretation tl_SecureData: tl_codec readTLSecureData writeTLSecureData "enc_fobject TL_SecureData_table" "ok_fobject TL_SecureData_table"
  by (rule flag_schema_codec, unfold TL_SecureData_table_def, intro flag_tableI)
    (simp_all add: readTLSecureData_def writeTLSecureData_def flag_schema_simps)

definition readTLSecurePlainData :: tl_reader where
  "readTLSecurePlainData = read_object
     [(2103482845, [rd ''phone'' readString]),
      (569137759, [rd ''email'' readString])]"

definition writeTLSecurePlainData :: tl_writer where
  "writeTLSecurePlainData = write_fobject
     [(2103482845, [wf ''_'' writeInt32, wf ''phone'' writeString]),
      (569137759, [wf ''_'' writeInt32, wf ''email'' writeString])]"

definition TL_SecurePlainData_table :: flag_table where
  "TL_SecurePlainData_table =
     [(2103482845, [Plain (''phone'', readString, writeString, enc_string, is_short_text)]),
      (569137759, [Plain (''email'', readString, writeString, enc_string, is_short_text)])]"

interpretation tl_SecurePlainData: tl_codec readTLSecurePlainData writeTLSecurePlainData "enc_fobject TL_SecurePlainData_table" "ok_fobject TL_SecurePlainData_table"
  by (rule flag_schema_codec, unfold TL_SecurePlainData_table_def, intro flag_tableI)
    (simp_all add: readTLSecurePlainData_def writeTLSecurePlainData_def flag_schema_simps)

definition readTLSecureValueType :: tl_reader where
  "readTLSecureValueType = read_object
     [(- 1658158621, []),
      (1034709504, []),
      (115615172, []),
      (- 1596951477, []),
      (- 1717268701, []),
      (- 874308058, []),
      (- 63531698, []),
      (- 1995211763, []),
      (- 1954007928, []),
      (- 1713143702, []),
      (- 368907213, []),
      (- 1289704741, []),
      (- 1908627474, [])]"

definition writeTLSecureValueType :: tl_writer where
  "writeTLSecureValueType = write_fobject
     [(- 1658158621, [wf ''_'' writeInt32]),
      (1034709504, [wf ''_'' writeInt32]),
      (115615172, [wf ''_'' writeInt32]),
      (- 1596951477, [wf ''_'' writeInt32]),
      (- 1717268701, [wf ''_'' writeInt32]),
      (- 874308058, [wf ''_'' writeInt32]),
      (- 63531698, [wf ''_'' writeInt32]),
      (- 1995211763, [wf ''_'' writeInt32]),
      (- 1954007928, [wf ''_'' writeInt32]),
      (- 1713143702, [wf ''_'' writeInt32]),
      (- 368907213, [wf ''_'' writeInt32]),
      (- 1289704741, [wf ''_'' writeInt32]),
      (- 1908627474, [wf ''_'' writeInt32])]"

definition TL_SecureValueType_table :: flag_table where
  "TL_SecureValueType_table =
     [(- 1658158621, []),
      (1034709504, []),
      (115615172, []),
      (- 1596951477, []),
      (- 1717268701, []),
      (- 874308058, []),
      (- 63531698, []),
      (- 1995211763, []),
      (- 1954007928, []),
      (- 1713143702, []),
      (- 368907213, []),
      (- 1289704741, []),
      (- 1908627474, [])]"

interpretation tl_SecureValueType: tl_codec readTLSecureValueType writeTLSecureValueType "enc_fobject TL_SecureValueType_table" "ok_fobject TL_SecureValueType_table"
  by (rule flag_schema_codec, unfold TL_SecureValueType_table_def, intro flag_tableI)
    (simp_all add: readTLSecureValueType_def writeTLSecureValueType_def flag_schema_simps)

definition readTLSecureValue :: tl_reader where
  "readTLSecureValue = read_object
     [(411017418, [rd ''flags'' readUInt32, rd ''type'' readTLSecureValueType,
         rd_if ''flags'' 0 ''data'' readTLSecureData,
         rd_if ''flags'' 1 ''front_side'' readTLSecureFile,
         rd_if ''flags'' 2 ''reverse_side'' readTLSecureFile,
         rd_if ''flags'' 3 ''selfie'' readTLSecureFile,
         rd_if ''flags'' 6 ''translation'' (readVector (Some readTLSecureFile)),
         rd_if ''flags'' 4 ''files'' (readVector (Some readTLSecureFile)),
         rd_if ''flags'' 5 ''plain_data'' readTLSecurePlainData, rd ''hash'' readByteArray])]"

definition writeTLSecureValue :: tl_writer where
  "writeTLSecureValue = write_fobject
     [(411017418, [wf ''_'' writeInt32, wf_flags ''flags'' [(''data'', 0), (''front_side'', 1),
         (''reverse_side'', 2), (''selfie'', 3), (''translation'', 6), (''files'', 4),
         (''plain_data'', 5)], wf ''type'' writeTLSecureValueType,
         wf_if ''flags'' 0 ''data'' writeTLSecureData,
         wf_if ''flags'' 1 ''front_side'' writeTLSecureFile,
         wf_if ''flags'' 2 ''reverse_side'' writeTLSecureFile,
         wf_if ''flags'' 3 ''selfie'' writeTLSecureFile,
         wf_if ''flags'' 6 ''translation'' (writeVector (Some writeTLSecureFile)),
         wf_if ''flags'' 4 ''files'' (writeVector (Some writeTLSecureFile)),
         wf_if ''flags'' 5 ''plain_data'' writeTLSecurePlainData, wf ''hash'' writeByteArray])]"

definition TL_SecureValue_table :: flag_table where
  "TL_SecureValue_table =
     [(411017418, [Flags ''flags'' [(''data'', 0), (''front_side'', 1), (''reverse_side'', 2),
         (''selfie'', 3), (''translation'', 6), (''files'', 4), (''plain_data'', 5)],
        Plain (''type'', readTLSecureValueType, writeTLSecureValueType,
         enc_fobject TL_SecureValueType_table, ok_fobject TL_SecureValueType_table),
        Cond ''flags'' 0 (''data'', readTLSecureData, writeTLSecureData,
         enc_fobject TL_SecureData_table, ok_fobject TL_SecureData_table),
        Cond ''flags'' 1 (''front_side'', readTLSecureFile, writeTLSecureFile,
         enc_fobject TL_SecureFile_table, ok_fobject TL_SecureFile_table),
        Cond ''flags'' 2 (''reverse_side'', readTLSecureFile, writeTLSecureFile,
         enc_fobject TL_SecureFile_table, ok_fobject TL_SecureFile_table),
        Cond ''flags'' 3 (''selfie'', readTLSecureFile, writeTLSecureFile,
         enc_fobject TL_SecureFile_table, ok_fobject TL_SecureFile_table),
        Cond ''flags'' 6 (''translation'', readVector (Some readTLSecureFile),
         writeVector (Some writeTLSecureFile), enc_vector (enc_fobject TL_SecureFile_table),
         ok_vector (ok_fobject TL_SecureFile_table)),
        Cond ''flags'' 4 (''files'', readVector (Some readTLSecureFile),
         writeVector (Some writeTLSecureFile), enc_vector (enc_fobject TL_SecureFile_table),
         ok_vector (ok_fobject TL_SecureFile_table)),
        Cond ''flags'' 5 (''plain_data'', readTLSecurePlainData, writeTLSecurePlainData,
         enc_fobject TL_SecurePlainData_table, ok_fobject TL_SecurePlainData_table),
        Plain (''hash'', readByteArray, writeByteArray, enc_bytes, is_short_bytes)])]"

interpretation tl_SecureValue: tl_codec readTLSecureValue writeTLSecureValue "enc_fobject TL_SecureValue_table" "ok_fobject TL_SecureValue_table"
  by (rule flag_schema_codec, unfold TL_SecureValue_table_def, intro flag_tableI)
    (simp_all add: readTLSecureValue_def writeTLSecureValue_def flag_schema_simps tl_SecureValueType.tl_codec_axioms tl_SecureValueType.vector_codec tl_SecureData.tl_codec_axioms tl_SecureData.vector_codec tl_SecureFile.tl_codec_axioms tl_SecureFile.vector_codec tl_SecurePlainData.tl_codec_axioms tl_SecurePlainData.vector_codec)

definition readTLInputSecureValue :: tl_reader where
  "readTLInputSecureValue = read_object
     [(- 618540889, [rd ''flags'' readUInt32, rd ''type'' readTLSecureValueType,
         rd_if ''flags'' 0 ''data'' readTLSecureData,
         rd_if ''flags'' 1 ''front_side'' readTLInputSecureFile,
         rd_if ''flags'' 2 ''reverse_side'' readTLInputSecureFile,
         rd_if ''flags'' 3 ''selfie'' readTLInputSecureFile,
         rd_if ''flags'' 6 ''translation'' (readVector (Some readTLInputSecureFile)),
         rd_if ''flags'' 4 ''files'' (readVector (Some readTLInputSecureFile)),
         rd_if ''flags'' 5 ''plain_data'' readTLSecurePlainData])]"

definition writeTLInputSecureValue :: tl_writer where
  "writeTLInputSecureValue = write_fobject
     [(- 618540889, [wf ''_'' writeInt32, wf_flags ''flags'' [(''data'', 0), (''front_side'', 1),
         (''reverse_side'', 2), (''selfie'', 3), (''translation'', 6), (''files'', 4),
         (''plain_data'', 5)], wf ''type'' writeTLSecureValueType,
         wf_if ''flags'' 0 ''data'' writeTLSecureData,
         wf_if ''flags'' 1 ''front_side'' writeTLInputSecureFile,
         wf_if ''flags'' 2 ''reverse_side'' writeTLInputSecureFile,
         wf_if ''flags'' 3 ''selfie'' writeTLInputSecureFile,
         wf_if ''flags'' 6 ''translation'' (writeVector (Some writeTLInputSecureFile)),
         wf_if ''flags'' 4 ''files'' (writeVector (Some writeTLInputSecureFile)),
         wf_if ''flags'' 5 ''plain_data'' writeTLSecurePlainData])]"

definition TL_InputSecureValue_table :: flag_table where
  "TL_InputSecureValue_table =
     [(- 618540889, [Flags ''flags'' [(''data'', 0), (''front_side'', 1), (''reverse_side'', 2),
         (''selfie'', 3), (''translation'', 6), (''files'', 4), (''plain_data'', 5)],
        Plain (''type'', readTLSecureValueType, writeTLSecureValueType,
         enc_fobject TL_SecureValueType_table, ok_fobject TL_SecureValueType_table),
        Cond ''flags'' 0 (''data'', readTLSecureData, writeTLSecureData,
         enc_fobject TL_SecureData_table, ok_fobject TL_SecureData_table),
        Cond ''flags'' 1 (''front_side'', readTLInputSecureFile, writeTLInputSecureFile,
         enc_fobject TL_InputSecureFile_table, ok_fobject TL_InputSecureFile_table),
        Cond ''flags'' 2 (''reverse_side'', readTLInputSecureFile, writeTLInputSecureFile,
         enc_fobject TL_InputSecureFile_table, ok_fobject TL_InputSecureFile_table),
        Cond ''flags'' 3 (''selfie'', readTLInputSecureFile, writeTLInputSecureFile,
         enc_fobject TL_InputSecureFile_table, ok_fobject TL_InputSecureFile_table),
        Cond ''flags'' 6 (''translation'', readVector (Some readTLInputSecureFile),
         writeVector (Some writeTLInputSecureFile),
         enc_vector (enc_fobject TL_InputSecureFile_table),
         ok_vector (ok_fobject TL_InputSecureFile_table)),
        Cond ''flags'' 4 (''files'', readVector (Some readTLInputSecureFile),
         writeVector (Some writeTLInputSecureFile),
         enc_vector (enc_fobject TL_InputSecureFile_table),
         ok_vector (ok_fobject TL_InputSecureFile_table)),
        Cond ''flags'' 5 (''plain_data'', readTLSecurePlainData, writeTLSecurePlainData,
         enc_fobject TL_SecurePlainData_table, ok_fobject TL_SecurePlainData_table)])]"

interpretation tl_InputSecureValue: tl_codec readTLInputSecureValue writeTLInputSecureValue "enc_fobject TL_InputSecureValue_table" "ok_fobject TL_InputSecureValue_table"
  by (rule flag_schema_codec, unfold TL_InputSecureValue_table_def, intro flag_tableI)
    (simp_all add: readTLInputSecureValue_def writeTLInputSecureValue_def flag_schema_simps tl_SecureValueType.tl_codec_axioms tl_SecureValueType.vector_codec tl_SecureData.tl_codec_axioms tl_SecureData.vector_codec tl_InputSecureFile.tl_codec_axioms tl_InputSecureFile.vector_codec tl_SecurePlainData.tl_codec_axioms tl_SecurePlainData.vector_codec)

definition readTLSecureValueHash :: tl_reader where
  "readTLSecureValueHash = read_object
     [(- 316748368, [rd ''type'' readTLSecureValueType, rd ''hash'' readByteArray])]"

definition writeTLSecureValueHash :: tl_writer where
  "writeTLSecureValueHash = write_fobject
     [(- 316748368, [wf ''_'' writeInt32, wf ''type'' writeTLSecureValueType,
         wf ''hash'' writeByteArray])]"

definition TL_SecureValueHash_table :: flag_table where
  "TL_SecureValueHash_table =
     [(- 316748368, [Plain (''type'', readTLSecureValueType, writeTLSecureValueType,
         enc_fobject TL_SecureValueType_table, ok_fobject TL_SecureValueType_table),
        Plain (''hash'', readByteArray, writeByteArray, enc_bytes, is_short_bytes)])]"

interpretation tl_SecureValueHash: tl_codec readTLSecureValueHash writeTLSecureValueHash "enc_fobject TL_SecureValueHash_table" "ok_fobject TL_SecureValueHash_table"
  by (rule flag_schema_codec, unfold TL_SecureValueHash_table_def, intro flag_tableI)
    (simp_all add: readTLSecureValueHash_def writeTLSecureValueHash_def flag_schema_simps tl_SecureValueType.tl_codec_axioms)

definition readTLSecureValueError :: tl_reader where
  "readTLSecureValueError = read_object
     [(- 391902247, [rd ''type'' readTLSecureValueType, rd ''data_hash'' readByteArray,
         rd ''field'' readString, rd ''text'' readString]),
      (12467706, [rd ''type'' readTLSecureValueType, rd ''file_hash'' readByteArray,
         rd ''text'' readString]),
      (- 2037765467, [rd ''type'' readTLSecureValueType, rd ''file_hash'' readByteArray,
         rd ''text'' readString]),
      (- 449327402, [rd ''type'' readTLSecureValueType, rd ''file_hash'' readByteArray,
         rd ''text'' readString]),
      (2054162547, [rd ''type'' readTLSecureValueType, rd ''file_hash'' readByteArray,
         rd ''text'' readString]),
      (1717706985, [rd ''type'' readTLSecureValueType,
         rd ''file_hash'' (readVector (Some readByteArray)), rd ''text'' readString]),
      (- 2036501105, [rd ''type'' readTLSecureValueType, rd ''hash'' readByteArray,
         rd ''text'' readString]),
      (- 1592506512, [rd ''type'' readTLSecureValueType, rd ''file_hash'' readByteArray,
         rd ''text'' readString]),
      (878931416, [rd ''type'' readTLSecureValueType,
         rd ''file_hash'' (readVector (Some readByteArray)), rd ''text'' readString])]"

definition writeTLSecureValueError :: tl_writer where
  "writeTLSecureValueError = write_fobject
     [(- 391902247, [wf ''_'' writeInt32, wf ''type'' writeTLSecureValueType,
         wf ''data_hash'' writeByteArray, wf ''field'' writeString, wf ''text'' writeString]),
      (12467706, [wf ''_'' writeInt32, wf ''type'' writeTLSecureValueType,
         wf ''file_hash'' writeByteArray, wf ''text'' writeString]),
      (- 2037765467, [wf ''_'' writeInt32, wf ''type'' writeTLSecureValueType,
         wf ''file_hash'' writeByteArray, wf ''text'' writeString]),
      (- 449327402, [wf ''_'' writeInt32, wf ''type'' writeTLSecureValueType,
         wf ''file_hash'' writeByteArray, wf ''text'' writeString]),
      (2054162547, [wf ''_'' writeInt32, wf ''type'' writeTLSecureValueType,
         wf ''file_hash'' writeByteArray, wf ''text'' writeString]),
      (1717706985, [wf ''_'' writeInt32, wf ''type'' writeTLSecureValueType,
         wf ''file_hash'' (writeVector (Some writeByteArray)), wf ''text'' writeString]),
      (- 2036501105, [wf ''_'' writeInt32, wf ''type'' writeTLSecureValueType,
         wf ''hash'' writeByteArray, wf ''text'' writeString]),
      (- 1592506512, [wf ''_'' writeInt32, wf ''type'' writeTLSecureValueType,
         wf ''file_hash'' writeByteArray, wf ''text'' writeString]),
      (878931416, [wf ''_'' writeInt32, wf ''type'' writeTLSecureValueType,
         wf ''file_hash'' (writeVector (Some writeByteArray)), wf ''text'' writeString])]"

definition TL_SecureValueError_table :: flag_table where
  "TL_SecureValueError_table =
     [(- 391902247, [Plain (''type'', readTLSecureValueType, writeTLSecureValueType,
         enc_fobject TL_SecureValueType_table, ok_fobject TL_SecureValueType_table),
        Plain (''data_hash'', readByteArray, writeByteArray, enc_bytes, is_short_bytes),
        Plain (''field'', readString, writeString, enc_string, is_short_text),
        Plain (''text'', readString, writeString, enc_string, is_short_text)]),
      (12467706, [Plain (''type'', readTLSecureValueType, writeTLSecureValueType,
         enc_fobject TL_SecureValueType_table, ok_fobject TL_SecureValueType_table),
        Plain (''file_hash'', readByteArray, writeByteArray, enc_bytes, is_short_bytes),
        Plain (''text'', readString, writeString, enc_string, is_short_text)]),
      (- 2037765467, [Plain (''type'', readTLSecureValueType, writeTLSecureValueType,
         enc_fobject TL_SecureValueType_table, ok_fobject TL_SecureValueType_table),
        Plain (''file_hash'', readByteArray, writeByteArray, enc_bytes, is_short_bytes),
        Plain (''text'', readString, writeString, enc_string, is_short_text)]),
      (- 449327402, [Plain (''type'', readTLSecureValueType, writeTLSecureValueType,
         enc_fobject TL_SecureValueType_table, ok_fobject TL_SecureValueType_table),
        Plain (''file_hash'', readByteArray, writeByteArray, enc_bytes, is_short_bytes),
        Plain (''text'', readString, writeString, enc_string, is_short_text)]),
      (2054162547, [Plain (''type'', readTLSecureValueType, writeTLSecureValueType,
         enc_fobject TL_SecureValueType_table, ok_fobject TL_SecureValueType_table),
        Plain (''file_hash'', readByteArray, writeByteArray, enc_bytes, is_short_bytes),
        Plain (''text'', readString, writeString, enc_string, is_short_text)]),
      (1717706985, [Plain (''type'', readTLSecureValueType, writeTLSecureValueType,
         enc_fobject TL_SecureValueType_table, ok_fobject TL_SecureValueType_table),
        Plain (''file_hash'', readVector (Some readByteArray), writeVector (Some writeByteArray),
         enc_vector enc_bytes, ok_vector is_short_bytes),
        Plain (''text'', readString, writeString, enc_string, is_short_text)]),
      (- 2036501105, [Plain (''type'', readTLSecureValueType, writeTLSecureValueType,
         enc_fobject TL_SecureValueType_table, ok_fobject TL_SecureValueType_table),
        Plain (''hash'', readByteArray, writeByteArray, enc_bytes, is_short_bytes),
        Plain (''text'', readString, writeString, enc_string, is_short_text)]),
      (- 1592506512, [Plain (''type'', readTLSecureValueType, writeTLSecureValueType,
         enc_fobject TL_SecureValueType_table, ok_fobject TL_SecureValueType_table),
        Plain (''file_hash'', readByteArray, writeByteArray, enc_bytes, is_short_bytes),
        Plain (''text'', readString, writeString, enc_string, is_short_text)]),
      (878931416, [Plain (''type'', readTLSecureValueType, writeTLSecureValueType,
         enc_fobject TL_SecureValueType_table, ok_fobject TL_SecureValueType_table),
        Plain (''file_hash'', readVector (Some readByteArray), writeVector (Some writeByteArray),
         enc_vector enc_bytes, ok_vector is_short_bytes),
        Plain (''text'', readString, writeString, enc_string, is_short_text)])]"

interpretation tl_SecureValueError: tl_codec readTLSecureValueError writeTLSecureValueError "enc_fobject TL_SecureValueError_table" "ok_fobject TL_SecureValueError_table"
  by (rule flag_schema_codec, unfold TL_SecureValueError_table_def, intro flag_tableI)
    (simp_all add: readTLSecureValueError_def writeTLSecureValueError_def flag_schema_simps tl_SecureValueType.tl_codec_axioms tl_SecureValueType.vector_codec)

definition readTLSecureCredentialsEncrypted :: tl_reader where
  "readTLSecureCredentialsEncrypted = read_object
     [(871426631, [rd ''data'' readByteArray, rd ''hash'' readByteArray,
         rd ''secret'' readByteArray])]"

definition writeTLSecureCredentialsEncrypted :: tl_writer where
  "writeTLSecureCredentialsEncrypted = write_fobject
     [(871426631, [wf ''_'' writeInt32, wf ''data'' writeByteArray, wf ''hash'' writeByteArray,
         wf ''secret'' writeByteArray])]"

definition TL_SecureCredentialsEncrypted_table :: flag_table where
  "TL_SecureCredentialsEncrypted_table =
     [(871426631, [Plain (''data'', readByteArray, writeByteArray, enc_bytes, is_short_bytes),
        Plain (''hash'', readByteArray, writeByteArray, enc_bytes, is_short_bytes),
        Plain (''secret'', readByteArray, writeByteArray, enc_bytes, is_short_bytes)])]"

interpretation tl_SecureCredentialsEncrypted: tl_codec readTLSecureCredentialsEncrypted writeTLSecureCredentialsEncrypted "enc_fobject TL_SecureCredentialsEncrypted_table" "ok_fobject TL_SecureCredentialsEncrypted_table"
  by (rule flag_schema_codec, unfold TL_SecureCredentialsEncrypted_table_def, intro flag_tableI)
    (simp_all add: readTLSecureCredentialsEncrypted_def writeTLSecureCredentialsEncrypted_def flag_schema_simps)

definition readTLAccountSentEmailCode :: tl_reader where
  "readTLAccountSentEmailCode = read_object
     [(- 2128640689, [rd ''email_pattern'' readString, rd ''length'' readInt32])]"

definition writeTLAccountSentEmailCode :: tl_writer where
  "writeTLAccountSentEmailCode = write_fobject
     [(- 2128640689, [wf ''_'' writeInt32, wf ''email_pattern'' writeString,
         wf ''length'' writeInt32])]"

definition TL_AccountSentEmailCode_table :: flag_table where
  "TL_AccountSentEmailCode_table =
     [(- 2128640689, [Plain (''email_pattern'', readString, writeString, enc_string, is_short_text),
        Plain (''length'', readInt32, writeInt32, enc_int32, is_VInt)])]"

interpretation tl_AccountSentEmailCode: tl_codec readTLAccountSentEmailCode writeTLAccountSentEmailCode "enc_fobject TL_AccountSentEmailCode_table" "ok_fobject TL_AccountSentEmailCode_table"
  by (rule flag_schema_codec, unfold TL_AccountSentEmailCode_table_def, intro flag_tableI)
    (simp_all add: readTLAccountSentEmailCode_def writeTLAccountSentEmailCode_def flag_schema_simps)

definition readTLHelpDeepLinkInfo :: tl_reader where
  "readTLHelpDeepLinkInfo = read_object
     [(1722786150, []),
      (1783556146, [rd ''flags'' readUInt32, set_if ''flags'' 0 ''update_app'',
         rd ''message'' readString,
         rd_if ''flags'' 1 ''entities'' (readVector (Some readTLMessageEntity))])]"

definition writeTLHelpDeepLinkInfo :: tl_writer where
  "writeTLHelpDeepLinkInfo = write_fobject
     [(1722786150, [wf ''_'' writeInt32]),
      (1783556146, [wf ''_'' writeInt32, wf_flags ''flags'' [(''update_app'', 0), (''entities'',
         1)], wf ''message'' writeString,
         wf_if ''flags'' 1 ''entities'' (writeVector (Some writeTLMessageEntity))])]"

definition TL_HelpDeepLinkInfo_table :: flag_table where
  "TL_HelpDeepLinkInfo_table =
     [(1722786150, []),
      (1783556146, [Flags ''flags'' [(''update_app'', 0), (''entities'', 1)],
        TrueBit ''flags'' 0 ''update_app'',
        Plain (''message'', readString, writeString, enc_string, is_short_text),
        Cond ''flags'' 1 (''entities'', readVector (Some readTLMessageEntity),
         writeVector (Some writeTLMessageEntity), enc_vector (enc_fobject TL_MessageEntity_table),
         ok_vector (ok_fobject TL_MessageEntity_table))])]"

interpretation tl_HelpDeepLinkInfo: tl_codec readTLHelpDeepLinkInfo writeTLHelpDeepLinkInfo "enc_fobject TL_HelpDeepLinkInfo_table" "ok_fobject TL_HelpDeepLinkInfo_table"
  by (rule flag_schema_codec, unfold TL_HelpDeepLinkInfo_table_def, intro flag_tableI)
    (simp_all add: readTLHelpDeepLinkInfo_def writeTLHelpDeepLinkInfo_def flag_schema_simps tl_MessageEntity.tl_codec_axioms tl_MessageEntity.vector_codec)

definition readTLSavedContact :: tl_reader where
  "readTLSavedContact = read_object
     [(289586518, [rd ''phone'' readString, rd ''first_name'' readString,
         rd ''last_name'' readString, rd ''date'' readInt32])]"

definition writeTLSavedContact :: tl_writer where
  "writeTLSavedContact = write_fobject
     [(289586518, [wf ''_'' writeInt32, wf ''phone'' writeString, wf ''first_name'' writeString,
         wf ''last_name'' writeString, wf ''date'' writeInt32])]"

definition TL_SavedContact_table :: flag_table where
  "TL_SavedContact_table =
     [(289586518, [Plain (''phone'', readString, writeString, enc_string, is_short_text),
        Plain (''first_name'', readString, writeString, enc_string, is_short_text),
        Plain (''last_name'', readString, writeString, enc_string, is_short_text),
        Plain (''date'', readInt32, writeInt32, enc_int32, is_VInt)])]"

interpretation tl_SavedContact: tl_codec readTLSavedContact writeTLSavedContact "enc_fobject TL_SavedContact_table" "ok_fobject TL_SavedContact_table"
  by (rule flag_schema_codec, unfold TL_SavedContact_table_def, intro flag_tableI)
    (simp_all add: readTLSavedContact_def writeTLSavedContact_def flag_schema_simps)

definition readTLAccountTakeout :: tl_reader where
  "readTLAccountTakeout = read_object
     [(1304052993, [rd ''id'' readInt64])]"

definition writeTLAccountTakeout :: tl_writer where
  "writeTLAccountTakeout = write_fobject
     [(1304052993, [wf ''_'' writeInt32, wf ''id'' writeInt64])]"

definition TL_AccountTakeout_table :: flag_table where
  "TL_AccountTakeout_table =
     [(1304052993, [Plain (''id'', readInt64, writeInt64, enc_int64, is_VLong)])]"

interpretation tl_AccountTakeout: tl_codec readTLAccountTakeout writeTLAccountTakeout "enc_fobject TL_AccountTakeout_table" "ok_fobject TL_AccountTakeout_table"
  by (rule flag_schema_codec, unfold TL_AccountTakeout_table_def, intro flag_tableI)
    (simp_all add: readTLAccountTakeout_def writeTLAccountTakeout_def flag_schema_simps)

definition readTLHelpPassportConfig :: tl_reader where
  "readTLHelpPassportConfig = read_object
     [(- 1078332329, []),
      (- 1600596305, [rd ''hash'' readInt32, rd ''countries_langs'' readTLDataJSON])]"

definition writeTLHelpPassportConfig :: tl_writer where
  "writeTLHelpPassportConfig = write_fobject
     [(- 1078332329, [wf ''_'' writeInt32]),
      (- 1600596305, [wf ''_'' writeInt32, wf ''hash'' writeInt32,
         wf ''countries_langs'' writeTLDataJSON])]"

definition TL_HelpPassportConfig_table :: flag_table where
  "TL_HelpPassportConfig_table =
     [(- 1078332329, []),
      (- 1600596305, [Plain (''hash'', readInt32, writeInt32, enc_int32, is_VInt),
        Plain (''countries_langs'', readTLDataJSON, writeTLDataJSON, enc_fobject TL_DataJSON_table,
         ok_fobject TL_DataJSON_table)])]"

interpretation tl_HelpPassportConfig: tl_codec readTLHelpPassportConfig writeTLHelpPassportConfig "enc_fobject TL_HelpPassportConfig_table" "ok_fobject TL_HelpPassportConfig_table"
  by (rule flag_schema_codec, unfold TL_HelpPassportConfig_table_def, intro flag_tableI)
    (simp_all add: readTLHelpPassportConfig_def writeTLHelpPassportConfig_def flag_schema_simps tl_DataJSON.tl_codec_axioms)

subsection \<open>The types since the last list at once\<close>

definition tl_types_part4 :: "(tl_reader \<times> tl_writer \<times> flag_table) list" where
  "tl_types_part4 =
     [(readTLInputPhoneCall, writeTLInputPhoneCall, TL_InputPhoneCall_table),
      (readTLPhoneCallProtocol, writeTLPhoneCallProtocol, TL_PhoneCallProtocol_table),
      (readTLPhoneConnection, writeTLPhoneConnection, TL_PhoneConnection_table),
      (readTLPhoneCall, writeTLPhoneCall, TL_PhoneCall_table),
      (readTLPhonePhoneCall, writeTLPhonePhoneCall, TL_PhonePhoneCall_table),
      (readTLUploadCdnFile, writeTLUploadCdnFile, TL_UploadCdnFile_table),
      (readTLCdnPublicKey, writeTLCdnPublicKey, TL_CdnPublicKey_table),
      (readTLCdnConfig, writeTLCdnConfig, TL_CdnConfig_table),
      (readTLLangPackString, writeTLLangPackString, TL_LangPackString_table),
      (readTLLangPackDifference, writeTLLangPackDifference, TL_LangPackDifference_table),
      (readTLLangPackLanguage, writeTLLangPackLanguage, TL_LangPackLanguage_table),
      (readTLChannelAdminLogEventsFilter, writeTLChannelAdminLogEventsFilter, TL_ChannelAdminLogEventsFilter_table),
      (readTLWebAuthorization, writeTLWebAuthorization, TL_WebAuthorization_table),
      (readTLAccountWebAuthorizations, writeTLAccountWebAuthorizations, TL_AccountWebAuthorizations_table),
      (readTLInputMessage, writeTLInputMessage, TL_InputMessage_table),
      (readTLInputDialogPeer, writeTLInputDialogPeer, TL_InputDialogPeer_table),
      (readTLDialogPeer, writeTLDialogPeer, TL_DialogPeer_table),
      (readTLInputClientProxy, writeTLInputClientProxy, TL_InputClientProxy_table),
      (readTLHelpTermsOfServiceUpdate, writeTLHelpTermsOfServiceUpdate, TL_HelpTermsOfServiceUpdate_table),
      (readTLInputSecureFile, writeTLInputSecureFile, TL_InputSecureFile_table),
      (readTLSecureFile, writeTLSecureFile, TL_SecureFile_table),
      (readTLSecureData, writeTLSecureData, TL_SecureData_table),
      (readTLSecurePlainData, writeTLSecurePlainData, TL_SecurePlainData_table),
      (readTLSecureValueType, writeTLSecureValueType, TL_SecureValueType_table),
      (readTLSecureValue, writeTLSecureValue, TL_SecureValue_table),
      (readTLInputSecureValue, writeTLInputSecureValue, TL_InputSecureValue_table),
      (readTLSecureValueHash, writeTLSecureValueHash, TL_SecureValueHash_table),
      (readTLSecureValueError, writeTLSecureValueError, TL_SecureValueError_table),
      (readTLSecureCredentialsEncrypted, writeTLSecureCredentialsEncrypted, TL_SecureCredentialsEncrypted_table),
      (readTLAccountSentEmailCode, writeTLAccountSentEmailCode, TL_AccountSentEmailCode_table),
      (readTLHelpDeepLinkInfo, writeTLHelpDeepLinkInfo, TL_HelpDeepLinkInfo_table),
      (readTLSavedContact, writeTLSavedContact, TL_SavedContact_table),
      (readTLAccountTakeout, writeTLAccountTakeout, TL_AccountTakeout_table),
      (readTLHelpPassportConfig, writeTLHelpPassportConfig, TL_HelpPassportConfig_table)]"

lemma tl_types_part4_codec: "(R, W, t) \<in> set tl_types_part4 \<Longrightarrow> tl_codec R W (enc_fobject t) (ok_fobject t)"
  by (auto simp: tl_types_part4_def
      intro: tl_InputPhoneCall.tl_codec_axioms tl_PhoneCallProtocol.tl_codec_axioms
         tl_PhoneConnection.tl_codec_axioms tl_PhoneCall.tl_codec_axioms
         tl_PhonePhoneCall.tl_codec_axioms tl_UploadCdnFile.tl_codec_axioms
         tl_CdnPublicKey.tl_codec_axioms tl_CdnConfig.tl_codec_axioms
         tl_LangPackString.tl_codec_axioms tl_LangPackDifference.tl_codec_axioms
         tl_LangPackLanguage.tl_codec_axioms tl_ChannelAdminLogEventsFilter.tl_codec_axioms
         tl_WebAuthorization.tl_codec_axioms tl_AccountWebAuthorizations.tl_codec_axioms
         tl_InputMessage.tl_codec_axioms tl_InputDialogPeer.tl_codec_axioms
         tl_DialogPeer.tl_codec_axioms tl_InputClientProxy.tl_codec_axioms
         tl_HelpTermsOfServiceUpdate.tl_codec_axioms tl_InputSecureFile.tl_codec_axioms
         tl_SecureFile.tl_codec_axioms tl_SecureData.tl_codec_axioms
         tl_SecurePlainData.tl_codec_axioms tl_SecureValueType.tl_codec_axioms
         tl_SecureValue.tl_codec_axioms tl_InputSecureValue.tl_codec_axioms
         tl_SecureValueHash.tl_codec_axioms tl_SecureValueError.tl_codec_axioms
         tl_SecureCredentialsEncrypted.tl_codec_axioms tl_AccountSentEmailCode.tl_codec_axioms
         tl_HelpDeepLinkInfo.tl_codec_axioms tl_SavedContact.tl_codec_axioms
         tl_AccountTakeout.tl_codec_axioms tl_HelpPassportConfig.tl_codec_axioms)

definition readTLPageRelatedArticle :: tl_reader where
  "readTLPageRelatedArticle = read_object
     [(- 1282352120, [rd ''flags'' readUInt32, rd ''url'' readString, rd ''webpage_id'' readInt64,
         rd_if ''flags'' 0 ''title'' readString, rd_if ''flags'' 1 ''description'' readString,
         rd_if ''flags'' 2 ''photo_id'' readInt64, rd_if ''flags'' 3 ''author'' readString,
         rd_if ''flags'' 4 ''published_date'' readInt32])]"

definition writeTLPageRelatedArticle :: tl_writer where
  "writeTLPageRelatedArticle = write_fobject
     [(- 1282352120, [wf ''_'' writeInt32, wf_flags ''flags'' [(''title'', 0), (''description'',
         1), (''photo_id'', 2), (''author'', 3), (''published_date'', 4)], wf ''url'' writeString,
         wf ''webpage_id'' writeInt64, wf_if ''flags'' 0 ''title'' writeString,
         wf_if ''flags'' 1 ''description'' writeString, wf_if ''flags'' 2 ''photo_id'' writeInt64,
         wf_if ''flags'' 3 ''author'' writeString,
         wf_if ''flags'' 4 ''published_date'' writeInt32])]"

definition TL_PageRelatedArticle_table :: flag_table where
  "TL_PageRelatedArticle_table =
     [(- 1282352120, [Flags ''flags'' [(''title'', 0), (''description'', 1), (''photo_id'', 2),
         (''author'', 3), (''published_date'', 4)],
        Plain (''url'', readString, writeString, enc_string, is_short_text),
        Plain (''webpage_id'', readInt64, writeInt64, enc_int64, is_VLong),
        Cond ''flags'' 0 (''title'', readString, writeString, enc_string, is_short_text),
        Cond ''flags'' 1 (''description'', readString, writeString, enc_string, is_short_text),
        Cond ''flags'' 2 (''photo_id'', readInt64, writeInt64, enc_int64, is_VLong),
        Cond ''flags'' 3 (''author'', readString, writeString, enc_string, is_short_text),
        Cond ''flags'' 4 (''published_date'', readInt32, writeInt32, enc_int32, is_VInt)])]"

interpretation tl_PageRelatedArticle: tl_codec readTLPageRelatedArticle writeTLPageRelatedArticle "enc_fobject TL_PageRelatedArticle_table" "ok_fobject TL_PageRelatedArticle_table"
  by (rule flag_schema_codec, unfold TL_PageRelatedArticle_table_def, intro flag_tableI)
    (simp_all add: readTLPageRelatedArticle_def writeTLPageRelatedArticle_def flag_schema_simps)

definition readTLHelpSupportName :: tl_reader where
  "readTLHelpSupportName = read_object
     [(- 1945767479, [rd ''name'' readString])]"

definition writeTLHelpSupportName :: tl_writer where
  "writeTLHelpSupportName = write_fobject
     [(- 1945767479, [wf ''_'' writeInt32, wf ''name'' writeString])]"

definition TL_HelpSupportName_table :: flag_table where
  "TL_HelpSupportName_table =
     [(- 1945767479, [Plain (''name'', readString, writeString, enc_string, is_short_text)])]"

interpretation tl_HelpSupportName: tl_codec readTLHelpSupportName writeTLHelpSupportName "enc_fobject TL_HelpSupportName_table" "ok_fobject TL_HelpSupportName_table"
  by (rule flag_schema_codec, unfold TL_HelpSupportName_table_def, intro flag_tableI)
    (simp_all add: readTLHelpSupportName_def writeTLHelpSupportName_def flag_schema_simps)

definition readTLHelpUserInfo :: tl_reader where
  "readTLHelpUserInfo = read_object
     [(- 206688531, []),
      (32192344, [rd ''message'' readString,
         rd ''entities'' (readVector (Some readTLMessageEntity)), rd ''author'' readString,
         rd ''date'' readInt32])]"

definition writeTLHelpUserInfo :: tl_writer where
  "writeTLHelpUserInfo = write_fobject
     [(- 206688531, [wf ''_'' writeInt32]),
      (32192344, [wf ''_'' writeInt32, wf ''message'' writeString,
         wf ''entities'' (writeVector (Some writeTLMessageEntity)), wf ''author'' writeString,
         wf ''date'' writeInt32])]"

definition TL_HelpUserInfo_table :: flag_table where
  "TL_HelpUserInfo_table =
     [(- 206688531, []),
      (32192344, [Plain (''message'', readString, writeString, enc_string, is_short_text),
        Plain (''entities'', readVector (Some readTLMessageEntity),
         writeVector (Some writeTLMessageEntity), enc_vector (enc_fobject TL_MessageEntity_table),
         ok_vector (ok_fobject TL_MessageEntity_table)),
        Plain (''author'', readString, writeString, enc_string, is_short_text),
        Plain (''date'', readInt32, writeInt32, enc_int32, is_VInt)])]"

interpretation tl_HelpUserInfo: tl_codec readTLHelpUserInfo writeTLHelpUserInfo "enc_fobject TL_HelpUserInfo_table" "ok_fobject TL_HelpUserInfo_table"
  by (rule flag_schema_codec, unfold TL_HelpUserInfo_table_def, intro flag_tableI)
    (simp_all add: readTLHelpUserInfo_def writeTLHelpUserInfo_def flag_schema_simps tl_MessageEntity.tl_codec_axioms tl_MessageEntity.vector_codec)

definition readTLPollAnswerVoters :: tl_reader where
  "readTLPollAnswerVoters = read_object
     [(910500618, [rd ''flags'' readUInt32, set_if ''flags'' 0 ''chosen'',
         set_if ''flags'' 1 ''correct'', rd ''option'' readByteArray,
         rd_if ''flags'' 2 ''voters'' readInt32,
         rd_if ''flags'' 2 ''recent_voters'' (readVector (Some readTLPeer))])]"

definition writeTLPollAnswerVoters :: tl_writer where
  "writeTLPollAnswerVoters = write_fobject
     [(910500618, [wf ''_'' writeInt32, wf_flags ''flags'' [(''chosen'', 0), (''correct'', 1),
         (''voters'', 2), (''recent_voters'', 2)], wf ''option'' writeByteArray,
         wf_if ''flags'' 2 ''voters'' writeInt32,
         wf_if ''flags'' 2 ''recent_voters'' (writeVector (Some writeTLPeer))])]"

definition TL_PollAnswerVoters_table :: flag_table where
  "TL_PollAnswerVoters_table =
     [(910500618, [Flags ''flags'' [(''chosen'', 0), (''correct'', 1), (''voters'', 2),
         (''recent_voters'', 2)],
        TrueBit ''flags'' 0 ''chosen'',
        TrueBit ''flags'' 1 ''correct'',
        Plain (''option'', readByteArray, writeByteArray, enc_bytes, is_short_bytes),
        Cond ''flags'' 2 (''voters'', readInt32, writeInt32, enc_int32, is_VInt),
        Cond ''flags'' 2 (''recent_voters'', readVector (Some readTLPeer),
         writeVector (Some writeTLPeer), enc_vector (enc_fobject TL_Peer_table),
         ok_vector (ok_fobject TL_Peer_table))])]"

interpretation tl_PollAnswerVoters: tl_codec readTLPollAnswerVoters writeTLPollAnswerVoters "enc_fobject TL_PollAnswerVoters_table" "ok_fobject TL_PollAnswerVoters_table"
  by (rule flag_schema_codec, unfold TL_PollAnswerVoters_table_def, intro flag_tableI)
    (simp_all add: readTLPollAnswerVoters_def writeTLPollAnswerVoters_def flag_schema_simps tl_Peer.tl_codec_axioms tl_Peer.vector_codec)

definition readTLChatOnlines :: tl_reader where
  "readTLChatOnlines = read_object
     [(- 264117680, [rd ''onlines'' readInt32])]"

definition writeTLChatOnlines :: tl_writer where
  "writeTLChatOnlines = write_fobject
     [(- 264117680, [wf ''_'' writeInt32, wf ''onlines'' writeInt32])]"

definition TL_ChatOnlines_table :: flag_table where
  "TL_ChatOnlines_table =
     [(- 264117680, [Plain (''onlines'', readInt32, writeInt32, enc_int32, is_VInt)])]"

interpretation tl_ChatOnlines: tl_codec readTLChatOnlines writeTLChatOnlines "enc_fobject TL_ChatOnlines_table" "ok_fobject TL_ChatOnlines_table"
  by (rule flag_schema_codec, unfold TL_ChatOnlines_table_def, intro flag_tableI)
    (simp_all add: readTLChatOnlines_def writeTLChatOnlines_def flag_schema_simps)

definition readTLStatsURL :: tl_reader where
  "readTLStatsURL = read_object
     [(1202287072, [rd ''url'' readString])]"

definition writeTLStatsURL :: tl_writer where
  "writeTLStatsURL = write_fobject
     [(1202287072, [wf ''_'' writeInt32, wf ''url'' writeString])]"

definition TL_StatsURL_table :: flag_table where
  "TL_StatsURL_table =
     [(1202287072, [Plain (''url'', readString, writeString, enc_string, is_short_text)])]"

interpretation tl_StatsURL: tl_codec readTLStatsURL writeTLStatsURL "enc_fobject TL_StatsURL_table" "ok_fobject TL_StatsURL_table"
  by (rule flag_schema_codec, unfold TL_StatsURL_table_def, intro flag_tableI)
    (simp_all add: readTLStatsURL_def writeTLStatsURL_def flag_schema_simps)

definition readTLInputWallPaper :: tl_reader where
  "readTLInputWallPaper = read_object
     [(- 433014407, [rd ''id'' readInt64, rd ''access_hash'' readInt64]),
      (1913199744, [rd ''slug'' readString]),
      (- 1770371538, [rd ''id'' readInt64])]"

definition writeTLInputWallPaper :: tl_writer where
  "writeTLInputWallPaper = write_fobject
     [(- 433014407, [wf ''_'' writeInt32, wf ''id'' writeInt64, wf ''access_hash'' writeInt64]),
      (1913199744, [wf ''_'' writeInt32, wf ''slug'' writeString]),
      (- 1770371538, [wf ''_'' writeInt32, wf ''id'' writeInt64])]"

definition TL_InputWallPaper_table :: flag_table where
  "TL_InputWallPaper_table =
     [(- 433014407, [Plain (''id'', readInt64, writeInt64, enc_int64, is_VLong),
        Plain (''access_hash'', readInt64, writeInt64, enc_int64, is_VLong)]),
      (1913199744, [Plain (''slug'', readString, writeString, enc_string, is_short_text)]),
      (- 1770371538, [Plain (''id'', readInt64, writeInt64, enc_int64, is_VLong)])]"

interpretation tl_InputWallPaper: tl_codec readTLInputWallPaper writeTLInputWallPaper "enc_fobject TL_InputWallPaper_table" "ok_fobject TL_InputWallPaper_table"
  by (rule flag_schema_codec, unfold TL_InputWallPaper_table_def, intro flag_tableI)
    (simp_all add: readTLInputWallPaper_def writeTLInputWallPaper_def flag_schema_simps)

definition readTLWallPaperSettings :: tl_reader where
  "readTLWallPaperSettings = read_object
     [(925826256, [rd ''flags'' readUInt32, set_if ''flags'' 1 ''blur'',
         set_if ''flags'' 2 ''motion'', rd_if ''flags'' 0 ''background_color'' readInt32,
         rd_if ''flags'' 4 ''second_background_color'' readInt32,
         rd_if ''flags'' 5 ''third_background_color'' readInt32,
         rd_if ''flags'' 6 ''fourth_background_color'' readInt32,
         rd_if ''flags'' 3 ''intensity'' readInt32, rd_if ''flags'' 4 ''rotation'' readInt32,
         rd_if ''flags'' 7 ''emoticon'' readString])]"

definition writeTLWallPaperSettings :: tl_writer where
  "writeTLWallPaperSettings = write_fobject
     [(925826256, [wf ''_'' writeInt32, wf_flags ''flags'' [(''blur'', 1), (''motion'', 2),
         (''background_color'', 0), (''second_background_color'', 4), (''third_background_color'',
         5), (''fourth_background_color'', 6), (''intensity'', 3), (''rotation'', 4),
         (''emoticon'', 7)], wf_if ''flags'' 0 ''background_color'' writeInt32,
         wf_if ''flags'' 4 ''second_background_color'' writeInt32,
         wf_if ''flags'' 5 ''third_background_color'' writeInt32,
         wf_if ''flags'' 6 ''fourth_background_color'' writeInt32,
         wf_if ''flags'' 3 ''intensity'' writeInt32, wf_if ''flags'' 4 ''rotation'' writeInt32,
         wf_if ''flags'' 7 ''emoticon'' writeString])]"

definition TL_WallPaperSettings_table :: flag_table where
  "TL_WallPaperSettings_table =
     [(925826256, [Flags ''flags'' [(''blur'', 1), (''motion'', 2), (''background_color'', 0),
         (''second_background_color'', 4), (''third_background_color'', 5),
         (''fourth_background_color'', 6), (''intensity'', 3), (''rotation'', 4), (''emoticon'',
         7)],
        TrueBit ''flags'' 1 ''blur'',
        TrueBit ''flags'' 2 ''motion'',
        Cond ''flags'' 0 (''background_color'', readInt32, writeInt32, enc_int32, is_VInt),
        Cond ''flags'' 4 (''second_background_color'', readInt32, writeInt32, enc_int32, is_VInt),
        Cond ''flags'' 5 (''third_background_color'', readInt32, writeInt32, enc_int32, is_VInt),
        Cond ''flags'' 6 (''fourth_background_color'', readInt32, writeInt32, enc_int32, is_VInt),
        Cond ''flags'' 3 (''intensity'', readInt32, writeInt32, enc_int32, is_VInt),
        Cond ''flags'' 4 (''rotation'', readInt32, writeInt32, enc_int32, is_VInt),
        Cond ''flags'' 7 (''emoticon'', readString, writeString, enc_string, is_short_text)])]"

interpretation tl_WallPaperSettings: tl_codec readTLWallPaperSettings writeTLWallPaperSettings "enc_fobject TL_WallPaperSettings_table" "ok_fobject TL_WallPaperSettings_table"
  by (rule flag_schema_codec, unfold TL_WallPaperSettings_table_def, intro flag_tableI)
    (simp_all add: readTLWallPaperSettings_def writeTLWallPaperSettings_def flag_schema_simps)

definition readTLAutoDownloadSettings :: tl_reader where
  "readTLAutoDownloadSettings = read_object
     [(- 1163561432, [rd ''flags'' readUInt32, set_if ''flags'' 0 ''disabled'',
         set_if ''flags'' 1 ''video_preload_large'', set_if ''flags'' 2 ''audio_preload_next'',
         set_if ''flags'' 3 ''phonecalls_less_data'', set_if ''flags'' 4 ''stories_preload'',
         rd ''photo_size_max'' readInt32, rd ''video_size_max'' readInt64,
         rd ''file_size_max'' readInt64, rd ''video_upload_maxbitrate'' readInt32,
         rd ''small_queue_active_operations_max'' readInt32,
         rd ''large_queue_active_operations_max'' readInt32])]"

definition writeTLAutoDownloadSettings :: tl_writer where
  "writeTLAutoDownloadSettings = write_fobject
     [(- 1163561432, [wf ''_'' writeInt32, wf_flags ''flags'' [(''disabled'', 0),
         (''video_preload_large'', 1), (''audio_preload_next'', 2), (''phonecalls_less_data'', 3),
         (''stories_preload'', 4)], wf ''photo_size_max'' writeInt32,
         wf ''video_size_max'' writeInt64, wf ''file_size_max'' writeInt64,
         wf ''video_upload_maxbitrate'' writeInt32,
         wf ''small_queue_active_operations_max'' writeInt32,
         wf ''large_queue_active_operations_max'' writeInt32])]"

definition TL_AutoDownloadSettings_table :: flag_table where
  "TL_AutoDownloadSettings_table =
     [(- 1163561432, [Flags ''flags'' [(''disabled'', 0), (''video_preload_large'', 1),
         (''audio_preload_next'', 2), (''phonecalls_less_data'', 3), (''stories_preload'', 4)],
        TrueBit ''flags'' 0 ''disabled'',
        TrueBit ''flags'' 1 ''video_preload_large'',
        TrueBit ''flags'' 2 ''audio_preload_next'',
        TrueBit ''flags'' 3 ''phonecalls_less_data'',
        TrueBit ''flags'' 4 ''stories_preload'',
        Plain (''photo_size_max'', readInt32, writeInt32, enc_int32, is_VInt),
        Plain (''video_size_max'', readInt64, writeInt64, enc_int64, is_VLong),
        Plain (''file_size_max'', readInt64, writeInt64, enc_int64, is_VLong),
        Plain (''video_upload_maxbitrate'', readInt32, writeInt32, enc_int32, is_VInt),
        Plain (''small_queue_active_operations_max'', readInt32, writeInt32, enc_int32, is_VInt),
        Plain (''large_queue_active_operations_max'', readInt32, writeInt32, enc_int32, is_VInt)])]"

interpretation tl_AutoDownloadSettings: tl_codec readTLAutoDownloadSettings writeTLAutoDownloadSettings "enc_fobject TL_AutoDownloadSettings_table" "ok_fobject TL_AutoDownloadSettings_table"
  by (rule flag_schema_codec, unfold TL_AutoDownloadSettings_table_def, intro flag_tableI)
    (simp_all add: readTLAutoDownloadSettings_def writeTLAutoDownloadSettings_def flag_schema_simps)

definition readTLAccountAutoDownloadSettings :: tl_reader where
  "readTLAccountAutoDownloadSettings = read_object
     [(1674235686, [rd ''low'' readTLAutoDownloadSettings,
         rd ''medium'' readTLAutoDownloadSettings, rd ''high'' readTLAutoDownloadSettings])]"

definition writeTLAccountAutoDownloadSettings :: tl_writer where
  "writeTLAccountAutoDownloadSettings = write_fobject
     [(1674235686, [wf ''_'' writeInt32, wf ''low'' writeTLAutoDownloadSettings,
         wf ''medium'' writeTLAutoDownloadSettings, wf ''high'' writeTLAutoDownloadSettings])]"

definition TL_AccountAutoDownloadSettings_table :: flag_table where
  "TL_AccountAutoDownloadSettings_table =
     [(1674235686, [Plain (''low'', readTLAutoDownloadSettings, writeTLAutoDownloadSettings,
         enc_fobject TL_AutoDownloadSettings_table, ok_fobject TL_AutoDownloadSettings_table),
        Plain (''medium'', readTLAutoDownloadSettings, writeTLAutoDownloadSettings,
         enc_fobject TL_AutoDownloadSettings_table, ok_fobject TL_AutoDownloadSettings_table),
        Plain (''high'', readTLAutoDownloadSettings, writeTLAutoDownloadSettings,
         enc_fobject TL_AutoDownloadSettings_table, ok_fobject TL_AutoDownloadSettings_table)])]"

interpretation tl_AccountAutoDownloadSettings: tl_codec readTLAccountAutoDownloadSettings writeTLAccountAutoDownloadSettings "enc_fobject TL_AccountAutoDownloadSettings_table" "ok_fobject TL_AccountAutoDownloadSettings_table"
  by (rule flag_schema_codec, unfold TL_AccountAutoDownloadSettings_table_def, intro flag_tableI)
    (simp_all add: readTLAccountAutoDownloadSettings_def writeTLAccountAutoDownloadSettings_def flag_schema_simps tl_AutoDownloadSettings.tl_codec_axioms)

definition readTLEmojiKeyword :: tl_reader where
  "readTLEmojiKeyword = read_object
     [(- 709641735, [rd ''keyword'' readString, rd ''emoticons'' (readVector (Some readString))]),
      (594408994, [rd ''keyword'' readString, rd ''emoticons'' (readVector (Some readString))])]"

definition writeTLEmojiKeyword :: tl_writer where
  "writeTLEmojiKeyword = write_fobject
     [(- 709641735, [wf ''_'' writeInt32, wf ''keyword'' writeString,
         wf ''emoticons'' (writeVector (Some writeString))]),
      (594408994, [wf ''_'' writeInt32, wf ''keyword'' writeString,
         wf ''emoticons'' (writeVector (Some writeString))])]"

definition TL_EmojiKeyword_table :: flag_table where
  "TL_EmojiKeyword_table =
     [(- 709641735, [Plain (''keyword'', readString, writeString, enc_string, is_short_text),
        Plain (''emoticons'', readVector (Some readString), writeVector (Some writeString),
         enc_vector enc_string, ok_vector is_short_text)]),
      (594408994, [Plain (''keyword'', readString, writeString, enc_string, is_short_text),
        Plain (''emoticons'', readVector (Some readString), writeVector (Some writeString),
         enc_vector enc_string, ok_vector is_short_text)])]"

interpretation tl_EmojiKeyword: tl_codec readTLEmojiKeyword writeTLEmojiKeyword "enc_fobject TL_EmojiKeyword_table" "ok_fobject TL_EmojiKeyword_table"
  by (rule flag_schema_codec, unfold TL_EmojiKeyword_table_def, intro flag_tableI)
    (simp_all add: readTLEmojiKeyword_def writeTLEmojiKeyword_def flag_schema_simps)

definition readTLEmojiKeywordsDifference :: tl_reader where
  "readTLEmojiKeywordsDifference = read_object
     [(1556570557, [rd ''lang_code'' readString, rd ''from_version'' readInt32,
         rd ''version'' readInt32, rd ''keywords'' (readVector (Some readTLEmojiKeyword))])]"

definition writeTLEmojiKeywordsDifference :: tl_writer where
  "writeTLEmojiKeywordsDifference = write_fobject
     [(1556570557, [wf ''_'' writeInt32, wf ''lang_code'' writeString,
         wf ''from_version'' writeInt32, wf ''version'' writeInt32,
         wf ''keywords'' (writeVector (Some writeTLEmojiKeyword))])]"

definition TL_EmojiKeywordsDifference_table :: flag_table where
  "TL_EmojiKeywordsDifference_table =
     [(1556570557, [Plain (''lang_code'', readString, writeString, enc_string, is_short_text),
        Plain (''from_version'', readInt32, writeInt32, enc_int32, is_VInt),
        Plain (''version'', readInt32, writeInt32, enc_int32, is_VInt),
        Plain (''keywords'', readVector (Some readTLEmojiKeyword),
         writeVector (Some writeTLEmojiKeyword), enc_vector (enc_fobject TL_EmojiKeyword_table),
         ok_vector (ok_fobject TL_EmojiKeyword_table))])]"

interpretation tl_EmojiKeywordsDifference: tl_codec readTLEmojiKeywordsDifference writeTLEmojiKeywordsDifference "enc_fobject TL_EmojiKeywordsDifference_table" "ok_fobject TL_EmojiKeywordsDifference_table"
  by (rule flag_schema_codec, unfold TL_EmojiKeywordsDifference_table_def, intro flag_tableI)
    (simp_all add: readTLEmojiKeywordsDifference_def writeTLEmojiKeywordsDifference_def flag_schema_simps tl_EmojiKeyword.tl_codec_axioms tl_EmojiKeyword.vector_codec)

definition readTLEmojiURL :: tl_reader where
  "readTLEmojiURL = read_object
     [(- 1519029347, [rd ''url'' readString])]"

definition writeTLEmojiURL :: tl_writer where
  "writeTLEmojiURL = write_fobject
     [(- 1519029347, [wf ''_'' writeInt32, wf ''url'' writeString])]"

definition TL_EmojiURL_table :: flag_table where
  "TL_EmojiURL_table =
     [(- 1519029347, [Plain (''url'', readString, writeString, enc_string, is_short_text)])]"

interpretation tl_EmojiURL: tl_codec readTLEmojiURL writeTLEmojiURL "enc_fobject TL_EmojiURL_table" "ok_fobject TL_EmojiURL_table"
  by (rule flag_schema_codec, unfold TL_EmojiURL_table_def, intro flag_tableI)
    (simp_all add: readTLEmojiURL_def writeTLEmojiURL_def flag_schema_simps)

definition readTLEmojiLanguage :: tl_reader where
  "readTLEmojiLanguage = read_object
     [(- 1275374751, [rd ''lang_code'' readString])]"

definition writeTLEmojiLanguage :: tl_writer where
  "writeTLEmojiLanguage = write_fobject
     [(- 1275374751, [wf ''_'' writeInt32, wf ''lang_code'' writeString])]"

definition TL_EmojiLanguage_table :: flag_table where
  "TL_EmojiLanguage_table =
     [(- 1275374751, [Plain (''lang_code'', readString, writeString, enc_string, is_short_text)])]"

interpretation tl_EmojiLanguage: tl_codec readTLEmojiLanguage writeTLEmojiLanguage "enc_fobject TL_EmojiLanguage_table" "ok_fobject TL_EmojiLanguage_table"
  by (rule flag_schema_codec, unfold TL_EmojiLanguage_table_def, intro flag_tableI)
    (simp_all add: readTLEmojiLanguage_def writeTLEmojiLanguage_def flag_schema_simps)

definition readTLFolder :: tl_reader where
  "readTLFolder = read_object
     [(- 11252123, [rd ''flags'' readUInt32, set_if ''flags'' 0 ''autofill_new_broadcasts'',
         set_if ''flags'' 1 ''autofill_public_groups'',
         set_if ''flags'' 2 ''autofill_new_correspondents'', rd ''id'' readInt32,
         rd ''title'' readString, rd_if ''flags'' 3 ''photo'' readTLChatPhoto])]"

definition writeTLFolder :: tl_writer where
  "writeTLFolder = write_fobject
     [(- 11252123, [wf ''_'' writeInt32, wf_flags ''flags'' [(''autofill_new_broadcasts'', 0),
         (''autofill_public_groups'', 1), (''autofill_new_correspondents'', 2), (''photo'', 3)],
         wf ''id'' writeInt32, wf ''title'' writeString,
         wf_if ''flags'' 3 ''photo'' writeTLChatPhoto])]"

definition TL_Folder_table :: flag_table where
  "TL_Folder_table =
     [(- 11252123, [Flags ''flags'' [(''autofill_new_broadcasts'', 0), (''autofill_public_groups'',
         1), (''autofill_new_correspondents'', 2), (''photo'', 3)],
        TrueBit ''flags'' 0 ''autofill_new_broadcasts'',
        TrueBit ''flags'' 1 ''autofill_public_groups'',
        TrueBit ''flags'' 2 ''autofill_new_correspondents'',
        Plain (''id'', readInt32, writeInt32, enc_int32, is_VInt),
        Plain (''title'', readString, writeString, enc_string, is_short_text),
        Cond ''flags'' 3 (''photo'', readTLChatPhoto, writeTLChatPhoto,
         enc_fobject TL_ChatPhoto_table, ok_fobject TL_ChatPhoto_table)])]"

interpretation tl_Folder: tl_codec readTLFolder writeTLFolder "enc_fobject TL_Folder_table" "ok_fobject TL_Folder_table"
  by (rule flag_schema_codec, unfold TL_Folder_table_def, intro flag_tableI)
    (simp_all add: readTLFolder_def writeTLFolder_def flag_schema_simps tl_ChatPhoto.tl_codec_axioms)

definition readTLInputFolderPeer :: tl_reader where
  "readTLInputFolderPeer = read_object
     [(- 70073706, [rd ''peer'' readTLInputPeer, rd ''folder_id'' readInt32])]"

definition writeTLInputFolderPeer :: tl_writer where
  "writeTLInputFolderPeer = write_fobject
     [(- 70073706, [wf ''_'' writeInt32, wf ''peer'' writeTLInputPeer,
         wf ''folder_id'' writeInt32])]"

definition TL_InputFolderPeer_table :: flag_table where
  "TL_InputFolderPeer_table =
     [(- 70073706, [Plain (''peer'', readTLInputPeer, writeTLInputPeer, enc_InputPeer,
         ok_InputPeer),
        Plain (''folder_id'', readInt32, writeInt32, enc_int32, is_VInt)])]"

interpretation tl_InputFolderPeer: tl_codec readTLInputFolderPeer writeTLInputFolderPeer "enc_fobject TL_InputFolderPeer_table" "ok_fobject TL_InputFolderPeer_table"
  by (rule flag_schema_codec, unfold TL_InputFolderPeer_table_def, intro flag_tableI)
    (simp_all add: readTLInputFolderPeer_def writeTLInputFolderPeer_def flag_schema_simps tl_InputPeer.tl_codec_axioms)

definition readTLFolderPeer :: tl_reader where
  "readTLFolderPeer = read_object
     [(- 373643672, [rd ''peer'' readTLPeer, rd ''folder_id'' readInt32])]"

definition writeTLFolderPeer :: tl_writer where
  "writeTLFolderPeer = write_fobject
     [(- 373643672, [wf ''_'' writeInt32, wf ''peer'' writeTLPeer, wf ''folder_id'' writeInt32])]"

definition TL_FolderPeer_table :: flag_table where
  "TL_FolderPeer_table =
     [(- 373643672, [Plain (''peer'', readTLPeer, writeTLPeer, enc_fobject TL_Peer_table,
         ok_fobject TL_Peer_table),
        Plain (''folder_id'', readInt32, writeInt32, enc_int32, is_VInt)])]"

interpretation tl_FolderPeer: tl_codec readTLFolderPeer writeTLFolderPeer "enc_fobject TL_FolderPeer_table" "ok_fobject TL_FolderPeer_table"
  by (rule flag_schema_codec, unfold TL_FolderPeer_table_def, intro flag_tableI)
    (simp_all add: readTLFolderPeer_def writeTLFolderPeer_def flag_schema_simps tl_Peer.tl_codec_axioms)

definition readTLMessagesSearchCounter :: tl_reader where
  "readTLMessagesSearchCounter = read_object
     [(- 398136321, [rd ''flags'' readUInt32, set_if ''flags'' 1 ''inexact'',
         rd ''filter'' readTLMessagesFilter, rd ''count'' readInt32])]"

definition writeTLMessagesSearchCounter :: tl_writer where
  "writeTLMessagesSearchCounter = write_fobject
     [(- 398136321, [wf ''_'' writeInt32, wf_flags ''flags'' [(''inexact'', 1)],
         wf ''filter'' writeTLMessagesFilter, wf ''count'' writeInt32])]"

definition TL_MessagesSearchCounter_table :: flag_table where
  "TL_MessagesSearchCounter_table =
     [(- 398136321, [Flags ''flags'' [(''inexact'', 1)],
        TrueBit ''flags'' 1 ''inexact'',
        Plain (''filter'', readTLMessagesFilter, writeTLMessagesFilter,
         enc_fobject TL_MessagesFilter_table, ok_fobject TL_MessagesFilter_table),
        Plain (''count'', readInt32, writeInt32, enc_int32, is_VInt)])]"

interpretation tl_MessagesSearchCounter: tl_codec readTLMessagesSearchCounter writeTLMessagesSearchCounter "enc_fobject TL_MessagesSearchCounter_table" "ok_fobject TL_MessagesSearchCounter_table"
  by (rule flag_schema_codec, unfold TL_MessagesSearchCounter_table_def, intro flag_tableI)
    (simp_all add: readTLMessagesSearchCounter_def writeTLMessagesSearchCounter_def flag_schema_simps tl_MessagesFilter.tl_codec_axioms)

definition readTLUrlAuthResult :: tl_reader where
  "readTLUrlAuthResult = read_object
     [(1020666860, [rd ''flags'' readUInt32, set_if ''flags'' 0 ''request_write_access'',
         set_if ''flags'' 1 ''request_phone_number'', set_if ''flags'' 5 ''match_codes_first'',
         set_if ''flags'' 6 ''is_app'', rd ''bot'' readTLUser, rd ''domain'' readString,
         rd_if ''flags'' 2 ''browser'' readString, rd_if ''flags'' 2 ''platform'' readString,
         rd_if ''flags'' 2 ''ip'' readString, rd_if ''flags'' 2 ''region'' readString,
         rd_if ''flags'' 3 ''match_codes'' (readVector (Some readString)),
         rd_if ''flags'' 4 ''user_id_hint'' readInt64,
         rd_if ''flags'' 7 ''verified_app_name'' readString]),
      (1648005024, [rd ''flags'' readUInt32, rd_if ''flags'' 0 ''url'' readString]),
      (- 1445536993, [])]"

definition writeTLUrlAuthResult :: tl_writer where
  "writeTLUrlAuthResult = write_fobject
     [(1020666860, [wf ''_'' writeInt32, wf_flags ''flags'' [(''request_write_access'', 0),
         (''request_phone_number'', 1), (''match_codes_first'', 5), (''is_app'', 6), (''browser'',
         2), (''platform'', 2), (''ip'', 2), (''region'', 2), (''match_codes'', 3),
         (''user_id_hint'', 4), (''verified_app_name'', 7)], wf ''bot'' writeTLUser,
         wf ''domain'' writeString, wf_if ''flags'' 2 ''browser'' writeString,
         wf_if ''flags'' 2 ''platform'' writeString, wf_if ''flags'' 2 ''ip'' writeString,
         wf_if ''flags'' 2 ''region'' writeString,
         wf_if ''flags'' 3 ''match_codes'' (writeVector (Some writeString)),
         wf_if ''flags'' 4 ''user_id_hint'' writeInt64,
         wf_if ''flags'' 7 ''verified_app_name'' writeString]),
      (1648005024, [wf ''_'' writeInt32, wf_flags ''flags'' [(''url'', 0)],
         wf_if ''flags'' 0 ''url'' writeString]),
      (- 1445536993, [wf ''_'' writeInt32])]"

definition TL_UrlAuthResult_table :: flag_table where
  "TL_UrlAuthResult_table =
     [(1020666860, [Flags ''flags'' [(''request_write_access'', 0), (''request_phone_number'', 1),
         (''match_codes_first'', 5), (''is_app'', 6), (''browser'', 2), (''platform'', 2), (''ip'',
         2), (''region'', 2), (''match_codes'', 3), (''user_id_hint'', 4), (''verified_app_name'',
         7)],
        TrueBit ''flags'' 0 ''request_write_access'',
        TrueBit ''flags'' 1 ''request_phone_number'',
        TrueBit ''flags'' 5 ''match_codes_first'',
        TrueBit ''flags'' 6 ''is_app'',
        Plain (''bot'', readTLUser, writeTLUser, enc_fobject TL_User_table,
         ok_fobject TL_User_table),
        Plain (''domain'', readString, writeString, enc_string, is_short_text),
        Cond ''flags'' 2 (''browser'', readString, writeString, enc_string, is_short_text),
        Cond ''flags'' 2 (''platform'', readString, writeString, enc_string, is_short_text),
        Cond ''flags'' 2 (''ip'', readString, writeString, enc_string, is_short_text),
        Cond ''flags'' 2 (''region'', readString, writeString, enc_string, is_short_text),
        Cond ''flags'' 3 (''match_codes'', readVector (Some readString),
         writeVector (Some writeString), enc_vector enc_string, ok_vector is_short_text),
        Cond ''flags'' 4 (''user_id_hint'', readInt64, writeInt64, enc_int64, is_VLong),
        Cond ''flags'' 7 (''verified_app_name'', readString, writeString, enc_string,
         is_short_text)]),
      (1648005024, [Flags ''flags'' [(''url'', 0)],
        Cond ''flags'' 0 (''url'', readString, writeString, enc_string, is_short_text)]),
      (- 1445536993, [])]"

interpretation tl_UrlAuthResult: tl_codec readTLUrlAuthResult writeTLUrlAuthResult "enc_fobject TL_UrlAuthResult_table" "ok_fobject TL_UrlAuthResult_table"
  by (rule flag_schema_codec, unfold TL_UrlAuthResult_table_def, intro flag_tableI)
    (simp_all add: readTLUrlAuthResult_def writeTLUrlAuthResult_def flag_schema_simps tl_User.tl_codec_axioms tl_User.vector_codec)

definition readTLPeerLocated :: tl_reader where
  "readTLPeerLocated = read_object
     [(- 901375139, [rd ''peer'' readTLPeer, rd ''expires'' readInt32, rd ''distance'' readInt32]),
      (- 118740917, [rd ''expires'' readInt32])]"

definition writeTLPeerLocated :: tl_writer where
  "writeTLPeerLocated = write_fobject
     [(- 901375139, [wf ''_'' writeInt32, wf ''peer'' writeTLPeer, wf ''expires'' writeInt32,
         wf ''distance'' writeInt32]),
      (- 118740917, [wf ''_'' writeInt32, wf ''expires'' writeInt32])]"

definition TL_PeerLocated_table :: flag_table where
  "TL_PeerLocated_table =
     [(- 901375139, [Plain (''peer'', readTLPeer, writeTLPeer, enc_fobject TL_Peer_table,
         ok_fobject TL_Peer_table),
        Plain (''expires'', readInt32, writeInt32, enc_int32, is_VInt),
        Plain (''distance'', readInt32, writeInt32, enc_int32, is_VInt)]),
      (- 118740917, [Plain (''expires'', readInt32, writeInt32, enc_int32, is_VInt)])]"

interpretation tl_PeerLocated: tl_codec readTLPeerLocated writeTLPeerLocated "enc_fobject TL_PeerLocated_table" "ok_fobject TL_PeerLocated_table"
  by (rule flag_schema_codec, unfold TL_PeerLocated_table_def, intro flag_tableI)
    (simp_all add: readTLPeerLocated_def writeTLPeerLocated_def flag_schema_simps tl_Peer.tl_codec_axioms)

definition readTLInputTheme :: tl_reader where
  "readTLInputTheme = read_object
     [(1012306921, [rd ''id'' readInt64, rd ''access_hash'' readInt64]),
      (- 175567375, [rd ''slug'' readString])]"

definition writeTLInputTheme :: tl_writer where
  "writeTLInputTheme = write_fobject
     [(1012306921, [wf ''_'' writeInt32, wf ''id'' writeInt64, wf ''access_hash'' writeInt64]),
      (- 175567375, [wf ''_'' writeInt32, wf ''slug'' writeString])]"

definition TL_InputTheme_table :: flag_table where
  "TL_InputTheme_table =
     [(1012306921, [Plain (''id'', readInt64, writeInt64, enc_int64, is_VLong),
        Plain (''access_hash'', readInt64, writeInt64, enc_int64, is_VLong)]),
      (- 175567375, [Plain (''slug'', readString, writeString, enc_string, is_short_text)])]"

interpretation tl_InputTheme: tl_codec readTLInputTheme writeTLInputTheme "enc_fobject TL_InputTheme_table" "ok_fobject TL_InputTheme_table"
  by (rule flag_schema_codec, unfold TL_InputTheme_table_def, intro flag_tableI)
    (simp_all add: readTLInputTheme_def writeTLInputTheme_def flag_schema_simps)

definition readTLAuthLoginToken :: tl_reader where
  "readTLAuthLoginToken = read_object
     [(1654593920, [rd ''expires'' readInt32, rd ''token'' readByteArray]),
      (110008598, [rd ''dc_id'' readInt32, rd ''token'' readByteArray]),
      (957176926, [rd ''authorization'' readTLAuthAuthorization])]"

definition writeTLAuthLoginToken :: tl_writer where
  "writeTLAuthLoginToken = write_fobject
     [(1654593920, [wf ''_'' writeInt32, wf ''expires'' writeInt32, wf ''token'' writeByteArray]),
      (110008598, [wf ''_'' writeInt32, wf ''dc_id'' writeInt32, wf ''token'' writeByteArray]),
      (957176926, [wf ''_'' writeInt32, wf ''authorization'' writeTLAuthAuthorization])]"

definition TL_AuthLoginToken_table :: flag_table where
  "TL_AuthLoginToken_table =
     [(1654593920, [Plain (''expires'', readInt32, writeInt32, enc_int32, is_VInt),
        Plain (''token'', readByteArray, writeByteArray, enc_bytes, is_short_bytes)]),
      (110008598, [Plain (''dc_id'', readInt32, writeInt32, enc_int32, is_VInt),
        Plain (''token'', readByteArray, writeByteArray, enc_bytes, is_short_bytes)]),
      (957176926, [Plain (''authorization'', readTLAuthAuthorization, writeTLAuthAuthorization,
         enc_fobject TL_AuthAuthorization_table, ok_fobject TL_AuthAuthorization_table)])]"

interpretation tl_AuthLoginToken: tl_codec readTLAuthLoginToken writeTLAuthLoginToken "enc_fobject TL_AuthLoginToken_table" "ok_fobject TL_AuthLoginToken_table"
  by (rule flag_schema_codec, unfold TL_AuthLoginToken_table_def, intro flag_tableI)
    (simp_all add: readTLAuthLoginToken_def writeTLAuthLoginToken_def flag_schema_simps tl_AuthAuthorization.tl_codec_axioms)

definition readTLAccountContentSettings :: tl_reader where
  "readTLAccountContentSettings = read_object
     [(1474462241, [rd ''flags'' readUInt32, set_if ''flags'' 0 ''sensitive_enabled'',
         set_if ''flags'' 1 ''sensitive_can_change''])]"

definition writeTLAccountContentSettings :: tl_writer where
  "writeTLAccountContentSettings = write_fobject
     [(1474462241, [wf ''_'' writeInt32, wf_flags ''flags'' [(''sensitive_enabled'', 0),
         (''sensitive_can_change'', 1)]])]"

definition TL_AccountContentSettings_table :: flag_table where
  "TL_AccountContentSettings_table =
     [(1474462241, [Flags ''flags'' [(''sensitive_enabled'', 0), (''sensitive_can_change'', 1)],
        TrueBit ''flags'' 0 ''sensitive_enabled'',
        TrueBit ''flags'' 1 ''sensitive_can_change''])]"

interpretation tl_AccountContentSettings: tl_codec readTLAccountContentSettings writeTLAccountContentSettings "enc_fobject TL_AccountContentSettings_table" "ok_fobject TL_AccountContentSettings_table"
  by (rule flag_schema_codec, unfold TL_AccountContentSettings_table_def, intro flag_tableI)
    (simp_all add: readTLAccountContentSettings_def writeTLAccountContentSettings_def flag_schema_simps)

definition readTLMessagesInactiveChats :: tl_reader where
  "readTLMessagesInactiveChats = read_object
     [(- 1456996667, [rd ''dates'' (readVector (Some readInt32)),
         rd ''chats'' (readVector (Some readTLChat)),
         rd ''users'' (readVector (Some readTLUser))])]"

definition writeTLMessagesInactiveChats :: tl_writer where
  "writeTLMessagesInactiveChats = write_fobject
     [(- 1456996667, [wf ''_'' writeInt32, wf ''dates'' (writeVector (Some writeInt32)),
         wf ''chats'' (writeVector (Some writeTLChat)),
         wf ''users'' (writeVector (Some writeTLUser))])]"

definition TL_MessagesInactiveChats_table :: flag_table where
  "TL_MessagesInactiveChats_table =
     [(- 1456996667, [Plain (''dates'', readVector (Some readInt32), writeVector (Some writeInt32),
         enc_vector enc_int32, ok_vector is_VInt),
        Plain (''chats'', readVector (Some readTLChat), writeVector (Some writeTLChat),
         enc_vector (enc_fobject TL_Chat_table), ok_vector (ok_fobject TL_Chat_table)),
        Plain (''users'', readVector (Some readTLUser), writeVector (Some writeTLUser),
         enc_vector (enc_fobject TL_User_table), ok_vector (ok_fobject TL_User_table))])]"

interpretation tl_MessagesInactiveChats: tl_codec readTLMessagesInactiveChats writeTLMessagesInactiveChats "enc_fobject TL_MessagesInactiveChats_table" "ok_fobject TL_MessagesInactiveChats_table"
  by (rule flag_schema_codec, unfold TL_MessagesInactiveChats_table_def, intro flag_tableI)
    (simp_all add: readTLMessagesInactiveChats_def writeTLMessagesInactiveChats_def flag_schema_simps tl_Chat.tl_codec_axioms tl_Chat.vector_codec tl_User.tl_codec_axioms tl_User.vector_codec)

definition readTLBaseTheme :: tl_reader where
  "readTLBaseTheme = read_object
     [(- 1012849566, []),
      (- 69724536, []),
      (- 1212997976, []),
      (1834973166, []),
      (1527845466, [])]"

definition writeTLBaseTheme :: tl_writer where
  "writeTLBaseTheme = write_fobject
     [(- 1012849566, [wf ''_'' writeInt32]),
      (- 69724536, [wf ''_'' writeInt32]),
      (- 1212997976, [wf ''_'' writeInt32]),
      (1834973166, [wf ''_'' writeInt32]),
      (1527845466, [wf ''_'' writeInt32])]"

definition TL_BaseTheme_table :: flag_table where
  "TL_BaseTheme_table =
     [(- 1012849566, []),
      (- 69724536, []),
      (- 1212997976, []),
      (1834973166, []),
      (1527845466, [])]"

interpretation tl_BaseTheme: tl_codec readTLBaseTheme writeTLBaseTheme "enc_fobject TL_BaseTheme_table" "ok_fobject TL_BaseTheme_table"
  by (rule flag_schema_codec, unfold TL_BaseTheme_table_def, intro flag_tableI)
    (simp_all add: readTLBaseTheme_def writeTLBaseTheme_def flag_schema_simps)

definition readTLInputThemeSettings :: tl_reader where
  "readTLInputThemeSettings = read_object
     [(- 1881255857, [rd ''flags'' readUInt32, set_if ''flags'' 2 ''message_colors_animated'',
         rd ''base_theme'' readTLBaseTheme, rd ''accent_color'' readInt32,
         rd_if ''flags'' 3 ''outbox_accent_color'' readInt32,
         rd_if ''flags'' 0 ''message_colors'' (readVector (Some readInt32)),
         rd_if ''flags'' 1 ''wallpaper'' readTLInputWallPaper,
         rd_if ''flags'' 1 ''wallpaper_settings'' readTLWallPaperSettings])]"

definition writeTLInputThemeSettings :: tl_writer where
  "writeTLInputThemeSettings = write_fobject
     [(- 1881255857, [wf ''_'' writeInt32, wf_flags ''flags'' [(''message_colors_animated'', 2),
         (''outbox_accent_color'', 3), (''message_colors'', 0), (''wallpaper'', 1),
         (''wallpaper_settings'', 1)], wf ''base_theme'' writeTLBaseTheme,
         wf ''accent_color'' writeInt32, wf_if ''flags'' 3 ''outbox_accent_color'' writeInt32,
         wf_if ''flags'' 0 ''message_colors'' (writeVector (Some writeInt32)),
         wf_if ''flags'' 1 ''wallpaper'' writeTLInputWallPaper,
         wf_if ''flags'' 1 ''wallpaper_settings'' writeTLWallPaperSettings])]"

definition TL_InputThemeSettings_table :: flag_table where
  "TL_InputThemeSettings_table =
     [(- 1881255857, [Flags ''flags'' [(''message_colors_animated'', 2), (''outbox_accent_color'',
         3), (''message_colors'', 0), (''wallpaper'', 1), (''wallpaper_settings'', 1)],
        TrueBit ''flags'' 2 ''message_colors_animated'',
        Plain (''base_theme'', readTLBaseTheme, writeTLBaseTheme, enc_fobject TL_BaseTheme_table,
         ok_fobject TL_BaseTheme_table),
        Plain (''accent_color'', readInt32, writeInt32, enc_int32, is_VInt),
        Cond ''flags'' 3 (''outbox_accent_color'', readInt32, writeInt32, enc_int32, is_VInt),
        Cond ''flags'' 0 (''message_colors'', readVector (Some readInt32),
         writeVector (Some writeInt32), enc_vector enc_int32, ok_vector is_VInt),
        Cond ''flags'' 1 (''wallpaper'', readTLInputWallPaper, writeTLInputWallPaper,
         enc_fobject TL_InputWallPaper_table, ok_fobject TL_InputWallPaper_table),
        Cond ''flags'' 1 (''wallpaper_settings'', readTLWallPaperSettings,
         writeTLWallPaperSettings, enc_fobject TL_WallPaperSettings_table,
         ok_fobject TL_WallPaperSettings_table)])]"

interpretation tl_InputThemeSettings: tl_codec readTLInputThemeSettings writeTLInputThemeSettings "enc_fobject TL_InputThemeSettings_table" "ok_fobject TL_InputThemeSettings_table"
  by (rule flag_schema_codec, unfold TL_InputThemeSettings_table_def, intro flag_tableI)
    (simp_all add: readTLInputThemeSettings_def writeTLInputThemeSettings_def flag_schema_simps tl_BaseTheme.tl_codec_axioms tl_BaseTheme.vector_codec tl_InputWallPaper.tl_codec_axioms tl_InputWallPaper.vector_codec tl_WallPaperSettings.tl_codec_axioms tl_WallPaperSettings.vector_codec)

definition readTLMessagePeerVote :: tl_reader where
  "readTLMessagePeerVote = read_object
     [(- 1228133028, [rd ''peer'' readTLPeer, rd ''option'' readByteArray, rd ''date'' readInt32]),
      (1959634180, [rd ''peer'' readTLPeer, rd ''date'' readInt32]),
      (1177089766, [rd ''peer'' readTLPeer, rd ''options'' (readVector (Some readByteArray)),
         rd ''date'' readInt32])]"

definition writeTLMessagePeerVote :: tl_writer where
  "writeTLMessagePeerVote = write_fobject
     [(- 1228133028, [wf ''_'' writeInt32, wf ''peer'' writeTLPeer, wf ''option'' writeByteArray,
         wf ''date'' writeInt32]),
      (1959634180, [wf ''_'' writeInt32, wf ''peer'' writeTLPeer, wf ''date'' writeInt32]),
      (1177089766, [wf ''_'' writeInt32, wf ''peer'' writeTLPeer,
         wf ''options'' (writeVector (Some writeByteArray)), wf ''date'' writeInt32])]"

definition TL_MessagePeerVote_table :: flag_table where
  "TL_MessagePeerVote_table =
     [(- 1228133028, [Plain (''peer'', readTLPeer, writeTLPeer, enc_fobject TL_Peer_table,
         ok_fobject TL_Peer_table),
        Plain (''option'', readByteArray, writeByteArray, enc_bytes, is_short_bytes),
        Plain (''date'', readInt32, writeInt32, enc_int32, is_VInt)]),
      (1959634180, [Plain (''peer'', readTLPeer, writeTLPeer, enc_fobject TL_Peer_table,
         ok_fobject TL_Peer_table),
        Plain (''date'', readInt32, writeInt32, enc_int32, is_VInt)]),
      (1177089766, [Plain (''peer'', readTLPeer, writeTLPeer, enc_fobject TL_Peer_table,
         ok_fobject TL_Peer_table),
        Plain (''options'', readVector (Some readByteArray), writeVector (Some writeByteArray),
         enc_vector enc_bytes, ok_vector is_short_bytes),
        Plain (''date'', readInt32, writeInt32, enc_int32, is_VInt)])]"

interpretation tl_MessagePeerVote: tl_codec readTLMessagePeerVote writeTLMessagePeerVote "enc_fobject TL_MessagePeerVote_table" "ok_fobject TL_MessagePeerVote_table"
  by (rule flag_schema_codec, unfold TL_MessagePeerVote_table_def, intro flag_tableI)
    (simp_all add: readTLMessagePeerVote_def writeTLMessagePeerVote_def flag_schema_simps tl_Peer.tl_codec_axioms tl_Peer.vector_codec)

definition readTLMessagesVotesList :: tl_reader where
  "readTLMessagesVotesList = read_object
     [(1218005070, [rd ''flags'' readUInt32, rd ''count'' readInt32,
         rd ''votes'' (readVector (Some readTLMessagePeerVote)),
         rd ''chats'' (readVector (Some readTLChat)), rd ''users'' (readVector (Some readTLUser)),
         rd_if ''flags'' 0 ''next_offset'' readString])]"

definition writeTLMessagesVotesList :: tl_writer where
  "writeTLMessagesVotesList = write_fobject
     [(1218005070, [wf ''_'' writeInt32, wf_flags ''flags'' [(''next_offset'', 0)],
         wf ''count'' writeInt32, wf ''votes'' (writeVector (Some writeTLMessagePeerVote)),
         wf ''chats'' (writeVector (Some writeTLChat)),
         wf ''users'' (writeVector (Some writeTLUser)),
         wf_if ''flags'' 0 ''next_offset'' writeString])]"

definition TL_MessagesVotesList_table :: flag_table where
  "TL_MessagesVotesList_table =
     [(1218005070, [Flags ''flags'' [(''next_offset'', 0)],
        Plain (''count'', readInt32, writeInt32, enc_int32, is_VInt),
        Plain (''votes'', readVector (Some readTLMessagePeerVote),
         writeVector (Some writeTLMessagePeerVote),
         enc_vector (enc_fobject TL_MessagePeerVote_table),
         ok_vector (ok_fobject TL_MessagePeerVote_table)),
        Plain (''chats'', readVector (Some readTLChat), writeVector (Some writeTLChat),
         enc_vector (enc_fobject TL_Chat_table), ok_vector (ok_fobject TL_Chat_table)),
        Plain (''users'', readVector (Some readTLUser), writeVector (Some writeTLUser),
         enc_vector (enc_fobject TL_User_table), ok_vector (ok_fobject TL_User_table)),
        Cond ''flags'' 0 (''next_offset'', readString, writeString, enc_string, is_short_text)])]"

interpretation tl_MessagesVotesList: tl_codec readTLMessagesVotesList writeTLMessagesVotesList "enc_fobject TL_MessagesVotesList_table" "ok_fobject TL_MessagesVotesList_table"
  by (rule flag_schema_codec, unfold TL_MessagesVotesList_table_def, intro flag_tableI)
    (simp_all add: readTLMessagesVotesList_def writeTLMessagesVotesList_def flag_schema_simps tl_MessagePeerVote.tl_codec_axioms tl_MessagePeerVote.vector_codec tl_Chat.tl_codec_axioms tl_Chat.vector_codec tl_User.tl_codec_axioms tl_User.vector_codec)

definition readTLBankCardOpenUrl :: tl_reader where
  "readTLBankCardOpenUrl = read_object
     [(- 177732982, [rd ''url'' readString, rd ''name'' readString])]"

definition writeTLBankCardOpenUrl :: tl_writer where
  "writeTLBankCardOpenUrl = write_fobject
     [(- 177732982, [wf ''_'' writeInt32, wf ''url'' writeString, wf ''name'' writeString])]"

definition TL_BankCardOpenUrl_table :: flag_table where
  "TL_BankCardOpenUrl_table =
     [(- 177732982, [Plain (''url'', readString, writeString, enc_string, is_short_text),
        Plain (''name'', readString, writeString, enc_string, is_short_text)])]"

interpretation tl_BankCardOpenUrl: tl_codec readTLBankCardOpenUrl writeTLBankCardOpenUrl "enc_fobject TL_BankCardOpenUrl_table" "ok_fobject TL_BankCardOpenUrl_table"
  by (rule flag_schema_codec, unfold TL_BankCardOpenUrl_table_def, intro flag_tableI)
    (simp_all add: readTLBankCardOpenUrl_def writeTLBankCardOpenUrl_def flag_schema_simps)

definition readTLPaymentsBankCardData :: tl_reader where
  "readTLPaymentsBankCardData = read_object
     [(1042605427, [rd ''title'' readString,
         rd ''open_urls'' (readVector (Some readTLBankCardOpenUrl))])]"

definition writeTLPaymentsBankCardData :: tl_writer where
  "writeTLPaymentsBankCardData = write_fobject
     [(1042605427, [wf ''_'' writeInt32, wf ''title'' writeString,
         wf ''open_urls'' (writeVector (Some writeTLBankCardOpenUrl))])]"

definition TL_PaymentsBankCardData_table :: flag_table where
  "TL_PaymentsBankCardData_table =
     [(1042605427, [Plain (''title'', readString, writeString, enc_string, is_short_text),
        Plain (''open_urls'', readVector (Some readTLBankCardOpenUrl),
         writeVector (Some writeTLBankCardOpenUrl),
         enc_vector (enc_fobject TL_BankCardOpenUrl_table),
         ok_vector (ok_fobject TL_BankCardOpenUrl_table))])]"

interpretation tl_PaymentsBankCardData: tl_codec readTLPaymentsBankCardData writeTLPaymentsBankCardData "enc_fobject TL_PaymentsBankCardData_table" "ok_fobject TL_PaymentsBankCardData_table"
  by (rule flag_schema_codec, unfold TL_PaymentsBankCardData_table_def, intro flag_tableI)
    (simp_all add: readTLPaymentsBankCardData_def writeTLPaymentsBankCardData_def flag_schema_simps tl_BankCardOpenUrl.tl_codec_axioms tl_BankCardOpenUrl.vector_codec)

definition readTLDialogFilterSuggested :: tl_reader where
  "readTLDialogFilterSuggested = read_object
     [(2004110666, [rd ''filter'' readTLDialogFilter, rd ''description'' readString])]"

definition writeTLDialogFilterSuggested :: tl_writer where
  "writeTLDialogFilterSuggested = write_fobject
     [(2004110666, [wf ''_'' writeInt32, wf ''filter'' writeTLDialogFilter,
         wf ''description'' writeString])]"

definition TL_DialogFilterSuggested_table :: flag_table where
  "TL_DialogFilterSuggested_table =
     [(2004110666, [Plain (''filter'', readTLDialogFilter, writeTLDialogFilter,
         enc_fobject TL_DialogFilter_table, ok_fobject TL_DialogFilter_table),
        Plain (''description'', readString, writeString, enc_string, is_short_text)])]"

interpretation tl_DialogFilterSuggested: tl_codec readTLDialogFilterSuggested writeTLDialogFilterSuggested "enc_fobject TL_DialogFilterSuggested_table" "ok_fobject TL_DialogFilterSuggested_table"
  by (rule flag_schema_codec, unfold TL_DialogFilterSuggested_table_def, intro flag_tableI)
    (simp_all add: readTLDialogFilterSuggested_def writeTLDialogFilterSuggested_def flag_schema_simps tl_DialogFilter.tl_codec_axioms)

definition readTLStatsDateRangeDays :: tl_reader where
  "readTLStatsDateRangeDays = read_object
     [(- 1237848657, [rd ''min_date'' readInt32, rd ''max_date'' readInt32])]"

definition writeTLStatsDateRangeDays :: tl_writer where
  "writeTLStatsDateRangeDays = write_fobject
     [(- 1237848657, [wf ''_'' writeInt32, wf ''min_date'' writeInt32,
         wf ''max_date'' writeInt32])]"

definition TL_StatsDateRangeDays_table :: flag_table where
  "TL_StatsDateRangeDays_table =
     [(- 1237848657, [Plain (''min_date'', readInt32, writeInt32, enc_int32, is_VInt),
        Plain (''max_date'', readInt32, writeInt32, enc_int32, is_VInt)])]"

interpretation tl_StatsDateRangeDays: tl_codec readTLStatsDateRangeDays writeTLStatsDateRangeDays "enc_fobject TL_StatsDateRangeDays_table" "ok_fobject TL_StatsDateRangeDays_table"
  by (rule flag_schema_codec, unfold TL_StatsDateRangeDays_table_def, intro flag_tableI)
    (simp_all add: readTLStatsDateRangeDays_def writeTLStatsDateRangeDays_def flag_schema_simps)

definition readTLStatsGraph :: tl_reader where
  "readTLStatsGraph = read_object
     [(1244130093, [rd ''token'' readString]),
      (- 1092839390, [rd ''error'' readString]),
      (- 1901828938, [rd ''flags'' readUInt32, rd ''json'' readTLDataJSON,
         rd_if ''flags'' 0 ''zoom_token'' readString])]"

definition writeTLStatsGraph :: tl_writer where
  "writeTLStatsGraph = write_fobject
     [(1244130093, [wf ''_'' writeInt32, wf ''token'' writeString]),
      (- 1092839390, [wf ''_'' writeInt32, wf ''error'' writeString]),
      (- 1901828938, [wf ''_'' writeInt32, wf_flags ''flags'' [(''zoom_token'', 0)],
         wf ''json'' writeTLDataJSON, wf_if ''flags'' 0 ''zoom_token'' writeString])]"

definition TL_StatsGraph_table :: flag_table where
  "TL_StatsGraph_table =
     [(1244130093, [Plain (''token'', readString, writeString, enc_string, is_short_text)]),
      (- 1092839390, [Plain (''error'', readString, writeString, enc_string, is_short_text)]),
      (- 1901828938, [Flags ''flags'' [(''zoom_token'', 0)],
        Plain (''json'', readTLDataJSON, writeTLDataJSON, enc_fobject TL_DataJSON_table,
         ok_fobject TL_DataJSON_table),
        Cond ''flags'' 0 (''zoom_token'', readString, writeString, enc_string, is_short_text)])]"

interpretation tl_StatsGraph: tl_codec readTLStatsGraph writeTLStatsGraph "enc_fobject TL_StatsGraph_table" "ok_fobject TL_StatsGraph_table"
  by (rule flag_schema_codec, unfold TL_StatsGraph_table_def, intro flag_tableI)
    (simp_all add: readTLStatsGraph_def writeTLStatsGraph_def flag_schema_simps tl_DataJSON.tl_codec_axioms)

definition readTLPendingSuggestion :: tl_reader where
  "readTLPendingSuggestion = read_object
     [(- 404214254, [rd ''suggestion'' readString, rd ''title'' readTLTextWithEntities,
         rd ''description'' readTLTextWithEntities, rd ''url'' readString])]"

definition writeTLPendingSuggestion :: tl_writer where
  "writeTLPendingSuggestion = write_fobject
     [(- 404214254, [wf ''_'' writeInt32, wf ''suggestion'' writeString,
         wf ''title'' writeTLTextWithEntities, wf ''description'' writeTLTextWithEntities,
         wf ''url'' writeString])]"

definition TL_PendingSuggestion_table :: flag_table where
  "TL_PendingSuggestion_table =
     [(- 404214254, [Plain (''suggestion'', readString, writeString, enc_string, is_short_text),
        Plain (''title'', readTLTextWithEntities, writeTLTextWithEntities,
         enc_fobject TL_TextWithEntities_table, ok_fobject TL_TextWithEntities_table),
        Plain (''description'', readTLTextWithEntities, writeTLTextWithEntities,
         enc_fobject TL_TextWithEntities_table, ok_fobject TL_TextWithEntities_table),
        Plain (''url'', readString, writeString, enc_string, is_short_text)])]"

interpretation tl_PendingSuggestion: tl_codec readTLPendingSuggestion writeTLPendingSuggestion "enc_fobject TL_PendingSuggestion_table" "ok_fobject TL_PendingSuggestion_table"
  by (rule flag_schema_codec, unfold TL_PendingSuggestion_table_def, intro flag_tableI)
    (simp_all add: readTLPendingSuggestion_def writeTLPendingSuggestion_def flag_schema_simps tl_TextWithEntities.tl_codec_axioms)

definition readTLHelpPromoData :: tl_reader where
  "readTLHelpPromoData = read_object
     [(- 1728664459, [rd ''expires'' readInt32]),
      (145021050, [rd ''flags'' readUInt32, set_if ''flags'' 0 ''proxy'', rd ''expires'' readInt32,
         rd_if ''flags'' 3 ''peer'' readTLPeer, rd_if ''flags'' 1 ''psa_type'' readString,
         rd_if ''flags'' 2 ''psa_message'' readString,
         rd ''pending_suggestions'' (readVector (Some readString)),
         rd ''dismissed_suggestions'' (readVector (Some readString)),
         rd_if ''flags'' 4 ''custom_pending_suggestion'' readTLPendingSuggestion,
         rd ''chats'' (readVector (Some readTLChat)),
         rd ''users'' (readVector (Some readTLUser))])]"

definition writeTLHelpPromoData :: tl_writer where
  "writeTLHelpPromoData = write_fobject
     [(- 1728664459, [wf ''_'' writeInt32, wf ''expires'' writeInt32]),
      (145021050, [wf ''_'' writeInt32, wf_flags ''flags'' [(''proxy'', 0), (''peer'', 3),
         (''psa_type'', 1), (''psa_message'', 2), (''custom_pending_suggestion'', 4)],
         wf ''expires'' writeInt32, wf_if ''flags'' 3 ''peer'' writeTLPeer,
         wf_if ''flags'' 1 ''psa_type'' writeString, wf_if ''flags'' 2 ''psa_message'' writeString,
         wf ''pending_suggestions'' (writeVector (Some writeString)),
         wf ''dismissed_suggestions'' (writeVector (Some writeString)),
         wf_if ''flags'' 4 ''custom_pending_suggestion'' writeTLPendingSuggestion,
         wf ''chats'' (writeVector (Some writeTLChat)),
         wf ''users'' (writeVector (Some writeTLUser))])]"

definition TL_HelpPromoData_table :: flag_table where
  "TL_HelpPromoData_table =
     [(- 1728664459, [Plain (''expires'', readInt32, writeInt32, enc_int32, is_VInt)]),
      (145021050, [Flags ''flags'' [(''proxy'', 0), (''peer'', 3), (''psa_type'', 1),
         (''psa_message'', 2), (''custom_pending_suggestion'', 4)],
        TrueBit ''flags'' 0 ''proxy'',
        Plain (''expires'', readInt32, writeInt32, enc_int32, is_VInt),
        Cond ''flags'' 3 (''peer'', readTLPeer, writeTLPeer, enc_fobject TL_Peer_table,
         ok_fobject TL_Peer_table),
        Cond ''flags'' 1 (''psa_type'', readString, writeString, enc_string, is_short_text),
        Cond ''flags'' 2 (''psa_message'', readString, writeString, enc_string, is_short_text),
        Plain (''pending_suggestions'', readVector (Some readString),
         writeVector (Some writeString), enc_vector enc_string, ok_vector is_short_text),
        Plain (''dismissed_suggestions'', readVector (Some readString),
         writeVector (Some writeString), enc_vector enc_string, ok_vector is_short_text),
        Cond ''flags'' 4 (''custom_pending_suggestion'', readTLPendingSuggestion,
         writeTLPendingSuggestion, enc_fobject TL_PendingSuggestion_table,
         ok_fobject TL_PendingSuggestion_table),
        Plain (''chats'', readVector (Some readTLChat), writeVector (Some writeTLChat),
         enc_vector (enc_fobject TL_Chat_table), ok_vector (ok_fobject TL_Chat_table)),
        Plain (''users'', readVector (Some readTLUser), writeVector (Some writeTLUser),
         enc_vector (enc_fobject TL_User_table), ok_vector (ok_fobject TL_User_table))])]"

interpretation tl_HelpPromoData: tl_codec readTLHelpPromoData writeTLHelpPromoData "enc_fobject TL_HelpPromoData_table" "ok_fobject TL_HelpPromoData_table"
  by (rule flag_schema_codec, unfold TL_HelpPromoData_table_def, intro flag_tableI)
    (simp_all add: readTLHelpPromoData_def writeTLHelpPromoData_def flag_schema_simps tl_Peer.tl_codec_axioms tl_Peer.vector_codec tl_PendingSuggestion.tl_codec_axioms tl_PendingSuggestion.vector_codec tl_Chat.tl_codec_axioms tl_Chat.vector_codec tl_User.tl_codec_axioms tl_User.vector_codec)

definition readTLStatsGroupTopPoster :: tl_reader where
  "readTLStatsGroupTopPoster = read_object
     [(- 1660637285, [rd ''user_id'' readInt64, rd ''messages'' readInt32,
         rd ''avg_chars'' readInt32])]"

definition writeTLStatsGroupTopPoster :: tl_writer where
  "writeTLStatsGroupTopPoster = write_fobject
     [(- 1660637285, [wf ''_'' writeInt32, wf ''user_id'' writeInt64, wf ''messages'' writeInt32,
         wf ''avg_chars'' writeInt32])]"

definition TL_StatsGroupTopPoster_table :: flag_table where
  "TL_StatsGroupTopPoster_table =
     [(- 1660637285, [Plain (''user_id'', readInt64, writeInt64, enc_int64, is_VLong),
        Plain (''messages'', readInt32, writeInt32, enc_int32, is_VInt),
        Plain (''avg_chars'', readInt32, writeInt32, enc_int32, is_VInt)])]"

interpretation tl_StatsGroupTopPoster: tl_codec readTLStatsGroupTopPoster writeTLStatsGroupTopPoster "enc_fobject TL_StatsGroupTopPoster_table" "ok_fobject TL_StatsGroupTopPoster_table"
  by (rule flag_schema_codec, unfold TL_StatsGroupTopPoster_table_def, intro flag_tableI)
    (simp_all add: readTLStatsGroupTopPoster_def writeTLStatsGroupTopPoster_def flag_schema_simps)

definition readTLStatsGroupTopAdmin :: tl_reader where
  "readTLStatsGroupTopAdmin = read_object
     [(- 682079097, [rd ''user_id'' readInt64, rd ''deleted'' readInt32, rd ''kicked'' readInt32,
         rd ''banned'' readInt32])]"

definition writeTLStatsGroupTopAdmin :: tl_writer where
  "writeTLStatsGroupTopAdmin = write_fobject
     [(- 682079097, [wf ''_'' writeInt32, wf ''user_id'' writeInt64, wf ''deleted'' writeInt32,
         wf ''kicked'' writeInt32, wf ''banned'' writeInt32])]"

definition TL_StatsGroupTopAdmin_table :: flag_table where
  "TL_StatsGroupTopAdmin_table =
     [(- 682079097, [Plain (''user_id'', readInt64, writeInt64, enc_int64, is_VLong),
        Plain (''deleted'', readInt32, writeInt32, enc_int32, is_VInt),
        Plain (''kicked'', readInt32, writeInt32, enc_int32, is_VInt),
        Plain (''banned'', readInt32, writeInt32, enc_int32, is_VInt)])]"

interpretation tl_StatsGroupTopAdmin: tl_codec readTLStatsGroupTopAdmin writeTLStatsGroupTopAdmin "enc_fobject TL_StatsGroupTopAdmin_table" "ok_fobject TL_StatsGroupTopAdmin_table"
  by (rule flag_schema_codec, unfold TL_StatsGroupTopAdmin_table_def, intro flag_tableI)
    (simp_all add: readTLStatsGroupTopAdmin_def writeTLStatsGroupTopAdmin_def flag_schema_simps)

definition readTLStatsGroupTopInviter :: tl_reader where
  "readTLStatsGroupTopInviter = read_object
     [(1398765469, [rd ''user_id'' readInt64, rd ''invitations'' readInt32])]"

definition writeTLStatsGroupTopInviter :: tl_writer where
  "writeTLStatsGroupTopInviter = write_fobject
     [(1398765469, [wf ''_'' writeInt32, wf ''user_id'' writeInt64,
         wf ''invitations'' writeInt32])]"

definition TL_StatsGroupTopInviter_table :: flag_table where
  "TL_StatsGroupTopInviter_table =
     [(1398765469, [Plain (''user_id'', readInt64, writeInt64, enc_int64, is_VLong),
        Plain (''invitations'', readInt32, writeInt32, enc_int32, is_VInt)])]"

interpretation tl_StatsGroupTopInviter: tl_codec readTLStatsGroupTopInviter writeTLStatsGroupTopInviter "enc_fobject TL_StatsGroupTopInviter_table" "ok_fobject TL_StatsGroupTopInviter_table"
  by (rule flag_schema_codec, unfold TL_StatsGroupTopInviter_table_def, intro flag_tableI)
    (simp_all add: readTLStatsGroupTopInviter_def writeTLStatsGroupTopInviter_def flag_schema_simps)

definition readTLDisallowedGiftsSettings :: tl_reader where
  "readTLDisallowedGiftsSettings = read_object
     [(1911715524, [rd ''flags'' readUInt32, set_if ''flags'' 0 ''disallow_unlimited_stargifts'',
         set_if ''flags'' 1 ''disallow_limited_stargifts'',
         set_if ''flags'' 2 ''disallow_unique_stargifts'',
         set_if ''flags'' 3 ''disallow_premium_gifts'',
         set_if ''flags'' 4 ''disallow_stargifts_from_channels''])]"

definition writeTLDisallowedGiftsSettings :: tl_writer where
  "writeTLDisallowedGiftsSettings = write_fobject
     [(1911715524, [wf ''_'' writeInt32, wf_flags ''flags'' [(''disallow_unlimited_stargifts'', 0),
         (''disallow_limited_stargifts'', 1), (''disallow_unique_stargifts'', 2),
         (''disallow_premium_gifts'', 3), (''disallow_stargifts_from_channels'', 4)]])]"

definition TL_DisallowedGiftsSettings_table :: flag_table where
  "TL_DisallowedGiftsSettings_table =
     [(1911715524, [Flags ''flags'' [(''disallow_unlimited_stargifts'', 0),
         (''disallow_limited_stargifts'', 1), (''disallow_unique_stargifts'', 2),
         (''disallow_premium_gifts'', 3), (''disallow_stargifts_from_channels'', 4)],
        TrueBit ''flags'' 0 ''disallow_unlimited_stargifts'',
        TrueBit ''flags'' 1 ''disallow_limited_stargifts'',
        TrueBit ''flags'' 2 ''disallow_unique_stargifts'',
        TrueBit ''flags'' 3 ''disallow_premium_gifts'',
        TrueBit ''flags'' 4 ''disallow_stargifts_from_channels''])]"

interpretation tl_DisallowedGiftsSettings: tl_codec readTLDisallowedGiftsSettings writeTLDisallowedGiftsSettings "enc_fobject TL_DisallowedGiftsSettings_table" "ok_fobject TL_DisallowedGiftsSettings_table"
  by (rule flag_schema_codec, unfold TL_DisallowedGiftsSettings_table_def, intro flag_tableI)
    (simp_all add: readTLDisallowedGiftsSettings_def writeTLDisallowedGiftsSettings_def flag_schema_simps)

definition readTLGlobalPrivacySettings :: tl_reader where
  "readTLGlobalPrivacySettings = read_object
     [(- 29248689, [rd ''flags'' readUInt32,
         set_if ''flags'' 0 ''archive_and_mute_new_noncontact_peers'',
         set_if ''flags'' 1 ''keep_archived_unmuted'',
         set_if ''flags'' 2 ''keep_archived_folders'', set_if ''flags'' 3 ''hide_read_marks'',
         set_if ''flags'' 4 ''new_noncontact_peers_require_premium'',
         set_if ''flags'' 7 ''display_gifts_button'',
         rd_if ''flags'' 5 ''noncontact_peers_paid_stars'' readInt64,
         rd_if ''flags'' 6 ''disallowed_gifts'' readTLDisallowedGiftsSettings])]"

definition writeTLGlobalPrivacySettings :: tl_writer where
  "writeTLGlobalPrivacySettings = write_fobject
     [(- 29248689, [wf ''_'' writeInt32,
         wf_flags ''flags'' [(''archive_and_mute_new_noncontact_peers'', 0),
         (''keep_archived_unmuted'', 1), (''keep_archived_folders'', 2), (''hide_read_marks'', 3),
         (''new_noncontact_peers_require_premium'', 4), (''display_gifts_button'', 7),
         (''noncontact_peers_paid_stars'', 5), (''disallowed_gifts'', 6)],
         wf_if ''flags'' 5 ''noncontact_peers_paid_stars'' writeInt64,
         wf_if ''flags'' 6 ''disallowed_gifts'' writeTLDisallowedGiftsSettings])]"

definition TL_GlobalPrivacySettings_table :: flag_table where
  "TL_GlobalPrivacySettings_table =
     [(- 29248689, [Flags ''flags'' [(''archive_and_mute_new_noncontact_peers'', 0),
         (''keep_archived_unmuted'', 1), (''keep_archived_folders'', 2), (''hide_read_marks'', 3),
         (''new_noncontact_peers_require_premium'', 4), (''display_gifts_button'', 7),
         (''noncontact_peers_paid_stars'', 5), (''disallowed_gifts'', 6)],
        TrueBit ''flags'' 0 ''archive_and_mute_new_noncontact_peers'',
        TrueBit ''flags'' 1 ''keep_archived_unmuted'',
        TrueBit ''flags'' 2 ''keep_archived_folders'',
        TrueBit ''flags'' 3 ''hide_read_marks'',
        TrueBit ''flags'' 4 ''new_noncontact_peers_require_premium'',
        TrueBit ''flags'' 7 ''display_gifts_button'',
        Cond ''flags'' 5 (''noncontact_peers_paid_stars'', readInt64, writeInt64, enc_int64,
         is_VLong),
        Cond ''flags'' 6 (''disallowed_gifts'', readTLDisallowedGiftsSettings,
         writeTLDisallowedGiftsSettings, enc_fobject TL_DisallowedGiftsSettings_table,
         ok_fobject TL_DisallowedGiftsSettings_table)])]"

interpretation tl_GlobalPrivacySettings: tl_codec readTLGlobalPrivacySettings writeTLGlobalPrivacySettings "enc_fobject TL_GlobalPrivacySettings_table" "ok_fobject TL_GlobalPrivacySettings_table"
  by (rule flag_schema_codec, unfold TL_GlobalPrivacySettings_table_def, intro flag_tableI)
    (simp_all add: readTLGlobalPrivacySettings_def writeTLGlobalPrivacySettings_def flag_schema_simps tl_DisallowedGiftsSettings.tl_codec_axioms)

definition readTLMessageReplies :: tl_reader where
  "readTLMessageReplies = read_object
     [(- 2083123262, [rd ''flags'' readUInt32, set_if ''flags'' 0 ''comments'',
         rd ''replies'' readInt32, rd ''replies_pts'' readInt32,
         rd_if ''flags'' 1 ''recent_repliers'' (readVector (Some readTLPeer)),
         rd_if ''flags'' 0 ''channel_id'' readInt64, rd_if ''flags'' 2 ''max_id'' readInt32,
         rd_if ''flags'' 3 ''read_max_id'' readInt32])]"

definition writeTLMessageReplies :: tl_writer where
  "writeTLMessageReplies = write_fobject
     [(- 2083123262, [wf ''_'' writeInt32, wf_flags ''flags'' [(''comments'', 0),
         (''recent_repliers'', 1), (''channel_id'', 0), (''max_id'', 2), (''read_max_id'', 3)],
         wf ''replies'' writeInt32, wf ''replies_pts'' writeInt32,
         wf_if ''flags'' 1 ''recent_repliers'' (writeVector (Some writeTLPeer)),
         wf_if ''flags'' 0 ''channel_id'' writeInt64, wf_if ''flags'' 2 ''max_id'' writeInt32,
         wf_if ''flags'' 3 ''read_max_id'' writeInt32])]"

definition TL_MessageReplies_table :: flag_table where
  "TL_MessageReplies_table =
     [(- 2083123262, [Flags ''flags'' [(''comments'', 0), (''recent_repliers'', 1),
         (''channel_id'', 0), (''max_id'', 2), (''read_max_id'', 3)],
        TrueBit ''flags'' 0 ''comments'',
        Plain (''replies'', readInt32, writeInt32, enc_int32, is_VInt),
        Plain (''replies_pts'', readInt32, writeInt32, enc_int32, is_VInt),
        Cond ''flags'' 1 (''recent_repliers'', readVector (Some readTLPeer),
         writeVector (Some writeTLPeer), enc_vector (enc_fobject TL_Peer_table),
         ok_vector (ok_fobject TL_Peer_table)),
        Cond ''flags'' 0 (''channel_id'', readInt64, writeInt64, enc_int64, is_VLong),
        Cond ''flags'' 2 (''max_id'', readInt32, writeInt32, enc_int32, is_VInt),
        Cond ''flags'' 3 (''read_max_id'', readInt32, writeInt32, enc_int32, is_VInt)])]"

interpretation tl_MessageReplies: tl_codec readTLMessageReplies writeTLMessageReplies "enc_fobject TL_MessageReplies_table" "ok_fobject TL_MessageReplies_table"
  by (rule flag_schema_codec, unfold TL_MessageReplies_table_def, intro flag_tableI)
    (simp_all add: readTLMessageReplies_def writeTLMessageReplies_def flag_schema_simps tl_Peer.tl_codec_axioms tl_Peer.vector_codec)

definition readTLMessageViews :: tl_reader where
  "readTLMessageViews = read_object
     [(1163625789, [rd ''flags'' readUInt32, rd_if ''flags'' 0 ''views'' readInt32,
         rd_if ''flags'' 1 ''forwards'' readInt32,
         rd_if ''flags'' 2 ''replies'' readTLMessageReplies])]"

definition writeTLMessageViews :: tl_writer where
  "writeTLMessageViews = write_fobject
     [(1163625789, [wf ''_'' writeInt32, wf_flags ''flags'' [(''views'', 0), (''forwards'', 1),
         (''replies'', 2)], wf_if ''flags'' 0 ''views'' writeInt32,
         wf_if ''flags'' 1 ''forwards'' writeInt32,
         wf_if ''flags'' 2 ''replies'' writeTLMessageReplies])]"

definition TL_MessageViews_table :: flag_table where
  "TL_MessageViews_table =
     [(1163625789, [Flags ''flags'' [(''views'', 0), (''forwards'', 1), (''replies'', 2)],
        Cond ''flags'' 0 (''views'', readInt32, writeInt32, enc_int32, is_VInt),
        Cond ''flags'' 1 (''forwards'', readInt32, writeInt32, enc_int32, is_VInt),
        Cond ''flags'' 2 (''replies'', readTLMessageReplies, writeTLMessageReplies,
         enc_fobject TL_MessageReplies_table, ok_fobject TL_MessageReplies_table)])]"

interpretation tl_MessageViews: tl_codec readTLMessageViews writeTLMessageViews "enc_fobject TL_MessageViews_table" "ok_fobject TL_MessageViews_table"
  by (rule flag_schema_codec, unfold TL_MessageViews_table_def, intro flag_tableI)
    (simp_all add: readTLMessageViews_def writeTLMessageViews_def flag_schema_simps tl_MessageReplies.tl_codec_axioms)

definition readTLMessagesMessageViews :: tl_reader where
  "readTLMessagesMessageViews = read_object
     [(- 1228606141, [rd ''views'' (readVector (Some readTLMessageViews)),
         rd ''chats'' (readVector (Some readTLChat)),
         rd ''users'' (readVector (Some readTLUser))])]"

definition writeTLMessagesMessageViews :: tl_writer where
  "writeTLMessagesMessageViews = write_fobject
     [(- 1228606141, [wf ''_'' writeInt32, wf ''views'' (writeVector (Some writeTLMessageViews)),
         wf ''chats'' (writeVector (Some writeTLChat)),
         wf ''users'' (writeVector (Some writeTLUser))])]"

definition TL_MessagesMessageViews_table :: flag_table where
  "TL_MessagesMessageViews_table =
     [(- 1228606141, [Plain (''views'', readVector (Some readTLMessageViews),
         writeVector (Some writeTLMessageViews), enc_vector (enc_fobject TL_MessageViews_table),
         ok_vector (ok_fobject TL_MessageViews_table)),
        Plain (''chats'', readVector (Some readTLChat), writeVector (Some writeTLChat),
         enc_vector (enc_fobject TL_Chat_table), ok_vector (ok_fobject TL_Chat_table)),
        Plain (''users'', readVector (Some readTLUser), writeVector (Some writeTLUser),
         enc_vector (enc_fobject TL_User_table), ok_vector (ok_fobject TL_User_table))])]"

interpretation tl_MessagesMessageViews: tl_codec readTLMessagesMessageViews writeTLMessagesMessageViews "enc_fobject TL_MessagesMessageViews_table" "ok_fobject TL_MessagesMessageViews_table"
  by (rule flag_schema_codec, unfold TL_MessagesMessageViews_table_def, intro flag_tableI)
    (simp_all add: readTLMessagesMessageViews_def writeTLMessagesMessageViews_def flag_schema_simps tl_MessageViews.tl_codec_axioms tl_MessageViews.vector_codec tl_Chat.tl_codec_axioms tl_Chat.vector_codec tl_User.tl_codec_axioms tl_User.vector_codec)

definition readTLStatsMessageStats :: tl_reader where
  "readTLStatsMessageStats = read_object
     [(2145983508, [rd ''views_graph'' readTLStatsGraph,
         rd ''reactions_by_emotion_graph'' readTLStatsGraph])]"

definition writeTLStatsMessageStats :: tl_writer where
  "writeTLStatsMessageStats = write_fobject
     [(2145983508, [wf ''_'' writeInt32, wf ''views_graph'' writeTLStatsGraph,
         wf ''reactions_by_emotion_graph'' writeTLStatsGraph])]"

definition TL_StatsMessageStats_table :: flag_table where
  "TL_StatsMessageStats_table =
     [(2145983508, [Plain (''views_graph'', readTLStatsGraph, writeTLStatsGraph,
         enc_fobject TL_StatsGraph_table, ok_fobject TL_StatsGraph_table),
        Plain (''reactions_by_emotion_graph'', readTLStatsGraph, writeTLStatsGraph,
         enc_fobject TL_StatsGraph_table, ok_fobject TL_StatsGraph_table)])]"

interpretation tl_StatsMessageStats: tl_codec readTLStatsMessageStats writeTLStatsMessageStats "enc_fobject TL_StatsMessageStats_table" "ok_fobject TL_StatsMessageStats_table"
  by (rule flag_schema_codec, unfold TL_StatsMessageStats_table_def, intro flag_tableI)
    (simp_all add: readTLStatsMessageStats_def writeTLStatsMessageStats_def flag_schema_simps tl_StatsGraph.tl_codec_axioms)

subsection \<open>The types since the last list at once\<close>

definition tl_types_part5 :: "(tl_reader \<times> tl_writer \<times> flag_table) list" where
  "tl_types_part5 =
     [(readTLPageRelatedArticle, writeTLPageRelatedArticle, TL_PageRelatedArticle_table),
      (readTLHelpSupportName, writeTLHelpSupportName, TL_HelpSupportName_table),
      (readTLHelpUserInfo, writeTLHelpUserInfo, TL_HelpUserInfo_table),
      (readTLPollAnswerVoters, writeTLPollAnswerVoters, TL_PollAnswerVoters_table),
      (readTLChatOnlines, writeTLChatOnlines, TL_ChatOnlines_table),
      (readTLStatsURL, writeTLStatsURL, TL_StatsURL_table),
      (readTLInputWallPaper, writeTLInputWallPaper, TL_InputWallPaper_table),
      (readTLWallPaperSettings, writeTLWallPaperSettings, TL_WallPaperSettings_table),
      (readTLAutoDownloadSettings, writeTLAutoDownloadSettings, TL_AutoDownloadSettings_table),
      (readTLAccountAutoDownloadSettings, writeTLAccountAutoDownloadSettings, TL_AccountAutoDownloadSettings_table),
      (readTLEmojiKeyword, writeTLEmojiKeyword, TL_EmojiKeyword_table),
      (readTLEmojiKeywordsDifference, writeTLEmojiKeywordsDifference, TL_EmojiKeywordsDifference_table),
      (readTLEmojiURL, writeTLEmojiURL, TL_EmojiURL_table),
      (readTLEmojiLanguage, writeTLEmojiLanguage, TL_EmojiLanguage_table),
      (readTLFolder, writeTLFolder, TL_Folder_table),
      (readTLInputFolderPeer, writeTLInputFolderPeer, TL_InputFolderPeer_table),
      (readTLFolderPeer, writeTLFolderPeer, TL_FolderPeer_table),
      (readTLMessagesSearchCounter, writeTLMessagesSearchCounter, TL_MessagesSearchCounter_table),
      (readTLUrlAuthResult, writeTLUrlAuthResult, TL_UrlAuthResult_table),
      (readTLPeerLocated, writeTLPeerLocated, TL_PeerLocated_table),
      (readTLInputTheme, writeTLInputTheme, TL_InputTheme_table),
      (readTLAuthLoginToken, writeTLAuthLoginToken, TL_AuthLoginToken_table),
      (readTLAccountContentSettings, writeTLAccountContentSettings, TL_AccountContentSettings_table),
      (readTLMessagesInactiveChats, writeTLMessagesInactiveChats, TL_MessagesInactiveChats_table),
      (readTLBaseTheme, writeTLBaseTheme, TL_BaseTheme_table),
      (readTLInputThemeSettings, writeTLInputThemeSettings, TL_InputThemeSettings_table),
      (readTLMessagePeerVote, writeTLMessagePeerVote, TL_MessagePeerVote_table),
      (readTLMessagesVotesList, writeTLMessagesVotesList, TL_MessagesVotesList_table),
      (readTLBankCardOpenUrl, writeTLBankCardOpenUrl, TL_BankCardOpenUrl_table),
      (readTLPaymentsBankCardData, writeTLPaymentsBankCardData, TL_PaymentsBankCardData_table),
      (readTLDialogFilterSuggested, writeTLDialogFilterSuggested, TL_DialogFilterSuggested_table),
      (readTLStatsDateRangeDays, writeTLStatsDateRangeDays, TL_StatsDateRangeDays_table),
      (readTLStatsGraph, writeTLStatsGraph, TL_StatsGraph_table),
      (readTLPendingSuggestion, writeTLPendingSuggestion, TL_PendingSuggestion_table),
      (readTLHelpPromoData, writeTLHelpPromoData, TL_HelpPromoData_table),
      (readTLStatsGroupTopPoster, writeTLStatsGroupTopPoster, TL_StatsGroupTopPoster_table),
      (readTLStatsGroupTopAdmin, writeTLStatsGroupTopAdmin, TL_StatsGroupTopAdmin_table),
      (readTLStatsGroupTopInviter, writeTLStatsGroupTopInviter, TL_StatsGroupTopInviter_table),
      (readTLDisallowedGiftsSettings, writeTLDisallowedGiftsSettings, TL_DisallowedGiftsSettings_table),
      (readTLGlobalPrivacySettings, writeTLGlobalPrivacySettings, TL_GlobalPrivacySettings_table),
      (readTLMessageReplies, writeTLMessageReplies, TL_MessageReplies_table),
      (readTLMessageViews, writeTLMessageViews, TL_MessageViews_table),
      (readTLMessagesMessageViews, writeTLMessagesMessageViews, TL_MessagesMessageViews_table),
      (readTLStatsMessageStats, writeTLStatsMessageStats, TL_StatsMessageStats_table)]"

lemma tl_types_part5_codec: "(R, W, t) \<in> set tl_types_part5 \<Longrightarrow> tl_codec R W (enc_fobject t) (ok_fobject t)"
  by (auto simp: tl_types_part5_def
      intro: tl_PageRelatedArticle.tl_codec_axioms tl_HelpSupportName.tl_codec_axioms
         tl_HelpUserInfo.tl_codec_axioms tl_PollAnswerVoters.tl_codec_axioms
         tl_ChatOnlines.tl_codec_axioms tl_StatsURL.tl_codec_axioms
         tl_InputWallPaper.tl_codec_axioms tl_WallPaperSettings.tl_codec_axioms
         tl_AutoDownloadSettings.tl_codec_axioms tl_AccountAutoDownloadSettings.tl_codec_axioms
         tl_EmojiKeyword.tl_codec_axioms tl_EmojiKeywordsDifference.tl_codec_axioms
         tl_EmojiURL.tl_codec_axioms tl_EmojiLanguage.tl_codec_axioms tl_Folder.tl_codec_axioms
         tl_InputFolderPeer.tl_codec_axioms tl_FolderPeer.tl_codec_axioms
         tl_MessagesSearchCounter.tl_codec_axioms tl_UrlAuthResult.tl_codec_axioms
         tl_PeerLocated.tl_codec_axioms tl_InputTheme.tl_codec_axioms
         tl_AuthLoginToken.tl_codec_axioms tl_AccountContentSettings.tl_codec_axioms
         tl_MessagesInactiveChats.tl_codec_axioms tl_BaseTheme.tl_codec_axioms
         tl_InputThemeSettings.tl_codec_axioms tl_MessagePeerVote.tl_codec_axioms
         tl_MessagesVotesList.tl_codec_axioms tl_BankCardOpenUrl.tl_codec_axioms
         tl_PaymentsBankCardData.tl_codec_axioms tl_DialogFilterSuggested.tl_codec_axioms
         tl_StatsDateRangeDays.tl_codec_axioms tl_StatsGraph.tl_codec_axioms
         tl_PendingSuggestion.tl_codec_axioms tl_HelpPromoData.tl_codec_axioms
         tl_StatsGroupTopPoster.tl_codec_axioms tl_StatsGroupTopAdmin.tl_codec_axioms
         tl_StatsGroupTopInviter.tl_codec_axioms tl_DisallowedGiftsSettings.tl_codec_axioms
         tl_GlobalPrivacySettings.tl_codec_axioms tl_MessageReplies.tl_codec_axioms
         tl_MessageViews.tl_codec_axioms tl_MessagesMessageViews.tl_codec_axioms
         tl_StatsMessageStats.tl_codec_axioms)

definition readTLGroupCall :: tl_reader where
  "readTLGroupCall = read_object
     [(2004925620, [rd ''id'' readInt64, rd ''access_hash'' readInt64, rd ''duration'' readInt32]),
      (- 273500649, [rd ''flags'' readUInt32, set_if ''flags'' 1 ''join_muted'',
         set_if ''flags'' 2 ''can_change_join_muted'', set_if ''flags'' 6 ''join_date_asc'',
         set_if ''flags'' 8 ''schedule_start_subscribed'', set_if ''flags'' 9 ''can_start_video'',
         set_if ''flags'' 11 ''record_video_active'', set_if ''flags'' 12 ''rtmp_stream'',
         set_if ''flags'' 13 ''listeners_hidden'', set_if ''flags'' 14 ''conference'',
         set_if ''flags'' 15 ''creator'', set_if ''flags'' 17 ''messages_enabled'',
         set_if ''flags'' 18 ''can_change_messages_enabled'', set_if ''flags'' 19 ''min'',
         rd ''id'' readInt64, rd ''access_hash'' readInt64, rd ''participants_count'' readInt32,
         rd_if ''flags'' 3 ''title'' readString, rd_if ''flags'' 4 ''stream_dc_id'' readInt32,
         rd_if ''flags'' 5 ''record_start_date'' readInt32,
         rd_if ''flags'' 7 ''schedule_date'' readInt32,
         rd_if ''flags'' 10 ''unmuted_video_count'' readInt32,
         rd ''unmuted_video_limit'' readInt32, rd ''version'' readInt32,
         rd_if ''flags'' 16 ''invite_link'' readString,
         rd_if ''flags'' 20 ''send_paid_messages_stars'' readInt64,
         rd_if ''flags'' 21 ''default_send_as'' readTLPeer])]"

definition writeTLGroupCall :: tl_writer where
  "writeTLGroupCall = write_fobject
     [(2004925620, [wf ''_'' writeInt32, wf ''id'' writeInt64, wf ''access_hash'' writeInt64,
         wf ''duration'' writeInt32]),
      (- 273500649, [wf ''_'' writeInt32, wf_flags ''flags'' [(''join_muted'', 1),
         (''can_change_join_muted'', 2), (''join_date_asc'', 6), (''schedule_start_subscribed'',
         8), (''can_start_video'', 9), (''record_video_active'', 11), (''rtmp_stream'', 12),
         (''listeners_hidden'', 13), (''conference'', 14), (''creator'', 15),
         (''messages_enabled'', 17), (''can_change_messages_enabled'', 18), (''min'', 19),
         (''title'', 3), (''stream_dc_id'', 4), (''record_start_date'', 5), (''schedule_date'', 7),
         (''unmuted_video_count'', 10), (''invite_link'', 16), (''send_paid_messages_stars'', 20),
         (''default_send_as'', 21)], wf ''id'' writeInt64, wf ''access_hash'' writeInt64,
         wf ''participants_count'' writeInt32, wf_if ''flags'' 3 ''title'' writeString,
         wf_if ''flags'' 4 ''stream_dc_id'' writeInt32,
         wf_if ''flags'' 5 ''record_start_date'' writeInt32,
         wf_if ''flags'' 7 ''schedule_date'' writeInt32,
         wf_if ''flags'' 10 ''unmuted_video_count'' writeInt32,
         wf ''unmuted_video_limit'' writeInt32, wf ''version'' writeInt32,
         wf_if ''flags'' 16 ''invite_link'' writeString,
         wf_if ''flags'' 20 ''send_paid_messages_stars'' writeInt64,
         wf_if ''flags'' 21 ''default_send_as'' writeTLPeer])]"

definition TL_GroupCall_table :: flag_table where
  "TL_GroupCall_table =
     [(2004925620, [Plain (''id'', readInt64, writeInt64, enc_int64, is_VLong),
        Plain (''access_hash'', readInt64, writeInt64, enc_int64, is_VLong),
        Plain (''duration'', readInt32, writeInt32, enc_int32, is_VInt)]),
      (- 273500649, [Flags ''flags'' [(''join_muted'', 1), (''can_change_join_muted'', 2),
         (''join_date_asc'', 6), (''schedule_start_subscribed'', 8), (''can_start_video'', 9),
         (''record_video_active'', 11), (''rtmp_stream'', 12), (''listeners_hidden'', 13),
         (''conference'', 14), (''creator'', 15), (''messages_enabled'', 17),
         (''can_change_messages_enabled'', 18), (''min'', 19), (''title'', 3), (''stream_dc_id'',
         4), (''record_start_date'', 5), (''schedule_date'', 7), (''unmuted_video_count'', 10),
         (''invite_link'', 16), (''send_paid_messages_stars'', 20), (''default_send_as'', 21)],
        TrueBit ''flags'' 1 ''join_muted'',
        TrueBit ''flags'' 2 ''can_change_join_muted'',
        TrueBit ''flags'' 6 ''join_date_asc'',
        TrueBit ''flags'' 8 ''schedule_start_subscribed'',
        TrueBit ''flags'' 9 ''can_start_video'',
        TrueBit ''flags'' 11 ''record_video_active'',
        TrueBit ''flags'' 12 ''rtmp_stream'',
        TrueBit ''flags'' 13 ''listeners_hidden'',
        TrueBit ''flags'' 14 ''conference'',
        TrueBit ''flags'' 15 ''creator'',
        TrueBit ''flags'' 17 ''messages_enabled'',
        TrueBit ''flags'' 18 ''can_change_messages_enabled'',
        TrueBit ''flags'' 19 ''min'',
        Plain (''id'', readInt64, writeInt64, enc_int64, is_VLong),
        Plain (''access_hash'', readInt64, writeInt64, enc_int64, is_VLong),
        Plain (''participants_count'', readInt32, writeInt32, enc_int32, is_VInt),
        Cond ''flags'' 3 (''title'', readString, writeString, enc_string, is_short_text),
        Cond ''flags'' 4 (''stream_dc_id'', readInt32, writeInt32, enc_int32, is_VInt),
        Cond ''flags'' 5 (''record_start_date'', readInt32, writeInt32, enc_int32, is_VInt),
        Cond ''flags'' 7 (''schedule_date'', readInt32, writeInt32, enc_int32, is_VInt),
        Cond ''flags'' 10 (''unmuted_video_count'', readInt32, writeInt32, enc_int32, is_VInt),
        Plain (''unmuted_video_limit'', readInt32, writeInt32, enc_int32, is_VInt),
        Plain (''version'', readInt32, writeInt32, enc_int32, is_VInt),
        Cond ''flags'' 16 (''invite_link'', readString, writeString, enc_string, is_short_text),
        Cond ''flags'' 20 (''send_paid_messages_stars'', readInt64, writeInt64, enc_int64,
         is_VLong),
        Cond ''flags'' 21 (''default_send_as'', readTLPeer, writeTLPeer, enc_fobject TL_Peer_table,
         ok_fobject TL_Peer_table)])]"

interpretation tl_GroupCall: tl_codec readTLGroupCall writeTLGroupCall "enc_fobject TL_GroupCall_table" "ok_fobject TL_GroupCall_table"
  by (rule flag_schema_codec, unfold TL_GroupCall_table_def, intro flag_tableI)
    (simp_all add: readTLGroupCall_def writeTLGroupCall_def flag_schema_simps tl_Peer.tl_codec_axioms)

definition readTLGroupCallParticipantVideoSourceGroup :: tl_reader where
  "readTLGroupCallParticipantVideoSourceGroup = read_object
     [(- 592373577, [rd ''semantics'' readString, rd ''sources'' (readVector (Some readInt32))])]"

definition writeTLGroupCallParticipantVideoSourceGroup :: tl_writer where
  "writeTLGroupCallParticipantVideoSourceGroup = write_fobject
     [(- 592373577, [wf ''_'' writeInt32, wf ''semantics'' writeString,
         wf ''sources'' (writeVector (Some writeInt32))])]"

definition TL_GroupCallParticipantVideoSourceGroup_table :: flag_table where
  "TL_GroupCallParticipantVideoSourceGroup_table =
     [(- 592373577, [Plain (''semantics'', readString, writeString, enc_string, is_short_text),
        Plain (''sources'', readVector (Some readInt32), writeVector (Some writeInt32),
         enc_vector enc_int32, ok_vector is_VInt)])]"

interpretation tl_GroupCallParticipantVideoSourceGroup: tl_codec readTLGroupCallParticipantVideoSourceGroup writeTLGroupCallParticipantVideoSourceGroup "enc_fobject TL_GroupCallParticipantVideoSourceGroup_table" "ok_fobject TL_GroupCallParticipantVideoSourceGroup_table"
  by (rule flag_schema_codec, unfold TL_GroupCallParticipantVideoSourceGroup_table_def, intro flag_tableI)
    (simp_all add: readTLGroupCallParticipantVideoSourceGroup_def writeTLGroupCallParticipantVideoSourceGroup_def flag_schema_simps)

definition readTLGroupCallParticipantVideo :: tl_reader where
  "readTLGroupCallParticipantVideo = read_object
     [(1735736008, [rd ''flags'' readUInt32, set_if ''flags'' 0 ''paused'',
         rd ''endpoint'' readString,
         rd ''source_groups'' (readVector (Some readTLGroupCallParticipantVideoSourceGroup)),
         rd_if ''flags'' 1 ''audio_source'' readInt32])]"

definition writeTLGroupCallParticipantVideo :: tl_writer where
  "writeTLGroupCallParticipantVideo = write_fobject
     [(1735736008, [wf ''_'' writeInt32, wf_flags ''flags'' [(''paused'', 0), (''audio_source'',
         1)], wf ''endpoint'' writeString,
         wf ''source_groups'' (writeVector (Some writeTLGroupCallParticipantVideoSourceGroup)),
         wf_if ''flags'' 1 ''audio_source'' writeInt32])]"

definition TL_GroupCallParticipantVideo_table :: flag_table where
  "TL_GroupCallParticipantVideo_table =
     [(1735736008, [Flags ''flags'' [(''paused'', 0), (''audio_source'', 1)],
        TrueBit ''flags'' 0 ''paused'',
        Plain (''endpoint'', readString, writeString, enc_string, is_short_text),
        Plain (''source_groups'', readVector (Some readTLGroupCallParticipantVideoSourceGroup),
         writeVector (Some writeTLGroupCallParticipantVideoSourceGroup),
         enc_vector (enc_fobject TL_GroupCallParticipantVideoSourceGroup_table),
         ok_vector (ok_fobject TL_GroupCallParticipantVideoSourceGroup_table)),
        Cond ''flags'' 1 (''audio_source'', readInt32, writeInt32, enc_int32, is_VInt)])]"

interpretation tl_GroupCallParticipantVideo: tl_codec readTLGroupCallParticipantVideo writeTLGroupCallParticipantVideo "enc_fobject TL_GroupCallParticipantVideo_table" "ok_fobject TL_GroupCallParticipantVideo_table"
  by (rule flag_schema_codec, unfold TL_GroupCallParticipantVideo_table_def, intro flag_tableI)
    (simp_all add: readTLGroupCallParticipantVideo_def writeTLGroupCallParticipantVideo_def flag_schema_simps tl_GroupCallParticipantVideoSourceGroup.tl_codec_axioms tl_GroupCallParticipantVideoSourceGroup.vector_codec)

definition readTLGroupCallParticipant :: tl_reader where
  "readTLGroupCallParticipant = read_object
     [(708691884, [rd ''flags'' readUInt32, set_if ''flags'' 0 ''muted'',
         set_if ''flags'' 1 ''left'', set_if ''flags'' 2 ''can_self_unmute'',
         set_if ''flags'' 4 ''just_joined'', set_if ''flags'' 5 ''versioned'',
         set_if ''flags'' 8 ''min'', set_if ''flags'' 9 ''muted_by_you'',
         set_if ''flags'' 10 ''volume_by_admin'', set_if ''flags'' 12 ''self'',
         set_if ''flags'' 15 ''video_joined'', rd ''peer'' readTLPeer, rd ''date'' readInt32,
         rd_if ''flags'' 3 ''active_date'' readInt32, rd ''source'' readInt32,
         rd_if ''flags'' 7 ''volume'' readInt32, rd_if ''flags'' 11 ''about'' readString,
         rd_if ''flags'' 13 ''raise_hand_rating'' readInt64,
         rd_if ''flags'' 6 ''video'' readTLGroupCallParticipantVideo,
         rd_if ''flags'' 14 ''presentation'' readTLGroupCallParticipantVideo,
         rd_if ''flags'' 16 ''paid_stars_total'' readInt64])]"

definition writeTLGroupCallParticipant :: tl_writer where
  "writeTLGroupCallParticipant = write_fobject
     [(708691884, [wf ''_'' writeInt32, wf_flags ''flags'' [(''muted'', 0), (''left'', 1),
         (''can_self_unmute'', 2), (''just_joined'', 4), (''versioned'', 5), (''min'', 8),
         (''muted_by_you'', 9), (''volume_by_admin'', 10), (''self'', 12), (''video_joined'', 15),
         (''active_date'', 3), (''volume'', 7), (''about'', 11), (''raise_hand_rating'', 13),
         (''video'', 6), (''presentation'', 14), (''paid_stars_total'', 16)],
         wf ''peer'' writeTLPeer, wf ''date'' writeInt32,
         wf_if ''flags'' 3 ''active_date'' writeInt32, wf ''source'' writeInt32,
         wf_if ''flags'' 7 ''volume'' writeInt32, wf_if ''flags'' 11 ''about'' writeString,
         wf_if ''flags'' 13 ''raise_hand_rating'' writeInt64,
         wf_if ''flags'' 6 ''video'' writeTLGroupCallParticipantVideo,
         wf_if ''flags'' 14 ''presentation'' writeTLGroupCallParticipantVideo,
         wf_if ''flags'' 16 ''paid_stars_total'' writeInt64])]"

definition TL_GroupCallParticipant_table :: flag_table where
  "TL_GroupCallParticipant_table =
     [(708691884, [Flags ''flags'' [(''muted'', 0), (''left'', 1), (''can_self_unmute'', 2),
         (''just_joined'', 4), (''versioned'', 5), (''min'', 8), (''muted_by_you'', 9),
         (''volume_by_admin'', 10), (''self'', 12), (''video_joined'', 15), (''active_date'', 3),
         (''volume'', 7), (''about'', 11), (''raise_hand_rating'', 13), (''video'', 6),
         (''presentation'', 14), (''paid_stars_total'', 16)],
        TrueBit ''flags'' 0 ''muted'',
        TrueBit ''flags'' 1 ''left'',
        TrueBit ''flags'' 2 ''can_self_unmute'',
        TrueBit ''flags'' 4 ''just_joined'',
        TrueBit ''flags'' 5 ''versioned'',
        TrueBit ''flags'' 8 ''min'',
        TrueBit ''flags'' 9 ''muted_by_you'',
        TrueBit ''flags'' 10 ''volume_by_admin'',
        TrueBit ''flags'' 12 ''self'',
        TrueBit ''flags'' 15 ''video_joined'',
        Plain (''peer'', readTLPeer, writeTLPeer, enc_fobject TL_Peer_table,
         ok_fobject TL_Peer_table),
        Plain (''date'', readInt32, writeInt32, enc_int32, is_VInt),
        Cond ''flags'' 3 (''active_date'', readInt32, writeInt32, enc_int32, is_VInt),
        Plain (''source'', readInt32, writeInt32, enc_int32, is_VInt),
        Cond ''flags'' 7 (''volume'', readInt32, writeInt32, enc_int32, is_VInt),
        Cond ''flags'' 11 (''about'', readString, writeString, enc_string, is_short_text),
        Cond ''flags'' 13 (''raise_hand_rating'', readInt64, writeInt64, enc_int64, is_VLong),
        Cond ''flags'' 6 (''video'', readTLGroupCallParticipantVideo,
         writeTLGroupCallParticipantVideo, enc_fobject TL_GroupCallParticipantVideo_table,
         ok_fobject TL_GroupCallParticipantVideo_table),
        Cond ''flags'' 14 (''presentation'', readTLGroupCallParticipantVideo,
         writeTLGroupCallParticipantVideo, enc_fobject TL_GroupCallParticipantVideo_table,
         ok_fobject TL_GroupCallParticipantVideo_table),
        Cond ''flags'' 16 (''paid_stars_total'', readInt64, writeInt64, enc_int64, is_VLong)])]"

interpretation tl_GroupCallParticipant: tl_codec readTLGroupCallParticipant writeTLGroupCallParticipant "enc_fobject TL_GroupCallParticipant_table" "ok_fobject TL_GroupCallParticipant_table"
  by (rule flag_schema_codec, unfold TL_GroupCallParticipant_table_def, intro flag_tableI)
    (simp_all add: readTLGroupCallParticipant_def writeTLGroupCallParticipant_def flag_schema_simps tl_Peer.tl_codec_axioms tl_GroupCallParticipantVideo.tl_codec_axioms)

definition readTLPhoneGroupCall :: tl_reader where
  "readTLPhoneGroupCall = read_object
     [(- 1636664659, [rd ''call'' readTLGroupCall,
         rd ''participants'' (readVector (Some readTLGroupCallParticipant)),
         rd ''participants_next_offset'' readString, rd ''chats'' (readVector (Some readTLChat)),
         rd ''users'' (readVector (Some readTLUser))])]"

definition writeTLPhoneGroupCall :: tl_writer where
  "writeTLPhoneGroupCall = write_fobject
     [(- 1636664659, [wf ''_'' writeInt32, wf ''call'' writeTLGroupCall,
         wf ''participants'' (writeVector (Some writeTLGroupCallParticipant)),
         wf ''participants_next_offset'' writeString,
         wf ''chats'' (writeVector (Some writeTLChat)),
         wf ''users'' (writeVector (Some writeTLUser))])]"

definition TL_PhoneGroupCall_table :: flag_table where
  "TL_PhoneGroupCall_table =
     [(- 1636664659, [Plain (''call'', readTLGroupCall, writeTLGroupCall,
         enc_fobject TL_GroupCall_table, ok_fobject TL_GroupCall_table),
        Plain (''participants'', readVector (Some readTLGroupCallParticipant),
         writeVector (Some writeTLGroupCallParticipant),
         enc_vector (enc_fobject TL_GroupCallParticipant_table),
         ok_vector (ok_fobject TL_GroupCallParticipant_table)),
        Plain (''participants_next_offset'', readString, writeString, enc_string, is_short_text),
        Plain (''chats'', readVector (Some readTLChat), writeVector (Some writeTLChat),
         enc_vector (enc_fobject TL_Chat_table), ok_vector (ok_fobject TL_Chat_table)),
        Plain (''users'', readVector (Some readTLUser), writeVector (Some writeTLUser),
         enc_vector (enc_fobject TL_User_table), ok_vector (ok_fobject TL_User_table))])]"

interpretation tl_PhoneGroupCall: tl_codec readTLPhoneGroupCall writeTLPhoneGroupCall "enc_fobject TL_PhoneGroupCall_table" "ok_fobject TL_PhoneGroupCall_table"
  by (rule flag_schema_codec, unfold TL_PhoneGroupCall_table_def, intro flag_tableI)
    (simp_all add: readTLPhoneGroupCall_def writeTLPhoneGroupCall_def flag_schema_simps tl_GroupCall.tl_codec_axioms tl_GroupCall.vector_codec tl_GroupCallParticipant.tl_codec_axioms tl_GroupCallParticipant.vector_codec tl_Chat.tl_codec_axioms tl_Chat.vector_codec tl_User.tl_codec_axioms tl_User.vector_codec)

definition readTLPhoneGroupParticipants :: tl_reader where
  "readTLPhoneGroupParticipants = read_object
     [(- 193506890, [rd ''count'' readInt32,
         rd ''participants'' (readVector (Some readTLGroupCallParticipant)),
         rd ''next_offset'' readString, rd ''chats'' (readVector (Some readTLChat)),
         rd ''users'' (readVector (Some readTLUser)), rd ''version'' readInt32])]"

definition writeTLPhoneGroupParticipants :: tl_writer where
  "writeTLPhoneGroupParticipants = write_fobject
     [(- 193506890, [wf ''_'' writeInt32, wf ''count'' writeInt32,
         wf ''participants'' (writeVector (Some writeTLGroupCallParticipant)),
         wf ''next_offset'' writeString, wf ''chats'' (writeVector (Some writeTLChat)),
         wf ''users'' (writeVector (Some writeTLUser)), wf ''version'' writeInt32])]"

definition TL_PhoneGroupParticipants_table :: flag_table where
  "TL_PhoneGroupParticipants_table =
     [(- 193506890, [Plain (''count'', readInt32, writeInt32, enc_int32, is_VInt),
        Plain (''participants'', readVector (Some readTLGroupCallParticipant),
         writeVector (Some writeTLGroupCallParticipant),
         enc_vector (enc_fobject TL_GroupCallParticipant_table),
         ok_vector (ok_fobject TL_GroupCallParticipant_table)),
        Plain (''next_offset'', readString, writeString, enc_string, is_short_text),
        Plain (''chats'', readVector (Some readTLChat), writeVector (Some writeTLChat),
         enc_vector (enc_fobject TL_Chat_table), ok_vector (ok_fobject TL_Chat_table)),
        Plain (''users'', readVector (Some readTLUser), writeVector (Some writeTLUser),
         enc_vector (enc_fobject TL_User_table), ok_vector (ok_fobject TL_User_table)),
        Plain (''version'', readInt32, writeInt32, enc_int32, is_VInt)])]"

interpretation tl_PhoneGroupParticipants: tl_codec readTLPhoneGroupParticipants writeTLPhoneGroupParticipants "enc_fobject TL_PhoneGroupParticipants_table" "ok_fobject TL_PhoneGroupParticipants_table"
  by (rule flag_schema_codec, unfold TL_PhoneGroupParticipants_table_def, intro flag_tableI)
    (simp_all add: readTLPhoneGroupParticipants_def writeTLPhoneGroupParticipants_def flag_schema_simps tl_GroupCallParticipant.tl_codec_axioms tl_GroupCallParticipant.vector_codec tl_Chat.tl_codec_axioms tl_Chat.vector_codec tl_User.tl_codec_axioms tl_User.vector_codec)

definition readTLMessagesHistoryImport :: tl_reader where
  "readTLMessagesHistoryImport = read_object
     [(375566091, [rd ''id'' readInt64])]"

definition writeTLMessagesHistoryImport :: tl_writer where
  "writeTLMessagesHistoryImport = write_fobject
     [(375566091, [wf ''_'' writeInt32, wf ''id'' writeInt64])]"

definition TL_MessagesHistoryImport_table :: flag_table where
  "TL_MessagesHistoryImport_table =
     [(375566091, [Plain (''id'', readInt64, writeInt64, enc_int64, is_VLong)])]"

interpretation tl_MessagesHistoryImport: tl_codec readTLMessagesHistoryImport writeTLMessagesHistoryImport "enc_fobject TL_MessagesHistoryImport_table" "ok_fobject TL_MessagesHistoryImport_table"
  by (rule flag_schema_codec, unfold TL_MessagesHistoryImport_table_def, intro flag_tableI)
    (simp_all add: readTLMessagesHistoryImport_def writeTLMessagesHistoryImport_def flag_schema_simps)

definition readTLMessagesHistoryImportParsed :: tl_reader where
  "readTLMessagesHistoryImportParsed = read_object
     [(1578088377, [rd ''flags'' readUInt32, set_if ''flags'' 0 ''pm'',
         set_if ''flags'' 1 ''group'', rd_if ''flags'' 2 ''title'' readString])]"

definition writeTLMessagesHistoryImportParsed :: tl_writer where
  "writeTLMessagesHistoryImportParsed = write_fobject
     [(1578088377, [wf ''_'' writeInt32, wf_flags ''flags'' [(''pm'', 0), (''group'', 1),
         (''title'', 2)], wf_if ''flags'' 2 ''title'' writeString])]"

definition TL_MessagesHistoryImportParsed_table :: flag_table where
  "TL_MessagesHistoryImportParsed_table =
     [(1578088377, [Flags ''flags'' [(''pm'', 0), (''group'', 1), (''title'', 2)],
        TrueBit ''flags'' 0 ''pm'',
        TrueBit ''flags'' 1 ''group'',
        Cond ''flags'' 2 (''title'', readString, writeString, enc_string, is_short_text)])]"

interpretation tl_MessagesHistoryImportParsed: tl_codec readTLMessagesHistoryImportParsed writeTLMessagesHistoryImportParsed "enc_fobject TL_MessagesHistoryImportParsed_table" "ok_fobject TL_MessagesHistoryImportParsed_table"
  by (rule flag_schema_codec, unfold TL_MessagesHistoryImportParsed_table_def, intro flag_tableI)
    (simp_all add: readTLMessagesHistoryImportParsed_def writeTLMessagesHistoryImportParsed_def flag_schema_simps)

definition readTLMessagesAffectedFoundMessages :: tl_reader where
  "readTLMessagesAffectedFoundMessages = read_object
     [(- 275956116, [rd ''pts'' readInt32, rd ''pts_count'' readInt32, rd ''offset'' readInt32,
         rd ''messages'' (readVector (Some readInt32))])]"

definition writeTLMessagesAffectedFoundMessages :: tl_writer where
  "writeTLMessagesAffectedFoundMessages = write_fobject
     [(- 275956116, [wf ''_'' writeInt32, wf ''pts'' writeInt32, wf ''pts_count'' writeInt32,
         wf ''offset'' writeInt32, wf ''messages'' (writeVector (Some writeInt32))])]"

definition TL_MessagesAffectedFoundMessages_table :: flag_table where
  "TL_MessagesAffectedFoundMessages_table =
     [(- 275956116, [Plain (''pts'', readInt32, writeInt32, enc_int32, is_VInt),
        Plain (''pts_count'', readInt32, writeInt32, enc_int32, is_VInt),
        Plain (''offset'', readInt32, writeInt32, enc_int32, is_VInt),
        Plain (''messages'', readVector (Some readInt32), writeVector (Some writeInt32),
         enc_vector enc_int32, ok_vector is_VInt)])]"

interpretation tl_MessagesAffectedFoundMessages: tl_codec readTLMessagesAffectedFoundMessages writeTLMessagesAffectedFoundMessages "enc_fobject TL_MessagesAffectedFoundMessages_table" "ok_fobject TL_MessagesAffectedFoundMessages_table"
  by (rule flag_schema_codec, unfold TL_MessagesAffectedFoundMessages_table_def, intro flag_tableI)
    (simp_all add: readTLMessagesAffectedFoundMessages_def writeTLMessagesAffectedFoundMessages_def flag_schema_simps)

definition readTLChatInviteImporter :: tl_reader where
  "readTLChatInviteImporter = read_object
     [(- 1940201511, [rd ''flags'' readUInt32, set_if ''flags'' 0 ''requested'',
         set_if ''flags'' 3 ''via_chatlist'', rd ''user_id'' readInt64, rd ''date'' readInt32,
         rd_if ''flags'' 2 ''about'' readString, rd_if ''flags'' 1 ''approved_by'' readInt64])]"

definition writeTLChatInviteImporter :: tl_writer where
  "writeTLChatInviteImporter = write_fobject
     [(- 1940201511, [wf ''_'' writeInt32, wf_flags ''flags'' [(''requested'', 0),
         (''via_chatlist'', 3), (''about'', 2), (''approved_by'', 1)], wf ''user_id'' writeInt64,
         wf ''date'' writeInt32, wf_if ''flags'' 2 ''about'' writeString,
         wf_if ''flags'' 1 ''approved_by'' writeInt64])]"

definition TL_ChatInviteImporter_table :: flag_table where
  "TL_ChatInviteImporter_table =
     [(- 1940201511, [Flags ''flags'' [(''requested'', 0), (''via_chatlist'', 3), (''about'', 2),
         (''approved_by'', 1)],
        TrueBit ''flags'' 0 ''requested'',
        TrueBit ''flags'' 3 ''via_chatlist'',
        Plain (''user_id'', readInt64, writeInt64, enc_int64, is_VLong),
        Plain (''date'', readInt32, writeInt32, enc_int32, is_VInt),
        Cond ''flags'' 2 (''about'', readString, writeString, enc_string, is_short_text),
        Cond ''flags'' 1 (''approved_by'', readInt64, writeInt64, enc_int64, is_VLong)])]"

interpretation tl_ChatInviteImporter: tl_codec readTLChatInviteImporter writeTLChatInviteImporter "enc_fobject TL_ChatInviteImporter_table" "ok_fobject TL_ChatInviteImporter_table"
  by (rule flag_schema_codec, unfold TL_ChatInviteImporter_table_def, intro flag_tableI)
    (simp_all add: readTLChatInviteImporter_def writeTLChatInviteImporter_def flag_schema_simps)

definition readTLMessagesExportedChatInvites :: tl_reader where
  "readTLMessagesExportedChatInvites = read_object
     [(- 1111085620, [rd ''count'' readInt32,
         rd ''invites'' (readVector (Some readTLExportedChatInvite)),
         rd ''users'' (readVector (Some readTLUser))])]"

definition writeTLMessagesExportedChatInvites :: tl_writer where
  "writeTLMessagesExportedChatInvites = write_fobject
     [(- 1111085620, [wf ''_'' writeInt32, wf ''count'' writeInt32,
         wf ''invites'' (writeVector (Some writeTLExportedChatInvite)),
         wf ''users'' (writeVector (Some writeTLUser))])]"

definition TL_MessagesExportedChatInvites_table :: flag_table where
  "TL_MessagesExportedChatInvites_table =
     [(- 1111085620, [Plain (''count'', readInt32, writeInt32, enc_int32, is_VInt),
        Plain (''invites'', readVector (Some readTLExportedChatInvite),
         writeVector (Some writeTLExportedChatInvite),
         enc_vector (enc_fobject TL_ExportedChatInvite_table),
         ok_vector (ok_fobject TL_ExportedChatInvite_table)),
        Plain (''users'', readVector (Some readTLUser), writeVector (Some writeTLUser),
         enc_vector (enc_fobject TL_User_table), ok_vector (ok_fobject TL_User_table))])]"

interpretation tl_MessagesExportedChatInvites: tl_codec readTLMessagesExportedChatInvites writeTLMessagesExportedChatInvites "enc_fobject TL_MessagesExportedChatInvites_table" "ok_fobject TL_MessagesExportedChatInvites_table"
  by (rule flag_schema_codec, unfold TL_MessagesExportedChatInvites_table_def, intro flag_tableI)
    (simp_all add: readTLMessagesExportedChatInvites_def writeTLMessagesExportedChatInvites_def flag_schema_simps tl_ExportedChatInvite.tl_codec_axioms tl_ExportedChatInvite.vector_codec tl_User.tl_codec_axioms tl_User.vector_codec)

definition readTLMessagesExportedChatInvite :: tl_reader where
  "readTLMessagesExportedChatInvite = read_object
     [(410107472, [rd ''invite'' readTLExportedChatInvite,
         rd ''users'' (readVector (Some readTLUser))]),
      (572915951, [rd ''invite'' readTLExportedChatInvite,
         rd ''new_invite'' readTLExportedChatInvite, rd ''users'' (readVector (Some readTLUser))])]"

definition writeTLMessagesExportedChatInvite :: tl_writer where
  "writeTLMessagesExportedChatInvite = write_fobject
     [(410107472, [wf ''_'' writeInt32, wf ''invite'' writeTLExportedChatInvite,
         wf ''users'' (writeVector (Some writeTLUser))]),
      (572915951, [wf ''_'' writeInt32, wf ''invite'' writeTLExportedChatInvite,
         wf ''new_invite'' writeTLExportedChatInvite,
         wf ''users'' (writeVector (Some writeTLUser))])]"

definition TL_MessagesExportedChatInvite_table :: flag_table where
  "TL_MessagesExportedChatInvite_table =
     [(410107472, [Plain (''invite'', readTLExportedChatInvite, writeTLExportedChatInvite,
         enc_fobject TL_ExportedChatInvite_table, ok_fobject TL_ExportedChatInvite_table),
        Plain (''users'', readVector (Some readTLUser), writeVector (Some writeTLUser),
         enc_vector (enc_fobject TL_User_table), ok_vector (ok_fobject TL_User_table))]),
      (572915951, [Plain (''invite'', readTLExportedChatInvite, writeTLExportedChatInvite,
         enc_fobject TL_ExportedChatInvite_table, ok_fobject TL_ExportedChatInvite_table),
        Plain (''new_invite'', readTLExportedChatInvite, writeTLExportedChatInvite,
         enc_fobject TL_ExportedChatInvite_table, ok_fobject TL_ExportedChatInvite_table),
        Plain (''users'', readVector (Some readTLUser), writeVector (Some writeTLUser),
         enc_vector (enc_fobject TL_User_table), ok_vector (ok_fobject TL_User_table))])]"

interpretation tl_MessagesExportedChatInvite: tl_codec readTLMessagesExportedChatInvite writeTLMessagesExportedChatInvite "enc_fobject TL_MessagesExportedChatInvite_table" "ok_fobject TL_MessagesExportedChatInvite_table"
  by (rule flag_schema_codec, unfold TL_MessagesExportedChatInvite_table_def, intro flag_tableI)
    (simp_all add: readTLMessagesExportedChatInvite_def writeTLMessagesExportedChatInvite_def flag_schema_simps tl_ExportedChatInvite.tl_codec_axioms tl_ExportedChatInvite.vector_codec tl_User.tl_codec_axioms tl_User.vector_codec)

definition readTLMessagesChatInviteImporters :: tl_reader where
  "readTLMessagesChatInviteImporters = read_object
     [(- 2118733814, [rd ''count'' readInt32,
         rd ''importers'' (readVector (Some readTLChatInviteImporter)),
         rd ''users'' (readVector (Some readTLUser))])]"

definition writeTLMessagesChatInviteImporters :: tl_writer where
  "writeTLMessagesChatInviteImporters = write_fobject
     [(- 2118733814, [wf ''_'' writeInt32, wf ''count'' writeInt32,
         wf ''importers'' (writeVector (Some writeTLChatInviteImporter)),
         wf ''users'' (writeVector (Some writeTLUser))])]"

definition TL_MessagesChatInviteImporters_table :: flag_table where
  "TL_MessagesChatInviteImporters_table =
     [(- 2118733814, [Plain (''count'', readInt32, writeInt32, enc_int32, is_VInt),
        Plain (''importers'', readVector (Some readTLChatInviteImporter),
         writeVector (Some writeTLChatInviteImporter),
         enc_vector (enc_fobject TL_ChatInviteImporter_table),
         ok_vector (ok_fobject TL_ChatInviteImporter_table)),
        Plain (''users'', readVector (Some readTLUser), writeVector (Some writeTLUser),
         enc_vector (enc_fobject TL_User_table), ok_vector (ok_fobject TL_User_table))])]"

interpretation tl_MessagesChatInviteImporters: tl_codec readTLMessagesChatInviteImporters writeTLMessagesChatInviteImporters "enc_fobject TL_MessagesChatInviteImporters_table" "ok_fobject TL_MessagesChatInviteImporters_table"
  by (rule flag_schema_codec, unfold TL_MessagesChatInviteImporters_table_def, intro flag_tableI)
    (simp_all add: readTLMessagesChatInviteImporters_def writeTLMessagesChatInviteImporters_def flag_schema_simps tl_ChatInviteImporter.tl_codec_axioms tl_ChatInviteImporter.vector_codec tl_User.tl_codec_axioms tl_User.vector_codec)

definition readTLChatAdminWithInvites :: tl_reader where
  "readTLChatAdminWithInvites = read_object
     [(- 219353309, [rd ''admin_id'' readInt64, rd ''invites_count'' readInt32,
         rd ''revoked_invites_count'' readInt32])]"

definition writeTLChatAdminWithInvites :: tl_writer where
  "writeTLChatAdminWithInvites = write_fobject
     [(- 219353309, [wf ''_'' writeInt32, wf ''admin_id'' writeInt64,
         wf ''invites_count'' writeInt32, wf ''revoked_invites_count'' writeInt32])]"

definition TL_ChatAdminWithInvites_table :: flag_table where
  "TL_ChatAdminWithInvites_table =
     [(- 219353309, [Plain (''admin_id'', readInt64, writeInt64, enc_int64, is_VLong),
        Plain (''invites_count'', readInt32, writeInt32, enc_int32, is_VInt),
        Plain (''revoked_invites_count'', readInt32, writeInt32, enc_int32, is_VInt)])]"

interpretation tl_ChatAdminWithInvites: tl_codec readTLChatAdminWithInvites writeTLChatAdminWithInvites "enc_fobject TL_ChatAdminWithInvites_table" "ok_fobject TL_ChatAdminWithInvites_table"
  by (rule flag_schema_codec, unfold TL_ChatAdminWithInvites_table_def, intro flag_tableI)
    (simp_all add: readTLChatAdminWithInvites_def writeTLChatAdminWithInvites_def flag_schema_simps)

definition readTLMessagesChatAdminsWithInvites :: tl_reader where
  "readTLMessagesChatAdminsWithInvites = read_object
     [(- 1231326505, [rd ''admins'' (readVector (Some readTLChatAdminWithInvites)),
         rd ''users'' (readVector (Some readTLUser))])]"

definition writeTLMessagesChatAdminsWithInvites :: tl_writer where
  "writeTLMessagesChatAdminsWithInvites = write_fobject
     [(- 1231326505, [wf ''_'' writeInt32,
         wf ''admins'' (writeVector (Some writeTLChatAdminWithInvites)),
         wf ''users'' (writeVector (Some writeTLUser))])]"

definition TL_MessagesChatAdminsWithInvites_table :: flag_table where
  "TL_MessagesChatAdminsWithInvites_table =
     [(- 1231326505, [Plain (''admins'', readVector (Some readTLChatAdminWithInvites),
         writeVector (Some writeTLChatAdminWithInvites),
         enc_vector (enc_fobject TL_ChatAdminWithInvites_table),
         ok_vector (ok_fobject TL_ChatAdminWithInvites_table)),
        Plain (''users'', readVector (Some readTLUser), writeVector (Some writeTLUser),
         enc_vector (enc_fobject TL_User_table), ok_vector (ok_fobject TL_User_table))])]"

interpretation tl_MessagesChatAdminsWithInvites: tl_codec readTLMessagesChatAdminsWithInvites writeTLMessagesChatAdminsWithInvites "enc_fobject TL_MessagesChatAdminsWithInvites_table" "ok_fobject TL_MessagesChatAdminsWithInvites_table"
  by (rule flag_schema_codec, unfold TL_MessagesChatAdminsWithInvites_table_def, intro flag_tableI)
    (simp_all add: readTLMessagesChatAdminsWithInvites_def writeTLMessagesChatAdminsWithInvites_def flag_schema_simps tl_ChatAdminWithInvites.tl_codec_axioms tl_ChatAdminWithInvites.vector_codec tl_User.tl_codec_axioms tl_User.vector_codec)

definition readTLMessagesCheckedHistoryImportPeer :: tl_reader where
  "readTLMessagesCheckedHistoryImportPeer = read_object
     [(- 1571952873, [rd ''confirm_text'' readString])]"

definition writeTLMessagesCheckedHistoryImportPeer :: tl_writer where
  "writeTLMessagesCheckedHistoryImportPeer = write_fobject
     [(- 1571952873, [wf ''_'' writeInt32, wf ''confirm_text'' writeString])]"

definition TL_MessagesCheckedHistoryImportPeer_table :: flag_table where
  "TL_MessagesCheckedHistoryImportPeer_table =
     [(- 1571952873, [Plain (''confirm_text'', readString, writeString, enc_string,
         is_short_text)])]"

interpretation tl_MessagesCheckedHistoryImportPeer: tl_codec readTLMessagesCheckedHistoryImportPeer writeTLMessagesCheckedHistoryImportPeer "enc_fobject TL_MessagesCheckedHistoryImportPeer_table" "ok_fobject TL_MessagesCheckedHistoryImportPeer_table"
  by (rule flag_schema_codec, unfold TL_MessagesCheckedHistoryImportPeer_table_def, intro flag_tableI)
    (simp_all add: readTLMessagesCheckedHistoryImportPeer_def writeTLMessagesCheckedHistoryImportPeer_def flag_schema_simps)

definition readTLPhoneJoinAsPeers :: tl_reader where
  "readTLPhoneJoinAsPeers = read_object
     [(- 1343921601, [rd ''peers'' (readVector (Some readTLPeer)),
         rd ''chats'' (readVector (Some readTLChat)),
         rd ''users'' (readVector (Some readTLUser))])]"

definition writeTLPhoneJoinAsPeers :: tl_writer where
  "writeTLPhoneJoinAsPeers = write_fobject
     [(- 1343921601, [wf ''_'' writeInt32, wf ''peers'' (writeVector (Some writeTLPeer)),
         wf ''chats'' (writeVector (Some writeTLChat)),
         wf ''users'' (writeVector (Some writeTLUser))])]"

definition TL_PhoneJoinAsPeers_table :: flag_table where
  "TL_PhoneJoinAsPeers_table =
     [(- 1343921601, [Plain (''peers'', readVector (Some readTLPeer),
         writeVector (Some writeTLPeer), enc_vector (enc_fobject TL_Peer_table),
         ok_vector (ok_fobject TL_Peer_table)),
        Plain (''chats'', readVector (Some readTLChat), writeVector (Some writeTLChat),
         enc_vector (enc_fobject TL_Chat_table), ok_vector (ok_fobject TL_Chat_table)),
        Plain (''users'', readVector (Some readTLUser), writeVector (Some writeTLUser),
         enc_vector (enc_fobject TL_User_table), ok_vector (ok_fobject TL_User_table))])]"

interpretation tl_PhoneJoinAsPeers: tl_codec readTLPhoneJoinAsPeers writeTLPhoneJoinAsPeers "enc_fobject TL_PhoneJoinAsPeers_table" "ok_fobject TL_PhoneJoinAsPeers_table"
  by (rule flag_schema_codec, unfold TL_PhoneJoinAsPeers_table_def, intro flag_tableI)
    (simp_all add: readTLPhoneJoinAsPeers_def writeTLPhoneJoinAsPeers_def flag_schema_simps tl_Peer.tl_codec_axioms tl_Peer.vector_codec tl_Chat.tl_codec_axioms tl_Chat.vector_codec tl_User.tl_codec_axioms tl_User.vector_codec)

definition readTLPhoneExportedGroupCallInvite :: tl_reader where
  "readTLPhoneExportedGroupCallInvite = read_object
     [(541839704, [rd ''link'' readString])]"

definition writeTLPhoneExportedGroupCallInvite :: tl_writer where
  "writeTLPhoneExportedGroupCallInvite = write_fobject
     [(541839704, [wf ''_'' writeInt32, wf ''link'' writeString])]"

definition TL_PhoneExportedGroupCallInvite_table :: flag_table where
  "TL_PhoneExportedGroupCallInvite_table =
     [(541839704, [Plain (''link'', readString, writeString, enc_string, is_short_text)])]"

interpretation tl_PhoneExportedGroupCallInvite: tl_codec readTLPhoneExportedGroupCallInvite writeTLPhoneExportedGroupCallInvite "enc_fobject TL_PhoneExportedGroupCallInvite_table" "ok_fobject TL_PhoneExportedGroupCallInvite_table"
  by (rule flag_schema_codec, unfold TL_PhoneExportedGroupCallInvite_table_def, intro flag_tableI)
    (simp_all add: readTLPhoneExportedGroupCallInvite_def writeTLPhoneExportedGroupCallInvite_def flag_schema_simps)

definition readTLStickersSuggestedShortName :: tl_reader where
  "readTLStickersSuggestedShortName = read_object
     [(- 2046910401, [rd ''short_name'' readString])]"

definition writeTLStickersSuggestedShortName :: tl_writer where
  "writeTLStickersSuggestedShortName = write_fobject
     [(- 2046910401, [wf ''_'' writeInt32, wf ''short_name'' writeString])]"

definition TL_StickersSuggestedShortName_table :: flag_table where
  "TL_StickersSuggestedShortName_table =
     [(- 2046910401, [Plain (''short_name'', readString, writeString, enc_string, is_short_text)])]"

interpretation tl_StickersSuggestedShortName: tl_codec readTLStickersSuggestedShortName writeTLStickersSuggestedShortName "enc_fobject TL_StickersSuggestedShortName_table" "ok_fobject TL_StickersSuggestedShortName_table"
  by (rule flag_schema_codec, unfold TL_StickersSuggestedShortName_table_def, intro flag_tableI)
    (simp_all add: readTLStickersSuggestedShortName_def writeTLStickersSuggestedShortName_def flag_schema_simps)

definition readTLBotCommandScope :: tl_reader where
  "readTLBotCommandScope = read_object
     [(795652779, []),
      (1011811544, []),
      (1877059713, []),
      (- 1180016534, []),
      (- 610432643, [rd ''peer'' readTLInputPeer]),
      (1071145937, [rd ''peer'' readTLInputPeer]),
      (169026035, [rd ''peer'' readTLInputPeer, rd ''user_id'' readTLInputUser])]"

definition writeTLBotCommandScope :: tl_writer where
  "writeTLBotCommandScope = write_fobject
     [(795652779, [wf ''_'' writeInt32]),
      (1011811544, [wf ''_'' writeInt32]),
      (1877059713, [wf ''_'' writeInt32]),
      (- 1180016534, [wf ''_'' writeInt32]),
      (- 610432643, [wf ''_'' writeInt32, wf ''peer'' writeTLInputPeer]),
      (1071145937, [wf ''_'' writeInt32, wf ''peer'' writeTLInputPeer]),
      (169026035, [wf ''_'' writeInt32, wf ''peer'' writeTLInputPeer,
         wf ''user_id'' writeTLInputUser])]"

definition TL_BotCommandScope_table :: flag_table where
  "TL_BotCommandScope_table =
     [(795652779, []),
      (1011811544, []),
      (1877059713, []),
      (- 1180016534, []),
      (- 610432643, [Plain (''peer'', readTLInputPeer, writeTLInputPeer, enc_InputPeer,
         ok_InputPeer)]),
      (1071145937, [Plain (''peer'', readTLInputPeer, writeTLInputPeer, enc_InputPeer,
         ok_InputPeer)]),
      (169026035, [Plain (''peer'', readTLInputPeer, writeTLInputPeer, enc_InputPeer, ok_InputPeer),
        Plain (''user_id'', readTLInputUser, writeTLInputUser, enc_fobject TL_InputUser_table,
         ok_fobject TL_InputUser_table)])]"

interpretation tl_BotCommandScope: tl_codec readTLBotCommandScope writeTLBotCommandScope "enc_fobject TL_BotCommandScope_table" "ok_fobject TL_BotCommandScope_table"
  by (rule flag_schema_codec, unfold TL_BotCommandScope_table_def, intro flag_tableI)
    (simp_all add: readTLBotCommandScope_def writeTLBotCommandScope_def flag_schema_simps tl_InputPeer.tl_codec_axioms tl_InputUser.tl_codec_axioms)

definition readTLAccountResetPasswordResult :: tl_reader where
  "readTLAccountResetPasswordResult = read_object
     [(- 478701471, [rd ''retry_date'' readInt32]),
      (- 370148227, [rd ''until_date'' readInt32]),
      (- 383330754, [])]"

definition writeTLAccountResetPasswordResult :: tl_writer where
  "writeTLAccountResetPasswordResult = write_fobject
     [(- 478701471, [wf ''_'' writeInt32, wf ''retry_date'' writeInt32]),
      (- 370148227, [wf ''_'' writeInt32, wf ''until_date'' writeInt32]),
      (- 383330754, [wf ''_'' writeInt32])]"

definition TL_AccountResetPasswordResult_table :: flag_table where
  "TL_AccountResetPasswordResult_table =
     [(- 478701471, [Plain (''retry_date'', readInt32, writeInt32, enc_int32, is_VInt)]),
      (- 370148227, [Plain (''until_date'', readInt32, writeInt32, enc_int32, is_VInt)]),
      (- 383330754, [])]"

interpretation tl_AccountResetPasswordResult: tl_codec readTLAccountResetPasswordResult writeTLAccountResetPasswordResult "enc_fobject TL_AccountResetPasswordResult_table" "ok_fobject TL_AccountResetPasswordResult_table"
  by (rule flag_schema_codec, unfold TL_AccountResetPasswordResult_table_def, intro flag_tableI)
    (simp_all add: readTLAccountResetPasswordResult_def writeTLAccountResetPasswordResult_def flag_schema_simps)

definition readTLSearchResultsCalendarPeriod :: tl_reader where
  "readTLSearchResultsCalendarPeriod = read_object
     [(- 911191137, [rd ''date'' readInt32, rd ''min_msg_id'' readInt32,
         rd ''max_msg_id'' readInt32, rd ''count'' readInt32])]"

definition writeTLSearchResultsCalendarPeriod :: tl_writer where
  "writeTLSearchResultsCalendarPeriod = write_fobject
     [(- 911191137, [wf ''_'' writeInt32, wf ''date'' writeInt32, wf ''min_msg_id'' writeInt32,
         wf ''max_msg_id'' writeInt32, wf ''count'' writeInt32])]"

definition TL_SearchResultsCalendarPeriod_table :: flag_table where
  "TL_SearchResultsCalendarPeriod_table =
     [(- 911191137, [Plain (''date'', readInt32, writeInt32, enc_int32, is_VInt),
        Plain (''min_msg_id'', readInt32, writeInt32, enc_int32, is_VInt),
        Plain (''max_msg_id'', readInt32, writeInt32, enc_int32, is_VInt),
        Plain (''count'', readInt32, writeInt32, enc_int32, is_VInt)])]"

interpretation tl_SearchResultsCalendarPeriod: tl_codec readTLSearchResultsCalendarPeriod writeTLSearchResultsCalendarPeriod "enc_fobject TL_SearchResultsCalendarPeriod_table" "ok_fobject TL_SearchResultsCalendarPeriod_table"
  by (rule flag_schema_codec, unfold TL_SearchResultsCalendarPeriod_table_def, intro flag_tableI)
    (simp_all add: readTLSearchResultsCalendarPeriod_def writeTLSearchResultsCalendarPeriod_def flag_schema_simps)

definition readTLSearchResultsPosition :: tl_reader where
  "readTLSearchResultsPosition = read_object
     [(2137295719, [rd ''msg_id'' readInt32, rd ''date'' readInt32, rd ''offset'' readInt32])]"

definition writeTLSearchResultsPosition :: tl_writer where
  "writeTLSearchResultsPosition = write_fobject
     [(2137295719, [wf ''_'' writeInt32, wf ''msg_id'' writeInt32, wf ''date'' writeInt32,
         wf ''offset'' writeInt32])]"

definition TL_SearchResultsPosition_table :: flag_table where
  "TL_SearchResultsPosition_table =
     [(2137295719, [Plain (''msg_id'', readInt32, writeInt32, enc_int32, is_VInt),
        Plain (''date'', readInt32, writeInt32, enc_int32, is_VInt),
        Plain (''offset'', readInt32, writeInt32, enc_int32, is_VInt)])]"

interpretation tl_SearchResultsPosition: tl_codec readTLSearchResultsPosition writeTLSearchResultsPosition "enc_fobject TL_SearchResultsPosition_table" "ok_fobject TL_SearchResultsPosition_table"
  by (rule flag_schema_codec, unfold TL_SearchResultsPosition_table_def, intro flag_tableI)
    (simp_all add: readTLSearchResultsPosition_def writeTLSearchResultsPosition_def flag_schema_simps)

definition readTLMessagesSearchResultsPositions :: tl_reader where
  "readTLMessagesSearchResultsPositions = read_object
     [(1404185519, [rd ''count'' readInt32,
         rd ''positions'' (readVector (Some readTLSearchResultsPosition))])]"

definition writeTLMessagesSearchResultsPositions :: tl_writer where
  "writeTLMessagesSearchResultsPositions = write_fobject
     [(1404185519, [wf ''_'' writeInt32, wf ''count'' writeInt32,
         wf ''positions'' (writeVector (Some writeTLSearchResultsPosition))])]"

definition TL_MessagesSearchResultsPositions_table :: flag_table where
  "TL_MessagesSearchResultsPositions_table =
     [(1404185519, [Plain (''count'', readInt32, writeInt32, enc_int32, is_VInt),
        Plain (''positions'', readVector (Some readTLSearchResultsPosition),
         writeVector (Some writeTLSearchResultsPosition),
         enc_vector (enc_fobject TL_SearchResultsPosition_table),
         ok_vector (ok_fobject TL_SearchResultsPosition_table))])]"

interpretation tl_MessagesSearchResultsPositions: tl_codec readTLMessagesSearchResultsPositions writeTLMessagesSearchResultsPositions "enc_fobject TL_MessagesSearchResultsPositions_table" "ok_fobject TL_MessagesSearchResultsPositions_table"
  by (rule flag_schema_codec, unfold TL_MessagesSearchResultsPositions_table_def, intro flag_tableI)
    (simp_all add: readTLMessagesSearchResultsPositions_def writeTLMessagesSearchResultsPositions_def flag_schema_simps tl_SearchResultsPosition.tl_codec_axioms tl_SearchResultsPosition.vector_codec)

definition readTLSendAsPeer :: tl_reader where
  "readTLSendAsPeer = read_object
     [(- 1206095820, [rd ''flags'' readUInt32, set_if ''flags'' 0 ''premium_required'',
         rd ''peer'' readTLPeer])]"

definition writeTLSendAsPeer :: tl_writer where
  "writeTLSendAsPeer = write_fobject
     [(- 1206095820, [wf ''_'' writeInt32, wf_flags ''flags'' [(''premium_required'', 0)],
         wf ''peer'' writeTLPeer])]"

definition TL_SendAsPeer_table :: flag_table where
  "TL_SendAsPeer_table =
     [(- 1206095820, [Flags ''flags'' [(''premium_required'', 0)],
        TrueBit ''flags'' 0 ''premium_required'',
        Plain (''peer'', readTLPeer, writeTLPeer, enc_fobject TL_Peer_table,
         ok_fobject TL_Peer_table)])]"

interpretation tl_SendAsPeer: tl_codec readTLSendAsPeer writeTLSendAsPeer "enc_fobject TL_SendAsPeer_table" "ok_fobject TL_SendAsPeer_table"
  by (rule flag_schema_codec, unfold TL_SendAsPeer_table_def, intro flag_tableI)
    (simp_all add: readTLSendAsPeer_def writeTLSendAsPeer_def flag_schema_simps tl_Peer.tl_codec_axioms)

definition readTLChannelsSendAsPeers :: tl_reader where
  "readTLChannelsSendAsPeers = read_object
     [(- 191450938, [rd ''peers'' (readVector (Some readTLSendAsPeer)),
         rd ''chats'' (readVector (Some readTLChat)),
         rd ''users'' (readVector (Some readTLUser))])]"

definition writeTLChannelsSendAsPeers :: tl_writer where
  "writeTLChannelsSendAsPeers = write_fobject
     [(- 191450938, [wf ''_'' writeInt32, wf ''peers'' (writeVector (Some writeTLSendAsPeer)),
         wf ''chats'' (writeVector (Some writeTLChat)),
         wf ''users'' (writeVector (Some writeTLUser))])]"

definition TL_ChannelsSendAsPeers_table :: flag_table where
  "TL_ChannelsSendAsPeers_table =
     [(- 191450938, [Plain (''peers'', readVector (Some readTLSendAsPeer),
         writeVector (Some writeTLSendAsPeer), enc_vector (enc_fobject TL_SendAsPeer_table),
         ok_vector (ok_fobject TL_SendAsPeer_table)),
        Plain (''chats'', readVector (Some readTLChat), writeVector (Some writeTLChat),
         enc_vector (enc_fobject TL_Chat_table), ok_vector (ok_fobject TL_Chat_table)),
        Plain (''users'', readVector (Some readTLUser), writeVector (Some writeTLUser),
         enc_vector (enc_fobject TL_User_table), ok_vector (ok_fobject TL_User_table))])]"

interpretation tl_ChannelsSendAsPeers: tl_codec readTLChannelsSendAsPeers writeTLChannelsSendAsPeers "enc_fobject TL_ChannelsSendAsPeers_table" "ok_fobject TL_ChannelsSendAsPeers_table"
  by (rule flag_schema_codec, unfold TL_ChannelsSendAsPeers_table_def, intro flag_tableI)
    (simp_all add: readTLChannelsSendAsPeers_def writeTLChannelsSendAsPeers_def flag_schema_simps tl_SendAsPeer.tl_codec_axioms tl_SendAsPeer.vector_codec tl_Chat.tl_codec_axioms tl_Chat.vector_codec tl_User.tl_codec_axioms tl_User.vector_codec)

definition readTLMessagesPeerSettings :: tl_reader where
  "readTLMessagesPeerSettings = read_object
     [(1753266509, [rd ''settings'' readTLPeerSettings,
         rd ''chats'' (readVector (Some readTLChat)),
         rd ''users'' (readVector (Some readTLUser))])]"

definition writeTLMessagesPeerSettings :: tl_writer where
  "writeTLMessagesPeerSettings = write_fobject
     [(1753266509, [wf ''_'' writeInt32, wf ''settings'' writeTLPeerSettings,
         wf ''chats'' (writeVector (Some writeTLChat)),
         wf ''users'' (writeVector (Some writeTLUser))])]"

definition TL_MessagesPeerSettings_table :: flag_table where
  "TL_MessagesPeerSettings_table =
     [(1753266509, [Plain (''settings'', readTLPeerSettings, writeTLPeerSettings,
         enc_fobject TL_PeerSettings_table, ok_fobject TL_PeerSettings_table),
        Plain (''chats'', readVector (Some readTLChat), writeVector (Some writeTLChat),
         enc_vector (enc_fobject TL_Chat_table), ok_vector (ok_fobject TL_Chat_table)),
        Plain (''users'', readVector (Some readTLUser), writeVector (Some writeTLUser),
         enc_vector (enc_fobject TL_User_table), ok_vector (ok_fobject TL_User_table))])]"

interpretation tl_MessagesPeerSettings: tl_codec readTLMessagesPeerSettings writeTLMessagesPeerSettings "enc_fobject TL_MessagesPeerSettings_table" "ok_fobject TL_MessagesPeerSettings_table"
  by (rule flag_schema_codec, unfold TL_MessagesPeerSettings_table_def, intro flag_tableI)
    (simp_all add: readTLMessagesPeerSettings_def writeTLMessagesPeerSettings_def flag_schema_simps tl_PeerSettings.tl_codec_axioms tl_PeerSettings.vector_codec tl_Chat.tl_codec_axioms tl_Chat.vector_codec tl_User.tl_codec_axioms tl_User.vector_codec)

definition readTLAuthLoggedOut :: tl_reader where
  "readTLAuthLoggedOut = read_object
     [(- 1012759713, [rd ''flags'' readUInt32,
         rd_if ''flags'' 0 ''future_auth_token'' readByteArray])]"

definition writeTLAuthLoggedOut :: tl_writer where
  "writeTLAuthLoggedOut = write_fobject
     [(- 1012759713, [wf ''_'' writeInt32, wf_flags ''flags'' [(''future_auth_token'', 0)],
         wf_if ''flags'' 0 ''future_auth_token'' writeByteArray])]"

definition TL_AuthLoggedOut_table :: flag_table where
  "TL_AuthLoggedOut_table =
     [(- 1012759713, [Flags ''flags'' [(''future_auth_token'', 0)],
        Cond ''flags'' 0 (''future_auth_token'', readByteArray, writeByteArray, enc_bytes,
         is_short_bytes)])]"

interpretation tl_AuthLoggedOut: tl_codec readTLAuthLoggedOut writeTLAuthLoggedOut "enc_fobject TL_AuthLoggedOut_table" "ok_fobject TL_AuthLoggedOut_table"
  by (rule flag_schema_codec, unfold TL_AuthLoggedOut_table_def, intro flag_tableI)
    (simp_all add: readTLAuthLoggedOut_def writeTLAuthLoggedOut_def flag_schema_simps)

definition readTLReactionCount :: tl_reader where
  "readTLReactionCount = read_object
     [(- 1546531968, [rd ''flags'' readUInt32, rd_if ''flags'' 0 ''chosen_order'' readInt32,
         rd ''reaction'' readTLReaction, rd ''count'' readInt32])]"

definition writeTLReactionCount :: tl_writer where
  "writeTLReactionCount = write_fobject
     [(- 1546531968, [wf ''_'' writeInt32, wf_flags ''flags'' [(''chosen_order'', 0)],
         wf_if ''flags'' 0 ''chosen_order'' writeInt32, wf ''reaction'' writeTLReaction,
         wf ''count'' writeInt32])]"

definition TL_ReactionCount_table :: flag_table where
  "TL_ReactionCount_table =
     [(- 1546531968, [Flags ''flags'' [(''chosen_order'', 0)],
        Cond ''flags'' 0 (''chosen_order'', readInt32, writeInt32, enc_int32, is_VInt),
        Plain (''reaction'', readTLReaction, writeTLReaction, enc_fobject TL_Reaction_table,
         ok_fobject TL_Reaction_table),
        Plain (''count'', readInt32, writeInt32, enc_int32, is_VInt)])]"

interpretation tl_ReactionCount: tl_codec readTLReactionCount writeTLReactionCount "enc_fobject TL_ReactionCount_table" "ok_fobject TL_ReactionCount_table"
  by (rule flag_schema_codec, unfold TL_ReactionCount_table_def, intro flag_tableI)
    (simp_all add: readTLReactionCount_def writeTLReactionCount_def flag_schema_simps tl_Reaction.tl_codec_axioms)

definition readTLMessagePeerReaction :: tl_reader where
  "readTLMessagePeerReaction = read_object
     [(- 1938180548, [rd ''flags'' readUInt32, set_if ''flags'' 0 ''big'',
         set_if ''flags'' 1 ''unread'', set_if ''flags'' 2 ''my'', rd ''peer_id'' readTLPeer,
         rd ''date'' readInt32, rd ''reaction'' readTLReaction])]"

definition writeTLMessagePeerReaction :: tl_writer where
  "writeTLMessagePeerReaction = write_fobject
     [(- 1938180548, [wf ''_'' writeInt32, wf_flags ''flags'' [(''big'', 0), (''unread'', 1),
         (''my'', 2)], wf ''peer_id'' writeTLPeer, wf ''date'' writeInt32,
         wf ''reaction'' writeTLReaction])]"

definition TL_MessagePeerReaction_table :: flag_table where
  "TL_MessagePeerReaction_table =
     [(- 1938180548, [Flags ''flags'' [(''big'', 0), (''unread'', 1), (''my'', 2)],
        TrueBit ''flags'' 0 ''big'',
        TrueBit ''flags'' 1 ''unread'',
        TrueBit ''flags'' 2 ''my'',
        Plain (''peer_id'', readTLPeer, writeTLPeer, enc_fobject TL_Peer_table,
         ok_fobject TL_Peer_table),
        Plain (''date'', readInt32, writeInt32, enc_int32, is_VInt),
        Plain (''reaction'', readTLReaction, writeTLReaction, enc_fobject TL_Reaction_table,
         ok_fobject TL_Reaction_table)])]"

interpretation tl_MessagePeerReaction: tl_codec readTLMessagePeerReaction writeTLMessagePeerReaction "enc_fobject TL_MessagePeerReaction_table" "ok_fobject TL_MessagePeerReaction_table"
  by (rule flag_schema_codec, unfold TL_MessagePeerReaction_table_def, intro flag_tableI)
    (simp_all add: readTLMessagePeerReaction_def writeTLMessagePeerReaction_def flag_schema_simps tl_Peer.tl_codec_axioms tl_Reaction.tl_codec_axioms)

definition readTLMessageReactor :: tl_reader where
  "readTLMessageReactor = read_object
     [(1269016922, [rd ''flags'' readUInt32, set_if ''flags'' 0 ''top'', set_if ''flags'' 1 ''my'',
         set_if ''flags'' 2 ''anonymous'', rd_if ''flags'' 3 ''peer_id'' readTLPeer,
         rd ''count'' readInt32])]"

definition writeTLMessageReactor :: tl_writer where
  "writeTLMessageReactor = write_fobject
     [(1269016922, [wf ''_'' writeInt32, wf_flags ''flags'' [(''top'', 0), (''my'', 1),
         (''anonymous'', 2), (''peer_id'', 3)], wf_if ''flags'' 3 ''peer_id'' writeTLPeer,
         wf ''count'' writeInt32])]"

definition TL_MessageReactor_table :: flag_table where
  "TL_MessageReactor_table =
     [(1269016922, [Flags ''flags'' [(''top'', 0), (''my'', 1), (''anonymous'', 2), (''peer_id'',
         3)],
        TrueBit ''flags'' 0 ''top'',
        TrueBit ''flags'' 1 ''my'',
        TrueBit ''flags'' 2 ''anonymous'',
        Cond ''flags'' 3 (''peer_id'', readTLPeer, writeTLPeer, enc_fobject TL_Peer_table,
         ok_fobject TL_Peer_table),
        Plain (''count'', readInt32, writeInt32, enc_int32, is_VInt)])]"

interpretation tl_MessageReactor: tl_codec readTLMessageReactor writeTLMessageReactor "enc_fobject TL_MessageReactor_table" "ok_fobject TL_MessageReactor_table"
  by (rule flag_schema_codec, unfold TL_MessageReactor_table_def, intro flag_tableI)
    (simp_all add: readTLMessageReactor_def writeTLMessageReactor_def flag_schema_simps tl_Peer.tl_codec_axioms)

definition readTLMessageReactions :: tl_reader where
  "readTLMessageReactions = read_object
     [(171155211, [rd ''flags'' readUInt32, set_if ''flags'' 0 ''min'',
         set_if ''flags'' 2 ''can_see_list'', set_if ''flags'' 3 ''reactions_as_tags'',
         rd ''results'' (readVector (Some readTLReactionCount)),
         rd_if ''flags'' 1 ''recent_reactions'' (readVector (Some readTLMessagePeerReaction)),
         rd_if ''flags'' 4 ''top_reactors'' (readVector (Some readTLMessageReactor))])]"

definition writeTLMessageReactions :: tl_writer where
  "writeTLMessageReactions = write_fobject
     [(171155211, [wf ''_'' writeInt32, wf_flags ''flags'' [(''min'', 0), (''can_see_list'', 2),
         (''reactions_as_tags'', 3), (''recent_reactions'', 1), (''top_reactors'', 4)],
         wf ''results'' (writeVector (Some writeTLReactionCount)),
         wf_if ''flags'' 1 ''recent_reactions'' (writeVector (Some writeTLMessagePeerReaction)),
         wf_if ''flags'' 4 ''top_reactors'' (writeVector (Some writeTLMessageReactor))])]"

definition TL_MessageReactions_table :: flag_table where
  "TL_MessageReactions_table =
     [(171155211, [Flags ''flags'' [(''min'', 0), (''can_see_list'', 2), (''reactions_as_tags'',
         3), (''recent_reactions'', 1), (''top_reactors'', 4)],
        TrueBit ''flags'' 0 ''min'',
        TrueBit ''flags'' 2 ''can_see_list'',
        TrueBit ''flags'' 3 ''reactions_as_tags'',
        Plain (''results'', readVector (Some readTLReactionCount),
         writeVector (Some writeTLReactionCount), enc_vector (enc_fobject TL_ReactionCount_table),
         ok_vector (ok_fobject TL_ReactionCount_table)),
        Cond ''flags'' 1 (''recent_reactions'', readVector (Some readTLMessagePeerReaction),
         writeVector (Some writeTLMessagePeerReaction),
         enc_vector (enc_fobject TL_MessagePeerReaction_table),
         ok_vector (ok_fobject TL_MessagePeerReaction_table)),
        Cond ''flags'' 4 (''top_reactors'', readVector (Some readTLMessageReactor),
         writeVector (Some writeTLMessageReactor),
         enc_vector (enc_fobject TL_MessageReactor_table),
         ok_vector (ok_fobject TL_MessageReactor_table))])]"

interpretation tl_MessageReactions: tl_codec readTLMessageReactions writeTLMessageReactions "enc_fobject TL_MessageReactions_table" "ok_fobject TL_MessageReactions_table"
  by (rule flag_schema_codec, unfold TL_MessageReactions_table_def, intro flag_tableI)
    (simp_all add: readTLMessageReactions_def writeTLMessageReactions_def flag_schema_simps tl_ReactionCount.tl_codec_axioms tl_ReactionCount.vector_codec tl_MessagePeerReaction.tl_codec_axioms tl_MessagePeerReaction.vector_codec tl_MessageReactor.tl_codec_axioms tl_MessageReactor.vector_codec)

definition readTLMessagesMessageReactionsList :: tl_reader where
  "readTLMessagesMessageReactionsList = read_object
     [(834488621, [rd ''flags'' readUInt32, rd ''count'' readInt32,
         rd ''reactions'' (readVector (Some readTLMessagePeerReaction)),
         rd ''chats'' (readVector (Some readTLChat)), rd ''users'' (readVector (Some readTLUser)),
         rd_if ''flags'' 0 ''next_offset'' readString])]"

definition writeTLMessagesMessageReactionsList :: tl_writer where
  "writeTLMessagesMessageReactionsList = write_fobject
     [(834488621, [wf ''_'' writeInt32, wf_flags ''flags'' [(''next_offset'', 0)],
         wf ''count'' writeInt32, wf ''reactions'' (writeVector (Some writeTLMessagePeerReaction)),
         wf ''chats'' (writeVector (Some writeTLChat)),
         wf ''users'' (writeVector (Some writeTLUser)),
         wf_if ''flags'' 0 ''next_offset'' writeString])]"

definition TL_MessagesMessageReactionsList_table :: flag_table where
  "TL_MessagesMessageReactionsList_table =
     [(834488621, [Flags ''flags'' [(''next_offset'', 0)],
        Plain (''count'', readInt32, writeInt32, enc_int32, is_VInt),
        Plain (''reactions'', readVector (Some readTLMessagePeerReaction),
         writeVector (Some writeTLMessagePeerReaction),
         enc_vector (enc_fobject TL_MessagePeerReaction_table),
         ok_vector (ok_fobject TL_MessagePeerReaction_table)),
        Plain (''chats'', readVector (Some readTLChat), writeVector (Some writeTLChat),
         enc_vector (enc_fobject TL_Chat_table), ok_vector (ok_fobject TL_Chat_table)),
        Plain (''users'', readVector (Some readTLUser), writeVector (Some writeTLUser),
         enc_vector (enc_fobject TL_User_table), ok_vector (ok_fobject TL_User_table)),
        Cond ''flags'' 0 (''next_offset'', readString, writeString, enc_string, is_short_text)])]"

interpretation tl_MessagesMessageReactionsList: tl_codec readTLMessagesMessageReactionsList writeTLMessagesMessageReactionsList "enc_fobject TL_MessagesMessageReactionsList_table" "ok_fobject TL_MessagesMessageReactionsList_table"
  by (rule flag_schema_codec, unfold TL_MessagesMessageReactionsList_table_def, intro flag_tableI)
    (simp_all add: readTLMessagesMessageReactionsList_def writeTLMessagesMessageReactionsList_def flag_schema_simps tl_MessagePeerReaction.tl_codec_axioms tl_MessagePeerReaction.vector_codec tl_Chat.tl_codec_axioms tl_Chat.vector_codec tl_User.tl_codec_axioms tl_User.vector_codec)

definition readTLGroupCallStreamChannel :: tl_reader where
  "readTLGroupCallStreamChannel = read_object
     [(- 2132064081, [rd ''channel'' readInt32, rd ''scale'' readInt32,
         rd ''last_timestamp_ms'' readInt64])]"

definition writeTLGroupCallStreamChannel :: tl_writer where
  "writeTLGroupCallStreamChannel = write_fobject
     [(- 2132064081, [wf ''_'' writeInt32, wf ''channel'' writeInt32, wf ''scale'' writeInt32,
         wf ''last_timestamp_ms'' writeInt64])]"

definition TL_GroupCallStreamChannel_table :: flag_table where
  "TL_GroupCallStreamChannel_table =
     [(- 2132064081, [Plain (''channel'', readInt32, writeInt32, enc_int32, is_VInt),
        Plain (''scale'', readInt32, writeInt32, enc_int32, is_VInt),
        Plain (''last_timestamp_ms'', readInt64, writeInt64, enc_int64, is_VLong)])]"

interpretation tl_GroupCallStreamChannel: tl_codec readTLGroupCallStreamChannel writeTLGroupCallStreamChannel "enc_fobject TL_GroupCallStreamChannel_table" "ok_fobject TL_GroupCallStreamChannel_table"
  by (rule flag_schema_codec, unfold TL_GroupCallStreamChannel_table_def, intro flag_tableI)
    (simp_all add: readTLGroupCallStreamChannel_def writeTLGroupCallStreamChannel_def flag_schema_simps)

definition readTLPhoneGroupCallStreamChannels :: tl_reader where
  "readTLPhoneGroupCallStreamChannels = read_object
     [(- 790330702, [rd ''channels'' (readVector (Some readTLGroupCallStreamChannel))])]"

definition writeTLPhoneGroupCallStreamChannels :: tl_writer where
  "writeTLPhoneGroupCallStreamChannels = write_fobject
     [(- 790330702, [wf ''_'' writeInt32,
         wf ''channels'' (writeVector (Some writeTLGroupCallStreamChannel))])]"

definition TL_PhoneGroupCallStreamChannels_table :: flag_table where
  "TL_PhoneGroupCallStreamChannels_table =
     [(- 790330702, [Plain (''channels'', readVector (Some readTLGroupCallStreamChannel),
         writeVector (Some writeTLGroupCallStreamChannel),
         enc_vector (enc_fobject TL_GroupCallStreamChannel_table),
         ok_vector (ok_fobject TL_GroupCallStreamChannel_table))])]"

interpretation tl_PhoneGroupCallStreamChannels: tl_codec readTLPhoneGroupCallStreamChannels writeTLPhoneGroupCallStreamChannels "enc_fobject TL_PhoneGroupCallStreamChannels_table" "ok_fobject TL_PhoneGroupCallStreamChannels_table"
  by (rule flag_schema_codec, unfold TL_PhoneGroupCallStreamChannels_table_def, intro flag_tableI)
    (simp_all add: readTLPhoneGroupCallStreamChannels_def writeTLPhoneGroupCallStreamChannels_def flag_schema_simps tl_GroupCallStreamChannel.tl_codec_axioms tl_GroupCallStreamChannel.vector_codec)

definition readTLPhoneGroupCallStreamRtmpUrl :: tl_reader where
  "readTLPhoneGroupCallStreamRtmpUrl = read_object
     [(767505458, [rd ''url'' readString, rd ''key'' readString])]"

definition writeTLPhoneGroupCallStreamRtmpUrl :: tl_writer where
  "writeTLPhoneGroupCallStreamRtmpUrl = write_fobject
     [(767505458, [wf ''_'' writeInt32, wf ''url'' writeString, wf ''key'' writeString])]"

definition TL_PhoneGroupCallStreamRtmpUrl_table :: flag_table where
  "TL_PhoneGroupCallStreamRtmpUrl_table =
     [(767505458, [Plain (''url'', readString, writeString, enc_string, is_short_text),
        Plain (''key'', readString, writeString, enc_string, is_short_text)])]"

interpretation tl_PhoneGroupCallStreamRtmpUrl: tl_codec readTLPhoneGroupCallStreamRtmpUrl writeTLPhoneGroupCallStreamRtmpUrl "enc_fobject TL_PhoneGroupCallStreamRtmpUrl_table" "ok_fobject TL_PhoneGroupCallStreamRtmpUrl_table"
  by (rule flag_schema_codec, unfold TL_PhoneGroupCallStreamRtmpUrl_table_def, intro flag_tableI)
    (simp_all add: readTLPhoneGroupCallStreamRtmpUrl_def writeTLPhoneGroupCallStreamRtmpUrl_def flag_schema_simps)

definition readTLAttachMenuBotIconColor :: tl_reader where
  "readTLAttachMenuBotIconColor = read_object
     [(1165423600, [rd ''name'' readString, rd ''color'' readInt32])]"

definition writeTLAttachMenuBotIconColor :: tl_writer where
  "writeTLAttachMenuBotIconColor = write_fobject
     [(1165423600, [wf ''_'' writeInt32, wf ''name'' writeString, wf ''color'' writeInt32])]"

definition TL_AttachMenuBotIconColor_table :: flag_table where
  "TL_AttachMenuBotIconColor_table =
     [(1165423600, [Plain (''name'', readString, writeString, enc_string, is_short_text),
        Plain (''color'', readInt32, writeInt32, enc_int32, is_VInt)])]"

interpretation tl_AttachMenuBotIconColor: tl_codec readTLAttachMenuBotIconColor writeTLAttachMenuBotIconColor "enc_fobject TL_AttachMenuBotIconColor_table" "ok_fobject TL_AttachMenuBotIconColor_table"
  by (rule flag_schema_codec, unfold TL_AttachMenuBotIconColor_table_def, intro flag_tableI)
    (simp_all add: readTLAttachMenuBotIconColor_def writeTLAttachMenuBotIconColor_def flag_schema_simps)

definition readTLAttachMenuPeerType :: tl_reader where
  "readTLAttachMenuPeerType = read_object
     [(2104224014, []),
      (- 1020528102, []),
      (- 247016673, []),
      (84480319, []),
      (2080104188, [])]"

definition writeTLAttachMenuPeerType :: tl_writer where
  "writeTLAttachMenuPeerType = write_fobject
     [(2104224014, [wf ''_'' writeInt32]),
      (- 1020528102, [wf ''_'' writeInt32]),
      (- 247016673, [wf ''_'' writeInt32]),
      (84480319, [wf ''_'' writeInt32]),
      (2080104188, [wf ''_'' writeInt32])]"

definition TL_AttachMenuPeerType_table :: flag_table where
  "TL_AttachMenuPeerType_table =
     [(2104224014, []),
      (- 1020528102, []),
      (- 247016673, []),
      (84480319, []),
      (2080104188, [])]"

interpretation tl_AttachMenuPeerType: tl_codec readTLAttachMenuPeerType writeTLAttachMenuPeerType "enc_fobject TL_AttachMenuPeerType_table" "ok_fobject TL_AttachMenuPeerType_table"
  by (rule flag_schema_codec, unfold TL_AttachMenuPeerType_table_def, intro flag_tableI)
    (simp_all add: readTLAttachMenuPeerType_def writeTLAttachMenuPeerType_def flag_schema_simps)

definition readTLWebViewResult :: tl_reader where
  "readTLWebViewResult = read_object
     [(1294139288, [rd ''flags'' readUInt32, set_if ''flags'' 1 ''fullsize'',
         set_if ''flags'' 2 ''fullscreen'', set_if ''flags'' 3 ''same_origin'',
         rd_if ''flags'' 0 ''query_id'' readInt64, rd ''url'' readString])]"

definition writeTLWebViewResult :: tl_writer where
  "writeTLWebViewResult = write_fobject
     [(1294139288, [wf ''_'' writeInt32, wf_flags ''flags'' [(''fullsize'', 1), (''fullscreen'',
         2), (''same_origin'', 3), (''query_id'', 0)], wf_if ''flags'' 0 ''query_id'' writeInt64,
         wf ''url'' writeString])]"

definition TL_WebViewResult_table :: flag_table where
  "TL_WebViewResult_table =
     [(1294139288, [Flags ''flags'' [(''fullsize'', 1), (''fullscreen'', 2), (''same_origin'', 3),
         (''query_id'', 0)],
        TrueBit ''flags'' 1 ''fullsize'',
        TrueBit ''flags'' 2 ''fullscreen'',
        TrueBit ''flags'' 3 ''same_origin'',
        Cond ''flags'' 0 (''query_id'', readInt64, writeInt64, enc_int64, is_VLong),
        Plain (''url'', readString, writeString, enc_string, is_short_text)])]"

interpretation tl_WebViewResult: tl_codec readTLWebViewResult writeTLWebViewResult "enc_fobject TL_WebViewResult_table" "ok_fobject TL_WebViewResult_table"
  by (rule flag_schema_codec, unfold TL_WebViewResult_table_def, intro flag_tableI)
    (simp_all add: readTLWebViewResult_def writeTLWebViewResult_def flag_schema_simps)

definition readTLWebViewMessageSent :: tl_reader where
  "readTLWebViewMessageSent = read_object
     [(211046684, [rd ''flags'' readUInt32,
         rd_if ''flags'' 0 ''msg_id'' readTLInputBotInlineMessageID])]"

definition writeTLWebViewMessageSent :: tl_writer where
  "writeTLWebViewMessageSent = write_fobject
     [(211046684, [wf ''_'' writeInt32, wf_flags ''flags'' [(''msg_id'', 0)],
         wf_if ''flags'' 0 ''msg_id'' writeTLInputBotInlineMessageID])]"

definition TL_WebViewMessageSent_table :: flag_table where
  "TL_WebViewMessageSent_table =
     [(211046684, [Flags ''flags'' [(''msg_id'', 0)],
        Cond ''flags'' 0 (''msg_id'', readTLInputBotInlineMessageID,
         writeTLInputBotInlineMessageID, enc_fobject TL_InputBotInlineMessageID_table,
         ok_fobject TL_InputBotInlineMessageID_table)])]"

interpretation tl_WebViewMessageSent: tl_codec readTLWebViewMessageSent writeTLWebViewMessageSent "enc_fobject TL_WebViewMessageSent_table" "ok_fobject TL_WebViewMessageSent_table"
  by (rule flag_schema_codec, unfold TL_WebViewMessageSent_table_def, intro flag_tableI)
    (simp_all add: readTLWebViewMessageSent_def writeTLWebViewMessageSent_def flag_schema_simps tl_InputBotInlineMessageID.tl_codec_axioms)

definition readTLBotMenuButton :: tl_reader where
  "readTLBotMenuButton = read_object
     [(1966318984, []),
      (1113113093, []),
      (- 944407322, [rd ''text'' readString, rd ''url'' readString])]"

definition writeTLBotMenuButton :: tl_writer where
  "writeTLBotMenuButton = write_fobject
     [(1966318984, [wf ''_'' writeInt32]),
      (1113113093, [wf ''_'' writeInt32]),
      (- 944407322, [wf ''_'' writeInt32, wf ''text'' writeString, wf ''url'' writeString])]"

definition TL_BotMenuButton_table :: flag_table where
  "TL_BotMenuButton_table =
     [(1966318984, []),
      (1113113093, []),
      (- 944407322, [Plain (''text'', readString, writeString, enc_string, is_short_text),
        Plain (''url'', readString, writeString, enc_string, is_short_text)])]"

interpretation tl_BotMenuButton: tl_codec readTLBotMenuButton writeTLBotMenuButton "enc_fobject TL_BotMenuButton_table" "ok_fobject TL_BotMenuButton_table"
  by (rule flag_schema_codec, unfold TL_BotMenuButton_table_def, intro flag_tableI)
    (simp_all add: readTLBotMenuButton_def writeTLBotMenuButton_def flag_schema_simps)

definition readTLInputStorePaymentPurpose :: tl_reader where
  "readTLInputStorePaymentPurpose = read_object
     [(- 1502273946, [rd ''flags'' readUInt32, set_if ''flags'' 0 ''restore'',
         set_if ''flags'' 1 ''upgrade'']),
      (1634697192, [rd ''user_id'' readTLInputUser, rd ''currency'' readString,
         rd ''amount'' readInt64]),
      (- 75955309, [rd ''flags'' readUInt32, rd ''users'' (readVector (Some readTLInputUser)),
         rd_if ''flags'' 0 ''boost_peer'' readTLInputPeer, rd ''currency'' readString,
         rd ''amount'' readInt64, rd_if ''flags'' 1 ''message'' readTLTextWithEntities]),
      (369444042, [rd ''flags'' readUInt32, set_if ''flags'' 0 ''only_new_subscribers'',
         set_if ''flags'' 3 ''winners_are_visible'', rd ''boost_peer'' readTLInputPeer,
         rd_if ''flags'' 1 ''additional_peers'' (readVector (Some readTLInputPeer)),
         rd_if ''flags'' 2 ''countries_iso2'' (readVector (Some readString)),
         rd_if ''flags'' 4 ''prize_description'' readString, rd ''random_id'' readInt64,
         rd ''until_date'' readInt32, rd ''currency'' readString, rd ''amount'' readInt64]),
      (- 106780981, [rd ''flags'' readUInt32, rd ''stars'' readInt64, rd ''currency'' readString,
         rd ''amount'' readInt64, rd_if ''flags'' 0 ''spend_purpose_peer'' readTLInputPeer]),
      (494149367, [rd ''user_id'' readTLInputUser, rd ''stars'' readInt64,
         rd ''currency'' readString, rd ''amount'' readInt64]),
      (1964968186, [rd ''flags'' readUInt32, set_if ''flags'' 0 ''only_new_subscribers'',
         set_if ''flags'' 3 ''winners_are_visible'', rd ''stars'' readInt64,
         rd ''boost_peer'' readTLInputPeer,
         rd_if ''flags'' 1 ''additional_peers'' (readVector (Some readTLInputPeer)),
         rd_if ''flags'' 2 ''countries_iso2'' (readVector (Some readString)),
         rd_if ''flags'' 4 ''prize_description'' readString, rd ''random_id'' readInt64,
         rd ''until_date'' readInt32, rd ''currency'' readString, rd ''amount'' readInt64,
         rd ''users'' readInt32]),
      (1069645911, [rd ''flags'' readUInt32, set_if ''flags'' 0 ''restore'',
         rd ''phone_number'' readString, rd ''phone_code_hash'' readString,
         rd ''premium_days'' readInt32, rd ''currency'' readString, rd ''amount'' readInt64])]"

definition writeTLInputStorePaymentPurpose :: tl_writer where
  "writeTLInputStorePaymentPurpose = write_fobject
     [(- 1502273946, [wf ''_'' writeInt32, wf_flags ''flags'' [(''restore'', 0), (''upgrade'',
         1)]]),
      (1634697192, [wf ''_'' writeInt32, wf ''user_id'' writeTLInputUser,
         wf ''currency'' writeString, wf ''amount'' writeInt64]),
      (- 75955309, [wf ''_'' writeInt32, wf_flags ''flags'' [(''boost_peer'', 0), (''message'',
         1)], wf ''users'' (writeVector (Some writeTLInputUser)),
         wf_if ''flags'' 0 ''boost_peer'' writeTLInputPeer, wf ''currency'' writeString,
         wf ''amount'' writeInt64, wf_if ''flags'' 1 ''message'' writeTLTextWithEntities]),
      (369444042, [wf ''_'' writeInt32, wf_flags ''flags'' [(''only_new_subscribers'', 0),
         (''winners_are_visible'', 3), (''additional_peers'', 1), (''countries_iso2'', 2),
         (''prize_description'', 4)], wf ''boost_peer'' writeTLInputPeer,
         wf_if ''flags'' 1 ''additional_peers'' (writeVector (Some writeTLInputPeer)),
         wf_if ''flags'' 2 ''countries_iso2'' (writeVector (Some writeString)),
         wf_if ''flags'' 4 ''prize_description'' writeString, wf ''random_id'' writeInt64,
         wf ''until_date'' writeInt32, wf ''currency'' writeString, wf ''amount'' writeInt64]),
      (- 106780981, [wf ''_'' writeInt32, wf_flags ''flags'' [(''spend_purpose_peer'', 0)],
         wf ''stars'' writeInt64, wf ''currency'' writeString, wf ''amount'' writeInt64,
         wf_if ''flags'' 0 ''spend_purpose_peer'' writeTLInputPeer]),
      (494149367, [wf ''_'' writeInt32, wf ''user_id'' writeTLInputUser, wf ''stars'' writeInt64,
         wf ''currency'' writeString, wf ''amount'' writeInt64]),
      (1964968186, [wf ''_'' writeInt32, wf_flags ''flags'' [(''only_new_subscribers'', 0),
         (''winners_are_visible'', 3), (''additional_peers'', 1), (''countries_iso2'', 2),
         (''prize_description'', 4)], wf ''stars'' writeInt64, wf ''boost_peer'' writeTLInputPeer,
         wf_if ''flags'' 1 ''additional_peers'' (writeVector (Some writeTLInputPeer)),
         wf_if ''flags'' 2 ''countries_iso2'' (writeVector (Some writeString)),
         wf_if ''flags'' 4 ''prize_description'' writeString, wf ''random_id'' writeInt64,
         wf ''until_date'' writeInt32, wf ''currency'' writeString, wf ''amount'' writeInt64,
         wf ''users'' writeInt32]),
      (1069645911, [wf ''_'' writeInt32, wf_flags ''flags'' [(''restore'', 0)],
         wf ''phone_number'' writeString, wf ''phone_code_hash'' writeString,
         wf ''premium_days'' writeInt32, wf ''currency'' writeString, wf ''amount'' writeInt64])]"

definition TL_InputStorePaymentPurpose_table :: flag_table where
  "TL_InputStorePaymentPurpose_table =
     [(- 1502273946, [Flags ''flags'' [(''restore'', 0), (''upgrade'', 1)],
        TrueBit ''flags'' 0 ''restore'',
        TrueBit ''flags'' 1 ''upgrade'']),
      (1634697192, [Plain (''user_id'', readTLInputUser, writeTLInputUser,
         enc_fobject TL_InputUser_table, ok_fobject TL_InputUser_table),
        Plain (''currency'', readString, writeString, enc_string, is_short_text),
        Plain (''amount'', readInt64, writeInt64, enc_int64, is_VLong)]),
      (- 75955309, [Flags ''flags'' [(''boost_peer'', 0), (''message'', 1)],
        Plain (''users'', readVector (Some readTLInputUser), writeVector (Some writeTLInputUser),
         enc_vector (enc_fobject TL_InputUser_table), ok_vector (ok_fobject TL_InputUser_table)),
        Cond ''flags'' 0 (''boost_peer'', readTLInputPeer, writeTLInputPeer, enc_InputPeer,
         ok_InputPeer),
        Plain (''currency'', readString, writeString, enc_string, is_short_text),
        Plain (''amount'', readInt64, writeInt64, enc_int64, is_VLong),
        Cond ''flags'' 1 (''message'', readTLTextWithEntities, writeTLTextWithEntities,
         enc_fobject TL_TextWithEntities_table, ok_fobject TL_TextWithEntities_table)]),
      (369444042, [Flags ''flags'' [(''only_new_subscribers'', 0), (''winners_are_visible'', 3),
         (''additional_peers'', 1), (''countries_iso2'', 2), (''prize_description'', 4)],
        TrueBit ''flags'' 0 ''only_new_subscribers'',
        TrueBit ''flags'' 3 ''winners_are_visible'',
        Plain (''boost_peer'', readTLInputPeer, writeTLInputPeer, enc_InputPeer, ok_InputPeer),
        Cond ''flags'' 1 (''additional_peers'', readVector (Some readTLInputPeer),
         writeVector (Some writeTLInputPeer), enc_vector enc_InputPeer, ok_vector ok_InputPeer),
        Cond ''flags'' 2 (''countries_iso2'', readVector (Some readString),
         writeVector (Some writeString), enc_vector enc_string, ok_vector is_short_text),
        Cond ''flags'' 4 (''prize_description'', readString, writeString, enc_string,
         is_short_text),
        Plain (''random_id'', readInt64, writeInt64, enc_int64, is_VLong),
        Plain (''until_date'', readInt32, writeInt32, enc_int32, is_VInt),
        Plain (''currency'', readString, writeString, enc_string, is_short_text),
        Plain (''amount'', readInt64, writeInt64, enc_int64, is_VLong)]),
      (- 106780981, [Flags ''flags'' [(''spend_purpose_peer'', 0)],
        Plain (''stars'', readInt64, writeInt64, enc_int64, is_VLong),
        Plain (''currency'', readString, writeString, enc_string, is_short_text),
        Plain (''amount'', readInt64, writeInt64, enc_int64, is_VLong),
        Cond ''flags'' 0 (''spend_purpose_peer'', readTLInputPeer, writeTLInputPeer, enc_InputPeer,
         ok_InputPeer)]),
      (494149367, [Plain (''user_id'', readTLInputUser, writeTLInputUser,
         enc_fobject TL_InputUser_table, ok_fobject TL_InputUser_table),
        Plain (''stars'', readInt64, writeInt64, enc_int64, is_VLong),
        Plain (''currency'', readString, writeString, enc_string, is_short_text),
        Plain (''amount'', readInt64, writeInt64, enc_int64, is_VLong)]),
      (1964968186, [Flags ''flags'' [(''only_new_subscribers'', 0), (''winners_are_visible'', 3),
         (''additional_peers'', 1), (''countries_iso2'', 2), (''prize_description'', 4)],
        TrueBit ''flags'' 0 ''only_new_subscribers'',
        TrueBit ''flags'' 3 ''winners_are_visible'',
        Plain (''stars'', readInt64, writeInt64, enc_int64, is_VLong),
        Plain (''boost_peer'', readTLInputPeer, writeTLInputPeer, enc_InputPeer, ok_InputPeer),
        Cond ''flags'' 1 (''additional_peers'', readVector (Some readTLInputPeer),
         writeVector (Some writeTLInputPeer), enc_vector enc_InputPeer, ok_vector ok_InputPeer),
        Cond ''flags'' 2 (''countries_iso2'', readVector (Some readString),
         writeVector (Some writeString), enc_vector enc_string, ok_vector is_short_text),
        Cond ''flags'' 4 (''prize_description'', readString, writeString, enc_string,
         is_short_text),
        Plain (''random_id'', readInt64, writeInt64, enc_int64, is_VLong),
        Plain (''until_date'', readInt32, writeInt32, enc_int32, is_VInt),
        Plain (''currency'', readString, writeString, enc_string, is_short_text),
        Plain (''amount'', readInt64, writeInt64, enc_int64, is_VLong),
        Plain (''users'', readInt32, writeInt32, enc_int32, is_VInt)]),
      (1069645911, [Flags ''flags'' [(''restore'', 0)],
        TrueBit ''flags'' 0 ''restore'',
        Plain (''phone_number'', readString, writeString, enc_string, is_short_text),
        Plain (''phone_code_hash'', readString, writeString, enc_string, is_short_text),
        Plain (''premium_days'', readInt32, writeInt32, enc_int32, is_VInt),
        Plain (''currency'', readString, writeString, enc_string, is_short_text),
        Plain (''amount'', readInt64, writeInt64, enc_int64, is_VLong)])]"

interpretation tl_InputStorePaymentPurpose: tl_codec readTLInputStorePaymentPurpose writeTLInputStorePaymentPurpose "enc_fobject TL_InputStorePaymentPurpose_table" "ok_fobject TL_InputStorePaymentPurpose_table"
  by (rule flag_schema_codec, unfold TL_InputStorePaymentPurpose_table_def, intro flag_tableI)
    (simp_all add: readTLInputStorePaymentPurpose_def writeTLInputStorePaymentPurpose_def flag_schema_simps tl_InputUser.tl_codec_axioms tl_InputUser.vector_codec tl_InputPeer.tl_codec_axioms tl_InputPeer.vector_codec tl_TextWithEntities.tl_codec_axioms tl_TextWithEntities.vector_codec)

subsection \<open>The types since the last list at once\<close>

definition tl_types_part6 :: "(tl_reader \<times> tl_writer \<times> flag_table) list" where
  "tl_types_part6 =
     [(readTLGroupCall, writeTLGroupCall, TL_GroupCall_table),
      (readTLGroupCallParticipantVideoSourceGroup, writeTLGroupCallParticipantVideoSourceGroup, TL_GroupCallParticipantVideoSourceGroup_table),
      (readTLGroupCallParticipantVideo, writeTLGroupCallParticipantVideo, TL_GroupCallParticipantVideo_table),
      (readTLGroupCallParticipant, writeTLGroupCallParticipant, TL_GroupCallParticipant_table),
      (readTLPhoneGroupCall, writeTLPhoneGroupCall, TL_PhoneGroupCall_table),
      (readTLPhoneGroupParticipants, writeTLPhoneGroupParticipants, TL_PhoneGroupParticipants_table),
      (readTLMessagesHistoryImport, writeTLMessagesHistoryImport, TL_MessagesHistoryImport_table),
      (readTLMessagesHistoryImportParsed, writeTLMessagesHistoryImportParsed, TL_MessagesHistoryImportParsed_table),
      (readTLMessagesAffectedFoundMessages, writeTLMessagesAffectedFoundMessages, TL_MessagesAffectedFoundMessages_table),
      (readTLChatInviteImporter, writeTLChatInviteImporter, TL_ChatInviteImporter_table),
      (readTLMessagesExportedChatInvites, writeTLMessagesExportedChatInvites, TL_MessagesExportedChatInvites_table),
      (readTLMessagesExportedChatInvite, writeTLMessagesExportedChatInvite, TL_MessagesExportedChatInvite_table),
      (readTLMessagesChatInviteImporters, writeTLMessagesChatInviteImporters, TL_MessagesChatInviteImporters_table),
      (readTLChatAdminWithInvites, writeTLChatAdminWithInvites, TL_ChatAdminWithInvites_table),
      (readTLMessagesChatAdminsWithInvites, writeTLMessagesChatAdminsWithInvites, TL_MessagesChatAdminsWithInvites_table),
      (readTLMessagesCheckedHistoryImportPeer, writeTLMessagesCheckedHistoryImportPeer, TL_MessagesCheckedHistoryImportPeer_table),
      (readTLPhoneJoinAsPeers, writeTLPhoneJoinAsPeers, TL_PhoneJoinAsPeers_table),
      (readTLPhoneExportedGroupCallInvite, writeTLPhoneExportedGroupCallInvite, TL_PhoneExportedGroupCallInvite_table),
      (readTLStickersSuggestedShortName, writeTLStickersSuggestedShortName, TL_StickersSuggestedShortName_table),
      (readTLBotCommandScope, writeTLBotCommandScope, TL_BotCommandScope_table),
      (readTLAccountResetPasswordResult, writeTLAccountResetPasswordResult, TL_AccountResetPasswordResult_table),
      (readTLSearchResultsCalendarPeriod, writeTLSearchResultsCalendarPeriod, TL_SearchResultsCalendarPeriod_table),
      (readTLSearchResultsPosition, writeTLSearchResultsPosition, TL_SearchResultsPosition_table),
      (readTLMessagesSearchResultsPositions, writeTLMessagesSearchResultsPositions, TL_MessagesSearchResultsPositions_table),
      (readTLSendAsPeer, writeTLSendAsPeer, TL_SendAsPeer_table),
      (readTLChannelsSendAsPeers, writeTLChannelsSendAsPeers, TL_ChannelsSendAsPeers_table),
      (readTLMessagesPeerSettings, writeTLMessagesPeerSettings, TL_MessagesPeerSettings_table),
      (readTLAuthLoggedOut, writeTLAuthLoggedOut, TL_AuthLoggedOut_table),
      (readTLReactionCount, writeTLReactionCount, TL_ReactionCount_table),
      (readTLMessagePeerReaction, writeTLMessagePeerReaction, TL_MessagePeerReaction_table),
      (readTLMessageReactor, writeTLMessageReactor, TL_MessageReactor_table),
      (readTLMessageReactions, writeTLMessageReactions, TL_MessageReactions_table),
      (readTLMessagesMessageReactionsList, writeTLMessagesMessageReactionsList, TL_MessagesMessageReactionsList_table),
      (readTLGroupCallStreamChannel, writeTLGroupCallStreamChannel, TL_GroupCallStreamChannel_table),
      (readTLPhoneGroupCallStreamChannels, writeTLPhoneGroupCallStreamChannels, TL_PhoneGroupCallStreamChannels_table),
      (readTLPhoneGroupCallStreamRtmpUrl, writeTLPhoneGroupCallStreamRtmpUrl, TL_PhoneGroupCallStreamRtmpUrl_table),
      (readTLAttachMenuBotIconColor, writeTLAttachMenuBotIconColor, TL_AttachMenuBotIconColor_table),
      (readTLAttachMenuPeerType, writeTLAttachMenuPeerType, TL_AttachMenuPeerType_table),
      (readTLWebViewResult, writeTLWebViewResult, TL_WebViewResult_table),
      (readTLWebViewMessageSent, writeTLWebViewMessageSent, TL_WebViewMessageSent_table),
      (readTLBotMenuButton, writeTLBotMenuButton, TL_BotMenuButton_table),
      (readTLInputStorePaymentPurpose, writeTLInputStorePaymentPurpose, TL_InputStorePaymentPurpose_table)]"

lemma tl_types_part6_codec: "(R, W, t) \<in> set tl_types_part6 \<Longrightarrow> tl_codec R W (enc_fobject t) (ok_fobject t)"
  by (auto simp: tl_types_part6_def
      intro: tl_GroupCall.tl_codec_axioms tl_GroupCallParticipantVideoSourceGroup.tl_codec_axioms
         tl_GroupCallParticipantVideo.tl_codec_axioms tl_GroupCallParticipant.tl_codec_axioms
         tl_PhoneGroupCall.tl_codec_axioms tl_PhoneGroupParticipants.tl_codec_axioms
         tl_MessagesHistoryImport.tl_codec_axioms tl_MessagesHistoryImportParsed.tl_codec_axioms
         tl_MessagesAffectedFoundMessages.tl_codec_axioms tl_ChatInviteImporter.tl_codec_axioms
         tl_MessagesExportedChatInvites.tl_codec_axioms
         tl_MessagesExportedChatInvite.tl_codec_axioms
         tl_MessagesChatInviteImporters.tl_codec_axioms tl_ChatAdminWithInvites.tl_codec_axioms
         tl_MessagesChatAdminsWithInvites.tl_codec_axioms
         tl_MessagesCheckedHistoryImportPeer.tl_codec_axioms tl_PhoneJoinAsPeers.tl_codec_axioms
         tl_PhoneExportedGroupCallInvite.tl_codec_axioms
         tl_StickersSuggestedShortName.tl_codec_axioms tl_BotCommandScope.tl_codec_axioms
         tl_AccountResetPasswordResult.tl_codec_axioms
         tl_SearchResultsCalendarPeriod.tl_codec_axioms tl_SearchResultsPosition.tl_codec_axioms
         tl_MessagesSearchResultsPositions.tl_codec_axioms tl_SendAsPeer.tl_codec_axioms
         tl_ChannelsSendAsPeers.tl_codec_axioms tl_MessagesPeerSettings.tl_codec_axioms
         tl_AuthLoggedOut.tl_codec_axioms tl_ReactionCount.tl_codec_axioms
         tl_MessagePeerReaction.tl_codec_axioms tl_MessageReactor.tl_codec_axioms
         tl_MessageReactions.tl_codec_axioms tl_MessagesMessageReactionsList.tl_codec_axioms
         tl_GroupCallStreamChannel.tl_codec_axioms
         tl_PhoneGroupCallStreamChannels.tl_codec_axioms
         tl_PhoneGroupCallStreamRtmpUrl.tl_codec_axioms tl_AttachMenuBotIconColor.tl_codec_axioms
         tl_AttachMenuPeerType.tl_codec_axioms tl_WebViewResult.tl_codec_axioms
         tl_WebViewMessageSent.tl_codec_axioms tl_BotMenuButton.tl_codec_axioms
         tl_InputStorePaymentPurpose.tl_codec_axioms)

end
