(* ===== verification/TlTypes3.thy ===== *)
theory TlTypes3
  imports TlTypes2
begin

section \<open>The API schema, further types: libkg/tlschema.cpp\<close>

text \<open>
  Readers and writers of the types PremiumGiftCodeOption to SponsoredMessageReportOption, in dependency order, each with its table and the
  interpretation of the codec contract for it.
\<close>

definition readTLPremiumGiftCodeOption :: tl_reader where
  "readTLPremiumGiftCodeOption = read_object
     [(629052971, [rd ''flags'' readUInt32, rd ''users'' readInt32, rd ''months'' readInt32,
         rd_if ''flags'' 0 ''store_product'' readString,
         rd_if ''flags'' 1 ''store_quantity'' readInt32, rd ''currency'' readString,
         rd ''amount'' readInt64])]"

definition writeTLPremiumGiftCodeOption :: tl_writer where
  "writeTLPremiumGiftCodeOption = write_fobject
     [(629052971, [wf ''_'' writeInt32, wf_flags ''flags'' [(''store_product'', 0),
         (''store_quantity'', 1)], wf ''users'' writeInt32, wf ''months'' writeInt32,
         wf_if ''flags'' 0 ''store_product'' writeString,
         wf_if ''flags'' 1 ''store_quantity'' writeInt32, wf ''currency'' writeString,
         wf ''amount'' writeInt64])]"

definition TL_PremiumGiftCodeOption_table :: flag_table where
  "TL_PremiumGiftCodeOption_table =
     [(629052971, [Flags ''flags'' [(''store_product'', 0), (''store_quantity'', 1)],
        Plain (''users'', readInt32, writeInt32, enc_int32, is_VInt),
        Plain (''months'', readInt32, writeInt32, enc_int32, is_VInt),
        Cond ''flags'' 0 (''store_product'', readString, writeString, enc_string, is_short_text),
        Cond ''flags'' 1 (''store_quantity'', readInt32, writeInt32, enc_int32, is_VInt),
        Plain (''currency'', readString, writeString, enc_string, is_short_text),
        Plain (''amount'', readInt64, writeInt64, enc_int64, is_VLong)])]"

interpretation tl_PremiumGiftCodeOption: tl_codec readTLPremiumGiftCodeOption writeTLPremiumGiftCodeOption "enc_fobject TL_PremiumGiftCodeOption_table" "ok_fobject TL_PremiumGiftCodeOption_table"
  by (rule flag_schema_codec, unfold TL_PremiumGiftCodeOption_table_def, intro flag_tableI)
    (simp_all add: readTLPremiumGiftCodeOption_def writeTLPremiumGiftCodeOption_def flag_schema_simps)

definition readTLInputSavedStarGift :: tl_reader where
  "readTLInputSavedStarGift = read_object
     [(1764202389, [rd ''msg_id'' readInt32]),
      (- 251549057, [rd ''peer'' readTLInputPeer, rd ''saved_id'' readInt64]),
      (545636920, [rd ''slug'' readString])]"

definition writeTLInputSavedStarGift :: tl_writer where
  "writeTLInputSavedStarGift = write_fobject
     [(1764202389, [wf ''_'' writeInt32, wf ''msg_id'' writeInt32]),
      (- 251549057, [wf ''_'' writeInt32, wf ''peer'' writeTLInputPeer,
         wf ''saved_id'' writeInt64]),
      (545636920, [wf ''_'' writeInt32, wf ''slug'' writeString])]"

definition TL_InputSavedStarGift_table :: flag_table where
  "TL_InputSavedStarGift_table =
     [(1764202389, [Plain (''msg_id'', readInt32, writeInt32, enc_int32, is_VInt)]),
      (- 251549057, [Plain (''peer'', readTLInputPeer, writeTLInputPeer, enc_InputPeer,
         ok_InputPeer),
        Plain (''saved_id'', readInt64, writeInt64, enc_int64, is_VLong)]),
      (545636920, [Plain (''slug'', readString, writeString, enc_string, is_short_text)])]"

interpretation tl_InputSavedStarGift: tl_codec readTLInputSavedStarGift writeTLInputSavedStarGift "enc_fobject TL_InputSavedStarGift_table" "ok_fobject TL_InputSavedStarGift_table"
  by (rule flag_schema_codec, unfold TL_InputSavedStarGift_table_def, intro flag_tableI)
    (simp_all add: readTLInputSavedStarGift_def writeTLInputSavedStarGift_def flag_schema_simps tl_InputPeer.tl_codec_axioms)

definition readTLInputInvoice :: tl_reader where
  "readTLInputInvoice = read_object
     [(- 977967015, [rd ''peer'' readTLInputPeer, rd ''msg_id'' readInt32]),
      (- 1020867857, [rd ''slug'' readString]),
      (- 1734841331, [rd ''purpose'' readTLInputStorePaymentPurpose,
         rd ''option'' readTLPremiumGiftCodeOption]),
      (1710230755, [rd ''purpose'' readTLInputStorePaymentPurpose]),
      (887591921, [rd ''hash'' readString]),
      (- 396206446, [rd ''flags'' readUInt32, set_if ''flags'' 0 ''hide_name'',
         set_if ''flags'' 2 ''include_upgrade'', rd ''peer'' readTLInputPeer,
         rd ''gift_id'' readInt64, rd_if ''flags'' 1 ''message'' readTLTextWithEntities]),
      (1300335965, [rd ''flags'' readUInt32, set_if ''flags'' 0 ''keep_original_details'',
         rd ''stargift'' readTLInputSavedStarGift]),
      (1247763417, [rd ''stargift'' readTLInputSavedStarGift, rd ''to_id'' readTLInputPeer]),
      (- 625298705, [rd ''flags'' readUInt32, rd ''user_id'' readTLInputUser,
         rd ''months'' readInt32, rd_if ''flags'' 0 ''message'' readTLTextWithEntities]),
      (- 191267262, [rd ''bot'' readTLInputUser, rd ''stars'' readInt64]),
      (- 374290856, [rd ''flags'' readUInt32, set_if ''flags'' 0 ''ton'',
         set_if ''flags'' 2 ''show_name'', rd ''slug'' readString, rd ''to_id'' readTLInputPeer,
         rd_if ''flags'' 1 ''message'' readTLTextWithEntities]),
      (- 1710536520, [rd ''peer'' readTLInputPeer, rd ''hash'' readString]),
      (1048049172, [rd ''purpose'' readTLInputStorePaymentPurpose]),
      (153344209, [rd ''stargift'' readTLInputSavedStarGift]),
      (516618768, [rd ''flags'' readUInt32, set_if ''flags'' 0 ''hide_name'',
         set_if ''flags'' 2 ''update_bid'', rd_if ''flags'' 3 ''peer'' readTLInputPeer,
         rd ''gift_id'' readInt64, rd ''bid_amount'' readInt64,
         rd_if ''flags'' 1 ''message'' readTLTextWithEntities])]"

definition writeTLInputInvoice :: tl_writer where
  "writeTLInputInvoice = write_fobject
     [(- 977967015, [wf ''_'' writeInt32, wf ''peer'' writeTLInputPeer, wf ''msg_id'' writeInt32]),
      (- 1020867857, [wf ''_'' writeInt32, wf ''slug'' writeString]),
      (- 1734841331, [wf ''_'' writeInt32, wf ''purpose'' writeTLInputStorePaymentPurpose,
         wf ''option'' writeTLPremiumGiftCodeOption]),
      (1710230755, [wf ''_'' writeInt32, wf ''purpose'' writeTLInputStorePaymentPurpose]),
      (887591921, [wf ''_'' writeInt32, wf ''hash'' writeString]),
      (- 396206446, [wf ''_'' writeInt32, wf_flags ''flags'' [(''hide_name'', 0),
         (''include_upgrade'', 2), (''message'', 1)], wf ''peer'' writeTLInputPeer,
         wf ''gift_id'' writeInt64, wf_if ''flags'' 1 ''message'' writeTLTextWithEntities]),
      (1300335965, [wf ''_'' writeInt32, wf_flags ''flags'' [(''keep_original_details'', 0)],
         wf ''stargift'' writeTLInputSavedStarGift]),
      (1247763417, [wf ''_'' writeInt32, wf ''stargift'' writeTLInputSavedStarGift,
         wf ''to_id'' writeTLInputPeer]),
      (- 625298705, [wf ''_'' writeInt32, wf_flags ''flags'' [(''message'', 0)],
         wf ''user_id'' writeTLInputUser, wf ''months'' writeInt32,
         wf_if ''flags'' 0 ''message'' writeTLTextWithEntities]),
      (- 191267262, [wf ''_'' writeInt32, wf ''bot'' writeTLInputUser, wf ''stars'' writeInt64]),
      (- 374290856, [wf ''_'' writeInt32, wf_flags ''flags'' [(''ton'', 0), (''show_name'', 2),
         (''message'', 1)], wf ''slug'' writeString, wf ''to_id'' writeTLInputPeer,
         wf_if ''flags'' 1 ''message'' writeTLTextWithEntities]),
      (- 1710536520, [wf ''_'' writeInt32, wf ''peer'' writeTLInputPeer, wf ''hash'' writeString]),
      (1048049172, [wf ''_'' writeInt32, wf ''purpose'' writeTLInputStorePaymentPurpose]),
      (153344209, [wf ''_'' writeInt32, wf ''stargift'' writeTLInputSavedStarGift]),
      (516618768, [wf ''_'' writeInt32, wf_flags ''flags'' [(''hide_name'', 0), (''update_bid'',
         2), (''peer'', 3), (''message'', 1)], wf_if ''flags'' 3 ''peer'' writeTLInputPeer,
         wf ''gift_id'' writeInt64, wf ''bid_amount'' writeInt64,
         wf_if ''flags'' 1 ''message'' writeTLTextWithEntities])]"

definition TL_InputInvoice_table :: flag_table where
  "TL_InputInvoice_table =
     [(- 977967015, [Plain (''peer'', readTLInputPeer, writeTLInputPeer, enc_InputPeer,
         ok_InputPeer),
        Plain (''msg_id'', readInt32, writeInt32, enc_int32, is_VInt)]),
      (- 1020867857, [Plain (''slug'', readString, writeString, enc_string, is_short_text)]),
      (- 1734841331, [Plain (''purpose'', readTLInputStorePaymentPurpose,
         writeTLInputStorePaymentPurpose, enc_fobject TL_InputStorePaymentPurpose_table,
         ok_fobject TL_InputStorePaymentPurpose_table),
        Plain (''option'', readTLPremiumGiftCodeOption, writeTLPremiumGiftCodeOption,
         enc_fobject TL_PremiumGiftCodeOption_table, ok_fobject TL_PremiumGiftCodeOption_table)]),
      (1710230755, [Plain (''purpose'', readTLInputStorePaymentPurpose,
         writeTLInputStorePaymentPurpose, enc_fobject TL_InputStorePaymentPurpose_table,
         ok_fobject TL_InputStorePaymentPurpose_table)]),
      (887591921, [Plain (''hash'', readString, writeString, enc_string, is_short_text)]),
      (- 396206446, [Flags ''flags'' [(''hide_name'', 0), (''include_upgrade'', 2), (''message'',
         1)],
        TrueBit ''flags'' 0 ''hide_name'',
        TrueBit ''flags'' 2 ''include_upgrade'',
        Plain (''peer'', readTLInputPeer, writeTLInputPeer, enc_InputPeer, ok_InputPeer),
        Plain (''gift_id'', readInt64, writeInt64, enc_int64, is_VLong),
        Cond ''flags'' 1 (''message'', readTLTextWithEntities, writeTLTextWithEntities,
         enc_fobject TL_TextWithEntities_table, ok_fobject TL_TextWithEntities_table)]),
      (1300335965, [Flags ''flags'' [(''keep_original_details'', 0)],
        TrueBit ''flags'' 0 ''keep_original_details'',
        Plain (''stargift'', readTLInputSavedStarGift, writeTLInputSavedStarGift,
         enc_fobject TL_InputSavedStarGift_table, ok_fobject TL_InputSavedStarGift_table)]),
      (1247763417, [Plain (''stargift'', readTLInputSavedStarGift, writeTLInputSavedStarGift,
         enc_fobject TL_InputSavedStarGift_table, ok_fobject TL_InputSavedStarGift_table),
        Plain (''to_id'', readTLInputPeer, writeTLInputPeer, enc_InputPeer, ok_InputPeer)]),
      (- 625298705, [Flags ''flags'' [(''message'', 0)],
        Plain (''user_id'', readTLInputUser, writeTLInputUser, enc_fobject TL_InputUser_table,
         ok_fobject TL_InputUser_table),
        Plain (''months'', readInt32, writeInt32, enc_int32, is_VInt),
        Cond ''flags'' 0 (''message'', readTLTextWithEntities, writeTLTextWithEntities,
         enc_fobject TL_TextWithEntities_table, ok_fobject TL_TextWithEntities_table)]),
      (- 191267262, [Plain (''bot'', readTLInputUser, writeTLInputUser,
         enc_fobject TL_InputUser_table, ok_fobject TL_InputUser_table),
        Plain (''stars'', readInt64, writeInt64, enc_int64, is_VLong)]),
      (- 374290856, [Flags ''flags'' [(''ton'', 0), (''show_name'', 2), (''message'', 1)],
        TrueBit ''flags'' 0 ''ton'',
        TrueBit ''flags'' 2 ''show_name'',
        Plain (''slug'', readString, writeString, enc_string, is_short_text),
        Plain (''to_id'', readTLInputPeer, writeTLInputPeer, enc_InputPeer, ok_InputPeer),
        Cond ''flags'' 1 (''message'', readTLTextWithEntities, writeTLTextWithEntities,
         enc_fobject TL_TextWithEntities_table, ok_fobject TL_TextWithEntities_table)]),
      (- 1710536520, [Plain (''peer'', readTLInputPeer, writeTLInputPeer, enc_InputPeer,
         ok_InputPeer),
        Plain (''hash'', readString, writeString, enc_string, is_short_text)]),
      (1048049172, [Plain (''purpose'', readTLInputStorePaymentPurpose,
         writeTLInputStorePaymentPurpose, enc_fobject TL_InputStorePaymentPurpose_table,
         ok_fobject TL_InputStorePaymentPurpose_table)]),
      (153344209, [Plain (''stargift'', readTLInputSavedStarGift, writeTLInputSavedStarGift,
         enc_fobject TL_InputSavedStarGift_table, ok_fobject TL_InputSavedStarGift_table)]),
      (516618768, [Flags ''flags'' [(''hide_name'', 0), (''update_bid'', 2), (''peer'', 3),
         (''message'', 1)],
        TrueBit ''flags'' 0 ''hide_name'',
        TrueBit ''flags'' 2 ''update_bid'',
        Cond ''flags'' 3 (''peer'', readTLInputPeer, writeTLInputPeer, enc_InputPeer, ok_InputPeer),
        Plain (''gift_id'', readInt64, writeInt64, enc_int64, is_VLong),
        Plain (''bid_amount'', readInt64, writeInt64, enc_int64, is_VLong),
        Cond ''flags'' 1 (''message'', readTLTextWithEntities, writeTLTextWithEntities,
         enc_fobject TL_TextWithEntities_table, ok_fobject TL_TextWithEntities_table)])]"

interpretation tl_InputInvoice: tl_codec readTLInputInvoice writeTLInputInvoice "enc_fobject TL_InputInvoice_table" "ok_fobject TL_InputInvoice_table"
  by (rule flag_schema_codec, unfold TL_InputInvoice_table_def, intro flag_tableI)
    (simp_all add: readTLInputInvoice_def writeTLInputInvoice_def flag_schema_simps tl_InputPeer.tl_codec_axioms tl_InputStorePaymentPurpose.tl_codec_axioms tl_PremiumGiftCodeOption.tl_codec_axioms tl_TextWithEntities.tl_codec_axioms tl_InputSavedStarGift.tl_codec_axioms tl_InputUser.tl_codec_axioms)

definition readTLPaymentsExportedInvoice :: tl_reader where
  "readTLPaymentsExportedInvoice = read_object
     [(- 1362048039, [rd ''url'' readString])]"

definition writeTLPaymentsExportedInvoice :: tl_writer where
  "writeTLPaymentsExportedInvoice = write_fobject
     [(- 1362048039, [wf ''_'' writeInt32, wf ''url'' writeString])]"

definition TL_PaymentsExportedInvoice_table :: flag_table where
  "TL_PaymentsExportedInvoice_table =
     [(- 1362048039, [Plain (''url'', readString, writeString, enc_string, is_short_text)])]"

interpretation tl_PaymentsExportedInvoice: tl_codec readTLPaymentsExportedInvoice writeTLPaymentsExportedInvoice "enc_fobject TL_PaymentsExportedInvoice_table" "ok_fobject TL_PaymentsExportedInvoice_table"
  by (rule flag_schema_codec, unfold TL_PaymentsExportedInvoice_table_def, intro flag_tableI)
    (simp_all add: readTLPaymentsExportedInvoice_def writeTLPaymentsExportedInvoice_def flag_schema_simps)

definition readTLMessagesTranscribedAudio :: tl_reader where
  "readTLMessagesTranscribedAudio = read_object
     [(- 809903785, [rd ''flags'' readUInt32, set_if ''flags'' 0 ''pending'',
         rd ''transcription_id'' readInt64, rd ''text'' readString,
         rd_if ''flags'' 1 ''trial_remains_num'' readInt32,
         rd_if ''flags'' 1 ''trial_remains_until_date'' readInt32])]"

definition writeTLMessagesTranscribedAudio :: tl_writer where
  "writeTLMessagesTranscribedAudio = write_fobject
     [(- 809903785, [wf ''_'' writeInt32, wf_flags ''flags'' [(''pending'', 0),
         (''trial_remains_num'', 1), (''trial_remains_until_date'', 1)],
         wf ''transcription_id'' writeInt64, wf ''text'' writeString,
         wf_if ''flags'' 1 ''trial_remains_num'' writeInt32,
         wf_if ''flags'' 1 ''trial_remains_until_date'' writeInt32])]"

definition TL_MessagesTranscribedAudio_table :: flag_table where
  "TL_MessagesTranscribedAudio_table =
     [(- 809903785, [Flags ''flags'' [(''pending'', 0), (''trial_remains_num'', 1),
         (''trial_remains_until_date'', 1)],
        TrueBit ''flags'' 0 ''pending'',
        Plain (''transcription_id'', readInt64, writeInt64, enc_int64, is_VLong),
        Plain (''text'', readString, writeString, enc_string, is_short_text),
        Cond ''flags'' 1 (''trial_remains_num'', readInt32, writeInt32, enc_int32, is_VInt),
        Cond ''flags'' 1 (''trial_remains_until_date'', readInt32, writeInt32, enc_int32,
         is_VInt)])]"

interpretation tl_MessagesTranscribedAudio: tl_codec readTLMessagesTranscribedAudio writeTLMessagesTranscribedAudio "enc_fobject TL_MessagesTranscribedAudio_table" "ok_fobject TL_MessagesTranscribedAudio_table"
  by (rule flag_schema_codec, unfold TL_MessagesTranscribedAudio_table_def, intro flag_tableI)
    (simp_all add: readTLMessagesTranscribedAudio_def writeTLMessagesTranscribedAudio_def flag_schema_simps)

definition readTLPaymentFormMethod :: tl_reader where
  "readTLPaymentFormMethod = read_object
     [(- 1996951013, [rd ''url'' readString, rd ''title'' readString])]"

definition writeTLPaymentFormMethod :: tl_writer where
  "writeTLPaymentFormMethod = write_fobject
     [(- 1996951013, [wf ''_'' writeInt32, wf ''url'' writeString, wf ''title'' writeString])]"

definition TL_PaymentFormMethod_table :: flag_table where
  "TL_PaymentFormMethod_table =
     [(- 1996951013, [Plain (''url'', readString, writeString, enc_string, is_short_text),
        Plain (''title'', readString, writeString, enc_string, is_short_text)])]"

interpretation tl_PaymentFormMethod: tl_codec readTLPaymentFormMethod writeTLPaymentFormMethod "enc_fobject TL_PaymentFormMethod_table" "ok_fobject TL_PaymentFormMethod_table"
  by (rule flag_schema_codec, unfold TL_PaymentFormMethod_table_def, intro flag_tableI)
    (simp_all add: readTLPaymentFormMethod_def writeTLPaymentFormMethod_def flag_schema_simps)

definition readTLAccountEmojiStatuses :: tl_reader where
  "readTLAccountEmojiStatuses = read_object
     [(- 796072379, []),
      (- 1866176559, [rd ''hash'' readInt64,
         rd ''statuses'' (readVector (Some readTLEmojiStatus))])]"

definition writeTLAccountEmojiStatuses :: tl_writer where
  "writeTLAccountEmojiStatuses = write_fobject
     [(- 796072379, [wf ''_'' writeInt32]),
      (- 1866176559, [wf ''_'' writeInt32, wf ''hash'' writeInt64,
         wf ''statuses'' (writeVector (Some writeTLEmojiStatus))])]"

definition TL_AccountEmojiStatuses_table :: flag_table where
  "TL_AccountEmojiStatuses_table =
     [(- 796072379, []),
      (- 1866176559, [Plain (''hash'', readInt64, writeInt64, enc_int64, is_VLong),
        Plain (''statuses'', readVector (Some readTLEmojiStatus),
         writeVector (Some writeTLEmojiStatus), enc_vector (enc_fobject TL_EmojiStatus_table),
         ok_vector (ok_fobject TL_EmojiStatus_table))])]"

interpretation tl_AccountEmojiStatuses: tl_codec readTLAccountEmojiStatuses writeTLAccountEmojiStatuses "enc_fobject TL_AccountEmojiStatuses_table" "ok_fobject TL_AccountEmojiStatuses_table"
  by (rule flag_schema_codec, unfold TL_AccountEmojiStatuses_table_def, intro flag_tableI)
    (simp_all add: readTLAccountEmojiStatuses_def writeTLAccountEmojiStatuses_def flag_schema_simps tl_EmojiStatus.tl_codec_axioms tl_EmojiStatus.vector_codec)

definition readTLChatReactions :: tl_reader where
  "readTLChatReactions = read_object
     [(- 352570692, []),
      (1385335754, [rd ''flags'' readUInt32, set_if ''flags'' 0 ''allow_custom'']),
      (1713193015, [rd ''reactions'' (readVector (Some readTLReaction))])]"

definition writeTLChatReactions :: tl_writer where
  "writeTLChatReactions = write_fobject
     [(- 352570692, [wf ''_'' writeInt32]),
      (1385335754, [wf ''_'' writeInt32, wf_flags ''flags'' [(''allow_custom'', 0)]]),
      (1713193015, [wf ''_'' writeInt32, wf ''reactions'' (writeVector (Some writeTLReaction))])]"

definition TL_ChatReactions_table :: flag_table where
  "TL_ChatReactions_table =
     [(- 352570692, []),
      (1385335754, [Flags ''flags'' [(''allow_custom'', 0)],
        TrueBit ''flags'' 0 ''allow_custom'']),
      (1713193015, [Plain (''reactions'', readVector (Some readTLReaction),
         writeVector (Some writeTLReaction), enc_vector (enc_fobject TL_Reaction_table),
         ok_vector (ok_fobject TL_Reaction_table))])]"

interpretation tl_ChatReactions: tl_codec readTLChatReactions writeTLChatReactions "enc_fobject TL_ChatReactions_table" "ok_fobject TL_ChatReactions_table"
  by (rule flag_schema_codec, unfold TL_ChatReactions_table_def, intro flag_tableI)
    (simp_all add: readTLChatReactions_def writeTLChatReactions_def flag_schema_simps tl_Reaction.tl_codec_axioms tl_Reaction.vector_codec)

definition readTLMessagesReactions :: tl_reader where
  "readTLMessagesReactions = read_object
     [(- 1334846497, []),
      (- 352454890, [rd ''hash'' readInt64, rd ''reactions'' (readVector (Some readTLReaction))])]"

definition writeTLMessagesReactions :: tl_writer where
  "writeTLMessagesReactions = write_fobject
     [(- 1334846497, [wf ''_'' writeInt32]),
      (- 352454890, [wf ''_'' writeInt32, wf ''hash'' writeInt64,
         wf ''reactions'' (writeVector (Some writeTLReaction))])]"

definition TL_MessagesReactions_table :: flag_table where
  "TL_MessagesReactions_table =
     [(- 1334846497, []),
      (- 352454890, [Plain (''hash'', readInt64, writeInt64, enc_int64, is_VLong),
        Plain (''reactions'', readVector (Some readTLReaction), writeVector (Some writeTLReaction),
         enc_vector (enc_fobject TL_Reaction_table), ok_vector (ok_fobject TL_Reaction_table))])]"

interpretation tl_MessagesReactions: tl_codec readTLMessagesReactions writeTLMessagesReactions "enc_fobject TL_MessagesReactions_table" "ok_fobject TL_MessagesReactions_table"
  by (rule flag_schema_codec, unfold TL_MessagesReactions_table_def, intro flag_tableI)
    (simp_all add: readTLMessagesReactions_def writeTLMessagesReactions_def flag_schema_simps tl_Reaction.tl_codec_axioms tl_Reaction.vector_codec)

definition readTLEmailVerifyPurpose :: tl_reader where
  "readTLEmailVerifyPurpose = read_object
     [(1128644211, [rd ''phone_number'' readString, rd ''phone_code_hash'' readString]),
      (1383932651, []),
      (- 1141565819, [])]"

definition writeTLEmailVerifyPurpose :: tl_writer where
  "writeTLEmailVerifyPurpose = write_fobject
     [(1128644211, [wf ''_'' writeInt32, wf ''phone_number'' writeString,
         wf ''phone_code_hash'' writeString]),
      (1383932651, [wf ''_'' writeInt32]),
      (- 1141565819, [wf ''_'' writeInt32])]"

definition TL_EmailVerifyPurpose_table :: flag_table where
  "TL_EmailVerifyPurpose_table =
     [(1128644211, [Plain (''phone_number'', readString, writeString, enc_string, is_short_text),
        Plain (''phone_code_hash'', readString, writeString, enc_string, is_short_text)]),
      (1383932651, []),
      (- 1141565819, [])]"

interpretation tl_EmailVerifyPurpose: tl_codec readTLEmailVerifyPurpose writeTLEmailVerifyPurpose "enc_fobject TL_EmailVerifyPurpose_table" "ok_fobject TL_EmailVerifyPurpose_table"
  by (rule flag_schema_codec, unfold TL_EmailVerifyPurpose_table_def, intro flag_tableI)
    (simp_all add: readTLEmailVerifyPurpose_def writeTLEmailVerifyPurpose_def flag_schema_simps)

definition readTLAccountEmailVerified :: tl_reader where
  "readTLAccountEmailVerified = read_object
     [(731303195, [rd ''email'' readString]),
      (- 507835039, [rd ''email'' readString, rd ''sent_code'' readTLAuthSentCode])]"

definition writeTLAccountEmailVerified :: tl_writer where
  "writeTLAccountEmailVerified = write_fobject
     [(731303195, [wf ''_'' writeInt32, wf ''email'' writeString]),
      (- 507835039, [wf ''_'' writeInt32, wf ''email'' writeString,
         wf ''sent_code'' writeTLAuthSentCode])]"

definition TL_AccountEmailVerified_table :: flag_table where
  "TL_AccountEmailVerified_table =
     [(731303195, [Plain (''email'', readString, writeString, enc_string, is_short_text)]),
      (- 507835039, [Plain (''email'', readString, writeString, enc_string, is_short_text),
        Plain (''sent_code'', readTLAuthSentCode, writeTLAuthSentCode,
         enc_fobject TL_AuthSentCode_table, ok_fobject TL_AuthSentCode_table)])]"

interpretation tl_AccountEmailVerified: tl_codec readTLAccountEmailVerified writeTLAccountEmailVerified "enc_fobject TL_AccountEmailVerified_table" "ok_fobject TL_AccountEmailVerified_table"
  by (rule flag_schema_codec, unfold TL_AccountEmailVerified_table_def, intro flag_tableI)
    (simp_all add: readTLAccountEmailVerified_def writeTLAccountEmailVerified_def flag_schema_simps tl_AuthSentCode.tl_codec_axioms)

definition readTLPremiumSubscriptionOption :: tl_reader where
  "readTLPremiumSubscriptionOption = read_object
     [(1596792306, [rd ''flags'' readUInt32, set_if ''flags'' 1 ''current'',
         set_if ''flags'' 2 ''can_purchase_upgrade'', rd_if ''flags'' 3 ''transaction'' readString,
         rd ''months'' readInt32, rd ''currency'' readString, rd ''amount'' readInt64,
         rd ''bot_url'' readString, rd_if ''flags'' 0 ''store_product'' readString])]"

definition writeTLPremiumSubscriptionOption :: tl_writer where
  "writeTLPremiumSubscriptionOption = write_fobject
     [(1596792306, [wf ''_'' writeInt32, wf_flags ''flags'' [(''current'', 1),
         (''can_purchase_upgrade'', 2), (''transaction'', 3), (''store_product'', 0)],
         wf_if ''flags'' 3 ''transaction'' writeString, wf ''months'' writeInt32,
         wf ''currency'' writeString, wf ''amount'' writeInt64, wf ''bot_url'' writeString,
         wf_if ''flags'' 0 ''store_product'' writeString])]"

definition TL_PremiumSubscriptionOption_table :: flag_table where
  "TL_PremiumSubscriptionOption_table =
     [(1596792306, [Flags ''flags'' [(''current'', 1), (''can_purchase_upgrade'', 2),
         (''transaction'', 3), (''store_product'', 0)],
        TrueBit ''flags'' 1 ''current'',
        TrueBit ''flags'' 2 ''can_purchase_upgrade'',
        Cond ''flags'' 3 (''transaction'', readString, writeString, enc_string, is_short_text),
        Plain (''months'', readInt32, writeInt32, enc_int32, is_VInt),
        Plain (''currency'', readString, writeString, enc_string, is_short_text),
        Plain (''amount'', readInt64, writeInt64, enc_int64, is_VLong),
        Plain (''bot_url'', readString, writeString, enc_string, is_short_text),
        Cond ''flags'' 0 (''store_product'', readString, writeString, enc_string, is_short_text)])]"

interpretation tl_PremiumSubscriptionOption: tl_codec readTLPremiumSubscriptionOption writeTLPremiumSubscriptionOption "enc_fobject TL_PremiumSubscriptionOption_table" "ok_fobject TL_PremiumSubscriptionOption_table"
  by (rule flag_schema_codec, unfold TL_PremiumSubscriptionOption_table_def, intro flag_tableI)
    (simp_all add: readTLPremiumSubscriptionOption_def writeTLPremiumSubscriptionOption_def flag_schema_simps)

definition readTLDefaultHistoryTTL :: tl_reader where
  "readTLDefaultHistoryTTL = read_object
     [(1135897376, [rd ''period'' readInt32])]"

definition writeTLDefaultHistoryTTL :: tl_writer where
  "writeTLDefaultHistoryTTL = write_fobject
     [(1135897376, [wf ''_'' writeInt32, wf ''period'' writeInt32])]"

definition TL_DefaultHistoryTTL_table :: flag_table where
  "TL_DefaultHistoryTTL_table =
     [(1135897376, [Plain (''period'', readInt32, writeInt32, enc_int32, is_VInt)])]"

interpretation tl_DefaultHistoryTTL: tl_codec readTLDefaultHistoryTTL writeTLDefaultHistoryTTL "enc_fobject TL_DefaultHistoryTTL_table" "ok_fobject TL_DefaultHistoryTTL_table"
  by (rule flag_schema_codec, unfold TL_DefaultHistoryTTL_table_def, intro flag_tableI)
    (simp_all add: readTLDefaultHistoryTTL_def writeTLDefaultHistoryTTL_def flag_schema_simps)

definition readTLExportedContactToken :: tl_reader where
  "readTLExportedContactToken = read_object
     [(1103040667, [rd ''url'' readString, rd ''expires'' readInt32])]"

definition writeTLExportedContactToken :: tl_writer where
  "writeTLExportedContactToken = write_fobject
     [(1103040667, [wf ''_'' writeInt32, wf ''url'' writeString, wf ''expires'' writeInt32])]"

definition TL_ExportedContactToken_table :: flag_table where
  "TL_ExportedContactToken_table =
     [(1103040667, [Plain (''url'', readString, writeString, enc_string, is_short_text),
        Plain (''expires'', readInt32, writeInt32, enc_int32, is_VInt)])]"

interpretation tl_ExportedContactToken: tl_codec readTLExportedContactToken writeTLExportedContactToken "enc_fobject TL_ExportedContactToken_table" "ok_fobject TL_ExportedContactToken_table"
  by (rule flag_schema_codec, unfold TL_ExportedContactToken_table_def, intro flag_tableI)
    (simp_all add: readTLExportedContactToken_def writeTLExportedContactToken_def flag_schema_simps)

definition readTLEmojiList :: tl_reader where
  "readTLEmojiList = read_object
     [(1209970170, []),
      (2048790993, [rd ''hash'' readInt64, rd ''document_id'' (readVector (Some readInt64))])]"

definition writeTLEmojiList :: tl_writer where
  "writeTLEmojiList = write_fobject
     [(1209970170, [wf ''_'' writeInt32]),
      (2048790993, [wf ''_'' writeInt32, wf ''hash'' writeInt64,
         wf ''document_id'' (writeVector (Some writeInt64))])]"

definition TL_EmojiList_table :: flag_table where
  "TL_EmojiList_table =
     [(1209970170, []),
      (2048790993, [Plain (''hash'', readInt64, writeInt64, enc_int64, is_VLong),
        Plain (''document_id'', readVector (Some readInt64), writeVector (Some writeInt64),
         enc_vector enc_int64, ok_vector is_VLong)])]"

interpretation tl_EmojiList: tl_codec readTLEmojiList writeTLEmojiList "enc_fobject TL_EmojiList_table" "ok_fobject TL_EmojiList_table"
  by (rule flag_schema_codec, unfold TL_EmojiList_table_def, intro flag_tableI)
    (simp_all add: readTLEmojiList_def writeTLEmojiList_def flag_schema_simps)

definition readTLEmojiGroup :: tl_reader where
  "readTLEmojiGroup = read_object
     [(2056961449, [rd ''title'' readString, rd ''icon_emoji_id'' readInt64,
         rd ''emoticons'' (readVector (Some readString))]),
      (- 2133693241, [rd ''title'' readString, rd ''icon_emoji_id'' readInt64,
         rd ''emoticons'' (readVector (Some readString))]),
      (154914612, [rd ''title'' readString, rd ''icon_emoji_id'' readInt64])]"

definition writeTLEmojiGroup :: tl_writer where
  "writeTLEmojiGroup = write_fobject
     [(2056961449, [wf ''_'' writeInt32, wf ''title'' writeString, wf ''icon_emoji_id'' writeInt64,
         wf ''emoticons'' (writeVector (Some writeString))]),
      (- 2133693241, [wf ''_'' writeInt32, wf ''title'' writeString,
         wf ''icon_emoji_id'' writeInt64, wf ''emoticons'' (writeVector (Some writeString))]),
      (154914612, [wf ''_'' writeInt32, wf ''title'' writeString,
         wf ''icon_emoji_id'' writeInt64])]"

definition TL_EmojiGroup_table :: flag_table where
  "TL_EmojiGroup_table =
     [(2056961449, [Plain (''title'', readString, writeString, enc_string, is_short_text),
        Plain (''icon_emoji_id'', readInt64, writeInt64, enc_int64, is_VLong),
        Plain (''emoticons'', readVector (Some readString), writeVector (Some writeString),
         enc_vector enc_string, ok_vector is_short_text)]),
      (- 2133693241, [Plain (''title'', readString, writeString, enc_string, is_short_text),
        Plain (''icon_emoji_id'', readInt64, writeInt64, enc_int64, is_VLong),
        Plain (''emoticons'', readVector (Some readString), writeVector (Some writeString),
         enc_vector enc_string, ok_vector is_short_text)]),
      (154914612, [Plain (''title'', readString, writeString, enc_string, is_short_text),
        Plain (''icon_emoji_id'', readInt64, writeInt64, enc_int64, is_VLong)])]"

interpretation tl_EmojiGroup: tl_codec readTLEmojiGroup writeTLEmojiGroup "enc_fobject TL_EmojiGroup_table" "ok_fobject TL_EmojiGroup_table"
  by (rule flag_schema_codec, unfold TL_EmojiGroup_table_def, intro flag_tableI)
    (simp_all add: readTLEmojiGroup_def writeTLEmojiGroup_def flag_schema_simps)

definition readTLMessagesEmojiGroups :: tl_reader where
  "readTLMessagesEmojiGroups = read_object
     [(1874111879, []),
      (- 2011186869, [rd ''hash'' readInt32, rd ''groups'' (readVector (Some readTLEmojiGroup))])]"

definition writeTLMessagesEmojiGroups :: tl_writer where
  "writeTLMessagesEmojiGroups = write_fobject
     [(1874111879, [wf ''_'' writeInt32]),
      (- 2011186869, [wf ''_'' writeInt32, wf ''hash'' writeInt32,
         wf ''groups'' (writeVector (Some writeTLEmojiGroup))])]"

definition TL_MessagesEmojiGroups_table :: flag_table where
  "TL_MessagesEmojiGroups_table =
     [(1874111879, []),
      (- 2011186869, [Plain (''hash'', readInt32, writeInt32, enc_int32, is_VInt),
        Plain (''groups'', readVector (Some readTLEmojiGroup),
         writeVector (Some writeTLEmojiGroup), enc_vector (enc_fobject TL_EmojiGroup_table),
         ok_vector (ok_fobject TL_EmojiGroup_table))])]"

interpretation tl_MessagesEmojiGroups: tl_codec readTLMessagesEmojiGroups writeTLMessagesEmojiGroups "enc_fobject TL_MessagesEmojiGroups_table" "ok_fobject TL_MessagesEmojiGroups_table"
  by (rule flag_schema_codec, unfold TL_MessagesEmojiGroups_table_def, intro flag_tableI)
    (simp_all add: readTLMessagesEmojiGroups_def writeTLMessagesEmojiGroups_def flag_schema_simps tl_EmojiGroup.tl_codec_axioms tl_EmojiGroup.vector_codec)

definition readTLMessagesTranslatedText :: tl_reader where
  "readTLMessagesTranslatedText = read_object
     [(870003448, [rd ''result'' (readVector (Some readTLTextWithEntities))])]"

definition writeTLMessagesTranslatedText :: tl_writer where
  "writeTLMessagesTranslatedText = write_fobject
     [(870003448, [wf ''_'' writeInt32,
         wf ''result'' (writeVector (Some writeTLTextWithEntities))])]"

definition TL_MessagesTranslatedText_table :: flag_table where
  "TL_MessagesTranslatedText_table =
     [(870003448, [Plain (''result'', readVector (Some readTLTextWithEntities),
         writeVector (Some writeTLTextWithEntities),
         enc_vector (enc_fobject TL_TextWithEntities_table),
         ok_vector (ok_fobject TL_TextWithEntities_table))])]"

interpretation tl_MessagesTranslatedText: tl_codec readTLMessagesTranslatedText writeTLMessagesTranslatedText "enc_fobject TL_MessagesTranslatedText_table" "ok_fobject TL_MessagesTranslatedText_table"
  by (rule flag_schema_codec, unfold TL_MessagesTranslatedText_table_def, intro flag_tableI)
    (simp_all add: readTLMessagesTranslatedText_def writeTLMessagesTranslatedText_def flag_schema_simps tl_TextWithEntities.tl_codec_axioms tl_TextWithEntities.vector_codec)

definition readTLAutoSaveSettings :: tl_reader where
  "readTLAutoSaveSettings = read_object
     [(- 934791986, [rd ''flags'' readUInt32, set_if ''flags'' 0 ''photos'',
         set_if ''flags'' 1 ''videos'', rd_if ''flags'' 2 ''video_max_size'' readInt64])]"

definition writeTLAutoSaveSettings :: tl_writer where
  "writeTLAutoSaveSettings = write_fobject
     [(- 934791986, [wf ''_'' writeInt32, wf_flags ''flags'' [(''photos'', 0), (''videos'', 1),
         (''video_max_size'', 2)], wf_if ''flags'' 2 ''video_max_size'' writeInt64])]"

definition TL_AutoSaveSettings_table :: flag_table where
  "TL_AutoSaveSettings_table =
     [(- 934791986, [Flags ''flags'' [(''photos'', 0), (''videos'', 1), (''video_max_size'', 2)],
        TrueBit ''flags'' 0 ''photos'',
        TrueBit ''flags'' 1 ''videos'',
        Cond ''flags'' 2 (''video_max_size'', readInt64, writeInt64, enc_int64, is_VLong)])]"

interpretation tl_AutoSaveSettings: tl_codec readTLAutoSaveSettings writeTLAutoSaveSettings "enc_fobject TL_AutoSaveSettings_table" "ok_fobject TL_AutoSaveSettings_table"
  by (rule flag_schema_codec, unfold TL_AutoSaveSettings_table_def, intro flag_tableI)
    (simp_all add: readTLAutoSaveSettings_def writeTLAutoSaveSettings_def flag_schema_simps)

definition readTLAutoSaveException :: tl_reader where
  "readTLAutoSaveException = read_object
     [(- 2124403385, [rd ''peer'' readTLPeer, rd ''settings'' readTLAutoSaveSettings])]"

definition writeTLAutoSaveException :: tl_writer where
  "writeTLAutoSaveException = write_fobject
     [(- 2124403385, [wf ''_'' writeInt32, wf ''peer'' writeTLPeer,
         wf ''settings'' writeTLAutoSaveSettings])]"

definition TL_AutoSaveException_table :: flag_table where
  "TL_AutoSaveException_table =
     [(- 2124403385, [Plain (''peer'', readTLPeer, writeTLPeer, enc_fobject TL_Peer_table,
         ok_fobject TL_Peer_table),
        Plain (''settings'', readTLAutoSaveSettings, writeTLAutoSaveSettings,
         enc_fobject TL_AutoSaveSettings_table, ok_fobject TL_AutoSaveSettings_table)])]"

interpretation tl_AutoSaveException: tl_codec readTLAutoSaveException writeTLAutoSaveException "enc_fobject TL_AutoSaveException_table" "ok_fobject TL_AutoSaveException_table"
  by (rule flag_schema_codec, unfold TL_AutoSaveException_table_def, intro flag_tableI)
    (simp_all add: readTLAutoSaveException_def writeTLAutoSaveException_def flag_schema_simps tl_Peer.tl_codec_axioms tl_AutoSaveSettings.tl_codec_axioms)

definition readTLAccountAutoSaveSettings :: tl_reader where
  "readTLAccountAutoSaveSettings = read_object
     [(1279133341, [rd ''users_settings'' readTLAutoSaveSettings,
         rd ''chats_settings'' readTLAutoSaveSettings,
         rd ''broadcasts_settings'' readTLAutoSaveSettings,
         rd ''exceptions'' (readVector (Some readTLAutoSaveException)),
         rd ''chats'' (readVector (Some readTLChat)),
         rd ''users'' (readVector (Some readTLUser))])]"

definition writeTLAccountAutoSaveSettings :: tl_writer where
  "writeTLAccountAutoSaveSettings = write_fobject
     [(1279133341, [wf ''_'' writeInt32, wf ''users_settings'' writeTLAutoSaveSettings,
         wf ''chats_settings'' writeTLAutoSaveSettings,
         wf ''broadcasts_settings'' writeTLAutoSaveSettings,
         wf ''exceptions'' (writeVector (Some writeTLAutoSaveException)),
         wf ''chats'' (writeVector (Some writeTLChat)),
         wf ''users'' (writeVector (Some writeTLUser))])]"

definition TL_AccountAutoSaveSettings_table :: flag_table where
  "TL_AccountAutoSaveSettings_table =
     [(1279133341, [Plain (''users_settings'', readTLAutoSaveSettings, writeTLAutoSaveSettings,
         enc_fobject TL_AutoSaveSettings_table, ok_fobject TL_AutoSaveSettings_table),
        Plain (''chats_settings'', readTLAutoSaveSettings, writeTLAutoSaveSettings,
         enc_fobject TL_AutoSaveSettings_table, ok_fobject TL_AutoSaveSettings_table),
        Plain (''broadcasts_settings'', readTLAutoSaveSettings, writeTLAutoSaveSettings,
         enc_fobject TL_AutoSaveSettings_table, ok_fobject TL_AutoSaveSettings_table),
        Plain (''exceptions'', readVector (Some readTLAutoSaveException),
         writeVector (Some writeTLAutoSaveException),
         enc_vector (enc_fobject TL_AutoSaveException_table),
         ok_vector (ok_fobject TL_AutoSaveException_table)),
        Plain (''chats'', readVector (Some readTLChat), writeVector (Some writeTLChat),
         enc_vector (enc_fobject TL_Chat_table), ok_vector (ok_fobject TL_Chat_table)),
        Plain (''users'', readVector (Some readTLUser), writeVector (Some writeTLUser),
         enc_vector (enc_fobject TL_User_table), ok_vector (ok_fobject TL_User_table))])]"

interpretation tl_AccountAutoSaveSettings: tl_codec readTLAccountAutoSaveSettings writeTLAccountAutoSaveSettings "enc_fobject TL_AccountAutoSaveSettings_table" "ok_fobject TL_AccountAutoSaveSettings_table"
  by (rule flag_schema_codec, unfold TL_AccountAutoSaveSettings_table_def, intro flag_tableI)
    (simp_all add: readTLAccountAutoSaveSettings_def writeTLAccountAutoSaveSettings_def flag_schema_simps tl_AutoSaveSettings.tl_codec_axioms tl_AutoSaveSettings.vector_codec tl_AutoSaveException.tl_codec_axioms tl_AutoSaveException.vector_codec tl_Chat.tl_codec_axioms tl_Chat.vector_codec tl_User.tl_codec_axioms tl_User.vector_codec)

definition readTLInputBotApp :: tl_reader where
  "readTLInputBotApp = read_object
     [(- 1457472134, [rd ''id'' readInt64, rd ''access_hash'' readInt64]),
      (- 1869872121, [rd ''bot_id'' readTLInputUser, rd ''short_name'' readString])]"

definition writeTLInputBotApp :: tl_writer where
  "writeTLInputBotApp = write_fobject
     [(- 1457472134, [wf ''_'' writeInt32, wf ''id'' writeInt64, wf ''access_hash'' writeInt64]),
      (- 1869872121, [wf ''_'' writeInt32, wf ''bot_id'' writeTLInputUser,
         wf ''short_name'' writeString])]"

definition TL_InputBotApp_table :: flag_table where
  "TL_InputBotApp_table =
     [(- 1457472134, [Plain (''id'', readInt64, writeInt64, enc_int64, is_VLong),
        Plain (''access_hash'', readInt64, writeInt64, enc_int64, is_VLong)]),
      (- 1869872121, [Plain (''bot_id'', readTLInputUser, writeTLInputUser,
         enc_fobject TL_InputUser_table, ok_fobject TL_InputUser_table),
        Plain (''short_name'', readString, writeString, enc_string, is_short_text)])]"

interpretation tl_InputBotApp: tl_codec readTLInputBotApp writeTLInputBotApp "enc_fobject TL_InputBotApp_table" "ok_fobject TL_InputBotApp_table"
  by (rule flag_schema_codec, unfold TL_InputBotApp_table_def, intro flag_tableI)
    (simp_all add: readTLInputBotApp_def writeTLInputBotApp_def flag_schema_simps tl_InputUser.tl_codec_axioms)

definition readTLReadParticipantDate :: tl_reader where
  "readTLReadParticipantDate = read_object
     [(1246753138, [rd ''user_id'' readInt64, rd ''date'' readInt32])]"

definition writeTLReadParticipantDate :: tl_writer where
  "writeTLReadParticipantDate = write_fobject
     [(1246753138, [wf ''_'' writeInt32, wf ''user_id'' writeInt64, wf ''date'' writeInt32])]"

definition TL_ReadParticipantDate_table :: flag_table where
  "TL_ReadParticipantDate_table =
     [(1246753138, [Plain (''user_id'', readInt64, writeInt64, enc_int64, is_VLong),
        Plain (''date'', readInt32, writeInt32, enc_int32, is_VInt)])]"

interpretation tl_ReadParticipantDate: tl_codec readTLReadParticipantDate writeTLReadParticipantDate "enc_fobject TL_ReadParticipantDate_table" "ok_fobject TL_ReadParticipantDate_table"
  by (rule flag_schema_codec, unfold TL_ReadParticipantDate_table_def, intro flag_tableI)
    (simp_all add: readTLReadParticipantDate_def writeTLReadParticipantDate_def flag_schema_simps)

definition readTLInputChatlist :: tl_reader where
  "readTLInputChatlist = read_object
     [(- 203367885, [rd ''filter_id'' readInt32])]"

definition writeTLInputChatlist :: tl_writer where
  "writeTLInputChatlist = write_fobject
     [(- 203367885, [wf ''_'' writeInt32, wf ''filter_id'' writeInt32])]"

definition TL_InputChatlist_table :: flag_table where
  "TL_InputChatlist_table =
     [(- 203367885, [Plain (''filter_id'', readInt32, writeInt32, enc_int32, is_VInt)])]"

interpretation tl_InputChatlist: tl_codec readTLInputChatlist writeTLInputChatlist "enc_fobject TL_InputChatlist_table" "ok_fobject TL_InputChatlist_table"
  by (rule flag_schema_codec, unfold TL_InputChatlist_table_def, intro flag_tableI)
    (simp_all add: readTLInputChatlist_def writeTLInputChatlist_def flag_schema_simps)

definition readTLExportedChatlistInvite :: tl_reader where
  "readTLExportedChatlistInvite = read_object
     [(206668204, [rd ''flags'' readUInt32, rd ''title'' readString, rd ''url'' readString,
         rd ''peers'' (readVector (Some readTLPeer))])]"

definition writeTLExportedChatlistInvite :: tl_writer where
  "writeTLExportedChatlistInvite = write_fobject
     [(206668204, [wf ''_'' writeInt32, wf_flags ''flags'' [], wf ''title'' writeString,
         wf ''url'' writeString, wf ''peers'' (writeVector (Some writeTLPeer))])]"

definition TL_ExportedChatlistInvite_table :: flag_table where
  "TL_ExportedChatlistInvite_table =
     [(206668204, [Flags ''flags'' [],
        Plain (''title'', readString, writeString, enc_string, is_short_text),
        Plain (''url'', readString, writeString, enc_string, is_short_text),
        Plain (''peers'', readVector (Some readTLPeer), writeVector (Some writeTLPeer),
         enc_vector (enc_fobject TL_Peer_table), ok_vector (ok_fobject TL_Peer_table))])]"

interpretation tl_ExportedChatlistInvite: tl_codec readTLExportedChatlistInvite writeTLExportedChatlistInvite "enc_fobject TL_ExportedChatlistInvite_table" "ok_fobject TL_ExportedChatlistInvite_table"
  by (rule flag_schema_codec, unfold TL_ExportedChatlistInvite_table_def, intro flag_tableI)
    (simp_all add: readTLExportedChatlistInvite_def writeTLExportedChatlistInvite_def flag_schema_simps tl_Peer.tl_codec_axioms tl_Peer.vector_codec)

definition readTLChatlistsExportedChatlistInvite :: tl_reader where
  "readTLChatlistsExportedChatlistInvite = read_object
     [(283567014, [rd ''filter'' readTLDialogFilter, rd ''invite'' readTLExportedChatlistInvite])]"

definition writeTLChatlistsExportedChatlistInvite :: tl_writer where
  "writeTLChatlistsExportedChatlistInvite = write_fobject
     [(283567014, [wf ''_'' writeInt32, wf ''filter'' writeTLDialogFilter,
         wf ''invite'' writeTLExportedChatlistInvite])]"

definition TL_ChatlistsExportedChatlistInvite_table :: flag_table where
  "TL_ChatlistsExportedChatlistInvite_table =
     [(283567014, [Plain (''filter'', readTLDialogFilter, writeTLDialogFilter,
         enc_fobject TL_DialogFilter_table, ok_fobject TL_DialogFilter_table),
        Plain (''invite'', readTLExportedChatlistInvite, writeTLExportedChatlistInvite,
         enc_fobject TL_ExportedChatlistInvite_table,
         ok_fobject TL_ExportedChatlistInvite_table)])]"

interpretation tl_ChatlistsExportedChatlistInvite: tl_codec readTLChatlistsExportedChatlistInvite writeTLChatlistsExportedChatlistInvite "enc_fobject TL_ChatlistsExportedChatlistInvite_table" "ok_fobject TL_ChatlistsExportedChatlistInvite_table"
  by (rule flag_schema_codec, unfold TL_ChatlistsExportedChatlistInvite_table_def, intro flag_tableI)
    (simp_all add: readTLChatlistsExportedChatlistInvite_def writeTLChatlistsExportedChatlistInvite_def flag_schema_simps tl_DialogFilter.tl_codec_axioms tl_ExportedChatlistInvite.tl_codec_axioms)

definition readTLChatlistsExportedInvites :: tl_reader where
  "readTLChatlistsExportedInvites = read_object
     [(279670215, [rd ''invites'' (readVector (Some readTLExportedChatlistInvite)),
         rd ''chats'' (readVector (Some readTLChat)),
         rd ''users'' (readVector (Some readTLUser))])]"

definition writeTLChatlistsExportedInvites :: tl_writer where
  "writeTLChatlistsExportedInvites = write_fobject
     [(279670215, [wf ''_'' writeInt32,
         wf ''invites'' (writeVector (Some writeTLExportedChatlistInvite)),
         wf ''chats'' (writeVector (Some writeTLChat)),
         wf ''users'' (writeVector (Some writeTLUser))])]"

definition TL_ChatlistsExportedInvites_table :: flag_table where
  "TL_ChatlistsExportedInvites_table =
     [(279670215, [Plain (''invites'', readVector (Some readTLExportedChatlistInvite),
         writeVector (Some writeTLExportedChatlistInvite),
         enc_vector (enc_fobject TL_ExportedChatlistInvite_table),
         ok_vector (ok_fobject TL_ExportedChatlistInvite_table)),
        Plain (''chats'', readVector (Some readTLChat), writeVector (Some writeTLChat),
         enc_vector (enc_fobject TL_Chat_table), ok_vector (ok_fobject TL_Chat_table)),
        Plain (''users'', readVector (Some readTLUser), writeVector (Some writeTLUser),
         enc_vector (enc_fobject TL_User_table), ok_vector (ok_fobject TL_User_table))])]"

interpretation tl_ChatlistsExportedInvites: tl_codec readTLChatlistsExportedInvites writeTLChatlistsExportedInvites "enc_fobject TL_ChatlistsExportedInvites_table" "ok_fobject TL_ChatlistsExportedInvites_table"
  by (rule flag_schema_codec, unfold TL_ChatlistsExportedInvites_table_def, intro flag_tableI)
    (simp_all add: readTLChatlistsExportedInvites_def writeTLChatlistsExportedInvites_def flag_schema_simps tl_ExportedChatlistInvite.tl_codec_axioms tl_ExportedChatlistInvite.vector_codec tl_Chat.tl_codec_axioms tl_Chat.vector_codec tl_User.tl_codec_axioms tl_User.vector_codec)

definition readTLChatlistsChatlistInvite :: tl_reader where
  "readTLChatlistsChatlistInvite = read_object
     [(- 91752871, [rd ''filter_id'' readInt32,
         rd ''missing_peers'' (readVector (Some readTLPeer)),
         rd ''already_peers'' (readVector (Some readTLPeer)),
         rd ''chats'' (readVector (Some readTLChat)), rd ''users'' (readVector (Some readTLUser))]),
      (- 250687953, [rd ''flags'' readUInt32, set_if ''flags'' 1 ''title_noanimate'',
         rd ''title'' readTLTextWithEntities, rd_if ''flags'' 0 ''emoticon'' readString,
         rd ''peers'' (readVector (Some readTLPeer)), rd ''chats'' (readVector (Some readTLChat)),
         rd ''users'' (readVector (Some readTLUser))])]"

definition writeTLChatlistsChatlistInvite :: tl_writer where
  "writeTLChatlistsChatlistInvite = write_fobject
     [(- 91752871, [wf ''_'' writeInt32, wf ''filter_id'' writeInt32,
         wf ''missing_peers'' (writeVector (Some writeTLPeer)),
         wf ''already_peers'' (writeVector (Some writeTLPeer)),
         wf ''chats'' (writeVector (Some writeTLChat)),
         wf ''users'' (writeVector (Some writeTLUser))]),
      (- 250687953, [wf ''_'' writeInt32, wf_flags ''flags'' [(''title_noanimate'', 1),
         (''emoticon'', 0)], wf ''title'' writeTLTextWithEntities,
         wf_if ''flags'' 0 ''emoticon'' writeString, wf ''peers'' (writeVector (Some writeTLPeer)),
         wf ''chats'' (writeVector (Some writeTLChat)),
         wf ''users'' (writeVector (Some writeTLUser))])]"

definition TL_ChatlistsChatlistInvite_table :: flag_table where
  "TL_ChatlistsChatlistInvite_table =
     [(- 91752871, [Plain (''filter_id'', readInt32, writeInt32, enc_int32, is_VInt),
        Plain (''missing_peers'', readVector (Some readTLPeer), writeVector (Some writeTLPeer),
         enc_vector (enc_fobject TL_Peer_table), ok_vector (ok_fobject TL_Peer_table)),
        Plain (''already_peers'', readVector (Some readTLPeer), writeVector (Some writeTLPeer),
         enc_vector (enc_fobject TL_Peer_table), ok_vector (ok_fobject TL_Peer_table)),
        Plain (''chats'', readVector (Some readTLChat), writeVector (Some writeTLChat),
         enc_vector (enc_fobject TL_Chat_table), ok_vector (ok_fobject TL_Chat_table)),
        Plain (''users'', readVector (Some readTLUser), writeVector (Some writeTLUser),
         enc_vector (enc_fobject TL_User_table), ok_vector (ok_fobject TL_User_table))]),
      (- 250687953, [Flags ''flags'' [(''title_noanimate'', 1), (''emoticon'', 0)],
        TrueBit ''flags'' 1 ''title_noanimate'',
        Plain (''title'', readTLTextWithEntities, writeTLTextWithEntities,
         enc_fobject TL_TextWithEntities_table, ok_fobject TL_TextWithEntities_table),
        Cond ''flags'' 0 (''emoticon'', readString, writeString, enc_string, is_short_text),
        Plain (''peers'', readVector (Some readTLPeer), writeVector (Some writeTLPeer),
         enc_vector (enc_fobject TL_Peer_table), ok_vector (ok_fobject TL_Peer_table)),
        Plain (''chats'', readVector (Some readTLChat), writeVector (Some writeTLChat),
         enc_vector (enc_fobject TL_Chat_table), ok_vector (ok_fobject TL_Chat_table)),
        Plain (''users'', readVector (Some readTLUser), writeVector (Some writeTLUser),
         enc_vector (enc_fobject TL_User_table), ok_vector (ok_fobject TL_User_table))])]"

interpretation tl_ChatlistsChatlistInvite: tl_codec readTLChatlistsChatlistInvite writeTLChatlistsChatlistInvite "enc_fobject TL_ChatlistsChatlistInvite_table" "ok_fobject TL_ChatlistsChatlistInvite_table"
  by (rule flag_schema_codec, unfold TL_ChatlistsChatlistInvite_table_def, intro flag_tableI)
    (simp_all add: readTLChatlistsChatlistInvite_def writeTLChatlistsChatlistInvite_def flag_schema_simps tl_Peer.tl_codec_axioms tl_Peer.vector_codec tl_Chat.tl_codec_axioms tl_Chat.vector_codec tl_User.tl_codec_axioms tl_User.vector_codec tl_TextWithEntities.tl_codec_axioms tl_TextWithEntities.vector_codec)

definition readTLChatlistsChatlistUpdates :: tl_reader where
  "readTLChatlistsChatlistUpdates = read_object
     [(- 1816295539, [rd ''missing_peers'' (readVector (Some readTLPeer)),
         rd ''chats'' (readVector (Some readTLChat)),
         rd ''users'' (readVector (Some readTLUser))])]"

definition writeTLChatlistsChatlistUpdates :: tl_writer where
  "writeTLChatlistsChatlistUpdates = write_fobject
     [(- 1816295539, [wf ''_'' writeInt32, wf ''missing_peers'' (writeVector (Some writeTLPeer)),
         wf ''chats'' (writeVector (Some writeTLChat)),
         wf ''users'' (writeVector (Some writeTLUser))])]"

definition TL_ChatlistsChatlistUpdates_table :: flag_table where
  "TL_ChatlistsChatlistUpdates_table =
     [(- 1816295539, [Plain (''missing_peers'', readVector (Some readTLPeer),
         writeVector (Some writeTLPeer), enc_vector (enc_fobject TL_Peer_table),
         ok_vector (ok_fobject TL_Peer_table)),
        Plain (''chats'', readVector (Some readTLChat), writeVector (Some writeTLChat),
         enc_vector (enc_fobject TL_Chat_table), ok_vector (ok_fobject TL_Chat_table)),
        Plain (''users'', readVector (Some readTLUser), writeVector (Some writeTLUser),
         enc_vector (enc_fobject TL_User_table), ok_vector (ok_fobject TL_User_table))])]"

interpretation tl_ChatlistsChatlistUpdates: tl_codec readTLChatlistsChatlistUpdates writeTLChatlistsChatlistUpdates "enc_fobject TL_ChatlistsChatlistUpdates_table" "ok_fobject TL_ChatlistsChatlistUpdates_table"
  by (rule flag_schema_codec, unfold TL_ChatlistsChatlistUpdates_table_def, intro flag_tableI)
    (simp_all add: readTLChatlistsChatlistUpdates_def writeTLChatlistsChatlistUpdates_def flag_schema_simps tl_Peer.tl_codec_axioms tl_Peer.vector_codec tl_Chat.tl_codec_axioms tl_Chat.vector_codec tl_User.tl_codec_axioms tl_User.vector_codec)

definition readTLBotsBotInfo :: tl_reader where
  "readTLBotsBotInfo = read_object
     [(- 391678544, [rd ''name'' readString, rd ''about'' readString,
         rd ''description'' readString])]"

definition writeTLBotsBotInfo :: tl_writer where
  "writeTLBotsBotInfo = write_fobject
     [(- 391678544, [wf ''_'' writeInt32, wf ''name'' writeString, wf ''about'' writeString,
         wf ''description'' writeString])]"

definition TL_BotsBotInfo_table :: flag_table where
  "TL_BotsBotInfo_table =
     [(- 391678544, [Plain (''name'', readString, writeString, enc_string, is_short_text),
        Plain (''about'', readString, writeString, enc_string, is_short_text),
        Plain (''description'', readString, writeString, enc_string, is_short_text)])]"

interpretation tl_BotsBotInfo: tl_codec readTLBotsBotInfo writeTLBotsBotInfo "enc_fobject TL_BotsBotInfo_table" "ok_fobject TL_BotsBotInfo_table"
  by (rule flag_schema_codec, unfold TL_BotsBotInfo_table_def, intro flag_tableI)
    (simp_all add: readTLBotsBotInfo_def writeTLBotsBotInfo_def flag_schema_simps)

definition readTLStoryViews :: tl_reader where
  "readTLStoryViews = read_object
     [(- 1923523370, [rd ''flags'' readUInt32, set_if ''flags'' 1 ''has_viewers'',
         rd ''views_count'' readInt32, rd_if ''flags'' 2 ''forwards_count'' readInt32,
         rd_if ''flags'' 3 ''reactions'' (readVector (Some readTLReactionCount)),
         rd_if ''flags'' 4 ''reactions_count'' readInt32,
         rd_if ''flags'' 0 ''recent_viewers'' (readVector (Some readInt64))])]"

definition writeTLStoryViews :: tl_writer where
  "writeTLStoryViews = write_fobject
     [(- 1923523370, [wf ''_'' writeInt32, wf_flags ''flags'' [(''has_viewers'', 1),
         (''forwards_count'', 2), (''reactions'', 3), (''reactions_count'', 4),
         (''recent_viewers'', 0)], wf ''views_count'' writeInt32,
         wf_if ''flags'' 2 ''forwards_count'' writeInt32,
         wf_if ''flags'' 3 ''reactions'' (writeVector (Some writeTLReactionCount)),
         wf_if ''flags'' 4 ''reactions_count'' writeInt32,
         wf_if ''flags'' 0 ''recent_viewers'' (writeVector (Some writeInt64))])]"

definition TL_StoryViews_table :: flag_table where
  "TL_StoryViews_table =
     [(- 1923523370, [Flags ''flags'' [(''has_viewers'', 1), (''forwards_count'', 2),
         (''reactions'', 3), (''reactions_count'', 4), (''recent_viewers'', 0)],
        TrueBit ''flags'' 1 ''has_viewers'',
        Plain (''views_count'', readInt32, writeInt32, enc_int32, is_VInt),
        Cond ''flags'' 2 (''forwards_count'', readInt32, writeInt32, enc_int32, is_VInt),
        Cond ''flags'' 3 (''reactions'', readVector (Some readTLReactionCount),
         writeVector (Some writeTLReactionCount), enc_vector (enc_fobject TL_ReactionCount_table),
         ok_vector (ok_fobject TL_ReactionCount_table)),
        Cond ''flags'' 4 (''reactions_count'', readInt32, writeInt32, enc_int32, is_VInt),
        Cond ''flags'' 0 (''recent_viewers'', readVector (Some readInt64),
         writeVector (Some writeInt64), enc_vector enc_int64, ok_vector is_VLong)])]"

interpretation tl_StoryViews: tl_codec readTLStoryViews writeTLStoryViews "enc_fobject TL_StoryViews_table" "ok_fobject TL_StoryViews_table"
  by (rule flag_schema_codec, unfold TL_StoryViews_table_def, intro flag_tableI)
    (simp_all add: readTLStoryViews_def writeTLStoryViews_def flag_schema_simps tl_ReactionCount.tl_codec_axioms tl_ReactionCount.vector_codec)

definition readTLStoryFwdHeader :: tl_reader where
  "readTLStoryFwdHeader = read_object
     [(- 1205411504, [rd ''flags'' readUInt32, set_if ''flags'' 3 ''modified'',
         rd_if ''flags'' 0 ''from'' readTLPeer, rd_if ''flags'' 1 ''from_name'' readString,
         rd_if ''flags'' 2 ''story_id'' readInt32])]"

definition writeTLStoryFwdHeader :: tl_writer where
  "writeTLStoryFwdHeader = write_fobject
     [(- 1205411504, [wf ''_'' writeInt32, wf_flags ''flags'' [(''modified'', 3), (''from'', 0),
         (''from_name'', 1), (''story_id'', 2)], wf_if ''flags'' 0 ''from'' writeTLPeer,
         wf_if ''flags'' 1 ''from_name'' writeString, wf_if ''flags'' 2 ''story_id'' writeInt32])]"

definition TL_StoryFwdHeader_table :: flag_table where
  "TL_StoryFwdHeader_table =
     [(- 1205411504, [Flags ''flags'' [(''modified'', 3), (''from'', 0), (''from_name'', 1),
         (''story_id'', 2)],
        TrueBit ''flags'' 3 ''modified'',
        Cond ''flags'' 0 (''from'', readTLPeer, writeTLPeer, enc_fobject TL_Peer_table,
         ok_fobject TL_Peer_table),
        Cond ''flags'' 1 (''from_name'', readString, writeString, enc_string, is_short_text),
        Cond ''flags'' 2 (''story_id'', readInt32, writeInt32, enc_int32, is_VInt)])]"

interpretation tl_StoryFwdHeader: tl_codec readTLStoryFwdHeader writeTLStoryFwdHeader "enc_fobject TL_StoryFwdHeader_table" "ok_fobject TL_StoryFwdHeader_table"
  by (rule flag_schema_codec, unfold TL_StoryFwdHeader_table_def, intro flag_tableI)
    (simp_all add: readTLStoryFwdHeader_def writeTLStoryFwdHeader_def flag_schema_simps tl_Peer.tl_codec_axioms)

definition readTLStoriesStealthMode :: tl_reader where
  "readTLStoriesStealthMode = read_object
     [(1898850301, [rd ''flags'' readUInt32, rd_if ''flags'' 0 ''active_until_date'' readInt32,
         rd_if ''flags'' 1 ''cooldown_until_date'' readInt32])]"

definition writeTLStoriesStealthMode :: tl_writer where
  "writeTLStoriesStealthMode = write_fobject
     [(1898850301, [wf ''_'' writeInt32, wf_flags ''flags'' [(''active_until_date'', 0),
         (''cooldown_until_date'', 1)], wf_if ''flags'' 0 ''active_until_date'' writeInt32,
         wf_if ''flags'' 1 ''cooldown_until_date'' writeInt32])]"

definition TL_StoriesStealthMode_table :: flag_table where
  "TL_StoriesStealthMode_table =
     [(1898850301, [Flags ''flags'' [(''active_until_date'', 0), (''cooldown_until_date'', 1)],
        Cond ''flags'' 0 (''active_until_date'', readInt32, writeInt32, enc_int32, is_VInt),
        Cond ''flags'' 1 (''cooldown_until_date'', readInt32, writeInt32, enc_int32, is_VInt)])]"

interpretation tl_StoriesStealthMode: tl_codec readTLStoriesStealthMode writeTLStoriesStealthMode "enc_fobject TL_StoriesStealthMode_table" "ok_fobject TL_StoriesStealthMode_table"
  by (rule flag_schema_codec, unfold TL_StoriesStealthMode_table_def, intro flag_tableI)
    (simp_all add: readTLStoriesStealthMode_def writeTLStoriesStealthMode_def flag_schema_simps)

definition readTLStoriesStoryViews :: tl_reader where
  "readTLStoriesStoryViews = read_object
     [(- 560009955, [rd ''views'' (readVector (Some readTLStoryViews)),
         rd ''users'' (readVector (Some readTLUser))])]"

definition writeTLStoriesStoryViews :: tl_writer where
  "writeTLStoriesStoryViews = write_fobject
     [(- 560009955, [wf ''_'' writeInt32, wf ''views'' (writeVector (Some writeTLStoryViews)),
         wf ''users'' (writeVector (Some writeTLUser))])]"

definition TL_StoriesStoryViews_table :: flag_table where
  "TL_StoriesStoryViews_table =
     [(- 560009955, [Plain (''views'', readVector (Some readTLStoryViews),
         writeVector (Some writeTLStoryViews), enc_vector (enc_fobject TL_StoryViews_table),
         ok_vector (ok_fobject TL_StoryViews_table)),
        Plain (''users'', readVector (Some readTLUser), writeVector (Some writeTLUser),
         enc_vector (enc_fobject TL_User_table), ok_vector (ok_fobject TL_User_table))])]"

interpretation tl_StoriesStoryViews: tl_codec readTLStoriesStoryViews writeTLStoriesStoryViews "enc_fobject TL_StoriesStoryViews_table" "ok_fobject TL_StoriesStoryViews_table"
  by (rule flag_schema_codec, unfold TL_StoriesStoryViews_table_def, intro flag_tableI)
    (simp_all add: readTLStoriesStoryViews_def writeTLStoriesStoryViews_def flag_schema_simps tl_StoryViews.tl_codec_axioms tl_StoryViews.vector_codec tl_User.tl_codec_axioms tl_User.vector_codec)

definition readTLExportedStoryLink :: tl_reader where
  "readTLExportedStoryLink = read_object
     [(1070138683, [rd ''link'' readString])]"

definition writeTLExportedStoryLink :: tl_writer where
  "writeTLExportedStoryLink = write_fobject
     [(1070138683, [wf ''_'' writeInt32, wf ''link'' writeString])]"

definition TL_ExportedStoryLink_table :: flag_table where
  "TL_ExportedStoryLink_table =
     [(1070138683, [Plain (''link'', readString, writeString, enc_string, is_short_text)])]"

interpretation tl_ExportedStoryLink: tl_codec readTLExportedStoryLink writeTLExportedStoryLink "enc_fobject TL_ExportedStoryLink_table" "ok_fobject TL_ExportedStoryLink_table"
  by (rule flag_schema_codec, unfold TL_ExportedStoryLink_table_def, intro flag_tableI)
    (simp_all add: readTLExportedStoryLink_def writeTLExportedStoryLink_def flag_schema_simps)

definition readTLPaymentsCheckedGiftCode :: tl_reader where
  "readTLPaymentsCheckedGiftCode = read_object
     [(- 342343793, [rd ''flags'' readUInt32, set_if ''flags'' 2 ''via_giveaway'',
         rd_if ''flags'' 4 ''from_id'' readTLPeer, rd_if ''flags'' 3 ''giveaway_msg_id'' readInt32,
         rd_if ''flags'' 0 ''to_id'' readInt64, rd ''date'' readInt32, rd ''days'' readInt32,
         rd_if ''flags'' 1 ''used_date'' readInt32, rd ''chats'' (readVector (Some readTLChat)),
         rd ''users'' (readVector (Some readTLUser))])]"

definition writeTLPaymentsCheckedGiftCode :: tl_writer where
  "writeTLPaymentsCheckedGiftCode = write_fobject
     [(- 342343793, [wf ''_'' writeInt32, wf_flags ''flags'' [(''via_giveaway'', 2), (''from_id'',
         4), (''giveaway_msg_id'', 3), (''to_id'', 0), (''used_date'', 1)],
         wf_if ''flags'' 4 ''from_id'' writeTLPeer,
         wf_if ''flags'' 3 ''giveaway_msg_id'' writeInt32, wf_if ''flags'' 0 ''to_id'' writeInt64,
         wf ''date'' writeInt32, wf ''days'' writeInt32,
         wf_if ''flags'' 1 ''used_date'' writeInt32, wf ''chats'' (writeVector (Some writeTLChat)),
         wf ''users'' (writeVector (Some writeTLUser))])]"

definition TL_PaymentsCheckedGiftCode_table :: flag_table where
  "TL_PaymentsCheckedGiftCode_table =
     [(- 342343793, [Flags ''flags'' [(''via_giveaway'', 2), (''from_id'', 4),
         (''giveaway_msg_id'', 3), (''to_id'', 0), (''used_date'', 1)],
        TrueBit ''flags'' 2 ''via_giveaway'',
        Cond ''flags'' 4 (''from_id'', readTLPeer, writeTLPeer, enc_fobject TL_Peer_table,
         ok_fobject TL_Peer_table),
        Cond ''flags'' 3 (''giveaway_msg_id'', readInt32, writeInt32, enc_int32, is_VInt),
        Cond ''flags'' 0 (''to_id'', readInt64, writeInt64, enc_int64, is_VLong),
        Plain (''date'', readInt32, writeInt32, enc_int32, is_VInt),
        Plain (''days'', readInt32, writeInt32, enc_int32, is_VInt),
        Cond ''flags'' 1 (''used_date'', readInt32, writeInt32, enc_int32, is_VInt),
        Plain (''chats'', readVector (Some readTLChat), writeVector (Some writeTLChat),
         enc_vector (enc_fobject TL_Chat_table), ok_vector (ok_fobject TL_Chat_table)),
        Plain (''users'', readVector (Some readTLUser), writeVector (Some writeTLUser),
         enc_vector (enc_fobject TL_User_table), ok_vector (ok_fobject TL_User_table))])]"

interpretation tl_PaymentsCheckedGiftCode: tl_codec readTLPaymentsCheckedGiftCode writeTLPaymentsCheckedGiftCode "enc_fobject TL_PaymentsCheckedGiftCode_table" "ok_fobject TL_PaymentsCheckedGiftCode_table"
  by (rule flag_schema_codec, unfold TL_PaymentsCheckedGiftCode_table_def, intro flag_tableI)
    (simp_all add: readTLPaymentsCheckedGiftCode_def writeTLPaymentsCheckedGiftCode_def flag_schema_simps tl_Peer.tl_codec_axioms tl_Peer.vector_codec tl_Chat.tl_codec_axioms tl_Chat.vector_codec tl_User.tl_codec_axioms tl_User.vector_codec)

definition readTLPaymentsGiveawayInfo :: tl_reader where
  "readTLPaymentsGiveawayInfo = read_object
     [(1130879648, [rd ''flags'' readUInt32, set_if ''flags'' 0 ''participating'',
         set_if ''flags'' 3 ''preparing_results'', rd ''start_date'' readInt32,
         rd_if ''flags'' 1 ''joined_too_early_date'' readInt32,
         rd_if ''flags'' 2 ''admin_disallowed_chat_id'' readInt64,
         rd_if ''flags'' 4 ''disallowed_country'' readString]),
      (- 512366993, [rd ''flags'' readUInt32, set_if ''flags'' 0 ''winner'',
         set_if ''flags'' 1 ''refunded'', rd ''start_date'' readInt32,
         rd_if ''flags'' 3 ''gift_code_slug'' readString,
         rd_if ''flags'' 4 ''stars_prize'' readInt64, rd ''finish_date'' readInt32,
         rd ''winners_count'' readInt32, rd_if ''flags'' 2 ''activated_count'' readInt32])]"

definition writeTLPaymentsGiveawayInfo :: tl_writer where
  "writeTLPaymentsGiveawayInfo = write_fobject
     [(1130879648, [wf ''_'' writeInt32, wf_flags ''flags'' [(''participating'', 0),
         (''preparing_results'', 3), (''joined_too_early_date'', 1), (''admin_disallowed_chat_id'',
         2), (''disallowed_country'', 4)], wf ''start_date'' writeInt32,
         wf_if ''flags'' 1 ''joined_too_early_date'' writeInt32,
         wf_if ''flags'' 2 ''admin_disallowed_chat_id'' writeInt64,
         wf_if ''flags'' 4 ''disallowed_country'' writeString]),
      (- 512366993, [wf ''_'' writeInt32, wf_flags ''flags'' [(''winner'', 0), (''refunded'', 1),
         (''gift_code_slug'', 3), (''stars_prize'', 4), (''activated_count'', 2)],
         wf ''start_date'' writeInt32, wf_if ''flags'' 3 ''gift_code_slug'' writeString,
         wf_if ''flags'' 4 ''stars_prize'' writeInt64, wf ''finish_date'' writeInt32,
         wf ''winners_count'' writeInt32, wf_if ''flags'' 2 ''activated_count'' writeInt32])]"

definition TL_PaymentsGiveawayInfo_table :: flag_table where
  "TL_PaymentsGiveawayInfo_table =
     [(1130879648, [Flags ''flags'' [(''participating'', 0), (''preparing_results'', 3),
         (''joined_too_early_date'', 1), (''admin_disallowed_chat_id'', 2),
         (''disallowed_country'', 4)],
        TrueBit ''flags'' 0 ''participating'',
        TrueBit ''flags'' 3 ''preparing_results'',
        Plain (''start_date'', readInt32, writeInt32, enc_int32, is_VInt),
        Cond ''flags'' 1 (''joined_too_early_date'', readInt32, writeInt32, enc_int32, is_VInt),
        Cond ''flags'' 2 (''admin_disallowed_chat_id'', readInt64, writeInt64, enc_int64, is_VLong),
        Cond ''flags'' 4 (''disallowed_country'', readString, writeString, enc_string,
         is_short_text)]),
      (- 512366993, [Flags ''flags'' [(''winner'', 0), (''refunded'', 1), (''gift_code_slug'', 3),
         (''stars_prize'', 4), (''activated_count'', 2)],
        TrueBit ''flags'' 0 ''winner'',
        TrueBit ''flags'' 1 ''refunded'',
        Plain (''start_date'', readInt32, writeInt32, enc_int32, is_VInt),
        Cond ''flags'' 3 (''gift_code_slug'', readString, writeString, enc_string, is_short_text),
        Cond ''flags'' 4 (''stars_prize'', readInt64, writeInt64, enc_int64, is_VLong),
        Plain (''finish_date'', readInt32, writeInt32, enc_int32, is_VInt),
        Plain (''winners_count'', readInt32, writeInt32, enc_int32, is_VInt),
        Cond ''flags'' 2 (''activated_count'', readInt32, writeInt32, enc_int32, is_VInt)])]"

interpretation tl_PaymentsGiveawayInfo: tl_codec readTLPaymentsGiveawayInfo writeTLPaymentsGiveawayInfo "enc_fobject TL_PaymentsGiveawayInfo_table" "ok_fobject TL_PaymentsGiveawayInfo_table"
  by (rule flag_schema_codec, unfold TL_PaymentsGiveawayInfo_table_def, intro flag_tableI)
    (simp_all add: readTLPaymentsGiveawayInfo_def writeTLPaymentsGiveawayInfo_def flag_schema_simps)

definition readTLPrepaidGiveaway :: tl_reader where
  "readTLPrepaidGiveaway = read_object
     [(- 1303143084, [rd ''id'' readInt64, rd ''months'' readInt32, rd ''quantity'' readInt32,
         rd ''date'' readInt32]),
      (- 1700956192, [rd ''id'' readInt64, rd ''stars'' readInt64, rd ''quantity'' readInt32,
         rd ''boosts'' readInt32, rd ''date'' readInt32])]"

definition writeTLPrepaidGiveaway :: tl_writer where
  "writeTLPrepaidGiveaway = write_fobject
     [(- 1303143084, [wf ''_'' writeInt32, wf ''id'' writeInt64, wf ''months'' writeInt32,
         wf ''quantity'' writeInt32, wf ''date'' writeInt32]),
      (- 1700956192, [wf ''_'' writeInt32, wf ''id'' writeInt64, wf ''stars'' writeInt64,
         wf ''quantity'' writeInt32, wf ''boosts'' writeInt32, wf ''date'' writeInt32])]"

definition TL_PrepaidGiveaway_table :: flag_table where
  "TL_PrepaidGiveaway_table =
     [(- 1303143084, [Plain (''id'', readInt64, writeInt64, enc_int64, is_VLong),
        Plain (''months'', readInt32, writeInt32, enc_int32, is_VInt),
        Plain (''quantity'', readInt32, writeInt32, enc_int32, is_VInt),
        Plain (''date'', readInt32, writeInt32, enc_int32, is_VInt)]),
      (- 1700956192, [Plain (''id'', readInt64, writeInt64, enc_int64, is_VLong),
        Plain (''stars'', readInt64, writeInt64, enc_int64, is_VLong),
        Plain (''quantity'', readInt32, writeInt32, enc_int32, is_VInt),
        Plain (''boosts'', readInt32, writeInt32, enc_int32, is_VInt),
        Plain (''date'', readInt32, writeInt32, enc_int32, is_VInt)])]"

interpretation tl_PrepaidGiveaway: tl_codec readTLPrepaidGiveaway writeTLPrepaidGiveaway "enc_fobject TL_PrepaidGiveaway_table" "ok_fobject TL_PrepaidGiveaway_table"
  by (rule flag_schema_codec, unfold TL_PrepaidGiveaway_table_def, intro flag_tableI)
    (simp_all add: readTLPrepaidGiveaway_def writeTLPrepaidGiveaway_def flag_schema_simps)

definition readTLBoost :: tl_reader where
  "readTLBoost = read_object
     [(1262359766, [rd ''flags'' readUInt32, set_if ''flags'' 1 ''gift'',
         set_if ''flags'' 2 ''giveaway'', set_if ''flags'' 3 ''unclaimed'', rd ''id'' readString,
         rd_if ''flags'' 0 ''user_id'' readInt64, rd_if ''flags'' 2 ''giveaway_msg_id'' readInt32,
         rd ''date'' readInt32, rd ''expires'' readInt32,
         rd_if ''flags'' 4 ''used_gift_slug'' readString,
         rd_if ''flags'' 5 ''multiplier'' readInt32, rd_if ''flags'' 6 ''stars'' readInt64])]"

definition writeTLBoost :: tl_writer where
  "writeTLBoost = write_fobject
     [(1262359766, [wf ''_'' writeInt32, wf_flags ''flags'' [(''gift'', 1), (''giveaway'', 2),
         (''unclaimed'', 3), (''user_id'', 0), (''giveaway_msg_id'', 2), (''used_gift_slug'', 4),
         (''multiplier'', 5), (''stars'', 6)], wf ''id'' writeString,
         wf_if ''flags'' 0 ''user_id'' writeInt64,
         wf_if ''flags'' 2 ''giveaway_msg_id'' writeInt32, wf ''date'' writeInt32,
         wf ''expires'' writeInt32, wf_if ''flags'' 4 ''used_gift_slug'' writeString,
         wf_if ''flags'' 5 ''multiplier'' writeInt32, wf_if ''flags'' 6 ''stars'' writeInt64])]"

definition TL_Boost_table :: flag_table where
  "TL_Boost_table =
     [(1262359766, [Flags ''flags'' [(''gift'', 1), (''giveaway'', 2), (''unclaimed'', 3),
         (''user_id'', 0), (''giveaway_msg_id'', 2), (''used_gift_slug'', 4), (''multiplier'', 5),
         (''stars'', 6)],
        TrueBit ''flags'' 1 ''gift'',
        TrueBit ''flags'' 2 ''giveaway'',
        TrueBit ''flags'' 3 ''unclaimed'',
        Plain (''id'', readString, writeString, enc_string, is_short_text),
        Cond ''flags'' 0 (''user_id'', readInt64, writeInt64, enc_int64, is_VLong),
        Cond ''flags'' 2 (''giveaway_msg_id'', readInt32, writeInt32, enc_int32, is_VInt),
        Plain (''date'', readInt32, writeInt32, enc_int32, is_VInt),
        Plain (''expires'', readInt32, writeInt32, enc_int32, is_VInt),
        Cond ''flags'' 4 (''used_gift_slug'', readString, writeString, enc_string, is_short_text),
        Cond ''flags'' 5 (''multiplier'', readInt32, writeInt32, enc_int32, is_VInt),
        Cond ''flags'' 6 (''stars'', readInt64, writeInt64, enc_int64, is_VLong)])]"

interpretation tl_Boost: tl_codec readTLBoost writeTLBoost "enc_fobject TL_Boost_table" "ok_fobject TL_Boost_table"
  by (rule flag_schema_codec, unfold TL_Boost_table_def, intro flag_tableI)
    (simp_all add: readTLBoost_def writeTLBoost_def flag_schema_simps)

subsection \<open>The types since the last list at once\<close>

definition tl_types_part7 :: "(tl_reader \<times> tl_writer \<times> flag_table) list" where
  "tl_types_part7 =
     [(readTLPremiumGiftCodeOption, writeTLPremiumGiftCodeOption, TL_PremiumGiftCodeOption_table),
      (readTLInputSavedStarGift, writeTLInputSavedStarGift, TL_InputSavedStarGift_table),
      (readTLInputInvoice, writeTLInputInvoice, TL_InputInvoice_table),
      (readTLPaymentsExportedInvoice, writeTLPaymentsExportedInvoice, TL_PaymentsExportedInvoice_table),
      (readTLMessagesTranscribedAudio, writeTLMessagesTranscribedAudio, TL_MessagesTranscribedAudio_table),
      (readTLPaymentFormMethod, writeTLPaymentFormMethod, TL_PaymentFormMethod_table),
      (readTLAccountEmojiStatuses, writeTLAccountEmojiStatuses, TL_AccountEmojiStatuses_table),
      (readTLChatReactions, writeTLChatReactions, TL_ChatReactions_table),
      (readTLMessagesReactions, writeTLMessagesReactions, TL_MessagesReactions_table),
      (readTLEmailVerifyPurpose, writeTLEmailVerifyPurpose, TL_EmailVerifyPurpose_table),
      (readTLAccountEmailVerified, writeTLAccountEmailVerified, TL_AccountEmailVerified_table),
      (readTLPremiumSubscriptionOption, writeTLPremiumSubscriptionOption, TL_PremiumSubscriptionOption_table),
      (readTLDefaultHistoryTTL, writeTLDefaultHistoryTTL, TL_DefaultHistoryTTL_table),
      (readTLExportedContactToken, writeTLExportedContactToken, TL_ExportedContactToken_table),
      (readTLEmojiList, writeTLEmojiList, TL_EmojiList_table),
      (readTLEmojiGroup, writeTLEmojiGroup, TL_EmojiGroup_table),
      (readTLMessagesEmojiGroups, writeTLMessagesEmojiGroups, TL_MessagesEmojiGroups_table),
      (readTLMessagesTranslatedText, writeTLMessagesTranslatedText, TL_MessagesTranslatedText_table),
      (readTLAutoSaveSettings, writeTLAutoSaveSettings, TL_AutoSaveSettings_table),
      (readTLAutoSaveException, writeTLAutoSaveException, TL_AutoSaveException_table),
      (readTLAccountAutoSaveSettings, writeTLAccountAutoSaveSettings, TL_AccountAutoSaveSettings_table),
      (readTLInputBotApp, writeTLInputBotApp, TL_InputBotApp_table),
      (readTLReadParticipantDate, writeTLReadParticipantDate, TL_ReadParticipantDate_table),
      (readTLInputChatlist, writeTLInputChatlist, TL_InputChatlist_table),
      (readTLExportedChatlistInvite, writeTLExportedChatlistInvite, TL_ExportedChatlistInvite_table),
      (readTLChatlistsExportedChatlistInvite, writeTLChatlistsExportedChatlistInvite, TL_ChatlistsExportedChatlistInvite_table),
      (readTLChatlistsExportedInvites, writeTLChatlistsExportedInvites, TL_ChatlistsExportedInvites_table),
      (readTLChatlistsChatlistInvite, writeTLChatlistsChatlistInvite, TL_ChatlistsChatlistInvite_table),
      (readTLChatlistsChatlistUpdates, writeTLChatlistsChatlistUpdates, TL_ChatlistsChatlistUpdates_table),
      (readTLBotsBotInfo, writeTLBotsBotInfo, TL_BotsBotInfo_table),
      (readTLStoryViews, writeTLStoryViews, TL_StoryViews_table),
      (readTLStoryFwdHeader, writeTLStoryFwdHeader, TL_StoryFwdHeader_table),
      (readTLStoriesStealthMode, writeTLStoriesStealthMode, TL_StoriesStealthMode_table),
      (readTLStoriesStoryViews, writeTLStoriesStoryViews, TL_StoriesStoryViews_table),
      (readTLExportedStoryLink, writeTLExportedStoryLink, TL_ExportedStoryLink_table),
      (readTLPaymentsCheckedGiftCode, writeTLPaymentsCheckedGiftCode, TL_PaymentsCheckedGiftCode_table),
      (readTLPaymentsGiveawayInfo, writeTLPaymentsGiveawayInfo, TL_PaymentsGiveawayInfo_table),
      (readTLPrepaidGiveaway, writeTLPrepaidGiveaway, TL_PrepaidGiveaway_table),
      (readTLBoost, writeTLBoost, TL_Boost_table)]"

lemma tl_types_part7_codec: "(R, W, t) \<in> set tl_types_part7 \<Longrightarrow> tl_codec R W (enc_fobject t) (ok_fobject t)"
  by (auto simp: tl_types_part7_def
      intro: tl_PremiumGiftCodeOption.tl_codec_axioms tl_InputSavedStarGift.tl_codec_axioms
         tl_InputInvoice.tl_codec_axioms tl_PaymentsExportedInvoice.tl_codec_axioms
         tl_MessagesTranscribedAudio.tl_codec_axioms tl_PaymentFormMethod.tl_codec_axioms
         tl_AccountEmojiStatuses.tl_codec_axioms tl_ChatReactions.tl_codec_axioms
         tl_MessagesReactions.tl_codec_axioms tl_EmailVerifyPurpose.tl_codec_axioms
         tl_AccountEmailVerified.tl_codec_axioms tl_PremiumSubscriptionOption.tl_codec_axioms
         tl_DefaultHistoryTTL.tl_codec_axioms tl_ExportedContactToken.tl_codec_axioms
         tl_EmojiList.tl_codec_axioms tl_EmojiGroup.tl_codec_axioms
         tl_MessagesEmojiGroups.tl_codec_axioms tl_MessagesTranslatedText.tl_codec_axioms
         tl_AutoSaveSettings.tl_codec_axioms tl_AutoSaveException.tl_codec_axioms
         tl_AccountAutoSaveSettings.tl_codec_axioms tl_InputBotApp.tl_codec_axioms
         tl_ReadParticipantDate.tl_codec_axioms tl_InputChatlist.tl_codec_axioms
         tl_ExportedChatlistInvite.tl_codec_axioms
         tl_ChatlistsExportedChatlistInvite.tl_codec_axioms
         tl_ChatlistsExportedInvites.tl_codec_axioms tl_ChatlistsChatlistInvite.tl_codec_axioms
         tl_ChatlistsChatlistUpdates.tl_codec_axioms tl_BotsBotInfo.tl_codec_axioms
         tl_StoryViews.tl_codec_axioms tl_StoryFwdHeader.tl_codec_axioms
         tl_StoriesStealthMode.tl_codec_axioms tl_StoriesStoryViews.tl_codec_axioms
         tl_ExportedStoryLink.tl_codec_axioms tl_PaymentsCheckedGiftCode.tl_codec_axioms
         tl_PaymentsGiveawayInfo.tl_codec_axioms tl_PrepaidGiveaway.tl_codec_axioms
         tl_Boost.tl_codec_axioms)

definition readTLPremiumBoostsList :: tl_reader where
  "readTLPremiumBoostsList = read_object
     [(- 2030542532, [rd ''flags'' readUInt32, rd ''count'' readInt32,
         rd ''boosts'' (readVector (Some readTLBoost)),
         rd_if ''flags'' 0 ''next_offset'' readString,
         rd ''users'' (readVector (Some readTLUser))])]"

definition writeTLPremiumBoostsList :: tl_writer where
  "writeTLPremiumBoostsList = write_fobject
     [(- 2030542532, [wf ''_'' writeInt32, wf_flags ''flags'' [(''next_offset'', 0)],
         wf ''count'' writeInt32, wf ''boosts'' (writeVector (Some writeTLBoost)),
         wf_if ''flags'' 0 ''next_offset'' writeString,
         wf ''users'' (writeVector (Some writeTLUser))])]"

definition TL_PremiumBoostsList_table :: flag_table where
  "TL_PremiumBoostsList_table =
     [(- 2030542532, [Flags ''flags'' [(''next_offset'', 0)],
        Plain (''count'', readInt32, writeInt32, enc_int32, is_VInt),
        Plain (''boosts'', readVector (Some readTLBoost), writeVector (Some writeTLBoost),
         enc_vector (enc_fobject TL_Boost_table), ok_vector (ok_fobject TL_Boost_table)),
        Cond ''flags'' 0 (''next_offset'', readString, writeString, enc_string, is_short_text),
        Plain (''users'', readVector (Some readTLUser), writeVector (Some writeTLUser),
         enc_vector (enc_fobject TL_User_table), ok_vector (ok_fobject TL_User_table))])]"

interpretation tl_PremiumBoostsList: tl_codec readTLPremiumBoostsList writeTLPremiumBoostsList "enc_fobject TL_PremiumBoostsList_table" "ok_fobject TL_PremiumBoostsList_table"
  by (rule flag_schema_codec, unfold TL_PremiumBoostsList_table_def, intro flag_tableI)
    (simp_all add: readTLPremiumBoostsList_def writeTLPremiumBoostsList_def flag_schema_simps tl_Boost.tl_codec_axioms tl_Boost.vector_codec tl_User.tl_codec_axioms tl_User.vector_codec)

definition readTLMyBoost :: tl_reader where
  "readTLMyBoost = read_object
     [(- 1001897636, [rd ''flags'' readUInt32, rd ''slot'' readInt32,
         rd_if ''flags'' 0 ''peer'' readTLPeer, rd ''date'' readInt32, rd ''expires'' readInt32,
         rd_if ''flags'' 1 ''cooldown_until_date'' readInt32])]"

definition writeTLMyBoost :: tl_writer where
  "writeTLMyBoost = write_fobject
     [(- 1001897636, [wf ''_'' writeInt32, wf_flags ''flags'' [(''peer'', 0),
         (''cooldown_until_date'', 1)], wf ''slot'' writeInt32,
         wf_if ''flags'' 0 ''peer'' writeTLPeer, wf ''date'' writeInt32, wf ''expires'' writeInt32,
         wf_if ''flags'' 1 ''cooldown_until_date'' writeInt32])]"

definition TL_MyBoost_table :: flag_table where
  "TL_MyBoost_table =
     [(- 1001897636, [Flags ''flags'' [(''peer'', 0), (''cooldown_until_date'', 1)],
        Plain (''slot'', readInt32, writeInt32, enc_int32, is_VInt),
        Cond ''flags'' 0 (''peer'', readTLPeer, writeTLPeer, enc_fobject TL_Peer_table,
         ok_fobject TL_Peer_table),
        Plain (''date'', readInt32, writeInt32, enc_int32, is_VInt),
        Plain (''expires'', readInt32, writeInt32, enc_int32, is_VInt),
        Cond ''flags'' 1 (''cooldown_until_date'', readInt32, writeInt32, enc_int32, is_VInt)])]"

interpretation tl_MyBoost: tl_codec readTLMyBoost writeTLMyBoost "enc_fobject TL_MyBoost_table" "ok_fobject TL_MyBoost_table"
  by (rule flag_schema_codec, unfold TL_MyBoost_table_def, intro flag_tableI)
    (simp_all add: readTLMyBoost_def writeTLMyBoost_def flag_schema_simps tl_Peer.tl_codec_axioms)

definition readTLPremiumMyBoosts :: tl_reader where
  "readTLPremiumMyBoosts = read_object
     [(- 1696454430, [rd ''my_boosts'' (readVector (Some readTLMyBoost)),
         rd ''chats'' (readVector (Some readTLChat)),
         rd ''users'' (readVector (Some readTLUser))])]"

definition writeTLPremiumMyBoosts :: tl_writer where
  "writeTLPremiumMyBoosts = write_fobject
     [(- 1696454430, [wf ''_'' writeInt32, wf ''my_boosts'' (writeVector (Some writeTLMyBoost)),
         wf ''chats'' (writeVector (Some writeTLChat)),
         wf ''users'' (writeVector (Some writeTLUser))])]"

definition TL_PremiumMyBoosts_table :: flag_table where
  "TL_PremiumMyBoosts_table =
     [(- 1696454430, [Plain (''my_boosts'', readVector (Some readTLMyBoost),
         writeVector (Some writeTLMyBoost), enc_vector (enc_fobject TL_MyBoost_table),
         ok_vector (ok_fobject TL_MyBoost_table)),
        Plain (''chats'', readVector (Some readTLChat), writeVector (Some writeTLChat),
         enc_vector (enc_fobject TL_Chat_table), ok_vector (ok_fobject TL_Chat_table)),
        Plain (''users'', readVector (Some readTLUser), writeVector (Some writeTLUser),
         enc_vector (enc_fobject TL_User_table), ok_vector (ok_fobject TL_User_table))])]"

interpretation tl_PremiumMyBoosts: tl_codec readTLPremiumMyBoosts writeTLPremiumMyBoosts "enc_fobject TL_PremiumMyBoosts_table" "ok_fobject TL_PremiumMyBoosts_table"
  by (rule flag_schema_codec, unfold TL_PremiumMyBoosts_table_def, intro flag_tableI)
    (simp_all add: readTLPremiumMyBoosts_def writeTLPremiumMyBoosts_def flag_schema_simps tl_MyBoost.tl_codec_axioms tl_MyBoost.vector_codec tl_Chat.tl_codec_axioms tl_Chat.vector_codec tl_User.tl_codec_axioms tl_User.vector_codec)

definition readTLPostInteractionCounters :: tl_reader where
  "readTLPostInteractionCounters = read_object
     [(- 419066241, [rd ''msg_id'' readInt32, rd ''views'' readInt32, rd ''forwards'' readInt32,
         rd ''reactions'' readInt32]),
      (- 1974989273, [rd ''story_id'' readInt32, rd ''views'' readInt32, rd ''forwards'' readInt32,
         rd ''reactions'' readInt32])]"

definition writeTLPostInteractionCounters :: tl_writer where
  "writeTLPostInteractionCounters = write_fobject
     [(- 419066241, [wf ''_'' writeInt32, wf ''msg_id'' writeInt32, wf ''views'' writeInt32,
         wf ''forwards'' writeInt32, wf ''reactions'' writeInt32]),
      (- 1974989273, [wf ''_'' writeInt32, wf ''story_id'' writeInt32, wf ''views'' writeInt32,
         wf ''forwards'' writeInt32, wf ''reactions'' writeInt32])]"

definition TL_PostInteractionCounters_table :: flag_table where
  "TL_PostInteractionCounters_table =
     [(- 419066241, [Plain (''msg_id'', readInt32, writeInt32, enc_int32, is_VInt),
        Plain (''views'', readInt32, writeInt32, enc_int32, is_VInt),
        Plain (''forwards'', readInt32, writeInt32, enc_int32, is_VInt),
        Plain (''reactions'', readInt32, writeInt32, enc_int32, is_VInt)]),
      (- 1974989273, [Plain (''story_id'', readInt32, writeInt32, enc_int32, is_VInt),
        Plain (''views'', readInt32, writeInt32, enc_int32, is_VInt),
        Plain (''forwards'', readInt32, writeInt32, enc_int32, is_VInt),
        Plain (''reactions'', readInt32, writeInt32, enc_int32, is_VInt)])]"

interpretation tl_PostInteractionCounters: tl_codec readTLPostInteractionCounters writeTLPostInteractionCounters "enc_fobject TL_PostInteractionCounters_table" "ok_fobject TL_PostInteractionCounters_table"
  by (rule flag_schema_codec, unfold TL_PostInteractionCounters_table_def, intro flag_tableI)
    (simp_all add: readTLPostInteractionCounters_def writeTLPostInteractionCounters_def flag_schema_simps)

definition readTLStatsStoryStats :: tl_reader where
  "readTLStatsStoryStats = read_object
     [(1355613820, [rd ''views_graph'' readTLStatsGraph,
         rd ''reactions_by_emotion_graph'' readTLStatsGraph])]"

definition writeTLStatsStoryStats :: tl_writer where
  "writeTLStatsStoryStats = write_fobject
     [(1355613820, [wf ''_'' writeInt32, wf ''views_graph'' writeTLStatsGraph,
         wf ''reactions_by_emotion_graph'' writeTLStatsGraph])]"

definition TL_StatsStoryStats_table :: flag_table where
  "TL_StatsStoryStats_table =
     [(1355613820, [Plain (''views_graph'', readTLStatsGraph, writeTLStatsGraph,
         enc_fobject TL_StatsGraph_table, ok_fobject TL_StatsGraph_table),
        Plain (''reactions_by_emotion_graph'', readTLStatsGraph, writeTLStatsGraph,
         enc_fobject TL_StatsGraph_table, ok_fobject TL_StatsGraph_table)])]"

interpretation tl_StatsStoryStats: tl_codec readTLStatsStoryStats writeTLStatsStoryStats "enc_fobject TL_StatsStoryStats_table" "ok_fobject TL_StatsStoryStats_table"
  by (rule flag_schema_codec, unfold TL_StatsStoryStats_table_def, intro flag_tableI)
    (simp_all add: readTLStatsStoryStats_def writeTLStatsStoryStats_def flag_schema_simps tl_StatsGraph.tl_codec_axioms)

definition readTLHelpPeerColorSet :: tl_reader where
  "readTLHelpPeerColorSet = read_object
     [(639736408, [rd ''colors'' (readVector (Some readInt32))]),
      (1987928555, [rd ''palette_colors'' (readVector (Some readInt32)),
         rd ''bg_colors'' (readVector (Some readInt32)),
         rd ''story_colors'' (readVector (Some readInt32))])]"

definition writeTLHelpPeerColorSet :: tl_writer where
  "writeTLHelpPeerColorSet = write_fobject
     [(639736408, [wf ''_'' writeInt32, wf ''colors'' (writeVector (Some writeInt32))]),
      (1987928555, [wf ''_'' writeInt32, wf ''palette_colors'' (writeVector (Some writeInt32)),
         wf ''bg_colors'' (writeVector (Some writeInt32)),
         wf ''story_colors'' (writeVector (Some writeInt32))])]"

definition TL_HelpPeerColorSet_table :: flag_table where
  "TL_HelpPeerColorSet_table =
     [(639736408, [Plain (''colors'', readVector (Some readInt32), writeVector (Some writeInt32),
         enc_vector enc_int32, ok_vector is_VInt)]),
      (1987928555, [Plain (''palette_colors'', readVector (Some readInt32),
         writeVector (Some writeInt32), enc_vector enc_int32, ok_vector is_VInt),
        Plain (''bg_colors'', readVector (Some readInt32), writeVector (Some writeInt32),
         enc_vector enc_int32, ok_vector is_VInt),
        Plain (''story_colors'', readVector (Some readInt32), writeVector (Some writeInt32),
         enc_vector enc_int32, ok_vector is_VInt)])]"

interpretation tl_HelpPeerColorSet: tl_codec readTLHelpPeerColorSet writeTLHelpPeerColorSet "enc_fobject TL_HelpPeerColorSet_table" "ok_fobject TL_HelpPeerColorSet_table"
  by (rule flag_schema_codec, unfold TL_HelpPeerColorSet_table_def, intro flag_tableI)
    (simp_all add: readTLHelpPeerColorSet_def writeTLHelpPeerColorSet_def flag_schema_simps)

definition readTLHelpPeerColorOption :: tl_reader where
  "readTLHelpPeerColorOption = read_object
     [(- 1377014082, [rd ''flags'' readUInt32, set_if ''flags'' 0 ''hidden'',
         rd ''color_id'' readInt32, rd_if ''flags'' 1 ''colors'' readTLHelpPeerColorSet,
         rd_if ''flags'' 2 ''dark_colors'' readTLHelpPeerColorSet,
         rd_if ''flags'' 3 ''channel_min_level'' readInt32,
         rd_if ''flags'' 4 ''group_min_level'' readInt32])]"

definition writeTLHelpPeerColorOption :: tl_writer where
  "writeTLHelpPeerColorOption = write_fobject
     [(- 1377014082, [wf ''_'' writeInt32, wf_flags ''flags'' [(''hidden'', 0), (''colors'', 1),
         (''dark_colors'', 2), (''channel_min_level'', 3), (''group_min_level'', 4)],
         wf ''color_id'' writeInt32, wf_if ''flags'' 1 ''colors'' writeTLHelpPeerColorSet,
         wf_if ''flags'' 2 ''dark_colors'' writeTLHelpPeerColorSet,
         wf_if ''flags'' 3 ''channel_min_level'' writeInt32,
         wf_if ''flags'' 4 ''group_min_level'' writeInt32])]"

definition TL_HelpPeerColorOption_table :: flag_table where
  "TL_HelpPeerColorOption_table =
     [(- 1377014082, [Flags ''flags'' [(''hidden'', 0), (''colors'', 1), (''dark_colors'', 2),
         (''channel_min_level'', 3), (''group_min_level'', 4)],
        TrueBit ''flags'' 0 ''hidden'',
        Plain (''color_id'', readInt32, writeInt32, enc_int32, is_VInt),
        Cond ''flags'' 1 (''colors'', readTLHelpPeerColorSet, writeTLHelpPeerColorSet,
         enc_fobject TL_HelpPeerColorSet_table, ok_fobject TL_HelpPeerColorSet_table),
        Cond ''flags'' 2 (''dark_colors'', readTLHelpPeerColorSet, writeTLHelpPeerColorSet,
         enc_fobject TL_HelpPeerColorSet_table, ok_fobject TL_HelpPeerColorSet_table),
        Cond ''flags'' 3 (''channel_min_level'', readInt32, writeInt32, enc_int32, is_VInt),
        Cond ''flags'' 4 (''group_min_level'', readInt32, writeInt32, enc_int32, is_VInt)])]"

interpretation tl_HelpPeerColorOption: tl_codec readTLHelpPeerColorOption writeTLHelpPeerColorOption "enc_fobject TL_HelpPeerColorOption_table" "ok_fobject TL_HelpPeerColorOption_table"
  by (rule flag_schema_codec, unfold TL_HelpPeerColorOption_table_def, intro flag_tableI)
    (simp_all add: readTLHelpPeerColorOption_def writeTLHelpPeerColorOption_def flag_schema_simps tl_HelpPeerColorSet.tl_codec_axioms)

definition readTLHelpPeerColors :: tl_reader where
  "readTLHelpPeerColors = read_object
     [(732034510, []),
      (16313608, [rd ''hash'' readInt32,
         rd ''colors'' (readVector (Some readTLHelpPeerColorOption))])]"

definition writeTLHelpPeerColors :: tl_writer where
  "writeTLHelpPeerColors = write_fobject
     [(732034510, [wf ''_'' writeInt32]),
      (16313608, [wf ''_'' writeInt32, wf ''hash'' writeInt32,
         wf ''colors'' (writeVector (Some writeTLHelpPeerColorOption))])]"

definition TL_HelpPeerColors_table :: flag_table where
  "TL_HelpPeerColors_table =
     [(732034510, []),
      (16313608, [Plain (''hash'', readInt32, writeInt32, enc_int32, is_VInt),
        Plain (''colors'', readVector (Some readTLHelpPeerColorOption),
         writeVector (Some writeTLHelpPeerColorOption),
         enc_vector (enc_fobject TL_HelpPeerColorOption_table),
         ok_vector (ok_fobject TL_HelpPeerColorOption_table))])]"

interpretation tl_HelpPeerColors: tl_codec readTLHelpPeerColors writeTLHelpPeerColors "enc_fobject TL_HelpPeerColors_table" "ok_fobject TL_HelpPeerColors_table"
  by (rule flag_schema_codec, unfold TL_HelpPeerColors_table_def, intro flag_tableI)
    (simp_all add: readTLHelpPeerColors_def writeTLHelpPeerColors_def flag_schema_simps tl_HelpPeerColorOption.tl_codec_axioms tl_HelpPeerColorOption.vector_codec)

definition readTLSavedReactionTag :: tl_reader where
  "readTLSavedReactionTag = read_object
     [(- 881854424, [rd ''flags'' readUInt32, rd ''reaction'' readTLReaction,
         rd_if ''flags'' 0 ''title'' readString, rd ''count'' readInt32])]"

definition writeTLSavedReactionTag :: tl_writer where
  "writeTLSavedReactionTag = write_fobject
     [(- 881854424, [wf ''_'' writeInt32, wf_flags ''flags'' [(''title'', 0)],
         wf ''reaction'' writeTLReaction, wf_if ''flags'' 0 ''title'' writeString,
         wf ''count'' writeInt32])]"

definition TL_SavedReactionTag_table :: flag_table where
  "TL_SavedReactionTag_table =
     [(- 881854424, [Flags ''flags'' [(''title'', 0)],
        Plain (''reaction'', readTLReaction, writeTLReaction, enc_fobject TL_Reaction_table,
         ok_fobject TL_Reaction_table),
        Cond ''flags'' 0 (''title'', readString, writeString, enc_string, is_short_text),
        Plain (''count'', readInt32, writeInt32, enc_int32, is_VInt)])]"

interpretation tl_SavedReactionTag: tl_codec readTLSavedReactionTag writeTLSavedReactionTag "enc_fobject TL_SavedReactionTag_table" "ok_fobject TL_SavedReactionTag_table"
  by (rule flag_schema_codec, unfold TL_SavedReactionTag_table_def, intro flag_tableI)
    (simp_all add: readTLSavedReactionTag_def writeTLSavedReactionTag_def flag_schema_simps tl_Reaction.tl_codec_axioms)

definition readTLMessagesSavedReactionTags :: tl_reader where
  "readTLMessagesSavedReactionTags = read_object
     [(- 2003084817, []),
      (844731658, [rd ''tags'' (readVector (Some readTLSavedReactionTag)), rd ''hash'' readInt64])]"

definition writeTLMessagesSavedReactionTags :: tl_writer where
  "writeTLMessagesSavedReactionTags = write_fobject
     [(- 2003084817, [wf ''_'' writeInt32]),
      (844731658, [wf ''_'' writeInt32, wf ''tags'' (writeVector (Some writeTLSavedReactionTag)),
         wf ''hash'' writeInt64])]"

definition TL_MessagesSavedReactionTags_table :: flag_table where
  "TL_MessagesSavedReactionTags_table =
     [(- 2003084817, []),
      (844731658, [Plain (''tags'', readVector (Some readTLSavedReactionTag),
         writeVector (Some writeTLSavedReactionTag),
         enc_vector (enc_fobject TL_SavedReactionTag_table),
         ok_vector (ok_fobject TL_SavedReactionTag_table)),
        Plain (''hash'', readInt64, writeInt64, enc_int64, is_VLong)])]"

interpretation tl_MessagesSavedReactionTags: tl_codec readTLMessagesSavedReactionTags writeTLMessagesSavedReactionTags "enc_fobject TL_MessagesSavedReactionTags_table" "ok_fobject TL_MessagesSavedReactionTags_table"
  by (rule flag_schema_codec, unfold TL_MessagesSavedReactionTags_table_def, intro flag_tableI)
    (simp_all add: readTLMessagesSavedReactionTags_def writeTLMessagesSavedReactionTags_def flag_schema_simps tl_SavedReactionTag.tl_codec_axioms tl_SavedReactionTag.vector_codec)

definition readTLOutboxReadDate :: tl_reader where
  "readTLOutboxReadDate = read_object
     [(1001931436, [rd ''date'' readInt32])]"

definition writeTLOutboxReadDate :: tl_writer where
  "writeTLOutboxReadDate = write_fobject
     [(1001931436, [wf ''_'' writeInt32, wf ''date'' writeInt32])]"

definition TL_OutboxReadDate_table :: flag_table where
  "TL_OutboxReadDate_table =
     [(1001931436, [Plain (''date'', readInt32, writeInt32, enc_int32, is_VInt)])]"

interpretation tl_OutboxReadDate: tl_codec readTLOutboxReadDate writeTLOutboxReadDate "enc_fobject TL_OutboxReadDate_table" "ok_fobject TL_OutboxReadDate_table"
  by (rule flag_schema_codec, unfold TL_OutboxReadDate_table_def, intro flag_tableI)
    (simp_all add: readTLOutboxReadDate_def writeTLOutboxReadDate_def flag_schema_simps)

definition readTLSmsjobsEligibilityToJoin :: tl_reader where
  "readTLSmsjobsEligibilityToJoin = read_object
     [(- 594852657, [rd ''terms_url'' readString, rd ''monthly_sent_sms'' readInt32])]"

definition writeTLSmsjobsEligibilityToJoin :: tl_writer where
  "writeTLSmsjobsEligibilityToJoin = write_fobject
     [(- 594852657, [wf ''_'' writeInt32, wf ''terms_url'' writeString,
         wf ''monthly_sent_sms'' writeInt32])]"

definition TL_SmsjobsEligibilityToJoin_table :: flag_table where
  "TL_SmsjobsEligibilityToJoin_table =
     [(- 594852657, [Plain (''terms_url'', readString, writeString, enc_string, is_short_text),
        Plain (''monthly_sent_sms'', readInt32, writeInt32, enc_int32, is_VInt)])]"

interpretation tl_SmsjobsEligibilityToJoin: tl_codec readTLSmsjobsEligibilityToJoin writeTLSmsjobsEligibilityToJoin "enc_fobject TL_SmsjobsEligibilityToJoin_table" "ok_fobject TL_SmsjobsEligibilityToJoin_table"
  by (rule flag_schema_codec, unfold TL_SmsjobsEligibilityToJoin_table_def, intro flag_tableI)
    (simp_all add: readTLSmsjobsEligibilityToJoin_def writeTLSmsjobsEligibilityToJoin_def flag_schema_simps)

definition readTLSmsjobsStatus :: tl_reader where
  "readTLSmsjobsStatus = read_object
     [(720277905, [rd ''flags'' readUInt32, set_if ''flags'' 0 ''allow_international'',
         rd ''recent_sent'' readInt32, rd ''recent_since'' readInt32,
         rd ''recent_remains'' readInt32, rd ''total_sent'' readInt32,
         rd ''total_since'' readInt32, rd_if ''flags'' 1 ''last_gift_slug'' readString,
         rd ''terms_url'' readString])]"

definition writeTLSmsjobsStatus :: tl_writer where
  "writeTLSmsjobsStatus = write_fobject
     [(720277905, [wf ''_'' writeInt32, wf_flags ''flags'' [(''allow_international'', 0),
         (''last_gift_slug'', 1)], wf ''recent_sent'' writeInt32, wf ''recent_since'' writeInt32,
         wf ''recent_remains'' writeInt32, wf ''total_sent'' writeInt32,
         wf ''total_since'' writeInt32, wf_if ''flags'' 1 ''last_gift_slug'' writeString,
         wf ''terms_url'' writeString])]"

definition TL_SmsjobsStatus_table :: flag_table where
  "TL_SmsjobsStatus_table =
     [(720277905, [Flags ''flags'' [(''allow_international'', 0), (''last_gift_slug'', 1)],
        TrueBit ''flags'' 0 ''allow_international'',
        Plain (''recent_sent'', readInt32, writeInt32, enc_int32, is_VInt),
        Plain (''recent_since'', readInt32, writeInt32, enc_int32, is_VInt),
        Plain (''recent_remains'', readInt32, writeInt32, enc_int32, is_VInt),
        Plain (''total_sent'', readInt32, writeInt32, enc_int32, is_VInt),
        Plain (''total_since'', readInt32, writeInt32, enc_int32, is_VInt),
        Cond ''flags'' 1 (''last_gift_slug'', readString, writeString, enc_string, is_short_text),
        Plain (''terms_url'', readString, writeString, enc_string, is_short_text)])]"

interpretation tl_SmsjobsStatus: tl_codec readTLSmsjobsStatus writeTLSmsjobsStatus "enc_fobject TL_SmsjobsStatus_table" "ok_fobject TL_SmsjobsStatus_table"
  by (rule flag_schema_codec, unfold TL_SmsjobsStatus_table_def, intro flag_tableI)
    (simp_all add: readTLSmsjobsStatus_def writeTLSmsjobsStatus_def flag_schema_simps)

definition readTLSmsJob :: tl_reader where
  "readTLSmsJob = read_object
     [(- 425595208, [rd ''job_id'' readString, rd ''phone_number'' readString,
         rd ''text'' readString])]"

definition writeTLSmsJob :: tl_writer where
  "writeTLSmsJob = write_fobject
     [(- 425595208, [wf ''_'' writeInt32, wf ''job_id'' writeString,
         wf ''phone_number'' writeString, wf ''text'' writeString])]"

definition TL_SmsJob_table :: flag_table where
  "TL_SmsJob_table =
     [(- 425595208, [Plain (''job_id'', readString, writeString, enc_string, is_short_text),
        Plain (''phone_number'', readString, writeString, enc_string, is_short_text),
        Plain (''text'', readString, writeString, enc_string, is_short_text)])]"

interpretation tl_SmsJob: tl_codec readTLSmsJob writeTLSmsJob "enc_fobject TL_SmsJob_table" "ok_fobject TL_SmsJob_table"
  by (rule flag_schema_codec, unfold TL_SmsJob_table_def, intro flag_tableI)
    (simp_all add: readTLSmsJob_def writeTLSmsJob_def flag_schema_simps)

definition readTLBusinessWeeklyOpen :: tl_reader where
  "readTLBusinessWeeklyOpen = read_object
     [(302717625, [rd ''start_minute'' readInt32, rd ''end_minute'' readInt32])]"

definition writeTLBusinessWeeklyOpen :: tl_writer where
  "writeTLBusinessWeeklyOpen = write_fobject
     [(302717625, [wf ''_'' writeInt32, wf ''start_minute'' writeInt32,
         wf ''end_minute'' writeInt32])]"

definition TL_BusinessWeeklyOpen_table :: flag_table where
  "TL_BusinessWeeklyOpen_table =
     [(302717625, [Plain (''start_minute'', readInt32, writeInt32, enc_int32, is_VInt),
        Plain (''end_minute'', readInt32, writeInt32, enc_int32, is_VInt)])]"

interpretation tl_BusinessWeeklyOpen: tl_codec readTLBusinessWeeklyOpen writeTLBusinessWeeklyOpen "enc_fobject TL_BusinessWeeklyOpen_table" "ok_fobject TL_BusinessWeeklyOpen_table"
  by (rule flag_schema_codec, unfold TL_BusinessWeeklyOpen_table_def, intro flag_tableI)
    (simp_all add: readTLBusinessWeeklyOpen_def writeTLBusinessWeeklyOpen_def flag_schema_simps)

definition readTLBusinessWorkHours :: tl_reader where
  "readTLBusinessWorkHours = read_object
     [(- 1936543592, [rd ''flags'' readUInt32, set_if ''flags'' 0 ''open_now'',
         rd ''timezone_id'' readString,
         rd ''weekly_open'' (readVector (Some readTLBusinessWeeklyOpen))])]"

definition writeTLBusinessWorkHours :: tl_writer where
  "writeTLBusinessWorkHours = write_fobject
     [(- 1936543592, [wf ''_'' writeInt32, wf_flags ''flags'' [(''open_now'', 0)],
         wf ''timezone_id'' writeString,
         wf ''weekly_open'' (writeVector (Some writeTLBusinessWeeklyOpen))])]"

definition TL_BusinessWorkHours_table :: flag_table where
  "TL_BusinessWorkHours_table =
     [(- 1936543592, [Flags ''flags'' [(''open_now'', 0)],
        TrueBit ''flags'' 0 ''open_now'',
        Plain (''timezone_id'', readString, writeString, enc_string, is_short_text),
        Plain (''weekly_open'', readVector (Some readTLBusinessWeeklyOpen),
         writeVector (Some writeTLBusinessWeeklyOpen),
         enc_vector (enc_fobject TL_BusinessWeeklyOpen_table),
         ok_vector (ok_fobject TL_BusinessWeeklyOpen_table))])]"

interpretation tl_BusinessWorkHours: tl_codec readTLBusinessWorkHours writeTLBusinessWorkHours "enc_fobject TL_BusinessWorkHours_table" "ok_fobject TL_BusinessWorkHours_table"
  by (rule flag_schema_codec, unfold TL_BusinessWorkHours_table_def, intro flag_tableI)
    (simp_all add: readTLBusinessWorkHours_def writeTLBusinessWorkHours_def flag_schema_simps tl_BusinessWeeklyOpen.tl_codec_axioms tl_BusinessWeeklyOpen.vector_codec)

definition readTLInputBusinessRecipients :: tl_reader where
  "readTLInputBusinessRecipients = read_object
     [(1871393450, [rd ''flags'' readUInt32, set_if ''flags'' 0 ''existing_chats'',
         set_if ''flags'' 1 ''new_chats'', set_if ''flags'' 2 ''contacts'',
         set_if ''flags'' 3 ''non_contacts'', set_if ''flags'' 5 ''exclude_selected'',
         rd_if ''flags'' 4 ''users'' (readVector (Some readTLInputUser))])]"

definition writeTLInputBusinessRecipients :: tl_writer where
  "writeTLInputBusinessRecipients = write_fobject
     [(1871393450, [wf ''_'' writeInt32, wf_flags ''flags'' [(''existing_chats'', 0),
         (''new_chats'', 1), (''contacts'', 2), (''non_contacts'', 3), (''exclude_selected'', 5),
         (''users'', 4)], wf_if ''flags'' 4 ''users'' (writeVector (Some writeTLInputUser))])]"

definition TL_InputBusinessRecipients_table :: flag_table where
  "TL_InputBusinessRecipients_table =
     [(1871393450, [Flags ''flags'' [(''existing_chats'', 0), (''new_chats'', 1), (''contacts'',
         2), (''non_contacts'', 3), (''exclude_selected'', 5), (''users'', 4)],
        TrueBit ''flags'' 0 ''existing_chats'',
        TrueBit ''flags'' 1 ''new_chats'',
        TrueBit ''flags'' 2 ''contacts'',
        TrueBit ''flags'' 3 ''non_contacts'',
        TrueBit ''flags'' 5 ''exclude_selected'',
        Cond ''flags'' 4 (''users'', readVector (Some readTLInputUser),
         writeVector (Some writeTLInputUser), enc_vector (enc_fobject TL_InputUser_table),
         ok_vector (ok_fobject TL_InputUser_table))])]"

interpretation tl_InputBusinessRecipients: tl_codec readTLInputBusinessRecipients writeTLInputBusinessRecipients "enc_fobject TL_InputBusinessRecipients_table" "ok_fobject TL_InputBusinessRecipients_table"
  by (rule flag_schema_codec, unfold TL_InputBusinessRecipients_table_def, intro flag_tableI)
    (simp_all add: readTLInputBusinessRecipients_def writeTLInputBusinessRecipients_def flag_schema_simps tl_InputUser.tl_codec_axioms tl_InputUser.vector_codec)

definition readTLBusinessRecipients :: tl_reader where
  "readTLBusinessRecipients = read_object
     [(554733559, [rd ''flags'' readUInt32, set_if ''flags'' 0 ''existing_chats'',
         set_if ''flags'' 1 ''new_chats'', set_if ''flags'' 2 ''contacts'',
         set_if ''flags'' 3 ''non_contacts'', set_if ''flags'' 5 ''exclude_selected'',
         rd_if ''flags'' 4 ''users'' (readVector (Some readInt64))])]"

definition writeTLBusinessRecipients :: tl_writer where
  "writeTLBusinessRecipients = write_fobject
     [(554733559, [wf ''_'' writeInt32, wf_flags ''flags'' [(''existing_chats'', 0),
         (''new_chats'', 1), (''contacts'', 2), (''non_contacts'', 3), (''exclude_selected'', 5),
         (''users'', 4)], wf_if ''flags'' 4 ''users'' (writeVector (Some writeInt64))])]"

definition TL_BusinessRecipients_table :: flag_table where
  "TL_BusinessRecipients_table =
     [(554733559, [Flags ''flags'' [(''existing_chats'', 0), (''new_chats'', 1), (''contacts'', 2),
         (''non_contacts'', 3), (''exclude_selected'', 5), (''users'', 4)],
        TrueBit ''flags'' 0 ''existing_chats'',
        TrueBit ''flags'' 1 ''new_chats'',
        TrueBit ''flags'' 2 ''contacts'',
        TrueBit ''flags'' 3 ''non_contacts'',
        TrueBit ''flags'' 5 ''exclude_selected'',
        Cond ''flags'' 4 (''users'', readVector (Some readInt64), writeVector (Some writeInt64),
         enc_vector enc_int64, ok_vector is_VLong)])]"

interpretation tl_BusinessRecipients: tl_codec readTLBusinessRecipients writeTLBusinessRecipients "enc_fobject TL_BusinessRecipients_table" "ok_fobject TL_BusinessRecipients_table"
  by (rule flag_schema_codec, unfold TL_BusinessRecipients_table_def, intro flag_tableI)
    (simp_all add: readTLBusinessRecipients_def writeTLBusinessRecipients_def flag_schema_simps)

definition readTLBusinessAwayMessageSchedule :: tl_reader where
  "readTLBusinessAwayMessageSchedule = read_object
     [(- 910564679, []),
      (- 1007487743, []),
      (- 867328308, [rd ''start_date'' readInt32, rd ''end_date'' readInt32])]"

definition writeTLBusinessAwayMessageSchedule :: tl_writer where
  "writeTLBusinessAwayMessageSchedule = write_fobject
     [(- 910564679, [wf ''_'' writeInt32]),
      (- 1007487743, [wf ''_'' writeInt32]),
      (- 867328308, [wf ''_'' writeInt32, wf ''start_date'' writeInt32,
         wf ''end_date'' writeInt32])]"

definition TL_BusinessAwayMessageSchedule_table :: flag_table where
  "TL_BusinessAwayMessageSchedule_table =
     [(- 910564679, []),
      (- 1007487743, []),
      (- 867328308, [Plain (''start_date'', readInt32, writeInt32, enc_int32, is_VInt),
        Plain (''end_date'', readInt32, writeInt32, enc_int32, is_VInt)])]"

interpretation tl_BusinessAwayMessageSchedule: tl_codec readTLBusinessAwayMessageSchedule writeTLBusinessAwayMessageSchedule "enc_fobject TL_BusinessAwayMessageSchedule_table" "ok_fobject TL_BusinessAwayMessageSchedule_table"
  by (rule flag_schema_codec, unfold TL_BusinessAwayMessageSchedule_table_def, intro flag_tableI)
    (simp_all add: readTLBusinessAwayMessageSchedule_def writeTLBusinessAwayMessageSchedule_def flag_schema_simps)

definition readTLInputBusinessGreetingMessage :: tl_reader where
  "readTLInputBusinessGreetingMessage = read_object
     [(26528571, [rd ''shortcut_id'' readInt32, rd ''recipients'' readTLInputBusinessRecipients,
         rd ''no_activity_days'' readInt32])]"

definition writeTLInputBusinessGreetingMessage :: tl_writer where
  "writeTLInputBusinessGreetingMessage = write_fobject
     [(26528571, [wf ''_'' writeInt32, wf ''shortcut_id'' writeInt32,
         wf ''recipients'' writeTLInputBusinessRecipients, wf ''no_activity_days'' writeInt32])]"

definition TL_InputBusinessGreetingMessage_table :: flag_table where
  "TL_InputBusinessGreetingMessage_table =
     [(26528571, [Plain (''shortcut_id'', readInt32, writeInt32, enc_int32, is_VInt),
        Plain (''recipients'', readTLInputBusinessRecipients, writeTLInputBusinessRecipients,
         enc_fobject TL_InputBusinessRecipients_table, ok_fobject TL_InputBusinessRecipients_table),
        Plain (''no_activity_days'', readInt32, writeInt32, enc_int32, is_VInt)])]"

interpretation tl_InputBusinessGreetingMessage: tl_codec readTLInputBusinessGreetingMessage writeTLInputBusinessGreetingMessage "enc_fobject TL_InputBusinessGreetingMessage_table" "ok_fobject TL_InputBusinessGreetingMessage_table"
  by (rule flag_schema_codec, unfold TL_InputBusinessGreetingMessage_table_def, intro flag_tableI)
    (simp_all add: readTLInputBusinessGreetingMessage_def writeTLInputBusinessGreetingMessage_def flag_schema_simps tl_InputBusinessRecipients.tl_codec_axioms)

definition readTLBusinessGreetingMessage :: tl_reader where
  "readTLBusinessGreetingMessage = read_object
     [(- 451302485, [rd ''shortcut_id'' readInt32, rd ''recipients'' readTLBusinessRecipients,
         rd ''no_activity_days'' readInt32])]"

definition writeTLBusinessGreetingMessage :: tl_writer where
  "writeTLBusinessGreetingMessage = write_fobject
     [(- 451302485, [wf ''_'' writeInt32, wf ''shortcut_id'' writeInt32,
         wf ''recipients'' writeTLBusinessRecipients, wf ''no_activity_days'' writeInt32])]"

definition TL_BusinessGreetingMessage_table :: flag_table where
  "TL_BusinessGreetingMessage_table =
     [(- 451302485, [Plain (''shortcut_id'', readInt32, writeInt32, enc_int32, is_VInt),
        Plain (''recipients'', readTLBusinessRecipients, writeTLBusinessRecipients,
         enc_fobject TL_BusinessRecipients_table, ok_fobject TL_BusinessRecipients_table),
        Plain (''no_activity_days'', readInt32, writeInt32, enc_int32, is_VInt)])]"

interpretation tl_BusinessGreetingMessage: tl_codec readTLBusinessGreetingMessage writeTLBusinessGreetingMessage "enc_fobject TL_BusinessGreetingMessage_table" "ok_fobject TL_BusinessGreetingMessage_table"
  by (rule flag_schema_codec, unfold TL_BusinessGreetingMessage_table_def, intro flag_tableI)
    (simp_all add: readTLBusinessGreetingMessage_def writeTLBusinessGreetingMessage_def flag_schema_simps tl_BusinessRecipients.tl_codec_axioms)

definition readTLInputBusinessAwayMessage :: tl_reader where
  "readTLInputBusinessAwayMessage = read_object
     [(- 2094959136, [rd ''flags'' readUInt32, set_if ''flags'' 0 ''offline_only'',
         rd ''shortcut_id'' readInt32, rd ''schedule'' readTLBusinessAwayMessageSchedule,
         rd ''recipients'' readTLInputBusinessRecipients])]"

definition writeTLInputBusinessAwayMessage :: tl_writer where
  "writeTLInputBusinessAwayMessage = write_fobject
     [(- 2094959136, [wf ''_'' writeInt32, wf_flags ''flags'' [(''offline_only'', 0)],
         wf ''shortcut_id'' writeInt32, wf ''schedule'' writeTLBusinessAwayMessageSchedule,
         wf ''recipients'' writeTLInputBusinessRecipients])]"

definition TL_InputBusinessAwayMessage_table :: flag_table where
  "TL_InputBusinessAwayMessage_table =
     [(- 2094959136, [Flags ''flags'' [(''offline_only'', 0)],
        TrueBit ''flags'' 0 ''offline_only'',
        Plain (''shortcut_id'', readInt32, writeInt32, enc_int32, is_VInt),
        Plain (''schedule'', readTLBusinessAwayMessageSchedule, writeTLBusinessAwayMessageSchedule,
         enc_fobject TL_BusinessAwayMessageSchedule_table,
         ok_fobject TL_BusinessAwayMessageSchedule_table),
        Plain (''recipients'', readTLInputBusinessRecipients, writeTLInputBusinessRecipients,
         enc_fobject TL_InputBusinessRecipients_table,
         ok_fobject TL_InputBusinessRecipients_table)])]"

interpretation tl_InputBusinessAwayMessage: tl_codec readTLInputBusinessAwayMessage writeTLInputBusinessAwayMessage "enc_fobject TL_InputBusinessAwayMessage_table" "ok_fobject TL_InputBusinessAwayMessage_table"
  by (rule flag_schema_codec, unfold TL_InputBusinessAwayMessage_table_def, intro flag_tableI)
    (simp_all add: readTLInputBusinessAwayMessage_def writeTLInputBusinessAwayMessage_def flag_schema_simps tl_BusinessAwayMessageSchedule.tl_codec_axioms tl_InputBusinessRecipients.tl_codec_axioms)

definition readTLBusinessAwayMessage :: tl_reader where
  "readTLBusinessAwayMessage = read_object
     [(- 283809188, [rd ''flags'' readUInt32, set_if ''flags'' 0 ''offline_only'',
         rd ''shortcut_id'' readInt32, rd ''schedule'' readTLBusinessAwayMessageSchedule,
         rd ''recipients'' readTLBusinessRecipients])]"

definition writeTLBusinessAwayMessage :: tl_writer where
  "writeTLBusinessAwayMessage = write_fobject
     [(- 283809188, [wf ''_'' writeInt32, wf_flags ''flags'' [(''offline_only'', 0)],
         wf ''shortcut_id'' writeInt32, wf ''schedule'' writeTLBusinessAwayMessageSchedule,
         wf ''recipients'' writeTLBusinessRecipients])]"

definition TL_BusinessAwayMessage_table :: flag_table where
  "TL_BusinessAwayMessage_table =
     [(- 283809188, [Flags ''flags'' [(''offline_only'', 0)],
        TrueBit ''flags'' 0 ''offline_only'',
        Plain (''shortcut_id'', readInt32, writeInt32, enc_int32, is_VInt),
        Plain (''schedule'', readTLBusinessAwayMessageSchedule, writeTLBusinessAwayMessageSchedule,
         enc_fobject TL_BusinessAwayMessageSchedule_table,
         ok_fobject TL_BusinessAwayMessageSchedule_table),
        Plain (''recipients'', readTLBusinessRecipients, writeTLBusinessRecipients,
         enc_fobject TL_BusinessRecipients_table, ok_fobject TL_BusinessRecipients_table)])]"

interpretation tl_BusinessAwayMessage: tl_codec readTLBusinessAwayMessage writeTLBusinessAwayMessage "enc_fobject TL_BusinessAwayMessage_table" "ok_fobject TL_BusinessAwayMessage_table"
  by (rule flag_schema_codec, unfold TL_BusinessAwayMessage_table_def, intro flag_tableI)
    (simp_all add: readTLBusinessAwayMessage_def writeTLBusinessAwayMessage_def flag_schema_simps tl_BusinessAwayMessageSchedule.tl_codec_axioms tl_BusinessRecipients.tl_codec_axioms)

definition readTLTimezone :: tl_reader where
  "readTLTimezone = read_object
     [(- 7173643, [rd ''id'' readString, rd ''name'' readString, rd ''utc_offset'' readInt32])]"

definition writeTLTimezone :: tl_writer where
  "writeTLTimezone = write_fobject
     [(- 7173643, [wf ''_'' writeInt32, wf ''id'' writeString, wf ''name'' writeString,
         wf ''utc_offset'' writeInt32])]"

definition TL_Timezone_table :: flag_table where
  "TL_Timezone_table =
     [(- 7173643, [Plain (''id'', readString, writeString, enc_string, is_short_text),
        Plain (''name'', readString, writeString, enc_string, is_short_text),
        Plain (''utc_offset'', readInt32, writeInt32, enc_int32, is_VInt)])]"

interpretation tl_Timezone: tl_codec readTLTimezone writeTLTimezone "enc_fobject TL_Timezone_table" "ok_fobject TL_Timezone_table"
  by (rule flag_schema_codec, unfold TL_Timezone_table_def, intro flag_tableI)
    (simp_all add: readTLTimezone_def writeTLTimezone_def flag_schema_simps)

definition readTLHelpTimezonesList :: tl_reader where
  "readTLHelpTimezonesList = read_object
     [(- 1761146676, []),
      (2071260529, [rd ''timezones'' (readVector (Some readTLTimezone)), rd ''hash'' readInt32])]"

definition writeTLHelpTimezonesList :: tl_writer where
  "writeTLHelpTimezonesList = write_fobject
     [(- 1761146676, [wf ''_'' writeInt32]),
      (2071260529, [wf ''_'' writeInt32, wf ''timezones'' (writeVector (Some writeTLTimezone)),
         wf ''hash'' writeInt32])]"

definition TL_HelpTimezonesList_table :: flag_table where
  "TL_HelpTimezonesList_table =
     [(- 1761146676, []),
      (2071260529, [Plain (''timezones'', readVector (Some readTLTimezone),
         writeVector (Some writeTLTimezone), enc_vector (enc_fobject TL_Timezone_table),
         ok_vector (ok_fobject TL_Timezone_table)),
        Plain (''hash'', readInt32, writeInt32, enc_int32, is_VInt)])]"

interpretation tl_HelpTimezonesList: tl_codec readTLHelpTimezonesList writeTLHelpTimezonesList "enc_fobject TL_HelpTimezonesList_table" "ok_fobject TL_HelpTimezonesList_table"
  by (rule flag_schema_codec, unfold TL_HelpTimezonesList_table_def, intro flag_tableI)
    (simp_all add: readTLHelpTimezonesList_def writeTLHelpTimezonesList_def flag_schema_simps tl_Timezone.tl_codec_axioms tl_Timezone.vector_codec)

definition readTLQuickReply :: tl_reader where
  "readTLQuickReply = read_object
     [(110563371, [rd ''shortcut_id'' readInt32, rd ''shortcut'' readString,
         rd ''top_message'' readInt32, rd ''count'' readInt32])]"

definition writeTLQuickReply :: tl_writer where
  "writeTLQuickReply = write_fobject
     [(110563371, [wf ''_'' writeInt32, wf ''shortcut_id'' writeInt32, wf ''shortcut'' writeString,
         wf ''top_message'' writeInt32, wf ''count'' writeInt32])]"

definition TL_QuickReply_table :: flag_table where
  "TL_QuickReply_table =
     [(110563371, [Plain (''shortcut_id'', readInt32, writeInt32, enc_int32, is_VInt),
        Plain (''shortcut'', readString, writeString, enc_string, is_short_text),
        Plain (''top_message'', readInt32, writeInt32, enc_int32, is_VInt),
        Plain (''count'', readInt32, writeInt32, enc_int32, is_VInt)])]"

interpretation tl_QuickReply: tl_codec readTLQuickReply writeTLQuickReply "enc_fobject TL_QuickReply_table" "ok_fobject TL_QuickReply_table"
  by (rule flag_schema_codec, unfold TL_QuickReply_table_def, intro flag_tableI)
    (simp_all add: readTLQuickReply_def writeTLQuickReply_def flag_schema_simps)

definition readTLInputQuickReplyShortcut :: tl_reader where
  "readTLInputQuickReplyShortcut = read_object
     [(609840449, [rd ''shortcut'' readString]),
      (18418929, [rd ''shortcut_id'' readInt32])]"

definition writeTLInputQuickReplyShortcut :: tl_writer where
  "writeTLInputQuickReplyShortcut = write_fobject
     [(609840449, [wf ''_'' writeInt32, wf ''shortcut'' writeString]),
      (18418929, [wf ''_'' writeInt32, wf ''shortcut_id'' writeInt32])]"

definition TL_InputQuickReplyShortcut_table :: flag_table where
  "TL_InputQuickReplyShortcut_table =
     [(609840449, [Plain (''shortcut'', readString, writeString, enc_string, is_short_text)]),
      (18418929, [Plain (''shortcut_id'', readInt32, writeInt32, enc_int32, is_VInt)])]"

interpretation tl_InputQuickReplyShortcut: tl_codec readTLInputQuickReplyShortcut writeTLInputQuickReplyShortcut "enc_fobject TL_InputQuickReplyShortcut_table" "ok_fobject TL_InputQuickReplyShortcut_table"
  by (rule flag_schema_codec, unfold TL_InputQuickReplyShortcut_table_def, intro flag_tableI)
    (simp_all add: readTLInputQuickReplyShortcut_def writeTLInputQuickReplyShortcut_def flag_schema_simps)

definition readTLBusinessBotRecipients :: tl_reader where
  "readTLBusinessBotRecipients = read_object
     [(- 1198722189, [rd ''flags'' readUInt32, set_if ''flags'' 0 ''existing_chats'',
         set_if ''flags'' 1 ''new_chats'', set_if ''flags'' 2 ''contacts'',
         set_if ''flags'' 3 ''non_contacts'', set_if ''flags'' 5 ''exclude_selected'',
         rd_if ''flags'' 4 ''users'' (readVector (Some readInt64)),
         rd_if ''flags'' 6 ''exclude_users'' (readVector (Some readInt64))])]"

definition writeTLBusinessBotRecipients :: tl_writer where
  "writeTLBusinessBotRecipients = write_fobject
     [(- 1198722189, [wf ''_'' writeInt32, wf_flags ''flags'' [(''existing_chats'', 0),
         (''new_chats'', 1), (''contacts'', 2), (''non_contacts'', 3), (''exclude_selected'', 5),
         (''users'', 4), (''exclude_users'', 6)],
         wf_if ''flags'' 4 ''users'' (writeVector (Some writeInt64)),
         wf_if ''flags'' 6 ''exclude_users'' (writeVector (Some writeInt64))])]"

definition TL_BusinessBotRecipients_table :: flag_table where
  "TL_BusinessBotRecipients_table =
     [(- 1198722189, [Flags ''flags'' [(''existing_chats'', 0), (''new_chats'', 1), (''contacts'',
         2), (''non_contacts'', 3), (''exclude_selected'', 5), (''users'', 4), (''exclude_users'',
         6)],
        TrueBit ''flags'' 0 ''existing_chats'',
        TrueBit ''flags'' 1 ''new_chats'',
        TrueBit ''flags'' 2 ''contacts'',
        TrueBit ''flags'' 3 ''non_contacts'',
        TrueBit ''flags'' 5 ''exclude_selected'',
        Cond ''flags'' 4 (''users'', readVector (Some readInt64), writeVector (Some writeInt64),
         enc_vector enc_int64, ok_vector is_VLong),
        Cond ''flags'' 6 (''exclude_users'', readVector (Some readInt64),
         writeVector (Some writeInt64), enc_vector enc_int64, ok_vector is_VLong)])]"

interpretation tl_BusinessBotRecipients: tl_codec readTLBusinessBotRecipients writeTLBusinessBotRecipients "enc_fobject TL_BusinessBotRecipients_table" "ok_fobject TL_BusinessBotRecipients_table"
  by (rule flag_schema_codec, unfold TL_BusinessBotRecipients_table_def, intro flag_tableI)
    (simp_all add: readTLBusinessBotRecipients_def writeTLBusinessBotRecipients_def flag_schema_simps)

definition readTLBusinessBotRights :: tl_reader where
  "readTLBusinessBotRights = read_object
     [(- 1604170505, [rd ''flags'' readUInt32, set_if ''flags'' 0 ''reply'',
         set_if ''flags'' 1 ''read_messages'', set_if ''flags'' 2 ''delete_sent_messages'',
         set_if ''flags'' 3 ''delete_received_messages'', set_if ''flags'' 4 ''edit_name'',
         set_if ''flags'' 5 ''edit_bio'', set_if ''flags'' 6 ''edit_profile_photo'',
         set_if ''flags'' 7 ''edit_username'', set_if ''flags'' 8 ''view_gifts'',
         set_if ''flags'' 9 ''sell_gifts'', set_if ''flags'' 10 ''change_gift_settings'',
         set_if ''flags'' 11 ''transfer_and_upgrade_gifts'',
         set_if ''flags'' 12 ''transfer_stars'', set_if ''flags'' 13 ''manage_stories''])]"

definition writeTLBusinessBotRights :: tl_writer where
  "writeTLBusinessBotRights = write_fobject
     [(- 1604170505, [wf ''_'' writeInt32, wf_flags ''flags'' [(''reply'', 0), (''read_messages'',
         1), (''delete_sent_messages'', 2), (''delete_received_messages'', 3), (''edit_name'', 4),
         (''edit_bio'', 5), (''edit_profile_photo'', 6), (''edit_username'', 7), (''view_gifts'',
         8), (''sell_gifts'', 9), (''change_gift_settings'', 10), (''transfer_and_upgrade_gifts'',
         11), (''transfer_stars'', 12), (''manage_stories'', 13)]])]"

definition TL_BusinessBotRights_table :: flag_table where
  "TL_BusinessBotRights_table =
     [(- 1604170505, [Flags ''flags'' [(''reply'', 0), (''read_messages'', 1),
         (''delete_sent_messages'', 2), (''delete_received_messages'', 3), (''edit_name'', 4),
         (''edit_bio'', 5), (''edit_profile_photo'', 6), (''edit_username'', 7), (''view_gifts'',
         8), (''sell_gifts'', 9), (''change_gift_settings'', 10), (''transfer_and_upgrade_gifts'',
         11), (''transfer_stars'', 12), (''manage_stories'', 13)],
        TrueBit ''flags'' 0 ''reply'',
        TrueBit ''flags'' 1 ''read_messages'',
        TrueBit ''flags'' 2 ''delete_sent_messages'',
        TrueBit ''flags'' 3 ''delete_received_messages'',
        TrueBit ''flags'' 4 ''edit_name'',
        TrueBit ''flags'' 5 ''edit_bio'',
        TrueBit ''flags'' 6 ''edit_profile_photo'',
        TrueBit ''flags'' 7 ''edit_username'',
        TrueBit ''flags'' 8 ''view_gifts'',
        TrueBit ''flags'' 9 ''sell_gifts'',
        TrueBit ''flags'' 10 ''change_gift_settings'',
        TrueBit ''flags'' 11 ''transfer_and_upgrade_gifts'',
        TrueBit ''flags'' 12 ''transfer_stars'',
        TrueBit ''flags'' 13 ''manage_stories''])]"

interpretation tl_BusinessBotRights: tl_codec readTLBusinessBotRights writeTLBusinessBotRights "enc_fobject TL_BusinessBotRights_table" "ok_fobject TL_BusinessBotRights_table"
  by (rule flag_schema_codec, unfold TL_BusinessBotRights_table_def, intro flag_tableI)
    (simp_all add: readTLBusinessBotRights_def writeTLBusinessBotRights_def flag_schema_simps)

definition readTLConnectedBot :: tl_reader where
  "readTLConnectedBot = read_object
     [(54448129, [rd ''flags'' readUInt32, rd ''bot_id'' readInt64,
         rd ''recipients'' readTLBusinessBotRecipients, rd ''rights'' readTLBusinessBotRights,
         rd_if ''flags'' 0 ''device'' readString, rd_if ''flags'' 1 ''date'' readInt32,
         rd_if ''flags'' 2 ''location'' readString])]"

definition writeTLConnectedBot :: tl_writer where
  "writeTLConnectedBot = write_fobject
     [(54448129, [wf ''_'' writeInt32, wf_flags ''flags'' [(''device'', 0), (''date'', 1),
         (''location'', 2)], wf ''bot_id'' writeInt64,
         wf ''recipients'' writeTLBusinessBotRecipients, wf ''rights'' writeTLBusinessBotRights,
         wf_if ''flags'' 0 ''device'' writeString, wf_if ''flags'' 1 ''date'' writeInt32,
         wf_if ''flags'' 2 ''location'' writeString])]"

definition TL_ConnectedBot_table :: flag_table where
  "TL_ConnectedBot_table =
     [(54448129, [Flags ''flags'' [(''device'', 0), (''date'', 1), (''location'', 2)],
        Plain (''bot_id'', readInt64, writeInt64, enc_int64, is_VLong),
        Plain (''recipients'', readTLBusinessBotRecipients, writeTLBusinessBotRecipients,
         enc_fobject TL_BusinessBotRecipients_table, ok_fobject TL_BusinessBotRecipients_table),
        Plain (''rights'', readTLBusinessBotRights, writeTLBusinessBotRights,
         enc_fobject TL_BusinessBotRights_table, ok_fobject TL_BusinessBotRights_table),
        Cond ''flags'' 0 (''device'', readString, writeString, enc_string, is_short_text),
        Cond ''flags'' 1 (''date'', readInt32, writeInt32, enc_int32, is_VInt),
        Cond ''flags'' 2 (''location'', readString, writeString, enc_string, is_short_text)])]"

interpretation tl_ConnectedBot: tl_codec readTLConnectedBot writeTLConnectedBot "enc_fobject TL_ConnectedBot_table" "ok_fobject TL_ConnectedBot_table"
  by (rule flag_schema_codec, unfold TL_ConnectedBot_table_def, intro flag_tableI)
    (simp_all add: readTLConnectedBot_def writeTLConnectedBot_def flag_schema_simps tl_BusinessBotRecipients.tl_codec_axioms tl_BusinessBotRights.tl_codec_axioms)

definition readTLAccountConnectedBots :: tl_reader where
  "readTLAccountConnectedBots = read_object
     [(400029819, [rd ''connected_bots'' (readVector (Some readTLConnectedBot)),
         rd ''users'' (readVector (Some readTLUser))])]"

definition writeTLAccountConnectedBots :: tl_writer where
  "writeTLAccountConnectedBots = write_fobject
     [(400029819, [wf ''_'' writeInt32,
         wf ''connected_bots'' (writeVector (Some writeTLConnectedBot)),
         wf ''users'' (writeVector (Some writeTLUser))])]"

definition TL_AccountConnectedBots_table :: flag_table where
  "TL_AccountConnectedBots_table =
     [(400029819, [Plain (''connected_bots'', readVector (Some readTLConnectedBot),
         writeVector (Some writeTLConnectedBot), enc_vector (enc_fobject TL_ConnectedBot_table),
         ok_vector (ok_fobject TL_ConnectedBot_table)),
        Plain (''users'', readVector (Some readTLUser), writeVector (Some writeTLUser),
         enc_vector (enc_fobject TL_User_table), ok_vector (ok_fobject TL_User_table))])]"

interpretation tl_AccountConnectedBots: tl_codec readTLAccountConnectedBots writeTLAccountConnectedBots "enc_fobject TL_AccountConnectedBots_table" "ok_fobject TL_AccountConnectedBots_table"
  by (rule flag_schema_codec, unfold TL_AccountConnectedBots_table_def, intro flag_tableI)
    (simp_all add: readTLAccountConnectedBots_def writeTLAccountConnectedBots_def flag_schema_simps tl_ConnectedBot.tl_codec_axioms tl_ConnectedBot.vector_codec tl_User.tl_codec_axioms tl_User.vector_codec)

definition readTLMessagesDialogFilters :: tl_reader where
  "readTLMessagesDialogFilters = read_object
     [(718878489, [rd ''flags'' readUInt32, set_if ''flags'' 0 ''tags_enabled'',
         rd ''filters'' (readVector (Some readTLDialogFilter))])]"

definition writeTLMessagesDialogFilters :: tl_writer where
  "writeTLMessagesDialogFilters = write_fobject
     [(718878489, [wf ''_'' writeInt32, wf_flags ''flags'' [(''tags_enabled'', 0)],
         wf ''filters'' (writeVector (Some writeTLDialogFilter))])]"

definition TL_MessagesDialogFilters_table :: flag_table where
  "TL_MessagesDialogFilters_table =
     [(718878489, [Flags ''flags'' [(''tags_enabled'', 0)],
        TrueBit ''flags'' 0 ''tags_enabled'',
        Plain (''filters'', readVector (Some readTLDialogFilter),
         writeVector (Some writeTLDialogFilter), enc_vector (enc_fobject TL_DialogFilter_table),
         ok_vector (ok_fobject TL_DialogFilter_table))])]"

interpretation tl_MessagesDialogFilters: tl_codec readTLMessagesDialogFilters writeTLMessagesDialogFilters "enc_fobject TL_MessagesDialogFilters_table" "ok_fobject TL_MessagesDialogFilters_table"
  by (rule flag_schema_codec, unfold TL_MessagesDialogFilters_table_def, intro flag_tableI)
    (simp_all add: readTLMessagesDialogFilters_def writeTLMessagesDialogFilters_def flag_schema_simps tl_DialogFilter.tl_codec_axioms tl_DialogFilter.vector_codec)

definition readTLBirthday :: tl_reader where
  "readTLBirthday = read_object
     [(1821253126, [rd ''flags'' readUInt32, rd ''day'' readInt32, rd ''month'' readInt32,
         rd_if ''flags'' 0 ''year'' readInt32])]"

definition writeTLBirthday :: tl_writer where
  "writeTLBirthday = write_fobject
     [(1821253126, [wf ''_'' writeInt32, wf_flags ''flags'' [(''year'', 0)], wf ''day'' writeInt32,
         wf ''month'' writeInt32, wf_if ''flags'' 0 ''year'' writeInt32])]"

definition TL_Birthday_table :: flag_table where
  "TL_Birthday_table =
     [(1821253126, [Flags ''flags'' [(''year'', 0)],
        Plain (''day'', readInt32, writeInt32, enc_int32, is_VInt),
        Plain (''month'', readInt32, writeInt32, enc_int32, is_VInt),
        Cond ''flags'' 0 (''year'', readInt32, writeInt32, enc_int32, is_VInt)])]"

interpretation tl_Birthday: tl_codec readTLBirthday writeTLBirthday "enc_fobject TL_Birthday_table" "ok_fobject TL_Birthday_table"
  by (rule flag_schema_codec, unfold TL_Birthday_table_def, intro flag_tableI)
    (simp_all add: readTLBirthday_def writeTLBirthday_def flag_schema_simps)

definition readTLBotBusinessConnection :: tl_reader where
  "readTLBotBusinessConnection = read_object
     [(- 1892371723, [rd ''flags'' readUInt32, set_if ''flags'' 1 ''disabled'',
         rd ''connection_id'' readString, rd ''user_id'' readInt64, rd ''dc_id'' readInt32,
         rd ''date'' readInt32, rd_if ''flags'' 2 ''rights'' readTLBusinessBotRights])]"

definition writeTLBotBusinessConnection :: tl_writer where
  "writeTLBotBusinessConnection = write_fobject
     [(- 1892371723, [wf ''_'' writeInt32, wf_flags ''flags'' [(''disabled'', 1), (''rights'', 2)],
         wf ''connection_id'' writeString, wf ''user_id'' writeInt64, wf ''dc_id'' writeInt32,
         wf ''date'' writeInt32, wf_if ''flags'' 2 ''rights'' writeTLBusinessBotRights])]"

definition TL_BotBusinessConnection_table :: flag_table where
  "TL_BotBusinessConnection_table =
     [(- 1892371723, [Flags ''flags'' [(''disabled'', 1), (''rights'', 2)],
        TrueBit ''flags'' 1 ''disabled'',
        Plain (''connection_id'', readString, writeString, enc_string, is_short_text),
        Plain (''user_id'', readInt64, writeInt64, enc_int64, is_VLong),
        Plain (''dc_id'', readInt32, writeInt32, enc_int32, is_VInt),
        Plain (''date'', readInt32, writeInt32, enc_int32, is_VInt),
        Cond ''flags'' 2 (''rights'', readTLBusinessBotRights, writeTLBusinessBotRights,
         enc_fobject TL_BusinessBotRights_table, ok_fobject TL_BusinessBotRights_table)])]"

interpretation tl_BotBusinessConnection: tl_codec readTLBotBusinessConnection writeTLBotBusinessConnection "enc_fobject TL_BotBusinessConnection_table" "ok_fobject TL_BotBusinessConnection_table"
  by (rule flag_schema_codec, unfold TL_BotBusinessConnection_table_def, intro flag_tableI)
    (simp_all add: readTLBotBusinessConnection_def writeTLBotBusinessConnection_def flag_schema_simps tl_BusinessBotRights.tl_codec_axioms)

definition readTLInputBusinessIntro :: tl_reader where
  "readTLInputBusinessIntro = read_object
     [(163867085, [rd ''flags'' readUInt32, rd ''title'' readString, rd ''description'' readString,
         rd_if ''flags'' 0 ''sticker'' readTLInputDocument])]"

definition writeTLInputBusinessIntro :: tl_writer where
  "writeTLInputBusinessIntro = write_fobject
     [(163867085, [wf ''_'' writeInt32, wf_flags ''flags'' [(''sticker'', 0)],
         wf ''title'' writeString, wf ''description'' writeString,
         wf_if ''flags'' 0 ''sticker'' writeTLInputDocument])]"

definition TL_InputBusinessIntro_table :: flag_table where
  "TL_InputBusinessIntro_table =
     [(163867085, [Flags ''flags'' [(''sticker'', 0)],
        Plain (''title'', readString, writeString, enc_string, is_short_text),
        Plain (''description'', readString, writeString, enc_string, is_short_text),
        Cond ''flags'' 0 (''sticker'', readTLInputDocument, writeTLInputDocument,
         enc_fobject TL_InputDocument_table, ok_fobject TL_InputDocument_table)])]"

interpretation tl_InputBusinessIntro: tl_codec readTLInputBusinessIntro writeTLInputBusinessIntro "enc_fobject TL_InputBusinessIntro_table" "ok_fobject TL_InputBusinessIntro_table"
  by (rule flag_schema_codec, unfold TL_InputBusinessIntro_table_def, intro flag_tableI)
    (simp_all add: readTLInputBusinessIntro_def writeTLInputBusinessIntro_def flag_schema_simps tl_InputDocument.tl_codec_axioms)

definition readTLInputCollectible :: tl_reader where
  "readTLInputCollectible = read_object
     [(- 476815191, [rd ''username'' readString]),
      (- 1562241884, [rd ''phone'' readString])]"

definition writeTLInputCollectible :: tl_writer where
  "writeTLInputCollectible = write_fobject
     [(- 476815191, [wf ''_'' writeInt32, wf ''username'' writeString]),
      (- 1562241884, [wf ''_'' writeInt32, wf ''phone'' writeString])]"

definition TL_InputCollectible_table :: flag_table where
  "TL_InputCollectible_table =
     [(- 476815191, [Plain (''username'', readString, writeString, enc_string, is_short_text)]),
      (- 1562241884, [Plain (''phone'', readString, writeString, enc_string, is_short_text)])]"

interpretation tl_InputCollectible: tl_codec readTLInputCollectible writeTLInputCollectible "enc_fobject TL_InputCollectible_table" "ok_fobject TL_InputCollectible_table"
  by (rule flag_schema_codec, unfold TL_InputCollectible_table_def, intro flag_tableI)
    (simp_all add: readTLInputCollectible_def writeTLInputCollectible_def flag_schema_simps)

definition readTLFragmentCollectibleInfo :: tl_reader where
  "readTLFragmentCollectibleInfo = read_object
     [(1857945489, [rd ''purchase_date'' readInt32, rd ''currency'' readString,
         rd ''amount'' readInt64, rd ''crypto_currency'' readString,
         rd ''crypto_amount'' readInt64, rd ''url'' readString])]"

definition writeTLFragmentCollectibleInfo :: tl_writer where
  "writeTLFragmentCollectibleInfo = write_fobject
     [(1857945489, [wf ''_'' writeInt32, wf ''purchase_date'' writeInt32,
         wf ''currency'' writeString, wf ''amount'' writeInt64, wf ''crypto_currency'' writeString,
         wf ''crypto_amount'' writeInt64, wf ''url'' writeString])]"

definition TL_FragmentCollectibleInfo_table :: flag_table where
  "TL_FragmentCollectibleInfo_table =
     [(1857945489, [Plain (''purchase_date'', readInt32, writeInt32, enc_int32, is_VInt),
        Plain (''currency'', readString, writeString, enc_string, is_short_text),
        Plain (''amount'', readInt64, writeInt64, enc_int64, is_VLong),
        Plain (''crypto_currency'', readString, writeString, enc_string, is_short_text),
        Plain (''crypto_amount'', readInt64, writeInt64, enc_int64, is_VLong),
        Plain (''url'', readString, writeString, enc_string, is_short_text)])]"

interpretation tl_FragmentCollectibleInfo: tl_codec readTLFragmentCollectibleInfo writeTLFragmentCollectibleInfo "enc_fobject TL_FragmentCollectibleInfo_table" "ok_fobject TL_FragmentCollectibleInfo_table"
  by (rule flag_schema_codec, unfold TL_FragmentCollectibleInfo_table_def, intro flag_tableI)
    (simp_all add: readTLFragmentCollectibleInfo_def writeTLFragmentCollectibleInfo_def flag_schema_simps)

definition readTLInputBusinessBotRecipients :: tl_reader where
  "readTLInputBusinessBotRecipients = read_object
     [(- 991587810, [rd ''flags'' readUInt32, set_if ''flags'' 0 ''existing_chats'',
         set_if ''flags'' 1 ''new_chats'', set_if ''flags'' 2 ''contacts'',
         set_if ''flags'' 3 ''non_contacts'', set_if ''flags'' 5 ''exclude_selected'',
         rd_if ''flags'' 4 ''users'' (readVector (Some readTLInputUser)),
         rd_if ''flags'' 6 ''exclude_users'' (readVector (Some readTLInputUser))])]"

definition writeTLInputBusinessBotRecipients :: tl_writer where
  "writeTLInputBusinessBotRecipients = write_fobject
     [(- 991587810, [wf ''_'' writeInt32, wf_flags ''flags'' [(''existing_chats'', 0),
         (''new_chats'', 1), (''contacts'', 2), (''non_contacts'', 3), (''exclude_selected'', 5),
         (''users'', 4), (''exclude_users'', 6)],
         wf_if ''flags'' 4 ''users'' (writeVector (Some writeTLInputUser)),
         wf_if ''flags'' 6 ''exclude_users'' (writeVector (Some writeTLInputUser))])]"

definition TL_InputBusinessBotRecipients_table :: flag_table where
  "TL_InputBusinessBotRecipients_table =
     [(- 991587810, [Flags ''flags'' [(''existing_chats'', 0), (''new_chats'', 1), (''contacts'',
         2), (''non_contacts'', 3), (''exclude_selected'', 5), (''users'', 4), (''exclude_users'',
         6)],
        TrueBit ''flags'' 0 ''existing_chats'',
        TrueBit ''flags'' 1 ''new_chats'',
        TrueBit ''flags'' 2 ''contacts'',
        TrueBit ''flags'' 3 ''non_contacts'',
        TrueBit ''flags'' 5 ''exclude_selected'',
        Cond ''flags'' 4 (''users'', readVector (Some readTLInputUser),
         writeVector (Some writeTLInputUser), enc_vector (enc_fobject TL_InputUser_table),
         ok_vector (ok_fobject TL_InputUser_table)),
        Cond ''flags'' 6 (''exclude_users'', readVector (Some readTLInputUser),
         writeVector (Some writeTLInputUser), enc_vector (enc_fobject TL_InputUser_table),
         ok_vector (ok_fobject TL_InputUser_table))])]"

interpretation tl_InputBusinessBotRecipients: tl_codec readTLInputBusinessBotRecipients writeTLInputBusinessBotRecipients "enc_fobject TL_InputBusinessBotRecipients_table" "ok_fobject TL_InputBusinessBotRecipients_table"
  by (rule flag_schema_codec, unfold TL_InputBusinessBotRecipients_table_def, intro flag_tableI)
    (simp_all add: readTLInputBusinessBotRecipients_def writeTLInputBusinessBotRecipients_def flag_schema_simps tl_InputUser.tl_codec_axioms tl_InputUser.vector_codec)

definition readTLContactBirthday :: tl_reader where
  "readTLContactBirthday = read_object
     [(496600883, [rd ''contact_id'' readInt64, rd ''birthday'' readTLBirthday])]"

definition writeTLContactBirthday :: tl_writer where
  "writeTLContactBirthday = write_fobject
     [(496600883, [wf ''_'' writeInt32, wf ''contact_id'' writeInt64,
         wf ''birthday'' writeTLBirthday])]"

definition TL_ContactBirthday_table :: flag_table where
  "TL_ContactBirthday_table =
     [(496600883, [Plain (''contact_id'', readInt64, writeInt64, enc_int64, is_VLong),
        Plain (''birthday'', readTLBirthday, writeTLBirthday, enc_fobject TL_Birthday_table,
         ok_fobject TL_Birthday_table)])]"

interpretation tl_ContactBirthday: tl_codec readTLContactBirthday writeTLContactBirthday "enc_fobject TL_ContactBirthday_table" "ok_fobject TL_ContactBirthday_table"
  by (rule flag_schema_codec, unfold TL_ContactBirthday_table_def, intro flag_tableI)
    (simp_all add: readTLContactBirthday_def writeTLContactBirthday_def flag_schema_simps tl_Birthday.tl_codec_axioms)

definition readTLContactsContactBirthdays :: tl_reader where
  "readTLContactsContactBirthdays = read_object
     [(290452237, [rd ''contacts'' (readVector (Some readTLContactBirthday)),
         rd ''users'' (readVector (Some readTLUser))])]"

definition writeTLContactsContactBirthdays :: tl_writer where
  "writeTLContactsContactBirthdays = write_fobject
     [(290452237, [wf ''_'' writeInt32,
         wf ''contacts'' (writeVector (Some writeTLContactBirthday)),
         wf ''users'' (writeVector (Some writeTLUser))])]"

definition TL_ContactsContactBirthdays_table :: flag_table where
  "TL_ContactsContactBirthdays_table =
     [(290452237, [Plain (''contacts'', readVector (Some readTLContactBirthday),
         writeVector (Some writeTLContactBirthday),
         enc_vector (enc_fobject TL_ContactBirthday_table),
         ok_vector (ok_fobject TL_ContactBirthday_table)),
        Plain (''users'', readVector (Some readTLUser), writeVector (Some writeTLUser),
         enc_vector (enc_fobject TL_User_table), ok_vector (ok_fobject TL_User_table))])]"

interpretation tl_ContactsContactBirthdays: tl_codec readTLContactsContactBirthdays writeTLContactsContactBirthdays "enc_fobject TL_ContactsContactBirthdays_table" "ok_fobject TL_ContactsContactBirthdays_table"
  by (rule flag_schema_codec, unfold TL_ContactsContactBirthdays_table_def, intro flag_tableI)
    (simp_all add: readTLContactsContactBirthdays_def writeTLContactsContactBirthdays_def flag_schema_simps tl_ContactBirthday.tl_codec_axioms tl_ContactBirthday.vector_codec tl_User.tl_codec_axioms tl_User.vector_codec)

definition readTLMissingInvitee :: tl_reader where
  "readTLMissingInvitee = read_object
     [(1653379620, [rd ''flags'' readUInt32, set_if ''flags'' 0 ''premium_would_allow_invite'',
         set_if ''flags'' 1 ''premium_required_for_pm'', rd ''user_id'' readInt64])]"

definition writeTLMissingInvitee :: tl_writer where
  "writeTLMissingInvitee = write_fobject
     [(1653379620, [wf ''_'' writeInt32, wf_flags ''flags'' [(''premium_would_allow_invite'', 0),
         (''premium_required_for_pm'', 1)], wf ''user_id'' writeInt64])]"

definition TL_MissingInvitee_table :: flag_table where
  "TL_MissingInvitee_table =
     [(1653379620, [Flags ''flags'' [(''premium_would_allow_invite'', 0),
         (''premium_required_for_pm'', 1)],
        TrueBit ''flags'' 0 ''premium_would_allow_invite'',
        TrueBit ''flags'' 1 ''premium_required_for_pm'',
        Plain (''user_id'', readInt64, writeInt64, enc_int64, is_VLong)])]"

interpretation tl_MissingInvitee: tl_codec readTLMissingInvitee writeTLMissingInvitee "enc_fobject TL_MissingInvitee_table" "ok_fobject TL_MissingInvitee_table"
  by (rule flag_schema_codec, unfold TL_MissingInvitee_table_def, intro flag_tableI)
    (simp_all add: readTLMissingInvitee_def writeTLMissingInvitee_def flag_schema_simps)

definition readTLInputBusinessChatLink :: tl_reader where
  "readTLInputBusinessChatLink = read_object
     [(292003751, [rd ''flags'' readUInt32, rd ''message'' readString,
         rd_if ''flags'' 0 ''entities'' (readVector (Some readTLMessageEntity)),
         rd_if ''flags'' 1 ''title'' readString])]"

definition writeTLInputBusinessChatLink :: tl_writer where
  "writeTLInputBusinessChatLink = write_fobject
     [(292003751, [wf ''_'' writeInt32, wf_flags ''flags'' [(''entities'', 0), (''title'', 1)],
         wf ''message'' writeString,
         wf_if ''flags'' 0 ''entities'' (writeVector (Some writeTLMessageEntity)),
         wf_if ''flags'' 1 ''title'' writeString])]"

definition TL_InputBusinessChatLink_table :: flag_table where
  "TL_InputBusinessChatLink_table =
     [(292003751, [Flags ''flags'' [(''entities'', 0), (''title'', 1)],
        Plain (''message'', readString, writeString, enc_string, is_short_text),
        Cond ''flags'' 0 (''entities'', readVector (Some readTLMessageEntity),
         writeVector (Some writeTLMessageEntity), enc_vector (enc_fobject TL_MessageEntity_table),
         ok_vector (ok_fobject TL_MessageEntity_table)),
        Cond ''flags'' 1 (''title'', readString, writeString, enc_string, is_short_text)])]"

interpretation tl_InputBusinessChatLink: tl_codec readTLInputBusinessChatLink writeTLInputBusinessChatLink "enc_fobject TL_InputBusinessChatLink_table" "ok_fobject TL_InputBusinessChatLink_table"
  by (rule flag_schema_codec, unfold TL_InputBusinessChatLink_table_def, intro flag_tableI)
    (simp_all add: readTLInputBusinessChatLink_def writeTLInputBusinessChatLink_def flag_schema_simps tl_MessageEntity.tl_codec_axioms tl_MessageEntity.vector_codec)

definition readTLBusinessChatLink :: tl_reader where
  "readTLBusinessChatLink = read_object
     [(- 1263638929, [rd ''flags'' readUInt32, rd ''link'' readString, rd ''message'' readString,
         rd_if ''flags'' 0 ''entities'' (readVector (Some readTLMessageEntity)),
         rd_if ''flags'' 1 ''title'' readString, rd ''views'' readInt32])]"

definition writeTLBusinessChatLink :: tl_writer where
  "writeTLBusinessChatLink = write_fobject
     [(- 1263638929, [wf ''_'' writeInt32, wf_flags ''flags'' [(''entities'', 0), (''title'', 1)],
         wf ''link'' writeString, wf ''message'' writeString,
         wf_if ''flags'' 0 ''entities'' (writeVector (Some writeTLMessageEntity)),
         wf_if ''flags'' 1 ''title'' writeString, wf ''views'' writeInt32])]"

definition TL_BusinessChatLink_table :: flag_table where
  "TL_BusinessChatLink_table =
     [(- 1263638929, [Flags ''flags'' [(''entities'', 0), (''title'', 1)],
        Plain (''link'', readString, writeString, enc_string, is_short_text),
        Plain (''message'', readString, writeString, enc_string, is_short_text),
        Cond ''flags'' 0 (''entities'', readVector (Some readTLMessageEntity),
         writeVector (Some writeTLMessageEntity), enc_vector (enc_fobject TL_MessageEntity_table),
         ok_vector (ok_fobject TL_MessageEntity_table)),
        Cond ''flags'' 1 (''title'', readString, writeString, enc_string, is_short_text),
        Plain (''views'', readInt32, writeInt32, enc_int32, is_VInt)])]"

interpretation tl_BusinessChatLink: tl_codec readTLBusinessChatLink writeTLBusinessChatLink "enc_fobject TL_BusinessChatLink_table" "ok_fobject TL_BusinessChatLink_table"
  by (rule flag_schema_codec, unfold TL_BusinessChatLink_table_def, intro flag_tableI)
    (simp_all add: readTLBusinessChatLink_def writeTLBusinessChatLink_def flag_schema_simps tl_MessageEntity.tl_codec_axioms tl_MessageEntity.vector_codec)

definition readTLAccountBusinessChatLinks :: tl_reader where
  "readTLAccountBusinessChatLinks = read_object
     [(- 331111727, [rd ''links'' (readVector (Some readTLBusinessChatLink)),
         rd ''chats'' (readVector (Some readTLChat)),
         rd ''users'' (readVector (Some readTLUser))])]"

definition writeTLAccountBusinessChatLinks :: tl_writer where
  "writeTLAccountBusinessChatLinks = write_fobject
     [(- 331111727, [wf ''_'' writeInt32,
         wf ''links'' (writeVector (Some writeTLBusinessChatLink)),
         wf ''chats'' (writeVector (Some writeTLChat)),
         wf ''users'' (writeVector (Some writeTLUser))])]"

definition TL_AccountBusinessChatLinks_table :: flag_table where
  "TL_AccountBusinessChatLinks_table =
     [(- 331111727, [Plain (''links'', readVector (Some readTLBusinessChatLink),
         writeVector (Some writeTLBusinessChatLink),
         enc_vector (enc_fobject TL_BusinessChatLink_table),
         ok_vector (ok_fobject TL_BusinessChatLink_table)),
        Plain (''chats'', readVector (Some readTLChat), writeVector (Some writeTLChat),
         enc_vector (enc_fobject TL_Chat_table), ok_vector (ok_fobject TL_Chat_table)),
        Plain (''users'', readVector (Some readTLUser), writeVector (Some writeTLUser),
         enc_vector (enc_fobject TL_User_table), ok_vector (ok_fobject TL_User_table))])]"

interpretation tl_AccountBusinessChatLinks: tl_codec readTLAccountBusinessChatLinks writeTLAccountBusinessChatLinks "enc_fobject TL_AccountBusinessChatLinks_table" "ok_fobject TL_AccountBusinessChatLinks_table"
  by (rule flag_schema_codec, unfold TL_AccountBusinessChatLinks_table_def, intro flag_tableI)
    (simp_all add: readTLAccountBusinessChatLinks_def writeTLAccountBusinessChatLinks_def flag_schema_simps tl_BusinessChatLink.tl_codec_axioms tl_BusinessChatLink.vector_codec tl_Chat.tl_codec_axioms tl_Chat.vector_codec tl_User.tl_codec_axioms tl_User.vector_codec)

definition readTLAccountResolvedBusinessChatLinks :: tl_reader where
  "readTLAccountResolvedBusinessChatLinks = read_object
     [(- 1708937439, [rd ''flags'' readUInt32, rd ''peer'' readTLPeer, rd ''message'' readString,
         rd_if ''flags'' 0 ''entities'' (readVector (Some readTLMessageEntity)),
         rd ''chats'' (readVector (Some readTLChat)),
         rd ''users'' (readVector (Some readTLUser))])]"

definition writeTLAccountResolvedBusinessChatLinks :: tl_writer where
  "writeTLAccountResolvedBusinessChatLinks = write_fobject
     [(- 1708937439, [wf ''_'' writeInt32, wf_flags ''flags'' [(''entities'', 0)],
         wf ''peer'' writeTLPeer, wf ''message'' writeString,
         wf_if ''flags'' 0 ''entities'' (writeVector (Some writeTLMessageEntity)),
         wf ''chats'' (writeVector (Some writeTLChat)),
         wf ''users'' (writeVector (Some writeTLUser))])]"

definition TL_AccountResolvedBusinessChatLinks_table :: flag_table where
  "TL_AccountResolvedBusinessChatLinks_table =
     [(- 1708937439, [Flags ''flags'' [(''entities'', 0)],
        Plain (''peer'', readTLPeer, writeTLPeer, enc_fobject TL_Peer_table,
         ok_fobject TL_Peer_table),
        Plain (''message'', readString, writeString, enc_string, is_short_text),
        Cond ''flags'' 0 (''entities'', readVector (Some readTLMessageEntity),
         writeVector (Some writeTLMessageEntity), enc_vector (enc_fobject TL_MessageEntity_table),
         ok_vector (ok_fobject TL_MessageEntity_table)),
        Plain (''chats'', readVector (Some readTLChat), writeVector (Some writeTLChat),
         enc_vector (enc_fobject TL_Chat_table), ok_vector (ok_fobject TL_Chat_table)),
        Plain (''users'', readVector (Some readTLUser), writeVector (Some writeTLUser),
         enc_vector (enc_fobject TL_User_table), ok_vector (ok_fobject TL_User_table))])]"

interpretation tl_AccountResolvedBusinessChatLinks: tl_codec readTLAccountResolvedBusinessChatLinks writeTLAccountResolvedBusinessChatLinks "enc_fobject TL_AccountResolvedBusinessChatLinks_table" "ok_fobject TL_AccountResolvedBusinessChatLinks_table"
  by (rule flag_schema_codec, unfold TL_AccountResolvedBusinessChatLinks_table_def, intro flag_tableI)
    (simp_all add: readTLAccountResolvedBusinessChatLinks_def writeTLAccountResolvedBusinessChatLinks_def flag_schema_simps tl_Peer.tl_codec_axioms tl_Peer.vector_codec tl_MessageEntity.tl_codec_axioms tl_MessageEntity.vector_codec tl_Chat.tl_codec_axioms tl_Chat.vector_codec tl_User.tl_codec_axioms tl_User.vector_codec)

definition readTLSponsoredMessageReportOption :: tl_reader where
  "readTLSponsoredMessageReportOption = read_object
     [(1124938064, [rd ''text'' readString, rd ''option'' readByteArray])]"

definition writeTLSponsoredMessageReportOption :: tl_writer where
  "writeTLSponsoredMessageReportOption = write_fobject
     [(1124938064, [wf ''_'' writeInt32, wf ''text'' writeString, wf ''option'' writeByteArray])]"

definition TL_SponsoredMessageReportOption_table :: flag_table where
  "TL_SponsoredMessageReportOption_table =
     [(1124938064, [Plain (''text'', readString, writeString, enc_string, is_short_text),
        Plain (''option'', readByteArray, writeByteArray, enc_bytes, is_short_bytes)])]"

interpretation tl_SponsoredMessageReportOption: tl_codec readTLSponsoredMessageReportOption writeTLSponsoredMessageReportOption "enc_fobject TL_SponsoredMessageReportOption_table" "ok_fobject TL_SponsoredMessageReportOption_table"
  by (rule flag_schema_codec, unfold TL_SponsoredMessageReportOption_table_def, intro flag_tableI)
    (simp_all add: readTLSponsoredMessageReportOption_def writeTLSponsoredMessageReportOption_def flag_schema_simps)

subsection \<open>The types since the last list at once\<close>

definition tl_types_part8 :: "(tl_reader \<times> tl_writer \<times> flag_table) list" where
  "tl_types_part8 =
     [(readTLPremiumBoostsList, writeTLPremiumBoostsList, TL_PremiumBoostsList_table),
      (readTLMyBoost, writeTLMyBoost, TL_MyBoost_table),
      (readTLPremiumMyBoosts, writeTLPremiumMyBoosts, TL_PremiumMyBoosts_table),
      (readTLPostInteractionCounters, writeTLPostInteractionCounters, TL_PostInteractionCounters_table),
      (readTLStatsStoryStats, writeTLStatsStoryStats, TL_StatsStoryStats_table),
      (readTLHelpPeerColorSet, writeTLHelpPeerColorSet, TL_HelpPeerColorSet_table),
      (readTLHelpPeerColorOption, writeTLHelpPeerColorOption, TL_HelpPeerColorOption_table),
      (readTLHelpPeerColors, writeTLHelpPeerColors, TL_HelpPeerColors_table),
      (readTLSavedReactionTag, writeTLSavedReactionTag, TL_SavedReactionTag_table),
      (readTLMessagesSavedReactionTags, writeTLMessagesSavedReactionTags, TL_MessagesSavedReactionTags_table),
      (readTLOutboxReadDate, writeTLOutboxReadDate, TL_OutboxReadDate_table),
      (readTLSmsjobsEligibilityToJoin, writeTLSmsjobsEligibilityToJoin, TL_SmsjobsEligibilityToJoin_table),
      (readTLSmsjobsStatus, writeTLSmsjobsStatus, TL_SmsjobsStatus_table),
      (readTLSmsJob, writeTLSmsJob, TL_SmsJob_table),
      (readTLBusinessWeeklyOpen, writeTLBusinessWeeklyOpen, TL_BusinessWeeklyOpen_table),
      (readTLBusinessWorkHours, writeTLBusinessWorkHours, TL_BusinessWorkHours_table),
      (readTLInputBusinessRecipients, writeTLInputBusinessRecipients, TL_InputBusinessRecipients_table),
      (readTLBusinessRecipients, writeTLBusinessRecipients, TL_BusinessRecipients_table),
      (readTLBusinessAwayMessageSchedule, writeTLBusinessAwayMessageSchedule, TL_BusinessAwayMessageSchedule_table),
      (readTLInputBusinessGreetingMessage, writeTLInputBusinessGreetingMessage, TL_InputBusinessGreetingMessage_table),
      (readTLBusinessGreetingMessage, writeTLBusinessGreetingMessage, TL_BusinessGreetingMessage_table),
      (readTLInputBusinessAwayMessage, writeTLInputBusinessAwayMessage, TL_InputBusinessAwayMessage_table),
      (readTLBusinessAwayMessage, writeTLBusinessAwayMessage, TL_BusinessAwayMessage_table),
      (readTLTimezone, writeTLTimezone, TL_Timezone_table),
      (readTLHelpTimezonesList, writeTLHelpTimezonesList, TL_HelpTimezonesList_table),
      (readTLQuickReply, writeTLQuickReply, TL_QuickReply_table),
      (readTLInputQuickReplyShortcut, writeTLInputQuickReplyShortcut, TL_InputQuickReplyShortcut_table),
      (readTLBusinessBotRecipients, writeTLBusinessBotRecipients, TL_BusinessBotRecipients_table),
      (readTLBusinessBotRights, writeTLBusinessBotRights, TL_BusinessBotRights_table),
      (readTLConnectedBot, writeTLConnectedBot, TL_ConnectedBot_table),
      (readTLAccountConnectedBots, writeTLAccountConnectedBots, TL_AccountConnectedBots_table),
      (readTLMessagesDialogFilters, writeTLMessagesDialogFilters, TL_MessagesDialogFilters_table),
      (readTLBirthday, writeTLBirthday, TL_Birthday_table),
      (readTLBotBusinessConnection, writeTLBotBusinessConnection, TL_BotBusinessConnection_table),
      (readTLInputBusinessIntro, writeTLInputBusinessIntro, TL_InputBusinessIntro_table),
      (readTLInputCollectible, writeTLInputCollectible, TL_InputCollectible_table),
      (readTLFragmentCollectibleInfo, writeTLFragmentCollectibleInfo, TL_FragmentCollectibleInfo_table),
      (readTLInputBusinessBotRecipients, writeTLInputBusinessBotRecipients, TL_InputBusinessBotRecipients_table),
      (readTLContactBirthday, writeTLContactBirthday, TL_ContactBirthday_table),
      (readTLContactsContactBirthdays, writeTLContactsContactBirthdays, TL_ContactsContactBirthdays_table),
      (readTLMissingInvitee, writeTLMissingInvitee, TL_MissingInvitee_table),
      (readTLInputBusinessChatLink, writeTLInputBusinessChatLink, TL_InputBusinessChatLink_table),
      (readTLBusinessChatLink, writeTLBusinessChatLink, TL_BusinessChatLink_table),
      (readTLAccountBusinessChatLinks, writeTLAccountBusinessChatLinks, TL_AccountBusinessChatLinks_table),
      (readTLAccountResolvedBusinessChatLinks, writeTLAccountResolvedBusinessChatLinks, TL_AccountResolvedBusinessChatLinks_table),
      (readTLSponsoredMessageReportOption, writeTLSponsoredMessageReportOption, TL_SponsoredMessageReportOption_table)]"

lemma tl_types_part8_codec: "(R, W, t) \<in> set tl_types_part8 \<Longrightarrow> tl_codec R W (enc_fobject t) (ok_fobject t)"
  by (auto simp: tl_types_part8_def
      intro: tl_PremiumBoostsList.tl_codec_axioms tl_MyBoost.tl_codec_axioms
         tl_PremiumMyBoosts.tl_codec_axioms tl_PostInteractionCounters.tl_codec_axioms
         tl_StatsStoryStats.tl_codec_axioms tl_HelpPeerColorSet.tl_codec_axioms
         tl_HelpPeerColorOption.tl_codec_axioms tl_HelpPeerColors.tl_codec_axioms
         tl_SavedReactionTag.tl_codec_axioms tl_MessagesSavedReactionTags.tl_codec_axioms
         tl_OutboxReadDate.tl_codec_axioms tl_SmsjobsEligibilityToJoin.tl_codec_axioms
         tl_SmsjobsStatus.tl_codec_axioms tl_SmsJob.tl_codec_axioms
         tl_BusinessWeeklyOpen.tl_codec_axioms tl_BusinessWorkHours.tl_codec_axioms
         tl_InputBusinessRecipients.tl_codec_axioms tl_BusinessRecipients.tl_codec_axioms
         tl_BusinessAwayMessageSchedule.tl_codec_axioms
         tl_InputBusinessGreetingMessage.tl_codec_axioms
         tl_BusinessGreetingMessage.tl_codec_axioms tl_InputBusinessAwayMessage.tl_codec_axioms
         tl_BusinessAwayMessage.tl_codec_axioms tl_Timezone.tl_codec_axioms
         tl_HelpTimezonesList.tl_codec_axioms tl_QuickReply.tl_codec_axioms
         tl_InputQuickReplyShortcut.tl_codec_axioms tl_BusinessBotRecipients.tl_codec_axioms
         tl_BusinessBotRights.tl_codec_axioms tl_ConnectedBot.tl_codec_axioms
         tl_AccountConnectedBots.tl_codec_axioms tl_MessagesDialogFilters.tl_codec_axioms
         tl_Birthday.tl_codec_axioms tl_BotBusinessConnection.tl_codec_axioms
         tl_InputBusinessIntro.tl_codec_axioms tl_InputCollectible.tl_codec_axioms
         tl_FragmentCollectibleInfo.tl_codec_axioms tl_InputBusinessBotRecipients.tl_codec_axioms
         tl_ContactBirthday.tl_codec_axioms tl_ContactsContactBirthdays.tl_codec_axioms
         tl_MissingInvitee.tl_codec_axioms tl_InputBusinessChatLink.tl_codec_axioms
         tl_BusinessChatLink.tl_codec_axioms tl_AccountBusinessChatLinks.tl_codec_axioms
         tl_AccountResolvedBusinessChatLinks.tl_codec_axioms
         tl_SponsoredMessageReportOption.tl_codec_axioms)

end
