(* ===== verification/TlTypes4.thy ===== *)
theory TlTypes4
  imports TlTypes3
begin

section \<open>The API schema, further types: libkg/tlschema.cpp\<close>

text \<open>
  Readers and writers of the types ChannelsSponsoredMessageReportResult to AuthFirebasePnvIntent, in dependency order, each with its table and the
  interpretation of the codec contract for it.
\<close>

definition readTLChannelsSponsoredMessageReportResult :: tl_reader where
  "readTLChannelsSponsoredMessageReportResult = read_object
     [(- 2073059774, [rd ''title'' readString,
         rd ''options'' (readVector (Some readTLSponsoredMessageReportOption))]),
      (1044107055, []),
      (- 1384544183, [])]"

definition writeTLChannelsSponsoredMessageReportResult :: tl_writer where
  "writeTLChannelsSponsoredMessageReportResult = write_fobject
     [(- 2073059774, [wf ''_'' writeInt32, wf ''title'' writeString,
         wf ''options'' (writeVector (Some writeTLSponsoredMessageReportOption))]),
      (1044107055, [wf ''_'' writeInt32]),
      (- 1384544183, [wf ''_'' writeInt32])]"

definition TL_ChannelsSponsoredMessageReportResult_table :: flag_table where
  "TL_ChannelsSponsoredMessageReportResult_table =
     [(- 2073059774, [Plain (''title'', readString, writeString, enc_string, is_short_text),
        Plain (''options'', readVector (Some readTLSponsoredMessageReportOption),
         writeVector (Some writeTLSponsoredMessageReportOption),
         enc_vector (enc_fobject TL_SponsoredMessageReportOption_table),
         ok_vector (ok_fobject TL_SponsoredMessageReportOption_table))]),
      (1044107055, []),
      (- 1384544183, [])]"

interpretation tl_ChannelsSponsoredMessageReportResult: tl_codec readTLChannelsSponsoredMessageReportResult writeTLChannelsSponsoredMessageReportResult "enc_fobject TL_ChannelsSponsoredMessageReportResult_table" "ok_fobject TL_ChannelsSponsoredMessageReportResult_table"
  by (rule flag_schema_codec, unfold TL_ChannelsSponsoredMessageReportResult_table_def, intro flag_tableI)
    (simp_all add: readTLChannelsSponsoredMessageReportResult_def writeTLChannelsSponsoredMessageReportResult_def flag_schema_simps tl_SponsoredMessageReportOption.tl_codec_axioms tl_SponsoredMessageReportOption.vector_codec)

definition readTLReactionNotificationsFrom :: tl_reader where
  "readTLReactionNotificationsFrom = read_object
     [(- 1161583078, []),
      (1268654752, [])]"

definition writeTLReactionNotificationsFrom :: tl_writer where
  "writeTLReactionNotificationsFrom = write_fobject
     [(- 1161583078, [wf ''_'' writeInt32]),
      (1268654752, [wf ''_'' writeInt32])]"

definition TL_ReactionNotificationsFrom_table :: flag_table where
  "TL_ReactionNotificationsFrom_table =
     [(- 1161583078, []),
      (1268654752, [])]"

interpretation tl_ReactionNotificationsFrom: tl_codec readTLReactionNotificationsFrom writeTLReactionNotificationsFrom "enc_fobject TL_ReactionNotificationsFrom_table" "ok_fobject TL_ReactionNotificationsFrom_table"
  by (rule flag_schema_codec, unfold TL_ReactionNotificationsFrom_table_def, intro flag_tableI)
    (simp_all add: readTLReactionNotificationsFrom_def writeTLReactionNotificationsFrom_def flag_schema_simps)

definition readTLReactionsNotifySettings :: tl_reader where
  "readTLReactionsNotifySettings = read_object
     [(1910827608, [rd ''flags'' readUInt32,
         rd_if ''flags'' 0 ''messages_notify_from'' readTLReactionNotificationsFrom,
         rd_if ''flags'' 1 ''stories_notify_from'' readTLReactionNotificationsFrom,
         rd_if ''flags'' 2 ''poll_votes_notify_from'' readTLReactionNotificationsFrom,
         rd ''sound'' readTLNotificationSound, rd ''show_previews'' readBool])]"

definition writeTLReactionsNotifySettings :: tl_writer where
  "writeTLReactionsNotifySettings = write_fobject
     [(1910827608, [wf ''_'' writeInt32, wf_flags ''flags'' [(''messages_notify_from'', 0),
         (''stories_notify_from'', 1), (''poll_votes_notify_from'', 2)],
         wf_if ''flags'' 0 ''messages_notify_from'' writeTLReactionNotificationsFrom,
         wf_if ''flags'' 1 ''stories_notify_from'' writeTLReactionNotificationsFrom,
         wf_if ''flags'' 2 ''poll_votes_notify_from'' writeTLReactionNotificationsFrom,
         wf ''sound'' writeTLNotificationSound, wf ''show_previews'' writeBool])]"

definition TL_ReactionsNotifySettings_table :: flag_table where
  "TL_ReactionsNotifySettings_table =
     [(1910827608, [Flags ''flags'' [(''messages_notify_from'', 0), (''stories_notify_from'', 1),
         (''poll_votes_notify_from'', 2)],
        Cond ''flags'' 0 (''messages_notify_from'', readTLReactionNotificationsFrom,
         writeTLReactionNotificationsFrom, enc_fobject TL_ReactionNotificationsFrom_table,
         ok_fobject TL_ReactionNotificationsFrom_table),
        Cond ''flags'' 1 (''stories_notify_from'', readTLReactionNotificationsFrom,
         writeTLReactionNotificationsFrom, enc_fobject TL_ReactionNotificationsFrom_table,
         ok_fobject TL_ReactionNotificationsFrom_table),
        Cond ''flags'' 2 (''poll_votes_notify_from'', readTLReactionNotificationsFrom,
         writeTLReactionNotificationsFrom, enc_fobject TL_ReactionNotificationsFrom_table,
         ok_fobject TL_ReactionNotificationsFrom_table),
        Plain (''sound'', readTLNotificationSound, writeTLNotificationSound,
         enc_fobject TL_NotificationSound_table, ok_fobject TL_NotificationSound_table),
        Plain (''show_previews'', readBool, writeBool, enc_bool, is_VBool)])]"

interpretation tl_ReactionsNotifySettings: tl_codec readTLReactionsNotifySettings writeTLReactionsNotifySettings "enc_fobject TL_ReactionsNotifySettings_table" "ok_fobject TL_ReactionsNotifySettings_table"
  by (rule flag_schema_codec, unfold TL_ReactionsNotifySettings_table_def, intro flag_tableI)
    (simp_all add: readTLReactionsNotifySettings_def writeTLReactionsNotifySettings_def flag_schema_simps tl_ReactionNotificationsFrom.tl_codec_axioms tl_NotificationSound.tl_codec_axioms)

definition readTLAvailableEffect :: tl_reader where
  "readTLAvailableEffect = read_object
     [(- 1815879042, [rd ''flags'' readUInt32, set_if ''flags'' 2 ''premium_required'',
         rd ''id'' readInt64, rd ''emoticon'' readString,
         rd_if ''flags'' 0 ''static_icon_id'' readInt64, rd ''effect_sticker_id'' readInt64,
         rd_if ''flags'' 1 ''effect_animation_id'' readInt64])]"

definition writeTLAvailableEffect :: tl_writer where
  "writeTLAvailableEffect = write_fobject
     [(- 1815879042, [wf ''_'' writeInt32, wf_flags ''flags'' [(''premium_required'', 2),
         (''static_icon_id'', 0), (''effect_animation_id'', 1)], wf ''id'' writeInt64,
         wf ''emoticon'' writeString, wf_if ''flags'' 0 ''static_icon_id'' writeInt64,
         wf ''effect_sticker_id'' writeInt64,
         wf_if ''flags'' 1 ''effect_animation_id'' writeInt64])]"

definition TL_AvailableEffect_table :: flag_table where
  "TL_AvailableEffect_table =
     [(- 1815879042, [Flags ''flags'' [(''premium_required'', 2), (''static_icon_id'', 0),
         (''effect_animation_id'', 1)],
        TrueBit ''flags'' 2 ''premium_required'',
        Plain (''id'', readInt64, writeInt64, enc_int64, is_VLong),
        Plain (''emoticon'', readString, writeString, enc_string, is_short_text),
        Cond ''flags'' 0 (''static_icon_id'', readInt64, writeInt64, enc_int64, is_VLong),
        Plain (''effect_sticker_id'', readInt64, writeInt64, enc_int64, is_VLong),
        Cond ''flags'' 1 (''effect_animation_id'', readInt64, writeInt64, enc_int64, is_VLong)])]"

interpretation tl_AvailableEffect: tl_codec readTLAvailableEffect writeTLAvailableEffect "enc_fobject TL_AvailableEffect_table" "ok_fobject TL_AvailableEffect_table"
  by (rule flag_schema_codec, unfold TL_AvailableEffect_table_def, intro flag_tableI)
    (simp_all add: readTLAvailableEffect_def writeTLAvailableEffect_def flag_schema_simps)

definition readTLFactCheck :: tl_reader where
  "readTLFactCheck = read_object
     [(- 1197736753, [rd ''flags'' readUInt32, set_if ''flags'' 0 ''need_check'',
         rd_if ''flags'' 1 ''country'' readString,
         rd_if ''flags'' 1 ''text'' readTLTextWithEntities, rd ''hash'' readInt64])]"

definition writeTLFactCheck :: tl_writer where
  "writeTLFactCheck = write_fobject
     [(- 1197736753, [wf ''_'' writeInt32, wf_flags ''flags'' [(''need_check'', 0), (''country'',
         1), (''text'', 1)], wf_if ''flags'' 1 ''country'' writeString,
         wf_if ''flags'' 1 ''text'' writeTLTextWithEntities, wf ''hash'' writeInt64])]"

definition TL_FactCheck_table :: flag_table where
  "TL_FactCheck_table =
     [(- 1197736753, [Flags ''flags'' [(''need_check'', 0), (''country'', 1), (''text'', 1)],
        TrueBit ''flags'' 0 ''need_check'',
        Cond ''flags'' 1 (''country'', readString, writeString, enc_string, is_short_text),
        Cond ''flags'' 1 (''text'', readTLTextWithEntities, writeTLTextWithEntities,
         enc_fobject TL_TextWithEntities_table, ok_fobject TL_TextWithEntities_table),
        Plain (''hash'', readInt64, writeInt64, enc_int64, is_VLong)])]"

interpretation tl_FactCheck: tl_codec readTLFactCheck writeTLFactCheck "enc_fobject TL_FactCheck_table" "ok_fobject TL_FactCheck_table"
  by (rule flag_schema_codec, unfold TL_FactCheck_table_def, intro flag_tableI)
    (simp_all add: readTLFactCheck_def writeTLFactCheck_def flag_schema_simps tl_TextWithEntities.tl_codec_axioms)

definition readTLStarsTransactionPeer :: tl_reader where
  "readTLStarsTransactionPeer = read_object
     [(- 1779253276, []),
      (- 1269320843, []),
      (2069236235, []),
      (621656824, []),
      (- 382740222, []),
      (- 670195363, [rd ''peer'' readTLPeer]),
      (1617438738, []),
      (- 110658899, [])]"

definition writeTLStarsTransactionPeer :: tl_writer where
  "writeTLStarsTransactionPeer = write_fobject
     [(- 1779253276, [wf ''_'' writeInt32]),
      (- 1269320843, [wf ''_'' writeInt32]),
      (2069236235, [wf ''_'' writeInt32]),
      (621656824, [wf ''_'' writeInt32]),
      (- 382740222, [wf ''_'' writeInt32]),
      (- 670195363, [wf ''_'' writeInt32, wf ''peer'' writeTLPeer]),
      (1617438738, [wf ''_'' writeInt32]),
      (- 110658899, [wf ''_'' writeInt32])]"

definition TL_StarsTransactionPeer_table :: flag_table where
  "TL_StarsTransactionPeer_table =
     [(- 1779253276, []),
      (- 1269320843, []),
      (2069236235, []),
      (621656824, []),
      (- 382740222, []),
      (- 670195363, [Plain (''peer'', readTLPeer, writeTLPeer, enc_fobject TL_Peer_table,
         ok_fobject TL_Peer_table)]),
      (1617438738, []),
      (- 110658899, [])]"

interpretation tl_StarsTransactionPeer: tl_codec readTLStarsTransactionPeer writeTLStarsTransactionPeer "enc_fobject TL_StarsTransactionPeer_table" "ok_fobject TL_StarsTransactionPeer_table"
  by (rule flag_schema_codec, unfold TL_StarsTransactionPeer_table_def, intro flag_tableI)
    (simp_all add: readTLStarsTransactionPeer_def writeTLStarsTransactionPeer_def flag_schema_simps tl_Peer.tl_codec_axioms)

definition readTLStarsTopupOption :: tl_reader where
  "readTLStarsTopupOption = read_object
     [(198776256, [rd ''flags'' readUInt32, set_if ''flags'' 1 ''extended'',
         rd ''stars'' readInt64, rd_if ''flags'' 0 ''store_product'' readString,
         rd ''currency'' readString, rd ''amount'' readInt64])]"

definition writeTLStarsTopupOption :: tl_writer where
  "writeTLStarsTopupOption = write_fobject
     [(198776256, [wf ''_'' writeInt32, wf_flags ''flags'' [(''extended'', 1), (''store_product'',
         0)], wf ''stars'' writeInt64, wf_if ''flags'' 0 ''store_product'' writeString,
         wf ''currency'' writeString, wf ''amount'' writeInt64])]"

definition TL_StarsTopupOption_table :: flag_table where
  "TL_StarsTopupOption_table =
     [(198776256, [Flags ''flags'' [(''extended'', 1), (''store_product'', 0)],
        TrueBit ''flags'' 1 ''extended'',
        Plain (''stars'', readInt64, writeInt64, enc_int64, is_VLong),
        Cond ''flags'' 0 (''store_product'', readString, writeString, enc_string, is_short_text),
        Plain (''currency'', readString, writeString, enc_string, is_short_text),
        Plain (''amount'', readInt64, writeInt64, enc_int64, is_VLong)])]"

interpretation tl_StarsTopupOption: tl_codec readTLStarsTopupOption writeTLStarsTopupOption "enc_fobject TL_StarsTopupOption_table" "ok_fobject TL_StarsTopupOption_table"
  by (rule flag_schema_codec, unfold TL_StarsTopupOption_table_def, intro flag_tableI)
    (simp_all add: readTLStarsTopupOption_def writeTLStarsTopupOption_def flag_schema_simps)

definition readTLStarsAmount :: tl_reader where
  "readTLStarsAmount = read_object
     [(- 1145654109, [rd ''amount'' readInt64, rd ''nanos'' readInt32]),
      (1957618656, [rd ''amount'' readInt64])]"

definition writeTLStarsAmount :: tl_writer where
  "writeTLStarsAmount = write_fobject
     [(- 1145654109, [wf ''_'' writeInt32, wf ''amount'' writeInt64, wf ''nanos'' writeInt32]),
      (1957618656, [wf ''_'' writeInt32, wf ''amount'' writeInt64])]"

definition TL_StarsAmount_table :: flag_table where
  "TL_StarsAmount_table =
     [(- 1145654109, [Plain (''amount'', readInt64, writeInt64, enc_int64, is_VLong),
        Plain (''nanos'', readInt32, writeInt32, enc_int32, is_VInt)]),
      (1957618656, [Plain (''amount'', readInt64, writeInt64, enc_int64, is_VLong)])]"

interpretation tl_StarsAmount: tl_codec readTLStarsAmount writeTLStarsAmount "enc_fobject TL_StarsAmount_table" "ok_fobject TL_StarsAmount_table"
  by (rule flag_schema_codec, unfold TL_StarsAmount_table_def, intro flag_tableI)
    (simp_all add: readTLStarsAmount_def writeTLStarsAmount_def flag_schema_simps)

definition readTLGeoPointAddress :: tl_reader where
  "readTLGeoPointAddress = read_object
     [(- 565420653, [rd ''flags'' readUInt32, rd ''country_iso2'' readString,
         rd_if ''flags'' 0 ''state'' readString, rd_if ''flags'' 1 ''city'' readString,
         rd_if ''flags'' 2 ''street'' readString])]"

definition writeTLGeoPointAddress :: tl_writer where
  "writeTLGeoPointAddress = write_fobject
     [(- 565420653, [wf ''_'' writeInt32, wf_flags ''flags'' [(''state'', 0), (''city'', 1),
         (''street'', 2)], wf ''country_iso2'' writeString,
         wf_if ''flags'' 0 ''state'' writeString, wf_if ''flags'' 1 ''city'' writeString,
         wf_if ''flags'' 2 ''street'' writeString])]"

definition TL_GeoPointAddress_table :: flag_table where
  "TL_GeoPointAddress_table =
     [(- 565420653, [Flags ''flags'' [(''state'', 0), (''city'', 1), (''street'', 2)],
        Plain (''country_iso2'', readString, writeString, enc_string, is_short_text),
        Cond ''flags'' 0 (''state'', readString, writeString, enc_string, is_short_text),
        Cond ''flags'' 1 (''city'', readString, writeString, enc_string, is_short_text),
        Cond ''flags'' 2 (''street'', readString, writeString, enc_string, is_short_text)])]"

interpretation tl_GeoPointAddress: tl_codec readTLGeoPointAddress writeTLGeoPointAddress "enc_fobject TL_GeoPointAddress_table" "ok_fobject TL_GeoPointAddress_table"
  by (rule flag_schema_codec, unfold TL_GeoPointAddress_table_def, intro flag_tableI)
    (simp_all add: readTLGeoPointAddress_def writeTLGeoPointAddress_def flag_schema_simps)

definition readTLStarsRevenueStatus :: tl_reader where
  "readTLStarsRevenueStatus = read_object
     [(- 21080943, [rd ''flags'' readUInt32, set_if ''flags'' 0 ''withdrawal_enabled'',
         rd ''current_balance'' readTLStarsAmount, rd ''available_balance'' readTLStarsAmount,
         rd ''overall_revenue'' readTLStarsAmount,
         rd_if ''flags'' 1 ''next_withdrawal_at'' readInt32])]"

definition writeTLStarsRevenueStatus :: tl_writer where
  "writeTLStarsRevenueStatus = write_fobject
     [(- 21080943, [wf ''_'' writeInt32, wf_flags ''flags'' [(''withdrawal_enabled'', 0),
         (''next_withdrawal_at'', 1)], wf ''current_balance'' writeTLStarsAmount,
         wf ''available_balance'' writeTLStarsAmount, wf ''overall_revenue'' writeTLStarsAmount,
         wf_if ''flags'' 1 ''next_withdrawal_at'' writeInt32])]"

definition TL_StarsRevenueStatus_table :: flag_table where
  "TL_StarsRevenueStatus_table =
     [(- 21080943, [Flags ''flags'' [(''withdrawal_enabled'', 0), (''next_withdrawal_at'', 1)],
        TrueBit ''flags'' 0 ''withdrawal_enabled'',
        Plain (''current_balance'', readTLStarsAmount, writeTLStarsAmount,
         enc_fobject TL_StarsAmount_table, ok_fobject TL_StarsAmount_table),
        Plain (''available_balance'', readTLStarsAmount, writeTLStarsAmount,
         enc_fobject TL_StarsAmount_table, ok_fobject TL_StarsAmount_table),
        Plain (''overall_revenue'', readTLStarsAmount, writeTLStarsAmount,
         enc_fobject TL_StarsAmount_table, ok_fobject TL_StarsAmount_table),
        Cond ''flags'' 1 (''next_withdrawal_at'', readInt32, writeInt32, enc_int32, is_VInt)])]"

interpretation tl_StarsRevenueStatus: tl_codec readTLStarsRevenueStatus writeTLStarsRevenueStatus "enc_fobject TL_StarsRevenueStatus_table" "ok_fobject TL_StarsRevenueStatus_table"
  by (rule flag_schema_codec, unfold TL_StarsRevenueStatus_table_def, intro flag_tableI)
    (simp_all add: readTLStarsRevenueStatus_def writeTLStarsRevenueStatus_def flag_schema_simps tl_StarsAmount.tl_codec_axioms)

definition readTLPaymentsStarsRevenueWithdrawalUrl :: tl_reader where
  "readTLPaymentsStarsRevenueWithdrawalUrl = read_object
     [(497778871, [rd ''url'' readString])]"

definition writeTLPaymentsStarsRevenueWithdrawalUrl :: tl_writer where
  "writeTLPaymentsStarsRevenueWithdrawalUrl = write_fobject
     [(497778871, [wf ''_'' writeInt32, wf ''url'' writeString])]"

definition TL_PaymentsStarsRevenueWithdrawalUrl_table :: flag_table where
  "TL_PaymentsStarsRevenueWithdrawalUrl_table =
     [(497778871, [Plain (''url'', readString, writeString, enc_string, is_short_text)])]"

interpretation tl_PaymentsStarsRevenueWithdrawalUrl: tl_codec readTLPaymentsStarsRevenueWithdrawalUrl writeTLPaymentsStarsRevenueWithdrawalUrl "enc_fobject TL_PaymentsStarsRevenueWithdrawalUrl_table" "ok_fobject TL_PaymentsStarsRevenueWithdrawalUrl_table"
  by (rule flag_schema_codec, unfold TL_PaymentsStarsRevenueWithdrawalUrl_table_def, intro flag_tableI)
    (simp_all add: readTLPaymentsStarsRevenueWithdrawalUrl_def writeTLPaymentsStarsRevenueWithdrawalUrl_def flag_schema_simps)

definition readTLPaymentsStarsRevenueAdsAccountUrl :: tl_reader where
  "readTLPaymentsStarsRevenueAdsAccountUrl = read_object
     [(961445665, [rd ''url'' readString])]"

definition writeTLPaymentsStarsRevenueAdsAccountUrl :: tl_writer where
  "writeTLPaymentsStarsRevenueAdsAccountUrl = write_fobject
     [(961445665, [wf ''_'' writeInt32, wf ''url'' writeString])]"

definition TL_PaymentsStarsRevenueAdsAccountUrl_table :: flag_table where
  "TL_PaymentsStarsRevenueAdsAccountUrl_table =
     [(961445665, [Plain (''url'', readString, writeString, enc_string, is_short_text)])]"

interpretation tl_PaymentsStarsRevenueAdsAccountUrl: tl_codec readTLPaymentsStarsRevenueAdsAccountUrl writeTLPaymentsStarsRevenueAdsAccountUrl "enc_fobject TL_PaymentsStarsRevenueAdsAccountUrl_table" "ok_fobject TL_PaymentsStarsRevenueAdsAccountUrl_table"
  by (rule flag_schema_codec, unfold TL_PaymentsStarsRevenueAdsAccountUrl_table_def, intro flag_tableI)
    (simp_all add: readTLPaymentsStarsRevenueAdsAccountUrl_def writeTLPaymentsStarsRevenueAdsAccountUrl_def flag_schema_simps)

definition readTLInputStarsTransaction :: tl_reader where
  "readTLInputStarsTransaction = read_object
     [(543876817, [rd ''flags'' readUInt32, set_if ''flags'' 0 ''refund'', rd ''id'' readString])]"

definition writeTLInputStarsTransaction :: tl_writer where
  "writeTLInputStarsTransaction = write_fobject
     [(543876817, [wf ''_'' writeInt32, wf_flags ''flags'' [(''refund'', 0)],
         wf ''id'' writeString])]"

definition TL_InputStarsTransaction_table :: flag_table where
  "TL_InputStarsTransaction_table =
     [(543876817, [Flags ''flags'' [(''refund'', 0)],
        TrueBit ''flags'' 0 ''refund'',
        Plain (''id'', readString, writeString, enc_string, is_short_text)])]"

interpretation tl_InputStarsTransaction: tl_codec readTLInputStarsTransaction writeTLInputStarsTransaction "enc_fobject TL_InputStarsTransaction_table" "ok_fobject TL_InputStarsTransaction_table"
  by (rule flag_schema_codec, unfold TL_InputStarsTransaction_table_def, intro flag_tableI)
    (simp_all add: readTLInputStarsTransaction_def writeTLInputStarsTransaction_def flag_schema_simps)

definition readTLStarsGiftOption :: tl_reader where
  "readTLStarsGiftOption = read_object
     [(1577421297, [rd ''flags'' readUInt32, set_if ''flags'' 1 ''extended'',
         rd ''stars'' readInt64, rd_if ''flags'' 0 ''store_product'' readString,
         rd ''currency'' readString, rd ''amount'' readInt64])]"

definition writeTLStarsGiftOption :: tl_writer where
  "writeTLStarsGiftOption = write_fobject
     [(1577421297, [wf ''_'' writeInt32, wf_flags ''flags'' [(''extended'', 1), (''store_product'',
         0)], wf ''stars'' writeInt64, wf_if ''flags'' 0 ''store_product'' writeString,
         wf ''currency'' writeString, wf ''amount'' writeInt64])]"

definition TL_StarsGiftOption_table :: flag_table where
  "TL_StarsGiftOption_table =
     [(1577421297, [Flags ''flags'' [(''extended'', 1), (''store_product'', 0)],
        TrueBit ''flags'' 1 ''extended'',
        Plain (''stars'', readInt64, writeInt64, enc_int64, is_VLong),
        Cond ''flags'' 0 (''store_product'', readString, writeString, enc_string, is_short_text),
        Plain (''currency'', readString, writeString, enc_string, is_short_text),
        Plain (''amount'', readInt64, writeInt64, enc_int64, is_VLong)])]"

interpretation tl_StarsGiftOption: tl_codec readTLStarsGiftOption writeTLStarsGiftOption "enc_fobject TL_StarsGiftOption_table" "ok_fobject TL_StarsGiftOption_table"
  by (rule flag_schema_codec, unfold TL_StarsGiftOption_table_def, intro flag_tableI)
    (simp_all add: readTLStarsGiftOption_def writeTLStarsGiftOption_def flag_schema_simps)

definition readTLBotsPopularAppBots :: tl_reader where
  "readTLBotsPopularAppBots = read_object
     [(428978491, [rd ''flags'' readUInt32, rd_if ''flags'' 0 ''next_offset'' readString,
         rd ''users'' (readVector (Some readTLUser))])]"

definition writeTLBotsPopularAppBots :: tl_writer where
  "writeTLBotsPopularAppBots = write_fobject
     [(428978491, [wf ''_'' writeInt32, wf_flags ''flags'' [(''next_offset'', 0)],
         wf_if ''flags'' 0 ''next_offset'' writeString,
         wf ''users'' (writeVector (Some writeTLUser))])]"

definition TL_BotsPopularAppBots_table :: flag_table where
  "TL_BotsPopularAppBots_table =
     [(428978491, [Flags ''flags'' [(''next_offset'', 0)],
        Cond ''flags'' 0 (''next_offset'', readString, writeString, enc_string, is_short_text),
        Plain (''users'', readVector (Some readTLUser), writeVector (Some writeTLUser),
         enc_vector (enc_fobject TL_User_table), ok_vector (ok_fobject TL_User_table))])]"

interpretation tl_BotsPopularAppBots: tl_codec readTLBotsPopularAppBots writeTLBotsPopularAppBots "enc_fobject TL_BotsPopularAppBots_table" "ok_fobject TL_BotsPopularAppBots_table"
  by (rule flag_schema_codec, unfold TL_BotsPopularAppBots_table_def, intro flag_tableI)
    (simp_all add: readTLBotsPopularAppBots_def writeTLBotsPopularAppBots_def flag_schema_simps tl_User.tl_codec_axioms tl_User.vector_codec)

definition readTLStarsGiveawayWinnersOption :: tl_reader where
  "readTLStarsGiveawayWinnersOption = read_object
     [(1411605001, [rd ''flags'' readUInt32, set_if ''flags'' 0 ''default'',
         rd ''users'' readInt32, rd ''per_user_stars'' readInt64])]"

definition writeTLStarsGiveawayWinnersOption :: tl_writer where
  "writeTLStarsGiveawayWinnersOption = write_fobject
     [(1411605001, [wf ''_'' writeInt32, wf_flags ''flags'' [(''default'', 0)],
         wf ''users'' writeInt32, wf ''per_user_stars'' writeInt64])]"

definition TL_StarsGiveawayWinnersOption_table :: flag_table where
  "TL_StarsGiveawayWinnersOption_table =
     [(1411605001, [Flags ''flags'' [(''default'', 0)],
        TrueBit ''flags'' 0 ''default'',
        Plain (''users'', readInt32, writeInt32, enc_int32, is_VInt),
        Plain (''per_user_stars'', readInt64, writeInt64, enc_int64, is_VLong)])]"

interpretation tl_StarsGiveawayWinnersOption: tl_codec readTLStarsGiveawayWinnersOption writeTLStarsGiveawayWinnersOption "enc_fobject TL_StarsGiveawayWinnersOption_table" "ok_fobject TL_StarsGiveawayWinnersOption_table"
  by (rule flag_schema_codec, unfold TL_StarsGiveawayWinnersOption_table_def, intro flag_tableI)
    (simp_all add: readTLStarsGiveawayWinnersOption_def writeTLStarsGiveawayWinnersOption_def flag_schema_simps)

definition readTLStarsGiveawayOption :: tl_reader where
  "readTLStarsGiveawayOption = read_object
     [(- 1798404822, [rd ''flags'' readUInt32, set_if ''flags'' 0 ''extended'',
         set_if ''flags'' 1 ''default'', rd ''stars'' readInt64, rd ''yearly_boosts'' readInt32,
         rd_if ''flags'' 2 ''store_product'' readString, rd ''currency'' readString,
         rd ''amount'' readInt64,
         rd ''winners'' (readVector (Some readTLStarsGiveawayWinnersOption))])]"

definition writeTLStarsGiveawayOption :: tl_writer where
  "writeTLStarsGiveawayOption = write_fobject
     [(- 1798404822, [wf ''_'' writeInt32, wf_flags ''flags'' [(''extended'', 0), (''default'', 1),
         (''store_product'', 2)], wf ''stars'' writeInt64, wf ''yearly_boosts'' writeInt32,
         wf_if ''flags'' 2 ''store_product'' writeString, wf ''currency'' writeString,
         wf ''amount'' writeInt64,
         wf ''winners'' (writeVector (Some writeTLStarsGiveawayWinnersOption))])]"

definition TL_StarsGiveawayOption_table :: flag_table where
  "TL_StarsGiveawayOption_table =
     [(- 1798404822, [Flags ''flags'' [(''extended'', 0), (''default'', 1), (''store_product'', 2)],
        TrueBit ''flags'' 0 ''extended'',
        TrueBit ''flags'' 1 ''default'',
        Plain (''stars'', readInt64, writeInt64, enc_int64, is_VLong),
        Plain (''yearly_boosts'', readInt32, writeInt32, enc_int32, is_VInt),
        Cond ''flags'' 2 (''store_product'', readString, writeString, enc_string, is_short_text),
        Plain (''currency'', readString, writeString, enc_string, is_short_text),
        Plain (''amount'', readInt64, writeInt64, enc_int64, is_VLong),
        Plain (''winners'', readVector (Some readTLStarsGiveawayWinnersOption),
         writeVector (Some writeTLStarsGiveawayWinnersOption),
         enc_vector (enc_fobject TL_StarsGiveawayWinnersOption_table),
         ok_vector (ok_fobject TL_StarsGiveawayWinnersOption_table))])]"

interpretation tl_StarsGiveawayOption: tl_codec readTLStarsGiveawayOption writeTLStarsGiveawayOption "enc_fobject TL_StarsGiveawayOption_table" "ok_fobject TL_StarsGiveawayOption_table"
  by (rule flag_schema_codec, unfold TL_StarsGiveawayOption_table_def, intro flag_tableI)
    (simp_all add: readTLStarsGiveawayOption_def writeTLStarsGiveawayOption_def flag_schema_simps tl_StarsGiveawayWinnersOption.tl_codec_axioms tl_StarsGiveawayWinnersOption.vector_codec)

definition readTLMessageReportOption :: tl_reader where
  "readTLMessageReportOption = read_object
     [(2030298073, [rd ''text'' readString, rd ''option'' readByteArray])]"

definition writeTLMessageReportOption :: tl_writer where
  "writeTLMessageReportOption = write_fobject
     [(2030298073, [wf ''_'' writeInt32, wf ''text'' writeString, wf ''option'' writeByteArray])]"

definition TL_MessageReportOption_table :: flag_table where
  "TL_MessageReportOption_table =
     [(2030298073, [Plain (''text'', readString, writeString, enc_string, is_short_text),
        Plain (''option'', readByteArray, writeByteArray, enc_bytes, is_short_bytes)])]"

interpretation tl_MessageReportOption: tl_codec readTLMessageReportOption writeTLMessageReportOption "enc_fobject TL_MessageReportOption_table" "ok_fobject TL_MessageReportOption_table"
  by (rule flag_schema_codec, unfold TL_MessageReportOption_table_def, intro flag_tableI)
    (simp_all add: readTLMessageReportOption_def writeTLMessageReportOption_def flag_schema_simps)

definition readTLReportResult :: tl_reader where
  "readTLReportResult = read_object
     [(- 253435722, [rd ''title'' readString,
         rd ''options'' (readVector (Some readTLMessageReportOption))]),
      (1862904881, [rd ''flags'' readUInt32, set_if ''flags'' 0 ''optional'',
         rd ''option'' readByteArray]),
      (- 1917633461, [])]"

definition writeTLReportResult :: tl_writer where
  "writeTLReportResult = write_fobject
     [(- 253435722, [wf ''_'' writeInt32, wf ''title'' writeString,
         wf ''options'' (writeVector (Some writeTLMessageReportOption))]),
      (1862904881, [wf ''_'' writeInt32, wf_flags ''flags'' [(''optional'', 0)],
         wf ''option'' writeByteArray]),
      (- 1917633461, [wf ''_'' writeInt32])]"

definition TL_ReportResult_table :: flag_table where
  "TL_ReportResult_table =
     [(- 253435722, [Plain (''title'', readString, writeString, enc_string, is_short_text),
        Plain (''options'', readVector (Some readTLMessageReportOption),
         writeVector (Some writeTLMessageReportOption),
         enc_vector (enc_fobject TL_MessageReportOption_table),
         ok_vector (ok_fobject TL_MessageReportOption_table))]),
      (1862904881, [Flags ''flags'' [(''optional'', 0)],
        TrueBit ''flags'' 0 ''optional'',
        Plain (''option'', readByteArray, writeByteArray, enc_bytes, is_short_bytes)]),
      (- 1917633461, [])]"

interpretation tl_ReportResult: tl_codec readTLReportResult writeTLReportResult "enc_fobject TL_ReportResult_table" "ok_fobject TL_ReportResult_table"
  by (rule flag_schema_codec, unfold TL_ReportResult_table_def, intro flag_tableI)
    (simp_all add: readTLReportResult_def writeTLReportResult_def flag_schema_simps tl_MessageReportOption.tl_codec_axioms tl_MessageReportOption.vector_codec)

definition readTLMessagesBotPreparedInlineMessage :: tl_reader where
  "readTLMessagesBotPreparedInlineMessage = read_object
     [(- 1899035375, [rd ''id'' readString, rd ''expire_date'' readInt32])]"

definition writeTLMessagesBotPreparedInlineMessage :: tl_writer where
  "writeTLMessagesBotPreparedInlineMessage = write_fobject
     [(- 1899035375, [wf ''_'' writeInt32, wf ''id'' writeString, wf ''expire_date'' writeInt32])]"

definition TL_MessagesBotPreparedInlineMessage_table :: flag_table where
  "TL_MessagesBotPreparedInlineMessage_table =
     [(- 1899035375, [Plain (''id'', readString, writeString, enc_string, is_short_text),
        Plain (''expire_date'', readInt32, writeInt32, enc_int32, is_VInt)])]"

interpretation tl_MessagesBotPreparedInlineMessage: tl_codec readTLMessagesBotPreparedInlineMessage writeTLMessagesBotPreparedInlineMessage "enc_fobject TL_MessagesBotPreparedInlineMessage_table" "ok_fobject TL_MessagesBotPreparedInlineMessage_table"
  by (rule flag_schema_codec, unfold TL_MessagesBotPreparedInlineMessage_table_def, intro flag_tableI)
    (simp_all add: readTLMessagesBotPreparedInlineMessage_def writeTLMessagesBotPreparedInlineMessage_def flag_schema_simps)

definition readTLBotAppSettings :: tl_reader where
  "readTLBotAppSettings = read_object
     [(- 912582320, [rd ''flags'' readUInt32, rd_if ''flags'' 0 ''placeholder_path'' readByteArray,
         rd_if ''flags'' 1 ''background_color'' readInt32,
         rd_if ''flags'' 2 ''background_dark_color'' readInt32,
         rd_if ''flags'' 3 ''header_color'' readInt32,
         rd_if ''flags'' 4 ''header_dark_color'' readInt32])]"

definition writeTLBotAppSettings :: tl_writer where
  "writeTLBotAppSettings = write_fobject
     [(- 912582320, [wf ''_'' writeInt32, wf_flags ''flags'' [(''placeholder_path'', 0),
         (''background_color'', 1), (''background_dark_color'', 2), (''header_color'', 3),
         (''header_dark_color'', 4)], wf_if ''flags'' 0 ''placeholder_path'' writeByteArray,
         wf_if ''flags'' 1 ''background_color'' writeInt32,
         wf_if ''flags'' 2 ''background_dark_color'' writeInt32,
         wf_if ''flags'' 3 ''header_color'' writeInt32,
         wf_if ''flags'' 4 ''header_dark_color'' writeInt32])]"

definition TL_BotAppSettings_table :: flag_table where
  "TL_BotAppSettings_table =
     [(- 912582320, [Flags ''flags'' [(''placeholder_path'', 0), (''background_color'', 1),
         (''background_dark_color'', 2), (''header_color'', 3), (''header_dark_color'', 4)],
        Cond ''flags'' 0 (''placeholder_path'', readByteArray, writeByteArray, enc_bytes,
         is_short_bytes),
        Cond ''flags'' 1 (''background_color'', readInt32, writeInt32, enc_int32, is_VInt),
        Cond ''flags'' 2 (''background_dark_color'', readInt32, writeInt32, enc_int32, is_VInt),
        Cond ''flags'' 3 (''header_color'', readInt32, writeInt32, enc_int32, is_VInt),
        Cond ''flags'' 4 (''header_dark_color'', readInt32, writeInt32, enc_int32, is_VInt)])]"

interpretation tl_BotAppSettings: tl_codec readTLBotAppSettings writeTLBotAppSettings "enc_fobject TL_BotAppSettings_table" "ok_fobject TL_BotAppSettings_table"
  by (rule flag_schema_codec, unfold TL_BotAppSettings_table_def, intro flag_tableI)
    (simp_all add: readTLBotAppSettings_def writeTLBotAppSettings_def flag_schema_simps)

definition readTLStarRefProgram :: tl_reader where
  "readTLStarRefProgram = read_object
     [(- 586389774, [rd ''flags'' readUInt32, rd ''bot_id'' readInt64,
         rd ''commission_permille'' readInt32, rd_if ''flags'' 0 ''duration_months'' readInt32,
         rd_if ''flags'' 1 ''end_date'' readInt32,
         rd_if ''flags'' 2 ''daily_revenue_per_user'' readTLStarsAmount])]"

definition writeTLStarRefProgram :: tl_writer where
  "writeTLStarRefProgram = write_fobject
     [(- 586389774, [wf ''_'' writeInt32, wf_flags ''flags'' [(''duration_months'', 0),
         (''end_date'', 1), (''daily_revenue_per_user'', 2)], wf ''bot_id'' writeInt64,
         wf ''commission_permille'' writeInt32, wf_if ''flags'' 0 ''duration_months'' writeInt32,
         wf_if ''flags'' 1 ''end_date'' writeInt32,
         wf_if ''flags'' 2 ''daily_revenue_per_user'' writeTLStarsAmount])]"

definition TL_StarRefProgram_table :: flag_table where
  "TL_StarRefProgram_table =
     [(- 586389774, [Flags ''flags'' [(''duration_months'', 0), (''end_date'', 1),
         (''daily_revenue_per_user'', 2)],
        Plain (''bot_id'', readInt64, writeInt64, enc_int64, is_VLong),
        Plain (''commission_permille'', readInt32, writeInt32, enc_int32, is_VInt),
        Cond ''flags'' 0 (''duration_months'', readInt32, writeInt32, enc_int32, is_VInt),
        Cond ''flags'' 1 (''end_date'', readInt32, writeInt32, enc_int32, is_VInt),
        Cond ''flags'' 2 (''daily_revenue_per_user'', readTLStarsAmount, writeTLStarsAmount,
         enc_fobject TL_StarsAmount_table, ok_fobject TL_StarsAmount_table)])]"

interpretation tl_StarRefProgram: tl_codec readTLStarRefProgram writeTLStarRefProgram "enc_fobject TL_StarRefProgram_table" "ok_fobject TL_StarRefProgram_table"
  by (rule flag_schema_codec, unfold TL_StarRefProgram_table_def, intro flag_tableI)
    (simp_all add: readTLStarRefProgram_def writeTLStarRefProgram_def flag_schema_simps tl_StarsAmount.tl_codec_axioms)

definition readTLConnectedBotStarRef :: tl_reader where
  "readTLConnectedBotStarRef = read_object
     [(429997937, [rd ''flags'' readUInt32, set_if ''flags'' 1 ''revoked'', rd ''url'' readString,
         rd ''date'' readInt32, rd ''bot_id'' readInt64, rd ''commission_permille'' readInt32,
         rd_if ''flags'' 0 ''duration_months'' readInt32, rd ''participants'' readInt64,
         rd ''revenue'' readInt64])]"

definition writeTLConnectedBotStarRef :: tl_writer where
  "writeTLConnectedBotStarRef = write_fobject
     [(429997937, [wf ''_'' writeInt32, wf_flags ''flags'' [(''revoked'', 1), (''duration_months'',
         0)], wf ''url'' writeString, wf ''date'' writeInt32, wf ''bot_id'' writeInt64,
         wf ''commission_permille'' writeInt32, wf_if ''flags'' 0 ''duration_months'' writeInt32,
         wf ''participants'' writeInt64, wf ''revenue'' writeInt64])]"

definition TL_ConnectedBotStarRef_table :: flag_table where
  "TL_ConnectedBotStarRef_table =
     [(429997937, [Flags ''flags'' [(''revoked'', 1), (''duration_months'', 0)],
        TrueBit ''flags'' 1 ''revoked'',
        Plain (''url'', readString, writeString, enc_string, is_short_text),
        Plain (''date'', readInt32, writeInt32, enc_int32, is_VInt),
        Plain (''bot_id'', readInt64, writeInt64, enc_int64, is_VLong),
        Plain (''commission_permille'', readInt32, writeInt32, enc_int32, is_VInt),
        Cond ''flags'' 0 (''duration_months'', readInt32, writeInt32, enc_int32, is_VInt),
        Plain (''participants'', readInt64, writeInt64, enc_int64, is_VLong),
        Plain (''revenue'', readInt64, writeInt64, enc_int64, is_VLong)])]"

interpretation tl_ConnectedBotStarRef: tl_codec readTLConnectedBotStarRef writeTLConnectedBotStarRef "enc_fobject TL_ConnectedBotStarRef_table" "ok_fobject TL_ConnectedBotStarRef_table"
  by (rule flag_schema_codec, unfold TL_ConnectedBotStarRef_table_def, intro flag_tableI)
    (simp_all add: readTLConnectedBotStarRef_def writeTLConnectedBotStarRef_def flag_schema_simps)

definition readTLPaymentsConnectedStarRefBots :: tl_reader where
  "readTLPaymentsConnectedStarRefBots = read_object
     [(- 1730811363, [rd ''count'' readInt32,
         rd ''connected_bots'' (readVector (Some readTLConnectedBotStarRef)),
         rd ''users'' (readVector (Some readTLUser))])]"

definition writeTLPaymentsConnectedStarRefBots :: tl_writer where
  "writeTLPaymentsConnectedStarRefBots = write_fobject
     [(- 1730811363, [wf ''_'' writeInt32, wf ''count'' writeInt32,
         wf ''connected_bots'' (writeVector (Some writeTLConnectedBotStarRef)),
         wf ''users'' (writeVector (Some writeTLUser))])]"

definition TL_PaymentsConnectedStarRefBots_table :: flag_table where
  "TL_PaymentsConnectedStarRefBots_table =
     [(- 1730811363, [Plain (''count'', readInt32, writeInt32, enc_int32, is_VInt),
        Plain (''connected_bots'', readVector (Some readTLConnectedBotStarRef),
         writeVector (Some writeTLConnectedBotStarRef),
         enc_vector (enc_fobject TL_ConnectedBotStarRef_table),
         ok_vector (ok_fobject TL_ConnectedBotStarRef_table)),
        Plain (''users'', readVector (Some readTLUser), writeVector (Some writeTLUser),
         enc_vector (enc_fobject TL_User_table), ok_vector (ok_fobject TL_User_table))])]"

interpretation tl_PaymentsConnectedStarRefBots: tl_codec readTLPaymentsConnectedStarRefBots writeTLPaymentsConnectedStarRefBots "enc_fobject TL_PaymentsConnectedStarRefBots_table" "ok_fobject TL_PaymentsConnectedStarRefBots_table"
  by (rule flag_schema_codec, unfold TL_PaymentsConnectedStarRefBots_table_def, intro flag_tableI)
    (simp_all add: readTLPaymentsConnectedStarRefBots_def writeTLPaymentsConnectedStarRefBots_def flag_schema_simps tl_ConnectedBotStarRef.tl_codec_axioms tl_ConnectedBotStarRef.vector_codec tl_User.tl_codec_axioms tl_User.vector_codec)

definition readTLPaymentsSuggestedStarRefBots :: tl_reader where
  "readTLPaymentsSuggestedStarRefBots = read_object
     [(- 1261053863, [rd ''flags'' readUInt32, rd ''count'' readInt32,
         rd ''suggested_bots'' (readVector (Some readTLStarRefProgram)),
         rd ''users'' (readVector (Some readTLUser)),
         rd_if ''flags'' 0 ''next_offset'' readString])]"

definition writeTLPaymentsSuggestedStarRefBots :: tl_writer where
  "writeTLPaymentsSuggestedStarRefBots = write_fobject
     [(- 1261053863, [wf ''_'' writeInt32, wf_flags ''flags'' [(''next_offset'', 0)],
         wf ''count'' writeInt32, wf ''suggested_bots'' (writeVector (Some writeTLStarRefProgram)),
         wf ''users'' (writeVector (Some writeTLUser)),
         wf_if ''flags'' 0 ''next_offset'' writeString])]"

definition TL_PaymentsSuggestedStarRefBots_table :: flag_table where
  "TL_PaymentsSuggestedStarRefBots_table =
     [(- 1261053863, [Flags ''flags'' [(''next_offset'', 0)],
        Plain (''count'', readInt32, writeInt32, enc_int32, is_VInt),
        Plain (''suggested_bots'', readVector (Some readTLStarRefProgram),
         writeVector (Some writeTLStarRefProgram),
         enc_vector (enc_fobject TL_StarRefProgram_table),
         ok_vector (ok_fobject TL_StarRefProgram_table)),
        Plain (''users'', readVector (Some readTLUser), writeVector (Some writeTLUser),
         enc_vector (enc_fobject TL_User_table), ok_vector (ok_fobject TL_User_table)),
        Cond ''flags'' 0 (''next_offset'', readString, writeString, enc_string, is_short_text)])]"

interpretation tl_PaymentsSuggestedStarRefBots: tl_codec readTLPaymentsSuggestedStarRefBots writeTLPaymentsSuggestedStarRefBots "enc_fobject TL_PaymentsSuggestedStarRefBots_table" "ok_fobject TL_PaymentsSuggestedStarRefBots_table"
  by (rule flag_schema_codec, unfold TL_PaymentsSuggestedStarRefBots_table_def, intro flag_tableI)
    (simp_all add: readTLPaymentsSuggestedStarRefBots_def writeTLPaymentsSuggestedStarRefBots_def flag_schema_simps tl_StarRefProgram.tl_codec_axioms tl_StarRefProgram.vector_codec tl_User.tl_codec_axioms tl_User.vector_codec)

definition readTLBotVerifierSettings :: tl_reader where
  "readTLBotVerifierSettings = read_object
     [(- 1328716265, [rd ''flags'' readUInt32,
         set_if ''flags'' 1 ''can_modify_custom_description'', rd ''icon'' readInt64,
         rd ''company'' readString, rd_if ''flags'' 0 ''custom_description'' readString])]"

definition writeTLBotVerifierSettings :: tl_writer where
  "writeTLBotVerifierSettings = write_fobject
     [(- 1328716265, [wf ''_'' writeInt32, wf_flags ''flags'' [(''can_modify_custom_description'',
         1), (''custom_description'', 0)], wf ''icon'' writeInt64, wf ''company'' writeString,
         wf_if ''flags'' 0 ''custom_description'' writeString])]"

definition TL_BotVerifierSettings_table :: flag_table where
  "TL_BotVerifierSettings_table =
     [(- 1328716265, [Flags ''flags'' [(''can_modify_custom_description'', 1),
         (''custom_description'', 0)],
        TrueBit ''flags'' 1 ''can_modify_custom_description'',
        Plain (''icon'', readInt64, writeInt64, enc_int64, is_VLong),
        Plain (''company'', readString, writeString, enc_string, is_short_text),
        Cond ''flags'' 0 (''custom_description'', readString, writeString, enc_string,
         is_short_text)])]"

interpretation tl_BotVerifierSettings: tl_codec readTLBotVerifierSettings writeTLBotVerifierSettings "enc_fobject TL_BotVerifierSettings_table" "ok_fobject TL_BotVerifierSettings_table"
  by (rule flag_schema_codec, unfold TL_BotVerifierSettings_table_def, intro flag_tableI)
    (simp_all add: readTLBotVerifierSettings_def writeTLBotVerifierSettings_def flag_schema_simps)

definition readTLBotVerification :: tl_reader where
  "readTLBotVerification = read_object
     [(- 113453988, [rd ''bot_id'' readInt64, rd ''icon'' readInt64,
         rd ''description'' readString])]"

definition writeTLBotVerification :: tl_writer where
  "writeTLBotVerification = write_fobject
     [(- 113453988, [wf ''_'' writeInt32, wf ''bot_id'' writeInt64, wf ''icon'' writeInt64,
         wf ''description'' writeString])]"

definition TL_BotVerification_table :: flag_table where
  "TL_BotVerification_table =
     [(- 113453988, [Plain (''bot_id'', readInt64, writeInt64, enc_int64, is_VLong),
        Plain (''icon'', readInt64, writeInt64, enc_int64, is_VLong),
        Plain (''description'', readString, writeString, enc_string, is_short_text)])]"

interpretation tl_BotVerification: tl_codec readTLBotVerification writeTLBotVerification "enc_fobject TL_BotVerification_table" "ok_fobject TL_BotVerification_table"
  by (rule flag_schema_codec, unfold TL_BotVerification_table_def, intro flag_tableI)
    (simp_all add: readTLBotVerification_def writeTLBotVerification_def flag_schema_simps)

definition readTLUsersUsers :: tl_reader where
  "readTLUsersUsers = read_object
     [(1658259128, [rd ''users'' (readVector (Some readTLUser))]),
      (828000628, [rd ''count'' readInt32, rd ''users'' (readVector (Some readTLUser))])]"

definition writeTLUsersUsers :: tl_writer where
  "writeTLUsersUsers = write_fobject
     [(1658259128, [wf ''_'' writeInt32, wf ''users'' (writeVector (Some writeTLUser))]),
      (828000628, [wf ''_'' writeInt32, wf ''count'' writeInt32,
         wf ''users'' (writeVector (Some writeTLUser))])]"

definition TL_UsersUsers_table :: flag_table where
  "TL_UsersUsers_table =
     [(1658259128, [Plain (''users'', readVector (Some readTLUser), writeVector (Some writeTLUser),
         enc_vector (enc_fobject TL_User_table), ok_vector (ok_fobject TL_User_table))]),
      (828000628, [Plain (''count'', readInt32, writeInt32, enc_int32, is_VInt),
        Plain (''users'', readVector (Some readTLUser), writeVector (Some writeTLUser),
         enc_vector (enc_fobject TL_User_table), ok_vector (ok_fobject TL_User_table))])]"

interpretation tl_UsersUsers: tl_codec readTLUsersUsers writeTLUsersUsers "enc_fobject TL_UsersUsers_table" "ok_fobject TL_UsersUsers_table"
  by (rule flag_schema_codec, unfold TL_UsersUsers_table_def, intro flag_tableI)
    (simp_all add: readTLUsersUsers_def writeTLUsersUsers_def flag_schema_simps tl_User.tl_codec_axioms tl_User.vector_codec)

definition readTLPaymentsStarGiftWithdrawalUrl :: tl_reader where
  "readTLPaymentsStarGiftWithdrawalUrl = read_object
     [(- 2069218660, [rd ''url'' readString])]"

definition writeTLPaymentsStarGiftWithdrawalUrl :: tl_writer where
  "writeTLPaymentsStarGiftWithdrawalUrl = write_fobject
     [(- 2069218660, [wf ''_'' writeInt32, wf ''url'' writeString])]"

definition TL_PaymentsStarGiftWithdrawalUrl_table :: flag_table where
  "TL_PaymentsStarGiftWithdrawalUrl_table =
     [(- 2069218660, [Plain (''url'', readString, writeString, enc_string, is_short_text)])]"

interpretation tl_PaymentsStarGiftWithdrawalUrl: tl_codec readTLPaymentsStarGiftWithdrawalUrl writeTLPaymentsStarGiftWithdrawalUrl "enc_fobject TL_PaymentsStarGiftWithdrawalUrl_table" "ok_fobject TL_PaymentsStarGiftWithdrawalUrl_table"
  by (rule flag_schema_codec, unfold TL_PaymentsStarGiftWithdrawalUrl_table_def, intro flag_tableI)
    (simp_all add: readTLPaymentsStarGiftWithdrawalUrl_def writeTLPaymentsStarGiftWithdrawalUrl_def flag_schema_simps)

definition readTLPaidReactionPrivacy :: tl_reader where
  "readTLPaidReactionPrivacy = read_object
     [(543872158, []),
      (520887001, []),
      (- 596837136, [rd ''peer'' readTLInputPeer])]"

definition writeTLPaidReactionPrivacy :: tl_writer where
  "writeTLPaidReactionPrivacy = write_fobject
     [(543872158, [wf ''_'' writeInt32]),
      (520887001, [wf ''_'' writeInt32]),
      (- 596837136, [wf ''_'' writeInt32, wf ''peer'' writeTLInputPeer])]"

definition TL_PaidReactionPrivacy_table :: flag_table where
  "TL_PaidReactionPrivacy_table =
     [(543872158, []),
      (520887001, []),
      (- 596837136, [Plain (''peer'', readTLInputPeer, writeTLInputPeer, enc_InputPeer,
         ok_InputPeer)])]"

interpretation tl_PaidReactionPrivacy: tl_codec readTLPaidReactionPrivacy writeTLPaidReactionPrivacy "enc_fobject TL_PaidReactionPrivacy_table" "ok_fobject TL_PaidReactionPrivacy_table"
  by (rule flag_schema_codec, unfold TL_PaidReactionPrivacy_table_def, intro flag_tableI)
    (simp_all add: readTLPaidReactionPrivacy_def writeTLPaidReactionPrivacy_def flag_schema_simps tl_InputPeer.tl_codec_axioms)

definition readTLAccountPaidMessagesRevenue :: tl_reader where
  "readTLAccountPaidMessagesRevenue = read_object
     [(504403720, [rd ''stars_amount'' readInt64])]"

definition writeTLAccountPaidMessagesRevenue :: tl_writer where
  "writeTLAccountPaidMessagesRevenue = write_fobject
     [(504403720, [wf ''_'' writeInt32, wf ''stars_amount'' writeInt64])]"

definition TL_AccountPaidMessagesRevenue_table :: flag_table where
  "TL_AccountPaidMessagesRevenue_table =
     [(504403720, [Plain (''stars_amount'', readInt64, writeInt64, enc_int64, is_VLong)])]"

interpretation tl_AccountPaidMessagesRevenue: tl_codec readTLAccountPaidMessagesRevenue writeTLAccountPaidMessagesRevenue "enc_fobject TL_AccountPaidMessagesRevenue_table" "ok_fobject TL_AccountPaidMessagesRevenue_table"
  by (rule flag_schema_codec, unfold TL_AccountPaidMessagesRevenue_table_def, intro flag_tableI)
    (simp_all add: readTLAccountPaidMessagesRevenue_def writeTLAccountPaidMessagesRevenue_def flag_schema_simps)

definition readTLRequirementToContact :: tl_reader where
  "readTLRequirementToContact = read_object
     [(84580409, []),
      (- 444472087, []),
      (- 1258914157, [rd ''stars_amount'' readInt64])]"

definition writeTLRequirementToContact :: tl_writer where
  "writeTLRequirementToContact = write_fobject
     [(84580409, [wf ''_'' writeInt32]),
      (- 444472087, [wf ''_'' writeInt32]),
      (- 1258914157, [wf ''_'' writeInt32, wf ''stars_amount'' writeInt64])]"

definition TL_RequirementToContact_table :: flag_table where
  "TL_RequirementToContact_table =
     [(84580409, []),
      (- 444472087, []),
      (- 1258914157, [Plain (''stars_amount'', readInt64, writeInt64, enc_int64, is_VLong)])]"

interpretation tl_RequirementToContact: tl_codec readTLRequirementToContact writeTLRequirementToContact "enc_fobject TL_RequirementToContact_table" "ok_fobject TL_RequirementToContact_table"
  by (rule flag_schema_codec, unfold TL_RequirementToContact_table_def, intro flag_tableI)
    (simp_all add: readTLRequirementToContact_def writeTLRequirementToContact_def flag_schema_simps)

definition readTLSponsoredPeer :: tl_reader where
  "readTLSponsoredPeer = read_object
     [(- 963180333, [rd ''flags'' readUInt32, rd ''random_id'' readByteArray,
         rd ''peer'' readTLPeer, rd_if ''flags'' 0 ''sponsor_info'' readString,
         rd_if ''flags'' 1 ''additional_info'' readString])]"

definition writeTLSponsoredPeer :: tl_writer where
  "writeTLSponsoredPeer = write_fobject
     [(- 963180333, [wf ''_'' writeInt32, wf_flags ''flags'' [(''sponsor_info'', 0),
         (''additional_info'', 1)], wf ''random_id'' writeByteArray, wf ''peer'' writeTLPeer,
         wf_if ''flags'' 0 ''sponsor_info'' writeString,
         wf_if ''flags'' 1 ''additional_info'' writeString])]"

definition TL_SponsoredPeer_table :: flag_table where
  "TL_SponsoredPeer_table =
     [(- 963180333, [Flags ''flags'' [(''sponsor_info'', 0), (''additional_info'', 1)],
        Plain (''random_id'', readByteArray, writeByteArray, enc_bytes, is_short_bytes),
        Plain (''peer'', readTLPeer, writeTLPeer, enc_fobject TL_Peer_table,
         ok_fobject TL_Peer_table),
        Cond ''flags'' 0 (''sponsor_info'', readString, writeString, enc_string, is_short_text),
        Cond ''flags'' 1 (''additional_info'', readString, writeString, enc_string,
         is_short_text)])]"

interpretation tl_SponsoredPeer: tl_codec readTLSponsoredPeer writeTLSponsoredPeer "enc_fobject TL_SponsoredPeer_table" "ok_fobject TL_SponsoredPeer_table"
  by (rule flag_schema_codec, unfold TL_SponsoredPeer_table_def, intro flag_tableI)
    (simp_all add: readTLSponsoredPeer_def writeTLSponsoredPeer_def flag_schema_simps tl_Peer.tl_codec_axioms)

definition readTLContactsSponsoredPeers :: tl_reader where
  "readTLContactsSponsoredPeers = read_object
     [(- 365775695, []),
      (- 352114556, [rd ''peers'' (readVector (Some readTLSponsoredPeer)),
         rd ''chats'' (readVector (Some readTLChat)),
         rd ''users'' (readVector (Some readTLUser))])]"

definition writeTLContactsSponsoredPeers :: tl_writer where
  "writeTLContactsSponsoredPeers = write_fobject
     [(- 365775695, [wf ''_'' writeInt32]),
      (- 352114556, [wf ''_'' writeInt32, wf ''peers'' (writeVector (Some writeTLSponsoredPeer)),
         wf ''chats'' (writeVector (Some writeTLChat)),
         wf ''users'' (writeVector (Some writeTLUser))])]"

definition TL_ContactsSponsoredPeers_table :: flag_table where
  "TL_ContactsSponsoredPeers_table =
     [(- 365775695, []),
      (- 352114556, [Plain (''peers'', readVector (Some readTLSponsoredPeer),
         writeVector (Some writeTLSponsoredPeer), enc_vector (enc_fobject TL_SponsoredPeer_table),
         ok_vector (ok_fobject TL_SponsoredPeer_table)),
        Plain (''chats'', readVector (Some readTLChat), writeVector (Some writeTLChat),
         enc_vector (enc_fobject TL_Chat_table), ok_vector (ok_fobject TL_Chat_table)),
        Plain (''users'', readVector (Some readTLUser), writeVector (Some writeTLUser),
         enc_vector (enc_fobject TL_User_table), ok_vector (ok_fobject TL_User_table))])]"

interpretation tl_ContactsSponsoredPeers: tl_codec readTLContactsSponsoredPeers writeTLContactsSponsoredPeers "enc_fobject TL_ContactsSponsoredPeers_table" "ok_fobject TL_ContactsSponsoredPeers_table"
  by (rule flag_schema_codec, unfold TL_ContactsSponsoredPeers_table_def, intro flag_tableI)
    (simp_all add: readTLContactsSponsoredPeers_def writeTLContactsSponsoredPeers_def flag_schema_simps tl_SponsoredPeer.tl_codec_axioms tl_SponsoredPeer.vector_codec tl_Chat.tl_codec_axioms tl_Chat.vector_codec tl_User.tl_codec_axioms tl_User.vector_codec)

definition readTLStarGiftAttributeId :: tl_reader where
  "readTLStarGiftAttributeId = read_object
     [(1219145276, [rd ''document_id'' readInt64]),
      (1242965043, [rd ''document_id'' readInt64]),
      (520210263, [rd ''backdrop_id'' readInt32])]"

definition writeTLStarGiftAttributeId :: tl_writer where
  "writeTLStarGiftAttributeId = write_fobject
     [(1219145276, [wf ''_'' writeInt32, wf ''document_id'' writeInt64]),
      (1242965043, [wf ''_'' writeInt32, wf ''document_id'' writeInt64]),
      (520210263, [wf ''_'' writeInt32, wf ''backdrop_id'' writeInt32])]"

definition TL_StarGiftAttributeId_table :: flag_table where
  "TL_StarGiftAttributeId_table =
     [(1219145276, [Plain (''document_id'', readInt64, writeInt64, enc_int64, is_VLong)]),
      (1242965043, [Plain (''document_id'', readInt64, writeInt64, enc_int64, is_VLong)]),
      (520210263, [Plain (''backdrop_id'', readInt32, writeInt32, enc_int32, is_VInt)])]"

interpretation tl_StarGiftAttributeId: tl_codec readTLStarGiftAttributeId writeTLStarGiftAttributeId "enc_fobject TL_StarGiftAttributeId_table" "ok_fobject TL_StarGiftAttributeId_table"
  by (rule flag_schema_codec, unfold TL_StarGiftAttributeId_table_def, intro flag_tableI)
    (simp_all add: readTLStarGiftAttributeId_def writeTLStarGiftAttributeId_def flag_schema_simps)

definition readTLStarGiftAttributeCounter :: tl_reader where
  "readTLStarGiftAttributeCounter = read_object
     [(783398488, [rd ''attribute'' readTLStarGiftAttributeId, rd ''count'' readInt32])]"

definition writeTLStarGiftAttributeCounter :: tl_writer where
  "writeTLStarGiftAttributeCounter = write_fobject
     [(783398488, [wf ''_'' writeInt32, wf ''attribute'' writeTLStarGiftAttributeId,
         wf ''count'' writeInt32])]"

definition TL_StarGiftAttributeCounter_table :: flag_table where
  "TL_StarGiftAttributeCounter_table =
     [(783398488, [Plain (''attribute'', readTLStarGiftAttributeId, writeTLStarGiftAttributeId,
         enc_fobject TL_StarGiftAttributeId_table, ok_fobject TL_StarGiftAttributeId_table),
        Plain (''count'', readInt32, writeInt32, enc_int32, is_VInt)])]"

interpretation tl_StarGiftAttributeCounter: tl_codec readTLStarGiftAttributeCounter writeTLStarGiftAttributeCounter "enc_fobject TL_StarGiftAttributeCounter_table" "ok_fobject TL_StarGiftAttributeCounter_table"
  by (rule flag_schema_codec, unfold TL_StarGiftAttributeCounter_table_def, intro flag_tableI)
    (simp_all add: readTLStarGiftAttributeCounter_def writeTLStarGiftAttributeCounter_def flag_schema_simps tl_StarGiftAttributeId.tl_codec_axioms)

definition readTLStoriesCanSendStoryCount :: tl_reader where
  "readTLStoriesCanSendStoryCount = read_object
     [(- 1014513586, [rd ''count_remains'' readInt32])]"

definition writeTLStoriesCanSendStoryCount :: tl_writer where
  "writeTLStoriesCanSendStoryCount = write_fobject
     [(- 1014513586, [wf ''_'' writeInt32, wf ''count_remains'' writeInt32])]"

definition TL_StoriesCanSendStoryCount_table :: flag_table where
  "TL_StoriesCanSendStoryCount_table =
     [(- 1014513586, [Plain (''count_remains'', readInt32, writeInt32, enc_int32, is_VInt)])]"

interpretation tl_StoriesCanSendStoryCount: tl_codec readTLStoriesCanSendStoryCount writeTLStoriesCanSendStoryCount "enc_fobject TL_StoriesCanSendStoryCount_table" "ok_fobject TL_StoriesCanSendStoryCount_table"
  by (rule flag_schema_codec, unfold TL_StoriesCanSendStoryCount_table_def, intro flag_tableI)
    (simp_all add: readTLStoriesCanSendStoryCount_def writeTLStoriesCanSendStoryCount_def flag_schema_simps)

definition readTLTodoItem :: tl_reader where
  "readTLTodoItem = read_object
     [(- 878074577, [rd ''id'' readInt32, rd ''title'' readTLTextWithEntities])]"

definition writeTLTodoItem :: tl_writer where
  "writeTLTodoItem = write_fobject
     [(- 878074577, [wf ''_'' writeInt32, wf ''id'' writeInt32,
         wf ''title'' writeTLTextWithEntities])]"

definition TL_TodoItem_table :: flag_table where
  "TL_TodoItem_table =
     [(- 878074577, [Plain (''id'', readInt32, writeInt32, enc_int32, is_VInt),
        Plain (''title'', readTLTextWithEntities, writeTLTextWithEntities,
         enc_fobject TL_TextWithEntities_table, ok_fobject TL_TextWithEntities_table)])]"

interpretation tl_TodoItem: tl_codec readTLTodoItem writeTLTodoItem "enc_fobject TL_TodoItem_table" "ok_fobject TL_TodoItem_table"
  by (rule flag_schema_codec, unfold TL_TodoItem_table_def, intro flag_tableI)
    (simp_all add: readTLTodoItem_def writeTLTodoItem_def flag_schema_simps tl_TextWithEntities.tl_codec_axioms)

definition readTLTodoList :: tl_reader where
  "readTLTodoList = read_object
     [(1236871718, [rd ''flags'' readUInt32, set_if ''flags'' 0 ''others_can_append'',
         set_if ''flags'' 1 ''others_can_complete'', rd ''title'' readTLTextWithEntities,
         rd ''list'' (readVector (Some readTLTodoItem))])]"

definition writeTLTodoList :: tl_writer where
  "writeTLTodoList = write_fobject
     [(1236871718, [wf ''_'' writeInt32, wf_flags ''flags'' [(''others_can_append'', 0),
         (''others_can_complete'', 1)], wf ''title'' writeTLTextWithEntities,
         wf ''list'' (writeVector (Some writeTLTodoItem))])]"

definition TL_TodoList_table :: flag_table where
  "TL_TodoList_table =
     [(1236871718, [Flags ''flags'' [(''others_can_append'', 0), (''others_can_complete'', 1)],
        TrueBit ''flags'' 0 ''others_can_append'',
        TrueBit ''flags'' 1 ''others_can_complete'',
        Plain (''title'', readTLTextWithEntities, writeTLTextWithEntities,
         enc_fobject TL_TextWithEntities_table, ok_fobject TL_TextWithEntities_table),
        Plain (''list'', readVector (Some readTLTodoItem), writeVector (Some writeTLTodoItem),
         enc_vector (enc_fobject TL_TodoItem_table), ok_vector (ok_fobject TL_TodoItem_table))])]"

interpretation tl_TodoList: tl_codec readTLTodoList writeTLTodoList "enc_fobject TL_TodoList_table" "ok_fobject TL_TodoList_table"
  by (rule flag_schema_codec, unfold TL_TodoList_table_def, intro flag_tableI)
    (simp_all add: readTLTodoList_def writeTLTodoList_def flag_schema_simps tl_TextWithEntities.tl_codec_axioms tl_TextWithEntities.vector_codec tl_TodoItem.tl_codec_axioms tl_TodoItem.vector_codec)

definition readTLTodoCompletion :: tl_reader where
  "readTLTodoCompletion = read_object
     [(572241380, [rd ''id'' readInt32, rd ''completed_by'' readTLPeer, rd ''date'' readInt32])]"

definition writeTLTodoCompletion :: tl_writer where
  "writeTLTodoCompletion = write_fobject
     [(572241380, [wf ''_'' writeInt32, wf ''id'' writeInt32, wf ''completed_by'' writeTLPeer,
         wf ''date'' writeInt32])]"

definition TL_TodoCompletion_table :: flag_table where
  "TL_TodoCompletion_table =
     [(572241380, [Plain (''id'', readInt32, writeInt32, enc_int32, is_VInt),
        Plain (''completed_by'', readTLPeer, writeTLPeer, enc_fobject TL_Peer_table,
         ok_fobject TL_Peer_table),
        Plain (''date'', readInt32, writeInt32, enc_int32, is_VInt)])]"

interpretation tl_TodoCompletion: tl_codec readTLTodoCompletion writeTLTodoCompletion "enc_fobject TL_TodoCompletion_table" "ok_fobject TL_TodoCompletion_table"
  by (rule flag_schema_codec, unfold TL_TodoCompletion_table_def, intro flag_tableI)
    (simp_all add: readTLTodoCompletion_def writeTLTodoCompletion_def flag_schema_simps tl_Peer.tl_codec_axioms)

definition readTLSuggestedPost :: tl_reader where
  "readTLSuggestedPost = read_object
     [(244201445, [rd ''flags'' readUInt32, set_if ''flags'' 1 ''accepted'',
         set_if ''flags'' 2 ''rejected'', rd_if ''flags'' 3 ''price'' readTLStarsAmount,
         rd_if ''flags'' 0 ''schedule_date'' readInt32])]"

definition writeTLSuggestedPost :: tl_writer where
  "writeTLSuggestedPost = write_fobject
     [(244201445, [wf ''_'' writeInt32, wf_flags ''flags'' [(''accepted'', 1), (''rejected'', 2),
         (''price'', 3), (''schedule_date'', 0)], wf_if ''flags'' 3 ''price'' writeTLStarsAmount,
         wf_if ''flags'' 0 ''schedule_date'' writeInt32])]"

definition TL_SuggestedPost_table :: flag_table where
  "TL_SuggestedPost_table =
     [(244201445, [Flags ''flags'' [(''accepted'', 1), (''rejected'', 2), (''price'', 3),
         (''schedule_date'', 0)],
        TrueBit ''flags'' 1 ''accepted'',
        TrueBit ''flags'' 2 ''rejected'',
        Cond ''flags'' 3 (''price'', readTLStarsAmount, writeTLStarsAmount,
         enc_fobject TL_StarsAmount_table, ok_fobject TL_StarsAmount_table),
        Cond ''flags'' 0 (''schedule_date'', readInt32, writeInt32, enc_int32, is_VInt)])]"

interpretation tl_SuggestedPost: tl_codec readTLSuggestedPost writeTLSuggestedPost "enc_fobject TL_SuggestedPost_table" "ok_fobject TL_SuggestedPost_table"
  by (rule flag_schema_codec, unfold TL_SuggestedPost_table_def, intro flag_tableI)
    (simp_all add: readTLSuggestedPost_def writeTLSuggestedPost_def flag_schema_simps tl_StarsAmount.tl_codec_axioms)

definition readTLStarsRating :: tl_reader where
  "readTLStarsRating = read_object
     [(453922567, [rd ''flags'' readUInt32, rd ''level'' readInt32,
         rd ''current_level_stars'' readInt64, rd ''stars'' readInt64,
         rd_if ''flags'' 0 ''next_level_stars'' readInt64])]"

definition writeTLStarsRating :: tl_writer where
  "writeTLStarsRating = write_fobject
     [(453922567, [wf ''_'' writeInt32, wf_flags ''flags'' [(''next_level_stars'', 0)],
         wf ''level'' writeInt32, wf ''current_level_stars'' writeInt64, wf ''stars'' writeInt64,
         wf_if ''flags'' 0 ''next_level_stars'' writeInt64])]"

definition TL_StarsRating_table :: flag_table where
  "TL_StarsRating_table =
     [(453922567, [Flags ''flags'' [(''next_level_stars'', 0)],
        Plain (''level'', readInt32, writeInt32, enc_int32, is_VInt),
        Plain (''current_level_stars'', readInt64, writeInt64, enc_int64, is_VLong),
        Plain (''stars'', readInt64, writeInt64, enc_int64, is_VLong),
        Cond ''flags'' 0 (''next_level_stars'', readInt64, writeInt64, enc_int64, is_VLong)])]"

interpretation tl_StarsRating: tl_codec readTLStarsRating writeTLStarsRating "enc_fobject TL_StarsRating_table" "ok_fobject TL_StarsRating_table"
  by (rule flag_schema_codec, unfold TL_StarsRating_table_def, intro flag_tableI)
    (simp_all add: readTLStarsRating_def writeTLStarsRating_def flag_schema_simps)

definition readTLSearchPostsFlood :: tl_reader where
  "readTLSearchPostsFlood = read_object
     [(1040931690, [rd ''flags'' readUInt32, set_if ''flags'' 0 ''query_is_free'',
         rd ''total_daily'' readInt32, rd ''remains'' readInt32,
         rd_if ''flags'' 1 ''wait_till'' readInt32, rd ''stars_amount'' readInt64])]"

definition writeTLSearchPostsFlood :: tl_writer where
  "writeTLSearchPostsFlood = write_fobject
     [(1040931690, [wf ''_'' writeInt32, wf_flags ''flags'' [(''query_is_free'', 0),
         (''wait_till'', 1)], wf ''total_daily'' writeInt32, wf ''remains'' writeInt32,
         wf_if ''flags'' 1 ''wait_till'' writeInt32, wf ''stars_amount'' writeInt64])]"

definition TL_SearchPostsFlood_table :: flag_table where
  "TL_SearchPostsFlood_table =
     [(1040931690, [Flags ''flags'' [(''query_is_free'', 0), (''wait_till'', 1)],
        TrueBit ''flags'' 0 ''query_is_free'',
        Plain (''total_daily'', readInt32, writeInt32, enc_int32, is_VInt),
        Plain (''remains'', readInt32, writeInt32, enc_int32, is_VInt),
        Cond ''flags'' 1 (''wait_till'', readInt32, writeInt32, enc_int32, is_VInt),
        Plain (''stars_amount'', readInt64, writeInt64, enc_int64, is_VLong)])]"

interpretation tl_SearchPostsFlood: tl_codec readTLSearchPostsFlood writeTLSearchPostsFlood "enc_fobject TL_SearchPostsFlood_table" "ok_fobject TL_SearchPostsFlood_table"
  by (rule flag_schema_codec, unfold TL_SearchPostsFlood_table_def, intro flag_tableI)
    (simp_all add: readTLSearchPostsFlood_def writeTLSearchPostsFlood_def flag_schema_simps)

definition readTLPaymentsUniqueStarGiftValueInfo :: tl_reader where
  "readTLPaymentsUniqueStarGiftValueInfo = read_object
     [(1362093126, [rd ''flags'' readUInt32, set_if ''flags'' 1 ''last_sale_on_fragment'',
         set_if ''flags'' 6 ''value_is_average'', rd ''currency'' readString,
         rd ''value'' readInt64, rd ''initial_sale_date'' readInt32,
         rd ''initial_sale_stars'' readInt64, rd ''initial_sale_price'' readInt64,
         rd_if ''flags'' 0 ''last_sale_date'' readInt32,
         rd_if ''flags'' 0 ''last_sale_price'' readInt64,
         rd_if ''flags'' 2 ''floor_price'' readInt64,
         rd_if ''flags'' 3 ''average_price'' readInt64,
         rd_if ''flags'' 4 ''listed_count'' readInt32,
         rd_if ''flags'' 5 ''fragment_listed_count'' readInt32,
         rd_if ''flags'' 5 ''fragment_listed_url'' readString])]"

definition writeTLPaymentsUniqueStarGiftValueInfo :: tl_writer where
  "writeTLPaymentsUniqueStarGiftValueInfo = write_fobject
     [(1362093126, [wf ''_'' writeInt32, wf_flags ''flags'' [(''last_sale_on_fragment'', 1),
         (''value_is_average'', 6), (''last_sale_date'', 0), (''last_sale_price'', 0),
         (''floor_price'', 2), (''average_price'', 3), (''listed_count'', 4),
         (''fragment_listed_count'', 5), (''fragment_listed_url'', 5)],
         wf ''currency'' writeString, wf ''value'' writeInt64, wf ''initial_sale_date'' writeInt32,
         wf ''initial_sale_stars'' writeInt64, wf ''initial_sale_price'' writeInt64,
         wf_if ''flags'' 0 ''last_sale_date'' writeInt32,
         wf_if ''flags'' 0 ''last_sale_price'' writeInt64,
         wf_if ''flags'' 2 ''floor_price'' writeInt64,
         wf_if ''flags'' 3 ''average_price'' writeInt64,
         wf_if ''flags'' 4 ''listed_count'' writeInt32,
         wf_if ''flags'' 5 ''fragment_listed_count'' writeInt32,
         wf_if ''flags'' 5 ''fragment_listed_url'' writeString])]"

definition TL_PaymentsUniqueStarGiftValueInfo_table :: flag_table where
  "TL_PaymentsUniqueStarGiftValueInfo_table =
     [(1362093126, [Flags ''flags'' [(''last_sale_on_fragment'', 1), (''value_is_average'', 6),
         (''last_sale_date'', 0), (''last_sale_price'', 0), (''floor_price'', 2),
         (''average_price'', 3), (''listed_count'', 4), (''fragment_listed_count'', 5),
         (''fragment_listed_url'', 5)],
        TrueBit ''flags'' 1 ''last_sale_on_fragment'',
        TrueBit ''flags'' 6 ''value_is_average'',
        Plain (''currency'', readString, writeString, enc_string, is_short_text),
        Plain (''value'', readInt64, writeInt64, enc_int64, is_VLong),
        Plain (''initial_sale_date'', readInt32, writeInt32, enc_int32, is_VInt),
        Plain (''initial_sale_stars'', readInt64, writeInt64, enc_int64, is_VLong),
        Plain (''initial_sale_price'', readInt64, writeInt64, enc_int64, is_VLong),
        Cond ''flags'' 0 (''last_sale_date'', readInt32, writeInt32, enc_int32, is_VInt),
        Cond ''flags'' 0 (''last_sale_price'', readInt64, writeInt64, enc_int64, is_VLong),
        Cond ''flags'' 2 (''floor_price'', readInt64, writeInt64, enc_int64, is_VLong),
        Cond ''flags'' 3 (''average_price'', readInt64, writeInt64, enc_int64, is_VLong),
        Cond ''flags'' 4 (''listed_count'', readInt32, writeInt32, enc_int32, is_VInt),
        Cond ''flags'' 5 (''fragment_listed_count'', readInt32, writeInt32, enc_int32, is_VInt),
        Cond ''flags'' 5 (''fragment_listed_url'', readString, writeString, enc_string,
         is_short_text)])]"

interpretation tl_PaymentsUniqueStarGiftValueInfo: tl_codec readTLPaymentsUniqueStarGiftValueInfo writeTLPaymentsUniqueStarGiftValueInfo "enc_fobject TL_PaymentsUniqueStarGiftValueInfo_table" "ok_fobject TL_PaymentsUniqueStarGiftValueInfo_table"
  by (rule flag_schema_codec, unfold TL_PaymentsUniqueStarGiftValueInfo_table_def, intro flag_tableI)
    (simp_all add: readTLPaymentsUniqueStarGiftValueInfo_def writeTLPaymentsUniqueStarGiftValueInfo_def flag_schema_simps)

definition readTLProfileTab :: tl_reader where
  "readTLProfileTab = read_object
     [(- 1181952362, []),
      (1296815210, []),
      (1925597525, []),
      (- 1422681088, []),
      (- 1624780178, []),
      (- 461960914, []),
      (- 748329831, []),
      (- 1564412267, [])]"

definition writeTLProfileTab :: tl_writer where
  "writeTLProfileTab = write_fobject
     [(- 1181952362, [wf ''_'' writeInt32]),
      (1296815210, [wf ''_'' writeInt32]),
      (1925597525, [wf ''_'' writeInt32]),
      (- 1422681088, [wf ''_'' writeInt32]),
      (- 1624780178, [wf ''_'' writeInt32]),
      (- 461960914, [wf ''_'' writeInt32]),
      (- 748329831, [wf ''_'' writeInt32]),
      (- 1564412267, [wf ''_'' writeInt32])]"

definition TL_ProfileTab_table :: flag_table where
  "TL_ProfileTab_table =
     [(- 1181952362, []),
      (1296815210, []),
      (1925597525, []),
      (- 1422681088, []),
      (- 1624780178, []),
      (- 461960914, []),
      (- 748329831, []),
      (- 1564412267, [])]"

interpretation tl_ProfileTab: tl_codec readTLProfileTab writeTLProfileTab "enc_fobject TL_ProfileTab_table" "ok_fobject TL_ProfileTab_table"
  by (rule flag_schema_codec, unfold TL_ProfileTab_table_def, intro flag_tableI)
    (simp_all add: readTLProfileTab_def writeTLProfileTab_def flag_schema_simps)

subsection \<open>The types since the last list at once\<close>

definition tl_types_part9 :: "(tl_reader \<times> tl_writer \<times> flag_table) list" where
  "tl_types_part9 =
     [(readTLChannelsSponsoredMessageReportResult, writeTLChannelsSponsoredMessageReportResult, TL_ChannelsSponsoredMessageReportResult_table),
      (readTLReactionNotificationsFrom, writeTLReactionNotificationsFrom, TL_ReactionNotificationsFrom_table),
      (readTLReactionsNotifySettings, writeTLReactionsNotifySettings, TL_ReactionsNotifySettings_table),
      (readTLAvailableEffect, writeTLAvailableEffect, TL_AvailableEffect_table),
      (readTLFactCheck, writeTLFactCheck, TL_FactCheck_table),
      (readTLStarsTransactionPeer, writeTLStarsTransactionPeer, TL_StarsTransactionPeer_table),
      (readTLStarsTopupOption, writeTLStarsTopupOption, TL_StarsTopupOption_table),
      (readTLStarsAmount, writeTLStarsAmount, TL_StarsAmount_table),
      (readTLGeoPointAddress, writeTLGeoPointAddress, TL_GeoPointAddress_table),
      (readTLStarsRevenueStatus, writeTLStarsRevenueStatus, TL_StarsRevenueStatus_table),
      (readTLPaymentsStarsRevenueWithdrawalUrl, writeTLPaymentsStarsRevenueWithdrawalUrl, TL_PaymentsStarsRevenueWithdrawalUrl_table),
      (readTLPaymentsStarsRevenueAdsAccountUrl, writeTLPaymentsStarsRevenueAdsAccountUrl, TL_PaymentsStarsRevenueAdsAccountUrl_table),
      (readTLInputStarsTransaction, writeTLInputStarsTransaction, TL_InputStarsTransaction_table),
      (readTLStarsGiftOption, writeTLStarsGiftOption, TL_StarsGiftOption_table),
      (readTLBotsPopularAppBots, writeTLBotsPopularAppBots, TL_BotsPopularAppBots_table),
      (readTLStarsGiveawayWinnersOption, writeTLStarsGiveawayWinnersOption, TL_StarsGiveawayWinnersOption_table),
      (readTLStarsGiveawayOption, writeTLStarsGiveawayOption, TL_StarsGiveawayOption_table),
      (readTLMessageReportOption, writeTLMessageReportOption, TL_MessageReportOption_table),
      (readTLReportResult, writeTLReportResult, TL_ReportResult_table),
      (readTLMessagesBotPreparedInlineMessage, writeTLMessagesBotPreparedInlineMessage, TL_MessagesBotPreparedInlineMessage_table),
      (readTLBotAppSettings, writeTLBotAppSettings, TL_BotAppSettings_table),
      (readTLStarRefProgram, writeTLStarRefProgram, TL_StarRefProgram_table),
      (readTLConnectedBotStarRef, writeTLConnectedBotStarRef, TL_ConnectedBotStarRef_table),
      (readTLPaymentsConnectedStarRefBots, writeTLPaymentsConnectedStarRefBots, TL_PaymentsConnectedStarRefBots_table),
      (readTLPaymentsSuggestedStarRefBots, writeTLPaymentsSuggestedStarRefBots, TL_PaymentsSuggestedStarRefBots_table),
      (readTLBotVerifierSettings, writeTLBotVerifierSettings, TL_BotVerifierSettings_table),
      (readTLBotVerification, writeTLBotVerification, TL_BotVerification_table),
      (readTLUsersUsers, writeTLUsersUsers, TL_UsersUsers_table),
      (readTLPaymentsStarGiftWithdrawalUrl, writeTLPaymentsStarGiftWithdrawalUrl, TL_PaymentsStarGiftWithdrawalUrl_table),
      (readTLPaidReactionPrivacy, writeTLPaidReactionPrivacy, TL_PaidReactionPrivacy_table),
      (readTLAccountPaidMessagesRevenue, writeTLAccountPaidMessagesRevenue, TL_AccountPaidMessagesRevenue_table),
      (readTLRequirementToContact, writeTLRequirementToContact, TL_RequirementToContact_table),
      (readTLSponsoredPeer, writeTLSponsoredPeer, TL_SponsoredPeer_table),
      (readTLContactsSponsoredPeers, writeTLContactsSponsoredPeers, TL_ContactsSponsoredPeers_table),
      (readTLStarGiftAttributeId, writeTLStarGiftAttributeId, TL_StarGiftAttributeId_table),
      (readTLStarGiftAttributeCounter, writeTLStarGiftAttributeCounter, TL_StarGiftAttributeCounter_table),
      (readTLStoriesCanSendStoryCount, writeTLStoriesCanSendStoryCount, TL_StoriesCanSendStoryCount_table),
      (readTLTodoItem, writeTLTodoItem, TL_TodoItem_table),
      (readTLTodoList, writeTLTodoList, TL_TodoList_table),
      (readTLTodoCompletion, writeTLTodoCompletion, TL_TodoCompletion_table),
      (readTLSuggestedPost, writeTLSuggestedPost, TL_SuggestedPost_table),
      (readTLStarsRating, writeTLStarsRating, TL_StarsRating_table),
      (readTLSearchPostsFlood, writeTLSearchPostsFlood, TL_SearchPostsFlood_table),
      (readTLPaymentsUniqueStarGiftValueInfo, writeTLPaymentsUniqueStarGiftValueInfo, TL_PaymentsUniqueStarGiftValueInfo_table),
      (readTLProfileTab, writeTLProfileTab, TL_ProfileTab_table)]"

lemma tl_types_part9_codec: "(R, W, t) \<in> set tl_types_part9 \<Longrightarrow> tl_codec R W (enc_fobject t) (ok_fobject t)"
  by (auto simp: tl_types_part9_def
      intro: tl_ChannelsSponsoredMessageReportResult.tl_codec_axioms
         tl_ReactionNotificationsFrom.tl_codec_axioms tl_ReactionsNotifySettings.tl_codec_axioms
         tl_AvailableEffect.tl_codec_axioms tl_FactCheck.tl_codec_axioms
         tl_StarsTransactionPeer.tl_codec_axioms tl_StarsTopupOption.tl_codec_axioms
         tl_StarsAmount.tl_codec_axioms tl_GeoPointAddress.tl_codec_axioms
         tl_StarsRevenueStatus.tl_codec_axioms
         tl_PaymentsStarsRevenueWithdrawalUrl.tl_codec_axioms
         tl_PaymentsStarsRevenueAdsAccountUrl.tl_codec_axioms
         tl_InputStarsTransaction.tl_codec_axioms tl_StarsGiftOption.tl_codec_axioms
         tl_BotsPopularAppBots.tl_codec_axioms tl_StarsGiveawayWinnersOption.tl_codec_axioms
         tl_StarsGiveawayOption.tl_codec_axioms tl_MessageReportOption.tl_codec_axioms
         tl_ReportResult.tl_codec_axioms tl_MessagesBotPreparedInlineMessage.tl_codec_axioms
         tl_BotAppSettings.tl_codec_axioms tl_StarRefProgram.tl_codec_axioms
         tl_ConnectedBotStarRef.tl_codec_axioms tl_PaymentsConnectedStarRefBots.tl_codec_axioms
         tl_PaymentsSuggestedStarRefBots.tl_codec_axioms tl_BotVerifierSettings.tl_codec_axioms
         tl_BotVerification.tl_codec_axioms tl_UsersUsers.tl_codec_axioms
         tl_PaymentsStarGiftWithdrawalUrl.tl_codec_axioms tl_PaidReactionPrivacy.tl_codec_axioms
         tl_AccountPaidMessagesRevenue.tl_codec_axioms tl_RequirementToContact.tl_codec_axioms
         tl_SponsoredPeer.tl_codec_axioms tl_ContactsSponsoredPeers.tl_codec_axioms
         tl_StarGiftAttributeId.tl_codec_axioms tl_StarGiftAttributeCounter.tl_codec_axioms
         tl_StoriesCanSendStoryCount.tl_codec_axioms tl_TodoItem.tl_codec_axioms
         tl_TodoList.tl_codec_axioms tl_TodoCompletion.tl_codec_axioms
         tl_SuggestedPost.tl_codec_axioms tl_StarsRating.tl_codec_axioms
         tl_SearchPostsFlood.tl_codec_axioms tl_PaymentsUniqueStarGiftValueInfo.tl_codec_axioms
         tl_ProfileTab.tl_codec_axioms)

definition readTLAccountSavedMusicIds :: tl_reader where
  "readTLAccountSavedMusicIds = read_object
     [(1338514798, []),
      (- 1718786506, [rd ''ids'' (readVector (Some readInt64))])]"

definition writeTLAccountSavedMusicIds :: tl_writer where
  "writeTLAccountSavedMusicIds = write_fobject
     [(1338514798, [wf ''_'' writeInt32]),
      (- 1718786506, [wf ''_'' writeInt32, wf ''ids'' (writeVector (Some writeInt64))])]"

definition TL_AccountSavedMusicIds_table :: flag_table where
  "TL_AccountSavedMusicIds_table =
     [(1338514798, []),
      (- 1718786506, [Plain (''ids'', readVector (Some readInt64), writeVector (Some writeInt64),
         enc_vector enc_int64, ok_vector is_VLong)])]"

interpretation tl_AccountSavedMusicIds: tl_codec readTLAccountSavedMusicIds writeTLAccountSavedMusicIds "enc_fobject TL_AccountSavedMusicIds_table" "ok_fobject TL_AccountSavedMusicIds_table"
  by (rule flag_schema_codec, unfold TL_AccountSavedMusicIds_table_def, intro flag_tableI)
    (simp_all add: readTLAccountSavedMusicIds_def writeTLAccountSavedMusicIds_def flag_schema_simps)

definition readTLPaymentsCheckCanSendGiftResult :: tl_reader where
  "readTLPaymentsCheckCanSendGiftResult = read_object
     [(927967149, []),
      (- 706379148, [rd ''reason'' readTLTextWithEntities])]"

definition writeTLPaymentsCheckCanSendGiftResult :: tl_writer where
  "writeTLPaymentsCheckCanSendGiftResult = write_fobject
     [(927967149, [wf ''_'' writeInt32]),
      (- 706379148, [wf ''_'' writeInt32, wf ''reason'' writeTLTextWithEntities])]"

definition TL_PaymentsCheckCanSendGiftResult_table :: flag_table where
  "TL_PaymentsCheckCanSendGiftResult_table =
     [(927967149, []),
      (- 706379148, [Plain (''reason'', readTLTextWithEntities, writeTLTextWithEntities,
         enc_fobject TL_TextWithEntities_table, ok_fobject TL_TextWithEntities_table)])]"

interpretation tl_PaymentsCheckCanSendGiftResult: tl_codec readTLPaymentsCheckCanSendGiftResult writeTLPaymentsCheckCanSendGiftResult "enc_fobject TL_PaymentsCheckCanSendGiftResult_table" "ok_fobject TL_PaymentsCheckCanSendGiftResult_table"
  by (rule flag_schema_codec, unfold TL_PaymentsCheckCanSendGiftResult_table_def, intro flag_tableI)
    (simp_all add: readTLPaymentsCheckCanSendGiftResult_def writeTLPaymentsCheckCanSendGiftResult_def flag_schema_simps tl_TextWithEntities.tl_codec_axioms)

definition readTLInputChatTheme :: tl_reader where
  "readTLInputChatTheme = read_object
     [(- 2094627709, []),
      (- 918689444, [rd ''emoticon'' readString]),
      (- 2014978076, [rd ''slug'' readString])]"

definition writeTLInputChatTheme :: tl_writer where
  "writeTLInputChatTheme = write_fobject
     [(- 2094627709, [wf ''_'' writeInt32]),
      (- 918689444, [wf ''_'' writeInt32, wf ''emoticon'' writeString]),
      (- 2014978076, [wf ''_'' writeInt32, wf ''slug'' writeString])]"

definition TL_InputChatTheme_table :: flag_table where
  "TL_InputChatTheme_table =
     [(- 2094627709, []),
      (- 918689444, [Plain (''emoticon'', readString, writeString, enc_string, is_short_text)]),
      (- 2014978076, [Plain (''slug'', readString, writeString, enc_string, is_short_text)])]"

interpretation tl_InputChatTheme: tl_codec readTLInputChatTheme writeTLInputChatTheme "enc_fobject TL_InputChatTheme_table" "ok_fobject TL_InputChatTheme_table"
  by (rule flag_schema_codec, unfold TL_InputChatTheme_table_def, intro flag_tableI)
    (simp_all add: readTLInputChatTheme_def writeTLInputChatTheme_def flag_schema_simps)

definition readTLStarGiftUpgradePrice :: tl_reader where
  "readTLStarGiftUpgradePrice = read_object
     [(- 1712704739, [rd ''date'' readInt32, rd ''upgrade_stars'' readInt64])]"

definition writeTLStarGiftUpgradePrice :: tl_writer where
  "writeTLStarGiftUpgradePrice = write_fobject
     [(- 1712704739, [wf ''_'' writeInt32, wf ''date'' writeInt32,
         wf ''upgrade_stars'' writeInt64])]"

definition TL_StarGiftUpgradePrice_table :: flag_table where
  "TL_StarGiftUpgradePrice_table =
     [(- 1712704739, [Plain (''date'', readInt32, writeInt32, enc_int32, is_VInt),
        Plain (''upgrade_stars'', readInt64, writeInt64, enc_int64, is_VLong)])]"

interpretation tl_StarGiftUpgradePrice: tl_codec readTLStarGiftUpgradePrice writeTLStarGiftUpgradePrice "enc_fobject TL_StarGiftUpgradePrice_table" "ok_fobject TL_StarGiftUpgradePrice_table"
  by (rule flag_schema_codec, unfold TL_StarGiftUpgradePrice_table_def, intro flag_tableI)
    (simp_all add: readTLStarGiftUpgradePrice_def writeTLStarGiftUpgradePrice_def flag_schema_simps)

definition readTLGroupCallMessage :: tl_reader where
  "readTLGroupCallMessage = read_object
     [(445316222, [rd ''flags'' readUInt32, set_if ''flags'' 1 ''from_admin'', rd ''id'' readInt32,
         rd ''from_id'' readTLPeer, rd ''date'' readInt32, rd ''message'' readTLTextWithEntities,
         rd_if ''flags'' 0 ''paid_message_stars'' readInt64])]"

definition writeTLGroupCallMessage :: tl_writer where
  "writeTLGroupCallMessage = write_fobject
     [(445316222, [wf ''_'' writeInt32, wf_flags ''flags'' [(''from_admin'', 1),
         (''paid_message_stars'', 0)], wf ''id'' writeInt32, wf ''from_id'' writeTLPeer,
         wf ''date'' writeInt32, wf ''message'' writeTLTextWithEntities,
         wf_if ''flags'' 0 ''paid_message_stars'' writeInt64])]"

definition TL_GroupCallMessage_table :: flag_table where
  "TL_GroupCallMessage_table =
     [(445316222, [Flags ''flags'' [(''from_admin'', 1), (''paid_message_stars'', 0)],
        TrueBit ''flags'' 1 ''from_admin'',
        Plain (''id'', readInt32, writeInt32, enc_int32, is_VInt),
        Plain (''from_id'', readTLPeer, writeTLPeer, enc_fobject TL_Peer_table,
         ok_fobject TL_Peer_table),
        Plain (''date'', readInt32, writeInt32, enc_int32, is_VInt),
        Plain (''message'', readTLTextWithEntities, writeTLTextWithEntities,
         enc_fobject TL_TextWithEntities_table, ok_fobject TL_TextWithEntities_table),
        Cond ''flags'' 0 (''paid_message_stars'', readInt64, writeInt64, enc_int64, is_VLong)])]"

interpretation tl_GroupCallMessage: tl_codec readTLGroupCallMessage writeTLGroupCallMessage "enc_fobject TL_GroupCallMessage_table" "ok_fobject TL_GroupCallMessage_table"
  by (rule flag_schema_codec, unfold TL_GroupCallMessage_table_def, intro flag_tableI)
    (simp_all add: readTLGroupCallMessage_def writeTLGroupCallMessage_def flag_schema_simps tl_Peer.tl_codec_axioms tl_TextWithEntities.tl_codec_axioms)

definition readTLGroupCallDonor :: tl_reader where
  "readTLGroupCallDonor = read_object
     [(- 297595771, [rd ''flags'' readUInt32, set_if ''flags'' 0 ''top'',
         set_if ''flags'' 1 ''my'', rd_if ''flags'' 3 ''peer_id'' readTLPeer,
         rd ''stars'' readInt64])]"

definition writeTLGroupCallDonor :: tl_writer where
  "writeTLGroupCallDonor = write_fobject
     [(- 297595771, [wf ''_'' writeInt32, wf_flags ''flags'' [(''top'', 0), (''my'', 1),
         (''peer_id'', 3)], wf_if ''flags'' 3 ''peer_id'' writeTLPeer, wf ''stars'' writeInt64])]"

definition TL_GroupCallDonor_table :: flag_table where
  "TL_GroupCallDonor_table =
     [(- 297595771, [Flags ''flags'' [(''top'', 0), (''my'', 1), (''peer_id'', 3)],
        TrueBit ''flags'' 0 ''top'',
        TrueBit ''flags'' 1 ''my'',
        Cond ''flags'' 3 (''peer_id'', readTLPeer, writeTLPeer, enc_fobject TL_Peer_table,
         ok_fobject TL_Peer_table),
        Plain (''stars'', readInt64, writeInt64, enc_int64, is_VLong)])]"

interpretation tl_GroupCallDonor: tl_codec readTLGroupCallDonor writeTLGroupCallDonor "enc_fobject TL_GroupCallDonor_table" "ok_fobject TL_GroupCallDonor_table"
  by (rule flag_schema_codec, unfold TL_GroupCallDonor_table_def, intro flag_tableI)
    (simp_all add: readTLGroupCallDonor_def writeTLGroupCallDonor_def flag_schema_simps tl_Peer.tl_codec_axioms)

definition readTLPhoneGroupCallStars :: tl_reader where
  "readTLPhoneGroupCallStars = read_object
     [(- 1658995418, [rd ''total_stars'' readInt64,
         rd ''top_donors'' (readVector (Some readTLGroupCallDonor)),
         rd ''chats'' (readVector (Some readTLChat)),
         rd ''users'' (readVector (Some readTLUser))])]"

definition writeTLPhoneGroupCallStars :: tl_writer where
  "writeTLPhoneGroupCallStars = write_fobject
     [(- 1658995418, [wf ''_'' writeInt32, wf ''total_stars'' writeInt64,
         wf ''top_donors'' (writeVector (Some writeTLGroupCallDonor)),
         wf ''chats'' (writeVector (Some writeTLChat)),
         wf ''users'' (writeVector (Some writeTLUser))])]"

definition TL_PhoneGroupCallStars_table :: flag_table where
  "TL_PhoneGroupCallStars_table =
     [(- 1658995418, [Plain (''total_stars'', readInt64, writeInt64, enc_int64, is_VLong),
        Plain (''top_donors'', readVector (Some readTLGroupCallDonor),
         writeVector (Some writeTLGroupCallDonor),
         enc_vector (enc_fobject TL_GroupCallDonor_table),
         ok_vector (ok_fobject TL_GroupCallDonor_table)),
        Plain (''chats'', readVector (Some readTLChat), writeVector (Some writeTLChat),
         enc_vector (enc_fobject TL_Chat_table), ok_vector (ok_fobject TL_Chat_table)),
        Plain (''users'', readVector (Some readTLUser), writeVector (Some writeTLUser),
         enc_vector (enc_fobject TL_User_table), ok_vector (ok_fobject TL_User_table))])]"

interpretation tl_PhoneGroupCallStars: tl_codec readTLPhoneGroupCallStars writeTLPhoneGroupCallStars "enc_fobject TL_PhoneGroupCallStars_table" "ok_fobject TL_PhoneGroupCallStars_table"
  by (rule flag_schema_codec, unfold TL_PhoneGroupCallStars_table_def, intro flag_tableI)
    (simp_all add: readTLPhoneGroupCallStars_def writeTLPhoneGroupCallStars_def flag_schema_simps tl_GroupCallDonor.tl_codec_axioms tl_GroupCallDonor.vector_codec tl_Chat.tl_codec_axioms tl_Chat.vector_codec tl_User.tl_codec_axioms tl_User.vector_codec)

definition readTLAuctionBidLevel :: tl_reader where
  "readTLAuctionBidLevel = read_object
     [(822231244, [rd ''pos'' readInt32, rd ''amount'' readInt64, rd ''date'' readInt32])]"

definition writeTLAuctionBidLevel :: tl_writer where
  "writeTLAuctionBidLevel = write_fobject
     [(822231244, [wf ''_'' writeInt32, wf ''pos'' writeInt32, wf ''amount'' writeInt64,
         wf ''date'' writeInt32])]"

definition TL_AuctionBidLevel_table :: flag_table where
  "TL_AuctionBidLevel_table =
     [(822231244, [Plain (''pos'', readInt32, writeInt32, enc_int32, is_VInt),
        Plain (''amount'', readInt64, writeInt64, enc_int64, is_VLong),
        Plain (''date'', readInt32, writeInt32, enc_int32, is_VInt)])]"

interpretation tl_AuctionBidLevel: tl_codec readTLAuctionBidLevel writeTLAuctionBidLevel "enc_fobject TL_AuctionBidLevel_table" "ok_fobject TL_AuctionBidLevel_table"
  by (rule flag_schema_codec, unfold TL_AuctionBidLevel_table_def, intro flag_tableI)
    (simp_all add: readTLAuctionBidLevel_def writeTLAuctionBidLevel_def flag_schema_simps)

definition readTLStarGiftAuctionRound :: tl_reader where
  "readTLStarGiftAuctionRound = read_object
     [(984483112, [rd ''num'' readInt32, rd ''duration'' readInt32]),
      (178266597, [rd ''num'' readInt32, rd ''duration'' readInt32, rd ''extend_top'' readInt32,
         rd ''extend_window'' readInt32])]"

definition writeTLStarGiftAuctionRound :: tl_writer where
  "writeTLStarGiftAuctionRound = write_fobject
     [(984483112, [wf ''_'' writeInt32, wf ''num'' writeInt32, wf ''duration'' writeInt32]),
      (178266597, [wf ''_'' writeInt32, wf ''num'' writeInt32, wf ''duration'' writeInt32,
         wf ''extend_top'' writeInt32, wf ''extend_window'' writeInt32])]"

definition TL_StarGiftAuctionRound_table :: flag_table where
  "TL_StarGiftAuctionRound_table =
     [(984483112, [Plain (''num'', readInt32, writeInt32, enc_int32, is_VInt),
        Plain (''duration'', readInt32, writeInt32, enc_int32, is_VInt)]),
      (178266597, [Plain (''num'', readInt32, writeInt32, enc_int32, is_VInt),
        Plain (''duration'', readInt32, writeInt32, enc_int32, is_VInt),
        Plain (''extend_top'', readInt32, writeInt32, enc_int32, is_VInt),
        Plain (''extend_window'', readInt32, writeInt32, enc_int32, is_VInt)])]"

interpretation tl_StarGiftAuctionRound: tl_codec readTLStarGiftAuctionRound writeTLStarGiftAuctionRound "enc_fobject TL_StarGiftAuctionRound_table" "ok_fobject TL_StarGiftAuctionRound_table"
  by (rule flag_schema_codec, unfold TL_StarGiftAuctionRound_table_def, intro flag_tableI)
    (simp_all add: readTLStarGiftAuctionRound_def writeTLStarGiftAuctionRound_def flag_schema_simps)

definition readTLStarGiftAuctionState :: tl_reader where
  "readTLStarGiftAuctionState = read_object
     [(- 30197422, []),
      (1998212710, [rd ''version'' readInt32, rd ''start_date'' readInt32,
         rd ''end_date'' readInt32, rd ''min_bid_amount'' readInt64,
         rd ''bid_levels'' (readVector (Some readTLAuctionBidLevel)),
         rd ''top_bidders'' (readVector (Some readInt64)), rd ''next_round_at'' readInt32,
         rd ''last_gift_num'' readInt32, rd ''gifts_left'' readInt32,
         rd ''current_round'' readInt32, rd ''total_rounds'' readInt32,
         rd ''rounds'' (readVector (Some readTLStarGiftAuctionRound))]),
      (- 1758614593, [rd ''flags'' readUInt32, rd ''start_date'' readInt32,
         rd ''end_date'' readInt32, rd ''average_price'' readInt64,
         rd_if ''flags'' 0 ''listed_count'' readInt32,
         rd_if ''flags'' 1 ''fragment_listed_count'' readInt32,
         rd_if ''flags'' 1 ''fragment_listed_url'' readString])]"

definition writeTLStarGiftAuctionState :: tl_writer where
  "writeTLStarGiftAuctionState = write_fobject
     [(- 30197422, [wf ''_'' writeInt32]),
      (1998212710, [wf ''_'' writeInt32, wf ''version'' writeInt32, wf ''start_date'' writeInt32,
         wf ''end_date'' writeInt32, wf ''min_bid_amount'' writeInt64,
         wf ''bid_levels'' (writeVector (Some writeTLAuctionBidLevel)),
         wf ''top_bidders'' (writeVector (Some writeInt64)), wf ''next_round_at'' writeInt32,
         wf ''last_gift_num'' writeInt32, wf ''gifts_left'' writeInt32,
         wf ''current_round'' writeInt32, wf ''total_rounds'' writeInt32,
         wf ''rounds'' (writeVector (Some writeTLStarGiftAuctionRound))]),
      (- 1758614593, [wf ''_'' writeInt32, wf_flags ''flags'' [(''listed_count'', 0),
         (''fragment_listed_count'', 1), (''fragment_listed_url'', 1)],
         wf ''start_date'' writeInt32, wf ''end_date'' writeInt32, wf ''average_price'' writeInt64,
         wf_if ''flags'' 0 ''listed_count'' writeInt32,
         wf_if ''flags'' 1 ''fragment_listed_count'' writeInt32,
         wf_if ''flags'' 1 ''fragment_listed_url'' writeString])]"

definition TL_StarGiftAuctionState_table :: flag_table where
  "TL_StarGiftAuctionState_table =
     [(- 30197422, []),
      (1998212710, [Plain (''version'', readInt32, writeInt32, enc_int32, is_VInt),
        Plain (''start_date'', readInt32, writeInt32, enc_int32, is_VInt),
        Plain (''end_date'', readInt32, writeInt32, enc_int32, is_VInt),
        Plain (''min_bid_amount'', readInt64, writeInt64, enc_int64, is_VLong),
        Plain (''bid_levels'', readVector (Some readTLAuctionBidLevel),
         writeVector (Some writeTLAuctionBidLevel),
         enc_vector (enc_fobject TL_AuctionBidLevel_table),
         ok_vector (ok_fobject TL_AuctionBidLevel_table)),
        Plain (''top_bidders'', readVector (Some readInt64), writeVector (Some writeInt64),
         enc_vector enc_int64, ok_vector is_VLong),
        Plain (''next_round_at'', readInt32, writeInt32, enc_int32, is_VInt),
        Plain (''last_gift_num'', readInt32, writeInt32, enc_int32, is_VInt),
        Plain (''gifts_left'', readInt32, writeInt32, enc_int32, is_VInt),
        Plain (''current_round'', readInt32, writeInt32, enc_int32, is_VInt),
        Plain (''total_rounds'', readInt32, writeInt32, enc_int32, is_VInt),
        Plain (''rounds'', readVector (Some readTLStarGiftAuctionRound),
         writeVector (Some writeTLStarGiftAuctionRound),
         enc_vector (enc_fobject TL_StarGiftAuctionRound_table),
         ok_vector (ok_fobject TL_StarGiftAuctionRound_table))]),
      (- 1758614593, [Flags ''flags'' [(''listed_count'', 0), (''fragment_listed_count'', 1),
         (''fragment_listed_url'', 1)],
        Plain (''start_date'', readInt32, writeInt32, enc_int32, is_VInt),
        Plain (''end_date'', readInt32, writeInt32, enc_int32, is_VInt),
        Plain (''average_price'', readInt64, writeInt64, enc_int64, is_VLong),
        Cond ''flags'' 0 (''listed_count'', readInt32, writeInt32, enc_int32, is_VInt),
        Cond ''flags'' 1 (''fragment_listed_count'', readInt32, writeInt32, enc_int32, is_VInt),
        Cond ''flags'' 1 (''fragment_listed_url'', readString, writeString, enc_string,
         is_short_text)])]"

interpretation tl_StarGiftAuctionState: tl_codec readTLStarGiftAuctionState writeTLStarGiftAuctionState "enc_fobject TL_StarGiftAuctionState_table" "ok_fobject TL_StarGiftAuctionState_table"
  by (rule flag_schema_codec, unfold TL_StarGiftAuctionState_table_def, intro flag_tableI)
    (simp_all add: readTLStarGiftAuctionState_def writeTLStarGiftAuctionState_def flag_schema_simps tl_AuctionBidLevel.tl_codec_axioms tl_AuctionBidLevel.vector_codec tl_StarGiftAuctionRound.tl_codec_axioms tl_StarGiftAuctionRound.vector_codec)

definition readTLStarGiftAuctionUserState :: tl_reader where
  "readTLStarGiftAuctionUserState = read_object
     [(787403204, [rd ''flags'' readUInt32, set_if ''flags'' 1 ''returned'',
         rd_if ''flags'' 0 ''bid_amount'' readInt64, rd_if ''flags'' 0 ''bid_date'' readInt32,
         rd_if ''flags'' 0 ''min_bid_amount'' readInt64, rd_if ''flags'' 0 ''bid_peer'' readTLPeer,
         rd ''acquired_count'' readInt32])]"

definition writeTLStarGiftAuctionUserState :: tl_writer where
  "writeTLStarGiftAuctionUserState = write_fobject
     [(787403204, [wf ''_'' writeInt32, wf_flags ''flags'' [(''returned'', 1), (''bid_amount'', 0),
         (''bid_date'', 0), (''min_bid_amount'', 0), (''bid_peer'', 0)],
         wf_if ''flags'' 0 ''bid_amount'' writeInt64, wf_if ''flags'' 0 ''bid_date'' writeInt32,
         wf_if ''flags'' 0 ''min_bid_amount'' writeInt64,
         wf_if ''flags'' 0 ''bid_peer'' writeTLPeer, wf ''acquired_count'' writeInt32])]"

definition TL_StarGiftAuctionUserState_table :: flag_table where
  "TL_StarGiftAuctionUserState_table =
     [(787403204, [Flags ''flags'' [(''returned'', 1), (''bid_amount'', 0), (''bid_date'', 0),
         (''min_bid_amount'', 0), (''bid_peer'', 0)],
        TrueBit ''flags'' 1 ''returned'',
        Cond ''flags'' 0 (''bid_amount'', readInt64, writeInt64, enc_int64, is_VLong),
        Cond ''flags'' 0 (''bid_date'', readInt32, writeInt32, enc_int32, is_VInt),
        Cond ''flags'' 0 (''min_bid_amount'', readInt64, writeInt64, enc_int64, is_VLong),
        Cond ''flags'' 0 (''bid_peer'', readTLPeer, writeTLPeer, enc_fobject TL_Peer_table,
         ok_fobject TL_Peer_table),
        Plain (''acquired_count'', readInt32, writeInt32, enc_int32, is_VInt)])]"

interpretation tl_StarGiftAuctionUserState: tl_codec readTLStarGiftAuctionUserState writeTLStarGiftAuctionUserState "enc_fobject TL_StarGiftAuctionUserState_table" "ok_fobject TL_StarGiftAuctionUserState_table"
  by (rule flag_schema_codec, unfold TL_StarGiftAuctionUserState_table_def, intro flag_tableI)
    (simp_all add: readTLStarGiftAuctionUserState_def writeTLStarGiftAuctionUserState_def flag_schema_simps tl_Peer.tl_codec_axioms)

definition readTLStarGiftAuctionAcquiredGift :: tl_reader where
  "readTLStarGiftAuctionAcquiredGift = read_object
     [(1118831432, [rd ''flags'' readUInt32, set_if ''flags'' 0 ''name_hidden'',
         rd ''peer'' readTLPeer, rd ''date'' readInt32, rd ''bid_amount'' readInt64,
         rd ''round'' readInt32, rd ''pos'' readInt32,
         rd_if ''flags'' 1 ''message'' readTLTextWithEntities,
         rd_if ''flags'' 2 ''gift_num'' readInt32])]"

definition writeTLStarGiftAuctionAcquiredGift :: tl_writer where
  "writeTLStarGiftAuctionAcquiredGift = write_fobject
     [(1118831432, [wf ''_'' writeInt32, wf_flags ''flags'' [(''name_hidden'', 0), (''message'',
         1), (''gift_num'', 2)], wf ''peer'' writeTLPeer, wf ''date'' writeInt32,
         wf ''bid_amount'' writeInt64, wf ''round'' writeInt32, wf ''pos'' writeInt32,
         wf_if ''flags'' 1 ''message'' writeTLTextWithEntities,
         wf_if ''flags'' 2 ''gift_num'' writeInt32])]"

definition TL_StarGiftAuctionAcquiredGift_table :: flag_table where
  "TL_StarGiftAuctionAcquiredGift_table =
     [(1118831432, [Flags ''flags'' [(''name_hidden'', 0), (''message'', 1), (''gift_num'', 2)],
        TrueBit ''flags'' 0 ''name_hidden'',
        Plain (''peer'', readTLPeer, writeTLPeer, enc_fobject TL_Peer_table,
         ok_fobject TL_Peer_table),
        Plain (''date'', readInt32, writeInt32, enc_int32, is_VInt),
        Plain (''bid_amount'', readInt64, writeInt64, enc_int64, is_VLong),
        Plain (''round'', readInt32, writeInt32, enc_int32, is_VInt),
        Plain (''pos'', readInt32, writeInt32, enc_int32, is_VInt),
        Cond ''flags'' 1 (''message'', readTLTextWithEntities, writeTLTextWithEntities,
         enc_fobject TL_TextWithEntities_table, ok_fobject TL_TextWithEntities_table),
        Cond ''flags'' 2 (''gift_num'', readInt32, writeInt32, enc_int32, is_VInt)])]"

interpretation tl_StarGiftAuctionAcquiredGift: tl_codec readTLStarGiftAuctionAcquiredGift writeTLStarGiftAuctionAcquiredGift "enc_fobject TL_StarGiftAuctionAcquiredGift_table" "ok_fobject TL_StarGiftAuctionAcquiredGift_table"
  by (rule flag_schema_codec, unfold TL_StarGiftAuctionAcquiredGift_table_def, intro flag_tableI)
    (simp_all add: readTLStarGiftAuctionAcquiredGift_def writeTLStarGiftAuctionAcquiredGift_def flag_schema_simps tl_Peer.tl_codec_axioms tl_TextWithEntities.tl_codec_axioms)

definition readTLPaymentsStarGiftAuctionAcquiredGifts :: tl_reader where
  "readTLPaymentsStarGiftAuctionAcquiredGifts = read_object
     [(2103169520, [rd ''gifts'' (readVector (Some readTLStarGiftAuctionAcquiredGift)),
         rd ''users'' (readVector (Some readTLUser)),
         rd ''chats'' (readVector (Some readTLChat))])]"

definition writeTLPaymentsStarGiftAuctionAcquiredGifts :: tl_writer where
  "writeTLPaymentsStarGiftAuctionAcquiredGifts = write_fobject
     [(2103169520, [wf ''_'' writeInt32,
         wf ''gifts'' (writeVector (Some writeTLStarGiftAuctionAcquiredGift)),
         wf ''users'' (writeVector (Some writeTLUser)),
         wf ''chats'' (writeVector (Some writeTLChat))])]"

definition TL_PaymentsStarGiftAuctionAcquiredGifts_table :: flag_table where
  "TL_PaymentsStarGiftAuctionAcquiredGifts_table =
     [(2103169520, [Plain (''gifts'', readVector (Some readTLStarGiftAuctionAcquiredGift),
         writeVector (Some writeTLStarGiftAuctionAcquiredGift),
         enc_vector (enc_fobject TL_StarGiftAuctionAcquiredGift_table),
         ok_vector (ok_fobject TL_StarGiftAuctionAcquiredGift_table)),
        Plain (''users'', readVector (Some readTLUser), writeVector (Some writeTLUser),
         enc_vector (enc_fobject TL_User_table), ok_vector (ok_fobject TL_User_table)),
        Plain (''chats'', readVector (Some readTLChat), writeVector (Some writeTLChat),
         enc_vector (enc_fobject TL_Chat_table), ok_vector (ok_fobject TL_Chat_table))])]"

interpretation tl_PaymentsStarGiftAuctionAcquiredGifts: tl_codec readTLPaymentsStarGiftAuctionAcquiredGifts writeTLPaymentsStarGiftAuctionAcquiredGifts "enc_fobject TL_PaymentsStarGiftAuctionAcquiredGifts_table" "ok_fobject TL_PaymentsStarGiftAuctionAcquiredGifts_table"
  by (rule flag_schema_codec, unfold TL_PaymentsStarGiftAuctionAcquiredGifts_table_def, intro flag_tableI)
    (simp_all add: readTLPaymentsStarGiftAuctionAcquiredGifts_def writeTLPaymentsStarGiftAuctionAcquiredGifts_def flag_schema_simps tl_StarGiftAuctionAcquiredGift.tl_codec_axioms tl_StarGiftAuctionAcquiredGift.vector_codec tl_User.tl_codec_axioms tl_User.vector_codec tl_Chat.tl_codec_axioms tl_Chat.vector_codec)

definition readTLInputStarGiftAuction :: tl_reader where
  "readTLInputStarGiftAuction = read_object
     [(48327832, [rd ''gift_id'' readInt64]),
      (2058715912, [rd ''slug'' readString])]"

definition writeTLInputStarGiftAuction :: tl_writer where
  "writeTLInputStarGiftAuction = write_fobject
     [(48327832, [wf ''_'' writeInt32, wf ''gift_id'' writeInt64]),
      (2058715912, [wf ''_'' writeInt32, wf ''slug'' writeString])]"

definition TL_InputStarGiftAuction_table :: flag_table where
  "TL_InputStarGiftAuction_table =
     [(48327832, [Plain (''gift_id'', readInt64, writeInt64, enc_int64, is_VLong)]),
      (2058715912, [Plain (''slug'', readString, writeString, enc_string, is_short_text)])]"

interpretation tl_InputStarGiftAuction: tl_codec readTLInputStarGiftAuction writeTLInputStarGiftAuction "enc_fobject TL_InputStarGiftAuction_table" "ok_fobject TL_InputStarGiftAuction_table"
  by (rule flag_schema_codec, unfold TL_InputStarGiftAuction_table_def, intro flag_tableI)
    (simp_all add: readTLInputStarGiftAuction_def writeTLInputStarGiftAuction_def flag_schema_simps)

definition readTLPasskey :: tl_reader where
  "readTLPasskey = read_object
     [(- 1738457409, [rd ''flags'' readUInt32, rd ''id'' readString, rd ''name'' readString,
         rd ''date'' readInt32, rd_if ''flags'' 0 ''software_emoji_id'' readInt64,
         rd_if ''flags'' 1 ''last_usage_date'' readInt32])]"

definition writeTLPasskey :: tl_writer where
  "writeTLPasskey = write_fobject
     [(- 1738457409, [wf ''_'' writeInt32, wf_flags ''flags'' [(''software_emoji_id'', 0),
         (''last_usage_date'', 1)], wf ''id'' writeString, wf ''name'' writeString,
         wf ''date'' writeInt32, wf_if ''flags'' 0 ''software_emoji_id'' writeInt64,
         wf_if ''flags'' 1 ''last_usage_date'' writeInt32])]"

definition TL_Passkey_table :: flag_table where
  "TL_Passkey_table =
     [(- 1738457409, [Flags ''flags'' [(''software_emoji_id'', 0), (''last_usage_date'', 1)],
        Plain (''id'', readString, writeString, enc_string, is_short_text),
        Plain (''name'', readString, writeString, enc_string, is_short_text),
        Plain (''date'', readInt32, writeInt32, enc_int32, is_VInt),
        Cond ''flags'' 0 (''software_emoji_id'', readInt64, writeInt64, enc_int64, is_VLong),
        Cond ''flags'' 1 (''last_usage_date'', readInt32, writeInt32, enc_int32, is_VInt)])]"

interpretation tl_Passkey: tl_codec readTLPasskey writeTLPasskey "enc_fobject TL_Passkey_table" "ok_fobject TL_Passkey_table"
  by (rule flag_schema_codec, unfold TL_Passkey_table_def, intro flag_tableI)
    (simp_all add: readTLPasskey_def writeTLPasskey_def flag_schema_simps)

definition readTLAccountPasskeys :: tl_reader where
  "readTLAccountPasskeys = read_object
     [(- 119494116, [rd ''passkeys'' (readVector (Some readTLPasskey))])]"

definition writeTLAccountPasskeys :: tl_writer where
  "writeTLAccountPasskeys = write_fobject
     [(- 119494116, [wf ''_'' writeInt32, wf ''passkeys'' (writeVector (Some writeTLPasskey))])]"

definition TL_AccountPasskeys_table :: flag_table where
  "TL_AccountPasskeys_table =
     [(- 119494116, [Plain (''passkeys'', readVector (Some readTLPasskey),
         writeVector (Some writeTLPasskey), enc_vector (enc_fobject TL_Passkey_table),
         ok_vector (ok_fobject TL_Passkey_table))])]"

interpretation tl_AccountPasskeys: tl_codec readTLAccountPasskeys writeTLAccountPasskeys "enc_fobject TL_AccountPasskeys_table" "ok_fobject TL_AccountPasskeys_table"
  by (rule flag_schema_codec, unfold TL_AccountPasskeys_table_def, intro flag_tableI)
    (simp_all add: readTLAccountPasskeys_def writeTLAccountPasskeys_def flag_schema_simps tl_Passkey.tl_codec_axioms tl_Passkey.vector_codec)

definition readTLAccountPasskeyRegistrationOptions :: tl_reader where
  "readTLAccountPasskeyRegistrationOptions = read_object
     [(- 513057567, [rd ''options'' readTLDataJSON])]"

definition writeTLAccountPasskeyRegistrationOptions :: tl_writer where
  "writeTLAccountPasskeyRegistrationOptions = write_fobject
     [(- 513057567, [wf ''_'' writeInt32, wf ''options'' writeTLDataJSON])]"

definition TL_AccountPasskeyRegistrationOptions_table :: flag_table where
  "TL_AccountPasskeyRegistrationOptions_table =
     [(- 513057567, [Plain (''options'', readTLDataJSON, writeTLDataJSON,
         enc_fobject TL_DataJSON_table, ok_fobject TL_DataJSON_table)])]"

interpretation tl_AccountPasskeyRegistrationOptions: tl_codec readTLAccountPasskeyRegistrationOptions writeTLAccountPasskeyRegistrationOptions "enc_fobject TL_AccountPasskeyRegistrationOptions_table" "ok_fobject TL_AccountPasskeyRegistrationOptions_table"
  by (rule flag_schema_codec, unfold TL_AccountPasskeyRegistrationOptions_table_def, intro flag_tableI)
    (simp_all add: readTLAccountPasskeyRegistrationOptions_def writeTLAccountPasskeyRegistrationOptions_def flag_schema_simps tl_DataJSON.tl_codec_axioms)

definition readTLAuthPasskeyLoginOptions :: tl_reader where
  "readTLAuthPasskeyLoginOptions = read_object
     [(- 503089271, [rd ''options'' readTLDataJSON])]"

definition writeTLAuthPasskeyLoginOptions :: tl_writer where
  "writeTLAuthPasskeyLoginOptions = write_fobject
     [(- 503089271, [wf ''_'' writeInt32, wf ''options'' writeTLDataJSON])]"

definition TL_AuthPasskeyLoginOptions_table :: flag_table where
  "TL_AuthPasskeyLoginOptions_table =
     [(- 503089271, [Plain (''options'', readTLDataJSON, writeTLDataJSON,
         enc_fobject TL_DataJSON_table, ok_fobject TL_DataJSON_table)])]"

interpretation tl_AuthPasskeyLoginOptions: tl_codec readTLAuthPasskeyLoginOptions writeTLAuthPasskeyLoginOptions "enc_fobject TL_AuthPasskeyLoginOptions_table" "ok_fobject TL_AuthPasskeyLoginOptions_table"
  by (rule flag_schema_codec, unfold TL_AuthPasskeyLoginOptions_table_def, intro flag_tableI)
    (simp_all add: readTLAuthPasskeyLoginOptions_def writeTLAuthPasskeyLoginOptions_def flag_schema_simps tl_DataJSON.tl_codec_axioms)

definition readTLInputPasskeyResponse :: tl_reader where
  "readTLInputPasskeyResponse = read_object
     [(1046713180, [rd ''client_data'' readTLDataJSON, rd ''attestation_data'' readByteArray]),
      (- 1021329078, [rd ''client_data'' readTLDataJSON, rd ''authenticator_data'' readByteArray,
         rd ''signature'' readByteArray, rd ''user_handle'' readString])]"

definition writeTLInputPasskeyResponse :: tl_writer where
  "writeTLInputPasskeyResponse = write_fobject
     [(1046713180, [wf ''_'' writeInt32, wf ''client_data'' writeTLDataJSON,
         wf ''attestation_data'' writeByteArray]),
      (- 1021329078, [wf ''_'' writeInt32, wf ''client_data'' writeTLDataJSON,
         wf ''authenticator_data'' writeByteArray, wf ''signature'' writeByteArray,
         wf ''user_handle'' writeString])]"

definition TL_InputPasskeyResponse_table :: flag_table where
  "TL_InputPasskeyResponse_table =
     [(1046713180, [Plain (''client_data'', readTLDataJSON, writeTLDataJSON,
         enc_fobject TL_DataJSON_table, ok_fobject TL_DataJSON_table),
        Plain (''attestation_data'', readByteArray, writeByteArray, enc_bytes, is_short_bytes)]),
      (- 1021329078, [Plain (''client_data'', readTLDataJSON, writeTLDataJSON,
         enc_fobject TL_DataJSON_table, ok_fobject TL_DataJSON_table),
        Plain (''authenticator_data'', readByteArray, writeByteArray, enc_bytes, is_short_bytes),
        Plain (''signature'', readByteArray, writeByteArray, enc_bytes, is_short_bytes),
        Plain (''user_handle'', readString, writeString, enc_string, is_short_text)])]"

interpretation tl_InputPasskeyResponse: tl_codec readTLInputPasskeyResponse writeTLInputPasskeyResponse "enc_fobject TL_InputPasskeyResponse_table" "ok_fobject TL_InputPasskeyResponse_table"
  by (rule flag_schema_codec, unfold TL_InputPasskeyResponse_table_def, intro flag_tableI)
    (simp_all add: readTLInputPasskeyResponse_def writeTLInputPasskeyResponse_def flag_schema_simps tl_DataJSON.tl_codec_axioms)

definition readTLInputPasskeyCredential :: tl_reader where
  "readTLInputPasskeyCredential = read_object
     [(1009235855, [rd ''id'' readString, rd ''raw_id'' readString,
         rd ''response'' readTLInputPasskeyResponse]),
      (1528613672, [rd ''pnv_token'' readString])]"

definition writeTLInputPasskeyCredential :: tl_writer where
  "writeTLInputPasskeyCredential = write_fobject
     [(1009235855, [wf ''_'' writeInt32, wf ''id'' writeString, wf ''raw_id'' writeString,
         wf ''response'' writeTLInputPasskeyResponse]),
      (1528613672, [wf ''_'' writeInt32, wf ''pnv_token'' writeString])]"

definition TL_InputPasskeyCredential_table :: flag_table where
  "TL_InputPasskeyCredential_table =
     [(1009235855, [Plain (''id'', readString, writeString, enc_string, is_short_text),
        Plain (''raw_id'', readString, writeString, enc_string, is_short_text),
        Plain (''response'', readTLInputPasskeyResponse, writeTLInputPasskeyResponse,
         enc_fobject TL_InputPasskeyResponse_table, ok_fobject TL_InputPasskeyResponse_table)]),
      (1528613672, [Plain (''pnv_token'', readString, writeString, enc_string, is_short_text)])]"

interpretation tl_InputPasskeyCredential: tl_codec readTLInputPasskeyCredential writeTLInputPasskeyCredential "enc_fobject TL_InputPasskeyCredential_table" "ok_fobject TL_InputPasskeyCredential_table"
  by (rule flag_schema_codec, unfold TL_InputPasskeyCredential_table_def, intro flag_tableI)
    (simp_all add: readTLInputPasskeyCredential_def writeTLInputPasskeyCredential_def flag_schema_simps tl_InputPasskeyResponse.tl_codec_axioms)

definition readTLStarGiftBackground :: tl_reader where
  "readTLStarGiftBackground = read_object
     [(- 1342872680, [rd ''center_color'' readInt32, rd ''edge_color'' readInt32,
         rd ''text_color'' readInt32])]"

definition writeTLStarGiftBackground :: tl_writer where
  "writeTLStarGiftBackground = write_fobject
     [(- 1342872680, [wf ''_'' writeInt32, wf ''center_color'' writeInt32,
         wf ''edge_color'' writeInt32, wf ''text_color'' writeInt32])]"

definition TL_StarGiftBackground_table :: flag_table where
  "TL_StarGiftBackground_table =
     [(- 1342872680, [Plain (''center_color'', readInt32, writeInt32, enc_int32, is_VInt),
        Plain (''edge_color'', readInt32, writeInt32, enc_int32, is_VInt),
        Plain (''text_color'', readInt32, writeInt32, enc_int32, is_VInt)])]"

interpretation tl_StarGiftBackground: tl_codec readTLStarGiftBackground writeTLStarGiftBackground "enc_fobject TL_StarGiftBackground_table" "ok_fobject TL_StarGiftBackground_table"
  by (rule flag_schema_codec, unfold TL_StarGiftBackground_table_def, intro flag_tableI)
    (simp_all add: readTLStarGiftBackground_def writeTLStarGiftBackground_def flag_schema_simps)

definition readTLMessagesEmojiGameOutcome :: tl_reader where
  "readTLMessagesEmojiGameOutcome = read_object
     [(- 634726841, [rd ''seed'' readByteArray, rd ''stake_ton_amount'' readInt64,
         rd ''ton_amount'' readInt64])]"

definition writeTLMessagesEmojiGameOutcome :: tl_writer where
  "writeTLMessagesEmojiGameOutcome = write_fobject
     [(- 634726841, [wf ''_'' writeInt32, wf ''seed'' writeByteArray,
         wf ''stake_ton_amount'' writeInt64, wf ''ton_amount'' writeInt64])]"

definition TL_MessagesEmojiGameOutcome_table :: flag_table where
  "TL_MessagesEmojiGameOutcome_table =
     [(- 634726841, [Plain (''seed'', readByteArray, writeByteArray, enc_bytes, is_short_bytes),
        Plain (''stake_ton_amount'', readInt64, writeInt64, enc_int64, is_VLong),
        Plain (''ton_amount'', readInt64, writeInt64, enc_int64, is_VLong)])]"

interpretation tl_MessagesEmojiGameOutcome: tl_codec readTLMessagesEmojiGameOutcome writeTLMessagesEmojiGameOutcome "enc_fobject TL_MessagesEmojiGameOutcome_table" "ok_fobject TL_MessagesEmojiGameOutcome_table"
  by (rule flag_schema_codec, unfold TL_MessagesEmojiGameOutcome_table_def, intro flag_tableI)
    (simp_all add: readTLMessagesEmojiGameOutcome_def writeTLMessagesEmojiGameOutcome_def flag_schema_simps)

definition readTLMessagesEmojiGameInfo :: tl_reader where
  "readTLMessagesEmojiGameInfo = read_object
     [(1508266805, []),
      (1155883043, [rd ''flags'' readUInt32, rd ''game_hash'' readString,
         rd ''prev_stake'' readInt64, rd ''current_streak'' readInt32,
         rd ''params'' (readVector (Some readInt32)), rd_if ''flags'' 0 ''plays_left'' readInt32])]"

definition writeTLMessagesEmojiGameInfo :: tl_writer where
  "writeTLMessagesEmojiGameInfo = write_fobject
     [(1508266805, [wf ''_'' writeInt32]),
      (1155883043, [wf ''_'' writeInt32, wf_flags ''flags'' [(''plays_left'', 0)],
         wf ''game_hash'' writeString, wf ''prev_stake'' writeInt64,
         wf ''current_streak'' writeInt32, wf ''params'' (writeVector (Some writeInt32)),
         wf_if ''flags'' 0 ''plays_left'' writeInt32])]"

definition TL_MessagesEmojiGameInfo_table :: flag_table where
  "TL_MessagesEmojiGameInfo_table =
     [(1508266805, []),
      (1155883043, [Flags ''flags'' [(''plays_left'', 0)],
        Plain (''game_hash'', readString, writeString, enc_string, is_short_text),
        Plain (''prev_stake'', readInt64, writeInt64, enc_int64, is_VLong),
        Plain (''current_streak'', readInt32, writeInt32, enc_int32, is_VInt),
        Plain (''params'', readVector (Some readInt32), writeVector (Some writeInt32),
         enc_vector enc_int32, ok_vector is_VInt),
        Cond ''flags'' 0 (''plays_left'', readInt32, writeInt32, enc_int32, is_VInt)])]"

interpretation tl_MessagesEmojiGameInfo: tl_codec readTLMessagesEmojiGameInfo writeTLMessagesEmojiGameInfo "enc_fobject TL_MessagesEmojiGameInfo_table" "ok_fobject TL_MessagesEmojiGameInfo_table"
  by (rule flag_schema_codec, unfold TL_MessagesEmojiGameInfo_table_def, intro flag_tableI)
    (simp_all add: readTLMessagesEmojiGameInfo_def writeTLMessagesEmojiGameInfo_def flag_schema_simps)

definition readTLStarGiftAttributeRarity :: tl_reader where
  "readTLStarGiftAttributeRarity = read_object
     [(910391095, [rd ''permille'' readInt32]),
      (- 607231095, []),
      (- 259174037, []),
      (2029777832, []),
      (- 822614104, [])]"

definition writeTLStarGiftAttributeRarity :: tl_writer where
  "writeTLStarGiftAttributeRarity = write_fobject
     [(910391095, [wf ''_'' writeInt32, wf ''permille'' writeInt32]),
      (- 607231095, [wf ''_'' writeInt32]),
      (- 259174037, [wf ''_'' writeInt32]),
      (2029777832, [wf ''_'' writeInt32]),
      (- 822614104, [wf ''_'' writeInt32])]"

definition TL_StarGiftAttributeRarity_table :: flag_table where
  "TL_StarGiftAttributeRarity_table =
     [(910391095, [Plain (''permille'', readInt32, writeInt32, enc_int32, is_VInt)]),
      (- 607231095, []),
      (- 259174037, []),
      (2029777832, []),
      (- 822614104, [])]"

interpretation tl_StarGiftAttributeRarity: tl_codec readTLStarGiftAttributeRarity writeTLStarGiftAttributeRarity "enc_fobject TL_StarGiftAttributeRarity_table" "ok_fobject TL_StarGiftAttributeRarity_table"
  by (rule flag_schema_codec, unfold TL_StarGiftAttributeRarity_table_def, intro flag_tableI)
    (simp_all add: readTLStarGiftAttributeRarity_def writeTLStarGiftAttributeRarity_def flag_schema_simps)

definition readTLInputMessageReadMetric :: tl_reader where
  "readTLInputMessageReadMetric = read_object
     [(1076577429, [rd ''msg_id'' readInt32, rd ''view_id'' readInt64,
         rd ''time_in_view_ms'' readInt32, rd ''active_time_in_view_ms'' readInt32,
         rd ''height_to_viewport_ratio_permille'' readInt32,
         rd ''seen_range_ratio_permille'' readInt32])]"

definition writeTLInputMessageReadMetric :: tl_writer where
  "writeTLInputMessageReadMetric = write_fobject
     [(1076577429, [wf ''_'' writeInt32, wf ''msg_id'' writeInt32, wf ''view_id'' writeInt64,
         wf ''time_in_view_ms'' writeInt32, wf ''active_time_in_view_ms'' writeInt32,
         wf ''height_to_viewport_ratio_permille'' writeInt32,
         wf ''seen_range_ratio_permille'' writeInt32])]"

definition TL_InputMessageReadMetric_table :: flag_table where
  "TL_InputMessageReadMetric_table =
     [(1076577429, [Plain (''msg_id'', readInt32, writeInt32, enc_int32, is_VInt),
        Plain (''view_id'', readInt64, writeInt64, enc_int64, is_VLong),
        Plain (''time_in_view_ms'', readInt32, writeInt32, enc_int32, is_VInt),
        Plain (''active_time_in_view_ms'', readInt32, writeInt32, enc_int32, is_VInt),
        Plain (''height_to_viewport_ratio_permille'', readInt32, writeInt32, enc_int32, is_VInt),
        Plain (''seen_range_ratio_permille'', readInt32, writeInt32, enc_int32, is_VInt)])]"

interpretation tl_InputMessageReadMetric: tl_codec readTLInputMessageReadMetric writeTLInputMessageReadMetric "enc_fobject TL_InputMessageReadMetric_table" "ok_fobject TL_InputMessageReadMetric_table"
  by (rule flag_schema_codec, unfold TL_InputMessageReadMetric_table_def, intro flag_tableI)
    (simp_all add: readTLInputMessageReadMetric_def writeTLInputMessageReadMetric_def flag_schema_simps)

definition readTLBotsExportedBotToken :: tl_reader where
  "readTLBotsExportedBotToken = read_object
     [(1012971041, [rd ''token'' readString])]"

definition writeTLBotsExportedBotToken :: tl_writer where
  "writeTLBotsExportedBotToken = write_fobject
     [(1012971041, [wf ''_'' writeInt32, wf ''token'' writeString])]"

definition TL_BotsExportedBotToken_table :: flag_table where
  "TL_BotsExportedBotToken_table =
     [(1012971041, [Plain (''token'', readString, writeString, enc_string, is_short_text)])]"

interpretation tl_BotsExportedBotToken: tl_codec readTLBotsExportedBotToken writeTLBotsExportedBotToken "enc_fobject TL_BotsExportedBotToken_table" "ok_fobject TL_BotsExportedBotToken_table"
  by (rule flag_schema_codec, unfold TL_BotsExportedBotToken_table_def, intro flag_tableI)
    (simp_all add: readTLBotsExportedBotToken_def writeTLBotsExportedBotToken_def flag_schema_simps)

definition readTLBotsRequestedButton :: tl_reader where
  "readTLBotsRequestedButton = read_object
     [(- 247743273, [rd ''webapp_req_id'' readString])]"

definition writeTLBotsRequestedButton :: tl_writer where
  "writeTLBotsRequestedButton = write_fobject
     [(- 247743273, [wf ''_'' writeInt32, wf ''webapp_req_id'' writeString])]"

definition TL_BotsRequestedButton_table :: flag_table where
  "TL_BotsRequestedButton_table =
     [(- 247743273, [Plain (''webapp_req_id'', readString, writeString, enc_string,
         is_short_text)])]"

interpretation tl_BotsRequestedButton: tl_codec readTLBotsRequestedButton writeTLBotsRequestedButton "enc_fobject TL_BotsRequestedButton_table" "ok_fobject TL_BotsRequestedButton_table"
  by (rule flag_schema_codec, unfold TL_BotsRequestedButton_table_def, intro flag_tableI)
    (simp_all add: readTLBotsRequestedButton_def writeTLBotsRequestedButton_def flag_schema_simps)

definition readTLMessagesComposedMessageWithAI :: tl_reader where
  "readTLMessagesComposedMessageWithAI = read_object
     [(- 1864913414, [rd ''flags'' readUInt32, rd ''result_text'' readTLTextWithEntities,
         rd_if ''flags'' 0 ''diff_text'' readTLTextWithEntities])]"

definition writeTLMessagesComposedMessageWithAI :: tl_writer where
  "writeTLMessagesComposedMessageWithAI = write_fobject
     [(- 1864913414, [wf ''_'' writeInt32, wf_flags ''flags'' [(''diff_text'', 0)],
         wf ''result_text'' writeTLTextWithEntities,
         wf_if ''flags'' 0 ''diff_text'' writeTLTextWithEntities])]"

definition TL_MessagesComposedMessageWithAI_table :: flag_table where
  "TL_MessagesComposedMessageWithAI_table =
     [(- 1864913414, [Flags ''flags'' [(''diff_text'', 0)],
        Plain (''result_text'', readTLTextWithEntities, writeTLTextWithEntities,
         enc_fobject TL_TextWithEntities_table, ok_fobject TL_TextWithEntities_table),
        Cond ''flags'' 0 (''diff_text'', readTLTextWithEntities, writeTLTextWithEntities,
         enc_fobject TL_TextWithEntities_table, ok_fobject TL_TextWithEntities_table)])]"

interpretation tl_MessagesComposedMessageWithAI: tl_codec readTLMessagesComposedMessageWithAI writeTLMessagesComposedMessageWithAI "enc_fobject TL_MessagesComposedMessageWithAI_table" "ok_fobject TL_MessagesComposedMessageWithAI_table"
  by (rule flag_schema_codec, unfold TL_MessagesComposedMessageWithAI_table_def, intro flag_tableI)
    (simp_all add: readTLMessagesComposedMessageWithAI_def writeTLMessagesComposedMessageWithAI_def flag_schema_simps tl_TextWithEntities.tl_codec_axioms)

definition readTLStatsPollStats :: tl_reader where
  "readTLStatsPollStats = read_object
     [(697941741, [rd ''votes_graph'' readTLStatsGraph])]"

definition writeTLStatsPollStats :: tl_writer where
  "writeTLStatsPollStats = write_fobject
     [(697941741, [wf ''_'' writeInt32, wf ''votes_graph'' writeTLStatsGraph])]"

definition TL_StatsPollStats_table :: flag_table where
  "TL_StatsPollStats_table =
     [(697941741, [Plain (''votes_graph'', readTLStatsGraph, writeTLStatsGraph,
         enc_fobject TL_StatsGraph_table, ok_fobject TL_StatsGraph_table)])]"

interpretation tl_StatsPollStats: tl_codec readTLStatsPollStats writeTLStatsPollStats "enc_fobject TL_StatsPollStats_table" "ok_fobject TL_StatsPollStats_table"
  by (rule flag_schema_codec, unfold TL_StatsPollStats_table_def, intro flag_tableI)
    (simp_all add: readTLStatsPollStats_def writeTLStatsPollStats_def flag_schema_simps tl_StatsGraph.tl_codec_axioms)

definition readTLInputAiComposeTone :: tl_reader where
  "readTLInputAiComposeTone = read_object
     [(535407039, [rd ''tone'' readString]),
      (125026432, [rd ''id'' readInt64, rd ''access_hash'' readInt64]),
      (530584407, [rd ''slug'' readString]),
      (235681199, [rd ''custom_prompt'' readString])]"

definition writeTLInputAiComposeTone :: tl_writer where
  "writeTLInputAiComposeTone = write_fobject
     [(535407039, [wf ''_'' writeInt32, wf ''tone'' writeString]),
      (125026432, [wf ''_'' writeInt32, wf ''id'' writeInt64, wf ''access_hash'' writeInt64]),
      (530584407, [wf ''_'' writeInt32, wf ''slug'' writeString]),
      (235681199, [wf ''_'' writeInt32, wf ''custom_prompt'' writeString])]"

definition TL_InputAiComposeTone_table :: flag_table where
  "TL_InputAiComposeTone_table =
     [(535407039, [Plain (''tone'', readString, writeString, enc_string, is_short_text)]),
      (125026432, [Plain (''id'', readInt64, writeInt64, enc_int64, is_VLong),
        Plain (''access_hash'', readInt64, writeInt64, enc_int64, is_VLong)]),
      (530584407, [Plain (''slug'', readString, writeString, enc_string, is_short_text)]),
      (235681199, [Plain (''custom_prompt'', readString, writeString, enc_string, is_short_text)])]"

interpretation tl_InputAiComposeTone: tl_codec readTLInputAiComposeTone writeTLInputAiComposeTone "enc_fobject TL_InputAiComposeTone_table" "ok_fobject TL_InputAiComposeTone_table"
  by (rule flag_schema_codec, unfold TL_InputAiComposeTone_table_def, intro flag_tableI)
    (simp_all add: readTLInputAiComposeTone_def writeTLInputAiComposeTone_def flag_schema_simps)

definition readTLAiComposeToneExample :: tl_reader where
  "readTLAiComposeToneExample = read_object
     [(- 237623060, [rd ''from'' readTLTextWithEntities, rd ''to'' readTLTextWithEntities])]"

definition writeTLAiComposeToneExample :: tl_writer where
  "writeTLAiComposeToneExample = write_fobject
     [(- 237623060, [wf ''_'' writeInt32, wf ''from'' writeTLTextWithEntities,
         wf ''to'' writeTLTextWithEntities])]"

definition TL_AiComposeToneExample_table :: flag_table where
  "TL_AiComposeToneExample_table =
     [(- 237623060, [Plain (''from'', readTLTextWithEntities, writeTLTextWithEntities,
         enc_fobject TL_TextWithEntities_table, ok_fobject TL_TextWithEntities_table),
        Plain (''to'', readTLTextWithEntities, writeTLTextWithEntities,
         enc_fobject TL_TextWithEntities_table, ok_fobject TL_TextWithEntities_table)])]"

interpretation tl_AiComposeToneExample: tl_codec readTLAiComposeToneExample writeTLAiComposeToneExample "enc_fobject TL_AiComposeToneExample_table" "ok_fobject TL_AiComposeToneExample_table"
  by (rule flag_schema_codec, unfold TL_AiComposeToneExample_table_def, intro flag_tableI)
    (simp_all add: readTLAiComposeToneExample_def writeTLAiComposeToneExample_def flag_schema_simps tl_TextWithEntities.tl_codec_axioms)

definition readTLAiComposeTone :: tl_reader where
  "readTLAiComposeTone = read_object
     [(- 805945687, [rd ''flags'' readUInt32, set_if ''flags'' 0 ''creator'', rd ''id'' readInt64,
         rd ''access_hash'' readInt64, rd ''slug'' readString, rd ''title'' readString,
         rd_if ''flags'' 1 ''emoji_id'' readInt64, rd_if ''flags'' 4 ''prompt'' readString,
         rd_if ''flags'' 2 ''installs_count'' readInt32, rd_if ''flags'' 3 ''author_id'' readInt64,
         rd_if ''flags'' 5 ''example_english'' readTLAiComposeToneExample]),
      (- 1683135468, [rd ''tone'' readString, rd ''emoji_id'' readInt64, rd ''title'' readString])]"

definition writeTLAiComposeTone :: tl_writer where
  "writeTLAiComposeTone = write_fobject
     [(- 805945687, [wf ''_'' writeInt32, wf_flags ''flags'' [(''creator'', 0), (''emoji_id'', 1),
         (''prompt'', 4), (''installs_count'', 2), (''author_id'', 3), (''example_english'', 5)],
         wf ''id'' writeInt64, wf ''access_hash'' writeInt64, wf ''slug'' writeString,
         wf ''title'' writeString, wf_if ''flags'' 1 ''emoji_id'' writeInt64,
         wf_if ''flags'' 4 ''prompt'' writeString, wf_if ''flags'' 2 ''installs_count'' writeInt32,
         wf_if ''flags'' 3 ''author_id'' writeInt64,
         wf_if ''flags'' 5 ''example_english'' writeTLAiComposeToneExample]),
      (- 1683135468, [wf ''_'' writeInt32, wf ''tone'' writeString, wf ''emoji_id'' writeInt64,
         wf ''title'' writeString])]"

definition TL_AiComposeTone_table :: flag_table where
  "TL_AiComposeTone_table =
     [(- 805945687, [Flags ''flags'' [(''creator'', 0), (''emoji_id'', 1), (''prompt'', 4),
         (''installs_count'', 2), (''author_id'', 3), (''example_english'', 5)],
        TrueBit ''flags'' 0 ''creator'',
        Plain (''id'', readInt64, writeInt64, enc_int64, is_VLong),
        Plain (''access_hash'', readInt64, writeInt64, enc_int64, is_VLong),
        Plain (''slug'', readString, writeString, enc_string, is_short_text),
        Plain (''title'', readString, writeString, enc_string, is_short_text),
        Cond ''flags'' 1 (''emoji_id'', readInt64, writeInt64, enc_int64, is_VLong),
        Cond ''flags'' 4 (''prompt'', readString, writeString, enc_string, is_short_text),
        Cond ''flags'' 2 (''installs_count'', readInt32, writeInt32, enc_int32, is_VInt),
        Cond ''flags'' 3 (''author_id'', readInt64, writeInt64, enc_int64, is_VLong),
        Cond ''flags'' 5 (''example_english'', readTLAiComposeToneExample,
         writeTLAiComposeToneExample, enc_fobject TL_AiComposeToneExample_table,
         ok_fobject TL_AiComposeToneExample_table)]),
      (- 1683135468, [Plain (''tone'', readString, writeString, enc_string, is_short_text),
        Plain (''emoji_id'', readInt64, writeInt64, enc_int64, is_VLong),
        Plain (''title'', readString, writeString, enc_string, is_short_text)])]"

interpretation tl_AiComposeTone: tl_codec readTLAiComposeTone writeTLAiComposeTone "enc_fobject TL_AiComposeTone_table" "ok_fobject TL_AiComposeTone_table"
  by (rule flag_schema_codec, unfold TL_AiComposeTone_table_def, intro flag_tableI)
    (simp_all add: readTLAiComposeTone_def writeTLAiComposeTone_def flag_schema_simps tl_AiComposeToneExample.tl_codec_axioms)

definition readTLAicomposeTones :: tl_reader where
  "readTLAicomposeTones = read_object
     [(- 1040948989, []),
      (1822232318, [rd ''hash'' readInt64, rd ''tones'' (readVector (Some readTLAiComposeTone)),
         rd ''users'' (readVector (Some readTLUser))])]"

definition writeTLAicomposeTones :: tl_writer where
  "writeTLAicomposeTones = write_fobject
     [(- 1040948989, [wf ''_'' writeInt32]),
      (1822232318, [wf ''_'' writeInt32, wf ''hash'' writeInt64,
         wf ''tones'' (writeVector (Some writeTLAiComposeTone)),
         wf ''users'' (writeVector (Some writeTLUser))])]"

definition TL_AicomposeTones_table :: flag_table where
  "TL_AicomposeTones_table =
     [(- 1040948989, []),
      (1822232318, [Plain (''hash'', readInt64, writeInt64, enc_int64, is_VLong),
        Plain (''tones'', readVector (Some readTLAiComposeTone),
         writeVector (Some writeTLAiComposeTone), enc_vector (enc_fobject TL_AiComposeTone_table),
         ok_vector (ok_fobject TL_AiComposeTone_table)),
        Plain (''users'', readVector (Some readTLUser), writeVector (Some writeTLUser),
         enc_vector (enc_fobject TL_User_table), ok_vector (ok_fobject TL_User_table))])]"

interpretation tl_AicomposeTones: tl_codec readTLAicomposeTones writeTLAicomposeTones "enc_fobject TL_AicomposeTones_table" "ok_fobject TL_AicomposeTones_table"
  by (rule flag_schema_codec, unfold TL_AicomposeTones_table_def, intro flag_tableI)
    (simp_all add: readTLAicomposeTones_def writeTLAicomposeTones_def flag_schema_simps tl_AiComposeTone.tl_codec_axioms tl_AiComposeTone.vector_codec tl_User.tl_codec_axioms tl_User.vector_codec)

definition readTLBotsAccessSettings :: tl_reader where
  "readTLBotsAccessSettings = read_object
     [(- 585121901, [rd ''flags'' readUInt32, set_if ''flags'' 0 ''restricted'',
         rd_if ''flags'' 1 ''add_users'' (readVector (Some readTLUser))])]"

definition writeTLBotsAccessSettings :: tl_writer where
  "writeTLBotsAccessSettings = write_fobject
     [(- 585121901, [wf ''_'' writeInt32, wf_flags ''flags'' [(''restricted'', 0), (''add_users'',
         1)], wf_if ''flags'' 1 ''add_users'' (writeVector (Some writeTLUser))])]"

definition TL_BotsAccessSettings_table :: flag_table where
  "TL_BotsAccessSettings_table =
     [(- 585121901, [Flags ''flags'' [(''restricted'', 0), (''add_users'', 1)],
        TrueBit ''flags'' 0 ''restricted'',
        Cond ''flags'' 1 (''add_users'', readVector (Some readTLUser),
         writeVector (Some writeTLUser), enc_vector (enc_fobject TL_User_table),
         ok_vector (ok_fobject TL_User_table))])]"

interpretation tl_BotsAccessSettings: tl_codec readTLBotsAccessSettings writeTLBotsAccessSettings "enc_fobject TL_BotsAccessSettings_table" "ok_fobject TL_BotsAccessSettings_table"
  by (rule flag_schema_codec, unfold TL_BotsAccessSettings_table_def, intro flag_tableI)
    (simp_all add: readTLBotsAccessSettings_def writeTLBotsAccessSettings_def flag_schema_simps tl_User.tl_codec_axioms tl_User.vector_codec)

definition readTLJoinChatBotResult :: tl_reader where
  "readTLJoinChatBotResult = read_object
     [(- 1374344599, []),
      (251265428, []),
      (- 1734105024, []),
      (- 689719277, [rd ''url'' readString])]"

definition writeTLJoinChatBotResult :: tl_writer where
  "writeTLJoinChatBotResult = write_fobject
     [(- 1374344599, [wf ''_'' writeInt32]),
      (251265428, [wf ''_'' writeInt32]),
      (- 1734105024, [wf ''_'' writeInt32]),
      (- 689719277, [wf ''_'' writeInt32, wf ''url'' writeString])]"

definition TL_JoinChatBotResult_table :: flag_table where
  "TL_JoinChatBotResult_table =
     [(- 1374344599, []),
      (251265428, []),
      (- 1734105024, []),
      (- 689719277, [Plain (''url'', readString, writeString, enc_string, is_short_text)])]"

interpretation tl_JoinChatBotResult: tl_codec readTLJoinChatBotResult writeTLJoinChatBotResult "enc_fobject TL_JoinChatBotResult_table" "ok_fobject TL_JoinChatBotResult_table"
  by (rule flag_schema_codec, unfold TL_JoinChatBotResult_table_def, intro flag_tableI)
    (simp_all add: readTLJoinChatBotResult_def writeTLJoinChatBotResult_def flag_schema_simps)

definition readTLWebDomainException :: tl_reader where
  "readTLWebDomainException = read_object
     [(- 1824741993, [rd ''flags'' readUInt32, rd ''domain'' readString, rd ''url'' readString,
         rd ''title'' readString, rd_if ''flags'' 0 ''favicon'' readInt64])]"

definition writeTLWebDomainException :: tl_writer where
  "writeTLWebDomainException = write_fobject
     [(- 1824741993, [wf ''_'' writeInt32, wf_flags ''flags'' [(''favicon'', 0)],
         wf ''domain'' writeString, wf ''url'' writeString, wf ''title'' writeString,
         wf_if ''flags'' 0 ''favicon'' writeInt64])]"

definition TL_WebDomainException_table :: flag_table where
  "TL_WebDomainException_table =
     [(- 1824741993, [Flags ''flags'' [(''favicon'', 0)],
        Plain (''domain'', readString, writeString, enc_string, is_short_text),
        Plain (''url'', readString, writeString, enc_string, is_short_text),
        Plain (''title'', readString, writeString, enc_string, is_short_text),
        Cond ''flags'' 0 (''favicon'', readInt64, writeInt64, enc_int64, is_VLong)])]"

interpretation tl_WebDomainException: tl_codec readTLWebDomainException writeTLWebDomainException "enc_fobject TL_WebDomainException_table" "ok_fobject TL_WebDomainException_table"
  by (rule flag_schema_codec, unfold TL_WebDomainException_table_def, intro flag_tableI)
    (simp_all add: readTLWebDomainException_def writeTLWebDomainException_def flag_schema_simps)

definition readTLAccountWebBrowserSettings :: tl_reader where
  "readTLAccountWebBrowserSettings = read_object
     [(- 1021538482, []),
      (2045480115, [rd ''flags'' readUInt32, set_if ''flags'' 0 ''open_external_browser'',
         set_if ''flags'' 1 ''display_close_button'',
         rd ''external_exceptions'' (readVector (Some readTLWebDomainException)),
         rd ''inapp_exceptions'' (readVector (Some readTLWebDomainException)),
         rd ''hash'' readInt64])]"

definition writeTLAccountWebBrowserSettings :: tl_writer where
  "writeTLAccountWebBrowserSettings = write_fobject
     [(- 1021538482, [wf ''_'' writeInt32]),
      (2045480115, [wf ''_'' writeInt32, wf_flags ''flags'' [(''open_external_browser'', 0),
         (''display_close_button'', 1)],
         wf ''external_exceptions'' (writeVector (Some writeTLWebDomainException)),
         wf ''inapp_exceptions'' (writeVector (Some writeTLWebDomainException)),
         wf ''hash'' writeInt64])]"

definition TL_AccountWebBrowserSettings_table :: flag_table where
  "TL_AccountWebBrowserSettings_table =
     [(- 1021538482, []),
      (2045480115, [Flags ''flags'' [(''open_external_browser'', 0), (''display_close_button'', 1)],
        TrueBit ''flags'' 0 ''open_external_browser'',
        TrueBit ''flags'' 1 ''display_close_button'',
        Plain (''external_exceptions'', readVector (Some readTLWebDomainException),
         writeVector (Some writeTLWebDomainException),
         enc_vector (enc_fobject TL_WebDomainException_table),
         ok_vector (ok_fobject TL_WebDomainException_table)),
        Plain (''inapp_exceptions'', readVector (Some readTLWebDomainException),
         writeVector (Some writeTLWebDomainException),
         enc_vector (enc_fobject TL_WebDomainException_table),
         ok_vector (ok_fobject TL_WebDomainException_table)),
        Plain (''hash'', readInt64, writeInt64, enc_int64, is_VLong)])]"

interpretation tl_AccountWebBrowserSettings: tl_codec readTLAccountWebBrowserSettings writeTLAccountWebBrowserSettings "enc_fobject TL_AccountWebBrowserSettings_table" "ok_fobject TL_AccountWebBrowserSettings_table"
  by (rule flag_schema_codec, unfold TL_AccountWebBrowserSettings_table_def, intro flag_tableI)
    (simp_all add: readTLAccountWebBrowserSettings_def writeTLAccountWebBrowserSettings_def flag_schema_simps tl_WebDomainException.tl_codec_axioms tl_WebDomainException.vector_codec)

definition readTLInputRichFile :: tl_reader where
  "readTLInputRichFile = read_object
     [(- 1694473685, [rd ''id'' readString, rd ''photo'' readTLInputPhoto]),
      (- 2094522947, [rd ''id'' readString, rd ''document'' readTLInputDocument])]"

definition writeTLInputRichFile :: tl_writer where
  "writeTLInputRichFile = write_fobject
     [(- 1694473685, [wf ''_'' writeInt32, wf ''id'' writeString, wf ''photo'' writeTLInputPhoto]),
      (- 2094522947, [wf ''_'' writeInt32, wf ''id'' writeString,
         wf ''document'' writeTLInputDocument])]"

definition TL_InputRichFile_table :: flag_table where
  "TL_InputRichFile_table =
     [(- 1694473685, [Plain (''id'', readString, writeString, enc_string, is_short_text),
        Plain (''photo'', readTLInputPhoto, writeTLInputPhoto, enc_fobject TL_InputPhoto_table,
         ok_fobject TL_InputPhoto_table)]),
      (- 2094522947, [Plain (''id'', readString, writeString, enc_string, is_short_text),
        Plain (''document'', readTLInputDocument, writeTLInputDocument,
         enc_fobject TL_InputDocument_table, ok_fobject TL_InputDocument_table)])]"

interpretation tl_InputRichFile: tl_codec readTLInputRichFile writeTLInputRichFile "enc_fobject TL_InputRichFile_table" "ok_fobject TL_InputRichFile_table"
  by (rule flag_schema_codec, unfold TL_InputRichFile_table_def, intro flag_tableI)
    (simp_all add: readTLInputRichFile_def writeTLInputRichFile_def flag_schema_simps tl_InputPhoto.tl_codec_axioms tl_InputDocument.tl_codec_axioms)

definition readTLCommunityPeer :: tl_reader where
  "readTLCommunityPeer = read_object
     [(1981030077, [rd ''flags'' readUInt32, set_if ''flags'' 2 ''can_view_history'',
         rd_if ''flags'' 0 ''visible'' readBool, rd ''peer'' readTLPeer])]"

definition writeTLCommunityPeer :: tl_writer where
  "writeTLCommunityPeer = write_fobject
     [(1981030077, [wf ''_'' writeInt32, wf_flags ''flags'' [(''can_view_history'', 2),
         (''visible'', 0)], wf_if ''flags'' 0 ''visible'' writeBool, wf ''peer'' writeTLPeer])]"

definition TL_CommunityPeer_table :: flag_table where
  "TL_CommunityPeer_table =
     [(1981030077, [Flags ''flags'' [(''can_view_history'', 2), (''visible'', 0)],
        TrueBit ''flags'' 2 ''can_view_history'',
        Cond ''flags'' 0 (''visible'', readBool, writeBool, enc_bool, is_VBool),
        Plain (''peer'', readTLPeer, writeTLPeer, enc_fobject TL_Peer_table,
         ok_fobject TL_Peer_table)])]"

interpretation tl_CommunityPeer: tl_codec readTLCommunityPeer writeTLCommunityPeer "enc_fobject TL_CommunityPeer_table" "ok_fobject TL_CommunityPeer_table"
  by (rule flag_schema_codec, unfold TL_CommunityPeer_table_def, intro flag_tableI)
    (simp_all add: readTLCommunityPeer_def writeTLCommunityPeer_def flag_schema_simps tl_Peer.tl_codec_axioms)

definition readTLCommunityPeerRequest :: tl_reader where
  "readTLCommunityPeerRequest = read_object
     [(2078997125, [rd ''flags'' readUInt32, set_if ''flags'' 0 ''visible'',
         rd ''peer'' readTLPeer, rd ''requested_by'' readInt64, rd ''date'' readInt32])]"

definition writeTLCommunityPeerRequest :: tl_writer where
  "writeTLCommunityPeerRequest = write_fobject
     [(2078997125, [wf ''_'' writeInt32, wf_flags ''flags'' [(''visible'', 0)],
         wf ''peer'' writeTLPeer, wf ''requested_by'' writeInt64, wf ''date'' writeInt32])]"

definition TL_CommunityPeerRequest_table :: flag_table where
  "TL_CommunityPeerRequest_table =
     [(2078997125, [Flags ''flags'' [(''visible'', 0)],
        TrueBit ''flags'' 0 ''visible'',
        Plain (''peer'', readTLPeer, writeTLPeer, enc_fobject TL_Peer_table,
         ok_fobject TL_Peer_table),
        Plain (''requested_by'', readInt64, writeInt64, enc_int64, is_VLong),
        Plain (''date'', readInt32, writeInt32, enc_int32, is_VInt)])]"

interpretation tl_CommunityPeerRequest: tl_codec readTLCommunityPeerRequest writeTLCommunityPeerRequest "enc_fobject TL_CommunityPeerRequest_table" "ok_fobject TL_CommunityPeerRequest_table"
  by (rule flag_schema_codec, unfold TL_CommunityPeerRequest_table_def, intro flag_tableI)
    (simp_all add: readTLCommunityPeerRequest_def writeTLCommunityPeerRequest_def flag_schema_simps tl_Peer.tl_codec_axioms)

definition readTLCommunitiesPeerLinkRequests :: tl_reader where
  "readTLCommunitiesPeerLinkRequests = read_object
     [(574926765, [rd ''flags'' readUInt32, rd ''total_count'' readInt32,
         rd ''requests'' (readVector (Some readTLCommunityPeerRequest)),
         rd_if ''flags'' 0 ''next_offset'' readString, rd ''chats'' (readVector (Some readTLChat)),
         rd ''users'' (readVector (Some readTLUser))])]"

definition writeTLCommunitiesPeerLinkRequests :: tl_writer where
  "writeTLCommunitiesPeerLinkRequests = write_fobject
     [(574926765, [wf ''_'' writeInt32, wf_flags ''flags'' [(''next_offset'', 0)],
         wf ''total_count'' writeInt32,
         wf ''requests'' (writeVector (Some writeTLCommunityPeerRequest)),
         wf_if ''flags'' 0 ''next_offset'' writeString,
         wf ''chats'' (writeVector (Some writeTLChat)),
         wf ''users'' (writeVector (Some writeTLUser))])]"

definition TL_CommunitiesPeerLinkRequests_table :: flag_table where
  "TL_CommunitiesPeerLinkRequests_table =
     [(574926765, [Flags ''flags'' [(''next_offset'', 0)],
        Plain (''total_count'', readInt32, writeInt32, enc_int32, is_VInt),
        Plain (''requests'', readVector (Some readTLCommunityPeerRequest),
         writeVector (Some writeTLCommunityPeerRequest),
         enc_vector (enc_fobject TL_CommunityPeerRequest_table),
         ok_vector (ok_fobject TL_CommunityPeerRequest_table)),
        Cond ''flags'' 0 (''next_offset'', readString, writeString, enc_string, is_short_text),
        Plain (''chats'', readVector (Some readTLChat), writeVector (Some writeTLChat),
         enc_vector (enc_fobject TL_Chat_table), ok_vector (ok_fobject TL_Chat_table)),
        Plain (''users'', readVector (Some readTLUser), writeVector (Some writeTLUser),
         enc_vector (enc_fobject TL_User_table), ok_vector (ok_fobject TL_User_table))])]"

interpretation tl_CommunitiesPeerLinkRequests: tl_codec readTLCommunitiesPeerLinkRequests writeTLCommunitiesPeerLinkRequests "enc_fobject TL_CommunitiesPeerLinkRequests_table" "ok_fobject TL_CommunitiesPeerLinkRequests_table"
  by (rule flag_schema_codec, unfold TL_CommunitiesPeerLinkRequests_table_def, intro flag_tableI)
    (simp_all add: readTLCommunitiesPeerLinkRequests_def writeTLCommunitiesPeerLinkRequests_def flag_schema_simps tl_CommunityPeerRequest.tl_codec_axioms tl_CommunityPeerRequest.vector_codec tl_Chat.tl_codec_axioms tl_Chat.vector_codec tl_User.tl_codec_axioms tl_User.vector_codec)

definition readTLCommunitiesParticipantJoinedChats :: tl_reader where
  "readTLCommunitiesParticipantJoinedChats = read_object
     [(- 1921494742, [rd ''creator_chat_ids'' (readVector (Some readInt64)),
         rd ''joined_chat_ids'' (readVector (Some readInt64)),
         rd ''chats'' (readVector (Some readTLChat)),
         rd ''users'' (readVector (Some readTLUser))])]"

definition writeTLCommunitiesParticipantJoinedChats :: tl_writer where
  "writeTLCommunitiesParticipantJoinedChats = write_fobject
     [(- 1921494742, [wf ''_'' writeInt32, wf ''creator_chat_ids'' (writeVector (Some writeInt64)),
         wf ''joined_chat_ids'' (writeVector (Some writeInt64)),
         wf ''chats'' (writeVector (Some writeTLChat)),
         wf ''users'' (writeVector (Some writeTLUser))])]"

definition TL_CommunitiesParticipantJoinedChats_table :: flag_table where
  "TL_CommunitiesParticipantJoinedChats_table =
     [(- 1921494742, [Plain (''creator_chat_ids'', readVector (Some readInt64),
         writeVector (Some writeInt64), enc_vector enc_int64, ok_vector is_VLong),
        Plain (''joined_chat_ids'', readVector (Some readInt64), writeVector (Some writeInt64),
         enc_vector enc_int64, ok_vector is_VLong),
        Plain (''chats'', readVector (Some readTLChat), writeVector (Some writeTLChat),
         enc_vector (enc_fobject TL_Chat_table), ok_vector (ok_fobject TL_Chat_table)),
        Plain (''users'', readVector (Some readTLUser), writeVector (Some writeTLUser),
         enc_vector (enc_fobject TL_User_table), ok_vector (ok_fobject TL_User_table))])]"

interpretation tl_CommunitiesParticipantJoinedChats: tl_codec readTLCommunitiesParticipantJoinedChats writeTLCommunitiesParticipantJoinedChats "enc_fobject TL_CommunitiesParticipantJoinedChats_table" "ok_fobject TL_CommunitiesParticipantJoinedChats_table"
  by (rule flag_schema_codec, unfold TL_CommunitiesParticipantJoinedChats_table_def, intro flag_tableI)
    (simp_all add: readTLCommunitiesParticipantJoinedChats_def writeTLCommunitiesParticipantJoinedChats_def flag_schema_simps tl_Chat.tl_codec_axioms tl_Chat.vector_codec tl_User.tl_codec_axioms tl_User.vector_codec)

definition readTLAuthFirebasePnvIntent :: tl_reader where
  "readTLAuthFirebasePnvIntent = read_object
     [(- 547700724, [rd ''nonce'' readString, rd ''digital_credential_payload'' readString])]"

definition writeTLAuthFirebasePnvIntent :: tl_writer where
  "writeTLAuthFirebasePnvIntent = write_fobject
     [(- 547700724, [wf ''_'' writeInt32, wf ''nonce'' writeString,
         wf ''digital_credential_payload'' writeString])]"

definition TL_AuthFirebasePnvIntent_table :: flag_table where
  "TL_AuthFirebasePnvIntent_table =
     [(- 547700724, [Plain (''nonce'', readString, writeString, enc_string, is_short_text),
        Plain (''digital_credential_payload'', readString, writeString, enc_string,
         is_short_text)])]"

interpretation tl_AuthFirebasePnvIntent: tl_codec readTLAuthFirebasePnvIntent writeTLAuthFirebasePnvIntent "enc_fobject TL_AuthFirebasePnvIntent_table" "ok_fobject TL_AuthFirebasePnvIntent_table"
  by (rule flag_schema_codec, unfold TL_AuthFirebasePnvIntent_table_def, intro flag_tableI)
    (simp_all add: readTLAuthFirebasePnvIntent_def writeTLAuthFirebasePnvIntent_def flag_schema_simps)

subsection \<open>The types since the last list at once\<close>

definition tl_types_part10 :: "(tl_reader \<times> tl_writer \<times> flag_table) list" where
  "tl_types_part10 =
     [(readTLAccountSavedMusicIds, writeTLAccountSavedMusicIds, TL_AccountSavedMusicIds_table),
      (readTLPaymentsCheckCanSendGiftResult, writeTLPaymentsCheckCanSendGiftResult, TL_PaymentsCheckCanSendGiftResult_table),
      (readTLInputChatTheme, writeTLInputChatTheme, TL_InputChatTheme_table),
      (readTLStarGiftUpgradePrice, writeTLStarGiftUpgradePrice, TL_StarGiftUpgradePrice_table),
      (readTLGroupCallMessage, writeTLGroupCallMessage, TL_GroupCallMessage_table),
      (readTLGroupCallDonor, writeTLGroupCallDonor, TL_GroupCallDonor_table),
      (readTLPhoneGroupCallStars, writeTLPhoneGroupCallStars, TL_PhoneGroupCallStars_table),
      (readTLAuctionBidLevel, writeTLAuctionBidLevel, TL_AuctionBidLevel_table),
      (readTLStarGiftAuctionRound, writeTLStarGiftAuctionRound, TL_StarGiftAuctionRound_table),
      (readTLStarGiftAuctionState, writeTLStarGiftAuctionState, TL_StarGiftAuctionState_table),
      (readTLStarGiftAuctionUserState, writeTLStarGiftAuctionUserState, TL_StarGiftAuctionUserState_table),
      (readTLStarGiftAuctionAcquiredGift, writeTLStarGiftAuctionAcquiredGift, TL_StarGiftAuctionAcquiredGift_table),
      (readTLPaymentsStarGiftAuctionAcquiredGifts, writeTLPaymentsStarGiftAuctionAcquiredGifts, TL_PaymentsStarGiftAuctionAcquiredGifts_table),
      (readTLInputStarGiftAuction, writeTLInputStarGiftAuction, TL_InputStarGiftAuction_table),
      (readTLPasskey, writeTLPasskey, TL_Passkey_table),
      (readTLAccountPasskeys, writeTLAccountPasskeys, TL_AccountPasskeys_table),
      (readTLAccountPasskeyRegistrationOptions, writeTLAccountPasskeyRegistrationOptions, TL_AccountPasskeyRegistrationOptions_table),
      (readTLAuthPasskeyLoginOptions, writeTLAuthPasskeyLoginOptions, TL_AuthPasskeyLoginOptions_table),
      (readTLInputPasskeyResponse, writeTLInputPasskeyResponse, TL_InputPasskeyResponse_table),
      (readTLInputPasskeyCredential, writeTLInputPasskeyCredential, TL_InputPasskeyCredential_table),
      (readTLStarGiftBackground, writeTLStarGiftBackground, TL_StarGiftBackground_table),
      (readTLMessagesEmojiGameOutcome, writeTLMessagesEmojiGameOutcome, TL_MessagesEmojiGameOutcome_table),
      (readTLMessagesEmojiGameInfo, writeTLMessagesEmojiGameInfo, TL_MessagesEmojiGameInfo_table),
      (readTLStarGiftAttributeRarity, writeTLStarGiftAttributeRarity, TL_StarGiftAttributeRarity_table),
      (readTLInputMessageReadMetric, writeTLInputMessageReadMetric, TL_InputMessageReadMetric_table),
      (readTLBotsExportedBotToken, writeTLBotsExportedBotToken, TL_BotsExportedBotToken_table),
      (readTLBotsRequestedButton, writeTLBotsRequestedButton, TL_BotsRequestedButton_table),
      (readTLMessagesComposedMessageWithAI, writeTLMessagesComposedMessageWithAI, TL_MessagesComposedMessageWithAI_table),
      (readTLStatsPollStats, writeTLStatsPollStats, TL_StatsPollStats_table),
      (readTLInputAiComposeTone, writeTLInputAiComposeTone, TL_InputAiComposeTone_table),
      (readTLAiComposeToneExample, writeTLAiComposeToneExample, TL_AiComposeToneExample_table),
      (readTLAiComposeTone, writeTLAiComposeTone, TL_AiComposeTone_table),
      (readTLAicomposeTones, writeTLAicomposeTones, TL_AicomposeTones_table),
      (readTLBotsAccessSettings, writeTLBotsAccessSettings, TL_BotsAccessSettings_table),
      (readTLJoinChatBotResult, writeTLJoinChatBotResult, TL_JoinChatBotResult_table),
      (readTLWebDomainException, writeTLWebDomainException, TL_WebDomainException_table),
      (readTLAccountWebBrowserSettings, writeTLAccountWebBrowserSettings, TL_AccountWebBrowserSettings_table),
      (readTLInputRichFile, writeTLInputRichFile, TL_InputRichFile_table),
      (readTLCommunityPeer, writeTLCommunityPeer, TL_CommunityPeer_table),
      (readTLCommunityPeerRequest, writeTLCommunityPeerRequest, TL_CommunityPeerRequest_table),
      (readTLCommunitiesPeerLinkRequests, writeTLCommunitiesPeerLinkRequests, TL_CommunitiesPeerLinkRequests_table),
      (readTLCommunitiesParticipantJoinedChats, writeTLCommunitiesParticipantJoinedChats, TL_CommunitiesParticipantJoinedChats_table),
      (readTLAuthFirebasePnvIntent, writeTLAuthFirebasePnvIntent, TL_AuthFirebasePnvIntent_table)]"

lemma tl_types_part10_codec: "(R, W, t) \<in> set tl_types_part10 \<Longrightarrow> tl_codec R W (enc_fobject t) (ok_fobject t)"
  by (auto simp: tl_types_part10_def
      intro: tl_AccountSavedMusicIds.tl_codec_axioms tl_PaymentsCheckCanSendGiftResult.tl_codec_axioms
         tl_InputChatTheme.tl_codec_axioms tl_StarGiftUpgradePrice.tl_codec_axioms
         tl_GroupCallMessage.tl_codec_axioms tl_GroupCallDonor.tl_codec_axioms
         tl_PhoneGroupCallStars.tl_codec_axioms tl_AuctionBidLevel.tl_codec_axioms
         tl_StarGiftAuctionRound.tl_codec_axioms tl_StarGiftAuctionState.tl_codec_axioms
         tl_StarGiftAuctionUserState.tl_codec_axioms
         tl_StarGiftAuctionAcquiredGift.tl_codec_axioms
         tl_PaymentsStarGiftAuctionAcquiredGifts.tl_codec_axioms
         tl_InputStarGiftAuction.tl_codec_axioms tl_Passkey.tl_codec_axioms
         tl_AccountPasskeys.tl_codec_axioms tl_AccountPasskeyRegistrationOptions.tl_codec_axioms
         tl_AuthPasskeyLoginOptions.tl_codec_axioms tl_InputPasskeyResponse.tl_codec_axioms
         tl_InputPasskeyCredential.tl_codec_axioms tl_StarGiftBackground.tl_codec_axioms
         tl_MessagesEmojiGameOutcome.tl_codec_axioms tl_MessagesEmojiGameInfo.tl_codec_axioms
         tl_StarGiftAttributeRarity.tl_codec_axioms tl_InputMessageReadMetric.tl_codec_axioms
         tl_BotsExportedBotToken.tl_codec_axioms tl_BotsRequestedButton.tl_codec_axioms
         tl_MessagesComposedMessageWithAI.tl_codec_axioms tl_StatsPollStats.tl_codec_axioms
         tl_InputAiComposeTone.tl_codec_axioms tl_AiComposeToneExample.tl_codec_axioms
         tl_AiComposeTone.tl_codec_axioms tl_AicomposeTones.tl_codec_axioms
         tl_BotsAccessSettings.tl_codec_axioms tl_JoinChatBotResult.tl_codec_axioms
         tl_WebDomainException.tl_codec_axioms tl_AccountWebBrowserSettings.tl_codec_axioms
         tl_InputRichFile.tl_codec_axioms tl_CommunityPeer.tl_codec_axioms
         tl_CommunityPeerRequest.tl_codec_axioms tl_CommunitiesPeerLinkRequests.tl_codec_axioms
         tl_CommunitiesParticipantJoinedChats.tl_codec_axioms
         tl_AuthFirebasePnvIntent.tl_codec_axioms)

text \<open>Every type modelled, and the contract for all of them.\<close>

definition api_types :: "(tl_reader \<times> tl_writer \<times> flag_table) list" where
  "api_types =
     concat [tl_types, tl_types3, tl_types_part1, tl_types_part2, tl_types_part3, tl_types_part4,
       tl_types_part5, tl_types_part6, tl_types_part7, tl_types_part8,
       tl_types_part9, tl_types_part10]"

lemma api_type_codec: "(R, W, t) \<in> set api_types \<Longrightarrow> tl_codec R W (enc_fobject t) (ok_fobject t)"
  unfolding api_types_def using api_types_codec tl_types_part1_codec tl_types_part2_codec tl_types_part3_codec tl_types_part4_codec tl_types_part5_codec tl_types_part6_codec tl_types_part7_codec tl_types_part8_codec tl_types_part9_codec tl_types_part10_codec by auto

end
