(* ===== verification/TlMethods1.thy ===== *)
theory TlMethods1
  imports TlTypes4
begin

section \<open>The API schema, methods: libkg/tlschema.cpp\<close>

text \<open>
  The writer of each method's request and the reader of its reply.
\<close>

definition readTLMethodAuthSendCode :: tl_reader where
  "readTLMethodAuthSendCode = read_method (- 1502141361) readTLAuthSentCode"

definition readTLMethodAuthSignUp :: tl_reader where
  "readTLMethodAuthSignUp = read_method (- 1429752041) readTLAuthAuthorization"

definition readTLMethodAuthSignIn :: tl_reader where
  "readTLMethodAuthSignIn = read_method (- 1923962543) readTLAuthAuthorization"

definition readTLMethodAuthLogOut :: tl_reader where
  "readTLMethodAuthLogOut = read_method (1047706137) readTLAuthLoggedOut"

definition writeTLMethodAuthLogOut :: tl_writer where
  "writeTLMethodAuthLogOut = write_fobject
     [(1047706137, [wf ''_'' writeInt32])]"

definition readTLMethodAuthResetAuthorizations :: tl_reader where
  "readTLMethodAuthResetAuthorizations = read_method (- 1616179942) readBool"

definition writeTLMethodAuthResetAuthorizations :: tl_writer where
  "writeTLMethodAuthResetAuthorizations = write_fobject
     [(- 1616179942, [wf ''_'' writeInt32])]"

definition readTLMethodAuthExportAuthorization :: tl_reader where
  "readTLMethodAuthExportAuthorization = read_method (- 440401971) readTLAuthExportedAuthorization"

definition readTLMethodAuthImportAuthorization :: tl_reader where
  "readTLMethodAuthImportAuthorization = read_method (- 1518699091) readTLAuthAuthorization"

definition readTLMethodAuthBindTempAuthKey :: tl_reader where
  "readTLMethodAuthBindTempAuthKey = read_method (- 841733627) readBool"

definition writeTLMethodAuthBindTempAuthKey :: tl_writer where
  "writeTLMethodAuthBindTempAuthKey = write_fobject
     [(- 841733627, [wf ''_'' writeInt32, wf ''perm_auth_key_id'' writeInt64,
         wf ''nonce'' writeInt64, wf ''expires_at'' writeInt32,
         wf ''encrypted_message'' writeByteArray])]"

definition readTLMethodAuthImportBotAuthorization :: tl_reader where
  "readTLMethodAuthImportBotAuthorization = read_method (1738800940) readTLAuthAuthorization"

definition writeTLMethodAuthImportBotAuthorization :: tl_writer where
  "writeTLMethodAuthImportBotAuthorization = write_fobject
     [(1738800940, [wf ''_'' writeInt32, wf ''flags'' writeInt32, wf ''api_id'' writeInt32,
         wf ''api_hash'' writeString, wf ''bot_auth_token'' writeString])]"

definition readTLMethodAuthCheckPassword :: tl_reader where
  "readTLMethodAuthCheckPassword = read_method (- 779399914) readTLAuthAuthorization"

definition readTLMethodAuthRequestPasswordRecovery :: tl_reader where
  "readTLMethodAuthRequestPasswordRecovery = read_method (- 661144474) readTLAuthPasswordRecovery"

definition writeTLMethodAuthRequestPasswordRecovery :: tl_writer where
  "writeTLMethodAuthRequestPasswordRecovery = write_fobject
     [(- 661144474, [wf ''_'' writeInt32])]"

definition readTLMethodAuthRecoverPassword :: tl_reader where
  "readTLMethodAuthRecoverPassword = read_method (923364464) readTLAuthAuthorization"

definition writeTLMethodAuthRecoverPassword :: tl_writer where
  "writeTLMethodAuthRecoverPassword = write_fobject
     [(923364464, [wf ''_'' writeInt32, wf_flags ''flags'' [(''new_settings'', 0)],
         wf ''code'' writeString,
         wf_if ''flags'' 0 ''new_settings'' writeTLAccountPasswordInputSettings])]"

definition readTLMethodAuthResendCode :: tl_reader where
  "readTLMethodAuthResendCode = read_method (- 890997469) readTLAuthSentCode"

definition writeTLMethodAuthResendCode :: tl_writer where
  "writeTLMethodAuthResendCode = write_fobject
     [(- 890997469, [wf ''_'' writeInt32, wf_flags ''flags'' [(''reason'', 0)],
         wf ''phone_number'' writeString, wf ''phone_code_hash'' writeString,
         wf_if ''flags'' 0 ''reason'' writeString])]"

definition readTLMethodAuthCancelCode :: tl_reader where
  "readTLMethodAuthCancelCode = read_method (520357240) readBool"

definition writeTLMethodAuthCancelCode :: tl_writer where
  "writeTLMethodAuthCancelCode = write_fobject
     [(520357240, [wf ''_'' writeInt32, wf ''phone_number'' writeString,
         wf ''phone_code_hash'' writeString])]"

definition readTLMethodAuthDropTempAuthKeys :: tl_reader where
  "readTLMethodAuthDropTempAuthKeys = read_method (- 1907842680) readBool"

definition writeTLMethodAuthDropTempAuthKeys :: tl_writer where
  "writeTLMethodAuthDropTempAuthKeys = write_fobject
     [(- 1907842680, [wf ''_'' writeInt32,
         wf ''except_auth_keys'' (writeVector (Some writeInt64))])]"

definition readTLMethodAuthExportLoginToken :: tl_reader where
  "readTLMethodAuthExportLoginToken = read_method (- 1210022402) readTLAuthLoginToken"

definition writeTLMethodAuthExportLoginToken :: tl_writer where
  "writeTLMethodAuthExportLoginToken = write_fobject
     [(- 1210022402, [wf ''_'' writeInt32, wf ''api_id'' writeInt32, wf ''api_hash'' writeString,
         wf ''except_ids'' (writeVector (Some writeInt64))])]"

definition readTLMethodAuthImportLoginToken :: tl_reader where
  "readTLMethodAuthImportLoginToken = read_method (- 1783866140) readTLAuthLoginToken"

definition writeTLMethodAuthImportLoginToken :: tl_writer where
  "writeTLMethodAuthImportLoginToken = write_fobject
     [(- 1783866140, [wf ''_'' writeInt32, wf ''token'' writeByteArray])]"

definition readTLMethodAuthAcceptLoginToken :: tl_reader where
  "readTLMethodAuthAcceptLoginToken = read_method (- 392909491) readTLAuthorization"

definition writeTLMethodAuthAcceptLoginToken :: tl_writer where
  "writeTLMethodAuthAcceptLoginToken = write_fobject
     [(- 392909491, [wf ''_'' writeInt32, wf ''token'' writeByteArray])]"

definition readTLMethodAuthCheckRecoveryPassword :: tl_reader where
  "readTLMethodAuthCheckRecoveryPassword = read_method (221691769) readBool"

definition writeTLMethodAuthCheckRecoveryPassword :: tl_writer where
  "writeTLMethodAuthCheckRecoveryPassword = write_fobject
     [(221691769, [wf ''_'' writeInt32, wf ''code'' writeString])]"

definition readTLMethodAuthImportWebTokenAuthorization :: tl_reader where
  "readTLMethodAuthImportWebTokenAuthorization = read_method (767062953) readTLAuthAuthorization"

definition writeTLMethodAuthImportWebTokenAuthorization :: tl_writer where
  "writeTLMethodAuthImportWebTokenAuthorization = write_fobject
     [(767062953, [wf ''_'' writeInt32, wf ''api_id'' writeInt32, wf ''api_hash'' writeString,
         wf ''web_auth_token'' writeString])]"

definition readTLMethodAuthRequestFirebaseSms :: tl_reader where
  "readTLMethodAuthRequestFirebaseSms = read_method (- 1908857314) readBool"

definition writeTLMethodAuthRequestFirebaseSms :: tl_writer where
  "writeTLMethodAuthRequestFirebaseSms = write_fobject
     [(- 1908857314, [wf ''_'' writeInt32, wf_flags ''flags'' [(''safety_net_token'', 0),
         (''play_integrity_token'', 2), (''ios_push_secret'', 1)], wf ''phone_number'' writeString,
         wf ''phone_code_hash'' writeString, wf_if ''flags'' 0 ''safety_net_token'' writeString,
         wf_if ''flags'' 2 ''play_integrity_token'' writeString,
         wf_if ''flags'' 1 ''ios_push_secret'' writeString])]"

definition readTLMethodAuthResetLoginEmail :: tl_reader where
  "readTLMethodAuthResetLoginEmail = read_method (2123760019) readTLAuthSentCode"

definition writeTLMethodAuthResetLoginEmail :: tl_writer where
  "writeTLMethodAuthResetLoginEmail = write_fobject
     [(2123760019, [wf ''_'' writeInt32, wf ''phone_number'' writeString,
         wf ''phone_code_hash'' writeString])]"

definition readTLMethodAuthReportMissingCode :: tl_reader where
  "readTLMethodAuthReportMissingCode = read_method (- 878841866) readBool"

definition writeTLMethodAuthReportMissingCode :: tl_writer where
  "writeTLMethodAuthReportMissingCode = write_fobject
     [(- 878841866, [wf ''_'' writeInt32, wf ''phone_number'' writeString,
         wf ''phone_code_hash'' writeString, wf ''mnc'' writeString])]"

definition readTLMethodAuthCheckPaidAuth :: tl_reader where
  "readTLMethodAuthCheckPaidAuth = read_method (1457889180) readTLAuthSentCode"

definition writeTLMethodAuthCheckPaidAuth :: tl_writer where
  "writeTLMethodAuthCheckPaidAuth = write_fobject
     [(1457889180, [wf ''_'' writeInt32, wf ''phone_number'' writeString,
         wf ''phone_code_hash'' writeString, wf ''form_id'' writeInt64])]"

definition readTLMethodAuthInitPasskeyLogin :: tl_reader where
  "readTLMethodAuthInitPasskeyLogin = read_method (1368051895) readTLAuthPasskeyLoginOptions"

definition writeTLMethodAuthInitPasskeyLogin :: tl_writer where
  "writeTLMethodAuthInitPasskeyLogin = write_fobject
     [(1368051895, [wf ''_'' writeInt32, wf ''api_id'' writeInt32, wf ''api_hash'' writeString])]"

definition readTLMethodAuthFinishPasskeyLogin :: tl_reader where
  "readTLMethodAuthFinishPasskeyLogin = read_method (- 1739084537) readTLAuthAuthorization"

definition writeTLMethodAuthFinishPasskeyLogin :: tl_writer where
  "writeTLMethodAuthFinishPasskeyLogin = write_fobject
     [(- 1739084537, [wf ''_'' writeInt32, wf_flags ''flags'' [(''from_dc_id'', 0),
         (''from_auth_key_id'', 0)], wf ''credential'' writeTLInputPasskeyCredential,
         wf_if ''flags'' 0 ''from_dc_id'' writeInt32,
         wf_if ''flags'' 0 ''from_auth_key_id'' writeInt64])]"

definition readTLMethodAuthInitFirebasePnvLogin :: tl_reader where
  "readTLMethodAuthInitFirebasePnvLogin = read_method (2004743034) readTLAuthFirebasePnvIntent"

definition writeTLMethodAuthInitFirebasePnvLogin :: tl_writer where
  "writeTLMethodAuthInitFirebasePnvLogin = write_fobject
     [(2004743034, [wf ''_'' writeInt32, wf ''api_id'' writeInt32, wf ''api_hash'' writeString])]"

definition readTLMethodAuthFinishFirebasePnvLogin :: tl_reader where
  "readTLMethodAuthFinishFirebasePnvLogin = read_method (746916172) readTLAuthAuthorization"

definition writeTLMethodAuthFinishFirebasePnvLogin :: tl_writer where
  "writeTLMethodAuthFinishFirebasePnvLogin = write_fobject
     [(746916172, [wf ''_'' writeInt32, wf ''google_token'' writeString])]"

definition readTLMethodAuthFirebasePnvSignUp :: tl_reader where
  "readTLMethodAuthFirebasePnvSignUp = read_method (2017422166) readTLAuthAuthorization"

definition writeTLMethodAuthFirebasePnvSignUp :: tl_writer where
  "writeTLMethodAuthFirebasePnvSignUp = write_fobject
     [(2017422166, [wf ''_'' writeInt32, wf_flags ''flags'' [(''no_joined_notifications'', 0)],
         wf ''first_name'' writeString, wf ''last_name'' writeString])]"

definition readTLMethodAccountRegisterDevice :: tl_reader where
  "readTLMethodAccountRegisterDevice = read_method (- 326762118) readBool"

definition writeTLMethodAccountRegisterDevice :: tl_writer where
  "writeTLMethodAccountRegisterDevice = write_fobject
     [(- 326762118, [wf ''_'' writeInt32, wf_flags ''flags'' [(''no_muted'', 0)],
         wf ''token_type'' writeInt32, wf ''token'' writeString, wf ''app_sandbox'' writeBool,
         wf ''secret'' writeByteArray, wf ''other_uids'' (writeVector (Some writeInt64))])]"

definition readTLMethodAccountUnregisterDevice :: tl_reader where
  "readTLMethodAccountUnregisterDevice = read_method (1779249670) readBool"

definition writeTLMethodAccountUnregisterDevice :: tl_writer where
  "writeTLMethodAccountUnregisterDevice = write_fobject
     [(1779249670, [wf ''_'' writeInt32, wf ''token_type'' writeInt32, wf ''token'' writeString,
         wf ''other_uids'' (writeVector (Some writeInt64))])]"

definition readTLMethodAccountUpdateNotifySettings :: tl_reader where
  "readTLMethodAccountUpdateNotifySettings = read_method (- 2067899501) readBool"

definition writeTLMethodAccountUpdateNotifySettings :: tl_writer where
  "writeTLMethodAccountUpdateNotifySettings = write_fobject
     [(- 2067899501, [wf ''_'' writeInt32, wf ''peer'' writeTLInputNotifyPeer,
         wf ''settings'' writeTLInputPeerNotifySettings])]"

definition readTLMethodAccountGetNotifySettings :: tl_reader where
  "readTLMethodAccountGetNotifySettings = read_method (313765169) readTLPeerNotifySettings"

definition writeTLMethodAccountGetNotifySettings :: tl_writer where
  "writeTLMethodAccountGetNotifySettings = write_fobject
     [(313765169, [wf ''_'' writeInt32, wf ''peer'' writeTLInputNotifyPeer])]"

definition readTLMethodAccountResetNotifySettings :: tl_reader where
  "readTLMethodAccountResetNotifySettings = read_method (- 612493497) readBool"

definition writeTLMethodAccountResetNotifySettings :: tl_writer where
  "writeTLMethodAccountResetNotifySettings = write_fobject
     [(- 612493497, [wf ''_'' writeInt32])]"

definition readTLMethodAccountUpdateProfile :: tl_reader where
  "readTLMethodAccountUpdateProfile = read_method (2018596725) readTLUser"

definition writeTLMethodAccountUpdateProfile :: tl_writer where
  "writeTLMethodAccountUpdateProfile = write_fobject
     [(2018596725, [wf ''_'' writeInt32, wf_flags ''flags'' [(''first_name'', 0), (''last_name'',
         1), (''about'', 2)], wf_if ''flags'' 0 ''first_name'' writeString,
         wf_if ''flags'' 1 ''last_name'' writeString, wf_if ''flags'' 2 ''about'' writeString])]"

definition readTLMethodAccountUpdateStatus :: tl_reader where
  "readTLMethodAccountUpdateStatus = read_method (1713919532) readBool"

definition writeTLMethodAccountUpdateStatus :: tl_writer where
  "writeTLMethodAccountUpdateStatus = write_fobject
     [(1713919532, [wf ''_'' writeInt32, wf ''offline'' writeBool])]"

definition writeTLMethodAccountGetWallPapers :: tl_writer where
  "writeTLMethodAccountGetWallPapers = write_fobject
     [(127302966, [wf ''_'' writeInt32, wf ''hash'' writeInt64])]"

definition readTLMethodAccountReportPeer :: tl_reader where
  "readTLMethodAccountReportPeer = read_method (- 977650298) readBool"

definition writeTLMethodAccountReportPeer :: tl_writer where
  "writeTLMethodAccountReportPeer = write_fobject
     [(- 977650298, [wf ''_'' writeInt32, wf ''peer'' writeTLInputPeer,
         wf ''reason'' writeTLReportReason, wf ''message'' writeString])]"

definition readTLMethodAccountCheckUsername :: tl_reader where
  "readTLMethodAccountCheckUsername = read_method (655677548) readBool"

definition writeTLMethodAccountCheckUsername :: tl_writer where
  "writeTLMethodAccountCheckUsername = write_fobject
     [(655677548, [wf ''_'' writeInt32, wf ''username'' writeString])]"

definition readTLMethodAccountUpdateUsername :: tl_reader where
  "readTLMethodAccountUpdateUsername = read_method (1040964988) readTLUser"

definition writeTLMethodAccountUpdateUsername :: tl_writer where
  "writeTLMethodAccountUpdateUsername = write_fobject
     [(1040964988, [wf ''_'' writeInt32, wf ''username'' writeString])]"

definition readTLMethodAccountGetPrivacy :: tl_reader where
  "readTLMethodAccountGetPrivacy = read_method (- 623130288) readTLAccountPrivacyRules"

definition writeTLMethodAccountGetPrivacy :: tl_writer where
  "writeTLMethodAccountGetPrivacy = write_fobject
     [(- 623130288, [wf ''_'' writeInt32, wf ''key'' writeTLInputPrivacyKey])]"

definition readTLMethodAccountSetPrivacy :: tl_reader where
  "readTLMethodAccountSetPrivacy = read_method (- 906486552) readTLAccountPrivacyRules"

definition writeTLMethodAccountSetPrivacy :: tl_writer where
  "writeTLMethodAccountSetPrivacy = write_fobject
     [(- 906486552, [wf ''_'' writeInt32, wf ''key'' writeTLInputPrivacyKey,
         wf ''rules'' (writeVector (Some writeTLInputPrivacyRule))])]"

definition readTLMethodAccountDeleteAccount :: tl_reader where
  "readTLMethodAccountDeleteAccount = read_method (- 1564422284) readBool"

definition writeTLMethodAccountDeleteAccount :: tl_writer where
  "writeTLMethodAccountDeleteAccount = write_fobject
     [(- 1564422284, [wf ''_'' writeInt32, wf_flags ''flags'' [(''password'', 0)],
         wf ''reason'' writeString, wf_if ''flags'' 0 ''password'' writeTLInputCheckPasswordSRP])]"

definition readTLMethodAccountGetAccountTTL :: tl_reader where
  "readTLMethodAccountGetAccountTTL = read_method (150761757) readTLAccountDaysTTL"

definition writeTLMethodAccountGetAccountTTL :: tl_writer where
  "writeTLMethodAccountGetAccountTTL = write_fobject
     [(150761757, [wf ''_'' writeInt32])]"

definition readTLMethodAccountSetAccountTTL :: tl_reader where
  "readTLMethodAccountSetAccountTTL = read_method (608323678) readBool"

definition writeTLMethodAccountSetAccountTTL :: tl_writer where
  "writeTLMethodAccountSetAccountTTL = write_fobject
     [(608323678, [wf ''_'' writeInt32, wf ''ttl'' writeTLAccountDaysTTL])]"

definition readTLMethodAccountSendChangePhoneCode :: tl_reader where
  "readTLMethodAccountSendChangePhoneCode = read_method (- 2108208411) readTLAuthSentCode"

definition writeTLMethodAccountSendChangePhoneCode :: tl_writer where
  "writeTLMethodAccountSendChangePhoneCode = write_fobject
     [(- 2108208411, [wf ''_'' writeInt32, wf ''phone_number'' writeString,
         wf ''settings'' writeTLCodeSettings])]"

definition readTLMethodAccountChangePhone :: tl_reader where
  "readTLMethodAccountChangePhone = read_method (1891839707) readTLUser"

definition writeTLMethodAccountChangePhone :: tl_writer where
  "writeTLMethodAccountChangePhone = write_fobject
     [(1891839707, [wf ''_'' writeInt32, wf ''phone_number'' writeString,
         wf ''phone_code_hash'' writeString, wf ''phone_code'' writeString])]"

definition readTLMethodAccountUpdateDeviceLocked :: tl_reader where
  "readTLMethodAccountUpdateDeviceLocked = read_method (954152242) readBool"

definition writeTLMethodAccountUpdateDeviceLocked :: tl_writer where
  "writeTLMethodAccountUpdateDeviceLocked = write_fobject
     [(954152242, [wf ''_'' writeInt32, wf ''period'' writeInt32])]"

definition readTLMethodAccountGetAuthorizations :: tl_reader where
  "readTLMethodAccountGetAuthorizations = read_method (- 484392616) readTLAccountAuthorizations"

definition writeTLMethodAccountGetAuthorizations :: tl_writer where
  "writeTLMethodAccountGetAuthorizations = write_fobject
     [(- 484392616, [wf ''_'' writeInt32])]"

definition readTLMethodAccountResetAuthorization :: tl_reader where
  "readTLMethodAccountResetAuthorization = read_method (- 545786948) readBool"

definition writeTLMethodAccountResetAuthorization :: tl_writer where
  "writeTLMethodAccountResetAuthorization = write_fobject
     [(- 545786948, [wf ''_'' writeInt32, wf ''hash'' writeInt64])]"

definition readTLMethodAccountGetPassword :: tl_reader where
  "readTLMethodAccountGetPassword = read_method (1418342645) readTLAccountPassword"

definition readTLMethodAccountGetPasswordSettings :: tl_reader where
  "readTLMethodAccountGetPasswordSettings = read_method (- 1663767815) readTLAccountPasswordSettings"

definition writeTLMethodAccountGetPasswordSettings :: tl_writer where
  "writeTLMethodAccountGetPasswordSettings = write_fobject
     [(- 1663767815, [wf ''_'' writeInt32, wf ''password'' writeTLInputCheckPasswordSRP])]"

definition readTLMethodAccountUpdatePasswordSettings :: tl_reader where
  "readTLMethodAccountUpdatePasswordSettings = read_method (- 1516564433) readBool"

definition writeTLMethodAccountUpdatePasswordSettings :: tl_writer where
  "writeTLMethodAccountUpdatePasswordSettings = write_fobject
     [(- 1516564433, [wf ''_'' writeInt32, wf ''password'' writeTLInputCheckPasswordSRP,
         wf ''new_settings'' writeTLAccountPasswordInputSettings])]"

definition readTLMethodAccountSendConfirmPhoneCode :: tl_reader where
  "readTLMethodAccountSendConfirmPhoneCode = read_method (457157256) readTLAuthSentCode"

definition writeTLMethodAccountSendConfirmPhoneCode :: tl_writer where
  "writeTLMethodAccountSendConfirmPhoneCode = write_fobject
     [(457157256, [wf ''_'' writeInt32, wf ''hash'' writeString,
         wf ''settings'' writeTLCodeSettings])]"

definition readTLMethodAccountConfirmPhone :: tl_reader where
  "readTLMethodAccountConfirmPhone = read_method (1596029123) readBool"

definition writeTLMethodAccountConfirmPhone :: tl_writer where
  "writeTLMethodAccountConfirmPhone = write_fobject
     [(1596029123, [wf ''_'' writeInt32, wf ''phone_code_hash'' writeString,
         wf ''phone_code'' writeString])]"

definition readTLMethodAccountGetTmpPassword :: tl_reader where
  "readTLMethodAccountGetTmpPassword = read_method (1151208273) readTLAccountTmpPassword"

definition writeTLMethodAccountGetTmpPassword :: tl_writer where
  "writeTLMethodAccountGetTmpPassword = write_fobject
     [(1151208273, [wf ''_'' writeInt32, wf ''password'' writeTLInputCheckPasswordSRP,
         wf ''period'' writeInt32])]"

definition readTLMethodAccountGetWebAuthorizations :: tl_reader where
  "readTLMethodAccountGetWebAuthorizations = read_method (405695855) readTLAccountWebAuthorizations"

definition writeTLMethodAccountGetWebAuthorizations :: tl_writer where
  "writeTLMethodAccountGetWebAuthorizations = write_fobject
     [(405695855, [wf ''_'' writeInt32])]"

definition readTLMethodAccountResetWebAuthorization :: tl_reader where
  "readTLMethodAccountResetWebAuthorization = read_method (755087855) readBool"

definition writeTLMethodAccountResetWebAuthorization :: tl_writer where
  "writeTLMethodAccountResetWebAuthorization = write_fobject
     [(755087855, [wf ''_'' writeInt32, wf ''hash'' writeInt64])]"

definition readTLMethodAccountResetWebAuthorizations :: tl_reader where
  "readTLMethodAccountResetWebAuthorizations = read_method (1747789204) readBool"

definition writeTLMethodAccountResetWebAuthorizations :: tl_writer where
  "writeTLMethodAccountResetWebAuthorizations = write_fobject
     [(1747789204, [wf ''_'' writeInt32])]"

definition readTLMethodAccountGetAllSecureValues :: tl_reader where
  "readTLMethodAccountGetAllSecureValues = read_method (- 1299661699) (readVector (Some readTLSecureValue))"

definition writeTLMethodAccountGetAllSecureValues :: tl_writer where
  "writeTLMethodAccountGetAllSecureValues = write_fobject
     [(- 1299661699, [wf ''_'' writeInt32])]"

definition readTLMethodAccountGetSecureValue :: tl_reader where
  "readTLMethodAccountGetSecureValue = read_method (1936088002) (readVector (Some readTLSecureValue))"

definition writeTLMethodAccountGetSecureValue :: tl_writer where
  "writeTLMethodAccountGetSecureValue = write_fobject
     [(1936088002, [wf ''_'' writeInt32,
         wf ''types'' (writeVector (Some writeTLSecureValueType))])]"

definition readTLMethodAccountSaveSecureValue :: tl_reader where
  "readTLMethodAccountSaveSecureValue = read_method (- 1986010339) readTLSecureValue"

definition writeTLMethodAccountSaveSecureValue :: tl_writer where
  "writeTLMethodAccountSaveSecureValue = write_fobject
     [(- 1986010339, [wf ''_'' writeInt32, wf ''value'' writeTLInputSecureValue,
         wf ''secure_secret_id'' writeInt64])]"

definition readTLMethodAccountDeleteSecureValue :: tl_reader where
  "readTLMethodAccountDeleteSecureValue = read_method (- 1199522741) readBool"

definition writeTLMethodAccountDeleteSecureValue :: tl_writer where
  "writeTLMethodAccountDeleteSecureValue = write_fobject
     [(- 1199522741, [wf ''_'' writeInt32,
         wf ''types'' (writeVector (Some writeTLSecureValueType))])]"

definition writeTLMethodAccountGetAuthorizationForm :: tl_writer where
  "writeTLMethodAccountGetAuthorizationForm = write_fobject
     [(- 1456907910, [wf ''_'' writeInt32, wf ''bot_id'' writeInt64, wf ''scope'' writeString,
         wf ''public_key'' writeString])]"

definition readTLMethodAccountAcceptAuthorization :: tl_reader where
  "readTLMethodAccountAcceptAuthorization = read_method (- 202552205) readBool"

definition writeTLMethodAccountAcceptAuthorization :: tl_writer where
  "writeTLMethodAccountAcceptAuthorization = write_fobject
     [(- 202552205, [wf ''_'' writeInt32, wf ''bot_id'' writeInt64, wf ''scope'' writeString,
         wf ''public_key'' writeString,
         wf ''value_hashes'' (writeVector (Some writeTLSecureValueHash)),
         wf ''credentials'' writeTLSecureCredentialsEncrypted])]"

definition readTLMethodAccountSendVerifyPhoneCode :: tl_reader where
  "readTLMethodAccountSendVerifyPhoneCode = read_method (- 1516022023) readTLAuthSentCode"

definition writeTLMethodAccountSendVerifyPhoneCode :: tl_writer where
  "writeTLMethodAccountSendVerifyPhoneCode = write_fobject
     [(- 1516022023, [wf ''_'' writeInt32, wf ''phone_number'' writeString,
         wf ''settings'' writeTLCodeSettings])]"

definition readTLMethodAccountVerifyPhone :: tl_reader where
  "readTLMethodAccountVerifyPhone = read_method (1305716726) readBool"

definition writeTLMethodAccountVerifyPhone :: tl_writer where
  "writeTLMethodAccountVerifyPhone = write_fobject
     [(1305716726, [wf ''_'' writeInt32, wf ''phone_number'' writeString,
         wf ''phone_code_hash'' writeString, wf ''phone_code'' writeString])]"

definition readTLMethodAccountSendVerifyEmailCode :: tl_reader where
  "readTLMethodAccountSendVerifyEmailCode = read_method (- 1730136133) readTLAccountSentEmailCode"

definition writeTLMethodAccountSendVerifyEmailCode :: tl_writer where
  "writeTLMethodAccountSendVerifyEmailCode = write_fobject
     [(- 1730136133, [wf ''_'' writeInt32, wf ''purpose'' writeTLEmailVerifyPurpose,
         wf ''email'' writeString])]"

definition readTLMethodAccountVerifyEmail :: tl_reader where
  "readTLMethodAccountVerifyEmail = read_method (53322959) readTLAccountEmailVerified"

definition writeTLMethodAccountVerifyEmail :: tl_writer where
  "writeTLMethodAccountVerifyEmail = write_fobject
     [(53322959, [wf ''_'' writeInt32, wf ''purpose'' writeTLEmailVerifyPurpose,
         wf ''verification'' writeTLEmailVerification])]"

definition readTLMethodAccountInitTakeoutSession :: tl_reader where
  "readTLMethodAccountInitTakeoutSession = read_method (- 1896617296) readTLAccountTakeout"

definition writeTLMethodAccountInitTakeoutSession :: tl_writer where
  "writeTLMethodAccountInitTakeoutSession = write_fobject
     [(- 1896617296, [wf ''_'' writeInt32, wf_flags ''flags'' [(''contacts'', 0),
         (''message_users'', 1), (''message_chats'', 2), (''message_megagroups'', 3),
         (''message_channels'', 4), (''files'', 5), (''file_max_size'', 5)],
         wf_if ''flags'' 5 ''file_max_size'' writeInt64])]"

definition readTLMethodAccountFinishTakeoutSession :: tl_reader where
  "readTLMethodAccountFinishTakeoutSession = read_method (489050862) readBool"

definition writeTLMethodAccountFinishTakeoutSession :: tl_writer where
  "writeTLMethodAccountFinishTakeoutSession = write_fobject
     [(489050862, [wf ''_'' writeInt32, wf_flags ''flags'' [(''success'', 0)]])]"

definition readTLMethodAccountConfirmPasswordEmail :: tl_reader where
  "readTLMethodAccountConfirmPasswordEmail = read_method (- 1881204448) readBool"

definition writeTLMethodAccountConfirmPasswordEmail :: tl_writer where
  "writeTLMethodAccountConfirmPasswordEmail = write_fobject
     [(- 1881204448, [wf ''_'' writeInt32, wf ''code'' writeString])]"

definition readTLMethodAccountResendPasswordEmail :: tl_reader where
  "readTLMethodAccountResendPasswordEmail = read_method (2055154197) readBool"

definition writeTLMethodAccountResendPasswordEmail :: tl_writer where
  "writeTLMethodAccountResendPasswordEmail = write_fobject
     [(2055154197, [wf ''_'' writeInt32])]"

definition readTLMethodAccountCancelPasswordEmail :: tl_reader where
  "readTLMethodAccountCancelPasswordEmail = read_method (- 1043606090) readBool"

definition writeTLMethodAccountCancelPasswordEmail :: tl_writer where
  "writeTLMethodAccountCancelPasswordEmail = write_fobject
     [(- 1043606090, [wf ''_'' writeInt32])]"

definition readTLMethodAccountGetContactSignUpNotification :: tl_reader where
  "readTLMethodAccountGetContactSignUpNotification = read_method (- 1626880216) readBool"

definition writeTLMethodAccountGetContactSignUpNotification :: tl_writer where
  "writeTLMethodAccountGetContactSignUpNotification = write_fobject
     [(- 1626880216, [wf ''_'' writeInt32])]"

definition readTLMethodAccountSetContactSignUpNotification :: tl_reader where
  "readTLMethodAccountSetContactSignUpNotification = read_method (- 806076575) readBool"

definition writeTLMethodAccountSetContactSignUpNotification :: tl_writer where
  "writeTLMethodAccountSetContactSignUpNotification = write_fobject
     [(- 806076575, [wf ''_'' writeInt32, wf ''silent'' writeBool])]"

definition writeTLMethodAccountGetNotifyExceptions :: tl_writer where
  "writeTLMethodAccountGetNotifyExceptions = write_fobject
     [(1398240377, [wf ''_'' writeInt32, wf_flags ''flags'' [(''compare_sound'', 1),
         (''compare_stories'', 2), (''peer'', 0)],
         wf_if ''flags'' 0 ''peer'' writeTLInputNotifyPeer])]"

definition writeTLMethodAccountGetWallPaper :: tl_writer where
  "writeTLMethodAccountGetWallPaper = write_fobject
     [(- 57811990, [wf ''_'' writeInt32, wf ''wallpaper'' writeTLInputWallPaper])]"

definition writeTLMethodAccountUploadWallPaper :: tl_writer where
  "writeTLMethodAccountUploadWallPaper = write_fobject
     [(- 476410109, [wf ''_'' writeInt32, wf_flags ''flags'' [(''for_chat'', 0)],
         wf ''file'' writeTLInputFile, wf ''mime_type'' writeString,
         wf ''settings'' writeTLWallPaperSettings])]"

definition readTLMethodAccountSaveWallPaper :: tl_reader where
  "readTLMethodAccountSaveWallPaper = read_method (1817860919) readBool"

definition writeTLMethodAccountSaveWallPaper :: tl_writer where
  "writeTLMethodAccountSaveWallPaper = write_fobject
     [(1817860919, [wf ''_'' writeInt32, wf ''wallpaper'' writeTLInputWallPaper,
         wf ''unsave'' writeBool, wf ''settings'' writeTLWallPaperSettings])]"

definition readTLMethodAccountInstallWallPaper :: tl_reader where
  "readTLMethodAccountInstallWallPaper = read_method (- 18000023) readBool"

definition writeTLMethodAccountInstallWallPaper :: tl_writer where
  "writeTLMethodAccountInstallWallPaper = write_fobject
     [(- 18000023, [wf ''_'' writeInt32, wf ''wallpaper'' writeTLInputWallPaper,
         wf ''settings'' writeTLWallPaperSettings])]"

definition readTLMethodAccountResetWallPapers :: tl_reader where
  "readTLMethodAccountResetWallPapers = read_method (- 1153722364) readBool"

definition writeTLMethodAccountResetWallPapers :: tl_writer where
  "writeTLMethodAccountResetWallPapers = write_fobject
     [(- 1153722364, [wf ''_'' writeInt32])]"

definition readTLMethodAccountGetAutoDownloadSettings :: tl_reader where
  "readTLMethodAccountGetAutoDownloadSettings = read_method (1457130303) readTLAccountAutoDownloadSettings"

definition writeTLMethodAccountGetAutoDownloadSettings :: tl_writer where
  "writeTLMethodAccountGetAutoDownloadSettings = write_fobject
     [(1457130303, [wf ''_'' writeInt32])]"

definition readTLMethodAccountSaveAutoDownloadSettings :: tl_reader where
  "readTLMethodAccountSaveAutoDownloadSettings = read_method (1995661875) readBool"

definition writeTLMethodAccountSaveAutoDownloadSettings :: tl_writer where
  "writeTLMethodAccountSaveAutoDownloadSettings = write_fobject
     [(1995661875, [wf ''_'' writeInt32, wf_flags ''flags'' [(''low'', 0), (''high'', 1)],
         wf ''settings'' writeTLAutoDownloadSettings])]"

definition writeTLMethodAccountUploadTheme :: tl_writer where
  "writeTLMethodAccountUploadTheme = write_fobject
     [(473805619, [wf ''_'' writeInt32, wf_flags ''flags'' [(''thumb'', 0)],
         wf ''file'' writeTLInputFile, wf_if ''flags'' 0 ''thumb'' writeTLInputFile,
         wf ''file_name'' writeString, wf ''mime_type'' writeString])]"

definition writeTLMethodAccountCreateTheme :: tl_writer where
  "writeTLMethodAccountCreateTheme = write_fobject
     [(1697530880, [wf ''_'' writeInt32, wf_flags ''flags'' [(''document'', 2), (''settings'', 3)],
         wf ''slug'' writeString, wf ''title'' writeString,
         wf_if ''flags'' 2 ''document'' writeTLInputDocument,
         wf_if ''flags'' 3 ''settings'' (writeVector (Some writeTLInputThemeSettings))])]"

definition writeTLMethodAccountUpdateTheme :: tl_writer where
  "writeTLMethodAccountUpdateTheme = write_fobject
     [(737414348, [wf ''_'' writeInt32, wf_flags ''flags'' [(''slug'', 0), (''title'', 1),
         (''document'', 2), (''settings'', 3)], wf ''format'' writeString,
         wf ''theme'' writeTLInputTheme, wf_if ''flags'' 0 ''slug'' writeString,
         wf_if ''flags'' 1 ''title'' writeString,
         wf_if ''flags'' 2 ''document'' writeTLInputDocument,
         wf_if ''flags'' 3 ''settings'' (writeVector (Some writeTLInputThemeSettings))])]"

definition readTLMethodAccountSaveTheme :: tl_reader where
  "readTLMethodAccountSaveTheme = read_method (- 229175188) readBool"

definition writeTLMethodAccountSaveTheme :: tl_writer where
  "writeTLMethodAccountSaveTheme = write_fobject
     [(- 229175188, [wf ''_'' writeInt32, wf ''theme'' writeTLInputTheme,
         wf ''unsave'' writeBool])]"

definition readTLMethodAccountInstallTheme :: tl_reader where
  "readTLMethodAccountInstallTheme = read_method (- 953697477) readBool"

definition writeTLMethodAccountInstallTheme :: tl_writer where
  "writeTLMethodAccountInstallTheme = write_fobject
     [(- 953697477, [wf ''_'' writeInt32, wf_flags ''flags'' [(''dark'', 0), (''theme'', 1),
         (''format'', 2), (''base_theme'', 3)], wf_if ''flags'' 1 ''theme'' writeTLInputTheme,
         wf_if ''flags'' 2 ''format'' writeString,
         wf_if ''flags'' 3 ''base_theme'' writeTLBaseTheme])]"

definition writeTLMethodAccountGetTheme :: tl_writer where
  "writeTLMethodAccountGetTheme = write_fobject
     [(978872812, [wf ''_'' writeInt32, wf ''format'' writeString,
         wf ''theme'' writeTLInputTheme])]"

definition writeTLMethodAccountGetThemes :: tl_writer where
  "writeTLMethodAccountGetThemes = write_fobject
     [(1913054296, [wf ''_'' writeInt32, wf ''format'' writeString, wf ''hash'' writeInt64])]"

definition readTLMethodAccountSetContentSettings :: tl_reader where
  "readTLMethodAccountSetContentSettings = read_method (- 1250643605) readBool"

definition writeTLMethodAccountSetContentSettings :: tl_writer where
  "writeTLMethodAccountSetContentSettings = write_fobject
     [(- 1250643605, [wf ''_'' writeInt32, wf_flags ''flags'' [(''sensitive_enabled'', 0)]])]"

definition readTLMethodAccountGetContentSettings :: tl_reader where
  "readTLMethodAccountGetContentSettings = read_method (- 1952756306) readTLAccountContentSettings"

definition writeTLMethodAccountGetContentSettings :: tl_writer where
  "writeTLMethodAccountGetContentSettings = write_fobject
     [(- 1952756306, [wf ''_'' writeInt32])]"

definition writeTLMethodAccountGetMultiWallPapers :: tl_writer where
  "writeTLMethodAccountGetMultiWallPapers = write_fobject
     [(1705865692, [wf ''_'' writeInt32,
         wf ''wallpapers'' (writeVector (Some writeTLInputWallPaper))])]"

definition readTLMethodAccountGetGlobalPrivacySettings :: tl_reader where
  "readTLMethodAccountGetGlobalPrivacySettings = read_method (- 349483786) readTLGlobalPrivacySettings"

definition writeTLMethodAccountGetGlobalPrivacySettings :: tl_writer where
  "writeTLMethodAccountGetGlobalPrivacySettings = write_fobject
     [(- 349483786, [wf ''_'' writeInt32])]"

definition readTLMethodAccountSetGlobalPrivacySettings :: tl_reader where
  "readTLMethodAccountSetGlobalPrivacySettings = read_method (517647042) readTLGlobalPrivacySettings"

definition writeTLMethodAccountSetGlobalPrivacySettings :: tl_writer where
  "writeTLMethodAccountSetGlobalPrivacySettings = write_fobject
     [(517647042, [wf ''_'' writeInt32, wf ''settings'' writeTLGlobalPrivacySettings])]"

definition readTLMethodAccountReportProfilePhoto :: tl_reader where
  "readTLMethodAccountReportProfilePhoto = read_method (- 91437323) readBool"

definition writeTLMethodAccountReportProfilePhoto :: tl_writer where
  "writeTLMethodAccountReportProfilePhoto = write_fobject
     [(- 91437323, [wf ''_'' writeInt32, wf ''peer'' writeTLInputPeer,
         wf ''photo_id'' writeTLInputPhoto, wf ''reason'' writeTLReportReason,
         wf ''message'' writeString])]"

definition readTLMethodAccountResetPassword :: tl_reader where
  "readTLMethodAccountResetPassword = read_method (- 1828139493) readTLAccountResetPasswordResult"

definition writeTLMethodAccountResetPassword :: tl_writer where
  "writeTLMethodAccountResetPassword = write_fobject
     [(- 1828139493, [wf ''_'' writeInt32])]"

definition readTLMethodAccountDeclinePasswordReset :: tl_reader where
  "readTLMethodAccountDeclinePasswordReset = read_method (1284770294) readBool"

definition writeTLMethodAccountDeclinePasswordReset :: tl_writer where
  "writeTLMethodAccountDeclinePasswordReset = write_fobject
     [(1284770294, [wf ''_'' writeInt32])]"

definition writeTLMethodAccountGetChatThemes :: tl_writer where
  "writeTLMethodAccountGetChatThemes = write_fobject
     [(- 700916087, [wf ''_'' writeInt32, wf ''hash'' writeInt64])]"

definition readTLMethodAccountSetAuthorizationTTL :: tl_reader where
  "readTLMethodAccountSetAuthorizationTTL = read_method (- 1081501024) readBool"

definition writeTLMethodAccountSetAuthorizationTTL :: tl_writer where
  "writeTLMethodAccountSetAuthorizationTTL = write_fobject
     [(- 1081501024, [wf ''_'' writeInt32, wf ''authorization_ttl_days'' writeInt32])]"

definition readTLMethodAccountChangeAuthorizationSettings :: tl_reader where
  "readTLMethodAccountChangeAuthorizationSettings = read_method (1089766498) readBool"

definition writeTLMethodAccountChangeAuthorizationSettings :: tl_writer where
  "writeTLMethodAccountChangeAuthorizationSettings = write_fobject
     [(1089766498, [wf ''_'' writeInt32, wf_flags ''flags'' [(''confirmed'', 3),
         (''encrypted_requests_disabled'', 0), (''call_requests_disabled'', 1)],
         wf ''hash'' writeInt64, wf_if ''flags'' 0 ''encrypted_requests_disabled'' writeBool,
         wf_if ''flags'' 1 ''call_requests_disabled'' writeBool])]"

definition writeTLMethodAccountGetSavedRingtones :: tl_writer where
  "writeTLMethodAccountGetSavedRingtones = write_fobject
     [(- 510647672, [wf ''_'' writeInt32, wf ''hash'' writeInt64])]"

definition writeTLMethodAccountSaveRingtone :: tl_writer where
  "writeTLMethodAccountSaveRingtone = write_fobject
     [(1038768899, [wf ''_'' writeInt32, wf ''id'' writeTLInputDocument, wf ''unsave'' writeBool])]"

definition writeTLMethodAccountUploadRingtone :: tl_writer where
  "writeTLMethodAccountUploadRingtone = write_fobject
     [(- 2095414366, [wf ''_'' writeInt32, wf ''file'' writeTLInputFile,
         wf ''file_name'' writeString, wf ''mime_type'' writeString])]"

definition readTLMethodAccountUpdateEmojiStatus :: tl_reader where
  "readTLMethodAccountUpdateEmojiStatus = read_method (- 70001045) readBool"

definition writeTLMethodAccountUpdateEmojiStatus :: tl_writer where
  "writeTLMethodAccountUpdateEmojiStatus = write_fobject
     [(- 70001045, [wf ''_'' writeInt32, wf ''emoji_status'' writeTLEmojiStatus])]"

definition readTLMethodAccountGetDefaultEmojiStatuses :: tl_reader where
  "readTLMethodAccountGetDefaultEmojiStatuses = read_method (- 696962170) readTLAccountEmojiStatuses"

definition writeTLMethodAccountGetDefaultEmojiStatuses :: tl_writer where
  "writeTLMethodAccountGetDefaultEmojiStatuses = write_fobject
     [(- 696962170, [wf ''_'' writeInt32, wf ''hash'' writeInt64])]"

definition readTLMethodAccountGetRecentEmojiStatuses :: tl_reader where
  "readTLMethodAccountGetRecentEmojiStatuses = read_method (257392901) readTLAccountEmojiStatuses"

definition writeTLMethodAccountGetRecentEmojiStatuses :: tl_writer where
  "writeTLMethodAccountGetRecentEmojiStatuses = write_fobject
     [(257392901, [wf ''_'' writeInt32, wf ''hash'' writeInt64])]"

definition readTLMethodAccountClearRecentEmojiStatuses :: tl_reader where
  "readTLMethodAccountClearRecentEmojiStatuses = read_method (404757166) readBool"

definition writeTLMethodAccountClearRecentEmojiStatuses :: tl_writer where
  "writeTLMethodAccountClearRecentEmojiStatuses = write_fobject
     [(404757166, [wf ''_'' writeInt32])]"

definition readTLMethodAccountReorderUsernames :: tl_reader where
  "readTLMethodAccountReorderUsernames = read_method (- 279966037) readBool"

definition writeTLMethodAccountReorderUsernames :: tl_writer where
  "writeTLMethodAccountReorderUsernames = write_fobject
     [(- 279966037, [wf ''_'' writeInt32, wf ''order'' (writeVector (Some writeString))])]"

definition readTLMethodAccountToggleUsername :: tl_reader where
  "readTLMethodAccountToggleUsername = read_method (1490465654) readBool"

definition writeTLMethodAccountToggleUsername :: tl_writer where
  "writeTLMethodAccountToggleUsername = write_fobject
     [(1490465654, [wf ''_'' writeInt32, wf ''username'' writeString, wf ''active'' writeBool])]"

definition readTLMethodAccountGetDefaultProfilePhotoEmojis :: tl_reader where
  "readTLMethodAccountGetDefaultProfilePhotoEmojis = read_method (- 495647960) readTLEmojiList"

definition writeTLMethodAccountGetDefaultProfilePhotoEmojis :: tl_writer where
  "writeTLMethodAccountGetDefaultProfilePhotoEmojis = write_fobject
     [(- 495647960, [wf ''_'' writeInt32, wf ''hash'' writeInt64])]"

definition readTLMethodAccountGetDefaultGroupPhotoEmojis :: tl_reader where
  "readTLMethodAccountGetDefaultGroupPhotoEmojis = read_method (- 1856479058) readTLEmojiList"

definition writeTLMethodAccountGetDefaultGroupPhotoEmojis :: tl_writer where
  "writeTLMethodAccountGetDefaultGroupPhotoEmojis = write_fobject
     [(- 1856479058, [wf ''_'' writeInt32, wf ''hash'' writeInt64])]"

definition readTLMethodAccountGetAutoSaveSettings :: tl_reader where
  "readTLMethodAccountGetAutoSaveSettings = read_method (- 1379156774) readTLAccountAutoSaveSettings"

definition writeTLMethodAccountGetAutoSaveSettings :: tl_writer where
  "writeTLMethodAccountGetAutoSaveSettings = write_fobject
     [(- 1379156774, [wf ''_'' writeInt32])]"

definition readTLMethodAccountSaveAutoSaveSettings :: tl_reader where
  "readTLMethodAccountSaveAutoSaveSettings = read_method (- 694451359) readBool"

definition writeTLMethodAccountSaveAutoSaveSettings :: tl_writer where
  "writeTLMethodAccountSaveAutoSaveSettings = write_fobject
     [(- 694451359, [wf ''_'' writeInt32, wf_flags ''flags'' [(''users'', 0), (''chats'', 1),
         (''broadcasts'', 2), (''peer'', 3)], wf_if ''flags'' 3 ''peer'' writeTLInputPeer,
         wf ''settings'' writeTLAutoSaveSettings])]"

definition readTLMethodAccountDeleteAutoSaveExceptions :: tl_reader where
  "readTLMethodAccountDeleteAutoSaveExceptions = read_method (1404829728) readBool"

definition writeTLMethodAccountDeleteAutoSaveExceptions :: tl_writer where
  "writeTLMethodAccountDeleteAutoSaveExceptions = write_fobject
     [(1404829728, [wf ''_'' writeInt32])]"

definition readTLMethodAccountInvalidateSignInCodes :: tl_reader where
  "readTLMethodAccountInvalidateSignInCodes = read_method (- 896866118) readBool"

definition writeTLMethodAccountInvalidateSignInCodes :: tl_writer where
  "writeTLMethodAccountInvalidateSignInCodes = write_fobject
     [(- 896866118, [wf ''_'' writeInt32, wf ''codes'' (writeVector (Some writeString))])]"

definition readTLMethodAccountUpdateColor :: tl_reader where
  "readTLMethodAccountUpdateColor = read_method (1749885262) readBool"

definition writeTLMethodAccountUpdateColor :: tl_writer where
  "writeTLMethodAccountUpdateColor = write_fobject
     [(1749885262, [wf ''_'' writeInt32, wf_flags ''flags'' [(''for_profile'', 1), (''color'', 2)],
         wf_if ''flags'' 2 ''color'' writeTLPeerColor])]"

definition readTLMethodAccountGetDefaultBackgroundEmojis :: tl_reader where
  "readTLMethodAccountGetDefaultBackgroundEmojis = read_method (- 1509246514) readTLEmojiList"

definition writeTLMethodAccountGetDefaultBackgroundEmojis :: tl_writer where
  "writeTLMethodAccountGetDefaultBackgroundEmojis = write_fobject
     [(- 1509246514, [wf ''_'' writeInt32, wf ''hash'' writeInt64])]"

definition readTLMethodAccountGetChannelDefaultEmojiStatuses :: tl_reader where
  "readTLMethodAccountGetChannelDefaultEmojiStatuses = read_method (1999087573) readTLAccountEmojiStatuses"

definition writeTLMethodAccountGetChannelDefaultEmojiStatuses :: tl_writer where
  "writeTLMethodAccountGetChannelDefaultEmojiStatuses = write_fobject
     [(1999087573, [wf ''_'' writeInt32, wf ''hash'' writeInt64])]"

definition readTLMethodAccountGetChannelRestrictedStatusEmojis :: tl_reader where
  "readTLMethodAccountGetChannelRestrictedStatusEmojis = read_method (900325589) readTLEmojiList"

definition writeTLMethodAccountGetChannelRestrictedStatusEmojis :: tl_writer where
  "writeTLMethodAccountGetChannelRestrictedStatusEmojis = write_fobject
     [(900325589, [wf ''_'' writeInt32, wf ''hash'' writeInt64])]"

definition readTLMethodAccountUpdateBusinessWorkHours :: tl_reader where
  "readTLMethodAccountUpdateBusinessWorkHours = read_method (1258348646) readBool"

definition writeTLMethodAccountUpdateBusinessWorkHours :: tl_writer where
  "writeTLMethodAccountUpdateBusinessWorkHours = write_fobject
     [(1258348646, [wf ''_'' writeInt32, wf_flags ''flags'' [(''business_work_hours'', 0)],
         wf_if ''flags'' 0 ''business_work_hours'' writeTLBusinessWorkHours])]"

definition readTLMethodAccountUpdateBusinessLocation :: tl_reader where
  "readTLMethodAccountUpdateBusinessLocation = read_method (- 1637149926) readBool"

definition readTLMethodAccountUpdateBusinessGreetingMessage :: tl_reader where
  "readTLMethodAccountUpdateBusinessGreetingMessage = read_method (1724755908) readBool"

definition writeTLMethodAccountUpdateBusinessGreetingMessage :: tl_writer where
  "writeTLMethodAccountUpdateBusinessGreetingMessage = write_fobject
     [(1724755908, [wf ''_'' writeInt32, wf_flags ''flags'' [(''message'', 0)],
         wf_if ''flags'' 0 ''message'' writeTLInputBusinessGreetingMessage])]"

definition readTLMethodAccountUpdateBusinessAwayMessage :: tl_reader where
  "readTLMethodAccountUpdateBusinessAwayMessage = read_method (- 1570078811) readBool"

definition writeTLMethodAccountUpdateBusinessAwayMessage :: tl_writer where
  "writeTLMethodAccountUpdateBusinessAwayMessage = write_fobject
     [(- 1570078811, [wf ''_'' writeInt32, wf_flags ''flags'' [(''message'', 0)],
         wf_if ''flags'' 0 ''message'' writeTLInputBusinessAwayMessage])]"

definition writeTLMethodAccountUpdateConnectedBot :: tl_writer where
  "writeTLMethodAccountUpdateConnectedBot = write_fobject
     [(1721797758, [wf ''_'' writeInt32, wf_flags ''flags'' [(''deleted'', 1), (''rights'', 0)],
         wf_if ''flags'' 0 ''rights'' writeTLBusinessBotRights, wf ''bot'' writeTLInputUser,
         wf ''recipients'' writeTLInputBusinessBotRecipients])]"

definition readTLMethodAccountGetConnectedBots :: tl_reader where
  "readTLMethodAccountGetConnectedBots = read_method (1319421967) readTLAccountConnectedBots"

definition writeTLMethodAccountGetConnectedBots :: tl_writer where
  "writeTLMethodAccountGetConnectedBots = write_fobject
     [(1319421967, [wf ''_'' writeInt32])]"

definition writeTLMethodAccountGetBotBusinessConnection :: tl_writer where
  "writeTLMethodAccountGetBotBusinessConnection = write_fobject
     [(1990746736, [wf ''_'' writeInt32, wf ''connection_id'' writeString])]"

definition readTLMethodAccountUpdateBusinessIntro :: tl_reader where
  "readTLMethodAccountUpdateBusinessIntro = read_method (- 1508585420) readBool"

definition writeTLMethodAccountUpdateBusinessIntro :: tl_writer where
  "writeTLMethodAccountUpdateBusinessIntro = write_fobject
     [(- 1508585420, [wf ''_'' writeInt32, wf_flags ''flags'' [(''intro'', 0)],
         wf_if ''flags'' 0 ''intro'' writeTLInputBusinessIntro])]"

definition readTLMethodAccountToggleConnectedBotPaused :: tl_reader where
  "readTLMethodAccountToggleConnectedBotPaused = read_method (1684934807) readBool"

definition writeTLMethodAccountToggleConnectedBotPaused :: tl_writer where
  "writeTLMethodAccountToggleConnectedBotPaused = write_fobject
     [(1684934807, [wf ''_'' writeInt32, wf ''peer'' writeTLInputPeer, wf ''paused'' writeBool])]"

definition readTLMethodAccountDisablePeerConnectedBot :: tl_reader where
  "readTLMethodAccountDisablePeerConnectedBot = read_method (1581481689) readBool"

definition writeTLMethodAccountDisablePeerConnectedBot :: tl_writer where
  "writeTLMethodAccountDisablePeerConnectedBot = write_fobject
     [(1581481689, [wf ''_'' writeInt32, wf ''peer'' writeTLInputPeer])]"

definition readTLMethodAccountUpdateBirthday :: tl_reader where
  "readTLMethodAccountUpdateBirthday = read_method (- 865203183) readBool"

definition writeTLMethodAccountUpdateBirthday :: tl_writer where
  "writeTLMethodAccountUpdateBirthday = write_fobject
     [(- 865203183, [wf ''_'' writeInt32, wf_flags ''flags'' [(''birthday'', 0)],
         wf_if ''flags'' 0 ''birthday'' writeTLBirthday])]"

definition readTLMethodAccountCreateBusinessChatLink :: tl_reader where
  "readTLMethodAccountCreateBusinessChatLink = read_method (- 2007898482) readTLBusinessChatLink"

definition writeTLMethodAccountCreateBusinessChatLink :: tl_writer where
  "writeTLMethodAccountCreateBusinessChatLink = write_fobject
     [(- 2007898482, [wf ''_'' writeInt32, wf ''link'' writeTLInputBusinessChatLink])]"

definition readTLMethodAccountEditBusinessChatLink :: tl_reader where
  "readTLMethodAccountEditBusinessChatLink = read_method (- 1942744913) readTLBusinessChatLink"

definition writeTLMethodAccountEditBusinessChatLink :: tl_writer where
  "writeTLMethodAccountEditBusinessChatLink = write_fobject
     [(- 1942744913, [wf ''_'' writeInt32, wf ''slug'' writeString,
         wf ''link'' writeTLInputBusinessChatLink])]"

definition readTLMethodAccountDeleteBusinessChatLink :: tl_reader where
  "readTLMethodAccountDeleteBusinessChatLink = read_method (1611085428) readBool"

definition writeTLMethodAccountDeleteBusinessChatLink :: tl_writer where
  "writeTLMethodAccountDeleteBusinessChatLink = write_fobject
     [(1611085428, [wf ''_'' writeInt32, wf ''slug'' writeString])]"

definition readTLMethodAccountGetBusinessChatLinks :: tl_reader where
  "readTLMethodAccountGetBusinessChatLinks = read_method (1869667809) readTLAccountBusinessChatLinks"

definition writeTLMethodAccountGetBusinessChatLinks :: tl_writer where
  "writeTLMethodAccountGetBusinessChatLinks = write_fobject
     [(1869667809, [wf ''_'' writeInt32])]"

definition readTLMethodAccountResolveBusinessChatLink :: tl_reader where
  "readTLMethodAccountResolveBusinessChatLink = read_method (1418913262) readTLAccountResolvedBusinessChatLinks"

definition writeTLMethodAccountResolveBusinessChatLink :: tl_writer where
  "writeTLMethodAccountResolveBusinessChatLink = write_fobject
     [(1418913262, [wf ''_'' writeInt32, wf ''slug'' writeString])]"

definition readTLMethodAccountUpdatePersonalChannel :: tl_reader where
  "readTLMethodAccountUpdatePersonalChannel = read_method (- 649919008) readBool"

definition writeTLMethodAccountUpdatePersonalChannel :: tl_writer where
  "writeTLMethodAccountUpdatePersonalChannel = write_fobject
     [(- 649919008, [wf ''_'' writeInt32, wf ''channel'' writeTLInputChannel])]"

definition readTLMethodAccountToggleSponsoredMessages :: tl_reader where
  "readTLMethodAccountToggleSponsoredMessages = read_method (- 1176919155) readBool"

definition writeTLMethodAccountToggleSponsoredMessages :: tl_writer where
  "writeTLMethodAccountToggleSponsoredMessages = write_fobject
     [(- 1176919155, [wf ''_'' writeInt32, wf ''enabled'' writeBool])]"

definition readTLMethodAccountGetReactionsNotifySettings :: tl_reader where
  "readTLMethodAccountGetReactionsNotifySettings = read_method (115172684) readTLReactionsNotifySettings"

definition writeTLMethodAccountGetReactionsNotifySettings :: tl_writer where
  "writeTLMethodAccountGetReactionsNotifySettings = write_fobject
     [(115172684, [wf ''_'' writeInt32])]"

definition readTLMethodAccountSetReactionsNotifySettings :: tl_reader where
  "readTLMethodAccountSetReactionsNotifySettings = read_method (829220168) readTLReactionsNotifySettings"

definition writeTLMethodAccountSetReactionsNotifySettings :: tl_writer where
  "writeTLMethodAccountSetReactionsNotifySettings = write_fobject
     [(829220168, [wf ''_'' writeInt32, wf ''settings'' writeTLReactionsNotifySettings])]"

definition readTLMethodAccountGetCollectibleEmojiStatuses :: tl_reader where
  "readTLMethodAccountGetCollectibleEmojiStatuses = read_method (779830595) readTLAccountEmojiStatuses"

definition writeTLMethodAccountGetCollectibleEmojiStatuses :: tl_writer where
  "writeTLMethodAccountGetCollectibleEmojiStatuses = write_fobject
     [(779830595, [wf ''_'' writeInt32, wf ''hash'' writeInt64])]"

definition readTLMethodAccountGetPaidMessagesRevenue :: tl_reader where
  "readTLMethodAccountGetPaidMessagesRevenue = read_method (431639143) readTLAccountPaidMessagesRevenue"

definition writeTLMethodAccountGetPaidMessagesRevenue :: tl_writer where
  "writeTLMethodAccountGetPaidMessagesRevenue = write_fobject
     [(431639143, [wf ''_'' writeInt32, wf_flags ''flags'' [(''parent_peer'', 0)],
         wf_if ''flags'' 0 ''parent_peer'' writeTLInputPeer, wf ''user_id'' writeTLInputUser])]"

definition readTLMethodAccountToggleNoPaidMessagesException :: tl_reader where
  "readTLMethodAccountToggleNoPaidMessagesException = read_method (- 30483850) readBool"

definition writeTLMethodAccountToggleNoPaidMessagesException :: tl_writer where
  "writeTLMethodAccountToggleNoPaidMessagesException = write_fobject
     [(- 30483850, [wf ''_'' writeInt32, wf_flags ''flags'' [(''refund_charged'', 0),
         (''require_payment'', 2), (''parent_peer'', 1)],
         wf_if ''flags'' 1 ''parent_peer'' writeTLInputPeer, wf ''user_id'' writeTLInputUser])]"

definition readTLMethodAccountSetMainProfileTab :: tl_reader where
  "readTLMethodAccountSetMainProfileTab = read_method (1575909552) readBool"

definition writeTLMethodAccountSetMainProfileTab :: tl_writer where
  "writeTLMethodAccountSetMainProfileTab = write_fobject
     [(1575909552, [wf ''_'' writeInt32, wf ''tab'' writeTLProfileTab])]"

definition readTLMethodAccountSaveMusic :: tl_reader where
  "readTLMethodAccountSaveMusic = read_method (- 1301859671) readBool"

definition writeTLMethodAccountSaveMusic :: tl_writer where
  "writeTLMethodAccountSaveMusic = write_fobject
     [(- 1301859671, [wf ''_'' writeInt32, wf_flags ''flags'' [(''unsave'', 0), (''after_id'', 1)],
         wf ''id'' writeTLInputDocument, wf_if ''flags'' 1 ''after_id'' writeTLInputDocument])]"

definition readTLMethodAccountGetSavedMusicIds :: tl_reader where
  "readTLMethodAccountGetSavedMusicIds = read_method (- 526557265) readTLAccountSavedMusicIds"

definition writeTLMethodAccountGetSavedMusicIds :: tl_writer where
  "writeTLMethodAccountGetSavedMusicIds = write_fobject
     [(- 526557265, [wf ''_'' writeInt32, wf ''hash'' writeInt64])]"

definition writeTLMethodAccountGetUniqueGiftChatThemes :: tl_writer where
  "writeTLMethodAccountGetUniqueGiftChatThemes = write_fobject
     [(- 466818615, [wf ''_'' writeInt32, wf ''offset'' writeString, wf ''limit'' writeInt32,
         wf ''hash'' writeInt64])]"

definition readTLMethodAccountInitPasskeyRegistration :: tl_reader where
  "readTLMethodAccountInitPasskeyRegistration = read_method (1117079528) readTLAccountPasskeyRegistrationOptions"

definition writeTLMethodAccountInitPasskeyRegistration :: tl_writer where
  "writeTLMethodAccountInitPasskeyRegistration = write_fobject
     [(1117079528, [wf ''_'' writeInt32])]"

definition readTLMethodAccountRegisterPasskey :: tl_reader where
  "readTLMethodAccountRegisterPasskey = read_method (1437867990) readTLPasskey"

definition writeTLMethodAccountRegisterPasskey :: tl_writer where
  "writeTLMethodAccountRegisterPasskey = write_fobject
     [(1437867990, [wf ''_'' writeInt32, wf ''credential'' writeTLInputPasskeyCredential])]"

definition readTLMethodAccountGetPasskeys :: tl_reader where
  "readTLMethodAccountGetPasskeys = read_method (- 367063982) readTLAccountPasskeys"

definition writeTLMethodAccountGetPasskeys :: tl_writer where
  "writeTLMethodAccountGetPasskeys = write_fobject
     [(- 367063982, [wf ''_'' writeInt32])]"

definition readTLMethodAccountDeletePasskey :: tl_reader where
  "readTLMethodAccountDeletePasskey = read_method (- 172665281) readBool"

definition writeTLMethodAccountDeletePasskey :: tl_writer where
  "writeTLMethodAccountDeletePasskey = write_fobject
     [(- 172665281, [wf ''_'' writeInt32, wf ''id'' writeString])]"

definition readTLMethodAccountConfirmBotConnection :: tl_reader where
  "readTLMethodAccountConfirmBotConnection = read_method (1743593320) readBool"

definition writeTLMethodAccountConfirmBotConnection :: tl_writer where
  "writeTLMethodAccountConfirmBotConnection = write_fobject
     [(1743593320, [wf ''_'' writeInt32, wf ''bot_id'' writeTLInputUser])]"

definition readTLMethodAccountGetWebBrowserSettings :: tl_reader where
  "readTLMethodAccountGetWebBrowserSettings = read_method (1449482088) readTLAccountWebBrowserSettings"

definition writeTLMethodAccountGetWebBrowserSettings :: tl_writer where
  "writeTLMethodAccountGetWebBrowserSettings = write_fobject
     [(1449482088, [wf ''_'' writeInt32, wf ''hash'' writeInt64])]"

definition readTLMethodAccountUpdateWebBrowserSettings :: tl_reader where
  "readTLMethodAccountUpdateWebBrowserSettings = read_method (- 1696627970) readTLAccountWebBrowserSettings"

definition writeTLMethodAccountUpdateWebBrowserSettings :: tl_writer where
  "writeTLMethodAccountUpdateWebBrowserSettings = write_fobject
     [(- 1696627970, [wf ''_'' writeInt32, wf_flags ''flags'' [(''open_external_browser'', 0),
         (''display_close_button'', 1)]])]"

definition writeTLMethodAccountToggleWebBrowserSettingsException :: tl_writer where
  "writeTLMethodAccountToggleWebBrowserSettingsException = write_fobject
     [(1626161705, [wf ''_'' writeInt32, wf_flags ''flags'' [(''delete'', 1),
         (''open_external_browser'', 0)], wf_if ''flags'' 0 ''open_external_browser'' writeBool,
         wf ''url'' writeString])]"

definition readTLMethodAccountDeleteWebBrowserSettingsExceptions :: tl_reader where
  "readTLMethodAccountDeleteWebBrowserSettingsExceptions = read_method (- 2036304291) readTLAccountWebBrowserSettings"

definition writeTLMethodAccountDeleteWebBrowserSettingsExceptions :: tl_writer where
  "writeTLMethodAccountDeleteWebBrowserSettingsExceptions = write_fobject
     [(- 2036304291, [wf ''_'' writeInt32])]"

definition readTLMethodUsersGetUsers :: tl_reader where
  "readTLMethodUsersGetUsers = read_method (227648840) (readVector (Some readTLUser))"

definition writeTLMethodUsersGetFullUser :: tl_writer where
  "writeTLMethodUsersGetFullUser = write_fobject
     [(- 1240508136, [wf ''_'' writeInt32, wf ''id'' writeTLInputUser])]"

definition readTLMethodUsersSetSecureValueErrors :: tl_reader where
  "readTLMethodUsersSetSecureValueErrors = read_method (- 1865902923) readBool"

definition writeTLMethodUsersSetSecureValueErrors :: tl_writer where
  "writeTLMethodUsersSetSecureValueErrors = write_fobject
     [(- 1865902923, [wf ''_'' writeInt32, wf ''id'' writeTLInputUser,
         wf ''errors'' (writeVector (Some writeTLSecureValueError))])]"

definition readTLMethodUsersGetRequirementsToContact :: tl_reader where
  "readTLMethodUsersGetRequirementsToContact = read_method (- 660962397) (readVector (Some readTLRequirementToContact))"

definition writeTLMethodUsersGetRequirementsToContact :: tl_writer where
  "writeTLMethodUsersGetRequirementsToContact = write_fobject
     [(- 660962397, [wf ''_'' writeInt32, wf ''id'' (writeVector (Some writeTLInputUser))])]"

definition writeTLMethodUsersGetSavedMusic :: tl_writer where
  "writeTLMethodUsersGetSavedMusic = write_fobject
     [(2022539235, [wf ''_'' writeInt32, wf ''id'' writeTLInputUser, wf ''offset'' writeInt32,
         wf ''limit'' writeInt32, wf ''hash'' writeInt64])]"

definition writeTLMethodUsersGetSavedMusicByID :: tl_writer where
  "writeTLMethodUsersGetSavedMusicByID = write_fobject
     [(1970513129, [wf ''_'' writeInt32, wf ''id'' writeTLInputUser,
         wf ''documents'' (writeVector (Some writeTLInputDocument))])]"

definition writeTLMethodUsersSuggestBirthday :: tl_writer where
  "writeTLMethodUsersSuggestBirthday = write_fobject
     [(- 61656206, [wf ''_'' writeInt32, wf ''id'' writeTLInputUser,
         wf ''birthday'' writeTLBirthday])]"

definition readTLMethodContactsGetContactIDs :: tl_reader where
  "readTLMethodContactsGetContactIDs = read_method (2061264541) (readVector (Some readInt32))"

definition writeTLMethodContactsGetContactIDs :: tl_writer where
  "writeTLMethodContactsGetContactIDs = write_fobject
     [(2061264541, [wf ''_'' writeInt32, wf ''hash'' writeInt64])]"

definition readTLMethodContactsGetStatuses :: tl_reader where
  "readTLMethodContactsGetStatuses = read_method (- 995929106) (readVector (Some readTLContactStatus))"

definition writeTLMethodContactsGetStatuses :: tl_writer where
  "writeTLMethodContactsGetStatuses = write_fobject
     [(- 995929106, [wf ''_'' writeInt32])]"

definition readTLMethodContactsGetContacts :: tl_reader where
  "readTLMethodContactsGetContacts = read_method (1574346258) readTLContactsContacts"

definition writeTLMethodContactsGetContacts :: tl_writer where
  "writeTLMethodContactsGetContacts = write_fobject
     [(1574346258, [wf ''_'' writeInt32, wf ''hash'' writeInt64])]"

definition readTLMethodContactsImportContacts :: tl_reader where
  "readTLMethodContactsImportContacts = read_method (746589157) readTLContactsImportedContacts"

definition writeTLMethodContactsImportContacts :: tl_writer where
  "writeTLMethodContactsImportContacts = write_fobject
     [(746589157, [wf ''_'' writeInt32, wf ''contacts'' (writeVector (Some writeTLInputContact))])]"

definition writeTLMethodContactsDeleteContacts :: tl_writer where
  "writeTLMethodContactsDeleteContacts = write_fobject
     [(157945344, [wf ''_'' writeInt32, wf ''id'' (writeVector (Some writeTLInputUser))])]"

definition readTLMethodContactsDeleteByPhones :: tl_reader where
  "readTLMethodContactsDeleteByPhones = read_method (269745566) readBool"

definition writeTLMethodContactsDeleteByPhones :: tl_writer where
  "writeTLMethodContactsDeleteByPhones = write_fobject
     [(269745566, [wf ''_'' writeInt32, wf ''phones'' (writeVector (Some writeString))])]"

definition readTLMethodContactsBlock :: tl_reader where
  "readTLMethodContactsBlock = read_method (774801204) readBool"

definition writeTLMethodContactsBlock :: tl_writer where
  "writeTLMethodContactsBlock = write_fobject
     [(774801204, [wf ''_'' writeInt32, wf_flags ''flags'' [(''my_stories_from'', 0)],
         wf ''id'' writeTLInputPeer])]"

definition readTLMethodContactsUnblock :: tl_reader where
  "readTLMethodContactsUnblock = read_method (- 1252994264) readBool"

definition writeTLMethodContactsUnblock :: tl_writer where
  "writeTLMethodContactsUnblock = write_fobject
     [(- 1252994264, [wf ''_'' writeInt32, wf_flags ''flags'' [(''my_stories_from'', 0)],
         wf ''id'' writeTLInputPeer])]"

definition readTLMethodContactsGetBlocked :: tl_reader where
  "readTLMethodContactsGetBlocked = read_method (- 1702457472) readTLContactsBlocked"

definition writeTLMethodContactsGetBlocked :: tl_writer where
  "writeTLMethodContactsGetBlocked = write_fobject
     [(- 1702457472, [wf ''_'' writeInt32, wf_flags ''flags'' [(''my_stories_from'', 0)],
         wf ''offset'' writeInt32, wf ''limit'' writeInt32])]"

definition readTLMethodContactsSearch :: tl_reader where
  "readTLMethodContactsSearch = read_method (99978511) readTLContactsFound"

definition writeTLMethodContactsSearch :: tl_writer where
  "writeTLMethodContactsSearch = write_fobject
     [(99978511, [wf ''_'' writeInt32, wf_flags ''flags'' [(''broadcasts'', 0), (''bots'', 1)],
         wf ''q'' writeString, wf ''limit'' writeInt32])]"

definition readTLMethodContactsResolveUsername :: tl_reader where
  "readTLMethodContactsResolveUsername = read_method (1918565308) readTLContactsResolvedPeer"

definition writeTLMethodContactsResolveUsername :: tl_writer where
  "writeTLMethodContactsResolveUsername = write_fobject
     [(1918565308, [wf ''_'' writeInt32, wf_flags ''flags'' [(''referer'', 0)],
         wf ''username'' writeString, wf_if ''flags'' 0 ''referer'' writeString])]"

definition writeTLMethodContactsGetTopPeers :: tl_writer where
  "writeTLMethodContactsGetTopPeers = write_fobject
     [(- 1758168906, [wf ''_'' writeInt32, wf_flags ''flags'' [(''correspondents'', 0),
         (''bots_pm'', 1), (''bots_inline'', 2), (''phone_calls'', 3), (''forward_users'', 4),
         (''forward_chats'', 5), (''groups'', 10), (''channels'', 15), (''bots_app'', 16),
         (''bots_guestchat'', 17)], wf ''offset'' writeInt32, wf ''limit'' writeInt32,
         wf ''hash'' writeInt64])]"

definition readTLMethodContactsResetTopPeerRating :: tl_reader where
  "readTLMethodContactsResetTopPeerRating = read_method (451113900) readBool"

definition writeTLMethodContactsResetTopPeerRating :: tl_writer where
  "writeTLMethodContactsResetTopPeerRating = write_fobject
     [(451113900, [wf ''_'' writeInt32, wf ''category'' writeTLTopPeerCategory,
         wf ''peer'' writeTLInputPeer])]"

definition readTLMethodContactsResetSaved :: tl_reader where
  "readTLMethodContactsResetSaved = read_method (- 2020263951) readBool"

definition writeTLMethodContactsResetSaved :: tl_writer where
  "writeTLMethodContactsResetSaved = write_fobject
     [(- 2020263951, [wf ''_'' writeInt32])]"

definition readTLMethodContactsGetSaved :: tl_reader where
  "readTLMethodContactsGetSaved = read_method (- 2098076769) (readVector (Some readTLSavedContact))"

definition writeTLMethodContactsGetSaved :: tl_writer where
  "writeTLMethodContactsGetSaved = write_fobject
     [(- 2098076769, [wf ''_'' writeInt32])]"

definition readTLMethodContactsToggleTopPeers :: tl_reader where
  "readTLMethodContactsToggleTopPeers = read_method (- 2062238246) readBool"

definition writeTLMethodContactsToggleTopPeers :: tl_writer where
  "writeTLMethodContactsToggleTopPeers = write_fobject
     [(- 2062238246, [wf ''_'' writeInt32, wf ''enabled'' writeBool])]"

definition writeTLMethodContactsAddContact :: tl_writer where
  "writeTLMethodContactsAddContact = write_fobject
     [(- 642109868, [wf ''_'' writeInt32, wf_flags ''flags'' [(''add_phone_privacy_exception'', 0),
         (''note'', 1)], wf ''id'' writeTLInputUser, wf ''first_name'' writeString,
         wf ''last_name'' writeString, wf ''phone'' writeString,
         wf_if ''flags'' 1 ''note'' writeTLTextWithEntities])]"

definition writeTLMethodContactsAcceptContact :: tl_writer where
  "writeTLMethodContactsAcceptContact = write_fobject
     [(- 130964977, [wf ''_'' writeInt32, wf ''id'' writeTLInputUser])]"

definition writeTLMethodContactsBlockFromReplies :: tl_writer where
  "writeTLMethodContactsBlockFromReplies = write_fobject
     [(698914348, [wf ''_'' writeInt32, wf_flags ''flags'' [(''delete_message'', 0),
         (''delete_history'', 1), (''report_spam'', 2)], wf ''msg_id'' writeInt32])]"

definition readTLMethodContactsResolvePhone :: tl_reader where
  "readTLMethodContactsResolvePhone = read_method (- 1963375804) readTLContactsResolvedPeer"

definition writeTLMethodContactsResolvePhone :: tl_writer where
  "writeTLMethodContactsResolvePhone = write_fobject
     [(- 1963375804, [wf ''_'' writeInt32, wf ''phone'' writeString])]"

definition readTLMethodContactsExportContactToken :: tl_reader where
  "readTLMethodContactsExportContactToken = read_method (- 127582169) readTLExportedContactToken"

definition writeTLMethodContactsExportContactToken :: tl_writer where
  "writeTLMethodContactsExportContactToken = write_fobject
     [(- 127582169, [wf ''_'' writeInt32])]"

definition readTLMethodContactsImportContactToken :: tl_reader where
  "readTLMethodContactsImportContactToken = read_method (318789512) readTLUser"

definition writeTLMethodContactsImportContactToken :: tl_writer where
  "writeTLMethodContactsImportContactToken = write_fobject
     [(318789512, [wf ''_'' writeInt32, wf ''token'' writeString])]"

definition readTLMethodContactsEditCloseFriends :: tl_reader where
  "readTLMethodContactsEditCloseFriends = read_method (- 1167653392) readBool"

definition writeTLMethodContactsEditCloseFriends :: tl_writer where
  "writeTLMethodContactsEditCloseFriends = write_fobject
     [(- 1167653392, [wf ''_'' writeInt32, wf ''id'' (writeVector (Some writeInt64))])]"

definition readTLMethodContactsSetBlocked :: tl_reader where
  "readTLMethodContactsSetBlocked = read_method (- 1798939530) readBool"

definition writeTLMethodContactsSetBlocked :: tl_writer where
  "writeTLMethodContactsSetBlocked = write_fobject
     [(- 1798939530, [wf ''_'' writeInt32, wf_flags ''flags'' [(''my_stories_from'', 0)],
         wf ''id'' (writeVector (Some writeTLInputPeer)), wf ''limit'' writeInt32])]"

definition readTLMethodContactsGetBirthdays :: tl_reader where
  "readTLMethodContactsGetBirthdays = read_method (- 621959068) readTLContactsContactBirthdays"

definition writeTLMethodContactsGetBirthdays :: tl_writer where
  "writeTLMethodContactsGetBirthdays = write_fobject
     [(- 621959068, [wf ''_'' writeInt32])]"

definition readTLMethodContactsGetSponsoredPeers :: tl_reader where
  "readTLMethodContactsGetSponsoredPeers = read_method (- 1228356717) readTLContactsSponsoredPeers"

definition writeTLMethodContactsGetSponsoredPeers :: tl_writer where
  "writeTLMethodContactsGetSponsoredPeers = write_fobject
     [(- 1228356717, [wf ''_'' writeInt32, wf ''q'' writeString])]"

definition readTLMethodContactsUpdateContactNote :: tl_reader where
  "readTLMethodContactsUpdateContactNote = read_method (329212923) readBool"

definition writeTLMethodContactsUpdateContactNote :: tl_writer where
  "writeTLMethodContactsUpdateContactNote = write_fobject
     [(329212923, [wf ''_'' writeInt32, wf ''id'' writeTLInputUser,
         wf ''note'' writeTLTextWithEntities])]"

definition writeTLMethodMessagesGetMessages :: tl_writer where
  "writeTLMethodMessagesGetMessages = write_fobject
     [(1673946374, [wf ''_'' writeInt32, wf ''id'' (writeVector (Some writeTLInputMessage))])]"

definition writeTLMethodMessagesSearch :: tl_writer where
  "writeTLMethodMessagesSearch = write_fobject
     [(703497338, [wf ''_'' writeInt32, wf_flags ''flags'' [(''from_id'', 0), (''saved_peer_id'',
         2), (''saved_reaction'', 3), (''top_msg_id'', 1)], wf ''peer'' writeTLInputPeer,
         wf ''q'' writeString, wf_if ''flags'' 0 ''from_id'' writeTLInputPeer,
         wf_if ''flags'' 2 ''saved_peer_id'' writeTLInputPeer,
         wf_if ''flags'' 3 ''saved_reaction'' (writeVector (Some writeTLReaction)),
         wf_if ''flags'' 1 ''top_msg_id'' writeInt32, wf ''filter'' writeTLMessagesFilter,
         wf ''min_date'' writeInt32, wf ''max_date'' writeInt32, wf ''offset_id'' writeInt32,
         wf ''add_offset'' writeInt32, wf ''limit'' writeInt32, wf ''max_id'' writeInt32,
         wf ''min_id'' writeInt32, wf ''hash'' writeInt64])]"

definition readTLMethodMessagesReadHistory :: tl_reader where
  "readTLMethodMessagesReadHistory = read_method (238054714) readTLMessagesAffectedMessages"

definition readTLMethodMessagesDeleteHistory :: tl_reader where
  "readTLMethodMessagesDeleteHistory = read_method (- 1332768214) readTLMessagesAffectedHistory"

definition writeTLMethodMessagesDeleteHistory :: tl_writer where
  "writeTLMethodMessagesDeleteHistory = write_fobject
     [(- 1332768214, [wf ''_'' writeInt32, wf_flags ''flags'' [(''just_clear'', 0), (''revoke'',
         1), (''min_date'', 2), (''max_date'', 3)], wf ''peer'' writeTLInputPeer,
         wf ''max_id'' writeInt32, wf_if ''flags'' 2 ''min_date'' writeInt32,
         wf_if ''flags'' 3 ''max_date'' writeInt32])]"

definition readTLMethodMessagesDeleteMessages :: tl_reader where
  "readTLMethodMessagesDeleteMessages = read_method (- 443640366) readTLMessagesAffectedMessages"

definition readTLMethodMessagesReceivedMessages :: tl_reader where
  "readTLMethodMessagesReceivedMessages = read_method (94983360) (readVector (Some readTLReceivedNotifyMessage))"

definition writeTLMethodMessagesReceivedMessages :: tl_writer where
  "writeTLMethodMessagesReceivedMessages = write_fobject
     [(94983360, [wf ''_'' writeInt32, wf ''max_id'' writeInt32])]"

definition readTLMethodMessagesSetTyping :: tl_reader where
  "readTLMethodMessagesSetTyping = read_method (1486110434) readBool"

definition writeTLMethodMessagesForwardMessages :: tl_writer where
  "writeTLMethodMessagesForwardMessages = write_fobject
     [(326126204, [wf ''_'' writeInt32, wf_flags ''flags'' [(''silent'', 5), (''background'', 6),
         (''with_my_score'', 8), (''drop_author'', 11), (''drop_media_captions'', 12),
         (''noforwards'', 14), (''allow_paid_floodskip'', 19), (''from_ephemeral'', 25),
         (''top_msg_id'', 9), (''reply_to'', 22), (''schedule_date'', 10),
         (''schedule_repeat_period'', 24), (''send_as'', 13), (''quick_reply_shortcut'', 17),
         (''effect'', 18), (''video_timestamp'', 20), (''allow_paid_stars'', 21),
         (''suggested_post'', 23)], wf ''from_peer'' writeTLInputPeer,
         wf ''id'' (writeVector (Some writeInt32)),
         wf ''random_id'' (writeVector (Some writeInt64)), wf ''to_peer'' writeTLInputPeer,
         wf_if ''flags'' 9 ''top_msg_id'' writeInt32,
         wf_if ''flags'' 22 ''reply_to'' writeTLInputReplyTo,
         wf_if ''flags'' 10 ''schedule_date'' writeInt32,
         wf_if ''flags'' 24 ''schedule_repeat_period'' writeInt32,
         wf_if ''flags'' 13 ''send_as'' writeTLInputPeer,
         wf_if ''flags'' 17 ''quick_reply_shortcut'' writeTLInputQuickReplyShortcut,
         wf_if ''flags'' 18 ''effect'' writeInt64,
         wf_if ''flags'' 20 ''video_timestamp'' writeInt32,
         wf_if ''flags'' 21 ''allow_paid_stars'' writeInt64,
         wf_if ''flags'' 23 ''suggested_post'' writeTLSuggestedPost])]"

definition readTLMethodMessagesReportSpam :: tl_reader where
  "readTLMethodMessagesReportSpam = read_method (- 820669733) readBool"

definition writeTLMethodMessagesReportSpam :: tl_writer where
  "writeTLMethodMessagesReportSpam = write_fobject
     [(- 820669733, [wf ''_'' writeInt32, wf ''peer'' writeTLInputPeer])]"

definition readTLMethodMessagesGetPeerSettings :: tl_reader where
  "readTLMethodMessagesGetPeerSettings = read_method (- 270948702) readTLMessagesPeerSettings"

definition writeTLMethodMessagesGetPeerSettings :: tl_writer where
  "writeTLMethodMessagesGetPeerSettings = write_fobject
     [(- 270948702, [wf ''_'' writeInt32, wf ''peer'' writeTLInputPeer])]"

definition readTLMethodMessagesReport :: tl_reader where
  "readTLMethodMessagesReport = read_method (- 59199589) readTLReportResult"

definition writeTLMethodMessagesReport :: tl_writer where
  "writeTLMethodMessagesReport = write_fobject
     [(- 59199589, [wf ''_'' writeInt32, wf ''peer'' writeTLInputPeer,
         wf ''id'' (writeVector (Some writeInt32)), wf ''option'' writeByteArray,
         wf ''message'' writeString])]"

definition readTLMethodMessagesGetChats :: tl_reader where
  "readTLMethodMessagesGetChats = read_method (1240027791) readTLMessagesChats"

definition writeTLMethodMessagesGetChats :: tl_writer where
  "writeTLMethodMessagesGetChats = write_fobject
     [(1240027791, [wf ''_'' writeInt32, wf ''id'' (writeVector (Some writeInt64))])]"

definition writeTLMethodMessagesGetFullChat :: tl_writer where
  "writeTLMethodMessagesGetFullChat = write_fobject
     [(- 1364194508, [wf ''_'' writeInt32, wf ''chat_id'' writeInt64])]"

definition writeTLMethodMessagesEditChatTitle :: tl_writer where
  "writeTLMethodMessagesEditChatTitle = write_fobject
     [(1937260541, [wf ''_'' writeInt32, wf ''chat_id'' writeInt64, wf ''title'' writeString])]"

definition writeTLMethodMessagesAddChatUser :: tl_writer where
  "writeTLMethodMessagesAddChatUser = write_fobject
     [(- 876162809, [wf ''_'' writeInt32, wf ''chat_id'' writeInt64,
         wf ''user_id'' writeTLInputUser, wf ''fwd_limit'' writeInt32])]"

definition writeTLMethodMessagesDeleteChatUser :: tl_writer where
  "writeTLMethodMessagesDeleteChatUser = write_fobject
     [(- 1575461717, [wf ''_'' writeInt32, wf_flags ''flags'' [(''revoke_history'', 0)],
         wf ''chat_id'' writeInt64, wf ''user_id'' writeTLInputUser])]"

definition writeTLMethodMessagesCreateChat :: tl_writer where
  "writeTLMethodMessagesCreateChat = write_fobject
     [(- 1831936556, [wf ''_'' writeInt32, wf_flags ''flags'' [(''ttl_period'', 0)],
         wf ''users'' (writeVector (Some writeTLInputUser)), wf ''title'' writeString,
         wf_if ''flags'' 0 ''ttl_period'' writeInt32])]"

definition readTLMethodMessagesGetDhConfig :: tl_reader where
  "readTLMethodMessagesGetDhConfig = read_method (651135312) readTLMessagesDhConfig"

definition writeTLMethodMessagesGetDhConfig :: tl_writer where
  "writeTLMethodMessagesGetDhConfig = write_fobject
     [(651135312, [wf ''_'' writeInt32, wf ''version'' writeInt32,
         wf ''random_length'' writeInt32])]"

definition readTLMethodMessagesRequestEncryption :: tl_reader where
  "readTLMethodMessagesRequestEncryption = read_method (- 162681021) readTLEncryptedChat"

definition writeTLMethodMessagesRequestEncryption :: tl_writer where
  "writeTLMethodMessagesRequestEncryption = write_fobject
     [(- 162681021, [wf ''_'' writeInt32, wf ''user_id'' writeTLInputUser,
         wf ''random_id'' writeInt32, wf ''g_a'' writeByteArray])]"

definition readTLMethodMessagesAcceptEncryption :: tl_reader where
  "readTLMethodMessagesAcceptEncryption = read_method (1035731989) readTLEncryptedChat"

definition writeTLMethodMessagesAcceptEncryption :: tl_writer where
  "writeTLMethodMessagesAcceptEncryption = write_fobject
     [(1035731989, [wf ''_'' writeInt32, wf ''peer'' writeTLInputEncryptedChat,
         wf ''g_b'' writeByteArray, wf ''key_fingerprint'' writeInt64])]"

definition readTLMethodMessagesDiscardEncryption :: tl_reader where
  "readTLMethodMessagesDiscardEncryption = read_method (- 208425312) readBool"

definition writeTLMethodMessagesDiscardEncryption :: tl_writer where
  "writeTLMethodMessagesDiscardEncryption = write_fobject
     [(- 208425312, [wf ''_'' writeInt32, wf_flags ''flags'' [(''delete_history'', 0)],
         wf ''chat_id'' writeInt32])]"

definition readTLMethodMessagesSetEncryptedTyping :: tl_reader where
  "readTLMethodMessagesSetEncryptedTyping = read_method (2031374829) readBool"

definition writeTLMethodMessagesSetEncryptedTyping :: tl_writer where
  "writeTLMethodMessagesSetEncryptedTyping = write_fobject
     [(2031374829, [wf ''_'' writeInt32, wf ''peer'' writeTLInputEncryptedChat,
         wf ''typing'' writeBool])]"

definition readTLMethodMessagesReadEncryptedHistory :: tl_reader where
  "readTLMethodMessagesReadEncryptedHistory = read_method (2135648522) readBool"

definition writeTLMethodMessagesReadEncryptedHistory :: tl_writer where
  "writeTLMethodMessagesReadEncryptedHistory = write_fobject
     [(2135648522, [wf ''_'' writeInt32, wf ''peer'' writeTLInputEncryptedChat,
         wf ''max_date'' writeInt32])]"

definition readTLMethodMessagesSendEncrypted :: tl_reader where
  "readTLMethodMessagesSendEncrypted = read_method (1157265941) readTLMessagesSentEncryptedMessage"

definition writeTLMethodMessagesSendEncrypted :: tl_writer where
  "writeTLMethodMessagesSendEncrypted = write_fobject
     [(1157265941, [wf ''_'' writeInt32, wf_flags ''flags'' [(''silent'', 0)],
         wf ''peer'' writeTLInputEncryptedChat, wf ''random_id'' writeInt64,
         wf ''data'' writeByteArray])]"

definition readTLMethodMessagesSendEncryptedFile :: tl_reader where
  "readTLMethodMessagesSendEncryptedFile = read_method (1431914525) readTLMessagesSentEncryptedMessage"

definition writeTLMethodMessagesSendEncryptedFile :: tl_writer where
  "writeTLMethodMessagesSendEncryptedFile = write_fobject
     [(1431914525, [wf ''_'' writeInt32, wf_flags ''flags'' [(''silent'', 0)],
         wf ''peer'' writeTLInputEncryptedChat, wf ''random_id'' writeInt64,
         wf ''data'' writeByteArray, wf ''file'' writeTLInputEncryptedFile])]"

definition readTLMethodMessagesSendEncryptedService :: tl_reader where
  "readTLMethodMessagesSendEncryptedService = read_method (852769188) readTLMessagesSentEncryptedMessage"

definition writeTLMethodMessagesSendEncryptedService :: tl_writer where
  "writeTLMethodMessagesSendEncryptedService = write_fobject
     [(852769188, [wf ''_'' writeInt32, wf ''peer'' writeTLInputEncryptedChat,
         wf ''random_id'' writeInt64, wf ''data'' writeByteArray])]"

definition readTLMethodMessagesReceivedQueue :: tl_reader where
  "readTLMethodMessagesReceivedQueue = read_method (1436924774) (readVector (Some readInt64))"

definition writeTLMethodMessagesReceivedQueue :: tl_writer where
  "writeTLMethodMessagesReceivedQueue = write_fobject
     [(1436924774, [wf ''_'' writeInt32, wf ''max_qts'' writeInt32])]"

definition readTLMethodMessagesReportEncryptedSpam :: tl_reader where
  "readTLMethodMessagesReportEncryptedSpam = read_method (1259113487) readBool"

definition writeTLMethodMessagesReportEncryptedSpam :: tl_writer where
  "writeTLMethodMessagesReportEncryptedSpam = write_fobject
     [(1259113487, [wf ''_'' writeInt32, wf ''peer'' writeTLInputEncryptedChat])]"

definition readTLMethodMessagesReadMessageContents :: tl_reader where
  "readTLMethodMessagesReadMessageContents = read_method (916930423) readTLMessagesAffectedMessages"

definition writeTLMethodMessagesReadMessageContents :: tl_writer where
  "writeTLMethodMessagesReadMessageContents = write_fobject
     [(916930423, [wf ''_'' writeInt32, wf ''id'' (writeVector (Some writeInt32))])]"

definition writeTLMethodMessagesGetStickers :: tl_writer where
  "writeTLMethodMessagesGetStickers = write_fobject
     [(- 710552671, [wf ''_'' writeInt32, wf ''emoticon'' writeString, wf ''hash'' writeInt64])]"

definition readTLMethodMessagesGetAllStickers :: tl_reader where
  "readTLMethodMessagesGetAllStickers = read_method (- 1197432408) readTLMessagesAllStickers"

definition writeTLMethodMessagesGetAllStickers :: tl_writer where
  "writeTLMethodMessagesGetAllStickers = write_fobject
     [(- 1197432408, [wf ''_'' writeInt32, wf ''hash'' writeInt64])]"

definition writeTLMethodMessagesGetWebPagePreview :: tl_writer where
  "writeTLMethodMessagesGetWebPagePreview = write_fobject
     [(1460498287, [wf ''_'' writeInt32, wf_flags ''flags'' [(''entities'', 3)],
         wf ''message'' writeString,
         wf_if ''flags'' 3 ''entities'' (writeVector (Some writeTLMessageEntity))])]"

definition readTLMethodMessagesExportChatInvite :: tl_reader where
  "readTLMethodMessagesExportChatInvite = read_method (- 1537876336) readTLExportedChatInvite"

definition writeTLMethodMessagesExportChatInvite :: tl_writer where
  "writeTLMethodMessagesExportChatInvite = write_fobject
     [(- 1537876336, [wf ''_'' writeInt32, wf_flags ''flags'' [(''legacy_revoke_permanent'', 2),
         (''request_needed'', 3), (''expire_date'', 0), (''usage_limit'', 1), (''title'', 4),
         (''subscription_pricing'', 5)], wf ''peer'' writeTLInputPeer,
         wf_if ''flags'' 0 ''expire_date'' writeInt32,
         wf_if ''flags'' 1 ''usage_limit'' writeInt32, wf_if ''flags'' 4 ''title'' writeString,
         wf_if ''flags'' 5 ''subscription_pricing'' writeTLStarsSubscriptionPricing])]"

definition writeTLMethodMessagesCheckChatInvite :: tl_writer where
  "writeTLMethodMessagesCheckChatInvite = write_fobject
     [(1051570619, [wf ''_'' writeInt32, wf ''hash'' writeString])]"

definition writeTLMethodMessagesImportChatInvite :: tl_writer where
  "writeTLMethodMessagesImportChatInvite = write_fobject
     [(- 560905362, [wf ''_'' writeInt32, wf ''hash'' writeString])]"

definition writeTLMethodMessagesGetStickerSet :: tl_writer where
  "writeTLMethodMessagesGetStickerSet = write_fobject
     [(- 928977804, [wf ''_'' writeInt32, wf ''stickerset'' writeTLInputStickerSet,
         wf ''hash'' writeInt32])]"

definition writeTLMethodMessagesInstallStickerSet :: tl_writer where
  "writeTLMethodMessagesInstallStickerSet = write_fobject
     [(- 946871200, [wf ''_'' writeInt32, wf ''stickerset'' writeTLInputStickerSet,
         wf ''archived'' writeBool])]"

definition readTLMethodMessagesUninstallStickerSet :: tl_reader where
  "readTLMethodMessagesUninstallStickerSet = read_method (- 110209570) readBool"

definition writeTLMethodMessagesUninstallStickerSet :: tl_writer where
  "writeTLMethodMessagesUninstallStickerSet = write_fobject
     [(- 110209570, [wf ''_'' writeInt32, wf ''stickerset'' writeTLInputStickerSet])]"

definition writeTLMethodMessagesStartBot :: tl_writer where
  "writeTLMethodMessagesStartBot = write_fobject
     [(- 421563528, [wf ''_'' writeInt32, wf ''bot'' writeTLInputUser,
         wf ''peer'' writeTLInputPeer, wf ''random_id'' writeInt64,
         wf ''start_param'' writeString])]"

definition readTLMethodMessagesGetMessagesViews :: tl_reader where
  "readTLMethodMessagesGetMessagesViews = read_method (1468322785) readTLMessagesMessageViews"

definition writeTLMethodMessagesGetMessagesViews :: tl_writer where
  "writeTLMethodMessagesGetMessagesViews = write_fobject
     [(1468322785, [wf ''_'' writeInt32, wf ''peer'' writeTLInputPeer,
         wf ''id'' (writeVector (Some writeInt32)), wf ''increment'' writeBool])]"

definition readTLMethodMessagesEditChatAdmin :: tl_reader where
  "readTLMethodMessagesEditChatAdmin = read_method (- 1470377534) readBool"

definition writeTLMethodMessagesEditChatAdmin :: tl_writer where
  "writeTLMethodMessagesEditChatAdmin = write_fobject
     [(- 1470377534, [wf ''_'' writeInt32, wf ''chat_id'' writeInt64,
         wf ''user_id'' writeTLInputUser, wf ''is_admin'' writeBool])]"

definition writeTLMethodMessagesMigrateChat :: tl_writer where
  "writeTLMethodMessagesMigrateChat = write_fobject
     [(- 1568189671, [wf ''_'' writeInt32, wf ''chat_id'' writeInt64])]"

definition writeTLMethodMessagesSearchGlobal :: tl_writer where
  "writeTLMethodMessagesSearchGlobal = write_fobject
     [(1629922364, [wf ''_'' writeInt32, wf_flags ''flags'' [(''broadcasts_only'', 1),
         (''groups_only'', 2), (''users_only'', 3), (''folder_id'', 0), (''community'', 4)],
         wf_if ''flags'' 0 ''folder_id'' writeInt32,
         wf_if ''flags'' 4 ''community'' writeTLInputChannel, wf ''q'' writeString,
         wf ''filter'' writeTLMessagesFilter, wf ''min_date'' writeInt32,
         wf ''max_date'' writeInt32, wf ''offset_rate'' writeInt32,
         wf ''offset_peer'' writeTLInputPeer, wf ''offset_id'' writeInt32,
         wf ''limit'' writeInt32])]"

definition readTLMethodMessagesReorderStickerSets :: tl_reader where
  "readTLMethodMessagesReorderStickerSets = read_method (2016638777) readBool"

definition writeTLMethodMessagesReorderStickerSets :: tl_writer where
  "writeTLMethodMessagesReorderStickerSets = write_fobject
     [(2016638777, [wf ''_'' writeInt32, wf_flags ''flags'' [(''masks'', 0), (''emojis'', 1)],
         wf ''order'' (writeVector (Some writeInt64))])]"

definition writeTLMethodMessagesGetDocumentByHash :: tl_writer where
  "writeTLMethodMessagesGetDocumentByHash = write_fobject
     [(- 1309538785, [wf ''_'' writeInt32, wf ''sha256'' writeByteArray, wf ''size'' writeInt64,
         wf ''mime_type'' writeString])]"

definition writeTLMethodMessagesGetSavedGifs :: tl_writer where
  "writeTLMethodMessagesGetSavedGifs = write_fobject
     [(1559270965, [wf ''_'' writeInt32, wf ''hash'' writeInt64])]"

definition readTLMethodMessagesSaveGif :: tl_reader where
  "readTLMethodMessagesSaveGif = read_method (846868683) readBool"

definition writeTLMethodMessagesSaveGif :: tl_writer where
  "writeTLMethodMessagesSaveGif = write_fobject
     [(846868683, [wf ''_'' writeInt32, wf ''id'' writeTLInputDocument, wf ''unsave'' writeBool])]"

definition readTLMethodMessagesSetInlineBotResults :: tl_reader where
  "readTLMethodMessagesSetInlineBotResults = read_method (- 1156406247) readBool"

definition writeTLMethodMessagesSendInlineBotResult :: tl_writer where
  "writeTLMethodMessagesSendInlineBotResult = write_fobject
     [(- 1060145594, [wf ''_'' writeInt32, wf_flags ''flags'' [(''silent'', 5), (''background'',
         6), (''clear_draft'', 7), (''hide_via'', 11), (''reply_to'', 0), (''schedule_date'', 10),
         (''send_as'', 13), (''quick_reply_shortcut'', 17), (''allow_paid_stars'', 21)],
         wf ''peer'' writeTLInputPeer, wf_if ''flags'' 0 ''reply_to'' writeTLInputReplyTo,
         wf ''random_id'' writeInt64, wf ''query_id'' writeInt64, wf ''id'' writeString,
         wf_if ''flags'' 10 ''schedule_date'' writeInt32,
         wf_if ''flags'' 13 ''send_as'' writeTLInputPeer,
         wf_if ''flags'' 17 ''quick_reply_shortcut'' writeTLInputQuickReplyShortcut,
         wf_if ''flags'' 21 ''allow_paid_stars'' writeInt64])]"

definition readTLMethodMessagesGetMessageEditData :: tl_reader where
  "readTLMethodMessagesGetMessageEditData = read_method (- 39416522) readTLMessagesMessageEditData"

definition writeTLMethodMessagesGetMessageEditData :: tl_writer where
  "writeTLMethodMessagesGetMessageEditData = write_fobject
     [(- 39416522, [wf ''_'' writeInt32, wf ''peer'' writeTLInputPeer, wf ''id'' writeInt32])]"

definition readTLMethodMessagesEditInlineBotMessage :: tl_reader where
  "readTLMethodMessagesEditInlineBotMessage = read_method (- 1541162159) readBool"

definition readTLMethodMessagesGetBotCallbackAnswer :: tl_reader where
  "readTLMethodMessagesGetBotCallbackAnswer = read_method (- 1824339449) readTLMessagesBotCallbackAnswer"

definition writeTLMethodMessagesGetBotCallbackAnswer :: tl_writer where
  "writeTLMethodMessagesGetBotCallbackAnswer = write_fobject
     [(- 1824339449, [wf ''_'' writeInt32, wf_flags ''flags'' [(''game'', 1), (''data'', 0),
         (''password'', 2)], wf ''peer'' writeTLInputPeer, wf ''msg_id'' writeInt32,
         wf_if ''flags'' 0 ''data'' writeByteArray,
         wf_if ''flags'' 2 ''password'' writeTLInputCheckPasswordSRP])]"

definition readTLMethodMessagesSetBotCallbackAnswer :: tl_reader where
  "readTLMethodMessagesSetBotCallbackAnswer = read_method (- 712043766) readBool"

definition writeTLMethodMessagesSetBotCallbackAnswer :: tl_writer where
  "writeTLMethodMessagesSetBotCallbackAnswer = write_fobject
     [(- 712043766, [wf ''_'' writeInt32, wf_flags ''flags'' [(''alert'', 1), (''message'', 0),
         (''url'', 2)], wf ''query_id'' writeInt64, wf_if ''flags'' 0 ''message'' writeString,
         wf_if ''flags'' 2 ''url'' writeString, wf ''cache_time'' writeInt32])]"

definition writeTLMethodMessagesGetPeerDialogs :: tl_writer where
  "writeTLMethodMessagesGetPeerDialogs = write_fobject
     [(- 462373635, [wf ''_'' writeInt32,
         wf ''peers'' (writeVector (Some writeTLInputDialogPeer))])]"

definition readTLMethodMessagesSaveDraft :: tl_reader where
  "readTLMethodMessagesSaveDraft = read_method (- 1391484580) readBool"

definition writeTLMethodMessagesGetAllDrafts :: tl_writer where
  "writeTLMethodMessagesGetAllDrafts = write_fobject
     [(1782549861, [wf ''_'' writeInt32])]"

definition writeTLMethodMessagesGetFeaturedStickers :: tl_writer where
  "writeTLMethodMessagesGetFeaturedStickers = write_fobject
     [(1685588756, [wf ''_'' writeInt32, wf ''hash'' writeInt64])]"

definition readTLMethodMessagesReadFeaturedStickers :: tl_reader where
  "readTLMethodMessagesReadFeaturedStickers = read_method (1527873830) readBool"

definition writeTLMethodMessagesReadFeaturedStickers :: tl_writer where
  "writeTLMethodMessagesReadFeaturedStickers = write_fobject
     [(1527873830, [wf ''_'' writeInt32, wf ''id'' (writeVector (Some writeInt64))])]"

definition writeTLMethodMessagesGetRecentStickers :: tl_writer where
  "writeTLMethodMessagesGetRecentStickers = write_fobject
     [(- 1649852357, [wf ''_'' writeInt32, wf_flags ''flags'' [(''attached'', 0)],
         wf ''hash'' writeInt64])]"

definition readTLMethodMessagesSaveRecentSticker :: tl_reader where
  "readTLMethodMessagesSaveRecentSticker = read_method (958863608) readBool"

definition writeTLMethodMessagesSaveRecentSticker :: tl_writer where
  "writeTLMethodMessagesSaveRecentSticker = write_fobject
     [(958863608, [wf ''_'' writeInt32, wf_flags ''flags'' [(''attached'', 0)],
         wf ''id'' writeTLInputDocument, wf ''unsave'' writeBool])]"

definition readTLMethodMessagesClearRecentStickers :: tl_reader where
  "readTLMethodMessagesClearRecentStickers = read_method (- 1986437075) readBool"

definition writeTLMethodMessagesClearRecentStickers :: tl_writer where
  "writeTLMethodMessagesClearRecentStickers = write_fobject
     [(- 1986437075, [wf ''_'' writeInt32, wf_flags ''flags'' [(''attached'', 0)]])]"

definition writeTLMethodMessagesGetArchivedStickers :: tl_writer where
  "writeTLMethodMessagesGetArchivedStickers = write_fobject
     [(1475442322, [wf ''_'' writeInt32, wf_flags ''flags'' [(''masks'', 0), (''emojis'', 1)],
         wf ''offset_id'' writeInt64, wf ''limit'' writeInt32])]"

definition readTLMethodMessagesGetMaskStickers :: tl_reader where
  "readTLMethodMessagesGetMaskStickers = read_method (1678738104) readTLMessagesAllStickers"

definition writeTLMethodMessagesGetMaskStickers :: tl_writer where
  "writeTLMethodMessagesGetMaskStickers = write_fobject
     [(1678738104, [wf ''_'' writeInt32, wf ''hash'' writeInt64])]"

definition writeTLMethodMessagesGetAttachedStickers :: tl_writer where
  "writeTLMethodMessagesGetAttachedStickers = write_fobject
     [(- 866424884, [wf ''_'' writeInt32, wf ''media'' writeTLInputStickeredMedia])]"

definition writeTLMethodMessagesSetGameScore :: tl_writer where
  "writeTLMethodMessagesSetGameScore = write_fobject
     [(- 1896289088, [wf ''_'' writeInt32, wf_flags ''flags'' [(''edit_message'', 0), (''force'',
         1)], wf ''peer'' writeTLInputPeer, wf ''id'' writeInt32, wf ''user_id'' writeTLInputUser,
         wf ''score'' writeInt32])]"

definition readTLMethodMessagesSetInlineGameScore :: tl_reader where
  "readTLMethodMessagesSetInlineGameScore = read_method (363700068) readBool"

definition writeTLMethodMessagesSetInlineGameScore :: tl_writer where
  "writeTLMethodMessagesSetInlineGameScore = write_fobject
     [(363700068, [wf ''_'' writeInt32, wf_flags ''flags'' [(''edit_message'', 0), (''force'', 1)],
         wf ''id'' writeTLInputBotInlineMessageID, wf ''user_id'' writeTLInputUser,
         wf ''score'' writeInt32])]"

definition readTLMethodMessagesGetGameHighScores :: tl_reader where
  "readTLMethodMessagesGetGameHighScores = read_method (- 400399203) readTLMessagesHighScores"

definition writeTLMethodMessagesGetGameHighScores :: tl_writer where
  "writeTLMethodMessagesGetGameHighScores = write_fobject
     [(- 400399203, [wf ''_'' writeInt32, wf ''peer'' writeTLInputPeer, wf ''id'' writeInt32,
         wf ''user_id'' writeTLInputUser])]"

definition readTLMethodMessagesGetInlineGameHighScores :: tl_reader where
  "readTLMethodMessagesGetInlineGameHighScores = read_method (258170395) readTLMessagesHighScores"

definition writeTLMethodMessagesGetInlineGameHighScores :: tl_writer where
  "writeTLMethodMessagesGetInlineGameHighScores = write_fobject
     [(258170395, [wf ''_'' writeInt32, wf ''id'' writeTLInputBotInlineMessageID,
         wf ''user_id'' writeTLInputUser])]"

definition readTLMethodMessagesGetCommonChats :: tl_reader where
  "readTLMethodMessagesGetCommonChats = read_method (- 468934396) readTLMessagesChats"

definition writeTLMethodMessagesGetCommonChats :: tl_writer where
  "writeTLMethodMessagesGetCommonChats = write_fobject
     [(- 468934396, [wf ''_'' writeInt32, wf ''user_id'' writeTLInputUser,
         wf ''max_id'' writeInt64, wf ''limit'' writeInt32])]"

definition writeTLMethodMessagesGetWebPage :: tl_writer where
  "writeTLMethodMessagesGetWebPage = write_fobject
     [(- 1919511901, [wf ''_'' writeInt32, wf ''url'' writeString, wf ''hash'' writeInt32])]"

definition readTLMethodMessagesToggleDialogPin :: tl_reader where
  "readTLMethodMessagesToggleDialogPin = read_method (- 1489903017) readBool"

definition writeTLMethodMessagesToggleDialogPin :: tl_writer where
  "writeTLMethodMessagesToggleDialogPin = write_fobject
     [(- 1489903017, [wf ''_'' writeInt32, wf_flags ''flags'' [(''pinned'', 0)],
         wf ''peer'' writeTLInputDialogPeer])]"

definition readTLMethodMessagesReorderPinnedDialogs :: tl_reader where
  "readTLMethodMessagesReorderPinnedDialogs = read_method (991616823) readBool"

definition writeTLMethodMessagesReorderPinnedDialogs :: tl_writer where
  "writeTLMethodMessagesReorderPinnedDialogs = write_fobject
     [(991616823, [wf ''_'' writeInt32, wf_flags ''flags'' [(''force'', 0)],
         wf ''folder_id'' writeInt32, wf ''order'' (writeVector (Some writeTLInputDialogPeer))])]"

definition writeTLMethodMessagesGetPinnedDialogs :: tl_writer where
  "writeTLMethodMessagesGetPinnedDialogs = write_fobject
     [(- 692498958, [wf ''_'' writeInt32, wf ''folder_id'' writeInt32])]"

definition readTLMethodMessagesSetBotShippingResults :: tl_reader where
  "readTLMethodMessagesSetBotShippingResults = read_method (- 436833542) readBool"

definition writeTLMethodMessagesSetBotShippingResults :: tl_writer where
  "writeTLMethodMessagesSetBotShippingResults = write_fobject
     [(- 436833542, [wf ''_'' writeInt32, wf_flags ''flags'' [(''error'', 0),
         (''shipping_options'', 1)], wf ''query_id'' writeInt64,
         wf_if ''flags'' 0 ''error'' writeString,
         wf_if ''flags'' 1 ''shipping_options'' (writeVector (Some writeTLShippingOption))])]"

definition readTLMethodMessagesSetBotPrecheckoutResults :: tl_reader where
  "readTLMethodMessagesSetBotPrecheckoutResults = read_method (163765653) readBool"

definition writeTLMethodMessagesSetBotPrecheckoutResults :: tl_writer where
  "writeTLMethodMessagesSetBotPrecheckoutResults = write_fobject
     [(163765653, [wf ''_'' writeInt32, wf_flags ''flags'' [(''success'', 1), (''error'', 0)],
         wf ''query_id'' writeInt64, wf_if ''flags'' 0 ''error'' writeString])]"

definition writeTLMethodMessagesSendScreenshotNotification :: tl_writer where
  "writeTLMethodMessagesSendScreenshotNotification = write_fobject
     [(- 1589618665, [wf ''_'' writeInt32, wf ''peer'' writeTLInputPeer,
         wf ''reply_to'' writeTLInputReplyTo, wf ''random_id'' writeInt64])]"

definition writeTLMethodMessagesGetFavedStickers :: tl_writer where
  "writeTLMethodMessagesGetFavedStickers = write_fobject
     [(82946729, [wf ''_'' writeInt32, wf ''hash'' writeInt64])]"

definition readTLMethodMessagesFaveSticker :: tl_reader where
  "readTLMethodMessagesFaveSticker = read_method (- 1174420133) readBool"

definition writeTLMethodMessagesFaveSticker :: tl_writer where
  "writeTLMethodMessagesFaveSticker = write_fobject
     [(- 1174420133, [wf ''_'' writeInt32, wf ''id'' writeTLInputDocument,
         wf ''unfave'' writeBool])]"

definition writeTLMethodMessagesGetUnreadMentions :: tl_writer where
  "writeTLMethodMessagesGetUnreadMentions = write_fobject
     [(- 251140208, [wf ''_'' writeInt32, wf_flags ''flags'' [(''top_msg_id'', 0)],
         wf ''peer'' writeTLInputPeer, wf_if ''flags'' 0 ''top_msg_id'' writeInt32,
         wf ''offset_id'' writeInt32, wf ''add_offset'' writeInt32, wf ''limit'' writeInt32,
         wf ''max_id'' writeInt32, wf ''min_id'' writeInt32])]"

definition readTLMethodMessagesReadMentions :: tl_reader where
  "readTLMethodMessagesReadMentions = read_method (921026381) readTLMessagesAffectedHistory"

definition writeTLMethodMessagesReadMentions :: tl_writer where
  "writeTLMethodMessagesReadMentions = write_fobject
     [(921026381, [wf ''_'' writeInt32, wf_flags ''flags'' [(''top_msg_id'', 0)],
         wf ''peer'' writeTLInputPeer, wf_if ''flags'' 0 ''top_msg_id'' writeInt32])]"

definition writeTLMethodMessagesGetRecentLocations :: tl_writer where
  "writeTLMethodMessagesGetRecentLocations = write_fobject
     [(1881817312, [wf ''_'' writeInt32, wf ''peer'' writeTLInputPeer, wf ''limit'' writeInt32,
         wf ''hash'' writeInt64])]"

definition readTLMethodMessagesUploadEncryptedFile :: tl_reader where
  "readTLMethodMessagesUploadEncryptedFile = read_method (1347929239) readTLEncryptedFile"

definition writeTLMethodMessagesUploadEncryptedFile :: tl_writer where
  "writeTLMethodMessagesUploadEncryptedFile = write_fobject
     [(1347929239, [wf ''_'' writeInt32, wf ''peer'' writeTLInputEncryptedChat,
         wf ''file'' writeTLInputEncryptedFile])]"

definition writeTLMethodMessagesSearchStickerSets :: tl_writer where
  "writeTLMethodMessagesSearchStickerSets = write_fobject
     [(896555914, [wf ''_'' writeInt32, wf_flags ''flags'' [(''exclude_featured'', 0)],
         wf ''q'' writeString, wf ''hash'' writeInt64])]"

definition readTLMethodMessagesGetSplitRanges :: tl_reader where
  "readTLMethodMessagesGetSplitRanges = read_method (486505992) (readVector (Some readTLMessageRange))"

definition writeTLMethodMessagesGetSplitRanges :: tl_writer where
  "writeTLMethodMessagesGetSplitRanges = write_fobject
     [(486505992, [wf ''_'' writeInt32])]"

definition readTLMethodMessagesMarkDialogUnread :: tl_reader where
  "readTLMethodMessagesMarkDialogUnread = read_method (- 1940912392) readBool"

definition writeTLMethodMessagesMarkDialogUnread :: tl_writer where
  "writeTLMethodMessagesMarkDialogUnread = write_fobject
     [(- 1940912392, [wf ''_'' writeInt32, wf_flags ''flags'' [(''unread'', 0), (''parent_peer'',
         1)], wf_if ''flags'' 1 ''parent_peer'' writeTLInputPeer,
         wf ''peer'' writeTLInputDialogPeer])]"

definition readTLMethodMessagesGetDialogUnreadMarks :: tl_reader where
  "readTLMethodMessagesGetDialogUnreadMarks = read_method (555754018) (readVector (Some readTLDialogPeer))"

definition writeTLMethodMessagesGetDialogUnreadMarks :: tl_writer where
  "writeTLMethodMessagesGetDialogUnreadMarks = write_fobject
     [(555754018, [wf ''_'' writeInt32, wf_flags ''flags'' [(''parent_peer'', 0)],
         wf_if ''flags'' 0 ''parent_peer'' writeTLInputPeer])]"

definition readTLMethodMessagesClearAllDrafts :: tl_reader where
  "readTLMethodMessagesClearAllDrafts = read_method (2119757468) readBool"

definition writeTLMethodMessagesClearAllDrafts :: tl_writer where
  "writeTLMethodMessagesClearAllDrafts = write_fobject
     [(2119757468, [wf ''_'' writeInt32])]"

definition writeTLMethodMessagesUpdatePinnedMessage :: tl_writer where
  "writeTLMethodMessagesUpdatePinnedMessage = write_fobject
     [(- 760547348, [wf ''_'' writeInt32, wf_flags ''flags'' [(''silent'', 0), (''unpin'', 1),
         (''pm_oneside'', 2)], wf ''peer'' writeTLInputPeer, wf ''id'' writeInt32])]"

definition writeTLMethodMessagesSendVote :: tl_writer where
  "writeTLMethodMessagesSendVote = write_fobject
     [(283795844, [wf ''_'' writeInt32, wf ''peer'' writeTLInputPeer, wf ''msg_id'' writeInt32,
         wf ''options'' (writeVector (Some writeByteArray))])]"

definition writeTLMethodMessagesGetPollResults :: tl_writer where
  "writeTLMethodMessagesGetPollResults = write_fobject
     [(- 308026565, [wf ''_'' writeInt32, wf ''peer'' writeTLInputPeer, wf ''msg_id'' writeInt32,
         wf ''poll_hash'' writeInt64])]"

definition readTLMethodMessagesGetOnlines :: tl_reader where
  "readTLMethodMessagesGetOnlines = read_method (1848369232) readTLChatOnlines"

definition writeTLMethodMessagesGetOnlines :: tl_writer where
  "writeTLMethodMessagesGetOnlines = write_fobject
     [(1848369232, [wf ''_'' writeInt32, wf ''peer'' writeTLInputPeer])]"

definition readTLMethodMessagesEditChatAbout :: tl_reader where
  "readTLMethodMessagesEditChatAbout = read_method (- 554301545) readBool"

definition writeTLMethodMessagesEditChatAbout :: tl_writer where
  "writeTLMethodMessagesEditChatAbout = write_fobject
     [(- 554301545, [wf ''_'' writeInt32, wf ''peer'' writeTLInputPeer, wf ''about'' writeString])]"

definition writeTLMethodMessagesEditChatDefaultBannedRights :: tl_writer where
  "writeTLMethodMessagesEditChatDefaultBannedRights = write_fobject
     [(- 1517917375, [wf ''_'' writeInt32, wf ''peer'' writeTLInputPeer,
         wf ''banned_rights'' writeTLChatBannedRights])]"

definition readTLMethodMessagesGetEmojiKeywords :: tl_reader where
  "readTLMethodMessagesGetEmojiKeywords = read_method (899735650) readTLEmojiKeywordsDifference"

definition writeTLMethodMessagesGetEmojiKeywords :: tl_writer where
  "writeTLMethodMessagesGetEmojiKeywords = write_fobject
     [(899735650, [wf ''_'' writeInt32, wf ''lang_code'' writeString])]"

definition readTLMethodMessagesGetEmojiKeywordsDifference :: tl_reader where
  "readTLMethodMessagesGetEmojiKeywordsDifference = read_method (352892591) readTLEmojiKeywordsDifference"

definition writeTLMethodMessagesGetEmojiKeywordsDifference :: tl_writer where
  "writeTLMethodMessagesGetEmojiKeywordsDifference = write_fobject
     [(352892591, [wf ''_'' writeInt32, wf ''lang_code'' writeString,
         wf ''from_version'' writeInt32])]"

definition readTLMethodMessagesGetEmojiKeywordsLanguages :: tl_reader where
  "readTLMethodMessagesGetEmojiKeywordsLanguages = read_method (1318675378) (readVector (Some readTLEmojiLanguage))"

definition writeTLMethodMessagesGetEmojiKeywordsLanguages :: tl_writer where
  "writeTLMethodMessagesGetEmojiKeywordsLanguages = write_fobject
     [(1318675378, [wf ''_'' writeInt32, wf ''lang_codes'' (writeVector (Some writeString))])]"

definition readTLMethodMessagesGetEmojiURL :: tl_reader where
  "readTLMethodMessagesGetEmojiURL = read_method (- 709817306) readTLEmojiURL"

definition writeTLMethodMessagesGetEmojiURL :: tl_writer where
  "writeTLMethodMessagesGetEmojiURL = write_fobject
     [(- 709817306, [wf ''_'' writeInt32, wf ''lang_code'' writeString])]"

definition readTLMethodMessagesGetSearchCounters :: tl_reader where
  "readTLMethodMessagesGetSearchCounters = read_method (465367808) (readVector (Some readTLMessagesSearchCounter))"

definition writeTLMethodMessagesGetSearchCounters :: tl_writer where
  "writeTLMethodMessagesGetSearchCounters = write_fobject
     [(465367808, [wf ''_'' writeInt32, wf_flags ''flags'' [(''saved_peer_id'', 2),
         (''top_msg_id'', 0)], wf ''peer'' writeTLInputPeer,
         wf_if ''flags'' 2 ''saved_peer_id'' writeTLInputPeer,
         wf_if ''flags'' 0 ''top_msg_id'' writeInt32,
         wf ''filters'' (writeVector (Some writeTLMessagesFilter))])]"

definition readTLMethodMessagesRequestUrlAuth :: tl_reader where
  "readTLMethodMessagesRequestUrlAuth = read_method (- 1991456356) readTLUrlAuthResult"

definition writeTLMethodMessagesRequestUrlAuth :: tl_writer where
  "writeTLMethodMessagesRequestUrlAuth = write_fobject
     [(- 1991456356, [wf ''_'' writeInt32, wf_flags ''flags'' [(''peer'', 1), (''msg_id'', 1),
         (''button_id'', 1), (''url'', 2), (''in_app_origin'', 3)],
         wf_if ''flags'' 1 ''peer'' writeTLInputPeer, wf_if ''flags'' 1 ''msg_id'' writeInt32,
         wf_if ''flags'' 1 ''button_id'' writeInt32, wf_if ''flags'' 2 ''url'' writeString,
         wf_if ''flags'' 3 ''in_app_origin'' writeString])]"

definition readTLMethodMessagesAcceptUrlAuth :: tl_reader where
  "readTLMethodMessagesAcceptUrlAuth = read_method (1738797278) readTLUrlAuthResult"

definition writeTLMethodMessagesAcceptUrlAuth :: tl_writer where
  "writeTLMethodMessagesAcceptUrlAuth = write_fobject
     [(1738797278, [wf ''_'' writeInt32, wf_flags ''flags'' [(''write_allowed'', 0),
         (''share_phone_number'', 3), (''peer'', 1), (''msg_id'', 1), (''button_id'', 1), (''url'',
         2), (''match_code'', 4)], wf_if ''flags'' 1 ''peer'' writeTLInputPeer,
         wf_if ''flags'' 1 ''msg_id'' writeInt32, wf_if ''flags'' 1 ''button_id'' writeInt32,
         wf_if ''flags'' 2 ''url'' writeString, wf_if ''flags'' 4 ''match_code'' writeString])]"

definition readTLMethodMessagesHidePeerSettingsBar :: tl_reader where
  "readTLMethodMessagesHidePeerSettingsBar = read_method (1336717624) readBool"

definition writeTLMethodMessagesHidePeerSettingsBar :: tl_writer where
  "writeTLMethodMessagesHidePeerSettingsBar = write_fobject
     [(1336717624, [wf ''_'' writeInt32, wf ''peer'' writeTLInputPeer])]"

definition writeTLMethodMessagesGetScheduledHistory :: tl_writer where
  "writeTLMethodMessagesGetScheduledHistory = write_fobject
     [(- 183077365, [wf ''_'' writeInt32, wf ''peer'' writeTLInputPeer, wf ''hash'' writeInt64])]"

definition writeTLMethodMessagesGetScheduledMessages :: tl_writer where
  "writeTLMethodMessagesGetScheduledMessages = write_fobject
     [(- 1111817116, [wf ''_'' writeInt32, wf ''peer'' writeTLInputPeer,
         wf ''id'' (writeVector (Some writeInt32))])]"

definition writeTLMethodMessagesSendScheduledMessages :: tl_writer where
  "writeTLMethodMessagesSendScheduledMessages = write_fobject
     [(- 1120369398, [wf ''_'' writeInt32, wf ''peer'' writeTLInputPeer,
         wf ''id'' (writeVector (Some writeInt32))])]"

definition writeTLMethodMessagesDeleteScheduledMessages :: tl_writer where
  "writeTLMethodMessagesDeleteScheduledMessages = write_fobject
     [(1504586518, [wf ''_'' writeInt32, wf ''peer'' writeTLInputPeer,
         wf ''id'' (writeVector (Some writeInt32))])]"

definition readTLMethodMessagesGetPollVotes :: tl_reader where
  "readTLMethodMessagesGetPollVotes = read_method (- 1200736242) readTLMessagesVotesList"

definition writeTLMethodMessagesGetPollVotes :: tl_writer where
  "writeTLMethodMessagesGetPollVotes = write_fobject
     [(- 1200736242, [wf ''_'' writeInt32, wf_flags ''flags'' [(''option'', 0), (''offset'', 1)],
         wf ''peer'' writeTLInputPeer, wf ''id'' writeInt32,
         wf_if ''flags'' 0 ''option'' writeByteArray, wf_if ''flags'' 1 ''offset'' writeString,
         wf ''limit'' writeInt32])]"

definition readTLMethodMessagesToggleStickerSets :: tl_reader where
  "readTLMethodMessagesToggleStickerSets = read_method (- 1257951254) readBool"

definition writeTLMethodMessagesToggleStickerSets :: tl_writer where
  "writeTLMethodMessagesToggleStickerSets = write_fobject
     [(- 1257951254, [wf ''_'' writeInt32, wf_flags ''flags'' [(''uninstall'', 0), (''archive'',
         1), (''unarchive'', 2)], wf ''stickersets'' (writeVector (Some writeTLInputStickerSet))])]"

definition readTLMethodMessagesGetDialogFilters :: tl_reader where
  "readTLMethodMessagesGetDialogFilters = read_method (- 271283063) readTLMessagesDialogFilters"

definition readTLMethodMessagesGetSuggestedDialogFilters :: tl_reader where
  "readTLMethodMessagesGetSuggestedDialogFilters = read_method (- 1566780372) (readVector (Some readTLDialogFilterSuggested))"

definition writeTLMethodMessagesGetSuggestedDialogFilters :: tl_writer where
  "writeTLMethodMessagesGetSuggestedDialogFilters = write_fobject
     [(- 1566780372, [wf ''_'' writeInt32])]"

definition readTLMethodMessagesUpdateDialogFilter :: tl_reader where
  "readTLMethodMessagesUpdateDialogFilter = read_method (450142282) readBool"

definition writeTLMethodMessagesUpdateDialogFilter :: tl_writer where
  "writeTLMethodMessagesUpdateDialogFilter = write_fobject
     [(450142282, [wf ''_'' writeInt32, wf_flags ''flags'' [(''filter'', 0)], wf ''id'' writeInt32,
         wf_if ''flags'' 0 ''filter'' writeTLDialogFilter])]"

definition readTLMethodMessagesUpdateDialogFiltersOrder :: tl_reader where
  "readTLMethodMessagesUpdateDialogFiltersOrder = read_method (- 983318044) readBool"

definition writeTLMethodMessagesUpdateDialogFiltersOrder :: tl_writer where
  "writeTLMethodMessagesUpdateDialogFiltersOrder = write_fobject
     [(- 983318044, [wf ''_'' writeInt32, wf ''order'' (writeVector (Some writeInt32))])]"

definition writeTLMethodMessagesGetOldFeaturedStickers :: tl_writer where
  "writeTLMethodMessagesGetOldFeaturedStickers = write_fobject
     [(2127598753, [wf ''_'' writeInt32, wf ''offset'' writeInt32, wf ''limit'' writeInt32,
         wf ''hash'' writeInt64])]"

definition writeTLMethodMessagesGetReplies :: tl_writer where
  "writeTLMethodMessagesGetReplies = write_fobject
     [(584962828, [wf ''_'' writeInt32, wf ''peer'' writeTLInputPeer, wf ''msg_id'' writeInt32,
         wf ''offset_id'' writeInt32, wf ''offset_date'' writeInt32, wf ''add_offset'' writeInt32,
         wf ''limit'' writeInt32, wf ''max_id'' writeInt32, wf ''min_id'' writeInt32,
         wf ''hash'' writeInt64])]"

definition writeTLMethodMessagesGetDiscussionMessage :: tl_writer where
  "writeTLMethodMessagesGetDiscussionMessage = write_fobject
     [(1147761405, [wf ''_'' writeInt32, wf ''peer'' writeTLInputPeer, wf ''msg_id'' writeInt32])]"

definition readTLMethodMessagesReadDiscussion :: tl_reader where
  "readTLMethodMessagesReadDiscussion = read_method (- 147740172) readBool"

definition writeTLMethodMessagesReadDiscussion :: tl_writer where
  "writeTLMethodMessagesReadDiscussion = write_fobject
     [(- 147740172, [wf ''_'' writeInt32, wf ''peer'' writeTLInputPeer, wf ''msg_id'' writeInt32,
         wf ''read_max_id'' writeInt32])]"

definition readTLMethodMessagesUnpinAllMessages :: tl_reader where
  "readTLMethodMessagesUnpinAllMessages = read_method (103667527) readTLMessagesAffectedHistory"

definition writeTLMethodMessagesUnpinAllMessages :: tl_writer where
  "writeTLMethodMessagesUnpinAllMessages = write_fobject
     [(103667527, [wf ''_'' writeInt32, wf_flags ''flags'' [(''top_msg_id'', 0),
         (''saved_peer_id'', 1)], wf ''peer'' writeTLInputPeer,
         wf_if ''flags'' 0 ''top_msg_id'' writeInt32,
         wf_if ''flags'' 1 ''saved_peer_id'' writeTLInputPeer])]"

definition readTLMethodMessagesDeleteChat :: tl_reader where
  "readTLMethodMessagesDeleteChat = read_method (1540419152) readBool"

definition writeTLMethodMessagesDeleteChat :: tl_writer where
  "writeTLMethodMessagesDeleteChat = write_fobject
     [(1540419152, [wf ''_'' writeInt32, wf ''chat_id'' writeInt64])]"

definition readTLMethodMessagesDeletePhoneCallHistory :: tl_reader where
  "readTLMethodMessagesDeletePhoneCallHistory = read_method (- 104078327) readTLMessagesAffectedFoundMessages"

definition writeTLMethodMessagesDeletePhoneCallHistory :: tl_writer where
  "writeTLMethodMessagesDeletePhoneCallHistory = write_fobject
     [(- 104078327, [wf ''_'' writeInt32, wf_flags ''flags'' [(''revoke'', 0)]])]"

definition readTLMethodMessagesCheckHistoryImport :: tl_reader where
  "readTLMethodMessagesCheckHistoryImport = read_method (1140726259) readTLMessagesHistoryImportParsed"

definition writeTLMethodMessagesCheckHistoryImport :: tl_writer where
  "writeTLMethodMessagesCheckHistoryImport = write_fobject
     [(1140726259, [wf ''_'' writeInt32, wf ''import_head'' writeString])]"

definition readTLMethodMessagesInitHistoryImport :: tl_reader where
  "readTLMethodMessagesInitHistoryImport = read_method (873008187) readTLMessagesHistoryImport"

definition writeTLMethodMessagesInitHistoryImport :: tl_writer where
  "writeTLMethodMessagesInitHistoryImport = write_fobject
     [(873008187, [wf ''_'' writeInt32, wf ''peer'' writeTLInputPeer, wf ''file'' writeTLInputFile,
         wf ''media_count'' writeInt32])]"

definition readTLMethodMessagesStartHistoryImport :: tl_reader where
  "readTLMethodMessagesStartHistoryImport = read_method (- 1271008444) readBool"

definition writeTLMethodMessagesStartHistoryImport :: tl_writer where
  "writeTLMethodMessagesStartHistoryImport = write_fobject
     [(- 1271008444, [wf ''_'' writeInt32, wf ''peer'' writeTLInputPeer,
         wf ''import_id'' writeInt64])]"

definition readTLMethodMessagesGetExportedChatInvites :: tl_reader where
  "readTLMethodMessagesGetExportedChatInvites = read_method (- 1565154314) readTLMessagesExportedChatInvites"

definition writeTLMethodMessagesGetExportedChatInvites :: tl_writer where
  "writeTLMethodMessagesGetExportedChatInvites = write_fobject
     [(- 1565154314, [wf ''_'' writeInt32, wf_flags ''flags'' [(''revoked'', 3), (''offset_date'',
         2), (''offset_link'', 2)], wf ''peer'' writeTLInputPeer, wf ''admin_id'' writeTLInputUser,
         wf_if ''flags'' 2 ''offset_date'' writeInt32,
         wf_if ''flags'' 2 ''offset_link'' writeString, wf ''limit'' writeInt32])]"

definition readTLMethodMessagesGetExportedChatInvite :: tl_reader where
  "readTLMethodMessagesGetExportedChatInvite = read_method (1937010524) readTLMessagesExportedChatInvite"

definition writeTLMethodMessagesGetExportedChatInvite :: tl_writer where
  "writeTLMethodMessagesGetExportedChatInvite = write_fobject
     [(1937010524, [wf ''_'' writeInt32, wf ''peer'' writeTLInputPeer, wf ''link'' writeString])]"

definition readTLMethodMessagesEditExportedChatInvite :: tl_reader where
  "readTLMethodMessagesEditExportedChatInvite = read_method (- 1110823051) readTLMessagesExportedChatInvite"

definition writeTLMethodMessagesEditExportedChatInvite :: tl_writer where
  "writeTLMethodMessagesEditExportedChatInvite = write_fobject
     [(- 1110823051, [wf ''_'' writeInt32, wf_flags ''flags'' [(''revoked'', 2), (''expire_date'',
         0), (''usage_limit'', 1), (''request_needed'', 3), (''title'', 4)],
         wf ''peer'' writeTLInputPeer, wf ''link'' writeString,
         wf_if ''flags'' 0 ''expire_date'' writeInt32,
         wf_if ''flags'' 1 ''usage_limit'' writeInt32,
         wf_if ''flags'' 3 ''request_needed'' writeBool, wf_if ''flags'' 4 ''title'' writeString])]"

definition readTLMethodMessagesDeleteRevokedExportedChatInvites :: tl_reader where
  "readTLMethodMessagesDeleteRevokedExportedChatInvites = read_method (1452833749) readBool"

definition writeTLMethodMessagesDeleteRevokedExportedChatInvites :: tl_writer where
  "writeTLMethodMessagesDeleteRevokedExportedChatInvites = write_fobject
     [(1452833749, [wf ''_'' writeInt32, wf ''peer'' writeTLInputPeer,
         wf ''admin_id'' writeTLInputUser])]"

definition readTLMethodMessagesDeleteExportedChatInvite :: tl_reader where
  "readTLMethodMessagesDeleteExportedChatInvite = read_method (- 731601877) readBool"

definition writeTLMethodMessagesDeleteExportedChatInvite :: tl_writer where
  "writeTLMethodMessagesDeleteExportedChatInvite = write_fobject
     [(- 731601877, [wf ''_'' writeInt32, wf ''peer'' writeTLInputPeer, wf ''link'' writeString])]"

definition readTLMethodMessagesGetAdminsWithInvites :: tl_reader where
  "readTLMethodMessagesGetAdminsWithInvites = read_method (958457583) readTLMessagesChatAdminsWithInvites"

definition writeTLMethodMessagesGetAdminsWithInvites :: tl_writer where
  "writeTLMethodMessagesGetAdminsWithInvites = write_fobject
     [(958457583, [wf ''_'' writeInt32, wf ''peer'' writeTLInputPeer])]"

definition readTLMethodMessagesGetChatInviteImporters :: tl_reader where
  "readTLMethodMessagesGetChatInviteImporters = read_method (- 553329330) readTLMessagesChatInviteImporters"

definition writeTLMethodMessagesGetChatInviteImporters :: tl_writer where
  "writeTLMethodMessagesGetChatInviteImporters = write_fobject
     [(- 553329330, [wf ''_'' writeInt32, wf_flags ''flags'' [(''requested'', 0),
         (''subscription_expired'', 3), (''link'', 1), (''q'', 2)], wf ''peer'' writeTLInputPeer,
         wf_if ''flags'' 1 ''link'' writeString, wf_if ''flags'' 2 ''q'' writeString,
         wf ''offset_date'' writeInt32, wf ''offset_user'' writeTLInputUser,
         wf ''limit'' writeInt32])]"

definition writeTLMethodMessagesSetHistoryTTL :: tl_writer where
  "writeTLMethodMessagesSetHistoryTTL = write_fobject
     [(- 1207017500, [wf ''_'' writeInt32, wf ''peer'' writeTLInputPeer,
         wf ''period'' writeInt32])]"

definition readTLMethodMessagesCheckHistoryImportPeer :: tl_reader where
  "readTLMethodMessagesCheckHistoryImportPeer = read_method (1573261059) readTLMessagesCheckedHistoryImportPeer"

definition writeTLMethodMessagesCheckHistoryImportPeer :: tl_writer where
  "writeTLMethodMessagesCheckHistoryImportPeer = write_fobject
     [(1573261059, [wf ''_'' writeInt32, wf ''peer'' writeTLInputPeer])]"

definition writeTLMethodMessagesSetChatTheme :: tl_writer where
  "writeTLMethodMessagesSetChatTheme = write_fobject
     [(135398089, [wf ''_'' writeInt32, wf ''peer'' writeTLInputPeer,
         wf ''theme'' writeTLInputChatTheme])]"

definition readTLMethodMessagesGetMessageReadParticipants :: tl_reader where
  "readTLMethodMessagesGetMessageReadParticipants = read_method (834782287) (readVector (Some readTLReadParticipantDate))"

definition writeTLMethodMessagesGetMessageReadParticipants :: tl_writer where
  "writeTLMethodMessagesGetMessageReadParticipants = write_fobject
     [(834782287, [wf ''_'' writeInt32, wf ''peer'' writeTLInputPeer, wf ''msg_id'' writeInt32])]"

definition writeTLMethodMessagesGetSearchResultsCalendar :: tl_writer where
  "writeTLMethodMessagesGetSearchResultsCalendar = write_fobject
     [(1789130429, [wf ''_'' writeInt32, wf_flags ''flags'' [(''saved_peer_id'', 2)],
         wf ''peer'' writeTLInputPeer, wf_if ''flags'' 2 ''saved_peer_id'' writeTLInputPeer,
         wf ''filter'' writeTLMessagesFilter, wf ''offset_id'' writeInt32,
         wf ''offset_date'' writeInt32])]"

definition readTLMethodMessagesGetSearchResultsPositions :: tl_reader where
  "readTLMethodMessagesGetSearchResultsPositions = read_method (- 1669386480) readTLMessagesSearchResultsPositions"

definition writeTLMethodMessagesGetSearchResultsPositions :: tl_writer where
  "writeTLMethodMessagesGetSearchResultsPositions = write_fobject
     [(- 1669386480, [wf ''_'' writeInt32, wf_flags ''flags'' [(''saved_peer_id'', 2)],
         wf ''peer'' writeTLInputPeer, wf_if ''flags'' 2 ''saved_peer_id'' writeTLInputPeer,
         wf ''filter'' writeTLMessagesFilter, wf ''offset_id'' writeInt32,
         wf ''limit'' writeInt32])]"

definition writeTLMethodMessagesHideChatJoinRequest :: tl_writer where
  "writeTLMethodMessagesHideChatJoinRequest = write_fobject
     [(2145904661, [wf ''_'' writeInt32, wf_flags ''flags'' [(''approved'', 0)],
         wf ''peer'' writeTLInputPeer, wf ''user_id'' writeTLInputUser])]"

definition writeTLMethodMessagesHideAllChatJoinRequests :: tl_writer where
  "writeTLMethodMessagesHideAllChatJoinRequests = write_fobject
     [(- 528091926, [wf ''_'' writeInt32, wf_flags ''flags'' [(''approved'', 0), (''link'', 1)],
         wf ''peer'' writeTLInputPeer, wf_if ''flags'' 1 ''link'' writeString])]"

definition writeTLMethodMessagesToggleNoForwards :: tl_writer where
  "writeTLMethodMessagesToggleNoForwards = write_fobject
     [(- 1308091851, [wf ''_'' writeInt32, wf_flags ''flags'' [(''request_msg_id'', 0)],
         wf ''peer'' writeTLInputPeer, wf ''enabled'' writeBool,
         wf_if ''flags'' 0 ''request_msg_id'' writeInt32])]"

definition readTLMethodMessagesSaveDefaultSendAs :: tl_reader where
  "readTLMethodMessagesSaveDefaultSendAs = read_method (- 855777386) readBool"

definition writeTLMethodMessagesSaveDefaultSendAs :: tl_writer where
  "writeTLMethodMessagesSaveDefaultSendAs = write_fobject
     [(- 855777386, [wf ''_'' writeInt32, wf ''peer'' writeTLInputPeer,
         wf ''send_as'' writeTLInputPeer])]"

definition writeTLMethodMessagesSendReaction :: tl_writer where
  "writeTLMethodMessagesSendReaction = write_fobject
     [(- 754091820, [wf ''_'' writeInt32, wf_flags ''flags'' [(''big'', 1), (''add_to_recent'', 2),
         (''reaction'', 0)], wf ''peer'' writeTLInputPeer, wf ''msg_id'' writeInt32,
         wf_if ''flags'' 0 ''reaction'' (writeVector (Some writeTLReaction))])]"

definition writeTLMethodMessagesGetMessagesReactions :: tl_writer where
  "writeTLMethodMessagesGetMessagesReactions = write_fobject
     [(- 1950707482, [wf ''_'' writeInt32, wf ''peer'' writeTLInputPeer,
         wf ''id'' (writeVector (Some writeInt32))])]"

definition readTLMethodMessagesGetMessageReactionsList :: tl_reader where
  "readTLMethodMessagesGetMessageReactionsList = read_method (1176190792) readTLMessagesMessageReactionsList"

definition writeTLMethodMessagesGetMessageReactionsList :: tl_writer where
  "writeTLMethodMessagesGetMessageReactionsList = write_fobject
     [(1176190792, [wf ''_'' writeInt32, wf_flags ''flags'' [(''reaction'', 0), (''offset'', 1)],
         wf ''peer'' writeTLInputPeer, wf ''id'' writeInt32,
         wf_if ''flags'' 0 ''reaction'' writeTLReaction, wf_if ''flags'' 1 ''offset'' writeString,
         wf ''limit'' writeInt32])]"

definition writeTLMethodMessagesSetChatAvailableReactions :: tl_writer where
  "writeTLMethodMessagesSetChatAvailableReactions = write_fobject
     [(- 2041895551, [wf ''_'' writeInt32, wf_flags ''flags'' [(''reactions_limit'', 0),
         (''paid_enabled'', 1)], wf ''peer'' writeTLInputPeer,
         wf ''available_reactions'' writeTLChatReactions,
         wf_if ''flags'' 0 ''reactions_limit'' writeInt32,
         wf_if ''flags'' 1 ''paid_enabled'' writeBool])]"

definition writeTLMethodMessagesGetAvailableReactions :: tl_writer where
  "writeTLMethodMessagesGetAvailableReactions = write_fobject
     [(417243308, [wf ''_'' writeInt32, wf ''hash'' writeInt32])]"

definition readTLMethodMessagesSetDefaultReaction :: tl_reader where
  "readTLMethodMessagesSetDefaultReaction = read_method (1330094102) readBool"

definition writeTLMethodMessagesSetDefaultReaction :: tl_writer where
  "writeTLMethodMessagesSetDefaultReaction = write_fobject
     [(1330094102, [wf ''_'' writeInt32, wf ''reaction'' writeTLReaction])]"

definition readTLMethodMessagesTranslateText :: tl_reader where
  "readTLMethodMessagesTranslateText = read_method (- 1511079099) readTLMessagesTranslatedText"

definition writeTLMethodMessagesTranslateText :: tl_writer where
  "writeTLMethodMessagesTranslateText = write_fobject
     [(- 1511079099, [wf ''_'' writeInt32, wf_flags ''flags'' [(''peer'', 0), (''id'', 0),
         (''text'', 1), (''tone'', 2)], wf_if ''flags'' 0 ''peer'' writeTLInputPeer,
         wf_if ''flags'' 0 ''id'' (writeVector (Some writeInt32)),
         wf_if ''flags'' 1 ''text'' (writeVector (Some writeTLTextWithEntities)),
         wf ''to_lang'' writeString, wf_if ''flags'' 2 ''tone'' writeString])]"

definition writeTLMethodMessagesGetUnreadReactions :: tl_writer where
  "writeTLMethodMessagesGetUnreadReactions = write_fobject
     [(- 1115713364, [wf ''_'' writeInt32, wf_flags ''flags'' [(''top_msg_id'', 0),
         (''saved_peer_id'', 1)], wf ''peer'' writeTLInputPeer,
         wf_if ''flags'' 0 ''top_msg_id'' writeInt32,
         wf_if ''flags'' 1 ''saved_peer_id'' writeTLInputPeer, wf ''offset_id'' writeInt32,
         wf ''add_offset'' writeInt32, wf ''limit'' writeInt32, wf ''max_id'' writeInt32,
         wf ''min_id'' writeInt32])]"

definition readTLMethodMessagesReadReactions :: tl_reader where
  "readTLMethodMessagesReadReactions = read_method (- 1631301741) readTLMessagesAffectedHistory"

definition writeTLMethodMessagesReadReactions :: tl_writer where
  "writeTLMethodMessagesReadReactions = write_fobject
     [(- 1631301741, [wf ''_'' writeInt32, wf_flags ''flags'' [(''top_msg_id'', 0),
         (''saved_peer_id'', 1)], wf ''peer'' writeTLInputPeer,
         wf_if ''flags'' 0 ''top_msg_id'' writeInt32,
         wf_if ''flags'' 1 ''saved_peer_id'' writeTLInputPeer])]"

definition writeTLMethodMessagesSearchSentMedia :: tl_writer where
  "writeTLMethodMessagesSearchSentMedia = write_fobject
     [(276705696, [wf ''_'' writeInt32, wf ''q'' writeString, wf ''filter'' writeTLMessagesFilter,
         wf ''limit'' writeInt32])]"

definition writeTLMethodMessagesGetAttachMenuBots :: tl_writer where
  "writeTLMethodMessagesGetAttachMenuBots = write_fobject
     [(385663691, [wf ''_'' writeInt32, wf ''hash'' writeInt64])]"

definition writeTLMethodMessagesGetAttachMenuBot :: tl_writer where
  "writeTLMethodMessagesGetAttachMenuBot = write_fobject
     [(1998676370, [wf ''_'' writeInt32, wf ''bot'' writeTLInputUser])]"

definition readTLMethodMessagesToggleBotInAttachMenu :: tl_reader where
  "readTLMethodMessagesToggleBotInAttachMenu = read_method (1777704297) readBool"

definition writeTLMethodMessagesToggleBotInAttachMenu :: tl_writer where
  "writeTLMethodMessagesToggleBotInAttachMenu = write_fobject
     [(1777704297, [wf ''_'' writeInt32, wf_flags ''flags'' [(''write_allowed'', 0)],
         wf ''bot'' writeTLInputUser, wf ''enabled'' writeBool])]"

definition readTLMethodMessagesRequestWebView :: tl_reader where
  "readTLMethodMessagesRequestWebView = read_method (647873217) readTLWebViewResult"

definition writeTLMethodMessagesRequestWebView :: tl_writer where
  "writeTLMethodMessagesRequestWebView = write_fobject
     [(647873217, [wf ''_'' writeInt32, wf_flags ''flags'' [(''from_bot_menu'', 4), (''silent'',
         5), (''compact'', 7), (''fullscreen'', 8), (''url'', 1), (''start_param'', 3),
         (''theme_params'', 2), (''reply_to'', 0), (''send_as'', 13)],
         wf ''peer'' writeTLInputPeer, wf ''bot'' writeTLInputUser,
         wf_if ''flags'' 1 ''url'' writeString, wf_if ''flags'' 3 ''start_param'' writeString,
         wf_if ''flags'' 2 ''theme_params'' writeTLDataJSON, wf ''platform'' writeString,
         wf_if ''flags'' 0 ''reply_to'' writeTLInputReplyTo,
         wf_if ''flags'' 13 ''send_as'' writeTLInputPeer])]"

definition readTLMethodMessagesProlongWebView :: tl_reader where
  "readTLMethodMessagesProlongWebView = read_method (- 1328014717) readBool"

definition writeTLMethodMessagesProlongWebView :: tl_writer where
  "writeTLMethodMessagesProlongWebView = write_fobject
     [(- 1328014717, [wf ''_'' writeInt32, wf_flags ''flags'' [(''silent'', 5), (''reply_to'', 0),
         (''send_as'', 13)], wf ''peer'' writeTLInputPeer, wf ''bot'' writeTLInputUser,
         wf ''query_id'' writeInt64, wf_if ''flags'' 0 ''reply_to'' writeTLInputReplyTo,
         wf_if ''flags'' 13 ''send_as'' writeTLInputPeer])]"

definition readTLMethodMessagesRequestSimpleWebView :: tl_reader where
  "readTLMethodMessagesRequestSimpleWebView = read_method (1094336115) readTLWebViewResult"

definition writeTLMethodMessagesRequestSimpleWebView :: tl_writer where
  "writeTLMethodMessagesRequestSimpleWebView = write_fobject
     [(1094336115, [wf ''_'' writeInt32, wf_flags ''flags'' [(''from_switch_webview'', 1),
         (''from_side_menu'', 2), (''compact'', 7), (''fullscreen'', 8), (''url'', 3),
         (''start_param'', 4), (''theme_params'', 0)], wf ''bot'' writeTLInputUser,
         wf_if ''flags'' 3 ''url'' writeString, wf_if ''flags'' 4 ''start_param'' writeString,
         wf_if ''flags'' 0 ''theme_params'' writeTLDataJSON, wf ''platform'' writeString])]"

definition readTLMethodMessagesSendWebViewResultMessage :: tl_reader where
  "readTLMethodMessagesSendWebViewResultMessage = read_method (172168437) readTLWebViewMessageSent"

definition writeTLMethodMessagesSendWebViewData :: tl_writer where
  "writeTLMethodMessagesSendWebViewData = write_fobject
     [(- 603831608, [wf ''_'' writeInt32, wf ''bot'' writeTLInputUser, wf ''random_id'' writeInt64,
         wf ''button_text'' writeString, wf ''data'' writeString])]"

definition readTLMethodMessagesTranscribeAudio :: tl_reader where
  "readTLMethodMessagesTranscribeAudio = read_method (647928393) readTLMessagesTranscribedAudio"

definition writeTLMethodMessagesTranscribeAudio :: tl_writer where
  "writeTLMethodMessagesTranscribeAudio = write_fobject
     [(647928393, [wf ''_'' writeInt32, wf ''peer'' writeTLInputPeer, wf ''msg_id'' writeInt32])]"

definition readTLMethodMessagesRateTranscribedAudio :: tl_reader where
  "readTLMethodMessagesRateTranscribedAudio = read_method (2132608815) readBool"

definition writeTLMethodMessagesRateTranscribedAudio :: tl_writer where
  "writeTLMethodMessagesRateTranscribedAudio = write_fobject
     [(2132608815, [wf ''_'' writeInt32, wf ''peer'' writeTLInputPeer, wf ''msg_id'' writeInt32,
         wf ''transcription_id'' writeInt64, wf ''good'' writeBool])]"

definition writeTLMethodMessagesGetCustomEmojiDocuments :: tl_writer where
  "writeTLMethodMessagesGetCustomEmojiDocuments = write_fobject
     [(- 643100844, [wf ''_'' writeInt32, wf ''document_id'' (writeVector (Some writeInt64))])]"

definition readTLMethodMessagesGetEmojiStickers :: tl_reader where
  "readTLMethodMessagesGetEmojiStickers = read_method (- 67329649) readTLMessagesAllStickers"

definition writeTLMethodMessagesGetEmojiStickers :: tl_writer where
  "writeTLMethodMessagesGetEmojiStickers = write_fobject
     [(- 67329649, [wf ''_'' writeInt32, wf ''hash'' writeInt64])]"

definition writeTLMethodMessagesGetFeaturedEmojiStickers :: tl_writer where
  "writeTLMethodMessagesGetFeaturedEmojiStickers = write_fobject
     [(248473398, [wf ''_'' writeInt32, wf ''hash'' writeInt64])]"

definition readTLMethodMessagesReportReaction :: tl_reader where
  "readTLMethodMessagesReportReaction = read_method (1063567478) readBool"

definition writeTLMethodMessagesReportReaction :: tl_writer where
  "writeTLMethodMessagesReportReaction = write_fobject
     [(1063567478, [wf ''_'' writeInt32, wf ''peer'' writeTLInputPeer, wf ''id'' writeInt32,
         wf ''reaction_peer'' writeTLInputPeer])]"

definition readTLMethodMessagesGetTopReactions :: tl_reader where
  "readTLMethodMessagesGetTopReactions = read_method (- 1149164102) readTLMessagesReactions"

definition writeTLMethodMessagesGetTopReactions :: tl_writer where
  "writeTLMethodMessagesGetTopReactions = write_fobject
     [(- 1149164102, [wf ''_'' writeInt32, wf ''limit'' writeInt32, wf ''hash'' writeInt64])]"

definition readTLMethodMessagesGetRecentReactions :: tl_reader where
  "readTLMethodMessagesGetRecentReactions = read_method (960896434) readTLMessagesReactions"

definition writeTLMethodMessagesGetRecentReactions :: tl_writer where
  "writeTLMethodMessagesGetRecentReactions = write_fobject
     [(960896434, [wf ''_'' writeInt32, wf ''limit'' writeInt32, wf ''hash'' writeInt64])]"

definition readTLMethodMessagesClearRecentReactions :: tl_reader where
  "readTLMethodMessagesClearRecentReactions = read_method (- 1644236876) readBool"

definition writeTLMethodMessagesClearRecentReactions :: tl_writer where
  "writeTLMethodMessagesClearRecentReactions = write_fobject
     [(- 1644236876, [wf ''_'' writeInt32])]"

definition writeTLMethodMessagesGetExtendedMedia :: tl_writer where
  "writeTLMethodMessagesGetExtendedMedia = write_fobject
     [(- 2064119788, [wf ''_'' writeInt32, wf ''peer'' writeTLInputPeer,
         wf ''id'' (writeVector (Some writeInt32))])]"

definition readTLMethodMessagesSetDefaultHistoryTTL :: tl_reader where
  "readTLMethodMessagesSetDefaultHistoryTTL = read_method (- 1632299963) readBool"

definition writeTLMethodMessagesSetDefaultHistoryTTL :: tl_writer where
  "writeTLMethodMessagesSetDefaultHistoryTTL = write_fobject
     [(- 1632299963, [wf ''_'' writeInt32, wf ''period'' writeInt32])]"

definition readTLMethodMessagesGetDefaultHistoryTTL :: tl_reader where
  "readTLMethodMessagesGetDefaultHistoryTTL = read_method (1703637384) readTLDefaultHistoryTTL"

definition writeTLMethodMessagesGetDefaultHistoryTTL :: tl_writer where
  "writeTLMethodMessagesGetDefaultHistoryTTL = write_fobject
     [(1703637384, [wf ''_'' writeInt32])]"

definition writeTLMethodMessagesSendBotRequestedPeer :: tl_writer where
  "writeTLMethodMessagesSendBotRequestedPeer = write_fobject
     [(1818030759, [wf ''_'' writeInt32, wf_flags ''flags'' [(''msg_id'', 0), (''webapp_req_id'',
         1)], wf ''peer'' writeTLInputPeer, wf_if ''flags'' 0 ''msg_id'' writeInt32,
         wf_if ''flags'' 1 ''webapp_req_id'' writeString, wf ''button_id'' writeInt32,
         wf ''requested_peers'' (writeVector (Some writeTLInputPeer))])]"

definition readTLMethodMessagesGetEmojiGroups :: tl_reader where
  "readTLMethodMessagesGetEmojiGroups = read_method (1955122779) readTLMessagesEmojiGroups"

definition writeTLMethodMessagesGetEmojiGroups :: tl_writer where
  "writeTLMethodMessagesGetEmojiGroups = write_fobject
     [(1955122779, [wf ''_'' writeInt32, wf ''hash'' writeInt32])]"

definition readTLMethodMessagesGetEmojiStatusGroups :: tl_reader where
  "readTLMethodMessagesGetEmojiStatusGroups = read_method (785209037) readTLMessagesEmojiGroups"

definition writeTLMethodMessagesGetEmojiStatusGroups :: tl_writer where
  "writeTLMethodMessagesGetEmojiStatusGroups = write_fobject
     [(785209037, [wf ''_'' writeInt32, wf ''hash'' writeInt32])]"

definition readTLMethodMessagesGetEmojiProfilePhotoGroups :: tl_reader where
  "readTLMethodMessagesGetEmojiProfilePhotoGroups = read_method (564480243) readTLMessagesEmojiGroups"

definition writeTLMethodMessagesGetEmojiProfilePhotoGroups :: tl_writer where
  "writeTLMethodMessagesGetEmojiProfilePhotoGroups = write_fobject
     [(564480243, [wf ''_'' writeInt32, wf ''hash'' writeInt32])]"

definition readTLMethodMessagesSearchCustomEmoji :: tl_reader where
  "readTLMethodMessagesSearchCustomEmoji = read_method (739360983) readTLEmojiList"

definition writeTLMethodMessagesSearchCustomEmoji :: tl_writer where
  "writeTLMethodMessagesSearchCustomEmoji = write_fobject
     [(739360983, [wf ''_'' writeInt32, wf ''emoticon'' writeString, wf ''hash'' writeInt64])]"

definition readTLMethodMessagesTogglePeerTranslations :: tl_reader where
  "readTLMethodMessagesTogglePeerTranslations = read_method (- 461589127) readBool"

definition writeTLMethodMessagesTogglePeerTranslations :: tl_writer where
  "writeTLMethodMessagesTogglePeerTranslations = write_fobject
     [(- 461589127, [wf ''_'' writeInt32, wf_flags ''flags'' [(''disabled'', 0)],
         wf ''peer'' writeTLInputPeer])]"

definition writeTLMethodMessagesGetBotApp :: tl_writer where
  "writeTLMethodMessagesGetBotApp = write_fobject
     [(889046467, [wf ''_'' writeInt32, wf ''app'' writeTLInputBotApp, wf ''hash'' writeInt64])]"

definition readTLMethodMessagesRequestAppWebView :: tl_reader where
  "readTLMethodMessagesRequestAppWebView = read_method (1398901710) readTLWebViewResult"

definition writeTLMethodMessagesRequestAppWebView :: tl_writer where
  "writeTLMethodMessagesRequestAppWebView = write_fobject
     [(1398901710, [wf ''_'' writeInt32, wf_flags ''flags'' [(''write_allowed'', 0), (''compact'',
         7), (''fullscreen'', 8), (''start_param'', 1), (''theme_params'', 2)],
         wf ''peer'' writeTLInputPeer, wf ''app'' writeTLInputBotApp,
         wf_if ''flags'' 1 ''start_param'' writeString,
         wf_if ''flags'' 2 ''theme_params'' writeTLDataJSON, wf ''platform'' writeString])]"

definition writeTLMethodMessagesSetChatWallPaper :: tl_writer where
  "writeTLMethodMessagesSetChatWallPaper = write_fobject
     [(- 1879389471, [wf ''_'' writeInt32, wf_flags ''flags'' [(''for_both'', 3), (''revert'', 4),
         (''wallpaper'', 0), (''settings'', 2), (''id'', 1)], wf ''peer'' writeTLInputPeer,
         wf_if ''flags'' 0 ''wallpaper'' writeTLInputWallPaper,
         wf_if ''flags'' 2 ''settings'' writeTLWallPaperSettings,
         wf_if ''flags'' 1 ''id'' writeInt32])]"

definition writeTLMethodMessagesSearchEmojiStickerSets :: tl_writer where
  "writeTLMethodMessagesSearchEmojiStickerSets = write_fobject
     [(- 1833678516, [wf ''_'' writeInt32, wf_flags ''flags'' [(''exclude_featured'', 0)],
         wf ''q'' writeString, wf ''hash'' writeInt64])]"

definition writeTLMethodMessagesGetSavedDialogs :: tl_writer where
  "writeTLMethodMessagesGetSavedDialogs = write_fobject
     [(512883865, [wf ''_'' writeInt32, wf_flags ''flags'' [(''exclude_pinned'', 0),
         (''parent_peer'', 1)], wf_if ''flags'' 1 ''parent_peer'' writeTLInputPeer,
         wf ''offset_date'' writeInt32, wf ''offset_id'' writeInt32,
         wf ''offset_peer'' writeTLInputPeer, wf ''limit'' writeInt32, wf ''hash'' writeInt64])]"

definition writeTLMethodMessagesGetSavedHistory :: tl_writer where
  "writeTLMethodMessagesGetSavedHistory = write_fobject
     [(- 1718964215, [wf ''_'' writeInt32, wf_flags ''flags'' [(''parent_peer'', 0)],
         wf_if ''flags'' 0 ''parent_peer'' writeTLInputPeer, wf ''peer'' writeTLInputPeer,
         wf ''offset_id'' writeInt32, wf ''offset_date'' writeInt32, wf ''add_offset'' writeInt32,
         wf ''limit'' writeInt32, wf ''max_id'' writeInt32, wf ''min_id'' writeInt32,
         wf ''hash'' writeInt64])]"

end
