(* ===== verification/TlMethods2.thy ===== *)
theory TlMethods2
  imports TlMethods1
begin

section \<open>The API schema, methods: libkg/tlschema.cpp\<close>

text \<open>
  The writer of each method's request and the reader of its reply.
\<close>

definition readTLMethodMessagesDeleteSavedHistory :: tl_reader where
  "readTLMethodMessagesDeleteSavedHistory = read_method (1304758367) readTLMessagesAffectedHistory"

definition writeTLMethodMessagesDeleteSavedHistory :: tl_writer where
  "writeTLMethodMessagesDeleteSavedHistory = write_fobject
     [(1304758367, [wf ''_'' writeInt32, wf_flags ''flags'' [(''parent_peer'', 0), (''min_date'',
         2), (''max_date'', 3)], wf_if ''flags'' 0 ''parent_peer'' writeTLInputPeer,
         wf ''peer'' writeTLInputPeer, wf ''max_id'' writeInt32,
         wf_if ''flags'' 2 ''min_date'' writeInt32, wf_if ''flags'' 3 ''max_date'' writeInt32])]"

definition writeTLMethodMessagesGetPinnedSavedDialogs :: tl_writer where
  "writeTLMethodMessagesGetPinnedSavedDialogs = write_fobject
     [(- 700607264, [wf ''_'' writeInt32])]"

definition readTLMethodMessagesToggleSavedDialogPin :: tl_reader where
  "readTLMethodMessagesToggleSavedDialogPin = read_method (- 1400783906) readBool"

definition writeTLMethodMessagesToggleSavedDialogPin :: tl_writer where
  "writeTLMethodMessagesToggleSavedDialogPin = write_fobject
     [(- 1400783906, [wf ''_'' writeInt32, wf_flags ''flags'' [(''pinned'', 0)],
         wf ''peer'' writeTLInputDialogPeer])]"

definition readTLMethodMessagesReorderPinnedSavedDialogs :: tl_reader where
  "readTLMethodMessagesReorderPinnedSavedDialogs = read_method (- 1955502713) readBool"

definition writeTLMethodMessagesReorderPinnedSavedDialogs :: tl_writer where
  "writeTLMethodMessagesReorderPinnedSavedDialogs = write_fobject
     [(- 1955502713, [wf ''_'' writeInt32, wf_flags ''flags'' [(''force'', 0)],
         wf ''order'' (writeVector (Some writeTLInputDialogPeer))])]"

definition readTLMethodMessagesGetSavedReactionTags :: tl_reader where
  "readTLMethodMessagesGetSavedReactionTags = read_method (909631579) readTLMessagesSavedReactionTags"

definition writeTLMethodMessagesGetSavedReactionTags :: tl_writer where
  "writeTLMethodMessagesGetSavedReactionTags = write_fobject
     [(909631579, [wf ''_'' writeInt32, wf_flags ''flags'' [(''peer'', 0)],
         wf_if ''flags'' 0 ''peer'' writeTLInputPeer, wf ''hash'' writeInt64])]"

definition readTLMethodMessagesUpdateSavedReactionTag :: tl_reader where
  "readTLMethodMessagesUpdateSavedReactionTag = read_method (1613331948) readBool"

definition writeTLMethodMessagesUpdateSavedReactionTag :: tl_writer where
  "writeTLMethodMessagesUpdateSavedReactionTag = write_fobject
     [(1613331948, [wf ''_'' writeInt32, wf_flags ''flags'' [(''title'', 0)],
         wf ''reaction'' writeTLReaction, wf_if ''flags'' 0 ''title'' writeString])]"

definition readTLMethodMessagesGetDefaultTagReactions :: tl_reader where
  "readTLMethodMessagesGetDefaultTagReactions = read_method (- 1107741656) readTLMessagesReactions"

definition writeTLMethodMessagesGetDefaultTagReactions :: tl_writer where
  "writeTLMethodMessagesGetDefaultTagReactions = write_fobject
     [(- 1107741656, [wf ''_'' writeInt32, wf ''hash'' writeInt64])]"

definition readTLMethodMessagesGetOutboxReadDate :: tl_reader where
  "readTLMethodMessagesGetOutboxReadDate = read_method (- 1941176739) readTLOutboxReadDate"

definition writeTLMethodMessagesGetOutboxReadDate :: tl_writer where
  "writeTLMethodMessagesGetOutboxReadDate = write_fobject
     [(- 1941176739, [wf ''_'' writeInt32, wf ''peer'' writeTLInputPeer,
         wf ''msg_id'' writeInt32])]"

definition writeTLMethodMessagesGetQuickReplies :: tl_writer where
  "writeTLMethodMessagesGetQuickReplies = write_fobject
     [(- 729550168, [wf ''_'' writeInt32, wf ''hash'' writeInt64])]"

definition readTLMethodMessagesReorderQuickReplies :: tl_reader where
  "readTLMethodMessagesReorderQuickReplies = read_method (1613961479) readBool"

definition writeTLMethodMessagesReorderQuickReplies :: tl_writer where
  "writeTLMethodMessagesReorderQuickReplies = write_fobject
     [(1613961479, [wf ''_'' writeInt32, wf ''order'' (writeVector (Some writeInt32))])]"

definition readTLMethodMessagesCheckQuickReplyShortcut :: tl_reader where
  "readTLMethodMessagesCheckQuickReplyShortcut = read_method (- 237962285) readBool"

definition writeTLMethodMessagesCheckQuickReplyShortcut :: tl_writer where
  "writeTLMethodMessagesCheckQuickReplyShortcut = write_fobject
     [(- 237962285, [wf ''_'' writeInt32, wf ''shortcut'' writeString])]"

definition readTLMethodMessagesEditQuickReplyShortcut :: tl_reader where
  "readTLMethodMessagesEditQuickReplyShortcut = read_method (1543519471) readBool"

definition writeTLMethodMessagesEditQuickReplyShortcut :: tl_writer where
  "writeTLMethodMessagesEditQuickReplyShortcut = write_fobject
     [(1543519471, [wf ''_'' writeInt32, wf ''shortcut_id'' writeInt32,
         wf ''shortcut'' writeString])]"

definition readTLMethodMessagesDeleteQuickReplyShortcut :: tl_reader where
  "readTLMethodMessagesDeleteQuickReplyShortcut = read_method (1019234112) readBool"

definition writeTLMethodMessagesDeleteQuickReplyShortcut :: tl_writer where
  "writeTLMethodMessagesDeleteQuickReplyShortcut = write_fobject
     [(1019234112, [wf ''_'' writeInt32, wf ''shortcut_id'' writeInt32])]"

definition writeTLMethodMessagesGetQuickReplyMessages :: tl_writer where
  "writeTLMethodMessagesGetQuickReplyMessages = write_fobject
     [(- 1801153085, [wf ''_'' writeInt32, wf_flags ''flags'' [(''id'', 0)],
         wf ''shortcut_id'' writeInt32, wf_if ''flags'' 0 ''id'' (writeVector (Some writeInt32)),
         wf ''hash'' writeInt64])]"

definition writeTLMethodMessagesSendQuickReplyMessages :: tl_writer where
  "writeTLMethodMessagesSendQuickReplyMessages = write_fobject
     [(1819610593, [wf ''_'' writeInt32, wf ''peer'' writeTLInputPeer,
         wf ''shortcut_id'' writeInt32, wf ''id'' (writeVector (Some writeInt32)),
         wf ''random_id'' (writeVector (Some writeInt64))])]"

definition writeTLMethodMessagesDeleteQuickReplyMessages :: tl_writer where
  "writeTLMethodMessagesDeleteQuickReplyMessages = write_fobject
     [(- 519706352, [wf ''_'' writeInt32, wf ''shortcut_id'' writeInt32,
         wf ''id'' (writeVector (Some writeInt32))])]"

definition readTLMethodMessagesToggleDialogFilterTags :: tl_reader where
  "readTLMethodMessagesToggleDialogFilterTags = read_method (- 47326647) readBool"

definition writeTLMethodMessagesToggleDialogFilterTags :: tl_writer where
  "writeTLMethodMessagesToggleDialogFilterTags = write_fobject
     [(- 47326647, [wf ''_'' writeInt32, wf ''enabled'' writeBool])]"

definition writeTLMethodMessagesGetMyStickers :: tl_writer where
  "writeTLMethodMessagesGetMyStickers = write_fobject
     [(- 793386500, [wf ''_'' writeInt32, wf ''offset_id'' writeInt64, wf ''limit'' writeInt32])]"

definition readTLMethodMessagesGetEmojiStickerGroups :: tl_reader where
  "readTLMethodMessagesGetEmojiStickerGroups = read_method (500711669) readTLMessagesEmojiGroups"

definition writeTLMethodMessagesGetEmojiStickerGroups :: tl_writer where
  "writeTLMethodMessagesGetEmojiStickerGroups = write_fobject
     [(500711669, [wf ''_'' writeInt32, wf ''hash'' writeInt32])]"

definition writeTLMethodMessagesGetAvailableEffects :: tl_writer where
  "writeTLMethodMessagesGetAvailableEffects = write_fobject
     [(- 559805895, [wf ''_'' writeInt32, wf ''hash'' writeInt32])]"

definition writeTLMethodMessagesEditFactCheck :: tl_writer where
  "writeTLMethodMessagesEditFactCheck = write_fobject
     [(92925557, [wf ''_'' writeInt32, wf ''peer'' writeTLInputPeer, wf ''msg_id'' writeInt32,
         wf ''text'' writeTLTextWithEntities])]"

definition writeTLMethodMessagesDeleteFactCheck :: tl_writer where
  "writeTLMethodMessagesDeleteFactCheck = write_fobject
     [(- 774204404, [wf ''_'' writeInt32, wf ''peer'' writeTLInputPeer, wf ''msg_id'' writeInt32])]"

definition readTLMethodMessagesGetFactCheck :: tl_reader where
  "readTLMethodMessagesGetFactCheck = read_method (- 1177696786) (readVector (Some readTLFactCheck))"

definition writeTLMethodMessagesGetFactCheck :: tl_writer where
  "writeTLMethodMessagesGetFactCheck = write_fobject
     [(- 1177696786, [wf ''_'' writeInt32, wf ''peer'' writeTLInputPeer,
         wf ''msg_id'' (writeVector (Some writeInt32))])]"

definition readTLMethodMessagesRequestMainWebView :: tl_reader where
  "readTLMethodMessagesRequestMainWebView = read_method (- 908059013) readTLWebViewResult"

definition writeTLMethodMessagesRequestMainWebView :: tl_writer where
  "writeTLMethodMessagesRequestMainWebView = write_fobject
     [(- 908059013, [wf ''_'' writeInt32, wf_flags ''flags'' [(''compact'', 7), (''fullscreen'',
         8), (''start_param'', 1), (''theme_params'', 0)], wf ''peer'' writeTLInputPeer,
         wf ''bot'' writeTLInputUser, wf_if ''flags'' 1 ''start_param'' writeString,
         wf_if ''flags'' 0 ''theme_params'' writeTLDataJSON, wf ''platform'' writeString])]"

definition writeTLMethodMessagesSendPaidReaction :: tl_writer where
  "writeTLMethodMessagesSendPaidReaction = write_fobject
     [(1488702288, [wf ''_'' writeInt32, wf_flags ''flags'' [(''private'', 0)],
         wf ''peer'' writeTLInputPeer, wf ''msg_id'' writeInt32, wf ''count'' writeInt32,
         wf ''random_id'' writeInt64, wf_if ''flags'' 0 ''private'' writeTLPaidReactionPrivacy])]"

definition readTLMethodMessagesTogglePaidReactionPrivacy :: tl_reader where
  "readTLMethodMessagesTogglePaidReactionPrivacy = read_method (1129874869) readBool"

definition writeTLMethodMessagesTogglePaidReactionPrivacy :: tl_writer where
  "writeTLMethodMessagesTogglePaidReactionPrivacy = write_fobject
     [(1129874869, [wf ''_'' writeInt32, wf ''peer'' writeTLInputPeer, wf ''msg_id'' writeInt32,
         wf ''private'' writeTLPaidReactionPrivacy])]"

definition writeTLMethodMessagesGetPaidReactionPrivacy :: tl_writer where
  "writeTLMethodMessagesGetPaidReactionPrivacy = write_fobject
     [(1193563562, [wf ''_'' writeInt32])]"

definition readTLMethodMessagesViewSponsoredMessage :: tl_reader where
  "readTLMethodMessagesViewSponsoredMessage = read_method (647902787) readBool"

definition writeTLMethodMessagesViewSponsoredMessage :: tl_writer where
  "writeTLMethodMessagesViewSponsoredMessage = write_fobject
     [(647902787, [wf ''_'' writeInt32, wf ''random_id'' writeByteArray])]"

definition readTLMethodMessagesClickSponsoredMessage :: tl_reader where
  "readTLMethodMessagesClickSponsoredMessage = read_method (- 2110454402) readBool"

definition writeTLMethodMessagesClickSponsoredMessage :: tl_writer where
  "writeTLMethodMessagesClickSponsoredMessage = write_fobject
     [(- 2110454402, [wf ''_'' writeInt32, wf_flags ''flags'' [(''media'', 0), (''fullscreen'',
         1)], wf ''random_id'' writeByteArray])]"

definition readTLMethodMessagesReportSponsoredMessage :: tl_reader where
  "readTLMethodMessagesReportSponsoredMessage = read_method (315355332) readTLChannelsSponsoredMessageReportResult"

definition writeTLMethodMessagesReportSponsoredMessage :: tl_writer where
  "writeTLMethodMessagesReportSponsoredMessage = write_fobject
     [(315355332, [wf ''_'' writeInt32, wf ''random_id'' writeByteArray,
         wf ''option'' writeByteArray])]"

definition writeTLMethodMessagesGetSponsoredMessages :: tl_writer where
  "writeTLMethodMessagesGetSponsoredMessages = write_fobject
     [(1030547536, [wf ''_'' writeInt32, wf_flags ''flags'' [(''msg_id'', 0)],
         wf ''peer'' writeTLInputPeer, wf_if ''flags'' 0 ''msg_id'' writeInt32])]"

definition readTLMethodMessagesSavePreparedInlineMessage :: tl_reader where
  "readTLMethodMessagesSavePreparedInlineMessage = read_method (- 232816849) readTLMessagesBotPreparedInlineMessage"

definition writeTLMethodMessagesGetPreparedInlineMessage :: tl_writer where
  "writeTLMethodMessagesGetPreparedInlineMessage = write_fobject
     [(- 2055291464, [wf ''_'' writeInt32, wf ''bot'' writeTLInputUser, wf ''id'' writeString])]"

definition writeTLMethodMessagesSearchStickers :: tl_writer where
  "writeTLMethodMessagesSearchStickers = write_fobject
     [(699516522, [wf ''_'' writeInt32, wf_flags ''flags'' [(''emojis'', 0)], wf ''q'' writeString,
         wf ''emoticon'' writeString, wf ''lang_code'' (writeVector (Some writeString)),
         wf ''offset'' writeInt32, wf ''limit'' writeInt32, wf ''hash'' writeInt64])]"

definition readTLMethodMessagesReportMessagesDelivery :: tl_reader where
  "readTLMethodMessagesReportMessagesDelivery = read_method (1517122453) readBool"

definition writeTLMethodMessagesReportMessagesDelivery :: tl_writer where
  "writeTLMethodMessagesReportMessagesDelivery = write_fobject
     [(1517122453, [wf ''_'' writeInt32, wf_flags ''flags'' [(''push'', 0)],
         wf ''peer'' writeTLInputPeer, wf ''id'' (writeVector (Some writeInt32))])]"

definition writeTLMethodMessagesGetSavedDialogsByID :: tl_writer where
  "writeTLMethodMessagesGetSavedDialogsByID = write_fobject
     [(1869585558, [wf ''_'' writeInt32, wf_flags ''flags'' [(''parent_peer'', 1)],
         wf_if ''flags'' 1 ''parent_peer'' writeTLInputPeer,
         wf ''ids'' (writeVector (Some writeTLInputPeer))])]"

definition readTLMethodMessagesReadSavedHistory :: tl_reader where
  "readTLMethodMessagesReadSavedHistory = read_method (- 1169540261) readBool"

definition writeTLMethodMessagesReadSavedHistory :: tl_writer where
  "writeTLMethodMessagesReadSavedHistory = write_fobject
     [(- 1169540261, [wf ''_'' writeInt32, wf ''parent_peer'' writeTLInputPeer,
         wf ''peer'' writeTLInputPeer, wf ''max_id'' writeInt32])]"

definition writeTLMethodMessagesToggleTodoCompleted :: tl_writer where
  "writeTLMethodMessagesToggleTodoCompleted = write_fobject
     [(- 740282076, [wf ''_'' writeInt32, wf ''peer'' writeTLInputPeer, wf ''msg_id'' writeInt32,
         wf ''completed'' (writeVector (Some writeInt32)),
         wf ''incompleted'' (writeVector (Some writeInt32))])]"

definition writeTLMethodMessagesAppendTodoList :: tl_writer where
  "writeTLMethodMessagesAppendTodoList = write_fobject
     [(564531287, [wf ''_'' writeInt32, wf ''peer'' writeTLInputPeer, wf ''msg_id'' writeInt32,
         wf ''list'' (writeVector (Some writeTLTodoItem))])]"

definition writeTLMethodMessagesToggleSuggestedPostApproval :: tl_writer where
  "writeTLMethodMessagesToggleSuggestedPostApproval = write_fobject
     [(- 2130229924, [wf ''_'' writeInt32, wf_flags ''flags'' [(''reject'', 1), (''schedule_date'',
         0), (''reject_comment'', 2)], wf ''peer'' writeTLInputPeer, wf ''msg_id'' writeInt32,
         wf_if ''flags'' 0 ''schedule_date'' writeInt32,
         wf_if ''flags'' 2 ''reject_comment'' writeString])]"

definition writeTLMethodMessagesGetForumTopics :: tl_writer where
  "writeTLMethodMessagesGetForumTopics = write_fobject
     [(1000635391, [wf ''_'' writeInt32, wf_flags ''flags'' [(''q'', 0)],
         wf ''peer'' writeTLInputPeer, wf_if ''flags'' 0 ''q'' writeString,
         wf ''offset_date'' writeInt32, wf ''offset_id'' writeInt32,
         wf ''offset_topic'' writeInt32, wf ''limit'' writeInt32])]"

definition writeTLMethodMessagesGetForumTopicsByID :: tl_writer where
  "writeTLMethodMessagesGetForumTopicsByID = write_fobject
     [(- 1358280184, [wf ''_'' writeInt32, wf ''peer'' writeTLInputPeer,
         wf ''topics'' (writeVector (Some writeInt32))])]"

definition writeTLMethodMessagesEditForumTopic :: tl_writer where
  "writeTLMethodMessagesEditForumTopic = write_fobject
     [(- 825487052, [wf ''_'' writeInt32, wf_flags ''flags'' [(''title'', 0), (''icon_emoji_id'',
         1), (''closed'', 2), (''hidden'', 3)], wf ''peer'' writeTLInputPeer,
         wf ''topic_id'' writeInt32, wf_if ''flags'' 0 ''title'' writeString,
         wf_if ''flags'' 1 ''icon_emoji_id'' writeInt64, wf_if ''flags'' 2 ''closed'' writeBool,
         wf_if ''flags'' 3 ''hidden'' writeBool])]"

definition writeTLMethodMessagesUpdatePinnedForumTopic :: tl_writer where
  "writeTLMethodMessagesUpdatePinnedForumTopic = write_fobject
     [(392032849, [wf ''_'' writeInt32, wf ''peer'' writeTLInputPeer, wf ''topic_id'' writeInt32,
         wf ''pinned'' writeBool])]"

definition writeTLMethodMessagesReorderPinnedForumTopics :: tl_writer where
  "writeTLMethodMessagesReorderPinnedForumTopics = write_fobject
     [(242762224, [wf ''_'' writeInt32, wf_flags ''flags'' [(''force'', 0)],
         wf ''peer'' writeTLInputPeer, wf ''order'' (writeVector (Some writeInt32))])]"

definition writeTLMethodMessagesCreateForumTopic :: tl_writer where
  "writeTLMethodMessagesCreateForumTopic = write_fobject
     [(798540757, [wf ''_'' writeInt32, wf_flags ''flags'' [(''title_missing'', 4),
         (''icon_color'', 0), (''icon_emoji_id'', 3), (''send_as'', 2)],
         wf ''peer'' writeTLInputPeer, wf ''title'' writeString,
         wf_if ''flags'' 0 ''icon_color'' writeInt32,
         wf_if ''flags'' 3 ''icon_emoji_id'' writeInt64, wf ''random_id'' writeInt64,
         wf_if ''flags'' 2 ''send_as'' writeTLInputPeer])]"

definition readTLMethodMessagesDeleteTopicHistory :: tl_reader where
  "readTLMethodMessagesDeleteTopicHistory = read_method (- 763269360) readTLMessagesAffectedHistory"

definition writeTLMethodMessagesDeleteTopicHistory :: tl_writer where
  "writeTLMethodMessagesDeleteTopicHistory = write_fobject
     [(- 763269360, [wf ''_'' writeInt32, wf ''peer'' writeTLInputPeer,
         wf ''top_msg_id'' writeInt32])]"

definition readTLMethodMessagesGetEmojiGameInfo :: tl_reader where
  "readTLMethodMessagesGetEmojiGameInfo = read_method (- 75592537) readTLMessagesEmojiGameInfo"

definition writeTLMethodMessagesGetEmojiGameInfo :: tl_writer where
  "writeTLMethodMessagesGetEmojiGameInfo = write_fobject
     [(- 75592537, [wf ''_'' writeInt32])]"

definition readTLMethodMessagesSummarizeText :: tl_reader where
  "readTLMethodMessagesSummarizeText = read_method (- 1413754042) readTLTextWithEntities"

definition writeTLMethodMessagesSummarizeText :: tl_writer where
  "writeTLMethodMessagesSummarizeText = write_fobject
     [(- 1413754042, [wf ''_'' writeInt32, wf_flags ''flags'' [(''to_lang'', 0), (''tone'', 2)],
         wf ''peer'' writeTLInputPeer, wf ''id'' writeInt32,
         wf_if ''flags'' 0 ''to_lang'' writeString, wf_if ''flags'' 2 ''tone'' writeString])]"

definition writeTLMethodMessagesEditChatCreator :: tl_writer where
  "writeTLMethodMessagesEditChatCreator = write_fobject
     [(- 146556841, [wf ''_'' writeInt32, wf ''peer'' writeTLInputPeer,
         wf ''user_id'' writeTLInputUser, wf ''password'' writeTLInputCheckPasswordSRP])]"

definition readTLMethodMessagesGetFutureChatCreatorAfterLeave :: tl_reader where
  "readTLMethodMessagesGetFutureChatCreatorAfterLeave = read_method (998051494) readTLUser"

definition writeTLMethodMessagesGetFutureChatCreatorAfterLeave :: tl_writer where
  "writeTLMethodMessagesGetFutureChatCreatorAfterLeave = write_fobject
     [(998051494, [wf ''_'' writeInt32, wf ''peer'' writeTLInputPeer])]"

definition writeTLMethodMessagesEditChatParticipantRank :: tl_writer where
  "writeTLMethodMessagesEditChatParticipantRank = write_fobject
     [(- 1609616720, [wf ''_'' writeInt32, wf ''peer'' writeTLInputPeer,
         wf ''participant'' writeTLInputPeer, wf ''rank'' writeString])]"

definition readTLMethodMessagesDeclineUrlAuth :: tl_reader where
  "readTLMethodMessagesDeclineUrlAuth = read_method (893610940) readBool"

definition writeTLMethodMessagesDeclineUrlAuth :: tl_writer where
  "writeTLMethodMessagesDeclineUrlAuth = write_fobject
     [(893610940, [wf ''_'' writeInt32, wf ''url'' writeString])]"

definition readTLMethodMessagesCheckUrlAuthMatchCode :: tl_reader where
  "readTLMethodMessagesCheckUrlAuthMatchCode = read_method (- 911967477) readBool"

definition writeTLMethodMessagesCheckUrlAuthMatchCode :: tl_writer where
  "writeTLMethodMessagesCheckUrlAuthMatchCode = write_fobject
     [(- 911967477, [wf ''_'' writeInt32, wf ''url'' writeString, wf ''match_code'' writeString])]"

definition readTLMethodMessagesComposeMessageWithAI :: tl_reader where
  "readTLMethodMessagesComposeMessageWithAI = read_method (- 622017143) readTLMessagesComposedMessageWithAI"

definition writeTLMethodMessagesComposeMessageWithAI :: tl_writer where
  "writeTLMethodMessagesComposeMessageWithAI = write_fobject
     [(- 622017143, [wf ''_'' writeInt32, wf_flags ''flags'' [(''proofread'', 0), (''emojify'', 3),
         (''translate_to_lang'', 1), (''tone'', 2)], wf ''text'' writeTLTextWithEntities,
         wf_if ''flags'' 1 ''translate_to_lang'' writeString,
         wf_if ''flags'' 2 ''tone'' writeTLInputAiComposeTone])]"

definition readTLMethodMessagesReportReadMetrics :: tl_reader where
  "readTLMethodMessagesReportReadMetrics = read_method (1080542694) readBool"

definition writeTLMethodMessagesReportReadMetrics :: tl_writer where
  "writeTLMethodMessagesReportReadMetrics = write_fobject
     [(1080542694, [wf ''_'' writeInt32, wf ''peer'' writeTLInputPeer,
         wf ''metrics'' (writeVector (Some writeTLInputMessageReadMetric))])]"

definition readTLMethodMessagesReportMusicListen :: tl_reader where
  "readTLMethodMessagesReportMusicListen = read_method (- 574826471) readBool"

definition writeTLMethodMessagesReportMusicListen :: tl_writer where
  "writeTLMethodMessagesReportMusicListen = write_fobject
     [(- 574826471, [wf ''_'' writeInt32, wf ''id'' writeTLInputDocument,
         wf ''listened_duration'' writeInt32])]"

definition writeTLMethodMessagesDeletePollAnswer :: tl_writer where
  "writeTLMethodMessagesDeletePollAnswer = write_fobject
     [(- 1400568411, [wf ''_'' writeInt32, wf ''peer'' writeTLInputPeer, wf ''msg_id'' writeInt32,
         wf ''option'' writeByteArray])]"

definition writeTLMethodMessagesGetUnreadPollVotes :: tl_writer where
  "writeTLMethodMessagesGetUnreadPollVotes = write_fobject
     [(1126722802, [wf ''_'' writeInt32, wf_flags ''flags'' [(''top_msg_id'', 0)],
         wf ''peer'' writeTLInputPeer, wf_if ''flags'' 0 ''top_msg_id'' writeInt32,
         wf ''offset_id'' writeInt32, wf ''add_offset'' writeInt32, wf ''limit'' writeInt32,
         wf ''max_id'' writeInt32, wf ''min_id'' writeInt32])]"

definition readTLMethodMessagesReadPollVotes :: tl_reader where
  "readTLMethodMessagesReadPollVotes = read_method (388019416) readTLMessagesAffectedHistory"

definition writeTLMethodMessagesReadPollVotes :: tl_writer where
  "writeTLMethodMessagesReadPollVotes = write_fobject
     [(388019416, [wf ''_'' writeInt32, wf_flags ''flags'' [(''top_msg_id'', 0)],
         wf ''peer'' writeTLInputPeer, wf_if ''flags'' 0 ''top_msg_id'' writeInt32])]"

definition readTLMethodMessagesSetBotGuestChatResult :: tl_reader where
  "readTLMethodMessagesSetBotGuestChatResult = read_method (- 1192163613) readTLInputBotInlineMessageID"

definition readTLMethodMessagesDeleteParticipantReactions :: tl_reader where
  "readTLMethodMessagesDeleteParticipantReactions = read_method (- 1598550792) readBool"

definition writeTLMethodMessagesDeleteParticipantReactions :: tl_writer where
  "writeTLMethodMessagesDeleteParticipantReactions = write_fobject
     [(- 1598550792, [wf ''_'' writeInt32, wf ''peer'' writeTLInputPeer,
         wf ''participant'' writeTLInputPeer])]"

definition writeTLMethodMessagesDeleteParticipantReaction :: tl_writer where
  "writeTLMethodMessagesDeleteParticipantReaction = write_fobject
     [(- 474482644, [wf ''_'' writeInt32, wf ''peer'' writeTLInputPeer, wf ''msg_id'' writeInt32,
         wf ''participant'' writeTLInputPeer])]"

definition writeTLMethodMessagesGetPersonalChannelHistory :: tl_writer where
  "writeTLMethodMessagesGetPersonalChannelHistory = write_fobject
     [(1442515350, [wf ''_'' writeInt32, wf ''user_id'' writeTLInputUser, wf ''limit'' writeInt32,
         wf ''max_id'' writeInt32, wf ''min_id'' writeInt32, wf ''hash'' writeInt64])]"

definition writeTLMethodMessagesGetRichMessage :: tl_writer where
  "writeTLMethodMessagesGetRichMessage = write_fobject
     [(1343580623, [wf ''_'' writeInt32, wf ''peer'' writeTLInputPeer, wf ''id'' writeInt32])]"

definition readTLMethodMessagesRequestChatJoinWebView :: tl_reader where
  "readTLMethodMessagesRequestChatJoinWebView = read_method (- 1163991431) readTLWebViewResult"

definition writeTLMethodMessagesRequestChatJoinWebView :: tl_writer where
  "writeTLMethodMessagesRequestChatJoinWebView = write_fobject
     [(- 1163991431, [wf ''_'' writeInt32, wf_flags ''flags'' [(''theme_params'', 0)],
         wf ''query_id'' writeInt64, wf_if ''flags'' 0 ''theme_params'' writeTLDataJSON,
         wf ''platform'' writeString])]"

definition readTLMethodUpdatesGetState :: tl_reader where
  "readTLMethodUpdatesGetState = read_method (- 304838614) readTLUpdatesState"

definition writeTLMethodPhotosUpdateProfilePhoto :: tl_writer where
  "writeTLMethodPhotosUpdateProfilePhoto = write_fobject
     [(166207545, [wf ''_'' writeInt32, wf_flags ''flags'' [(''fallback'', 0), (''bot'', 1)],
         wf_if ''flags'' 1 ''bot'' writeTLInputUser, wf ''id'' writeTLInputPhoto])]"

definition readTLMethodPhotosDeletePhotos :: tl_reader where
  "readTLMethodPhotosDeletePhotos = read_method (- 2016444625) (readVector (Some readInt64))"

definition writeTLMethodPhotosDeletePhotos :: tl_writer where
  "writeTLMethodPhotosDeletePhotos = write_fobject
     [(- 2016444625, [wf ''_'' writeInt32, wf ''id'' (writeVector (Some writeTLInputPhoto))])]"

definition writeTLMethodPhotosGetUserPhotos :: tl_writer where
  "writeTLMethodPhotosGetUserPhotos = write_fobject
     [(- 1848823128, [wf ''_'' writeInt32, wf ''user_id'' writeTLInputUser,
         wf ''offset'' writeInt32, wf ''max_id'' writeInt64, wf ''limit'' writeInt32])]"

definition readTLMethodUploadSaveFilePart :: tl_reader where
  "readTLMethodUploadSaveFilePart = read_method (- 1291540959) readBool"

definition readTLMethodUploadGetFile :: tl_reader where
  "readTLMethodUploadGetFile = read_method (- 1101843010) readTLUploadFile"

definition readTLMethodUploadSaveBigFilePart :: tl_reader where
  "readTLMethodUploadSaveBigFilePart = read_method (- 562337987) readBool"

definition readTLMethodUploadGetWebFile :: tl_reader where
  "readTLMethodUploadGetWebFile = read_method (619086221) readTLUploadWebFile"

definition readTLMethodUploadGetCdnFile :: tl_reader where
  "readTLMethodUploadGetCdnFile = read_method (962554330) readTLUploadCdnFile"

definition writeTLMethodUploadGetCdnFile :: tl_writer where
  "writeTLMethodUploadGetCdnFile = write_fobject
     [(962554330, [wf ''_'' writeInt32, wf ''file_token'' writeByteArray, wf ''offset'' writeInt64,
         wf ''limit'' writeInt32])]"

definition readTLMethodUploadReuploadCdnFile :: tl_reader where
  "readTLMethodUploadReuploadCdnFile = read_method (- 1691921240) (readVector (Some readTLFileHash))"

definition writeTLMethodUploadReuploadCdnFile :: tl_writer where
  "writeTLMethodUploadReuploadCdnFile = write_fobject
     [(- 1691921240, [wf ''_'' writeInt32, wf ''file_token'' writeByteArray,
         wf ''request_token'' writeByteArray])]"

definition readTLMethodUploadGetCdnFileHashes :: tl_reader where
  "readTLMethodUploadGetCdnFileHashes = read_method (- 1847836879) (readVector (Some readTLFileHash))"

definition writeTLMethodUploadGetCdnFileHashes :: tl_writer where
  "writeTLMethodUploadGetCdnFileHashes = write_fobject
     [(- 1847836879, [wf ''_'' writeInt32, wf ''file_token'' writeByteArray,
         wf ''offset'' writeInt64])]"

definition readTLMethodUploadGetFileHashes :: tl_reader where
  "readTLMethodUploadGetFileHashes = read_method (- 1856595926) (readVector (Some readTLFileHash))"

definition writeTLMethodUploadGetFileHashes :: tl_writer where
  "writeTLMethodUploadGetFileHashes = write_fobject
     [(- 1856595926, [wf ''_'' writeInt32, wf ''location'' writeTLInputFileLocation,
         wf ''offset'' writeInt64])]"

definition readTLMethodHelpGetConfig :: tl_reader where
  "readTLMethodHelpGetConfig = read_method (- 990308245) readTLConfig"

definition readTLMethodHelpGetNearestDc :: tl_reader where
  "readTLMethodHelpGetNearestDc = read_method (531836966) readTLNearestDc"

definition writeTLMethodHelpGetNearestDc :: tl_writer where
  "writeTLMethodHelpGetNearestDc = write_fobject
     [(531836966, [wf ''_'' writeInt32])]"

definition writeTLMethodHelpGetAppUpdate :: tl_writer where
  "writeTLMethodHelpGetAppUpdate = write_fobject
     [(1378703997, [wf ''_'' writeInt32, wf ''source'' writeString])]"

definition readTLMethodHelpGetInviteText :: tl_reader where
  "readTLMethodHelpGetInviteText = read_method (1295590211) readTLHelpInviteText"

definition writeTLMethodHelpGetInviteText :: tl_writer where
  "writeTLMethodHelpGetInviteText = write_fobject
     [(1295590211, [wf ''_'' writeInt32])]"

definition readTLMethodHelpGetSupport :: tl_reader where
  "readTLMethodHelpGetSupport = read_method (- 1663104819) readTLHelpSupport"

definition writeTLMethodHelpGetSupport :: tl_writer where
  "writeTLMethodHelpGetSupport = write_fobject
     [(- 1663104819, [wf ''_'' writeInt32])]"

definition readTLMethodHelpSetBotUpdatesStatus :: tl_reader where
  "readTLMethodHelpSetBotUpdatesStatus = read_method (- 333262899) readBool"

definition writeTLMethodHelpSetBotUpdatesStatus :: tl_writer where
  "writeTLMethodHelpSetBotUpdatesStatus = write_fobject
     [(- 333262899, [wf ''_'' writeInt32, wf ''pending_updates_count'' writeInt32,
         wf ''message'' writeString])]"

definition readTLMethodHelpGetCdnConfig :: tl_reader where
  "readTLMethodHelpGetCdnConfig = read_method (1375900482) readTLCdnConfig"

definition writeTLMethodHelpGetCdnConfig :: tl_writer where
  "writeTLMethodHelpGetCdnConfig = write_fobject
     [(1375900482, [wf ''_'' writeInt32])]"

definition writeTLMethodHelpGetRecentMeUrls :: tl_writer where
  "writeTLMethodHelpGetRecentMeUrls = write_fobject
     [(1036054804, [wf ''_'' writeInt32, wf ''referer'' writeString])]"

definition readTLMethodHelpGetTermsOfServiceUpdate :: tl_reader where
  "readTLMethodHelpGetTermsOfServiceUpdate = read_method (749019089) readTLHelpTermsOfServiceUpdate"

definition writeTLMethodHelpGetTermsOfServiceUpdate :: tl_writer where
  "writeTLMethodHelpGetTermsOfServiceUpdate = write_fobject
     [(749019089, [wf ''_'' writeInt32])]"

definition readTLMethodHelpAcceptTermsOfService :: tl_reader where
  "readTLMethodHelpAcceptTermsOfService = read_method (- 294455398) readBool"

definition writeTLMethodHelpAcceptTermsOfService :: tl_writer where
  "writeTLMethodHelpAcceptTermsOfService = write_fobject
     [(- 294455398, [wf ''_'' writeInt32, wf ''id'' writeTLDataJSON])]"

definition readTLMethodHelpGetDeepLinkInfo :: tl_reader where
  "readTLMethodHelpGetDeepLinkInfo = read_method (1072547679) readTLHelpDeepLinkInfo"

definition writeTLMethodHelpGetDeepLinkInfo :: tl_writer where
  "writeTLMethodHelpGetDeepLinkInfo = write_fobject
     [(1072547679, [wf ''_'' writeInt32, wf ''path'' writeString])]"

definition writeTLMethodHelpGetAppConfig :: tl_writer where
  "writeTLMethodHelpGetAppConfig = write_fobject
     [(1642330196, [wf ''_'' writeInt32, wf ''hash'' writeInt32])]"

definition readTLMethodHelpSaveAppLog :: tl_reader where
  "readTLMethodHelpSaveAppLog = read_method (1862465352) readBool"

definition readTLMethodHelpGetPassportConfig :: tl_reader where
  "readTLMethodHelpGetPassportConfig = read_method (- 966677240) readTLHelpPassportConfig"

definition writeTLMethodHelpGetPassportConfig :: tl_writer where
  "writeTLMethodHelpGetPassportConfig = write_fobject
     [(- 966677240, [wf ''_'' writeInt32, wf ''hash'' writeInt32])]"

definition readTLMethodHelpGetSupportName :: tl_reader where
  "readTLMethodHelpGetSupportName = read_method (- 748624084) readTLHelpSupportName"

definition writeTLMethodHelpGetSupportName :: tl_writer where
  "writeTLMethodHelpGetSupportName = write_fobject
     [(- 748624084, [wf ''_'' writeInt32])]"

definition readTLMethodHelpGetUserInfo :: tl_reader where
  "readTLMethodHelpGetUserInfo = read_method (59377875) readTLHelpUserInfo"

definition writeTLMethodHelpGetUserInfo :: tl_writer where
  "writeTLMethodHelpGetUserInfo = write_fobject
     [(59377875, [wf ''_'' writeInt32, wf ''user_id'' writeTLInputUser])]"

definition readTLMethodHelpEditUserInfo :: tl_reader where
  "readTLMethodHelpEditUserInfo = read_method (1723407216) readTLHelpUserInfo"

definition writeTLMethodHelpEditUserInfo :: tl_writer where
  "writeTLMethodHelpEditUserInfo = write_fobject
     [(1723407216, [wf ''_'' writeInt32, wf ''user_id'' writeTLInputUser,
         wf ''message'' writeString, wf ''entities'' (writeVector (Some writeTLMessageEntity))])]"

definition readTLMethodHelpGetPromoData :: tl_reader where
  "readTLMethodHelpGetPromoData = read_method (- 1063816159) readTLHelpPromoData"

definition writeTLMethodHelpGetPromoData :: tl_writer where
  "writeTLMethodHelpGetPromoData = write_fobject
     [(- 1063816159, [wf ''_'' writeInt32])]"

definition readTLMethodHelpHidePromoData :: tl_reader where
  "readTLMethodHelpHidePromoData = read_method (505748629) readBool"

definition writeTLMethodHelpHidePromoData :: tl_writer where
  "writeTLMethodHelpHidePromoData = write_fobject
     [(505748629, [wf ''_'' writeInt32, wf ''peer'' writeTLInputPeer])]"

definition readTLMethodHelpDismissSuggestion :: tl_reader where
  "readTLMethodHelpDismissSuggestion = read_method (- 183649631) readBool"

definition writeTLMethodHelpDismissSuggestion :: tl_writer where
  "writeTLMethodHelpDismissSuggestion = write_fobject
     [(- 183649631, [wf ''_'' writeInt32, wf ''peer'' writeTLInputPeer,
         wf ''suggestion'' writeString])]"

definition readTLMethodHelpGetCountriesList :: tl_reader where
  "readTLMethodHelpGetCountriesList = read_method (1935116200) readTLHelpCountriesList"

definition writeTLMethodHelpGetPremiumPromo :: tl_writer where
  "writeTLMethodHelpGetPremiumPromo = write_fobject
     [(- 1206152236, [wf ''_'' writeInt32])]"

definition readTLMethodHelpGetPeerColors :: tl_reader where
  "readTLMethodHelpGetPeerColors = read_method (- 629083089) readTLHelpPeerColors"

definition writeTLMethodHelpGetPeerColors :: tl_writer where
  "writeTLMethodHelpGetPeerColors = write_fobject
     [(- 629083089, [wf ''_'' writeInt32, wf ''hash'' writeInt32])]"

definition readTLMethodHelpGetPeerProfileColors :: tl_reader where
  "readTLMethodHelpGetPeerProfileColors = read_method (- 1412453891) readTLHelpPeerColors"

definition writeTLMethodHelpGetPeerProfileColors :: tl_writer where
  "writeTLMethodHelpGetPeerProfileColors = write_fobject
     [(- 1412453891, [wf ''_'' writeInt32, wf ''hash'' writeInt32])]"

definition readTLMethodHelpGetTimezonesList :: tl_reader where
  "readTLMethodHelpGetTimezonesList = read_method (1236468288) readTLHelpTimezonesList"

definition writeTLMethodHelpGetTimezonesList :: tl_writer where
  "writeTLMethodHelpGetTimezonesList = write_fobject
     [(1236468288, [wf ''_'' writeInt32, wf ''hash'' writeInt32])]"

definition readTLMethodChannelsReadHistory :: tl_reader where
  "readTLMethodChannelsReadHistory = read_method (- 871347913) readBool"

definition readTLMethodChannelsDeleteMessages :: tl_reader where
  "readTLMethodChannelsDeleteMessages = read_method (- 2067661490) readTLMessagesAffectedMessages"

definition readTLMethodChannelsReportSpam :: tl_reader where
  "readTLMethodChannelsReportSpam = read_method (- 196443371) readBool"

definition writeTLMethodChannelsReportSpam :: tl_writer where
  "writeTLMethodChannelsReportSpam = write_fobject
     [(- 196443371, [wf ''_'' writeInt32, wf ''channel'' writeTLInputChannel,
         wf ''participant'' writeTLInputPeer, wf ''id'' (writeVector (Some writeInt32))])]"

definition writeTLMethodChannelsGetMessages :: tl_writer where
  "writeTLMethodChannelsGetMessages = write_fobject
     [(- 1383294429, [wf ''_'' writeInt32, wf ''channel'' writeTLInputChannel,
         wf ''id'' (writeVector (Some writeTLInputMessage))])]"

definition readTLMethodChannelsGetParticipants :: tl_reader where
  "readTLMethodChannelsGetParticipants = read_method (2010044880) readTLChannelsChannelParticipants"

definition writeTLMethodChannelsGetParticipants :: tl_writer where
  "writeTLMethodChannelsGetParticipants = write_fobject
     [(2010044880, [wf ''_'' writeInt32, wf ''channel'' writeTLInputChannel,
         wf ''filter'' writeTLChannelParticipantsFilter, wf ''offset'' writeInt32,
         wf ''limit'' writeInt32, wf ''hash'' writeInt64])]"

definition readTLMethodChannelsGetParticipant :: tl_reader where
  "readTLMethodChannelsGetParticipant = read_method (- 1599378234) readTLChannelsChannelParticipant"

definition writeTLMethodChannelsGetParticipant :: tl_writer where
  "writeTLMethodChannelsGetParticipant = write_fobject
     [(- 1599378234, [wf ''_'' writeInt32, wf ''channel'' writeTLInputChannel,
         wf ''participant'' writeTLInputPeer])]"

definition readTLMethodChannelsGetChannels :: tl_reader where
  "readTLMethodChannelsGetChannels = read_method (176122811) readTLMessagesChats"

definition writeTLMethodChannelsGetChannels :: tl_writer where
  "writeTLMethodChannelsGetChannels = write_fobject
     [(176122811, [wf ''_'' writeInt32, wf ''id'' (writeVector (Some writeTLInputChannel))])]"

definition writeTLMethodChannelsGetFullChannel :: tl_writer where
  "writeTLMethodChannelsGetFullChannel = write_fobject
     [(141781513, [wf ''_'' writeInt32, wf ''channel'' writeTLInputChannel])]"

definition writeTLMethodChannelsEditAdmin :: tl_writer where
  "writeTLMethodChannelsEditAdmin = write_fobject
     [(- 1701270168, [wf ''_'' writeInt32, wf_flags ''flags'' [(''rank'', 0)],
         wf ''channel'' writeTLInputChannel, wf ''user_id'' writeTLInputUser,
         wf ''admin_rights'' writeTLChatAdminRights, wf_if ''flags'' 0 ''rank'' writeString])]"

definition writeTLMethodChannelsEditTitle :: tl_writer where
  "writeTLMethodChannelsEditTitle = write_fobject
     [(1450044624, [wf ''_'' writeInt32, wf ''channel'' writeTLInputChannel,
         wf ''title'' writeString])]"

definition readTLMethodChannelsCheckUsername :: tl_reader where
  "readTLMethodChannelsCheckUsername = read_method (283557164) readBool"

definition writeTLMethodChannelsCheckUsername :: tl_writer where
  "writeTLMethodChannelsCheckUsername = write_fobject
     [(283557164, [wf ''_'' writeInt32, wf ''channel'' writeTLInputChannel,
         wf ''username'' writeString])]"

definition readTLMethodChannelsUpdateUsername :: tl_reader where
  "readTLMethodChannelsUpdateUsername = read_method (890549214) readBool"

definition writeTLMethodChannelsUpdateUsername :: tl_writer where
  "writeTLMethodChannelsUpdateUsername = write_fobject
     [(890549214, [wf ''_'' writeInt32, wf ''channel'' writeTLInputChannel,
         wf ''username'' writeString])]"

definition writeTLMethodChannelsJoinChannel :: tl_writer where
  "writeTLMethodChannelsJoinChannel = write_fobject
     [(2137660962, [wf ''_'' writeInt32, wf ''channel'' writeTLInputChannel])]"

definition writeTLMethodChannelsLeaveChannel :: tl_writer where
  "writeTLMethodChannelsLeaveChannel = write_fobject
     [(- 130635115, [wf ''_'' writeInt32, wf ''channel'' writeTLInputChannel])]"

definition writeTLMethodChannelsInviteToChannel :: tl_writer where
  "writeTLMethodChannelsInviteToChannel = write_fobject
     [(- 907854508, [wf ''_'' writeInt32, wf ''channel'' writeTLInputChannel,
         wf ''users'' (writeVector (Some writeTLInputUser))])]"

definition writeTLMethodChannelsDeleteChannel :: tl_writer where
  "writeTLMethodChannelsDeleteChannel = write_fobject
     [(- 1072619549, [wf ''_'' writeInt32, wf ''channel'' writeTLInputChannel])]"

definition readTLMethodChannelsExportMessageLink :: tl_reader where
  "readTLMethodChannelsExportMessageLink = read_method (- 432034325) readTLExportedMessageLink"

definition writeTLMethodChannelsExportMessageLink :: tl_writer where
  "writeTLMethodChannelsExportMessageLink = write_fobject
     [(- 432034325, [wf ''_'' writeInt32, wf_flags ''flags'' [(''grouped'', 0), (''thread'', 1)],
         wf ''channel'' writeTLInputChannel, wf ''id'' writeInt32])]"

definition writeTLMethodChannelsToggleSignatures :: tl_writer where
  "writeTLMethodChannelsToggleSignatures = write_fobject
     [(1099781276, [wf ''_'' writeInt32, wf_flags ''flags'' [(''signatures_enabled'', 0),
         (''profiles_enabled'', 1)], wf ''channel'' writeTLInputChannel])]"

definition readTLMethodChannelsGetAdminedPublicChannels :: tl_reader where
  "readTLMethodChannelsGetAdminedPublicChannels = read_method (- 122669393) readTLMessagesChats"

definition writeTLMethodChannelsGetAdminedPublicChannels :: tl_writer where
  "writeTLMethodChannelsGetAdminedPublicChannels = write_fobject
     [(- 122669393, [wf ''_'' writeInt32, wf_flags ''flags'' [(''by_location'', 0),
         (''check_limit'', 1), (''for_personal'', 2), (''for_community_peer'', 3)]])]"

definition writeTLMethodChannelsEditBanned :: tl_writer where
  "writeTLMethodChannelsEditBanned = write_fobject
     [(- 1763259007, [wf ''_'' writeInt32, wf ''channel'' writeTLInputChannel,
         wf ''participant'' writeTLInputPeer, wf ''banned_rights'' writeTLChatBannedRights])]"

definition writeTLMethodChannelsGetAdminLog :: tl_writer where
  "writeTLMethodChannelsGetAdminLog = write_fobject
     [(870184064, [wf ''_'' writeInt32, wf_flags ''flags'' [(''events_filter'', 0), (''admins'',
         1)], wf ''channel'' writeTLInputChannel, wf ''q'' writeString,
         wf_if ''flags'' 0 ''events_filter'' writeTLChannelAdminLogEventsFilter,
         wf_if ''flags'' 1 ''admins'' (writeVector (Some writeTLInputUser)),
         wf ''max_id'' writeInt64, wf ''min_id'' writeInt64, wf ''limit'' writeInt32])]"

definition readTLMethodChannelsSetStickers :: tl_reader where
  "readTLMethodChannelsSetStickers = read_method (- 359881479) readBool"

definition writeTLMethodChannelsSetStickers :: tl_writer where
  "writeTLMethodChannelsSetStickers = write_fobject
     [(- 359881479, [wf ''_'' writeInt32, wf ''channel'' writeTLInputChannel,
         wf ''stickerset'' writeTLInputStickerSet])]"

definition readTLMethodChannelsReadMessageContents :: tl_reader where
  "readTLMethodChannelsReadMessageContents = read_method (- 357180360) readBool"

definition writeTLMethodChannelsReadMessageContents :: tl_writer where
  "writeTLMethodChannelsReadMessageContents = write_fobject
     [(- 357180360, [wf ''_'' writeInt32, wf ''channel'' writeTLInputChannel,
         wf ''id'' (writeVector (Some writeInt32))])]"

definition writeTLMethodChannelsDeleteHistory :: tl_writer where
  "writeTLMethodChannelsDeleteHistory = write_fobject
     [(- 1683319225, [wf ''_'' writeInt32, wf_flags ''flags'' [(''for_everyone'', 0)],
         wf ''channel'' writeTLInputChannel, wf ''max_id'' writeInt32])]"

definition writeTLMethodChannelsTogglePreHistoryHidden :: tl_writer where
  "writeTLMethodChannelsTogglePreHistoryHidden = write_fobject
     [(- 356796084, [wf ''_'' writeInt32, wf ''channel'' writeTLInputChannel,
         wf ''enabled'' writeBool])]"

definition readTLMethodChannelsGetLeftChannels :: tl_reader where
  "readTLMethodChannelsGetLeftChannels = read_method (- 2092831552) readTLMessagesChats"

definition writeTLMethodChannelsGetLeftChannels :: tl_writer where
  "writeTLMethodChannelsGetLeftChannels = write_fobject
     [(- 2092831552, [wf ''_'' writeInt32, wf ''offset'' writeInt32])]"

definition readTLMethodChannelsGetGroupsForDiscussion :: tl_reader where
  "readTLMethodChannelsGetGroupsForDiscussion = read_method (- 170208392) readTLMessagesChats"

definition writeTLMethodChannelsGetGroupsForDiscussion :: tl_writer where
  "writeTLMethodChannelsGetGroupsForDiscussion = write_fobject
     [(- 170208392, [wf ''_'' writeInt32])]"

definition readTLMethodChannelsSetDiscussionGroup :: tl_reader where
  "readTLMethodChannelsSetDiscussionGroup = read_method (1079520178) readBool"

definition writeTLMethodChannelsSetDiscussionGroup :: tl_writer where
  "writeTLMethodChannelsSetDiscussionGroup = write_fobject
     [(1079520178, [wf ''_'' writeInt32, wf ''broadcast'' writeTLInputChannel,
         wf ''group'' writeTLInputChannel])]"

definition readTLMethodChannelsEditLocation :: tl_reader where
  "readTLMethodChannelsEditLocation = read_method (1491484525) readBool"

definition writeTLMethodChannelsToggleSlowMode :: tl_writer where
  "writeTLMethodChannelsToggleSlowMode = write_fobject
     [(- 304832784, [wf ''_'' writeInt32, wf ''channel'' writeTLInputChannel,
         wf ''seconds'' writeInt32])]"

definition readTLMethodChannelsGetInactiveChannels :: tl_reader where
  "readTLMethodChannelsGetInactiveChannels = read_method (300429806) readTLMessagesInactiveChats"

definition writeTLMethodChannelsGetInactiveChannels :: tl_writer where
  "writeTLMethodChannelsGetInactiveChannels = write_fobject
     [(300429806, [wf ''_'' writeInt32])]"

definition writeTLMethodChannelsConvertToGigagroup :: tl_writer where
  "writeTLMethodChannelsConvertToGigagroup = write_fobject
     [(187239529, [wf ''_'' writeInt32, wf ''channel'' writeTLInputChannel])]"

definition readTLMethodChannelsGetSendAs :: tl_reader where
  "readTLMethodChannelsGetSendAs = read_method (- 410672065) readTLChannelsSendAsPeers"

definition writeTLMethodChannelsGetSendAs :: tl_writer where
  "writeTLMethodChannelsGetSendAs = write_fobject
     [(- 410672065, [wf ''_'' writeInt32, wf_flags ''flags'' [(''for_paid_reactions'', 0),
         (''for_live_stories'', 1)], wf ''peer'' writeTLInputPeer])]"

definition readTLMethodChannelsDeleteParticipantHistory :: tl_reader where
  "readTLMethodChannelsDeleteParticipantHistory = read_method (913655003) readTLMessagesAffectedHistory"

definition writeTLMethodChannelsDeleteParticipantHistory :: tl_writer where
  "writeTLMethodChannelsDeleteParticipantHistory = write_fobject
     [(913655003, [wf ''_'' writeInt32, wf ''channel'' writeTLInputChannel,
         wf ''participant'' writeTLInputPeer])]"

definition writeTLMethodChannelsToggleJoinToSend :: tl_writer where
  "writeTLMethodChannelsToggleJoinToSend = write_fobject
     [(- 456419968, [wf ''_'' writeInt32, wf ''channel'' writeTLInputChannel,
         wf ''enabled'' writeBool])]"

definition writeTLMethodChannelsToggleJoinRequest :: tl_writer where
  "writeTLMethodChannelsToggleJoinRequest = write_fobject
     [(248260120, [wf ''_'' writeInt32, wf_flags ''flags'' [(''apply_to_invites'', 1),
         (''guard_bot'', 0)], wf ''channel'' writeTLInputChannel, wf ''enabled'' writeBool,
         wf_if ''flags'' 0 ''guard_bot'' writeTLInputUser])]"

definition readTLMethodChannelsReorderUsernames :: tl_reader where
  "readTLMethodChannelsReorderUsernames = read_method (- 1268978403) readBool"

definition writeTLMethodChannelsReorderUsernames :: tl_writer where
  "writeTLMethodChannelsReorderUsernames = write_fobject
     [(- 1268978403, [wf ''_'' writeInt32, wf ''channel'' writeTLInputChannel,
         wf ''order'' (writeVector (Some writeString))])]"

definition readTLMethodChannelsToggleUsername :: tl_reader where
  "readTLMethodChannelsToggleUsername = read_method (1358053637) readBool"

definition writeTLMethodChannelsToggleUsername :: tl_writer where
  "writeTLMethodChannelsToggleUsername = write_fobject
     [(1358053637, [wf ''_'' writeInt32, wf ''channel'' writeTLInputChannel,
         wf ''username'' writeString, wf ''active'' writeBool])]"

definition readTLMethodChannelsDeactivateAllUsernames :: tl_reader where
  "readTLMethodChannelsDeactivateAllUsernames = read_method (170155475) readBool"

definition writeTLMethodChannelsDeactivateAllUsernames :: tl_writer where
  "writeTLMethodChannelsDeactivateAllUsernames = write_fobject
     [(170155475, [wf ''_'' writeInt32, wf ''channel'' writeTLInputChannel])]"

definition writeTLMethodChannelsToggleForum :: tl_writer where
  "writeTLMethodChannelsToggleForum = write_fobject
     [(1073174324, [wf ''_'' writeInt32, wf ''channel'' writeTLInputChannel,
         wf ''enabled'' writeBool, wf ''tabs'' writeBool])]"

definition writeTLMethodChannelsToggleAntiSpam :: tl_writer where
  "writeTLMethodChannelsToggleAntiSpam = write_fobject
     [(1760814315, [wf ''_'' writeInt32, wf ''channel'' writeTLInputChannel,
         wf ''enabled'' writeBool])]"

definition readTLMethodChannelsReportAntiSpamFalsePositive :: tl_reader where
  "readTLMethodChannelsReportAntiSpamFalsePositive = read_method (- 1471109485) readBool"

definition writeTLMethodChannelsReportAntiSpamFalsePositive :: tl_writer where
  "writeTLMethodChannelsReportAntiSpamFalsePositive = write_fobject
     [(- 1471109485, [wf ''_'' writeInt32, wf ''channel'' writeTLInputChannel,
         wf ''msg_id'' writeInt32])]"

definition writeTLMethodChannelsToggleParticipantsHidden :: tl_writer where
  "writeTLMethodChannelsToggleParticipantsHidden = write_fobject
     [(1785624660, [wf ''_'' writeInt32, wf ''channel'' writeTLInputChannel,
         wf ''enabled'' writeBool])]"

definition writeTLMethodChannelsUpdateColor :: tl_writer where
  "writeTLMethodChannelsUpdateColor = write_fobject
     [(- 659933583, [wf ''_'' writeInt32, wf_flags ''flags'' [(''for_profile'', 1), (''color'', 2),
         (''background_emoji_id'', 0)], wf ''channel'' writeTLInputChannel,
         wf_if ''flags'' 2 ''color'' writeInt32,
         wf_if ''flags'' 0 ''background_emoji_id'' writeInt64])]"

definition writeTLMethodChannelsToggleViewForumAsMessages :: tl_writer where
  "writeTLMethodChannelsToggleViewForumAsMessages = write_fobject
     [(- 1757889771, [wf ''_'' writeInt32, wf ''channel'' writeTLInputChannel,
         wf ''enabled'' writeBool])]"

definition readTLMethodChannelsGetChannelRecommendations :: tl_reader where
  "readTLMethodChannelsGetChannelRecommendations = read_method (631707458) readTLMessagesChats"

definition writeTLMethodChannelsGetChannelRecommendations :: tl_writer where
  "writeTLMethodChannelsGetChannelRecommendations = write_fobject
     [(631707458, [wf ''_'' writeInt32, wf_flags ''flags'' [(''channel'', 0)],
         wf_if ''flags'' 0 ''channel'' writeTLInputChannel])]"

definition writeTLMethodChannelsUpdateEmojiStatus :: tl_writer where
  "writeTLMethodChannelsUpdateEmojiStatus = write_fobject
     [(- 254548312, [wf ''_'' writeInt32, wf ''channel'' writeTLInputChannel,
         wf ''emoji_status'' writeTLEmojiStatus])]"

definition writeTLMethodChannelsSetBoostsToUnblockRestrictions :: tl_writer where
  "writeTLMethodChannelsSetBoostsToUnblockRestrictions = write_fobject
     [(- 1388733202, [wf ''_'' writeInt32, wf ''channel'' writeTLInputChannel,
         wf ''boosts'' writeInt32])]"

definition readTLMethodChannelsSetEmojiStickers :: tl_reader where
  "readTLMethodChannelsSetEmojiStickers = read_method (1020866743) readBool"

definition writeTLMethodChannelsSetEmojiStickers :: tl_writer where
  "writeTLMethodChannelsSetEmojiStickers = write_fobject
     [(1020866743, [wf ''_'' writeInt32, wf ''channel'' writeTLInputChannel,
         wf ''stickerset'' writeTLInputStickerSet])]"

definition writeTLMethodChannelsRestrictSponsoredMessages :: tl_writer where
  "writeTLMethodChannelsRestrictSponsoredMessages = write_fobject
     [(- 1696000743, [wf ''_'' writeInt32, wf ''channel'' writeTLInputChannel,
         wf ''restricted'' writeBool])]"

definition writeTLMethodChannelsSearchPosts :: tl_writer where
  "writeTLMethodChannelsSearchPosts = write_fobject
     [(- 221973939, [wf ''_'' writeInt32, wf_flags ''flags'' [(''hashtag'', 0), (''query'', 1),
         (''allow_paid_stars'', 2)], wf_if ''flags'' 0 ''hashtag'' writeString,
         wf_if ''flags'' 1 ''query'' writeString, wf ''offset_rate'' writeInt32,
         wf ''offset_peer'' writeTLInputPeer, wf ''offset_id'' writeInt32, wf ''limit'' writeInt32,
         wf_if ''flags'' 2 ''allow_paid_stars'' writeInt64])]"

definition writeTLMethodChannelsUpdatePaidMessagesPrice :: tl_writer where
  "writeTLMethodChannelsUpdatePaidMessagesPrice = write_fobject
     [(1259483771, [wf ''_'' writeInt32, wf_flags ''flags'' [(''broadcast_messages_allowed'', 0)],
         wf ''channel'' writeTLInputChannel, wf ''send_paid_messages_stars'' writeInt64])]"

definition writeTLMethodChannelsToggleAutotranslation :: tl_writer where
  "writeTLMethodChannelsToggleAutotranslation = write_fobject
     [(377471137, [wf ''_'' writeInt32, wf ''channel'' writeTLInputChannel,
         wf ''enabled'' writeBool])]"

definition readTLMethodChannelsGetMessageAuthor :: tl_reader where
  "readTLMethodChannelsGetMessageAuthor = read_method (- 320691994) readTLUser"

definition writeTLMethodChannelsGetMessageAuthor :: tl_writer where
  "writeTLMethodChannelsGetMessageAuthor = write_fobject
     [(- 320691994, [wf ''_'' writeInt32, wf ''channel'' writeTLInputChannel,
         wf ''id'' writeInt32])]"

definition readTLMethodChannelsCheckSearchPostsFlood :: tl_reader where
  "readTLMethodChannelsCheckSearchPostsFlood = read_method (576090389) readTLSearchPostsFlood"

definition writeTLMethodChannelsCheckSearchPostsFlood :: tl_writer where
  "writeTLMethodChannelsCheckSearchPostsFlood = write_fobject
     [(576090389, [wf ''_'' writeInt32, wf_flags ''flags'' [(''query'', 0)],
         wf_if ''flags'' 0 ''query'' writeString])]"

definition readTLMethodChannelsSetMainProfileTab :: tl_reader where
  "readTLMethodChannelsSetMainProfileTab = read_method (897842353) readBool"

definition writeTLMethodChannelsSetMainProfileTab :: tl_writer where
  "writeTLMethodChannelsSetMainProfileTab = write_fobject
     [(897842353, [wf ''_'' writeInt32, wf ''channel'' writeTLInputChannel,
         wf ''tab'' writeTLProfileTab])]"

definition readTLMethodBotsSendCustomRequest :: tl_reader where
  "readTLMethodBotsSendCustomRequest = read_method (- 1440257555) readTLDataJSON"

definition writeTLMethodBotsSendCustomRequest :: tl_writer where
  "writeTLMethodBotsSendCustomRequest = write_fobject
     [(- 1440257555, [wf ''_'' writeInt32, wf ''custom_method'' writeString,
         wf ''params'' writeTLDataJSON])]"

definition readTLMethodBotsAnswerWebhookJSONQuery :: tl_reader where
  "readTLMethodBotsAnswerWebhookJSONQuery = read_method (- 434028723) readBool"

definition writeTLMethodBotsAnswerWebhookJSONQuery :: tl_writer where
  "writeTLMethodBotsAnswerWebhookJSONQuery = write_fobject
     [(- 434028723, [wf ''_'' writeInt32, wf ''query_id'' writeInt64,
         wf ''data'' writeTLDataJSON])]"

definition readTLMethodBotsSetBotCommands :: tl_reader where
  "readTLMethodBotsSetBotCommands = read_method (85399130) readBool"

definition writeTLMethodBotsSetBotCommands :: tl_writer where
  "writeTLMethodBotsSetBotCommands = write_fobject
     [(85399130, [wf ''_'' writeInt32, wf ''scope'' writeTLBotCommandScope,
         wf ''lang_code'' writeString, wf ''commands'' (writeVector (Some writeTLBotCommand))])]"

definition readTLMethodBotsResetBotCommands :: tl_reader where
  "readTLMethodBotsResetBotCommands = read_method (1032708345) readBool"

definition writeTLMethodBotsResetBotCommands :: tl_writer where
  "writeTLMethodBotsResetBotCommands = write_fobject
     [(1032708345, [wf ''_'' writeInt32, wf ''scope'' writeTLBotCommandScope,
         wf ''lang_code'' writeString])]"

definition readTLMethodBotsGetBotCommands :: tl_reader where
  "readTLMethodBotsGetBotCommands = read_method (- 481554986) (readVector (Some readTLBotCommand))"

definition writeTLMethodBotsGetBotCommands :: tl_writer where
  "writeTLMethodBotsGetBotCommands = write_fobject
     [(- 481554986, [wf ''_'' writeInt32, wf ''scope'' writeTLBotCommandScope,
         wf ''lang_code'' writeString])]"

definition readTLMethodBotsSetBotMenuButton :: tl_reader where
  "readTLMethodBotsSetBotMenuButton = read_method (1157944655) readBool"

definition writeTLMethodBotsSetBotMenuButton :: tl_writer where
  "writeTLMethodBotsSetBotMenuButton = write_fobject
     [(1157944655, [wf ''_'' writeInt32, wf ''user_id'' writeTLInputUser,
         wf ''button'' writeTLBotMenuButton])]"

definition readTLMethodBotsGetBotMenuButton :: tl_reader where
  "readTLMethodBotsGetBotMenuButton = read_method (- 1671369944) readTLBotMenuButton"

definition writeTLMethodBotsGetBotMenuButton :: tl_writer where
  "writeTLMethodBotsGetBotMenuButton = write_fobject
     [(- 1671369944, [wf ''_'' writeInt32, wf ''user_id'' writeTLInputUser])]"

definition readTLMethodBotsSetBotBroadcastDefaultAdminRights :: tl_reader where
  "readTLMethodBotsSetBotBroadcastDefaultAdminRights = read_method (2021942497) readBool"

definition writeTLMethodBotsSetBotBroadcastDefaultAdminRights :: tl_writer where
  "writeTLMethodBotsSetBotBroadcastDefaultAdminRights = write_fobject
     [(2021942497, [wf ''_'' writeInt32, wf ''admin_rights'' writeTLChatAdminRights])]"

definition readTLMethodBotsSetBotGroupDefaultAdminRights :: tl_reader where
  "readTLMethodBotsSetBotGroupDefaultAdminRights = read_method (- 1839281686) readBool"

definition writeTLMethodBotsSetBotGroupDefaultAdminRights :: tl_writer where
  "writeTLMethodBotsSetBotGroupDefaultAdminRights = write_fobject
     [(- 1839281686, [wf ''_'' writeInt32, wf ''admin_rights'' writeTLChatAdminRights])]"

definition readTLMethodBotsSetBotInfo :: tl_reader where
  "readTLMethodBotsSetBotInfo = read_method (282013987) readBool"

definition writeTLMethodBotsSetBotInfo :: tl_writer where
  "writeTLMethodBotsSetBotInfo = write_fobject
     [(282013987, [wf ''_'' writeInt32, wf_flags ''flags'' [(''bot'', 2), (''name'', 3),
         (''about'', 0), (''description'', 1)], wf_if ''flags'' 2 ''bot'' writeTLInputUser,
         wf ''lang_code'' writeString, wf_if ''flags'' 3 ''name'' writeString,
         wf_if ''flags'' 0 ''about'' writeString, wf_if ''flags'' 1 ''description'' writeString])]"

definition readTLMethodBotsGetBotInfo :: tl_reader where
  "readTLMethodBotsGetBotInfo = read_method (- 589753091) readTLBotsBotInfo"

definition writeTLMethodBotsGetBotInfo :: tl_writer where
  "writeTLMethodBotsGetBotInfo = write_fobject
     [(- 589753091, [wf ''_'' writeInt32, wf_flags ''flags'' [(''bot'', 0)],
         wf_if ''flags'' 0 ''bot'' writeTLInputUser, wf ''lang_code'' writeString])]"

definition readTLMethodBotsReorderUsernames :: tl_reader where
  "readTLMethodBotsReorderUsernames = read_method (- 1760972350) readBool"

definition writeTLMethodBotsReorderUsernames :: tl_writer where
  "writeTLMethodBotsReorderUsernames = write_fobject
     [(- 1760972350, [wf ''_'' writeInt32, wf ''bot'' writeTLInputUser,
         wf ''order'' (writeVector (Some writeString))])]"

definition readTLMethodBotsToggleUsername :: tl_reader where
  "readTLMethodBotsToggleUsername = read_method (87861619) readBool"

definition writeTLMethodBotsToggleUsername :: tl_writer where
  "writeTLMethodBotsToggleUsername = write_fobject
     [(87861619, [wf ''_'' writeInt32, wf ''bot'' writeTLInputUser, wf ''username'' writeString,
         wf ''active'' writeBool])]"

definition readTLMethodBotsCanSendMessage :: tl_reader where
  "readTLMethodBotsCanSendMessage = read_method (324662502) readBool"

definition writeTLMethodBotsCanSendMessage :: tl_writer where
  "writeTLMethodBotsCanSendMessage = write_fobject
     [(324662502, [wf ''_'' writeInt32, wf ''bot'' writeTLInputUser])]"

definition writeTLMethodBotsAllowSendMessage :: tl_writer where
  "writeTLMethodBotsAllowSendMessage = write_fobject
     [(- 248323089, [wf ''_'' writeInt32, wf ''bot'' writeTLInputUser])]"

definition readTLMethodBotsInvokeWebViewCustomMethod :: tl_reader where
  "readTLMethodBotsInvokeWebViewCustomMethod = read_method (142591463) readTLDataJSON"

definition writeTLMethodBotsInvokeWebViewCustomMethod :: tl_writer where
  "writeTLMethodBotsInvokeWebViewCustomMethod = write_fobject
     [(142591463, [wf ''_'' writeInt32, wf ''bot'' writeTLInputUser,
         wf ''custom_method'' writeString, wf ''params'' writeTLDataJSON])]"

definition readTLMethodBotsGetPopularAppBots :: tl_reader where
  "readTLMethodBotsGetPopularAppBots = read_method (- 1034878574) readTLBotsPopularAppBots"

definition writeTLMethodBotsGetPopularAppBots :: tl_writer where
  "writeTLMethodBotsGetPopularAppBots = write_fobject
     [(- 1034878574, [wf ''_'' writeInt32, wf ''offset'' writeString, wf ''limit'' writeInt32])]"

definition readTLMethodBotsDeletePreviewMedia :: tl_reader where
  "readTLMethodBotsDeletePreviewMedia = read_method (755054003) readBool"

definition readTLMethodBotsReorderPreviewMedias :: tl_reader where
  "readTLMethodBotsReorderPreviewMedias = read_method (- 1238895702) readBool"

definition writeTLMethodBotsGetPreviewInfo :: tl_writer where
  "writeTLMethodBotsGetPreviewInfo = write_fobject
     [(1111143341, [wf ''_'' writeInt32, wf ''bot'' writeTLInputUser,
         wf ''lang_code'' writeString])]"

definition writeTLMethodBotsGetPreviewMedias :: tl_writer where
  "writeTLMethodBotsGetPreviewMedias = write_fobject
     [(- 1566222003, [wf ''_'' writeInt32, wf ''bot'' writeTLInputUser])]"

definition readTLMethodBotsUpdateUserEmojiStatus :: tl_reader where
  "readTLMethodBotsUpdateUserEmojiStatus = read_method (- 308334395) readBool"

definition writeTLMethodBotsUpdateUserEmojiStatus :: tl_writer where
  "writeTLMethodBotsUpdateUserEmojiStatus = write_fobject
     [(- 308334395, [wf ''_'' writeInt32, wf ''user_id'' writeTLInputUser,
         wf ''emoji_status'' writeTLEmojiStatus])]"

definition readTLMethodBotsToggleUserEmojiStatusPermission :: tl_reader where
  "readTLMethodBotsToggleUserEmojiStatusPermission = read_method (115237778) readBool"

definition writeTLMethodBotsToggleUserEmojiStatusPermission :: tl_writer where
  "writeTLMethodBotsToggleUserEmojiStatusPermission = write_fobject
     [(115237778, [wf ''_'' writeInt32, wf ''bot'' writeTLInputUser, wf ''enabled'' writeBool])]"

definition readTLMethodBotsCheckDownloadFileParams :: tl_reader where
  "readTLMethodBotsCheckDownloadFileParams = read_method (1342666121) readBool"

definition writeTLMethodBotsCheckDownloadFileParams :: tl_writer where
  "writeTLMethodBotsCheckDownloadFileParams = write_fobject
     [(1342666121, [wf ''_'' writeInt32, wf ''bot'' writeTLInputUser, wf ''file_name'' writeString,
         wf ''url'' writeString])]"

definition readTLMethodBotsGetAdminedBots :: tl_reader where
  "readTLMethodBotsGetAdminedBots = read_method (- 1334764157) (readVector (Some readTLUser))"

definition writeTLMethodBotsGetAdminedBots :: tl_writer where
  "writeTLMethodBotsGetAdminedBots = write_fobject
     [(- 1334764157, [wf ''_'' writeInt32])]"

definition readTLMethodBotsUpdateStarRefProgram :: tl_reader where
  "readTLMethodBotsUpdateStarRefProgram = read_method (2005621427) readTLStarRefProgram"

definition writeTLMethodBotsUpdateStarRefProgram :: tl_writer where
  "writeTLMethodBotsUpdateStarRefProgram = write_fobject
     [(2005621427, [wf ''_'' writeInt32, wf_flags ''flags'' [(''duration_months'', 0)],
         wf ''bot'' writeTLInputUser, wf ''commission_permille'' writeInt32,
         wf_if ''flags'' 0 ''duration_months'' writeInt32])]"

definition readTLMethodBotsSetCustomVerification :: tl_reader where
  "readTLMethodBotsSetCustomVerification = read_method (- 1953898563) readBool"

definition writeTLMethodBotsSetCustomVerification :: tl_writer where
  "writeTLMethodBotsSetCustomVerification = write_fobject
     [(- 1953898563, [wf ''_'' writeInt32, wf_flags ''flags'' [(''enabled'', 1), (''bot'', 0),
         (''custom_description'', 2)], wf_if ''flags'' 0 ''bot'' writeTLInputUser,
         wf ''peer'' writeTLInputPeer, wf_if ''flags'' 2 ''custom_description'' writeString])]"

definition readTLMethodBotsGetBotRecommendations :: tl_reader where
  "readTLMethodBotsGetBotRecommendations = read_method (- 1581840363) readTLUsersUsers"

definition writeTLMethodBotsGetBotRecommendations :: tl_writer where
  "writeTLMethodBotsGetBotRecommendations = write_fobject
     [(- 1581840363, [wf ''_'' writeInt32, wf ''bot'' writeTLInputUser])]"

definition readTLMethodBotsCheckUsername :: tl_reader where
  "readTLMethodBotsCheckUsername = read_method (- 2014174821) readBool"

definition writeTLMethodBotsCheckUsername :: tl_writer where
  "writeTLMethodBotsCheckUsername = write_fobject
     [(- 2014174821, [wf ''_'' writeInt32, wf ''username'' writeString])]"

definition readTLMethodBotsCreateBot :: tl_reader where
  "readTLMethodBotsCreateBot = read_method (- 441352405) readTLUser"

definition writeTLMethodBotsCreateBot :: tl_writer where
  "writeTLMethodBotsCreateBot = write_fobject
     [(- 441352405, [wf ''_'' writeInt32, wf_flags ''flags'' [(''via_deeplink'', 0)],
         wf ''name'' writeString, wf ''username'' writeString,
         wf ''manager_id'' writeTLInputUser])]"

definition readTLMethodBotsExportBotToken :: tl_reader where
  "readTLMethodBotsExportBotToken = read_method (- 1123182101) readTLBotsExportedBotToken"

definition writeTLMethodBotsExportBotToken :: tl_writer where
  "writeTLMethodBotsExportBotToken = write_fobject
     [(- 1123182101, [wf ''_'' writeInt32, wf ''bot'' writeTLInputUser, wf ''revoke'' writeBool])]"

definition readTLMethodBotsRequestWebViewButton :: tl_reader where
  "readTLMethodBotsRequestWebViewButton = read_method (832742238) readTLBotsRequestedButton"

definition writeTLMethodBotsRequestWebViewButton :: tl_writer where
  "writeTLMethodBotsRequestWebViewButton = write_fobject
     [(832742238, [wf ''_'' writeInt32, wf ''user_id'' writeTLInputUser,
         wf ''button'' writeTLKeyboardButton])]"

definition readTLMethodBotsGetRequestedWebViewButton :: tl_reader where
  "readTLMethodBotsGetRequestedWebViewButton = read_method (- 1088047117) readTLKeyboardButton"

definition writeTLMethodBotsGetRequestedWebViewButton :: tl_writer where
  "writeTLMethodBotsGetRequestedWebViewButton = write_fobject
     [(- 1088047117, [wf ''_'' writeInt32, wf ''bot'' writeTLInputUser,
         wf ''webapp_req_id'' writeString])]"

definition readTLMethodBotsGetAccessSettings :: tl_reader where
  "readTLMethodBotsGetAccessSettings = read_method (557339555) readTLBotsAccessSettings"

definition writeTLMethodBotsGetAccessSettings :: tl_writer where
  "writeTLMethodBotsGetAccessSettings = write_fobject
     [(557339555, [wf ''_'' writeInt32, wf ''bot'' writeTLInputUser])]"

definition readTLMethodBotsEditAccessSettings :: tl_reader where
  "readTLMethodBotsEditAccessSettings = read_method (830553304) readBool"

definition writeTLMethodBotsEditAccessSettings :: tl_writer where
  "writeTLMethodBotsEditAccessSettings = write_fobject
     [(830553304, [wf ''_'' writeInt32, wf_flags ''flags'' [(''restricted'', 0), (''add_users'',
         1)], wf ''bot'' writeTLInputUser,
         wf_if ''flags'' 1 ''add_users'' (writeVector (Some writeTLInputUser))])]"

definition readTLMethodBotsSetJoinChatResults :: tl_reader where
  "readTLMethodBotsSetJoinChatResults = read_method (- 417708016) readBool"

definition writeTLMethodBotsSetJoinChatResults :: tl_writer where
  "writeTLMethodBotsSetJoinChatResults = write_fobject
     [(- 417708016, [wf ''_'' writeInt32, wf ''query_id'' writeInt64,
         wf ''result'' writeTLJoinChatBotResult])]"

definition writeTLMethodPaymentsGetPaymentForm :: tl_writer where
  "writeTLMethodPaymentsGetPaymentForm = write_fobject
     [(924093883, [wf ''_'' writeInt32, wf_flags ''flags'' [(''theme_params'', 0)],
         wf ''invoice'' writeTLInputInvoice, wf_if ''flags'' 0 ''theme_params'' writeTLDataJSON])]"

definition writeTLMethodPaymentsGetPaymentReceipt :: tl_writer where
  "writeTLMethodPaymentsGetPaymentReceipt = write_fobject
     [(611897804, [wf ''_'' writeInt32, wf ''peer'' writeTLInputPeer, wf ''msg_id'' writeInt32])]"

definition readTLMethodPaymentsValidateRequestedInfo :: tl_reader where
  "readTLMethodPaymentsValidateRequestedInfo = read_method (- 1228345045) readTLPaymentsValidatedRequestedInfo"

definition writeTLMethodPaymentsValidateRequestedInfo :: tl_writer where
  "writeTLMethodPaymentsValidateRequestedInfo = write_fobject
     [(- 1228345045, [wf ''_'' writeInt32, wf_flags ''flags'' [(''save'', 0)],
         wf ''invoice'' writeTLInputInvoice, wf ''info'' writeTLPaymentRequestedInfo])]"

definition writeTLMethodPaymentsSendPaymentForm :: tl_writer where
  "writeTLMethodPaymentsSendPaymentForm = write_fobject
     [(755192367, [wf ''_'' writeInt32, wf_flags ''flags'' [(''requested_info_id'', 0),
         (''shipping_option_id'', 1), (''tip_amount'', 2)], wf ''form_id'' writeInt64,
         wf ''invoice'' writeTLInputInvoice, wf_if ''flags'' 0 ''requested_info_id'' writeString,
         wf_if ''flags'' 1 ''shipping_option_id'' writeString,
         wf ''credentials'' writeTLInputPaymentCredentials,
         wf_if ''flags'' 2 ''tip_amount'' writeInt64])]"

definition readTLMethodPaymentsGetSavedInfo :: tl_reader where
  "readTLMethodPaymentsGetSavedInfo = read_method (578650699) readTLPaymentsSavedInfo"

definition writeTLMethodPaymentsGetSavedInfo :: tl_writer where
  "writeTLMethodPaymentsGetSavedInfo = write_fobject
     [(578650699, [wf ''_'' writeInt32])]"

definition readTLMethodPaymentsClearSavedInfo :: tl_reader where
  "readTLMethodPaymentsClearSavedInfo = read_method (- 667062079) readBool"

definition writeTLMethodPaymentsClearSavedInfo :: tl_writer where
  "writeTLMethodPaymentsClearSavedInfo = write_fobject
     [(- 667062079, [wf ''_'' writeInt32, wf_flags ''flags'' [(''credentials'', 0), (''info'',
         1)]])]"

definition readTLMethodPaymentsGetBankCardData :: tl_reader where
  "readTLMethodPaymentsGetBankCardData = read_method (779736953) readTLPaymentsBankCardData"

definition writeTLMethodPaymentsGetBankCardData :: tl_writer where
  "writeTLMethodPaymentsGetBankCardData = write_fobject
     [(779736953, [wf ''_'' writeInt32, wf ''number'' writeString])]"

definition readTLMethodPaymentsExportInvoice :: tl_reader where
  "readTLMethodPaymentsExportInvoice = read_method (261206117) readTLPaymentsExportedInvoice"

definition writeTLMethodPaymentsAssignAppStoreTransaction :: tl_writer where
  "writeTLMethodPaymentsAssignAppStoreTransaction = write_fobject
     [(- 2131921795, [wf ''_'' writeInt32, wf ''receipt'' writeByteArray,
         wf ''purpose'' writeTLInputStorePaymentPurpose])]"

definition writeTLMethodPaymentsAssignPlayMarketTransaction :: tl_writer where
  "writeTLMethodPaymentsAssignPlayMarketTransaction = write_fobject
     [(- 537046829, [wf ''_'' writeInt32, wf ''receipt'' writeTLDataJSON,
         wf ''purpose'' writeTLInputStorePaymentPurpose])]"

definition readTLMethodPaymentsGetPremiumGiftCodeOptions :: tl_reader where
  "readTLMethodPaymentsGetPremiumGiftCodeOptions = read_method (660060756) (readVector (Some readTLPremiumGiftCodeOption))"

definition writeTLMethodPaymentsGetPremiumGiftCodeOptions :: tl_writer where
  "writeTLMethodPaymentsGetPremiumGiftCodeOptions = write_fobject
     [(660060756, [wf ''_'' writeInt32, wf_flags ''flags'' [(''boost_peer'', 0)],
         wf_if ''flags'' 0 ''boost_peer'' writeTLInputPeer])]"

definition readTLMethodPaymentsCheckGiftCode :: tl_reader where
  "readTLMethodPaymentsCheckGiftCode = read_method (- 1907247935) readTLPaymentsCheckedGiftCode"

definition writeTLMethodPaymentsCheckGiftCode :: tl_writer where
  "writeTLMethodPaymentsCheckGiftCode = write_fobject
     [(- 1907247935, [wf ''_'' writeInt32, wf ''slug'' writeString])]"

definition writeTLMethodPaymentsApplyGiftCode :: tl_writer where
  "writeTLMethodPaymentsApplyGiftCode = write_fobject
     [(- 152934316, [wf ''_'' writeInt32, wf ''slug'' writeString])]"

definition readTLMethodPaymentsGetGiveawayInfo :: tl_reader where
  "readTLMethodPaymentsGetGiveawayInfo = read_method (- 198994907) readTLPaymentsGiveawayInfo"

definition writeTLMethodPaymentsGetGiveawayInfo :: tl_writer where
  "writeTLMethodPaymentsGetGiveawayInfo = write_fobject
     [(- 198994907, [wf ''_'' writeInt32, wf ''peer'' writeTLInputPeer, wf ''msg_id'' writeInt32])]"

definition writeTLMethodPaymentsLaunchPrepaidGiveaway :: tl_writer where
  "writeTLMethodPaymentsLaunchPrepaidGiveaway = write_fobject
     [(1609928480, [wf ''_'' writeInt32, wf ''peer'' writeTLInputPeer,
         wf ''giveaway_id'' writeInt64, wf ''purpose'' writeTLInputStorePaymentPurpose])]"

definition readTLMethodPaymentsGetStarsTopupOptions :: tl_reader where
  "readTLMethodPaymentsGetStarsTopupOptions = read_method (- 1072773165) (readVector (Some readTLStarsTopupOption))"

definition writeTLMethodPaymentsGetStarsTopupOptions :: tl_writer where
  "writeTLMethodPaymentsGetStarsTopupOptions = write_fobject
     [(- 1072773165, [wf ''_'' writeInt32])]"

definition writeTLMethodPaymentsGetStarsStatus :: tl_writer where
  "writeTLMethodPaymentsGetStarsStatus = write_fobject
     [(1319744447, [wf ''_'' writeInt32, wf_flags ''flags'' [(''ton'', 0)],
         wf ''peer'' writeTLInputPeer])]"

definition writeTLMethodPaymentsGetStarsTransactions :: tl_writer where
  "writeTLMethodPaymentsGetStarsTransactions = write_fobject
     [(1775912279, [wf ''_'' writeInt32, wf_flags ''flags'' [(''inbound'', 0), (''outbound'', 1),
         (''ascending'', 2), (''ton'', 4), (''subscription_id'', 3)],
         wf_if ''flags'' 3 ''subscription_id'' writeString, wf ''peer'' writeTLInputPeer,
         wf ''offset'' writeString, wf ''limit'' writeInt32])]"

definition writeTLMethodPaymentsSendStarsForm :: tl_writer where
  "writeTLMethodPaymentsSendStarsForm = write_fobject
     [(2040056084, [wf ''_'' writeInt32, wf ''form_id'' writeInt64,
         wf ''invoice'' writeTLInputInvoice])]"

definition writeTLMethodPaymentsRefundStarsCharge :: tl_writer where
  "writeTLMethodPaymentsRefundStarsCharge = write_fobject
     [(632196938, [wf ''_'' writeInt32, wf ''user_id'' writeTLInputUser,
         wf ''charge_id'' writeString])]"

definition writeTLMethodPaymentsGetStarsRevenueStats :: tl_writer where
  "writeTLMethodPaymentsGetStarsRevenueStats = write_fobject
     [(- 652215594, [wf ''_'' writeInt32, wf_flags ''flags'' [(''dark'', 0), (''ton'', 1)],
         wf ''peer'' writeTLInputPeer])]"

definition readTLMethodPaymentsGetStarsRevenueWithdrawalUrl :: tl_reader where
  "readTLMethodPaymentsGetStarsRevenueWithdrawalUrl = read_method (607378578) readTLPaymentsStarsRevenueWithdrawalUrl"

definition writeTLMethodPaymentsGetStarsRevenueWithdrawalUrl :: tl_writer where
  "writeTLMethodPaymentsGetStarsRevenueWithdrawalUrl = write_fobject
     [(607378578, [wf ''_'' writeInt32, wf_flags ''flags'' [(''ton'', 0), (''amount'', 1)],
         wf ''peer'' writeTLInputPeer, wf_if ''flags'' 1 ''amount'' writeInt64,
         wf ''password'' writeTLInputCheckPasswordSRP])]"

definition readTLMethodPaymentsGetStarsRevenueAdsAccountUrl :: tl_reader where
  "readTLMethodPaymentsGetStarsRevenueAdsAccountUrl = read_method (- 774377531) readTLPaymentsStarsRevenueAdsAccountUrl"

definition writeTLMethodPaymentsGetStarsRevenueAdsAccountUrl :: tl_writer where
  "writeTLMethodPaymentsGetStarsRevenueAdsAccountUrl = write_fobject
     [(- 774377531, [wf ''_'' writeInt32, wf ''peer'' writeTLInputPeer])]"

definition writeTLMethodPaymentsGetStarsTransactionsByID :: tl_writer where
  "writeTLMethodPaymentsGetStarsTransactionsByID = write_fobject
     [(768218808, [wf ''_'' writeInt32, wf_flags ''flags'' [(''ton'', 0)],
         wf ''peer'' writeTLInputPeer,
         wf ''id'' (writeVector (Some writeTLInputStarsTransaction))])]"

definition readTLMethodPaymentsGetStarsGiftOptions :: tl_reader where
  "readTLMethodPaymentsGetStarsGiftOptions = read_method (- 741774392) (readVector (Some readTLStarsGiftOption))"

definition writeTLMethodPaymentsGetStarsGiftOptions :: tl_writer where
  "writeTLMethodPaymentsGetStarsGiftOptions = write_fobject
     [(- 741774392, [wf ''_'' writeInt32, wf_flags ''flags'' [(''user_id'', 0)],
         wf_if ''flags'' 0 ''user_id'' writeTLInputUser])]"

definition writeTLMethodPaymentsGetStarsSubscriptions :: tl_writer where
  "writeTLMethodPaymentsGetStarsSubscriptions = write_fobject
     [(52761285, [wf ''_'' writeInt32, wf_flags ''flags'' [(''missing_balance'', 0)],
         wf ''peer'' writeTLInputPeer, wf ''offset'' writeString])]"

definition readTLMethodPaymentsChangeStarsSubscription :: tl_reader where
  "readTLMethodPaymentsChangeStarsSubscription = read_method (- 948500360) readBool"

definition writeTLMethodPaymentsChangeStarsSubscription :: tl_writer where
  "writeTLMethodPaymentsChangeStarsSubscription = write_fobject
     [(- 948500360, [wf ''_'' writeInt32, wf_flags ''flags'' [(''canceled'', 0)],
         wf ''peer'' writeTLInputPeer, wf ''subscription_id'' writeString,
         wf_if ''flags'' 0 ''canceled'' writeBool])]"

definition readTLMethodPaymentsFulfillStarsSubscription :: tl_reader where
  "readTLMethodPaymentsFulfillStarsSubscription = read_method (- 866391117) readBool"

definition writeTLMethodPaymentsFulfillStarsSubscription :: tl_writer where
  "writeTLMethodPaymentsFulfillStarsSubscription = write_fobject
     [(- 866391117, [wf ''_'' writeInt32, wf ''peer'' writeTLInputPeer,
         wf ''subscription_id'' writeString])]"

definition readTLMethodPaymentsGetStarsGiveawayOptions :: tl_reader where
  "readTLMethodPaymentsGetStarsGiveawayOptions = read_method (- 1122042562) (readVector (Some readTLStarsGiveawayOption))"

definition writeTLMethodPaymentsGetStarsGiveawayOptions :: tl_writer where
  "writeTLMethodPaymentsGetStarsGiveawayOptions = write_fobject
     [(- 1122042562, [wf ''_'' writeInt32])]"

definition writeTLMethodPaymentsGetStarGifts :: tl_writer where
  "writeTLMethodPaymentsGetStarGifts = write_fobject
     [(- 1000983152, [wf ''_'' writeInt32, wf ''hash'' writeInt32])]"

definition readTLMethodPaymentsSaveStarGift :: tl_reader where
  "readTLMethodPaymentsSaveStarGift = read_method (707422588) readBool"

definition writeTLMethodPaymentsSaveStarGift :: tl_writer where
  "writeTLMethodPaymentsSaveStarGift = write_fobject
     [(707422588, [wf ''_'' writeInt32, wf_flags ''flags'' [(''unsave'', 0)],
         wf ''stargift'' writeTLInputSavedStarGift])]"

definition readTLMethodPaymentsConvertStarGift :: tl_reader where
  "readTLMethodPaymentsConvertStarGift = read_method (1958676331) readBool"

definition writeTLMethodPaymentsConvertStarGift :: tl_writer where
  "writeTLMethodPaymentsConvertStarGift = write_fobject
     [(1958676331, [wf ''_'' writeInt32, wf ''stargift'' writeTLInputSavedStarGift])]"

definition readTLMethodPaymentsBotCancelStarsSubscription :: tl_reader where
  "readTLMethodPaymentsBotCancelStarsSubscription = read_method (1845102114) readBool"

definition writeTLMethodPaymentsBotCancelStarsSubscription :: tl_writer where
  "writeTLMethodPaymentsBotCancelStarsSubscription = write_fobject
     [(1845102114, [wf ''_'' writeInt32, wf_flags ''flags'' [(''restore'', 0)],
         wf ''user_id'' writeTLInputUser, wf ''charge_id'' writeString])]"

definition readTLMethodPaymentsGetConnectedStarRefBots :: tl_reader where
  "readTLMethodPaymentsGetConnectedStarRefBots = read_method (1483318611) readTLPaymentsConnectedStarRefBots"

definition writeTLMethodPaymentsGetConnectedStarRefBots :: tl_writer where
  "writeTLMethodPaymentsGetConnectedStarRefBots = write_fobject
     [(1483318611, [wf ''_'' writeInt32, wf_flags ''flags'' [(''offset_date'', 2),
         (''offset_link'', 2)], wf ''peer'' writeTLInputPeer,
         wf_if ''flags'' 2 ''offset_date'' writeInt32,
         wf_if ''flags'' 2 ''offset_link'' writeString, wf ''limit'' writeInt32])]"

definition readTLMethodPaymentsGetConnectedStarRefBot :: tl_reader where
  "readTLMethodPaymentsGetConnectedStarRefBot = read_method (- 1210476304) readTLPaymentsConnectedStarRefBots"

definition writeTLMethodPaymentsGetConnectedStarRefBot :: tl_writer where
  "writeTLMethodPaymentsGetConnectedStarRefBot = write_fobject
     [(- 1210476304, [wf ''_'' writeInt32, wf ''peer'' writeTLInputPeer,
         wf ''bot'' writeTLInputUser])]"

definition readTLMethodPaymentsGetSuggestedStarRefBots :: tl_reader where
  "readTLMethodPaymentsGetSuggestedStarRefBots = read_method (225134839) readTLPaymentsSuggestedStarRefBots"

definition writeTLMethodPaymentsGetSuggestedStarRefBots :: tl_writer where
  "writeTLMethodPaymentsGetSuggestedStarRefBots = write_fobject
     [(225134839, [wf ''_'' writeInt32, wf_flags ''flags'' [(''order_by_revenue'', 0),
         (''order_by_date'', 1)], wf ''peer'' writeTLInputPeer, wf ''offset'' writeString,
         wf ''limit'' writeInt32])]"

definition readTLMethodPaymentsConnectStarRefBot :: tl_reader where
  "readTLMethodPaymentsConnectStarRefBot = read_method (2127901834) readTLPaymentsConnectedStarRefBots"

definition writeTLMethodPaymentsConnectStarRefBot :: tl_writer where
  "writeTLMethodPaymentsConnectStarRefBot = write_fobject
     [(2127901834, [wf ''_'' writeInt32, wf ''peer'' writeTLInputPeer,
         wf ''bot'' writeTLInputUser])]"

definition readTLMethodPaymentsEditConnectedStarRefBot :: tl_reader where
  "readTLMethodPaymentsEditConnectedStarRefBot = read_method (- 453204829) readTLPaymentsConnectedStarRefBots"

definition writeTLMethodPaymentsEditConnectedStarRefBot :: tl_writer where
  "writeTLMethodPaymentsEditConnectedStarRefBot = write_fobject
     [(- 453204829, [wf ''_'' writeInt32, wf_flags ''flags'' [(''revoked'', 0)],
         wf ''peer'' writeTLInputPeer, wf ''link'' writeString])]"

definition writeTLMethodPaymentsGetStarGiftUpgradePreview :: tl_writer where
  "writeTLMethodPaymentsGetStarGiftUpgradePreview = write_fobject
     [(- 1667580751, [wf ''_'' writeInt32, wf ''gift_id'' writeInt64])]"

definition writeTLMethodPaymentsUpgradeStarGift :: tl_writer where
  "writeTLMethodPaymentsUpgradeStarGift = write_fobject
     [(- 1361648395, [wf ''_'' writeInt32, wf_flags ''flags'' [(''keep_original_details'', 0)],
         wf ''stargift'' writeTLInputSavedStarGift])]"

definition writeTLMethodPaymentsTransferStarGift :: tl_writer where
  "writeTLMethodPaymentsTransferStarGift = write_fobject
     [(2132285290, [wf ''_'' writeInt32, wf ''stargift'' writeTLInputSavedStarGift,
         wf ''to_id'' writeTLInputPeer])]"

definition writeTLMethodPaymentsGetUniqueStarGift :: tl_writer where
  "writeTLMethodPaymentsGetUniqueStarGift = write_fobject
     [(- 1583919758, [wf ''_'' writeInt32, wf ''slug'' writeString])]"

definition writeTLMethodPaymentsGetSavedStarGifts :: tl_writer where
  "writeTLMethodPaymentsGetSavedStarGifts = write_fobject
     [(- 1558583959, [wf ''_'' writeInt32, wf_flags ''flags'' [(''exclude_unsaved'', 0),
         (''exclude_saved'', 1), (''exclude_unlimited'', 2), (''exclude_unique'', 4),
         (''sort_by_value'', 5), (''exclude_upgradable'', 7), (''exclude_unupgradable'', 8),
         (''peer_color_available'', 9), (''exclude_hosted'', 10), (''collection_id'', 6)],
         wf ''peer'' writeTLInputPeer, wf_if ''flags'' 6 ''collection_id'' writeInt32,
         wf ''offset'' writeString, wf ''limit'' writeInt32])]"

definition writeTLMethodPaymentsGetSavedStarGift :: tl_writer where
  "writeTLMethodPaymentsGetSavedStarGift = write_fobject
     [(- 1269456634, [wf ''_'' writeInt32,
         wf ''stargift'' (writeVector (Some writeTLInputSavedStarGift))])]"

definition readTLMethodPaymentsGetStarGiftWithdrawalUrl :: tl_reader where
  "readTLMethodPaymentsGetStarGiftWithdrawalUrl = read_method (- 798059608) readTLPaymentsStarGiftWithdrawalUrl"

definition writeTLMethodPaymentsGetStarGiftWithdrawalUrl :: tl_writer where
  "writeTLMethodPaymentsGetStarGiftWithdrawalUrl = write_fobject
     [(- 798059608, [wf ''_'' writeInt32, wf ''stargift'' writeTLInputSavedStarGift,
         wf ''password'' writeTLInputCheckPasswordSRP])]"

definition readTLMethodPaymentsToggleChatStarGiftNotifications :: tl_reader where
  "readTLMethodPaymentsToggleChatStarGiftNotifications = read_method (1626009505) readBool"

definition writeTLMethodPaymentsToggleChatStarGiftNotifications :: tl_writer where
  "writeTLMethodPaymentsToggleChatStarGiftNotifications = write_fobject
     [(1626009505, [wf ''_'' writeInt32, wf_flags ''flags'' [(''enabled'', 0)],
         wf ''peer'' writeTLInputPeer])]"

definition readTLMethodPaymentsToggleStarGiftsPinnedToTop :: tl_reader where
  "readTLMethodPaymentsToggleStarGiftsPinnedToTop = read_method (353626032) readBool"

definition writeTLMethodPaymentsToggleStarGiftsPinnedToTop :: tl_writer where
  "writeTLMethodPaymentsToggleStarGiftsPinnedToTop = write_fobject
     [(353626032, [wf ''_'' writeInt32, wf ''peer'' writeTLInputPeer,
         wf ''stargift'' (writeVector (Some writeTLInputSavedStarGift))])]"

definition readTLMethodPaymentsCanPurchaseStore :: tl_reader where
  "readTLMethodPaymentsCanPurchaseStore = read_method (1339842215) readBool"

definition writeTLMethodPaymentsCanPurchaseStore :: tl_writer where
  "writeTLMethodPaymentsCanPurchaseStore = write_fobject
     [(1339842215, [wf ''_'' writeInt32, wf ''purpose'' writeTLInputStorePaymentPurpose])]"

definition writeTLMethodPaymentsGetResaleStarGifts :: tl_writer where
  "writeTLMethodPaymentsGetResaleStarGifts = write_fobject
     [(2053087798, [wf ''_'' writeInt32, wf_flags ''flags'' [(''sort_by_price'', 1),
         (''sort_by_num'', 2), (''for_craft'', 4), (''stars_only'', 5), (''attributes_hash'', 0),
         (''attributes'', 3)], wf_if ''flags'' 0 ''attributes_hash'' writeInt64,
         wf ''gift_id'' writeInt64,
         wf_if ''flags'' 3 ''attributes'' (writeVector (Some writeTLStarGiftAttributeId)),
         wf ''offset'' writeString, wf ''limit'' writeInt32])]"

definition writeTLMethodPaymentsUpdateStarGiftPrice :: tl_writer where
  "writeTLMethodPaymentsUpdateStarGiftPrice = write_fobject
     [(- 306287413, [wf ''_'' writeInt32, wf ''stargift'' writeTLInputSavedStarGift,
         wf ''resell_amount'' writeTLStarsAmount])]"

definition writeTLMethodPaymentsCreateStarGiftCollection :: tl_writer where
  "writeTLMethodPaymentsCreateStarGiftCollection = write_fobject
     [(524947079, [wf ''_'' writeInt32, wf ''peer'' writeTLInputPeer, wf ''title'' writeString,
         wf ''stargift'' (writeVector (Some writeTLInputSavedStarGift))])]"

definition writeTLMethodPaymentsUpdateStarGiftCollection :: tl_writer where
  "writeTLMethodPaymentsUpdateStarGiftCollection = write_fobject
     [(1339932391, [wf ''_'' writeInt32, wf_flags ''flags'' [(''title'', 0), (''delete_stargift'',
         1), (''add_stargift'', 2), (''order'', 3)], wf ''peer'' writeTLInputPeer,
         wf ''collection_id'' writeInt32, wf_if ''flags'' 0 ''title'' writeString,
         wf_if ''flags'' 1 ''delete_stargift'' (writeVector (Some writeTLInputSavedStarGift)),
         wf_if ''flags'' 2 ''add_stargift'' (writeVector (Some writeTLInputSavedStarGift)),
         wf_if ''flags'' 3 ''order'' (writeVector (Some writeTLInputSavedStarGift))])]"

definition readTLMethodPaymentsReorderStarGiftCollections :: tl_reader where
  "readTLMethodPaymentsReorderStarGiftCollections = read_method (- 1020594996) readBool"

definition writeTLMethodPaymentsReorderStarGiftCollections :: tl_writer where
  "writeTLMethodPaymentsReorderStarGiftCollections = write_fobject
     [(- 1020594996, [wf ''_'' writeInt32, wf ''peer'' writeTLInputPeer,
         wf ''order'' (writeVector (Some writeInt32))])]"

definition readTLMethodPaymentsDeleteStarGiftCollection :: tl_reader where
  "readTLMethodPaymentsDeleteStarGiftCollection = read_method (- 1386854168) readBool"

definition writeTLMethodPaymentsDeleteStarGiftCollection :: tl_writer where
  "writeTLMethodPaymentsDeleteStarGiftCollection = write_fobject
     [(- 1386854168, [wf ''_'' writeInt32, wf ''peer'' writeTLInputPeer,
         wf ''collection_id'' writeInt32])]"

definition writeTLMethodPaymentsGetStarGiftCollections :: tl_writer where
  "writeTLMethodPaymentsGetStarGiftCollections = write_fobject
     [(- 1743023651, [wf ''_'' writeInt32, wf ''peer'' writeTLInputPeer, wf ''hash'' writeInt64])]"

definition readTLMethodPaymentsGetUniqueStarGiftValueInfo :: tl_reader where
  "readTLMethodPaymentsGetUniqueStarGiftValueInfo = read_method (1130737515) readTLPaymentsUniqueStarGiftValueInfo"

definition writeTLMethodPaymentsGetUniqueStarGiftValueInfo :: tl_writer where
  "writeTLMethodPaymentsGetUniqueStarGiftValueInfo = write_fobject
     [(1130737515, [wf ''_'' writeInt32, wf ''slug'' writeString])]"

definition readTLMethodPaymentsCheckCanSendGift :: tl_reader where
  "readTLMethodPaymentsCheckCanSendGift = read_method (- 1060835895) readTLPaymentsCheckCanSendGiftResult"

definition writeTLMethodPaymentsCheckCanSendGift :: tl_writer where
  "writeTLMethodPaymentsCheckCanSendGift = write_fobject
     [(- 1060835895, [wf ''_'' writeInt32, wf ''gift_id'' writeInt64])]"

definition writeTLMethodPaymentsGetStarGiftAuctionState :: tl_writer where
  "writeTLMethodPaymentsGetStarGiftAuctionState = write_fobject
     [(1553986774, [wf ''_'' writeInt32, wf ''auction'' writeTLInputStarGiftAuction,
         wf ''version'' writeInt32])]"

definition readTLMethodPaymentsGetStarGiftAuctionAcquiredGifts :: tl_reader where
  "readTLMethodPaymentsGetStarGiftAuctionAcquiredGifts = read_method (1805831148) readTLPaymentsStarGiftAuctionAcquiredGifts"

definition writeTLMethodPaymentsGetStarGiftAuctionAcquiredGifts :: tl_writer where
  "writeTLMethodPaymentsGetStarGiftAuctionAcquiredGifts = write_fobject
     [(1805831148, [wf ''_'' writeInt32, wf ''gift_id'' writeInt64])]"

definition writeTLMethodPaymentsGetStarGiftActiveAuctions :: tl_writer where
  "writeTLMethodPaymentsGetStarGiftActiveAuctions = write_fobject
     [(- 1513074355, [wf ''_'' writeInt32, wf ''hash'' writeInt64])]"

definition writeTLMethodPaymentsResolveStarGiftOffer :: tl_writer where
  "writeTLMethodPaymentsResolveStarGiftOffer = write_fobject
     [(- 372344804, [wf ''_'' writeInt32, wf_flags ''flags'' [(''decline'', 0)],
         wf ''offer_msg_id'' writeInt32])]"

definition writeTLMethodPaymentsSendStarGiftOffer :: tl_writer where
  "writeTLMethodPaymentsSendStarGiftOffer = write_fobject
     [(- 1883739327, [wf ''_'' writeInt32, wf_flags ''flags'' [(''allow_paid_stars'', 0)],
         wf ''peer'' writeTLInputPeer, wf ''slug'' writeString, wf ''price'' writeTLStarsAmount,
         wf ''duration'' writeInt32, wf ''random_id'' writeInt64,
         wf_if ''flags'' 0 ''allow_paid_stars'' writeInt64])]"

definition writeTLMethodPaymentsGetStarGiftUpgradeAttributes :: tl_writer where
  "writeTLMethodPaymentsGetStarGiftUpgradeAttributes = write_fobject
     [(1828948824, [wf ''_'' writeInt32, wf ''gift_id'' writeInt64])]"

definition writeTLMethodPaymentsGetCraftStarGifts :: tl_writer where
  "writeTLMethodPaymentsGetCraftStarGifts = write_fobject
     [(- 49947392, [wf ''_'' writeInt32, wf ''gift_id'' writeInt64, wf ''offset'' writeString,
         wf ''limit'' writeInt32])]"

definition writeTLMethodPaymentsCraftStarGift :: tl_writer where
  "writeTLMethodPaymentsCraftStarGift = write_fobject
     [(- 1325832113, [wf ''_'' writeInt32,
         wf ''stargift'' (writeVector (Some writeTLInputSavedStarGift))])]"

definition writeTLMethodStickersRemoveStickerFromSet :: tl_writer where
  "writeTLMethodStickersRemoveStickerFromSet = write_fobject
     [(- 143257775, [wf ''_'' writeInt32, wf ''sticker'' writeTLInputDocument])]"

definition writeTLMethodStickersChangeStickerPosition :: tl_writer where
  "writeTLMethodStickersChangeStickerPosition = write_fobject
     [(- 4795190, [wf ''_'' writeInt32, wf ''sticker'' writeTLInputDocument,
         wf ''position'' writeInt32])]"

definition writeTLMethodStickersSetStickerSetThumb :: tl_writer where
  "writeTLMethodStickersSetStickerSetThumb = write_fobject
     [(- 1486204014, [wf ''_'' writeInt32, wf_flags ''flags'' [(''thumb'', 0),
         (''thumb_document_id'', 1)], wf ''stickerset'' writeTLInputStickerSet,
         wf_if ''flags'' 0 ''thumb'' writeTLInputDocument,
         wf_if ''flags'' 1 ''thumb_document_id'' writeInt64])]"

definition readTLMethodStickersCheckShortName :: tl_reader where
  "readTLMethodStickersCheckShortName = read_method (676017721) readBool"

definition writeTLMethodStickersCheckShortName :: tl_writer where
  "writeTLMethodStickersCheckShortName = write_fobject
     [(676017721, [wf ''_'' writeInt32, wf ''short_name'' writeString])]"

definition readTLMethodStickersSuggestShortName :: tl_reader where
  "readTLMethodStickersSuggestShortName = read_method (1303364867) readTLStickersSuggestedShortName"

definition writeTLMethodStickersSuggestShortName :: tl_writer where
  "writeTLMethodStickersSuggestShortName = write_fobject
     [(1303364867, [wf ''_'' writeInt32, wf ''title'' writeString])]"

definition writeTLMethodStickersRenameStickerSet :: tl_writer where
  "writeTLMethodStickersRenameStickerSet = write_fobject
     [(306912256, [wf ''_'' writeInt32, wf ''stickerset'' writeTLInputStickerSet,
         wf ''title'' writeString])]"

definition readTLMethodStickersDeleteStickerSet :: tl_reader where
  "readTLMethodStickersDeleteStickerSet = read_method (- 2022685804) readBool"

definition writeTLMethodStickersDeleteStickerSet :: tl_writer where
  "writeTLMethodStickersDeleteStickerSet = write_fobject
     [(- 2022685804, [wf ''_'' writeInt32, wf ''stickerset'' writeTLInputStickerSet])]"

definition readTLMethodPhoneGetCallConfig :: tl_reader where
  "readTLMethodPhoneGetCallConfig = read_method (1430593449) readTLDataJSON"

definition writeTLMethodPhoneGetCallConfig :: tl_writer where
  "writeTLMethodPhoneGetCallConfig = write_fobject
     [(1430593449, [wf ''_'' writeInt32])]"

definition readTLMethodPhoneRequestCall :: tl_reader where
  "readTLMethodPhoneRequestCall = read_method (1124046573) readTLPhonePhoneCall"

definition writeTLMethodPhoneRequestCall :: tl_writer where
  "writeTLMethodPhoneRequestCall = write_fobject
     [(1124046573, [wf ''_'' writeInt32, wf_flags ''flags'' [(''video'', 0)],
         wf ''user_id'' writeTLInputUser, wf ''random_id'' writeInt32,
         wf ''g_a_hash'' writeByteArray, wf ''protocol'' writeTLPhoneCallProtocol])]"

definition readTLMethodPhoneAcceptCall :: tl_reader where
  "readTLMethodPhoneAcceptCall = read_method (1003664544) readTLPhonePhoneCall"

definition writeTLMethodPhoneAcceptCall :: tl_writer where
  "writeTLMethodPhoneAcceptCall = write_fobject
     [(1003664544, [wf ''_'' writeInt32, wf ''peer'' writeTLInputPhoneCall,
         wf ''g_b'' writeByteArray, wf ''protocol'' writeTLPhoneCallProtocol])]"

definition readTLMethodPhoneConfirmCall :: tl_reader where
  "readTLMethodPhoneConfirmCall = read_method (788404002) readTLPhonePhoneCall"

definition writeTLMethodPhoneConfirmCall :: tl_writer where
  "writeTLMethodPhoneConfirmCall = write_fobject
     [(788404002, [wf ''_'' writeInt32, wf ''peer'' writeTLInputPhoneCall,
         wf ''g_a'' writeByteArray, wf ''key_fingerprint'' writeInt64,
         wf ''protocol'' writeTLPhoneCallProtocol])]"

definition readTLMethodPhoneReceivedCall :: tl_reader where
  "readTLMethodPhoneReceivedCall = read_method (399855457) readBool"

definition writeTLMethodPhoneReceivedCall :: tl_writer where
  "writeTLMethodPhoneReceivedCall = write_fobject
     [(399855457, [wf ''_'' writeInt32, wf ''peer'' writeTLInputPhoneCall])]"

definition writeTLMethodPhoneDiscardCall :: tl_writer where
  "writeTLMethodPhoneDiscardCall = write_fobject
     [(- 1295269440, [wf ''_'' writeInt32, wf_flags ''flags'' [(''video'', 0)],
         wf ''peer'' writeTLInputPhoneCall, wf ''duration'' writeInt32,
         wf ''reason'' writeTLPhoneCallDiscardReason, wf ''connection_id'' writeInt64])]"

definition writeTLMethodPhoneSetCallRating :: tl_writer where
  "writeTLMethodPhoneSetCallRating = write_fobject
     [(1508562471, [wf ''_'' writeInt32, wf_flags ''flags'' [(''user_initiative'', 0)],
         wf ''peer'' writeTLInputPhoneCall, wf ''rating'' writeInt32, wf ''comment'' writeString])]"

definition readTLMethodPhoneSaveCallDebug :: tl_reader where
  "readTLMethodPhoneSaveCallDebug = read_method (662363518) readBool"

definition writeTLMethodPhoneSaveCallDebug :: tl_writer where
  "writeTLMethodPhoneSaveCallDebug = write_fobject
     [(662363518, [wf ''_'' writeInt32, wf ''peer'' writeTLInputPhoneCall,
         wf ''debug'' writeTLDataJSON])]"

definition readTLMethodPhoneSendSignalingData :: tl_reader where
  "readTLMethodPhoneSendSignalingData = read_method (- 8744061) readBool"

definition writeTLMethodPhoneSendSignalingData :: tl_writer where
  "writeTLMethodPhoneSendSignalingData = write_fobject
     [(- 8744061, [wf ''_'' writeInt32, wf ''peer'' writeTLInputPhoneCall,
         wf ''data'' writeByteArray])]"

definition writeTLMethodPhoneCreateGroupCall :: tl_writer where
  "writeTLMethodPhoneCreateGroupCall = write_fobject
     [(1221445336, [wf ''_'' writeInt32, wf_flags ''flags'' [(''rtmp_stream'', 2), (''title'', 0),
         (''schedule_date'', 1)], wf ''peer'' writeTLInputPeer, wf ''random_id'' writeInt32,
         wf_if ''flags'' 0 ''title'' writeString, wf_if ''flags'' 1 ''schedule_date'' writeInt32])]"

definition writeTLMethodPhoneJoinGroupCall :: tl_writer where
  "writeTLMethodPhoneJoinGroupCall = write_fobject
     [(- 1883951017, [wf ''_'' writeInt32, wf_flags ''flags'' [(''muted'', 0), (''video_stopped'',
         2), (''invite_hash'', 1), (''public_key'', 3), (''block'', 3)],
         wf ''call'' writeTLInputGroupCall, wf ''join_as'' writeTLInputPeer,
         wf_if ''flags'' 1 ''invite_hash'' writeString,
         wf_if ''flags'' 3 ''public_key'' writeInt256, wf_if ''flags'' 3 ''block'' writeByteArray,
         wf ''params'' writeTLDataJSON])]"

definition writeTLMethodPhoneLeaveGroupCall :: tl_writer where
  "writeTLMethodPhoneLeaveGroupCall = write_fobject
     [(1342404601, [wf ''_'' writeInt32, wf ''call'' writeTLInputGroupCall,
         wf ''source'' writeInt32])]"

definition writeTLMethodPhoneInviteToGroupCall :: tl_writer where
  "writeTLMethodPhoneInviteToGroupCall = write_fobject
     [(2067345760, [wf ''_'' writeInt32, wf ''call'' writeTLInputGroupCall,
         wf ''users'' (writeVector (Some writeTLInputUser))])]"

definition writeTLMethodPhoneDiscardGroupCall :: tl_writer where
  "writeTLMethodPhoneDiscardGroupCall = write_fobject
     [(2054648117, [wf ''_'' writeInt32, wf ''call'' writeTLInputGroupCall])]"

definition writeTLMethodPhoneToggleGroupCallSettings :: tl_writer where
  "writeTLMethodPhoneToggleGroupCallSettings = write_fobject
     [(- 1757179150, [wf ''_'' writeInt32, wf_flags ''flags'' [(''reset_invite_hash'', 1),
         (''join_muted'', 0), (''messages_enabled'', 2), (''send_paid_messages_stars'', 3)],
         wf ''call'' writeTLInputGroupCall, wf_if ''flags'' 0 ''join_muted'' writeBool,
         wf_if ''flags'' 2 ''messages_enabled'' writeBool,
         wf_if ''flags'' 3 ''send_paid_messages_stars'' writeInt64])]"

definition readTLMethodPhoneGetGroupCall :: tl_reader where
  "readTLMethodPhoneGetGroupCall = read_method (68699611) readTLPhoneGroupCall"

definition writeTLMethodPhoneGetGroupCall :: tl_writer where
  "writeTLMethodPhoneGetGroupCall = write_fobject
     [(68699611, [wf ''_'' writeInt32, wf ''call'' writeTLInputGroupCall,
         wf ''limit'' writeInt32])]"

definition readTLMethodPhoneGetGroupParticipants :: tl_reader where
  "readTLMethodPhoneGetGroupParticipants = read_method (- 984033109) readTLPhoneGroupParticipants"

definition writeTLMethodPhoneGetGroupParticipants :: tl_writer where
  "writeTLMethodPhoneGetGroupParticipants = write_fobject
     [(- 984033109, [wf ''_'' writeInt32, wf ''call'' writeTLInputGroupCall,
         wf ''ids'' (writeVector (Some writeTLInputPeer)),
         wf ''sources'' (writeVector (Some writeInt32)), wf ''offset'' writeString,
         wf ''limit'' writeInt32])]"

definition readTLMethodPhoneCheckGroupCall :: tl_reader where
  "readTLMethodPhoneCheckGroupCall = read_method (- 1248003721) (readVector (Some readInt32))"

definition writeTLMethodPhoneCheckGroupCall :: tl_writer where
  "writeTLMethodPhoneCheckGroupCall = write_fobject
     [(- 1248003721, [wf ''_'' writeInt32, wf ''call'' writeTLInputGroupCall,
         wf ''sources'' (writeVector (Some writeInt32))])]"

definition writeTLMethodPhoneToggleGroupCallRecord :: tl_writer where
  "writeTLMethodPhoneToggleGroupCallRecord = write_fobject
     [(- 248985848, [wf ''_'' writeInt32, wf_flags ''flags'' [(''start'', 0), (''video'', 2),
         (''title'', 1), (''video_portrait'', 2)], wf ''call'' writeTLInputGroupCall,
         wf_if ''flags'' 1 ''title'' writeString, wf_if ''flags'' 2 ''video_portrait'' writeBool])]"

definition writeTLMethodPhoneEditGroupCallParticipant :: tl_writer where
  "writeTLMethodPhoneEditGroupCallParticipant = write_fobject
     [(- 1524155713, [wf ''_'' writeInt32, wf_flags ''flags'' [(''muted'', 0), (''volume'', 1),
         (''raise_hand'', 2), (''video_stopped'', 3), (''video_paused'', 4),
         (''presentation_paused'', 5)], wf ''call'' writeTLInputGroupCall,
         wf ''participant'' writeTLInputPeer, wf_if ''flags'' 0 ''muted'' writeBool,
         wf_if ''flags'' 1 ''volume'' writeInt32, wf_if ''flags'' 2 ''raise_hand'' writeBool,
         wf_if ''flags'' 3 ''video_stopped'' writeBool,
         wf_if ''flags'' 4 ''video_paused'' writeBool,
         wf_if ''flags'' 5 ''presentation_paused'' writeBool])]"

definition writeTLMethodPhoneEditGroupCallTitle :: tl_writer where
  "writeTLMethodPhoneEditGroupCallTitle = write_fobject
     [(480685066, [wf ''_'' writeInt32, wf ''call'' writeTLInputGroupCall,
         wf ''title'' writeString])]"

definition readTLMethodPhoneGetGroupCallJoinAs :: tl_reader where
  "readTLMethodPhoneGetGroupCallJoinAs = read_method (- 277077702) readTLPhoneJoinAsPeers"

definition writeTLMethodPhoneGetGroupCallJoinAs :: tl_writer where
  "writeTLMethodPhoneGetGroupCallJoinAs = write_fobject
     [(- 277077702, [wf ''_'' writeInt32, wf ''peer'' writeTLInputPeer])]"

definition readTLMethodPhoneExportGroupCallInvite :: tl_reader where
  "readTLMethodPhoneExportGroupCallInvite = read_method (- 425040769) readTLPhoneExportedGroupCallInvite"

definition writeTLMethodPhoneExportGroupCallInvite :: tl_writer where
  "writeTLMethodPhoneExportGroupCallInvite = write_fobject
     [(- 425040769, [wf ''_'' writeInt32, wf_flags ''flags'' [(''can_self_unmute'', 0)],
         wf ''call'' writeTLInputGroupCall])]"

definition writeTLMethodPhoneToggleGroupCallStartSubscription :: tl_writer where
  "writeTLMethodPhoneToggleGroupCallStartSubscription = write_fobject
     [(563885286, [wf ''_'' writeInt32, wf ''call'' writeTLInputGroupCall,
         wf ''subscribed'' writeBool])]"

definition writeTLMethodPhoneStartScheduledGroupCall :: tl_writer where
  "writeTLMethodPhoneStartScheduledGroupCall = write_fobject
     [(1451287362, [wf ''_'' writeInt32, wf ''call'' writeTLInputGroupCall])]"

definition readTLMethodPhoneSaveDefaultGroupCallJoinAs :: tl_reader where
  "readTLMethodPhoneSaveDefaultGroupCallJoinAs = read_method (1465786252) readBool"

definition writeTLMethodPhoneSaveDefaultGroupCallJoinAs :: tl_writer where
  "writeTLMethodPhoneSaveDefaultGroupCallJoinAs = write_fobject
     [(1465786252, [wf ''_'' writeInt32, wf ''peer'' writeTLInputPeer,
         wf ''join_as'' writeTLInputPeer])]"

definition writeTLMethodPhoneJoinGroupCallPresentation :: tl_writer where
  "writeTLMethodPhoneJoinGroupCallPresentation = write_fobject
     [(- 873829436, [wf ''_'' writeInt32, wf ''call'' writeTLInputGroupCall,
         wf ''params'' writeTLDataJSON])]"

definition writeTLMethodPhoneLeaveGroupCallPresentation :: tl_writer where
  "writeTLMethodPhoneLeaveGroupCallPresentation = write_fobject
     [(475058500, [wf ''_'' writeInt32, wf ''call'' writeTLInputGroupCall])]"

definition readTLMethodPhoneGetGroupCallStreamChannels :: tl_reader where
  "readTLMethodPhoneGetGroupCallStreamChannels = read_method (447879488) readTLPhoneGroupCallStreamChannels"

definition writeTLMethodPhoneGetGroupCallStreamChannels :: tl_writer where
  "writeTLMethodPhoneGetGroupCallStreamChannels = write_fobject
     [(447879488, [wf ''_'' writeInt32, wf ''call'' writeTLInputGroupCall])]"

definition readTLMethodPhoneGetGroupCallStreamRtmpUrl :: tl_reader where
  "readTLMethodPhoneGetGroupCallStreamRtmpUrl = read_method (1525991226) readTLPhoneGroupCallStreamRtmpUrl"

definition writeTLMethodPhoneGetGroupCallStreamRtmpUrl :: tl_writer where
  "writeTLMethodPhoneGetGroupCallStreamRtmpUrl = write_fobject
     [(1525991226, [wf ''_'' writeInt32, wf_flags ''flags'' [(''live_story'', 0)],
         wf ''peer'' writeTLInputPeer, wf ''revoke'' writeBool])]"

definition readTLMethodPhoneSaveCallLog :: tl_reader where
  "readTLMethodPhoneSaveCallLog = read_method (1092913030) readBool"

definition writeTLMethodPhoneSaveCallLog :: tl_writer where
  "writeTLMethodPhoneSaveCallLog = write_fobject
     [(1092913030, [wf ''_'' writeInt32, wf ''peer'' writeTLInputPhoneCall,
         wf ''file'' writeTLInputFile])]"

definition writeTLMethodPhoneCreateConferenceCall :: tl_writer where
  "writeTLMethodPhoneCreateConferenceCall = write_fobject
     [(2097431739, [wf ''_'' writeInt32, wf_flags ''flags'' [(''muted'', 0), (''video_stopped'',
         2), (''join'', 3), (''public_key'', 3), (''block'', 3), (''params'', 3)],
         wf ''random_id'' writeInt32, wf_if ''flags'' 3 ''public_key'' writeInt256,
         wf_if ''flags'' 3 ''block'' writeByteArray,
         wf_if ''flags'' 3 ''params'' writeTLDataJSON])]"

definition writeTLMethodPhoneDeleteConferenceCallParticipants :: tl_writer where
  "writeTLMethodPhoneDeleteConferenceCallParticipants = write_fobject
     [(- 1935276763, [wf ''_'' writeInt32, wf_flags ''flags'' [(''only_left'', 0), (''kick'', 1)],
         wf ''call'' writeTLInputGroupCall, wf ''ids'' (writeVector (Some writeInt64)),
         wf ''block'' writeByteArray])]"

definition writeTLMethodPhoneSendConferenceCallBroadcast :: tl_writer where
  "writeTLMethodPhoneSendConferenceCallBroadcast = write_fobject
     [(- 965732096, [wf ''_'' writeInt32, wf ''call'' writeTLInputGroupCall,
         wf ''block'' writeByteArray])]"

definition writeTLMethodPhoneInviteConferenceCallParticipant :: tl_writer where
  "writeTLMethodPhoneInviteConferenceCallParticipant = write_fobject
     [(- 1124981115, [wf ''_'' writeInt32, wf_flags ''flags'' [(''video'', 0)],
         wf ''call'' writeTLInputGroupCall, wf ''user_id'' writeTLInputUser])]"

definition writeTLMethodPhoneDeclineConferenceCallInvite :: tl_writer where
  "writeTLMethodPhoneDeclineConferenceCallInvite = write_fobject
     [(1011325297, [wf ''_'' writeInt32, wf ''msg_id'' writeInt32])]"

definition writeTLMethodPhoneGetGroupCallChainBlocks :: tl_writer where
  "writeTLMethodPhoneGetGroupCallChainBlocks = write_fobject
     [(- 291534682, [wf ''_'' writeInt32, wf ''call'' writeTLInputGroupCall,
         wf ''sub_chain_id'' writeInt32, wf ''offset'' writeInt32, wf ''limit'' writeInt32])]"

definition writeTLMethodPhoneSendGroupCallMessage :: tl_writer where
  "writeTLMethodPhoneSendGroupCallMessage = write_fobject
     [(- 1311697904, [wf ''_'' writeInt32, wf_flags ''flags'' [(''allow_paid_stars'', 0),
         (''send_as'', 1)], wf ''call'' writeTLInputGroupCall, wf ''random_id'' writeInt64,
         wf ''message'' writeTLTextWithEntities, wf_if ''flags'' 0 ''allow_paid_stars'' writeInt64,
         wf_if ''flags'' 1 ''send_as'' writeTLInputPeer])]"

definition readTLMethodPhoneSendGroupCallEncryptedMessage :: tl_reader where
  "readTLMethodPhoneSendGroupCallEncryptedMessage = read_method (- 441473683) readBool"

definition writeTLMethodPhoneSendGroupCallEncryptedMessage :: tl_writer where
  "writeTLMethodPhoneSendGroupCallEncryptedMessage = write_fobject
     [(- 441473683, [wf ''_'' writeInt32, wf ''call'' writeTLInputGroupCall,
         wf ''encrypted_message'' writeByteArray])]"

definition writeTLMethodPhoneDeleteGroupCallMessages :: tl_writer where
  "writeTLMethodPhoneDeleteGroupCallMessages = write_fobject
     [(- 162573065, [wf ''_'' writeInt32, wf_flags ''flags'' [(''report_spam'', 0)],
         wf ''call'' writeTLInputGroupCall, wf ''messages'' (writeVector (Some writeInt32))])]"

definition writeTLMethodPhoneDeleteGroupCallParticipantMessages :: tl_writer where
  "writeTLMethodPhoneDeleteGroupCallParticipantMessages = write_fobject
     [(499117216, [wf ''_'' writeInt32, wf_flags ''flags'' [(''report_spam'', 0)],
         wf ''call'' writeTLInputGroupCall, wf ''participant'' writeTLInputPeer])]"

definition readTLMethodPhoneGetGroupCallStars :: tl_reader where
  "readTLMethodPhoneGetGroupCallStars = read_method (1868784386) readTLPhoneGroupCallStars"

definition writeTLMethodPhoneGetGroupCallStars :: tl_writer where
  "writeTLMethodPhoneGetGroupCallStars = write_fobject
     [(1868784386, [wf ''_'' writeInt32, wf ''call'' writeTLInputGroupCall])]"

definition readTLMethodPhoneSaveDefaultSendAs :: tl_reader where
  "readTLMethodPhoneSaveDefaultSendAs = read_method (1097313745) readBool"

definition writeTLMethodPhoneSaveDefaultSendAs :: tl_writer where
  "writeTLMethodPhoneSaveDefaultSendAs = write_fobject
     [(1097313745, [wf ''_'' writeInt32, wf ''call'' writeTLInputGroupCall,
         wf ''send_as'' writeTLInputPeer])]"

definition readTLMethodLangpackGetLangPack :: tl_reader where
  "readTLMethodLangpackGetLangPack = read_method (- 219008246) readTLLangPackDifference"

definition writeTLMethodLangpackGetLangPack :: tl_writer where
  "writeTLMethodLangpackGetLangPack = write_fobject
     [(- 219008246, [wf ''_'' writeInt32, wf ''lang_pack'' writeString,
         wf ''lang_code'' writeString])]"

definition readTLMethodLangpackGetStrings :: tl_reader where
  "readTLMethodLangpackGetStrings = read_method (- 269862909) (readVector (Some readTLLangPackString))"

definition writeTLMethodLangpackGetStrings :: tl_writer where
  "writeTLMethodLangpackGetStrings = write_fobject
     [(- 269862909, [wf ''_'' writeInt32, wf ''lang_pack'' writeString,
         wf ''lang_code'' writeString, wf ''keys'' (writeVector (Some writeString))])]"

definition readTLMethodLangpackGetDifference :: tl_reader where
  "readTLMethodLangpackGetDifference = read_method (- 845657435) readTLLangPackDifference"

definition writeTLMethodLangpackGetDifference :: tl_writer where
  "writeTLMethodLangpackGetDifference = write_fobject
     [(- 845657435, [wf ''_'' writeInt32, wf ''lang_pack'' writeString,
         wf ''lang_code'' writeString, wf ''from_version'' writeInt32])]"

definition readTLMethodLangpackGetLanguages :: tl_reader where
  "readTLMethodLangpackGetLanguages = read_method (1120311183) (readVector (Some readTLLangPackLanguage))"

definition writeTLMethodLangpackGetLanguages :: tl_writer where
  "writeTLMethodLangpackGetLanguages = write_fobject
     [(1120311183, [wf ''_'' writeInt32, wf ''lang_pack'' writeString])]"

definition readTLMethodLangpackGetLanguage :: tl_reader where
  "readTLMethodLangpackGetLanguage = read_method (1784243458) readTLLangPackLanguage"

definition writeTLMethodLangpackGetLanguage :: tl_writer where
  "writeTLMethodLangpackGetLanguage = write_fobject
     [(1784243458, [wf ''_'' writeInt32, wf ''lang_pack'' writeString,
         wf ''lang_code'' writeString])]"

definition writeTLMethodFoldersEditPeerFolders :: tl_writer where
  "writeTLMethodFoldersEditPeerFolders = write_fobject
     [(1749536939, [wf ''_'' writeInt32,
         wf ''folder_peers'' (writeVector (Some writeTLInputFolderPeer))])]"

definition writeTLMethodStatsGetBroadcastStats :: tl_writer where
  "writeTLMethodStatsGetBroadcastStats = write_fobject
     [(- 1421720550, [wf ''_'' writeInt32, wf_flags ''flags'' [(''dark'', 0)],
         wf ''channel'' writeTLInputChannel])]"

definition readTLMethodStatsLoadAsyncGraph :: tl_reader where
  "readTLMethodStatsLoadAsyncGraph = read_method (1646092192) readTLStatsGraph"

definition writeTLMethodStatsLoadAsyncGraph :: tl_writer where
  "writeTLMethodStatsLoadAsyncGraph = write_fobject
     [(1646092192, [wf ''_'' writeInt32, wf_flags ''flags'' [(''x'', 0)], wf ''token'' writeString,
         wf_if ''flags'' 0 ''x'' writeInt64])]"

definition writeTLMethodStatsGetMegagroupStats :: tl_writer where
  "writeTLMethodStatsGetMegagroupStats = write_fobject
     [(- 589330937, [wf ''_'' writeInt32, wf_flags ''flags'' [(''dark'', 0)],
         wf ''channel'' writeTLInputChannel])]"

definition writeTLMethodStatsGetMessagePublicForwards :: tl_writer where
  "writeTLMethodStatsGetMessagePublicForwards = write_fobject
     [(1595212100, [wf ''_'' writeInt32, wf ''channel'' writeTLInputChannel,
         wf ''msg_id'' writeInt32, wf ''offset'' writeString, wf ''limit'' writeInt32])]"

definition readTLMethodStatsGetMessageStats :: tl_reader where
  "readTLMethodStatsGetMessageStats = read_method (- 1226791947) readTLStatsMessageStats"

definition writeTLMethodStatsGetMessageStats :: tl_writer where
  "writeTLMethodStatsGetMessageStats = write_fobject
     [(- 1226791947, [wf ''_'' writeInt32, wf_flags ''flags'' [(''dark'', 0)],
         wf ''channel'' writeTLInputChannel, wf ''msg_id'' writeInt32])]"

definition readTLMethodStatsGetStoryStats :: tl_reader where
  "readTLMethodStatsGetStoryStats = read_method (927985472) readTLStatsStoryStats"

definition writeTLMethodStatsGetStoryStats :: tl_writer where
  "writeTLMethodStatsGetStoryStats = write_fobject
     [(927985472, [wf ''_'' writeInt32, wf_flags ''flags'' [(''dark'', 0)],
         wf ''peer'' writeTLInputPeer, wf ''id'' writeInt32])]"

definition writeTLMethodStatsGetStoryPublicForwards :: tl_writer where
  "writeTLMethodStatsGetStoryPublicForwards = write_fobject
     [(- 1505526026, [wf ''_'' writeInt32, wf ''peer'' writeTLInputPeer, wf ''id'' writeInt32,
         wf ''offset'' writeString, wf ''limit'' writeInt32])]"

definition readTLMethodStatsGetPollStats :: tl_reader where
  "readTLMethodStatsGetPollStats = read_method (- 1031931288) readTLStatsPollStats"

definition writeTLMethodStatsGetPollStats :: tl_writer where
  "writeTLMethodStatsGetPollStats = write_fobject
     [(- 1031931288, [wf ''_'' writeInt32, wf_flags ''flags'' [(''dark'', 0)],
         wf ''peer'' writeTLInputPeer, wf ''msg_id'' writeInt32])]"

definition readTLMethodChatlistsExportChatlistInvite :: tl_reader where
  "readTLMethodChatlistsExportChatlistInvite = read_method (- 2072885362) readTLChatlistsExportedChatlistInvite"

definition writeTLMethodChatlistsExportChatlistInvite :: tl_writer where
  "writeTLMethodChatlistsExportChatlistInvite = write_fobject
     [(- 2072885362, [wf ''_'' writeInt32, wf ''chatlist'' writeTLInputChatlist,
         wf ''title'' writeString, wf ''peers'' (writeVector (Some writeTLInputPeer))])]"

definition readTLMethodChatlistsDeleteExportedInvite :: tl_reader where
  "readTLMethodChatlistsDeleteExportedInvite = read_method (1906072670) readBool"

definition writeTLMethodChatlistsDeleteExportedInvite :: tl_writer where
  "writeTLMethodChatlistsDeleteExportedInvite = write_fobject
     [(1906072670, [wf ''_'' writeInt32, wf ''chatlist'' writeTLInputChatlist,
         wf ''slug'' writeString])]"

definition readTLMethodChatlistsEditExportedInvite :: tl_reader where
  "readTLMethodChatlistsEditExportedInvite = read_method (1698543165) readTLExportedChatlistInvite"

definition writeTLMethodChatlistsEditExportedInvite :: tl_writer where
  "writeTLMethodChatlistsEditExportedInvite = write_fobject
     [(1698543165, [wf ''_'' writeInt32, wf_flags ''flags'' [(''title'', 1), (''peers'', 2)],
         wf ''chatlist'' writeTLInputChatlist, wf ''slug'' writeString,
         wf_if ''flags'' 1 ''title'' writeString,
         wf_if ''flags'' 2 ''peers'' (writeVector (Some writeTLInputPeer))])]"

definition readTLMethodChatlistsGetExportedInvites :: tl_reader where
  "readTLMethodChatlistsGetExportedInvites = read_method (- 838608253) readTLChatlistsExportedInvites"

definition writeTLMethodChatlistsGetExportedInvites :: tl_writer where
  "writeTLMethodChatlistsGetExportedInvites = write_fobject
     [(- 838608253, [wf ''_'' writeInt32, wf ''chatlist'' writeTLInputChatlist])]"

definition readTLMethodChatlistsCheckChatlistInvite :: tl_reader where
  "readTLMethodChatlistsCheckChatlistInvite = read_method (1103171583) readTLChatlistsChatlistInvite"

definition writeTLMethodChatlistsCheckChatlistInvite :: tl_writer where
  "writeTLMethodChatlistsCheckChatlistInvite = write_fobject
     [(1103171583, [wf ''_'' writeInt32, wf ''slug'' writeString])]"

definition writeTLMethodChatlistsJoinChatlistInvite :: tl_writer where
  "writeTLMethodChatlistsJoinChatlistInvite = write_fobject
     [(- 1498291302, [wf ''_'' writeInt32, wf ''slug'' writeString,
         wf ''peers'' (writeVector (Some writeTLInputPeer))])]"

definition readTLMethodChatlistsGetChatlistUpdates :: tl_reader where
  "readTLMethodChatlistsGetChatlistUpdates = read_method (- 1992190687) readTLChatlistsChatlistUpdates"

definition writeTLMethodChatlistsGetChatlistUpdates :: tl_writer where
  "writeTLMethodChatlistsGetChatlistUpdates = write_fobject
     [(- 1992190687, [wf ''_'' writeInt32, wf ''chatlist'' writeTLInputChatlist])]"

definition writeTLMethodChatlistsJoinChatlistUpdates :: tl_writer where
  "writeTLMethodChatlistsJoinChatlistUpdates = write_fobject
     [(- 527828747, [wf ''_'' writeInt32, wf ''chatlist'' writeTLInputChatlist,
         wf ''peers'' (writeVector (Some writeTLInputPeer))])]"

definition readTLMethodChatlistsHideChatlistUpdates :: tl_reader where
  "readTLMethodChatlistsHideChatlistUpdates = read_method (1726252795) readBool"

definition writeTLMethodChatlistsHideChatlistUpdates :: tl_writer where
  "writeTLMethodChatlistsHideChatlistUpdates = write_fobject
     [(1726252795, [wf ''_'' writeInt32, wf ''chatlist'' writeTLInputChatlist])]"

definition readTLMethodChatlistsGetLeaveChatlistSuggestions :: tl_reader where
  "readTLMethodChatlistsGetLeaveChatlistSuggestions = read_method (- 37955820) (readVector (Some readTLPeer))"

definition writeTLMethodChatlistsGetLeaveChatlistSuggestions :: tl_writer where
  "writeTLMethodChatlistsGetLeaveChatlistSuggestions = write_fobject
     [(- 37955820, [wf ''_'' writeInt32, wf ''chatlist'' writeTLInputChatlist])]"

definition writeTLMethodChatlistsLeaveChatlist :: tl_writer where
  "writeTLMethodChatlistsLeaveChatlist = write_fobject
     [(1962598714, [wf ''_'' writeInt32, wf ''chatlist'' writeTLInputChatlist,
         wf ''peers'' (writeVector (Some writeTLInputPeer))])]"

definition readTLMethodStoriesCanSendStory :: tl_reader where
  "readTLMethodStoriesCanSendStory = read_method (820732912) readTLStoriesCanSendStoryCount"

definition writeTLMethodStoriesCanSendStory :: tl_writer where
  "writeTLMethodStoriesCanSendStory = write_fobject
     [(820732912, [wf ''_'' writeInt32, wf ''peer'' writeTLInputPeer])]"

definition readTLMethodStoriesDeleteStories :: tl_reader where
  "readTLMethodStoriesDeleteStories = read_method (- 1369842849) (readVector (Some readInt32))"

definition writeTLMethodStoriesDeleteStories :: tl_writer where
  "writeTLMethodStoriesDeleteStories = write_fobject
     [(- 1369842849, [wf ''_'' writeInt32, wf ''peer'' writeTLInputPeer,
         wf ''id'' (writeVector (Some writeInt32))])]"

definition readTLMethodStoriesTogglePinned :: tl_reader where
  "readTLMethodStoriesTogglePinned = read_method (- 1703566865) (readVector (Some readInt32))"

definition writeTLMethodStoriesTogglePinned :: tl_writer where
  "writeTLMethodStoriesTogglePinned = write_fobject
     [(- 1703566865, [wf ''_'' writeInt32, wf ''peer'' writeTLInputPeer,
         wf ''id'' (writeVector (Some writeInt32)), wf ''pinned'' writeBool])]"

definition writeTLMethodStoriesGetAllStories :: tl_writer where
  "writeTLMethodStoriesGetAllStories = write_fobject
     [(- 290400731, [wf ''_'' writeInt32, wf_flags ''flags'' [(''next'', 1), (''hidden'', 2),
         (''state'', 0)], wf_if ''flags'' 0 ''state'' writeString])]"

definition writeTLMethodStoriesGetPinnedStories :: tl_writer where
  "writeTLMethodStoriesGetPinnedStories = write_fobject
     [(1478600156, [wf ''_'' writeInt32, wf ''peer'' writeTLInputPeer, wf ''offset_id'' writeInt32,
         wf ''limit'' writeInt32])]"

definition writeTLMethodStoriesGetStoriesArchive :: tl_writer where
  "writeTLMethodStoriesGetStoriesArchive = write_fobject
     [(- 1271586794, [wf ''_'' writeInt32, wf ''peer'' writeTLInputPeer,
         wf ''offset_id'' writeInt32, wf ''limit'' writeInt32])]"

definition writeTLMethodStoriesGetStoriesByID :: tl_writer where
  "writeTLMethodStoriesGetStoriesByID = write_fobject
     [(1467271796, [wf ''_'' writeInt32, wf ''peer'' writeTLInputPeer,
         wf ''id'' (writeVector (Some writeInt32))])]"

definition readTLMethodStoriesToggleAllStoriesHidden :: tl_reader where
  "readTLMethodStoriesToggleAllStoriesHidden = read_method (2082822084) readBool"

definition writeTLMethodStoriesToggleAllStoriesHidden :: tl_writer where
  "writeTLMethodStoriesToggleAllStoriesHidden = write_fobject
     [(2082822084, [wf ''_'' writeInt32, wf ''hidden'' writeBool])]"

definition readTLMethodStoriesReadStories :: tl_reader where
  "readTLMethodStoriesReadStories = read_method (- 1521034552) (readVector (Some readInt32))"

definition writeTLMethodStoriesReadStories :: tl_writer where
  "writeTLMethodStoriesReadStories = write_fobject
     [(- 1521034552, [wf ''_'' writeInt32, wf ''peer'' writeTLInputPeer,
         wf ''max_id'' writeInt32])]"

definition readTLMethodStoriesIncrementStoryViews :: tl_reader where
  "readTLMethodStoriesIncrementStoryViews = read_method (- 1308456197) readBool"

definition writeTLMethodStoriesIncrementStoryViews :: tl_writer where
  "writeTLMethodStoriesIncrementStoryViews = write_fobject
     [(- 1308456197, [wf ''_'' writeInt32, wf ''peer'' writeTLInputPeer,
         wf ''id'' (writeVector (Some writeInt32))])]"

definition writeTLMethodStoriesGetStoryViewsList :: tl_writer where
  "writeTLMethodStoriesGetStoryViewsList = write_fobject
     [(2127707223, [wf ''_'' writeInt32, wf_flags ''flags'' [(''just_contacts'', 0),
         (''reactions_first'', 2), (''forwards_first'', 3), (''q'', 1)],
         wf ''peer'' writeTLInputPeer, wf_if ''flags'' 1 ''q'' writeString, wf ''id'' writeInt32,
         wf ''offset'' writeString, wf ''limit'' writeInt32])]"

definition readTLMethodStoriesGetStoriesViews :: tl_reader where
  "readTLMethodStoriesGetStoriesViews = read_method (685862088) readTLStoriesStoryViews"

definition writeTLMethodStoriesGetStoriesViews :: tl_writer where
  "writeTLMethodStoriesGetStoriesViews = write_fobject
     [(685862088, [wf ''_'' writeInt32, wf ''peer'' writeTLInputPeer,
         wf ''id'' (writeVector (Some writeInt32))])]"

definition readTLMethodStoriesExportStoryLink :: tl_reader where
  "readTLMethodStoriesExportStoryLink = read_method (2072899360) readTLExportedStoryLink"

definition writeTLMethodStoriesExportStoryLink :: tl_writer where
  "writeTLMethodStoriesExportStoryLink = write_fobject
     [(2072899360, [wf ''_'' writeInt32, wf ''peer'' writeTLInputPeer, wf ''id'' writeInt32])]"

definition readTLMethodStoriesReport :: tl_reader where
  "readTLMethodStoriesReport = read_method (433646405) readTLReportResult"

definition writeTLMethodStoriesReport :: tl_writer where
  "writeTLMethodStoriesReport = write_fobject
     [(433646405, [wf ''_'' writeInt32, wf ''peer'' writeTLInputPeer,
         wf ''id'' (writeVector (Some writeInt32)), wf ''option'' writeByteArray,
         wf ''message'' writeString])]"

definition writeTLMethodStoriesActivateStealthMode :: tl_writer where
  "writeTLMethodStoriesActivateStealthMode = write_fobject
     [(1471926630, [wf ''_'' writeInt32, wf_flags ''flags'' [(''past'', 0), (''future'', 1)]])]"

definition writeTLMethodStoriesSendReaction :: tl_writer where
  "writeTLMethodStoriesSendReaction = write_fobject
     [(2144810674, [wf ''_'' writeInt32, wf_flags ''flags'' [(''add_to_recent'', 0)],
         wf ''peer'' writeTLInputPeer, wf ''story_id'' writeInt32,
         wf ''reaction'' writeTLReaction])]"

definition writeTLMethodStoriesGetPeerStories :: tl_writer where
  "writeTLMethodStoriesGetPeerStories = write_fobject
     [(743103056, [wf ''_'' writeInt32, wf ''peer'' writeTLInputPeer])]"

definition writeTLMethodStoriesGetAllReadPeerStories :: tl_writer where
  "writeTLMethodStoriesGetAllReadPeerStories = write_fobject
     [(- 1688541191, [wf ''_'' writeInt32])]"

definition readTLMethodStoriesGetPeerMaxIDs :: tl_reader where
  "readTLMethodStoriesGetPeerMaxIDs = read_method (2018087280) (readVector (Some readTLRecentStory))"

definition writeTLMethodStoriesGetPeerMaxIDs :: tl_writer where
  "writeTLMethodStoriesGetPeerMaxIDs = write_fobject
     [(2018087280, [wf ''_'' writeInt32, wf ''id'' (writeVector (Some writeTLInputPeer))])]"

definition readTLMethodStoriesGetChatsToSend :: tl_reader where
  "readTLMethodStoriesGetChatsToSend = read_method (- 1519744160) readTLMessagesChats"

definition writeTLMethodStoriesGetChatsToSend :: tl_writer where
  "writeTLMethodStoriesGetChatsToSend = write_fobject
     [(- 1519744160, [wf ''_'' writeInt32])]"

definition readTLMethodStoriesTogglePeerStoriesHidden :: tl_reader where
  "readTLMethodStoriesTogglePeerStoriesHidden = read_method (- 1123805756) readBool"

definition writeTLMethodStoriesTogglePeerStoriesHidden :: tl_writer where
  "writeTLMethodStoriesTogglePeerStoriesHidden = write_fobject
     [(- 1123805756, [wf ''_'' writeInt32, wf ''peer'' writeTLInputPeer, wf ''hidden'' writeBool])]"

definition writeTLMethodStoriesGetStoryReactionsList :: tl_writer where
  "writeTLMethodStoriesGetStoryReactionsList = write_fobject
     [(- 1179482081, [wf ''_'' writeInt32, wf_flags ''flags'' [(''forwards_first'', 2),
         (''reaction'', 0), (''offset'', 1)], wf ''peer'' writeTLInputPeer, wf ''id'' writeInt32,
         wf_if ''flags'' 0 ''reaction'' writeTLReaction, wf_if ''flags'' 1 ''offset'' writeString,
         wf ''limit'' writeInt32])]"

definition readTLMethodStoriesTogglePinnedToTop :: tl_reader where
  "readTLMethodStoriesTogglePinnedToTop = read_method (187268763) readBool"

definition writeTLMethodStoriesTogglePinnedToTop :: tl_writer where
  "writeTLMethodStoriesTogglePinnedToTop = write_fobject
     [(187268763, [wf ''_'' writeInt32, wf ''peer'' writeTLInputPeer,
         wf ''id'' (writeVector (Some writeInt32))])]"

definition writeTLMethodStoriesCreateAlbum :: tl_writer where
  "writeTLMethodStoriesCreateAlbum = write_fobject
     [(- 1553754395, [wf ''_'' writeInt32, wf ''peer'' writeTLInputPeer, wf ''title'' writeString,
         wf ''stories'' (writeVector (Some writeInt32))])]"

definition writeTLMethodStoriesUpdateAlbum :: tl_writer where
  "writeTLMethodStoriesUpdateAlbum = write_fobject
     [(1582455222, [wf ''_'' writeInt32, wf_flags ''flags'' [(''title'', 0), (''delete_stories'',
         1), (''add_stories'', 2), (''order'', 3)], wf ''peer'' writeTLInputPeer,
         wf ''album_id'' writeInt32, wf_if ''flags'' 0 ''title'' writeString,
         wf_if ''flags'' 1 ''delete_stories'' (writeVector (Some writeInt32)),
         wf_if ''flags'' 2 ''add_stories'' (writeVector (Some writeInt32)),
         wf_if ''flags'' 3 ''order'' (writeVector (Some writeInt32))])]"

definition readTLMethodStoriesReorderAlbums :: tl_reader where
  "readTLMethodStoriesReorderAlbums = read_method (- 2060059687) readBool"

definition writeTLMethodStoriesReorderAlbums :: tl_writer where
  "writeTLMethodStoriesReorderAlbums = write_fobject
     [(- 2060059687, [wf ''_'' writeInt32, wf ''peer'' writeTLInputPeer,
         wf ''order'' (writeVector (Some writeInt32))])]"

definition readTLMethodStoriesDeleteAlbum :: tl_reader where
  "readTLMethodStoriesDeleteAlbum = read_method (- 1925949744) readBool"

definition writeTLMethodStoriesDeleteAlbum :: tl_writer where
  "writeTLMethodStoriesDeleteAlbum = write_fobject
     [(- 1925949744, [wf ''_'' writeInt32, wf ''peer'' writeTLInputPeer,
         wf ''album_id'' writeInt32])]"

definition writeTLMethodStoriesGetAlbums :: tl_writer where
  "writeTLMethodStoriesGetAlbums = write_fobject
     [(632548039, [wf ''_'' writeInt32, wf ''peer'' writeTLInputPeer, wf ''hash'' writeInt64])]"

definition writeTLMethodStoriesGetAlbumStories :: tl_writer where
  "writeTLMethodStoriesGetAlbumStories = write_fobject
     [(- 1400869535, [wf ''_'' writeInt32, wf ''peer'' writeTLInputPeer,
         wf ''album_id'' writeInt32, wf ''offset'' writeInt32, wf ''limit'' writeInt32])]"

definition writeTLMethodStoriesStartLive :: tl_writer where
  "writeTLMethodStoriesStartLive = write_fobject
     [(- 798372642, [wf ''_'' writeInt32, wf_flags ''flags'' [(''pinned'', 2), (''noforwards'', 4),
         (''rtmp_stream'', 5), (''caption'', 0), (''entities'', 1), (''messages_enabled'', 6),
         (''send_paid_messages_stars'', 7)], wf ''peer'' writeTLInputPeer,
         wf_if ''flags'' 0 ''caption'' writeString,
         wf_if ''flags'' 1 ''entities'' (writeVector (Some writeTLMessageEntity)),
         wf ''privacy_rules'' (writeVector (Some writeTLInputPrivacyRule)),
         wf ''random_id'' writeInt64, wf_if ''flags'' 6 ''messages_enabled'' writeBool,
         wf_if ''flags'' 7 ''send_paid_messages_stars'' writeInt64])]"

definition readTLMethodPremiumGetBoostsList :: tl_reader where
  "readTLMethodPremiumGetBoostsList = read_method (1626764896) readTLPremiumBoostsList"

definition writeTLMethodPremiumGetBoostsList :: tl_writer where
  "writeTLMethodPremiumGetBoostsList = write_fobject
     [(1626764896, [wf ''_'' writeInt32, wf_flags ''flags'' [(''gifts'', 0)],
         wf ''peer'' writeTLInputPeer, wf ''offset'' writeString, wf ''limit'' writeInt32])]"

definition readTLMethodPremiumGetMyBoosts :: tl_reader where
  "readTLMethodPremiumGetMyBoosts = read_method (199719754) readTLPremiumMyBoosts"

definition writeTLMethodPremiumGetMyBoosts :: tl_writer where
  "writeTLMethodPremiumGetMyBoosts = write_fobject
     [(199719754, [wf ''_'' writeInt32])]"

definition readTLMethodPremiumApplyBoost :: tl_reader where
  "readTLMethodPremiumApplyBoost = read_method (1803396934) readTLPremiumMyBoosts"

definition writeTLMethodPremiumApplyBoost :: tl_writer where
  "writeTLMethodPremiumApplyBoost = write_fobject
     [(1803396934, [wf ''_'' writeInt32, wf_flags ''flags'' [(''slots'', 0)],
         wf_if ''flags'' 0 ''slots'' (writeVector (Some writeInt32)),
         wf ''peer'' writeTLInputPeer])]"

definition writeTLMethodPremiumGetBoostsStatus :: tl_writer where
  "writeTLMethodPremiumGetBoostsStatus = write_fobject
     [(70197089, [wf ''_'' writeInt32, wf ''peer'' writeTLInputPeer])]"

definition readTLMethodPremiumGetUserBoosts :: tl_reader where
  "readTLMethodPremiumGetUserBoosts = read_method (965037343) readTLPremiumBoostsList"

definition writeTLMethodPremiumGetUserBoosts :: tl_writer where
  "writeTLMethodPremiumGetUserBoosts = write_fobject
     [(965037343, [wf ''_'' writeInt32, wf ''peer'' writeTLInputPeer,
         wf ''user_id'' writeTLInputUser])]"

definition readTLMethodSmsjobsIsEligibleToJoin :: tl_reader where
  "readTLMethodSmsjobsIsEligibleToJoin = read_method (249313744) readTLSmsjobsEligibilityToJoin"

definition writeTLMethodSmsjobsIsEligibleToJoin :: tl_writer where
  "writeTLMethodSmsjobsIsEligibleToJoin = write_fobject
     [(249313744, [wf ''_'' writeInt32])]"

definition readTLMethodSmsjobsJoin :: tl_reader where
  "readTLMethodSmsjobsJoin = read_method (- 1488007635) readBool"

definition writeTLMethodSmsjobsJoin :: tl_writer where
  "writeTLMethodSmsjobsJoin = write_fobject
     [(- 1488007635, [wf ''_'' writeInt32])]"

definition readTLMethodSmsjobsLeave :: tl_reader where
  "readTLMethodSmsjobsLeave = read_method (- 1734824589) readBool"

definition writeTLMethodSmsjobsLeave :: tl_writer where
  "writeTLMethodSmsjobsLeave = write_fobject
     [(- 1734824589, [wf ''_'' writeInt32])]"

definition readTLMethodSmsjobsUpdateSettings :: tl_reader where
  "readTLMethodSmsjobsUpdateSettings = read_method (155164863) readBool"

definition writeTLMethodSmsjobsUpdateSettings :: tl_writer where
  "writeTLMethodSmsjobsUpdateSettings = write_fobject
     [(155164863, [wf ''_'' writeInt32, wf_flags ''flags'' [(''allow_international'', 0)]])]"

definition readTLMethodSmsjobsGetStatus :: tl_reader where
  "readTLMethodSmsjobsGetStatus = read_method (279353576) readTLSmsjobsStatus"

definition writeTLMethodSmsjobsGetStatus :: tl_writer where
  "writeTLMethodSmsjobsGetStatus = write_fobject
     [(279353576, [wf ''_'' writeInt32])]"

definition readTLMethodSmsjobsGetSmsJob :: tl_reader where
  "readTLMethodSmsjobsGetSmsJob = read_method (2005766191) readTLSmsJob"

definition writeTLMethodSmsjobsGetSmsJob :: tl_writer where
  "writeTLMethodSmsjobsGetSmsJob = write_fobject
     [(2005766191, [wf ''_'' writeInt32, wf ''job_id'' writeString])]"

definition readTLMethodSmsjobsFinishJob :: tl_reader where
  "readTLMethodSmsjobsFinishJob = read_method (1327415076) readBool"

definition writeTLMethodSmsjobsFinishJob :: tl_writer where
  "writeTLMethodSmsjobsFinishJob = write_fobject
     [(1327415076, [wf ''_'' writeInt32, wf_flags ''flags'' [(''error'', 0)],
         wf ''job_id'' writeString, wf_if ''flags'' 0 ''error'' writeString])]"

definition readTLMethodFragmentGetCollectibleInfo :: tl_reader where
  "readTLMethodFragmentGetCollectibleInfo = read_method (- 1105295942) readTLFragmentCollectibleInfo"

definition writeTLMethodFragmentGetCollectibleInfo :: tl_writer where
  "writeTLMethodFragmentGetCollectibleInfo = write_fobject
     [(- 1105295942, [wf ''_'' writeInt32, wf ''collectible'' writeTLInputCollectible])]"

definition readTLMethodAicomposeCreateTone :: tl_reader where
  "readTLMethodAicomposeCreateTone = read_method (1252538643) readTLAiComposeTone"

definition writeTLMethodAicomposeCreateTone :: tl_writer where
  "writeTLMethodAicomposeCreateTone = write_fobject
     [(1252538643, [wf ''_'' writeInt32, wf_flags ''flags'' [(''display_author'', 0)],
         wf ''emoji_id'' writeInt64, wf ''title'' writeString, wf ''prompt'' writeString])]"

definition readTLMethodAicomposeUpdateTone :: tl_reader where
  "readTLMethodAicomposeUpdateTone = read_method (- 1875128487) readTLAiComposeTone"

definition writeTLMethodAicomposeUpdateTone :: tl_writer where
  "writeTLMethodAicomposeUpdateTone = write_fobject
     [(- 1875128487, [wf ''_'' writeInt32, wf_flags ''flags'' [(''display_author'', 0),
         (''emoji_id'', 1), (''title'', 2), (''prompt'', 3)],
         wf ''tone'' writeTLInputAiComposeTone, wf_if ''flags'' 0 ''display_author'' writeBool,
         wf_if ''flags'' 1 ''emoji_id'' writeInt64, wf_if ''flags'' 2 ''title'' writeString,
         wf_if ''flags'' 3 ''prompt'' writeString])]"

definition readTLMethodAicomposeSaveTone :: tl_reader where
  "readTLMethodAicomposeSaveTone = read_method (394447793) readBool"

definition writeTLMethodAicomposeSaveTone :: tl_writer where
  "writeTLMethodAicomposeSaveTone = write_fobject
     [(394447793, [wf ''_'' writeInt32, wf ''tone'' writeTLInputAiComposeTone,
         wf ''unsave'' writeBool])]"

definition readTLMethodAicomposeDeleteTone :: tl_reader where
  "readTLMethodAicomposeDeleteTone = read_method (- 583454358) readBool"

definition writeTLMethodAicomposeDeleteTone :: tl_writer where
  "writeTLMethodAicomposeDeleteTone = write_fobject
     [(- 583454358, [wf ''_'' writeInt32, wf ''tone'' writeTLInputAiComposeTone])]"

definition readTLMethodAicomposeGetTone :: tl_reader where
  "readTLMethodAicomposeGetTone = read_method (- 1293370877) readTLAicomposeTones"

definition writeTLMethodAicomposeGetTone :: tl_writer where
  "writeTLMethodAicomposeGetTone = write_fobject
     [(- 1293370877, [wf ''_'' writeInt32, wf ''tone'' writeTLInputAiComposeTone])]"

definition readTLMethodAicomposeGetTones :: tl_reader where
  "readTLMethodAicomposeGetTones = read_method (- 1412066815) readTLAicomposeTones"

definition writeTLMethodAicomposeGetTones :: tl_writer where
  "writeTLMethodAicomposeGetTones = write_fobject
     [(- 1412066815, [wf ''_'' writeInt32, wf ''hash'' writeInt64])]"

definition readTLMethodAicomposeGetToneExample :: tl_reader where
  "readTLMethodAicomposeGetToneExample = read_method (- 776688876) readTLAiComposeToneExample"

definition writeTLMethodAicomposeGetToneExample :: tl_writer where
  "writeTLMethodAicomposeGetToneExample = write_fobject
     [(- 776688876, [wf ''_'' writeInt32, wf ''tone'' writeTLInputAiComposeTone,
         wf ''num'' writeInt32])]"

definition writeTLMethodCommunitiesCreate :: tl_writer where
  "writeTLMethodCommunitiesCreate = write_fobject
     [(- 1506256404, [wf ''_'' writeInt32, wf_flags ''flags'' [(''hidden'', 1), (''about'', 0)],
         wf ''title'' writeString, wf_if ''flags'' 0 ''about'' writeString,
         wf ''peer'' writeTLInputPeer])]"

definition readTLMethodCommunitiesTogglePeerLink :: tl_reader where
  "readTLMethodCommunitiesTogglePeerLink = read_method (1936576490) readBool"

definition writeTLMethodCommunitiesTogglePeerLink :: tl_writer where
  "writeTLMethodCommunitiesTogglePeerLink = write_fobject
     [(1936576490, [wf ''_'' writeInt32, wf_flags ''flags'' [(''visible'', 0), (''hidden'', 1),
         (''deleted'', 2)], wf ''community'' writeTLInputChannel, wf ''peer'' writeTLInputPeer])]"

definition readTLMethodCommunitiesGetJoinedCommunities :: tl_reader where
  "readTLMethodCommunitiesGetJoinedCommunities = read_method (- 1503401936) readTLMessagesChats"

definition writeTLMethodCommunitiesGetJoinedCommunities :: tl_writer where
  "writeTLMethodCommunitiesGetJoinedCommunities = write_fobject
     [(- 1503401936, [wf ''_'' writeInt32])]"

definition writeTLMethodCommunitiesToggleCommunityCollapsedInDialogs :: tl_writer where
  "writeTLMethodCommunitiesToggleCommunityCollapsedInDialogs = write_fobject
     [(- 681122838, [wf ''_'' writeInt32, wf_flags ''flags'' [(''collapsed'', 0)],
         wf ''community'' writeTLInputChannel])]"

definition readTLMethodCommunitiesGetPeerLinkRequests :: tl_reader where
  "readTLMethodCommunitiesGetPeerLinkRequests = read_method (- 1820904636) readTLCommunitiesPeerLinkRequests"

definition writeTLMethodCommunitiesGetPeerLinkRequests :: tl_writer where
  "writeTLMethodCommunitiesGetPeerLinkRequests = write_fobject
     [(- 1820904636, [wf ''_'' writeInt32, wf ''community'' writeTLInputChannel,
         wf ''offset'' writeString, wf ''limit'' writeInt32])]"

definition readTLMethodCommunitiesTogglePeerLinkRequestApproval :: tl_reader where
  "readTLMethodCommunitiesTogglePeerLinkRequestApproval = read_method (- 1937630808) readBool"

definition writeTLMethodCommunitiesTogglePeerLinkRequestApproval :: tl_writer where
  "writeTLMethodCommunitiesTogglePeerLinkRequestApproval = write_fobject
     [(- 1937630808, [wf ''_'' writeInt32, wf_flags ''flags'' [(''reject'', 0)],
         wf ''community'' writeTLInputChannel, wf ''peer'' writeTLInputPeer])]"

definition readTLMethodCommunitiesToggleAllPeerLinkRequestApproval :: tl_reader where
  "readTLMethodCommunitiesToggleAllPeerLinkRequestApproval = read_method (- 1075585731) readBool"

definition writeTLMethodCommunitiesToggleAllPeerLinkRequestApproval :: tl_writer where
  "writeTLMethodCommunitiesToggleAllPeerLinkRequestApproval = write_fobject
     [(- 1075585731, [wf ''_'' writeInt32, wf_flags ''flags'' [(''reject'', 0)],
         wf ''community'' writeTLInputChannel])]"

definition readTLMethodCommunitiesToggleParticipantBanned :: tl_reader where
  "readTLMethodCommunitiesToggleParticipantBanned = read_method (- 1721258737) readBool"

definition writeTLMethodCommunitiesToggleParticipantBanned :: tl_writer where
  "writeTLMethodCommunitiesToggleParticipantBanned = write_fobject
     [(- 1721258737, [wf ''_'' writeInt32, wf_flags ''flags'' [(''unban'', 0)],
         wf ''community'' writeTLInputChannel, wf ''participant'' writeTLInputPeer])]"

definition readTLMethodCommunitiesGetParticipantJoinedChats :: tl_reader where
  "readTLMethodCommunitiesGetParticipantJoinedChats = read_method (- 125916245) readTLCommunitiesParticipantJoinedChats"

definition writeTLMethodCommunitiesGetParticipantJoinedChats :: tl_writer where
  "writeTLMethodCommunitiesGetParticipantJoinedChats = write_fobject
     [(- 125916245, [wf ''_'' writeInt32, wf ''community'' writeTLInputChannel,
         wf ''participant'' writeTLInputPeer])]"

definition readTLMethodEphemeralDeleteMessage :: tl_reader where
  "readTLMethodEphemeralDeleteMessage = read_method (- 1829312617) readBool"

definition writeTLMethodEphemeralDeleteMessage :: tl_writer where
  "writeTLMethodEphemeralDeleteMessage = write_fobject
     [(- 1829312617, [wf ''_'' writeInt32, wf_flags ''flags'' [(''peer'', 0)],
         wf_if ''flags'' 0 ''peer'' writeTLInputPeer, wf ''receiver_id'' writeTLInputUser,
         wf ''id'' writeInt32])]"

definition readTLMethodEphemeralReportMessage :: tl_reader where
  "readTLMethodEphemeralReportMessage = read_method (- 2029718849) readTLReportResult"

definition writeTLMethodEphemeralReportMessage :: tl_writer where
  "writeTLMethodEphemeralReportMessage = write_fobject
     [(- 2029718849, [wf ''_'' writeInt32, wf ''peer'' writeTLInputPeer, wf ''id'' writeInt32,
         wf ''option'' writeByteArray, wf ''message'' writeString])]"

definition readTLMethodEphemeralGetCallbackAnswer :: tl_reader where
  "readTLMethodEphemeralGetCallbackAnswer = read_method (1067738312) readTLMessagesBotCallbackAnswer"

definition writeTLMethodEphemeralGetCallbackAnswer :: tl_writer where
  "writeTLMethodEphemeralGetCallbackAnswer = write_fobject
     [(1067738312, [wf ''_'' writeInt32, wf_flags ''flags'' [(''data'', 1)],
         wf ''peer'' writeTLInputPeer, wf ''id'' writeInt32,
         wf_if ''flags'' 1 ''data'' writeByteArray])]"

definition readTLMethodEphemeralDeleteWelcomeMessage :: tl_reader where
  "readTLMethodEphemeralDeleteWelcomeMessage = read_method (- 394090015) readBool"

definition writeTLMethodEphemeralDeleteWelcomeMessage :: tl_writer where
  "writeTLMethodEphemeralDeleteWelcomeMessage = write_fobject
     [(- 394090015, [wf ''_'' writeInt32, wf ''peer'' writeTLInputPeer, wf ''id'' writeInt32])]"

definition readTLMethodEphemeralDeleteAllWelcomeMessages :: tl_reader where
  "readTLMethodEphemeralDeleteAllWelcomeMessages = read_method (1934595873) readBool"

definition writeTLMethodEphemeralDeleteAllWelcomeMessages :: tl_writer where
  "writeTLMethodEphemeralDeleteAllWelcomeMessages = write_fobject
     [(1934595873, [wf ''_'' writeInt32, wf ''peer'' writeTLInputPeer])]"

definition writeTLMethodEphemeralGetWelcomeMessages :: tl_writer where
  "writeTLMethodEphemeralGetWelcomeMessages = write_fobject
     [(- 610614899, [wf ''_'' writeInt32, wf ''peer'' writeTLInputPeer, wf ''hash'' writeInt64])]"

end
