(* ===== verification/TlPage.thy ===== *)
theory TlPage
  imports TlTypes4
begin

section \<open>The API schema, rich text and web pages: libkg/tlschema.cpp\<close>

text \<open>
  Formatted text contains formatted text, and the blocks of a page contain blocks and lists. Each type has its table and the interpretation of the codec contract;
  a group of types that refer to one another gets it from \<open>tl_recursion\<close>.
\<close>

definition readTLInputGeoPoint :: tl_reader where
  "readTLInputGeoPoint = read_object
     [(- 457104426, []),
      (1210199983, [rd ''flags'' readUInt32, rd ''lat'' readDouble, rd ''long'' readDouble,
         rd_if ''flags'' 0 ''accuracy_radius'' readInt32])]"

definition writeTLInputGeoPoint :: tl_writer where
  "writeTLInputGeoPoint = write_fobject
     [(- 457104426, [wf ''_'' writeInt32]),
      (1210199983, [wf ''_'' writeInt32, wf_flags ''flags'' [(''accuracy_radius'', 0)],
         wf ''lat'' writeDouble, wf ''long'' writeDouble,
         wf_if ''flags'' 0 ''accuracy_radius'' writeInt32])]"

definition TL_InputGeoPoint_table :: flag_table where
  "TL_InputGeoPoint_table =
     [(- 457104426, []),
      (1210199983, [Flags ''flags'' [(''accuracy_radius'', 0)],
        Plain (''lat'', readDouble, writeDouble, enc_double, is_VDouble),
        Plain (''long'', readDouble, writeDouble, enc_double, is_VDouble),
        Cond ''flags'' 0 (''accuracy_radius'', readInt32, writeInt32, enc_int32, is_VInt)])]"

interpretation tl_InputGeoPoint: tl_codec readTLInputGeoPoint writeTLInputGeoPoint "enc_fobject TL_InputGeoPoint_table" "ok_fobject TL_InputGeoPoint_table"
  by (rule flag_schema_codec, unfold TL_InputGeoPoint_table_def, intro flag_tableI)
    (simp_all add: readTLInputGeoPoint_def writeTLInputGeoPoint_def flag_schema_simps)

definition readTLMaskCoords :: tl_reader where
  "readTLMaskCoords = read_object
     [(- 1361650766, [rd ''n'' readInt32, rd ''x'' readDouble, rd ''y'' readDouble,
         rd ''zoom'' readDouble])]"

definition writeTLMaskCoords :: tl_writer where
  "writeTLMaskCoords = write_fobject
     [(- 1361650766, [wf ''_'' writeInt32, wf ''n'' writeInt32, wf ''x'' writeDouble,
         wf ''y'' writeDouble, wf ''zoom'' writeDouble])]"

definition TL_MaskCoords_table :: flag_table where
  "TL_MaskCoords_table =
     [(- 1361650766, [Plain (''n'', readInt32, writeInt32, enc_int32, is_VInt),
        Plain (''x'', readDouble, writeDouble, enc_double, is_VDouble),
        Plain (''y'', readDouble, writeDouble, enc_double, is_VDouble),
        Plain (''zoom'', readDouble, writeDouble, enc_double, is_VDouble)])]"

interpretation tl_MaskCoords: tl_codec readTLMaskCoords writeTLMaskCoords "enc_fobject TL_MaskCoords_table" "ok_fobject TL_MaskCoords_table"
  by (rule flag_schema_codec, unfold TL_MaskCoords_table_def, intro flag_tableI)
    (simp_all add: readTLMaskCoords_def writeTLMaskCoords_def flag_schema_simps)

definition readTLDocumentAttribute :: tl_reader where
  "readTLDocumentAttribute = read_object
     [(1815593308, [rd ''w'' readInt32, rd ''h'' readInt32]),
      (297109817, []),
      (1662637586, [rd ''flags'' readUInt32, set_if ''flags'' 1 ''mask'', rd ''alt'' readString,
         rd ''stickerset'' readTLInputStickerSet,
         rd_if ''flags'' 0 ''mask_coords'' readTLMaskCoords]),
      (1137015880, [rd ''flags'' readUInt32, set_if ''flags'' 0 ''round_message'',
         set_if ''flags'' 1 ''supports_streaming'', set_if ''flags'' 3 ''nosound'',
         rd ''duration'' readDouble, rd ''w'' readInt32, rd ''h'' readInt32,
         rd_if ''flags'' 2 ''preload_prefix_size'' readInt32,
         rd_if ''flags'' 4 ''video_start_ts'' readDouble,
         rd_if ''flags'' 5 ''video_codec'' readString]),
      (- 1739392570, [rd ''flags'' readUInt32, set_if ''flags'' 10 ''voice'',
         rd ''duration'' readInt32, rd_if ''flags'' 0 ''title'' readString,
         rd_if ''flags'' 1 ''performer'' readString, rd_if ''flags'' 2 ''waveform'' readByteArray]),
      (358154344, [rd ''file_name'' readString]),
      (- 1744710921, []),
      (- 48981863, [rd ''flags'' readUInt32, set_if ''flags'' 0 ''free'',
         set_if ''flags'' 1 ''text_color'', rd ''alt'' readString,
         rd ''stickerset'' readTLInputStickerSet])]"

definition writeTLDocumentAttribute :: tl_writer where
  "writeTLDocumentAttribute = write_fobject
     [(1815593308, [wf ''_'' writeInt32, wf ''w'' writeInt32, wf ''h'' writeInt32]),
      (297109817, [wf ''_'' writeInt32]),
      (1662637586, [wf ''_'' writeInt32, wf_flags ''flags'' [(''mask'', 1), (''mask_coords'', 0)],
         wf ''alt'' writeString, wf ''stickerset'' writeTLInputStickerSet,
         wf_if ''flags'' 0 ''mask_coords'' writeTLMaskCoords]),
      (1137015880, [wf ''_'' writeInt32, wf_flags ''flags'' [(''round_message'', 0),
         (''supports_streaming'', 1), (''nosound'', 3), (''preload_prefix_size'', 2),
         (''video_start_ts'', 4), (''video_codec'', 5)], wf ''duration'' writeDouble,
         wf ''w'' writeInt32, wf ''h'' writeInt32,
         wf_if ''flags'' 2 ''preload_prefix_size'' writeInt32,
         wf_if ''flags'' 4 ''video_start_ts'' writeDouble,
         wf_if ''flags'' 5 ''video_codec'' writeString]),
      (- 1739392570, [wf ''_'' writeInt32, wf_flags ''flags'' [(''voice'', 10), (''title'', 0),
         (''performer'', 1), (''waveform'', 2)], wf ''duration'' writeInt32,
         wf_if ''flags'' 0 ''title'' writeString, wf_if ''flags'' 1 ''performer'' writeString,
         wf_if ''flags'' 2 ''waveform'' writeByteArray]),
      (358154344, [wf ''_'' writeInt32, wf ''file_name'' writeString]),
      (- 1744710921, [wf ''_'' writeInt32]),
      (- 48981863, [wf ''_'' writeInt32, wf_flags ''flags'' [(''free'', 0), (''text_color'', 1)],
         wf ''alt'' writeString, wf ''stickerset'' writeTLInputStickerSet])]"

definition TL_DocumentAttribute_table :: flag_table where
  "TL_DocumentAttribute_table =
     [(1815593308, [Plain (''w'', readInt32, writeInt32, enc_int32, is_VInt),
        Plain (''h'', readInt32, writeInt32, enc_int32, is_VInt)]),
      (297109817, []),
      (1662637586, [Flags ''flags'' [(''mask'', 1), (''mask_coords'', 0)],
        TrueBit ''flags'' 1 ''mask'',
        Plain (''alt'', readString, writeString, enc_string, is_short_text),
        Plain (''stickerset'', readTLInputStickerSet, writeTLInputStickerSet,
         enc_fobject TL_InputStickerSet_table, ok_fobject TL_InputStickerSet_table),
        Cond ''flags'' 0 (''mask_coords'', readTLMaskCoords, writeTLMaskCoords,
         enc_fobject TL_MaskCoords_table, ok_fobject TL_MaskCoords_table)]),
      (1137015880, [Flags ''flags'' [(''round_message'', 0), (''supports_streaming'', 1),
         (''nosound'', 3), (''preload_prefix_size'', 2), (''video_start_ts'', 4), (''video_codec'',
         5)],
        TrueBit ''flags'' 0 ''round_message'',
        TrueBit ''flags'' 1 ''supports_streaming'',
        TrueBit ''flags'' 3 ''nosound'',
        Plain (''duration'', readDouble, writeDouble, enc_double, is_VDouble),
        Plain (''w'', readInt32, writeInt32, enc_int32, is_VInt),
        Plain (''h'', readInt32, writeInt32, enc_int32, is_VInt),
        Cond ''flags'' 2 (''preload_prefix_size'', readInt32, writeInt32, enc_int32, is_VInt),
        Cond ''flags'' 4 (''video_start_ts'', readDouble, writeDouble, enc_double, is_VDouble),
        Cond ''flags'' 5 (''video_codec'', readString, writeString, enc_string, is_short_text)]),
      (- 1739392570, [Flags ''flags'' [(''voice'', 10), (''title'', 0), (''performer'', 1),
         (''waveform'', 2)],
        TrueBit ''flags'' 10 ''voice'',
        Plain (''duration'', readInt32, writeInt32, enc_int32, is_VInt),
        Cond ''flags'' 0 (''title'', readString, writeString, enc_string, is_short_text),
        Cond ''flags'' 1 (''performer'', readString, writeString, enc_string, is_short_text),
        Cond ''flags'' 2 (''waveform'', readByteArray, writeByteArray, enc_bytes, is_short_bytes)]),
      (358154344, [Plain (''file_name'', readString, writeString, enc_string, is_short_text)]),
      (- 1744710921, []),
      (- 48981863, [Flags ''flags'' [(''free'', 0), (''text_color'', 1)],
        TrueBit ''flags'' 0 ''free'',
        TrueBit ''flags'' 1 ''text_color'',
        Plain (''alt'', readString, writeString, enc_string, is_short_text),
        Plain (''stickerset'', readTLInputStickerSet, writeTLInputStickerSet,
         enc_fobject TL_InputStickerSet_table, ok_fobject TL_InputStickerSet_table)])]"

interpretation tl_DocumentAttribute: tl_codec readTLDocumentAttribute writeTLDocumentAttribute "enc_fobject TL_DocumentAttribute_table" "ok_fobject TL_DocumentAttribute_table"
  by (rule flag_schema_codec, unfold TL_DocumentAttribute_table_def, intro flag_tableI)
    (simp_all add: readTLDocumentAttribute_def writeTLDocumentAttribute_def flag_schema_simps tl_InputStickerSet.tl_codec_axioms tl_MaskCoords.tl_codec_axioms)

definition readTLInputWebDocument :: tl_reader where
  "readTLInputWebDocument = read_object
     [(- 1678949555, [rd ''url'' readString, rd ''size'' readInt32, rd ''mime_type'' readString,
         rd ''attributes'' (readVector (Some readTLDocumentAttribute))])]"

definition writeTLInputWebDocument :: tl_writer where
  "writeTLInputWebDocument = write_fobject
     [(- 1678949555, [wf ''_'' writeInt32, wf ''url'' writeString, wf ''size'' writeInt32,
         wf ''mime_type'' writeString,
         wf ''attributes'' (writeVector (Some writeTLDocumentAttribute))])]"

definition TL_InputWebDocument_table :: flag_table where
  "TL_InputWebDocument_table =
     [(- 1678949555, [Plain (''url'', readString, writeString, enc_string, is_short_text),
        Plain (''size'', readInt32, writeInt32, enc_int32, is_VInt),
        Plain (''mime_type'', readString, writeString, enc_string, is_short_text),
        Plain (''attributes'', readVector (Some readTLDocumentAttribute),
         writeVector (Some writeTLDocumentAttribute),
         enc_vector (enc_fobject TL_DocumentAttribute_table),
         ok_vector (ok_fobject TL_DocumentAttribute_table))])]"

interpretation tl_InputWebDocument: tl_codec readTLInputWebDocument writeTLInputWebDocument "enc_fobject TL_InputWebDocument_table" "ok_fobject TL_InputWebDocument_table"
  by (rule flag_schema_codec, unfold TL_InputWebDocument_table_def, intro flag_tableI)
    (simp_all add: readTLInputWebDocument_def writeTLInputWebDocument_def flag_schema_simps tl_DocumentAttribute.tl_codec_axioms tl_DocumentAttribute.vector_codec)

definition readTLVideoSize :: tl_reader where
  "readTLVideoSize = read_object
     [(- 567037804, [rd ''flags'' readUInt32, rd ''type'' readString, rd ''w'' readInt32,
         rd ''h'' readInt32, rd ''size'' readInt32,
         rd_if ''flags'' 0 ''video_start_ts'' readDouble]),
      (- 128171716, [rd ''emoji_id'' readInt64,
         rd ''background_colors'' (readVector (Some readInt32))]),
      (228623102, [rd ''stickerset'' readTLInputStickerSet, rd ''sticker_id'' readInt64,
         rd ''background_colors'' (readVector (Some readInt32))])]"

definition writeTLVideoSize :: tl_writer where
  "writeTLVideoSize = write_fobject
     [(- 567037804, [wf ''_'' writeInt32, wf_flags ''flags'' [(''video_start_ts'', 0)],
         wf ''type'' writeString, wf ''w'' writeInt32, wf ''h'' writeInt32, wf ''size'' writeInt32,
         wf_if ''flags'' 0 ''video_start_ts'' writeDouble]),
      (- 128171716, [wf ''_'' writeInt32, wf ''emoji_id'' writeInt64,
         wf ''background_colors'' (writeVector (Some writeInt32))]),
      (228623102, [wf ''_'' writeInt32, wf ''stickerset'' writeTLInputStickerSet,
         wf ''sticker_id'' writeInt64, wf ''background_colors'' (writeVector (Some writeInt32))])]"

definition TL_VideoSize_table :: flag_table where
  "TL_VideoSize_table =
     [(- 567037804, [Flags ''flags'' [(''video_start_ts'', 0)],
        Plain (''type'', readString, writeString, enc_string, is_short_text),
        Plain (''w'', readInt32, writeInt32, enc_int32, is_VInt),
        Plain (''h'', readInt32, writeInt32, enc_int32, is_VInt),
        Plain (''size'', readInt32, writeInt32, enc_int32, is_VInt),
        Cond ''flags'' 0 (''video_start_ts'', readDouble, writeDouble, enc_double, is_VDouble)]),
      (- 128171716, [Plain (''emoji_id'', readInt64, writeInt64, enc_int64, is_VLong),
        Plain (''background_colors'', readVector (Some readInt32), writeVector (Some writeInt32),
         enc_vector enc_int32, ok_vector is_VInt)]),
      (228623102, [Plain (''stickerset'', readTLInputStickerSet, writeTLInputStickerSet,
         enc_fobject TL_InputStickerSet_table, ok_fobject TL_InputStickerSet_table),
        Plain (''sticker_id'', readInt64, writeInt64, enc_int64, is_VLong),
        Plain (''background_colors'', readVector (Some readInt32), writeVector (Some writeInt32),
         enc_vector enc_int32, ok_vector is_VInt)])]"

interpretation tl_VideoSize: tl_codec readTLVideoSize writeTLVideoSize "enc_fobject TL_VideoSize_table" "ok_fobject TL_VideoSize_table"
  by (rule flag_schema_codec, unfold TL_VideoSize_table_def, intro flag_tableI)
    (simp_all add: readTLVideoSize_def writeTLVideoSize_def flag_schema_simps tl_InputStickerSet.tl_codec_axioms)

definition readTLPhoto :: tl_reader where
  "readTLPhoto = read_object
     [(590459437, [rd ''id'' readInt64]),
      (- 82216347, [rd ''flags'' readUInt32, set_if ''flags'' 0 ''has_stickers'',
         rd ''id'' readInt64, rd ''access_hash'' readInt64, rd ''file_reference'' readByteArray,
         rd ''date'' readInt32, rd ''sizes'' (readVector (Some readTLPhotoSize)),
         rd_if ''flags'' 1 ''video_sizes'' (readVector (Some readTLVideoSize)),
         rd ''dc_id'' readInt32])]"

definition writeTLPhoto :: tl_writer where
  "writeTLPhoto = write_fobject
     [(590459437, [wf ''_'' writeInt32, wf ''id'' writeInt64]),
      (- 82216347, [wf ''_'' writeInt32, wf_flags ''flags'' [(''has_stickers'', 0),
         (''video_sizes'', 1)], wf ''id'' writeInt64, wf ''access_hash'' writeInt64,
         wf ''file_reference'' writeByteArray, wf ''date'' writeInt32,
         wf ''sizes'' (writeVector (Some writeTLPhotoSize)),
         wf_if ''flags'' 1 ''video_sizes'' (writeVector (Some writeTLVideoSize)),
         wf ''dc_id'' writeInt32])]"

definition TL_Photo_table :: flag_table where
  "TL_Photo_table =
     [(590459437, [Plain (''id'', readInt64, writeInt64, enc_int64, is_VLong)]),
      (- 82216347, [Flags ''flags'' [(''has_stickers'', 0), (''video_sizes'', 1)],
        TrueBit ''flags'' 0 ''has_stickers'',
        Plain (''id'', readInt64, writeInt64, enc_int64, is_VLong),
        Plain (''access_hash'', readInt64, writeInt64, enc_int64, is_VLong),
        Plain (''file_reference'', readByteArray, writeByteArray, enc_bytes, is_short_bytes),
        Plain (''date'', readInt32, writeInt32, enc_int32, is_VInt),
        Plain (''sizes'', readVector (Some readTLPhotoSize), writeVector (Some writeTLPhotoSize),
         enc_vector (enc_fobject TL_PhotoSize_table), ok_vector (ok_fobject TL_PhotoSize_table)),
        Cond ''flags'' 1 (''video_sizes'', readVector (Some readTLVideoSize),
         writeVector (Some writeTLVideoSize), enc_vector (enc_fobject TL_VideoSize_table),
         ok_vector (ok_fobject TL_VideoSize_table)),
        Plain (''dc_id'', readInt32, writeInt32, enc_int32, is_VInt)])]"

interpretation tl_Photo: tl_codec readTLPhoto writeTLPhoto "enc_fobject TL_Photo_table" "ok_fobject TL_Photo_table"
  by (rule flag_schema_codec, unfold TL_Photo_table_def, intro flag_tableI)
    (simp_all add: readTLPhoto_def writeTLPhoto_def flag_schema_simps tl_PhotoSize.tl_codec_axioms tl_VideoSize.tl_codec_axioms tl_PhotoSize.vector_codec
      tl_VideoSize.vector_codec)

definition readTLGeoPoint :: tl_reader where
  "readTLGeoPoint = read_object
     [(286776671, []),
      (- 1297942941, [rd ''flags'' readUInt32, rd ''long'' readDouble, rd ''lat'' readDouble,
         rd ''access_hash'' readInt64, rd_if ''flags'' 0 ''accuracy_radius'' readInt32])]"

definition writeTLGeoPoint :: tl_writer where
  "writeTLGeoPoint = write_fobject
     [(286776671, [wf ''_'' writeInt32]),
      (- 1297942941, [wf ''_'' writeInt32, wf_flags ''flags'' [(''accuracy_radius'', 0)],
         wf ''long'' writeDouble, wf ''lat'' writeDouble, wf ''access_hash'' writeInt64,
         wf_if ''flags'' 0 ''accuracy_radius'' writeInt32])]"

definition TL_GeoPoint_table :: flag_table where
  "TL_GeoPoint_table =
     [(286776671, []),
      (- 1297942941, [Flags ''flags'' [(''accuracy_radius'', 0)],
        Plain (''long'', readDouble, writeDouble, enc_double, is_VDouble),
        Plain (''lat'', readDouble, writeDouble, enc_double, is_VDouble),
        Plain (''access_hash'', readInt64, writeInt64, enc_int64, is_VLong),
        Cond ''flags'' 0 (''accuracy_radius'', readInt32, writeInt32, enc_int32, is_VInt)])]"

interpretation tl_GeoPoint: tl_codec readTLGeoPoint writeTLGeoPoint "enc_fobject TL_GeoPoint_table" "ok_fobject TL_GeoPoint_table"
  by (rule flag_schema_codec, unfold TL_GeoPoint_table_def, intro flag_tableI)
    (simp_all add: readTLGeoPoint_def writeTLGeoPoint_def flag_schema_simps)

definition readTLDocument :: tl_reader where
  "readTLDocument = read_object
     [(922273905, [rd ''id'' readInt64]),
      (- 1881881384, [rd ''flags'' readUInt32, rd ''id'' readInt64, rd ''access_hash'' readInt64,
         rd ''file_reference'' readByteArray, rd ''date'' readInt32, rd ''mime_type'' readString,
         rd ''size'' readInt64, rd_if ''flags'' 0 ''thumbs'' (readVector (Some readTLPhotoSize)),
         rd_if ''flags'' 1 ''video_thumbs'' (readVector (Some readTLVideoSize)),
         rd ''dc_id'' readInt32, rd ''attributes'' (readVector (Some readTLDocumentAttribute))])]"

definition writeTLDocument :: tl_writer where
  "writeTLDocument = write_fobject
     [(922273905, [wf ''_'' writeInt32, wf ''id'' writeInt64]),
      (- 1881881384, [wf ''_'' writeInt32, wf_flags ''flags'' [(''thumbs'', 0), (''video_thumbs'',
         1)], wf ''id'' writeInt64, wf ''access_hash'' writeInt64,
         wf ''file_reference'' writeByteArray, wf ''date'' writeInt32,
         wf ''mime_type'' writeString, wf ''size'' writeInt64,
         wf_if ''flags'' 0 ''thumbs'' (writeVector (Some writeTLPhotoSize)),
         wf_if ''flags'' 1 ''video_thumbs'' (writeVector (Some writeTLVideoSize)),
         wf ''dc_id'' writeInt32,
         wf ''attributes'' (writeVector (Some writeTLDocumentAttribute))])]"

definition TL_Document_table :: flag_table where
  "TL_Document_table =
     [(922273905, [Plain (''id'', readInt64, writeInt64, enc_int64, is_VLong)]),
      (- 1881881384, [Flags ''flags'' [(''thumbs'', 0), (''video_thumbs'', 1)],
        Plain (''id'', readInt64, writeInt64, enc_int64, is_VLong),
        Plain (''access_hash'', readInt64, writeInt64, enc_int64, is_VLong),
        Plain (''file_reference'', readByteArray, writeByteArray, enc_bytes, is_short_bytes),
        Plain (''date'', readInt32, writeInt32, enc_int32, is_VInt),
        Plain (''mime_type'', readString, writeString, enc_string, is_short_text),
        Plain (''size'', readInt64, writeInt64, enc_int64, is_VLong),
        Cond ''flags'' 0 (''thumbs'', readVector (Some readTLPhotoSize),
         writeVector (Some writeTLPhotoSize), enc_vector (enc_fobject TL_PhotoSize_table),
         ok_vector (ok_fobject TL_PhotoSize_table)),
        Cond ''flags'' 1 (''video_thumbs'', readVector (Some readTLVideoSize),
         writeVector (Some writeTLVideoSize), enc_vector (enc_fobject TL_VideoSize_table),
         ok_vector (ok_fobject TL_VideoSize_table)),
        Plain (''dc_id'', readInt32, writeInt32, enc_int32, is_VInt),
        Plain (''attributes'', readVector (Some readTLDocumentAttribute),
         writeVector (Some writeTLDocumentAttribute),
         enc_vector (enc_fobject TL_DocumentAttribute_table),
         ok_vector (ok_fobject TL_DocumentAttribute_table))])]"

interpretation tl_Document: tl_codec readTLDocument writeTLDocument "enc_fobject TL_Document_table" "ok_fobject TL_Document_table"
  by (rule flag_schema_codec, unfold TL_Document_table_def, intro flag_tableI)
    (simp_all add: readTLDocument_def writeTLDocument_def flag_schema_simps tl_PhotoSize.tl_codec_axioms tl_VideoSize.tl_codec_axioms tl_DocumentAttribute.tl_codec_axioms
      tl_PhotoSize.vector_codec tl_VideoSize.vector_codec tl_DocumentAttribute.vector_codec)

definition richText_reads :: "(unit \<Rightarrow> tl_reader) \<Rightarrow> unit \<Rightarrow> step_case list" where
  "richText_reads r t =
     [(- 599948721, []),
      (1950782688, [rd ''text'' readString]),
      (1730456516, [rd ''text'' (r ())]),
      (- 653089380, [rd ''text'' (r ())]),
      (- 1054465340, [rd ''text'' (r ())]),
      (- 1678197867, [rd ''text'' (r ())]),
      (1816074681, [rd ''text'' (r ())]),
      (1009288385, [rd ''text'' (r ()), rd ''url'' readString, rd ''webpage_id'' readInt64]),
      (- 564523562, [rd ''text'' (r ()), rd ''email'' readString]),
      (2120376535, [rd ''texts'' (readVector (Some (r ())))]),
      (- 311786236, [rd ''text'' (r ())]),
      (- 939827711, [rd ''text'' (r ())]),
      (55281185, [rd ''text'' (r ())]),
      (483104362, [rd ''text'' (r ()), rd ''phone'' readString]),
      (136105807, [rd ''document_id'' readInt64, rd ''w'' readInt32, rd ''h'' readInt32]),
      (894777186, [rd ''text'' (r ()), rd ''name'' readString]),
      (- 1657885545, [rd ''source'' readString]),
      (- 1570679104, [rd ''document_id'' readInt64, rd ''alt'' readString]),
      (1277844834, [rd ''text'' (r ())]),
      (- 853225660, [rd ''text'' (r ())]),
      (1368728810, [rd ''text'' (r ())]),
      (50276819, [rd ''text'' (r ())]),
      (2073958401, [rd ''text'' (r ())]),
      (- 1402305622, [rd ''text'' (r ())]),
      (- 984177571, [rd ''text'' (r ())]),
      (616720265, [rd ''text'' (r ())]),
      (- 1185513171, [rd ''text'' (r ())]),
      (27917308, [rd ''text'' (r ()), rd ''user_id'' readInt64]),
      (- 1514906069, [rd ''flags'' readUInt32, set_if ''flags'' 0 ''relative'',
         set_if ''flags'' 1 ''short_time'', set_if ''flags'' 2 ''long_time'',
         set_if ''flags'' 3 ''short_date'', set_if ''flags'' 4 ''long_date'',
         set_if ''flags'' 5 ''day_of_week'', rd ''text'' (r ()), rd ''date'' readInt32]),
      (- 1769551024, [rd ''text'' (r ()), rd ''old_text'' (r ())]),
      (- 1345872682, [rd ''flags'' readUInt32, rd ''text'' (r ()),
         rd ''type'' readTLInlineButtonType, rd_if ''flags'' 0 ''style'' readTLRichButtonStyle])]"

definition richText_writes :: "(unit \<Rightarrow> tl_writer) \<Rightarrow> unit \<Rightarrow> step_case list" where
  "richText_writes w t =
     [(- 599948721, [wf ''_'' writeInt32]),
      (1950782688, [wf ''_'' writeInt32, wf ''text'' writeString]),
      (1730456516, [wf ''_'' writeInt32, wf ''text'' (w ())]),
      (- 653089380, [wf ''_'' writeInt32, wf ''text'' (w ())]),
      (- 1054465340, [wf ''_'' writeInt32, wf ''text'' (w ())]),
      (- 1678197867, [wf ''_'' writeInt32, wf ''text'' (w ())]),
      (1816074681, [wf ''_'' writeInt32, wf ''text'' (w ())]),
      (1009288385, [wf ''_'' writeInt32, wf ''text'' (w ()), wf ''url'' writeString,
         wf ''webpage_id'' writeInt64]),
      (- 564523562, [wf ''_'' writeInt32, wf ''text'' (w ()), wf ''email'' writeString]),
      (2120376535, [wf ''_'' writeInt32, wf ''texts'' (writeVector (Some (w ())))]),
      (- 311786236, [wf ''_'' writeInt32, wf ''text'' (w ())]),
      (- 939827711, [wf ''_'' writeInt32, wf ''text'' (w ())]),
      (55281185, [wf ''_'' writeInt32, wf ''text'' (w ())]),
      (483104362, [wf ''_'' writeInt32, wf ''text'' (w ()), wf ''phone'' writeString]),
      (136105807, [wf ''_'' writeInt32, wf ''document_id'' writeInt64, wf ''w'' writeInt32,
         wf ''h'' writeInt32]),
      (894777186, [wf ''_'' writeInt32, wf ''text'' (w ()), wf ''name'' writeString]),
      (- 1657885545, [wf ''_'' writeInt32, wf ''source'' writeString]),
      (- 1570679104, [wf ''_'' writeInt32, wf ''document_id'' writeInt64, wf ''alt'' writeString]),
      (1277844834, [wf ''_'' writeInt32, wf ''text'' (w ())]),
      (- 853225660, [wf ''_'' writeInt32, wf ''text'' (w ())]),
      (1368728810, [wf ''_'' writeInt32, wf ''text'' (w ())]),
      (50276819, [wf ''_'' writeInt32, wf ''text'' (w ())]),
      (2073958401, [wf ''_'' writeInt32, wf ''text'' (w ())]),
      (- 1402305622, [wf ''_'' writeInt32, wf ''text'' (w ())]),
      (- 984177571, [wf ''_'' writeInt32, wf ''text'' (w ())]),
      (616720265, [wf ''_'' writeInt32, wf ''text'' (w ())]),
      (- 1185513171, [wf ''_'' writeInt32, wf ''text'' (w ())]),
      (27917308, [wf ''_'' writeInt32, wf ''text'' (w ()), wf ''user_id'' writeInt64]),
      (- 1514906069, [wf ''_'' writeInt32, wf_flags ''flags'' [(''relative'', 0), (''short_time'',
         1), (''long_time'', 2), (''short_date'', 3), (''long_date'', 4), (''day_of_week'', 5)],
         wf ''text'' (w ()), wf ''date'' writeInt32]),
      (- 1769551024, [wf ''_'' writeInt32, wf ''text'' (w ()), wf ''old_text'' (w ())]),
      (- 1345872682, [wf ''_'' writeInt32, wf_flags ''flags'' [(''style'', 0)], wf ''text'' (w ()),
         wf ''type'' writeTLInlineButtonType, wf_if ''flags'' 0 ''style'' writeTLRichButtonStyle])]"

definition richText_fields :: "unit group_table" where
  "richText_fields r w e k t =
     [(- 599948721, []),
      (1950782688, [Plain (''text'', readString, writeString, enc_string, is_short_text)]),
      (1730456516, [Plain (''text'', r (), w (), e (), k ())]),
      (- 653089380, [Plain (''text'', r (), w (), e (), k ())]),
      (- 1054465340, [Plain (''text'', r (), w (), e (), k ())]),
      (- 1678197867, [Plain (''text'', r (), w (), e (), k ())]),
      (1816074681, [Plain (''text'', r (), w (), e (), k ())]),
      (1009288385, [Plain (''text'', r (), w (), e (), k ()),
        Plain (''url'', readString, writeString, enc_string, is_short_text),
        Plain (''webpage_id'', readInt64, writeInt64, enc_int64, is_VLong)]),
      (- 564523562, [Plain (''text'', r (), w (), e (), k ()),
        Plain (''email'', readString, writeString, enc_string, is_short_text)]),
      (2120376535, [Plain (''texts'', readVector (Some (r ())), writeVector (Some (w ())),
         enc_vector (e ()), ok_vector (k ()))]),
      (- 311786236, [Plain (''text'', r (), w (), e (), k ())]),
      (- 939827711, [Plain (''text'', r (), w (), e (), k ())]),
      (55281185, [Plain (''text'', r (), w (), e (), k ())]),
      (483104362, [Plain (''text'', r (), w (), e (), k ()),
        Plain (''phone'', readString, writeString, enc_string, is_short_text)]),
      (136105807, [Plain (''document_id'', readInt64, writeInt64, enc_int64, is_VLong),
        Plain (''w'', readInt32, writeInt32, enc_int32, is_VInt),
        Plain (''h'', readInt32, writeInt32, enc_int32, is_VInt)]),
      (894777186, [Plain (''text'', r (), w (), e (), k ()),
        Plain (''name'', readString, writeString, enc_string, is_short_text)]),
      (- 1657885545, [Plain (''source'', readString, writeString, enc_string, is_short_text)]),
      (- 1570679104, [Plain (''document_id'', readInt64, writeInt64, enc_int64, is_VLong),
        Plain (''alt'', readString, writeString, enc_string, is_short_text)]),
      (1277844834, [Plain (''text'', r (), w (), e (), k ())]),
      (- 853225660, [Plain (''text'', r (), w (), e (), k ())]),
      (1368728810, [Plain (''text'', r (), w (), e (), k ())]),
      (50276819, [Plain (''text'', r (), w (), e (), k ())]),
      (2073958401, [Plain (''text'', r (), w (), e (), k ())]),
      (- 1402305622, [Plain (''text'', r (), w (), e (), k ())]),
      (- 984177571, [Plain (''text'', r (), w (), e (), k ())]),
      (616720265, [Plain (''text'', r (), w (), e (), k ())]),
      (- 1185513171, [Plain (''text'', r (), w (), e (), k ())]),
      (27917308, [Plain (''text'', r (), w (), e (), k ()),
        Plain (''user_id'', readInt64, writeInt64, enc_int64, is_VLong)]),
      (- 1514906069, [Flags ''flags'' [(''relative'', 0), (''short_time'', 1), (''long_time'', 2),
         (''short_date'', 3), (''long_date'', 4), (''day_of_week'', 5)],
        TrueBit ''flags'' 0 ''relative'',
        TrueBit ''flags'' 1 ''short_time'',
        TrueBit ''flags'' 2 ''long_time'',
        TrueBit ''flags'' 3 ''short_date'',
        TrueBit ''flags'' 4 ''long_date'',
        TrueBit ''flags'' 5 ''day_of_week'',
        Plain (''text'', r (), w (), e (), k ()),
        Plain (''date'', readInt32, writeInt32, enc_int32, is_VInt)]),
      (- 1769551024, [Plain (''text'', r (), w (), e (), k ()),
        Plain (''old_text'', r (), w (), e (), k ())]),
      (- 1345872682, [Flags ''flags'' [(''style'', 0)],
        Plain (''text'', r (), w (), e (), k ()),
        Plain (''type'', readTLInlineButtonType, writeTLInlineButtonType,
         enc_fobject TL_InlineButtonType_table, ok_fobject TL_InlineButtonType_table),
        Cond ''flags'' 0 (''style'', readTLRichButtonStyle, writeTLRichButtonStyle,
         enc_fobject TL_RichButtonStyle_table, ok_fobject TL_RichButtonStyle_table)])]"

lemma richText_reads_like: "(\<And>t. like L (r t) (r' t)) \<Longrightarrow> cases_like L (richText_reads r t) (richText_reads r' t)"
  by (simp add: richText_reads_def recursion_simps tl_InlineButtonType.self_like tl_RichButtonStyle.self_like)

lemma richText_writes_like: "(\<And>t. wlike B (w t) (w' t)) \<Longrightarrow> wcases_like B (richText_writes w t) (richText_writes w' t)"
  by (simp add: richText_writes_def recursion_simps)

lemma richText_codec:
  assumes "\<And>t. tl_codec (r t) (w t) (e t) (k t)"
  shows "tl_codec (read_object (richText_reads r t)) (write_fobject (richText_writes w t)) (enc_fobject (richText_fields r w e k t)) (ok_fobject (richText_fields r w e k t))"
  by (rule flag_schema_codec, unfold richText_fields_def, intro flag_tableI)
    (simp_all add: richText_reads_def richText_writes_def flag_schema_simps assms assms [THEN tl_codec.vector_codec] tl_InlineButtonType.tl_codec_axioms tl_RichButtonStyle.tl_codec_axioms)

lemma richText_fields_le:
  "(\<And>t q v. k t q v \<Longrightarrow> k' t q v \<and> e' t q v = e t q v) \<Longrightarrow> table_le (richText_fields r w e k t) (richText_fields r' w' e' k' t)"
  by (simp add: richText_fields_def recursion_simps)

interpretation richText: tl_recursion richText_reads richText_writes richText_fields
  by (rule tl_recursion.intro [OF richText_reads_like _ richText_writes_like _ richText_codec richText_fields_le])
    (simp_all add: richText_reads_def richText_writes_def)

definition readTLRichText :: tl_reader where
  "readTLRichText = read_rec richText_reads ()"

definition writeTLRichText :: tl_writer where
  "writeTLRichText = write_rec richText_writes ()"

definition enc_RichText :: "qtenv \<Rightarrow> variant \<Rightarrow> bytes" where
  "enc_RichText = enc_rec richText_reads richText_writes richText_fields ()"

definition ok_RichText :: "qtenv \<Rightarrow> variant \<Rightarrow> bool" where
  "ok_RichText = ok_rec richText_reads richText_writes richText_fields ()"

lemma readTLRichText_unfold: "readTLRichText i s = read_object (richText_reads (\<lambda>t. readTLRichText) ()) i s"
  using richText.read_rec_unfold [of "()" i s] by (simp add: readTLRichText_def)

lemma writeTLRichText_unfold: "writeTLRichText s i = write_fobject (richText_writes (\<lambda>t. writeTLRichText) ()) s i"
  using richText.write_rec_unfold [of "()" s i] by (simp add: writeTLRichText_def)

interpretation tl_RichText: tl_codec readTLRichText writeTLRichText enc_RichText ok_RichText
  unfolding readTLRichText_def writeTLRichText_def enc_RichText_def ok_RichText_def by (rule richText.rec_codec)

definition readTLPageTableCell :: tl_reader where
  "readTLPageTableCell = read_object
     [(878078826, [rd ''flags'' readUInt32, set_if ''flags'' 0 ''header'',
         set_if ''flags'' 3 ''align_center'', set_if ''flags'' 4 ''align_right'',
         set_if ''flags'' 5 ''valign_middle'', set_if ''flags'' 6 ''valign_bottom'',
         rd_if ''flags'' 7 ''text'' readTLRichText, rd_if ''flags'' 1 ''colspan'' readInt32,
         rd_if ''flags'' 2 ''rowspan'' readInt32])]"

definition writeTLPageTableCell :: tl_writer where
  "writeTLPageTableCell = write_fobject
     [(878078826, [wf ''_'' writeInt32, wf_flags ''flags'' [(''header'', 0), (''align_center'', 3),
         (''align_right'', 4), (''valign_middle'', 5), (''valign_bottom'', 6), (''text'', 7),
         (''colspan'', 1), (''rowspan'', 2)], wf_if ''flags'' 7 ''text'' writeTLRichText,
         wf_if ''flags'' 1 ''colspan'' writeInt32, wf_if ''flags'' 2 ''rowspan'' writeInt32])]"

definition TL_PageTableCell_table :: flag_table where
  "TL_PageTableCell_table =
     [(878078826, [Flags ''flags'' [(''header'', 0), (''align_center'', 3), (''align_right'', 4),
         (''valign_middle'', 5), (''valign_bottom'', 6), (''text'', 7), (''colspan'', 1),
         (''rowspan'', 2)],
        TrueBit ''flags'' 0 ''header'',
        TrueBit ''flags'' 3 ''align_center'',
        TrueBit ''flags'' 4 ''align_right'',
        TrueBit ''flags'' 5 ''valign_middle'',
        TrueBit ''flags'' 6 ''valign_bottom'',
        Cond ''flags'' 7 (''text'', readTLRichText, writeTLRichText, enc_RichText, ok_RichText),
        Cond ''flags'' 1 (''colspan'', readInt32, writeInt32, enc_int32, is_VInt),
        Cond ''flags'' 2 (''rowspan'', readInt32, writeInt32, enc_int32, is_VInt)])]"

interpretation tl_PageTableCell: tl_codec readTLPageTableCell writeTLPageTableCell "enc_fobject TL_PageTableCell_table" "ok_fobject TL_PageTableCell_table"
  by (rule flag_schema_codec, unfold TL_PageTableCell_table_def, intro flag_tableI)
    (simp_all add: readTLPageTableCell_def writeTLPageTableCell_def flag_schema_simps tl_RichText.tl_codec_axioms)

definition readTLPageTableRow :: tl_reader where
  "readTLPageTableRow = read_object
     [(- 524237339, [rd ''cells'' (readVector (Some readTLPageTableCell))])]"

definition writeTLPageTableRow :: tl_writer where
  "writeTLPageTableRow = write_fobject
     [(- 524237339, [wf ''_'' writeInt32, wf ''cells'' (writeVector (Some writeTLPageTableCell))])]"

definition TL_PageTableRow_table :: flag_table where
  "TL_PageTableRow_table =
     [(- 524237339, [Plain (''cells'', readVector (Some readTLPageTableCell),
         writeVector (Some writeTLPageTableCell), enc_vector (enc_fobject TL_PageTableCell_table),
         ok_vector (ok_fobject TL_PageTableCell_table))])]"

interpretation tl_PageTableRow: tl_codec readTLPageTableRow writeTLPageTableRow "enc_fobject TL_PageTableRow_table" "ok_fobject TL_PageTableRow_table"
  by (rule flag_schema_codec, unfold TL_PageTableRow_table_def, intro flag_tableI)
    (simp_all add: readTLPageTableRow_def writeTLPageTableRow_def flag_schema_simps tl_PageTableCell.tl_codec_axioms tl_PageTableCell.vector_codec)

definition readTLPageCaption :: tl_reader where
  "readTLPageCaption = read_object
     [(1869903447, [rd ''text'' readTLRichText, rd ''credit'' readTLRichText])]"

definition writeTLPageCaption :: tl_writer where
  "writeTLPageCaption = write_fobject
     [(1869903447, [wf ''_'' writeInt32, wf ''text'' writeTLRichText,
         wf ''credit'' writeTLRichText])]"

definition TL_PageCaption_table :: flag_table where
  "TL_PageCaption_table =
     [(1869903447, [Plain (''text'', readTLRichText, writeTLRichText, enc_RichText, ok_RichText),
        Plain (''credit'', readTLRichText, writeTLRichText, enc_RichText, ok_RichText)])]"

interpretation tl_PageCaption: tl_codec readTLPageCaption writeTLPageCaption "enc_fobject TL_PageCaption_table" "ok_fobject TL_PageCaption_table"
  by (rule flag_schema_codec, unfold TL_PageCaption_table_def, intro flag_tableI)
    (simp_all add: readTLPageCaption_def writeTLPageCaption_def flag_schema_simps tl_RichText.tl_codec_axioms)

definition readTLPageButton :: tl_reader where
  "readTLPageButton = read_object
     [(1764381832, [rd ''flags'' readUInt32, rd ''text'' readTLRichText,
         rd ''type'' readTLInlineButtonType, rd_if ''flags'' 0 ''style'' readTLRichButtonStyle])]"

definition writeTLPageButton :: tl_writer where
  "writeTLPageButton = write_fobject
     [(1764381832, [wf ''_'' writeInt32, wf_flags ''flags'' [(''style'', 0)],
         wf ''text'' writeTLRichText, wf ''type'' writeTLInlineButtonType,
         wf_if ''flags'' 0 ''style'' writeTLRichButtonStyle])]"

definition TL_PageButton_table :: flag_table where
  "TL_PageButton_table =
     [(1764381832, [Flags ''flags'' [(''style'', 0)],
        Plain (''text'', readTLRichText, writeTLRichText, enc_RichText, ok_RichText),
        Plain (''type'', readTLInlineButtonType, writeTLInlineButtonType,
         enc_fobject TL_InlineButtonType_table, ok_fobject TL_InlineButtonType_table),
        Cond ''flags'' 0 (''style'', readTLRichButtonStyle, writeTLRichButtonStyle,
         enc_fobject TL_RichButtonStyle_table, ok_fobject TL_RichButtonStyle_table)])]"

interpretation tl_PageButton: tl_codec readTLPageButton writeTLPageButton "enc_fobject TL_PageButton_table" "ok_fobject TL_PageButton_table"
  by (rule flag_schema_codec, unfold TL_PageButton_table_def, intro flag_tableI)
    (simp_all add: readTLPageButton_def writeTLPageButton_def flag_schema_simps tl_RichText.tl_codec_axioms tl_InlineButtonType.tl_codec_axioms tl_RichButtonStyle.tl_codec_axioms)

datatype page_type = PageBlockT | PageListItemT | PageListOrderedItemT

definition pageBlock_reads :: "(page_type \<Rightarrow> tl_reader) \<Rightarrow> step_case list" where
  "pageBlock_reads r =
     [(324435594, []),
      (1890305021, [rd ''text'' readTLRichText]),
      (- 1879401953, [rd ''text'' readTLRichText]),
      (- 1162877472, [rd ''author'' readTLRichText, rd ''published_date'' readInt32]),
      (- 1076861716, [rd ''text'' readTLRichText]),
      (- 248793375, [rd ''text'' readTLRichText]),
      (1182402406, [rd ''text'' readTLRichText]),
      (- 1066346178, [rd ''text'' readTLRichText, rd ''language'' readString]),
      (1216809369, [rd ''text'' readTLRichText]),
      (- 618614392, []),
      (- 837994576, [rd ''name'' readString]),
      (- 454524911, [rd ''items'' (readVector (Some (r PageListItemT)))]),
      (1724999435, [rd ''flags'' readUInt32, set_if ''flags'' 0 ''collapsed'',
         rd ''text'' readTLRichText, rd ''caption'' readTLRichText]),
      (1329878739, [rd ''text'' readTLRichText, rd ''caption'' readTLRichText]),
      (391759200, [rd ''flags'' readUInt32, set_if ''flags'' 1 ''spoiler'',
         rd ''photo_id'' readInt64, rd ''caption'' readTLPageCaption,
         rd_if ''flags'' 0 ''url'' readString, rd_if ''flags'' 0 ''webpage_id'' readInt64]),
      (2089805750, [rd ''flags'' readUInt32, set_if ''flags'' 0 ''autoplay'',
         set_if ''flags'' 1 ''loop'', set_if ''flags'' 2 ''spoiler'', rd ''video_id'' readInt64,
         rd ''caption'' readTLPageCaption]),
      (972174080, [rd ''cover'' (r PageBlockT)]),
      (- 1468953147, [rd ''flags'' readUInt32, set_if ''flags'' 0 ''full_width'',
         set_if ''flags'' 3 ''allow_scrolling'', rd_if ''flags'' 1 ''url'' readString,
         rd_if ''flags'' 2 ''html'' readString, rd_if ''flags'' 4 ''poster_photo_id'' readInt64,
         rd_if ''flags'' 5 ''w'' readInt32, rd_if ''flags'' 5 ''h'' readInt32,
         rd ''caption'' readTLPageCaption]),
      (- 229005301, [rd ''url'' readString, rd ''webpage_id'' readInt64,
         rd ''author_photo_id'' readInt64, rd ''author'' readString, rd ''date'' readInt32,
         rd ''blocks'' (readVector (Some (r PageBlockT))), rd ''caption'' readTLPageCaption]),
      (1705048653, [rd ''items'' (readVector (Some (r PageBlockT))),
         rd ''caption'' readTLPageCaption]),
      (52401552, [rd ''items'' (readVector (Some (r PageBlockT))),
         rd ''caption'' readTLPageCaption]),
      (- 283684427, [rd ''channel'' readTLChat]),
      (- 2143067670, [rd ''audio_id'' readInt64, rd ''caption'' readTLPageCaption]),
      (504660880, [rd ''text'' readTLRichText]),
      (- 1085412734, [rd ''flags'' readUInt32, set_if ''flags'' 0 ''bordered'',
         set_if ''flags'' 1 ''striped'', set_if ''flags'' 2 ''compact'',
         rd ''title'' readTLRichText, rd ''rows'' (readVector (Some readTLPageTableRow))]),
      (534181569, [rd ''flags'' readUInt32, set_if ''flags'' 2 ''reversed'',
         rd ''items'' (readVector (Some (r PageListOrderedItemT))),
         rd_if ''flags'' 0 ''start'' readInt32, rd_if ''flags'' 1 ''type'' readString]),
      (1987480557, [rd ''flags'' readUInt32, set_if ''flags'' 0 ''open'',
         rd ''blocks'' (readVector (Some (r PageBlockT))), rd ''title'' readTLRichText]),
      (370236054, [rd ''title'' readTLRichText,
         rd ''articles'' (readVector (Some readTLPageRelatedArticle))]),
      (- 1538310410, [rd ''geo'' readTLGeoPoint, rd ''zoom'' readInt32, rd ''w'' readInt32,
         rd ''h'' readInt32, rd ''caption'' readTLPageCaption]),
      (- 1157691601, [rd ''text'' readTLRichText]),
      (158018284, [rd ''text'' readTLRichText]),
      (1743204781, [rd ''text'' readTLRichText]),
      (- 1254983893, [rd ''text'' readTLRichText]),
      (- 608277398, [rd ''text'' readTLRichText]),
      (1747599785, [rd ''text'' readTLRichText]),
      (1493699616, [rd ''source'' readString]),
      (1009361890, [rd ''text'' readTLRichText]),
      (1464557951, [rd ''geo'' readTLInputGeoPoint, rd ''zoom'' readInt32, rd ''w'' readInt32,
         rd ''h'' readInt32, rd ''caption'' readTLPageCaption]),
      (242108356, [rd ''blocks'' (readVector (Some (r PageBlockT))),
         rd ''caption'' readTLRichText]),
      (1835270936, [rd ''flags'' readUInt32, set_if ''flags'' 0 ''align_left'',
         set_if ''flags'' 1 ''align_center'', set_if ''flags'' 2 ''align_right'',
         rd ''buttons'' (readVector (Some readTLPageButton))]),
      (955923363, [rd ''document_id'' readInt64, rd ''caption'' readTLPageCaption])]"

definition pageBlock_writes :: "(page_type \<Rightarrow> tl_writer) \<Rightarrow> step_case list" where
  "pageBlock_writes w =
     [(324435594, [wf ''_'' writeInt32]),
      (1890305021, [wf ''_'' writeInt32, wf ''text'' writeTLRichText]),
      (- 1879401953, [wf ''_'' writeInt32, wf ''text'' writeTLRichText]),
      (- 1162877472, [wf ''_'' writeInt32, wf ''author'' writeTLRichText,
         wf ''published_date'' writeInt32]),
      (- 1076861716, [wf ''_'' writeInt32, wf ''text'' writeTLRichText]),
      (- 248793375, [wf ''_'' writeInt32, wf ''text'' writeTLRichText]),
      (1182402406, [wf ''_'' writeInt32, wf ''text'' writeTLRichText]),
      (- 1066346178, [wf ''_'' writeInt32, wf ''text'' writeTLRichText,
         wf ''language'' writeString]),
      (1216809369, [wf ''_'' writeInt32, wf ''text'' writeTLRichText]),
      (- 618614392, [wf ''_'' writeInt32]),
      (- 837994576, [wf ''_'' writeInt32, wf ''name'' writeString]),
      (- 454524911, [wf ''_'' writeInt32, wf ''items'' (writeVector (Some (w PageListItemT)))]),
      (1724999435, [wf ''_'' writeInt32, wf_flags ''flags'' [(''collapsed'', 0)],
         wf ''text'' writeTLRichText, wf ''caption'' writeTLRichText]),
      (1329878739, [wf ''_'' writeInt32, wf ''text'' writeTLRichText,
         wf ''caption'' writeTLRichText]),
      (391759200, [wf ''_'' writeInt32, wf_flags ''flags'' [(''spoiler'', 1), (''url'', 0),
         (''webpage_id'', 0)], wf ''photo_id'' writeInt64, wf ''caption'' writeTLPageCaption,
         wf_if ''flags'' 0 ''url'' writeString, wf_if ''flags'' 0 ''webpage_id'' writeInt64]),
      (2089805750, [wf ''_'' writeInt32, wf_flags ''flags'' [(''autoplay'', 0), (''loop'', 1),
         (''spoiler'', 2)], wf ''video_id'' writeInt64, wf ''caption'' writeTLPageCaption]),
      (972174080, [wf ''_'' writeInt32, wf ''cover'' (w PageBlockT)]),
      (- 1468953147, [wf ''_'' writeInt32, wf_flags ''flags'' [(''full_width'', 0),
         (''allow_scrolling'', 3), (''url'', 1), (''html'', 2), (''poster_photo_id'', 4), (''w'',
         5), (''h'', 5)], wf_if ''flags'' 1 ''url'' writeString,
         wf_if ''flags'' 2 ''html'' writeString, wf_if ''flags'' 4 ''poster_photo_id'' writeInt64,
         wf_if ''flags'' 5 ''w'' writeInt32, wf_if ''flags'' 5 ''h'' writeInt32,
         wf ''caption'' writeTLPageCaption]),
      (- 229005301, [wf ''_'' writeInt32, wf ''url'' writeString, wf ''webpage_id'' writeInt64,
         wf ''author_photo_id'' writeInt64, wf ''author'' writeString, wf ''date'' writeInt32,
         wf ''blocks'' (writeVector (Some (w PageBlockT))), wf ''caption'' writeTLPageCaption]),
      (1705048653, [wf ''_'' writeInt32, wf ''items'' (writeVector (Some (w PageBlockT))),
         wf ''caption'' writeTLPageCaption]),
      (52401552, [wf ''_'' writeInt32, wf ''items'' (writeVector (Some (w PageBlockT))),
         wf ''caption'' writeTLPageCaption]),
      (- 283684427, [wf ''_'' writeInt32, wf ''channel'' writeTLChat]),
      (- 2143067670, [wf ''_'' writeInt32, wf ''audio_id'' writeInt64,
         wf ''caption'' writeTLPageCaption]),
      (504660880, [wf ''_'' writeInt32, wf ''text'' writeTLRichText]),
      (- 1085412734, [wf ''_'' writeInt32, wf_flags ''flags'' [(''bordered'', 0), (''striped'', 1),
         (''compact'', 2)], wf ''title'' writeTLRichText,
         wf ''rows'' (writeVector (Some writeTLPageTableRow))]),
      (534181569, [wf ''_'' writeInt32, wf_flags ''flags'' [(''reversed'', 2), (''start'', 0),
         (''type'', 1)], wf ''items'' (writeVector (Some (w PageListOrderedItemT))),
         wf_if ''flags'' 0 ''start'' writeInt32, wf_if ''flags'' 1 ''type'' writeString]),
      (1987480557, [wf ''_'' writeInt32, wf_flags ''flags'' [(''open'', 0)],
         wf ''blocks'' (writeVector (Some (w PageBlockT))), wf ''title'' writeTLRichText]),
      (370236054, [wf ''_'' writeInt32, wf ''title'' writeTLRichText,
         wf ''articles'' (writeVector (Some writeTLPageRelatedArticle))]),
      (- 1538310410, [wf ''_'' writeInt32, wf ''geo'' writeTLGeoPoint, wf ''zoom'' writeInt32,
         wf ''w'' writeInt32, wf ''h'' writeInt32, wf ''caption'' writeTLPageCaption]),
      (- 1157691601, [wf ''_'' writeInt32, wf ''text'' writeTLRichText]),
      (158018284, [wf ''_'' writeInt32, wf ''text'' writeTLRichText]),
      (1743204781, [wf ''_'' writeInt32, wf ''text'' writeTLRichText]),
      (- 1254983893, [wf ''_'' writeInt32, wf ''text'' writeTLRichText]),
      (- 608277398, [wf ''_'' writeInt32, wf ''text'' writeTLRichText]),
      (1747599785, [wf ''_'' writeInt32, wf ''text'' writeTLRichText]),
      (1493699616, [wf ''_'' writeInt32, wf ''source'' writeString]),
      (1009361890, [wf ''_'' writeInt32, wf ''text'' writeTLRichText]),
      (1464557951, [wf ''_'' writeInt32, wf ''geo'' writeTLInputGeoPoint, wf ''zoom'' writeInt32,
         wf ''w'' writeInt32, wf ''h'' writeInt32, wf ''caption'' writeTLPageCaption]),
      (242108356, [wf ''_'' writeInt32, wf ''blocks'' (writeVector (Some (w PageBlockT))),
         wf ''caption'' writeTLRichText]),
      (1835270936, [wf ''_'' writeInt32, wf_flags ''flags'' [(''align_left'', 0),
         (''align_center'', 1), (''align_right'', 2)],
         wf ''buttons'' (writeVector (Some writeTLPageButton))]),
      (955923363, [wf ''_'' writeInt32, wf ''document_id'' writeInt64,
         wf ''caption'' writeTLPageCaption])]"

definition pageBlock_fields :: "page_type group_fields" where
  "pageBlock_fields r w e k =
     [(324435594, []),
      (1890305021, [Plain (''text'', readTLRichText, writeTLRichText, enc_RichText, ok_RichText)]),
      (- 1879401953, [Plain (''text'', readTLRichText, writeTLRichText, enc_RichText,
         ok_RichText)]),
      (- 1162877472, [Plain (''author'', readTLRichText, writeTLRichText, enc_RichText,
         ok_RichText),
        Plain (''published_date'', readInt32, writeInt32, enc_int32, is_VInt)]),
      (- 1076861716, [Plain (''text'', readTLRichText, writeTLRichText, enc_RichText,
         ok_RichText)]),
      (- 248793375, [Plain (''text'', readTLRichText, writeTLRichText, enc_RichText, ok_RichText)]),
      (1182402406, [Plain (''text'', readTLRichText, writeTLRichText, enc_RichText, ok_RichText)]),
      (- 1066346178, [Plain (''text'', readTLRichText, writeTLRichText, enc_RichText, ok_RichText),
        Plain (''language'', readString, writeString, enc_string, is_short_text)]),
      (1216809369, [Plain (''text'', readTLRichText, writeTLRichText, enc_RichText, ok_RichText)]),
      (- 618614392, []),
      (- 837994576, [Plain (''name'', readString, writeString, enc_string, is_short_text)]),
      (- 454524911, [Plain (''items'', readVector (Some (r PageListItemT)),
         writeVector (Some (w PageListItemT)), enc_vector (e PageListItemT),
         ok_vector (k PageListItemT))]),
      (1724999435, [Flags ''flags'' [(''collapsed'', 0)],
        TrueBit ''flags'' 0 ''collapsed'',
        Plain (''text'', readTLRichText, writeTLRichText, enc_RichText, ok_RichText),
        Plain (''caption'', readTLRichText, writeTLRichText, enc_RichText, ok_RichText)]),
      (1329878739, [Plain (''text'', readTLRichText, writeTLRichText, enc_RichText, ok_RichText),
        Plain (''caption'', readTLRichText, writeTLRichText, enc_RichText, ok_RichText)]),
      (391759200, [Flags ''flags'' [(''spoiler'', 1), (''url'', 0), (''webpage_id'', 0)],
        TrueBit ''flags'' 1 ''spoiler'',
        Plain (''photo_id'', readInt64, writeInt64, enc_int64, is_VLong),
        Plain (''caption'', readTLPageCaption, writeTLPageCaption,
         enc_fobject TL_PageCaption_table, ok_fobject TL_PageCaption_table),
        Cond ''flags'' 0 (''url'', readString, writeString, enc_string, is_short_text),
        Cond ''flags'' 0 (''webpage_id'', readInt64, writeInt64, enc_int64, is_VLong)]),
      (2089805750, [Flags ''flags'' [(''autoplay'', 0), (''loop'', 1), (''spoiler'', 2)],
        TrueBit ''flags'' 0 ''autoplay'',
        TrueBit ''flags'' 1 ''loop'',
        TrueBit ''flags'' 2 ''spoiler'',
        Plain (''video_id'', readInt64, writeInt64, enc_int64, is_VLong),
        Plain (''caption'', readTLPageCaption, writeTLPageCaption,
         enc_fobject TL_PageCaption_table, ok_fobject TL_PageCaption_table)]),
      (972174080, [Plain (''cover'', r PageBlockT, w PageBlockT, e PageBlockT, k PageBlockT)]),
      (- 1468953147, [Flags ''flags'' [(''full_width'', 0), (''allow_scrolling'', 3), (''url'', 1),
         (''html'', 2), (''poster_photo_id'', 4), (''w'', 5), (''h'', 5)],
        TrueBit ''flags'' 0 ''full_width'',
        TrueBit ''flags'' 3 ''allow_scrolling'',
        Cond ''flags'' 1 (''url'', readString, writeString, enc_string, is_short_text),
        Cond ''flags'' 2 (''html'', readString, writeString, enc_string, is_short_text),
        Cond ''flags'' 4 (''poster_photo_id'', readInt64, writeInt64, enc_int64, is_VLong),
        Cond ''flags'' 5 (''w'', readInt32, writeInt32, enc_int32, is_VInt),
        Cond ''flags'' 5 (''h'', readInt32, writeInt32, enc_int32, is_VInt),
        Plain (''caption'', readTLPageCaption, writeTLPageCaption,
         enc_fobject TL_PageCaption_table, ok_fobject TL_PageCaption_table)]),
      (- 229005301, [Plain (''url'', readString, writeString, enc_string, is_short_text),
        Plain (''webpage_id'', readInt64, writeInt64, enc_int64, is_VLong),
        Plain (''author_photo_id'', readInt64, writeInt64, enc_int64, is_VLong),
        Plain (''author'', readString, writeString, enc_string, is_short_text),
        Plain (''date'', readInt32, writeInt32, enc_int32, is_VInt),
        Plain (''blocks'', readVector (Some (r PageBlockT)), writeVector (Some (w PageBlockT)),
         enc_vector (e PageBlockT), ok_vector (k PageBlockT)),
        Plain (''caption'', readTLPageCaption, writeTLPageCaption,
         enc_fobject TL_PageCaption_table, ok_fobject TL_PageCaption_table)]),
      (1705048653, [Plain (''items'', readVector (Some (r PageBlockT)),
         writeVector (Some (w PageBlockT)), enc_vector (e PageBlockT), ok_vector (k PageBlockT)),
        Plain (''caption'', readTLPageCaption, writeTLPageCaption,
         enc_fobject TL_PageCaption_table, ok_fobject TL_PageCaption_table)]),
      (52401552, [Plain (''items'', readVector (Some (r PageBlockT)),
         writeVector (Some (w PageBlockT)), enc_vector (e PageBlockT), ok_vector (k PageBlockT)),
        Plain (''caption'', readTLPageCaption, writeTLPageCaption,
         enc_fobject TL_PageCaption_table, ok_fobject TL_PageCaption_table)]),
      (- 283684427, [Plain (''channel'', readTLChat, writeTLChat, enc_fobject TL_Chat_table,
         ok_fobject TL_Chat_table)]),
      (- 2143067670, [Plain (''audio_id'', readInt64, writeInt64, enc_int64, is_VLong),
        Plain (''caption'', readTLPageCaption, writeTLPageCaption,
         enc_fobject TL_PageCaption_table, ok_fobject TL_PageCaption_table)]),
      (504660880, [Plain (''text'', readTLRichText, writeTLRichText, enc_RichText, ok_RichText)]),
      (- 1085412734, [Flags ''flags'' [(''bordered'', 0), (''striped'', 1), (''compact'', 2)],
        TrueBit ''flags'' 0 ''bordered'',
        TrueBit ''flags'' 1 ''striped'',
        TrueBit ''flags'' 2 ''compact'',
        Plain (''title'', readTLRichText, writeTLRichText, enc_RichText, ok_RichText),
        Plain (''rows'', readVector (Some readTLPageTableRow),
         writeVector (Some writeTLPageTableRow), enc_vector (enc_fobject TL_PageTableRow_table),
         ok_vector (ok_fobject TL_PageTableRow_table))]),
      (534181569, [Flags ''flags'' [(''reversed'', 2), (''start'', 0), (''type'', 1)],
        TrueBit ''flags'' 2 ''reversed'',
        Plain (''items'', readVector (Some (r PageListOrderedItemT)),
         writeVector (Some (w PageListOrderedItemT)), enc_vector (e PageListOrderedItemT),
         ok_vector (k PageListOrderedItemT)),
        Cond ''flags'' 0 (''start'', readInt32, writeInt32, enc_int32, is_VInt),
        Cond ''flags'' 1 (''type'', readString, writeString, enc_string, is_short_text)]),
      (1987480557, [Flags ''flags'' [(''open'', 0)],
        TrueBit ''flags'' 0 ''open'',
        Plain (''blocks'', readVector (Some (r PageBlockT)), writeVector (Some (w PageBlockT)),
         enc_vector (e PageBlockT), ok_vector (k PageBlockT)),
        Plain (''title'', readTLRichText, writeTLRichText, enc_RichText, ok_RichText)]),
      (370236054, [Plain (''title'', readTLRichText, writeTLRichText, enc_RichText, ok_RichText),
        Plain (''articles'', readVector (Some readTLPageRelatedArticle),
         writeVector (Some writeTLPageRelatedArticle),
         enc_vector (enc_fobject TL_PageRelatedArticle_table),
         ok_vector (ok_fobject TL_PageRelatedArticle_table))]),
      (- 1538310410, [Plain (''geo'', readTLGeoPoint, writeTLGeoPoint,
         enc_fobject TL_GeoPoint_table, ok_fobject TL_GeoPoint_table),
        Plain (''zoom'', readInt32, writeInt32, enc_int32, is_VInt),
        Plain (''w'', readInt32, writeInt32, enc_int32, is_VInt),
        Plain (''h'', readInt32, writeInt32, enc_int32, is_VInt),
        Plain (''caption'', readTLPageCaption, writeTLPageCaption,
         enc_fobject TL_PageCaption_table, ok_fobject TL_PageCaption_table)]),
      (- 1157691601, [Plain (''text'', readTLRichText, writeTLRichText, enc_RichText,
         ok_RichText)]),
      (158018284, [Plain (''text'', readTLRichText, writeTLRichText, enc_RichText, ok_RichText)]),
      (1743204781, [Plain (''text'', readTLRichText, writeTLRichText, enc_RichText, ok_RichText)]),
      (- 1254983893, [Plain (''text'', readTLRichText, writeTLRichText, enc_RichText,
         ok_RichText)]),
      (- 608277398, [Plain (''text'', readTLRichText, writeTLRichText, enc_RichText, ok_RichText)]),
      (1747599785, [Plain (''text'', readTLRichText, writeTLRichText, enc_RichText, ok_RichText)]),
      (1493699616, [Plain (''source'', readString, writeString, enc_string, is_short_text)]),
      (1009361890, [Plain (''text'', readTLRichText, writeTLRichText, enc_RichText, ok_RichText)]),
      (1464557951, [Plain (''geo'', readTLInputGeoPoint, writeTLInputGeoPoint,
         enc_fobject TL_InputGeoPoint_table, ok_fobject TL_InputGeoPoint_table),
        Plain (''zoom'', readInt32, writeInt32, enc_int32, is_VInt),
        Plain (''w'', readInt32, writeInt32, enc_int32, is_VInt),
        Plain (''h'', readInt32, writeInt32, enc_int32, is_VInt),
        Plain (''caption'', readTLPageCaption, writeTLPageCaption,
         enc_fobject TL_PageCaption_table, ok_fobject TL_PageCaption_table)]),
      (242108356, [Plain (''blocks'', readVector (Some (r PageBlockT)),
         writeVector (Some (w PageBlockT)), enc_vector (e PageBlockT), ok_vector (k PageBlockT)),
        Plain (''caption'', readTLRichText, writeTLRichText, enc_RichText, ok_RichText)]),
      (1835270936, [Flags ''flags'' [(''align_left'', 0), (''align_center'', 1), (''align_right'',
         2)],
        TrueBit ''flags'' 0 ''align_left'',
        TrueBit ''flags'' 1 ''align_center'',
        TrueBit ''flags'' 2 ''align_right'',
        Plain (''buttons'', readVector (Some readTLPageButton),
         writeVector (Some writeTLPageButton), enc_vector (enc_fobject TL_PageButton_table),
         ok_vector (ok_fobject TL_PageButton_table))]),
      (955923363, [Plain (''document_id'', readInt64, writeInt64, enc_int64, is_VLong),
        Plain (''caption'', readTLPageCaption, writeTLPageCaption,
         enc_fobject TL_PageCaption_table, ok_fobject TL_PageCaption_table)])]"

definition pageListItem_reads :: "(page_type \<Rightarrow> tl_reader) \<Rightarrow> step_case list" where
  "pageListItem_reads r =
     [(794323004, [rd ''flags'' readUInt32, set_if ''flags'' 0 ''checkbox'',
         set_if ''flags'' 1 ''checked'', rd ''text'' readTLRichText]),
      (1674209194, [rd ''flags'' readUInt32, set_if ''flags'' 0 ''checkbox'',
         set_if ''flags'' 1 ''checked'', rd ''blocks'' (readVector (Some (r PageBlockT)))])]"

definition pageListItem_writes :: "(page_type \<Rightarrow> tl_writer) \<Rightarrow> step_case list" where
  "pageListItem_writes w =
     [(794323004, [wf ''_'' writeInt32, wf_flags ''flags'' [(''checkbox'', 0), (''checked'', 1)],
         wf ''text'' writeTLRichText]),
      (1674209194, [wf ''_'' writeInt32, wf_flags ''flags'' [(''checkbox'', 0), (''checked'', 1)],
         wf ''blocks'' (writeVector (Some (w PageBlockT)))])]"

definition pageListItem_fields :: "page_type group_fields" where
  "pageListItem_fields r w e k =
     [(794323004, [Flags ''flags'' [(''checkbox'', 0), (''checked'', 1)],
        TrueBit ''flags'' 0 ''checkbox'',
        TrueBit ''flags'' 1 ''checked'',
        Plain (''text'', readTLRichText, writeTLRichText, enc_RichText, ok_RichText)]),
      (1674209194, [Flags ''flags'' [(''checkbox'', 0), (''checked'', 1)],
        TrueBit ''flags'' 0 ''checkbox'',
        TrueBit ''flags'' 1 ''checked'',
        Plain (''blocks'', readVector (Some (r PageBlockT)), writeVector (Some (w PageBlockT)),
         enc_vector (e PageBlockT), ok_vector (k PageBlockT))])]"

definition pageListOrderedItem_reads :: "(page_type \<Rightarrow> tl_reader) \<Rightarrow> step_case list" where
  "pageListOrderedItem_reads r =
     [(352522633, [rd ''flags'' readUInt32, set_if ''flags'' 0 ''checkbox'',
         set_if ''flags'' 1 ''checked'', rd_if ''flags'' 2 ''num'' readString,
         rd ''text'' readTLRichText, rd_if ''flags'' 3 ''value'' readInt32,
         rd_if ''flags'' 4 ''type'' readString]),
      (- 1879910928, [rd ''flags'' readUInt32, set_if ''flags'' 0 ''checkbox'',
         set_if ''flags'' 1 ''checked'', rd_if ''flags'' 2 ''num'' readString,
         rd ''blocks'' (readVector (Some (r PageBlockT))), rd_if ''flags'' 3 ''value'' readInt32,
         rd_if ''flags'' 4 ''type'' readString])]"

definition pageListOrderedItem_writes :: "(page_type \<Rightarrow> tl_writer) \<Rightarrow> step_case list" where
  "pageListOrderedItem_writes w =
     [(352522633, [wf ''_'' writeInt32, wf_flags ''flags'' [(''checkbox'', 0), (''checked'', 1),
         (''num'', 2), (''value'', 3), (''type'', 4)], wf_if ''flags'' 2 ''num'' writeString,
         wf ''text'' writeTLRichText, wf_if ''flags'' 3 ''value'' writeInt32,
         wf_if ''flags'' 4 ''type'' writeString]),
      (- 1879910928, [wf ''_'' writeInt32, wf_flags ''flags'' [(''checkbox'', 0), (''checked'', 1),
         (''num'', 2), (''value'', 3), (''type'', 4)], wf_if ''flags'' 2 ''num'' writeString,
         wf ''blocks'' (writeVector (Some (w PageBlockT))), wf_if ''flags'' 3 ''value'' writeInt32,
         wf_if ''flags'' 4 ''type'' writeString])]"

definition pageListOrderedItem_fields :: "page_type group_fields" where
  "pageListOrderedItem_fields r w e k =
     [(352522633, [Flags ''flags'' [(''checkbox'', 0), (''checked'', 1), (''num'', 2), (''value'',
         3), (''type'', 4)],
        TrueBit ''flags'' 0 ''checkbox'',
        TrueBit ''flags'' 1 ''checked'',
        Cond ''flags'' 2 (''num'', readString, writeString, enc_string, is_short_text),
        Plain (''text'', readTLRichText, writeTLRichText, enc_RichText, ok_RichText),
        Cond ''flags'' 3 (''value'', readInt32, writeInt32, enc_int32, is_VInt),
        Cond ''flags'' 4 (''type'', readString, writeString, enc_string, is_short_text)]),
      (- 1879910928, [Flags ''flags'' [(''checkbox'', 0), (''checked'', 1), (''num'', 2),
         (''value'', 3), (''type'', 4)],
        TrueBit ''flags'' 0 ''checkbox'',
        TrueBit ''flags'' 1 ''checked'',
        Cond ''flags'' 2 (''num'', readString, writeString, enc_string, is_short_text),
        Plain (''blocks'', readVector (Some (r PageBlockT)), writeVector (Some (w PageBlockT)),
         enc_vector (e PageBlockT), ok_vector (k PageBlockT)),
        Cond ''flags'' 3 (''value'', readInt32, writeInt32, enc_int32, is_VInt),
        Cond ''flags'' 4 (''type'', readString, writeString, enc_string, is_short_text)])]"

fun page_reads :: "(page_type \<Rightarrow> tl_reader) \<Rightarrow> page_type \<Rightarrow> step_case list" where
  "page_reads r PageBlockT = pageBlock_reads r"
| "page_reads r PageListItemT = pageListItem_reads r"
| "page_reads r PageListOrderedItemT = pageListOrderedItem_reads r"

fun page_writes :: "(page_type \<Rightarrow> tl_writer) \<Rightarrow> page_type \<Rightarrow> step_case list" where
  "page_writes w PageBlockT = pageBlock_writes w"
| "page_writes w PageListItemT = pageListItem_writes w"
| "page_writes w PageListOrderedItemT = pageListOrderedItem_writes w"

fun page_tables :: "page_type group_table" where
  "page_tables r w e k PageBlockT = pageBlock_fields r w e k"
| "page_tables r w e k PageListItemT = pageListItem_fields r w e k"
| "page_tables r w e k PageListOrderedItemT = pageListOrderedItem_fields r w e k"

lemma pageBlock_reads_like: "(\<And>t. like L (r t) (r' t)) \<Longrightarrow> cases_like L (pageBlock_reads r) (pageBlock_reads r')"
  by (simp add: pageBlock_reads_def recursion_simps tl_RichText.self_like tl_PageCaption.self_like tl_Chat.self_like tl_PageTableRow.self_like
        tl_PageRelatedArticle.self_like tl_GeoPoint.self_like tl_InputGeoPoint.self_like
        tl_PageButton.self_like)

lemma pageBlock_writes_like: "(\<And>t. wlike B (w t) (w' t)) \<Longrightarrow> wcases_like B (pageBlock_writes w) (pageBlock_writes w')"
  by (simp add: pageBlock_writes_def recursion_simps)

lemma pageBlock_codec:
  assumes "\<And>t. tl_codec (r t) (w t) (e t) (k t)"
  shows "tl_codec (read_object (pageBlock_reads r)) (write_fobject (pageBlock_writes w)) (enc_fobject (pageBlock_fields r w e k)) (ok_fobject (pageBlock_fields r w e k))"
  by (rule flag_schema_codec, unfold pageBlock_fields_def, intro flag_tableI)
    (simp_all add: pageBlock_reads_def pageBlock_writes_def flag_schema_simps assms assms [THEN tl_codec.vector_codec] tl_RichText.tl_codec_axioms tl_PageCaption.tl_codec_axioms tl_Chat.tl_codec_axioms
        tl_PageTableRow.tl_codec_axioms tl_PageRelatedArticle.tl_codec_axioms tl_GeoPoint.tl_codec_axioms
        tl_InputGeoPoint.tl_codec_axioms tl_PageButton.tl_codec_axioms tl_PageTableRow.vector_codec
        tl_PageRelatedArticle.vector_codec tl_PageButton.vector_codec)

lemma pageBlock_fields_le:
  "(\<And>t q v. k t q v \<Longrightarrow> k' t q v \<and> e' t q v = e t q v) \<Longrightarrow> table_le (pageBlock_fields r w e k) (pageBlock_fields r' w' e' k')"
  by (simp add: pageBlock_fields_def recursion_simps)

lemma pageListItem_reads_like: "(\<And>t. like L (r t) (r' t)) \<Longrightarrow> cases_like L (pageListItem_reads r) (pageListItem_reads r')"
  by (simp add: pageListItem_reads_def recursion_simps tl_RichText.self_like)

lemma pageListItem_writes_like: "(\<And>t. wlike B (w t) (w' t)) \<Longrightarrow> wcases_like B (pageListItem_writes w) (pageListItem_writes w')"
  by (simp add: pageListItem_writes_def recursion_simps)

lemma pageListItem_codec:
  assumes "\<And>t. tl_codec (r t) (w t) (e t) (k t)"
  shows "tl_codec (read_object (pageListItem_reads r)) (write_fobject (pageListItem_writes w)) (enc_fobject (pageListItem_fields r w e k)) (ok_fobject (pageListItem_fields r w e k))"
  by (rule flag_schema_codec, unfold pageListItem_fields_def, intro flag_tableI)
    (simp_all add: pageListItem_reads_def pageListItem_writes_def flag_schema_simps assms assms [THEN tl_codec.vector_codec] tl_RichText.tl_codec_axioms)

lemma pageListItem_fields_le:
  "(\<And>t q v. k t q v \<Longrightarrow> k' t q v \<and> e' t q v = e t q v) \<Longrightarrow> table_le (pageListItem_fields r w e k) (pageListItem_fields r' w' e' k')"
  by (simp add: pageListItem_fields_def recursion_simps)

lemma pageListOrderedItem_reads_like: "(\<And>t. like L (r t) (r' t)) \<Longrightarrow> cases_like L (pageListOrderedItem_reads r) (pageListOrderedItem_reads r')"
  by (simp add: pageListOrderedItem_reads_def recursion_simps tl_RichText.self_like)

lemma pageListOrderedItem_writes_like: "(\<And>t. wlike B (w t) (w' t)) \<Longrightarrow> wcases_like B (pageListOrderedItem_writes w) (pageListOrderedItem_writes w')"
  by (simp add: pageListOrderedItem_writes_def recursion_simps)

lemma pageListOrderedItem_codec:
  assumes "\<And>t. tl_codec (r t) (w t) (e t) (k t)"
  shows "tl_codec (read_object (pageListOrderedItem_reads r)) (write_fobject (pageListOrderedItem_writes w)) (enc_fobject (pageListOrderedItem_fields r w e k)) (ok_fobject (pageListOrderedItem_fields r w e k))"
  by (rule flag_schema_codec, unfold pageListOrderedItem_fields_def, intro flag_tableI)
    (simp_all add: pageListOrderedItem_reads_def pageListOrderedItem_writes_def flag_schema_simps assms assms [THEN tl_codec.vector_codec] tl_RichText.tl_codec_axioms)

lemma pageListOrderedItem_fields_le:
  "(\<And>t q v. k t q v \<Longrightarrow> k' t q v \<and> e' t q v = e t q v) \<Longrightarrow> table_le (pageListOrderedItem_fields r w e k) (pageListOrderedItem_fields r' w' e' k')"
  by (simp add: pageListOrderedItem_fields_def recursion_simps)

interpretation page: tl_recursion page_reads page_writes page_tables
proof (rule tl_recursion.intro)
  fix L and r r' :: "page_type \<Rightarrow> tl_reader" and t assume "\<And>t. like L (r t) (r' t)"
  then show "cases_like L (page_reads r t) (page_reads r' t)" by (cases t) (simp_all add: pageBlock_reads_like pageListItem_reads_like pageListOrderedItem_reads_like)
next
  fix B and w w' :: "page_type \<Rightarrow> tl_writer" and t assume "\<And>t. wlike B (w t) (w' t)"
  then show "wcases_like B (page_writes w t) (page_writes w' t)" by (cases t) (simp_all add: pageBlock_writes_like pageListItem_writes_like pageListOrderedItem_writes_like)
next
  fix r :: "page_type \<Rightarrow> tl_reader" and w e k t assume "\<And>t. tl_codec (r t) (w t) (e t) (k t)"
  then show "tl_codec (read_object (page_reads r t)) (write_fobject (page_writes w t)) (enc_fobject (page_tables r w e k t)) (ok_fobject (page_tables r w e k t))"
    by (cases t) (simp_all add: pageBlock_codec pageListItem_codec pageListOrderedItem_codec)
next
  fix k k' :: "page_type \<Rightarrow> qtenv \<Rightarrow> variant \<Rightarrow> bool" and e e' :: "page_type \<Rightarrow> qtenv \<Rightarrow> variant \<Rightarrow> bytes" and r r' w w' t
  assume "\<And>t q v. k t q v \<Longrightarrow> k' t q v \<and> e' t q v = e t q v"
  then show "table_le (page_tables r w e k t) (page_tables r' w' e' k' t)" by (cases t) (simp_all add: pageBlock_fields_le pageListItem_fields_le pageListOrderedItem_fields_le)
next
  show "map_of (page_reads r t) 0 = None" for r :: "page_type \<Rightarrow> tl_reader" and t
    by (cases t) (simp_all add: pageBlock_reads_def pageListItem_reads_def pageListOrderedItem_reads_def)
  show "map_of (page_writes w t) 0 = None" for w :: "page_type \<Rightarrow> tl_writer" and t
    by (cases t) (simp_all add: pageBlock_writes_def pageListItem_writes_def pageListOrderedItem_writes_def)
qed

definition readTLPageBlock :: tl_reader where
  "readTLPageBlock = read_rec page_reads PageBlockT"

definition writeTLPageBlock :: tl_writer where
  "writeTLPageBlock = write_rec page_writes PageBlockT"

definition enc_PageBlock :: "qtenv \<Rightarrow> variant \<Rightarrow> bytes" where
  "enc_PageBlock = enc_rec page_reads page_writes page_tables PageBlockT"

definition ok_PageBlock :: "qtenv \<Rightarrow> variant \<Rightarrow> bool" where
  "ok_PageBlock = ok_rec page_reads page_writes page_tables PageBlockT"

lemma readTLPageBlock_unfold: "readTLPageBlock i s = read_object (pageBlock_reads (read_rec page_reads)) i s"
  using page.read_rec_unfold [of "PageBlockT" i s] by (simp add: readTLPageBlock_def)

lemma writeTLPageBlock_unfold: "writeTLPageBlock s i = write_fobject (pageBlock_writes (write_rec page_writes)) s i"
  using page.write_rec_unfold [of "PageBlockT" s i] by (simp add: writeTLPageBlock_def)

interpretation tl_PageBlock: tl_codec readTLPageBlock writeTLPageBlock enc_PageBlock ok_PageBlock
  unfolding readTLPageBlock_def writeTLPageBlock_def enc_PageBlock_def ok_PageBlock_def by (rule page.rec_codec)

definition readTLPageListItem :: tl_reader where
  "readTLPageListItem = read_rec page_reads PageListItemT"

definition writeTLPageListItem :: tl_writer where
  "writeTLPageListItem = write_rec page_writes PageListItemT"

definition enc_PageListItem :: "qtenv \<Rightarrow> variant \<Rightarrow> bytes" where
  "enc_PageListItem = enc_rec page_reads page_writes page_tables PageListItemT"

definition ok_PageListItem :: "qtenv \<Rightarrow> variant \<Rightarrow> bool" where
  "ok_PageListItem = ok_rec page_reads page_writes page_tables PageListItemT"

lemma readTLPageListItem_unfold: "readTLPageListItem i s = read_object (pageListItem_reads (read_rec page_reads)) i s"
  using page.read_rec_unfold [of "PageListItemT" i s] by (simp add: readTLPageListItem_def)

lemma writeTLPageListItem_unfold: "writeTLPageListItem s i = write_fobject (pageListItem_writes (write_rec page_writes)) s i"
  using page.write_rec_unfold [of "PageListItemT" s i] by (simp add: writeTLPageListItem_def)

interpretation tl_PageListItem: tl_codec readTLPageListItem writeTLPageListItem enc_PageListItem ok_PageListItem
  unfolding readTLPageListItem_def writeTLPageListItem_def enc_PageListItem_def ok_PageListItem_def by (rule page.rec_codec)

definition readTLPageListOrderedItem :: tl_reader where
  "readTLPageListOrderedItem = read_rec page_reads PageListOrderedItemT"

definition writeTLPageListOrderedItem :: tl_writer where
  "writeTLPageListOrderedItem = write_rec page_writes PageListOrderedItemT"

definition enc_PageListOrderedItem :: "qtenv \<Rightarrow> variant \<Rightarrow> bytes" where
  "enc_PageListOrderedItem = enc_rec page_reads page_writes page_tables PageListOrderedItemT"

definition ok_PageListOrderedItem :: "qtenv \<Rightarrow> variant \<Rightarrow> bool" where
  "ok_PageListOrderedItem = ok_rec page_reads page_writes page_tables PageListOrderedItemT"

lemma readTLPageListOrderedItem_unfold: "readTLPageListOrderedItem i s = read_object (pageListOrderedItem_reads (read_rec page_reads)) i s"
  using page.read_rec_unfold [of "PageListOrderedItemT" i s] by (simp add: readTLPageListOrderedItem_def)

lemma writeTLPageListOrderedItem_unfold: "writeTLPageListOrderedItem s i = write_fobject (pageListOrderedItem_writes (write_rec page_writes)) s i"
  using page.write_rec_unfold [of "PageListOrderedItemT" s i] by (simp add: writeTLPageListOrderedItem_def)

interpretation tl_PageListOrderedItem: tl_codec readTLPageListOrderedItem writeTLPageListOrderedItem enc_PageListOrderedItem ok_PageListOrderedItem
  unfolding readTLPageListOrderedItem_def writeTLPageListOrderedItem_def enc_PageListOrderedItem_def ok_PageListOrderedItem_def by (rule page.rec_codec)

end
