(* ===== verification/TlMedia.thy ===== *)
theory TlMedia
  imports TlPage
begin

section \<open>The API schema, media: libkg/tlschema.cpp\<close>

text \<open>
  A story contains media, and media may be a story, a poll or a web page with stories. Each type has its table and the interpretation of the codec contract;
  a group of types that refer to one another gets it from \<open>tl_recursion\<close>.
\<close>

definition readTLPage :: tl_reader where
  "readTLPage = read_object
     [(- 1738178803, [rd ''flags'' readUInt32, set_if ''flags'' 0 ''part'',
         set_if ''flags'' 1 ''rtl'', set_if ''flags'' 2 ''v2'', rd ''url'' readString,
         rd ''blocks'' (readVector (Some readTLPageBlock)),
         rd ''photos'' (readVector (Some readTLPhoto)),
         rd ''documents'' (readVector (Some readTLDocument)),
         rd_if ''flags'' 3 ''views'' readInt32])]"

definition writeTLPage :: tl_writer where
  "writeTLPage = write_fobject
     [(- 1738178803, [wf ''_'' writeInt32, wf_flags ''flags'' [(''part'', 0), (''rtl'', 1),
         (''v2'', 2), (''views'', 3)], wf ''url'' writeString,
         wf ''blocks'' (writeVector (Some writeTLPageBlock)),
         wf ''photos'' (writeVector (Some writeTLPhoto)),
         wf ''documents'' (writeVector (Some writeTLDocument)),
         wf_if ''flags'' 3 ''views'' writeInt32])]"

definition TL_Page_table :: flag_table where
  "TL_Page_table =
     [(- 1738178803, [Flags ''flags'' [(''part'', 0), (''rtl'', 1), (''v2'', 2), (''views'', 3)],
        TrueBit ''flags'' 0 ''part'',
        TrueBit ''flags'' 1 ''rtl'',
        TrueBit ''flags'' 2 ''v2'',
        Plain (''url'', readString, writeString, enc_string, is_short_text),
        Plain (''blocks'', readVector (Some readTLPageBlock), writeVector (Some writeTLPageBlock),
         enc_vector enc_PageBlock, ok_vector ok_PageBlock),
        Plain (''photos'', readVector (Some readTLPhoto), writeVector (Some writeTLPhoto),
         enc_vector (enc_fobject TL_Photo_table), ok_vector (ok_fobject TL_Photo_table)),
        Plain (''documents'', readVector (Some readTLDocument), writeVector (Some writeTLDocument),
         enc_vector (enc_fobject TL_Document_table), ok_vector (ok_fobject TL_Document_table)),
        Cond ''flags'' 3 (''views'', readInt32, writeInt32, enc_int32, is_VInt)])]"

interpretation tl_Page: tl_codec readTLPage writeTLPage "enc_fobject TL_Page_table" "ok_fobject TL_Page_table"
  by (rule flag_schema_codec, unfold TL_Page_table_def, intro flag_tableI)
    (simp_all add: readTLPage_def writeTLPage_def flag_schema_simps tl_PageBlock.tl_codec_axioms tl_Photo.tl_codec_axioms tl_Document.tl_codec_axioms
      tl_PageBlock.vector_codec tl_Photo.vector_codec tl_Document.vector_codec)

definition readTLWallPaper :: tl_reader where
  "readTLWallPaper = read_object
     [(- 1539849235, [rd ''id'' readInt64, rd ''flags'' readUInt32, set_if ''flags'' 0 ''creator'',
         set_if ''flags'' 1 ''default'', set_if ''flags'' 3 ''pattern'',
         set_if ''flags'' 4 ''dark'', rd ''access_hash'' readInt64, rd ''slug'' readString,
         rd ''document'' readTLDocument, rd_if ''flags'' 2 ''settings'' readTLWallPaperSettings]),
      (- 528465642, [rd ''id'' readInt64, rd ''flags'' readUInt32, set_if ''flags'' 1 ''default'',
         set_if ''flags'' 4 ''dark'', rd_if ''flags'' 2 ''settings'' readTLWallPaperSettings])]"

definition writeTLWallPaper :: tl_writer where
  "writeTLWallPaper = write_fobject
     [(- 1539849235, [wf ''_'' writeInt32, wf ''id'' writeInt64, wf_flags ''flags'' [(''creator'',
         0), (''default'', 1), (''pattern'', 3), (''dark'', 4), (''settings'', 2)],
         wf ''access_hash'' writeInt64, wf ''slug'' writeString, wf ''document'' writeTLDocument,
         wf_if ''flags'' 2 ''settings'' writeTLWallPaperSettings]),
      (- 528465642, [wf ''_'' writeInt32, wf ''id'' writeInt64, wf_flags ''flags'' [(''default'',
         1), (''dark'', 4), (''settings'', 2)],
         wf_if ''flags'' 2 ''settings'' writeTLWallPaperSettings])]"

definition TL_WallPaper_table :: flag_table where
  "TL_WallPaper_table =
     [(- 1539849235, [Plain (''id'', readInt64, writeInt64, enc_int64, is_VLong),
        Flags ''flags'' [(''creator'', 0), (''default'', 1), (''pattern'', 3), (''dark'', 4),
         (''settings'', 2)],
        TrueBit ''flags'' 0 ''creator'',
        TrueBit ''flags'' 1 ''default'',
        TrueBit ''flags'' 3 ''pattern'',
        TrueBit ''flags'' 4 ''dark'',
        Plain (''access_hash'', readInt64, writeInt64, enc_int64, is_VLong),
        Plain (''slug'', readString, writeString, enc_string, is_short_text),
        Plain (''document'', readTLDocument, writeTLDocument, enc_fobject TL_Document_table,
         ok_fobject TL_Document_table),
        Cond ''flags'' 2 (''settings'', readTLWallPaperSettings, writeTLWallPaperSettings,
         enc_fobject TL_WallPaperSettings_table, ok_fobject TL_WallPaperSettings_table)]),
      (- 528465642, [Plain (''id'', readInt64, writeInt64, enc_int64, is_VLong),
        Flags ''flags'' [(''default'', 1), (''dark'', 4), (''settings'', 2)],
        TrueBit ''flags'' 1 ''default'',
        TrueBit ''flags'' 4 ''dark'',
        Cond ''flags'' 2 (''settings'', readTLWallPaperSettings, writeTLWallPaperSettings,
         enc_fobject TL_WallPaperSettings_table, ok_fobject TL_WallPaperSettings_table)])]"

interpretation tl_WallPaper: tl_codec readTLWallPaper writeTLWallPaper "enc_fobject TL_WallPaper_table" "ok_fobject TL_WallPaper_table"
  by (rule flag_schema_codec, unfold TL_WallPaper_table_def, intro flag_tableI)
    (simp_all add: readTLWallPaper_def writeTLWallPaper_def flag_schema_simps tl_Document.tl_codec_axioms tl_WallPaperSettings.tl_codec_axioms)

definition readTLThemeSettings :: tl_reader where
  "readTLThemeSettings = read_object
     [(- 94849324, [rd ''flags'' readUInt32, set_if ''flags'' 2 ''message_colors_animated'',
         rd ''base_theme'' readTLBaseTheme, rd ''accent_color'' readInt32,
         rd_if ''flags'' 3 ''outbox_accent_color'' readInt32,
         rd_if ''flags'' 0 ''message_colors'' (readVector (Some readInt32)),
         rd_if ''flags'' 1 ''wallpaper'' readTLWallPaper])]"

definition writeTLThemeSettings :: tl_writer where
  "writeTLThemeSettings = write_fobject
     [(- 94849324, [wf ''_'' writeInt32, wf_flags ''flags'' [(''message_colors_animated'', 2),
         (''outbox_accent_color'', 3), (''message_colors'', 0), (''wallpaper'', 1)],
         wf ''base_theme'' writeTLBaseTheme, wf ''accent_color'' writeInt32,
         wf_if ''flags'' 3 ''outbox_accent_color'' writeInt32,
         wf_if ''flags'' 0 ''message_colors'' (writeVector (Some writeInt32)),
         wf_if ''flags'' 1 ''wallpaper'' writeTLWallPaper])]"

definition TL_ThemeSettings_table :: flag_table where
  "TL_ThemeSettings_table =
     [(- 94849324, [Flags ''flags'' [(''message_colors_animated'', 2), (''outbox_accent_color'',
         3), (''message_colors'', 0), (''wallpaper'', 1)],
        TrueBit ''flags'' 2 ''message_colors_animated'',
        Plain (''base_theme'', readTLBaseTheme, writeTLBaseTheme, enc_fobject TL_BaseTheme_table,
         ok_fobject TL_BaseTheme_table),
        Plain (''accent_color'', readInt32, writeInt32, enc_int32, is_VInt),
        Cond ''flags'' 3 (''outbox_accent_color'', readInt32, writeInt32, enc_int32, is_VInt),
        Cond ''flags'' 0 (''message_colors'', readVector (Some readInt32),
         writeVector (Some writeInt32), enc_vector enc_int32, ok_vector is_VInt),
        Cond ''flags'' 1 (''wallpaper'', readTLWallPaper, writeTLWallPaper,
         enc_fobject TL_WallPaper_table, ok_fobject TL_WallPaper_table)])]"

interpretation tl_ThemeSettings: tl_codec readTLThemeSettings writeTLThemeSettings "enc_fobject TL_ThemeSettings_table" "ok_fobject TL_ThemeSettings_table"
  by (rule flag_schema_codec, unfold TL_ThemeSettings_table_def, intro flag_tableI)
    (simp_all add: readTLThemeSettings_def writeTLThemeSettings_def flag_schema_simps tl_BaseTheme.tl_codec_axioms tl_WallPaper.tl_codec_axioms)

definition readTLMediaAreaCoordinates :: tl_reader where
  "readTLMediaAreaCoordinates = read_object
     [(- 808853502, [rd ''flags'' readUInt32, rd ''x'' readDouble, rd ''y'' readDouble,
         rd ''w'' readDouble, rd ''h'' readDouble, rd ''rotation'' readDouble,
         rd_if ''flags'' 0 ''radius'' readDouble])]"

definition writeTLMediaAreaCoordinates :: tl_writer where
  "writeTLMediaAreaCoordinates = write_fobject
     [(- 808853502, [wf ''_'' writeInt32, wf_flags ''flags'' [(''radius'', 0)],
         wf ''x'' writeDouble, wf ''y'' writeDouble, wf ''w'' writeDouble, wf ''h'' writeDouble,
         wf ''rotation'' writeDouble, wf_if ''flags'' 0 ''radius'' writeDouble])]"

definition TL_MediaAreaCoordinates_table :: flag_table where
  "TL_MediaAreaCoordinates_table =
     [(- 808853502, [Flags ''flags'' [(''radius'', 0)],
        Plain (''x'', readDouble, writeDouble, enc_double, is_VDouble),
        Plain (''y'', readDouble, writeDouble, enc_double, is_VDouble),
        Plain (''w'', readDouble, writeDouble, enc_double, is_VDouble),
        Plain (''h'', readDouble, writeDouble, enc_double, is_VDouble),
        Plain (''rotation'', readDouble, writeDouble, enc_double, is_VDouble),
        Cond ''flags'' 0 (''radius'', readDouble, writeDouble, enc_double, is_VDouble)])]"

interpretation tl_MediaAreaCoordinates: tl_codec readTLMediaAreaCoordinates writeTLMediaAreaCoordinates "enc_fobject TL_MediaAreaCoordinates_table" "ok_fobject TL_MediaAreaCoordinates_table"
  by (rule flag_schema_codec, unfold TL_MediaAreaCoordinates_table_def, intro flag_tableI)
    (simp_all add: readTLMediaAreaCoordinates_def writeTLMediaAreaCoordinates_def flag_schema_simps)

definition readTLMediaArea :: tl_reader where
  "readTLMediaArea = read_object
     [(- 1098720356, [rd ''coordinates'' readTLMediaAreaCoordinates, rd ''geo'' readTLGeoPoint,
         rd ''title'' readString, rd ''address'' readString, rd ''provider'' readString,
         rd ''venue_id'' readString, rd ''venue_type'' readString]),
      (- 1300094593, [rd ''coordinates'' readTLMediaAreaCoordinates, rd ''query_id'' readInt64,
         rd ''result_id'' readString]),
      (- 891992787, [rd ''flags'' readUInt32, rd ''coordinates'' readTLMediaAreaCoordinates,
         rd ''geo'' readTLGeoPoint, rd_if ''flags'' 0 ''address'' readTLGeoPointAddress]),
      (340088945, [rd ''flags'' readUInt32, set_if ''flags'' 0 ''dark'',
         set_if ''flags'' 1 ''flipped'', rd ''coordinates'' readTLMediaAreaCoordinates,
         rd ''reaction'' readTLReaction]),
      (1996756655, [rd ''coordinates'' readTLMediaAreaCoordinates, rd ''channel_id'' readInt64,
         rd ''msg_id'' readInt32]),
      (577893055, [rd ''coordinates'' readTLMediaAreaCoordinates,
         rd ''channel'' readTLInputChannel, rd ''msg_id'' readInt32]),
      (926421125, [rd ''coordinates'' readTLMediaAreaCoordinates, rd ''url'' readString]),
      (1235637404, [rd ''coordinates'' readTLMediaAreaCoordinates, rd ''emoji'' readString,
         rd ''temperature_c'' readDouble, rd ''color'' readInt32]),
      (1468491885, [rd ''coordinates'' readTLMediaAreaCoordinates, rd ''slug'' readString])]"

definition writeTLMediaArea :: tl_writer where
  "writeTLMediaArea = write_fobject
     [(- 1098720356, [wf ''_'' writeInt32, wf ''coordinates'' writeTLMediaAreaCoordinates,
         wf ''geo'' writeTLGeoPoint, wf ''title'' writeString, wf ''address'' writeString,
         wf ''provider'' writeString, wf ''venue_id'' writeString, wf ''venue_type'' writeString]),
      (- 1300094593, [wf ''_'' writeInt32, wf ''coordinates'' writeTLMediaAreaCoordinates,
         wf ''query_id'' writeInt64, wf ''result_id'' writeString]),
      (- 891992787, [wf ''_'' writeInt32, wf_flags ''flags'' [(''address'', 0)],
         wf ''coordinates'' writeTLMediaAreaCoordinates, wf ''geo'' writeTLGeoPoint,
         wf_if ''flags'' 0 ''address'' writeTLGeoPointAddress]),
      (340088945, [wf ''_'' writeInt32, wf_flags ''flags'' [(''dark'', 0), (''flipped'', 1)],
         wf ''coordinates'' writeTLMediaAreaCoordinates, wf ''reaction'' writeTLReaction]),
      (1996756655, [wf ''_'' writeInt32, wf ''coordinates'' writeTLMediaAreaCoordinates,
         wf ''channel_id'' writeInt64, wf ''msg_id'' writeInt32]),
      (577893055, [wf ''_'' writeInt32, wf ''coordinates'' writeTLMediaAreaCoordinates,
         wf ''channel'' writeTLInputChannel, wf ''msg_id'' writeInt32]),
      (926421125, [wf ''_'' writeInt32, wf ''coordinates'' writeTLMediaAreaCoordinates,
         wf ''url'' writeString]),
      (1235637404, [wf ''_'' writeInt32, wf ''coordinates'' writeTLMediaAreaCoordinates,
         wf ''emoji'' writeString, wf ''temperature_c'' writeDouble, wf ''color'' writeInt32]),
      (1468491885, [wf ''_'' writeInt32, wf ''coordinates'' writeTLMediaAreaCoordinates,
         wf ''slug'' writeString])]"

definition TL_MediaArea_table :: flag_table where
  "TL_MediaArea_table =
     [(- 1098720356, [Plain (''coordinates'', readTLMediaAreaCoordinates,
         writeTLMediaAreaCoordinates, enc_fobject TL_MediaAreaCoordinates_table,
         ok_fobject TL_MediaAreaCoordinates_table),
        Plain (''geo'', readTLGeoPoint, writeTLGeoPoint, enc_fobject TL_GeoPoint_table,
         ok_fobject TL_GeoPoint_table),
        Plain (''title'', readString, writeString, enc_string, is_short_text),
        Plain (''address'', readString, writeString, enc_string, is_short_text),
        Plain (''provider'', readString, writeString, enc_string, is_short_text),
        Plain (''venue_id'', readString, writeString, enc_string, is_short_text),
        Plain (''venue_type'', readString, writeString, enc_string, is_short_text)]),
      (- 1300094593, [Plain (''coordinates'', readTLMediaAreaCoordinates,
         writeTLMediaAreaCoordinates, enc_fobject TL_MediaAreaCoordinates_table,
         ok_fobject TL_MediaAreaCoordinates_table),
        Plain (''query_id'', readInt64, writeInt64, enc_int64, is_VLong),
        Plain (''result_id'', readString, writeString, enc_string, is_short_text)]),
      (- 891992787, [Flags ''flags'' [(''address'', 0)],
        Plain (''coordinates'', readTLMediaAreaCoordinates, writeTLMediaAreaCoordinates,
         enc_fobject TL_MediaAreaCoordinates_table, ok_fobject TL_MediaAreaCoordinates_table),
        Plain (''geo'', readTLGeoPoint, writeTLGeoPoint, enc_fobject TL_GeoPoint_table,
         ok_fobject TL_GeoPoint_table),
        Cond ''flags'' 0 (''address'', readTLGeoPointAddress, writeTLGeoPointAddress,
         enc_fobject TL_GeoPointAddress_table, ok_fobject TL_GeoPointAddress_table)]),
      (340088945, [Flags ''flags'' [(''dark'', 0), (''flipped'', 1)],
        TrueBit ''flags'' 0 ''dark'',
        TrueBit ''flags'' 1 ''flipped'',
        Plain (''coordinates'', readTLMediaAreaCoordinates, writeTLMediaAreaCoordinates,
         enc_fobject TL_MediaAreaCoordinates_table, ok_fobject TL_MediaAreaCoordinates_table),
        Plain (''reaction'', readTLReaction, writeTLReaction, enc_fobject TL_Reaction_table,
         ok_fobject TL_Reaction_table)]),
      (1996756655, [Plain (''coordinates'', readTLMediaAreaCoordinates,
         writeTLMediaAreaCoordinates, enc_fobject TL_MediaAreaCoordinates_table,
         ok_fobject TL_MediaAreaCoordinates_table),
        Plain (''channel_id'', readInt64, writeInt64, enc_int64, is_VLong),
        Plain (''msg_id'', readInt32, writeInt32, enc_int32, is_VInt)]),
      (577893055, [Plain (''coordinates'', readTLMediaAreaCoordinates, writeTLMediaAreaCoordinates,
         enc_fobject TL_MediaAreaCoordinates_table, ok_fobject TL_MediaAreaCoordinates_table),
        Plain (''channel'', readTLInputChannel, writeTLInputChannel,
         enc_fobject TL_InputChannel_table, ok_fobject TL_InputChannel_table),
        Plain (''msg_id'', readInt32, writeInt32, enc_int32, is_VInt)]),
      (926421125, [Plain (''coordinates'', readTLMediaAreaCoordinates, writeTLMediaAreaCoordinates,
         enc_fobject TL_MediaAreaCoordinates_table, ok_fobject TL_MediaAreaCoordinates_table),
        Plain (''url'', readString, writeString, enc_string, is_short_text)]),
      (1235637404, [Plain (''coordinates'', readTLMediaAreaCoordinates,
         writeTLMediaAreaCoordinates, enc_fobject TL_MediaAreaCoordinates_table,
         ok_fobject TL_MediaAreaCoordinates_table),
        Plain (''emoji'', readString, writeString, enc_string, is_short_text),
        Plain (''temperature_c'', readDouble, writeDouble, enc_double, is_VDouble),
        Plain (''color'', readInt32, writeInt32, enc_int32, is_VInt)]),
      (1468491885, [Plain (''coordinates'', readTLMediaAreaCoordinates,
         writeTLMediaAreaCoordinates, enc_fobject TL_MediaAreaCoordinates_table,
         ok_fobject TL_MediaAreaCoordinates_table),
        Plain (''slug'', readString, writeString, enc_string, is_short_text)])]"

interpretation tl_MediaArea: tl_codec readTLMediaArea writeTLMediaArea "enc_fobject TL_MediaArea_table" "ok_fobject TL_MediaArea_table"
  by (rule flag_schema_codec, unfold TL_MediaArea_table_def, intro flag_tableI)
    (simp_all add: readTLMediaArea_def writeTLMediaArea_def flag_schema_simps tl_MediaAreaCoordinates.tl_codec_axioms tl_GeoPoint.tl_codec_axioms
      tl_GeoPointAddress.tl_codec_axioms tl_Reaction.tl_codec_axioms tl_InputChannel.tl_codec_axioms)

definition readTLStarGiftAttribute :: tl_reader where
  "readTLStarGiftAttribute = read_object
     [(1448235490, [rd ''flags'' readUInt32, set_if ''flags'' 0 ''crafted'',
         rd ''name'' readString, rd ''document'' readTLDocument,
         rd ''rarity'' readTLStarGiftAttributeRarity]),
      (1315997162, [rd ''name'' readString, rd ''document'' readTLDocument,
         rd ''rarity'' readTLStarGiftAttributeRarity]),
      (- 1624963868, [rd ''name'' readString, rd ''backdrop_id'' readInt32,
         rd ''center_color'' readInt32, rd ''edge_color'' readInt32,
         rd ''pattern_color'' readInt32, rd ''text_color'' readInt32,
         rd ''rarity'' readTLStarGiftAttributeRarity]),
      (- 524291476, [rd ''flags'' readUInt32, rd_if ''flags'' 0 ''sender_id'' readTLPeer,
         rd ''recipient_id'' readTLPeer, rd ''date'' readInt32,
         rd_if ''flags'' 1 ''message'' readTLTextWithEntities])]"

definition writeTLStarGiftAttribute :: tl_writer where
  "writeTLStarGiftAttribute = write_fobject
     [(1448235490, [wf ''_'' writeInt32, wf_flags ''flags'' [(''crafted'', 0)],
         wf ''name'' writeString, wf ''document'' writeTLDocument,
         wf ''rarity'' writeTLStarGiftAttributeRarity]),
      (1315997162, [wf ''_'' writeInt32, wf ''name'' writeString, wf ''document'' writeTLDocument,
         wf ''rarity'' writeTLStarGiftAttributeRarity]),
      (- 1624963868, [wf ''_'' writeInt32, wf ''name'' writeString, wf ''backdrop_id'' writeInt32,
         wf ''center_color'' writeInt32, wf ''edge_color'' writeInt32,
         wf ''pattern_color'' writeInt32, wf ''text_color'' writeInt32,
         wf ''rarity'' writeTLStarGiftAttributeRarity]),
      (- 524291476, [wf ''_'' writeInt32, wf_flags ''flags'' [(''sender_id'', 0), (''message'',
         1)], wf_if ''flags'' 0 ''sender_id'' writeTLPeer, wf ''recipient_id'' writeTLPeer,
         wf ''date'' writeInt32, wf_if ''flags'' 1 ''message'' writeTLTextWithEntities])]"

definition TL_StarGiftAttribute_table :: flag_table where
  "TL_StarGiftAttribute_table =
     [(1448235490, [Flags ''flags'' [(''crafted'', 0)],
        TrueBit ''flags'' 0 ''crafted'',
        Plain (''name'', readString, writeString, enc_string, is_short_text),
        Plain (''document'', readTLDocument, writeTLDocument, enc_fobject TL_Document_table,
         ok_fobject TL_Document_table),
        Plain (''rarity'', readTLStarGiftAttributeRarity, writeTLStarGiftAttributeRarity,
         enc_fobject TL_StarGiftAttributeRarity_table,
         ok_fobject TL_StarGiftAttributeRarity_table)]),
      (1315997162, [Plain (''name'', readString, writeString, enc_string, is_short_text),
        Plain (''document'', readTLDocument, writeTLDocument, enc_fobject TL_Document_table,
         ok_fobject TL_Document_table),
        Plain (''rarity'', readTLStarGiftAttributeRarity, writeTLStarGiftAttributeRarity,
         enc_fobject TL_StarGiftAttributeRarity_table,
         ok_fobject TL_StarGiftAttributeRarity_table)]),
      (- 1624963868, [Plain (''name'', readString, writeString, enc_string, is_short_text),
        Plain (''backdrop_id'', readInt32, writeInt32, enc_int32, is_VInt),
        Plain (''center_color'', readInt32, writeInt32, enc_int32, is_VInt),
        Plain (''edge_color'', readInt32, writeInt32, enc_int32, is_VInt),
        Plain (''pattern_color'', readInt32, writeInt32, enc_int32, is_VInt),
        Plain (''text_color'', readInt32, writeInt32, enc_int32, is_VInt),
        Plain (''rarity'', readTLStarGiftAttributeRarity, writeTLStarGiftAttributeRarity,
         enc_fobject TL_StarGiftAttributeRarity_table,
         ok_fobject TL_StarGiftAttributeRarity_table)]),
      (- 524291476, [Flags ''flags'' [(''sender_id'', 0), (''message'', 1)],
        Cond ''flags'' 0 (''sender_id'', readTLPeer, writeTLPeer, enc_fobject TL_Peer_table,
         ok_fobject TL_Peer_table),
        Plain (''recipient_id'', readTLPeer, writeTLPeer, enc_fobject TL_Peer_table,
         ok_fobject TL_Peer_table),
        Plain (''date'', readInt32, writeInt32, enc_int32, is_VInt),
        Cond ''flags'' 1 (''message'', readTLTextWithEntities, writeTLTextWithEntities,
         enc_fobject TL_TextWithEntities_table, ok_fobject TL_TextWithEntities_table)])]"

interpretation tl_StarGiftAttribute: tl_codec readTLStarGiftAttribute writeTLStarGiftAttribute "enc_fobject TL_StarGiftAttribute_table" "ok_fobject TL_StarGiftAttribute_table"
  by (rule flag_schema_codec, unfold TL_StarGiftAttribute_table_def, intro flag_tableI)
    (simp_all add: readTLStarGiftAttribute_def writeTLStarGiftAttribute_def flag_schema_simps tl_Document.tl_codec_axioms tl_StarGiftAttributeRarity.tl_codec_axioms tl_Peer.tl_codec_axioms
      tl_TextWithEntities.tl_codec_axioms)

definition readTLStarGift :: tl_reader where
  "readTLStarGift = read_object
     [(825922887, [rd ''flags'' readUInt32, set_if ''flags'' 0 ''limited'',
         set_if ''flags'' 1 ''sold_out'', set_if ''flags'' 2 ''birthday'',
         set_if ''flags'' 7 ''require_premium'', set_if ''flags'' 8 ''limited_per_user'',
         set_if ''flags'' 10 ''peer_color_available'', set_if ''flags'' 11 ''auction'',
         rd ''id'' readInt64, rd ''sticker'' readTLDocument, rd ''stars'' readInt64,
         rd_if ''flags'' 0 ''availability_remains'' readInt32,
         rd_if ''flags'' 0 ''availability_total'' readInt32,
         rd_if ''flags'' 4 ''availability_resale'' readInt64, rd ''convert_stars'' readInt64,
         rd_if ''flags'' 1 ''first_sale_date'' readInt32,
         rd_if ''flags'' 1 ''last_sale_date'' readInt32,
         rd_if ''flags'' 3 ''upgrade_stars'' readInt64,
         rd_if ''flags'' 4 ''resell_min_stars'' readInt64, rd_if ''flags'' 5 ''title'' readString,
         rd_if ''flags'' 6 ''released_by'' readTLPeer,
         rd_if ''flags'' 8 ''per_user_total'' readInt32,
         rd_if ''flags'' 8 ''per_user_remains'' readInt32,
         rd_if ''flags'' 9 ''locked_until_date'' readInt32,
         rd_if ''flags'' 11 ''auction_slug'' readString,
         rd_if ''flags'' 11 ''gifts_per_round'' readInt32,
         rd_if ''flags'' 11 ''auction_start_date'' readInt32,
         rd_if ''flags'' 12 ''upgrade_variants'' readInt32,
         rd_if ''flags'' 13 ''background'' readTLStarGiftBackground]),
      (- 2047825459, [rd ''flags'' readUInt32, set_if ''flags'' 6 ''require_premium'',
         set_if ''flags'' 7 ''resale_ton_only'', set_if ''flags'' 9 ''theme_available'',
         set_if ''flags'' 14 ''burned'', set_if ''flags'' 15 ''crafted'', rd ''id'' readInt64,
         rd ''gift_id'' readInt64, rd ''title'' readString, rd ''slug'' readString,
         rd ''num'' readInt32, rd_if ''flags'' 0 ''owner_id'' readTLPeer,
         rd_if ''flags'' 1 ''owner_name'' readString,
         rd_if ''flags'' 2 ''owner_address'' readString,
         rd ''attributes'' (readVector (Some readTLStarGiftAttribute)),
         rd ''availability_issued'' readInt32, rd ''availability_total'' readInt32,
         rd_if ''flags'' 3 ''gift_address'' readString,
         rd_if ''flags'' 4 ''resell_amount'' (readVector (Some readTLStarsAmount)),
         rd_if ''flags'' 5 ''released_by'' readTLPeer,
         rd_if ''flags'' 8 ''value_amount'' readInt64,
         rd_if ''flags'' 8 ''value_currency'' readString,
         rd_if ''flags'' 8 ''value_usd_amount'' readInt64,
         rd_if ''flags'' 10 ''theme_peer'' readTLPeer,
         rd_if ''flags'' 11 ''peer_color'' readTLPeerColor,
         rd_if ''flags'' 12 ''host_id'' readTLPeer,
         rd_if ''flags'' 13 ''offer_min_stars'' readInt32,
         rd_if ''flags'' 16 ''craft_chance_permille'' readInt32])]"

definition writeTLStarGift :: tl_writer where
  "writeTLStarGift = write_fobject
     [(825922887, [wf ''_'' writeInt32, wf_flags ''flags'' [(''limited'', 0), (''sold_out'', 1),
         (''birthday'', 2), (''require_premium'', 7), (''limited_per_user'', 8),
         (''peer_color_available'', 10), (''auction'', 11), (''availability_remains'', 0),
         (''availability_total'', 0), (''availability_resale'', 4), (''first_sale_date'', 1),
         (''last_sale_date'', 1), (''upgrade_stars'', 3), (''resell_min_stars'', 4), (''title'',
         5), (''released_by'', 6), (''per_user_total'', 8), (''per_user_remains'', 8),
         (''locked_until_date'', 9), (''auction_slug'', 11), (''gifts_per_round'', 11),
         (''auction_start_date'', 11), (''upgrade_variants'', 12), (''background'', 13)],
         wf ''id'' writeInt64, wf ''sticker'' writeTLDocument, wf ''stars'' writeInt64,
         wf_if ''flags'' 0 ''availability_remains'' writeInt32,
         wf_if ''flags'' 0 ''availability_total'' writeInt32,
         wf_if ''flags'' 4 ''availability_resale'' writeInt64, wf ''convert_stars'' writeInt64,
         wf_if ''flags'' 1 ''first_sale_date'' writeInt32,
         wf_if ''flags'' 1 ''last_sale_date'' writeInt32,
         wf_if ''flags'' 3 ''upgrade_stars'' writeInt64,
         wf_if ''flags'' 4 ''resell_min_stars'' writeInt64,
         wf_if ''flags'' 5 ''title'' writeString, wf_if ''flags'' 6 ''released_by'' writeTLPeer,
         wf_if ''flags'' 8 ''per_user_total'' writeInt32,
         wf_if ''flags'' 8 ''per_user_remains'' writeInt32,
         wf_if ''flags'' 9 ''locked_until_date'' writeInt32,
         wf_if ''flags'' 11 ''auction_slug'' writeString,
         wf_if ''flags'' 11 ''gifts_per_round'' writeInt32,
         wf_if ''flags'' 11 ''auction_start_date'' writeInt32,
         wf_if ''flags'' 12 ''upgrade_variants'' writeInt32,
         wf_if ''flags'' 13 ''background'' writeTLStarGiftBackground]),
      (- 2047825459, [wf ''_'' writeInt32, wf_flags ''flags'' [(''require_premium'', 6),
         (''resale_ton_only'', 7), (''theme_available'', 9), (''burned'', 14), (''crafted'', 15),
         (''owner_id'', 0), (''owner_name'', 1), (''owner_address'', 2), (''gift_address'', 3),
         (''resell_amount'', 4), (''released_by'', 5), (''value_amount'', 8), (''value_currency'',
         8), (''value_usd_amount'', 8), (''theme_peer'', 10), (''peer_color'', 11), (''host_id'',
         12), (''offer_min_stars'', 13), (''craft_chance_permille'', 16)], wf ''id'' writeInt64,
         wf ''gift_id'' writeInt64, wf ''title'' writeString, wf ''slug'' writeString,
         wf ''num'' writeInt32, wf_if ''flags'' 0 ''owner_id'' writeTLPeer,
         wf_if ''flags'' 1 ''owner_name'' writeString,
         wf_if ''flags'' 2 ''owner_address'' writeString,
         wf ''attributes'' (writeVector (Some writeTLStarGiftAttribute)),
         wf ''availability_issued'' writeInt32, wf ''availability_total'' writeInt32,
         wf_if ''flags'' 3 ''gift_address'' writeString,
         wf_if ''flags'' 4 ''resell_amount'' (writeVector (Some writeTLStarsAmount)),
         wf_if ''flags'' 5 ''released_by'' writeTLPeer,
         wf_if ''flags'' 8 ''value_amount'' writeInt64,
         wf_if ''flags'' 8 ''value_currency'' writeString,
         wf_if ''flags'' 8 ''value_usd_amount'' writeInt64,
         wf_if ''flags'' 10 ''theme_peer'' writeTLPeer,
         wf_if ''flags'' 11 ''peer_color'' writeTLPeerColor,
         wf_if ''flags'' 12 ''host_id'' writeTLPeer,
         wf_if ''flags'' 13 ''offer_min_stars'' writeInt32,
         wf_if ''flags'' 16 ''craft_chance_permille'' writeInt32])]"

definition TL_StarGift_table :: flag_table where
  "TL_StarGift_table =
     [(825922887, [Flags ''flags'' [(''limited'', 0), (''sold_out'', 1), (''birthday'', 2),
         (''require_premium'', 7), (''limited_per_user'', 8), (''peer_color_available'', 10),
         (''auction'', 11), (''availability_remains'', 0), (''availability_total'', 0),
         (''availability_resale'', 4), (''first_sale_date'', 1), (''last_sale_date'', 1),
         (''upgrade_stars'', 3), (''resell_min_stars'', 4), (''title'', 5), (''released_by'', 6),
         (''per_user_total'', 8), (''per_user_remains'', 8), (''locked_until_date'', 9),
         (''auction_slug'', 11), (''gifts_per_round'', 11), (''auction_start_date'', 11),
         (''upgrade_variants'', 12), (''background'', 13)],
        TrueBit ''flags'' 0 ''limited'',
        TrueBit ''flags'' 1 ''sold_out'',
        TrueBit ''flags'' 2 ''birthday'',
        TrueBit ''flags'' 7 ''require_premium'',
        TrueBit ''flags'' 8 ''limited_per_user'',
        TrueBit ''flags'' 10 ''peer_color_available'',
        TrueBit ''flags'' 11 ''auction'',
        Plain (''id'', readInt64, writeInt64, enc_int64, is_VLong),
        Plain (''sticker'', readTLDocument, writeTLDocument, enc_fobject TL_Document_table,
         ok_fobject TL_Document_table),
        Plain (''stars'', readInt64, writeInt64, enc_int64, is_VLong),
        Cond ''flags'' 0 (''availability_remains'', readInt32, writeInt32, enc_int32, is_VInt),
        Cond ''flags'' 0 (''availability_total'', readInt32, writeInt32, enc_int32, is_VInt),
        Cond ''flags'' 4 (''availability_resale'', readInt64, writeInt64, enc_int64, is_VLong),
        Plain (''convert_stars'', readInt64, writeInt64, enc_int64, is_VLong),
        Cond ''flags'' 1 (''first_sale_date'', readInt32, writeInt32, enc_int32, is_VInt),
        Cond ''flags'' 1 (''last_sale_date'', readInt32, writeInt32, enc_int32, is_VInt),
        Cond ''flags'' 3 (''upgrade_stars'', readInt64, writeInt64, enc_int64, is_VLong),
        Cond ''flags'' 4 (''resell_min_stars'', readInt64, writeInt64, enc_int64, is_VLong),
        Cond ''flags'' 5 (''title'', readString, writeString, enc_string, is_short_text),
        Cond ''flags'' 6 (''released_by'', readTLPeer, writeTLPeer, enc_fobject TL_Peer_table,
         ok_fobject TL_Peer_table),
        Cond ''flags'' 8 (''per_user_total'', readInt32, writeInt32, enc_int32, is_VInt),
        Cond ''flags'' 8 (''per_user_remains'', readInt32, writeInt32, enc_int32, is_VInt),
        Cond ''flags'' 9 (''locked_until_date'', readInt32, writeInt32, enc_int32, is_VInt),
        Cond ''flags'' 11 (''auction_slug'', readString, writeString, enc_string, is_short_text),
        Cond ''flags'' 11 (''gifts_per_round'', readInt32, writeInt32, enc_int32, is_VInt),
        Cond ''flags'' 11 (''auction_start_date'', readInt32, writeInt32, enc_int32, is_VInt),
        Cond ''flags'' 12 (''upgrade_variants'', readInt32, writeInt32, enc_int32, is_VInt),
        Cond ''flags'' 13 (''background'', readTLStarGiftBackground, writeTLStarGiftBackground,
         enc_fobject TL_StarGiftBackground_table, ok_fobject TL_StarGiftBackground_table)]),
      (- 2047825459, [Flags ''flags'' [(''require_premium'', 6), (''resale_ton_only'', 7),
         (''theme_available'', 9), (''burned'', 14), (''crafted'', 15), (''owner_id'', 0),
         (''owner_name'', 1), (''owner_address'', 2), (''gift_address'', 3), (''resell_amount'',
         4), (''released_by'', 5), (''value_amount'', 8), (''value_currency'', 8),
         (''value_usd_amount'', 8), (''theme_peer'', 10), (''peer_color'', 11), (''host_id'', 12),
         (''offer_min_stars'', 13), (''craft_chance_permille'', 16)],
        TrueBit ''flags'' 6 ''require_premium'',
        TrueBit ''flags'' 7 ''resale_ton_only'',
        TrueBit ''flags'' 9 ''theme_available'',
        TrueBit ''flags'' 14 ''burned'',
        TrueBit ''flags'' 15 ''crafted'',
        Plain (''id'', readInt64, writeInt64, enc_int64, is_VLong),
        Plain (''gift_id'', readInt64, writeInt64, enc_int64, is_VLong),
        Plain (''title'', readString, writeString, enc_string, is_short_text),
        Plain (''slug'', readString, writeString, enc_string, is_short_text),
        Plain (''num'', readInt32, writeInt32, enc_int32, is_VInt),
        Cond ''flags'' 0 (''owner_id'', readTLPeer, writeTLPeer, enc_fobject TL_Peer_table,
         ok_fobject TL_Peer_table),
        Cond ''flags'' 1 (''owner_name'', readString, writeString, enc_string, is_short_text),
        Cond ''flags'' 2 (''owner_address'', readString, writeString, enc_string, is_short_text),
        Plain (''attributes'', readVector (Some readTLStarGiftAttribute),
         writeVector (Some writeTLStarGiftAttribute),
         enc_vector (enc_fobject TL_StarGiftAttribute_table),
         ok_vector (ok_fobject TL_StarGiftAttribute_table)),
        Plain (''availability_issued'', readInt32, writeInt32, enc_int32, is_VInt),
        Plain (''availability_total'', readInt32, writeInt32, enc_int32, is_VInt),
        Cond ''flags'' 3 (''gift_address'', readString, writeString, enc_string, is_short_text),
        Cond ''flags'' 4 (''resell_amount'', readVector (Some readTLStarsAmount),
         writeVector (Some writeTLStarsAmount), enc_vector (enc_fobject TL_StarsAmount_table),
         ok_vector (ok_fobject TL_StarsAmount_table)),
        Cond ''flags'' 5 (''released_by'', readTLPeer, writeTLPeer, enc_fobject TL_Peer_table,
         ok_fobject TL_Peer_table),
        Cond ''flags'' 8 (''value_amount'', readInt64, writeInt64, enc_int64, is_VLong),
        Cond ''flags'' 8 (''value_currency'', readString, writeString, enc_string, is_short_text),
        Cond ''flags'' 8 (''value_usd_amount'', readInt64, writeInt64, enc_int64, is_VLong),
        Cond ''flags'' 10 (''theme_peer'', readTLPeer, writeTLPeer, enc_fobject TL_Peer_table,
         ok_fobject TL_Peer_table),
        Cond ''flags'' 11 (''peer_color'', readTLPeerColor, writeTLPeerColor,
         enc_fobject TL_PeerColor_table, ok_fobject TL_PeerColor_table),
        Cond ''flags'' 12 (''host_id'', readTLPeer, writeTLPeer, enc_fobject TL_Peer_table,
         ok_fobject TL_Peer_table),
        Cond ''flags'' 13 (''offer_min_stars'', readInt32, writeInt32, enc_int32, is_VInt),
        Cond ''flags'' 16 (''craft_chance_permille'', readInt32, writeInt32, enc_int32, is_VInt)])]"

interpretation tl_StarGift: tl_codec readTLStarGift writeTLStarGift "enc_fobject TL_StarGift_table" "ok_fobject TL_StarGift_table"
  by (rule flag_schema_codec, unfold TL_StarGift_table_def, intro flag_tableI)
    (simp_all add: readTLStarGift_def writeTLStarGift_def flag_schema_simps tl_Document.tl_codec_axioms tl_Peer.tl_codec_axioms tl_StarGiftBackground.tl_codec_axioms
      tl_StarGiftAttribute.tl_codec_axioms tl_StarsAmount.tl_codec_axioms tl_PeerColor.tl_codec_axioms
      tl_StarGiftAttribute.vector_codec tl_StarsAmount.vector_codec)

definition readTLGame :: tl_reader where
  "readTLGame = read_object
     [(- 1107729093, [rd ''flags'' readUInt32, rd ''id'' readInt64, rd ''access_hash'' readInt64,
         rd ''short_name'' readString, rd ''title'' readString, rd ''description'' readString,
         rd ''photo'' readTLPhoto, rd_if ''flags'' 0 ''document'' readTLDocument])]"

definition writeTLGame :: tl_writer where
  "writeTLGame = write_fobject
     [(- 1107729093, [wf ''_'' writeInt32, wf_flags ''flags'' [(''document'', 0)],
         wf ''id'' writeInt64, wf ''access_hash'' writeInt64, wf ''short_name'' writeString,
         wf ''title'' writeString, wf ''description'' writeString, wf ''photo'' writeTLPhoto,
         wf_if ''flags'' 0 ''document'' writeTLDocument])]"

definition TL_Game_table :: flag_table where
  "TL_Game_table =
     [(- 1107729093, [Flags ''flags'' [(''document'', 0)],
        Plain (''id'', readInt64, writeInt64, enc_int64, is_VLong),
        Plain (''access_hash'', readInt64, writeInt64, enc_int64, is_VLong),
        Plain (''short_name'', readString, writeString, enc_string, is_short_text),
        Plain (''title'', readString, writeString, enc_string, is_short_text),
        Plain (''description'', readString, writeString, enc_string, is_short_text),
        Plain (''photo'', readTLPhoto, writeTLPhoto, enc_fobject TL_Photo_table,
         ok_fobject TL_Photo_table),
        Cond ''flags'' 0 (''document'', readTLDocument, writeTLDocument,
         enc_fobject TL_Document_table, ok_fobject TL_Document_table)])]"

interpretation tl_Game: tl_codec readTLGame writeTLGame "enc_fobject TL_Game_table" "ok_fobject TL_Game_table"
  by (rule flag_schema_codec, unfold TL_Game_table_def, intro flag_tableI)
    (simp_all add: readTLGame_def writeTLGame_def flag_schema_simps tl_Photo.tl_codec_axioms tl_Document.tl_codec_axioms)

definition readTLWebDocument :: tl_reader where
  "readTLWebDocument = read_object
     [(475467473, [rd ''url'' readString, rd ''access_hash'' readInt64, rd ''size'' readInt32,
         rd ''mime_type'' readString,
         rd ''attributes'' (readVector (Some readTLDocumentAttribute))]),
      (- 104284986, [rd ''url'' readString, rd ''size'' readInt32, rd ''mime_type'' readString,
         rd ''attributes'' (readVector (Some readTLDocumentAttribute))])]"

definition writeTLWebDocument :: tl_writer where
  "writeTLWebDocument = write_fobject
     [(475467473, [wf ''_'' writeInt32, wf ''url'' writeString, wf ''access_hash'' writeInt64,
         wf ''size'' writeInt32, wf ''mime_type'' writeString,
         wf ''attributes'' (writeVector (Some writeTLDocumentAttribute))]),
      (- 104284986, [wf ''_'' writeInt32, wf ''url'' writeString, wf ''size'' writeInt32,
         wf ''mime_type'' writeString,
         wf ''attributes'' (writeVector (Some writeTLDocumentAttribute))])]"

definition TL_WebDocument_table :: flag_table where
  "TL_WebDocument_table =
     [(475467473, [Plain (''url'', readString, writeString, enc_string, is_short_text),
        Plain (''access_hash'', readInt64, writeInt64, enc_int64, is_VLong),
        Plain (''size'', readInt32, writeInt32, enc_int32, is_VInt),
        Plain (''mime_type'', readString, writeString, enc_string, is_short_text),
        Plain (''attributes'', readVector (Some readTLDocumentAttribute),
         writeVector (Some writeTLDocumentAttribute),
         enc_vector (enc_fobject TL_DocumentAttribute_table),
         ok_vector (ok_fobject TL_DocumentAttribute_table))]),
      (- 104284986, [Plain (''url'', readString, writeString, enc_string, is_short_text),
        Plain (''size'', readInt32, writeInt32, enc_int32, is_VInt),
        Plain (''mime_type'', readString, writeString, enc_string, is_short_text),
        Plain (''attributes'', readVector (Some readTLDocumentAttribute),
         writeVector (Some writeTLDocumentAttribute),
         enc_vector (enc_fobject TL_DocumentAttribute_table),
         ok_vector (ok_fobject TL_DocumentAttribute_table))])]"

interpretation tl_WebDocument: tl_codec readTLWebDocument writeTLWebDocument "enc_fobject TL_WebDocument_table" "ok_fobject TL_WebDocument_table"
  by (rule flag_schema_codec, unfold TL_WebDocument_table_def, intro flag_tableI)
    (simp_all add: readTLWebDocument_def writeTLWebDocument_def flag_schema_simps tl_DocumentAttribute.tl_codec_axioms tl_DocumentAttribute.vector_codec)

datatype media_type = InputMediaT | MessageMediaT | WebPageT | PollAnswerT | PollT | PollResultsT | WebPageAttributeT | MessageExtendedMediaT | StoryItemT

definition inputMedia_reads :: "(media_type \<Rightarrow> tl_reader) \<Rightarrow> step_case list" where
  "inputMedia_reads r =
     [(- 1771768449, []),
      (2105767386, [rd ''flags'' readUInt32, set_if ''flags'' 2 ''spoiler'',
         set_if ''flags'' 3 ''live_photo'', rd ''file'' readTLInputFile,
         rd_if ''flags'' 0 ''stickers'' (readVector (Some readTLInputDocument)),
         rd_if ''flags'' 1 ''ttl_seconds'' readInt32,
         rd_if ''flags'' 3 ''video'' readTLInputDocument]),
      (- 475053004, [rd ''flags'' readUInt32, set_if ''flags'' 1 ''spoiler'',
         set_if ''flags'' 2 ''live_photo'', rd ''id'' readTLInputPhoto,
         rd_if ''flags'' 0 ''ttl_seconds'' readInt32,
         rd_if ''flags'' 2 ''video'' readTLInputDocument]),
      (- 104578748, [rd ''geo_point'' readTLInputGeoPoint]),
      (- 122978821, [rd ''phone_number'' readString, rd ''first_name'' readString,
         rd ''last_name'' readString, rd ''vcard'' readString]),
      (58495792, [rd ''flags'' readUInt32, set_if ''flags'' 3 ''nosound_video'',
         set_if ''flags'' 4 ''force_file'', set_if ''flags'' 5 ''spoiler'',
         rd ''file'' readTLInputFile, rd_if ''flags'' 2 ''thumb'' readTLInputFile,
         rd ''mime_type'' readString,
         rd ''attributes'' (readVector (Some readTLDocumentAttribute)),
         rd_if ''flags'' 0 ''stickers'' (readVector (Some readTLInputDocument)),
         rd_if ''flags'' 6 ''video_cover'' readTLInputPhoto,
         rd_if ''flags'' 7 ''video_timestamp'' readInt32,
         rd_if ''flags'' 1 ''ttl_seconds'' readInt32]),
      (- 1468646731, [rd ''flags'' readUInt32, set_if ''flags'' 2 ''spoiler'',
         rd ''id'' readTLInputDocument, rd_if ''flags'' 3 ''video_cover'' readTLInputPhoto,
         rd_if ''flags'' 4 ''video_timestamp'' readInt32,
         rd_if ''flags'' 0 ''ttl_seconds'' readInt32, rd_if ''flags'' 1 ''query'' readString]),
      (- 1052959727, [rd ''geo_point'' readTLInputGeoPoint, rd ''title'' readString,
         rd ''address'' readString, rd ''provider'' readString, rd ''venue_id'' readString,
         rd ''venue_type'' readString]),
      (- 440664550, [rd ''flags'' readUInt32, set_if ''flags'' 1 ''spoiler'',
         rd ''url'' readString, rd_if ''flags'' 0 ''ttl_seconds'' readInt32]),
      (2006319353, [rd ''flags'' readUInt32, set_if ''flags'' 1 ''spoiler'', rd ''url'' readString,
         rd_if ''flags'' 0 ''ttl_seconds'' readInt32,
         rd_if ''flags'' 2 ''video_cover'' readTLInputPhoto,
         rd_if ''flags'' 3 ''video_timestamp'' readInt32]),
      (- 750828557, [rd ''id'' readTLInputGame]),
      (1080028941, [rd ''flags'' readUInt32, rd ''title'' readString,
         rd ''description'' readString, rd_if ''flags'' 0 ''photo'' readTLInputWebDocument,
         rd ''invoice'' readTLInvoice, rd ''payload'' readByteArray,
         rd_if ''flags'' 3 ''provider'' readString, rd ''provider_data'' readTLDataJSON,
         rd_if ''flags'' 1 ''start_param'' readString,
         rd_if ''flags'' 2 ''extended_media'' (r InputMediaT)]),
      (- 1759532989, [rd ''flags'' readUInt32, set_if ''flags'' 0 ''stopped'',
         rd ''geo_point'' readTLInputGeoPoint, rd_if ''flags'' 2 ''heading'' readInt32,
         rd_if ''flags'' 1 ''period'' readInt32,
         rd_if ''flags'' 3 ''proximity_notification_radius'' readInt32]),
      (- 2009448184, [rd ''flags'' readUInt32, rd ''poll'' (r PollT),
         rd_if ''flags'' 0 ''correct_answers'' (readVector (Some readInt32)),
         rd_if ''flags'' 3 ''attached_media'' (r InputMediaT),
         rd_if ''flags'' 1 ''solution'' readString,
         rd_if ''flags'' 1 ''solution_entities'' (readVector (Some readTLMessageEntity)),
         rd_if ''flags'' 2 ''solution_media'' (r InputMediaT)]),
      (- 428884101, [rd ''emoticon'' readString]),
      (- 1979852936, [rd ''peer'' readTLInputPeer, rd ''id'' readInt32]),
      (- 1038383031, [rd ''flags'' readUInt32, set_if ''flags'' 0 ''force_large_media'',
         set_if ''flags'' 1 ''force_small_media'', set_if ''flags'' 2 ''optional'',
         rd ''url'' readString]),
      (- 1005571194, [rd ''flags'' readUInt32, rd ''stars_amount'' readInt64,
         rd ''extended_media'' (readVector (Some (r InputMediaT))),
         rd_if ''flags'' 0 ''payload'' readString]),
      (- 1614454818, [rd ''todo'' readTLTodoList]),
      (- 207018934, [rd ''game_hash'' readString, rd ''ton_amount'' readInt64,
         rd ''client_seed'' readByteArray])]"

definition inputMedia_writes :: "(media_type \<Rightarrow> tl_writer) \<Rightarrow> step_case list" where
  "inputMedia_writes w =
     [(- 1771768449, [wf ''_'' writeInt32]),
      (2105767386, [wf ''_'' writeInt32, wf_flags ''flags'' [(''spoiler'', 2), (''live_photo'', 3),
         (''stickers'', 0), (''ttl_seconds'', 1), (''video'', 3)], wf ''file'' writeTLInputFile,
         wf_if ''flags'' 0 ''stickers'' (writeVector (Some writeTLInputDocument)),
         wf_if ''flags'' 1 ''ttl_seconds'' writeInt32,
         wf_if ''flags'' 3 ''video'' writeTLInputDocument]),
      (- 475053004, [wf ''_'' writeInt32, wf_flags ''flags'' [(''spoiler'', 1), (''live_photo'',
         2), (''ttl_seconds'', 0), (''video'', 2)], wf ''id'' writeTLInputPhoto,
         wf_if ''flags'' 0 ''ttl_seconds'' writeInt32,
         wf_if ''flags'' 2 ''video'' writeTLInputDocument]),
      (- 104578748, [wf ''_'' writeInt32, wf ''geo_point'' writeTLInputGeoPoint]),
      (- 122978821, [wf ''_'' writeInt32, wf ''phone_number'' writeString,
         wf ''first_name'' writeString, wf ''last_name'' writeString, wf ''vcard'' writeString]),
      (58495792, [wf ''_'' writeInt32, wf_flags ''flags'' [(''nosound_video'', 3), (''force_file'',
         4), (''spoiler'', 5), (''thumb'', 2), (''stickers'', 0), (''video_cover'', 6),
         (''video_timestamp'', 7), (''ttl_seconds'', 1)], wf ''file'' writeTLInputFile,
         wf_if ''flags'' 2 ''thumb'' writeTLInputFile, wf ''mime_type'' writeString,
         wf ''attributes'' (writeVector (Some writeTLDocumentAttribute)),
         wf_if ''flags'' 0 ''stickers'' (writeVector (Some writeTLInputDocument)),
         wf_if ''flags'' 6 ''video_cover'' writeTLInputPhoto,
         wf_if ''flags'' 7 ''video_timestamp'' writeInt32,
         wf_if ''flags'' 1 ''ttl_seconds'' writeInt32]),
      (- 1468646731, [wf ''_'' writeInt32, wf_flags ''flags'' [(''spoiler'', 2), (''video_cover'',
         3), (''video_timestamp'', 4), (''ttl_seconds'', 0), (''query'', 1)],
         wf ''id'' writeTLInputDocument, wf_if ''flags'' 3 ''video_cover'' writeTLInputPhoto,
         wf_if ''flags'' 4 ''video_timestamp'' writeInt32,
         wf_if ''flags'' 0 ''ttl_seconds'' writeInt32, wf_if ''flags'' 1 ''query'' writeString]),
      (- 1052959727, [wf ''_'' writeInt32, wf ''geo_point'' writeTLInputGeoPoint,
         wf ''title'' writeString, wf ''address'' writeString, wf ''provider'' writeString,
         wf ''venue_id'' writeString, wf ''venue_type'' writeString]),
      (- 440664550, [wf ''_'' writeInt32, wf_flags ''flags'' [(''spoiler'', 1), (''ttl_seconds'',
         0)], wf ''url'' writeString, wf_if ''flags'' 0 ''ttl_seconds'' writeInt32]),
      (2006319353, [wf ''_'' writeInt32, wf_flags ''flags'' [(''spoiler'', 1), (''ttl_seconds'',
         0), (''video_cover'', 2), (''video_timestamp'', 3)], wf ''url'' writeString,
         wf_if ''flags'' 0 ''ttl_seconds'' writeInt32,
         wf_if ''flags'' 2 ''video_cover'' writeTLInputPhoto,
         wf_if ''flags'' 3 ''video_timestamp'' writeInt32]),
      (- 750828557, [wf ''_'' writeInt32, wf ''id'' writeTLInputGame]),
      (1080028941, [wf ''_'' writeInt32, wf_flags ''flags'' [(''photo'', 0), (''provider'', 3),
         (''start_param'', 1), (''extended_media'', 2)], wf ''title'' writeString,
         wf ''description'' writeString, wf_if ''flags'' 0 ''photo'' writeTLInputWebDocument,
         wf ''invoice'' writeTLInvoice, wf ''payload'' writeByteArray,
         wf_if ''flags'' 3 ''provider'' writeString, wf ''provider_data'' writeTLDataJSON,
         wf_if ''flags'' 1 ''start_param'' writeString,
         wf_if ''flags'' 2 ''extended_media'' (w InputMediaT)]),
      (- 1759532989, [wf ''_'' writeInt32, wf_flags ''flags'' [(''stopped'', 0), (''heading'', 2),
         (''period'', 1), (''proximity_notification_radius'', 3)],
         wf ''geo_point'' writeTLInputGeoPoint, wf_if ''flags'' 2 ''heading'' writeInt32,
         wf_if ''flags'' 1 ''period'' writeInt32,
         wf_if ''flags'' 3 ''proximity_notification_radius'' writeInt32]),
      (- 2009448184, [wf ''_'' writeInt32, wf_flags ''flags'' [(''correct_answers'', 0),
         (''attached_media'', 3), (''solution'', 1), (''solution_entities'', 1),
         (''solution_media'', 2)], wf ''poll'' (w PollT),
         wf_if ''flags'' 0 ''correct_answers'' (writeVector (Some writeInt32)),
         wf_if ''flags'' 3 ''attached_media'' (w InputMediaT),
         wf_if ''flags'' 1 ''solution'' writeString,
         wf_if ''flags'' 1 ''solution_entities'' (writeVector (Some writeTLMessageEntity)),
         wf_if ''flags'' 2 ''solution_media'' (w InputMediaT)]),
      (- 428884101, [wf ''_'' writeInt32, wf ''emoticon'' writeString]),
      (- 1979852936, [wf ''_'' writeInt32, wf ''peer'' writeTLInputPeer, wf ''id'' writeInt32]),
      (- 1038383031, [wf ''_'' writeInt32, wf_flags ''flags'' [(''force_large_media'', 0),
         (''force_small_media'', 1), (''optional'', 2)], wf ''url'' writeString]),
      (- 1005571194, [wf ''_'' writeInt32, wf_flags ''flags'' [(''payload'', 0)],
         wf ''stars_amount'' writeInt64,
         wf ''extended_media'' (writeVector (Some (w InputMediaT))),
         wf_if ''flags'' 0 ''payload'' writeString]),
      (- 1614454818, [wf ''_'' writeInt32, wf ''todo'' writeTLTodoList]),
      (- 207018934, [wf ''_'' writeInt32, wf ''game_hash'' writeString,
         wf ''ton_amount'' writeInt64, wf ''client_seed'' writeByteArray])]"

definition inputMedia_fields :: "media_type group_fields" where
  "inputMedia_fields r w e k =
     [(- 1771768449, []),
      (2105767386, [Flags ''flags'' [(''spoiler'', 2), (''live_photo'', 3), (''stickers'', 0),
         (''ttl_seconds'', 1), (''video'', 3)],
        TrueBit ''flags'' 2 ''spoiler'',
        TrueBit ''flags'' 3 ''live_photo'',
        Plain (''file'', readTLInputFile, writeTLInputFile, enc_fobject TL_InputFile_table,
         ok_fobject TL_InputFile_table),
        Cond ''flags'' 0 (''stickers'', readVector (Some readTLInputDocument),
         writeVector (Some writeTLInputDocument), enc_vector (enc_fobject TL_InputDocument_table),
         ok_vector (ok_fobject TL_InputDocument_table)),
        Cond ''flags'' 1 (''ttl_seconds'', readInt32, writeInt32, enc_int32, is_VInt),
        Cond ''flags'' 3 (''video'', readTLInputDocument, writeTLInputDocument,
         enc_fobject TL_InputDocument_table, ok_fobject TL_InputDocument_table)]),
      (- 475053004, [Flags ''flags'' [(''spoiler'', 1), (''live_photo'', 2), (''ttl_seconds'', 0),
         (''video'', 2)],
        TrueBit ''flags'' 1 ''spoiler'',
        TrueBit ''flags'' 2 ''live_photo'',
        Plain (''id'', readTLInputPhoto, writeTLInputPhoto, enc_fobject TL_InputPhoto_table,
         ok_fobject TL_InputPhoto_table),
        Cond ''flags'' 0 (''ttl_seconds'', readInt32, writeInt32, enc_int32, is_VInt),
        Cond ''flags'' 2 (''video'', readTLInputDocument, writeTLInputDocument,
         enc_fobject TL_InputDocument_table, ok_fobject TL_InputDocument_table)]),
      (- 104578748, [Plain (''geo_point'', readTLInputGeoPoint, writeTLInputGeoPoint,
         enc_fobject TL_InputGeoPoint_table, ok_fobject TL_InputGeoPoint_table)]),
      (- 122978821, [Plain (''phone_number'', readString, writeString, enc_string, is_short_text),
        Plain (''first_name'', readString, writeString, enc_string, is_short_text),
        Plain (''last_name'', readString, writeString, enc_string, is_short_text),
        Plain (''vcard'', readString, writeString, enc_string, is_short_text)]),
      (58495792, [Flags ''flags'' [(''nosound_video'', 3), (''force_file'', 4), (''spoiler'', 5),
         (''thumb'', 2), (''stickers'', 0), (''video_cover'', 6), (''video_timestamp'', 7),
         (''ttl_seconds'', 1)],
        TrueBit ''flags'' 3 ''nosound_video'',
        TrueBit ''flags'' 4 ''force_file'',
        TrueBit ''flags'' 5 ''spoiler'',
        Plain (''file'', readTLInputFile, writeTLInputFile, enc_fobject TL_InputFile_table,
         ok_fobject TL_InputFile_table),
        Cond ''flags'' 2 (''thumb'', readTLInputFile, writeTLInputFile,
         enc_fobject TL_InputFile_table, ok_fobject TL_InputFile_table),
        Plain (''mime_type'', readString, writeString, enc_string, is_short_text),
        Plain (''attributes'', readVector (Some readTLDocumentAttribute),
         writeVector (Some writeTLDocumentAttribute),
         enc_vector (enc_fobject TL_DocumentAttribute_table),
         ok_vector (ok_fobject TL_DocumentAttribute_table)),
        Cond ''flags'' 0 (''stickers'', readVector (Some readTLInputDocument),
         writeVector (Some writeTLInputDocument), enc_vector (enc_fobject TL_InputDocument_table),
         ok_vector (ok_fobject TL_InputDocument_table)),
        Cond ''flags'' 6 (''video_cover'', readTLInputPhoto, writeTLInputPhoto,
         enc_fobject TL_InputPhoto_table, ok_fobject TL_InputPhoto_table),
        Cond ''flags'' 7 (''video_timestamp'', readInt32, writeInt32, enc_int32, is_VInt),
        Cond ''flags'' 1 (''ttl_seconds'', readInt32, writeInt32, enc_int32, is_VInt)]),
      (- 1468646731, [Flags ''flags'' [(''spoiler'', 2), (''video_cover'', 3),
         (''video_timestamp'', 4), (''ttl_seconds'', 0), (''query'', 1)],
        TrueBit ''flags'' 2 ''spoiler'',
        Plain (''id'', readTLInputDocument, writeTLInputDocument,
         enc_fobject TL_InputDocument_table, ok_fobject TL_InputDocument_table),
        Cond ''flags'' 3 (''video_cover'', readTLInputPhoto, writeTLInputPhoto,
         enc_fobject TL_InputPhoto_table, ok_fobject TL_InputPhoto_table),
        Cond ''flags'' 4 (''video_timestamp'', readInt32, writeInt32, enc_int32, is_VInt),
        Cond ''flags'' 0 (''ttl_seconds'', readInt32, writeInt32, enc_int32, is_VInt),
        Cond ''flags'' 1 (''query'', readString, writeString, enc_string, is_short_text)]),
      (- 1052959727, [Plain (''geo_point'', readTLInputGeoPoint, writeTLInputGeoPoint,
         enc_fobject TL_InputGeoPoint_table, ok_fobject TL_InputGeoPoint_table),
        Plain (''title'', readString, writeString, enc_string, is_short_text),
        Plain (''address'', readString, writeString, enc_string, is_short_text),
        Plain (''provider'', readString, writeString, enc_string, is_short_text),
        Plain (''venue_id'', readString, writeString, enc_string, is_short_text),
        Plain (''venue_type'', readString, writeString, enc_string, is_short_text)]),
      (- 440664550, [Flags ''flags'' [(''spoiler'', 1), (''ttl_seconds'', 0)],
        TrueBit ''flags'' 1 ''spoiler'',
        Plain (''url'', readString, writeString, enc_string, is_short_text),
        Cond ''flags'' 0 (''ttl_seconds'', readInt32, writeInt32, enc_int32, is_VInt)]),
      (2006319353, [Flags ''flags'' [(''spoiler'', 1), (''ttl_seconds'', 0), (''video_cover'', 2),
         (''video_timestamp'', 3)],
        TrueBit ''flags'' 1 ''spoiler'',
        Plain (''url'', readString, writeString, enc_string, is_short_text),
        Cond ''flags'' 0 (''ttl_seconds'', readInt32, writeInt32, enc_int32, is_VInt),
        Cond ''flags'' 2 (''video_cover'', readTLInputPhoto, writeTLInputPhoto,
         enc_fobject TL_InputPhoto_table, ok_fobject TL_InputPhoto_table),
        Cond ''flags'' 3 (''video_timestamp'', readInt32, writeInt32, enc_int32, is_VInt)]),
      (- 750828557, [Plain (''id'', readTLInputGame, writeTLInputGame,
         enc_fobject TL_InputGame_table, ok_fobject TL_InputGame_table)]),
      (1080028941, [Flags ''flags'' [(''photo'', 0), (''provider'', 3), (''start_param'', 1),
         (''extended_media'', 2)],
        Plain (''title'', readString, writeString, enc_string, is_short_text),
        Plain (''description'', readString, writeString, enc_string, is_short_text),
        Cond ''flags'' 0 (''photo'', readTLInputWebDocument, writeTLInputWebDocument,
         enc_fobject TL_InputWebDocument_table, ok_fobject TL_InputWebDocument_table),
        Plain (''invoice'', readTLInvoice, writeTLInvoice, enc_fobject TL_Invoice_table,
         ok_fobject TL_Invoice_table),
        Plain (''payload'', readByteArray, writeByteArray, enc_bytes, is_short_bytes),
        Cond ''flags'' 3 (''provider'', readString, writeString, enc_string, is_short_text),
        Plain (''provider_data'', readTLDataJSON, writeTLDataJSON, enc_fobject TL_DataJSON_table,
         ok_fobject TL_DataJSON_table),
        Cond ''flags'' 1 (''start_param'', readString, writeString, enc_string, is_short_text),
        Cond ''flags'' 2 (''extended_media'', r InputMediaT, w InputMediaT, e InputMediaT,
         k InputMediaT)]),
      (- 1759532989, [Flags ''flags'' [(''stopped'', 0), (''heading'', 2), (''period'', 1),
         (''proximity_notification_radius'', 3)],
        TrueBit ''flags'' 0 ''stopped'',
        Plain (''geo_point'', readTLInputGeoPoint, writeTLInputGeoPoint,
         enc_fobject TL_InputGeoPoint_table, ok_fobject TL_InputGeoPoint_table),
        Cond ''flags'' 2 (''heading'', readInt32, writeInt32, enc_int32, is_VInt),
        Cond ''flags'' 1 (''period'', readInt32, writeInt32, enc_int32, is_VInt),
        Cond ''flags'' 3 (''proximity_notification_radius'', readInt32, writeInt32, enc_int32,
         is_VInt)]),
      (- 2009448184, [Flags ''flags'' [(''correct_answers'', 0), (''attached_media'', 3),
         (''solution'', 1), (''solution_entities'', 1), (''solution_media'', 2)],
        Plain (''poll'', r PollT, w PollT, e PollT, k PollT),
        Cond ''flags'' 0 (''correct_answers'', readVector (Some readInt32),
         writeVector (Some writeInt32), enc_vector enc_int32, ok_vector is_VInt),
        Cond ''flags'' 3 (''attached_media'', r InputMediaT, w InputMediaT, e InputMediaT,
         k InputMediaT),
        Cond ''flags'' 1 (''solution'', readString, writeString, enc_string, is_short_text),
        Cond ''flags'' 1 (''solution_entities'', readVector (Some readTLMessageEntity),
         writeVector (Some writeTLMessageEntity), enc_vector (enc_fobject TL_MessageEntity_table),
         ok_vector (ok_fobject TL_MessageEntity_table)),
        Cond ''flags'' 2 (''solution_media'', r InputMediaT, w InputMediaT, e InputMediaT,
         k InputMediaT)]),
      (- 428884101, [Plain (''emoticon'', readString, writeString, enc_string, is_short_text)]),
      (- 1979852936, [Plain (''peer'', readTLInputPeer, writeTLInputPeer, enc_InputPeer,
         ok_InputPeer),
        Plain (''id'', readInt32, writeInt32, enc_int32, is_VInt)]),
      (- 1038383031, [Flags ''flags'' [(''force_large_media'', 0), (''force_small_media'', 1),
         (''optional'', 2)],
        TrueBit ''flags'' 0 ''force_large_media'',
        TrueBit ''flags'' 1 ''force_small_media'',
        TrueBit ''flags'' 2 ''optional'',
        Plain (''url'', readString, writeString, enc_string, is_short_text)]),
      (- 1005571194, [Flags ''flags'' [(''payload'', 0)],
        Plain (''stars_amount'', readInt64, writeInt64, enc_int64, is_VLong),
        Plain (''extended_media'', readVector (Some (r InputMediaT)),
         writeVector (Some (w InputMediaT)), enc_vector (e InputMediaT), ok_vector (k InputMediaT)),
        Cond ''flags'' 0 (''payload'', readString, writeString, enc_string, is_short_text)]),
      (- 1614454818, [Plain (''todo'', readTLTodoList, writeTLTodoList,
         enc_fobject TL_TodoList_table, ok_fobject TL_TodoList_table)]),
      (- 207018934, [Plain (''game_hash'', readString, writeString, enc_string, is_short_text),
        Plain (''ton_amount'', readInt64, writeInt64, enc_int64, is_VLong),
        Plain (''client_seed'', readByteArray, writeByteArray, enc_bytes, is_short_bytes)])]"

definition messageMedia_reads :: "(media_type \<Rightarrow> tl_reader) \<Rightarrow> step_case list" where
  "messageMedia_reads r =
     [(1038967584, []),
      (- 501814429, [rd ''flags'' readUInt32, set_if ''flags'' 3 ''spoiler'',
         set_if ''flags'' 4 ''live_photo'', rd_if ''flags'' 0 ''photo'' readTLPhoto,
         rd_if ''flags'' 2 ''ttl_seconds'' readInt32, rd_if ''flags'' 4 ''video'' readTLDocument]),
      (1457575028, [rd ''geo'' readTLGeoPoint]),
      (1882335561, [rd ''phone_number'' readString, rd ''first_name'' readString,
         rd ''last_name'' readString, rd ''vcard'' readString, rd ''user_id'' readInt64]),
      (- 1618676578, []),
      (1389939929, [rd ''flags'' readUInt32, set_if ''flags'' 3 ''nopremium'',
         set_if ''flags'' 4 ''spoiler'', set_if ''flags'' 6 ''video'',
         set_if ''flags'' 7 ''round'', set_if ''flags'' 8 ''voice'',
         rd_if ''flags'' 0 ''document'' readTLDocument,
         rd_if ''flags'' 5 ''alt_documents'' (readVector (Some readTLDocument)),
         rd_if ''flags'' 9 ''video_cover'' readTLPhoto,
         rd_if ''flags'' 10 ''video_timestamp'' readInt32,
         rd_if ''flags'' 2 ''ttl_seconds'' readInt32]),
      (- 571405253, [rd ''flags'' readUInt32, set_if ''flags'' 0 ''force_large_media'',
         set_if ''flags'' 1 ''force_small_media'', set_if ''flags'' 3 ''manual'',
         set_if ''flags'' 4 ''safe'', rd ''webpage'' (r WebPageT)]),
      (784356159, [rd ''geo'' readTLGeoPoint, rd ''title'' readString, rd ''address'' readString,
         rd ''provider'' readString, rd ''venue_id'' readString, rd ''venue_type'' readString]),
      (- 38694904, [rd ''game'' readTLGame]),
      (- 156940077, [rd ''flags'' readUInt32, set_if ''flags'' 1 ''shipping_address_requested'',
         set_if ''flags'' 3 ''test'', rd ''title'' readString, rd ''description'' readString,
         rd_if ''flags'' 0 ''photo'' readTLWebDocument,
         rd_if ''flags'' 2 ''receipt_msg_id'' readInt32, rd ''currency'' readString,
         rd ''total_amount'' readInt64, rd ''start_param'' readString,
         rd_if ''flags'' 4 ''extended_media'' (r MessageExtendedMediaT)]),
      (- 1186937242, [rd ''flags'' readUInt32, rd ''geo'' readTLGeoPoint,
         rd_if ''flags'' 0 ''heading'' readInt32, rd ''period'' readInt32,
         rd_if ''flags'' 1 ''proximity_notification_radius'' readInt32]),
      (2000637542, [rd ''flags'' readUInt32, rd ''poll'' (r PollT),
         rd ''results'' (r PollResultsT), rd_if ''flags'' 0 ''attached_media'' (r MessageMediaT)]),
      (147581959, [rd ''flags'' readUInt32, rd ''value'' readInt32, rd ''emoticon'' readString,
         rd_if ''flags'' 0 ''game_outcome'' readTLMessagesEmojiGameOutcome]),
      (1758159491, [rd ''flags'' readUInt32, set_if ''flags'' 1 ''via_mention'',
         rd ''peer'' readTLPeer, rd ''id'' readInt32, rd_if ''flags'' 0 ''story'' (r StoryItemT)]),
      (- 1442366485, [rd ''flags'' readUInt32, set_if ''flags'' 0 ''only_new_subscribers'',
         set_if ''flags'' 2 ''winners_are_visible'', rd ''channels'' (readVector (Some readInt64)),
         rd_if ''flags'' 1 ''countries_iso2'' (readVector (Some readString)),
         rd_if ''flags'' 3 ''prize_description'' readString, rd ''quantity'' readInt32,
         rd_if ''flags'' 4 ''months'' readInt32, rd_if ''flags'' 5 ''stars'' readInt64,
         rd ''until_date'' readInt32]),
      (- 827703647, [rd ''flags'' readUInt32, set_if ''flags'' 0 ''only_new_subscribers'',
         set_if ''flags'' 2 ''refunded'', rd ''channel_id'' readInt64,
         rd_if ''flags'' 3 ''additional_peers_count'' readInt32, rd ''launch_msg_id'' readInt32,
         rd ''winners_count'' readInt32, rd ''unclaimed_count'' readInt32,
         rd ''winners'' (readVector (Some readInt64)), rd_if ''flags'' 4 ''months'' readInt32,
         rd_if ''flags'' 5 ''stars'' readInt64, rd_if ''flags'' 1 ''prize_description'' readString,
         rd ''until_date'' readInt32]),
      (- 1467669359, [rd ''stars_amount'' readInt64,
         rd ''extended_media'' (readVector (Some (r MessageExtendedMediaT)))]),
      (- 1974226924, [rd ''flags'' readUInt32, rd ''todo'' readTLTodoList,
         rd_if ''flags'' 0 ''completions'' (readVector (Some readTLTodoCompletion))]),
      (- 899896439, [rd ''flags'' readUInt32, set_if ''flags'' 0 ''rtmp_stream'',
         rd ''call'' readTLInputGroupCall])]"

definition messageMedia_writes :: "(media_type \<Rightarrow> tl_writer) \<Rightarrow> step_case list" where
  "messageMedia_writes w =
     [(1038967584, [wf ''_'' writeInt32]),
      (- 501814429, [wf ''_'' writeInt32, wf_flags ''flags'' [(''spoiler'', 3), (''live_photo'',
         4), (''photo'', 0), (''ttl_seconds'', 2), (''video'', 4)],
         wf_if ''flags'' 0 ''photo'' writeTLPhoto, wf_if ''flags'' 2 ''ttl_seconds'' writeInt32,
         wf_if ''flags'' 4 ''video'' writeTLDocument]),
      (1457575028, [wf ''_'' writeInt32, wf ''geo'' writeTLGeoPoint]),
      (1882335561, [wf ''_'' writeInt32, wf ''phone_number'' writeString,
         wf ''first_name'' writeString, wf ''last_name'' writeString, wf ''vcard'' writeString,
         wf ''user_id'' writeInt64]),
      (- 1618676578, [wf ''_'' writeInt32]),
      (1389939929, [wf ''_'' writeInt32, wf_flags ''flags'' [(''nopremium'', 3), (''spoiler'', 4),
         (''video'', 6), (''round'', 7), (''voice'', 8), (''document'', 0), (''alt_documents'', 5),
         (''video_cover'', 9), (''video_timestamp'', 10), (''ttl_seconds'', 2)],
         wf_if ''flags'' 0 ''document'' writeTLDocument,
         wf_if ''flags'' 5 ''alt_documents'' (writeVector (Some writeTLDocument)),
         wf_if ''flags'' 9 ''video_cover'' writeTLPhoto,
         wf_if ''flags'' 10 ''video_timestamp'' writeInt32,
         wf_if ''flags'' 2 ''ttl_seconds'' writeInt32]),
      (- 571405253, [wf ''_'' writeInt32, wf_flags ''flags'' [(''force_large_media'', 0),
         (''force_small_media'', 1), (''manual'', 3), (''safe'', 4)], wf ''webpage'' (w WebPageT)]),
      (784356159, [wf ''_'' writeInt32, wf ''geo'' writeTLGeoPoint, wf ''title'' writeString,
         wf ''address'' writeString, wf ''provider'' writeString, wf ''venue_id'' writeString,
         wf ''venue_type'' writeString]),
      (- 38694904, [wf ''_'' writeInt32, wf ''game'' writeTLGame]),
      (- 156940077, [wf ''_'' writeInt32, wf_flags ''flags'' [(''shipping_address_requested'', 1),
         (''test'', 3), (''photo'', 0), (''receipt_msg_id'', 2), (''extended_media'', 4)],
         wf ''title'' writeString, wf ''description'' writeString,
         wf_if ''flags'' 0 ''photo'' writeTLWebDocument,
         wf_if ''flags'' 2 ''receipt_msg_id'' writeInt32, wf ''currency'' writeString,
         wf ''total_amount'' writeInt64, wf ''start_param'' writeString,
         wf_if ''flags'' 4 ''extended_media'' (w MessageExtendedMediaT)]),
      (- 1186937242, [wf ''_'' writeInt32, wf_flags ''flags'' [(''heading'', 0),
         (''proximity_notification_radius'', 1)], wf ''geo'' writeTLGeoPoint,
         wf_if ''flags'' 0 ''heading'' writeInt32, wf ''period'' writeInt32,
         wf_if ''flags'' 1 ''proximity_notification_radius'' writeInt32]),
      (2000637542, [wf ''_'' writeInt32, wf_flags ''flags'' [(''attached_media'', 0)],
         wf ''poll'' (w PollT), wf ''results'' (w PollResultsT),
         wf_if ''flags'' 0 ''attached_media'' (w MessageMediaT)]),
      (147581959, [wf ''_'' writeInt32, wf_flags ''flags'' [(''game_outcome'', 0)],
         wf ''value'' writeInt32, wf ''emoticon'' writeString,
         wf_if ''flags'' 0 ''game_outcome'' writeTLMessagesEmojiGameOutcome]),
      (1758159491, [wf ''_'' writeInt32, wf_flags ''flags'' [(''via_mention'', 1), (''story'', 0)],
         wf ''peer'' writeTLPeer, wf ''id'' writeInt32,
         wf_if ''flags'' 0 ''story'' (w StoryItemT)]),
      (- 1442366485, [wf ''_'' writeInt32, wf_flags ''flags'' [(''only_new_subscribers'', 0),
         (''winners_are_visible'', 2), (''countries_iso2'', 1), (''prize_description'', 3),
         (''months'', 4), (''stars'', 5)], wf ''channels'' (writeVector (Some writeInt64)),
         wf_if ''flags'' 1 ''countries_iso2'' (writeVector (Some writeString)),
         wf_if ''flags'' 3 ''prize_description'' writeString, wf ''quantity'' writeInt32,
         wf_if ''flags'' 4 ''months'' writeInt32, wf_if ''flags'' 5 ''stars'' writeInt64,
         wf ''until_date'' writeInt32]),
      (- 827703647, [wf ''_'' writeInt32, wf_flags ''flags'' [(''only_new_subscribers'', 0),
         (''refunded'', 2), (''additional_peers_count'', 3), (''months'', 4), (''stars'', 5),
         (''prize_description'', 1)], wf ''channel_id'' writeInt64,
         wf_if ''flags'' 3 ''additional_peers_count'' writeInt32, wf ''launch_msg_id'' writeInt32,
         wf ''winners_count'' writeInt32, wf ''unclaimed_count'' writeInt32,
         wf ''winners'' (writeVector (Some writeInt64)), wf_if ''flags'' 4 ''months'' writeInt32,
         wf_if ''flags'' 5 ''stars'' writeInt64,
         wf_if ''flags'' 1 ''prize_description'' writeString, wf ''until_date'' writeInt32]),
      (- 1467669359, [wf ''_'' writeInt32, wf ''stars_amount'' writeInt64,
         wf ''extended_media'' (writeVector (Some (w MessageExtendedMediaT)))]),
      (- 1974226924, [wf ''_'' writeInt32, wf_flags ''flags'' [(''completions'', 0)],
         wf ''todo'' writeTLTodoList,
         wf_if ''flags'' 0 ''completions'' (writeVector (Some writeTLTodoCompletion))]),
      (- 899896439, [wf ''_'' writeInt32, wf_flags ''flags'' [(''rtmp_stream'', 0)],
         wf ''call'' writeTLInputGroupCall])]"

definition messageMedia_fields :: "media_type group_fields" where
  "messageMedia_fields r w e k =
     [(1038967584, []),
      (- 501814429, [Flags ''flags'' [(''spoiler'', 3), (''live_photo'', 4), (''photo'', 0),
         (''ttl_seconds'', 2), (''video'', 4)],
        TrueBit ''flags'' 3 ''spoiler'',
        TrueBit ''flags'' 4 ''live_photo'',
        Cond ''flags'' 0 (''photo'', readTLPhoto, writeTLPhoto, enc_fobject TL_Photo_table,
         ok_fobject TL_Photo_table),
        Cond ''flags'' 2 (''ttl_seconds'', readInt32, writeInt32, enc_int32, is_VInt),
        Cond ''flags'' 4 (''video'', readTLDocument, writeTLDocument,
         enc_fobject TL_Document_table, ok_fobject TL_Document_table)]),
      (1457575028, [Plain (''geo'', readTLGeoPoint, writeTLGeoPoint, enc_fobject TL_GeoPoint_table,
         ok_fobject TL_GeoPoint_table)]),
      (1882335561, [Plain (''phone_number'', readString, writeString, enc_string, is_short_text),
        Plain (''first_name'', readString, writeString, enc_string, is_short_text),
        Plain (''last_name'', readString, writeString, enc_string, is_short_text),
        Plain (''vcard'', readString, writeString, enc_string, is_short_text),
        Plain (''user_id'', readInt64, writeInt64, enc_int64, is_VLong)]),
      (- 1618676578, []),
      (1389939929, [Flags ''flags'' [(''nopremium'', 3), (''spoiler'', 4), (''video'', 6),
         (''round'', 7), (''voice'', 8), (''document'', 0), (''alt_documents'', 5),
         (''video_cover'', 9), (''video_timestamp'', 10), (''ttl_seconds'', 2)],
        TrueBit ''flags'' 3 ''nopremium'',
        TrueBit ''flags'' 4 ''spoiler'',
        TrueBit ''flags'' 6 ''video'',
        TrueBit ''flags'' 7 ''round'',
        TrueBit ''flags'' 8 ''voice'',
        Cond ''flags'' 0 (''document'', readTLDocument, writeTLDocument,
         enc_fobject TL_Document_table, ok_fobject TL_Document_table),
        Cond ''flags'' 5 (''alt_documents'', readVector (Some readTLDocument),
         writeVector (Some writeTLDocument), enc_vector (enc_fobject TL_Document_table),
         ok_vector (ok_fobject TL_Document_table)),
        Cond ''flags'' 9 (''video_cover'', readTLPhoto, writeTLPhoto, enc_fobject TL_Photo_table,
         ok_fobject TL_Photo_table),
        Cond ''flags'' 10 (''video_timestamp'', readInt32, writeInt32, enc_int32, is_VInt),
        Cond ''flags'' 2 (''ttl_seconds'', readInt32, writeInt32, enc_int32, is_VInt)]),
      (- 571405253, [Flags ''flags'' [(''force_large_media'', 0), (''force_small_media'', 1),
         (''manual'', 3), (''safe'', 4)],
        TrueBit ''flags'' 0 ''force_large_media'',
        TrueBit ''flags'' 1 ''force_small_media'',
        TrueBit ''flags'' 3 ''manual'',
        TrueBit ''flags'' 4 ''safe'',
        Plain (''webpage'', r WebPageT, w WebPageT, e WebPageT, k WebPageT)]),
      (784356159, [Plain (''geo'', readTLGeoPoint, writeTLGeoPoint, enc_fobject TL_GeoPoint_table,
         ok_fobject TL_GeoPoint_table),
        Plain (''title'', readString, writeString, enc_string, is_short_text),
        Plain (''address'', readString, writeString, enc_string, is_short_text),
        Plain (''provider'', readString, writeString, enc_string, is_short_text),
        Plain (''venue_id'', readString, writeString, enc_string, is_short_text),
        Plain (''venue_type'', readString, writeString, enc_string, is_short_text)]),
      (- 38694904, [Plain (''game'', readTLGame, writeTLGame, enc_fobject TL_Game_table,
         ok_fobject TL_Game_table)]),
      (- 156940077, [Flags ''flags'' [(''shipping_address_requested'', 1), (''test'', 3),
         (''photo'', 0), (''receipt_msg_id'', 2), (''extended_media'', 4)],
        TrueBit ''flags'' 1 ''shipping_address_requested'',
        TrueBit ''flags'' 3 ''test'',
        Plain (''title'', readString, writeString, enc_string, is_short_text),
        Plain (''description'', readString, writeString, enc_string, is_short_text),
        Cond ''flags'' 0 (''photo'', readTLWebDocument, writeTLWebDocument,
         enc_fobject TL_WebDocument_table, ok_fobject TL_WebDocument_table),
        Cond ''flags'' 2 (''receipt_msg_id'', readInt32, writeInt32, enc_int32, is_VInt),
        Plain (''currency'', readString, writeString, enc_string, is_short_text),
        Plain (''total_amount'', readInt64, writeInt64, enc_int64, is_VLong),
        Plain (''start_param'', readString, writeString, enc_string, is_short_text),
        Cond ''flags'' 4 (''extended_media'', r MessageExtendedMediaT, w MessageExtendedMediaT,
         e MessageExtendedMediaT, k MessageExtendedMediaT)]),
      (- 1186937242, [Flags ''flags'' [(''heading'', 0), (''proximity_notification_radius'', 1)],
        Plain (''geo'', readTLGeoPoint, writeTLGeoPoint, enc_fobject TL_GeoPoint_table,
         ok_fobject TL_GeoPoint_table),
        Cond ''flags'' 0 (''heading'', readInt32, writeInt32, enc_int32, is_VInt),
        Plain (''period'', readInt32, writeInt32, enc_int32, is_VInt),
        Cond ''flags'' 1 (''proximity_notification_radius'', readInt32, writeInt32, enc_int32,
         is_VInt)]),
      (2000637542, [Flags ''flags'' [(''attached_media'', 0)],
        Plain (''poll'', r PollT, w PollT, e PollT, k PollT),
        Plain (''results'', r PollResultsT, w PollResultsT, e PollResultsT, k PollResultsT),
        Cond ''flags'' 0 (''attached_media'', r MessageMediaT, w MessageMediaT, e MessageMediaT,
         k MessageMediaT)]),
      (147581959, [Flags ''flags'' [(''game_outcome'', 0)],
        Plain (''value'', readInt32, writeInt32, enc_int32, is_VInt),
        Plain (''emoticon'', readString, writeString, enc_string, is_short_text),
        Cond ''flags'' 0 (''game_outcome'', readTLMessagesEmojiGameOutcome,
         writeTLMessagesEmojiGameOutcome, enc_fobject TL_MessagesEmojiGameOutcome_table,
         ok_fobject TL_MessagesEmojiGameOutcome_table)]),
      (1758159491, [Flags ''flags'' [(''via_mention'', 1), (''story'', 0)],
        TrueBit ''flags'' 1 ''via_mention'',
        Plain (''peer'', readTLPeer, writeTLPeer, enc_fobject TL_Peer_table,
         ok_fobject TL_Peer_table),
        Plain (''id'', readInt32, writeInt32, enc_int32, is_VInt),
        Cond ''flags'' 0 (''story'', r StoryItemT, w StoryItemT, e StoryItemT, k StoryItemT)]),
      (- 1442366485, [Flags ''flags'' [(''only_new_subscribers'', 0), (''winners_are_visible'', 2),
         (''countries_iso2'', 1), (''prize_description'', 3), (''months'', 4), (''stars'', 5)],
        TrueBit ''flags'' 0 ''only_new_subscribers'',
        TrueBit ''flags'' 2 ''winners_are_visible'',
        Plain (''channels'', readVector (Some readInt64), writeVector (Some writeInt64),
         enc_vector enc_int64, ok_vector is_VLong),
        Cond ''flags'' 1 (''countries_iso2'', readVector (Some readString),
         writeVector (Some writeString), enc_vector enc_string, ok_vector is_short_text),
        Cond ''flags'' 3 (''prize_description'', readString, writeString, enc_string,
         is_short_text),
        Plain (''quantity'', readInt32, writeInt32, enc_int32, is_VInt),
        Cond ''flags'' 4 (''months'', readInt32, writeInt32, enc_int32, is_VInt),
        Cond ''flags'' 5 (''stars'', readInt64, writeInt64, enc_int64, is_VLong),
        Plain (''until_date'', readInt32, writeInt32, enc_int32, is_VInt)]),
      (- 827703647, [Flags ''flags'' [(''only_new_subscribers'', 0), (''refunded'', 2),
         (''additional_peers_count'', 3), (''months'', 4), (''stars'', 5), (''prize_description'',
         1)],
        TrueBit ''flags'' 0 ''only_new_subscribers'',
        TrueBit ''flags'' 2 ''refunded'',
        Plain (''channel_id'', readInt64, writeInt64, enc_int64, is_VLong),
        Cond ''flags'' 3 (''additional_peers_count'', readInt32, writeInt32, enc_int32, is_VInt),
        Plain (''launch_msg_id'', readInt32, writeInt32, enc_int32, is_VInt),
        Plain (''winners_count'', readInt32, writeInt32, enc_int32, is_VInt),
        Plain (''unclaimed_count'', readInt32, writeInt32, enc_int32, is_VInt),
        Plain (''winners'', readVector (Some readInt64), writeVector (Some writeInt64),
         enc_vector enc_int64, ok_vector is_VLong),
        Cond ''flags'' 4 (''months'', readInt32, writeInt32, enc_int32, is_VInt),
        Cond ''flags'' 5 (''stars'', readInt64, writeInt64, enc_int64, is_VLong),
        Cond ''flags'' 1 (''prize_description'', readString, writeString, enc_string,
         is_short_text),
        Plain (''until_date'', readInt32, writeInt32, enc_int32, is_VInt)]),
      (- 1467669359, [Plain (''stars_amount'', readInt64, writeInt64, enc_int64, is_VLong),
        Plain (''extended_media'', readVector (Some (r MessageExtendedMediaT)),
         writeVector (Some (w MessageExtendedMediaT)), enc_vector (e MessageExtendedMediaT),
         ok_vector (k MessageExtendedMediaT))]),
      (- 1974226924, [Flags ''flags'' [(''completions'', 0)],
        Plain (''todo'', readTLTodoList, writeTLTodoList, enc_fobject TL_TodoList_table,
         ok_fobject TL_TodoList_table),
        Cond ''flags'' 0 (''completions'', readVector (Some readTLTodoCompletion),
         writeVector (Some writeTLTodoCompletion),
         enc_vector (enc_fobject TL_TodoCompletion_table),
         ok_vector (ok_fobject TL_TodoCompletion_table))]),
      (- 899896439, [Flags ''flags'' [(''rtmp_stream'', 0)],
        TrueBit ''flags'' 0 ''rtmp_stream'',
        Plain (''call'', readTLInputGroupCall, writeTLInputGroupCall,
         enc_fobject TL_InputGroupCall_table, ok_fobject TL_InputGroupCall_table)])]"

definition webPage_reads :: "(media_type \<Rightarrow> tl_reader) \<Rightarrow> step_case list" where
  "webPage_reads r =
     [(555358088, [rd ''flags'' readUInt32, rd ''id'' readInt64,
         rd_if ''flags'' 0 ''url'' readString]),
      (- 1328464313, [rd ''flags'' readUInt32, rd ''id'' readInt64,
         rd_if ''flags'' 0 ''url'' readString, rd ''date'' readInt32]),
      (- 392411726, [rd ''flags'' readUInt32, set_if ''flags'' 13 ''has_large_media'',
         set_if ''flags'' 14 ''video_cover_photo'', rd ''id'' readInt64, rd ''url'' readString,
         rd ''display_url'' readString, rd ''hash'' readInt32,
         rd_if ''flags'' 0 ''type'' readString, rd_if ''flags'' 1 ''site_name'' readString,
         rd_if ''flags'' 2 ''title'' readString, rd_if ''flags'' 3 ''description'' readString,
         rd_if ''flags'' 4 ''photo'' readTLPhoto, rd_if ''flags'' 5 ''embed_url'' readString,
         rd_if ''flags'' 5 ''embed_type'' readString, rd_if ''flags'' 6 ''embed_width'' readInt32,
         rd_if ''flags'' 6 ''embed_height'' readInt32, rd_if ''flags'' 7 ''duration'' readInt32,
         rd_if ''flags'' 8 ''author'' readString, rd_if ''flags'' 9 ''document'' readTLDocument,
         rd_if ''flags'' 10 ''cached_page'' readTLPage,
         rd_if ''flags'' 12 ''attributes'' (readVector (Some (r WebPageAttributeT)))]),
      (1930545681, [rd ''flags'' readUInt32, rd_if ''flags'' 0 ''cached_page_views'' readInt32])]"

definition webPage_writes :: "(media_type \<Rightarrow> tl_writer) \<Rightarrow> step_case list" where
  "webPage_writes w =
     [(555358088, [wf ''_'' writeInt32, wf_flags ''flags'' [(''url'', 0)], wf ''id'' writeInt64,
         wf_if ''flags'' 0 ''url'' writeString]),
      (- 1328464313, [wf ''_'' writeInt32, wf_flags ''flags'' [(''url'', 0)], wf ''id'' writeInt64,
         wf_if ''flags'' 0 ''url'' writeString, wf ''date'' writeInt32]),
      (- 392411726, [wf ''_'' writeInt32, wf_flags ''flags'' [(''has_large_media'', 13),
         (''video_cover_photo'', 14), (''type'', 0), (''site_name'', 1), (''title'', 2),
         (''description'', 3), (''photo'', 4), (''embed_url'', 5), (''embed_type'', 5),
         (''embed_width'', 6), (''embed_height'', 6), (''duration'', 7), (''author'', 8),
         (''document'', 9), (''cached_page'', 10), (''attributes'', 12)], wf ''id'' writeInt64,
         wf ''url'' writeString, wf ''display_url'' writeString, wf ''hash'' writeInt32,
         wf_if ''flags'' 0 ''type'' writeString, wf_if ''flags'' 1 ''site_name'' writeString,
         wf_if ''flags'' 2 ''title'' writeString, wf_if ''flags'' 3 ''description'' writeString,
         wf_if ''flags'' 4 ''photo'' writeTLPhoto, wf_if ''flags'' 5 ''embed_url'' writeString,
         wf_if ''flags'' 5 ''embed_type'' writeString,
         wf_if ''flags'' 6 ''embed_width'' writeInt32,
         wf_if ''flags'' 6 ''embed_height'' writeInt32, wf_if ''flags'' 7 ''duration'' writeInt32,
         wf_if ''flags'' 8 ''author'' writeString, wf_if ''flags'' 9 ''document'' writeTLDocument,
         wf_if ''flags'' 10 ''cached_page'' writeTLPage,
         wf_if ''flags'' 12 ''attributes'' (writeVector (Some (w WebPageAttributeT)))]),
      (1930545681, [wf ''_'' writeInt32, wf_flags ''flags'' [(''cached_page_views'', 0)],
         wf_if ''flags'' 0 ''cached_page_views'' writeInt32])]"

definition webPage_fields :: "media_type group_fields" where
  "webPage_fields r w e k =
     [(555358088, [Flags ''flags'' [(''url'', 0)],
        Plain (''id'', readInt64, writeInt64, enc_int64, is_VLong),
        Cond ''flags'' 0 (''url'', readString, writeString, enc_string, is_short_text)]),
      (- 1328464313, [Flags ''flags'' [(''url'', 0)],
        Plain (''id'', readInt64, writeInt64, enc_int64, is_VLong),
        Cond ''flags'' 0 (''url'', readString, writeString, enc_string, is_short_text),
        Plain (''date'', readInt32, writeInt32, enc_int32, is_VInt)]),
      (- 392411726, [Flags ''flags'' [(''has_large_media'', 13), (''video_cover_photo'', 14),
         (''type'', 0), (''site_name'', 1), (''title'', 2), (''description'', 3), (''photo'', 4),
         (''embed_url'', 5), (''embed_type'', 5), (''embed_width'', 6), (''embed_height'', 6),
         (''duration'', 7), (''author'', 8), (''document'', 9), (''cached_page'', 10),
         (''attributes'', 12)],
        TrueBit ''flags'' 13 ''has_large_media'',
        TrueBit ''flags'' 14 ''video_cover_photo'',
        Plain (''id'', readInt64, writeInt64, enc_int64, is_VLong),
        Plain (''url'', readString, writeString, enc_string, is_short_text),
        Plain (''display_url'', readString, writeString, enc_string, is_short_text),
        Plain (''hash'', readInt32, writeInt32, enc_int32, is_VInt),
        Cond ''flags'' 0 (''type'', readString, writeString, enc_string, is_short_text),
        Cond ''flags'' 1 (''site_name'', readString, writeString, enc_string, is_short_text),
        Cond ''flags'' 2 (''title'', readString, writeString, enc_string, is_short_text),
        Cond ''flags'' 3 (''description'', readString, writeString, enc_string, is_short_text),
        Cond ''flags'' 4 (''photo'', readTLPhoto, writeTLPhoto, enc_fobject TL_Photo_table,
         ok_fobject TL_Photo_table),
        Cond ''flags'' 5 (''embed_url'', readString, writeString, enc_string, is_short_text),
        Cond ''flags'' 5 (''embed_type'', readString, writeString, enc_string, is_short_text),
        Cond ''flags'' 6 (''embed_width'', readInt32, writeInt32, enc_int32, is_VInt),
        Cond ''flags'' 6 (''embed_height'', readInt32, writeInt32, enc_int32, is_VInt),
        Cond ''flags'' 7 (''duration'', readInt32, writeInt32, enc_int32, is_VInt),
        Cond ''flags'' 8 (''author'', readString, writeString, enc_string, is_short_text),
        Cond ''flags'' 9 (''document'', readTLDocument, writeTLDocument,
         enc_fobject TL_Document_table, ok_fobject TL_Document_table),
        Cond ''flags'' 10 (''cached_page'', readTLPage, writeTLPage, enc_fobject TL_Page_table,
         ok_fobject TL_Page_table),
        Cond ''flags'' 12 (''attributes'', readVector (Some (r WebPageAttributeT)),
         writeVector (Some (w WebPageAttributeT)), enc_vector (e WebPageAttributeT),
         ok_vector (k WebPageAttributeT))]),
      (1930545681, [Flags ''flags'' [(''cached_page_views'', 0)],
        Cond ''flags'' 0 (''cached_page_views'', readInt32, writeInt32, enc_int32, is_VInt)])]"

definition pollAnswer_reads :: "(media_type \<Rightarrow> tl_reader) \<Rightarrow> step_case list" where
  "pollAnswer_reads r =
     [(1266514026, [rd ''flags'' readUInt32, rd ''text'' readTLTextWithEntities,
         rd ''option'' readByteArray, rd_if ''flags'' 0 ''media'' (r MessageMediaT),
         rd_if ''flags'' 1 ''added_by'' readTLPeer, rd_if ''flags'' 1 ''date'' readInt32]),
      (429911446, [rd ''flags'' readUInt32, rd ''text'' readTLTextWithEntities,
         rd_if ''flags'' 0 ''media'' (r InputMediaT)])]"

definition pollAnswer_writes :: "(media_type \<Rightarrow> tl_writer) \<Rightarrow> step_case list" where
  "pollAnswer_writes w =
     [(1266514026, [wf ''_'' writeInt32, wf_flags ''flags'' [(''media'', 0), (''added_by'', 1),
         (''date'', 1)], wf ''text'' writeTLTextWithEntities, wf ''option'' writeByteArray,
         wf_if ''flags'' 0 ''media'' (w MessageMediaT), wf_if ''flags'' 1 ''added_by'' writeTLPeer,
         wf_if ''flags'' 1 ''date'' writeInt32]),
      (429911446, [wf ''_'' writeInt32, wf_flags ''flags'' [(''media'', 0)],
         wf ''text'' writeTLTextWithEntities, wf_if ''flags'' 0 ''media'' (w InputMediaT)])]"

definition pollAnswer_fields :: "media_type group_fields" where
  "pollAnswer_fields r w e k =
     [(1266514026, [Flags ''flags'' [(''media'', 0), (''added_by'', 1), (''date'', 1)],
        Plain (''text'', readTLTextWithEntities, writeTLTextWithEntities,
         enc_fobject TL_TextWithEntities_table, ok_fobject TL_TextWithEntities_table),
        Plain (''option'', readByteArray, writeByteArray, enc_bytes, is_short_bytes),
        Cond ''flags'' 0 (''media'', r MessageMediaT, w MessageMediaT, e MessageMediaT,
         k MessageMediaT),
        Cond ''flags'' 1 (''added_by'', readTLPeer, writeTLPeer, enc_fobject TL_Peer_table,
         ok_fobject TL_Peer_table),
        Cond ''flags'' 1 (''date'', readInt32, writeInt32, enc_int32, is_VInt)]),
      (429911446, [Flags ''flags'' [(''media'', 0)],
        Plain (''text'', readTLTextWithEntities, writeTLTextWithEntities,
         enc_fobject TL_TextWithEntities_table, ok_fobject TL_TextWithEntities_table),
        Cond ''flags'' 0 (''media'', r InputMediaT, w InputMediaT, e InputMediaT, k InputMediaT)])]"

definition poll_reads :: "(media_type \<Rightarrow> tl_reader) \<Rightarrow> step_case list" where
  "poll_reads r =
     [(- 1771164225, [rd ''id'' readInt64, rd ''flags'' readUInt32, set_if ''flags'' 0 ''closed'',
         set_if ''flags'' 1 ''public_voters'', set_if ''flags'' 2 ''multiple_choice'',
         set_if ''flags'' 3 ''quiz'', set_if ''flags'' 6 ''open_answers'',
         set_if ''flags'' 7 ''revoting_disabled'', set_if ''flags'' 8 ''shuffle_answers'',
         set_if ''flags'' 9 ''hide_results_until_close'', set_if ''flags'' 10 ''creator'',
         set_if ''flags'' 11 ''subscribers_only'', rd ''question'' readTLTextWithEntities,
         rd ''answers'' (readVector (Some (r PollAnswerT))),
         rd_if ''flags'' 4 ''close_period'' readInt32, rd_if ''flags'' 5 ''close_date'' readInt32,
         rd_if ''flags'' 12 ''countries_iso2'' (readVector (Some readString)),
         rd ''hash'' readInt64])]"

definition poll_writes :: "(media_type \<Rightarrow> tl_writer) \<Rightarrow> step_case list" where
  "poll_writes w =
     [(- 1771164225, [wf ''_'' writeInt32, wf ''id'' writeInt64, wf_flags ''flags'' [(''closed'',
         0), (''public_voters'', 1), (''multiple_choice'', 2), (''quiz'', 3), (''open_answers'',
         6), (''revoting_disabled'', 7), (''shuffle_answers'', 8), (''hide_results_until_close'',
         9), (''creator'', 10), (''subscribers_only'', 11), (''close_period'', 4), (''close_date'',
         5), (''countries_iso2'', 12)], wf ''question'' writeTLTextWithEntities,
         wf ''answers'' (writeVector (Some (w PollAnswerT))),
         wf_if ''flags'' 4 ''close_period'' writeInt32,
         wf_if ''flags'' 5 ''close_date'' writeInt32,
         wf_if ''flags'' 12 ''countries_iso2'' (writeVector (Some writeString)),
         wf ''hash'' writeInt64])]"

definition poll_fields :: "media_type group_fields" where
  "poll_fields r w e k =
     [(- 1771164225, [Plain (''id'', readInt64, writeInt64, enc_int64, is_VLong),
        Flags ''flags'' [(''closed'', 0), (''public_voters'', 1), (''multiple_choice'', 2),
         (''quiz'', 3), (''open_answers'', 6), (''revoting_disabled'', 7), (''shuffle_answers'',
         8), (''hide_results_until_close'', 9), (''creator'', 10), (''subscribers_only'', 11),
         (''close_period'', 4), (''close_date'', 5), (''countries_iso2'', 12)],
        TrueBit ''flags'' 0 ''closed'',
        TrueBit ''flags'' 1 ''public_voters'',
        TrueBit ''flags'' 2 ''multiple_choice'',
        TrueBit ''flags'' 3 ''quiz'',
        TrueBit ''flags'' 6 ''open_answers'',
        TrueBit ''flags'' 7 ''revoting_disabled'',
        TrueBit ''flags'' 8 ''shuffle_answers'',
        TrueBit ''flags'' 9 ''hide_results_until_close'',
        TrueBit ''flags'' 10 ''creator'',
        TrueBit ''flags'' 11 ''subscribers_only'',
        Plain (''question'', readTLTextWithEntities, writeTLTextWithEntities,
         enc_fobject TL_TextWithEntities_table, ok_fobject TL_TextWithEntities_table),
        Plain (''answers'', readVector (Some (r PollAnswerT)), writeVector (Some (w PollAnswerT)),
         enc_vector (e PollAnswerT), ok_vector (k PollAnswerT)),
        Cond ''flags'' 4 (''close_period'', readInt32, writeInt32, enc_int32, is_VInt),
        Cond ''flags'' 5 (''close_date'', readInt32, writeInt32, enc_int32, is_VInt),
        Cond ''flags'' 12 (''countries_iso2'', readVector (Some readString),
         writeVector (Some writeString), enc_vector enc_string, ok_vector is_short_text),
        Plain (''hash'', readInt64, writeInt64, enc_int64, is_VLong)])]"

definition pollResults_reads :: "(media_type \<Rightarrow> tl_reader) \<Rightarrow> step_case list" where
  "pollResults_reads r =
     [(- 1166298786, [rd ''flags'' readUInt32, set_if ''flags'' 0 ''min'',
         set_if ''flags'' 6 ''has_unread_votes'', set_if ''flags'' 7 ''can_view_stats'',
         rd_if ''flags'' 1 ''results'' (readVector (Some readTLPollAnswerVoters)),
         rd_if ''flags'' 2 ''total_voters'' readInt32,
         rd_if ''flags'' 3 ''recent_voters'' (readVector (Some readTLPeer)),
         rd_if ''flags'' 4 ''solution'' readString,
         rd_if ''flags'' 4 ''solution_entities'' (readVector (Some readTLMessageEntity)),
         rd_if ''flags'' 5 ''solution_media'' (r MessageMediaT)])]"

definition pollResults_writes :: "(media_type \<Rightarrow> tl_writer) \<Rightarrow> step_case list" where
  "pollResults_writes w =
     [(- 1166298786, [wf ''_'' writeInt32, wf_flags ''flags'' [(''min'', 0), (''has_unread_votes'',
         6), (''can_view_stats'', 7), (''results'', 1), (''total_voters'', 2), (''recent_voters'',
         3), (''solution'', 4), (''solution_entities'', 4), (''solution_media'', 5)],
         wf_if ''flags'' 1 ''results'' (writeVector (Some writeTLPollAnswerVoters)),
         wf_if ''flags'' 2 ''total_voters'' writeInt32,
         wf_if ''flags'' 3 ''recent_voters'' (writeVector (Some writeTLPeer)),
         wf_if ''flags'' 4 ''solution'' writeString,
         wf_if ''flags'' 4 ''solution_entities'' (writeVector (Some writeTLMessageEntity)),
         wf_if ''flags'' 5 ''solution_media'' (w MessageMediaT)])]"

definition pollResults_fields :: "media_type group_fields" where
  "pollResults_fields r w e k =
     [(- 1166298786, [Flags ''flags'' [(''min'', 0), (''has_unread_votes'', 6),
         (''can_view_stats'', 7), (''results'', 1), (''total_voters'', 2), (''recent_voters'', 3),
         (''solution'', 4), (''solution_entities'', 4), (''solution_media'', 5)],
        TrueBit ''flags'' 0 ''min'',
        TrueBit ''flags'' 6 ''has_unread_votes'',
        TrueBit ''flags'' 7 ''can_view_stats'',
        Cond ''flags'' 1 (''results'', readVector (Some readTLPollAnswerVoters),
         writeVector (Some writeTLPollAnswerVoters),
         enc_vector (enc_fobject TL_PollAnswerVoters_table),
         ok_vector (ok_fobject TL_PollAnswerVoters_table)),
        Cond ''flags'' 2 (''total_voters'', readInt32, writeInt32, enc_int32, is_VInt),
        Cond ''flags'' 3 (''recent_voters'', readVector (Some readTLPeer),
         writeVector (Some writeTLPeer), enc_vector (enc_fobject TL_Peer_table),
         ok_vector (ok_fobject TL_Peer_table)),
        Cond ''flags'' 4 (''solution'', readString, writeString, enc_string, is_short_text),
        Cond ''flags'' 4 (''solution_entities'', readVector (Some readTLMessageEntity),
         writeVector (Some writeTLMessageEntity), enc_vector (enc_fobject TL_MessageEntity_table),
         ok_vector (ok_fobject TL_MessageEntity_table)),
        Cond ''flags'' 5 (''solution_media'', r MessageMediaT, w MessageMediaT, e MessageMediaT,
         k MessageMediaT)])]"

definition webPageAttribute_reads :: "(media_type \<Rightarrow> tl_reader) \<Rightarrow> step_case list" where
  "webPageAttribute_reads r =
     [(1421174295, [rd ''flags'' readUInt32,
         rd_if ''flags'' 0 ''documents'' (readVector (Some readTLDocument)),
         rd_if ''flags'' 1 ''settings'' readTLThemeSettings]),
      (781501415, [rd ''flags'' readUInt32, rd ''peer'' readTLPeer, rd ''id'' readInt32,
         rd_if ''flags'' 0 ''story'' (r StoryItemT)]),
      (1355547603, [rd ''flags'' readUInt32, set_if ''flags'' 0 ''emojis'',
         set_if ''flags'' 1 ''text_color'', rd ''stickers'' (readVector (Some readTLDocument))]),
      (- 814781000, [rd ''gift'' readTLStarGift]),
      (835375875, [rd ''icons'' (readVector (Some readTLDocument))]),
      (29770178, [rd ''gift'' readTLStarGift, rd ''end_date'' readInt32]),
      (2005007896, [rd ''emoji_id'' readInt64])]"

definition webPageAttribute_writes :: "(media_type \<Rightarrow> tl_writer) \<Rightarrow> step_case list" where
  "webPageAttribute_writes w =
     [(1421174295, [wf ''_'' writeInt32, wf_flags ''flags'' [(''documents'', 0), (''settings'',
         1)], wf_if ''flags'' 0 ''documents'' (writeVector (Some writeTLDocument)),
         wf_if ''flags'' 1 ''settings'' writeTLThemeSettings]),
      (781501415, [wf ''_'' writeInt32, wf_flags ''flags'' [(''story'', 0)],
         wf ''peer'' writeTLPeer, wf ''id'' writeInt32,
         wf_if ''flags'' 0 ''story'' (w StoryItemT)]),
      (1355547603, [wf ''_'' writeInt32, wf_flags ''flags'' [(''emojis'', 0), (''text_color'', 1)],
         wf ''stickers'' (writeVector (Some writeTLDocument))]),
      (- 814781000, [wf ''_'' writeInt32, wf ''gift'' writeTLStarGift]),
      (835375875, [wf ''_'' writeInt32, wf ''icons'' (writeVector (Some writeTLDocument))]),
      (29770178, [wf ''_'' writeInt32, wf ''gift'' writeTLStarGift, wf ''end_date'' writeInt32]),
      (2005007896, [wf ''_'' writeInt32, wf ''emoji_id'' writeInt64])]"

definition webPageAttribute_fields :: "media_type group_fields" where
  "webPageAttribute_fields r w e k =
     [(1421174295, [Flags ''flags'' [(''documents'', 0), (''settings'', 1)],
        Cond ''flags'' 0 (''documents'', readVector (Some readTLDocument),
         writeVector (Some writeTLDocument), enc_vector (enc_fobject TL_Document_table),
         ok_vector (ok_fobject TL_Document_table)),
        Cond ''flags'' 1 (''settings'', readTLThemeSettings, writeTLThemeSettings,
         enc_fobject TL_ThemeSettings_table, ok_fobject TL_ThemeSettings_table)]),
      (781501415, [Flags ''flags'' [(''story'', 0)],
        Plain (''peer'', readTLPeer, writeTLPeer, enc_fobject TL_Peer_table,
         ok_fobject TL_Peer_table),
        Plain (''id'', readInt32, writeInt32, enc_int32, is_VInt),
        Cond ''flags'' 0 (''story'', r StoryItemT, w StoryItemT, e StoryItemT, k StoryItemT)]),
      (1355547603, [Flags ''flags'' [(''emojis'', 0), (''text_color'', 1)],
        TrueBit ''flags'' 0 ''emojis'',
        TrueBit ''flags'' 1 ''text_color'',
        Plain (''stickers'', readVector (Some readTLDocument), writeVector (Some writeTLDocument),
         enc_vector (enc_fobject TL_Document_table), ok_vector (ok_fobject TL_Document_table))]),
      (- 814781000, [Plain (''gift'', readTLStarGift, writeTLStarGift,
         enc_fobject TL_StarGift_table, ok_fobject TL_StarGift_table)]),
      (835375875, [Plain (''icons'', readVector (Some readTLDocument),
         writeVector (Some writeTLDocument), enc_vector (enc_fobject TL_Document_table),
         ok_vector (ok_fobject TL_Document_table))]),
      (29770178, [Plain (''gift'', readTLStarGift, writeTLStarGift, enc_fobject TL_StarGift_table,
         ok_fobject TL_StarGift_table),
        Plain (''end_date'', readInt32, writeInt32, enc_int32, is_VInt)]),
      (2005007896, [Plain (''emoji_id'', readInt64, writeInt64, enc_int64, is_VLong)])]"

definition messageExtendedMedia_reads :: "(media_type \<Rightarrow> tl_reader) \<Rightarrow> step_case list" where
  "messageExtendedMedia_reads r =
     [(- 1386050360, [rd ''flags'' readUInt32, rd_if ''flags'' 0 ''w'' readInt32,
         rd_if ''flags'' 0 ''h'' readInt32, rd_if ''flags'' 1 ''thumb'' readTLPhotoSize,
         rd_if ''flags'' 2 ''video_duration'' readInt32]),
      (- 297296796, [rd ''media'' (r MessageMediaT)])]"

definition messageExtendedMedia_writes :: "(media_type \<Rightarrow> tl_writer) \<Rightarrow> step_case list" where
  "messageExtendedMedia_writes w =
     [(- 1386050360, [wf ''_'' writeInt32, wf_flags ''flags'' [(''w'', 0), (''h'', 0), (''thumb'',
         1), (''video_duration'', 2)], wf_if ''flags'' 0 ''w'' writeInt32,
         wf_if ''flags'' 0 ''h'' writeInt32, wf_if ''flags'' 1 ''thumb'' writeTLPhotoSize,
         wf_if ''flags'' 2 ''video_duration'' writeInt32]),
      (- 297296796, [wf ''_'' writeInt32, wf ''media'' (w MessageMediaT)])]"

definition messageExtendedMedia_fields :: "media_type group_fields" where
  "messageExtendedMedia_fields r w e k =
     [(- 1386050360, [Flags ''flags'' [(''w'', 0), (''h'', 0), (''thumb'', 1), (''video_duration'',
         2)],
        Cond ''flags'' 0 (''w'', readInt32, writeInt32, enc_int32, is_VInt),
        Cond ''flags'' 0 (''h'', readInt32, writeInt32, enc_int32, is_VInt),
        Cond ''flags'' 1 (''thumb'', readTLPhotoSize, writeTLPhotoSize,
         enc_fobject TL_PhotoSize_table, ok_fobject TL_PhotoSize_table),
        Cond ''flags'' 2 (''video_duration'', readInt32, writeInt32, enc_int32, is_VInt)]),
      (- 297296796, [Plain (''media'', r MessageMediaT, w MessageMediaT, e MessageMediaT,
         k MessageMediaT)])]"

definition storyItem_reads :: "(media_type \<Rightarrow> tl_reader) \<Rightarrow> step_case list" where
  "storyItem_reads r =
     [(1374088783, [rd ''id'' readInt32]),
      (- 5388013, [rd ''flags'' readUInt32, set_if ''flags'' 8 ''close_friends'',
         set_if ''flags'' 9 ''live'', rd ''id'' readInt32, rd ''date'' readInt32,
         rd ''expire_date'' readInt32]),
      (379894076, [rd ''flags'' readUInt32, set_if ''flags'' 5 ''pinned'',
         set_if ''flags'' 7 ''public'', set_if ''flags'' 8 ''close_friends'',
         set_if ''flags'' 9 ''min'', set_if ''flags'' 10 ''noforwards'',
         set_if ''flags'' 11 ''edited'', set_if ''flags'' 12 ''contacts'',
         set_if ''flags'' 13 ''selected_contacts'', set_if ''flags'' 16 ''out'',
         rd ''id'' readInt32, rd ''date'' readInt32, rd_if ''flags'' 18 ''from_id'' readTLPeer,
         rd_if ''flags'' 17 ''fwd_from'' readTLStoryFwdHeader, rd ''expire_date'' readInt32,
         rd_if ''flags'' 0 ''caption'' readString,
         rd_if ''flags'' 1 ''entities'' (readVector (Some readTLMessageEntity)),
         rd ''media'' (r MessageMediaT),
         rd_if ''flags'' 14 ''media_areas'' (readVector (Some readTLMediaArea)),
         rd_if ''flags'' 2 ''privacy'' (readVector (Some readTLPrivacyRule)),
         rd_if ''flags'' 3 ''views'' readTLStoryViews,
         rd_if ''flags'' 15 ''sent_reaction'' readTLReaction,
         rd_if ''flags'' 19 ''albums'' (readVector (Some readInt32)),
         rd_if ''flags'' 20 ''music'' readTLDocument])]"

definition storyItem_writes :: "(media_type \<Rightarrow> tl_writer) \<Rightarrow> step_case list" where
  "storyItem_writes w =
     [(1374088783, [wf ''_'' writeInt32, wf ''id'' writeInt32]),
      (- 5388013, [wf ''_'' writeInt32, wf_flags ''flags'' [(''close_friends'', 8), (''live'', 9)],
         wf ''id'' writeInt32, wf ''date'' writeInt32, wf ''expire_date'' writeInt32]),
      (379894076, [wf ''_'' writeInt32, wf_flags ''flags'' [(''pinned'', 5), (''public'', 7),
         (''close_friends'', 8), (''min'', 9), (''noforwards'', 10), (''edited'', 11),
         (''contacts'', 12), (''selected_contacts'', 13), (''out'', 16), (''from_id'', 18),
         (''fwd_from'', 17), (''caption'', 0), (''entities'', 1), (''media_areas'', 14),
         (''privacy'', 2), (''views'', 3), (''sent_reaction'', 15), (''albums'', 19), (''music'',
         20)], wf ''id'' writeInt32, wf ''date'' writeInt32,
         wf_if ''flags'' 18 ''from_id'' writeTLPeer,
         wf_if ''flags'' 17 ''fwd_from'' writeTLStoryFwdHeader, wf ''expire_date'' writeInt32,
         wf_if ''flags'' 0 ''caption'' writeString,
         wf_if ''flags'' 1 ''entities'' (writeVector (Some writeTLMessageEntity)),
         wf ''media'' (w MessageMediaT),
         wf_if ''flags'' 14 ''media_areas'' (writeVector (Some writeTLMediaArea)),
         wf_if ''flags'' 2 ''privacy'' (writeVector (Some writeTLPrivacyRule)),
         wf_if ''flags'' 3 ''views'' writeTLStoryViews,
         wf_if ''flags'' 15 ''sent_reaction'' writeTLReaction,
         wf_if ''flags'' 19 ''albums'' (writeVector (Some writeInt32)),
         wf_if ''flags'' 20 ''music'' writeTLDocument])]"

definition storyItem_fields :: "media_type group_fields" where
  "storyItem_fields r w e k =
     [(1374088783, [Plain (''id'', readInt32, writeInt32, enc_int32, is_VInt)]),
      (- 5388013, [Flags ''flags'' [(''close_friends'', 8), (''live'', 9)],
        TrueBit ''flags'' 8 ''close_friends'',
        TrueBit ''flags'' 9 ''live'',
        Plain (''id'', readInt32, writeInt32, enc_int32, is_VInt),
        Plain (''date'', readInt32, writeInt32, enc_int32, is_VInt),
        Plain (''expire_date'', readInt32, writeInt32, enc_int32, is_VInt)]),
      (379894076, [Flags ''flags'' [(''pinned'', 5), (''public'', 7), (''close_friends'', 8),
         (''min'', 9), (''noforwards'', 10), (''edited'', 11), (''contacts'', 12),
         (''selected_contacts'', 13), (''out'', 16), (''from_id'', 18), (''fwd_from'', 17),
         (''caption'', 0), (''entities'', 1), (''media_areas'', 14), (''privacy'', 2), (''views'',
         3), (''sent_reaction'', 15), (''albums'', 19), (''music'', 20)],
        TrueBit ''flags'' 5 ''pinned'',
        TrueBit ''flags'' 7 ''public'',
        TrueBit ''flags'' 8 ''close_friends'',
        TrueBit ''flags'' 9 ''min'',
        TrueBit ''flags'' 10 ''noforwards'',
        TrueBit ''flags'' 11 ''edited'',
        TrueBit ''flags'' 12 ''contacts'',
        TrueBit ''flags'' 13 ''selected_contacts'',
        TrueBit ''flags'' 16 ''out'',
        Plain (''id'', readInt32, writeInt32, enc_int32, is_VInt),
        Plain (''date'', readInt32, writeInt32, enc_int32, is_VInt),
        Cond ''flags'' 18 (''from_id'', readTLPeer, writeTLPeer, enc_fobject TL_Peer_table,
         ok_fobject TL_Peer_table),
        Cond ''flags'' 17 (''fwd_from'', readTLStoryFwdHeader, writeTLStoryFwdHeader,
         enc_fobject TL_StoryFwdHeader_table, ok_fobject TL_StoryFwdHeader_table),
        Plain (''expire_date'', readInt32, writeInt32, enc_int32, is_VInt),
        Cond ''flags'' 0 (''caption'', readString, writeString, enc_string, is_short_text),
        Cond ''flags'' 1 (''entities'', readVector (Some readTLMessageEntity),
         writeVector (Some writeTLMessageEntity), enc_vector (enc_fobject TL_MessageEntity_table),
         ok_vector (ok_fobject TL_MessageEntity_table)),
        Plain (''media'', r MessageMediaT, w MessageMediaT, e MessageMediaT, k MessageMediaT),
        Cond ''flags'' 14 (''media_areas'', readVector (Some readTLMediaArea),
         writeVector (Some writeTLMediaArea), enc_vector (enc_fobject TL_MediaArea_table),
         ok_vector (ok_fobject TL_MediaArea_table)),
        Cond ''flags'' 2 (''privacy'', readVector (Some readTLPrivacyRule),
         writeVector (Some writeTLPrivacyRule), enc_vector (enc_fobject TL_PrivacyRule_table),
         ok_vector (ok_fobject TL_PrivacyRule_table)),
        Cond ''flags'' 3 (''views'', readTLStoryViews, writeTLStoryViews,
         enc_fobject TL_StoryViews_table, ok_fobject TL_StoryViews_table),
        Cond ''flags'' 15 (''sent_reaction'', readTLReaction, writeTLReaction,
         enc_fobject TL_Reaction_table, ok_fobject TL_Reaction_table),
        Cond ''flags'' 19 (''albums'', readVector (Some readInt32), writeVector (Some writeInt32),
         enc_vector enc_int32, ok_vector is_VInt),
        Cond ''flags'' 20 (''music'', readTLDocument, writeTLDocument,
         enc_fobject TL_Document_table, ok_fobject TL_Document_table)])]"

fun media_reads :: "(media_type \<Rightarrow> tl_reader) \<Rightarrow> media_type \<Rightarrow> step_case list" where
  "media_reads r InputMediaT = inputMedia_reads r"
| "media_reads r MessageMediaT = messageMedia_reads r"
| "media_reads r WebPageT = webPage_reads r"
| "media_reads r PollAnswerT = pollAnswer_reads r"
| "media_reads r PollT = poll_reads r"
| "media_reads r PollResultsT = pollResults_reads r"
| "media_reads r WebPageAttributeT = webPageAttribute_reads r"
| "media_reads r MessageExtendedMediaT = messageExtendedMedia_reads r"
| "media_reads r StoryItemT = storyItem_reads r"

fun media_writes :: "(media_type \<Rightarrow> tl_writer) \<Rightarrow> media_type \<Rightarrow> step_case list" where
  "media_writes w InputMediaT = inputMedia_writes w"
| "media_writes w MessageMediaT = messageMedia_writes w"
| "media_writes w WebPageT = webPage_writes w"
| "media_writes w PollAnswerT = pollAnswer_writes w"
| "media_writes w PollT = poll_writes w"
| "media_writes w PollResultsT = pollResults_writes w"
| "media_writes w WebPageAttributeT = webPageAttribute_writes w"
| "media_writes w MessageExtendedMediaT = messageExtendedMedia_writes w"
| "media_writes w StoryItemT = storyItem_writes w"

fun media_tables :: "media_type group_table" where
  "media_tables r w e k InputMediaT = inputMedia_fields r w e k"
| "media_tables r w e k MessageMediaT = messageMedia_fields r w e k"
| "media_tables r w e k WebPageT = webPage_fields r w e k"
| "media_tables r w e k PollAnswerT = pollAnswer_fields r w e k"
| "media_tables r w e k PollT = poll_fields r w e k"
| "media_tables r w e k PollResultsT = pollResults_fields r w e k"
| "media_tables r w e k WebPageAttributeT = webPageAttribute_fields r w e k"
| "media_tables r w e k MessageExtendedMediaT = messageExtendedMedia_fields r w e k"
| "media_tables r w e k StoryItemT = storyItem_fields r w e k"

lemma inputMedia_reads_like: "(\<And>t. like L (r t) (r' t)) \<Longrightarrow> cases_like L (inputMedia_reads r) (inputMedia_reads r')"
  by (simp add: inputMedia_reads_def recursion_simps tl_InputFile.self_like tl_InputDocument.self_like tl_InputPhoto.self_like tl_InputGeoPoint.self_like
        tl_DocumentAttribute.self_like tl_InputGame.self_like tl_InputWebDocument.self_like
        tl_Invoice.self_like tl_DataJSON.self_like tl_MessageEntity.self_like tl_InputPeer.self_like
        tl_TodoList.self_like)

lemma inputMedia_writes_like: "(\<And>t. wlike B (w t) (w' t)) \<Longrightarrow> wcases_like B (inputMedia_writes w) (inputMedia_writes w')"
  by (simp add: inputMedia_writes_def recursion_simps)

lemma inputMedia_codec:
  assumes "\<And>t. tl_codec (r t) (w t) (e t) (k t)"
  shows "tl_codec (read_object (inputMedia_reads r)) (write_fobject (inputMedia_writes w)) (enc_fobject (inputMedia_fields r w e k)) (ok_fobject (inputMedia_fields r w e k))"
  by (rule flag_schema_codec, unfold inputMedia_fields_def, intro flag_tableI)
    (simp_all add: inputMedia_reads_def inputMedia_writes_def flag_schema_simps assms assms [THEN tl_codec.vector_codec] tl_InputFile.tl_codec_axioms tl_InputDocument.tl_codec_axioms tl_InputPhoto.tl_codec_axioms
        tl_InputGeoPoint.tl_codec_axioms tl_DocumentAttribute.tl_codec_axioms tl_InputGame.tl_codec_axioms
        tl_InputWebDocument.tl_codec_axioms tl_Invoice.tl_codec_axioms tl_DataJSON.tl_codec_axioms
        tl_MessageEntity.tl_codec_axioms tl_InputPeer.tl_codec_axioms tl_TodoList.tl_codec_axioms
        tl_InputDocument.vector_codec tl_DocumentAttribute.vector_codec tl_MessageEntity.vector_codec)

lemma inputMedia_fields_le:
  "(\<And>t q v. k t q v \<Longrightarrow> k' t q v \<and> e' t q v = e t q v) \<Longrightarrow> table_le (inputMedia_fields r w e k) (inputMedia_fields r' w' e' k')"
  by (simp add: inputMedia_fields_def recursion_simps)

lemma messageMedia_reads_like: "(\<And>t. like L (r t) (r' t)) \<Longrightarrow> cases_like L (messageMedia_reads r) (messageMedia_reads r')"
  by (simp add: messageMedia_reads_def recursion_simps tl_Photo.self_like tl_Document.self_like tl_GeoPoint.self_like tl_Game.self_like
        tl_WebDocument.self_like tl_MessagesEmojiGameOutcome.self_like tl_Peer.self_like
        tl_TodoList.self_like tl_TodoCompletion.self_like tl_InputGroupCall.self_like)

lemma messageMedia_writes_like: "(\<And>t. wlike B (w t) (w' t)) \<Longrightarrow> wcases_like B (messageMedia_writes w) (messageMedia_writes w')"
  by (simp add: messageMedia_writes_def recursion_simps)

lemma messageMedia_codec:
  assumes "\<And>t. tl_codec (r t) (w t) (e t) (k t)"
  shows "tl_codec (read_object (messageMedia_reads r)) (write_fobject (messageMedia_writes w)) (enc_fobject (messageMedia_fields r w e k)) (ok_fobject (messageMedia_fields r w e k))"
  by (rule flag_schema_codec, unfold messageMedia_fields_def, intro flag_tableI)
    (simp_all add: messageMedia_reads_def messageMedia_writes_def flag_schema_simps assms assms [THEN tl_codec.vector_codec] tl_Photo.tl_codec_axioms tl_Document.tl_codec_axioms tl_GeoPoint.tl_codec_axioms
        tl_Game.tl_codec_axioms tl_WebDocument.tl_codec_axioms tl_MessagesEmojiGameOutcome.tl_codec_axioms
        tl_Peer.tl_codec_axioms tl_TodoList.tl_codec_axioms tl_TodoCompletion.tl_codec_axioms
        tl_InputGroupCall.tl_codec_axioms tl_Document.vector_codec tl_TodoCompletion.vector_codec)

lemma messageMedia_fields_le:
  "(\<And>t q v. k t q v \<Longrightarrow> k' t q v \<and> e' t q v = e t q v) \<Longrightarrow> table_le (messageMedia_fields r w e k) (messageMedia_fields r' w' e' k')"
  by (simp add: messageMedia_fields_def recursion_simps)

lemma webPage_reads_like: "(\<And>t. like L (r t) (r' t)) \<Longrightarrow> cases_like L (webPage_reads r) (webPage_reads r')"
  by (simp add: webPage_reads_def recursion_simps tl_Photo.self_like tl_Document.self_like tl_Page.self_like)

lemma webPage_writes_like: "(\<And>t. wlike B (w t) (w' t)) \<Longrightarrow> wcases_like B (webPage_writes w) (webPage_writes w')"
  by (simp add: webPage_writes_def recursion_simps)

lemma webPage_codec:
  assumes "\<And>t. tl_codec (r t) (w t) (e t) (k t)"
  shows "tl_codec (read_object (webPage_reads r)) (write_fobject (webPage_writes w)) (enc_fobject (webPage_fields r w e k)) (ok_fobject (webPage_fields r w e k))"
  by (rule flag_schema_codec, unfold webPage_fields_def, intro flag_tableI)
    (simp_all add: webPage_reads_def webPage_writes_def flag_schema_simps assms assms [THEN tl_codec.vector_codec] tl_Photo.tl_codec_axioms tl_Document.tl_codec_axioms tl_Page.tl_codec_axioms)

lemma webPage_fields_le:
  "(\<And>t q v. k t q v \<Longrightarrow> k' t q v \<and> e' t q v = e t q v) \<Longrightarrow> table_le (webPage_fields r w e k) (webPage_fields r' w' e' k')"
  by (simp add: webPage_fields_def recursion_simps)

lemma pollAnswer_reads_like: "(\<And>t. like L (r t) (r' t)) \<Longrightarrow> cases_like L (pollAnswer_reads r) (pollAnswer_reads r')"
  by (simp add: pollAnswer_reads_def recursion_simps tl_TextWithEntities.self_like tl_Peer.self_like)

lemma pollAnswer_writes_like: "(\<And>t. wlike B (w t) (w' t)) \<Longrightarrow> wcases_like B (pollAnswer_writes w) (pollAnswer_writes w')"
  by (simp add: pollAnswer_writes_def recursion_simps)

lemma pollAnswer_codec:
  assumes "\<And>t. tl_codec (r t) (w t) (e t) (k t)"
  shows "tl_codec (read_object (pollAnswer_reads r)) (write_fobject (pollAnswer_writes w)) (enc_fobject (pollAnswer_fields r w e k)) (ok_fobject (pollAnswer_fields r w e k))"
  by (rule flag_schema_codec, unfold pollAnswer_fields_def, intro flag_tableI)
    (simp_all add: pollAnswer_reads_def pollAnswer_writes_def flag_schema_simps assms assms [THEN tl_codec.vector_codec] tl_TextWithEntities.tl_codec_axioms tl_Peer.tl_codec_axioms)

lemma pollAnswer_fields_le:
  "(\<And>t q v. k t q v \<Longrightarrow> k' t q v \<and> e' t q v = e t q v) \<Longrightarrow> table_le (pollAnswer_fields r w e k) (pollAnswer_fields r' w' e' k')"
  by (simp add: pollAnswer_fields_def recursion_simps)

lemma poll_reads_like: "(\<And>t. like L (r t) (r' t)) \<Longrightarrow> cases_like L (poll_reads r) (poll_reads r')"
  by (simp add: poll_reads_def recursion_simps tl_TextWithEntities.self_like)

lemma poll_writes_like: "(\<And>t. wlike B (w t) (w' t)) \<Longrightarrow> wcases_like B (poll_writes w) (poll_writes w')"
  by (simp add: poll_writes_def recursion_simps)

lemma poll_codec:
  assumes "\<And>t. tl_codec (r t) (w t) (e t) (k t)"
  shows "tl_codec (read_object (poll_reads r)) (write_fobject (poll_writes w)) (enc_fobject (poll_fields r w e k)) (ok_fobject (poll_fields r w e k))"
  by (rule flag_schema_codec, unfold poll_fields_def, intro flag_tableI)
    (simp_all add: poll_reads_def poll_writes_def flag_schema_simps assms assms [THEN tl_codec.vector_codec] tl_TextWithEntities.tl_codec_axioms)

lemma poll_fields_le:
  "(\<And>t q v. k t q v \<Longrightarrow> k' t q v \<and> e' t q v = e t q v) \<Longrightarrow> table_le (poll_fields r w e k) (poll_fields r' w' e' k')"
  by (simp add: poll_fields_def recursion_simps)

lemma pollResults_reads_like: "(\<And>t. like L (r t) (r' t)) \<Longrightarrow> cases_like L (pollResults_reads r) (pollResults_reads r')"
  by (simp add: pollResults_reads_def recursion_simps tl_PollAnswerVoters.self_like tl_Peer.self_like tl_MessageEntity.self_like)

lemma pollResults_writes_like: "(\<And>t. wlike B (w t) (w' t)) \<Longrightarrow> wcases_like B (pollResults_writes w) (pollResults_writes w')"
  by (simp add: pollResults_writes_def recursion_simps)

lemma pollResults_codec:
  assumes "\<And>t. tl_codec (r t) (w t) (e t) (k t)"
  shows "tl_codec (read_object (pollResults_reads r)) (write_fobject (pollResults_writes w)) (enc_fobject (pollResults_fields r w e k)) (ok_fobject (pollResults_fields r w e k))"
  by (rule flag_schema_codec, unfold pollResults_fields_def, intro flag_tableI)
    (simp_all add: pollResults_reads_def pollResults_writes_def flag_schema_simps assms assms [THEN tl_codec.vector_codec] tl_PollAnswerVoters.tl_codec_axioms tl_Peer.tl_codec_axioms tl_MessageEntity.tl_codec_axioms
        tl_PollAnswerVoters.vector_codec tl_Peer.vector_codec tl_MessageEntity.vector_codec)

lemma pollResults_fields_le:
  "(\<And>t q v. k t q v \<Longrightarrow> k' t q v \<and> e' t q v = e t q v) \<Longrightarrow> table_le (pollResults_fields r w e k) (pollResults_fields r' w' e' k')"
  by (simp add: pollResults_fields_def recursion_simps)

lemma webPageAttribute_reads_like: "(\<And>t. like L (r t) (r' t)) \<Longrightarrow> cases_like L (webPageAttribute_reads r) (webPageAttribute_reads r')"
  by (simp add: webPageAttribute_reads_def recursion_simps tl_Document.self_like tl_ThemeSettings.self_like tl_Peer.self_like tl_StarGift.self_like)

lemma webPageAttribute_writes_like: "(\<And>t. wlike B (w t) (w' t)) \<Longrightarrow> wcases_like B (webPageAttribute_writes w) (webPageAttribute_writes w')"
  by (simp add: webPageAttribute_writes_def recursion_simps)

lemma webPageAttribute_codec:
  assumes "\<And>t. tl_codec (r t) (w t) (e t) (k t)"
  shows "tl_codec (read_object (webPageAttribute_reads r)) (write_fobject (webPageAttribute_writes w)) (enc_fobject (webPageAttribute_fields r w e k)) (ok_fobject (webPageAttribute_fields r w e k))"
  by (rule flag_schema_codec, unfold webPageAttribute_fields_def, intro flag_tableI)
    (simp_all add: webPageAttribute_reads_def webPageAttribute_writes_def flag_schema_simps assms assms [THEN tl_codec.vector_codec] tl_Document.tl_codec_axioms tl_ThemeSettings.tl_codec_axioms tl_Peer.tl_codec_axioms
        tl_StarGift.tl_codec_axioms tl_Document.vector_codec)

lemma webPageAttribute_fields_le:
  "(\<And>t q v. k t q v \<Longrightarrow> k' t q v \<and> e' t q v = e t q v) \<Longrightarrow> table_le (webPageAttribute_fields r w e k) (webPageAttribute_fields r' w' e' k')"
  by (simp add: webPageAttribute_fields_def recursion_simps)

lemma messageExtendedMedia_reads_like: "(\<And>t. like L (r t) (r' t)) \<Longrightarrow> cases_like L (messageExtendedMedia_reads r) (messageExtendedMedia_reads r')"
  by (simp add: messageExtendedMedia_reads_def recursion_simps tl_PhotoSize.self_like)

lemma messageExtendedMedia_writes_like: "(\<And>t. wlike B (w t) (w' t)) \<Longrightarrow> wcases_like B (messageExtendedMedia_writes w) (messageExtendedMedia_writes w')"
  by (simp add: messageExtendedMedia_writes_def recursion_simps)

lemma messageExtendedMedia_codec:
  assumes "\<And>t. tl_codec (r t) (w t) (e t) (k t)"
  shows "tl_codec (read_object (messageExtendedMedia_reads r)) (write_fobject (messageExtendedMedia_writes w)) (enc_fobject (messageExtendedMedia_fields r w e k)) (ok_fobject (messageExtendedMedia_fields r w e k))"
  by (rule flag_schema_codec, unfold messageExtendedMedia_fields_def, intro flag_tableI)
    (simp_all add: messageExtendedMedia_reads_def messageExtendedMedia_writes_def flag_schema_simps assms assms [THEN tl_codec.vector_codec] tl_PhotoSize.tl_codec_axioms)

lemma messageExtendedMedia_fields_le:
  "(\<And>t q v. k t q v \<Longrightarrow> k' t q v \<and> e' t q v = e t q v) \<Longrightarrow> table_le (messageExtendedMedia_fields r w e k) (messageExtendedMedia_fields r' w' e' k')"
  by (simp add: messageExtendedMedia_fields_def recursion_simps)

lemma storyItem_reads_like: "(\<And>t. like L (r t) (r' t)) \<Longrightarrow> cases_like L (storyItem_reads r) (storyItem_reads r')"
  by (simp add: storyItem_reads_def recursion_simps tl_Peer.self_like tl_StoryFwdHeader.self_like tl_MessageEntity.self_like tl_MediaArea.self_like
        tl_PrivacyRule.self_like tl_StoryViews.self_like tl_Reaction.self_like tl_Document.self_like)

lemma storyItem_writes_like: "(\<And>t. wlike B (w t) (w' t)) \<Longrightarrow> wcases_like B (storyItem_writes w) (storyItem_writes w')"
  by (simp add: storyItem_writes_def recursion_simps)

lemma storyItem_codec:
  assumes "\<And>t. tl_codec (r t) (w t) (e t) (k t)"
  shows "tl_codec (read_object (storyItem_reads r)) (write_fobject (storyItem_writes w)) (enc_fobject (storyItem_fields r w e k)) (ok_fobject (storyItem_fields r w e k))"
  by (rule flag_schema_codec, unfold storyItem_fields_def, intro flag_tableI)
    (simp_all add: storyItem_reads_def storyItem_writes_def flag_schema_simps assms assms [THEN tl_codec.vector_codec] tl_Peer.tl_codec_axioms tl_StoryFwdHeader.tl_codec_axioms tl_MessageEntity.tl_codec_axioms
        tl_MediaArea.tl_codec_axioms tl_PrivacyRule.tl_codec_axioms tl_StoryViews.tl_codec_axioms
        tl_Reaction.tl_codec_axioms tl_Document.tl_codec_axioms tl_MessageEntity.vector_codec
        tl_MediaArea.vector_codec tl_PrivacyRule.vector_codec)

lemma storyItem_fields_le:
  "(\<And>t q v. k t q v \<Longrightarrow> k' t q v \<and> e' t q v = e t q v) \<Longrightarrow> table_le (storyItem_fields r w e k) (storyItem_fields r' w' e' k')"
  by (simp add: storyItem_fields_def recursion_simps)

interpretation media: tl_recursion media_reads media_writes media_tables
proof (rule tl_recursion.intro)
  fix L and r r' :: "media_type \<Rightarrow> tl_reader" and t assume "\<And>t. like L (r t) (r' t)"
  then show "cases_like L (media_reads r t) (media_reads r' t)" by (cases t) (simp_all add: inputMedia_reads_like messageMedia_reads_like webPage_reads_like pollAnswer_reads_like poll_reads_like pollResults_reads_like webPageAttribute_reads_like messageExtendedMedia_reads_like storyItem_reads_like)
next
  fix B and w w' :: "media_type \<Rightarrow> tl_writer" and t assume "\<And>t. wlike B (w t) (w' t)"
  then show "wcases_like B (media_writes w t) (media_writes w' t)" by (cases t) (simp_all add: inputMedia_writes_like messageMedia_writes_like webPage_writes_like pollAnswer_writes_like poll_writes_like pollResults_writes_like webPageAttribute_writes_like messageExtendedMedia_writes_like storyItem_writes_like)
next
  fix r :: "media_type \<Rightarrow> tl_reader" and w e k t assume "\<And>t. tl_codec (r t) (w t) (e t) (k t)"
  then show "tl_codec (read_object (media_reads r t)) (write_fobject (media_writes w t)) (enc_fobject (media_tables r w e k t)) (ok_fobject (media_tables r w e k t))"
    by (cases t) (simp_all add: inputMedia_codec messageMedia_codec webPage_codec pollAnswer_codec poll_codec pollResults_codec webPageAttribute_codec messageExtendedMedia_codec storyItem_codec)
next
  fix k k' :: "media_type \<Rightarrow> qtenv \<Rightarrow> variant \<Rightarrow> bool" and e e' :: "media_type \<Rightarrow> qtenv \<Rightarrow> variant \<Rightarrow> bytes" and r r' w w' t
  assume "\<And>t q v. k t q v \<Longrightarrow> k' t q v \<and> e' t q v = e t q v"
  then show "table_le (media_tables r w e k t) (media_tables r' w' e' k' t)" by (cases t) (simp_all add: inputMedia_fields_le messageMedia_fields_le webPage_fields_le pollAnswer_fields_le poll_fields_le pollResults_fields_le webPageAttribute_fields_le messageExtendedMedia_fields_le storyItem_fields_le)
next
  show "map_of (media_reads r t) 0 = None" for r :: "media_type \<Rightarrow> tl_reader" and t
    by (cases t) (simp_all add: inputMedia_reads_def messageMedia_reads_def webPage_reads_def pollAnswer_reads_def poll_reads_def pollResults_reads_def webPageAttribute_reads_def messageExtendedMedia_reads_def storyItem_reads_def)
  show "map_of (media_writes w t) 0 = None" for w :: "media_type \<Rightarrow> tl_writer" and t
    by (cases t) (simp_all add: inputMedia_writes_def messageMedia_writes_def webPage_writes_def pollAnswer_writes_def poll_writes_def pollResults_writes_def webPageAttribute_writes_def messageExtendedMedia_writes_def storyItem_writes_def)
qed

definition readTLInputMedia :: tl_reader where
  "readTLInputMedia = read_rec media_reads InputMediaT"

definition writeTLInputMedia :: tl_writer where
  "writeTLInputMedia = write_rec media_writes InputMediaT"

definition enc_InputMedia :: "qtenv \<Rightarrow> variant \<Rightarrow> bytes" where
  "enc_InputMedia = enc_rec media_reads media_writes media_tables InputMediaT"

definition ok_InputMedia :: "qtenv \<Rightarrow> variant \<Rightarrow> bool" where
  "ok_InputMedia = ok_rec media_reads media_writes media_tables InputMediaT"

lemma readTLInputMedia_unfold: "readTLInputMedia i s = read_object (inputMedia_reads (read_rec media_reads)) i s"
  using media.read_rec_unfold [of "InputMediaT" i s] by (simp add: readTLInputMedia_def)

lemma writeTLInputMedia_unfold: "writeTLInputMedia s i = write_fobject (inputMedia_writes (write_rec media_writes)) s i"
  using media.write_rec_unfold [of "InputMediaT" s i] by (simp add: writeTLInputMedia_def)

interpretation tl_InputMedia: tl_codec readTLInputMedia writeTLInputMedia enc_InputMedia ok_InputMedia
  unfolding readTLInputMedia_def writeTLInputMedia_def enc_InputMedia_def ok_InputMedia_def by (rule media.rec_codec)

definition readTLMessageMedia :: tl_reader where
  "readTLMessageMedia = read_rec media_reads MessageMediaT"

definition writeTLMessageMedia :: tl_writer where
  "writeTLMessageMedia = write_rec media_writes MessageMediaT"

definition enc_MessageMedia :: "qtenv \<Rightarrow> variant \<Rightarrow> bytes" where
  "enc_MessageMedia = enc_rec media_reads media_writes media_tables MessageMediaT"

definition ok_MessageMedia :: "qtenv \<Rightarrow> variant \<Rightarrow> bool" where
  "ok_MessageMedia = ok_rec media_reads media_writes media_tables MessageMediaT"

lemma readTLMessageMedia_unfold: "readTLMessageMedia i s = read_object (messageMedia_reads (read_rec media_reads)) i s"
  using media.read_rec_unfold [of "MessageMediaT" i s] by (simp add: readTLMessageMedia_def)

lemma writeTLMessageMedia_unfold: "writeTLMessageMedia s i = write_fobject (messageMedia_writes (write_rec media_writes)) s i"
  using media.write_rec_unfold [of "MessageMediaT" s i] by (simp add: writeTLMessageMedia_def)

interpretation tl_MessageMedia: tl_codec readTLMessageMedia writeTLMessageMedia enc_MessageMedia ok_MessageMedia
  unfolding readTLMessageMedia_def writeTLMessageMedia_def enc_MessageMedia_def ok_MessageMedia_def by (rule media.rec_codec)

definition readTLWebPage :: tl_reader where
  "readTLWebPage = read_rec media_reads WebPageT"

definition writeTLWebPage :: tl_writer where
  "writeTLWebPage = write_rec media_writes WebPageT"

definition enc_WebPage :: "qtenv \<Rightarrow> variant \<Rightarrow> bytes" where
  "enc_WebPage = enc_rec media_reads media_writes media_tables WebPageT"

definition ok_WebPage :: "qtenv \<Rightarrow> variant \<Rightarrow> bool" where
  "ok_WebPage = ok_rec media_reads media_writes media_tables WebPageT"

lemma readTLWebPage_unfold: "readTLWebPage i s = read_object (webPage_reads (read_rec media_reads)) i s"
  using media.read_rec_unfold [of "WebPageT" i s] by (simp add: readTLWebPage_def)

lemma writeTLWebPage_unfold: "writeTLWebPage s i = write_fobject (webPage_writes (write_rec media_writes)) s i"
  using media.write_rec_unfold [of "WebPageT" s i] by (simp add: writeTLWebPage_def)

interpretation tl_WebPage: tl_codec readTLWebPage writeTLWebPage enc_WebPage ok_WebPage
  unfolding readTLWebPage_def writeTLWebPage_def enc_WebPage_def ok_WebPage_def by (rule media.rec_codec)

definition readTLPollAnswer :: tl_reader where
  "readTLPollAnswer = read_rec media_reads PollAnswerT"

definition writeTLPollAnswer :: tl_writer where
  "writeTLPollAnswer = write_rec media_writes PollAnswerT"

definition enc_PollAnswer :: "qtenv \<Rightarrow> variant \<Rightarrow> bytes" where
  "enc_PollAnswer = enc_rec media_reads media_writes media_tables PollAnswerT"

definition ok_PollAnswer :: "qtenv \<Rightarrow> variant \<Rightarrow> bool" where
  "ok_PollAnswer = ok_rec media_reads media_writes media_tables PollAnswerT"

lemma readTLPollAnswer_unfold: "readTLPollAnswer i s = read_object (pollAnswer_reads (read_rec media_reads)) i s"
  using media.read_rec_unfold [of "PollAnswerT" i s] by (simp add: readTLPollAnswer_def)

lemma writeTLPollAnswer_unfold: "writeTLPollAnswer s i = write_fobject (pollAnswer_writes (write_rec media_writes)) s i"
  using media.write_rec_unfold [of "PollAnswerT" s i] by (simp add: writeTLPollAnswer_def)

interpretation tl_PollAnswer: tl_codec readTLPollAnswer writeTLPollAnswer enc_PollAnswer ok_PollAnswer
  unfolding readTLPollAnswer_def writeTLPollAnswer_def enc_PollAnswer_def ok_PollAnswer_def by (rule media.rec_codec)

definition readTLPoll :: tl_reader where
  "readTLPoll = read_rec media_reads PollT"

definition writeTLPoll :: tl_writer where
  "writeTLPoll = write_rec media_writes PollT"

definition enc_Poll :: "qtenv \<Rightarrow> variant \<Rightarrow> bytes" where
  "enc_Poll = enc_rec media_reads media_writes media_tables PollT"

definition ok_Poll :: "qtenv \<Rightarrow> variant \<Rightarrow> bool" where
  "ok_Poll = ok_rec media_reads media_writes media_tables PollT"

lemma readTLPoll_unfold: "readTLPoll i s = read_object (poll_reads (read_rec media_reads)) i s"
  using media.read_rec_unfold [of "PollT" i s] by (simp add: readTLPoll_def)

lemma writeTLPoll_unfold: "writeTLPoll s i = write_fobject (poll_writes (write_rec media_writes)) s i"
  using media.write_rec_unfold [of "PollT" s i] by (simp add: writeTLPoll_def)

interpretation tl_Poll: tl_codec readTLPoll writeTLPoll enc_Poll ok_Poll
  unfolding readTLPoll_def writeTLPoll_def enc_Poll_def ok_Poll_def by (rule media.rec_codec)

definition readTLPollResults :: tl_reader where
  "readTLPollResults = read_rec media_reads PollResultsT"

definition writeTLPollResults :: tl_writer where
  "writeTLPollResults = write_rec media_writes PollResultsT"

definition enc_PollResults :: "qtenv \<Rightarrow> variant \<Rightarrow> bytes" where
  "enc_PollResults = enc_rec media_reads media_writes media_tables PollResultsT"

definition ok_PollResults :: "qtenv \<Rightarrow> variant \<Rightarrow> bool" where
  "ok_PollResults = ok_rec media_reads media_writes media_tables PollResultsT"

lemma readTLPollResults_unfold: "readTLPollResults i s = read_object (pollResults_reads (read_rec media_reads)) i s"
  using media.read_rec_unfold [of "PollResultsT" i s] by (simp add: readTLPollResults_def)

lemma writeTLPollResults_unfold: "writeTLPollResults s i = write_fobject (pollResults_writes (write_rec media_writes)) s i"
  using media.write_rec_unfold [of "PollResultsT" s i] by (simp add: writeTLPollResults_def)

interpretation tl_PollResults: tl_codec readTLPollResults writeTLPollResults enc_PollResults ok_PollResults
  unfolding readTLPollResults_def writeTLPollResults_def enc_PollResults_def ok_PollResults_def by (rule media.rec_codec)

definition readTLWebPageAttribute :: tl_reader where
  "readTLWebPageAttribute = read_rec media_reads WebPageAttributeT"

definition writeTLWebPageAttribute :: tl_writer where
  "writeTLWebPageAttribute = write_rec media_writes WebPageAttributeT"

definition enc_WebPageAttribute :: "qtenv \<Rightarrow> variant \<Rightarrow> bytes" where
  "enc_WebPageAttribute = enc_rec media_reads media_writes media_tables WebPageAttributeT"

definition ok_WebPageAttribute :: "qtenv \<Rightarrow> variant \<Rightarrow> bool" where
  "ok_WebPageAttribute = ok_rec media_reads media_writes media_tables WebPageAttributeT"

lemma readTLWebPageAttribute_unfold: "readTLWebPageAttribute i s = read_object (webPageAttribute_reads (read_rec media_reads)) i s"
  using media.read_rec_unfold [of "WebPageAttributeT" i s] by (simp add: readTLWebPageAttribute_def)

lemma writeTLWebPageAttribute_unfold: "writeTLWebPageAttribute s i = write_fobject (webPageAttribute_writes (write_rec media_writes)) s i"
  using media.write_rec_unfold [of "WebPageAttributeT" s i] by (simp add: writeTLWebPageAttribute_def)

interpretation tl_WebPageAttribute: tl_codec readTLWebPageAttribute writeTLWebPageAttribute enc_WebPageAttribute ok_WebPageAttribute
  unfolding readTLWebPageAttribute_def writeTLWebPageAttribute_def enc_WebPageAttribute_def ok_WebPageAttribute_def by (rule media.rec_codec)

definition readTLMessageExtendedMedia :: tl_reader where
  "readTLMessageExtendedMedia = read_rec media_reads MessageExtendedMediaT"

definition writeTLMessageExtendedMedia :: tl_writer where
  "writeTLMessageExtendedMedia = write_rec media_writes MessageExtendedMediaT"

definition enc_MessageExtendedMedia :: "qtenv \<Rightarrow> variant \<Rightarrow> bytes" where
  "enc_MessageExtendedMedia = enc_rec media_reads media_writes media_tables MessageExtendedMediaT"

definition ok_MessageExtendedMedia :: "qtenv \<Rightarrow> variant \<Rightarrow> bool" where
  "ok_MessageExtendedMedia = ok_rec media_reads media_writes media_tables MessageExtendedMediaT"

lemma readTLMessageExtendedMedia_unfold: "readTLMessageExtendedMedia i s = read_object (messageExtendedMedia_reads (read_rec media_reads)) i s"
  using media.read_rec_unfold [of "MessageExtendedMediaT" i s] by (simp add: readTLMessageExtendedMedia_def)

lemma writeTLMessageExtendedMedia_unfold: "writeTLMessageExtendedMedia s i = write_fobject (messageExtendedMedia_writes (write_rec media_writes)) s i"
  using media.write_rec_unfold [of "MessageExtendedMediaT" s i] by (simp add: writeTLMessageExtendedMedia_def)

interpretation tl_MessageExtendedMedia: tl_codec readTLMessageExtendedMedia writeTLMessageExtendedMedia enc_MessageExtendedMedia ok_MessageExtendedMedia
  unfolding readTLMessageExtendedMedia_def writeTLMessageExtendedMedia_def enc_MessageExtendedMedia_def ok_MessageExtendedMedia_def by (rule media.rec_codec)

definition readTLStoryItem :: tl_reader where
  "readTLStoryItem = read_rec media_reads StoryItemT"

definition writeTLStoryItem :: tl_writer where
  "writeTLStoryItem = write_rec media_writes StoryItemT"

definition enc_StoryItem :: "qtenv \<Rightarrow> variant \<Rightarrow> bytes" where
  "enc_StoryItem = enc_rec media_reads media_writes media_tables StoryItemT"

definition ok_StoryItem :: "qtenv \<Rightarrow> variant \<Rightarrow> bool" where
  "ok_StoryItem = ok_rec media_reads media_writes media_tables StoryItemT"

lemma readTLStoryItem_unfold: "readTLStoryItem i s = read_object (storyItem_reads (read_rec media_reads)) i s"
  using media.read_rec_unfold [of "StoryItemT" i s] by (simp add: readTLStoryItem_def)

lemma writeTLStoryItem_unfold: "writeTLStoryItem s i = write_fobject (storyItem_writes (write_rec media_writes)) s i"
  using media.write_rec_unfold [of "StoryItemT" s i] by (simp add: writeTLStoryItem_def)

interpretation tl_StoryItem: tl_codec readTLStoryItem writeTLStoryItem enc_StoryItem ok_StoryItem
  unfolding readTLStoryItem_def writeTLStoryItem_def enc_StoryItem_def ok_StoryItem_def by (rule media.rec_codec)

end
