(* ===== verification/TlTypes5.thy ===== *)
theory TlTypes5
  imports TlMedia
begin

section \<open>The API schema, types that reach recursive ones: libkg/tlschema.cpp\<close>

text \<open>
  Readers and writers of the types InputChatPhoto to BusinessIntro, in dependency order. Each type has its table and the interpretation of the codec contract;
  a group of types that refer to one another gets it from \<open>tl_recursion\<close>.
\<close>

definition readTLInputChatPhoto :: tl_reader where
  "readTLInputChatPhoto = read_object
     [(480546647, []),
      (- 1110593856, [rd ''flags'' readUInt32, rd_if ''flags'' 0 ''file'' readTLInputFile,
         rd_if ''flags'' 1 ''video'' readTLInputFile,
         rd_if ''flags'' 2 ''video_start_ts'' readDouble,
         rd_if ''flags'' 3 ''video_emoji_markup'' readTLVideoSize]),
      (- 1991004873, [rd ''id'' readTLInputPhoto])]"

definition writeTLInputChatPhoto :: tl_writer where
  "writeTLInputChatPhoto = write_fobject
     [(480546647, [wf ''_'' writeInt32]),
      (- 1110593856, [wf ''_'' writeInt32, wf_flags ''flags'' [(''file'', 0), (''video'', 1),
         (''video_start_ts'', 2), (''video_emoji_markup'', 3)],
         wf_if ''flags'' 0 ''file'' writeTLInputFile, wf_if ''flags'' 1 ''video'' writeTLInputFile,
         wf_if ''flags'' 2 ''video_start_ts'' writeDouble,
         wf_if ''flags'' 3 ''video_emoji_markup'' writeTLVideoSize]),
      (- 1991004873, [wf ''_'' writeInt32, wf ''id'' writeTLInputPhoto])]"

definition TL_InputChatPhoto_table :: flag_table where
  "TL_InputChatPhoto_table =
     [(480546647, []),
      (- 1110593856, [Flags ''flags'' [(''file'', 0), (''video'', 1), (''video_start_ts'', 2),
         (''video_emoji_markup'', 3)],
        Cond ''flags'' 0 (''file'', readTLInputFile, writeTLInputFile,
         enc_fobject TL_InputFile_table, ok_fobject TL_InputFile_table),
        Cond ''flags'' 1 (''video'', readTLInputFile, writeTLInputFile,
         enc_fobject TL_InputFile_table, ok_fobject TL_InputFile_table),
        Cond ''flags'' 2 (''video_start_ts'', readDouble, writeDouble, enc_double, is_VDouble),
        Cond ''flags'' 3 (''video_emoji_markup'', readTLVideoSize, writeTLVideoSize,
         enc_fobject TL_VideoSize_table, ok_fobject TL_VideoSize_table)]),
      (- 1991004873, [Plain (''id'', readTLInputPhoto, writeTLInputPhoto,
         enc_fobject TL_InputPhoto_table, ok_fobject TL_InputPhoto_table)])]"

interpretation tl_InputChatPhoto: tl_codec readTLInputChatPhoto writeTLInputChatPhoto "enc_fobject TL_InputChatPhoto_table" "ok_fobject TL_InputChatPhoto_table"
  by (rule flag_schema_codec, unfold TL_InputChatPhoto_table_def, intro flag_tableI)
    (simp_all add: readTLInputChatPhoto_def writeTLInputChatPhoto_def flag_schema_simps tl_InputFile.tl_codec_axioms tl_VideoSize.tl_codec_axioms tl_InputPhoto.tl_codec_axioms)

definition readTLBotInfo :: tl_reader where
  "readTLBotInfo = read_object
     [(1300890265, [rd ''flags'' readUInt32, set_if ''flags'' 6 ''has_preview_medias'',
         rd_if ''flags'' 0 ''user_id'' readInt64, rd_if ''flags'' 1 ''description'' readString,
         rd_if ''flags'' 4 ''description_photo'' readTLPhoto,
         rd_if ''flags'' 5 ''description_document'' readTLDocument,
         rd_if ''flags'' 2 ''commands'' (readVector (Some readTLBotCommand)),
         rd_if ''flags'' 3 ''menu_button'' readTLBotMenuButton,
         rd_if ''flags'' 7 ''privacy_policy_url'' readString,
         rd_if ''flags'' 8 ''app_settings'' readTLBotAppSettings,
         rd_if ''flags'' 9 ''verifier_settings'' readTLBotVerifierSettings])]"

definition writeTLBotInfo :: tl_writer where
  "writeTLBotInfo = write_fobject
     [(1300890265, [wf ''_'' writeInt32, wf_flags ''flags'' [(''has_preview_medias'', 6),
         (''user_id'', 0), (''description'', 1), (''description_photo'', 4),
         (''description_document'', 5), (''commands'', 2), (''menu_button'', 3),
         (''privacy_policy_url'', 7), (''app_settings'', 8), (''verifier_settings'', 9)],
         wf_if ''flags'' 0 ''user_id'' writeInt64, wf_if ''flags'' 1 ''description'' writeString,
         wf_if ''flags'' 4 ''description_photo'' writeTLPhoto,
         wf_if ''flags'' 5 ''description_document'' writeTLDocument,
         wf_if ''flags'' 2 ''commands'' (writeVector (Some writeTLBotCommand)),
         wf_if ''flags'' 3 ''menu_button'' writeTLBotMenuButton,
         wf_if ''flags'' 7 ''privacy_policy_url'' writeString,
         wf_if ''flags'' 8 ''app_settings'' writeTLBotAppSettings,
         wf_if ''flags'' 9 ''verifier_settings'' writeTLBotVerifierSettings])]"

definition TL_BotInfo_table :: flag_table where
  "TL_BotInfo_table =
     [(1300890265, [Flags ''flags'' [(''has_preview_medias'', 6), (''user_id'', 0),
         (''description'', 1), (''description_photo'', 4), (''description_document'', 5),
         (''commands'', 2), (''menu_button'', 3), (''privacy_policy_url'', 7), (''app_settings'',
         8), (''verifier_settings'', 9)],
        TrueBit ''flags'' 6 ''has_preview_medias'',
        Cond ''flags'' 0 (''user_id'', readInt64, writeInt64, enc_int64, is_VLong),
        Cond ''flags'' 1 (''description'', readString, writeString, enc_string, is_short_text),
        Cond ''flags'' 4 (''description_photo'', readTLPhoto, writeTLPhoto,
         enc_fobject TL_Photo_table, ok_fobject TL_Photo_table),
        Cond ''flags'' 5 (''description_document'', readTLDocument, writeTLDocument,
         enc_fobject TL_Document_table, ok_fobject TL_Document_table),
        Cond ''flags'' 2 (''commands'', readVector (Some readTLBotCommand),
         writeVector (Some writeTLBotCommand), enc_vector (enc_fobject TL_BotCommand_table),
         ok_vector (ok_fobject TL_BotCommand_table)),
        Cond ''flags'' 3 (''menu_button'', readTLBotMenuButton, writeTLBotMenuButton,
         enc_fobject TL_BotMenuButton_table, ok_fobject TL_BotMenuButton_table),
        Cond ''flags'' 7 (''privacy_policy_url'', readString, writeString, enc_string,
         is_short_text),
        Cond ''flags'' 8 (''app_settings'', readTLBotAppSettings, writeTLBotAppSettings,
         enc_fobject TL_BotAppSettings_table, ok_fobject TL_BotAppSettings_table),
        Cond ''flags'' 9 (''verifier_settings'', readTLBotVerifierSettings,
         writeTLBotVerifierSettings, enc_fobject TL_BotVerifierSettings_table,
         ok_fobject TL_BotVerifierSettings_table)])]"

interpretation tl_BotInfo: tl_codec readTLBotInfo writeTLBotInfo "enc_fobject TL_BotInfo_table" "ok_fobject TL_BotInfo_table"
  by (rule flag_schema_codec, unfold TL_BotInfo_table_def, intro flag_tableI)
    (simp_all add: readTLBotInfo_def writeTLBotInfo_def flag_schema_simps tl_Photo.tl_codec_axioms tl_Document.tl_codec_axioms tl_BotCommand.tl_codec_axioms
      tl_BotMenuButton.tl_codec_axioms tl_BotAppSettings.tl_codec_axioms
      tl_BotVerifierSettings.tl_codec_axioms tl_BotCommand.vector_codec)

definition readTLChannelLocation :: tl_reader where
  "readTLChannelLocation = read_object
     [(- 1078612597, []),
      (547062491, [rd ''geo_point'' readTLGeoPoint, rd ''address'' readString])]"

definition writeTLChannelLocation :: tl_writer where
  "writeTLChannelLocation = write_fobject
     [(- 1078612597, [wf ''_'' writeInt32]),
      (547062491, [wf ''_'' writeInt32, wf ''geo_point'' writeTLGeoPoint,
         wf ''address'' writeString])]"

definition TL_ChannelLocation_table :: flag_table where
  "TL_ChannelLocation_table =
     [(- 1078612597, []),
      (547062491, [Plain (''geo_point'', readTLGeoPoint, writeTLGeoPoint,
         enc_fobject TL_GeoPoint_table, ok_fobject TL_GeoPoint_table),
        Plain (''address'', readString, writeString, enc_string, is_short_text)])]"

interpretation tl_ChannelLocation: tl_codec readTLChannelLocation writeTLChannelLocation "enc_fobject TL_ChannelLocation_table" "ok_fobject TL_ChannelLocation_table"
  by (rule flag_schema_codec, unfold TL_ChannelLocation_table_def, intro flag_tableI)
    (simp_all add: readTLChannelLocation_def writeTLChannelLocation_def flag_schema_simps tl_GeoPoint.tl_codec_axioms)

definition readTLPeerStories :: tl_reader where
  "readTLPeerStories = read_object
     [(- 1707742823, [rd ''flags'' readUInt32, rd ''peer'' readTLPeer,
         rd_if ''flags'' 0 ''max_read_id'' readInt32,
         rd ''stories'' (readVector (Some readTLStoryItem))])]"

definition writeTLPeerStories :: tl_writer where
  "writeTLPeerStories = write_fobject
     [(- 1707742823, [wf ''_'' writeInt32, wf_flags ''flags'' [(''max_read_id'', 0)],
         wf ''peer'' writeTLPeer, wf_if ''flags'' 0 ''max_read_id'' writeInt32,
         wf ''stories'' (writeVector (Some writeTLStoryItem))])]"

definition TL_PeerStories_table :: flag_table where
  "TL_PeerStories_table =
     [(- 1707742823, [Flags ''flags'' [(''max_read_id'', 0)],
        Plain (''peer'', readTLPeer, writeTLPeer, enc_fobject TL_Peer_table,
         ok_fobject TL_Peer_table),
        Cond ''flags'' 0 (''max_read_id'', readInt32, writeInt32, enc_int32, is_VInt),
        Plain (''stories'', readVector (Some readTLStoryItem), writeVector (Some writeTLStoryItem),
         enc_vector enc_StoryItem, ok_vector ok_StoryItem)])]"

interpretation tl_PeerStories: tl_codec readTLPeerStories writeTLPeerStories "enc_fobject TL_PeerStories_table" "ok_fobject TL_PeerStories_table"
  by (rule flag_schema_codec, unfold TL_PeerStories_table_def, intro flag_tableI)
    (simp_all add: readTLPeerStories_def writeTLPeerStories_def flag_schema_simps tl_Peer.tl_codec_axioms tl_StoryItem.tl_codec_axioms tl_StoryItem.vector_codec)

definition readTLChatFull :: tl_reader where
  "readTLChatFull = read_object
     [(640893467, [rd ''flags'' readUInt32, set_if ''flags'' 7 ''can_set_username'',
         set_if ''flags'' 8 ''has_scheduled'', set_if ''flags'' 19 ''translations_disabled'',
         set_if ''flags'' 21 ''has_welcome_messages'', rd ''id'' readInt64,
         rd ''about'' readString, rd ''participants'' readTLChatParticipants,
         rd_if ''flags'' 2 ''chat_photo'' readTLPhoto,
         rd ''notify_settings'' readTLPeerNotifySettings,
         rd_if ''flags'' 13 ''exported_invite'' readTLExportedChatInvite,
         rd_if ''flags'' 3 ''bot_info'' (readVector (Some readTLBotInfo)),
         rd_if ''flags'' 6 ''pinned_msg_id'' readInt32, rd_if ''flags'' 11 ''folder_id'' readInt32,
         rd_if ''flags'' 12 ''call'' readTLInputGroupCall,
         rd_if ''flags'' 14 ''ttl_period'' readInt32,
         rd_if ''flags'' 15 ''groupcall_default_join_as'' readTLPeer,
         rd_if ''flags'' 16 ''theme_emoticon'' readString,
         rd_if ''flags'' 17 ''requests_pending'' readInt32,
         rd_if ''flags'' 17 ''recent_requesters'' (readVector (Some readInt64)),
         rd_if ''flags'' 18 ''available_reactions'' readTLChatReactions,
         rd_if ''flags'' 20 ''reactions_limit'' readInt32]),
      (- 1605464774, [rd ''flags'' readUInt32, set_if ''flags'' 3 ''can_view_participants'',
         set_if ''flags'' 6 ''can_set_username'', set_if ''flags'' 7 ''can_set_stickers'',
         set_if ''flags'' 10 ''hidden_prehistory'', set_if ''flags'' 16 ''can_set_location'',
         set_if ''flags'' 19 ''has_scheduled'', set_if ''flags'' 20 ''can_view_stats'',
         set_if ''flags'' 22 ''blocked'', rd ''flags2'' readUInt32,
         set_if ''flags2'' 0 ''can_delete_channel'', set_if ''flags2'' 1 ''antispam'',
         set_if ''flags2'' 2 ''participants_hidden'',
         set_if ''flags2'' 3 ''translations_disabled'',
         set_if ''flags2'' 5 ''stories_pinned_available'',
         set_if ''flags2'' 6 ''view_forum_as_messages'',
         set_if ''flags2'' 11 ''restricted_sponsored'', set_if ''flags2'' 12 ''can_view_revenue'',
         set_if ''flags2'' 14 ''paid_media_allowed'',
         set_if ''flags2'' 15 ''can_view_stars_revenue'',
         set_if ''flags2'' 16 ''paid_reactions_available'',
         set_if ''flags2'' 19 ''stargifts_available'',
         set_if ''flags2'' 20 ''paid_messages_available'',
         set_if ''flags2'' 24 ''has_welcome_messages'', rd ''id'' readInt64,
         rd ''about'' readString, rd_if ''flags'' 0 ''participants_count'' readInt32,
         rd_if ''flags'' 1 ''admins_count'' readInt32,
         rd_if ''flags'' 2 ''kicked_count'' readInt32,
         rd_if ''flags'' 2 ''banned_count'' readInt32,
         rd_if ''flags'' 13 ''online_count'' readInt32, rd ''read_inbox_max_id'' readInt32,
         rd ''read_outbox_max_id'' readInt32, rd ''unread_count'' readInt32,
         rd ''chat_photo'' readTLPhoto, rd ''notify_settings'' readTLPeerNotifySettings,
         rd_if ''flags'' 23 ''exported_invite'' readTLExportedChatInvite,
         rd ''bot_info'' (readVector (Some readTLBotInfo)),
         rd_if ''flags'' 4 ''migrated_from_chat_id'' readInt64,
         rd_if ''flags'' 4 ''migrated_from_max_id'' readInt32,
         rd_if ''flags'' 5 ''pinned_msg_id'' readInt32,
         rd_if ''flags'' 8 ''stickerset'' readTLStickerSet,
         rd_if ''flags'' 9 ''available_min_id'' readInt32,
         rd_if ''flags'' 11 ''folder_id'' readInt32,
         rd_if ''flags'' 14 ''linked_chat_id'' readInt64,
         rd_if ''flags'' 15 ''location'' readTLChannelLocation,
         rd_if ''flags'' 17 ''slowmode_seconds'' readInt32,
         rd_if ''flags'' 18 ''slowmode_next_send_date'' readInt32,
         rd_if ''flags'' 12 ''stats_dc'' readInt32, rd ''pts'' readInt32,
         rd_if ''flags'' 21 ''call'' readTLInputGroupCall,
         rd_if ''flags'' 24 ''ttl_period'' readInt32,
         rd_if ''flags'' 25 ''pending_suggestions'' (readVector (Some readString)),
         rd_if ''flags'' 26 ''groupcall_default_join_as'' readTLPeer,
         rd_if ''flags'' 27 ''theme_emoticon'' readString,
         rd_if ''flags'' 28 ''requests_pending'' readInt32,
         rd_if ''flags'' 28 ''recent_requesters'' (readVector (Some readInt64)),
         rd_if ''flags'' 29 ''default_send_as'' readTLPeer,
         rd_if ''flags'' 30 ''available_reactions'' readTLChatReactions,
         rd_if ''flags2'' 13 ''reactions_limit'' readInt32,
         rd_if ''flags2'' 4 ''stories'' readTLPeerStories,
         rd_if ''flags2'' 7 ''wallpaper'' readTLWallPaper,
         rd_if ''flags2'' 8 ''boosts_applied'' readInt32,
         rd_if ''flags2'' 9 ''boosts_unrestrict'' readInt32,
         rd_if ''flags2'' 10 ''emojiset'' readTLStickerSet,
         rd_if ''flags2'' 17 ''bot_verification'' readTLBotVerification,
         rd_if ''flags2'' 18 ''stargifts_count'' readInt32,
         rd_if ''flags2'' 21 ''send_paid_messages_stars'' readInt64,
         rd_if ''flags2'' 22 ''main_tab'' readTLProfileTab,
         rd_if ''flags2'' 23 ''guard_bot_id'' readInt64]),
      (- 877157113, [rd ''flags'' readUInt32, rd ''id'' readInt64, rd ''about'' readString,
         rd ''chat_photo'' readTLPhoto,
         rd ''linked_peers'' (readVector (Some readTLCommunityPeer)),
         rd_if ''flags'' 1 ''admins_count'' readInt32,
         rd_if ''flags'' 2 ''kicked_count'' readInt32,
         rd_if ''flags'' 0 ''peer_link_requests_pending'' readInt32])]"

definition writeTLChatFull :: tl_writer where
  "writeTLChatFull = write_fobject
     [(640893467, [wf ''_'' writeInt32, wf_flags ''flags'' [(''can_set_username'', 7),
         (''has_scheduled'', 8), (''translations_disabled'', 19), (''has_welcome_messages'', 21),
         (''chat_photo'', 2), (''exported_invite'', 13), (''bot_info'', 3), (''pinned_msg_id'', 6),
         (''folder_id'', 11), (''call'', 12), (''ttl_period'', 14), (''groupcall_default_join_as'',
         15), (''theme_emoticon'', 16), (''requests_pending'', 17), (''recent_requesters'', 17),
         (''available_reactions'', 18), (''reactions_limit'', 20)], wf ''id'' writeInt64,
         wf ''about'' writeString, wf ''participants'' writeTLChatParticipants,
         wf_if ''flags'' 2 ''chat_photo'' writeTLPhoto,
         wf ''notify_settings'' writeTLPeerNotifySettings,
         wf_if ''flags'' 13 ''exported_invite'' writeTLExportedChatInvite,
         wf_if ''flags'' 3 ''bot_info'' (writeVector (Some writeTLBotInfo)),
         wf_if ''flags'' 6 ''pinned_msg_id'' writeInt32,
         wf_if ''flags'' 11 ''folder_id'' writeInt32,
         wf_if ''flags'' 12 ''call'' writeTLInputGroupCall,
         wf_if ''flags'' 14 ''ttl_period'' writeInt32,
         wf_if ''flags'' 15 ''groupcall_default_join_as'' writeTLPeer,
         wf_if ''flags'' 16 ''theme_emoticon'' writeString,
         wf_if ''flags'' 17 ''requests_pending'' writeInt32,
         wf_if ''flags'' 17 ''recent_requesters'' (writeVector (Some writeInt64)),
         wf_if ''flags'' 18 ''available_reactions'' writeTLChatReactions,
         wf_if ''flags'' 20 ''reactions_limit'' writeInt32]),
      (- 1605464774, [wf ''_'' writeInt32, wf_flags ''flags'' [(''can_view_participants'', 3),
         (''can_set_username'', 6), (''can_set_stickers'', 7), (''hidden_prehistory'', 10),
         (''can_set_location'', 16), (''has_scheduled'', 19), (''can_view_stats'', 20),
         (''blocked'', 22), (''participants_count'', 0), (''admins_count'', 1), (''kicked_count'',
         2), (''banned_count'', 2), (''online_count'', 13), (''exported_invite'', 23),
         (''migrated_from_chat_id'', 4), (''migrated_from_max_id'', 4), (''pinned_msg_id'', 5),
         (''stickerset'', 8), (''available_min_id'', 9), (''folder_id'', 11), (''linked_chat_id'',
         14), (''location'', 15), (''slowmode_seconds'', 17), (''slowmode_next_send_date'', 18),
         (''stats_dc'', 12), (''call'', 21), (''ttl_period'', 24), (''pending_suggestions'', 25),
         (''groupcall_default_join_as'', 26), (''theme_emoticon'', 27), (''requests_pending'', 28),
         (''recent_requesters'', 28), (''default_send_as'', 29), (''available_reactions'', 30)],
         wf_flags ''flags2'' [(''can_delete_channel'', 0), (''antispam'', 1),
         (''participants_hidden'', 2), (''translations_disabled'', 3),
         (''stories_pinned_available'', 5), (''view_forum_as_messages'', 6),
         (''restricted_sponsored'', 11), (''can_view_revenue'', 12), (''paid_media_allowed'', 14),
         (''can_view_stars_revenue'', 15), (''paid_reactions_available'', 16),
         (''stargifts_available'', 19), (''paid_messages_available'', 20),
         (''has_welcome_messages'', 24), (''reactions_limit'', 13), (''stories'', 4),
         (''wallpaper'', 7), (''boosts_applied'', 8), (''boosts_unrestrict'', 9), (''emojiset'',
         10), (''bot_verification'', 17), (''stargifts_count'', 18), (''send_paid_messages_stars'',
         21), (''main_tab'', 22), (''guard_bot_id'', 23)], wf ''id'' writeInt64,
         wf ''about'' writeString, wf_if ''flags'' 0 ''participants_count'' writeInt32,
         wf_if ''flags'' 1 ''admins_count'' writeInt32,
         wf_if ''flags'' 2 ''kicked_count'' writeInt32,
         wf_if ''flags'' 2 ''banned_count'' writeInt32,
         wf_if ''flags'' 13 ''online_count'' writeInt32, wf ''read_inbox_max_id'' writeInt32,
         wf ''read_outbox_max_id'' writeInt32, wf ''unread_count'' writeInt32,
         wf ''chat_photo'' writeTLPhoto, wf ''notify_settings'' writeTLPeerNotifySettings,
         wf_if ''flags'' 23 ''exported_invite'' writeTLExportedChatInvite,
         wf ''bot_info'' (writeVector (Some writeTLBotInfo)),
         wf_if ''flags'' 4 ''migrated_from_chat_id'' writeInt64,
         wf_if ''flags'' 4 ''migrated_from_max_id'' writeInt32,
         wf_if ''flags'' 5 ''pinned_msg_id'' writeInt32,
         wf_if ''flags'' 8 ''stickerset'' writeTLStickerSet,
         wf_if ''flags'' 9 ''available_min_id'' writeInt32,
         wf_if ''flags'' 11 ''folder_id'' writeInt32,
         wf_if ''flags'' 14 ''linked_chat_id'' writeInt64,
         wf_if ''flags'' 15 ''location'' writeTLChannelLocation,
         wf_if ''flags'' 17 ''slowmode_seconds'' writeInt32,
         wf_if ''flags'' 18 ''slowmode_next_send_date'' writeInt32,
         wf_if ''flags'' 12 ''stats_dc'' writeInt32, wf ''pts'' writeInt32,
         wf_if ''flags'' 21 ''call'' writeTLInputGroupCall,
         wf_if ''flags'' 24 ''ttl_period'' writeInt32,
         wf_if ''flags'' 25 ''pending_suggestions'' (writeVector (Some writeString)),
         wf_if ''flags'' 26 ''groupcall_default_join_as'' writeTLPeer,
         wf_if ''flags'' 27 ''theme_emoticon'' writeString,
         wf_if ''flags'' 28 ''requests_pending'' writeInt32,
         wf_if ''flags'' 28 ''recent_requesters'' (writeVector (Some writeInt64)),
         wf_if ''flags'' 29 ''default_send_as'' writeTLPeer,
         wf_if ''flags'' 30 ''available_reactions'' writeTLChatReactions,
         wf_if ''flags2'' 13 ''reactions_limit'' writeInt32,
         wf_if ''flags2'' 4 ''stories'' writeTLPeerStories,
         wf_if ''flags2'' 7 ''wallpaper'' writeTLWallPaper,
         wf_if ''flags2'' 8 ''boosts_applied'' writeInt32,
         wf_if ''flags2'' 9 ''boosts_unrestrict'' writeInt32,
         wf_if ''flags2'' 10 ''emojiset'' writeTLStickerSet,
         wf_if ''flags2'' 17 ''bot_verification'' writeTLBotVerification,
         wf_if ''flags2'' 18 ''stargifts_count'' writeInt32,
         wf_if ''flags2'' 21 ''send_paid_messages_stars'' writeInt64,
         wf_if ''flags2'' 22 ''main_tab'' writeTLProfileTab,
         wf_if ''flags2'' 23 ''guard_bot_id'' writeInt64]),
      (- 877157113, [wf ''_'' writeInt32, wf_flags ''flags'' [(''admins_count'', 1),
         (''kicked_count'', 2), (''peer_link_requests_pending'', 0)], wf ''id'' writeInt64,
         wf ''about'' writeString, wf ''chat_photo'' writeTLPhoto,
         wf ''linked_peers'' (writeVector (Some writeTLCommunityPeer)),
         wf_if ''flags'' 1 ''admins_count'' writeInt32,
         wf_if ''flags'' 2 ''kicked_count'' writeInt32,
         wf_if ''flags'' 0 ''peer_link_requests_pending'' writeInt32])]"

definition TL_ChatFull_table :: flag_table where
  "TL_ChatFull_table =
     [(640893467, [Flags ''flags'' [(''can_set_username'', 7), (''has_scheduled'', 8),
         (''translations_disabled'', 19), (''has_welcome_messages'', 21), (''chat_photo'', 2),
         (''exported_invite'', 13), (''bot_info'', 3), (''pinned_msg_id'', 6), (''folder_id'', 11),
         (''call'', 12), (''ttl_period'', 14), (''groupcall_default_join_as'', 15),
         (''theme_emoticon'', 16), (''requests_pending'', 17), (''recent_requesters'', 17),
         (''available_reactions'', 18), (''reactions_limit'', 20)],
        TrueBit ''flags'' 7 ''can_set_username'',
        TrueBit ''flags'' 8 ''has_scheduled'',
        TrueBit ''flags'' 19 ''translations_disabled'',
        TrueBit ''flags'' 21 ''has_welcome_messages'',
        Plain (''id'', readInt64, writeInt64, enc_int64, is_VLong),
        Plain (''about'', readString, writeString, enc_string, is_short_text),
        Plain (''participants'', readTLChatParticipants, writeTLChatParticipants,
         enc_fobject TL_ChatParticipants_table, ok_fobject TL_ChatParticipants_table),
        Cond ''flags'' 2 (''chat_photo'', readTLPhoto, writeTLPhoto, enc_fobject TL_Photo_table,
         ok_fobject TL_Photo_table),
        Plain (''notify_settings'', readTLPeerNotifySettings, writeTLPeerNotifySettings,
         enc_fobject TL_PeerNotifySettings_table, ok_fobject TL_PeerNotifySettings_table),
        Cond ''flags'' 13 (''exported_invite'', readTLExportedChatInvite,
         writeTLExportedChatInvite, enc_fobject TL_ExportedChatInvite_table,
         ok_fobject TL_ExportedChatInvite_table),
        Cond ''flags'' 3 (''bot_info'', readVector (Some readTLBotInfo),
         writeVector (Some writeTLBotInfo), enc_vector (enc_fobject TL_BotInfo_table),
         ok_vector (ok_fobject TL_BotInfo_table)),
        Cond ''flags'' 6 (''pinned_msg_id'', readInt32, writeInt32, enc_int32, is_VInt),
        Cond ''flags'' 11 (''folder_id'', readInt32, writeInt32, enc_int32, is_VInt),
        Cond ''flags'' 12 (''call'', readTLInputGroupCall, writeTLInputGroupCall,
         enc_fobject TL_InputGroupCall_table, ok_fobject TL_InputGroupCall_table),
        Cond ''flags'' 14 (''ttl_period'', readInt32, writeInt32, enc_int32, is_VInt),
        Cond ''flags'' 15 (''groupcall_default_join_as'', readTLPeer, writeTLPeer,
         enc_fobject TL_Peer_table, ok_fobject TL_Peer_table),
        Cond ''flags'' 16 (''theme_emoticon'', readString, writeString, enc_string, is_short_text),
        Cond ''flags'' 17 (''requests_pending'', readInt32, writeInt32, enc_int32, is_VInt),
        Cond ''flags'' 17 (''recent_requesters'', readVector (Some readInt64),
         writeVector (Some writeInt64), enc_vector enc_int64, ok_vector is_VLong),
        Cond ''flags'' 18 (''available_reactions'', readTLChatReactions, writeTLChatReactions,
         enc_fobject TL_ChatReactions_table, ok_fobject TL_ChatReactions_table),
        Cond ''flags'' 20 (''reactions_limit'', readInt32, writeInt32, enc_int32, is_VInt)]),
      (- 1605464774, [Flags ''flags'' [(''can_view_participants'', 3), (''can_set_username'', 6),
         (''can_set_stickers'', 7), (''hidden_prehistory'', 10), (''can_set_location'', 16),
         (''has_scheduled'', 19), (''can_view_stats'', 20), (''blocked'', 22),
         (''participants_count'', 0), (''admins_count'', 1), (''kicked_count'', 2),
         (''banned_count'', 2), (''online_count'', 13), (''exported_invite'', 23),
         (''migrated_from_chat_id'', 4), (''migrated_from_max_id'', 4), (''pinned_msg_id'', 5),
         (''stickerset'', 8), (''available_min_id'', 9), (''folder_id'', 11), (''linked_chat_id'',
         14), (''location'', 15), (''slowmode_seconds'', 17), (''slowmode_next_send_date'', 18),
         (''stats_dc'', 12), (''call'', 21), (''ttl_period'', 24), (''pending_suggestions'', 25),
         (''groupcall_default_join_as'', 26), (''theme_emoticon'', 27), (''requests_pending'', 28),
         (''recent_requesters'', 28), (''default_send_as'', 29), (''available_reactions'', 30)],
        TrueBit ''flags'' 3 ''can_view_participants'',
        TrueBit ''flags'' 6 ''can_set_username'',
        TrueBit ''flags'' 7 ''can_set_stickers'',
        TrueBit ''flags'' 10 ''hidden_prehistory'',
        TrueBit ''flags'' 16 ''can_set_location'',
        TrueBit ''flags'' 19 ''has_scheduled'',
        TrueBit ''flags'' 20 ''can_view_stats'',
        TrueBit ''flags'' 22 ''blocked'',
        Flags ''flags2'' [(''can_delete_channel'', 0), (''antispam'', 1), (''participants_hidden'',
         2), (''translations_disabled'', 3), (''stories_pinned_available'', 5),
         (''view_forum_as_messages'', 6), (''restricted_sponsored'', 11), (''can_view_revenue'',
         12), (''paid_media_allowed'', 14), (''can_view_stars_revenue'', 15),
         (''paid_reactions_available'', 16), (''stargifts_available'', 19),
         (''paid_messages_available'', 20), (''has_welcome_messages'', 24), (''reactions_limit'',
         13), (''stories'', 4), (''wallpaper'', 7), (''boosts_applied'', 8),
         (''boosts_unrestrict'', 9), (''emojiset'', 10), (''bot_verification'', 17),
         (''stargifts_count'', 18), (''send_paid_messages_stars'', 21), (''main_tab'', 22),
         (''guard_bot_id'', 23)],
        TrueBit ''flags2'' 0 ''can_delete_channel'',
        TrueBit ''flags2'' 1 ''antispam'',
        TrueBit ''flags2'' 2 ''participants_hidden'',
        TrueBit ''flags2'' 3 ''translations_disabled'',
        TrueBit ''flags2'' 5 ''stories_pinned_available'',
        TrueBit ''flags2'' 6 ''view_forum_as_messages'',
        TrueBit ''flags2'' 11 ''restricted_sponsored'',
        TrueBit ''flags2'' 12 ''can_view_revenue'',
        TrueBit ''flags2'' 14 ''paid_media_allowed'',
        TrueBit ''flags2'' 15 ''can_view_stars_revenue'',
        TrueBit ''flags2'' 16 ''paid_reactions_available'',
        TrueBit ''flags2'' 19 ''stargifts_available'',
        TrueBit ''flags2'' 20 ''paid_messages_available'',
        TrueBit ''flags2'' 24 ''has_welcome_messages'',
        Plain (''id'', readInt64, writeInt64, enc_int64, is_VLong),
        Plain (''about'', readString, writeString, enc_string, is_short_text),
        Cond ''flags'' 0 (''participants_count'', readInt32, writeInt32, enc_int32, is_VInt),
        Cond ''flags'' 1 (''admins_count'', readInt32, writeInt32, enc_int32, is_VInt),
        Cond ''flags'' 2 (''kicked_count'', readInt32, writeInt32, enc_int32, is_VInt),
        Cond ''flags'' 2 (''banned_count'', readInt32, writeInt32, enc_int32, is_VInt),
        Cond ''flags'' 13 (''online_count'', readInt32, writeInt32, enc_int32, is_VInt),
        Plain (''read_inbox_max_id'', readInt32, writeInt32, enc_int32, is_VInt),
        Plain (''read_outbox_max_id'', readInt32, writeInt32, enc_int32, is_VInt),
        Plain (''unread_count'', readInt32, writeInt32, enc_int32, is_VInt),
        Plain (''chat_photo'', readTLPhoto, writeTLPhoto, enc_fobject TL_Photo_table,
         ok_fobject TL_Photo_table),
        Plain (''notify_settings'', readTLPeerNotifySettings, writeTLPeerNotifySettings,
         enc_fobject TL_PeerNotifySettings_table, ok_fobject TL_PeerNotifySettings_table),
        Cond ''flags'' 23 (''exported_invite'', readTLExportedChatInvite,
         writeTLExportedChatInvite, enc_fobject TL_ExportedChatInvite_table,
         ok_fobject TL_ExportedChatInvite_table),
        Plain (''bot_info'', readVector (Some readTLBotInfo), writeVector (Some writeTLBotInfo),
         enc_vector (enc_fobject TL_BotInfo_table), ok_vector (ok_fobject TL_BotInfo_table)),
        Cond ''flags'' 4 (''migrated_from_chat_id'', readInt64, writeInt64, enc_int64, is_VLong),
        Cond ''flags'' 4 (''migrated_from_max_id'', readInt32, writeInt32, enc_int32, is_VInt),
        Cond ''flags'' 5 (''pinned_msg_id'', readInt32, writeInt32, enc_int32, is_VInt),
        Cond ''flags'' 8 (''stickerset'', readTLStickerSet, writeTLStickerSet,
         enc_fobject TL_StickerSet_table, ok_fobject TL_StickerSet_table),
        Cond ''flags'' 9 (''available_min_id'', readInt32, writeInt32, enc_int32, is_VInt),
        Cond ''flags'' 11 (''folder_id'', readInt32, writeInt32, enc_int32, is_VInt),
        Cond ''flags'' 14 (''linked_chat_id'', readInt64, writeInt64, enc_int64, is_VLong),
        Cond ''flags'' 15 (''location'', readTLChannelLocation, writeTLChannelLocation,
         enc_fobject TL_ChannelLocation_table, ok_fobject TL_ChannelLocation_table),
        Cond ''flags'' 17 (''slowmode_seconds'', readInt32, writeInt32, enc_int32, is_VInt),
        Cond ''flags'' 18 (''slowmode_next_send_date'', readInt32, writeInt32, enc_int32, is_VInt),
        Cond ''flags'' 12 (''stats_dc'', readInt32, writeInt32, enc_int32, is_VInt),
        Plain (''pts'', readInt32, writeInt32, enc_int32, is_VInt),
        Cond ''flags'' 21 (''call'', readTLInputGroupCall, writeTLInputGroupCall,
         enc_fobject TL_InputGroupCall_table, ok_fobject TL_InputGroupCall_table),
        Cond ''flags'' 24 (''ttl_period'', readInt32, writeInt32, enc_int32, is_VInt),
        Cond ''flags'' 25 (''pending_suggestions'', readVector (Some readString),
         writeVector (Some writeString), enc_vector enc_string, ok_vector is_short_text),
        Cond ''flags'' 26 (''groupcall_default_join_as'', readTLPeer, writeTLPeer,
         enc_fobject TL_Peer_table, ok_fobject TL_Peer_table),
        Cond ''flags'' 27 (''theme_emoticon'', readString, writeString, enc_string, is_short_text),
        Cond ''flags'' 28 (''requests_pending'', readInt32, writeInt32, enc_int32, is_VInt),
        Cond ''flags'' 28 (''recent_requesters'', readVector (Some readInt64),
         writeVector (Some writeInt64), enc_vector enc_int64, ok_vector is_VLong),
        Cond ''flags'' 29 (''default_send_as'', readTLPeer, writeTLPeer, enc_fobject TL_Peer_table,
         ok_fobject TL_Peer_table),
        Cond ''flags'' 30 (''available_reactions'', readTLChatReactions, writeTLChatReactions,
         enc_fobject TL_ChatReactions_table, ok_fobject TL_ChatReactions_table),
        Cond ''flags2'' 13 (''reactions_limit'', readInt32, writeInt32, enc_int32, is_VInt),
        Cond ''flags2'' 4 (''stories'', readTLPeerStories, writeTLPeerStories,
         enc_fobject TL_PeerStories_table, ok_fobject TL_PeerStories_table),
        Cond ''flags2'' 7 (''wallpaper'', readTLWallPaper, writeTLWallPaper,
         enc_fobject TL_WallPaper_table, ok_fobject TL_WallPaper_table),
        Cond ''flags2'' 8 (''boosts_applied'', readInt32, writeInt32, enc_int32, is_VInt),
        Cond ''flags2'' 9 (''boosts_unrestrict'', readInt32, writeInt32, enc_int32, is_VInt),
        Cond ''flags2'' 10 (''emojiset'', readTLStickerSet, writeTLStickerSet,
         enc_fobject TL_StickerSet_table, ok_fobject TL_StickerSet_table),
        Cond ''flags2'' 17 (''bot_verification'', readTLBotVerification, writeTLBotVerification,
         enc_fobject TL_BotVerification_table, ok_fobject TL_BotVerification_table),
        Cond ''flags2'' 18 (''stargifts_count'', readInt32, writeInt32, enc_int32, is_VInt),
        Cond ''flags2'' 21 (''send_paid_messages_stars'', readInt64, writeInt64, enc_int64,
         is_VLong),
        Cond ''flags2'' 22 (''main_tab'', readTLProfileTab, writeTLProfileTab,
         enc_fobject TL_ProfileTab_table, ok_fobject TL_ProfileTab_table),
        Cond ''flags2'' 23 (''guard_bot_id'', readInt64, writeInt64, enc_int64, is_VLong)]),
      (- 877157113, [Flags ''flags'' [(''admins_count'', 1), (''kicked_count'', 2),
         (''peer_link_requests_pending'', 0)],
        Plain (''id'', readInt64, writeInt64, enc_int64, is_VLong),
        Plain (''about'', readString, writeString, enc_string, is_short_text),
        Plain (''chat_photo'', readTLPhoto, writeTLPhoto, enc_fobject TL_Photo_table,
         ok_fobject TL_Photo_table),
        Plain (''linked_peers'', readVector (Some readTLCommunityPeer),
         writeVector (Some writeTLCommunityPeer), enc_vector (enc_fobject TL_CommunityPeer_table),
         ok_vector (ok_fobject TL_CommunityPeer_table)),
        Cond ''flags'' 1 (''admins_count'', readInt32, writeInt32, enc_int32, is_VInt),
        Cond ''flags'' 2 (''kicked_count'', readInt32, writeInt32, enc_int32, is_VInt),
        Cond ''flags'' 0 (''peer_link_requests_pending'', readInt32, writeInt32, enc_int32,
         is_VInt)])]"

interpretation tl_ChatFull: tl_codec readTLChatFull writeTLChatFull "enc_fobject TL_ChatFull_table" "ok_fobject TL_ChatFull_table"
  by (rule flag_schema_codec, unfold TL_ChatFull_table_def, intro flag_tableI)
    (simp_all add: readTLChatFull_def writeTLChatFull_def flag_schema_simps tl_ChatParticipants.tl_codec_axioms tl_Photo.tl_codec_axioms tl_PeerNotifySettings.tl_codec_axioms
      tl_ExportedChatInvite.tl_codec_axioms tl_BotInfo.tl_codec_axioms tl_InputGroupCall.tl_codec_axioms
      tl_Peer.tl_codec_axioms tl_ChatReactions.tl_codec_axioms tl_StickerSet.tl_codec_axioms
      tl_ChannelLocation.tl_codec_axioms tl_PeerStories.tl_codec_axioms tl_WallPaper.tl_codec_axioms
      tl_BotVerification.tl_codec_axioms tl_ProfileTab.tl_codec_axioms tl_CommunityPeer.tl_codec_axioms
      tl_BotInfo.vector_codec tl_CommunityPeer.vector_codec)

definition readTLChatTheme :: tl_reader where
  "readTLChatTheme = read_object
     [(- 1008731132, [rd ''emoticon'' readString]),
      (878246344, [rd ''gift'' readTLStarGift,
         rd ''theme_settings'' (readVector (Some readTLThemeSettings))])]"

definition writeTLChatTheme :: tl_writer where
  "writeTLChatTheme = write_fobject
     [(- 1008731132, [wf ''_'' writeInt32, wf ''emoticon'' writeString]),
      (878246344, [wf ''_'' writeInt32, wf ''gift'' writeTLStarGift,
         wf ''theme_settings'' (writeVector (Some writeTLThemeSettings))])]"

definition TL_ChatTheme_table :: flag_table where
  "TL_ChatTheme_table =
     [(- 1008731132, [Plain (''emoticon'', readString, writeString, enc_string, is_short_text)]),
      (878246344, [Plain (''gift'', readTLStarGift, writeTLStarGift, enc_fobject TL_StarGift_table,
         ok_fobject TL_StarGift_table),
        Plain (''theme_settings'', readVector (Some readTLThemeSettings),
         writeVector (Some writeTLThemeSettings), enc_vector (enc_fobject TL_ThemeSettings_table),
         ok_vector (ok_fobject TL_ThemeSettings_table))])]"

interpretation tl_ChatTheme: tl_codec readTLChatTheme writeTLChatTheme "enc_fobject TL_ChatTheme_table" "ok_fobject TL_ChatTheme_table"
  by (rule flag_schema_codec, unfold TL_ChatTheme_table_def, intro flag_tableI)
    (simp_all add: readTLChatTheme_def writeTLChatTheme_def flag_schema_simps tl_StarGift.tl_codec_axioms tl_ThemeSettings.tl_codec_axioms tl_ThemeSettings.vector_codec)

definition readTLBotApp :: tl_reader where
  "readTLBotApp = read_object
     [(1571189943, []),
      (- 1778593322, [rd ''flags'' readUInt32, rd ''id'' readInt64, rd ''access_hash'' readInt64,
         rd ''short_name'' readString, rd ''title'' readString, rd ''description'' readString,
         rd ''photo'' readTLPhoto, rd_if ''flags'' 0 ''document'' readTLDocument,
         rd ''hash'' readInt64])]"

definition writeTLBotApp :: tl_writer where
  "writeTLBotApp = write_fobject
     [(1571189943, [wf ''_'' writeInt32]),
      (- 1778593322, [wf ''_'' writeInt32, wf_flags ''flags'' [(''document'', 0)],
         wf ''id'' writeInt64, wf ''access_hash'' writeInt64, wf ''short_name'' writeString,
         wf ''title'' writeString, wf ''description'' writeString, wf ''photo'' writeTLPhoto,
         wf_if ''flags'' 0 ''document'' writeTLDocument, wf ''hash'' writeInt64])]"

definition TL_BotApp_table :: flag_table where
  "TL_BotApp_table =
     [(1571189943, []),
      (- 1778593322, [Flags ''flags'' [(''document'', 0)],
        Plain (''id'', readInt64, writeInt64, enc_int64, is_VLong),
        Plain (''access_hash'', readInt64, writeInt64, enc_int64, is_VLong),
        Plain (''short_name'', readString, writeString, enc_string, is_short_text),
        Plain (''title'', readString, writeString, enc_string, is_short_text),
        Plain (''description'', readString, writeString, enc_string, is_short_text),
        Plain (''photo'', readTLPhoto, writeTLPhoto, enc_fobject TL_Photo_table,
         ok_fobject TL_Photo_table),
        Cond ''flags'' 0 (''document'', readTLDocument, writeTLDocument,
         enc_fobject TL_Document_table, ok_fobject TL_Document_table),
        Plain (''hash'', readInt64, writeInt64, enc_int64, is_VLong)])]"

interpretation tl_BotApp: tl_codec readTLBotApp writeTLBotApp "enc_fobject TL_BotApp_table" "ok_fobject TL_BotApp_table"
  by (rule flag_schema_codec, unfold TL_BotApp_table_def, intro flag_tableI)
    (simp_all add: readTLBotApp_def writeTLBotApp_def flag_schema_simps tl_Photo.tl_codec_axioms tl_Document.tl_codec_axioms)

definition readTLRequestedPeer :: tl_reader where
  "readTLRequestedPeer = read_object
     [(- 701500310, [rd ''flags'' readUInt32, rd ''user_id'' readInt64,
         rd_if ''flags'' 0 ''first_name'' readString, rd_if ''flags'' 0 ''last_name'' readString,
         rd_if ''flags'' 1 ''username'' readString, rd_if ''flags'' 2 ''photo'' readTLPhoto]),
      (1929860175, [rd ''flags'' readUInt32, rd ''chat_id'' readInt64,
         rd_if ''flags'' 0 ''title'' readString, rd_if ''flags'' 2 ''photo'' readTLPhoto]),
      (- 1952185372, [rd ''flags'' readUInt32, rd ''channel_id'' readInt64,
         rd_if ''flags'' 0 ''title'' readString, rd_if ''flags'' 1 ''username'' readString,
         rd_if ''flags'' 2 ''photo'' readTLPhoto])]"

definition writeTLRequestedPeer :: tl_writer where
  "writeTLRequestedPeer = write_fobject
     [(- 701500310, [wf ''_'' writeInt32, wf_flags ''flags'' [(''first_name'', 0), (''last_name'',
         0), (''username'', 1), (''photo'', 2)], wf ''user_id'' writeInt64,
         wf_if ''flags'' 0 ''first_name'' writeString, wf_if ''flags'' 0 ''last_name'' writeString,
         wf_if ''flags'' 1 ''username'' writeString, wf_if ''flags'' 2 ''photo'' writeTLPhoto]),
      (1929860175, [wf ''_'' writeInt32, wf_flags ''flags'' [(''title'', 0), (''photo'', 2)],
         wf ''chat_id'' writeInt64, wf_if ''flags'' 0 ''title'' writeString,
         wf_if ''flags'' 2 ''photo'' writeTLPhoto]),
      (- 1952185372, [wf ''_'' writeInt32, wf_flags ''flags'' [(''title'', 0), (''username'', 1),
         (''photo'', 2)], wf ''channel_id'' writeInt64, wf_if ''flags'' 0 ''title'' writeString,
         wf_if ''flags'' 1 ''username'' writeString, wf_if ''flags'' 2 ''photo'' writeTLPhoto])]"

definition TL_RequestedPeer_table :: flag_table where
  "TL_RequestedPeer_table =
     [(- 701500310, [Flags ''flags'' [(''first_name'', 0), (''last_name'', 0), (''username'', 1),
         (''photo'', 2)],
        Plain (''user_id'', readInt64, writeInt64, enc_int64, is_VLong),
        Cond ''flags'' 0 (''first_name'', readString, writeString, enc_string, is_short_text),
        Cond ''flags'' 0 (''last_name'', readString, writeString, enc_string, is_short_text),
        Cond ''flags'' 1 (''username'', readString, writeString, enc_string, is_short_text),
        Cond ''flags'' 2 (''photo'', readTLPhoto, writeTLPhoto, enc_fobject TL_Photo_table,
         ok_fobject TL_Photo_table)]),
      (1929860175, [Flags ''flags'' [(''title'', 0), (''photo'', 2)],
        Plain (''chat_id'', readInt64, writeInt64, enc_int64, is_VLong),
        Cond ''flags'' 0 (''title'', readString, writeString, enc_string, is_short_text),
        Cond ''flags'' 2 (''photo'', readTLPhoto, writeTLPhoto, enc_fobject TL_Photo_table,
         ok_fobject TL_Photo_table)]),
      (- 1952185372, [Flags ''flags'' [(''title'', 0), (''username'', 1), (''photo'', 2)],
        Plain (''channel_id'', readInt64, writeInt64, enc_int64, is_VLong),
        Cond ''flags'' 0 (''title'', readString, writeString, enc_string, is_short_text),
        Cond ''flags'' 1 (''username'', readString, writeString, enc_string, is_short_text),
        Cond ''flags'' 2 (''photo'', readTLPhoto, writeTLPhoto, enc_fobject TL_Photo_table,
         ok_fobject TL_Photo_table)])]"

interpretation tl_RequestedPeer: tl_codec readTLRequestedPeer writeTLRequestedPeer "enc_fobject TL_RequestedPeer_table" "ok_fobject TL_RequestedPeer_table"
  by (rule flag_schema_codec, unfold TL_RequestedPeer_table_def, intro flag_tableI)
    (simp_all add: readTLRequestedPeer_def writeTLRequestedPeer_def flag_schema_simps tl_Photo.tl_codec_axioms)

definition readTLMessageAction :: tl_reader where
  "readTLMessageAction = read_object
     [(- 1230047312, []),
      (- 1119368275, [rd ''title'' readString, rd ''users'' (readVector (Some readInt64))]),
      (- 1247687078, [rd ''title'' readString]),
      (2144015272, [rd ''photo'' readTLPhoto]),
      (- 1780220945, []),
      (365886720, [rd ''users'' (readVector (Some readInt64))]),
      (- 1539362612, [rd ''user_id'' readInt64]),
      (51520707, [rd ''inviter_id'' readInt64]),
      (- 1781355374, [rd ''title'' readString]),
      (- 519864430, [rd ''channel_id'' readInt64]),
      (- 365344535, [rd ''title'' readString, rd ''chat_id'' readInt64]),
      (- 1799538451, []),
      (- 1615153660, []),
      (- 1834538890, [rd ''game_id'' readInt64, rd ''score'' readInt32]),
      (- 6288180, [rd ''flags'' readUInt32, set_if ''flags'' 2 ''recurring_init'',
         set_if ''flags'' 3 ''recurring_used'', rd ''currency'' readString,
         rd ''total_amount'' readInt64, rd ''payload'' readByteArray,
         rd_if ''flags'' 0 ''info'' readTLPaymentRequestedInfo,
         rd_if ''flags'' 1 ''shipping_option_id'' readString, rd ''charge'' readTLPaymentCharge,
         rd_if ''flags'' 4 ''subscription_until_date'' readInt32]),
      (- 970673810, [rd ''flags'' readUInt32, set_if ''flags'' 2 ''recurring_init'',
         set_if ''flags'' 3 ''recurring_used'', rd ''currency'' readString,
         rd ''total_amount'' readInt64, rd_if ''flags'' 0 ''invoice_slug'' readString,
         rd_if ''flags'' 4 ''subscription_until_date'' readInt32]),
      (- 2132731265, [rd ''flags'' readUInt32, set_if ''flags'' 2 ''video'',
         rd ''call_id'' readInt64, rd_if ''flags'' 0 ''reason'' readTLPhoneCallDiscardReason,
         rd_if ''flags'' 1 ''duration'' readInt32]),
      (1200788123, []),
      (- 85549226, [rd ''message'' readString]),
      (- 988359047, [rd ''flags'' readUInt32, set_if ''flags'' 1 ''attach_menu'',
         set_if ''flags'' 3 ''from_request'', rd_if ''flags'' 0 ''domain'' readString,
         rd_if ''flags'' 2 ''app'' readTLBotApp]),
      (455635795, [rd ''values'' (readVector (Some readTLSecureValue)),
         rd ''credentials'' readTLSecureCredentialsEncrypted]),
      (- 648257196, [rd ''types'' (readVector (Some readTLSecureValueType))]),
      (- 202219658, []),
      (- 1730095465, [rd ''from_id'' readTLPeer, rd ''to_id'' readTLPeer,
         rd ''distance'' readInt32]),
      (2047704898, [rd ''flags'' readUInt32, rd ''call'' readTLInputGroupCall,
         rd_if ''flags'' 0 ''duration'' readInt32]),
      (1345295095, [rd ''call'' readTLInputGroupCall, rd ''users'' (readVector (Some readInt64))]),
      (1007897979, [rd ''flags'' readUInt32, rd ''period'' readInt32,
         rd_if ''flags'' 0 ''auto_setting_from'' readInt64]),
      (- 1281329567, [rd ''call'' readTLInputGroupCall, rd ''schedule_date'' readInt32]),
      (- 1189364422, [rd ''theme'' readTLChatTheme]),
      (- 339958837, []),
      (1205698681, [rd ''text'' readString, rd ''data'' readString]),
      (- 1262252875, [rd ''text'' readString]),
      (1223234306, [rd ''flags'' readUInt32, rd ''currency'' readString, rd ''amount'' readInt64,
         rd ''days'' readInt32, rd_if ''flags'' 0 ''crypto_currency'' readString,
         rd_if ''flags'' 0 ''crypto_amount'' readInt64,
         rd_if ''flags'' 1 ''message'' readTLTextWithEntities]),
      (228168278, [rd ''flags'' readUInt32, set_if ''flags'' 1 ''title_missing'',
         rd ''title'' readString, rd ''icon_color'' readInt32,
         rd_if ''flags'' 0 ''icon_emoji_id'' readInt64]),
      (- 1064024032, [rd ''flags'' readUInt32, rd_if ''flags'' 0 ''title'' readString,
         rd_if ''flags'' 1 ''icon_emoji_id'' readInt64, rd_if ''flags'' 2 ''closed'' readBool,
         rd_if ''flags'' 3 ''hidden'' readBool]),
      (1474192222, [rd ''photo'' readTLPhoto]),
      (827428507, [rd ''button_id'' readInt32, rd ''peers'' (readVector (Some readTLPeer))]),
      (1348510708, [rd ''flags'' readUInt32, set_if ''flags'' 0 ''same'',
         set_if ''flags'' 1 ''for_both'', rd ''wallpaper'' readTLWallPaper]),
      (834962247, [rd ''flags'' readUInt32, set_if ''flags'' 0 ''via_giveaway'',
         set_if ''flags'' 5 ''unclaimed'', rd_if ''flags'' 1 ''boost_peer'' readTLPeer,
         rd ''days'' readInt32, rd ''slug'' readString, rd_if ''flags'' 2 ''currency'' readString,
         rd_if ''flags'' 2 ''amount'' readInt64, rd_if ''flags'' 3 ''crypto_currency'' readString,
         rd_if ''flags'' 3 ''crypto_amount'' readInt64,
         rd_if ''flags'' 4 ''message'' readTLTextWithEntities]),
      (- 1475391004, [rd ''flags'' readUInt32, rd_if ''flags'' 0 ''stars'' readInt64]),
      (- 2015170219, [rd ''flags'' readUInt32, set_if ''flags'' 0 ''stars'',
         rd ''winners_count'' readInt32, rd ''unclaimed_count'' readInt32]),
      (- 872240531, [rd ''boosts'' readInt32]),
      (- 1816979384, [rd ''button_id'' readInt32,
         rd ''peers'' (readVector (Some readTLRequestedPeer))]),
      (1102307842, [rd ''flags'' readUInt32, rd ''peer'' readTLPeer, rd ''currency'' readString,
         rd ''total_amount'' readInt64, rd_if ''flags'' 0 ''payload'' readByteArray,
         rd ''charge'' readTLPaymentCharge]),
      (1171632161, [rd ''flags'' readUInt32, rd ''currency'' readString, rd ''amount'' readInt64,
         rd ''stars'' readInt64, rd_if ''flags'' 0 ''crypto_currency'' readString,
         rd_if ''flags'' 0 ''crypto_amount'' readInt64,
         rd_if ''flags'' 1 ''transaction_id'' readString]),
      (- 1341372510, [rd ''flags'' readUInt32, set_if ''flags'' 0 ''unclaimed'',
         rd ''stars'' readInt64, rd ''transaction_id'' readString, rd ''boost_peer'' readTLPeer,
         rd ''giveaway_msg_id'' readInt32]),
      (- 366202413, [rd ''flags'' readUInt32, set_if ''flags'' 0 ''name_hidden'',
         set_if ''flags'' 2 ''saved'', set_if ''flags'' 3 ''converted'',
         set_if ''flags'' 5 ''upgraded'', set_if ''flags'' 9 ''refunded'',
         set_if ''flags'' 10 ''can_upgrade'', set_if ''flags'' 13 ''prepaid_upgrade'',
         set_if ''flags'' 16 ''upgrade_separate'', set_if ''flags'' 17 ''auction_acquired'',
         rd ''gift'' readTLStarGift, rd_if ''flags'' 1 ''message'' readTLTextWithEntities,
         rd_if ''flags'' 4 ''convert_stars'' readInt64,
         rd_if ''flags'' 5 ''upgrade_msg_id'' readInt32,
         rd_if ''flags'' 8 ''upgrade_stars'' readInt64, rd_if ''flags'' 11 ''from_id'' readTLPeer,
         rd_if ''flags'' 12 ''peer'' readTLPeer, rd_if ''flags'' 12 ''saved_id'' readInt64,
         rd_if ''flags'' 14 ''prepaid_upgrade_hash'' readString,
         rd_if ''flags'' 15 ''gift_msg_id'' readInt32, rd_if ''flags'' 18 ''to_id'' readTLPeer,
         rd_if ''flags'' 19 ''gift_num'' readInt32]),
      (2115768711, [rd ''flags'' readUInt32, set_if ''flags'' 0 ''upgrade'',
         set_if ''flags'' 1 ''transferred'', set_if ''flags'' 2 ''saved'',
         set_if ''flags'' 5 ''refunded'', set_if ''flags'' 11 ''prepaid_upgrade'',
         set_if ''flags'' 13 ''assigned'', set_if ''flags'' 14 ''from_offer'',
         set_if ''flags'' 16 ''craft'', set_if ''flags'' 17 ''name_hidden'',
         rd ''gift'' readTLStarGift, rd_if ''flags'' 3 ''can_export_at'' readInt32,
         rd_if ''flags'' 4 ''transfer_stars'' readInt64, rd_if ''flags'' 6 ''from_id'' readTLPeer,
         rd_if ''flags'' 7 ''peer'' readTLPeer, rd_if ''flags'' 7 ''saved_id'' readInt64,
         rd_if ''flags'' 8 ''resale_amount'' readTLStarsAmount,
         rd_if ''flags'' 9 ''can_transfer_at'' readInt32,
         rd_if ''flags'' 10 ''can_resell_at'' readInt32,
         rd_if ''flags'' 12 ''drop_original_details_stars'' readInt64,
         rd_if ''flags'' 15 ''can_craft_at'' readInt32,
         rd_if ''flags'' 18 ''message'' readTLTextWithEntities]),
      (- 1407246387, [rd ''count'' readInt32, rd ''stars'' readInt64]),
      (- 2068281992, [rd ''flags'' readUInt32, set_if ''flags'' 0 ''broadcast_messages_allowed'',
         rd ''stars'' readInt64]),
      (805187450, [rd ''flags'' readUInt32, set_if ''flags'' 0 ''missed'',
         set_if ''flags'' 1 ''active'', set_if ''flags'' 4 ''video'', rd ''call_id'' readInt64,
         rd_if ''flags'' 2 ''duration'' readInt32,
         rd_if ''flags'' 3 ''other_participants'' (readVector (Some readTLPeer))]),
      (- 864265079, [rd ''completed'' (readVector (Some readInt32)),
         rd ''incompleted'' (readVector (Some readInt32))]),
      (- 940721021, [rd ''list'' (readVector (Some readTLTodoItem))]),
      (- 293988970, [rd ''flags'' readUInt32, set_if ''flags'' 0 ''rejected'',
         set_if ''flags'' 1 ''balance_too_low'', rd_if ''flags'' 2 ''reject_comment'' readString,
         rd_if ''flags'' 3 ''schedule_date'' readInt32,
         rd_if ''flags'' 4 ''price'' readTLStarsAmount]),
      (- 1780625559, [rd ''price'' readTLStarsAmount]),
      (1777932024, [rd ''flags'' readUInt32, set_if ''flags'' 0 ''payer_initiated'']),
      (- 1465661799, [rd ''flags'' readUInt32, rd ''currency'' readString, rd ''amount'' readInt64,
         rd ''crypto_currency'' readString, rd ''crypto_amount'' readInt64,
         rd_if ''flags'' 0 ''transaction_id'' readString]),
      (747579941, [rd ''birthday'' readTLBirthday]),
      (2000845012, [rd ''flags'' readUInt32, set_if ''flags'' 0 ''accepted'',
         set_if ''flags'' 1 ''declined'', rd ''gift'' readTLStarGift,
         rd ''price'' readTLStarsAmount, rd ''expires_at'' readInt32]),
      (1940760427, [rd ''flags'' readUInt32, set_if ''flags'' 0 ''expired'',
         rd ''gift'' readTLStarGift, rd ''price'' readTLStarsAmount]),
      (- 1333866363, [rd ''new_creator_id'' readInt64]),
      (- 511160261, [rd ''new_creator_id'' readInt64]),
      (- 1082301070, [rd ''prev_value'' readBool, rd ''new_value'' readBool]),
      (1042781114, [rd ''flags'' readUInt32, set_if ''flags'' 0 ''expired'',
         rd ''prev_value'' readBool, rd ''new_value'' readBool]),
      (- 1650340500, [rd ''answer'' readTLPollAnswer]),
      (966161628, [rd ''answer'' readTLPollAnswer]),
      (375414334, [rd ''bot_id'' readInt64]),
      (1562426088, [rd ''flags'' readUInt32, rd_if ''flags'' 0 ''community_id'' readInt64]),
      (1250688640, [rd ''community_id'' readInt64])]"

definition writeTLMessageAction :: tl_writer where
  "writeTLMessageAction = write_fobject
     [(- 1230047312, [wf ''_'' writeInt32]),
      (- 1119368275, [wf ''_'' writeInt32, wf ''title'' writeString,
         wf ''users'' (writeVector (Some writeInt64))]),
      (- 1247687078, [wf ''_'' writeInt32, wf ''title'' writeString]),
      (2144015272, [wf ''_'' writeInt32, wf ''photo'' writeTLPhoto]),
      (- 1780220945, [wf ''_'' writeInt32]),
      (365886720, [wf ''_'' writeInt32, wf ''users'' (writeVector (Some writeInt64))]),
      (- 1539362612, [wf ''_'' writeInt32, wf ''user_id'' writeInt64]),
      (51520707, [wf ''_'' writeInt32, wf ''inviter_id'' writeInt64]),
      (- 1781355374, [wf ''_'' writeInt32, wf ''title'' writeString]),
      (- 519864430, [wf ''_'' writeInt32, wf ''channel_id'' writeInt64]),
      (- 365344535, [wf ''_'' writeInt32, wf ''title'' writeString, wf ''chat_id'' writeInt64]),
      (- 1799538451, [wf ''_'' writeInt32]),
      (- 1615153660, [wf ''_'' writeInt32]),
      (- 1834538890, [wf ''_'' writeInt32, wf ''game_id'' writeInt64, wf ''score'' writeInt32]),
      (- 6288180, [wf ''_'' writeInt32, wf_flags ''flags'' [(''recurring_init'', 2),
         (''recurring_used'', 3), (''info'', 0), (''shipping_option_id'', 1),
         (''subscription_until_date'', 4)], wf ''currency'' writeString,
         wf ''total_amount'' writeInt64, wf ''payload'' writeByteArray,
         wf_if ''flags'' 0 ''info'' writeTLPaymentRequestedInfo,
         wf_if ''flags'' 1 ''shipping_option_id'' writeString, wf ''charge'' writeTLPaymentCharge,
         wf_if ''flags'' 4 ''subscription_until_date'' writeInt32]),
      (- 970673810, [wf ''_'' writeInt32, wf_flags ''flags'' [(''recurring_init'', 2),
         (''recurring_used'', 3), (''invoice_slug'', 0), (''subscription_until_date'', 4)],
         wf ''currency'' writeString, wf ''total_amount'' writeInt64,
         wf_if ''flags'' 0 ''invoice_slug'' writeString,
         wf_if ''flags'' 4 ''subscription_until_date'' writeInt32]),
      (- 2132731265, [wf ''_'' writeInt32, wf_flags ''flags'' [(''video'', 2), (''reason'', 0),
         (''duration'', 1)], wf ''call_id'' writeInt64,
         wf_if ''flags'' 0 ''reason'' writeTLPhoneCallDiscardReason,
         wf_if ''flags'' 1 ''duration'' writeInt32]),
      (1200788123, [wf ''_'' writeInt32]),
      (- 85549226, [wf ''_'' writeInt32, wf ''message'' writeString]),
      (- 988359047, [wf ''_'' writeInt32, wf_flags ''flags'' [(''attach_menu'', 1),
         (''from_request'', 3), (''domain'', 0), (''app'', 2)],
         wf_if ''flags'' 0 ''domain'' writeString, wf_if ''flags'' 2 ''app'' writeTLBotApp]),
      (455635795, [wf ''_'' writeInt32, wf ''values'' (writeVector (Some writeTLSecureValue)),
         wf ''credentials'' writeTLSecureCredentialsEncrypted]),
      (- 648257196, [wf ''_'' writeInt32,
         wf ''types'' (writeVector (Some writeTLSecureValueType))]),
      (- 202219658, [wf ''_'' writeInt32]),
      (- 1730095465, [wf ''_'' writeInt32, wf ''from_id'' writeTLPeer, wf ''to_id'' writeTLPeer,
         wf ''distance'' writeInt32]),
      (2047704898, [wf ''_'' writeInt32, wf_flags ''flags'' [(''duration'', 0)],
         wf ''call'' writeTLInputGroupCall, wf_if ''flags'' 0 ''duration'' writeInt32]),
      (1345295095, [wf ''_'' writeInt32, wf ''call'' writeTLInputGroupCall,
         wf ''users'' (writeVector (Some writeInt64))]),
      (1007897979, [wf ''_'' writeInt32, wf_flags ''flags'' [(''auto_setting_from'', 0)],
         wf ''period'' writeInt32, wf_if ''flags'' 0 ''auto_setting_from'' writeInt64]),
      (- 1281329567, [wf ''_'' writeInt32, wf ''call'' writeTLInputGroupCall,
         wf ''schedule_date'' writeInt32]),
      (- 1189364422, [wf ''_'' writeInt32, wf ''theme'' writeTLChatTheme]),
      (- 339958837, [wf ''_'' writeInt32]),
      (1205698681, [wf ''_'' writeInt32, wf ''text'' writeString, wf ''data'' writeString]),
      (- 1262252875, [wf ''_'' writeInt32, wf ''text'' writeString]),
      (1223234306, [wf ''_'' writeInt32, wf_flags ''flags'' [(''crypto_currency'', 0),
         (''crypto_amount'', 0), (''message'', 1)], wf ''currency'' writeString,
         wf ''amount'' writeInt64, wf ''days'' writeInt32,
         wf_if ''flags'' 0 ''crypto_currency'' writeString,
         wf_if ''flags'' 0 ''crypto_amount'' writeInt64,
         wf_if ''flags'' 1 ''message'' writeTLTextWithEntities]),
      (228168278, [wf ''_'' writeInt32, wf_flags ''flags'' [(''title_missing'', 1),
         (''icon_emoji_id'', 0)], wf ''title'' writeString, wf ''icon_color'' writeInt32,
         wf_if ''flags'' 0 ''icon_emoji_id'' writeInt64]),
      (- 1064024032, [wf ''_'' writeInt32, wf_flags ''flags'' [(''title'', 0), (''icon_emoji_id'',
         1), (''closed'', 2), (''hidden'', 3)], wf_if ''flags'' 0 ''title'' writeString,
         wf_if ''flags'' 1 ''icon_emoji_id'' writeInt64, wf_if ''flags'' 2 ''closed'' writeBool,
         wf_if ''flags'' 3 ''hidden'' writeBool]),
      (1474192222, [wf ''_'' writeInt32, wf ''photo'' writeTLPhoto]),
      (827428507, [wf ''_'' writeInt32, wf ''button_id'' writeInt32,
         wf ''peers'' (writeVector (Some writeTLPeer))]),
      (1348510708, [wf ''_'' writeInt32, wf_flags ''flags'' [(''same'', 0), (''for_both'', 1)],
         wf ''wallpaper'' writeTLWallPaper]),
      (834962247, [wf ''_'' writeInt32, wf_flags ''flags'' [(''via_giveaway'', 0), (''unclaimed'',
         5), (''boost_peer'', 1), (''currency'', 2), (''amount'', 2), (''crypto_currency'', 3),
         (''crypto_amount'', 3), (''message'', 4)], wf_if ''flags'' 1 ''boost_peer'' writeTLPeer,
         wf ''days'' writeInt32, wf ''slug'' writeString,
         wf_if ''flags'' 2 ''currency'' writeString, wf_if ''flags'' 2 ''amount'' writeInt64,
         wf_if ''flags'' 3 ''crypto_currency'' writeString,
         wf_if ''flags'' 3 ''crypto_amount'' writeInt64,
         wf_if ''flags'' 4 ''message'' writeTLTextWithEntities]),
      (- 1475391004, [wf ''_'' writeInt32, wf_flags ''flags'' [(''stars'', 0)],
         wf_if ''flags'' 0 ''stars'' writeInt64]),
      (- 2015170219, [wf ''_'' writeInt32, wf_flags ''flags'' [(''stars'', 0)],
         wf ''winners_count'' writeInt32, wf ''unclaimed_count'' writeInt32]),
      (- 872240531, [wf ''_'' writeInt32, wf ''boosts'' writeInt32]),
      (- 1816979384, [wf ''_'' writeInt32, wf ''button_id'' writeInt32,
         wf ''peers'' (writeVector (Some writeTLRequestedPeer))]),
      (1102307842, [wf ''_'' writeInt32, wf_flags ''flags'' [(''payload'', 0)],
         wf ''peer'' writeTLPeer, wf ''currency'' writeString, wf ''total_amount'' writeInt64,
         wf_if ''flags'' 0 ''payload'' writeByteArray, wf ''charge'' writeTLPaymentCharge]),
      (1171632161, [wf ''_'' writeInt32, wf_flags ''flags'' [(''crypto_currency'', 0),
         (''crypto_amount'', 0), (''transaction_id'', 1)], wf ''currency'' writeString,
         wf ''amount'' writeInt64, wf ''stars'' writeInt64,
         wf_if ''flags'' 0 ''crypto_currency'' writeString,
         wf_if ''flags'' 0 ''crypto_amount'' writeInt64,
         wf_if ''flags'' 1 ''transaction_id'' writeString]),
      (- 1341372510, [wf ''_'' writeInt32, wf_flags ''flags'' [(''unclaimed'', 0)],
         wf ''stars'' writeInt64, wf ''transaction_id'' writeString, wf ''boost_peer'' writeTLPeer,
         wf ''giveaway_msg_id'' writeInt32]),
      (- 366202413, [wf ''_'' writeInt32, wf_flags ''flags'' [(''name_hidden'', 0), (''saved'', 2),
         (''converted'', 3), (''upgraded'', 5), (''refunded'', 9), (''can_upgrade'', 10),
         (''prepaid_upgrade'', 13), (''upgrade_separate'', 16), (''auction_acquired'', 17),
         (''message'', 1), (''convert_stars'', 4), (''upgrade_msg_id'', 5), (''upgrade_stars'', 8),
         (''from_id'', 11), (''peer'', 12), (''saved_id'', 12), (''prepaid_upgrade_hash'', 14),
         (''gift_msg_id'', 15), (''to_id'', 18), (''gift_num'', 19)], wf ''gift'' writeTLStarGift,
         wf_if ''flags'' 1 ''message'' writeTLTextWithEntities,
         wf_if ''flags'' 4 ''convert_stars'' writeInt64,
         wf_if ''flags'' 5 ''upgrade_msg_id'' writeInt32,
         wf_if ''flags'' 8 ''upgrade_stars'' writeInt64,
         wf_if ''flags'' 11 ''from_id'' writeTLPeer, wf_if ''flags'' 12 ''peer'' writeTLPeer,
         wf_if ''flags'' 12 ''saved_id'' writeInt64,
         wf_if ''flags'' 14 ''prepaid_upgrade_hash'' writeString,
         wf_if ''flags'' 15 ''gift_msg_id'' writeInt32, wf_if ''flags'' 18 ''to_id'' writeTLPeer,
         wf_if ''flags'' 19 ''gift_num'' writeInt32]),
      (2115768711, [wf ''_'' writeInt32, wf_flags ''flags'' [(''upgrade'', 0), (''transferred'',
         1), (''saved'', 2), (''refunded'', 5), (''prepaid_upgrade'', 11), (''assigned'', 13),
         (''from_offer'', 14), (''craft'', 16), (''name_hidden'', 17), (''can_export_at'', 3),
         (''transfer_stars'', 4), (''from_id'', 6), (''peer'', 7), (''saved_id'', 7),
         (''resale_amount'', 8), (''can_transfer_at'', 9), (''can_resell_at'', 10),
         (''drop_original_details_stars'', 12), (''can_craft_at'', 15), (''message'', 18)],
         wf ''gift'' writeTLStarGift, wf_if ''flags'' 3 ''can_export_at'' writeInt32,
         wf_if ''flags'' 4 ''transfer_stars'' writeInt64,
         wf_if ''flags'' 6 ''from_id'' writeTLPeer, wf_if ''flags'' 7 ''peer'' writeTLPeer,
         wf_if ''flags'' 7 ''saved_id'' writeInt64,
         wf_if ''flags'' 8 ''resale_amount'' writeTLStarsAmount,
         wf_if ''flags'' 9 ''can_transfer_at'' writeInt32,
         wf_if ''flags'' 10 ''can_resell_at'' writeInt32,
         wf_if ''flags'' 12 ''drop_original_details_stars'' writeInt64,
         wf_if ''flags'' 15 ''can_craft_at'' writeInt32,
         wf_if ''flags'' 18 ''message'' writeTLTextWithEntities]),
      (- 1407246387, [wf ''_'' writeInt32, wf ''count'' writeInt32, wf ''stars'' writeInt64]),
      (- 2068281992, [wf ''_'' writeInt32, wf_flags ''flags'' [(''broadcast_messages_allowed'',
         0)], wf ''stars'' writeInt64]),
      (805187450, [wf ''_'' writeInt32, wf_flags ''flags'' [(''missed'', 0), (''active'', 1),
         (''video'', 4), (''duration'', 2), (''other_participants'', 3)],
         wf ''call_id'' writeInt64, wf_if ''flags'' 2 ''duration'' writeInt32,
         wf_if ''flags'' 3 ''other_participants'' (writeVector (Some writeTLPeer))]),
      (- 864265079, [wf ''_'' writeInt32, wf ''completed'' (writeVector (Some writeInt32)),
         wf ''incompleted'' (writeVector (Some writeInt32))]),
      (- 940721021, [wf ''_'' writeInt32, wf ''list'' (writeVector (Some writeTLTodoItem))]),
      (- 293988970, [wf ''_'' writeInt32, wf_flags ''flags'' [(''rejected'', 0),
         (''balance_too_low'', 1), (''reject_comment'', 2), (''schedule_date'', 3), (''price'',
         4)], wf_if ''flags'' 2 ''reject_comment'' writeString,
         wf_if ''flags'' 3 ''schedule_date'' writeInt32,
         wf_if ''flags'' 4 ''price'' writeTLStarsAmount]),
      (- 1780625559, [wf ''_'' writeInt32, wf ''price'' writeTLStarsAmount]),
      (1777932024, [wf ''_'' writeInt32, wf_flags ''flags'' [(''payer_initiated'', 0)]]),
      (- 1465661799, [wf ''_'' writeInt32, wf_flags ''flags'' [(''transaction_id'', 0)],
         wf ''currency'' writeString, wf ''amount'' writeInt64, wf ''crypto_currency'' writeString,
         wf ''crypto_amount'' writeInt64, wf_if ''flags'' 0 ''transaction_id'' writeString]),
      (747579941, [wf ''_'' writeInt32, wf ''birthday'' writeTLBirthday]),
      (2000845012, [wf ''_'' writeInt32, wf_flags ''flags'' [(''accepted'', 0), (''declined'', 1)],
         wf ''gift'' writeTLStarGift, wf ''price'' writeTLStarsAmount,
         wf ''expires_at'' writeInt32]),
      (1940760427, [wf ''_'' writeInt32, wf_flags ''flags'' [(''expired'', 0)],
         wf ''gift'' writeTLStarGift, wf ''price'' writeTLStarsAmount]),
      (- 1333866363, [wf ''_'' writeInt32, wf ''new_creator_id'' writeInt64]),
      (- 511160261, [wf ''_'' writeInt32, wf ''new_creator_id'' writeInt64]),
      (- 1082301070, [wf ''_'' writeInt32, wf ''prev_value'' writeBool,
         wf ''new_value'' writeBool]),
      (1042781114, [wf ''_'' writeInt32, wf_flags ''flags'' [(''expired'', 0)],
         wf ''prev_value'' writeBool, wf ''new_value'' writeBool]),
      (- 1650340500, [wf ''_'' writeInt32, wf ''answer'' writeTLPollAnswer]),
      (966161628, [wf ''_'' writeInt32, wf ''answer'' writeTLPollAnswer]),
      (375414334, [wf ''_'' writeInt32, wf ''bot_id'' writeInt64]),
      (1562426088, [wf ''_'' writeInt32, wf_flags ''flags'' [(''community_id'', 0)],
         wf_if ''flags'' 0 ''community_id'' writeInt64]),
      (1250688640, [wf ''_'' writeInt32, wf ''community_id'' writeInt64])]"

definition TL_MessageAction_table :: flag_table where
  "TL_MessageAction_table =
     [(- 1230047312, []),
      (- 1119368275, [Plain (''title'', readString, writeString, enc_string, is_short_text),
        Plain (''users'', readVector (Some readInt64), writeVector (Some writeInt64),
         enc_vector enc_int64, ok_vector is_VLong)]),
      (- 1247687078, [Plain (''title'', readString, writeString, enc_string, is_short_text)]),
      (2144015272, [Plain (''photo'', readTLPhoto, writeTLPhoto, enc_fobject TL_Photo_table,
         ok_fobject TL_Photo_table)]),
      (- 1780220945, []),
      (365886720, [Plain (''users'', readVector (Some readInt64), writeVector (Some writeInt64),
         enc_vector enc_int64, ok_vector is_VLong)]),
      (- 1539362612, [Plain (''user_id'', readInt64, writeInt64, enc_int64, is_VLong)]),
      (51520707, [Plain (''inviter_id'', readInt64, writeInt64, enc_int64, is_VLong)]),
      (- 1781355374, [Plain (''title'', readString, writeString, enc_string, is_short_text)]),
      (- 519864430, [Plain (''channel_id'', readInt64, writeInt64, enc_int64, is_VLong)]),
      (- 365344535, [Plain (''title'', readString, writeString, enc_string, is_short_text),
        Plain (''chat_id'', readInt64, writeInt64, enc_int64, is_VLong)]),
      (- 1799538451, []),
      (- 1615153660, []),
      (- 1834538890, [Plain (''game_id'', readInt64, writeInt64, enc_int64, is_VLong),
        Plain (''score'', readInt32, writeInt32, enc_int32, is_VInt)]),
      (- 6288180, [Flags ''flags'' [(''recurring_init'', 2), (''recurring_used'', 3), (''info'',
         0), (''shipping_option_id'', 1), (''subscription_until_date'', 4)],
        TrueBit ''flags'' 2 ''recurring_init'',
        TrueBit ''flags'' 3 ''recurring_used'',
        Plain (''currency'', readString, writeString, enc_string, is_short_text),
        Plain (''total_amount'', readInt64, writeInt64, enc_int64, is_VLong),
        Plain (''payload'', readByteArray, writeByteArray, enc_bytes, is_short_bytes),
        Cond ''flags'' 0 (''info'', readTLPaymentRequestedInfo, writeTLPaymentRequestedInfo,
         enc_fobject TL_PaymentRequestedInfo_table, ok_fobject TL_PaymentRequestedInfo_table),
        Cond ''flags'' 1 (''shipping_option_id'', readString, writeString, enc_string,
         is_short_text),
        Plain (''charge'', readTLPaymentCharge, writeTLPaymentCharge,
         enc_fobject TL_PaymentCharge_table, ok_fobject TL_PaymentCharge_table),
        Cond ''flags'' 4 (''subscription_until_date'', readInt32, writeInt32, enc_int32, is_VInt)]),
      (- 970673810, [Flags ''flags'' [(''recurring_init'', 2), (''recurring_used'', 3),
         (''invoice_slug'', 0), (''subscription_until_date'', 4)],
        TrueBit ''flags'' 2 ''recurring_init'',
        TrueBit ''flags'' 3 ''recurring_used'',
        Plain (''currency'', readString, writeString, enc_string, is_short_text),
        Plain (''total_amount'', readInt64, writeInt64, enc_int64, is_VLong),
        Cond ''flags'' 0 (''invoice_slug'', readString, writeString, enc_string, is_short_text),
        Cond ''flags'' 4 (''subscription_until_date'', readInt32, writeInt32, enc_int32, is_VInt)]),
      (- 2132731265, [Flags ''flags'' [(''video'', 2), (''reason'', 0), (''duration'', 1)],
        TrueBit ''flags'' 2 ''video'',
        Plain (''call_id'', readInt64, writeInt64, enc_int64, is_VLong),
        Cond ''flags'' 0 (''reason'', readTLPhoneCallDiscardReason, writeTLPhoneCallDiscardReason,
         enc_fobject TL_PhoneCallDiscardReason_table, ok_fobject TL_PhoneCallDiscardReason_table),
        Cond ''flags'' 1 (''duration'', readInt32, writeInt32, enc_int32, is_VInt)]),
      (1200788123, []),
      (- 85549226, [Plain (''message'', readString, writeString, enc_string, is_short_text)]),
      (- 988359047, [Flags ''flags'' [(''attach_menu'', 1), (''from_request'', 3), (''domain'', 0),
         (''app'', 2)],
        TrueBit ''flags'' 1 ''attach_menu'',
        TrueBit ''flags'' 3 ''from_request'',
        Cond ''flags'' 0 (''domain'', readString, writeString, enc_string, is_short_text),
        Cond ''flags'' 2 (''app'', readTLBotApp, writeTLBotApp, enc_fobject TL_BotApp_table,
         ok_fobject TL_BotApp_table)]),
      (455635795, [Plain (''values'', readVector (Some readTLSecureValue),
         writeVector (Some writeTLSecureValue), enc_vector (enc_fobject TL_SecureValue_table),
         ok_vector (ok_fobject TL_SecureValue_table)),
        Plain (''credentials'', readTLSecureCredentialsEncrypted,
         writeTLSecureCredentialsEncrypted, enc_fobject TL_SecureCredentialsEncrypted_table,
         ok_fobject TL_SecureCredentialsEncrypted_table)]),
      (- 648257196, [Plain (''types'', readVector (Some readTLSecureValueType),
         writeVector (Some writeTLSecureValueType),
         enc_vector (enc_fobject TL_SecureValueType_table),
         ok_vector (ok_fobject TL_SecureValueType_table))]),
      (- 202219658, []),
      (- 1730095465, [Plain (''from_id'', readTLPeer, writeTLPeer, enc_fobject TL_Peer_table,
         ok_fobject TL_Peer_table),
        Plain (''to_id'', readTLPeer, writeTLPeer, enc_fobject TL_Peer_table,
         ok_fobject TL_Peer_table),
        Plain (''distance'', readInt32, writeInt32, enc_int32, is_VInt)]),
      (2047704898, [Flags ''flags'' [(''duration'', 0)],
        Plain (''call'', readTLInputGroupCall, writeTLInputGroupCall,
         enc_fobject TL_InputGroupCall_table, ok_fobject TL_InputGroupCall_table),
        Cond ''flags'' 0 (''duration'', readInt32, writeInt32, enc_int32, is_VInt)]),
      (1345295095, [Plain (''call'', readTLInputGroupCall, writeTLInputGroupCall,
         enc_fobject TL_InputGroupCall_table, ok_fobject TL_InputGroupCall_table),
        Plain (''users'', readVector (Some readInt64), writeVector (Some writeInt64),
         enc_vector enc_int64, ok_vector is_VLong)]),
      (1007897979, [Flags ''flags'' [(''auto_setting_from'', 0)],
        Plain (''period'', readInt32, writeInt32, enc_int32, is_VInt),
        Cond ''flags'' 0 (''auto_setting_from'', readInt64, writeInt64, enc_int64, is_VLong)]),
      (- 1281329567, [Plain (''call'', readTLInputGroupCall, writeTLInputGroupCall,
         enc_fobject TL_InputGroupCall_table, ok_fobject TL_InputGroupCall_table),
        Plain (''schedule_date'', readInt32, writeInt32, enc_int32, is_VInt)]),
      (- 1189364422, [Plain (''theme'', readTLChatTheme, writeTLChatTheme,
         enc_fobject TL_ChatTheme_table, ok_fobject TL_ChatTheme_table)]),
      (- 339958837, []),
      (1205698681, [Plain (''text'', readString, writeString, enc_string, is_short_text),
        Plain (''data'', readString, writeString, enc_string, is_short_text)]),
      (- 1262252875, [Plain (''text'', readString, writeString, enc_string, is_short_text)]),
      (1223234306, [Flags ''flags'' [(''crypto_currency'', 0), (''crypto_amount'', 0),
         (''message'', 1)],
        Plain (''currency'', readString, writeString, enc_string, is_short_text),
        Plain (''amount'', readInt64, writeInt64, enc_int64, is_VLong),
        Plain (''days'', readInt32, writeInt32, enc_int32, is_VInt),
        Cond ''flags'' 0 (''crypto_currency'', readString, writeString, enc_string, is_short_text),
        Cond ''flags'' 0 (''crypto_amount'', readInt64, writeInt64, enc_int64, is_VLong),
        Cond ''flags'' 1 (''message'', readTLTextWithEntities, writeTLTextWithEntities,
         enc_fobject TL_TextWithEntities_table, ok_fobject TL_TextWithEntities_table)]),
      (228168278, [Flags ''flags'' [(''title_missing'', 1), (''icon_emoji_id'', 0)],
        TrueBit ''flags'' 1 ''title_missing'',
        Plain (''title'', readString, writeString, enc_string, is_short_text),
        Plain (''icon_color'', readInt32, writeInt32, enc_int32, is_VInt),
        Cond ''flags'' 0 (''icon_emoji_id'', readInt64, writeInt64, enc_int64, is_VLong)]),
      (- 1064024032, [Flags ''flags'' [(''title'', 0), (''icon_emoji_id'', 1), (''closed'', 2),
         (''hidden'', 3)],
        Cond ''flags'' 0 (''title'', readString, writeString, enc_string, is_short_text),
        Cond ''flags'' 1 (''icon_emoji_id'', readInt64, writeInt64, enc_int64, is_VLong),
        Cond ''flags'' 2 (''closed'', readBool, writeBool, enc_bool, is_VBool),
        Cond ''flags'' 3 (''hidden'', readBool, writeBool, enc_bool, is_VBool)]),
      (1474192222, [Plain (''photo'', readTLPhoto, writeTLPhoto, enc_fobject TL_Photo_table,
         ok_fobject TL_Photo_table)]),
      (827428507, [Plain (''button_id'', readInt32, writeInt32, enc_int32, is_VInt),
        Plain (''peers'', readVector (Some readTLPeer), writeVector (Some writeTLPeer),
         enc_vector (enc_fobject TL_Peer_table), ok_vector (ok_fobject TL_Peer_table))]),
      (1348510708, [Flags ''flags'' [(''same'', 0), (''for_both'', 1)],
        TrueBit ''flags'' 0 ''same'',
        TrueBit ''flags'' 1 ''for_both'',
        Plain (''wallpaper'', readTLWallPaper, writeTLWallPaper, enc_fobject TL_WallPaper_table,
         ok_fobject TL_WallPaper_table)]),
      (834962247, [Flags ''flags'' [(''via_giveaway'', 0), (''unclaimed'', 5), (''boost_peer'', 1),
         (''currency'', 2), (''amount'', 2), (''crypto_currency'', 3), (''crypto_amount'', 3),
         (''message'', 4)],
        TrueBit ''flags'' 0 ''via_giveaway'',
        TrueBit ''flags'' 5 ''unclaimed'',
        Cond ''flags'' 1 (''boost_peer'', readTLPeer, writeTLPeer, enc_fobject TL_Peer_table,
         ok_fobject TL_Peer_table),
        Plain (''days'', readInt32, writeInt32, enc_int32, is_VInt),
        Plain (''slug'', readString, writeString, enc_string, is_short_text),
        Cond ''flags'' 2 (''currency'', readString, writeString, enc_string, is_short_text),
        Cond ''flags'' 2 (''amount'', readInt64, writeInt64, enc_int64, is_VLong),
        Cond ''flags'' 3 (''crypto_currency'', readString, writeString, enc_string, is_short_text),
        Cond ''flags'' 3 (''crypto_amount'', readInt64, writeInt64, enc_int64, is_VLong),
        Cond ''flags'' 4 (''message'', readTLTextWithEntities, writeTLTextWithEntities,
         enc_fobject TL_TextWithEntities_table, ok_fobject TL_TextWithEntities_table)]),
      (- 1475391004, [Flags ''flags'' [(''stars'', 0)],
        Cond ''flags'' 0 (''stars'', readInt64, writeInt64, enc_int64, is_VLong)]),
      (- 2015170219, [Flags ''flags'' [(''stars'', 0)],
        TrueBit ''flags'' 0 ''stars'',
        Plain (''winners_count'', readInt32, writeInt32, enc_int32, is_VInt),
        Plain (''unclaimed_count'', readInt32, writeInt32, enc_int32, is_VInt)]),
      (- 872240531, [Plain (''boosts'', readInt32, writeInt32, enc_int32, is_VInt)]),
      (- 1816979384, [Plain (''button_id'', readInt32, writeInt32, enc_int32, is_VInt),
        Plain (''peers'', readVector (Some readTLRequestedPeer),
         writeVector (Some writeTLRequestedPeer), enc_vector (enc_fobject TL_RequestedPeer_table),
         ok_vector (ok_fobject TL_RequestedPeer_table))]),
      (1102307842, [Flags ''flags'' [(''payload'', 0)],
        Plain (''peer'', readTLPeer, writeTLPeer, enc_fobject TL_Peer_table,
         ok_fobject TL_Peer_table),
        Plain (''currency'', readString, writeString, enc_string, is_short_text),
        Plain (''total_amount'', readInt64, writeInt64, enc_int64, is_VLong),
        Cond ''flags'' 0 (''payload'', readByteArray, writeByteArray, enc_bytes, is_short_bytes),
        Plain (''charge'', readTLPaymentCharge, writeTLPaymentCharge,
         enc_fobject TL_PaymentCharge_table, ok_fobject TL_PaymentCharge_table)]),
      (1171632161, [Flags ''flags'' [(''crypto_currency'', 0), (''crypto_amount'', 0),
         (''transaction_id'', 1)],
        Plain (''currency'', readString, writeString, enc_string, is_short_text),
        Plain (''amount'', readInt64, writeInt64, enc_int64, is_VLong),
        Plain (''stars'', readInt64, writeInt64, enc_int64, is_VLong),
        Cond ''flags'' 0 (''crypto_currency'', readString, writeString, enc_string, is_short_text),
        Cond ''flags'' 0 (''crypto_amount'', readInt64, writeInt64, enc_int64, is_VLong),
        Cond ''flags'' 1 (''transaction_id'', readString, writeString, enc_string, is_short_text)]),
      (- 1341372510, [Flags ''flags'' [(''unclaimed'', 0)],
        TrueBit ''flags'' 0 ''unclaimed'',
        Plain (''stars'', readInt64, writeInt64, enc_int64, is_VLong),
        Plain (''transaction_id'', readString, writeString, enc_string, is_short_text),
        Plain (''boost_peer'', readTLPeer, writeTLPeer, enc_fobject TL_Peer_table,
         ok_fobject TL_Peer_table),
        Plain (''giveaway_msg_id'', readInt32, writeInt32, enc_int32, is_VInt)]),
      (- 366202413, [Flags ''flags'' [(''name_hidden'', 0), (''saved'', 2), (''converted'', 3),
         (''upgraded'', 5), (''refunded'', 9), (''can_upgrade'', 10), (''prepaid_upgrade'', 13),
         (''upgrade_separate'', 16), (''auction_acquired'', 17), (''message'', 1),
         (''convert_stars'', 4), (''upgrade_msg_id'', 5), (''upgrade_stars'', 8), (''from_id'',
         11), (''peer'', 12), (''saved_id'', 12), (''prepaid_upgrade_hash'', 14), (''gift_msg_id'',
         15), (''to_id'', 18), (''gift_num'', 19)],
        TrueBit ''flags'' 0 ''name_hidden'',
        TrueBit ''flags'' 2 ''saved'',
        TrueBit ''flags'' 3 ''converted'',
        TrueBit ''flags'' 5 ''upgraded'',
        TrueBit ''flags'' 9 ''refunded'',
        TrueBit ''flags'' 10 ''can_upgrade'',
        TrueBit ''flags'' 13 ''prepaid_upgrade'',
        TrueBit ''flags'' 16 ''upgrade_separate'',
        TrueBit ''flags'' 17 ''auction_acquired'',
        Plain (''gift'', readTLStarGift, writeTLStarGift, enc_fobject TL_StarGift_table,
         ok_fobject TL_StarGift_table),
        Cond ''flags'' 1 (''message'', readTLTextWithEntities, writeTLTextWithEntities,
         enc_fobject TL_TextWithEntities_table, ok_fobject TL_TextWithEntities_table),
        Cond ''flags'' 4 (''convert_stars'', readInt64, writeInt64, enc_int64, is_VLong),
        Cond ''flags'' 5 (''upgrade_msg_id'', readInt32, writeInt32, enc_int32, is_VInt),
        Cond ''flags'' 8 (''upgrade_stars'', readInt64, writeInt64, enc_int64, is_VLong),
        Cond ''flags'' 11 (''from_id'', readTLPeer, writeTLPeer, enc_fobject TL_Peer_table,
         ok_fobject TL_Peer_table),
        Cond ''flags'' 12 (''peer'', readTLPeer, writeTLPeer, enc_fobject TL_Peer_table,
         ok_fobject TL_Peer_table),
        Cond ''flags'' 12 (''saved_id'', readInt64, writeInt64, enc_int64, is_VLong),
        Cond ''flags'' 14 (''prepaid_upgrade_hash'', readString, writeString, enc_string,
         is_short_text),
        Cond ''flags'' 15 (''gift_msg_id'', readInt32, writeInt32, enc_int32, is_VInt),
        Cond ''flags'' 18 (''to_id'', readTLPeer, writeTLPeer, enc_fobject TL_Peer_table,
         ok_fobject TL_Peer_table),
        Cond ''flags'' 19 (''gift_num'', readInt32, writeInt32, enc_int32, is_VInt)]),
      (2115768711, [Flags ''flags'' [(''upgrade'', 0), (''transferred'', 1), (''saved'', 2),
         (''refunded'', 5), (''prepaid_upgrade'', 11), (''assigned'', 13), (''from_offer'', 14),
         (''craft'', 16), (''name_hidden'', 17), (''can_export_at'', 3), (''transfer_stars'', 4),
         (''from_id'', 6), (''peer'', 7), (''saved_id'', 7), (''resale_amount'', 8),
         (''can_transfer_at'', 9), (''can_resell_at'', 10), (''drop_original_details_stars'', 12),
         (''can_craft_at'', 15), (''message'', 18)],
        TrueBit ''flags'' 0 ''upgrade'',
        TrueBit ''flags'' 1 ''transferred'',
        TrueBit ''flags'' 2 ''saved'',
        TrueBit ''flags'' 5 ''refunded'',
        TrueBit ''flags'' 11 ''prepaid_upgrade'',
        TrueBit ''flags'' 13 ''assigned'',
        TrueBit ''flags'' 14 ''from_offer'',
        TrueBit ''flags'' 16 ''craft'',
        TrueBit ''flags'' 17 ''name_hidden'',
        Plain (''gift'', readTLStarGift, writeTLStarGift, enc_fobject TL_StarGift_table,
         ok_fobject TL_StarGift_table),
        Cond ''flags'' 3 (''can_export_at'', readInt32, writeInt32, enc_int32, is_VInt),
        Cond ''flags'' 4 (''transfer_stars'', readInt64, writeInt64, enc_int64, is_VLong),
        Cond ''flags'' 6 (''from_id'', readTLPeer, writeTLPeer, enc_fobject TL_Peer_table,
         ok_fobject TL_Peer_table),
        Cond ''flags'' 7 (''peer'', readTLPeer, writeTLPeer, enc_fobject TL_Peer_table,
         ok_fobject TL_Peer_table),
        Cond ''flags'' 7 (''saved_id'', readInt64, writeInt64, enc_int64, is_VLong),
        Cond ''flags'' 8 (''resale_amount'', readTLStarsAmount, writeTLStarsAmount,
         enc_fobject TL_StarsAmount_table, ok_fobject TL_StarsAmount_table),
        Cond ''flags'' 9 (''can_transfer_at'', readInt32, writeInt32, enc_int32, is_VInt),
        Cond ''flags'' 10 (''can_resell_at'', readInt32, writeInt32, enc_int32, is_VInt),
        Cond ''flags'' 12 (''drop_original_details_stars'', readInt64, writeInt64, enc_int64,
         is_VLong),
        Cond ''flags'' 15 (''can_craft_at'', readInt32, writeInt32, enc_int32, is_VInt),
        Cond ''flags'' 18 (''message'', readTLTextWithEntities, writeTLTextWithEntities,
         enc_fobject TL_TextWithEntities_table, ok_fobject TL_TextWithEntities_table)]),
      (- 1407246387, [Plain (''count'', readInt32, writeInt32, enc_int32, is_VInt),
        Plain (''stars'', readInt64, writeInt64, enc_int64, is_VLong)]),
      (- 2068281992, [Flags ''flags'' [(''broadcast_messages_allowed'', 0)],
        TrueBit ''flags'' 0 ''broadcast_messages_allowed'',
        Plain (''stars'', readInt64, writeInt64, enc_int64, is_VLong)]),
      (805187450, [Flags ''flags'' [(''missed'', 0), (''active'', 1), (''video'', 4),
         (''duration'', 2), (''other_participants'', 3)],
        TrueBit ''flags'' 0 ''missed'',
        TrueBit ''flags'' 1 ''active'',
        TrueBit ''flags'' 4 ''video'',
        Plain (''call_id'', readInt64, writeInt64, enc_int64, is_VLong),
        Cond ''flags'' 2 (''duration'', readInt32, writeInt32, enc_int32, is_VInt),
        Cond ''flags'' 3 (''other_participants'', readVector (Some readTLPeer),
         writeVector (Some writeTLPeer), enc_vector (enc_fobject TL_Peer_table),
         ok_vector (ok_fobject TL_Peer_table))]),
      (- 864265079, [Plain (''completed'', readVector (Some readInt32),
         writeVector (Some writeInt32), enc_vector enc_int32, ok_vector is_VInt),
        Plain (''incompleted'', readVector (Some readInt32), writeVector (Some writeInt32),
         enc_vector enc_int32, ok_vector is_VInt)]),
      (- 940721021, [Plain (''list'', readVector (Some readTLTodoItem),
         writeVector (Some writeTLTodoItem), enc_vector (enc_fobject TL_TodoItem_table),
         ok_vector (ok_fobject TL_TodoItem_table))]),
      (- 293988970, [Flags ''flags'' [(''rejected'', 0), (''balance_too_low'', 1),
         (''reject_comment'', 2), (''schedule_date'', 3), (''price'', 4)],
        TrueBit ''flags'' 0 ''rejected'',
        TrueBit ''flags'' 1 ''balance_too_low'',
        Cond ''flags'' 2 (''reject_comment'', readString, writeString, enc_string, is_short_text),
        Cond ''flags'' 3 (''schedule_date'', readInt32, writeInt32, enc_int32, is_VInt),
        Cond ''flags'' 4 (''price'', readTLStarsAmount, writeTLStarsAmount,
         enc_fobject TL_StarsAmount_table, ok_fobject TL_StarsAmount_table)]),
      (- 1780625559, [Plain (''price'', readTLStarsAmount, writeTLStarsAmount,
         enc_fobject TL_StarsAmount_table, ok_fobject TL_StarsAmount_table)]),
      (1777932024, [Flags ''flags'' [(''payer_initiated'', 0)],
        TrueBit ''flags'' 0 ''payer_initiated'']),
      (- 1465661799, [Flags ''flags'' [(''transaction_id'', 0)],
        Plain (''currency'', readString, writeString, enc_string, is_short_text),
        Plain (''amount'', readInt64, writeInt64, enc_int64, is_VLong),
        Plain (''crypto_currency'', readString, writeString, enc_string, is_short_text),
        Plain (''crypto_amount'', readInt64, writeInt64, enc_int64, is_VLong),
        Cond ''flags'' 0 (''transaction_id'', readString, writeString, enc_string, is_short_text)]),
      (747579941, [Plain (''birthday'', readTLBirthday, writeTLBirthday,
         enc_fobject TL_Birthday_table, ok_fobject TL_Birthday_table)]),
      (2000845012, [Flags ''flags'' [(''accepted'', 0), (''declined'', 1)],
        TrueBit ''flags'' 0 ''accepted'',
        TrueBit ''flags'' 1 ''declined'',
        Plain (''gift'', readTLStarGift, writeTLStarGift, enc_fobject TL_StarGift_table,
         ok_fobject TL_StarGift_table),
        Plain (''price'', readTLStarsAmount, writeTLStarsAmount, enc_fobject TL_StarsAmount_table,
         ok_fobject TL_StarsAmount_table),
        Plain (''expires_at'', readInt32, writeInt32, enc_int32, is_VInt)]),
      (1940760427, [Flags ''flags'' [(''expired'', 0)],
        TrueBit ''flags'' 0 ''expired'',
        Plain (''gift'', readTLStarGift, writeTLStarGift, enc_fobject TL_StarGift_table,
         ok_fobject TL_StarGift_table),
        Plain (''price'', readTLStarsAmount, writeTLStarsAmount, enc_fobject TL_StarsAmount_table,
         ok_fobject TL_StarsAmount_table)]),
      (- 1333866363, [Plain (''new_creator_id'', readInt64, writeInt64, enc_int64, is_VLong)]),
      (- 511160261, [Plain (''new_creator_id'', readInt64, writeInt64, enc_int64, is_VLong)]),
      (- 1082301070, [Plain (''prev_value'', readBool, writeBool, enc_bool, is_VBool),
        Plain (''new_value'', readBool, writeBool, enc_bool, is_VBool)]),
      (1042781114, [Flags ''flags'' [(''expired'', 0)],
        TrueBit ''flags'' 0 ''expired'',
        Plain (''prev_value'', readBool, writeBool, enc_bool, is_VBool),
        Plain (''new_value'', readBool, writeBool, enc_bool, is_VBool)]),
      (- 1650340500, [Plain (''answer'', readTLPollAnswer, writeTLPollAnswer, enc_PollAnswer,
         ok_PollAnswer)]),
      (966161628, [Plain (''answer'', readTLPollAnswer, writeTLPollAnswer, enc_PollAnswer,
         ok_PollAnswer)]),
      (375414334, [Plain (''bot_id'', readInt64, writeInt64, enc_int64, is_VLong)]),
      (1562426088, [Flags ''flags'' [(''community_id'', 0)],
        Cond ''flags'' 0 (''community_id'', readInt64, writeInt64, enc_int64, is_VLong)]),
      (1250688640, [Plain (''community_id'', readInt64, writeInt64, enc_int64, is_VLong)])]"

interpretation tl_MessageAction: tl_codec readTLMessageAction writeTLMessageAction "enc_fobject TL_MessageAction_table" "ok_fobject TL_MessageAction_table"
  by (rule flag_schema_codec, unfold TL_MessageAction_table_def, intro flag_tableI)
    (simp_all add: readTLMessageAction_def writeTLMessageAction_def flag_schema_simps tl_Photo.tl_codec_axioms tl_PaymentRequestedInfo.tl_codec_axioms tl_PaymentCharge.tl_codec_axioms
      tl_PhoneCallDiscardReason.tl_codec_axioms tl_BotApp.tl_codec_axioms tl_SecureValue.tl_codec_axioms
      tl_SecureCredentialsEncrypted.tl_codec_axioms tl_SecureValueType.tl_codec_axioms
      tl_Peer.tl_codec_axioms tl_InputGroupCall.tl_codec_axioms tl_ChatTheme.tl_codec_axioms
      tl_TextWithEntities.tl_codec_axioms tl_WallPaper.tl_codec_axioms tl_RequestedPeer.tl_codec_axioms
      tl_StarGift.tl_codec_axioms tl_StarsAmount.tl_codec_axioms tl_TodoItem.tl_codec_axioms
      tl_Birthday.tl_codec_axioms tl_PollAnswer.tl_codec_axioms tl_SecureValue.vector_codec
      tl_SecureValueType.vector_codec tl_Peer.vector_codec tl_RequestedPeer.vector_codec
      tl_TodoItem.vector_codec)

definition readTLMessageReplyHeader :: tl_reader where
  "readTLMessageReplyHeader = read_object
     [(462937446, [rd ''flags'' readUInt32, set_if ''flags'' 2 ''reply_to_scheduled'',
         set_if ''flags'' 3 ''forum_topic'', set_if ''flags'' 9 ''quote'',
         set_if ''flags'' 13 ''reply_to_ephemeral'',
         rd_if ''flags'' 4 ''reply_to_msg_id'' readInt32,
         rd_if ''flags'' 0 ''reply_to_peer_id'' readTLPeer,
         rd_if ''flags'' 5 ''reply_from'' readTLMessageFwdHeader,
         rd_if ''flags'' 8 ''reply_media'' readTLMessageMedia,
         rd_if ''flags'' 1 ''reply_to_top_id'' readInt32,
         rd_if ''flags'' 6 ''quote_text'' readString,
         rd_if ''flags'' 7 ''quote_entities'' (readVector (Some readTLMessageEntity)),
         rd_if ''flags'' 10 ''quote_offset'' readInt32,
         rd_if ''flags'' 11 ''todo_item_id'' readInt32,
         rd_if ''flags'' 12 ''poll_option'' readByteArray]),
      (240843065, [rd ''peer'' readTLPeer, rd ''story_id'' readInt32])]"

definition writeTLMessageReplyHeader :: tl_writer where
  "writeTLMessageReplyHeader = write_fobject
     [(462937446, [wf ''_'' writeInt32, wf_flags ''flags'' [(''reply_to_scheduled'', 2),
         (''forum_topic'', 3), (''quote'', 9), (''reply_to_ephemeral'', 13), (''reply_to_msg_id'',
         4), (''reply_to_peer_id'', 0), (''reply_from'', 5), (''reply_media'', 8),
         (''reply_to_top_id'', 1), (''quote_text'', 6), (''quote_entities'', 7), (''quote_offset'',
         10), (''todo_item_id'', 11), (''poll_option'', 12)],
         wf_if ''flags'' 4 ''reply_to_msg_id'' writeInt32,
         wf_if ''flags'' 0 ''reply_to_peer_id'' writeTLPeer,
         wf_if ''flags'' 5 ''reply_from'' writeTLMessageFwdHeader,
         wf_if ''flags'' 8 ''reply_media'' writeTLMessageMedia,
         wf_if ''flags'' 1 ''reply_to_top_id'' writeInt32,
         wf_if ''flags'' 6 ''quote_text'' writeString,
         wf_if ''flags'' 7 ''quote_entities'' (writeVector (Some writeTLMessageEntity)),
         wf_if ''flags'' 10 ''quote_offset'' writeInt32,
         wf_if ''flags'' 11 ''todo_item_id'' writeInt32,
         wf_if ''flags'' 12 ''poll_option'' writeByteArray]),
      (240843065, [wf ''_'' writeInt32, wf ''peer'' writeTLPeer, wf ''story_id'' writeInt32])]"

definition TL_MessageReplyHeader_table :: flag_table where
  "TL_MessageReplyHeader_table =
     [(462937446, [Flags ''flags'' [(''reply_to_scheduled'', 2), (''forum_topic'', 3), (''quote'',
         9), (''reply_to_ephemeral'', 13), (''reply_to_msg_id'', 4), (''reply_to_peer_id'', 0),
         (''reply_from'', 5), (''reply_media'', 8), (''reply_to_top_id'', 1), (''quote_text'', 6),
         (''quote_entities'', 7), (''quote_offset'', 10), (''todo_item_id'', 11), (''poll_option'',
         12)],
        TrueBit ''flags'' 2 ''reply_to_scheduled'',
        TrueBit ''flags'' 3 ''forum_topic'',
        TrueBit ''flags'' 9 ''quote'',
        TrueBit ''flags'' 13 ''reply_to_ephemeral'',
        Cond ''flags'' 4 (''reply_to_msg_id'', readInt32, writeInt32, enc_int32, is_VInt),
        Cond ''flags'' 0 (''reply_to_peer_id'', readTLPeer, writeTLPeer, enc_fobject TL_Peer_table,
         ok_fobject TL_Peer_table),
        Cond ''flags'' 5 (''reply_from'', readTLMessageFwdHeader, writeTLMessageFwdHeader,
         enc_fobject TL_MessageFwdHeader_table, ok_fobject TL_MessageFwdHeader_table),
        Cond ''flags'' 8 (''reply_media'', readTLMessageMedia, writeTLMessageMedia,
         enc_MessageMedia, ok_MessageMedia),
        Cond ''flags'' 1 (''reply_to_top_id'', readInt32, writeInt32, enc_int32, is_VInt),
        Cond ''flags'' 6 (''quote_text'', readString, writeString, enc_string, is_short_text),
        Cond ''flags'' 7 (''quote_entities'', readVector (Some readTLMessageEntity),
         writeVector (Some writeTLMessageEntity), enc_vector (enc_fobject TL_MessageEntity_table),
         ok_vector (ok_fobject TL_MessageEntity_table)),
        Cond ''flags'' 10 (''quote_offset'', readInt32, writeInt32, enc_int32, is_VInt),
        Cond ''flags'' 11 (''todo_item_id'', readInt32, writeInt32, enc_int32, is_VInt),
        Cond ''flags'' 12 (''poll_option'', readByteArray, writeByteArray, enc_bytes,
         is_short_bytes)]),
      (240843065, [Plain (''peer'', readTLPeer, writeTLPeer, enc_fobject TL_Peer_table,
         ok_fobject TL_Peer_table),
        Plain (''story_id'', readInt32, writeInt32, enc_int32, is_VInt)])]"

interpretation tl_MessageReplyHeader: tl_codec readTLMessageReplyHeader writeTLMessageReplyHeader "enc_fobject TL_MessageReplyHeader_table" "ok_fobject TL_MessageReplyHeader_table"
  by (rule flag_schema_codec, unfold TL_MessageReplyHeader_table_def, intro flag_tableI)
    (simp_all add: readTLMessageReplyHeader_def writeTLMessageReplyHeader_def flag_schema_simps tl_Peer.tl_codec_axioms tl_MessageFwdHeader.tl_codec_axioms tl_MessageMedia.tl_codec_axioms
      tl_MessageEntity.tl_codec_axioms tl_MessageEntity.vector_codec)

definition readTLRichMessage :: tl_reader where
  "readTLRichMessage = read_object
     [(- 1158439541, [rd ''flags'' readUInt32, set_if ''flags'' 0 ''rtl'',
         set_if ''flags'' 1 ''part'', rd ''blocks'' (readVector (Some readTLPageBlock)),
         rd ''photos'' (readVector (Some readTLPhoto)),
         rd ''documents'' (readVector (Some readTLDocument))])]"

definition writeTLRichMessage :: tl_writer where
  "writeTLRichMessage = write_fobject
     [(- 1158439541, [wf ''_'' writeInt32, wf_flags ''flags'' [(''rtl'', 0), (''part'', 1)],
         wf ''blocks'' (writeVector (Some writeTLPageBlock)),
         wf ''photos'' (writeVector (Some writeTLPhoto)),
         wf ''documents'' (writeVector (Some writeTLDocument))])]"

definition TL_RichMessage_table :: flag_table where
  "TL_RichMessage_table =
     [(- 1158439541, [Flags ''flags'' [(''rtl'', 0), (''part'', 1)],
        TrueBit ''flags'' 0 ''rtl'',
        TrueBit ''flags'' 1 ''part'',
        Plain (''blocks'', readVector (Some readTLPageBlock), writeVector (Some writeTLPageBlock),
         enc_vector enc_PageBlock, ok_vector ok_PageBlock),
        Plain (''photos'', readVector (Some readTLPhoto), writeVector (Some writeTLPhoto),
         enc_vector (enc_fobject TL_Photo_table), ok_vector (ok_fobject TL_Photo_table)),
        Plain (''documents'', readVector (Some readTLDocument), writeVector (Some writeTLDocument),
         enc_vector (enc_fobject TL_Document_table), ok_vector (ok_fobject TL_Document_table))])]"

interpretation tl_RichMessage: tl_codec readTLRichMessage writeTLRichMessage "enc_fobject TL_RichMessage_table" "ok_fobject TL_RichMessage_table"
  by (rule flag_schema_codec, unfold TL_RichMessage_table_def, intro flag_tableI)
    (simp_all add: readTLRichMessage_def writeTLRichMessage_def flag_schema_simps tl_PageBlock.tl_codec_axioms tl_Photo.tl_codec_axioms tl_Document.tl_codec_axioms
      tl_PageBlock.vector_codec tl_Photo.vector_codec tl_Document.vector_codec)

definition readTLMessage :: tl_reader where
  "readTLMessage = read_object
     [(- 1868117372, [rd ''flags'' readUInt32, rd ''id'' readInt32,
         rd_if ''flags'' 0 ''peer_id'' readTLPeer]),
      (1979759059, [rd ''flags'' readUInt32, set_if ''flags'' 1 ''out'',
         set_if ''flags'' 4 ''mentioned'', set_if ''flags'' 5 ''media_unread'',
         set_if ''flags'' 13 ''silent'', set_if ''flags'' 14 ''post'',
         set_if ''flags'' 18 ''from_scheduled'', set_if ''flags'' 19 ''legacy'',
         set_if ''flags'' 21 ''edit_hide'', set_if ''flags'' 24 ''pinned'',
         set_if ''flags'' 26 ''noforwards'', set_if ''flags'' 27 ''invert_media'',
         rd ''flags2'' readUInt32, set_if ''flags2'' 1 ''offline'',
         set_if ''flags2'' 4 ''video_processing_pending'',
         set_if ''flags2'' 8 ''paid_suggested_post_stars'',
         set_if ''flags2'' 9 ''paid_suggested_post_ton'', rd ''id'' readInt32,
         rd_if ''flags'' 8 ''from_id'' readTLPeer,
         rd_if ''flags'' 29 ''from_boosts_applied'' readInt32,
         rd_if ''flags2'' 12 ''from_rank'' readString, rd ''peer_id'' readTLPeer,
         rd_if ''flags'' 28 ''saved_peer_id'' readTLPeer,
         rd_if ''flags'' 2 ''fwd_from'' readTLMessageFwdHeader,
         rd_if ''flags'' 11 ''via_bot_id'' readInt64,
         rd_if ''flags2'' 0 ''via_business_bot_id'' readInt64,
         rd_if ''flags2'' 19 ''guestchat_via_from'' readTLPeer,
         rd_if ''flags'' 3 ''reply_to'' readTLMessageReplyHeader, rd ''date'' readInt32,
         rd ''message'' readString, rd_if ''flags'' 9 ''media'' readTLMessageMedia,
         rd_if ''flags'' 6 ''reply_markup'' readTLReplyMarkup,
         rd_if ''flags'' 7 ''entities'' (readVector (Some readTLMessageEntity)),
         rd_if ''flags'' 10 ''views'' readInt32, rd_if ''flags'' 10 ''forwards'' readInt32,
         rd_if ''flags'' 23 ''replies'' readTLMessageReplies,
         rd_if ''flags'' 15 ''edit_date'' readInt32, rd_if ''flags'' 16 ''post_author'' readString,
         rd_if ''flags'' 17 ''grouped_id'' readInt64,
         rd_if ''flags'' 20 ''reactions'' readTLMessageReactions,
         rd_if ''flags'' 22 ''restriction_reason'' (readVector (Some readTLRestrictionReason)),
         rd_if ''flags'' 25 ''ttl_period'' readInt32,
         rd_if ''flags'' 30 ''quick_reply_shortcut_id'' readInt32,
         rd_if ''flags2'' 2 ''effect'' readInt64, rd_if ''flags2'' 3 ''factcheck'' readTLFactCheck,
         rd_if ''flags2'' 5 ''report_delivery_until_date'' readInt32,
         rd_if ''flags2'' 6 ''paid_message_stars'' readInt64,
         rd_if ''flags2'' 7 ''suggested_post'' readTLSuggestedPost,
         rd_if ''flags2'' 10 ''schedule_repeat_period'' readInt32,
         rd_if ''flags2'' 11 ''summary_from_language'' readString,
         rd_if ''flags2'' 13 ''rich_message'' readTLRichMessage]),
      (2055212554, [rd ''flags'' readUInt32, set_if ''flags'' 1 ''out'',
         set_if ''flags'' 4 ''mentioned'', set_if ''flags'' 5 ''media_unread'',
         set_if ''flags'' 9 ''reactions_are_possible'', set_if ''flags'' 13 ''silent'',
         set_if ''flags'' 14 ''post'', set_if ''flags'' 19 ''legacy'', rd ''id'' readInt32,
         rd_if ''flags'' 8 ''from_id'' readTLPeer, rd ''peer_id'' readTLPeer,
         rd_if ''flags'' 28 ''saved_peer_id'' readTLPeer,
         rd_if ''flags'' 3 ''reply_to'' readTLMessageReplyHeader, rd ''date'' readInt32,
         rd ''action'' readTLMessageAction,
         rd_if ''flags'' 20 ''reactions'' readTLMessageReactions,
         rd_if ''flags'' 25 ''ttl_period'' readInt32])]"

definition writeTLMessage :: tl_writer where
  "writeTLMessage = write_fobject
     [(- 1868117372, [wf ''_'' writeInt32, wf_flags ''flags'' [(''peer_id'', 0)],
         wf ''id'' writeInt32, wf_if ''flags'' 0 ''peer_id'' writeTLPeer]),
      (1979759059, [wf ''_'' writeInt32, wf_flags ''flags'' [(''out'', 1), (''mentioned'', 4),
         (''media_unread'', 5), (''silent'', 13), (''post'', 14), (''from_scheduled'', 18),
         (''legacy'', 19), (''edit_hide'', 21), (''pinned'', 24), (''noforwards'', 26),
         (''invert_media'', 27), (''from_id'', 8), (''from_boosts_applied'', 29),
         (''saved_peer_id'', 28), (''fwd_from'', 2), (''via_bot_id'', 11), (''reply_to'', 3),
         (''media'', 9), (''reply_markup'', 6), (''entities'', 7), (''views'', 10), (''forwards'',
         10), (''replies'', 23), (''edit_date'', 15), (''post_author'', 16), (''grouped_id'', 17),
         (''reactions'', 20), (''restriction_reason'', 22), (''ttl_period'', 25),
         (''quick_reply_shortcut_id'', 30)], wf_flags ''flags2'' [(''offline'', 1),
         (''video_processing_pending'', 4), (''paid_suggested_post_stars'', 8),
         (''paid_suggested_post_ton'', 9), (''from_rank'', 12), (''via_business_bot_id'', 0),
         (''guestchat_via_from'', 19), (''effect'', 2), (''factcheck'', 3),
         (''report_delivery_until_date'', 5), (''paid_message_stars'', 6), (''suggested_post'', 7),
         (''schedule_repeat_period'', 10), (''summary_from_language'', 11), (''rich_message'',
         13)], wf ''id'' writeInt32, wf_if ''flags'' 8 ''from_id'' writeTLPeer,
         wf_if ''flags'' 29 ''from_boosts_applied'' writeInt32,
         wf_if ''flags2'' 12 ''from_rank'' writeString, wf ''peer_id'' writeTLPeer,
         wf_if ''flags'' 28 ''saved_peer_id'' writeTLPeer,
         wf_if ''flags'' 2 ''fwd_from'' writeTLMessageFwdHeader,
         wf_if ''flags'' 11 ''via_bot_id'' writeInt64,
         wf_if ''flags2'' 0 ''via_business_bot_id'' writeInt64,
         wf_if ''flags2'' 19 ''guestchat_via_from'' writeTLPeer,
         wf_if ''flags'' 3 ''reply_to'' writeTLMessageReplyHeader, wf ''date'' writeInt32,
         wf ''message'' writeString, wf_if ''flags'' 9 ''media'' writeTLMessageMedia,
         wf_if ''flags'' 6 ''reply_markup'' writeTLReplyMarkup,
         wf_if ''flags'' 7 ''entities'' (writeVector (Some writeTLMessageEntity)),
         wf_if ''flags'' 10 ''views'' writeInt32, wf_if ''flags'' 10 ''forwards'' writeInt32,
         wf_if ''flags'' 23 ''replies'' writeTLMessageReplies,
         wf_if ''flags'' 15 ''edit_date'' writeInt32,
         wf_if ''flags'' 16 ''post_author'' writeString,
         wf_if ''flags'' 17 ''grouped_id'' writeInt64,
         wf_if ''flags'' 20 ''reactions'' writeTLMessageReactions,
         wf_if ''flags'' 22 ''restriction_reason'' (writeVector (Some writeTLRestrictionReason)),
         wf_if ''flags'' 25 ''ttl_period'' writeInt32,
         wf_if ''flags'' 30 ''quick_reply_shortcut_id'' writeInt32,
         wf_if ''flags2'' 2 ''effect'' writeInt64,
         wf_if ''flags2'' 3 ''factcheck'' writeTLFactCheck,
         wf_if ''flags2'' 5 ''report_delivery_until_date'' writeInt32,
         wf_if ''flags2'' 6 ''paid_message_stars'' writeInt64,
         wf_if ''flags2'' 7 ''suggested_post'' writeTLSuggestedPost,
         wf_if ''flags2'' 10 ''schedule_repeat_period'' writeInt32,
         wf_if ''flags2'' 11 ''summary_from_language'' writeString,
         wf_if ''flags2'' 13 ''rich_message'' writeTLRichMessage]),
      (2055212554, [wf ''_'' writeInt32, wf_flags ''flags'' [(''out'', 1), (''mentioned'', 4),
         (''media_unread'', 5), (''reactions_are_possible'', 9), (''silent'', 13), (''post'', 14),
         (''legacy'', 19), (''from_id'', 8), (''saved_peer_id'', 28), (''reply_to'', 3),
         (''reactions'', 20), (''ttl_period'', 25)], wf ''id'' writeInt32,
         wf_if ''flags'' 8 ''from_id'' writeTLPeer, wf ''peer_id'' writeTLPeer,
         wf_if ''flags'' 28 ''saved_peer_id'' writeTLPeer,
         wf_if ''flags'' 3 ''reply_to'' writeTLMessageReplyHeader, wf ''date'' writeInt32,
         wf ''action'' writeTLMessageAction,
         wf_if ''flags'' 20 ''reactions'' writeTLMessageReactions,
         wf_if ''flags'' 25 ''ttl_period'' writeInt32])]"

definition TL_Message_table :: flag_table where
  "TL_Message_table =
     [(- 1868117372, [Flags ''flags'' [(''peer_id'', 0)],
        Plain (''id'', readInt32, writeInt32, enc_int32, is_VInt),
        Cond ''flags'' 0 (''peer_id'', readTLPeer, writeTLPeer, enc_fobject TL_Peer_table,
         ok_fobject TL_Peer_table)]),
      (1979759059, [Flags ''flags'' [(''out'', 1), (''mentioned'', 4), (''media_unread'', 5),
         (''silent'', 13), (''post'', 14), (''from_scheduled'', 18), (''legacy'', 19),
         (''edit_hide'', 21), (''pinned'', 24), (''noforwards'', 26), (''invert_media'', 27),
         (''from_id'', 8), (''from_boosts_applied'', 29), (''saved_peer_id'', 28), (''fwd_from'',
         2), (''via_bot_id'', 11), (''reply_to'', 3), (''media'', 9), (''reply_markup'', 6),
         (''entities'', 7), (''views'', 10), (''forwards'', 10), (''replies'', 23), (''edit_date'',
         15), (''post_author'', 16), (''grouped_id'', 17), (''reactions'', 20),
         (''restriction_reason'', 22), (''ttl_period'', 25), (''quick_reply_shortcut_id'', 30)],
        TrueBit ''flags'' 1 ''out'',
        TrueBit ''flags'' 4 ''mentioned'',
        TrueBit ''flags'' 5 ''media_unread'',
        TrueBit ''flags'' 13 ''silent'',
        TrueBit ''flags'' 14 ''post'',
        TrueBit ''flags'' 18 ''from_scheduled'',
        TrueBit ''flags'' 19 ''legacy'',
        TrueBit ''flags'' 21 ''edit_hide'',
        TrueBit ''flags'' 24 ''pinned'',
        TrueBit ''flags'' 26 ''noforwards'',
        TrueBit ''flags'' 27 ''invert_media'',
        Flags ''flags2'' [(''offline'', 1), (''video_processing_pending'', 4),
         (''paid_suggested_post_stars'', 8), (''paid_suggested_post_ton'', 9), (''from_rank'', 12),
         (''via_business_bot_id'', 0), (''guestchat_via_from'', 19), (''effect'', 2),
         (''factcheck'', 3), (''report_delivery_until_date'', 5), (''paid_message_stars'', 6),
         (''suggested_post'', 7), (''schedule_repeat_period'', 10), (''summary_from_language'',
         11), (''rich_message'', 13)],
        TrueBit ''flags2'' 1 ''offline'',
        TrueBit ''flags2'' 4 ''video_processing_pending'',
        TrueBit ''flags2'' 8 ''paid_suggested_post_stars'',
        TrueBit ''flags2'' 9 ''paid_suggested_post_ton'',
        Plain (''id'', readInt32, writeInt32, enc_int32, is_VInt),
        Cond ''flags'' 8 (''from_id'', readTLPeer, writeTLPeer, enc_fobject TL_Peer_table,
         ok_fobject TL_Peer_table),
        Cond ''flags'' 29 (''from_boosts_applied'', readInt32, writeInt32, enc_int32, is_VInt),
        Cond ''flags2'' 12 (''from_rank'', readString, writeString, enc_string, is_short_text),
        Plain (''peer_id'', readTLPeer, writeTLPeer, enc_fobject TL_Peer_table,
         ok_fobject TL_Peer_table),
        Cond ''flags'' 28 (''saved_peer_id'', readTLPeer, writeTLPeer, enc_fobject TL_Peer_table,
         ok_fobject TL_Peer_table),
        Cond ''flags'' 2 (''fwd_from'', readTLMessageFwdHeader, writeTLMessageFwdHeader,
         enc_fobject TL_MessageFwdHeader_table, ok_fobject TL_MessageFwdHeader_table),
        Cond ''flags'' 11 (''via_bot_id'', readInt64, writeInt64, enc_int64, is_VLong),
        Cond ''flags2'' 0 (''via_business_bot_id'', readInt64, writeInt64, enc_int64, is_VLong),
        Cond ''flags2'' 19 (''guestchat_via_from'', readTLPeer, writeTLPeer,
         enc_fobject TL_Peer_table, ok_fobject TL_Peer_table),
        Cond ''flags'' 3 (''reply_to'', readTLMessageReplyHeader, writeTLMessageReplyHeader,
         enc_fobject TL_MessageReplyHeader_table, ok_fobject TL_MessageReplyHeader_table),
        Plain (''date'', readInt32, writeInt32, enc_int32, is_VInt),
        Plain (''message'', readString, writeString, enc_string, is_short_text),
        Cond ''flags'' 9 (''media'', readTLMessageMedia, writeTLMessageMedia, enc_MessageMedia,
         ok_MessageMedia),
        Cond ''flags'' 6 (''reply_markup'', readTLReplyMarkup, writeTLReplyMarkup,
         enc_fobject TL_ReplyMarkup_table, ok_fobject TL_ReplyMarkup_table),
        Cond ''flags'' 7 (''entities'', readVector (Some readTLMessageEntity),
         writeVector (Some writeTLMessageEntity), enc_vector (enc_fobject TL_MessageEntity_table),
         ok_vector (ok_fobject TL_MessageEntity_table)),
        Cond ''flags'' 10 (''views'', readInt32, writeInt32, enc_int32, is_VInt),
        Cond ''flags'' 10 (''forwards'', readInt32, writeInt32, enc_int32, is_VInt),
        Cond ''flags'' 23 (''replies'', readTLMessageReplies, writeTLMessageReplies,
         enc_fobject TL_MessageReplies_table, ok_fobject TL_MessageReplies_table),
        Cond ''flags'' 15 (''edit_date'', readInt32, writeInt32, enc_int32, is_VInt),
        Cond ''flags'' 16 (''post_author'', readString, writeString, enc_string, is_short_text),
        Cond ''flags'' 17 (''grouped_id'', readInt64, writeInt64, enc_int64, is_VLong),
        Cond ''flags'' 20 (''reactions'', readTLMessageReactions, writeTLMessageReactions,
         enc_fobject TL_MessageReactions_table, ok_fobject TL_MessageReactions_table),
        Cond ''flags'' 22 (''restriction_reason'', readVector (Some readTLRestrictionReason),
         writeVector (Some writeTLRestrictionReason),
         enc_vector (enc_fobject TL_RestrictionReason_table),
         ok_vector (ok_fobject TL_RestrictionReason_table)),
        Cond ''flags'' 25 (''ttl_period'', readInt32, writeInt32, enc_int32, is_VInt),
        Cond ''flags'' 30 (''quick_reply_shortcut_id'', readInt32, writeInt32, enc_int32, is_VInt),
        Cond ''flags2'' 2 (''effect'', readInt64, writeInt64, enc_int64, is_VLong),
        Cond ''flags2'' 3 (''factcheck'', readTLFactCheck, writeTLFactCheck,
         enc_fobject TL_FactCheck_table, ok_fobject TL_FactCheck_table),
        Cond ''flags2'' 5 (''report_delivery_until_date'', readInt32, writeInt32, enc_int32,
         is_VInt),
        Cond ''flags2'' 6 (''paid_message_stars'', readInt64, writeInt64, enc_int64, is_VLong),
        Cond ''flags2'' 7 (''suggested_post'', readTLSuggestedPost, writeTLSuggestedPost,
         enc_fobject TL_SuggestedPost_table, ok_fobject TL_SuggestedPost_table),
        Cond ''flags2'' 10 (''schedule_repeat_period'', readInt32, writeInt32, enc_int32, is_VInt),
        Cond ''flags2'' 11 (''summary_from_language'', readString, writeString, enc_string,
         is_short_text),
        Cond ''flags2'' 13 (''rich_message'', readTLRichMessage, writeTLRichMessage,
         enc_fobject TL_RichMessage_table, ok_fobject TL_RichMessage_table)]),
      (2055212554, [Flags ''flags'' [(''out'', 1), (''mentioned'', 4), (''media_unread'', 5),
         (''reactions_are_possible'', 9), (''silent'', 13), (''post'', 14), (''legacy'', 19),
         (''from_id'', 8), (''saved_peer_id'', 28), (''reply_to'', 3), (''reactions'', 20),
         (''ttl_period'', 25)],
        TrueBit ''flags'' 1 ''out'',
        TrueBit ''flags'' 4 ''mentioned'',
        TrueBit ''flags'' 5 ''media_unread'',
        TrueBit ''flags'' 9 ''reactions_are_possible'',
        TrueBit ''flags'' 13 ''silent'',
        TrueBit ''flags'' 14 ''post'',
        TrueBit ''flags'' 19 ''legacy'',
        Plain (''id'', readInt32, writeInt32, enc_int32, is_VInt),
        Cond ''flags'' 8 (''from_id'', readTLPeer, writeTLPeer, enc_fobject TL_Peer_table,
         ok_fobject TL_Peer_table),
        Plain (''peer_id'', readTLPeer, writeTLPeer, enc_fobject TL_Peer_table,
         ok_fobject TL_Peer_table),
        Cond ''flags'' 28 (''saved_peer_id'', readTLPeer, writeTLPeer, enc_fobject TL_Peer_table,
         ok_fobject TL_Peer_table),
        Cond ''flags'' 3 (''reply_to'', readTLMessageReplyHeader, writeTLMessageReplyHeader,
         enc_fobject TL_MessageReplyHeader_table, ok_fobject TL_MessageReplyHeader_table),
        Plain (''date'', readInt32, writeInt32, enc_int32, is_VInt),
        Plain (''action'', readTLMessageAction, writeTLMessageAction,
         enc_fobject TL_MessageAction_table, ok_fobject TL_MessageAction_table),
        Cond ''flags'' 20 (''reactions'', readTLMessageReactions, writeTLMessageReactions,
         enc_fobject TL_MessageReactions_table, ok_fobject TL_MessageReactions_table),
        Cond ''flags'' 25 (''ttl_period'', readInt32, writeInt32, enc_int32, is_VInt)])]"

interpretation tl_Message: tl_codec readTLMessage writeTLMessage "enc_fobject TL_Message_table" "ok_fobject TL_Message_table"
  by (rule flag_schema_codec, unfold TL_Message_table_def, intro flag_tableI)
    (simp_all add: readTLMessage_def writeTLMessage_def flag_schema_simps tl_Peer.tl_codec_axioms tl_MessageFwdHeader.tl_codec_axioms tl_MessageReplyHeader.tl_codec_axioms
      tl_MessageMedia.tl_codec_axioms tl_ReplyMarkup.tl_codec_axioms tl_MessageEntity.tl_codec_axioms
      tl_MessageReplies.tl_codec_axioms tl_MessageReactions.tl_codec_axioms
      tl_RestrictionReason.tl_codec_axioms tl_FactCheck.tl_codec_axioms tl_SuggestedPost.tl_codec_axioms
      tl_RichMessage.tl_codec_axioms tl_MessageAction.tl_codec_axioms tl_MessageEntity.vector_codec
      tl_RestrictionReason.vector_codec)

definition readTLDraftMessage :: tl_reader where
  "readTLDraftMessage = read_object
     [(453805082, [rd ''flags'' readUInt32, rd_if ''flags'' 0 ''date'' readInt32]),
      (1627271828, [rd ''flags'' readUInt32, set_if ''flags'' 1 ''no_webpage'',
         set_if ''flags'' 6 ''invert_media'', rd_if ''flags'' 4 ''reply_to'' readTLInputReplyTo,
         rd ''message'' readString,
         rd_if ''flags'' 3 ''entities'' (readVector (Some readTLMessageEntity)),
         rd_if ''flags'' 5 ''media'' readTLInputMedia, rd ''date'' readInt32,
         rd_if ''flags'' 7 ''effect'' readInt64,
         rd_if ''flags'' 8 ''suggested_post'' readTLSuggestedPost,
         rd_if ''flags'' 9 ''rich_message'' readTLRichMessage])]"

definition writeTLDraftMessage :: tl_writer where
  "writeTLDraftMessage = write_fobject
     [(453805082, [wf ''_'' writeInt32, wf_flags ''flags'' [(''date'', 0)],
         wf_if ''flags'' 0 ''date'' writeInt32]),
      (1627271828, [wf ''_'' writeInt32, wf_flags ''flags'' [(''no_webpage'', 1),
         (''invert_media'', 6), (''reply_to'', 4), (''entities'', 3), (''media'', 5), (''effect'',
         7), (''suggested_post'', 8), (''rich_message'', 9)],
         wf_if ''flags'' 4 ''reply_to'' writeTLInputReplyTo, wf ''message'' writeString,
         wf_if ''flags'' 3 ''entities'' (writeVector (Some writeTLMessageEntity)),
         wf_if ''flags'' 5 ''media'' writeTLInputMedia, wf ''date'' writeInt32,
         wf_if ''flags'' 7 ''effect'' writeInt64,
         wf_if ''flags'' 8 ''suggested_post'' writeTLSuggestedPost,
         wf_if ''flags'' 9 ''rich_message'' writeTLRichMessage])]"

definition TL_DraftMessage_table :: flag_table where
  "TL_DraftMessage_table =
     [(453805082, [Flags ''flags'' [(''date'', 0)],
        Cond ''flags'' 0 (''date'', readInt32, writeInt32, enc_int32, is_VInt)]),
      (1627271828, [Flags ''flags'' [(''no_webpage'', 1), (''invert_media'', 6), (''reply_to'', 4),
         (''entities'', 3), (''media'', 5), (''effect'', 7), (''suggested_post'', 8),
         (''rich_message'', 9)],
        TrueBit ''flags'' 1 ''no_webpage'',
        TrueBit ''flags'' 6 ''invert_media'',
        Cond ''flags'' 4 (''reply_to'', readTLInputReplyTo, writeTLInputReplyTo,
         enc_fobject TL_InputReplyTo_table, ok_fobject TL_InputReplyTo_table),
        Plain (''message'', readString, writeString, enc_string, is_short_text),
        Cond ''flags'' 3 (''entities'', readVector (Some readTLMessageEntity),
         writeVector (Some writeTLMessageEntity), enc_vector (enc_fobject TL_MessageEntity_table),
         ok_vector (ok_fobject TL_MessageEntity_table)),
        Cond ''flags'' 5 (''media'', readTLInputMedia, writeTLInputMedia, enc_InputMedia,
         ok_InputMedia),
        Plain (''date'', readInt32, writeInt32, enc_int32, is_VInt),
        Cond ''flags'' 7 (''effect'', readInt64, writeInt64, enc_int64, is_VLong),
        Cond ''flags'' 8 (''suggested_post'', readTLSuggestedPost, writeTLSuggestedPost,
         enc_fobject TL_SuggestedPost_table, ok_fobject TL_SuggestedPost_table),
        Cond ''flags'' 9 (''rich_message'', readTLRichMessage, writeTLRichMessage,
         enc_fobject TL_RichMessage_table, ok_fobject TL_RichMessage_table)])]"

interpretation tl_DraftMessage: tl_codec readTLDraftMessage writeTLDraftMessage "enc_fobject TL_DraftMessage_table" "ok_fobject TL_DraftMessage_table"
  by (rule flag_schema_codec, unfold TL_DraftMessage_table_def, intro flag_tableI)
    (simp_all add: readTLDraftMessage_def writeTLDraftMessage_def flag_schema_simps tl_InputReplyTo.tl_codec_axioms tl_MessageEntity.tl_codec_axioms tl_InputMedia.tl_codec_axioms
      tl_SuggestedPost.tl_codec_axioms tl_RichMessage.tl_codec_axioms tl_MessageEntity.vector_codec)

definition readTLDialog :: tl_reader where
  "readTLDialog = read_object
     [(- 58066957, [rd ''flags'' readUInt32, set_if ''flags'' 2 ''pinned'',
         set_if ''flags'' 3 ''unread_mark'', set_if ''flags'' 6 ''view_forum_as_messages'',
         rd ''peer'' readTLPeer, rd ''top_message'' readInt32, rd ''read_inbox_max_id'' readInt32,
         rd ''read_outbox_max_id'' readInt32, rd ''unread_count'' readInt32,
         rd ''unread_mentions_count'' readInt32, rd ''unread_reactions_count'' readInt32,
         rd ''unread_poll_votes_count'' readInt32, rd ''notify_settings'' readTLPeerNotifySettings,
         rd_if ''flags'' 0 ''pts'' readInt32, rd_if ''flags'' 1 ''draft'' readTLDraftMessage,
         rd_if ''flags'' 4 ''folder_id'' readInt32, rd_if ''flags'' 5 ''ttl_period'' readInt32]),
      (1908216652, [rd ''flags'' readUInt32, set_if ''flags'' 2 ''pinned'',
         rd ''folder'' readTLFolder, rd ''peer'' readTLPeer, rd ''top_message'' readInt32,
         rd ''unread_muted_peers_count'' readInt32, rd ''unread_unmuted_peers_count'' readInt32,
         rd ''unread_muted_messages_count'' readInt32,
         rd ''unread_unmuted_messages_count'' readInt32]),
      (- 141948557, [rd ''flags'' readUInt32, set_if ''flags'' 2 ''pinned'',
         rd ''community_id'' readInt64, rd ''notify_settings'' readTLPeerNotifySettings])]"

definition writeTLDialog :: tl_writer where
  "writeTLDialog = write_fobject
     [(- 58066957, [wf ''_'' writeInt32, wf_flags ''flags'' [(''pinned'', 2), (''unread_mark'', 3),
         (''view_forum_as_messages'', 6), (''pts'', 0), (''draft'', 1), (''folder_id'', 4),
         (''ttl_period'', 5)], wf ''peer'' writeTLPeer, wf ''top_message'' writeInt32,
         wf ''read_inbox_max_id'' writeInt32, wf ''read_outbox_max_id'' writeInt32,
         wf ''unread_count'' writeInt32, wf ''unread_mentions_count'' writeInt32,
         wf ''unread_reactions_count'' writeInt32, wf ''unread_poll_votes_count'' writeInt32,
         wf ''notify_settings'' writeTLPeerNotifySettings, wf_if ''flags'' 0 ''pts'' writeInt32,
         wf_if ''flags'' 1 ''draft'' writeTLDraftMessage,
         wf_if ''flags'' 4 ''folder_id'' writeInt32, wf_if ''flags'' 5 ''ttl_period'' writeInt32]),
      (1908216652, [wf ''_'' writeInt32, wf_flags ''flags'' [(''pinned'', 2)],
         wf ''folder'' writeTLFolder, wf ''peer'' writeTLPeer, wf ''top_message'' writeInt32,
         wf ''unread_muted_peers_count'' writeInt32, wf ''unread_unmuted_peers_count'' writeInt32,
         wf ''unread_muted_messages_count'' writeInt32,
         wf ''unread_unmuted_messages_count'' writeInt32]),
      (- 141948557, [wf ''_'' writeInt32, wf_flags ''flags'' [(''pinned'', 2)],
         wf ''community_id'' writeInt64, wf ''notify_settings'' writeTLPeerNotifySettings])]"

definition TL_Dialog_table :: flag_table where
  "TL_Dialog_table =
     [(- 58066957, [Flags ''flags'' [(''pinned'', 2), (''unread_mark'', 3),
         (''view_forum_as_messages'', 6), (''pts'', 0), (''draft'', 1), (''folder_id'', 4),
         (''ttl_period'', 5)],
        TrueBit ''flags'' 2 ''pinned'',
        TrueBit ''flags'' 3 ''unread_mark'',
        TrueBit ''flags'' 6 ''view_forum_as_messages'',
        Plain (''peer'', readTLPeer, writeTLPeer, enc_fobject TL_Peer_table,
         ok_fobject TL_Peer_table),
        Plain (''top_message'', readInt32, writeInt32, enc_int32, is_VInt),
        Plain (''read_inbox_max_id'', readInt32, writeInt32, enc_int32, is_VInt),
        Plain (''read_outbox_max_id'', readInt32, writeInt32, enc_int32, is_VInt),
        Plain (''unread_count'', readInt32, writeInt32, enc_int32, is_VInt),
        Plain (''unread_mentions_count'', readInt32, writeInt32, enc_int32, is_VInt),
        Plain (''unread_reactions_count'', readInt32, writeInt32, enc_int32, is_VInt),
        Plain (''unread_poll_votes_count'', readInt32, writeInt32, enc_int32, is_VInt),
        Plain (''notify_settings'', readTLPeerNotifySettings, writeTLPeerNotifySettings,
         enc_fobject TL_PeerNotifySettings_table, ok_fobject TL_PeerNotifySettings_table),
        Cond ''flags'' 0 (''pts'', readInt32, writeInt32, enc_int32, is_VInt),
        Cond ''flags'' 1 (''draft'', readTLDraftMessage, writeTLDraftMessage,
         enc_fobject TL_DraftMessage_table, ok_fobject TL_DraftMessage_table),
        Cond ''flags'' 4 (''folder_id'', readInt32, writeInt32, enc_int32, is_VInt),
        Cond ''flags'' 5 (''ttl_period'', readInt32, writeInt32, enc_int32, is_VInt)]),
      (1908216652, [Flags ''flags'' [(''pinned'', 2)],
        TrueBit ''flags'' 2 ''pinned'',
        Plain (''folder'', readTLFolder, writeTLFolder, enc_fobject TL_Folder_table,
         ok_fobject TL_Folder_table),
        Plain (''peer'', readTLPeer, writeTLPeer, enc_fobject TL_Peer_table,
         ok_fobject TL_Peer_table),
        Plain (''top_message'', readInt32, writeInt32, enc_int32, is_VInt),
        Plain (''unread_muted_peers_count'', readInt32, writeInt32, enc_int32, is_VInt),
        Plain (''unread_unmuted_peers_count'', readInt32, writeInt32, enc_int32, is_VInt),
        Plain (''unread_muted_messages_count'', readInt32, writeInt32, enc_int32, is_VInt),
        Plain (''unread_unmuted_messages_count'', readInt32, writeInt32, enc_int32, is_VInt)]),
      (- 141948557, [Flags ''flags'' [(''pinned'', 2)],
        TrueBit ''flags'' 2 ''pinned'',
        Plain (''community_id'', readInt64, writeInt64, enc_int64, is_VLong),
        Plain (''notify_settings'', readTLPeerNotifySettings, writeTLPeerNotifySettings,
         enc_fobject TL_PeerNotifySettings_table, ok_fobject TL_PeerNotifySettings_table)])]"

interpretation tl_Dialog: tl_codec readTLDialog writeTLDialog "enc_fobject TL_Dialog_table" "ok_fobject TL_Dialog_table"
  by (rule flag_schema_codec, unfold TL_Dialog_table_def, intro flag_tableI)
    (simp_all add: readTLDialog_def writeTLDialog_def flag_schema_simps tl_Peer.tl_codec_axioms tl_PeerNotifySettings.tl_codec_axioms tl_DraftMessage.tl_codec_axioms
      tl_Folder.tl_codec_axioms)

definition readTLBusinessLocation :: tl_reader where
  "readTLBusinessLocation = read_object
     [(- 1403249929, [rd ''flags'' readUInt32, rd_if ''flags'' 0 ''geo_point'' readTLGeoPoint,
         rd ''address'' readString])]"

definition writeTLBusinessLocation :: tl_writer where
  "writeTLBusinessLocation = write_fobject
     [(- 1403249929, [wf ''_'' writeInt32, wf_flags ''flags'' [(''geo_point'', 0)],
         wf_if ''flags'' 0 ''geo_point'' writeTLGeoPoint, wf ''address'' writeString])]"

definition TL_BusinessLocation_table :: flag_table where
  "TL_BusinessLocation_table =
     [(- 1403249929, [Flags ''flags'' [(''geo_point'', 0)],
        Cond ''flags'' 0 (''geo_point'', readTLGeoPoint, writeTLGeoPoint,
         enc_fobject TL_GeoPoint_table, ok_fobject TL_GeoPoint_table),
        Plain (''address'', readString, writeString, enc_string, is_short_text)])]"

interpretation tl_BusinessLocation: tl_codec readTLBusinessLocation writeTLBusinessLocation "enc_fobject TL_BusinessLocation_table" "ok_fobject TL_BusinessLocation_table"
  by (rule flag_schema_codec, unfold TL_BusinessLocation_table_def, intro flag_tableI)
    (simp_all add: readTLBusinessLocation_def writeTLBusinessLocation_def flag_schema_simps tl_GeoPoint.tl_codec_axioms)

definition readTLBusinessIntro :: tl_reader where
  "readTLBusinessIntro = read_object
     [(1510606445, [rd ''flags'' readUInt32, rd ''title'' readString,
         rd ''description'' readString, rd_if ''flags'' 0 ''sticker'' readTLDocument])]"

definition writeTLBusinessIntro :: tl_writer where
  "writeTLBusinessIntro = write_fobject
     [(1510606445, [wf ''_'' writeInt32, wf_flags ''flags'' [(''sticker'', 0)],
         wf ''title'' writeString, wf ''description'' writeString,
         wf_if ''flags'' 0 ''sticker'' writeTLDocument])]"

definition TL_BusinessIntro_table :: flag_table where
  "TL_BusinessIntro_table =
     [(1510606445, [Flags ''flags'' [(''sticker'', 0)],
        Plain (''title'', readString, writeString, enc_string, is_short_text),
        Plain (''description'', readString, writeString, enc_string, is_short_text),
        Cond ''flags'' 0 (''sticker'', readTLDocument, writeTLDocument,
         enc_fobject TL_Document_table, ok_fobject TL_Document_table)])]"

interpretation tl_BusinessIntro: tl_codec readTLBusinessIntro writeTLBusinessIntro "enc_fobject TL_BusinessIntro_table" "ok_fobject TL_BusinessIntro_table"
  by (rule flag_schema_codec, unfold TL_BusinessIntro_table_def, intro flag_tableI)
    (simp_all add: readTLBusinessIntro_def writeTLBusinessIntro_def flag_schema_simps tl_Document.tl_codec_axioms)

end
