(* ===== verification/TlTypes6.thy ===== *)
theory TlTypes6
  imports TlTypes5
begin

section \<open>The API schema, types that reach recursive ones: libkg/tlschema.cpp\<close>

text \<open>
  Readers and writers of the types UserFull to Update, in dependency order. Each type has its table and the interpretation of the codec contract;
  a group of types that refer to one another gets it from \<open>tl_recursion\<close>.
\<close>

definition readTLUserFull :: tl_reader where
  "readTLUserFull = read_object
     [(114026053, [rd ''flags'' readUInt32, set_if ''flags'' 0 ''blocked'',
         set_if ''flags'' 4 ''phone_calls_available'', set_if ''flags'' 5 ''phone_calls_private'',
         set_if ''flags'' 7 ''can_pin_message'', set_if ''flags'' 12 ''has_scheduled'',
         set_if ''flags'' 13 ''video_calls_available'',
         set_if ''flags'' 20 ''voice_messages_forbidden'',
         set_if ''flags'' 23 ''translations_disabled'',
         set_if ''flags'' 26 ''stories_pinned_available'',
         set_if ''flags'' 27 ''blocked_my_stories_from'',
         set_if ''flags'' 28 ''wallpaper_overridden'',
         set_if ''flags'' 29 ''contact_require_premium'',
         set_if ''flags'' 30 ''read_dates_private'', rd ''flags2'' readUInt32,
         set_if ''flags2'' 7 ''sponsored_enabled'', set_if ''flags2'' 9 ''can_view_revenue'',
         set_if ''flags2'' 10 ''bot_can_manage_emoji_status'',
         set_if ''flags2'' 16 ''display_gifts_button'',
         set_if ''flags2'' 23 ''noforwards_my_enabled'',
         set_if ''flags2'' 24 ''noforwards_peer_enabled'',
         set_if ''flags2'' 26 ''unofficial_security_risk'', rd ''id'' readInt64,
         rd_if ''flags'' 1 ''about'' readString, rd ''settings'' readTLPeerSettings,
         rd_if ''flags'' 21 ''personal_photo'' readTLPhoto,
         rd_if ''flags'' 2 ''profile_photo'' readTLPhoto,
         rd_if ''flags'' 22 ''fallback_photo'' readTLPhoto,
         rd ''notify_settings'' readTLPeerNotifySettings,
         rd_if ''flags'' 3 ''bot_info'' readTLBotInfo,
         rd_if ''flags'' 6 ''pinned_msg_id'' readInt32, rd ''common_chats_count'' readInt32,
         rd_if ''flags'' 11 ''folder_id'' readInt32, rd_if ''flags'' 14 ''ttl_period'' readInt32,
         rd_if ''flags'' 15 ''theme'' readTLChatTheme,
         rd_if ''flags'' 16 ''private_forward_name'' readString,
         rd_if ''flags'' 17 ''bot_group_admin_rights'' readTLChatAdminRights,
         rd_if ''flags'' 18 ''bot_broadcast_admin_rights'' readTLChatAdminRights,
         rd_if ''flags'' 24 ''wallpaper'' readTLWallPaper,
         rd_if ''flags'' 25 ''stories'' readTLPeerStories,
         rd_if ''flags2'' 0 ''business_work_hours'' readTLBusinessWorkHours,
         rd_if ''flags2'' 1 ''business_location'' readTLBusinessLocation,
         rd_if ''flags2'' 2 ''business_greeting_message'' readTLBusinessGreetingMessage,
         rd_if ''flags2'' 3 ''business_away_message'' readTLBusinessAwayMessage,
         rd_if ''flags2'' 4 ''business_intro'' readTLBusinessIntro,
         rd_if ''flags2'' 5 ''birthday'' readTLBirthday,
         rd_if ''flags2'' 6 ''personal_channel_id'' readInt64,
         rd_if ''flags2'' 6 ''personal_channel_message'' readInt32,
         rd_if ''flags2'' 8 ''stargifts_count'' readInt32,
         rd_if ''flags2'' 11 ''starref_program'' readTLStarRefProgram,
         rd_if ''flags2'' 12 ''bot_verification'' readTLBotVerification,
         rd_if ''flags2'' 14 ''send_paid_messages_stars'' readInt64,
         rd_if ''flags2'' 15 ''disallowed_gifts'' readTLDisallowedGiftsSettings,
         rd_if ''flags2'' 17 ''stars_rating'' readTLStarsRating,
         rd_if ''flags2'' 18 ''stars_my_pending_rating'' readTLStarsRating,
         rd_if ''flags2'' 18 ''stars_my_pending_rating_date'' readInt32,
         rd_if ''flags2'' 20 ''main_tab'' readTLProfileTab,
         rd_if ''flags2'' 21 ''saved_music'' readTLDocument,
         rd_if ''flags2'' 22 ''note'' readTLTextWithEntities,
         rd_if ''flags2'' 25 ''bot_manager_id'' readInt64])]"

definition writeTLUserFull :: tl_writer where
  "writeTLUserFull = write_fobject
     [(114026053, [wf ''_'' writeInt32, wf_flags ''flags'' [(''blocked'', 0),
         (''phone_calls_available'', 4), (''phone_calls_private'', 5), (''can_pin_message'', 7),
         (''has_scheduled'', 12), (''video_calls_available'', 13), (''voice_messages_forbidden'',
         20), (''translations_disabled'', 23), (''stories_pinned_available'', 26),
         (''blocked_my_stories_from'', 27), (''wallpaper_overridden'', 28),
         (''contact_require_premium'', 29), (''read_dates_private'', 30), (''about'', 1),
         (''personal_photo'', 21), (''profile_photo'', 2), (''fallback_photo'', 22), (''bot_info'',
         3), (''pinned_msg_id'', 6), (''folder_id'', 11), (''ttl_period'', 14), (''theme'', 15),
         (''private_forward_name'', 16), (''bot_group_admin_rights'', 17),
         (''bot_broadcast_admin_rights'', 18), (''wallpaper'', 24), (''stories'', 25)],
         wf_flags ''flags2'' [(''sponsored_enabled'', 7), (''can_view_revenue'', 9),
         (''bot_can_manage_emoji_status'', 10), (''display_gifts_button'', 16),
         (''noforwards_my_enabled'', 23), (''noforwards_peer_enabled'', 24),
         (''unofficial_security_risk'', 26), (''business_work_hours'', 0), (''business_location'',
         1), (''business_greeting_message'', 2), (''business_away_message'', 3),
         (''business_intro'', 4), (''birthday'', 5), (''personal_channel_id'', 6),
         (''personal_channel_message'', 6), (''stargifts_count'', 8), (''starref_program'', 11),
         (''bot_verification'', 12), (''send_paid_messages_stars'', 14), (''disallowed_gifts'',
         15), (''stars_rating'', 17), (''stars_my_pending_rating'', 18),
         (''stars_my_pending_rating_date'', 18), (''main_tab'', 20), (''saved_music'', 21),
         (''note'', 22), (''bot_manager_id'', 25)], wf ''id'' writeInt64,
         wf_if ''flags'' 1 ''about'' writeString, wf ''settings'' writeTLPeerSettings,
         wf_if ''flags'' 21 ''personal_photo'' writeTLPhoto,
         wf_if ''flags'' 2 ''profile_photo'' writeTLPhoto,
         wf_if ''flags'' 22 ''fallback_photo'' writeTLPhoto,
         wf ''notify_settings'' writeTLPeerNotifySettings,
         wf_if ''flags'' 3 ''bot_info'' writeTLBotInfo,
         wf_if ''flags'' 6 ''pinned_msg_id'' writeInt32, wf ''common_chats_count'' writeInt32,
         wf_if ''flags'' 11 ''folder_id'' writeInt32, wf_if ''flags'' 14 ''ttl_period'' writeInt32,
         wf_if ''flags'' 15 ''theme'' writeTLChatTheme,
         wf_if ''flags'' 16 ''private_forward_name'' writeString,
         wf_if ''flags'' 17 ''bot_group_admin_rights'' writeTLChatAdminRights,
         wf_if ''flags'' 18 ''bot_broadcast_admin_rights'' writeTLChatAdminRights,
         wf_if ''flags'' 24 ''wallpaper'' writeTLWallPaper,
         wf_if ''flags'' 25 ''stories'' writeTLPeerStories,
         wf_if ''flags2'' 0 ''business_work_hours'' writeTLBusinessWorkHours,
         wf_if ''flags2'' 1 ''business_location'' writeTLBusinessLocation,
         wf_if ''flags2'' 2 ''business_greeting_message'' writeTLBusinessGreetingMessage,
         wf_if ''flags2'' 3 ''business_away_message'' writeTLBusinessAwayMessage,
         wf_if ''flags2'' 4 ''business_intro'' writeTLBusinessIntro,
         wf_if ''flags2'' 5 ''birthday'' writeTLBirthday,
         wf_if ''flags2'' 6 ''personal_channel_id'' writeInt64,
         wf_if ''flags2'' 6 ''personal_channel_message'' writeInt32,
         wf_if ''flags2'' 8 ''stargifts_count'' writeInt32,
         wf_if ''flags2'' 11 ''starref_program'' writeTLStarRefProgram,
         wf_if ''flags2'' 12 ''bot_verification'' writeTLBotVerification,
         wf_if ''flags2'' 14 ''send_paid_messages_stars'' writeInt64,
         wf_if ''flags2'' 15 ''disallowed_gifts'' writeTLDisallowedGiftsSettings,
         wf_if ''flags2'' 17 ''stars_rating'' writeTLStarsRating,
         wf_if ''flags2'' 18 ''stars_my_pending_rating'' writeTLStarsRating,
         wf_if ''flags2'' 18 ''stars_my_pending_rating_date'' writeInt32,
         wf_if ''flags2'' 20 ''main_tab'' writeTLProfileTab,
         wf_if ''flags2'' 21 ''saved_music'' writeTLDocument,
         wf_if ''flags2'' 22 ''note'' writeTLTextWithEntities,
         wf_if ''flags2'' 25 ''bot_manager_id'' writeInt64])]"

definition TL_UserFull_table :: flag_table where
  "TL_UserFull_table =
     [(114026053, [Flags ''flags'' [(''blocked'', 0), (''phone_calls_available'', 4),
         (''phone_calls_private'', 5), (''can_pin_message'', 7), (''has_scheduled'', 12),
         (''video_calls_available'', 13), (''voice_messages_forbidden'', 20),
         (''translations_disabled'', 23), (''stories_pinned_available'', 26),
         (''blocked_my_stories_from'', 27), (''wallpaper_overridden'', 28),
         (''contact_require_premium'', 29), (''read_dates_private'', 30), (''about'', 1),
         (''personal_photo'', 21), (''profile_photo'', 2), (''fallback_photo'', 22), (''bot_info'',
         3), (''pinned_msg_id'', 6), (''folder_id'', 11), (''ttl_period'', 14), (''theme'', 15),
         (''private_forward_name'', 16), (''bot_group_admin_rights'', 17),
         (''bot_broadcast_admin_rights'', 18), (''wallpaper'', 24), (''stories'', 25)],
        TrueBit ''flags'' 0 ''blocked'',
        TrueBit ''flags'' 4 ''phone_calls_available'',
        TrueBit ''flags'' 5 ''phone_calls_private'',
        TrueBit ''flags'' 7 ''can_pin_message'',
        TrueBit ''flags'' 12 ''has_scheduled'',
        TrueBit ''flags'' 13 ''video_calls_available'',
        TrueBit ''flags'' 20 ''voice_messages_forbidden'',
        TrueBit ''flags'' 23 ''translations_disabled'',
        TrueBit ''flags'' 26 ''stories_pinned_available'',
        TrueBit ''flags'' 27 ''blocked_my_stories_from'',
        TrueBit ''flags'' 28 ''wallpaper_overridden'',
        TrueBit ''flags'' 29 ''contact_require_premium'',
        TrueBit ''flags'' 30 ''read_dates_private'',
        Flags ''flags2'' [(''sponsored_enabled'', 7), (''can_view_revenue'', 9),
         (''bot_can_manage_emoji_status'', 10), (''display_gifts_button'', 16),
         (''noforwards_my_enabled'', 23), (''noforwards_peer_enabled'', 24),
         (''unofficial_security_risk'', 26), (''business_work_hours'', 0), (''business_location'',
         1), (''business_greeting_message'', 2), (''business_away_message'', 3),
         (''business_intro'', 4), (''birthday'', 5), (''personal_channel_id'', 6),
         (''personal_channel_message'', 6), (''stargifts_count'', 8), (''starref_program'', 11),
         (''bot_verification'', 12), (''send_paid_messages_stars'', 14), (''disallowed_gifts'',
         15), (''stars_rating'', 17), (''stars_my_pending_rating'', 18),
         (''stars_my_pending_rating_date'', 18), (''main_tab'', 20), (''saved_music'', 21),
         (''note'', 22), (''bot_manager_id'', 25)],
        TrueBit ''flags2'' 7 ''sponsored_enabled'',
        TrueBit ''flags2'' 9 ''can_view_revenue'',
        TrueBit ''flags2'' 10 ''bot_can_manage_emoji_status'',
        TrueBit ''flags2'' 16 ''display_gifts_button'',
        TrueBit ''flags2'' 23 ''noforwards_my_enabled'',
        TrueBit ''flags2'' 24 ''noforwards_peer_enabled'',
        TrueBit ''flags2'' 26 ''unofficial_security_risk'',
        Plain (''id'', readInt64, writeInt64, enc_int64, is_VLong),
        Cond ''flags'' 1 (''about'', readString, writeString, enc_string, is_short_text),
        Plain (''settings'', readTLPeerSettings, writeTLPeerSettings,
         enc_fobject TL_PeerSettings_table, ok_fobject TL_PeerSettings_table),
        Cond ''flags'' 21 (''personal_photo'', readTLPhoto, writeTLPhoto,
         enc_fobject TL_Photo_table, ok_fobject TL_Photo_table),
        Cond ''flags'' 2 (''profile_photo'', readTLPhoto, writeTLPhoto, enc_fobject TL_Photo_table,
         ok_fobject TL_Photo_table),
        Cond ''flags'' 22 (''fallback_photo'', readTLPhoto, writeTLPhoto,
         enc_fobject TL_Photo_table, ok_fobject TL_Photo_table),
        Plain (''notify_settings'', readTLPeerNotifySettings, writeTLPeerNotifySettings,
         enc_fobject TL_PeerNotifySettings_table, ok_fobject TL_PeerNotifySettings_table),
        Cond ''flags'' 3 (''bot_info'', readTLBotInfo, writeTLBotInfo,
         enc_fobject TL_BotInfo_table, ok_fobject TL_BotInfo_table),
        Cond ''flags'' 6 (''pinned_msg_id'', readInt32, writeInt32, enc_int32, is_VInt),
        Plain (''common_chats_count'', readInt32, writeInt32, enc_int32, is_VInt),
        Cond ''flags'' 11 (''folder_id'', readInt32, writeInt32, enc_int32, is_VInt),
        Cond ''flags'' 14 (''ttl_period'', readInt32, writeInt32, enc_int32, is_VInt),
        Cond ''flags'' 15 (''theme'', readTLChatTheme, writeTLChatTheme,
         enc_fobject TL_ChatTheme_table, ok_fobject TL_ChatTheme_table),
        Cond ''flags'' 16 (''private_forward_name'', readString, writeString, enc_string,
         is_short_text),
        Cond ''flags'' 17 (''bot_group_admin_rights'', readTLChatAdminRights,
         writeTLChatAdminRights, enc_fobject TL_ChatAdminRights_table,
         ok_fobject TL_ChatAdminRights_table),
        Cond ''flags'' 18 (''bot_broadcast_admin_rights'', readTLChatAdminRights,
         writeTLChatAdminRights, enc_fobject TL_ChatAdminRights_table,
         ok_fobject TL_ChatAdminRights_table),
        Cond ''flags'' 24 (''wallpaper'', readTLWallPaper, writeTLWallPaper,
         enc_fobject TL_WallPaper_table, ok_fobject TL_WallPaper_table),
        Cond ''flags'' 25 (''stories'', readTLPeerStories, writeTLPeerStories,
         enc_fobject TL_PeerStories_table, ok_fobject TL_PeerStories_table),
        Cond ''flags2'' 0 (''business_work_hours'', readTLBusinessWorkHours,
         writeTLBusinessWorkHours, enc_fobject TL_BusinessWorkHours_table,
         ok_fobject TL_BusinessWorkHours_table),
        Cond ''flags2'' 1 (''business_location'', readTLBusinessLocation, writeTLBusinessLocation,
         enc_fobject TL_BusinessLocation_table, ok_fobject TL_BusinessLocation_table),
        Cond ''flags2'' 2 (''business_greeting_message'', readTLBusinessGreetingMessage,
         writeTLBusinessGreetingMessage, enc_fobject TL_BusinessGreetingMessage_table,
         ok_fobject TL_BusinessGreetingMessage_table),
        Cond ''flags2'' 3 (''business_away_message'', readTLBusinessAwayMessage,
         writeTLBusinessAwayMessage, enc_fobject TL_BusinessAwayMessage_table,
         ok_fobject TL_BusinessAwayMessage_table),
        Cond ''flags2'' 4 (''business_intro'', readTLBusinessIntro, writeTLBusinessIntro,
         enc_fobject TL_BusinessIntro_table, ok_fobject TL_BusinessIntro_table),
        Cond ''flags2'' 5 (''birthday'', readTLBirthday, writeTLBirthday,
         enc_fobject TL_Birthday_table, ok_fobject TL_Birthday_table),
        Cond ''flags2'' 6 (''personal_channel_id'', readInt64, writeInt64, enc_int64, is_VLong),
        Cond ''flags2'' 6 (''personal_channel_message'', readInt32, writeInt32, enc_int32, is_VInt),
        Cond ''flags2'' 8 (''stargifts_count'', readInt32, writeInt32, enc_int32, is_VInt),
        Cond ''flags2'' 11 (''starref_program'', readTLStarRefProgram, writeTLStarRefProgram,
         enc_fobject TL_StarRefProgram_table, ok_fobject TL_StarRefProgram_table),
        Cond ''flags2'' 12 (''bot_verification'', readTLBotVerification, writeTLBotVerification,
         enc_fobject TL_BotVerification_table, ok_fobject TL_BotVerification_table),
        Cond ''flags2'' 14 (''send_paid_messages_stars'', readInt64, writeInt64, enc_int64,
         is_VLong),
        Cond ''flags2'' 15 (''disallowed_gifts'', readTLDisallowedGiftsSettings,
         writeTLDisallowedGiftsSettings, enc_fobject TL_DisallowedGiftsSettings_table,
         ok_fobject TL_DisallowedGiftsSettings_table),
        Cond ''flags2'' 17 (''stars_rating'', readTLStarsRating, writeTLStarsRating,
         enc_fobject TL_StarsRating_table, ok_fobject TL_StarsRating_table),
        Cond ''flags2'' 18 (''stars_my_pending_rating'', readTLStarsRating, writeTLStarsRating,
         enc_fobject TL_StarsRating_table, ok_fobject TL_StarsRating_table),
        Cond ''flags2'' 18 (''stars_my_pending_rating_date'', readInt32, writeInt32, enc_int32,
         is_VInt),
        Cond ''flags2'' 20 (''main_tab'', readTLProfileTab, writeTLProfileTab,
         enc_fobject TL_ProfileTab_table, ok_fobject TL_ProfileTab_table),
        Cond ''flags2'' 21 (''saved_music'', readTLDocument, writeTLDocument,
         enc_fobject TL_Document_table, ok_fobject TL_Document_table),
        Cond ''flags2'' 22 (''note'', readTLTextWithEntities, writeTLTextWithEntities,
         enc_fobject TL_TextWithEntities_table, ok_fobject TL_TextWithEntities_table),
        Cond ''flags2'' 25 (''bot_manager_id'', readInt64, writeInt64, enc_int64, is_VLong)])]"

interpretation tl_UserFull: tl_codec readTLUserFull writeTLUserFull "enc_fobject TL_UserFull_table" "ok_fobject TL_UserFull_table"
  by (rule flag_schema_codec, unfold TL_UserFull_table_def, intro flag_tableI)
    (simp_all add: readTLUserFull_def writeTLUserFull_def flag_schema_simps tl_PeerSettings.tl_codec_axioms tl_Photo.tl_codec_axioms tl_PeerNotifySettings.tl_codec_axioms
      tl_BotInfo.tl_codec_axioms tl_ChatTheme.tl_codec_axioms tl_ChatAdminRights.tl_codec_axioms
      tl_WallPaper.tl_codec_axioms tl_PeerStories.tl_codec_axioms tl_BusinessWorkHours.tl_codec_axioms
      tl_BusinessLocation.tl_codec_axioms tl_BusinessGreetingMessage.tl_codec_axioms
      tl_BusinessAwayMessage.tl_codec_axioms tl_BusinessIntro.tl_codec_axioms tl_Birthday.tl_codec_axioms
      tl_StarRefProgram.tl_codec_axioms tl_BotVerification.tl_codec_axioms
      tl_DisallowedGiftsSettings.tl_codec_axioms tl_StarsRating.tl_codec_axioms
      tl_ProfileTab.tl_codec_axioms tl_Document.tl_codec_axioms tl_TextWithEntities.tl_codec_axioms)

definition readTLMessagesDialogs :: tl_reader where
  "readTLMessagesDialogs = read_object
     [(364538944, [rd ''dialogs'' (readVector (Some readTLDialog)),
         rd ''messages'' (readVector (Some readTLMessage)),
         rd ''chats'' (readVector (Some readTLChat)), rd ''users'' (readVector (Some readTLUser))]),
      (1910543603, [rd ''count'' readInt32, rd ''dialogs'' (readVector (Some readTLDialog)),
         rd ''messages'' (readVector (Some readTLMessage)),
         rd ''chats'' (readVector (Some readTLChat)), rd ''users'' (readVector (Some readTLUser))]),
      (- 253500010, [rd ''count'' readInt32])]"

definition writeTLMessagesDialogs :: tl_writer where
  "writeTLMessagesDialogs = write_fobject
     [(364538944, [wf ''_'' writeInt32, wf ''dialogs'' (writeVector (Some writeTLDialog)),
         wf ''messages'' (writeVector (Some writeTLMessage)),
         wf ''chats'' (writeVector (Some writeTLChat)),
         wf ''users'' (writeVector (Some writeTLUser))]),
      (1910543603, [wf ''_'' writeInt32, wf ''count'' writeInt32,
         wf ''dialogs'' (writeVector (Some writeTLDialog)),
         wf ''messages'' (writeVector (Some writeTLMessage)),
         wf ''chats'' (writeVector (Some writeTLChat)),
         wf ''users'' (writeVector (Some writeTLUser))]),
      (- 253500010, [wf ''_'' writeInt32, wf ''count'' writeInt32])]"

definition TL_MessagesDialogs_table :: flag_table where
  "TL_MessagesDialogs_table =
     [(364538944, [Plain (''dialogs'', readVector (Some readTLDialog),
         writeVector (Some writeTLDialog), enc_vector (enc_fobject TL_Dialog_table),
         ok_vector (ok_fobject TL_Dialog_table)),
        Plain (''messages'', readVector (Some readTLMessage), writeVector (Some writeTLMessage),
         enc_vector (enc_fobject TL_Message_table), ok_vector (ok_fobject TL_Message_table)),
        Plain (''chats'', readVector (Some readTLChat), writeVector (Some writeTLChat),
         enc_vector (enc_fobject TL_Chat_table), ok_vector (ok_fobject TL_Chat_table)),
        Plain (''users'', readVector (Some readTLUser), writeVector (Some writeTLUser),
         enc_vector (enc_fobject TL_User_table), ok_vector (ok_fobject TL_User_table))]),
      (1910543603, [Plain (''count'', readInt32, writeInt32, enc_int32, is_VInt),
        Plain (''dialogs'', readVector (Some readTLDialog), writeVector (Some writeTLDialog),
         enc_vector (enc_fobject TL_Dialog_table), ok_vector (ok_fobject TL_Dialog_table)),
        Plain (''messages'', readVector (Some readTLMessage), writeVector (Some writeTLMessage),
         enc_vector (enc_fobject TL_Message_table), ok_vector (ok_fobject TL_Message_table)),
        Plain (''chats'', readVector (Some readTLChat), writeVector (Some writeTLChat),
         enc_vector (enc_fobject TL_Chat_table), ok_vector (ok_fobject TL_Chat_table)),
        Plain (''users'', readVector (Some readTLUser), writeVector (Some writeTLUser),
         enc_vector (enc_fobject TL_User_table), ok_vector (ok_fobject TL_User_table))]),
      (- 253500010, [Plain (''count'', readInt32, writeInt32, enc_int32, is_VInt)])]"

interpretation tl_MessagesDialogs: tl_codec readTLMessagesDialogs writeTLMessagesDialogs "enc_fobject TL_MessagesDialogs_table" "ok_fobject TL_MessagesDialogs_table"
  by (rule flag_schema_codec, unfold TL_MessagesDialogs_table_def, intro flag_tableI)
    (simp_all add: readTLMessagesDialogs_def writeTLMessagesDialogs_def flag_schema_simps tl_Dialog.tl_codec_axioms tl_Message.tl_codec_axioms tl_Chat.tl_codec_axioms tl_User.tl_codec_axioms
      tl_Dialog.vector_codec tl_Message.vector_codec tl_Chat.vector_codec tl_User.vector_codec)

definition readTLForumTopic :: tl_reader where
  "readTLForumTopic = read_object
     [(37687451, [rd ''id'' readInt32]),
      (- 52766699, [rd ''flags'' readUInt32, set_if ''flags'' 1 ''my'',
         set_if ''flags'' 2 ''closed'', set_if ''flags'' 3 ''pinned'',
         set_if ''flags'' 5 ''short'', set_if ''flags'' 6 ''hidden'',
         set_if ''flags'' 7 ''title_missing'', rd ''id'' readInt32, rd ''date'' readInt32,
         rd ''peer'' readTLPeer, rd ''title'' readString, rd ''icon_color'' readInt32,
         rd_if ''flags'' 0 ''icon_emoji_id'' readInt64, rd ''top_message'' readInt32,
         rd ''read_inbox_max_id'' readInt32, rd ''read_outbox_max_id'' readInt32,
         rd ''unread_count'' readInt32, rd ''unread_mentions_count'' readInt32,
         rd ''unread_reactions_count'' readInt32, rd ''unread_poll_votes_count'' readInt32,
         rd ''from_id'' readTLPeer, rd ''notify_settings'' readTLPeerNotifySettings,
         rd_if ''flags'' 4 ''draft'' readTLDraftMessage])]"

definition writeTLForumTopic :: tl_writer where
  "writeTLForumTopic = write_fobject
     [(37687451, [wf ''_'' writeInt32, wf ''id'' writeInt32]),
      (- 52766699, [wf ''_'' writeInt32, wf_flags ''flags'' [(''my'', 1), (''closed'', 2),
         (''pinned'', 3), (''short'', 5), (''hidden'', 6), (''title_missing'', 7),
         (''icon_emoji_id'', 0), (''draft'', 4)], wf ''id'' writeInt32, wf ''date'' writeInt32,
         wf ''peer'' writeTLPeer, wf ''title'' writeString, wf ''icon_color'' writeInt32,
         wf_if ''flags'' 0 ''icon_emoji_id'' writeInt64, wf ''top_message'' writeInt32,
         wf ''read_inbox_max_id'' writeInt32, wf ''read_outbox_max_id'' writeInt32,
         wf ''unread_count'' writeInt32, wf ''unread_mentions_count'' writeInt32,
         wf ''unread_reactions_count'' writeInt32, wf ''unread_poll_votes_count'' writeInt32,
         wf ''from_id'' writeTLPeer, wf ''notify_settings'' writeTLPeerNotifySettings,
         wf_if ''flags'' 4 ''draft'' writeTLDraftMessage])]"

definition TL_ForumTopic_table :: flag_table where
  "TL_ForumTopic_table =
     [(37687451, [Plain (''id'', readInt32, writeInt32, enc_int32, is_VInt)]),
      (- 52766699, [Flags ''flags'' [(''my'', 1), (''closed'', 2), (''pinned'', 3), (''short'', 5),
         (''hidden'', 6), (''title_missing'', 7), (''icon_emoji_id'', 0), (''draft'', 4)],
        TrueBit ''flags'' 1 ''my'',
        TrueBit ''flags'' 2 ''closed'',
        TrueBit ''flags'' 3 ''pinned'',
        TrueBit ''flags'' 5 ''short'',
        TrueBit ''flags'' 6 ''hidden'',
        TrueBit ''flags'' 7 ''title_missing'',
        Plain (''id'', readInt32, writeInt32, enc_int32, is_VInt),
        Plain (''date'', readInt32, writeInt32, enc_int32, is_VInt),
        Plain (''peer'', readTLPeer, writeTLPeer, enc_fobject TL_Peer_table,
         ok_fobject TL_Peer_table),
        Plain (''title'', readString, writeString, enc_string, is_short_text),
        Plain (''icon_color'', readInt32, writeInt32, enc_int32, is_VInt),
        Cond ''flags'' 0 (''icon_emoji_id'', readInt64, writeInt64, enc_int64, is_VLong),
        Plain (''top_message'', readInt32, writeInt32, enc_int32, is_VInt),
        Plain (''read_inbox_max_id'', readInt32, writeInt32, enc_int32, is_VInt),
        Plain (''read_outbox_max_id'', readInt32, writeInt32, enc_int32, is_VInt),
        Plain (''unread_count'', readInt32, writeInt32, enc_int32, is_VInt),
        Plain (''unread_mentions_count'', readInt32, writeInt32, enc_int32, is_VInt),
        Plain (''unread_reactions_count'', readInt32, writeInt32, enc_int32, is_VInt),
        Plain (''unread_poll_votes_count'', readInt32, writeInt32, enc_int32, is_VInt),
        Plain (''from_id'', readTLPeer, writeTLPeer, enc_fobject TL_Peer_table,
         ok_fobject TL_Peer_table),
        Plain (''notify_settings'', readTLPeerNotifySettings, writeTLPeerNotifySettings,
         enc_fobject TL_PeerNotifySettings_table, ok_fobject TL_PeerNotifySettings_table),
        Cond ''flags'' 4 (''draft'', readTLDraftMessage, writeTLDraftMessage,
         enc_fobject TL_DraftMessage_table, ok_fobject TL_DraftMessage_table)])]"

interpretation tl_ForumTopic: tl_codec readTLForumTopic writeTLForumTopic "enc_fobject TL_ForumTopic_table" "ok_fobject TL_ForumTopic_table"
  by (rule flag_schema_codec, unfold TL_ForumTopic_table_def, intro flag_tableI)
    (simp_all add: readTLForumTopic_def writeTLForumTopic_def flag_schema_simps tl_Peer.tl_codec_axioms tl_PeerNotifySettings.tl_codec_axioms tl_DraftMessage.tl_codec_axioms)

definition readTLMessagesMessages :: tl_reader where
  "readTLMessagesMessages = read_object
     [(494135274, [rd ''messages'' (readVector (Some readTLMessage)),
         rd ''topics'' (readVector (Some readTLForumTopic)),
         rd ''chats'' (readVector (Some readTLChat)), rd ''users'' (readVector (Some readTLUser))]),
      (1595959062, [rd ''flags'' readUInt32, set_if ''flags'' 1 ''inexact'',
         rd ''count'' readInt32, rd_if ''flags'' 0 ''next_rate'' readInt32,
         rd_if ''flags'' 2 ''offset_id_offset'' readInt32,
         rd_if ''flags'' 3 ''search_flood'' readTLSearchPostsFlood,
         rd ''messages'' (readVector (Some readTLMessage)),
         rd ''topics'' (readVector (Some readTLForumTopic)),
         rd ''chats'' (readVector (Some readTLChat)), rd ''users'' (readVector (Some readTLUser))]),
      (- 948520370, [rd ''flags'' readUInt32, set_if ''flags'' 1 ''inexact'', rd ''pts'' readInt32,
         rd ''count'' readInt32, rd_if ''flags'' 2 ''offset_id_offset'' readInt32,
         rd ''messages'' (readVector (Some readTLMessage)),
         rd ''topics'' (readVector (Some readTLForumTopic)),
         rd ''chats'' (readVector (Some readTLChat)), rd ''users'' (readVector (Some readTLUser))]),
      (1951620897, [rd ''count'' readInt32])]"

definition writeTLMessagesMessages :: tl_writer where
  "writeTLMessagesMessages = write_fobject
     [(494135274, [wf ''_'' writeInt32, wf ''messages'' (writeVector (Some writeTLMessage)),
         wf ''topics'' (writeVector (Some writeTLForumTopic)),
         wf ''chats'' (writeVector (Some writeTLChat)),
         wf ''users'' (writeVector (Some writeTLUser))]),
      (1595959062, [wf ''_'' writeInt32, wf_flags ''flags'' [(''inexact'', 1), (''next_rate'', 0),
         (''offset_id_offset'', 2), (''search_flood'', 3)], wf ''count'' writeInt32,
         wf_if ''flags'' 0 ''next_rate'' writeInt32,
         wf_if ''flags'' 2 ''offset_id_offset'' writeInt32,
         wf_if ''flags'' 3 ''search_flood'' writeTLSearchPostsFlood,
         wf ''messages'' (writeVector (Some writeTLMessage)),
         wf ''topics'' (writeVector (Some writeTLForumTopic)),
         wf ''chats'' (writeVector (Some writeTLChat)),
         wf ''users'' (writeVector (Some writeTLUser))]),
      (- 948520370, [wf ''_'' writeInt32, wf_flags ''flags'' [(''inexact'', 1),
         (''offset_id_offset'', 2)], wf ''pts'' writeInt32, wf ''count'' writeInt32,
         wf_if ''flags'' 2 ''offset_id_offset'' writeInt32,
         wf ''messages'' (writeVector (Some writeTLMessage)),
         wf ''topics'' (writeVector (Some writeTLForumTopic)),
         wf ''chats'' (writeVector (Some writeTLChat)),
         wf ''users'' (writeVector (Some writeTLUser))]),
      (1951620897, [wf ''_'' writeInt32, wf ''count'' writeInt32])]"

definition TL_MessagesMessages_table :: flag_table where
  "TL_MessagesMessages_table =
     [(494135274, [Plain (''messages'', readVector (Some readTLMessage),
         writeVector (Some writeTLMessage), enc_vector (enc_fobject TL_Message_table),
         ok_vector (ok_fobject TL_Message_table)),
        Plain (''topics'', readVector (Some readTLForumTopic),
         writeVector (Some writeTLForumTopic), enc_vector (enc_fobject TL_ForumTopic_table),
         ok_vector (ok_fobject TL_ForumTopic_table)),
        Plain (''chats'', readVector (Some readTLChat), writeVector (Some writeTLChat),
         enc_vector (enc_fobject TL_Chat_table), ok_vector (ok_fobject TL_Chat_table)),
        Plain (''users'', readVector (Some readTLUser), writeVector (Some writeTLUser),
         enc_vector (enc_fobject TL_User_table), ok_vector (ok_fobject TL_User_table))]),
      (1595959062, [Flags ''flags'' [(''inexact'', 1), (''next_rate'', 0), (''offset_id_offset'',
         2), (''search_flood'', 3)],
        TrueBit ''flags'' 1 ''inexact'',
        Plain (''count'', readInt32, writeInt32, enc_int32, is_VInt),
        Cond ''flags'' 0 (''next_rate'', readInt32, writeInt32, enc_int32, is_VInt),
        Cond ''flags'' 2 (''offset_id_offset'', readInt32, writeInt32, enc_int32, is_VInt),
        Cond ''flags'' 3 (''search_flood'', readTLSearchPostsFlood, writeTLSearchPostsFlood,
         enc_fobject TL_SearchPostsFlood_table, ok_fobject TL_SearchPostsFlood_table),
        Plain (''messages'', readVector (Some readTLMessage), writeVector (Some writeTLMessage),
         enc_vector (enc_fobject TL_Message_table), ok_vector (ok_fobject TL_Message_table)),
        Plain (''topics'', readVector (Some readTLForumTopic),
         writeVector (Some writeTLForumTopic), enc_vector (enc_fobject TL_ForumTopic_table),
         ok_vector (ok_fobject TL_ForumTopic_table)),
        Plain (''chats'', readVector (Some readTLChat), writeVector (Some writeTLChat),
         enc_vector (enc_fobject TL_Chat_table), ok_vector (ok_fobject TL_Chat_table)),
        Plain (''users'', readVector (Some readTLUser), writeVector (Some writeTLUser),
         enc_vector (enc_fobject TL_User_table), ok_vector (ok_fobject TL_User_table))]),
      (- 948520370, [Flags ''flags'' [(''inexact'', 1), (''offset_id_offset'', 2)],
        TrueBit ''flags'' 1 ''inexact'',
        Plain (''pts'', readInt32, writeInt32, enc_int32, is_VInt),
        Plain (''count'', readInt32, writeInt32, enc_int32, is_VInt),
        Cond ''flags'' 2 (''offset_id_offset'', readInt32, writeInt32, enc_int32, is_VInt),
        Plain (''messages'', readVector (Some readTLMessage), writeVector (Some writeTLMessage),
         enc_vector (enc_fobject TL_Message_table), ok_vector (ok_fobject TL_Message_table)),
        Plain (''topics'', readVector (Some readTLForumTopic),
         writeVector (Some writeTLForumTopic), enc_vector (enc_fobject TL_ForumTopic_table),
         ok_vector (ok_fobject TL_ForumTopic_table)),
        Plain (''chats'', readVector (Some readTLChat), writeVector (Some writeTLChat),
         enc_vector (enc_fobject TL_Chat_table), ok_vector (ok_fobject TL_Chat_table)),
        Plain (''users'', readVector (Some readTLUser), writeVector (Some writeTLUser),
         enc_vector (enc_fobject TL_User_table), ok_vector (ok_fobject TL_User_table))]),
      (1951620897, [Plain (''count'', readInt32, writeInt32, enc_int32, is_VInt)])]"

interpretation tl_MessagesMessages: tl_codec readTLMessagesMessages writeTLMessagesMessages "enc_fobject TL_MessagesMessages_table" "ok_fobject TL_MessagesMessages_table"
  by (rule flag_schema_codec, unfold TL_MessagesMessages_table_def, intro flag_tableI)
    (simp_all add: readTLMessagesMessages_def writeTLMessagesMessages_def flag_schema_simps tl_Message.tl_codec_axioms tl_ForumTopic.tl_codec_axioms tl_Chat.tl_codec_axioms
      tl_User.tl_codec_axioms tl_SearchPostsFlood.tl_codec_axioms tl_Message.vector_codec
      tl_ForumTopic.vector_codec tl_Chat.vector_codec tl_User.vector_codec)

definition readTLMessagesChatFull :: tl_reader where
  "readTLMessagesChatFull = read_object
     [(- 438840932, [rd ''full_chat'' readTLChatFull, rd ''chats'' (readVector (Some readTLChat)),
         rd ''users'' (readVector (Some readTLUser))])]"

definition writeTLMessagesChatFull :: tl_writer where
  "writeTLMessagesChatFull = write_fobject
     [(- 438840932, [wf ''_'' writeInt32, wf ''full_chat'' writeTLChatFull,
         wf ''chats'' (writeVector (Some writeTLChat)),
         wf ''users'' (writeVector (Some writeTLUser))])]"

definition TL_MessagesChatFull_table :: flag_table where
  "TL_MessagesChatFull_table =
     [(- 438840932, [Plain (''full_chat'', readTLChatFull, writeTLChatFull,
         enc_fobject TL_ChatFull_table, ok_fobject TL_ChatFull_table),
        Plain (''chats'', readVector (Some readTLChat), writeVector (Some writeTLChat),
         enc_vector (enc_fobject TL_Chat_table), ok_vector (ok_fobject TL_Chat_table)),
        Plain (''users'', readVector (Some readTLUser), writeVector (Some writeTLUser),
         enc_vector (enc_fobject TL_User_table), ok_vector (ok_fobject TL_User_table))])]"

interpretation tl_MessagesChatFull: tl_codec readTLMessagesChatFull writeTLMessagesChatFull "enc_fobject TL_MessagesChatFull_table" "ok_fobject TL_MessagesChatFull_table"
  by (rule flag_schema_codec, unfold TL_MessagesChatFull_table_def, intro flag_tableI)
    (simp_all add: readTLMessagesChatFull_def writeTLMessagesChatFull_def flag_schema_simps tl_ChatFull.tl_codec_axioms tl_Chat.tl_codec_axioms tl_User.tl_codec_axioms tl_Chat.vector_codec
      tl_User.vector_codec)

definition readTLInputRichMessage :: tl_reader where
  "readTLInputRichMessage = read_object
     [(- 456898052, [rd ''flags'' readUInt32, set_if ''flags'' 0 ''rtl'',
         set_if ''flags'' 1 ''noautolink'', rd ''blocks'' (readVector (Some readTLPageBlock)),
         rd_if ''flags'' 2 ''photos'' (readVector (Some readTLInputPhoto)),
         rd_if ''flags'' 3 ''documents'' (readVector (Some readTLInputDocument)),
         rd_if ''flags'' 4 ''users'' (readVector (Some readTLInputUser))]),
      (- 624196758, [rd ''flags'' readUInt32, set_if ''flags'' 0 ''rtl'',
         set_if ''flags'' 1 ''noautolink'', rd ''html'' readString,
         rd_if ''flags'' 2 ''files'' (readVector (Some readTLInputRichFile))]),
      (4937516, [rd ''flags'' readUInt32, set_if ''flags'' 0 ''rtl'',
         set_if ''flags'' 1 ''noautolink'', rd ''markdown'' readString,
         rd_if ''flags'' 2 ''files'' (readVector (Some readTLInputRichFile))])]"

definition writeTLInputRichMessage :: tl_writer where
  "writeTLInputRichMessage = write_fobject
     [(- 456898052, [wf ''_'' writeInt32, wf_flags ''flags'' [(''rtl'', 0), (''noautolink'', 1),
         (''photos'', 2), (''documents'', 3), (''users'', 4)],
         wf ''blocks'' (writeVector (Some writeTLPageBlock)),
         wf_if ''flags'' 2 ''photos'' (writeVector (Some writeTLInputPhoto)),
         wf_if ''flags'' 3 ''documents'' (writeVector (Some writeTLInputDocument)),
         wf_if ''flags'' 4 ''users'' (writeVector (Some writeTLInputUser))]),
      (- 624196758, [wf ''_'' writeInt32, wf_flags ''flags'' [(''rtl'', 0), (''noautolink'', 1),
         (''files'', 2)], wf ''html'' writeString,
         wf_if ''flags'' 2 ''files'' (writeVector (Some writeTLInputRichFile))]),
      (4937516, [wf ''_'' writeInt32, wf_flags ''flags'' [(''rtl'', 0), (''noautolink'', 1),
         (''files'', 2)], wf ''markdown'' writeString,
         wf_if ''flags'' 2 ''files'' (writeVector (Some writeTLInputRichFile))])]"

definition TL_InputRichMessage_table :: flag_table where
  "TL_InputRichMessage_table =
     [(- 456898052, [Flags ''flags'' [(''rtl'', 0), (''noautolink'', 1), (''photos'', 2),
         (''documents'', 3), (''users'', 4)],
        TrueBit ''flags'' 0 ''rtl'',
        TrueBit ''flags'' 1 ''noautolink'',
        Plain (''blocks'', readVector (Some readTLPageBlock), writeVector (Some writeTLPageBlock),
         enc_vector enc_PageBlock, ok_vector ok_PageBlock),
        Cond ''flags'' 2 (''photos'', readVector (Some readTLInputPhoto),
         writeVector (Some writeTLInputPhoto), enc_vector (enc_fobject TL_InputPhoto_table),
         ok_vector (ok_fobject TL_InputPhoto_table)),
        Cond ''flags'' 3 (''documents'', readVector (Some readTLInputDocument),
         writeVector (Some writeTLInputDocument), enc_vector (enc_fobject TL_InputDocument_table),
         ok_vector (ok_fobject TL_InputDocument_table)),
        Cond ''flags'' 4 (''users'', readVector (Some readTLInputUser),
         writeVector (Some writeTLInputUser), enc_vector (enc_fobject TL_InputUser_table),
         ok_vector (ok_fobject TL_InputUser_table))]),
      (- 624196758, [Flags ''flags'' [(''rtl'', 0), (''noautolink'', 1), (''files'', 2)],
        TrueBit ''flags'' 0 ''rtl'',
        TrueBit ''flags'' 1 ''noautolink'',
        Plain (''html'', readString, writeString, enc_string, is_short_text),
        Cond ''flags'' 2 (''files'', readVector (Some readTLInputRichFile),
         writeVector (Some writeTLInputRichFile), enc_vector (enc_fobject TL_InputRichFile_table),
         ok_vector (ok_fobject TL_InputRichFile_table))]),
      (4937516, [Flags ''flags'' [(''rtl'', 0), (''noautolink'', 1), (''files'', 2)],
        TrueBit ''flags'' 0 ''rtl'',
        TrueBit ''flags'' 1 ''noautolink'',
        Plain (''markdown'', readString, writeString, enc_string, is_short_text),
        Cond ''flags'' 2 (''files'', readVector (Some readTLInputRichFile),
         writeVector (Some writeTLInputRichFile), enc_vector (enc_fobject TL_InputRichFile_table),
         ok_vector (ok_fobject TL_InputRichFile_table))])]"

interpretation tl_InputRichMessage: tl_codec readTLInputRichMessage writeTLInputRichMessage "enc_fobject TL_InputRichMessage_table" "ok_fobject TL_InputRichMessage_table"
  by (rule flag_schema_codec, unfold TL_InputRichMessage_table_def, intro flag_tableI)
    (simp_all add: readTLInputRichMessage_def writeTLInputRichMessage_def flag_schema_simps tl_PageBlock.tl_codec_axioms tl_InputPhoto.tl_codec_axioms tl_InputDocument.tl_codec_axioms
      tl_InputUser.tl_codec_axioms tl_InputRichFile.tl_codec_axioms tl_PageBlock.vector_codec
      tl_InputPhoto.vector_codec tl_InputDocument.vector_codec tl_InputUser.vector_codec
      tl_InputRichFile.vector_codec)

definition readTLSendMessageAction :: tl_reader where
  "readTLSendMessageAction = read_object
     [(381645902, []),
      (- 44119819, []),
      (- 1584933265, []),
      (- 378127636, [rd ''progress'' readInt32]),
      (- 718310409, []),
      (- 212740181, [rd ''progress'' readInt32]),
      (- 774682074, [rd ''progress'' readInt32]),
      (- 1441998364, [rd ''progress'' readInt32]),
      (393186209, []),
      (1653390447, []),
      (- 580219064, []),
      (- 1997373508, []),
      (608050278, [rd ''progress'' readInt32]),
      (- 651419003, []),
      (- 606432698, [rd ''progress'' readInt32]),
      (- 1336228175, []),
      (630664139, [rd ''emoticon'' readString, rd ''msg_id'' readInt32,
         rd ''interaction'' readTLDataJSON]),
      (- 1234857938, [rd ''emoticon'' readString]),
      (909162586, [rd ''flags'' readUInt32, set_if ''flags'' 0 ''can_stop'',
         set_if ''flags'' 1 ''keep_on_stop'', rd ''random_id'' readInt64,
         rd ''text'' readTLTextWithEntities]),
      (- 1455962178, [rd ''flags'' readUInt32, set_if ''flags'' 0 ''can_stop'',
         set_if ''flags'' 1 ''keep_on_stop'', rd ''random_id'' readInt64,
         rd ''rich_message'' readTLInputRichMessage]),
      (1381386387, [rd ''flags'' readUInt32, set_if ''flags'' 0 ''can_stop'',
         set_if ''flags'' 1 ''keep_on_stop'', rd ''random_id'' readInt64,
         rd ''rich_message'' readTLRichMessage]),
      (- 67566928, [rd ''random_id'' readInt64])]"

definition writeTLSendMessageAction :: tl_writer where
  "writeTLSendMessageAction = write_fobject
     [(381645902, [wf ''_'' writeInt32]),
      (- 44119819, [wf ''_'' writeInt32]),
      (- 1584933265, [wf ''_'' writeInt32]),
      (- 378127636, [wf ''_'' writeInt32, wf ''progress'' writeInt32]),
      (- 718310409, [wf ''_'' writeInt32]),
      (- 212740181, [wf ''_'' writeInt32, wf ''progress'' writeInt32]),
      (- 774682074, [wf ''_'' writeInt32, wf ''progress'' writeInt32]),
      (- 1441998364, [wf ''_'' writeInt32, wf ''progress'' writeInt32]),
      (393186209, [wf ''_'' writeInt32]),
      (1653390447, [wf ''_'' writeInt32]),
      (- 580219064, [wf ''_'' writeInt32]),
      (- 1997373508, [wf ''_'' writeInt32]),
      (608050278, [wf ''_'' writeInt32, wf ''progress'' writeInt32]),
      (- 651419003, [wf ''_'' writeInt32]),
      (- 606432698, [wf ''_'' writeInt32, wf ''progress'' writeInt32]),
      (- 1336228175, [wf ''_'' writeInt32]),
      (630664139, [wf ''_'' writeInt32, wf ''emoticon'' writeString, wf ''msg_id'' writeInt32,
         wf ''interaction'' writeTLDataJSON]),
      (- 1234857938, [wf ''_'' writeInt32, wf ''emoticon'' writeString]),
      (909162586, [wf ''_'' writeInt32, wf_flags ''flags'' [(''can_stop'', 0), (''keep_on_stop'',
         1)], wf ''random_id'' writeInt64, wf ''text'' writeTLTextWithEntities]),
      (- 1455962178, [wf ''_'' writeInt32, wf_flags ''flags'' [(''can_stop'', 0),
         (''keep_on_stop'', 1)], wf ''random_id'' writeInt64,
         wf ''rich_message'' writeTLInputRichMessage]),
      (1381386387, [wf ''_'' writeInt32, wf_flags ''flags'' [(''can_stop'', 0), (''keep_on_stop'',
         1)], wf ''random_id'' writeInt64, wf ''rich_message'' writeTLRichMessage]),
      (- 67566928, [wf ''_'' writeInt32, wf ''random_id'' writeInt64])]"

definition TL_SendMessageAction_table :: flag_table where
  "TL_SendMessageAction_table =
     [(381645902, []),
      (- 44119819, []),
      (- 1584933265, []),
      (- 378127636, [Plain (''progress'', readInt32, writeInt32, enc_int32, is_VInt)]),
      (- 718310409, []),
      (- 212740181, [Plain (''progress'', readInt32, writeInt32, enc_int32, is_VInt)]),
      (- 774682074, [Plain (''progress'', readInt32, writeInt32, enc_int32, is_VInt)]),
      (- 1441998364, [Plain (''progress'', readInt32, writeInt32, enc_int32, is_VInt)]),
      (393186209, []),
      (1653390447, []),
      (- 580219064, []),
      (- 1997373508, []),
      (608050278, [Plain (''progress'', readInt32, writeInt32, enc_int32, is_VInt)]),
      (- 651419003, []),
      (- 606432698, [Plain (''progress'', readInt32, writeInt32, enc_int32, is_VInt)]),
      (- 1336228175, []),
      (630664139, [Plain (''emoticon'', readString, writeString, enc_string, is_short_text),
        Plain (''msg_id'', readInt32, writeInt32, enc_int32, is_VInt),
        Plain (''interaction'', readTLDataJSON, writeTLDataJSON, enc_fobject TL_DataJSON_table,
         ok_fobject TL_DataJSON_table)]),
      (- 1234857938, [Plain (''emoticon'', readString, writeString, enc_string, is_short_text)]),
      (909162586, [Flags ''flags'' [(''can_stop'', 0), (''keep_on_stop'', 1)],
        TrueBit ''flags'' 0 ''can_stop'',
        TrueBit ''flags'' 1 ''keep_on_stop'',
        Plain (''random_id'', readInt64, writeInt64, enc_int64, is_VLong),
        Plain (''text'', readTLTextWithEntities, writeTLTextWithEntities,
         enc_fobject TL_TextWithEntities_table, ok_fobject TL_TextWithEntities_table)]),
      (- 1455962178, [Flags ''flags'' [(''can_stop'', 0), (''keep_on_stop'', 1)],
        TrueBit ''flags'' 0 ''can_stop'',
        TrueBit ''flags'' 1 ''keep_on_stop'',
        Plain (''random_id'', readInt64, writeInt64, enc_int64, is_VLong),
        Plain (''rich_message'', readTLInputRichMessage, writeTLInputRichMessage,
         enc_fobject TL_InputRichMessage_table, ok_fobject TL_InputRichMessage_table)]),
      (1381386387, [Flags ''flags'' [(''can_stop'', 0), (''keep_on_stop'', 1)],
        TrueBit ''flags'' 0 ''can_stop'',
        TrueBit ''flags'' 1 ''keep_on_stop'',
        Plain (''random_id'', readInt64, writeInt64, enc_int64, is_VLong),
        Plain (''rich_message'', readTLRichMessage, writeTLRichMessage,
         enc_fobject TL_RichMessage_table, ok_fobject TL_RichMessage_table)]),
      (- 67566928, [Plain (''random_id'', readInt64, writeInt64, enc_int64, is_VLong)])]"

interpretation tl_SendMessageAction: tl_codec readTLSendMessageAction writeTLSendMessageAction "enc_fobject TL_SendMessageAction_table" "ok_fobject TL_SendMessageAction_table"
  by (rule flag_schema_codec, unfold TL_SendMessageAction_table_def, intro flag_tableI)
    (simp_all add: readTLSendMessageAction_def writeTLSendMessageAction_def flag_schema_simps tl_DataJSON.tl_codec_axioms tl_TextWithEntities.tl_codec_axioms tl_InputRichMessage.tl_codec_axioms
      tl_RichMessage.tl_codec_axioms)

definition readTLMessagesStickerSet :: tl_reader where
  "readTLMessagesStickerSet = read_object
     [(1846886166, [rd ''set'' readTLStickerSet,
         rd ''packs'' (readVector (Some readTLStickerPack)),
         rd ''keywords'' (readVector (Some readTLStickerKeyword)),
         rd ''documents'' (readVector (Some readTLDocument))]),
      (- 738646805, [])]"

definition writeTLMessagesStickerSet :: tl_writer where
  "writeTLMessagesStickerSet = write_fobject
     [(1846886166, [wf ''_'' writeInt32, wf ''set'' writeTLStickerSet,
         wf ''packs'' (writeVector (Some writeTLStickerPack)),
         wf ''keywords'' (writeVector (Some writeTLStickerKeyword)),
         wf ''documents'' (writeVector (Some writeTLDocument))]),
      (- 738646805, [wf ''_'' writeInt32])]"

definition TL_MessagesStickerSet_table :: flag_table where
  "TL_MessagesStickerSet_table =
     [(1846886166, [Plain (''set'', readTLStickerSet, writeTLStickerSet,
         enc_fobject TL_StickerSet_table, ok_fobject TL_StickerSet_table),
        Plain (''packs'', readVector (Some readTLStickerPack),
         writeVector (Some writeTLStickerPack), enc_vector (enc_fobject TL_StickerPack_table),
         ok_vector (ok_fobject TL_StickerPack_table)),
        Plain (''keywords'', readVector (Some readTLStickerKeyword),
         writeVector (Some writeTLStickerKeyword),
         enc_vector (enc_fobject TL_StickerKeyword_table),
         ok_vector (ok_fobject TL_StickerKeyword_table)),
        Plain (''documents'', readVector (Some readTLDocument), writeVector (Some writeTLDocument),
         enc_vector (enc_fobject TL_Document_table), ok_vector (ok_fobject TL_Document_table))]),
      (- 738646805, [])]"

interpretation tl_MessagesStickerSet: tl_codec readTLMessagesStickerSet writeTLMessagesStickerSet "enc_fobject TL_MessagesStickerSet_table" "ok_fobject TL_MessagesStickerSet_table"
  by (rule flag_schema_codec, unfold TL_MessagesStickerSet_table_def, intro flag_tableI)
    (simp_all add: readTLMessagesStickerSet_def writeTLMessagesStickerSet_def flag_schema_simps tl_StickerSet.tl_codec_axioms tl_StickerPack.tl_codec_axioms tl_StickerKeyword.tl_codec_axioms
      tl_Document.tl_codec_axioms tl_StickerPack.vector_codec tl_StickerKeyword.vector_codec
      tl_Document.vector_codec)

definition readTLTheme :: tl_reader where
  "readTLTheme = read_object
     [(- 1609668650, [rd ''flags'' readUInt32, set_if ''flags'' 0 ''creator'',
         set_if ''flags'' 1 ''default'', set_if ''flags'' 5 ''for_chat'', rd ''id'' readInt64,
         rd ''access_hash'' readInt64, rd ''slug'' readString, rd ''title'' readString,
         rd_if ''flags'' 2 ''document'' readTLDocument,
         rd_if ''flags'' 3 ''settings'' (readVector (Some readTLThemeSettings)),
         rd_if ''flags'' 6 ''emoticon'' readString,
         rd_if ''flags'' 4 ''installs_count'' readInt32])]"

definition writeTLTheme :: tl_writer where
  "writeTLTheme = write_fobject
     [(- 1609668650, [wf ''_'' writeInt32, wf_flags ''flags'' [(''creator'', 0), (''default'', 1),
         (''for_chat'', 5), (''document'', 2), (''settings'', 3), (''emoticon'', 6),
         (''installs_count'', 4)], wf ''id'' writeInt64, wf ''access_hash'' writeInt64,
         wf ''slug'' writeString, wf ''title'' writeString,
         wf_if ''flags'' 2 ''document'' writeTLDocument,
         wf_if ''flags'' 3 ''settings'' (writeVector (Some writeTLThemeSettings)),
         wf_if ''flags'' 6 ''emoticon'' writeString,
         wf_if ''flags'' 4 ''installs_count'' writeInt32])]"

definition TL_Theme_table :: flag_table where
  "TL_Theme_table =
     [(- 1609668650, [Flags ''flags'' [(''creator'', 0), (''default'', 1), (''for_chat'', 5),
         (''document'', 2), (''settings'', 3), (''emoticon'', 6), (''installs_count'', 4)],
        TrueBit ''flags'' 0 ''creator'',
        TrueBit ''flags'' 1 ''default'',
        TrueBit ''flags'' 5 ''for_chat'',
        Plain (''id'', readInt64, writeInt64, enc_int64, is_VLong),
        Plain (''access_hash'', readInt64, writeInt64, enc_int64, is_VLong),
        Plain (''slug'', readString, writeString, enc_string, is_short_text),
        Plain (''title'', readString, writeString, enc_string, is_short_text),
        Cond ''flags'' 2 (''document'', readTLDocument, writeTLDocument,
         enc_fobject TL_Document_table, ok_fobject TL_Document_table),
        Cond ''flags'' 3 (''settings'', readVector (Some readTLThemeSettings),
         writeVector (Some writeTLThemeSettings), enc_vector (enc_fobject TL_ThemeSettings_table),
         ok_vector (ok_fobject TL_ThemeSettings_table)),
        Cond ''flags'' 6 (''emoticon'', readString, writeString, enc_string, is_short_text),
        Cond ''flags'' 4 (''installs_count'', readInt32, writeInt32, enc_int32, is_VInt)])]"

interpretation tl_Theme: tl_codec readTLTheme writeTLTheme "enc_fobject TL_Theme_table" "ok_fobject TL_Theme_table"
  by (rule flag_schema_codec, unfold TL_Theme_table_def, intro flag_tableI)
    (simp_all add: readTLTheme_def writeTLTheme_def flag_schema_simps tl_Document.tl_codec_axioms tl_ThemeSettings.tl_codec_axioms tl_ThemeSettings.vector_codec)

definition readTLEphemeralMessage :: tl_reader where
  "readTLEphemeralMessage = read_object
     [(- 584597783, [rd ''flags'' readUInt32, set_if ''flags'' 0 ''out'',
         set_if ''flags'' 5 ''welcome_template'', set_if ''flags'' 7 ''invert_media'',
         set_if ''flags'' 12 ''noforwards'', rd ''id'' readInt32, rd ''from_id'' readTLPeer,
         rd_if ''flags'' 9 ''peer_id'' readTLPeer, rd ''receiver_id'' readInt64,
         rd_if ''flags'' 1 ''top_msg_id'' readInt32, rd ''date'' readInt32,
         rd ''message'' readString,
         rd_if ''flags'' 2 ''entities'' (readVector (Some readTLMessageEntity)),
         rd_if ''flags'' 3 ''media'' readTLMessageMedia,
         rd_if ''flags'' 4 ''reply_markup'' readTLReplyMarkup,
         rd_if ''flags'' 6 ''reply_to'' readTLMessageReplyHeader,
         rd_if ''flags'' 8 ''rich_message'' readTLRichMessage,
         rd_if ''flags'' 10 ''chat_instance'' readInt64,
         rd_if ''flags'' 11 ''anchor_msg_id'' readInt32])]"

definition writeTLEphemeralMessage :: tl_writer where
  "writeTLEphemeralMessage = write_fobject
     [(- 584597783, [wf ''_'' writeInt32, wf_flags ''flags'' [(''out'', 0), (''welcome_template'',
         5), (''invert_media'', 7), (''noforwards'', 12), (''peer_id'', 9), (''top_msg_id'', 1),
         (''entities'', 2), (''media'', 3), (''reply_markup'', 4), (''reply_to'', 6),
         (''rich_message'', 8), (''chat_instance'', 10), (''anchor_msg_id'', 11)],
         wf ''id'' writeInt32, wf ''from_id'' writeTLPeer,
         wf_if ''flags'' 9 ''peer_id'' writeTLPeer, wf ''receiver_id'' writeInt64,
         wf_if ''flags'' 1 ''top_msg_id'' writeInt32, wf ''date'' writeInt32,
         wf ''message'' writeString,
         wf_if ''flags'' 2 ''entities'' (writeVector (Some writeTLMessageEntity)),
         wf_if ''flags'' 3 ''media'' writeTLMessageMedia,
         wf_if ''flags'' 4 ''reply_markup'' writeTLReplyMarkup,
         wf_if ''flags'' 6 ''reply_to'' writeTLMessageReplyHeader,
         wf_if ''flags'' 8 ''rich_message'' writeTLRichMessage,
         wf_if ''flags'' 10 ''chat_instance'' writeInt64,
         wf_if ''flags'' 11 ''anchor_msg_id'' writeInt32])]"

definition TL_EphemeralMessage_table :: flag_table where
  "TL_EphemeralMessage_table =
     [(- 584597783, [Flags ''flags'' [(''out'', 0), (''welcome_template'', 5), (''invert_media'',
         7), (''noforwards'', 12), (''peer_id'', 9), (''top_msg_id'', 1), (''entities'', 2),
         (''media'', 3), (''reply_markup'', 4), (''reply_to'', 6), (''rich_message'', 8),
         (''chat_instance'', 10), (''anchor_msg_id'', 11)],
        TrueBit ''flags'' 0 ''out'',
        TrueBit ''flags'' 5 ''welcome_template'',
        TrueBit ''flags'' 7 ''invert_media'',
        TrueBit ''flags'' 12 ''noforwards'',
        Plain (''id'', readInt32, writeInt32, enc_int32, is_VInt),
        Plain (''from_id'', readTLPeer, writeTLPeer, enc_fobject TL_Peer_table,
         ok_fobject TL_Peer_table),
        Cond ''flags'' 9 (''peer_id'', readTLPeer, writeTLPeer, enc_fobject TL_Peer_table,
         ok_fobject TL_Peer_table),
        Plain (''receiver_id'', readInt64, writeInt64, enc_int64, is_VLong),
        Cond ''flags'' 1 (''top_msg_id'', readInt32, writeInt32, enc_int32, is_VInt),
        Plain (''date'', readInt32, writeInt32, enc_int32, is_VInt),
        Plain (''message'', readString, writeString, enc_string, is_short_text),
        Cond ''flags'' 2 (''entities'', readVector (Some readTLMessageEntity),
         writeVector (Some writeTLMessageEntity), enc_vector (enc_fobject TL_MessageEntity_table),
         ok_vector (ok_fobject TL_MessageEntity_table)),
        Cond ''flags'' 3 (''media'', readTLMessageMedia, writeTLMessageMedia, enc_MessageMedia,
         ok_MessageMedia),
        Cond ''flags'' 4 (''reply_markup'', readTLReplyMarkup, writeTLReplyMarkup,
         enc_fobject TL_ReplyMarkup_table, ok_fobject TL_ReplyMarkup_table),
        Cond ''flags'' 6 (''reply_to'', readTLMessageReplyHeader, writeTLMessageReplyHeader,
         enc_fobject TL_MessageReplyHeader_table, ok_fobject TL_MessageReplyHeader_table),
        Cond ''flags'' 8 (''rich_message'', readTLRichMessage, writeTLRichMessage,
         enc_fobject TL_RichMessage_table, ok_fobject TL_RichMessage_table),
        Cond ''flags'' 10 (''chat_instance'', readInt64, writeInt64, enc_int64, is_VLong),
        Cond ''flags'' 11 (''anchor_msg_id'', readInt32, writeInt32, enc_int32, is_VInt)])]"

interpretation tl_EphemeralMessage: tl_codec readTLEphemeralMessage writeTLEphemeralMessage "enc_fobject TL_EphemeralMessage_table" "ok_fobject TL_EphemeralMessage_table"
  by (rule flag_schema_codec, unfold TL_EphemeralMessage_table_def, intro flag_tableI)
    (simp_all add: readTLEphemeralMessage_def writeTLEphemeralMessage_def flag_schema_simps tl_Peer.tl_codec_axioms tl_MessageEntity.tl_codec_axioms tl_MessageMedia.tl_codec_axioms
      tl_ReplyMarkup.tl_codec_axioms tl_MessageReplyHeader.tl_codec_axioms tl_RichMessage.tl_codec_axioms
      tl_MessageEntity.vector_codec)

definition readTLUpdate :: tl_reader where
  "readTLUpdate = read_object
     [(522914557, [rd ''message'' readTLMessage, rd ''pts'' readInt32, rd ''pts_count'' readInt32]),
      (1318109142, [rd ''id'' readInt32, rd ''random_id'' readInt64]),
      (- 1576161051, [rd ''messages'' (readVector (Some readInt32)), rd ''pts'' readInt32,
         rd ''pts_count'' readInt32]),
      (706199388, [rd ''flags'' readUInt32, rd ''user_id'' readInt64,
         rd_if ''flags'' 0 ''top_msg_id'' readInt32, rd ''action'' readTLSendMessageAction]),
      (- 2092401936, [rd ''chat_id'' readInt64, rd ''from_id'' readTLPeer,
         rd ''action'' readTLSendMessageAction]),
      (125178264, [rd ''participants'' readTLChatParticipants]),
      (- 440534818, [rd ''user_id'' readInt64, rd ''status'' readTLUserStatus]),
      (- 1484486364, [rd ''user_id'' readInt64, rd ''first_name'' readString,
         rd ''last_name'' readString, rd ''usernames'' (readVector (Some readTLUsername))]),
      (- 1991136273, [rd ''flags'' readUInt32, set_if ''flags'' 0 ''unconfirmed'',
         rd ''hash'' readInt64, rd_if ''flags'' 0 ''date'' readInt32,
         rd_if ''flags'' 0 ''device'' readString, rd_if ''flags'' 0 ''location'' readString]),
      (314359194, [rd ''message'' readTLEncryptedMessage, rd ''qts'' readInt32]),
      (386986326, [rd ''chat_id'' readInt32]),
      (- 1264392051, [rd ''chat'' readTLEncryptedChat, rd ''date'' readInt32]),
      (956179895, [rd ''chat_id'' readInt32, rd ''max_date'' readInt32, rd ''date'' readInt32]),
      (1037718609, [rd ''chat_id'' readInt64, rd ''user_id'' readInt64,
         rd ''inviter_id'' readInt64, rd ''date'' readInt32, rd ''version'' readInt32]),
      (- 483443337, [rd ''chat_id'' readInt64, rd ''user_id'' readInt64, rd ''version'' readInt32]),
      (- 1906403213, [rd ''dc_options'' (readVector (Some readTLDcOption))]),
      (- 1094555409, [rd ''peer'' readTLNotifyPeer,
         rd ''notify_settings'' readTLPeerNotifySettings]),
      (- 337352679, [rd ''flags'' readUInt32, set_if ''flags'' 0 ''popup'',
         set_if ''flags'' 2 ''invert_media'', rd_if ''flags'' 1 ''inbox_date'' readInt32,
         rd ''type'' readString, rd ''message'' readString, rd ''media'' readTLMessageMedia,
         rd ''entities'' (readVector (Some readTLMessageEntity))]),
      (- 298113238, [rd ''key'' readTLPrivacyKey,
         rd ''rules'' (readVector (Some readTLPrivacyRule))]),
      (88680979, [rd ''user_id'' readInt64, rd ''phone'' readString]),
      (- 1635468135, [rd ''flags'' readUInt32, rd_if ''flags'' 0 ''folder_id'' readInt32,
         rd ''peer'' readTLPeer, rd_if ''flags'' 1 ''top_msg_id'' readInt32,
         rd ''max_id'' readInt32, rd ''still_unread_count'' readInt32, rd ''pts'' readInt32,
         rd ''pts_count'' readInt32]),
      (791617983, [rd ''peer'' readTLPeer, rd ''max_id'' readInt32, rd ''pts'' readInt32,
         rd ''pts_count'' readInt32]),
      (2139689491, [rd ''webpage'' readTLWebPage, rd ''pts'' readInt32,
         rd ''pts_count'' readInt32]),
      (- 131960447, [rd ''flags'' readUInt32, rd ''messages'' (readVector (Some readInt32)),
         rd ''pts'' readInt32, rd ''pts_count'' readInt32, rd_if ''flags'' 0 ''date'' readInt32]),
      (277713951, [rd ''flags'' readUInt32, rd ''channel_id'' readInt64,
         rd_if ''flags'' 0 ''pts'' readInt32]),
      (1666927625, [rd ''channel_id'' readInt64]),
      (1656358105, [rd ''message'' readTLMessage, rd ''pts'' readInt32,
         rd ''pts_count'' readInt32]),
      (- 1842450928, [rd ''flags'' readUInt32, rd_if ''flags'' 0 ''folder_id'' readInt32,
         rd ''channel_id'' readInt64, rd ''max_id'' readInt32, rd ''still_unread_count'' readInt32,
         rd ''pts'' readInt32]),
      (- 1020437742, [rd ''channel_id'' readInt64, rd ''messages'' (readVector (Some readInt32)),
         rd ''pts'' readInt32, rd ''pts_count'' readInt32]),
      (- 232346616, [rd ''channel_id'' readInt64, rd ''id'' readInt32, rd ''views'' readInt32]),
      (- 674602590, [rd ''chat_id'' readInt64, rd ''user_id'' readInt64, rd ''is_admin'' readBool,
         rd ''version'' readInt32]),
      (1753886890, [rd ''stickerset'' readTLMessagesStickerSet]),
      (196268545, [rd ''flags'' readUInt32, set_if ''flags'' 0 ''masks'',
         set_if ''flags'' 1 ''emojis'', rd ''order'' (readVector (Some readInt64))]),
      (834816008, [rd ''flags'' readUInt32, set_if ''flags'' 0 ''masks'',
         set_if ''flags'' 1 ''emojis'']),
      (- 1821035490, []),
      (1232025500, [rd ''flags'' readUInt32, rd ''query_id'' readInt64, rd ''user_id'' readInt64,
         rd ''query'' readString, rd_if ''flags'' 0 ''geo'' readTLGeoPoint,
         rd_if ''flags'' 1 ''peer_type'' readTLInlineQueryPeerType, rd ''offset'' readString]),
      (317794823, [rd ''flags'' readUInt32, rd ''user_id'' readInt64, rd ''query'' readString,
         rd_if ''flags'' 0 ''geo'' readTLGeoPoint, rd ''id'' readString,
         rd_if ''flags'' 1 ''msg_id'' readTLInputBotInlineMessageID]),
      (457133559, [rd ''message'' readTLMessage, rd ''pts'' readInt32, rd ''pts_count'' readInt32]),
      (- 1177566067, [rd ''flags'' readUInt32, rd ''query_id'' readInt64, rd ''user_id'' readInt64,
         rd ''peer'' readTLPeer, rd ''msg_id'' readInt32, rd ''chat_instance'' readInt64,
         rd_if ''flags'' 0 ''data'' readByteArray,
         rd_if ''flags'' 1 ''game_short_name'' readString]),
      (- 469536605, [rd ''message'' readTLMessage, rd ''pts'' readInt32,
         rd ''pts_count'' readInt32]),
      (1763610706, [rd ''flags'' readUInt32, rd ''query_id'' readInt64, rd ''user_id'' readInt64,
         rd ''msg_id'' readTLInputBotInlineMessageID, rd ''chat_instance'' readInt64,
         rd_if ''flags'' 0 ''data'' readByteArray,
         rd_if ''flags'' 1 ''game_short_name'' readString]),
      (- 1218471511, [rd ''channel_id'' readInt64, rd ''max_id'' readInt32]),
      (- 302247650, [rd ''flags'' readUInt32, rd ''peer'' readTLPeer,
         rd_if ''flags'' 0 ''top_msg_id'' readInt32,
         rd_if ''flags'' 1 ''saved_peer_id'' readTLPeer, rd ''draft'' readTLDraftMessage]),
      (1461528386, []),
      (- 1706939360, []),
      (- 1574314746, []),
      (861169551, []),
      (791390623, [rd ''channel_id'' readInt64, rd ''webpage'' readTLWebPage, rd ''pts'' readInt32,
         rd ''pts_count'' readInt32]),
      (1852826908, [rd ''flags'' readUInt32, set_if ''flags'' 0 ''pinned'',
         rd_if ''flags'' 1 ''folder_id'' readInt32, rd ''peer'' readTLDialogPeer]),
      (- 99664734, [rd ''flags'' readUInt32, rd_if ''flags'' 1 ''folder_id'' readInt32,
         rd_if ''flags'' 0 ''order'' (readVector (Some readTLDialogPeer))]),
      (- 2095595325, [rd ''data'' readTLDataJSON]),
      (- 1684914010, [rd ''query_id'' readInt64, rd ''data'' readTLDataJSON,
         rd ''timeout'' readInt32]),
      (- 1246823043, [rd ''query_id'' readInt64, rd ''user_id'' readInt64,
         rd ''payload'' readByteArray, rd ''shipping_address'' readTLPostAddress]),
      (- 1934976362, [rd ''flags'' readUInt32, rd ''query_id'' readInt64, rd ''user_id'' readInt64,
         rd ''payload'' readByteArray, rd_if ''flags'' 0 ''info'' readTLPaymentRequestedInfo,
         rd_if ''flags'' 1 ''shipping_option_id'' readString, rd ''currency'' readString,
         rd ''total_amount'' readInt64]),
      (- 1425052898, [rd ''phone_call'' readTLPhoneCall]),
      (1180041828, [rd ''lang_code'' readString]),
      (1442983757, [rd ''difference'' readTLLangPackDifference]),
      (- 451831443, []),
      (636691703, [rd ''flags'' readUInt32, rd ''channel_id'' readInt64,
         rd_if ''flags'' 0 ''top_msg_id'' readInt32,
         rd_if ''flags'' 1 ''saved_peer_id'' readTLPeer,
         rd ''messages'' (readVector (Some readInt32))]),
      (1887741886, []),
      (- 1304443240, [rd ''channel_id'' readInt64, rd ''available_min_id'' readInt32]),
      (- 1235684802, [rd ''flags'' readUInt32, set_if ''flags'' 0 ''unread'',
         rd ''peer'' readTLDialogPeer, rd_if ''flags'' 1 ''saved_peer_id'' readTLPeer]),
      (- 699641301, [rd ''flags'' readUInt32, rd_if ''flags'' 1 ''peer'' readTLPeer,
         rd_if ''flags'' 1 ''msg_id'' readInt32, rd_if ''flags'' 2 ''top_msg_id'' readInt32,
         rd ''poll_id'' readInt64, rd_if ''flags'' 0 ''poll'' readTLPoll,
         rd ''results'' readTLPollResults]),
      (1421875280, [rd ''peer'' readTLPeer, rd ''default_banned_rights'' readTLChatBannedRights,
         rd ''version'' readInt32]),
      (422972864, [rd ''folder_peers'' (readVector (Some readTLFolderPeer)), rd ''pts'' readInt32,
         rd ''pts_count'' readInt32]),
      (1786671974, [rd ''peer'' readTLPeer, rd ''settings'' readTLPeerSettings]),
      (- 1263546448, [rd ''peers'' (readVector (Some readTLPeerLocated))]),
      (967122427, [rd ''message'' readTLMessage]),
      (- 223929981, [rd ''flags'' readUInt32, rd ''peer'' readTLPeer,
         rd ''messages'' (readVector (Some readInt32)),
         rd_if ''flags'' 0 ''sent_messages'' (readVector (Some readInt32))]),
      (- 2112423005, [rd ''theme'' readTLTheme]),
      (- 2027964103, [rd ''peer'' readTLPeer, rd ''msg_id'' readInt32]),
      (1448076945, []),
      (1989799956, [rd ''poll_id'' readInt64, rd ''peer'' readTLPeer,
         rd ''options'' (readVector (Some readByteArray)),
         rd ''positions'' (readVector (Some readInt32)), rd ''qts'' readInt32]),
      (654302845, [rd ''flags'' readUInt32, rd ''id'' readInt32,
         rd_if ''flags'' 0 ''filter'' readTLDialogFilter]),
      (- 1512627963, [rd ''order'' (readVector (Some readInt32))]),
      (889491791, []),
      (643940105, [rd ''phone_call_id'' readInt64, rd ''data'' readByteArray]),
      (- 761649164, [rd ''channel_id'' readInt64, rd ''id'' readInt32, rd ''forwards'' readInt32]),
      (- 693004986, [rd ''flags'' readUInt32, rd ''channel_id'' readInt64,
         rd ''top_msg_id'' readInt32, rd ''read_max_id'' readInt32,
         rd_if ''flags'' 0 ''broadcast_id'' readInt64,
         rd_if ''flags'' 0 ''broadcast_post'' readInt32]),
      (1767677564, [rd ''channel_id'' readInt64, rd ''top_msg_id'' readInt32,
         rd ''read_max_id'' readInt32]),
      (- 337610926, [rd ''flags'' readUInt32, set_if ''flags'' 0 ''blocked'',
         set_if ''flags'' 1 ''blocked_my_stories_from'', rd ''peer_id'' readTLPeer]),
      (- 1937192669, [rd ''flags'' readUInt32, rd ''channel_id'' readInt64,
         rd_if ''flags'' 0 ''top_msg_id'' readInt32, rd ''from_id'' readTLPeer,
         rd ''action'' readTLSendMessageAction]),
      (- 309990731, [rd ''flags'' readUInt32, set_if ''flags'' 0 ''pinned'',
         rd ''peer'' readTLPeer, rd ''messages'' (readVector (Some readInt32)),
         rd ''pts'' readInt32, rd ''pts_count'' readInt32]),
      (1538885128, [rd ''flags'' readUInt32, set_if ''flags'' 0 ''pinned'',
         rd ''channel_id'' readInt64, rd ''messages'' (readVector (Some readInt32)),
         rd ''pts'' readInt32, rd ''pts_count'' readInt32]),
      (- 124097970, [rd ''chat_id'' readInt64]),
      (- 219423922, [rd ''call'' readTLInputGroupCall,
         rd ''participants'' (readVector (Some readTLGroupCallParticipant)),
         rd ''version'' readInt32]),
      (- 1658710304, [rd ''flags'' readUInt32, set_if ''flags'' 2 ''live_story'',
         rd_if ''flags'' 1 ''peer'' readTLPeer, rd ''call'' readTLGroupCall]),
      (- 1147422299, [rd ''flags'' readUInt32, rd ''peer'' readTLPeer,
         rd_if ''flags'' 0 ''ttl_period'' readInt32]),
      (- 796432838, [rd ''flags'' readUInt32, rd ''chat_id'' readInt64, rd ''date'' readInt32,
         rd ''actor_id'' readInt64, rd ''user_id'' readInt64,
         rd_if ''flags'' 0 ''prev_participant'' readTLChatParticipant,
         rd_if ''flags'' 1 ''new_participant'' readTLChatParticipant,
         rd_if ''flags'' 2 ''invite'' readTLExportedChatInvite, rd ''qts'' readInt32]),
      (- 1738720581, [rd ''flags'' readUInt32, set_if ''flags'' 3 ''via_chatlist'',
         rd ''channel_id'' readInt64, rd ''date'' readInt32, rd ''actor_id'' readInt64,
         rd ''user_id'' readInt64, rd_if ''flags'' 0 ''prev_participant'' readTLChannelParticipant,
         rd_if ''flags'' 1 ''new_participant'' readTLChannelParticipant,
         rd_if ''flags'' 2 ''invite'' readTLExportedChatInvite, rd ''qts'' readInt32]),
      (- 997782967, [rd ''user_id'' readInt64, rd ''date'' readInt32, rd ''stopped'' readBool,
         rd ''qts'' readInt32]),
      (192428418, [rd ''flags'' readUInt32, set_if ''flags'' 0 ''presentation'',
         rd ''params'' readTLDataJSON]),
      (1299263278, [rd ''peer'' readTLPeer, rd ''bot_id'' readInt64,
         rd ''commands'' (readVector (Some readTLBotCommand))]),
      (1885586395, [rd ''peer'' readTLPeer, rd ''requests_pending'' readInt32,
         rd ''recent_requesters'' (readVector (Some readInt64))]),
      (2092125561, [rd ''flags'' readUInt32, rd ''peer'' readTLPeer, rd ''date'' readInt32,
         rd ''user_id'' readInt64, rd ''about'' readString, rd ''invite'' readTLExportedChatInvite,
         rd ''qts'' readInt32, rd_if ''flags'' 0 ''query_id'' readInt64]),
      (506035194, [rd ''flags'' readUInt32, rd ''peer'' readTLPeer, rd ''msg_id'' readInt32,
         rd_if ''flags'' 0 ''top_msg_id'' readInt32,
         rd_if ''flags'' 1 ''saved_peer_id'' readTLPeer, rd ''reactions'' readTLMessageReactions]),
      (397910539, []),
      (361936797, [rd ''query_id'' readInt64]),
      (347625491, [rd ''bot_id'' readInt64, rd ''button'' readTLBotMenuButton]),
      (1960361625, []),
      (8703322, [rd ''flags'' readUInt32, set_if ''flags'' 0 ''pending'', rd ''peer'' readTLPeer,
         rd ''msg_id'' readInt32, rd ''transcription_id'' readInt64, rd ''text'' readString]),
      (- 78886548, []),
      (674706841, [rd ''user_id'' readInt64, rd ''emoji_status'' readTLEmojiStatus]),
      (821314523, []),
      (1870160884, []),
      (- 2030252155, [rd ''flags'' readUInt32, set_if ''flags'' 0 ''masks'',
         set_if ''flags'' 1 ''emojis'', rd ''stickerset'' readInt64]),
      (- 710666460, [rd ''peer'' readTLPeer, rd ''msg_id'' readInt32,
         rd ''extended_media'' (readVector (Some readTLMessageExtendedMedia))]),
      (542282808, [rd ''user_id'' readInt64]),
      (- 335171433, []),
      (1974712216, [rd ''peer'' readTLPeer, rd ''story'' readTLStoryItem]),
      (- 145845461, [rd ''peer'' readTLPeer, rd ''max_id'' readInt32]),
      (468923833, [rd ''id'' readInt32, rd ''random_id'' readInt64]),
      (738741697, [rd ''stealth_mode'' readTLStoriesStealthMode]),
      (2103604867, [rd ''peer'' readTLPeer, rd ''story_id'' readInt32,
         rd ''reaction'' readTLReaction]),
      (- 1873947492, [rd ''peer'' readTLPeer, rd ''boost'' readTLBoost, rd ''qts'' readInt32]),
      (129403168, [rd ''channel_id'' readInt64, rd ''enabled'' readBool]),
      (- 1371598819, [rd ''flags'' readUInt32, set_if ''flags'' 1 ''wallpaper_overridden'',
         rd ''peer'' readTLPeer, rd_if ''flags'' 0 ''wallpaper'' readTLWallPaper]),
      (- 1407069234, [rd ''peer'' readTLPeer, rd ''msg_id'' readInt32, rd ''date'' readInt32,
         rd ''actor'' readTLPeer, rd ''old_reactions'' (readVector (Some readTLReaction)),
         rd ''new_reactions'' (readVector (Some readTLReaction)), rd ''qts'' readInt32]),
      (164329305, [rd ''peer'' readTLPeer, rd ''msg_id'' readInt32, rd ''date'' readInt32,
         rd ''reactions'' (readVector (Some readTLReactionCount)), rd ''qts'' readInt32]),
      (- 1364222348, [rd ''flags'' readUInt32, set_if ''flags'' 0 ''pinned'',
         rd ''peer'' readTLDialogPeer]),
      (1751942566, [rd ''flags'' readUInt32,
         rd_if ''flags'' 0 ''order'' (readVector (Some readTLDialogPeer))]),
      (969307186, []),
      (- 245208620, [rd ''job_id'' readString]),
      (- 112784718, [rd ''quick_replies'' (readVector (Some readTLQuickReply))]),
      (- 180508905, [rd ''quick_reply'' readTLQuickReply]),
      (1407644140, [rd ''shortcut_id'' readInt32]),
      (1040518415, [rd ''message'' readTLMessage]),
      (1450174413, [rd ''shortcut_id'' readInt32, rd ''messages'' (readVector (Some readInt32))]),
      (- 1964652166, [rd ''connection'' readTLBotBusinessConnection, rd ''qts'' readInt32]),
      (- 1646578564, [rd ''flags'' readUInt32, rd ''connection_id'' readString,
         rd ''message'' readTLMessage, rd_if ''flags'' 0 ''reply_to_message'' readTLMessage,
         rd ''qts'' readInt32]),
      (132077692, [rd ''flags'' readUInt32, rd ''connection_id'' readString,
         rd ''message'' readTLMessage, rd_if ''flags'' 0 ''reply_to_message'' readTLMessage,
         rd ''qts'' readInt32]),
      (- 1607821266, [rd ''connection_id'' readString, rd ''peer'' readTLPeer,
         rd ''messages'' (readVector (Some readInt32)), rd ''qts'' readInt32]),
      (405070859, [rd ''story_id'' readInt32, rd ''peer'' readTLPeer,
         rd ''reaction'' readTLReaction]),
      (1317053305, [rd ''balance'' readTLStarsAmount]),
      (513998247, [rd ''flags'' readUInt32, rd ''query_id'' readInt64, rd ''user_id'' readInt64,
         rd ''connection_id'' readString, rd ''message'' readTLMessage,
         rd_if ''flags'' 2 ''reply_to_message'' readTLMessage, rd ''chat_instance'' readInt64,
         rd_if ''flags'' 0 ''data'' readByteArray]),
      (- 1518030823, [rd ''peer'' readTLPeer, rd ''status'' readTLStarsRevenueStatus]),
      (675009298, [rd ''user_id'' readInt64, rd ''payload'' readString, rd ''qts'' readInt32]),
      (- 1955438642, [rd ''private'' readTLPaidReactionPrivacy]),
      (1347068303, [rd ''sent_code'' readTLAuthSentCode]),
      (- 1535694705, [rd ''call'' readTLInputGroupCall, rd ''sub_chain_id'' readInt32,
         rd ''blocks'' (readVector (Some readByteArray)), rd ''next_offset'' readInt32]),
      (2008081266, [rd ''channel_id'' readInt64, rd ''saved_peer_id'' readTLPeer,
         rd ''read_max_id'' readInt32]),
      (- 1532521610, [rd ''channel_id'' readInt64, rd ''saved_peer_id'' readTLPeer,
         rd ''read_max_id'' readInt32]),
      (- 1618924792, [rd ''flags'' readUInt32, set_if ''flags'' 0 ''exception'',
         rd ''channel_id'' readInt64, rd ''saved_peer_id'' readTLPeer]),
      (- 667783411, [rd ''call'' readTLInputGroupCall, rd ''message'' readTLGroupCallMessage]),
      (- 917002394, [rd ''call'' readTLInputGroupCall, rd ''from_id'' readTLPeer,
         rd ''encrypted_message'' readByteArray]),
      (1748708434, [rd ''flags'' readUInt32, set_if ''flags'' 0 ''pinned'', rd ''peer'' readTLPeer,
         rd ''topic_id'' readInt32]),
      (- 554613808, [rd ''flags'' readUInt32, rd ''peer'' readTLPeer,
         rd_if ''flags'' 0 ''order'' (readVector (Some readInt32))]),
      (1048963372, [rd ''call'' readTLInputGroupCall,
         rd ''messages'' (readVector (Some readInt32))]),
      (1222788802, [rd ''gift_id'' readInt64, rd ''state'' readTLStarGiftAuctionState]),
      (- 598150370, [rd ''gift_id'' readInt64, rd ''user_state'' readTLStarGiftAuctionUserState]),
      (- 73640838, [rd ''info'' readTLMessagesEmojiGameInfo]),
      (- 1408818108, []),
      (- 1115461703, [rd ''chat_id'' readInt64, rd ''user_id'' readInt64, rd ''rank'' readString,
         rd ''version'' readInt32]),
      (1216408986, [rd ''user_id'' readInt64, rd ''bot_id'' readInt64, rd ''qts'' readInt32]),
      (- 841742019, [rd ''flags'' readUInt32, rd ''query_id'' readInt64,
         rd ''message'' readTLMessage,
         rd_if ''flags'' 0 ''reference_messages'' (readVector (Some readTLMessage)),
         rd ''qts'' readInt32]),
      (- 1945136645, []),
      (- 1112768912, [rd ''peer'' readTLPeer, rd ''query_id'' readInt64,
         rd ''result'' readTLJoinChatBotResult]),
      (- 1306491994, [rd ''flags'' readUInt32, set_if ''flags'' 0 ''confirmed'',
         rd ''bot_id'' readInt64, rd_if ''flags'' 1 ''date'' readInt32,
         rd_if ''flags'' 1 ''device'' readString, rd_if ''flags'' 1 ''location'' readString]),
      (- 1013306658, [rd ''flags'' readUInt32, set_if ''flags'' 0 ''open_external_browser'',
         set_if ''flags'' 1 ''display_close_button'']),
      (335872721, [rd ''flags'' readUInt32, set_if ''flags'' 1 ''delete'',
         rd_if ''flags'' 0 ''open_external_browser'' readBool,
         rd ''exception'' readTLWebDomainException]),
      (549239713, [rd ''message'' readTLEphemeralMessage]),
      (1457257720, [rd ''peer'' readTLPeer, rd ''ids'' (readVector (Some readInt32))]),
      (1270583041, [rd ''message'' readTLEphemeralMessage]),
      (2081454550, [rd ''flags'' readUInt32, rd ''query_id'' readInt64, rd ''user_id'' readInt64,
         rd_if ''flags'' 0 ''peer'' readTLPeer, rd ''msg_id'' readInt32, rd ''data'' readByteArray,
         rd_if ''flags'' 1 ''chat_instance'' readInt64, rd ''message'' readTLEphemeralMessage]),
      (1812827683, [rd ''flags'' readUInt32, set_if ''flags'' 0 ''canceled'',
         set_if ''flags'' 1 ''payment_failed'', set_if ''flags'' 2 ''restored'',
         rd ''user_id'' readInt64, rd ''payload'' readByteArray, rd ''qts'' readInt32])]"

definition writeTLUpdate :: tl_writer where
  "writeTLUpdate = write_fobject
     [(522914557, [wf ''_'' writeInt32, wf ''message'' writeTLMessage, wf ''pts'' writeInt32,
         wf ''pts_count'' writeInt32]),
      (1318109142, [wf ''_'' writeInt32, wf ''id'' writeInt32, wf ''random_id'' writeInt64]),
      (- 1576161051, [wf ''_'' writeInt32, wf ''messages'' (writeVector (Some writeInt32)),
         wf ''pts'' writeInt32, wf ''pts_count'' writeInt32]),
      (706199388, [wf ''_'' writeInt32, wf_flags ''flags'' [(''top_msg_id'', 0)],
         wf ''user_id'' writeInt64, wf_if ''flags'' 0 ''top_msg_id'' writeInt32,
         wf ''action'' writeTLSendMessageAction]),
      (- 2092401936, [wf ''_'' writeInt32, wf ''chat_id'' writeInt64, wf ''from_id'' writeTLPeer,
         wf ''action'' writeTLSendMessageAction]),
      (125178264, [wf ''_'' writeInt32, wf ''participants'' writeTLChatParticipants]),
      (- 440534818, [wf ''_'' writeInt32, wf ''user_id'' writeInt64,
         wf ''status'' writeTLUserStatus]),
      (- 1484486364, [wf ''_'' writeInt32, wf ''user_id'' writeInt64,
         wf ''first_name'' writeString, wf ''last_name'' writeString,
         wf ''usernames'' (writeVector (Some writeTLUsername))]),
      (- 1991136273, [wf ''_'' writeInt32, wf_flags ''flags'' [(''unconfirmed'', 0), (''date'', 0),
         (''device'', 0), (''location'', 0)], wf ''hash'' writeInt64,
         wf_if ''flags'' 0 ''date'' writeInt32, wf_if ''flags'' 0 ''device'' writeString,
         wf_if ''flags'' 0 ''location'' writeString]),
      (314359194, [wf ''_'' writeInt32, wf ''message'' writeTLEncryptedMessage,
         wf ''qts'' writeInt32]),
      (386986326, [wf ''_'' writeInt32, wf ''chat_id'' writeInt32]),
      (- 1264392051, [wf ''_'' writeInt32, wf ''chat'' writeTLEncryptedChat,
         wf ''date'' writeInt32]),
      (956179895, [wf ''_'' writeInt32, wf ''chat_id'' writeInt32, wf ''max_date'' writeInt32,
         wf ''date'' writeInt32]),
      (1037718609, [wf ''_'' writeInt32, wf ''chat_id'' writeInt64, wf ''user_id'' writeInt64,
         wf ''inviter_id'' writeInt64, wf ''date'' writeInt32, wf ''version'' writeInt32]),
      (- 483443337, [wf ''_'' writeInt32, wf ''chat_id'' writeInt64, wf ''user_id'' writeInt64,
         wf ''version'' writeInt32]),
      (- 1906403213, [wf ''_'' writeInt32, wf ''dc_options'' (writeVector (Some writeTLDcOption))]),
      (- 1094555409, [wf ''_'' writeInt32, wf ''peer'' writeTLNotifyPeer,
         wf ''notify_settings'' writeTLPeerNotifySettings]),
      (- 337352679, [wf ''_'' writeInt32, wf_flags ''flags'' [(''popup'', 0), (''invert_media'',
         2), (''inbox_date'', 1)], wf_if ''flags'' 1 ''inbox_date'' writeInt32,
         wf ''type'' writeString, wf ''message'' writeString, wf ''media'' writeTLMessageMedia,
         wf ''entities'' (writeVector (Some writeTLMessageEntity))]),
      (- 298113238, [wf ''_'' writeInt32, wf ''key'' writeTLPrivacyKey,
         wf ''rules'' (writeVector (Some writeTLPrivacyRule))]),
      (88680979, [wf ''_'' writeInt32, wf ''user_id'' writeInt64, wf ''phone'' writeString]),
      (- 1635468135, [wf ''_'' writeInt32, wf_flags ''flags'' [(''folder_id'', 0), (''top_msg_id'',
         1)], wf_if ''flags'' 0 ''folder_id'' writeInt32, wf ''peer'' writeTLPeer,
         wf_if ''flags'' 1 ''top_msg_id'' writeInt32, wf ''max_id'' writeInt32,
         wf ''still_unread_count'' writeInt32, wf ''pts'' writeInt32, wf ''pts_count'' writeInt32]),
      (791617983, [wf ''_'' writeInt32, wf ''peer'' writeTLPeer, wf ''max_id'' writeInt32,
         wf ''pts'' writeInt32, wf ''pts_count'' writeInt32]),
      (2139689491, [wf ''_'' writeInt32, wf ''webpage'' writeTLWebPage, wf ''pts'' writeInt32,
         wf ''pts_count'' writeInt32]),
      (- 131960447, [wf ''_'' writeInt32, wf_flags ''flags'' [(''date'', 0)],
         wf ''messages'' (writeVector (Some writeInt32)), wf ''pts'' writeInt32,
         wf ''pts_count'' writeInt32, wf_if ''flags'' 0 ''date'' writeInt32]),
      (277713951, [wf ''_'' writeInt32, wf_flags ''flags'' [(''pts'', 0)],
         wf ''channel_id'' writeInt64, wf_if ''flags'' 0 ''pts'' writeInt32]),
      (1666927625, [wf ''_'' writeInt32, wf ''channel_id'' writeInt64]),
      (1656358105, [wf ''_'' writeInt32, wf ''message'' writeTLMessage, wf ''pts'' writeInt32,
         wf ''pts_count'' writeInt32]),
      (- 1842450928, [wf ''_'' writeInt32, wf_flags ''flags'' [(''folder_id'', 0)],
         wf_if ''flags'' 0 ''folder_id'' writeInt32, wf ''channel_id'' writeInt64,
         wf ''max_id'' writeInt32, wf ''still_unread_count'' writeInt32, wf ''pts'' writeInt32]),
      (- 1020437742, [wf ''_'' writeInt32, wf ''channel_id'' writeInt64,
         wf ''messages'' (writeVector (Some writeInt32)), wf ''pts'' writeInt32,
         wf ''pts_count'' writeInt32]),
      (- 232346616, [wf ''_'' writeInt32, wf ''channel_id'' writeInt64, wf ''id'' writeInt32,
         wf ''views'' writeInt32]),
      (- 674602590, [wf ''_'' writeInt32, wf ''chat_id'' writeInt64, wf ''user_id'' writeInt64,
         wf ''is_admin'' writeBool, wf ''version'' writeInt32]),
      (1753886890, [wf ''_'' writeInt32, wf ''stickerset'' writeTLMessagesStickerSet]),
      (196268545, [wf ''_'' writeInt32, wf_flags ''flags'' [(''masks'', 0), (''emojis'', 1)],
         wf ''order'' (writeVector (Some writeInt64))]),
      (834816008, [wf ''_'' writeInt32, wf_flags ''flags'' [(''masks'', 0), (''emojis'', 1)]]),
      (- 1821035490, [wf ''_'' writeInt32]),
      (1232025500, [wf ''_'' writeInt32, wf_flags ''flags'' [(''geo'', 0), (''peer_type'', 1)],
         wf ''query_id'' writeInt64, wf ''user_id'' writeInt64, wf ''query'' writeString,
         wf_if ''flags'' 0 ''geo'' writeTLGeoPoint,
         wf_if ''flags'' 1 ''peer_type'' writeTLInlineQueryPeerType, wf ''offset'' writeString]),
      (317794823, [wf ''_'' writeInt32, wf_flags ''flags'' [(''geo'', 0), (''msg_id'', 1)],
         wf ''user_id'' writeInt64, wf ''query'' writeString,
         wf_if ''flags'' 0 ''geo'' writeTLGeoPoint, wf ''id'' writeString,
         wf_if ''flags'' 1 ''msg_id'' writeTLInputBotInlineMessageID]),
      (457133559, [wf ''_'' writeInt32, wf ''message'' writeTLMessage, wf ''pts'' writeInt32,
         wf ''pts_count'' writeInt32]),
      (- 1177566067, [wf ''_'' writeInt32, wf_flags ''flags'' [(''data'', 0), (''game_short_name'',
         1)], wf ''query_id'' writeInt64, wf ''user_id'' writeInt64, wf ''peer'' writeTLPeer,
         wf ''msg_id'' writeInt32, wf ''chat_instance'' writeInt64,
         wf_if ''flags'' 0 ''data'' writeByteArray,
         wf_if ''flags'' 1 ''game_short_name'' writeString]),
      (- 469536605, [wf ''_'' writeInt32, wf ''message'' writeTLMessage, wf ''pts'' writeInt32,
         wf ''pts_count'' writeInt32]),
      (1763610706, [wf ''_'' writeInt32, wf_flags ''flags'' [(''data'', 0), (''game_short_name'',
         1)], wf ''query_id'' writeInt64, wf ''user_id'' writeInt64,
         wf ''msg_id'' writeTLInputBotInlineMessageID, wf ''chat_instance'' writeInt64,
         wf_if ''flags'' 0 ''data'' writeByteArray,
         wf_if ''flags'' 1 ''game_short_name'' writeString]),
      (- 1218471511, [wf ''_'' writeInt32, wf ''channel_id'' writeInt64, wf ''max_id'' writeInt32]),
      (- 302247650, [wf ''_'' writeInt32, wf_flags ''flags'' [(''top_msg_id'', 0),
         (''saved_peer_id'', 1)], wf ''peer'' writeTLPeer,
         wf_if ''flags'' 0 ''top_msg_id'' writeInt32,
         wf_if ''flags'' 1 ''saved_peer_id'' writeTLPeer, wf ''draft'' writeTLDraftMessage]),
      (1461528386, [wf ''_'' writeInt32]),
      (- 1706939360, [wf ''_'' writeInt32]),
      (- 1574314746, [wf ''_'' writeInt32]),
      (861169551, [wf ''_'' writeInt32]),
      (791390623, [wf ''_'' writeInt32, wf ''channel_id'' writeInt64,
         wf ''webpage'' writeTLWebPage, wf ''pts'' writeInt32, wf ''pts_count'' writeInt32]),
      (1852826908, [wf ''_'' writeInt32, wf_flags ''flags'' [(''pinned'', 0), (''folder_id'', 1)],
         wf_if ''flags'' 1 ''folder_id'' writeInt32, wf ''peer'' writeTLDialogPeer]),
      (- 99664734, [wf ''_'' writeInt32, wf_flags ''flags'' [(''folder_id'', 1), (''order'', 0)],
         wf_if ''flags'' 1 ''folder_id'' writeInt32,
         wf_if ''flags'' 0 ''order'' (writeVector (Some writeTLDialogPeer))]),
      (- 2095595325, [wf ''_'' writeInt32, wf ''data'' writeTLDataJSON]),
      (- 1684914010, [wf ''_'' writeInt32, wf ''query_id'' writeInt64, wf ''data'' writeTLDataJSON,
         wf ''timeout'' writeInt32]),
      (- 1246823043, [wf ''_'' writeInt32, wf ''query_id'' writeInt64, wf ''user_id'' writeInt64,
         wf ''payload'' writeByteArray, wf ''shipping_address'' writeTLPostAddress]),
      (- 1934976362, [wf ''_'' writeInt32, wf_flags ''flags'' [(''info'', 0),
         (''shipping_option_id'', 1)], wf ''query_id'' writeInt64, wf ''user_id'' writeInt64,
         wf ''payload'' writeByteArray, wf_if ''flags'' 0 ''info'' writeTLPaymentRequestedInfo,
         wf_if ''flags'' 1 ''shipping_option_id'' writeString, wf ''currency'' writeString,
         wf ''total_amount'' writeInt64]),
      (- 1425052898, [wf ''_'' writeInt32, wf ''phone_call'' writeTLPhoneCall]),
      (1180041828, [wf ''_'' writeInt32, wf ''lang_code'' writeString]),
      (1442983757, [wf ''_'' writeInt32, wf ''difference'' writeTLLangPackDifference]),
      (- 451831443, [wf ''_'' writeInt32]),
      (636691703, [wf ''_'' writeInt32, wf_flags ''flags'' [(''top_msg_id'', 0),
         (''saved_peer_id'', 1)], wf ''channel_id'' writeInt64,
         wf_if ''flags'' 0 ''top_msg_id'' writeInt32,
         wf_if ''flags'' 1 ''saved_peer_id'' writeTLPeer,
         wf ''messages'' (writeVector (Some writeInt32))]),
      (1887741886, [wf ''_'' writeInt32]),
      (- 1304443240, [wf ''_'' writeInt32, wf ''channel_id'' writeInt64,
         wf ''available_min_id'' writeInt32]),
      (- 1235684802, [wf ''_'' writeInt32, wf_flags ''flags'' [(''unread'', 0), (''saved_peer_id'',
         1)], wf ''peer'' writeTLDialogPeer, wf_if ''flags'' 1 ''saved_peer_id'' writeTLPeer]),
      (- 699641301, [wf ''_'' writeInt32, wf_flags ''flags'' [(''peer'', 1), (''msg_id'', 1),
         (''top_msg_id'', 2), (''poll'', 0)], wf_if ''flags'' 1 ''peer'' writeTLPeer,
         wf_if ''flags'' 1 ''msg_id'' writeInt32, wf_if ''flags'' 2 ''top_msg_id'' writeInt32,
         wf ''poll_id'' writeInt64, wf_if ''flags'' 0 ''poll'' writeTLPoll,
         wf ''results'' writeTLPollResults]),
      (1421875280, [wf ''_'' writeInt32, wf ''peer'' writeTLPeer,
         wf ''default_banned_rights'' writeTLChatBannedRights, wf ''version'' writeInt32]),
      (422972864, [wf ''_'' writeInt32, wf ''folder_peers'' (writeVector (Some writeTLFolderPeer)),
         wf ''pts'' writeInt32, wf ''pts_count'' writeInt32]),
      (1786671974, [wf ''_'' writeInt32, wf ''peer'' writeTLPeer,
         wf ''settings'' writeTLPeerSettings]),
      (- 1263546448, [wf ''_'' writeInt32, wf ''peers'' (writeVector (Some writeTLPeerLocated))]),
      (967122427, [wf ''_'' writeInt32, wf ''message'' writeTLMessage]),
      (- 223929981, [wf ''_'' writeInt32, wf_flags ''flags'' [(''sent_messages'', 0)],
         wf ''peer'' writeTLPeer, wf ''messages'' (writeVector (Some writeInt32)),
         wf_if ''flags'' 0 ''sent_messages'' (writeVector (Some writeInt32))]),
      (- 2112423005, [wf ''_'' writeInt32, wf ''theme'' writeTLTheme]),
      (- 2027964103, [wf ''_'' writeInt32, wf ''peer'' writeTLPeer, wf ''msg_id'' writeInt32]),
      (1448076945, [wf ''_'' writeInt32]),
      (1989799956, [wf ''_'' writeInt32, wf ''poll_id'' writeInt64, wf ''peer'' writeTLPeer,
         wf ''options'' (writeVector (Some writeByteArray)),
         wf ''positions'' (writeVector (Some writeInt32)), wf ''qts'' writeInt32]),
      (654302845, [wf ''_'' writeInt32, wf_flags ''flags'' [(''filter'', 0)], wf ''id'' writeInt32,
         wf_if ''flags'' 0 ''filter'' writeTLDialogFilter]),
      (- 1512627963, [wf ''_'' writeInt32, wf ''order'' (writeVector (Some writeInt32))]),
      (889491791, [wf ''_'' writeInt32]),
      (643940105, [wf ''_'' writeInt32, wf ''phone_call_id'' writeInt64,
         wf ''data'' writeByteArray]),
      (- 761649164, [wf ''_'' writeInt32, wf ''channel_id'' writeInt64, wf ''id'' writeInt32,
         wf ''forwards'' writeInt32]),
      (- 693004986, [wf ''_'' writeInt32, wf_flags ''flags'' [(''broadcast_id'', 0),
         (''broadcast_post'', 0)], wf ''channel_id'' writeInt64, wf ''top_msg_id'' writeInt32,
         wf ''read_max_id'' writeInt32, wf_if ''flags'' 0 ''broadcast_id'' writeInt64,
         wf_if ''flags'' 0 ''broadcast_post'' writeInt32]),
      (1767677564, [wf ''_'' writeInt32, wf ''channel_id'' writeInt64,
         wf ''top_msg_id'' writeInt32, wf ''read_max_id'' writeInt32]),
      (- 337610926, [wf ''_'' writeInt32, wf_flags ''flags'' [(''blocked'', 0),
         (''blocked_my_stories_from'', 1)], wf ''peer_id'' writeTLPeer]),
      (- 1937192669, [wf ''_'' writeInt32, wf_flags ''flags'' [(''top_msg_id'', 0)],
         wf ''channel_id'' writeInt64, wf_if ''flags'' 0 ''top_msg_id'' writeInt32,
         wf ''from_id'' writeTLPeer, wf ''action'' writeTLSendMessageAction]),
      (- 309990731, [wf ''_'' writeInt32, wf_flags ''flags'' [(''pinned'', 0)],
         wf ''peer'' writeTLPeer, wf ''messages'' (writeVector (Some writeInt32)),
         wf ''pts'' writeInt32, wf ''pts_count'' writeInt32]),
      (1538885128, [wf ''_'' writeInt32, wf_flags ''flags'' [(''pinned'', 0)],
         wf ''channel_id'' writeInt64, wf ''messages'' (writeVector (Some writeInt32)),
         wf ''pts'' writeInt32, wf ''pts_count'' writeInt32]),
      (- 124097970, [wf ''_'' writeInt32, wf ''chat_id'' writeInt64]),
      (- 219423922, [wf ''_'' writeInt32, wf ''call'' writeTLInputGroupCall,
         wf ''participants'' (writeVector (Some writeTLGroupCallParticipant)),
         wf ''version'' writeInt32]),
      (- 1658710304, [wf ''_'' writeInt32, wf_flags ''flags'' [(''live_story'', 2), (''peer'', 1)],
         wf_if ''flags'' 1 ''peer'' writeTLPeer, wf ''call'' writeTLGroupCall]),
      (- 1147422299, [wf ''_'' writeInt32, wf_flags ''flags'' [(''ttl_period'', 0)],
         wf ''peer'' writeTLPeer, wf_if ''flags'' 0 ''ttl_period'' writeInt32]),
      (- 796432838, [wf ''_'' writeInt32, wf_flags ''flags'' [(''prev_participant'', 0),
         (''new_participant'', 1), (''invite'', 2)], wf ''chat_id'' writeInt64,
         wf ''date'' writeInt32, wf ''actor_id'' writeInt64, wf ''user_id'' writeInt64,
         wf_if ''flags'' 0 ''prev_participant'' writeTLChatParticipant,
         wf_if ''flags'' 1 ''new_participant'' writeTLChatParticipant,
         wf_if ''flags'' 2 ''invite'' writeTLExportedChatInvite, wf ''qts'' writeInt32]),
      (- 1738720581, [wf ''_'' writeInt32, wf_flags ''flags'' [(''via_chatlist'', 3),
         (''prev_participant'', 0), (''new_participant'', 1), (''invite'', 2)],
         wf ''channel_id'' writeInt64, wf ''date'' writeInt32, wf ''actor_id'' writeInt64,
         wf ''user_id'' writeInt64,
         wf_if ''flags'' 0 ''prev_participant'' writeTLChannelParticipant,
         wf_if ''flags'' 1 ''new_participant'' writeTLChannelParticipant,
         wf_if ''flags'' 2 ''invite'' writeTLExportedChatInvite, wf ''qts'' writeInt32]),
      (- 997782967, [wf ''_'' writeInt32, wf ''user_id'' writeInt64, wf ''date'' writeInt32,
         wf ''stopped'' writeBool, wf ''qts'' writeInt32]),
      (192428418, [wf ''_'' writeInt32, wf_flags ''flags'' [(''presentation'', 0)],
         wf ''params'' writeTLDataJSON]),
      (1299263278, [wf ''_'' writeInt32, wf ''peer'' writeTLPeer, wf ''bot_id'' writeInt64,
         wf ''commands'' (writeVector (Some writeTLBotCommand))]),
      (1885586395, [wf ''_'' writeInt32, wf ''peer'' writeTLPeer,
         wf ''requests_pending'' writeInt32,
         wf ''recent_requesters'' (writeVector (Some writeInt64))]),
      (2092125561, [wf ''_'' writeInt32, wf_flags ''flags'' [(''query_id'', 0)],
         wf ''peer'' writeTLPeer, wf ''date'' writeInt32, wf ''user_id'' writeInt64,
         wf ''about'' writeString, wf ''invite'' writeTLExportedChatInvite, wf ''qts'' writeInt32,
         wf_if ''flags'' 0 ''query_id'' writeInt64]),
      (506035194, [wf ''_'' writeInt32, wf_flags ''flags'' [(''top_msg_id'', 0),
         (''saved_peer_id'', 1)], wf ''peer'' writeTLPeer, wf ''msg_id'' writeInt32,
         wf_if ''flags'' 0 ''top_msg_id'' writeInt32,
         wf_if ''flags'' 1 ''saved_peer_id'' writeTLPeer,
         wf ''reactions'' writeTLMessageReactions]),
      (397910539, [wf ''_'' writeInt32]),
      (361936797, [wf ''_'' writeInt32, wf ''query_id'' writeInt64]),
      (347625491, [wf ''_'' writeInt32, wf ''bot_id'' writeInt64,
         wf ''button'' writeTLBotMenuButton]),
      (1960361625, [wf ''_'' writeInt32]),
      (8703322, [wf ''_'' writeInt32, wf_flags ''flags'' [(''pending'', 0)],
         wf ''peer'' writeTLPeer, wf ''msg_id'' writeInt32, wf ''transcription_id'' writeInt64,
         wf ''text'' writeString]),
      (- 78886548, [wf ''_'' writeInt32]),
      (674706841, [wf ''_'' writeInt32, wf ''user_id'' writeInt64,
         wf ''emoji_status'' writeTLEmojiStatus]),
      (821314523, [wf ''_'' writeInt32]),
      (1870160884, [wf ''_'' writeInt32]),
      (- 2030252155, [wf ''_'' writeInt32, wf_flags ''flags'' [(''masks'', 0), (''emojis'', 1)],
         wf ''stickerset'' writeInt64]),
      (- 710666460, [wf ''_'' writeInt32, wf ''peer'' writeTLPeer, wf ''msg_id'' writeInt32,
         wf ''extended_media'' (writeVector (Some writeTLMessageExtendedMedia))]),
      (542282808, [wf ''_'' writeInt32, wf ''user_id'' writeInt64]),
      (- 335171433, [wf ''_'' writeInt32]),
      (1974712216, [wf ''_'' writeInt32, wf ''peer'' writeTLPeer, wf ''story'' writeTLStoryItem]),
      (- 145845461, [wf ''_'' writeInt32, wf ''peer'' writeTLPeer, wf ''max_id'' writeInt32]),
      (468923833, [wf ''_'' writeInt32, wf ''id'' writeInt32, wf ''random_id'' writeInt64]),
      (738741697, [wf ''_'' writeInt32, wf ''stealth_mode'' writeTLStoriesStealthMode]),
      (2103604867, [wf ''_'' writeInt32, wf ''peer'' writeTLPeer, wf ''story_id'' writeInt32,
         wf ''reaction'' writeTLReaction]),
      (- 1873947492, [wf ''_'' writeInt32, wf ''peer'' writeTLPeer, wf ''boost'' writeTLBoost,
         wf ''qts'' writeInt32]),
      (129403168, [wf ''_'' writeInt32, wf ''channel_id'' writeInt64, wf ''enabled'' writeBool]),
      (- 1371598819, [wf ''_'' writeInt32, wf_flags ''flags'' [(''wallpaper_overridden'', 1),
         (''wallpaper'', 0)], wf ''peer'' writeTLPeer,
         wf_if ''flags'' 0 ''wallpaper'' writeTLWallPaper]),
      (- 1407069234, [wf ''_'' writeInt32, wf ''peer'' writeTLPeer, wf ''msg_id'' writeInt32,
         wf ''date'' writeInt32, wf ''actor'' writeTLPeer,
         wf ''old_reactions'' (writeVector (Some writeTLReaction)),
         wf ''new_reactions'' (writeVector (Some writeTLReaction)), wf ''qts'' writeInt32]),
      (164329305, [wf ''_'' writeInt32, wf ''peer'' writeTLPeer, wf ''msg_id'' writeInt32,
         wf ''date'' writeInt32, wf ''reactions'' (writeVector (Some writeTLReactionCount)),
         wf ''qts'' writeInt32]),
      (- 1364222348, [wf ''_'' writeInt32, wf_flags ''flags'' [(''pinned'', 0)],
         wf ''peer'' writeTLDialogPeer]),
      (1751942566, [wf ''_'' writeInt32, wf_flags ''flags'' [(''order'', 0)],
         wf_if ''flags'' 0 ''order'' (writeVector (Some writeTLDialogPeer))]),
      (969307186, [wf ''_'' writeInt32]),
      (- 245208620, [wf ''_'' writeInt32, wf ''job_id'' writeString]),
      (- 112784718, [wf ''_'' writeInt32,
         wf ''quick_replies'' (writeVector (Some writeTLQuickReply))]),
      (- 180508905, [wf ''_'' writeInt32, wf ''quick_reply'' writeTLQuickReply]),
      (1407644140, [wf ''_'' writeInt32, wf ''shortcut_id'' writeInt32]),
      (1040518415, [wf ''_'' writeInt32, wf ''message'' writeTLMessage]),
      (1450174413, [wf ''_'' writeInt32, wf ''shortcut_id'' writeInt32,
         wf ''messages'' (writeVector (Some writeInt32))]),
      (- 1964652166, [wf ''_'' writeInt32, wf ''connection'' writeTLBotBusinessConnection,
         wf ''qts'' writeInt32]),
      (- 1646578564, [wf ''_'' writeInt32, wf_flags ''flags'' [(''reply_to_message'', 0)],
         wf ''connection_id'' writeString, wf ''message'' writeTLMessage,
         wf_if ''flags'' 0 ''reply_to_message'' writeTLMessage, wf ''qts'' writeInt32]),
      (132077692, [wf ''_'' writeInt32, wf_flags ''flags'' [(''reply_to_message'', 0)],
         wf ''connection_id'' writeString, wf ''message'' writeTLMessage,
         wf_if ''flags'' 0 ''reply_to_message'' writeTLMessage, wf ''qts'' writeInt32]),
      (- 1607821266, [wf ''_'' writeInt32, wf ''connection_id'' writeString,
         wf ''peer'' writeTLPeer, wf ''messages'' (writeVector (Some writeInt32)),
         wf ''qts'' writeInt32]),
      (405070859, [wf ''_'' writeInt32, wf ''story_id'' writeInt32, wf ''peer'' writeTLPeer,
         wf ''reaction'' writeTLReaction]),
      (1317053305, [wf ''_'' writeInt32, wf ''balance'' writeTLStarsAmount]),
      (513998247, [wf ''_'' writeInt32, wf_flags ''flags'' [(''reply_to_message'', 2), (''data'',
         0)], wf ''query_id'' writeInt64, wf ''user_id'' writeInt64,
         wf ''connection_id'' writeString, wf ''message'' writeTLMessage,
         wf_if ''flags'' 2 ''reply_to_message'' writeTLMessage, wf ''chat_instance'' writeInt64,
         wf_if ''flags'' 0 ''data'' writeByteArray]),
      (- 1518030823, [wf ''_'' writeInt32, wf ''peer'' writeTLPeer,
         wf ''status'' writeTLStarsRevenueStatus]),
      (675009298, [wf ''_'' writeInt32, wf ''user_id'' writeInt64, wf ''payload'' writeString,
         wf ''qts'' writeInt32]),
      (- 1955438642, [wf ''_'' writeInt32, wf ''private'' writeTLPaidReactionPrivacy]),
      (1347068303, [wf ''_'' writeInt32, wf ''sent_code'' writeTLAuthSentCode]),
      (- 1535694705, [wf ''_'' writeInt32, wf ''call'' writeTLInputGroupCall,
         wf ''sub_chain_id'' writeInt32, wf ''blocks'' (writeVector (Some writeByteArray)),
         wf ''next_offset'' writeInt32]),
      (2008081266, [wf ''_'' writeInt32, wf ''channel_id'' writeInt64,
         wf ''saved_peer_id'' writeTLPeer, wf ''read_max_id'' writeInt32]),
      (- 1532521610, [wf ''_'' writeInt32, wf ''channel_id'' writeInt64,
         wf ''saved_peer_id'' writeTLPeer, wf ''read_max_id'' writeInt32]),
      (- 1618924792, [wf ''_'' writeInt32, wf_flags ''flags'' [(''exception'', 0)],
         wf ''channel_id'' writeInt64, wf ''saved_peer_id'' writeTLPeer]),
      (- 667783411, [wf ''_'' writeInt32, wf ''call'' writeTLInputGroupCall,
         wf ''message'' writeTLGroupCallMessage]),
      (- 917002394, [wf ''_'' writeInt32, wf ''call'' writeTLInputGroupCall,
         wf ''from_id'' writeTLPeer, wf ''encrypted_message'' writeByteArray]),
      (1748708434, [wf ''_'' writeInt32, wf_flags ''flags'' [(''pinned'', 0)],
         wf ''peer'' writeTLPeer, wf ''topic_id'' writeInt32]),
      (- 554613808, [wf ''_'' writeInt32, wf_flags ''flags'' [(''order'', 0)],
         wf ''peer'' writeTLPeer, wf_if ''flags'' 0 ''order'' (writeVector (Some writeInt32))]),
      (1048963372, [wf ''_'' writeInt32, wf ''call'' writeTLInputGroupCall,
         wf ''messages'' (writeVector (Some writeInt32))]),
      (1222788802, [wf ''_'' writeInt32, wf ''gift_id'' writeInt64,
         wf ''state'' writeTLStarGiftAuctionState]),
      (- 598150370, [wf ''_'' writeInt32, wf ''gift_id'' writeInt64,
         wf ''user_state'' writeTLStarGiftAuctionUserState]),
      (- 73640838, [wf ''_'' writeInt32, wf ''info'' writeTLMessagesEmojiGameInfo]),
      (- 1408818108, [wf ''_'' writeInt32]),
      (- 1115461703, [wf ''_'' writeInt32, wf ''chat_id'' writeInt64, wf ''user_id'' writeInt64,
         wf ''rank'' writeString, wf ''version'' writeInt32]),
      (1216408986, [wf ''_'' writeInt32, wf ''user_id'' writeInt64, wf ''bot_id'' writeInt64,
         wf ''qts'' writeInt32]),
      (- 841742019, [wf ''_'' writeInt32, wf_flags ''flags'' [(''reference_messages'', 0)],
         wf ''query_id'' writeInt64, wf ''message'' writeTLMessage,
         wf_if ''flags'' 0 ''reference_messages'' (writeVector (Some writeTLMessage)),
         wf ''qts'' writeInt32]),
      (- 1945136645, [wf ''_'' writeInt32]),
      (- 1112768912, [wf ''_'' writeInt32, wf ''peer'' writeTLPeer, wf ''query_id'' writeInt64,
         wf ''result'' writeTLJoinChatBotResult]),
      (- 1306491994, [wf ''_'' writeInt32, wf_flags ''flags'' [(''confirmed'', 0), (''date'', 1),
         (''device'', 1), (''location'', 1)], wf ''bot_id'' writeInt64,
         wf_if ''flags'' 1 ''date'' writeInt32, wf_if ''flags'' 1 ''device'' writeString,
         wf_if ''flags'' 1 ''location'' writeString]),
      (- 1013306658, [wf ''_'' writeInt32, wf_flags ''flags'' [(''open_external_browser'', 0),
         (''display_close_button'', 1)]]),
      (335872721, [wf ''_'' writeInt32, wf_flags ''flags'' [(''delete'', 1),
         (''open_external_browser'', 0)], wf_if ''flags'' 0 ''open_external_browser'' writeBool,
         wf ''exception'' writeTLWebDomainException]),
      (549239713, [wf ''_'' writeInt32, wf ''message'' writeTLEphemeralMessage]),
      (1457257720, [wf ''_'' writeInt32, wf ''peer'' writeTLPeer,
         wf ''ids'' (writeVector (Some writeInt32))]),
      (1270583041, [wf ''_'' writeInt32, wf ''message'' writeTLEphemeralMessage]),
      (2081454550, [wf ''_'' writeInt32, wf_flags ''flags'' [(''peer'', 0), (''chat_instance'',
         1)], wf ''query_id'' writeInt64, wf ''user_id'' writeInt64,
         wf_if ''flags'' 0 ''peer'' writeTLPeer, wf ''msg_id'' writeInt32,
         wf ''data'' writeByteArray, wf_if ''flags'' 1 ''chat_instance'' writeInt64,
         wf ''message'' writeTLEphemeralMessage]),
      (1812827683, [wf ''_'' writeInt32, wf_flags ''flags'' [(''canceled'', 0),
         (''payment_failed'', 1), (''restored'', 2)], wf ''user_id'' writeInt64,
         wf ''payload'' writeByteArray, wf ''qts'' writeInt32])]"

definition TL_Update_table :: flag_table where
  "TL_Update_table =
     [(522914557, [Plain (''message'', readTLMessage, writeTLMessage, enc_fobject TL_Message_table,
         ok_fobject TL_Message_table),
        Plain (''pts'', readInt32, writeInt32, enc_int32, is_VInt),
        Plain (''pts_count'', readInt32, writeInt32, enc_int32, is_VInt)]),
      (1318109142, [Plain (''id'', readInt32, writeInt32, enc_int32, is_VInt),
        Plain (''random_id'', readInt64, writeInt64, enc_int64, is_VLong)]),
      (- 1576161051, [Plain (''messages'', readVector (Some readInt32),
         writeVector (Some writeInt32), enc_vector enc_int32, ok_vector is_VInt),
        Plain (''pts'', readInt32, writeInt32, enc_int32, is_VInt),
        Plain (''pts_count'', readInt32, writeInt32, enc_int32, is_VInt)]),
      (706199388, [Flags ''flags'' [(''top_msg_id'', 0)],
        Plain (''user_id'', readInt64, writeInt64, enc_int64, is_VLong),
        Cond ''flags'' 0 (''top_msg_id'', readInt32, writeInt32, enc_int32, is_VInt),
        Plain (''action'', readTLSendMessageAction, writeTLSendMessageAction,
         enc_fobject TL_SendMessageAction_table, ok_fobject TL_SendMessageAction_table)]),
      (- 2092401936, [Plain (''chat_id'', readInt64, writeInt64, enc_int64, is_VLong),
        Plain (''from_id'', readTLPeer, writeTLPeer, enc_fobject TL_Peer_table,
         ok_fobject TL_Peer_table),
        Plain (''action'', readTLSendMessageAction, writeTLSendMessageAction,
         enc_fobject TL_SendMessageAction_table, ok_fobject TL_SendMessageAction_table)]),
      (125178264, [Plain (''participants'', readTLChatParticipants, writeTLChatParticipants,
         enc_fobject TL_ChatParticipants_table, ok_fobject TL_ChatParticipants_table)]),
      (- 440534818, [Plain (''user_id'', readInt64, writeInt64, enc_int64, is_VLong),
        Plain (''status'', readTLUserStatus, writeTLUserStatus, enc_fobject TL_UserStatus_table,
         ok_fobject TL_UserStatus_table)]),
      (- 1484486364, [Plain (''user_id'', readInt64, writeInt64, enc_int64, is_VLong),
        Plain (''first_name'', readString, writeString, enc_string, is_short_text),
        Plain (''last_name'', readString, writeString, enc_string, is_short_text),
        Plain (''usernames'', readVector (Some readTLUsername), writeVector (Some writeTLUsername),
         enc_vector (enc_fobject TL_Username_table), ok_vector (ok_fobject TL_Username_table))]),
      (- 1991136273, [Flags ''flags'' [(''unconfirmed'', 0), (''date'', 0), (''device'', 0),
         (''location'', 0)],
        TrueBit ''flags'' 0 ''unconfirmed'',
        Plain (''hash'', readInt64, writeInt64, enc_int64, is_VLong),
        Cond ''flags'' 0 (''date'', readInt32, writeInt32, enc_int32, is_VInt),
        Cond ''flags'' 0 (''device'', readString, writeString, enc_string, is_short_text),
        Cond ''flags'' 0 (''location'', readString, writeString, enc_string, is_short_text)]),
      (314359194, [Plain (''message'', readTLEncryptedMessage, writeTLEncryptedMessage,
         enc_fobject TL_EncryptedMessage_table, ok_fobject TL_EncryptedMessage_table),
        Plain (''qts'', readInt32, writeInt32, enc_int32, is_VInt)]),
      (386986326, [Plain (''chat_id'', readInt32, writeInt32, enc_int32, is_VInt)]),
      (- 1264392051, [Plain (''chat'', readTLEncryptedChat, writeTLEncryptedChat,
         enc_fobject TL_EncryptedChat_table, ok_fobject TL_EncryptedChat_table),
        Plain (''date'', readInt32, writeInt32, enc_int32, is_VInt)]),
      (956179895, [Plain (''chat_id'', readInt32, writeInt32, enc_int32, is_VInt),
        Plain (''max_date'', readInt32, writeInt32, enc_int32, is_VInt),
        Plain (''date'', readInt32, writeInt32, enc_int32, is_VInt)]),
      (1037718609, [Plain (''chat_id'', readInt64, writeInt64, enc_int64, is_VLong),
        Plain (''user_id'', readInt64, writeInt64, enc_int64, is_VLong),
        Plain (''inviter_id'', readInt64, writeInt64, enc_int64, is_VLong),
        Plain (''date'', readInt32, writeInt32, enc_int32, is_VInt),
        Plain (''version'', readInt32, writeInt32, enc_int32, is_VInt)]),
      (- 483443337, [Plain (''chat_id'', readInt64, writeInt64, enc_int64, is_VLong),
        Plain (''user_id'', readInt64, writeInt64, enc_int64, is_VLong),
        Plain (''version'', readInt32, writeInt32, enc_int32, is_VInt)]),
      (- 1906403213, [Plain (''dc_options'', readVector (Some readTLDcOption),
         writeVector (Some writeTLDcOption), enc_vector (enc_fobject TL_DcOption_table),
         ok_vector (ok_fobject TL_DcOption_table))]),
      (- 1094555409, [Plain (''peer'', readTLNotifyPeer, writeTLNotifyPeer,
         enc_fobject TL_NotifyPeer_table, ok_fobject TL_NotifyPeer_table),
        Plain (''notify_settings'', readTLPeerNotifySettings, writeTLPeerNotifySettings,
         enc_fobject TL_PeerNotifySettings_table, ok_fobject TL_PeerNotifySettings_table)]),
      (- 337352679, [Flags ''flags'' [(''popup'', 0), (''invert_media'', 2), (''inbox_date'', 1)],
        TrueBit ''flags'' 0 ''popup'',
        TrueBit ''flags'' 2 ''invert_media'',
        Cond ''flags'' 1 (''inbox_date'', readInt32, writeInt32, enc_int32, is_VInt),
        Plain (''type'', readString, writeString, enc_string, is_short_text),
        Plain (''message'', readString, writeString, enc_string, is_short_text),
        Plain (''media'', readTLMessageMedia, writeTLMessageMedia, enc_MessageMedia,
         ok_MessageMedia),
        Plain (''entities'', readVector (Some readTLMessageEntity),
         writeVector (Some writeTLMessageEntity), enc_vector (enc_fobject TL_MessageEntity_table),
         ok_vector (ok_fobject TL_MessageEntity_table))]),
      (- 298113238, [Plain (''key'', readTLPrivacyKey, writeTLPrivacyKey,
         enc_fobject TL_PrivacyKey_table, ok_fobject TL_PrivacyKey_table),
        Plain (''rules'', readVector (Some readTLPrivacyRule),
         writeVector (Some writeTLPrivacyRule), enc_vector (enc_fobject TL_PrivacyRule_table),
         ok_vector (ok_fobject TL_PrivacyRule_table))]),
      (88680979, [Plain (''user_id'', readInt64, writeInt64, enc_int64, is_VLong),
        Plain (''phone'', readString, writeString, enc_string, is_short_text)]),
      (- 1635468135, [Flags ''flags'' [(''folder_id'', 0), (''top_msg_id'', 1)],
        Cond ''flags'' 0 (''folder_id'', readInt32, writeInt32, enc_int32, is_VInt),
        Plain (''peer'', readTLPeer, writeTLPeer, enc_fobject TL_Peer_table,
         ok_fobject TL_Peer_table),
        Cond ''flags'' 1 (''top_msg_id'', readInt32, writeInt32, enc_int32, is_VInt),
        Plain (''max_id'', readInt32, writeInt32, enc_int32, is_VInt),
        Plain (''still_unread_count'', readInt32, writeInt32, enc_int32, is_VInt),
        Plain (''pts'', readInt32, writeInt32, enc_int32, is_VInt),
        Plain (''pts_count'', readInt32, writeInt32, enc_int32, is_VInt)]),
      (791617983, [Plain (''peer'', readTLPeer, writeTLPeer, enc_fobject TL_Peer_table,
         ok_fobject TL_Peer_table),
        Plain (''max_id'', readInt32, writeInt32, enc_int32, is_VInt),
        Plain (''pts'', readInt32, writeInt32, enc_int32, is_VInt),
        Plain (''pts_count'', readInt32, writeInt32, enc_int32, is_VInt)]),
      (2139689491, [Plain (''webpage'', readTLWebPage, writeTLWebPage, enc_WebPage, ok_WebPage),
        Plain (''pts'', readInt32, writeInt32, enc_int32, is_VInt),
        Plain (''pts_count'', readInt32, writeInt32, enc_int32, is_VInt)]),
      (- 131960447, [Flags ''flags'' [(''date'', 0)],
        Plain (''messages'', readVector (Some readInt32), writeVector (Some writeInt32),
         enc_vector enc_int32, ok_vector is_VInt),
        Plain (''pts'', readInt32, writeInt32, enc_int32, is_VInt),
        Plain (''pts_count'', readInt32, writeInt32, enc_int32, is_VInt),
        Cond ''flags'' 0 (''date'', readInt32, writeInt32, enc_int32, is_VInt)]),
      (277713951, [Flags ''flags'' [(''pts'', 0)],
        Plain (''channel_id'', readInt64, writeInt64, enc_int64, is_VLong),
        Cond ''flags'' 0 (''pts'', readInt32, writeInt32, enc_int32, is_VInt)]),
      (1666927625, [Plain (''channel_id'', readInt64, writeInt64, enc_int64, is_VLong)]),
      (1656358105, [Plain (''message'', readTLMessage, writeTLMessage,
         enc_fobject TL_Message_table, ok_fobject TL_Message_table),
        Plain (''pts'', readInt32, writeInt32, enc_int32, is_VInt),
        Plain (''pts_count'', readInt32, writeInt32, enc_int32, is_VInt)]),
      (- 1842450928, [Flags ''flags'' [(''folder_id'', 0)],
        Cond ''flags'' 0 (''folder_id'', readInt32, writeInt32, enc_int32, is_VInt),
        Plain (''channel_id'', readInt64, writeInt64, enc_int64, is_VLong),
        Plain (''max_id'', readInt32, writeInt32, enc_int32, is_VInt),
        Plain (''still_unread_count'', readInt32, writeInt32, enc_int32, is_VInt),
        Plain (''pts'', readInt32, writeInt32, enc_int32, is_VInt)]),
      (- 1020437742, [Plain (''channel_id'', readInt64, writeInt64, enc_int64, is_VLong),
        Plain (''messages'', readVector (Some readInt32), writeVector (Some writeInt32),
         enc_vector enc_int32, ok_vector is_VInt),
        Plain (''pts'', readInt32, writeInt32, enc_int32, is_VInt),
        Plain (''pts_count'', readInt32, writeInt32, enc_int32, is_VInt)]),
      (- 232346616, [Plain (''channel_id'', readInt64, writeInt64, enc_int64, is_VLong),
        Plain (''id'', readInt32, writeInt32, enc_int32, is_VInt),
        Plain (''views'', readInt32, writeInt32, enc_int32, is_VInt)]),
      (- 674602590, [Plain (''chat_id'', readInt64, writeInt64, enc_int64, is_VLong),
        Plain (''user_id'', readInt64, writeInt64, enc_int64, is_VLong),
        Plain (''is_admin'', readBool, writeBool, enc_bool, is_VBool),
        Plain (''version'', readInt32, writeInt32, enc_int32, is_VInt)]),
      (1753886890, [Plain (''stickerset'', readTLMessagesStickerSet, writeTLMessagesStickerSet,
         enc_fobject TL_MessagesStickerSet_table, ok_fobject TL_MessagesStickerSet_table)]),
      (196268545, [Flags ''flags'' [(''masks'', 0), (''emojis'', 1)],
        TrueBit ''flags'' 0 ''masks'',
        TrueBit ''flags'' 1 ''emojis'',
        Plain (''order'', readVector (Some readInt64), writeVector (Some writeInt64),
         enc_vector enc_int64, ok_vector is_VLong)]),
      (834816008, [Flags ''flags'' [(''masks'', 0), (''emojis'', 1)],
        TrueBit ''flags'' 0 ''masks'',
        TrueBit ''flags'' 1 ''emojis'']),
      (- 1821035490, []),
      (1232025500, [Flags ''flags'' [(''geo'', 0), (''peer_type'', 1)],
        Plain (''query_id'', readInt64, writeInt64, enc_int64, is_VLong),
        Plain (''user_id'', readInt64, writeInt64, enc_int64, is_VLong),
        Plain (''query'', readString, writeString, enc_string, is_short_text),
        Cond ''flags'' 0 (''geo'', readTLGeoPoint, writeTLGeoPoint, enc_fobject TL_GeoPoint_table,
         ok_fobject TL_GeoPoint_table),
        Cond ''flags'' 1 (''peer_type'', readTLInlineQueryPeerType, writeTLInlineQueryPeerType,
         enc_fobject TL_InlineQueryPeerType_table, ok_fobject TL_InlineQueryPeerType_table),
        Plain (''offset'', readString, writeString, enc_string, is_short_text)]),
      (317794823, [Flags ''flags'' [(''geo'', 0), (''msg_id'', 1)],
        Plain (''user_id'', readInt64, writeInt64, enc_int64, is_VLong),
        Plain (''query'', readString, writeString, enc_string, is_short_text),
        Cond ''flags'' 0 (''geo'', readTLGeoPoint, writeTLGeoPoint, enc_fobject TL_GeoPoint_table,
         ok_fobject TL_GeoPoint_table),
        Plain (''id'', readString, writeString, enc_string, is_short_text),
        Cond ''flags'' 1 (''msg_id'', readTLInputBotInlineMessageID,
         writeTLInputBotInlineMessageID, enc_fobject TL_InputBotInlineMessageID_table,
         ok_fobject TL_InputBotInlineMessageID_table)]),
      (457133559, [Plain (''message'', readTLMessage, writeTLMessage, enc_fobject TL_Message_table,
         ok_fobject TL_Message_table),
        Plain (''pts'', readInt32, writeInt32, enc_int32, is_VInt),
        Plain (''pts_count'', readInt32, writeInt32, enc_int32, is_VInt)]),
      (- 1177566067, [Flags ''flags'' [(''data'', 0), (''game_short_name'', 1)],
        Plain (''query_id'', readInt64, writeInt64, enc_int64, is_VLong),
        Plain (''user_id'', readInt64, writeInt64, enc_int64, is_VLong),
        Plain (''peer'', readTLPeer, writeTLPeer, enc_fobject TL_Peer_table,
         ok_fobject TL_Peer_table),
        Plain (''msg_id'', readInt32, writeInt32, enc_int32, is_VInt),
        Plain (''chat_instance'', readInt64, writeInt64, enc_int64, is_VLong),
        Cond ''flags'' 0 (''data'', readByteArray, writeByteArray, enc_bytes, is_short_bytes),
        Cond ''flags'' 1 (''game_short_name'', readString, writeString, enc_string,
         is_short_text)]),
      (- 469536605, [Plain (''message'', readTLMessage, writeTLMessage,
         enc_fobject TL_Message_table, ok_fobject TL_Message_table),
        Plain (''pts'', readInt32, writeInt32, enc_int32, is_VInt),
        Plain (''pts_count'', readInt32, writeInt32, enc_int32, is_VInt)]),
      (1763610706, [Flags ''flags'' [(''data'', 0), (''game_short_name'', 1)],
        Plain (''query_id'', readInt64, writeInt64, enc_int64, is_VLong),
        Plain (''user_id'', readInt64, writeInt64, enc_int64, is_VLong),
        Plain (''msg_id'', readTLInputBotInlineMessageID, writeTLInputBotInlineMessageID,
         enc_fobject TL_InputBotInlineMessageID_table, ok_fobject TL_InputBotInlineMessageID_table),
        Plain (''chat_instance'', readInt64, writeInt64, enc_int64, is_VLong),
        Cond ''flags'' 0 (''data'', readByteArray, writeByteArray, enc_bytes, is_short_bytes),
        Cond ''flags'' 1 (''game_short_name'', readString, writeString, enc_string,
         is_short_text)]),
      (- 1218471511, [Plain (''channel_id'', readInt64, writeInt64, enc_int64, is_VLong),
        Plain (''max_id'', readInt32, writeInt32, enc_int32, is_VInt)]),
      (- 302247650, [Flags ''flags'' [(''top_msg_id'', 0), (''saved_peer_id'', 1)],
        Plain (''peer'', readTLPeer, writeTLPeer, enc_fobject TL_Peer_table,
         ok_fobject TL_Peer_table),
        Cond ''flags'' 0 (''top_msg_id'', readInt32, writeInt32, enc_int32, is_VInt),
        Cond ''flags'' 1 (''saved_peer_id'', readTLPeer, writeTLPeer, enc_fobject TL_Peer_table,
         ok_fobject TL_Peer_table),
        Plain (''draft'', readTLDraftMessage, writeTLDraftMessage,
         enc_fobject TL_DraftMessage_table, ok_fobject TL_DraftMessage_table)]),
      (1461528386, []),
      (- 1706939360, []),
      (- 1574314746, []),
      (861169551, []),
      (791390623, [Plain (''channel_id'', readInt64, writeInt64, enc_int64, is_VLong),
        Plain (''webpage'', readTLWebPage, writeTLWebPage, enc_WebPage, ok_WebPage),
        Plain (''pts'', readInt32, writeInt32, enc_int32, is_VInt),
        Plain (''pts_count'', readInt32, writeInt32, enc_int32, is_VInt)]),
      (1852826908, [Flags ''flags'' [(''pinned'', 0), (''folder_id'', 1)],
        TrueBit ''flags'' 0 ''pinned'',
        Cond ''flags'' 1 (''folder_id'', readInt32, writeInt32, enc_int32, is_VInt),
        Plain (''peer'', readTLDialogPeer, writeTLDialogPeer, enc_fobject TL_DialogPeer_table,
         ok_fobject TL_DialogPeer_table)]),
      (- 99664734, [Flags ''flags'' [(''folder_id'', 1), (''order'', 0)],
        Cond ''flags'' 1 (''folder_id'', readInt32, writeInt32, enc_int32, is_VInt),
        Cond ''flags'' 0 (''order'', readVector (Some readTLDialogPeer),
         writeVector (Some writeTLDialogPeer), enc_vector (enc_fobject TL_DialogPeer_table),
         ok_vector (ok_fobject TL_DialogPeer_table))]),
      (- 2095595325, [Plain (''data'', readTLDataJSON, writeTLDataJSON,
         enc_fobject TL_DataJSON_table, ok_fobject TL_DataJSON_table)]),
      (- 1684914010, [Plain (''query_id'', readInt64, writeInt64, enc_int64, is_VLong),
        Plain (''data'', readTLDataJSON, writeTLDataJSON, enc_fobject TL_DataJSON_table,
         ok_fobject TL_DataJSON_table),
        Plain (''timeout'', readInt32, writeInt32, enc_int32, is_VInt)]),
      (- 1246823043, [Plain (''query_id'', readInt64, writeInt64, enc_int64, is_VLong),
        Plain (''user_id'', readInt64, writeInt64, enc_int64, is_VLong),
        Plain (''payload'', readByteArray, writeByteArray, enc_bytes, is_short_bytes),
        Plain (''shipping_address'', readTLPostAddress, writeTLPostAddress,
         enc_fobject TL_PostAddress_table, ok_fobject TL_PostAddress_table)]),
      (- 1934976362, [Flags ''flags'' [(''info'', 0), (''shipping_option_id'', 1)],
        Plain (''query_id'', readInt64, writeInt64, enc_int64, is_VLong),
        Plain (''user_id'', readInt64, writeInt64, enc_int64, is_VLong),
        Plain (''payload'', readByteArray, writeByteArray, enc_bytes, is_short_bytes),
        Cond ''flags'' 0 (''info'', readTLPaymentRequestedInfo, writeTLPaymentRequestedInfo,
         enc_fobject TL_PaymentRequestedInfo_table, ok_fobject TL_PaymentRequestedInfo_table),
        Cond ''flags'' 1 (''shipping_option_id'', readString, writeString, enc_string,
         is_short_text),
        Plain (''currency'', readString, writeString, enc_string, is_short_text),
        Plain (''total_amount'', readInt64, writeInt64, enc_int64, is_VLong)]),
      (- 1425052898, [Plain (''phone_call'', readTLPhoneCall, writeTLPhoneCall,
         enc_fobject TL_PhoneCall_table, ok_fobject TL_PhoneCall_table)]),
      (1180041828, [Plain (''lang_code'', readString, writeString, enc_string, is_short_text)]),
      (1442983757, [Plain (''difference'', readTLLangPackDifference, writeTLLangPackDifference,
         enc_fobject TL_LangPackDifference_table, ok_fobject TL_LangPackDifference_table)]),
      (- 451831443, []),
      (636691703, [Flags ''flags'' [(''top_msg_id'', 0), (''saved_peer_id'', 1)],
        Plain (''channel_id'', readInt64, writeInt64, enc_int64, is_VLong),
        Cond ''flags'' 0 (''top_msg_id'', readInt32, writeInt32, enc_int32, is_VInt),
        Cond ''flags'' 1 (''saved_peer_id'', readTLPeer, writeTLPeer, enc_fobject TL_Peer_table,
         ok_fobject TL_Peer_table),
        Plain (''messages'', readVector (Some readInt32), writeVector (Some writeInt32),
         enc_vector enc_int32, ok_vector is_VInt)]),
      (1887741886, []),
      (- 1304443240, [Plain (''channel_id'', readInt64, writeInt64, enc_int64, is_VLong),
        Plain (''available_min_id'', readInt32, writeInt32, enc_int32, is_VInt)]),
      (- 1235684802, [Flags ''flags'' [(''unread'', 0), (''saved_peer_id'', 1)],
        TrueBit ''flags'' 0 ''unread'',
        Plain (''peer'', readTLDialogPeer, writeTLDialogPeer, enc_fobject TL_DialogPeer_table,
         ok_fobject TL_DialogPeer_table),
        Cond ''flags'' 1 (''saved_peer_id'', readTLPeer, writeTLPeer, enc_fobject TL_Peer_table,
         ok_fobject TL_Peer_table)]),
      (- 699641301, [Flags ''flags'' [(''peer'', 1), (''msg_id'', 1), (''top_msg_id'', 2),
         (''poll'', 0)],
        Cond ''flags'' 1 (''peer'', readTLPeer, writeTLPeer, enc_fobject TL_Peer_table,
         ok_fobject TL_Peer_table),
        Cond ''flags'' 1 (''msg_id'', readInt32, writeInt32, enc_int32, is_VInt),
        Cond ''flags'' 2 (''top_msg_id'', readInt32, writeInt32, enc_int32, is_VInt),
        Plain (''poll_id'', readInt64, writeInt64, enc_int64, is_VLong),
        Cond ''flags'' 0 (''poll'', readTLPoll, writeTLPoll, enc_Poll, ok_Poll),
        Plain (''results'', readTLPollResults, writeTLPollResults, enc_PollResults,
         ok_PollResults)]),
      (1421875280, [Plain (''peer'', readTLPeer, writeTLPeer, enc_fobject TL_Peer_table,
         ok_fobject TL_Peer_table),
        Plain (''default_banned_rights'', readTLChatBannedRights, writeTLChatBannedRights,
         enc_fobject TL_ChatBannedRights_table, ok_fobject TL_ChatBannedRights_table),
        Plain (''version'', readInt32, writeInt32, enc_int32, is_VInt)]),
      (422972864, [Plain (''folder_peers'', readVector (Some readTLFolderPeer),
         writeVector (Some writeTLFolderPeer), enc_vector (enc_fobject TL_FolderPeer_table),
         ok_vector (ok_fobject TL_FolderPeer_table)),
        Plain (''pts'', readInt32, writeInt32, enc_int32, is_VInt),
        Plain (''pts_count'', readInt32, writeInt32, enc_int32, is_VInt)]),
      (1786671974, [Plain (''peer'', readTLPeer, writeTLPeer, enc_fobject TL_Peer_table,
         ok_fobject TL_Peer_table),
        Plain (''settings'', readTLPeerSettings, writeTLPeerSettings,
         enc_fobject TL_PeerSettings_table, ok_fobject TL_PeerSettings_table)]),
      (- 1263546448, [Plain (''peers'', readVector (Some readTLPeerLocated),
         writeVector (Some writeTLPeerLocated), enc_vector (enc_fobject TL_PeerLocated_table),
         ok_vector (ok_fobject TL_PeerLocated_table))]),
      (967122427, [Plain (''message'', readTLMessage, writeTLMessage, enc_fobject TL_Message_table,
         ok_fobject TL_Message_table)]),
      (- 223929981, [Flags ''flags'' [(''sent_messages'', 0)],
        Plain (''peer'', readTLPeer, writeTLPeer, enc_fobject TL_Peer_table,
         ok_fobject TL_Peer_table),
        Plain (''messages'', readVector (Some readInt32), writeVector (Some writeInt32),
         enc_vector enc_int32, ok_vector is_VInt),
        Cond ''flags'' 0 (''sent_messages'', readVector (Some readInt32),
         writeVector (Some writeInt32), enc_vector enc_int32, ok_vector is_VInt)]),
      (- 2112423005, [Plain (''theme'', readTLTheme, writeTLTheme, enc_fobject TL_Theme_table,
         ok_fobject TL_Theme_table)]),
      (- 2027964103, [Plain (''peer'', readTLPeer, writeTLPeer, enc_fobject TL_Peer_table,
         ok_fobject TL_Peer_table),
        Plain (''msg_id'', readInt32, writeInt32, enc_int32, is_VInt)]),
      (1448076945, []),
      (1989799956, [Plain (''poll_id'', readInt64, writeInt64, enc_int64, is_VLong),
        Plain (''peer'', readTLPeer, writeTLPeer, enc_fobject TL_Peer_table,
         ok_fobject TL_Peer_table),
        Plain (''options'', readVector (Some readByteArray), writeVector (Some writeByteArray),
         enc_vector enc_bytes, ok_vector is_short_bytes),
        Plain (''positions'', readVector (Some readInt32), writeVector (Some writeInt32),
         enc_vector enc_int32, ok_vector is_VInt),
        Plain (''qts'', readInt32, writeInt32, enc_int32, is_VInt)]),
      (654302845, [Flags ''flags'' [(''filter'', 0)],
        Plain (''id'', readInt32, writeInt32, enc_int32, is_VInt),
        Cond ''flags'' 0 (''filter'', readTLDialogFilter, writeTLDialogFilter,
         enc_fobject TL_DialogFilter_table, ok_fobject TL_DialogFilter_table)]),
      (- 1512627963, [Plain (''order'', readVector (Some readInt32), writeVector (Some writeInt32),
         enc_vector enc_int32, ok_vector is_VInt)]),
      (889491791, []),
      (643940105, [Plain (''phone_call_id'', readInt64, writeInt64, enc_int64, is_VLong),
        Plain (''data'', readByteArray, writeByteArray, enc_bytes, is_short_bytes)]),
      (- 761649164, [Plain (''channel_id'', readInt64, writeInt64, enc_int64, is_VLong),
        Plain (''id'', readInt32, writeInt32, enc_int32, is_VInt),
        Plain (''forwards'', readInt32, writeInt32, enc_int32, is_VInt)]),
      (- 693004986, [Flags ''flags'' [(''broadcast_id'', 0), (''broadcast_post'', 0)],
        Plain (''channel_id'', readInt64, writeInt64, enc_int64, is_VLong),
        Plain (''top_msg_id'', readInt32, writeInt32, enc_int32, is_VInt),
        Plain (''read_max_id'', readInt32, writeInt32, enc_int32, is_VInt),
        Cond ''flags'' 0 (''broadcast_id'', readInt64, writeInt64, enc_int64, is_VLong),
        Cond ''flags'' 0 (''broadcast_post'', readInt32, writeInt32, enc_int32, is_VInt)]),
      (1767677564, [Plain (''channel_id'', readInt64, writeInt64, enc_int64, is_VLong),
        Plain (''top_msg_id'', readInt32, writeInt32, enc_int32, is_VInt),
        Plain (''read_max_id'', readInt32, writeInt32, enc_int32, is_VInt)]),
      (- 337610926, [Flags ''flags'' [(''blocked'', 0), (''blocked_my_stories_from'', 1)],
        TrueBit ''flags'' 0 ''blocked'',
        TrueBit ''flags'' 1 ''blocked_my_stories_from'',
        Plain (''peer_id'', readTLPeer, writeTLPeer, enc_fobject TL_Peer_table,
         ok_fobject TL_Peer_table)]),
      (- 1937192669, [Flags ''flags'' [(''top_msg_id'', 0)],
        Plain (''channel_id'', readInt64, writeInt64, enc_int64, is_VLong),
        Cond ''flags'' 0 (''top_msg_id'', readInt32, writeInt32, enc_int32, is_VInt),
        Plain (''from_id'', readTLPeer, writeTLPeer, enc_fobject TL_Peer_table,
         ok_fobject TL_Peer_table),
        Plain (''action'', readTLSendMessageAction, writeTLSendMessageAction,
         enc_fobject TL_SendMessageAction_table, ok_fobject TL_SendMessageAction_table)]),
      (- 309990731, [Flags ''flags'' [(''pinned'', 0)],
        TrueBit ''flags'' 0 ''pinned'',
        Plain (''peer'', readTLPeer, writeTLPeer, enc_fobject TL_Peer_table,
         ok_fobject TL_Peer_table),
        Plain (''messages'', readVector (Some readInt32), writeVector (Some writeInt32),
         enc_vector enc_int32, ok_vector is_VInt),
        Plain (''pts'', readInt32, writeInt32, enc_int32, is_VInt),
        Plain (''pts_count'', readInt32, writeInt32, enc_int32, is_VInt)]),
      (1538885128, [Flags ''flags'' [(''pinned'', 0)],
        TrueBit ''flags'' 0 ''pinned'',
        Plain (''channel_id'', readInt64, writeInt64, enc_int64, is_VLong),
        Plain (''messages'', readVector (Some readInt32), writeVector (Some writeInt32),
         enc_vector enc_int32, ok_vector is_VInt),
        Plain (''pts'', readInt32, writeInt32, enc_int32, is_VInt),
        Plain (''pts_count'', readInt32, writeInt32, enc_int32, is_VInt)]),
      (- 124097970, [Plain (''chat_id'', readInt64, writeInt64, enc_int64, is_VLong)]),
      (- 219423922, [Plain (''call'', readTLInputGroupCall, writeTLInputGroupCall,
         enc_fobject TL_InputGroupCall_table, ok_fobject TL_InputGroupCall_table),
        Plain (''participants'', readVector (Some readTLGroupCallParticipant),
         writeVector (Some writeTLGroupCallParticipant),
         enc_vector (enc_fobject TL_GroupCallParticipant_table),
         ok_vector (ok_fobject TL_GroupCallParticipant_table)),
        Plain (''version'', readInt32, writeInt32, enc_int32, is_VInt)]),
      (- 1658710304, [Flags ''flags'' [(''live_story'', 2), (''peer'', 1)],
        TrueBit ''flags'' 2 ''live_story'',
        Cond ''flags'' 1 (''peer'', readTLPeer, writeTLPeer, enc_fobject TL_Peer_table,
         ok_fobject TL_Peer_table),
        Plain (''call'', readTLGroupCall, writeTLGroupCall, enc_fobject TL_GroupCall_table,
         ok_fobject TL_GroupCall_table)]),
      (- 1147422299, [Flags ''flags'' [(''ttl_period'', 0)],
        Plain (''peer'', readTLPeer, writeTLPeer, enc_fobject TL_Peer_table,
         ok_fobject TL_Peer_table),
        Cond ''flags'' 0 (''ttl_period'', readInt32, writeInt32, enc_int32, is_VInt)]),
      (- 796432838, [Flags ''flags'' [(''prev_participant'', 0), (''new_participant'', 1),
         (''invite'', 2)],
        Plain (''chat_id'', readInt64, writeInt64, enc_int64, is_VLong),
        Plain (''date'', readInt32, writeInt32, enc_int32, is_VInt),
        Plain (''actor_id'', readInt64, writeInt64, enc_int64, is_VLong),
        Plain (''user_id'', readInt64, writeInt64, enc_int64, is_VLong),
        Cond ''flags'' 0 (''prev_participant'', readTLChatParticipant, writeTLChatParticipant,
         enc_fobject TL_ChatParticipant_table, ok_fobject TL_ChatParticipant_table),
        Cond ''flags'' 1 (''new_participant'', readTLChatParticipant, writeTLChatParticipant,
         enc_fobject TL_ChatParticipant_table, ok_fobject TL_ChatParticipant_table),
        Cond ''flags'' 2 (''invite'', readTLExportedChatInvite, writeTLExportedChatInvite,
         enc_fobject TL_ExportedChatInvite_table, ok_fobject TL_ExportedChatInvite_table),
        Plain (''qts'', readInt32, writeInt32, enc_int32, is_VInt)]),
      (- 1738720581, [Flags ''flags'' [(''via_chatlist'', 3), (''prev_participant'', 0),
         (''new_participant'', 1), (''invite'', 2)],
        TrueBit ''flags'' 3 ''via_chatlist'',
        Plain (''channel_id'', readInt64, writeInt64, enc_int64, is_VLong),
        Plain (''date'', readInt32, writeInt32, enc_int32, is_VInt),
        Plain (''actor_id'', readInt64, writeInt64, enc_int64, is_VLong),
        Plain (''user_id'', readInt64, writeInt64, enc_int64, is_VLong),
        Cond ''flags'' 0 (''prev_participant'', readTLChannelParticipant,
         writeTLChannelParticipant, enc_fobject TL_ChannelParticipant_table,
         ok_fobject TL_ChannelParticipant_table),
        Cond ''flags'' 1 (''new_participant'', readTLChannelParticipant, writeTLChannelParticipant,
         enc_fobject TL_ChannelParticipant_table, ok_fobject TL_ChannelParticipant_table),
        Cond ''flags'' 2 (''invite'', readTLExportedChatInvite, writeTLExportedChatInvite,
         enc_fobject TL_ExportedChatInvite_table, ok_fobject TL_ExportedChatInvite_table),
        Plain (''qts'', readInt32, writeInt32, enc_int32, is_VInt)]),
      (- 997782967, [Plain (''user_id'', readInt64, writeInt64, enc_int64, is_VLong),
        Plain (''date'', readInt32, writeInt32, enc_int32, is_VInt),
        Plain (''stopped'', readBool, writeBool, enc_bool, is_VBool),
        Plain (''qts'', readInt32, writeInt32, enc_int32, is_VInt)]),
      (192428418, [Flags ''flags'' [(''presentation'', 0)],
        TrueBit ''flags'' 0 ''presentation'',
        Plain (''params'', readTLDataJSON, writeTLDataJSON, enc_fobject TL_DataJSON_table,
         ok_fobject TL_DataJSON_table)]),
      (1299263278, [Plain (''peer'', readTLPeer, writeTLPeer, enc_fobject TL_Peer_table,
         ok_fobject TL_Peer_table),
        Plain (''bot_id'', readInt64, writeInt64, enc_int64, is_VLong),
        Plain (''commands'', readVector (Some readTLBotCommand),
         writeVector (Some writeTLBotCommand), enc_vector (enc_fobject TL_BotCommand_table),
         ok_vector (ok_fobject TL_BotCommand_table))]),
      (1885586395, [Plain (''peer'', readTLPeer, writeTLPeer, enc_fobject TL_Peer_table,
         ok_fobject TL_Peer_table),
        Plain (''requests_pending'', readInt32, writeInt32, enc_int32, is_VInt),
        Plain (''recent_requesters'', readVector (Some readInt64), writeVector (Some writeInt64),
         enc_vector enc_int64, ok_vector is_VLong)]),
      (2092125561, [Flags ''flags'' [(''query_id'', 0)],
        Plain (''peer'', readTLPeer, writeTLPeer, enc_fobject TL_Peer_table,
         ok_fobject TL_Peer_table),
        Plain (''date'', readInt32, writeInt32, enc_int32, is_VInt),
        Plain (''user_id'', readInt64, writeInt64, enc_int64, is_VLong),
        Plain (''about'', readString, writeString, enc_string, is_short_text),
        Plain (''invite'', readTLExportedChatInvite, writeTLExportedChatInvite,
         enc_fobject TL_ExportedChatInvite_table, ok_fobject TL_ExportedChatInvite_table),
        Plain (''qts'', readInt32, writeInt32, enc_int32, is_VInt),
        Cond ''flags'' 0 (''query_id'', readInt64, writeInt64, enc_int64, is_VLong)]),
      (506035194, [Flags ''flags'' [(''top_msg_id'', 0), (''saved_peer_id'', 1)],
        Plain (''peer'', readTLPeer, writeTLPeer, enc_fobject TL_Peer_table,
         ok_fobject TL_Peer_table),
        Plain (''msg_id'', readInt32, writeInt32, enc_int32, is_VInt),
        Cond ''flags'' 0 (''top_msg_id'', readInt32, writeInt32, enc_int32, is_VInt),
        Cond ''flags'' 1 (''saved_peer_id'', readTLPeer, writeTLPeer, enc_fobject TL_Peer_table,
         ok_fobject TL_Peer_table),
        Plain (''reactions'', readTLMessageReactions, writeTLMessageReactions,
         enc_fobject TL_MessageReactions_table, ok_fobject TL_MessageReactions_table)]),
      (397910539, []),
      (361936797, [Plain (''query_id'', readInt64, writeInt64, enc_int64, is_VLong)]),
      (347625491, [Plain (''bot_id'', readInt64, writeInt64, enc_int64, is_VLong),
        Plain (''button'', readTLBotMenuButton, writeTLBotMenuButton,
         enc_fobject TL_BotMenuButton_table, ok_fobject TL_BotMenuButton_table)]),
      (1960361625, []),
      (8703322, [Flags ''flags'' [(''pending'', 0)],
        TrueBit ''flags'' 0 ''pending'',
        Plain (''peer'', readTLPeer, writeTLPeer, enc_fobject TL_Peer_table,
         ok_fobject TL_Peer_table),
        Plain (''msg_id'', readInt32, writeInt32, enc_int32, is_VInt),
        Plain (''transcription_id'', readInt64, writeInt64, enc_int64, is_VLong),
        Plain (''text'', readString, writeString, enc_string, is_short_text)]),
      (- 78886548, []),
      (674706841, [Plain (''user_id'', readInt64, writeInt64, enc_int64, is_VLong),
        Plain (''emoji_status'', readTLEmojiStatus, writeTLEmojiStatus,
         enc_fobject TL_EmojiStatus_table, ok_fobject TL_EmojiStatus_table)]),
      (821314523, []),
      (1870160884, []),
      (- 2030252155, [Flags ''flags'' [(''masks'', 0), (''emojis'', 1)],
        TrueBit ''flags'' 0 ''masks'',
        TrueBit ''flags'' 1 ''emojis'',
        Plain (''stickerset'', readInt64, writeInt64, enc_int64, is_VLong)]),
      (- 710666460, [Plain (''peer'', readTLPeer, writeTLPeer, enc_fobject TL_Peer_table,
         ok_fobject TL_Peer_table),
        Plain (''msg_id'', readInt32, writeInt32, enc_int32, is_VInt),
        Plain (''extended_media'', readVector (Some readTLMessageExtendedMedia),
         writeVector (Some writeTLMessageExtendedMedia), enc_vector enc_MessageExtendedMedia,
         ok_vector ok_MessageExtendedMedia)]),
      (542282808, [Plain (''user_id'', readInt64, writeInt64, enc_int64, is_VLong)]),
      (- 335171433, []),
      (1974712216, [Plain (''peer'', readTLPeer, writeTLPeer, enc_fobject TL_Peer_table,
         ok_fobject TL_Peer_table),
        Plain (''story'', readTLStoryItem, writeTLStoryItem, enc_StoryItem, ok_StoryItem)]),
      (- 145845461, [Plain (''peer'', readTLPeer, writeTLPeer, enc_fobject TL_Peer_table,
         ok_fobject TL_Peer_table),
        Plain (''max_id'', readInt32, writeInt32, enc_int32, is_VInt)]),
      (468923833, [Plain (''id'', readInt32, writeInt32, enc_int32, is_VInt),
        Plain (''random_id'', readInt64, writeInt64, enc_int64, is_VLong)]),
      (738741697, [Plain (''stealth_mode'', readTLStoriesStealthMode, writeTLStoriesStealthMode,
         enc_fobject TL_StoriesStealthMode_table, ok_fobject TL_StoriesStealthMode_table)]),
      (2103604867, [Plain (''peer'', readTLPeer, writeTLPeer, enc_fobject TL_Peer_table,
         ok_fobject TL_Peer_table),
        Plain (''story_id'', readInt32, writeInt32, enc_int32, is_VInt),
        Plain (''reaction'', readTLReaction, writeTLReaction, enc_fobject TL_Reaction_table,
         ok_fobject TL_Reaction_table)]),
      (- 1873947492, [Plain (''peer'', readTLPeer, writeTLPeer, enc_fobject TL_Peer_table,
         ok_fobject TL_Peer_table),
        Plain (''boost'', readTLBoost, writeTLBoost, enc_fobject TL_Boost_table,
         ok_fobject TL_Boost_table),
        Plain (''qts'', readInt32, writeInt32, enc_int32, is_VInt)]),
      (129403168, [Plain (''channel_id'', readInt64, writeInt64, enc_int64, is_VLong),
        Plain (''enabled'', readBool, writeBool, enc_bool, is_VBool)]),
      (- 1371598819, [Flags ''flags'' [(''wallpaper_overridden'', 1), (''wallpaper'', 0)],
        TrueBit ''flags'' 1 ''wallpaper_overridden'',
        Plain (''peer'', readTLPeer, writeTLPeer, enc_fobject TL_Peer_table,
         ok_fobject TL_Peer_table),
        Cond ''flags'' 0 (''wallpaper'', readTLWallPaper, writeTLWallPaper,
         enc_fobject TL_WallPaper_table, ok_fobject TL_WallPaper_table)]),
      (- 1407069234, [Plain (''peer'', readTLPeer, writeTLPeer, enc_fobject TL_Peer_table,
         ok_fobject TL_Peer_table),
        Plain (''msg_id'', readInt32, writeInt32, enc_int32, is_VInt),
        Plain (''date'', readInt32, writeInt32, enc_int32, is_VInt),
        Plain (''actor'', readTLPeer, writeTLPeer, enc_fobject TL_Peer_table,
         ok_fobject TL_Peer_table),
        Plain (''old_reactions'', readVector (Some readTLReaction),
         writeVector (Some writeTLReaction), enc_vector (enc_fobject TL_Reaction_table),
         ok_vector (ok_fobject TL_Reaction_table)),
        Plain (''new_reactions'', readVector (Some readTLReaction),
         writeVector (Some writeTLReaction), enc_vector (enc_fobject TL_Reaction_table),
         ok_vector (ok_fobject TL_Reaction_table)),
        Plain (''qts'', readInt32, writeInt32, enc_int32, is_VInt)]),
      (164329305, [Plain (''peer'', readTLPeer, writeTLPeer, enc_fobject TL_Peer_table,
         ok_fobject TL_Peer_table),
        Plain (''msg_id'', readInt32, writeInt32, enc_int32, is_VInt),
        Plain (''date'', readInt32, writeInt32, enc_int32, is_VInt),
        Plain (''reactions'', readVector (Some readTLReactionCount),
         writeVector (Some writeTLReactionCount), enc_vector (enc_fobject TL_ReactionCount_table),
         ok_vector (ok_fobject TL_ReactionCount_table)),
        Plain (''qts'', readInt32, writeInt32, enc_int32, is_VInt)]),
      (- 1364222348, [Flags ''flags'' [(''pinned'', 0)],
        TrueBit ''flags'' 0 ''pinned'',
        Plain (''peer'', readTLDialogPeer, writeTLDialogPeer, enc_fobject TL_DialogPeer_table,
         ok_fobject TL_DialogPeer_table)]),
      (1751942566, [Flags ''flags'' [(''order'', 0)],
        Cond ''flags'' 0 (''order'', readVector (Some readTLDialogPeer),
         writeVector (Some writeTLDialogPeer), enc_vector (enc_fobject TL_DialogPeer_table),
         ok_vector (ok_fobject TL_DialogPeer_table))]),
      (969307186, []),
      (- 245208620, [Plain (''job_id'', readString, writeString, enc_string, is_short_text)]),
      (- 112784718, [Plain (''quick_replies'', readVector (Some readTLQuickReply),
         writeVector (Some writeTLQuickReply), enc_vector (enc_fobject TL_QuickReply_table),
         ok_vector (ok_fobject TL_QuickReply_table))]),
      (- 180508905, [Plain (''quick_reply'', readTLQuickReply, writeTLQuickReply,
         enc_fobject TL_QuickReply_table, ok_fobject TL_QuickReply_table)]),
      (1407644140, [Plain (''shortcut_id'', readInt32, writeInt32, enc_int32, is_VInt)]),
      (1040518415, [Plain (''message'', readTLMessage, writeTLMessage,
         enc_fobject TL_Message_table, ok_fobject TL_Message_table)]),
      (1450174413, [Plain (''shortcut_id'', readInt32, writeInt32, enc_int32, is_VInt),
        Plain (''messages'', readVector (Some readInt32), writeVector (Some writeInt32),
         enc_vector enc_int32, ok_vector is_VInt)]),
      (- 1964652166, [Plain (''connection'', readTLBotBusinessConnection,
         writeTLBotBusinessConnection, enc_fobject TL_BotBusinessConnection_table,
         ok_fobject TL_BotBusinessConnection_table),
        Plain (''qts'', readInt32, writeInt32, enc_int32, is_VInt)]),
      (- 1646578564, [Flags ''flags'' [(''reply_to_message'', 0)],
        Plain (''connection_id'', readString, writeString, enc_string, is_short_text),
        Plain (''message'', readTLMessage, writeTLMessage, enc_fobject TL_Message_table,
         ok_fobject TL_Message_table),
        Cond ''flags'' 0 (''reply_to_message'', readTLMessage, writeTLMessage,
         enc_fobject TL_Message_table, ok_fobject TL_Message_table),
        Plain (''qts'', readInt32, writeInt32, enc_int32, is_VInt)]),
      (132077692, [Flags ''flags'' [(''reply_to_message'', 0)],
        Plain (''connection_id'', readString, writeString, enc_string, is_short_text),
        Plain (''message'', readTLMessage, writeTLMessage, enc_fobject TL_Message_table,
         ok_fobject TL_Message_table),
        Cond ''flags'' 0 (''reply_to_message'', readTLMessage, writeTLMessage,
         enc_fobject TL_Message_table, ok_fobject TL_Message_table),
        Plain (''qts'', readInt32, writeInt32, enc_int32, is_VInt)]),
      (- 1607821266, [Plain (''connection_id'', readString, writeString, enc_string, is_short_text),
        Plain (''peer'', readTLPeer, writeTLPeer, enc_fobject TL_Peer_table,
         ok_fobject TL_Peer_table),
        Plain (''messages'', readVector (Some readInt32), writeVector (Some writeInt32),
         enc_vector enc_int32, ok_vector is_VInt),
        Plain (''qts'', readInt32, writeInt32, enc_int32, is_VInt)]),
      (405070859, [Plain (''story_id'', readInt32, writeInt32, enc_int32, is_VInt),
        Plain (''peer'', readTLPeer, writeTLPeer, enc_fobject TL_Peer_table,
         ok_fobject TL_Peer_table),
        Plain (''reaction'', readTLReaction, writeTLReaction, enc_fobject TL_Reaction_table,
         ok_fobject TL_Reaction_table)]),
      (1317053305, [Plain (''balance'', readTLStarsAmount, writeTLStarsAmount,
         enc_fobject TL_StarsAmount_table, ok_fobject TL_StarsAmount_table)]),
      (513998247, [Flags ''flags'' [(''reply_to_message'', 2), (''data'', 0)],
        Plain (''query_id'', readInt64, writeInt64, enc_int64, is_VLong),
        Plain (''user_id'', readInt64, writeInt64, enc_int64, is_VLong),
        Plain (''connection_id'', readString, writeString, enc_string, is_short_text),
        Plain (''message'', readTLMessage, writeTLMessage, enc_fobject TL_Message_table,
         ok_fobject TL_Message_table),
        Cond ''flags'' 2 (''reply_to_message'', readTLMessage, writeTLMessage,
         enc_fobject TL_Message_table, ok_fobject TL_Message_table),
        Plain (''chat_instance'', readInt64, writeInt64, enc_int64, is_VLong),
        Cond ''flags'' 0 (''data'', readByteArray, writeByteArray, enc_bytes, is_short_bytes)]),
      (- 1518030823, [Plain (''peer'', readTLPeer, writeTLPeer, enc_fobject TL_Peer_table,
         ok_fobject TL_Peer_table),
        Plain (''status'', readTLStarsRevenueStatus, writeTLStarsRevenueStatus,
         enc_fobject TL_StarsRevenueStatus_table, ok_fobject TL_StarsRevenueStatus_table)]),
      (675009298, [Plain (''user_id'', readInt64, writeInt64, enc_int64, is_VLong),
        Plain (''payload'', readString, writeString, enc_string, is_short_text),
        Plain (''qts'', readInt32, writeInt32, enc_int32, is_VInt)]),
      (- 1955438642, [Plain (''private'', readTLPaidReactionPrivacy, writeTLPaidReactionPrivacy,
         enc_fobject TL_PaidReactionPrivacy_table, ok_fobject TL_PaidReactionPrivacy_table)]),
      (1347068303, [Plain (''sent_code'', readTLAuthSentCode, writeTLAuthSentCode,
         enc_fobject TL_AuthSentCode_table, ok_fobject TL_AuthSentCode_table)]),
      (- 1535694705, [Plain (''call'', readTLInputGroupCall, writeTLInputGroupCall,
         enc_fobject TL_InputGroupCall_table, ok_fobject TL_InputGroupCall_table),
        Plain (''sub_chain_id'', readInt32, writeInt32, enc_int32, is_VInt),
        Plain (''blocks'', readVector (Some readByteArray), writeVector (Some writeByteArray),
         enc_vector enc_bytes, ok_vector is_short_bytes),
        Plain (''next_offset'', readInt32, writeInt32, enc_int32, is_VInt)]),
      (2008081266, [Plain (''channel_id'', readInt64, writeInt64, enc_int64, is_VLong),
        Plain (''saved_peer_id'', readTLPeer, writeTLPeer, enc_fobject TL_Peer_table,
         ok_fobject TL_Peer_table),
        Plain (''read_max_id'', readInt32, writeInt32, enc_int32, is_VInt)]),
      (- 1532521610, [Plain (''channel_id'', readInt64, writeInt64, enc_int64, is_VLong),
        Plain (''saved_peer_id'', readTLPeer, writeTLPeer, enc_fobject TL_Peer_table,
         ok_fobject TL_Peer_table),
        Plain (''read_max_id'', readInt32, writeInt32, enc_int32, is_VInt)]),
      (- 1618924792, [Flags ''flags'' [(''exception'', 0)],
        TrueBit ''flags'' 0 ''exception'',
        Plain (''channel_id'', readInt64, writeInt64, enc_int64, is_VLong),
        Plain (''saved_peer_id'', readTLPeer, writeTLPeer, enc_fobject TL_Peer_table,
         ok_fobject TL_Peer_table)]),
      (- 667783411, [Plain (''call'', readTLInputGroupCall, writeTLInputGroupCall,
         enc_fobject TL_InputGroupCall_table, ok_fobject TL_InputGroupCall_table),
        Plain (''message'', readTLGroupCallMessage, writeTLGroupCallMessage,
         enc_fobject TL_GroupCallMessage_table, ok_fobject TL_GroupCallMessage_table)]),
      (- 917002394, [Plain (''call'', readTLInputGroupCall, writeTLInputGroupCall,
         enc_fobject TL_InputGroupCall_table, ok_fobject TL_InputGroupCall_table),
        Plain (''from_id'', readTLPeer, writeTLPeer, enc_fobject TL_Peer_table,
         ok_fobject TL_Peer_table),
        Plain (''encrypted_message'', readByteArray, writeByteArray, enc_bytes, is_short_bytes)]),
      (1748708434, [Flags ''flags'' [(''pinned'', 0)],
        TrueBit ''flags'' 0 ''pinned'',
        Plain (''peer'', readTLPeer, writeTLPeer, enc_fobject TL_Peer_table,
         ok_fobject TL_Peer_table),
        Plain (''topic_id'', readInt32, writeInt32, enc_int32, is_VInt)]),
      (- 554613808, [Flags ''flags'' [(''order'', 0)],
        Plain (''peer'', readTLPeer, writeTLPeer, enc_fobject TL_Peer_table,
         ok_fobject TL_Peer_table),
        Cond ''flags'' 0 (''order'', readVector (Some readInt32), writeVector (Some writeInt32),
         enc_vector enc_int32, ok_vector is_VInt)]),
      (1048963372, [Plain (''call'', readTLInputGroupCall, writeTLInputGroupCall,
         enc_fobject TL_InputGroupCall_table, ok_fobject TL_InputGroupCall_table),
        Plain (''messages'', readVector (Some readInt32), writeVector (Some writeInt32),
         enc_vector enc_int32, ok_vector is_VInt)]),
      (1222788802, [Plain (''gift_id'', readInt64, writeInt64, enc_int64, is_VLong),
        Plain (''state'', readTLStarGiftAuctionState, writeTLStarGiftAuctionState,
         enc_fobject TL_StarGiftAuctionState_table, ok_fobject TL_StarGiftAuctionState_table)]),
      (- 598150370, [Plain (''gift_id'', readInt64, writeInt64, enc_int64, is_VLong),
        Plain (''user_state'', readTLStarGiftAuctionUserState, writeTLStarGiftAuctionUserState,
         enc_fobject TL_StarGiftAuctionUserState_table,
         ok_fobject TL_StarGiftAuctionUserState_table)]),
      (- 73640838, [Plain (''info'', readTLMessagesEmojiGameInfo, writeTLMessagesEmojiGameInfo,
         enc_fobject TL_MessagesEmojiGameInfo_table, ok_fobject TL_MessagesEmojiGameInfo_table)]),
      (- 1408818108, []),
      (- 1115461703, [Plain (''chat_id'', readInt64, writeInt64, enc_int64, is_VLong),
        Plain (''user_id'', readInt64, writeInt64, enc_int64, is_VLong),
        Plain (''rank'', readString, writeString, enc_string, is_short_text),
        Plain (''version'', readInt32, writeInt32, enc_int32, is_VInt)]),
      (1216408986, [Plain (''user_id'', readInt64, writeInt64, enc_int64, is_VLong),
        Plain (''bot_id'', readInt64, writeInt64, enc_int64, is_VLong),
        Plain (''qts'', readInt32, writeInt32, enc_int32, is_VInt)]),
      (- 841742019, [Flags ''flags'' [(''reference_messages'', 0)],
        Plain (''query_id'', readInt64, writeInt64, enc_int64, is_VLong),
        Plain (''message'', readTLMessage, writeTLMessage, enc_fobject TL_Message_table,
         ok_fobject TL_Message_table),
        Cond ''flags'' 0 (''reference_messages'', readVector (Some readTLMessage),
         writeVector (Some writeTLMessage), enc_vector (enc_fobject TL_Message_table),
         ok_vector (ok_fobject TL_Message_table)),
        Plain (''qts'', readInt32, writeInt32, enc_int32, is_VInt)]),
      (- 1945136645, []),
      (- 1112768912, [Plain (''peer'', readTLPeer, writeTLPeer, enc_fobject TL_Peer_table,
         ok_fobject TL_Peer_table),
        Plain (''query_id'', readInt64, writeInt64, enc_int64, is_VLong),
        Plain (''result'', readTLJoinChatBotResult, writeTLJoinChatBotResult,
         enc_fobject TL_JoinChatBotResult_table, ok_fobject TL_JoinChatBotResult_table)]),
      (- 1306491994, [Flags ''flags'' [(''confirmed'', 0), (''date'', 1), (''device'', 1),
         (''location'', 1)],
        TrueBit ''flags'' 0 ''confirmed'',
        Plain (''bot_id'', readInt64, writeInt64, enc_int64, is_VLong),
        Cond ''flags'' 1 (''date'', readInt32, writeInt32, enc_int32, is_VInt),
        Cond ''flags'' 1 (''device'', readString, writeString, enc_string, is_short_text),
        Cond ''flags'' 1 (''location'', readString, writeString, enc_string, is_short_text)]),
      (- 1013306658, [Flags ''flags'' [(''open_external_browser'', 0), (''display_close_button'',
         1)],
        TrueBit ''flags'' 0 ''open_external_browser'',
        TrueBit ''flags'' 1 ''display_close_button'']),
      (335872721, [Flags ''flags'' [(''delete'', 1), (''open_external_browser'', 0)],
        TrueBit ''flags'' 1 ''delete'',
        Cond ''flags'' 0 (''open_external_browser'', readBool, writeBool, enc_bool, is_VBool),
        Plain (''exception'', readTLWebDomainException, writeTLWebDomainException,
         enc_fobject TL_WebDomainException_table, ok_fobject TL_WebDomainException_table)]),
      (549239713, [Plain (''message'', readTLEphemeralMessage, writeTLEphemeralMessage,
         enc_fobject TL_EphemeralMessage_table, ok_fobject TL_EphemeralMessage_table)]),
      (1457257720, [Plain (''peer'', readTLPeer, writeTLPeer, enc_fobject TL_Peer_table,
         ok_fobject TL_Peer_table),
        Plain (''ids'', readVector (Some readInt32), writeVector (Some writeInt32),
         enc_vector enc_int32, ok_vector is_VInt)]),
      (1270583041, [Plain (''message'', readTLEphemeralMessage, writeTLEphemeralMessage,
         enc_fobject TL_EphemeralMessage_table, ok_fobject TL_EphemeralMessage_table)]),
      (2081454550, [Flags ''flags'' [(''peer'', 0), (''chat_instance'', 1)],
        Plain (''query_id'', readInt64, writeInt64, enc_int64, is_VLong),
        Plain (''user_id'', readInt64, writeInt64, enc_int64, is_VLong),
        Cond ''flags'' 0 (''peer'', readTLPeer, writeTLPeer, enc_fobject TL_Peer_table,
         ok_fobject TL_Peer_table),
        Plain (''msg_id'', readInt32, writeInt32, enc_int32, is_VInt),
        Plain (''data'', readByteArray, writeByteArray, enc_bytes, is_short_bytes),
        Cond ''flags'' 1 (''chat_instance'', readInt64, writeInt64, enc_int64, is_VLong),
        Plain (''message'', readTLEphemeralMessage, writeTLEphemeralMessage,
         enc_fobject TL_EphemeralMessage_table, ok_fobject TL_EphemeralMessage_table)]),
      (1812827683, [Flags ''flags'' [(''canceled'', 0), (''payment_failed'', 1), (''restored'', 2)],
        TrueBit ''flags'' 0 ''canceled'',
        TrueBit ''flags'' 1 ''payment_failed'',
        TrueBit ''flags'' 2 ''restored'',
        Plain (''user_id'', readInt64, writeInt64, enc_int64, is_VLong),
        Plain (''payload'', readByteArray, writeByteArray, enc_bytes, is_short_bytes),
        Plain (''qts'', readInt32, writeInt32, enc_int32, is_VInt)])]"

interpretation tl_Update: tl_codec readTLUpdate writeTLUpdate "enc_fobject TL_Update_table" "ok_fobject TL_Update_table"
  by (rule flag_schema_codec, unfold TL_Update_table_def, intro flag_tableI)
    (simp_all add: readTLUpdate_def writeTLUpdate_def flag_schema_simps tl_Message.tl_codec_axioms tl_SendMessageAction.tl_codec_axioms tl_Peer.tl_codec_axioms
      tl_ChatParticipants.tl_codec_axioms tl_UserStatus.tl_codec_axioms tl_Username.tl_codec_axioms
      tl_EncryptedMessage.tl_codec_axioms tl_EncryptedChat.tl_codec_axioms tl_DcOption.tl_codec_axioms
      tl_NotifyPeer.tl_codec_axioms tl_PeerNotifySettings.tl_codec_axioms tl_MessageMedia.tl_codec_axioms
      tl_MessageEntity.tl_codec_axioms tl_PrivacyKey.tl_codec_axioms tl_PrivacyRule.tl_codec_axioms
      tl_WebPage.tl_codec_axioms tl_MessagesStickerSet.tl_codec_axioms tl_GeoPoint.tl_codec_axioms
      tl_InlineQueryPeerType.tl_codec_axioms tl_InputBotInlineMessageID.tl_codec_axioms
      tl_DraftMessage.tl_codec_axioms tl_DialogPeer.tl_codec_axioms tl_DataJSON.tl_codec_axioms
      tl_PostAddress.tl_codec_axioms tl_PaymentRequestedInfo.tl_codec_axioms tl_PhoneCall.tl_codec_axioms
      tl_LangPackDifference.tl_codec_axioms tl_Poll.tl_codec_axioms tl_PollResults.tl_codec_axioms
      tl_ChatBannedRights.tl_codec_axioms tl_FolderPeer.tl_codec_axioms tl_PeerSettings.tl_codec_axioms
      tl_PeerLocated.tl_codec_axioms tl_Theme.tl_codec_axioms tl_DialogFilter.tl_codec_axioms
      tl_InputGroupCall.tl_codec_axioms tl_GroupCallParticipant.tl_codec_axioms
      tl_GroupCall.tl_codec_axioms tl_ChatParticipant.tl_codec_axioms
      tl_ExportedChatInvite.tl_codec_axioms tl_ChannelParticipant.tl_codec_axioms
      tl_BotCommand.tl_codec_axioms tl_MessageReactions.tl_codec_axioms tl_BotMenuButton.tl_codec_axioms
      tl_EmojiStatus.tl_codec_axioms tl_MessageExtendedMedia.tl_codec_axioms tl_StoryItem.tl_codec_axioms
      tl_StoriesStealthMode.tl_codec_axioms tl_Reaction.tl_codec_axioms tl_Boost.tl_codec_axioms
      tl_WallPaper.tl_codec_axioms tl_ReactionCount.tl_codec_axioms tl_QuickReply.tl_codec_axioms
      tl_BotBusinessConnection.tl_codec_axioms tl_StarsAmount.tl_codec_axioms
      tl_StarsRevenueStatus.tl_codec_axioms tl_PaidReactionPrivacy.tl_codec_axioms
      tl_AuthSentCode.tl_codec_axioms tl_GroupCallMessage.tl_codec_axioms
      tl_StarGiftAuctionState.tl_codec_axioms tl_StarGiftAuctionUserState.tl_codec_axioms
      tl_MessagesEmojiGameInfo.tl_codec_axioms tl_JoinChatBotResult.tl_codec_axioms
      tl_WebDomainException.tl_codec_axioms tl_EphemeralMessage.tl_codec_axioms tl_Message.vector_codec
      tl_Username.vector_codec tl_DcOption.vector_codec tl_MessageEntity.vector_codec
      tl_PrivacyRule.vector_codec tl_DialogPeer.vector_codec tl_FolderPeer.vector_codec
      tl_PeerLocated.vector_codec tl_GroupCallParticipant.vector_codec tl_BotCommand.vector_codec
      tl_MessageExtendedMedia.vector_codec tl_Reaction.vector_codec tl_ReactionCount.vector_codec
      tl_QuickReply.vector_codec)

end
