(* ===== verification/TlTypes7.thy ===== *)
theory TlTypes7
  imports TlTypes6
begin

section \<open>The API schema, types that reach recursive ones: libkg/tlschema.cpp\<close>

text \<open>
  Readers and writers of the types UpdatesDifference to AttachMenuBotIcon, in dependency order. Each type has its table and the interpretation of the codec contract;
  a group of types that refer to one another gets it from \<open>tl_recursion\<close>.
\<close>

definition readTLUpdatesDifference :: tl_reader where
  "readTLUpdatesDifference = read_object
     [(1567990072, [rd ''date'' readInt32, rd ''seq'' readInt32]),
      (16030880, [rd ''new_messages'' (readVector (Some readTLMessage)),
         rd ''new_encrypted_messages'' (readVector (Some readTLEncryptedMessage)),
         rd ''other_updates'' (readVector (Some readTLUpdate)),
         rd ''chats'' (readVector (Some readTLChat)), rd ''users'' (readVector (Some readTLUser)),
         rd ''state'' readTLUpdatesState]),
      (- 1459938943, [rd ''new_messages'' (readVector (Some readTLMessage)),
         rd ''new_encrypted_messages'' (readVector (Some readTLEncryptedMessage)),
         rd ''other_updates'' (readVector (Some readTLUpdate)),
         rd ''chats'' (readVector (Some readTLChat)), rd ''users'' (readVector (Some readTLUser)),
         rd ''intermediate_state'' readTLUpdatesState]),
      (1258196845, [rd ''pts'' readInt32])]"

definition writeTLUpdatesDifference :: tl_writer where
  "writeTLUpdatesDifference = write_fobject
     [(1567990072, [wf ''_'' writeInt32, wf ''date'' writeInt32, wf ''seq'' writeInt32]),
      (16030880, [wf ''_'' writeInt32, wf ''new_messages'' (writeVector (Some writeTLMessage)),
         wf ''new_encrypted_messages'' (writeVector (Some writeTLEncryptedMessage)),
         wf ''other_updates'' (writeVector (Some writeTLUpdate)),
         wf ''chats'' (writeVector (Some writeTLChat)),
         wf ''users'' (writeVector (Some writeTLUser)), wf ''state'' writeTLUpdatesState]),
      (- 1459938943, [wf ''_'' writeInt32, wf ''new_messages'' (writeVector (Some writeTLMessage)),
         wf ''new_encrypted_messages'' (writeVector (Some writeTLEncryptedMessage)),
         wf ''other_updates'' (writeVector (Some writeTLUpdate)),
         wf ''chats'' (writeVector (Some writeTLChat)),
         wf ''users'' (writeVector (Some writeTLUser)),
         wf ''intermediate_state'' writeTLUpdatesState]),
      (1258196845, [wf ''_'' writeInt32, wf ''pts'' writeInt32])]"

definition TL_UpdatesDifference_table :: flag_table where
  "TL_UpdatesDifference_table =
     [(1567990072, [Plain (''date'', readInt32, writeInt32, enc_int32, is_VInt),
        Plain (''seq'', readInt32, writeInt32, enc_int32, is_VInt)]),
      (16030880, [Plain (''new_messages'', readVector (Some readTLMessage),
         writeVector (Some writeTLMessage), enc_vector (enc_fobject TL_Message_table),
         ok_vector (ok_fobject TL_Message_table)),
        Plain (''new_encrypted_messages'', readVector (Some readTLEncryptedMessage),
         writeVector (Some writeTLEncryptedMessage),
         enc_vector (enc_fobject TL_EncryptedMessage_table),
         ok_vector (ok_fobject TL_EncryptedMessage_table)),
        Plain (''other_updates'', readVector (Some readTLUpdate), writeVector (Some writeTLUpdate),
         enc_vector (enc_fobject TL_Update_table), ok_vector (ok_fobject TL_Update_table)),
        Plain (''chats'', readVector (Some readTLChat), writeVector (Some writeTLChat),
         enc_vector (enc_fobject TL_Chat_table), ok_vector (ok_fobject TL_Chat_table)),
        Plain (''users'', readVector (Some readTLUser), writeVector (Some writeTLUser),
         enc_vector (enc_fobject TL_User_table), ok_vector (ok_fobject TL_User_table)),
        Plain (''state'', readTLUpdatesState, writeTLUpdatesState,
         enc_fobject TL_UpdatesState_table, ok_fobject TL_UpdatesState_table)]),
      (- 1459938943, [Plain (''new_messages'', readVector (Some readTLMessage),
         writeVector (Some writeTLMessage), enc_vector (enc_fobject TL_Message_table),
         ok_vector (ok_fobject TL_Message_table)),
        Plain (''new_encrypted_messages'', readVector (Some readTLEncryptedMessage),
         writeVector (Some writeTLEncryptedMessage),
         enc_vector (enc_fobject TL_EncryptedMessage_table),
         ok_vector (ok_fobject TL_EncryptedMessage_table)),
        Plain (''other_updates'', readVector (Some readTLUpdate), writeVector (Some writeTLUpdate),
         enc_vector (enc_fobject TL_Update_table), ok_vector (ok_fobject TL_Update_table)),
        Plain (''chats'', readVector (Some readTLChat), writeVector (Some writeTLChat),
         enc_vector (enc_fobject TL_Chat_table), ok_vector (ok_fobject TL_Chat_table)),
        Plain (''users'', readVector (Some readTLUser), writeVector (Some writeTLUser),
         enc_vector (enc_fobject TL_User_table), ok_vector (ok_fobject TL_User_table)),
        Plain (''intermediate_state'', readTLUpdatesState, writeTLUpdatesState,
         enc_fobject TL_UpdatesState_table, ok_fobject TL_UpdatesState_table)]),
      (1258196845, [Plain (''pts'', readInt32, writeInt32, enc_int32, is_VInt)])]"

interpretation tl_UpdatesDifference: tl_codec readTLUpdatesDifference writeTLUpdatesDifference "enc_fobject TL_UpdatesDifference_table" "ok_fobject TL_UpdatesDifference_table"
  by (rule flag_schema_codec, unfold TL_UpdatesDifference_table_def, intro flag_tableI)
    (simp_all add: readTLUpdatesDifference_def writeTLUpdatesDifference_def flag_schema_simps tl_Message.tl_codec_axioms tl_EncryptedMessage.tl_codec_axioms tl_Update.tl_codec_axioms
      tl_Chat.tl_codec_axioms tl_User.tl_codec_axioms tl_UpdatesState.tl_codec_axioms
      tl_Message.vector_codec tl_EncryptedMessage.vector_codec tl_Update.vector_codec tl_Chat.vector_codec
      tl_User.vector_codec)

definition readTLUpdates :: tl_reader where
  "readTLUpdates = read_object
     [(- 484987010, []),
      (826001400, [rd ''flags'' readUInt32, set_if ''flags'' 1 ''out'',
         set_if ''flags'' 4 ''mentioned'', set_if ''flags'' 5 ''media_unread'',
         set_if ''flags'' 13 ''silent'', rd ''id'' readInt32, rd ''user_id'' readInt64,
         rd ''message'' readString, rd ''pts'' readInt32, rd ''pts_count'' readInt32,
         rd ''date'' readInt32, rd_if ''flags'' 2 ''fwd_from'' readTLMessageFwdHeader,
         rd_if ''flags'' 11 ''via_bot_id'' readInt64,
         rd_if ''flags'' 3 ''reply_to'' readTLMessageReplyHeader,
         rd_if ''flags'' 7 ''entities'' (readVector (Some readTLMessageEntity)),
         rd_if ''flags'' 25 ''ttl_period'' readInt32]),
      (1299050149, [rd ''flags'' readUInt32, set_if ''flags'' 1 ''out'',
         set_if ''flags'' 4 ''mentioned'', set_if ''flags'' 5 ''media_unread'',
         set_if ''flags'' 13 ''silent'', rd ''id'' readInt32, rd ''from_id'' readInt64,
         rd ''chat_id'' readInt64, rd ''message'' readString, rd ''pts'' readInt32,
         rd ''pts_count'' readInt32, rd ''date'' readInt32,
         rd_if ''flags'' 2 ''fwd_from'' readTLMessageFwdHeader,
         rd_if ''flags'' 11 ''via_bot_id'' readInt64,
         rd_if ''flags'' 3 ''reply_to'' readTLMessageReplyHeader,
         rd_if ''flags'' 7 ''entities'' (readVector (Some readTLMessageEntity)),
         rd_if ''flags'' 25 ''ttl_period'' readInt32]),
      (2027216577, [rd ''update'' readTLUpdate, rd ''date'' readInt32]),
      (1918567619, [rd ''updates'' (readVector (Some readTLUpdate)),
         rd ''users'' (readVector (Some readTLUser)), rd ''chats'' (readVector (Some readTLChat)),
         rd ''date'' readInt32, rd ''seq_start'' readInt32, rd ''seq'' readInt32]),
      (1957577280, [rd ''updates'' (readVector (Some readTLUpdate)),
         rd ''users'' (readVector (Some readTLUser)), rd ''chats'' (readVector (Some readTLChat)),
         rd ''date'' readInt32, rd ''seq'' readInt32]),
      (- 1877614335, [rd ''flags'' readUInt32, set_if ''flags'' 1 ''out'', rd ''id'' readInt32,
         rd ''pts'' readInt32, rd ''pts_count'' readInt32, rd ''date'' readInt32,
         rd_if ''flags'' 9 ''media'' readTLMessageMedia,
         rd_if ''flags'' 7 ''entities'' (readVector (Some readTLMessageEntity)),
         rd_if ''flags'' 25 ''ttl_period'' readInt32])]"

definition writeTLUpdates :: tl_writer where
  "writeTLUpdates = write_fobject
     [(- 484987010, [wf ''_'' writeInt32]),
      (826001400, [wf ''_'' writeInt32, wf_flags ''flags'' [(''out'', 1), (''mentioned'', 4),
         (''media_unread'', 5), (''silent'', 13), (''fwd_from'', 2), (''via_bot_id'', 11),
         (''reply_to'', 3), (''entities'', 7), (''ttl_period'', 25)], wf ''id'' writeInt32,
         wf ''user_id'' writeInt64, wf ''message'' writeString, wf ''pts'' writeInt32,
         wf ''pts_count'' writeInt32, wf ''date'' writeInt32,
         wf_if ''flags'' 2 ''fwd_from'' writeTLMessageFwdHeader,
         wf_if ''flags'' 11 ''via_bot_id'' writeInt64,
         wf_if ''flags'' 3 ''reply_to'' writeTLMessageReplyHeader,
         wf_if ''flags'' 7 ''entities'' (writeVector (Some writeTLMessageEntity)),
         wf_if ''flags'' 25 ''ttl_period'' writeInt32]),
      (1299050149, [wf ''_'' writeInt32, wf_flags ''flags'' [(''out'', 1), (''mentioned'', 4),
         (''media_unread'', 5), (''silent'', 13), (''fwd_from'', 2), (''via_bot_id'', 11),
         (''reply_to'', 3), (''entities'', 7), (''ttl_period'', 25)], wf ''id'' writeInt32,
         wf ''from_id'' writeInt64, wf ''chat_id'' writeInt64, wf ''message'' writeString,
         wf ''pts'' writeInt32, wf ''pts_count'' writeInt32, wf ''date'' writeInt32,
         wf_if ''flags'' 2 ''fwd_from'' writeTLMessageFwdHeader,
         wf_if ''flags'' 11 ''via_bot_id'' writeInt64,
         wf_if ''flags'' 3 ''reply_to'' writeTLMessageReplyHeader,
         wf_if ''flags'' 7 ''entities'' (writeVector (Some writeTLMessageEntity)),
         wf_if ''flags'' 25 ''ttl_period'' writeInt32]),
      (2027216577, [wf ''_'' writeInt32, wf ''update'' writeTLUpdate, wf ''date'' writeInt32]),
      (1918567619, [wf ''_'' writeInt32, wf ''updates'' (writeVector (Some writeTLUpdate)),
         wf ''users'' (writeVector (Some writeTLUser)),
         wf ''chats'' (writeVector (Some writeTLChat)), wf ''date'' writeInt32,
         wf ''seq_start'' writeInt32, wf ''seq'' writeInt32]),
      (1957577280, [wf ''_'' writeInt32, wf ''updates'' (writeVector (Some writeTLUpdate)),
         wf ''users'' (writeVector (Some writeTLUser)),
         wf ''chats'' (writeVector (Some writeTLChat)), wf ''date'' writeInt32,
         wf ''seq'' writeInt32]),
      (- 1877614335, [wf ''_'' writeInt32, wf_flags ''flags'' [(''out'', 1), (''media'', 9),
         (''entities'', 7), (''ttl_period'', 25)], wf ''id'' writeInt32, wf ''pts'' writeInt32,
         wf ''pts_count'' writeInt32, wf ''date'' writeInt32,
         wf_if ''flags'' 9 ''media'' writeTLMessageMedia,
         wf_if ''flags'' 7 ''entities'' (writeVector (Some writeTLMessageEntity)),
         wf_if ''flags'' 25 ''ttl_period'' writeInt32])]"

definition TL_Updates_table :: flag_table where
  "TL_Updates_table =
     [(- 484987010, []),
      (826001400, [Flags ''flags'' [(''out'', 1), (''mentioned'', 4), (''media_unread'', 5),
         (''silent'', 13), (''fwd_from'', 2), (''via_bot_id'', 11), (''reply_to'', 3),
         (''entities'', 7), (''ttl_period'', 25)],
        TrueBit ''flags'' 1 ''out'',
        TrueBit ''flags'' 4 ''mentioned'',
        TrueBit ''flags'' 5 ''media_unread'',
        TrueBit ''flags'' 13 ''silent'',
        Plain (''id'', readInt32, writeInt32, enc_int32, is_VInt),
        Plain (''user_id'', readInt64, writeInt64, enc_int64, is_VLong),
        Plain (''message'', readString, writeString, enc_string, is_short_text),
        Plain (''pts'', readInt32, writeInt32, enc_int32, is_VInt),
        Plain (''pts_count'', readInt32, writeInt32, enc_int32, is_VInt),
        Plain (''date'', readInt32, writeInt32, enc_int32, is_VInt),
        Cond ''flags'' 2 (''fwd_from'', readTLMessageFwdHeader, writeTLMessageFwdHeader,
         enc_fobject TL_MessageFwdHeader_table, ok_fobject TL_MessageFwdHeader_table),
        Cond ''flags'' 11 (''via_bot_id'', readInt64, writeInt64, enc_int64, is_VLong),
        Cond ''flags'' 3 (''reply_to'', readTLMessageReplyHeader, writeTLMessageReplyHeader,
         enc_fobject TL_MessageReplyHeader_table, ok_fobject TL_MessageReplyHeader_table),
        Cond ''flags'' 7 (''entities'', readVector (Some readTLMessageEntity),
         writeVector (Some writeTLMessageEntity), enc_vector (enc_fobject TL_MessageEntity_table),
         ok_vector (ok_fobject TL_MessageEntity_table)),
        Cond ''flags'' 25 (''ttl_period'', readInt32, writeInt32, enc_int32, is_VInt)]),
      (1299050149, [Flags ''flags'' [(''out'', 1), (''mentioned'', 4), (''media_unread'', 5),
         (''silent'', 13), (''fwd_from'', 2), (''via_bot_id'', 11), (''reply_to'', 3),
         (''entities'', 7), (''ttl_period'', 25)],
        TrueBit ''flags'' 1 ''out'',
        TrueBit ''flags'' 4 ''mentioned'',
        TrueBit ''flags'' 5 ''media_unread'',
        TrueBit ''flags'' 13 ''silent'',
        Plain (''id'', readInt32, writeInt32, enc_int32, is_VInt),
        Plain (''from_id'', readInt64, writeInt64, enc_int64, is_VLong),
        Plain (''chat_id'', readInt64, writeInt64, enc_int64, is_VLong),
        Plain (''message'', readString, writeString, enc_string, is_short_text),
        Plain (''pts'', readInt32, writeInt32, enc_int32, is_VInt),
        Plain (''pts_count'', readInt32, writeInt32, enc_int32, is_VInt),
        Plain (''date'', readInt32, writeInt32, enc_int32, is_VInt),
        Cond ''flags'' 2 (''fwd_from'', readTLMessageFwdHeader, writeTLMessageFwdHeader,
         enc_fobject TL_MessageFwdHeader_table, ok_fobject TL_MessageFwdHeader_table),
        Cond ''flags'' 11 (''via_bot_id'', readInt64, writeInt64, enc_int64, is_VLong),
        Cond ''flags'' 3 (''reply_to'', readTLMessageReplyHeader, writeTLMessageReplyHeader,
         enc_fobject TL_MessageReplyHeader_table, ok_fobject TL_MessageReplyHeader_table),
        Cond ''flags'' 7 (''entities'', readVector (Some readTLMessageEntity),
         writeVector (Some writeTLMessageEntity), enc_vector (enc_fobject TL_MessageEntity_table),
         ok_vector (ok_fobject TL_MessageEntity_table)),
        Cond ''flags'' 25 (''ttl_period'', readInt32, writeInt32, enc_int32, is_VInt)]),
      (2027216577, [Plain (''update'', readTLUpdate, writeTLUpdate, enc_fobject TL_Update_table,
         ok_fobject TL_Update_table),
        Plain (''date'', readInt32, writeInt32, enc_int32, is_VInt)]),
      (1918567619, [Plain (''updates'', readVector (Some readTLUpdate),
         writeVector (Some writeTLUpdate), enc_vector (enc_fobject TL_Update_table),
         ok_vector (ok_fobject TL_Update_table)),
        Plain (''users'', readVector (Some readTLUser), writeVector (Some writeTLUser),
         enc_vector (enc_fobject TL_User_table), ok_vector (ok_fobject TL_User_table)),
        Plain (''chats'', readVector (Some readTLChat), writeVector (Some writeTLChat),
         enc_vector (enc_fobject TL_Chat_table), ok_vector (ok_fobject TL_Chat_table)),
        Plain (''date'', readInt32, writeInt32, enc_int32, is_VInt),
        Plain (''seq_start'', readInt32, writeInt32, enc_int32, is_VInt),
        Plain (''seq'', readInt32, writeInt32, enc_int32, is_VInt)]),
      (1957577280, [Plain (''updates'', readVector (Some readTLUpdate),
         writeVector (Some writeTLUpdate), enc_vector (enc_fobject TL_Update_table),
         ok_vector (ok_fobject TL_Update_table)),
        Plain (''users'', readVector (Some readTLUser), writeVector (Some writeTLUser),
         enc_vector (enc_fobject TL_User_table), ok_vector (ok_fobject TL_User_table)),
        Plain (''chats'', readVector (Some readTLChat), writeVector (Some writeTLChat),
         enc_vector (enc_fobject TL_Chat_table), ok_vector (ok_fobject TL_Chat_table)),
        Plain (''date'', readInt32, writeInt32, enc_int32, is_VInt),
        Plain (''seq'', readInt32, writeInt32, enc_int32, is_VInt)]),
      (- 1877614335, [Flags ''flags'' [(''out'', 1), (''media'', 9), (''entities'', 7),
         (''ttl_period'', 25)],
        TrueBit ''flags'' 1 ''out'',
        Plain (''id'', readInt32, writeInt32, enc_int32, is_VInt),
        Plain (''pts'', readInt32, writeInt32, enc_int32, is_VInt),
        Plain (''pts_count'', readInt32, writeInt32, enc_int32, is_VInt),
        Plain (''date'', readInt32, writeInt32, enc_int32, is_VInt),
        Cond ''flags'' 9 (''media'', readTLMessageMedia, writeTLMessageMedia, enc_MessageMedia,
         ok_MessageMedia),
        Cond ''flags'' 7 (''entities'', readVector (Some readTLMessageEntity),
         writeVector (Some writeTLMessageEntity), enc_vector (enc_fobject TL_MessageEntity_table),
         ok_vector (ok_fobject TL_MessageEntity_table)),
        Cond ''flags'' 25 (''ttl_period'', readInt32, writeInt32, enc_int32, is_VInt)])]"

interpretation tl_Updates: tl_codec readTLUpdates writeTLUpdates "enc_fobject TL_Updates_table" "ok_fobject TL_Updates_table"
  by (rule flag_schema_codec, unfold TL_Updates_table_def, intro flag_tableI)
    (simp_all add: readTLUpdates_def writeTLUpdates_def flag_schema_simps tl_MessageFwdHeader.tl_codec_axioms tl_MessageReplyHeader.tl_codec_axioms
      tl_MessageEntity.tl_codec_axioms tl_Update.tl_codec_axioms tl_User.tl_codec_axioms
      tl_Chat.tl_codec_axioms tl_MessageMedia.tl_codec_axioms tl_MessageEntity.vector_codec
      tl_Update.vector_codec tl_User.vector_codec tl_Chat.vector_codec)

definition readTLPhotosPhotos :: tl_reader where
  "readTLPhotosPhotos = read_object
     [(- 1916114267, [rd ''photos'' (readVector (Some readTLPhoto)),
         rd ''users'' (readVector (Some readTLUser))]),
      (352657236, [rd ''count'' readInt32, rd ''photos'' (readVector (Some readTLPhoto)),
         rd ''users'' (readVector (Some readTLUser))])]"

definition writeTLPhotosPhotos :: tl_writer where
  "writeTLPhotosPhotos = write_fobject
     [(- 1916114267, [wf ''_'' writeInt32, wf ''photos'' (writeVector (Some writeTLPhoto)),
         wf ''users'' (writeVector (Some writeTLUser))]),
      (352657236, [wf ''_'' writeInt32, wf ''count'' writeInt32,
         wf ''photos'' (writeVector (Some writeTLPhoto)),
         wf ''users'' (writeVector (Some writeTLUser))])]"

definition TL_PhotosPhotos_table :: flag_table where
  "TL_PhotosPhotos_table =
     [(- 1916114267, [Plain (''photos'', readVector (Some readTLPhoto),
         writeVector (Some writeTLPhoto), enc_vector (enc_fobject TL_Photo_table),
         ok_vector (ok_fobject TL_Photo_table)),
        Plain (''users'', readVector (Some readTLUser), writeVector (Some writeTLUser),
         enc_vector (enc_fobject TL_User_table), ok_vector (ok_fobject TL_User_table))]),
      (352657236, [Plain (''count'', readInt32, writeInt32, enc_int32, is_VInt),
        Plain (''photos'', readVector (Some readTLPhoto), writeVector (Some writeTLPhoto),
         enc_vector (enc_fobject TL_Photo_table), ok_vector (ok_fobject TL_Photo_table)),
        Plain (''users'', readVector (Some readTLUser), writeVector (Some writeTLUser),
         enc_vector (enc_fobject TL_User_table), ok_vector (ok_fobject TL_User_table))])]"

interpretation tl_PhotosPhotos: tl_codec readTLPhotosPhotos writeTLPhotosPhotos "enc_fobject TL_PhotosPhotos_table" "ok_fobject TL_PhotosPhotos_table"
  by (rule flag_schema_codec, unfold TL_PhotosPhotos_table_def, intro flag_tableI)
    (simp_all add: readTLPhotosPhotos_def writeTLPhotosPhotos_def flag_schema_simps tl_Photo.tl_codec_axioms tl_User.tl_codec_axioms tl_Photo.vector_codec tl_User.vector_codec)

definition readTLPhotosPhoto :: tl_reader where
  "readTLPhotosPhoto = read_object
     [(539045032, [rd ''photo'' readTLPhoto, rd ''users'' (readVector (Some readTLUser))])]"

definition writeTLPhotosPhoto :: tl_writer where
  "writeTLPhotosPhoto = write_fobject
     [(539045032, [wf ''_'' writeInt32, wf ''photo'' writeTLPhoto,
         wf ''users'' (writeVector (Some writeTLUser))])]"

definition TL_PhotosPhoto_table :: flag_table where
  "TL_PhotosPhoto_table =
     [(539045032, [Plain (''photo'', readTLPhoto, writeTLPhoto, enc_fobject TL_Photo_table,
         ok_fobject TL_Photo_table),
        Plain (''users'', readVector (Some readTLUser), writeVector (Some writeTLUser),
         enc_vector (enc_fobject TL_User_table), ok_vector (ok_fobject TL_User_table))])]"

interpretation tl_PhotosPhoto: tl_codec readTLPhotosPhoto writeTLPhotosPhoto "enc_fobject TL_PhotosPhoto_table" "ok_fobject TL_PhotosPhoto_table"
  by (rule flag_schema_codec, unfold TL_PhotosPhoto_table_def, intro flag_tableI)
    (simp_all add: readTLPhotosPhoto_def writeTLPhotosPhoto_def flag_schema_simps tl_Photo.tl_codec_axioms tl_User.tl_codec_axioms tl_User.vector_codec)

definition readTLHelpAppUpdate :: tl_reader where
  "readTLHelpAppUpdate = read_object
     [(- 860107216, [rd ''flags'' readUInt32, set_if ''flags'' 0 ''can_not_skip'',
         rd ''id'' readInt32, rd ''version'' readString, rd ''text'' readString,
         rd ''entities'' (readVector (Some readTLMessageEntity)),
         rd_if ''flags'' 1 ''document'' readTLDocument, rd_if ''flags'' 2 ''url'' readString,
         rd_if ''flags'' 3 ''sticker'' readTLDocument]),
      (- 1000708810, [])]"

definition writeTLHelpAppUpdate :: tl_writer where
  "writeTLHelpAppUpdate = write_fobject
     [(- 860107216, [wf ''_'' writeInt32, wf_flags ''flags'' [(''can_not_skip'', 0), (''document'',
         1), (''url'', 2), (''sticker'', 3)], wf ''id'' writeInt32, wf ''version'' writeString,
         wf ''text'' writeString, wf ''entities'' (writeVector (Some writeTLMessageEntity)),
         wf_if ''flags'' 1 ''document'' writeTLDocument, wf_if ''flags'' 2 ''url'' writeString,
         wf_if ''flags'' 3 ''sticker'' writeTLDocument]),
      (- 1000708810, [wf ''_'' writeInt32])]"

definition TL_HelpAppUpdate_table :: flag_table where
  "TL_HelpAppUpdate_table =
     [(- 860107216, [Flags ''flags'' [(''can_not_skip'', 0), (''document'', 1), (''url'', 2),
         (''sticker'', 3)],
        TrueBit ''flags'' 0 ''can_not_skip'',
        Plain (''id'', readInt32, writeInt32, enc_int32, is_VInt),
        Plain (''version'', readString, writeString, enc_string, is_short_text),
        Plain (''text'', readString, writeString, enc_string, is_short_text),
        Plain (''entities'', readVector (Some readTLMessageEntity),
         writeVector (Some writeTLMessageEntity), enc_vector (enc_fobject TL_MessageEntity_table),
         ok_vector (ok_fobject TL_MessageEntity_table)),
        Cond ''flags'' 1 (''document'', readTLDocument, writeTLDocument,
         enc_fobject TL_Document_table, ok_fobject TL_Document_table),
        Cond ''flags'' 2 (''url'', readString, writeString, enc_string, is_short_text),
        Cond ''flags'' 3 (''sticker'', readTLDocument, writeTLDocument,
         enc_fobject TL_Document_table, ok_fobject TL_Document_table)]),
      (- 1000708810, [])]"

interpretation tl_HelpAppUpdate: tl_codec readTLHelpAppUpdate writeTLHelpAppUpdate "enc_fobject TL_HelpAppUpdate_table" "ok_fobject TL_HelpAppUpdate_table"
  by (rule flag_schema_codec, unfold TL_HelpAppUpdate_table_def, intro flag_tableI)
    (simp_all add: readTLHelpAppUpdate_def writeTLHelpAppUpdate_def flag_schema_simps tl_MessageEntity.tl_codec_axioms tl_Document.tl_codec_axioms tl_MessageEntity.vector_codec)

definition readTLMessagesStickers :: tl_reader where
  "readTLMessagesStickers = read_object
     [(- 244016606, []),
      (816245886, [rd ''hash'' readInt64, rd ''stickers'' (readVector (Some readTLDocument))])]"

definition writeTLMessagesStickers :: tl_writer where
  "writeTLMessagesStickers = write_fobject
     [(- 244016606, [wf ''_'' writeInt32]),
      (816245886, [wf ''_'' writeInt32, wf ''hash'' writeInt64,
         wf ''stickers'' (writeVector (Some writeTLDocument))])]"

definition TL_MessagesStickers_table :: flag_table where
  "TL_MessagesStickers_table =
     [(- 244016606, []),
      (816245886, [Plain (''hash'', readInt64, writeInt64, enc_int64, is_VLong),
        Plain (''stickers'', readVector (Some readTLDocument), writeVector (Some writeTLDocument),
         enc_vector (enc_fobject TL_Document_table), ok_vector (ok_fobject TL_Document_table))])]"

interpretation tl_MessagesStickers: tl_codec readTLMessagesStickers writeTLMessagesStickers "enc_fobject TL_MessagesStickers_table" "ok_fobject TL_MessagesStickers_table"
  by (rule flag_schema_codec, unfold TL_MessagesStickers_table_def, intro flag_tableI)
    (simp_all add: readTLMessagesStickers_def writeTLMessagesStickers_def flag_schema_simps tl_Document.tl_codec_axioms tl_Document.vector_codec)

definition readTLChatInvite :: tl_reader where
  "readTLChatInvite = read_object
     [(1516793212, [rd ''chat'' readTLChat]),
      (1553807106, [rd ''flags'' readUInt32, set_if ''flags'' 0 ''channel'',
         set_if ''flags'' 1 ''broadcast'', set_if ''flags'' 2 ''public'',
         set_if ''flags'' 3 ''megagroup'', set_if ''flags'' 6 ''request_needed'',
         set_if ''flags'' 7 ''verified'', set_if ''flags'' 8 ''scam'', set_if ''flags'' 9 ''fake'',
         set_if ''flags'' 11 ''can_refulfill_subscription'', rd ''title'' readString,
         rd_if ''flags'' 5 ''about'' readString, rd ''photo'' readTLPhoto,
         rd ''participants_count'' readInt32,
         rd_if ''flags'' 4 ''participants'' (readVector (Some readTLUser)), rd ''color'' readInt32,
         rd_if ''flags'' 10 ''subscription_pricing'' readTLStarsSubscriptionPricing,
         rd_if ''flags'' 12 ''subscription_form_id'' readInt64,
         rd_if ''flags'' 13 ''bot_verification'' readTLBotVerification]),
      (1634294960, [rd ''chat'' readTLChat, rd ''expires'' readInt32])]"

definition writeTLChatInvite :: tl_writer where
  "writeTLChatInvite = write_fobject
     [(1516793212, [wf ''_'' writeInt32, wf ''chat'' writeTLChat]),
      (1553807106, [wf ''_'' writeInt32, wf_flags ''flags'' [(''channel'', 0), (''broadcast'', 1),
         (''public'', 2), (''megagroup'', 3), (''request_needed'', 6), (''verified'', 7),
         (''scam'', 8), (''fake'', 9), (''can_refulfill_subscription'', 11), (''about'', 5),
         (''participants'', 4), (''subscription_pricing'', 10), (''subscription_form_id'', 12),
         (''bot_verification'', 13)], wf ''title'' writeString,
         wf_if ''flags'' 5 ''about'' writeString, wf ''photo'' writeTLPhoto,
         wf ''participants_count'' writeInt32,
         wf_if ''flags'' 4 ''participants'' (writeVector (Some writeTLUser)),
         wf ''color'' writeInt32,
         wf_if ''flags'' 10 ''subscription_pricing'' writeTLStarsSubscriptionPricing,
         wf_if ''flags'' 12 ''subscription_form_id'' writeInt64,
         wf_if ''flags'' 13 ''bot_verification'' writeTLBotVerification]),
      (1634294960, [wf ''_'' writeInt32, wf ''chat'' writeTLChat, wf ''expires'' writeInt32])]"

definition TL_ChatInvite_table :: flag_table where
  "TL_ChatInvite_table =
     [(1516793212, [Plain (''chat'', readTLChat, writeTLChat, enc_fobject TL_Chat_table,
         ok_fobject TL_Chat_table)]),
      (1553807106, [Flags ''flags'' [(''channel'', 0), (''broadcast'', 1), (''public'', 2),
         (''megagroup'', 3), (''request_needed'', 6), (''verified'', 7), (''scam'', 8), (''fake'',
         9), (''can_refulfill_subscription'', 11), (''about'', 5), (''participants'', 4),
         (''subscription_pricing'', 10), (''subscription_form_id'', 12), (''bot_verification'',
         13)],
        TrueBit ''flags'' 0 ''channel'',
        TrueBit ''flags'' 1 ''broadcast'',
        TrueBit ''flags'' 2 ''public'',
        TrueBit ''flags'' 3 ''megagroup'',
        TrueBit ''flags'' 6 ''request_needed'',
        TrueBit ''flags'' 7 ''verified'',
        TrueBit ''flags'' 8 ''scam'',
        TrueBit ''flags'' 9 ''fake'',
        TrueBit ''flags'' 11 ''can_refulfill_subscription'',
        Plain (''title'', readString, writeString, enc_string, is_short_text),
        Cond ''flags'' 5 (''about'', readString, writeString, enc_string, is_short_text),
        Plain (''photo'', readTLPhoto, writeTLPhoto, enc_fobject TL_Photo_table,
         ok_fobject TL_Photo_table),
        Plain (''participants_count'', readInt32, writeInt32, enc_int32, is_VInt),
        Cond ''flags'' 4 (''participants'', readVector (Some readTLUser),
         writeVector (Some writeTLUser), enc_vector (enc_fobject TL_User_table),
         ok_vector (ok_fobject TL_User_table)),
        Plain (''color'', readInt32, writeInt32, enc_int32, is_VInt),
        Cond ''flags'' 10 (''subscription_pricing'', readTLStarsSubscriptionPricing,
         writeTLStarsSubscriptionPricing, enc_fobject TL_StarsSubscriptionPricing_table,
         ok_fobject TL_StarsSubscriptionPricing_table),
        Cond ''flags'' 12 (''subscription_form_id'', readInt64, writeInt64, enc_int64, is_VLong),
        Cond ''flags'' 13 (''bot_verification'', readTLBotVerification, writeTLBotVerification,
         enc_fobject TL_BotVerification_table, ok_fobject TL_BotVerification_table)]),
      (1634294960, [Plain (''chat'', readTLChat, writeTLChat, enc_fobject TL_Chat_table,
         ok_fobject TL_Chat_table),
        Plain (''expires'', readInt32, writeInt32, enc_int32, is_VInt)])]"

interpretation tl_ChatInvite: tl_codec readTLChatInvite writeTLChatInvite "enc_fobject TL_ChatInvite_table" "ok_fobject TL_ChatInvite_table"
  by (rule flag_schema_codec, unfold TL_ChatInvite_table_def, intro flag_tableI)
    (simp_all add: readTLChatInvite_def writeTLChatInvite_def flag_schema_simps tl_Chat.tl_codec_axioms tl_Photo.tl_codec_axioms tl_User.tl_codec_axioms
      tl_StarsSubscriptionPricing.tl_codec_axioms tl_BotVerification.tl_codec_axioms tl_User.vector_codec)

definition readTLUpdatesChannelDifference :: tl_reader where
  "readTLUpdatesChannelDifference = read_object
     [(1041346555, [rd ''flags'' readUInt32, set_if ''flags'' 0 ''final'', rd ''pts'' readInt32,
         rd_if ''flags'' 1 ''timeout'' readInt32]),
      (- 1531132162, [rd ''flags'' readUInt32, set_if ''flags'' 0 ''final'',
         rd_if ''flags'' 1 ''timeout'' readInt32, rd ''dialog'' readTLDialog,
         rd ''messages'' (readVector (Some readTLMessage)),
         rd ''chats'' (readVector (Some readTLChat)), rd ''users'' (readVector (Some readTLUser))]),
      (543450958, [rd ''flags'' readUInt32, set_if ''flags'' 0 ''final'', rd ''pts'' readInt32,
         rd_if ''flags'' 1 ''timeout'' readInt32,
         rd ''new_messages'' (readVector (Some readTLMessage)),
         rd ''other_updates'' (readVector (Some readTLUpdate)),
         rd ''chats'' (readVector (Some readTLChat)),
         rd ''users'' (readVector (Some readTLUser))])]"

definition writeTLUpdatesChannelDifference :: tl_writer where
  "writeTLUpdatesChannelDifference = write_fobject
     [(1041346555, [wf ''_'' writeInt32, wf_flags ''flags'' [(''final'', 0), (''timeout'', 1)],
         wf ''pts'' writeInt32, wf_if ''flags'' 1 ''timeout'' writeInt32]),
      (- 1531132162, [wf ''_'' writeInt32, wf_flags ''flags'' [(''final'', 0), (''timeout'', 1)],
         wf_if ''flags'' 1 ''timeout'' writeInt32, wf ''dialog'' writeTLDialog,
         wf ''messages'' (writeVector (Some writeTLMessage)),
         wf ''chats'' (writeVector (Some writeTLChat)),
         wf ''users'' (writeVector (Some writeTLUser))]),
      (543450958, [wf ''_'' writeInt32, wf_flags ''flags'' [(''final'', 0), (''timeout'', 1)],
         wf ''pts'' writeInt32, wf_if ''flags'' 1 ''timeout'' writeInt32,
         wf ''new_messages'' (writeVector (Some writeTLMessage)),
         wf ''other_updates'' (writeVector (Some writeTLUpdate)),
         wf ''chats'' (writeVector (Some writeTLChat)),
         wf ''users'' (writeVector (Some writeTLUser))])]"

definition TL_UpdatesChannelDifference_table :: flag_table where
  "TL_UpdatesChannelDifference_table =
     [(1041346555, [Flags ''flags'' [(''final'', 0), (''timeout'', 1)],
        TrueBit ''flags'' 0 ''final'',
        Plain (''pts'', readInt32, writeInt32, enc_int32, is_VInt),
        Cond ''flags'' 1 (''timeout'', readInt32, writeInt32, enc_int32, is_VInt)]),
      (- 1531132162, [Flags ''flags'' [(''final'', 0), (''timeout'', 1)],
        TrueBit ''flags'' 0 ''final'',
        Cond ''flags'' 1 (''timeout'', readInt32, writeInt32, enc_int32, is_VInt),
        Plain (''dialog'', readTLDialog, writeTLDialog, enc_fobject TL_Dialog_table,
         ok_fobject TL_Dialog_table),
        Plain (''messages'', readVector (Some readTLMessage), writeVector (Some writeTLMessage),
         enc_vector (enc_fobject TL_Message_table), ok_vector (ok_fobject TL_Message_table)),
        Plain (''chats'', readVector (Some readTLChat), writeVector (Some writeTLChat),
         enc_vector (enc_fobject TL_Chat_table), ok_vector (ok_fobject TL_Chat_table)),
        Plain (''users'', readVector (Some readTLUser), writeVector (Some writeTLUser),
         enc_vector (enc_fobject TL_User_table), ok_vector (ok_fobject TL_User_table))]),
      (543450958, [Flags ''flags'' [(''final'', 0), (''timeout'', 1)],
        TrueBit ''flags'' 0 ''final'',
        Plain (''pts'', readInt32, writeInt32, enc_int32, is_VInt),
        Cond ''flags'' 1 (''timeout'', readInt32, writeInt32, enc_int32, is_VInt),
        Plain (''new_messages'', readVector (Some readTLMessage),
         writeVector (Some writeTLMessage), enc_vector (enc_fobject TL_Message_table),
         ok_vector (ok_fobject TL_Message_table)),
        Plain (''other_updates'', readVector (Some readTLUpdate), writeVector (Some writeTLUpdate),
         enc_vector (enc_fobject TL_Update_table), ok_vector (ok_fobject TL_Update_table)),
        Plain (''chats'', readVector (Some readTLChat), writeVector (Some writeTLChat),
         enc_vector (enc_fobject TL_Chat_table), ok_vector (ok_fobject TL_Chat_table)),
        Plain (''users'', readVector (Some readTLUser), writeVector (Some writeTLUser),
         enc_vector (enc_fobject TL_User_table), ok_vector (ok_fobject TL_User_table))])]"

interpretation tl_UpdatesChannelDifference: tl_codec readTLUpdatesChannelDifference writeTLUpdatesChannelDifference "enc_fobject TL_UpdatesChannelDifference_table" "ok_fobject TL_UpdatesChannelDifference_table"
  by (rule flag_schema_codec, unfold TL_UpdatesChannelDifference_table_def, intro flag_tableI)
    (simp_all add: readTLUpdatesChannelDifference_def writeTLUpdatesChannelDifference_def flag_schema_simps tl_Dialog.tl_codec_axioms tl_Message.tl_codec_axioms tl_Chat.tl_codec_axioms tl_User.tl_codec_axioms
      tl_Update.tl_codec_axioms tl_Message.vector_codec tl_Chat.vector_codec tl_User.vector_codec
      tl_Update.vector_codec)

definition readTLMessagesSavedGifs :: tl_reader where
  "readTLMessagesSavedGifs = read_object
     [(- 402498398, []),
      (- 2069878259, [rd ''hash'' readInt64, rd ''gifs'' (readVector (Some readTLDocument))])]"

definition writeTLMessagesSavedGifs :: tl_writer where
  "writeTLMessagesSavedGifs = write_fobject
     [(- 402498398, [wf ''_'' writeInt32]),
      (- 2069878259, [wf ''_'' writeInt32, wf ''hash'' writeInt64,
         wf ''gifs'' (writeVector (Some writeTLDocument))])]"

definition TL_MessagesSavedGifs_table :: flag_table where
  "TL_MessagesSavedGifs_table =
     [(- 402498398, []),
      (- 2069878259, [Plain (''hash'', readInt64, writeInt64, enc_int64, is_VLong),
        Plain (''gifs'', readVector (Some readTLDocument), writeVector (Some writeTLDocument),
         enc_vector (enc_fobject TL_Document_table), ok_vector (ok_fobject TL_Document_table))])]"

interpretation tl_MessagesSavedGifs: tl_codec readTLMessagesSavedGifs writeTLMessagesSavedGifs "enc_fobject TL_MessagesSavedGifs_table" "ok_fobject TL_MessagesSavedGifs_table"
  by (rule flag_schema_codec, unfold TL_MessagesSavedGifs_table_def, intro flag_tableI)
    (simp_all add: readTLMessagesSavedGifs_def writeTLMessagesSavedGifs_def flag_schema_simps tl_Document.tl_codec_axioms tl_Document.vector_codec)

definition readTLInputBotInlineMessage :: tl_reader where
  "readTLInputBotInlineMessage = read_object
     [(864077702, [rd ''flags'' readUInt32, set_if ''flags'' 3 ''invert_media'',
         rd ''message'' readString,
         rd_if ''flags'' 1 ''entities'' (readVector (Some readTLMessageEntity)),
         rd_if ''flags'' 2 ''reply_markup'' readTLReplyMarkup]),
      (1036876423, [rd ''flags'' readUInt32, set_if ''flags'' 0 ''no_webpage'',
         set_if ''flags'' 3 ''invert_media'', rd ''message'' readString,
         rd_if ''flags'' 1 ''entities'' (readVector (Some readTLMessageEntity)),
         rd_if ''flags'' 2 ''reply_markup'' readTLReplyMarkup]),
      (- 1768777083, [rd ''flags'' readUInt32, rd ''geo_point'' readTLInputGeoPoint,
         rd_if ''flags'' 0 ''heading'' readInt32, rd_if ''flags'' 1 ''period'' readInt32,
         rd_if ''flags'' 3 ''proximity_notification_radius'' readInt32,
         rd_if ''flags'' 2 ''reply_markup'' readTLReplyMarkup]),
      (1098628881, [rd ''flags'' readUInt32, rd ''geo_point'' readTLInputGeoPoint,
         rd ''title'' readString, rd ''address'' readString, rd ''provider'' readString,
         rd ''venue_id'' readString, rd ''venue_type'' readString,
         rd_if ''flags'' 2 ''reply_markup'' readTLReplyMarkup]),
      (- 1494368259, [rd ''flags'' readUInt32, rd ''phone_number'' readString,
         rd ''first_name'' readString, rd ''last_name'' readString, rd ''vcard'' readString,
         rd_if ''flags'' 2 ''reply_markup'' readTLReplyMarkup]),
      (1262639204, [rd ''flags'' readUInt32, rd_if ''flags'' 2 ''reply_markup'' readTLReplyMarkup]),
      (- 672693723, [rd ''flags'' readUInt32, rd ''title'' readString,
         rd ''description'' readString, rd_if ''flags'' 0 ''photo'' readTLInputWebDocument,
         rd ''invoice'' readTLInvoice, rd ''payload'' readByteArray, rd ''provider'' readString,
         rd ''provider_data'' readTLDataJSON,
         rd_if ''flags'' 2 ''reply_markup'' readTLReplyMarkup]),
      (- 1109605104, [rd ''flags'' readUInt32, set_if ''flags'' 3 ''invert_media'',
         set_if ''flags'' 4 ''force_large_media'', set_if ''flags'' 5 ''force_small_media'',
         set_if ''flags'' 6 ''optional'', rd ''message'' readString,
         rd_if ''flags'' 1 ''entities'' (readVector (Some readTLMessageEntity)),
         rd ''url'' readString, rd_if ''flags'' 2 ''reply_markup'' readTLReplyMarkup]),
      (- 1271007892, [rd ''flags'' readUInt32,
         rd_if ''flags'' 2 ''reply_markup'' readTLReplyMarkup,
         rd ''rich_message'' readTLInputRichMessage])]"

definition writeTLInputBotInlineMessage :: tl_writer where
  "writeTLInputBotInlineMessage = write_fobject
     [(864077702, [wf ''_'' writeInt32, wf_flags ''flags'' [(''invert_media'', 3), (''entities'',
         1), (''reply_markup'', 2)], wf ''message'' writeString,
         wf_if ''flags'' 1 ''entities'' (writeVector (Some writeTLMessageEntity)),
         wf_if ''flags'' 2 ''reply_markup'' writeTLReplyMarkup]),
      (1036876423, [wf ''_'' writeInt32, wf_flags ''flags'' [(''no_webpage'', 0),
         (''invert_media'', 3), (''entities'', 1), (''reply_markup'', 2)],
         wf ''message'' writeString,
         wf_if ''flags'' 1 ''entities'' (writeVector (Some writeTLMessageEntity)),
         wf_if ''flags'' 2 ''reply_markup'' writeTLReplyMarkup]),
      (- 1768777083, [wf ''_'' writeInt32, wf_flags ''flags'' [(''heading'', 0), (''period'', 1),
         (''proximity_notification_radius'', 3), (''reply_markup'', 2)],
         wf ''geo_point'' writeTLInputGeoPoint, wf_if ''flags'' 0 ''heading'' writeInt32,
         wf_if ''flags'' 1 ''period'' writeInt32,
         wf_if ''flags'' 3 ''proximity_notification_radius'' writeInt32,
         wf_if ''flags'' 2 ''reply_markup'' writeTLReplyMarkup]),
      (1098628881, [wf ''_'' writeInt32, wf_flags ''flags'' [(''reply_markup'', 2)],
         wf ''geo_point'' writeTLInputGeoPoint, wf ''title'' writeString,
         wf ''address'' writeString, wf ''provider'' writeString, wf ''venue_id'' writeString,
         wf ''venue_type'' writeString, wf_if ''flags'' 2 ''reply_markup'' writeTLReplyMarkup]),
      (- 1494368259, [wf ''_'' writeInt32, wf_flags ''flags'' [(''reply_markup'', 2)],
         wf ''phone_number'' writeString, wf ''first_name'' writeString,
         wf ''last_name'' writeString, wf ''vcard'' writeString,
         wf_if ''flags'' 2 ''reply_markup'' writeTLReplyMarkup]),
      (1262639204, [wf ''_'' writeInt32, wf_flags ''flags'' [(''reply_markup'', 2)],
         wf_if ''flags'' 2 ''reply_markup'' writeTLReplyMarkup]),
      (- 672693723, [wf ''_'' writeInt32, wf_flags ''flags'' [(''photo'', 0), (''reply_markup'',
         2)], wf ''title'' writeString, wf ''description'' writeString,
         wf_if ''flags'' 0 ''photo'' writeTLInputWebDocument, wf ''invoice'' writeTLInvoice,
         wf ''payload'' writeByteArray, wf ''provider'' writeString,
         wf ''provider_data'' writeTLDataJSON,
         wf_if ''flags'' 2 ''reply_markup'' writeTLReplyMarkup]),
      (- 1109605104, [wf ''_'' writeInt32, wf_flags ''flags'' [(''invert_media'', 3),
         (''force_large_media'', 4), (''force_small_media'', 5), (''optional'', 6), (''entities'',
         1), (''reply_markup'', 2)], wf ''message'' writeString,
         wf_if ''flags'' 1 ''entities'' (writeVector (Some writeTLMessageEntity)),
         wf ''url'' writeString, wf_if ''flags'' 2 ''reply_markup'' writeTLReplyMarkup]),
      (- 1271007892, [wf ''_'' writeInt32, wf_flags ''flags'' [(''reply_markup'', 2)],
         wf_if ''flags'' 2 ''reply_markup'' writeTLReplyMarkup,
         wf ''rich_message'' writeTLInputRichMessage])]"

definition TL_InputBotInlineMessage_table :: flag_table where
  "TL_InputBotInlineMessage_table =
     [(864077702, [Flags ''flags'' [(''invert_media'', 3), (''entities'', 1), (''reply_markup'',
         2)],
        TrueBit ''flags'' 3 ''invert_media'',
        Plain (''message'', readString, writeString, enc_string, is_short_text),
        Cond ''flags'' 1 (''entities'', readVector (Some readTLMessageEntity),
         writeVector (Some writeTLMessageEntity), enc_vector (enc_fobject TL_MessageEntity_table),
         ok_vector (ok_fobject TL_MessageEntity_table)),
        Cond ''flags'' 2 (''reply_markup'', readTLReplyMarkup, writeTLReplyMarkup,
         enc_fobject TL_ReplyMarkup_table, ok_fobject TL_ReplyMarkup_table)]),
      (1036876423, [Flags ''flags'' [(''no_webpage'', 0), (''invert_media'', 3), (''entities'', 1),
         (''reply_markup'', 2)],
        TrueBit ''flags'' 0 ''no_webpage'',
        TrueBit ''flags'' 3 ''invert_media'',
        Plain (''message'', readString, writeString, enc_string, is_short_text),
        Cond ''flags'' 1 (''entities'', readVector (Some readTLMessageEntity),
         writeVector (Some writeTLMessageEntity), enc_vector (enc_fobject TL_MessageEntity_table),
         ok_vector (ok_fobject TL_MessageEntity_table)),
        Cond ''flags'' 2 (''reply_markup'', readTLReplyMarkup, writeTLReplyMarkup,
         enc_fobject TL_ReplyMarkup_table, ok_fobject TL_ReplyMarkup_table)]),
      (- 1768777083, [Flags ''flags'' [(''heading'', 0), (''period'', 1),
         (''proximity_notification_radius'', 3), (''reply_markup'', 2)],
        Plain (''geo_point'', readTLInputGeoPoint, writeTLInputGeoPoint,
         enc_fobject TL_InputGeoPoint_table, ok_fobject TL_InputGeoPoint_table),
        Cond ''flags'' 0 (''heading'', readInt32, writeInt32, enc_int32, is_VInt),
        Cond ''flags'' 1 (''period'', readInt32, writeInt32, enc_int32, is_VInt),
        Cond ''flags'' 3 (''proximity_notification_radius'', readInt32, writeInt32, enc_int32,
         is_VInt),
        Cond ''flags'' 2 (''reply_markup'', readTLReplyMarkup, writeTLReplyMarkup,
         enc_fobject TL_ReplyMarkup_table, ok_fobject TL_ReplyMarkup_table)]),
      (1098628881, [Flags ''flags'' [(''reply_markup'', 2)],
        Plain (''geo_point'', readTLInputGeoPoint, writeTLInputGeoPoint,
         enc_fobject TL_InputGeoPoint_table, ok_fobject TL_InputGeoPoint_table),
        Plain (''title'', readString, writeString, enc_string, is_short_text),
        Plain (''address'', readString, writeString, enc_string, is_short_text),
        Plain (''provider'', readString, writeString, enc_string, is_short_text),
        Plain (''venue_id'', readString, writeString, enc_string, is_short_text),
        Plain (''venue_type'', readString, writeString, enc_string, is_short_text),
        Cond ''flags'' 2 (''reply_markup'', readTLReplyMarkup, writeTLReplyMarkup,
         enc_fobject TL_ReplyMarkup_table, ok_fobject TL_ReplyMarkup_table)]),
      (- 1494368259, [Flags ''flags'' [(''reply_markup'', 2)],
        Plain (''phone_number'', readString, writeString, enc_string, is_short_text),
        Plain (''first_name'', readString, writeString, enc_string, is_short_text),
        Plain (''last_name'', readString, writeString, enc_string, is_short_text),
        Plain (''vcard'', readString, writeString, enc_string, is_short_text),
        Cond ''flags'' 2 (''reply_markup'', readTLReplyMarkup, writeTLReplyMarkup,
         enc_fobject TL_ReplyMarkup_table, ok_fobject TL_ReplyMarkup_table)]),
      (1262639204, [Flags ''flags'' [(''reply_markup'', 2)],
        Cond ''flags'' 2 (''reply_markup'', readTLReplyMarkup, writeTLReplyMarkup,
         enc_fobject TL_ReplyMarkup_table, ok_fobject TL_ReplyMarkup_table)]),
      (- 672693723, [Flags ''flags'' [(''photo'', 0), (''reply_markup'', 2)],
        Plain (''title'', readString, writeString, enc_string, is_short_text),
        Plain (''description'', readString, writeString, enc_string, is_short_text),
        Cond ''flags'' 0 (''photo'', readTLInputWebDocument, writeTLInputWebDocument,
         enc_fobject TL_InputWebDocument_table, ok_fobject TL_InputWebDocument_table),
        Plain (''invoice'', readTLInvoice, writeTLInvoice, enc_fobject TL_Invoice_table,
         ok_fobject TL_Invoice_table),
        Plain (''payload'', readByteArray, writeByteArray, enc_bytes, is_short_bytes),
        Plain (''provider'', readString, writeString, enc_string, is_short_text),
        Plain (''provider_data'', readTLDataJSON, writeTLDataJSON, enc_fobject TL_DataJSON_table,
         ok_fobject TL_DataJSON_table),
        Cond ''flags'' 2 (''reply_markup'', readTLReplyMarkup, writeTLReplyMarkup,
         enc_fobject TL_ReplyMarkup_table, ok_fobject TL_ReplyMarkup_table)]),
      (- 1109605104, [Flags ''flags'' [(''invert_media'', 3), (''force_large_media'', 4),
         (''force_small_media'', 5), (''optional'', 6), (''entities'', 1), (''reply_markup'', 2)],
        TrueBit ''flags'' 3 ''invert_media'',
        TrueBit ''flags'' 4 ''force_large_media'',
        TrueBit ''flags'' 5 ''force_small_media'',
        TrueBit ''flags'' 6 ''optional'',
        Plain (''message'', readString, writeString, enc_string, is_short_text),
        Cond ''flags'' 1 (''entities'', readVector (Some readTLMessageEntity),
         writeVector (Some writeTLMessageEntity), enc_vector (enc_fobject TL_MessageEntity_table),
         ok_vector (ok_fobject TL_MessageEntity_table)),
        Plain (''url'', readString, writeString, enc_string, is_short_text),
        Cond ''flags'' 2 (''reply_markup'', readTLReplyMarkup, writeTLReplyMarkup,
         enc_fobject TL_ReplyMarkup_table, ok_fobject TL_ReplyMarkup_table)]),
      (- 1271007892, [Flags ''flags'' [(''reply_markup'', 2)],
        Cond ''flags'' 2 (''reply_markup'', readTLReplyMarkup, writeTLReplyMarkup,
         enc_fobject TL_ReplyMarkup_table, ok_fobject TL_ReplyMarkup_table),
        Plain (''rich_message'', readTLInputRichMessage, writeTLInputRichMessage,
         enc_fobject TL_InputRichMessage_table, ok_fobject TL_InputRichMessage_table)])]"

interpretation tl_InputBotInlineMessage: tl_codec readTLInputBotInlineMessage writeTLInputBotInlineMessage "enc_fobject TL_InputBotInlineMessage_table" "ok_fobject TL_InputBotInlineMessage_table"
  by (rule flag_schema_codec, unfold TL_InputBotInlineMessage_table_def, intro flag_tableI)
    (simp_all add: readTLInputBotInlineMessage_def writeTLInputBotInlineMessage_def flag_schema_simps tl_MessageEntity.tl_codec_axioms tl_ReplyMarkup.tl_codec_axioms tl_InputGeoPoint.tl_codec_axioms
      tl_InputWebDocument.tl_codec_axioms tl_Invoice.tl_codec_axioms tl_DataJSON.tl_codec_axioms
      tl_InputRichMessage.tl_codec_axioms tl_MessageEntity.vector_codec)

definition readTLInputBotInlineResult :: tl_reader where
  "readTLInputBotInlineResult = read_object
     [(- 2000710887, [rd ''flags'' readUInt32, rd ''id'' readString, rd ''type'' readString,
         rd_if ''flags'' 1 ''title'' readString, rd_if ''flags'' 2 ''description'' readString,
         rd_if ''flags'' 3 ''url'' readString, rd_if ''flags'' 4 ''thumb'' readTLInputWebDocument,
         rd_if ''flags'' 5 ''content'' readTLInputWebDocument,
         rd ''send_message'' readTLInputBotInlineMessage]),
      (- 1462213465, [rd ''id'' readString, rd ''type'' readString, rd ''photo'' readTLInputPhoto,
         rd ''send_message'' readTLInputBotInlineMessage]),
      (- 459324, [rd ''flags'' readUInt32, rd ''id'' readString, rd ''type'' readString,
         rd_if ''flags'' 1 ''title'' readString, rd_if ''flags'' 2 ''description'' readString,
         rd ''document'' readTLInputDocument, rd ''send_message'' readTLInputBotInlineMessage]),
      (1336154098, [rd ''id'' readString, rd ''short_name'' readString,
         rd ''send_message'' readTLInputBotInlineMessage])]"

definition writeTLInputBotInlineResult :: tl_writer where
  "writeTLInputBotInlineResult = write_fobject
     [(- 2000710887, [wf ''_'' writeInt32, wf_flags ''flags'' [(''title'', 1), (''description'',
         2), (''url'', 3), (''thumb'', 4), (''content'', 5)], wf ''id'' writeString,
         wf ''type'' writeString, wf_if ''flags'' 1 ''title'' writeString,
         wf_if ''flags'' 2 ''description'' writeString, wf_if ''flags'' 3 ''url'' writeString,
         wf_if ''flags'' 4 ''thumb'' writeTLInputWebDocument,
         wf_if ''flags'' 5 ''content'' writeTLInputWebDocument,
         wf ''send_message'' writeTLInputBotInlineMessage]),
      (- 1462213465, [wf ''_'' writeInt32, wf ''id'' writeString, wf ''type'' writeString,
         wf ''photo'' writeTLInputPhoto, wf ''send_message'' writeTLInputBotInlineMessage]),
      (- 459324, [wf ''_'' writeInt32, wf_flags ''flags'' [(''title'', 1), (''description'', 2)],
         wf ''id'' writeString, wf ''type'' writeString, wf_if ''flags'' 1 ''title'' writeString,
         wf_if ''flags'' 2 ''description'' writeString, wf ''document'' writeTLInputDocument,
         wf ''send_message'' writeTLInputBotInlineMessage]),
      (1336154098, [wf ''_'' writeInt32, wf ''id'' writeString, wf ''short_name'' writeString,
         wf ''send_message'' writeTLInputBotInlineMessage])]"

definition TL_InputBotInlineResult_table :: flag_table where
  "TL_InputBotInlineResult_table =
     [(- 2000710887, [Flags ''flags'' [(''title'', 1), (''description'', 2), (''url'', 3),
         (''thumb'', 4), (''content'', 5)],
        Plain (''id'', readString, writeString, enc_string, is_short_text),
        Plain (''type'', readString, writeString, enc_string, is_short_text),
        Cond ''flags'' 1 (''title'', readString, writeString, enc_string, is_short_text),
        Cond ''flags'' 2 (''description'', readString, writeString, enc_string, is_short_text),
        Cond ''flags'' 3 (''url'', readString, writeString, enc_string, is_short_text),
        Cond ''flags'' 4 (''thumb'', readTLInputWebDocument, writeTLInputWebDocument,
         enc_fobject TL_InputWebDocument_table, ok_fobject TL_InputWebDocument_table),
        Cond ''flags'' 5 (''content'', readTLInputWebDocument, writeTLInputWebDocument,
         enc_fobject TL_InputWebDocument_table, ok_fobject TL_InputWebDocument_table),
        Plain (''send_message'', readTLInputBotInlineMessage, writeTLInputBotInlineMessage,
         enc_fobject TL_InputBotInlineMessage_table, ok_fobject TL_InputBotInlineMessage_table)]),
      (- 1462213465, [Plain (''id'', readString, writeString, enc_string, is_short_text),
        Plain (''type'', readString, writeString, enc_string, is_short_text),
        Plain (''photo'', readTLInputPhoto, writeTLInputPhoto, enc_fobject TL_InputPhoto_table,
         ok_fobject TL_InputPhoto_table),
        Plain (''send_message'', readTLInputBotInlineMessage, writeTLInputBotInlineMessage,
         enc_fobject TL_InputBotInlineMessage_table, ok_fobject TL_InputBotInlineMessage_table)]),
      (- 459324, [Flags ''flags'' [(''title'', 1), (''description'', 2)],
        Plain (''id'', readString, writeString, enc_string, is_short_text),
        Plain (''type'', readString, writeString, enc_string, is_short_text),
        Cond ''flags'' 1 (''title'', readString, writeString, enc_string, is_short_text),
        Cond ''flags'' 2 (''description'', readString, writeString, enc_string, is_short_text),
        Plain (''document'', readTLInputDocument, writeTLInputDocument,
         enc_fobject TL_InputDocument_table, ok_fobject TL_InputDocument_table),
        Plain (''send_message'', readTLInputBotInlineMessage, writeTLInputBotInlineMessage,
         enc_fobject TL_InputBotInlineMessage_table, ok_fobject TL_InputBotInlineMessage_table)]),
      (1336154098, [Plain (''id'', readString, writeString, enc_string, is_short_text),
        Plain (''short_name'', readString, writeString, enc_string, is_short_text),
        Plain (''send_message'', readTLInputBotInlineMessage, writeTLInputBotInlineMessage,
         enc_fobject TL_InputBotInlineMessage_table, ok_fobject TL_InputBotInlineMessage_table)])]"

interpretation tl_InputBotInlineResult: tl_codec readTLInputBotInlineResult writeTLInputBotInlineResult "enc_fobject TL_InputBotInlineResult_table" "ok_fobject TL_InputBotInlineResult_table"
  by (rule flag_schema_codec, unfold TL_InputBotInlineResult_table_def, intro flag_tableI)
    (simp_all add: readTLInputBotInlineResult_def writeTLInputBotInlineResult_def flag_schema_simps tl_InputWebDocument.tl_codec_axioms tl_InputBotInlineMessage.tl_codec_axioms
      tl_InputPhoto.tl_codec_axioms tl_InputDocument.tl_codec_axioms)

definition readTLBotInlineMessage :: tl_reader where
  "readTLBotInlineMessage = read_object
     [(1984755728, [rd ''flags'' readUInt32, set_if ''flags'' 3 ''invert_media'',
         rd ''message'' readString,
         rd_if ''flags'' 1 ''entities'' (readVector (Some readTLMessageEntity)),
         rd_if ''flags'' 2 ''reply_markup'' readTLReplyMarkup]),
      (- 1937807902, [rd ''flags'' readUInt32, set_if ''flags'' 0 ''no_webpage'',
         set_if ''flags'' 3 ''invert_media'', rd ''message'' readString,
         rd_if ''flags'' 1 ''entities'' (readVector (Some readTLMessageEntity)),
         rd_if ''flags'' 2 ''reply_markup'' readTLReplyMarkup]),
      (85477117, [rd ''flags'' readUInt32, rd ''geo'' readTLGeoPoint,
         rd_if ''flags'' 0 ''heading'' readInt32, rd_if ''flags'' 1 ''period'' readInt32,
         rd_if ''flags'' 3 ''proximity_notification_radius'' readInt32,
         rd_if ''flags'' 2 ''reply_markup'' readTLReplyMarkup]),
      (- 1970903652, [rd ''flags'' readUInt32, rd ''geo'' readTLGeoPoint, rd ''title'' readString,
         rd ''address'' readString, rd ''provider'' readString, rd ''venue_id'' readString,
         rd ''venue_type'' readString, rd_if ''flags'' 2 ''reply_markup'' readTLReplyMarkup]),
      (416402882, [rd ''flags'' readUInt32, rd ''phone_number'' readString,
         rd ''first_name'' readString, rd ''last_name'' readString, rd ''vcard'' readString,
         rd_if ''flags'' 2 ''reply_markup'' readTLReplyMarkup]),
      (894081801, [rd ''flags'' readUInt32, set_if ''flags'' 1 ''shipping_address_requested'',
         set_if ''flags'' 3 ''test'', rd ''title'' readString, rd ''description'' readString,
         rd_if ''flags'' 0 ''photo'' readTLWebDocument, rd ''currency'' readString,
         rd ''total_amount'' readInt64, rd_if ''flags'' 2 ''reply_markup'' readTLReplyMarkup]),
      (- 2137335386, [rd ''flags'' readUInt32, set_if ''flags'' 3 ''invert_media'',
         set_if ''flags'' 4 ''force_large_media'', set_if ''flags'' 5 ''force_small_media'',
         set_if ''flags'' 7 ''manual'', set_if ''flags'' 8 ''safe'', rd ''message'' readString,
         rd_if ''flags'' 1 ''entities'' (readVector (Some readTLMessageEntity)),
         rd ''url'' readString, rd_if ''flags'' 2 ''reply_markup'' readTLReplyMarkup]),
      (174161531, [rd ''flags'' readUInt32, rd_if ''flags'' 2 ''reply_markup'' readTLReplyMarkup,
         rd ''rich_message'' readTLRichMessage])]"

definition writeTLBotInlineMessage :: tl_writer where
  "writeTLBotInlineMessage = write_fobject
     [(1984755728, [wf ''_'' writeInt32, wf_flags ''flags'' [(''invert_media'', 3), (''entities'',
         1), (''reply_markup'', 2)], wf ''message'' writeString,
         wf_if ''flags'' 1 ''entities'' (writeVector (Some writeTLMessageEntity)),
         wf_if ''flags'' 2 ''reply_markup'' writeTLReplyMarkup]),
      (- 1937807902, [wf ''_'' writeInt32, wf_flags ''flags'' [(''no_webpage'', 0),
         (''invert_media'', 3), (''entities'', 1), (''reply_markup'', 2)],
         wf ''message'' writeString,
         wf_if ''flags'' 1 ''entities'' (writeVector (Some writeTLMessageEntity)),
         wf_if ''flags'' 2 ''reply_markup'' writeTLReplyMarkup]),
      (85477117, [wf ''_'' writeInt32, wf_flags ''flags'' [(''heading'', 0), (''period'', 1),
         (''proximity_notification_radius'', 3), (''reply_markup'', 2)],
         wf ''geo'' writeTLGeoPoint, wf_if ''flags'' 0 ''heading'' writeInt32,
         wf_if ''flags'' 1 ''period'' writeInt32,
         wf_if ''flags'' 3 ''proximity_notification_radius'' writeInt32,
         wf_if ''flags'' 2 ''reply_markup'' writeTLReplyMarkup]),
      (- 1970903652, [wf ''_'' writeInt32, wf_flags ''flags'' [(''reply_markup'', 2)],
         wf ''geo'' writeTLGeoPoint, wf ''title'' writeString, wf ''address'' writeString,
         wf ''provider'' writeString, wf ''venue_id'' writeString, wf ''venue_type'' writeString,
         wf_if ''flags'' 2 ''reply_markup'' writeTLReplyMarkup]),
      (416402882, [wf ''_'' writeInt32, wf_flags ''flags'' [(''reply_markup'', 2)],
         wf ''phone_number'' writeString, wf ''first_name'' writeString,
         wf ''last_name'' writeString, wf ''vcard'' writeString,
         wf_if ''flags'' 2 ''reply_markup'' writeTLReplyMarkup]),
      (894081801, [wf ''_'' writeInt32, wf_flags ''flags'' [(''shipping_address_requested'', 1),
         (''test'', 3), (''photo'', 0), (''reply_markup'', 2)], wf ''title'' writeString,
         wf ''description'' writeString, wf_if ''flags'' 0 ''photo'' writeTLWebDocument,
         wf ''currency'' writeString, wf ''total_amount'' writeInt64,
         wf_if ''flags'' 2 ''reply_markup'' writeTLReplyMarkup]),
      (- 2137335386, [wf ''_'' writeInt32, wf_flags ''flags'' [(''invert_media'', 3),
         (''force_large_media'', 4), (''force_small_media'', 5), (''manual'', 7), (''safe'', 8),
         (''entities'', 1), (''reply_markup'', 2)], wf ''message'' writeString,
         wf_if ''flags'' 1 ''entities'' (writeVector (Some writeTLMessageEntity)),
         wf ''url'' writeString, wf_if ''flags'' 2 ''reply_markup'' writeTLReplyMarkup]),
      (174161531, [wf ''_'' writeInt32, wf_flags ''flags'' [(''reply_markup'', 2)],
         wf_if ''flags'' 2 ''reply_markup'' writeTLReplyMarkup,
         wf ''rich_message'' writeTLRichMessage])]"

definition TL_BotInlineMessage_table :: flag_table where
  "TL_BotInlineMessage_table =
     [(1984755728, [Flags ''flags'' [(''invert_media'', 3), (''entities'', 1), (''reply_markup'',
         2)],
        TrueBit ''flags'' 3 ''invert_media'',
        Plain (''message'', readString, writeString, enc_string, is_short_text),
        Cond ''flags'' 1 (''entities'', readVector (Some readTLMessageEntity),
         writeVector (Some writeTLMessageEntity), enc_vector (enc_fobject TL_MessageEntity_table),
         ok_vector (ok_fobject TL_MessageEntity_table)),
        Cond ''flags'' 2 (''reply_markup'', readTLReplyMarkup, writeTLReplyMarkup,
         enc_fobject TL_ReplyMarkup_table, ok_fobject TL_ReplyMarkup_table)]),
      (- 1937807902, [Flags ''flags'' [(''no_webpage'', 0), (''invert_media'', 3), (''entities'',
         1), (''reply_markup'', 2)],
        TrueBit ''flags'' 0 ''no_webpage'',
        TrueBit ''flags'' 3 ''invert_media'',
        Plain (''message'', readString, writeString, enc_string, is_short_text),
        Cond ''flags'' 1 (''entities'', readVector (Some readTLMessageEntity),
         writeVector (Some writeTLMessageEntity), enc_vector (enc_fobject TL_MessageEntity_table),
         ok_vector (ok_fobject TL_MessageEntity_table)),
        Cond ''flags'' 2 (''reply_markup'', readTLReplyMarkup, writeTLReplyMarkup,
         enc_fobject TL_ReplyMarkup_table, ok_fobject TL_ReplyMarkup_table)]),
      (85477117, [Flags ''flags'' [(''heading'', 0), (''period'', 1),
         (''proximity_notification_radius'', 3), (''reply_markup'', 2)],
        Plain (''geo'', readTLGeoPoint, writeTLGeoPoint, enc_fobject TL_GeoPoint_table,
         ok_fobject TL_GeoPoint_table),
        Cond ''flags'' 0 (''heading'', readInt32, writeInt32, enc_int32, is_VInt),
        Cond ''flags'' 1 (''period'', readInt32, writeInt32, enc_int32, is_VInt),
        Cond ''flags'' 3 (''proximity_notification_radius'', readInt32, writeInt32, enc_int32,
         is_VInt),
        Cond ''flags'' 2 (''reply_markup'', readTLReplyMarkup, writeTLReplyMarkup,
         enc_fobject TL_ReplyMarkup_table, ok_fobject TL_ReplyMarkup_table)]),
      (- 1970903652, [Flags ''flags'' [(''reply_markup'', 2)],
        Plain (''geo'', readTLGeoPoint, writeTLGeoPoint, enc_fobject TL_GeoPoint_table,
         ok_fobject TL_GeoPoint_table),
        Plain (''title'', readString, writeString, enc_string, is_short_text),
        Plain (''address'', readString, writeString, enc_string, is_short_text),
        Plain (''provider'', readString, writeString, enc_string, is_short_text),
        Plain (''venue_id'', readString, writeString, enc_string, is_short_text),
        Plain (''venue_type'', readString, writeString, enc_string, is_short_text),
        Cond ''flags'' 2 (''reply_markup'', readTLReplyMarkup, writeTLReplyMarkup,
         enc_fobject TL_ReplyMarkup_table, ok_fobject TL_ReplyMarkup_table)]),
      (416402882, [Flags ''flags'' [(''reply_markup'', 2)],
        Plain (''phone_number'', readString, writeString, enc_string, is_short_text),
        Plain (''first_name'', readString, writeString, enc_string, is_short_text),
        Plain (''last_name'', readString, writeString, enc_string, is_short_text),
        Plain (''vcard'', readString, writeString, enc_string, is_short_text),
        Cond ''flags'' 2 (''reply_markup'', readTLReplyMarkup, writeTLReplyMarkup,
         enc_fobject TL_ReplyMarkup_table, ok_fobject TL_ReplyMarkup_table)]),
      (894081801, [Flags ''flags'' [(''shipping_address_requested'', 1), (''test'', 3), (''photo'',
         0), (''reply_markup'', 2)],
        TrueBit ''flags'' 1 ''shipping_address_requested'',
        TrueBit ''flags'' 3 ''test'',
        Plain (''title'', readString, writeString, enc_string, is_short_text),
        Plain (''description'', readString, writeString, enc_string, is_short_text),
        Cond ''flags'' 0 (''photo'', readTLWebDocument, writeTLWebDocument,
         enc_fobject TL_WebDocument_table, ok_fobject TL_WebDocument_table),
        Plain (''currency'', readString, writeString, enc_string, is_short_text),
        Plain (''total_amount'', readInt64, writeInt64, enc_int64, is_VLong),
        Cond ''flags'' 2 (''reply_markup'', readTLReplyMarkup, writeTLReplyMarkup,
         enc_fobject TL_ReplyMarkup_table, ok_fobject TL_ReplyMarkup_table)]),
      (- 2137335386, [Flags ''flags'' [(''invert_media'', 3), (''force_large_media'', 4),
         (''force_small_media'', 5), (''manual'', 7), (''safe'', 8), (''entities'', 1),
         (''reply_markup'', 2)],
        TrueBit ''flags'' 3 ''invert_media'',
        TrueBit ''flags'' 4 ''force_large_media'',
        TrueBit ''flags'' 5 ''force_small_media'',
        TrueBit ''flags'' 7 ''manual'',
        TrueBit ''flags'' 8 ''safe'',
        Plain (''message'', readString, writeString, enc_string, is_short_text),
        Cond ''flags'' 1 (''entities'', readVector (Some readTLMessageEntity),
         writeVector (Some writeTLMessageEntity), enc_vector (enc_fobject TL_MessageEntity_table),
         ok_vector (ok_fobject TL_MessageEntity_table)),
        Plain (''url'', readString, writeString, enc_string, is_short_text),
        Cond ''flags'' 2 (''reply_markup'', readTLReplyMarkup, writeTLReplyMarkup,
         enc_fobject TL_ReplyMarkup_table, ok_fobject TL_ReplyMarkup_table)]),
      (174161531, [Flags ''flags'' [(''reply_markup'', 2)],
        Cond ''flags'' 2 (''reply_markup'', readTLReplyMarkup, writeTLReplyMarkup,
         enc_fobject TL_ReplyMarkup_table, ok_fobject TL_ReplyMarkup_table),
        Plain (''rich_message'', readTLRichMessage, writeTLRichMessage,
         enc_fobject TL_RichMessage_table, ok_fobject TL_RichMessage_table)])]"

interpretation tl_BotInlineMessage: tl_codec readTLBotInlineMessage writeTLBotInlineMessage "enc_fobject TL_BotInlineMessage_table" "ok_fobject TL_BotInlineMessage_table"
  by (rule flag_schema_codec, unfold TL_BotInlineMessage_table_def, intro flag_tableI)
    (simp_all add: readTLBotInlineMessage_def writeTLBotInlineMessage_def flag_schema_simps tl_MessageEntity.tl_codec_axioms tl_ReplyMarkup.tl_codec_axioms tl_GeoPoint.tl_codec_axioms
      tl_WebDocument.tl_codec_axioms tl_RichMessage.tl_codec_axioms tl_MessageEntity.vector_codec)

definition readTLBotInlineResult :: tl_reader where
  "readTLBotInlineResult = read_object
     [(295067450, [rd ''flags'' readUInt32, rd ''id'' readString, rd ''type'' readString,
         rd_if ''flags'' 1 ''title'' readString, rd_if ''flags'' 2 ''description'' readString,
         rd_if ''flags'' 3 ''url'' readString, rd_if ''flags'' 4 ''thumb'' readTLWebDocument,
         rd_if ''flags'' 5 ''content'' readTLWebDocument,
         rd ''send_message'' readTLBotInlineMessage]),
      (400266251, [rd ''flags'' readUInt32, rd ''id'' readString, rd ''type'' readString,
         rd_if ''flags'' 0 ''photo'' readTLPhoto, rd_if ''flags'' 1 ''document'' readTLDocument,
         rd_if ''flags'' 2 ''title'' readString, rd_if ''flags'' 3 ''description'' readString,
         rd ''send_message'' readTLBotInlineMessage])]"

definition writeTLBotInlineResult :: tl_writer where
  "writeTLBotInlineResult = write_fobject
     [(295067450, [wf ''_'' writeInt32, wf_flags ''flags'' [(''title'', 1), (''description'', 2),
         (''url'', 3), (''thumb'', 4), (''content'', 5)], wf ''id'' writeString,
         wf ''type'' writeString, wf_if ''flags'' 1 ''title'' writeString,
         wf_if ''flags'' 2 ''description'' writeString, wf_if ''flags'' 3 ''url'' writeString,
         wf_if ''flags'' 4 ''thumb'' writeTLWebDocument,
         wf_if ''flags'' 5 ''content'' writeTLWebDocument,
         wf ''send_message'' writeTLBotInlineMessage]),
      (400266251, [wf ''_'' writeInt32, wf_flags ''flags'' [(''photo'', 0), (''document'', 1),
         (''title'', 2), (''description'', 3)], wf ''id'' writeString, wf ''type'' writeString,
         wf_if ''flags'' 0 ''photo'' writeTLPhoto, wf_if ''flags'' 1 ''document'' writeTLDocument,
         wf_if ''flags'' 2 ''title'' writeString, wf_if ''flags'' 3 ''description'' writeString,
         wf ''send_message'' writeTLBotInlineMessage])]"

definition TL_BotInlineResult_table :: flag_table where
  "TL_BotInlineResult_table =
     [(295067450, [Flags ''flags'' [(''title'', 1), (''description'', 2), (''url'', 3), (''thumb'',
         4), (''content'', 5)],
        Plain (''id'', readString, writeString, enc_string, is_short_text),
        Plain (''type'', readString, writeString, enc_string, is_short_text),
        Cond ''flags'' 1 (''title'', readString, writeString, enc_string, is_short_text),
        Cond ''flags'' 2 (''description'', readString, writeString, enc_string, is_short_text),
        Cond ''flags'' 3 (''url'', readString, writeString, enc_string, is_short_text),
        Cond ''flags'' 4 (''thumb'', readTLWebDocument, writeTLWebDocument,
         enc_fobject TL_WebDocument_table, ok_fobject TL_WebDocument_table),
        Cond ''flags'' 5 (''content'', readTLWebDocument, writeTLWebDocument,
         enc_fobject TL_WebDocument_table, ok_fobject TL_WebDocument_table),
        Plain (''send_message'', readTLBotInlineMessage, writeTLBotInlineMessage,
         enc_fobject TL_BotInlineMessage_table, ok_fobject TL_BotInlineMessage_table)]),
      (400266251, [Flags ''flags'' [(''photo'', 0), (''document'', 1), (''title'', 2),
         (''description'', 3)],
        Plain (''id'', readString, writeString, enc_string, is_short_text),
        Plain (''type'', readString, writeString, enc_string, is_short_text),
        Cond ''flags'' 0 (''photo'', readTLPhoto, writeTLPhoto, enc_fobject TL_Photo_table,
         ok_fobject TL_Photo_table),
        Cond ''flags'' 1 (''document'', readTLDocument, writeTLDocument,
         enc_fobject TL_Document_table, ok_fobject TL_Document_table),
        Cond ''flags'' 2 (''title'', readString, writeString, enc_string, is_short_text),
        Cond ''flags'' 3 (''description'', readString, writeString, enc_string, is_short_text),
        Plain (''send_message'', readTLBotInlineMessage, writeTLBotInlineMessage,
         enc_fobject TL_BotInlineMessage_table, ok_fobject TL_BotInlineMessage_table)])]"

interpretation tl_BotInlineResult: tl_codec readTLBotInlineResult writeTLBotInlineResult "enc_fobject TL_BotInlineResult_table" "ok_fobject TL_BotInlineResult_table"
  by (rule flag_schema_codec, unfold TL_BotInlineResult_table_def, intro flag_tableI)
    (simp_all add: readTLBotInlineResult_def writeTLBotInlineResult_def flag_schema_simps tl_WebDocument.tl_codec_axioms tl_BotInlineMessage.tl_codec_axioms tl_Photo.tl_codec_axioms
      tl_Document.tl_codec_axioms)

definition readTLMessagesBotResults :: tl_reader where
  "readTLMessagesBotResults = read_object
     [(- 534646026, [rd ''flags'' readUInt32, set_if ''flags'' 0 ''gallery'',
         rd ''query_id'' readInt64, rd_if ''flags'' 1 ''next_offset'' readString,
         rd_if ''flags'' 2 ''switch_pm'' readTLInlineBotSwitchPM,
         rd_if ''flags'' 3 ''switch_webview'' readTLInlineBotWebView,
         rd ''results'' (readVector (Some readTLBotInlineResult)), rd ''cache_time'' readInt32,
         rd ''users'' (readVector (Some readTLUser))])]"

definition writeTLMessagesBotResults :: tl_writer where
  "writeTLMessagesBotResults = write_fobject
     [(- 534646026, [wf ''_'' writeInt32, wf_flags ''flags'' [(''gallery'', 0), (''next_offset'',
         1), (''switch_pm'', 2), (''switch_webview'', 3)], wf ''query_id'' writeInt64,
         wf_if ''flags'' 1 ''next_offset'' writeString,
         wf_if ''flags'' 2 ''switch_pm'' writeTLInlineBotSwitchPM,
         wf_if ''flags'' 3 ''switch_webview'' writeTLInlineBotWebView,
         wf ''results'' (writeVector (Some writeTLBotInlineResult)), wf ''cache_time'' writeInt32,
         wf ''users'' (writeVector (Some writeTLUser))])]"

definition TL_MessagesBotResults_table :: flag_table where
  "TL_MessagesBotResults_table =
     [(- 534646026, [Flags ''flags'' [(''gallery'', 0), (''next_offset'', 1), (''switch_pm'', 2),
         (''switch_webview'', 3)],
        TrueBit ''flags'' 0 ''gallery'',
        Plain (''query_id'', readInt64, writeInt64, enc_int64, is_VLong),
        Cond ''flags'' 1 (''next_offset'', readString, writeString, enc_string, is_short_text),
        Cond ''flags'' 2 (''switch_pm'', readTLInlineBotSwitchPM, writeTLInlineBotSwitchPM,
         enc_fobject TL_InlineBotSwitchPM_table, ok_fobject TL_InlineBotSwitchPM_table),
        Cond ''flags'' 3 (''switch_webview'', readTLInlineBotWebView, writeTLInlineBotWebView,
         enc_fobject TL_InlineBotWebView_table, ok_fobject TL_InlineBotWebView_table),
        Plain (''results'', readVector (Some readTLBotInlineResult),
         writeVector (Some writeTLBotInlineResult),
         enc_vector (enc_fobject TL_BotInlineResult_table),
         ok_vector (ok_fobject TL_BotInlineResult_table)),
        Plain (''cache_time'', readInt32, writeInt32, enc_int32, is_VInt),
        Plain (''users'', readVector (Some readTLUser), writeVector (Some writeTLUser),
         enc_vector (enc_fobject TL_User_table), ok_vector (ok_fobject TL_User_table))])]"

interpretation tl_MessagesBotResults: tl_codec readTLMessagesBotResults writeTLMessagesBotResults "enc_fobject TL_MessagesBotResults_table" "ok_fobject TL_MessagesBotResults_table"
  by (rule flag_schema_codec, unfold TL_MessagesBotResults_table_def, intro flag_tableI)
    (simp_all add: readTLMessagesBotResults_def writeTLMessagesBotResults_def flag_schema_simps tl_InlineBotSwitchPM.tl_codec_axioms tl_InlineBotWebView.tl_codec_axioms
      tl_BotInlineResult.tl_codec_axioms tl_User.tl_codec_axioms tl_BotInlineResult.vector_codec
      tl_User.vector_codec)

definition readTLMessagesPeerDialogs :: tl_reader where
  "readTLMessagesPeerDialogs = read_object
     [(863093588, [rd ''dialogs'' (readVector (Some readTLDialog)),
         rd ''messages'' (readVector (Some readTLMessage)),
         rd ''chats'' (readVector (Some readTLChat)), rd ''users'' (readVector (Some readTLUser)),
         rd ''state'' readTLUpdatesState])]"

definition writeTLMessagesPeerDialogs :: tl_writer where
  "writeTLMessagesPeerDialogs = write_fobject
     [(863093588, [wf ''_'' writeInt32, wf ''dialogs'' (writeVector (Some writeTLDialog)),
         wf ''messages'' (writeVector (Some writeTLMessage)),
         wf ''chats'' (writeVector (Some writeTLChat)),
         wf ''users'' (writeVector (Some writeTLUser)), wf ''state'' writeTLUpdatesState])]"

definition TL_MessagesPeerDialogs_table :: flag_table where
  "TL_MessagesPeerDialogs_table =
     [(863093588, [Plain (''dialogs'', readVector (Some readTLDialog),
         writeVector (Some writeTLDialog), enc_vector (enc_fobject TL_Dialog_table),
         ok_vector (ok_fobject TL_Dialog_table)),
        Plain (''messages'', readVector (Some readTLMessage), writeVector (Some writeTLMessage),
         enc_vector (enc_fobject TL_Message_table), ok_vector (ok_fobject TL_Message_table)),
        Plain (''chats'', readVector (Some readTLChat), writeVector (Some writeTLChat),
         enc_vector (enc_fobject TL_Chat_table), ok_vector (ok_fobject TL_Chat_table)),
        Plain (''users'', readVector (Some readTLUser), writeVector (Some writeTLUser),
         enc_vector (enc_fobject TL_User_table), ok_vector (ok_fobject TL_User_table)),
        Plain (''state'', readTLUpdatesState, writeTLUpdatesState,
         enc_fobject TL_UpdatesState_table, ok_fobject TL_UpdatesState_table)])]"

interpretation tl_MessagesPeerDialogs: tl_codec readTLMessagesPeerDialogs writeTLMessagesPeerDialogs "enc_fobject TL_MessagesPeerDialogs_table" "ok_fobject TL_MessagesPeerDialogs_table"
  by (rule flag_schema_codec, unfold TL_MessagesPeerDialogs_table_def, intro flag_tableI)
    (simp_all add: readTLMessagesPeerDialogs_def writeTLMessagesPeerDialogs_def flag_schema_simps tl_Dialog.tl_codec_axioms tl_Message.tl_codec_axioms tl_Chat.tl_codec_axioms tl_User.tl_codec_axioms
      tl_UpdatesState.tl_codec_axioms tl_Dialog.vector_codec tl_Message.vector_codec tl_Chat.vector_codec
      tl_User.vector_codec)

definition readTLTopPeer :: tl_reader where
  "readTLTopPeer = read_object
     [(- 305282981, [rd ''peer'' readTLPeer, rd ''rating'' readDouble])]"

definition writeTLTopPeer :: tl_writer where
  "writeTLTopPeer = write_fobject
     [(- 305282981, [wf ''_'' writeInt32, wf ''peer'' writeTLPeer, wf ''rating'' writeDouble])]"

definition TL_TopPeer_table :: flag_table where
  "TL_TopPeer_table =
     [(- 305282981, [Plain (''peer'', readTLPeer, writeTLPeer, enc_fobject TL_Peer_table,
         ok_fobject TL_Peer_table),
        Plain (''rating'', readDouble, writeDouble, enc_double, is_VDouble)])]"

interpretation tl_TopPeer: tl_codec readTLTopPeer writeTLTopPeer "enc_fobject TL_TopPeer_table" "ok_fobject TL_TopPeer_table"
  by (rule flag_schema_codec, unfold TL_TopPeer_table_def, intro flag_tableI)
    (simp_all add: readTLTopPeer_def writeTLTopPeer_def flag_schema_simps tl_Peer.tl_codec_axioms)

definition readTLTopPeerCategoryPeers :: tl_reader where
  "readTLTopPeerCategoryPeers = read_object
     [(- 75283823, [rd ''category'' readTLTopPeerCategory, rd ''count'' readInt32,
         rd ''peers'' (readVector (Some readTLTopPeer))])]"

definition writeTLTopPeerCategoryPeers :: tl_writer where
  "writeTLTopPeerCategoryPeers = write_fobject
     [(- 75283823, [wf ''_'' writeInt32, wf ''category'' writeTLTopPeerCategory,
         wf ''count'' writeInt32, wf ''peers'' (writeVector (Some writeTLTopPeer))])]"

definition TL_TopPeerCategoryPeers_table :: flag_table where
  "TL_TopPeerCategoryPeers_table =
     [(- 75283823, [Plain (''category'', readTLTopPeerCategory, writeTLTopPeerCategory,
         enc_fobject TL_TopPeerCategory_table, ok_fobject TL_TopPeerCategory_table),
        Plain (''count'', readInt32, writeInt32, enc_int32, is_VInt),
        Plain (''peers'', readVector (Some readTLTopPeer), writeVector (Some writeTLTopPeer),
         enc_vector (enc_fobject TL_TopPeer_table), ok_vector (ok_fobject TL_TopPeer_table))])]"

interpretation tl_TopPeerCategoryPeers: tl_codec readTLTopPeerCategoryPeers writeTLTopPeerCategoryPeers "enc_fobject TL_TopPeerCategoryPeers_table" "ok_fobject TL_TopPeerCategoryPeers_table"
  by (rule flag_schema_codec, unfold TL_TopPeerCategoryPeers_table_def, intro flag_tableI)
    (simp_all add: readTLTopPeerCategoryPeers_def writeTLTopPeerCategoryPeers_def flag_schema_simps tl_TopPeerCategory.tl_codec_axioms tl_TopPeer.tl_codec_axioms tl_TopPeer.vector_codec)

definition readTLContactsTopPeers :: tl_reader where
  "readTLContactsTopPeers = read_object
     [(- 567906571, []),
      (1891070632, [rd ''categories'' (readVector (Some readTLTopPeerCategoryPeers)),
         rd ''chats'' (readVector (Some readTLChat)), rd ''users'' (readVector (Some readTLUser))]),
      (- 1255369827, [])]"

definition writeTLContactsTopPeers :: tl_writer where
  "writeTLContactsTopPeers = write_fobject
     [(- 567906571, [wf ''_'' writeInt32]),
      (1891070632, [wf ''_'' writeInt32,
         wf ''categories'' (writeVector (Some writeTLTopPeerCategoryPeers)),
         wf ''chats'' (writeVector (Some writeTLChat)),
         wf ''users'' (writeVector (Some writeTLUser))]),
      (- 1255369827, [wf ''_'' writeInt32])]"

definition TL_ContactsTopPeers_table :: flag_table where
  "TL_ContactsTopPeers_table =
     [(- 567906571, []),
      (1891070632, [Plain (''categories'', readVector (Some readTLTopPeerCategoryPeers),
         writeVector (Some writeTLTopPeerCategoryPeers),
         enc_vector (enc_fobject TL_TopPeerCategoryPeers_table),
         ok_vector (ok_fobject TL_TopPeerCategoryPeers_table)),
        Plain (''chats'', readVector (Some readTLChat), writeVector (Some writeTLChat),
         enc_vector (enc_fobject TL_Chat_table), ok_vector (ok_fobject TL_Chat_table)),
        Plain (''users'', readVector (Some readTLUser), writeVector (Some writeTLUser),
         enc_vector (enc_fobject TL_User_table), ok_vector (ok_fobject TL_User_table))]),
      (- 1255369827, [])]"

interpretation tl_ContactsTopPeers: tl_codec readTLContactsTopPeers writeTLContactsTopPeers "enc_fobject TL_ContactsTopPeers_table" "ok_fobject TL_ContactsTopPeers_table"
  by (rule flag_schema_codec, unfold TL_ContactsTopPeers_table_def, intro flag_tableI)
    (simp_all add: readTLContactsTopPeers_def writeTLContactsTopPeers_def flag_schema_simps tl_TopPeerCategoryPeers.tl_codec_axioms tl_Chat.tl_codec_axioms tl_User.tl_codec_axioms
      tl_TopPeerCategoryPeers.vector_codec tl_Chat.vector_codec tl_User.vector_codec)

definition readTLStickerSetCovered :: tl_reader where
  "readTLStickerSetCovered = read_object
     [(1678812626, [rd ''set'' readTLStickerSet, rd ''cover'' readTLDocument]),
      (872932635, [rd ''set'' readTLStickerSet, rd ''covers'' (readVector (Some readTLDocument))]),
      (1087454222, [rd ''set'' readTLStickerSet,
         rd ''packs'' (readVector (Some readTLStickerPack)),
         rd ''keywords'' (readVector (Some readTLStickerKeyword)),
         rd ''documents'' (readVector (Some readTLDocument))]),
      (2008112412, [rd ''set'' readTLStickerSet])]"

definition writeTLStickerSetCovered :: tl_writer where
  "writeTLStickerSetCovered = write_fobject
     [(1678812626, [wf ''_'' writeInt32, wf ''set'' writeTLStickerSet,
         wf ''cover'' writeTLDocument]),
      (872932635, [wf ''_'' writeInt32, wf ''set'' writeTLStickerSet,
         wf ''covers'' (writeVector (Some writeTLDocument))]),
      (1087454222, [wf ''_'' writeInt32, wf ''set'' writeTLStickerSet,
         wf ''packs'' (writeVector (Some writeTLStickerPack)),
         wf ''keywords'' (writeVector (Some writeTLStickerKeyword)),
         wf ''documents'' (writeVector (Some writeTLDocument))]),
      (2008112412, [wf ''_'' writeInt32, wf ''set'' writeTLStickerSet])]"

definition TL_StickerSetCovered_table :: flag_table where
  "TL_StickerSetCovered_table =
     [(1678812626, [Plain (''set'', readTLStickerSet, writeTLStickerSet,
         enc_fobject TL_StickerSet_table, ok_fobject TL_StickerSet_table),
        Plain (''cover'', readTLDocument, writeTLDocument, enc_fobject TL_Document_table,
         ok_fobject TL_Document_table)]),
      (872932635, [Plain (''set'', readTLStickerSet, writeTLStickerSet,
         enc_fobject TL_StickerSet_table, ok_fobject TL_StickerSet_table),
        Plain (''covers'', readVector (Some readTLDocument), writeVector (Some writeTLDocument),
         enc_vector (enc_fobject TL_Document_table), ok_vector (ok_fobject TL_Document_table))]),
      (1087454222, [Plain (''set'', readTLStickerSet, writeTLStickerSet,
         enc_fobject TL_StickerSet_table, ok_fobject TL_StickerSet_table),
        Plain (''packs'', readVector (Some readTLStickerPack),
         writeVector (Some writeTLStickerPack), enc_vector (enc_fobject TL_StickerPack_table),
         ok_vector (ok_fobject TL_StickerPack_table)),
        Plain (''keywords'', readVector (Some readTLStickerKeyword),
         writeVector (Some writeTLStickerKeyword),
         enc_vector (enc_fobject TL_StickerKeyword_table),
         ok_vector (ok_fobject TL_StickerKeyword_table)),
        Plain (''documents'', readVector (Some readTLDocument), writeVector (Some writeTLDocument),
         enc_vector (enc_fobject TL_Document_table), ok_vector (ok_fobject TL_Document_table))]),
      (2008112412, [Plain (''set'', readTLStickerSet, writeTLStickerSet,
         enc_fobject TL_StickerSet_table, ok_fobject TL_StickerSet_table)])]"

interpretation tl_StickerSetCovered: tl_codec readTLStickerSetCovered writeTLStickerSetCovered "enc_fobject TL_StickerSetCovered_table" "ok_fobject TL_StickerSetCovered_table"
  by (rule flag_schema_codec, unfold TL_StickerSetCovered_table_def, intro flag_tableI)
    (simp_all add: readTLStickerSetCovered_def writeTLStickerSetCovered_def flag_schema_simps tl_StickerSet.tl_codec_axioms tl_Document.tl_codec_axioms tl_StickerPack.tl_codec_axioms
      tl_StickerKeyword.tl_codec_axioms tl_Document.vector_codec tl_StickerPack.vector_codec
      tl_StickerKeyword.vector_codec)

definition readTLMessagesFeaturedStickers :: tl_reader where
  "readTLMessagesFeaturedStickers = read_object
     [(- 958657434, [rd ''count'' readInt32]),
      (- 1103615738, [rd ''flags'' readUInt32, set_if ''flags'' 0 ''premium'',
         rd ''hash'' readInt64, rd ''count'' readInt32,
         rd ''sets'' (readVector (Some readTLStickerSetCovered)),
         rd ''unread'' (readVector (Some readInt64))])]"

definition writeTLMessagesFeaturedStickers :: tl_writer where
  "writeTLMessagesFeaturedStickers = write_fobject
     [(- 958657434, [wf ''_'' writeInt32, wf ''count'' writeInt32]),
      (- 1103615738, [wf ''_'' writeInt32, wf_flags ''flags'' [(''premium'', 0)],
         wf ''hash'' writeInt64, wf ''count'' writeInt32,
         wf ''sets'' (writeVector (Some writeTLStickerSetCovered)),
         wf ''unread'' (writeVector (Some writeInt64))])]"

definition TL_MessagesFeaturedStickers_table :: flag_table where
  "TL_MessagesFeaturedStickers_table =
     [(- 958657434, [Plain (''count'', readInt32, writeInt32, enc_int32, is_VInt)]),
      (- 1103615738, [Flags ''flags'' [(''premium'', 0)],
        TrueBit ''flags'' 0 ''premium'',
        Plain (''hash'', readInt64, writeInt64, enc_int64, is_VLong),
        Plain (''count'', readInt32, writeInt32, enc_int32, is_VInt),
        Plain (''sets'', readVector (Some readTLStickerSetCovered),
         writeVector (Some writeTLStickerSetCovered),
         enc_vector (enc_fobject TL_StickerSetCovered_table),
         ok_vector (ok_fobject TL_StickerSetCovered_table)),
        Plain (''unread'', readVector (Some readInt64), writeVector (Some writeInt64),
         enc_vector enc_int64, ok_vector is_VLong)])]"

interpretation tl_MessagesFeaturedStickers: tl_codec readTLMessagesFeaturedStickers writeTLMessagesFeaturedStickers "enc_fobject TL_MessagesFeaturedStickers_table" "ok_fobject TL_MessagesFeaturedStickers_table"
  by (rule flag_schema_codec, unfold TL_MessagesFeaturedStickers_table_def, intro flag_tableI)
    (simp_all add: readTLMessagesFeaturedStickers_def writeTLMessagesFeaturedStickers_def flag_schema_simps tl_StickerSetCovered.tl_codec_axioms tl_StickerSetCovered.vector_codec)

definition readTLMessagesRecentStickers :: tl_reader where
  "readTLMessagesRecentStickers = read_object
     [(186120336, []),
      (- 1999405994, [rd ''hash'' readInt64, rd ''packs'' (readVector (Some readTLStickerPack)),
         rd ''stickers'' (readVector (Some readTLDocument)),
         rd ''dates'' (readVector (Some readInt32))])]"

definition writeTLMessagesRecentStickers :: tl_writer where
  "writeTLMessagesRecentStickers = write_fobject
     [(186120336, [wf ''_'' writeInt32]),
      (- 1999405994, [wf ''_'' writeInt32, wf ''hash'' writeInt64,
         wf ''packs'' (writeVector (Some writeTLStickerPack)),
         wf ''stickers'' (writeVector (Some writeTLDocument)),
         wf ''dates'' (writeVector (Some writeInt32))])]"

definition TL_MessagesRecentStickers_table :: flag_table where
  "TL_MessagesRecentStickers_table =
     [(186120336, []),
      (- 1999405994, [Plain (''hash'', readInt64, writeInt64, enc_int64, is_VLong),
        Plain (''packs'', readVector (Some readTLStickerPack),
         writeVector (Some writeTLStickerPack), enc_vector (enc_fobject TL_StickerPack_table),
         ok_vector (ok_fobject TL_StickerPack_table)),
        Plain (''stickers'', readVector (Some readTLDocument), writeVector (Some writeTLDocument),
         enc_vector (enc_fobject TL_Document_table), ok_vector (ok_fobject TL_Document_table)),
        Plain (''dates'', readVector (Some readInt32), writeVector (Some writeInt32),
         enc_vector enc_int32, ok_vector is_VInt)])]"

interpretation tl_MessagesRecentStickers: tl_codec readTLMessagesRecentStickers writeTLMessagesRecentStickers "enc_fobject TL_MessagesRecentStickers_table" "ok_fobject TL_MessagesRecentStickers_table"
  by (rule flag_schema_codec, unfold TL_MessagesRecentStickers_table_def, intro flag_tableI)
    (simp_all add: readTLMessagesRecentStickers_def writeTLMessagesRecentStickers_def flag_schema_simps tl_StickerPack.tl_codec_axioms tl_Document.tl_codec_axioms tl_StickerPack.vector_codec
      tl_Document.vector_codec)

definition readTLMessagesArchivedStickers :: tl_reader where
  "readTLMessagesArchivedStickers = read_object
     [(1338747336, [rd ''count'' readInt32,
         rd ''sets'' (readVector (Some readTLStickerSetCovered))])]"

definition writeTLMessagesArchivedStickers :: tl_writer where
  "writeTLMessagesArchivedStickers = write_fobject
     [(1338747336, [wf ''_'' writeInt32, wf ''count'' writeInt32,
         wf ''sets'' (writeVector (Some writeTLStickerSetCovered))])]"

definition TL_MessagesArchivedStickers_table :: flag_table where
  "TL_MessagesArchivedStickers_table =
     [(1338747336, [Plain (''count'', readInt32, writeInt32, enc_int32, is_VInt),
        Plain (''sets'', readVector (Some readTLStickerSetCovered),
         writeVector (Some writeTLStickerSetCovered),
         enc_vector (enc_fobject TL_StickerSetCovered_table),
         ok_vector (ok_fobject TL_StickerSetCovered_table))])]"

interpretation tl_MessagesArchivedStickers: tl_codec readTLMessagesArchivedStickers writeTLMessagesArchivedStickers "enc_fobject TL_MessagesArchivedStickers_table" "ok_fobject TL_MessagesArchivedStickers_table"
  by (rule flag_schema_codec, unfold TL_MessagesArchivedStickers_table_def, intro flag_tableI)
    (simp_all add: readTLMessagesArchivedStickers_def writeTLMessagesArchivedStickers_def flag_schema_simps tl_StickerSetCovered.tl_codec_axioms tl_StickerSetCovered.vector_codec)

definition readTLMessagesStickerSetInstallResult :: tl_reader where
  "readTLMessagesStickerSetInstallResult = read_object
     [(946083368, []),
      (904138920, [rd ''sets'' (readVector (Some readTLStickerSetCovered))])]"

definition writeTLMessagesStickerSetInstallResult :: tl_writer where
  "writeTLMessagesStickerSetInstallResult = write_fobject
     [(946083368, [wf ''_'' writeInt32]),
      (904138920, [wf ''_'' writeInt32,
         wf ''sets'' (writeVector (Some writeTLStickerSetCovered))])]"

definition TL_MessagesStickerSetInstallResult_table :: flag_table where
  "TL_MessagesStickerSetInstallResult_table =
     [(946083368, []),
      (904138920, [Plain (''sets'', readVector (Some readTLStickerSetCovered),
         writeVector (Some writeTLStickerSetCovered),
         enc_vector (enc_fobject TL_StickerSetCovered_table),
         ok_vector (ok_fobject TL_StickerSetCovered_table))])]"

interpretation tl_MessagesStickerSetInstallResult: tl_codec readTLMessagesStickerSetInstallResult writeTLMessagesStickerSetInstallResult "enc_fobject TL_MessagesStickerSetInstallResult_table" "ok_fobject TL_MessagesStickerSetInstallResult_table"
  by (rule flag_schema_codec, unfold TL_MessagesStickerSetInstallResult_table_def, intro flag_tableI)
    (simp_all add: readTLMessagesStickerSetInstallResult_def writeTLMessagesStickerSetInstallResult_def flag_schema_simps tl_StickerSetCovered.tl_codec_axioms tl_StickerSetCovered.vector_codec)

definition readTLInputWebFileLocation :: tl_reader where
  "readTLInputWebFileLocation = read_object
     [(- 1036396922, [rd ''url'' readString, rd ''access_hash'' readInt64]),
      (- 1625153079, [rd ''geo_point'' readTLInputGeoPoint, rd ''access_hash'' readInt64,
         rd ''w'' readInt32, rd ''h'' readInt32, rd ''zoom'' readInt32, rd ''scale'' readInt32]),
      (- 193992412, [rd ''flags'' readUInt32, set_if ''flags'' 2 ''small'',
         rd_if ''flags'' 0 ''document'' readTLInputDocument,
         rd_if ''flags'' 1 ''title'' readString, rd_if ''flags'' 1 ''performer'' readString])]"

definition writeTLInputWebFileLocation :: tl_writer where
  "writeTLInputWebFileLocation = write_fobject
     [(- 1036396922, [wf ''_'' writeInt32, wf ''url'' writeString, wf ''access_hash'' writeInt64]),
      (- 1625153079, [wf ''_'' writeInt32, wf ''geo_point'' writeTLInputGeoPoint,
         wf ''access_hash'' writeInt64, wf ''w'' writeInt32, wf ''h'' writeInt32,
         wf ''zoom'' writeInt32, wf ''scale'' writeInt32]),
      (- 193992412, [wf ''_'' writeInt32, wf_flags ''flags'' [(''small'', 2), (''document'', 0),
         (''title'', 1), (''performer'', 1)], wf_if ''flags'' 0 ''document'' writeTLInputDocument,
         wf_if ''flags'' 1 ''title'' writeString, wf_if ''flags'' 1 ''performer'' writeString])]"

definition TL_InputWebFileLocation_table :: flag_table where
  "TL_InputWebFileLocation_table =
     [(- 1036396922, [Plain (''url'', readString, writeString, enc_string, is_short_text),
        Plain (''access_hash'', readInt64, writeInt64, enc_int64, is_VLong)]),
      (- 1625153079, [Plain (''geo_point'', readTLInputGeoPoint, writeTLInputGeoPoint,
         enc_fobject TL_InputGeoPoint_table, ok_fobject TL_InputGeoPoint_table),
        Plain (''access_hash'', readInt64, writeInt64, enc_int64, is_VLong),
        Plain (''w'', readInt32, writeInt32, enc_int32, is_VInt),
        Plain (''h'', readInt32, writeInt32, enc_int32, is_VInt),
        Plain (''zoom'', readInt32, writeInt32, enc_int32, is_VInt),
        Plain (''scale'', readInt32, writeInt32, enc_int32, is_VInt)]),
      (- 193992412, [Flags ''flags'' [(''small'', 2), (''document'', 0), (''title'', 1),
         (''performer'', 1)],
        TrueBit ''flags'' 2 ''small'',
        Cond ''flags'' 0 (''document'', readTLInputDocument, writeTLInputDocument,
         enc_fobject TL_InputDocument_table, ok_fobject TL_InputDocument_table),
        Cond ''flags'' 1 (''title'', readString, writeString, enc_string, is_short_text),
        Cond ''flags'' 1 (''performer'', readString, writeString, enc_string, is_short_text)])]"

interpretation tl_InputWebFileLocation: tl_codec readTLInputWebFileLocation writeTLInputWebFileLocation "enc_fobject TL_InputWebFileLocation_table" "ok_fobject TL_InputWebFileLocation_table"
  by (rule flag_schema_codec, unfold TL_InputWebFileLocation_table_def, intro flag_tableI)
    (simp_all add: readTLInputWebFileLocation_def writeTLInputWebFileLocation_def flag_schema_simps tl_InputGeoPoint.tl_codec_axioms tl_InputDocument.tl_codec_axioms)

definition readTLPaymentsPaymentForm :: tl_reader where
  "readTLPaymentsPaymentForm = read_object
     [(- 1610250415, [rd ''flags'' readUInt32, set_if ''flags'' 2 ''can_save_credentials'',
         set_if ''flags'' 3 ''password_missing'', rd ''form_id'' readInt64,
         rd ''bot_id'' readInt64, rd ''title'' readString, rd ''description'' readString,
         rd_if ''flags'' 5 ''photo'' readTLWebDocument, rd ''invoice'' readTLInvoice,
         rd ''provider_id'' readInt64, rd ''url'' readString,
         rd_if ''flags'' 4 ''native_provider'' readString,
         rd_if ''flags'' 4 ''native_params'' readTLDataJSON,
         rd_if ''flags'' 6 ''additional_methods'' (readVector (Some readTLPaymentFormMethod)),
         rd_if ''flags'' 0 ''saved_info'' readTLPaymentRequestedInfo,
         rd_if ''flags'' 1 ''saved_credentials'' (readVector (Some readTLPaymentSavedCredentials)),
         rd ''users'' (readVector (Some readTLUser))]),
      (2079764828, [rd ''flags'' readUInt32, rd ''form_id'' readInt64, rd ''bot_id'' readInt64,
         rd ''title'' readString, rd ''description'' readString,
         rd_if ''flags'' 5 ''photo'' readTLWebDocument, rd ''invoice'' readTLInvoice,
         rd ''users'' (readVector (Some readTLUser))]),
      (- 1272590367, [rd ''form_id'' readInt64, rd ''invoice'' readTLInvoice])]"

definition writeTLPaymentsPaymentForm :: tl_writer where
  "writeTLPaymentsPaymentForm = write_fobject
     [(- 1610250415, [wf ''_'' writeInt32, wf_flags ''flags'' [(''can_save_credentials'', 2),
         (''password_missing'', 3), (''photo'', 5), (''native_provider'', 4), (''native_params'',
         4), (''additional_methods'', 6), (''saved_info'', 0), (''saved_credentials'', 1)],
         wf ''form_id'' writeInt64, wf ''bot_id'' writeInt64, wf ''title'' writeString,
         wf ''description'' writeString, wf_if ''flags'' 5 ''photo'' writeTLWebDocument,
         wf ''invoice'' writeTLInvoice, wf ''provider_id'' writeInt64, wf ''url'' writeString,
         wf_if ''flags'' 4 ''native_provider'' writeString,
         wf_if ''flags'' 4 ''native_params'' writeTLDataJSON,
         wf_if ''flags'' 6 ''additional_methods'' (writeVector (Some writeTLPaymentFormMethod)),
         wf_if ''flags'' 0 ''saved_info'' writeTLPaymentRequestedInfo,
         wf_if ''flags'' 1 ''saved_credentials'' (writeVector (Some writeTLPaymentSavedCredentials)), wf ''users'' (writeVector (Some writeTLUser))]),
      (2079764828, [wf ''_'' writeInt32, wf_flags ''flags'' [(''photo'', 5)],
         wf ''form_id'' writeInt64, wf ''bot_id'' writeInt64, wf ''title'' writeString,
         wf ''description'' writeString, wf_if ''flags'' 5 ''photo'' writeTLWebDocument,
         wf ''invoice'' writeTLInvoice, wf ''users'' (writeVector (Some writeTLUser))]),
      (- 1272590367, [wf ''_'' writeInt32, wf ''form_id'' writeInt64,
         wf ''invoice'' writeTLInvoice])]"

definition TL_PaymentsPaymentForm_table :: flag_table where
  "TL_PaymentsPaymentForm_table =
     [(- 1610250415, [Flags ''flags'' [(''can_save_credentials'', 2), (''password_missing'', 3),
         (''photo'', 5), (''native_provider'', 4), (''native_params'', 4), (''additional_methods'',
         6), (''saved_info'', 0), (''saved_credentials'', 1)],
        TrueBit ''flags'' 2 ''can_save_credentials'',
        TrueBit ''flags'' 3 ''password_missing'',
        Plain (''form_id'', readInt64, writeInt64, enc_int64, is_VLong),
        Plain (''bot_id'', readInt64, writeInt64, enc_int64, is_VLong),
        Plain (''title'', readString, writeString, enc_string, is_short_text),
        Plain (''description'', readString, writeString, enc_string, is_short_text),
        Cond ''flags'' 5 (''photo'', readTLWebDocument, writeTLWebDocument,
         enc_fobject TL_WebDocument_table, ok_fobject TL_WebDocument_table),
        Plain (''invoice'', readTLInvoice, writeTLInvoice, enc_fobject TL_Invoice_table,
         ok_fobject TL_Invoice_table),
        Plain (''provider_id'', readInt64, writeInt64, enc_int64, is_VLong),
        Plain (''url'', readString, writeString, enc_string, is_short_text),
        Cond ''flags'' 4 (''native_provider'', readString, writeString, enc_string, is_short_text),
        Cond ''flags'' 4 (''native_params'', readTLDataJSON, writeTLDataJSON,
         enc_fobject TL_DataJSON_table, ok_fobject TL_DataJSON_table),
        Cond ''flags'' 6 (''additional_methods'', readVector (Some readTLPaymentFormMethod),
         writeVector (Some writeTLPaymentFormMethod),
         enc_vector (enc_fobject TL_PaymentFormMethod_table),
         ok_vector (ok_fobject TL_PaymentFormMethod_table)),
        Cond ''flags'' 0 (''saved_info'', readTLPaymentRequestedInfo, writeTLPaymentRequestedInfo,
         enc_fobject TL_PaymentRequestedInfo_table, ok_fobject TL_PaymentRequestedInfo_table),
        Cond ''flags'' 1 (''saved_credentials'', readVector (Some readTLPaymentSavedCredentials),
         writeVector (Some writeTLPaymentSavedCredentials),
         enc_vector (enc_fobject TL_PaymentSavedCredentials_table),
         ok_vector (ok_fobject TL_PaymentSavedCredentials_table)),
        Plain (''users'', readVector (Some readTLUser), writeVector (Some writeTLUser),
         enc_vector (enc_fobject TL_User_table), ok_vector (ok_fobject TL_User_table))]),
      (2079764828, [Flags ''flags'' [(''photo'', 5)],
        Plain (''form_id'', readInt64, writeInt64, enc_int64, is_VLong),
        Plain (''bot_id'', readInt64, writeInt64, enc_int64, is_VLong),
        Plain (''title'', readString, writeString, enc_string, is_short_text),
        Plain (''description'', readString, writeString, enc_string, is_short_text),
        Cond ''flags'' 5 (''photo'', readTLWebDocument, writeTLWebDocument,
         enc_fobject TL_WebDocument_table, ok_fobject TL_WebDocument_table),
        Plain (''invoice'', readTLInvoice, writeTLInvoice, enc_fobject TL_Invoice_table,
         ok_fobject TL_Invoice_table),
        Plain (''users'', readVector (Some readTLUser), writeVector (Some writeTLUser),
         enc_vector (enc_fobject TL_User_table), ok_vector (ok_fobject TL_User_table))]),
      (- 1272590367, [Plain (''form_id'', readInt64, writeInt64, enc_int64, is_VLong),
        Plain (''invoice'', readTLInvoice, writeTLInvoice, enc_fobject TL_Invoice_table,
         ok_fobject TL_Invoice_table)])]"

interpretation tl_PaymentsPaymentForm: tl_codec readTLPaymentsPaymentForm writeTLPaymentsPaymentForm "enc_fobject TL_PaymentsPaymentForm_table" "ok_fobject TL_PaymentsPaymentForm_table"
  by (rule flag_schema_codec, unfold TL_PaymentsPaymentForm_table_def, intro flag_tableI)
    (simp_all add: readTLPaymentsPaymentForm_def writeTLPaymentsPaymentForm_def flag_schema_simps tl_WebDocument.tl_codec_axioms tl_Invoice.tl_codec_axioms tl_DataJSON.tl_codec_axioms
      tl_PaymentFormMethod.tl_codec_axioms tl_PaymentRequestedInfo.tl_codec_axioms
      tl_PaymentSavedCredentials.tl_codec_axioms tl_User.tl_codec_axioms tl_PaymentFormMethod.vector_codec
      tl_PaymentSavedCredentials.vector_codec tl_User.vector_codec)

definition readTLPaymentsPaymentResult :: tl_reader where
  "readTLPaymentsPaymentResult = read_object
     [(1314881805, [rd ''updates'' readTLUpdates]),
      (- 666824391, [rd ''url'' readString])]"

definition writeTLPaymentsPaymentResult :: tl_writer where
  "writeTLPaymentsPaymentResult = write_fobject
     [(1314881805, [wf ''_'' writeInt32, wf ''updates'' writeTLUpdates]),
      (- 666824391, [wf ''_'' writeInt32, wf ''url'' writeString])]"

definition TL_PaymentsPaymentResult_table :: flag_table where
  "TL_PaymentsPaymentResult_table =
     [(1314881805, [Plain (''updates'', readTLUpdates, writeTLUpdates,
         enc_fobject TL_Updates_table, ok_fobject TL_Updates_table)]),
      (- 666824391, [Plain (''url'', readString, writeString, enc_string, is_short_text)])]"

interpretation tl_PaymentsPaymentResult: tl_codec readTLPaymentsPaymentResult writeTLPaymentsPaymentResult "enc_fobject TL_PaymentsPaymentResult_table" "ok_fobject TL_PaymentsPaymentResult_table"
  by (rule flag_schema_codec, unfold TL_PaymentsPaymentResult_table_def, intro flag_tableI)
    (simp_all add: readTLPaymentsPaymentResult_def writeTLPaymentsPaymentResult_def flag_schema_simps tl_Updates.tl_codec_axioms)

definition readTLPaymentsPaymentReceipt :: tl_reader where
  "readTLPaymentsPaymentReceipt = read_object
     [(1891958275, [rd ''flags'' readUInt32, rd ''date'' readInt32, rd ''bot_id'' readInt64,
         rd ''provider_id'' readInt64, rd ''title'' readString, rd ''description'' readString,
         rd_if ''flags'' 2 ''photo'' readTLWebDocument, rd ''invoice'' readTLInvoice,
         rd_if ''flags'' 0 ''info'' readTLPaymentRequestedInfo,
         rd_if ''flags'' 1 ''shipping'' readTLShippingOption,
         rd_if ''flags'' 3 ''tip_amount'' readInt64, rd ''currency'' readString,
         rd ''total_amount'' readInt64, rd ''credentials_title'' readString,
         rd ''users'' (readVector (Some readTLUser))]),
      (- 625215430, [rd ''flags'' readUInt32, rd ''date'' readInt32, rd ''bot_id'' readInt64,
         rd ''title'' readString, rd ''description'' readString,
         rd_if ''flags'' 2 ''photo'' readTLWebDocument, rd ''invoice'' readTLInvoice,
         rd ''currency'' readString, rd ''total_amount'' readInt64,
         rd ''transaction_id'' readString, rd ''users'' (readVector (Some readTLUser))])]"

definition writeTLPaymentsPaymentReceipt :: tl_writer where
  "writeTLPaymentsPaymentReceipt = write_fobject
     [(1891958275, [wf ''_'' writeInt32, wf_flags ''flags'' [(''photo'', 2), (''info'', 0),
         (''shipping'', 1), (''tip_amount'', 3)], wf ''date'' writeInt32, wf ''bot_id'' writeInt64,
         wf ''provider_id'' writeInt64, wf ''title'' writeString, wf ''description'' writeString,
         wf_if ''flags'' 2 ''photo'' writeTLWebDocument, wf ''invoice'' writeTLInvoice,
         wf_if ''flags'' 0 ''info'' writeTLPaymentRequestedInfo,
         wf_if ''flags'' 1 ''shipping'' writeTLShippingOption,
         wf_if ''flags'' 3 ''tip_amount'' writeInt64, wf ''currency'' writeString,
         wf ''total_amount'' writeInt64, wf ''credentials_title'' writeString,
         wf ''users'' (writeVector (Some writeTLUser))]),
      (- 625215430, [wf ''_'' writeInt32, wf_flags ''flags'' [(''photo'', 2)],
         wf ''date'' writeInt32, wf ''bot_id'' writeInt64, wf ''title'' writeString,
         wf ''description'' writeString, wf_if ''flags'' 2 ''photo'' writeTLWebDocument,
         wf ''invoice'' writeTLInvoice, wf ''currency'' writeString,
         wf ''total_amount'' writeInt64, wf ''transaction_id'' writeString,
         wf ''users'' (writeVector (Some writeTLUser))])]"

definition TL_PaymentsPaymentReceipt_table :: flag_table where
  "TL_PaymentsPaymentReceipt_table =
     [(1891958275, [Flags ''flags'' [(''photo'', 2), (''info'', 0), (''shipping'', 1),
         (''tip_amount'', 3)],
        Plain (''date'', readInt32, writeInt32, enc_int32, is_VInt),
        Plain (''bot_id'', readInt64, writeInt64, enc_int64, is_VLong),
        Plain (''provider_id'', readInt64, writeInt64, enc_int64, is_VLong),
        Plain (''title'', readString, writeString, enc_string, is_short_text),
        Plain (''description'', readString, writeString, enc_string, is_short_text),
        Cond ''flags'' 2 (''photo'', readTLWebDocument, writeTLWebDocument,
         enc_fobject TL_WebDocument_table, ok_fobject TL_WebDocument_table),
        Plain (''invoice'', readTLInvoice, writeTLInvoice, enc_fobject TL_Invoice_table,
         ok_fobject TL_Invoice_table),
        Cond ''flags'' 0 (''info'', readTLPaymentRequestedInfo, writeTLPaymentRequestedInfo,
         enc_fobject TL_PaymentRequestedInfo_table, ok_fobject TL_PaymentRequestedInfo_table),
        Cond ''flags'' 1 (''shipping'', readTLShippingOption, writeTLShippingOption,
         enc_fobject TL_ShippingOption_table, ok_fobject TL_ShippingOption_table),
        Cond ''flags'' 3 (''tip_amount'', readInt64, writeInt64, enc_int64, is_VLong),
        Plain (''currency'', readString, writeString, enc_string, is_short_text),
        Plain (''total_amount'', readInt64, writeInt64, enc_int64, is_VLong),
        Plain (''credentials_title'', readString, writeString, enc_string, is_short_text),
        Plain (''users'', readVector (Some readTLUser), writeVector (Some writeTLUser),
         enc_vector (enc_fobject TL_User_table), ok_vector (ok_fobject TL_User_table))]),
      (- 625215430, [Flags ''flags'' [(''photo'', 2)],
        Plain (''date'', readInt32, writeInt32, enc_int32, is_VInt),
        Plain (''bot_id'', readInt64, writeInt64, enc_int64, is_VLong),
        Plain (''title'', readString, writeString, enc_string, is_short_text),
        Plain (''description'', readString, writeString, enc_string, is_short_text),
        Cond ''flags'' 2 (''photo'', readTLWebDocument, writeTLWebDocument,
         enc_fobject TL_WebDocument_table, ok_fobject TL_WebDocument_table),
        Plain (''invoice'', readTLInvoice, writeTLInvoice, enc_fobject TL_Invoice_table,
         ok_fobject TL_Invoice_table),
        Plain (''currency'', readString, writeString, enc_string, is_short_text),
        Plain (''total_amount'', readInt64, writeInt64, enc_int64, is_VLong),
        Plain (''transaction_id'', readString, writeString, enc_string, is_short_text),
        Plain (''users'', readVector (Some readTLUser), writeVector (Some writeTLUser),
         enc_vector (enc_fobject TL_User_table), ok_vector (ok_fobject TL_User_table))])]"

interpretation tl_PaymentsPaymentReceipt: tl_codec readTLPaymentsPaymentReceipt writeTLPaymentsPaymentReceipt "enc_fobject TL_PaymentsPaymentReceipt_table" "ok_fobject TL_PaymentsPaymentReceipt_table"
  by (rule flag_schema_codec, unfold TL_PaymentsPaymentReceipt_table_def, intro flag_tableI)
    (simp_all add: readTLPaymentsPaymentReceipt_def writeTLPaymentsPaymentReceipt_def flag_schema_simps tl_WebDocument.tl_codec_axioms tl_Invoice.tl_codec_axioms tl_PaymentRequestedInfo.tl_codec_axioms
      tl_ShippingOption.tl_codec_axioms tl_User.tl_codec_axioms tl_User.vector_codec)

definition readTLInputStickerSetItem :: tl_reader where
  "readTLInputStickerSetItem = read_object
     [(853188252, [rd ''flags'' readUInt32, rd ''document'' readTLInputDocument,
         rd ''emoji'' readString, rd_if ''flags'' 0 ''mask_coords'' readTLMaskCoords,
         rd_if ''flags'' 1 ''keywords'' readString])]"

definition writeTLInputStickerSetItem :: tl_writer where
  "writeTLInputStickerSetItem = write_fobject
     [(853188252, [wf ''_'' writeInt32, wf_flags ''flags'' [(''mask_coords'', 0), (''keywords'',
         1)], wf ''document'' writeTLInputDocument, wf ''emoji'' writeString,
         wf_if ''flags'' 0 ''mask_coords'' writeTLMaskCoords,
         wf_if ''flags'' 1 ''keywords'' writeString])]"

definition TL_InputStickerSetItem_table :: flag_table where
  "TL_InputStickerSetItem_table =
     [(853188252, [Flags ''flags'' [(''mask_coords'', 0), (''keywords'', 1)],
        Plain (''document'', readTLInputDocument, writeTLInputDocument,
         enc_fobject TL_InputDocument_table, ok_fobject TL_InputDocument_table),
        Plain (''emoji'', readString, writeString, enc_string, is_short_text),
        Cond ''flags'' 0 (''mask_coords'', readTLMaskCoords, writeTLMaskCoords,
         enc_fobject TL_MaskCoords_table, ok_fobject TL_MaskCoords_table),
        Cond ''flags'' 1 (''keywords'', readString, writeString, enc_string, is_short_text)])]"

interpretation tl_InputStickerSetItem: tl_codec readTLInputStickerSetItem writeTLInputStickerSetItem "enc_fobject TL_InputStickerSetItem_table" "ok_fobject TL_InputStickerSetItem_table"
  by (rule flag_schema_codec, unfold TL_InputStickerSetItem_table_def, intro flag_tableI)
    (simp_all add: readTLInputStickerSetItem_def writeTLInputStickerSetItem_def flag_schema_simps tl_InputDocument.tl_codec_axioms tl_MaskCoords.tl_codec_axioms)

definition readTLChannelAdminLogEventAction :: tl_reader where
  "readTLChannelAdminLogEventAction = read_object
     [(- 421545947, [rd ''prev_value'' readString, rd ''new_value'' readString]),
      (1427671598, [rd ''prev_value'' readString, rd ''new_value'' readString]),
      (1783299128, [rd ''prev_value'' readString, rd ''new_value'' readString]),
      (1129042607, [rd ''prev_photo'' readTLPhoto, rd ''new_photo'' readTLPhoto]),
      (460916654, [rd ''new_value'' readBool]),
      (648939889, [rd ''new_value'' readBool]),
      (- 370660328, [rd ''message'' readTLMessage]),
      (1889215493, [rd ''prev_message'' readTLMessage, rd ''new_message'' readTLMessage]),
      (1121994683, [rd ''message'' readTLMessage]),
      (405815507, []),
      (- 124291086, []),
      (- 484690728, [rd ''participant'' readTLChannelParticipant]),
      (- 422036098, [rd ''prev_participant'' readTLChannelParticipant,
         rd ''new_participant'' readTLChannelParticipant]),
      (- 714643696, [rd ''prev_participant'' readTLChannelParticipant,
         rd ''new_participant'' readTLChannelParticipant]),
      (- 1312568665, [rd ''prev_stickerset'' readTLInputStickerSet,
         rd ''new_stickerset'' readTLInputStickerSet]),
      (1599903217, [rd ''new_value'' readBool]),
      (771095562, [rd ''prev_banned_rights'' readTLChatBannedRights,
         rd ''new_banned_rights'' readTLChatBannedRights]),
      (- 1895328189, [rd ''message'' readTLMessage]),
      (84703944, [rd ''prev_value'' readInt64, rd ''new_value'' readInt64]),
      (241923758, [rd ''prev_value'' readTLChannelLocation,
         rd ''new_value'' readTLChannelLocation]),
      (1401984889, [rd ''prev_value'' readInt32, rd ''new_value'' readInt32]),
      (589338437, [rd ''call'' readTLInputGroupCall]),
      (- 610299584, [rd ''call'' readTLInputGroupCall]),
      (- 115071790, [rd ''participant'' readTLGroupCallParticipant]),
      (- 431740480, [rd ''participant'' readTLGroupCallParticipant]),
      (1456906823, [rd ''join_muted'' readBool]),
      (- 23084712, [rd ''flags'' readUInt32, set_if ''flags'' 0 ''via_chatlist'',
         rd ''invite'' readTLExportedChatInvite]),
      (1515256996, [rd ''invite'' readTLExportedChatInvite]),
      (1091179342, [rd ''invite'' readTLExportedChatInvite]),
      (- 384910503, [rd ''prev_invite'' readTLExportedChatInvite,
         rd ''new_invite'' readTLExportedChatInvite]),
      (1048537159, [rd ''participant'' readTLGroupCallParticipant]),
      (1855199800, [rd ''prev_value'' readInt32, rd ''new_value'' readInt32]),
      (- 1347021750, [rd ''invite'' readTLExportedChatInvite, rd ''approved_by'' readInt64]),
      (- 886388890, [rd ''new_value'' readBool]),
      (663693416, [rd ''message'' readTLMessage]),
      (- 1102180616, [rd ''prev_value'' readTLChatReactions, rd ''new_value'' readTLChatReactions]),
      (- 263212119, [rd ''prev_value'' (readVector (Some readString)),
         rd ''new_value'' (readVector (Some readString))]),
      (46949251, [rd ''new_value'' readBool]),
      (1483767080, [rd ''topic'' readTLForumTopic]),
      (- 261103096, [rd ''prev_topic'' readTLForumTopic, rd ''new_topic'' readTLForumTopic]),
      (- 1374254839, [rd ''topic'' readTLForumTopic]),
      (1569535291, [rd ''flags'' readUInt32, rd_if ''flags'' 0 ''prev_topic'' readTLForumTopic,
         rd_if ''flags'' 1 ''new_topic'' readTLForumTopic]),
      (1693675004, [rd ''new_value'' readBool]),
      (1469507456, [rd ''prev_value'' readTLPeerColor, rd ''new_value'' readTLPeerColor]),
      (1581742885, [rd ''prev_value'' readTLPeerColor, rd ''new_value'' readTLPeerColor]),
      (834362706, [rd ''prev_value'' readTLWallPaper, rd ''new_value'' readTLWallPaper]),
      (1051328177, [rd ''prev_value'' readTLEmojiStatus, rd ''new_value'' readTLEmojiStatus]),
      (1188577451, [rd ''prev_stickerset'' readTLInputStickerSet,
         rd ''new_stickerset'' readTLInputStickerSet]),
      (1621597305, [rd ''new_value'' readBool]),
      (1684286899, [rd ''prev_participant'' readTLChannelParticipant,
         rd ''new_participant'' readTLChannelParticipant]),
      (- 988285058, [rd ''new_value'' readBool]),
      (1476834540, [rd ''user_id'' readInt64, rd ''prev_rank'' readString,
         rd ''new_rank'' readString])]"

definition writeTLChannelAdminLogEventAction :: tl_writer where
  "writeTLChannelAdminLogEventAction = write_fobject
     [(- 421545947, [wf ''_'' writeInt32, wf ''prev_value'' writeString,
         wf ''new_value'' writeString]),
      (1427671598, [wf ''_'' writeInt32, wf ''prev_value'' writeString,
         wf ''new_value'' writeString]),
      (1783299128, [wf ''_'' writeInt32, wf ''prev_value'' writeString,
         wf ''new_value'' writeString]),
      (1129042607, [wf ''_'' writeInt32, wf ''prev_photo'' writeTLPhoto,
         wf ''new_photo'' writeTLPhoto]),
      (460916654, [wf ''_'' writeInt32, wf ''new_value'' writeBool]),
      (648939889, [wf ''_'' writeInt32, wf ''new_value'' writeBool]),
      (- 370660328, [wf ''_'' writeInt32, wf ''message'' writeTLMessage]),
      (1889215493, [wf ''_'' writeInt32, wf ''prev_message'' writeTLMessage,
         wf ''new_message'' writeTLMessage]),
      (1121994683, [wf ''_'' writeInt32, wf ''message'' writeTLMessage]),
      (405815507, [wf ''_'' writeInt32]),
      (- 124291086, [wf ''_'' writeInt32]),
      (- 484690728, [wf ''_'' writeInt32, wf ''participant'' writeTLChannelParticipant]),
      (- 422036098, [wf ''_'' writeInt32, wf ''prev_participant'' writeTLChannelParticipant,
         wf ''new_participant'' writeTLChannelParticipant]),
      (- 714643696, [wf ''_'' writeInt32, wf ''prev_participant'' writeTLChannelParticipant,
         wf ''new_participant'' writeTLChannelParticipant]),
      (- 1312568665, [wf ''_'' writeInt32, wf ''prev_stickerset'' writeTLInputStickerSet,
         wf ''new_stickerset'' writeTLInputStickerSet]),
      (1599903217, [wf ''_'' writeInt32, wf ''new_value'' writeBool]),
      (771095562, [wf ''_'' writeInt32, wf ''prev_banned_rights'' writeTLChatBannedRights,
         wf ''new_banned_rights'' writeTLChatBannedRights]),
      (- 1895328189, [wf ''_'' writeInt32, wf ''message'' writeTLMessage]),
      (84703944, [wf ''_'' writeInt32, wf ''prev_value'' writeInt64, wf ''new_value'' writeInt64]),
      (241923758, [wf ''_'' writeInt32, wf ''prev_value'' writeTLChannelLocation,
         wf ''new_value'' writeTLChannelLocation]),
      (1401984889, [wf ''_'' writeInt32, wf ''prev_value'' writeInt32,
         wf ''new_value'' writeInt32]),
      (589338437, [wf ''_'' writeInt32, wf ''call'' writeTLInputGroupCall]),
      (- 610299584, [wf ''_'' writeInt32, wf ''call'' writeTLInputGroupCall]),
      (- 115071790, [wf ''_'' writeInt32, wf ''participant'' writeTLGroupCallParticipant]),
      (- 431740480, [wf ''_'' writeInt32, wf ''participant'' writeTLGroupCallParticipant]),
      (1456906823, [wf ''_'' writeInt32, wf ''join_muted'' writeBool]),
      (- 23084712, [wf ''_'' writeInt32, wf_flags ''flags'' [(''via_chatlist'', 0)],
         wf ''invite'' writeTLExportedChatInvite]),
      (1515256996, [wf ''_'' writeInt32, wf ''invite'' writeTLExportedChatInvite]),
      (1091179342, [wf ''_'' writeInt32, wf ''invite'' writeTLExportedChatInvite]),
      (- 384910503, [wf ''_'' writeInt32, wf ''prev_invite'' writeTLExportedChatInvite,
         wf ''new_invite'' writeTLExportedChatInvite]),
      (1048537159, [wf ''_'' writeInt32, wf ''participant'' writeTLGroupCallParticipant]),
      (1855199800, [wf ''_'' writeInt32, wf ''prev_value'' writeInt32,
         wf ''new_value'' writeInt32]),
      (- 1347021750, [wf ''_'' writeInt32, wf ''invite'' writeTLExportedChatInvite,
         wf ''approved_by'' writeInt64]),
      (- 886388890, [wf ''_'' writeInt32, wf ''new_value'' writeBool]),
      (663693416, [wf ''_'' writeInt32, wf ''message'' writeTLMessage]),
      (- 1102180616, [wf ''_'' writeInt32, wf ''prev_value'' writeTLChatReactions,
         wf ''new_value'' writeTLChatReactions]),
      (- 263212119, [wf ''_'' writeInt32, wf ''prev_value'' (writeVector (Some writeString)),
         wf ''new_value'' (writeVector (Some writeString))]),
      (46949251, [wf ''_'' writeInt32, wf ''new_value'' writeBool]),
      (1483767080, [wf ''_'' writeInt32, wf ''topic'' writeTLForumTopic]),
      (- 261103096, [wf ''_'' writeInt32, wf ''prev_topic'' writeTLForumTopic,
         wf ''new_topic'' writeTLForumTopic]),
      (- 1374254839, [wf ''_'' writeInt32, wf ''topic'' writeTLForumTopic]),
      (1569535291, [wf ''_'' writeInt32, wf_flags ''flags'' [(''prev_topic'', 0), (''new_topic'',
         1)], wf_if ''flags'' 0 ''prev_topic'' writeTLForumTopic,
         wf_if ''flags'' 1 ''new_topic'' writeTLForumTopic]),
      (1693675004, [wf ''_'' writeInt32, wf ''new_value'' writeBool]),
      (1469507456, [wf ''_'' writeInt32, wf ''prev_value'' writeTLPeerColor,
         wf ''new_value'' writeTLPeerColor]),
      (1581742885, [wf ''_'' writeInt32, wf ''prev_value'' writeTLPeerColor,
         wf ''new_value'' writeTLPeerColor]),
      (834362706, [wf ''_'' writeInt32, wf ''prev_value'' writeTLWallPaper,
         wf ''new_value'' writeTLWallPaper]),
      (1051328177, [wf ''_'' writeInt32, wf ''prev_value'' writeTLEmojiStatus,
         wf ''new_value'' writeTLEmojiStatus]),
      (1188577451, [wf ''_'' writeInt32, wf ''prev_stickerset'' writeTLInputStickerSet,
         wf ''new_stickerset'' writeTLInputStickerSet]),
      (1621597305, [wf ''_'' writeInt32, wf ''new_value'' writeBool]),
      (1684286899, [wf ''_'' writeInt32, wf ''prev_participant'' writeTLChannelParticipant,
         wf ''new_participant'' writeTLChannelParticipant]),
      (- 988285058, [wf ''_'' writeInt32, wf ''new_value'' writeBool]),
      (1476834540, [wf ''_'' writeInt32, wf ''user_id'' writeInt64, wf ''prev_rank'' writeString,
         wf ''new_rank'' writeString])]"

definition TL_ChannelAdminLogEventAction_table :: flag_table where
  "TL_ChannelAdminLogEventAction_table =
     [(- 421545947, [Plain (''prev_value'', readString, writeString, enc_string, is_short_text),
        Plain (''new_value'', readString, writeString, enc_string, is_short_text)]),
      (1427671598, [Plain (''prev_value'', readString, writeString, enc_string, is_short_text),
        Plain (''new_value'', readString, writeString, enc_string, is_short_text)]),
      (1783299128, [Plain (''prev_value'', readString, writeString, enc_string, is_short_text),
        Plain (''new_value'', readString, writeString, enc_string, is_short_text)]),
      (1129042607, [Plain (''prev_photo'', readTLPhoto, writeTLPhoto, enc_fobject TL_Photo_table,
         ok_fobject TL_Photo_table),
        Plain (''new_photo'', readTLPhoto, writeTLPhoto, enc_fobject TL_Photo_table,
         ok_fobject TL_Photo_table)]),
      (460916654, [Plain (''new_value'', readBool, writeBool, enc_bool, is_VBool)]),
      (648939889, [Plain (''new_value'', readBool, writeBool, enc_bool, is_VBool)]),
      (- 370660328, [Plain (''message'', readTLMessage, writeTLMessage,
         enc_fobject TL_Message_table, ok_fobject TL_Message_table)]),
      (1889215493, [Plain (''prev_message'', readTLMessage, writeTLMessage,
         enc_fobject TL_Message_table, ok_fobject TL_Message_table),
        Plain (''new_message'', readTLMessage, writeTLMessage, enc_fobject TL_Message_table,
         ok_fobject TL_Message_table)]),
      (1121994683, [Plain (''message'', readTLMessage, writeTLMessage,
         enc_fobject TL_Message_table, ok_fobject TL_Message_table)]),
      (405815507, []),
      (- 124291086, []),
      (- 484690728, [Plain (''participant'', readTLChannelParticipant, writeTLChannelParticipant,
         enc_fobject TL_ChannelParticipant_table, ok_fobject TL_ChannelParticipant_table)]),
      (- 422036098, [Plain (''prev_participant'', readTLChannelParticipant,
         writeTLChannelParticipant, enc_fobject TL_ChannelParticipant_table,
         ok_fobject TL_ChannelParticipant_table),
        Plain (''new_participant'', readTLChannelParticipant, writeTLChannelParticipant,
         enc_fobject TL_ChannelParticipant_table, ok_fobject TL_ChannelParticipant_table)]),
      (- 714643696, [Plain (''prev_participant'', readTLChannelParticipant,
         writeTLChannelParticipant, enc_fobject TL_ChannelParticipant_table,
         ok_fobject TL_ChannelParticipant_table),
        Plain (''new_participant'', readTLChannelParticipant, writeTLChannelParticipant,
         enc_fobject TL_ChannelParticipant_table, ok_fobject TL_ChannelParticipant_table)]),
      (- 1312568665, [Plain (''prev_stickerset'', readTLInputStickerSet, writeTLInputStickerSet,
         enc_fobject TL_InputStickerSet_table, ok_fobject TL_InputStickerSet_table),
        Plain (''new_stickerset'', readTLInputStickerSet, writeTLInputStickerSet,
         enc_fobject TL_InputStickerSet_table, ok_fobject TL_InputStickerSet_table)]),
      (1599903217, [Plain (''new_value'', readBool, writeBool, enc_bool, is_VBool)]),
      (771095562, [Plain (''prev_banned_rights'', readTLChatBannedRights, writeTLChatBannedRights,
         enc_fobject TL_ChatBannedRights_table, ok_fobject TL_ChatBannedRights_table),
        Plain (''new_banned_rights'', readTLChatBannedRights, writeTLChatBannedRights,
         enc_fobject TL_ChatBannedRights_table, ok_fobject TL_ChatBannedRights_table)]),
      (- 1895328189, [Plain (''message'', readTLMessage, writeTLMessage,
         enc_fobject TL_Message_table, ok_fobject TL_Message_table)]),
      (84703944, [Plain (''prev_value'', readInt64, writeInt64, enc_int64, is_VLong),
        Plain (''new_value'', readInt64, writeInt64, enc_int64, is_VLong)]),
      (241923758, [Plain (''prev_value'', readTLChannelLocation, writeTLChannelLocation,
         enc_fobject TL_ChannelLocation_table, ok_fobject TL_ChannelLocation_table),
        Plain (''new_value'', readTLChannelLocation, writeTLChannelLocation,
         enc_fobject TL_ChannelLocation_table, ok_fobject TL_ChannelLocation_table)]),
      (1401984889, [Plain (''prev_value'', readInt32, writeInt32, enc_int32, is_VInt),
        Plain (''new_value'', readInt32, writeInt32, enc_int32, is_VInt)]),
      (589338437, [Plain (''call'', readTLInputGroupCall, writeTLInputGroupCall,
         enc_fobject TL_InputGroupCall_table, ok_fobject TL_InputGroupCall_table)]),
      (- 610299584, [Plain (''call'', readTLInputGroupCall, writeTLInputGroupCall,
         enc_fobject TL_InputGroupCall_table, ok_fobject TL_InputGroupCall_table)]),
      (- 115071790, [Plain (''participant'', readTLGroupCallParticipant,
         writeTLGroupCallParticipant, enc_fobject TL_GroupCallParticipant_table,
         ok_fobject TL_GroupCallParticipant_table)]),
      (- 431740480, [Plain (''participant'', readTLGroupCallParticipant,
         writeTLGroupCallParticipant, enc_fobject TL_GroupCallParticipant_table,
         ok_fobject TL_GroupCallParticipant_table)]),
      (1456906823, [Plain (''join_muted'', readBool, writeBool, enc_bool, is_VBool)]),
      (- 23084712, [Flags ''flags'' [(''via_chatlist'', 0)],
        TrueBit ''flags'' 0 ''via_chatlist'',
        Plain (''invite'', readTLExportedChatInvite, writeTLExportedChatInvite,
         enc_fobject TL_ExportedChatInvite_table, ok_fobject TL_ExportedChatInvite_table)]),
      (1515256996, [Plain (''invite'', readTLExportedChatInvite, writeTLExportedChatInvite,
         enc_fobject TL_ExportedChatInvite_table, ok_fobject TL_ExportedChatInvite_table)]),
      (1091179342, [Plain (''invite'', readTLExportedChatInvite, writeTLExportedChatInvite,
         enc_fobject TL_ExportedChatInvite_table, ok_fobject TL_ExportedChatInvite_table)]),
      (- 384910503, [Plain (''prev_invite'', readTLExportedChatInvite, writeTLExportedChatInvite,
         enc_fobject TL_ExportedChatInvite_table, ok_fobject TL_ExportedChatInvite_table),
        Plain (''new_invite'', readTLExportedChatInvite, writeTLExportedChatInvite,
         enc_fobject TL_ExportedChatInvite_table, ok_fobject TL_ExportedChatInvite_table)]),
      (1048537159, [Plain (''participant'', readTLGroupCallParticipant,
         writeTLGroupCallParticipant, enc_fobject TL_GroupCallParticipant_table,
         ok_fobject TL_GroupCallParticipant_table)]),
      (1855199800, [Plain (''prev_value'', readInt32, writeInt32, enc_int32, is_VInt),
        Plain (''new_value'', readInt32, writeInt32, enc_int32, is_VInt)]),
      (- 1347021750, [Plain (''invite'', readTLExportedChatInvite, writeTLExportedChatInvite,
         enc_fobject TL_ExportedChatInvite_table, ok_fobject TL_ExportedChatInvite_table),
        Plain (''approved_by'', readInt64, writeInt64, enc_int64, is_VLong)]),
      (- 886388890, [Plain (''new_value'', readBool, writeBool, enc_bool, is_VBool)]),
      (663693416, [Plain (''message'', readTLMessage, writeTLMessage, enc_fobject TL_Message_table,
         ok_fobject TL_Message_table)]),
      (- 1102180616, [Plain (''prev_value'', readTLChatReactions, writeTLChatReactions,
         enc_fobject TL_ChatReactions_table, ok_fobject TL_ChatReactions_table),
        Plain (''new_value'', readTLChatReactions, writeTLChatReactions,
         enc_fobject TL_ChatReactions_table, ok_fobject TL_ChatReactions_table)]),
      (- 263212119, [Plain (''prev_value'', readVector (Some readString),
         writeVector (Some writeString), enc_vector enc_string, ok_vector is_short_text),
        Plain (''new_value'', readVector (Some readString), writeVector (Some writeString),
         enc_vector enc_string, ok_vector is_short_text)]),
      (46949251, [Plain (''new_value'', readBool, writeBool, enc_bool, is_VBool)]),
      (1483767080, [Plain (''topic'', readTLForumTopic, writeTLForumTopic,
         enc_fobject TL_ForumTopic_table, ok_fobject TL_ForumTopic_table)]),
      (- 261103096, [Plain (''prev_topic'', readTLForumTopic, writeTLForumTopic,
         enc_fobject TL_ForumTopic_table, ok_fobject TL_ForumTopic_table),
        Plain (''new_topic'', readTLForumTopic, writeTLForumTopic, enc_fobject TL_ForumTopic_table,
         ok_fobject TL_ForumTopic_table)]),
      (- 1374254839, [Plain (''topic'', readTLForumTopic, writeTLForumTopic,
         enc_fobject TL_ForumTopic_table, ok_fobject TL_ForumTopic_table)]),
      (1569535291, [Flags ''flags'' [(''prev_topic'', 0), (''new_topic'', 1)],
        Cond ''flags'' 0 (''prev_topic'', readTLForumTopic, writeTLForumTopic,
         enc_fobject TL_ForumTopic_table, ok_fobject TL_ForumTopic_table),
        Cond ''flags'' 1 (''new_topic'', readTLForumTopic, writeTLForumTopic,
         enc_fobject TL_ForumTopic_table, ok_fobject TL_ForumTopic_table)]),
      (1693675004, [Plain (''new_value'', readBool, writeBool, enc_bool, is_VBool)]),
      (1469507456, [Plain (''prev_value'', readTLPeerColor, writeTLPeerColor,
         enc_fobject TL_PeerColor_table, ok_fobject TL_PeerColor_table),
        Plain (''new_value'', readTLPeerColor, writeTLPeerColor, enc_fobject TL_PeerColor_table,
         ok_fobject TL_PeerColor_table)]),
      (1581742885, [Plain (''prev_value'', readTLPeerColor, writeTLPeerColor,
         enc_fobject TL_PeerColor_table, ok_fobject TL_PeerColor_table),
        Plain (''new_value'', readTLPeerColor, writeTLPeerColor, enc_fobject TL_PeerColor_table,
         ok_fobject TL_PeerColor_table)]),
      (834362706, [Plain (''prev_value'', readTLWallPaper, writeTLWallPaper,
         enc_fobject TL_WallPaper_table, ok_fobject TL_WallPaper_table),
        Plain (''new_value'', readTLWallPaper, writeTLWallPaper, enc_fobject TL_WallPaper_table,
         ok_fobject TL_WallPaper_table)]),
      (1051328177, [Plain (''prev_value'', readTLEmojiStatus, writeTLEmojiStatus,
         enc_fobject TL_EmojiStatus_table, ok_fobject TL_EmojiStatus_table),
        Plain (''new_value'', readTLEmojiStatus, writeTLEmojiStatus,
         enc_fobject TL_EmojiStatus_table, ok_fobject TL_EmojiStatus_table)]),
      (1188577451, [Plain (''prev_stickerset'', readTLInputStickerSet, writeTLInputStickerSet,
         enc_fobject TL_InputStickerSet_table, ok_fobject TL_InputStickerSet_table),
        Plain (''new_stickerset'', readTLInputStickerSet, writeTLInputStickerSet,
         enc_fobject TL_InputStickerSet_table, ok_fobject TL_InputStickerSet_table)]),
      (1621597305, [Plain (''new_value'', readBool, writeBool, enc_bool, is_VBool)]),
      (1684286899, [Plain (''prev_participant'', readTLChannelParticipant,
         writeTLChannelParticipant, enc_fobject TL_ChannelParticipant_table,
         ok_fobject TL_ChannelParticipant_table),
        Plain (''new_participant'', readTLChannelParticipant, writeTLChannelParticipant,
         enc_fobject TL_ChannelParticipant_table, ok_fobject TL_ChannelParticipant_table)]),
      (- 988285058, [Plain (''new_value'', readBool, writeBool, enc_bool, is_VBool)]),
      (1476834540, [Plain (''user_id'', readInt64, writeInt64, enc_int64, is_VLong),
        Plain (''prev_rank'', readString, writeString, enc_string, is_short_text),
        Plain (''new_rank'', readString, writeString, enc_string, is_short_text)])]"

interpretation tl_ChannelAdminLogEventAction: tl_codec readTLChannelAdminLogEventAction writeTLChannelAdminLogEventAction "enc_fobject TL_ChannelAdminLogEventAction_table" "ok_fobject TL_ChannelAdminLogEventAction_table"
  by (rule flag_schema_codec, unfold TL_ChannelAdminLogEventAction_table_def, intro flag_tableI)
    (simp_all add: readTLChannelAdminLogEventAction_def writeTLChannelAdminLogEventAction_def flag_schema_simps tl_Photo.tl_codec_axioms tl_Message.tl_codec_axioms tl_ChannelParticipant.tl_codec_axioms
      tl_InputStickerSet.tl_codec_axioms tl_ChatBannedRights.tl_codec_axioms
      tl_ChannelLocation.tl_codec_axioms tl_InputGroupCall.tl_codec_axioms
      tl_GroupCallParticipant.tl_codec_axioms tl_ExportedChatInvite.tl_codec_axioms
      tl_ChatReactions.tl_codec_axioms tl_ForumTopic.tl_codec_axioms tl_PeerColor.tl_codec_axioms
      tl_WallPaper.tl_codec_axioms tl_EmojiStatus.tl_codec_axioms)

definition readTLChannelAdminLogEvent :: tl_reader where
  "readTLChannelAdminLogEvent = read_object
     [(531458253, [rd ''id'' readInt64, rd ''date'' readInt32, rd ''user_id'' readInt64,
         rd ''action'' readTLChannelAdminLogEventAction])]"

definition writeTLChannelAdminLogEvent :: tl_writer where
  "writeTLChannelAdminLogEvent = write_fobject
     [(531458253, [wf ''_'' writeInt32, wf ''id'' writeInt64, wf ''date'' writeInt32,
         wf ''user_id'' writeInt64, wf ''action'' writeTLChannelAdminLogEventAction])]"

definition TL_ChannelAdminLogEvent_table :: flag_table where
  "TL_ChannelAdminLogEvent_table =
     [(531458253, [Plain (''id'', readInt64, writeInt64, enc_int64, is_VLong),
        Plain (''date'', readInt32, writeInt32, enc_int32, is_VInt),
        Plain (''user_id'', readInt64, writeInt64, enc_int64, is_VLong),
        Plain (''action'', readTLChannelAdminLogEventAction, writeTLChannelAdminLogEventAction,
         enc_fobject TL_ChannelAdminLogEventAction_table,
         ok_fobject TL_ChannelAdminLogEventAction_table)])]"

interpretation tl_ChannelAdminLogEvent: tl_codec readTLChannelAdminLogEvent writeTLChannelAdminLogEvent "enc_fobject TL_ChannelAdminLogEvent_table" "ok_fobject TL_ChannelAdminLogEvent_table"
  by (rule flag_schema_codec, unfold TL_ChannelAdminLogEvent_table_def, intro flag_tableI)
    (simp_all add: readTLChannelAdminLogEvent_def writeTLChannelAdminLogEvent_def flag_schema_simps tl_ChannelAdminLogEventAction.tl_codec_axioms)

definition readTLChannelsAdminLogResults :: tl_reader where
  "readTLChannelsAdminLogResults = read_object
     [(- 309659827, [rd ''events'' (readVector (Some readTLChannelAdminLogEvent)),
         rd ''chats'' (readVector (Some readTLChat)),
         rd ''users'' (readVector (Some readTLUser))])]"

definition writeTLChannelsAdminLogResults :: tl_writer where
  "writeTLChannelsAdminLogResults = write_fobject
     [(- 309659827, [wf ''_'' writeInt32,
         wf ''events'' (writeVector (Some writeTLChannelAdminLogEvent)),
         wf ''chats'' (writeVector (Some writeTLChat)),
         wf ''users'' (writeVector (Some writeTLUser))])]"

definition TL_ChannelsAdminLogResults_table :: flag_table where
  "TL_ChannelsAdminLogResults_table =
     [(- 309659827, [Plain (''events'', readVector (Some readTLChannelAdminLogEvent),
         writeVector (Some writeTLChannelAdminLogEvent),
         enc_vector (enc_fobject TL_ChannelAdminLogEvent_table),
         ok_vector (ok_fobject TL_ChannelAdminLogEvent_table)),
        Plain (''chats'', readVector (Some readTLChat), writeVector (Some writeTLChat),
         enc_vector (enc_fobject TL_Chat_table), ok_vector (ok_fobject TL_Chat_table)),
        Plain (''users'', readVector (Some readTLUser), writeVector (Some writeTLUser),
         enc_vector (enc_fobject TL_User_table), ok_vector (ok_fobject TL_User_table))])]"

interpretation tl_ChannelsAdminLogResults: tl_codec readTLChannelsAdminLogResults writeTLChannelsAdminLogResults "enc_fobject TL_ChannelsAdminLogResults_table" "ok_fobject TL_ChannelsAdminLogResults_table"
  by (rule flag_schema_codec, unfold TL_ChannelsAdminLogResults_table_def, intro flag_tableI)
    (simp_all add: readTLChannelsAdminLogResults_def writeTLChannelsAdminLogResults_def flag_schema_simps tl_ChannelAdminLogEvent.tl_codec_axioms tl_Chat.tl_codec_axioms tl_User.tl_codec_axioms
      tl_ChannelAdminLogEvent.vector_codec tl_Chat.vector_codec tl_User.vector_codec)

definition readTLMessagesFavedStickers :: tl_reader where
  "readTLMessagesFavedStickers = read_object
     [(- 1634752813, []),
      (750063767, [rd ''hash'' readInt64, rd ''packs'' (readVector (Some readTLStickerPack)),
         rd ''stickers'' (readVector (Some readTLDocument))])]"

definition writeTLMessagesFavedStickers :: tl_writer where
  "writeTLMessagesFavedStickers = write_fobject
     [(- 1634752813, [wf ''_'' writeInt32]),
      (750063767, [wf ''_'' writeInt32, wf ''hash'' writeInt64,
         wf ''packs'' (writeVector (Some writeTLStickerPack)),
         wf ''stickers'' (writeVector (Some writeTLDocument))])]"

definition TL_MessagesFavedStickers_table :: flag_table where
  "TL_MessagesFavedStickers_table =
     [(- 1634752813, []),
      (750063767, [Plain (''hash'', readInt64, writeInt64, enc_int64, is_VLong),
        Plain (''packs'', readVector (Some readTLStickerPack),
         writeVector (Some writeTLStickerPack), enc_vector (enc_fobject TL_StickerPack_table),
         ok_vector (ok_fobject TL_StickerPack_table)),
        Plain (''stickers'', readVector (Some readTLDocument), writeVector (Some writeTLDocument),
         enc_vector (enc_fobject TL_Document_table), ok_vector (ok_fobject TL_Document_table))])]"

interpretation tl_MessagesFavedStickers: tl_codec readTLMessagesFavedStickers writeTLMessagesFavedStickers "enc_fobject TL_MessagesFavedStickers_table" "ok_fobject TL_MessagesFavedStickers_table"
  by (rule flag_schema_codec, unfold TL_MessagesFavedStickers_table_def, intro flag_tableI)
    (simp_all add: readTLMessagesFavedStickers_def writeTLMessagesFavedStickers_def flag_schema_simps tl_StickerPack.tl_codec_axioms tl_Document.tl_codec_axioms tl_StickerPack.vector_codec
      tl_Document.vector_codec)

definition readTLRecentMeUrl :: tl_reader where
  "readTLRecentMeUrl = read_object
     [(1189204285, [rd ''url'' readString]),
      (- 1188296222, [rd ''url'' readString, rd ''user_id'' readInt64]),
      (- 1294306862, [rd ''url'' readString, rd ''chat_id'' readInt64]),
      (- 347535331, [rd ''url'' readString, rd ''chat_invite'' readTLChatInvite]),
      (- 1140172836, [rd ''url'' readString, rd ''set'' readTLStickerSetCovered])]"

definition writeTLRecentMeUrl :: tl_writer where
  "writeTLRecentMeUrl = write_fobject
     [(1189204285, [wf ''_'' writeInt32, wf ''url'' writeString]),
      (- 1188296222, [wf ''_'' writeInt32, wf ''url'' writeString, wf ''user_id'' writeInt64]),
      (- 1294306862, [wf ''_'' writeInt32, wf ''url'' writeString, wf ''chat_id'' writeInt64]),
      (- 347535331, [wf ''_'' writeInt32, wf ''url'' writeString,
         wf ''chat_invite'' writeTLChatInvite]),
      (- 1140172836, [wf ''_'' writeInt32, wf ''url'' writeString,
         wf ''set'' writeTLStickerSetCovered])]"

definition TL_RecentMeUrl_table :: flag_table where
  "TL_RecentMeUrl_table =
     [(1189204285, [Plain (''url'', readString, writeString, enc_string, is_short_text)]),
      (- 1188296222, [Plain (''url'', readString, writeString, enc_string, is_short_text),
        Plain (''user_id'', readInt64, writeInt64, enc_int64, is_VLong)]),
      (- 1294306862, [Plain (''url'', readString, writeString, enc_string, is_short_text),
        Plain (''chat_id'', readInt64, writeInt64, enc_int64, is_VLong)]),
      (- 347535331, [Plain (''url'', readString, writeString, enc_string, is_short_text),
        Plain (''chat_invite'', readTLChatInvite, writeTLChatInvite,
         enc_fobject TL_ChatInvite_table, ok_fobject TL_ChatInvite_table)]),
      (- 1140172836, [Plain (''url'', readString, writeString, enc_string, is_short_text),
        Plain (''set'', readTLStickerSetCovered, writeTLStickerSetCovered,
         enc_fobject TL_StickerSetCovered_table, ok_fobject TL_StickerSetCovered_table)])]"

interpretation tl_RecentMeUrl: tl_codec readTLRecentMeUrl writeTLRecentMeUrl "enc_fobject TL_RecentMeUrl_table" "ok_fobject TL_RecentMeUrl_table"
  by (rule flag_schema_codec, unfold TL_RecentMeUrl_table_def, intro flag_tableI)
    (simp_all add: readTLRecentMeUrl_def writeTLRecentMeUrl_def flag_schema_simps tl_ChatInvite.tl_codec_axioms tl_StickerSetCovered.tl_codec_axioms)

definition readTLHelpRecentMeUrls :: tl_reader where
  "readTLHelpRecentMeUrls = read_object
     [(235081943, [rd ''urls'' (readVector (Some readTLRecentMeUrl)),
         rd ''chats'' (readVector (Some readTLChat)),
         rd ''users'' (readVector (Some readTLUser))])]"

definition writeTLHelpRecentMeUrls :: tl_writer where
  "writeTLHelpRecentMeUrls = write_fobject
     [(235081943, [wf ''_'' writeInt32, wf ''urls'' (writeVector (Some writeTLRecentMeUrl)),
         wf ''chats'' (writeVector (Some writeTLChat)),
         wf ''users'' (writeVector (Some writeTLUser))])]"

definition TL_HelpRecentMeUrls_table :: flag_table where
  "TL_HelpRecentMeUrls_table =
     [(235081943, [Plain (''urls'', readVector (Some readTLRecentMeUrl),
         writeVector (Some writeTLRecentMeUrl), enc_vector (enc_fobject TL_RecentMeUrl_table),
         ok_vector (ok_fobject TL_RecentMeUrl_table)),
        Plain (''chats'', readVector (Some readTLChat), writeVector (Some writeTLChat),
         enc_vector (enc_fobject TL_Chat_table), ok_vector (ok_fobject TL_Chat_table)),
        Plain (''users'', readVector (Some readTLUser), writeVector (Some writeTLUser),
         enc_vector (enc_fobject TL_User_table), ok_vector (ok_fobject TL_User_table))])]"

interpretation tl_HelpRecentMeUrls: tl_codec readTLHelpRecentMeUrls writeTLHelpRecentMeUrls "enc_fobject TL_HelpRecentMeUrls_table" "ok_fobject TL_HelpRecentMeUrls_table"
  by (rule flag_schema_codec, unfold TL_HelpRecentMeUrls_table_def, intro flag_tableI)
    (simp_all add: readTLHelpRecentMeUrls_def writeTLHelpRecentMeUrls_def flag_schema_simps tl_RecentMeUrl.tl_codec_axioms tl_Chat.tl_codec_axioms tl_User.tl_codec_axioms
      tl_RecentMeUrl.vector_codec tl_Chat.vector_codec tl_User.vector_codec)

definition readTLInputSingleMedia :: tl_reader where
  "readTLInputSingleMedia = read_object
     [(482797855, [rd ''flags'' readUInt32, rd ''media'' readTLInputMedia,
         rd ''random_id'' readInt64, rd ''message'' readString,
         rd_if ''flags'' 0 ''entities'' (readVector (Some readTLMessageEntity))])]"

definition writeTLInputSingleMedia :: tl_writer where
  "writeTLInputSingleMedia = write_fobject
     [(482797855, [wf ''_'' writeInt32, wf_flags ''flags'' [(''entities'', 0)],
         wf ''media'' writeTLInputMedia, wf ''random_id'' writeInt64, wf ''message'' writeString,
         wf_if ''flags'' 0 ''entities'' (writeVector (Some writeTLMessageEntity))])]"

definition TL_InputSingleMedia_table :: flag_table where
  "TL_InputSingleMedia_table =
     [(482797855, [Flags ''flags'' [(''entities'', 0)],
        Plain (''media'', readTLInputMedia, writeTLInputMedia, enc_InputMedia, ok_InputMedia),
        Plain (''random_id'', readInt64, writeInt64, enc_int64, is_VLong),
        Plain (''message'', readString, writeString, enc_string, is_short_text),
        Cond ''flags'' 0 (''entities'', readVector (Some readTLMessageEntity),
         writeVector (Some writeTLMessageEntity), enc_vector (enc_fobject TL_MessageEntity_table),
         ok_vector (ok_fobject TL_MessageEntity_table))])]"

interpretation tl_InputSingleMedia: tl_codec readTLInputSingleMedia writeTLInputSingleMedia "enc_fobject TL_InputSingleMedia_table" "ok_fobject TL_InputSingleMedia_table"
  by (rule flag_schema_codec, unfold TL_InputSingleMedia_table_def, intro flag_tableI)
    (simp_all add: readTLInputSingleMedia_def writeTLInputSingleMedia_def flag_schema_simps tl_InputMedia.tl_codec_axioms tl_MessageEntity.tl_codec_axioms tl_MessageEntity.vector_codec)

definition readTLMessagesFoundStickerSets :: tl_reader where
  "readTLMessagesFoundStickerSets = read_object
     [(223655517, []),
      (- 1963942446, [rd ''hash'' readInt64,
         rd ''sets'' (readVector (Some readTLStickerSetCovered))])]"

definition writeTLMessagesFoundStickerSets :: tl_writer where
  "writeTLMessagesFoundStickerSets = write_fobject
     [(223655517, [wf ''_'' writeInt32]),
      (- 1963942446, [wf ''_'' writeInt32, wf ''hash'' writeInt64,
         wf ''sets'' (writeVector (Some writeTLStickerSetCovered))])]"

definition TL_MessagesFoundStickerSets_table :: flag_table where
  "TL_MessagesFoundStickerSets_table =
     [(223655517, []),
      (- 1963942446, [Plain (''hash'', readInt64, writeInt64, enc_int64, is_VLong),
        Plain (''sets'', readVector (Some readTLStickerSetCovered),
         writeVector (Some writeTLStickerSetCovered),
         enc_vector (enc_fobject TL_StickerSetCovered_table),
         ok_vector (ok_fobject TL_StickerSetCovered_table))])]"

interpretation tl_MessagesFoundStickerSets: tl_codec readTLMessagesFoundStickerSets writeTLMessagesFoundStickerSets "enc_fobject TL_MessagesFoundStickerSets_table" "ok_fobject TL_MessagesFoundStickerSets_table"
  by (rule flag_schema_codec, unfold TL_MessagesFoundStickerSets_table_def, intro flag_tableI)
    (simp_all add: readTLMessagesFoundStickerSets_def writeTLMessagesFoundStickerSets_def flag_schema_simps tl_StickerSetCovered.tl_codec_axioms tl_StickerSetCovered.vector_codec)

definition secureRequired_reads :: "(unit \<Rightarrow> tl_reader) \<Rightarrow> unit \<Rightarrow> step_case list" where
  "secureRequired_reads r t =
     [(- 2103600678, [rd ''flags'' readUInt32, set_if ''flags'' 0 ''native_names'',
         set_if ''flags'' 1 ''selfie_required'', set_if ''flags'' 2 ''translation_required'',
         rd ''type'' readTLSecureValueType]),
      (41187252, [rd ''types'' (readVector (Some (r ())))])]"

definition secureRequired_writes :: "(unit \<Rightarrow> tl_writer) \<Rightarrow> unit \<Rightarrow> step_case list" where
  "secureRequired_writes w t =
     [(- 2103600678, [wf ''_'' writeInt32, wf_flags ''flags'' [(''native_names'', 0),
         (''selfie_required'', 1), (''translation_required'', 2)],
         wf ''type'' writeTLSecureValueType]),
      (41187252, [wf ''_'' writeInt32, wf ''types'' (writeVector (Some (w ())))])]"

definition secureRequired_fields :: "unit group_table" where
  "secureRequired_fields r w e k t =
     [(- 2103600678, [Flags ''flags'' [(''native_names'', 0), (''selfie_required'', 1),
         (''translation_required'', 2)],
        TrueBit ''flags'' 0 ''native_names'',
        TrueBit ''flags'' 1 ''selfie_required'',
        TrueBit ''flags'' 2 ''translation_required'',
        Plain (''type'', readTLSecureValueType, writeTLSecureValueType,
         enc_fobject TL_SecureValueType_table, ok_fobject TL_SecureValueType_table)]),
      (41187252, [Plain (''types'', readVector (Some (r ())), writeVector (Some (w ())),
         enc_vector (e ()), ok_vector (k ()))])]"

lemma secureRequired_reads_like: "(\<And>t. like L (r t) (r' t)) \<Longrightarrow> cases_like L (secureRequired_reads r t) (secureRequired_reads r' t)"
  by (simp add: secureRequired_reads_def recursion_simps tl_SecureValueType.self_like)

lemma secureRequired_writes_like: "(\<And>t. wlike B (w t) (w' t)) \<Longrightarrow> wcases_like B (secureRequired_writes w t) (secureRequired_writes w' t)"
  by (simp add: secureRequired_writes_def recursion_simps)

lemma secureRequired_codec:
  assumes "\<And>t. tl_codec (r t) (w t) (e t) (k t)"
  shows "tl_codec (read_object (secureRequired_reads r t)) (write_fobject (secureRequired_writes w t)) (enc_fobject (secureRequired_fields r w e k t)) (ok_fobject (secureRequired_fields r w e k t))"
  by (rule flag_schema_codec, unfold secureRequired_fields_def, intro flag_tableI)
    (simp_all add: secureRequired_reads_def secureRequired_writes_def flag_schema_simps assms assms [THEN tl_codec.vector_codec] tl_SecureValueType.tl_codec_axioms)

lemma secureRequired_fields_le:
  "(\<And>t q v. k t q v \<Longrightarrow> k' t q v \<and> e' t q v = e t q v) \<Longrightarrow> table_le (secureRequired_fields r w e k t) (secureRequired_fields r' w' e' k' t)"
  by (simp add: secureRequired_fields_def recursion_simps)

interpretation secureRequired: tl_recursion secureRequired_reads secureRequired_writes secureRequired_fields
  by (rule tl_recursion.intro [OF secureRequired_reads_like _ secureRequired_writes_like _ secureRequired_codec secureRequired_fields_le])
    (simp_all add: secureRequired_reads_def secureRequired_writes_def)

definition readTLSecureRequiredType :: tl_reader where
  "readTLSecureRequiredType = read_rec secureRequired_reads ()"

definition writeTLSecureRequiredType :: tl_writer where
  "writeTLSecureRequiredType = write_rec secureRequired_writes ()"

definition enc_SecureRequiredType :: "qtenv \<Rightarrow> variant \<Rightarrow> bytes" where
  "enc_SecureRequiredType = enc_rec secureRequired_reads secureRequired_writes secureRequired_fields ()"

definition ok_SecureRequiredType :: "qtenv \<Rightarrow> variant \<Rightarrow> bool" where
  "ok_SecureRequiredType = ok_rec secureRequired_reads secureRequired_writes secureRequired_fields ()"

lemma readTLSecureRequiredType_unfold: "readTLSecureRequiredType i s = read_object (secureRequired_reads (\<lambda>t. readTLSecureRequiredType) ()) i s"
  using secureRequired.read_rec_unfold [of "()" i s] by (simp add: readTLSecureRequiredType_def)

lemma writeTLSecureRequiredType_unfold: "writeTLSecureRequiredType s i = write_fobject (secureRequired_writes (\<lambda>t. writeTLSecureRequiredType) ()) s i"
  using secureRequired.write_rec_unfold [of "()" s i] by (simp add: writeTLSecureRequiredType_def)

interpretation tl_SecureRequiredType: tl_codec readTLSecureRequiredType writeTLSecureRequiredType enc_SecureRequiredType ok_SecureRequiredType
  unfolding readTLSecureRequiredType_def writeTLSecureRequiredType_def enc_SecureRequiredType_def ok_SecureRequiredType_def by (rule secureRequired.rec_codec)

definition readTLAccountAuthorizationForm :: tl_reader where
  "readTLAccountAuthorizationForm = read_object
     [(- 1389486888, [rd ''flags'' readUInt32,
         rd ''required_types'' (readVector (Some readTLSecureRequiredType)),
         rd ''values'' (readVector (Some readTLSecureValue)),
         rd ''errors'' (readVector (Some readTLSecureValueError)),
         rd ''users'' (readVector (Some readTLUser)),
         rd_if ''flags'' 0 ''privacy_policy_url'' readString])]"

definition writeTLAccountAuthorizationForm :: tl_writer where
  "writeTLAccountAuthorizationForm = write_fobject
     [(- 1389486888, [wf ''_'' writeInt32, wf_flags ''flags'' [(''privacy_policy_url'', 0)],
         wf ''required_types'' (writeVector (Some writeTLSecureRequiredType)),
         wf ''values'' (writeVector (Some writeTLSecureValue)),
         wf ''errors'' (writeVector (Some writeTLSecureValueError)),
         wf ''users'' (writeVector (Some writeTLUser)),
         wf_if ''flags'' 0 ''privacy_policy_url'' writeString])]"

definition TL_AccountAuthorizationForm_table :: flag_table where
  "TL_AccountAuthorizationForm_table =
     [(- 1389486888, [Flags ''flags'' [(''privacy_policy_url'', 0)],
        Plain (''required_types'', readVector (Some readTLSecureRequiredType),
         writeVector (Some writeTLSecureRequiredType), enc_vector enc_SecureRequiredType,
         ok_vector ok_SecureRequiredType),
        Plain (''values'', readVector (Some readTLSecureValue),
         writeVector (Some writeTLSecureValue), enc_vector (enc_fobject TL_SecureValue_table),
         ok_vector (ok_fobject TL_SecureValue_table)),
        Plain (''errors'', readVector (Some readTLSecureValueError),
         writeVector (Some writeTLSecureValueError),
         enc_vector (enc_fobject TL_SecureValueError_table),
         ok_vector (ok_fobject TL_SecureValueError_table)),
        Plain (''users'', readVector (Some readTLUser), writeVector (Some writeTLUser),
         enc_vector (enc_fobject TL_User_table), ok_vector (ok_fobject TL_User_table)),
        Cond ''flags'' 0 (''privacy_policy_url'', readString, writeString, enc_string,
         is_short_text)])]"

interpretation tl_AccountAuthorizationForm: tl_codec readTLAccountAuthorizationForm writeTLAccountAuthorizationForm "enc_fobject TL_AccountAuthorizationForm_table" "ok_fobject TL_AccountAuthorizationForm_table"
  by (rule flag_schema_codec, unfold TL_AccountAuthorizationForm_table_def, intro flag_tableI)
    (simp_all add: readTLAccountAuthorizationForm_def writeTLAccountAuthorizationForm_def flag_schema_simps tl_SecureRequiredType.tl_codec_axioms tl_SecureValue.tl_codec_axioms
      tl_SecureValueError.tl_codec_axioms tl_User.tl_codec_axioms tl_SecureRequiredType.vector_codec
      tl_SecureValue.vector_codec tl_SecureValueError.vector_codec tl_User.vector_codec)

datatype json_type = JSONObjectValueT | JSONValueT

definition jsonObjectValue_reads :: "(json_type \<Rightarrow> tl_reader) \<Rightarrow> step_case list" where
  "jsonObjectValue_reads r =
     [(- 1059185703, [rd ''key'' readString, rd ''value'' (r JSONValueT)])]"

definition jsonObjectValue_writes :: "(json_type \<Rightarrow> tl_writer) \<Rightarrow> step_case list" where
  "jsonObjectValue_writes w =
     [(- 1059185703, [wf ''_'' writeInt32, wf ''key'' writeString, wf ''value'' (w JSONValueT)])]"

definition jsonObjectValue_fields :: "json_type group_fields" where
  "jsonObjectValue_fields r w e k =
     [(- 1059185703, [Plain (''key'', readString, writeString, enc_string, is_short_text),
        Plain (''value'', r JSONValueT, w JSONValueT, e JSONValueT, k JSONValueT)])]"

definition jsonValue_reads :: "(json_type \<Rightarrow> tl_reader) \<Rightarrow> step_case list" where
  "jsonValue_reads r =
     [(1064139624, []),
      (- 952869270, [rd ''value'' readBool]),
      (736157604, [rd ''value'' readDouble]),
      (- 1222740358, [rd ''value'' readString]),
      (- 146520221, [rd ''value'' (readVector (Some (r JSONValueT)))]),
      (- 1715350371, [rd ''value'' (readVector (Some (r JSONObjectValueT)))])]"

definition jsonValue_writes :: "(json_type \<Rightarrow> tl_writer) \<Rightarrow> step_case list" where
  "jsonValue_writes w =
     [(1064139624, [wf ''_'' writeInt32]),
      (- 952869270, [wf ''_'' writeInt32, wf ''value'' writeBool]),
      (736157604, [wf ''_'' writeInt32, wf ''value'' writeDouble]),
      (- 1222740358, [wf ''_'' writeInt32, wf ''value'' writeString]),
      (- 146520221, [wf ''_'' writeInt32, wf ''value'' (writeVector (Some (w JSONValueT)))]),
      (- 1715350371, [wf ''_'' writeInt32,
         wf ''value'' (writeVector (Some (w JSONObjectValueT)))])]"

definition jsonValue_fields :: "json_type group_fields" where
  "jsonValue_fields r w e k =
     [(1064139624, []),
      (- 952869270, [Plain (''value'', readBool, writeBool, enc_bool, is_VBool)]),
      (736157604, [Plain (''value'', readDouble, writeDouble, enc_double, is_VDouble)]),
      (- 1222740358, [Plain (''value'', readString, writeString, enc_string, is_short_text)]),
      (- 146520221, [Plain (''value'', readVector (Some (r JSONValueT)),
         writeVector (Some (w JSONValueT)), enc_vector (e JSONValueT), ok_vector (k JSONValueT))]),
      (- 1715350371, [Plain (''value'', readVector (Some (r JSONObjectValueT)),
         writeVector (Some (w JSONObjectValueT)), enc_vector (e JSONObjectValueT),
         ok_vector (k JSONObjectValueT))])]"

fun json_reads :: "(json_type \<Rightarrow> tl_reader) \<Rightarrow> json_type \<Rightarrow> step_case list" where
  "json_reads r JSONObjectValueT = jsonObjectValue_reads r"
| "json_reads r JSONValueT = jsonValue_reads r"

fun json_writes :: "(json_type \<Rightarrow> tl_writer) \<Rightarrow> json_type \<Rightarrow> step_case list" where
  "json_writes w JSONObjectValueT = jsonObjectValue_writes w"
| "json_writes w JSONValueT = jsonValue_writes w"

fun json_tables :: "json_type group_table" where
  "json_tables r w e k JSONObjectValueT = jsonObjectValue_fields r w e k"
| "json_tables r w e k JSONValueT = jsonValue_fields r w e k"

lemma jsonObjectValue_reads_like: "(\<And>t. like L (r t) (r' t)) \<Longrightarrow> cases_like L (jsonObjectValue_reads r) (jsonObjectValue_reads r')"
  by (simp add: jsonObjectValue_reads_def recursion_simps)

lemma jsonObjectValue_writes_like: "(\<And>t. wlike B (w t) (w' t)) \<Longrightarrow> wcases_like B (jsonObjectValue_writes w) (jsonObjectValue_writes w')"
  by (simp add: jsonObjectValue_writes_def recursion_simps)

lemma jsonObjectValue_codec:
  assumes "\<And>t. tl_codec (r t) (w t) (e t) (k t)"
  shows "tl_codec (read_object (jsonObjectValue_reads r)) (write_fobject (jsonObjectValue_writes w)) (enc_fobject (jsonObjectValue_fields r w e k)) (ok_fobject (jsonObjectValue_fields r w e k))"
  by (rule flag_schema_codec, unfold jsonObjectValue_fields_def, intro flag_tableI)
    (simp_all add: jsonObjectValue_reads_def jsonObjectValue_writes_def flag_schema_simps assms assms [THEN tl_codec.vector_codec])

lemma jsonObjectValue_fields_le:
  "(\<And>t q v. k t q v \<Longrightarrow> k' t q v \<and> e' t q v = e t q v) \<Longrightarrow> table_le (jsonObjectValue_fields r w e k) (jsonObjectValue_fields r' w' e' k')"
  by (simp add: jsonObjectValue_fields_def recursion_simps)

lemma jsonValue_reads_like: "(\<And>t. like L (r t) (r' t)) \<Longrightarrow> cases_like L (jsonValue_reads r) (jsonValue_reads r')"
  by (simp add: jsonValue_reads_def recursion_simps)

lemma jsonValue_writes_like: "(\<And>t. wlike B (w t) (w' t)) \<Longrightarrow> wcases_like B (jsonValue_writes w) (jsonValue_writes w')"
  by (simp add: jsonValue_writes_def recursion_simps)

lemma jsonValue_codec:
  assumes "\<And>t. tl_codec (r t) (w t) (e t) (k t)"
  shows "tl_codec (read_object (jsonValue_reads r)) (write_fobject (jsonValue_writes w)) (enc_fobject (jsonValue_fields r w e k)) (ok_fobject (jsonValue_fields r w e k))"
  by (rule flag_schema_codec, unfold jsonValue_fields_def, intro flag_tableI)
    (simp_all add: jsonValue_reads_def jsonValue_writes_def flag_schema_simps assms assms [THEN tl_codec.vector_codec])

lemma jsonValue_fields_le:
  "(\<And>t q v. k t q v \<Longrightarrow> k' t q v \<and> e' t q v = e t q v) \<Longrightarrow> table_le (jsonValue_fields r w e k) (jsonValue_fields r' w' e' k')"
  by (simp add: jsonValue_fields_def recursion_simps)

interpretation json: tl_recursion json_reads json_writes json_tables
proof (rule tl_recursion.intro)
  fix L and r r' :: "json_type \<Rightarrow> tl_reader" and t assume "\<And>t. like L (r t) (r' t)"
  then show "cases_like L (json_reads r t) (json_reads r' t)" by (cases t) (simp_all add: jsonObjectValue_reads_like jsonValue_reads_like)
next
  fix B and w w' :: "json_type \<Rightarrow> tl_writer" and t assume "\<And>t. wlike B (w t) (w' t)"
  then show "wcases_like B (json_writes w t) (json_writes w' t)" by (cases t) (simp_all add: jsonObjectValue_writes_like jsonValue_writes_like)
next
  fix r :: "json_type \<Rightarrow> tl_reader" and w e k t assume "\<And>t. tl_codec (r t) (w t) (e t) (k t)"
  then show "tl_codec (read_object (json_reads r t)) (write_fobject (json_writes w t)) (enc_fobject (json_tables r w e k t)) (ok_fobject (json_tables r w e k t))"
    by (cases t) (simp_all add: jsonObjectValue_codec jsonValue_codec)
next
  fix k k' :: "json_type \<Rightarrow> qtenv \<Rightarrow> variant \<Rightarrow> bool" and e e' :: "json_type \<Rightarrow> qtenv \<Rightarrow> variant \<Rightarrow> bytes" and r r' w w' t
  assume "\<And>t q v. k t q v \<Longrightarrow> k' t q v \<and> e' t q v = e t q v"
  then show "table_le (json_tables r w e k t) (json_tables r' w' e' k' t)" by (cases t) (simp_all add: jsonObjectValue_fields_le jsonValue_fields_le)
next
  show "map_of (json_reads r t) 0 = None" for r :: "json_type \<Rightarrow> tl_reader" and t
    by (cases t) (simp_all add: jsonObjectValue_reads_def jsonValue_reads_def)
  show "map_of (json_writes w t) 0 = None" for w :: "json_type \<Rightarrow> tl_writer" and t
    by (cases t) (simp_all add: jsonObjectValue_writes_def jsonValue_writes_def)
qed

definition readTLJSONObjectValue :: tl_reader where
  "readTLJSONObjectValue = read_rec json_reads JSONObjectValueT"

definition writeTLJSONObjectValue :: tl_writer where
  "writeTLJSONObjectValue = write_rec json_writes JSONObjectValueT"

definition enc_JSONObjectValue :: "qtenv \<Rightarrow> variant \<Rightarrow> bytes" where
  "enc_JSONObjectValue = enc_rec json_reads json_writes json_tables JSONObjectValueT"

definition ok_JSONObjectValue :: "qtenv \<Rightarrow> variant \<Rightarrow> bool" where
  "ok_JSONObjectValue = ok_rec json_reads json_writes json_tables JSONObjectValueT"

lemma readTLJSONObjectValue_unfold: "readTLJSONObjectValue i s = read_object (jsonObjectValue_reads (read_rec json_reads)) i s"
  using json.read_rec_unfold [of "JSONObjectValueT" i s] by (simp add: readTLJSONObjectValue_def)

lemma writeTLJSONObjectValue_unfold: "writeTLJSONObjectValue s i = write_fobject (jsonObjectValue_writes (write_rec json_writes)) s i"
  using json.write_rec_unfold [of "JSONObjectValueT" s i] by (simp add: writeTLJSONObjectValue_def)

interpretation tl_JSONObjectValue: tl_codec readTLJSONObjectValue writeTLJSONObjectValue enc_JSONObjectValue ok_JSONObjectValue
  unfolding readTLJSONObjectValue_def writeTLJSONObjectValue_def enc_JSONObjectValue_def ok_JSONObjectValue_def by (rule json.rec_codec)

definition readTLJSONValue :: tl_reader where
  "readTLJSONValue = read_rec json_reads JSONValueT"

definition writeTLJSONValue :: tl_writer where
  "writeTLJSONValue = write_rec json_writes JSONValueT"

definition enc_JSONValue :: "qtenv \<Rightarrow> variant \<Rightarrow> bytes" where
  "enc_JSONValue = enc_rec json_reads json_writes json_tables JSONValueT"

definition ok_JSONValue :: "qtenv \<Rightarrow> variant \<Rightarrow> bool" where
  "ok_JSONValue = ok_rec json_reads json_writes json_tables JSONValueT"

lemma readTLJSONValue_unfold: "readTLJSONValue i s = read_object (jsonValue_reads (read_rec json_reads)) i s"
  using json.read_rec_unfold [of "JSONValueT" i s] by (simp add: readTLJSONValue_def)

lemma writeTLJSONValue_unfold: "writeTLJSONValue s i = write_fobject (jsonValue_writes (write_rec json_writes)) s i"
  using json.write_rec_unfold [of "JSONValueT" s i] by (simp add: writeTLJSONValue_def)

interpretation tl_JSONValue: tl_codec readTLJSONValue writeTLJSONValue enc_JSONValue ok_JSONValue
  unfolding readTLJSONValue_def writeTLJSONValue_def enc_JSONValue_def ok_JSONValue_def by (rule json.rec_codec)

definition readTLInputAppEvent :: tl_reader where
  "readTLInputAppEvent = read_object
     [(488313413, [rd ''time'' readDouble, rd ''type'' readString, rd ''peer'' readInt64,
         rd ''data'' readTLJSONValue])]"

definition writeTLInputAppEvent :: tl_writer where
  "writeTLInputAppEvent = write_fobject
     [(488313413, [wf ''_'' writeInt32, wf ''time'' writeDouble, wf ''type'' writeString,
         wf ''peer'' writeInt64, wf ''data'' writeTLJSONValue])]"

definition TL_InputAppEvent_table :: flag_table where
  "TL_InputAppEvent_table =
     [(488313413, [Plain (''time'', readDouble, writeDouble, enc_double, is_VDouble),
        Plain (''type'', readString, writeString, enc_string, is_short_text),
        Plain (''peer'', readInt64, writeInt64, enc_int64, is_VLong),
        Plain (''data'', readTLJSONValue, writeTLJSONValue, enc_JSONValue, ok_JSONValue)])]"

interpretation tl_InputAppEvent: tl_codec readTLInputAppEvent writeTLInputAppEvent "enc_fobject TL_InputAppEvent_table" "ok_fobject TL_InputAppEvent_table"
  by (rule flag_schema_codec, unfold TL_InputAppEvent_table_def, intro flag_tableI)
    (simp_all add: readTLInputAppEvent_def writeTLInputAppEvent_def flag_schema_simps tl_JSONValue.tl_codec_axioms)

definition readTLAccountWallPapers :: tl_reader where
  "readTLAccountWallPapers = read_object
     [(471437699, []),
      (- 842824308, [rd ''hash'' readInt64,
         rd ''wallpapers'' (readVector (Some readTLWallPaper))])]"

definition writeTLAccountWallPapers :: tl_writer where
  "writeTLAccountWallPapers = write_fobject
     [(471437699, [wf ''_'' writeInt32]),
      (- 842824308, [wf ''_'' writeInt32, wf ''hash'' writeInt64,
         wf ''wallpapers'' (writeVector (Some writeTLWallPaper))])]"

definition TL_AccountWallPapers_table :: flag_table where
  "TL_AccountWallPapers_table =
     [(471437699, []),
      (- 842824308, [Plain (''hash'', readInt64, writeInt64, enc_int64, is_VLong),
        Plain (''wallpapers'', readVector (Some readTLWallPaper),
         writeVector (Some writeTLWallPaper), enc_vector (enc_fobject TL_WallPaper_table),
         ok_vector (ok_fobject TL_WallPaper_table))])]"

interpretation tl_AccountWallPapers: tl_codec readTLAccountWallPapers writeTLAccountWallPapers "enc_fobject TL_AccountWallPapers_table" "ok_fobject TL_AccountWallPapers_table"
  by (rule flag_schema_codec, unfold TL_AccountWallPapers_table_def, intro flag_tableI)
    (simp_all add: readTLAccountWallPapers_def writeTLAccountWallPapers_def flag_schema_simps tl_WallPaper.tl_codec_axioms tl_WallPaper.vector_codec)

definition readTLAccountThemes :: tl_reader where
  "readTLAccountThemes = read_object
     [(- 199313886, []),
      (- 1707242387, [rd ''hash'' readInt64, rd ''themes'' (readVector (Some readTLTheme))])]"

definition writeTLAccountThemes :: tl_writer where
  "writeTLAccountThemes = write_fobject
     [(- 199313886, [wf ''_'' writeInt32]),
      (- 1707242387, [wf ''_'' writeInt32, wf ''hash'' writeInt64,
         wf ''themes'' (writeVector (Some writeTLTheme))])]"

definition TL_AccountThemes_table :: flag_table where
  "TL_AccountThemes_table =
     [(- 199313886, []),
      (- 1707242387, [Plain (''hash'', readInt64, writeInt64, enc_int64, is_VLong),
        Plain (''themes'', readVector (Some readTLTheme), writeVector (Some writeTLTheme),
         enc_vector (enc_fobject TL_Theme_table), ok_vector (ok_fobject TL_Theme_table))])]"

interpretation tl_AccountThemes: tl_codec readTLAccountThemes writeTLAccountThemes "enc_fobject TL_AccountThemes_table" "ok_fobject TL_AccountThemes_table"
  by (rule flag_schema_codec, unfold TL_AccountThemes_table_def, intro flag_tableI)
    (simp_all add: readTLAccountThemes_def writeTLAccountThemes_def flag_schema_simps tl_Theme.tl_codec_axioms tl_Theme.vector_codec)

definition readTLStatsAbsValueAndPrev :: tl_reader where
  "readTLStatsAbsValueAndPrev = read_object
     [(- 884757282, [rd ''current'' readDouble, rd ''previous'' readDouble])]"

definition writeTLStatsAbsValueAndPrev :: tl_writer where
  "writeTLStatsAbsValueAndPrev = write_fobject
     [(- 884757282, [wf ''_'' writeInt32, wf ''current'' writeDouble,
         wf ''previous'' writeDouble])]"

definition TL_StatsAbsValueAndPrev_table :: flag_table where
  "TL_StatsAbsValueAndPrev_table =
     [(- 884757282, [Plain (''current'', readDouble, writeDouble, enc_double, is_VDouble),
        Plain (''previous'', readDouble, writeDouble, enc_double, is_VDouble)])]"

interpretation tl_StatsAbsValueAndPrev: tl_codec readTLStatsAbsValueAndPrev writeTLStatsAbsValueAndPrev "enc_fobject TL_StatsAbsValueAndPrev_table" "ok_fobject TL_StatsAbsValueAndPrev_table"
  by (rule flag_schema_codec, unfold TL_StatsAbsValueAndPrev_table_def, intro flag_tableI)
    (simp_all add: readTLStatsAbsValueAndPrev_def writeTLStatsAbsValueAndPrev_def flag_schema_simps)

definition readTLStatsPercentValue :: tl_reader where
  "readTLStatsPercentValue = read_object
     [(- 875679776, [rd ''part'' readDouble, rd ''total'' readDouble])]"

definition writeTLStatsPercentValue :: tl_writer where
  "writeTLStatsPercentValue = write_fobject
     [(- 875679776, [wf ''_'' writeInt32, wf ''part'' writeDouble, wf ''total'' writeDouble])]"

definition TL_StatsPercentValue_table :: flag_table where
  "TL_StatsPercentValue_table =
     [(- 875679776, [Plain (''part'', readDouble, writeDouble, enc_double, is_VDouble),
        Plain (''total'', readDouble, writeDouble, enc_double, is_VDouble)])]"

interpretation tl_StatsPercentValue: tl_codec readTLStatsPercentValue writeTLStatsPercentValue "enc_fobject TL_StatsPercentValue_table" "ok_fobject TL_StatsPercentValue_table"
  by (rule flag_schema_codec, unfold TL_StatsPercentValue_table_def, intro flag_tableI)
    (simp_all add: readTLStatsPercentValue_def writeTLStatsPercentValue_def flag_schema_simps)

definition readTLStatsBroadcastStats :: tl_reader where
  "readTLStatsBroadcastStats = read_object
     [(963421692, [rd ''period'' readTLStatsDateRangeDays,
         rd ''followers'' readTLStatsAbsValueAndPrev,
         rd ''views_per_post'' readTLStatsAbsValueAndPrev,
         rd ''shares_per_post'' readTLStatsAbsValueAndPrev,
         rd ''reactions_per_post'' readTLStatsAbsValueAndPrev,
         rd ''views_per_story'' readTLStatsAbsValueAndPrev,
         rd ''shares_per_story'' readTLStatsAbsValueAndPrev,
         rd ''reactions_per_story'' readTLStatsAbsValueAndPrev,
         rd ''enabled_notifications'' readTLStatsPercentValue,
         rd ''growth_graph'' readTLStatsGraph, rd ''followers_graph'' readTLStatsGraph,
         rd ''mute_graph'' readTLStatsGraph, rd ''top_hours_graph'' readTLStatsGraph,
         rd ''interactions_graph'' readTLStatsGraph, rd ''iv_interactions_graph'' readTLStatsGraph,
         rd ''views_by_source_graph'' readTLStatsGraph,
         rd ''new_followers_by_source_graph'' readTLStatsGraph,
         rd ''languages_graph'' readTLStatsGraph,
         rd ''reactions_by_emotion_graph'' readTLStatsGraph,
         rd ''story_interactions_graph'' readTLStatsGraph,
         rd ''story_reactions_by_emotion_graph'' readTLStatsGraph,
         rd ''recent_posts_interactions'' (readVector (Some readTLPostInteractionCounters))])]"

definition writeTLStatsBroadcastStats :: tl_writer where
  "writeTLStatsBroadcastStats = write_fobject
     [(963421692, [wf ''_'' writeInt32, wf ''period'' writeTLStatsDateRangeDays,
         wf ''followers'' writeTLStatsAbsValueAndPrev,
         wf ''views_per_post'' writeTLStatsAbsValueAndPrev,
         wf ''shares_per_post'' writeTLStatsAbsValueAndPrev,
         wf ''reactions_per_post'' writeTLStatsAbsValueAndPrev,
         wf ''views_per_story'' writeTLStatsAbsValueAndPrev,
         wf ''shares_per_story'' writeTLStatsAbsValueAndPrev,
         wf ''reactions_per_story'' writeTLStatsAbsValueAndPrev,
         wf ''enabled_notifications'' writeTLStatsPercentValue,
         wf ''growth_graph'' writeTLStatsGraph, wf ''followers_graph'' writeTLStatsGraph,
         wf ''mute_graph'' writeTLStatsGraph, wf ''top_hours_graph'' writeTLStatsGraph,
         wf ''interactions_graph'' writeTLStatsGraph,
         wf ''iv_interactions_graph'' writeTLStatsGraph,
         wf ''views_by_source_graph'' writeTLStatsGraph,
         wf ''new_followers_by_source_graph'' writeTLStatsGraph,
         wf ''languages_graph'' writeTLStatsGraph,
         wf ''reactions_by_emotion_graph'' writeTLStatsGraph,
         wf ''story_interactions_graph'' writeTLStatsGraph,
         wf ''story_reactions_by_emotion_graph'' writeTLStatsGraph,
         wf ''recent_posts_interactions'' (writeVector (Some writeTLPostInteractionCounters))])]"

definition TL_StatsBroadcastStats_table :: flag_table where
  "TL_StatsBroadcastStats_table =
     [(963421692, [Plain (''period'', readTLStatsDateRangeDays, writeTLStatsDateRangeDays,
         enc_fobject TL_StatsDateRangeDays_table, ok_fobject TL_StatsDateRangeDays_table),
        Plain (''followers'', readTLStatsAbsValueAndPrev, writeTLStatsAbsValueAndPrev,
         enc_fobject TL_StatsAbsValueAndPrev_table, ok_fobject TL_StatsAbsValueAndPrev_table),
        Plain (''views_per_post'', readTLStatsAbsValueAndPrev, writeTLStatsAbsValueAndPrev,
         enc_fobject TL_StatsAbsValueAndPrev_table, ok_fobject TL_StatsAbsValueAndPrev_table),
        Plain (''shares_per_post'', readTLStatsAbsValueAndPrev, writeTLStatsAbsValueAndPrev,
         enc_fobject TL_StatsAbsValueAndPrev_table, ok_fobject TL_StatsAbsValueAndPrev_table),
        Plain (''reactions_per_post'', readTLStatsAbsValueAndPrev, writeTLStatsAbsValueAndPrev,
         enc_fobject TL_StatsAbsValueAndPrev_table, ok_fobject TL_StatsAbsValueAndPrev_table),
        Plain (''views_per_story'', readTLStatsAbsValueAndPrev, writeTLStatsAbsValueAndPrev,
         enc_fobject TL_StatsAbsValueAndPrev_table, ok_fobject TL_StatsAbsValueAndPrev_table),
        Plain (''shares_per_story'', readTLStatsAbsValueAndPrev, writeTLStatsAbsValueAndPrev,
         enc_fobject TL_StatsAbsValueAndPrev_table, ok_fobject TL_StatsAbsValueAndPrev_table),
        Plain (''reactions_per_story'', readTLStatsAbsValueAndPrev, writeTLStatsAbsValueAndPrev,
         enc_fobject TL_StatsAbsValueAndPrev_table, ok_fobject TL_StatsAbsValueAndPrev_table),
        Plain (''enabled_notifications'', readTLStatsPercentValue, writeTLStatsPercentValue,
         enc_fobject TL_StatsPercentValue_table, ok_fobject TL_StatsPercentValue_table),
        Plain (''growth_graph'', readTLStatsGraph, writeTLStatsGraph,
         enc_fobject TL_StatsGraph_table, ok_fobject TL_StatsGraph_table),
        Plain (''followers_graph'', readTLStatsGraph, writeTLStatsGraph,
         enc_fobject TL_StatsGraph_table, ok_fobject TL_StatsGraph_table),
        Plain (''mute_graph'', readTLStatsGraph, writeTLStatsGraph,
         enc_fobject TL_StatsGraph_table, ok_fobject TL_StatsGraph_table),
        Plain (''top_hours_graph'', readTLStatsGraph, writeTLStatsGraph,
         enc_fobject TL_StatsGraph_table, ok_fobject TL_StatsGraph_table),
        Plain (''interactions_graph'', readTLStatsGraph, writeTLStatsGraph,
         enc_fobject TL_StatsGraph_table, ok_fobject TL_StatsGraph_table),
        Plain (''iv_interactions_graph'', readTLStatsGraph, writeTLStatsGraph,
         enc_fobject TL_StatsGraph_table, ok_fobject TL_StatsGraph_table),
        Plain (''views_by_source_graph'', readTLStatsGraph, writeTLStatsGraph,
         enc_fobject TL_StatsGraph_table, ok_fobject TL_StatsGraph_table),
        Plain (''new_followers_by_source_graph'', readTLStatsGraph, writeTLStatsGraph,
         enc_fobject TL_StatsGraph_table, ok_fobject TL_StatsGraph_table),
        Plain (''languages_graph'', readTLStatsGraph, writeTLStatsGraph,
         enc_fobject TL_StatsGraph_table, ok_fobject TL_StatsGraph_table),
        Plain (''reactions_by_emotion_graph'', readTLStatsGraph, writeTLStatsGraph,
         enc_fobject TL_StatsGraph_table, ok_fobject TL_StatsGraph_table),
        Plain (''story_interactions_graph'', readTLStatsGraph, writeTLStatsGraph,
         enc_fobject TL_StatsGraph_table, ok_fobject TL_StatsGraph_table),
        Plain (''story_reactions_by_emotion_graph'', readTLStatsGraph, writeTLStatsGraph,
         enc_fobject TL_StatsGraph_table, ok_fobject TL_StatsGraph_table),
        Plain (''recent_posts_interactions'', readVector (Some readTLPostInteractionCounters),
         writeVector (Some writeTLPostInteractionCounters),
         enc_vector (enc_fobject TL_PostInteractionCounters_table),
         ok_vector (ok_fobject TL_PostInteractionCounters_table))])]"

interpretation tl_StatsBroadcastStats: tl_codec readTLStatsBroadcastStats writeTLStatsBroadcastStats "enc_fobject TL_StatsBroadcastStats_table" "ok_fobject TL_StatsBroadcastStats_table"
  by (rule flag_schema_codec, unfold TL_StatsBroadcastStats_table_def, intro flag_tableI)
    (simp_all add: readTLStatsBroadcastStats_def writeTLStatsBroadcastStats_def flag_schema_simps tl_StatsDateRangeDays.tl_codec_axioms tl_StatsAbsValueAndPrev.tl_codec_axioms
      tl_StatsPercentValue.tl_codec_axioms tl_StatsGraph.tl_codec_axioms
      tl_PostInteractionCounters.tl_codec_axioms tl_PostInteractionCounters.vector_codec)

definition readTLStatsMegagroupStats :: tl_reader where
  "readTLStatsMegagroupStats = read_object
     [(- 276825834, [rd ''period'' readTLStatsDateRangeDays,
         rd ''members'' readTLStatsAbsValueAndPrev, rd ''messages'' readTLStatsAbsValueAndPrev,
         rd ''viewers'' readTLStatsAbsValueAndPrev, rd ''posters'' readTLStatsAbsValueAndPrev,
         rd ''growth_graph'' readTLStatsGraph, rd ''members_graph'' readTLStatsGraph,
         rd ''new_members_by_source_graph'' readTLStatsGraph,
         rd ''languages_graph'' readTLStatsGraph, rd ''messages_graph'' readTLStatsGraph,
         rd ''actions_graph'' readTLStatsGraph, rd ''top_hours_graph'' readTLStatsGraph,
         rd ''weekdays_graph'' readTLStatsGraph,
         rd ''top_posters'' (readVector (Some readTLStatsGroupTopPoster)),
         rd ''top_admins'' (readVector (Some readTLStatsGroupTopAdmin)),
         rd ''top_inviters'' (readVector (Some readTLStatsGroupTopInviter)),
         rd ''users'' (readVector (Some readTLUser))])]"

definition writeTLStatsMegagroupStats :: tl_writer where
  "writeTLStatsMegagroupStats = write_fobject
     [(- 276825834, [wf ''_'' writeInt32, wf ''period'' writeTLStatsDateRangeDays,
         wf ''members'' writeTLStatsAbsValueAndPrev, wf ''messages'' writeTLStatsAbsValueAndPrev,
         wf ''viewers'' writeTLStatsAbsValueAndPrev, wf ''posters'' writeTLStatsAbsValueAndPrev,
         wf ''growth_graph'' writeTLStatsGraph, wf ''members_graph'' writeTLStatsGraph,
         wf ''new_members_by_source_graph'' writeTLStatsGraph,
         wf ''languages_graph'' writeTLStatsGraph, wf ''messages_graph'' writeTLStatsGraph,
         wf ''actions_graph'' writeTLStatsGraph, wf ''top_hours_graph'' writeTLStatsGraph,
         wf ''weekdays_graph'' writeTLStatsGraph,
         wf ''top_posters'' (writeVector (Some writeTLStatsGroupTopPoster)),
         wf ''top_admins'' (writeVector (Some writeTLStatsGroupTopAdmin)),
         wf ''top_inviters'' (writeVector (Some writeTLStatsGroupTopInviter)),
         wf ''users'' (writeVector (Some writeTLUser))])]"

definition TL_StatsMegagroupStats_table :: flag_table where
  "TL_StatsMegagroupStats_table =
     [(- 276825834, [Plain (''period'', readTLStatsDateRangeDays, writeTLStatsDateRangeDays,
         enc_fobject TL_StatsDateRangeDays_table, ok_fobject TL_StatsDateRangeDays_table),
        Plain (''members'', readTLStatsAbsValueAndPrev, writeTLStatsAbsValueAndPrev,
         enc_fobject TL_StatsAbsValueAndPrev_table, ok_fobject TL_StatsAbsValueAndPrev_table),
        Plain (''messages'', readTLStatsAbsValueAndPrev, writeTLStatsAbsValueAndPrev,
         enc_fobject TL_StatsAbsValueAndPrev_table, ok_fobject TL_StatsAbsValueAndPrev_table),
        Plain (''viewers'', readTLStatsAbsValueAndPrev, writeTLStatsAbsValueAndPrev,
         enc_fobject TL_StatsAbsValueAndPrev_table, ok_fobject TL_StatsAbsValueAndPrev_table),
        Plain (''posters'', readTLStatsAbsValueAndPrev, writeTLStatsAbsValueAndPrev,
         enc_fobject TL_StatsAbsValueAndPrev_table, ok_fobject TL_StatsAbsValueAndPrev_table),
        Plain (''growth_graph'', readTLStatsGraph, writeTLStatsGraph,
         enc_fobject TL_StatsGraph_table, ok_fobject TL_StatsGraph_table),
        Plain (''members_graph'', readTLStatsGraph, writeTLStatsGraph,
         enc_fobject TL_StatsGraph_table, ok_fobject TL_StatsGraph_table),
        Plain (''new_members_by_source_graph'', readTLStatsGraph, writeTLStatsGraph,
         enc_fobject TL_StatsGraph_table, ok_fobject TL_StatsGraph_table),
        Plain (''languages_graph'', readTLStatsGraph, writeTLStatsGraph,
         enc_fobject TL_StatsGraph_table, ok_fobject TL_StatsGraph_table),
        Plain (''messages_graph'', readTLStatsGraph, writeTLStatsGraph,
         enc_fobject TL_StatsGraph_table, ok_fobject TL_StatsGraph_table),
        Plain (''actions_graph'', readTLStatsGraph, writeTLStatsGraph,
         enc_fobject TL_StatsGraph_table, ok_fobject TL_StatsGraph_table),
        Plain (''top_hours_graph'', readTLStatsGraph, writeTLStatsGraph,
         enc_fobject TL_StatsGraph_table, ok_fobject TL_StatsGraph_table),
        Plain (''weekdays_graph'', readTLStatsGraph, writeTLStatsGraph,
         enc_fobject TL_StatsGraph_table, ok_fobject TL_StatsGraph_table),
        Plain (''top_posters'', readVector (Some readTLStatsGroupTopPoster),
         writeVector (Some writeTLStatsGroupTopPoster),
         enc_vector (enc_fobject TL_StatsGroupTopPoster_table),
         ok_vector (ok_fobject TL_StatsGroupTopPoster_table)),
        Plain (''top_admins'', readVector (Some readTLStatsGroupTopAdmin),
         writeVector (Some writeTLStatsGroupTopAdmin),
         enc_vector (enc_fobject TL_StatsGroupTopAdmin_table),
         ok_vector (ok_fobject TL_StatsGroupTopAdmin_table)),
        Plain (''top_inviters'', readVector (Some readTLStatsGroupTopInviter),
         writeVector (Some writeTLStatsGroupTopInviter),
         enc_vector (enc_fobject TL_StatsGroupTopInviter_table),
         ok_vector (ok_fobject TL_StatsGroupTopInviter_table)),
        Plain (''users'', readVector (Some readTLUser), writeVector (Some writeTLUser),
         enc_vector (enc_fobject TL_User_table), ok_vector (ok_fobject TL_User_table))])]"

interpretation tl_StatsMegagroupStats: tl_codec readTLStatsMegagroupStats writeTLStatsMegagroupStats "enc_fobject TL_StatsMegagroupStats_table" "ok_fobject TL_StatsMegagroupStats_table"
  by (rule flag_schema_codec, unfold TL_StatsMegagroupStats_table_def, intro flag_tableI)
    (simp_all add: readTLStatsMegagroupStats_def writeTLStatsMegagroupStats_def flag_schema_simps tl_StatsDateRangeDays.tl_codec_axioms tl_StatsAbsValueAndPrev.tl_codec_axioms
      tl_StatsGraph.tl_codec_axioms tl_StatsGroupTopPoster.tl_codec_axioms
      tl_StatsGroupTopAdmin.tl_codec_axioms tl_StatsGroupTopInviter.tl_codec_axioms
      tl_User.tl_codec_axioms tl_StatsGroupTopPoster.vector_codec tl_StatsGroupTopAdmin.vector_codec
      tl_StatsGroupTopInviter.vector_codec tl_User.vector_codec)

definition readTLMessagesDiscussionMessage :: tl_reader where
  "readTLMessagesDiscussionMessage = read_object
     [(- 1506535550, [rd ''flags'' readUInt32, rd ''messages'' (readVector (Some readTLMessage)),
         rd_if ''flags'' 0 ''max_id'' readInt32, rd_if ''flags'' 1 ''read_inbox_max_id'' readInt32,
         rd_if ''flags'' 2 ''read_outbox_max_id'' readInt32, rd ''unread_count'' readInt32,
         rd ''chats'' (readVector (Some readTLChat)),
         rd ''users'' (readVector (Some readTLUser))])]"

definition writeTLMessagesDiscussionMessage :: tl_writer where
  "writeTLMessagesDiscussionMessage = write_fobject
     [(- 1506535550, [wf ''_'' writeInt32, wf_flags ''flags'' [(''max_id'', 0),
         (''read_inbox_max_id'', 1), (''read_outbox_max_id'', 2)],
         wf ''messages'' (writeVector (Some writeTLMessage)),
         wf_if ''flags'' 0 ''max_id'' writeInt32,
         wf_if ''flags'' 1 ''read_inbox_max_id'' writeInt32,
         wf_if ''flags'' 2 ''read_outbox_max_id'' writeInt32, wf ''unread_count'' writeInt32,
         wf ''chats'' (writeVector (Some writeTLChat)),
         wf ''users'' (writeVector (Some writeTLUser))])]"

definition TL_MessagesDiscussionMessage_table :: flag_table where
  "TL_MessagesDiscussionMessage_table =
     [(- 1506535550, [Flags ''flags'' [(''max_id'', 0), (''read_inbox_max_id'', 1),
         (''read_outbox_max_id'', 2)],
        Plain (''messages'', readVector (Some readTLMessage), writeVector (Some writeTLMessage),
         enc_vector (enc_fobject TL_Message_table), ok_vector (ok_fobject TL_Message_table)),
        Cond ''flags'' 0 (''max_id'', readInt32, writeInt32, enc_int32, is_VInt),
        Cond ''flags'' 1 (''read_inbox_max_id'', readInt32, writeInt32, enc_int32, is_VInt),
        Cond ''flags'' 2 (''read_outbox_max_id'', readInt32, writeInt32, enc_int32, is_VInt),
        Plain (''unread_count'', readInt32, writeInt32, enc_int32, is_VInt),
        Plain (''chats'', readVector (Some readTLChat), writeVector (Some writeTLChat),
         enc_vector (enc_fobject TL_Chat_table), ok_vector (ok_fobject TL_Chat_table)),
        Plain (''users'', readVector (Some readTLUser), writeVector (Some writeTLUser),
         enc_vector (enc_fobject TL_User_table), ok_vector (ok_fobject TL_User_table))])]"

interpretation tl_MessagesDiscussionMessage: tl_codec readTLMessagesDiscussionMessage writeTLMessagesDiscussionMessage "enc_fobject TL_MessagesDiscussionMessage_table" "ok_fobject TL_MessagesDiscussionMessage_table"
  by (rule flag_schema_codec, unfold TL_MessagesDiscussionMessage_table_def, intro flag_tableI)
    (simp_all add: readTLMessagesDiscussionMessage_def writeTLMessagesDiscussionMessage_def flag_schema_simps tl_Message.tl_codec_axioms tl_Chat.tl_codec_axioms tl_User.tl_codec_axioms tl_Message.vector_codec
      tl_Chat.vector_codec tl_User.vector_codec)

definition readTLAccountChatThemes :: tl_reader where
  "readTLAccountChatThemes = read_object
     [(- 535699004, []),
      (- 1106673293, [rd ''flags'' readUInt32, rd ''hash'' readInt64,
         rd ''themes'' (readVector (Some readTLChatTheme)),
         rd ''chats'' (readVector (Some readTLChat)), rd ''users'' (readVector (Some readTLUser)),
         rd_if ''flags'' 0 ''next_offset'' readString])]"

definition writeTLAccountChatThemes :: tl_writer where
  "writeTLAccountChatThemes = write_fobject
     [(- 535699004, [wf ''_'' writeInt32]),
      (- 1106673293, [wf ''_'' writeInt32, wf_flags ''flags'' [(''next_offset'', 0)],
         wf ''hash'' writeInt64, wf ''themes'' (writeVector (Some writeTLChatTheme)),
         wf ''chats'' (writeVector (Some writeTLChat)),
         wf ''users'' (writeVector (Some writeTLUser)),
         wf_if ''flags'' 0 ''next_offset'' writeString])]"

definition TL_AccountChatThemes_table :: flag_table where
  "TL_AccountChatThemes_table =
     [(- 535699004, []),
      (- 1106673293, [Flags ''flags'' [(''next_offset'', 0)],
        Plain (''hash'', readInt64, writeInt64, enc_int64, is_VLong),
        Plain (''themes'', readVector (Some readTLChatTheme), writeVector (Some writeTLChatTheme),
         enc_vector (enc_fobject TL_ChatTheme_table), ok_vector (ok_fobject TL_ChatTheme_table)),
        Plain (''chats'', readVector (Some readTLChat), writeVector (Some writeTLChat),
         enc_vector (enc_fobject TL_Chat_table), ok_vector (ok_fobject TL_Chat_table)),
        Plain (''users'', readVector (Some readTLUser), writeVector (Some writeTLUser),
         enc_vector (enc_fobject TL_User_table), ok_vector (ok_fobject TL_User_table)),
        Cond ''flags'' 0 (''next_offset'', readString, writeString, enc_string, is_short_text)])]"

interpretation tl_AccountChatThemes: tl_codec readTLAccountChatThemes writeTLAccountChatThemes "enc_fobject TL_AccountChatThemes_table" "ok_fobject TL_AccountChatThemes_table"
  by (rule flag_schema_codec, unfold TL_AccountChatThemes_table_def, intro flag_tableI)
    (simp_all add: readTLAccountChatThemes_def writeTLAccountChatThemes_def flag_schema_simps tl_ChatTheme.tl_codec_axioms tl_Chat.tl_codec_axioms tl_User.tl_codec_axioms
      tl_ChatTheme.vector_codec tl_Chat.vector_codec tl_User.vector_codec)

definition readTLSponsoredMessage :: tl_reader where
  "readTLSponsoredMessage = read_object
     [(2109703795, [rd ''flags'' readUInt32, set_if ''flags'' 5 ''recommended'',
         set_if ''flags'' 12 ''can_report'', rd ''random_id'' readByteArray, rd ''url'' readString,
         rd ''title'' readString, rd ''message'' readString,
         rd_if ''flags'' 1 ''entities'' (readVector (Some readTLMessageEntity)),
         rd_if ''flags'' 6 ''photo'' readTLPhoto, rd_if ''flags'' 14 ''media'' readTLMessageMedia,
         rd_if ''flags'' 13 ''color'' readTLPeerColor, rd ''button_text'' readString,
         rd_if ''flags'' 7 ''sponsor_info'' readString,
         rd_if ''flags'' 8 ''additional_info'' readString,
         rd_if ''flags'' 15 ''min_display_duration'' readInt32,
         rd_if ''flags'' 15 ''max_display_duration'' readInt32])]"

definition writeTLSponsoredMessage :: tl_writer where
  "writeTLSponsoredMessage = write_fobject
     [(2109703795, [wf ''_'' writeInt32, wf_flags ''flags'' [(''recommended'', 5), (''can_report'',
         12), (''entities'', 1), (''photo'', 6), (''media'', 14), (''color'', 13),
         (''sponsor_info'', 7), (''additional_info'', 8), (''min_display_duration'', 15),
         (''max_display_duration'', 15)], wf ''random_id'' writeByteArray, wf ''url'' writeString,
         wf ''title'' writeString, wf ''message'' writeString,
         wf_if ''flags'' 1 ''entities'' (writeVector (Some writeTLMessageEntity)),
         wf_if ''flags'' 6 ''photo'' writeTLPhoto,
         wf_if ''flags'' 14 ''media'' writeTLMessageMedia,
         wf_if ''flags'' 13 ''color'' writeTLPeerColor, wf ''button_text'' writeString,
         wf_if ''flags'' 7 ''sponsor_info'' writeString,
         wf_if ''flags'' 8 ''additional_info'' writeString,
         wf_if ''flags'' 15 ''min_display_duration'' writeInt32,
         wf_if ''flags'' 15 ''max_display_duration'' writeInt32])]"

definition TL_SponsoredMessage_table :: flag_table where
  "TL_SponsoredMessage_table =
     [(2109703795, [Flags ''flags'' [(''recommended'', 5), (''can_report'', 12), (''entities'', 1),
         (''photo'', 6), (''media'', 14), (''color'', 13), (''sponsor_info'', 7),
         (''additional_info'', 8), (''min_display_duration'', 15), (''max_display_duration'', 15)],
        TrueBit ''flags'' 5 ''recommended'',
        TrueBit ''flags'' 12 ''can_report'',
        Plain (''random_id'', readByteArray, writeByteArray, enc_bytes, is_short_bytes),
        Plain (''url'', readString, writeString, enc_string, is_short_text),
        Plain (''title'', readString, writeString, enc_string, is_short_text),
        Plain (''message'', readString, writeString, enc_string, is_short_text),
        Cond ''flags'' 1 (''entities'', readVector (Some readTLMessageEntity),
         writeVector (Some writeTLMessageEntity), enc_vector (enc_fobject TL_MessageEntity_table),
         ok_vector (ok_fobject TL_MessageEntity_table)),
        Cond ''flags'' 6 (''photo'', readTLPhoto, writeTLPhoto, enc_fobject TL_Photo_table,
         ok_fobject TL_Photo_table),
        Cond ''flags'' 14 (''media'', readTLMessageMedia, writeTLMessageMedia, enc_MessageMedia,
         ok_MessageMedia),
        Cond ''flags'' 13 (''color'', readTLPeerColor, writeTLPeerColor,
         enc_fobject TL_PeerColor_table, ok_fobject TL_PeerColor_table),
        Plain (''button_text'', readString, writeString, enc_string, is_short_text),
        Cond ''flags'' 7 (''sponsor_info'', readString, writeString, enc_string, is_short_text),
        Cond ''flags'' 8 (''additional_info'', readString, writeString, enc_string, is_short_text),
        Cond ''flags'' 15 (''min_display_duration'', readInt32, writeInt32, enc_int32, is_VInt),
        Cond ''flags'' 15 (''max_display_duration'', readInt32, writeInt32, enc_int32, is_VInt)])]"

interpretation tl_SponsoredMessage: tl_codec readTLSponsoredMessage writeTLSponsoredMessage "enc_fobject TL_SponsoredMessage_table" "ok_fobject TL_SponsoredMessage_table"
  by (rule flag_schema_codec, unfold TL_SponsoredMessage_table_def, intro flag_tableI)
    (simp_all add: readTLSponsoredMessage_def writeTLSponsoredMessage_def flag_schema_simps tl_MessageEntity.tl_codec_axioms tl_Photo.tl_codec_axioms tl_MessageMedia.tl_codec_axioms
      tl_PeerColor.tl_codec_axioms tl_MessageEntity.vector_codec)

definition readTLMessagesSponsoredMessages :: tl_reader where
  "readTLMessagesSponsoredMessages = read_object
     [(- 2464403, [rd ''flags'' readUInt32, rd_if ''flags'' 0 ''posts_between'' readInt32,
         rd_if ''flags'' 1 ''start_delay'' readInt32,
         rd_if ''flags'' 2 ''between_delay'' readInt32,
         rd ''messages'' (readVector (Some readTLSponsoredMessage)),
         rd ''chats'' (readVector (Some readTLChat)), rd ''users'' (readVector (Some readTLUser))]),
      (406407439, [])]"

definition writeTLMessagesSponsoredMessages :: tl_writer where
  "writeTLMessagesSponsoredMessages = write_fobject
     [(- 2464403, [wf ''_'' writeInt32, wf_flags ''flags'' [(''posts_between'', 0),
         (''start_delay'', 1), (''between_delay'', 2)],
         wf_if ''flags'' 0 ''posts_between'' writeInt32,
         wf_if ''flags'' 1 ''start_delay'' writeInt32,
         wf_if ''flags'' 2 ''between_delay'' writeInt32,
         wf ''messages'' (writeVector (Some writeTLSponsoredMessage)),
         wf ''chats'' (writeVector (Some writeTLChat)),
         wf ''users'' (writeVector (Some writeTLUser))]),
      (406407439, [wf ''_'' writeInt32])]"

definition TL_MessagesSponsoredMessages_table :: flag_table where
  "TL_MessagesSponsoredMessages_table =
     [(- 2464403, [Flags ''flags'' [(''posts_between'', 0), (''start_delay'', 1),
         (''between_delay'', 2)],
        Cond ''flags'' 0 (''posts_between'', readInt32, writeInt32, enc_int32, is_VInt),
        Cond ''flags'' 1 (''start_delay'', readInt32, writeInt32, enc_int32, is_VInt),
        Cond ''flags'' 2 (''between_delay'', readInt32, writeInt32, enc_int32, is_VInt),
        Plain (''messages'', readVector (Some readTLSponsoredMessage),
         writeVector (Some writeTLSponsoredMessage),
         enc_vector (enc_fobject TL_SponsoredMessage_table),
         ok_vector (ok_fobject TL_SponsoredMessage_table)),
        Plain (''chats'', readVector (Some readTLChat), writeVector (Some writeTLChat),
         enc_vector (enc_fobject TL_Chat_table), ok_vector (ok_fobject TL_Chat_table)),
        Plain (''users'', readVector (Some readTLUser), writeVector (Some writeTLUser),
         enc_vector (enc_fobject TL_User_table), ok_vector (ok_fobject TL_User_table))]),
      (406407439, [])]"

interpretation tl_MessagesSponsoredMessages: tl_codec readTLMessagesSponsoredMessages writeTLMessagesSponsoredMessages "enc_fobject TL_MessagesSponsoredMessages_table" "ok_fobject TL_MessagesSponsoredMessages_table"
  by (rule flag_schema_codec, unfold TL_MessagesSponsoredMessages_table_def, intro flag_tableI)
    (simp_all add: readTLMessagesSponsoredMessages_def writeTLMessagesSponsoredMessages_def flag_schema_simps tl_SponsoredMessage.tl_codec_axioms tl_Chat.tl_codec_axioms tl_User.tl_codec_axioms
      tl_SponsoredMessage.vector_codec tl_Chat.vector_codec tl_User.vector_codec)

definition readTLMessagesSearchResultsCalendar :: tl_reader where
  "readTLMessagesSearchResultsCalendar = read_object
     [(343859772, [rd ''flags'' readUInt32, set_if ''flags'' 0 ''inexact'', rd ''count'' readInt32,
         rd ''min_date'' readInt32, rd ''min_msg_id'' readInt32,
         rd_if ''flags'' 1 ''offset_id_offset'' readInt32,
         rd ''periods'' (readVector (Some readTLSearchResultsCalendarPeriod)),
         rd ''messages'' (readVector (Some readTLMessage)),
         rd ''chats'' (readVector (Some readTLChat)),
         rd ''users'' (readVector (Some readTLUser))])]"

definition writeTLMessagesSearchResultsCalendar :: tl_writer where
  "writeTLMessagesSearchResultsCalendar = write_fobject
     [(343859772, [wf ''_'' writeInt32, wf_flags ''flags'' [(''inexact'', 0),
         (''offset_id_offset'', 1)], wf ''count'' writeInt32, wf ''min_date'' writeInt32,
         wf ''min_msg_id'' writeInt32, wf_if ''flags'' 1 ''offset_id_offset'' writeInt32,
         wf ''periods'' (writeVector (Some writeTLSearchResultsCalendarPeriod)),
         wf ''messages'' (writeVector (Some writeTLMessage)),
         wf ''chats'' (writeVector (Some writeTLChat)),
         wf ''users'' (writeVector (Some writeTLUser))])]"

definition TL_MessagesSearchResultsCalendar_table :: flag_table where
  "TL_MessagesSearchResultsCalendar_table =
     [(343859772, [Flags ''flags'' [(''inexact'', 0), (''offset_id_offset'', 1)],
        TrueBit ''flags'' 0 ''inexact'',
        Plain (''count'', readInt32, writeInt32, enc_int32, is_VInt),
        Plain (''min_date'', readInt32, writeInt32, enc_int32, is_VInt),
        Plain (''min_msg_id'', readInt32, writeInt32, enc_int32, is_VInt),
        Cond ''flags'' 1 (''offset_id_offset'', readInt32, writeInt32, enc_int32, is_VInt),
        Plain (''periods'', readVector (Some readTLSearchResultsCalendarPeriod),
         writeVector (Some writeTLSearchResultsCalendarPeriod),
         enc_vector (enc_fobject TL_SearchResultsCalendarPeriod_table),
         ok_vector (ok_fobject TL_SearchResultsCalendarPeriod_table)),
        Plain (''messages'', readVector (Some readTLMessage), writeVector (Some writeTLMessage),
         enc_vector (enc_fobject TL_Message_table), ok_vector (ok_fobject TL_Message_table)),
        Plain (''chats'', readVector (Some readTLChat), writeVector (Some writeTLChat),
         enc_vector (enc_fobject TL_Chat_table), ok_vector (ok_fobject TL_Chat_table)),
        Plain (''users'', readVector (Some readTLUser), writeVector (Some writeTLUser),
         enc_vector (enc_fobject TL_User_table), ok_vector (ok_fobject TL_User_table))])]"

interpretation tl_MessagesSearchResultsCalendar: tl_codec readTLMessagesSearchResultsCalendar writeTLMessagesSearchResultsCalendar "enc_fobject TL_MessagesSearchResultsCalendar_table" "ok_fobject TL_MessagesSearchResultsCalendar_table"
  by (rule flag_schema_codec, unfold TL_MessagesSearchResultsCalendar_table_def, intro flag_tableI)
    (simp_all add: readTLMessagesSearchResultsCalendar_def writeTLMessagesSearchResultsCalendar_def flag_schema_simps tl_SearchResultsCalendarPeriod.tl_codec_axioms tl_Message.tl_codec_axioms tl_Chat.tl_codec_axioms
      tl_User.tl_codec_axioms tl_SearchResultsCalendarPeriod.vector_codec tl_Message.vector_codec
      tl_Chat.vector_codec tl_User.vector_codec)

definition readTLUsersUserFull :: tl_reader where
  "readTLUsersUserFull = read_object
     [(997004590, [rd ''full_user'' readTLUserFull, rd ''chats'' (readVector (Some readTLChat)),
         rd ''users'' (readVector (Some readTLUser))])]"

definition writeTLUsersUserFull :: tl_writer where
  "writeTLUsersUserFull = write_fobject
     [(997004590, [wf ''_'' writeInt32, wf ''full_user'' writeTLUserFull,
         wf ''chats'' (writeVector (Some writeTLChat)),
         wf ''users'' (writeVector (Some writeTLUser))])]"

definition TL_UsersUserFull_table :: flag_table where
  "TL_UsersUserFull_table =
     [(997004590, [Plain (''full_user'', readTLUserFull, writeTLUserFull,
         enc_fobject TL_UserFull_table, ok_fobject TL_UserFull_table),
        Plain (''chats'', readVector (Some readTLChat), writeVector (Some writeTLChat),
         enc_vector (enc_fobject TL_Chat_table), ok_vector (ok_fobject TL_Chat_table)),
        Plain (''users'', readVector (Some readTLUser), writeVector (Some writeTLUser),
         enc_vector (enc_fobject TL_User_table), ok_vector (ok_fobject TL_User_table))])]"

interpretation tl_UsersUserFull: tl_codec readTLUsersUserFull writeTLUsersUserFull "enc_fobject TL_UsersUserFull_table" "ok_fobject TL_UsersUserFull_table"
  by (rule flag_schema_codec, unfold TL_UsersUserFull_table_def, intro flag_tableI)
    (simp_all add: readTLUsersUserFull_def writeTLUsersUserFull_def flag_schema_simps tl_UserFull.tl_codec_axioms tl_Chat.tl_codec_axioms tl_User.tl_codec_axioms tl_Chat.vector_codec
      tl_User.vector_codec)

definition readTLAvailableReaction :: tl_reader where
  "readTLAvailableReaction = read_object
     [(- 1065882623, [rd ''flags'' readUInt32, set_if ''flags'' 0 ''inactive'',
         set_if ''flags'' 2 ''premium'', rd ''reaction'' readString, rd ''title'' readString,
         rd ''static_icon'' readTLDocument, rd ''appear_animation'' readTLDocument,
         rd ''select_animation'' readTLDocument, rd ''activate_animation'' readTLDocument,
         rd ''effect_animation'' readTLDocument,
         rd_if ''flags'' 1 ''around_animation'' readTLDocument,
         rd_if ''flags'' 1 ''center_icon'' readTLDocument])]"

definition writeTLAvailableReaction :: tl_writer where
  "writeTLAvailableReaction = write_fobject
     [(- 1065882623, [wf ''_'' writeInt32, wf_flags ''flags'' [(''inactive'', 0), (''premium'', 2),
         (''around_animation'', 1), (''center_icon'', 1)], wf ''reaction'' writeString,
         wf ''title'' writeString, wf ''static_icon'' writeTLDocument,
         wf ''appear_animation'' writeTLDocument, wf ''select_animation'' writeTLDocument,
         wf ''activate_animation'' writeTLDocument, wf ''effect_animation'' writeTLDocument,
         wf_if ''flags'' 1 ''around_animation'' writeTLDocument,
         wf_if ''flags'' 1 ''center_icon'' writeTLDocument])]"

definition TL_AvailableReaction_table :: flag_table where
  "TL_AvailableReaction_table =
     [(- 1065882623, [Flags ''flags'' [(''inactive'', 0), (''premium'', 2), (''around_animation'',
         1), (''center_icon'', 1)],
        TrueBit ''flags'' 0 ''inactive'',
        TrueBit ''flags'' 2 ''premium'',
        Plain (''reaction'', readString, writeString, enc_string, is_short_text),
        Plain (''title'', readString, writeString, enc_string, is_short_text),
        Plain (''static_icon'', readTLDocument, writeTLDocument, enc_fobject TL_Document_table,
         ok_fobject TL_Document_table),
        Plain (''appear_animation'', readTLDocument, writeTLDocument,
         enc_fobject TL_Document_table, ok_fobject TL_Document_table),
        Plain (''select_animation'', readTLDocument, writeTLDocument,
         enc_fobject TL_Document_table, ok_fobject TL_Document_table),
        Plain (''activate_animation'', readTLDocument, writeTLDocument,
         enc_fobject TL_Document_table, ok_fobject TL_Document_table),
        Plain (''effect_animation'', readTLDocument, writeTLDocument,
         enc_fobject TL_Document_table, ok_fobject TL_Document_table),
        Cond ''flags'' 1 (''around_animation'', readTLDocument, writeTLDocument,
         enc_fobject TL_Document_table, ok_fobject TL_Document_table),
        Cond ''flags'' 1 (''center_icon'', readTLDocument, writeTLDocument,
         enc_fobject TL_Document_table, ok_fobject TL_Document_table)])]"

interpretation tl_AvailableReaction: tl_codec readTLAvailableReaction writeTLAvailableReaction "enc_fobject TL_AvailableReaction_table" "ok_fobject TL_AvailableReaction_table"
  by (rule flag_schema_codec, unfold TL_AvailableReaction_table_def, intro flag_tableI)
    (simp_all add: readTLAvailableReaction_def writeTLAvailableReaction_def flag_schema_simps tl_Document.tl_codec_axioms)

definition readTLMessagesAvailableReactions :: tl_reader where
  "readTLMessagesAvailableReactions = read_object
     [(- 1626924713, []),
      (1989032621, [rd ''hash'' readInt32,
         rd ''reactions'' (readVector (Some readTLAvailableReaction))])]"

definition writeTLMessagesAvailableReactions :: tl_writer where
  "writeTLMessagesAvailableReactions = write_fobject
     [(- 1626924713, [wf ''_'' writeInt32]),
      (1989032621, [wf ''_'' writeInt32, wf ''hash'' writeInt32,
         wf ''reactions'' (writeVector (Some writeTLAvailableReaction))])]"

definition TL_MessagesAvailableReactions_table :: flag_table where
  "TL_MessagesAvailableReactions_table =
     [(- 1626924713, []),
      (1989032621, [Plain (''hash'', readInt32, writeInt32, enc_int32, is_VInt),
        Plain (''reactions'', readVector (Some readTLAvailableReaction),
         writeVector (Some writeTLAvailableReaction),
         enc_vector (enc_fobject TL_AvailableReaction_table),
         ok_vector (ok_fobject TL_AvailableReaction_table))])]"

interpretation tl_MessagesAvailableReactions: tl_codec readTLMessagesAvailableReactions writeTLMessagesAvailableReactions "enc_fobject TL_MessagesAvailableReactions_table" "ok_fobject TL_MessagesAvailableReactions_table"
  by (rule flag_schema_codec, unfold TL_MessagesAvailableReactions_table_def, intro flag_tableI)
    (simp_all add: readTLMessagesAvailableReactions_def writeTLMessagesAvailableReactions_def flag_schema_simps tl_AvailableReaction.tl_codec_axioms tl_AvailableReaction.vector_codec)

definition readTLAttachMenuBotIcon :: tl_reader where
  "readTLAttachMenuBotIcon = read_object
     [(- 1297663893, [rd ''flags'' readUInt32, rd ''name'' readString, rd ''icon'' readTLDocument,
         rd_if ''flags'' 0 ''colors'' (readVector (Some readTLAttachMenuBotIconColor))])]"

definition writeTLAttachMenuBotIcon :: tl_writer where
  "writeTLAttachMenuBotIcon = write_fobject
     [(- 1297663893, [wf ''_'' writeInt32, wf_flags ''flags'' [(''colors'', 0)],
         wf ''name'' writeString, wf ''icon'' writeTLDocument,
         wf_if ''flags'' 0 ''colors'' (writeVector (Some writeTLAttachMenuBotIconColor))])]"

definition TL_AttachMenuBotIcon_table :: flag_table where
  "TL_AttachMenuBotIcon_table =
     [(- 1297663893, [Flags ''flags'' [(''colors'', 0)],
        Plain (''name'', readString, writeString, enc_string, is_short_text),
        Plain (''icon'', readTLDocument, writeTLDocument, enc_fobject TL_Document_table,
         ok_fobject TL_Document_table),
        Cond ''flags'' 0 (''colors'', readVector (Some readTLAttachMenuBotIconColor),
         writeVector (Some writeTLAttachMenuBotIconColor),
         enc_vector (enc_fobject TL_AttachMenuBotIconColor_table),
         ok_vector (ok_fobject TL_AttachMenuBotIconColor_table))])]"

interpretation tl_AttachMenuBotIcon: tl_codec readTLAttachMenuBotIcon writeTLAttachMenuBotIcon "enc_fobject TL_AttachMenuBotIcon_table" "ok_fobject TL_AttachMenuBotIcon_table"
  by (rule flag_schema_codec, unfold TL_AttachMenuBotIcon_table_def, intro flag_tableI)
    (simp_all add: readTLAttachMenuBotIcon_def writeTLAttachMenuBotIcon_def flag_schema_simps tl_Document.tl_codec_axioms tl_AttachMenuBotIconColor.tl_codec_axioms
      tl_AttachMenuBotIconColor.vector_codec)

end
