(* ===== verification/TlTypes8.thy ===== *)
theory TlTypes8
  imports TlTypes7
begin

section \<open>The API schema, types that reach recursive ones: libkg/tlschema.cpp\<close>

text \<open>
  Readers and writers of the types AttachMenuBot to EphemeralWelcomeMessages, in dependency order. Each type has its table and the interpretation of the codec contract;
  a group of types that refer to one another gets it from \<open>tl_recursion\<close>.
\<close>

definition readTLAttachMenuBot :: tl_reader where
  "readTLAttachMenuBot = read_object
     [(- 653423106, [rd ''flags'' readUInt32, set_if ''flags'' 0 ''inactive'',
         set_if ''flags'' 1 ''has_settings'', set_if ''flags'' 2 ''request_write_access'',
         set_if ''flags'' 3 ''show_in_attach_menu'', set_if ''flags'' 4 ''show_in_side_menu'',
         set_if ''flags'' 5 ''side_menu_disclaimer_needed'', rd ''bot_id'' readInt64,
         rd ''short_name'' readString,
         rd_if ''flags'' 3 ''peer_types'' (readVector (Some readTLAttachMenuPeerType)),
         rd ''icons'' (readVector (Some readTLAttachMenuBotIcon))])]"

definition writeTLAttachMenuBot :: tl_writer where
  "writeTLAttachMenuBot = write_fobject
     [(- 653423106, [wf ''_'' writeInt32, wf_flags ''flags'' [(''inactive'', 0), (''has_settings'',
         1), (''request_write_access'', 2), (''show_in_attach_menu'', 3), (''show_in_side_menu'',
         4), (''side_menu_disclaimer_needed'', 5), (''peer_types'', 3)], wf ''bot_id'' writeInt64,
         wf ''short_name'' writeString,
         wf_if ''flags'' 3 ''peer_types'' (writeVector (Some writeTLAttachMenuPeerType)),
         wf ''icons'' (writeVector (Some writeTLAttachMenuBotIcon))])]"

definition TL_AttachMenuBot_table :: flag_table where
  "TL_AttachMenuBot_table =
     [(- 653423106, [Flags ''flags'' [(''inactive'', 0), (''has_settings'', 1),
         (''request_write_access'', 2), (''show_in_attach_menu'', 3), (''show_in_side_menu'', 4),
         (''side_menu_disclaimer_needed'', 5), (''peer_types'', 3)],
        TrueBit ''flags'' 0 ''inactive'',
        TrueBit ''flags'' 1 ''has_settings'',
        TrueBit ''flags'' 2 ''request_write_access'',
        TrueBit ''flags'' 3 ''show_in_attach_menu'',
        TrueBit ''flags'' 4 ''show_in_side_menu'',
        TrueBit ''flags'' 5 ''side_menu_disclaimer_needed'',
        Plain (''bot_id'', readInt64, writeInt64, enc_int64, is_VLong),
        Plain (''short_name'', readString, writeString, enc_string, is_short_text),
        Cond ''flags'' 3 (''peer_types'', readVector (Some readTLAttachMenuPeerType),
         writeVector (Some writeTLAttachMenuPeerType),
         enc_vector (enc_fobject TL_AttachMenuPeerType_table),
         ok_vector (ok_fobject TL_AttachMenuPeerType_table)),
        Plain (''icons'', readVector (Some readTLAttachMenuBotIcon),
         writeVector (Some writeTLAttachMenuBotIcon),
         enc_vector (enc_fobject TL_AttachMenuBotIcon_table),
         ok_vector (ok_fobject TL_AttachMenuBotIcon_table))])]"

interpretation tl_AttachMenuBot: tl_codec readTLAttachMenuBot writeTLAttachMenuBot "enc_fobject TL_AttachMenuBot_table" "ok_fobject TL_AttachMenuBot_table"
  by (rule flag_schema_codec, unfold TL_AttachMenuBot_table_def, intro flag_tableI)
    (simp_all add: readTLAttachMenuBot_def writeTLAttachMenuBot_def flag_schema_simps tl_AttachMenuPeerType.tl_codec_axioms tl_AttachMenuBotIcon.tl_codec_axioms
      tl_AttachMenuPeerType.vector_codec tl_AttachMenuBotIcon.vector_codec)

definition readTLAttachMenuBots :: tl_reader where
  "readTLAttachMenuBots = read_object
     [(- 237467044, []),
      (1011024320, [rd ''hash'' readInt64, rd ''bots'' (readVector (Some readTLAttachMenuBot)),
         rd ''users'' (readVector (Some readTLUser))])]"

definition writeTLAttachMenuBots :: tl_writer where
  "writeTLAttachMenuBots = write_fobject
     [(- 237467044, [wf ''_'' writeInt32]),
      (1011024320, [wf ''_'' writeInt32, wf ''hash'' writeInt64,
         wf ''bots'' (writeVector (Some writeTLAttachMenuBot)),
         wf ''users'' (writeVector (Some writeTLUser))])]"

definition TL_AttachMenuBots_table :: flag_table where
  "TL_AttachMenuBots_table =
     [(- 237467044, []),
      (1011024320, [Plain (''hash'', readInt64, writeInt64, enc_int64, is_VLong),
        Plain (''bots'', readVector (Some readTLAttachMenuBot),
         writeVector (Some writeTLAttachMenuBot), enc_vector (enc_fobject TL_AttachMenuBot_table),
         ok_vector (ok_fobject TL_AttachMenuBot_table)),
        Plain (''users'', readVector (Some readTLUser), writeVector (Some writeTLUser),
         enc_vector (enc_fobject TL_User_table), ok_vector (ok_fobject TL_User_table))])]"

interpretation tl_AttachMenuBots: tl_codec readTLAttachMenuBots writeTLAttachMenuBots "enc_fobject TL_AttachMenuBots_table" "ok_fobject TL_AttachMenuBots_table"
  by (rule flag_schema_codec, unfold TL_AttachMenuBots_table_def, intro flag_tableI)
    (simp_all add: readTLAttachMenuBots_def writeTLAttachMenuBots_def flag_schema_simps tl_AttachMenuBot.tl_codec_axioms tl_User.tl_codec_axioms tl_AttachMenuBot.vector_codec
      tl_User.vector_codec)

definition readTLAttachMenuBotsBot :: tl_reader where
  "readTLAttachMenuBotsBot = read_object
     [(- 1816172929, [rd ''bot'' readTLAttachMenuBot,
         rd ''users'' (readVector (Some readTLUser))])]"

definition writeTLAttachMenuBotsBot :: tl_writer where
  "writeTLAttachMenuBotsBot = write_fobject
     [(- 1816172929, [wf ''_'' writeInt32, wf ''bot'' writeTLAttachMenuBot,
         wf ''users'' (writeVector (Some writeTLUser))])]"

definition TL_AttachMenuBotsBot_table :: flag_table where
  "TL_AttachMenuBotsBot_table =
     [(- 1816172929, [Plain (''bot'', readTLAttachMenuBot, writeTLAttachMenuBot,
         enc_fobject TL_AttachMenuBot_table, ok_fobject TL_AttachMenuBot_table),
        Plain (''users'', readVector (Some readTLUser), writeVector (Some writeTLUser),
         enc_vector (enc_fobject TL_User_table), ok_vector (ok_fobject TL_User_table))])]"

interpretation tl_AttachMenuBotsBot: tl_codec readTLAttachMenuBotsBot writeTLAttachMenuBotsBot "enc_fobject TL_AttachMenuBotsBot_table" "ok_fobject TL_AttachMenuBotsBot_table"
  by (rule flag_schema_codec, unfold TL_AttachMenuBotsBot_table_def, intro flag_tableI)
    (simp_all add: readTLAttachMenuBotsBot_def writeTLAttachMenuBotsBot_def flag_schema_simps tl_AttachMenuBot.tl_codec_axioms tl_User.tl_codec_axioms tl_User.vector_codec)

definition readTLAccountSavedRingtones :: tl_reader where
  "readTLAccountSavedRingtones = read_object
     [(- 67704655, []),
      (- 1041683259, [rd ''hash'' readInt64, rd ''ringtones'' (readVector (Some readTLDocument))])]"

definition writeTLAccountSavedRingtones :: tl_writer where
  "writeTLAccountSavedRingtones = write_fobject
     [(- 67704655, [wf ''_'' writeInt32]),
      (- 1041683259, [wf ''_'' writeInt32, wf ''hash'' writeInt64,
         wf ''ringtones'' (writeVector (Some writeTLDocument))])]"

definition TL_AccountSavedRingtones_table :: flag_table where
  "TL_AccountSavedRingtones_table =
     [(- 67704655, []),
      (- 1041683259, [Plain (''hash'', readInt64, writeInt64, enc_int64, is_VLong),
        Plain (''ringtones'', readVector (Some readTLDocument), writeVector (Some writeTLDocument),
         enc_vector (enc_fobject TL_Document_table), ok_vector (ok_fobject TL_Document_table))])]"

interpretation tl_AccountSavedRingtones: tl_codec readTLAccountSavedRingtones writeTLAccountSavedRingtones "enc_fobject TL_AccountSavedRingtones_table" "ok_fobject TL_AccountSavedRingtones_table"
  by (rule flag_schema_codec, unfold TL_AccountSavedRingtones_table_def, intro flag_tableI)
    (simp_all add: readTLAccountSavedRingtones_def writeTLAccountSavedRingtones_def flag_schema_simps tl_Document.tl_codec_axioms tl_Document.vector_codec)

definition readTLAccountSavedRingtone :: tl_reader where
  "readTLAccountSavedRingtone = read_object
     [(- 1222230163, []),
      (523271863, [rd ''document'' readTLDocument])]"

definition writeTLAccountSavedRingtone :: tl_writer where
  "writeTLAccountSavedRingtone = write_fobject
     [(- 1222230163, [wf ''_'' writeInt32]),
      (523271863, [wf ''_'' writeInt32, wf ''document'' writeTLDocument])]"

definition TL_AccountSavedRingtone_table :: flag_table where
  "TL_AccountSavedRingtone_table =
     [(- 1222230163, []),
      (523271863, [Plain (''document'', readTLDocument, writeTLDocument,
         enc_fobject TL_Document_table, ok_fobject TL_Document_table)])]"

interpretation tl_AccountSavedRingtone: tl_codec readTLAccountSavedRingtone writeTLAccountSavedRingtone "enc_fobject TL_AccountSavedRingtone_table" "ok_fobject TL_AccountSavedRingtone_table"
  by (rule flag_schema_codec, unfold TL_AccountSavedRingtone_table_def, intro flag_tableI)
    (simp_all add: readTLAccountSavedRingtone_def writeTLAccountSavedRingtone_def flag_schema_simps tl_Document.tl_codec_axioms)

definition readTLHelpPremiumPromo :: tl_reader where
  "readTLHelpPremiumPromo = read_object
     [(1395946908, [rd ''status_text'' readString,
         rd ''status_entities'' (readVector (Some readTLMessageEntity)),
         rd ''video_sections'' (readVector (Some readString)),
         rd ''videos'' (readVector (Some readTLDocument)),
         rd ''period_options'' (readVector (Some readTLPremiumSubscriptionOption)),
         rd ''users'' (readVector (Some readTLUser))])]"

definition writeTLHelpPremiumPromo :: tl_writer where
  "writeTLHelpPremiumPromo = write_fobject
     [(1395946908, [wf ''_'' writeInt32, wf ''status_text'' writeString,
         wf ''status_entities'' (writeVector (Some writeTLMessageEntity)),
         wf ''video_sections'' (writeVector (Some writeString)),
         wf ''videos'' (writeVector (Some writeTLDocument)),
         wf ''period_options'' (writeVector (Some writeTLPremiumSubscriptionOption)),
         wf ''users'' (writeVector (Some writeTLUser))])]"

definition TL_HelpPremiumPromo_table :: flag_table where
  "TL_HelpPremiumPromo_table =
     [(1395946908, [Plain (''status_text'', readString, writeString, enc_string, is_short_text),
        Plain (''status_entities'', readVector (Some readTLMessageEntity),
         writeVector (Some writeTLMessageEntity), enc_vector (enc_fobject TL_MessageEntity_table),
         ok_vector (ok_fobject TL_MessageEntity_table)),
        Plain (''video_sections'', readVector (Some readString), writeVector (Some writeString),
         enc_vector enc_string, ok_vector is_short_text),
        Plain (''videos'', readVector (Some readTLDocument), writeVector (Some writeTLDocument),
         enc_vector (enc_fobject TL_Document_table), ok_vector (ok_fobject TL_Document_table)),
        Plain (''period_options'', readVector (Some readTLPremiumSubscriptionOption),
         writeVector (Some writeTLPremiumSubscriptionOption),
         enc_vector (enc_fobject TL_PremiumSubscriptionOption_table),
         ok_vector (ok_fobject TL_PremiumSubscriptionOption_table)),
        Plain (''users'', readVector (Some readTLUser), writeVector (Some writeTLUser),
         enc_vector (enc_fobject TL_User_table), ok_vector (ok_fobject TL_User_table))])]"

interpretation tl_HelpPremiumPromo: tl_codec readTLHelpPremiumPromo writeTLHelpPremiumPromo "enc_fobject TL_HelpPremiumPromo_table" "ok_fobject TL_HelpPremiumPromo_table"
  by (rule flag_schema_codec, unfold TL_HelpPremiumPromo_table_def, intro flag_tableI)
    (simp_all add: readTLHelpPremiumPromo_def writeTLHelpPremiumPromo_def flag_schema_simps tl_MessageEntity.tl_codec_axioms tl_Document.tl_codec_axioms
      tl_PremiumSubscriptionOption.tl_codec_axioms tl_User.tl_codec_axioms tl_MessageEntity.vector_codec
      tl_Document.vector_codec tl_PremiumSubscriptionOption.vector_codec tl_User.vector_codec)

definition readTLMessagesForumTopics :: tl_reader where
  "readTLMessagesForumTopics = read_object
     [(913709011, [rd ''flags'' readUInt32, set_if ''flags'' 0 ''order_by_create_date'',
         rd ''count'' readInt32, rd ''topics'' (readVector (Some readTLForumTopic)),
         rd ''messages'' (readVector (Some readTLMessage)),
         rd ''chats'' (readVector (Some readTLChat)), rd ''users'' (readVector (Some readTLUser)),
         rd ''pts'' readInt32])]"

definition writeTLMessagesForumTopics :: tl_writer where
  "writeTLMessagesForumTopics = write_fobject
     [(913709011, [wf ''_'' writeInt32, wf_flags ''flags'' [(''order_by_create_date'', 0)],
         wf ''count'' writeInt32, wf ''topics'' (writeVector (Some writeTLForumTopic)),
         wf ''messages'' (writeVector (Some writeTLMessage)),
         wf ''chats'' (writeVector (Some writeTLChat)),
         wf ''users'' (writeVector (Some writeTLUser)), wf ''pts'' writeInt32])]"

definition TL_MessagesForumTopics_table :: flag_table where
  "TL_MessagesForumTopics_table =
     [(913709011, [Flags ''flags'' [(''order_by_create_date'', 0)],
        TrueBit ''flags'' 0 ''order_by_create_date'',
        Plain (''count'', readInt32, writeInt32, enc_int32, is_VInt),
        Plain (''topics'', readVector (Some readTLForumTopic),
         writeVector (Some writeTLForumTopic), enc_vector (enc_fobject TL_ForumTopic_table),
         ok_vector (ok_fobject TL_ForumTopic_table)),
        Plain (''messages'', readVector (Some readTLMessage), writeVector (Some writeTLMessage),
         enc_vector (enc_fobject TL_Message_table), ok_vector (ok_fobject TL_Message_table)),
        Plain (''chats'', readVector (Some readTLChat), writeVector (Some writeTLChat),
         enc_vector (enc_fobject TL_Chat_table), ok_vector (ok_fobject TL_Chat_table)),
        Plain (''users'', readVector (Some readTLUser), writeVector (Some writeTLUser),
         enc_vector (enc_fobject TL_User_table), ok_vector (ok_fobject TL_User_table)),
        Plain (''pts'', readInt32, writeInt32, enc_int32, is_VInt)])]"

interpretation tl_MessagesForumTopics: tl_codec readTLMessagesForumTopics writeTLMessagesForumTopics "enc_fobject TL_MessagesForumTopics_table" "ok_fobject TL_MessagesForumTopics_table"
  by (rule flag_schema_codec, unfold TL_MessagesForumTopics_table_def, intro flag_tableI)
    (simp_all add: readTLMessagesForumTopics_def writeTLMessagesForumTopics_def flag_schema_simps tl_ForumTopic.tl_codec_axioms tl_Message.tl_codec_axioms tl_Chat.tl_codec_axioms
      tl_User.tl_codec_axioms tl_ForumTopic.vector_codec tl_Message.vector_codec tl_Chat.vector_codec
      tl_User.vector_codec)

definition readTLHelpAppConfig :: tl_reader where
  "readTLHelpAppConfig = read_object
     [(2094949405, []),
      (- 585598930, [rd ''hash'' readInt32, rd ''config'' readTLJSONValue])]"

definition writeTLHelpAppConfig :: tl_writer where
  "writeTLHelpAppConfig = write_fobject
     [(2094949405, [wf ''_'' writeInt32]),
      (- 585598930, [wf ''_'' writeInt32, wf ''hash'' writeInt32, wf ''config'' writeTLJSONValue])]"

definition TL_HelpAppConfig_table :: flag_table where
  "TL_HelpAppConfig_table =
     [(2094949405, []),
      (- 585598930, [Plain (''hash'', readInt32, writeInt32, enc_int32, is_VInt),
        Plain (''config'', readTLJSONValue, writeTLJSONValue, enc_JSONValue, ok_JSONValue)])]"

interpretation tl_HelpAppConfig: tl_codec readTLHelpAppConfig writeTLHelpAppConfig "enc_fobject TL_HelpAppConfig_table" "ok_fobject TL_HelpAppConfig_table"
  by (rule flag_schema_codec, unfold TL_HelpAppConfig_table_def, intro flag_tableI)
    (simp_all add: readTLHelpAppConfig_def writeTLHelpAppConfig_def flag_schema_simps tl_JSONValue.tl_codec_axioms)

definition readTLMessagesBotApp :: tl_reader where
  "readTLMessagesBotApp = read_object
     [(- 347034123, [rd ''flags'' readUInt32, set_if ''flags'' 0 ''inactive'',
         set_if ''flags'' 1 ''request_write_access'', set_if ''flags'' 2 ''has_settings'',
         rd ''app'' readTLBotApp])]"

definition writeTLMessagesBotApp :: tl_writer where
  "writeTLMessagesBotApp = write_fobject
     [(- 347034123, [wf ''_'' writeInt32, wf_flags ''flags'' [(''inactive'', 0),
         (''request_write_access'', 1), (''has_settings'', 2)], wf ''app'' writeTLBotApp])]"

definition TL_MessagesBotApp_table :: flag_table where
  "TL_MessagesBotApp_table =
     [(- 347034123, [Flags ''flags'' [(''inactive'', 0), (''request_write_access'', 1),
         (''has_settings'', 2)],
        TrueBit ''flags'' 0 ''inactive'',
        TrueBit ''flags'' 1 ''request_write_access'',
        TrueBit ''flags'' 2 ''has_settings'',
        Plain (''app'', readTLBotApp, writeTLBotApp, enc_fobject TL_BotApp_table,
         ok_fobject TL_BotApp_table)])]"

interpretation tl_MessagesBotApp: tl_codec readTLMessagesBotApp writeTLMessagesBotApp "enc_fobject TL_MessagesBotApp_table" "ok_fobject TL_MessagesBotApp_table"
  by (rule flag_schema_codec, unfold TL_MessagesBotApp_table_def, intro flag_tableI)
    (simp_all add: readTLMessagesBotApp_def writeTLMessagesBotApp_def flag_schema_simps tl_BotApp.tl_codec_axioms)

definition readTLStoriesAllStories :: tl_reader where
  "readTLStoriesAllStories = read_object
     [(291044926, [rd ''flags'' readUInt32, rd ''state'' readString,
         rd ''stealth_mode'' readTLStoriesStealthMode]),
      (1862033025, [rd ''flags'' readUInt32, set_if ''flags'' 0 ''has_more'',
         rd ''count'' readInt32, rd ''state'' readString,
         rd ''peer_stories'' (readVector (Some readTLPeerStories)),
         rd ''chats'' (readVector (Some readTLChat)), rd ''users'' (readVector (Some readTLUser)),
         rd ''stealth_mode'' readTLStoriesStealthMode])]"

definition writeTLStoriesAllStories :: tl_writer where
  "writeTLStoriesAllStories = write_fobject
     [(291044926, [wf ''_'' writeInt32, wf_flags ''flags'' [], wf ''state'' writeString,
         wf ''stealth_mode'' writeTLStoriesStealthMode]),
      (1862033025, [wf ''_'' writeInt32, wf_flags ''flags'' [(''has_more'', 0)],
         wf ''count'' writeInt32, wf ''state'' writeString,
         wf ''peer_stories'' (writeVector (Some writeTLPeerStories)),
         wf ''chats'' (writeVector (Some writeTLChat)),
         wf ''users'' (writeVector (Some writeTLUser)),
         wf ''stealth_mode'' writeTLStoriesStealthMode])]"

definition TL_StoriesAllStories_table :: flag_table where
  "TL_StoriesAllStories_table =
     [(291044926, [Flags ''flags'' [],
        Plain (''state'', readString, writeString, enc_string, is_short_text),
        Plain (''stealth_mode'', readTLStoriesStealthMode, writeTLStoriesStealthMode,
         enc_fobject TL_StoriesStealthMode_table, ok_fobject TL_StoriesStealthMode_table)]),
      (1862033025, [Flags ''flags'' [(''has_more'', 0)],
        TrueBit ''flags'' 0 ''has_more'',
        Plain (''count'', readInt32, writeInt32, enc_int32, is_VInt),
        Plain (''state'', readString, writeString, enc_string, is_short_text),
        Plain (''peer_stories'', readVector (Some readTLPeerStories),
         writeVector (Some writeTLPeerStories), enc_vector (enc_fobject TL_PeerStories_table),
         ok_vector (ok_fobject TL_PeerStories_table)),
        Plain (''chats'', readVector (Some readTLChat), writeVector (Some writeTLChat),
         enc_vector (enc_fobject TL_Chat_table), ok_vector (ok_fobject TL_Chat_table)),
        Plain (''users'', readVector (Some readTLUser), writeVector (Some writeTLUser),
         enc_vector (enc_fobject TL_User_table), ok_vector (ok_fobject TL_User_table)),
        Plain (''stealth_mode'', readTLStoriesStealthMode, writeTLStoriesStealthMode,
         enc_fobject TL_StoriesStealthMode_table, ok_fobject TL_StoriesStealthMode_table)])]"

interpretation tl_StoriesAllStories: tl_codec readTLStoriesAllStories writeTLStoriesAllStories "enc_fobject TL_StoriesAllStories_table" "ok_fobject TL_StoriesAllStories_table"
  by (rule flag_schema_codec, unfold TL_StoriesAllStories_table_def, intro flag_tableI)
    (simp_all add: readTLStoriesAllStories_def writeTLStoriesAllStories_def flag_schema_simps tl_StoriesStealthMode.tl_codec_axioms tl_PeerStories.tl_codec_axioms tl_Chat.tl_codec_axioms
      tl_User.tl_codec_axioms tl_PeerStories.vector_codec tl_Chat.vector_codec tl_User.vector_codec)

definition readTLStoriesStories :: tl_reader where
  "readTLStoriesStories = read_object
     [(1673780490, [rd ''flags'' readUInt32, rd ''count'' readInt32,
         rd ''stories'' (readVector (Some readTLStoryItem)),
         rd_if ''flags'' 0 ''pinned_to_top'' (readVector (Some readInt32)),
         rd ''chats'' (readVector (Some readTLChat)),
         rd ''users'' (readVector (Some readTLUser))])]"

definition writeTLStoriesStories :: tl_writer where
  "writeTLStoriesStories = write_fobject
     [(1673780490, [wf ''_'' writeInt32, wf_flags ''flags'' [(''pinned_to_top'', 0)],
         wf ''count'' writeInt32, wf ''stories'' (writeVector (Some writeTLStoryItem)),
         wf_if ''flags'' 0 ''pinned_to_top'' (writeVector (Some writeInt32)),
         wf ''chats'' (writeVector (Some writeTLChat)),
         wf ''users'' (writeVector (Some writeTLUser))])]"

definition TL_StoriesStories_table :: flag_table where
  "TL_StoriesStories_table =
     [(1673780490, [Flags ''flags'' [(''pinned_to_top'', 0)],
        Plain (''count'', readInt32, writeInt32, enc_int32, is_VInt),
        Plain (''stories'', readVector (Some readTLStoryItem), writeVector (Some writeTLStoryItem),
         enc_vector enc_StoryItem, ok_vector ok_StoryItem),
        Cond ''flags'' 0 (''pinned_to_top'', readVector (Some readInt32),
         writeVector (Some writeInt32), enc_vector enc_int32, ok_vector is_VInt),
        Plain (''chats'', readVector (Some readTLChat), writeVector (Some writeTLChat),
         enc_vector (enc_fobject TL_Chat_table), ok_vector (ok_fobject TL_Chat_table)),
        Plain (''users'', readVector (Some readTLUser), writeVector (Some writeTLUser),
         enc_vector (enc_fobject TL_User_table), ok_vector (ok_fobject TL_User_table))])]"

interpretation tl_StoriesStories: tl_codec readTLStoriesStories writeTLStoriesStories "enc_fobject TL_StoriesStories_table" "ok_fobject TL_StoriesStories_table"
  by (rule flag_schema_codec, unfold TL_StoriesStories_table_def, intro flag_tableI)
    (simp_all add: readTLStoriesStories_def writeTLStoriesStories_def flag_schema_simps tl_StoryItem.tl_codec_axioms tl_Chat.tl_codec_axioms tl_User.tl_codec_axioms
      tl_StoryItem.vector_codec tl_Chat.vector_codec tl_User.vector_codec)

definition readTLStoryView :: tl_reader where
  "readTLStoryView = read_object
     [(- 1329730875, [rd ''flags'' readUInt32, set_if ''flags'' 0 ''blocked'',
         set_if ''flags'' 1 ''blocked_my_stories_from'', rd ''user_id'' readInt64,
         rd ''date'' readInt32, rd_if ''flags'' 2 ''reaction'' readTLReaction]),
      (- 1870436597, [rd ''flags'' readUInt32, set_if ''flags'' 0 ''blocked'',
         set_if ''flags'' 1 ''blocked_my_stories_from'', rd ''message'' readTLMessage]),
      (- 1116418231, [rd ''flags'' readUInt32, set_if ''flags'' 0 ''blocked'',
         set_if ''flags'' 1 ''blocked_my_stories_from'', rd ''peer_id'' readTLPeer,
         rd ''story'' readTLStoryItem])]"

definition writeTLStoryView :: tl_writer where
  "writeTLStoryView = write_fobject
     [(- 1329730875, [wf ''_'' writeInt32, wf_flags ''flags'' [(''blocked'', 0),
         (''blocked_my_stories_from'', 1), (''reaction'', 2)], wf ''user_id'' writeInt64,
         wf ''date'' writeInt32, wf_if ''flags'' 2 ''reaction'' writeTLReaction]),
      (- 1870436597, [wf ''_'' writeInt32, wf_flags ''flags'' [(''blocked'', 0),
         (''blocked_my_stories_from'', 1)], wf ''message'' writeTLMessage]),
      (- 1116418231, [wf ''_'' writeInt32, wf_flags ''flags'' [(''blocked'', 0),
         (''blocked_my_stories_from'', 1)], wf ''peer_id'' writeTLPeer,
         wf ''story'' writeTLStoryItem])]"

definition TL_StoryView_table :: flag_table where
  "TL_StoryView_table =
     [(- 1329730875, [Flags ''flags'' [(''blocked'', 0), (''blocked_my_stories_from'', 1),
         (''reaction'', 2)],
        TrueBit ''flags'' 0 ''blocked'',
        TrueBit ''flags'' 1 ''blocked_my_stories_from'',
        Plain (''user_id'', readInt64, writeInt64, enc_int64, is_VLong),
        Plain (''date'', readInt32, writeInt32, enc_int32, is_VInt),
        Cond ''flags'' 2 (''reaction'', readTLReaction, writeTLReaction,
         enc_fobject TL_Reaction_table, ok_fobject TL_Reaction_table)]),
      (- 1870436597, [Flags ''flags'' [(''blocked'', 0), (''blocked_my_stories_from'', 1)],
        TrueBit ''flags'' 0 ''blocked'',
        TrueBit ''flags'' 1 ''blocked_my_stories_from'',
        Plain (''message'', readTLMessage, writeTLMessage, enc_fobject TL_Message_table,
         ok_fobject TL_Message_table)]),
      (- 1116418231, [Flags ''flags'' [(''blocked'', 0), (''blocked_my_stories_from'', 1)],
        TrueBit ''flags'' 0 ''blocked'',
        TrueBit ''flags'' 1 ''blocked_my_stories_from'',
        Plain (''peer_id'', readTLPeer, writeTLPeer, enc_fobject TL_Peer_table,
         ok_fobject TL_Peer_table),
        Plain (''story'', readTLStoryItem, writeTLStoryItem, enc_StoryItem, ok_StoryItem)])]"

interpretation tl_StoryView: tl_codec readTLStoryView writeTLStoryView "enc_fobject TL_StoryView_table" "ok_fobject TL_StoryView_table"
  by (rule flag_schema_codec, unfold TL_StoryView_table_def, intro flag_tableI)
    (simp_all add: readTLStoryView_def writeTLStoryView_def flag_schema_simps tl_Reaction.tl_codec_axioms tl_Message.tl_codec_axioms tl_Peer.tl_codec_axioms
      tl_StoryItem.tl_codec_axioms)

definition readTLStoriesStoryViewsList :: tl_reader where
  "readTLStoriesStoryViewsList = read_object
     [(1507299269, [rd ''flags'' readUInt32, rd ''count'' readInt32, rd ''views_count'' readInt32,
         rd ''forwards_count'' readInt32, rd ''reactions_count'' readInt32,
         rd ''views'' (readVector (Some readTLStoryView)),
         rd ''chats'' (readVector (Some readTLChat)), rd ''users'' (readVector (Some readTLUser)),
         rd_if ''flags'' 0 ''next_offset'' readString])]"

definition writeTLStoriesStoryViewsList :: tl_writer where
  "writeTLStoriesStoryViewsList = write_fobject
     [(1507299269, [wf ''_'' writeInt32, wf_flags ''flags'' [(''next_offset'', 0)],
         wf ''count'' writeInt32, wf ''views_count'' writeInt32, wf ''forwards_count'' writeInt32,
         wf ''reactions_count'' writeInt32, wf ''views'' (writeVector (Some writeTLStoryView)),
         wf ''chats'' (writeVector (Some writeTLChat)),
         wf ''users'' (writeVector (Some writeTLUser)),
         wf_if ''flags'' 0 ''next_offset'' writeString])]"

definition TL_StoriesStoryViewsList_table :: flag_table where
  "TL_StoriesStoryViewsList_table =
     [(1507299269, [Flags ''flags'' [(''next_offset'', 0)],
        Plain (''count'', readInt32, writeInt32, enc_int32, is_VInt),
        Plain (''views_count'', readInt32, writeInt32, enc_int32, is_VInt),
        Plain (''forwards_count'', readInt32, writeInt32, enc_int32, is_VInt),
        Plain (''reactions_count'', readInt32, writeInt32, enc_int32, is_VInt),
        Plain (''views'', readVector (Some readTLStoryView), writeVector (Some writeTLStoryView),
         enc_vector (enc_fobject TL_StoryView_table), ok_vector (ok_fobject TL_StoryView_table)),
        Plain (''chats'', readVector (Some readTLChat), writeVector (Some writeTLChat),
         enc_vector (enc_fobject TL_Chat_table), ok_vector (ok_fobject TL_Chat_table)),
        Plain (''users'', readVector (Some readTLUser), writeVector (Some writeTLUser),
         enc_vector (enc_fobject TL_User_table), ok_vector (ok_fobject TL_User_table)),
        Cond ''flags'' 0 (''next_offset'', readString, writeString, enc_string, is_short_text)])]"

interpretation tl_StoriesStoryViewsList: tl_codec readTLStoriesStoryViewsList writeTLStoriesStoryViewsList "enc_fobject TL_StoriesStoryViewsList_table" "ok_fobject TL_StoriesStoryViewsList_table"
  by (rule flag_schema_codec, unfold TL_StoriesStoryViewsList_table_def, intro flag_tableI)
    (simp_all add: readTLStoriesStoryViewsList_def writeTLStoriesStoryViewsList_def flag_schema_simps tl_StoryView.tl_codec_axioms tl_Chat.tl_codec_axioms tl_User.tl_codec_axioms
      tl_StoryView.vector_codec tl_Chat.vector_codec tl_User.vector_codec)

definition readTLStoriesPeerStories :: tl_reader where
  "readTLStoriesPeerStories = read_object
     [(- 890861720, [rd ''stories'' readTLPeerStories, rd ''chats'' (readVector (Some readTLChat)),
         rd ''users'' (readVector (Some readTLUser))])]"

definition writeTLStoriesPeerStories :: tl_writer where
  "writeTLStoriesPeerStories = write_fobject
     [(- 890861720, [wf ''_'' writeInt32, wf ''stories'' writeTLPeerStories,
         wf ''chats'' (writeVector (Some writeTLChat)),
         wf ''users'' (writeVector (Some writeTLUser))])]"

definition TL_StoriesPeerStories_table :: flag_table where
  "TL_StoriesPeerStories_table =
     [(- 890861720, [Plain (''stories'', readTLPeerStories, writeTLPeerStories,
         enc_fobject TL_PeerStories_table, ok_fobject TL_PeerStories_table),
        Plain (''chats'', readVector (Some readTLChat), writeVector (Some writeTLChat),
         enc_vector (enc_fobject TL_Chat_table), ok_vector (ok_fobject TL_Chat_table)),
        Plain (''users'', readVector (Some readTLUser), writeVector (Some writeTLUser),
         enc_vector (enc_fobject TL_User_table), ok_vector (ok_fobject TL_User_table))])]"

interpretation tl_StoriesPeerStories: tl_codec readTLStoriesPeerStories writeTLStoriesPeerStories "enc_fobject TL_StoriesPeerStories_table" "ok_fobject TL_StoriesPeerStories_table"
  by (rule flag_schema_codec, unfold TL_StoriesPeerStories_table_def, intro flag_tableI)
    (simp_all add: readTLStoriesPeerStories_def writeTLStoriesPeerStories_def flag_schema_simps tl_PeerStories.tl_codec_axioms tl_Chat.tl_codec_axioms tl_User.tl_codec_axioms tl_Chat.vector_codec
      tl_User.vector_codec)

definition readTLMessagesWebPage :: tl_reader where
  "readTLMessagesWebPage = read_object
     [(- 44166467, [rd ''webpage'' readTLWebPage, rd ''chats'' (readVector (Some readTLChat)),
         rd ''users'' (readVector (Some readTLUser))])]"

definition writeTLMessagesWebPage :: tl_writer where
  "writeTLMessagesWebPage = write_fobject
     [(- 44166467, [wf ''_'' writeInt32, wf ''webpage'' writeTLWebPage,
         wf ''chats'' (writeVector (Some writeTLChat)),
         wf ''users'' (writeVector (Some writeTLUser))])]"

definition TL_MessagesWebPage_table :: flag_table where
  "TL_MessagesWebPage_table =
     [(- 44166467, [Plain (''webpage'', readTLWebPage, writeTLWebPage, enc_WebPage, ok_WebPage),
        Plain (''chats'', readVector (Some readTLChat), writeVector (Some writeTLChat),
         enc_vector (enc_fobject TL_Chat_table), ok_vector (ok_fobject TL_Chat_table)),
        Plain (''users'', readVector (Some readTLUser), writeVector (Some writeTLUser),
         enc_vector (enc_fobject TL_User_table), ok_vector (ok_fobject TL_User_table))])]"

interpretation tl_MessagesWebPage: tl_codec readTLMessagesWebPage writeTLMessagesWebPage "enc_fobject TL_MessagesWebPage_table" "ok_fobject TL_MessagesWebPage_table"
  by (rule flag_schema_codec, unfold TL_MessagesWebPage_table_def, intro flag_tableI)
    (simp_all add: readTLMessagesWebPage_def writeTLMessagesWebPage_def flag_schema_simps tl_WebPage.tl_codec_axioms tl_Chat.tl_codec_axioms tl_User.tl_codec_axioms tl_Chat.vector_codec
      tl_User.vector_codec)

definition readTLPremiumBoostsStatus :: tl_reader where
  "readTLPremiumBoostsStatus = read_object
     [(1230586490, [rd ''flags'' readUInt32, set_if ''flags'' 2 ''my_boost'',
         rd ''level'' readInt32, rd ''current_level_boosts'' readInt32, rd ''boosts'' readInt32,
         rd_if ''flags'' 4 ''gift_boosts'' readInt32,
         rd_if ''flags'' 0 ''next_level_boosts'' readInt32,
         rd_if ''flags'' 1 ''premium_audience'' readTLStatsPercentValue,
         rd ''boost_url'' readString,
         rd_if ''flags'' 3 ''prepaid_giveaways'' (readVector (Some readTLPrepaidGiveaway)),
         rd_if ''flags'' 2 ''my_boost_slots'' (readVector (Some readInt32))])]"

definition writeTLPremiumBoostsStatus :: tl_writer where
  "writeTLPremiumBoostsStatus = write_fobject
     [(1230586490, [wf ''_'' writeInt32, wf_flags ''flags'' [(''my_boost'', 2), (''gift_boosts'',
         4), (''next_level_boosts'', 0), (''premium_audience'', 1), (''prepaid_giveaways'', 3),
         (''my_boost_slots'', 2)], wf ''level'' writeInt32, wf ''current_level_boosts'' writeInt32,
         wf ''boosts'' writeInt32, wf_if ''flags'' 4 ''gift_boosts'' writeInt32,
         wf_if ''flags'' 0 ''next_level_boosts'' writeInt32,
         wf_if ''flags'' 1 ''premium_audience'' writeTLStatsPercentValue,
         wf ''boost_url'' writeString,
         wf_if ''flags'' 3 ''prepaid_giveaways'' (writeVector (Some writeTLPrepaidGiveaway)),
         wf_if ''flags'' 2 ''my_boost_slots'' (writeVector (Some writeInt32))])]"

definition TL_PremiumBoostsStatus_table :: flag_table where
  "TL_PremiumBoostsStatus_table =
     [(1230586490, [Flags ''flags'' [(''my_boost'', 2), (''gift_boosts'', 4),
         (''next_level_boosts'', 0), (''premium_audience'', 1), (''prepaid_giveaways'', 3),
         (''my_boost_slots'', 2)],
        TrueBit ''flags'' 2 ''my_boost'',
        Plain (''level'', readInt32, writeInt32, enc_int32, is_VInt),
        Plain (''current_level_boosts'', readInt32, writeInt32, enc_int32, is_VInt),
        Plain (''boosts'', readInt32, writeInt32, enc_int32, is_VInt),
        Cond ''flags'' 4 (''gift_boosts'', readInt32, writeInt32, enc_int32, is_VInt),
        Cond ''flags'' 0 (''next_level_boosts'', readInt32, writeInt32, enc_int32, is_VInt),
        Cond ''flags'' 1 (''premium_audience'', readTLStatsPercentValue, writeTLStatsPercentValue,
         enc_fobject TL_StatsPercentValue_table, ok_fobject TL_StatsPercentValue_table),
        Plain (''boost_url'', readString, writeString, enc_string, is_short_text),
        Cond ''flags'' 3 (''prepaid_giveaways'', readVector (Some readTLPrepaidGiveaway),
         writeVector (Some writeTLPrepaidGiveaway),
         enc_vector (enc_fobject TL_PrepaidGiveaway_table),
         ok_vector (ok_fobject TL_PrepaidGiveaway_table)),
        Cond ''flags'' 2 (''my_boost_slots'', readVector (Some readInt32),
         writeVector (Some writeInt32), enc_vector enc_int32, ok_vector is_VInt)])]"

interpretation tl_PremiumBoostsStatus: tl_codec readTLPremiumBoostsStatus writeTLPremiumBoostsStatus "enc_fobject TL_PremiumBoostsStatus_table" "ok_fobject TL_PremiumBoostsStatus_table"
  by (rule flag_schema_codec, unfold TL_PremiumBoostsStatus_table_def, intro flag_tableI)
    (simp_all add: readTLPremiumBoostsStatus_def writeTLPremiumBoostsStatus_def flag_schema_simps tl_StatsPercentValue.tl_codec_axioms tl_PrepaidGiveaway.tl_codec_axioms
      tl_PrepaidGiveaway.vector_codec)

definition readTLPublicForward :: tl_reader where
  "readTLPublicForward = read_object
     [(32685898, [rd ''message'' readTLMessage]),
      (- 302797360, [rd ''peer'' readTLPeer, rd ''story'' readTLStoryItem])]"

definition writeTLPublicForward :: tl_writer where
  "writeTLPublicForward = write_fobject
     [(32685898, [wf ''_'' writeInt32, wf ''message'' writeTLMessage]),
      (- 302797360, [wf ''_'' writeInt32, wf ''peer'' writeTLPeer, wf ''story'' writeTLStoryItem])]"

definition TL_PublicForward_table :: flag_table where
  "TL_PublicForward_table =
     [(32685898, [Plain (''message'', readTLMessage, writeTLMessage, enc_fobject TL_Message_table,
         ok_fobject TL_Message_table)]),
      (- 302797360, [Plain (''peer'', readTLPeer, writeTLPeer, enc_fobject TL_Peer_table,
         ok_fobject TL_Peer_table),
        Plain (''story'', readTLStoryItem, writeTLStoryItem, enc_StoryItem, ok_StoryItem)])]"

interpretation tl_PublicForward: tl_codec readTLPublicForward writeTLPublicForward "enc_fobject TL_PublicForward_table" "ok_fobject TL_PublicForward_table"
  by (rule flag_schema_codec, unfold TL_PublicForward_table_def, intro flag_tableI)
    (simp_all add: readTLPublicForward_def writeTLPublicForward_def flag_schema_simps tl_Message.tl_codec_axioms tl_Peer.tl_codec_axioms tl_StoryItem.tl_codec_axioms)

definition readTLStatsPublicForwards :: tl_reader where
  "readTLStatsPublicForwards = read_object
     [(- 1828487648, [rd ''flags'' readUInt32, rd ''count'' readInt32,
         rd ''forwards'' (readVector (Some readTLPublicForward)),
         rd_if ''flags'' 0 ''next_offset'' readString, rd ''chats'' (readVector (Some readTLChat)),
         rd ''users'' (readVector (Some readTLUser))])]"

definition writeTLStatsPublicForwards :: tl_writer where
  "writeTLStatsPublicForwards = write_fobject
     [(- 1828487648, [wf ''_'' writeInt32, wf_flags ''flags'' [(''next_offset'', 0)],
         wf ''count'' writeInt32, wf ''forwards'' (writeVector (Some writeTLPublicForward)),
         wf_if ''flags'' 0 ''next_offset'' writeString,
         wf ''chats'' (writeVector (Some writeTLChat)),
         wf ''users'' (writeVector (Some writeTLUser))])]"

definition TL_StatsPublicForwards_table :: flag_table where
  "TL_StatsPublicForwards_table =
     [(- 1828487648, [Flags ''flags'' [(''next_offset'', 0)],
        Plain (''count'', readInt32, writeInt32, enc_int32, is_VInt),
        Plain (''forwards'', readVector (Some readTLPublicForward),
         writeVector (Some writeTLPublicForward), enc_vector (enc_fobject TL_PublicForward_table),
         ok_vector (ok_fobject TL_PublicForward_table)),
        Cond ''flags'' 0 (''next_offset'', readString, writeString, enc_string, is_short_text),
        Plain (''chats'', readVector (Some readTLChat), writeVector (Some writeTLChat),
         enc_vector (enc_fobject TL_Chat_table), ok_vector (ok_fobject TL_Chat_table)),
        Plain (''users'', readVector (Some readTLUser), writeVector (Some writeTLUser),
         enc_vector (enc_fobject TL_User_table), ok_vector (ok_fobject TL_User_table))])]"

interpretation tl_StatsPublicForwards: tl_codec readTLStatsPublicForwards writeTLStatsPublicForwards "enc_fobject TL_StatsPublicForwards_table" "ok_fobject TL_StatsPublicForwards_table"
  by (rule flag_schema_codec, unfold TL_StatsPublicForwards_table_def, intro flag_tableI)
    (simp_all add: readTLStatsPublicForwards_def writeTLStatsPublicForwards_def flag_schema_simps tl_PublicForward.tl_codec_axioms tl_Chat.tl_codec_axioms tl_User.tl_codec_axioms
      tl_PublicForward.vector_codec tl_Chat.vector_codec tl_User.vector_codec)

definition readTLStoryReaction :: tl_reader where
  "readTLStoryReaction = read_object
     [(1620104917, [rd ''peer_id'' readTLPeer, rd ''date'' readInt32,
         rd ''reaction'' readTLReaction]),
      (- 1146411453, [rd ''message'' readTLMessage]),
      (- 808644845, [rd ''peer_id'' readTLPeer, rd ''story'' readTLStoryItem])]"

definition writeTLStoryReaction :: tl_writer where
  "writeTLStoryReaction = write_fobject
     [(1620104917, [wf ''_'' writeInt32, wf ''peer_id'' writeTLPeer, wf ''date'' writeInt32,
         wf ''reaction'' writeTLReaction]),
      (- 1146411453, [wf ''_'' writeInt32, wf ''message'' writeTLMessage]),
      (- 808644845, [wf ''_'' writeInt32, wf ''peer_id'' writeTLPeer,
         wf ''story'' writeTLStoryItem])]"

definition TL_StoryReaction_table :: flag_table where
  "TL_StoryReaction_table =
     [(1620104917, [Plain (''peer_id'', readTLPeer, writeTLPeer, enc_fobject TL_Peer_table,
         ok_fobject TL_Peer_table),
        Plain (''date'', readInt32, writeInt32, enc_int32, is_VInt),
        Plain (''reaction'', readTLReaction, writeTLReaction, enc_fobject TL_Reaction_table,
         ok_fobject TL_Reaction_table)]),
      (- 1146411453, [Plain (''message'', readTLMessage, writeTLMessage,
         enc_fobject TL_Message_table, ok_fobject TL_Message_table)]),
      (- 808644845, [Plain (''peer_id'', readTLPeer, writeTLPeer, enc_fobject TL_Peer_table,
         ok_fobject TL_Peer_table),
        Plain (''story'', readTLStoryItem, writeTLStoryItem, enc_StoryItem, ok_StoryItem)])]"

interpretation tl_StoryReaction: tl_codec readTLStoryReaction writeTLStoryReaction "enc_fobject TL_StoryReaction_table" "ok_fobject TL_StoryReaction_table"
  by (rule flag_schema_codec, unfold TL_StoryReaction_table_def, intro flag_tableI)
    (simp_all add: readTLStoryReaction_def writeTLStoryReaction_def flag_schema_simps tl_Peer.tl_codec_axioms tl_Reaction.tl_codec_axioms tl_Message.tl_codec_axioms
      tl_StoryItem.tl_codec_axioms)

definition readTLStoriesStoryReactionsList :: tl_reader where
  "readTLStoriesStoryReactionsList = read_object
     [(- 1436583780, [rd ''flags'' readUInt32, rd ''count'' readInt32,
         rd ''reactions'' (readVector (Some readTLStoryReaction)),
         rd ''chats'' (readVector (Some readTLChat)), rd ''users'' (readVector (Some readTLUser)),
         rd_if ''flags'' 0 ''next_offset'' readString])]"

definition writeTLStoriesStoryReactionsList :: tl_writer where
  "writeTLStoriesStoryReactionsList = write_fobject
     [(- 1436583780, [wf ''_'' writeInt32, wf_flags ''flags'' [(''next_offset'', 0)],
         wf ''count'' writeInt32, wf ''reactions'' (writeVector (Some writeTLStoryReaction)),
         wf ''chats'' (writeVector (Some writeTLChat)),
         wf ''users'' (writeVector (Some writeTLUser)),
         wf_if ''flags'' 0 ''next_offset'' writeString])]"

definition TL_StoriesStoryReactionsList_table :: flag_table where
  "TL_StoriesStoryReactionsList_table =
     [(- 1436583780, [Flags ''flags'' [(''next_offset'', 0)],
        Plain (''count'', readInt32, writeInt32, enc_int32, is_VInt),
        Plain (''reactions'', readVector (Some readTLStoryReaction),
         writeVector (Some writeTLStoryReaction), enc_vector (enc_fobject TL_StoryReaction_table),
         ok_vector (ok_fobject TL_StoryReaction_table)),
        Plain (''chats'', readVector (Some readTLChat), writeVector (Some writeTLChat),
         enc_vector (enc_fobject TL_Chat_table), ok_vector (ok_fobject TL_Chat_table)),
        Plain (''users'', readVector (Some readTLUser), writeVector (Some writeTLUser),
         enc_vector (enc_fobject TL_User_table), ok_vector (ok_fobject TL_User_table)),
        Cond ''flags'' 0 (''next_offset'', readString, writeString, enc_string, is_short_text)])]"

interpretation tl_StoriesStoryReactionsList: tl_codec readTLStoriesStoryReactionsList writeTLStoriesStoryReactionsList "enc_fobject TL_StoriesStoryReactionsList_table" "ok_fobject TL_StoriesStoryReactionsList_table"
  by (rule flag_schema_codec, unfold TL_StoriesStoryReactionsList_table_def, intro flag_tableI)
    (simp_all add: readTLStoriesStoryReactionsList_def writeTLStoriesStoryReactionsList_def flag_schema_simps tl_StoryReaction.tl_codec_axioms tl_Chat.tl_codec_axioms tl_User.tl_codec_axioms
      tl_StoryReaction.vector_codec tl_Chat.vector_codec tl_User.vector_codec)

definition readTLSavedDialog :: tl_reader where
  "readTLSavedDialog = read_object
     [(- 1115174036, [rd ''flags'' readUInt32, set_if ''flags'' 2 ''pinned'',
         rd ''peer'' readTLPeer, rd ''top_message'' readInt32]),
      (1681948327, [rd ''flags'' readUInt32, set_if ''flags'' 3 ''unread_mark'',
         set_if ''flags'' 4 ''nopaid_messages_exception'', rd ''peer'' readTLPeer,
         rd ''top_message'' readInt32, rd ''read_inbox_max_id'' readInt32,
         rd ''read_outbox_max_id'' readInt32, rd ''unread_count'' readInt32,
         rd ''unread_reactions_count'' readInt32, rd_if ''flags'' 1 ''draft'' readTLDraftMessage])]"

definition writeTLSavedDialog :: tl_writer where
  "writeTLSavedDialog = write_fobject
     [(- 1115174036, [wf ''_'' writeInt32, wf_flags ''flags'' [(''pinned'', 2)],
         wf ''peer'' writeTLPeer, wf ''top_message'' writeInt32]),
      (1681948327, [wf ''_'' writeInt32, wf_flags ''flags'' [(''unread_mark'', 3),
         (''nopaid_messages_exception'', 4), (''draft'', 1)], wf ''peer'' writeTLPeer,
         wf ''top_message'' writeInt32, wf ''read_inbox_max_id'' writeInt32,
         wf ''read_outbox_max_id'' writeInt32, wf ''unread_count'' writeInt32,
         wf ''unread_reactions_count'' writeInt32,
         wf_if ''flags'' 1 ''draft'' writeTLDraftMessage])]"

definition TL_SavedDialog_table :: flag_table where
  "TL_SavedDialog_table =
     [(- 1115174036, [Flags ''flags'' [(''pinned'', 2)],
        TrueBit ''flags'' 2 ''pinned'',
        Plain (''peer'', readTLPeer, writeTLPeer, enc_fobject TL_Peer_table,
         ok_fobject TL_Peer_table),
        Plain (''top_message'', readInt32, writeInt32, enc_int32, is_VInt)]),
      (1681948327, [Flags ''flags'' [(''unread_mark'', 3), (''nopaid_messages_exception'', 4),
         (''draft'', 1)],
        TrueBit ''flags'' 3 ''unread_mark'',
        TrueBit ''flags'' 4 ''nopaid_messages_exception'',
        Plain (''peer'', readTLPeer, writeTLPeer, enc_fobject TL_Peer_table,
         ok_fobject TL_Peer_table),
        Plain (''top_message'', readInt32, writeInt32, enc_int32, is_VInt),
        Plain (''read_inbox_max_id'', readInt32, writeInt32, enc_int32, is_VInt),
        Plain (''read_outbox_max_id'', readInt32, writeInt32, enc_int32, is_VInt),
        Plain (''unread_count'', readInt32, writeInt32, enc_int32, is_VInt),
        Plain (''unread_reactions_count'', readInt32, writeInt32, enc_int32, is_VInt),
        Cond ''flags'' 1 (''draft'', readTLDraftMessage, writeTLDraftMessage,
         enc_fobject TL_DraftMessage_table, ok_fobject TL_DraftMessage_table)])]"

interpretation tl_SavedDialog: tl_codec readTLSavedDialog writeTLSavedDialog "enc_fobject TL_SavedDialog_table" "ok_fobject TL_SavedDialog_table"
  by (rule flag_schema_codec, unfold TL_SavedDialog_table_def, intro flag_tableI)
    (simp_all add: readTLSavedDialog_def writeTLSavedDialog_def flag_schema_simps tl_Peer.tl_codec_axioms tl_DraftMessage.tl_codec_axioms)

definition readTLMessagesSavedDialogs :: tl_reader where
  "readTLMessagesSavedDialogs = read_object
     [(- 130358751, [rd ''dialogs'' (readVector (Some readTLSavedDialog)),
         rd ''messages'' (readVector (Some readTLMessage)),
         rd ''chats'' (readVector (Some readTLChat)), rd ''users'' (readVector (Some readTLUser))]),
      (1153080793, [rd ''count'' readInt32, rd ''dialogs'' (readVector (Some readTLSavedDialog)),
         rd ''messages'' (readVector (Some readTLMessage)),
         rd ''chats'' (readVector (Some readTLChat)), rd ''users'' (readVector (Some readTLUser))]),
      (- 1071681560, [rd ''count'' readInt32])]"

definition writeTLMessagesSavedDialogs :: tl_writer where
  "writeTLMessagesSavedDialogs = write_fobject
     [(- 130358751, [wf ''_'' writeInt32, wf ''dialogs'' (writeVector (Some writeTLSavedDialog)),
         wf ''messages'' (writeVector (Some writeTLMessage)),
         wf ''chats'' (writeVector (Some writeTLChat)),
         wf ''users'' (writeVector (Some writeTLUser))]),
      (1153080793, [wf ''_'' writeInt32, wf ''count'' writeInt32,
         wf ''dialogs'' (writeVector (Some writeTLSavedDialog)),
         wf ''messages'' (writeVector (Some writeTLMessage)),
         wf ''chats'' (writeVector (Some writeTLChat)),
         wf ''users'' (writeVector (Some writeTLUser))]),
      (- 1071681560, [wf ''_'' writeInt32, wf ''count'' writeInt32])]"

definition TL_MessagesSavedDialogs_table :: flag_table where
  "TL_MessagesSavedDialogs_table =
     [(- 130358751, [Plain (''dialogs'', readVector (Some readTLSavedDialog),
         writeVector (Some writeTLSavedDialog), enc_vector (enc_fobject TL_SavedDialog_table),
         ok_vector (ok_fobject TL_SavedDialog_table)),
        Plain (''messages'', readVector (Some readTLMessage), writeVector (Some writeTLMessage),
         enc_vector (enc_fobject TL_Message_table), ok_vector (ok_fobject TL_Message_table)),
        Plain (''chats'', readVector (Some readTLChat), writeVector (Some writeTLChat),
         enc_vector (enc_fobject TL_Chat_table), ok_vector (ok_fobject TL_Chat_table)),
        Plain (''users'', readVector (Some readTLUser), writeVector (Some writeTLUser),
         enc_vector (enc_fobject TL_User_table), ok_vector (ok_fobject TL_User_table))]),
      (1153080793, [Plain (''count'', readInt32, writeInt32, enc_int32, is_VInt),
        Plain (''dialogs'', readVector (Some readTLSavedDialog),
         writeVector (Some writeTLSavedDialog), enc_vector (enc_fobject TL_SavedDialog_table),
         ok_vector (ok_fobject TL_SavedDialog_table)),
        Plain (''messages'', readVector (Some readTLMessage), writeVector (Some writeTLMessage),
         enc_vector (enc_fobject TL_Message_table), ok_vector (ok_fobject TL_Message_table)),
        Plain (''chats'', readVector (Some readTLChat), writeVector (Some writeTLChat),
         enc_vector (enc_fobject TL_Chat_table), ok_vector (ok_fobject TL_Chat_table)),
        Plain (''users'', readVector (Some readTLUser), writeVector (Some writeTLUser),
         enc_vector (enc_fobject TL_User_table), ok_vector (ok_fobject TL_User_table))]),
      (- 1071681560, [Plain (''count'', readInt32, writeInt32, enc_int32, is_VInt)])]"

interpretation tl_MessagesSavedDialogs: tl_codec readTLMessagesSavedDialogs writeTLMessagesSavedDialogs "enc_fobject TL_MessagesSavedDialogs_table" "ok_fobject TL_MessagesSavedDialogs_table"
  by (rule flag_schema_codec, unfold TL_MessagesSavedDialogs_table_def, intro flag_tableI)
    (simp_all add: readTLMessagesSavedDialogs_def writeTLMessagesSavedDialogs_def flag_schema_simps tl_SavedDialog.tl_codec_axioms tl_Message.tl_codec_axioms tl_Chat.tl_codec_axioms
      tl_User.tl_codec_axioms tl_SavedDialog.vector_codec tl_Message.vector_codec tl_Chat.vector_codec
      tl_User.vector_codec)

definition readTLMessagesQuickReplies :: tl_reader where
  "readTLMessagesQuickReplies = read_object
     [(- 963811691, [rd ''quick_replies'' (readVector (Some readTLQuickReply)),
         rd ''messages'' (readVector (Some readTLMessage)),
         rd ''chats'' (readVector (Some readTLChat)), rd ''users'' (readVector (Some readTLUser))]),
      (1603398491, [])]"

definition writeTLMessagesQuickReplies :: tl_writer where
  "writeTLMessagesQuickReplies = write_fobject
     [(- 963811691, [wf ''_'' writeInt32,
         wf ''quick_replies'' (writeVector (Some writeTLQuickReply)),
         wf ''messages'' (writeVector (Some writeTLMessage)),
         wf ''chats'' (writeVector (Some writeTLChat)),
         wf ''users'' (writeVector (Some writeTLUser))]),
      (1603398491, [wf ''_'' writeInt32])]"

definition TL_MessagesQuickReplies_table :: flag_table where
  "TL_MessagesQuickReplies_table =
     [(- 963811691, [Plain (''quick_replies'', readVector (Some readTLQuickReply),
         writeVector (Some writeTLQuickReply), enc_vector (enc_fobject TL_QuickReply_table),
         ok_vector (ok_fobject TL_QuickReply_table)),
        Plain (''messages'', readVector (Some readTLMessage), writeVector (Some writeTLMessage),
         enc_vector (enc_fobject TL_Message_table), ok_vector (ok_fobject TL_Message_table)),
        Plain (''chats'', readVector (Some readTLChat), writeVector (Some writeTLChat),
         enc_vector (enc_fobject TL_Chat_table), ok_vector (ok_fobject TL_Chat_table)),
        Plain (''users'', readVector (Some readTLUser), writeVector (Some writeTLUser),
         enc_vector (enc_fobject TL_User_table), ok_vector (ok_fobject TL_User_table))]),
      (1603398491, [])]"

interpretation tl_MessagesQuickReplies: tl_codec readTLMessagesQuickReplies writeTLMessagesQuickReplies "enc_fobject TL_MessagesQuickReplies_table" "ok_fobject TL_MessagesQuickReplies_table"
  by (rule flag_schema_codec, unfold TL_MessagesQuickReplies_table_def, intro flag_tableI)
    (simp_all add: readTLMessagesQuickReplies_def writeTLMessagesQuickReplies_def flag_schema_simps tl_QuickReply.tl_codec_axioms tl_Message.tl_codec_axioms tl_Chat.tl_codec_axioms
      tl_User.tl_codec_axioms tl_QuickReply.vector_codec tl_Message.vector_codec tl_Chat.vector_codec
      tl_User.vector_codec)

definition readTLMessagesMyStickers :: tl_reader where
  "readTLMessagesMyStickers = read_object
     [(- 83926371, [rd ''count'' readInt32,
         rd ''sets'' (readVector (Some readTLStickerSetCovered))])]"

definition writeTLMessagesMyStickers :: tl_writer where
  "writeTLMessagesMyStickers = write_fobject
     [(- 83926371, [wf ''_'' writeInt32, wf ''count'' writeInt32,
         wf ''sets'' (writeVector (Some writeTLStickerSetCovered))])]"

definition TL_MessagesMyStickers_table :: flag_table where
  "TL_MessagesMyStickers_table =
     [(- 83926371, [Plain (''count'', readInt32, writeInt32, enc_int32, is_VInt),
        Plain (''sets'', readVector (Some readTLStickerSetCovered),
         writeVector (Some writeTLStickerSetCovered),
         enc_vector (enc_fobject TL_StickerSetCovered_table),
         ok_vector (ok_fobject TL_StickerSetCovered_table))])]"

interpretation tl_MessagesMyStickers: tl_codec readTLMessagesMyStickers writeTLMessagesMyStickers "enc_fobject TL_MessagesMyStickers_table" "ok_fobject TL_MessagesMyStickers_table"
  by (rule flag_schema_codec, unfold TL_MessagesMyStickers_table_def, intro flag_tableI)
    (simp_all add: readTLMessagesMyStickers_def writeTLMessagesMyStickers_def flag_schema_simps tl_StickerSetCovered.tl_codec_axioms tl_StickerSetCovered.vector_codec)

definition readTLMessagesInvitedUsers :: tl_reader where
  "readTLMessagesInvitedUsers = read_object
     [(2136862630, [rd ''updates'' readTLUpdates,
         rd ''missing_invitees'' (readVector (Some readTLMissingInvitee))])]"

definition writeTLMessagesInvitedUsers :: tl_writer where
  "writeTLMessagesInvitedUsers = write_fobject
     [(2136862630, [wf ''_'' writeInt32, wf ''updates'' writeTLUpdates,
         wf ''missing_invitees'' (writeVector (Some writeTLMissingInvitee))])]"

definition TL_MessagesInvitedUsers_table :: flag_table where
  "TL_MessagesInvitedUsers_table =
     [(2136862630, [Plain (''updates'', readTLUpdates, writeTLUpdates,
         enc_fobject TL_Updates_table, ok_fobject TL_Updates_table),
        Plain (''missing_invitees'', readVector (Some readTLMissingInvitee),
         writeVector (Some writeTLMissingInvitee),
         enc_vector (enc_fobject TL_MissingInvitee_table),
         ok_vector (ok_fobject TL_MissingInvitee_table))])]"

interpretation tl_MessagesInvitedUsers: tl_codec readTLMessagesInvitedUsers writeTLMessagesInvitedUsers "enc_fobject TL_MessagesInvitedUsers_table" "ok_fobject TL_MessagesInvitedUsers_table"
  by (rule flag_schema_codec, unfold TL_MessagesInvitedUsers_table_def, intro flag_tableI)
    (simp_all add: readTLMessagesInvitedUsers_def writeTLMessagesInvitedUsers_def flag_schema_simps tl_Updates.tl_codec_axioms tl_MissingInvitee.tl_codec_axioms tl_MissingInvitee.vector_codec)

definition readTLMessagesAvailableEffects :: tl_reader where
  "readTLMessagesAvailableEffects = read_object
     [(- 772957605, []),
      (- 1109696146, [rd ''hash'' readInt32,
         rd ''effects'' (readVector (Some readTLAvailableEffect)),
         rd ''documents'' (readVector (Some readTLDocument))])]"

definition writeTLMessagesAvailableEffects :: tl_writer where
  "writeTLMessagesAvailableEffects = write_fobject
     [(- 772957605, [wf ''_'' writeInt32]),
      (- 1109696146, [wf ''_'' writeInt32, wf ''hash'' writeInt32,
         wf ''effects'' (writeVector (Some writeTLAvailableEffect)),
         wf ''documents'' (writeVector (Some writeTLDocument))])]"

definition TL_MessagesAvailableEffects_table :: flag_table where
  "TL_MessagesAvailableEffects_table =
     [(- 772957605, []),
      (- 1109696146, [Plain (''hash'', readInt32, writeInt32, enc_int32, is_VInt),
        Plain (''effects'', readVector (Some readTLAvailableEffect),
         writeVector (Some writeTLAvailableEffect),
         enc_vector (enc_fobject TL_AvailableEffect_table),
         ok_vector (ok_fobject TL_AvailableEffect_table)),
        Plain (''documents'', readVector (Some readTLDocument), writeVector (Some writeTLDocument),
         enc_vector (enc_fobject TL_Document_table), ok_vector (ok_fobject TL_Document_table))])]"

interpretation tl_MessagesAvailableEffects: tl_codec readTLMessagesAvailableEffects writeTLMessagesAvailableEffects "enc_fobject TL_MessagesAvailableEffects_table" "ok_fobject TL_MessagesAvailableEffects_table"
  by (rule flag_schema_codec, unfold TL_MessagesAvailableEffects_table_def, intro flag_tableI)
    (simp_all add: readTLMessagesAvailableEffects_def writeTLMessagesAvailableEffects_def flag_schema_simps tl_AvailableEffect.tl_codec_axioms tl_Document.tl_codec_axioms tl_AvailableEffect.vector_codec
      tl_Document.vector_codec)

definition readTLStarsTransaction :: tl_reader where
  "readTLStarsTransaction = read_object
     [(325426864, [rd ''flags'' readUInt32, set_if ''flags'' 3 ''refund'',
         set_if ''flags'' 4 ''pending'', set_if ''flags'' 6 ''failed'',
         set_if ''flags'' 10 ''gift'', set_if ''flags'' 11 ''reaction'',
         set_if ''flags'' 18 ''stargift_upgrade'', set_if ''flags'' 21 ''business_transfer'',
         set_if ''flags'' 22 ''stargift_resale'', set_if ''flags'' 24 ''posts_search'',
         set_if ''flags'' 25 ''stargift_prepaid_upgrade'',
         set_if ''flags'' 26 ''stargift_drop_original_details'',
         set_if ''flags'' 27 ''phonegroup_message'', set_if ''flags'' 28 ''stargift_auction_bid'',
         set_if ''flags'' 29 ''offer'', rd ''id'' readString, rd ''amount'' readTLStarsAmount,
         rd ''date'' readInt32, rd ''peer'' readTLStarsTransactionPeer,
         rd_if ''flags'' 0 ''title'' readString, rd_if ''flags'' 1 ''description'' readString,
         rd_if ''flags'' 2 ''photo'' readTLWebDocument,
         rd_if ''flags'' 5 ''transaction_date'' readInt32,
         rd_if ''flags'' 5 ''transaction_url'' readString,
         rd_if ''flags'' 7 ''bot_payload'' readByteArray, rd_if ''flags'' 8 ''msg_id'' readInt32,
         rd_if ''flags'' 9 ''extended_media'' (readVector (Some readTLMessageMedia)),
         rd_if ''flags'' 12 ''subscription_period'' readInt32,
         rd_if ''flags'' 13 ''giveaway_post_id'' readInt32,
         rd_if ''flags'' 14 ''stargift'' readTLStarGift,
         rd_if ''flags'' 15 ''floodskip_number'' readInt32,
         rd_if ''flags'' 16 ''starref_commission_permille'' readInt32,
         rd_if ''flags'' 17 ''starref_peer'' readTLPeer,
         rd_if ''flags'' 17 ''starref_amount'' readTLStarsAmount,
         rd_if ''flags'' 19 ''paid_messages'' readInt32,
         rd_if ''flags'' 20 ''premium_gift_months'' readInt32,
         rd_if ''flags'' 23 ''ads_proceeds_from_date'' readInt32,
         rd_if ''flags'' 23 ''ads_proceeds_to_date'' readInt32])]"

definition writeTLStarsTransaction :: tl_writer where
  "writeTLStarsTransaction = write_fobject
     [(325426864, [wf ''_'' writeInt32, wf_flags ''flags'' [(''refund'', 3), (''pending'', 4),
         (''failed'', 6), (''gift'', 10), (''reaction'', 11), (''stargift_upgrade'', 18),
         (''business_transfer'', 21), (''stargift_resale'', 22), (''posts_search'', 24),
         (''stargift_prepaid_upgrade'', 25), (''stargift_drop_original_details'', 26),
         (''phonegroup_message'', 27), (''stargift_auction_bid'', 28), (''offer'', 29), (''title'',
         0), (''description'', 1), (''photo'', 2), (''transaction_date'', 5), (''transaction_url'',
         5), (''bot_payload'', 7), (''msg_id'', 8), (''extended_media'', 9),
         (''subscription_period'', 12), (''giveaway_post_id'', 13), (''stargift'', 14),
         (''floodskip_number'', 15), (''starref_commission_permille'', 16), (''starref_peer'', 17),
         (''starref_amount'', 17), (''paid_messages'', 19), (''premium_gift_months'', 20),
         (''ads_proceeds_from_date'', 23), (''ads_proceeds_to_date'', 23)], wf ''id'' writeString,
         wf ''amount'' writeTLStarsAmount, wf ''date'' writeInt32,
         wf ''peer'' writeTLStarsTransactionPeer, wf_if ''flags'' 0 ''title'' writeString,
         wf_if ''flags'' 1 ''description'' writeString,
         wf_if ''flags'' 2 ''photo'' writeTLWebDocument,
         wf_if ''flags'' 5 ''transaction_date'' writeInt32,
         wf_if ''flags'' 5 ''transaction_url'' writeString,
         wf_if ''flags'' 7 ''bot_payload'' writeByteArray, wf_if ''flags'' 8 ''msg_id'' writeInt32,
         wf_if ''flags'' 9 ''extended_media'' (writeVector (Some writeTLMessageMedia)),
         wf_if ''flags'' 12 ''subscription_period'' writeInt32,
         wf_if ''flags'' 13 ''giveaway_post_id'' writeInt32,
         wf_if ''flags'' 14 ''stargift'' writeTLStarGift,
         wf_if ''flags'' 15 ''floodskip_number'' writeInt32,
         wf_if ''flags'' 16 ''starref_commission_permille'' writeInt32,
         wf_if ''flags'' 17 ''starref_peer'' writeTLPeer,
         wf_if ''flags'' 17 ''starref_amount'' writeTLStarsAmount,
         wf_if ''flags'' 19 ''paid_messages'' writeInt32,
         wf_if ''flags'' 20 ''premium_gift_months'' writeInt32,
         wf_if ''flags'' 23 ''ads_proceeds_from_date'' writeInt32,
         wf_if ''flags'' 23 ''ads_proceeds_to_date'' writeInt32])]"

definition TL_StarsTransaction_table :: flag_table where
  "TL_StarsTransaction_table =
     [(325426864, [Flags ''flags'' [(''refund'', 3), (''pending'', 4), (''failed'', 6), (''gift'',
         10), (''reaction'', 11), (''stargift_upgrade'', 18), (''business_transfer'', 21),
         (''stargift_resale'', 22), (''posts_search'', 24), (''stargift_prepaid_upgrade'', 25),
         (''stargift_drop_original_details'', 26), (''phonegroup_message'', 27),
         (''stargift_auction_bid'', 28), (''offer'', 29), (''title'', 0), (''description'', 1),
         (''photo'', 2), (''transaction_date'', 5), (''transaction_url'', 5), (''bot_payload'', 7),
         (''msg_id'', 8), (''extended_media'', 9), (''subscription_period'', 12),
         (''giveaway_post_id'', 13), (''stargift'', 14), (''floodskip_number'', 15),
         (''starref_commission_permille'', 16), (''starref_peer'', 17), (''starref_amount'', 17),
         (''paid_messages'', 19), (''premium_gift_months'', 20), (''ads_proceeds_from_date'', 23),
         (''ads_proceeds_to_date'', 23)],
        TrueBit ''flags'' 3 ''refund'',
        TrueBit ''flags'' 4 ''pending'',
        TrueBit ''flags'' 6 ''failed'',
        TrueBit ''flags'' 10 ''gift'',
        TrueBit ''flags'' 11 ''reaction'',
        TrueBit ''flags'' 18 ''stargift_upgrade'',
        TrueBit ''flags'' 21 ''business_transfer'',
        TrueBit ''flags'' 22 ''stargift_resale'',
        TrueBit ''flags'' 24 ''posts_search'',
        TrueBit ''flags'' 25 ''stargift_prepaid_upgrade'',
        TrueBit ''flags'' 26 ''stargift_drop_original_details'',
        TrueBit ''flags'' 27 ''phonegroup_message'',
        TrueBit ''flags'' 28 ''stargift_auction_bid'',
        TrueBit ''flags'' 29 ''offer'',
        Plain (''id'', readString, writeString, enc_string, is_short_text),
        Plain (''amount'', readTLStarsAmount, writeTLStarsAmount, enc_fobject TL_StarsAmount_table,
         ok_fobject TL_StarsAmount_table),
        Plain (''date'', readInt32, writeInt32, enc_int32, is_VInt),
        Plain (''peer'', readTLStarsTransactionPeer, writeTLStarsTransactionPeer,
         enc_fobject TL_StarsTransactionPeer_table, ok_fobject TL_StarsTransactionPeer_table),
        Cond ''flags'' 0 (''title'', readString, writeString, enc_string, is_short_text),
        Cond ''flags'' 1 (''description'', readString, writeString, enc_string, is_short_text),
        Cond ''flags'' 2 (''photo'', readTLWebDocument, writeTLWebDocument,
         enc_fobject TL_WebDocument_table, ok_fobject TL_WebDocument_table),
        Cond ''flags'' 5 (''transaction_date'', readInt32, writeInt32, enc_int32, is_VInt),
        Cond ''flags'' 5 (''transaction_url'', readString, writeString, enc_string, is_short_text),
        Cond ''flags'' 7 (''bot_payload'', readByteArray, writeByteArray, enc_bytes,
         is_short_bytes),
        Cond ''flags'' 8 (''msg_id'', readInt32, writeInt32, enc_int32, is_VInt),
        Cond ''flags'' 9 (''extended_media'', readVector (Some readTLMessageMedia),
         writeVector (Some writeTLMessageMedia), enc_vector enc_MessageMedia,
         ok_vector ok_MessageMedia),
        Cond ''flags'' 12 (''subscription_period'', readInt32, writeInt32, enc_int32, is_VInt),
        Cond ''flags'' 13 (''giveaway_post_id'', readInt32, writeInt32, enc_int32, is_VInt),
        Cond ''flags'' 14 (''stargift'', readTLStarGift, writeTLStarGift,
         enc_fobject TL_StarGift_table, ok_fobject TL_StarGift_table),
        Cond ''flags'' 15 (''floodskip_number'', readInt32, writeInt32, enc_int32, is_VInt),
        Cond ''flags'' 16 (''starref_commission_permille'', readInt32, writeInt32, enc_int32,
         is_VInt),
        Cond ''flags'' 17 (''starref_peer'', readTLPeer, writeTLPeer, enc_fobject TL_Peer_table,
         ok_fobject TL_Peer_table),
        Cond ''flags'' 17 (''starref_amount'', readTLStarsAmount, writeTLStarsAmount,
         enc_fobject TL_StarsAmount_table, ok_fobject TL_StarsAmount_table),
        Cond ''flags'' 19 (''paid_messages'', readInt32, writeInt32, enc_int32, is_VInt),
        Cond ''flags'' 20 (''premium_gift_months'', readInt32, writeInt32, enc_int32, is_VInt),
        Cond ''flags'' 23 (''ads_proceeds_from_date'', readInt32, writeInt32, enc_int32, is_VInt),
        Cond ''flags'' 23 (''ads_proceeds_to_date'', readInt32, writeInt32, enc_int32, is_VInt)])]"

interpretation tl_StarsTransaction: tl_codec readTLStarsTransaction writeTLStarsTransaction "enc_fobject TL_StarsTransaction_table" "ok_fobject TL_StarsTransaction_table"
  by (rule flag_schema_codec, unfold TL_StarsTransaction_table_def, intro flag_tableI)
    (simp_all add: readTLStarsTransaction_def writeTLStarsTransaction_def flag_schema_simps tl_StarsAmount.tl_codec_axioms tl_StarsTransactionPeer.tl_codec_axioms
      tl_WebDocument.tl_codec_axioms tl_MessageMedia.tl_codec_axioms tl_StarGift.tl_codec_axioms
      tl_Peer.tl_codec_axioms tl_MessageMedia.vector_codec)

definition readTLStarsSubscription :: tl_reader where
  "readTLStarsSubscription = read_object
     [(779004698, [rd ''flags'' readUInt32, set_if ''flags'' 0 ''canceled'',
         set_if ''flags'' 1 ''can_refulfill'', set_if ''flags'' 2 ''missing_balance'',
         set_if ''flags'' 7 ''bot_canceled'', rd ''id'' readString, rd ''peer'' readTLPeer,
         rd ''until_date'' readInt32, rd ''pricing'' readTLStarsSubscriptionPricing,
         rd_if ''flags'' 3 ''chat_invite_hash'' readString, rd_if ''flags'' 4 ''title'' readString,
         rd_if ''flags'' 5 ''photo'' readTLWebDocument,
         rd_if ''flags'' 6 ''invoice_slug'' readString])]"

definition writeTLStarsSubscription :: tl_writer where
  "writeTLStarsSubscription = write_fobject
     [(779004698, [wf ''_'' writeInt32, wf_flags ''flags'' [(''canceled'', 0), (''can_refulfill'',
         1), (''missing_balance'', 2), (''bot_canceled'', 7), (''chat_invite_hash'', 3),
         (''title'', 4), (''photo'', 5), (''invoice_slug'', 6)], wf ''id'' writeString,
         wf ''peer'' writeTLPeer, wf ''until_date'' writeInt32,
         wf ''pricing'' writeTLStarsSubscriptionPricing,
         wf_if ''flags'' 3 ''chat_invite_hash'' writeString,
         wf_if ''flags'' 4 ''title'' writeString, wf_if ''flags'' 5 ''photo'' writeTLWebDocument,
         wf_if ''flags'' 6 ''invoice_slug'' writeString])]"

definition TL_StarsSubscription_table :: flag_table where
  "TL_StarsSubscription_table =
     [(779004698, [Flags ''flags'' [(''canceled'', 0), (''can_refulfill'', 1),
         (''missing_balance'', 2), (''bot_canceled'', 7), (''chat_invite_hash'', 3), (''title'',
         4), (''photo'', 5), (''invoice_slug'', 6)],
        TrueBit ''flags'' 0 ''canceled'',
        TrueBit ''flags'' 1 ''can_refulfill'',
        TrueBit ''flags'' 2 ''missing_balance'',
        TrueBit ''flags'' 7 ''bot_canceled'',
        Plain (''id'', readString, writeString, enc_string, is_short_text),
        Plain (''peer'', readTLPeer, writeTLPeer, enc_fobject TL_Peer_table,
         ok_fobject TL_Peer_table),
        Plain (''until_date'', readInt32, writeInt32, enc_int32, is_VInt),
        Plain (''pricing'', readTLStarsSubscriptionPricing, writeTLStarsSubscriptionPricing,
         enc_fobject TL_StarsSubscriptionPricing_table,
         ok_fobject TL_StarsSubscriptionPricing_table),
        Cond ''flags'' 3 (''chat_invite_hash'', readString, writeString, enc_string, is_short_text),
        Cond ''flags'' 4 (''title'', readString, writeString, enc_string, is_short_text),
        Cond ''flags'' 5 (''photo'', readTLWebDocument, writeTLWebDocument,
         enc_fobject TL_WebDocument_table, ok_fobject TL_WebDocument_table),
        Cond ''flags'' 6 (''invoice_slug'', readString, writeString, enc_string, is_short_text)])]"

interpretation tl_StarsSubscription: tl_codec readTLStarsSubscription writeTLStarsSubscription "enc_fobject TL_StarsSubscription_table" "ok_fobject TL_StarsSubscription_table"
  by (rule flag_schema_codec, unfold TL_StarsSubscription_table_def, intro flag_tableI)
    (simp_all add: readTLStarsSubscription_def writeTLStarsSubscription_def flag_schema_simps tl_Peer.tl_codec_axioms tl_StarsSubscriptionPricing.tl_codec_axioms tl_WebDocument.tl_codec_axioms)

definition readTLPaymentsStarsStatus :: tl_reader where
  "readTLPaymentsStarsStatus = read_object
     [(1822222573, [rd ''flags'' readUInt32, rd ''balance'' readTLStarsAmount,
         rd_if ''flags'' 1 ''subscriptions'' (readVector (Some readTLStarsSubscription)),
         rd_if ''flags'' 2 ''subscriptions_next_offset'' readString,
         rd_if ''flags'' 4 ''subscriptions_missing_balance'' readInt64,
         rd_if ''flags'' 3 ''history'' (readVector (Some readTLStarsTransaction)),
         rd_if ''flags'' 0 ''next_offset'' readString, rd ''chats'' (readVector (Some readTLChat)),
         rd ''users'' (readVector (Some readTLUser))])]"

definition writeTLPaymentsStarsStatus :: tl_writer where
  "writeTLPaymentsStarsStatus = write_fobject
     [(1822222573, [wf ''_'' writeInt32, wf_flags ''flags'' [(''subscriptions'', 1),
         (''subscriptions_next_offset'', 2), (''subscriptions_missing_balance'', 4), (''history'',
         3), (''next_offset'', 0)], wf ''balance'' writeTLStarsAmount,
         wf_if ''flags'' 1 ''subscriptions'' (writeVector (Some writeTLStarsSubscription)),
         wf_if ''flags'' 2 ''subscriptions_next_offset'' writeString,
         wf_if ''flags'' 4 ''subscriptions_missing_balance'' writeInt64,
         wf_if ''flags'' 3 ''history'' (writeVector (Some writeTLStarsTransaction)),
         wf_if ''flags'' 0 ''next_offset'' writeString,
         wf ''chats'' (writeVector (Some writeTLChat)),
         wf ''users'' (writeVector (Some writeTLUser))])]"

definition TL_PaymentsStarsStatus_table :: flag_table where
  "TL_PaymentsStarsStatus_table =
     [(1822222573, [Flags ''flags'' [(''subscriptions'', 1), (''subscriptions_next_offset'', 2),
         (''subscriptions_missing_balance'', 4), (''history'', 3), (''next_offset'', 0)],
        Plain (''balance'', readTLStarsAmount, writeTLStarsAmount,
         enc_fobject TL_StarsAmount_table, ok_fobject TL_StarsAmount_table),
        Cond ''flags'' 1 (''subscriptions'', readVector (Some readTLStarsSubscription),
         writeVector (Some writeTLStarsSubscription),
         enc_vector (enc_fobject TL_StarsSubscription_table),
         ok_vector (ok_fobject TL_StarsSubscription_table)),
        Cond ''flags'' 2 (''subscriptions_next_offset'', readString, writeString, enc_string,
         is_short_text),
        Cond ''flags'' 4 (''subscriptions_missing_balance'', readInt64, writeInt64, enc_int64,
         is_VLong),
        Cond ''flags'' 3 (''history'', readVector (Some readTLStarsTransaction),
         writeVector (Some writeTLStarsTransaction),
         enc_vector (enc_fobject TL_StarsTransaction_table),
         ok_vector (ok_fobject TL_StarsTransaction_table)),
        Cond ''flags'' 0 (''next_offset'', readString, writeString, enc_string, is_short_text),
        Plain (''chats'', readVector (Some readTLChat), writeVector (Some writeTLChat),
         enc_vector (enc_fobject TL_Chat_table), ok_vector (ok_fobject TL_Chat_table)),
        Plain (''users'', readVector (Some readTLUser), writeVector (Some writeTLUser),
         enc_vector (enc_fobject TL_User_table), ok_vector (ok_fobject TL_User_table))])]"

interpretation tl_PaymentsStarsStatus: tl_codec readTLPaymentsStarsStatus writeTLPaymentsStarsStatus "enc_fobject TL_PaymentsStarsStatus_table" "ok_fobject TL_PaymentsStarsStatus_table"
  by (rule flag_schema_codec, unfold TL_PaymentsStarsStatus_table_def, intro flag_tableI)
    (simp_all add: readTLPaymentsStarsStatus_def writeTLPaymentsStarsStatus_def flag_schema_simps tl_StarsAmount.tl_codec_axioms tl_StarsSubscription.tl_codec_axioms
      tl_StarsTransaction.tl_codec_axioms tl_Chat.tl_codec_axioms tl_User.tl_codec_axioms
      tl_StarsSubscription.vector_codec tl_StarsTransaction.vector_codec tl_Chat.vector_codec
      tl_User.vector_codec)

definition readTLFoundStory :: tl_reader where
  "readTLFoundStory = read_object
     [(- 394605632, [rd ''peer'' readTLPeer, rd ''story'' readTLStoryItem])]"

definition writeTLFoundStory :: tl_writer where
  "writeTLFoundStory = write_fobject
     [(- 394605632, [wf ''_'' writeInt32, wf ''peer'' writeTLPeer, wf ''story'' writeTLStoryItem])]"

definition TL_FoundStory_table :: flag_table where
  "TL_FoundStory_table =
     [(- 394605632, [Plain (''peer'', readTLPeer, writeTLPeer, enc_fobject TL_Peer_table,
         ok_fobject TL_Peer_table),
        Plain (''story'', readTLStoryItem, writeTLStoryItem, enc_StoryItem, ok_StoryItem)])]"

interpretation tl_FoundStory: tl_codec readTLFoundStory writeTLFoundStory "enc_fobject TL_FoundStory_table" "ok_fobject TL_FoundStory_table"
  by (rule flag_schema_codec, unfold TL_FoundStory_table_def, intro flag_tableI)
    (simp_all add: readTLFoundStory_def writeTLFoundStory_def flag_schema_simps tl_Peer.tl_codec_axioms tl_StoryItem.tl_codec_axioms)

definition readTLStoriesFoundStories :: tl_reader where
  "readTLStoriesFoundStories = read_object
     [(- 488736969, [rd ''flags'' readUInt32, rd ''count'' readInt32,
         rd ''stories'' (readVector (Some readTLFoundStory)),
         rd_if ''flags'' 0 ''next_offset'' readString, rd ''chats'' (readVector (Some readTLChat)),
         rd ''users'' (readVector (Some readTLUser))])]"

definition writeTLStoriesFoundStories :: tl_writer where
  "writeTLStoriesFoundStories = write_fobject
     [(- 488736969, [wf ''_'' writeInt32, wf_flags ''flags'' [(''next_offset'', 0)],
         wf ''count'' writeInt32, wf ''stories'' (writeVector (Some writeTLFoundStory)),
         wf_if ''flags'' 0 ''next_offset'' writeString,
         wf ''chats'' (writeVector (Some writeTLChat)),
         wf ''users'' (writeVector (Some writeTLUser))])]"

definition TL_StoriesFoundStories_table :: flag_table where
  "TL_StoriesFoundStories_table =
     [(- 488736969, [Flags ''flags'' [(''next_offset'', 0)],
        Plain (''count'', readInt32, writeInt32, enc_int32, is_VInt),
        Plain (''stories'', readVector (Some readTLFoundStory),
         writeVector (Some writeTLFoundStory), enc_vector (enc_fobject TL_FoundStory_table),
         ok_vector (ok_fobject TL_FoundStory_table)),
        Cond ''flags'' 0 (''next_offset'', readString, writeString, enc_string, is_short_text),
        Plain (''chats'', readVector (Some readTLChat), writeVector (Some writeTLChat),
         enc_vector (enc_fobject TL_Chat_table), ok_vector (ok_fobject TL_Chat_table)),
        Plain (''users'', readVector (Some readTLUser), writeVector (Some writeTLUser),
         enc_vector (enc_fobject TL_User_table), ok_vector (ok_fobject TL_User_table))])]"

interpretation tl_StoriesFoundStories: tl_codec readTLStoriesFoundStories writeTLStoriesFoundStories "enc_fobject TL_StoriesFoundStories_table" "ok_fobject TL_StoriesFoundStories_table"
  by (rule flag_schema_codec, unfold TL_StoriesFoundStories_table_def, intro flag_tableI)
    (simp_all add: readTLStoriesFoundStories_def writeTLStoriesFoundStories_def flag_schema_simps tl_FoundStory.tl_codec_axioms tl_Chat.tl_codec_axioms tl_User.tl_codec_axioms
      tl_FoundStory.vector_codec tl_Chat.vector_codec tl_User.vector_codec)

definition readTLPaymentsStarsRevenueStats :: tl_reader where
  "readTLPaymentsStarsRevenueStats = read_object
     [(1814066038, [rd ''flags'' readUInt32,
         rd_if ''flags'' 0 ''top_hours_graph'' readTLStatsGraph,
         rd ''revenue_graph'' readTLStatsGraph, rd ''status'' readTLStarsRevenueStatus,
         rd ''usd_rate'' readDouble])]"

definition writeTLPaymentsStarsRevenueStats :: tl_writer where
  "writeTLPaymentsStarsRevenueStats = write_fobject
     [(1814066038, [wf ''_'' writeInt32, wf_flags ''flags'' [(''top_hours_graph'', 0)],
         wf_if ''flags'' 0 ''top_hours_graph'' writeTLStatsGraph,
         wf ''revenue_graph'' writeTLStatsGraph, wf ''status'' writeTLStarsRevenueStatus,
         wf ''usd_rate'' writeDouble])]"

definition TL_PaymentsStarsRevenueStats_table :: flag_table where
  "TL_PaymentsStarsRevenueStats_table =
     [(1814066038, [Flags ''flags'' [(''top_hours_graph'', 0)],
        Cond ''flags'' 0 (''top_hours_graph'', readTLStatsGraph, writeTLStatsGraph,
         enc_fobject TL_StatsGraph_table, ok_fobject TL_StatsGraph_table),
        Plain (''revenue_graph'', readTLStatsGraph, writeTLStatsGraph,
         enc_fobject TL_StatsGraph_table, ok_fobject TL_StatsGraph_table),
        Plain (''status'', readTLStarsRevenueStatus, writeTLStarsRevenueStatus,
         enc_fobject TL_StarsRevenueStatus_table, ok_fobject TL_StarsRevenueStatus_table),
        Plain (''usd_rate'', readDouble, writeDouble, enc_double, is_VDouble)])]"

interpretation tl_PaymentsStarsRevenueStats: tl_codec readTLPaymentsStarsRevenueStats writeTLPaymentsStarsRevenueStats "enc_fobject TL_PaymentsStarsRevenueStats_table" "ok_fobject TL_PaymentsStarsRevenueStats_table"
  by (rule flag_schema_codec, unfold TL_PaymentsStarsRevenueStats_table_def, intro flag_tableI)
    (simp_all add: readTLPaymentsStarsRevenueStats_def writeTLPaymentsStarsRevenueStats_def flag_schema_simps tl_StatsGraph.tl_codec_axioms tl_StarsRevenueStatus.tl_codec_axioms)

definition readTLBotPreviewMedia :: tl_reader where
  "readTLBotPreviewMedia = read_object
     [(602479523, [rd ''date'' readInt32, rd ''media'' readTLMessageMedia])]"

definition writeTLBotPreviewMedia :: tl_writer where
  "writeTLBotPreviewMedia = write_fobject
     [(602479523, [wf ''_'' writeInt32, wf ''date'' writeInt32, wf ''media'' writeTLMessageMedia])]"

definition TL_BotPreviewMedia_table :: flag_table where
  "TL_BotPreviewMedia_table =
     [(602479523, [Plain (''date'', readInt32, writeInt32, enc_int32, is_VInt),
        Plain (''media'', readTLMessageMedia, writeTLMessageMedia, enc_MessageMedia,
         ok_MessageMedia)])]"

interpretation tl_BotPreviewMedia: tl_codec readTLBotPreviewMedia writeTLBotPreviewMedia "enc_fobject TL_BotPreviewMedia_table" "ok_fobject TL_BotPreviewMedia_table"
  by (rule flag_schema_codec, unfold TL_BotPreviewMedia_table_def, intro flag_tableI)
    (simp_all add: readTLBotPreviewMedia_def writeTLBotPreviewMedia_def flag_schema_simps tl_MessageMedia.tl_codec_axioms)

definition readTLBotsPreviewInfo :: tl_reader where
  "readTLBotsPreviewInfo = read_object
     [(212278628, [rd ''media'' (readVector (Some readTLBotPreviewMedia)),
         rd ''lang_codes'' (readVector (Some readString))])]"

definition writeTLBotsPreviewInfo :: tl_writer where
  "writeTLBotsPreviewInfo = write_fobject
     [(212278628, [wf ''_'' writeInt32, wf ''media'' (writeVector (Some writeTLBotPreviewMedia)),
         wf ''lang_codes'' (writeVector (Some writeString))])]"

definition TL_BotsPreviewInfo_table :: flag_table where
  "TL_BotsPreviewInfo_table =
     [(212278628, [Plain (''media'', readVector (Some readTLBotPreviewMedia),
         writeVector (Some writeTLBotPreviewMedia),
         enc_vector (enc_fobject TL_BotPreviewMedia_table),
         ok_vector (ok_fobject TL_BotPreviewMedia_table)),
        Plain (''lang_codes'', readVector (Some readString), writeVector (Some writeString),
         enc_vector enc_string, ok_vector is_short_text)])]"

interpretation tl_BotsPreviewInfo: tl_codec readTLBotsPreviewInfo writeTLBotsPreviewInfo "enc_fobject TL_BotsPreviewInfo_table" "ok_fobject TL_BotsPreviewInfo_table"
  by (rule flag_schema_codec, unfold TL_BotsPreviewInfo_table_def, intro flag_tableI)
    (simp_all add: readTLBotsPreviewInfo_def writeTLBotsPreviewInfo_def flag_schema_simps tl_BotPreviewMedia.tl_codec_axioms tl_BotPreviewMedia.vector_codec)

definition readTLPaymentsStarGifts :: tl_reader where
  "readTLPaymentsStarGifts = read_object
     [(- 1551326360, []),
      (785918357, [rd ''hash'' readInt32, rd ''gifts'' (readVector (Some readTLStarGift)),
         rd ''chats'' (readVector (Some readTLChat)),
         rd ''users'' (readVector (Some readTLUser))])]"

definition writeTLPaymentsStarGifts :: tl_writer where
  "writeTLPaymentsStarGifts = write_fobject
     [(- 1551326360, [wf ''_'' writeInt32]),
      (785918357, [wf ''_'' writeInt32, wf ''hash'' writeInt32,
         wf ''gifts'' (writeVector (Some writeTLStarGift)),
         wf ''chats'' (writeVector (Some writeTLChat)),
         wf ''users'' (writeVector (Some writeTLUser))])]"

definition TL_PaymentsStarGifts_table :: flag_table where
  "TL_PaymentsStarGifts_table =
     [(- 1551326360, []),
      (785918357, [Plain (''hash'', readInt32, writeInt32, enc_int32, is_VInt),
        Plain (''gifts'', readVector (Some readTLStarGift), writeVector (Some writeTLStarGift),
         enc_vector (enc_fobject TL_StarGift_table), ok_vector (ok_fobject TL_StarGift_table)),
        Plain (''chats'', readVector (Some readTLChat), writeVector (Some writeTLChat),
         enc_vector (enc_fobject TL_Chat_table), ok_vector (ok_fobject TL_Chat_table)),
        Plain (''users'', readVector (Some readTLUser), writeVector (Some writeTLUser),
         enc_vector (enc_fobject TL_User_table), ok_vector (ok_fobject TL_User_table))])]"

interpretation tl_PaymentsStarGifts: tl_codec readTLPaymentsStarGifts writeTLPaymentsStarGifts "enc_fobject TL_PaymentsStarGifts_table" "ok_fobject TL_PaymentsStarGifts_table"
  by (rule flag_schema_codec, unfold TL_PaymentsStarGifts_table_def, intro flag_tableI)
    (simp_all add: readTLPaymentsStarGifts_def writeTLPaymentsStarGifts_def flag_schema_simps tl_StarGift.tl_codec_axioms tl_Chat.tl_codec_axioms tl_User.tl_codec_axioms tl_StarGift.vector_codec
      tl_Chat.vector_codec tl_User.vector_codec)

definition readTLMessagesPreparedInlineMessage :: tl_reader where
  "readTLMessagesPreparedInlineMessage = read_object
     [(- 11046771, [rd ''query_id'' readInt64, rd ''result'' readTLBotInlineResult,
         rd ''peer_types'' (readVector (Some readTLInlineQueryPeerType)),
         rd ''cache_time'' readInt32, rd ''users'' (readVector (Some readTLUser))])]"

definition writeTLMessagesPreparedInlineMessage :: tl_writer where
  "writeTLMessagesPreparedInlineMessage = write_fobject
     [(- 11046771, [wf ''_'' writeInt32, wf ''query_id'' writeInt64,
         wf ''result'' writeTLBotInlineResult,
         wf ''peer_types'' (writeVector (Some writeTLInlineQueryPeerType)),
         wf ''cache_time'' writeInt32, wf ''users'' (writeVector (Some writeTLUser))])]"

definition TL_MessagesPreparedInlineMessage_table :: flag_table where
  "TL_MessagesPreparedInlineMessage_table =
     [(- 11046771, [Plain (''query_id'', readInt64, writeInt64, enc_int64, is_VLong),
        Plain (''result'', readTLBotInlineResult, writeTLBotInlineResult,
         enc_fobject TL_BotInlineResult_table, ok_fobject TL_BotInlineResult_table),
        Plain (''peer_types'', readVector (Some readTLInlineQueryPeerType),
         writeVector (Some writeTLInlineQueryPeerType),
         enc_vector (enc_fobject TL_InlineQueryPeerType_table),
         ok_vector (ok_fobject TL_InlineQueryPeerType_table)),
        Plain (''cache_time'', readInt32, writeInt32, enc_int32, is_VInt),
        Plain (''users'', readVector (Some readTLUser), writeVector (Some writeTLUser),
         enc_vector (enc_fobject TL_User_table), ok_vector (ok_fobject TL_User_table))])]"

interpretation tl_MessagesPreparedInlineMessage: tl_codec readTLMessagesPreparedInlineMessage writeTLMessagesPreparedInlineMessage "enc_fobject TL_MessagesPreparedInlineMessage_table" "ok_fobject TL_MessagesPreparedInlineMessage_table"
  by (rule flag_schema_codec, unfold TL_MessagesPreparedInlineMessage_table_def, intro flag_tableI)
    (simp_all add: readTLMessagesPreparedInlineMessage_def writeTLMessagesPreparedInlineMessage_def flag_schema_simps tl_BotInlineResult.tl_codec_axioms tl_InlineQueryPeerType.tl_codec_axioms tl_User.tl_codec_axioms
      tl_InlineQueryPeerType.vector_codec tl_User.vector_codec)

definition readTLMessagesFoundStickers :: tl_reader where
  "readTLMessagesFoundStickers = read_object
     [(1611711796, [rd ''flags'' readUInt32, rd_if ''flags'' 0 ''next_offset'' readInt32]),
      (- 2100698480, [rd ''flags'' readUInt32, rd_if ''flags'' 0 ''next_offset'' readInt32,
         rd ''hash'' readInt64, rd ''stickers'' (readVector (Some readTLDocument))])]"

definition writeTLMessagesFoundStickers :: tl_writer where
  "writeTLMessagesFoundStickers = write_fobject
     [(1611711796, [wf ''_'' writeInt32, wf_flags ''flags'' [(''next_offset'', 0)],
         wf_if ''flags'' 0 ''next_offset'' writeInt32]),
      (- 2100698480, [wf ''_'' writeInt32, wf_flags ''flags'' [(''next_offset'', 0)],
         wf_if ''flags'' 0 ''next_offset'' writeInt32, wf ''hash'' writeInt64,
         wf ''stickers'' (writeVector (Some writeTLDocument))])]"

definition TL_MessagesFoundStickers_table :: flag_table where
  "TL_MessagesFoundStickers_table =
     [(1611711796, [Flags ''flags'' [(''next_offset'', 0)],
        Cond ''flags'' 0 (''next_offset'', readInt32, writeInt32, enc_int32, is_VInt)]),
      (- 2100698480, [Flags ''flags'' [(''next_offset'', 0)],
        Cond ''flags'' 0 (''next_offset'', readInt32, writeInt32, enc_int32, is_VInt),
        Plain (''hash'', readInt64, writeInt64, enc_int64, is_VLong),
        Plain (''stickers'', readVector (Some readTLDocument), writeVector (Some writeTLDocument),
         enc_vector (enc_fobject TL_Document_table), ok_vector (ok_fobject TL_Document_table))])]"

interpretation tl_MessagesFoundStickers: tl_codec readTLMessagesFoundStickers writeTLMessagesFoundStickers "enc_fobject TL_MessagesFoundStickers_table" "ok_fobject TL_MessagesFoundStickers_table"
  by (rule flag_schema_codec, unfold TL_MessagesFoundStickers_table_def, intro flag_tableI)
    (simp_all add: readTLMessagesFoundStickers_def writeTLMessagesFoundStickers_def flag_schema_simps tl_Document.tl_codec_axioms tl_Document.vector_codec)

definition readTLPaymentsStarGiftUpgradePreview :: tl_reader where
  "readTLPaymentsStarGiftUpgradePreview = read_object
     [(1038213101, [rd ''sample_attributes'' (readVector (Some readTLStarGiftAttribute)),
         rd ''prices'' (readVector (Some readTLStarGiftUpgradePrice)),
         rd ''next_prices'' (readVector (Some readTLStarGiftUpgradePrice))])]"

definition writeTLPaymentsStarGiftUpgradePreview :: tl_writer where
  "writeTLPaymentsStarGiftUpgradePreview = write_fobject
     [(1038213101, [wf ''_'' writeInt32,
         wf ''sample_attributes'' (writeVector (Some writeTLStarGiftAttribute)),
         wf ''prices'' (writeVector (Some writeTLStarGiftUpgradePrice)),
         wf ''next_prices'' (writeVector (Some writeTLStarGiftUpgradePrice))])]"

definition TL_PaymentsStarGiftUpgradePreview_table :: flag_table where
  "TL_PaymentsStarGiftUpgradePreview_table =
     [(1038213101, [Plain (''sample_attributes'', readVector (Some readTLStarGiftAttribute),
         writeVector (Some writeTLStarGiftAttribute),
         enc_vector (enc_fobject TL_StarGiftAttribute_table),
         ok_vector (ok_fobject TL_StarGiftAttribute_table)),
        Plain (''prices'', readVector (Some readTLStarGiftUpgradePrice),
         writeVector (Some writeTLStarGiftUpgradePrice),
         enc_vector (enc_fobject TL_StarGiftUpgradePrice_table),
         ok_vector (ok_fobject TL_StarGiftUpgradePrice_table)),
        Plain (''next_prices'', readVector (Some readTLStarGiftUpgradePrice),
         writeVector (Some writeTLStarGiftUpgradePrice),
         enc_vector (enc_fobject TL_StarGiftUpgradePrice_table),
         ok_vector (ok_fobject TL_StarGiftUpgradePrice_table))])]"

interpretation tl_PaymentsStarGiftUpgradePreview: tl_codec readTLPaymentsStarGiftUpgradePreview writeTLPaymentsStarGiftUpgradePreview "enc_fobject TL_PaymentsStarGiftUpgradePreview_table" "ok_fobject TL_PaymentsStarGiftUpgradePreview_table"
  by (rule flag_schema_codec, unfold TL_PaymentsStarGiftUpgradePreview_table_def, intro flag_tableI)
    (simp_all add: readTLPaymentsStarGiftUpgradePreview_def writeTLPaymentsStarGiftUpgradePreview_def flag_schema_simps tl_StarGiftAttribute.tl_codec_axioms tl_StarGiftUpgradePrice.tl_codec_axioms
      tl_StarGiftAttribute.vector_codec tl_StarGiftUpgradePrice.vector_codec)

definition readTLPaymentsUniqueStarGift :: tl_reader where
  "readTLPaymentsUniqueStarGift = read_object
     [(1097619176, [rd ''gift'' readTLStarGift, rd ''chats'' (readVector (Some readTLChat)),
         rd ''users'' (readVector (Some readTLUser))])]"

definition writeTLPaymentsUniqueStarGift :: tl_writer where
  "writeTLPaymentsUniqueStarGift = write_fobject
     [(1097619176, [wf ''_'' writeInt32, wf ''gift'' writeTLStarGift,
         wf ''chats'' (writeVector (Some writeTLChat)),
         wf ''users'' (writeVector (Some writeTLUser))])]"

definition TL_PaymentsUniqueStarGift_table :: flag_table where
  "TL_PaymentsUniqueStarGift_table =
     [(1097619176, [Plain (''gift'', readTLStarGift, writeTLStarGift,
         enc_fobject TL_StarGift_table, ok_fobject TL_StarGift_table),
        Plain (''chats'', readVector (Some readTLChat), writeVector (Some writeTLChat),
         enc_vector (enc_fobject TL_Chat_table), ok_vector (ok_fobject TL_Chat_table)),
        Plain (''users'', readVector (Some readTLUser), writeVector (Some writeTLUser),
         enc_vector (enc_fobject TL_User_table), ok_vector (ok_fobject TL_User_table))])]"

interpretation tl_PaymentsUniqueStarGift: tl_codec readTLPaymentsUniqueStarGift writeTLPaymentsUniqueStarGift "enc_fobject TL_PaymentsUniqueStarGift_table" "ok_fobject TL_PaymentsUniqueStarGift_table"
  by (rule flag_schema_codec, unfold TL_PaymentsUniqueStarGift_table_def, intro flag_tableI)
    (simp_all add: readTLPaymentsUniqueStarGift_def writeTLPaymentsUniqueStarGift_def flag_schema_simps tl_StarGift.tl_codec_axioms tl_Chat.tl_codec_axioms tl_User.tl_codec_axioms tl_Chat.vector_codec
      tl_User.vector_codec)

definition readTLMessagesWebPagePreview :: tl_reader where
  "readTLMessagesWebPagePreview = read_object
     [(- 1936029524, [rd ''media'' readTLMessageMedia, rd ''chats'' (readVector (Some readTLChat)),
         rd ''users'' (readVector (Some readTLUser))])]"

definition writeTLMessagesWebPagePreview :: tl_writer where
  "writeTLMessagesWebPagePreview = write_fobject
     [(- 1936029524, [wf ''_'' writeInt32, wf ''media'' writeTLMessageMedia,
         wf ''chats'' (writeVector (Some writeTLChat)),
         wf ''users'' (writeVector (Some writeTLUser))])]"

definition TL_MessagesWebPagePreview_table :: flag_table where
  "TL_MessagesWebPagePreview_table =
     [(- 1936029524, [Plain (''media'', readTLMessageMedia, writeTLMessageMedia, enc_MessageMedia,
         ok_MessageMedia),
        Plain (''chats'', readVector (Some readTLChat), writeVector (Some writeTLChat),
         enc_vector (enc_fobject TL_Chat_table), ok_vector (ok_fobject TL_Chat_table)),
        Plain (''users'', readVector (Some readTLUser), writeVector (Some writeTLUser),
         enc_vector (enc_fobject TL_User_table), ok_vector (ok_fobject TL_User_table))])]"

interpretation tl_MessagesWebPagePreview: tl_codec readTLMessagesWebPagePreview writeTLMessagesWebPagePreview "enc_fobject TL_MessagesWebPagePreview_table" "ok_fobject TL_MessagesWebPagePreview_table"
  by (rule flag_schema_codec, unfold TL_MessagesWebPagePreview_table_def, intro flag_tableI)
    (simp_all add: readTLMessagesWebPagePreview_def writeTLMessagesWebPagePreview_def flag_schema_simps tl_MessageMedia.tl_codec_axioms tl_Chat.tl_codec_axioms tl_User.tl_codec_axioms tl_Chat.vector_codec
      tl_User.vector_codec)

definition readTLSavedStarGift :: tl_reader where
  "readTLSavedStarGift = read_object
     [(1105150972, [rd ''flags'' readUInt32, set_if ''flags'' 0 ''name_hidden'',
         set_if ''flags'' 5 ''unsaved'', set_if ''flags'' 9 ''refunded'',
         set_if ''flags'' 10 ''can_upgrade'', set_if ''flags'' 12 ''pinned_to_top'',
         set_if ''flags'' 17 ''upgrade_separate'', rd_if ''flags'' 1 ''from_id'' readTLPeer,
         rd ''date'' readInt32, rd ''gift'' readTLStarGift,
         rd_if ''flags'' 2 ''message'' readTLTextWithEntities,
         rd_if ''flags'' 3 ''msg_id'' readInt32, rd_if ''flags'' 11 ''saved_id'' readInt64,
         rd_if ''flags'' 4 ''convert_stars'' readInt64,
         rd_if ''flags'' 6 ''upgrade_stars'' readInt64,
         rd_if ''flags'' 7 ''can_export_at'' readInt32,
         rd_if ''flags'' 8 ''transfer_stars'' readInt64,
         rd_if ''flags'' 13 ''can_transfer_at'' readInt32,
         rd_if ''flags'' 14 ''can_resell_at'' readInt32,
         rd_if ''flags'' 15 ''collection_id'' (readVector (Some readInt32)),
         rd_if ''flags'' 16 ''prepaid_upgrade_hash'' readString,
         rd_if ''flags'' 18 ''drop_original_details_stars'' readInt64,
         rd_if ''flags'' 19 ''gift_num'' readInt32,
         rd_if ''flags'' 20 ''can_craft_at'' readInt32])]"

definition writeTLSavedStarGift :: tl_writer where
  "writeTLSavedStarGift = write_fobject
     [(1105150972, [wf ''_'' writeInt32, wf_flags ''flags'' [(''name_hidden'', 0), (''unsaved'',
         5), (''refunded'', 9), (''can_upgrade'', 10), (''pinned_to_top'', 12),
         (''upgrade_separate'', 17), (''from_id'', 1), (''message'', 2), (''msg_id'', 3),
         (''saved_id'', 11), (''convert_stars'', 4), (''upgrade_stars'', 6), (''can_export_at'',
         7), (''transfer_stars'', 8), (''can_transfer_at'', 13), (''can_resell_at'', 14),
         (''collection_id'', 15), (''prepaid_upgrade_hash'', 16), (''drop_original_details_stars'',
         18), (''gift_num'', 19), (''can_craft_at'', 20)],
         wf_if ''flags'' 1 ''from_id'' writeTLPeer, wf ''date'' writeInt32,
         wf ''gift'' writeTLStarGift, wf_if ''flags'' 2 ''message'' writeTLTextWithEntities,
         wf_if ''flags'' 3 ''msg_id'' writeInt32, wf_if ''flags'' 11 ''saved_id'' writeInt64,
         wf_if ''flags'' 4 ''convert_stars'' writeInt64,
         wf_if ''flags'' 6 ''upgrade_stars'' writeInt64,
         wf_if ''flags'' 7 ''can_export_at'' writeInt32,
         wf_if ''flags'' 8 ''transfer_stars'' writeInt64,
         wf_if ''flags'' 13 ''can_transfer_at'' writeInt32,
         wf_if ''flags'' 14 ''can_resell_at'' writeInt32,
         wf_if ''flags'' 15 ''collection_id'' (writeVector (Some writeInt32)),
         wf_if ''flags'' 16 ''prepaid_upgrade_hash'' writeString,
         wf_if ''flags'' 18 ''drop_original_details_stars'' writeInt64,
         wf_if ''flags'' 19 ''gift_num'' writeInt32,
         wf_if ''flags'' 20 ''can_craft_at'' writeInt32])]"

definition TL_SavedStarGift_table :: flag_table where
  "TL_SavedStarGift_table =
     [(1105150972, [Flags ''flags'' [(''name_hidden'', 0), (''unsaved'', 5), (''refunded'', 9),
         (''can_upgrade'', 10), (''pinned_to_top'', 12), (''upgrade_separate'', 17), (''from_id'',
         1), (''message'', 2), (''msg_id'', 3), (''saved_id'', 11), (''convert_stars'', 4),
         (''upgrade_stars'', 6), (''can_export_at'', 7), (''transfer_stars'', 8),
         (''can_transfer_at'', 13), (''can_resell_at'', 14), (''collection_id'', 15),
         (''prepaid_upgrade_hash'', 16), (''drop_original_details_stars'', 18), (''gift_num'', 19),
         (''can_craft_at'', 20)],
        TrueBit ''flags'' 0 ''name_hidden'',
        TrueBit ''flags'' 5 ''unsaved'',
        TrueBit ''flags'' 9 ''refunded'',
        TrueBit ''flags'' 10 ''can_upgrade'',
        TrueBit ''flags'' 12 ''pinned_to_top'',
        TrueBit ''flags'' 17 ''upgrade_separate'',
        Cond ''flags'' 1 (''from_id'', readTLPeer, writeTLPeer, enc_fobject TL_Peer_table,
         ok_fobject TL_Peer_table),
        Plain (''date'', readInt32, writeInt32, enc_int32, is_VInt),
        Plain (''gift'', readTLStarGift, writeTLStarGift, enc_fobject TL_StarGift_table,
         ok_fobject TL_StarGift_table),
        Cond ''flags'' 2 (''message'', readTLTextWithEntities, writeTLTextWithEntities,
         enc_fobject TL_TextWithEntities_table, ok_fobject TL_TextWithEntities_table),
        Cond ''flags'' 3 (''msg_id'', readInt32, writeInt32, enc_int32, is_VInt),
        Cond ''flags'' 11 (''saved_id'', readInt64, writeInt64, enc_int64, is_VLong),
        Cond ''flags'' 4 (''convert_stars'', readInt64, writeInt64, enc_int64, is_VLong),
        Cond ''flags'' 6 (''upgrade_stars'', readInt64, writeInt64, enc_int64, is_VLong),
        Cond ''flags'' 7 (''can_export_at'', readInt32, writeInt32, enc_int32, is_VInt),
        Cond ''flags'' 8 (''transfer_stars'', readInt64, writeInt64, enc_int64, is_VLong),
        Cond ''flags'' 13 (''can_transfer_at'', readInt32, writeInt32, enc_int32, is_VInt),
        Cond ''flags'' 14 (''can_resell_at'', readInt32, writeInt32, enc_int32, is_VInt),
        Cond ''flags'' 15 (''collection_id'', readVector (Some readInt32),
         writeVector (Some writeInt32), enc_vector enc_int32, ok_vector is_VInt),
        Cond ''flags'' 16 (''prepaid_upgrade_hash'', readString, writeString, enc_string,
         is_short_text),
        Cond ''flags'' 18 (''drop_original_details_stars'', readInt64, writeInt64, enc_int64,
         is_VLong),
        Cond ''flags'' 19 (''gift_num'', readInt32, writeInt32, enc_int32, is_VInt),
        Cond ''flags'' 20 (''can_craft_at'', readInt32, writeInt32, enc_int32, is_VInt)])]"

interpretation tl_SavedStarGift: tl_codec readTLSavedStarGift writeTLSavedStarGift "enc_fobject TL_SavedStarGift_table" "ok_fobject TL_SavedStarGift_table"
  by (rule flag_schema_codec, unfold TL_SavedStarGift_table_def, intro flag_tableI)
    (simp_all add: readTLSavedStarGift_def writeTLSavedStarGift_def flag_schema_simps tl_Peer.tl_codec_axioms tl_StarGift.tl_codec_axioms tl_TextWithEntities.tl_codec_axioms)

definition readTLPaymentsSavedStarGifts :: tl_reader where
  "readTLPaymentsSavedStarGifts = read_object
     [(- 1779201615, [rd ''flags'' readUInt32, rd ''count'' readInt32,
         rd_if ''flags'' 1 ''chat_notifications_enabled'' readBool,
         rd ''gifts'' (readVector (Some readTLSavedStarGift)),
         rd_if ''flags'' 0 ''next_offset'' readString, rd ''chats'' (readVector (Some readTLChat)),
         rd ''users'' (readVector (Some readTLUser))])]"

definition writeTLPaymentsSavedStarGifts :: tl_writer where
  "writeTLPaymentsSavedStarGifts = write_fobject
     [(- 1779201615, [wf ''_'' writeInt32, wf_flags ''flags'' [(''chat_notifications_enabled'', 1),
         (''next_offset'', 0)], wf ''count'' writeInt32,
         wf_if ''flags'' 1 ''chat_notifications_enabled'' writeBool,
         wf ''gifts'' (writeVector (Some writeTLSavedStarGift)),
         wf_if ''flags'' 0 ''next_offset'' writeString,
         wf ''chats'' (writeVector (Some writeTLChat)),
         wf ''users'' (writeVector (Some writeTLUser))])]"

definition TL_PaymentsSavedStarGifts_table :: flag_table where
  "TL_PaymentsSavedStarGifts_table =
     [(- 1779201615, [Flags ''flags'' [(''chat_notifications_enabled'', 1), (''next_offset'', 0)],
        Plain (''count'', readInt32, writeInt32, enc_int32, is_VInt),
        Cond ''flags'' 1 (''chat_notifications_enabled'', readBool, writeBool, enc_bool, is_VBool),
        Plain (''gifts'', readVector (Some readTLSavedStarGift),
         writeVector (Some writeTLSavedStarGift), enc_vector (enc_fobject TL_SavedStarGift_table),
         ok_vector (ok_fobject TL_SavedStarGift_table)),
        Cond ''flags'' 0 (''next_offset'', readString, writeString, enc_string, is_short_text),
        Plain (''chats'', readVector (Some readTLChat), writeVector (Some writeTLChat),
         enc_vector (enc_fobject TL_Chat_table), ok_vector (ok_fobject TL_Chat_table)),
        Plain (''users'', readVector (Some readTLUser), writeVector (Some writeTLUser),
         enc_vector (enc_fobject TL_User_table), ok_vector (ok_fobject TL_User_table))])]"

interpretation tl_PaymentsSavedStarGifts: tl_codec readTLPaymentsSavedStarGifts writeTLPaymentsSavedStarGifts "enc_fobject TL_PaymentsSavedStarGifts_table" "ok_fobject TL_PaymentsSavedStarGifts_table"
  by (rule flag_schema_codec, unfold TL_PaymentsSavedStarGifts_table_def, intro flag_tableI)
    (simp_all add: readTLPaymentsSavedStarGifts_def writeTLPaymentsSavedStarGifts_def flag_schema_simps tl_SavedStarGift.tl_codec_axioms tl_Chat.tl_codec_axioms tl_User.tl_codec_axioms
      tl_SavedStarGift.vector_codec tl_Chat.vector_codec tl_User.vector_codec)

definition readTLPaymentsResaleStarGifts :: tl_reader where
  "readTLPaymentsResaleStarGifts = read_object
     [(- 1803939105, [rd ''flags'' readUInt32, rd ''count'' readInt32,
         rd ''gifts'' (readVector (Some readTLStarGift)),
         rd_if ''flags'' 0 ''next_offset'' readString,
         rd_if ''flags'' 1 ''attributes'' (readVector (Some readTLStarGiftAttribute)),
         rd_if ''flags'' 1 ''attributes_hash'' readInt64,
         rd ''chats'' (readVector (Some readTLChat)),
         rd_if ''flags'' 2 ''counters'' (readVector (Some readTLStarGiftAttributeCounter)),
         rd ''users'' (readVector (Some readTLUser))])]"

definition writeTLPaymentsResaleStarGifts :: tl_writer where
  "writeTLPaymentsResaleStarGifts = write_fobject
     [(- 1803939105, [wf ''_'' writeInt32, wf_flags ''flags'' [(''next_offset'', 0),
         (''attributes'', 1), (''attributes_hash'', 1), (''counters'', 2)],
         wf ''count'' writeInt32, wf ''gifts'' (writeVector (Some writeTLStarGift)),
         wf_if ''flags'' 0 ''next_offset'' writeString,
         wf_if ''flags'' 1 ''attributes'' (writeVector (Some writeTLStarGiftAttribute)),
         wf_if ''flags'' 1 ''attributes_hash'' writeInt64,
         wf ''chats'' (writeVector (Some writeTLChat)),
         wf_if ''flags'' 2 ''counters'' (writeVector (Some writeTLStarGiftAttributeCounter)),
         wf ''users'' (writeVector (Some writeTLUser))])]"

definition TL_PaymentsResaleStarGifts_table :: flag_table where
  "TL_PaymentsResaleStarGifts_table =
     [(- 1803939105, [Flags ''flags'' [(''next_offset'', 0), (''attributes'', 1),
         (''attributes_hash'', 1), (''counters'', 2)],
        Plain (''count'', readInt32, writeInt32, enc_int32, is_VInt),
        Plain (''gifts'', readVector (Some readTLStarGift), writeVector (Some writeTLStarGift),
         enc_vector (enc_fobject TL_StarGift_table), ok_vector (ok_fobject TL_StarGift_table)),
        Cond ''flags'' 0 (''next_offset'', readString, writeString, enc_string, is_short_text),
        Cond ''flags'' 1 (''attributes'', readVector (Some readTLStarGiftAttribute),
         writeVector (Some writeTLStarGiftAttribute),
         enc_vector (enc_fobject TL_StarGiftAttribute_table),
         ok_vector (ok_fobject TL_StarGiftAttribute_table)),
        Cond ''flags'' 1 (''attributes_hash'', readInt64, writeInt64, enc_int64, is_VLong),
        Plain (''chats'', readVector (Some readTLChat), writeVector (Some writeTLChat),
         enc_vector (enc_fobject TL_Chat_table), ok_vector (ok_fobject TL_Chat_table)),
        Cond ''flags'' 2 (''counters'', readVector (Some readTLStarGiftAttributeCounter),
         writeVector (Some writeTLStarGiftAttributeCounter),
         enc_vector (enc_fobject TL_StarGiftAttributeCounter_table),
         ok_vector (ok_fobject TL_StarGiftAttributeCounter_table)),
        Plain (''users'', readVector (Some readTLUser), writeVector (Some writeTLUser),
         enc_vector (enc_fobject TL_User_table), ok_vector (ok_fobject TL_User_table))])]"

interpretation tl_PaymentsResaleStarGifts: tl_codec readTLPaymentsResaleStarGifts writeTLPaymentsResaleStarGifts "enc_fobject TL_PaymentsResaleStarGifts_table" "ok_fobject TL_PaymentsResaleStarGifts_table"
  by (rule flag_schema_codec, unfold TL_PaymentsResaleStarGifts_table_def, intro flag_tableI)
    (simp_all add: readTLPaymentsResaleStarGifts_def writeTLPaymentsResaleStarGifts_def flag_schema_simps tl_StarGift.tl_codec_axioms tl_StarGiftAttribute.tl_codec_axioms tl_Chat.tl_codec_axioms
      tl_StarGiftAttributeCounter.tl_codec_axioms tl_User.tl_codec_axioms tl_StarGift.vector_codec
      tl_StarGiftAttribute.vector_codec tl_Chat.vector_codec tl_StarGiftAttributeCounter.vector_codec
      tl_User.vector_codec)

definition readTLStarGiftCollection :: tl_reader where
  "readTLStarGiftCollection = read_object
     [(- 1653926992, [rd ''flags'' readUInt32, rd ''collection_id'' readInt32,
         rd ''title'' readString, rd_if ''flags'' 0 ''icon'' readTLDocument,
         rd ''gifts_count'' readInt32, rd ''hash'' readInt64])]"

definition writeTLStarGiftCollection :: tl_writer where
  "writeTLStarGiftCollection = write_fobject
     [(- 1653926992, [wf ''_'' writeInt32, wf_flags ''flags'' [(''icon'', 0)],
         wf ''collection_id'' writeInt32, wf ''title'' writeString,
         wf_if ''flags'' 0 ''icon'' writeTLDocument, wf ''gifts_count'' writeInt32,
         wf ''hash'' writeInt64])]"

definition TL_StarGiftCollection_table :: flag_table where
  "TL_StarGiftCollection_table =
     [(- 1653926992, [Flags ''flags'' [(''icon'', 0)],
        Plain (''collection_id'', readInt32, writeInt32, enc_int32, is_VInt),
        Plain (''title'', readString, writeString, enc_string, is_short_text),
        Cond ''flags'' 0 (''icon'', readTLDocument, writeTLDocument, enc_fobject TL_Document_table,
         ok_fobject TL_Document_table),
        Plain (''gifts_count'', readInt32, writeInt32, enc_int32, is_VInt),
        Plain (''hash'', readInt64, writeInt64, enc_int64, is_VLong)])]"

interpretation tl_StarGiftCollection: tl_codec readTLStarGiftCollection writeTLStarGiftCollection "enc_fobject TL_StarGiftCollection_table" "ok_fobject TL_StarGiftCollection_table"
  by (rule flag_schema_codec, unfold TL_StarGiftCollection_table_def, intro flag_tableI)
    (simp_all add: readTLStarGiftCollection_def writeTLStarGiftCollection_def flag_schema_simps tl_Document.tl_codec_axioms)

definition readTLPaymentsStarGiftCollections :: tl_reader where
  "readTLPaymentsStarGiftCollections = read_object
     [(- 1598402793, []),
      (- 1977011469, [rd ''collections'' (readVector (Some readTLStarGiftCollection))])]"

definition writeTLPaymentsStarGiftCollections :: tl_writer where
  "writeTLPaymentsStarGiftCollections = write_fobject
     [(- 1598402793, [wf ''_'' writeInt32]),
      (- 1977011469, [wf ''_'' writeInt32,
         wf ''collections'' (writeVector (Some writeTLStarGiftCollection))])]"

definition TL_PaymentsStarGiftCollections_table :: flag_table where
  "TL_PaymentsStarGiftCollections_table =
     [(- 1598402793, []),
      (- 1977011469, [Plain (''collections'', readVector (Some readTLStarGiftCollection),
         writeVector (Some writeTLStarGiftCollection),
         enc_vector (enc_fobject TL_StarGiftCollection_table),
         ok_vector (ok_fobject TL_StarGiftCollection_table))])]"

interpretation tl_PaymentsStarGiftCollections: tl_codec readTLPaymentsStarGiftCollections writeTLPaymentsStarGiftCollections "enc_fobject TL_PaymentsStarGiftCollections_table" "ok_fobject TL_PaymentsStarGiftCollections_table"
  by (rule flag_schema_codec, unfold TL_PaymentsStarGiftCollections_table_def, intro flag_tableI)
    (simp_all add: readTLPaymentsStarGiftCollections_def writeTLPaymentsStarGiftCollections_def flag_schema_simps tl_StarGiftCollection.tl_codec_axioms tl_StarGiftCollection.vector_codec)

definition readTLStoryAlbum :: tl_reader where
  "readTLStoryAlbum = read_object
     [(- 1826262950, [rd ''flags'' readUInt32, rd ''album_id'' readInt32, rd ''title'' readString,
         rd_if ''flags'' 0 ''icon_photo'' readTLPhoto,
         rd_if ''flags'' 1 ''icon_video'' readTLDocument])]"

definition writeTLStoryAlbum :: tl_writer where
  "writeTLStoryAlbum = write_fobject
     [(- 1826262950, [wf ''_'' writeInt32, wf_flags ''flags'' [(''icon_photo'', 0),
         (''icon_video'', 1)], wf ''album_id'' writeInt32, wf ''title'' writeString,
         wf_if ''flags'' 0 ''icon_photo'' writeTLPhoto,
         wf_if ''flags'' 1 ''icon_video'' writeTLDocument])]"

definition TL_StoryAlbum_table :: flag_table where
  "TL_StoryAlbum_table =
     [(- 1826262950, [Flags ''flags'' [(''icon_photo'', 0), (''icon_video'', 1)],
        Plain (''album_id'', readInt32, writeInt32, enc_int32, is_VInt),
        Plain (''title'', readString, writeString, enc_string, is_short_text),
        Cond ''flags'' 0 (''icon_photo'', readTLPhoto, writeTLPhoto, enc_fobject TL_Photo_table,
         ok_fobject TL_Photo_table),
        Cond ''flags'' 1 (''icon_video'', readTLDocument, writeTLDocument,
         enc_fobject TL_Document_table, ok_fobject TL_Document_table)])]"

interpretation tl_StoryAlbum: tl_codec readTLStoryAlbum writeTLStoryAlbum "enc_fobject TL_StoryAlbum_table" "ok_fobject TL_StoryAlbum_table"
  by (rule flag_schema_codec, unfold TL_StoryAlbum_table_def, intro flag_tableI)
    (simp_all add: readTLStoryAlbum_def writeTLStoryAlbum_def flag_schema_simps tl_Photo.tl_codec_axioms tl_Document.tl_codec_axioms)

definition readTLStoriesAlbums :: tl_reader where
  "readTLStoriesAlbums = read_object
     [(1448008427, []),
      (- 1013417414, [rd ''hash'' readInt64, rd ''albums'' (readVector (Some readTLStoryAlbum))])]"

definition writeTLStoriesAlbums :: tl_writer where
  "writeTLStoriesAlbums = write_fobject
     [(1448008427, [wf ''_'' writeInt32]),
      (- 1013417414, [wf ''_'' writeInt32, wf ''hash'' writeInt64,
         wf ''albums'' (writeVector (Some writeTLStoryAlbum))])]"

definition TL_StoriesAlbums_table :: flag_table where
  "TL_StoriesAlbums_table =
     [(1448008427, []),
      (- 1013417414, [Plain (''hash'', readInt64, writeInt64, enc_int64, is_VLong),
        Plain (''albums'', readVector (Some readTLStoryAlbum),
         writeVector (Some writeTLStoryAlbum), enc_vector (enc_fobject TL_StoryAlbum_table),
         ok_vector (ok_fobject TL_StoryAlbum_table))])]"

interpretation tl_StoriesAlbums: tl_codec readTLStoriesAlbums writeTLStoriesAlbums "enc_fobject TL_StoriesAlbums_table" "ok_fobject TL_StoriesAlbums_table"
  by (rule flag_schema_codec, unfold TL_StoriesAlbums_table_def, intro flag_tableI)
    (simp_all add: readTLStoriesAlbums_def writeTLStoriesAlbums_def flag_schema_simps tl_StoryAlbum.tl_codec_axioms tl_StoryAlbum.vector_codec)

definition readTLUsersSavedMusic :: tl_reader where
  "readTLUsersSavedMusic = read_object
     [(- 477656412, [rd ''count'' readInt32]),
      (883094167, [rd ''count'' readInt32, rd ''documents'' (readVector (Some readTLDocument))])]"

definition writeTLUsersSavedMusic :: tl_writer where
  "writeTLUsersSavedMusic = write_fobject
     [(- 477656412, [wf ''_'' writeInt32, wf ''count'' writeInt32]),
      (883094167, [wf ''_'' writeInt32, wf ''count'' writeInt32,
         wf ''documents'' (writeVector (Some writeTLDocument))])]"

definition TL_UsersSavedMusic_table :: flag_table where
  "TL_UsersSavedMusic_table =
     [(- 477656412, [Plain (''count'', readInt32, writeInt32, enc_int32, is_VInt)]),
      (883094167, [Plain (''count'', readInt32, writeInt32, enc_int32, is_VInt),
        Plain (''documents'', readVector (Some readTLDocument), writeVector (Some writeTLDocument),
         enc_vector (enc_fobject TL_Document_table), ok_vector (ok_fobject TL_Document_table))])]"

interpretation tl_UsersSavedMusic: tl_codec readTLUsersSavedMusic writeTLUsersSavedMusic "enc_fobject TL_UsersSavedMusic_table" "ok_fobject TL_UsersSavedMusic_table"
  by (rule flag_schema_codec, unfold TL_UsersSavedMusic_table_def, intro flag_tableI)
    (simp_all add: readTLUsersSavedMusic_def writeTLUsersSavedMusic_def flag_schema_simps tl_Document.tl_codec_axioms tl_Document.vector_codec)

definition readTLPaymentsStarGiftAuctionState :: tl_reader where
  "readTLPaymentsStarGiftAuctionState = read_object
     [(1798960364, [rd ''gift'' readTLStarGift, rd ''state'' readTLStarGiftAuctionState,
         rd ''user_state'' readTLStarGiftAuctionUserState, rd ''timeout'' readInt32,
         rd ''users'' (readVector (Some readTLUser)),
         rd ''chats'' (readVector (Some readTLChat))])]"

definition writeTLPaymentsStarGiftAuctionState :: tl_writer where
  "writeTLPaymentsStarGiftAuctionState = write_fobject
     [(1798960364, [wf ''_'' writeInt32, wf ''gift'' writeTLStarGift,
         wf ''state'' writeTLStarGiftAuctionState,
         wf ''user_state'' writeTLStarGiftAuctionUserState, wf ''timeout'' writeInt32,
         wf ''users'' (writeVector (Some writeTLUser)),
         wf ''chats'' (writeVector (Some writeTLChat))])]"

definition TL_PaymentsStarGiftAuctionState_table :: flag_table where
  "TL_PaymentsStarGiftAuctionState_table =
     [(1798960364, [Plain (''gift'', readTLStarGift, writeTLStarGift,
         enc_fobject TL_StarGift_table, ok_fobject TL_StarGift_table),
        Plain (''state'', readTLStarGiftAuctionState, writeTLStarGiftAuctionState,
         enc_fobject TL_StarGiftAuctionState_table, ok_fobject TL_StarGiftAuctionState_table),
        Plain (''user_state'', readTLStarGiftAuctionUserState, writeTLStarGiftAuctionUserState,
         enc_fobject TL_StarGiftAuctionUserState_table,
         ok_fobject TL_StarGiftAuctionUserState_table),
        Plain (''timeout'', readInt32, writeInt32, enc_int32, is_VInt),
        Plain (''users'', readVector (Some readTLUser), writeVector (Some writeTLUser),
         enc_vector (enc_fobject TL_User_table), ok_vector (ok_fobject TL_User_table)),
        Plain (''chats'', readVector (Some readTLChat), writeVector (Some writeTLChat),
         enc_vector (enc_fobject TL_Chat_table), ok_vector (ok_fobject TL_Chat_table))])]"

interpretation tl_PaymentsStarGiftAuctionState: tl_codec readTLPaymentsStarGiftAuctionState writeTLPaymentsStarGiftAuctionState "enc_fobject TL_PaymentsStarGiftAuctionState_table" "ok_fobject TL_PaymentsStarGiftAuctionState_table"
  by (rule flag_schema_codec, unfold TL_PaymentsStarGiftAuctionState_table_def, intro flag_tableI)
    (simp_all add: readTLPaymentsStarGiftAuctionState_def writeTLPaymentsStarGiftAuctionState_def flag_schema_simps tl_StarGift.tl_codec_axioms tl_StarGiftAuctionState.tl_codec_axioms
      tl_StarGiftAuctionUserState.tl_codec_axioms tl_User.tl_codec_axioms tl_Chat.tl_codec_axioms
      tl_User.vector_codec tl_Chat.vector_codec)

definition readTLStarGiftActiveAuctionState :: tl_reader where
  "readTLStarGiftActiveAuctionState = read_object
     [(- 753154979, [rd ''gift'' readTLStarGift, rd ''state'' readTLStarGiftAuctionState,
         rd ''user_state'' readTLStarGiftAuctionUserState])]"

definition writeTLStarGiftActiveAuctionState :: tl_writer where
  "writeTLStarGiftActiveAuctionState = write_fobject
     [(- 753154979, [wf ''_'' writeInt32, wf ''gift'' writeTLStarGift,
         wf ''state'' writeTLStarGiftAuctionState,
         wf ''user_state'' writeTLStarGiftAuctionUserState])]"

definition TL_StarGiftActiveAuctionState_table :: flag_table where
  "TL_StarGiftActiveAuctionState_table =
     [(- 753154979, [Plain (''gift'', readTLStarGift, writeTLStarGift,
         enc_fobject TL_StarGift_table, ok_fobject TL_StarGift_table),
        Plain (''state'', readTLStarGiftAuctionState, writeTLStarGiftAuctionState,
         enc_fobject TL_StarGiftAuctionState_table, ok_fobject TL_StarGiftAuctionState_table),
        Plain (''user_state'', readTLStarGiftAuctionUserState, writeTLStarGiftAuctionUserState,
         enc_fobject TL_StarGiftAuctionUserState_table,
         ok_fobject TL_StarGiftAuctionUserState_table)])]"

interpretation tl_StarGiftActiveAuctionState: tl_codec readTLStarGiftActiveAuctionState writeTLStarGiftActiveAuctionState "enc_fobject TL_StarGiftActiveAuctionState_table" "ok_fobject TL_StarGiftActiveAuctionState_table"
  by (rule flag_schema_codec, unfold TL_StarGiftActiveAuctionState_table_def, intro flag_tableI)
    (simp_all add: readTLStarGiftActiveAuctionState_def writeTLStarGiftActiveAuctionState_def flag_schema_simps tl_StarGift.tl_codec_axioms tl_StarGiftAuctionState.tl_codec_axioms
      tl_StarGiftAuctionUserState.tl_codec_axioms)

definition readTLPaymentsStarGiftActiveAuctions :: tl_reader where
  "readTLPaymentsStarGiftActiveAuctions = read_object
     [(- 617358640, []),
      (- 1359565892, [rd ''auctions'' (readVector (Some readTLStarGiftActiveAuctionState)),
         rd ''users'' (readVector (Some readTLUser)),
         rd ''chats'' (readVector (Some readTLChat))])]"

definition writeTLPaymentsStarGiftActiveAuctions :: tl_writer where
  "writeTLPaymentsStarGiftActiveAuctions = write_fobject
     [(- 617358640, [wf ''_'' writeInt32]),
      (- 1359565892, [wf ''_'' writeInt32,
         wf ''auctions'' (writeVector (Some writeTLStarGiftActiveAuctionState)),
         wf ''users'' (writeVector (Some writeTLUser)),
         wf ''chats'' (writeVector (Some writeTLChat))])]"

definition TL_PaymentsStarGiftActiveAuctions_table :: flag_table where
  "TL_PaymentsStarGiftActiveAuctions_table =
     [(- 617358640, []),
      (- 1359565892, [Plain (''auctions'', readVector (Some readTLStarGiftActiveAuctionState),
         writeVector (Some writeTLStarGiftActiveAuctionState),
         enc_vector (enc_fobject TL_StarGiftActiveAuctionState_table),
         ok_vector (ok_fobject TL_StarGiftActiveAuctionState_table)),
        Plain (''users'', readVector (Some readTLUser), writeVector (Some writeTLUser),
         enc_vector (enc_fobject TL_User_table), ok_vector (ok_fobject TL_User_table)),
        Plain (''chats'', readVector (Some readTLChat), writeVector (Some writeTLChat),
         enc_vector (enc_fobject TL_Chat_table), ok_vector (ok_fobject TL_Chat_table))])]"

interpretation tl_PaymentsStarGiftActiveAuctions: tl_codec readTLPaymentsStarGiftActiveAuctions writeTLPaymentsStarGiftActiveAuctions "enc_fobject TL_PaymentsStarGiftActiveAuctions_table" "ok_fobject TL_PaymentsStarGiftActiveAuctions_table"
  by (rule flag_schema_codec, unfold TL_PaymentsStarGiftActiveAuctions_table_def, intro flag_tableI)
    (simp_all add: readTLPaymentsStarGiftActiveAuctions_def writeTLPaymentsStarGiftActiveAuctions_def flag_schema_simps tl_StarGiftActiveAuctionState.tl_codec_axioms tl_User.tl_codec_axioms tl_Chat.tl_codec_axioms
      tl_StarGiftActiveAuctionState.vector_codec tl_User.vector_codec tl_Chat.vector_codec)

definition readTLPaymentsStarGiftUpgradeAttributes :: tl_reader where
  "readTLPaymentsStarGiftUpgradeAttributes = read_object
     [(1187439471, [rd ''attributes'' (readVector (Some readTLStarGiftAttribute))])]"

definition writeTLPaymentsStarGiftUpgradeAttributes :: tl_writer where
  "writeTLPaymentsStarGiftUpgradeAttributes = write_fobject
     [(1187439471, [wf ''_'' writeInt32,
         wf ''attributes'' (writeVector (Some writeTLStarGiftAttribute))])]"

definition TL_PaymentsStarGiftUpgradeAttributes_table :: flag_table where
  "TL_PaymentsStarGiftUpgradeAttributes_table =
     [(1187439471, [Plain (''attributes'', readVector (Some readTLStarGiftAttribute),
         writeVector (Some writeTLStarGiftAttribute),
         enc_vector (enc_fobject TL_StarGiftAttribute_table),
         ok_vector (ok_fobject TL_StarGiftAttribute_table))])]"

interpretation tl_PaymentsStarGiftUpgradeAttributes: tl_codec readTLPaymentsStarGiftUpgradeAttributes writeTLPaymentsStarGiftUpgradeAttributes "enc_fobject TL_PaymentsStarGiftUpgradeAttributes_table" "ok_fobject TL_PaymentsStarGiftUpgradeAttributes_table"
  by (rule flag_schema_codec, unfold TL_PaymentsStarGiftUpgradeAttributes_table_def, intro flag_tableI)
    (simp_all add: readTLPaymentsStarGiftUpgradeAttributes_def writeTLPaymentsStarGiftUpgradeAttributes_def flag_schema_simps tl_StarGiftAttribute.tl_codec_axioms tl_StarGiftAttribute.vector_codec)

definition readTLMessagesChatInviteJoinResult :: tl_reader where
  "readTLMessagesChatInviteJoinResult = read_object
     [(1146512295, [rd ''updates'' readTLUpdates]),
      (1640638931, [rd ''bot_id'' readInt64, rd ''query_id'' readInt64,
         rd ''users'' (readVector (Some readTLUser))])]"

definition writeTLMessagesChatInviteJoinResult :: tl_writer where
  "writeTLMessagesChatInviteJoinResult = write_fobject
     [(1146512295, [wf ''_'' writeInt32, wf ''updates'' writeTLUpdates]),
      (1640638931, [wf ''_'' writeInt32, wf ''bot_id'' writeInt64, wf ''query_id'' writeInt64,
         wf ''users'' (writeVector (Some writeTLUser))])]"

definition TL_MessagesChatInviteJoinResult_table :: flag_table where
  "TL_MessagesChatInviteJoinResult_table =
     [(1146512295, [Plain (''updates'', readTLUpdates, writeTLUpdates,
         enc_fobject TL_Updates_table, ok_fobject TL_Updates_table)]),
      (1640638931, [Plain (''bot_id'', readInt64, writeInt64, enc_int64, is_VLong),
        Plain (''query_id'', readInt64, writeInt64, enc_int64, is_VLong),
        Plain (''users'', readVector (Some readTLUser), writeVector (Some writeTLUser),
         enc_vector (enc_fobject TL_User_table), ok_vector (ok_fobject TL_User_table))])]"

interpretation tl_MessagesChatInviteJoinResult: tl_codec readTLMessagesChatInviteJoinResult writeTLMessagesChatInviteJoinResult "enc_fobject TL_MessagesChatInviteJoinResult_table" "ok_fobject TL_MessagesChatInviteJoinResult_table"
  by (rule flag_schema_codec, unfold TL_MessagesChatInviteJoinResult_table_def, intro flag_tableI)
    (simp_all add: readTLMessagesChatInviteJoinResult_def writeTLMessagesChatInviteJoinResult_def flag_schema_simps tl_Updates.tl_codec_axioms tl_User.tl_codec_axioms tl_User.vector_codec)

definition readTLMessagesTranslatedRichMessage :: tl_reader where
  "readTLMessagesTranslatedRichMessage = read_object
     [(1107532175, [rd ''result'' (readVector (Some readTLRichMessage))])]"

definition writeTLMessagesTranslatedRichMessage :: tl_writer where
  "writeTLMessagesTranslatedRichMessage = write_fobject
     [(1107532175, [wf ''_'' writeInt32, wf ''result'' (writeVector (Some writeTLRichMessage))])]"

definition TL_MessagesTranslatedRichMessage_table :: flag_table where
  "TL_MessagesTranslatedRichMessage_table =
     [(1107532175, [Plain (''result'', readVector (Some readTLRichMessage),
         writeVector (Some writeTLRichMessage), enc_vector (enc_fobject TL_RichMessage_table),
         ok_vector (ok_fobject TL_RichMessage_table))])]"

interpretation tl_MessagesTranslatedRichMessage: tl_codec readTLMessagesTranslatedRichMessage writeTLMessagesTranslatedRichMessage "enc_fobject TL_MessagesTranslatedRichMessage_table" "ok_fobject TL_MessagesTranslatedRichMessage_table"
  by (rule flag_schema_codec, unfold TL_MessagesTranslatedRichMessage_table_def, intro flag_tableI)
    (simp_all add: readTLMessagesTranslatedRichMessage_def writeTLMessagesTranslatedRichMessage_def flag_schema_simps tl_RichMessage.tl_codec_axioms tl_RichMessage.vector_codec)

definition readTLMessagesComposedRichMessageWithAI :: tl_reader where
  "readTLMessagesComposedRichMessageWithAI = read_object
     [(1279604680, [rd ''result'' readTLRichMessage])]"

definition writeTLMessagesComposedRichMessageWithAI :: tl_writer where
  "writeTLMessagesComposedRichMessageWithAI = write_fobject
     [(1279604680, [wf ''_'' writeInt32, wf ''result'' writeTLRichMessage])]"

definition TL_MessagesComposedRichMessageWithAI_table :: flag_table where
  "TL_MessagesComposedRichMessageWithAI_table =
     [(1279604680, [Plain (''result'', readTLRichMessage, writeTLRichMessage,
         enc_fobject TL_RichMessage_table, ok_fobject TL_RichMessage_table)])]"

interpretation tl_MessagesComposedRichMessageWithAI: tl_codec readTLMessagesComposedRichMessageWithAI writeTLMessagesComposedRichMessageWithAI "enc_fobject TL_MessagesComposedRichMessageWithAI_table" "ok_fobject TL_MessagesComposedRichMessageWithAI_table"
  by (rule flag_schema_codec, unfold TL_MessagesComposedRichMessageWithAI_table_def, intro flag_tableI)
    (simp_all add: readTLMessagesComposedRichMessageWithAI_def writeTLMessagesComposedRichMessageWithAI_def flag_schema_simps tl_RichMessage.tl_codec_axioms)

definition readTLEphemeralWelcomeMessages :: tl_reader where
  "readTLEphemeralWelcomeMessages = read_object
     [(1509940017, []),
      (273664114, [rd ''hash'' readInt64,
         rd ''messages'' (readVector (Some readTLEphemeralMessage))])]"

definition writeTLEphemeralWelcomeMessages :: tl_writer where
  "writeTLEphemeralWelcomeMessages = write_fobject
     [(1509940017, [wf ''_'' writeInt32]),
      (273664114, [wf ''_'' writeInt32, wf ''hash'' writeInt64,
         wf ''messages'' (writeVector (Some writeTLEphemeralMessage))])]"

definition TL_EphemeralWelcomeMessages_table :: flag_table where
  "TL_EphemeralWelcomeMessages_table =
     [(1509940017, []),
      (273664114, [Plain (''hash'', readInt64, writeInt64, enc_int64, is_VLong),
        Plain (''messages'', readVector (Some readTLEphemeralMessage),
         writeVector (Some writeTLEphemeralMessage),
         enc_vector (enc_fobject TL_EphemeralMessage_table),
         ok_vector (ok_fobject TL_EphemeralMessage_table))])]"

interpretation tl_EphemeralWelcomeMessages: tl_codec readTLEphemeralWelcomeMessages writeTLEphemeralWelcomeMessages "enc_fobject TL_EphemeralWelcomeMessages_table" "ok_fobject TL_EphemeralWelcomeMessages_table"
  by (rule flag_schema_codec, unfold TL_EphemeralWelcomeMessages_table_def, intro flag_tableI)
    (simp_all add: readTLEphemeralWelcomeMessages_def writeTLEphemeralWelcomeMessages_def flag_schema_simps tl_EphemeralMessage.tl_codec_axioms tl_EphemeralMessage.vector_codec)

subsection \<open>The API schema, all types at once\<close>

text \<open>
  The types of TlTypes5 to TlTypes8, TlPage and TlMedia in lists like those of the theories before, and one list of
  every reader and writer of a type in libkg/tlschema.cpp with its encoding and admissible objects.
\<close>

definition tl_types_part11 :: "(tl_reader \<times> tl_writer \<times> flag_table) list" where
  "tl_types_part11 =
     [(readTLInputGeoPoint, writeTLInputGeoPoint, TL_InputGeoPoint_table),
      (readTLMaskCoords, writeTLMaskCoords, TL_MaskCoords_table),
      (readTLDocumentAttribute, writeTLDocumentAttribute, TL_DocumentAttribute_table),
      (readTLInputWebDocument, writeTLInputWebDocument, TL_InputWebDocument_table),
      (readTLVideoSize, writeTLVideoSize, TL_VideoSize_table),
      (readTLPhoto, writeTLPhoto, TL_Photo_table),
      (readTLGeoPoint, writeTLGeoPoint, TL_GeoPoint_table),
      (readTLDocument, writeTLDocument, TL_Document_table),
      (readTLPageTableCell, writeTLPageTableCell, TL_PageTableCell_table),
      (readTLPageTableRow, writeTLPageTableRow, TL_PageTableRow_table),
      (readTLPageCaption, writeTLPageCaption, TL_PageCaption_table),
      (readTLPageButton, writeTLPageButton, TL_PageButton_table),
      (readTLPage, writeTLPage, TL_Page_table),
      (readTLWallPaper, writeTLWallPaper, TL_WallPaper_table),
      (readTLThemeSettings, writeTLThemeSettings, TL_ThemeSettings_table),
      (readTLMediaAreaCoordinates, writeTLMediaAreaCoordinates, TL_MediaAreaCoordinates_table),
      (readTLMediaArea, writeTLMediaArea, TL_MediaArea_table),
      (readTLStarGiftAttribute, writeTLStarGiftAttribute, TL_StarGiftAttribute_table),
      (readTLStarGift, writeTLStarGift, TL_StarGift_table),
      (readTLGame, writeTLGame, TL_Game_table),
      (readTLWebDocument, writeTLWebDocument, TL_WebDocument_table),
      (readTLInputChatPhoto, writeTLInputChatPhoto, TL_InputChatPhoto_table),
      (readTLBotInfo, writeTLBotInfo, TL_BotInfo_table),
      (readTLChannelLocation, writeTLChannelLocation, TL_ChannelLocation_table),
      (readTLPeerStories, writeTLPeerStories, TL_PeerStories_table),
      (readTLChatFull, writeTLChatFull, TL_ChatFull_table),
      (readTLChatTheme, writeTLChatTheme, TL_ChatTheme_table),
      (readTLBotApp, writeTLBotApp, TL_BotApp_table),
      (readTLRequestedPeer, writeTLRequestedPeer, TL_RequestedPeer_table),
      (readTLMessageAction, writeTLMessageAction, TL_MessageAction_table),
      (readTLMessageReplyHeader, writeTLMessageReplyHeader, TL_MessageReplyHeader_table),
      (readTLRichMessage, writeTLRichMessage, TL_RichMessage_table),
      (readTLMessage, writeTLMessage, TL_Message_table),
      (readTLDraftMessage, writeTLDraftMessage, TL_DraftMessage_table),
      (readTLDialog, writeTLDialog, TL_Dialog_table),
      (readTLBusinessLocation, writeTLBusinessLocation, TL_BusinessLocation_table),
      (readTLBusinessIntro, writeTLBusinessIntro, TL_BusinessIntro_table),
      (readTLUserFull, writeTLUserFull, TL_UserFull_table),
      (readTLMessagesDialogs, writeTLMessagesDialogs, TL_MessagesDialogs_table),
      (readTLForumTopic, writeTLForumTopic, TL_ForumTopic_table)]"

lemma tl_types_part11_codec: "(R, W, t) \<in> set tl_types_part11 \<Longrightarrow> tl_codec R W (enc_fobject t) (ok_fobject t)"
  by (auto simp: tl_types_part11_def
      intro: tl_InputGeoPoint.tl_codec_axioms tl_MaskCoords.tl_codec_axioms
         tl_DocumentAttribute.tl_codec_axioms tl_InputWebDocument.tl_codec_axioms
         tl_VideoSize.tl_codec_axioms tl_Photo.tl_codec_axioms tl_GeoPoint.tl_codec_axioms
         tl_Document.tl_codec_axioms tl_PageTableCell.tl_codec_axioms
         tl_PageTableRow.tl_codec_axioms tl_PageCaption.tl_codec_axioms
         tl_PageButton.tl_codec_axioms tl_Page.tl_codec_axioms tl_WallPaper.tl_codec_axioms
         tl_ThemeSettings.tl_codec_axioms tl_MediaAreaCoordinates.tl_codec_axioms
         tl_MediaArea.tl_codec_axioms tl_StarGiftAttribute.tl_codec_axioms
         tl_StarGift.tl_codec_axioms tl_Game.tl_codec_axioms tl_WebDocument.tl_codec_axioms
         tl_InputChatPhoto.tl_codec_axioms tl_BotInfo.tl_codec_axioms
         tl_ChannelLocation.tl_codec_axioms tl_PeerStories.tl_codec_axioms
         tl_ChatFull.tl_codec_axioms tl_ChatTheme.tl_codec_axioms tl_BotApp.tl_codec_axioms
         tl_RequestedPeer.tl_codec_axioms tl_MessageAction.tl_codec_axioms
         tl_MessageReplyHeader.tl_codec_axioms tl_RichMessage.tl_codec_axioms
         tl_Message.tl_codec_axioms tl_DraftMessage.tl_codec_axioms tl_Dialog.tl_codec_axioms
         tl_BusinessLocation.tl_codec_axioms tl_BusinessIntro.tl_codec_axioms
         tl_UserFull.tl_codec_axioms tl_MessagesDialogs.tl_codec_axioms
         tl_ForumTopic.tl_codec_axioms)

definition tl_types_part12 :: "(tl_reader \<times> tl_writer \<times> flag_table) list" where
  "tl_types_part12 =
     [(readTLMessagesMessages, writeTLMessagesMessages, TL_MessagesMessages_table),
      (readTLMessagesChatFull, writeTLMessagesChatFull, TL_MessagesChatFull_table),
      (readTLInputRichMessage, writeTLInputRichMessage, TL_InputRichMessage_table),
      (readTLSendMessageAction, writeTLSendMessageAction, TL_SendMessageAction_table),
      (readTLMessagesStickerSet, writeTLMessagesStickerSet, TL_MessagesStickerSet_table),
      (readTLTheme, writeTLTheme, TL_Theme_table),
      (readTLEphemeralMessage, writeTLEphemeralMessage, TL_EphemeralMessage_table),
      (readTLUpdate, writeTLUpdate, TL_Update_table),
      (readTLUpdatesDifference, writeTLUpdatesDifference, TL_UpdatesDifference_table),
      (readTLUpdates, writeTLUpdates, TL_Updates_table),
      (readTLPhotosPhotos, writeTLPhotosPhotos, TL_PhotosPhotos_table),
      (readTLPhotosPhoto, writeTLPhotosPhoto, TL_PhotosPhoto_table),
      (readTLHelpAppUpdate, writeTLHelpAppUpdate, TL_HelpAppUpdate_table),
      (readTLMessagesStickers, writeTLMessagesStickers, TL_MessagesStickers_table),
      (readTLChatInvite, writeTLChatInvite, TL_ChatInvite_table),
      (readTLUpdatesChannelDifference, writeTLUpdatesChannelDifference, TL_UpdatesChannelDifference_table),
      (readTLMessagesSavedGifs, writeTLMessagesSavedGifs, TL_MessagesSavedGifs_table),
      (readTLInputBotInlineMessage, writeTLInputBotInlineMessage, TL_InputBotInlineMessage_table),
      (readTLInputBotInlineResult, writeTLInputBotInlineResult, TL_InputBotInlineResult_table),
      (readTLBotInlineMessage, writeTLBotInlineMessage, TL_BotInlineMessage_table),
      (readTLBotInlineResult, writeTLBotInlineResult, TL_BotInlineResult_table),
      (readTLMessagesBotResults, writeTLMessagesBotResults, TL_MessagesBotResults_table),
      (readTLMessagesPeerDialogs, writeTLMessagesPeerDialogs, TL_MessagesPeerDialogs_table),
      (readTLTopPeer, writeTLTopPeer, TL_TopPeer_table),
      (readTLTopPeerCategoryPeers, writeTLTopPeerCategoryPeers, TL_TopPeerCategoryPeers_table),
      (readTLContactsTopPeers, writeTLContactsTopPeers, TL_ContactsTopPeers_table),
      (readTLStickerSetCovered, writeTLStickerSetCovered, TL_StickerSetCovered_table),
      (readTLMessagesFeaturedStickers, writeTLMessagesFeaturedStickers, TL_MessagesFeaturedStickers_table),
      (readTLMessagesRecentStickers, writeTLMessagesRecentStickers, TL_MessagesRecentStickers_table),
      (readTLMessagesArchivedStickers, writeTLMessagesArchivedStickers, TL_MessagesArchivedStickers_table),
      (readTLMessagesStickerSetInstallResult, writeTLMessagesStickerSetInstallResult, TL_MessagesStickerSetInstallResult_table),
      (readTLInputWebFileLocation, writeTLInputWebFileLocation, TL_InputWebFileLocation_table),
      (readTLPaymentsPaymentForm, writeTLPaymentsPaymentForm, TL_PaymentsPaymentForm_table),
      (readTLPaymentsPaymentResult, writeTLPaymentsPaymentResult, TL_PaymentsPaymentResult_table),
      (readTLPaymentsPaymentReceipt, writeTLPaymentsPaymentReceipt, TL_PaymentsPaymentReceipt_table),
      (readTLInputStickerSetItem, writeTLInputStickerSetItem, TL_InputStickerSetItem_table),
      (readTLChannelAdminLogEventAction, writeTLChannelAdminLogEventAction, TL_ChannelAdminLogEventAction_table),
      (readTLChannelAdminLogEvent, writeTLChannelAdminLogEvent, TL_ChannelAdminLogEvent_table),
      (readTLChannelsAdminLogResults, writeTLChannelsAdminLogResults, TL_ChannelsAdminLogResults_table),
      (readTLMessagesFavedStickers, writeTLMessagesFavedStickers, TL_MessagesFavedStickers_table)]"

lemma tl_types_part12_codec: "(R, W, t) \<in> set tl_types_part12 \<Longrightarrow> tl_codec R W (enc_fobject t) (ok_fobject t)"
  by (auto simp: tl_types_part12_def
      intro: tl_MessagesMessages.tl_codec_axioms tl_MessagesChatFull.tl_codec_axioms
         tl_InputRichMessage.tl_codec_axioms tl_SendMessageAction.tl_codec_axioms
         tl_MessagesStickerSet.tl_codec_axioms tl_Theme.tl_codec_axioms
         tl_EphemeralMessage.tl_codec_axioms tl_Update.tl_codec_axioms
         tl_UpdatesDifference.tl_codec_axioms tl_Updates.tl_codec_axioms
         tl_PhotosPhotos.tl_codec_axioms tl_PhotosPhoto.tl_codec_axioms
         tl_HelpAppUpdate.tl_codec_axioms tl_MessagesStickers.tl_codec_axioms
         tl_ChatInvite.tl_codec_axioms tl_UpdatesChannelDifference.tl_codec_axioms
         tl_MessagesSavedGifs.tl_codec_axioms tl_InputBotInlineMessage.tl_codec_axioms
         tl_InputBotInlineResult.tl_codec_axioms tl_BotInlineMessage.tl_codec_axioms
         tl_BotInlineResult.tl_codec_axioms tl_MessagesBotResults.tl_codec_axioms
         tl_MessagesPeerDialogs.tl_codec_axioms tl_TopPeer.tl_codec_axioms
         tl_TopPeerCategoryPeers.tl_codec_axioms tl_ContactsTopPeers.tl_codec_axioms
         tl_StickerSetCovered.tl_codec_axioms tl_MessagesFeaturedStickers.tl_codec_axioms
         tl_MessagesRecentStickers.tl_codec_axioms tl_MessagesArchivedStickers.tl_codec_axioms
         tl_MessagesStickerSetInstallResult.tl_codec_axioms
         tl_InputWebFileLocation.tl_codec_axioms tl_PaymentsPaymentForm.tl_codec_axioms
         tl_PaymentsPaymentResult.tl_codec_axioms tl_PaymentsPaymentReceipt.tl_codec_axioms
         tl_InputStickerSetItem.tl_codec_axioms tl_ChannelAdminLogEventAction.tl_codec_axioms
         tl_ChannelAdminLogEvent.tl_codec_axioms tl_ChannelsAdminLogResults.tl_codec_axioms
         tl_MessagesFavedStickers.tl_codec_axioms)

definition tl_types_part13 :: "(tl_reader \<times> tl_writer \<times> flag_table) list" where
  "tl_types_part13 =
     [(readTLRecentMeUrl, writeTLRecentMeUrl, TL_RecentMeUrl_table),
      (readTLHelpRecentMeUrls, writeTLHelpRecentMeUrls, TL_HelpRecentMeUrls_table),
      (readTLInputSingleMedia, writeTLInputSingleMedia, TL_InputSingleMedia_table),
      (readTLMessagesFoundStickerSets, writeTLMessagesFoundStickerSets, TL_MessagesFoundStickerSets_table),
      (readTLAccountAuthorizationForm, writeTLAccountAuthorizationForm, TL_AccountAuthorizationForm_table),
      (readTLInputAppEvent, writeTLInputAppEvent, TL_InputAppEvent_table),
      (readTLAccountWallPapers, writeTLAccountWallPapers, TL_AccountWallPapers_table),
      (readTLAccountThemes, writeTLAccountThemes, TL_AccountThemes_table),
      (readTLStatsAbsValueAndPrev, writeTLStatsAbsValueAndPrev, TL_StatsAbsValueAndPrev_table),
      (readTLStatsPercentValue, writeTLStatsPercentValue, TL_StatsPercentValue_table),
      (readTLStatsBroadcastStats, writeTLStatsBroadcastStats, TL_StatsBroadcastStats_table),
      (readTLStatsMegagroupStats, writeTLStatsMegagroupStats, TL_StatsMegagroupStats_table),
      (readTLMessagesDiscussionMessage, writeTLMessagesDiscussionMessage, TL_MessagesDiscussionMessage_table),
      (readTLAccountChatThemes, writeTLAccountChatThemes, TL_AccountChatThemes_table),
      (readTLSponsoredMessage, writeTLSponsoredMessage, TL_SponsoredMessage_table),
      (readTLMessagesSponsoredMessages, writeTLMessagesSponsoredMessages, TL_MessagesSponsoredMessages_table),
      (readTLMessagesSearchResultsCalendar, writeTLMessagesSearchResultsCalendar, TL_MessagesSearchResultsCalendar_table),
      (readTLUsersUserFull, writeTLUsersUserFull, TL_UsersUserFull_table),
      (readTLAvailableReaction, writeTLAvailableReaction, TL_AvailableReaction_table),
      (readTLMessagesAvailableReactions, writeTLMessagesAvailableReactions, TL_MessagesAvailableReactions_table),
      (readTLAttachMenuBotIcon, writeTLAttachMenuBotIcon, TL_AttachMenuBotIcon_table),
      (readTLAttachMenuBot, writeTLAttachMenuBot, TL_AttachMenuBot_table),
      (readTLAttachMenuBots, writeTLAttachMenuBots, TL_AttachMenuBots_table),
      (readTLAttachMenuBotsBot, writeTLAttachMenuBotsBot, TL_AttachMenuBotsBot_table),
      (readTLAccountSavedRingtones, writeTLAccountSavedRingtones, TL_AccountSavedRingtones_table),
      (readTLAccountSavedRingtone, writeTLAccountSavedRingtone, TL_AccountSavedRingtone_table),
      (readTLHelpPremiumPromo, writeTLHelpPremiumPromo, TL_HelpPremiumPromo_table),
      (readTLMessagesForumTopics, writeTLMessagesForumTopics, TL_MessagesForumTopics_table),
      (readTLHelpAppConfig, writeTLHelpAppConfig, TL_HelpAppConfig_table),
      (readTLMessagesBotApp, writeTLMessagesBotApp, TL_MessagesBotApp_table),
      (readTLStoriesAllStories, writeTLStoriesAllStories, TL_StoriesAllStories_table),
      (readTLStoriesStories, writeTLStoriesStories, TL_StoriesStories_table),
      (readTLStoryView, writeTLStoryView, TL_StoryView_table),
      (readTLStoriesStoryViewsList, writeTLStoriesStoryViewsList, TL_StoriesStoryViewsList_table),
      (readTLStoriesPeerStories, writeTLStoriesPeerStories, TL_StoriesPeerStories_table),
      (readTLMessagesWebPage, writeTLMessagesWebPage, TL_MessagesWebPage_table),
      (readTLPremiumBoostsStatus, writeTLPremiumBoostsStatus, TL_PremiumBoostsStatus_table),
      (readTLPublicForward, writeTLPublicForward, TL_PublicForward_table),
      (readTLStatsPublicForwards, writeTLStatsPublicForwards, TL_StatsPublicForwards_table),
      (readTLStoryReaction, writeTLStoryReaction, TL_StoryReaction_table)]"

lemma tl_types_part13_codec: "(R, W, t) \<in> set tl_types_part13 \<Longrightarrow> tl_codec R W (enc_fobject t) (ok_fobject t)"
  by (auto simp: tl_types_part13_def
      intro: tl_RecentMeUrl.tl_codec_axioms tl_HelpRecentMeUrls.tl_codec_axioms
         tl_InputSingleMedia.tl_codec_axioms tl_MessagesFoundStickerSets.tl_codec_axioms
         tl_AccountAuthorizationForm.tl_codec_axioms tl_InputAppEvent.tl_codec_axioms
         tl_AccountWallPapers.tl_codec_axioms tl_AccountThemes.tl_codec_axioms
         tl_StatsAbsValueAndPrev.tl_codec_axioms tl_StatsPercentValue.tl_codec_axioms
         tl_StatsBroadcastStats.tl_codec_axioms tl_StatsMegagroupStats.tl_codec_axioms
         tl_MessagesDiscussionMessage.tl_codec_axioms tl_AccountChatThemes.tl_codec_axioms
         tl_SponsoredMessage.tl_codec_axioms tl_MessagesSponsoredMessages.tl_codec_axioms
         tl_MessagesSearchResultsCalendar.tl_codec_axioms tl_UsersUserFull.tl_codec_axioms
         tl_AvailableReaction.tl_codec_axioms tl_MessagesAvailableReactions.tl_codec_axioms
         tl_AttachMenuBotIcon.tl_codec_axioms tl_AttachMenuBot.tl_codec_axioms
         tl_AttachMenuBots.tl_codec_axioms tl_AttachMenuBotsBot.tl_codec_axioms
         tl_AccountSavedRingtones.tl_codec_axioms tl_AccountSavedRingtone.tl_codec_axioms
         tl_HelpPremiumPromo.tl_codec_axioms tl_MessagesForumTopics.tl_codec_axioms
         tl_HelpAppConfig.tl_codec_axioms tl_MessagesBotApp.tl_codec_axioms
         tl_StoriesAllStories.tl_codec_axioms tl_StoriesStories.tl_codec_axioms
         tl_StoryView.tl_codec_axioms tl_StoriesStoryViewsList.tl_codec_axioms
         tl_StoriesPeerStories.tl_codec_axioms tl_MessagesWebPage.tl_codec_axioms
         tl_PremiumBoostsStatus.tl_codec_axioms tl_PublicForward.tl_codec_axioms
         tl_StatsPublicForwards.tl_codec_axioms tl_StoryReaction.tl_codec_axioms)

definition tl_types_part14 :: "(tl_reader \<times> tl_writer \<times> flag_table) list" where
  "tl_types_part14 =
     [(readTLStoriesStoryReactionsList, writeTLStoriesStoryReactionsList, TL_StoriesStoryReactionsList_table),
      (readTLSavedDialog, writeTLSavedDialog, TL_SavedDialog_table),
      (readTLMessagesSavedDialogs, writeTLMessagesSavedDialogs, TL_MessagesSavedDialogs_table),
      (readTLMessagesQuickReplies, writeTLMessagesQuickReplies, TL_MessagesQuickReplies_table),
      (readTLMessagesMyStickers, writeTLMessagesMyStickers, TL_MessagesMyStickers_table),
      (readTLMessagesInvitedUsers, writeTLMessagesInvitedUsers, TL_MessagesInvitedUsers_table),
      (readTLMessagesAvailableEffects, writeTLMessagesAvailableEffects, TL_MessagesAvailableEffects_table),
      (readTLStarsTransaction, writeTLStarsTransaction, TL_StarsTransaction_table),
      (readTLStarsSubscription, writeTLStarsSubscription, TL_StarsSubscription_table),
      (readTLPaymentsStarsStatus, writeTLPaymentsStarsStatus, TL_PaymentsStarsStatus_table),
      (readTLFoundStory, writeTLFoundStory, TL_FoundStory_table),
      (readTLStoriesFoundStories, writeTLStoriesFoundStories, TL_StoriesFoundStories_table),
      (readTLPaymentsStarsRevenueStats, writeTLPaymentsStarsRevenueStats, TL_PaymentsStarsRevenueStats_table),
      (readTLBotPreviewMedia, writeTLBotPreviewMedia, TL_BotPreviewMedia_table),
      (readTLBotsPreviewInfo, writeTLBotsPreviewInfo, TL_BotsPreviewInfo_table),
      (readTLPaymentsStarGifts, writeTLPaymentsStarGifts, TL_PaymentsStarGifts_table),
      (readTLMessagesPreparedInlineMessage, writeTLMessagesPreparedInlineMessage, TL_MessagesPreparedInlineMessage_table),
      (readTLMessagesFoundStickers, writeTLMessagesFoundStickers, TL_MessagesFoundStickers_table),
      (readTLPaymentsStarGiftUpgradePreview, writeTLPaymentsStarGiftUpgradePreview, TL_PaymentsStarGiftUpgradePreview_table),
      (readTLPaymentsUniqueStarGift, writeTLPaymentsUniqueStarGift, TL_PaymentsUniqueStarGift_table),
      (readTLMessagesWebPagePreview, writeTLMessagesWebPagePreview, TL_MessagesWebPagePreview_table),
      (readTLSavedStarGift, writeTLSavedStarGift, TL_SavedStarGift_table),
      (readTLPaymentsSavedStarGifts, writeTLPaymentsSavedStarGifts, TL_PaymentsSavedStarGifts_table),
      (readTLPaymentsResaleStarGifts, writeTLPaymentsResaleStarGifts, TL_PaymentsResaleStarGifts_table),
      (readTLStarGiftCollection, writeTLStarGiftCollection, TL_StarGiftCollection_table),
      (readTLPaymentsStarGiftCollections, writeTLPaymentsStarGiftCollections, TL_PaymentsStarGiftCollections_table),
      (readTLStoryAlbum, writeTLStoryAlbum, TL_StoryAlbum_table),
      (readTLStoriesAlbums, writeTLStoriesAlbums, TL_StoriesAlbums_table),
      (readTLUsersSavedMusic, writeTLUsersSavedMusic, TL_UsersSavedMusic_table),
      (readTLPaymentsStarGiftAuctionState, writeTLPaymentsStarGiftAuctionState, TL_PaymentsStarGiftAuctionState_table),
      (readTLStarGiftActiveAuctionState, writeTLStarGiftActiveAuctionState, TL_StarGiftActiveAuctionState_table),
      (readTLPaymentsStarGiftActiveAuctions, writeTLPaymentsStarGiftActiveAuctions, TL_PaymentsStarGiftActiveAuctions_table),
      (readTLPaymentsStarGiftUpgradeAttributes, writeTLPaymentsStarGiftUpgradeAttributes, TL_PaymentsStarGiftUpgradeAttributes_table),
      (readTLMessagesChatInviteJoinResult, writeTLMessagesChatInviteJoinResult, TL_MessagesChatInviteJoinResult_table),
      (readTLMessagesTranslatedRichMessage, writeTLMessagesTranslatedRichMessage, TL_MessagesTranslatedRichMessage_table),
      (readTLMessagesComposedRichMessageWithAI, writeTLMessagesComposedRichMessageWithAI, TL_MessagesComposedRichMessageWithAI_table),
      (readTLEphemeralWelcomeMessages, writeTLEphemeralWelcomeMessages, TL_EphemeralWelcomeMessages_table)]"

lemma tl_types_part14_codec: "(R, W, t) \<in> set tl_types_part14 \<Longrightarrow> tl_codec R W (enc_fobject t) (ok_fobject t)"
  by (auto simp: tl_types_part14_def
      intro: tl_StoriesStoryReactionsList.tl_codec_axioms tl_SavedDialog.tl_codec_axioms
         tl_MessagesSavedDialogs.tl_codec_axioms tl_MessagesQuickReplies.tl_codec_axioms
         tl_MessagesMyStickers.tl_codec_axioms tl_MessagesInvitedUsers.tl_codec_axioms
         tl_MessagesAvailableEffects.tl_codec_axioms tl_StarsTransaction.tl_codec_axioms
         tl_StarsSubscription.tl_codec_axioms tl_PaymentsStarsStatus.tl_codec_axioms
         tl_FoundStory.tl_codec_axioms tl_StoriesFoundStories.tl_codec_axioms
         tl_PaymentsStarsRevenueStats.tl_codec_axioms tl_BotPreviewMedia.tl_codec_axioms
         tl_BotsPreviewInfo.tl_codec_axioms tl_PaymentsStarGifts.tl_codec_axioms
         tl_MessagesPreparedInlineMessage.tl_codec_axioms
         tl_MessagesFoundStickers.tl_codec_axioms
         tl_PaymentsStarGiftUpgradePreview.tl_codec_axioms
         tl_PaymentsUniqueStarGift.tl_codec_axioms tl_MessagesWebPagePreview.tl_codec_axioms
         tl_SavedStarGift.tl_codec_axioms tl_PaymentsSavedStarGifts.tl_codec_axioms
         tl_PaymentsResaleStarGifts.tl_codec_axioms tl_StarGiftCollection.tl_codec_axioms
         tl_PaymentsStarGiftCollections.tl_codec_axioms tl_StoryAlbum.tl_codec_axioms
         tl_StoriesAlbums.tl_codec_axioms tl_UsersSavedMusic.tl_codec_axioms
         tl_PaymentsStarGiftAuctionState.tl_codec_axioms
         tl_StarGiftActiveAuctionState.tl_codec_axioms
         tl_PaymentsStarGiftActiveAuctions.tl_codec_axioms
         tl_PaymentsStarGiftUpgradeAttributes.tl_codec_axioms
         tl_MessagesChatInviteJoinResult.tl_codec_axioms
         tl_MessagesTranslatedRichMessage.tl_codec_axioms
         tl_MessagesComposedRichMessageWithAI.tl_codec_axioms
         tl_EphemeralWelcomeMessages.tl_codec_axioms)

text \<open>Every type of the API and the contract for all of them: the types with a table, and those that contain themselves.\<close>

definition api_recursive :: "(tl_reader \<times> tl_writer \<times> (qtenv \<Rightarrow> variant \<Rightarrow> bytes) \<times> (qtenv \<Rightarrow> variant \<Rightarrow> bool)) list" where
  "api_recursive =
     [(readTLInputPeer, writeTLInputPeer, enc_InputPeer, ok_InputPeer),
      (readTLRichText, writeTLRichText, enc_RichText, ok_RichText),
      (readTLPageBlock, writeTLPageBlock, enc_PageBlock, ok_PageBlock),
      (readTLPageListItem, writeTLPageListItem, enc_PageListItem, ok_PageListItem),
      (readTLPageListOrderedItem, writeTLPageListOrderedItem, enc_PageListOrderedItem, ok_PageListOrderedItem),
      (readTLInputMedia, writeTLInputMedia, enc_InputMedia, ok_InputMedia),
      (readTLMessageMedia, writeTLMessageMedia, enc_MessageMedia, ok_MessageMedia),
      (readTLWebPage, writeTLWebPage, enc_WebPage, ok_WebPage),
      (readTLPollAnswer, writeTLPollAnswer, enc_PollAnswer, ok_PollAnswer),
      (readTLPoll, writeTLPoll, enc_Poll, ok_Poll),
      (readTLPollResults, writeTLPollResults, enc_PollResults, ok_PollResults),
      (readTLWebPageAttribute, writeTLWebPageAttribute, enc_WebPageAttribute, ok_WebPageAttribute),
      (readTLMessageExtendedMedia, writeTLMessageExtendedMedia, enc_MessageExtendedMedia, ok_MessageExtendedMedia),
      (readTLStoryItem, writeTLStoryItem, enc_StoryItem, ok_StoryItem),
      (readTLSecureRequiredType, writeTLSecureRequiredType, enc_SecureRequiredType, ok_SecureRequiredType),
      (readTLJSONObjectValue, writeTLJSONObjectValue, enc_JSONObjectValue, ok_JSONObjectValue),
      (readTLJSONValue, writeTLJSONValue, enc_JSONValue, ok_JSONValue)]"

lemma api_recursive_codec: "(R, W, e, k) \<in> set api_recursive \<Longrightarrow> tl_codec R W e k"
  by (auto simp: api_recursive_def
      intro: tl_InputPeer.tl_codec_axioms tl_RichText.tl_codec_axioms tl_PageBlock.tl_codec_axioms
         tl_PageListItem.tl_codec_axioms tl_PageListOrderedItem.tl_codec_axioms
         tl_InputMedia.tl_codec_axioms tl_MessageMedia.tl_codec_axioms
         tl_WebPage.tl_codec_axioms tl_PollAnswer.tl_codec_axioms tl_Poll.tl_codec_axioms
         tl_PollResults.tl_codec_axioms tl_WebPageAttribute.tl_codec_axioms
         tl_MessageExtendedMedia.tl_codec_axioms tl_StoryItem.tl_codec_axioms
         tl_SecureRequiredType.tl_codec_axioms tl_JSONObjectValue.tl_codec_axioms
         tl_JSONValue.tl_codec_axioms)

definition all_codecs :: "(tl_reader \<times> tl_writer \<times> (qtenv \<Rightarrow> variant \<Rightarrow> bytes) \<times> (qtenv \<Rightarrow> variant \<Rightarrow> bool)) list" where
  "all_codecs =
     map (\<lambda>(R, W, t). (R, W, enc_fobject t, ok_fobject t)) (concat [api_types, tl_types_part11, tl_types_part12, tl_types_part13, tl_types_part14]) @ api_recursive"

lemma all_codecs_codec: "(R, W, e, k) \<in> set all_codecs \<Longrightarrow> tl_codec R W e k"
  unfolding all_codecs_def using api_type_codec tl_types_part11_codec tl_types_part12_codec tl_types_part13_codec tl_types_part14_codec api_recursive_codec by auto

end
