(* ===== verification/TlMethods3.thy ===== *)
theory TlMethods3
  imports TlMethods2 TlTypes8
begin

section \<open>The API schema, methods that take or return these types: libkg/tlschema.cpp\<close>

text \<open>
  The writer of each method's request and the reader of its reply.
\<close>

definition readTLMethodAccountGetWallPapers :: tl_reader where
  "readTLMethodAccountGetWallPapers = read_method (127302966) readTLAccountWallPapers"

definition readTLMethodAccountGetAuthorizationForm :: tl_reader where
  "readTLMethodAccountGetAuthorizationForm = read_method (- 1456907910) readTLAccountAuthorizationForm"

definition readTLMethodAccountGetNotifyExceptions :: tl_reader where
  "readTLMethodAccountGetNotifyExceptions = read_method (1398240377) readTLUpdates"

definition readTLMethodAccountGetWallPaper :: tl_reader where
  "readTLMethodAccountGetWallPaper = read_method (- 57811990) readTLWallPaper"

definition readTLMethodAccountUploadWallPaper :: tl_reader where
  "readTLMethodAccountUploadWallPaper = read_method (- 476410109) readTLWallPaper"

definition readTLMethodAccountUploadTheme :: tl_reader where
  "readTLMethodAccountUploadTheme = read_method (473805619) readTLDocument"

definition readTLMethodAccountCreateTheme :: tl_reader where
  "readTLMethodAccountCreateTheme = read_method (1697530880) readTLTheme"

definition readTLMethodAccountUpdateTheme :: tl_reader where
  "readTLMethodAccountUpdateTheme = read_method (737414348) readTLTheme"

definition readTLMethodAccountGetTheme :: tl_reader where
  "readTLMethodAccountGetTheme = read_method (978872812) readTLTheme"

definition readTLMethodAccountGetThemes :: tl_reader where
  "readTLMethodAccountGetThemes = read_method (1913054296) readTLAccountThemes"

definition readTLMethodAccountGetMultiWallPapers :: tl_reader where
  "readTLMethodAccountGetMultiWallPapers = read_method (1705865692) (readVector (Some readTLWallPaper))"

definition readTLMethodAccountGetChatThemes :: tl_reader where
  "readTLMethodAccountGetChatThemes = read_method (- 700916087) readTLAccountThemes"

definition readTLMethodAccountGetSavedRingtones :: tl_reader where
  "readTLMethodAccountGetSavedRingtones = read_method (- 510647672) readTLAccountSavedRingtones"

definition readTLMethodAccountSaveRingtone :: tl_reader where
  "readTLMethodAccountSaveRingtone = read_method (1038768899) readTLAccountSavedRingtone"

definition readTLMethodAccountUploadRingtone :: tl_reader where
  "readTLMethodAccountUploadRingtone = read_method (- 2095414366) readTLDocument"

definition writeTLMethodAccountUpdateBusinessLocation :: tl_writer where
  "writeTLMethodAccountUpdateBusinessLocation = write_fobject
     [(- 1637149926, [wf ''_'' writeInt32, wf_flags ''flags'' [(''geo_point'', 1), (''address'',
         0)], wf_if ''flags'' 1 ''geo_point'' writeTLInputGeoPoint,
         wf_if ''flags'' 0 ''address'' writeString])]"

definition readTLMethodAccountUpdateConnectedBot :: tl_reader where
  "readTLMethodAccountUpdateConnectedBot = read_method (1721797758) readTLUpdates"

definition readTLMethodAccountGetBotBusinessConnection :: tl_reader where
  "readTLMethodAccountGetBotBusinessConnection = read_method (1990746736) readTLUpdates"

definition readTLMethodAccountGetUniqueGiftChatThemes :: tl_reader where
  "readTLMethodAccountGetUniqueGiftChatThemes = read_method (- 466818615) readTLAccountChatThemes"

definition readTLMethodAccountToggleWebBrowserSettingsException :: tl_reader where
  "readTLMethodAccountToggleWebBrowserSettingsException = read_method (1626161705) readTLUpdates"

definition readTLMethodUsersGetFullUser :: tl_reader where
  "readTLMethodUsersGetFullUser = read_method (- 1240508136) readTLUsersUserFull"

definition readTLMethodUsersGetSavedMusic :: tl_reader where
  "readTLMethodUsersGetSavedMusic = read_method (2022539235) readTLUsersSavedMusic"

definition readTLMethodUsersGetSavedMusicByID :: tl_reader where
  "readTLMethodUsersGetSavedMusicByID = read_method (1970513129) readTLUsersSavedMusic"

definition readTLMethodUsersSuggestBirthday :: tl_reader where
  "readTLMethodUsersSuggestBirthday = read_method (- 61656206) readTLUpdates"

definition readTLMethodContactsDeleteContacts :: tl_reader where
  "readTLMethodContactsDeleteContacts = read_method (157945344) readTLUpdates"

definition readTLMethodContactsGetTopPeers :: tl_reader where
  "readTLMethodContactsGetTopPeers = read_method (- 1758168906) readTLContactsTopPeers"

definition readTLMethodContactsAddContact :: tl_reader where
  "readTLMethodContactsAddContact = read_method (- 642109868) readTLUpdates"

definition readTLMethodContactsAcceptContact :: tl_reader where
  "readTLMethodContactsAcceptContact = read_method (- 130964977) readTLUpdates"

definition readTLMethodContactsGetLocated :: tl_reader where
  "readTLMethodContactsGetLocated = read_method (- 750207932) readTLUpdates"

definition writeTLMethodContactsGetLocated :: tl_writer where
  "writeTLMethodContactsGetLocated = write_fobject
     [(- 750207932, [wf ''_'' writeInt32, wf_flags ''flags'' [(''background'', 1),
         (''self_expires'', 0)], wf ''geo_point'' writeTLInputGeoPoint,
         wf_if ''flags'' 0 ''self_expires'' writeInt32])]"

definition readTLMethodContactsBlockFromReplies :: tl_reader where
  "readTLMethodContactsBlockFromReplies = read_method (698914348) readTLUpdates"

definition readTLMethodMessagesGetMessages :: tl_reader where
  "readTLMethodMessagesGetMessages = read_method (1673946374) readTLMessagesMessages"

definition readTLMethodMessagesGetDialogs :: tl_reader where
  "readTLMethodMessagesGetDialogs = read_method (- 1594569905) readTLMessagesDialogs"

definition readTLMethodMessagesGetHistory :: tl_reader where
  "readTLMethodMessagesGetHistory = read_method (1143203525) readTLMessagesMessages"

definition readTLMethodMessagesSearch :: tl_reader where
  "readTLMethodMessagesSearch = read_method (703497338) readTLMessagesMessages"

definition writeTLMethodMessagesSetTyping :: tl_writer where
  "writeTLMethodMessagesSetTyping = write_fobject
     [(1486110434, [wf ''_'' writeInt32, wf_flags ''flags'' [(''top_msg_id'', 0)],
         wf ''peer'' writeTLInputPeer, wf_if ''flags'' 0 ''top_msg_id'' writeInt32,
         wf ''action'' writeTLSendMessageAction])]"

definition readTLMethodMessagesSendMessage :: tl_reader where
  "readTLMethodMessagesSendMessage = read_method (- 17526942) readTLUpdates"

definition writeTLMethodMessagesSendMessage :: tl_writer where
  "writeTLMethodMessagesSendMessage = write_fobject
     [(- 17526942, [wf ''_'' writeInt32, wf_flags ''flags'' [(''no_webpage'', 1), (''silent'', 5),
         (''background'', 6), (''clear_draft'', 7), (''noforwards'', 14),
         (''update_stickersets_order'', 15), (''invert_media'', 16), (''allow_paid_floodskip'',
         19), (''reply_to'', 0), (''reply_markup'', 2), (''entities'', 3), (''schedule_date'', 10),
         (''schedule_repeat_period'', 24), (''send_as'', 13), (''quick_reply_shortcut'', 17),
         (''effect'', 18), (''allow_paid_stars'', 21), (''suggested_post'', 22), (''rich_message'',
         23)], wf ''peer'' writeTLInputPeer, wf_if ''flags'' 0 ''reply_to'' writeTLInputReplyTo,
         wf ''message'' writeString, wf ''random_id'' writeInt64,
         wf_if ''flags'' 2 ''reply_markup'' writeTLReplyMarkup,
         wf_if ''flags'' 3 ''entities'' (writeVector (Some writeTLMessageEntity)),
         wf_if ''flags'' 10 ''schedule_date'' writeInt32,
         wf_if ''flags'' 24 ''schedule_repeat_period'' writeInt32,
         wf_if ''flags'' 13 ''send_as'' writeTLInputPeer,
         wf_if ''flags'' 17 ''quick_reply_shortcut'' writeTLInputQuickReplyShortcut,
         wf_if ''flags'' 18 ''effect'' writeInt64,
         wf_if ''flags'' 21 ''allow_paid_stars'' writeInt64,
         wf_if ''flags'' 22 ''suggested_post'' writeTLSuggestedPost,
         wf_if ''flags'' 23 ''rich_message'' writeTLInputRichMessage])]"

definition readTLMethodMessagesSendMedia :: tl_reader where
  "readTLMethodMessagesSendMedia = read_method (53536639) readTLUpdates"

definition writeTLMethodMessagesSendMedia :: tl_writer where
  "writeTLMethodMessagesSendMedia = write_fobject
     [(53536639, [wf ''_'' writeInt32, wf_flags ''flags'' [(''silent'', 5), (''background'', 6),
         (''clear_draft'', 7), (''noforwards'', 14), (''update_stickersets_order'', 15),
         (''invert_media'', 16), (''allow_paid_floodskip'', 19), (''reply_to'', 0),
         (''reply_markup'', 2), (''entities'', 3), (''schedule_date'', 10),
         (''schedule_repeat_period'', 24), (''send_as'', 13), (''quick_reply_shortcut'', 17),
         (''effect'', 18), (''allow_paid_stars'', 21), (''suggested_post'', 22)],
         wf ''peer'' writeTLInputPeer, wf_if ''flags'' 0 ''reply_to'' writeTLInputReplyTo,
         wf ''media'' writeTLInputMedia, wf ''message'' writeString, wf ''random_id'' writeInt64,
         wf_if ''flags'' 2 ''reply_markup'' writeTLReplyMarkup,
         wf_if ''flags'' 3 ''entities'' (writeVector (Some writeTLMessageEntity)),
         wf_if ''flags'' 10 ''schedule_date'' writeInt32,
         wf_if ''flags'' 24 ''schedule_repeat_period'' writeInt32,
         wf_if ''flags'' 13 ''send_as'' writeTLInputPeer,
         wf_if ''flags'' 17 ''quick_reply_shortcut'' writeTLInputQuickReplyShortcut,
         wf_if ''flags'' 18 ''effect'' writeInt64,
         wf_if ''flags'' 21 ''allow_paid_stars'' writeInt64,
         wf_if ''flags'' 22 ''suggested_post'' writeTLSuggestedPost])]"

definition readTLMethodMessagesForwardMessages :: tl_reader where
  "readTLMethodMessagesForwardMessages = read_method (326126204) readTLUpdates"

definition readTLMethodMessagesGetFullChat :: tl_reader where
  "readTLMethodMessagesGetFullChat = read_method (- 1364194508) readTLMessagesChatFull"

definition readTLMethodMessagesEditChatTitle :: tl_reader where
  "readTLMethodMessagesEditChatTitle = read_method (1937260541) readTLUpdates"

definition readTLMethodMessagesEditChatPhoto :: tl_reader where
  "readTLMethodMessagesEditChatPhoto = read_method (903730804) readTLUpdates"

definition writeTLMethodMessagesEditChatPhoto :: tl_writer where
  "writeTLMethodMessagesEditChatPhoto = write_fobject
     [(903730804, [wf ''_'' writeInt32, wf ''chat_id'' writeInt64,
         wf ''photo'' writeTLInputChatPhoto])]"

definition readTLMethodMessagesAddChatUser :: tl_reader where
  "readTLMethodMessagesAddChatUser = read_method (- 876162809) readTLMessagesInvitedUsers"

definition readTLMethodMessagesDeleteChatUser :: tl_reader where
  "readTLMethodMessagesDeleteChatUser = read_method (- 1575461717) readTLUpdates"

definition readTLMethodMessagesCreateChat :: tl_reader where
  "readTLMethodMessagesCreateChat = read_method (- 1831936556) readTLMessagesInvitedUsers"

definition readTLMethodMessagesGetStickers :: tl_reader where
  "readTLMethodMessagesGetStickers = read_method (- 710552671) readTLMessagesStickers"

definition readTLMethodMessagesGetWebPagePreview :: tl_reader where
  "readTLMethodMessagesGetWebPagePreview = read_method (1460498287) readTLMessagesWebPagePreview"

definition readTLMethodMessagesCheckChatInvite :: tl_reader where
  "readTLMethodMessagesCheckChatInvite = read_method (1051570619) readTLChatInvite"

definition readTLMethodMessagesImportChatInvite :: tl_reader where
  "readTLMethodMessagesImportChatInvite = read_method (- 560905362) readTLMessagesChatInviteJoinResult"

definition readTLMethodMessagesGetStickerSet :: tl_reader where
  "readTLMethodMessagesGetStickerSet = read_method (- 928977804) readTLMessagesStickerSet"

definition readTLMethodMessagesInstallStickerSet :: tl_reader where
  "readTLMethodMessagesInstallStickerSet = read_method (- 946871200) readTLMessagesStickerSetInstallResult"

definition readTLMethodMessagesStartBot :: tl_reader where
  "readTLMethodMessagesStartBot = read_method (- 421563528) readTLUpdates"

definition readTLMethodMessagesMigrateChat :: tl_reader where
  "readTLMethodMessagesMigrateChat = read_method (- 1568189671) readTLUpdates"

definition readTLMethodMessagesSearchGlobal :: tl_reader where
  "readTLMethodMessagesSearchGlobal = read_method (1629922364) readTLMessagesMessages"

definition readTLMethodMessagesGetDocumentByHash :: tl_reader where
  "readTLMethodMessagesGetDocumentByHash = read_method (- 1309538785) readTLDocument"

definition readTLMethodMessagesGetSavedGifs :: tl_reader where
  "readTLMethodMessagesGetSavedGifs = read_method (1559270965) readTLMessagesSavedGifs"

definition readTLMethodMessagesGetInlineBotResults :: tl_reader where
  "readTLMethodMessagesGetInlineBotResults = read_method (1364105629) readTLMessagesBotResults"

definition writeTLMethodMessagesGetInlineBotResults :: tl_writer where
  "writeTLMethodMessagesGetInlineBotResults = write_fobject
     [(1364105629, [wf ''_'' writeInt32, wf_flags ''flags'' [(''geo_point'', 0)],
         wf ''bot'' writeTLInputUser, wf ''peer'' writeTLInputPeer,
         wf_if ''flags'' 0 ''geo_point'' writeTLInputGeoPoint, wf ''query'' writeString,
         wf ''offset'' writeString])]"

definition writeTLMethodMessagesSetInlineBotResults :: tl_writer where
  "writeTLMethodMessagesSetInlineBotResults = write_fobject
     [(- 1156406247, [wf ''_'' writeInt32, wf_flags ''flags'' [(''gallery'', 0), (''private'', 1),
         (''next_offset'', 2), (''switch_pm'', 3), (''switch_webview'', 4)],
         wf ''query_id'' writeInt64,
         wf ''results'' (writeVector (Some writeTLInputBotInlineResult)),
         wf ''cache_time'' writeInt32, wf_if ''flags'' 2 ''next_offset'' writeString,
         wf_if ''flags'' 3 ''switch_pm'' writeTLInlineBotSwitchPM,
         wf_if ''flags'' 4 ''switch_webview'' writeTLInlineBotWebView])]"

definition readTLMethodMessagesSendInlineBotResult :: tl_reader where
  "readTLMethodMessagesSendInlineBotResult = read_method (- 1060145594) readTLUpdates"

definition readTLMethodMessagesEditMessage :: tl_reader where
  "readTLMethodMessagesEditMessage = read_method (- 1324947860) readTLUpdates"

definition writeTLMethodMessagesEditMessage :: tl_writer where
  "writeTLMethodMessagesEditMessage = write_fobject
     [(- 1324947860, [wf ''_'' writeInt32, wf_flags ''flags'' [(''no_webpage'', 1),
         (''invert_media'', 16), (''message'', 11), (''media'', 14), (''reply_markup'', 2),
         (''entities'', 3), (''schedule_date'', 15), (''schedule_repeat_period'', 18),
         (''quick_reply_shortcut_id'', 17), (''rich_message'', 23)], wf ''peer'' writeTLInputPeer,
         wf ''id'' writeInt32, wf_if ''flags'' 11 ''message'' writeString,
         wf_if ''flags'' 14 ''media'' writeTLInputMedia,
         wf_if ''flags'' 2 ''reply_markup'' writeTLReplyMarkup,
         wf_if ''flags'' 3 ''entities'' (writeVector (Some writeTLMessageEntity)),
         wf_if ''flags'' 15 ''schedule_date'' writeInt32,
         wf_if ''flags'' 18 ''schedule_repeat_period'' writeInt32,
         wf_if ''flags'' 17 ''quick_reply_shortcut_id'' writeInt32,
         wf_if ''flags'' 23 ''rich_message'' writeTLInputRichMessage])]"

definition writeTLMethodMessagesEditInlineBotMessage :: tl_writer where
  "writeTLMethodMessagesEditInlineBotMessage = write_fobject
     [(- 1541162159, [wf ''_'' writeInt32, wf_flags ''flags'' [(''no_webpage'', 1),
         (''invert_media'', 16), (''message'', 11), (''media'', 14), (''reply_markup'', 2),
         (''entities'', 3), (''rich_message'', 23)], wf ''id'' writeTLInputBotInlineMessageID,
         wf_if ''flags'' 11 ''message'' writeString,
         wf_if ''flags'' 14 ''media'' writeTLInputMedia,
         wf_if ''flags'' 2 ''reply_markup'' writeTLReplyMarkup,
         wf_if ''flags'' 3 ''entities'' (writeVector (Some writeTLMessageEntity)),
         wf_if ''flags'' 23 ''rich_message'' writeTLInputRichMessage])]"

definition readTLMethodMessagesGetPeerDialogs :: tl_reader where
  "readTLMethodMessagesGetPeerDialogs = read_method (- 462373635) readTLMessagesPeerDialogs"

definition writeTLMethodMessagesSaveDraft :: tl_writer where
  "writeTLMethodMessagesSaveDraft = write_fobject
     [(- 1391484580, [wf ''_'' writeInt32, wf_flags ''flags'' [(''no_webpage'', 1),
         (''invert_media'', 6), (''reply_to'', 4), (''entities'', 3), (''media'', 5), (''effect'',
         7), (''suggested_post'', 8), (''rich_message'', 9)],
         wf_if ''flags'' 4 ''reply_to'' writeTLInputReplyTo, wf ''peer'' writeTLInputPeer,
         wf ''message'' writeString,
         wf_if ''flags'' 3 ''entities'' (writeVector (Some writeTLMessageEntity)),
         wf_if ''flags'' 5 ''media'' writeTLInputMedia, wf_if ''flags'' 7 ''effect'' writeInt64,
         wf_if ''flags'' 8 ''suggested_post'' writeTLSuggestedPost,
         wf_if ''flags'' 9 ''rich_message'' writeTLInputRichMessage])]"

definition readTLMethodMessagesGetAllDrafts :: tl_reader where
  "readTLMethodMessagesGetAllDrafts = read_method (1782549861) readTLUpdates"

definition readTLMethodMessagesGetFeaturedStickers :: tl_reader where
  "readTLMethodMessagesGetFeaturedStickers = read_method (1685588756) readTLMessagesFeaturedStickers"

definition readTLMethodMessagesGetRecentStickers :: tl_reader where
  "readTLMethodMessagesGetRecentStickers = read_method (- 1649852357) readTLMessagesRecentStickers"

definition readTLMethodMessagesGetArchivedStickers :: tl_reader where
  "readTLMethodMessagesGetArchivedStickers = read_method (1475442322) readTLMessagesArchivedStickers"

definition readTLMethodMessagesGetAttachedStickers :: tl_reader where
  "readTLMethodMessagesGetAttachedStickers = read_method (- 866424884) (readVector (Some readTLStickerSetCovered))"

definition readTLMethodMessagesSetGameScore :: tl_reader where
  "readTLMethodMessagesSetGameScore = read_method (- 1896289088) readTLUpdates"

definition readTLMethodMessagesGetWebPage :: tl_reader where
  "readTLMethodMessagesGetWebPage = read_method (- 1919511901) readTLMessagesWebPage"

definition readTLMethodMessagesGetPinnedDialogs :: tl_reader where
  "readTLMethodMessagesGetPinnedDialogs = read_method (- 692498958) readTLMessagesPeerDialogs"

definition readTLMethodMessagesUploadMedia :: tl_reader where
  "readTLMethodMessagesUploadMedia = read_method (345405816) readTLMessageMedia"

definition writeTLMethodMessagesUploadMedia :: tl_writer where
  "writeTLMethodMessagesUploadMedia = write_fobject
     [(345405816, [wf ''_'' writeInt32, wf_flags ''flags'' [(''business_connection_id'', 0)],
         wf_if ''flags'' 0 ''business_connection_id'' writeString, wf ''peer'' writeTLInputPeer,
         wf ''media'' writeTLInputMedia])]"

definition readTLMethodMessagesSendScreenshotNotification :: tl_reader where
  "readTLMethodMessagesSendScreenshotNotification = read_method (- 1589618665) readTLUpdates"

definition readTLMethodMessagesGetFavedStickers :: tl_reader where
  "readTLMethodMessagesGetFavedStickers = read_method (82946729) readTLMessagesFavedStickers"

definition readTLMethodMessagesGetUnreadMentions :: tl_reader where
  "readTLMethodMessagesGetUnreadMentions = read_method (- 251140208) readTLMessagesMessages"

definition readTLMethodMessagesGetRecentLocations :: tl_reader where
  "readTLMethodMessagesGetRecentLocations = read_method (1881817312) readTLMessagesMessages"

definition readTLMethodMessagesSendMultiMedia :: tl_reader where
  "readTLMethodMessagesSendMultiMedia = read_method (469278068) readTLUpdates"

definition writeTLMethodMessagesSendMultiMedia :: tl_writer where
  "writeTLMethodMessagesSendMultiMedia = write_fobject
     [(469278068, [wf ''_'' writeInt32, wf_flags ''flags'' [(''silent'', 5), (''background'', 6),
         (''clear_draft'', 7), (''noforwards'', 14), (''update_stickersets_order'', 15),
         (''invert_media'', 16), (''allow_paid_floodskip'', 19), (''reply_to'', 0),
         (''schedule_date'', 10), (''send_as'', 13), (''quick_reply_shortcut'', 17), (''effect'',
         18), (''allow_paid_stars'', 21)], wf ''peer'' writeTLInputPeer,
         wf_if ''flags'' 0 ''reply_to'' writeTLInputReplyTo,
         wf ''multi_media'' (writeVector (Some writeTLInputSingleMedia)),
         wf_if ''flags'' 10 ''schedule_date'' writeInt32,
         wf_if ''flags'' 13 ''send_as'' writeTLInputPeer,
         wf_if ''flags'' 17 ''quick_reply_shortcut'' writeTLInputQuickReplyShortcut,
         wf_if ''flags'' 18 ''effect'' writeInt64,
         wf_if ''flags'' 21 ''allow_paid_stars'' writeInt64])]"

definition readTLMethodMessagesSearchStickerSets :: tl_reader where
  "readTLMethodMessagesSearchStickerSets = read_method (896555914) readTLMessagesFoundStickerSets"

definition readTLMethodMessagesUpdatePinnedMessage :: tl_reader where
  "readTLMethodMessagesUpdatePinnedMessage = read_method (- 760547348) readTLUpdates"

definition readTLMethodMessagesSendVote :: tl_reader where
  "readTLMethodMessagesSendVote = read_method (283795844) readTLUpdates"

definition readTLMethodMessagesGetPollResults :: tl_reader where
  "readTLMethodMessagesGetPollResults = read_method (- 308026565) readTLUpdates"

definition readTLMethodMessagesEditChatDefaultBannedRights :: tl_reader where
  "readTLMethodMessagesEditChatDefaultBannedRights = read_method (- 1517917375) readTLUpdates"

definition readTLMethodMessagesGetScheduledHistory :: tl_reader where
  "readTLMethodMessagesGetScheduledHistory = read_method (- 183077365) readTLMessagesMessages"

definition readTLMethodMessagesGetScheduledMessages :: tl_reader where
  "readTLMethodMessagesGetScheduledMessages = read_method (- 1111817116) readTLMessagesMessages"

definition readTLMethodMessagesSendScheduledMessages :: tl_reader where
  "readTLMethodMessagesSendScheduledMessages = read_method (- 1120369398) readTLUpdates"

definition readTLMethodMessagesDeleteScheduledMessages :: tl_reader where
  "readTLMethodMessagesDeleteScheduledMessages = read_method (1504586518) readTLUpdates"

definition readTLMethodMessagesGetOldFeaturedStickers :: tl_reader where
  "readTLMethodMessagesGetOldFeaturedStickers = read_method (2127598753) readTLMessagesFeaturedStickers"

definition readTLMethodMessagesGetReplies :: tl_reader where
  "readTLMethodMessagesGetReplies = read_method (584962828) readTLMessagesMessages"

definition readTLMethodMessagesGetDiscussionMessage :: tl_reader where
  "readTLMethodMessagesGetDiscussionMessage = read_method (1147761405) readTLMessagesDiscussionMessage"

definition readTLMethodMessagesUploadImportedMedia :: tl_reader where
  "readTLMethodMessagesUploadImportedMedia = read_method (713433234) readTLMessageMedia"

definition writeTLMethodMessagesUploadImportedMedia :: tl_writer where
  "writeTLMethodMessagesUploadImportedMedia = write_fobject
     [(713433234, [wf ''_'' writeInt32, wf ''peer'' writeTLInputPeer, wf ''import_id'' writeInt64,
         wf ''file_name'' writeString, wf ''media'' writeTLInputMedia])]"

definition readTLMethodMessagesSetHistoryTTL :: tl_reader where
  "readTLMethodMessagesSetHistoryTTL = read_method (- 1207017500) readTLUpdates"

definition readTLMethodMessagesSetChatTheme :: tl_reader where
  "readTLMethodMessagesSetChatTheme = read_method (135398089) readTLUpdates"

definition readTLMethodMessagesGetSearchResultsCalendar :: tl_reader where
  "readTLMethodMessagesGetSearchResultsCalendar = read_method (1789130429) readTLMessagesSearchResultsCalendar"

definition readTLMethodMessagesHideChatJoinRequest :: tl_reader where
  "readTLMethodMessagesHideChatJoinRequest = read_method (2145904661) readTLUpdates"

definition readTLMethodMessagesHideAllChatJoinRequests :: tl_reader where
  "readTLMethodMessagesHideAllChatJoinRequests = read_method (- 528091926) readTLUpdates"

definition readTLMethodMessagesToggleNoForwards :: tl_reader where
  "readTLMethodMessagesToggleNoForwards = read_method (- 1308091851) readTLUpdates"

definition readTLMethodMessagesSendReaction :: tl_reader where
  "readTLMethodMessagesSendReaction = read_method (- 754091820) readTLUpdates"

definition readTLMethodMessagesGetMessagesReactions :: tl_reader where
  "readTLMethodMessagesGetMessagesReactions = read_method (- 1950707482) readTLUpdates"

definition readTLMethodMessagesSetChatAvailableReactions :: tl_reader where
  "readTLMethodMessagesSetChatAvailableReactions = read_method (- 2041895551) readTLUpdates"

definition readTLMethodMessagesGetAvailableReactions :: tl_reader where
  "readTLMethodMessagesGetAvailableReactions = read_method (417243308) readTLMessagesAvailableReactions"

definition readTLMethodMessagesGetUnreadReactions :: tl_reader where
  "readTLMethodMessagesGetUnreadReactions = read_method (- 1115713364) readTLMessagesMessages"

definition readTLMethodMessagesSearchSentMedia :: tl_reader where
  "readTLMethodMessagesSearchSentMedia = read_method (276705696) readTLMessagesMessages"

definition readTLMethodMessagesGetAttachMenuBots :: tl_reader where
  "readTLMethodMessagesGetAttachMenuBots = read_method (385663691) readTLAttachMenuBots"

definition readTLMethodMessagesGetAttachMenuBot :: tl_reader where
  "readTLMethodMessagesGetAttachMenuBot = read_method (1998676370) readTLAttachMenuBotsBot"

definition writeTLMethodMessagesSendWebViewResultMessage :: tl_writer where
  "writeTLMethodMessagesSendWebViewResultMessage = write_fobject
     [(172168437, [wf ''_'' writeInt32, wf ''bot_query_id'' writeString,
         wf ''result'' writeTLInputBotInlineResult])]"

definition readTLMethodMessagesSendWebViewData :: tl_reader where
  "readTLMethodMessagesSendWebViewData = read_method (- 603831608) readTLUpdates"

definition readTLMethodMessagesGetCustomEmojiDocuments :: tl_reader where
  "readTLMethodMessagesGetCustomEmojiDocuments = read_method (- 643100844) (readVector (Some readTLDocument))"

definition readTLMethodMessagesGetFeaturedEmojiStickers :: tl_reader where
  "readTLMethodMessagesGetFeaturedEmojiStickers = read_method (248473398) readTLMessagesFeaturedStickers"

definition readTLMethodMessagesGetExtendedMedia :: tl_reader where
  "readTLMethodMessagesGetExtendedMedia = read_method (- 2064119788) readTLUpdates"

definition readTLMethodMessagesSendBotRequestedPeer :: tl_reader where
  "readTLMethodMessagesSendBotRequestedPeer = read_method (1818030759) readTLUpdates"

definition readTLMethodMessagesGetBotApp :: tl_reader where
  "readTLMethodMessagesGetBotApp = read_method (889046467) readTLMessagesBotApp"

definition readTLMethodMessagesSetChatWallPaper :: tl_reader where
  "readTLMethodMessagesSetChatWallPaper = read_method (- 1879389471) readTLUpdates"

definition readTLMethodMessagesSearchEmojiStickerSets :: tl_reader where
  "readTLMethodMessagesSearchEmojiStickerSets = read_method (- 1833678516) readTLMessagesFoundStickerSets"

definition readTLMethodMessagesGetSavedDialogs :: tl_reader where
  "readTLMethodMessagesGetSavedDialogs = read_method (512883865) readTLMessagesSavedDialogs"

definition readTLMethodMessagesGetSavedHistory :: tl_reader where
  "readTLMethodMessagesGetSavedHistory = read_method (- 1718964215) readTLMessagesMessages"

definition readTLMethodMessagesGetPinnedSavedDialogs :: tl_reader where
  "readTLMethodMessagesGetPinnedSavedDialogs = read_method (- 700607264) readTLMessagesSavedDialogs"

definition readTLMethodMessagesGetQuickReplies :: tl_reader where
  "readTLMethodMessagesGetQuickReplies = read_method (- 729550168) readTLMessagesQuickReplies"

definition readTLMethodMessagesGetQuickReplyMessages :: tl_reader where
  "readTLMethodMessagesGetQuickReplyMessages = read_method (- 1801153085) readTLMessagesMessages"

definition readTLMethodMessagesSendQuickReplyMessages :: tl_reader where
  "readTLMethodMessagesSendQuickReplyMessages = read_method (1819610593) readTLUpdates"

definition readTLMethodMessagesDeleteQuickReplyMessages :: tl_reader where
  "readTLMethodMessagesDeleteQuickReplyMessages = read_method (- 519706352) readTLUpdates"

definition readTLMethodMessagesGetMyStickers :: tl_reader where
  "readTLMethodMessagesGetMyStickers = read_method (- 793386500) readTLMessagesMyStickers"

definition readTLMethodMessagesGetAvailableEffects :: tl_reader where
  "readTLMethodMessagesGetAvailableEffects = read_method (- 559805895) readTLMessagesAvailableEffects"

definition readTLMethodMessagesEditFactCheck :: tl_reader where
  "readTLMethodMessagesEditFactCheck = read_method (92925557) readTLUpdates"

definition readTLMethodMessagesDeleteFactCheck :: tl_reader where
  "readTLMethodMessagesDeleteFactCheck = read_method (- 774204404) readTLUpdates"

definition readTLMethodMessagesSendPaidReaction :: tl_reader where
  "readTLMethodMessagesSendPaidReaction = read_method (1488702288) readTLUpdates"

definition readTLMethodMessagesGetPaidReactionPrivacy :: tl_reader where
  "readTLMethodMessagesGetPaidReactionPrivacy = read_method (1193563562) readTLUpdates"

definition readTLMethodMessagesGetSponsoredMessages :: tl_reader where
  "readTLMethodMessagesGetSponsoredMessages = read_method (1030547536) readTLMessagesSponsoredMessages"

definition writeTLMethodMessagesSavePreparedInlineMessage :: tl_writer where
  "writeTLMethodMessagesSavePreparedInlineMessage = write_fobject
     [(- 232816849, [wf ''_'' writeInt32, wf_flags ''flags'' [(''peer_types'', 0)],
         wf ''result'' writeTLInputBotInlineResult, wf ''user_id'' writeTLInputUser,
         wf_if ''flags'' 0 ''peer_types'' (writeVector (Some writeTLInlineQueryPeerType))])]"

definition readTLMethodMessagesGetPreparedInlineMessage :: tl_reader where
  "readTLMethodMessagesGetPreparedInlineMessage = read_method (- 2055291464) readTLMessagesPreparedInlineMessage"

definition readTLMethodMessagesSearchStickers :: tl_reader where
  "readTLMethodMessagesSearchStickers = read_method (699516522) readTLMessagesFoundStickers"

definition readTLMethodMessagesGetSavedDialogsByID :: tl_reader where
  "readTLMethodMessagesGetSavedDialogsByID = read_method (1869585558) readTLMessagesSavedDialogs"

definition readTLMethodMessagesToggleTodoCompleted :: tl_reader where
  "readTLMethodMessagesToggleTodoCompleted = read_method (- 740282076) readTLUpdates"

definition readTLMethodMessagesAppendTodoList :: tl_reader where
  "readTLMethodMessagesAppendTodoList = read_method (564531287) readTLUpdates"

definition readTLMethodMessagesToggleSuggestedPostApproval :: tl_reader where
  "readTLMethodMessagesToggleSuggestedPostApproval = read_method (- 2130229924) readTLUpdates"

definition readTLMethodMessagesGetForumTopics :: tl_reader where
  "readTLMethodMessagesGetForumTopics = read_method (1000635391) readTLMessagesForumTopics"

definition readTLMethodMessagesGetForumTopicsByID :: tl_reader where
  "readTLMethodMessagesGetForumTopicsByID = read_method (- 1358280184) readTLMessagesForumTopics"

definition readTLMethodMessagesEditForumTopic :: tl_reader where
  "readTLMethodMessagesEditForumTopic = read_method (- 825487052) readTLUpdates"

definition readTLMethodMessagesUpdatePinnedForumTopic :: tl_reader where
  "readTLMethodMessagesUpdatePinnedForumTopic = read_method (392032849) readTLUpdates"

definition readTLMethodMessagesReorderPinnedForumTopics :: tl_reader where
  "readTLMethodMessagesReorderPinnedForumTopics = read_method (242762224) readTLUpdates"

definition readTLMethodMessagesCreateForumTopic :: tl_reader where
  "readTLMethodMessagesCreateForumTopic = read_method (798540757) readTLUpdates"

definition readTLMethodMessagesEditChatCreator :: tl_reader where
  "readTLMethodMessagesEditChatCreator = read_method (- 146556841) readTLUpdates"

definition readTLMethodMessagesEditChatParticipantRank :: tl_reader where
  "readTLMethodMessagesEditChatParticipantRank = read_method (- 1609616720) readTLUpdates"

definition readTLMethodMessagesAddPollAnswer :: tl_reader where
  "readTLMethodMessagesAddPollAnswer = read_method (431770477) readTLUpdates"

definition writeTLMethodMessagesAddPollAnswer :: tl_writer where
  "writeTLMethodMessagesAddPollAnswer = write_fobject
     [(431770477, [wf ''_'' writeInt32, wf ''peer'' writeTLInputPeer, wf ''msg_id'' writeInt32,
         wf ''answer'' writeTLPollAnswer])]"

definition readTLMethodMessagesDeletePollAnswer :: tl_reader where
  "readTLMethodMessagesDeletePollAnswer = read_method (- 1400568411) readTLUpdates"

definition readTLMethodMessagesGetUnreadPollVotes :: tl_reader where
  "readTLMethodMessagesGetUnreadPollVotes = read_method (1126722802) readTLMessagesMessages"

definition writeTLMethodMessagesSetBotGuestChatResult :: tl_writer where
  "writeTLMethodMessagesSetBotGuestChatResult = write_fobject
     [(- 1192163613, [wf ''_'' writeInt32, wf ''query_id'' writeInt64,
         wf ''result'' writeTLInputBotInlineResult])]"

definition readTLMethodMessagesDeleteParticipantReaction :: tl_reader where
  "readTLMethodMessagesDeleteParticipantReaction = read_method (- 474482644) readTLUpdates"

definition readTLMethodMessagesGetPersonalChannelHistory :: tl_reader where
  "readTLMethodMessagesGetPersonalChannelHistory = read_method (1442515350) readTLMessagesMessages"

definition readTLMethodMessagesGetRichMessage :: tl_reader where
  "readTLMethodMessagesGetRichMessage = read_method (1343580623) readTLMessagesMessages"

definition readTLMethodMessagesTranslateRichMessage :: tl_reader where
  "readTLMethodMessagesTranslateRichMessage = read_method (441720836) readTLMessagesTranslatedRichMessage"

definition writeTLMethodMessagesTranslateRichMessage :: tl_writer where
  "writeTLMethodMessagesTranslateRichMessage = write_fobject
     [(441720836, [wf ''_'' writeInt32, wf_flags ''flags'' [(''peer'', 0), (''id'', 0), (''text'',
         1), (''tone'', 2)], wf_if ''flags'' 0 ''peer'' writeTLInputPeer,
         wf_if ''flags'' 0 ''id'' (writeVector (Some writeInt32)),
         wf_if ''flags'' 1 ''text'' (writeVector (Some writeTLInputRichMessage)),
         wf ''to_lang'' writeString, wf_if ''flags'' 2 ''tone'' writeString])]"

definition readTLMethodMessagesComposeRichMessageWithAI :: tl_reader where
  "readTLMethodMessagesComposeRichMessageWithAI = read_method (- 1921325393) readTLMessagesComposedRichMessageWithAI"

definition writeTLMethodMessagesComposeRichMessageWithAI :: tl_writer where
  "writeTLMethodMessagesComposeRichMessageWithAI = write_fobject
     [(- 1921325393, [wf ''_'' writeInt32, wf_flags ''flags'' [(''proofread'', 0), (''emojify'',
         3), (''text'', 4), (''translate_to_lang'', 1), (''tone'', 2)],
         wf_if ''flags'' 4 ''text'' writeTLInputRichMessage,
         wf_if ''flags'' 1 ''translate_to_lang'' writeString,
         wf_if ''flags'' 2 ''tone'' writeTLInputAiComposeTone])]"

definition readTLMethodUpdatesGetDifference :: tl_reader where
  "readTLMethodUpdatesGetDifference = read_method (432207715) readTLUpdatesDifference"

definition readTLMethodUpdatesGetChannelDifference :: tl_reader where
  "readTLMethodUpdatesGetChannelDifference = read_method (51854712) readTLUpdatesChannelDifference"

definition readTLMethodPhotosUpdateProfilePhoto :: tl_reader where
  "readTLMethodPhotosUpdateProfilePhoto = read_method (166207545) readTLPhotosPhoto"

definition readTLMethodPhotosUploadProfilePhoto :: tl_reader where
  "readTLMethodPhotosUploadProfilePhoto = read_method (59286453) readTLPhotosPhoto"

definition writeTLMethodPhotosUploadProfilePhoto :: tl_writer where
  "writeTLMethodPhotosUploadProfilePhoto = write_fobject
     [(59286453, [wf ''_'' writeInt32, wf_flags ''flags'' [(''fallback'', 3), (''bot'', 5),
         (''file'', 0), (''video'', 1), (''video_start_ts'', 2), (''video_emoji_markup'', 4)],
         wf_if ''flags'' 5 ''bot'' writeTLInputUser, wf_if ''flags'' 0 ''file'' writeTLInputFile,
         wf_if ''flags'' 1 ''video'' writeTLInputFile,
         wf_if ''flags'' 2 ''video_start_ts'' writeDouble,
         wf_if ''flags'' 4 ''video_emoji_markup'' writeTLVideoSize])]"

definition readTLMethodPhotosGetUserPhotos :: tl_reader where
  "readTLMethodPhotosGetUserPhotos = read_method (- 1848823128) readTLPhotosPhotos"

definition readTLMethodPhotosUploadContactProfilePhoto :: tl_reader where
  "readTLMethodPhotosUploadContactProfilePhoto = read_method (- 515093903) readTLPhotosPhoto"

definition writeTLMethodPhotosUploadContactProfilePhoto :: tl_writer where
  "writeTLMethodPhotosUploadContactProfilePhoto = write_fobject
     [(- 515093903, [wf ''_'' writeInt32, wf_flags ''flags'' [(''suggest'', 3), (''save'', 4),
         (''file'', 0), (''video'', 1), (''video_start_ts'', 2), (''video_emoji_markup'', 5)],
         wf ''user_id'' writeTLInputUser, wf_if ''flags'' 0 ''file'' writeTLInputFile,
         wf_if ''flags'' 1 ''video'' writeTLInputFile,
         wf_if ''flags'' 2 ''video_start_ts'' writeDouble,
         wf_if ''flags'' 5 ''video_emoji_markup'' writeTLVideoSize])]"

definition writeTLMethodUploadGetWebFile :: tl_writer where
  "writeTLMethodUploadGetWebFile = write_fobject
     [(619086221, [wf ''_'' writeInt32, wf ''location'' writeTLInputWebFileLocation,
         wf ''offset'' writeInt32, wf ''limit'' writeInt32])]"

definition readTLMethodHelpGetAppUpdate :: tl_reader where
  "readTLMethodHelpGetAppUpdate = read_method (1378703997) readTLHelpAppUpdate"

definition readTLMethodHelpGetRecentMeUrls :: tl_reader where
  "readTLMethodHelpGetRecentMeUrls = read_method (1036054804) readTLHelpRecentMeUrls"

definition readTLMethodHelpGetAppConfig :: tl_reader where
  "readTLMethodHelpGetAppConfig = read_method (1642330196) readTLHelpAppConfig"

definition writeTLMethodHelpSaveAppLog :: tl_writer where
  "writeTLMethodHelpSaveAppLog = write_fobject
     [(1862465352, [wf ''_'' writeInt32, wf ''events'' (writeVector (Some writeTLInputAppEvent))])]"

definition readTLMethodHelpGetPremiumPromo :: tl_reader where
  "readTLMethodHelpGetPremiumPromo = read_method (- 1206152236) readTLHelpPremiumPromo"

definition readTLMethodChannelsGetMessages :: tl_reader where
  "readTLMethodChannelsGetMessages = read_method (- 1383294429) readTLMessagesMessages"

definition readTLMethodChannelsGetFullChannel :: tl_reader where
  "readTLMethodChannelsGetFullChannel = read_method (141781513) readTLMessagesChatFull"

definition readTLMethodChannelsCreateChannel :: tl_reader where
  "readTLMethodChannelsCreateChannel = read_method (- 1862244601) readTLUpdates"

definition writeTLMethodChannelsCreateChannel :: tl_writer where
  "writeTLMethodChannelsCreateChannel = write_fobject
     [(- 1862244601, [wf ''_'' writeInt32, wf_flags ''flags'' [(''broadcast'', 0), (''megagroup'',
         1), (''for_import'', 3), (''forum'', 5), (''geo_point'', 2), (''address'', 2),
         (''ttl_period'', 4)], wf ''title'' writeString, wf ''about'' writeString,
         wf_if ''flags'' 2 ''geo_point'' writeTLInputGeoPoint,
         wf_if ''flags'' 2 ''address'' writeString, wf_if ''flags'' 4 ''ttl_period'' writeInt32])]"

definition readTLMethodChannelsEditAdmin :: tl_reader where
  "readTLMethodChannelsEditAdmin = read_method (- 1701270168) readTLUpdates"

definition readTLMethodChannelsEditTitle :: tl_reader where
  "readTLMethodChannelsEditTitle = read_method (1450044624) readTLUpdates"

definition readTLMethodChannelsEditPhoto :: tl_reader where
  "readTLMethodChannelsEditPhoto = read_method (- 248621111) readTLUpdates"

definition writeTLMethodChannelsEditPhoto :: tl_writer where
  "writeTLMethodChannelsEditPhoto = write_fobject
     [(- 248621111, [wf ''_'' writeInt32, wf ''channel'' writeTLInputChannel,
         wf ''photo'' writeTLInputChatPhoto])]"

definition readTLMethodChannelsJoinChannel :: tl_reader where
  "readTLMethodChannelsJoinChannel = read_method (2137660962) readTLMessagesChatInviteJoinResult"

definition readTLMethodChannelsLeaveChannel :: tl_reader where
  "readTLMethodChannelsLeaveChannel = read_method (- 130635115) readTLUpdates"

definition readTLMethodChannelsInviteToChannel :: tl_reader where
  "readTLMethodChannelsInviteToChannel = read_method (- 907854508) readTLMessagesInvitedUsers"

definition readTLMethodChannelsDeleteChannel :: tl_reader where
  "readTLMethodChannelsDeleteChannel = read_method (- 1072619549) readTLUpdates"

definition readTLMethodChannelsToggleSignatures :: tl_reader where
  "readTLMethodChannelsToggleSignatures = read_method (1099781276) readTLUpdates"

definition readTLMethodChannelsEditBanned :: tl_reader where
  "readTLMethodChannelsEditBanned = read_method (- 1763259007) readTLUpdates"

definition readTLMethodChannelsGetAdminLog :: tl_reader where
  "readTLMethodChannelsGetAdminLog = read_method (870184064) readTLChannelsAdminLogResults"

definition readTLMethodChannelsDeleteHistory :: tl_reader where
  "readTLMethodChannelsDeleteHistory = read_method (- 1683319225) readTLUpdates"

definition readTLMethodChannelsTogglePreHistoryHidden :: tl_reader where
  "readTLMethodChannelsTogglePreHistoryHidden = read_method (- 356796084) readTLUpdates"

definition writeTLMethodChannelsEditLocation :: tl_writer where
  "writeTLMethodChannelsEditLocation = write_fobject
     [(1491484525, [wf ''_'' writeInt32, wf ''channel'' writeTLInputChannel,
         wf ''geo_point'' writeTLInputGeoPoint, wf ''address'' writeString])]"

definition readTLMethodChannelsToggleSlowMode :: tl_reader where
  "readTLMethodChannelsToggleSlowMode = read_method (- 304832784) readTLUpdates"

definition readTLMethodChannelsConvertToGigagroup :: tl_reader where
  "readTLMethodChannelsConvertToGigagroup = read_method (187239529) readTLUpdates"

definition readTLMethodChannelsToggleJoinToSend :: tl_reader where
  "readTLMethodChannelsToggleJoinToSend = read_method (- 456419968) readTLUpdates"

definition readTLMethodChannelsToggleJoinRequest :: tl_reader where
  "readTLMethodChannelsToggleJoinRequest = read_method (248260120) readTLUpdates"

definition readTLMethodChannelsToggleForum :: tl_reader where
  "readTLMethodChannelsToggleForum = read_method (1073174324) readTLUpdates"

definition readTLMethodChannelsToggleAntiSpam :: tl_reader where
  "readTLMethodChannelsToggleAntiSpam = read_method (1760814315) readTLUpdates"

definition readTLMethodChannelsToggleParticipantsHidden :: tl_reader where
  "readTLMethodChannelsToggleParticipantsHidden = read_method (1785624660) readTLUpdates"

definition readTLMethodChannelsUpdateColor :: tl_reader where
  "readTLMethodChannelsUpdateColor = read_method (- 659933583) readTLUpdates"

definition readTLMethodChannelsToggleViewForumAsMessages :: tl_reader where
  "readTLMethodChannelsToggleViewForumAsMessages = read_method (- 1757889771) readTLUpdates"

definition readTLMethodChannelsUpdateEmojiStatus :: tl_reader where
  "readTLMethodChannelsUpdateEmojiStatus = read_method (- 254548312) readTLUpdates"

definition readTLMethodChannelsSetBoostsToUnblockRestrictions :: tl_reader where
  "readTLMethodChannelsSetBoostsToUnblockRestrictions = read_method (- 1388733202) readTLUpdates"

definition readTLMethodChannelsRestrictSponsoredMessages :: tl_reader where
  "readTLMethodChannelsRestrictSponsoredMessages = read_method (- 1696000743) readTLUpdates"

definition readTLMethodChannelsSearchPosts :: tl_reader where
  "readTLMethodChannelsSearchPosts = read_method (- 221973939) readTLMessagesMessages"

definition readTLMethodChannelsUpdatePaidMessagesPrice :: tl_reader where
  "readTLMethodChannelsUpdatePaidMessagesPrice = read_method (1259483771) readTLUpdates"

definition readTLMethodChannelsToggleAutotranslation :: tl_reader where
  "readTLMethodChannelsToggleAutotranslation = read_method (377471137) readTLUpdates"

definition readTLMethodBotsAllowSendMessage :: tl_reader where
  "readTLMethodBotsAllowSendMessage = read_method (- 248323089) readTLUpdates"

definition readTLMethodBotsAddPreviewMedia :: tl_reader where
  "readTLMethodBotsAddPreviewMedia = read_method (397326170) readTLBotPreviewMedia"

definition writeTLMethodBotsAddPreviewMedia :: tl_writer where
  "writeTLMethodBotsAddPreviewMedia = write_fobject
     [(397326170, [wf ''_'' writeInt32, wf ''bot'' writeTLInputUser, wf ''lang_code'' writeString,
         wf ''media'' writeTLInputMedia])]"

definition readTLMethodBotsEditPreviewMedia :: tl_reader where
  "readTLMethodBotsEditPreviewMedia = read_method (- 2061148049) readTLBotPreviewMedia"

definition writeTLMethodBotsEditPreviewMedia :: tl_writer where
  "writeTLMethodBotsEditPreviewMedia = write_fobject
     [(- 2061148049, [wf ''_'' writeInt32, wf ''bot'' writeTLInputUser,
         wf ''lang_code'' writeString, wf ''media'' writeTLInputMedia,
         wf ''new_media'' writeTLInputMedia])]"

definition writeTLMethodBotsDeletePreviewMedia :: tl_writer where
  "writeTLMethodBotsDeletePreviewMedia = write_fobject
     [(755054003, [wf ''_'' writeInt32, wf ''bot'' writeTLInputUser, wf ''lang_code'' writeString,
         wf ''media'' (writeVector (Some writeTLInputMedia))])]"

definition writeTLMethodBotsReorderPreviewMedias :: tl_writer where
  "writeTLMethodBotsReorderPreviewMedias = write_fobject
     [(- 1238895702, [wf ''_'' writeInt32, wf ''bot'' writeTLInputUser,
         wf ''lang_code'' writeString, wf ''order'' (writeVector (Some writeTLInputMedia))])]"

definition readTLMethodBotsGetPreviewInfo :: tl_reader where
  "readTLMethodBotsGetPreviewInfo = read_method (1111143341) readTLBotsPreviewInfo"

definition readTLMethodBotsGetPreviewMedias :: tl_reader where
  "readTLMethodBotsGetPreviewMedias = read_method (- 1566222003) (readVector (Some readTLBotPreviewMedia))"

definition readTLMethodPaymentsGetPaymentForm :: tl_reader where
  "readTLMethodPaymentsGetPaymentForm = read_method (924093883) readTLPaymentsPaymentForm"

definition readTLMethodPaymentsGetPaymentReceipt :: tl_reader where
  "readTLMethodPaymentsGetPaymentReceipt = read_method (611897804) readTLPaymentsPaymentReceipt"

definition readTLMethodPaymentsSendPaymentForm :: tl_reader where
  "readTLMethodPaymentsSendPaymentForm = read_method (755192367) readTLPaymentsPaymentResult"

definition writeTLMethodPaymentsExportInvoice :: tl_writer where
  "writeTLMethodPaymentsExportInvoice = write_fobject
     [(261206117, [wf ''_'' writeInt32, wf ''invoice_media'' writeTLInputMedia])]"

definition readTLMethodPaymentsAssignAppStoreTransaction :: tl_reader where
  "readTLMethodPaymentsAssignAppStoreTransaction = read_method (- 2131921795) readTLUpdates"

definition readTLMethodPaymentsAssignPlayMarketTransaction :: tl_reader where
  "readTLMethodPaymentsAssignPlayMarketTransaction = read_method (- 537046829) readTLUpdates"

definition readTLMethodPaymentsApplyGiftCode :: tl_reader where
  "readTLMethodPaymentsApplyGiftCode = read_method (- 152934316) readTLUpdates"

definition readTLMethodPaymentsLaunchPrepaidGiveaway :: tl_reader where
  "readTLMethodPaymentsLaunchPrepaidGiveaway = read_method (1609928480) readTLUpdates"

definition readTLMethodPaymentsGetStarsStatus :: tl_reader where
  "readTLMethodPaymentsGetStarsStatus = read_method (1319744447) readTLPaymentsStarsStatus"

definition readTLMethodPaymentsGetStarsTransactions :: tl_reader where
  "readTLMethodPaymentsGetStarsTransactions = read_method (1775912279) readTLPaymentsStarsStatus"

definition readTLMethodPaymentsSendStarsForm :: tl_reader where
  "readTLMethodPaymentsSendStarsForm = read_method (2040056084) readTLPaymentsPaymentResult"

definition readTLMethodPaymentsRefundStarsCharge :: tl_reader where
  "readTLMethodPaymentsRefundStarsCharge = read_method (632196938) readTLUpdates"

definition readTLMethodPaymentsGetStarsRevenueStats :: tl_reader where
  "readTLMethodPaymentsGetStarsRevenueStats = read_method (- 652215594) readTLPaymentsStarsRevenueStats"

definition readTLMethodPaymentsGetStarsTransactionsByID :: tl_reader where
  "readTLMethodPaymentsGetStarsTransactionsByID = read_method (768218808) readTLPaymentsStarsStatus"

definition readTLMethodPaymentsGetStarsSubscriptions :: tl_reader where
  "readTLMethodPaymentsGetStarsSubscriptions = read_method (52761285) readTLPaymentsStarsStatus"

definition readTLMethodPaymentsGetStarGifts :: tl_reader where
  "readTLMethodPaymentsGetStarGifts = read_method (- 1000983152) readTLPaymentsStarGifts"

definition readTLMethodPaymentsGetStarGiftUpgradePreview :: tl_reader where
  "readTLMethodPaymentsGetStarGiftUpgradePreview = read_method (- 1667580751) readTLPaymentsStarGiftUpgradePreview"

definition readTLMethodPaymentsUpgradeStarGift :: tl_reader where
  "readTLMethodPaymentsUpgradeStarGift = read_method (- 1361648395) readTLUpdates"

definition readTLMethodPaymentsTransferStarGift :: tl_reader where
  "readTLMethodPaymentsTransferStarGift = read_method (2132285290) readTLUpdates"

definition readTLMethodPaymentsGetUniqueStarGift :: tl_reader where
  "readTLMethodPaymentsGetUniqueStarGift = read_method (- 1583919758) readTLPaymentsUniqueStarGift"

definition readTLMethodPaymentsGetSavedStarGifts :: tl_reader where
  "readTLMethodPaymentsGetSavedStarGifts = read_method (- 1558583959) readTLPaymentsSavedStarGifts"

definition readTLMethodPaymentsGetSavedStarGift :: tl_reader where
  "readTLMethodPaymentsGetSavedStarGift = read_method (- 1269456634) readTLPaymentsSavedStarGifts"

definition readTLMethodPaymentsGetResaleStarGifts :: tl_reader where
  "readTLMethodPaymentsGetResaleStarGifts = read_method (2053087798) readTLPaymentsResaleStarGifts"

definition readTLMethodPaymentsUpdateStarGiftPrice :: tl_reader where
  "readTLMethodPaymentsUpdateStarGiftPrice = read_method (- 306287413) readTLUpdates"

definition readTLMethodPaymentsCreateStarGiftCollection :: tl_reader where
  "readTLMethodPaymentsCreateStarGiftCollection = read_method (524947079) readTLStarGiftCollection"

definition readTLMethodPaymentsUpdateStarGiftCollection :: tl_reader where
  "readTLMethodPaymentsUpdateStarGiftCollection = read_method (1339932391) readTLStarGiftCollection"

definition readTLMethodPaymentsGetStarGiftCollections :: tl_reader where
  "readTLMethodPaymentsGetStarGiftCollections = read_method (- 1743023651) readTLPaymentsStarGiftCollections"

definition readTLMethodPaymentsGetStarGiftAuctionState :: tl_reader where
  "readTLMethodPaymentsGetStarGiftAuctionState = read_method (1553986774) readTLPaymentsStarGiftAuctionState"

definition readTLMethodPaymentsGetStarGiftActiveAuctions :: tl_reader where
  "readTLMethodPaymentsGetStarGiftActiveAuctions = read_method (- 1513074355) readTLPaymentsStarGiftActiveAuctions"

definition readTLMethodPaymentsResolveStarGiftOffer :: tl_reader where
  "readTLMethodPaymentsResolveStarGiftOffer = read_method (- 372344804) readTLUpdates"

definition readTLMethodPaymentsSendStarGiftOffer :: tl_reader where
  "readTLMethodPaymentsSendStarGiftOffer = read_method (- 1883739327) readTLUpdates"

definition readTLMethodPaymentsGetStarGiftUpgradeAttributes :: tl_reader where
  "readTLMethodPaymentsGetStarGiftUpgradeAttributes = read_method (1828948824) readTLPaymentsStarGiftUpgradeAttributes"

definition readTLMethodPaymentsGetCraftStarGifts :: tl_reader where
  "readTLMethodPaymentsGetCraftStarGifts = read_method (- 49947392) readTLPaymentsSavedStarGifts"

definition readTLMethodPaymentsCraftStarGift :: tl_reader where
  "readTLMethodPaymentsCraftStarGift = read_method (- 1325832113) readTLUpdates"

definition readTLMethodStickersCreateStickerSet :: tl_reader where
  "readTLMethodStickersCreateStickerSet = read_method (- 1876841625) readTLMessagesStickerSet"

definition writeTLMethodStickersCreateStickerSet :: tl_writer where
  "writeTLMethodStickersCreateStickerSet = write_fobject
     [(- 1876841625, [wf ''_'' writeInt32, wf_flags ''flags'' [(''masks'', 0), (''emojis'', 5),
         (''text_color'', 6), (''thumb'', 2), (''software'', 3)], wf ''user_id'' writeTLInputUser,
         wf ''title'' writeString, wf ''short_name'' writeString,
         wf_if ''flags'' 2 ''thumb'' writeTLInputDocument,
         wf ''stickers'' (writeVector (Some writeTLInputStickerSetItem)),
         wf_if ''flags'' 3 ''software'' writeString])]"

definition readTLMethodStickersRemoveStickerFromSet :: tl_reader where
  "readTLMethodStickersRemoveStickerFromSet = read_method (- 143257775) readTLMessagesStickerSet"

definition readTLMethodStickersChangeStickerPosition :: tl_reader where
  "readTLMethodStickersChangeStickerPosition = read_method (- 4795190) readTLMessagesStickerSet"

definition readTLMethodStickersAddStickerToSet :: tl_reader where
  "readTLMethodStickersAddStickerToSet = read_method (- 2041315650) readTLMessagesStickerSet"

definition writeTLMethodStickersAddStickerToSet :: tl_writer where
  "writeTLMethodStickersAddStickerToSet = write_fobject
     [(- 2041315650, [wf ''_'' writeInt32, wf ''stickerset'' writeTLInputStickerSet,
         wf ''sticker'' writeTLInputStickerSetItem])]"

definition readTLMethodStickersSetStickerSetThumb :: tl_reader where
  "readTLMethodStickersSetStickerSetThumb = read_method (- 1486204014) readTLMessagesStickerSet"

definition readTLMethodStickersChangeSticker :: tl_reader where
  "readTLMethodStickersChangeSticker = read_method (- 179077444) readTLMessagesStickerSet"

definition writeTLMethodStickersChangeSticker :: tl_writer where
  "writeTLMethodStickersChangeSticker = write_fobject
     [(- 179077444, [wf ''_'' writeInt32, wf_flags ''flags'' [(''emoji'', 0), (''mask_coords'', 1),
         (''keywords'', 2)], wf ''sticker'' writeTLInputDocument,
         wf_if ''flags'' 0 ''emoji'' writeString,
         wf_if ''flags'' 1 ''mask_coords'' writeTLMaskCoords,
         wf_if ''flags'' 2 ''keywords'' writeString])]"

definition readTLMethodStickersRenameStickerSet :: tl_reader where
  "readTLMethodStickersRenameStickerSet = read_method (306912256) readTLMessagesStickerSet"

definition readTLMethodStickersReplaceSticker :: tl_reader where
  "readTLMethodStickersReplaceSticker = read_method (1184253338) readTLMessagesStickerSet"

definition writeTLMethodStickersReplaceSticker :: tl_writer where
  "writeTLMethodStickersReplaceSticker = write_fobject
     [(1184253338, [wf ''_'' writeInt32, wf ''sticker'' writeTLInputDocument,
         wf ''new_sticker'' writeTLInputStickerSetItem])]"

definition readTLMethodPhoneDiscardCall :: tl_reader where
  "readTLMethodPhoneDiscardCall = read_method (- 1295269440) readTLUpdates"

definition readTLMethodPhoneSetCallRating :: tl_reader where
  "readTLMethodPhoneSetCallRating = read_method (1508562471) readTLUpdates"

definition readTLMethodPhoneCreateGroupCall :: tl_reader where
  "readTLMethodPhoneCreateGroupCall = read_method (1221445336) readTLUpdates"

definition readTLMethodPhoneJoinGroupCall :: tl_reader where
  "readTLMethodPhoneJoinGroupCall = read_method (- 1883951017) readTLUpdates"

definition readTLMethodPhoneLeaveGroupCall :: tl_reader where
  "readTLMethodPhoneLeaveGroupCall = read_method (1342404601) readTLUpdates"

definition readTLMethodPhoneInviteToGroupCall :: tl_reader where
  "readTLMethodPhoneInviteToGroupCall = read_method (2067345760) readTLUpdates"

definition readTLMethodPhoneDiscardGroupCall :: tl_reader where
  "readTLMethodPhoneDiscardGroupCall = read_method (2054648117) readTLUpdates"

definition readTLMethodPhoneToggleGroupCallSettings :: tl_reader where
  "readTLMethodPhoneToggleGroupCallSettings = read_method (- 1757179150) readTLUpdates"

definition readTLMethodPhoneToggleGroupCallRecord :: tl_reader where
  "readTLMethodPhoneToggleGroupCallRecord = read_method (- 248985848) readTLUpdates"

definition readTLMethodPhoneEditGroupCallParticipant :: tl_reader where
  "readTLMethodPhoneEditGroupCallParticipant = read_method (- 1524155713) readTLUpdates"

definition readTLMethodPhoneEditGroupCallTitle :: tl_reader where
  "readTLMethodPhoneEditGroupCallTitle = read_method (480685066) readTLUpdates"

definition readTLMethodPhoneToggleGroupCallStartSubscription :: tl_reader where
  "readTLMethodPhoneToggleGroupCallStartSubscription = read_method (563885286) readTLUpdates"

definition readTLMethodPhoneStartScheduledGroupCall :: tl_reader where
  "readTLMethodPhoneStartScheduledGroupCall = read_method (1451287362) readTLUpdates"

definition readTLMethodPhoneJoinGroupCallPresentation :: tl_reader where
  "readTLMethodPhoneJoinGroupCallPresentation = read_method (- 873829436) readTLUpdates"

definition readTLMethodPhoneLeaveGroupCallPresentation :: tl_reader where
  "readTLMethodPhoneLeaveGroupCallPresentation = read_method (475058500) readTLUpdates"

definition readTLMethodPhoneCreateConferenceCall :: tl_reader where
  "readTLMethodPhoneCreateConferenceCall = read_method (2097431739) readTLUpdates"

definition readTLMethodPhoneDeleteConferenceCallParticipants :: tl_reader where
  "readTLMethodPhoneDeleteConferenceCallParticipants = read_method (- 1935276763) readTLUpdates"

definition readTLMethodPhoneSendConferenceCallBroadcast :: tl_reader where
  "readTLMethodPhoneSendConferenceCallBroadcast = read_method (- 965732096) readTLUpdates"

definition readTLMethodPhoneInviteConferenceCallParticipant :: tl_reader where
  "readTLMethodPhoneInviteConferenceCallParticipant = read_method (- 1124981115) readTLUpdates"

definition readTLMethodPhoneDeclineConferenceCallInvite :: tl_reader where
  "readTLMethodPhoneDeclineConferenceCallInvite = read_method (1011325297) readTLUpdates"

definition readTLMethodPhoneGetGroupCallChainBlocks :: tl_reader where
  "readTLMethodPhoneGetGroupCallChainBlocks = read_method (- 291534682) readTLUpdates"

definition readTLMethodPhoneSendGroupCallMessage :: tl_reader where
  "readTLMethodPhoneSendGroupCallMessage = read_method (- 1311697904) readTLUpdates"

definition readTLMethodPhoneDeleteGroupCallMessages :: tl_reader where
  "readTLMethodPhoneDeleteGroupCallMessages = read_method (- 162573065) readTLUpdates"

definition readTLMethodPhoneDeleteGroupCallParticipantMessages :: tl_reader where
  "readTLMethodPhoneDeleteGroupCallParticipantMessages = read_method (499117216) readTLUpdates"

definition readTLMethodFoldersEditPeerFolders :: tl_reader where
  "readTLMethodFoldersEditPeerFolders = read_method (1749536939) readTLUpdates"

definition readTLMethodStatsGetBroadcastStats :: tl_reader where
  "readTLMethodStatsGetBroadcastStats = read_method (- 1421720550) readTLStatsBroadcastStats"

definition readTLMethodStatsGetMegagroupStats :: tl_reader where
  "readTLMethodStatsGetMegagroupStats = read_method (- 589330937) readTLStatsMegagroupStats"

definition readTLMethodStatsGetMessagePublicForwards :: tl_reader where
  "readTLMethodStatsGetMessagePublicForwards = read_method (1595212100) readTLStatsPublicForwards"

definition readTLMethodStatsGetStoryPublicForwards :: tl_reader where
  "readTLMethodStatsGetStoryPublicForwards = read_method (- 1505526026) readTLStatsPublicForwards"

definition readTLMethodChatlistsJoinChatlistInvite :: tl_reader where
  "readTLMethodChatlistsJoinChatlistInvite = read_method (- 1498291302) readTLUpdates"

definition readTLMethodChatlistsJoinChatlistUpdates :: tl_reader where
  "readTLMethodChatlistsJoinChatlistUpdates = read_method (- 527828747) readTLUpdates"

definition readTLMethodChatlistsLeaveChatlist :: tl_reader where
  "readTLMethodChatlistsLeaveChatlist = read_method (1962598714) readTLUpdates"

definition readTLMethodStoriesSendStory :: tl_reader where
  "readTLMethodStoriesSendStory = read_method (- 1885443944) readTLUpdates"

definition writeTLMethodStoriesSendStory :: tl_writer where
  "writeTLMethodStoriesSendStory = write_fobject
     [(- 1885443944, [wf ''_'' writeInt32, wf_flags ''flags'' [(''pinned'', 2), (''noforwards'',
         4), (''fwd_modified'', 7), (''media_areas'', 5), (''caption'', 0), (''entities'', 1),
         (''period'', 3), (''fwd_from_id'', 6), (''fwd_from_story'', 6), (''albums'', 8),
         (''music'', 9)], wf ''peer'' writeTLInputPeer, wf ''media'' writeTLInputMedia,
         wf_if ''flags'' 5 ''media_areas'' (writeVector (Some writeTLMediaArea)),
         wf_if ''flags'' 0 ''caption'' writeString,
         wf_if ''flags'' 1 ''entities'' (writeVector (Some writeTLMessageEntity)),
         wf ''privacy_rules'' (writeVector (Some writeTLInputPrivacyRule)),
         wf ''random_id'' writeInt64, wf_if ''flags'' 3 ''period'' writeInt32,
         wf_if ''flags'' 6 ''fwd_from_id'' writeTLInputPeer,
         wf_if ''flags'' 6 ''fwd_from_story'' writeInt32,
         wf_if ''flags'' 8 ''albums'' (writeVector (Some writeInt32)),
         wf_if ''flags'' 9 ''music'' writeTLInputDocument])]"

definition readTLMethodStoriesEditStory :: tl_reader where
  "readTLMethodStoriesEditStory = read_method (744728363) readTLUpdates"

definition writeTLMethodStoriesEditStory :: tl_writer where
  "writeTLMethodStoriesEditStory = write_fobject
     [(744728363, [wf ''_'' writeInt32, wf_flags ''flags'' [(''media'', 0), (''media_areas'', 3),
         (''caption'', 1), (''entities'', 1), (''privacy_rules'', 2), (''music'', 4)],
         wf ''peer'' writeTLInputPeer, wf ''id'' writeInt32,
         wf_if ''flags'' 0 ''media'' writeTLInputMedia,
         wf_if ''flags'' 3 ''media_areas'' (writeVector (Some writeTLMediaArea)),
         wf_if ''flags'' 1 ''caption'' writeString,
         wf_if ''flags'' 1 ''entities'' (writeVector (Some writeTLMessageEntity)),
         wf_if ''flags'' 2 ''privacy_rules'' (writeVector (Some writeTLInputPrivacyRule)),
         wf_if ''flags'' 4 ''music'' writeTLInputDocument])]"

definition readTLMethodStoriesGetAllStories :: tl_reader where
  "readTLMethodStoriesGetAllStories = read_method (- 290400731) readTLStoriesAllStories"

definition readTLMethodStoriesGetPinnedStories :: tl_reader where
  "readTLMethodStoriesGetPinnedStories = read_method (1478600156) readTLStoriesStories"

definition readTLMethodStoriesGetStoriesArchive :: tl_reader where
  "readTLMethodStoriesGetStoriesArchive = read_method (- 1271586794) readTLStoriesStories"

definition readTLMethodStoriesGetStoriesByID :: tl_reader where
  "readTLMethodStoriesGetStoriesByID = read_method (1467271796) readTLStoriesStories"

definition readTLMethodStoriesGetStoryViewsList :: tl_reader where
  "readTLMethodStoriesGetStoryViewsList = read_method (2127707223) readTLStoriesStoryViewsList"

definition readTLMethodStoriesActivateStealthMode :: tl_reader where
  "readTLMethodStoriesActivateStealthMode = read_method (1471926630) readTLUpdates"

definition readTLMethodStoriesSendReaction :: tl_reader where
  "readTLMethodStoriesSendReaction = read_method (2144810674) readTLUpdates"

definition readTLMethodStoriesGetPeerStories :: tl_reader where
  "readTLMethodStoriesGetPeerStories = read_method (743103056) readTLStoriesPeerStories"

definition readTLMethodStoriesGetAllReadPeerStories :: tl_reader where
  "readTLMethodStoriesGetAllReadPeerStories = read_method (- 1688541191) readTLUpdates"

definition readTLMethodStoriesGetStoryReactionsList :: tl_reader where
  "readTLMethodStoriesGetStoryReactionsList = read_method (- 1179482081) readTLStoriesStoryReactionsList"

definition readTLMethodStoriesSearchPosts :: tl_reader where
  "readTLMethodStoriesSearchPosts = read_method (- 780072697) readTLStoriesFoundStories"

definition writeTLMethodStoriesSearchPosts :: tl_writer where
  "writeTLMethodStoriesSearchPosts = write_fobject
     [(- 780072697, [wf ''_'' writeInt32, wf_flags ''flags'' [(''hashtag'', 0), (''area'', 1),
         (''peer'', 2)], wf_if ''flags'' 0 ''hashtag'' writeString,
         wf_if ''flags'' 1 ''area'' writeTLMediaArea, wf_if ''flags'' 2 ''peer'' writeTLInputPeer,
         wf ''offset'' writeString, wf ''limit'' writeInt32])]"

definition readTLMethodStoriesCreateAlbum :: tl_reader where
  "readTLMethodStoriesCreateAlbum = read_method (- 1553754395) readTLStoryAlbum"

definition readTLMethodStoriesUpdateAlbum :: tl_reader where
  "readTLMethodStoriesUpdateAlbum = read_method (1582455222) readTLStoryAlbum"

definition readTLMethodStoriesGetAlbums :: tl_reader where
  "readTLMethodStoriesGetAlbums = read_method (632548039) readTLStoriesAlbums"

definition readTLMethodStoriesGetAlbumStories :: tl_reader where
  "readTLMethodStoriesGetAlbumStories = read_method (- 1400869535) readTLStoriesStories"

definition readTLMethodStoriesStartLive :: tl_reader where
  "readTLMethodStoriesStartLive = read_method (- 798372642) readTLUpdates"

definition readTLMethodPremiumGetBoostsStatus :: tl_reader where
  "readTLMethodPremiumGetBoostsStatus = read_method (70197089) readTLPremiumBoostsStatus"

definition readTLMethodCommunitiesCreate :: tl_reader where
  "readTLMethodCommunitiesCreate = read_method (- 1506256404) readTLUpdates"

definition readTLMethodCommunitiesToggleCommunityCollapsedInDialogs :: tl_reader where
  "readTLMethodCommunitiesToggleCommunityCollapsedInDialogs = read_method (- 681122838) readTLUpdates"

definition readTLMethodEphemeralSendMessage :: tl_reader where
  "readTLMethodEphemeralSendMessage = read_method (- 1165140171) readTLUpdates"

definition writeTLMethodEphemeralSendMessage :: tl_writer where
  "writeTLMethodEphemeralSendMessage = write_fobject
     [(- 1165140171, [wf ''_'' writeInt32, wf_flags ''flags'' [(''invert_media'', 6), (''welcome'',
         7), (''anchor'', 9), (''noforwards'', 10), (''peer'', 8), (''query_id'', 0),
         (''entities'', 1), (''media'', 2), (''reply_markup'', 3), (''rich_message'', 4),
         (''reply_to'', 5)], wf_if ''flags'' 8 ''peer'' writeTLInputPeer,
         wf ''receiver_id'' writeTLInputUser, wf_if ''flags'' 0 ''query_id'' writeInt64,
         wf ''message'' writeString,
         wf_if ''flags'' 1 ''entities'' (writeVector (Some writeTLMessageEntity)),
         wf_if ''flags'' 2 ''media'' writeTLInputMedia,
         wf_if ''flags'' 3 ''reply_markup'' writeTLReplyMarkup,
         wf_if ''flags'' 4 ''rich_message'' writeTLInputRichMessage, wf ''random_id'' writeInt64,
         wf_if ''flags'' 5 ''reply_to'' writeTLInputReplyTo])]"

definition readTLMethodEphemeralEditMessage :: tl_reader where
  "readTLMethodEphemeralEditMessage = read_method (- 811830693) readTLUpdates"

definition writeTLMethodEphemeralEditMessage :: tl_writer where
  "writeTLMethodEphemeralEditMessage = write_fobject
     [(- 811830693, [wf ''_'' writeInt32, wf_flags ''flags'' [(''invert_media'', 5), (''welcome'',
         6), (''peer'', 7), (''message'', 0), (''media'', 3), (''entities'', 1), (''reply_markup'',
         2), (''rich_message'', 4)], wf_if ''flags'' 7 ''peer'' writeTLInputPeer,
         wf ''receiver_id'' writeTLInputUser, wf ''id'' writeInt32,
         wf_if ''flags'' 0 ''message'' writeString, wf_if ''flags'' 3 ''media'' writeTLInputMedia,
         wf_if ''flags'' 1 ''entities'' (writeVector (Some writeTLMessageEntity)),
         wf_if ''flags'' 2 ''reply_markup'' writeTLReplyMarkup,
         wf_if ''flags'' 4 ''rich_message'' writeTLInputRichMessage])]"

definition readTLMethodEphemeralGetWelcomeMessages :: tl_reader where
  "readTLMethodEphemeralGetWelcomeMessages = read_method (- 610614899) readTLEphemeralWelcomeMessages"

end
