(* ===== verification/Factor.thy ===== *)
theory Factor
  imports Prelude
begin

section \<open>Factoring the server's challenge: gcd and findDivider in libkg/crypto.cpp\<close>

text \<open>
  The handshake factors a 64-bit number with Pollard's rho. The loops are written over
  64-bit words as in the code; those whose end depends on the input are partial functions,
  so that running forever is the value \<open>None\<close>, and are proved to return. The random
  numbers of \<open>qrand\<close> are a parameter: \<open>rand n\<close> is the \<open>n\<close>-th one drawn.
\<close>

subsection \<open>Binary gcd\<close>

partial_function (option) strip_twos :: "i64 \<Rightarrow> i64 option" where
  "strip_twos a = (if a AND 1 = 0 then strip_twos (drop_bit 1 a) else Some a)"

partial_function (option) gcd_shift :: "i64 \<Rightarrow> i64 \<Rightarrow> nat \<Rightarrow> (i64 \<times> i64 \<times> nat) option" where
  "gcd_shift a b shift =
     (if a AND 1 = 0 \<and> b AND 1 = 0 then gcd_shift (drop_bit 1 a) (drop_bit 1 b) (shift + 1)
      else Some (a, b, shift))"

partial_function (option) gcd_loop :: "i64 \<Rightarrow> i64 \<Rightarrow> nat \<Rightarrow> i64 option" where
  "gcd_loop a b shift =
     Option.bind (strip_twos a) (\<lambda>a.
       Option.bind (strip_twos b) (\<lambda>b.
         if a > b then gcd_loop (a - b) b shift
         else if b > a then gcd_loop a (b - a) shift
         else Some (push_bit shift a)))"

definition gcd64 :: "i64 \<Rightarrow> i64 \<Rightarrow> i64 option" where
  "gcd64 a b =
     (if a = 0 then Some b
      else if b = 0 then Some a
      else Option.bind (gcd_shift a b 0) (\<lambda>(a, b, shift). gcd_loop a b shift))"

subsection \<open>Pollard's rho\<close>

text \<open>\<open>c + a * b\<close> modulo \<open>number\<close> by doubling; returns \<open>c\<close>.\<close>

function mulmod :: "i64 \<Rightarrow> i64 \<Rightarrow> i64 \<Rightarrow> i64 \<Rightarrow> i64" where
  "mulmod number b a c =
     (if b = 0 then c
      else
        let c1 = (if b AND 1 \<noteq> 0 then (let s = c + a in if s \<ge> number then s - number else s) else c);
            d = a + a;
            a1 = (if d \<ge> number then d - number else d)
        in mulmod number (drop_bit 1 b) a1 c1)"
  by pat_completeness auto

lemma unat_drop_bit1: "unat (drop_bit 1 (b :: i64)) = unat b div 2"
  by (simp only: unat_drop_bit_eq) (simp only: drop_bit_eq_div power_one_right)

termination mulmod
proof (relation "measure (\<lambda>(number, b, a, c). unat b)", goal_cases)
  case (2 number b a c)
  then have "unat b \<noteq> 0" by (simp add: unat_eq_zero)
  then have "unat b div 2 < unat b" by simp
  then show ?case by (simp only: in_measure prod.case unat_drop_bit1)
qed simp

declare mulmod.simps [simp del]

text \<open>The inner loop: \<open>Inl g\<close> is the early return, \<open>Inr (it, g)\<close> the state it ends in.\<close>

function find_inner :: "i64 \<Rightarrow> i64 \<Rightarrow> nat \<Rightarrow> nat \<Rightarrow> i64 \<Rightarrow> i64 \<Rightarrow> nat \<Rightarrow> i64 \<Rightarrow> (i64 + nat \<times> i64) option" where
  "find_inner number q lim j x y it g =
     (if j < lim then
        let x1 = mulmod number x x q;
            z = (if x1 < y then number + x1 - y else x1 - y)
        in (case gcd64 z number of
              None \<Rightarrow> None
            | Some g1 \<Rightarrow>
                if g1 \<noteq> 1 then Some (Inl g1)
                else find_inner number q lim (j + 1) x1 (if j AND (j - 1) = 0 then x1 else y) (it + 1) g1)
      else Some (Inr (it, g)))"
  by pat_completeness auto
termination by (relation "measure (\<lambda>(number, q, lim, j, x, y, it, g). lim - j)") auto

declare find_inner.simps [simp del]

lemma find_inner_it:
  "find_inner number q lim j x y it g = Some (Inr (it', g')) \<Longrightarrow> it' = it + (lim - j)"
proof (induction number q lim j x y it g rule: find_inner.induct)
  case (1 number q lim j x y it g)
  show ?case
  proof (cases "j < lim")
    case False
    then show ?thesis using "1.prems" by (simp add: find_inner.simps)
  next
    case True
    define x1 where "x1 = mulmod number x x q"
    define z where "z = (if x1 < y then number + x1 - y else x1 - y)"
    from "1.prems" True obtain g1 where g1: "gcd64 z number = Some g1" "g1 = 1"
      "find_inner number q lim (j + 1) x1 (if j AND (j - 1) = 0 then x1 else y) (it + 1) g1 = Some (Inr (it', g'))"
      unfolding find_inner.simps [of number q lim j]
      by (simp add: x1_def [symmetric] z_def [symmetric] Let_def split: option.splits if_splits)
    have "it' = it + 1 + (lim - (j + 1))"
      using "1.IH" [OF True x1_def z_def, of g1] g1 by simp
    then show ?thesis using True by simp
  qed
qed

function find_loop :: "(nat \<Rightarrow> nat) \<Rightarrow> i64 \<Rightarrow> nat \<Rightarrow> nat \<Rightarrow> i64 \<Rightarrow> nat \<Rightarrow> i64 option" where
  "find_loop rand number i it g r =
     (if i < 3 \<or> it < 10000 then
        let q = of_nat ((rand r AND 15) + 17) mod number;
            x = of_nat (rand (r + 1)) mod (number - 1) + 1
        in (case find_inner number q (2 ^ (i + 18)) 1 x x it g of
              None \<Rightarrow> None
            | Some (Inl d) \<Rightarrow> Some d
            | Some (Inr (it1, g1)) \<Rightarrow>
                if g1 > 1 \<and> g1 < number then Some g1
                else find_loop rand number (i + 1) it1 g1 (r + 2))
      else Some 1)"
  by pat_completeness auto

lemma pow18: "1 < (2 :: nat) ^ (i + 18)"
  using one_less_power [of "2 :: nat" "i + 18"] by simp

termination find_loop
proof (relation "measure (\<lambda>(rand, number, i, it, g, r). (3 - i) + (10000 - it))", goal_cases)
  case (2 rand number i it g r q x a b it1 g1)
  then have "it1 = it + (2 ^ (i + 18) - 1)" using find_inner_it [of number q "2 ^ (i + 18)" 1 x x it g it1 g1] by simp
  then have "it < it1" using pow18 [of i] by simp
  then show ?case using 2(1) by auto
qed simp

declare find_loop.simps [simp del]

definition findDivider :: "(nat \<Rightarrow> nat) \<Rightarrow> i64 \<Rightarrow> i64 option" where
  "findDivider rand number = find_loop rand number 0 0 0 0"

subsection \<open>The gcd is the gcd\<close>

lemma and_one_even: "(a :: i64) AND 1 = 0 \<longleftrightarrow> even (unat a)"
proof -
  have "unat (a AND 1) = unat a mod 2" by (simp add: and_one_eq unat_mod)
  then show ?thesis by (metis even_iff_mod_2_eq_zero unat_0 unat_eq_zero)
qed

lemma strip_twos_total:
  "a \<noteq> 0 \<Longrightarrow> \<exists>a' k. strip_twos a = Some a' \<and> unat a = unat a' * 2 ^ k \<and> odd (unat a')"
proof (induction "unat a" arbitrary: a rule: less_induct)
  case less
  show ?case
  proof (cases "even (unat a)")
    case False
    then have "strip_twos a = Some a" by (subst strip_twos.simps) (simp add: and_one_even)
    then show ?thesis using False by (intro exI [of _ a] exI [of _ 0]) simp
  next
    case True
    have "unat a \<noteq> 0" using less.prems by (simp add: unat_eq_zero)
    then have lt: "unat (drop_bit 1 a) < unat a" "drop_bit 1 a \<noteq> 0"
      using True unat_drop_bit1 [of a] by (auto simp: unat_eq_zero [symmetric] elim: evenE)
    obtain a' k where a': "strip_twos (drop_bit 1 a) = Some a'" "unat (drop_bit 1 a) = unat a' * 2 ^ k" "odd (unat a')"
      using less.hyps [OF lt] by blast
    have "unat a = unat a' * 2 ^ Suc k" using a'(2) True by (simp only: unat_drop_bit1) (auto elim: evenE)
    moreover have "strip_twos a = Some a'" using True a'(1) by (subst strip_twos.simps) (simp only: and_one_even if_True)
    ultimately show ?thesis using a'(3) by blast
  qed
qed

lemma gcd_pow2_odd: "odd b \<Longrightarrow> gcd (a * 2 ^ k) b = gcd a (b :: nat)"
  by (simp add: gcd_mult_left_right_cancel coprime_commute)

lemma gcd_odd_parts:
  assumes "odd a'" "odd b'" and "odd (a' * 2 ^ k) \<or> odd (b' * 2 ^ l)"
  shows "gcd (a' * 2 ^ k) (b' * 2 ^ l) = gcd a' (b' :: nat)"
proof -
  have "k = 0 \<or> l = 0" using assms by auto
  then show ?thesis
  proof
    assume "k = 0"
    then show ?thesis using gcd_pow2_odd [OF assms(1), of b' l] by (simp add: gcd.commute)
  next
    assume "l = 0"
    then show ?thesis using gcd_pow2_odd [OF assms(2), of a' k] by simp
  qed
qed

lemma gcd_loop_total:
  assumes "a \<noteq> 0" and "b \<noteq> 0" and "odd (unat a) \<or> odd (unat b)"
  shows "\<exists>g. gcd_loop a b s = Some (push_bit s g) \<and> unat g = gcd (unat a) (unat b)"
  using assms
proof (induction "unat a + unat b" arbitrary: a b rule: less_induct)
  case less
  obtain a' k where a': "strip_twos a = Some a'" "unat a = unat a' * 2 ^ k" "odd (unat a')"
    using strip_twos_total [OF less.prems(1)] by blast
  obtain b' l where b': "strip_twos b = Some b'" "unat b = unat b' * 2 ^ l" "odd (unat b')"
    using strip_twos_total [OF less.prems(2)] by blast
  have gg: "gcd (unat a) (unat b) = gcd (unat a') (unat b')"
    using gcd_odd_parts [OF a'(3) b'(3), of k l] less.prems(3) a'(2) b'(2) by simp
  have le: "unat a' \<le> unat a" "unat b' \<le> unat b" using a'(2) b'(2) by simp_all
  have pos: "0 < unat a'" "0 < unat b'" using a'(3) b'(3) by (auto intro: odd_pos)
  have step: "gcd_loop a b s = (if a' > b' then gcd_loop (a' - b') b' s
      else if b' > a' then gcd_loop a' (b' - a') s else Some (push_bit s a'))"
    by (subst gcd_loop.simps) (simp add: a'(1) b'(1))
  consider "b' < a'" | "a' < b'" | "a' = b'" by fastforce
  then show ?case
  proof cases
    case 1
    then have d: "unat (a' - b') = unat a' - unat b'" "unat b' < unat a'"
      by (simp_all only: unat_sub [OF less_imp_le [OF 1]] word_less_nat_alt)
    have nz: "a' - b' \<noteq> 0" "b' \<noteq> 0" using 1 pos(2) by auto
    obtain g where g: "gcd_loop (a' - b') b' s = Some (push_bit s g)" "unat g = gcd (unat (a' - b')) (unat b')"
      using less.hyps [of "a' - b'" b'] nz b'(3) d le pos by fastforce
    have "unat g = gcd (unat a') (unat b')" using g(2) d by (simp add: gcd_diff1_nat)
    then show ?thesis using g(1) 1 step gg by auto
  next
    case 2
    then have d: "unat (b' - a') = unat b' - unat a'" "unat a' < unat b'"
      by (simp_all only: unat_sub [OF less_imp_le [OF 2]] word_less_nat_alt)
    have nz: "b' - a' \<noteq> 0" "a' \<noteq> 0" using 2 pos(1) by auto
    obtain g where g: "gcd_loop a' (b' - a') s = Some (push_bit s g)" "unat g = gcd (unat a') (unat (b' - a'))"
      using less.hyps [of a' "b' - a'"] nz a'(3) d le pos by fastforce
    have "unat g = gcd (unat a') (unat b')" using g(2) d by (simp add: gcd_diff2_nat less_imp_le gcd.commute [of "unat a'"] gcd_diff1_nat)
    then show ?thesis using g(1) 2 step gg by auto
  next
    case 3
    then show ?thesis using step gg by auto
  qed
qed

lemma gcd_shift_total:
  assumes "a \<noteq> 0" and "b \<noteq> 0"
  shows "\<exists>a' b' k. gcd_shift a b s = Some (a', b', s + k) \<and> unat a = unat a' * 2 ^ k \<and> unat b = unat b' * 2 ^ k \<and>
    a' \<noteq> 0 \<and> b' \<noteq> 0 \<and> (odd (unat a') \<or> odd (unat b'))"
  using assms
proof (induction "unat a" arbitrary: a b s rule: less_induct)
  case less
  show ?case
  proof (cases "even (unat a) \<and> even (unat b)")
    case False
    then have "gcd_shift a b s = Some (a, b, s)" by (subst gcd_shift.simps) (auto simp: and_one_even)
    then show ?thesis using False less.prems by (intro exI [of _ a] exI [of _ b] exI [of _ 0]) simp
  next
    case True
    have "unat a \<noteq> 0" "unat b \<noteq> 0" using less.prems by (simp_all add: unat_eq_zero)
    then have lt: "unat (drop_bit 1 a) < unat a" "drop_bit 1 a \<noteq> 0" "drop_bit 1 b \<noteq> 0"
      using True unat_drop_bit1 [of a] unat_drop_bit1 [of b] by (auto simp: unat_eq_zero [symmetric] elim!: evenE)
    obtain a' b' k where r: "gcd_shift (drop_bit 1 a) (drop_bit 1 b) (s + 1) = Some (a', b', s + 1 + k)"
      "unat (drop_bit 1 a) = unat a' * 2 ^ k" "unat (drop_bit 1 b) = unat b' * 2 ^ k"
      "a' \<noteq> 0" "b' \<noteq> 0" "odd (unat a') \<or> odd (unat b')"
      using less.hyps [OF lt] by blast
    have "unat a = unat a' * 2 ^ Suc k" "unat b = unat b' * 2 ^ Suc k"
      using r(2,3) True unfolding unat_drop_bit1 by (auto elim!: evenE)
    moreover have "gcd_shift a b s = Some (a', b', s + Suc k)"
      using True r(1) by (subst gcd_shift.simps) (simp only: and_one_even if_True simp_thms, simp)
    ultimately show ?thesis using r(4-6) by blast
  qed
qed

text \<open>The loops end and compute the greatest common divisor.\<close>

lemma gcd64_gcd: "\<exists>g. gcd64 a b = Some g \<and> unat g = gcd (unat a) (unat b)"
proof (cases "a = 0 \<or> b = 0")
  case True
  then show ?thesis by (auto simp: gcd64_def)
next
  case False
  then obtain a' b' k where s: "gcd_shift a b 0 = Some (a', b', 0 + k)" "unat a = unat a' * 2 ^ k" "unat b = unat b' * 2 ^ k"
    "a' \<noteq> 0" "b' \<noteq> 0" "odd (unat a') \<or> odd (unat b')"
    using gcd_shift_total [of a b 0] by blast
  obtain g where g: "gcd_loop a' b' k = Some (push_bit k g)" "unat g = gcd (unat a') (unat b')"
    using gcd_loop_total [OF s(4-6)] by blast
  have e: "gcd (unat a) (unat b) = unat g * 2 ^ k"
    unfolding s(2,3) g(2) by (metis gcd_mult_distrib_nat mult.commute)
  have "unat a \<noteq> 0" using False by (simp add: unat_eq_zero)
  then have "unat g * 2 ^ k \<le> unat a" unfolding e [symmetric] by (simp add: gcd_le1_nat)
  moreover have "unat a < 2 ^ 64" using unsigned_less [of a] by simp
  ultimately have "unat g * 2 ^ k < 2 ^ 64" by (rule order_le_less_trans)
  then have "unat (push_bit k g) = unat g * 2 ^ k"
    by (simp only: unsigned_push_bit_eq) (simp add: push_bit_eq_mult take_bit_nat_eq_self)
  then show ?thesis using False s(1) g(1) e by (auto simp: gcd64_def)
qed

subsection \<open>The multiplication\<close>

lemma mod_step: "x < 2 * n \<Longrightarrow> (if n \<le> x then x - n else x) = x mod (n :: nat)"
  by (auto simp: le_mod_geq)

lemma unat_mod_step:
  assumes "unat x < unat number" and "unat y < unat number" and "unat number \<le> 2 ^ 63"
  shows "unat (if x + y \<ge> number then x + y - number else x + y) = (unat x + unat y) mod unat (number :: i64)"
proof -
  have s: "unat (x + y) = unat x + unat y" using assms by (subst unat_add_lem [THEN iffD1]) simp_all
  show ?thesis
    using mod_step [of "unat x + unat y" "unat number"] assms s by (auto simp: word_le_nat_alt unat_sub)
qed

lemma mulmod_correct:
  "unat number \<le> 2 ^ 63 \<Longrightarrow> unat a < unat number \<Longrightarrow> unat c < unat number \<Longrightarrow>
    unat (mulmod number b a c) = (unat c + unat a * unat b) mod unat number"
proof (induction number b a c rule: mulmod.induct)
  case (1 number b a c)
  show ?case
  proof (cases "b = 0")
    case True
    then show ?thesis using "1.prems" by (simp add: mulmod.simps)
  next
    case False
    define c1 where "c1 = (if b AND 1 \<noteq> 0 then (let s = c + a in if s \<ge> number then s - number else s) else c)"
    define a1 where "a1 = (if a + a \<ge> number then a + a - number else a + a)"
    have a1: "unat a1 = (unat a + unat a) mod unat number"
      unfolding a1_def using "1.prems" by (intro unat_mod_step) simp_all
    have c1: "unat c1 = (unat c + unat a * (unat b mod 2)) mod unat number"
      using unat_mod_step [of c number a] "1.prems"
      by (auto simp: c1_def Let_def and_one_even odd_iff_mod_2_eq_one even_iff_mod_2_eq_zero)
    have pos: "0 < unat number" using "1.prems"(2) by simp
    have "mulmod number b a c = mulmod number (drop_bit 1 b) a1 c1"
      using False by (simp add: mulmod.simps [of number b] c1_def a1_def Let_def)
    also have "unat \<dots> = (unat c1 + unat a1 * unat (drop_bit 1 b)) mod unat number"
      using pos "1.prems"(1) by (intro "1.IH" [OF False c1_def refl a1_def]) (simp_all add: a1 c1)
    also have "\<dots> = (unat c + unat a * (unat b mod 2) + (unat a + unat a) * (unat b div 2)) mod unat number"
      unfolding unat_drop_bit1 a1 c1 mod_add_left_eq by (metis mod_add_right_eq mod_mult_left_eq)
    also have "unat c + unat a * (unat b mod 2) + (unat a + unat a) * (unat b div 2) = unat c + unat a * unat b"
    proof -
      have "unat b = unat b mod 2 + 2 * (unat b div 2)" by simp
      then have "unat a * unat b = unat a * (unat b mod 2) + (unat a + unat a) * (unat b div 2)"
        by (metis distrib_left distrib_right mult.assoc mult_2)
      then show ?thesis by simp
    qed
    finally show ?thesis .
  qed
qed

subsection \<open>What findDivider returns divides the number\<close>

lemma find_inner_total:
  "\<exists>r. find_inner number q lim j x y it g = Some r \<and> (\<forall>d. r = Inl d \<longrightarrow> unat d dvd unat number \<and> d \<noteq> 1) \<and>
     (\<forall>it' g'. r = Inr (it', g') \<longrightarrow> g' = g \<or> g' = 1)"
proof (induction number q lim j x y it g rule: find_inner.induct)
  case (1 number q lim j x y it g)
  show ?case
  proof (cases "j < lim")
    case False
    then show ?thesis by (simp add: find_inner.simps)
  next
    case True
    define x1 where "x1 = mulmod number x x q"
    define z where "z = (if x1 < y then number + x1 - y else x1 - y)"
    obtain g1 where g1: "gcd64 z number = Some g1" "unat g1 = gcd (unat z) (unat number)"
      using gcd64_gcd [of z number] by blast
    show ?thesis
    proof (cases "g1 = 1")
      case False
      then have "find_inner number q lim j x y it g = Some (Inl g1)"
        using True g1(1) by (simp add: find_inner.simps [of number q lim j] x1_def [symmetric] z_def [symmetric] Let_def)
      then show ?thesis using g1(2) False by simp
    next
      case one: True
      have "find_inner number q lim j x y it g =
          find_inner number q lim (j + 1) x1 (if j AND (j - 1) = 0 then x1 else y) (it + 1) g1"
        using True one g1(1) by (simp add: find_inner.simps [of number q lim j] x1_def [symmetric] z_def [symmetric] Let_def)
      then show ?thesis using "1.IH" [OF True x1_def z_def g1(1)] one by auto
    qed
  qed
qed

lemma find_loop_dvd: "\<exists>d. find_loop rand number i it g r = Some d \<and> unat d dvd unat number"
proof (induction rand number i it g r rule: find_loop.induct)
  case (1 rand number i it g r)
  show ?case
  proof (cases "i < 3 \<or> it < 10000")
    case False
    then show ?thesis by (simp add: find_loop.simps)
  next
    case True
    define q where "q = of_nat ((rand r AND 15) + 17) mod number"
    define x where "x = of_nat (rand (r + 1)) mod (number - 1) + 1"
    obtain res where res: "find_inner number q (2 ^ (i + 18)) 1 x x it g = Some res"
      "\<forall>d. res = Inl d \<longrightarrow> unat d dvd unat number \<and> d \<noteq> 1"
      using find_inner_total by meson
    have inner1: "find_inner number q (2 ^ (i + 18)) 1 x x it g = Some (Inr (it1, g1)) \<Longrightarrow> g1 = 1" for it1 g1
    proof -
      assume a: "find_inner number q (2 ^ (i + 18)) 1 x x it g = Some (Inr (it1, g1))"
      define x1 where "x1 = mulmod number x x q"
      define z where "z = (if x1 < x then number + x1 - x else x1 - x)"
      obtain h where h: "gcd64 z number = Some h" using gcd64_gcd [of z number] by blast
      have "find_inner number q (2 ^ (i + 18)) 1 x x it g =
          (if h \<noteq> 1 then Some (Inl h) else find_inner number q (2 ^ (i + 18)) 2 x1 x1 (it + 1) h)"
        by (subst find_inner.simps) (use pow18 [of i] h in \<open>simp add: x1_def [symmetric] z_def [symmetric] Let_def numeral_2_eq_2\<close>)
      then have "h = 1" "find_inner number q (2 ^ (i + 18)) 2 x1 x1 (it + 1) 1 = Some (Inr (it1, g1))"
        using a by (simp_all split: if_splits)
      then show "g1 = 1" using find_inner_total [of number q "2 ^ (i + 18)" 2 x1 x1 "it + 1" 1] by auto
    qed
    show ?thesis
    proof (cases res)
      case (Inl d)
      then show ?thesis using True res by (simp add: find_loop.simps [of rand number i] q_def x_def Let_def)
    next
      case (Inr p)
      obtain it1 g1 where p: "p = (it1, g1)" by fastforce
      have "g1 = 1" using inner1 res(1) Inr p by simp
      then have e: "find_loop rand number i it g r = find_loop rand number (i + 1) it1 g1 (r + 2)"
        using True res(1) Inr p by (simp add: find_loop.simps [of rand number i] q_def x_def Let_def)
      show ?thesis
        using "1.IH" [OF True q_def x_def res(1) Inr p [symmetric]] \<open>g1 = 1\<close> e by simp
    qed
  qed
qed

text \<open>So the division \<open>pq / p\<close> of the handshake is exact.\<close>

lemma findDivider_dvd: "\<exists>d. findDivider rand number = Some d \<and> unat d dvd unat number"
  by (simp add: findDivider_def find_loop_dvd)

end
