(* ===== verification/AesTables.thy ===== *)
theory AesTables
  imports Aes
begin

section \<open>The AES tables are what the cipher needs\<close>

text \<open>
  The literal tables of aes.c, checked entry by entry: the forward and reverse round tables
  are the field multiples of the S-box and of its inverse, and the two S-boxes are inverse.
\<close>

subsection \<open>The tables as field operations\<close>

text \<open>Multiplication by \<open>x\<close> in the field of the cipher, and the factors of the inverse mix.\<close>

definition xtime :: "byte \<Rightarrow> byte" where
  "xtime x = push_bit 1 x XOR (if bit x 7 then 0x1B else 0)"

definition mul9 :: "byte \<Rightarrow> byte" where "mul9 s = xtime (xtime (xtime s)) XOR s"
definition mul11 :: "byte \<Rightarrow> byte" where "mul11 s = xtime (xtime (xtime s)) XOR xtime s XOR s"
definition mul13 :: "byte \<Rightarrow> byte" where "mul13 s = xtime (xtime (xtime s)) XOR xtime (xtime s) XOR s"
definition mul14 :: "byte \<Rightarrow> byte" where "mul14 s = xtime (xtime (xtime s)) XOR xtime (xtime s) XOR xtime s"

lemma xtime_xor: "xtime (a XOR b) = xtime a XOR xtime b"
proof -
  have "push_bit 1 (a XOR b) = push_bit 1 a XOR push_bit 1 b" by (rule push_bit_xor)
  then show ?thesis
    by (cases "bit a 7"; cases "bit b 7") (simp_all add: xtime_def bit_xor_iff ac_simps)
qed

lemma mul_xor:
  "mul9 (a XOR b) = mul9 a XOR mul9 b" "mul11 (a XOR b) = mul11 a XOR mul11 b"
  "mul13 (a XOR b) = mul13 a XOR mul13 b" "mul14 (a XOR b) = mul14 a XOR mul14 b"
  by (simp_all add: mul9_def mul11_def mul13_def mul14_def xtime_xor ac_simps)

lemma FT_table: "FT_list = map (\<lambda>s. (xtime s XOR s, s, s, xtime s)) FSb_list"
  by code_simp

lemma RT_table: "RT_list = map (\<lambda>s. (mul11 s, mul13 s, mul9 s, mul14 s)) RSb_list"
  by code_simp

lemma RSb_table: "map (\<lambda>c. RSb_list ! unat c) FSb_list = map of_nat [0..<256]"
  by code_simp

end
