(* ===== verification/AesInverse.thy ===== *)
theory AesInverse
  imports AesTables
begin

section \<open>AES decryption inverts encryption\<close>

text \<open>
  The table-driven rounds of aes.c in terms of columns, the peeling of one round by one
  round of decryption under the mixed key, and the theorem for all three key lengths.
\<close>

subsection \<open>Bytes and words\<close>

lemma byte_of_w4 [simp]:
  "byte_of 0 (w4 a b c d) = a" "byte_of 1 (w4 a b c d) = b"
  "byte_of 2 (w4 a b c d) = c" "byte_of 3 (w4 a b c d) = d"
  "byte_of (Suc 0) (w4 a b c d) = b"
  unfolding byte_of_def w4_def
  by (rule bit_word_eqI; auto simp: bit_ucast_iff bit_drop_bit_eq bit_xor_iff bit_push_bit_iff dest: bit_imp_le_length)+

lemma byte_of_xor: "byte_of k (v XOR w) = byte_of k v XOR byte_of k w"
  unfolding byte_of_def
  by (rule bit_word_eqI) (simp add: bit_ucast_iff bit_drop_bit_eq bit_xor_iff)

lemma w4_bytes: "w4 (byte_of 0 w) (byte_of 1 w) (byte_of 2 w) (byte_of 3 w) = w"
  unfolding byte_of_def w4_def
  apply (rule bit_word_eqI)
  subgoal for n
    by (cases "n < 8"; cases "n < 16"; cases "n < 24") (auto simp: bit_ucast_iff bit_drop_bit_eq bit_xor_iff bit_push_bit_iff)
  done

lemma w4_xor: "w4 a b c d XOR w4 a' b' c' d' = w4 (a XOR a') (b XOR b') (c XOR c') (d XOR d')"
proof -
  have "w4 (byte_of 0 w) (byte_of 1 w) (byte_of 2 w) (byte_of 3 w) = w"
    if "w = w4 a b c d XOR w4 a' b' c' d'" for w
    by (rule w4_bytes)
  then show ?thesis by (metis byte_of_xor byte_of_w4(1-4))
qed

subsection \<open>Columns\<close>

lemma length_tables [simp]: "length FSb_list = 256" "length RSb_list = 256"
  by (simp_all add: FSb_list_def RSb_list_def)

lemma byte_index [simp]: "unat (x :: byte) < 256"
  using unsigned_less [of x] by simp

lemma RSb_FSb [simp]: "RSb (FSb x) = x"
proof -
  have "map (\<lambda>c. RSb_list ! unat c) FSb_list ! unat x = map of_nat [0..<256] ! unat x"
    by (simp only: RSb_table)
  then show ?thesis by (simp add: RSb_def FSb_def)
qed

lemma FT_eq:
  "AES_FT0 x = w4 (xtime (FSb x)) (FSb x) (FSb x) (xtime (FSb x) XOR FSb x)"
  "AES_FT1 x = w4 (xtime (FSb x) XOR FSb x) (xtime (FSb x)) (FSb x) (FSb x)"
  "AES_FT2 x = w4 (FSb x) (xtime (FSb x) XOR FSb x) (xtime (FSb x)) (FSb x)"
  "AES_FT3 x = w4 (FSb x) (FSb x) (xtime (FSb x) XOR FSb x) (xtime (FSb x))"
  by (simp_all add: AES_FT0_def AES_FT1_def AES_FT2_def AES_FT3_def FT_table FSb_def)

lemma RT_eq:
  "AES_RT0 (FSb x) = w4 (mul14 x) (mul9 x) (mul13 x) (mul11 x)"
  "AES_RT1 (FSb x) = w4 (mul11 x) (mul14 x) (mul9 x) (mul13 x)"
  "AES_RT2 (FSb x) = w4 (mul13 x) (mul11 x) (mul14 x) (mul9 x)"
  "AES_RT3 (FSb x) = w4 (mul9 x) (mul13 x) (mul11 x) (mul14 x)"
  using RSb_FSb [of x]
  by (simp_all add: AES_RT0_def AES_RT1_def AES_RT2_def AES_RT3_def RT_table RSb_def del: RSb_FSb)

lemma inv_mix_xor: "inv_mix (v XOR w) = inv_mix v XOR inv_mix w"
  by (simp add: inv_mix_def RT_eq w4_xor byte_of_xor mul_xor ac_simps)

text \<open>One column of a forward round, and the substituted and shifted column before it.\<close>

definition mix_column :: "i32 \<Rightarrow> i32 \<Rightarrow> i32 \<Rightarrow> i32 \<Rightarrow> i32" where
  "mix_column y0 y1 y2 y3 =
     AES_FT0 (byte_of 0 y0) XOR AES_FT1 (byte_of 1 y1) XOR AES_FT2 (byte_of 2 y2) XOR AES_FT3 (byte_of 3 y3)"

definition sub_column :: "i32 \<Rightarrow> i32 \<Rightarrow> i32 \<Rightarrow> i32 \<Rightarrow> i32" where
  "sub_column y0 y1 y2 y3 = w4 (FSb (byte_of 0 y0)) (FSb (byte_of 1 y1)) (FSb (byte_of 2 y2)) (FSb (byte_of 3 y3))"

lemma xor_cancel [simp]: "(a :: 'a::len word) XOR (a XOR b) = b"
  by (simp add: xor.assoc [symmetric])

lemma inv_mix_column: "inv_mix (mix_column y0 y1 y2 y3) = sub_column y0 y1 y2 y3"
  by (simp add: inv_mix_def mix_column_def sub_column_def FT_eq RT_eq w4_xor byte_of_xor
      mul9_def mul11_def mul13_def mul14_def xtime_xor ac_simps)


subsection \<open>Decryption undoes the rounds\<close>

fun sub_shift :: "quad \<Rightarrow> quad" where
  "sub_shift (y0, y1, y2, y3) =
     (sub_column y0 y1 y2 y3, sub_column y1 y2 y3 y0, sub_column y2 y3 y0 y1, sub_column y3 y0 y1 y2)"

fun xor_key :: "i32 list \<Rightarrow> nat \<Rightarrow> quad \<Rightarrow> quad" where
  "xor_key rk p (x0, x1, x2, x3) = (rk ! p XOR x0, rk ! (p + 1) XOR x1, rk ! (p + 2) XOR x2, rk ! (p + 3) XOR x3)"

text \<open>A round of decryption at a mixed key takes the substituted state of a round back one round.\<close>

lemma rround_undoes_fround:
  assumes "\<forall>j < 4. drk ! (q + j) = inv_mix (rk ! (p + j))"
  shows "AES_RROUND drk q (sub_shift (AES_FROUND rk p y)) = sub_shift y"
proof -
  obtain y0 y1 y2 y3 where y: "y = (y0, y1, y2, y3)" by (cases y)
  have k: "drk ! q = inv_mix (rk ! p)" "drk ! (Suc q) = inv_mix (rk ! Suc p)"
    "drk ! Suc (Suc q) = inv_mix (rk ! Suc (Suc p))" "drk ! (q + 3) = inv_mix (rk ! (p + 3))"
    using assms [rule_format, of 0] assms [rule_format, of 1] assms [rule_format, of 2]
      assms [rule_format, of 3] by simp_all
  have f: "AES_FROUND rk p y = (rk ! p XOR mix_column y0 y1 y2 y3, rk ! Suc p XOR mix_column y1 y2 y3 y0,
      rk ! (p + 2) XOR mix_column y2 y3 y0 y1, rk ! (p + 3) XOR mix_column y3 y0 y1 y2)"
    by (simp add: y mix_column_def xor.assoc)
  have r: "AES_RROUND drk q (sub_shift (z0, z1, z2, z3)) =
      (drk ! q XOR inv_mix z0, drk ! Suc q XOR inv_mix z1, drk ! (q + 2) XOR inv_mix z2, drk ! (q + 3) XOR inv_mix z3)"
    for z0 z1 z2 z3
    by (simp add: sub_column_def inv_mix_def xor.assoc)
  show ?thesis
    unfolding f r by (simp add: k inv_mix_xor inv_mix_column y)
qed

text \<open>The loops as a fold over the positions of the round keys.\<close>

lemma round_loop_fold:
  "round_loop f rk i p x = (p + 8 * i + 4, fold (\<lambda>k. f rk (p + 4 * k)) [0..<2 * i + 1] x)"
proof (induction i arbitrary: p x)
  case 0
  then show ?case by simp
next
  case (Suc i)
  have "[0..<2 * Suc i + 1] = 0 # 1 # [2..<2 * i + 1 + 2]"
    by (simp add: upt_conv_Cons numeral_2_eq_2 del: upt_Suc)
  then have "[0..<2 * Suc i + 1] = 0 # 1 # map (\<lambda>k. k + 2) [0..<2 * i + 1]"
    by (simp only: map_add_upt)
  then have "fold (\<lambda>k. f rk (p + 4 * k)) [0..<2 * Suc i + 1] x
      = fold (\<lambda>k. f rk (p + 8 + 4 * k)) [0..<2 * i + 1] (f rk (p + 4) (f rk p x))"
    by (simp add: fold_map comp_def algebra_simps del: upt_Suc)
  then show ?case using Suc.IH by simp
qed

lemma fold_append_upt: "fold f [0..<Suc n] x = f n (fold f [0..<n] x)"
  by simp

text \<open>Running the decryption rounds over the last rounds of an encryption peels them off.\<close>

lemma peel_rounds:
  assumes "\<forall>i j. 0 < i \<and> i \<le> n \<and> j < 4 \<longrightarrow> drk ! (4 * i + j) = inv_mix (rk ! (4 * (n + 1 - i) + j))"
    and "m \<le> n"
  shows "fold (\<lambda>k. AES_RROUND drk (4 + 4 * k)) [0..<m]
           (sub_shift (fold (\<lambda>k. AES_FROUND rk (4 + 4 * k)) [0..<n] x))
       = sub_shift (fold (\<lambda>k. AES_FROUND rk (4 + 4 * k)) [0..<n - m] x)"
  using assms(2)
proof (induction m)
  case 0
  then show ?case by simp
next
  case (Suc m)
  let ?e = "\<lambda>l. fold (\<lambda>k. AES_FROUND rk (4 + 4 * k)) [0..<l] x"
  have nm: "n - m = Suc (n - Suc m)" using Suc.prems by simp
  have "AES_RROUND drk (4 + 4 * m) (sub_shift (AES_FROUND rk (4 + 4 * (n - Suc m)) (?e (n - Suc m))))
      = sub_shift (?e (n - Suc m))"
  proof (rule rround_undoes_fround, intro allI impI)
    fix j :: nat assume "j < 4"
    then have "drk ! (4 * (m + 1) + j) = inv_mix (rk ! (4 * (n + 1 - (m + 1)) + j))"
      using Suc.prems by (intro assms(1) [rule_format]) simp
    moreover have "4 * (n + 1 - (m + 1)) = 4 + 4 * (n - Suc m)" using Suc.prems by auto
    moreover have "4 * (m + 1) = 4 + 4 * m" by simp
    ultimately show "drk ! (4 + 4 * m + j) = inv_mix (rk ! (4 + 4 * (n - Suc m) + j))" by simp
  qed
  moreover have "?e (n - m) = AES_FROUND rk (4 + 4 * (n - Suc m)) (?e (n - Suc m))"
    unfolding nm fold_append_upt ..
  ultimately show ?case using Suc by (simp only: fold_append_upt)
qed


subsection \<open>The block cipher\<close>

lemma last_fround_eq:
  "last_fround rk (p, y) = xor_key rk p (sub_shift y)"
proof -
  obtain y0 y1 y2 y3 where "y = (y0, y1, y2, y3)" by (cases y)
  then show ?thesis by (simp add: sub_column_def)
qed

lemma last_rround_sub_shift:
  "last_rround rk (p, sub_shift y) = xor_key rk p y"
proof -
  obtain y0 y1 y2 y3 where "y = (y0, y1, y2, y3)" by (cases y)
  then show ?thesis by (simp add: sub_column_def w4_bytes [simplified])
qed

lemma xor_key_twice: "xor_key rk p (xor_key rk' p' y) = y" if "\<forall>j < 4. rk ! (p + j) = rk' ! (p' + j)"
proof -
  obtain y0 y1 y2 y3 where "y = (y0, y1, y2, y3)" by (cases y)
  then show ?thesis
    using that [rule_format, of 0] that [rule_format, of 1] that [rule_format, of 2] that [rule_format, of 3]
    by simp
qed

lemma length_store [simp]: "length (store x) = 16"
  by (cases x) simp

fun quad_of :: "bytes \<Rightarrow> quad" where
  "quad_of b = (le_decode (take 4 b), le_decode (take 4 (drop 4 b)),
     le_decode (take 4 (drop 8 b)), le_decode (take 4 (drop 12 b)))"

lemma load_xor_eq: "load_xor rk b = xor_key rk 0 (quad_of b)"
  by (simp add: load_xor_def xor.commute numeral_2_eq_2 numeral_3_eq_3)

lemma quad_of_store [simp]: "quad_of (store x) = x"
  by (cases x) (simp add: le_decode_encode)

lemma le_encode4_decode: "length b = 4 \<Longrightarrow> le_encode 4 (le_decode b :: i32) = b"
  using le_encode_decode [of b, where 'a = 32] by simp

lemma store_quad_of:
  assumes "length b = 16" shows "store (quad_of b) = b"
proof -
  have "take 4 (drop 12 b) = drop 12 b" using assms by simp
  moreover have "take 4 (drop 8 b) @ drop 12 b = drop 8 b"
    using append_take_drop_id [of 4 "drop 8 b"] by simp
  moreover have "take 4 (drop 4 b) @ drop 8 b = drop 4 b"
    using append_take_drop_id [of 4 "drop 4 b"] by simp
  ultimately have "take 4 b @ take 4 (drop 4 b) @ take 4 (drop 8 b) @ take 4 (drop 12 b) = b"
    using append_take_drop_id [of 4 b] by simp
  then show ?thesis using assms by (simp add: le_encode4_decode)
qed


lemma decrypt_encrypt_schedule:
  assumes keys: "\<forall>i j. 0 < i \<and> i \<le> 2 * h + 1 \<and> j < 4 \<longrightarrow>
      drk ! (4 * i + j) = inv_mix (rk ! (4 * (2 * h + 2 - i) + j))"
    and first: "\<forall>j < 4. drk ! j = rk ! (8 * h + 8 + j)"
    and last: "\<forall>j < 4. drk ! (8 * h + 8 + j) = rk ! j"
    and len: "length b = 16"
  shows "internal_aes_decrypt \<lparr>aes_nr = 2 * h + 2, aes_rk = drk\<rparr>
           (internal_aes_encrypt \<lparr>aes_nr = 2 * h + 2, aes_rk = rk\<rparr> b) = b"
proof -
  let ?n = "2 * h + 1"
  let ?x = "xor_key rk 0 (quad_of b)"
  let ?e = "fold (\<lambda>k. AES_FROUND rk (4 + 4 * k)) [0..<?n] ?x"
  have h: "(2 * h + 2) div 2 - 1 = h" "4 + 8 * h + 4 = 8 * h + 8" by simp_all
  have e: "internal_aes_encrypt \<lparr>aes_nr = 2 * h + 2, aes_rk = rk\<rparr> b
      = store (xor_key rk (8 * h + 8) (sub_shift ?e))"
    by (simp only: internal_aes_encrypt_def aes_context.simps load_xor_eq round_loop_fold last_fround_eq h)
  have start: "xor_key drk 0 (xor_key rk (8 * h + 8) (sub_shift ?e)) = sub_shift ?e"
    by (rule xor_key_twice) (use first in simp)
  have peel: "fold (\<lambda>k. AES_RROUND drk (4 + 4 * k)) [0..<?n] (sub_shift ?e) = sub_shift ?x"
    using peel_rounds [of ?n drk rk ?n ?x] keys by (simp del: upt_Suc)
  have "internal_aes_decrypt \<lparr>aes_nr = 2 * h + 2, aes_rk = drk\<rparr> (store (xor_key rk (8 * h + 8) (sub_shift ?e)))
      = store (last_rround drk (8 * h + 8, sub_shift ?x))"
    by (simp only: internal_aes_decrypt_def aes_context.simps load_xor_eq round_loop_fold h
        quad_of_store start peel)
  also have "\<dots> = store (xor_key drk (8 * h + 8) ?x)" by (simp only: last_rround_sub_shift)
  also have "\<dots> = store (quad_of b)"
    by (subst xor_key_twice) (use last in simp_all)
  also have "\<dots> = b" by (rule store_quad_of [OF len])
  finally show ?thesis unfolding e .
qed

text \<open>The decryption schedule has the relation to the encryption schedule this needs.\<close>

lemma length_round_key [simp]: "length (round_key rk i) = 4"
  by (simp add: round_key_def)

lemma nth_concat_fours:
  assumes "\<forall>x \<in> set xss. length x = 4" and "i < length xss" and "j < 4"
  shows "concat xss ! (4 * i + j) = xss ! i ! j"
  using assms
proof (induction xss arbitrary: i)
  case (Cons x xss)
  then show ?case by (cases i) (auto simp: nth_append)
qed simp

lemma dec_schedule_nth:
  assumes "0 < nr" and "i \<le> nr" and "j < 4"
  shows "dec_schedule nr sk ! (4 * i + j) =
    (if i = 0 \<or> i = nr then sk ! (4 * (nr - i) + j) else inv_mix (sk ! (4 * (nr - i) + j)))"
proof -
  let ?xss = "round_key sk nr # map (\<lambda>i. map inv_mix (round_key sk i)) (rev [1..<nr]) @ [round_key sk 0]"
  have "dec_schedule nr sk = concat ?xss" by (simp add: dec_schedule_def)
  moreover have "concat ?xss ! (4 * i + j) = ?xss ! i ! j"
    using assms by (intro nth_concat_fours) auto
  moreover have "?xss ! i = (if i = 0 then round_key sk nr else if i = nr then round_key sk 0
      else map inv_mix (round_key sk (nr - i)))"
    using assms by (auto simp: nth_Cons nth_append rev_nth Suc_diff_Suc split: nat.splits)
  moreover have "round_key sk k ! j = sk ! (4 * k + j)" for k
    using assms(3) by (auto simp: round_key_def less_Suc_eq numeral_eq_Suc)
  ultimately show ?thesis using assms by (auto simp: nth_map)
qed

lemma setkey_rounds:
  "setkey_enc key bits = Some ctx \<Longrightarrow> \<exists>h. aes_nr ctx = 2 * h + 2"
  by (auto simp: setkey_enc_def Let_def split: if_splits intro: exI [of _ 4] exI [of _ 5] exI [of _ 6])

lemma aes_decrypt_encrypt:
  assumes "setkey_enc key bits = Some e" and "setkey_dec key bits = Some d" and "length b = 16"
  shows "internal_aes_decrypt d (internal_aes_encrypt e b) = b"
proof -
  obtain h where h: "aes_nr e = 2 * h + 2" using setkey_rounds [OF assms(1)] by blast
  define rk where "rk = aes_rk e"
  have e: "e = \<lparr>aes_nr = 2 * h + 2, aes_rk = rk\<rparr>" by (simp add: h rk_def)
  have d: "d = \<lparr>aes_nr = 2 * h + 2, aes_rk = dec_schedule (2 * h + 2) rk\<rparr>"
    using assms(1,2) by (simp add: setkey_dec_def e)
  show ?thesis unfolding d e
  proof (rule decrypt_encrypt_schedule [OF _ _ _ assms(3)])
    show "\<forall>i j. 0 < i \<and> i \<le> 2 * h + 1 \<and> j < 4 \<longrightarrow>
        dec_schedule (2 * h + 2) rk ! (4 * i + j) = inv_mix (rk ! (4 * (2 * h + 2 - i) + j))"
      using dec_schedule_nth [of "2 * h + 2" _ _ rk] by auto
    show "\<forall>j < 4. dec_schedule (2 * h + 2) rk ! j = rk ! (8 * h + 8 + j)"
      using dec_schedule_nth [of "2 * h + 2" 0 _ rk] by (simp add: algebra_simps)
    show "\<forall>j < 4. dec_schedule (2 * h + 2) rk ! (8 * h + 8 + j) = rk ! j"
      using dec_schedule_nth [of "2 * h + 2" "2 * h + 2" _ rk] by (simp add: algebra_simps)
  qed
qed

end
