(* ===== verification/Ige.thy ===== *)
theory Ige
  imports AesInverse
begin

section \<open>Infinite garble extension: mbedtls_aes_crypt_ige in aes.c\<close>

text \<open>
  The mode MTProto encrypts with, added to the vendored aes.c. The buffer \<open>iv\<close> holds the
  previous ciphertext block and the previous plaintext block and is updated in place; the
  model returns it. The loops are written over any pair of block functions; the interface
  \<open>block_cipher\<close> is what their round trip needs of the pair.
\<close>

definition xor_bytes :: "bytes \<Rightarrow> bytes \<Rightarrow> bytes" where
  "xor_bytes a b = map2 (XOR) a b"

lemma length_xor_bytes [simp]: "length (xor_bytes a b) = min (length a) (length b)"
  by (simp add: xor_bytes_def)

lemma xor_bytes_cancel [simp]: "length a = length b \<Longrightarrow> xor_bytes (xor_bytes a b) b = a"
  by (simp add: xor_bytes_def map2_xor_cancel)

lemma xor_bytes_commute: "xor_bytes a b = xor_bytes b a"
  unfolding xor_bytes_def
  by (induction a b rule: list_induct2') (simp_all add: xor.commute)

subsection \<open>The two loops\<close>

text \<open>One argument per variable of the C loop: blocks left, \<open>iv\<close>, and the buffer from \<open>output\<close> on.\<close>

fun ige_encrypt :: "(bytes \<Rightarrow> bytes) \<Rightarrow> nat \<Rightarrow> bytes \<Rightarrow> bytes \<Rightarrow> bytes \<times> bytes" where
  "ige_encrypt E 0 iv buf = ([], iv)"
| "ige_encrypt E (Suc n) iv buf =
     (let temp = take 16 buf;
          x = xor_bytes temp (take 16 iv);
          y = E x;
          out = xor_bytes y (drop 16 iv);
          (rest, iv') = ige_encrypt E n (out @ temp) (drop 16 buf)
      in (out @ rest, iv'))"

fun ige_decrypt :: "(bytes \<Rightarrow> bytes) \<Rightarrow> nat \<Rightarrow> bytes \<Rightarrow> bytes \<Rightarrow> bytes \<times> bytes" where
  "ige_decrypt D 0 iv buf = ([], iv)"
| "ige_decrypt D (Suc n) iv buf =
     (let temp = take 16 buf;
          x = xor_bytes temp (drop 16 iv);
          y = D x;
          out = xor_bytes y (take 16 iv);
          (rest, iv') = ige_decrypt D n (temp @ out) (drop 16 buf)
      in (out @ rest, iv'))"

locale block_cipher =
  fixes E D :: "bytes \<Rightarrow> bytes"
  assumes inverse: "length b = 16 \<Longrightarrow> D (E b) = b"
    and length_E: "length b = 16 \<Longrightarrow> length (E b) = 16"
begin

lemma length_ige:
  "length iv = 32 \<Longrightarrow> length buf = 16 * n \<Longrightarrow>
   length (fst (ige_encrypt E n iv buf)) = 16 * n \<and> length (snd (ige_encrypt E n iv buf)) = 32"
proof (induction n arbitrary: iv buf)
  case (Suc n)
  define temp where "temp = take 16 buf"
  define out where "out = xor_bytes (E (xor_bytes temp (take 16 iv))) (drop 16 iv)"
  have "length temp = 16" "length out = 16"
    using Suc.prems by (simp_all add: temp_def out_def length_E)
  then show ?case
    using Suc.IH [of "out @ temp" "drop 16 buf"] Suc.prems
    by (simp add: Let_def case_prod_unfold temp_def [symmetric] out_def [symmetric])
qed simp

lemma decrypt_encrypt:
  "length iv = 32 \<Longrightarrow> length buf = 16 * n \<Longrightarrow>
   ige_decrypt D n iv (fst (ige_encrypt E n iv buf)) = (buf, snd (ige_encrypt E n iv buf))"
proof (induction n arbitrary: iv buf)
  case 0
  then show ?case by simp
next
  case (Suc n)
  define temp where "temp = take 16 buf"
  define out where "out = xor_bytes (E (xor_bytes temp (take 16 iv))) (drop 16 iv)"
  have l: "length temp = 16" "length out = 16"
    using Suc.prems by (simp_all add: temp_def out_def length_E)
  obtain rest iv' where r: "ige_encrypt E n (out @ temp) (drop 16 buf) = (rest, iv')" by fastforce
  have "ige_decrypt D n (out @ temp) rest = (drop 16 buf, iv')"
    using Suc.IH [of "out @ temp" "drop 16 buf"] Suc.prems l r by simp
  moreover have "xor_bytes (D (xor_bytes out (drop 16 iv))) (take 16 iv) = temp"
    using l Suc.prems by (simp add: out_def inverse length_E)
  moreover have "ige_encrypt E (Suc n) iv buf = (out @ rest, iv')"
    using r by (simp add: Let_def temp_def out_def)
  ultimately show ?case using l by (simp add: Let_def) (simp add: temp_def)
qed

text \<open>Encrypting in two pieces, with the buffer carried over, is encrypting the whole.\<close>

lemma encrypt_append:
  "length buf = 16 * n \<Longrightarrow>
   ige_encrypt E (n + m) iv (buf @ buf') =
     (let (a, iv1) = ige_encrypt E n iv buf; (b, iv2) = ige_encrypt E m iv1 buf' in (a @ b, iv2))"
  by (induction n arbitrary: iv buf) (auto simp: Let_def split: prod.splits)

end

subsection \<open>The functions of aes.c\<close>

definition MBEDTLS_AES_ENCRYPT :: int where "MBEDTLS_AES_ENCRYPT = 1"
definition MBEDTLS_AES_DECRYPT :: int where "MBEDTLS_AES_DECRYPT = 0"

datatype aes_error = AES_BAD_INPUT_DATA | AES_INVALID_INPUT_LENGTH

definition aes_crypt_ecb :: "aes_context \<Rightarrow> int \<Rightarrow> bytes \<Rightarrow> aes_error + bytes" where
  "aes_crypt_ecb ctx mode input =
     (if mode \<noteq> MBEDTLS_AES_ENCRYPT \<and> mode \<noteq> MBEDTLS_AES_DECRYPT then Inl AES_BAD_INPUT_DATA
      else if mode = MBEDTLS_AES_ENCRYPT then Inr (internal_aes_encrypt ctx input)
      else Inr (internal_aes_decrypt ctx input))"

definition aes_crypt_ige :: "aes_context \<Rightarrow> int \<Rightarrow> nat \<Rightarrow> bytes \<Rightarrow> bytes \<Rightarrow> aes_error + bytes \<times> bytes" where
  "aes_crypt_ige ctx mode len iv input =
     (if mode \<noteq> MBEDTLS_AES_ENCRYPT \<and> mode \<noteq> MBEDTLS_AES_DECRYPT then Inl AES_BAD_INPUT_DATA
      else if len mod 16 \<noteq> 0 then Inl AES_INVALID_INPUT_LENGTH
      else if mode = MBEDTLS_AES_DECRYPT
      then Inr (ige_decrypt (internal_aes_decrypt ctx) (len div 16) iv (take len input))
      else Inr (ige_encrypt (internal_aes_encrypt ctx) (len div 16) iv (take len input)))"

lemma length_internal_encrypt [simp]: "length (internal_aes_encrypt ctx b) = 16"
  by (simp add: internal_aes_encrypt_def)

text \<open>The cipher for every key: the identity pair stands in when the key length is refused.\<close>

definition aes_E :: "bytes \<Rightarrow> bytes \<Rightarrow> bytes" where
  "aes_E key = (case setkey_enc key (8 * length key) of None \<Rightarrow> id | Some e \<Rightarrow> internal_aes_encrypt e)"

definition aes_D :: "bytes \<Rightarrow> bytes \<Rightarrow> bytes" where
  "aes_D key = (case setkey_dec key (8 * length key) of None \<Rightarrow> id | Some d \<Rightarrow> internal_aes_decrypt d)"

interpretation aes: block_cipher "aes_E key" "aes_D key" for key
proof
  fix b :: bytes assume b: "length b = 16"
  show "aes_D key (aes_E key b) = b"
    using aes_decrypt_encrypt [OF _ _ b, of key "8 * length key"]
    by (auto simp: aes_E_def aes_D_def setkey_dec_def split: option.splits)
  show "length (aes_E key b) = 16"
    using b by (auto simp: aes_E_def split: option.splits)
qed

end
