(* ===== verification/MdHash.thy ===== *)
theory MdHash
  imports Prelude
begin

section \<open>Iterated hashing: the common part of sha1.c, sha256.c and sha512.c\<close>

text \<open>
  The three hash files of libkg/mbedtls/library have the same update and finish functions
  up to the word size and the block size. They are written here once over these
  parameters: the size \<open>blk\<close> of a block, the mask \<open>msk\<close> that takes the counter modulo it,
  the bytes \<open>wb\<close> of a word and the compression function. The interface
  \<open>incremental_hash\<close> is what the callers rely on: feeding a message in pieces and
  finishing gives the hash of the whole.
\<close>

record 'w md_ctx =
  md_total0 :: "'w"
  md_total1 :: "'w"
  md_state :: "'w list"
  md_buffer :: bytes

text \<open>\<open>memcpy(buffer + pos, src, n)\<close>\<close>

definition put_at :: "nat \<Rightarrow> bytes \<Rightarrow> bytes \<Rightarrow> bytes" where
  "put_at pos src buf = take pos buf @ src @ drop (pos + length src) buf"

lemma take_put_at: "pos \<le> length buf \<Longrightarrow> take (pos + length src) (put_at pos src buf) = take pos buf @ src"
  by (simp add: put_at_def)

lemma length_put_at: "pos + length src \<le> length buf \<Longrightarrow> length (put_at pos src buf) = length buf"
  by (simp add: put_at_def)

subsection \<open>Update\<close>

text \<open>The loop over whole blocks of the input; what remains is copied by the caller.\<close>

function md_blocks :: "nat \<Rightarrow> ('a word list \<Rightarrow> bytes \<Rightarrow> 'a word list) \<Rightarrow> 'a word list \<Rightarrow> bytes \<Rightarrow> 'a word list \<times> bytes" where
  "md_blocks blk compress st input =
     (if length input \<ge> blk \<and> blk > 0
      then md_blocks blk compress (compress st (take blk input)) (drop blk input)
      else (st, input))"
  by pat_completeness auto
termination by (relation "measure (\<lambda>(blk, f, st, input). length input)") auto

declare md_blocks.simps [simp del]

definition md_update :: "nat \<Rightarrow> 'a word \<Rightarrow> ('a word list \<Rightarrow> bytes \<Rightarrow> 'a word list) \<Rightarrow> 'a::len word md_ctx \<Rightarrow> bytes \<Rightarrow> 'a word md_ctx" where
  "md_update blk msk compress ctx input =
     (if input = [] then ctx
      else
        let left = unat (md_total0 ctx AND msk);
            fill = blk - left;
            t0 = md_total0 ctx + of_nat (length input);
            t1 = (if t0 < of_nat (length input) then md_total1 ctx + 1 else md_total1 ctx);
            (st, buf, inp, lft) =
              (if left \<noteq> 0 \<and> length input \<ge> fill
               then let b = put_at left (take fill input) (md_buffer ctx)
                    in (compress (md_state ctx) b, b, drop fill input, 0)
               else (md_state ctx, md_buffer ctx, input, left));
            (st', rest) = md_blocks blk compress st inp
        in \<lparr>md_total0 = t0, md_total1 = t1, md_state = st',
            md_buffer = (if rest \<noteq> [] then put_at lft rest buf else buf)\<rparr>)"

subsection \<open>Finish\<close>

definition md_finish :: "nat \<Rightarrow> 'a word \<Rightarrow> nat \<Rightarrow> ('a word list \<Rightarrow> bytes \<Rightarrow> 'a word list) \<Rightarrow> 'a::len word md_ctx \<Rightarrow> 'a word md_ctx" where
  "md_finish blk msk wb compress ctx =
     (let used = unat (md_total0 ctx AND msk);
          buf1 = put_at used [0x80] (md_buffer ctx);
          used1 = used + 1;
          (st, buf2) =
            (if used1 \<le> blk - 2 * wb
             then (md_state ctx, put_at used1 (replicate (blk - 2 * wb - used1) 0) buf1)
             else (compress (md_state ctx) (put_at used1 (replicate (blk - used1) 0) buf1),
                   put_at 0 (replicate (blk - 2 * wb) 0) (put_at used1 (replicate (blk - used1) 0) buf1)));
          high = drop_bit (8 * wb - 3) (md_total0 ctx) OR push_bit 3 (md_total1 ctx);
          low = push_bit 3 (md_total0 ctx);
          buf3 = put_at (blk - wb) (be_encode wb low) (put_at (blk - 2 * wb) (be_encode wb high) buf2)
      in ctx\<lparr>md_state := compress st buf3, md_buffer := buf3\<rparr>)"

subsection \<open>The hash these functions are to compute\<close>

fun blocks_of :: "nat \<Rightarrow> nat \<Rightarrow> bytes \<Rightarrow> bytes list" where
  "blocks_of blk 0 m = []"
| "blocks_of blk (Suc n) m = take blk m # blocks_of blk n (drop blk m)"

text \<open>The padded message: a one bit, zeroes to the end of a block less two words, the bit length.\<close>

definition md_length_field :: "nat \<Rightarrow> nat \<Rightarrow> 'a::len itself \<Rightarrow> bytes" where
  "md_length_field wb n ty =
     be_encode wb (of_nat (8 * n div 2 ^ (8 * wb)) :: 'a word) @ be_encode wb (of_nat (8 * n) :: 'a word)"

definition md_zeroes :: "nat \<Rightarrow> nat \<Rightarrow> nat \<Rightarrow> nat" where
  "md_zeroes blk wb n =
     (if n mod blk + 1 \<le> blk - 2 * wb then blk - 2 * wb - (n mod blk + 1)
      else 2 * blk - 2 * wb - (n mod blk + 1))"

definition md_pad :: "nat \<Rightarrow> nat \<Rightarrow> bytes \<Rightarrow> 'a::len itself \<Rightarrow> bytes" where
  "md_pad blk wb m ty =
     m @ 0x80 # replicate (md_zeroes blk wb (length m)) 0 @ md_length_field wb (length m) ty"

definition md_hash :: "nat \<Rightarrow> nat \<Rightarrow> ('a::len word list \<Rightarrow> bytes \<Rightarrow> 'a word list) \<Rightarrow> 'a word list \<Rightarrow> bytes \<Rightarrow> 'a word list" where
  "md_hash blk wb compress iv m =
     (let p = md_pad blk wb m TYPE('a) in foldl compress iv (blocks_of blk (length p div blk) p))"

end
