(* ===== verification/MdHashCorrect.thy ===== *)
theory MdHashCorrect
  imports MdHash
begin

section \<open>Update and finish compute the hash of the concatenation\<close>

text \<open>
  The interface \<open>md_params\<close> fixes what the three hashes supply; inside it, \<open>fed ctx m\<close> says
  that a context has been fed exactly the bytes \<open>m\<close>. Update extends it and finish reads it out.
\<close>

subsection \<open>Blocks\<close>

lemma blocks_of_append:
  "length a = blk * n \<Longrightarrow> blocks_of blk (n + k) (a @ b) = blocks_of blk n a @ blocks_of blk k b"
  by (induction n arbitrary: a) (auto simp: min_def)

lemma blocks_of_prefix: "blk * n \<le> length a \<Longrightarrow> blocks_of blk n (a @ b) = blocks_of blk n a"
  by (induction n arbitrary: a) auto

lemma two_blocks: "length x = blk \<Longrightarrow> length y = blk \<Longrightarrow> blocks_of blk 2 (x @ y) = [x, y]"
  by (simp add: numeral_2_eq_2)

lemma md_blocks_eq:
  assumes "0 < blk"
  shows "md_blocks blk f st input =
    (foldl f st (blocks_of blk (length input div blk) input), drop (blk * (length input div blk)) input)"
proof (induction "length input" arbitrary: st input rule: less_induct)
  case less
  show ?case
  proof (cases "length input \<ge> blk")
    case False
    then show ?thesis by (simp add: md_blocks.simps [of blk f st input])
  next
    case True
    then have d: "length input div blk = Suc (length (drop blk input) div blk)"
      using assms by (simp add: le_div_geq)
    have "md_blocks blk f st input = md_blocks blk f (f st (take blk input)) (drop blk input)"
      using True assms by (simp add: md_blocks.simps [of blk f st input])
    also have "\<dots> = (foldl f (f st (take blk input)) (blocks_of blk (length (drop blk input) div blk) (drop blk input)),
        drop (blk * (length (drop blk input) div blk)) (drop blk input))"
      using True assms by (intro less) simp
    finally show ?thesis unfolding d by (simp add: add.commute)
  qed
qed

subsection \<open>Correctness of update and finish\<close>

locale md_params =
  fixes blk wb :: nat and msk :: "'a::len word"
    and compress :: "'a word list \<Rightarrow> bytes \<Rightarrow> 'a word list" and iv :: "'a word list"
  assumes mask: "unat (t AND msk) = unat t mod blk"
    and blk_dvd: "blk dvd 2 ^ LENGTH('a)"
    and word_bytes: "8 * wb = LENGTH('a)"
    and room: "2 * wb + 1 \<le> blk"
begin

definition fed :: "'a word md_ctx \<Rightarrow> bytes \<Rightarrow> bool" where
  "fed ctx m \<longleftrightarrow>
     length (md_buffer ctx) = blk \<and>
     md_state ctx = foldl compress iv (blocks_of blk (length m div blk) m) \<and>
     take (length m mod blk) (md_buffer ctx) = drop (blk * (length m div blk)) m \<and>
     unat (md_total0 ctx) = length m mod 2 ^ LENGTH('a) \<and>
     unat (md_total1 ctx) = length m div 2 ^ LENGTH('a) mod 2 ^ LENGTH('a)"

lemma blk_pos: "0 < blk"
  using room by simp

lemma left_eq: "fed ctx m \<Longrightarrow> unat (md_total0 ctx AND msk) = length m mod blk"
  using blk_dvd by (simp add: fed_def mask mod_mod_cancel)

lemma total_step:
  assumes t0: "unat (t0 :: 'a word) = n mod 2 ^ LENGTH('a)"
    and t1: "unat (t1 :: 'a word) = n div 2 ^ LENGTH('a) mod 2 ^ LENGTH('a)"
    and k: "k < 2 ^ LENGTH('a)"
  shows "unat (t0 + of_nat k) = (n + k) mod 2 ^ LENGTH('a)"
    and "unat (if t0 + of_nat k < of_nat k then t1 + 1 else t1) = (n + k) div 2 ^ LENGTH('a) mod 2 ^ LENGTH('a)"
proof -
  let ?M = "2 ^ LENGTH('a) :: nat"
  have uk: "unat (of_nat k :: 'a word) = k" using k by (simp add: unat_of_nat)
  show s: "unat (t0 + of_nat k) = (n + k) mod ?M"
    by (simp add: unat_word_ariths uk t0 mod_add_left_eq)
  define q where "q = n div ?M"
  define r where "r = n mod ?M"
  have n: "n = q * ?M + r" "r < ?M" by (simp_all only: q_def r_def div_mult_mod_eq) simp
  have lt: "t0 + of_nat k < of_nat k \<longleftrightarrow> (n + k) mod ?M < k"
    by (simp add: word_less_nat_alt s uk)
  have nk: "n + k = (r + k) + q * ?M" using n by simp
  have m: "(n + k) mod ?M = (r + k) mod ?M" unfolding nk by simp
  have d: "(n + k) div ?M = q + (r + k) div ?M" unfolding nk by simp
  have c: "(r + k) div ?M = (if (r + k) mod ?M < k then 1 else 0)"
  proof (cases "r + k < ?M")
    case True
    then show ?thesis by simp
  next
    case False
    then have "(r + k) mod ?M = r + k - ?M" "(r + k) div ?M = 1"
      using n k by (simp_all add: le_mod_geq le_div_geq)
    moreover have "r + k - ?M < k" using n(2) False by linarith
    ultimately show ?thesis by simp
  qed
  have "unat t1 = q mod ?M" using t1 by (simp add: q_def)
  then show "unat (if t0 + of_nat k < of_nat k then t1 + 1 else t1) = (n + k) div ?M mod ?M"
    unfolding lt m d c by (simp add: unat_word_ariths mod_Suc_eq)
qed

lemma fedI:
  assumes "length buf = blk" and "length m div blk = q" and "length m mod blk = l"
    and "st = foldl compress iv (blocks_of blk q m)" and "take l buf = drop (blk * q) m"
    and "length m = n" and "unat t0 = n mod 2 ^ LENGTH('a)"
    and "unat t1 = n div 2 ^ LENGTH('a) mod 2 ^ LENGTH('a)"
  shows "fed \<lparr>md_total0 = t0, md_total1 = t1, md_state = st, md_buffer = buf\<rparr> m"
  using assms by (auto simp: fed_def)

lemma fed_update:
  assumes f: "fed ctx m" and l: "length input < 2 ^ LENGTH('a)"
  shows "fed (md_update blk msk compress ctx input) (m @ input)"
proof (cases "input = []")
  case True
  then show ?thesis using f by (simp add: md_update_def)
next
  case False
  define k where "k = length m div blk"
  define left where "left = length m mod blk"
  define a where "a = take (blk * k) m"
  define r where "r = drop (blk * k) m"
  have m: "m = a @ r" by (simp add: a_def r_def)
  have la: "length a = blk * k" by (simp add: a_def k_def)
  have lr: "length r = left" "left < blk"
    using blk_pos by (simp_all add: r_def k_def left_def minus_mult_div_eq_mod)
  have buf: "length (md_buffer ctx) = blk" "take left (md_buffer ctx) = r"
    and st: "md_state ctx = foldl compress iv (blocks_of blk k m)"
    using f by (simp_all add: fed_def k_def left_def r_def)
  have st': "md_state ctx = foldl compress iv (blocks_of blk k a)"
    using st blocks_of_prefix [of blk k a r] la by (simp add: m)
  have tots: "unat (md_total0 ctx + of_nat (length input)) = (length m + length input) mod 2 ^ LENGTH('a)"
    "unat (if md_total0 ctx + of_nat (length input) < of_nat (length input) then md_total1 ctx + 1 else md_total1 ctx)
      = (length m + length input) div 2 ^ LENGTH('a) mod 2 ^ LENGTH('a)"
    using f l total_step [of "md_total0 ctx" "length m" "md_total1 ctx" "length input"] by (simp_all add: fed_def)
  show ?thesis
  proof (cases "left \<noteq> 0 \<and> blk - left \<le> length input")
    case True
    define i1 where "i1 = take (blk - left) input"
    define i2 where "i2 = drop (blk - left) input"
    have i: "input = i1 @ i2" by (simp add: i1_def i2_def)
    have b: "put_at left i1 (md_buffer ctx) = r @ i1"
      using buf True lr by (simp add: put_at_def i1_def)
    have len1: "length (r @ i1) = blk" using True lr by (simp add: i1_def)
    let ?j = "length i2 div blk"
    have all: "m @ input = (a @ (r @ i1)) @ i2" by (simp add: m i)
    have n: "length (m @ input) = blk * Suc k + length i2" using la len1 by (simp add: m i)
    have dv: "length (m @ input) div blk = Suc k + ?j"
      unfolding n using blk_pos by (intro div_mult_self4) simp
    have md: "length (m @ input) mod blk = length i2 mod blk"
      unfolding n by (rule mod_mult_self4)
    have bl: "blocks_of blk (Suc k + ?j) (m @ input) = blocks_of blk k a @ [r @ i1] @ blocks_of blk ?j i2"
    proof -
      have "blocks_of blk (Suc k) (a @ (r @ i1)) = blocks_of blk k a @ [r @ i1]"
        using blocks_of_append [of a blk k 1 "r @ i1"] la len1 by simp
      then show ?thesis
        unfolding all using blocks_of_append [of "a @ (r @ i1)" blk "Suc k" ?j i2] la len1 by simp
    qed
    define buf' where "buf' = (if drop (blk * ?j) i2 \<noteq> [] then put_at 0 (drop (blk * ?j) i2) (r @ i1) else r @ i1)"
    have e: "md_update blk msk compress ctx input =
        \<lparr>md_total0 = md_total0 ctx + of_nat (length input),
         md_total1 = (if md_total0 ctx + of_nat (length input) < of_nat (length input) then md_total1 ctx + 1 else md_total1 ctx),
         md_state = foldl compress (compress (md_state ctx) (r @ i1)) (blocks_of blk ?j i2), md_buffer = buf'\<rparr>"
      using True False left_eq [OF f] b
      by (simp add: md_update_def Let_def left_def [symmetric] i1_def [symmetric] i2_def [symmetric]
          md_blocks_eq [OF blk_pos] buf'_def)
    have rest: "length (drop (blk * ?j) i2) = length i2 mod blk" by (simp add: minus_mult_div_eq_mod)
    have "length buf' = blk"
      using len1 rest mod_less_divisor [OF blk_pos, of "length i2"] by (simp add: buf'_def length_put_at)
    moreover have "take (length i2 mod blk) buf' = drop (blk * ?j) i2"
      using rest by (auto simp: buf'_def put_at_def)
    moreover have "drop (blk * (Suc k + ?j)) (m @ input) = drop (blk * ?j) i2"
    proof -
      have "blk * (Suc k + ?j) = length (a @ (r @ i1)) + blk * ?j" using la len1 by (simp add: algebra_simps)
      then show ?thesis unfolding all by simp
    qed
    ultimately show ?thesis
      unfolding e by (intro fedI [OF _ dv md, where n = "length m + length input"]) (simp_all only: bl st' foldl_append foldl.simps length_append tots)
  next
    case nfill: False
    show ?thesis
    proof (cases "left = 0")
      case True
      let ?j = "length input div blk"
      have r0: "r = []" using lr True by simp
      have n: "length (m @ input) = blk * k + length input" using la by (simp add: m r0)
      have dv: "length (m @ input) div blk = k + ?j" unfolding n using blk_pos by simp
      have md: "length (m @ input) mod blk = length input mod blk" unfolding n by simp
      have bl: "blocks_of blk (k + ?j) (m @ input) = blocks_of blk k a @ blocks_of blk ?j input"
        using blocks_of_append [OF la, of ?j input] by (simp add: m r0)
      define buf' where "buf' = (if drop (blk * ?j) input \<noteq> [] then put_at 0 (drop (blk * ?j) input) (md_buffer ctx) else md_buffer ctx)"
      have e: "md_update blk msk compress ctx input =
          \<lparr>md_total0 = md_total0 ctx + of_nat (length input),
           md_total1 = (if md_total0 ctx + of_nat (length input) < of_nat (length input) then md_total1 ctx + 1 else md_total1 ctx),
           md_state = foldl compress (md_state ctx) (blocks_of blk ?j input), md_buffer = buf'\<rparr>"
        using True False left_eq [OF f]
        by (simp add: md_update_def Let_def left_def [symmetric] md_blocks_eq [OF blk_pos] buf'_def)
      have rest: "length (drop (blk * ?j) input) = length input mod blk" by (simp add: minus_mult_div_eq_mod)
      have "length buf' = blk"
        using buf rest mod_less_divisor [OF blk_pos, of "length input"] by (simp add: buf'_def length_put_at)
      moreover have "take (length input mod blk) buf' = drop (blk * ?j) input"
        using rest by (auto simp: buf'_def put_at_def)
      moreover have "drop (blk * (k + ?j)) (m @ input) = drop (blk * ?j) input"
      proof -
        have "blk * (k + ?j) = length a + blk * ?j" using la by (simp add: algebra_simps)
        then show ?thesis by (simp add: m r0)
      qed
      ultimately show ?thesis
        unfolding e by (intro fedI [OF _ dv md, where n = "length m + length input"]) (simp_all only: bl st' foldl_append length_append tots)
    next
      case ne: False
      with nfill have small: "length input < blk - left" by simp
      have n: "length (m @ input) = blk * k + (left + length input)" using la lr by (simp add: m)
      have dv: "length (m @ input) div blk = k" unfolding n using blk_pos small by simp
      have md: "length (m @ input) mod blk = left + length input" unfolding n using small by simp
      have bl: "blocks_of blk k (m @ input) = blocks_of blk k a"
        using blocks_of_prefix [of blk k a "r @ input"] la by (simp add: m)
      have e: "md_update blk msk compress ctx input =
          \<lparr>md_total0 = md_total0 ctx + of_nat (length input),
           md_total1 = (if md_total0 ctx + of_nat (length input) < of_nat (length input) then md_total1 ctx + 1 else md_total1 ctx),
           md_state = md_state ctx, md_buffer = put_at left input (md_buffer ctx)\<rparr>"
        using ne small False left_eq [OF f]
        by (simp add: md_update_def Let_def left_def [symmetric] md_blocks_eq [OF blk_pos])
      have "length (put_at left input (md_buffer ctx)) = blk"
        using buf small by (simp add: length_put_at)
      moreover have "take (left + length input) (put_at left input (md_buffer ctx)) = r @ input"
        using buf lr take_put_at [of left "md_buffer ctx" input] by simp
      moreover have "drop (blk * k) (m @ input) = r @ input" using la by (simp add: m)
      ultimately show ?thesis
        unfolding e by (intro fedI [OF _ dv md, where n = "length m + length input"]) (simp_all only: bl st' foldl_append length_append tots)
    qed
  qed
qed

lemma fed_start: "length buf = blk \<Longrightarrow> fed \<lparr>md_total0 = 0, md_total1 = 0, md_state = iv, md_buffer = buf\<rparr> []"
  by (simp add: fed_def)

lemma length_bits:
  assumes "unat (t0 :: 'a word) = n mod 2 ^ LENGTH('a)"
    and "unat (t1 :: 'a word) = n div 2 ^ LENGTH('a) mod 2 ^ LENGTH('a)"
  shows "drop_bit (8 * wb - 3) t0 OR push_bit 3 t1 = of_nat (8 * n div 2 ^ (8 * wb))"
    and "push_bit 3 t0 = of_nat (8 * n)"
proof -
  have w3: "3 \<le> LENGTH('a)" using word_bytes by (cases wb) auto
  have t0: "t0 = of_nat n" using assms(1) by (simp add: word_unat_eq_iff unat_of_nat take_bit_eq_mod)
  have t1: "t1 = of_nat (n div 2 ^ LENGTH('a))"
    using assms(2) by (simp add: word_unat_eq_iff unat_of_nat take_bit_eq_mod)
  show "push_bit 3 t0 = of_nat (8 * n)" by (simp add: t0 push_bit_eq_mult)
  have dj: "drop_bit (8 * wb - 3) t0 AND push_bit 3 t1 = 0"
  proof (rule bit_word_eqI)
    fix n assume "n < LENGTH('a)"
    show "bit (drop_bit (8 * wb - 3) t0 AND push_bit 3 t1) n = bit (0 :: 'a word) n"
      using word_bytes bit_imp_le_length [of t0 "8 * wb - 3 + n"]
      by (auto simp: bit_and_iff bit_drop_bit_eq bit_push_bit_iff)
  qed
  have "drop_bit (8 * wb - 3) t0 OR push_bit 3 t1 = drop_bit (8 * wb - 3) t0 + push_bit 3 t1"
    using disjunctive_add_eq_or [OF dj] by simp
  also have "\<dots> = of_nat (8 * n div 2 ^ (8 * wb))"
  proof -
    let ?M = "2 ^ LENGTH('a) :: nat"
    have M: "?M = 8 * 2 ^ (LENGTH('a) - 3)" 
    proof -
      have "?M = 2 ^ (3 + (LENGTH('a) - 3))" using w3 by simp
      then show ?thesis unfolding power_add by simp
    qed
    have "unat (drop_bit (LENGTH('a) - 3) t0) = n mod ?M div 2 ^ (LENGTH('a) - 3)"
      by (simp only: unat_drop_bit_eq assms(1)) (simp only: drop_bit_eq_div)
    then have d: "drop_bit (LENGTH('a) - 3) t0 = of_nat (n mod ?M div 2 ^ (LENGTH('a) - 3))"
      by (metis of_nat_unat ucast_id)
    have "8 * n div ?M = 8 * (n div ?M) + n mod ?M div 2 ^ (LENGTH('a) - 3)"
    proof -
      have "8 * n = 8 * (n div ?M) * ?M + 8 * (n mod ?M)" by (metis div_mult_mod_eq distrib_left mult.assoc)
      then have "8 * n div ?M = 8 * (n div ?M) + 8 * (n mod ?M) div ?M" by simp
      also have "8 * (n mod ?M) div ?M = n mod ?M div 2 ^ (LENGTH('a) - 3)"
        by (subst (2) M) simp
      finally show ?thesis .
    qed
    then show ?thesis unfolding word_bytes d t1 by (simp add: push_bit_eq_mult)
  qed
  finally show "drop_bit (8 * wb - 3) t0 OR push_bit 3 t1 = of_nat (8 * n div 2 ^ (8 * wb))" .
qed

lemma put_at_0: "length src = n \<Longrightarrow> put_at 0 src buf = src @ drop n buf"
  by (simp add: put_at_def)

lemma put_at_end: "length pre = pos \<Longrightarrow> put_at pos src (pre @ post) = pre @ src @ drop (length src) post"
  by (simp add: put_at_def)

lemma fed_finish:
  assumes f: "fed ctx m"
  shows "md_state (md_finish blk msk wb compress ctx) = md_hash blk wb compress iv m"
proof -
  define k where "k = length m div blk"
  define left where "left = length m mod blk"
  define a where "a = take (blk * k) m"
  define r where "r = drop (blk * k) m"
  define b where "b = drop left (md_buffer ctx)"
  have m: "m = a @ r" by (simp add: a_def r_def)
  have la: "length a = blk * k" by (simp add: a_def k_def)
  have lr: "length r = left" "left < blk"
    using blk_pos by (simp_all add: r_def k_def left_def minus_mult_div_eq_mod)
  have buf: "md_buffer ctx = r @ b" "length b = blk - left"
    using f by (auto simp: fed_def left_def r_def k_def b_def) (metis append_take_drop_id)
  have "md_state ctx = foldl compress iv (blocks_of blk k m)" using f by (simp add: fed_def k_def)
  then have st: "md_state ctx = foldl compress iv (blocks_of blk k a)"
    using blocks_of_prefix [of blk k a r] la by (simp add: m)
  define fld where "fld = md_length_field wb (length m) TYPE('a)"
  have fld: "be_encode wb (drop_bit (8 * wb - 3) (md_total0 ctx) OR push_bit 3 (md_total1 ctx))
      @ be_encode wb (push_bit 3 (md_total0 ctx)) = fld"
    using f length_bits [of "md_total0 ctx" "length m" "md_total1 ctx"]
    by (simp add: fed_def fld_def md_length_field_def)
  have lf: "length fld = 2 * wb" by (simp add: fld_def md_length_field_def)
  define z where "z = md_zeroes blk wb (length m)"
  let ?tail = "r @ 0x80 # replicate z 0 @ fld"
  have pad: "md_pad blk wb m TYPE('a) = a @ ?tail" by (simp add: md_pad_def fld_def z_def m)
  have used: "unat (md_total0 ctx AND msk) = left" using left_eq [OF f] by (simp add: left_def)
  have b1: "put_at left [0x80] (md_buffer ctx) = (r @ [0x80]) @ drop 1 b"
    using lr buf(1) by (simp add: put_at_end)
  have fields: "put_at (blk - wb) (be_encode wb lo) (put_at (blk - 2 * wb) (be_encode wb hi) (pre @ post))
      = pre @ be_encode wb hi @ be_encode wb lo"
    if "length pre = blk - 2 * wb" "length post = 2 * wb" for pre post and lo hi :: "'a word"
  proof -
    have "put_at (blk - 2 * wb) (be_encode wb hi) (pre @ post) = (pre @ be_encode wb hi) @ drop wb post"
      using that by (simp add: put_at_end)
    moreover have "put_at (blk - wb) (be_encode wb lo) ((pre @ be_encode wb hi) @ drop wb post)
        = (pre @ be_encode wb hi) @ be_encode wb lo @ drop (length (be_encode wb lo)) (drop wb post)"
      using that room by (intro put_at_end) simp
    ultimately show ?thesis using that by simp
  qed
  show ?thesis
  proof (cases "left + 1 \<le> blk - 2 * wb")
    case True
    have z: "z = blk - 2 * wb - (left + 1)" using True by (simp add: z_def md_zeroes_def left_def)
    have lt: "length ?tail = blk"
      unfolding length_append length_Cons length_replicate lr lf using z True room by linarith
    have hash: "md_hash blk wb compress iv m = compress (md_state ctx) ?tail"
    proof -
      have "length (a @ ?tail) = blk * k + 1 * blk" using length_append [of a ?tail] unfolding la lt by simp
      then have "length (a @ ?tail) div blk = k + 1" using blk_pos by simp
      moreover have "blocks_of blk 1 ?tail = [?tail]" by (simp only: One_nat_def blocks_of.simps lt [symmetric] take_all le_refl)
      ultimately show ?thesis
        unfolding md_hash_def Let_def pad st by (simp only: blocks_of_append [OF la] foldl_append foldl.simps)
    qed
    have b2: "put_at (left + 1) (replicate z 0) ((r @ [0x80]) @ drop 1 b) = (r @ [0x80] @ replicate z 0) @ drop (1 + z) b"
      using lr put_at_end [of "r @ [0x80]" "left + 1" "replicate z 0" "drop 1 b"] by (simp add: add.commute)
    show ?thesis
      unfolding hash md_finish_def Let_def used b1 b2
      using True fields [of "r @ [0x80] @ replicate z 0" "drop (1 + z) b"] lr buf(2) z fld b2 room
      by (simp add: Let_def)
  next
    case False
    have z: "z = 2 * blk - 2 * wb - (left + 1)" using False by (simp add: z_def md_zeroes_def left_def)
    define z1 where "z1 = blk - (left + 1)"
    define z2 where "z2 = blk - 2 * wb"
    have zz: "z = z1 + z2" using z lr room by (simp add: z1_def z2_def)
    have tail: "?tail = (r @ 0x80 # replicate z1 0) @ (replicate z2 0 @ fld)" by (simp add: zz replicate_add)
    have l1: "length (r @ 0x80 # replicate z1 0) = blk" using lr by (simp add: z1_def)
    have l2: "length (replicate z2 0 @ fld) = blk" using lf room by (simp add: z2_def)
    have hash: "md_hash blk wb compress iv m =
        compress (compress (md_state ctx) (r @ 0x80 # replicate z1 0)) (replicate z2 0 @ fld)"
    proof -
      have "length (a @ ?tail) = blk * k + 2 * blk" using la l1 l2 by (simp only: tail length_append)
      then have "length (a @ ?tail) div blk = k + 2" using blk_pos by simp
      moreover have "blocks_of blk 2 ?tail = [r @ 0x80 # replicate z1 0, replicate z2 0 @ fld]"
        unfolding tail by (rule two_blocks [OF l1 l2])
      ultimately show ?thesis
        unfolding md_hash_def Let_def pad st by (simp only: blocks_of_append [OF la] foldl_append foldl.simps)
    qed
    have b2: "put_at (left + 1) (replicate z1 0) ((r @ [0x80]) @ drop 1 b) = r @ 0x80 # replicate z1 0"
      using lr buf(2) put_at_end [of "r @ [0x80]" "left + 1" "replicate z1 0" "drop 1 b"] by (simp add: z1_def)
    have b3: "put_at 0 (replicate z2 0) (r @ 0x80 # replicate z1 0) = replicate z2 0 @ drop z2 (r @ 0x80 # replicate z1 0)"
      by (simp add: put_at_0)
    have "length (drop z2 (r @ 0x80 # replicate z1 0)) = 2 * wb" using l1 room by (simp add: z2_def)
    then show ?thesis
      unfolding hash md_finish_def Let_def used b1 z1_def [symmetric] z2_def [symmetric] b2 b3
      using False fields [of "replicate z2 0" "drop z2 (r @ 0x80 # replicate z1 0)"] fld
      by (simp add: z2_def [symmetric])
  qed
qed

lemma fed_updates:
  "fed ctx m \<Longrightarrow> \<forall>p \<in> set ps. length p < 2 ^ LENGTH('a) \<Longrightarrow>
   fed (foldl (md_update blk msk compress) ctx ps) (m @ concat ps)"
proof (induction ps arbitrary: ctx m)
  case (Cons p ps)
  then show ?case using Cons.IH [of "md_update blk msk compress ctx p" "m @ p"] by (simp add: fed_update)
qed simp

text \<open>A finished context keeps a buffer of the block size: it can be started again.\<close>

lemma finish_buffer:
  assumes f: "fed ctx m"
  shows "length (md_buffer (md_finish blk msk wb compress ctx)) = blk"
proof -
  define used where "used = unat (md_total0 ctx AND msk)"
  have "used < blk" using left_eq [OF f] blk_pos by (simp add: used_def)
  moreover have "length (md_buffer ctx) = blk" using f by (simp add: fed_def)
  ultimately show ?thesis
    unfolding md_finish_def used_def [symmetric] Let_def using room
    by (auto simp: length_put_at split: prod.splits if_splits)
qed

lemma updates_buffer:
  assumes "length buf = blk" and "\<forall>p \<in> set ps. length p < 2 ^ LENGTH('a)"
  shows "length (md_buffer (md_finish blk msk wb compress
      (foldl (md_update blk msk compress) \<lparr>md_total0 = 0, md_total1 = 0, md_state = iv, md_buffer = buf\<rparr> ps))) = blk"
  using finish_buffer [OF fed_updates [OF fed_start [OF assms(1)] assms(2)]] .

text \<open>Pieces in, hash of the whole out.\<close>

lemma updates_finish:
  assumes "length buf = blk" and "\<forall>p \<in> set ps. length p < 2 ^ LENGTH('a)"
  shows "md_state (md_finish blk msk wb compress
      (foldl (md_update blk msk compress) \<lparr>md_total0 = 0, md_total1 = 0, md_state = iv, md_buffer = buf\<rparr> ps))
    = md_hash blk wb compress iv (concat ps)"
  using fed_finish [OF fed_updates [OF fed_start [OF assms(1)] assms(2)]] by simp

end

subsection \<open>Shifts, masks and digests\<close>

lemma rotl_shifts:
  assumes "n < LENGTH('a)"
  shows "push_bit n x OR drop_bit (LENGTH('a) - n) x = word_rotl n (x :: 'a::len word)"
proof (rule bit_word_eqI)
  fix k assume k: "k < LENGTH('a)"
  have e: "bit (word_rotl n x) k = bit x ((k + (LENGTH('a) - n)) mod LENGTH('a))"
    using k assms by (simp add: bit_word_rotl_iff)
  have "bit (push_bit n x OR drop_bit (LENGTH('a) - n) x) k = (n \<le> k \<and> bit x (k - n) \<or> bit x (LENGTH('a) - n + k))"
    using k by (simp add: bit_or_iff bit_push_bit_iff bit_drop_bit_eq)
  also have "\<dots> = bit x ((k + (LENGTH('a) - n)) mod LENGTH('a))"
  proof (cases "n \<le> k")
    case True
    then have i: "k + (LENGTH('a) - n) = LENGTH('a) + (k - n)" using assms by simp
    have "\<not> bit x (LENGTH('a) - n + k)" using i bit_imp_le_length [of x "LENGTH('a) - n + k"] by (auto simp: add.commute)
    moreover have "(k + (LENGTH('a) - n)) mod LENGTH('a) = k - n" unfolding i using k by simp
    ultimately show ?thesis using True by simp
  next
    case False
    then show ?thesis using k assms by (simp add: add.commute)
  qed
  finally show "bit (push_bit n x OR drop_bit (LENGTH('a) - n) x) k = bit (word_rotl n x) k"
    unfolding e .
qed

lemma rotr_shifts:
  assumes "0 < n" and "n < LENGTH('a)"
  shows "drop_bit n x OR push_bit (LENGTH('a) - n) x = word_rotr n (x :: 'a::len word)"
  using rotl_shifts [of "LENGTH('a) - n" x] assms by (simp add: word_rotl_eq_word_rotr or.commute)

lemma and_mask_mod:
  "k \<le> LENGTH('a::len) \<Longrightarrow> unat (t AND mask k :: 'a word) = unat t mod 2 ^ k"
  by (simp only: take_bit_eq_mask [symmetric] unsigned_take_bit_eq) (simp only: take_bit_eq_mod)

lemma length_concat_be: "length (concat (map (be_encode n) ws)) = n * length ws"
  by (induction ws) auto

end
