(* ===== verification/Sha1.thy ===== *)
theory Sha1
  imports MdHashCorrect
begin

section \<open>SHA-1: libkg/mbedtls/library/sha1.c\<close>

text \<open>
  The block function is written as the code has it: five locals whose roles rotate from one
  of the eighty unrolled calls of the macro \<open>P\<close> to the next, and a ring of sixteen words that
  the macro \<open>R\<close> extends in place. It is proved equal to the standard's form (a schedule of
  eighty words, registers that shift), and the context functions are instances of the
  common ones, so a digest fed in pieces is the standard's hash of the whole message.
\<close>

type_synonym sha1_context = "i32 md_ctx"

definition sha1_init :: sha1_context where
  "sha1_init = \<lparr>md_total0 = 0, md_total1 = 0, md_state = replicate 5 0, md_buffer = replicate 64 0\<rparr>"

definition SHA1_IV :: "i32 list" where
  "SHA1_IV = [0x67452301, 0xEFCDAB89, 0x98BADCFE, 0x10325476, 0xC3D2E1F0]"

definition sha1_starts :: "sha1_context \<Rightarrow> sha1_context" where
  "sha1_starts ctx = ctx\<lparr>md_total0 := 0, md_total1 := 0, md_state := SHA1_IV\<rparr>"

subsection \<open>The block function\<close>

definition sha1_S :: "i32 \<Rightarrow> nat \<Rightarrow> i32" where
  "sha1_S x n = push_bit n x OR drop_bit (32 - n) (x AND 0xFFFFFFFF)"

definition sha1_load :: "bytes \<Rightarrow> i32 list" where
  "sha1_load block = map (\<lambda>i. be_decode (take 4 (drop (4 * i) block))) [0..<16]"

text \<open>\<open>R(t)\<close>: the new word replaces the one sixteen places back.\<close>

definition sha1_R :: "nat \<Rightarrow> i32 list \<Rightarrow> i32 list" where
  "sha1_R t W = W[t mod 16 := sha1_S (W ! ((t - 3) mod 16) XOR W ! ((t - 8) mod 16)
      XOR W ! ((t - 14) mod 16) XOR W ! (t mod 16)) 1]"

definition sha1_F :: "nat \<Rightarrow> i32 \<Rightarrow> i32 \<Rightarrow> i32 \<Rightarrow> i32" where
  "sha1_F t x y z =
     (if t < 20 then z XOR (x AND (y XOR z))
      else if t < 40 then x XOR y XOR z
      else if t < 60 then (x AND y) OR (z AND (x OR y))
      else x XOR y XOR z)"

definition sha1_K :: "nat \<Rightarrow> i32" where
  "sha1_K t = (if t < 20 then 0x5A827999 else if t < 40 then 0x6ED9EBA1
     else if t < 60 then 0x8F1BBCDC else 0xCA62C1D6)"

text \<open>
  \<open>P(a, b, c, d, e, x)\<close>. The call of round \<open>t\<close> passes the locals \<open>A..E\<close> rotated right \<open>t\<close>
  times: its \<open>i\<close>-th argument is the local number \<open>(i + 80 - t) mod 5\<close>.
\<close>

definition sha1_P :: "nat \<Rightarrow> i32 \<Rightarrow> i32 list \<Rightarrow> i32 list" where
  "sha1_P t x v =
     (let a = (80 - t) mod 5; b = (81 - t) mod 5; c = (82 - t) mod 5; d = (83 - t) mod 5; e = (84 - t) mod 5;
          v1 = v[e := v ! e + (sha1_S (v ! a) 5 + sha1_F t (v ! b) (v ! c) (v ! d) + sha1_K t + x)]
      in v1[b := sha1_S (v1 ! b) 30])"

definition sha1_round :: "i32 list \<times> i32 list \<Rightarrow> nat \<Rightarrow> i32 list \<times> i32 list" where
  "sha1_round = (\<lambda>(v, W) t.
     let W' = (if t < 16 then W else sha1_R t W) in (sha1_P t (W' ! (t mod 16)) v, W'))"

definition sha1_process :: "i32 list \<Rightarrow> bytes \<Rightarrow> i32 list" where
  "sha1_process st block =
     (let (v, W) = foldl sha1_round (st, sha1_load block) [0..<80] in map2 (+) st v)"

subsection \<open>Context functions\<close>

definition sha1_update :: "sha1_context \<Rightarrow> bytes \<Rightarrow> sha1_context" where
  "sha1_update = md_update 64 0x3F sha1_process"

definition sha1_finish :: "sha1_context \<Rightarrow> sha1_context \<times> bytes" where
  "sha1_finish ctx = (let c = md_finish 64 0x3F 4 sha1_process ctx in (c, concat (map (be_encode 4) (md_state c))))"

definition mbedtls_sha1 :: "bytes \<Rightarrow> bytes" where
  "mbedtls_sha1 input = snd (sha1_finish (sha1_update (sha1_starts sha1_init) input))"

subsection \<open>The standard's block function\<close>

fun fips_sha1_w :: "bytes \<Rightarrow> nat \<Rightarrow> i32" where
  "fips_sha1_w block t =
     (if t < 16 then be_decode (take 4 (drop (4 * t) block))
      else word_rotl 1 (fips_sha1_w block (t - 3) XOR fips_sha1_w block (t - 8)
        XOR fips_sha1_w block (t - 14) XOR fips_sha1_w block (t - 16)))"

declare fips_sha1_w.simps [simp del]

definition fips_sha1_f :: "nat \<Rightarrow> i32 \<Rightarrow> i32 \<Rightarrow> i32 \<Rightarrow> i32" where
  "fips_sha1_f t b c d =
     (if t < 20 then (b AND c) OR (NOT b AND d)
      else if 40 \<le> t \<and> t < 60 then (b AND c) OR (b AND d) OR (c AND d)
      else b XOR c XOR d)"

type_synonym sha1_regs = "i32 \<times> i32 \<times> i32 \<times> i32 \<times> i32"

definition fips_sha1_step :: "bytes \<Rightarrow> sha1_regs \<Rightarrow> nat \<Rightarrow> sha1_regs" where
  "fips_sha1_step block = (\<lambda>(a, b, c, d, e) t.
     (word_rotl 5 a + fips_sha1_f t b c d + e + fips_sha1_w block t + sha1_K t, a, word_rotl 30 b, c, d))"

definition fips_sha1_compress :: "i32 list \<Rightarrow> bytes \<Rightarrow> i32 list" where
  "fips_sha1_compress H block =
     (let (a, b, c, d, e) = foldl (fips_sha1_step block) (H ! 0, H ! 1, H ! 2, H ! 3, H ! 4) [0..<80]
      in map2 (+) H [a, b, c, d, e])"

definition fips_sha1 :: "bytes \<Rightarrow> bytes" where
  "fips_sha1 m = concat (map (be_encode 4) (md_hash 64 4 fips_sha1_compress SHA1_IV m))"

subsection \<open>The two block functions agree\<close>

lemma sha1_S_rotl: "n < 32 \<Longrightarrow> sha1_S x n = word_rotl n x"
proof -
  have "(0xFFFFFFFF :: i32) = - 1" by simp
  then have "x AND 0xFFFFFFFF = x" by (simp only: and.right_neutral)
  then show "n < 32 \<Longrightarrow> ?thesis" unfolding sha1_S_def using rotl_shifts [of n x] by simp
qed

lemma sha1_F_f: "sha1_F t x y z = fips_sha1_f t x y z"
  unfolding sha1_F_def fips_sha1_f_def
  by (intro bit_word_eqI) (auto simp: bit_and_iff bit_or_iff bit_xor_iff bit_not_iff)

text \<open>The registers round \<open>t\<close> starts with, read from the rotated locals.\<close>

definition sha1_regs_of :: "nat \<Rightarrow> i32 list \<Rightarrow> sha1_regs" where
  "sha1_regs_of t v = (v ! ((80 - t) mod 5), v ! ((81 - t) mod 5), v ! ((82 - t) mod 5), v ! ((83 - t) mod 5), v ! ((84 - t) mod 5))"

lemma sha1_P_step:
  assumes "length v = 5" and "t < 80" and "x = fips_sha1_w block t"
  shows "sha1_regs_of (Suc t) (sha1_P t x v) = fips_sha1_step block (sha1_regs_of t v) t"
proof -
  obtain v0 v1 v2 v3 v4 where v: "v = [v0, v1, v2, v3, v4]"
    using assms(1) by (auto simp: length_Suc_conv numeral_eq_Suc)
  obtain q where q: "80 - t = Suc q" using assms(2) by (cases "80 - t") auto
  then have t: "80 - Suc t = q" "81 - Suc t = Suc q" "82 - Suc t = q + 2" "83 - Suc t = q + 3" "84 - Suc t = q + 4"
    "81 - t = q + 2" "82 - t = q + 3" "83 - t = q + 4" "84 - t = q + 5" by simp_all
  have "q mod 5 \<in> {0, 1, 2, 3, 4}" by auto
  then have m: "(q + k) mod 5 = (q mod 5 + k) mod 5" "Suc q mod 5 = (q mod 5 + 1) mod 5" for k
    by (simp_all add: mod_simps)
  show ?thesis
    unfolding sha1_regs_of_def sha1_P_def fips_sha1_step_def t q m v
    using \<open>q mod 5 \<in> {0, 1, 2, 3, 4}\<close>
    by (elim insertE emptyE) (simp_all add: Let_def sha1_S_rotl sha1_F_f assms(3) add_ac)
qed

lemma length_sha1_P [simp]: "length (sha1_P t x v) = length v"
  by (simp add: sha1_P_def Let_def)

text \<open>The ring after round \<open>t\<close> holds the last sixteen words of the schedule.\<close>

definition ring_ok :: "bytes \<Rightarrow> nat \<Rightarrow> i32 list \<Rightarrow> bool" where
  "ring_ok block n W \<longleftrightarrow> length W = 16 \<and> (\<forall>j. j < n \<and> n \<le> j + 16 \<longrightarrow> W ! (j mod 16) = fips_sha1_w block j)"

lemma ring_load: "ring_ok block 16 (sha1_load block)"
  by (simp add: ring_ok_def sha1_load_def fips_sha1_w.simps)

lemma ring_R:
  assumes r: "ring_ok block t W" and t: "16 \<le> t"
  shows "ring_ok block (Suc t) (sha1_R t W)" and "sha1_R t W ! (t mod 16) = fips_sha1_w block t"
proof -
  have old: "W ! ((t - k) mod 16) = fips_sha1_w block (t - k)" if "0 < k" "k \<le> 16" for k
    using r t that by (simp add: ring_ok_def)
  have m: "t mod 16 = (t - 16) mod 16" using t by (simp add: le_mod_geq)
  have "W ! (t mod 16) = fips_sha1_w block (t - 16)" unfolding m using old [of 16] by simp
  then have new: "sha1_R t W ! (t mod 16) = fips_sha1_w block t"
    using r t old [of 3] old [of 8] old [of 14] fips_sha1_w.simps [of block t]
    by (simp add: sha1_R_def sha1_S_rotl ring_ok_def)
  show "sha1_R t W ! (t mod 16) = fips_sha1_w block t" by (fact new)
  show "ring_ok block (Suc t) (sha1_R t W)"
    unfolding ring_ok_def
  proof (intro conjI allI impI)
    show "length (sha1_R t W) = 16" using r by (simp add: ring_ok_def sha1_R_def)
    fix j assume j: "j < Suc t \<and> Suc t \<le> j + 16"
    show "sha1_R t W ! (j mod 16) = fips_sha1_w block j"
    proof (cases "j = t")
      case True
      then show ?thesis using new by simp
    next
      case False
      have "j mod 16 \<noteq> t mod 16"
      proof
        assume "j mod 16 = t mod 16"
        then have "16 dvd t - j" using j False by (metis mod_eq_dvd_iff_nat less_imp_le_nat less_SucE)
        then have "16 \<le> t - j" using j False by (intro dvd_imp_le) auto
        then show False using j by linarith
      qed
      then have "sha1_R t W ! (j mod 16) = W ! (j mod 16)" by (simp add: sha1_R_def)
      also have "\<dots> = fips_sha1_w block j" using r j False by (simp add: ring_ok_def)
      finally show ?thesis .
    qed
  qed
qed

lemma sha1_rounds:
  assumes "length st = 5"
  shows "n \<le> 80 \<Longrightarrow> let (v, W) = foldl sha1_round (st, sha1_load block) [0..<n] in
    length v = 5 \<and> ring_ok block (max 16 n) W \<and>
    sha1_regs_of n v = foldl (fips_sha1_step block) (st ! 0, st ! 1, st ! 2, st ! 3, st ! 4) [0..<n]"
proof (induction n)
  case 0
  then show ?case using assms by (simp add: ring_load sha1_regs_of_def)
next
  case (Suc n)
  obtain v W where vW: "foldl sha1_round (st, sha1_load block) [0..<n] = (v, W)" by fastforce
  with Suc have ih: "length v = 5" "ring_ok block (max 16 n) W"
    "sha1_regs_of n v = foldl (fips_sha1_step block) (st ! 0, st ! 1, st ! 2, st ! 3, st ! 4) [0..<n]" by simp_all
  define W' where "W' = (if n < 16 then W else sha1_R n W)"
  have W': "ring_ok block (max 16 (Suc n)) W' \<and> W' ! (n mod 16) = fips_sha1_w block n"
  proof (cases "n < 16")
    case True
    then show ?thesis using ih(2) unfolding W'_def by (simp add: ring_ok_def max_def)
  next
    case False
    then show ?thesis using ih(2) ring_R [of block n W] by (simp add: W'_def max_def)
  qed
  have "foldl sha1_round (st, sha1_load block) [0..<Suc n] = (sha1_P n (W' ! (n mod 16)) v, W')"
    by (simp add: vW) (simp add: sha1_round_def W'_def Let_def)
  then show ?case
    using Suc.prems ih W' sha1_P_step [OF ih(1), of n "W' ! (n mod 16)" block] by simp
qed

lemma sha1_process_fips:
  assumes "length st = 5"
  shows "sha1_process st block = fips_sha1_compress st block"
proof -
  obtain v W where vW: "foldl sha1_round (st, sha1_load block) [0..<80] = (v, W)" by fastforce
  have r: "length v = 5" "sha1_regs_of 80 v = foldl (fips_sha1_step block) (st ! 0, st ! 1, st ! 2, st ! 3, st ! 4) [0..<80]"
    using sha1_rounds [OF assms, of 80 block] unfolding vW by simp_all
  obtain v0 v1 v2 v3 v4 where v: "v = [v0, v1, v2, v3, v4]"
    using r(1) by (auto simp: length_Suc_conv numeral_eq_Suc)
  have "foldl (fips_sha1_step block) (st ! 0, st ! 1, st ! 2, st ! 3, st ! 4) [0..<80] = (v0, v1, v2, v3, v4)"
    unfolding r(2) [symmetric] by (simp add: sha1_regs_of_def v)
  then show ?thesis by (simp add: sha1_process_def fips_sha1_compress_def vW v)
qed

subsection \<open>The digest\<close>

interpretation sha1: md_params 64 4 "0x3F :: i32" sha1_process SHA1_IV
proof
  fix t :: i32
  have "(0x3F :: i32) = mask 6" by (simp add: mask_eq_exp_minus_1)
  then show "unat (t AND 0x3F) = unat t mod 64" using and_mask_mod [of 6 t] by simp
qed simp_all

lemma foldl_process_fips:
  "length st = 5 \<Longrightarrow> foldl sha1_process st bs = foldl fips_sha1_compress st bs \<and> length (foldl fips_sha1_compress st bs) = 5"
proof (induction bs arbitrary: st)
  case (Cons b bs)
  have "length (fips_sha1_compress st b) = 5"
    using Cons.prems by (simp add: fips_sha1_compress_def split: prod.splits)
  then show ?case using Cons.IH [of "fips_sha1_compress st b"] Cons.prems by (simp add: sha1_process_fips)
qed simp

lemma md_hash_sha1: "md_hash 64 4 sha1_process SHA1_IV m = md_hash 64 4 fips_sha1_compress SHA1_IV m"
  unfolding md_hash_def Let_def using foldl_process_fips [of SHA1_IV] by (simp add: SHA1_IV_def)

text \<open>Whatever the pieces, the digest is the standard's hash of their concatenation.\<close>

lemma sha1_pieces:
  assumes "length (md_buffer ctx) = 64" and "\<forall>p \<in> set ps. length p < 2 ^ 32"
  shows "snd (sha1_finish (foldl sha1_update (sha1_starts ctx) ps)) = fips_sha1 (concat ps)"
    and "length (md_buffer (fst (sha1_finish (foldl sha1_update (sha1_starts ctx) ps)))) = 64"
proof -
  have "sha1_starts ctx = \<lparr>md_total0 = 0, md_total1 = 0, md_state = SHA1_IV, md_buffer = md_buffer ctx\<rparr>"
    by (cases ctx) (simp add: sha1_starts_def)
  then show "snd (sha1_finish (foldl sha1_update (sha1_starts ctx) ps)) = fips_sha1 (concat ps)"
      "length (md_buffer (fst (sha1_finish (foldl sha1_update (sha1_starts ctx) ps)))) = 64"
    using sha1.updates_buffer [of "md_buffer ctx" ps] sha1.updates_finish [of "md_buffer ctx" ps] assms
    by (simp_all add: sha1_finish_def sha1_update_def fips_sha1_def md_hash_sha1 Let_def)
qed

lemma length_fips_sha1 [simp, len_simps]: "length (fips_sha1 m) = 20"
proof -
  have "length (foldl fips_sha1_compress SHA1_IV bs) = 5" for bs
    using foldl_process_fips [of SHA1_IV bs] by (simp only: SHA1_IV_def) simp
  then show ?thesis by (simp add: fips_sha1_def md_hash_def Let_def length_concat_be)
qed

lemma mbedtls_sha1_fips: "length m < 2 ^ 32 \<Longrightarrow> mbedtls_sha1 m = fips_sha1 m"
  using sha1_pieces [of sha1_init "[m]"] by (simp add: mbedtls_sha1_def sha1_init_def)

end
