(* ===== verification/Sha2.thy ===== *)
theory Sha2
  imports MdHashCorrect
begin

section \<open>What sha256.c and sha512.c share: the round macros and the schedule\<close>

text \<open>
  Both files define the macros \<open>F0\<close>, \<open>F1\<close> and \<open>P\<close> with the same bodies and extend the schedule
  with the same sum; they differ in the word size and the rotations \<open>S0\<close> to \<open>S3\<close>, which are
  parameters here. The eight calls of \<open>P\<close> in a loop body pass the array \<open>A\<close> rotated
  right once more each; they are proved equal to the standard's rounds, where the
  registers shift.
\<close>

definition sha2_F0 :: "'a::len word \<Rightarrow> 'a word \<Rightarrow> 'a word \<Rightarrow> 'a word" where
  "sha2_F0 x y z = (x AND y) OR (z AND (x OR y))"

definition sha2_F1 :: "'a::len word \<Rightarrow> 'a word \<Rightarrow> 'a word \<Rightarrow> 'a word" where
  "sha2_F1 x y z = z XOR (x AND (y XOR z))"

text \<open>The \<open>r\<close>-th of the eight calls: its \<open>i\<close>-th argument is \<open>A[(i + 8 - r) mod 8]\<close>.\<close>

definition sha2_P :: "('a::len word \<Rightarrow> 'a word) \<Rightarrow> ('a word \<Rightarrow> 'a word) \<Rightarrow> nat \<Rightarrow> 'a word \<Rightarrow> 'a word \<Rightarrow> 'a word list \<Rightarrow> 'a word list" where
  "sha2_P S2 S3 r x k A =
     (let a = (8 - r) mod 8; b = (9 - r) mod 8; c = (10 - r) mod 8; d = (11 - r) mod 8;
          e = (12 - r) mod 8; f = (13 - r) mod 8; g = (14 - r) mod 8; h = (15 - r) mod 8;
          temp1 = A ! h + S3 (A ! e) + sha2_F1 (A ! e) (A ! f) (A ! g) + k + x;
          temp2 = S2 (A ! a) + sha2_F0 (A ! a) (A ! b) (A ! c)
      in A[d := A ! d + temp1, h := temp1 + temp2])"

definition sha2_R :: "('a::len word \<Rightarrow> 'a word) \<Rightarrow> ('a word \<Rightarrow> 'a word) \<Rightarrow> nat \<Rightarrow> 'a word list \<Rightarrow> 'a word list" where
  "sha2_R S0 S1 t W = W[t := S1 (W ! (t - 2)) + W ! (t - 7) + S0 (W ! (t - 15)) + W ! (t - 16)]"

text \<open>The array \<open>W\<close> after its first sixteen words are read; the rest is uninitialised in C and written before it is read.\<close>

definition sha2_load :: "nat \<Rightarrow> nat \<Rightarrow> bytes \<Rightarrow> 'a::len word list" where
  "sha2_load wb rounds block = map (\<lambda>i. be_decode (take wb (drop (wb * i) block))) [0..<16] @ replicate (rounds - 16) 0"

subsection \<open>The standard's rounds\<close>

fun fips_sha2_w :: "nat \<Rightarrow> ('a::len word \<Rightarrow> 'a word) \<Rightarrow> ('a word \<Rightarrow> 'a word) \<Rightarrow> bytes \<Rightarrow> nat \<Rightarrow> 'a word" where
  "fips_sha2_w wb s0 s1 block t =
     (if t < 16 then be_decode (take wb (drop (wb * t) block))
      else s1 (fips_sha2_w wb s0 s1 block (t - 2)) + fips_sha2_w wb s0 s1 block (t - 7)
        + s0 (fips_sha2_w wb s0 s1 block (t - 15)) + fips_sha2_w wb s0 s1 block (t - 16))"

declare fips_sha2_w.simps [simp del]

definition fips_Ch :: "'a::len word \<Rightarrow> 'a word \<Rightarrow> 'a word \<Rightarrow> 'a word" where
  "fips_Ch x y z = (x AND y) XOR (NOT x AND z)"

definition fips_Maj :: "'a::len word \<Rightarrow> 'a word \<Rightarrow> 'a word \<Rightarrow> 'a word" where
  "fips_Maj x y z = (x AND y) XOR (x AND z) XOR (y AND z)"

type_synonym 'a sha2_regs = "'a word \<times> 'a word \<times> 'a word \<times> 'a word \<times> 'a word \<times> 'a word \<times> 'a word \<times> 'a word"

definition fips_sha2_step :: "('a::len word \<Rightarrow> 'a word) \<Rightarrow> ('a word \<Rightarrow> 'a word) \<Rightarrow> 'a word \<Rightarrow> 'a word \<Rightarrow> 'a sha2_regs \<Rightarrow> 'a sha2_regs" where
  "fips_sha2_step S2 S3 k w = (\<lambda>(a, b, c, d, e, f, g, h).
     let T1 = h + S3 e + fips_Ch e f g + k + w; T2 = S2 a + fips_Maj a b c
     in (T1 + T2, a, b, c, d + T1, e, f, g))"

definition sha2_regs_of :: "nat \<Rightarrow> 'a::len word list \<Rightarrow> 'a sha2_regs" where
  "sha2_regs_of r A = (A ! ((8 - r) mod 8), A ! ((9 - r) mod 8), A ! ((10 - r) mod 8), A ! ((11 - r) mod 8),
     A ! ((12 - r) mod 8), A ! ((13 - r) mod 8), A ! ((14 - r) mod 8), A ! ((15 - r) mod 8))"

subsection \<open>Rounds agree\<close>

lemma sha2_F1_Ch: "sha2_F1 x y z = fips_Ch x y z"
  unfolding sha2_F1_def fips_Ch_def
  by (intro bit_word_eqI) (auto simp: bit_and_iff bit_or_iff bit_xor_iff bit_not_iff)

lemma sha2_F0_Maj: "sha2_F0 x y z = fips_Maj x y z"
  unfolding sha2_F0_def fips_Maj_def
  by (intro bit_word_eqI) (auto simp: bit_and_iff bit_or_iff bit_xor_iff bit_not_iff)

lemma length_sha2_P [simp]: "length (sha2_P S2 S3 r x k A) = length A"
  by (simp add: sha2_P_def Let_def)

lemma length_8: "length A = 8 \<Longrightarrow> \<exists>a b c d e f g h. A = [a, b, c, d, e, f, g, h]"
  by (auto simp: length_Suc_conv numeral_eq_Suc)

lemma sha2_P_step:
  assumes "length A = 8" and "r < 8"
  shows "sha2_regs_of (Suc r mod 8) (sha2_P S2 S3 r x k A) = fips_sha2_step S2 S3 k x (sha2_regs_of r A)"
proof -
  obtain a b c d e f g h where A: "A = [a, b, c, d, e, f, g, h]" using length_8 [OF assms(1)] by blast
  have "r \<in> {0, 1, 2, 3, 4, 5, 6, 7}" using assms(2) by auto
  then show ?thesis
    unfolding sha2_P_def sha2_regs_of_def fips_sha2_step_def sha2_F0_Maj sha2_F1_Ch A
    by (elim insertE emptyE) (simp_all add: Let_def add_ac)
qed

lemma sha2_rounds:
  assumes "length st = 8"
  shows "length (foldl (\<lambda>A t. sha2_P S2 S3 (t mod 8) (w t) (k t) A) st [0..<n]) = 8 \<and>
    sha2_regs_of (n mod 8) (foldl (\<lambda>A t. sha2_P S2 S3 (t mod 8) (w t) (k t) A) st [0..<n]) =
    foldl (\<lambda>R t. fips_sha2_step S2 S3 (k t) (w t) R) (sha2_regs_of 0 st) [0..<n]"
proof (induction n)
  case 0
  then show ?case using assms by simp
next
  case (Suc n)
  then show ?case
    using sha2_P_step [of "foldl (\<lambda>A t. sha2_P S2 S3 (t mod 8) (w t) (k t) A) st [0..<n]" "n mod 8" S2 S3 "w n" "k n"]
    by (simp add: mod_Suc_eq)
qed

lemma sha2_regs_inj: "length A = 8 \<Longrightarrow> sha2_regs_of 0 A = (a, b, c, d, e, f, g, h) \<Longrightarrow> A = [a, b, c, d, e, f, g, h]"
  using length_8 [of A] by (auto simp: sha2_regs_of_def)

subsection \<open>The schedule\<close>

definition sched_ok :: "nat \<Rightarrow> (nat \<Rightarrow> 'a::len word) \<Rightarrow> nat \<Rightarrow> 'a word list \<Rightarrow> bool" where
  "sched_ok rounds w n W \<longleftrightarrow> length W = rounds \<and> (\<forall>j < n. W ! j = w j)"

lemma sched_load:
  "16 \<le> rounds \<Longrightarrow> sched_ok rounds (fips_sha2_w wb s0 s1 block) 16 (sha2_load wb rounds block)"
  by (simp add: sched_ok_def sha2_load_def nth_append fips_sha2_w.simps)

lemma sched_R:
  assumes "sched_ok rounds (fips_sha2_w wb s0 s1 block) t W" and "16 \<le> t" and "t < rounds"
  shows "sched_ok rounds (fips_sha2_w wb s0 s1 block) (Suc t) (sha2_R s0 s1 t W)"
  using assms fips_sha2_w.simps [of wb s0 s1 block t]
  by (auto simp: sched_ok_def sha2_R_def nth_list_update less_Suc_eq)

end
