(* ===== verification/Sha256.thy ===== *)
theory Sha256
  imports Sha2
begin

section \<open>SHA-256: libkg/mbedtls/library/sha256.c\<close>

text \<open>
  The configuration enables SHA-256 without SHA-224 and without the smaller or accelerated
  block functions, so the flag \<open>is224\<close> must be zero and the unrolled C block function is the
  one compiled. It is proved equal to the standard's, and a digest fed in pieces to be the
  standard's hash of the whole message.
\<close>

type_synonym sha256_context = "i32 md_ctx"

datatype sha256_error = SHA256_BAD_INPUT_DATA

definition sha256_init :: sha256_context where
  "sha256_init = \<lparr>md_total0 = 0, md_total1 = 0, md_state = replicate 8 0, md_buffer = replicate 64 0\<rparr>"

definition SHA256_IV :: "i32 list" where
  "SHA256_IV = [0x6A09E667, 0xBB67AE85, 0x3C6EF372, 0xA54FF53A, 0x510E527F, 0x9B05688C, 0x1F83D9AB, 0x5BE0CD19]"

definition sha256_starts :: "sha256_context \<Rightarrow> int \<Rightarrow> sha256_error + sha256_context" where
  "sha256_starts ctx is224 =
     (if is224 \<noteq> 0 then Inl SHA256_BAD_INPUT_DATA
      else Inr (ctx\<lparr>md_total0 := 0, md_total1 := 0, md_state := SHA256_IV\<rparr>))"

subsection \<open>The block function\<close>

definition SHA256_K :: "i32 list" where
  "SHA256_K = [
    0x428A2F98, 0x71374491, 0xB5C0FBCF, 0xE9B5DBA5, 0x3956C25B, 0x59F111F1, 0x923F82A4, 0xAB1C5ED5,
    0xD807AA98, 0x12835B01, 0x243185BE, 0x550C7DC3, 0x72BE5D74, 0x80DEB1FE, 0x9BDC06A7, 0xC19BF174,
    0xE49B69C1, 0xEFBE4786, 0x0FC19DC6, 0x240CA1CC, 0x2DE92C6F, 0x4A7484AA, 0x5CB0A9DC, 0x76F988DA,
    0x983E5152, 0xA831C66D, 0xB00327C8, 0xBF597FC7, 0xC6E00BF3, 0xD5A79147, 0x06CA6351, 0x14292967,
    0x27B70A85, 0x2E1B2138, 0x4D2C6DFC, 0x53380D13, 0x650A7354, 0x766A0ABB, 0x81C2C92E, 0x92722C85,
    0xA2BFE8A1, 0xA81A664B, 0xC24B8B70, 0xC76C51A3, 0xD192E819, 0xD6990624, 0xF40E3585, 0x106AA070,
    0x19A4C116, 0x1E376C08, 0x2748774C, 0x34B0BCB5, 0x391C0CB3, 0x4ED8AA4A, 0x5B9CCA4F, 0x682E6FF3,
    0x748F82EE, 0x78A5636F, 0x84C87814, 0x8CC70208, 0x90BEFFFA, 0xA4506CEB, 0xBEF9A3F7, 0xC67178F2]"

definition sha256_SHR :: "i32 \<Rightarrow> nat \<Rightarrow> i32" where
  "sha256_SHR x n = drop_bit n (x AND 0xFFFFFFFF)"

definition sha256_ROTR :: "i32 \<Rightarrow> nat \<Rightarrow> i32" where
  "sha256_ROTR x n = sha256_SHR x n OR push_bit (32 - n) x"

definition sha256_S0 :: "i32 \<Rightarrow> i32" where
  "sha256_S0 x = sha256_ROTR x 7 XOR sha256_ROTR x 18 XOR sha256_SHR x 3"

definition sha256_S1 :: "i32 \<Rightarrow> i32" where
  "sha256_S1 x = sha256_ROTR x 17 XOR sha256_ROTR x 19 XOR sha256_SHR x 10"

definition sha256_S2 :: "i32 \<Rightarrow> i32" where
  "sha256_S2 x = sha256_ROTR x 2 XOR sha256_ROTR x 13 XOR sha256_ROTR x 22"

definition sha256_S3 :: "i32 \<Rightarrow> i32" where
  "sha256_S3 x = sha256_ROTR x 6 XOR sha256_ROTR x 11 XOR sha256_ROTR x 25"

text \<open>The two unrolled loops, as one fold over the round number: rounds below sixteen read the block.\<close>

definition sha256_round :: "i32 list \<times> i32 list \<Rightarrow> nat \<Rightarrow> i32 list \<times> i32 list" where
  "sha256_round = (\<lambda>(A, W) t.
     let W' = (if t < 16 then W else sha2_R sha256_S0 sha256_S1 t W)
     in (sha2_P sha256_S2 sha256_S3 (t mod 8) (W' ! t) (SHA256_K ! t) A, W'))"

definition sha256_process :: "i32 list \<Rightarrow> bytes \<Rightarrow> i32 list" where
  "sha256_process st block =
     (let (A, W) = foldl sha256_round (st, sha2_load 4 64 block) [0..<64] in map2 (+) st A)"

subsection \<open>Context functions\<close>

definition sha256_update :: "sha256_context \<Rightarrow> bytes \<Rightarrow> sha256_context" where
  "sha256_update = md_update 64 0x3F sha256_process"

definition sha256_finish :: "sha256_context \<Rightarrow> sha256_context \<times> bytes" where
  "sha256_finish ctx = (let c = md_finish 64 0x3F 4 sha256_process ctx in (c, concat (map (be_encode 4) (md_state c))))"

definition mbedtls_sha256 :: "bytes \<Rightarrow> int \<Rightarrow> sha256_error + bytes" where
  "mbedtls_sha256 input is224 =
     (if is224 \<noteq> 0 then Inl SHA256_BAD_INPUT_DATA
      else case sha256_starts sha256_init is224 of
        Inl e \<Rightarrow> Inl e
      | Inr ctx \<Rightarrow> Inr (snd (sha256_finish (sha256_update ctx input))))"

subsection \<open>The standard's block function\<close>

definition fips_sha256_s :: "nat \<Rightarrow> nat \<Rightarrow> nat \<Rightarrow> i32 \<Rightarrow> i32" where
  "fips_sha256_s a b c x = word_rotr a x XOR word_rotr b x XOR drop_bit c x"

definition fips_sha256_S :: "nat \<Rightarrow> nat \<Rightarrow> nat \<Rightarrow> i32 \<Rightarrow> i32" where
  "fips_sha256_S a b c x = word_rotr a x XOR word_rotr b x XOR word_rotr c x"

definition fips_sha256_compress :: "i32 list \<Rightarrow> bytes \<Rightarrow> i32 list" where
  "fips_sha256_compress H block =
     (let (a, b, c, d, e, f, g, h) =
        foldl (\<lambda>R t. fips_sha2_step (fips_sha256_S 2 13 22) (fips_sha256_S 6 11 25) (SHA256_K ! t)
            (fips_sha2_w 4 (fips_sha256_s 7 18 3) (fips_sha256_s 17 19 10) block t) R)
          (H ! 0, H ! 1, H ! 2, H ! 3, H ! 4, H ! 5, H ! 6, H ! 7) [0..<64]
      in map2 (+) H [a, b, c, d, e, f, g, h])"

definition fips_sha256 :: "bytes \<Rightarrow> bytes" where
  "fips_sha256 m = concat (map (be_encode 4) (md_hash 64 4 fips_sha256_compress SHA256_IV m))"

subsection \<open>The two block functions agree\<close>

lemma sha256_SHR: "sha256_SHR x n = drop_bit n x"
proof -
  have "(0xFFFFFFFF :: i32) = - 1" by simp
  then have "x AND 0xFFFFFFFF = x" by (simp only: and.right_neutral)
  then show ?thesis by (simp only: sha256_SHR_def)
qed

lemma sha256_ROTR: "0 < n \<Longrightarrow> n < 32 \<Longrightarrow> sha256_ROTR x n = word_rotr n x"
  using rotr_shifts [of n x] by (simp add: sha256_ROTR_def sha256_SHR)

lemma sha256_S0: "sha256_S0 = fips_sha256_s 7 18 3"
  by (rule ext) (simp add: sha256_S0_def fips_sha256_s_def sha256_ROTR sha256_SHR)

lemma sha256_S1: "sha256_S1 = fips_sha256_s 17 19 10"
  by (rule ext) (simp add: sha256_S1_def fips_sha256_s_def sha256_ROTR sha256_SHR)

lemma sha256_S2: "sha256_S2 = fips_sha256_S 2 13 22"
  by (rule ext) (simp add: sha256_S2_def fips_sha256_S_def sha256_ROTR sha256_SHR)

lemma sha256_S3: "sha256_S3 = fips_sha256_S 6 11 25"
  by (rule ext) (simp add: sha256_S3_def fips_sha256_S_def sha256_ROTR sha256_SHR)

lemma sha256_loop:
  "n \<le> 64 \<Longrightarrow> let (A, W) = foldl sha256_round (st, sha2_load 4 64 block) [0..<n] in
     sched_ok 64 (fips_sha2_w 4 (fips_sha256_s 7 18 3) (fips_sha256_s 17 19 10) block) (max 16 n) W \<and>
     A = foldl (\<lambda>A t. sha2_P sha256_S2 sha256_S3 (t mod 8) (fips_sha2_w 4 (fips_sha256_s 7 18 3) (fips_sha256_s 17 19 10) block t) (SHA256_K ! t) A) st [0..<n]"
proof (induction n)
  case 0
  then show ?case using sched_load [of 64 4] by simp
next
  case (Suc n)
  let ?w = "fips_sha2_w 4 (fips_sha256_s 7 18 3) (fips_sha256_s 17 19 10) block"
  obtain A W where AW: "foldl sha256_round (st, sha2_load 4 64 block) [0..<n] = (A, W)" by fastforce
  with Suc have ih: "sched_ok 64 ?w (max 16 n) W"
    "A = foldl (\<lambda>A t. sha2_P sha256_S2 sha256_S3 (t mod 8) (?w t) (SHA256_K ! t) A) st [0..<n]" by simp_all
  define W' where "W' = (if n < 16 then W else sha2_R sha256_S0 sha256_S1 n W)"
  have "sched_ok 64 ?w (max 16 (Suc n)) W'"
  proof (cases "n < 16")
    case True
    then have "max 16 n = 16" "max 16 (Suc n) = 16" by simp_all
    then show ?thesis using ih(1) True by (simp add: W'_def)
  next
    case False
    then show ?thesis using ih(1) sched_R [of 64 4 _ _ block n W] Suc.prems
      by (simp add: W'_def max_def sha256_S0 sha256_S1)
  qed
  moreover have "W' ! n = ?w n" using calculation by (simp add: sched_ok_def)
  moreover have "foldl sha256_round (st, sha2_load 4 64 block) [0..<Suc n] =
      (sha2_P sha256_S2 sha256_S3 (n mod 8) (W' ! n) (SHA256_K ! n) A, W')"
    by (simp add: AW) (simp add: sha256_round_def W'_def Let_def)
  ultimately show ?case using ih(2) by simp
qed

lemma sha256_process_fips:
  assumes "length st = 8"
  shows "sha256_process st block = fips_sha256_compress st block"
proof -
  let ?w = "fips_sha2_w 4 (fips_sha256_s 7 18 3) (fips_sha256_s 17 19 10) block"
  obtain A W where AW: "foldl sha256_round (st, sha2_load 4 64 block) [0..<64] = (A, W)" by fastforce
  have A: "A = foldl (\<lambda>A t. sha2_P sha256_S2 sha256_S3 (t mod 8) (?w t) (SHA256_K ! t) A) st [0..<64]"
    using sha256_loop [of 64 st block] unfolding AW by simp
  have r: "length A = 8" "sha2_regs_of 0 A = foldl (\<lambda>R t. fips_sha2_step sha256_S2 sha256_S3 (SHA256_K ! t) (?w t) R) (sha2_regs_of 0 st) [0..<64]"
    using sha2_rounds [OF assms, of sha256_S2 sha256_S3 ?w "\<lambda>t. SHA256_K ! t" 64] unfolding A by simp_all
  have i: "sha2_regs_of 0 st = (st ! 0, st ! 1, st ! 2, st ! 3, st ! 4, st ! 5, st ! 6, st ! 7)"
    by (simp add: sha2_regs_of_def)
  obtain a b c d e f g h where "A = [a, b, c, d, e, f, g, h]" using length_8 [OF r(1)] by blast
  then have p: "sha2_regs_of 0 A = (a, b, c, d, e, f, g, h)" by (simp add: sha2_regs_of_def)
  show ?thesis
    unfolding sha256_process_def AW fips_sha256_compress_def r(2) [symmetric, unfolded i p sha256_S2 sha256_S3]
    by (simp add: sha2_regs_inj [OF r(1) p])
qed

subsection \<open>The digest\<close>

interpretation sha256: md_params 64 4 "0x3F :: i32" sha256_process SHA256_IV
proof
  fix t :: i32
  have "(0x3F :: i32) = mask 6" by (simp add: mask_eq_exp_minus_1)
  then show "unat (t AND 0x3F) = unat t mod 64" using and_mask_mod [of 6 t] by simp
qed simp_all

lemma foldl_process_fips256:
  "length st = 8 \<Longrightarrow> foldl sha256_process st bs = foldl fips_sha256_compress st bs \<and> length (foldl fips_sha256_compress st bs) = 8"
proof (induction bs arbitrary: st)
  case (Cons b bs)
  have "length (fips_sha256_compress st b) = 8"
    using Cons.prems by (simp add: fips_sha256_compress_def split: prod.splits)
  then show ?case using Cons.IH [of "fips_sha256_compress st b"] Cons.prems by (simp add: sha256_process_fips)
qed simp

lemma md_hash_sha256: "md_hash 64 4 sha256_process SHA256_IV m = md_hash 64 4 fips_sha256_compress SHA256_IV m"
  unfolding md_hash_def Let_def using foldl_process_fips256 [of SHA256_IV] by (simp add: SHA256_IV_def)

text \<open>Whatever the pieces, the digest is the standard's hash of their concatenation.\<close>

lemma sha256_pieces:
  assumes "length (md_buffer ctx) = 64" and "\<forall>p \<in> set ps. length p < 2 ^ 32" and "sha256_starts ctx 0 = Inr c"
  shows "snd (sha256_finish (foldl sha256_update c ps)) = fips_sha256 (concat ps)"
    and "length (md_buffer (fst (sha256_finish (foldl sha256_update c ps)))) = 64"
proof -
  have "c = \<lparr>md_total0 = 0, md_total1 = 0, md_state = SHA256_IV, md_buffer = md_buffer ctx\<rparr>"
    using assms(3) by (cases ctx) (auto simp: sha256_starts_def)
  then show "snd (sha256_finish (foldl sha256_update c ps)) = fips_sha256 (concat ps)"
      "length (md_buffer (fst (sha256_finish (foldl sha256_update c ps)))) = 64"
    using sha256.updates_buffer [of "md_buffer ctx" ps] sha256.updates_finish [of "md_buffer ctx" ps] assms
    by (simp_all add: sha256_finish_def sha256_update_def fips_sha256_def md_hash_sha256 Let_def)
qed

lemma length_fips_sha256 [simp, len_simps]: "length (fips_sha256 m) = 32"
proof -
  have "length (foldl fips_sha256_compress SHA256_IV bs) = 8" for bs
    using foldl_process_fips256 [of SHA256_IV bs] by (simp only: SHA256_IV_def) simp
  then show ?thesis by (simp add: fips_sha256_def md_hash_def Let_def length_concat_be)
qed

lemma mbedtls_sha256_fips: "length m < 2 ^ 32 \<Longrightarrow> mbedtls_sha256 m 0 = Inr (fips_sha256 m)"
  using sha256_pieces [of sha256_init "[m]"] by (simp add: mbedtls_sha256_def sha256_init_def sha256_starts_def)

end
