(* ===== verification/Sha512.thy ===== *)
theory Sha512
  imports Sha2
begin

section \<open>SHA-512: libkg/mbedtls/library/sha512.c\<close>

text \<open>
  The configuration enables SHA-512 without SHA-384 and without the smaller or accelerated
  block functions, so the flag \<open>is384\<close> must be zero and the unrolled C block function is the
  one compiled. It is proved equal to the standard's, and a digest fed in pieces to be the
  standard's hash of the whole message.
\<close>

type_synonym sha512_context = "i64 md_ctx"

datatype sha512_error = SHA512_BAD_INPUT_DATA

definition sha512_init :: sha512_context where
  "sha512_init = \<lparr>md_total0 = 0, md_total1 = 0, md_state = replicate 8 0, md_buffer = replicate 128 0\<rparr>"

definition SHA512_IV :: "i64 list" where
  "SHA512_IV = [0x6A09E667F3BCC908, 0xBB67AE8584CAA73B, 0x3C6EF372FE94F82B, 0xA54FF53A5F1D36F1,
    0x510E527FADE682D1, 0x9B05688C2B3E6C1F, 0x1F83D9ABFB41BD6B, 0x5BE0CD19137E2179]"

definition sha512_starts :: "sha512_context \<Rightarrow> int \<Rightarrow> sha512_error + sha512_context" where
  "sha512_starts ctx is384 =
     (if is384 \<noteq> 0 then Inl SHA512_BAD_INPUT_DATA
      else Inr (ctx\<lparr>md_total0 := 0, md_total1 := 0, md_state := SHA512_IV\<rparr>))"

subsection \<open>The block function\<close>

definition SHA512_K :: "i64 list" where
  "SHA512_K = [
    0x428A2F98D728AE22, 0x7137449123EF65CD, 0xB5C0FBCFEC4D3B2F, 0xE9B5DBA58189DBBC,
    0x3956C25BF348B538, 0x59F111F1B605D019, 0x923F82A4AF194F9B, 0xAB1C5ED5DA6D8118,
    0xD807AA98A3030242, 0x12835B0145706FBE, 0x243185BE4EE4B28C, 0x550C7DC3D5FFB4E2,
    0x72BE5D74F27B896F, 0x80DEB1FE3B1696B1, 0x9BDC06A725C71235, 0xC19BF174CF692694,
    0xE49B69C19EF14AD2, 0xEFBE4786384F25E3, 0x0FC19DC68B8CD5B5, 0x240CA1CC77AC9C65,
    0x2DE92C6F592B0275, 0x4A7484AA6EA6E483, 0x5CB0A9DCBD41FBD4, 0x76F988DA831153B5,
    0x983E5152EE66DFAB, 0xA831C66D2DB43210, 0xB00327C898FB213F, 0xBF597FC7BEEF0EE4,
    0xC6E00BF33DA88FC2, 0xD5A79147930AA725, 0x06CA6351E003826F, 0x142929670A0E6E70,
    0x27B70A8546D22FFC, 0x2E1B21385C26C926, 0x4D2C6DFC5AC42AED, 0x53380D139D95B3DF,
    0x650A73548BAF63DE, 0x766A0ABB3C77B2A8, 0x81C2C92E47EDAEE6, 0x92722C851482353B,
    0xA2BFE8A14CF10364, 0xA81A664BBC423001, 0xC24B8B70D0F89791, 0xC76C51A30654BE30,
    0xD192E819D6EF5218, 0xD69906245565A910, 0xF40E35855771202A, 0x106AA07032BBD1B8,
    0x19A4C116B8D2D0C8, 0x1E376C085141AB53, 0x2748774CDF8EEB99, 0x34B0BCB5E19B48A8,
    0x391C0CB3C5C95A63, 0x4ED8AA4AE3418ACB, 0x5B9CCA4F7763E373, 0x682E6FF3D6B2B8A3,
    0x748F82EE5DEFB2FC, 0x78A5636F43172F60, 0x84C87814A1F0AB72, 0x8CC702081A6439EC,
    0x90BEFFFA23631E28, 0xA4506CEBDE82BDE9, 0xBEF9A3F7B2C67915, 0xC67178F2E372532B,
    0xCA273ECEEA26619C, 0xD186B8C721C0C207, 0xEADA7DD6CDE0EB1E, 0xF57D4F7FEE6ED178,
    0x06F067AA72176FBA, 0x0A637DC5A2C898A6, 0x113F9804BEF90DAE, 0x1B710B35131C471B,
    0x28DB77F523047D84, 0x32CAAB7B40C72493, 0x3C9EBE0A15C9BEBC, 0x431D67C49C100D4C,
    0x4CC5D4BECB3E42B6, 0x597F299CFC657E2A, 0x5FCB6FAB3AD6FAEC, 0x6C44198C4A475817]"

definition sha512_SHR :: "i64 \<Rightarrow> nat \<Rightarrow> i64" where
  "sha512_SHR x n = drop_bit n x"

definition sha512_ROTR :: "i64 \<Rightarrow> nat \<Rightarrow> i64" where
  "sha512_ROTR x n = sha512_SHR x n OR push_bit (64 - n) x"

definition sha512_S0 :: "i64 \<Rightarrow> i64" where
  "sha512_S0 x = sha512_ROTR x 1 XOR sha512_ROTR x 8 XOR sha512_SHR x 7"

definition sha512_S1 :: "i64 \<Rightarrow> i64" where
  "sha512_S1 x = sha512_ROTR x 19 XOR sha512_ROTR x 61 XOR sha512_SHR x 6"

definition sha512_S2 :: "i64 \<Rightarrow> i64" where
  "sha512_S2 x = sha512_ROTR x 28 XOR sha512_ROTR x 34 XOR sha512_ROTR x 39"

definition sha512_S3 :: "i64 \<Rightarrow> i64" where
  "sha512_S3 x = sha512_ROTR x 14 XOR sha512_ROTR x 18 XOR sha512_ROTR x 41"

definition sha512_process :: "i64 list \<Rightarrow> bytes \<Rightarrow> i64 list" where
  "sha512_process st block =
     (let W = foldl (\<lambda>W t. sha2_R sha512_S0 sha512_S1 t W) (sha2_load 8 80 block) [16..<80];
          A = foldl (\<lambda>A t. sha2_P sha512_S2 sha512_S3 (t mod 8) (W ! t) (SHA512_K ! t) A) st [0..<80]
      in map2 (+) st A)"

subsection \<open>Context functions\<close>

definition sha512_update :: "sha512_context \<Rightarrow> bytes \<Rightarrow> sha512_context" where
  "sha512_update = md_update 128 0x7F sha512_process"

definition sha512_finish :: "sha512_context \<Rightarrow> sha512_context \<times> bytes" where
  "sha512_finish ctx = (let c = md_finish 128 0x7F 8 sha512_process ctx in (c, concat (map (be_encode 8) (md_state c))))"

definition mbedtls_sha512 :: "bytes \<Rightarrow> int \<Rightarrow> sha512_error + bytes" where
  "mbedtls_sha512 input is384 =
     (if is384 \<noteq> 0 then Inl SHA512_BAD_INPUT_DATA
      else case sha512_starts sha512_init is384 of
        Inl e \<Rightarrow> Inl e
      | Inr ctx \<Rightarrow> Inr (snd (sha512_finish (sha512_update ctx input))))"

subsection \<open>The standard's block function\<close>

definition fips_sha512_s :: "nat \<Rightarrow> nat \<Rightarrow> nat \<Rightarrow> i64 \<Rightarrow> i64" where
  "fips_sha512_s a b c x = word_rotr a x XOR word_rotr b x XOR drop_bit c x"

definition fips_sha512_S :: "nat \<Rightarrow> nat \<Rightarrow> nat \<Rightarrow> i64 \<Rightarrow> i64" where
  "fips_sha512_S a b c x = word_rotr a x XOR word_rotr b x XOR word_rotr c x"

definition fips_sha512_compress :: "i64 list \<Rightarrow> bytes \<Rightarrow> i64 list" where
  "fips_sha512_compress H block =
     (let (a, b, c, d, e, f, g, h) =
        foldl (\<lambda>R t. fips_sha2_step (fips_sha512_S 28 34 39) (fips_sha512_S 14 18 41) (SHA512_K ! t)
            (fips_sha2_w 8 (fips_sha512_s 1 8 7) (fips_sha512_s 19 61 6) block t) R)
          (H ! 0, H ! 1, H ! 2, H ! 3, H ! 4, H ! 5, H ! 6, H ! 7) [0..<80]
      in map2 (+) H [a, b, c, d, e, f, g, h])"

definition fips_sha512 :: "bytes \<Rightarrow> bytes" where
  "fips_sha512 m = concat (map (be_encode 8) (md_hash 128 8 fips_sha512_compress SHA512_IV m))"

subsection \<open>The two block functions agree\<close>

lemma sha512_SHR: "sha512_SHR x n = drop_bit n x"
  by (simp add: sha512_SHR_def)

lemma sha512_ROTR: "0 < n \<Longrightarrow> n < 64 \<Longrightarrow> sha512_ROTR x n = word_rotr n x"
  using rotr_shifts [of n x] by (simp add: sha512_ROTR_def sha512_SHR)

lemma sha512_S0: "sha512_S0 = fips_sha512_s 1 8 7"
  by (rule ext) (simp add: sha512_S0_def fips_sha512_s_def sha512_ROTR sha512_SHR)

lemma sha512_S1: "sha512_S1 = fips_sha512_s 19 61 6"
  by (rule ext) (simp add: sha512_S1_def fips_sha512_s_def sha512_ROTR sha512_SHR)

lemma sha512_S2: "sha512_S2 = fips_sha512_S 28 34 39"
  by (rule ext) (simp add: sha512_S2_def fips_sha512_S_def sha512_ROTR sha512_SHR)

lemma sha512_S3: "sha512_S3 = fips_sha512_S 14 18 41"
  by (rule ext) (simp add: sha512_S3_def fips_sha512_S_def sha512_ROTR sha512_SHR)

lemma sha512_schedule:
  "16 \<le> n \<Longrightarrow> n \<le> 80 \<Longrightarrow>
   sched_ok 80 (fips_sha2_w 8 (fips_sha512_s 1 8 7) (fips_sha512_s 19 61 6) block) n
     (foldl (\<lambda>W t. sha2_R sha512_S0 sha512_S1 t W) (sha2_load 8 80 block) [16..<n])"
proof (induction n rule: dec_induct)
  case base
  then show ?case using sched_load [of 80 8] by simp
next
  case (step n)
  then show ?case by (simp add: sha512_S0 sha512_S1 sched_R)
qed

lemma sha512_process_fips:
  assumes "length st = 8"
  shows "sha512_process st block = fips_sha512_compress st block"
proof -
  let ?w = "fips_sha2_w 8 (fips_sha512_s 1 8 7) (fips_sha512_s 19 61 6) block"
  define W where "W = foldl (\<lambda>W t. sha2_R sha512_S0 sha512_S1 t W) (sha2_load 8 80 block) [16..<80]"
  define A where "A = foldl (\<lambda>A t. sha2_P sha512_S2 sha512_S3 (t mod 8) (W ! t) (SHA512_K ! t) A) st [0..<80]"
  have "W ! t = ?w t" if "t < 80" for t
    using sha512_schedule [of 80 block] that by (simp add: W_def sched_ok_def)
  then have A: "A = foldl (\<lambda>A t. sha2_P sha512_S2 sha512_S3 (t mod 8) (?w t) (SHA512_K ! t) A) st [0..<80]"
    unfolding A_def by (intro foldl_cong) simp_all
  have r: "length A = 8" "sha2_regs_of 0 A = foldl (\<lambda>R t. fips_sha2_step sha512_S2 sha512_S3 (SHA512_K ! t) (?w t) R) (sha2_regs_of 0 st) [0..<80]"
    using sha2_rounds [OF assms, of sha512_S2 sha512_S3 ?w "\<lambda>t. SHA512_K ! t" 80] unfolding A by simp_all
  have i: "sha2_regs_of 0 st = (st ! 0, st ! 1, st ! 2, st ! 3, st ! 4, st ! 5, st ! 6, st ! 7)"
    by (simp add: sha2_regs_of_def)
  obtain a b c d e f g h where "A = [a, b, c, d, e, f, g, h]" using length_8 [OF r(1)] by blast
  then have p: "sha2_regs_of 0 A = (a, b, c, d, e, f, g, h)" by (simp add: sha2_regs_of_def)
  show ?thesis
    unfolding sha512_process_def Let_def W_def [symmetric] A_def [symmetric] fips_sha512_compress_def r(2) [symmetric, unfolded i p sha512_S2 sha512_S3]
    by (simp add: sha2_regs_inj [OF r(1) p])
qed

subsection \<open>The digest\<close>

interpretation sha512: md_params 128 8 "0x7F :: i64" sha512_process SHA512_IV
proof
  fix t :: i64
  have "(0x7F :: i64) = mask 7" by (simp add: mask_eq_exp_minus_1)
  then show "unat (t AND 0x7F) = unat t mod 128" using and_mask_mod [of 7 t] by simp
qed simp_all

lemma foldl_process_fips512:
  "length st = 8 \<Longrightarrow> foldl sha512_process st bs = foldl fips_sha512_compress st bs \<and> length (foldl fips_sha512_compress st bs) = 8"
proof (induction bs arbitrary: st)
  case (Cons b bs)
  have "length (fips_sha512_compress st b) = 8"
    using Cons.prems by (simp add: fips_sha512_compress_def split: prod.splits)
  then show ?case using Cons.IH [of "fips_sha512_compress st b"] Cons.prems by (simp add: sha512_process_fips)
qed simp

lemma md_hash_sha512: "md_hash 128 8 sha512_process SHA512_IV m = md_hash 128 8 fips_sha512_compress SHA512_IV m"
  unfolding md_hash_def Let_def using foldl_process_fips512 [of SHA512_IV] by (simp add: SHA512_IV_def)

text \<open>Whatever the pieces, the digest is the standard's hash of their concatenation.\<close>

lemma sha512_pieces:
  assumes "length (md_buffer ctx) = 128" and "\<forall>p \<in> set ps. length p < 2 ^ 64" and "sha512_starts ctx 0 = Inr c"
  shows "snd (sha512_finish (foldl sha512_update c ps)) = fips_sha512 (concat ps)"
    and "length (md_buffer (fst (sha512_finish (foldl sha512_update c ps)))) = 128"
proof -
  have "c = \<lparr>md_total0 = 0, md_total1 = 0, md_state = SHA512_IV, md_buffer = md_buffer ctx\<rparr>"
    using assms(3) by (cases ctx) (auto simp: sha512_starts_def)
  then show "snd (sha512_finish (foldl sha512_update c ps)) = fips_sha512 (concat ps)"
      "length (md_buffer (fst (sha512_finish (foldl sha512_update c ps)))) = 128"
    using sha512.updates_buffer [of "md_buffer ctx" ps] sha512.updates_finish [of "md_buffer ctx" ps] assms
    by (simp_all add: sha512_finish_def sha512_update_def fips_sha512_def md_hash_sha512 Let_def)
qed

lemma length_fips_sha512 [simp, len_simps]: "length (fips_sha512 m) = 64"
proof -
  have "length (foldl fips_sha512_compress SHA512_IV bs) = 8" for bs
    using foldl_process_fips512 [of SHA512_IV bs] by (simp only: SHA512_IV_def) simp
  then show ?thesis by (simp add: fips_sha512_def md_hash_def Let_def length_concat_be)
qed

lemma mbedtls_sha512_fips: "length m < 2 ^ 64 \<Longrightarrow> mbedtls_sha512 m 0 = Inr (fips_sha512 m)"
  using sha512_pieces [of sha512_init "[m]"] by (simp add: mbedtls_sha512_def sha512_init_def sha512_starts_def)

end
