(* ===== verification/Md.thy ===== *)
theory Md
  imports Sha1 Sha256 Sha512
begin

section \<open>Message digests and HMAC: libkg/mbedtls/library/md.c\<close>

text \<open>
  The dispatch over the three digests the client uses and the HMAC built on it. What HMAC
  needs of a digest is the interface \<open>incremental_hash\<close>: pieces in, hash of the
  concatenation out, and a finished context that can be started again. HMAC is proved equal to
  RFC 2104's definition, also when a context is reset and reused. The other digests of the
  library (MD5, RIPEMD-160) and allocation failures are not modelled.
\<close>

datatype md_type = MD_SHA1 | MD_SHA256 | MD_SHA512
datatype md_error = MD_BAD_INPUT_DATA
datatype md_engine = E_SHA1 sha1_context | E_SHA256 sha256_context | E_SHA512 sha512_context

record md_context =
  md_info :: "md_type option"
  md_ctx :: md_engine
  hmac_ctx :: "(bytes \<times> bytes) option"

fun md_block_size :: "md_type \<Rightarrow> nat" where
  "md_block_size MD_SHA1 = 64"
| "md_block_size MD_SHA256 = 64"
| "md_block_size MD_SHA512 = 128"

fun md_size :: "md_type \<Rightarrow> nat" where
  "md_size MD_SHA1 = 20"
| "md_size MD_SHA256 = 32"
| "md_size MD_SHA512 = 64"

subsection \<open>Dispatch\<close>

definition engine_new :: "md_type \<Rightarrow> md_engine" where
  "engine_new t = (case t of MD_SHA1 \<Rightarrow> E_SHA1 sha1_init | MD_SHA256 \<Rightarrow> E_SHA256 sha256_init | MD_SHA512 \<Rightarrow> E_SHA512 sha512_init)"

text \<open>\<open>mbedtls_md_setup\<close>: an HMAC context also gets room for the two pads.\<close>

definition md_setup :: "md_type \<Rightarrow> bool \<Rightarrow> md_context" where
  "md_setup t hmac = \<lparr>md_info = Some t, md_ctx = engine_new t,
     hmac_ctx = (if hmac then Some (replicate (md_block_size t) 0, replicate (md_block_size t) 0) else None)\<rparr>"

fun engine_starts :: "md_engine \<Rightarrow> md_error + md_engine" where
  "engine_starts (E_SHA1 c) = Inr (E_SHA1 (sha1_starts c))"
| "engine_starts (E_SHA256 c) = (case sha256_starts c 0 of Inl e \<Rightarrow> Inl MD_BAD_INPUT_DATA | Inr c' \<Rightarrow> Inr (E_SHA256 c'))"
| "engine_starts (E_SHA512 c) = (case sha512_starts c 0 of Inl e \<Rightarrow> Inl MD_BAD_INPUT_DATA | Inr c' \<Rightarrow> Inr (E_SHA512 c'))"

fun engine_update :: "md_engine \<Rightarrow> bytes \<Rightarrow> md_engine" where
  "engine_update (E_SHA1 c) b = E_SHA1 (sha1_update c b)"
| "engine_update (E_SHA256 c) b = E_SHA256 (sha256_update c b)"
| "engine_update (E_SHA512 c) b = E_SHA512 (sha512_update c b)"

fun engine_finish :: "md_engine \<Rightarrow> md_engine \<times> bytes" where
  "engine_finish (E_SHA1 c) = (let (c', d) = sha1_finish c in (E_SHA1 c', d))"
| "engine_finish (E_SHA256 c) = (let (c', d) = sha256_finish c in (E_SHA256 c', d))"
| "engine_finish (E_SHA512 c) = (let (c', d) = sha512_finish c in (E_SHA512 c', d))"

definition md_starts :: "md_context \<Rightarrow> md_error + md_context" where
  "md_starts ctx =
     (case md_info ctx of
        None \<Rightarrow> Inl MD_BAD_INPUT_DATA
      | Some t \<Rightarrow> (case engine_starts (md_ctx ctx) of Inl e \<Rightarrow> Inl e | Inr e \<Rightarrow> Inr (ctx\<lparr>md_ctx := e\<rparr>)))"

definition md_add :: "md_context \<Rightarrow> bytes \<Rightarrow> md_error + md_context" where
  "md_add ctx input =
     (case md_info ctx of
        None \<Rightarrow> Inl MD_BAD_INPUT_DATA
      | Some t \<Rightarrow> Inr (ctx\<lparr>md_ctx := engine_update (md_ctx ctx) input\<rparr>))"

definition md_done :: "md_context \<Rightarrow> md_error + md_context \<times> bytes" where
  "md_done ctx =
     (case md_info ctx of
        None \<Rightarrow> Inl MD_BAD_INPUT_DATA
      | Some t \<Rightarrow> (let (e, d) = engine_finish (md_ctx ctx) in Inr (ctx\<lparr>md_ctx := e\<rparr>, d)))"

subsection \<open>HMAC\<close>

text \<open>The early return on every error of the called functions.\<close>

definition and_then :: "'e + 'a \<Rightarrow> ('a \<Rightarrow> 'e + 'b) \<Rightarrow> 'e + 'b" where
  "and_then r f = (case r of Inl e \<Rightarrow> Inl e | Inr x \<Rightarrow> f x)"

lemma and_then_simps [simp]: "and_then (Inl e) f = Inl e" "and_then (Inr x) f = f x"
  by (simp_all add: and_then_def)

definition xor_prefix :: "bytes \<Rightarrow> bytes \<Rightarrow> bytes" where
  "xor_prefix r key = map2 (XOR) (take (length key) r) key @ drop (length key) r"

definition md_hmac_starts :: "md_context \<Rightarrow> bytes \<Rightarrow> md_error + md_context" where
  "md_hmac_starts ctx key =
     (case (md_info ctx, hmac_ctx ctx) of
        (Some t, Some pads) \<Rightarrow>
          and_then
            (if length key > md_block_size t
             then and_then (md_starts ctx) (\<lambda>c. and_then (md_add c key) md_done)
             else Inr (ctx, key))
            (\<lambda>(c, k).
              let ipad = xor_prefix (replicate (md_block_size t) 0x36) k;
                  opad = xor_prefix (replicate (md_block_size t) 0x5C) k
              in and_then (md_starts (c\<lparr>hmac_ctx := Some (ipad, opad)\<rparr>)) (\<lambda>c. md_add c ipad))
      | _ \<Rightarrow> Inl MD_BAD_INPUT_DATA)"

definition md_hmac_update :: "md_context \<Rightarrow> bytes \<Rightarrow> md_error + md_context" where
  "md_hmac_update ctx input =
     (if md_info ctx = None \<or> hmac_ctx ctx = None then Inl MD_BAD_INPUT_DATA else md_add ctx input)"

definition md_hmac_finish :: "md_context \<Rightarrow> md_error + md_context \<times> bytes" where
  "md_hmac_finish ctx =
     (case (md_info ctx, hmac_ctx ctx) of
        (Some t, Some (ipad, opad)) \<Rightarrow>
          and_then (md_done ctx) (\<lambda>(c, tmp).
            and_then (md_starts c) (\<lambda>c. and_then (md_add c opad) (\<lambda>c. and_then (md_add c (take (md_size t) tmp)) md_done)))
      | _ \<Rightarrow> Inl MD_BAD_INPUT_DATA)"

definition md_hmac_reset :: "md_context \<Rightarrow> md_error + md_context" where
  "md_hmac_reset ctx =
     (case (md_info ctx, hmac_ctx ctx) of
        (Some t, Some (ipad, opad)) \<Rightarrow> and_then (md_starts ctx) (\<lambda>c. md_add c ipad)
      | _ \<Rightarrow> Inl MD_BAD_INPUT_DATA)"

definition md_hmac :: "md_type \<Rightarrow> bytes \<Rightarrow> bytes \<Rightarrow> md_error + bytes" where
  "md_hmac t key input =
     and_then (md_hmac_starts (md_setup t True) key) (\<lambda>c.
       and_then (md_hmac_update c input) (\<lambda>c.
         and_then (md_hmac_finish c) (\<lambda>(c, mac). Inr mac)))"

subsection \<open>The contract of a digest\<close>

locale incremental_hash =
  fixes start :: "'c \<Rightarrow> 'c" and upd :: "'c \<Rightarrow> bytes \<Rightarrow> 'c" and fin :: "'c \<Rightarrow> 'c \<times> bytes"
    and ok :: "'c \<Rightarrow> bool" and H :: "bytes \<Rightarrow> bytes" and lim :: nat
  assumes pieces: "ok c \<Longrightarrow> \<forall>p \<in> set ps. length p < lim \<Longrightarrow> snd (fin (foldl upd (start c) ps)) = H (concat ps)"
    and reusable: "ok c \<Longrightarrow> \<forall>p \<in> set ps. length p < lim \<Longrightarrow> ok (fst (fin (foldl upd (start c) ps)))"
begin

lemma one_piece: "ok c \<Longrightarrow> length p < lim \<Longrightarrow> snd (fin (upd (start c) p)) = H p \<and> ok (fst (fin (upd (start c) p)))"
  using pieces [of c "[p]"] reusable [of c "[p]"] by simp

text \<open>Splitting the input differently does not change the digest.\<close>

lemma resplit:
  assumes "ok c" and "ok c'" and "\<forall>p \<in> set ps \<union> set qs. length p < lim" and "concat ps = concat qs"
  shows "snd (fin (foldl upd (start c) ps)) = snd (fin (foldl upd (start c') qs))"
  using assms pieces [of c ps] pieces [of c' qs] by simp

text \<open>The two nested hashes of HMAC, on one context.\<close>

lemma nested:
  assumes "ok c" and "\<forall>p \<in> set (ip # ps). length p < lim" and "length op < lim"
    and "(c1, d) = fin (foldl upd (start c) (ip # ps))" and "length d < lim"
  shows "snd (fin (upd (upd (start c1) op) d)) = H (op @ H (concat (ip # ps))) \<and>
    ok (fst (fin (upd (upd (start c1) op) d)))"
proof -
  have d: "d = H (concat (ip # ps))" "ok c1"
    using pieces [OF assms(1,2)] reusable [OF assms(1,2)] unfolding assms(4) [symmetric] by simp_all
  show ?thesis
    using pieces [OF d(2), of "[op, d]"] reusable [OF d(2), of "[op, d]"] assms(3,5) by (simp add: d(1))
qed

end

fun engine_ok :: "md_type \<Rightarrow> md_engine \<Rightarrow> bool" where
  "engine_ok MD_SHA1 (E_SHA1 c) = (length (md_buffer c) = 64)"
| "engine_ok MD_SHA256 (E_SHA256 c) = (length (md_buffer c) = 64)"
| "engine_ok MD_SHA512 (E_SHA512 c) = (length (md_buffer c) = 128)"
| "engine_ok _ _ = False"

fun md_hash_of :: "md_type \<Rightarrow> bytes \<Rightarrow> bytes" where
  "md_hash_of MD_SHA1 = fips_sha1"
| "md_hash_of MD_SHA256 = fips_sha256"
| "md_hash_of MD_SHA512 = fips_sha512"

definition engine_started :: "md_engine \<Rightarrow> md_engine" where
  "engine_started e = (case engine_starts e of Inl _ \<Rightarrow> e | Inr e' \<Rightarrow> e')"

lemma engine_starts_started: "engine_starts e = Inr (engine_started e)"
  by (cases e) (simp_all add: engine_started_def sha256_starts_def sha512_starts_def)

lemma foldl_engine:
  "foldl engine_update (E_SHA1 c) ps = E_SHA1 (foldl sha1_update c ps)"
  "foldl engine_update (E_SHA256 c2) ps = E_SHA256 (foldl sha256_update c2 ps)"
  "foldl engine_update (E_SHA512 c5) ps = E_SHA512 (foldl sha512_update c5 ps)"
  by (induction ps arbitrary: c c2 c5) simp_all

lemma engine_pieces:
  assumes "engine_ok t e" and "\<forall>p \<in> set ps. length p < 2 ^ 32"
  shows "snd (engine_finish (foldl engine_update (engine_started e) ps)) = md_hash_of t (concat ps) \<and>
    engine_ok t (fst (engine_finish (foldl engine_update (engine_started e) ps)))"
proof (cases e)
  case (E_SHA1 c)
  then show ?thesis using assms sha1_pieces [of c ps]
    by (cases t) (simp_all add: engine_started_def foldl_engine Let_def case_prod_unfold)
next
  case (E_SHA256 c)
  obtain c' where "sha256_starts c 0 = Inr c'" by (simp add: sha256_starts_def)
  then show ?thesis using E_SHA256 assms sha256_pieces [of c ps c']
    by (cases t) (simp_all add: engine_started_def foldl_engine Let_def case_prod_unfold)
next
  case (E_SHA512 c)
  obtain c' where "sha512_starts c 0 = Inr c'" by (simp add: sha512_starts_def)
  moreover have "\<forall>p \<in> set ps. length p < 2 ^ 64" using assms(2) by auto
  ultimately show ?thesis using E_SHA512 assms(1) sha512_pieces [of c ps c']
    by (cases t) (simp_all add: engine_started_def foldl_engine Let_def case_prod_unfold)
qed

interpretation md: incremental_hash engine_started engine_update engine_finish "engine_ok t" "md_hash_of t" "2 ^ 32" for t
  by unfold_locales (simp_all only: engine_pieces)

lemma length_md_hash_of [simp, len_simps]: "length (md_hash_of t m) = md_size t"
  by (cases t) simp_all

subsection \<open>HMAC is RFC 2104's\<close>

definition hmac_pad :: "md_type \<Rightarrow> bytes \<Rightarrow> bytes" where
  "hmac_pad t key =
     (let k = (if length key > md_block_size t then md_hash_of t key else key)
      in k @ replicate (md_block_size t - length k) 0)"

definition rfc2104_hmac :: "md_type \<Rightarrow> bytes \<Rightarrow> bytes \<Rightarrow> bytes" where
  "rfc2104_hmac t key m =
     md_hash_of t (map (\<lambda>b. b XOR 0x5C) (hmac_pad t key) @ md_hash_of t (map (\<lambda>b. b XOR 0x36) (hmac_pad t key) @ m))"

lemma xor_prefix_pad:
  "length k \<le> n \<Longrightarrow> xor_prefix (replicate n v) k = map (\<lambda>b. b XOR v) (k @ replicate (n - length k) 0)"
  by (simp add: xor_prefix_def map2_map_map [symmetric] zip_replicate1 xor.commute)

text \<open>A context keyed with \<open>key\<close>, its inner hash having been fed \<open>ps\<close>.\<close>

definition keyed :: "md_type \<Rightarrow> bytes \<Rightarrow> bytes list \<Rightarrow> md_context \<Rightarrow> bool" where
  "keyed t key ps ctx \<longleftrightarrow>
     (\<exists>e. engine_ok t e \<and> md_info ctx = Some t \<and>
       hmac_ctx ctx = Some (map (\<lambda>b. b XOR 0x36) (hmac_pad t key), map (\<lambda>b. b XOR 0x5C) (hmac_pad t key)) \<and>
       md_ctx ctx = foldl engine_update (engine_started e) (map (\<lambda>b. b XOR 0x36) (hmac_pad t key) # ps)) \<and>
     (\<forall>p \<in> set ps. length p < 2 ^ 32)"

lemma md_size_le: "md_size t \<le> md_block_size t" "md_block_size t < 2 ^ 32" "md_size t < 2 ^ 32"
  by (cases t; simp)+

lemma length_hmac_pad [simp]: "length (hmac_pad t key) = md_block_size t"
  using md_size_le(1) [of t] by (simp add: hmac_pad_def Let_def)

lemma engine_ok_new: "engine_ok t (engine_new t)"
  by (cases t) (simp_all add: engine_new_def sha1_init_def sha256_init_def sha512_init_def)

lemma md_hmac_starts_keyed:
  assumes "length key < 2 ^ 32" and "md_info ctx = Some t" and "engine_ok t (md_ctx ctx)" and "hmac_ctx ctx \<noteq> None"
  shows "\<exists>c. md_hmac_starts ctx key = Inr c \<and> keyed t key [] c"
proof -
  define k where "k = (if length key > md_block_size t then md_hash_of t key else key)"
  have lk: "length k \<le> md_block_size t" using md_size_le(1) [of t] by (simp add: k_def)
  have "\<exists>c. engine_ok t (md_ctx c) \<and> md_info c = Some t \<and>
    (if length key > md_block_size t then and_then (md_starts ctx) (\<lambda>c. and_then (md_add c key) md_done) else Inr (ctx, key)) = Inr (c, k)"
  proof (cases "length key > md_block_size t")
    case True
    then show ?thesis
      using md.one_piece [OF assms(3,1)] assms(2)
      by (simp add: md_starts_def md_add_def md_done_def engine_starts_started k_def case_prod_unfold Let_def)
  next
    case False
    then show ?thesis using assms by (simp add: k_def)
  qed
  then obtain c where c: "engine_ok t (md_ctx c)" "md_info c = Some t"
    "(if length key > md_block_size t then and_then (md_starts ctx) (\<lambda>c. and_then (md_add c key) md_done) else Inr (ctx, key)) = Inr (c, k)"
    by blast
  have "hmac_pad t key = k @ replicate (md_block_size t - length k) 0" by (simp add: hmac_pad_def k_def Let_def)
  then show ?thesis
    using assms(2,4) c
    by (auto simp: md_hmac_starts_def xor_prefix_pad [OF lk] md_starts_def md_add_def engine_starts_started keyed_def Let_def)
qed

lemma md_hmac_update_keyed:
  assumes "keyed t key ps ctx" and "length p < 2 ^ 32"
  shows "\<exists>c. md_hmac_update ctx p = Inr c \<and> keyed t key (ps @ [p]) c"
  using assms by (auto simp: md_hmac_update_def md_add_def keyed_def)

lemma md_hmac_finish_keyed:
  assumes "keyed t key ps ctx"
  shows "\<exists>c. md_hmac_finish ctx = Inr (c, rfc2104_hmac t key (concat ps)) \<and> md_info c = Some t \<and>
    engine_ok t (md_ctx c) \<and> hmac_ctx c = hmac_ctx ctx"
proof -
  define ip where "ip = map (\<lambda>b. b XOR 0x36) (hmac_pad t key)"
  define op where "op = map (\<lambda>b. b XOR 0x5C) (hmac_pad t key)"
  obtain e where e: "engine_ok t e" "md_info ctx = Some t" "hmac_ctx ctx = Some (ip, op)"
    "md_ctx ctx = foldl engine_update (engine_started e) (ip # ps)"
    using assms unfolding keyed_def ip_def op_def by blast
  obtain c1 d where f: "(c1, d) = engine_finish (foldl engine_update (engine_started e) (ip # ps))"
    by (metis surj_pair)
  have l: "\<forall>p \<in> set (ip # ps). length p < 2 ^ 32" "length op < 2 ^ 32"
    using assms md_size_le(2) [of t] by (auto simp: keyed_def ip_def op_def)
  have d: "d = md_hash_of t (concat (ip # ps))" "length d = md_size t"
    using md.pieces [OF e(1) l(1)] f [symmetric] by simp_all
  have n: "snd (engine_finish (engine_update (engine_update (engine_started c1) op) d)) = md_hash_of t (op @ md_hash_of t (concat (ip # ps)))"
    "engine_ok t (fst (engine_finish (engine_update (engine_update (engine_started c1) op) d)))"
    using md.nested [OF e(1) l f] d(2) md_size_le(3) [of t] by simp_all
  have td: "take (md_size t) d = d" using d(2) by simp
  have "md_done ctx = Inr (ctx\<lparr>md_ctx := c1\<rparr>, d)"
    using e(2,4) f [symmetric] by (simp add: md_done_def)
  then show ?thesis
    using e(2,3) n td by (simp add: md_hmac_finish_def md_starts_def md_add_def md_done_def engine_starts_started
        case_prod_unfold Let_def rfc2104_hmac_def ip_def [symmetric] op_def [symmetric])
qed

lemma md_hmac_reset_keyed:
  assumes "md_info c = Some t" and "engine_ok t (md_ctx c)" and "hmac_ctx c = hmac_ctx ctx" and "keyed t key ps ctx"
  shows "\<exists>c'. md_hmac_reset c = Inr c' \<and> keyed t key [] c'"
  using assms by (auto simp: md_hmac_reset_def md_starts_def md_add_def engine_starts_started keyed_def)

lemma md_hmac_rfc2104:
  assumes "length key < 2 ^ 32" and "length m < 2 ^ 32"
  shows "md_hmac t key m = Inr (rfc2104_hmac t key m)"
proof -
  obtain c where c: "md_hmac_starts (md_setup t True) key = Inr c" "keyed t key [] c"
    using md_hmac_starts_keyed [OF assms(1), of "md_setup t True" t] engine_ok_new [of t] by (auto simp: md_setup_def)
  obtain c2 where c2: "md_hmac_update c m = Inr c2" "keyed t key [m] c2"
    using md_hmac_update_keyed [OF c(2) assms(2)] by auto
  show ?thesis using md_hmac_finish_keyed [OF c2(2)] c(1) c2(1) by (auto simp: md_hmac_def)
qed

subsection \<open>A digest through the dispatch\<close>

lemma md_adds:
  "md_info c = Some t \<Longrightarrow>
   foldl (\<lambda>c p. case md_add c p of Inl _ \<Rightarrow> c | Inr c' \<Rightarrow> c') c ps = c\<lparr>md_ctx := foldl engine_update (md_ctx c) ps\<rparr>"
  by (induction ps arbitrary: c) (simp_all add: md_add_def)

lemma md_pieces:
  assumes "\<forall>p \<in> set ps. length p < 2 ^ 32"
  shows "\<exists>c c' d. md_starts (md_setup t hmac) = Inr c \<and>
    md_done (foldl (\<lambda>c p. case md_add c p of Inl _ \<Rightarrow> c | Inr c' \<Rightarrow> c') c ps) = Inr (c', d) \<and>
    d = md_hash_of t (concat ps)"
proof -
  let ?c = "(md_setup t hmac)\<lparr>md_ctx := engine_started (engine_new t)\<rparr>"
  have "md_starts (md_setup t hmac) = Inr ?c" by (simp add: md_starts_def md_setup_def engine_starts_started)
  moreover have "md_info ?c = Some t" by (simp add: md_setup_def)
  ultimately show ?thesis
    using md.pieces [OF engine_ok_new assms] by (simp add: md_adds md_done_def case_prod_unfold Let_def md_setup_def)
qed

end
