(* ===== verification/Mpi.thy ===== *)
theory Mpi
  imports Prelude
begin

section \<open>Big integers by value: the mbedtls_mpi operations the client calls\<close>

text \<open>
  The client uses \<open>mbedtls_mpi\<close> through a few calls of libkg/mbedtls/library/bignum.c. They
  are modelled on the numbers the limbs stand for, with the checks and the errors the
  C functions make at their boundary; the limb arithmetic itself is not modelled here, nor are
  allocation failures.
\<close>

text \<open>\<open>mbedtls_mpi_read_binary\<close>: big-endian bytes as a number.\<close>

fun be_nat_acc :: "nat \<Rightarrow> bytes \<Rightarrow> nat" where
  "be_nat_acc n [] = n"
| "be_nat_acc n (b # bs) = be_nat_acc (256 * n + unat b) bs"

definition be_nat :: "bytes \<Rightarrow> nat" where
  "be_nat bs = be_nat_acc 0 bs"

text \<open>The low \<open>n\<close> bytes, most significant first.\<close>

fun nat_be :: "nat \<Rightarrow> nat \<Rightarrow> bytes" where
  "nat_be 0 v = []"
| "nat_be (Suc n) v = nat_be n (v div 256) @ [of_nat v]"

text \<open>\<open>mbedtls_mpi_bitlen\<close> and \<open>mbedtls_mpi_size\<close>\<close>

fun mpi_bitlen :: "nat \<Rightarrow> nat" where
  "mpi_bitlen v = (if v = 0 then 0 else Suc (mpi_bitlen (v div 2)))"

declare mpi_bitlen.simps [simp del]

definition mpi_size :: "nat \<Rightarrow> nat" where
  "mpi_size v = (mpi_bitlen v + 7) div 8"

datatype mpi_error = MPI_BAD_INPUT_DATA | MPI_BUFFER_TOO_SMALL | MPI_DIVISION_BY_ZERO | MPI_NEGATIVE_VALUE

text \<open>\<open>mbedtls_mpi_write_binary\<close>: refuses a number that does not fit; pads on the left.\<close>

definition mpi_write_binary :: "nat \<Rightarrow> nat \<Rightarrow> mpi_error + bytes" where
  "mpi_write_binary v len = (if mpi_size v \<le> len then Inr (nat_be len v) else Inl MPI_BUFFER_TOO_SMALL)"

definition MPI_MAX_BITS :: nat where
  "MPI_MAX_BITS = 8192"

fun pow_mod :: "nat \<Rightarrow> nat \<Rightarrow> nat \<Rightarrow> nat" where
  "pow_mod a e n =
     (if e = 0 then 1 mod n
      else let h = pow_mod (a * a mod n) (e div 2) n in if even e then h else a * h mod n)"

declare pow_mod.simps [simp del]

text \<open>\<open>mbedtls_mpi_exp_mod\<close> for a base that is not negative: the modulus must be odd.\<close>

definition mpi_exp_mod :: "nat \<Rightarrow> nat \<Rightarrow> nat \<Rightarrow> mpi_error + nat" where
  "mpi_exp_mod a e n =
     (if even n then Inl MPI_BAD_INPUT_DATA
      else if mpi_bitlen e > MPI_MAX_BITS \<or> mpi_bitlen n > MPI_MAX_BITS then Inl MPI_BAD_INPUT_DATA
      else Inr (pow_mod (a mod n) e n))"

definition mpi_mod_int :: "nat \<Rightarrow> int \<Rightarrow> mpi_error + nat" where
  "mpi_mod_int a b =
     (if b = 0 then Inl MPI_DIVISION_BY_ZERO else if b < 0 then Inl MPI_NEGATIVE_VALUE else Inr (a mod nat b))"

subsection \<open>Facts\<close>

lemma pow_mod_correct: "pow_mod a e n = a ^ e mod n"
proof (induction a e n rule: pow_mod.induct)
  case (1 a e n)
  show ?case
  proof (cases "e = 0")
    case True
    then show ?thesis by (simp add: pow_mod.simps)
  next
    case False
    have h: "pow_mod (a * a mod n) (e div 2) n = a ^ (2 * (e div 2)) mod n"
      using "1.IH" [OF False] by (simp add: power_mult power2_eq_square power_mod)
    show ?thesis
    proof (cases "even e")
      case True
      then show ?thesis using False h by (simp add: pow_mod.simps [of a e])
    next
      case odd: False
      then have "e = Suc (2 * (e div 2))" by simp
      then have "a ^ e = a * a ^ (2 * (e div 2))" by (metis power_Suc)
      then show ?thesis using False odd h by (simp add: pow_mod.simps [of a e] mod_mult_right_eq)
    qed
  qed
qed

lemma mpi_exp_mod_ok:
  "odd n \<Longrightarrow> mpi_bitlen e \<le> MPI_MAX_BITS \<Longrightarrow> mpi_bitlen n \<le> MPI_MAX_BITS \<Longrightarrow> mpi_exp_mod a e n = Inr (a ^ e mod n)"
  by (simp add: mpi_exp_mod_def pow_mod_correct power_mod)

lemma be_nat_acc_eq: "be_nat_acc n bs = n * 256 ^ length bs + be_nat bs"
proof (induction bs arbitrary: n)
  case (Cons b bs)
  show ?case
    unfolding be_nat_def be_nat_acc.simps Cons [of "256 * n + unat b"] Cons [of "256 * 0 + unat b"]
    by (simp add: algebra_simps)
qed (simp add: be_nat_def)

lemma be_nat_simps [simp]:
  "be_nat [] = 0"
  "be_nat (b # bs) = unat b * 256 ^ length bs + be_nat bs"
  by (simp_all add: be_nat_def be_nat_acc_eq [of "unat b", unfolded be_nat_def])

lemma be_nat_append: "be_nat (a @ b) = be_nat a * 256 ^ length b + be_nat b"
  by (induction a) (simp_all add: power_add algebra_simps)

lemma unat_byte_less: "unat (b :: byte) < 256"
proof -
  have "unat b < 2 ^ LENGTH(8)" by (rule unsigned_less)
  then show ?thesis by simp
qed

lemma be_nat_less: "be_nat bs < 256 ^ length bs"
proof (induction bs)
  case (Cons b bs)
  have "unat b \<le> 255" using unat_byte_less [of b] by simp
  then have "unat b * 256 ^ length bs \<le> 255 * 256 ^ length bs" by (rule mult_le_mono1)
  then show ?case unfolding be_nat_simps length_Cons power_Suc using Cons by linarith
qed simp

lemma length_nat_be [simp, len_simps]: "length (nat_be n v) = n"
  by (induction n arbitrary: v) auto

lemma be_nat_nat_be: "v < 256 ^ n \<Longrightarrow> be_nat (nat_be n v) = v"
proof (induction n arbitrary: v)
  case (Suc n)
  have "v div 256 < 256 ^ n" using Suc.prems by (simp add: less_mult_imp_div_less mult.commute)
  then show ?case using Suc.IH [of "v div 256"]
    by (simp add: be_nat_append unat_of_nat div_mult_mod_eq)
qed simp

lemma nat_be_be_nat: "nat_be (length bs) (be_nat bs) = bs"
proof (induction bs rule: rev_induct)
  case (snoc b bs)
  have "(256 :: byte) = 0" by simp
  then have e: "(of_nat (be_nat bs * 256 + unat b) :: byte) = b" by (simp only: of_nat_add of_nat_mult of_nat_numeral mult_zero_right add_0) simp
  have "(be_nat bs * 256 + unat b) div 256 = be_nat bs" using unat_byte_less [of b] by simp
  then show ?case using snoc e by (simp add: be_nat_append)
qed simp

lemma mpi_bitlen_bound: "v < 2 ^ mpi_bitlen v"
proof (induction v rule: mpi_bitlen.induct)
  case (1 v)
  then show ?case by (cases "v = 0") (auto simp: mpi_bitlen.simps [of v])
qed

lemma mpi_bitlen_le: "v < 2 ^ k \<Longrightarrow> mpi_bitlen v \<le> k"
proof (induction v arbitrary: k rule: mpi_bitlen.induct)
  case (1 v)
  show ?case
  proof (cases "v = 0")
    case True
    then show ?thesis by (simp add: mpi_bitlen.simps)
  next
    case False
    with 1(2) obtain k' where k: "k = Suc k'" by (cases k) auto
    then have "v div 2 < 2 ^ k'" using 1(2) by (simp add: less_mult_imp_div_less mult.commute)
    then show ?thesis using 1(1) [OF False] False k by (simp add: mpi_bitlen.simps [of v])
  qed
qed

lemma mpi_size_bound: "v < 256 ^ mpi_size v"
proof -
  have "mpi_bitlen v \<le> 8 * mpi_size v" by (simp add: mpi_size_def)
  then have "(2 :: nat) ^ mpi_bitlen v \<le> 2 ^ (8 * mpi_size v)" by (intro power_increasing) simp_all
  also have "\<dots> = 256 ^ mpi_size v" by (simp add: power_mult)
  finally show ?thesis using mpi_bitlen_bound [of v] by simp
qed

lemma mpi_size_le: "v < 256 ^ n \<Longrightarrow> mpi_size v \<le> n"
proof -
  assume "v < 256 ^ n"
  then have "v < 2 ^ (8 * n)" by (simp add: power_mult)
  then have "mpi_bitlen v \<le> 8 * n" by (rule mpi_bitlen_le)
  then show ?thesis by (simp add: mpi_size_def)
qed

lemma mpi_write_binary_ok: "v < 256 ^ n \<Longrightarrow> mpi_write_binary v n = Inr (nat_be n v)"
  by (simp add: mpi_write_binary_def mpi_size_le)

lemma be_nat_inj: "length a = length b \<Longrightarrow> be_nat a = be_nat b \<Longrightarrow> a = b"
  by (metis nat_be_be_nat)

end
