(* ===== verification/Crypto.thy ===== *)
theory Crypto
  imports TgStream Ige Md Mpi "HOL-Library.Signed_Division"
begin

section \<open>The client's cryptographic helpers: libkg/crypto.cpp\<close>

text \<open>
  Random bytes come from a DRBG seeded from the platform's entropy on every call: the
  parameter \<open>rng n sz\<close> is what the \<open>n\<close>-th call produces for \<open>sz\<close> bytes, \<open>None\<close> when
  seeding or generating fails. A function that draws takes the number of the next call
  and returns it advanced. Hashes and ciphers are the vendored ones.
\<close>

type_synonym rng = "nat \<Rightarrow> nat \<Rightarrow> bytes option"

definition rng_ok :: "rng \<Rightarrow> bool" where
  "rng_ok rng \<longleftrightarrow> (\<forall>n sz. sz \<le> 1024 \<longrightarrow> (\<exists>b. rng n sz = Some b \<and> length b = sz))"

subsection \<open>Randomness\<close>

definition CTR_DRBG_MAX_REQUEST :: nat where
  "CTR_DRBG_MAX_REQUEST = 1024"

definition randomBytes :: "rng \<Rightarrow> nat \<Rightarrow> int \<Rightarrow> bytes \<times> nat" where
  "randomBytes rng n sz =
     (let len = nat sz
      in (if len > CTR_DRBG_MAX_REQUEST then []
          else case rng n len of None \<Rightarrow> [] | Some b \<Rightarrow> b, Suc n))"

text \<open>Eight bytes read from what may be an empty array: past its end memory is arbitrary.\<close>

definition randomLong :: "qtenv \<Rightarrow> rng \<Rightarrow> nat \<Rightarrow> i64 \<times> nat" where
  "randomLong env rng n =
     (let (b, n1) = randomBytes rng n 8
      in (le_decode (take 8 (b @ map (uninit env) [length b..<8])), n1))"

definition qAbs :: "i32 \<Rightarrow> i32" where
  "qAbs v = (if 0 \<le> sint v then v else - v)"

definition randomInt :: "rng \<Rightarrow> nat \<Rightarrow> i32 \<Rightarrow> i32 \<times> nat" where
  "randomInt rng n lowerThan =
     (if sint lowerThan < 1 then (0, n)
      else
        let (array, n1) = randomBytes rng n 4
        in if length array < 4 then (0, n1)
           else (word_of_int (sint (qAbs (be_decode (take 4 array))) smod sint lowerThan), n1))"

subsection \<open>Byte arrays\<close>

text \<open>\<open>reverse\<close>: swaps from both ends inwards.\<close>

fun swap_loop :: "nat \<Rightarrow> int \<Rightarrow> int \<Rightarrow> bytes \<Rightarrow> bytes" where
  "swap_loop 0 low high a = a"
| "swap_loop (Suc fuel) low high a =
     (if low < high
      then swap_loop fuel (low + 1) (high - 1) (a[nat low := a ! nat high, nat high := a ! nat low])
      else a)"

definition reverse :: "bytes \<Rightarrow> bytes" where
  "reverse array = swap_loop (length array) 0 (int (length array) - 1) array"

definition xorArray :: "bytes \<Rightarrow> bytes \<Rightarrow> bytes" where
  "xorArray a b =
     (let result = (if length a > length b then a else b);
          minLength = (if length a > length b then length b else length a)
      in map (\<lambda>i. if i < minLength then a ! i XOR b ! i else result ! i) [0..<length result])"

fun compare_loop :: "bytes \<Rightarrow> bytes \<Rightarrow> int" where
  "compare_loop (x # xs) (y # ys) = (if x > y then 1 else if y > x then - 1 else compare_loop xs ys)"
| "compare_loop _ _ = 0"

definition compareAsBigEndian :: "bytes \<Rightarrow> bytes \<Rightarrow> int" where
  "compareAsBigEndian a b =
     (if length a \<noteq> length b then (if length a > length b then 1 else - 1) else compare_loop a b)"

subsection \<open>Hashes\<close>

definition hashSHA1 :: "bytes \<Rightarrow> bytes" where
  "hashSHA1 d = snd (sha1_finish (sha1_update (sha1_starts sha1_init) d))"

text \<open>The return codes are ignored: a context that was not started stays as it was.\<close>

definition hashSHA256 :: "bytes \<Rightarrow> bytes" where
  "hashSHA256 d =
     snd (sha256_finish (sha256_update (case sha256_starts sha256_init 0 of Inl e \<Rightarrow> sha256_init | Inr c \<Rightarrow> c) d))"

definition hashSHA512 :: "bytes \<Rightarrow> bytes" where
  "hashSHA512 d =
     snd (sha512_finish (sha512_update (case sha512_starts sha512_init 0 of Inl e \<Rightarrow> sha512_init | Inr c \<Rightarrow> c) d))"

definition hmacSHA512 :: "bytes \<Rightarrow> bytes \<Rightarrow> bytes" where
  "hmacSHA512 key d = (case md_hmac MD_SHA512 key d of Inl e \<Rightarrow> [] | Inr mac \<Rightarrow> mac)"

subsection \<open>AES and RSA\<close>

definition aes_ctx :: "aes_context option \<Rightarrow> aes_context" where
  "aes_ctx r = (case r of Some c \<Rightarrow> c | None \<Rightarrow> \<lparr>aes_nr = 0, aes_rk = []\<rparr>)"

definition decryptAES256IGE :: "bytes \<Rightarrow> bytes \<Rightarrow> bytes \<Rightarrow> bytes" where
  "decryptAES256IGE d iv key =
     (case aes_crypt_ige (aes_ctx (setkey_dec key 256)) MBEDTLS_AES_DECRYPT (length d) iv d of
        Inl e \<Rightarrow> []
      | Inr (out, iv') \<Rightarrow> out)"

text \<open>Encryption ignores the error: the output then is the array as it was allocated.\<close>

definition encryptAES256IGE :: "qtenv \<Rightarrow> bytes \<Rightarrow> bytes \<Rightarrow> bytes \<Rightarrow> bytes" where
  "encryptAES256IGE env d iv key =
     (case aes_crypt_ige (aes_ctx (setkey_enc key 256)) MBEDTLS_AES_ENCRYPT (length d) iv d of
        Inl e \<Rightarrow> map (uninit env) [0..<length d]
      | Inr (out, iv') \<Rightarrow> out)"

definition encryptRSA :: "bytes \<Rightarrow> bytes \<Rightarrow> bytes \<Rightarrow> bytes" where
  "encryptRSA d key exponent =
     (case mpi_exp_mod (be_nat d) (be_nat exponent) (be_nat key) of
        Inl e \<Rightarrow> []
      | Inr r \<Rightarrow> nat_be (mpi_size r) r)"

subsection \<open>Message keys\<close>

definition calcMessageKey :: "bytes \<Rightarrow> bytes \<Rightarrow> bool \<Rightarrow> bytes" where
  "calcMessageKey authKey d client =
     ba_mid 8 16 (hashSHA256 (ba_mid (if client then 88 else 96) 32 authKey @ d))"

text \<open>Returns the key and the IV.\<close>

definition calcEncryptionKey :: "bytes \<Rightarrow> bytes \<Rightarrow> bool \<Rightarrow> bytes \<times> bytes" where
  "calcEncryptionKey authKey msgKey client =
     (let x = (if client then 0 else 8);
          sha256A = hashSHA256 (msgKey @ ba_mid x 36 authKey);
          sha256B = hashSHA256 (ba_mid (40 + x) 36 authKey @ msgKey)
      in (ba_mid 0 8 sha256A @ ba_mid 8 16 sha256B @ ba_mid 24 8 sha256A,
          ba_mid 0 8 sha256B @ ba_mid 8 16 sha256A @ ba_mid 24 8 sha256B))"

subsection \<open>RSA padding\<close>

record dhkey =
  dh_publicKey :: bytes
  dh_exponent :: bytes
  dh_fingerprint :: i64

text \<open>\<open>QByteArray::fromHex\<close>: what is not a hexadecimal digit is skipped; digits pair up from the end.\<close>

definition hex_nibble :: "char \<Rightarrow> byte option" where
  "hex_nibble ch =
     (let c = of_char ch :: nat
      in if 48 \<le> c \<and> c \<le> 57 then Some (of_nat (c - 48))
         else if 97 \<le> c \<and> c \<le> 102 then Some (of_nat (c - 87))
         else if 65 \<le> c \<and> c \<le> 70 then Some (of_nat (c - 55))
         else None)"

fun hex_pairs :: "byte list \<Rightarrow> bytes" where
  "hex_pairs [] = []"
| "hex_pairs [lo] = [lo]"
| "hex_pairs (lo # hi # r) = (lo OR push_bit 4 hi) # hex_pairs r"

definition fromHex :: "string \<Rightarrow> bytes" where
  "fromHex s = rev (hex_pairs (rev (List.map_filter hex_nibble s)))"

text \<open>The fingerprint defaults to the last eight bytes of the hash of the serialized key.\<close>

definition DHKey :: "qtenv \<Rightarrow> string \<Rightarrow> i64 \<Rightarrow> string \<Rightarrow> dhkey" where
  "DHKey env publicKey fingerprint exponent =
     (let raw = fromHex publicKey;
          pk = (if raw \<noteq> [] \<and> hd raw = 0 then tl raw else raw);
          ex = fromHex exponent;
          packet = writeByteArray (writeByteArray (mk_stream env []) (VBytes pk)) (VBytes ex);
          result = ba_mid 12 8 (hashSHA1 (toByteArray packet))
      in \<lparr>dh_publicKey = pk, dh_exponent = ex,
          dh_fingerprint = (if fingerprint = 0 then le_decode result else fingerprint)\<rparr>)"

text \<open>One pass of the loop: the temporary key drawn and what it makes of the data.\<close>

definition rsaPad_attempt :: "qtenv \<Rightarrow> bytes \<Rightarrow> bytes \<Rightarrow> bytes \<Rightarrow> bytes" where
  "rsaPad_attempt env dataWithPadding dataPadReversed tempKey =
     (let dataWithHash = dataPadReversed @ hashSHA256 (tempKey @ dataWithPadding);
          aesEncrypted = encryptAES256IGE env dataWithHash (replicate 32 0) tempKey;
          tempKeyXor = xorArray tempKey (hashSHA256 aesEncrypted)
      in tempKeyXor @ aesEncrypted)"

partial_function (option) rsaPad_loop :: "qtenv \<Rightarrow> rng \<Rightarrow> nat \<Rightarrow> bytes \<Rightarrow> bytes \<Rightarrow> bytes \<Rightarrow> (bytes \<times> nat) option" where
  "rsaPad_loop env rng n dataWithPadding dataPadReversed publicKey =
     (let (tempKey, n1) = randomBytes rng n 32;
          keyAesEncrypted = rsaPad_attempt env dataWithPadding dataPadReversed tempKey
      in if compareAsBigEndian keyAesEncrypted publicKey \<noteq> - 1
         then rsaPad_loop env rng n1 dataWithPadding dataPadReversed publicKey
         else Some (keyAesEncrypted, n1))"

definition rsaPad :: "qtenv \<Rightarrow> rng \<Rightarrow> nat \<Rightarrow> bytes \<Rightarrow> dhkey \<Rightarrow> (bytes \<times> nat) option" where
  "rsaPad env rng n d key =
     (let (pad, n1) = randomBytes rng n (192 - int (length d));
          dataWithPadding = d @ pad
      in map_option (\<lambda>(k, n2). (encryptRSA k (dh_publicKey key) (dh_exponent key), n2))
           (rsaPad_loop env rng n1 dataWithPadding (reverse dataWithPadding) (dh_publicKey key)))"

end
