(* ===== verification/CryptoFacts.thy ===== *)
theory CryptoFacts
  imports Crypto
begin

section \<open>What the cryptographic helpers compute\<close>

text \<open>
  The byte-array loops are the list functions they stand for, the hashes the standard's, the
  two IGE calls inverse to each other, and the RSA padding one its receiver can undo.
\<close>

subsection \<open>Byte arrays\<close>

lemma swap_loop_nth:
  "low + high = int (length a) - 1 \<Longrightarrow> 0 \<le> low \<Longrightarrow> high - low \<le> 2 * int fuel \<Longrightarrow>
   length (swap_loop fuel low high a) = length a \<and>
   (\<forall>i < length a. swap_loop fuel low high a ! i =
      (if low \<le> int i \<and> int i \<le> high then a ! (length a - 1 - i) else a ! i))"
proof (induction fuel arbitrary: low high a)
  case 0
  have "a ! i = a ! (length a - 1 - i)" if "low \<le> int i" "int i \<le> high" for i
  proof -
    have "i = length a - 1 - i" using 0 that by linarith
    then show ?thesis by simp
  qed
  then show ?case by auto
next
  case (Suc fuel)
  show ?case
  proof (cases "low < high")
    case False
    have "a ! i = a ! (length a - 1 - i)" if "low \<le> int i" "int i \<le> high" for i
    proof -
      have "i = length a - 1 - i" using Suc.prems that False by linarith
      then show ?thesis by simp
    qed
    then show ?thesis using False by auto
  next
    case True
    define b where "b = a[nat low := a ! nat high, nat high := a ! nat low]"
    have lb: "length b = length a" by (simp add: b_def)
    have ih: "length (swap_loop fuel (low + 1) (high - 1) b) = length a"
      "i < length a \<Longrightarrow> swap_loop fuel (low + 1) (high - 1) b ! i =
        (if low + 1 \<le> int i \<and> int i \<le> high - 1 then b ! (length a - 1 - i) else b ! i)" for i
      using Suc.IH [of "low + 1" "high - 1" b] Suc.prems lb by simp_all
    have hi: "nat high = length a - 1 - nat low" "nat low < length a" "nat high < length a" "nat low \<noteq> nat high"
      using Suc.prems True by linarith+
    have "swap_loop fuel (low + 1) (high - 1) b ! i = (if low \<le> int i \<and> int i \<le> high then a ! (length a - 1 - i) else a ! i)"
      if i: "i < length a" for i
    proof -
      consider "int i = low" | "int i = high" | "low < int i \<and> int i < high" | "int i < low \<or> high < int i" by linarith
      then show ?thesis
      proof cases
        case 1
        then have "i = nat low" by (metis nat_int)
        then have "length a - 1 - i = nat high" using hi by simp
        note this \<open>i = nat low\<close>
        then show ?thesis using ih(2) [OF i] 1 True hi by (simp add: b_def)
      next
        case 2
        then have "i = nat high" by (metis nat_int)
        then have "length a - 1 - i = nat low" using hi by simp
        note this \<open>i = nat high\<close>
        then show ?thesis using ih(2) [OF i] 2 True hi by (simp add: b_def)
      next
        case 3
        then have "length a - 1 - i \<noteq> nat low" "length a - 1 - i \<noteq> nat high" using Suc.prems i by linarith+
        then show ?thesis using ih(2) [OF i] 3 by (simp add: b_def)
      next
        case 4
        then have "i \<noteq> nat low" "i \<noteq> nat high" "\<not> (low \<le> int i \<and> int i \<le> high)" "\<not> (low + 1 \<le> int i \<and> int i \<le> high - 1)"
          using Suc.prems True by linarith+
        then show ?thesis unfolding ih(2) [OF i] by (simp only: if_False) (simp add: b_def)
      qed
    qed
    then show ?thesis using True ih(1) by (simp add: b_def)
  qed
qed

lemma reverse_rev: "reverse a = rev a"
proof (rule nth_equalityI)
  show "length (reverse a) = length (rev a)"
    using swap_loop_nth [of 0 "int (length a) - 1" a "length a"] by (simp add: reverse_def)
next
  fix i assume "i < length (reverse a)"
  then have "i < length a" using swap_loop_nth [of 0 "int (length a) - 1" a "length a"] by (simp add: reverse_def)
  then show "reverse a ! i = rev a ! i"
    using swap_loop_nth [of 0 "int (length a) - 1" a "length a"] by (simp add: reverse_def rev_nth)
qed

lemma xorArray_xor: "length a = length b \<Longrightarrow> xorArray a b = xor_bytes a b"
  by (intro nth_equalityI) (simp_all add: xorArray_def xor_bytes_def Let_def)

lemma compare_loop_be:
  "length a = length b \<Longrightarrow> compare_loop a b =
     (if be_nat b < be_nat a then 1 else if be_nat a < be_nat b then - 1 else 0)"
proof (induction a b rule: list_induct2)
  case (Cons x xs y ys)
  have bx: "be_nat xs < 256 ^ length xs" "be_nat ys < 256 ^ length xs" using be_nat_less [of xs] be_nat_less [of ys] Cons.hyps by simp_all
  consider "unat x < unat y" | "unat y < unat x" | "x = y" by (metis linorder_neqE_nat word_unat_eq_iff)
  then show ?case
  proof cases
    case 1
    then have "unat x * 256 ^ length xs + 256 ^ length xs \<le> unat y * 256 ^ length xs"
      by (metis Suc_leI mult_Suc mult_le_mono1 add.commute)
    then have "be_nat (x # xs) < be_nat (y # ys)" using bx Cons.hyps unfolding be_nat_simps by simp
    then show ?thesis using 1 by (simp add: word_less_nat_alt)
  next
    case 2
    then have "unat y * 256 ^ length xs + 256 ^ length xs \<le> unat x * 256 ^ length xs"
      by (metis Suc_leI mult_Suc mult_le_mono1 add.commute)
    then have "be_nat (y # ys) < be_nat (x # xs)" using bx Cons.hyps unfolding be_nat_simps by simp
    then show ?thesis using 2 by (simp add: word_less_nat_alt)
  next
    case 3
    then show ?thesis using Cons by simp
  qed
qed simp

text \<open>On arrays of one length this is the order of the numbers; otherwise the longer array is the greater.\<close>

lemma compareAsBigEndian_eq:
  "compareAsBigEndian a b =
     (if length a \<noteq> length b then (if length a > length b then 1 else - 1)
      else if be_nat a > be_nat b then 1 else if be_nat a < be_nat b then - 1 else 0)"
  by (simp add: compareAsBigEndian_def compare_loop_be)

subsection \<open>Randomness\<close>

lemma randomBytes_ok:
  "rng_ok rng \<Longrightarrow> sz \<le> 1024 \<Longrightarrow> \<exists>b. randomBytes rng n sz = (b, Suc n) \<and> length b = nat sz"
proof -
  assume a: "rng_ok rng" "sz \<le> 1024"
  then have "nat sz \<le> 1024" by simp
  then obtain b where "rng n (nat sz) = Some b" "length b = nat sz" using a(1) unfolding rng_ok_def by blast
  then show ?thesis using a(2) by (simp add: randomBytes_def CTR_DRBG_MAX_REQUEST_def Let_def)
qed

lemma sint32_bounds: "- (2 ^ 31) \<le> sint (v :: i32)" "sint (v :: i32) < 2 ^ 31"
  using sint_greater_eq [of v] sint_less [of v] by simp_all

lemma sint_qAbs: "sint v \<noteq> - (2 ^ 31) \<Longrightarrow> sint (qAbs v) = \<bar>sint v\<bar>"
proof -
  assume "sint v \<noteq> - (2 ^ 31)"
  then have "- sint v \<in> {- (2 ^ 31)..2 ^ 31 - 1}" using sint32_bounds [of v] by auto
  then have "sint (- v) = - sint v"
    by (simp add: sint_word_ariths signed_take_bit_int_eq_self)
  then show ?thesis by (auto simp: qAbs_def)
qed

text \<open>
  \<open>randomInt\<close> stays in its range unless the four bytes read as the least integer, which
  \<open>qAbs\<close> cannot negate.
\<close>

lemma randomInt_range:
  assumes "1 \<le> sint lowerThan"
    and "\<And>array. randomBytes rng n 4 = (array, Suc n) \<Longrightarrow> take 4 array \<noteq> [0x80, 0, 0, 0]"
  shows "0 \<le> sint (fst (randomInt rng n lowerThan)) \<and> sint (fst (randomInt rng n lowerThan)) < sint lowerThan"
proof -
  obtain array where r: "randomBytes rng n 4 = (array, Suc n)" by (simp add: randomBytes_def Let_def)
  show ?thesis
  proof (cases "length array < 4")
    case True
    then show ?thesis using assms(1) r by (simp add: randomInt_def)
  next
    case False
    define v where "v = (be_decode (take 4 array) :: i32)"
    have "v \<noteq> 0x80000000"
    proof
      assume "v = 0x80000000"
      moreover have "be_encode (length (take 4 array)) v = take 4 array" unfolding v_def by (intro be_encode_decode) simp
      ultimately have "take 4 array = be_encode 4 (0x80000000 :: i32)" using False by simp
      moreover have "be_encode 4 (0x80000000 :: i32) = [0x80, 0, 0, 0]" by code_simp
      ultimately show False using assms(2) [OF r] by simp
    qed
    moreover have "sint (0x80000000 :: i32) = - (2 ^ 31)" by simp
    ultimately have "sint v \<noteq> - (2 ^ 31)" by (metis signed_word_eqI)
    then have a: "0 \<le> sint (qAbs v)" by (simp add: sint_qAbs)
    have m: "sint (qAbs v) smod sint lowerThan = sint (qAbs v) mod sint lowerThan"
      using a assms(1) by (simp add: smod_mod_positive)
    have b: "0 \<le> sint (qAbs v) mod sint lowerThan" "sint (qAbs v) mod sint lowerThan < sint lowerThan"
      using assms(1) by simp_all
    then have "sint (word_of_int (sint (qAbs v) mod sint lowerThan) :: i32) = sint (qAbs v) mod sint lowerThan"
      using sint32_bounds [of lowerThan] by (simp add: signed_of_int signed_take_bit_int_eq_self)
    then show ?thesis using assms(1) r False b m by (simp add: randomInt_def v_def [symmetric])
  qed
qed

subsection \<open>Hashes\<close>

lemma hashSHA1_fips: "length d < 2 ^ 32 \<Longrightarrow> hashSHA1 d = fips_sha1 d"
  using mbedtls_sha1_fips [of d] by (simp add: hashSHA1_def mbedtls_sha1_def)

lemma hashSHA256_fips: "length d < 2 ^ 32 \<Longrightarrow> hashSHA256 d = fips_sha256 d"
  using mbedtls_sha256_fips [of d] by (simp add: hashSHA256_def mbedtls_sha256_def split: sum.splits)

lemma hashSHA512_fips: "length d < 2 ^ 32 \<Longrightarrow> hashSHA512 d = fips_sha512 d"
  using mbedtls_sha512_fips [of d] by (simp add: hashSHA512_def mbedtls_sha512_def split: sum.splits)

lemma length_hashes [len_simps]:
  "length d < 2 ^ 32 \<Longrightarrow> length (hashSHA1 d) = 20"
  "length d < 2 ^ 32 \<Longrightarrow> length (hashSHA256 d) = 32"
  "length d < 2 ^ 32 \<Longrightarrow> length (hashSHA512 d) = 64"
  by (simp_all only: hashSHA1_fips hashSHA256_fips hashSHA512_fips length_fips_sha1 length_fips_sha256 length_fips_sha512)

lemma hmacSHA512_rfc:
  "length key < 2 ^ 32 \<Longrightarrow> length d < 2 ^ 32 \<Longrightarrow> hmacSHA512 key d = rfc2104_hmac MD_SHA512 key d"
  by (simp only: hmacSHA512_def md_hmac_rfc2104 sum.case)

lemma length_calcEncryptionKey [len_simps]:
  assumes "length msgKey < 2 ^ 31"
  shows "length (fst (calcEncryptionKey authKey msgKey client)) = 32"
    and "length (snd (calcEncryptionKey authKey msgKey client)) = 32"
  using assms by (simp_all add: calcEncryptionKey_def Let_def length_ba_mid length_hashes)

lemma length_calcMessageKey [len_simps]:
  "length d < 2 ^ 31 \<Longrightarrow> length (calcMessageKey authKey d client) = 16"
  by (simp add: calcMessageKey_def length_ba_mid length_hashes)

subsection \<open>IGE with a 256-bit key\<close>

lemma aes_ED:
  "length key = 32 \<Longrightarrow> aes_E key = internal_aes_encrypt (aes_ctx (setkey_enc key 256))"
  "length key = 32 \<Longrightarrow> aes_D key = internal_aes_decrypt (aes_ctx (setkey_dec key 256))"
proof -
  assume "length key = 32"
  then have k: "8 * length key = 256" by simp
  obtain e where e: "setkey_enc key 256 = Some e" by (simp add: setkey_enc_def Let_def)
  then obtain d where d: "setkey_dec key 256 = Some d" by (simp add: setkey_dec_def Let_def)
  show "aes_E key = internal_aes_encrypt (aes_ctx (setkey_enc key 256))"
    unfolding aes_E_def k e by (simp add: aes_ctx_def)
  show "aes_D key = internal_aes_decrypt (aes_ctx (setkey_dec key 256))"
    unfolding aes_D_def k d by (simp add: aes_ctx_def)
qed

lemma encrypt_ige_eq:
  "length d mod 16 = 0 \<Longrightarrow> length key = 32 \<Longrightarrow> encryptAES256IGE env d iv key = fst (ige_encrypt (aes_E key) (length d div 16) iv d)"
  by (simp add: encryptAES256IGE_def aes_crypt_ige_def MBEDTLS_AES_ENCRYPT_def MBEDTLS_AES_DECRYPT_def aes_ED case_prod_unfold)

lemma decrypt_ige_eq:
  "length d mod 16 = 0 \<Longrightarrow> length key = 32 \<Longrightarrow> decryptAES256IGE d iv key = fst (ige_decrypt (aes_D key) (length d div 16) iv d)"
  by (simp add: decryptAES256IGE_def aes_crypt_ige_def MBEDTLS_AES_ENCRYPT_def MBEDTLS_AES_DECRYPT_def aes_ED case_prod_unfold)

lemma whole_blocks: "length d mod 16 = 0 \<Longrightarrow> length d = 16 * (length d div 16)"
  by presburger

lemma length_encryptAES:
  "length d mod 16 = 0 \<Longrightarrow> length key = 32 \<Longrightarrow> length iv = 32 \<Longrightarrow> length (encryptAES256IGE env d iv key) = length d"
  using aes.length_ige [of iv d "length d div 16" key] whole_blocks [of d] by (simp add: encrypt_ige_eq)

lemma decrypt_encrypt_AES256IGE:
  assumes "length d mod 16 = 0" and "length key = 32" and "length iv = 32"
  shows "decryptAES256IGE (encryptAES256IGE env d iv key) iv key = d"
proof -
  have "length (encryptAES256IGE env d iv key) = length d" by (rule length_encryptAES [OF assms])
  moreover have "ige_decrypt (aes_D key) (length d div 16) iv (encryptAES256IGE env d iv key) =
      (d, snd (ige_encrypt (aes_E key) (length d div 16) iv d))"
    using aes.decrypt_encrypt [OF assms(3) whole_blocks [OF assms(1)]] assms by (simp only: encrypt_ige_eq)
  ultimately show ?thesis using assms by (simp add: decrypt_ige_eq)
qed

subsection \<open>RSA padding\<close>

text \<open>
  What the receiver does with the decrypted 256 bytes: recover the temporary key from the
  hash of the ciphertext, decrypt, check the hash, reverse.
\<close>

definition rsa_unpad :: "bytes \<Rightarrow> bytes option" where
  "rsa_unpad k =
     (let aesEncrypted = drop 32 k;
          tempKey = xor_bytes (take 32 k) (hashSHA256 aesEncrypted);
          dataWithHash = decryptAES256IGE aesEncrypted (replicate 32 0) tempKey;
          dataWithPadding = rev (take 192 dataWithHash)
      in if drop 192 dataWithHash = hashSHA256 (tempKey @ dataWithPadding) then Some dataWithPadding else None)"

lemma rsaPad_attempt_unpad:
  assumes "length dwp = 192" and "length tempKey = 32"
  shows "rsa_unpad (rsaPad_attempt env dwp (reverse dwp) tempKey) = Some dwp"
    and "length (rsaPad_attempt env dwp (reverse dwp) tempKey) = 256"
proof -
  define dwh where "dwh = rev dwp @ hashSHA256 (tempKey @ dwp)"
  define enc where "enc = encryptAES256IGE env dwh (replicate 32 0) tempKey"
  have ld: "length dwh = 224" using assms by (simp add: dwh_def length_hashes)
  have le: "length enc = 224" using ld assms(2) by (simp add: enc_def length_encryptAES)
  have lh: "length (hashSHA256 enc) = 32" using le by (simp add: length_hashes)
  have a: "rsaPad_attempt env dwp (reverse dwp) tempKey = xor_bytes tempKey (hashSHA256 enc) @ enc"
    using assms(2) lh by (simp add: rsaPad_attempt_def Let_def reverse_rev dwh_def [symmetric] enc_def [symmetric] xorArray_xor)
  have d: "decryptAES256IGE enc (replicate 32 0) tempKey = dwh"
    unfolding enc_def using ld assms(2) by (intro decrypt_encrypt_AES256IGE) simp_all
  show "length (rsaPad_attempt env dwp (reverse dwp) tempKey) = 256"
    using assms(2) lh le by (simp add: a)
  show "rsa_unpad (rsaPad_attempt env dwp (reverse dwp) tempKey) = Some dwp"
    using assms lh d by (simp add: rsa_unpad_def a Let_def) (simp add: dwh_def)
qed

text \<open>The number of the draw that the loop accepts, from draw \<open>n\<close> on.\<close>

definition rsaPad_accepts :: "qtenv \<Rightarrow> rng \<Rightarrow> bytes \<Rightarrow> bytes \<Rightarrow> bytes \<Rightarrow> nat \<Rightarrow> bool" where
  "rsaPad_accepts env rng dwp rv pk n \<longleftrightarrow>
     compareAsBigEndian (rsaPad_attempt env dwp rv (fst (randomBytes rng n 32))) pk = - 1"

lemma rsaPad_loop_returns:
  assumes "rsaPad_accepts env rng dwp rv pk (n + k)" and "\<forall>j < k. \<not> rsaPad_accepts env rng dwp rv pk (n + j)"
  shows "rsaPad_loop env rng n dwp rv pk =
    Some (rsaPad_attempt env dwp rv (fst (randomBytes rng (n + k) 32)), Suc (n + k))"
  using assms
proof (induction k arbitrary: n)
  case 0
  then show ?case
    by (subst rsaPad_loop.simps) (simp add: rsaPad_accepts_def randomBytes_def Let_def)
next
  case (Suc k)
  have "rsaPad_loop env rng n dwp rv pk = rsaPad_loop env rng (Suc n) dwp rv pk"
    using Suc.prems(2) [rule_format, of 0]
    by (subst rsaPad_loop.simps) (simp add: rsaPad_accepts_def randomBytes_def Let_def)
  moreover have "\<forall>j < k. \<not> rsaPad_accepts env rng dwp rv pk (Suc n + j)"
    using Suc.prems(2) by (metis Suc_less_eq add_Suc_shift)
  ultimately show ?case using Suc.IH [of "Suc n"] Suc.prems(1) by simp
qed

lemma rsaPad_loop_diverges:
  assumes "\<And>k. \<not> rsaPad_accepts env rng dwp rv pk (n + k)"
  shows "rsaPad_loop env rng n dwp rv pk = None"
proof -
  have "\<exists>k. rsaPad_accepts env rng dwp rv pk (n + k)" if "rsaPad_loop env rng n dwp rv pk = Some y" for y
  proof (rule rsaPad_loop.raw_induct [where P = "\<lambda>env rng n dwp rv pk y. \<exists>k. rsaPad_accepts env rng dwp rv pk (n + k)", OF _ that])
    fix loop :: "qtenv \<Rightarrow> rng \<Rightarrow> nat \<Rightarrow> bytes \<Rightarrow> bytes \<Rightarrow> bytes \<Rightarrow> (bytes \<times> nat) option"
      and env rng n dwp rv pk y
    assume IH: "\<And>env rng n dwp rv pk y. loop env rng n dwp rv pk = Some y \<Longrightarrow> \<exists>k. rsaPad_accepts env rng dwp rv pk (n + k)"
      and eq: "(let (tempKey, n1) = randomBytes rng n 32; keyAesEncrypted = rsaPad_attempt env dwp rv tempKey
        in if compareAsBigEndian keyAesEncrypted pk \<noteq> - 1 then loop env rng n1 dwp rv pk else Some (keyAesEncrypted, n1)) = Some y"
    show "\<exists>k. rsaPad_accepts env rng dwp rv pk (n + k)"
    proof (cases "rsaPad_accepts env rng dwp rv pk n")
      case True
      then show ?thesis by (intro exI [of _ 0]) simp
    next
      case False
      then have "loop env rng (Suc n) dwp rv pk = Some y"
        using eq by (simp add: rsaPad_accepts_def randomBytes_def Let_def)
      then obtain k where "rsaPad_accepts env rng dwp rv pk (Suc n + k)" using IH by blast
      then show ?thesis by (intro exI [of _ "Suc k"]) simp
    qed
  qed
  then show ?thesis using assms by (cases "rsaPad_loop env rng n dwp rv pk") auto
qed

end
