(* ===== verification/Pbkdf2.thy ===== *)
theory Pbkdf2
  imports CryptoFacts
begin

section \<open>PBKDF2-HMAC-SHA512: pbkdf2HmacSHA512 in libkg/crypto.cpp\<close>

text \<open>
  The key derivation of the password proof, on one HMAC context that is keyed once per block
  and reset for every iteration. The sink is asked every 5000 steps whether to go on; it is
  a parameter, a function of the progress it is told. The result is proved to be RFC
  8018's, or empty when the sink withdraws.
\<close>

type_synonym pbkdf2_sink = "(int \<Rightarrow> int \<Rightarrow> bool) option"

definition HASH_LENGTH :: nat where "HASH_LENGTH = 64"
definition REPORT_EVERY :: int where "REPORT_EVERY = 5000"

definition sink_stops :: "pbkdf2_sink \<Rightarrow> int \<Rightarrow> int \<Rightarrow> bool" where
  "sink_stops sink stepsDone totalSteps =
     (case sink of None \<Rightarrow> False | Some step \<Rightarrow> stepsDone mod REPORT_EVERY = 0 \<and> \<not> step stepsDone totalSteps)"

text \<open>The inner loop: \<open>k\<close> iterations are left; \<open>None\<close> is \<open>failed\<close>.\<close>

fun pbkdf2_iterate :: "pbkdf2_sink \<Rightarrow> int \<Rightarrow> nat \<Rightarrow> md_context \<Rightarrow> bytes \<Rightarrow> bytes \<Rightarrow> int \<Rightarrow> (md_context \<times> bytes \<times> int) option" where
  "pbkdf2_iterate sink totalSteps 0 ctx u t stepsDone = Some (ctx, t, stepsDone)"
| "pbkdf2_iterate sink totalSteps (Suc k) ctx u t stepsDone =
     (case and_then (md_hmac_reset ctx) (\<lambda>c. and_then (md_hmac_update c u) md_hmac_finish) of
        Inl e \<Rightarrow> None
      | Inr (ctx1, u1) \<Rightarrow>
          let t1 = map (\<lambda>j. t ! j XOR u1 ! j) [0..<HASH_LENGTH]; steps1 = stepsDone + 1
          in if sink_stops sink steps1 totalSteps then None
             else pbkdf2_iterate sink totalSteps k ctx1 u1 t1 steps1)"

definition pbkdf2_counter :: "nat \<Rightarrow> bytes" where
  "pbkdf2_counter block =
     (let b = (of_nat block :: i32)
      in [ucast (drop_bit 24 b AND 0xFF), ucast (drop_bit 16 b AND 0xFF), ucast (drop_bit 8 b AND 0xFF), ucast (b AND 0xFF)])"

text \<open>The outer loop: \<open>n\<close> blocks are left, the next is number \<open>block\<close>.\<close>

fun pbkdf2_blocks :: "bytes \<Rightarrow> bytes \<Rightarrow> nat \<Rightarrow> nat \<Rightarrow> pbkdf2_sink \<Rightarrow> int \<Rightarrow> nat \<Rightarrow> nat \<Rightarrow> md_context \<Rightarrow> int \<Rightarrow> bytes \<Rightarrow> bytes option" where
  "pbkdf2_blocks password salt iterations outputLength sink totalSteps 0 block ctx stepsDone out = Some out"
| "pbkdf2_blocks password salt iterations outputLength sink totalSteps (Suc n) block ctx stepsDone out =
     (case and_then (md_hmac_starts ctx password) (\<lambda>c. and_then (md_hmac_update c salt) (\<lambda>c.
             and_then (md_hmac_update c (pbkdf2_counter block)) md_hmac_finish)) of
        Inl e \<Rightarrow> None
      | Inr (ctx1, u) \<Rightarrow>
          (case pbkdf2_iterate sink totalSteps (iterations - 1) ctx1 u u (stepsDone + 1) of
             None \<Rightarrow> None
           | Some (ctx2, t, steps2) \<Rightarrow>
               let offset = (block - 1) * HASH_LENGTH; tk = min HASH_LENGTH (outputLength - offset)
               in pbkdf2_blocks password salt iterations outputLength sink totalSteps n (block + 1) ctx2 steps2
                    (put_at offset (take tk t) out)))"

definition pbkdf2HmacSHA512 :: "qtenv \<Rightarrow> bytes \<Rightarrow> bytes \<Rightarrow> i32 \<Rightarrow> i32 \<Rightarrow> pbkdf2_sink \<Rightarrow> bytes" where
  "pbkdf2HmacSHA512 env password salt iterations outputLength sink =
     (if sint iterations \<le> 0 \<or> sint outputLength \<le> 0 then []
      else
        let len = nat (sint outputLength);
            blocks = (len + HASH_LENGTH - 1) div HASH_LENGTH;
            totalSteps = sint (of_nat blocks * iterations)
        in (case pbkdf2_blocks password salt (nat (sint iterations)) len sink totalSteps blocks 1
                   (md_setup MD_SHA512 True) 0 (map (uninit env) [0..<len]) of
              None \<Rightarrow> []
            | Some out \<Rightarrow> out))"

subsection \<open>The standard's function\<close>

definition kdf_prf :: "bytes \<Rightarrow> bytes \<Rightarrow> bytes" where
  "kdf_prf = rfc2104_hmac MD_SHA512"

text \<open>\<open>U_1 = PRF (P, S || INT (i))\<close>, \<open>U_c = PRF (P, U_{c-1})\<close>; \<open>F\<close> is the exclusive or of all.\<close>

fun rfc8018_U :: "bytes \<Rightarrow> bytes \<Rightarrow> nat \<Rightarrow> bytes" where
  "rfc8018_U P u 0 = u"
| "rfc8018_U P u (Suc c) = kdf_prf P (rfc8018_U P u c)"

definition rfc8018_F :: "bytes \<Rightarrow> bytes \<Rightarrow> nat \<Rightarrow> nat \<Rightarrow> bytes" where
  "rfc8018_F P S c i =
     (let u1 = kdf_prf P (S @ be_encode 4 (of_nat i :: i32))
      in foldl xor_bytes u1 (map (rfc8018_U P u1) [1..<c]))"

definition rfc8018_pbkdf2 :: "bytes \<Rightarrow> bytes \<Rightarrow> nat \<Rightarrow> nat \<Rightarrow> bytes" where
  "rfc8018_pbkdf2 P S c dkLen =
     take dkLen (concat (map (rfc8018_F P S c) [1..<Suc ((dkLen + 63) div 64)]))"

subsection \<open>The loops compute it\<close>

lemma counter_be: "pbkdf2_counter block = be_encode 4 (of_nat block :: i32)"
proof -
  have "be_encode 4 (b :: i32) = [ucast (drop_bit 24 b), ucast (drop_bit 16 b), ucast (drop_bit 8 b), ucast b]" for b
    by (simp add: be_encode_def numeral_eq_Suc drop_bit_drop_bit)
  then show ?thesis by (simp only: pbkdf2_counter_def Let_def byte_of_masked)
qed

text \<open>A context that may be keyed (again).\<close>

definition ready :: "md_context \<Rightarrow> bool" where
  "ready ctx \<longleftrightarrow> md_info ctx = Some MD_SHA512 \<and> engine_ok MD_SHA512 (md_ctx ctx) \<and> hmac_ctx ctx \<noteq> None"

text \<open>A context that has finished an HMAC under the key and may be reset to it.\<close>

definition finished :: "bytes \<Rightarrow> md_context \<Rightarrow> bool" where
  "finished key c \<longleftrightarrow> md_info c = Some MD_SHA512 \<and> engine_ok MD_SHA512 (md_ctx c) \<and>
     (\<exists>ctx ps. hmac_ctx c = hmac_ctx ctx \<and> keyed MD_SHA512 key ps ctx)"

lemma finished_ready: "finished key c \<Longrightarrow> ready c"
  by (auto simp: finished_def ready_def keyed_def)

lemma keyed_finish:
  assumes "keyed MD_SHA512 key ps c"
  shows "\<exists>c'. md_hmac_finish c = Inr (c', kdf_prf key (concat ps)) \<and> finished key c'"
  using md_hmac_finish_keyed [OF assms] assms unfolding finished_def kdf_prf_def by blast

lemma reset_step:
  assumes "finished key c" and "length u < 2 ^ 32"
  shows "\<exists>c'. and_then (md_hmac_reset c) (\<lambda>c. and_then (md_hmac_update c u) md_hmac_finish) = Inr (c', kdf_prf key u) \<and> finished key c'"
proof -
  obtain c1 where c1: "md_hmac_reset c = Inr c1" "keyed MD_SHA512 key [] c1"
    using assms(1) md_hmac_reset_keyed unfolding finished_def by blast
  obtain c2 where c2: "md_hmac_update c1 u = Inr c2" "keyed MD_SHA512 key ([] @ [u]) c2"
    using md_hmac_update_keyed [OF c1(2) assms(2)] by blast
  show ?thesis using keyed_finish [OF c2(2)] c1(1) c2(1) by auto
qed

lemma start_step:
  assumes "ready c" and "length key < 2 ^ 32" and "length salt < 2 ^ 32" and "length counter < 2 ^ 32"
  shows "\<exists>c'. and_then (md_hmac_starts c key) (\<lambda>c. and_then (md_hmac_update c salt) (\<lambda>c.
      and_then (md_hmac_update c counter) md_hmac_finish)) = Inr (c', kdf_prf key (salt @ counter)) \<and> finished key c'"
proof -
  obtain c1 where c1: "md_hmac_starts c key = Inr c1" "keyed MD_SHA512 key [] c1"
    using md_hmac_starts_keyed [OF assms(2)] assms(1) unfolding ready_def by blast
  obtain c2 where c2: "md_hmac_update c1 salt = Inr c2" "keyed MD_SHA512 key ([] @ [salt]) c2"
    using md_hmac_update_keyed [OF c1(2) assms(3)] by blast
  obtain c3 where c3: "md_hmac_update c2 counter = Inr c3" "keyed MD_SHA512 key (([] @ [salt]) @ [counter]) c3"
    using md_hmac_update_keyed [OF c2(2) assms(4)] by blast
  show ?thesis using keyed_finish [OF c3(2)] c1(1) c2(1) c3(1) by auto
qed

lemma length_kdf_prf [simp]: "length (kdf_prf key m) = 64"
  by (simp add: kdf_prf_def rfc2104_hmac_def)

lemma xor_loop: "length t = 64 \<Longrightarrow> length u = 64 \<Longrightarrow> map (\<lambda>j. t ! j XOR u ! j) [0..<HASH_LENGTH] = xor_bytes t u"
  by (intro nth_equalityI) (simp_all add: HASH_LENGTH_def xor_bytes_def)

lemma map_upt_shift: "map f [1..<Suc (Suc k)] = f 1 # map (\<lambda>i. f (Suc i)) [1..<Suc k]"
  by (induction k) simp_all

lemma pbkdf2_iterate_eq:
  assumes "finished key c" and "length u = 64" and "length t = 64"
  shows "case pbkdf2_iterate sink tot k c u t steps of
      None \<Rightarrow> sink \<noteq> None \<and> (\<exists>s. sink_stops sink s tot)
    | Some (c', t', steps') \<Rightarrow> finished key c' \<and> t' = foldl xor_bytes t (map (rfc8018_U key u) [1..<Suc k]) \<and> length t' = 64"
  using assms
proof (induction k arbitrary: c u t steps)
  case 0
  then show ?case by simp
next
  case (Suc k)
  obtain c1 where c1: "and_then (md_hmac_reset c) (\<lambda>c. and_then (md_hmac_update c u) md_hmac_finish) = Inr (c1, kdf_prf key u)" "finished key c1"
    using reset_step [OF Suc.prems(1), of u] Suc.prems(2) by auto
  have U: "rfc8018_U key (kdf_prf key u) i = rfc8018_U key u (Suc i)" for i by (induction i) simp_all
  have "map (rfc8018_U key u) [1..<Suc (Suc k)] = kdf_prf key u # map (rfc8018_U key (kdf_prf key u)) [1..<Suc k]"
    using map_upt_shift [of "rfc8018_U key u" k] by (simp add: U del: upt_Suc)
  note shift = this
  show ?case
  proof (cases "sink_stops sink (steps + 1) tot")
    case True
    then have "pbkdf2_iterate sink tot (Suc k) c u t steps = None" using c1(1) by (simp add: Let_def)
    moreover have "sink \<noteq> None" using True by (auto simp: sink_stops_def split: option.splits)
    ultimately show ?thesis using True by auto
  next
    case False
    then have eq: "pbkdf2_iterate sink tot (Suc k) c u t steps =
        pbkdf2_iterate sink tot k c1 (kdf_prf key u) (xor_bytes t (kdf_prf key u)) (steps + 1)"
      using c1(1) Suc.prems by (simp add: Let_def xor_loop)
    have l: "length (kdf_prf key u) = 64" "length (xor_bytes t (kdf_prf key u)) = 64" using Suc.prems by simp_all
    show ?thesis unfolding eq shift foldl.simps by (rule Suc.IH [OF c1(2) l])
  qed
qed

lemma length_F: "length (rfc8018_F P S c i) = 64"
proof -
  have "length (foldl xor_bytes t (map (rfc8018_U P u) is)) = 64" if "length t = 64" "length u = 64" for t u "is"
    using that
  proof (induction "is" arbitrary: t)
    case (Cons i "is")
    have "length (rfc8018_U P u i) = 64" using Cons.prems(2) by (cases i) simp_all
    then show ?case using Cons by simp
  qed simp
  then show ?thesis by (simp add: rfc8018_F_def Let_def)
qed

lemma take_min_concat:
  "length F = 64 \<Longrightarrow> n \<le> len \<Longrightarrow> take n c = c \<Longrightarrow> length c = n \<Longrightarrow> take (min 64 (len - n)) F = take (len - n) F"
  by (cases "len - n \<le> 64") auto

text \<open>After some blocks, the front of \<open>out\<close> is the front of the derived key.\<close>

lemma pbkdf2_blocks_eq:
  assumes lens: "length P < 2 ^ 32" "length S < 2 ^ 32"
  shows "ready ctx \<Longrightarrow> block \<ge> 1 \<Longrightarrow> length out = len \<Longrightarrow> (block - 1 + n) = (len + 63) div 64 \<Longrightarrow> 0 < iters \<Longrightarrow>
    take (64 * (block - 1)) out = take len (concat (map (rfc8018_F P S iters) [1..<block])) \<Longrightarrow>
    case pbkdf2_blocks P S iters len sink tot n block ctx steps out of
      None \<Rightarrow> sink \<noteq> None \<and> (\<exists>s. sink_stops sink s tot)
    | Some out' \<Rightarrow> out' = rfc8018_pbkdf2 P S iters len"
proof (induction n arbitrary: block ctx steps out)
  case 0
  have "len \<le> 64 * (block - 1)" using 0(4) by simp
  moreover have "block = Suc ((len + 63) div 64)" using 0 by simp
  ultimately show ?case using 0 by (simp add: rfc8018_pbkdf2_def)
next
  case (Suc n)
  obtain c1 where c1: "and_then (md_hmac_starts ctx P) (\<lambda>c. and_then (md_hmac_update c S) (\<lambda>c.
      and_then (md_hmac_update c (pbkdf2_counter block)) md_hmac_finish)) = Inr (c1, kdf_prf P (S @ pbkdf2_counter block))" "finished P c1"
    using start_step [OF Suc.prems(1) lens, of "pbkdf2_counter block"] by (auto simp: counter_be)
  define u where "u = kdf_prf P (S @ pbkdf2_counter block)"
  show ?case
  proof (cases "pbkdf2_iterate sink tot (iters - 1) c1 u u (steps + 1)")
    case None
    then show ?thesis
      using pbkdf2_iterate_eq [OF c1(2), of u u sink tot "iters - 1" "steps + 1"] c1(1) by (simp add: u_def)
  next
    case (Some r)
    obtain c2 t steps2 where r: "r = (c2, t, steps2)" by (cases r)
    have t: "finished P c2" "t = rfc8018_F P S iters block"
      using pbkdf2_iterate_eq [OF c1(2), of u u sink tot "iters - 1" "steps + 1"] Some r Suc.prems(5)
      by (simp_all add: u_def rfc8018_F_def counter_be Let_def)
    have lt: "length t = 64" using t(2) length_F by simp
    define offset where "offset = 64 * (block - 1)"
    define piece where "piece = take (min 64 (len - offset)) t"
    have off: "offset < len" using Suc.prems(4) by (simp add: offset_def)
    have lp: "length piece = min 64 (len - offset)" using lt by (simp add: piece_def)
    define out' where "out' = put_at offset piece out"
    have lo: "length out' = len" unfolding out'_def using Suc.prems(3) lp off by (subst length_put_at) auto
    have front: "take offset out = take len (concat (map (rfc8018_F P S iters) [1..<block]))"
      using Suc.prems(6) by (simp add: offset_def)
    have lc: "length (concat (map (rfc8018_F P S iters) [1..<block])) = offset"
    proof -
      have "length (concat (map (rfc8018_F P S iters) is)) = 64 * length is" for "is"
        by (induction "is") (simp_all add: length_F)
      then show ?thesis by (simp add: offset_def)
    qed
    have "take (64 * (Suc block - 1)) out' = take len (concat (map (rfc8018_F P S iters) [1..<Suc block]))"
    proof -
      have "[1..<Suc block] = [1..<block] @ [block]" using Suc.prems(2) by simp
      then have c: "concat (map (rfc8018_F P S iters) [1..<Suc block]) = concat (map (rfc8018_F P S iters) [1..<block]) @ t"
        by (simp add: t(2))
      have rhs: "take len (concat (map (rfc8018_F P S iters) [1..<Suc block])) = take offset out @ take (len - offset) t"
        unfolding c front using lc off by simp
      have "64 * (Suc block - 1) = offset + 64" using Suc.prems(2) by (simp add: offset_def)
      then have "take (64 * (Suc block - 1)) out' = take offset out @ take 64 (piece @ drop (offset + length piece) out)"
        using off Suc.prems(3) by (simp add: out'_def put_at_def)
      also have "take 64 (piece @ drop (offset + length piece) out) = take (len - offset) t"
      proof (cases "len - offset \<le> 64")
        case True
        then have "drop (offset + length piece) out = []" using lp Suc.prems(3) off by simp
        then show ?thesis using True lp by (simp add: piece_def)
      next
        case False
        then show ?thesis using lt lp by (simp add: piece_def)
      qed
      finally show ?thesis using rhs by simp
    qed
    moreover have "Suc block - 1 + n = (len + 63) div 64" using Suc.prems(2,4) by simp
    ultimately have "case pbkdf2_blocks P S iters len sink tot n (Suc block) c2 steps2 out' of
        None \<Rightarrow> sink \<noteq> None \<and> (\<exists>s. sink_stops sink s tot)
      | Some out' \<Rightarrow> out' = rfc8018_pbkdf2 P S iters len"
      using Suc.IH [OF finished_ready [OF t(1)], of "Suc block" out' steps2] lo Suc.prems(5) by simp
    moreover have "pbkdf2_blocks P S iters len sink tot (Suc n) block ctx steps out =
        pbkdf2_blocks P S iters len sink tot n (Suc block) c2 steps2 out'"
      using c1(1) Some r by (simp add: u_def [symmetric] Let_def HASH_LENGTH_def out'_def piece_def offset_def mult.commute)
    ultimately show ?thesis by simp
  qed
qed

lemma pbkdf2_eq:
  assumes "length P < 2 ^ 32" and "length S < 2 ^ 32" and "0 < sint c" and "0 < sint dkLen"
  shows "pbkdf2HmacSHA512 env P S c dkLen sink = rfc8018_pbkdf2 P S (nat (sint c)) (nat (sint dkLen)) \<or>
    pbkdf2HmacSHA512 env P S c dkLen sink = [] \<and>
    (\<exists>step done tot. sink = Some step \<and> done mod REPORT_EVERY = 0 \<and> \<not> step done tot)"
proof -
  define len where "len = nat (sint dkLen)"
  define blocks where "blocks = (len + HASH_LENGTH - 1) div HASH_LENGTH"
  define tot where "tot = sint (of_nat blocks * c)"
  have "ready (md_setup MD_SHA512 True)"
    using engine_ok_new [of MD_SHA512] by (simp add: ready_def md_setup_def)
  then have "case pbkdf2_blocks P S (nat (sint c)) len sink tot blocks 1 (md_setup MD_SHA512 True) 0 (map (uninit env) [0..<len]) of
      None \<Rightarrow> sink \<noteq> None \<and> (\<exists>s. sink_stops sink s tot)
    | Some out' \<Rightarrow> out' = rfc8018_pbkdf2 P S (nat (sint c)) len"
    using assms(3) by (intro pbkdf2_blocks_eq [OF assms(1,2)]) (simp_all add: blocks_def HASH_LENGTH_def)
  moreover have "pbkdf2HmacSHA512 env P S c dkLen sink =
      (case pbkdf2_blocks P S (nat (sint c)) len sink tot blocks 1 (md_setup MD_SHA512 True) 0 (map (uninit env) [0..<len]) of
         None \<Rightarrow> [] | Some out \<Rightarrow> out)"
    using assms(3,4) unfolding pbkdf2HmacSHA512_def Let_def len_def blocks_def tot_def by simp
  ultimately show ?thesis
    by (auto simp: len_def [symmetric] sink_stops_def split: option.splits)
qed

end
