(* ===== verification/Srp.thy ===== *)
theory Srp
  imports Pbkdf2
begin

section \<open>The password proof: libkg/srp.cpp\<close>

text \<open>
  Telegram's SRP-6a client. Parameters are checked, the secret exponent drawn, and the
  public value and the proof computed; a reason for failure is a string, the empty one
  success. Numbers are those the \<open>mbedtls_mpi\<close> values stand for. The verdict of the
  probabilistic primality test is the parameter \<open>is_prime\<close>. The server's side of the protocol
  is stated as a specification, and the client's shared secret proved equal to the server's.
\<close>

definition SRP_SIZE :: nat where "SRP_SIZE = 256"
definition SAFE_BITS :: nat where "SAFE_BITS = 2048 - 64"
definition MAX_SECRET_ATTEMPTS :: nat where "MAX_SECRET_ATTEMPTS = 8"
definition PBKDF2_ITERATIONS :: i32 where "PBKDF2_ITERATIONS = 100000"
definition UNSAFE_A :: string where "UNSAFE_A = ''SRP-A-UNSAFE''"

definition KNOWN_GOOD_PRIME :: nat where
  "KNOWN_GOOD_PRIME = be_nat (fromHex (
     ''c71caeb9c6b1c9048e6c522f70f13f73980d40238e3e21c14934d037563d930f'' @
     ''48198a0aa7c14058229493d22530f4dbfa336f6e0ac925139543aed44cce7c37'' @
     ''20fd51f69458705ac68cd4fe6b6b13abdc9746512969328454f18faf8c595f64'' @
     ''2477fe96bb2a941d5bcd1d4ac8cc49880708fa9b378e3c4f3a9060bee67cf9a4'' @
     ''a4a695811051907e162753b56b0f6b410dba74d8a84b2a14b3144e0ef1284754'' @
     ''fd17ed950d5965b4b9dd46582db1178d169c6bc465b0d6ff9ca3928fef5b9ae4'' @
     ''e418fc15e83ebea0f87fa9ff5eed70050ded2849f47bf959d956850ce929851f'' @
     ''0d8115f635b105ee2e4e15d04b2454bf6f4fadf034b10403119cd8e3b92fcc5b''))"

record srp_params =
  sp_p :: bytes
  sp_g :: i32
  sp_salt1 :: bytes
  sp_salt2 :: bytes
  sp_srpB :: bytes
  sp_srpId :: i64

record srp_proof =
  pf_srpId :: i64
  pf_a :: bytes
  pf_m1 :: bytes

definition saltedHash :: "bytes \<Rightarrow> bytes \<Rightarrow> bytes" where
  "saltedHash d salt = hashSHA256 (salt @ d @ salt)"

definition padTo256 :: "nat \<Rightarrow> bytes option" where
  "padTo256 v = (case mpi_write_binary v SRP_SIZE of Inl e \<Rightarrow> None | Inr b \<Rightarrow> Some b)"

subsection \<open>Checks\<close>

text \<open>\<open>residue_in p b rs\<close>: \<open>mbedtls_mpi_mod_int\<close> succeeds and the residue is one of \<open>rs\<close>.\<close>

definition residue_in :: "nat \<Rightarrow> int \<Rightarrow> nat list \<Rightarrow> bool" where
  "residue_in p b rs = (case mpi_mod_int p b of Inl e \<Rightarrow> False | Inr r \<Rightarrow> r \<in> set rs)"

definition generator_ok :: "nat \<Rightarrow> i32 \<Rightarrow> bool" where
  "generator_ok p g =
     (if g = 2 then residue_in p 8 [7]
      else if g = 3 then residue_in p 3 [2]
      else if g = 4 then True
      else if g = 5 then residue_in p 5 [1, 4]
      else if g = 6 then residue_in p 24 [19, 23]
      else if g = 7 then residue_in p 7 [3, 5, 6]
      else False)"

text \<open>The generator is printed in decimal, by \<open>QString::arg\<close>.\<close>

definition BAD_GENERATOR :: "i32 \<Rightarrow> string" where
  "BAD_GENERATOR g = ''The server's SRP generator '' @ map (char_of \<circ> unat) (qs_number (scast g)) @
     '' is not usable with its prime.''"

definition srpCheckGenerator :: "bytes \<Rightarrow> i32 \<Rightarrow> string" where
  "srpCheckGenerator p g = (if generator_ok (be_nat p) g then [] else BAD_GENERATOR g)"

text \<open>The upper bound is a signed difference: it is negative for a short prime.\<close>

definition srpCheckPublicValue :: "string \<Rightarrow> bytes \<Rightarrow> bytes \<Rightarrow> string" where
  "srpCheckPublicValue name p v =
     (let lower = 2 ^ SAFE_BITS; upper = int (be_nat p) - 2 ^ SAFE_BITS
      in if be_nat v < lower \<or> upper < int (be_nat v) then name @ '' is outside the safe SRP range.'' else [])"

definition srpCheckParams :: "(nat \<Rightarrow> bool) \<Rightarrow> srp_params \<Rightarrow> string" where
  "srpCheckParams is_prime params =
     (let prime = be_nat (sp_p params)
      in if sp_p params = [] \<or> sp_salt1 params = [] \<or> sp_salt2 params = [] \<or> sp_srpB params = []
         then ''The server sent incomplete password parameters.''
         else if length (sp_p params) > SRP_SIZE \<or> length (sp_srpB params) > SRP_SIZE
         then ''The server sent an oversized SRP integer.''
         else if mpi_bitlen prime \<noteq> 2048 then ''The server's SRP prime is not 2048 bits.''
         else if prime \<noteq> KNOWN_GOOD_PRIME \<and> \<not> is_prime prime then ''The server's SRP prime is not prime.''
         else if prime \<noteq> KNOWN_GOOD_PRIME \<and> \<not> is_prime ((prime - 1) div 2)
         then ''The server's SRP prime is not a safe prime.''
         else if srpCheckGenerator (sp_p params) (sp_g params) \<noteq> []
         then srpCheckGenerator (sp_p params) (sp_g params)
         else srpCheckPublicValue ''The server's SRP B'' (sp_p params) (sp_srpB params))"

subsection \<open>The proof\<close>

text \<open>
  \<open>x\<close>, the password as a number; \<open>None\<close> when the derivation was abandoned.
\<close>

definition srp_password_hash :: "qtenv \<Rightarrow> srp_params \<Rightarrow> bytes \<Rightarrow> pbkdf2_sink \<Rightarrow> bytes option" where
  "srp_password_hash env params password sink =
     (let ph1 = saltedHash (saltedHash password (sp_salt1 params)) (sp_salt2 params);
          ph2base = pbkdf2HmacSHA512 env ph1 (sp_salt1 params) PBKDF2_ITERATIONS 64 sink
      in if ph2base = [] then None else Some (saltedHash ph2base (sp_salt2 params)))"

definition srp_m1 :: "srp_params \<Rightarrow> bytes \<Rightarrow> bytes \<Rightarrow> bytes \<Rightarrow> bytes \<Rightarrow> bytes \<Rightarrow> bytes" where
  "srp_m1 params padP padG padA padB padS =
     hashSHA256 (xorArray (hashSHA256 padP) (hashSHA256 padG)
       @ hashSHA256 (sp_salt1 params) @ hashSHA256 (sp_salt2 params) @ padA @ padB @ hashSHA256 padS)"

text \<open>The verifier, the base and the shared secret, from the scrambler \<open>u\<close> and the multiplier \<open>k\<close>.\<close>

definition srp_shared :: "nat \<Rightarrow> nat \<Rightarrow> nat \<Rightarrow> nat \<Rightarrow> nat \<Rightarrow> nat \<Rightarrow> nat \<Rightarrow> string + nat" where
  "srp_shared p g bigB a x k u =
     (case mpi_exp_mod g x p of
        Inl e \<Rightarrow> Inl ''The SRP verifier could not be computed.''
      | Inr v \<Rightarrow>
          if u = 0 then Inl ''The server's SRP parameters give u = 0.''
          else
            let kv = k * v mod p;
                t0 = int bigB - int kv;
                t = (if t0 < 0 then t0 + int p else t0)
            in if t = 0 then Inl ''The server's SRP parameters give an empty base.''
               else (case mpi_exp_mod (nat t) (u * x + a) p of
                       Inl e \<Rightarrow> Inl ''The SRP shared secret could not be computed.''
                     | Inr s \<Rightarrow> Inr s))"

definition srp_finish :: "srp_params \<Rightarrow> nat \<Rightarrow> nat \<Rightarrow> nat \<Rightarrow> nat \<Rightarrow> nat \<Rightarrow> bytes \<Rightarrow> bytes \<Rightarrow> bytes \<Rightarrow> bytes \<Rightarrow> srp_proof \<Rightarrow> string \<times> srp_proof" where
  "srp_finish params p g bigB a x padP padG padA padB out =
     (let k = be_nat (hashSHA256 (padP @ padG)); u = be_nat (hashSHA256 (padA @ padB))
      in case srp_shared p g bigB a x k u of
           Inl problem \<Rightarrow> (problem, out)
         | Inr s \<Rightarrow>
             (case padTo256 s of
                None \<Rightarrow> (''The SRP shared secret could not be computed.'', out)
              | Some padS \<Rightarrow> ([], \<lparr>pf_srpId = sp_srpId params, pf_a = padA,
                  pf_m1 = srp_m1 params padP padG padA padB padS\<rparr>)))"

definition srpComputeWithSecret :: "qtenv \<Rightarrow> (nat \<Rightarrow> bool) \<Rightarrow> srp_params \<Rightarrow> bytes \<Rightarrow> bytes \<Rightarrow> srp_proof \<Rightarrow> pbkdf2_sink \<Rightarrow> string \<times> srp_proof" where
  "srpComputeWithSecret env is_prime params password secret out sink =
     (let problem = srpCheckParams is_prime params;
          p = be_nat (sp_p params); g = nat (sint (sp_g params));
          bigB = be_nat (sp_srpB params); a = be_nat secret
      in if problem \<noteq> [] then (problem, out)
         else if length secret \<noteq> SRP_SIZE then (''The SRP secret must be 256 bytes.'', out)
         else if a = 0 then (UNSAFE_A, out)
         else (case mpi_exp_mod g a p of
                 Inl e \<Rightarrow> (''The SRP public value could not be computed.'', out)
               | Inr bigA \<Rightarrow>
                   (case padTo256 bigA of
                      None \<Rightarrow> (''The SRP public value could not be computed.'', out)
                    | Some padA \<Rightarrow>
                        if srpCheckPublicValue ''A'' (sp_p params) padA \<noteq> [] then (UNSAFE_A, out)
                        else (case srp_password_hash env params password sink of
                                None \<Rightarrow> ([], out)
                              | Some xBytes \<Rightarrow>
                                  if be_nat xBytes = 0 then (''The SRP password hash is unusable.'', out)
                                  else (case (padTo256 p, padTo256 g, padTo256 bigB) of
                                          (Some padP, Some padG, Some padB) \<Rightarrow>
                                            srp_finish params p g bigB a (be_nat xBytes) padP padG padA padB out
                                        | _ \<Rightarrow> (''An SRP integer could not be padded.'', out))))))"

text \<open>The secrets drawn by successive attempts: \<open>k\<close> attempts are left.\<close>

fun srp_attempts :: "qtenv \<Rightarrow> (nat \<Rightarrow> bool) \<Rightarrow> rng \<Rightarrow> nat \<Rightarrow> nat \<Rightarrow> srp_params \<Rightarrow> bytes \<Rightarrow> srp_proof \<Rightarrow> pbkdf2_sink \<Rightarrow> string \<times> srp_proof \<times> nat" where
  "srp_attempts env is_prime rng n 0 params password out sink =
     (''A safe SRP secret could not be generated.'', out, n)"
| "srp_attempts env is_prime rng n (Suc k) params password out sink =
     (let (secret, n1) = randomBytes rng n (int SRP_SIZE);
          (problem, out1) = srpComputeWithSecret env is_prime params password secret out sink
      in if problem \<noteq> UNSAFE_A then (problem, out1, n1)
         else srp_attempts env is_prime rng n1 k params password out1 sink)"

definition srpCompute :: "qtenv \<Rightarrow> (nat \<Rightarrow> bool) \<Rightarrow> rng \<Rightarrow> nat \<Rightarrow> srp_params \<Rightarrow> bytes \<Rightarrow> srp_proof \<Rightarrow> pbkdf2_sink \<Rightarrow> string \<times> srp_proof \<times> nat" where
  "srpCompute env is_prime rng n params password out sink =
     srp_attempts env is_prime rng n MAX_SECRET_ATTEMPTS params password out sink"

subsection \<open>The server's side\<close>

text \<open>
  The server stores the verifier \<open>v = g^x\<close>, draws \<open>b\<close> and sends \<open>B = k v + g^b\<close>; from the
  client's \<open>A\<close> it computes the secret \<open>(A v^u)^b\<close> and the proof it expects.
\<close>

definition server_B :: "nat \<Rightarrow> nat \<Rightarrow> nat \<Rightarrow> nat \<Rightarrow> nat \<Rightarrow> nat" where
  "server_B p g k v b = (k * v + g ^ b) mod p"

definition server_S :: "nat \<Rightarrow> nat \<Rightarrow> nat \<Rightarrow> nat \<Rightarrow> nat \<Rightarrow> nat" where
  "server_S p bigA v u b = (bigA * v ^ u) ^ b mod p"

definition server_m1 :: "srp_params \<Rightarrow> nat \<Rightarrow> nat \<Rightarrow> nat \<Rightarrow> bytes \<Rightarrow> bytes" where
  "server_m1 params g x b padA =
     (let p = be_nat (sp_p params); padP = nat_be 256 p; padG = nat_be 256 g; padB = nat_be 256 (be_nat (sp_srpB params));
          u = be_nat (hashSHA256 (padA @ padB))
      in srp_m1 params padP padG padA padB (nat_be 256 (server_S p (be_nat padA) (g ^ x mod p) u b)))"

subsection \<open>Agreement\<close>

text \<open>The base the client raises is the server's \<open>g^b\<close>, reduced.\<close>

lemma srp_base:
  fixes p g k v b :: nat
  assumes "0 < p" and "B = server_B p g k v b" and "t0 = int B - int (k * v mod p)"
    and "t = (if t0 < 0 then t0 + int p else t0)"
  shows "0 \<le> t" and "nat t mod p = g ^ b mod p"
proof -
  have kv: "k * v mod p < p" using assms(1) by simp
  show nn: "0 \<le> t" using kv assms(3,4) by auto
  have "int B mod int p = (int k * int v + int g ^ b) mod int p"
    unfolding assms(2) server_B_def by (simp add: zmod_int)
  moreover have "int (k * v mod p) mod int p = int k * int v mod int p" by (simp add: zmod_int)
  ultimately have "t0 mod int p = ((int k * int v + int g ^ b) - int k * int v) mod int p"
    unfolding assms(3) by (metis mod_diff_cong)
  then have "t mod int p = int g ^ b mod int p" using assms(4) by simp
  then show "nat t mod p = g ^ b mod p"
    using nn by (metis int_nat_eq nat_int of_nat_power zmod_int)
qed

lemma srp_secret_agrees:
  fixes p g a b u x :: nat
  assumes "nat t mod p = g ^ b mod p"
  shows "nat t ^ (u * x + a) mod p = server_S p (g ^ a mod p) (g ^ x mod p) u b"
proof -
  have "nat t ^ (u * x + a) mod p = (g ^ b) ^ (u * x + a) mod p"
    by (metis assms power_mod)
  also have "(g ^ b) ^ (u * x + a) = (g ^ a * (g ^ x) ^ u) ^ b"
    by (simp add: power_mult [symmetric] power_add [symmetric] algebra_simps)
  also have "\<dots> mod p = ((g ^ a mod p) * (g ^ x mod p) ^ u) ^ b mod p"
  proof -
    have "(g ^ a * (g ^ x) ^ u) mod p = ((g ^ a mod p) * (g ^ x mod p) ^ u) mod p"
      by (rule mod_mult_cong) (simp_all add: power_mod)
    then have "((g ^ a * (g ^ x) ^ u) mod p) ^ b mod p = (((g ^ a mod p) * (g ^ x mod p) ^ u) mod p) ^ b mod p"
      by (simp only:)
    then show ?thesis by (simp only: power_mod)
  qed
  finally show ?thesis by (simp add: server_S_def)
qed

lemma mpi_exp_mod_value: "mpi_exp_mod a e n = Inr r \<Longrightarrow> odd n \<and> r = a ^ e mod n"
  by (auto simp: mpi_exp_mod_def pow_mod_correct power_mod split: if_splits)

text \<open>The client's shared secret is the server's.\<close>

lemma srp_shared_server:
  assumes "B = server_B p g k (g ^ x mod p) b" and "odd p" and "mpi_bitlen p \<le> MPI_MAX_BITS"
    and "mpi_bitlen x \<le> MPI_MAX_BITS" and "mpi_bitlen (u * x + a) \<le> MPI_MAX_BITS"
    and "u \<noteq> 0" and "g ^ b mod p \<noteq> 0"
  shows "srp_shared p g B a x k u = Inr (server_S p (g ^ a mod p) (g ^ x mod p) u b)"
proof -
  define t0 where "t0 = int B - int (k * (g ^ x mod p) mod p)"
  define t where "t = (if t0 < 0 then t0 + int p else t0)"
  have p: "0 < p" using assms(2) by (auto intro: odd_pos)
  have t: "0 \<le> t" "nat t mod p = g ^ b mod p" using srp_base [OF p assms(1) t0_def t_def] by simp_all
  have "t \<noteq> 0" using t(2) assms(7) by auto
  moreover have "mpi_exp_mod (nat t) (u * x + a) p = Inr (server_S p (g ^ a mod p) (g ^ x mod p) u b)"
    using mpi_exp_mod_ok [OF assms(2,5,3)] srp_secret_agrees [OF t(2), of u x a] by simp
  ultimately show ?thesis
    unfolding srp_shared_def mpi_exp_mod_ok [OF assms(2,4,3)] sum.case Let_def t0_def [symmetric] t_def [symmetric]
    using assms(6) by simp
qed

lemma srp_shared_SomeD:
  assumes "srp_shared p g B a x k u = Inr S" and "B = server_B p g k (g ^ x mod p) b"
  shows "S = server_S p (g ^ a mod p) (g ^ x mod p) u b"
proof -
  define t0 where "t0 = int B - int (k * (g ^ x mod p) mod p)"
  define t where "t = (if t0 < 0 then t0 + int p else t0)"
  obtain v where v: "mpi_exp_mod g x p = Inr v" using assms(1) by (auto simp: srp_shared_def split: sum.splits)
  have v': "v = g ^ x mod p" "odd p" using mpi_exp_mod_value [OF v] by simp_all
  have S: "mpi_exp_mod (nat t) (u * x + a) p = Inr S"
    using assms(1) unfolding srp_shared_def Let_def v sum.case v' t0_def [symmetric] t_def [symmetric]
    by (auto split: if_splits sum.splits)
  have p: "0 < p" using v'(2) by (auto intro: odd_pos)
  show ?thesis
    using mpi_exp_mod_value [OF S] srp_secret_agrees [OF srp_base(2) [OF p assms(2) t0_def t_def], of u x a] by simp
qed

lemma generator_positive: "generator_ok p g \<Longrightarrow> 2 \<le> sint g \<and> sint g \<le> 7"
  by (auto simp: generator_ok_def split: if_splits)

lemma checked_params:
  assumes "srpCheckParams is_prime params = []"
  shows "mpi_bitlen (be_nat (sp_p params)) = 2048" and "length (sp_p params) \<le> 256" and "length (sp_srpB params) \<le> 256"
    and "generator_ok (be_nat (sp_p params)) (sp_g params)"
    and "2 ^ SAFE_BITS \<le> be_nat (sp_srpB params)"
    and "int (be_nat (sp_srpB params)) \<le> int (be_nat (sp_p params)) - 2 ^ SAFE_BITS"
    and "be_nat (sp_p params) \<noteq> KNOWN_GOOD_PRIME \<Longrightarrow> is_prime (be_nat (sp_p params)) \<and> is_prime ((be_nat (sp_p params) - 1) div 2)"
proof -
  define prime where "prime = be_nat (sp_p params)"
  have all: "\<not> length (sp_p params) > SRP_SIZE \<and> \<not> length (sp_srpB params) > SRP_SIZE \<and> mpi_bitlen prime = 2048 \<and>
    (prime = KNOWN_GOOD_PRIME \<or> is_prime prime \<and> is_prime ((prime - 1) div 2)) \<and>
    srpCheckGenerator (sp_p params) (sp_g params) = [] \<and>
    srpCheckPublicValue ''The server's SRP B'' (sp_p params) (sp_srpB params) = []"
    using assms unfolding srpCheckParams_def Let_def prime_def [symmetric] by (simp split: if_split_asm) blast
  have gen: "generator_ok prime (sp_g params)"
    using all unfolding srpCheckGenerator_def prime_def [symmetric] BAD_GENERATOR_def by (simp split: if_split_asm)
  have pub: "\<not> be_nat (sp_srpB params) < 2 ^ SAFE_BITS" "\<not> int prime - 2 ^ SAFE_BITS < int (be_nat (sp_srpB params))"
    using all unfolding srpCheckPublicValue_def Let_def prime_def [symmetric] by (simp_all split: if_split_asm)
  show "mpi_bitlen (be_nat (sp_p params)) = 2048" "length (sp_p params) \<le> 256" "length (sp_srpB params) \<le> 256"
    "be_nat (sp_p params) \<noteq> KNOWN_GOOD_PRIME \<Longrightarrow> is_prime (be_nat (sp_p params)) \<and> is_prime ((be_nat (sp_p params) - 1) div 2)"
    using all by (auto simp: SRP_SIZE_def prime_def)
  show "generator_ok (be_nat (sp_p params)) (sp_g params)" using gen by (simp add: prime_def)
  show "2 ^ SAFE_BITS \<le> be_nat (sp_srpB params)"
    "int (be_nat (sp_srpB params)) \<le> int (be_nat (sp_p params)) - 2 ^ SAFE_BITS"
    using pub unfolding prime_def by (simp_all only: not_less)
qed

lemma padTo256_Some: "padTo256 v = Some b \<Longrightarrow> b = nat_be 256 v"
  by (auto simp: padTo256_def mpi_write_binary_def SRP_SIZE_def split: if_splits)

lemma padTo256_value: "padTo256 v = Some b \<Longrightarrow> be_nat b = v"
proof -
  assume a: "padTo256 v = Some b"
  then have "mpi_size v \<le> 256" by (auto simp: padTo256_def mpi_write_binary_def SRP_SIZE_def split: if_splits)
  then have "(256 :: nat) ^ mpi_size v \<le> 256 ^ 256" by (intro power_increasing) simp_all
  then have "v < 256 ^ 256" using mpi_size_bound [of v] by linarith
  then show ?thesis using padTo256_Some [OF a] be_nat_nat_be by simp
qed

text \<open>What a run that ends with a proof went through.\<close>

lemma srpComputeWithSecret_success:
  assumes "srpComputeWithSecret env is_prime params password secret out sink = ([], out')"
    and "srp_password_hash env params password sink = Some xBytes"
  defines "p \<equiv> be_nat (sp_p params)" and "g \<equiv> nat (sint (sp_g params))" and "a \<equiv> be_nat secret" and "x \<equiv> be_nat xBytes"
  defines "padA \<equiv> nat_be 256 (g ^ a mod p)"
  shows "srpCheckParams is_prime params = []" and "odd p" and "length secret = 256" and "a \<noteq> 0"
    and "srpCheckPublicValue ''A'' (sp_p params) padA = []" and "be_nat padA = g ^ a mod p"
    and "srp_finish params p g (be_nat (sp_srpB params)) a x (nat_be 256 p) (nat_be 256 g) padA
       (nat_be 256 (be_nat (sp_srpB params))) out = ([], out')"
proof -
  have run: "srpCheckParams is_prime params = [] \<and> length secret = 256 \<and> a \<noteq> 0 \<and> (\<exists>bigA pA. mpi_exp_mod g a p = Inr bigA \<and>
    padTo256 bigA = Some pA \<and> srpCheckPublicValue ''A'' (sp_p params) pA = [] \<and>
    (\<exists>padP padG padB. padTo256 p = Some padP \<and> padTo256 g = Some padG \<and> padTo256 (be_nat (sp_srpB params)) = Some padB \<and>
       srp_finish params p g (be_nat (sp_srpB params)) a x padP padG pA padB out = ([], out')))"
    using assms(1,2) unfolding srpComputeWithSecret_def Let_def p_def [symmetric] g_def [symmetric] a_def [symmetric]
    by (auto simp: UNSAFE_A_def SRP_SIZE_def x_def split: if_splits sum.splits option.splits)
  then obtain bigA pA padP padG padB where r: "mpi_exp_mod g a p = Inr bigA" "padTo256 bigA = Some pA"
    "srpCheckPublicValue ''A'' (sp_p params) pA = []" "padTo256 p = Some padP" "padTo256 g = Some padG"
    "padTo256 (be_nat (sp_srpB params)) = Some padB"
    "srp_finish params p g (be_nat (sp_srpB params)) a x padP padG pA padB out = ([], out')" by blast
  have A: "bigA = g ^ a mod p" "odd p" using mpi_exp_mod_value [OF r(1)] by simp_all
  have pA: "pA = padA" using padTo256_Some [OF r(2)] A(1) by (simp add: padA_def)
  show "srpCheckParams is_prime params = []" "length secret = 256" "a \<noteq> 0" using run by blast+
  show "odd p" by (fact A(2))
  show "srpCheckPublicValue ''A'' (sp_p params) padA = []" using r(3) pA by simp
  show "be_nat padA = g ^ a mod p" using padTo256_value [OF r(2)] A(1) pA by simp
  show "srp_finish params p g (be_nat (sp_srpB params)) a x (nat_be 256 p) (nat_be 256 g) padA
       (nat_be 256 (be_nat (sp_srpB params))) out = ([], out')"
    using r(7) padTo256_Some [OF r(4)] padTo256_Some [OF r(5)] padTo256_Some [OF r(6)] pA by simp
qed

text \<open>
  If the server's \<open>B\<close> was made from the verifier of the same password, a proof the client
  produces is the one the server expects.
\<close>

lemma srp_agreement:
  assumes run: "srpComputeWithSecret env is_prime params password secret out sink = ([], out')"
    and pw: "srp_password_hash env params password sink = Some xBytes"
    and g: "g = nat (sint (sp_g params))" and p: "p = be_nat (sp_p params)"
    and B: "be_nat (sp_srpB params) = server_B p g (be_nat (hashSHA256 (nat_be 256 p @ nat_be 256 g))) (g ^ be_nat xBytes mod p) b"
  shows "pf_m1 out' = server_m1 params g (be_nat xBytes) b (pf_a out')"
    and "pf_a out' = nat_be 256 (g ^ be_nat secret mod p)" and "pf_srpId out' = sp_srpId params"
proof -
  define a where "a = be_nat secret"
  define x where "x = be_nat xBytes"
  define padA where "padA = nat_be 256 (g ^ a mod p)"
  define u where "u = be_nat (hashSHA256 (padA @ nat_be 256 (be_nat (sp_srpB params))))"
  define k where "k = be_nat (hashSHA256 (nat_be 256 p @ nat_be 256 g))"
  note s = srpComputeWithSecret_success [OF run pw, folded p g, folded a_def x_def, folded padA_def]
  have fin: "srp_finish params p g (be_nat (sp_srpB params)) a x (nat_be 256 p) (nat_be 256 g) padA
       (nat_be 256 (be_nat (sp_srpB params))) out = ([], out')" by (fact s(7))
  have ne: "srp_shared p g (be_nat (sp_srpB params)) a x k u \<noteq> Inl []"
    by (auto simp: srp_shared_def Let_def split: sum.splits)
  obtain S padS where S: "srp_shared p g (be_nat (sp_srpB params)) a x k u = Inr S" "padTo256 S = Some padS"
    "out' = \<lparr>pf_srpId = sp_srpId params, pf_a = padA,
       pf_m1 = srp_m1 params (nat_be 256 p) (nat_be 256 g) padA (nat_be 256 (be_nat (sp_srpB params))) padS\<rparr>"
    using fin ne unfolding srp_finish_def Let_def k_def [symmetric] u_def [symmetric]
    by (auto split: sum.splits option.splits)
  have "S = server_S p (g ^ a mod p) (g ^ x mod p) u b"
    using srp_shared_SomeD [OF S(1) B [folded x_def k_def]] .
  then have "padS = nat_be 256 (server_S p (be_nat padA) (g ^ x mod p) u b)"
    using padTo256_Some [OF S(2)] s(6) by simp
  then show "pf_m1 out' = server_m1 params g (be_nat xBytes) b (pf_a out')"
    unfolding S(3) server_m1_def Let_def p [symmetric] by (simp add: x_def u_def)
  show "pf_a out' = nat_be 256 (g ^ be_nat secret mod p)" "pf_srpId out' = sp_srpId params"
    unfolding S(3) by (simp_all add: padA_def a_def)
qed

text \<open>
  Every outcome of an attempt: a reason, and the proof untouched; an abandoned derivation;
  or a proof for parameters that passed every check and a public value in the safe range.
\<close>

lemma srp_outcome:
  "(\<exists>reason. srpComputeWithSecret env is_prime params password secret out sink = (reason, out)) \<or>
   (\<exists>xBytes out'. srp_password_hash env params password sink = Some xBytes \<and>
      srpComputeWithSecret env is_prime params password secret out sink = ([], out'))"
proof -
  obtain reason out' where r: "srpComputeWithSecret env is_prime params password secret out sink = (reason, out')" by fastforce
  have fin: "srp_finish params p g B a x padP padG padA padB out = (rs, o') \<Longrightarrow> o' = out \<or> rs = []" for p g B a x padP padG padA padB rs o'
    by (auto simp: srp_finish_def Let_def split: sum.splits option.splits)
  have "out' = out \<or> reason = [] \<and> (\<exists>xBytes. srp_password_hash env params password sink = Some xBytes)"
    using r unfolding srpComputeWithSecret_def Let_def
    by (auto split: if_splits sum.splits option.splits dest: fin)
  then show ?thesis using r by auto
qed

text \<open>A public value of the server outside the safe range is refused before the password is used.\<close>

lemma srp_bad_params:
  assumes "srpCheckParams is_prime params \<noteq> []"
  shows "srpComputeWithSecret env is_prime params password secret out sink = (srpCheckParams is_prime params, out)"
  using assms by (simp add: srpComputeWithSecret_def Let_def)

text \<open>Redrawing: the first attempt that is not merely unsafe decides.\<close>

definition srp_attempt :: "qtenv \<Rightarrow> (nat \<Rightarrow> bool) \<Rightarrow> rng \<Rightarrow> nat \<Rightarrow> srp_params \<Rightarrow> bytes \<Rightarrow> srp_proof \<Rightarrow> pbkdf2_sink \<Rightarrow> string \<times> srp_proof" where
  "srp_attempt env is_prime rng n params password out sink =
     srpComputeWithSecret env is_prime params password (fst (randomBytes rng n (int SRP_SIZE))) out sink"

lemma srp_attempt_unsafe_out:
  "fst (srp_attempt env is_prime rng n params password out sink) = UNSAFE_A \<Longrightarrow>
   snd (srp_attempt env is_prime rng n params password out sink) = out"
  using srp_outcome [of env is_prime params password "fst (randomBytes rng n (int SRP_SIZE))" out sink]
  by (auto simp: srp_attempt_def UNSAFE_A_def)

lemma srp_attempts_step:
  "srp_attempts env is_prime rng n (Suc k) params password out sink =
     (if fst (srp_attempt env is_prime rng n params password out sink) \<noteq> UNSAFE_A
      then (fst (srp_attempt env is_prime rng n params password out sink),
            snd (srp_attempt env is_prime rng n params password out sink), Suc n)
      else srp_attempts env is_prime rng (Suc n) k params password out sink)"
  using srp_attempt_unsafe_out [of env is_prime rng n params password out sink]
  by (simp add: srp_attempt_def randomBytes_def Let_def case_prod_unfold)

lemma srp_attempts_first:
  "j < k \<Longrightarrow> \<forall>i < j. fst (srp_attempt env is_prime rng (n + i) params password out sink) = UNSAFE_A \<Longrightarrow>
   fst (srp_attempt env is_prime rng (n + j) params password out sink) \<noteq> UNSAFE_A \<Longrightarrow>
   srp_attempts env is_prime rng n k params password out sink =
     (fst (srp_attempt env is_prime rng (n + j) params password out sink),
      snd (srp_attempt env is_prime rng (n + j) params password out sink), Suc (n + j))"
proof (induction k arbitrary: n j)
  case (Suc k)
  show ?case
  proof (cases j)
    case 0
    then show ?thesis using Suc.prems unfolding srp_attempts_step by simp
  next
    case (Suc j')
    have "fst (srp_attempt env is_prime rng n params password out sink) = UNSAFE_A"
      using Suc.prems(2) Suc by (metis add_0_right zero_less_Suc)
    moreover have "\<forall>i < j'. fst (srp_attempt env is_prime rng (Suc n + i) params password out sink) = UNSAFE_A"
      using Suc.prems(2) Suc by (metis Suc_less_eq add_Suc_shift)
    ultimately show ?thesis
      using Suc.IH [of j' "Suc n"] Suc.prems(1,3) Suc unfolding srp_attempts_step by simp
  qed
qed simp

lemma srp_attempts_none:
  "\<forall>i < k. fst (srp_attempt env is_prime rng (n + i) params password out sink) = UNSAFE_A \<Longrightarrow>
   srp_attempts env is_prime rng n k params password out sink =
     (''A safe SRP secret could not be generated.'', out, n + k)"
proof (induction k arbitrary: n)
  case (Suc k)
  have "fst (srp_attempt env is_prime rng n params password out sink) = UNSAFE_A"
    using Suc.prems by (metis add_0_right zero_less_Suc)
  moreover have "\<forall>i < k. fst (srp_attempt env is_prime rng (Suc n + i) params password out sink) = UNSAFE_A"
    using Suc.prems by (metis Suc_less_eq add_Suc_shift)
  ultimately show ?case using Suc.IH [of "Suc n"] unfolding srp_attempts_step by simp
qed simp

end
