(* ===== verification/ClientUtils.thy ===== *)
theory ClientUtils
  imports Updates
begin

section \<open>Peers and offsets: libkg/tgc_utils.cpp\<close>

text \<open>
  The pure helpers of \<open>TgClient\<close> over peers: the input peer that refers to an object, the
  identifier and the kind of a peer in any of its forms, and the offsets from which the
  next page of dialogs is asked for.
\<close>

definition InputPeerEmpty :: i32 where "InputPeerEmpty = 2134579434"
definition InputPeerSelf :: i32 where "InputPeerSelf = 2107670217"
definition InputPeerChat :: i32 where "InputPeerChat = 900291769"
definition InputPeerUser :: i32 where "InputPeerUser = - 571955892"
definition InputPeerChannel :: i32 where "InputPeerChannel = 666680316"
definition InputPeerUserFromMessage :: i32 where "InputPeerUserFromMessage = - 1468331492"
definition InputPeerChannelFromMessage :: i32 where "InputPeerChannelFromMessage = - 1121318848"
definition InputUserEmpty :: i32 where "InputUserEmpty = - 1182234929"
definition InputUserSelf :: i32 where "InputUserSelf = - 138301121"
definition InputUser :: i32 where "InputUser = - 233744186"
definition InputUserFromMessage :: i32 where "InputUserFromMessage = 497305826"
definition PeerUser :: i32 where "PeerUser = 1498486562"
definition PeerChat :: i32 where "PeerChat = 918946202"
definition UserEmpty :: i32 where "UserEmpty = - 742634630"
definition User :: i32 where "User = - 1313289085"
definition ChatEmpty :: i32 where "ChatEmpty = 693512293"
definition Chat :: i32 where "Chat = 1103884886"
definition ChatForbidden :: i32 where "ChatForbidden = 1704108455"

lemmas peer_ids = InputPeerEmpty_def InputPeerSelf_def InputPeerChat_def InputPeerUser_def InputPeerChannel_def
  InputPeerUserFromMessage_def InputPeerChannelFromMessage_def InputUserEmpty_def InputUserSelf_def InputUser_def
  InputUserFromMessage_def PeerUser_def PeerChat_def PeerChannel_def UserEmpty_def User_def ChatEmpty_def Chat_def
  ChatForbidden_def Channel_def ChannelForbidden_def

definition emptyInputPeer :: tgobject where
  "emptyInputPeer = [(''_'', VInt InputPeerEmpty)]"

definition selfInputPeer :: tgobject where
  "selfInputPeer = [(''_'', VInt InputPeerSelf)]"

definition toInputPeer :: "tgobject \<Rightarrow> tgobject" where
  "toInputPeer obj =
     (if objID obj \<in> set [Chat, ChatForbidden, PeerChat]
      then [(''_'', VInt InputPeerChat), (''chat_id'', obj_get obj ''id'')]
      else if objID obj \<in> set [Channel, ChannelForbidden]
      then [(''_'', VInt InputPeerChannel), (''channel_id'', obj_get obj ''id''), (''access_hash'', obj_get obj ''access_hash'')]
      else if objID obj = User
      then [(''_'', VInt InputPeerUser), (''user_id'', obj_get obj ''id''), (''access_hash'', obj_get obj ''access_hash'')]
      else if objID obj \<in> set [InputPeerEmpty, InputPeerSelf, InputPeerChat, InputPeerUser, InputPeerChannel,
        InputPeerUserFromMessage, InputPeerChannelFromMessage]
      then obj
      else [(''_'', VInt InputPeerEmpty)])"

definition getPeerIdVariant :: "tgobject \<Rightarrow> variant" where
  "getPeerIdVariant obj =
     (let c = objID obj
      in if c = PeerUser then obj_get obj ''user_id''
         else if c = PeerChat then obj_get obj ''chat_id''
         else if c = PeerChannel then obj_get obj ''channel_id''
         else if c = InputUserEmpty then VNull
         else if c = InputUserSelf then VNull
         else if c = InputUser then obj_get obj ''user_id''
         else if c = InputUserFromMessage then obj_get obj ''user_id''
         else if c = InputPeerEmpty then VNull
         else if c = InputPeerSelf then VNull
         else if c = InputPeerChat then obj_get obj ''chat_id''
         else if c = InputPeerUser then obj_get obj ''user_id''
         else if c = InputPeerChannel then obj_get obj ''channel_id''
         else if c = InputPeerUserFromMessage then obj_get obj ''user_id''
         else if c = InputPeerChannelFromMessage then obj_get obj ''channel_id''
         else if c \<in> set [User, UserEmpty, Chat, ChatEmpty, ChatForbidden, Channel, ChannelForbidden]
         then obj_get obj ''id''
         else VNull)"

definition getPeerId :: "tgobject \<Rightarrow> i64" where
  "getPeerId obj = qv_toLongLong (getPeerIdVariant obj)"

definition commonPeerType :: "tgobject \<Rightarrow> i32" where
  "commonPeerType obj =
     (if objID obj \<in> set [InputUserEmpty, InputUserSelf, InputUser, InputUserFromMessage, User, UserEmpty, PeerUser,
        InputPeerEmpty, InputPeerSelf, InputPeerUser, InputPeerUserFromMessage]
      then User
      else if objID obj \<in> set [Chat, ChatEmpty, ChatForbidden, Channel, ChannelForbidden, PeerChat, PeerChannel,
        InputPeerChat, InputPeerChannel, InputPeerChannelFromMessage]
      then Chat
      else 0)"

definition isChat :: "tgobject \<Rightarrow> bool" where
  "isChat obj = (commonPeerType obj = Chat)"

definition isUser :: "tgobject \<Rightarrow> bool" where
  "isUser obj = (commonPeerType obj = User)"

definition isChannel :: "tgobject \<Rightarrow> bool" where
  "isChannel obj = (isChat obj \<and> qv_toBool (obj_get obj ''broadcast''))"

definition isGroup :: "tgobject \<Rightarrow> bool" where
  "isGroup obj = (isChat obj \<and> \<not> qv_toBool (obj_get obj ''broadcast''))"

definition peersEqual :: "tgobject \<Rightarrow> tgobject \<Rightarrow> bool" where
  "peersEqual peer1 peer2 = (commonPeerType peer1 = commonPeerType peer2 \<and> getPeerId peer1 = getPeerId peer2)"

text \<open>The object a search loop stops at: an empty one when no element satisfies the condition.\<close>

definition find_object :: "(tgobject \<Rightarrow> bool) \<Rightarrow> variant list \<Rightarrow> tgobject" where
  "find_object cond vs = (case find (\<lambda>v. cond (qv_toMap v)) vs of None \<Rightarrow> [] | Some v \<Rightarrow> qv_toMap v)"

definition getDialogsOffsets :: "tgobject \<Rightarrow> tgobject" where
  "getDialogsOffsets dialogs =
     (let dialogsList = qv_toList (obj_get dialogs ''dialogs'');
          messagesList = qv_toList (obj_get dialogs ''messages'');
          usersList = qv_toList (obj_get dialogs ''users'');
          chatsList = qv_toList (obj_get dialogs ''chats'');
          lastDialog = (if dialogsList = [] then [] else qv_toMap (last dialogsList));
          lastPeerDialog = qv_toMap (obj_get lastDialog ''peer'');
          lastTopMessage = qv_toInt (obj_get lastDialog ''top_message'');
          lastMessage = find_object (\<lambda>message. peersEqual (qv_toMap (obj_get message ''peer_id'')) lastPeerDialog \<and>
                          qv_toInt (obj_get message ''id'') = lastTopMessage) messagesList;
          lastPeer = find_object (\<lambda>peer. getPeerId peer = getPeerId lastPeerDialog)
                       (if isUser lastPeerDialog then usersList else chatsList)
      in [(''offset_date'', VInt (qv_toInt (obj_get lastMessage ''date''))),
          (''offset_id'', VInt lastTopMessage),
          (''offset_peer'', VMap (toInputPeer lastPeer))])"

definition toInputChannel :: "tgobject \<Rightarrow> tgobject" where
  "toInputChannel obj =
     [(''_'', VInt InputChannel), (''channel_id'', obj_get obj ''id''), (''access_hash'', obj_get obj ''access_hash'')]"

subsection \<open>The input peer of an object refers to that object\<close>

lemma objID_Cons [simp]: "objID ((''_'', VInt c) # m) = c"
  by (simp add: objID_def obj_get_def)

lemma toInputPeer_id:
  "objID obj \<in> {InputPeerEmpty, InputPeerSelf, InputPeerChat, InputPeerUser, InputPeerChannel,
     InputPeerUserFromMessage, InputPeerChannelFromMessage} \<Longrightarrow> toInputPeer obj = obj"
  by (elim insertE emptyE) (simp_all add: toInputPeer_def peer_ids)

lemma toInputPeer_same_peer:
  assumes "objID obj \<in> {User, Chat, ChatForbidden, Channel, ChannelForbidden, InputPeerEmpty, InputPeerSelf,
    InputPeerChat, InputPeerUser, InputPeerChannel, InputPeerUserFromMessage, InputPeerChannelFromMessage}"
  shows "peersEqual (toInputPeer obj) obj"
proof (cases "objID obj \<in> {User, Chat, ChatForbidden, Channel, ChannelForbidden}")
  case True
  then show ?thesis
    by (elim insertE emptyE)
      (simp_all add: toInputPeer_def peersEqual_def commonPeerType_def getPeerId_def getPeerIdVariant_def peer_ids)
next
  case False
  then have "toInputPeer obj = obj" using assms by (intro toInputPeer_id) blast
  then show ?thesis by (simp add: peersEqual_def)
qed

lemma toInputPeer_idem: "toInputPeer (toInputPeer obj) = toInputPeer obj"
proof -
  have "objID (toInputPeer obj) \<in> {InputPeerEmpty, InputPeerSelf, InputPeerChat, InputPeerUser, InputPeerChannel,
     InputPeerUserFromMessage, InputPeerChannelFromMessage}"
    by (auto simp: toInputPeer_def)
  then show ?thesis by (rule toInputPeer_id)
qed

lemma toInputPeer_PeerChat:
  assumes "objID obj = PeerChat" and "obj_get obj ''id'' = VNull"
  shows "getPeerId (toInputPeer obj) = 0"
  using assms by (simp add: toInputPeer_def getPeerId_def getPeerIdVariant_def peer_ids)

lemma peersEqual_equivalence:
  "peersEqual p p" "peersEqual p q \<Longrightarrow> peersEqual q p" "peersEqual p q \<Longrightarrow> peersEqual q r \<Longrightarrow> peersEqual p r"
  by (simp_all add: peersEqual_def)

lemma find_object_Some:
  assumes "v \<in> set vs" and "cond (qv_toMap v)"
  shows "cond (find_object cond vs)" and "\<exists>v \<in> set vs. find_object cond vs = qv_toMap v"
proof -
  obtain w where w: "find (\<lambda>v. cond (qv_toMap v)) vs = Some w"
    using assms by (metis (no_types, lifting) find_None_iff option.exhaust)
  then have "cond (qv_toMap w)" "w \<in> set vs" by (auto simp: find_Some_iff)
  then show "cond (find_object cond vs)" "\<exists>v \<in> set vs. find_object cond vs = qv_toMap v"
    using w by (auto simp: find_object_def)
qed

text \<open>The next page starts at the top message of the last dialog, and at a peer with its id.\<close>

lemma getDialogsOffsets_peer:
  assumes "obj_get d ''dialogs'' = VList ds" and "ds \<noteq> []" and "qv_toMap (obj_get (qv_toMap (last ds)) ''peer'') = peer"
    and "qv_toList (obj_get d (if isUser peer then ''users'' else ''chats'')) = ps"
    and "v \<in> set ps" and "getPeerId (qv_toMap v) = getPeerId peer"
  shows "\<exists>u \<in> set ps. getPeerId (qv_toMap u) = getPeerId peer \<and>
     obj_get (getDialogsOffsets d) ''offset_peer'' = VMap (toInputPeer (qv_toMap u)) \<and>
     obj_get (getDialogsOffsets d) ''offset_id'' = VInt (qv_toInt (obj_get (qv_toMap (last ds)) ''top_message''))"
proof -
  note f = find_object_Some [of v ps "\<lambda>p. getPeerId p = getPeerId peer", OF assms(5,6)]
  then obtain u where u: "u \<in> set ps" "find_object (\<lambda>p. getPeerId p = getPeerId peer) ps = qv_toMap u" by blast
  show ?thesis
  proof (intro bexI conjI)
    show "u \<in> set ps" by (fact u(1))
    show "getPeerId (qv_toMap u) = getPeerId peer" using f(1) u(2) by simp
    show "obj_get (getDialogsOffsets d) ''offset_peer'' = VMap (toInputPeer (qv_toMap u))"
      using assms(1-4) u(2) by (auto simp: getDialogsOffsets_def Let_def obj_get_def split: if_splits)
    show "obj_get (getDialogsOffsets d) ''offset_id'' = VInt (qv_toInt (obj_get (qv_toMap (last ds)) ''top_message''))"
      using assms(1,2) by (simp add: getDialogsOffsets_def Let_def obj_get_def)
  qed
qed

end
