(* ===== verification/Transport.thy ===== *)
theory Transport
  imports TlSchema3 MtSchema Factor CryptoFacts ClientUtils
begin

section \<open>The transport: state, sockets, sessions and sending: libkg/tgtransport.cpp\<close>

text \<open>
  The class \<open>TgTransport\<close>: one connection to a data centre. The record \<open>transport\<close> has its
  members, the state of its socket and of its three timers, the clock the code reads, the number of
  random draws made so far, the settings store and, in \<open>tp_log\<close>, what the code did to
  the outside: bytes written to the socket and calls of the client, oldest first. A call of the
  client is an entry of the log; what the client then asks of the transport is a later operation.
  A \<open>QHash\<close> is an association list with unique keys; the order of \<open>keys()\<close> is a parameter.
\<close>

record tpenv =
  te_qt :: qtenv
  te_rng :: rng
  te_rand :: "nat \<Rightarrow> nat \<Rightarrow> nat"
  te_hash_order :: "i64 list \<Rightarrow> i64 list"
  te_gzip :: "bytes \<Rightarrow> bytes option"
  te_gunzip :: "bytes \<Rightarrow> bytes option"
  te_flushes :: bool
  te_systemName :: qstring
  te_appVersion :: qstring
  te_language :: qstring
  te_api_id :: i32
  te_writeJSONValue :: tl_writer

datatype socket_state = SkUnconnected | SkConnecting | SkConnected | SkClosing

datatype tp_event =
    EvConnect qstring "16 word"
  | EvWrite bytes
  | EvClientConnected
  | EvClientDisconnected
  | EvClientInitialized
  | EvClientAuthorized i64
  | EvClientReconnecting i32 i32
  | EvClientSocketError i32
  | EvClientRpcError i32 qstring i64
  | EvClientTFARequired
  | EvClientObject bytes i64
  | EvClientVector bytes i64
  | EvClientBool bool i64
  | EvClientMessageChanged i64 i64
  | EvClientMigrateFile i64 i32

record transport =
  tp_retryAttempt :: i32
  tp_autoReconnect :: bool
  tp_notifiedDisconnect :: bool
  tp_testMode :: bool
  tp_mediaOnly :: bool
  tp_currentDc :: i32
  tp_currentPort :: "16 word"
  tp_currentHost :: qstring
  tp_isMain :: bool
  tp_config :: tgobject
  tp_nonce :: bytes
  tp_serverNonce :: bytes
  tp_newNonce :: bytes
  tp_authKey :: bytes
  tp_serverSalt :: i64
  tp_authKeyId :: i64
  tp_timeOffset :: i32
  tp_sequence :: i32
  tp_lastMessageId :: i64
  tp_sessionId :: i64
  tp_pingId :: i64
  tp_userId :: i64
  tp_pendingMessages :: "(i64 \<times> bytes) list"
  tp_migrationMessages :: "(i64 \<times> bytes) list"
  tp_floodMessages :: "(i64 \<times> bytes) list"
  tp_noFloodReplay :: "i64 list"
  tp_msgsToAck :: "i64 list"
  tp_authCheckMsgId :: i64
  tp_initialized :: bool
  tp_handshaking :: bool
  tp_seenMessageIds :: "i64 list"
  tp_badPackets :: i32
  tp_socket :: socket_state
  tp_pingTimer :: bool
  tp_retryTimer :: "i32 option"
  tp_connectTimer :: bool
  tp_clock :: "32 word"
  tp_draws :: nat
  tp_settings :: settings
  tp_log :: "tp_event list"

definition tp_emit :: "tp_event \<Rightarrow> transport \<Rightarrow> transport" where
  "tp_emit e t = t\<lparr>tp_log := tp_log t @ [e]\<rparr>"

subsection \<open>Constructors\<close>

definition MT_Vector :: i32 where "MT_Vector = 481674261"
definition MT_ResPQ :: i32 where "MT_ResPQ = 85337187"
definition MT_PQInnerDataDc :: i32 where "MT_PQInnerDataDc = - 1443537003"
definition MT_ServerDHParamsOk :: i32 where "MT_ServerDHParamsOk = - 790100132"
definition MT_ClientDHInnerData :: i32 where "MT_ClientDHInnerData = 1715713620"
definition MT_DhGenOk :: i32 where "MT_DhGenOk = 1003222836"
definition MT_RpcResult :: i32 where "MT_RpcResult = - 212046591"
definition MT_RpcError :: i32 where "MT_RpcError = 558156313"
definition MT_RpcAnswerUnknown :: i32 where "MT_RpcAnswerUnknown = 1579864942"
definition MT_RpcAnswerDroppedRunning :: i32 where "MT_RpcAnswerDroppedRunning = - 847714938"
definition MT_RpcAnswerDropped :: i32 where "MT_RpcAnswerDropped = - 1539647305"
definition MT_FutureSalt :: i32 where "MT_FutureSalt = 155834844"
definition MT_FutureSalts :: i32 where "MT_FutureSalts = - 1370486635"
definition MT_Pong :: i32 where "MT_Pong = 880243653"
definition MT_NewSessionCreated :: i32 where "MT_NewSessionCreated = - 1631450872"
definition MT_MsgContainer :: i32 where "MT_MsgContainer = 1945237724"
definition MT_MsgCopy :: i32 where "MT_MsgCopy = - 530561358"
definition MT_GzipPacked :: i32 where "MT_GzipPacked = 812830625"
definition MT_MsgsAck :: i32 where "MT_MsgsAck = 1658238041"
definition MT_BadMsgNotification :: i32 where "MT_BadMsgNotification = - 1477445615"
definition MT_BadServerSalt :: i32 where "MT_BadServerSalt = - 307542917"
definition MT_MsgDetailedInfo :: i32 where "MT_MsgDetailedInfo = 661470918"
definition MT_MsgNewDetailedInfo :: i32 where "MT_MsgNewDetailedInfo = - 2137147681"
definition MT_ReqPqMultiMethod :: i32 where "MT_ReqPqMultiMethod = - 1099002127"
definition MT_ReqDHParamsMethod :: i32 where "MT_ReqDHParamsMethod = - 686627650"
definition MT_SetClientDHParamsMethod :: i32 where "MT_SetClientDHParamsMethod = - 184262881"
definition MT_PingMethod :: i32 where "MT_PingMethod = 2059302892"
definition MT_PingDelayDisconnectMethod :: i32 where "MT_PingDelayDisconnectMethod = - 213746804"
definition Config :: i32 where "Config = - 870702050"
definition AuthAuthorization :: i32 where "AuthAuthorization = 782418132"
definition InitConnectionMethod :: i32 where "InitConnectionMethod = - 1043505495"
definition InvokeWithLayerMethod :: i32 where "InvokeWithLayerMethod = - 627372787"
definition UsersGetUsersMethod :: i32 where "UsersGetUsersMethod = 227648840"
definition HelpGetConfigMethod :: i32 where "HelpGetConfigMethod = - 990308245"
definition API_LAYER :: i32 where "API_LAYER = 229"

lemmas object_ids = MT_Vector_def MT_ResPQ_def MT_ServerDHParamsOk_def MT_DhGenOk_def MT_RpcResult_def MT_RpcError_def
  MT_RpcAnswerUnknown_def MT_RpcAnswerDroppedRunning_def MT_RpcAnswerDropped_def MT_FutureSalt_def MT_FutureSalts_def
  MT_Pong_def MT_NewSessionCreated_def MT_MsgContainer_def MT_MsgCopy_def MT_GzipPacked_def MT_MsgsAck_def
  MT_BadMsgNotification_def MT_BadServerSalt_def MT_MsgDetailedInfo_def MT_MsgNewDetailedInfo_def MT_PingMethod_def
  Config_def AuthAuthorization_def BOOL_TRUE_def BOOL_FALSE_def

subsection \<open>The settings of a session\<close>

definition hasSession :: "transport \<Rightarrow> bool" where
  "hasSession t \<longleftrightarrow> tp_userId t \<noteq> 0 \<and> tp_sessionId t \<noteq> 0 \<and> tp_serverSalt t \<noteq> 0 \<and> tp_authKeyId t \<noteq> 0 \<and> tp_authKey t \<noteq> []"

definition hasUserId :: "transport \<Rightarrow> bool" where
  "hasUserId t = (tp_userId t \<noteq> 0)"

text \<open>The number of the data centre as the protocol and the settings name it.\<close>

definition dc_number :: "transport \<Rightarrow> i32" where
  "dc_number t = (tp_currentDc t + (if tp_testMode t then 10000 else 0)) * (if tp_mediaOnly t then - 1 else 1)"

definition dc_group :: "transport \<Rightarrow> string" where
  "dc_group t = ''DcSession'' @ map (char_of \<circ> unat) (qs_number (scast (dc_number t)))"

definition saveSession :: "bool \<Rightarrow> transport \<Rightarrow> transport" where
  "saveSession reset t =
     (if tp_currentDc t = 0 then t
      else
        let s0 = (if reset then [] else tp_settings t);
            s1 = (if tp_isMain t then set_value ''Transport'' (qs ''MainDc'') (VInt (tp_currentDc t)) s0 else s0);
            s2 = fold (\<lambda>(k, v). set_value (dc_group t) (qs k) v)
              [(''CurrentHost'', VStr (tp_currentHost t)),
               (''CurrentPort'', VInt (ucast (tp_currentPort t))),
               (''AuthKey'', VBytes (tp_authKey t)),
               (''ServerSalt'', VLong (tp_serverSalt t)),
               (''AuthKeyId'', VLong (tp_authKeyId t)),
               (''TimeOffset'', VInt (tp_timeOffset t)),
               (''Sequence'', VInt (tp_sequence t)),
               (''LastMessageId'', VLong (tp_lastMessageId t)),
               (''SessionId'', VLong (tp_sessionId t)),
               (''PingId'', VLong (tp_pingId t)),
               (''UserId'', VLong (tp_userId t))] s1
        in t\<lparr>tp_settings := s2\<rparr>)"

definition loadSession :: "tpenv \<Rightarrow> transport \<Rightarrow> transport" where
  "loadSession env t =
     (let st = tp_settings t;
          t1 = (if tp_isMain t then t\<lparr>tp_currentDc := qv_toInt (get_value ''Transport'' (qs ''MainDc'') st)\<rparr> else t);
          v = (\<lambda>k. get_value (dc_group t1) (qs k) st)
      in t1\<lparr>tp_currentHost := qv_toString (v ''CurrentHost''),
            tp_currentPort := ucast (qv_toInt (v ''CurrentPort'')),
            tp_authKey := qv_toBytes (te_qt env) (v ''AuthKey''),
            tp_serverSalt := qv_toLongLong (v ''ServerSalt''),
            tp_authKeyId := qv_toLongLong (v ''AuthKeyId''),
            tp_timeOffset := qv_toInt (v ''TimeOffset''),
            tp_sequence := qv_toInt (v ''Sequence''),
            tp_lastMessageId := qv_toLongLong (v ''LastMessageId''),
            tp_sessionId := qv_toLongLong (v ''SessionId''),
            tp_pingId := qv_toLongLong (v ''PingId''),
            tp_userId := qv_toLongLong (v ''UserId'')\<rparr>)"

definition transport_new :: "tpenv \<Rightarrow> i32 \<Rightarrow> bool \<Rightarrow> settings \<Rightarrow> 32 word \<Rightarrow> transport" where
  "transport_new env dcId useTestDc st now =
     loadSession env
       \<lparr>tp_retryAttempt = 0, tp_autoReconnect = False, tp_notifiedDisconnect = False, tp_testMode = useTestDc,
        tp_mediaOnly = False, tp_currentDc = dcId, tp_currentPort = 0, tp_currentHost = [], tp_isMain = (dcId = 0),
        tp_config = [], tp_nonce = [], tp_serverNonce = [], tp_newNonce = [], tp_authKey = [], tp_serverSalt = 0,
        tp_authKeyId = 0, tp_timeOffset = 0, tp_sequence = 0, tp_lastMessageId = 0, tp_sessionId = 0, tp_pingId = 0,
        tp_userId = 0, tp_pendingMessages = [], tp_migrationMessages = [], tp_floodMessages = [],
        tp_noFloodReplay = [], tp_msgsToAck = [], tp_authCheckMsgId = 0, tp_initialized = False,
        tp_handshaking = False, tp_seenMessageIds = [], tp_badPackets = 0, tp_socket = SkUnconnected,
        tp_pingTimer = False, tp_retryTimer = None, tp_connectTimer = False, tp_clock = now, tp_draws = 0,
        tp_settings = st, tp_log = []\<rparr>"

definition tp_setConfig :: "tgobject \<Rightarrow> transport \<Rightarrow> transport" where
  "tp_setConfig config t = (if tp_config t \<noteq> [] then t else t\<lparr>tp_config := config\<rparr>)"

subsection \<open>Losing the connection\<close>

definition draw_int :: "tpenv \<Rightarrow> i32 \<Rightarrow> transport \<Rightarrow> i32 \<times> transport" where
  "draw_int env n t = (let (r, k) = randomInt (te_rng env) (tp_draws t) n in (r, t\<lparr>tp_draws := k\<rparr>))"

definition draw_bytes :: "tpenv \<Rightarrow> int \<Rightarrow> transport \<Rightarrow> bytes \<times> transport" where
  "draw_bytes env n t = (let (b, k) = randomBytes (te_rng env) (tp_draws t) n in (b, t\<lparr>tp_draws := k\<rparr>))"

definition draw_long :: "tpenv \<Rightarrow> transport \<Rightarrow> i64 \<times> transport" where
  "draw_long env t = (let (r, k) = randomLong (te_qt env) (te_rng env) (tp_draws t) in (r, t\<lparr>tp_draws := k\<rparr>))"

definition retry_delay :: "i32 \<Rightarrow> i32" where
  "retry_delay attempt =
     (let step = (if attempt <s 6 then attempt else 6); delay = push_bit (nat (sint step)) 1000
      in if 60000 <s delay then 60000 else delay)"

definition scheduleReconnect :: "tpenv \<Rightarrow> transport \<Rightarrow> transport" where
  "scheduleReconnect env t =
     (if \<not> tp_autoReconnect t \<or> \<not> hasSession t then t\<lparr>tp_retryAttempt := 0\<rparr>
      else
        let base = retry_delay (tp_retryAttempt t);
            (jitter, t1) = draw_int env (base div 4) t;
            delay = base + jitter;
            t2 = t1\<lparr>tp_retryAttempt := tp_retryAttempt t1 + 1\<rparr>
        in (tp_emit (EvClientReconnecting (tp_retryAttempt t2) delay) t2)\<lparr>tp_retryTimer := Some delay\<rparr>)"

definition notifyDisconnected :: "tpenv \<Rightarrow> transport \<Rightarrow> transport" where
  "notifyDisconnected env t =
     (if tp_notifiedDisconnect t then t
      else
        let t1 = t\<lparr>tp_notifiedDisconnect := True, tp_initialized := False, tp_handshaking := False,
                   tp_pingTimer := False, tp_connectTimer := False\<rparr>
        in tp_emit EvClientDisconnected (scheduleReconnect env t1))"

definition tp_disconnected :: "tpenv \<Rightarrow> transport \<Rightarrow> transport" where
  "tp_disconnected env t = notifyDisconnected env t"

definition tp_error :: "tpenv \<Rightarrow> i32 \<Rightarrow> transport \<Rightarrow> transport" where
  "tp_error env err t = tp_emit (EvClientSocketError err) (notifyDisconnected env t)"

text \<open>
  \<open>abort\<close> closes at once; the signal it emits is the notification the code makes next.
  \<open>disconnectFromHost\<close> leaves a connecting socket alone until it has connected; a connected
  one is closed, and the slot called, when everything written has left (\<open>te_flushes\<close>).
\<close>

definition sk_abort :: "transport \<Rightarrow> transport" where
  "sk_abort t = t\<lparr>tp_socket := SkUnconnected\<rparr>"

definition sk_disconnectFromHost :: "tpenv \<Rightarrow> transport \<Rightarrow> transport" where
  "sk_disconnectFromHost env t =
     (if tp_socket t = SkConnected
      then if te_flushes env then tp_disconnected env (t\<lparr>tp_socket := SkUnconnected\<rparr>) else t\<lparr>tp_socket := SkClosing\<rparr>
      else t)"

definition sk_write :: "bytes \<Rightarrow> transport \<Rightarrow> transport" where
  "sk_write b t = (if tp_socket t = SkUnconnected then t else tp_emit (EvWrite b) t)"

subsection \<open>Numbering messages\<close>

definition getNewMessageId :: "transport \<Rightarrow> i64 \<times> transport" where
  "getNewMessageId t =
     (let time = ucast (tp_clock t) + scast (tp_timeOffset t) :: i64;
          newMessageId = push_bit 32 time OR push_bit 22 (word_of_int (sint time smod 1000));
          mid = (if newMessageId \<le>s tp_lastMessageId t then tp_lastMessageId t + 4 else newMessageId)
      in (mid, t\<lparr>tp_lastMessageId := mid\<rparr>))"

definition generateSequence :: "bool \<Rightarrow> transport \<Rightarrow> i32 \<times> transport" where
  "generateSequence isContent t =
     (if isContent then (tp_sequence t * 2 + 1, t\<lparr>tp_sequence := tp_sequence t + 1\<rparr>)
      else (tp_sequence t * 2, t))"

definition broadcastMessageChange :: "i64 \<Rightarrow> i64 \<Rightarrow> transport \<Rightarrow> transport" where
  "broadcastMessageChange oldMsg newMsg t =
     (if oldMsg = 0 then t
      else
        let t1 = (if tp_authCheckMsgId t = oldMsg then t\<lparr>tp_authCheckMsgId := newMsg\<rparr> else t)
        in tp_emit (EvClientMessageChanged oldMsg newMsg) t1)"

subsection \<open>Sending\<close>

definition sendIntermediate :: "tpenv \<Rightarrow> bytes \<Rightarrow> transport \<Rightarrow> transport" where
  "sendIntermediate env d t =
     sk_write (toByteArray (writeInt32 (mk_stream (te_qt env) []) (VInt (of_nat (length d)))) @ d) t"

definition plain_header :: "tpenv \<Rightarrow> i64 \<Rightarrow> bytes \<Rightarrow> bytes" where
  "plain_header env mid d =
     (let p1 = writeInt64 (mk_stream (te_qt env) []) (VInt 0);
          p2 = writeInt64 p1 (VLong mid)
      in toByteArray (writeInt32 p2 (VInt (of_nat (length d)))))"

definition sendPlainMessage :: "tpenv \<Rightarrow> bytes \<Rightarrow> i64 \<Rightarrow> transport \<Rightarrow> i64 \<times> transport" where
  "sendPlainMessage env d oldMid t =
     (if d = [] then (0, t)
      else
        let (mid, t1) = getNewMessageId t;
            t2 = (if oldMid \<noteq> 0 then broadcastMessageChange oldMid mid t1 else t1)
        in (mid, sendIntermediate env (plain_header env mid d @ d) t2))"

definition gzipPacket :: "tpenv \<Rightarrow> bytes \<Rightarrow> bytes" where
  "gzipPacket env d =
     (case te_gzip env d of
        None \<Rightarrow> d
      | Some packed \<Rightarrow> toByteArray (writeMTObject (mk_stream (te_qt env) [])
          (VMap [(''_'', VInt MT_GzipPacked), (''packed_data'', VBytes packed)])))"

text \<open>The plaintext of an encrypted message: salt, session, id, sequence number, length, body, padding.\<close>

definition inner_packet :: "tpenv \<Rightarrow> i64 \<Rightarrow> i64 \<Rightarrow> i64 \<Rightarrow> i32 \<Rightarrow> bytes \<Rightarrow> bytes \<Rightarrow> bytes" where
  "inner_packet env salt session mid seqno body padding =
     (let p1 = writeInt64 (mk_stream (te_qt env) []) (VLong salt);
          p2 = writeInt64 p1 (VLong session);
          p3 = writeInt64 p2 (VLong mid);
          p4 = writeInt32 p3 (VInt seqno);
          p5 = writeInt32 p4 (VInt (of_nat (length body)));
          p6 = writeRawBytes p5 body
      in toByteArray (writeRawBytes p6 padding))"

text \<open>Encryption: the key id, the message key, the ciphertext.\<close>

definition seal_packet :: "tpenv \<Rightarrow> bytes \<Rightarrow> i64 \<Rightarrow> bytes \<Rightarrow> bool \<Rightarrow> bytes" where
  "seal_packet env authKey keyId plain client =
     (let messageKey = calcMessageKey authKey plain client;
          (keyData, keyIv) = calcEncryptionKey authKey messageKey client;
          cipherText = encryptAES256IGE (te_qt env) plain keyIv keyData;
          c1 = writeInt64 (mk_stream (te_qt env) []) (VLong keyId);
          c2 = writeRawBytes c1 messageKey
      in toByteArray (writeRawBytes c2 cipherText))"

text \<open>\<open>sendMTMessage\<close> from the compression on.\<close>

definition sendEncrypted :: "tpenv \<Rightarrow> bytes \<Rightarrow> i64 \<Rightarrow> bool \<Rightarrow> transport \<Rightarrow> i64 \<times> transport" where
  "sendEncrypted env originalData oldMid isService t =
     (let d = (if length originalData > 255 then gzipPacket env originalData else originalData);
          (mid, t1) = getNewMessageId t;
          (seqno, t2) = generateSequence (\<not> isService) t1;
          (r, t3) = draw_int env 14 t2;
          (padding, t4) = draw_bytes env ((0x7FFFFFF0 - int (length d)) smod 16 + (sint r + 2) * 16) t3;
          packetBytes = inner_packet env (tp_serverSalt t) (tp_sessionId t) mid seqno d padding;
          cipherPacket = seal_packet env (tp_authKey t) (tp_authKeyId t) packetBytes True;
          t5 = (if \<not> isService then t4\<lparr>tp_pendingMessages := AList.update mid originalData (tp_pendingMessages t4)\<rparr> else t4);
          t6 = (if oldMid \<noteq> 0 then broadcastMessageChange oldMid mid t5 else t5)
      in (mid, sendIntermediate env cipherPacket t6))"

definition sendMTService :: "tpenv \<Rightarrow> bytes \<Rightarrow> transport \<Rightarrow> i64 \<times> transport" where
  "sendMTService env d t =
     (if tp_authKey t = [] then sendPlainMessage env d 0 t
      else if d = [] then (0, t) else sendEncrypted env d 0 True t)"

definition sendMsgsAck :: "tpenv \<Rightarrow> transport \<Rightarrow> i64 \<times> transport" where
  "sendMsgsAck env t =
     (if tp_msgsToAck t = [] then (0, t)
      else if \<not> tp_initialized t then (0, t)
      else
        let msgsAck = VMap [(''_'', VInt MT_MsgsAck), (''msg_ids'', VList (map VLong (tp_msgsToAck t)))]
        in sendMTService env (tlSerialize (te_qt env) writeMTMsgsAck msgsAck) (t\<lparr>tp_msgsToAck := []\<rparr>))"

definition sendMTMessage :: "tpenv \<Rightarrow> bytes \<Rightarrow> i64 \<Rightarrow> bool \<Rightarrow> transport \<Rightarrow> i64 \<times> transport" where
  "sendMTMessage env originalData oldMid isService t =
     (if tp_authKey t = [] then sendPlainMessage env originalData oldMid t
      else if originalData = [] then (0, t)
      else sendEncrypted env originalData oldMid isService (if \<not> isService then snd (sendMsgsAck env t) else t))"

definition sendPlainObject :: "tpenv \<Rightarrow> tl_writer \<Rightarrow> variant \<Rightarrow> transport \<Rightarrow> i64 \<times> transport" where
  "sendPlainObject env W i t = sendPlainMessage env (tlSerialize (te_qt env) W i) 0 t"

definition sendMTObject :: "tpenv \<Rightarrow> tl_writer \<Rightarrow> variant \<Rightarrow> transport \<Rightarrow> i64 \<times> transport" where
  "sendMTObject env W i t = sendMTMessage env (tlSerialize (te_qt env) W i) 0 False t"

definition sendMTServiceObject :: "tpenv \<Rightarrow> tl_writer \<Rightarrow> variant \<Rightarrow> transport \<Rightarrow> i64 \<times> transport" where
  "sendMTServiceObject env W i t = sendMTMessage env (tlSerialize (te_qt env) W i) 0 True t"

lemma sendMTService_eq: "sendMTService env d t = sendMTMessage env d 0 True t"
  by (simp add: sendMTService_def sendMTMessage_def)

text \<open>Everything stored in a table is sent again, each message under a new id.\<close>

definition resend_step :: "tpenv \<Rightarrow> bytes \<Rightarrow> i64 \<Rightarrow> transport \<Rightarrow> transport" where
  "resend_step env d key t = snd (sendMTMessage env d key False t)"

definition take_message :: "i64 \<Rightarrow> (i64 \<times> bytes) list \<Rightarrow> bytes \<times> (i64 \<times> bytes) list" where
  "take_message key h = (case map_of h key of None \<Rightarrow> [] | Some d \<Rightarrow> d, AList.delete key h)"

subsection \<open>Starting and stopping\<close>

definition tp_stop :: "tpenv \<Rightarrow> bool \<Rightarrow> transport \<Rightarrow> transport" where
  "tp_stop env ack t =
     (let t1 = (saveSession False t)\<lparr>tp_pingTimer := False, tp_retryTimer := None, tp_connectTimer := False,
                 tp_autoReconnect := False\<rparr>
      in if tp_socket t1 = SkUnconnected then t1
         else sk_disconnectFromHost env (if ack then snd (sendMsgsAck env t1) else t1))"

definition setDc :: "tpenv \<Rightarrow> qstring \<Rightarrow> 16 word \<Rightarrow> i32 \<Rightarrow> transport \<Rightarrow> transport" where
  "setDc env host port dcId t =
     (let t1 = tp_stop env True t;
          t2 = loadSession env (t1\<lparr>tp_currentDc := dcId\<rparr>)
      in saveSession False (t2\<lparr>tp_currentDc := dcId, tp_currentHost := host, tp_currentPort := port, tp_config := []\<rparr>))"

definition resetDc :: "tpenv \<Rightarrow> transport \<Rightarrow> transport" where
  "resetDc env t = setDc env (if tp_testMode t then qs ''149.154.167.40'' else qs ''149.154.167.50'') 443 2 t"

definition tp_start :: "tpenv \<Rightarrow> transport \<Rightarrow> transport" where
  "tp_start env t =
     (if tp_socket t \<noteq> SkUnconnected then t
      else
        let t1 = loadSession env t;
            t2 = (if tp_currentHost t1 = [] \<or> tp_currentPort t1 = 0 \<or> tp_currentDc t1 = 0
                  then saveSession False (resetDc env t1) else t1);
            t3 = t2\<lparr>tp_notifiedDisconnect := False, tp_autoReconnect := True, tp_socket := SkConnecting\<rparr>
        in (tp_emit (EvConnect (tp_currentHost t3) (tp_currentPort t3)) t3)\<lparr>tp_connectTimer := True, tp_pingTimer := True\<rparr>)"

definition resetSession :: "tpenv \<Rightarrow> transport \<Rightarrow> transport" where
  "resetSession env t =
     (let t1 = (tp_stop env True t)\<lparr>tp_authKey := [], tp_sessionId := 0, tp_userId := 0\<rparr>;
          t2 = (saveSession True t1)\<lparr>tp_pendingMessages := [], tp_noFloodReplay := [], tp_migrationMessages := [],
                 tp_msgsToAck := [], tp_initialized := False\<rparr>
      in tp_emit EvClientDisconnected t2)"

definition dc_option_fits :: "i32 \<Rightarrow> bool \<Rightarrow> tgobject \<Rightarrow> bool" where
  "dc_option_fits dcId mediaOnly option =
     (\<not> (qv_toInt (obj_get option ''id'') \<noteq> dcId \<or> qv_toBool (obj_get option ''ipv6'') \<or>
         qv_toBool (obj_get option ''media_only'') \<noteq> mediaOnly \<or> qv_toBool (obj_get option ''tcpo_only'') \<or>
         qv_toBool (obj_get option ''cdn'')))"

definition migrateTo :: "tpenv \<Rightarrow> i32 \<Rightarrow> transport \<Rightarrow> transport" where
  "migrateTo env dcId t =
     (if dcId = tp_currentDc t then t
      else
        let t1 = tp_stop env True t;
            option = find_object (dc_option_fits dcId (tp_mediaOnly t1)) (qv_toList (obj_get (tp_config t1) ''dc_options''));
            targetHost = qv_toString (obj_get option ''ip_address'');
            targetPort = ucast (qv_toInt (obj_get option ''port'')) :: 16 word
        in if targetHost = [] then tp_start env (resetDc env t1)
           else
             let t2 = t1\<lparr>tp_currentDc := dcId, tp_currentHost := targetHost\<rparr>;
                 t3 = (if targetPort \<noteq> 0 then t2\<lparr>tp_currentPort := targetPort\<rparr> else t2)
             in tp_start env (saveSession False t3))"

definition retryNow :: "tpenv \<Rightarrow> transport \<Rightarrow> transport" where
  "retryNow env t = tp_start env (t\<lparr>tp_retryTimer := None, tp_retryAttempt := 0\<rparr>)"

datatype tp_timer = TmRetry | TmConnect | TmPing | TmOther

definition flood_resend :: "tpenv \<Rightarrow> i64 \<Rightarrow> transport \<Rightarrow> transport" where
  "flood_resend env key t =
     (let (d, rest) = take_message key (tp_floodMessages t)
      in resend_step env d key (t\<lparr>tp_floodMessages := rest\<rparr>))"

definition ping_tick :: "tpenv \<Rightarrow> transport \<Rightarrow> transport" where
  "ping_tick env t =
     (let t1 = (if length (tp_pendingMessages t) \<ge> 40 then t\<lparr>tp_pendingMessages := [], tp_noFloodReplay := []\<rparr> else t);
          t2 = fold (flood_resend env) (te_hash_order env (map fst (tp_floodMessages t1))) t1;
          t3 = saveSession False (snd (sendMsgsAck env t2));
          ping = VMap [(''_'', VInt MT_PingDelayDisconnectMethod), (''ping_id'', VLong (tp_pingId t3)),
                       (''disconnect_delay'', VInt 75)]
      in snd (sendMTServiceObject env writeMTMethodPingDelayDisconnect ping (t3\<lparr>tp_pingId := tp_pingId t3 + 1\<rparr>)))"

definition tp_timerEvent :: "tpenv \<Rightarrow> tp_timer \<Rightarrow> transport \<Rightarrow> transport" where
  "tp_timerEvent env timer t =
     (case timer of
        TmRetry \<Rightarrow> tp_start env (t\<lparr>tp_retryTimer := None\<rparr>)
      | TmConnect \<Rightarrow> notifyDisconnected env (sk_abort (t\<lparr>tp_connectTimer := False\<rparr>))
      | TmOther \<Rightarrow> t
      | TmPing \<Rightarrow> ping_tick env t)"

end
