(* ===== verification/TransportAuth.thy ===== *)
theory TransportAuth
  imports Transport
begin

section \<open>The transport: key exchange and first request: libkg/tgtransport.cpp\<close>

text \<open>
  The three steps of the Diffie-Hellman exchange, each answering one plaintext message of the server,
  and the request that opens an encrypted session. \<open>None\<close> is a step that does not return: the
  padding loop that never accepts a draw, or a division by zero.
\<close>

definition tp_authorize :: "tpenv \<Rightarrow> transport \<Rightarrow> transport" where
  "tp_authorize env t =
     (let (nonce, t1) = draw_bytes env 16 (t\<lparr>tp_handshaking := True, tp_newNonce := [], tp_serverNonce := []\<rparr>);
          reqPq = VMap [(''_'', VInt MT_ReqPqMultiMethod), (''nonce'', VBytes nonce)]
      in snd (sendPlainObject env writeMTMethodReqPqMulti reqPq (t1\<lparr>tp_nonce := nonce\<rparr>)))"

subsection \<open>resPQ\<close>

definition PUBLIC_KEY_1 :: string where
  "PUBLIC_KEY_1 = ''00e8bb3305c0b52c6cf2afdf763731'' @ ''3489e63e05268e5badb601af417786'' @
     ''472e5f93b85438968e20e6729a301c'' @ ''0afc121bf7151f834436f7fda68084'' @
     ''7a66bf64accec78ee21c0b316f0eda'' @ ''fe2f41908da7bd1f4a5107638eeb67'' @
     ''040ace472a14f90d9f7c2b7def9968'' @ ''8ba3073adb5750bb02964902a359fe'' @
     ''745d8170e36876d4fd8a5d41b2a76c'' @ ''bff9a13267eb9580b2d06d10357448'' @
     ''d20d9da2191cb5d8c93982961cdfde'' @ ''da629e37f1fb09a0722027696032fe'' @
     ''61ed663db7a37f6f263d370f69db53'' @ ''a0dc0a1748bdaaff6209d5645485e6'' @
     ''e001d1953255757e4b8e42813347b1'' @ ''1da6ab500fd0ace7e6dfa3736199cc'' @
     ''af9397ed0745a427dcfa6cd67bcb1a'' @ ''cff3''"

definition PUBLIC_KEY_2 :: string where
  "PUBLIC_KEY_2 = ''00c8c11d635691fac091dd9489aedc'' @ ''ed2932aa8a0bcefef05fa800892d9b'' @
     ''52ed03200865c9e97211cb2ee6c7ae'' @ ''96d3fb0e15aeffd66019b44a08a240'' @
     ''cfdd2868a85e1f54d6fa5deaa041f6'' @ ''941ddf302690d61dc476385c2fa655'' @
     ''142353cb4e4b59f6e5b6584db76fe8'' @ ''b1370263246c010c93d011014113eb'' @
     ''df987d093f9d37c2be48352d69a168'' @ ''3f8f6e6c2167983c761e3ab169fde5'' @
     ''daaa12123fa1beab621e4da5935e9c'' @ ''198f82f35eae583a99386d8110ea6b'' @
     ''d1abb0f568759f62694419ea5f6984'' @ ''7c43462abef858b4cb5edc84e7b922'' @
     ''6cd7bd7e183aa974a712c079dde85b'' @ ''9dc063b8a5c08e8f859c0ee5dcd824'' @
     ''c7807f20153361a7f63cfd2a433a1b'' @ ''e7f5''"

definition keychain :: "qtenv \<Rightarrow> dhkey list" where
  "keychain q = [DHKey q PUBLIC_KEY_1 (- 3414540481677951611) ''010001'', DHKey q PUBLIC_KEY_2 (- 5595554452916591101) ''010001'']"

text \<open>The first of the server's fingerprints that one of the keys has.\<close>

definition match_key :: "dhkey list \<Rightarrow> i64 list \<Rightarrow> dhkey option" where
  "match_key keys fps =
     (case find (\<lambda>fp. \<exists>k \<in> set keys. dh_fingerprint k = fp) fps of
        None \<Rightarrow> None
      | Some fp \<Rightarrow> find (\<lambda>k. dh_fingerprint k = fp) keys)"

text \<open>Eight bytes read through a pointer: past the end of the array memory is arbitrary.\<close>

definition first_bytes :: "qtenv \<Rightarrow> nat \<Rightarrow> bytes \<Rightarrow> bytes" where
  "first_bytes q n b = take n (b @ map (uninit q) [length b..<n])"

text \<open>\<open>insert(0, QByteArray(256 - size, 0))\<close>\<close>

definition pad_left_256 :: "bytes \<Rightarrow> bytes" where
  "pad_left_256 b = replicate (256 - length b) 0 @ b"

definition pq_factors :: "tpenv \<Rightarrow> nat \<Rightarrow> i64 \<Rightarrow> (32 word \<times> 32 word) option" where
  "pq_factors env n pq =
     (case findDivider (te_rand env n) pq of
        None \<Rightarrow> None
      | Some d \<Rightarrow>
          let p = ucast d :: 32 word
          in if p = 0 then None
             else let q = ucast (pq div ucast p) in Some (if p > q then (q, p) else (p, q)))"

definition handleResPQ :: "tpenv \<Rightarrow> bytes \<Rightarrow> transport \<Rightarrow> transport option" where
  "handleResPQ env d t =
     (let q = te_qt env;
          obj = qv_toMap (tlDeserialize q readMTResPQ d)
      in if qv_toBytes q (obj_get obj ''nonce'') \<noteq> tp_nonce t then Some t
         else
           let t1 = t\<lparr>tp_serverNonce := qv_toBytes q (obj_get obj ''server_nonce'')\<rparr>;
               pqBytes = qv_toBytes q (obj_get obj ''pq'');
               pq = be_decode (first_bytes q 8 pqBytes)
           in case pq_factors env (tp_draws t1) pq of
                None \<Rightarrow> None
              | Some (p, qq) \<Rightarrow>
                  case match_key (keychain q) (map qv_toLongLong (qv_toList (obj_get obj ''server_public_key_fingerprints''))) of
                    None \<Rightarrow> Some t1
                  | Some key \<Rightarrow>
                      let (newNonce, t2) = draw_bytes env 32 t1;
                          t3 = t2\<lparr>tp_newNonce := newNonce\<rparr>;
                          pqInnerData = VMap [(''_'', VInt MT_PQInnerDataDc), (''pq'', VBytes pqBytes),
                            (''p'', VBytes (be_encode 4 p)), (''q'', VBytes (be_encode 4 qq)), (''nonce'', VBytes (tp_nonce t3)),
                            (''server_nonce'', VBytes (tp_serverNonce t3)), (''new_nonce'', VBytes newNonce),
                            (''dc'', VInt (dc_number t3))];
                          pidData = tlSerialize q writeMTPQInnerData pqInnerData
                      in if length pidData > 144 then Some t3
                         else case rsaPad q (te_rng env) (tp_draws t3) pidData key of
                                None \<Rightarrow> None
                              | Some (encrypted, n) \<Rightarrow>
                                  let reqDH = VMap [(''_'', VInt MT_ReqDHParamsMethod), (''nonce'', VBytes (tp_nonce t3)),
                                        (''server_nonce'', VBytes (tp_serverNonce t3)), (''p'', VBytes (be_encode 4 p)),
                                        (''q'', VBytes (be_encode 4 qq)), (''public_key_fingerprint'', VLong (dh_fingerprint key)),
                                        (''encrypted_data'', VBytes (pad_left_256 encrypted))]
                                  in Some (snd (sendPlainObject env writeMTMethodReqDHParams reqDH (t3\<lparr>tp_draws := n\<rparr>))))"

subsection \<open>server_DH_params_ok\<close>

definition temp_aes :: "bytes \<Rightarrow> bytes \<Rightarrow> bytes \<times> bytes" where
  "temp_aes newNonce serverNonce =
     (hashSHA1 (newNonce @ serverNonce) @ ba_mid 0 12 (hashSHA1 (serverNonce @ newNonce)),
      ba_mid 12 8 (hashSHA1 (serverNonce @ newNonce)) @ hashSHA1 (newNonce @ newNonce) @ ba_mid 0 4 newNonce)"

definition handleServerDHParamsOk :: "tpenv \<Rightarrow> bytes \<Rightarrow> transport \<Rightarrow> transport" where
  "handleServerDHParamsOk env d t =
     (let q = te_qt env;
          localTime = tp_clock t;
          var = tlDeserialize q readMTServerDHParams d;
          obj = qv_toMap var
      in if qv_toBytes q (obj_get obj ''nonce'') \<noteq> tp_nonce t then t
         else if qv_toBytes q (obj_get obj ''server_nonce'') \<noteq> tp_serverNonce t then t
         else
           let encryptedAnswer = qv_toBytes q (obj_get obj ''encrypted_answer'');
               (tempAesKey, tempAesIv) = temp_aes (tp_newNonce t) (tp_serverNonce t);
               (answerHash, s1) = readRawBytes 20 (mk_stream q (decryptAES256IGE encryptedAnswer tempAesIv tempAesKey));
               innerData = qv_toMap (fst (readMTServerDHInnerData var s1));
               (bBytes, t1) = draw_bytes env 256 t;
               gBytes = be_encode 4 (qv_toInt (obj_get innerData ''g''));
               dhPrime = qv_toBytes q (obj_get innerData ''dh_prime'');
               gbBytes = encryptRSA gBytes dhPrime bBytes;
               clientInnerData = VMap [(''_'', VInt MT_ClientDHInnerData), (''nonce'', VBytes (tp_nonce t)),
                 (''server_nonce'', VBytes (tp_serverNonce t)), (''retry_id'', VInt 0), (''g_b'', VBytes gbBytes)];
               cidBytes = tlSerialize q writeMTClientDHInnerData clientInnerData;
               unpadded = hashSHA1 cidBytes @ cidBytes;
               (padding, t2) = draw_bytes env (16 - int (length unpadded) mod 16) t1;
               encryptedData = encryptAES256IGE q (unpadded @ padding) tempAesIv tempAesKey;
               setParams = VMap [(''_'', VInt MT_SetClientDHParamsMethod), (''nonce'', VBytes (tp_nonce t)),
                 (''server_nonce'', VBytes (tp_serverNonce t)), (''encrypted_data'', VBytes encryptedData)];
               (session, t3) = draw_long env t2;
               gaBytes = qv_toBytes q (obj_get innerData ''g_a'');
               authKey = pad_left_256 (encryptRSA gaBytes dhPrime bBytes)
           in snd (sendPlainObject env writeMTMethodSetClientDHParams setParams
                (t3\<lparr>tp_sessionId := session,
                    tp_authKey := authKey,
                    tp_serverSalt := le_decode (first_bytes q 8 (xorArray (ba_mid 0 8 (tp_newNonce t)) (ba_mid 0 8 (tp_serverNonce t)))),
                    tp_authKeyId := le_decode (first_bytes q 8 (ba_mid 12 8 (hashSHA1 authKey))),
                    tp_timeOffset := qv_toInt (obj_get innerData ''server_time'') - localTime,
                    tp_sequence := 0,
                    tp_lastMessageId := 0\<rparr>)))"

subsection \<open>The first request\<close>

definition writeTLInputClientProxy :: tl_writer where
  "writeTLInputClientProxy = write_fobject
     [(1968737087, [wf ''_'' writeInt32, wf ''address'' writeString, wf ''port'' writeInt32])]"

text \<open>
  The wrappers of a query are templates over the query's writer. The optional parameters of a
  connection are a JSON value, whose writer (it has doubles) is a parameter; the client never sets them.
\<close>

definition writeTLMethodInitConnection :: "tl_writer \<Rightarrow> tl_writer \<Rightarrow> tl_writer" where
  "writeTLMethodInitConnection writeTLJSONValue W = write_fobject
     [(- 1043505495,
        [wf ''_'' writeInt32, wf_flags ''flags'' [(''proxy'', 0), (''params'', 1)], wf ''api_id'' writeInt32,
         wf ''device_model'' writeString, wf ''system_version'' writeString, wf ''app_version'' writeString,
         wf ''system_lang_code'' writeString, wf ''lang_pack'' writeString, wf ''lang_code'' writeString,
         wf_if ''flags'' 0 ''proxy'' writeTLInputClientProxy, wf_if ''flags'' 1 ''params'' writeTLJSONValue,
         wf ''query'' W])]"

definition writeTLMethodInvokeWithLayer :: "tl_writer \<Rightarrow> tl_writer" where
  "writeTLMethodInvokeWithLayer W = write_fobject
     [(- 627372787, [wf ''_'' writeInt32, wf ''layer'' writeInt32, wf ''query'' W])]"

definition first_request :: "tpenv \<Rightarrow> variant" where
  "first_request env =
     (let getConfig = VMap [(''_'', VInt HelpGetConfigMethod)];
          appVersion = (if te_appVersion env = [] then qs ''1.0.0'' else te_appVersion env);
          initConnection = VMap [(''_'', VInt InitConnectionMethod), (''api_id'', VInt (te_api_id env)),
            (''device_model'', VStr (te_systemName env @ qs ''-based device'')), (''system_version'', VStr (te_systemName env)),
            (''app_version'', VStr appVersion), (''system_lang_code'', VStr (te_language env)),
            (''lang_pack'', VStr []), (''lang_code'', VStr (te_language env)), (''query'', getConfig)]
      in VMap [(''_'', VInt InvokeWithLayerMethod), (''layer'', VInt API_LAYER), (''query'', initConnection)])"

definition tp_initConnection :: "tpenv \<Rightarrow> transport \<Rightarrow> transport" where
  "tp_initConnection env t =
     snd (sendMTObject env
       (writeTLMethodInvokeWithLayer (writeTLMethodInitConnection (te_writeJSONValue env) writeTLMethodHelpGetConfig))
       (first_request env) t)"

definition handleDhGenOk :: "tpenv \<Rightarrow> bytes \<Rightarrow> transport \<Rightarrow> transport" where
  "handleDhGenOk env d t =
     (let q = te_qt env;
          obj = qv_toMap (tlDeserialize q readMTSetClientDHParamsAnswer d);
          newNonceHash1 = drop 4 (hashSHA1 (tp_newNonce t @ [1] @ ba_mid 0 8 (hashSHA1 (tp_authKey t))))
      in if qv_toBytes q (obj_get obj ''nonce'') \<noteq> tp_nonce t then t
         else if qv_toBytes q (obj_get obj ''server_nonce'') \<noteq> tp_serverNonce t then t
         else if qv_toBytes q (obj_get obj ''new_nonce_hash1'') \<noteq> newNonceHash1 then t
         else tp_initConnection env (saveSession False (t\<lparr>tp_handshaking := False\<rparr>)))"

definition tp_connected :: "tpenv \<Rightarrow> transport \<Rightarrow> transport" where
  "tp_connected env t =
     (let t1 = sk_write (toByteArray (writeInt32 (mk_stream (te_qt env) []) (VUInt 0xeeeeeeee))) t;
          t2 = tp_emit EvClientConnected (t1\<lparr>tp_connectTimer := False\<rparr>)
      in if hasSession t2 then tp_initConnection env t2 else tp_authorize env t2)"

end
