(* ===== verification/TransportDispatch.thy ===== *)
theory TransportDispatch
  imports TransportAuth
begin

section \<open>The transport: receiving: libkg/tgtransport.cpp\<close>

text \<open>
  A frame is decrypted and checked by \<open>processMessage\<close>, which hands its body to
  \<open>handleObject\<close>; containers, copies, results and compressed objects re-enter \<open>handleObject\<close>
  with what they contain. Nesting is bounded by a depth argument: \<open>None\<close> is a body nested
  deeper (the code would go on to the end of its stack), or a handler that does not return.
\<close>

type_synonym handler = "bytes \<Rightarrow> i64 \<Rightarrow> transport \<Rightarrow> transport option"

definition packet_of :: "tpenv \<Rightarrow> bytes \<Rightarrow> tgstream" where
  "packet_of env d = mk_stream (te_qt env) d"

definition next_int :: "tgstream \<Rightarrow> i32 \<times> tgstream" where
  "next_int s = (let (v, s') = readInt32 VNull s in (qv_toInt v, s'))"

definition next_long :: "tgstream \<Rightarrow> i64 \<times> tgstream" where
  "next_long s = (let (v, s') = readInt64 VNull s in (qv_toLongLong v, s'))"

subsection \<open>Acknowledgements\<close>

definition ack_message :: "i64 \<Rightarrow> transport \<Rightarrow> transport" where
  "ack_message mid t = (if mid \<in> set (tp_msgsToAck t) then t else t\<lparr>tp_msgsToAck := tp_msgsToAck t @ [mid]\<rparr>)"

definition handleMsgDetailedInfo :: "tpenv \<Rightarrow> bytes \<Rightarrow> transport \<Rightarrow> transport" where
  "handleMsgDetailedInfo env d t =
     (let (conId, s1) = next_int (packet_of env d); (msgId, s2) = next_long s1; (answerMsgId, s3) = next_long s2
      in ack_message answerMsgId (ack_message msgId t))"

definition handleMsgNewDetailedInfo :: "tpenv \<Rightarrow> bytes \<Rightarrow> transport \<Rightarrow> transport" where
  "handleMsgNewDetailedInfo env d t =
     (let (conId, s1) = next_int (packet_of env d); (answerMsgId, s2) = next_long s1 in ack_message answerMsgId t)"

subsection \<open>Answers and service messages\<close>

definition handleBool :: "tpenv \<Rightarrow> bytes \<Rightarrow> i64 \<Rightarrow> transport \<Rightarrow> transport" where
  "handleBool env d mid t = tp_emit (EvClientBool (fst (next_int (packet_of env d)) = BOOL_TRUE) mid) t"

definition handlePingMethod :: "tpenv \<Rightarrow> bytes \<Rightarrow> i64 \<Rightarrow> transport \<Rightarrow> transport" where
  "handlePingMethod env d mid t =
     (let (conId, s1) = next_int (packet_of env d); (pingId, s2) = next_long s1;
          pong = VMap [(''_'', VInt MT_Pong), (''msg_id'', VLong mid), (''ping_id'', VLong pingId)]
      in snd (sendMTServiceObject env writeMTPong pong t))"

definition checkAuthorization :: "tpenv \<Rightarrow> transport \<Rightarrow> transport" where
  "checkAuthorization env t =
     (if tp_userId t = 0 then t
      else if \<not> tp_isMain t then tp_emit (EvClientAuthorized (tp_userId t)) t
      else
        let getUsers = VMap [(''_'', VInt UsersGetUsersMethod), (''id'', VList [VMap [(''_'', VInt InputUserSelf)]])];
            (mid, t1) = sendMTObject env writeTLMethodUsersGetUsers getUsers t
        in t1\<lparr>tp_authCheckMsgId := mid\<rparr>)"

definition handleVector :: "tpenv \<Rightarrow> bytes \<Rightarrow> i64 \<Rightarrow> transport \<Rightarrow> transport" where
  "handleVector env d mid t =
     (let (conId, s1) = next_int (packet_of env d); (count, s2) = readInt32 VNull s1;
          user = (if 0 <s qv_toInt count then qv_toMap (fst (readTLUser count s2)) else []);
          newUserId = qv_toLongLong (obj_get user ''id'');
          t1 = (if mid = tp_authCheckMsgId t \<and> isUser user \<and> newUserId \<noteq> 0
                then tp_emit (EvClientAuthorized newUserId) (saveSession False (t\<lparr>tp_userId := newUserId\<rparr>)) else t)
      in tp_emit (EvClientVector d mid) t1)"

definition handleAuthorization :: "tpenv \<Rightarrow> bytes \<Rightarrow> i64 \<Rightarrow> transport \<Rightarrow> transport" where
  "handleAuthorization env d mid t =
     (let auth = qv_toMap (tlDeserialize (te_qt env) readTLAuthAuthorization d);
          t1 = t\<lparr>tp_userId := qv_toLongLong (obj_get (qv_toMap (obj_get auth ''user'')) ''id'')\<rparr>
      in tp_emit (EvClientObject d mid) (checkAuthorization env (saveSession False t1)))"

definition migration_resend :: "tpenv \<Rightarrow> i64 \<Rightarrow> transport \<Rightarrow> transport" where
  "migration_resend env key t =
     (let (d, rest) = take_message key (tp_migrationMessages t)
      in resend_step env d key (t\<lparr>tp_migrationMessages := rest\<rparr>))"

definition handleConfig :: "tpenv \<Rightarrow> bytes \<Rightarrow> transport \<Rightarrow> transport" where
  "handleConfig env d t =
     (let config = qv_toMap (tlDeserialize (te_qt env) readTLConfig d);
          thisDc = qv_toInt (obj_get config ''this_dc'');
          t1 = t\<lparr>tp_config := config\<rparr>;
          t2 = saveSession False (if thisDc \<noteq> 0 then t1\<lparr>tp_currentDc := thisDc\<rparr> else t1);
          t3 = fold (migration_resend env) (te_hash_order env (map fst (tp_migrationMessages t2))) t2
      in checkAuthorization env (tp_emit EvClientInitialized (t3\<lparr>tp_initialized := True, tp_retryAttempt := 0\<rparr>)))"

subsection \<open>Errors\<close>

definition doNotReplay :: "i64 \<Rightarrow> transport \<Rightarrow> transport" where
  "doNotReplay mid t = (if mid \<noteq> 0 then t\<lparr>tp_noFloodReplay := List.insert mid (tp_noFloodReplay t)\<rparr> else t)"

definition drop_pending :: "i64 \<Rightarrow> transport \<Rightarrow> transport" where
  "drop_pending mid t = t\<lparr>tp_pendingMessages := AList.delete mid (tp_pendingMessages t)\<rparr>"

definition tp_handleRpcError :: "tpenv \<Rightarrow> bytes \<Rightarrow> i64 \<Rightarrow> transport \<Rightarrow> transport" where
  "tp_handleRpcError env d mid t =
     (let (conId, s1) = next_int (packet_of env d); (errorCode, s2) = next_int s1;
          errorMessage = qv_toString (fst (readString VNull s2));
          messageParameter = qs_toInt (qs_last_part errorMessage);
          (request, others) = take_message mid (tp_pendingMessages t)
      in if qs_contains errorMessage (qs ''_MIGRATE_'') then
           (if qs_startsWith errorMessage (qs ''FILE_'')
            then tp_emit (EvClientMigrateFile mid messageParameter) (drop_pending mid t)
            else if \<not> tp_isMain t then drop_pending mid t
            else migrateTo env messageParameter
                   (t\<lparr>tp_pendingMessages := others, tp_migrationMessages := AList.update mid request (tp_migrationMessages t)\<rparr>))
         else if qs_contains errorMessage (qs ''FLOOD_WAIT_'') then
           tp_emit (EvClientRpcError errorCode errorMessage mid)
             (if mid \<in> set (tp_noFloodReplay t)
              then drop_pending mid (t\<lparr>tp_noFloodReplay := removeAll mid (tp_noFloodReplay t)\<rparr>)
              else t\<lparr>tp_pendingMessages := others, tp_floodMessages := AList.update mid request (tp_floodMessages t)\<rparr>)
         else if errorMessage = qs ''SESSION_PASSWORD_NEEDED'' then tp_emit EvClientTFARequired (drop_pending mid t)
         else if errorCode = 401 then resetSession env t
         else tp_emit (EvClientRpcError errorCode errorMessage mid) (drop_pending mid t))"

definition handleBadMsgNotification :: "tpenv \<Rightarrow> bytes \<Rightarrow> i64 \<Rightarrow> transport \<Rightarrow> transport" where
  "handleBadMsgNotification env d mid t =
     (let (conId, s1) = next_int (packet_of env d); (badMsgId, s2) = next_long s1;
          (badMsgSeqNo, s3) = next_int s2; (errorCode, s4) = next_int s3;
          t1 = (if errorCode \<in> {16, 17}
                then t\<lparr>tp_lastMessageId := 0, tp_timeOffset := ucast (drop_bit 32 mid) - tp_clock t\<rparr>
                else if errorCode \<in> {32, 33}
                then let (session, t') = draw_long env t in t'\<lparr>tp_lastMessageId := 0, tp_sequence := 0, tp_sessionId := session\<rparr>
                else if errorCode = 48 then t\<lparr>tp_serverSalt := fst (next_long s4)\<rparr>
                else t);
          t2 = saveSession False t1;
          (request, others) = take_message badMsgId (tp_pendingMessages t2)
      in snd (sendMTMessage env request badMsgId False (t2\<lparr>tp_pendingMessages := others\<rparr>)))"

definition handleBadServerSalt :: "tpenv \<Rightarrow> bytes \<Rightarrow> i64 \<Rightarrow> transport \<Rightarrow> transport" where
  "handleBadServerSalt env d mid t = handleBadMsgNotification env d mid t"

subsection \<open>Containers\<close>

text \<open>The loop over a container: \<open>k\<close> messages are left.\<close>

fun container_loop :: "handler \<Rightarrow> nat \<Rightarrow> tgstream \<Rightarrow> transport \<Rightarrow> transport option" where
  "container_loop h 0 s t = Some t"
| "container_loop h (Suc k) s t =
     (let (newMessageId, s1) = next_long s; (seqNo, s2) = next_int s1; (n, s3) = next_int s2;
          (array, s4) = readRawBytes n s3
      in case h array newMessageId t of None \<Rightarrow> None | Some t' \<Rightarrow> container_loop h k s4 t')"

definition handleMsgContainer :: "tpenv \<Rightarrow> handler \<Rightarrow> bytes \<Rightarrow> transport \<Rightarrow> transport option" where
  "handleMsgContainer env h d t =
     (let (conId, s1) = next_int (packet_of env d); (n, s2) = next_int s1
      in container_loop h (nat (sint n)) s2 t)"

definition handleMsgCopy :: "tpenv \<Rightarrow> handler \<Rightarrow> bytes \<Rightarrow> transport \<Rightarrow> transport option" where
  "handleMsgCopy env h d t =
     (let (conId, s1) = next_int (packet_of env d); (newMessageId, s2) = next_long s1;
          (seqNo, s3) = next_int s2; (n, s4) = next_int s3; (array, s5) = readRawBytes n s4
      in h array newMessageId t)"

definition handleRpcResult :: "tpenv \<Rightarrow> handler \<Rightarrow> bytes \<Rightarrow> transport \<Rightarrow> transport option" where
  "handleRpcResult env h d t =
     (let (conId, s1) = next_int (packet_of env d); (reqMsgId, s2) = next_long s1 in h (drop 12 d) reqMsgId t)"

definition handleGzipPacked :: "tpenv \<Rightarrow> handler \<Rightarrow> bytes \<Rightarrow> i64 \<Rightarrow> transport \<Rightarrow> transport option" where
  "handleGzipPacked env h d mid t =
     (let (conId, s1) = next_int (packet_of env d); packed = qv_toBytes (te_qt env) (fst (readByteArray VNull s1))
      in case te_gunzip env packed of None \<Rightarrow> Some t | Some unpacked \<Rightarrow> h unpacked mid t)"

definition ignored_ids :: "i32 list" where
  "ignored_ids = [MT_NewSessionCreated, MT_MsgsAck, MT_Pong, MT_RpcAnswerUnknown, MT_RpcAnswerDroppedRunning,
     MT_RpcAnswerDropped, MT_FutureSalt, MT_FutureSalts]"

primrec handleObject :: "nat \<Rightarrow> tpenv \<Rightarrow> handler" where
  "handleObject 0 env d mid t = None"
| "handleObject (Suc n) env d mid t =
     (let conId = fst (next_int (packet_of env d));
          t1 = (if conId \<noteq> MT_RpcError \<and> conId \<noteq> MT_BadMsgNotification \<and> conId \<noteq> MT_BadServerSalt
                then drop_pending mid t else t)
      in if conId \<in> {BOOL_TRUE, BOOL_FALSE} then Some (handleBool env d mid t1)
         else if conId = MT_ResPQ then handleResPQ env d t1
         else if conId = MT_ServerDHParamsOk then Some (handleServerDHParamsOk env d t1)
         else if conId = MT_DhGenOk then Some (handleDhGenOk env d t1)
         else if conId = MT_MsgContainer then handleMsgContainer env (handleObject n env) d t1
         else if conId = MT_MsgCopy then handleMsgCopy env (handleObject n env) d t1
         else if conId = MT_RpcResult then handleRpcResult env (handleObject n env) d t1
         else if conId = MT_GzipPacked then handleGzipPacked env (handleObject n env) d mid t1
         else if conId = MT_RpcError then Some (tp_handleRpcError env d mid t1)
         else if conId = MT_BadMsgNotification then Some (handleBadMsgNotification env d mid t1)
         else if conId = MT_BadServerSalt then Some (handleBadServerSalt env d mid t1)
         else if conId = MT_PingMethod then Some (handlePingMethod env d mid t1)
         else if conId = Config then Some (handleConfig env d t1)
         else if conId = AuthAuthorization then Some (handleAuthorization env d mid t1)
         else if conId = MT_Vector then Some (handleVector env d mid t1)
         else if conId = MT_MsgDetailedInfo then Some (handleMsgDetailedInfo env d t1)
         else if conId = MT_MsgNewDetailedInfo then Some (handleMsgNewDetailedInfo env d t1)
         else if conId \<in> set ignored_ids then Some t1
         else Some (tp_emit (EvClientObject d mid) t1))"

subsection \<open>Frames\<close>

definition acceptMessageId :: "i64 \<Rightarrow> transport \<Rightarrow> bool \<times> transport" where
  "acceptMessageId mid t =
     (if mid \<in> set (tp_seenMessageIds t) then (False, t)
      else
        let seen = tp_seenMessageIds t @ [mid]
        in (True, t\<lparr>tp_seenMessageIds := if length seen > 64 then tl seen else seen\<rparr>))"

definition countBadPacket :: "tpenv \<Rightarrow> transport \<Rightarrow> transport" where
  "countBadPacket env t =
     (let t1 = t\<lparr>tp_badPackets := tp_badPackets t + 1\<rparr>
      in if tp_badPackets t1 <s 3 then t1
         else notifyDisconnected env (sk_abort (t1\<lparr>tp_badPackets := 0\<rparr>)))"

text \<open>
  The two ways a frame can be read: a reason to drop it, a reason that also counts as a bad packet,
  or a message id and a body.
\<close>

datatype frame_verdict = FrameDropped | FrameBad | FrameBody i64 bytes

definition open_plain :: "tpenv \<Rightarrow> bytes \<Rightarrow> transport \<Rightarrow> frame_verdict" where
  "open_plain env message t =
     (let (keyId, s1) = next_long (packet_of env message)
      in if \<not> tp_handshaking t then FrameDropped
         else if length message < 20 then FrameDropped
         else
           let (mid, s2) = next_long s1; (plainLength, s3) = next_int s2
           in if sint plainLength < 0 \<or> sint plainLength > int (length message) - 20 then FrameDropped
              else FrameBody mid (fst (readRawBytes plainLength s3)))"

definition open_sealed :: "tpenv \<Rightarrow> bytes \<Rightarrow> transport \<Rightarrow> frame_verdict" where
  "open_sealed env message t =
     (let (keyId, s1) = next_long (packet_of env message)
      in if tp_authKey t = [] \<or> keyId \<noteq> tp_authKeyId t then FrameBad
         else if length message < 24 + 32 + 12 \<or> (length message - 24) mod 16 \<noteq> 0 then FrameBad
         else
           let (messageKey, s2) = readRawBytes 16 s1;
               (keyData, keyIv) = calcEncryptionKey (tp_authKey t) messageKey False;
               plain = decryptAES256IGE (drop 24 message) keyIv keyData
           in if plain = [] then FrameBad
              else if calcMessageKey (tp_authKey t) plain False \<noteq> messageKey then FrameBad
              else
                let (salt, p1) = next_long (packet_of env plain); (remoteSession, p2) = next_long p1;
                    (mid, p3) = next_long p2; (seqno, p4) = next_int p3; (bodyLength, p5) = next_int p4
                in if remoteSession \<noteq> tp_sessionId t then FrameBad
                   else if mid AND 1 = 0 then FrameBad
                   else
                     let padding = int (length plain) - 32 - sint bodyLength
                     in if sint bodyLength < 0 \<or> sint bodyLength > int (length plain) - 32 \<or> padding < 12 \<or> padding > 1024
                        then FrameBad
                        else FrameBody mid (fst (readRawBytes bodyLength p5)))"

definition processMessage :: "nat \<Rightarrow> tpenv \<Rightarrow> bytes \<Rightarrow> transport \<Rightarrow> transport option" where
  "processMessage n env message t =
     (if length message \<le> 4 then Some t
      else if fst (next_long (packet_of env message)) = 0
      then (case open_plain env message t of
              FrameBody mid d \<Rightarrow> handleObject n env d mid (ack_message mid t)
            | _ \<Rightarrow> Some t)
      else (case open_sealed env message t of
              FrameBody mid d \<Rightarrow>
                let (fresh, t1) = acceptMessageId mid t
                in if \<not> fresh then Some t1
                   else handleObject n env d mid (ack_message mid (t1\<lparr>tp_badPackets := 0\<rparr>))
            | _ \<Rightarrow> Some (countBadPacket env t)))"

subsection \<open>The device\<close>

definition readIntermediate :: "tpenv \<Rightarrow> 'd device_read \<Rightarrow> ('d \<Rightarrow> 'd) \<Rightarrow> 'd \<Rightarrow> (bytes \<times> 'd) option" where
  "readIntermediate env fetch wait dev =
     (case readFully fetch wait 4 dev of
        None \<Rightarrow> None
      | Some (buffer, dev1) \<Rightarrow>
          if buffer = [] then Some ([], dev1)
          else readFully fetch wait (fst (next_int (packet_of env buffer))) dev1)"

text \<open>\<open>pending\<close> tells whether bytes can be read, before every frame.\<close>

partial_function (option) readyRead ::
  "nat \<Rightarrow> tpenv \<Rightarrow> 'd device_read \<Rightarrow> ('d \<Rightarrow> 'd) \<Rightarrow> ('d \<Rightarrow> bool) \<Rightarrow> 'd \<Rightarrow> transport \<Rightarrow> ('d \<times> transport) option" where
  "readyRead n env fetch wait pending dev t =
     (if pending dev
      then case readIntermediate env fetch wait dev of
             None \<Rightarrow> None
           | Some (message, dev1) \<Rightarrow>
               (case processMessage n env message t of
                  None \<Rightarrow> None
                | Some t1 \<Rightarrow> readyRead n env fetch wait pending dev1 t1)
      else Some (dev, t))"

end
