(* ===== verification/TransportFacts.thy ===== *)
theory TransportFacts
  imports TransportDispatch
begin

section \<open>Message numbers, sealed frames and the replay window\<close>

text \<open>
  Three facts the protocol rests on. Message ids grow and are divisible by four whatever the clock does
  in between. A frame the server seals for the session opens to its body, and a frame that opens has passed
  every check. An accepted id is refused while it is among the last 64.
\<close>

subsection \<open>Message ids\<close>

definition tp_time :: "transport \<Rightarrow> i64" where
  "tp_time t = ucast (tp_clock t) + scast (tp_timeOffset t)"

definition clock_id :: "i64 \<Rightarrow> i64" where
  "clock_id time = push_bit 32 time OR push_bit 22 (word_of_int (sint time smod 1000))"

lemma getNewMessageId_id:
  "getNewMessageId t =
     (let mid = (if clock_id (tp_time t) \<le>s tp_lastMessageId t then tp_lastMessageId t + 4 else clock_id (tp_time t))
      in (mid, t\<lparr>tp_lastMessageId := mid\<rparr>))"
  by (simp add: getNewMessageId_def clock_id_def tp_time_def Let_def)

lemma and_3: "(w :: i64) AND 3 = take_bit 2 w"
  by (simp add: take_bit_eq_mask mask_eq_exp_minus_1)

lemma clock_id_shift:
  "clock_id time = push_bit 22 (push_bit 10 time OR word_of_int (sint time smod 1000))"
  by (simp only: clock_id_def push_bit_or push_bit_push_bit) simp

lemma clock_id_and_3: "clock_id time AND 3 = 0"
  unfolding and_3 clock_id_shift by (simp only: take_bit_push_bit) simp

lemma add_4_and_3: "(w :: i64) AND 3 = 0 \<Longrightarrow> (w + 4) AND 3 = 0"
proof -
  assume "w AND 3 = 0"
  then have w: "take_bit 2 w = 0" by (simp only: and_3)
  have "take_bit 2 (uint w) = 0" using arg_cong [OF w, of uint] by (simp add: unsigned_take_bit_eq)
  then have "uint w mod 4 = 0" by (simp add: take_bit_eq_mod)
  moreover have "uint (w + 4) = (uint w + 4) mod 2 ^ 64" by (simp add: uint_word_ariths)
  then have "take_bit 2 (uint (w + 4)) = (uint w + 4) mod 4" by (simp add: take_bit_eq_mod mod_mod_cancel)
  then have "uint (take_bit 2 (w + 4)) = (uint w + 4) mod 4" by (simp only: unsigned_take_bit_eq)
  ultimately have "uint (take_bit 2 (w + 4)) = uint (0 :: i64)" by simp
  then have "take_bit 2 (w + 4) = 0" by (rule word_uint_eqI)
  then show "(w + 4) AND 3 = 0" by (simp only: and_3)
qed

lemma sint_add_4: "sint (w :: i64) < 2 ^ 63 - 4 \<Longrightarrow> sint (w + 4) = sint w + 4"
proof -
  assume a: "sint w < 2 ^ 63 - 4"
  have "- (2 ^ 63) \<le> sint w" using sint_greater_eq [of w] by simp
  then have "signed_take_bit 63 (sint w + 4) = sint w + 4" using a by (intro signed_take_bit_int_eq_self) simp_all
  then show ?thesis by (simp add: sint_word_ariths)
qed

lemma sint_nonneg: "0 \<le> sint (w :: i64) \<Longrightarrow> sint w = uint w"
proof -
  assume "0 \<le> sint w"
  moreover have "sint w < 2 ^ 63" using sint_less [of w] by simp
  ultimately show ?thesis unfolding uint_sint by (intro take_bit_int_eq_self [symmetric]) simp_all
qed

lemma sint_small: "uint (w :: i64) < 2 ^ 63 \<Longrightarrow> sint w = uint w"
proof -
  assume "uint w < 2 ^ 63"
  then have "signed_take_bit 63 (uint w) = uint w" by (intro signed_take_bit_int_eq_self) (simp_all add: order_trans [OF _ uint_ge_0])
  then show ?thesis by (simp add: sint_uint)
qed

lemma clock_id_drop:
  assumes "0 \<le> sint time" and "sint time < 2 ^ 31 - 1"
  shows "drop_bit 32 (clock_id time) = time"
proof -
  define x where "x = (word_of_int (sint time smod 1000) :: i64)"
  have u: "uint time < 2 ^ 31" using assms sint_nonneg [of time] by simp
  have "sint time smod 1000 = uint time mod 1000"
    using assms(1) sint_nonneg [of time] by (cases "uint time = 0") (simp_all add: smod_int_alt_def abs_if sgn_if less_le)
  then have "uint x = uint time mod 1000" by (simp add: x_def uint_word_of_int take_bit_int_eq_self)
  then have "uint x < 1000" by simp
  then have "take_bit 10 (uint x) = uint x" by (intro take_bit_int_eq_self) simp_all
  then have x: "take_bit 10 x = x" by (intro word_uint_eqI) (simp add: unsigned_take_bit_eq)
  have "take_bit 32 (uint time) = uint time" using u by (intro take_bit_int_eq_self) simp_all
  then have t: "take_bit 32 time = time" by (intro word_uint_eqI) (simp add: unsigned_take_bit_eq)
  show ?thesis
    unfolding clock_id_def x_def [symmetric]
    by (rule bit_word_eqI)
      (subst t [symmetric], subst x [symmetric], auto simp: bit_drop_bit_eq bit_or_iff bit_push_bit_iff bit_take_bit_iff)
qed


lemma clock_id_range:
  assumes "0 \<le> sint time" and "sint time < 2 ^ 31 - 1"
  shows "0 \<le> sint (clock_id time)" and "sint (clock_id time) < 2 ^ 63 - 2 ^ 32"
proof -
  have q: "uint (clock_id time) div 2 ^ 32 = uint time"
  proof -
    have "uint time = uint (drop_bit 32 (clock_id time))" by (simp only: clock_id_drop [OF assms])
    also have "\<dots> = drop_bit 32 (take_bit 64 (uint (clock_id time)))" by (simp only: unsigned_drop_bit_eq) simp
    also have "take_bit 64 (uint (clock_id time)) = uint (clock_id time)"
      using uint_lt2p [of "clock_id time"] by (intro take_bit_int_eq_self) simp_all
    finally show ?thesis by (simp only: drop_bit_eq_div)
  qed
  have "uint time < 2 ^ 31 - 1" using assms sint_nonneg [of time] by simp
  then have "uint (clock_id time) div 2 ^ 32 < 2 ^ 31 - 1" unfolding q .
  then have u: "uint (clock_id time) < 2 ^ 63 - 2 ^ 32" by (simp add: div_less_iff_less_mult)
  then have "sint (clock_id time) = uint (clock_id time)" by (intro sint_small) simp
  then show "0 \<le> sint (clock_id time)" "sint (clock_id time) < 2 ^ 63 - 2 ^ 32" using u by simp_all
qed

text \<open>One new id: above the last one, and divisible by four.\<close>

definition last_id_ok :: "int \<Rightarrow> transport \<Rightarrow> bool" where
  "last_id_ok B t \<longleftrightarrow> tp_lastMessageId t AND 3 = 0 \<and> 0 \<le> sint (tp_lastMessageId t) \<and> sint (tp_lastMessageId t) < B"

lemma getNewMessageId_step:
  assumes "last_id_ok B t" and "2 ^ 63 - 2 ^ 32 \<le> B" and "B \<le> 2 ^ 63 - 4"
    and "0 \<le> sint (tp_time t)" and "sint (tp_time t) < 2 ^ 31 - 1"
  shows "sint (tp_lastMessageId t) < sint (fst (getNewMessageId t))" and "fst (getNewMessageId t) AND 3 = 0"
    and "last_id_ok (B + 4) (snd (getNewMessageId t))" and "tp_lastMessageId (snd (getNewMessageId t)) = fst (getNewMessageId t)"
proof -
  note r = clock_id_range [OF assms(4,5)]
  have add: "sint (tp_lastMessageId t + 4) = sint (tp_lastMessageId t) + 4"
    using assms(1,3) by (intro sint_add_4) (simp add: last_id_ok_def)
  show "sint (tp_lastMessageId t) < sint (fst (getNewMessageId t))"
    using add by (auto simp: getNewMessageId_id Let_def word_sle_eq)
  show "fst (getNewMessageId t) AND 3 = 0"
    using assms(1) add_4_and_3 clock_id_and_3 by (simp add: getNewMessageId_id Let_def last_id_ok_def)
  then show "last_id_ok (B + 4) (snd (getNewMessageId t))"
    using assms(1,2) add r by (auto simp: getNewMessageId_id Let_def last_id_ok_def)
  show "tp_lastMessageId (snd (getNewMessageId t)) = fst (getNewMessageId t)"
    by (simp add: getNewMessageId_id Let_def)
qed

text \<open>The ids drawn while the clock is set to arbitrary times in between.\<close>

fun issue_ids :: "(32 word \<times> i32) list \<Rightarrow> transport \<Rightarrow> i64 list" where
  "issue_ids [] t = []"
| "issue_ids ((now, offset) # r) t =
     (let (mid, t') = getNewMessageId (t\<lparr>tp_clock := now, tp_timeOffset := offset\<rparr>) in mid # issue_ids r t')"

definition sane_time :: "32 word \<times> i32 \<Rightarrow> bool" where
  "sane_time x \<longleftrightarrow> 0 \<le> sint (ucast (fst x) + scast (snd x) :: i64) \<and> sint (ucast (fst x) + scast (snd x) :: i64) < 2 ^ 31 - 1"

lemma issue_ids_increase:
  "last_id_ok B t \<Longrightarrow> 2 ^ 63 - 2 ^ 32 \<le> B \<Longrightarrow> B + 4 * int (length cs) \<le> 2 ^ 63 - 4 \<Longrightarrow> list_all sane_time cs \<Longrightarrow>
   sorted_wrt (<) (map sint (tp_lastMessageId t # issue_ids cs t)) \<and> (\<forall>mid \<in> set (issue_ids cs t). mid AND 3 = 0)"
proof (induction cs arbitrary: t B)
  case (Cons x cs)
  obtain now offset where x: "x = (now, offset)" by (cases x)
  define t1 where "t1 = t\<lparr>tp_clock := now, tp_timeOffset := offset\<rparr>"
  have ok: "last_id_ok B t1" "tp_lastMessageId t1 = tp_lastMessageId t" using Cons.prems(1) by (simp_all add: t1_def last_id_ok_def)
  have time: "0 \<le> sint (tp_time t1)" "sint (tp_time t1) < 2 ^ 31 - 1"
    using Cons.prems(4) by (simp_all add: x sane_time_def tp_time_def t1_def)
  have B: "B \<le> 2 ^ 63 - 4" using Cons.prems(3) by simp
  note st = getNewMessageId_step [OF ok(1) Cons.prems(2) B time]
  define mid where "mid = fst (getNewMessageId t1)"
  define t2 where "t2 = snd (getNewMessageId t1)"
  have ids: "issue_ids (x # cs) t = mid # issue_ids cs t2"
    by (simp add: x mid_def t2_def t1_def Let_def case_prod_unfold)
  have IH: "sorted_wrt (<) (map sint (tp_lastMessageId t2 # issue_ids cs t2)) \<and> (\<forall>mid \<in> set (issue_ids cs t2). mid AND 3 = 0)"
    using Cons.IH [of "B + 4" t2] st(3) Cons.prems(2-4) by (simp add: t2_def)
  have l2: "tp_lastMessageId t2 = mid" using st(4) by (simp add: t2_def mid_def)
  have lt: "sint (tp_lastMessageId t) < sint mid" using st(1) ok(2) by (simp add: mid_def)
  have "sorted_wrt (<) (map sint (tp_lastMessageId t # mid # issue_ids cs t2))"
    using IH lt unfolding l2 by (auto intro: less_trans)
  then show ?case using IH st(2) unfolding ids by (simp add: mid_def)
qed simp

subsection \<open>Sealed frames\<close>

lemma inner_packet_bytes:
  "inner_packet env salt session mid seqno body padding =
     le_encode 8 salt @ le_encode 8 session @ le_encode 8 mid @ le_encode 4 seqno @ le_encode 4 (of_nat (length body) :: i32) @ body @ padding"
  by (simp add: inner_packet_def Let_def mk_stream_Nil writeInt64_def writeInt32_def toByteArray_def)

lemma seal_packet_bytes:
  "seal_packet env authKey keyId plain client =
     le_encode 8 keyId @ calcMessageKey authKey plain client @
     encryptAES256IGE (te_qt env) plain (snd (calcEncryptionKey authKey (calcMessageKey authKey plain client) client))
       (fst (calcEncryptionKey authKey (calcMessageKey authKey plain client) client))"
  by (simp add: seal_packet_def Let_def case_prod_unfold mk_stream_Nil writeInt64_def toByteArray_def)

lemma plain_header_bytes: "plain_header env mid d = le_encode 8 (0 :: i64) @ le_encode 8 mid @ le_encode 4 (of_nat (length d) :: i32)"
  by (simp add: plain_header_def Let_def mk_stream_Nil writeInt64_def writeInt32_def toByteArray_def qv_toLongLong_def)

lemma next_int_encoded: "avail s = le_encode 4 w @ r \<Longrightarrow> next_int s = (w, advance 4 s)"
  by (simp add: next_int_def readInt32_def read_word_encoded)

lemma next_long_encoded: "avail s = le_encode 8 w @ r \<Longrightarrow> next_long s = (w, advance 8 s)"
  by (simp add: next_long_def readInt64_def read_word_encoded)

lemma avail_packet_of [simp]: "avail (packet_of env d) = d" "sqt (packet_of env d) = te_qt env"
  by (simp_all add: packet_of_def)

lemma take_body: "length body < 2 ^ 31 \<Longrightarrow> avail s = body @ r \<Longrightarrow> fst (readRawBytes (of_nat (length body)) s) = body"
  using readRawBytes_exact [of s body r "of_nat (length body)"] by (simp add: sint_of_nat32)

text \<open>What the server seals for the session, the client opens.\<close>

lemma open_sealed_seal:
  assumes "tp_authKey t \<noteq> []" and "mid AND 1 = 1" and "12 \<le> length padding" and "length padding \<le> 1024"
    and "(32 + length body + length padding) mod 16 = 0" and "length body < 2 ^ 30"
  shows "open_sealed env (seal_packet env (tp_authKey t) (tp_authKeyId t)
           (inner_packet env salt (tp_sessionId t) mid seqno body padding) False) t = FrameBody mid body"
proof -
  define plain where "plain = inner_packet env salt (tp_sessionId t) mid seqno body padding"
  define mk where "mk = calcMessageKey (tp_authKey t) plain False"
  define kd where "kd = fst (calcEncryptionKey (tp_authKey t) mk False)"
  define iv where "iv = snd (calcEncryptionKey (tp_authKey t) mk False)"
  define c where "c = encryptAES256IGE (te_qt env) plain iv kd"
  define m where "m = seal_packet env (tp_authKey t) (tp_authKeyId t) plain False"
  have pb: "plain = le_encode 8 salt @ le_encode 8 (tp_sessionId t) @ le_encode 8 mid @ le_encode 4 seqno @
      le_encode 4 (of_nat (length body) :: i32) @ body @ padding"
    by (simp add: plain_def inner_packet_bytes)
  have lp: "length plain = 32 + length body + length padding" by (simp add: pb)
  have small: "length plain < 2 ^ 31" "length body < 2 ^ 31" using assms(4,6) lp by simp_all
  have mk: "length mk = 16" unfolding mk_def by (rule length_calcMessageKey [OF small(1)])
  have l: "length mk = 16" "length kd = 32" "length iv = 32"
    using mk length_calcEncryptionKey [of mk] by (simp_all add: kd_def iv_def)
  have mod: "length plain mod 16 = 0" using assms(5) lp by simp
  have c: "length c = length plain" "decryptAES256IGE c iv kd = plain"
    unfolding c_def using length_encryptAES [OF mod l(2,3)] decrypt_encrypt_AES256IGE [OF mod l(2,3)] by auto
  have m: "m = le_encode 8 (tp_authKeyId t) @ mk @ c"
    by (simp add: m_def seal_packet_bytes mk_def c_def iv_def kd_def)
  have lm: "length m = 24 + length plain" using l c by (simp add: m)
  have id: "next_long (packet_of env m) = (tp_authKeyId t, advance 8 (packet_of env m))"
    by (rule next_long_encoded [of _ _ "mk @ c"]) (simp add: m)
  have key: "readRawBytes 16 (advance 8 (packet_of env m)) = (mk, advance 16 (advance 8 (packet_of env m)))"
    using readRawBytes_exact [of "advance 8 (packet_of env m)" mk c 16] l by (simp add: m)
  have body: "drop 24 m = c" using l by (simp add: m)
  let ?p = "packet_of env plain"
  have f: "next_long ?p = (salt, advance 8 ?p)"
    "next_long (advance 8 ?p) = (tp_sessionId t, advance 16 ?p)"
    "next_long (advance 16 ?p) = (mid, advance 24 ?p)"
    "next_int (advance 24 ?p) = (seqno, advance 28 ?p)"
    "next_int (advance 28 ?p) = (of_nat (length body), advance 32 ?p)"
    by (subst next_long_encoded next_int_encoded, simp add: pb, simp)+
  have rb: "fst (readRawBytes (of_nat (length body)) (advance 32 ?p)) = body"
    by (rule take_body [OF small(2), of _ padding]) (simp add: pb)
  have ne: "plain \<noteq> []" using lp by auto
  have odd: "mid AND 1 \<noteq> 0" using assms(2) by simp
  have pad: "int (length plain) - 32 - int (length body) = int (length padding)" using lp by simp
  have "open_sealed env m t = FrameBody mid body"
    unfolding open_sealed_def Let_def id prod.case key case_prod_unfold body fst_conv snd_conv
      kd_def [symmetric] iv_def [symmetric] c(2) f rb sint_of_nat32 [OF small(2)] pad
    using assms(1,3,4) assms(5) [unfolded add.assoc] lp lm ne odd by (simp add: mk_def)
  then show ?thesis by (simp add: m_def plain_def)
qed


text \<open>A frame that opens has passed every check, on the bytes that were decrypted.\<close>

lemma open_sealed_checked:
  assumes "open_sealed env m t = FrameBody mid body"
  obtains plain where "tp_authKey t \<noteq> []" and "fst (next_long (packet_of env m)) = tp_authKeyId t"
    and "calcMessageKey (tp_authKey t) plain False = fst (readRawBytes 16 (snd (next_long (packet_of env m))))"
    and "plain = (let k = calcEncryptionKey (tp_authKey t) (calcMessageKey (tp_authKey t) plain False) False
                  in decryptAES256IGE (drop 24 m) (snd k) (fst k))"
    and "68 \<le> length m" and "mid AND 1 \<noteq> 0"
    and "fst (next_long (snd (next_long (packet_of env plain)))) = tp_sessionId t"
  using assms unfolding open_sealed_def Let_def case_prod_unfold by (auto split: if_splits)

subsection \<open>The replay window\<close>

definition accept_all :: "i64 list \<Rightarrow> transport \<Rightarrow> transport" where
  "accept_all ids t = fold (\<lambda>mid t. snd (acceptMessageId mid t)) ids t"

lemma accept_all_simps [simp]:
  "accept_all [] t = t" "accept_all (mid # ids) t = accept_all ids (snd (acceptMessageId mid t))"
  by (simp_all add: accept_all_def)

definition window_ok :: "transport \<Rightarrow> bool" where
  "window_ok t \<longleftrightarrow> distinct (tp_seenMessageIds t) \<and> length (tp_seenMessageIds t) \<le> 64"

lemma window_ok_accept: "window_ok t \<Longrightarrow> window_ok (snd (acceptMessageId mid t))"
  by (auto simp: window_ok_def acceptMessageId_def Let_def distinct_tl dest: list.set_sel(2))

lemma accepted_stays:
  "tp_seenMessageIds t = xs @ mid # ys \<Longrightarrow> length ys + length ids < 64 \<Longrightarrow>
   mid \<in> set (tp_seenMessageIds (accept_all ids t))"
proof (induction ids arbitrary: t xs ys)
  case (Cons new ids)
  show ?case
  proof (cases "new \<in> set (tp_seenMessageIds t)")
    case True
    then have "accept_all (new # ids) t = accept_all ids t" by (simp add: acceptMessageId_def)
    then show ?thesis using Cons by simp
  next
    case False
    define seen where "seen = xs @ mid # ys @ [new]"
    have s: "tp_seenMessageIds (snd (acceptMessageId new t)) = (if length seen > 64 then tl seen else seen)"
      using False Cons.prems(1) by (simp add: acceptMessageId_def Let_def seen_def)
    have l: "length (ys @ [new]) + length ids < 64" using Cons.prems(2) by simp
    show ?thesis
    proof (cases "length seen > 64")
      case True
      then obtain x xs' where "xs = x # xs'" using Cons.prems(2) by (cases xs) (auto simp: seen_def)
      then have "tp_seenMessageIds (snd (acceptMessageId new t)) = xs' @ mid # (ys @ [new])" using s True by (simp add: seen_def)
      then show ?thesis using Cons.IH [OF _ l] by simp
    next
      case False
      then have "tp_seenMessageIds (snd (acceptMessageId new t)) = xs @ mid # (ys @ [new])" using s by (simp add: seen_def)
      then show ?thesis using Cons.IH [OF _ l] by simp
    qed
  qed
qed simp

lemma accepted_last:
  assumes "mid \<notin> set (tp_seenMessageIds t)"
  obtains xs where "tp_seenMessageIds (snd (acceptMessageId mid t)) = xs @ [mid]"
proof -
  have "tp_seenMessageIds (snd (acceptMessageId mid t)) =
      (if length (tp_seenMessageIds t) \<ge> 64 then tl (tp_seenMessageIds t) else tp_seenMessageIds t) @ [mid]"
    using assms by (cases "tp_seenMessageIds t") (auto simp: acceptMessageId_def Let_def)
  then show ?thesis using that by blast
qed

lemma replayed_in_window:
  assumes "mid \<notin> set (tp_seenMessageIds t)" and "length ids < 64"
  shows "mid \<in> set (tp_seenMessageIds (accept_all ids (snd (acceptMessageId mid t))))"
proof -
  obtain xs where "tp_seenMessageIds (snd (acceptMessageId mid t)) = xs @ mid # []" using accepted_last [OF assms(1)] by auto
  then show ?thesis by (rule accepted_stays) (use assms(2) in simp)
qed

subsection \<open>Frames\<close>

lemma next_long_key: "next_long (packet_of env (le_encode 8 k @ r)) = (k, advance 8 (packet_of env (le_encode 8 k @ r)))"
  by (simp add: next_long_def readInt64_def packet_of_def read_word_encoded)

lemma processMessage_sealed:
  assumes "fst (next_long (packet_of env m)) \<noteq> 0" and "open_sealed env m t = FrameBody mid d" and "4 < length m"
  shows "processMessage n env m t =
    (if mid \<in> set (tp_seenMessageIds t) then Some t
     else handleObject n env d mid (ack_message mid ((snd (acceptMessageId mid t))\<lparr>tp_badPackets := 0\<rparr>)))"
  using assms by (simp add: processMessage_def acceptMessageId_def Let_def)

text \<open>Outside the key exchange a frame is ignored, or counted as bad, unless it is authentic.\<close>

lemma processMessage_cases:
  assumes "\<not> tp_handshaking t"
  shows "processMessage n env m t \<in> {Some t, Some (countBadPacket env t)} \<or>
    (\<exists>mid d. open_sealed env m t = FrameBody mid d \<and> mid \<notin> set (tp_seenMessageIds t))"
  using assms by (auto simp: processMessage_def open_plain_def acceptMessageId_def Let_def case_prod_unfold
    split: frame_verdict.splits)

lemma countBadPacket_session:
  "tp_authKey (countBadPacket env t) = tp_authKey t" "tp_sessionId (countBadPacket env t) = tp_sessionId t"
  "tp_pendingMessages (countBadPacket env t) = tp_pendingMessages t" "tp_seenMessageIds (countBadPacket env t) = tp_seenMessageIds t"
  "tp_msgsToAck (countBadPacket env t) = tp_msgsToAck t" "tp_userId (countBadPacket env t) = tp_userId t"
  "tp_settings (countBadPacket env t) = tp_settings t"
  by (simp_all add: countBadPacket_def notifyDisconnected_def scheduleReconnect_def draw_int_def sk_abort_def tp_emit_def
    Let_def case_prod_unfold)

lemma accept_session:
  "tp_authKey (snd (acceptMessageId mid t)) = tp_authKey t" "tp_authKeyId (snd (acceptMessageId mid t)) = tp_authKeyId t"
  "tp_sessionId (snd (acceptMessageId mid t)) = tp_sessionId t"
  by (simp_all add: acceptMessageId_def Let_def)

lemma accept_all_session:
  "tp_authKey (accept_all ids t) = tp_authKey t" "tp_authKeyId (accept_all ids t) = tp_authKeyId t"
  "tp_sessionId (accept_all ids t) = tp_sessionId t"
  by (induction ids arbitrary: t) (simp_all add: accept_session)

lemma seal_packet_key: "fst (next_long (packet_of env (seal_packet env authKey keyId plain client))) = keyId"
  by (simp add: seal_packet_bytes next_long_key)

lemma seal_packet_length: "8 \<le> length (seal_packet env authKey keyId plain client)"
  by (simp add: seal_packet_bytes)

end
