(* ===== verification/TransportInv.thy ===== *)
theory TransportInv
  imports TransportDispatch
begin

section \<open>An invariant of the transport\<close>

text \<open>
  Every table has unique keys, the replay window is bounded, the counter of bad packets is below its
  limit and the delay of a reconnection is between 750 ms and 75 s. Every operation keeps it.
\<close>

subsection \<open>The invariant\<close>

definition tp_inv :: "transport \<Rightarrow> bool" where
  "tp_inv t \<longleftrightarrow>
     distinct (map fst (tp_pendingMessages t)) \<and> distinct (map fst (tp_migrationMessages t)) \<and>
     distinct (map fst (tp_floodMessages t)) \<and> distinct (tp_noFloodReplay t) \<and> distinct (tp_msgsToAck t) \<and>
     distinct (tp_seenMessageIds t) \<and> length (tp_seenMessageIds t) \<le> 64 \<and>
     0 \<le> sint (tp_badPackets t) \<and> sint (tp_badPackets t) < 3 \<and>
     (\<forall>d. tp_retryTimer t = Some d \<longrightarrow> 750 \<le> sint d \<and> sint d < 75000)"

lemma tp_inv_new: "tp_inv (transport_new env dc test st now)"
  by (simp add: transport_new_def loadSession_def Let_def tp_inv_def)

text \<open>Updates of the other members.\<close>

lemma tp_inv_plain [simp]:
  "tp_inv (t\<lparr>tp_log := a1\<rparr>) = tp_inv t" "tp_inv (t\<lparr>tp_settings := a2\<rparr>) = tp_inv t" "tp_inv (t\<lparr>tp_draws := a3\<rparr>) = tp_inv t"
  "tp_inv (t\<lparr>tp_socket := a4\<rparr>) = tp_inv t" "tp_inv (t\<lparr>tp_lastMessageId := a5\<rparr>) = tp_inv t"
  "tp_inv (t\<lparr>tp_sequence := a6\<rparr>) = tp_inv t" "tp_inv (t\<lparr>tp_authCheckMsgId := a7\<rparr>) = tp_inv t"
  "tp_inv (t\<lparr>tp_connectTimer := a8\<rparr>) = tp_inv t" "tp_inv (t\<lparr>tp_pingTimer := a9\<rparr>) = tp_inv t"
  "tp_inv (t\<lparr>tp_userId := b1\<rparr>) = tp_inv t" "tp_inv (t\<lparr>tp_config := b2\<rparr>) = tp_inv t"
  "tp_inv (t\<lparr>tp_currentDc := b3\<rparr>) = tp_inv t" "tp_inv (t\<lparr>tp_initialized := b4\<rparr>) = tp_inv t"
  "tp_inv (t\<lparr>tp_retryAttempt := b5\<rparr>) = tp_inv t" "tp_inv (t\<lparr>tp_handshaking := b6\<rparr>) = tp_inv t"
  "tp_inv (t\<lparr>tp_nonce := b7\<rparr>) = tp_inv t" "tp_inv (t\<lparr>tp_serverNonce := b8\<rparr>) = tp_inv t"
  "tp_inv (t\<lparr>tp_newNonce := b9\<rparr>) = tp_inv t" "tp_inv (t\<lparr>tp_authKey := c1\<rparr>) = tp_inv t"
  "tp_inv (t\<lparr>tp_sessionId := c2\<rparr>) = tp_inv t" "tp_inv (t\<lparr>tp_serverSalt := c3\<rparr>) = tp_inv t"
  "tp_inv (t\<lparr>tp_authKeyId := c4\<rparr>) = tp_inv t" "tp_inv (t\<lparr>tp_timeOffset := c5\<rparr>) = tp_inv t"
  "tp_inv (t\<lparr>tp_pingId := c6\<rparr>) = tp_inv t" "tp_inv (t\<lparr>tp_currentHost := c7\<rparr>) = tp_inv t"
  "tp_inv (t\<lparr>tp_currentPort := c8\<rparr>) = tp_inv t" "tp_inv (t\<lparr>tp_autoReconnect := c9\<rparr>) = tp_inv t"
  "tp_inv (t\<lparr>tp_notifiedDisconnect := d1\<rparr>) = tp_inv t" "tp_inv (t\<lparr>tp_clock := d2\<rparr>) = tp_inv t"
  by (simp_all add: tp_inv_def)

text \<open>Updates that shrink or extend a table.\<close>

lemma tp_inv_tables [simp, intro]:
  assumes "tp_inv t"
  shows "tp_inv (t\<lparr>tp_pendingMessages := []\<rparr>)" "tp_inv (t\<lparr>tp_migrationMessages := []\<rparr>)"
    "tp_inv (t\<lparr>tp_noFloodReplay := []\<rparr>)" "tp_inv (t\<lparr>tp_msgsToAck := []\<rparr>)" "tp_inv (t\<lparr>tp_retryTimer := None\<rparr>)"
    "tp_inv (t\<lparr>tp_badPackets := 0\<rparr>)"
    "tp_inv (t\<lparr>tp_pendingMessages := AList.delete k (tp_pendingMessages t)\<rparr>)"
    "tp_inv (t\<lparr>tp_pendingMessages := AList.update k v (tp_pendingMessages t)\<rparr>)"
    "tp_inv (t\<lparr>tp_migrationMessages := AList.delete k (tp_migrationMessages t)\<rparr>)"
    "tp_inv (t\<lparr>tp_migrationMessages := AList.update k v (tp_migrationMessages t)\<rparr>)"
    "tp_inv (t\<lparr>tp_floodMessages := AList.delete k (tp_floodMessages t)\<rparr>)"
    "tp_inv (t\<lparr>tp_floodMessages := AList.update k v (tp_floodMessages t)\<rparr>)"
    "tp_inv (t\<lparr>tp_noFloodReplay := List.insert k (tp_noFloodReplay t)\<rparr>)"
    "tp_inv (t\<lparr>tp_noFloodReplay := removeAll k (tp_noFloodReplay t)\<rparr>)"
  using assms by (simp_all add: tp_inv_def distinct_delete distinct_update distinct_removeAll)

lemma inv_emit [simp]: "tp_inv (tp_emit e t) = tp_inv t"
  by (simp add: tp_emit_def)

lemma inv_saveSession [simp]: "tp_inv (saveSession r t) = tp_inv t"
  by (simp add: saveSession_def Let_def)

lemma inv_loadSession [simp]: "tp_inv (loadSession env t) = tp_inv t"
  by (simp add: loadSession_def Let_def)

lemma inv_draws [simp]:
  "tp_inv (snd (draw_int env n t)) = tp_inv t" "tp_inv (snd (draw_bytes env k t)) = tp_inv t" "tp_inv (snd (draw_long env t)) = tp_inv t"
  by (simp_all add: draw_int_def draw_bytes_def draw_long_def case_prod_unfold Let_def)

lemma inv_setConfig [simp]: "tp_inv (tp_setConfig c t) = tp_inv t"
  by (simp add: tp_setConfig_def)

lemma inv_numbers [simp]:
  "tp_inv (snd (getNewMessageId t)) = tp_inv t" "tp_inv (snd (generateSequence b t)) = tp_inv t"
  "tp_inv (broadcastMessageChange o1 n1 t) = tp_inv t"
  by (simp_all add: getNewMessageId_def generateSequence_def broadcastMessageChange_def Let_def)

lemma inv_write [simp]: "tp_inv (sk_write b t) = tp_inv t" "tp_inv (sendIntermediate env d t) = tp_inv t" "tp_inv (sk_abort t) = tp_inv t"
  by (simp_all add: sk_write_def sendIntermediate_def sk_abort_def)

lemma inv_sendPlain [simp]: "tp_inv (snd (sendPlainMessage env d o1 t)) = tp_inv t"
  by (simp add: sendPlainMessage_def Let_def case_prod_unfold)

lemma inv_sendEncrypted: "tp_inv t \<Longrightarrow> tp_inv (snd (sendEncrypted env d o1 svc t))"
  by (simp add: sendEncrypted_def Let_def case_prod_unfold)


lemma inv_sendMTService: "tp_inv t \<Longrightarrow> tp_inv (snd (sendMTService env d t))"
  by (simp add: sendMTService_def inv_sendEncrypted)

lemma inv_sendMsgsAck: "tp_inv t \<Longrightarrow> tp_inv (snd (sendMsgsAck env t))"
  by (simp add: sendMsgsAck_def Let_def inv_sendMTService tp_inv_tables)

lemma inv_sendMTMessage: "tp_inv t \<Longrightarrow> tp_inv (snd (sendMTMessage env d o1 svc t))"
  by (simp add: sendMTMessage_def inv_sendEncrypted inv_sendMsgsAck)

lemma inv_sendObject:
  "tp_inv (snd (sendPlainObject env W i t)) = tp_inv t"
  "tp_inv t \<Longrightarrow> tp_inv (snd (sendMTObject env W i t))" "tp_inv t \<Longrightarrow> tp_inv (snd (sendMTServiceObject env W i t))"
  by (simp_all add: sendPlainObject_def sendMTObject_def sendMTServiceObject_def inv_sendMTMessage)

subsection \<open>The delay before a reconnection\<close>

lemma retry_delay_values: "sint (retry_delay a) \<in> {1000, 2000, 4000, 8000, 16000, 32000, 60000}"
proof -
  define step where "step = (if a <s 6 then a else 6)"
  have "nat (sint step) \<in> {0, 1, 2, 3, 4, 5, 6}"
    by (auto simp: step_def word_sless_alt)
  then consider "nat (sint step) = 0" | "nat (sint step) = 1" | "nat (sint step) = 2" | "nat (sint step) = 3"
    | "nat (sint step) = 4" | "nat (sint step) = 5" | "nat (sint step) = 6" by auto
  then show ?thesis
    unfolding retry_delay_def Let_def step_def [symmetric] by cases (simp_all add: push_bit_eq_mult word_sless_alt)
qed

lemma randomInt_magnitude:
  assumes "1 \<le> sint k"
  shows "\<bar>sint (fst (randomInt rng n k))\<bar> < sint k"
proof -
  have m: "\<bar>x smod sint k\<bar> < sint k" for x
    using assms by (simp add: smod_int_alt_def abs_mult)
  have "sint (word_of_int (x smod sint k) :: i32) = x smod sint k" for x
  proof -
    have "sint k < 2 ^ 31" using sint_less [of k] by simp
    then have "- (2 ^ 31) \<le> x smod sint k" "x smod sint k < 2 ^ 31" using m [of x] by simp_all
    then show ?thesis by (simp add: signed_of_int signed_take_bit_int_eq_self)
  qed
  then show ?thesis using assms m by (simp add: randomInt_def Let_def case_prod_unfold)
qed

lemma scheduleReconnect_delay:
  assumes "tp_autoReconnect t" and "hasSession t"
  obtains d where "tp_retryTimer (scheduleReconnect env t) = Some d"
    and "\<bar>sint d - sint (retry_delay (tp_retryAttempt t))\<bar> < sint (retry_delay (tp_retryAttempt t)) div 4"
    and "tp_retryAttempt (scheduleReconnect env t) = tp_retryAttempt t + 1"
proof -
  define base where "base = retry_delay (tp_retryAttempt t)"
  define r where "r = fst (draw_int env (base div 4) t)"
  have b: "sint base \<in> {1000, 2000, 4000, 8000, 16000, 32000, 60000}" unfolding base_def by (rule retry_delay_values)
  have ub: "uint base = sint base"
  proof -
    have "uint base = take_bit 32 (sint base)" by (simp add: uint_sint)
    also have "\<dots> = sint base" using b by (intro take_bit_int_eq_self) auto
    finally show ?thesis .
  qed
  have q: "sint (base div 4) = sint base div 4"
  proof -
    have "uint (base div 4) = sint base div 4" by (simp add: uint_div ub)
    moreover have "signed_take_bit 31 (sint base div 4) = sint base div 4"
      using b by (intro signed_take_bit_int_eq_self) auto
    ultimately show ?thesis by (simp add: sint_uint)
  qed
  have j: "\<bar>sint r\<bar> < sint base div 4"
    unfolding r_def draw_int_def Let_def case_prod_unfold fst_conv
    using randomInt_magnitude [of "base div 4"] q b by auto
  have "sint (base + r) = sint base + sint r"
  proof -
    have "signed_take_bit 31 (sint base + sint r) = sint base + sint r"
      using b j by (intro signed_take_bit_int_eq_self) auto
    then show ?thesis by (simp add: sint_word_ariths)
  qed
  moreover have "tp_retryTimer (scheduleReconnect env t) = Some (base + r)"
    "tp_retryAttempt (scheduleReconnect env t) = tp_retryAttempt t + 1"
    using assms by (simp_all add: scheduleReconnect_def Let_def case_prod_unfold base_def r_def draw_int_def tp_emit_def)
  ultimately show ?thesis using that j by (simp add: base_def)
qed

lemma inv_scheduleReconnect: "tp_inv t \<Longrightarrow> tp_inv (scheduleReconnect env t)"
proof (cases "tp_autoReconnect t \<and> hasSession t")
  case True
  assume i: "tp_inv t"
  obtain d where d: "tp_retryTimer (scheduleReconnect env t) = Some d"
    "\<bar>sint d - sint (retry_delay (tp_retryAttempt t))\<bar> < sint (retry_delay (tp_retryAttempt t)) div 4"
    using scheduleReconnect_delay True by metis
  have "750 \<le> sint d \<and> sint d < 75000" using d(2) retry_delay_values [of "tp_retryAttempt t"] by auto
  moreover have "tp_inv ((scheduleReconnect env t)\<lparr>tp_retryTimer := tp_retryTimer t\<rparr>)"
    using i by (simp add: tp_inv_def scheduleReconnect_def Let_def case_prod_unfold draw_int_def tp_emit_def)
  ultimately show ?thesis using d(1) by (simp add: tp_inv_def)
qed (simp add: scheduleReconnect_def)

lemma inv_notifyDisconnected: "tp_inv t \<Longrightarrow> tp_inv (notifyDisconnected env t)"
  by (simp add: notifyDisconnected_def Let_def inv_scheduleReconnect)


subsection \<open>Every operation keeps the invariant\<close>

lemma inv_close: "tp_inv t \<Longrightarrow> tp_inv (sk_disconnectFromHost env t)"
  by (simp add: sk_disconnectFromHost_def tp_disconnected_def inv_notifyDisconnected)

lemma tp_inv_stop: "tp_inv t \<Longrightarrow> tp_inv (tp_stop env ack t)"
proof -
  assume i: "tp_inv t"
  have "tp_inv ((saveSession False t)\<lparr>tp_pingTimer := False, tp_retryTimer := None, tp_connectTimer := False, tp_autoReconnect := False\<rparr>)"
    using i by (simp add: tp_inv_tables)
  then show ?thesis by (simp add: tp_stop_def Let_def inv_close inv_sendMsgsAck)
qed

lemma inv_setDc: "tp_inv t \<Longrightarrow> tp_inv (setDc env h pt dc t)" "tp_inv t \<Longrightarrow> tp_inv (resetDc env t)"
  by (simp_all add: resetDc_def setDc_def Let_def tp_inv_stop)

lemma inv_start: "tp_inv t \<Longrightarrow> tp_inv (tp_start env t)"
  by (simp add: tp_start_def Let_def inv_setDc)

lemma inv_resetSession: "tp_inv t \<Longrightarrow> tp_inv (resetSession env t)"
  by (simp add: resetSession_def Let_def tp_inv_stop tp_inv_tables)

lemma inv_migrateTo: "tp_inv t \<Longrightarrow> tp_inv (migrateTo env dc t)"
  by (simp add: migrateTo_def Let_def tp_inv_stop inv_start inv_setDc)

lemma inv_retryNow: "tp_inv t \<Longrightarrow> tp_inv (retryNow env t)"
  by (simp add: retryNow_def inv_start tp_inv_tables)

lemma inv_fold: "(\<And>x t. tp_inv t \<Longrightarrow> tp_inv (f x t)) \<Longrightarrow> tp_inv t \<Longrightarrow> tp_inv (fold f xs t)"
  by (induction xs arbitrary: t) simp_all

lemma inv_resend: "tp_inv t \<Longrightarrow> tp_inv (flood_resend env k t)"
  by (simp add: flood_resend_def take_message_def resend_step_def inv_sendMTMessage tp_inv_tables)

lemma inv_ping_tick: "tp_inv t \<Longrightarrow> tp_inv (ping_tick env t)"
proof -
  assume i: "tp_inv t"
  define t1 where "t1 = (if length (tp_pendingMessages t) \<ge> 40 then t\<lparr>tp_pendingMessages := [], tp_noFloodReplay := []\<rparr> else t)"
  have "tp_inv t1"
    using i tp_inv_tables(3) [OF tp_inv_tables(1) [OF i]] by (simp add: t1_def)
  then have "tp_inv (fold (flood_resend env) (te_hash_order env (map fst (tp_floodMessages t1))) t1)"
    by (intro inv_fold inv_resend)
  then show ?thesis
    unfolding ping_tick_def Let_def t1_def [symmetric]
    by (simp add: inv_sendObject inv_sendMsgsAck)
qed

lemma tp_inv_timer: "tp_inv t \<Longrightarrow> tp_inv (tp_timerEvent env timer t)"
  by (cases timer) (simp_all add: tp_timerEvent_def inv_start inv_notifyDisconnected inv_ping_tick tp_inv_tables)

lemma inv_auth [simp]: "tp_inv (tp_authorize env t) = tp_inv t" "tp_inv (handleServerDHParamsOk env d t) = tp_inv t"
  by (simp_all add: tp_authorize_def handleServerDHParamsOk_def Let_def case_prod_unfold inv_sendObject)

lemma inv_handleResPQ: "tp_inv t \<Longrightarrow> handleResPQ env d t = Some t' \<Longrightarrow> tp_inv t'"
  unfolding handleResPQ_def Let_def case_prod_unfold
  by (auto simp: inv_sendObject split: if_splits option.splits)

lemma inv_initConnection: "tp_inv t \<Longrightarrow> tp_inv (tp_initConnection env t)"
  by (simp add: tp_initConnection_def inv_sendObject)

lemma inv_handleDhGenOk: "tp_inv t \<Longrightarrow> tp_inv (handleDhGenOk env d t)"
  by (simp add: handleDhGenOk_def Let_def inv_initConnection)

lemma inv_connected: "tp_inv t \<Longrightarrow> tp_inv (tp_connected env t)"
  by (simp add: tp_connected_def Let_def inv_initConnection)

lemma inv_ack: "tp_inv t \<Longrightarrow> tp_inv (ack_message mid t)"
  by (simp add: ack_message_def tp_inv_def)

lemma tp_inv_drop: "tp_inv t \<Longrightarrow> tp_inv (drop_pending mid t)"
  by (simp add: drop_pending_def tp_inv_tables)

lemma inv_checkAuthorization: "tp_inv t \<Longrightarrow> tp_inv (checkAuthorization env t)"
  by (simp add: checkAuthorization_def Let_def case_prod_unfold inv_sendObject)

lemma inv_handleConfig: "tp_inv t \<Longrightarrow> tp_inv (handleConfig env d t)"
proof -
  have "tp_inv (migration_resend env k u)" if "tp_inv u" for k u
    using that by (simp add: migration_resend_def take_message_def resend_step_def inv_sendMTMessage tp_inv_tables)
  then show "tp_inv t \<Longrightarrow> tp_inv (handleConfig env d t)"
    by (simp add: handleConfig_def Let_def inv_checkAuthorization inv_fold)
qed

lemma inv_handlers:
  assumes "tp_inv t"
  shows "tp_inv (handleMsgDetailedInfo env d t)" "tp_inv (handleMsgNewDetailedInfo env d t)" "tp_inv (handleBool env d mid t)"
    "tp_inv (handlePingMethod env d mid t)" "tp_inv (handleVector env d mid t)" "tp_inv (handleAuthorization env d mid t)"
    "tp_inv (doNotReplay mid t)"
  using assms by (simp_all add: handleMsgDetailedInfo_def handleMsgNewDetailedInfo_def handleBool_def handlePingMethod_def
    handleVector_def handleAuthorization_def doNotReplay_def Let_def case_prod_unfold inv_ack inv_sendObject inv_checkAuthorization tp_inv_tables)

lemma tp_inv_rpcError: "tp_inv t \<Longrightarrow> tp_inv (tp_handleRpcError env d mid t)"
proof -
  assume i: "tp_inv t"
  have m: "tp_inv (t\<lparr>tp_pendingMessages := AList.delete k (tp_pendingMessages t),
      tp_migrationMessages := AList.update k v (tp_migrationMessages t)\<rparr>)"
    "tp_inv (t\<lparr>tp_pendingMessages := AList.delete k (tp_pendingMessages t),
      tp_floodMessages := AList.update k v (tp_floodMessages t)\<rparr>)" for k v
    using tp_inv_tables(10,12) [OF tp_inv_tables(7) [OF i, of k], of k v] by simp_all
  show ?thesis
    unfolding tp_handleRpcError_def Let_def case_prod_unfold take_message_def fst_conv snd_conv
    using i m by (auto intro!: tp_inv_drop inv_migrateTo inv_resetSession tp_inv_tables)
qed

lemma inv_handleBadMsg: "tp_inv t \<Longrightarrow> tp_inv (handleBadMsgNotification env d mid t)" "tp_inv t \<Longrightarrow> tp_inv (handleBadServerSalt env d mid t)"
  unfolding handleBadServerSalt_def handleBadMsgNotification_def Let_def case_prod_unfold take_message_def
  by (auto intro!: inv_sendMTMessage tp_inv_tables)

subsection \<open>Dispatch\<close>

definition keeps_inv :: "handler \<Rightarrow> bool" where
  "keeps_inv h \<longleftrightarrow> (\<forall>d mid t t'. tp_inv t \<longrightarrow> h d mid t = Some t' \<longrightarrow> tp_inv t')"

lemma keeps_invD: "h d mid t = Some t' \<Longrightarrow> keeps_inv h \<Longrightarrow> tp_inv t \<Longrightarrow> tp_inv t'"
  by (auto simp: keeps_inv_def)

lemma inv_container_loop: "keeps_inv h \<Longrightarrow> tp_inv t \<Longrightarrow> container_loop h k s t = Some t' \<Longrightarrow> tp_inv t'"
proof (induction k arbitrary: s t)
  case (Suc k)
  from Suc.prems(3) obtain array mid t1 s1 where "h array mid t = Some t1" "container_loop h k s1 t1 = Some t'"
    by (auto simp: Let_def case_prod_unfold split: option.splits)
  then show ?case using Suc.IH Suc.prems(1,2) keeps_invD by blast
qed simp

lemma inv_nested:
  assumes "keeps_inv h" and "tp_inv t"
  shows "handleMsgContainer env h d t = Some t' \<Longrightarrow> tp_inv t'" "handleMsgCopy env h d t = Some t' \<Longrightarrow> tp_inv t'"
    "handleRpcResult env h d t = Some t' \<Longrightarrow> tp_inv t'" "handleGzipPacked env h d mid t = Some t' \<Longrightarrow> tp_inv t'"
  using assms inv_container_loop [OF assms]
  by (auto simp: handleMsgContainer_def handleMsgCopy_def handleRpcResult_def handleGzipPacked_def Let_def case_prod_unfold
    keeps_inv_def split: option.splits)

lemma inv_handleObject: "keeps_inv (handleObject n env)"
proof (induction n)
  case (Suc n)
  show ?case unfolding keeps_inv_def
  proof (intro allI impI)
    fix d mid t t' assume i: "tp_inv t" and r: "handleObject (Suc n) env d mid t = Some t'"
    define conId where "conId = fst (next_int (packet_of env d))"
    define t1 where "t1 = (if conId \<noteq> MT_RpcError \<and> conId \<noteq> MT_BadMsgNotification \<and> conId \<noteq> MT_BadServerSalt
      then drop_pending mid t else t)"
    have i1: "tp_inv t1" using i by (simp add: t1_def tp_inv_drop)
    note facts = inv_nested [OF Suc i1] inv_handlers [OF i1] inv_handleDhGenOk [OF i1] tp_inv_rpcError [OF i1]
      inv_handleBadMsg [OF i1] inv_handleConfig [OF i1] inv_handleResPQ [OF i1]
    show "tp_inv t'"
      using r unfolding handleObject.simps(2) Let_def conId_def [symmetric] t1_def [symmetric]
      using i1 by (auto split: if_split_asm intro: facts)
  qed
qed (simp add: keeps_inv_def)

lemma inv_countBadPacket: "tp_inv t \<Longrightarrow> tp_inv (countBadPacket env t)"
proof -
  assume i: "tp_inv t"
  have "sint (tp_badPackets t + 1) = sint (tp_badPackets t) + 1"
    using i by (simp add: tp_inv_def sint_word_ariths signed_take_bit_int_eq_self)
  then have "tp_badPackets t + 1 <s 3 \<Longrightarrow> tp_inv (t\<lparr>tp_badPackets := tp_badPackets t + 1\<rparr>)"
    using i by (simp add: tp_inv_def word_sless_alt)
  then show ?thesis
    using i by (simp add: countBadPacket_def Let_def inv_notifyDisconnected tp_inv_tables)
qed

lemma inv_accept: "tp_inv t \<Longrightarrow> tp_inv (snd (acceptMessageId mid t))"
  by (auto simp: tp_inv_def acceptMessageId_def Let_def distinct_tl dest: list.set_sel(2))

lemma inv_processMessage: "tp_inv t \<Longrightarrow> processMessage n env m t = Some t' \<Longrightarrow> tp_inv t'"
  unfolding processMessage_def Let_def case_prod_unfold
  by (auto split: if_splits frame_verdict.splits
      intro: inv_countBadPacket inv_ack inv_accept tp_inv_tables dest!: keeps_invD [OF _ inv_handleObject])

subsection \<open>The steps of a transport\<close>

text \<open>
  What can happen to a transport: calls of the client, the events of its socket and of its timers (only
  of those that run), frames that arrive, and time that passes.
\<close>

inductive tp_step :: "tpenv \<Rightarrow> transport \<Rightarrow> transport \<Rightarrow> bool" for env where
  step_start: "tp_step env t (tp_start env t)"
| step_stop: "tp_step env t (tp_stop env ack t)"
| step_retry_now: "tp_step env t (retryNow env t)"
| step_set_dc: "tp_step env t (setDc env host port dc t)"
| step_reset_dc: "tp_step env t (resetDc env t)"
| step_migrate: "tp_step env t (migrateTo env dc t)"
| step_reset_session: "tp_step env t (resetSession env t)"
| step_set_config: "tp_step env t (tp_setConfig config t)"
| step_send: "tp_step env t (snd (sendMTMessage env d oldMid isService t))"
| step_do_not_replay: "tp_step env t (doNotReplay mid t)"
| step_connected: "tp_socket t = SkConnecting \<Longrightarrow> tp_step env t (tp_connected env (t\<lparr>tp_socket := SkConnected\<rparr>))"
| step_disconnected: "tp_step env t (tp_disconnected env (t\<lparr>tp_socket := SkUnconnected\<rparr>))"
| step_error: "tp_step env t (tp_error env err t)"
| step_frame: "processMessage n env m t = Some t' \<Longrightarrow> tp_step env t t'"
| step_retry_timer: "tp_retryTimer t \<noteq> None \<Longrightarrow> tp_step env t (tp_timerEvent env TmRetry t)"
| step_connect_timer: "tp_connectTimer t \<Longrightarrow> tp_step env t (tp_timerEvent env TmConnect t)"
| step_ping_timer: "tp_pingTimer t \<Longrightarrow> tp_step env t (tp_timerEvent env TmPing t)"
| step_time: "tp_step env t (t\<lparr>tp_clock := now\<rparr>)"

inductive_cases tp_stepE: "tp_step env t t'"

definition tp_initial :: "tpenv \<Rightarrow> transport \<Rightarrow> bool" where
  "tp_initial env t \<longleftrightarrow> (\<exists>dc test st now. t = transport_new env dc test st now)"

lemma tp_step_inv: "tp_inv t \<Longrightarrow> tp_step env t t' \<Longrightarrow> tp_inv t'"
  by (erule tp_stepE)
    (simp_all add: inv_start tp_inv_stop inv_retryNow inv_setDc inv_migrateTo inv_resetSession inv_sendMTMessage inv_handlers
      inv_connected tp_inv_timer tp_disconnected_def tp_error_def inv_notifyDisconnected inv_processMessage)

interpretation transport_inv: invariant_system "tp_initial env" "tp_step env" tp_inv for env
  by unfold_locales (auto simp: tp_initial_def tp_inv_new intro: tp_step_inv)

end
