(* ===== verification/TransportSession.thy ===== *)
theory TransportSession
  imports TransportDispatch
begin

section \<open>Requests, errors and sessions of the transport\<close>

text \<open>
  What sending leaves alone; the request a server refuses for its salt is sent again under a new id;
  a flood wait parks a request unless its id is excluded; the settings give back the session
  that was saved; and what a migration connects to, with which session.
\<close>

subsection \<open>What sending changes\<close>

named_theorems effect_simps

definition same_tables :: "transport \<Rightarrow> transport \<Rightarrow> bool" where
  "same_tables t u \<longleftrightarrow> tp_pendingMessages u = tp_pendingMessages t \<and> tp_serverSalt u = tp_serverSalt t \<and>
     tp_sessionId u = tp_sessionId t \<and> tp_authKey u = tp_authKey t \<and> tp_noFloodReplay u = tp_noFloodReplay t \<and>
     tp_floodMessages u = tp_floodMessages t"

lemma small_steps [effect_simps]:
  "tp_lastMessageId (snd (generateSequence b t)) = tp_lastMessageId t"
  "tp_lastMessageId (snd (draw_int env n t)) = tp_lastMessageId t" "tp_lastMessageId (snd (draw_bytes env k t)) = tp_lastMessageId t"
  "tp_lastMessageId (broadcastMessageChange o1 n1 t) = tp_lastMessageId t" "tp_lastMessageId (sendIntermediate env d t) = tp_lastMessageId t"
  "tp_lastMessageId (snd (getNewMessageId t)) = fst (getNewMessageId t)"
  by (simp_all add: generateSequence_def draw_int_def draw_bytes_def broadcastMessageChange_def sendIntermediate_def
    sk_write_def tp_emit_def getNewMessageId_def Let_def case_prod_unfold)

lemma same_tables_steps:
  "same_tables t (snd (generateSequence b t))" "same_tables t (snd (draw_int env n t))" "same_tables t (snd (draw_bytes env k t))"
  "same_tables t (broadcastMessageChange o1 n1 t)" "same_tables t (sendIntermediate env d t)" "same_tables t (snd (getNewMessageId t))"
  by (simp_all add: same_tables_def generateSequence_def draw_int_def draw_bytes_def broadcastMessageChange_def sendIntermediate_def
    sk_write_def tp_emit_def getNewMessageId_def Let_def case_prod_unfold)

lemmas same_tables_eqs [effect_simps] = same_tables_steps [unfolded same_tables_def, THEN conjunct1]
  same_tables_steps [unfolded same_tables_def, THEN conjunct2, THEN conjunct1]
  same_tables_steps [unfolded same_tables_def, THEN conjunct2, THEN conjunct2, THEN conjunct1]
  same_tables_steps [unfolded same_tables_def, THEN conjunct2, THEN conjunct2, THEN conjunct2, THEN conjunct1]
  same_tables_steps [unfolded same_tables_def, THEN conjunct2, THEN conjunct2, THEN conjunct2, THEN conjunct2, THEN conjunct1]
  same_tables_steps [unfolded same_tables_def, THEN conjunct2, THEN conjunct2, THEN conjunct2, THEN conjunct2, THEN conjunct2]

text \<open>\<open>sendEncrypted\<close> as a chain of its steps.\<close>

definition sending :: "tpenv \<Rightarrow> bytes \<Rightarrow> bool \<Rightarrow> transport \<Rightarrow> transport" where
  "sending env d svc t = snd (draw_bytes env ((0x7FFFFFF0 - int (length d)) smod 16 +
     (sint (fst (draw_int env 14 (snd (generateSequence (\<not> svc) (snd (getNewMessageId t)))))) + 2) * 16)
     (snd (draw_int env 14 (snd (generateSequence (\<not> svc) (snd (getNewMessageId t)))))))"

lemma sending_effect [effect_simps]:
  "tp_lastMessageId (sending env d svc t) = fst (getNewMessageId t)"
  "tp_pendingMessages (sending env d svc t) = tp_pendingMessages t" "tp_serverSalt (sending env d svc t) = tp_serverSalt t"
  "tp_sessionId (sending env d svc t) = tp_sessionId t" "tp_authKey (sending env d svc t) = tp_authKey t"
  "tp_noFloodReplay (sending env d svc t) = tp_noFloodReplay t" "tp_floodMessages (sending env d svc t) = tp_floodMessages t"
  by (simp_all add: sending_def effect_simps)

definition recorded :: "tpenv \<Rightarrow> bytes \<Rightarrow> bytes \<Rightarrow> bool \<Rightarrow> transport \<Rightarrow> transport" where
  "recorded env e d svc t =
     (if \<not> svc
      then (sending env e svc t)\<lparr>tp_pendingMessages := AList.update (fst (getNewMessageId t)) d (tp_pendingMessages (sending env e svc t))\<rparr>
      else sending env e svc t)"

lemma recorded_effect [effect_simps]:
  "tp_lastMessageId (recorded env e d svc t) = fst (getNewMessageId t)"
  "tp_pendingMessages (recorded env e d svc t) =
     (if svc then tp_pendingMessages t else AList.update (fst (getNewMessageId t)) d (tp_pendingMessages t))"
  "tp_serverSalt (recorded env e d svc t) = tp_serverSalt t" "tp_sessionId (recorded env e d svc t) = tp_sessionId t"
  "tp_authKey (recorded env e d svc t) = tp_authKey t" "tp_noFloodReplay (recorded env e d svc t) = tp_noFloodReplay t"
  "tp_floodMessages (recorded env e d svc t) = tp_floodMessages t"
  by (simp_all add: recorded_def effect_simps)

lemma sendEncrypted_chain:
  "\<exists>c e. sendEncrypted env d old svc t =
     (fst (getNewMessageId t),
      sendIntermediate env c
       (if old \<noteq> 0 then broadcastMessageChange old (fst (getNewMessageId t)) (recorded env e d svc t) else recorded env e d svc t))"
  unfolding sendEncrypted_def Let_def case_prod_unfold sending_def [symmetric] fst_conv snd_conv
    recorded_def [symmetric]
  by (intro exI) (rule refl)

lemma sendEncrypted_effect [effect_simps]:
  "fst (sendEncrypted env d old svc t) = fst (getNewMessageId t)"
  "tp_lastMessageId (snd (sendEncrypted env d old svc t)) = fst (getNewMessageId t)"
  "tp_pendingMessages (snd (sendEncrypted env d old svc t)) =
     (if svc then tp_pendingMessages t else AList.update (fst (getNewMessageId t)) d (tp_pendingMessages t))"
  "tp_serverSalt (snd (sendEncrypted env d old svc t)) = tp_serverSalt t"
  "tp_sessionId (snd (sendEncrypted env d old svc t)) = tp_sessionId t"
  "tp_authKey (snd (sendEncrypted env d old svc t)) = tp_authKey t"
  "tp_noFloodReplay (snd (sendEncrypted env d old svc t)) = tp_noFloodReplay t"
  "tp_floodMessages (snd (sendEncrypted env d old svc t)) = tp_floodMessages t"
proof -
  obtain c e where s: "sendEncrypted env d old svc t =
     (fst (getNewMessageId t),
      sendIntermediate env c
       (if old \<noteq> 0 then broadcastMessageChange old (fst (getNewMessageId t)) (recorded env e d svc t) else recorded env e d svc t))" using sendEncrypted_chain by blast
  show "fst (sendEncrypted env d old svc t) = fst (getNewMessageId t)"
    "tp_lastMessageId (snd (sendEncrypted env d old svc t)) = fst (getNewMessageId t)"
    "tp_pendingMessages (snd (sendEncrypted env d old svc t)) =
     (if svc then tp_pendingMessages t else AList.update (fst (getNewMessageId t)) d (tp_pendingMessages t))"
    "tp_serverSalt (snd (sendEncrypted env d old svc t)) = tp_serverSalt t"
    "tp_sessionId (snd (sendEncrypted env d old svc t)) = tp_sessionId t"
    "tp_authKey (snd (sendEncrypted env d old svc t)) = tp_authKey t"
    "tp_noFloodReplay (snd (sendEncrypted env d old svc t)) = tp_noFloodReplay t"
    "tp_floodMessages (snd (sendEncrypted env d old svc t)) = tp_floodMessages t"
    unfolding s by (simp_all add: effect_simps)
qed

lemma sendEncrypted_tells:
  assumes "old \<noteq> 0"
  shows "EvClientMessageChanged old (fst (getNewMessageId t)) \<in> set (tp_log (snd (sendEncrypted env d old svc t)))"
proof -
  obtain c e where s: "sendEncrypted env d old svc t =
     (fst (getNewMessageId t),
      sendIntermediate env c
       (if old \<noteq> 0 then broadcastMessageChange old (fst (getNewMessageId t)) (recorded env e d svc t) else recorded env e d svc t))" using sendEncrypted_chain by blast
  show ?thesis unfolding s using assms
    by (simp add: broadcastMessageChange_def sendIntermediate_def sk_write_def tp_emit_def)
qed

lemma sendPlain_effect:
  "tp_serverSalt (snd (sendPlainMessage env d old t)) = tp_serverSalt t" "tp_sessionId (snd (sendPlainMessage env d old t)) = tp_sessionId t"
  "tp_authKey (snd (sendPlainMessage env d old t)) = tp_authKey t" "tp_noFloodReplay (snd (sendPlainMessage env d old t)) = tp_noFloodReplay t"
  "tp_pendingMessages (snd (sendPlainMessage env d old t)) = tp_pendingMessages t"
  "tp_floodMessages (snd (sendPlainMessage env d old t)) = tp_floodMessages t"
  by (simp_all add: sendPlainMessage_def Let_def case_prod_unfold effect_simps)

lemma sendMsgsAck_effect:
  "tp_serverSalt (snd (sendMsgsAck env t)) = tp_serverSalt t" "tp_sessionId (snd (sendMsgsAck env t)) = tp_sessionId t"
  "tp_authKey (snd (sendMsgsAck env t)) = tp_authKey t" "tp_noFloodReplay (snd (sendMsgsAck env t)) = tp_noFloodReplay t"
  "tp_pendingMessages (snd (sendMsgsAck env t)) = tp_pendingMessages t"
  "tp_floodMessages (snd (sendMsgsAck env t)) = tp_floodMessages t"
  by (simp_all add: sendMsgsAck_def sendMTService_def Let_def sendEncrypted_effect sendPlain_effect)

lemma saveSession_effect [simp]:
  "tp_serverSalt (saveSession r t) = tp_serverSalt t" "tp_sessionId (saveSession r t) = tp_sessionId t"
  "tp_authKey (saveSession r t) = tp_authKey t" "tp_noFloodReplay (saveSession r t) = tp_noFloodReplay t"
  "tp_pendingMessages (saveSession r t) = tp_pendingMessages t" "tp_floodMessages (saveSession r t) = tp_floodMessages t"
  by (simp_all add: saveSession_def Let_def)

text \<open>The notification of a wrong salt, as bytes.\<close>

definition bad_salt_bytes :: "i64 \<Rightarrow> i32 \<Rightarrow> i64 \<Rightarrow> bytes" where
  "bad_salt_bytes bad seqno salt =
     le_encode 4 MT_BadServerSalt @ le_encode 8 bad @ le_encode 4 seqno @ le_encode 4 (48 :: i32) @ le_encode 8 salt"

lemma next_int_at:
  "avail s = le_encode 4 w @ r \<Longrightarrow> fst (next_int s) = w" "avail s = le_encode 4 (w :: i32) @ r \<Longrightarrow> avail (snd (next_int s)) = r"
  by (simp_all add: next_int_def readInt32_def read_word_encoded)

lemma next_long_at:
  "avail s = le_encode 8 w @ r \<Longrightarrow> fst (next_long s) = w" "avail s = le_encode 8 (w :: i64) @ r \<Longrightarrow> avail (snd (next_long s)) = r"
  by (simp_all add: next_long_def readInt64_def read_word_encoded)

lemma bad_salt_fields:
  "fst (next_long (snd (next_int (packet_of env (bad_salt_bytes bad seqno salt))))) = bad"
  "fst (next_int (snd (next_int (snd (next_long (snd (next_int (packet_of env (bad_salt_bytes bad seqno salt))))))))) = 48"
  "fst (next_long (snd (next_int (snd (next_int (snd (next_long (snd (next_int (packet_of env (bad_salt_bytes bad seqno salt))))))))))) = salt"
proof -
  let ?s = "packet_of env (bad_salt_bytes bad seqno salt)"
  let ?s1 = "snd (next_int ?s)"
  let ?s2 = "snd (next_long ?s1)"
  let ?s3 = "snd (next_int ?s2)"
  let ?s4 = "snd (next_int ?s3)"
  have a: "avail ?s = le_encode 4 MT_BadServerSalt @ le_encode 8 bad @ le_encode 4 seqno @ le_encode 4 (48 :: i32) @ le_encode 8 salt"
    by (simp add: bad_salt_bytes_def packet_of_def)
  note a1 = next_int_at(2) [OF a]
  note a2 = next_long_at(2) [OF a1]
  note a3 = next_int_at(2) [OF a2]
  have a4: "avail ?s4 = le_encode 8 salt @ []" using next_int_at(2) [OF a3] by simp
  show "fst (next_long ?s1) = bad" by (rule next_long_at(1) [OF a1])
  show "fst (next_int ?s3) = 48" by (rule next_int_at(1) [OF a3])
  show "fst (next_long ?s4) = salt" by (rule next_long_at(1) [OF a4])
qed

lemma bad_salt_resend:
  fixes env seqno salt mid
  assumes "map_of (tp_pendingMessages t) bad = Some request" and "request \<noteq> []" and "tp_authKey t \<noteq> []" and "bad \<noteq> 0"
  defines "t' \<equiv> handleBadServerSalt env (bad_salt_bytes bad seqno salt) mid t"
  shows "tp_serverSalt t' = salt" and "map_of (tp_pendingMessages t') (tp_lastMessageId t') = Some request"
    and "EvClientMessageChanged bad (tp_lastMessageId t') \<in> set (tp_log t')"
    and "bad \<noteq> tp_lastMessageId t' \<Longrightarrow> map_of (tp_pendingMessages t') bad = None"
    and "tp_noFloodReplay t' = tp_noFloodReplay t" and "tp_floodMessages t' = tp_floodMessages t"
proof -
  define u where "u = (saveSession False (t\<lparr>tp_serverSalt := salt\<rparr>))\<lparr>tp_pendingMessages := AList.delete bad (tp_pendingMessages t)\<rparr>"
  define v where "v = snd (sendMsgsAck env u)"
  have t': "t' = snd (sendEncrypted env request bad False v)"
    unfolding t'_def handleBadServerSalt_def handleBadMsgNotification_def Let_def case_prod_unfold bad_salt_fields
    using assms(1-3) by (simp add: take_message_def sendMTMessage_def u_def v_def)
  have v: "tp_serverSalt v = salt" "tp_pendingMessages v = AList.delete bad (tp_pendingMessages t)"
    "tp_noFloodReplay v = tp_noFloodReplay t" "tp_floodMessages v = tp_floodMessages t"
    by (simp_all add: v_def sendMsgsAck_effect u_def)
  show "tp_serverSalt t' = salt" "tp_noFloodReplay t' = tp_noFloodReplay t" "tp_floodMessages t' = tp_floodMessages t"
    by (simp_all add: t' sendEncrypted_effect v)
  show "map_of (tp_pendingMessages t') (tp_lastMessageId t') = Some request"
    by (simp add: t' sendEncrypted_effect update_conv')
  show "EvClientMessageChanged bad (tp_lastMessageId t') \<in> set (tp_log t')"
    unfolding t' sendEncrypted_effect(2) by (rule sendEncrypted_tells [OF assms(4)])
  show "map_of (tp_pendingMessages t') bad = None" if "bad \<noteq> tp_lastMessageId t'"
    using that by (simp add: t' sendEncrypted_effect update_conv' v delete_conv')
qed


lemma bad_salt_new_id:
  assumes "map_of (tp_pendingMessages t) bad = Some request" and "request \<noteq> []" and "tp_authKey t \<noteq> []" and "tp_msgsToAck t = []"
  shows "tp_lastMessageId (handleBadServerSalt env (bad_salt_bytes bad seqno salt) mid t) = fst (getNewMessageId t)"
  using assms
  unfolding handleBadServerSalt_def handleBadMsgNotification_def Let_def case_prod_unfold bad_salt_fields
  by (simp add: take_message_def sendMTMessage_def sendMsgsAck_def sendEncrypted_effect saveSession_def getNewMessageId_def Let_def)

text \<open>A flood wait parks the request for the next keepalive, unless its id is excluded.\<close>

definition error_text :: "tpenv \<Rightarrow> bytes \<Rightarrow> qstring" where
  "error_text env d = qv_toString (fst (readString VNull (snd (next_int (snd (next_int (packet_of env d)))))))"

definition is_flood_wait :: "tpenv \<Rightarrow> bytes \<Rightarrow> bool" where
  "is_flood_wait env d \<longleftrightarrow> qs_contains (error_text env d) (qs ''FLOOD_WAIT_'') \<and> \<not> qs_contains (error_text env d) (qs ''_MIGRATE_'')"

lemma flood_wait_parks:
  assumes "is_flood_wait env d" and "map_of (tp_pendingMessages t) mid = Some request" and "mid \<notin> set (tp_noFloodReplay t)"
  shows "map_of (tp_floodMessages (tp_handleRpcError env d mid t)) mid = Some request"
  using assms unfolding tp_handleRpcError_def Let_def case_prod_unfold error_text_def [symmetric] is_flood_wait_def
  by (simp add: take_message_def tp_emit_def update_conv')

lemma flood_wait_excluded:
  assumes "is_flood_wait env d" and "mid \<in> set (tp_noFloodReplay t)"
  shows "tp_floodMessages (tp_handleRpcError env d mid t) = tp_floodMessages t"
    and "map_of (tp_pendingMessages (tp_handleRpcError env d mid t)) mid = None"
  using assms unfolding tp_handleRpcError_def Let_def case_prod_unfold error_text_def [symmetric] is_flood_wait_def
  by (simp_all add: drop_pending_def tp_emit_def delete_conv')

subsection \<open>Sessions in the settings\<close>

lemma get_set_value: "get_value g k (set_value g' k' v st) = (if g = g' \<and> k = k' then v else get_value g k st)"
  by (auto simp: get_value_def set_value_def update_conv')

lemma dc_group_not_transport: "dc_group t \<noteq> ''Transport''"
  by (simp add: dc_group_def)

lemma dc_group_cong:
  "tp_currentDc t = tp_currentDc u \<Longrightarrow> tp_testMode t = tp_testMode u \<Longrightarrow> tp_mediaOnly t = tp_mediaOnly u \<Longrightarrow> dc_group t = dc_group u"
  by (simp add: dc_group_def dc_number_def)

lemma load_saved_session:
  assumes "tp_currentDc t \<noteq> 0" and "tp_settings u = tp_settings (saveSession r t)"
    and "tp_isMain u = tp_isMain t" and "tp_testMode u = tp_testMode t" and "tp_mediaOnly u = tp_mediaOnly t"
    and "tp_isMain t \<or> tp_currentDc u = tp_currentDc t"
  shows "loadSession env u = u\<lparr>tp_currentDc := tp_currentDc t, tp_currentHost := tp_currentHost t,
    tp_currentPort := tp_currentPort t, tp_authKey := tp_authKey t, tp_serverSalt := tp_serverSalt t,
    tp_authKeyId := tp_authKeyId t, tp_timeOffset := tp_timeOffset t, tp_sequence := tp_sequence t,
    tp_lastMessageId := tp_lastMessageId t, tp_sessionId := tp_sessionId t, tp_pingId := tp_pingId t, tp_userId := tp_userId t\<rparr>"
proof -
  define u1 where "u1 = (if tp_isMain u then u\<lparr>tp_currentDc := qv_toInt (get_value ''Transport'' (qs ''MainDc'') (tp_settings u))\<rparr> else u)"
  have "get_value ''Transport'' (qs ''MainDc'') (tp_settings u) = VInt (tp_currentDc t)" if "tp_isMain t"
    using assms(1,2) that by (simp add: saveSession_def Let_def get_set_value dc_group_not_transport [symmetric])
  then have u1: "u1 = u\<lparr>tp_currentDc := tp_currentDc t\<rparr>" using assms(3,6) by (auto simp: u1_def)
  have g: "dc_group u1 = dc_group t" by (rule dc_group_cong) (simp_all add: u1 assms)
  have "(ucast (ucast (tp_currentPort t) :: i32) :: 16 word) = tp_currentPort t"
    by (rule bit_word_eqI) (simp add: bit_ucast_iff)
  then show ?thesis
    unfolding loadSession_def Let_def u1_def [symmetric] g
    unfolding assms(2) using assms(1)
    by (simp add: saveSession_def Let_def get_set_value qs_def u1)
qed


subsection \<open>Migration\<close>

text \<open>The members no sending or closing touches.\<close>

definition session_of where
  "session_of t = (tp_authKey t, tp_serverSalt t, tp_authKeyId t, tp_sessionId t, tp_userId t, tp_config t,
     tp_mediaOnly t, tp_isMain t, tp_testMode t)"

named_theorems session_simps

lemma session_of_emit [session_simps]: "session_of (tp_emit e t) = session_of t"
  by (simp add: session_of_def tp_emit_def)

lemma session_of_save [session_simps]: "session_of (saveSession r t) = session_of t"
  by (simp add: session_of_def saveSession_def Let_def)

lemma session_of_small [session_simps]:
  "session_of (snd (generateSequence b t)) = session_of t" "session_of (snd (draw_int env n t)) = session_of t"
  "session_of (snd (draw_bytes env k t)) = session_of t" "session_of (broadcastMessageChange o1 n1 t) = session_of t"
  "session_of (sendIntermediate env d t) = session_of t" "session_of (snd (getNewMessageId t)) = session_of t"
  by (simp_all add: session_of_def generateSequence_def draw_int_def draw_bytes_def broadcastMessageChange_def sendIntermediate_def
    sk_write_def tp_emit_def getNewMessageId_def Let_def case_prod_unfold)

lemma socket_small [session_simps]:
  "tp_socket (snd (generateSequence b t)) = tp_socket t" "tp_socket (snd (draw_int env n t)) = tp_socket t"
  "tp_socket (snd (draw_bytes env k t)) = tp_socket t" "tp_socket (broadcastMessageChange o1 n1 t) = tp_socket t"
  "tp_socket (sendIntermediate env d t) = tp_socket t" "tp_socket (snd (getNewMessageId t)) = tp_socket t"
  "tp_socket (saveSession r t) = tp_socket t" "tp_socket (tp_emit e t) = tp_socket t"
  by (simp_all add: generateSequence_def draw_int_def draw_bytes_def broadcastMessageChange_def sendIntermediate_def
    sk_write_def tp_emit_def getNewMessageId_def saveSession_def Let_def case_prod_unfold)

lemma session_of_tables [session_simps]:
  "session_of (t\<lparr>tp_pendingMessages := a\<rparr>) = session_of t" "session_of (t\<lparr>tp_msgsToAck := b\<rparr>) = session_of t"
  "session_of (t\<lparr>tp_pingTimer := c\<rparr>) = session_of t" "session_of (t\<lparr>tp_retryTimer := d\<rparr>) = session_of t"
  "session_of (t\<lparr>tp_connectTimer := e\<rparr>) = session_of t" "session_of (t\<lparr>tp_autoReconnect := f\<rparr>) = session_of t"
  "session_of (t\<lparr>tp_socket := g\<rparr>) = session_of t" "session_of (t\<lparr>tp_retryAttempt := h\<rparr>) = session_of t"
  "session_of (t\<lparr>tp_notifiedDisconnect := i\<rparr>) = session_of t" "session_of (t\<lparr>tp_initialized := j\<rparr>) = session_of t"
  "session_of (t\<lparr>tp_handshaking := k\<rparr>) = session_of t" "session_of (t\<lparr>tp_currentDc := l\<rparr>) = session_of t"
  "session_of (t\<lparr>tp_currentHost := m\<rparr>) = session_of t" "session_of (t\<lparr>tp_currentPort := n\<rparr>) = session_of t"
  by (simp_all add: session_of_def)

lemma session_of_sendEncrypted [session_simps]:
  "session_of (snd (sendEncrypted env d old svc t)) = session_of t" "tp_socket (snd (sendEncrypted env d old svc t)) = tp_socket t"
proof -
  obtain c e where s: "sendEncrypted env d old svc t =
     (fst (getNewMessageId t),
      sendIntermediate env c
       (if old \<noteq> 0 then broadcastMessageChange old (fst (getNewMessageId t)) (recorded env e d svc t) else recorded env e d svc t))"
    using sendEncrypted_chain by blast
  show "session_of (snd (sendEncrypted env d old svc t)) = session_of t" "tp_socket (snd (sendEncrypted env d old svc t)) = tp_socket t"
    unfolding s by (simp_all add: recorded_def sending_def session_simps)
qed

lemma session_of_acks [session_simps]:
  "session_of (snd (sendMsgsAck env t)) = session_of t" "tp_socket (snd (sendMsgsAck env t)) = tp_socket t"
  by (simp_all add: sendMsgsAck_def sendMTService_def sendPlainMessage_def Let_def case_prod_unfold session_simps)

lemma stop_effect:
  "session_of (tp_stop env ack t) = session_of t"
  "tp_socket t = SkConnected \<Longrightarrow> te_flushes env \<Longrightarrow> tp_socket (tp_stop env ack t) = SkUnconnected"
proof -
  define t1 where "t1 = (saveSession False t)\<lparr>tp_pingTimer := False, tp_retryTimer := None, tp_connectTimer := False, tp_autoReconnect := False\<rparr>"
  define t2 where "t2 = (if ack then snd (sendMsgsAck env t1) else t1)"
  have t2: "session_of t2 = session_of t" "tp_socket t2 = tp_socket t"
    by (simp_all add: t2_def t1_def session_simps)
  have n: "session_of (notifyDisconnected env u) = session_of u" "tp_socket (notifyDisconnected env u) = tp_socket u" for u
    by (simp_all add: notifyDisconnected_def scheduleReconnect_def Let_def case_prod_unfold session_simps)
  have st: "tp_stop env ack t = (if tp_socket t = SkUnconnected then t1 else sk_disconnectFromHost env t2)"
    by (simp add: tp_stop_def Let_def t1_def t2_def session_simps)
  show "session_of (tp_stop env ack t) = session_of t"
    unfolding st by (simp add: t2 n sk_disconnectFromHost_def tp_disconnected_def session_simps) (simp add: t1_def session_simps)
  show "tp_socket (tp_stop env ack t) = SkUnconnected" if "tp_socket t = SkConnected" "te_flushes env"
    unfolding st using that by (simp add: t2 n sk_disconnectFromHost_def tp_disconnected_def)
qed

lemma migrate_reuses_session:
  assumes "dc \<noteq> 0" and "dc \<noteq> tp_currentDc t" and "tp_socket t = SkConnected" and "te_flushes env"
    and "find_object (dc_option_fits dc (tp_mediaOnly t)) (qv_toList (obj_get (tp_config t) ''dc_options'')) = option"
    and "qv_toString (obj_get option ''ip_address'') = host" and "host \<noteq> []"
    and "ucast (qv_toInt (obj_get option ''port'')) = port" and "port \<noteq> (0 :: 16 word)"
  shows "session_of (migrateTo env dc t) = session_of t" and "tp_currentDc (migrateTo env dc t) = dc"
    and "tp_socket (migrateTo env dc t) = SkConnecting" and "last (tp_log (migrateTo env dc t)) = EvConnect host port"
proof -
  define t1 where "t1 = tp_stop env True t"
  have t1: "session_of t1 = session_of t" "tp_socket t1 = SkUnconnected"
    using stop_effect assms(3,4) by (simp_all add: t1_def)
  then have c: "tp_config t1 = tp_config t" "tp_mediaOnly t1 = tp_mediaOnly t" by (simp_all add: session_of_def)
  define t3 where "t3 = t1\<lparr>tp_currentDc := dc, tp_currentHost := host, tp_currentPort := port\<rparr>"
  define u where "u = saveSession False t3"
  have m: "migrateTo env dc t = tp_start env u"
    using assms(2,5-9) c by (simp add: migrateTo_def Let_def t1_def [symmetric] u_def t3_def)
  have "loadSession env u = u\<lparr>tp_currentDc := tp_currentDc t3, tp_currentHost := tp_currentHost t3,
    tp_currentPort := tp_currentPort t3, tp_authKey := tp_authKey t3, tp_serverSalt := tp_serverSalt t3,
    tp_authKeyId := tp_authKeyId t3, tp_timeOffset := tp_timeOffset t3, tp_sequence := tp_sequence t3,
    tp_lastMessageId := tp_lastMessageId t3, tp_sessionId := tp_sessionId t3, tp_pingId := tp_pingId t3, tp_userId := tp_userId t3\<rparr>"
    by (rule load_saved_session [of t3 u False]) (use assms(1) in \<open>simp_all add: u_def t3_def saveSession_def Let_def\<close>)
  also have "\<dots> = u" by (simp add: u_def saveSession_def Let_def)
  finally have l: "loadSession env u = u" .
  have u: "tp_socket u = SkUnconnected" "tp_currentHost u = host" "tp_currentPort u = port" "tp_currentDc u = dc"
    "session_of u = session_of t"
    using t1 by (simp_all add: u_def t3_def session_simps) (simp_all add: saveSession_def Let_def)
  have st: "tp_start env u = (tp_emit (EvConnect host port) (u\<lparr>tp_notifiedDisconnect := False, tp_autoReconnect := True,
      tp_socket := SkConnecting\<rparr>))\<lparr>tp_connectTimer := True, tp_pingTimer := True\<rparr>"
    using u(1-4) assms(1,7,9) unfolding tp_start_def l Let_def by simp
  show "session_of (migrateTo env dc t) = session_of t" "tp_currentDc (migrateTo env dc t) = dc"
    "tp_socket (migrateTo env dc t) = SkConnecting" "last (tp_log (migrateTo env dc t)) = EvConnect host port"
    unfolding m st using u by (simp_all add: session_simps) (simp_all add: tp_emit_def)
qed

end
