(* ===== verification/TransportFrames.thy ===== *)
theory TransportFrames
  imports TransportDispatch
begin

section \<open>Nested objects, streams of frames and the exchanged key\<close>

text \<open>
  The depth bound of \<open>handleObject\<close> changes no result it allows, and no bound is enough for an
  object that contains itself. A device that delivers frames has each of them processed, in order.
  Both sides of the key exchange compute the same key.
\<close>

subsection \<open>Nesting\<close>

definition handler_le :: "handler \<Rightarrow> handler \<Rightarrow> bool" where
  "handler_le h h' \<longleftrightarrow> (\<forall>d mid t t'. h d mid t = Some t' \<longrightarrow> h' d mid t = Some t')"

lemma container_loop_mono: "handler_le h h' \<Longrightarrow> container_loop h k s t = Some t' \<Longrightarrow> container_loop h' k s t = Some t'"
proof (induction k arbitrary: s t)
  case (Suc k)
  from Suc.prems(2) obtain array mid t1 s1 where "h array mid t = Some t1" "container_loop h k s1 t1 = Some t'"
    "array = fst (readRawBytes (fst (next_int (snd (next_int (snd (next_long s)))))) (snd (next_int (snd (next_int (snd (next_long s)))))))"
    "s1 = snd (readRawBytes (fst (next_int (snd (next_int (snd (next_long s)))))) (snd (next_int (snd (next_int (snd (next_long s)))))))"
    "mid = fst (next_long s)"
    by (auto simp: Let_def case_prod_unfold split: option.splits)
  then show ?case using Suc.IH Suc.prems(1) by (simp add: handler_le_def Let_def case_prod_unfold)
qed simp

lemma nested_mono:
  assumes "handler_le h h'"
  shows "handleMsgContainer env h d t = Some t' \<Longrightarrow> handleMsgContainer env h' d t = Some t'"
    "handleMsgCopy env h d t = Some t' \<Longrightarrow> handleMsgCopy env h' d t = Some t'"
    "handleRpcResult env h d t = Some t' \<Longrightarrow> handleRpcResult env h' d t = Some t'"
    "handleGzipPacked env h d mid t = Some t' \<Longrightarrow> handleGzipPacked env h' d mid t = Some t'"
  using assms container_loop_mono [OF assms]
  by (auto simp: handleMsgContainer_def handleMsgCopy_def handleRpcResult_def handleGzipPacked_def handler_le_def Let_def
    case_prod_unfold split: option.splits)

text \<open>A deeper bound changes no result.\<close>

lemma nested_ids:
  "MT_MsgContainer \<notin> {BOOL_TRUE, BOOL_FALSE, MT_ResPQ, MT_ServerDHParamsOk, MT_DhGenOk}"
  "MT_MsgCopy \<notin> {BOOL_TRUE, BOOL_FALSE, MT_ResPQ, MT_ServerDHParamsOk, MT_DhGenOk, MT_MsgContainer}"
  "MT_RpcResult \<notin> {BOOL_TRUE, BOOL_FALSE, MT_ResPQ, MT_ServerDHParamsOk, MT_DhGenOk, MT_MsgContainer, MT_MsgCopy}"
  "MT_GzipPacked \<notin> {BOOL_TRUE, BOOL_FALSE, MT_ResPQ, MT_ServerDHParamsOk, MT_DhGenOk, MT_MsgContainer, MT_MsgCopy, MT_RpcResult}"
  by (simp_all add: object_ids)

lemma handleObject_mono_Suc: "handler_le (handleObject n env) (handleObject (Suc n) env)"
proof (induction n)
  case (Suc n)
  show ?case unfolding handler_le_def
  proof (intro allI impI)
    fix d mid t t' assume r: "handleObject (Suc n) env d mid t = Some t'"
    define c where "c = fst (next_int (packet_of env d))"
    define t1 where "t1 = (if c \<noteq> MT_RpcError \<and> c \<noteq> MT_BadMsgNotification \<and> c \<noteq> MT_BadServerSalt then drop_pending mid t else t)"
    note st = handleObject.simps(2) [of _ env d mid t, unfolded Let_def, folded c_def, folded t1_def]
    note m = nested_mono(1-3) [OF Suc, where d = d and t = t1 and t' = t'] nested_mono(4) [OF Suc, where d = d and mid = mid and t = t1 and t' = t']
    consider "c = MT_MsgContainer" | "c = MT_MsgCopy" | "c = MT_RpcResult" | "c = MT_GzipPacked"
      | "c \<noteq> MT_MsgContainer" "c \<noteq> MT_MsgCopy" "c \<noteq> MT_RpcResult" "c \<noteq> MT_GzipPacked" by blast
    then show "handleObject (Suc (Suc n)) env d mid t = Some t'"
    proof cases
      case 1 then show ?thesis using r nested_ids(1) m(1) unfolding st by (simp del: handleObject.simps)
    next
      case 2 then show ?thesis using r nested_ids(2) m(2) unfolding st by (simp del: handleObject.simps)
    next
      case 3 then show ?thesis using r nested_ids(3) m(3) unfolding st by (simp del: handleObject.simps)
    next
      case 4 then show ?thesis using r nested_ids(4) m(4) unfolding st by (simp del: handleObject.simps)
    next
      case 5
      then have "handleObject (Suc (Suc n)) env d mid t = handleObject (Suc n) env d mid t" unfolding st by (simp only: if_False)
      then show ?thesis using r by (simp only:)
    qed
  qed
qed (simp add: handler_le_def)

lemma handleObject_mono: "n \<le> m \<Longrightarrow> handleObject n env d mid t = Some t' \<Longrightarrow> handleObject m env d mid t = Some t'"
proof (induction m rule: dec_induct)
  case (step m)
  then show ?case using handleObject_mono_Suc [of m env] by (simp add: handler_le_def del: handleObject.simps)
qed

text \<open>A compressed object, as bytes, and one that contains itself.\<close>

definition gzip_bytes :: "tpenv \<Rightarrow> bytes \<Rightarrow> bytes" where
  "gzip_bytes env b = le_encode 4 MT_GzipPacked @ toByteArray (writeByteArray (mk_stream (te_qt env) []) (VBytes b))"

lemma next_int_gzip: "next_int (packet_of env (gzip_bytes env b)) = (MT_GzipPacked, advance 4 (packet_of env (gzip_bytes env b)))"
  by (simp add: gzip_bytes_def next_int_def readInt32_def packet_of_def read_word_encoded)

lemma gzip_content:
  assumes "length b < 2 ^ 24"
  shows "fst (readByteArray VNull (advance 4 (packet_of env (gzip_bytes env b)))) = VBytes b"
proof -
  define s where "s = advance 4 (packet_of env (gzip_bytes env b))"
  have ok: "is_short_bytes q (VBytes b)" for q using assms by (simp add: is_short_bytes_def)
  have "toByteArray (writeByteArray (mk_stream (te_qt env) []) (VBytes b)) = enc_bytes (te_qt env) (VBytes b)"
    using tbytes.writes [OF ok, of "te_qt env" "[]"] by (simp add: mk_stream_Nil toByteArray_def)
  then have "avail s = enc_bytes (sqt s) (VBytes b) @ []" by (simp add: s_def gzip_bytes_def packet_of_def)
  then show ?thesis using tbytes.reads [OF ok] by (simp add: s_def)
qed

lemma handleObject_gzip:
  assumes "length b < 2 ^ 24"
  shows "handleObject (Suc n) env (gzip_bytes env b) mid t =
    (case te_gunzip env b of None \<Rightarrow> Some (drop_pending mid t) | Some d \<Rightarrow> handleObject n env d mid (drop_pending mid t))"
proof -
  have "MT_GzipPacked \<noteq> BOOL_TRUE" "MT_GzipPacked \<noteq> BOOL_FALSE" "MT_GzipPacked \<noteq> MT_ResPQ" "MT_GzipPacked \<noteq> MT_ServerDHParamsOk"
    "MT_GzipPacked \<noteq> MT_DhGenOk" "MT_GzipPacked \<noteq> MT_MsgContainer" "MT_GzipPacked \<noteq> MT_MsgCopy" "MT_GzipPacked \<noteq> MT_RpcResult"
    "MT_GzipPacked \<noteq> MT_RpcError" "MT_GzipPacked \<noteq> MT_BadMsgNotification" "MT_GzipPacked \<noteq> MT_BadServerSalt"
    by (simp_all add: object_ids)
  then show ?thesis
    by (simp add: next_int_gzip handleGzipPacked_def gzip_content [OF assms] Let_def)
qed

lemma self_containing_never_returns:
  assumes "length b < 2 ^ 24" and "te_gunzip env b = Some (gzip_bytes env b)"
  shows "handleObject n env (gzip_bytes env b) mid t = None"
proof (induction n arbitrary: t)
  case (Suc n)
  then show ?case using assms(2) by (simp only: handleObject_gzip [OF assms(1)] option.case)
qed simp

subsection \<open>Frames in order\<close>

definition wire_frame :: "bytes \<Rightarrow> bytes" where
  "wire_frame m = le_encode 4 (of_nat (length m) :: i32) @ m"

fun process_all :: "nat \<Rightarrow> tpenv \<Rightarrow> bytes list \<Rightarrow> transport \<Rightarrow> transport option" where
  "process_all n env [] t = Some t"
| "process_all n env (m # ms) t = (case processMessage n env m t of None \<Rightarrow> None | Some t1 \<Rightarrow> process_all n env ms t1)"

lemma readIntermediate_frame:
  assumes D: "delivers fetch wait incoming waiting" and "incoming dev = wire_frame m @ r" and "length m \<le> 2097152"
  shows "\<exists>dev'. readIntermediate env fetch wait dev = Some (m, dev') \<and> incoming dev' = r"
proof -
  obtain d1 where d1: "read_loop fetch wait 4 [] dev = Some (take 4 (incoming dev), d1)" "incoming d1 = m @ r"
    using read_loop_delivers [OF D, of 4 dev "[]"] assms(2) by (auto simp: wire_frame_def)
  have h: "take 4 (incoming dev) = le_encode 4 (of_nat (length m) :: i32)" using assms(2) by (simp add: wire_frame_def)
  then have ni: "next_int (packet_of env (take 4 (incoming dev))) =
      (of_nat (length m), advance 4 (packet_of env (le_encode 4 (of_nat (length m) :: i32))))"
    unfolding h using read_word_encoded [of "packet_of env (le_encode 4 (of_nat (length m) :: i32))" 4 "of_nat (length m) :: i32" "[]"]
    by (simp add: next_int_def readInt32_def packet_of_def)
  have "length m < 2 ^ 31" using assms(3) by simp
  then have si: "sint (of_nat (length m) :: i32) = int (length m)" by (rule sint_of_nat32)
  obtain d2 where d2: "read_loop fetch wait (length m) [] d1 = Some (m, d2)" "incoming d2 = r"
    using read_loop_delivers [OF D, of "length m" d1 "[]"] d1(2) by auto
  have ne: "take 4 (incoming dev) \<noteq> []" unfolding h using length_le_encode [of 4 "of_nat (length m) :: i32"] by force
  have r4: "readFully fetch wait 4 dev = Some (take 4 (incoming dev), d1)"
    using d1(1) by (simp add: readFully_def KG_MAX_FRAME_def)
  have "readFully fetch wait (of_nat (length m)) d1 = Some (m, d2)"
    unfolding readFully_def si using d2(1) assms(3) by (simp add: KG_MAX_FRAME_def)
  then show ?thesis unfolding readIntermediate_def r4 using ne ni d2(2) by simp
qed

lemma readyRead_frames:
  assumes D: "delivers fetch wait incoming waiting" and P: "\<And>d. pending d \<longleftrightarrow> incoming d \<noteq> []"
    and "list_all (\<lambda>m. length m \<le> 2097152) ms" and "incoming dev = concat (map wire_frame ms)"
    and "process_all n env ms t = Some t'"
  shows "\<exists>dev'. readyRead n env fetch wait pending dev t = Some (dev', t') \<and> incoming dev' = []"
  using assms(3-5)
proof (induction ms arbitrary: dev t)
  case Nil
  then show ?case using P by (subst readyRead.simps) simp
next
  case (Cons m ms)
  obtain dev1 where d1: "readIntermediate env fetch wait dev = Some (m, dev1)" "incoming dev1 = concat (map wire_frame ms)"
    using readIntermediate_frame [OF D, of dev m "concat (map wire_frame ms)" env] Cons.prems by auto
  obtain t1 where t1: "processMessage n env m t = Some t1" "process_all n env ms t1 = Some t'"
    using Cons.prems(3) by (auto split: option.splits)
  have "4 \<le> length (wire_frame m)" by (simp add: wire_frame_def)
  then have "incoming dev \<noteq> []" using Cons.prems(2) by auto
  then have pd: "pending dev" using P by simp
  then show ?case
    using Cons.IH [OF _ d1(2) t1(2)] Cons.prems(1) d1(1) t1(1) pd by (subst readyRead.simps) simp
qed

subsection \<open>The key both sides compute\<close>

lemma encryptRSA_value:
  assumes "odd (be_nat key)" and "mpi_bitlen (be_nat e) \<le> MPI_MAX_BITS" and "mpi_bitlen (be_nat key) \<le> MPI_MAX_BITS"
  shows "encryptRSA d key e = (let r = be_nat d ^ be_nat e mod be_nat key in nat_be (mpi_size r) r)"
  using mpi_exp_mod_ok [OF assms] by (simp add: encryptRSA_def Let_def)

lemma be_nat_encryptRSA:
  assumes "odd (be_nat key)" and "mpi_bitlen (be_nat e) \<le> MPI_MAX_BITS" and "mpi_bitlen (be_nat key) \<le> MPI_MAX_BITS"
  shows "be_nat (encryptRSA d key e) = be_nat d ^ be_nat e mod be_nat key"
  unfolding encryptRSA_value [OF assms] Let_def by (rule be_nat_nat_be [OF mpi_size_bound])

lemma key_agreement:
  assumes "odd (be_nat p)" and "mpi_bitlen (be_nat p) \<le> MPI_MAX_BITS"
    and "mpi_bitlen (be_nat a) \<le> MPI_MAX_BITS" and "mpi_bitlen (be_nat b) \<le> MPI_MAX_BITS"
  shows "encryptRSA (encryptRSA g p a) p b = encryptRSA (encryptRSA g p b) p a"
  unfolding encryptRSA_value [OF assms(1,4,2), of "encryptRSA g p a"] encryptRSA_value [OF assms(1,3,2), of "encryptRSA g p b"]
    be_nat_encryptRSA [OF assms(1,3,2)] be_nat_encryptRSA [OF assms(1,4,2)]
  by (simp add: power_mod flip: power_mult) (simp add: mult.commute)

end
