(* ===== verification/ClientState.thy ===== *)
theory ClientState
  imports TransportDispatch Srp
begin

section \<open>The client and its requests: libkg/tgclient.h, tgc_auth.cpp, tgc_messages.cpp and others\<close>

text \<open>
  A \<open>TgClient\<close> holds a transport, the transfers under way, the update manager and the state of
  the password check. The main client owns one further client for every data centre it moves
  files from; all of them together, with the files on disk and the signals they emitted, are a
  \<open>world\<close>, and a member function becomes an operation on the world and a reference to the client
  it is called on. Signals are entries of a log: what the interface does in response is
  not part of the model. A request handed to the transport is recorded there as well.
\<close>

subsection \<open>Objects\<close>

definition InputPhotoFileLocation :: i32 where "InputPhotoFileLocation = 1075322878"
definition InputDocumentFileLocation :: i32 where "InputDocumentFileLocation = - 1160743548"
definition InputPeerPhotoFileLocation :: i32 where "InputPeerPhotoFileLocation = 925204121"
definition MessageMediaPhoto :: i32 where "MessageMediaPhoto = - 501814429"
definition MessageMediaDocument :: i32 where "MessageMediaDocument = 1389939929"
definition Photo :: i32 where "Photo = - 82216347"
definition Document :: i32 where "Document = - 1881881384"
definition InputFile :: i32 where "InputFile = - 181407105"
definition InputFileBig :: i32 where "InputFileBig = - 95482955"
definition UploadGetFileMethod :: i32 where "UploadGetFileMethod = - 1101843010"
definition UploadSaveFilePartMethod :: i32 where "UploadSaveFilePartMethod = - 1291540959"
definition UploadSaveBigFilePartMethod :: i32 where "UploadSaveBigFilePartMethod = - 562337987"
definition UploadFile :: i32 where "UploadFile = 157948117"

lemmas file_ids = InputPhotoFileLocation_def InputDocumentFileLocation_def InputPeerPhotoFileLocation_def
  MessageMediaPhoto_def MessageMediaDocument_def Photo_def Document_def InputFile_def InputFileBig_def
  UploadGetFileMethod_def UploadSaveFilePartMethod_def UploadSaveBigFilePartMethod_def

subsection \<open>State\<close>

text \<open>\<open>TgFileCtx\<close>; of its \<open>QFile\<close>, the name, whether it is open, and the position.\<close>

record file_ctx =
  fc_fileId :: i64
  fc_fileName :: qstring
  fc_open :: bool
  fc_pos :: nat
  fc_length :: i64
  fc_bytesLeft :: i64
  fc_fileParts :: i32
  fc_currentPart :: i32
  fc_isBig :: bool
  fc_queue :: "i64 list"
  fc_download :: tgobject

text \<open>\<open>TgSrpWorker\<close>: what it was constructed with, and its flag.\<close>

record srp_worker =
  wk_params :: srp_params
  wk_password :: bytes
  wk_cancel :: bool

record client =
  cl_sessionName :: qstring
  cl_transport :: transport
  cl_uploads :: "(i64 \<times> file_ctx) list"
  cl_downloads :: "(i64 \<times> file_ctx) list"
  cl_currentDownloading :: i64
  cl_filePackets :: "(i64 \<times> i64) list"
  cl_forDc :: "(i32 \<times> nat option) list"
  cl_testDc :: bool
  cl_migrationForDc :: "(i64 \<times> i32) list"
  cl_main :: bool
  cl_connected :: bool
  cl_initialized :: bool
  cl_authorized :: bool
  cl_importMethod :: tgobject
  cl_updates :: "manager option"
  cl_srpWorker :: "srp_worker option"
  cl_pendingPassword :: bytes
  cl_passwordRequestId :: i64
  cl_checkPasswordRequestId :: i64
  cl_srpRetried :: bool

text \<open>A reference to a client: \<open>None\<close> is the one the application made, \<open>Some k\<close> the \<open>k\<close>-th it made for a data centre.\<close>

type_synonym cref = "nat option"

datatype signal =
    Sent tgobject i64
  | FileDownloaded i64 qstring
  | FileDownloading i64 i64 i64 i32
  | FileDownloadCanceled i64 qstring
  | FileUploading i64 i64 i64 i32
  | FileUploaded i64 tgobject
  | FileUploadCanceled i64
  | PasswordCheckFailed string
  | PasswordCheckProgress i32
  | SocketError i32
  | Reconnecting i32 i32
  | Disconnected bool
  | TfaRequired
  | Connected bool
  | Initialized bool
  | Authorized i64
  | MessageChanged i64 i64
  | RpcError i32 qstring i64
  | BoolResponse bool i64
  | HelpCountriesListResponse tgobject i64
  | AuthSentCodeResponse tgobject i64
  | AccountPasswordResponse tgobject i64
  | AuthAuthorizationResponse tgobject i64
  | MessagesDialogsResponse tgobject i64
  | MessagesMessagesResponse tgobject i64
  | MessagesAffectedMessagesResponse tgobject i64
  | VectorDialogFilterResponse "variant list" i64
  | VectorUserResponse "variant list" i64
  | UnknownResponse i32 bytes i64

record world =
  w_root :: client
  w_children :: "client list"
  w_disk :: "qstring \<Rightarrow> bytes option"
  w_draws :: nat
  w_log :: "(cref \<times> signal) list"

text \<open>What is not code of the client: the transport's environment, which files can be opened, the random
  generator (a stream of its own for file ids), the ids the update manager's requests get, and the secrets
  the build supplies.\<close>

record clenv =
  ce_tp :: tpenv
  ce_readable :: "qstring \<Rightarrow> bool"
  ce_writable :: "qstring \<Rightarrow> bool"
  ce_rng :: rng
  ce_newid :: "nat \<Rightarrow> i64"
  ce_api_hash :: qstring
  ce_locale :: qstring

definition client_at :: "cref \<Rightarrow> world \<Rightarrow> client" where
  "client_at self w =
     (case self of None \<Rightarrow> w_root w | Some k \<Rightarrow> if k < length (w_children w) then w_children w ! k else w_root w)"

definition put_client :: "cref \<Rightarrow> client \<Rightarrow> world \<Rightarrow> world" where
  "put_client self c w =
     (case self of None \<Rightarrow> w\<lparr>w_root := c\<rparr>
      | Some k \<Rightarrow> if k < length (w_children w) then w\<lparr>w_children := (w_children w)[k := c]\<rparr> else w\<lparr>w_root := c\<rparr>)"

definition w_emit :: "cref \<Rightarrow> signal \<Rightarrow> world \<Rightarrow> world" where
  "w_emit self e w = w\<lparr>w_log := w_log w @ [(self, e)]\<rparr>"

text \<open>\<open>isMain() ? this : static_cast<TgClient*>(parent())\<close>, and \<open>this\<close> when there is no parent.\<close>

definition signal_client :: "cref \<Rightarrow> world \<Rightarrow> cref" where
  "signal_client self w = (if cl_main (client_at self w) then self else None)"

lemma client_put_same [simp]: "client_at self (put_client self c w) = c"
  by (auto simp: client_at_def put_client_def split: option.splits)

lemma client_at_log [simp]: "client_at self (w_emit s e w) = client_at self w"
  by (simp add: client_at_def w_emit_def split: option.splits)

lemma w_emit_simps [simp]: "w_disk (w_emit s e w) = w_disk w" "w_log (w_emit s e w) = w_log w @ [(s, e)]"
  "w_children (w_emit s e w) = w_children w" "w_root (w_emit s e w) = w_root w" "w_draws (w_emit s e w) = w_draws w"
  by (simp_all add: w_emit_def)

lemma put_client_simps [simp]: "w_disk (put_client s c w) = w_disk w" "w_log (put_client s c w) = w_log w"
  "length (w_children (put_client s c w)) = length (w_children w)" "w_draws (put_client s c w) = w_draws w"
  "put_client s c' (put_client s c w) = put_client s c' w"
  by (auto simp: put_client_def split: option.splits)

subsection \<open>Construction\<close>

definition client_new :: "clenv \<Rightarrow> i32 \<Rightarrow> qstring \<Rightarrow> bool \<Rightarrow> settings \<Rightarrow> 32 word \<Rightarrow> client" where
  "client_new env dcId sessionName useTestDc st now =
     \<lparr>cl_sessionName = (if sessionName = [] then qs ''user_session'' else sessionName),
      cl_transport = transport_new (ce_tp env) dcId useTestDc st now, cl_uploads = [], cl_downloads = [],
      cl_currentDownloading = 0, cl_filePackets = [], cl_forDc = [], cl_testDc = useTestDc, cl_migrationForDc = [],
      cl_main = (dcId = 0), cl_connected = False, cl_initialized = False, cl_authorized = False, cl_importMethod = [],
      cl_updates = (if dcId = 0 then Some (manager_new st (ce_newid env)) else None), cl_srpWorker = None,
      cl_pendingPassword = [], cl_passwordRequestId = 0, cl_checkPasswordRequestId = 0, cl_srpRetried = False\<rparr>"

definition isConnected :: "client \<Rightarrow> bool" where
  "isConnected c = cl_connected c"

definition isInitialized :: "client \<Rightarrow> bool" where
  "isInitialized c = (cl_connected c \<and> cl_initialized c)"

definition isAuthorized :: "client \<Rightarrow> bool" where
  "isAuthorized c = (cl_connected c \<and> cl_initialized c \<and> cl_authorized c)"

subsection \<open>Sending\<close>

definition sendObject :: "clenv \<Rightarrow> tl_writer \<Rightarrow> tgobject \<Rightarrow> cref \<Rightarrow> world \<Rightarrow> i64 \<times> world" where
  "sendObject env W i self w =
     (let c = client_at self w; (mid, t) = sendMTObject (ce_tp env) W (VMap i) (cl_transport c)
      in (mid, w_emit self (Sent i mid) (put_client self (c\<lparr>cl_transport := t\<rparr>) w)))"

end
