(* ===== verification/ClientRequests.thy ===== *)
theory ClientRequests
  imports ClientState
begin

section \<open>The requests: libkg/tgc_auth.cpp, tgc_messages.cpp, tgc_channels.cpp, tgc_users.cpp, tgc_help.cpp\<close>

text \<open>
  One member function per request: it fills an object in and hands it to the transport. The object
  is a definition of its own, so that what is sent can be stated without the transport. Sending and editing
  messages are in \<open>MessageSlots\<close>.
\<close>

definition AuthSendCodeMethod :: i32 where "AuthSendCodeMethod = - 1502141361"
definition AuthSignInMethod :: i32 where "AuthSignInMethod = - 1923962543"
definition AuthSignUpMethod :: i32 where "AuthSignUpMethod = - 1429752041"
definition AccountGetPasswordMethod :: i32 where "AccountGetPasswordMethod = 1418342645"
definition AuthCheckPasswordMethod :: i32 where "AuthCheckPasswordMethod = - 779399914"
definition InputCheckPasswordSRP :: i32 where "InputCheckPasswordSRP = - 763367294"
definition CodeSettings :: i32 where "CodeSettings = - 1390068360"
definition ChannelsDeleteMessagesMethod :: i32 where "ChannelsDeleteMessagesMethod = - 2067661490"
definition ChannelsReadHistoryMethod :: i32 where "ChannelsReadHistoryMethod = - 871347913"
definition HelpGetCountriesListMethod :: i32 where "HelpGetCountriesListMethod = 1935116200"
definition MessagesGetDialogsMethod :: i32 where "MessagesGetDialogsMethod = - 1594569905"
definition MessagesGetHistoryMethod :: i32 where "MessagesGetHistoryMethod = 1143203525"
definition MessagesGetDialogFiltersMethod :: i32 where "MessagesGetDialogFiltersMethod = - 271283063"
definition MessagesDeleteMessagesMethod :: i32 where "MessagesDeleteMessagesMethod = - 443640366"
definition MessagesReadHistoryMethod :: i32 where "MessagesReadHistoryMethod = 238054714"
definition AuthExportAuthorizationMethod :: i32 where "AuthExportAuthorizationMethod = - 440401971"
definition AuthImportAuthorizationMethod :: i32 where "AuthImportAuthorizationMethod = - 1518699091"

lemmas request_ids = AuthSendCodeMethod_def AuthSignInMethod_def AuthSignUpMethod_def AccountGetPasswordMethod_def
  AuthCheckPasswordMethod_def InputCheckPasswordSRP_def CodeSettings_def ChannelsDeleteMessagesMethod_def
  ChannelsReadHistoryMethod_def HelpGetCountriesListMethod_def MessagesGetDialogsMethod_def MessagesGetHistoryMethod_def
  MessagesGetDialogFiltersMethod_def MessagesDeleteMessagesMethod_def MessagesReadHistoryMethod_def
  AuthExportAuthorizationMethod_def AuthImportAuthorizationMethod_def

subsection \<open>Signing in\<close>

definition authSendCode :: "clenv \<Rightarrow> qstring \<Rightarrow> cref \<Rightarrow> world \<Rightarrow> i64 \<times> world" where
  "authSendCode env phoneNumber =
     sendObject env writeTLMethodAuthSendCode
       [(''_'', VInt AuthSendCodeMethod), (''settings'', VMap [(''_'', VInt CodeSettings)]),
        (''phone_number'', VStr phoneNumber), (''api_id'', VInt (te_api_id (ce_tp env))), (''api_hash'', VStr (ce_api_hash env))]"

definition authSignIn :: "clenv \<Rightarrow> qstring \<Rightarrow> qstring \<Rightarrow> qstring \<Rightarrow> cref \<Rightarrow> world \<Rightarrow> i64 \<times> world" where
  "authSignIn env phoneNumber phoneCodeHash phoneCode =
     sendObject env writeTLMethodAuthSignIn
       [(''_'', VInt AuthSignInMethod), (''phone_number'', VStr phoneNumber), (''phone_code_hash'', VStr phoneCodeHash),
        (''phone_code'', VStr phoneCode)]"

definition authSignUp :: "clenv \<Rightarrow> qstring \<Rightarrow> qstring \<Rightarrow> qstring \<Rightarrow> qstring \<Rightarrow> cref \<Rightarrow> world \<Rightarrow> i64 \<times> world" where
  "authSignUp env phoneNumber phoneCodeHash firstName lastName =
     sendObject env writeTLMethodAuthSignUp
       [(''_'', VInt AuthSignUpMethod), (''phone_number'', VStr phoneNumber), (''phone_code_hash'', VStr phoneCodeHash),
        (''first_name'', VStr firstName), (''last_name'', VStr lastName)]"

definition accountGetPassword :: "clenv \<Rightarrow> cref \<Rightarrow> world \<Rightarrow> i64 \<times> world" where
  "accountGetPassword env = sendObject env writeTLMethodAccountGetPassword [(''_'', VInt AccountGetPasswordMethod)]"

definition checkPassword_request :: "i64 \<Rightarrow> bytes \<Rightarrow> bytes \<Rightarrow> tgobject" where
  "checkPassword_request srpId a m1 =
     [(''_'', VInt AuthCheckPasswordMethod),
      (''password'', VMap [(''_'', VInt InputCheckPasswordSRP), (''srp_id'', VLong srpId), (''A'', VBytes a), (''M1'', VBytes m1)])]"

definition authCheckPassword :: "clenv \<Rightarrow> i64 \<Rightarrow> bytes \<Rightarrow> bytes \<Rightarrow> cref \<Rightarrow> world \<Rightarrow> i64 \<times> world" where
  "authCheckPassword env srpId a m1 = sendObject env writeTLMethodAuthCheckPassword (checkPassword_request srpId a m1)"

definition exportAuthorization :: "clenv \<Rightarrow> i32 \<Rightarrow> cref \<Rightarrow> world \<Rightarrow> i64 \<times> world" where
  "exportAuthorization env dcId =
     sendObject env writeTLMethodAuthExportAuthorization [(''_'', VInt AuthExportAuthorizationMethod), (''dc_id'', VInt dcId)]"

definition importAuthorization :: "clenv \<Rightarrow> i64 \<Rightarrow> bytes \<Rightarrow> cref \<Rightarrow> world \<Rightarrow> i64 \<times> world" where
  "importAuthorization env auth_id b self w =
     (let m = [(''_'', VInt AuthImportAuthorizationMethod), (''id'', VLong auth_id), (''bytes'', VBytes b)]; c = client_at self w
      in if \<not> isInitialized c then (0, put_client self (c\<lparr>cl_importMethod := m\<rparr>) w)
         else sendObject env writeTLMethodAuthImportAuthorization m self w)"

subsection \<open>Messages, channels, users\<close>

definition messagesGetDialogs :: "clenv \<Rightarrow> i32 \<Rightarrow> i32 \<Rightarrow> tgobject \<Rightarrow> i32 \<Rightarrow> i32 \<Rightarrow> bool \<Rightarrow> variant \<Rightarrow> cref \<Rightarrow> world \<Rightarrow> i64 \<times> world" where
  "messagesGetDialogs env offsetDate offsetId offsetPeer limit folderId excludePinned hash =
     sendObject env writeTLMethodMessagesGetDialogs
       ([(''_'', VInt MessagesGetDialogsMethod)] @ (if excludePinned then [(''exclude_pinned'', VBool True)] else []) @
        [(''folder_id'', VInt (if folderId = 1 then 1 else 0)), (''offset_date'', VInt offsetDate), (''offset_id'', VInt offsetId),
         (''offset_peer'', VMap (toInputPeer offsetPeer)), (''limit'', VInt limit), (''hash'', hash)])"

definition messagesGetDialogsWithOffsets :: "clenv \<Rightarrow> tgobject \<Rightarrow> i32 \<Rightarrow> i32 \<Rightarrow> bool \<Rightarrow> variant \<Rightarrow> cref \<Rightarrow> world \<Rightarrow> i64 \<times> world" where
  "messagesGetDialogsWithOffsets env offsets limit folderId excludePinned hash =
     messagesGetDialogs env (qv_toInt (obj_get offsets ''offset_date'')) (qv_toInt (obj_get offsets ''offset_id''))
       (qv_toMap (obj_get offsets ''offset_peer'')) limit folderId excludePinned hash"

definition messagesGetHistory :: "clenv \<Rightarrow> tgobject \<Rightarrow> i32 \<Rightarrow> i32 \<Rightarrow> i32 \<Rightarrow> i32 \<Rightarrow> i32 \<Rightarrow> i32 \<Rightarrow> variant \<Rightarrow> cref \<Rightarrow> world \<Rightarrow> i64 \<times> world" where
  "messagesGetHistory env inputPeer offsetId offsetDate addOffset limit maxId minId hash =
     sendObject env writeTLMethodMessagesGetHistory
       [(''_'', VInt MessagesGetHistoryMethod), (''peer'', VMap (toInputPeer inputPeer)), (''offset_id'', VInt offsetId),
        (''offset_date'', VInt offsetDate), (''add_offset'', VInt addOffset), (''limit'', VInt limit), (''max_id'', VInt maxId),
        (''min_id'', VInt minId), (''hash'', hash)]"

definition messagesGetDialogFilters :: "clenv \<Rightarrow> cref \<Rightarrow> world \<Rightarrow> i64 \<times> world" where
  "messagesGetDialogFilters env =
     sendObject env writeTLMethodMessagesGetDialogFilters [(''_'', VInt MessagesGetDialogFiltersMethod)]"

definition messagesDeleteMessages :: "clenv \<Rightarrow> variant list \<Rightarrow> bool \<Rightarrow> cref \<Rightarrow> world \<Rightarrow> i64 \<times> world" where
  "messagesDeleteMessages env ids revoke =
     sendObject env writeTLMethodMessagesDeleteMessages
       ([(''_'', VInt MessagesDeleteMessagesMethod)] @ (if revoke then [(''revoke'', VBool True)] else []) @ [(''id'', VList ids)])"

definition messagesReadHistory :: "clenv \<Rightarrow> tgobject \<Rightarrow> i32 \<Rightarrow> cref \<Rightarrow> world \<Rightarrow> i64 \<times> world" where
  "messagesReadHistory env inputPeer maxId =
     sendObject env writeTLMethodMessagesReadHistory
       [(''_'', VInt MessagesReadHistoryMethod), (''peer'', VMap (toInputPeer inputPeer)), (''max_id'', VInt maxId)]"

definition channelsDeleteMessages :: "clenv \<Rightarrow> tgobject \<Rightarrow> variant list \<Rightarrow> cref \<Rightarrow> world \<Rightarrow> i64 \<times> world" where
  "channelsDeleteMessages env channel ids =
     sendObject env writeTLMethodChannelsDeleteMessages
       [(''_'', VInt ChannelsDeleteMessagesMethod), (''channel'', VMap (toInputChannel channel)), (''id'', VList ids)]"

definition channelsReadHistory :: "clenv \<Rightarrow> tgobject \<Rightarrow> i32 \<Rightarrow> cref \<Rightarrow> world \<Rightarrow> i64 \<times> world" where
  "channelsReadHistory env channel maxId =
     sendObject env writeTLMethodChannelsReadHistory
       [(''_'', VInt ChannelsReadHistoryMethod), (''channel'', VMap (toInputChannel channel)), (''max_id'', VInt maxId)]"

definition usersGetUsers :: "clenv \<Rightarrow> variant list \<Rightarrow> cref \<Rightarrow> world \<Rightarrow> i64 \<times> world" where
  "usersGetUsers env users =
     sendObject env writeTLMethodUsersGetUsers
       [(''_'', VInt UsersGetUsersMethod), (''id'', VList (if users = [] then [VMap [(''_'', VInt InputUserSelf)]] else users))]"

definition helpGetCountriesList :: "clenv \<Rightarrow> i32 \<Rightarrow> qstring \<Rightarrow> cref \<Rightarrow> world \<Rightarrow> i64 \<times> world" where
  "helpGetCountriesList env hash langCode =
     sendObject env writeTLMethodHelpGetCountriesList
       [(''_'', VInt HelpGetCountriesListMethod),
        (''lang_code'', VStr (if langCode = [] then takeWhile (\<lambda>c. c \<noteq> 95) (ce_locale env) else langCode)), (''hash'', VInt hash)]"

end
