(* ===== verification/ClientFiles.thy ===== *)
theory ClientFiles
  imports ClientRequests "HOL-Library.Signed_Division"
begin

section \<open>File transfers: libkg/tgc_files.cpp\<close>

text \<open>
  Uploads and downloads move a file in parts of 512 KiB, one request at a time; the answer to a part
  asks for the next one. Two things the code can do have no result, and are values of \<open>fault\<close>: a
  division by zero in the progress report, and reading on for ever past the end of a file that
  became shorter.
\<close>

definition FILE_PART_SIZE :: nat where "FILE_PART_SIZE = 524288"

datatype fault = FaultDivision | FaultHang

subsection \<open>The file behind a transfer\<close>

definition disk_bytes :: "qstring \<Rightarrow> world \<Rightarrow> bytes" where
  "disk_bytes name w = (case w_disk w name of None \<Rightarrow> [] | Some b \<Rightarrow> b)"

text \<open>\<open>QFile::read\<close> at a position of a file: what is there, up to the size asked for.\<close>

definition file_read :: "bytes \<Rightarrow> nat device_read" where
  "file_read content pos n = (Some (take n (drop pos content)), pos + length (take n (drop pos content)))"

text \<open>\<open>QFile::write\<close> at a position, over what is there; a gap is filled with zeros.\<close>

definition file_write :: "nat \<Rightarrow> bytes \<Rightarrow> bytes \<Rightarrow> bytes" where
  "file_write pos b content =
     take pos (content @ replicate (pos - length content) 0) @ b @ drop (pos + length b) content"

definition file_parts :: "i64 \<Rightarrow> i32" where
  "file_parts len = word_of_int (sint (len - 1) sdiv int FILE_PART_SIZE) + 1"

definition ctx_new :: "i64 \<Rightarrow> qstring \<Rightarrow> i64 \<Rightarrow> tgobject \<Rightarrow> file_ctx" where
  "ctx_new fileId name len loc =
     \<lparr>fc_fileId = fileId, fc_fileName = name, fc_open = False, fc_pos = 0, fc_length = len, fc_bytesLeft = len,
      fc_fileParts = file_parts len, fc_currentPart = 0, fc_isBig = 10485760 <s len, fc_queue = [], fc_download = loc\<rparr>"

definition draw_file_id :: "clenv \<Rightarrow> world \<Rightarrow> i64 \<times> world" where
  "draw_file_id env w = (let (r, k) = randomLong (te_qt (ce_tp env)) (ce_rng env) (w_draws w) in (r, w\<lparr>w_draws := k\<rparr>))"

definition upload_ctx :: "clenv \<Rightarrow> qstring \<Rightarrow> world \<Rightarrow> file_ctx \<times> world" where
  "upload_ctx env name w =
     (let (fileId, w1) = draw_file_id env w in (ctx_new fileId name (of_nat (length (disk_bytes name w1))) [], w1))"

definition download_ctx :: "clenv \<Rightarrow> tgobject \<Rightarrow> qstring \<Rightarrow> i64 \<Rightarrow> world \<Rightarrow> file_ctx \<times> world" where
  "download_ctx env loc name fileSize w = (let (fileId, w1) = draw_file_id env w in (ctx_new fileId name fileSize loc, w1))"

definition percent :: "i64 \<Rightarrow> i64 \<Rightarrow> fault + i32" where
  "percent processed len = (if len = 0 then Inl FaultDivision else Inr (word_of_int (sint (processed * 100) sdiv sint len)))"

definition hash_take :: "i64 \<Rightarrow> (i64 \<times> i64) list \<Rightarrow> i64 \<times> (i64 \<times> i64) list" where
  "hash_take k h = (case map_of h k of None \<Rightarrow> 0 | Some v \<Rightarrow> v, AList.delete k h)"

text \<open>The part after the last slash: \<open>QFileInfo::fileName\<close>.\<close>

definition qs_fileName :: "qstring \<Rightarrow> qstring" where
  "qs_fileName s = rev (takeWhile (\<lambda>c. c \<noteq> 47) (rev s))"

subsection \<open>Downloads\<close>

definition download_finished :: "i64 \<Rightarrow> file_ctx \<Rightarrow> cref \<Rightarrow> world \<Rightarrow> world" where
  "download_finished key ctx self w =
     (let c = client_at self w
      in w_emit (signal_client self w) (FileDownloaded (fc_fileId ctx) (fc_fileName ctx))
           (put_client self (c\<lparr>cl_downloads := AList.delete key (cl_downloads c)\<rparr>) w))"

definition getFile_request :: "file_ctx \<Rightarrow> tgobject" where
  "getFile_request ctx =
     [(''_'', VInt UploadGetFileMethod), (''location'', VMap (fc_download ctx)),
      (''offset'', VLong (scast (fc_currentPart ctx) * of_nat FILE_PART_SIZE)), (''limit'', VInt (of_nat FILE_PART_SIZE))]"

definition downloadNextFilePart :: "clenv \<Rightarrow> cref \<Rightarrow> world \<Rightarrow> i64 \<times> world" where
  "downloadNextFilePart env self w =
     (let c = client_at self w
      in if \<not> isAuthorized c then (0, w)
         else if cl_downloads c = [] then (0, put_client self (c\<lparr>cl_currentDownloading := 0\<rparr>) w)
         else
           let cur = (if cl_currentDownloading c = 0 then hd (te_hash_order (ce_tp env) (map fst (cl_downloads c)))
                      else cl_currentDownloading c);
               w1 = put_client self (c\<lparr>cl_currentDownloading := cur\<rparr>) w
           in case map_of (cl_downloads c) cur of
                None \<Rightarrow> (0, w1)
              | Some ctx \<Rightarrow>
                  if fc_queue ctx \<noteq> [] then (0, w1)
                  else if fc_length ctx \<noteq> 0 \<and> fc_bytesLeft ctx \<le>s 0
                  then (0, download_finished (fc_fileId ctx) ctx self w1)
                  else
                    let (mid, w2) = sendObject env writeTLMethodUploadGetFile (getFile_request ctx) self w1;
                        c2 = client_at self w2;
                        ctx' = ctx\<lparr>fc_currentPart := fc_currentPart ctx + 1, fc_queue := fc_queue ctx @ [mid]\<rparr>
                    in (mid, put_client self (c2\<lparr>cl_downloads := AList.update cur ctx' (cl_downloads c2),
                                                cl_filePackets := AList.update mid (fc_fileId ctx) (cl_filePackets c2)\<rparr>) w2))"

text \<open>The end every cancelled, migrated or finished download has: the next one is taken up.\<close>

definition next_download :: "clenv \<Rightarrow> cref \<Rightarrow> world \<Rightarrow> world" where
  "next_download env self w =
     (let c = client_at self w in snd (downloadNextFilePart env self (put_client self (c\<lparr>cl_currentDownloading := 0\<rparr>) w)))"

definition fileProbablyDownloaded :: "clenv \<Rightarrow> i64 \<Rightarrow> cref \<Rightarrow> world \<Rightarrow> world" where
  "fileProbablyDownloaded env mid self w =
     (let c = client_at self w; (fileId, packets) = hash_take mid (cl_filePackets c);
          w1 = put_client self (c\<lparr>cl_filePackets := packets\<rparr>) w
      in case map_of (cl_downloads c) fileId of
           None \<Rightarrow> w1
         | Some ctx \<Rightarrow> next_download env self (download_finished fileId ctx self w1))"

definition cancelDownload :: "clenv \<Rightarrow> i64 \<Rightarrow> cref \<Rightarrow> world \<Rightarrow> world" where
  "cancelDownload env fileId self w =
     (let c = client_at self w
      in case map_of (cl_downloads c) fileId of
           None \<Rightarrow> w
         | Some ctx \<Rightarrow>
             let w1 = put_client self (c\<lparr>cl_downloads := AList.delete fileId (cl_downloads c)\<rparr>) w;
                 w2 = w1\<lparr>w_disk := (w_disk w1)(fc_fileName ctx := None)\<rparr>
             in next_download env self
                  (w_emit (signal_client self w) (FileDownloadCanceled fileId (fc_fileName ctx)) w2))"

definition ctx_write :: "bytes \<Rightarrow> file_ctx \<Rightarrow> world \<Rightarrow> file_ctx \<times> world" where
  "ctx_write b ctx w =
     (if fc_open ctx
      then (ctx\<lparr>fc_pos := fc_pos ctx + length b\<rparr>,
            w\<lparr>w_disk := (w_disk w)(fc_fileName ctx := Some (file_write (fc_pos ctx) b (disk_bytes (fc_fileName ctx) w)))\<rparr>)
      else (ctx, w))"

definition handleDownloadingFile :: "clenv \<Rightarrow> tgobject \<Rightarrow> i64 \<Rightarrow> cref \<Rightarrow> world \<Rightarrow> fault + world" where
  "handleDownloadingFile env response mid self w =
     (let c = client_at self w; (fileId, packets) = hash_take mid (cl_filePackets c);
          w1 = put_client self (c\<lparr>cl_filePackets := packets\<rparr>) w
      in case map_of (cl_downloads c) fileId of
           None \<Rightarrow> Inr (snd (downloadNextFilePart env self w1))
         | Some ctx \<Rightarrow>
             let b = qv_toBytes (te_qt (ce_tp env)) (obj_get response ''bytes'');
                 (ctx1, w2) = ctx_write b ctx w1;
                 ctx2 = ctx1\<lparr>fc_bytesLeft := fc_bytesLeft ctx1 - of_nat (length b), fc_queue := remove1 mid (fc_queue ctx1)\<rparr>;
                 c2 = client_at self w2;
                 w3 = put_client self (c2\<lparr>cl_downloads := AList.update fileId ctx2 (cl_downloads c2)\<rparr>) w2
             in if length b \<noteq> FILE_PART_SIZE
                then Inr (next_download env self (download_finished fileId ctx2 self w3))
                else
                  let processed = fc_length ctx2 - fc_bytesLeft ctx2
                  in case percent processed (fc_length ctx2) of
                       Inl e \<Rightarrow> Inl e
                     | Inr pc \<Rightarrow> Inr (snd (downloadNextFilePart env self
                         (w_emit (signal_client self w3) (FileDownloading (fc_fileId ctx2) processed (fc_length ctx2) pc) w3))))"

subsection \<open>What is downloaded\<close>

text \<open>
  \<open>downloadFile\<close> first works out, by calling itself on what it finds in the object, the location
  to ask for, the size and the data centre; a location is left as it is.
\<close>

definition better_size :: "tgobject \<Rightarrow> tgobject \<Rightarrow> tgobject" where
  "better_size obj thumbSize =
     (if objID thumbSize \<noteq> 0 \<and> qv_toString (obj_get obj ''type'') \<in> set (map qs [''a'', ''b'', ''c'', ''d'', ''w''])
      then thumbSize
      else if qv_toInt (obj_get thumbSize ''w'') <s qv_toInt (obj_get obj ''w'') \<or>
              qv_toInt (obj_get thumbSize ''h'') <s qv_toInt (obj_get obj ''h'')
      then obj else thumbSize)"

definition photo_size :: "variant list \<Rightarrow> tgobject" where
  "photo_size sizes = fold (\<lambda>v thumbSize. better_size (qv_toMap v) thumbSize) sizes []"

definition photo_location :: "tgobject \<Rightarrow> tgobject" where
  "photo_location photo =
     [(''_'', VInt InputPhotoFileLocation), (''id'', obj_get photo ''id''), (''access_hash'', obj_get photo ''access_hash''),
      (''file_reference'', obj_get photo ''file_reference''),
      (''thumb_size'', obj_get (photo_size (qv_toList (obj_get photo ''sizes''))) ''type'')]"

definition document_location :: "tgobject \<Rightarrow> tgobject" where
  "document_location document =
     [(''_'', VInt InputDocumentFileLocation), (''id'', obj_get document ''id''), (''access_hash'', obj_get document ''access_hash''),
      (''file_reference'', obj_get document ''file_reference''), (''thumb_size'', VStr [])]"

definition peer_photo_location :: "tgobject \<Rightarrow> tgobject" where
  "peer_photo_location peer =
     [(''_'', VInt InputPeerPhotoFileLocation), (''peer'', VMap (toInputPeer peer)),
      (''photo_id'', obj_get (qv_toMap (obj_get peer ''photo'')) ''photo_id'')]"

lemma size_qv_toMap: "size_list (size_prod (\<lambda>_. 0) size) (qv_toMap v) \<le> size v"
  by (cases v) simp_all

lemma size_obj_get:
  "m \<noteq> [] \<Longrightarrow> size (obj_get m k) < size_list (size_prod (\<lambda>_. 0) size) m"
proof (induction m)
  case (Cons p m)
  then show ?case by (cases "m = []"; cases p) (auto simp: obj_get_def)
qed simp

lemma inner_object_smaller:
  assumes "objID m \<noteq> 0"
  shows "size_list (size_prod (\<lambda>_. 0) size) (qv_toMap (obj_get m k)) < size_list (size_prod (\<lambda>_. 0) size) m"
proof -
  have "m \<noteq> []" using assms by (auto simp: objID_def)
  then show ?thesis using size_obj_get [of m k] size_qv_toMap [of "obj_get m k"] by linarith
qed

function file_location :: "tgobject \<Rightarrow> i64 \<Rightarrow> i32 \<Rightarrow> tgobject \<times> i64 \<times> i32" where
  "file_location inputFile fileSize dcId =
     (let photo = qv_toMap (obj_get inputFile ''photo'')
      in if (isUser inputFile \<or> isChat inputFile) \<and> objID photo \<noteq> 0
         then (peer_photo_location inputFile, fileSize, qv_toInt (obj_get photo ''dc_id''))
         else if objID inputFile = MessageMediaPhoto then file_location photo fileSize dcId
         else if objID inputFile = MessageMediaDocument
         then file_location (qv_toMap (obj_get inputFile ''document'')) fileSize dcId
         else if objID inputFile = Photo
         then (photo_location inputFile,
               qv_toLongLong (obj_get (photo_size (qv_toList (obj_get inputFile ''sizes''))) ''size''),
               qv_toInt (obj_get inputFile ''dc_id''))
         else if objID inputFile = Document
         then (document_location inputFile, qv_toLongLong (obj_get inputFile ''size''), qv_toInt (obj_get inputFile ''dc_id''))
         else (inputFile, fileSize, dcId))"
  by pat_completeness auto

termination
  by (relation "measure (\<lambda>(m, _). size_list (size_prod (\<lambda>_. 0) size) m)")
    (simp_all add: inner_object_smaller file_ids)

declare file_location.simps [simp del]

subsection \<open>Clients for other data centres\<close>

definition cl_migrateTo :: "clenv \<Rightarrow> tgobject \<Rightarrow> i32 \<Rightarrow> client \<Rightarrow> client" where
  "cl_migrateTo env config dcId c =
     (let t1 = setDc (ce_tp env) [] 443 0 (cl_transport c); t2 = tp_setConfig config t1
      in c\<lparr>cl_transport := migrateTo (ce_tp env) dcId t2\<rparr>)"

text \<open>The client for a data centre, made when there is none; a child asks its parent.\<close>

definition own_client_for_dc :: "clenv \<Rightarrow> i32 \<Rightarrow> cref \<Rightarrow> world \<Rightarrow> cref \<times> world" where
  "own_client_for_dc env dcId self w =
     (let c = client_at self w
      in if dcId = 0 \<or> tp_currentDc (cl_transport c) = dcId then (self, w)
         else case map_of (cl_forDc c) dcId of
                Some r \<Rightarrow> (r, w)
              | None \<Rightarrow>
                  let t = cl_transport c; k = length (w_children w);
                      child = client_new env dcId (cl_sessionName c) (cl_testDc c) (tp_settings t) (tp_clock t);
                      w1 = put_client self (c\<lparr>cl_forDc := AList.update dcId (Some k) (cl_forDc c)\<rparr>) w
                  in (Some k, w1\<lparr>w_children := w_children w1 @ [cl_migrateTo env (tp_config t) dcId child]\<rparr>))"

definition getClientForDc :: "clenv \<Rightarrow> i32 \<Rightarrow> cref \<Rightarrow> world \<Rightarrow> cref option \<times> world" where
  "getClientForDc env dcId self w =
     (if cl_main (client_at self w) then apfst Some (own_client_for_dc env dcId self w)
      else if self = None \<or> \<not> cl_main (w_root w) then (None, w)
      else apfst Some (own_client_for_dc env dcId None w))"

definition downloadFile :: "clenv \<Rightarrow> qstring \<Rightarrow> tgobject \<Rightarrow> i64 \<Rightarrow> i32 \<Rightarrow> i64 \<Rightarrow> cref \<Rightarrow> world \<Rightarrow> i64 \<times> world" where
  "downloadFile env filePath inputFile fileSize dcId fileId self w =
     (let (loc, size, dc) = file_location inputFile fileSize dcId
      in if qv_toLongLong (obj_get loc ''id'') = 0 \<and> qv_toLongLong (obj_get loc ''photo_id'') = 0 then (0, w)
         else
           let (ctx, w1) = download_ctx env loc filePath size w
           in if \<not> ce_writable env filePath then (0, w1)
              else
                let w2 = w1\<lparr>w_disk := (w_disk w1)(filePath := Some [])\<rparr>;
                    ctx1 = (if fileId \<noteq> 0 then ctx\<lparr>fc_open := True, fc_fileId := fileId\<rparr> else ctx\<lparr>fc_open := True\<rparr>)
                in case getClientForDc env dc self w2 of
                     (None, w3) \<Rightarrow> (0, w3)
                   | (Some r, w3) \<Rightarrow>
                       let c = client_at r w3;
                           w4 = put_client r (c\<lparr>cl_downloads := AList.update (fc_fileId ctx1) ctx1 (cl_downloads c)\<rparr>) w3
                       in (fc_fileId ctx1, snd (downloadNextFilePart env r w4)))"

definition migrateFileTo :: "clenv \<Rightarrow> i64 \<Rightarrow> i32 \<Rightarrow> cref \<Rightarrow> world \<Rightarrow> i64 \<times> world" where
  "migrateFileTo env mid dcId self w =
     (let c = client_at self w; (fileId, packets) = hash_take mid (cl_filePackets c);
          w1 = put_client self (c\<lparr>cl_filePackets := packets\<rparr>) w
      in case map_of (cl_downloads c) fileId of
           None \<Rightarrow> (0, w1)
         | Some ctx \<Rightarrow>
             let c1 = client_at self w1;
                 w2 = put_client self (c1\<lparr>cl_downloads := AList.delete fileId (cl_downloads c1)\<rparr>) w1;
                 (r, w3) = downloadFile env (fc_fileName ctx) (fc_download ctx) (fc_length ctx) dcId (fc_fileId ctx)
                             (signal_client self w2) w2
             in (r, next_download env self w3))"

subsection \<open>Uploads\<close>

definition uploaded_object :: "file_ctx \<Rightarrow> tgobject" where
  "uploaded_object ctx =
     [(''_'', VInt (if fc_isBig ctx then InputFileBig else InputFile)), (''id'', VLong (fc_fileId ctx)),
      (''parts'', VInt (fc_fileParts ctx)), (''name'', VStr (qs_fileName (fc_fileName ctx)))]"

definition saveFile_request :: "file_ctx \<Rightarrow> bytes \<Rightarrow> tgobject" where
  "saveFile_request ctx b =
     [(''_'', VInt (if fc_isBig ctx then UploadSaveBigFilePartMethod else UploadSaveFilePartMethod)),
      (''file_id'', VLong (fc_fileId ctx)), (''file_total_parts'', VInt (fc_fileParts ctx)),
      (''file_part'', VInt (fc_currentPart ctx)), (''bytes'', VBytes b)]"

definition part_size :: "file_ctx \<Rightarrow> i32" where
  "part_size ctx = ucast (if fc_bytesLeft ctx <s of_nat FILE_PART_SIZE then fc_bytesLeft ctx else of_nat FILE_PART_SIZE)"

definition part_progress :: "file_ctx \<Rightarrow> i64" where
  "part_progress ctx =
     (let sent = scast (fc_currentPart ctx) * of_nat FILE_PART_SIZE in if fc_length ctx <s sent then fc_length ctx else sent)"

definition uploadNextFilePart :: "clenv \<Rightarrow> i64 \<Rightarrow> cref \<Rightarrow> world \<Rightarrow> fault + i64 \<times> world" where
  "uploadNextFilePart env fileId self w =
     (let c = client_at self w
      in if \<not> isAuthorized c then Inr (0, w)
         else case map_of (cl_uploads c) fileId of
           None \<Rightarrow> Inr (0, w)
         | Some ctx \<Rightarrow>
             if fc_length ctx \<noteq> 0 \<and> fc_bytesLeft ctx \<le>s 0
             then Inr (0, w_emit self (FileUploaded (fc_fileId ctx) (uploaded_object ctx))
                    (put_client self (c\<lparr>cl_uploads := AList.delete (fc_fileId ctx) (cl_uploads c)\<rparr>) w))
             else case readFully (file_read (disk_bytes (fc_fileName ctx) w)) id (part_size ctx) (fc_pos ctx) of
                    None \<Rightarrow> Inl FaultHang
                  | Some (b, pos) \<Rightarrow>
                      let (mid, w1) = sendObject env
                            (if fc_isBig ctx then writeTLMethodUploadSaveBigFilePart else writeTLMethodUploadSaveFilePart)
                            (saveFile_request ctx b) self w;
                          ctx' = ctx\<lparr>fc_bytesLeft := fc_bytesLeft ctx - of_nat (length b), fc_pos := pos,
                                     fc_currentPart := fc_currentPart ctx + 1, fc_queue := fc_queue ctx @ [mid]\<rparr>;
                          c1 = client_at self w1;
                          w2 = put_client self (c1\<lparr>cl_uploads := AList.update fileId ctx' (cl_uploads c1),
                                                  cl_filePackets := AList.update mid (fc_fileId ctx) (cl_filePackets c1)\<rparr>) w1
                      in case percent (part_progress ctx) (fc_length ctx) of
                           Inl e \<Rightarrow> Inl e
                         | Inr pc \<Rightarrow> Inr (mid, w_emit self
                             (FileUploading (fc_fileId ctx) (part_progress ctx) (fc_length ctx) pc) w2))"

definition uploadFile :: "clenv \<Rightarrow> qstring \<Rightarrow> cref \<Rightarrow> world \<Rightarrow> fault + i64 \<times> world" where
  "uploadFile env filePath self w =
     (let (ctx, w1) = upload_ctx env filePath w
      in if fc_length ctx = 0 then Inr (0, w1)
         else if \<not> ce_readable env filePath then Inr (0, w1)
         else
           let c = client_at self w1; ctx1 = ctx\<lparr>fc_open := True\<rparr>
           in case uploadNextFilePart env (fc_fileId ctx1) self
                (put_client self (c\<lparr>cl_uploads := AList.update (fc_fileId ctx1) ctx1 (cl_uploads c)\<rparr>) w1) of
                Inl e \<Rightarrow> Inl e
              | Inr (_, w2) \<Rightarrow> Inr (fc_fileId ctx1, w2))"

definition cancelUpload :: "clenv \<Rightarrow> i64 \<Rightarrow> cref \<Rightarrow> world \<Rightarrow> world" where
  "cancelUpload env fileId self w =
     (let c = client_at self w
      in case map_of (cl_uploads c) fileId of
           None \<Rightarrow> w
         | Some ctx \<Rightarrow> w_emit self (FileUploadCanceled fileId)
             (put_client self (c\<lparr>cl_uploads := AList.delete fileId (cl_uploads c)\<rparr>) w))"

definition handleUploadingFile :: "clenv \<Rightarrow> bool \<Rightarrow> i64 \<Rightarrow> cref \<Rightarrow> world \<Rightarrow> fault + world" where
  "handleUploadingFile env response mid self w =
     (let c = client_at self w; (fileId, packets) = hash_take mid (cl_filePackets c);
          w1 = put_client self (c\<lparr>cl_filePackets := packets\<rparr>) w
      in if \<not> response then Inr (cancelUpload env fileId self w1)
         else case uploadNextFilePart env fileId self w1 of Inl e \<Rightarrow> Inl e | Inr (_, w2) \<Rightarrow> Inr w2)"

end
