(* ===== verification/ClientPassword.thy ===== *)
theory ClientPassword
  imports ClientRequests
begin

section \<open>The password check: libkg/tgc_password.cpp, tgsrpworker.cpp\<close>

text \<open>
  The flow asks for the account's parameters, lets a thread derive the proof, sends it, and asks once more
  when the parameters were stale. The thread computes \<open>worker_result\<close> from what it was constructed
  with; the flag the client may set at any time is what its progress callback and its last
  test see. Its signals are delivered to the handlers by the event loop.
\<close>

definition PasswordKdfAlgoSHA256SHA256PBKDF2HMACSHA512iter100000SHA256ModPow :: i32 where
  "PasswordKdfAlgoSHA256SHA256PBKDF2HMACSHA512iter100000SHA256ModPow = 982592842"

subsection \<open>The worker\<close>

definition worker_new :: "srp_params \<Rightarrow> bytes \<Rightarrow> srp_worker" where
  "worker_new params passwordUtf8 = \<lparr>wk_params = params, wk_password = passwordUtf8, wk_cancel = False\<rparr>"

definition worker_cancel :: "srp_worker \<Rightarrow> srp_worker" where
  "worker_cancel wk = wk\<lparr>wk_cancel := True\<rparr>"

text \<open>A step of the derivation: whether to go on, and what is reported.\<close>

definition worker_step :: "srp_worker \<Rightarrow> i32 \<Rightarrow> i32 \<Rightarrow> bool \<times> i32 option" where
  "worker_step wk stepsDone totalSteps =
     (if wk_cancel wk then (False, None)
      else (True, if 0 <s totalSteps then Some (word_of_int (sint (stepsDone * 100) sdiv sint totalSteps)) else None))"

datatype worker_signal = SrpProved i64 bytes bytes | SrpFailed string

text \<open>
  \<open>run()\<close>: \<open>running\<close> tells how the flag is found at each step, \<open>wk\<close> how it is found at the end.
\<close>

definition worker_result :: "qtenv \<Rightarrow> (nat \<Rightarrow> bool) \<Rightarrow> rng \<Rightarrow> nat \<Rightarrow> (int \<Rightarrow> srp_worker) \<Rightarrow> srp_worker \<Rightarrow> worker_signal option" where
  "worker_result env is_prime rng n running wk =
     (let (problem, proof, n1) = srpCompute env is_prime rng n (wk_params wk) (wk_password wk)
            \<lparr>pf_srpId = 0, pf_a = [], pf_m1 = []\<rparr>
            (Some (\<lambda>stepsDone totalSteps. fst (worker_step (running stepsDone) (word_of_int stepsDone) (word_of_int totalSteps))))
      in if wk_cancel wk then None
         else if problem \<noteq> [] then Some (SrpFailed problem)
         else if pf_m1 proof = [] then Some (SrpFailed ''The password check was cancelled.'')
         else Some (SrpProved (pf_srpId proof) (pf_a proof) (pf_m1 proof)))"

subsection \<open>The flow\<close>

definition authCheckPasswordSRP :: "clenv \<Rightarrow> qstring \<Rightarrow> cref \<Rightarrow> world \<Rightarrow> world" where
  "authCheckPasswordSRP env password self w =
     (let c = client_at self w
      in if cl_srpWorker c \<noteq> None then w
         else
           let w1 = put_client self (c\<lparr>cl_pendingPassword := to_utf8 (te_qt (ce_tp env)) password, cl_srpRetried := False\<rparr>) w;
               (mid, w2) = accountGetPassword env self w1
           in put_client self ((client_at self w2)\<lparr>cl_passwordRequestId := mid\<rparr>) w2)"

definition cancelPasswordCheck :: "cref \<Rightarrow> world \<Rightarrow> world" where
  "cancelPasswordCheck self w =
     put_client self ((client_at self w)\<lparr>cl_passwordRequestId := 0, cl_checkPasswordRequestId := 0, cl_srpRetried := False,
       cl_pendingPassword := [], cl_srpWorker := None\<rparr>) w"

definition password_params :: "qtenv \<Rightarrow> tgobject \<Rightarrow> srp_params" where
  "password_params q password =
     (let algo = qv_toMap (obj_get password ''current_algo'')
      in \<lparr>sp_p = qv_toBytes q (obj_get algo ''p''), sp_g = qv_toInt (obj_get algo ''g''),
          sp_salt1 = qv_toBytes q (obj_get algo ''salt1''), sp_salt2 = qv_toBytes q (obj_get algo ''salt2''),
          sp_srpB = qv_toBytes q (obj_get password ''srp_B''), sp_srpId = qv_toLongLong (obj_get password ''srp_id'')\<rparr>)"

definition handleAccountPassword :: "clenv \<Rightarrow> tgobject \<Rightarrow> i64 \<Rightarrow> cref \<Rightarrow> world \<Rightarrow> world" where
  "handleAccountPassword env password mid self w =
     (let c = client_at self w
      in if cl_passwordRequestId c = 0 \<or> mid \<noteq> cl_passwordRequestId c then w
         else
           let c1 = c\<lparr>cl_passwordRequestId := 0\<rparr>; w1 = put_client self c1 w
           in if cl_pendingPassword c1 = [] then w1
              else if \<not> qv_toBool (obj_get password ''has_password'')
              then cancelPasswordCheck self (w_emit self (PasswordCheckFailed ''This account has no cloud password.'') w1)
              else if objID (qv_toMap (obj_get password ''current_algo'')) \<noteq>
                PasswordKdfAlgoSHA256SHA256PBKDF2HMACSHA512iter100000SHA256ModPow
              then cancelPasswordCheck self
                (w_emit self (PasswordCheckFailed ''This account uses a password scheme this client does not support.'') w1)
              else put_client self (c1\<lparr>cl_srpWorker :=
                Some (worker_new (password_params (te_qt (ce_tp env)) password) (cl_pendingPassword c1))\<rparr>) w1)"

definition handleSrpProgress :: "i32 \<Rightarrow> cref \<Rightarrow> world \<Rightarrow> world" where
  "handleSrpProgress pc self = w_emit self (PasswordCheckProgress pc)"

definition handleSrpProved :: "clenv \<Rightarrow> i64 \<Rightarrow> bytes \<Rightarrow> bytes \<Rightarrow> cref \<Rightarrow> world \<Rightarrow> world" where
  "handleSrpProved env srpId a m1 self w =
     (let w1 = put_client self ((client_at self w)\<lparr>cl_srpWorker := None\<rparr>) w;
          (mid, w2) = authCheckPassword env srpId a m1 self w1; c = client_at self w2
      in put_client self (c\<lparr>cl_checkPasswordRequestId := mid, cl_transport := doNotReplay mid (cl_transport c)\<rparr>) w2)"

definition handleSrpFailed :: "string \<Rightarrow> cref \<Rightarrow> world \<Rightarrow> world" where
  "handleSrpFailed reason self w =
     cancelPasswordCheck self (w_emit self (PasswordCheckFailed reason)
       (put_client self ((client_at self w)\<lparr>cl_srpWorker := None\<rparr>) w))"

definition worker_report :: "clenv \<Rightarrow> worker_signal \<Rightarrow> cref \<Rightarrow> world \<Rightarrow> world" where
  "worker_report env r self w =
     (case r of SrpProved srpId a m1 \<Rightarrow> handleSrpProved env srpId a m1 self w | SrpFailed reason \<Rightarrow> handleSrpFailed reason self w)"

definition handlePasswordRpcError :: "clenv \<Rightarrow> qstring \<Rightarrow> i64 \<Rightarrow> cref \<Rightarrow> world \<Rightarrow> bool \<times> world" where
  "handlePasswordRpcError env errorMessage mid self w =
     (let c = client_at self w
      in if cl_checkPasswordRequestId c = 0 \<or> mid \<noteq> cl_checkPasswordRequestId c then (False, w)
         else
           let c1 = c\<lparr>cl_checkPasswordRequestId := 0\<rparr>
           in if errorMessage = qs ''SRP_ID_INVALID'' \<and> \<not> cl_srpRetried c1 \<and> cl_pendingPassword c1 \<noteq> []
              then let (request, w2) = accountGetPassword env self (put_client self (c1\<lparr>cl_srpRetried := True\<rparr>) w)
                   in (True, put_client self ((client_at self w2)\<lparr>cl_passwordRequestId := request\<rparr>) w2)
              else (False, cancelPasswordCheck self (put_client self c1 w)))"

subsection \<open>One attempt, and what a stale one leads to\<close>

definition can_prove :: "clenv \<Rightarrow> tgobject \<Rightarrow> bool" where
  "can_prove env password \<longleftrightarrow> qv_toBool (obj_get password ''has_password'') \<and>
     objID (qv_toMap (obj_get password ''current_algo'')) = PasswordKdfAlgoSHA256SHA256PBKDF2HMACSHA512iter100000SHA256ModPow"

lemma answer_starts_worker:
  assumes "cl_passwordRequestId (client_at self w) \<noteq> 0" and "cl_pendingPassword (client_at self w) \<noteq> []" and "can_prove env password"
  shows "handleAccountPassword env password (cl_passwordRequestId (client_at self w)) self w =
    put_client self ((client_at self w)\<lparr>cl_passwordRequestId := 0, cl_srpWorker :=
      Some (worker_new (password_params (te_qt (ce_tp env)) password) (cl_pendingPassword (client_at self w)))\<rparr>) w"
  using assms by (simp add: handleAccountPassword_def can_prove_def Let_def)

lemma other_answer_ignored:
  "mid \<noteq> cl_passwordRequestId (client_at self w) \<Longrightarrow> handleAccountPassword env password mid self w = w"
  by (simp add: handleAccountPassword_def Let_def)

lemma sendObject_cases:
  obtains t mid where "sendObject env W i self w =
     (mid, w_emit self (Sent i mid) (put_client self ((client_at self w)\<lparr>cl_transport := t\<rparr>) w))"
  by (cases "sendMTObject (ce_tp env) W (VMap i) (cl_transport (client_at self w))") (simp add: sendObject_def Let_def)

lemma proof_sent:
  "\<exists>mid t. handleSrpProved env srpId a m1 self w =
     w_emit self (Sent (checkPassword_request srpId a m1) mid) (put_client self ((client_at self w)\<lparr>cl_srpWorker := None,
       cl_checkPasswordRequestId := mid, cl_transport := doNotReplay mid t\<rparr>) w)"
proof -
  let ?w1 = "put_client self ((client_at self w)\<lparr>cl_srpWorker := None\<rparr>) w"
  obtain t mid where s: "sendObject env writeTLMethodAuthCheckPassword (checkPassword_request srpId a m1) self ?w1 =
     (mid, w_emit self (Sent (checkPassword_request srpId a m1) mid) (put_client self ((client_at self ?w1)\<lparr>cl_transport := t\<rparr>) ?w1))"
    by (rule sendObject_cases)
  show ?thesis
    by (intro exI [of _ mid] exI [of _ t])
      (simp add: handleSrpProved_def authCheckPassword_def Let_def s, simp add: w_emit_def put_client_def split: option.splits)
qed

lemma parameters_asked:
  "\<exists>mid t. accountGetPassword env self w =
     (mid, w_emit self (Sent [(''_'', VInt AccountGetPasswordMethod)] mid) (put_client self ((client_at self w)\<lparr>cl_transport := t\<rparr>) w))"
proof -
  obtain t mid where "sendObject env writeTLMethodAccountGetPassword [(''_'', VInt AccountGetPasswordMethod)] self w =
     (mid, w_emit self (Sent [(''_'', VInt AccountGetPasswordMethod)] mid) (put_client self ((client_at self w)\<lparr>cl_transport := t\<rparr>) w))"
    by (rule sendObject_cases)
  then show ?thesis by (auto simp: accountGetPassword_def)
qed

text \<open>An answer with parameters, and the proof made of them.\<close>

definition pw_attempt :: "clenv \<Rightarrow> tgobject \<Rightarrow> i64 \<times> bytes \<times> bytes \<Rightarrow> cref \<Rightarrow> world \<Rightarrow> world" where
  "pw_attempt env password proof self w =
     (case proof of (srpId, a, m1) \<Rightarrow> handleSrpProved env srpId a m1 self
        (handleAccountPassword env password (cl_passwordRequestId (client_at self w)) self w))"

definition pw_stale :: "clenv \<Rightarrow> cref \<Rightarrow> world \<Rightarrow> bool \<times> world" where
  "pw_stale env self w = handlePasswordRpcError env (qs ''SRP_ID_INVALID'') (cl_checkPasswordRequestId (client_at self w)) self w"

text \<open>The flow waits for parameters; \<open>retried\<close> says whether for the second time.\<close>

definition awaiting_parameters :: "bytes \<Rightarrow> bool \<Rightarrow> cref \<Rightarrow> world \<Rightarrow> bool" where
  "awaiting_parameters password retried self w \<longleftrightarrow>
     cl_pendingPassword (client_at self w) = password \<and> cl_srpRetried (client_at self w) = retried"

lemma submit_awaits:
  assumes "cl_srpWorker (client_at self w) = None"
  shows "awaiting_parameters (to_utf8 (te_qt (ce_tp env)) password) False self (authCheckPasswordSRP env password self w)"
    "\<exists>mid. w_log (authCheckPasswordSRP env password self w) = w_log w @ [(self, Sent [(''_'', VInt AccountGetPasswordMethod)] mid)]"
proof -
  let ?w1 = "put_client self ((client_at self w)\<lparr>cl_pendingPassword := to_utf8 (te_qt (ce_tp env)) password, cl_srpRetried := False\<rparr>) w"
  obtain mid t where s: "accountGetPassword env self ?w1 =
     (mid, w_emit self (Sent [(''_'', VInt AccountGetPasswordMethod)] mid) (put_client self ((client_at self ?w1)\<lparr>cl_transport := t\<rparr>) ?w1))"
    using parameters_asked by blast
  show "awaiting_parameters (to_utf8 (te_qt (ce_tp env)) password) False self (authCheckPasswordSRP env password self w)"
    "\<exists>mid. w_log (authCheckPasswordSRP env password self w) = w_log w @ [(self, Sent [(''_'', VInt AccountGetPasswordMethod)] mid)]"
    using assms by (simp_all add: authCheckPasswordSRP_def Let_def s awaiting_parameters_def)
qed

lemma attempt_effect:
  assumes "awaiting_parameters pw r self w" and "pw \<noteq> []" and "cl_passwordRequestId (client_at self w) \<noteq> 0" and "can_prove env password"
  shows "awaiting_parameters pw r self (pw_attempt env password (srpId, a, m1) self w) \<and>
    (\<exists>mid. w_log (pw_attempt env password (srpId, a, m1) self w) = w_log w @ [(self, Sent (checkPassword_request srpId a m1) mid)] \<and>
      cl_checkPasswordRequestId (client_at self (pw_attempt env password (srpId, a, m1) self w)) = mid \<and>
      (mid \<noteq> 0 \<longrightarrow> mid \<in> set (tp_noFloodReplay (cl_transport (client_at self (pw_attempt env password (srpId, a, m1) self w))))))"
proof -
  have p: "cl_pendingPassword (client_at self w) \<noteq> []" using assms(1,2) by (simp add: awaiting_parameters_def)
  show ?thesis
    using assms(1) proof_sent [of env srpId a m1 self "handleAccountPassword env password (cl_passwordRequestId (client_at self w)) self w"]
    by (auto simp: pw_attempt_def answer_starts_worker [OF assms(3) p assms(4)] awaiting_parameters_def doNotReplay_def)
qed

lemma stale_retry:
  assumes "awaiting_parameters pw False self w" and "pw \<noteq> []" and "cl_checkPasswordRequestId (client_at self w) \<noteq> 0"
  shows "fst (pw_stale env self w) \<and> awaiting_parameters pw True self (snd (pw_stale env self w)) \<and>
    (\<exists>mid. w_log (snd (pw_stale env self w)) = w_log w @ [(self, Sent [(''_'', VInt AccountGetPasswordMethod)] mid)])"
proof -
  let ?w1 = "put_client self ((client_at self w)\<lparr>cl_checkPasswordRequestId := 0, cl_srpRetried := True\<rparr>) w"
  obtain mid t where s: "accountGetPassword env self ?w1 =
     (mid, w_emit self (Sent [(''_'', VInt AccountGetPasswordMethod)] mid) (put_client self ((client_at self ?w1)\<lparr>cl_transport := t\<rparr>) ?w1))"
    using parameters_asked by blast
  show ?thesis
    using assms by (simp add: pw_stale_def handlePasswordRpcError_def Let_def s awaiting_parameters_def)
qed

lemma stale_again:
  assumes "awaiting_parameters pw True self w" and "cl_checkPasswordRequestId (client_at self w) \<noteq> 0"
  shows "\<not> fst (pw_stale env self w) \<and> cl_pendingPassword (client_at self (snd (pw_stale env self w))) = [] \<and>
    w_log (snd (pw_stale env self w)) = w_log w \<and> cl_passwordRequestId (client_at self (snd (pw_stale env self w))) = 0"
  using assms by (simp add: pw_stale_def handlePasswordRpcError_def Let_def awaiting_parameters_def cancelPasswordCheck_def)

end
