(* ===== verification/Client.thy ===== *)
theory Client
  imports ClientFiles ClientPassword
begin

section \<open>The client's event handlers: libkg/tgclient.cpp\<close>

text \<open>
  What the client does when its transport reports something: it keeps the state of the
  connection, renames what is keyed by a message id, and offers every answer to the parts that may have asked for
  it. Decoding an answer and choosing the signal for it (\<open>handleObject\<close>) is in \<open>ClientDispatch\<close>, but for the case that
  changes the client: an exported authorization.
\<close>

subsection \<open>Queries\<close>

definition cl_getObjectId :: "tgobject \<Rightarrow> i32" where
  "cl_getObjectId var = qv_toInt (obj_get var ''_'')"

definition cl_dcId :: "client \<Rightarrow> i32" where
  "cl_dcId c = tp_currentDc (cl_transport c)"

definition cl_hasSession :: "client \<Rightarrow> bool" where
  "cl_hasSession c = hasSession (cl_transport c)"

definition cl_hasUserId :: "client \<Rightarrow> bool" where
  "cl_hasUserId c = hasUserId (cl_transport c)"

definition cl_getUserId :: "client \<Rightarrow> i64" where
  "cl_getUserId c = tp_userId (cl_transport c)"

subsection \<open>Connection\<close>

definition cl_start :: "clenv \<Rightarrow> cref \<Rightarrow> world \<Rightarrow> world" where
  "cl_start env self w = (let c = client_at self w in put_client self (c\<lparr>cl_transport := tp_start (ce_tp env) (cl_transport c)\<rparr>) w)"

definition cl_stop :: "clenv \<Rightarrow> cref \<Rightarrow> world \<Rightarrow> world" where
  "cl_stop env self w = (let c = client_at self w in put_client self (c\<lparr>cl_transport := tp_stop (ce_tp env) True (cl_transport c)\<rparr>) w)"

definition cl_retryNow :: "clenv \<Rightarrow> cref \<Rightarrow> world \<Rightarrow> world" where
  "cl_retryNow env self w = (let c = client_at self w in put_client self (c\<lparr>cl_transport := retryNow (ce_tp env) (cl_transport c)\<rparr>) w)"

definition cl_resetSession :: "clenv \<Rightarrow> cref \<Rightarrow> world \<Rightarrow> world" where
  "cl_resetSession env self w = (let c = client_at self w in put_client self (c\<lparr>cl_transport := resetSession (ce_tp env) (cl_transport c)\<rparr>) w)"

definition cl_handleSocketError :: "i32 \<Rightarrow> cref \<Rightarrow> world \<Rightarrow> world" where
  "cl_handleSocketError errorCode self = w_emit self (SocketError errorCode)"

definition cl_handleReconnecting :: "i32 \<Rightarrow> i32 \<Rightarrow> cref \<Rightarrow> world \<Rightarrow> world" where
  "cl_handleReconnecting attempt delayMs self = w_emit self (Reconnecting attempt delayMs)"

definition cl_handleTFARequired :: "cref \<Rightarrow> world \<Rightarrow> world" where
  "cl_handleTFARequired self = w_emit self TfaRequired"

definition cl_handleDisconnected :: "cref \<Rightarrow> world \<Rightarrow> world" where
  "cl_handleDisconnected self w =
     (let c = client_at self w
      in w_emit self (Disconnected (hasUserId (cl_transport c)))
           (put_client self (c\<lparr>cl_connected := False, cl_initialized := False, cl_authorized := False,
              cl_updates := map_option disconnected (cl_updates c)\<rparr>) w))"

definition cl_handleConnected :: "cref \<Rightarrow> world \<Rightarrow> world" where
  "cl_handleConnected self w =
     (let c = client_at self w
      in w_emit self (Connected (hasUserId (cl_transport c)))
           (put_client self (c\<lparr>cl_connected := True, cl_forDc := AList.update (tp_currentDc (cl_transport c)) self (cl_forDc c)\<rparr>) w))"

text \<open>A child without an authorization has its parent export one for it.\<close>

definition export_for_child :: "clenv \<Rightarrow> cref \<Rightarrow> world \<Rightarrow> world" where
  "export_for_child env self w =
     (let c = client_at self w; dc = tp_currentDc (cl_transport c)
      in if hasUserId (cl_transport c) \<or> cl_main c \<or> self = None then w
         else let (mid, w1) = exportAuthorization env dc None w; p = client_at None w1
              in put_client None (p\<lparr>cl_migrationForDc := AList.update mid dc (cl_migrationForDc p)\<rparr>) w1)"

definition send_import :: "clenv \<Rightarrow> cref \<Rightarrow> world \<Rightarrow> world" where
  "send_import env self w =
     (let c = client_at self w
      in if cl_importMethod c = [] then w
         else let w1 = snd (sendObject env writeTLMethodAuthImportAuthorization (cl_importMethod c) self w)
              in put_client self ((client_at self w1)\<lparr>cl_importMethod := []\<rparr>) w1)"

definition cl_handleInitialized :: "clenv \<Rightarrow> cref \<Rightarrow> world \<Rightarrow> world" where
  "cl_handleInitialized env self w =
     (let w1 = put_client self ((client_at self w)\<lparr>cl_initialized := True\<rparr>) w;
          w2 = export_for_child env self (send_import env self w1);
          c = client_at self w2
      in w_emit self (Initialized (hasUserId (cl_transport c))) (put_client self (c\<lparr>cl_updates := map_option initialized (cl_updates c)\<rparr>) w2))"

definition cl_handleAuthorized :: "clenv \<Rightarrow> i64 \<Rightarrow> cref \<Rightarrow> world \<Rightarrow> world" where
  "cl_handleAuthorized env userId self w =
     (let w1 = put_client self ((client_at self w)\<lparr>cl_authorized := (userId \<noteq> 0)\<rparr>) w;
          w2 = (if userId \<noteq> 0 \<and> cl_downloads (client_at self w1) \<noteq> [] then snd (downloadNextFilePart env self w1) else w1);
          c = client_at self w2;
          w3 = (if userId \<noteq> 0 then put_client self (c\<lparr>cl_updates := map_option authorized (cl_updates c)\<rparr>) w2 else w2)
      in w_emit self (Authorized userId) w3)"

subsection \<open>Ids and errors\<close>

definition rename_queue :: "i64 \<Rightarrow> i64 \<Rightarrow> i64 \<Rightarrow> (i64 \<times> file_ctx) list \<Rightarrow> (i64 \<times> file_ctx) list" where
  "rename_queue oldMsg newMsg fileId h =
     (case map_of h fileId of
        None \<Rightarrow> h
      | Some ctx \<Rightarrow> AList.update fileId (ctx\<lparr>fc_queue := remove1 oldMsg (fc_queue ctx) @ [newMsg]\<rparr>) h)"

definition migration_take :: "i64 \<Rightarrow> (i64 \<times> i32) list \<Rightarrow> i32 \<times> (i64 \<times> i32) list" where
  "migration_take k h = (case map_of h k of None \<Rightarrow> 0 | Some v \<Rightarrow> v, AList.delete k h)"

definition cl_handleMessageChanged :: "i64 \<Rightarrow> i64 \<Rightarrow> cref \<Rightarrow> world \<Rightarrow> world" where
  "cl_handleMessageChanged oldMsg newMsg self w =
     (let c = client_at self w;
          c1 = c\<lparr>cl_updates := map_option (messageChanged oldMsg newMsg) (cl_updates c)\<rparr>;
          (dc, h) = migration_take oldMsg (cl_migrationForDc c1);
          (fileId, packets) = hash_take oldMsg (cl_filePackets c1);
          c2 = c1\<lparr>cl_migrationForDc := AList.update newMsg dc h, cl_filePackets := packets\<rparr>;
          c3 = (if fileId \<noteq> 0
                then c2\<lparr>cl_filePackets := AList.update newMsg fileId (cl_filePackets c2),
                        cl_uploads := rename_queue oldMsg newMsg fileId (cl_uploads c2),
                        cl_downloads := rename_queue oldMsg newMsg fileId (cl_downloads c2)\<rparr>
                else c2)
      in w_emit self (MessageChanged oldMsg newMsg) (put_client self c3 w))"

definition updates_error :: "qstring \<Rightarrow> i64 \<Rightarrow> client \<Rightarrow> bool \<times> client" where
  "updates_error errorMessage mid c =
     (case cl_updates c of
        None \<Rightarrow> (False, c)
      | Some m \<Rightarrow> let (taken, m1) = handleRpcError errorMessage mid m in (taken, c\<lparr>cl_updates := Some m1\<rparr>))"

definition cl_handleRpcError :: "clenv \<Rightarrow> i32 \<Rightarrow> qstring \<Rightarrow> i64 \<Rightarrow> cref \<Rightarrow> world \<Rightarrow> world" where
  "cl_handleRpcError env errorCode errorMessage mid self w =
     (let (taken, c) = updates_error errorMessage mid (client_at self w); w1 = put_client self c w
      in if taken then w1
         else if errorMessage = qs ''OFFSET_INVALID'' then fileProbablyDownloaded env mid self w1
         else if errorMessage = qs ''FILE_ID_INVALID''
         then let (fileId, packets) = hash_take mid (cl_filePackets c)
              in cancelDownload env fileId self (put_client self (c\<lparr>cl_filePackets := packets\<rparr>) w1)
         else let (handled, w2) = handlePasswordRpcError env errorMessage mid self w1
              in if handled then w2 else w_emit self (RpcError errorCode errorMessage mid) w2)"

definition cl_handleBool :: "clenv \<Rightarrow> bool \<Rightarrow> i64 \<Rightarrow> cref \<Rightarrow> world \<Rightarrow> fault + world" where
  "cl_handleBool env response mid self w =
     (case handleUploadingFile env response mid self w of
        Inl e \<Rightarrow> Inl e
      | Inr w1 \<Rightarrow> Inr (w_emit self (BoolResponse response mid) w1))"

definition handle_exported :: "clenv \<Rightarrow> tgobject \<Rightarrow> i64 \<Rightarrow> cref \<Rightarrow> world \<Rightarrow> world" where
  "handle_exported env exported mid self w =
     (let c = client_at self w; (dc, h) = migration_take mid (cl_migrationForDc c)
      in case getClientForDc env dc self (put_client self (c\<lparr>cl_migrationForDc := h\<rparr>) w) of
           (None, w1) \<Rightarrow> w1
         | (Some r, w1) \<Rightarrow>
             if dc = 0 then w1
             else snd (importAuthorization env (qv_toLongLong (obj_get exported ''id''))
                    (qv_toBytes (te_qt (ce_tp env)) (obj_get exported ''bytes'')) r w1))"

subsection \<open>Thumbnails\<close>

definition jpeg_header :: bytes where
  "jpeg_header =
     [0xff, 0xd8, 0xff, 0xe0, 0x00, 0x10, 0x4a, 0x46, 0x49, 0x46, 0x00, 0x01, 0x01, 0x00, 0x00, 0x01,
     0x00, 0x01, 0x00, 0x00, 0xff, 0xdb, 0x00, 0x43, 0x00, 0x28, 0x1c, 0x1e, 0x23, 0x1e, 0x19, 0x28,
     0x23, 0x21, 0x23, 0x2d, 0x2b, 0x28, 0x30, 0x3c, 0x64, 0x41, 0x3c, 0x37, 0x37, 0x3c, 0x7b, 0x58,
     0x5d, 0x49, 0x64, 0x91, 0x80, 0x99, 0x96, 0x8f, 0x80, 0x8c, 0x8a, 0xa0, 0xb4, 0xe6, 0xc3, 0xa0,
     0xaa, 0xda, 0xad, 0x8a, 0x8c, 0xc8, 0xff, 0xcb, 0xda, 0xee, 0xf5, 0xff, 0xff, 0xff, 0x9b, 0xc1,
     0xff, 0xff, 0xff, 0xfa, 0xff, 0xe6, 0xfd, 0xff, 0xf8, 0xff, 0xdb, 0x00, 0x43, 0x01, 0x2b, 0x2d,
     0x2d, 0x3c, 0x35, 0x3c, 0x76, 0x41, 0x41, 0x76, 0xf8, 0xa5, 0x8c, 0xa5, 0xf8, 0xf8, 0xf8, 0xf8,
     0xf8, 0xf8, 0xf8, 0xf8, 0xf8, 0xf8, 0xf8, 0xf8, 0xf8, 0xf8, 0xf8, 0xf8, 0xf8, 0xf8, 0xf8, 0xf8,
     0xf8, 0xf8, 0xf8, 0xf8, 0xf8, 0xf8, 0xf8, 0xf8, 0xf8, 0xf8, 0xf8, 0xf8, 0xf8, 0xf8, 0xf8, 0xf8,
     0xf8, 0xf8, 0xf8, 0xf8, 0xf8, 0xf8, 0xf8, 0xf8, 0xf8, 0xf8, 0xf8, 0xf8, 0xf8, 0xf8, 0xff, 0xc0,
     0x00, 0x11, 0x08, 0x00, 0x00, 0x00, 0x00, 0x03, 0x01, 0x22, 0x00, 0x02, 0x11, 0x01, 0x03, 0x11,
     0x01, 0xff, 0xc4, 0x00, 0x1f, 0x00, 0x00, 0x01, 0x05, 0x01, 0x01, 0x01, 0x01, 0x01, 0x01, 0x00,
     0x00, 0x00, 0x00, 0x00, 0x00, 0x00, 0x00, 0x01, 0x02, 0x03, 0x04, 0x05, 0x06, 0x07, 0x08, 0x09,
     0x0a, 0x0b, 0xff, 0xc4, 0x00, 0xb5, 0x10, 0x00, 0x02, 0x01, 0x03, 0x03, 0x02, 0x04, 0x03, 0x05,
     0x05, 0x04, 0x04, 0x00, 0x00, 0x01, 0x7d, 0x01, 0x02, 0x03, 0x00, 0x04, 0x11, 0x05, 0x12, 0x21,
     0x31, 0x41, 0x06, 0x13, 0x51, 0x61, 0x07, 0x22, 0x71, 0x14, 0x32, 0x81, 0x91, 0xa1, 0x08, 0x23,
     0x42, 0xb1, 0xc1, 0x15, 0x52, 0xd1, 0xf0, 0x24, 0x33, 0x62, 0x72, 0x82, 0x09, 0x0a, 0x16, 0x17,
     0x18, 0x19, 0x1a, 0x25, 0x26, 0x27, 0x28, 0x29, 0x2a, 0x34, 0x35, 0x36, 0x37, 0x38, 0x39, 0x3a,
     0x43, 0x44, 0x45, 0x46, 0x47, 0x48, 0x49, 0x4a, 0x53, 0x54, 0x55, 0x56, 0x57, 0x58, 0x59, 0x5a,
     0x63, 0x64, 0x65, 0x66, 0x67, 0x68, 0x69, 0x6a, 0x73, 0x74, 0x75, 0x76, 0x77, 0x78, 0x79, 0x7a,
     0x83, 0x84, 0x85, 0x86, 0x87, 0x88, 0x89, 0x8a, 0x92, 0x93, 0x94, 0x95, 0x96, 0x97, 0x98, 0x99,
     0x9a, 0xa2, 0xa3, 0xa4, 0xa5, 0xa6, 0xa7, 0xa8, 0xa9, 0xaa, 0xb2, 0xb3, 0xb4, 0xb5, 0xb6, 0xb7,
     0xb8, 0xb9, 0xba, 0xc2, 0xc3, 0xc4, 0xc5, 0xc6, 0xc7, 0xc8, 0xc9, 0xca, 0xd2, 0xd3, 0xd4, 0xd5,
     0xd6, 0xd7, 0xd8, 0xd9, 0xda, 0xe1, 0xe2, 0xe3, 0xe4, 0xe5, 0xe6, 0xe7, 0xe8, 0xe9, 0xea, 0xf1,
     0xf2, 0xf3, 0xf4, 0xf5, 0xf6, 0xf7, 0xf8, 0xf9, 0xfa, 0xff, 0xc4, 0x00, 0x1f, 0x01, 0x00, 0x03,
     0x01, 0x01, 0x01, 0x01, 0x01, 0x01, 0x01, 0x01, 0x01, 0x00, 0x00, 0x00, 0x00, 0x00, 0x00, 0x01,
     0x02, 0x03, 0x04, 0x05, 0x06, 0x07, 0x08, 0x09, 0x0a, 0x0b, 0xff, 0xc4, 0x00, 0xb5, 0x11, 0x00,
     0x02, 0x01, 0x02, 0x04, 0x04, 0x03, 0x04, 0x07, 0x05, 0x04, 0x04, 0x00, 0x01, 0x02, 0x77, 0x00,
     0x01, 0x02, 0x03, 0x11, 0x04, 0x05, 0x21, 0x31, 0x06, 0x12, 0x41, 0x51, 0x07, 0x61, 0x71, 0x13,
     0x22, 0x32, 0x81, 0x08, 0x14, 0x42, 0x91, 0xa1, 0xb1, 0xc1, 0x09, 0x23, 0x33, 0x52, 0xf0, 0x15,
     0x62, 0x72, 0xd1, 0x0a, 0x16, 0x24, 0x34, 0xe1, 0x25, 0xf1, 0x17, 0x18, 0x19, 0x1a, 0x26, 0x27,
     0x28, 0x29, 0x2a, 0x35, 0x36, 0x37, 0x38, 0x39, 0x3a, 0x43, 0x44, 0x45, 0x46, 0x47, 0x48, 0x49,
     0x4a, 0x53, 0x54, 0x55, 0x56, 0x57, 0x58, 0x59, 0x5a, 0x63, 0x64, 0x65, 0x66, 0x67, 0x68, 0x69,
     0x6a, 0x73, 0x74, 0x75, 0x76, 0x77, 0x78, 0x79, 0x7a, 0x82, 0x83, 0x84, 0x85, 0x86, 0x87, 0x88,
     0x89, 0x8a, 0x92, 0x93, 0x94, 0x95, 0x96, 0x97, 0x98, 0x99, 0x9a, 0xa2, 0xa3, 0xa4, 0xa5, 0xa6,
     0xa7, 0xa8, 0xa9, 0xaa, 0xb2, 0xb3, 0xb4, 0xb5, 0xb6, 0xb7, 0xb8, 0xb9, 0xba, 0xc2, 0xc3, 0xc4,
     0xc5, 0xc6, 0xc7, 0xc8, 0xc9, 0xca, 0xd2, 0xd3, 0xd4, 0xd5, 0xd6, 0xd7, 0xd8, 0xd9, 0xda, 0xe2,
     0xe3, 0xe4, 0xe5, 0xe6, 0xe7, 0xe8, 0xe9, 0xea, 0xf2, 0xf3, 0xf4, 0xf5, 0xf6, 0xf7, 0xf8, 0xf9,
     0xfa, 0xff, 0xda, 0x00, 0x0c, 0x03, 0x01, 0x00, 0x02, 0x11, 0x03, 0x11, 0x00, 0x3f, 0x00]"

definition getJpegPayload :: "bytes \<Rightarrow> bytes" where
  "getJpegPayload b =
     (if length b < 3 \<or> b ! 0 \<noteq> 1 then []
      else jpeg_header[164 := b ! 1, 166 := b ! 2] @ drop 3 b @ [0xff, 0xd9])"

end
