(* ===== verification/ClientFilesFacts.thy ===== *)
theory ClientFilesFacts
  imports ClientFiles
begin

section \<open>File transfers: the file arrives\<close>

text \<open>
  What a sequence of answers does to a transfer. An upload sends the parts of the file in order, and a
  download writes them in order; the facts about one step are stated on the context of the transfer, and the
  runs are inductions over the number of parts.
\<close>

subsection \<open>Sending changes the transport only\<close>

lemma sendObject_world:
  "\<exists>t mid. sendObject env W i self w =
     (mid, w_emit self (Sent i mid) (put_client self ((client_at self w)\<lparr>cl_transport := t\<rparr>) w))"
  by (simp add: sendObject_def Let_def case_prod_unfold) metis

lemma signal_client_put [simp]:
  "cl_main c = cl_main (client_at self w) \<Longrightarrow> signal_client self (put_client self c w) = signal_client self w"
  by (simp add: signal_client_def)

lemma disk_bytes_simps [simp]: "disk_bytes n (put_client s c w) = disk_bytes n w" "disk_bytes n (w_emit s e w) = disk_bytes n w"
  by (simp_all add: disk_bytes_def)

lemma map_of_update: "map_of (AList.update k v h) k = Some v"
  by (simp add: AList.update_conv')

lemma sint_i64: "n < 2 ^ 63 \<Longrightarrow> sint (of_nat n :: i64) = int n"
  by (simp add: signed_of_nat signed_take_bit_int_eq_self)

subsection \<open>The parts of a file\<close>

definition file_part :: "nat \<Rightarrow> bytes \<Rightarrow> bytes" where
  "file_part k F = take FILE_PART_SIZE (drop (k * FILE_PART_SIZE) F)"

definition part_count :: "bytes \<Rightarrow> nat" where
  "part_count F = (length F - 1) div FILE_PART_SIZE + 1"

lemma part_size_pos: "0 < FILE_PART_SIZE"
  by (simp add: FILE_PART_SIZE_def)

lemma parts_concat: "concat (map (\<lambda>k. file_part k F) [0..<n]) = take (n * FILE_PART_SIZE) F"
  by (induction n) (simp_all add: file_part_def take_add add.commute [of FILE_PART_SIZE])

lemma part_count_covers: "length F \<le> part_count F * FILE_PART_SIZE"
proof -
  have "length F - 1 < ((length F - 1) div FILE_PART_SIZE + 1) * FILE_PART_SIZE"
    using part_size_pos by (metis dividend_less_div_times add.commute mult.commute mult_Suc_right Suc_eq_plus1)
  then show ?thesis by (simp add: part_count_def)
qed

lemma part_starts_inside: "F \<noteq> [] \<Longrightarrow> k < part_count F \<longleftrightarrow> k * FILE_PART_SIZE < length F"
proof -
  assume F: "F \<noteq> []"
  have "k < part_count F \<longleftrightarrow> k \<le> (length F - 1) div FILE_PART_SIZE" by (auto simp: part_count_def)
  also have "\<dots> \<longleftrightarrow> k * FILE_PART_SIZE \<le> length F - 1" using part_size_pos by (simp add: less_eq_div_iff_mult_less_eq)
  also have "\<dots> \<longleftrightarrow> k * FILE_PART_SIZE < length F" using F by (cases F) auto
  finally show ?thesis .
qed

lemma file_parts_count:
  assumes "F \<noteq> []" and "length F < 2 ^ 50"
  shows "file_parts (of_nat (length F)) = of_nat (part_count F)"
proof -
  have "(of_nat (length F) - 1 :: i64) = of_nat (length F - 1)" using assms(1) by (cases F) simp_all
  then have "sint (of_nat (length F) - 1 :: i64) = int (length F - 1)" using assms(2) by (simp add: sint_i64)
  moreover have "int a sdiv int b = int (a div b)" for a b
    by (simp add: signed_divide_int_def zdiv_int sgn_if)
  ultimately show ?thesis by (simp add: file_parts_def part_count_def)
qed

lemma part_size_min:
  assumes "r < 2 ^ 50" and "fc_bytesLeft ctx = of_nat r"
  shows "sint (part_size ctx) = int (min r FILE_PART_SIZE)"
proof -
  have s: "sint (of_nat r :: i64) = int r" "sint (of_nat FILE_PART_SIZE :: i64) = int FILE_PART_SIZE"
    using assms(1) by (simp_all add: sint_i64 FILE_PART_SIZE_def)
  have u: "(ucast (of_nat m :: i64) :: i32) = of_nat m" for m
    by (rule word_unat_eq_iff [THEN iffD2]) (simp add: unsigned_ucast_eq unat_of_nat take_bit_eq_mod mod_mod_cancel)
  have "part_size ctx = of_nat (min r FILE_PART_SIZE)"
    by (simp add: part_size_def assms(2) word_sless_alt s u min_def)
  moreover have "min r FILE_PART_SIZE < 2 ^ 31" by (simp add: FILE_PART_SIZE_def min_def)
  ultimately show ?thesis by (simp only: sint_of_nat32)
qed

lemma read_file_exact:
  assumes "sint len = int n" and "n \<le> FILE_PART_SIZE" and "pos + n \<le> length F"
  shows "readFully (file_read F) id len pos = Some (take n (drop pos F), pos + n)"
proof -
  have "read_loop (file_read F) id n [] pos = Some (take n (drop pos F), pos + n)"
    using assms(3) by (subst read_loop.simps) (simp add: file_read_def)
  moreover have "\<not> (sint len < 0 \<or> sint len > KG_MAX_FRAME)"
    using assms(1,2) by (simp add: KG_MAX_FRAME_def FILE_PART_SIZE_def)
  ultimately show ?thesis unfolding readFully_def assms(1) by simp
qed

subsection \<open>Requests in the log\<close>

definition requests_of :: "(cref \<times> signal) list \<Rightarrow> (tgobject \<times> i64) list" where
  "requests_of log = concat (map (\<lambda>(s, e). case e of Sent i mid \<Rightarrow> [(i, mid)] | _ \<Rightarrow> []) log)"

text \<open>The id of the request sent last: the one the next answer is for.\<close>

definition last_request :: "world \<Rightarrow> i64" where
  "last_request w = snd (last (requests_of (w_log w)))"

lemma requests_of_simps [simp]: "requests_of [] = []" "requests_of (xs @ ys) = requests_of xs @ requests_of ys"
  "requests_of ((s, Sent i mid) # xs) = (i, mid) # requests_of xs"
  by (simp_all add: requests_of_def)

lemma requests_of_signal [simp]:
  "requests_of ((s, FileUploading a1 a2 a3 a4) # xs) = requests_of xs" "requests_of ((s, FileUploaded a1 o1) # xs) = requests_of xs"
  "requests_of ((s, FileDownloading a1 a2 a3 a4) # xs) = requests_of xs" "requests_of ((s, FileDownloaded a1 n1) # xs) = requests_of xs"
  "requests_of ((s, FileDownloadCanceled a1 n1) # xs) = requests_of xs"
  by (simp_all add: requests_of_def)

subsection \<open>Uploads\<close>

definition part_request :: "bytes \<Rightarrow> bool \<Rightarrow> i64 \<Rightarrow> nat \<Rightarrow> tgobject" where
  "part_request F big fileId k =
     [(''_'', VInt (if big then UploadSaveBigFilePartMethod else UploadSaveFilePartMethod)), (''file_id'', VLong fileId),
      (''file_total_parts'', VInt (of_nat (part_count F))), (''file_part'', VInt (of_nat k)), (''bytes'', VBytes (file_part k F))]"

definition upload_at :: "bytes \<Rightarrow> nat \<Rightarrow> file_ctx \<Rightarrow> bool" where
  "upload_at F n ctx \<longleftrightarrow> fc_length ctx = of_nat (length F) \<and> fc_bytesLeft ctx = of_nat (length F - n * FILE_PART_SIZE) \<and>
     fc_pos ctx = min (n * FILE_PART_SIZE) (length F) \<and> fc_currentPart ctx = of_nat n \<and> fc_fileParts ctx = of_nat (part_count F)"

definition uploading :: "bytes \<Rightarrow> nat \<Rightarrow> i64 \<Rightarrow> qstring \<Rightarrow> bool \<Rightarrow> cref \<Rightarrow> world \<Rightarrow> bool" where
  "uploading F n fileId name big self w \<longleftrightarrow>
     isAuthorized (client_at self w) \<and> disk_bytes name w = F \<and>
     (\<exists>ctx. map_of (cl_uploads (client_at self w)) fileId = Some ctx \<and> fc_fileId ctx = fileId \<and> fc_fileName ctx = name \<and>
        fc_isBig ctx = big \<and> upload_at F n ctx)"

lemma not_zero_length: "F \<noteq> [] \<Longrightarrow> length F < 2 ^ 50 \<Longrightarrow> (of_nat (length F) :: i64) \<noteq> 0"
  using sint_i64 [of "length F"] by auto

lemma read_part:
  assumes "upload_at F n ctx" and "length F < 2 ^ 50" and "n * FILE_PART_SIZE < length F"
  shows "readFully (file_read F) id (part_size ctx) (fc_pos ctx) =
    Some (file_part n F, min (Suc n * FILE_PART_SIZE) (length F))"
proof -
  let ?r = "length F - n * FILE_PART_SIZE"
  have "sint (part_size ctx) = int (min ?r FILE_PART_SIZE)"
    using assms by (intro part_size_min) (auto simp: upload_at_def)
  then have "readFully (file_read F) id (part_size ctx) (n * FILE_PART_SIZE) =
      Some (take (min ?r FILE_PART_SIZE) (drop (n * FILE_PART_SIZE) F), n * FILE_PART_SIZE + min ?r FILE_PART_SIZE)"
    by (rule read_file_exact) (use assms(3) in simp_all)
  moreover have "n * FILE_PART_SIZE + min ?r FILE_PART_SIZE = min (Suc n * FILE_PART_SIZE) (length F)"
    using assms(3) by auto
  moreover have "take (min ?r FILE_PART_SIZE) (drop (n * FILE_PART_SIZE) F) = file_part n F"
    by (simp add: file_part_def min_def)
  moreover have "fc_pos ctx = n * FILE_PART_SIZE" using assms(1,3) by (simp add: upload_at_def)
  ultimately show ?thesis by simp
qed

lemma bytes_left_after:
  assumes "n * FILE_PART_SIZE < length F"
  shows "(of_nat (length F - n * FILE_PART_SIZE) - of_nat (length (file_part n F)) :: i64) =
    of_nat (length F - Suc n * FILE_PART_SIZE)"
proof -
  have "length F - n * FILE_PART_SIZE = (length F - Suc n * FILE_PART_SIZE) + length (file_part n F)"
    using assms by (auto simp: file_part_def)
  then have "(of_nat (length F - n * FILE_PART_SIZE) :: i64) =
      of_nat (length F - Suc n * FILE_PART_SIZE) + of_nat (length (file_part n F))"
    by (metis of_nat_add)
  then show ?thesis by simp
qed

lemma bytes_left_positive:
  assumes "upload_at F n ctx" and "length F < 2 ^ 50"
  shows "fc_bytesLeft ctx \<le>s 0 \<longleftrightarrow> length F \<le> n * FILE_PART_SIZE"
  using assms by (simp add: upload_at_def word_sle_eq sint_i64)

lemma upload_part:
  assumes u: "uploading F n fileId name big self w" and F: "F \<noteq> []" "length F < 2 ^ 50" and n: "n < part_count F"
  shows "\<exists>mid w'. uploadNextFilePart env fileId self w = Inr (mid, w') \<and> uploading F (Suc n) fileId name big self w' \<and>
    requests_of (w_log w') = requests_of (w_log w) @ [(part_request F big fileId n, mid)] \<and>
    map_of (cl_filePackets (client_at self w')) mid = Some fileId"
proof -
  let ?c = "client_at self w"
  obtain ctx where a: "isAuthorized ?c" and d: "disk_bytes name w = F" and ctx: "map_of (cl_uploads ?c) fileId = Some ctx"
    and i: "fc_fileId ctx = fileId" "fc_fileName ctx = name" "fc_isBig ctx = big" and at: "upload_at F n ctx"
    using u by (auto simp: uploading_def)
  have inside: "n * FILE_PART_SIZE < length F" using part_starts_inside [OF F(1)] n by simp
  have rd: "readFully (file_read F) id (part_size ctx) (fc_pos ctx) =
      Some (file_part n F, min (Suc n * FILE_PART_SIZE) (length F))"
    by (rule read_part [OF at F(2) inside])
  have left: "\<not> fc_bytesLeft ctx \<le>s 0" using bytes_left_positive [OF at F(2)] inside by simp
  have len: "fc_length ctx \<noteq> 0" using at not_zero_length [OF F] by (simp add: upload_at_def)
  let ?W = "if fc_isBig ctx then writeTLMethodUploadSaveBigFilePart else writeTLMethodUploadSaveFilePart"
  obtain t mid where s: "sendObject env ?W (saveFile_request ctx (file_part n F)) self w =
      (mid, w_emit self (Sent (saveFile_request ctx (file_part n F)) mid) (put_client self (?c\<lparr>cl_transport := t\<rparr>) w))"
    using sendObject_world by blast
  have rq: "saveFile_request ctx (file_part n F) = part_request F big fileId n"
    using at i by (simp add: saveFile_request_def part_request_def upload_at_def)
  obtain pc where pc: "percent (part_progress ctx) (fc_length ctx) = Inr pc" using len by (simp add: percent_def)
  let ?ctx = "ctx\<lparr>fc_bytesLeft := fc_bytesLeft ctx - of_nat (length (file_part n F)),
    fc_pos := min (Suc n * FILE_PART_SIZE) (length F), fc_currentPart := fc_currentPart ctx + 1, fc_queue := fc_queue ctx @ [mid]\<rparr>"
  let ?w = "w_emit self (FileUploading fileId (part_progress ctx) (fc_length ctx) pc)
    (put_client self (?c\<lparr>cl_transport := t, cl_uploads := AList.update fileId ?ctx (cl_uploads ?c),
       cl_filePackets := AList.update mid fileId (cl_filePackets ?c)\<rparr>) (w_emit self (Sent (saveFile_request ctx (file_part n F)) mid) w))"
  have "uploadNextFilePart env fileId self w = Inr (mid, ?w)"
    using a ctx left len rd i(1,2) d pc
    by (simp add: uploadNextFilePart_def Let_def s) (simp add: w_emit_def put_client_def split: option.splits)
  moreover have "uploading F (Suc n) fileId name big self ?w"
    using a i d at bytes_left_after [OF inside]
    by (simp add: uploading_def isAuthorized_def map_of_update upload_at_def)
  ultimately show ?thesis using rq by (auto simp: map_of_update)
qed

lemma upload_end:
  assumes u: "uploading F n fileId name big self w" and F: "F \<noteq> []" "length F < 2 ^ 50" and n: "part_count F \<le> n"
  shows "\<exists>w'. uploadNextFilePart env fileId self w = Inr (0, w') \<and> map_of (cl_uploads (client_at self w')) fileId = None \<and>
    w_log w' = w_log w @ [(self, FileUploaded fileId [(''_'', VInt (if big then InputFileBig else InputFile)), (''id'', VLong fileId),
      (''parts'', VInt (of_nat (part_count F))), (''name'', VStr (qs_fileName name))])]"
proof -
  obtain ctx where ctx: "isAuthorized (client_at self w)" "map_of (cl_uploads (client_at self w)) fileId = Some ctx"
    and i: "fc_fileId ctx = fileId" "fc_fileName ctx = name" "fc_isBig ctx = big" and at: "upload_at F n ctx"
    using u by (auto simp: uploading_def)
  have "length F \<le> n * FILE_PART_SIZE" using part_starts_inside [OF F(1), of n] n by simp
  then have "fc_bytesLeft ctx \<le>s 0" using bytes_left_positive [OF at F(2)] by simp
  moreover have "fc_length ctx \<noteq> 0" using at not_zero_length [OF F] by (simp add: upload_at_def)
  ultimately show ?thesis
    using ctx i at by (simp add: uploadNextFilePart_def Let_def uploaded_object_def upload_at_def delete_conv')
qed

text \<open>The answers of a server that accepts every part: each one is for the request sent last.\<close>

fun accept_parts :: "clenv \<Rightarrow> cref \<Rightarrow> nat \<Rightarrow> world \<Rightarrow> fault + world" where
  "accept_parts env self 0 w = Inr w"
| "accept_parts env self (Suc k) w =
     (case handleUploadingFile env True (last_request w) self w of
        Inl e \<Rightarrow> Inl e
      | Inr w' \<Rightarrow> accept_parts env self k w')"

lemma answered_part:
  assumes u: "uploading F n fileId name big self w" and m: "map_of (cl_filePackets (client_at self w)) mid = Some fileId"
  shows "\<exists>w1. handleUploadingFile env True mid self w =
      (case uploadNextFilePart env fileId self w1 of Inl e \<Rightarrow> Inl e | Inr (_, w2) \<Rightarrow> Inr w2) \<and>
    uploading F n fileId name big self w1 \<and> w_log w1 = w_log w"
proof -
  let ?c = "client_at self w"
  let ?w1 = "put_client self (?c\<lparr>cl_filePackets := AList.delete mid (cl_filePackets ?c)\<rparr>) w"
  have "uploading F n fileId name big self ?w1" using u by (simp add: uploading_def isAuthorized_def)
  then show ?thesis using m by (intro exI [of _ ?w1]) (simp add: handleUploadingFile_def hash_take_def Let_def)
qed

lemma upload_run:
  assumes "uploading F n fileId name big self w" and "F \<noteq> []" "length F < 2 ^ 50"
    and "requests_of (w_log w) \<noteq> []" and "map_of (cl_filePackets (client_at self w)) (last_request w) = Some fileId"
    and "n \<le> part_count F"
  shows "\<exists>w'. accept_parts env self (Suc (part_count F - n)) w = Inr w' \<and>
    map fst (requests_of (w_log w')) = map fst (requests_of (w_log w)) @ map (part_request F big fileId) [n..<part_count F] \<and>
    last (w_log w') = (self, FileUploaded fileId [(''_'', VInt (if big then InputFileBig else InputFile)), (''id'', VLong fileId),
      (''parts'', VInt (of_nat (part_count F))), (''name'', VStr (qs_fileName name))])"
  using assms
proof (induction "part_count F - n" arbitrary: n w)
  case 0
  then have n: "n = part_count F" by simp
  obtain w1 where h: "handleUploadingFile env True (last_request w) self w =
      (case uploadNextFilePart env fileId self w1 of Inl e \<Rightarrow> Inl e | Inr (_, w2) \<Rightarrow> Inr w2)"
    and u1: "uploading F n fileId name big self w1" and l: "w_log w1 = w_log w"
    using answered_part [OF "0.prems"(1,5)] by blast
  then show ?case using upload_end [OF u1 "0.prems"(2,3), of env] n by (auto simp del: One_nat_def)
next
  case (Suc r)
  obtain w1 where h: "handleUploadingFile env True (last_request w) self w =
      (case uploadNextFilePart env fileId self w1 of Inl e \<Rightarrow> Inl e | Inr (_, w2) \<Rightarrow> Inr w2)"
    and u1: "uploading F n fileId name big self w1" and l: "w_log w1 = w_log w"
    using answered_part [OF Suc.prems(1,5)] by blast
  have lt: "n < part_count F" using Suc.hyps(2) by simp
  obtain mid w2 where p: "uploadNextFilePart env fileId self w1 = Inr (mid, w2)" and u2: "uploading F (Suc n) fileId name big self w2"
    and q: "requests_of (w_log w2) = requests_of (w_log w1) @ [(part_request F big fileId n, mid)]"
    and m: "map_of (cl_filePackets (client_at self w2)) mid = Some fileId"
    using upload_part [OF u1 Suc.prems(2,3) lt] by blast
  have "r = part_count F - Suc n" using Suc.hyps(2) by simp
  from Suc.hyps(1) [OF this u2 Suc.prems(2,3)] obtain w' where
    "accept_parts env self (Suc (part_count F - Suc n)) w2 = Inr w'"
    "map fst (requests_of (w_log w')) = map fst (requests_of (w_log w2)) @ map (part_request F big fileId) [Suc n..<part_count F]"
    "last (w_log w') = (self, FileUploaded fileId [(''_'', VInt (if big then InputFileBig else InputFile)), (''id'', VLong fileId),
      (''parts'', VInt (of_nat (part_count F))), (''name'', VStr (qs_fileName name))])"
    using q m lt by (auto simp: last_request_def)
  moreover have "Suc (part_count F - n) = Suc (Suc (part_count F - Suc n))" using lt by simp
  moreover have "[n..<part_count F] = n # [Suc n..<part_count F]" using lt by (simp add: upt_conv_Cons)
  ultimately show ?case using h p q l by simp
qed

lemma uploadFile_starts:
  assumes "isAuthorized (client_at self w)" and "disk_bytes name w = F" and F: "F \<noteq> []" "length F < 2 ^ 50"
    and "ce_readable env name"
  shows "\<exists>fileId w1. uploading F 0 fileId name (10485760 < length F) self w1 \<and> w_log w1 = w_log w \<and>
    uploadFile env name self w =
      (case uploadNextFilePart env fileId self w1 of Inl e \<Rightarrow> Inl e | Inr (_, w2) \<Rightarrow> Inr (fileId, w2))"
proof -
  define k fileId where "k = snd (randomLong (te_qt (ce_tp env)) (ce_rng env) (w_draws w))"
    and "fileId = fst (randomLong (te_qt (ce_tp env)) (ce_rng env) (w_draws w))"
  let ?wd = "w\<lparr>w_draws := k\<rparr>"
  let ?ctx = "(ctx_new fileId name (of_nat (length F)) [])\<lparr>fc_open := True\<rparr>"
  let ?c = "client_at self w"
  let ?w1 = "put_client self (?c\<lparr>cl_uploads := AList.update fileId ?ctx (cl_uploads ?c)\<rparr>) ?wd"
  have wd: "client_at self ?wd = ?c" "disk_bytes name ?wd = F"
    using assms(2) by (simp_all add: client_at_def disk_bytes_def split: option.splits)
  have big: "(10485760 <s (of_nat (length F) :: i64)) = (10485760 < length F)"
    using F(2) by (simp add: word_sless_alt sint_i64)
  have "upload_at F 0 ?ctx" using file_parts_count [OF F] by (simp add: upload_at_def ctx_new_def)
  then have "uploading F 0 fileId name (10485760 < length F) self ?w1"
    using assms(1) wd big by (simp add: uploading_def isAuthorized_def map_of_update ctx_new_def)
  moreover have ux: "upload_ctx env name w = (ctx_new fileId name (of_nat (length F)) [], ?wd)"
    using wd(2) by (simp add: upload_ctx_def draw_file_id_def case_prod_unfold Let_def k_def fileId_def)
  have "uploadFile env name self w =
      (case uploadNextFilePart env fileId self ?w1 of Inl e \<Rightarrow> Inl e | Inr (_, w2) \<Rightarrow> Inr (fileId, w2))"
    using not_zero_length [OF F] assms(5) wd(1) by (simp add: uploadFile_def Let_def ux ctx_new_def split: sum.split)
  ultimately show ?thesis by (intro exI [of _ fileId] exI [of _ ?w1]) simp
qed

text \<open>A whole upload: after as many acceptances as the file has parts, the requests are the parts in order.\<close>

lemma uploadFile_run:
  assumes "isAuthorized (client_at self w)" and "disk_bytes name w = F" and F: "F \<noteq> []" "length F < 2 ^ 50"
    and "ce_readable env name"
  shows "\<exists>fileId w1 w'. uploadFile env name self w = Inr (fileId, w1) \<and> accept_parts env self (part_count F) w1 = Inr w' \<and>
    map fst (requests_of (w_log w')) = map fst (requests_of (w_log w)) @
      map (part_request F (10485760 < length F) fileId) [0..<part_count F] \<and>
    last (w_log w') = (self, FileUploaded fileId [(''_'', VInt (if 10485760 < length F then InputFileBig else InputFile)),
      (''id'', VLong fileId), (''parts'', VInt (of_nat (part_count F))), (''name'', VStr (qs_fileName name))])"
proof -
  let ?big = "10485760 < length F"
  obtain fileId w1 where u: "uploading F 0 fileId name ?big self w1" and l: "w_log w1 = w_log w" and up: "uploadFile env name self w =
      (case uploadNextFilePart env fileId self w1 of Inl e \<Rightarrow> Inl e | Inr (_, w2) \<Rightarrow> Inr (fileId, w2))"
    using uploadFile_starts [OF assms] by blast
  have pos: "0 < part_count F" by (simp add: part_count_def)
  obtain mid w2 where p: "uploadNextFilePart env fileId self w1 = Inr (mid, w2)" and u2: "uploading F 1 fileId name ?big self w2"
    and q: "requests_of (w_log w2) = requests_of (w_log w1) @ [(part_request F ?big fileId 0, mid)]"
    and m: "map_of (cl_filePackets (client_at self w2)) mid = Some fileId"
    using upload_part [OF u F pos, of env] by (auto simp del: One_nat_def simp: One_nat_def [symmetric])
  have s: "Suc (part_count F - 1) = part_count F" using pos by simp
  obtain w' where "accept_parts env self (part_count F) w2 = Inr w'"
    "map fst (requests_of (w_log w')) = map fst (requests_of (w_log w2)) @ map (part_request F ?big fileId) [1..<part_count F]"
    "last (w_log w') = (self, FileUploaded fileId [(''_'', VInt (if ?big then InputFileBig else InputFile)),
      (''id'', VLong fileId), (''parts'', VInt (of_nat (part_count F))), (''name'', VStr (qs_fileName name))])"
    using upload_run [OF u2 F, of env] q m pos unfolding s by (auto simp: last_request_def)
  moreover have "[0..<part_count F] = 0 # [1..<part_count F]" using pos by (simp add: upt_conv_Cons)
  ultimately show ?thesis using up p q l by simp
qed

lemma all_parts: "concat (map (\<lambda>k. file_part k F) [0..<part_count F]) = F"
  using part_count_covers [of F] by (simp add: parts_concat)

subsection \<open>Downloads\<close>

definition get_request :: "tgobject \<Rightarrow> nat \<Rightarrow> tgobject" where
  "get_request loc k =
     [(''_'', VInt UploadGetFileMethod), (''location'', VMap loc),
      (''offset'', VLong (of_nat (k * FILE_PART_SIZE))), (''limit'', VInt (of_nat FILE_PART_SIZE))]"

definition download_at :: "bytes \<Rightarrow> nat \<Rightarrow> file_ctx \<Rightarrow> bool" where
  "download_at F n ctx \<longleftrightarrow> fc_length ctx = of_nat (length F) \<and> fc_bytesLeft ctx = of_nat (length F - n * FILE_PART_SIZE) \<and>
     fc_pos ctx = min (n * FILE_PART_SIZE) (length F) \<and> fc_open ctx"

text \<open>Part \<open>n\<close> has been asked for under the id \<open>mid\<close>, the parts before it are on disk.\<close>

definition downloading :: "bytes \<Rightarrow> nat \<Rightarrow> i64 \<Rightarrow> qstring \<Rightarrow> tgobject \<Rightarrow> i64 \<Rightarrow> cref \<Rightarrow> world \<Rightarrow> bool" where
  "downloading F n fileId name loc mid self w \<longleftrightarrow>
     (let c = client_at self w
      in isAuthorized c \<and> disk_bytes name w = take (n * FILE_PART_SIZE) F \<and> cl_currentDownloading c = fileId \<and> fileId \<noteq> 0 \<and>
         map_of (cl_filePackets c) mid = Some fileId \<and>
         (\<exists>ctx. map_of (cl_downloads c) fileId = Some ctx \<and> fc_fileId ctx = fileId \<and> fc_fileName ctx = name \<and> fc_download ctx = loc \<and>
            fc_queue ctx = [mid] \<and> fc_currentPart ctx = of_nat (Suc n) \<and> download_at F n ctx))"

lemma signext_of_nat: "k < 2 ^ 31 \<Longrightarrow> (scast (of_nat k :: i32) :: i64) = of_nat k"
  by (rule signed_word_eqI) (simp add: sint_of_nat32 sint_i64 scast_eq signed_take_bit_int_eq_self)

lemma download_at_left:
  assumes "download_at F n ctx" and "length F < 2 ^ 50"
  shows "fc_bytesLeft ctx \<le>s 0 \<longleftrightarrow> length F \<le> n * FILE_PART_SIZE"
  using assms by (simp add: download_at_def word_sle_eq sint_i64)

lemma part_written:
  assumes "n * FILE_PART_SIZE < length F"
  shows "file_write (min (n * FILE_PART_SIZE) (length F)) (file_part n F) (take (n * FILE_PART_SIZE) F) = take (Suc n * FILE_PART_SIZE) F"
proof -
  have "take (n * FILE_PART_SIZE) F @ file_part n F = take (Suc n * FILE_PART_SIZE) F"
    by (simp add: file_part_def take_add add.commute [of FILE_PART_SIZE])
  then show ?thesis using assms by (simp add: file_write_def)
qed

lemma downloads_asked:
  assumes a: "isAuthorized (client_at self w)" and cur: "cl_currentDownloading (client_at self w) = fileId" "fileId \<noteq> 0"
    and ctx: "map_of (cl_downloads (client_at self w)) fileId = Some ctx" and q: "fc_queue ctx = []" "fc_fileId ctx = fileId"
    and left: "\<not> (fc_length ctx \<noteq> 0 \<and> fc_bytesLeft ctx \<le>s 0)"
  shows "\<exists>mid w'. downloadNextFilePart env self w = (mid, w') \<and> w_disk w' = w_disk w \<and>
    w_log w' = w_log w @ [(self, Sent (getFile_request ctx) mid)] \<and>
    map_of (cl_filePackets (client_at self w')) mid = Some fileId \<and> isAuthorized (client_at self w') \<and>
    cl_currentDownloading (client_at self w') = fileId \<and>
    map_of (cl_downloads (client_at self w')) fileId = Some (ctx\<lparr>fc_currentPart := fc_currentPart ctx + 1, fc_queue := [mid]\<rparr>)"
proof -
  have ne: "cl_downloads (client_at self w) \<noteq> []" using ctx by auto
  let ?w1 = "put_client self (client_at self w\<lparr>cl_currentDownloading := fileId\<rparr>) w"
  obtain t mid where s: "sendObject env writeTLMethodUploadGetFile (getFile_request ctx) self ?w1 =
      (mid, w_emit self (Sent (getFile_request ctx) mid) (put_client self ((client_at self ?w1)\<lparr>cl_transport := t\<rparr>) ?w1))"
    using sendObject_world by blast
  show ?thesis
    using a cur ctx q left ne
    by (intro exI [of _ mid]) (auto simp: downloadNextFilePart_def Let_def s isAuthorized_def map_of_update)
qed

lemma download_over:
  assumes "isAuthorized (client_at self w)" and "cl_currentDownloading (client_at self w) = fileId" "fileId \<noteq> 0"
    and "map_of (cl_downloads (client_at self w)) fileId = Some ctx" and "fc_queue ctx = []" "fc_fileId ctx = fileId"
    and "fc_length ctx \<noteq> 0" "fc_bytesLeft ctx \<le>s 0"
  shows "\<exists>w'. downloadNextFilePart env self w = (0, w') \<and> w_disk w' = w_disk w \<and>
    w_log w' = w_log w @ [(signal_client self w, FileDownloaded fileId (fc_fileName ctx))] \<and>
    isAuthorized (client_at self w') \<and> cl_currentDownloading (client_at self w') = fileId \<and>
    cl_downloads (client_at self w') = AList.delete fileId (cl_downloads (client_at self w))"
proof -
  have ne: "cl_downloads (client_at self w) \<noteq> []" using assms(4) by auto
  show ?thesis
    using assms ne by (simp add: downloadNextFilePart_def Let_def download_finished_def isAuthorized_def)
qed

lemma disk_update_simps [simp]: "client_at self (w\<lparr>w_disk := d\<rparr>) = client_at self w"
  "put_client self c (w\<lparr>w_disk := d\<rparr>) = (put_client self c w)\<lparr>w_disk := d\<rparr>"
  "signal_client self (w\<lparr>w_disk := d\<rparr>) = signal_client self w"
  by (auto simp: client_at_def put_client_def signal_client_def split: option.splits)

lemma ctx_write_open:
  "fc_open ctx \<Longrightarrow> ctx_write b ctx w =
     (ctx\<lparr>fc_pos := fc_pos ctx + length b\<rparr>,
      w\<lparr>w_disk := (w_disk w)(fc_fileName ctx := Some (file_write (fc_pos ctx) b (disk_bytes (fc_fileName ctx) w)))\<rparr>)"
  by (simp add: ctx_write_def)

text \<open>The state an answer leaves before the next request is considered.\<close>

definition part_stored :: "bytes \<Rightarrow> i64 \<Rightarrow> i64 \<Rightarrow> file_ctx \<Rightarrow> cref \<Rightarrow> world \<Rightarrow> world" where
  "part_stored b mid fileId ctx self w =
     (put_client self ((client_at self w)\<lparr>cl_filePackets := AList.delete mid (cl_filePackets (client_at self w)),
        cl_downloads := AList.update fileId (ctx\<lparr>fc_pos := fc_pos ctx + length b,
          fc_bytesLeft := fc_bytesLeft ctx - of_nat (length b), fc_queue := remove1 mid (fc_queue ctx)\<rparr>) (cl_downloads (client_at self w))\<rparr>) w)
       \<lparr>w_disk := (w_disk w)(fc_fileName ctx := Some (file_write (fc_pos ctx) b (disk_bytes (fc_fileName ctx) w)))\<rparr>"

lemma handleDownloadingFile_eq:
  assumes "map_of (cl_filePackets (client_at self w)) mid = Some fileId"
    and "map_of (cl_downloads (client_at self w)) fileId = Some ctx" and "fc_open ctx"
    and "obj_get response ''bytes'' = VBytes b"
  defines "ctx2 \<equiv> ctx\<lparr>fc_pos := fc_pos ctx + length b, fc_bytesLeft := fc_bytesLeft ctx - of_nat (length b),
    fc_queue := remove1 mid (fc_queue ctx)\<rparr>" and "w3 \<equiv> part_stored b mid fileId ctx self w"
  shows "handleDownloadingFile env response mid self w =
    (if length b \<noteq> FILE_PART_SIZE then Inr (next_download env self (download_finished fileId ctx2 self w3))
     else case percent (fc_length ctx2 - fc_bytesLeft ctx2) (fc_length ctx2) of
            Inl e \<Rightarrow> Inl e
          | Inr pc \<Rightarrow> Inr (snd (downloadNextFilePart env self (w_emit (signal_client self w3)
              (FileDownloading (fc_fileId ctx2) (fc_length ctx2 - fc_bytesLeft ctx2) (fc_length ctx2) pc) w3))))"
  using assms(1-4)
  by (simp add: handleDownloadingFile_def hash_take_def Let_def ctx_write_open ctx2_def w3_def part_stored_def split: sum.split)

lemma downloadNextFilePart_frame:
  "w_disk (snd (downloadNextFilePart env self w)) = w_disk w"
  "\<exists>l. w_log (snd (downloadNextFilePart env self w)) = w_log w @ l"
  "map_of (cl_downloads (client_at self w)) k = None \<Longrightarrow>
     map_of (cl_downloads (client_at self (snd (downloadNextFilePart env self w)))) k = None"
proof -
  let ?c = "client_at self w"
  let ?cur = "if cl_currentDownloading ?c = 0 then hd (te_hash_order (ce_tp env) (map fst (cl_downloads ?c)))
    else cl_currentDownloading ?c"
  let ?w1 = "put_client self (?c\<lparr>cl_currentDownloading := ?cur\<rparr>) w"
  have *: "w_disk (snd (downloadNextFilePart env self w)) = w_disk w \<and>
    (\<exists>l. w_log (snd (downloadNextFilePart env self w)) = w_log w @ l) \<and>
    (map_of (cl_downloads (client_at self w)) k = None \<longrightarrow>
     map_of (cl_downloads (client_at self (snd (downloadNextFilePart env self w)))) k = None)"
  proof (cases "isAuthorized ?c \<and> cl_downloads ?c \<noteq> []")
    case False
    then show ?thesis by (auto simp: downloadNextFilePart_def Let_def)
  next
    case True
    show ?thesis
    proof (cases "map_of (cl_downloads ?c) ?cur")
      case None
      then show ?thesis using True by (simp add: downloadNextFilePart_def Let_def)
    next
      case (Some ctx)
      obtain t mid where s: "sendObject env writeTLMethodUploadGetFile (getFile_request ctx) self ?w1 =
          (mid, w_emit self (Sent (getFile_request ctx) mid) (put_client self ((client_at self ?w1)\<lparr>cl_transport := t\<rparr>) ?w1))"
        using sendObject_world by blast
      have "map_of (cl_downloads ?c) k = None \<Longrightarrow> k \<noteq> ?cur" using Some by auto
      then show ?thesis
        using True Some s
        by (auto simp: downloadNextFilePart_def Let_def download_finished_def AList.update_conv' delete_conv')
    qed
  qed
  then show "w_disk (snd (downloadNextFilePart env self w)) = w_disk w"
    "\<exists>l. w_log (snd (downloadNextFilePart env self w)) = w_log w @ l"
    "map_of (cl_downloads (client_at self w)) k = None \<Longrightarrow>
     map_of (cl_downloads (client_at self (snd (downloadNextFilePart env self w)))) k = None"
    by blast+
qed

lemma next_download_frame:
  assumes "map_of (cl_downloads (client_at self w)) k = None"
  shows "w_disk (next_download env self w) = w_disk w" "\<exists>l. w_log (next_download env self w) = w_log w @ l"
    "map_of (cl_downloads (client_at self (next_download env self w))) k = None"
  using assms downloadNextFilePart_frame [where env = env and self = self and
      w = "put_client self ((client_at self w)\<lparr>cl_currentDownloading := 0\<rparr>) w"]
  by (simp_all add: next_download_def Let_def)

text \<open>An answer was stored: \<open>n\<close> parts are on disk, none is asked for.\<close>

definition stored :: "bytes \<Rightarrow> nat \<Rightarrow> i64 \<Rightarrow> qstring \<Rightarrow> tgobject \<Rightarrow> file_ctx \<Rightarrow> cref \<Rightarrow> world \<Rightarrow> bool" where
  "stored F n fileId name loc ctx self w \<longleftrightarrow>
     (let c = client_at self w
      in isAuthorized c \<and> disk_bytes name w = take (n * FILE_PART_SIZE) F \<and> cl_currentDownloading c = fileId \<and> fileId \<noteq> 0 \<and>
         map_of (cl_downloads c) fileId = Some ctx \<and> fc_fileId ctx = fileId \<and> fc_fileName ctx = name \<and> fc_download ctx = loc \<and>
         fc_queue ctx = [] \<and> fc_currentPart ctx = of_nat n \<and> download_at F n ctx)"

lemma answer_stored:
  assumes d: "downloading F n fileId name loc mid self w" and F: "F \<noteq> []" "length F < 2 ^ 50" and n: "n < part_count F"
    and r: "obj_get response ''bytes'' = VBytes (file_part n F)"
  shows "\<exists>ctx w3 pc. stored F (Suc n) fileId name loc ctx self w3 \<and> w_log w3 = w_log w \<and> signal_client self w3 = signal_client self w \<and>
    handleDownloadingFile env response mid self w =
      (if length (file_part n F) \<noteq> FILE_PART_SIZE then Inr (next_download env self (download_finished fileId ctx self w3))
       else Inr (snd (downloadNextFilePart env self (w_emit (signal_client self w3)
              (FileDownloading fileId (fc_length ctx - fc_bytesLeft ctx) (fc_length ctx) pc) w3))))"
proof -
  let ?c = "client_at self w"
  let ?b = "file_part n F"
  obtain ctx where a: "isAuthorized ?c" and k: "disk_bytes name w = take (n * FILE_PART_SIZE) F"
    and cur: "cl_currentDownloading ?c = fileId" "fileId \<noteq> 0" and m: "map_of (cl_filePackets ?c) mid = Some fileId"
    and ctx: "map_of (cl_downloads ?c) fileId = Some ctx" and at: "download_at F n ctx" and i: "fc_fileId ctx = fileId"
      "fc_fileName ctx = name" "fc_download ctx = loc" "fc_queue ctx = [mid]" "fc_currentPart ctx = of_nat (Suc n)"
    using d by (auto simp: downloading_def Let_def)
  have inside: "n * FILE_PART_SIZE < length F" using part_starts_inside [OF F(1)] n by metis
  have o: "fc_open ctx" and len: "fc_length ctx = of_nat (length F)" using at by (simp_all add: download_at_def)
  define ctx2 where "ctx2 = ctx\<lparr>fc_pos := fc_pos ctx + length ?b, fc_bytesLeft := fc_bytesLeft ctx - of_nat (length ?b),
    fc_queue := remove1 mid (fc_queue ctx)\<rparr>"
  define w3 where "w3 = part_stored ?b mid fileId ctx self w"
  have "length ?b = min (Suc n * FILE_PART_SIZE) (length F) - n * FILE_PART_SIZE" by (auto simp: file_part_def)
  then have "download_at F (Suc n) ctx2"
    using at inside bytes_left_after [OF inside] by (auto simp: download_at_def ctx2_def)
  moreover have "disk_bytes name w3 = take (Suc n * FILE_PART_SIZE) F"
    using at i(2) k part_written [OF inside] by (simp add: w3_def part_stored_def disk_bytes_def download_at_def)
  ultimately have s: "stored F (Suc n) fileId name loc ctx2 self w3"
    using a cur i by (simp add: stored_def Let_def w3_def part_stored_def ctx2_def map_of_update isAuthorized_def)
  obtain pc where pc: "percent (fc_length ctx2 - fc_bytesLeft ctx2) (fc_length ctx2) = Inr pc"
    using not_zero_length [OF F] len by (simp add: percent_def ctx2_def)
  have "fc_fileId ctx2 = fileId" using i by (simp add: ctx2_def)
  then have "handleDownloadingFile env response mid self w =
      (if length ?b \<noteq> FILE_PART_SIZE then Inr (next_download env self (download_finished fileId ctx2 self w3))
       else Inr (snd (downloadNextFilePart env self (w_emit (signal_client self w3)
              (FileDownloading fileId (fc_length ctx2 - fc_bytesLeft ctx2) (fc_length ctx2) pc) w3))))"
    using handleDownloadingFile_eq [OF m ctx o r, of env] unfolding ctx2_def [symmetric] w3_def [symmetric]
    by (simp add: pc)
  then show ?thesis using s by (intro exI [of _ ctx2] exI [of _ w3] exI [of _ pc]) (simp add: w3_def part_stored_def)
qed

lemma download_continues:
  assumes d: "downloading F n fileId name loc mid self w" and F: "F \<noteq> []" "length F < 2 ^ 50" and n: "Suc n < part_count F"
    and r: "obj_get response ''bytes'' = VBytes (file_part n F)"
  shows "\<exists>mid' w'. handleDownloadingFile env response mid self w = Inr w' \<and> downloading F (Suc n) fileId name loc mid' self w' \<and>
    requests_of (w_log w') = requests_of (w_log w) @ [(get_request loc (Suc n), mid')]"
proof -
  have inside: "Suc n * FILE_PART_SIZE < length F" using part_starts_inside [OF F(1)] n by metis
  then have full: "length (file_part n F) = FILE_PART_SIZE" by (simp add: file_part_def)
  obtain ctx w3 pc where st: "stored F (Suc n) fileId name loc ctx self w3" and l: "w_log w3 = w_log w"
    and h: "handleDownloadingFile env response mid self w = Inr (snd (downloadNextFilePart env self (w_emit (signal_client self w3)
              (FileDownloading fileId (fc_length ctx - fc_bytesLeft ctx) (fc_length ctx) pc) w3)))"
    using answer_stored [OF d F _ r, of env] n full by auto
  let ?w4 = "w_emit (signal_client self w3) (FileDownloading fileId (fc_length ctx - fc_bytesLeft ctx) (fc_length ctx) pc) w3"
  have "\<not> (fc_length ctx \<noteq> 0 \<and> fc_bytesLeft ctx \<le>s 0)"
    using st download_at_left [of F "Suc n" ctx, OF _ F(2)] inside by (simp add: stored_def Let_def)
  then obtain mid' w' where nx: "downloadNextFilePart env self ?w4 = (mid', w')" and disk': "w_disk w' = w_disk ?w4"
    and log': "w_log w' = w_log ?w4 @ [(self, Sent (getFile_request ctx) mid')]"
    and a': "map_of (cl_filePackets (client_at self w')) mid' = Some fileId" "isAuthorized (client_at self w')"
      "cl_currentDownloading (client_at self w') = fileId"
      "map_of (cl_downloads (client_at self w')) fileId = Some (ctx\<lparr>fc_currentPart := fc_currentPart ctx + 1, fc_queue := [mid']\<rparr>)"
    using downloads_asked [of self ?w4 fileId ctx env] st by (auto simp: stored_def Let_def)
  have "Suc n < 2 ^ 31" using inside F(2) by (simp add: FILE_PART_SIZE_def)
  then have rq: "getFile_request ctx = get_request loc (Suc n)"
    using st signext_of_nat [of "Suc n"] by (simp add: getFile_request_def get_request_def stored_def Let_def algebra_simps)
  have "downloading F (Suc n) fileId name loc mid' self w'"
    using a' st disk' by (simp add: downloading_def stored_def Let_def disk_bytes_def download_at_def)
  then show ?thesis using h nx log' rq l by auto
qed

lemma download_ends:
  assumes d: "downloading F n fileId name loc mid self w" and F: "F \<noteq> []" "length F < 2 ^ 50" and n: "Suc n = part_count F"
    and r: "obj_get response ''bytes'' = VBytes (file_part n F)"
  shows "\<exists>w'. handleDownloadingFile env response mid self w = Inr w' \<and> disk_bytes name w' = F \<and>
    map_of (cl_downloads (client_at self w')) fileId = None \<and> (signal_client self w, FileDownloaded fileId name) \<in> set (w_log w') \<and>
    (length F mod FILE_PART_SIZE = 0 \<longrightarrow> cl_currentDownloading (client_at self w') = fileId)"
proof -
  obtain ctx w3 pc where st: "stored F (Suc n) fileId name loc ctx self w3" and l: "w_log w3 = w_log w"
    and s: "signal_client self w3 = signal_client self w" and h: "handleDownloadingFile env response mid self w =
      (if length (file_part n F) \<noteq> FILE_PART_SIZE then Inr (next_download env self (download_finished fileId ctx self w3))
       else Inr (snd (downloadNextFilePart env self (w_emit (signal_client self w3)
              (FileDownloading fileId (fc_length ctx - fc_bytesLeft ctx) (fc_length ctx) pc) w3))))"
    using answer_stored [OF d F _ r, of env] n by auto
  have all: "length F \<le> Suc n * FILE_PART_SIZE" using part_count_covers [of F] n by simp
  have disk: "disk_bytes name w3 = F" using st all by (simp add: stored_def Let_def)
  show ?thesis
  proof (cases "length (file_part n F) = FILE_PART_SIZE")
    case True
    let ?w4 = "w_emit (signal_client self w3) (FileDownloading fileId (fc_length ctx - fc_bytesLeft ctx) (fc_length ctx) pc) w3"
    have "fc_length ctx \<noteq> 0" "fc_bytesLeft ctx \<le>s 0"
      using st all not_zero_length [OF F] download_at_left [of F "Suc n" ctx, OF _ F(2)]
      by (simp_all add: stored_def Let_def download_at_def)
    then obtain w' where "downloadNextFilePart env self ?w4 = (0, w')" "w_disk w' = w_disk ?w4"
      "w_log w' = w_log ?w4 @ [(signal_client self ?w4, FileDownloaded fileId (fc_fileName ctx))]"
      "cl_currentDownloading (client_at self w') = fileId"
      "cl_downloads (client_at self w') = AList.delete fileId (cl_downloads (client_at self ?w4))"
      using download_over [of self ?w4 fileId ctx env] st by (auto simp: stored_def Let_def)
    then show ?thesis
      using h True st disk s by (intro exI [of _ w'])
        (simp add: stored_def Let_def disk_bytes_def delete_conv' signal_client_def)
  next
    case False
    have "length F mod FILE_PART_SIZE \<noteq> 0"
    proof
      assume "length F mod FILE_PART_SIZE = 0"
      then obtain k where k: "length F = k * FILE_PART_SIZE" by (metis mod_0_imp_dvd dvdE mult.commute)
      have "n * FILE_PART_SIZE < length F" using part_starts_inside [OF F(1)] n by (metis lessI)
      then have "n < k" using k by simp
      moreover have "k \<le> Suc n" using k all part_size_pos by (metis mult_le_cancel2)
      ultimately have "k = Suc n" by simp
      then show False using False k by (simp add: file_part_def)
    qed
    moreover have "map_of (cl_downloads (client_at self (download_finished fileId ctx self w3))) fileId = None"
      by (simp add: download_finished_def Let_def delete_conv')
    moreover have "(signal_client self w, FileDownloaded fileId name) \<in> set (w_log (download_finished fileId ctx self w3))"
      "disk_bytes name (download_finished fileId ctx self w3) = F"
      using st s disk by (simp_all add: download_finished_def Let_def stored_def)
    ultimately show ?thesis
      using h False next_download_frame [of self "download_finished fileId ctx self w3" fileId env]
      by (auto simp: disk_bytes_def)
  qed
qed

text \<open>The answers of a server that has the file: part after part.\<close>

definition part_answer :: "bytes \<Rightarrow> tgobject" where
  "part_answer b = [(''_'', VInt UploadFile), (''bytes'', VBytes b)]"

fun serve_parts :: "clenv \<Rightarrow> bytes \<Rightarrow> cref \<Rightarrow> nat \<Rightarrow> nat \<Rightarrow> world \<Rightarrow> fault + world" where
  "serve_parts env F self 0 n w = Inr w"
| "serve_parts env F self (Suc k) n w =
     (case handleDownloadingFile env (part_answer (file_part n F)) (last_request w) self w of
        Inl e \<Rightarrow> Inl e
      | Inr w' \<Rightarrow> serve_parts env F self k (Suc n) w')"

lemma download_run:
  assumes "downloading F n fileId name loc (last_request w) self w" and F: "F \<noteq> []" "length F < 2 ^ 50" and "n < part_count F"
  shows "\<exists>w'. serve_parts env F self (part_count F - n) n w = Inr w' \<and> disk_bytes name w' = F \<and>
    map_of (cl_downloads (client_at self w')) fileId = None \<and> (\<exists>s. (s, FileDownloaded fileId name) \<in> set (w_log w')) \<and>
    (length F mod FILE_PART_SIZE = 0 \<longrightarrow> cl_currentDownloading (client_at self w') = fileId)"
  using assms(1,4)
proof (induction "part_count F - n" arbitrary: n w)
  case 0
  then show ?case by simp
next
  case (Suc r)
  have p: "obj_get (part_answer (file_part n F)) ''bytes'' = VBytes (file_part n F)" by (simp add: part_answer_def)
  show ?case
  proof (cases "Suc n = part_count F")
    case True
    then have "part_count F - n = Suc 0" by simp
    then show ?thesis using download_ends [OF Suc.prems(1) F True p, of env] by auto
  next
    case False
    then have lt: "Suc n < part_count F" using Suc.prems(2) by simp
    obtain mid' w1 where h: "handleDownloadingFile env (part_answer (file_part n F)) (last_request w) self w = Inr w1"
      and d: "downloading F (Suc n) fileId name loc mid' self w1"
      and q: "requests_of (w_log w1) = requests_of (w_log w) @ [(get_request loc (Suc n), mid')]"
      using download_continues [OF Suc.prems(1) F lt p] by blast
    have "last_request w1 = mid'" using q by (simp add: last_request_def)
    then have "downloading F (Suc n) fileId name loc (last_request w1) self w1" using d by simp
    from Suc.hyps(1) [OF _ this lt] show ?thesis
      using Suc.hyps(2) h by (simp add: Suc_diff_Suc [symmetric, OF Suc.prems(2)])
  qed
qed

text \<open>A download that is the only one of its client, which is the client for the file's data centre.\<close>

lemma downloadFile_starts:
  assumes c: "c = client_at self w" "isAuthorized c" "cl_main c" "cl_downloads c = []" "cl_currentDownloading c = 0"
    and loc: "file_location inputFile fileSize dcId = (loc, of_nat (length F), dc)" "dc = 0 \<or> tp_currentDc (cl_transport c) = dc"
    and l: "qv_toLongLong (obj_get loc ''id'') \<noteq> 0 \<or> qv_toLongLong (obj_get loc ''photo_id'') \<noteq> 0"
    and e: "ce_writable env name" "te_hash_order (ce_tp env) [fileId] = [fileId]" "fileId \<noteq> 0"
    and F: "F \<noteq> []" "length F < 2 ^ 50"
  shows "\<exists>w1. downloadFile env name inputFile fileSize dcId fileId self w = (fileId, w1) \<and>
    downloading F 0 fileId name loc (last_request w1) self w1"
proof -
  define k where "k = snd (randomLong (te_qt (ce_tp env)) (ce_rng env) (w_draws w))"
  let ?ctx0 = "ctx_new (fst (randomLong (te_qt (ce_tp env)) (ce_rng env) (w_draws w))) name (of_nat (length F)) loc"
  define ctx where "ctx = ?ctx0\<lparr>fc_open := True, fc_fileId := fileId\<rparr>"
  define w2 where "w2 = w\<lparr>w_draws := k, w_disk := (w_disk w)(name := Some [])\<rparr>"
  define w4 where "w4 = put_client self (c\<lparr>cl_downloads := [(fileId, ctx)]\<rparr>) w2"
  have w2c: "client_at self w2 = c" by (simp add: w2_def c(1) client_at_def split: option.splits)
  have dl: "download_ctx env loc name (of_nat (length F)) w = (?ctx0, w\<lparr>w_draws := k\<rparr>)"
    by (simp add: download_ctx_def draw_file_id_def case_prod_unfold Let_def k_def)
  have gc: "getClientForDc env dc self w2 = (Some self, w2)"
    using loc(2) c(3) by (simp add: getClientForDc_def own_client_for_dc_def w2c)
  have df: "downloadFile env name inputFile fileSize dcId fileId self w = (fileId, snd (downloadNextFilePart env self w4))"
    using loc(1) l e dl gc c(4) w2c
    by (simp add: downloadFile_def Let_def ctx_def [symmetric]) (simp add: w2_def [symmetric] w4_def ctx_def)
  define w5 where "w5 = put_client self (c\<lparr>cl_downloads := [(fileId, ctx)], cl_currentDownloading := fileId\<rparr>) w2"
  have same: "downloadNextFilePart env self w4 = downloadNextFilePart env self w5"
    using e c(2,5) by (simp add: downloadNextFilePart_def Let_def w4_def w5_def isAuthorized_def)
  have at: "download_at F 0 ctx" by (simp add: download_at_def ctx_def ctx_new_def)
  have left: "\<not> (fc_length ctx \<noteq> 0 \<and> fc_bytesLeft ctx \<le>s 0)" using download_at_left [OF at F(2)] F(1) by simp
  obtain mid w' where nx: "downloadNextFilePart env self w5 = (mid, w')" "w_disk w' = w_disk w5"
    "w_log w' = w_log w5 @ [(self, Sent (getFile_request ctx) mid)]"
    "map_of (cl_filePackets (client_at self w')) mid = Some fileId" "isAuthorized (client_at self w')"
    "cl_currentDownloading (client_at self w') = fileId"
    "map_of (cl_downloads (client_at self w')) fileId = Some (ctx\<lparr>fc_currentPart := fc_currentPart ctx + 1, fc_queue := [mid]\<rparr>)"
    using downloads_asked [of self w5 fileId ctx env] c(2) e(3) left
    by (auto simp: w5_def isAuthorized_def ctx_def ctx_new_def)
  have "downloading F 0 fileId name loc mid self w'"
    using nx at e(3) by (simp add: downloading_def ctx_def ctx_new_def download_at_def disk_bytes_def w5_def w2_def)
  moreover have "last_request w' = mid" using nx(3) by (simp add: last_request_def)
  ultimately show ?thesis using df same nx(1) by auto
qed

subsection \<open>What goes wrong\<close>

text \<open>A current download that is not there any more keeps every other one from being asked for.\<close>

definition download_stalled :: "cref \<Rightarrow> world \<Rightarrow> bool" where
  "download_stalled self w \<longleftrightarrow> cl_currentDownloading (client_at self w) \<noteq> 0 \<and>
     map_of (cl_downloads (client_at self w)) (cl_currentDownloading (client_at self w)) = None"

lemma put_client_at [simp]: "put_client self (client_at self w) w = w"
  by (auto simp: put_client_def client_at_def split: option.splits)

lemma stalled_asks_nothing:
  assumes "download_stalled self w" and "cl_downloads (client_at self w) \<noteq> []"
  shows "downloadNextFilePart env self w = (0, w)"
  using assms by (simp add: downloadNextFilePart_def download_stalled_def Let_def)

lemma downloadFile_stalls:
  assumes st: "download_stalled self w" and m: "cl_main (client_at self w)"
    and loc: "file_location inputFile fileSize dcId = (loc, sz, dc)" "dc = 0 \<or> tp_currentDc (cl_transport (client_at self w)) = dc"
    and l: "qv_toLongLong (obj_get loc ''id'') \<noteq> 0 \<or> qv_toLongLong (obj_get loc ''photo_id'') \<noteq> 0"
    and e: "ce_writable env name" and i: "fileId \<noteq> 0" "fileId \<noteq> cl_currentDownloading (client_at self w)"
  shows "\<exists>w1. downloadFile env name inputFile fileSize dcId fileId self w = (fileId, w1) \<and> w_log w1 = w_log w \<and>
    map_of (cl_downloads (client_at self w1)) fileId \<noteq> None \<and> downloadNextFilePart env self w1 = (0, w1)"
proof -
  define k where "k = snd (randomLong (te_qt (ce_tp env)) (ce_rng env) (w_draws w))"
  let ?ctx = "(ctx_new (fst (randomLong (te_qt (ce_tp env)) (ce_rng env) (w_draws w))) name sz loc)\<lparr>fc_open := True, fc_fileId := fileId\<rparr>"
  let ?c = "client_at self w"
  define w2 where "w2 = w\<lparr>w_draws := k, w_disk := (w_disk w)(name := Some [])\<rparr>"
  define w4 where "w4 = put_client self (?c\<lparr>cl_downloads := AList.update fileId ?ctx (cl_downloads ?c)\<rparr>) w2"
  have w2c: "client_at self w2 = ?c" by (simp add: w2_def client_at_def split: option.splits)
  have gc: "getClientForDc env dc self w2 = (Some self, w2)"
    using loc(2) m by (simp add: getClientForDc_def own_client_for_dc_def w2c)
  have df: "downloadFile env name inputFile fileSize dcId fileId self w = (fileId, snd (downloadNextFilePart env self w4))"
    using loc(1) l e i gc w2c
    by (simp add: downloadFile_def download_ctx_def draw_file_id_def case_prod_unfold Let_def k_def [symmetric])
      (simp add: w2_def [symmetric] w4_def Let_def)
  have "download_stalled self w4" using st i by (simp add: download_stalled_def w4_def AList.update_conv')
  moreover have "map_of (cl_downloads (client_at self w4)) fileId \<noteq> None" by (simp add: w4_def map_of_update)
  moreover from this have "cl_downloads (client_at self w4) \<noteq> []" by auto
  ultimately have "downloadNextFilePart env self w4 = (0, w4)" by (intro stalled_asks_nothing)
  then show ?thesis using df \<open>map_of _ _ \<noteq> None\<close> by (simp add: w4_def) (simp add: w2_def)
qed

text \<open>A full part of a download whose size is not known: the progress report divides by it.\<close>

lemma unknown_size_divides:
  assumes "map_of (cl_filePackets (client_at self w)) mid = Some fileId"
    and "map_of (cl_downloads (client_at self w)) fileId = Some ctx" and "fc_open ctx" and "fc_length ctx = 0"
    and "length b = FILE_PART_SIZE"
  shows "handleDownloadingFile env (part_answer b) mid self w = Inl FaultDivision"
  using handleDownloadingFile_eq [OF assms(1-3), of "part_answer b" b env] assms(4,5)
  by (simp add: part_answer_def percent_def)

text \<open>The size of a photo is that of the chosen representation; a progressive one has no \<open>size\<close> field.\<close>

lemma chosen_size_unknown:
  assumes "\<forall>v \<in> set sizes. \<not> obj_has (qv_toMap v) ''size''"
  shows "qv_toLongLong (obj_get (photo_size sizes) ''size'') = 0"
proof -
  have "\<not> obj_has acc ''size'' \<Longrightarrow> \<not> obj_has (fold (\<lambda>v t. better_size (qv_toMap v) t) sizes acc) ''size''" for acc
    using assms by (induction sizes arbitrary: acc) (simp_all add: better_size_def)
  then have "\<not> obj_has (photo_size sizes) ''size''" by (simp add: photo_size_def)
  then show ?thesis by (auto simp: obj_get_def obj_has_def)
qed

text \<open>A file that became shorter than the part to read: the reads find nothing, for ever.\<close>

lemma short_file_hangs:
  assumes "length F < pos + n" and "0 < n"
  shows "read_loop (file_read F) id n buffer pos = None"
proof (cases "pos < length F")
  case True
  have "read_loop (file_read F) id (n - (length F - pos)) (buffer @ drop pos F) (length F) = None"
    using assms True by (intro read_loop_diverges) (simp_all add: file_read_def)
  then show ?thesis using assms True by (subst read_loop.simps) (simp add: file_read_def min_def)
next
  case False
  then show ?thesis using assms by (intro read_loop_diverges) (simp_all add: file_read_def)
qed

lemma truncated_upload:
  assumes "isAuthorized (client_at self w)" and "map_of (cl_uploads (client_at self w)) fileId = Some ctx"
    and "fc_bytesLeft ctx = of_nat r" and "0 < r" and "r < 2 ^ 50"
    and "length (disk_bytes (fc_fileName ctx) w) < fc_pos ctx + min r FILE_PART_SIZE"
  shows "uploadNextFilePart env fileId self w = Inl FaultHang"
proof -
  have "sint (part_size ctx) = int (min r FILE_PART_SIZE)" by (rule part_size_min [OF assms(5,3)])
  then have "readFully (file_read (disk_bytes (fc_fileName ctx) w)) id (part_size ctx) (fc_pos ctx) = None"
    using short_file_hangs [OF assms(6)] assms(4) part_size_pos by (simp add: readFully_def KG_MAX_FRAME_def FILE_PART_SIZE_def min_def)
  moreover have "\<not> fc_bytesLeft ctx \<le>s 0" using assms(3,4,5) by (simp add: word_sle_eq sint_i64)
  ultimately show ?thesis using assms(1,2) by (simp add: uploadNextFilePart_def Let_def)
qed

end
