(* ===== verification/ClientFacts.thy ===== *)
theory ClientFacts
  imports Client ClientFilesFacts
begin

section \<open>Requests sent again under a new id\<close>

text \<open>
  After a wrong salt the transport sends a request again under a new id and reports the change. The
  client renames the id in the transfers, so that the answer is recognised; the ids of the password
  check are not renamed.
\<close>

lemma rename_queue_other:
  "k \<noteq> fileId \<Longrightarrow> map_of (rename_queue oldMsg newMsg fileId h) k = map_of h k"
  by (simp add: rename_queue_def AList.update_conv' split: option.splits)

lemma rename_queue_same:
  "map_of h fileId = Some ctx \<Longrightarrow>
     map_of (rename_queue oldMsg newMsg fileId h) fileId = Some (ctx\<lparr>fc_queue := remove1 oldMsg (fc_queue ctx) @ [newMsg]\<rparr>)"
  by (simp add: rename_queue_def map_of_update)

lemma renamed_part_awaited:
  assumes "downloading F n fileId name loc oldMsg self w"
  shows "downloading F n fileId name loc newMsg self (cl_handleMessageChanged oldMsg newMsg self w)"
proof -
  obtain ctx where c: "isAuthorized (client_at self w)" "disk_bytes name w = take (n * FILE_PART_SIZE) F"
    "cl_currentDownloading (client_at self w) = fileId" "fileId \<noteq> 0" "map_of (cl_filePackets (client_at self w)) oldMsg = Some fileId"
    "map_of (cl_downloads (client_at self w)) fileId = Some ctx" "fc_fileId ctx = fileId" "fc_fileName ctx = name"
    "fc_download ctx = loc" "fc_queue ctx = [oldMsg]" "fc_currentPart ctx = of_nat (Suc n)" "download_at F n ctx"
    using assms by (auto simp: downloading_def Let_def)
  then show ?thesis
    by (simp add: cl_handleMessageChanged_def hash_take_def Let_def case_prod_unfold downloading_def isAuthorized_def map_of_update
      rename_queue_same download_at_def)
qed

lemma rename_keeps_password_ids:
  "cl_passwordRequestId (client_at self (cl_handleMessageChanged oldMsg newMsg self w)) = cl_passwordRequestId (client_at self w)"
  "cl_checkPasswordRequestId (client_at self (cl_handleMessageChanged oldMsg newMsg self w)) = cl_checkPasswordRequestId (client_at self w)"
  "cl_pendingPassword (client_at self (cl_handleMessageChanged oldMsg newMsg self w)) = cl_pendingPassword (client_at self w)"
  by (simp_all add: cl_handleMessageChanged_def Let_def case_prod_unfold)

section \<open>Migration of a download\<close>

text \<open>The client of another data centre is made once, and found again.\<close>

lemma own_client_once:
  assumes "own_client_for_dc env dc self w = (r, w1)" and "dc \<noteq> 0" "tp_currentDc (cl_transport (client_at self w)) \<noteq> dc"
    and "self = None"
  shows "own_client_for_dc env dc self w1 = (r, w1)"
  using assms by (auto simp: own_client_for_dc_def Let_def put_client_def client_at_def map_of_update split: option.splits if_splits)

lemma child_keeps_session:
  assumes "dc \<noteq> 0" and "tp_currentDc (cl_transport (w_root w)) \<noteq> dc" and "map_of (cl_forDc (w_root w)) dc = None"
  shows "fst (own_client_for_dc env dc None w) = Some (length (w_children w)) \<and>
    cl_testDc (client_at (Some (length (w_children w))) (snd (own_client_for_dc env dc None w))) = cl_testDc (w_root w) \<and>
    cl_sessionName (client_at (Some (length (w_children w))) (snd (own_client_for_dc env dc None w))) =
      (if cl_sessionName (w_root w) = [] then qs ''user_session'' else cl_sessionName (w_root w)) \<and>
    \<not> cl_main (client_at (Some (length (w_children w))) (snd (own_client_for_dc env dc None w)))"
  using assms by (simp add: own_client_for_dc_def Let_def client_at_def put_client_def client_new_def cl_migrateTo_def)

end
