(* ===== verification/Store.thy ===== *)
theory Store
  imports ClientUtils "HOL-Library.Product_Lexorder"
begin

section \<open>The local cache: libkg/tgstore.cpp\<close>

text \<open>
  \<open>TgStore\<close> keeps peers, dialogs and messages in an SQLite file. A table is the list of its rows in
  rowid order: \<open>INSERT OR REPLACE\<close> removes the row with the same primary key and appends the new one,
  \<open>ORDER BY\<close> is a stable sort and \<open>LIMIT\<close> with a negative number keeps every row. \<open>st_db\<close> is the
  database as the connection sees it, \<open>st_files\<close> what has been committed to each file: a statement
  outside a transaction commits at once, inside one only \<open>commit\<close> does. Whether the driver is there,
  a file opens and the tables can be made are fields of the environment \<open>sqlenv\<close>, as are the two
  directions of \<open>QDataStream\<close> for a \<open>QVariant\<close>. Statements on an open database are taken to succeed.
\<close>

record peer_row =
  pr_id :: i64
  pr_kind :: i32
  pr_title :: qstring
  pr_blob :: bytes

record dialog_row =
  dr_id :: i64
  dr_kind :: i32
  dr_folder :: i32
  dr_top :: i32
  dr_date :: i32
  dr_pinned :: i32
  dr_blob :: bytes

record message_row =
  mr_id :: i64
  mr_kind :: i32
  mr_message :: i32
  mr_date :: i32
  mr_blob :: bytes

record db =
  db_meta :: "(qstring \<times> qstring) list"
  db_peers :: "peer_row list"
  db_dialogs :: "dialog_row list"
  db_messages :: "message_row list"

record store =
  st_connection :: qstring
  st_open :: bool
  st_inBatch :: bool
  st_batched :: i32
  st_path :: qstring
  st_db :: db
  st_files :: "(qstring \<times> db) list"

record sqlenv =
  sq_driver :: bool
  sq_opens :: "qstring \<Rightarrow> bool"
  sq_meta_ok :: bool
  sq_tables_ok :: bool
  sq_pack :: "variant \<Rightarrow> bytes"
  sq_unpack :: "bytes \<Rightarrow> variant"

definition kBatchLimit :: i32 where "kBatchLimit = 200"
definition kStreamVersion :: i32 where "kStreamVersion = 12"
definition SchemaVersion :: i32 where "SchemaVersion = 1"
definition MaxMessagesPerPeer :: i32 where "MaxMessagesPerPeer = 200"

definition empty_db :: db where
  "empty_db = \<lparr>db_meta = [], db_peers = [], db_dialogs = [], db_messages = []\<rparr>"

definition store_new :: "(qstring \<times> db) list \<Rightarrow> store" where
  "store_new files = \<lparr>st_connection = [], st_open = False, st_inBatch = False, st_batched = 0, st_path = [],
     st_db = empty_db, st_files = files\<rparr>"

text \<open>The committed contents of a file; a file that is not there is an empty database.\<close>

definition committed :: "qstring \<Rightarrow> store \<Rightarrow> db" where
  "committed path s = (case map_of (st_files s) path of None \<Rightarrow> empty_db | Some d \<Rightarrow> d)"

subsection \<open>SQL\<close>

definition insert_or_replace :: "('r \<Rightarrow> 'k) \<Rightarrow> 'r \<Rightarrow> 'r list \<Rightarrow> 'r list" where
  "insert_or_replace key r rows = filter (\<lambda>x. key x \<noteq> key r) rows @ [r]"

definition limit_rows :: "i32 \<Rightarrow> 'r list \<Rightarrow> 'r list" where
  "limit_rows n rows = (if sint n < 0 then rows else take (nat (sint n)) rows)"

definition peer_key :: "peer_row \<Rightarrow> i64 \<times> i32" where
  "peer_key r = (pr_id r, pr_kind r)"

definition dialog_key :: "dialog_row \<Rightarrow> i64 \<times> i32" where
  "dialog_key r = (dr_id r, dr_kind r)"

definition message_key :: "message_row \<Rightarrow> i64 \<times> i32 \<times> i32" where
  "message_key r = (mr_id r, mr_kind r, mr_message r)"

text \<open>A statement on the open connection.\<close>

definition sql_exec :: "(db \<Rightarrow> db) \<Rightarrow> store \<Rightarrow> store" where
  "sql_exec f s =
     (let d = f (st_db s)
      in s\<lparr>st_db := d, st_files := if st_inBatch s then st_files s else AList.update (st_path s) d (st_files s)\<rparr>)"

definition insert_peer :: "peer_row \<Rightarrow> db \<Rightarrow> db" where
  "insert_peer r d = d\<lparr>db_peers := insert_or_replace peer_key r (db_peers d)\<rparr>"

definition insert_dialog :: "dialog_row \<Rightarrow> db \<Rightarrow> db" where
  "insert_dialog r d = d\<lparr>db_dialogs := insert_or_replace dialog_key r (db_dialogs d)\<rparr>"

definition insert_message :: "message_row \<Rightarrow> db \<Rightarrow> db" where
  "insert_message r d = d\<lparr>db_messages := insert_or_replace message_key r (db_messages d)\<rparr>"

definition insert_meta :: "qstring \<Rightarrow> i32 \<Rightarrow> db \<Rightarrow> db" where
  "insert_meta k v d = d\<lparr>db_meta := insert_or_replace fst (k, qs_number (scast v)) (db_meta d)\<rparr>"

text \<open>The rows of a conversation, newest first.\<close>

definition newest_rows :: "i64 \<Rightarrow> i32 \<Rightarrow> db \<Rightarrow> message_row list" where
  "newest_rows peerId kind d =
     sort_key (\<lambda>r. - sint (mr_message r)) (filter (\<lambda>r. mr_id r = peerId \<and> mr_kind r = kind) (db_messages d))"

subsection \<open>Opening and closing\<close>

definition meta_value :: "string \<Rightarrow> db \<Rightarrow> i32" where
  "meta_value k d = fold (\<lambda>(key, v) acc. if key = qs k then qs_toInt v else acc) (db_meta d) 0"

definition schema_stale :: "db \<Rightarrow> bool" where
  "schema_stale d =
     (let version = meta_value ''schema_version'' d; streamVersion = meta_value ''stream_version'' d
      in (version \<noteq> 0 \<and> version \<noteq> SchemaVersion) \<or> (streamVersion \<noteq> 0 \<and> streamVersion \<noteq> kStreamVersion))"

definition drop_tables :: "db \<Rightarrow> db" where
  "drop_tables d = d\<lparr>db_peers := [], db_dialogs := [], db_messages := []\<rparr>"

definition createSchema :: "sqlenv \<Rightarrow> store \<Rightarrow> bool \<times> store" where
  "createSchema env s =
     (if \<not> sq_meta_ok env then (False, s)
      else
        let s1 = (if schema_stale (st_db s) then sql_exec drop_tables s else s)
        in if \<not> sq_tables_ok env then (False, s1)
           else (True, sql_exec (insert_meta (qs ''stream_version'') kStreamVersion)
                         (sql_exec (insert_meta (qs ''schema_version'') SchemaVersion) s1)))"

definition beginBatch :: "store \<Rightarrow> store" where
  "beginBatch s = (if st_inBatch s then s else s\<lparr>st_inBatch := True, st_batched := 0\<rparr>)"

definition store_flush :: "store \<Rightarrow> store" where
  "store_flush s =
     (if \<not> st_open s \<or> \<not> st_inBatch s then s
      else s\<lparr>st_files := AList.update (st_path s) (st_db s) (st_files s), st_inBatch := False, st_batched := 0\<rparr>)"

definition store_close :: "store \<Rightarrow> store" where
  "store_close s =
     (if \<not> st_open s then s
      else (store_flush s)\<lparr>st_connection := [], st_open := False, st_inBatch := False, st_batched := 0\<rparr>)"

definition store_open :: "sqlenv \<Rightarrow> qstring \<Rightarrow> qstring \<Rightarrow> store \<Rightarrow> bool \<times> store" where
  "store_open env filePath connectionName s0 =
     (let s = store_close s0
      in if \<not> sq_driver env then (False, s)
         else if \<not> sq_opens env filePath then (False, s\<lparr>st_connection := []\<rparr>)
         else
           case createSchema env (s\<lparr>st_connection := connectionName, st_open := True, st_path := filePath,
                                    st_db := committed filePath s\<rparr>) of
             (False, t) \<Rightarrow> (False, store_close t)
           | (True, t) \<Rightarrow> (True, t))"

definition store_clear :: "store \<Rightarrow> store" where
  "store_clear s = (if \<not> st_open s then s else sql_exec drop_tables (store_flush s))"

subsection \<open>Writing\<close>

definition count_batched :: "store \<Rightarrow> store" where
  "count_batched s = s\<lparr>st_batched := st_batched s + 1\<rparr>"

definition flush_full :: "store \<Rightarrow> store" where
  "flush_full s = (if kBatchLimit \<le>s st_batched s then store_flush s else s)"

definition is_stub :: "tgobject \<Rightarrow> bool" where
  "is_stub item \<longleftrightarrow> objID item = UserEmpty \<or> objID item = ChatEmpty"

definition peer_title :: "i32 \<Rightarrow> tgobject \<Rightarrow> qstring" where
  "peer_title kind item =
     (if kind = User
      then trimmed (qv_toString (obj_get item ''first_name'') @ qs '' '' @ qv_toString (obj_get item ''last_name''))
      else qv_toString (obj_get item ''title''))"

definition put_peer :: "sqlenv \<Rightarrow> i32 \<Rightarrow> variant \<Rightarrow> store \<Rightarrow> store" where
  "put_peer env kind v s =
     (let item = qv_toMap v; peerId = qv_toLongLong (obj_get item ''id'')
      in if peerId = 0 \<or> is_stub item then s
         else count_batched (sql_exec (insert_peer \<lparr>pr_id = peerId, pr_kind = kind, pr_title = peer_title kind item,
                                        pr_blob = sq_pack env (VMap item)\<rparr>) s))"

definition putPeers :: "sqlenv \<Rightarrow> variant list \<Rightarrow> variant list \<Rightarrow> store \<Rightarrow> store" where
  "putPeers env users chats s =
     (if \<not> st_open s \<or> (users = [] \<and> chats = []) then s
      else flush_full (fold (put_peer env Chat) chats (fold (put_peer env User) users (beginBatch s))))"

text \<open>The key of a \<open>Peer\<close>: the three constructors, and nothing else.\<close>

definition row_peer :: "tgobject \<Rightarrow> (i64 \<times> i32) option" where
  "row_peer peer =
     (if objID peer = PeerUser then Some (qv_toLongLong (obj_get peer ''user_id''), User)
      else if objID peer = PeerChat then Some (qv_toLongLong (obj_get peer ''chat_id''), Chat)
      else if objID peer = PeerChannel then Some (qv_toLongLong (obj_get peer ''channel_id''), Chat)
      else None)"

definition dateForMessage :: "variant list \<Rightarrow> (i32 \<times> i32) list" where
  "dateForMessage messages =
     fold (\<lambda>v h. let message = qv_toMap v
                 in AList.update (qv_toInt (obj_get message ''id'')) (qv_toInt (obj_get message ''date'')) h) messages []"

definition put_dialog :: "sqlenv \<Rightarrow> (i32 \<times> i32) list \<Rightarrow> i32 \<Rightarrow> variant \<Rightarrow> store \<Rightarrow> store" where
  "put_dialog env dates folderId v s =
     (let dialog = qv_toMap v; topMessage = qv_toInt (obj_get dialog ''top_message'')
      in case row_peer (qv_toMap (obj_get dialog ''peer'')) of
           None \<Rightarrow> s
         | Some (peerId, kind) \<Rightarrow>
             count_batched (sql_exec (insert_dialog \<lparr>dr_id = peerId, dr_kind = kind, dr_folder = folderId,
               dr_top = topMessage, dr_date = (case map_of dates topMessage of None \<Rightarrow> 0 | Some d \<Rightarrow> d),
               dr_pinned = (if qv_toBool (obj_get dialog ''pinned'') then 1 else 0),
               dr_blob = sq_pack env (VMap dialog)\<rparr>) s))"

definition putDialogs :: "sqlenv \<Rightarrow> variant list \<Rightarrow> variant list \<Rightarrow> i32 \<Rightarrow> store \<Rightarrow> store" where
  "putDialogs env dialogs messages folderId s =
     (if \<not> st_open s \<or> dialogs = [] then s
      else flush_full (fold (put_dialog env (dateForMessage messages) folderId) dialogs (beginBatch s)))"

definition trim_messages :: "i64 \<Rightarrow> i32 \<Rightarrow> db \<Rightarrow> db" where
  "trim_messages peerId kind d =
     (let kept = map mr_message (limit_rows MaxMessagesPerPeer (newest_rows peerId kind d))
      in d\<lparr>db_messages := filter (\<lambda>r. \<not> (mr_id r = peerId \<and> mr_kind r = kind \<and> mr_message r \<notin> set kept)) (db_messages d)\<rparr>)"

definition store_trim :: "i64 \<Rightarrow> i32 \<Rightarrow> store \<Rightarrow> store" where
  "store_trim peerId kind s = sql_exec (trim_messages peerId kind) s"

text \<open>The conversation a message belongs to: its own peer, or the one the page was asked for.\<close>

definition message_peer :: "tgobject \<Rightarrow> tgobject \<Rightarrow> (i64 \<times> i32) option" where
  "message_peer peer message =
     (let messagePeer = qv_toMap (obj_get message ''peer_id'')
      in row_peer (if objEMPTY messagePeer then peer else messagePeer))"

definition put_message :: "sqlenv \<Rightarrow> tgobject \<Rightarrow> variant \<Rightarrow> store \<times> (i64 \<times> i32) list \<Rightarrow> store \<times> (i64 \<times> i32) list" where
  "put_message env peer v = (\<lambda>(s, touched).
     let message = qv_toMap v; messageId = qv_toInt (obj_get message ''id'')
     in if messageId = 0 then (s, touched)
        else case message_peer peer message of
               None \<Rightarrow> (s, touched)
             | Some (peerId, kind) \<Rightarrow>
                 (count_batched (sql_exec (insert_message \<lparr>mr_id = peerId, mr_kind = kind, mr_message = messageId,
                    mr_date = qv_toInt (obj_get message ''date''), mr_blob = sq_pack env (VMap message)\<rparr>) s),
                  AList.update peerId kind touched))"

definition putMessages :: "sqlenv \<Rightarrow> tgobject \<Rightarrow> variant list \<Rightarrow> store \<Rightarrow> store" where
  "putMessages env peer messages s =
     (if \<not> st_open s \<or> messages = [] then s
      else let (s1, touched) = fold (put_message env peer) messages (beginBatch s, [])
           in flush_full (fold (\<lambda>(peerId, kind). store_trim peerId kind) touched s1))"

definition delete_row :: "i64 \<Rightarrow> i32 \<Rightarrow> variant \<Rightarrow> store \<Rightarrow> store" where
  "delete_row peerId kind v s =
     count_batched (sql_exec (\<lambda>d. d\<lparr>db_messages :=
       filter (\<lambda>r. \<not> (mr_id r = peerId \<and> mr_kind r = kind \<and> mr_message r = qv_toInt v)) (db_messages d)\<rparr>) s)"

definition store_deleteMessages :: "i64 \<Rightarrow> i32 \<Rightarrow> variant list \<Rightarrow> store \<Rightarrow> store" where
  "store_deleteMessages peerId kind messageIds s =
     (if \<not> st_open s \<or> messageIds = [] then s
      else fold (delete_row peerId kind) messageIds (beginBatch s))"

subsection \<open>Reading\<close>

definition store_peer :: "sqlenv \<Rightarrow> i64 \<Rightarrow> i32 \<Rightarrow> store \<Rightarrow> tgobject" where
  "store_peer env peerId kind s =
     (if \<not> st_open s then []
      else case find (\<lambda>r. pr_id r = peerId \<and> pr_kind r = kind) (db_peers (st_db s)) of
             None \<Rightarrow> []
           | Some r \<Rightarrow> qv_toMap (sq_unpack env (pr_blob r)))"

definition dialog_order :: "dialog_row \<Rightarrow> int \<times> int" where
  "dialog_order r = (- sint (dr_pinned r), - sint (dr_date r))"

definition dialog_rows :: "i32 \<Rightarrow> i32 \<Rightarrow> db \<Rightarrow> dialog_row list" where
  "dialog_rows folderId lim d =
     limit_rows lim (sort_key dialog_order (filter (\<lambda>r. dr_folder r = folderId) (db_dialogs d)))"

definition store_dialogs :: "sqlenv \<Rightarrow> i32 \<Rightarrow> i32 \<Rightarrow> store \<Rightarrow> variant list" where
  "store_dialogs env folderId lim s =
     (if \<not> st_open s then [] else map (\<lambda>r. sq_unpack env (dr_blob r)) (dialog_rows folderId lim (st_db s)))"

definition message_rows :: "i64 \<Rightarrow> i32 \<Rightarrow> i32 \<Rightarrow> i32 \<Rightarrow> db \<Rightarrow> message_row list" where
  "message_rows peerId kind fromId lim d =
     limit_rows lim (if fromId = 0 then newest_rows peerId kind d
                     else filter (\<lambda>r. mr_message r <s fromId) (newest_rows peerId kind d))"

definition store_messages :: "sqlenv \<Rightarrow> i64 \<Rightarrow> i32 \<Rightarrow> i32 \<Rightarrow> i32 \<Rightarrow> store \<Rightarrow> variant list" where
  "store_messages env peerId kind fromId lim s =
     (if \<not> st_open s then [] else map (\<lambda>r. sq_unpack env (mr_blob r)) (message_rows peerId kind fromId lim (st_db s)))"

end
