(* ===== verification/ClientDispatch.thy ===== *)
theory ClientDispatch
  imports Client Store TlMethods2 TlTypes8
begin

section \<open>Answers and the cache: libkg/tgclient.cpp\<close>

text \<open>
  What the client does with an answer: it looks at the constructor, decodes the rest and hands the object to the part
  that asked for it, to the cache and to the interface. The main client's cache is shared by its
  children, so the world and one store make up the state. Updates that the manager delivers during a
  call are the new entries of its log, and are cached in their order.
\<close>

subsection \<open>Constructors\<close>

definition HelpCountriesList :: i32 where "HelpCountriesList = - 2016381538"
definition HelpCountriesListNotModified :: i32 where "HelpCountriesListNotModified = - 1815339214"
definition AuthSentCode :: i32 where "AuthSentCode = 1577067778"
definition AuthSentCodeSuccess :: i32 where "AuthSentCodeSuccess = 596704836"
definition AuthSentCodePaymentRequired :: i32 where "AuthSentCodePaymentRequired = - 125665601"
definition AccountPassword :: i32 where "AccountPassword = - 1787080453"
definition AuthAuthorizationSignUpRequired :: i32 where "AuthAuthorizationSignUpRequired = 1148485274"
definition MessagesDialogFilters :: i32 where "MessagesDialogFilters = 718878489"
definition MessagesDialogs :: i32 where "MessagesDialogs = 364538944"
definition MessagesDialogsNotModified :: i32 where "MessagesDialogsNotModified = - 253500010"
definition MessagesDialogsSlice :: i32 where "MessagesDialogsSlice = 1910543603"
definition MessagesAffectedMessages :: i32 where "MessagesAffectedMessages = - 2066640507"
definition UploadFileCdnRedirect :: i32 where "UploadFileCdnRedirect = - 242427324"
definition UpdatesStateCtor :: i32 where "UpdatesStateCtor = - 1519637954"
definition AuthExportedAuthorization :: i32 where "AuthExportedAuthorization = - 1271602504"
definition MessagesChannelMessages :: i32 where "MessagesChannelMessages = - 948520370"
definition MessagesMessages :: i32 where "MessagesMessages = 494135274"
definition MessagesMessagesSlice :: i32 where "MessagesMessagesSlice = 1595959062"
definition MessagesMessagesNotModified :: i32 where "MessagesMessagesNotModified = 1951620897"
definition DialogFilter :: i32 where "DialogFilter = - 1438177711"
definition DialogFilterDefault :: i32 where "DialogFilterDefault = 909284270"
definition DialogFilterChatlist :: i32 where "DialogFilterChatlist = - 1772913705"

lemmas answer_ids = HelpCountriesList_def HelpCountriesListNotModified_def AuthSentCode_def AuthSentCodeSuccess_def
  AuthSentCodePaymentRequired_def AccountPassword_def AuthAuthorizationSignUpRequired_def MessagesDialogFilters_def
  MessagesDialogs_def MessagesDialogsNotModified_def MessagesDialogsSlice_def MessagesAffectedMessages_def
  UploadFileCdnRedirect_def UpdatesStateCtor_def AuthExportedAuthorization_def MessagesChannelMessages_def
  MessagesMessages_def MessagesMessagesSlice_def MessagesMessagesNotModified_def DialogFilter_def
  DialogFilterDefault_def DialogFilterChatlist_def

subsection \<open>State\<close>

record app =
  ap_world :: world
  ap_store :: store

definition app_emit :: "cref \<Rightarrow> signal \<Rightarrow> app \<Rightarrow> app" where
  "app_emit self e a = a\<lparr>ap_world := w_emit self e (ap_world a)\<rparr>"

text \<open>\<open>TgClient::stop\<close>: the store of the main client is written out, a child's own store is never open.\<close>

definition app_stop :: "clenv \<Rightarrow> cref \<Rightarrow> app \<Rightarrow> app" where
  "app_stop env self a =
     a\<lparr>ap_store := (if cl_main (client_at self (ap_world a)) then store_flush (ap_store a) else ap_store a),
       ap_world := cl_stop env self (ap_world a)\<rparr>"

subsection \<open>The cache\<close>

definition dispatchUpdate :: "sqlenv \<Rightarrow> tgobject \<Rightarrow> variant list \<Rightarrow> variant list \<Rightarrow> store \<Rightarrow> store" where
  "dispatchUpdate env update users chats s =
     (let s1 = putPeers env users chats s; message = qv_toMap (obj_get update ''message'')
      in if objEMPTY message then s1 else putMessages env [] [VMap message] s1)"

definition cacheResponse :: "sqlenv \<Rightarrow> tgobject \<Rightarrow> store \<Rightarrow> store" where
  "cacheResponse env response s =
     (if \<not> st_open s then s
      else
        let messages = qv_toList (obj_get response ''messages''); dialogs = qv_toList (obj_get response ''dialogs'');
            s1 = putPeers env (qv_toList (obj_get response ''users'')) (qv_toList (obj_get response ''chats'')) s;
            s2 = putMessages env [] messages s1;
            s3 = (if dialogs \<noteq> [] then putDialogs env dialogs messages 0 s2 else s2)
        in store_flush s3)"

definition cache_event :: "sqlenv \<Rightarrow> event \<Rightarrow> store \<Rightarrow> store" where
  "cache_event env e s = (case e of GotUpdate update users chats date \<Rightarrow> dispatchUpdate env update users chats s | _ \<Rightarrow> s)"

definition with_updates :: "sqlenv \<Rightarrow> (manager \<Rightarrow> bool \<times> manager) \<Rightarrow> cref \<Rightarrow> app \<Rightarrow> bool \<times> app" where
  "with_updates env f self a =
     (let c = client_at self (ap_world a)
      in case cl_updates c of
           None \<Rightarrow> (False, a)
         | Some m \<Rightarrow>
             let (handled, m1) = f m
             in (handled, a\<lparr>ap_world := put_client self (c\<lparr>cl_updates := Some m1\<rparr>) (ap_world a),
                            ap_store := fold (cache_event env) (drop (length (m_out m)) (m_out m1)) (ap_store a)\<rparr>))"

subsection \<open>Dispatch\<close>

definition cl_handleVector :: "clenv \<Rightarrow> bytes \<Rightarrow> i64 \<Rightarrow> cref \<Rightarrow> app \<Rightarrow> app" where
  "cl_handleVector env data mid self a =
     (let q = te_qt (ce_tp env); s1 = snd (readInt32 VNull (mk_stream q data)); (count, s2) = readInt32 VNull s1
      in if qv_toInt count \<le>s 0 then app_emit self (UnknownResponse VECTOR_ID data mid) a
         else
           let conId = qv_toInt (fst (readInt32 count s2))
           in if conId \<in> set [DialogFilter, DialogFilterDefault, DialogFilterChatlist]
              then app_emit self (VectorDialogFilterResponse (qv_toList (tlDeserialize q (readVector (Some readTLDialogFilter)) data)) mid) a
              else if conId \<in> set [User, UserEmpty]
              then app_emit self (VectorUserResponse (qv_toList (tlDeserialize q (readVector (Some readTLUser)) data)) mid) a
              else app_emit self (UnknownResponse VECTOR_ID data mid) a)"

definition unless_handled :: "signal \<Rightarrow> cref \<Rightarrow> bool \<times> app \<Rightarrow> app" where
  "unless_handled e self = (\<lambda>(handled, a). if handled then a else app_emit self e a)"

definition cl_handleObject :: "clenv \<Rightarrow> sqlenv \<Rightarrow> bytes \<Rightarrow> i64 \<Rightarrow> cref \<Rightarrow> app \<Rightarrow> fault + app" where
  "cl_handleObject env sql data mid self a =
     (let q = te_qt (ce_tp env); conId = qv_toInt (fst (readInt32 VNull (mk_stream q data)));
          read = (\<lambda>R. qv_toMap (tlDeserialize q R data)); unknown = UnknownResponse conId data mid
      in if conId = VECTOR_ID then Inr (cl_handleVector env data mid self a)
         else if conId \<in> set [HelpCountriesList, HelpCountriesListNotModified]
         then Inr (app_emit self (HelpCountriesListResponse (read readTLHelpCountriesList) mid) a)
         else if conId \<in> set [AuthSentCode, AuthSentCodeSuccess, AuthSentCodePaymentRequired]
         then Inr (app_emit self (AuthSentCodeResponse (read readTLAuthSentCode) mid) a)
         else if conId = AccountPassword
         then let password = read readTLAccountPassword
              in Inr (app_emit self (AccountPasswordResponse password mid)
                        (a\<lparr>ap_world := handleAccountPassword env password mid self (ap_world a)\<rparr>))
         else if conId \<in> set [AuthAuthorization, AuthAuthorizationSignUpRequired]
         then Inr (app_emit self (AuthAuthorizationResponse (read readTLAuthAuthorization) mid) a)
         else if conId = MessagesDialogFilters
         then Inr (app_emit self (VectorDialogFilterResponse (qv_toList (obj_get (read readTLMessagesDialogFilters) ''filters'')) mid) a)
         else if conId \<in> set [MessagesDialogs, MessagesDialogsNotModified, MessagesDialogsSlice]
         then let dialogs = read readTLMessagesDialogs
              in Inr (app_emit self (MessagesDialogsResponse dialogs mid) (a\<lparr>ap_store := cacheResponse sql dialogs (ap_store a)\<rparr>))
         else if conId = MessagesAffectedMessages
         then let affected = read readTLMessagesAffectedMessages
              in Inr (app_emit self (MessagesAffectedMessagesResponse affected mid) (snd (with_updates sql (handleAffected affected mid) self a)))
         else if conId \<in> set [UploadFile, UploadFileCdnRedirect]
         then (case handleDownloadingFile env (read readTLUploadFile) mid self (ap_world a) of
                 Inl e \<Rightarrow> Inl e
               | Inr w \<Rightarrow> Inr (a\<lparr>ap_world := w\<rparr>))
         else if conId \<in> set [UpdateShort, UpdatesCtor, UpdatesCombined, UpdatesTooLong, UpdateShortMessage,
           UpdateShortChatMessage, UpdateShortSentMessage]
         then Inr (snd (with_updates sql (\<lambda>m. (True, processUpdates (read readTLUpdates) mid m)) self a))
         else if conId = UpdatesStateCtor
         then Inr (unless_handled unknown self (with_updates sql (handleState (read readTLUpdatesState) mid) self a))
         else if conId \<in> set [UpdatesDifference, UpdatesDifferenceEmpty, UpdatesDifferenceSlice, UpdatesDifferenceTooLong]
         then Inr (unless_handled unknown self (with_updates sql (handleDifference (read readTLUpdatesDifference) mid) self a))
         else if conId \<in> set [UpdatesChannelDifference, UpdatesChannelDifferenceEmpty, UpdatesChannelDifferenceTooLong]
         then Inr (unless_handled unknown self
                (with_updates sql (handleChannelDifference (read readTLUpdatesChannelDifference) mid) self a))
         else if conId = AuthExportedAuthorization
         then Inr (a\<lparr>ap_world := handle_exported env (read readTLAuthExportedAuthorization) mid self (ap_world a)\<rparr>)
         else if conId \<in> set [MessagesChannelMessages, MessagesMessages, MessagesMessagesSlice, MessagesMessagesNotModified]
         then let messages = read readTLMessagesMessages
              in Inr (app_emit self (MessagesMessagesResponse messages mid) (a\<lparr>ap_store := cacheResponse sql messages (ap_store a)\<rparr>))
         else Inr (app_emit self unknown a))"

end
