(* ===== verification/StoreFacts.thy ===== *)
theory StoreFacts
  imports Store
begin


section \<open>What the local cache keeps\<close>

text \<open>
  \<open>sql_table\<close> is the contract of a table with a primary key, interpreted on the three tables of the
  cache. From it: what a peer looks up to after a write, which messages of a conversation survive the
  trimming, how a history is paged, and the invariant of every reachable store.
\<close>

locale sql_table =
  fixes rows :: "db \<Rightarrow> 'r list" and put :: "'r \<Rightarrow> db \<Rightarrow> db" and key :: "'r \<Rightarrow> 'k"
  assumes rows_put: "rows (put r d) = insert_or_replace key r (rows d)"
begin

lemma found_after_put: "find (\<lambda>x. key x = k) (rows (put r d)) = (if key r = k then Some r else find (\<lambda>x. key x = k) (rows d))"
proof -
  have "find (\<lambda>x. key x = k) (filter (\<lambda>x. key x \<noteq> key r) xs @ [r]) =
      (if key r = k then Some r else find (\<lambda>x. key x = k) xs)" for xs
    by (induction xs) auto
  then show ?thesis by (simp add: rows_put insert_or_replace_def)
qed

lemma keys_after_put: "distinct (map key (rows d)) \<Longrightarrow> distinct (map key (rows (put r d)))"
  by (auto simp: rows_put insert_or_replace_def distinct_map inj_on_def)

lemma set_after_put: "set (rows (put r d)) = insert r {x \<in> set (rows d). key x \<noteq> key r}"
  by (auto simp: rows_put insert_or_replace_def)

end

interpretation peers: sql_table db_peers insert_peer peer_key
  by unfold_locales (simp add: insert_peer_def)

interpretation dialogs: sql_table db_dialogs insert_dialog dialog_key
  by unfold_locales (simp add: insert_dialog_def)

interpretation messages: sql_table db_messages insert_message message_key
  by unfold_locales (simp add: insert_message_def)

subsection \<open>The members a write leaves alone\<close>

lemma sql_exec_simps [simp]:
  "st_db (sql_exec f s) = f (st_db s)" "st_open (sql_exec f s) = st_open s" "st_inBatch (sql_exec f s) = st_inBatch s"
  "st_path (sql_exec f s) = st_path s" "st_batched (sql_exec f s) = st_batched s"
  "st_connection (sql_exec f s) = st_connection s"
  by (simp_all add: sql_exec_def Let_def)

lemma count_simps [simp]:
  "st_db (count_batched s) = st_db s" "st_open (count_batched s) = st_open s" "st_inBatch (count_batched s) = st_inBatch s"
  "st_path (count_batched s) = st_path s" "st_files (count_batched s) = st_files s"
  by (simp_all add: count_batched_def)

lemma flush_simps [simp]:
  "st_db (store_flush s) = st_db s" "st_open (store_flush s) = st_open s" "st_path (store_flush s) = st_path s"
  "st_db (flush_full s) = st_db s" "st_open (flush_full s) = st_open s" "st_path (flush_full s) = st_path s"
  "st_db (beginBatch s) = st_db s" "st_open (beginBatch s) = st_open s" "st_path (beginBatch s) = st_path s"
  "st_files (beginBatch s) = st_files s"
  by (simp_all add: store_flush_def flush_full_def beginBatch_def)

lemma insert_simps [simp]:
  "db_dialogs (insert_peer r d) = db_dialogs d" "db_messages (insert_peer r d) = db_messages d" "db_meta (insert_peer r d) = db_meta d"
  "db_peers (insert_dialog q d) = db_peers d" "db_messages (insert_dialog q d) = db_messages d" "db_meta (insert_dialog q d) = db_meta d"
  "db_peers (insert_message m d) = db_peers d" "db_dialogs (insert_message m d) = db_dialogs d" "db_meta (insert_message m d) = db_meta d"
  "db_peers (insert_meta k v d) = db_peers d" "db_dialogs (insert_meta k v d) = db_dialogs d" "db_messages (insert_meta k v d) = db_messages d"
  "db_peers (trim_messages i c d) = db_peers d" "db_dialogs (trim_messages i c d) = db_dialogs d" "db_meta (trim_messages i c d) = db_meta d"
  by (simp_all add: insert_peer_def insert_dialog_def insert_message_def insert_meta_def trim_messages_def Let_def)

subsection \<open>Peers\<close>

text \<open>The contract of the peer table: a map from identifier and kind to the record last put.\<close>

definition known_peers :: "sqlenv \<Rightarrow> store \<Rightarrow> i64 \<times> i32 \<Rightarrow> tgobject" where
  "known_peers env s = (\<lambda>(i, k). store_peer env i k s)"

definition learn_peer :: "i32 \<Rightarrow> variant \<Rightarrow> (i64 \<times> i32 \<Rightarrow> tgobject) \<Rightarrow> i64 \<times> i32 \<Rightarrow> tgobject" where
  "learn_peer kind v m =
     (let item = qv_toMap v; peerId = qv_toLongLong (obj_get item ''id'')
      in if peerId = 0 \<or> is_stub item then m else m((peerId, kind) := item))"

definition codec_ok :: "sqlenv \<Rightarrow> bool" where
  "codec_ok env \<longleftrightarrow> (\<forall>v. sq_unpack env (sq_pack env v) = v)"

lemma put_peer_open [simp]: "st_open (put_peer env kind v s) = st_open s"
  by (simp add: put_peer_def Let_def)

lemma put_peer_learns:
  assumes "st_open s" and "codec_ok env"
  shows "known_peers env (put_peer env kind v s) = learn_peer kind v (known_peers env s)"
proof -
  have find: "find (\<lambda>r. pr_id r = i \<and> pr_kind r = k) xs = find (\<lambda>r. peer_key r = (i, k)) xs" for i k xs
    by (simp add: peer_key_def)
  have key: "peer_key \<lparr>pr_id = i, pr_kind = k, pr_title = t, pr_blob = b\<rparr> = (i, k)" for i k t b
    by (simp add: peer_key_def)
  show ?thesis
    using assms
    by (auto simp: fun_eq_iff known_peers_def learn_peer_def put_peer_def store_peer_def Let_def find peers.found_after_put
        codec_ok_def key split: if_splits)
qed

lemma put_peers_fold:
  assumes "st_open s" and "codec_ok env"
  shows "st_open (fold (put_peer env kind) vs s) \<and> known_peers env (fold (put_peer env kind) vs s) = fold (learn_peer kind) vs (known_peers env s)"
  using assms by (induction vs arbitrary: s) (simp_all add: put_peer_learns)

lemma known_peers_cong: "st_db s = st_db t \<Longrightarrow> st_open s = st_open t \<Longrightarrow> known_peers env s = known_peers env t"
  by (simp add: known_peers_def store_peer_def fun_eq_iff cong: option.case_cong)

lemma putPeers_learn:
  assumes "st_open s" and "codec_ok env"
  shows "known_peers env (putPeers env users chats s) = fold (learn_peer Chat) chats (fold (learn_peer User) users (known_peers env s))"
proof (cases "users = [] \<and> chats = []")
  case False
  define t where "t = fold (put_peer env User) users (beginBatch s)"
  have t: "st_open t" "known_peers env t = fold (learn_peer User) users (known_peers env (beginBatch s))"
    using put_peers_fold [of "beginBatch s" env User users] assms by (simp_all add: t_def)
  have "known_peers env (putPeers env users chats s) = known_peers env (fold (put_peer env Chat) chats t)"
    using False assms by (intro known_peers_cong) (simp_all add: putPeers_def t_def)
  moreover have "known_peers env (beginBatch s) = known_peers env s" by (rule known_peers_cong) simp_all
  ultimately show ?thesis
    using put_peers_fold [of t env Chat chats] assms t by simp
qed (simp add: putPeers_def)

subsection \<open>Messages\<close>

text \<open>The ids kept of a conversation, and the newest of a set of them.\<close>

definition kept_ids :: "i64 \<times> i32 \<Rightarrow> db \<Rightarrow> int set" where
  "kept_ids p d = (\<lambda>r. sint (mr_message r)) ` {r \<in> set (db_messages d). (mr_id r, mr_kind r) = p}"

definition newest_of :: "nat \<Rightarrow> int set \<Rightarrow> int list" where
  "newest_of n A = take n (rev (sorted_list_of_set A))"

definition message_ids :: "message_row list \<Rightarrow> int list" where
  "message_ids rows = map (\<lambda>r. sint (mr_message r)) rows"

lemma finite_kept [simp]: "finite (kept_ids p d)"
  by (simp add: kept_ids_def)

lemma newest_of_all: "finite A \<Longrightarrow> card A \<le> n \<Longrightarrow> newest_of n A = rev (sorted_list_of_set A)"
  by (simp add: newest_of_def)

lemma newest_of_twice: "finite A \<Longrightarrow> rev (sorted_list_of_set (set (newest_of n A))) = newest_of n A"
proof -
  assume A: "finite A"
  have "sorted (rev (newest_of n A))"
    by (simp add: newest_of_def rev_take sorted_wrt_drop)
  moreover have "distinct (rev (newest_of n A))"
    using A by (simp add: newest_of_def)
  ultimately have "sorted_list_of_set (set (rev (newest_of n A))) = rev (newest_of n A)"
    by (intro sorted_list_of_set.idem_if_sorted_distinct)
  then show ?thesis by simp
qed

lemma rows_newest_first:
  assumes "distinct (map message_key (db_messages d))"
  shows "message_ids (newest_rows i k d) = rev (sorted_list_of_set (kept_ids (i, k) d))"
proof -
  let ?rows = "filter (\<lambda>r. mr_id r = i \<and> mr_kind r = k) (db_messages d)" and ?key = "\<lambda>r. sint (mr_message r)"
  have "inj_on ?key (set ?rows)"
    using assms by (auto simp: inj_on_def distinct_map message_key_def simp flip: word_eq_iff_signed)
  moreover have "distinct ?rows" using assms by (simp add: distinct_map)
  ultimately have "distinct (rev (message_ids (newest_rows i k d)))"
    by (simp add: message_ids_def newest_rows_def distinct_map)
  moreover have "sorted (rev (message_ids (newest_rows i k d)))"
  proof -
    have "sorted (map (\<lambda>r. - ?key r) (newest_rows i k d))" by (simp add: newest_rows_def)
    then show ?thesis by (simp add: message_ids_def sorted_wrt_rev sorted_wrt_map)
  qed
  moreover have "set (rev (message_ids (newest_rows i k d))) = kept_ids (i, k) d"
    by (auto simp: message_ids_def newest_rows_def kept_ids_def)
  ultimately have "sorted_list_of_set (kept_ids (i, k) d) = rev (message_ids (newest_rows i k d))"
    by (metis sorted_list_of_set.idem_if_sorted_distinct)
  then show ?thesis by simp
qed

subsubsection \<open>Inserting\<close>

text \<open>The conversation and id of a message that is stored.\<close>

definition stored_message :: "tgobject \<Rightarrow> tgobject \<Rightarrow> ((i64 \<times> i32) \<times> i32) option" where
  "stored_message peer message =
     (if qv_toInt (obj_get message ''id'') = 0 then None
      else map_option (\<lambda>p. (p, qv_toInt (obj_get message ''id''))) (message_peer peer message))"

definition new_ids :: "tgobject \<Rightarrow> variant list \<Rightarrow> i64 \<times> i32 \<Rightarrow> int set" where
  "new_ids peer ms p = {sint m |m. \<exists>v \<in> set ms. stored_message peer (qv_toMap v) = Some (p, m)}"

lemma new_ids_simps [simp]:
  "new_ids peer [] p = {}"
  "new_ids peer (v # ms) p = (case stored_message peer (qv_toMap v) of Some (q, m) \<Rightarrow> if q = p then insert (sint m) (new_ids peer ms p) else new_ids peer ms p
     | None \<Rightarrow> new_ids peer ms p)"
  by (auto simp: new_ids_def split: option.splits)

lemma kept_insert:
  "kept_ids p (insert_message r d) = (if (mr_id r, mr_kind r) = p then insert (sint (mr_message r)) (kept_ids p d) else kept_ids p d)"
proof -
  let ?g = "\<lambda>x. sint (mr_message x)" and ?P = "\<lambda>x. (mr_id x, mr_kind x) = p"
  let ?others = "{x \<in> set (db_messages d). message_key x \<noteq> message_key r}"
  have same: "?P x = ?P r \<and> ?g x = ?g r" if "message_key x = message_key r" for x
    using that by (simp add: message_key_def)
  have kept: "kept_ids p (insert_message r d) = ?g ` {x \<in> insert r ?others. ?P x}"
    by (simp add: kept_ids_def messages.set_after_put)
  show ?thesis
  proof (cases "?P r")
    case True
    have "?g ` {x \<in> insert r ?others. ?P x} = insert (?g r) (?g ` {x \<in> set (db_messages d). ?P x})"
    proof
      show "insert (?g r) (?g ` {x \<in> set (db_messages d). ?P x}) \<subseteq> ?g ` {x \<in> insert r ?others. ?P x}"
      proof
        fix n assume "n \<in> insert (?g r) (?g ` {x \<in> set (db_messages d). ?P x})"
        then consider "n = ?g r" | x where "n = ?g x" "x \<in> set (db_messages d)" "?P x" by blast
        then show "n \<in> ?g ` {x \<in> insert r ?others. ?P x}"
          by cases (use True same in blast)+
      qed
    qed blast
    then show ?thesis using True kept by (simp add: kept_ids_def)
  next
    case False
    then have "{x \<in> insert r ?others. ?P x} = {x \<in> set (db_messages d). ?P x}" using same by blast
    then show ?thesis using False kept by (simp add: kept_ids_def)
  qed
qed

lemma put_message_step:
  "put_message env peer v (s, touched) =
     (case stored_message peer (qv_toMap v) of
        None \<Rightarrow> (s, touched)
      | Some ((i, k), m) \<Rightarrow>
          (count_batched (sql_exec (insert_message \<lparr>mr_id = i, mr_kind = k, mr_message = m,
             mr_date = qv_toInt (obj_get (qv_toMap v) ''date''), mr_blob = sq_pack env (VMap (qv_toMap v))\<rparr>) s),
           AList.update i k touched))"
  by (simp add: put_message_def stored_message_def Let_def split: option.split)

lemma put_message_facts:
  assumes "put_message env peer v (s, t) = (s', t')"
  shows "kept_ids p (st_db s') = kept_ids p (st_db s) \<union> new_ids peer [v] p"
    and "distinct (map message_key (db_messages (st_db s))) \<Longrightarrow> distinct (map message_key (db_messages (st_db s')))"
    and "distinct (map fst t) \<Longrightarrow> distinct (map fst t')" and "st_open s' = st_open s"
  using assms by (auto simp: put_message_step kept_insert messages.keys_after_put distinct_update split: option.splits)

lemma put_messages_facts:
  "fold (put_message env peer) ms (s, t) = (s', t') \<Longrightarrow>
     kept_ids p (st_db s') = kept_ids p (st_db s) \<union> new_ids peer ms p \<and>
     (distinct (map message_key (db_messages (st_db s))) \<longrightarrow> distinct (map message_key (db_messages (st_db s')))) \<and>
     (distinct (map fst t) \<longrightarrow> distinct (map fst t')) \<and> st_open s' = st_open s"
proof (induction ms arbitrary: s t)
  case (Cons v ms)
  obtain s2 t2 where step: "put_message env peer v (s, t) = (s2, t2)" by (metis surj_pair)
  have "new_ids peer (v # ms) p = new_ids peer [v] p \<union> new_ids peer ms p" by (auto split: option.split)
  then show ?case
    using Cons.IH [of s2 t2] Cons.prems put_message_facts [OF step] by (auto simp: step)
qed simp

lemma put_messages_fold:
  assumes "fold (put_message env peer) ms (s, t) = (s', t')"
  shows "kept_ids p (st_db s') = kept_ids p (st_db s) \<union> new_ids peer ms p"
    and "distinct (map message_key (db_messages (st_db s))) \<Longrightarrow> distinct (map message_key (db_messages (st_db s')))"
    and "distinct (map fst t) \<Longrightarrow> distinct (map fst t')" and "st_open s' = st_open s"
  using put_messages_facts [OF assms, of p] by simp_all

text \<open>What is touched: every conversation, unless two of one identifier meet in one batch.\<close>

definition unambiguous :: "tgobject \<Rightarrow> variant list \<Rightarrow> i64 \<times> i32 \<Rightarrow> bool" where
  "unambiguous peer ms p \<longleftrightarrow> (\<forall>k. new_ids peer ms (fst p, k) \<noteq> {} \<longrightarrow> k = snd p)"

lemma touched_kind:
  assumes "fold (put_message env peer) ms (s, t) = (s', t')"
    and "\<And>k. new_ids peer ms (i, k) \<noteq> {} \<Longrightarrow> k = k0"
  shows "map_of t' i = (if new_ids peer ms (i, k0) \<noteq> {} then Some k0 else map_of t i)"
  using assms
proof (induction ms arbitrary: s t)
  case (Cons v ms)
  show ?case
  proof (cases "stored_message peer (qv_toMap v)")
    case None
    then show ?thesis using Cons.prems Cons.IH [of s t] by (simp add: put_message_step)
  next
    case (Some x)
    obtain j k m where x: "x = ((j, k), m)" by (metis surj_pair)
    have rest: "k' = k0" if "new_ids peer ms (i, k') \<noteq> {}" for k'
      using Cons.prems(2) [of k'] that by (auto simp: Some x split: if_splits)
    have now: "j = i \<Longrightarrow> k = k0"
      using Cons.prems(2) [of k] by (simp add: Some x)
    show ?thesis
      using Cons.IH [OF _ rest] Cons.prems(1) now by (auto simp: put_message_step Some x update_conv')
  qed
qed simp

subsubsection \<open>Trimming\<close>

lemma limit_200: "limit_rows MaxMessagesPerPeer xs = take 200 xs"
  by (simp add: limit_rows_def MaxMessagesPerPeer_def)

lemma trim_keeps:
  assumes "distinct (map message_key (db_messages d))"
  shows "kept_ids p (trim_messages i k d) = (if p = (i, k) then set (newest_of 200 (kept_ids p d)) else kept_ids p d)"
proof -
  define kept where "kept = map mr_message (take 200 (newest_rows i k d))"
  have "map sint kept = newest_of 200 (kept_ids (i, k) d)"
    using rows_newest_first [OF assms, of i k] by (simp add: kept_def message_ids_def newest_of_def take_map comp_def flip: take_map)
  then have new: "set (newest_of 200 (kept_ids (i, k) d)) = sint ` set kept" by (metis list.set_map)
  have kept: "set kept \<subseteq> mr_message ` {r \<in> set (db_messages d). mr_id r = i \<and> mr_kind r = k}"
    by (auto simp: kept_def newest_rows_def dest!: in_set_takeD)
  have rows: "db_messages (trim_messages i k d) =
      filter (\<lambda>r. \<not> (mr_id r = i \<and> mr_kind r = k \<and> mr_message r \<notin> set kept)) (db_messages d)"
    by (simp add: trim_messages_def Let_def limit_200 kept_def)
  show ?thesis
  proof (cases "p = (i, k)")
    case True
    have "kept_ids p (trim_messages i k d) = sint ` set kept"
    proof
      show "kept_ids p (trim_messages i k d) \<subseteq> sint ` set kept"
        using True by (auto simp: kept_ids_def rows)
      show "sint ` set kept \<subseteq> kept_ids p (trim_messages i k d)"
        using True kept by (fastforce simp: kept_ids_def rows)
    qed
    then show ?thesis using True new by simp
  next
    case False
    then show ?thesis by (auto simp: kept_ids_def rows)
  qed
qed

lemma trim_distinct:
  "distinct (map message_key (db_messages d)) \<Longrightarrow> distinct (map message_key (db_messages (trim_messages i k d)))"
  by (simp add: trim_messages_def Let_def distinct_map inj_on_def)

lemma trim_all_facts:
  "distinct (map message_key (db_messages (st_db s))) \<Longrightarrow> distinct (map fst t) \<Longrightarrow>
     s' = fold (\<lambda>(peerId, kind). store_trim peerId kind) t s \<Longrightarrow>
     kept_ids p (st_db s') = (if p \<in> set t then set (newest_of 200 (kept_ids p (st_db s))) else kept_ids p (st_db s)) \<and>
     distinct (map message_key (db_messages (st_db s'))) \<and> st_open s' = st_open s"
proof (induction t arbitrary: s)
  case (Cons q t)
  obtain i k where q: "q = (i, k)" by (metis surj_pair)
  have d: "distinct (map message_key (db_messages (st_db (store_trim i k s))))"
    using Cons.prems by (simp add: store_trim_def trim_distinct)
  have "p \<notin> set t" if "p = q" using Cons.prems that by force
  then show ?case
    using Cons.IH [OF d] Cons.prems by (auto simp: q store_trim_def trim_keeps)
qed simp

lemma trim_all:
  assumes "distinct (map message_key (db_messages (st_db s)))" and "distinct (map fst t)"
  defines "s' \<equiv> fold (\<lambda>(peerId, kind). store_trim peerId kind) t s"
  shows "kept_ids p (st_db s') = (if p \<in> set t then set (newest_of 200 (kept_ids p (st_db s))) else kept_ids p (st_db s))"
    and "distinct (map message_key (db_messages (st_db s')))" and "st_open s' = st_open s"
  using trim_all_facts [OF assms(1,2), of s' p] by (simp_all add: s'_def)

text \<open>A conversation keeps the 200 newest of the messages it had and those of the batch.\<close>

lemma batch_keeps_newest:
  assumes "st_open s" and "distinct (map message_key (db_messages (st_db s)))"
    and "new_ids peer ms (i, k) \<noteq> {}" and "unambiguous peer ms (i, k)"
  shows "message_ids (newest_rows i k (st_db (putMessages env peer ms s))) =
    newest_of 200 (kept_ids (i, k) (st_db s) \<union> new_ids peer ms (i, k))"
proof -
  obtain s1 t where f: "fold (put_message env peer) ms (beginBatch s, []) = (s1, t)" by (metis surj_pair)
  note F = put_messages_fold [OF f]
  let ?s2 = "fold (\<lambda>(peerId, kind). store_trim peerId kind) t s1"
  have d1: "distinct (map message_key (db_messages (st_db s1)))" using F(2) assms(2) by simp
  have dt: "distinct (map fst t)" using F(3) by simp
  have "ms \<noteq> []" using assms(3) by auto
  then have r: "st_db (putMessages env peer ms s) = st_db ?s2"
    using assms(1) f by (simp add: putMessages_def)
  have "k' = k" if "new_ids peer ms (i, k') \<noteq> {}" for k'
    using assms(4) that by (auto simp: unambiguous_def)
  then have "map_of t i = (if new_ids peer ms (i, k) \<noteq> {} then Some k else map_of [] i)"
    by (rule touched_kind [OF f])
  then have "map_of t i = Some k" using assms(3) by (simp only: if_True not_False_eq_True)
  then have "(i, k) \<in> set t" by (rule map_of_SomeD)
  then have "kept_ids (i, k) (st_db ?s2) = set (newest_of 200 (kept_ids (i, k) (st_db s) \<union> new_ids peer ms (i, k)))"
    by (simp only: trim_all(1) [OF d1 dt] F(1) flush_simps if_True)
  moreover have "distinct (map message_key (db_messages (st_db ?s2)))" by (rule trim_all(2) [OF d1 dt])
  then have "message_ids (newest_rows i k (st_db ?s2)) = rev (sorted_list_of_set (kept_ids (i, k) (st_db ?s2)))"
    by (rule rows_newest_first)
  ultimately have "message_ids (newest_rows i k (st_db ?s2)) =
      rev (sorted_list_of_set (set (newest_of 200 (kept_ids (i, k) (st_db s) \<union> new_ids peer ms (i, k)))))" by (simp only:)
  also have "\<dots> = newest_of 200 (kept_ids (i, k) (st_db s) \<union> new_ids peer ms (i, k))"
    using newest_of_twice [OF finite_kept [of "(i, k)" "st_db s1"], of 200] by (simp only: F(1) flush_simps)
  finally show ?thesis by (simp only: r)
qed


subsection \<open>Paging\<close>

text \<open>
  A page is asked for with the id of the oldest message of the page before: the pages put together are
  what one larger request returns.
\<close>

lemma desc_rest:
  assumes "sorted_wrt (\<lambda>x y. f y < (f x :: int)) xs" and "0 < n" and "n \<le> length xs"
  shows "filter (\<lambda>x. f x < f (last (take n xs))) xs = drop n xs"
proof -
  have l: "last (take n xs) = xs ! (n - 1)" using assms(2,3) by (subst last_conv_nth) auto
  have before: "\<not> f x < f (last (take n xs))" if x: "x \<in> set (take n xs)" for x
  proof -
    obtain k where k: "k < n" "x = xs ! k" using x assms(3) by (auto simp: in_set_conv_nth)
    show ?thesis
    proof (cases "k = n - 1")
      case False
      then have "f (xs ! (n - 1)) < f (xs ! k)" using k(1) assms by (intro sorted_wrt_nth_less [OF assms(1)]) auto
      then show ?thesis using k(2) l by simp
    qed (simp add: k(2) l)
  qed
  have after: "f x < f (last (take n xs))" if x: "x \<in> set (drop n xs)" for x
  proof -
    obtain k where "k < length xs - n" and k: "x = xs ! (n + k)" using x by (auto simp: in_set_conv_nth)
    then have "f (xs ! (n + k)) < f (xs ! (n - 1))" using assms(2) by (intro sorted_wrt_nth_less [OF assms(1)]) auto
    then show ?thesis using k l by simp
  qed
  have "filter (\<lambda>x. f x < f (last (take n xs))) (take n xs @ drop n xs) = drop n xs"
    unfolding filter_append using before after by (simp add: filter_False filter_id_conv)
  then show ?thesis by simp
qed

lemma newest_rows_desc:
  assumes "distinct (map message_key (db_messages d))"
  shows "sorted_wrt (\<lambda>x y. sint (mr_message y) < sint (mr_message x)) (newest_rows i k d)"
proof -
  have "sorted_wrt (\<lambda>x y. y < x) (message_ids (newest_rows i k d))"
    unfolding rows_newest_first [OF assms] by (simp add: sorted_wrt_rev)
  then show ?thesis by (simp add: message_ids_def sorted_wrt_map)
qed

lemma take_nat_add: "0 \<le> a \<Longrightarrow> 0 \<le> b \<Longrightarrow> take (nat (a + b)) xs = take (nat a) xs @ take (nat b) (drop (nat a) xs)"
  by (simp add: take_add nat_add_distrib)

lemma pages_join_rows:
  assumes d: "distinct (map message_key (db_messages d))"
    and page: "message_rows i k 0 n d \<noteq> []" "mr_message (last (message_rows i k 0 n d)) \<noteq> 0"
    and lims: "0 \<le> sint n" "0 \<le> sint m" "sint t = sint n + sint m"
  shows "message_rows i k 0 t d = message_rows i k 0 n d @ message_rows i k (mr_message (last (message_rows i k 0 n d))) m d"
proof -
  let ?rows = "newest_rows i k d" and ?n = "nat (sint n)"
  have first: "message_rows i k 0 n d = take ?n ?rows" using lims by (simp add: message_rows_def limit_rows_def)
  have rest: "filter (\<lambda>r. mr_message r <s mr_message (last (take ?n ?rows))) ?rows = drop ?n ?rows"
  proof (cases "?n \<le> length ?rows")
    case True
    then show ?thesis
      using desc_rest [OF newest_rows_desc [OF d, of i k] _ True] page(1) by (simp add: first word_sless_alt)
  next
    case False
    have "filter (\<lambda>r. mr_message r <s mr_message (last (take (length ?rows) ?rows))) ?rows = drop (length ?rows) ?rows"
      using desc_rest [OF newest_rows_desc [OF d, of i k], of "length ?rows"] page(1) by (simp add: first word_sless_alt)
    then show ?thesis using False by simp
  qed
  have "message_rows i k 0 t d = take ?n ?rows @ take (nat (sint m)) (drop ?n ?rows)"
    using lims take_nat_add [of "sint n" "sint m" ?rows] by (simp add: message_rows_def limit_rows_def)
  moreover have "message_rows i k (mr_message (last (take ?n ?rows))) m d = take (nat (sint m)) (drop ?n ?rows)"
    using page(2) [unfolded first] lims(2) by (simp add: message_rows_def limit_rows_def rest)
  ultimately show ?thesis by (simp add: first)
qed

subsection \<open>The invariant of the cache\<close>

text \<open>
  Every table has unique keys, a row is keyed by what its blob says, a stub or a nameless object is
  never stored, and outside a batch the file holds what the connection sees.
\<close>

definition peer_row_ok :: "sqlenv \<Rightarrow> peer_row \<Rightarrow> bool" where
  "peer_row_ok env r \<longleftrightarrow>
     (let item = qv_toMap (sq_unpack env (pr_blob r))
      in pr_id r \<noteq> 0 \<and> qv_toLongLong (obj_get item ''id'') = pr_id r \<and> \<not> is_stub item \<and> pr_kind r \<in> {User, Chat})"

definition dialog_row_ok :: "sqlenv \<Rightarrow> dialog_row \<Rightarrow> bool" where
  "dialog_row_ok env r \<longleftrightarrow>
     row_peer (qv_toMap (obj_get (qv_toMap (sq_unpack env (dr_blob r))) ''peer'')) = Some (dialog_key r)"

definition message_row_ok :: "sqlenv \<Rightarrow> message_row \<Rightarrow> bool" where
  "message_row_ok env r \<longleftrightarrow> mr_message r \<noteq> 0 \<and> qv_toInt (obj_get (qv_toMap (sq_unpack env (mr_blob r))) ''id'') = mr_message r"

definition db_ok :: "sqlenv \<Rightarrow> db \<Rightarrow> bool" where
  "db_ok env d \<longleftrightarrow>
     distinct (map peer_key (db_peers d)) \<and> distinct (map dialog_key (db_dialogs d)) \<and>
     distinct (map message_key (db_messages d)) \<and> distinct (map fst (db_meta d)) \<and>
     (\<forall>r \<in> set (db_peers d). peer_row_ok env r) \<and> (\<forall>r \<in> set (db_dialogs d). dialog_row_ok env r) \<and>
     (\<forall>r \<in> set (db_messages d). message_row_ok env r)"

definition schema_current :: "db \<Rightarrow> bool" where
  "schema_current d \<longleftrightarrow> meta_value ''schema_version'' d = SchemaVersion \<and> meta_value ''stream_version'' d = kStreamVersion"

definition store_inv :: "sqlenv \<Rightarrow> store \<Rightarrow> bool" where
  "store_inv env s \<longleftrightarrow>
     (\<forall>path. db_ok env (committed path s)) \<and> (st_inBatch s \<longrightarrow> st_open s) \<and>
     (st_open s \<longrightarrow> db_ok env (st_db s) \<and> schema_current (st_db s) \<and> (\<not> st_inBatch s \<longrightarrow> committed (st_path s) s = st_db s))"

text \<open>The invariant without the versions: what holds while the schema is being made.\<close>

definition store_pre :: "sqlenv \<Rightarrow> store \<Rightarrow> bool" where
  "store_pre env s \<longleftrightarrow>
     (\<forall>path. db_ok env (committed path s)) \<and> (st_inBatch s \<longrightarrow> st_open s) \<and>
     (st_open s \<longrightarrow> db_ok env (st_db s) \<and> (\<not> st_inBatch s \<longrightarrow> committed (st_path s) s = st_db s))"

lemma store_inv_pre: "store_inv env s \<longleftrightarrow> store_pre env s \<and> (st_open s \<longrightarrow> schema_current (st_db s))"
  by (auto simp: store_inv_def store_pre_def)

lemma db_ok_empty [simp]: "db_ok env empty_db"
  by (simp add: db_ok_def empty_db_def)

lemma db_ok_drop: "db_ok env d \<Longrightarrow> db_ok env (drop_tables d)"
  by (simp add: db_ok_def drop_tables_def)

lemma db_ok_meta: "db_ok env d \<Longrightarrow> db_ok env (insert_meta k v d)"
  by (auto simp: db_ok_def insert_meta_def insert_or_replace_def distinct_map inj_on_def)

lemma db_ok_peer: "db_ok env d \<Longrightarrow> peer_row_ok env r \<Longrightarrow> db_ok env (insert_peer r d)"
  by (auto simp: db_ok_def peers.keys_after_put peers.set_after_put)

lemma db_ok_dialog: "db_ok env d \<Longrightarrow> dialog_row_ok env r \<Longrightarrow> db_ok env (insert_dialog r d)"
  by (auto simp: db_ok_def dialogs.keys_after_put dialogs.set_after_put)

lemma db_ok_message: "db_ok env d \<Longrightarrow> message_row_ok env r \<Longrightarrow> db_ok env (insert_message r d)"
  by (auto simp: db_ok_def messages.keys_after_put messages.set_after_put)

lemma db_ok_filter: "db_ok env d \<Longrightarrow> db_ok env (d\<lparr>db_messages := filter P (db_messages d)\<rparr>)"
  by (auto simp: db_ok_def distinct_map inj_on_def)

lemma db_ok_trim: "db_ok env d \<Longrightarrow> db_ok env (trim_messages i k d)"
  by (simp add: trim_messages_def Let_def db_ok_filter)

lemmas db_oks = db_ok_drop db_ok_meta db_ok_peer db_ok_dialog db_ok_message db_ok_filter db_ok_trim

lemma committed_update [simp]:
  "committed path (s\<lparr>st_files := AList.update p d (st_files s)\<rparr>) = (if path = p then d else committed path s)"
  "committed path (s\<lparr>st_db := e, st_files := AList.update p d (st_files s)\<rparr>) = (if path = p then d else committed path s)"
  by (simp_all add: committed_def update_conv')

lemma committed_other [simp]:
  "committed path (s\<lparr>st_db := a1\<rparr>) = committed path s" "committed path (s\<lparr>st_inBatch := a2\<rparr>) = committed path s"
  "committed path (s\<lparr>st_batched := a3\<rparr>) = committed path s" "committed path (s\<lparr>st_open := a4\<rparr>) = committed path s"
  "committed path (s\<lparr>st_connection := a5\<rparr>) = committed path s" "committed path (s\<lparr>st_path := a6\<rparr>) = committed path s"
  by (simp_all add: committed_def)

lemma committed_exec: "committed path (sql_exec f s) =
    (if \<not> st_inBatch s \<and> path = st_path s then f (st_db s) else committed path s)"
  by (simp add: sql_exec_def Let_def committed_def update_conv')

lemma pre_exec:
  assumes "store_pre env s" and "st_open s" and "db_ok env (st_db s) \<Longrightarrow> db_ok env (f (st_db s))"
  shows "store_pre env (sql_exec f s)"
  using assms by (auto simp: store_pre_def committed_exec)

lemma current_meta:
  "qs k' \<noteq> qs k \<Longrightarrow> meta_value k' (insert_meta (qs k) v d) = meta_value k' d"
  "qs_toInt (qs_number (scast v)) = v \<Longrightarrow> meta_value k (insert_meta (qs k) v d) = v"
proof -
  assume ne: "qs k' \<noteq> qs k"
  have "fold (\<lambda>(key, v) acc. if key = qs k' then qs_toInt v else acc) (filter (\<lambda>x. fst x \<noteq> qs k) m) acc =
      fold (\<lambda>(key, v) acc. if key = qs k' then qs_toInt v else acc) m acc" for m acc
    using ne by (induction m arbitrary: acc) auto
  then show "meta_value k' (insert_meta (qs k) v d) = meta_value k' d"
    using ne by (simp add: meta_value_def insert_meta_def insert_or_replace_def)
next
  assume "qs_toInt (qs_number (scast v)) = v"
  then show "meta_value k (insert_meta (qs k) v d) = v"
    by (simp add: meta_value_def insert_meta_def insert_or_replace_def)
qed

lemma version_texts:
  "qs_toInt (qs_number (scast SchemaVersion)) = SchemaVersion" "qs_toInt (qs_number (scast kStreamVersion)) = kStreamVersion"
  by (simp_all add: SchemaVersion_def kStreamVersion_def qs_number_def dec_digits.simps qs_toInt_def trimmed_def is_ws_def
      parse_signed_def parse_unsigned_def)

lemma schema_made:
  "schema_current (insert_meta (qs ''stream_version'') kStreamVersion (insert_meta (qs ''schema_version'') SchemaVersion d))"
proof -
  have "qs ''schema_version'' \<noteq> qs ''stream_version''" by (simp add: qs_def)
  then show ?thesis by (simp add: schema_current_def current_meta version_texts)
qed


subsubsection \<open>Every operation keeps it\<close>

lemma inv_flush: "store_inv env s \<Longrightarrow> store_inv env (store_flush s)"
  by (auto simp: store_inv_def store_flush_def)

lemma flush_closes_batch: "store_inv env s \<Longrightarrow> \<not> st_inBatch (store_flush s)"
  by (auto simp: store_inv_def store_flush_def)

lemma store_inv_close: "store_inv env s \<Longrightarrow> store_inv env (store_close s)"
  using inv_flush [of env s] flush_closes_batch [of env s] by (auto simp: store_inv_def store_close_def)

lemma close_simps [simp]: "\<not> st_open (store_close s)"
  by (simp add: store_close_def)

lemma inv_batch: "store_inv env s \<Longrightarrow> st_open s \<Longrightarrow> store_inv env (beginBatch s)"
  by (auto simp: store_inv_def beginBatch_def)

lemma inv_count: "store_inv env (count_batched s) = store_inv env s"
  by (simp add: store_inv_def count_batched_def)

lemma inv_full: "store_inv env s \<Longrightarrow> store_inv env (flush_full s)"
  by (simp add: flush_full_def inv_flush)

lemma inv_exec:
  assumes "store_inv env s" and "st_open s" and "db_ok env (st_db s) \<Longrightarrow> db_ok env (f (st_db s))"
    and "db_meta (f (st_db s)) = db_meta (st_db s)"
  shows "store_inv env (sql_exec f s)"
  using assms pre_exec [of env s f] by (simp add: store_inv_pre schema_current_def meta_value_def)

lemma store_inv_fold:
  assumes "\<And>x s. store_inv env s \<Longrightarrow> st_open s \<Longrightarrow> store_inv env (f x s) \<and> st_open (f x s)"
  shows "store_inv env s \<Longrightarrow> st_open s \<Longrightarrow> store_inv env (fold f xs s) \<and> st_open (fold f xs s)"
  by (induction xs arbitrary: s) (use assms in auto)

lemma inv_put_peer:
  assumes "codec_ok env" and "kind \<in> {User, Chat}" and "store_inv env s" and "st_open s"
  shows "store_inv env (put_peer env kind v s) \<and> st_open (put_peer env kind v s)"
  using assms by (auto simp: put_peer_def Let_def inv_count codec_ok_def peer_row_ok_def intro!: inv_exec db_ok_peer)

lemma inv_putPeers: "codec_ok env \<Longrightarrow> store_inv env s \<Longrightarrow> store_inv env (putPeers env users chats s)"
  by (auto simp: putPeers_def intro!: inv_full store_inv_fold [THEN conjunct1] store_inv_fold [THEN conjunct2] inv_put_peer [THEN conjunct1] inv_batch)

lemma inv_put_dialog:
  assumes "codec_ok env" and "store_inv env s" and "st_open s"
  shows "store_inv env (put_dialog env dates folderId v s) \<and> st_open (put_dialog env dates folderId v s)"
  using assms
  by (auto simp: put_dialog_def Let_def inv_count codec_ok_def dialog_row_ok_def dialog_key_def
      intro!: inv_exec db_ok_dialog split: option.split)

lemma inv_putDialogs: "codec_ok env \<Longrightarrow> store_inv env s \<Longrightarrow> store_inv env (putDialogs env dialogs ms folderId s)"
  by (auto simp: putDialogs_def intro!: inv_full store_inv_fold [THEN conjunct1] inv_put_dialog [THEN conjunct1] inv_put_dialog [THEN conjunct2] inv_batch)

lemma inv_put_message:
  assumes "codec_ok env" and "store_inv env s" and "st_open s"
  shows "store_inv env (fst (put_message env peer v (s, t))) \<and> st_open (fst (put_message env peer v (s, t)))"
  using assms
  by (auto simp: put_message_step stored_message_def inv_count codec_ok_def message_row_ok_def
      intro!: inv_exec db_ok_message split: option.split if_splits)

lemma inv_put_messages:
  assumes "codec_ok env" and "store_inv env s" and "st_open s"
  shows "store_inv env (fst (fold (put_message env peer) ms (s, t))) \<and> st_open (fst (fold (put_message env peer) ms (s, t)))"
  using assms(2,3)
proof (induction ms arbitrary: s t)
  case (Cons v ms)
  show ?case
    using Cons.IH inv_put_message [OF assms(1) Cons.prems, of peer v t] by (cases "put_message env peer v (s, t)") simp
qed simp

lemma inv_trim: "store_inv env s \<Longrightarrow> st_open s \<Longrightarrow> store_inv env (store_trim i k s)"
  by (auto simp: store_trim_def intro!: inv_exec db_ok_trim)

lemma trim_open [simp]: "st_open (store_trim i k s) = st_open s"
  by (simp add: store_trim_def)

lemma inv_putMessages:
  assumes "codec_ok env" and "store_inv env s"
  shows "store_inv env (putMessages env peer ms s)"
proof (cases "st_open s \<and> ms \<noteq> []")
  case True
  obtain s1 t where f: "fold (put_message env peer) ms (beginBatch s, []) = (s1, t)" by (metis surj_pair)
  then have "store_inv env s1" "st_open s1"
    using inv_put_messages [OF assms(1) inv_batch [OF assms(2)], of peer ms "[]"] True by simp_all
  then show ?thesis
    using True f by (auto simp: putMessages_def intro!: inv_full store_inv_fold [THEN conjunct1] inv_trim)
qed (use assms in \<open>auto simp: putMessages_def\<close>)

lemma inv_delete:
  "store_inv env s \<Longrightarrow> store_inv env (store_deleteMessages i k ms s)"
  by (auto simp: store_deleteMessages_def delete_row_def inv_count intro!: store_inv_fold [THEN conjunct1] inv_exec db_ok_filter inv_batch)

lemma store_inv_clear:
  assumes "store_inv env s"
  shows "store_inv env (store_clear s)"
  using inv_flush [OF assms] assms by (auto simp: store_clear_def drop_tables_def intro!: inv_exec db_ok_drop [unfolded drop_tables_def])

lemma createSchema_opens:
  assumes "store_pre env s" and "st_open s" and "createSchema senv s = (ok, t)"
  shows "store_pre env t \<and> st_open t \<and> (ok \<longrightarrow> schema_current (st_db t))"
  using assms
  by (auto simp: createSchema_def Let_def schema_made intro!: pre_exec db_oks split: if_splits)


lemma pre_close: "store_pre env s \<Longrightarrow> store_inv env (store_close s)"
  by (auto simp: store_inv_def store_pre_def store_close_def store_flush_def)

lemma inv_open:
  assumes "store_inv env s"
  shows "store_inv env (snd (store_open env path conn s))"
proof -
  have c: "store_inv env (store_close s)" by (rule store_inv_close [OF assms])
  define t where "t = store_close s\<lparr>st_connection := conn, st_open := True, st_path := path, st_db := committed path (store_close s)\<rparr>"
  have t: "store_pre env t" "st_open t"
    using c by (auto simp: t_def store_inv_def store_pre_def)
  obtain ok u where u: "createSchema env t = (ok, u)" by (metis surj_pair)
  have u': "store_pre env u" "ok \<Longrightarrow> store_inv env u"
    using createSchema_opens [OF t u] by (auto simp: store_inv_pre)
  have "store_inv env (store_close s\<lparr>st_connection := []\<rparr>)" using c by (simp add: store_inv_def)
  then show ?thesis
    using c u u' pre_close [OF u'(1)] by (auto simp: store_open_def Let_def t_def split: bool.split)
qed

text \<open>One step for every operation; and the process may be killed at any time.\<close>

inductive store_step :: "sqlenv \<Rightarrow> store \<Rightarrow> store \<Rightarrow> bool" for env where
  ss_open: "store_step env s (snd (store_open env path conn s))"
| ss_close: "store_step env s (store_close s)"
| ss_flush: "store_step env s (store_flush s)"
| ss_clear: "store_step env s (store_clear s)"
| ss_peers: "store_step env s (putPeers env users chats s)"
| ss_dialogs: "store_step env s (putDialogs env dialogs ms folderId s)"
| ss_messages: "store_step env s (putMessages env peer ms s)"
| ss_delete: "store_step env s (store_deleteMessages i k ids s)"
| ss_killed: "store_step env s (store_new (st_files s))"

inductive_cases store_step_cases: "store_step env s s'"

lemma inv_new: "store_inv env s \<Longrightarrow> store_inv env (store_new (st_files s))"
  by (simp add: store_inv_def store_new_def committed_def)

lemma store_inv_step: "codec_ok env \<Longrightarrow> store_inv env s \<Longrightarrow> store_step env s s' \<Longrightarrow> store_inv env s'"
  by (erule store_step_cases)
    (simp_all add: inv_open store_inv_close inv_flush store_inv_clear inv_putPeers inv_putDialogs inv_putMessages inv_delete inv_new)

lemma inv_first: "store_inv env (store_new [])"
  by (simp add: store_inv_def store_new_def committed_def)

text \<open>The environment is part of the state here, so that the system needs no assumption on it.\<close>

definition cache_step :: "sqlenv \<times> store \<Rightarrow> sqlenv \<times> store \<Rightarrow> bool" where
  "cache_step x y \<longleftrightarrow> fst y = fst x \<and> store_step (fst x) (snd x) (snd y)"

definition cache_start :: "sqlenv \<times> store \<Rightarrow> bool" where
  "cache_start x \<longleftrightarrow> codec_ok (fst x) \<and> snd x = store_new []"

interpretation cache: invariant_system cache_start cache_step "\<lambda>x. codec_ok (fst x) \<and> store_inv (fst x) (snd x)"
  by unfold_locales (auto simp: cache_start_def cache_step_def inv_first store_inv_step)

lemma cache_run: "(store_step env)\<^sup>*\<^sup>* s t \<Longrightarrow> cache_step\<^sup>*\<^sup>* (env, s) (env, t)"
  by (induction rule: rtranclp_induct) (auto simp: cache_step_def intro: rtranclp.rtrancl_into_rtrancl)

subsection \<open>What survives a restart\<close>

lemma reopened:
  fixes conn :: qstring
  assumes "store_inv env s" and "st_open s" and "\<not> st_inBatch s"
    and "sq_driver env" "sq_opens env (st_path s)" "sq_meta_ok env" "sq_tables_ok env"
  defines "t \<equiv> snd (store_open env (st_path s) conn (store_new (st_files s)))"
  shows "fst (store_open env (st_path s) conn (store_new (st_files s)))" and "st_open t"
    and "db_peers (st_db t) = db_peers (st_db s)" and "db_dialogs (st_db t) = db_dialogs (st_db s)"
    and "db_messages (st_db t) = db_messages (st_db s)"
proof -
  define u where "u = store_new (st_files s)\<lparr>st_connection := conn, st_open := True, st_path := st_path s, st_db := st_db s\<rparr>"
  have c: "committed (st_path s) (store_new (st_files s)) = st_db s"
    using assms(1-3) by (simp add: store_inv_def committed_def store_new_def)
  have "\<not> schema_stale (st_db s)" using assms(1,2) by (simp add: store_inv_def schema_current_def schema_stale_def Let_def)
  then have "createSchema env u = (True, sql_exec (insert_meta (qs ''stream_version'') kStreamVersion)
      (sql_exec (insert_meta (qs ''schema_version'') SchemaVersion) u))"
    using assms(6,7) by (simp add: createSchema_def u_def Let_def)
  moreover have "store_close (store_new (st_files s)) = store_new (st_files s)" by (simp add: store_close_def store_new_def)
  ultimately have "store_open env (st_path s) conn (store_new (st_files s)) =
      (True, sql_exec (insert_meta (qs ''stream_version'') kStreamVersion) (sql_exec (insert_meta (qs ''schema_version'') SchemaVersion) u))"
    using assms(4,5) c by (simp add: store_open_def u_def)
  then show "fst (store_open env (st_path s) conn (store_new (st_files s)))" and "st_open t"
    and "db_peers (st_db t) = db_peers (st_db s)" and "db_dialogs (st_db t) = db_dialogs (st_db s)"
    and "db_messages (st_db t) = db_messages (st_db s)"
    by (simp_all add: t_def u_def)
qed

end
