(* ===== verification/CacheFacts.thy ===== *)
theory CacheFacts
  imports ClientDispatch StoreFacts
begin

section \<open>What the client keeps of an answer\<close>

text \<open>
  The tables a write leaves alone, what becomes of a conversation when another of the same identifier is in the
  batch, and what is on disk after an answer was handled.
\<close>

subsection \<open>Writes and other tables\<close>

lemma db_frame_fold:
  assumes "\<And>x s. g (st_db (f x s)) = g (st_db s)"
  shows "g (st_db (fold f xs s)) = g (st_db s)"
  by (induction xs arbitrary: s) (simp_all add: assms)

lemma put_message_frame: "db_peers (st_db (fst (put_message env peer v x))) = db_peers (st_db (fst x))"
  "st_path (fst (put_message env peer v x)) = st_path (fst x)"
  by (cases x; simp add: put_message_step split: option.split)+

lemma put_messages_frame: "db_peers (st_db (fst (fold (put_message env peer) ms x))) = db_peers (st_db (fst x))"
  "st_path (fst (fold (put_message env peer) ms x)) = st_path (fst x)"
  by (induction ms arbitrary: x) (simp_all add: put_message_frame)

lemma trims_frame: "db_peers (st_db (fold (\<lambda>(i, k). store_trim i k) t s)) = db_peers (st_db s)"
  "st_path (fold (\<lambda>(i, k). store_trim i k) t s) = st_path s" "st_open (fold (\<lambda>(i, k). store_trim i k) t s) = st_open s"
  by (induction t arbitrary: s) (auto simp: store_trim_def)

lemma putMessages_frame:
  "db_peers (st_db (putMessages env peer ms s)) = db_peers (st_db s)" "st_path (putMessages env peer ms s) = st_path s"
  "st_open (putMessages env peer ms s) = st_open s"
proof -
  obtain s1 t where f: "fold (put_message env peer) ms (beginBatch s, []) = (s1, t)" by (metis surj_pair)
  have "db_peers (st_db s1) = db_peers (st_db s)" "st_path s1 = st_path s" "st_open s1 = st_open s"
    using put_messages_frame [of env peer ms "(beginBatch s, [])"] put_messages_fold(4) [OF f] by (simp_all add: f)
  then show "db_peers (st_db (putMessages env peer ms s)) = db_peers (st_db s)" "st_path (putMessages env peer ms s) = st_path s"
    "st_open (putMessages env peer ms s) = st_open s"
    using f by (simp_all add: putMessages_def trims_frame)
qed

lemma put_dialogs_frame:
  "db_peers (st_db (fold (put_dialog env h folderId) ds s)) = db_peers (st_db s)"
  "st_path (fold (put_dialog env h folderId) ds s) = st_path s" "st_open (fold (put_dialog env h folderId) ds s) = st_open s"
  by (induction ds arbitrary: s) (simp_all add: put_dialog_def Let_def split: option.split prod.split)

lemma putDialogs_frame:
  "db_peers (st_db (putDialogs env ds ms folderId s)) = db_peers (st_db s)" "st_path (putDialogs env ds ms folderId s) = st_path s"
  "st_open (putDialogs env ds ms folderId s) = st_open s"
  by (simp_all add: putDialogs_def put_dialogs_frame)

lemma put_peers_frame:
  "st_path (fold (put_peer env kind) vs s) = st_path s" "st_open (fold (put_peer env kind) vs s) = st_open s"
  by (induction vs arbitrary: s) (simp_all add: put_peer_def Let_def)

lemma putPeers_frame: "st_path (putPeers env us cs s) = st_path s" "st_open (putPeers env us cs s) = st_open s"
  by (simp_all add: putPeers_def put_peers_frame)

lemma known_peers_rows:
  "db_peers (st_db s) = db_peers (st_db t) \<Longrightarrow> st_open s = st_open t \<Longrightarrow> known_peers env s = known_peers env t"
  by (simp add: known_peers_def store_peer_def fun_eq_iff cong: option.case_cong)

subsection \<open>Two conversations of one identifier\<close>

lemma untrimmed:
  assumes "st_open s" and "distinct (map message_key (db_messages (st_db s)))"
    and "stored_message peer (qv_toMap v) = Some ((i, k'), m)" and "k' \<noteq> k"
  shows "kept_ids (i, k) (st_db (putMessages env peer (ms @ [v]) s)) =
    kept_ids (i, k) (st_db s) \<union> new_ids peer (ms @ [v]) (i, k)"
proof -
  obtain s0 t0 where f0: "fold (put_message env peer) ms (beginBatch s, []) = (s0, t0)" by (metis surj_pair)
  obtain s1 t where f: "fold (put_message env peer) (ms @ [v]) (beginBatch s, []) = (s1, t)" by (metis surj_pair)
  have t: "t = AList.update i k' t0" using f f0 assms(3) by (simp add: put_message_step)
  note F = put_messages_fold [OF f]
  have d1: "distinct (map message_key (db_messages (st_db s1)))" using F(2) assms(2) by simp
  have dt: "distinct (map fst t)" using F(3) by simp
  have "map_of t i = Some k'" by (simp add: t update_conv')
  then have "(i, k) \<notin> set t" using map_of_is_SomeI [OF dt, of i k] assms(4) by auto
  then show ?thesis
    using assms(1) f trim_all(1) [OF d1 dt, of "(i, k)"] by (simp only: putMessages_def F(1)) (simp add: F(1))
qed

lemma date_of_last:
  "map_of (dateForMessage (ms @ [v])) (qv_toInt (obj_get (qv_toMap v) ''id'')) = Some (qv_toInt (obj_get (qv_toMap v) ''date''))"
  by (simp add: dateForMessage_def Let_def update_conv')

subsection \<open>Answers on disk\<close>

lemma inv_cacheResponse: "codec_ok env \<Longrightarrow> store_inv env s \<Longrightarrow> store_inv env (cacheResponse env response s)"
  by (simp add: cacheResponse_def Let_def inv_flush inv_putPeers inv_putMessages inv_putDialogs)

lemma cacheResponse_frame:
  "st_path (cacheResponse env response s) = st_path s" "st_open (cacheResponse env response s) = st_open s"
  by (simp_all add: cacheResponse_def Let_def putMessages_frame putDialogs_frame putPeers_frame)

lemma cacheResponse_flushed: "codec_ok env \<Longrightarrow> store_inv env s \<Longrightarrow> st_open s \<Longrightarrow> \<not> st_inBatch (cacheResponse env response s)"
  by (simp add: cacheResponse_def Let_def flush_closes_batch [of env] inv_putPeers inv_putMessages inv_putDialogs)

lemma cacheResponse_peers:
  assumes "codec_ok env" and "st_open s"
  shows "known_peers env (cacheResponse env response s) =
    fold (learn_peer Chat) (qv_toList (obj_get response ''chats'')) (fold (learn_peer User) (qv_toList (obj_get response ''users'')) (known_peers env s))"
proof -
  have "known_peers env (cacheResponse env response s) =
      known_peers env (putPeers env (qv_toList (obj_get response ''users'')) (qv_toList (obj_get response ''chats'')) s)"
    using assms(2) by (intro known_peers_rows) (simp_all add: cacheResponse_def Let_def putMessages_frame putDialogs_frame putPeers_frame)
  then show ?thesis using putPeers_learn [OF assms(2,1)] by simp
qed

text \<open>Reads of a store reopened after the process was killed.\<close>

definition reopened_store :: "sqlenv \<Rightarrow> qstring \<Rightarrow> store \<Rightarrow> store" where
  "reopened_store env conn s = snd (store_open env (st_path s) conn (store_new (st_files s)))"

lemma reopened_reads:
  assumes "store_inv env s" and "st_open s" and "\<not> st_inBatch s"
    and "sq_driver env" "sq_opens env (st_path s)" "sq_meta_ok env" "sq_tables_ok env"
  shows "known_peers env (reopened_store env conn s) = known_peers env s"
    and "store_dialogs env folderId lim (reopened_store env conn s) = store_dialogs env folderId lim s"
    and "store_messages env i k fromId lim (reopened_store env conn s) = store_messages env i k fromId lim s"
proof -
  note r = reopened [OF assms, of conn, folded reopened_store_def]
  show "known_peers env (reopened_store env conn s) = known_peers env s"
    using r assms(2) by (intro known_peers_rows) simp_all
  show "store_dialogs env folderId lim (reopened_store env conn s) = store_dialogs env folderId lim s"
    using r assms(2) by (simp add: store_dialogs_def dialog_rows_def)
  show "store_messages env i k fromId lim (reopened_store env conn s) = store_messages env i k fromId lim s"
    using r assms(2) by (simp add: store_messages_def message_rows_def newest_rows_def)
qed

lemma dialogs_answer:
  assumes "qv_toInt (fst (readInt32 VNull (mk_stream (te_qt (ce_tp env)) data))) = MessagesDialogs"
  shows "cl_handleObject env sql data mid self a =
    Inr (app_emit self (MessagesDialogsResponse (qv_toMap (tlDeserialize (te_qt (ce_tp env)) readTLMessagesDialogs data)) mid)
      (a\<lparr>ap_store := cacheResponse sql (qv_toMap (tlDeserialize (te_qt (ce_tp env)) readTLMessagesDialogs data)) (ap_store a)\<rparr>))"
  using assms by (simp add: cl_handleObject_def Let_def answer_ids VECTOR_ID_def AuthAuthorization_def)

subsection \<open>Paging\<close>

lemma row_ids:
  assumes "store_inv env s" and "st_open s" and "r \<in> set (message_rows i k fromId lim (st_db s))"
  shows "mr_message r \<noteq> 0 \<and> qv_toInt (obj_get (qv_toMap (sq_unpack env (mr_blob r))) ''id'') = mr_message r"
proof -
  have "set (message_rows i k fromId lim (st_db s)) \<subseteq> set (db_messages (st_db s))"
    by (auto simp: message_rows_def limit_rows_def newest_rows_def dest!: in_set_takeD split: if_splits)
  then show ?thesis using assms by (auto simp: store_inv_def db_ok_def message_row_ok_def)
qed

lemma pages_join:
  assumes "store_inv env s" and "st_open s" and "store_messages env i k 0 n s \<noteq> []"
    and "0 \<le> sint n" "0 \<le> sint m" "sint t = sint n + sint m"
  shows "store_messages env i k 0 t s = store_messages env i k 0 n s @
    store_messages env i k (qv_toInt (obj_get (qv_toMap (last (store_messages env i k 0 n s))) ''id'')) m s"
proof -
  let ?page = "message_rows i k 0 n (st_db s)"
  have ne: "?page \<noteq> []" using assms(2,3) by (simp add: store_messages_def)
  then have l: "qv_toInt (obj_get (qv_toMap (last (store_messages env i k 0 n s))) ''id'') = mr_message (last ?page)" "mr_message (last ?page) \<noteq> 0"
    using assms(2) row_ids [OF assms(1,2), of "last ?page" i k 0 n] by (simp_all add: store_messages_def last_map)
  have d: "distinct (map message_key (db_messages (st_db s)))" using assms(1,2) by (simp add: store_inv_def db_ok_def)
  show ?thesis
    using pages_join_rows [OF d ne l(2) assms(4,5,6)] assms(2) by (simp add: l(1)) (simp add: store_messages_def)
qed

end
