(* ===== verification/DispatchFacts.thy ===== *)
theory DispatchFacts
  imports ClientDispatch
begin

section \<open>Which answers reach which part\<close>

text \<open>
  The switch of \<open>TgClient::handleObject\<close> lists constructors, the readers of the schema list them too. An object of a
  type that the client handles has one of the constructors of its case, so the part that handles the type gets the object the
  server wrote.
\<close>

lemma serialized_id:
  assumes "tl_codec R W (enc_fobject t) (ok_fobject t)" and "ok_fobject t q v"
  shows "qv_toInt (fst (readInt32 VNull (mk_stream q (tlSerialize q W v)))) = objID (qv_toMap v)"
    and "objID (qv_toMap v) \<in> fst ` set t"
    and "tlDeserialize q R (tlSerialize q W v) = v"
proof -
  from assms(2) obtain obj cid fs where v: "v = VMap obj" "obj_get obj ''_'' = VInt cid" "map_of t cid = Some fs"
    by (rule ok_fobjectE)
  show "objID (qv_toMap v) \<in> fst ` set t" using map_of_SomeD [OF v(3)] v by (force simp: objID_def)
  show "qv_toInt (fst (readInt32 VNull (mk_stream q (tlSerialize q W v)))) = objID (qv_toMap v)"
    unfolding tl_codec.serialize [OF assms] using v
    by (simp add: enc_fobject_def objID_def readInt32_def read_word_encoded [where r = "concat (map (enc_field q obj) fs)"])
  show "tlDeserialize q R (tlSerialize q W v) = v" by (rule tl_codec.deserialize_serialize [OF assms])
qed

lemmas handle_simps = cl_handleObject_def Let_def answer_ids VECTOR_ID_def AuthAuthorization_def UploadFile_def UpdateShort_def
  UpdatesCtor_def UpdatesCombined_def UpdatesTooLong_def UpdateShortMessage_def UpdateShortChatMessage_def UpdateShortSentMessage_def
  UpdatesDifference_def UpdatesDifferenceEmpty_def UpdatesDifferenceSlice_def UpdatesDifferenceTooLong_def
  UpdatesChannelDifference_def UpdatesChannelDifferenceEmpty_def UpdatesChannelDifferenceTooLong_def

text \<open>What the client makes of the bytes the server sends for an object, and the signal of an answer nobody handles.\<close>

definition answered :: "clenv \<Rightarrow> sqlenv \<Rightarrow> tl_writer \<Rightarrow> variant \<Rightarrow> i64 \<Rightarrow> cref \<Rightarrow> app \<Rightarrow> fault + app" where
  "answered env sql W v mid self a = cl_handleObject env sql (tlSerialize (te_qt (ce_tp env)) W v) mid self a"

definition nobodys :: "clenv \<Rightarrow> tl_writer \<Rightarrow> variant \<Rightarrow> i64 \<Rightarrow> signal" where
  "nobodys env W v mid = UnknownResponse (objID (qv_toMap v)) (tlSerialize (te_qt (ce_tp env)) W v) mid"

lemma updates_handled:
  assumes "ok_fobject TL_Updates_table (te_qt (ce_tp env)) v"
  shows "answered env sql writeTLUpdates v mid self a =
    Inr (snd (with_updates sql (\<lambda>m. (True, processUpdates (qv_toMap v) mid m)) self a))"
  using serialized_id [OF tl_Updates.tl_codec_axioms assms]
  by (auto simp: answered_def nobodys_def handle_simps TL_Updates_table_def)

lemma difference_handled:
  assumes "ok_fobject TL_UpdatesDifference_table (te_qt (ce_tp env)) v"
  shows "answered env sql writeTLUpdatesDifference v mid self a =
    Inr (unless_handled (nobodys env writeTLUpdatesDifference v mid) self
      (with_updates sql (handleDifference (qv_toMap v) mid) self a))"
  using serialized_id [OF tl_UpdatesDifference.tl_codec_axioms assms]
  by (auto simp: answered_def nobodys_def handle_simps TL_UpdatesDifference_table_def)

lemma channel_difference_handled:
  assumes "ok_fobject TL_UpdatesChannelDifference_table (te_qt (ce_tp env)) v"
  shows "answered env sql writeTLUpdatesChannelDifference v mid self a =
    Inr (unless_handled (nobodys env writeTLUpdatesChannelDifference v mid) self
      (with_updates sql (handleChannelDifference (qv_toMap v) mid) self a))"
  using serialized_id [OF tl_UpdatesChannelDifference.tl_codec_axioms assms]
  by (auto simp: answered_def nobodys_def handle_simps TL_UpdatesChannelDifference_table_def)

lemma dialogs_handled:
  assumes "ok_fobject TL_MessagesDialogs_table (te_qt (ce_tp env)) v"
  shows "answered env sql writeTLMessagesDialogs v mid self a =
    Inr (app_emit self (MessagesDialogsResponse (qv_toMap v) mid) (a\<lparr>ap_store := cacheResponse sql (qv_toMap v) (ap_store a)\<rparr>))"
  using serialized_id [OF tl_MessagesDialogs.tl_codec_axioms assms]
  by (auto simp: answered_def nobodys_def handle_simps TL_MessagesDialogs_table_def)

lemma messages_handled:
  assumes "ok_fobject TL_MessagesMessages_table (te_qt (ce_tp env)) v"
  shows "answered env sql writeTLMessagesMessages v mid self a =
    Inr (app_emit self (MessagesMessagesResponse (qv_toMap v) mid) (a\<lparr>ap_store := cacheResponse sql (qv_toMap v) (ap_store a)\<rparr>))"
  using serialized_id [OF tl_MessagesMessages.tl_codec_axioms assms]
  by (auto simp: answered_def nobodys_def handle_simps TL_MessagesMessages_table_def)

end
