(* ===== verification/MessageText.thy ===== *)
theory MessageText
  imports ClientUtils "HOL-Library.Signed_Division"
begin

section \<open>The text of a message: src/messageutil.cpp\<close>

text \<open>
  A message is shown as HTML: \<open>messageToHtml\<close> escapes its text and puts a tag around every range the server named, moving
  the ranges that come later along. Ranges are signed 32-bit offsets into UTF-16 units. The algorithm behind \<open>qSort\<close> is
  Qt's, so sorting is an argument of the definitions, given the comparison. Reading a missing field of a map adds it,
  empty, to the map in C++; that is not visible to any reader and left out.
\<close>

subsection \<open>QString\<close>

definition qs_mid :: "i32 \<Rightarrow> i32 \<Rightarrow> qstring \<Rightarrow> qstring" where
  "qs_mid position n s =
     (let p = sint position; l = int (length s); m = (if sint n < 0 then l - p else sint n)
      in if p > l then []
         else if p < 0 then take (nat (m + p)) s
         else take (nat m) (drop (nat p) s))"

text \<open>A position past the end extends the string with spaces.\<close>

definition qs_insert :: "i32 \<Rightarrow> qstring \<Rightarrow> qstring \<Rightarrow> qstring" where
  "qs_insert position t s =
     (if sint position < 0 \<or> t = [] then s
      else let p = nat (sint position)
           in take p s @ replicate (p - length s) 32 @ t @ drop p s)"

definition qs_remove :: "i32 \<Rightarrow> i32 \<Rightarrow> qstring \<Rightarrow> qstring" where
  "qs_remove position n s =
     (let l = int (length s); p = (if sint position < 0 then sint position + l else sint position)
      in if p < 0 \<or> l \<le> p then s
         else if l - p \<le> sint n then take (nat p) s
         else if 0 < sint n then take (nat p) s @ drop (nat p + nat (sint n)) s
         else s)"

definition qs_replace_unit :: "16 word \<Rightarrow> qstring \<Rightarrow> qstring \<Rightarrow> qstring" where
  "qs_replace_unit c t s = concat (map (\<lambda>x. if x = c then t else [x]) s)"

subsection \<open>Entities\<close>

definition MessageEntityUnknown :: i32 where "MessageEntityUnknown = - 1148011883"
definition MessageEntityMention :: i32 where "MessageEntityMention = - 100378723"
definition MessageEntityHashtag :: i32 where "MessageEntityHashtag = 1868782349"
definition MessageEntityBotCommand :: i32 where "MessageEntityBotCommand = 1827637959"
definition MessageEntityUrl :: i32 where "MessageEntityUrl = 1859134776"
definition MessageEntityEmail :: i32 where "MessageEntityEmail = 1692693954"
definition MessageEntityBold :: i32 where "MessageEntityBold = - 1117713463"
definition MessageEntityItalic :: i32 where "MessageEntityItalic = - 2106619040"
definition MessageEntityCode :: i32 where "MessageEntityCode = 681706865"
definition MessageEntityPre :: i32 where "MessageEntityPre = 1938967520"
definition MessageEntityTextUrl :: i32 where "MessageEntityTextUrl = 1990644519"
definition MessageEntityMentionName :: i32 where "MessageEntityMentionName = - 595914432"
definition InputMessageEntityMentionName :: i32 where "InputMessageEntityMentionName = 546203849"
definition MessageEntityPhone :: i32 where "MessageEntityPhone = - 1687559349"
definition MessageEntityCashtag :: i32 where "MessageEntityCashtag = 1280209983"
definition MessageEntityUnderline :: i32 where "MessageEntityUnderline = - 1672577397"
definition MessageEntityStrike :: i32 where "MessageEntityStrike = - 1090087980"
definition MessageEntityBlockquote :: i32 where "MessageEntityBlockquote = - 238245204"
definition MessageEntityBankCard :: i32 where "MessageEntityBankCard = 1981704948"
definition MessageEntitySpoiler :: i32 where "MessageEntitySpoiler = 852137487"
definition MessageEntityCustomEmoji :: i32 where "MessageEntityCustomEmoji = - 925956616"

lemmas entity_ids = MessageEntityUnknown_def MessageEntityMention_def MessageEntityHashtag_def MessageEntityBotCommand_def
  MessageEntityUrl_def MessageEntityEmail_def MessageEntityBold_def MessageEntityItalic_def
  MessageEntityCode_def MessageEntityPre_def MessageEntityTextUrl_def MessageEntityMentionName_def
  InputMessageEntityMentionName_def MessageEntityPhone_def MessageEntityCashtag_def MessageEntityUnderline_def
  MessageEntityStrike_def MessageEntityBlockquote_def MessageEntityBankCard_def MessageEntitySpoiler_def
  MessageEntityCustomEmoji_def

definition ent_offset :: "tgobject \<Rightarrow> i32" where
  "ent_offset e = qv_toInt (obj_get e ''offset'')"

definition ent_length :: "tgobject \<Rightarrow> i32" where
  "ent_length e = qv_toInt (obj_get e ''length'')"

definition entitiesSorter :: "variant \<Rightarrow> variant \<Rightarrow> bool" where
  "entitiesSorter v1 v2 =
     (let o1 = qv_toMap v1; o2 = qv_toMap v2
      in objID o1 = MessageEntityUrl \<or> ent_offset o1 <s ent_offset o2 \<or>
         (ent_offset o1 = ent_offset o2 \<and> ent_length o1 <s ent_length o2))"

type_synonym qsorter = "(variant \<Rightarrow> variant \<Rightarrow> bool) \<Rightarrow> variant list \<Rightarrow> variant list"

definition quote_mark :: qstring where "quote_mark = [34]"

definition link_tags :: "qstring \<Rightarrow> qstring \<times> qstring" where
  "link_tags target = (qs ''<a href='' @ quote_mark @ target @ quote_mark @ qs ''>'', qs ''</a>'')"

definition getTags :: "tgobject \<Rightarrow> qstring \<Rightarrow> i32 \<Rightarrow> qstring \<times> qstring" where
  "getTags entity textPart i =
     (let c = objID entity
      in if c = MessageEntityUnknown then ([], [])
         else if c = MessageEntityMention then link_tags (qs ''symbogram://profile/'' @ textPart)
         else if c = MessageEntityHashtag then link_tags (qs ''symbogram://search/'' @ textPart)
         else if c = MessageEntityBotCommand then link_tags (qs ''symbogram://execute/'' @ textPart)
         else if c = MessageEntityUrl then link_tags textPart
         else if c = MessageEntityEmail then link_tags (qs ''mailto:'' @ textPart)
         else if c = MessageEntityBold then (qs ''<b>'', qs ''</b>'')
         else if c = MessageEntityItalic then (qs ''<i>'', qs ''</i>'')
         else if c = MessageEntityCode then (qs ''<code>'', qs ''</code>'')
         else if c = MessageEntityPre
         then (qs ''<code class='' @ quote_mark @ qs ''language-'' @ qv_toString (obj_get entity ''language'') @ quote_mark @ qs ''>'', qs ''</code>'')
         else if c = MessageEntityTextUrl then link_tags (qv_toString (obj_get entity ''url''))
         else if c = MessageEntityMentionName then link_tags (qs ''symbogram://profile/'' @ qv_toString (obj_get entity ''user_id''))
         else if c = InputMessageEntityMentionName
         then link_tags (qs ''symbogram://profile/'' @ qv_toString (getPeerIdVariant (qv_toMap (obj_get entity ''user_id''))))
         else if c = MessageEntityPhone then link_tags (qs ''tel:'' @ textPart)
         else if c = MessageEntityCashtag then link_tags (qs ''symbogram://search/'' @ textPart)
         else if c = MessageEntityUnderline then (qs ''<u>'', qs ''</u>'')
         else if c = MessageEntityStrike then (qs ''<s>'', qs ''</s>'')
         else if c = MessageEntityBlockquote then (qs ''<code>'', qs ''</code>'')
         else if c = MessageEntityBankCard then link_tags (qs ''symbogram://card/'' @ textPart)
         else if c = MessageEntitySpoiler
         then (qs ''<a class='' @ quote_mark @ qs ''spoiler'' @ quote_mark @ qs '' href='' @ quote_mark @ qs ''symbogram://spoiler/'' @ qs_number (scast i) @
                 quote_mark @ qs ''><font color='' @ quote_mark @ qs ''white'' @ quote_mark @ qs ''>'', qs ''</font></a>'')
         else ([], []))"

subsection \<open>The preview of a dialog\<close>

definition move_removed :: "i32 \<Rightarrow> i32 \<Rightarrow> variant \<Rightarrow> variant" where
  "move_removed off len v =
     (let moving = qv_toMap v
      in VMap (if ent_offset moving = off then obj_put ''length'' (VInt (ent_length moving - len)) moving
               else obj_put ''offset'' (VInt (ent_offset moving - len)) moving))"

fun remove_spoilers :: "qstring \<Rightarrow> variant list \<Rightarrow> qstring" where
  "remove_spoilers text [] = text"
| "remove_spoilers text (v # vs) =
     (let entity = qv_toMap v
      in if ent_length entity = 0 \<or> objID entity \<noteq> MessageEntitySpoiler then remove_spoilers text vs
         else remove_spoilers (qs_remove (ent_offset entity) (ent_length entity) text)
                (map (move_removed (ent_offset entity) (ent_length entity)) vs))"

definition prepareDialogItemMessage :: "qsorter \<Rightarrow> qstring \<Rightarrow> variant list \<Rightarrow> qstring" where
  "prepareDialogItemMessage qsort text entities =
     (if text = [] then text else qs_replace_unit 10 (qs '' '') (remove_spoilers text (qsort entitiesSorter entities)))"

subsection \<open>The message as HTML\<close>

definition escape_unit :: "16 word \<Rightarrow> qstring option" where
  "escape_unit c =
     (if c = 38 then Some (qs ''&amp;'') else if c = 60 then Some (qs ''&lt;'') else if c = 62 then Some (qs ''&gt;'') else None)"

definition move_escaped :: "i32 \<Rightarrow> i32 \<Rightarrow> variant \<Rightarrow> variant" where
  "move_escaped i n v =
     (let entity = qv_toMap v; off = ent_offset entity; len = ent_length entity
      in VMap (if off \<le>s i \<and> i <s off + len then obj_put ''length'' (VInt (len + n - 1)) entity
               else if i <s off then obj_put ''offset'' (VInt (off + n - 1)) entity
               else entity))"

function escape_loop :: "nat \<Rightarrow> qstring \<Rightarrow> variant list \<Rightarrow> qstring \<times> variant list" where
  "escape_loop i text entities =
     (if i < length text
      then case escape_unit (text ! i) of
             None \<Rightarrow> escape_loop (Suc i) text entities
           | Some r \<Rightarrow> escape_loop (i + length r) (take i text @ r @ drop (Suc i) text)
                         (map (move_escaped (of_nat i) (of_nat (length r))) entities)
      else (text, entities))"
  by pat_completeness auto
termination by (relation "measure (\<lambda>(i, text, _). length text - i)") auto

declare escape_loop.simps [simp del]

definition move_tagged :: "i32 \<Rightarrow> i32 \<Rightarrow> i32 \<Rightarrow> i32 \<Rightarrow> variant \<Rightarrow> variant" where
  "move_tagged off len s e v =
     (let moving = qv_toMap v; mOffset = ent_offset moving
      in VMap (if mOffset = off then obj_put ''length'' (VInt (ent_length moving + s + e)) moving
               else if off <s mOffset \<and> mOffset <s off + len then obj_put ''offset'' (VInt (mOffset + s)) moving
               else if off <s mOffset then obj_put ''offset'' (VInt (mOffset + s + e)) moving
               else moving))"

fun tag_loop :: "i32 \<Rightarrow> qstring \<Rightarrow> variant list \<Rightarrow> qstring" where
  "tag_loop i text [] = text"
| "tag_loop i text (v # vs) =
     (let entity = qv_toMap v; off = ent_offset entity; len = ent_length entity
      in if len = 0 then tag_loop (i + 1) text vs
         else
           let (sTag, eTag) = getTags entity (qs_mid off len text) i; s = of_nat (length sTag); e = of_nat (length eTag)
           in tag_loop (i + 1) (qs_insert (off + s + len) eTag (qs_insert off sTag text)) (map (move_tagged off len s e) vs))"

definition messageToHtml :: "qsorter \<Rightarrow> qstring \<Rightarrow> variant list \<Rightarrow> qstring" where
  "messageToHtml qsort text entities =
     (if text = [] then text
      else let (text1, entities1) = escape_loop 0 text (qsort entitiesSorter entities)
           in qs ''<html>'' @ qs_replace_unit 10 (qs ''<br />'') (tag_loop 0 text1 entities1) @ qs ''</html>'')"

subsection \<open>What may be edited and deleted\<close>

definition MESSAGE_EDIT_WINDOW :: i32 where "MESSAGE_EDIT_WINDOW = 48 * 60 * 60"

definition isEditableKind :: "tgobject \<Rightarrow> bool" where
  "isEditableKind message \<longleftrightarrow> qv_toInt (obj_get message ''id'') \<noteq> 0 \<and> objEMPTY (qv_toMap (obj_get message ''action''))"

definition canEditMessage :: "tgobject \<Rightarrow> i32 \<Rightarrow> bool" where
  "canEditMessage message now \<longleftrightarrow>
     isEditableKind message \<and> qv_toBool (obj_get message ''out'') \<and>
     now - qv_toInt (obj_get message ''date'') \<le>s MESSAGE_EDIT_WINDOW"

definition canDeleteMessage :: "tgobject \<Rightarrow> bool" where
  "canDeleteMessage message \<longleftrightarrow> qv_toInt (obj_get message ''id'') \<noteq> 0"

definition canDeleteMessageForEveryone :: "tgobject \<Rightarrow> i32 \<Rightarrow> bool" where
  "canDeleteMessageForEveryone message now \<longleftrightarrow>
     qv_toInt (obj_get message ''id'') \<noteq> 0 \<and> qv_toBool (obj_get message ''out'') \<and>
     now - qv_toInt (obj_get message ''date'') \<le>s MESSAGE_EDIT_WINDOW"

end
