(* ===== verification/MessageTextFacts.thy ===== *)
theory MessageTextFacts
  imports MessageText
begin

section \<open>What a message is shown as\<close>

subsection \<open>Escaping\<close>

definition esc :: "16 word \<Rightarrow> qstring" where
  "esc c = (case escape_unit c of None \<Rightarrow> [c] | Some r \<Rightarrow> r)"

definition escaped :: "qstring \<Rightarrow> qstring" where
  "escaped s = concat (map esc s)"

lemma escaped_simps [simp]: "escaped [] = []" "escaped (c # s) = esc c @ escaped s" "escaped (s @ t) = escaped s @ escaped t"
  by (simp_all add: escaped_def)

lemma esc_length: "\<exists>d. length (esc c) = Suc d"
  by (simp add: esc_def escape_unit_def qs_def split: option.split)

text \<open>Where position \<open>n\<close> of \<open>t\<close> is once the first \<open>k\<close> units are escaped.\<close>

definition moved_to :: "qstring \<Rightarrow> nat \<Rightarrow> nat \<Rightarrow> nat" where
  "moved_to t k n = length (escaped (take (min k n) t)) + (n - k)"

lemma escaped_take_mono: "a \<le> b \<Longrightarrow> length (escaped (take a t)) \<le> length (escaped (take b t))"
proof -
  assume "a \<le> b"
  then have "take b t = take a t @ take (b - a) (drop a t)" by (metis le_add_diff_inverse take_add)
  then show ?thesis by simp
qed

lemma moved_Suc:
  assumes "k < length t"
  shows "moved_to t (Suc k) n = (if k < n then moved_to t k n + (length (esc (t ! k)) - 1) else moved_to t k n)"
proof (cases "k < n")
  case True
  have "take (Suc k) t = take k t @ [t ! k]" using assms by (rule take_Suc_conv_app_nth)
  then show ?thesis using True esc_length [of "t ! k"] by (auto simp: moved_to_def min_def)
next
  case False
  then show ?thesis by (simp add: moved_to_def min_def)
qed

lemma moved_less: "moved_to t k k < moved_to t k n \<longleftrightarrow> k < n"
proof (cases "k < n")
  case False
  then have "length (escaped (take n t)) \<le> length (escaped (take k t))" by (intro escaped_take_mono) simp
  then show ?thesis using False by (simp add: moved_to_def min_def)
qed (simp add: moved_to_def)

lemma moved_mono: "a \<le> b \<Longrightarrow> moved_to t k a \<le> moved_to t k b"
  using escaped_take_mono [of "min k a" "min k b" t] by (auto simp: moved_to_def min_def)

lemma moved_bound: "n \<le> length t \<Longrightarrow> moved_to t k n \<le> length (escaped t)"
proof -
  assume n: "n \<le> length t"
  have len: "length s \<le> length (escaped s)" for s
  proof (induction s)
    case (Cons c s)
    then show ?case using esc_length [of c] by auto
  qed simp
  show ?thesis
  proof (cases "n \<le> k")
    case True
    then show ?thesis using escaped_take_mono [of n "length t" t] n by (simp add: moved_to_def min_def)
  next
    case False
    have "n - k \<le> length (escaped (drop k t))" using len [of "drop k t"] n by simp
    moreover have "escaped t = escaped (take k t) @ escaped (drop k t)" by (metis append_take_drop_id escaped_simps(3))
    ultimately show ?thesis using False by (simp add: moved_to_def min_def)
  qed
qed

text \<open>An entity in the list, at a place, with the other fields of \<open>e\<close>.\<close>

definition placed :: "variant \<Rightarrow> tgobject \<Rightarrow> nat \<Rightarrow> nat \<Rightarrow> bool" where
  "placed v e a b \<longleftrightarrow> (\<exists>m. v = VMap m \<and> ent_offset m = of_nat a \<and> ent_length m = of_nat b \<and>
     (\<forall>k. k \<noteq> ''offset'' \<longrightarrow> k \<noteq> ''length'' \<longrightarrow> obj_get m k = obj_get e k))"

lemma placed_put:
  assumes "placed (VMap m) e a b"
  shows "placed (VMap (obj_put ''offset'' (VInt (of_nat a')) m)) e a' b"
    and "placed (VMap (obj_put ''length'' (VInt (of_nat b')) m)) e a b'"
  using assms by (auto simp: placed_def ent_offset_def ent_length_def)

lemma slt_of_nat: "a < 2 ^ 31 \<Longrightarrow> b < 2 ^ 31 \<Longrightarrow> (of_nat a :: i32) <s of_nat b \<longleftrightarrow> a < b"
  by (simp add: word_sless_alt sint_of_nat32)

lemma sle_of_nat: "a < 2 ^ 31 \<Longrightarrow> b < 2 ^ 31 \<Longrightarrow> (of_nat a :: i32) \<le>s of_nat b \<longleftrightarrow> a \<le> b"
  by (simp add: word_sle_eq sint_of_nat32)

lemma eq_of_nat: "a < 2 ^ 31 \<Longrightarrow> b < 2 ^ 31 \<Longrightarrow> (of_nat a :: i32) = of_nat b \<longleftrightarrow> a = b"
  by (metis sint_of_nat32 of_nat_eq_iff)

lemma move_escaped_placed:
  assumes "placed v e a b" and "a + b < 2 ^ 31" and "i < 2 ^ 31" and "0 < n"
  shows "placed (move_escaped (of_nat i) (of_nat n) v) e
    (if i < a then a + (n - 1) else a) (if a \<le> i \<and> i < a + b then b + (n - 1) else b)"
proof -
  obtain m where m: "v = VMap m" "ent_offset m = of_nat a" "ent_length m = of_nat b"
    using assms(1) by (auto simp: placed_def)
  have s: "ent_offset m + ent_length m = of_nat (a + b)" "ent_length m + of_nat n - 1 = of_nat (b + (n - 1))"
    "ent_offset m + of_nat n - 1 = of_nat (a + (n - 1))"
    using assms(4) by (simp_all add: m of_nat_diff)
  have a: "a < 2 ^ 31" using assms(2) by simp
  have c: "ent_offset m \<le>s of_nat i \<longleftrightarrow> a \<le> i" "of_nat i <s ent_offset m + ent_length m \<longleftrightarrow> i < a + b" "of_nat i <s ent_offset m \<longleftrightarrow> i < a"
    unfolding s(1) unfolding m(2)
    by (rule sle_of_nat [OF a assms(3)], rule slt_of_nat [OF assms(3,2)], rule slt_of_nat [OF assms(3) a])
  have p: "placed (VMap m) e a b" using assms(1) m(1) by simp
  show ?thesis
    unfolding move_escaped_def m(1) qv_toMap.simps Let_def c s(2,3)
    using placed_put [OF p] p by (simp del: of_nat_add One_nat_def)
qed

lemma escape_from:
  assumes "k \<le> length t" and "length (escaped t) < 2 ^ 31"
    and "list_all2 (\<lambda>v (e, a, b). placed v e (moved_to t k a) (moved_to t k (a + b) - moved_to t k a) \<and> a + b \<le> length t) es rs"
  shows "\<exists>es'. escape_loop (length (escaped (take k t))) (escaped (take k t) @ drop k t) es = (escaped t, es') \<and>
    list_all2 (\<lambda>v (e, a, b). placed v e (length (escaped (take a t))) (length (escaped (take b (drop a t))))) es' rs"
  using assms
proof (induction "length t - k" arbitrary: k es)
  case 0
  then have k: "k = length t" by simp
  have m: "moved_to t k n = length (escaped (take n t))" if "n \<le> length t" for n
    using that by (simp add: moved_to_def k min_def)
  have d: "length (escaped (take (a + b) t)) - length (escaped (take a t)) = length (escaped (take b (drop a t)))" for a b
    by (simp add: take_add)
  have "list_all2 (\<lambda>v (e, a, b). placed v e (length (escaped (take a t))) (length (escaped (take b (drop a t))))) es rs"
    using "0.prems"(3) by (rule list_all2_mono) (auto simp: m d)
  then show ?case by (simp add: k escape_loop.simps)
next
  case (Suc d)
  let ?E = "length (escaped (take k t))" and ?t = "escaped (take k t) @ drop k t"
  have k: "k < length t" using Suc.hyps(2) by simp
  have at: "?t ! ?E = t ! k" "?E < length ?t" using k by (simp_all add: nth_append)
  have take: "take (Suc k) t = take k t @ [t ! k]" using k by (rule take_Suc_conv_app_nth)
  have drop: "drop k t = t ! k # drop (Suc k) t" using k by (rule Cons_nth_drop_Suc [symmetric])
  have E: "?E = moved_to t k k" by (simp add: moved_to_def)
  have small: "moved_to t k n < 2 ^ 31" if "n \<le> length t" for n using moved_bound [OF that, of k] Suc.prems(2) by simp
  have pos: "0 < length (esc (t ! k))" using esc_length [of "t ! k"] by auto
  have conv: "placed (move_escaped (of_nat ?E) (of_nat (length (esc (t ! k)))) v) e (moved_to t (Suc k) a)
      (moved_to t (Suc k) (a + b) - moved_to t (Suc k) a)"
    if p: "placed v e (moved_to t k a) (moved_to t k (a + b) - moved_to t k a)" and ab: "a + b \<le> length t" for v e a b
  proof -
    have mono: "moved_to t k a \<le> moved_to t k (a + b)" by (rule moved_mono) simp
    have less: "moved_to t k a \<le> ?E \<longleftrightarrow> a \<le> k" "?E < moved_to t k a \<longleftrightarrow> k < a" "?E < moved_to t k (a + b) \<longleftrightarrow> k < a + b"
      using moved_less [of t k a] moved_less [of t k "a + b"] by (auto simp: E not_less [symmetric])
    have "placed (move_escaped (of_nat ?E) (of_nat (length (esc (t ! k)))) v) e
        (if k < a then moved_to t k a + (length (esc (t ! k)) - 1) else moved_to t k a)
        (if a \<le> k \<and> k < a + b then moved_to t k (a + b) - moved_to t k a + (length (esc (t ! k)) - 1) else moved_to t k (a + b) - moved_to t k a)"
      using move_escaped_placed [OF p _ _ pos, of ?E] mono small [OF ab] small [of k] k
      by (simp add: less E [symmetric])
    then show ?thesis
      using ab mono by (auto simp: moved_Suc [OF k] split: if_splits)
  qed
  have step: "list_all2 (\<lambda>v (e, a, b). placed (move_escaped (of_nat ?E) (of_nat (length (esc (t ! k)))) v) e (moved_to t (Suc k) a)
      (moved_to t (Suc k) (a + b) - moved_to t (Suc k) a) \<and> a + b \<le> length t) es rs"
    using Suc.prems(3) by (rule list_all2_mono) (auto intro: conv)
  show ?case
  proof (cases "escape_unit (t ! k)")
    case None
    then have one: "esc (t ! k) = [t ! k]" by (simp add: esc_def)
    have es: "list_all2 (\<lambda>v (e, a, b). placed v e (moved_to t (Suc k) a) (moved_to t (Suc k) (a + b) - moved_to t (Suc k) a) \<and> a + b \<le> length t) es rs"
      using Suc.prems(3) by (rule list_all2_mono) (auto simp: moved_Suc [OF k] one)
    show ?thesis
      using Suc.hyps(1) [OF _ _ Suc.prems(2) es] Suc.hyps(2) k at None take drop one
      by (simp add: escape_loop.simps [of ?E])
  next
    case (Some r)
    then have r: "esc (t ! k) = r" by (simp add: esc_def)
    have es: "list_all2 (\<lambda>v (e, a, b). placed v e (moved_to t (Suc k) a) (moved_to t (Suc k) (a + b) - moved_to t (Suc k) a) \<and> a + b \<le> length t)
        (map (move_escaped (of_nat ?E) (of_nat (length r))) es) rs"
      using step by (simp add: list_all2_map1 r)
    show ?thesis
      using Suc.hyps(1) [OF _ _ Suc.prems(2) es] Suc.hyps(2) k at Some take drop r
      by (simp add: escape_loop.simps [of ?E])
  qed
qed

subsection \<open>Segments\<close>

text \<open>A message cut at its ranges: plain pieces, and pieces that an entity names.\<close>

datatype segment = Plain qstring | Tagged tgobject qstring

fun seg_text :: "segment \<Rightarrow> qstring" where
  "seg_text (Plain s) = s"
| "seg_text (Tagged e s) = s"

fun seg_escaped :: "segment \<Rightarrow> segment" where
  "seg_escaped (Plain s) = Plain (escaped s)"
| "seg_escaped (Tagged e s) = Tagged e (escaped s)"

abbreviation seg_body :: "segment list \<Rightarrow> qstring" where
  "seg_body segs \<equiv> concat (map seg_text segs)"

fun located :: "nat \<Rightarrow> segment list \<Rightarrow> (tgobject \<times> nat \<times> nat) list" where
  "located n [] = []"
| "located n (Plain s # r) = located (n + length s) r"
| "located n (Tagged e s # r) = (e, n, length s) # located (n + length s) r"

fun rendered :: "i32 \<Rightarrow> segment list \<Rightarrow> qstring" where
  "rendered i [] = []"
| "rendered i (Plain s # r) = s @ rendered i r"
| "rendered i (Tagged e s # r) = fst (getTags e s i) @ s @ snd (getTags e s i) @ rendered (i + 1) r"

definition at_places :: "variant list \<Rightarrow> (tgobject \<times> nat \<times> nat) list \<Rightarrow> bool" where
  "at_places es rs \<longleftrightarrow> list_all2 (\<lambda>v (e, a, b). placed v e a b) es rs"

lemma located_bound: "(e, a, b) \<in> set (located n segs) \<Longrightarrow> n \<le> a \<and> a + b \<le> n + length (seg_body segs)"
proof (induction n segs rule: located.induct)
  case (3 n e s r)
  then show ?case by (cases "(e, a, b) \<in> set (located (n + length s) r)") auto
qed force+

lemma located_shift: "map (\<lambda>(e, a, b). (e, a + d, b)) (located n segs) = located (n + d) segs"
  by (induction n segs rule: located.induct) (simp_all add: ac_simps)

lemma located_escaped:
  "map (\<lambda>(e, a, b). (e, length (escaped (take a (p @ seg_body segs))), length (escaped (take b (drop a (p @ seg_body segs))))))
     (located (length p) segs) = located (length (escaped p)) (map seg_escaped segs)"
proof (induction segs arbitrary: p)
  case (Cons x r)
  then show ?case using Cons [of "p @ seg_text x"] by (cases x) simp_all
qed simp

lemma placed_objID: "placed (VMap m) e a b \<Longrightarrow> objID m = objID e"
  by (simp add: placed_def objID_def)

lemma placed_getTags: "placed (VMap m) e a b \<Longrightarrow> getTags m s i = getTags e s i"
proof -
  assume p: "placed (VMap m) e a b"
  then have keys: "obj_get m ''language'' = obj_get e ''language''" "obj_get m ''url'' = obj_get e ''url''"
    "obj_get m ''user_id'' = obj_get e ''user_id''" by (simp_all add: placed_def)
  show ?thesis by (simp only: getTags_def placed_objID [OF p] keys)
qed

lemma qs_mid_part: "length p + length s < 2 ^ 31 \<Longrightarrow> qs_mid (of_nat (length p)) (of_nat (length s)) (p @ s @ r) = s"
  by (simp add: qs_mid_def Let_def sint_of_nat32)

lemma qs_insert_at: "length p < 2 ^ 31 \<Longrightarrow> qs_insert (of_nat (length p)) t (p @ r) = p @ t @ r"
  by (simp add: qs_insert_def Let_def sint_of_nat32)

lemma move_tagged_placed:
  assumes "placed v e a b" and "off + len \<le> a" and "0 < len" and "a < 2 ^ 31"
  shows "placed (move_tagged (of_nat off) (of_nat len) (of_nat s) (of_nat t) v) e (a + (s + t)) b"
proof -
  obtain m where m: "v = VMap m" "ent_offset m = of_nat a" "ent_length m = of_nat b"
    using assms(1) by (auto simp: placed_def)
  have c: "ent_offset m = of_nat off \<longleftrightarrow> False" "of_nat off <s ent_offset m \<longleftrightarrow> True" "ent_offset m <s of_nat off + of_nat len \<longleftrightarrow> False"
    using assms(2-4) eq_of_nat [of a off] slt_of_nat [of off a] slt_of_nat [of a "off + len"] by (simp_all add: m)
  have s: "ent_offset m + of_nat s + of_nat t = of_nat (a + (s + t))" by (simp add: m)
  have p: "placed (VMap m) e a b" using assms(1) m(1) by simp
  show ?thesis
    unfolding move_tagged_def m(1) qv_toMap.simps Let_def c simp_thms if_False if_True s
    using placed_put [OF p] by (simp del: of_nat_add)
qed

lemma rendered_length: "length (seg_body segs) \<le> length (rendered i segs)"
  by (induction i segs rule: rendered.induct) auto

lemma list_all2_mono_set:
  "list_all2 P xs ys \<Longrightarrow> (\<And>x y. y \<in> set ys \<Longrightarrow> P x y \<Longrightarrow> Q x y) \<Longrightarrow> list_all2 Q xs ys"
  by (induction rule: list_all2_induct) auto

text \<open>Tags are put around the pieces one by one, and what follows moves along.\<close>

lemma tag_segments:
  assumes "at_places es (located (length p) segs)"
    and "length (p @ rendered i segs) < 2 ^ 31"
    and "\<forall>e s. Tagged e s \<in> set segs \<longrightarrow> s \<noteq> []"
  shows "tag_loop i (p @ seg_body segs) es = p @ rendered i segs"
  using assms
proof (induction segs arbitrary: p i es)
  case Nil
  then show ?case by (simp add: at_places_def)
next
  case (Cons x r)
  show ?case
  proof (cases x)
    case (Plain s)
    then show ?thesis using Cons.IH [of es "p @ s" i] Cons.prems by simp
  next
    case (Tagged e s)
    obtain v vs where es: "es = v # vs" and v: "placed v e (length p) (length s)" and vs: "at_places vs (located (length p + length s) r)"
      using Cons.prems(1) by (auto simp: Tagged at_places_def list_all2_Cons2)
    obtain m where m: "v = VMap m" "ent_offset m = of_nat (length p)" "ent_length m = of_nat (length s)"
      using v by (auto simp: placed_def)
    obtain st et where t: "getTags e s i = (st, et)" by fastforce
    have s: "0 < length s" using Cons.prems(3) by (auto simp: Tagged)
    have tags: "getTags m s i = (st, et)" using placed_getTags [of m e] v m(1) t by simp
    have fits: "length p + length st + length s + length et + length (rendered (i + 1) r) < 2 ^ 31"
      using Cons.prems(2) by (simp add: Tagged t)
    let ?p = "p @ st @ s @ et"
    have inner: "qs_insert (of_nat (length p) + of_nat (length st) + of_nat (length s)) et (p @ st @ s @ seg_body r) = ?p @ seg_body r"
      using qs_insert_at [of "p @ st @ s" et "seg_body r"] fits by (simp add: add.assoc)
    have part: "qs_mid (of_nat (length p)) (of_nat (length s)) (p @ s @ seg_body r) = s"
      using fits by (intro qs_mid_part) simp
    have outer: "qs_insert (of_nat (length p)) st (p @ s @ seg_body r) = p @ st @ s @ seg_body r"
      using fits by (intro qs_insert_at) simp
    have bodies: "length (seg_body r) \<le> length (rendered (i + 1) r)" by (rule rendered_length)
    have "list_all2 (\<lambda>v (e, a, b). placed (move_tagged (of_nat (length p)) (of_nat (length s)) (of_nat (length st)) (of_nat (length et)) v)
        e (a + (length st + length et)) b) vs (located (length p + length s) r)"
      using vs unfolding at_places_def
    proof (rule list_all2_mono_set, clarify)
      fix v e a b
      assume in_r: "(e, a, b) \<in> set (located (length p + length s) r)" and v: "placed v e a b"
      show "placed (move_tagged (of_nat (length p)) (of_nat (length s)) (of_nat (length st)) (of_nat (length et)) v) e (a + (length st + length et)) b"
        using located_bound [OF in_r] bodies fits s by (intro move_tagged_placed [OF v]) auto
    qed
    then have moved_to: "at_places (map (move_tagged (of_nat (length p)) (of_nat (length s)) (of_nat (length st)) (of_nat (length et))) vs)
        (located (length ?p) r)"
    proof -
      have "located (length ?p) r = map (\<lambda>(e, a, b). (e, a + (length st + length et), b)) (located (length p + length s) r)"
        by (simp only: located_shift length_append add.assoc add.left_commute add.commute)
      then show ?thesis using \<open>list_all2 _ _ _\<close> by (simp add: at_places_def list_all2_map1 list_all2_map2 case_prod_unfold)
    qed
    have nz: "(of_nat (length s) :: i32) \<noteq> 0"
      using eq_of_nat [of "length s" 0] fits s by simp
    show ?thesis
      using Cons.IH [OF moved_to, of "i + 1"] fits Cons.prems(3) nz
      by (simp add: Tagged es m t tags part outer inner Let_def)
  qed
qed

lemma escaped_eq_Nil: "escaped s = [] \<longleftrightarrow> s = []"
proof (cases s)
  case (Cons c r)
  then show ?thesis using esc_length [of c] by auto
qed simp

lemma seg_escaped_Tagged: "Tagged e s = seg_escaped x \<longleftrightarrow> (\<exists>s'. x = Tagged e s' \<and> s = escaped s')"
  by (cases x) auto

text \<open>The whole of \<open>messageToHtml\<close> on a message cut at its ranges.\<close>

theorem html_of_segments:
  assumes "at_places (qsort entitiesSorter entities) (located 0 segs)"
    and "seg_body segs \<noteq> []" and "\<forall>e s. Tagged e s \<in> set segs \<longrightarrow> s \<noteq> []"
    and "length (rendered 0 (map seg_escaped segs)) < 2 ^ 31"
  shows "messageToHtml qsort (seg_body segs) entities =
    qs ''<html>'' @ qs_replace_unit 10 (qs ''<br />'') (rendered 0 (map seg_escaped segs)) @ qs ''</html>''"
proof -
  let ?t = "seg_body segs"
  have esc_body: "escaped ?t = seg_body (map seg_escaped segs)"
  proof (induction segs)
    case (Cons x r)
    then show ?case by (cases x) simp_all
  qed simp
  have small: "length (escaped ?t) < 2 ^ 31"
    unfolding esc_body using rendered_length [of "map seg_escaped segs" 0] assms(4) by simp
  have start: "list_all2 (\<lambda>v (e, a, b). placed v e (moved_to ?t 0 a) (moved_to ?t 0 (a + b) - moved_to ?t 0 a) \<and> a + b \<le> length ?t)
      (qsort entitiesSorter entities) (located 0 segs)"
    using assms(1) unfolding at_places_def
    by (rule list_all2_mono_set) (auto simp: moved_to_def dest: located_bound)
  obtain es' where loop: "escape_loop 0 ?t (qsort entitiesSorter entities) = (escaped ?t, es')"
    and es': "list_all2 (\<lambda>v (e, a, b). placed v e (length (escaped (take a ?t))) (length (escaped (take b (drop a ?t))))) es' (located 0 segs)"
    using escape_from [of 0 ?t "qsort entitiesSorter entities" "located 0 segs"] small start by auto
  have places: "at_places es' (located 0 (map seg_escaped segs))"
    using es' located_escaped [of "[]" segs, symmetric] by (simp add: at_places_def list_all2_map2 case_prod_unfold)
  have "\<forall>e s. Tagged e s \<in> set (map seg_escaped segs) \<longrightarrow> s \<noteq> []"
    using assms(3) by (simp add: image_iff seg_escaped_Tagged) (metis escaped_eq_Nil)
  then have "tag_loop 0 (escaped ?t) es' = rendered 0 (map seg_escaped segs)"
    using tag_segments [of es' "[]" "map seg_escaped segs" 0] places assms(4) by (simp add: esc_body)
  then show ?thesis using assms(2) loop by (simp add: messageToHtml_def del: concat_eq_Nil_conv)
qed

end
