(* ===== verification/PeerCache.thy ===== *)
theory PeerCache
  imports Store
begin

section \<open>Peers seen recently: src/messageutil.cpp, TgPeerCache\<close>

text \<open>
  The lists of the interface name peers by identifier. \<open>TgPeerCache\<close> keeps the last 512 users and the last 512 chats it was told of, a hash and the
  order of the first insertion for each, and falls through to the store. The process has one cache, a state of its own.
\<close>

definition MaxEntries :: nat where "MaxEntries = 512"

type_synonym peer_table = "(i64 \<times> tgobject) list \<times> i64 list"

record peer_cache =
  pc_users :: peer_table
  pc_chats :: peer_table
  pc_store :: bool

definition peer_cache_new :: peer_cache where
  "peer_cache_new = \<lparr>pc_users = ([], []), pc_chats = ([], []), pc_store = False\<rparr>"

definition setStore :: "peer_cache \<Rightarrow> peer_cache" where
  "setStore pc = pc\<lparr>pc_store := True\<rparr>"

definition remember_one :: "variant \<Rightarrow> peer_table \<Rightarrow> peer_table" where
  "remember_one v = (\<lambda>(h, order).
     let peer = qv_toMap v; pid = getPeerId peer
     in if pid = 0 \<or> is_stub peer then (h, order)
        else (AList.update pid peer h, if map_of h pid = None then order @ [pid] else order))"

text \<open>The \<open>while\<close> loop: oldest out first.\<close>

function evict :: "peer_table \<Rightarrow> peer_table" where
  "evict (h, order) = (if MaxEntries < length order then evict (AList.delete (hd order) h, tl order) else (h, order))"
  by pat_completeness auto
termination by (relation "measure (\<lambda>(h, order). length order)") auto

declare evict.simps [simp del]

definition remember :: "variant list \<Rightarrow> peer_table \<Rightarrow> peer_table" where
  "remember vs t = evict (fold remember_one vs t)"

definition pc_put :: "variant list \<Rightarrow> variant list \<Rightarrow> peer_cache \<Rightarrow> peer_cache" where
  "pc_put users chats pc = pc\<lparr>pc_users := remember users (pc_users pc), pc_chats := remember chats (pc_chats pc)\<rparr>"

definition byId :: "sqlenv \<Rightarrow> store \<Rightarrow> i64 \<Rightarrow> peer_cache \<Rightarrow> tgobject \<times> peer_cache" where
  "byId env s peerId pc =
     (if peerId = 0 then ([], pc)
      else case map_of (fst (pc_users pc)) peerId of
        Some p \<Rightarrow> (p, pc)
      | None \<Rightarrow>
          case map_of (fst (pc_chats pc)) peerId of
            Some p \<Rightarrow> (p, pc)
          | None \<Rightarrow>
              if \<not> pc_store pc \<or> \<not> st_open s then ([], pc)
              else
                let user = store_peer env peerId User s;
                    peer = (if objEMPTY user then store_peer env peerId Chat s else user)
                in if objEMPTY peer then (peer, pc)
                   else if isUser peer then (peer, pc\<lparr>pc_users := remember [VMap peer] (pc_users pc)\<rparr>)
                   else (peer, pc\<lparr>pc_chats := remember [VMap peer] (pc_chats pc)\<rparr>))"

definition pc_clear :: "peer_cache \<Rightarrow> peer_cache" where
  "pc_clear pc = pc\<lparr>pc_users := ([], []), pc_chats := ([], [])\<rparr>"

definition resolvePeer :: "sqlenv \<Rightarrow> store \<Rightarrow> variant list \<Rightarrow> variant list \<Rightarrow> i64 \<Rightarrow> peer_cache \<Rightarrow> tgobject \<times> peer_cache" where
  "resolvePeer env s users chats peerId pc =
     (if peerId = 0 then ([], pc)
      else case find (\<lambda>v. getPeerId (qv_toMap v) = peerId) users of
        Some v \<Rightarrow> (qv_toMap v, pc)
      | None \<Rightarrow>
          case find (\<lambda>v. getPeerId (qv_toMap v) = peerId) chats of
            Some v \<Rightarrow> (qv_toMap v, pc)
          | None \<Rightarrow> byId env s peerId pc)"

subsection \<open>The tables stay consistent and bounded\<close>

definition table_keys :: "peer_table \<Rightarrow> bool" where
  "table_keys t \<longleftrightarrow> distinct (map fst (fst t)) \<and> distinct (snd t) \<and> set (snd t) = fst ` set (fst t) \<and>
     (\<forall>i p. map_of (fst t) i = Some p \<longrightarrow> getPeerId p = i \<and> i \<noteq> 0 \<and> \<not> is_stub p)"

lemma remember_one_keys: "table_keys t \<Longrightarrow> table_keys (remember_one v t)"
proof (cases t)
  case (Pair h order)
  assume t: "table_keys t"
  have "map_of h i = None \<longleftrightarrow> i \<notin> set order" for i
    using t by (simp add: table_keys_def Pair map_of_eq_None_iff)
  then show ?thesis
    using t
    by (auto simp: table_keys_def remember_one_def Pair Let_def distinct_update dom_update update_conv' simp del: map_of_eq_Some_iff split: if_splits)
qed

lemma set_keys_delete: "fst ` set (AList.delete i h) = fst ` set h - {i}"
proof -
  have "set (map fst (AList.delete i h)) = set (map fst h) - {i}" by (simp only: delete_keys set_removeAll)
  then show ?thesis by simp
qed

lemma evict_keys: "table_keys t \<Longrightarrow> table_keys (evict t) \<and> length (snd (evict t)) \<le> MaxEntries"
proof (induction t rule: evict.induct)
  case (1 h order)
  show ?case
  proof (cases "MaxEntries < length order")
    case True
    then obtain i rest where o: "order = i # rest" by (cases order) auto
    have "table_keys (AList.delete i h, rest)"
      using "1.prems" by (auto simp: table_keys_def o distinct_delete set_keys_delete delete_conv' simp del: map_of_eq_Some_iff split: if_splits)
    then show ?thesis using "1.IH" True by (simp add: o evict.simps [of h "i # rest"])
  next
    case False
    then show ?thesis using "1.prems" by (simp add: evict.simps [of h order])
  qed
qed

lemma remember_keys:
  assumes "table_keys t"
  shows "table_keys (remember vs t) \<and> length (snd (remember vs t)) \<le> MaxEntries"
proof -
  have "table_keys (fold remember_one vs t)"
    using assms by (induction vs arbitrary: t) (simp_all add: remember_one_keys)
  then show ?thesis by (simp add: remember_def evict_keys)
qed

definition pc_inv :: "peer_cache \<Rightarrow> bool" where
  "pc_inv pc \<longleftrightarrow> table_keys (pc_users pc) \<and> table_keys (pc_chats pc) \<and>
     length (snd (pc_users pc)) \<le> MaxEntries \<and> length (snd (pc_chats pc)) \<le> MaxEntries"

lemma pc_inv_empty: "table_keys ([], [])"
  by (simp add: table_keys_def)

lemma pc_inv_put: "pc_inv pc \<Longrightarrow> pc_inv (pc_put users chats pc)"
  by (simp add: pc_inv_def pc_put_def remember_keys)

lemma pc_inv_byId: "pc_inv pc \<Longrightarrow> pc_inv (snd (byId env s i pc))"
  by (simp add: byId_def Let_def pc_inv_def remember_keys split: option.split)

lemma pc_inv_resolve: "pc_inv pc \<Longrightarrow> pc_inv (snd (resolvePeer env s users chats i pc))"
  by (simp add: resolvePeer_def pc_inv_byId split: option.split)

lemma pc_inv_setStore: "pc_inv pc \<Longrightarrow> pc_inv (setStore pc)"
  by (simp add: pc_inv_def setStore_def)

lemma pc_inv_clear: "pc_inv (pc_clear pc)"
  by (simp add: pc_inv_def pc_clear_def pc_inv_empty)

inductive pc_step :: "peer_cache \<Rightarrow> peer_cache \<Rightarrow> bool" where
  pcs_store: "pc_step pc (setStore pc)"
| pcs_put: "pc_step pc (pc_put users chats pc)"
| pcs_byId: "pc_step pc (snd (byId env s i pc))"
| pcs_clear: "pc_step pc (pc_clear pc)"

inductive_cases pc_step_cases: "pc_step pc pc'"

interpretation recent_peers: invariant_system "\<lambda>pc. pc = peer_cache_new" pc_step pc_inv
proof unfold_locales
  show "pc = peer_cache_new \<Longrightarrow> pc_inv pc" for pc
    by (simp add: pc_inv_def peer_cache_new_def pc_inv_empty)
  show "pc_inv pc \<Longrightarrow> pc_step pc pc' \<Longrightarrow> pc_inv pc'" for pc pc'
    by (erule pc_step_cases) (simp_all add: pc_inv_put pc_inv_byId pc_inv_setStore pc_inv_clear)
qed

text \<open>What is found has the identifier it was looked up by.\<close>

lemma cached_id: "pc_inv pc \<Longrightarrow> map_of (fst (pc_users pc)) i = Some p \<or> map_of (fst (pc_chats pc)) i = Some p \<Longrightarrow> getPeerId p = i \<and> \<not> is_stub p"
  by (auto simp: pc_inv_def table_keys_def)

end
