(* ===== verification/ViewBase.thy ===== *)
theory ViewBase
  imports ClientDispatch PeerCache MessageText
begin

section \<open>What the interface's lists share\<close>

text \<open>
  The lists of the interface are \<open>QAbstractListModel\<close>s: rows, the request under way, and the signals Qt's views listen to. A slot
  becomes an operation on the list, the application (its client and the local store), and the cache of peers they share. What a list emits is kept in
  a log, in order. Text formatting that Qt does (dates, floating-point numbers, colours, the classes of characters) and the clock are arguments, in
  \<open>uienv\<close>.
\<close>

subsection \<open>Environment\<close>

record uienv =
  ue_sort :: qsorter
  ue_date :: "i32 \<Rightarrow> string \<Rightarrow> qstring"
  ue_kilo :: "i32 \<Rightarrow> qstring"
  ue_size :: "i64 \<Rightarrow> i64 \<Rightarrow> qstring"
  ue_double :: "tgobject \<Rightarrow> string \<Rightarrow> qstring"
  ue_letter :: "16 word \<Rightarrow> bool"
  ue_upper :: "16 word \<Rightarrow> 16 word"
  ue_hsl :: "int \<Rightarrow> qstring"
  ue_now :: i32

subsection \<open>Comparing QVariants\<close>

text \<open>Numbers of any width compare by value; a missing value equals only a missing value.\<close>

fun qv_numeric :: "variant \<Rightarrow> bool" where
  "qv_numeric (VInt _) = True"
| "qv_numeric (VUInt _) = True"
| "qv_numeric (VLong _) = True"
| "qv_numeric (VULong _) = True"
| "qv_numeric (VBool _) = True"
| "qv_numeric _ = False"

definition qv_equal :: "variant \<Rightarrow> variant \<Rightarrow> bool" where
  "qv_equal v1 v2 = (if qv_numeric v1 \<and> qv_numeric v2 then qv_number v1 = qv_number v2 else v1 = v2)"

lemma qv_equal_refl [simp]: "qv_equal v v"
  by (simp add: qv_equal_def)

lemma qv_equal_sym: "qv_equal v w \<longleftrightarrow> qv_equal w v"
  by (auto simp: qv_equal_def)

lemma qv_equal_trans: "qv_equal u v \<Longrightarrow> qv_equal v w \<Longrightarrow> qv_equal u w"
  by (auto simp: qv_equal_def split: if_splits)

subsection \<open>Finding the peer an object names\<close>

text \<open>The loops over the users and the chats of an answer; what was found before stays when nothing matches.\<close>

definition find_peer :: "variant list \<Rightarrow> variant list \<Rightarrow> tgobject \<Rightarrow> tgobject \<Rightarrow> tgobject" where
  "find_peer users chats fromId old =
     (case (if isUser fromId then find (\<lambda>v. peersEqual (qv_toMap v) fromId) users
            else if isChat fromId then find (\<lambda>v. peersEqual (qv_toMap v) fromId) chats
            else None) of
        None \<Rightarrow> old
      | Some v \<Rightarrow> qv_toMap v)"

lemma find_peer_equal: "find_peer users chats fromId old = old \<or> peersEqual (find_peer users chats fromId old) fromId"
  by (auto simp: find_peer_def find_Some_iff split: option.split)

definition full_name :: "tgobject \<Rightarrow> qstring" where
  "full_name peer = qv_toString (obj_get peer ''first_name'') @ qs '' '' @ qv_toString (obj_get peer ''last_name'')"

subsection \<open>Signals\<close>

datatype view_event =
    RowsInserted nat nat
  | RowsRemoved nat nat
  | RowsMoved nat nat
  | ModelReset nat
  | DataChanged nat nat
  | FoldersChanged "tgobject list"
  | SendNotification i64 qstring qstring qstring bool
  | SelectionChanged
  | ScrollTo i32
  | ScrollForNew
  | DownloadUpdated i32 i32 qstring
  | UploadingProgress i32
  | SentMessageUpdate tgobject i64
  | OpenUrl qstring

subsection \<open>A view\<close>

text \<open>
  A view keeps a copy of the rows it has drawn, and of a list it only learns what is announced: rows inserted and rows changed are read again (here: forgotten),
  rows removed and moved go as announced. An announcement that is out of range leaves the view in no defined state.
\<close>

fun view_step :: "view_event \<Rightarrow> 'r option list \<Rightarrow> 'r option list option" where
  "view_step (RowsInserted a b) v = (if a \<le> length v \<and> a \<le> b then Some (take a v @ replicate (Suc b - a) None @ drop a v) else None)"
| "view_step (RowsRemoved a b) v = (if a \<le> b \<and> b < length v then Some (take a v @ drop (Suc b) v) else None)"
| "view_step (RowsMoved a b) v =
     (if \<not> a < length v \<or> \<not> b \<le> length v \<or> b = a \<or> b = Suc a then None
      else if b < a then Some (take b v @ [v ! a] @ drop b (take a v) @ drop (Suc a) v)
      else Some (take a v @ drop (Suc a) (take b v) @ [v ! a] @ drop b v))"
| "view_step (ModelReset n) v = Some (replicate n None)"
| "view_step (DataChanged a b) v =
     (if a \<le> b \<and> b < length v then Some (take a v @ replicate (Suc b - a) None @ drop (Suc b) v) else None)"
| "view_step _ v = Some v"

fun view_run :: "view_event list \<Rightarrow> 'r option list \<Rightarrow> 'r option list option" where
  "view_run [] v = Some v"
| "view_run (e # es) v = (case view_step e v of None \<Rightarrow> None | Some v1 \<Rightarrow> view_run es v1)"

text \<open>What a view has drawn is what the list has.\<close>

definition drawn_ok :: "'r option list \<Rightarrow> 'r list \<Rightarrow> bool" where
  "drawn_ok v rows \<longleftrightarrow> list_all2 (\<lambda>c r. c = None \<or> c = Some r) v rows"

definition announced :: "'r list \<Rightarrow> view_event list \<Rightarrow> 'r list \<Rightarrow> bool" where
  "announced rows es rows' \<longleftrightarrow> (\<exists>v. view_run es (map Some rows) = Some v \<and> drawn_ok v rows')"

definition less_drawn :: "'r option list \<Rightarrow> 'r option list \<Rightarrow> bool" where
  "less_drawn v w \<longleftrightarrow> list_all2 (\<lambda>c d. c = None \<or> c = d) v w"

lemma less_drawn_append: "less_drawn a b \<Longrightarrow> less_drawn c d \<Longrightarrow> less_drawn (a @ c) (b @ d)"
  by (simp add: less_drawn_def list_all2_appendI)

lemma less_drawn_take: "less_drawn v w \<Longrightarrow> less_drawn (take n v) (take n w)"
  by (simp add: less_drawn_def list_all2_takeI)

lemma less_drawn_drop: "less_drawn v w \<Longrightarrow> less_drawn (drop n v) (drop n w)"
  by (simp add: less_drawn_def list_all2_dropI)

lemma less_drawn_refl: "less_drawn v v"
  by (simp add: less_drawn_def list_all2_same)

lemma less_drawn_length: "less_drawn v w \<Longrightarrow> length v = length w"
  by (auto simp: less_drawn_def dest: list_all2_lengthD)

lemma less_drawn_nth: "less_drawn v w \<Longrightarrow> a < length v \<Longrightarrow> less_drawn [v ! a] [w ! a]"
  by (auto simp: less_drawn_def list_all2_conv_all_nth)

lemmas less_drawn_intros = less_drawn_append less_drawn_take less_drawn_drop less_drawn_refl less_drawn_nth

lemma less_drawn_rows: "less_drawn v (map Some rows) \<longleftrightarrow> drawn_ok v rows"
  by (simp add: less_drawn_def drawn_ok_def list_all2_map2)

lemma view_step_less: "less_drawn v w \<Longrightarrow> view_step e w = Some w' \<Longrightarrow> \<exists>v'. view_step e v = Some v' \<and> less_drawn v' w'"
  by (cases e) (auto simp: less_drawn_length split: if_splits intro!: less_drawn_append less_drawn_take less_drawn_drop less_drawn_refl less_drawn_nth
      simp flip: append_Cons intro: less_drawn_append [of "[_]" "[_]", simplified])

lemma view_run_less: "less_drawn v w \<Longrightarrow> view_run es w = Some w' \<Longrightarrow> \<exists>v'. view_run es v = Some v' \<and> less_drawn v' w'"
proof (induction es arbitrary: v w)
  case (Cons e es)
  then obtain w1 where w1: "view_step e w = Some w1" "view_run es w1 = Some w'" by (auto split: option.splits)
  obtain v1 where "view_step e v = Some v1" "less_drawn v1 w1" using view_step_less [OF Cons.prems(1) w1(1)] by auto
  then show ?case using Cons.IH w1(2) by simp
qed simp

lemma view_run_append: "view_run (es @ es') v = (case view_run es v of None \<Rightarrow> None | Some v1 \<Rightarrow> view_run es' v1)"
  by (induction es arbitrary: v) (simp_all split: option.split)

lemma announced_refl [simp, intro]: "announced rows [] rows"
  by (simp add: announced_def less_drawn_refl flip: less_drawn_rows)

lemma less_drawn_trans: "less_drawn u v \<Longrightarrow> less_drawn v w \<Longrightarrow> less_drawn u w"
  unfolding less_drawn_def by (erule (1) list_all2_trans [rotated]) auto

lemma announced_trans: "announced a es b \<Longrightarrow> announced b es' c \<Longrightarrow> announced a (es @ es') c"
proof -
  assume "announced a es b" "announced b es' c"
  then obtain v w where v: "view_run es (map Some a) = Some v" "less_drawn v (map Some b)"
    and w: "view_run es' (map Some b) = Some w" "less_drawn w (map Some c)"
    by (auto simp: announced_def less_drawn_rows)
  obtain v' where v': "view_run es' v = Some v'" "less_drawn v' w" using view_run_less [OF v(2) w(1)] by auto
  have "less_drawn v' (map Some c)" using v'(2) w(2) by (rule less_drawn_trans)
  then show ?thesis using v(1) v'(1) by (auto simp: announced_def view_run_append less_drawn_rows)
qed

lemma announced_one: "view_step e (map Some a) = Some v \<Longrightarrow> less_drawn v (map Some b) \<Longrightarrow> announced a [e] b"
  by (simp add: announced_def less_drawn_rows)

lemma less_drawn_fresh: "n = length w \<Longrightarrow> less_drawn (replicate n None) w"
  by (simp add: less_drawn_def list_all2_conv_all_nth)

lemma announced_append: "new \<noteq> [] \<Longrightarrow> announced rows [RowsInserted (length rows) (length rows + length new - 1)] (rows @ new)"
proof -
  assume "new \<noteq> []"
  then have n: "length rows \<le> length rows + length new - 1" "Suc (length rows + length new - 1) - length rows = length new"
    by (cases new; simp)+
  have "less_drawn (map Some rows @ replicate (length new) None) (map Some (rows @ new))"
    by (simp add: less_drawn_append less_drawn_refl less_drawn_fresh)
  then show ?thesis using n by (intro announced_one) auto
qed

lemma announced_prepend: "new \<noteq> [] \<Longrightarrow> announced rows [RowsInserted 0 (length new - 1)] (new @ rows)"
  by (rule announced_one) (auto intro!: less_drawn_append less_drawn_refl less_drawn_fresh)

lemma announced_remove: "i < length rows \<Longrightarrow> announced rows [RowsRemoved i i] (take i rows @ drop (Suc i) rows)"
  by (rule announced_one) (auto simp: take_map drop_map less_drawn_refl simp flip: map_append)

lemma announced_clear: "rows \<noteq> [] \<Longrightarrow> announced rows [RowsRemoved 0 (length rows - 1)] []"
  by (rule announced_one) (auto simp: less_drawn_def)

lemma announced_reset: "announced rows [ModelReset (length rows')] rows'"
  by (rule announced_one) (auto intro: less_drawn_fresh)

lemma announced_change: "i < length rows \<Longrightarrow> announced rows [DataChanged i i] (rows[i := r])"
  by (rule announced_one) (auto simp: upd_conv_take_nth_drop take_map drop_map less_drawn_def list_all2_appendI list_all2_same)

lemma announced_redraw: "i < length rows \<Longrightarrow> announced rows [DataChanged i i] rows"
  using announced_change [of i rows "rows ! i"] by simp

lemma announced_redraw_all: "rows \<noteq> [] \<Longrightarrow> announced rows [DataChanged 0 (length rows - 1)] rows"
  by (rule announced_one) (auto intro: less_drawn_fresh)

definition quiet :: "view_event \<Rightarrow> bool" where
  "quiet e = (case e of RowsInserted _ _ \<Rightarrow> False | RowsRemoved _ _ \<Rightarrow> False | RowsMoved _ _ \<Rightarrow> False | ModelReset _ \<Rightarrow> False | DataChanged _ _ \<Rightarrow> False | _ \<Rightarrow> True)"

lemma quiet_step: "quiet e \<Longrightarrow> view_step e v = Some v"
  by (cases e) (simp_all add: quiet_def)

lemma announced_quiet: "list_all quiet es \<Longrightarrow> announced rows es rows"
proof (induction es)
  case (Cons e es)
  then show ?case by (simp add: announced_def quiet_step)
qed simp

text \<open>\<open>QList::takeAt\<close> followed by \<open>insert\<close>, to a place further up.\<close>

definition move_up :: "nat \<Rightarrow> nat \<Rightarrow> 'r list \<Rightarrow> 'r list" where
  "move_up a b rows = take b rows @ [rows ! a] @ drop b (take a rows) @ drop (Suc a) rows"

lemma announced_move: "b < a \<Longrightarrow> a < length rows \<Longrightarrow> announced rows [RowsMoved a b] (move_up a b rows)"
  by (rule announced_one) (auto simp: move_up_def take_map drop_map less_drawn_refl)

subsection \<open>The contract of a list\<close>

definition announces :: "('m \<Rightarrow> 'r list) \<Rightarrow> ('m \<Rightarrow> view_event list) \<Rightarrow> 'm \<Rightarrow> 'm \<Rightarrow> bool" where
  "announces rows events m m' \<longleftrightarrow> (\<exists>es. events m' = events m @ es \<and> announced (rows m) es (rows m'))"

lemma announces_refl: "announces rows events m m"
  by (auto simp: announces_def intro: exI [of _ "[]"])

lemma announces_trans: "announces rows events m m1 \<Longrightarrow> announces rows events m1 m' \<Longrightarrow> announces rows events m m'"
  by (auto simp: announces_def intro: announced_trans)

locale list_model =
  fixes rows :: "'m \<Rightarrow> 'r list" and events :: "'m \<Rightarrow> view_event list" and model_step :: "'m \<Rightarrow> 'm \<Rightarrow> bool"
  assumes step_announces: "model_step m m' \<Longrightarrow> announces rows events m m'"
begin

lemma run_announces: "model_step\<^sup>*\<^sup>* m m' \<Longrightarrow> announces rows events m m'"
  by (induction rule: rtranclp_induct) (auto intro: announces_refl announces_trans step_announces)

lemma view_follows: "model_step\<^sup>*\<^sup>* m m' \<Longrightarrow> rows m = [] \<Longrightarrow> events m = [] \<Longrightarrow> announced [] (events m') (rows m')"
  using run_announces [of m m'] by (auto simp: announces_def)

end

subsection \<open>The client\<close>

text \<open>The lists talk to the application's own client.\<close>

abbreviation root_client :: "app \<Rightarrow> client" where
  "root_client a \<equiv> client_at None (ap_world a)"

definition app_authorized :: "app \<Rightarrow> bool" where
  "app_authorized a = isAuthorized (root_client a)"

definition app_userId :: "app \<Rightarrow> i64" where
  "app_userId a = tp_userId (cl_transport (root_client a))"

definition ask :: "(cref \<Rightarrow> world \<Rightarrow> i64 \<times> world) \<Rightarrow> app \<Rightarrow> i64 \<times> app" where
  "ask f a = (let (mid, w) = f None (ap_world a) in (mid, a\<lparr>ap_world := w\<rparr>))"

lemma ask_store [simp]: "ap_store (snd (ask f a)) = ap_store a"
  by (simp add: ask_def split_beta)

text \<open>The \<open>Peer\<close> that names a sender found in the cache.\<close>

definition sender_peer :: "tgobject \<Rightarrow> tgobject" where
  "sender_peer sender =
     (if isChannel sender then [(''_'', VInt PeerChannel), (''channel_id'', getPeerIdVariant sender)]
      else if isChat sender then [(''_'', VInt PeerChat), (''chat_id'', getPeerIdVariant sender)]
      else if isUser sender then [(''_'', VInt PeerUser), (''user_id'', getPeerIdVariant sender)]
      else [])"

definition later :: "i32 \<Rightarrow> i32 \<Rightarrow> i32" where
  "later a b = (if a <s b then b else a)"

lemma announced_with_quiet: "announced rows es rows' \<Longrightarrow> list_all quiet es' \<Longrightarrow> announced rows (es @ es') rows'"
  by (rule announced_trans) (auto intro: announced_quiet)

end
