(* ===== verification/ServiceMessage.thy ===== *)
theory ServiceMessage
  imports ViewBase
begin

section \<open>Service messages: src/messageutil.cpp, handleMessageAction\<close>

text \<open>
  A message of the server about the chat itself carries an action in place of text, and both lists turn it into a sentence. Peers an action only
  names are looked up in the lists that came with the message, then in the cache.
\<close>

subsection \<open>Constructors\<close>

definition MessageActionEmpty :: i32 where "MessageActionEmpty = - 1230047312"
definition MessageActionChatCreate :: i32 where "MessageActionChatCreate = - 1119368275"
definition MessageActionChatEditTitle :: i32 where "MessageActionChatEditTitle = - 1247687078"
definition MessageActionChatEditPhoto :: i32 where "MessageActionChatEditPhoto = 2144015272"
definition MessageActionChatDeletePhoto :: i32 where "MessageActionChatDeletePhoto = - 1780220945"
definition MessageActionChatAddUser :: i32 where "MessageActionChatAddUser = 365886720"
definition MessageActionChatDeleteUser :: i32 where "MessageActionChatDeleteUser = - 1539362612"
definition MessageActionChatJoinedByLink :: i32 where "MessageActionChatJoinedByLink = 51520707"
definition MessageActionChannelCreate :: i32 where "MessageActionChannelCreate = - 1781355374"
definition MessageActionChatMigrateTo :: i32 where "MessageActionChatMigrateTo = - 519864430"
definition MessageActionChannelMigrateFrom :: i32 where "MessageActionChannelMigrateFrom = - 365344535"
definition MessageActionPinMessage :: i32 where "MessageActionPinMessage = - 1799538451"
definition MessageActionHistoryClear :: i32 where "MessageActionHistoryClear = - 1615153660"
definition MessageActionGameScore :: i32 where "MessageActionGameScore = - 1834538890"
definition MessageActionPaymentSentMe :: i32 where "MessageActionPaymentSentMe = - 6288180"
definition MessageActionPaymentSent :: i32 where "MessageActionPaymentSent = - 970673810"
definition MessageActionPhoneCall :: i32 where "MessageActionPhoneCall = - 2132731265"
definition MessageActionScreenshotTaken :: i32 where "MessageActionScreenshotTaken = 1200788123"
definition MessageActionCustomAction :: i32 where "MessageActionCustomAction = - 85549226"
definition MessageActionBotAllowed :: i32 where "MessageActionBotAllowed = - 988359047"
definition MessageActionSecureValuesSentMe :: i32 where "MessageActionSecureValuesSentMe = 455635795"
definition MessageActionSecureValuesSent :: i32 where "MessageActionSecureValuesSent = - 648257196"
definition MessageActionContactSignUp :: i32 where "MessageActionContactSignUp = - 202219658"
definition MessageActionGeoProximityReached :: i32 where "MessageActionGeoProximityReached = - 1730095465"
definition MessageActionGroupCall :: i32 where "MessageActionGroupCall = 2047704898"
definition MessageActionInviteToGroupCall :: i32 where "MessageActionInviteToGroupCall = 1345295095"
definition MessageActionSetMessagesTTL :: i32 where "MessageActionSetMessagesTTL = 1007897979"
definition MessageActionGroupCallScheduled :: i32 where "MessageActionGroupCallScheduled = - 1281329567"
definition MessageActionSetChatTheme :: i32 where "MessageActionSetChatTheme = - 1189364422"
definition MessageActionChatJoinedByRequest :: i32 where "MessageActionChatJoinedByRequest = - 339958837"
definition MessageActionWebViewDataSentMe :: i32 where "MessageActionWebViewDataSentMe = 1205698681"
definition MessageActionWebViewDataSent :: i32 where "MessageActionWebViewDataSent = - 1262252875"
definition MessageActionGiftPremium :: i32 where "MessageActionGiftPremium = 1223234306"
definition MessageActionTopicCreate :: i32 where "MessageActionTopicCreate = 228168278"
definition MessageActionTopicEdit :: i32 where "MessageActionTopicEdit = - 1064024032"
definition MessageActionSuggestProfilePhoto :: i32 where "MessageActionSuggestProfilePhoto = 1474192222"
definition MessageActionRequestedPeer :: i32 where "MessageActionRequestedPeer = 827428507"
definition MessageActionSetChatWallPaper :: i32 where "MessageActionSetChatWallPaper = 1348510708"
definition MessageActionGiftCode :: i32 where "MessageActionGiftCode = 834962247"
definition MessageActionGiveawayLaunch :: i32 where "MessageActionGiveawayLaunch = - 1475391004"

lemmas action_ids = MessageActionEmpty_def MessageActionChatCreate_def MessageActionChatEditTitle_def MessageActionChatEditPhoto_def MessageActionChatDeletePhoto_def MessageActionChatAddUser_def MessageActionChatDeleteUser_def MessageActionChatJoinedByLink_def MessageActionChannelCreate_def MessageActionChatMigrateTo_def MessageActionChannelMigrateFrom_def MessageActionPinMessage_def MessageActionHistoryClear_def MessageActionGameScore_def MessageActionPaymentSentMe_def MessageActionPaymentSent_def MessageActionPhoneCall_def MessageActionScreenshotTaken_def MessageActionCustomAction_def MessageActionBotAllowed_def MessageActionSecureValuesSentMe_def MessageActionSecureValuesSent_def MessageActionContactSignUp_def MessageActionGeoProximityReached_def MessageActionGroupCall_def MessageActionInviteToGroupCall_def MessageActionSetMessagesTTL_def MessageActionGroupCallScheduled_def MessageActionSetChatTheme_def MessageActionChatJoinedByRequest_def MessageActionWebViewDataSentMe_def MessageActionWebViewDataSent_def MessageActionGiftPremium_def MessageActionTopicCreate_def MessageActionTopicEdit_def MessageActionSuggestProfilePhoto_def MessageActionRequestedPeer_def MessageActionSetChatWallPaper_def MessageActionGiftCode_def MessageActionGiveawayLaunch_def

subsection \<open>Names\<close>

fun added_names :: "sqlenv \<Rightarrow> store \<Rightarrow> variant list \<Rightarrow> variant list \<Rightarrow> bool \<Rightarrow> variant list \<Rightarrow> peer_cache \<Rightarrow> qstring \<times> peer_cache" where
  "added_names sql s users chats first [] pc = ([], pc)"
| "added_names sql s users chats first (v # vs) pc =
     (let (added, pc1) = resolvePeer sql s users chats (qv_toLongLong v) pc;
          (rest, pc2) = added_names sql s users chats False vs pc1
      in (if objEMPTY added then rest else qs (if first then '' '' else '', '') @ full_name added @ rest, pc2))"

fun invited_names :: "variant list \<Rightarrow> bool \<Rightarrow> variant list \<Rightarrow> qstring" where
  "invited_names users first [] = []"
| "invited_names users first (v # vs) =
     (case find (\<lambda>u. qv_equal (getPeerIdVariant (qv_toMap u)) v) users of
        None \<Rightarrow> invited_names users False vs
      | Some u \<Rightarrow> qs (if first then '' '' else '', '') @ full_name (qv_toMap u) @ invited_names users False vs)"

definition int_text :: "i32 \<Rightarrow> qstring" where
  "int_text n = qs_number (scast n)"

definition quot :: "int list \<Rightarrow> i32 \<Rightarrow> i32" where
  "quot ds n = fold (\<lambda>d m. word_of_int (sint m sdiv d)) ds n"

definition ttl_text :: "i32 \<Rightarrow> qstring" where
  "ttl_text period =
     (if period = 0 then qs ''disabled the auto-delete timer''
      else qs ''set messages to auto-delete in '' @
        (if 30 * 24 * 60 * 60 \<le>s period then int_text (quot [30, 24, 60, 60] period) @ qs '' months''
         else if 24 * 60 * 60 \<le>s period then int_text (quot [24, 60, 60] period) @ qs '' days''
         else if 60 * 60 \<le>s period then int_text (quot [60, 60] period) @ qs '' hours''
         else if 60 \<le>s period then int_text (quot [60] period) @ qs '' minutes''
         else int_text period @ qs '' seconds''))"

text \<open>Both ends of the distance are looked up into the same variable.\<close>

definition proximity_text :: "uienv \<Rightarrow> variant list \<Rightarrow> variant list \<Rightarrow> tgobject \<Rightarrow> qstring" where
  "proximity_text ui users chats action =
     (let from_peer = find_peer users chats (qv_toMap (obj_get action ''from_id'')) [];
          distance = qv_toInt (obj_get action ''distance'');
          to_peer = find_peer users chats (qv_toMap (obj_get action ''to_id'')) from_peer
      in full_name from_peer @ qs '' is now within '' @
         (if 1000 <s distance then ue_kilo ui distance @ qs '' km from '' else int_text distance @ qs '' m from '') @
         full_name to_peer)"

definition topic_text :: "tgobject \<Rightarrow> qstring" where
  "topic_text action =
     (if qv_toString (obj_get action ''title'') \<noteq> [] then qs ''changed topic title to '' @ qv_toString (obj_get action ''title'')
      else if qv_toLongLong (obj_get action ''icon_emoji_id'') \<noteq> 0 then qs ''changed topic icon''
      else if \<not> qv_isNull (obj_get action ''closed'')
      then (if qv_toBool (obj_get action ''closed'') then qs ''closed topic'' else qs ''reopened topic'')
      else if \<not> qv_isNull (obj_get action ''hidden'')
      then (if qv_toBool (obj_get action ''hidden'') then qs ''hid topic'' else qs ''showed topic'')
      else qs ''edited the topic'')"

subsection \<open>The row\<close>

definition put_photo :: "tgobject \<Rightarrow> bool \<Rightarrow> tgobject \<Rightarrow> tgobject" where
  "put_photo photo spoiler row =
     (let pid = qv_toLongLong (obj_get photo ''id'')
      in obj_put ''photoSpoiler'' (VBool spoiler) (obj_put ''hasPhoto'' (VBool (pid \<noteq> 0)) (obj_put ''photoFileId'' (VLong pid)
           (obj_put ''_photoToDownload'' (VMap photo) (obj_put ''photoFile'' (VStr []) (obj_put ''hasMedia'' (VBool False) row))))))"

definition set_text :: "qstring \<Rightarrow> tgobject \<Rightarrow> tgobject" where
  "set_text t row = obj_put ''messageText'' (VStr t) row"

definition handleMessageAction ::
    "uienv \<Rightarrow> sqlenv \<Rightarrow> store \<Rightarrow> tgobject \<Rightarrow> variant list \<Rightarrow> variant list \<Rightarrow> tgobject \<times> peer_cache \<Rightarrow> tgobject \<times> peer_cache" where
  "handleMessageAction ui sql s message users chats = (\<lambda>(row, pc).
     let action = qv_toMap (obj_get message ''action''); c = objID action;
         str = (\<lambda>k. qv_toString (obj_get action k)); say = (\<lambda>t. (set_text t row, pc))
     in if c = 0 \<or> c = MessageActionEmpty then (row, pc)
        else if c = MessageActionChatCreate then say (qs ''created the group '' @ str ''title'')
        else if c = MessageActionChatEditTitle then say (qs ''changed group name to '' @ str ''title'')
        else if c = MessageActionChatEditPhoto then (put_photo (qv_toMap (obj_get action ''photo'')) False (set_text (qs ''updated group photo'') row), pc)
        else if c = MessageActionChatDeletePhoto then say (qs ''removed group photo'')
        else if c = MessageActionChatAddUser then (let (names, pc1) = added_names sql s users chats True (qv_toList (obj_get action ''users'')) pc in (set_text (qs ''added'' @ names) row, pc1))
        else if c = MessageActionChatDeleteUser then (let (removed, pc1) = resolvePeer sql s users chats (qv_toLongLong (obj_get action ''user_id'')) pc
          in (set_text (qs ''removed '' @ (if objEMPTY removed then [] else full_name removed)) row, pc1))
        else if c = MessageActionChatJoinedByLink then say (qs ''joined the group via invite link'')
        else if c = MessageActionChannelCreate then say (qs ''created the channel '' @ str ''title'')
        else if c = MessageActionChatMigrateTo then say (qs ''migrated this chat to supergroup'')
        else if c = MessageActionChannelMigrateFrom then say (qs ''migrated this channel from group'')
        else if c = MessageActionPinMessage then say (qs ''pinned a message'')
        else if c = MessageActionHistoryClear then say (qs ''cleared history'')
        else if c = MessageActionGameScore then say (qs ''scored '' @ str ''score'' @ qs '' in the game'')
        else if c = MessageActionPaymentSentMe then say (qs ''sent money to you'')
        else if c = MessageActionPaymentSent then say (qs ''sent money'')
        else if c = MessageActionPhoneCall then say (qs ''made a call'')
        else if c = MessageActionScreenshotTaken then say (qs ''took a screenshot'')
        else if c = MessageActionCustomAction then say (str ''message'')
        else if c = MessageActionBotAllowed then say (qs ''gave bot permission to send messages'')
        else if c = MessageActionSecureValuesSentMe then say (qs ''sent Telegram Passport secure values'')
        else if c = MessageActionSecureValuesSent then say (qs ''requested Telegram Passport secure values'')
        else if c = MessageActionContactSignUp then say (qs ''has registered in Telegram being your contact'')
        else if c = MessageActionGeoProximityReached then say (proximity_text ui users chats action)
        else if c = MessageActionGroupCall then say (qs ''made a group call'')
        else if c = MessageActionInviteToGroupCall then say (qs ''invited to group call'' @ invited_names users True (qv_toList (obj_get action ''users'')))
        else if c = MessageActionSetMessagesTTL then say (ttl_text (qv_toInt (obj_get action ''period'')))
        else if c = MessageActionGroupCallScheduled then say (qs ''scheduled a group call for '' @ ue_date ui (qv_toInt (obj_get action ''schedule_date'')) ''MMMM d hh:mm'')
        else if c = MessageActionSetChatTheme then say (qs ''changed the chat theme'')
        else if c = MessageActionChatJoinedByRequest then say (qs ''was accepted to the chat'')
        else if c = MessageActionWebViewDataSentMe then say (qs ''transferred data from the '' @ quote_mark @ str ''text'' @ quote_mark @ qs '' button to the bot'')
        else if c = MessageActionWebViewDataSent then say (qs ''transferred data from the '' @ quote_mark @ str ''text'' @ quote_mark @ qs '' button to the bot'')
        else if c = MessageActionGiftPremium then say (qs ''sent you a Telegram Premium gift for '' @ str ''months'' @ qs '' months'')
        else if c = MessageActionTopicCreate then say (qs ''created the topic '' @ str ''title'')
        else if c = MessageActionTopicEdit then say (topic_text action)
        else if c = MessageActionSuggestProfilePhoto then (put_photo (qv_toMap (obj_get action ''photo'')) False (set_text (qs ''suggests photo for your profile'') row), pc)
        else if c = MessageActionRequestedPeer then say (qs ''shared a peer to the bot'')
        else if c = MessageActionSetChatWallPaper then say (if qv_toBool (obj_get action ''same'') then qs ''changed the same chat wallpaper'' else qs ''changed the chat wallpaper'')
        else if c = MessageActionGiftCode then say (qs ''sent you a gift code'')
        else if c = MessageActionGiveawayLaunch then say (qs ''just started a giveaway of Telegram Premium subscriptions for its followers'')
        else say (qs ''unsupported service message''))"

text \<open>A row's other fields are untouched, but for the photo of an action that has one.\<close>

definition action_keys :: "string set" where
  "action_keys = {''messageText'', ''photoSpoiler'', ''hasPhoto'', ''photoFileId'', ''_photoToDownload'', ''photoFile'', ''hasMedia''}"

lemma set_text_get [simp]: "k \<noteq> ''messageText'' \<Longrightarrow> obj_get (set_text t row) k = obj_get row k"
  by (simp add: set_text_def)

lemma keep_if: "obj_get (fst x) k = r \<Longrightarrow> obj_get (fst y) k = r \<Longrightarrow> obj_get (fst (if b then x else y)) k = r"
  by simp

lemma handleMessageAction_keeps:
  assumes "k \<notin> action_keys"
  shows "obj_get (fst (handleMessageAction ui sql s message users chats (row, pc))) k = obj_get row k"
proof -
  have k: "k \<noteq> ''messageText''" "k \<noteq> ''photoSpoiler''" "k \<noteq> ''hasPhoto''" "k \<noteq> ''photoFileId''" "k \<noteq> ''_photoToDownload''"
    "k \<noteq> ''photoFile''" "k \<noteq> ''hasMedia''" using assms by (auto simp: action_keys_def)
  have photo: "obj_get (put_photo p b r) k = obj_get r k" for p b r
    by (simp only: put_photo_def Let_def obj_get_put k if_False)
  show ?thesis
    unfolding handleMessageAction_def prod.case Let_def split_beta
    by (intro keep_if) (simp_all only: fst_conv photo set_text_get [OF k(1)])
qed

lemma handleMessageAction_none:
  "objEMPTY (qv_toMap (obj_get message ''action'')) \<Longrightarrow> handleMessageAction ui sql s message users chats r = r"
  by (simp add: handleMessageAction_def Let_def objEMPTY_def split_beta)

end
