(* ===== verification/Avatars.thy ===== *)
theory Avatars
  imports ServiceMessage
begin

section \<open>Avatars and the current user: src/avatardownloader.cpp, src/currentuserinfo.cpp\<close>

text \<open>
  \<open>AvatarDownloader\<close> fetches the pictures the lists show, each once: a photo being fetched is pending, one that arrived is done and recorded in the
  settings file. The avatars and the photos of messages have three fields each, in a \<open>fetch_table\<close>. Scaling and rounding an image is Qt's, an argument:
  what is saved, if saving succeeds. \<open>CurrentUserInfo\<close> shows the account itself.
\<close>

subsection \<open>State\<close>

record fetch_table =
  ft_requests :: "(i64 \<times> i64) list"
  ft_pending :: "i64 set"
  ft_done :: "i64 list"

datatype picture_event = AvatarDownloaded i64 qstring | PhotoDownloaded i64 qstring

record avatars =
  av_client :: bool
  av_userId :: i64
  av_avatars :: fetch_table
  av_photos :: fetch_table
  av_saved :: "i64 list \<times> i64 list"
  av_log :: "picture_event list"

record imgenv =
  im_directory :: "qstring \<Rightarrow> qstring"
  im_prefix :: qstring
  im_avatar :: "bytes \<Rightarrow> bytes option"
  im_thumbnail :: "bytes \<Rightarrow> bytes option"

definition table_new :: "i64 list \<Rightarrow> fetch_table" where
  "table_new arrived = \<lparr>ft_requests = [], ft_pending = {}, ft_done = arrived\<rparr>"

definition avatars_new :: "i64 list \<times> i64 list \<Rightarrow> avatars" where
  "avatars_new saved = \<lparr>av_client = False, av_userId = 0, av_avatars = table_new [], av_photos = table_new [], av_saved = saved, av_log = []\<rparr>"

definition saveDatabase :: "avatars \<Rightarrow> avatars" where
  "saveDatabase v = (if av_client v then v\<lparr>av_saved := (ft_done (av_avatars v), ft_done (av_photos v))\<rparr> else v)"

definition readDatabase :: "avatars \<Rightarrow> avatars" where
  "readDatabase v =
     (if av_client v
      then v\<lparr>av_avatars := (av_avatars v)\<lparr>ft_done := fst (av_saved v)\<rparr>, av_photos := (av_photos v)\<lparr>ft_done := snd (av_saved v)\<rparr>\<rparr>
      else v)"

text \<open>The pending marks stay.\<close>

definition clear_requests :: "avatars \<Rightarrow> avatars" where
  "clear_requests v = v\<lparr>av_avatars := (av_avatars v)\<lparr>ft_requests := []\<rparr>, av_photos := (av_photos v)\<lparr>ft_requests := []\<rparr>\<rparr>"

text \<open>With a client; without one the code dereferences the null pointer before it looks.\<close>

definition av_setClient :: "app \<Rightarrow> avatars \<Rightarrow> avatars" where
  "av_setClient a v =
     (let v1 = (if av_client v then saveDatabase v else v)
      in readDatabase (clear_requests (v1\<lparr>av_client := True, av_userId := app_userId a\<rparr>)))"

definition av_authorized :: "i64 \<Rightarrow> avatars \<Rightarrow> avatars" where
  "av_authorized userId v = (if av_userId v \<noteq> userId then (clear_requests v)\<lparr>av_userId := userId\<rparr> else v)"

subsection \<open>Fetching\<close>

definition picture_path :: "imgenv \<Rightarrow> string \<Rightarrow> i64 \<Rightarrow> qstring" where
  "picture_path im folder photoId = im_directory im (qs folder @ qs_number photoId @ qs ''.jpg'')"

definition start_fetch :: "clenv \<Rightarrow> qstring \<Rightarrow> tgobject \<Rightarrow> i64 \<Rightarrow> fetch_table \<times> app \<Rightarrow> fetch_table \<times> app" where
  "start_fetch env path obj photoId = (\<lambda>(t, a).
     if photoId \<in> ft_pending t then (t, a)
     else let (loadingId, a1) = ask (downloadFile env path obj 0 0 0) a
          in (t\<lparr>ft_pending := insert photoId (ft_pending t), ft_requests := AList.update loadingId photoId (ft_requests t)\<rparr>, a1))"

definition downloadPhoto :: "clenv \<Rightarrow> imgenv \<Rightarrow> tgobject \<Rightarrow> avatars \<times> app \<Rightarrow> i64 \<times> avatars \<times> app" where
  "downloadPhoto env im photo = (\<lambda>(v, a).
     if \<not> av_client v \<or> \<not> app_authorized a \<or> objID photo = 0 then (0, v, a)
     else
       let photoId = qv_toLongLong (obj_get photo ''id''); path = picture_path im ''SymboGram_photos/'' photoId
       in if photoId \<notin> set (ft_done (av_photos v))
          then let (t, a1) = start_fetch env path photo photoId (av_photos v, a) in (photoId, v\<lparr>av_photos := t\<rparr>, a1)
          else (photoId, v\<lparr>av_log := av_log v @ [PhotoDownloaded photoId (im_prefix im @ path)]\<rparr>, a))"

definition downloadAvatar :: "clenv \<Rightarrow> imgenv \<Rightarrow> tgobject \<Rightarrow> avatars \<times> app \<Rightarrow> i64 \<times> avatars \<times> app" where
  "downloadAvatar env im peer = (\<lambda>(v, a).
     let photo = qv_toMap (obj_get peer ''photo'')
     in if \<not> av_client v \<or> \<not> app_authorized a \<or> commonPeerType peer = 0 \<or> objID photo = 0 then (0, v, a)
        else
          let photoId = qv_toLongLong (obj_get photo ''photo_id''); path = picture_path im ''SymboGram_avatars/'' photoId
          in if photoId \<notin> set (ft_done (av_avatars v))
             then let (t, a1) = start_fetch env path peer photoId (av_avatars v, a) in (photoId, v\<lparr>av_avatars := t\<rparr>, a1)
             else (photoId, v\<lparr>av_log := av_log v @ [AvatarDownloaded photoId (im_prefix im @ path @ qs ''.png'')]\<rparr>, a))"

definition release :: "i64 \<Rightarrow> i64 \<Rightarrow> fetch_table \<Rightarrow> fetch_table" where
  "release fileId photoId t = t\<lparr>ft_requests := AList.delete fileId (ft_requests t), ft_pending := ft_pending t - {photoId}\<rparr>"

definition save_picture :: "clenv \<Rightarrow> (bytes \<Rightarrow> bytes option) \<Rightarrow> qstring \<Rightarrow> qstring \<Rightarrow> app \<Rightarrow> bool \<times> app" where
  "save_picture env convert filePath target a =
     (if \<not> ce_readable env filePath then (False, a)
      else case convert (disk_bytes filePath (ap_world a)) of
             None \<Rightarrow> (False, a)
           | Some b \<Rightarrow> (True, a\<lparr>ap_world := (ap_world a)\<lparr>w_disk := (w_disk (ap_world a))(target := Some b)\<rparr>\<rparr>))"

definition av_fileDownloaded :: "clenv \<Rightarrow> imgenv \<Rightarrow> i64 \<Rightarrow> qstring \<Rightarrow> avatars \<times> app \<Rightarrow> avatars \<times> app" where
  "av_fileDownloaded env im fileId filePath = (\<lambda>(v, a).
     case map_of (ft_requests (av_avatars v)) fileId of
       Some photoId \<Rightarrow>
         let v1 = v\<lparr>av_avatars := release fileId photoId (av_avatars v)\<rparr>; target = filePath @ qs ''.png'';
             (saved, a1) = save_picture env (im_avatar im) filePath target a
         in if \<not> saved then (v1, a1)
            else let v2 = saveDatabase (v1\<lparr>av_avatars := (av_avatars v1)\<lparr>ft_done := ft_done (av_avatars v1) @ [photoId]\<rparr>\<rparr>)
                 in (v2\<lparr>av_log := av_log v2 @ [AvatarDownloaded photoId (im_prefix im @ target)]\<rparr>, a1)
     | None \<Rightarrow>
         case map_of (ft_requests (av_photos v)) fileId of
           Some photoId \<Rightarrow>
             let v1 = v\<lparr>av_photos := release fileId photoId (av_photos v)\<rparr>;
                 (saved, a1) = save_picture env (im_thumbnail im) filePath (filePath @ qs ''.thumbnail.jpg'') a
             in if \<not> saved then (v1, a1)
                else let v2 = saveDatabase (v1\<lparr>av_photos := (av_photos v1)\<lparr>ft_done := ft_done (av_photos v1) @ [photoId]\<rparr>\<rparr>)
                     in (v2\<lparr>av_log := av_log v2 @ [PhotoDownloaded photoId (im_prefix im @ filePath)]\<rparr>, a1)
         | None \<Rightarrow> (v, a))"

text \<open>Taking an id that is not there gives 0, and 0 is then released.\<close>

definition av_fileDownloadCanceled :: "i64 \<Rightarrow> avatars \<Rightarrow> avatars" where
  "av_fileDownloadCanceled fileId v =
     v\<lparr>av_avatars := release fileId (fst (hash_take fileId (ft_requests (av_avatars v)))) (av_avatars v),
       av_photos := release fileId (fst (hash_take fileId (ft_requests (av_photos v)))) (av_photos v)\<rparr>"

subsection \<open>Initials and colours\<close>

fun words_of :: "qstring \<Rightarrow> qstring list" where
  "words_of [] = []"
| "words_of (c # s) =
     (if c = 32 then words_of s
      else case words_of s of
             [] \<Rightarrow> [[c]]
           | w # ws \<Rightarrow> if s \<noteq> [] \<and> hd s \<noteq> 32 then (c # w) # ws else [c] # w # ws)"

fun initials :: "uienv \<Rightarrow> qstring list \<Rightarrow> qstring \<Rightarrow> qstring" where
  "initials ui [] result = result"
| "initials ui (w # ws) result =
     (let r = (case find (ue_letter ui) w of None \<Rightarrow> result | Some c \<Rightarrow> result @ [ue_upper ui c])
      in if 1 < length r then r else initials ui ws r)"

definition getAvatarText :: "uienv \<Rightarrow> qstring \<Rightarrow> qstring" where
  "getAvatarText ui title =
     (let result = initials ui (words_of title) []
      in if result = [] \<and> title \<noteq> [] then [ue_upper ui (hd title)] else result)"

definition userColor :: "uienv \<Rightarrow> variant \<Rightarrow> qstring" where
  "userColor ui v = ue_hsl ui (sint (qv_toLongLong v) smod 360)"

lemma initials_length: "length r \<le> 1 \<Longrightarrow> length (initials ui ws r) \<le> 2"
  by (induction ws arbitrary: r) (auto simp: Let_def split: option.split)

lemma getAvatarText_length: "length (getAvatarText ui title) \<le> 2"
  using initials_length [of "[]" ui "words_of title"] by (simp add: getAvatarText_def Let_def)

subsection \<open>The account\<close>

datatype info_event = UserInfoChanged qstring qstring qstring qstring | UserAvatarDownloaded qstring

record user_info =
  cu_client :: bool
  cu_userId :: i64
  cu_requestId :: i64
  cu_avatars :: bool
  cu_log :: "info_event list"

definition cu_emit :: "info_event \<Rightarrow> user_info \<Rightarrow> user_info" where
  "cu_emit e u = u\<lparr>cu_log := cu_log u @ [e]\<rparr>"

definition cu_setClient :: "uienv \<Rightarrow> bool \<Rightarrow> user_info \<Rightarrow> user_info" where
  "cu_setClient ui given u =
     cu_emit (UserInfoChanged [] [] (userColor ui (VInt 0)) []) (u\<lparr>cu_client := given, cu_userId := 0, cu_requestId := 0\<rparr>)"

definition cu_authorized :: "uienv \<Rightarrow> i64 \<Rightarrow> user_info \<Rightarrow> user_info" where
  "cu_authorized ui userId u =
     (if cu_userId u \<noteq> userId
      then (cu_emit (UserInfoChanged [] [] (userColor ui (VInt 0)) []) (u\<lparr>cu_requestId := 0\<rparr>))\<lparr>cu_userId := userId\<rparr>
      else u)"

text \<open>Every round of the loop looks at the first element.\<close>

definition usersGetUsersResponse :: "clenv \<Rightarrow> imgenv \<Rightarrow> uienv \<Rightarrow> variant list \<Rightarrow> user_info \<times> avatars \<times> app \<Rightarrow> user_info \<times> avatars \<times> app" where
  "usersGetUsersResponse env im ui data = (\<lambda>(u, v, a).
     case data of
       [] \<Rightarrow> (u, v, a)
     | first # _ \<Rightarrow>
         let obj = qv_toMap first
         in if app_userId a \<noteq> getPeerId obj then (u, v, a)
            else
              let name = full_name obj;
                  u1 = cu_emit (UserInfoChanged name (qv_toString (obj_get obj ''username'')) (userColor ui (obj_get obj ''id'')) (getAvatarText ui name)) u
              in if cu_avatars u1 then (let (r, v1, a1) = downloadAvatar env im obj (v, a) in (u1\<lparr>cu_requestId := r\<rparr>, v1, a1))
                 else (u1, v, a))"

definition cu_avatarDownloaded :: "i64 \<Rightarrow> qstring \<Rightarrow> user_info \<Rightarrow> user_info" where
  "cu_avatarDownloaded photoId filePath u =
     (if cu_requestId u \<noteq> photoId then u else cu_emit (UserAvatarDownloaded filePath) (u\<lparr>cu_requestId := 0\<rparr>))"

subsection \<open>The downloader at work\<close>

text \<open>Its slots, with anything happening to the application in between.\<close>

inductive av_step :: "clenv \<Rightarrow> imgenv \<Rightarrow> avatars \<times> app \<Rightarrow> avatars \<times> app \<Rightarrow> bool" for env im where
  av_app: "av_step env im (v, a) (v, a')"
| av_setClient: "av_step env im (v, a) (av_setClient a v, a)"
| av_authorized: "av_step env im (v, a) (av_authorized userId v, a)"
| av_photo: "av_step env im s (snd (downloadPhoto env im photo s))"
| av_avatar: "av_step env im s (snd (downloadAvatar env im peer s))"
| av_downloaded: "av_step env im s (av_fileDownloaded env im fileId filePath s)"
| av_canceled: "av_step env im (v, a) (av_fileDownloadCanceled fileId v, a)"

text \<open>No photo is being fetched twice.\<close>

definition fetch_once :: "fetch_table \<Rightarrow> bool" where
  "fetch_once t \<longleftrightarrow> (\<forall>k p. map_of (ft_requests t) k = Some p \<longrightarrow> p \<noteq> 0 \<longrightarrow>
     p \<in> ft_pending t \<and> (\<forall>k'. map_of (ft_requests t) k' = Some p \<longrightarrow> k' = k))"

lemma fetch_onceD: "fetch_once t \<Longrightarrow> map_of (ft_requests t) k = Some p \<Longrightarrow> map_of (ft_requests t) k' = Some p \<Longrightarrow> p \<noteq> 0 \<Longrightarrow> k' = k"
  by (auto simp: fetch_once_def)

lemma fetch_once_start: "fetch_once t \<Longrightarrow> fetch_once (fst (start_fetch env path obj p (t, a)))"
  by (auto simp: fetch_once_def start_fetch_def update_conv' split_beta split: if_splits)

lemma fetch_once_release:
  assumes "fetch_once t" and "map_of (ft_requests t) k = Some p"
  shows "fetch_once (release k p t)"
  using assms by (auto simp: fetch_once_def release_def delete_conv')

lemma fetch_once_release_none: "fetch_once t \<Longrightarrow> fetch_once (release k 0 t)"
  by (auto simp: fetch_once_def release_def delete_conv' split: if_splits)

lemma fetch_once_cancel: "fetch_once t \<Longrightarrow> fetch_once (release k (fst (hash_take k (ft_requests t))) t)"
  using fetch_once_release [of t k] fetch_once_release_none [of t k] by (cases "map_of (ft_requests t) k") (simp_all add: hash_take_def)

lemma fetch_once_done [simp]: "fetch_once (t\<lparr>ft_done := d\<rparr>) \<longleftrightarrow> fetch_once t" "fetch_once (t\<lparr>ft_requests := []\<rparr>)"
  by (simp_all add: fetch_once_def)

definition av_inv :: "avatars \<Rightarrow> bool" where
  "av_inv v \<longleftrightarrow> fetch_once (av_avatars v) \<and> fetch_once (av_photos v)"

lemma saveDatabase_tables [simp]: "av_avatars (saveDatabase v) = av_avatars v" "av_photos (saveDatabase v) = av_photos v"
  "av_log (saveDatabase v) = av_log v"
  by (simp_all add: saveDatabase_def)

lemma av_step_inv: "av_step env im s s' \<Longrightarrow> av_inv (fst s) \<Longrightarrow> av_inv (fst s')"
proof (induction rule: av_step.induct)
  case (av_photo s photo)
  then show ?case
    by (cases s) (auto simp: av_inv_def downloadPhoto_def Let_def split_beta fetch_once_start)
next
  case (av_avatar s peer)
  then show ?case
    by (cases s) (auto simp: av_inv_def downloadAvatar_def Let_def split_beta fetch_once_start)
next
  case (av_downloaded s fileId filePath)
  then show ?case
    by (cases s) (auto simp: av_inv_def av_fileDownloaded_def Let_def split_beta fetch_once_release split: option.splits)
next
  case (av_canceled v a fileId)
  then show ?case by (simp add: av_inv_def av_fileDownloadCanceled_def fetch_once_cancel)
qed (auto simp: Let_def av_inv_def av_setClient_def readDatabase_def clear_requests_def av_authorized_def)

text \<open>A photo that is pending without a request is never fetched again.\<close>

definition stuck :: "i64 \<Rightarrow> avatars \<Rightarrow> bool" where
  "stuck p v \<longleftrightarrow> p \<noteq> 0 \<and> p \<in> ft_pending (av_avatars v) \<and> (\<forall>k. map_of (ft_requests (av_avatars v)) k \<noteq> Some p) \<and>
     p \<notin> set (ft_done (av_avatars v)) \<and> p \<notin> set (fst (av_saved v)) \<and> (\<forall>f. AvatarDownloaded p f \<notin> set (av_log v))"

lemma stuck_start: "p \<in> ft_pending t \<Longrightarrow> \<forall>k. map_of (ft_requests t) k \<noteq> Some p \<Longrightarrow>
  p \<in> ft_pending (fst (start_fetch env path obj q (t, a))) \<and>
  (\<forall>k. map_of (ft_requests (fst (start_fetch env path obj q (t, a)))) k \<noteq> Some p) \<and>
  ft_done (fst (start_fetch env path obj q (t, a))) = ft_done t"
  by (auto simp: start_fetch_def split_beta update_conv')

lemma stuck_step: "av_step env im s s' \<Longrightarrow> stuck p (fst s) \<Longrightarrow> stuck p (fst s')"
proof (induction rule: av_step.induct)
  case (av_photo s photo)
  then show ?case
    by (cases s) (auto simp: stuck_def downloadPhoto_def Let_def split_beta)
next
  case (av_avatar s peer)
  then show ?case
    by (cases s) (auto simp: stuck_def downloadAvatar_def Let_def split_beta stuck_start)
next
  case (av_downloaded s fileId filePath)
  then show ?case
    by (cases s) (auto simp: stuck_def av_fileDownloaded_def Let_def split_beta release_def delete_conv' saveDatabase_def split: option.splits if_splits)
next
  case (av_canceled v a fileId)
  then show ?case by (auto simp: stuck_def av_fileDownloadCanceled_def release_def hash_take_def delete_conv' split: option.splits)
qed (auto simp: Let_def stuck_def av_setClient_def readDatabase_def clear_requests_def av_authorized_def saveDatabase_def)

text \<open>Another account logs in while an avatar is being fetched.\<close>

lemma stuck_after_login:
  assumes "p \<noteq> 0" and "p \<in> ft_pending (av_avatars v)" and "userId \<noteq> av_userId v"
    and "p \<notin> set (ft_done (av_avatars v))" and "p \<notin> set (fst (av_saved v))" and "\<forall>f. AvatarDownloaded p f \<notin> set (av_log v)"
  shows "stuck p (av_authorized userId v)"
  using assms by (auto simp: stuck_def av_authorized_def clear_requests_def)

subsection \<open>What the lists share\<close>

record desk =
  dk_app :: app
  dk_peers :: peer_cache
  dk_pics :: avatars

record viewenv =
  ve_cl :: clenv
  ve_sql :: sqlenv
  ve_im :: imgenv
  ve_ui :: uienv

definition desk_ask :: "(cref \<Rightarrow> world \<Rightarrow> i64 \<times> world) \<Rightarrow> desk \<Rightarrow> i64 \<times> desk" where
  "desk_ask f d = (let (mid, a) = ask f (dk_app d) in (mid, d\<lparr>dk_app := a\<rparr>))"

definition desk_avatar :: "viewenv \<Rightarrow> variant \<Rightarrow> desk \<Rightarrow> desk" where
  "desk_avatar env v d =
     (let (_, pics, a) = downloadAvatar (ve_cl env) (ve_im env) (qv_toMap v) (dk_pics d, dk_app d) in d\<lparr>dk_pics := pics, dk_app := a\<rparr>)"

definition desk_photo :: "viewenv \<Rightarrow> tgobject \<Rightarrow> desk \<Rightarrow> desk" where
  "desk_photo env photo d =
     (let (_, pics, a) = downloadPhoto (ve_cl env) (ve_im env) photo (dk_pics d, dk_app d) in d\<lparr>dk_pics := pics, dk_app := a\<rparr>)"

definition desk_put :: "variant list \<Rightarrow> variant list \<Rightarrow> desk \<Rightarrow> desk" where
  "desk_put users chats d = d\<lparr>dk_peers := pc_put users chats (dk_peers d)\<rparr>"

definition desk_peer :: "viewenv \<Rightarrow> i64 \<Rightarrow> desk \<Rightarrow> tgobject \<times> desk" where
  "desk_peer env peerId d = (let (p, pc) = byId (ve_sql env) (ap_store (dk_app d)) peerId (dk_peers d) in (p, d\<lparr>dk_peers := pc\<rparr>))"

definition desk_action :: "viewenv \<Rightarrow> tgobject \<Rightarrow> variant list \<Rightarrow> variant list \<Rightarrow> tgobject \<times> desk \<Rightarrow> tgobject \<times> desk" where
  "desk_action env message users chats = (\<lambda>(row, d).
     let (row1, pc) = handleMessageAction (ve_ui env) (ve_sql env) (ap_store (dk_app d)) message users chats (row, dk_peers d)
     in (row1, d\<lparr>dk_peers := pc\<rparr>))"

end
