(* ===== verification/Folders.thy ===== *)
theory Folders
  imports ViewBase
begin

section \<open>Folders: src/foldersmodel.cpp\<close>

text \<open>
  The account's chat folders, in the order the server lists them, each with a title and an icon; \<open>matchesFilter\<close> decides which chats a folder holds.
\<close>

subsection \<open>State\<close>

record folders_model =
  fm_rows :: "tgobject list"
  fm_client :: bool
  fm_userId :: i64
  fm_requestId :: i64
  fm_log :: "view_event list"

definition folders_new :: folders_model where
  "folders_new = \<lparr>fm_rows = [], fm_client = False, fm_userId = 0, fm_requestId = 0, fm_log = []\<rparr>"

definition fm_emit :: "view_event \<Rightarrow> folders_model \<Rightarrow> folders_model" where
  "fm_emit e m = m\<lparr>fm_log := fm_log m @ [e]\<rparr>"

definition fm_resetState :: "folders_model \<Rightarrow> folders_model" where
  "fm_resetState m =
     (let m1 = (if fm_rows m = [] then m
                else fm_emit (FoldersChanged []) (fm_emit (RowsRemoved 0 (length (fm_rows m) - 1)) m\<lparr>fm_rows := []\<rparr>))
      in m1\<lparr>fm_requestId := 0\<rparr>)"

definition fm_setClient :: "bool \<Rightarrow> folders_model \<Rightarrow> folders_model" where
  "fm_setClient given m = fm_resetState (m\<lparr>fm_client := given, fm_userId := 0\<rparr>)"

subsection \<open>Icons\<close>

definition iconsMap :: "qtenv \<Rightarrow> (qstring \<times> string) list" where
  "iconsMap q = map (apfst (from_utf8 q))
     [([240, 159, 144, 177], ''cat.png''),
      ([240, 159, 147, 149], ''book.png''),
      ([240, 159, 146, 176], ''money.png''),
      ([240, 159, 142, 174], ''game.png''),
      ([240, 159, 146, 161], ''light.png''),
      ([240, 159, 145, 140], ''like.png''),
      ([240, 159, 142, 181], ''note.png''),
      ([240, 159, 142, 168], ''palette.png''),
      ([226, 156, 136, 239, 184, 143], ''travel.png''),
      ([226, 154, 189, 239, 184, 143], ''sport.png''),
      ([226, 173, 144], ''favorite.png''),
      ([240, 159, 142, 147], ''study.png''),
      ([240, 159, 155, 171], ''airplane.png''),
      ([240, 159, 145, 164], ''private.png''),
      ([240, 159, 145, 165], ''groups.png''),
      ([240, 159, 146, 172], ''all.png''),
      ([226, 156, 133], ''unread.png''),
      ([240, 159, 164, 150], ''bots.png''),
      ([240, 159, 145, 145], ''crown.png''),
      ([240, 159, 140, 185], ''flower.png''),
      ([240, 159, 143, 160], ''home.png''),
      ([226, 157, 164], ''love.png''),
      ([240, 159, 142, 173], ''mask.png''),
      ([240, 159, 141, 184], ''party.png''),
      ([240, 159, 147, 136], ''trade.png''),
      ([240, 159, 146, 188], ''work.png''),
      ([240, 159, 148, 148], ''unmuted.png''),
      ([240, 159, 147, 162], ''channels.png''),
      ([240, 159, 147, 129], ''custom.png''),
      ([240, 159, 147, 139], ''setup.png'')]"

definition filters_path :: "string \<Rightarrow> qstring" where
  "filters_path icon = qs ''../../img/filters/'' @ qs icon"

definition allFlags :: i32 where "allFlags = 31"

definition flags_icon :: "tgobject \<Rightarrow> string" where
  "flags_icon flt =
     (let flags = qv_toInt (obj_get flt ''flags''); kinds = flags AND allFlags
      in if qv_toList (obj_get flt ''include_peers'') \<noteq> [] \<or> qv_toList (obj_get flt ''exclude_peers'') \<noteq> [] \<or> kinds = 0
         then ''custom.png''
         else if kinds \<in> set [1, 2, 3] then ''private.png''
         else if kinds = 4 then ''groups.png''
         else if kinds = 8 then ''channels.png''
         else if kinds = 16 then ''bots.png''
         else if flags AND 2048 = 2048 then ''unread.png''
         else if flags AND 4096 = 4096 then ''unmuted.png''
         else ''custom.png'')"

definition folder_row :: "qtenv \<Rightarrow> tgobject \<Rightarrow> tgobject" where
  "folder_row q flt =
     (if objID flt = DialogFilterDefault
      then obj_put ''icon'' (VStr (filters_path ''all.png'')) (obj_put ''title'' (VStr (qs ''All chats'')) flt)
      else
        let flt1 = (case obj_get flt ''title'' of VMap t \<Rightarrow> obj_put ''title'' (obj_get t ''text'') flt | _ \<Rightarrow> flt)
        in case map_of (iconsMap q) (qv_toString (obj_get flt1 ''emoticon'')) of
             Some icon \<Rightarrow> obj_put ''icon'' (VStr (filters_path icon)) flt1
           | None \<Rightarrow> obj_put ''icon'' (VStr (filters_path (flags_icon flt1))) flt1)"

subsection \<open>Which chats a folder holds\<close>

definition names_peer :: "tgobject \<Rightarrow> variant list \<Rightarrow> bool" where
  "names_peer peer vs = list_ex (\<lambda>v. peersEqual peer (qv_toMap v)) vs"

definition is_unread :: "tgobject \<Rightarrow> bool" where
  "is_unread peer \<longleftrightarrow> qv_toBool (obj_get peer ''unread_mark'') \<or> qv_toBool (obj_get peer ''unread_count'') \<or>
     qv_toBool (obj_get peer ''unread_mentions_count'') \<or> qv_toBool (obj_get peer ''unread_reactions_count'')"

definition matchesFilter :: "tgobject \<Rightarrow> tgobject \<Rightarrow> bool" where
  "matchesFilter flt peer =
     (let on = (\<lambda>k. qv_toBool (obj_get flt k)); contact = qv_toBool (obj_get peer ''contact'')
      in if objID flt = DialogFilterDefault then True
         else if names_peer peer (qv_toList (obj_get flt ''include_peers'')) then True
         else if objID flt = DialogFilterChatlist then False
         else if names_peer peer (qv_toList (obj_get flt ''exclude_peers'')) then False
         else if on ''exclude_muted'' \<and> qv_toBool (obj_get (qv_toMap (obj_get peer ''notify_settings'')) ''silent'') then False
         else if on ''exclude_read'' \<and> \<not> is_unread peer then False
         else if on ''exclude_archived'' \<and> qv_toBool (obj_get peer ''folder_id'') then False
         else if on ''contacts'' \<and> isUser peer \<and> contact then True
         else if on ''non_contacts'' \<and> isUser peer \<and> \<not> contact then True
         else if on ''groups'' \<and> isGroup peer then True
         else if on ''broadcasts'' \<and> isChannel peer then True
         else if on ''bots'' \<and> isUser peer \<and> qv_toBool (obj_get peer ''bot'') then True
         else False)"

subsection \<open>Slots\<close>

definition fm_canFetchMore :: "app \<Rightarrow> folders_model \<Rightarrow> bool" where
  "fm_canFetchMore a m \<longleftrightarrow> fm_client m \<and> app_authorized a \<and> fm_requestId m = 0 \<and> fm_rows m = []"

definition fm_fetchMore :: "clenv \<Rightarrow> folders_model \<times> app \<Rightarrow> folders_model \<times> app" where
  "fm_fetchMore env = (\<lambda>(m, a). let (r, a1) = ask (messagesGetDialogFilters env) a in (m\<lparr>fm_requestId := r\<rparr>, a1))"

definition fm_authorized :: "clenv \<Rightarrow> i64 \<Rightarrow> folders_model \<times> app \<Rightarrow> folders_model \<times> app" where
  "fm_authorized env userId = (\<lambda>(m, a).
     if fm_userId m \<noteq> userId then fm_fetchMore env ((fm_resetState m)\<lparr>fm_userId := userId\<rparr>, a) else (m, a))"

definition fm_response :: "qtenv \<Rightarrow> variant list \<Rightarrow> i64 \<Rightarrow> folders_model \<Rightarrow> folders_model" where
  "fm_response q data messageId m =
     (if fm_requestId m \<noteq> messageId then m
      else
        let m1 = m\<lparr>fm_requestId := 0\<rparr>; rows = map (folder_row q \<circ> qv_toMap) data; n = length (fm_rows m1)
        in if data = [] then m1
           else let m2 = fm_emit (RowsInserted n (n + length rows - 1)) m1\<lparr>fm_rows := fm_rows m1 @ rows\<rparr>
                in fm_emit (FoldersChanged (fm_rows m2)) m2)"

definition fm_refresh :: "clenv \<Rightarrow> folders_model \<times> app \<Rightarrow> folders_model \<times> app" where
  "fm_refresh env = (\<lambda>(m, a). fm_fetchMore env (fm_resetState m, a))"

text \<open>\<open>data\<close>; the view asks for rows there are.\<close>

definition fm_data :: "folders_model \<Rightarrow> nat \<Rightarrow> string \<Rightarrow> variant" where
  "fm_data m i role = (if role = ''folderIndex'' then VInt (of_nat i) else obj_get (fm_rows m ! i) role)"

subsection \<open>A view follows the list\<close>

inductive fm_step :: "folders_model \<Rightarrow> folders_model \<Rightarrow> bool" where
  fm_st_setClient: "fm_step m (fm_setClient given m)"
| fm_st_authorized: "fm_step m (fst (fm_authorized env userId (m, a)))"
| fm_st_response: "fm_step m (fm_response q data messageId m)"
| fm_st_fetchMore: "fm_step m (fst (fm_fetchMore env (m, a)))"
| fm_st_refresh: "fm_step m (fst (fm_refresh env (m, a)))"

lemma fm_emit_simps [simp]: "fm_rows (fm_emit e m) = fm_rows m" "fm_log (fm_emit e m) = fm_log m @ [e]"
  "fm_requestId (fm_emit e m) = fm_requestId m" "fm_userId (fm_emit e m) = fm_userId m" "fm_client (fm_emit e m) = fm_client m"
  by (simp_all add: fm_emit_def)

lemma fm_resetState_announces:
  "\<exists>es. fm_log (fm_resetState m) = fm_log m @ es \<and> announced (fm_rows m) es (fm_rows (fm_resetState m))"
proof (cases "fm_rows m = []")
  case False
  then have "announced (fm_rows m) ([RowsRemoved 0 (length (fm_rows m) - 1)] @ [FoldersChanged []]) []"
    by (intro announced_with_quiet announced_clear) (simp_all add: quiet_def)
  then show ?thesis using False by (intro exI [of _ "[RowsRemoved 0 (length (fm_rows m) - 1), FoldersChanged []]"])
      (simp add: fm_resetState_def)
qed (simp add: fm_resetState_def)

lemma fm_resetState_rows [simp]: "fm_rows (fm_resetState m) = []"
  by (simp add: fm_resetState_def)

lemma fm_fetchMore_simps [simp]: "fm_rows (fst (fm_fetchMore env (m, a))) = fm_rows m" "fm_log (fst (fm_fetchMore env (m, a))) = fm_log m"
  by (simp_all add: fm_fetchMore_def split_beta)

lemma fm_response_announces:
  "\<exists>es. fm_log (fm_response q data messageId m) = fm_log m @ es \<and> announced (fm_rows m) es (fm_rows (fm_response q data messageId m))"
proof (cases "fm_requestId m = messageId \<and> data \<noteq> []")
  case True
  let ?new = "map (folder_row q \<circ> qv_toMap) data" and ?n = "length (fm_rows m)"
  have "announced (fm_rows m) ([RowsInserted ?n (?n + length ?new - 1)] @ [FoldersChanged (fm_rows m @ ?new)]) (fm_rows m @ ?new)"
    using True by (intro announced_with_quiet announced_append) (simp_all add: quiet_def)
  then show ?thesis
    using True by (intro exI [of _ "[RowsInserted ?n (?n + length ?new - 1), FoldersChanged (fm_rows m @ ?new)]"]) (simp add: fm_response_def Let_def)
qed (auto simp: fm_response_def Let_def)

lemma fm_step_announces: "fm_step m m' \<Longrightarrow> announces fm_rows fm_log m m'"
proof (induction rule: fm_step.induct)
  case (fm_st_setClient m given)
  show ?case using fm_resetState_announces [of "m\<lparr>fm_client := given, fm_userId := 0\<rparr>"] by (simp add: announces_def fm_setClient_def)
next
  case (fm_st_authorized m env userId a)
  show ?case using fm_resetState_announces [of m] by (simp add: announces_def fm_authorized_def)
next
  case (fm_st_refresh m env a)
  show ?case using fm_resetState_announces [of m] by (simp add: announces_def fm_refresh_def)
qed (auto simp: announces_def fm_response_announces)

interpretation folders: list_model fm_rows fm_log fm_step
  by unfold_locales (rule fm_step_announces)

subsection \<open>The order of the rules\<close>

definition folder_hides :: "tgobject \<Rightarrow> tgobject \<Rightarrow> bool" where
  "folder_hides flt peer \<longleftrightarrow>
     names_peer peer (qv_toList (obj_get flt ''exclude_peers'')) \<or>
     qv_toBool (obj_get flt ''exclude_muted'') \<and> qv_toBool (obj_get (qv_toMap (obj_get peer ''notify_settings'')) ''silent'') \<or>
     qv_toBool (obj_get flt ''exclude_read'') \<and> \<not> is_unread peer \<or>
     qv_toBool (obj_get flt ''exclude_archived'') \<and> qv_toBool (obj_get peer ''folder_id'')"

definition folder_wants :: "tgobject \<Rightarrow> tgobject \<Rightarrow> bool" where
  "folder_wants flt peer \<longleftrightarrow>
     (if isUser peer
      then qv_toBool (obj_get flt (if qv_toBool (obj_get peer ''contact'') then ''contacts'' else ''non_contacts'')) \<or>
        qv_toBool (obj_get flt ''bots'') \<and> qv_toBool (obj_get peer ''bot'')
      else isGroup peer \<and> qv_toBool (obj_get flt ''groups'') \<or> isChannel peer \<and> qv_toBool (obj_get flt ''broadcasts''))"

text \<open>A chat named is in; then what the folder hides is out; then a chat of a kind the folder wants is in.\<close>

lemma matchesFilter_rules:
  "matchesFilter flt peer \<longleftrightarrow>
     objID flt = DialogFilterDefault \<or> names_peer peer (qv_toList (obj_get flt ''include_peers'')) \<or>
     objID flt \<noteq> DialogFilterChatlist \<and> \<not> folder_hides flt peer \<and> folder_wants flt peer"
proof -
  have "isUser peer \<Longrightarrow> \<not> isGroup peer \<and> \<not> isChannel peer"
    by (auto simp: isUser_def isGroup_def isChannel_def isChat_def User_def Chat_def)
  then show ?thesis
    by (auto simp: matchesFilter_def Let_def folder_hides_def folder_wants_def)
qed

end
