(* ===== verification/Dialogs.thy ===== *)
theory Dialogs
  imports Avatars Folders
begin

section \<open>The list of chats: src/dialogsmodel.cpp\<close>

text \<open>
  One row per chat: pinned chats first, then the others, the one with the newest message on top. The list starts from the local cache while the network
  answers, is fetched page by page, and then follows the updates.
\<close>

subsection \<open>Constructors\<close>

definition UpdateReadHistoryInbox :: i32 where "UpdateReadHistoryInbox = - 1635468135"
definition UpdateReadChannelInbox :: i32 where "UpdateReadChannelInbox = - 1842450928"

lemmas dialog_ids = UpdateReadHistoryInbox_def UpdateReadChannelInbox_def

subsection \<open>State\<close>

record dialogs_model =
  dm_rows :: "tgobject list"
  dm_client :: bool
  dm_userId :: i64
  dm_requestId :: i64
  dm_offsets :: tgobject
  dm_avatars :: bool
  dm_folders :: bool
  dm_lastPinnedIndex :: int
  dm_fromCache :: bool
  dm_log :: "view_event list"

definition dialogs_new :: dialogs_model where
  "dialogs_new = \<lparr>dm_rows = [], dm_client = False, dm_userId = 0, dm_requestId = 0, dm_offsets = [], dm_avatars = False, dm_folders = False,
     dm_lastPinnedIndex = - 1, dm_fromCache = False, dm_log = []\<rparr>"

definition dm_emit :: "view_event \<Rightarrow> dialogs_model \<Rightarrow> dialogs_model" where
  "dm_emit e m = m\<lparr>dm_log := dm_log m @ [e]\<rparr>"

definition dm_resetState :: "dialogs_model \<Rightarrow> dialogs_model" where
  "dm_resetState m =
     (let m1 = (if dm_rows m = [] then m else dm_emit (RowsRemoved 0 (length (dm_rows m) - 1)) (m\<lparr>dm_rows := []\<rparr>))
      in m1\<lparr>dm_requestId := 0, dm_offsets := [(''_start'', VBool True)], dm_lastPinnedIndex := - 1, dm_fromCache := False\<rparr>)"

definition dm_setClient :: "bool \<Rightarrow> dialogs_model \<times> desk \<Rightarrow> dialogs_model \<times> desk" where
  "dm_setClient given = (\<lambda>(m, d).
     (dm_resetState (m\<lparr>dm_client := given, dm_userId := 0\<rparr>), if given then d\<lparr>dk_peers := setStore (dk_peers d)\<rparr> else d))"

subsection \<open>Folders\<close>

definition folder_indices :: "tgobject list \<Rightarrow> tgobject \<Rightarrow> variant" where
  "folder_indices flds peer = VList (map (\<lambda>j. VInt (of_nat j)) (filter (\<lambda>j. matchesFilter (flds ! j) peer) [0..<length flds]))"

fun refolder :: "sqlenv \<Rightarrow> tgobject list \<Rightarrow> nat \<Rightarrow> tgobject list \<Rightarrow> tgobject list \<times> view_event list" where
  "refolder sql flds i [] = ([], [])"
| "refolder sql flds i (row # rows) =
     (let (rest, es) = refolder sql flds (Suc i) rows;
          peer = qv_toMap (case obj_get row ''peerBytes'' of VBytes b \<Rightarrow> sq_unpack sql b | _ \<Rightarrow> VNull)
      in (obj_put ''folders'' (folder_indices flds peer) row # rest, DataChanged i i # es))"

definition dm_foldersChanged :: "sqlenv \<Rightarrow> tgobject list \<Rightarrow> dialogs_model \<Rightarrow> dialogs_model" where
  "dm_foldersChanged sql flds m =
     (let (rows, es) = refolder sql flds 0 (dm_rows m) in m\<lparr>dm_rows := rows, dm_log := dm_log m @ es\<rparr>)"

definition dm_setFolders :: "sqlenv \<Rightarrow> folders_model option \<Rightarrow> dialogs_model \<Rightarrow> dialogs_model" where
  "dm_setFolders sql fm m =
     dm_foldersChanged sql (case fm of None \<Rightarrow> [] | Some f \<Rightarrow> fm_rows f) (m\<lparr>dm_folders := (fm \<noteq> None)\<rparr>)"

text \<open>With an index the list has; other indices crash.\<close>

definition dm_inFolder :: "dialogs_model \<Rightarrow> i32 \<Rightarrow> i32 \<Rightarrow> bool" where
  "dm_inFolder m i folderIndex =
     (if \<not> dm_folders m \<or> i <s 0 \<or> folderIndex <s 0 then True
      else list_ex (\<lambda>v. qv_equal v (VInt folderIndex)) (qv_toList (obj_get (dm_rows m ! unat i) ''folders'')))"

subsection \<open>Rows\<close>

definition dm_handleMessage ::
    "viewenv \<Rightarrow> tgobject \<Rightarrow> tgobject \<Rightarrow> variant list \<Rightarrow> variant list \<Rightarrow> tgobject \<times> desk \<Rightarrow> tgobject \<times> desk" where
  "dm_handleMessage env message sender users chats = (\<lambda>(row, d).
     let ui = ve_ui env; action = qv_toMap (obj_get message ''action''); out = qv_toBool (obj_get message ''out'');
         name = (if out then (if objID action \<noteq> 0 then qs ''You'' else [])
                 else if isUser sender then qv_toString (obj_get sender ''first_name'')
                 else qv_toString (obj_get sender ''title''));
         senderName = (if name = [] then name else name @ qs (if objID action = 0 then '': '' else '' ''));
         text = prepareDialogItemMessage (ue_sort ui) (qv_toString (obj_get message ''message'')) (qv_toList (obj_get message ''entities''));
         after = (if objID (qv_toMap (obj_get message ''media'')) \<noteq> 0
                  then (if text \<noteq> [] then qs '', '' else []) @ qs ''Attachment'' else [])
     in desk_action env message users chats
          (fold (\<lambda>(k, v). obj_put k v)
            [(''messageTime'', VStr (ue_date ui (later (qv_toInt (obj_get message ''date'')) (qv_toInt (obj_get message ''edit_date''))) ''hh:mm'')),
             (''messageOut'', VBool out), (''messageSenderName'', VStr senderName),
             (''messageSenderColor'', VStr (userColor ui (obj_get sender ''id''))), (''messageText'', VStr (text @ after))] row, d))"

text \<open>\<open>QMap::unite\<close>: where both have a key, the second value is the one read afterwards.\<close>

definition unite :: "tgobject \<Rightarrow> tgobject \<Rightarrow> tgobject" where
  "unite a b = fold (\<lambda>(k, v). obj_put k v) b a"

definition dialog_input :: "tgobject \<Rightarrow> tgobject \<Rightarrow> tgobject" where
  "dialog_input peer dialog = obj_put ''_'' (obj_get peer ''_'') (unite peer dialog)"

definition dialog_tooltip :: "tgobject \<Rightarrow> qstring" where
  "dialog_tooltip peer =
     (if qv_isNull (obj_get peer ''participants_count'') then qs (if isChannel peer then ''channel'' else ''chat'')
      else qv_toString (obj_get peer ''participants_count'') @ qs (if isChannel peer then '' subscribers'' else '' members''))"

definition dm_createRow ::
    "viewenv \<Rightarrow> tgobject \<Rightarrow> tgobject \<Rightarrow> tgobject \<Rightarrow> tgobject \<Rightarrow> tgobject list \<Rightarrow> variant list \<Rightarrow> variant list \<Rightarrow> desk \<Rightarrow> tgobject \<times> desk" where
  "dm_createRow env dialog peer message sender flds users chats d =
     (let ui = ve_ui env; input = dialog_input peer dialog;
          title = (if isUser peer then full_name peer else qv_toString (obj_get peer ''title''))
      in dm_handleMessage env message sender users chats
           ([(''peer'', VMap peer), (''pinned'', VBool (qv_toBool (obj_get dialog ''pinned''))),
             (''unreadCount'', VInt (qv_toInt (obj_get dialog ''unread_count''))),
             (''silent'', VBool (qv_toBool (obj_get (qv_toMap (obj_get dialog ''notify_settings'')) ''silent''))),
             (''peerBytes'', VBytes (sq_pack (ve_sql env) (VMap input))), (''folders'', folder_indices flds input),
             (''title'', VStr title), (''tooltip'', VStr (if isUser peer then qs ''user'' else dialog_tooltip peer)),
             (''thumbnailColor'', VStr (userColor ui (obj_get peer ''id''))), (''thumbnailText'', VStr (getAvatarText ui title)),
             (''avatar'', VStr []), (''photoId'', obj_get (qv_toMap (obj_get peer ''photo'')) ''photo_id'')], d))"

text \<open>One round of the loop of \<open>buildRows\<close>; the messages are searched from the last.\<close>

definition build_row :: "viewenv \<Rightarrow> tgobject list \<Rightarrow> variant list \<Rightarrow> variant list \<Rightarrow> variant list \<Rightarrow> tgobject \<Rightarrow> desk \<Rightarrow> tgobject \<times> desk" where
  "build_row env flds messages users chats dialog d =
     (let peerId = qv_toMap (obj_get dialog ''peer''); topId = qv_toInt (obj_get dialog ''top_message'');
          message = find_object (\<lambda>x. peersEqual (qv_toMap (obj_get x ''peer_id'')) peerId \<and> qv_toInt (obj_get x ''id'') = topId) (rev messages);
          peer = find_peer users chats peerId [];
          sender = find_peer users chats (qv_toMap (obj_get message ''from_id'')) []
      in dm_createRow env dialog peer message sender flds users chats d)"

fun build_rows ::
    "viewenv \<Rightarrow> tgobject list \<Rightarrow> variant list \<Rightarrow> variant list \<Rightarrow> variant list \<Rightarrow> int \<Rightarrow> variant list \<Rightarrow> int \<times> desk \<Rightarrow> tgobject list \<times> int \<times> desk" where
  "build_rows env flds messages users chats at [] s = ([], s)"
| "build_rows env flds messages users chats at (v # vs) (pinnedIndex, d) =
     (let dialog = qv_toMap v;
          pinnedIndex1 = (if qv_toBool (obj_get dialog ''pinned'') then max pinnedIndex at else pinnedIndex);
          (row, d1) = build_row env flds messages users chats dialog d;
          (rows, s) = build_rows env flds messages users chats (at + 1) vs (pinnedIndex1, d1)
      in (row # rows, s))"

definition buildRows ::
    "viewenv \<Rightarrow> folders_model \<Rightarrow> variant list \<Rightarrow> variant list \<Rightarrow> variant list \<Rightarrow> variant list \<Rightarrow> dialogs_model \<times> desk \<Rightarrow> tgobject list \<times> dialogs_model \<times> desk" where
  "buildRows env fm dialogs messages users chats = (\<lambda>(m, d).
     let (rows, pinnedIndex, d1) = build_rows env (if dm_folders m then fm_rows fm else []) messages users chats
                                     (int (length (dm_rows m))) dialogs (dm_lastPinnedIndex m, d)
     in (rows, m\<lparr>dm_lastPinnedIndex := pinnedIndex\<rparr>, d1))"

definition dm_append :: "tgobject list \<Rightarrow> dialogs_model \<Rightarrow> dialogs_model" where
  "dm_append rows m =
     dm_emit (RowsInserted (length (dm_rows m)) (length (dm_rows m) + length rows - 1)) (m\<lparr>dm_rows := dm_rows m @ rows\<rparr>)"

subsection \<open>The cached list\<close>

definition cached_peer :: "tgobject \<Rightarrow> (i64 \<times> i32) option" where
  "cached_peer peer =
     (if objID peer = PeerUser then Some (qv_toLongLong (obj_get peer ''user_id''), User)
      else if objID peer = PeerChat then Some (qv_toLongLong (obj_get peer ''chat_id''), Chat)
      else if objID peer = PeerChannel then Some (qv_toLongLong (obj_get peer ''channel_id''), Chat)
      else None)"

type_synonym seed = "variant list \<times> variant list \<times> variant list \<times> desk"

definition add_peer :: "bool \<Rightarrow> tgobject \<Rightarrow> seed \<Rightarrow> seed" where
  "add_peer user peer = (\<lambda>(messages, users, chats, d).
     if objEMPTY peer then (messages, users, chats, d)
     else if user then (messages, users @ [VMap peer], chats, d)
     else (messages, users, chats @ [VMap peer], d))"

definition seed_dialog :: "viewenv \<Rightarrow> variant \<Rightarrow> seed \<Rightarrow> seed" where
  "seed_dialog env v s =
     (case cached_peer (qv_toMap (obj_get (qv_toMap v) ''peer'')) of
        None \<Rightarrow> s
      | Some (peerId, kind) \<Rightarrow>
          let store = ap_store (dk_app (snd (snd (snd s))));
              (messages, users, chats, d) = add_peer (kind = User) (store_peer (ve_sql env) peerId kind store) s
          in case store_messages (ve_sql env) peerId kind 0 1 store of
               [] \<Rightarrow> (messages, users, chats, d)
             | newest # _ \<Rightarrow>
                 let message = qv_toMap newest; senderId = getPeerId (qv_toMap (obj_get message ''from_id''))
                 in if senderId = 0 then (messages @ [VMap message], users, chats, d)
                    else let (sender, d1) = desk_peer env senderId d
                         in add_peer (isUser sender) sender (messages @ [VMap message], users, chats, d1))"

definition seedFromCache :: "viewenv \<Rightarrow> folders_model \<Rightarrow> dialogs_model \<times> desk \<Rightarrow> dialogs_model \<times> desk" where
  "seedFromCache env fm = (\<lambda>(m, d).
     let store = ap_store (dk_app d); cachedDialogs = store_dialogs (ve_sql env) 0 40 store
     in if \<not> dm_client m \<or> \<not> st_open store \<or> cachedDialogs = [] then (m, d)
        else
          let (messages, users, chats, d1) = fold (seed_dialog env) cachedDialogs ([], [], [], d);
              (rows, m1, d2) = buildRows env fm cachedDialogs messages users chats (m, d1)
          in if rows = [] then (m1, d2) else (dm_append rows (m1\<lparr>dm_fromCache := True\<rparr>), d2))"

subsection \<open>Fetching\<close>

definition dm_canFetchMore :: "dialogs_model \<times> desk \<Rightarrow> bool" where
  "dm_canFetchMore = (\<lambda>(m, d). dm_client m \<and> app_authorized (dk_app d) \<and> dm_requestId m = 0 \<and> dm_offsets m \<noteq> [])"

definition dm_fetchMore :: "viewenv \<Rightarrow> dialogs_model \<times> desk \<Rightarrow> dialogs_model \<times> desk" where
  "dm_fetchMore env = (\<lambda>(m, d).
     let (r, d1) = desk_ask (messagesGetDialogsWithOffsets (ve_cl env) (dm_offsets m) 40 0 False (VInt 0)) d in (m\<lparr>dm_requestId := r\<rparr>, d1))"

definition dm_refresh :: "viewenv \<Rightarrow> folders_model \<Rightarrow> dialogs_model \<times> desk \<Rightarrow> dialogs_model \<times> desk" where
  "dm_refresh env fm = (\<lambda>(m, d). dm_fetchMore env (seedFromCache env fm (dm_resetState m, d)))"

definition dm_updatesReset :: "viewenv \<Rightarrow> folders_model \<Rightarrow> dialogs_model \<times> desk \<Rightarrow> dialogs_model \<times> desk" where
  "dm_updatesReset env fm s = dm_refresh env fm s"

definition dm_authorized :: "viewenv \<Rightarrow> folders_model \<Rightarrow> i64 \<Rightarrow> dialogs_model \<times> desk \<Rightarrow> dialogs_model \<times> desk" where
  "dm_authorized env fm userId = (\<lambda>(m, d).
     if dm_userId m \<noteq> userId then dm_fetchMore env (seedFromCache env fm ((dm_resetState m)\<lparr>dm_userId := userId\<rparr>, d)) else (m, d))"

definition next_offsets :: "tgobject \<Rightarrow> tgobject \<Rightarrow> tgobject" where
  "next_offsets data old =
     (if objID data = MessagesDialogs \<or> objID data = MessagesDialogsNotModified then []
      else if objID data = MessagesDialogsSlice then getDialogsOffsets data
      else old)"

definition dm_response :: "viewenv \<Rightarrow> folders_model \<Rightarrow> tgobject \<Rightarrow> i64 \<Rightarrow> dialogs_model \<times> desk \<Rightarrow> dialogs_model \<times> desk" where
  "dm_response env fm data messageId = (\<lambda>(m, d).
     if dm_requestId m \<noteq> messageId then (m, d)
     else
       let dialogs = qv_toList (obj_get data ''dialogs''); messages = qv_toList (obj_get data ''messages'');
           users = qv_toList (obj_get data ''users''); chats = qv_toList (obj_get data ''chats'');
           m1 = m\<lparr>dm_requestId := 0, dm_offsets := next_offsets data (dm_offsets m)\<rparr>; d1 = desk_put users chats d
       in if dialogs = [] then (m1\<lparr>dm_offsets := []\<rparr>, d1)
          else
            let (rows, m2, d2) = buildRows env fm dialogs messages users chats (m1, d1);
                m3 = (if dm_fromCache m2
                      then dm_emit (ModelReset (length rows)) (m2\<lparr>dm_fromCache := False, dm_lastPinnedIndex := - 1, dm_rows := rows\<rparr>)
                      else dm_append rows m2);
                d3 = (if dm_avatars m3 then fold (desk_avatar env) chats (fold (desk_avatar env) users d2) else d2)
            in if dm_canFetchMore (m3, d3) then dm_fetchMore env (m3, d3) else (m3, d3))"

subsection \<open>Updates\<close>

definition row_of :: "tgobject \<Rightarrow> tgobject list \<Rightarrow> nat option" where
  "row_of peer rows = find (\<lambda>i. peersEqual (qv_toMap (obj_get (rows ! i) ''peer'')) peer) [0..<length rows]"

definition dm_setRow :: "nat \<Rightarrow> tgobject \<Rightarrow> dialogs_model \<Rightarrow> dialogs_model" where
  "dm_setRow i row m = dm_emit (DataChanged i i) (m\<lparr>dm_rows := (dm_rows m)[i := row]\<rparr>)"

definition prepareNotification :: "tgobject \<Rightarrow> dialogs_model \<Rightarrow> dialogs_model" where
  "prepareNotification row m =
     (if qv_toBool (obj_get row ''messageOut'') then m
      else dm_emit (SendNotification (getPeerId (qv_toMap (obj_get row ''peer''))) (qv_toString (obj_get row ''title''))
             (qv_toString (obj_get row ''messageSenderName'')) (qv_toString (obj_get row ''messageText'')) (qv_toBool (obj_get row ''silent''))) m)"

text \<open>\<open>beginMoveRows\<close> refuses a move that changes nothing; the destination counts the rows before the move for the view, and after the removal for \<open>QList\<close>.\<close>

definition list_move :: "nat \<Rightarrow> nat \<Rightarrow> 'r list \<Rightarrow> 'r list" where
  "list_move a b rows = (let rest = take a rows @ drop (Suc a) rows in take b rest @ [rows ! a] @ drop b rest)"

definition raise_row :: "nat \<Rightarrow> dialogs_model \<Rightarrow> dialogs_model" where
  "raise_row i m =
     (let to = nat (dm_lastPinnedIndex m + 1)
      in if to = i \<or> to = Suc i then m else dm_emit (RowsMoved i to) (m\<lparr>dm_rows := list_move i to (dm_rows m)\<rparr>))"

text \<open>What a new message does to its chat's row.\<close>

definition show_message ::
    "viewenv \<Rightarrow> nat \<Rightarrow> tgobject \<Rightarrow> tgobject \<Rightarrow> tgobject \<Rightarrow> variant list \<Rightarrow> variant list \<Rightarrow> dialogs_model \<times> desk \<Rightarrow> dialogs_model \<times> desk" where
  "show_message env i row0 message sender users chats = (\<lambda>(m, d).
     let (row, d1) = dm_handleMessage env message sender users chats (row0, d);
         m1 = prepareNotification row (dm_setRow i row m)
     in (if qv_toBool (obj_get row ''pinned'') then m1 else raise_row i m1, d1))"

definition dm_gotMessageUpdate :: "viewenv \<Rightarrow> tgobject \<Rightarrow> dialogs_model \<times> desk \<Rightarrow> dialogs_model \<times> desk" where
  "dm_gotMessageUpdate env update = (\<lambda>(m, d).
     let me = app_userId (dk_app d);
         found = (if objID update = UpdateShortSentMessage
                  then (if objID (qv_toMap (obj_get update ''peer_id'')) = 0 then None else Some (qv_toMap (obj_get update ''peer_id''), me))
                  else if qv_toLongLong (obj_get update ''user_id'') \<noteq> 0
                  then Some ([(''_'', VInt PeerUser), (''user_id'', obj_get update ''user_id'')],
                         if qv_toBool (obj_get update ''out'') then me else qv_toLongLong (obj_get update ''user_id''))
                  else if qv_toLongLong (obj_get update ''chat_id'') \<noteq> 0
                  then Some ([(''_'', VInt PeerChat), (''chat_id'', obj_get update ''chat_id'')], qv_toLongLong (obj_get update ''from_id''))
                  else None)
     in if dm_offsets m \<noteq> [] then (m, d)
        else case found of
               None \<Rightarrow> (m, d)
             | Some (peerId, fromId) \<Rightarrow>
                 (case row_of peerId (dm_rows m) of
                    None \<Rightarrow> (m, d)
                  | Some i \<Rightarrow>
                      let (sender, d1) = desk_peer env fromId d;
                          message = obj_put ''from_id'' (VMap (sender_peer sender)) (obj_put ''peer_id'' (VMap peerId) update)
                      in show_message env i (dm_rows m ! i) message sender [] [] (m, d1)))"

definition read_inbox :: "tgobject \<Rightarrow> dialogs_model \<Rightarrow> dialogs_model" where
  "read_inbox update m =
     (let matches = (\<lambda>peer. if objID update = UpdateReadChannelInbox then getPeerId peer = qv_toLongLong (obj_get update ''channel_id'')
                            else peersEqual peer (qv_toMap (obj_get update ''peer'')))
      in case find (\<lambda>i. matches (qv_toMap (obj_get (dm_rows m ! i) ''peer''))) [0..<length (dm_rows m)] of
           None \<Rightarrow> m
         | Some i \<Rightarrow> dm_setRow i (obj_put ''unreadCount'' (VInt (qv_toInt (obj_get update ''still_unread_count''))) (dm_rows m ! i)) m)"

definition new_message :: "viewenv \<Rightarrow> tgobject \<Rightarrow> variant list \<Rightarrow> variant list \<Rightarrow> dialogs_model \<times> desk \<Rightarrow> dialogs_model \<times> desk" where
  "new_message env message users chats = (\<lambda>(m, d).
     if dm_offsets m \<noteq> [] then (m, d)
     else case row_of (qv_toMap (obj_get message ''peer_id'')) (dm_rows m) of
            None \<Rightarrow> (m, d)
          | Some i \<Rightarrow>
              let row = dm_rows m ! i; fromId = qv_toMap (obj_get message ''from_id'');
                  sender = (if commonPeerType fromId = 0 then qv_toMap (obj_get row ''peer'') else find_peer users chats fromId []);
                  out = qv_equal (getPeerIdVariant sender) (VLong (app_userId (dk_app d)));
                  row1 = (if out then row else obj_put ''unreadCount'' (VInt (qv_toInt (obj_get row ''unreadCount'') + 1)) row)
              in show_message env i row1 (obj_put ''out'' (VBool out) message) sender users chats (m, d))"

definition dm_gotUpdate :: "viewenv \<Rightarrow> tgobject \<Rightarrow> variant list \<Rightarrow> variant list \<Rightarrow> dialogs_model \<times> desk \<Rightarrow> dialogs_model \<times> desk" where
  "dm_gotUpdate env update users chats = (\<lambda>(m, d).
     let d1 = desk_put users chats d
     in if objID update = UpdateReadHistoryInbox \<or> objID update = UpdateReadChannelInbox then (read_inbox update m, d1)
        else if objID update = UpdateNewMessage \<or> objID update = UpdateNewChannelMessage
        then new_message env (qv_toMap (obj_get update ''message'')) users chats (m, d1)
        else (m, d1))"

subsection \<open>Pictures\<close>

definition dm_avatarDownloaded :: "i64 \<Rightarrow> qstring \<Rightarrow> dialogs_model \<Rightarrow> dialogs_model" where
  "dm_avatarDownloaded photoId filePath m =
     (case find (\<lambda>i. qv_equal (obj_get (dm_rows m ! i) ''photoId'') (VLong photoId)) [0..<length (dm_rows m)] of
        None \<Rightarrow> m
      | Some i \<Rightarrow> dm_setRow i (obj_put ''avatar'' (VStr filePath) (dm_rows m ! i)) m)"

text \<open>\<open>data\<close>.\<close>

definition dm_data :: "dialogs_model \<Rightarrow> i32 \<Rightarrow> string \<Rightarrow> variant" where
  "dm_data m i role = (if i <s 0 then VNull else obj_get (dm_rows m ! unat i) role)"

end
