(* ===== verification/DialogsFacts.thy ===== *)
theory DialogsFacts
  imports Dialogs
begin

section \<open>What the list of chats keeps\<close>

subsection \<open>Pinned chats\<close>

definition row_pinned :: "tgobject \<Rightarrow> bool" where
  "row_pinned row = qv_toBool (obj_get row ''pinned'')"

text \<open>Every row down to the last pinned one is pinned: what the code relies on when it moves a row below the pinned ones.\<close>

definition dm_inv :: "dialogs_model \<Rightarrow> bool" where
  "dm_inv m \<longleftrightarrow> - 1 \<le> dm_lastPinnedIndex m \<and> (\<forall>i. int i \<le> dm_lastPinnedIndex m \<longrightarrow> i < length (dm_rows m) \<and> row_pinned (dm_rows m ! i))"

text \<open>The server lists pinned chats before the others.\<close>

definition pinned_first :: "bool list \<Rightarrow> bool" where
  "pinned_first ps \<longleftrightarrow> (\<forall>j < length ps. ps ! j \<longrightarrow> (\<forall>i < j. ps ! i))"

definition dialog_pinned :: "variant \<Rightarrow> bool" where
  "dialog_pinned v = qv_toBool (obj_get (qv_toMap v) ''pinned'')"

lemma dm_emit_simps [simp]: "dm_rows (dm_emit e m) = dm_rows m" "dm_log (dm_emit e m) = dm_log m @ [e]"
  "dm_lastPinnedIndex (dm_emit e m) = dm_lastPinnedIndex m" "dm_offsets (dm_emit e m) = dm_offsets m"
  "dm_client (dm_emit e m) = dm_client m" "dm_requestId (dm_emit e m) = dm_requestId m" "dm_fromCache (dm_emit e m) = dm_fromCache m"
  "dm_avatars (dm_emit e m) = dm_avatars m" "dm_folders (dm_emit e m) = dm_folders m"
  by (simp_all add: dm_emit_def)

lemma dm_append_simps [simp]: "dm_rows (dm_append rows m) = dm_rows m @ rows" "dm_lastPinnedIndex (dm_append rows m) = dm_lastPinnedIndex m"
  by (simp_all add: dm_append_def)

lemma desk_action_keeps: "k \<notin> action_keys \<Longrightarrow> obj_get (fst (desk_action env message users chats (row, d))) k = obj_get row k"
  using handleMessageAction_keeps [of k "ve_ui env" "ve_sql env" "ap_store (dk_app d)" message users chats row "dk_peers d"]
  by (simp add: desk_action_def split_beta)

text \<open>A message changes how a row looks, not which chat it is.\<close>

definition message_keys :: "string set" where
  "message_keys = {''messageTime'', ''messageOut'', ''messageSenderName'', ''messageSenderColor''} \<union> action_keys"

lemma dm_handleMessage_keeps:
  "k \<notin> message_keys \<Longrightarrow> obj_get (fst (dm_handleMessage env message sender users chats (row, d))) k = obj_get row k"
  by (simp add: dm_handleMessage_def Let_def desk_action_keeps message_keys_def) (simp add: action_keys_def)

lemma pinned_key [simp]: "''pinned'' \<notin> message_keys" "''peer'' \<notin> message_keys"
  by (simp_all add: message_keys_def action_keys_def)

lemma row_pinned_handle [simp]: "row_pinned (fst (dm_handleMessage env message sender users chats (row, d))) = row_pinned row"
  by (simp add: row_pinned_def dm_handleMessage_keeps)

lemma row_pinned_create [simp]:
  "row_pinned (fst (dm_createRow env dialog peer message sender flds users chats d)) = qv_toBool (obj_get dialog ''pinned'')"
  by (simp add: dm_createRow_def Let_def) (simp add: row_pinned_def)

lemma row_pinned_build [simp]: "row_pinned (fst (build_row env flds messages users chats dialog d)) = qv_toBool (obj_get dialog ''pinned'')"
  by (simp add: build_row_def Let_def)

lemma build_rows_length [simp]: "length (fst (build_rows env flds messages users chats at vs s)) = length vs"
proof (induction vs arbitrary: at s)
  case (Cons v vs)
  then show ?case by (cases s) (simp add: Let_def split_beta)
qed simp

lemma build_rows_pinned: "map row_pinned (fst (build_rows env flds messages users chats at vs s)) = map dialog_pinned vs"
proof (induction vs arbitrary: at s)
  case (Cons v vs)
  then show ?case by (cases s) (simp add: Let_def split_beta dialog_pinned_def)
qed simp

text \<open>The index ends at the last pinned row, counted from where the page begins.\<close>

fun last_pinned :: "int \<Rightarrow> bool list \<Rightarrow> int \<Rightarrow> int" where
  "last_pinned at [] k = k"
| "last_pinned at (p # ps) k = last_pinned (at + 1) ps (if p then max k at else k)"

lemma build_rows_index: "fst (snd (build_rows env flds messages users chats at vs (k, d))) = last_pinned at (map dialog_pinned vs) k"
  by (induction vs arbitrary: at k d) (simp_all add: Let_def split_beta dialog_pinned_def)

lemma last_pinned_cases: "last_pinned at ps k = k \<or> (\<exists>i < length ps. ps ! i \<and> last_pinned at ps k = at + int i)"
proof (induction at ps k rule: last_pinned.induct)
  case (2 at p ps k)
  then show ?case
  proof (elim disjE exE conjE)
    fix i assume "i < length ps" "ps ! i" "last_pinned (at + 1) ps (if p then max k at else k) = at + 1 + int i"
    then show ?thesis by (intro disjI2 exI [of _ "Suc i"]) simp
  qed (auto simp: max_def intro: exI [of _ 0])
qed simp

lemma last_pinned_ge: "k \<le> last_pinned at ps k"
  by (induction at ps k rule: last_pinned.induct) (auto split: if_splits)

lemma buildRows_simps:
  "map row_pinned (fst (buildRows env fm dialogs messages users chats (m, d))) = map dialog_pinned dialogs"
  "length (fst (buildRows env fm dialogs messages users chats (m, d))) = length dialogs"
  "fst (snd (buildRows env fm dialogs messages users chats (m, d))) =
     m\<lparr>dm_lastPinnedIndex := last_pinned (int (length (dm_rows m))) (map dialog_pinned dialogs) (dm_lastPinnedIndex m)\<rparr>"
  by (simp_all add: buildRows_def split_beta build_rows_pinned build_rows_index)

lemma inv_append:
  assumes "dm_inv m" and "map row_pinned rows = ps" and "pinned_first (map row_pinned (dm_rows m) @ ps)"
  shows "dm_inv (dm_append rows (m\<lparr>dm_lastPinnedIndex := last_pinned (int (length (dm_rows m))) ps (dm_lastPinnedIndex m)\<rparr>))"
proof -
  let ?n = "length (dm_rows m)" and ?k = "last_pinned (int (length (dm_rows m))) ps (dm_lastPinnedIndex m)"
  have low: "- 1 \<le> ?k" using last_pinned_ge [of "dm_lastPinnedIndex m" "int ?n" ps] assms(1) by (simp add: dm_inv_def)
  have "i < length (dm_rows m @ rows) \<and> row_pinned ((dm_rows m @ rows) ! i)" if i: "int i \<le> ?k" for i
    using last_pinned_cases [of "int ?n" ps "dm_lastPinnedIndex m"]
  proof (elim disjE exE conjE)
    assume "?k = dm_lastPinnedIndex m"
    then show ?thesis using i assms(1) by (auto simp: dm_inv_def nth_append)
  next
    fix j assume j: "j < length ps" "ps ! j" "?k = int ?n + int j"
    let ?ps = "map row_pinned (dm_rows m @ rows)"
    have all: "?ps = map row_pinned (dm_rows m) @ ps" using assms(2) by simp
    have "?ps ! (?n + j)" "?n + j < length ?ps" unfolding all using j by (simp_all add: nth_append)
    moreover have "i \<le> ?n + j" using i j(3) by simp
    ultimately have "?ps ! i" "i < length ?ps" using assms(3) unfolding all [symmetric] pinned_first_def by (metis le_neq_implies_less, linarith)
    then show ?thesis by (simp del: map_append)
  qed
  then show ?thesis using low by (auto simp: dm_inv_def)
qed

subsection \<open>A view follows the list\<close>

abbreviation dm_announces :: "dialogs_model \<Rightarrow> dialogs_model \<Rightarrow> bool" where
  "dm_announces \<equiv> announces dm_rows dm_log"

lemma dm_announces_emit: "announced (dm_rows m) [e] (dm_rows m') \<Longrightarrow> dm_log m' = dm_log m @ [e] \<Longrightarrow> dm_announces m m'"
  by (auto simp: announces_def)

lemma dm_announces_same: "dm_rows m' = dm_rows m \<Longrightarrow> dm_log m' = dm_log m \<Longrightarrow> dm_announces m m'"
  by (auto simp: announces_def)

lemma dm_resetState_simps [simp]: "dm_rows (dm_resetState m) = []" "dm_lastPinnedIndex (dm_resetState m) = - 1"
  by (simp_all add: dm_resetState_def Let_def)

lemma reset_announces: "dm_announces m (dm_resetState m)"
proof (cases "dm_rows m = []")
  case False
  then show ?thesis using announced_clear [of "dm_rows m"]
    by (intro dm_announces_emit [where e = "RowsRemoved 0 (length (dm_rows m) - 1)"]) (simp_all add: dm_resetState_def)
qed (simp add: dm_announces_same dm_resetState_def)

lemma reset_inv: "dm_inv (dm_resetState m)"
  by (simp add: dm_inv_def)

lemma append_announces: "rows \<noteq> [] \<Longrightarrow> dm_announces m (dm_append rows m)"
  using announced_append [of rows "dm_rows m"]
  by (intro dm_announces_emit [where e = "RowsInserted (length (dm_rows m)) (length (dm_rows m) + length rows - 1)"]) (simp_all add: dm_append_def)

lemma setRow_simps [simp]: "dm_rows (dm_setRow i row m) = (dm_rows m)[i := row]" "dm_lastPinnedIndex (dm_setRow i row m) = dm_lastPinnedIndex m"
  by (simp_all add: dm_setRow_def)

lemma setRow_announces: "i < length (dm_rows m) \<Longrightarrow> dm_announces m (dm_setRow i row m)"
  by (intro dm_announces_emit) (auto simp: dm_setRow_def intro: announced_change)

lemma setRow_inv: "dm_inv m \<Longrightarrow> row_pinned row = row_pinned (dm_rows m ! i) \<Longrightarrow> dm_inv (dm_setRow i row m)"
proof -
  assume inv: "dm_inv m" and same: "row_pinned row = row_pinned (dm_rows m ! i)"
  have "row_pinned ((dm_rows m)[i := row] ! j) = row_pinned (dm_rows m ! j)" if "j < length (dm_rows m)" for j
    using that same by (cases "i = j") simp_all
  then show ?thesis using inv by (simp add: dm_inv_def)
qed

lemma notify_simps [simp]: "dm_rows (prepareNotification row m) = dm_rows m" "dm_lastPinnedIndex (prepareNotification row m) = dm_lastPinnedIndex m"
  by (simp_all add: prepareNotification_def)

lemma notify_announces: "dm_announces m (prepareNotification row m)"
proof (cases "qv_toBool (obj_get row ''messageOut'')")
  case False
  then show ?thesis
    by (intro dm_announces_emit) (auto simp: prepareNotification_def quiet_def intro!: announced_quiet)
qed (simp add: dm_announces_same prepareNotification_def)

lemma list_move_up: "b < a \<Longrightarrow> a < length rows \<Longrightarrow> list_move a b rows = move_up a b rows"
  by (simp add: list_move_def move_up_def)

lemma raise_row_up:
  assumes "dm_inv m" and "i < length (dm_rows m)" and "\<not> row_pinned (dm_rows m ! i)"
  shows "nat (dm_lastPinnedIndex m + 1) \<le> i"
    and "dm_rows (raise_row i m) =
      (let k = nat (dm_lastPinnedIndex m + 1)
       in take k (dm_rows m) @ [dm_rows m ! i] @ drop k (take i (dm_rows m)) @ drop (Suc i) (dm_rows m))"
    and "dm_announces m (raise_row i m)" and "dm_inv (raise_row i m)"
proof -
  let ?k = "nat (dm_lastPinnedIndex m + 1)"
  have "\<not> int i \<le> dm_lastPinnedIndex m" using assms(1,3) by (auto simp: dm_inv_def)
  then show le: "?k \<le> i" by linarith
  show rows: "dm_rows (raise_row i m) = (let k = ?k in take k (dm_rows m) @ [dm_rows m ! i] @ drop k (take i (dm_rows m)) @ drop (Suc i) (dm_rows m))"
  proof (cases "?k = i")
    case True
    then show ?thesis using assms(2) by (simp add: raise_row_def id_take_nth_drop [symmetric])
  next
    case False
    then show ?thesis using le assms(2) by (simp add: raise_row_def list_move_up move_up_def Let_def)
  qed
  show "dm_announces m (raise_row i m)"
  proof (cases "?k = i")
    case True
    then show ?thesis by (simp add: raise_row_def dm_announces_same)
  next
    case False
    then show ?thesis using le assms(2)
      by (intro dm_announces_emit [where e = "RowsMoved i ?k"]) (auto simp: raise_row_def list_move_up Let_def intro!: announced_move)
  qed
  have last: "dm_lastPinnedIndex (raise_row i m) = dm_lastPinnedIndex m" by (simp add: raise_row_def Let_def)
  show "dm_inv (raise_row i m)"
    using assms(1,2) le unfolding dm_inv_def last rows by (auto simp: Let_def nth_append)
qed

lemma show_message_ok:
  assumes "dm_inv m" and "i < length (dm_rows m)" and "row_pinned row0 = row_pinned (dm_rows m ! i)"
  shows "dm_inv (fst (show_message env i row0 message sender users chats (m, d)))"
    and "dm_announces m (fst (show_message env i row0 message sender users chats (m, d)))"
proof -
  let ?row = "fst (dm_handleMessage env message sender users chats (row0, d))"
  let ?m = "prepareNotification ?row (dm_setRow i ?row m)"
  have inv: "dm_inv ?m" using setRow_inv [OF assms(1), of ?row i] assms(3) by (simp add: dm_inv_def)
  have ann: "dm_announces m ?m" using setRow_announces [OF assms(2)] notify_announces by (rule announces_trans)
  have at: "dm_rows ?m ! i = ?row" "i < length (dm_rows ?m)" using assms(2) by simp_all
  have up: "dm_inv (raise_row i ?m) \<and> dm_announces m (raise_row i ?m)" if "\<not> row_pinned ?row"
  proof -
    have np: "\<not> row_pinned (dm_rows ?m ! i)" unfolding at(1) by (rule that)
    show ?thesis using raise_row_up(3,4) [OF inv at(2) np] announces_trans [OF ann] by blast
  qed
  show "dm_inv (fst (show_message env i row0 message sender users chats (m, d)))"
    and "dm_announces m (fst (show_message env i row0 message sender users chats (m, d)))"
    using inv ann up by (auto simp: show_message_def Let_def split_beta row_pinned_def)
qed

lemma row_of_Some: "row_of peer rows = Some i \<Longrightarrow> i < length rows \<and> peersEqual (qv_toMap (obj_get (rows ! i) ''peer'')) peer"
  by (auto simp: row_of_def find_Some_iff)

lemma find_index: "find P [0..<n] = Some i \<Longrightarrow> i < n"
  by (auto simp: find_Some_iff)

subsection \<open>Every slot\<close>

lemma refolder_announces:
  "refolder sql flds (length before) rows = (rows', es) \<Longrightarrow>
   announced (before @ rows) es (before @ rows') \<and> length rows' = length rows \<and> map row_pinned rows' = map row_pinned rows"
proof (induction rows arbitrary: before rows' es)
  case (Cons row rows)
  obtain rest es1 where rest: "refolder sql flds (Suc (length before)) rows = (rest, es1)" by fastforce
  obtain row1 where out: "rows' = row1 # rest" "es = DataChanged (length before) (length before) # es1" "row_pinned row1 = row_pinned row"
    using Cons.prems rest by (auto simp: Let_def row_pinned_def)
  have "announced (before @ row # rows) [DataChanged (length before) (length before)] (before @ row1 # rows)"
    using announced_change [of "length before" "before @ row # rows" row1] by simp
  moreover have "announced (before @ row1 # rows) es1 (before @ row1 # rest) \<and> length rest = length rows \<and> map row_pinned rest = map row_pinned rows"
    using Cons.IH [of "before @ [row1]" rest es1] rest by simp
  ultimately show ?case
    using announced_trans [of "before @ row # rows" "[DataChanged (length before) (length before)]"] out by auto
qed auto

lemma foldersChanged_ok: "dm_inv m \<Longrightarrow> dm_inv (dm_foldersChanged sql flds m) \<and> dm_announces m (dm_foldersChanged sql flds m)"
proof -
  assume inv: "dm_inv m"
  obtain rows es where r: "refolder sql flds 0 (dm_rows m) = (rows, es)" by fastforce
  have a: "announced (dm_rows m) es rows" "length rows = length (dm_rows m)" "map row_pinned rows = map row_pinned (dm_rows m)"
    using refolder_announces [of sql flds "[]" "dm_rows m" rows es] r by simp_all
  have "row_pinned (rows ! i) = row_pinned (dm_rows m ! i)" if "i < length (dm_rows m)" for i
    using that a(2,3) by (metis nth_map)
  then show ?thesis using inv a by (auto simp: dm_foldersChanged_def r dm_inv_def announces_def)
qed

lemma fetchMore_simps [simp]: "dm_rows (fst (dm_fetchMore env s)) = dm_rows (fst s)" "dm_log (fst (dm_fetchMore env s)) = dm_log (fst s)"
  "dm_lastPinnedIndex (fst (dm_fetchMore env s)) = dm_lastPinnedIndex (fst s)" "dm_offsets (fst (dm_fetchMore env s)) = dm_offsets (fst s)"
  by (cases s; simp add: dm_fetchMore_def split_beta)+

lemma inv_cong: "dm_rows m' = dm_rows m \<Longrightarrow> dm_lastPinnedIndex m' = dm_lastPinnedIndex m \<Longrightarrow> dm_inv m \<Longrightarrow> dm_inv m'"
  by (simp add: dm_inv_def)

lemma announces_cong: "dm_announces m m' \<Longrightarrow> dm_rows m'' = dm_rows m' \<Longrightarrow> dm_log m'' = dm_log m' \<Longrightarrow> dm_announces m m''"
  by (simp add: announces_def)

lemma seed_ok:
  assumes "dm_inv m" and "pinned_first (map row_pinned (dm_rows m) @ map dialog_pinned (store_dialogs (ve_sql env) 0 40 (ap_store (dk_app d))))"
  shows "dm_inv (fst (seedFromCache env fm (m, d))) \<and> dm_announces m (fst (seedFromCache env fm (m, d)))"
proof -
  let ?ds = "store_dialogs (ve_sql env) 0 40 (ap_store (dk_app d))"
  show ?thesis
  proof (cases "dm_client m \<and> st_open (ap_store (dk_app d)) \<and> ?ds \<noteq> []")
    case True
    obtain messages users chats d1 where f: "fold (seed_dialog env) ?ds ([], [], [], d) = (messages, users, chats, d1)"
      by (metis prod_cases4)
    let ?b = "buildRows env fm ?ds messages users chats (m, d1)"
    let ?m = "m\<lparr>dm_lastPinnedIndex := last_pinned (int (length (dm_rows m))) (map dialog_pinned ?ds) (dm_lastPinnedIndex m)\<rparr>"
    have rows: "fst ?b \<noteq> []" using buildRows_simps(2) [of env fm ?ds messages users chats m d1] True by (metis length_0_conv)
    have "fst (seedFromCache env fm (m, d)) = dm_append (fst ?b) (?m\<lparr>dm_fromCache := True\<rparr>)"
      using True rows by (simp add: seedFromCache_def f split_beta buildRows_simps(3) Let_def)
    moreover have "dm_inv (dm_append (fst ?b) ?m)"
      by (rule inv_append [OF assms(1) buildRows_simps(1)]) (rule assms(2))
    moreover have "dm_announces m (dm_append (fst ?b) (?m\<lparr>dm_fromCache := True\<rparr>))"
      using append_announces [OF rows, of "?m\<lparr>dm_fromCache := True\<rparr>"] by (simp add: announces_def)
    ultimately show ?thesis by (simp add: dm_inv_def)
  next
    case False
    then have "fst (seedFromCache env fm (m, d)) = m" by (auto simp: seedFromCache_def Let_def)
    then show ?thesis using assms(1) by (simp add: announces_refl)
  qed
qed

lemma response_ok:
  assumes "dm_inv m"
    and "dm_fromCache m \<or> pinned_first (map row_pinned (dm_rows m) @ map dialog_pinned (qv_toList (obj_get data ''dialogs'')))"
  shows "dm_inv (fst (dm_response env fm data messageId (m, d))) \<and> dm_announces m (fst (dm_response env fm data messageId (m, d)))"
proof -
  let ?ds = "qv_toList (obj_get data ''dialogs'')"
  let ?r = "fst (dm_response env fm data messageId (m, d))"
  consider "dm_requestId m \<noteq> messageId \<or> ?ds = []" | "dm_requestId m = messageId" "?ds \<noteq> []" by blast
  then show ?thesis
  proof cases
    case 1
    then have "dm_rows ?r = dm_rows m \<and> dm_log ?r = dm_log m \<and> dm_lastPinnedIndex ?r = dm_lastPinnedIndex m"
      by (auto simp: dm_response_def Let_def)
    then show ?thesis using assms(1) by (auto intro: inv_cong dm_announces_same)
  next
    case 2
    let ?m1 = "m\<lparr>dm_requestId := 0, dm_offsets := next_offsets data (dm_offsets m)\<rparr>"
    let ?b = "buildRows env fm ?ds (qv_toList (obj_get data ''messages'')) (qv_toList (obj_get data ''users''))
      (qv_toList (obj_get data ''chats'')) (?m1, desk_put (qv_toList (obj_get data ''users'')) (qv_toList (obj_get data ''chats'')) d)"
    let ?k = "last_pinned (int (length (dm_rows m))) (map dialog_pinned ?ds) (dm_lastPinnedIndex m)"
    let ?m2 = "?m1\<lparr>dm_lastPinnedIndex := ?k\<rparr>"
    let ?m3 = "if dm_fromCache m then dm_emit (ModelReset (length (fst ?b))) (?m2\<lparr>dm_fromCache := False, dm_lastPinnedIndex := - 1, dm_rows := fst ?b\<rparr>)
      else dm_append (fst ?b) ?m2"
    have rows: "fst ?b \<noteq> []" using buildRows_simps(2) 2 by (metis length_0_conv)
    have r: "dm_rows ?r = dm_rows ?m3" "dm_log ?r = dm_log ?m3" "dm_lastPinnedIndex ?r = dm_lastPinnedIndex ?m3"
      using 2 by (simp_all add: dm_response_def Let_def split_beta buildRows_simps(3))
    have "dm_inv ?m3 \<and> dm_announces m ?m3"
    proof (cases "dm_fromCache m")
      case True
      then show ?thesis
        by (auto simp: dm_inv_def intro!: dm_announces_emit [where e = "ModelReset (length (fst ?b))"] announced_reset)
    next
      case False
      have "dm_inv (dm_append (fst ?b) (m\<lparr>dm_lastPinnedIndex := ?k\<rparr>))"
        using inv_append [OF assms(1) buildRows_simps(1)] assms(2) False by blast
      moreover have "dm_announces m (dm_append (fst ?b) ?m2)"
        using append_announces [OF rows, of ?m2] by (simp add: announces_def)
      ultimately show ?thesis using False by (simp add: dm_inv_def)
    qed
    then show ?thesis using r by (auto intro: inv_cong announces_cong)
  qed
qed

lemma slot_ok:
  "dm_inv m \<Longrightarrow> i < length (dm_rows m) \<Longrightarrow> row_pinned row = row_pinned (dm_rows m ! i) \<Longrightarrow>
   dm_inv (dm_setRow i row m) \<and> dm_announces m (dm_setRow i row m)"
  by (simp add: setRow_inv setRow_announces)

lemma avatar_ok: "dm_inv m \<Longrightarrow> dm_inv (dm_avatarDownloaded photoId filePath m) \<and> dm_announces m (dm_avatarDownloaded photoId filePath m)"
  unfolding dm_avatarDownloaded_def
  by (cases "find (\<lambda>i. qv_equal (obj_get (dm_rows m ! i) ''photoId'') (VLong photoId)) [0..<length (dm_rows m)]")
    (auto simp: announces_refl row_pinned_def dest: find_index intro!: slot_ok [THEN conjunct1] slot_ok [THEN conjunct2])

lemma gotMessageUpdate_ok:
  assumes "dm_inv m"
  shows "dm_inv (fst (dm_gotMessageUpdate env update (m, d))) \<and> dm_announces m (fst (dm_gotMessageUpdate env update (m, d)))"
  using assms
  by (auto simp: dm_gotMessageUpdate_def Let_def split_beta announces_refl dest!: row_of_Some intro!: show_message_ok split: option.splits)

lemma read_inbox_ok: "dm_inv m \<Longrightarrow> dm_inv (read_inbox update m) \<and> dm_announces m (read_inbox update m)"
  unfolding read_inbox_def Let_def
  by (auto simp: announces_refl row_pinned_def dest: find_index intro!: slot_ok [THEN conjunct1] slot_ok [THEN conjunct2] split: option.split)

lemma new_message_ok:
  assumes "dm_inv m"
  shows "dm_inv (fst (new_message env message users chats (m, d))) \<and> dm_announces m (fst (new_message env message users chats (m, d)))"
  using assms
  by (auto simp: new_message_def Let_def announces_refl row_pinned_def dest!: row_of_Some intro!: show_message_ok split: option.splits)

lemma gotUpdate_ok:
  assumes "dm_inv m"
  shows "dm_inv (fst (dm_gotUpdate env update users chats (m, d))) \<and> dm_announces m (fst (dm_gotUpdate env update users chats (m, d)))"
  using read_inbox_ok [OF assms] new_message_ok [OF assms] assms
  by (simp add: dm_gotUpdate_def Let_def announces_refl)

lemma refresh_ok:
  assumes "pinned_first (map dialog_pinned (store_dialogs (ve_sql env) 0 40 (ap_store (dk_app d))))" and "dm_rows m' = []"
    and "dm_lastPinnedIndex m' = - 1" and "dm_announces m m'"
  shows "dm_inv (fst (dm_fetchMore env (seedFromCache env fm (m', d)))) \<and> dm_announces m (fst (dm_fetchMore env (seedFromCache env fm (m', d))))"
proof -
  have "dm_inv m'" using assms(2,3) by (simp add: dm_inv_def)
  then have "dm_inv (fst (seedFromCache env fm (m', d))) \<and> dm_announces m' (fst (seedFromCache env fm (m', d)))"
    using assms(1,2) by (intro seed_ok) simp_all
  then show ?thesis
    using assms(4) by (auto intro: inv_cong announces_cong announces_trans)
qed

text \<open>The slots, in any order, with the rest of the application changing in between. The lists the server and the cache give have their pinned chats first.\<close>

definition cache_ordered :: "viewenv \<Rightarrow> desk \<Rightarrow> bool" where
  "cache_ordered env d = pinned_first (map dialog_pinned (store_dialogs (ve_sql env) 0 40 (ap_store (dk_app d))))"

definition page_ordered :: "tgobject \<Rightarrow> dialogs_model \<Rightarrow> bool" where
  "page_ordered data m \<longleftrightarrow>
     dm_fromCache m \<or> pinned_first (map row_pinned (dm_rows m) @ map dialog_pinned (qv_toList (obj_get data ''dialogs'')))"

inductive dm_step :: "viewenv \<Rightarrow> dialogs_model \<Rightarrow> dialogs_model \<Rightarrow> bool" for env where
  dm_st_setClient: "dm_step env m (fst (dm_setClient given (m, d)))"
| dm_st_setFolders: "dm_step env m (dm_setFolders (ve_sql env) f m)"
| dm_st_foldersChanged: "dm_step env m (dm_foldersChanged (ve_sql env) flds m)"
| dm_st_setAvatars: "dm_step env m (m\<lparr>dm_avatars := given\<rparr>)"
| dm_st_authorized: "cache_ordered env d \<Longrightarrow> dm_step env m (fst (dm_authorized env fm userId (m, d)))"
| dm_st_refresh: "cache_ordered env d \<Longrightarrow> dm_step env m (fst (dm_refresh env fm (m, d)))"
| dm_st_fetchMore: "dm_step env m (fst (dm_fetchMore env (m, d)))"
| dm_st_response: "page_ordered data m \<Longrightarrow> dm_step env m (fst (dm_response env fm data messageId (m, d)))"
| dm_st_gotUpdate: "dm_step env m (fst (dm_gotUpdate env update users chats (m, d)))"
| dm_st_gotMessageUpdate: "dm_step env m (fst (dm_gotMessageUpdate env update (m, d)))"
| dm_st_avatarDownloaded: "dm_step env m (dm_avatarDownloaded photoId filePath m)"

lemma dm_step_ok: "dm_step env m m' \<Longrightarrow> dm_inv m \<Longrightarrow> dm_inv m' \<and> dm_announces m m'"
proof (induction rule: dm_step.induct)
  case (dm_st_setClient m given d)
  show ?case using reset_announces [of "m\<lparr>dm_client := given, dm_userId := 0\<rparr>"] reset_inv [of "m\<lparr>dm_client := given, dm_userId := 0\<rparr>"]
    by (simp add: dm_setClient_def announces_def)
next
  case (dm_st_setFolders m f)
  then show ?case using foldersChanged_ok [of "m\<lparr>dm_folders := (f \<noteq> None)\<rparr>"]
    by (simp add: dm_setFolders_def announces_def dm_inv_def)
next
  case (dm_st_setAvatars m given)
  then show ?case by (simp add: dm_inv_def dm_announces_same)
next
  case (dm_st_authorized d m fm userId)
  then show ?case
    using refresh_ok [of env d "(dm_resetState m)\<lparr>dm_userId := userId\<rparr>" m fm] reset_announces [of m]
    by (simp add: dm_authorized_def cache_ordered_def announces_refl) (simp add: announces_def)
next
  case (dm_st_refresh d m fm)
  then show ?case
    using refresh_ok [of env d "dm_resetState m" m fm] reset_announces [of m] by (simp add: dm_refresh_def cache_ordered_def)
next
  case (dm_st_fetchMore m d)
  then show ?case by (auto intro: inv_cong dm_announces_same)
next
  case (dm_st_response data m fm messageId d)
  then show ?case using response_ok unfolding page_ordered_def by blast
qed (simp_all add: foldersChanged_ok gotUpdate_ok gotMessageUpdate_ok avatar_ok)

definition dm_run :: "dialogs_model \<times> viewenv \<Rightarrow> dialogs_model \<times> viewenv \<Rightarrow> bool" where
  "dm_run = (\<lambda>(m, env) (m', env'). env' = env \<and> dm_inv m \<and> dm_step env m m')"

interpretation dialog_list: list_model "dm_rows \<circ> fst" "dm_log \<circ> fst" dm_run
  by unfold_locales (auto simp: dm_run_def announces_def dest!: dm_step_ok)

lemma dm_reachable: "(dm_step env)\<^sup>*\<^sup>* m m' \<Longrightarrow> dm_inv m \<Longrightarrow> dm_inv m' \<and> dm_run\<^sup>*\<^sup>* (m, env) (m', env)"
proof (induction rule: rtranclp_induct)
  case (step y z)
  then have "dm_run (y, env) (z, env)" by (simp add: dm_run_def)
  then show ?case using step dm_step_ok by (auto intro: rtranclp.rtrancl_into_rtrancl)
qed simp

lemma dialogs_announced:
  assumes "(dm_step env)\<^sup>*\<^sup>* dialogs_new m"
  shows "announced [] (dm_log m) (dm_rows m)" and "dm_inv m"
proof -
  have r: "dm_inv m \<and> dm_run\<^sup>*\<^sup>* (dialogs_new, env) (m, env)"
    using dm_reachable [OF assms] by (simp add: dialogs_new_def dm_inv_def)
  then show "dm_inv m" ..
  show "announced [] (dm_log m) (dm_rows m)"
    using dialog_list.view_follows [of "(dialogs_new, env)" "(m, env)"] r by (simp add: dialogs_new_def)
qed

subsection \<open>Where a new message puts its chat\<close>

lemma new_message_rows:
  assumes "dm_inv m" and "dm_offsets m = []" and "row_of (qv_toMap (obj_get message ''peer_id'')) (dm_rows m) = Some i"
    and "\<not> row_pinned (dm_rows m ! i)" and "k = nat (dm_lastPinnedIndex m + 1)"
  shows "\<exists>row. dm_rows (fst (new_message env message users chats (m, d))) =
      take k (dm_rows m) @ [row] @ drop k (take i (dm_rows m)) @ drop (Suc i) (dm_rows m) \<and>
    obj_get row ''peer'' = obj_get (dm_rows m ! i) ''peer''"
proof -
  have i: "i < length (dm_rows m)" using row_of_Some [OF assms(3)] by blast
  obtain row0 msg sender where f: "new_message env message users chats (m, d) = show_message env i row0 msg sender users chats (m, d)"
    and row0: "row_pinned row0 = row_pinned (dm_rows m ! i)" "obj_get row0 ''peer'' = obj_get (dm_rows m ! i) ''peer''"
    using assms(2,3) by (auto simp: new_message_def Let_def row_pinned_def split: if_splits)
  let ?row = "fst (dm_handleMessage env msg sender users chats (row0, d))"
  let ?m = "prepareNotification ?row (dm_setRow i ?row m)"
  have inv: "dm_inv ?m" using setRow_inv [OF assms(1), of ?row i] row0 by (simp add: dm_inv_def)
  have at: "dm_rows ?m ! i = ?row" "i < length (dm_rows ?m)" using i by simp_all
  have np: "\<not> row_pinned ?row" using row0 assms(4) by simp
  have "fst (show_message env i row0 msg sender users chats (m, d)) = raise_row i ?m"
    using np by (simp add: show_message_def Let_def split_beta row_pinned_def)
  moreover have "dm_rows (raise_row i ?m) = take k (dm_rows ?m) @ [?row] @ drop k (take i (dm_rows ?m)) @ drop (Suc i) (dm_rows ?m)"
    using raise_row_up(2) [OF inv at(2)] np at(1) assms(5) by (simp add: Let_def)
  moreover have "k \<le> i" using raise_row_up(1) [OF inv at(2)] np at(1) assms(5) by simp
  ultimately show ?thesis
    using f row0(2) by (intro exI [of _ ?row]) (simp add: dm_handleMessage_keeps drop_update_cancel)
qed

text \<open>Once the network has replaced the cached list, the index no longer counts its pinned chats.\<close>

lemma response_after_cache:
  assumes "dm_fromCache m" and "dm_requestId m = messageId" and "qv_toList (obj_get data ''dialogs'') \<noteq> []"
  shows "dm_lastPinnedIndex (fst (dm_response env fm data messageId (m, d))) = - 1"
    and "map row_pinned (dm_rows (fst (dm_response env fm data messageId (m, d)))) = map dialog_pinned (qv_toList (obj_get data ''dialogs''))"
  using assms by (simp_all add: dm_response_def Let_def split_beta buildRows_simps)

end
