(* ===== verification/MessageRows.thy ===== *)
theory MessageRows
  imports Avatars
begin

section \<open>The row of a message: src/messagesmodel.cpp, createRow\<close>

text \<open>
  What the list of messages shows of one message: who sent it, when, its text as HTML, what it forwards and what it carries.
\<close>

subsection \<open>Constructors\<close>

definition MessageMediaGeo :: i32 where "MessageMediaGeo = 1457575028"
definition MessageMediaContact :: i32 where "MessageMediaContact = 1882335561"
definition MessageMediaUnsupported :: i32 where "MessageMediaUnsupported = - 1618676578"
definition MessageMediaWebPage :: i32 where "MessageMediaWebPage = - 571405253"
definition MessageMediaVenue :: i32 where "MessageMediaVenue = 784356159"
definition MessageMediaGame :: i32 where "MessageMediaGame = - 38694904"
definition MessageMediaInvoice :: i32 where "MessageMediaInvoice = - 156940077"
definition MessageMediaGeoLive :: i32 where "MessageMediaGeoLive = - 1186937242"
definition MessageMediaPoll :: i32 where "MessageMediaPoll = 2000637542"
definition MessageMediaDice :: i32 where "MessageMediaDice = 147581959"
definition DocumentAttributeFilename :: i32 where "DocumentAttributeFilename = 358154344"
definition UpdateEditMessage :: i32 where "UpdateEditMessage = - 469536605"
definition UpdateEditChannelMessage :: i32 where "UpdateEditChannelMessage = 457133559"
definition UpdateDeleteMessages :: i32 where "UpdateDeleteMessages = - 1576161051"
definition UpdateDeleteChannelMessages :: i32 where "UpdateDeleteChannelMessages = - 1020437742"
definition InputMediaUploadedPhoto :: i32 where "InputMediaUploadedPhoto = 2105767386"
definition InputMediaUploadedDocument :: i32 where "InputMediaUploadedDocument = 58495792"
definition MessagesSendMessageMethod :: i32 where "MessagesSendMessageMethod = - 17526942"
definition MessagesSendMediaMethod :: i32 where "MessagesSendMediaMethod = 53536639"
definition MessagesEditMessageMethod :: i32 where "MessagesEditMessageMethod = - 1324947860"
definition InputReplyToMessage :: i32 where "InputReplyToMessage = 1003796418"

lemmas message_ctor_ids = MessageMediaGeo_def MessageMediaContact_def MessageMediaUnsupported_def MessageMediaWebPage_def MessageMediaVenue_def MessageMediaGame_def MessageMediaInvoice_def MessageMediaGeoLive_def MessageMediaPoll_def MessageMediaDice_def DocumentAttributeFilename_def UpdateEditMessage_def UpdateEditChannelMessage_def UpdateDeleteMessages_def UpdateDeleteChannelMessages_def InputMediaUploadedPhoto_def InputMediaUploadedDocument_def MessagesSendMessageMethod_def MessagesSendMediaMethod_def MessagesEditMessageMethod_def InputReplyToMessage_def

subsection \<open>Media\<close>

definition image_path :: "string \<Rightarrow> variant" where
  "image_path file = VStr (qs ''../../img/media/'' @ qs file)"

text \<open>The image, the title and the text of what is attached.\<close>

definition media_card :: "string \<Rightarrow> qstring \<Rightarrow> qstring \<Rightarrow> tgobject" where
  "media_card icon title text = [(''mediaImage'', image_path icon), (''mediaTitle'', VStr title), (''mediaText'', VStr text)]"

definition document_name :: "tgobject \<Rightarrow> qstring" where
  "document_name document =
     (case find (\<lambda>v. objID (qv_toMap v) = DocumentAttributeFilename) (qv_toList (obj_get document ''attributes'')) of
        None \<Rightarrow> qs ''Unknown file''
      | Some v \<Rightarrow> qv_toString (obj_get (qv_toMap v) ''file_name''))"

definition size_text :: "uienv \<Rightarrow> i64 \<Rightarrow> qstring" where
  "size_text ui n =
     (if 1073741824 <s n then ue_size ui n 1073741824 @ qs '' GB''
      else if 1048576 <s n then ue_size ui n 1048576 @ qs '' MB''
      else if 1024 <s n then ue_size ui n 1024 @ qs '' KB''
      else ue_size ui n 1 @ qs '' B'')"

definition or_else :: "qstring \<Rightarrow> string \<Rightarrow> qstring" where
  "or_else t alt = (if t = [] then qs alt else t)"

definition media_fields :: "uienv \<Rightarrow> tgobject \<Rightarrow> tgobject" where
  "media_fields ui media =
     (let c = objID media; str = (\<lambda>k. qv_toString (obj_get media k)); sub = (\<lambda>k. qv_toMap (obj_get media k))
      in if c = MessageMediaPhoto then put_photo (sub ''photo'') (qv_toBool (obj_get media ''spoiler'')) []
         else if c = MessageMediaContact then media_card ''account.png'' (full_name media) (str ''phone_number'')
         else if c = MessageMediaUnsupported then media_card ''file.png'' (qs ''Unsupported media'') (qs ''update your app'')
         else if c = MessageMediaDocument
         then let document = sub ''document''; name = document_name document
              in media_card ''file.png'' name (size_text ui (qv_toLongLong (obj_get document ''size''))) @
                 [(''mediaDownloadable'', VBool True), (''mediaDownload'', VMap media), (''mediaFileName'', VStr name),
                  (''mediaSpoiler'', VBool (qv_toBool (obj_get media ''spoiler'')))]
         else if c = MessageMediaWebPage
         then media_card ''web.png'' (qs ''Webpage'') (or_else (qv_toString (obj_get (sub ''webpage'') ''title'')) ''unknown link'') @
              [(''mediaUrl'', VStr (qv_toString (obj_get (sub ''webpage'') ''url'')))]
         else if c = MessageMediaVenue then media_card ''map-marker.png'' (qs ''Venue'') (str ''title'')
         else if c = MessageMediaGame then media_card ''gamepad-square.png'' (qs ''Game'') (qv_toString (obj_get (sub ''game'') ''title''))
         else if c = MessageMediaInvoice then media_card ''receipt-text.png'' (str ''title'') (str ''description'')
         else if c = MessageMediaGeo \<or> c = MessageMediaGeoLive
         then media_card ''map-marker.png'' (qs (if c = MessageMediaGeoLive then ''Live geolocation'' else ''Geolocation''))
                (ue_double ui (sub ''geo'') ''long'' @ qs '', '' @ ue_double ui (sub ''geo'') ''lat'')
         else if c = MessageMediaPoll
         then media_card ''poll.png'' (qs ''Poll'') (qs (if qv_toBool (obj_get (sub ''poll'') ''public_voters'') then ''public'' else ''anonymous''))
         else if c = MessageMediaDice then media_card ''dice-multiple.png'' (qs ''Dice'') (str ''value'')
         else [])"

subsection \<open>The row\<close>

definition forwarded_from :: "variant list \<Rightarrow> variant list \<Rightarrow> tgobject \<Rightarrow> qstring" where
  "forwarded_from users chats fwd =
     (let name = qv_toString (obj_get fwd ''from_name''); from = qv_toMap (obj_get fwd ''from_id'');
          peer = find_peer users chats from []
      in if objEMPTY fwd then []
         else if name \<noteq> [] then name
         else if isUser from then (if peersEqual peer from then full_name peer else [])
         else if isChat from then qv_toString (obj_get peer ''title'')
         else [])"

definition sender_html :: "uienv \<Rightarrow> tgobject \<Rightarrow> qstring \<Rightarrow> qstring" where
  "sender_html ui sender name =
     qs ''<html><span style='' @ quote_mark @ qs ''color: '' @ userColor ui (obj_get sender ''id'') @ quote_mark @ qs ''>'' @ name @
     qs ''</span></html>''"

definition message_fields :: "uienv \<Rightarrow> tgobject \<Rightarrow> tgobject \<Rightarrow> variant list \<Rightarrow> variant list \<Rightarrow> tgobject" where
  "message_fields ui message sender users chats =
     (let name = (if isUser sender then full_name sender else qv_toString (obj_get sender ''title''))
      in [(''messageId'', obj_get message ''id''), (''senderName'', VStr (sender_html ui sender name)),
          (''thumbnailColor'', VStr (userColor ui (obj_get sender ''id''))), (''thumbnailText'', VStr (getAvatarText ui name)),
          (''avatar'', VStr []), (''photoId'', obj_get (qv_toMap (obj_get sender ''photo'')) ''photo_id''),
          (''date'', obj_get message ''date''), (''grouped_id'', obj_get message ''grouped_id''),
          (''out'', VBool (qv_toBool (obj_get message ''out''))), (''editDate'', obj_get message ''edit_date''),
          (''replyToMsgId'', obj_get (qv_toMap (obj_get message ''reply_to'')) ''reply_to_msg_id''),
          (''messageSource'', obj_get message ''message''),
          (''messageTime'', VStr (ue_date ui (later (qv_toInt (obj_get message ''date'')) (qv_toInt (obj_get message ''edit_date''))) ''hh:mm'')),
          (''messageText'', VStr (messageToHtml (ue_sort ui) (qv_toString (obj_get message ''message'')) (qv_toList (obj_get message ''entities'')))),
          (''sender'', VMap (toInputPeer sender)),
          (''forwardedFrom'', VStr (forwarded_from users chats (qv_toMap (obj_get message ''fwd_from'')))),
          (''hasMedia'', VBool (objID (qv_toMap (obj_get message ''media'')) \<noteq> 0)), (''mediaDownloadable'', VBool False),
          (''mediaSpoiler'', VBool False), (''photoSpoiler'', VBool False), (''mediaUrl'', VStr [])])"

definition mm_createRow ::
    "viewenv \<Rightarrow> tgobject \<Rightarrow> tgobject \<Rightarrow> variant list \<Rightarrow> variant list \<Rightarrow> desk \<Rightarrow> tgobject \<times> desk" where
  "mm_createRow env message sender users chats d =
     desk_action env message users chats
       (fold (\<lambda>(k, v). obj_put k v) (media_fields (ve_ui env) (qv_toMap (obj_get message ''media'')))
         (message_fields (ve_ui env) message sender users chats), d)"

subsection \<open>What a row has\<close>

definition media_keys :: "string set" where
  "media_keys = {''mediaImage'', ''mediaTitle'', ''mediaText'', ''mediaDownloadable'', ''mediaDownload'', ''mediaFileName'', ''mediaSpoiler'', ''mediaUrl''}
     \<union> action_keys"

lemma fold_put_other: "k \<notin> fst ` set kvs \<Longrightarrow> obj_get (fold (\<lambda>(k, v). obj_put k v) kvs row) k = obj_get row k"
  by (induction kvs arbitrary: row) (auto simp: split_beta)

lemma keys_if: "fst ` set x \<subseteq> S \<Longrightarrow> fst ` set y \<subseteq> S \<Longrightarrow> fst ` set (if b then x else y) \<subseteq> S"
  by simp

lemma media_fields_keys: "fst ` set (media_fields ui media) \<subseteq> media_keys"
  unfolding media_fields_def Let_def
  by (intro keys_if) (simp_all add: media_card_def media_keys_def action_keys_def put_photo_def Let_def)

lemma createRow_field:
  "k \<notin> media_keys \<Longrightarrow> obj_get (fst (mm_createRow env message sender users chats d)) k = obj_get (message_fields (ve_ui env) message sender users chats) k"
proof -
  assume k: "k \<notin> media_keys"
  then have "k \<notin> action_keys" "k \<notin> fst ` set (media_fields (ve_ui env) (qv_toMap (obj_get message ''media'')))"
    using media_fields_keys by (auto simp: media_keys_def)
  then show ?thesis
    using handleMessageAction_keeps [of k]
    by (simp add: mm_createRow_def desk_action_def split_beta fold_put_other)
qed

lemma createRow_fields [simp]:
  "obj_get (fst (mm_createRow env message sender users chats d)) ''messageId'' = obj_get message ''id''"
  "obj_get (fst (mm_createRow env message sender users chats d)) ''id'' = VNull"
  "obj_get (fst (mm_createRow env message sender users chats d)) ''messageSource'' = obj_get message ''message''"
  by (subst createRow_field; simp add: media_keys_def action_keys_def message_fields_def Let_def)+

text \<open>The row has the message's id under another name, so the predicates that read \<open>id\<close> see none.\<close>

lemma row_not_editable:
  "\<not> canEditMessage (fst (mm_createRow env message sender users chats d)) now"
  "\<not> canDeleteMessage (fst (mm_createRow env message sender users chats d))"
  "\<not> canDeleteMessageForEveryone (fst (mm_createRow env message sender users chats d)) now"
  by (simp_all add: canEditMessage_def isEditableKind_def canDeleteMessage_def canDeleteMessageForEveryone_def)

end
