(* ===== verification/Messages.thy ===== *)
theory Messages
  imports MessageRows
begin

section \<open>The list of messages: src/messagesmodel.cpp\<close>

text \<open>
  The messages of the chat that is open, oldest first. Opening a chat fetches a page to either side of the last message read; once the newest page has been
  seen, updates are added at the end. The list also holds the selection, the reply and the upload under way. The slots that reach for the client are the ones
  the interface only calls once a client is set. Row numbers that come from the view are in range.
\<close>

definition BATCH_SIZE :: i32 where "BATCH_SIZE = 40"

subsection \<open>State\<close>

record messages_model =
  mm_rows :: "tgobject list"
  mm_client :: bool
  mm_userId :: i64
  mm_peer :: tgobject
  mm_inputPeer :: tgobject
  mm_upRequestId :: i64
  mm_downRequestId :: i64
  mm_upOffset :: i32
  mm_downOffset :: i32
  mm_avatars :: bool
  mm_downloadRequests :: "(i64 \<times> i32) list"
  mm_uploadId :: i64
  mm_sentMessages :: "(i64 \<times> qstring) list"
  mm_media :: tgobject
  mm_selectedIds :: "i32 list"
  mm_replyToMsgId :: i32
  mm_readUpTo :: i32
  mm_log :: "view_event list"

definition messages_new :: messages_model where
  "messages_new = \<lparr>mm_rows = [], mm_client = False, mm_userId = 0, mm_peer = [], mm_inputPeer = [], mm_upRequestId = 0, mm_downRequestId = 0,
     mm_upOffset = 0, mm_downOffset = 0, mm_avatars = False, mm_downloadRequests = [], mm_uploadId = 0, mm_sentMessages = [], mm_media = [],
     mm_selectedIds = [], mm_replyToMsgId = 0, mm_readUpTo = 0, mm_log = []\<rparr>"

definition mm_emit :: "view_event \<Rightarrow> messages_model \<Rightarrow> messages_model" where
  "mm_emit e m = m\<lparr>mm_log := mm_log m @ [e]\<rparr>"

definition row_id :: "tgobject \<Rightarrow> i32" where
  "row_id row = qv_toInt (obj_get row ''messageId'')"

definition desk_do :: "(cref \<Rightarrow> world \<Rightarrow> world) \<Rightarrow> desk \<Rightarrow> desk" where
  "desk_do f d = d\<lparr>dk_app := (dk_app d)\<lparr>ap_world := f None (ap_world (dk_app d))\<rparr>\<rparr>"

definition desk_authorized :: "desk \<Rightarrow> bool" where
  "desk_authorized d = app_authorized (dk_app d)"

definition mm_resetState :: "messages_model \<Rightarrow> messages_model" where
  "mm_resetState m =
     (let m1 = (if mm_rows m = [] then m else mm_emit (RowsRemoved 0 (length (mm_rows m) - 1)) (m\<lparr>mm_rows := []\<rparr>))
      in mm_emit SelectionChanged (m1\<lparr>mm_peer := [], mm_inputPeer := [], mm_upRequestId := 0, mm_downRequestId := 0, mm_upOffset := 0,
           mm_downOffset := 0, mm_selectedIds := [], mm_replyToMsgId := 0, mm_readUpTo := 0\<rparr>))"

definition mm_cancelUpload :: "viewenv \<Rightarrow> messages_model \<times> desk \<Rightarrow> messages_model \<times> desk" where
  "mm_cancelUpload env = (\<lambda>(m, d).
     (mm_emit (UploadingProgress (- 1)) (m\<lparr>mm_media := [], mm_uploadId := 0\<rparr>),
      if mm_uploadId m \<noteq> 0 then desk_do (cancelUpload (ve_cl env) (mm_uploadId m)) d else d))"

definition mm_setClient :: "viewenv \<Rightarrow> messages_model \<times> desk \<Rightarrow> messages_model \<times> desk" where
  "mm_setClient env = (\<lambda>(m, d).
     let (m1, d1) = mm_cancelUpload env (mm_resetState (m\<lparr>mm_client := True, mm_userId := 0\<rparr>), d)
     in (m1, d1\<lparr>dk_peers := setStore (dk_peers d1)\<rparr>))"

subsection \<open>Opening a chat\<close>

definition mm_canFetchDown :: "messages_model \<times> desk \<Rightarrow> bool" where
  "mm_canFetchDown = (\<lambda>(m, d). mm_client m \<and> desk_authorized d \<and> commonPeerType (mm_inputPeer m) \<noteq> 0 \<and> mm_downRequestId m = 0 \<and> mm_downOffset m \<noteq> - 1)"

definition mm_canFetchUp :: "messages_model \<times> desk \<Rightarrow> bool" where
  "mm_canFetchUp = (\<lambda>(m, d). mm_client m \<and> desk_authorized d \<and> commonPeerType (mm_inputPeer m) \<noteq> 0 \<and> mm_upRequestId m = 0 \<and> mm_upOffset m \<noteq> - 1)"

definition mm_fetchDown :: "viewenv \<Rightarrow> messages_model \<times> desk \<Rightarrow> messages_model \<times> desk" where
  "mm_fetchDown env = (\<lambda>(m, d).
     let (r, d1) = desk_ask (messagesGetHistory (ve_cl env) (mm_inputPeer m) (mm_downOffset m) 0 (- BATCH_SIZE) BATCH_SIZE 0 0 (VInt 0)) d
     in (m\<lparr>mm_downRequestId := r\<rparr>, d1))"

definition mm_fetchUp :: "viewenv \<Rightarrow> messages_model \<times> desk \<Rightarrow> messages_model \<times> desk" where
  "mm_fetchUp env = (\<lambda>(m, d).
     let (r, d1) = desk_ask (messagesGetHistory (ve_cl env) (mm_inputPeer m) (mm_upOffset m) 0 0 BATCH_SIZE 0 0 (VInt 0)) d
     in (m\<lparr>mm_upRequestId := r\<rparr>, d1))"

definition read_mark :: "tgobject \<Rightarrow> i32" where
  "read_mark peer = later (qv_toInt (obj_get peer ''read_inbox_max_id'')) (qv_toInt (obj_get peer ''read_outbox_max_id''))"

definition mm_setPeer :: "viewenv \<Rightarrow> bytes \<Rightarrow> messages_model \<times> desk \<Rightarrow> messages_model \<times> desk" where
  "mm_setPeer env data = (\<lambda>(m, d).
     let peer = qv_toMap (sq_unpack (ve_sql env) data);
         (m1, d1) = mm_cancelUpload env ((mm_resetState m)\<lparr>mm_downloadRequests := [], mm_peer := peer, mm_inputPeer := toInputPeer peer\<rparr>, d)
     in mm_fetchDown env (mm_fetchUp env (m1\<lparr>mm_upOffset := read_mark peer, mm_downOffset := read_mark peer\<rparr>, d1)))"

definition mm_peerBytes :: "viewenv \<Rightarrow> messages_model \<Rightarrow> bytes" where
  "mm_peerBytes env m = sq_pack (ve_sql env) (VMap (mm_peer m))"

definition mm_reloadHistory :: "viewenv \<Rightarrow> messages_model \<times> desk \<Rightarrow> messages_model \<times> desk" where
  "mm_reloadHistory env = (\<lambda>(m, d). if objEMPTY (mm_peer m) then (m, d) else mm_setPeer env (mm_peerBytes env m) (m, d))"

definition mm_updatesReset :: "viewenv \<Rightarrow> messages_model \<times> desk \<Rightarrow> messages_model \<times> desk" where
  "mm_updatesReset env = (\<lambda>(m, d). if objEMPTY (mm_peer m) \<or> isChannel (mm_peer m) then (m, d) else mm_reloadHistory env (m, d))"

definition mm_channelReset :: "viewenv \<Rightarrow> i64 \<Rightarrow> messages_model \<times> desk \<Rightarrow> messages_model \<times> desk" where
  "mm_channelReset env channelId = (\<lambda>(m, d).
     if objEMPTY (mm_peer m) \<or> \<not> isChannel (mm_peer m) \<or> getPeerId (mm_peer m) \<noteq> channelId then (m, d) else mm_reloadHistory env (m, d))"

definition mm_authorized :: "viewenv \<Rightarrow> i64 \<Rightarrow> messages_model \<times> desk \<Rightarrow> messages_model \<times> desk" where
  "mm_authorized env userId = (\<lambda>(m, d).
     if mm_userId m \<noteq> userId
     then let (m1, d1) = mm_cancelUpload env (mm_resetState m, d) in (m1\<lparr>mm_downloadRequests := [], mm_userId := userId\<rparr>, d1)
     else (m, d))"

subsection \<open>Pages of history\<close>

text \<open>Who sent a message: the peer it names, or the chat itself when it names none.\<close>

definition message_sender :: "tgobject \<Rightarrow> variant list \<Rightarrow> variant list \<Rightarrow> tgobject \<Rightarrow> tgobject" where
  "message_sender chat users chats message =
     (let fromId = qv_toMap (obj_get message ''from_id'')
      in if commonPeerType fromId = 0 then chat else find_peer users chats fromId [])"

text \<open>The server sends the newest message first.\<close>

fun history_rows :: "viewenv \<Rightarrow> tgobject \<Rightarrow> variant list \<Rightarrow> variant list \<Rightarrow> variant list \<Rightarrow> desk \<Rightarrow> tgobject list \<times> desk" where
  "history_rows env chat users chats [] d = ([], d)"
| "history_rows env chat users chats (v # vs) d =
     (let (older, d1) = history_rows env chat users chats vs d; message = qv_toMap v;
          (row, d2) = mm_createRow env message (message_sender chat users chats message) users chats d1
      in (older @ [row], d2))"

definition next_offset :: "i32 \<Rightarrow> variant \<Rightarrow> nat \<Rightarrow> i32" where
  "next_offset old v n =
     (let newOffset = qv_toInt (obj_get (qv_toMap v) ''id'') in if old \<noteq> newOffset \<and> of_nat n = BATCH_SIZE then newOffset else - 1)"

definition fetch_pictures :: "viewenv \<Rightarrow> variant list \<Rightarrow> variant list \<Rightarrow> tgobject list \<Rightarrow> messages_model \<Rightarrow> desk \<Rightarrow> desk" where
  "fetch_pictures env users chats rows m d =
     (if mm_avatars m
      then fold (\<lambda>row. desk_photo env (qv_toMap (obj_get row ''_photoToDownload''))) rows (fold (desk_avatar env) chats (fold (desk_avatar env) users d))
      else d)"

definition handleHistoryResponse :: "viewenv \<Rightarrow> tgobject \<Rightarrow> messages_model \<times> desk \<Rightarrow> messages_model \<times> desk" where
  "handleHistoryResponse env data = (\<lambda>(m, d).
     let messages = qv_toList (obj_get data ''messages''); chats = qv_toList (obj_get data ''chats''); users = qv_toList (obj_get data ''users'');
         d1 = desk_put users chats d
     in if messages = [] then (m\<lparr>mm_downOffset := - 1\<rparr>, d1)
        else
          let (rows, d2) = history_rows env (mm_peer m) users chats messages d1; n = length (mm_rows m);
              m1 = mm_emit (RowsInserted n (n + length rows - 1))
                     (m\<lparr>mm_downOffset := next_offset (mm_downOffset m) (hd messages) (length messages), mm_rows := mm_rows m @ rows\<rparr>);
              m2 = (if 0 < n then mm_emit (DataChanged (n - 1) (n - 1)) m1 else m1);
              m3 = (if read_mark (mm_peer m) = mm_downOffset m then mm_emit (ScrollTo (of_nat (length (mm_rows m2)) - 1)) m2 else m2)
          in (m3, fetch_pictures env users chats rows m3 d2))"

definition handleHistoryResponseUpwards :: "viewenv \<Rightarrow> tgobject \<Rightarrow> messages_model \<times> desk \<Rightarrow> messages_model \<times> desk" where
  "handleHistoryResponseUpwards env data = (\<lambda>(m, d).
     let messages = qv_toList (obj_get data ''messages''); chats = qv_toList (obj_get data ''chats''); users = qv_toList (obj_get data ''users'');
         d1 = desk_put users chats d
     in if messages = [] then (m\<lparr>mm_upOffset := - 1\<rparr>, d1)
        else
          let (rows, d2) = history_rows env (mm_peer m) users chats messages d1; n = length (mm_rows m);
              m1 = mm_emit (RowsInserted 0 (length rows - 1))
                     (m\<lparr>mm_upOffset := next_offset (mm_upOffset m) (last messages) (length messages), mm_rows := rows @ mm_rows m\<rparr>);
              m2 = (if 0 < n then mm_emit (DataChanged (length rows) (length rows)) m1 else m1);
              m3 = mm_emit (ScrollTo (if read_mark (mm_peer m) = mm_upOffset m then of_nat (length (mm_rows m2)) - 1 else of_nat (length rows))) m2
          in (m3, fetch_pictures env users chats rows m3 d2))"

definition mm_historyResponse :: "viewenv \<Rightarrow> tgobject \<Rightarrow> i64 \<Rightarrow> messages_model \<times> desk \<Rightarrow> messages_model \<times> desk" where
  "mm_historyResponse env data messageId = (\<lambda>(m, d).
     if messageId = mm_downRequestId m then let (m1, d1) = handleHistoryResponse env data (m, d) in (m1\<lparr>mm_downRequestId := 0\<rparr>, d1)
     else if messageId = mm_upRequestId m then let (m1, d1) = handleHistoryResponseUpwards env data (m, d) in (m1\<lparr>mm_upRequestId := 0\<rparr>, d1)
     else (m, d))"

subsection \<open>Reading\<close>

definition desk_expect :: "i64 \<Rightarrow> i64 \<Rightarrow> desk \<Rightarrow> desk" where
  "desk_expect mid channel d =
     desk_do (\<lambda>self w. let c = client_at self w in put_client self (c\<lparr>cl_updates := map_option (expectAffected mid channel) (cl_updates c)\<rparr>) w) d"

definition markRead :: "viewenv \<Rightarrow> messages_model \<times> desk \<Rightarrow> messages_model \<times> desk" where
  "markRead env = (\<lambda>(m, d).
     let newest = row_id (last (mm_rows m)); m1 = m\<lparr>mm_readUpTo := newest\<rparr>
     in if \<not> mm_client m \<or> \<not> desk_authorized d \<or> mm_rows m = [] then (m, d)
        else if newest = 0 \<or> newest \<le>s mm_readUpTo m then (m, d)
        else if isChat (mm_peer m) then (m1, snd (desk_ask (channelsReadHistory (ve_cl env) (mm_peer m) newest) d))
        else let (mid, d1) = desk_ask (messagesReadHistory (ve_cl env) (mm_inputPeer m) newest) d
             in (m1, if mid \<noteq> 0 then desk_expect mid 0 d1 else d1))"

subsection \<open>The selection\<close>

definition selectedMessageId :: "messages_model \<Rightarrow> i32" where
  "selectedMessageId m = (case mm_selectedIds m of [i] \<Rightarrow> i | _ \<Rightarrow> 0)"

definition selectedMessageSource :: "messages_model \<Rightarrow> qstring" where
  "selectedMessageSource m =
     (if selectedMessageId m = 0 then []
      else case find (\<lambda>row. row_id row = selectedMessageId m) (mm_rows m) of
             None \<Rightarrow> []
           | Some row \<Rightarrow> qv_toString (obj_get row ''messageSource''))"

definition selectionIsRevocable :: "uienv \<Rightarrow> messages_model \<Rightarrow> bool" where
  "selectionIsRevocable ui m \<longleftrightarrow>
     mm_selectedIds m \<noteq> [] \<and>
     list_all (\<lambda>row. row_id row \<in> set (mm_selectedIds m) \<longrightarrow> canDeleteMessageForEveryone row (ue_now ui)) (mm_rows m)"

definition selectedIsEditable :: "uienv \<Rightarrow> messages_model \<Rightarrow> bool" where
  "selectedIsEditable ui m =
     (case mm_selectedIds m of
        [i] \<Rightarrow> (case find (\<lambda>row. row_id row = i) (mm_rows m) of None \<Rightarrow> False | Some row \<Rightarrow> canEditMessage row (ue_now ui))
      | _ \<Rightarrow> False)"

definition toggleSelection :: "i32 \<Rightarrow> messages_model \<Rightarrow> messages_model" where
  "toggleSelection i m =
     (let at = unat i; mid = row_id (mm_rows m ! at);
          ids = (if mid \<in> set (mm_selectedIds m) then removeAll mid (mm_selectedIds m) else mm_selectedIds m @ [mid])
      in if i <s 0 \<or> int (length (mm_rows m)) \<le> sint i then m
         else if mid = 0 then m
         else mm_emit SelectionChanged (mm_emit (DataChanged at at) (m\<lparr>mm_selectedIds := ids\<rparr>)))"

definition clearSelection :: "messages_model \<Rightarrow> messages_model" where
  "clearSelection m =
     (if mm_selectedIds m = [] then m
      else let m1 = m\<lparr>mm_selectedIds := []\<rparr>
           in mm_emit SelectionChanged (if mm_rows m = [] then m1 else mm_emit (DataChanged 0 (length (mm_rows m) - 1)) m1))"

text \<open>The loop that takes rows out; \<open>--i\<close> after a removal.\<close>

fun take_out :: "(tgobject \<Rightarrow> bool) \<Rightarrow> nat \<Rightarrow> tgobject list \<Rightarrow> tgobject list \<times> view_event list" where
  "take_out P i [] = ([], [])"
| "take_out P i (row # rows) =
     (if P row then let (rest, es) = take_out P i rows in (rest, RowsRemoved i i # es)
      else let (rest, es) = take_out P (Suc i) rows in (row # rest, es))"

definition delete_request :: "viewenv \<Rightarrow> bool \<Rightarrow> messages_model \<Rightarrow> cref \<Rightarrow> world \<Rightarrow> i64 \<times> world" where
  "delete_request env revoke m =
     (if isChat (mm_peer m) then channelsDeleteMessages (ve_cl env) (mm_peer m) (map VInt (mm_selectedIds m))
      else messagesDeleteMessages (ve_cl env) (map VInt (mm_selectedIds m)) revoke)"

definition deleteSelected :: "viewenv \<Rightarrow> bool \<Rightarrow> messages_model \<times> desk \<Rightarrow> messages_model \<times> desk" where
  "deleteSelected env revoke = (\<lambda>(m, d).
     let ids = map VInt (mm_selectedIds m); channel = isChat (mm_peer m); peerId = getPeerId (mm_peer m);
         (mid, d1) = desk_ask (delete_request env revoke m) d;
         d2 = desk_expect mid (if channel then peerId else 0) d1;
         (rows, es) = take_out (\<lambda>row. row_id row \<in> set (mm_selectedIds m)) 0 (mm_rows m);
         store = ap_store (dk_app d2);
         d3 = (if st_open store
               then d2\<lparr>dk_app := (dk_app d2)\<lparr>ap_store := store_deleteMessages peerId (commonPeerType (mm_peer m)) ids store\<rparr>\<rparr>
               else d2)
     in if \<not> mm_client m \<or> \<not> desk_authorized d \<or> mm_selectedIds m = [] then (m, d)
        else if mid = 0 then (m, d1)
        else (mm_emit SelectionChanged (m\<lparr>mm_rows := rows, mm_log := mm_log m @ es, mm_selectedIds := []\<rparr>), d3))"

definition setReplyTo :: "i32 \<Rightarrow> messages_model \<Rightarrow> messages_model" where
  "setReplyTo messageId m = m\<lparr>mm_replyToMsgId := messageId\<rparr>"

end
