(* ===== verification/MessageSlots.thy ===== *)
theory MessageSlots
  imports Messages TlMethods3
begin

section \<open>Updates, files and sending: src/messagesmodel.cpp\<close>

text \<open>
  What happens to the open chat: messages arrive, change and go; files are fetched and sent; a link is followed. Qt's XML reader and writer, the check that a
  link has a scheme, and the directory downloads go to are arguments, in \<open>linkenv\<close>. What a client's signal makes the list do follows as a slot of its own.
\<close>

subsection \<open>Environment\<close>

datatype dom = DText qstring | DElem qstring "(qstring \<times> qstring) list" "dom list"

record linkenv =
  le_parse :: "qstring \<Rightarrow> dom option"
  le_print :: "dom \<Rightarrow> qstring"
  le_scheme :: "qstring \<Rightarrow> bool"
  le_downloads :: "qstring \<Rightarrow> qstring"
  le_msecs :: i64

subsection \<open>What the view reads\<close>

definition merges :: "messages_model \<Rightarrow> nat \<Rightarrow> bool" where
  "merges m i =
     (if i = 0 then False
      else
        let curr = mm_rows m ! i; prev = mm_rows m ! (i - 1); group = (\<lambda>row. obj_get row ''grouped_id'');
            date = (\<lambda>row. qv_toInt (obj_get row ''date''))
        in if \<not> peersEqual (qv_toMap (obj_get curr ''sender'')) (qv_toMap (obj_get prev ''sender'')) then False
           else if \<not> qv_isNull (group curr) \<and> \<not> qv_isNull (group prev) \<and> qv_toLongLong (group curr) = qv_toLongLong (group prev) then True
           else \<not> isChannel (mm_peer m) \<and> date curr - date prev <s 300)"

definition mm_data :: "uienv \<Rightarrow> messages_model \<Rightarrow> nat \<Rightarrow> string \<Rightarrow> variant" where
  "mm_data ui m i role =
     (let row = mm_rows m ! i
      in if role = ''isChannel'' then VBool (isChannel (mm_peer m))
         else if role = ''selected'' then VBool (row_id row \<in> set (mm_selectedIds m))
         else if role = ''canEdit'' then VBool (canEditMessage row (ue_now ui))
         else if role = ''canDelete'' then VBool (canDeleteMessage row)
         else if role = ''canDeleteForEveryone'' then VBool (canDeleteMessageForEveryone row (ue_now ui))
         else if role = ''mergeMessage'' then VBool (merges m i)
         else obj_get row role)"

subsection \<open>Spoilers and links\<close>

definition dom_attr :: "string \<Rightarrow> (qstring \<times> qstring) list \<Rightarrow> qstring" where
  "dom_attr k attrs = (case map_of attrs (qs k) of None \<Rightarrow> [] | Some v \<Rightarrow> v)"

definition drop_attr :: "string \<Rightarrow> (qstring \<times> qstring) list \<Rightarrow> (qstring \<times> qstring) list" where
  "drop_attr k attrs = filter (\<lambda>(k', v). k' \<noteq> qs k) attrs"

definition is_spoiler :: "(qstring \<times> qstring) list \<Rightarrow> bool" where
  "is_spoiler attrs = qs_startsWith (dom_attr ''href'' attrs) (qs ''symbogram://spoiler/'')"

fun uncolour :: "dom \<Rightarrow> dom" where
  "uncolour (DText t) = DText t"
| "uncolour (DElem tag attrs kids) = DElem tag (drop_attr ''color'' attrs) (map uncolour kids)"

definition reveal_node :: "qstring \<Rightarrow> (qstring \<times> qstring) list \<Rightarrow> dom list \<Rightarrow> dom" where
  "reveal_node tag attrs kids = DElem tag (drop_attr ''color'' (drop_attr ''href'' attrs)) (map uncolour kids)"

text \<open>
  The elements \<open>a\<close> whose \<open>href\<close> is the link, in document order; the first that is a spoiler or lies in one has the nearest of its spoilers opened.
  \<open>Up\<close> asks for an enclosing one.
\<close>

datatype reveal = Nothing | Up | Opened dom

fun walk :: "qstring \<Rightarrow> bool \<Rightarrow> dom \<Rightarrow> reveal"
  and walk_list :: "qstring \<Rightarrow> bool \<Rightarrow> dom list \<Rightarrow> reveal \<times> dom list" where
  "walk link inside (DText t) = Nothing"
| "walk link inside (DElem tag attrs kids) =
     (let covered = (inside \<or> is_spoiler attrs);
          r = (if tag = qs ''a'' \<and> dom_attr ''href'' attrs = link \<and> covered then (Up, kids) else walk_list link covered kids)
      in case fst r of
           Nothing \<Rightarrow> Nothing
         | Opened _ \<Rightarrow> Opened (DElem tag attrs (snd r))
         | Up \<Rightarrow> if is_spoiler attrs then Opened (reveal_node tag attrs kids) else Up)"
| "walk_list link inside [] = (Nothing, [])"
| "walk_list link inside (k # ks) =
     (case walk link inside k of
        Nothing \<Rightarrow> (let (r, ks1) = walk_list link inside ks in (r, k # ks1))
      | Opened k1 \<Rightarrow> (Opened k1, k1 # ks)
      | Up \<Rightarrow> (Up, k # ks))"

definition mm_setRow :: "nat \<Rightarrow> tgobject \<Rightarrow> messages_model \<Rightarrow> messages_model" where
  "mm_setRow i row m = mm_emit (DataChanged i i) (m\<lparr>mm_rows := (mm_rows m)[i := row]\<rparr>)"

definition linkActivated :: "linkenv \<Rightarrow> qstring \<Rightarrow> nat \<Rightarrow> messages_model \<Rightarrow> messages_model" where
  "linkActivated le link i m =
     (let row = mm_rows m ! i
      in case le_parse le (qv_toString (obj_get row ''messageText'')) of
           None \<Rightarrow> m
         | Some t \<Rightarrow>
             (case walk link False t of
                Opened t1 \<Rightarrow> mm_setRow i (obj_put ''messageText'' (VStr (le_print le t1)) row) m
              | _ \<Rightarrow> mm_emit (OpenUrl (if le_scheme le link then link else qs ''http://'' @ link)) m))"

subsection \<open>Pictures\<close>

fun set_field :: "string \<Rightarrow> i64 \<Rightarrow> string \<Rightarrow> qstring \<Rightarrow> nat \<Rightarrow> tgobject list \<Rightarrow> tgobject list \<times> view_event list" where
  "set_field key photoId field filePath i [] = ([], [])"
| "set_field key photoId field filePath i (row # rows) =
     (let (rest, es) = set_field key photoId field filePath (Suc i) rows
      in if qv_equal (obj_get row key) (VLong photoId) then (obj_put field (VStr filePath) row # rest, DataChanged i i # es)
         else (row # rest, es))"

definition mm_avatarDownloaded :: "i64 \<Rightarrow> qstring \<Rightarrow> messages_model \<Rightarrow> messages_model" where
  "mm_avatarDownloaded photoId filePath m =
     (let (rows, es) = set_field ''photoId'' photoId ''avatar'' filePath 0 (mm_rows m) in m\<lparr>mm_rows := rows, mm_log := mm_log m @ es\<rparr>)"

definition mm_photoDownloaded :: "i64 \<Rightarrow> qstring \<Rightarrow> messages_model \<Rightarrow> messages_model" where
  "mm_photoDownloaded photoId filePath m =
     (let (rows, es) = set_field ''photoFileId'' photoId ''photoFile'' filePath 0 (mm_rows m) in m\<lparr>mm_rows := rows, mm_log := mm_log m @ es\<rparr>)"

subsection \<open>Fetching files\<close>

definition mm_cancelDownload :: "viewenv \<Rightarrow> nat \<Rightarrow> messages_model \<times> desk \<Rightarrow> messages_model \<times> desk" where
  "mm_cancelDownload env i = (\<lambda>(m, d).
     let mid = row_id (mm_rows m ! i);
         requestId = (case find (\<lambda>(k, v). v = mid) (mm_downloadRequests m) of None \<Rightarrow> 0 | Some (k, v) \<Rightarrow> k)
     in if \<not> mm_client m then (m, d)
        else (mm_emit (DownloadUpdated mid (- 1) []) (m\<lparr>mm_downloadRequests := AList.delete requestId (mm_downloadRequests m)\<rparr>),
              desk_do (cancelDownload (ve_cl env) requestId) d))"

text \<open>The name before and after the last dot.\<close>

definition split_name :: "qstring \<Rightarrow> qstring \<times> qstring" where
  "split_name name =
     (if 46 \<in> set name
      then let after = rev (takeWhile (\<lambda>c. c \<noteq> 46) (rev name))
           in (butlast (take (length name - length after) name), if after = [] then [] else 46 # after)
      else (name, []))"

definition numbered :: "qstring \<Rightarrow> nat \<Rightarrow> qstring" where
  "numbered name n =
     (if n = 0 then name
      else fst (split_name name) @ qs '' ('' @ dec_digits n @ qs '')'' @ snd (split_name name))"

definition target_path :: "linkenv \<Rightarrow> qstring \<Rightarrow> nat \<Rightarrow> qstring" where
  "target_path le name n = le_downloads le (qs ''Kutegram/'' @ numbered name n)"

partial_function (option) free_index :: "(nat \<Rightarrow> bool) \<Rightarrow> nat \<Rightarrow> nat option" where
  "free_index taken n = (if taken n then free_index taken (Suc n) else Some n)"

definition mm_downloadFile :: "viewenv \<Rightarrow> linkenv \<Rightarrow> nat \<Rightarrow> messages_model \<times> desk \<Rightarrow> (messages_model \<times> desk) option" where
  "mm_downloadFile env le i = (\<lambda>(m, d).
     if \<not> mm_client m \<or> \<not> desk_authorized d \<or> commonPeerType (mm_peer m) = 0 then Some (m, d)
     else
       let (m1, d1) = mm_cancelDownload env i (m, d); row = mm_rows m ! i; given = qv_toString (obj_get row ''mediaFileName'');
           name = (if given = [] then qs_number (le_msecs le) else given)
       in case free_index (\<lambda>n. w_disk (ap_world (dk_app d1)) (target_path le name n) \<noteq> None) 0 of
            None \<Rightarrow> None
          | Some n \<Rightarrow>
              let (requestId, d2) = desk_ask (downloadFile (ve_cl env) (target_path le name n) (qv_toMap (obj_get row ''mediaDownload'')) 0 0 0) d1
              in Some (mm_emit (DownloadUpdated (row_id row) 0 [])
                         (m1\<lparr>mm_downloadRequests := AList.update requestId (row_id row) (mm_downloadRequests m1)\<rparr>), d2))"

definition take_request :: "i64 \<Rightarrow> (i32 \<Rightarrow> view_event) \<Rightarrow> messages_model \<Rightarrow> messages_model" where
  "take_request fileId e m =
     (case map_of (mm_downloadRequests m) fileId of
        None \<Rightarrow> m
      | Some mid \<Rightarrow> mm_emit (e mid) (m\<lparr>mm_downloadRequests := AList.delete fileId (mm_downloadRequests m)\<rparr>))"

definition mm_fileDownloaded :: "i64 \<Rightarrow> qstring \<Rightarrow> messages_model \<Rightarrow> messages_model" where
  "mm_fileDownloaded fileId filePath = take_request fileId (\<lambda>mid. DownloadUpdated mid 1 (qs ''file:///'' @ filePath))"

definition mm_fileDownloadCanceled :: "i64 \<Rightarrow> messages_model \<Rightarrow> messages_model" where
  "mm_fileDownloadCanceled fileId = take_request fileId (\<lambda>mid. DownloadUpdated mid (- 1) [])"

subsection \<open>Updates\<close>

definition add_message :: "viewenv \<Rightarrow> tgobject \<Rightarrow> tgobject \<Rightarrow> variant list \<Rightarrow> variant list \<Rightarrow> messages_model \<times> desk \<Rightarrow> messages_model \<times> desk" where
  "add_message env message sender users chats = (\<lambda>(m, d).
     let n = length (mm_rows m); (row, d1) = mm_createRow env message sender users chats d;
         m1 = mm_emit (RowsInserted n n) (m\<lparr>mm_rows := mm_rows m @ [row]\<rparr>);
         m2 = (if 0 < n then mm_emit (DataChanged (n - 1) (n - 1)) m1 else m1);
         d2 = (if mm_avatars m then desk_photo env (qv_toMap (obj_get row ''_photoToDownload'')) (desk_avatar env (VMap sender) d1) else d1)
     in (mm_emit ScrollForNew m2, d2))"

definition open_peer :: "tgobject \<Rightarrow> tgobject" where
  "open_peer peer =
     (if isChannel peer then [(''_'', VInt PeerChannel), (''channel_id'', getPeerIdVariant peer)]
      else if isChat peer then [(''_'', VInt PeerChat), (''chat_id'', getPeerIdVariant peer)]
      else [(''_'', VInt PeerUser), (''user_id'', getPeerIdVariant peer)])"

definition add_short :: "viewenv \<Rightarrow> tgobject \<Rightarrow> tgobject \<Rightarrow> i64 \<Rightarrow> messages_model \<times> desk \<Rightarrow> messages_model \<times> desk" where
  "add_short env update peerId fromId = (\<lambda>(m, d).
     let (sender, d1) = desk_peer env fromId d
     in add_message env (obj_put ''from_id'' (VMap (sender_peer sender)) (obj_put ''peer_id'' (VMap peerId) update)) sender [] [] (m, d1))"

definition mm_gotMessageUpdate :: "viewenv \<Rightarrow> tgobject \<Rightarrow> i64 \<Rightarrow> messages_model \<times> desk \<Rightarrow> messages_model \<times> desk" where
  "mm_gotMessageUpdate env update messageId = (\<lambda>(m, d).
     let me = app_userId (dk_app d); long = (\<lambda>k. qv_toLongLong (obj_get update k))
     in if mm_downOffset m \<noteq> - 1 then (m, d)
        else if objID update = UpdateShortSentMessage
        then (case map_of (mm_sentMessages m) messageId of
                None \<Rightarrow> (m, d)
              | Some text \<Rightarrow>
                  let peerId = open_peer (mm_peer m); update1 = obj_put ''peer_id'' (VMap peerId) (obj_put ''message'' (VStr text) update);
                      m1 = mm_emit (SentMessageUpdate update1 messageId) (m\<lparr>mm_sentMessages := AList.delete messageId (mm_sentMessages m)\<rparr>)
                  in add_short env update1 peerId me (m1, d))
        else if long ''user_id'' = getPeerId (mm_peer m) \<and> isUser (mm_peer m)
        then add_short env update [(''_'', VInt PeerUser), (''user_id'', obj_get update ''user_id'')]
               (if qv_toBool (obj_get update ''out'') then me else long ''user_id'') (m, d)
        else if long ''chat_id'' = getPeerId (mm_peer m) \<and> isChat (mm_peer m)
        then add_short env update [(''_'', VInt PeerChat), (''chat_id'', obj_get update ''chat_id'')] (long ''from_id'') (m, d)
        else (m, d))"

definition edit_row :: "viewenv \<Rightarrow> tgobject \<Rightarrow> variant list \<Rightarrow> variant list \<Rightarrow> messages_model \<times> desk \<Rightarrow> messages_model \<times> desk" where
  "edit_row env message users chats = (\<lambda>(m, d).
     case find (\<lambda>i. qv_equal (obj_get (mm_rows m ! i) ''messageId'') (obj_get message ''id'')) [0..<length (mm_rows m)] of
       None \<Rightarrow> (m, d)
     | Some i \<Rightarrow>
         let sender = message_sender (mm_peer m) users chats message; (row, d1) = mm_createRow env message sender users chats d;
             d2 = (if mm_avatars m then desk_photo env (qv_toMap (obj_get row ''_photoToDownload'')) (desk_avatar env (VMap sender) d1) else d1)
         in (mm_setRow i row m, d2))"

text \<open>\<open>removeOne\<close> takes the first equal id out of the list.\<close>

fun remove_one :: "variant \<Rightarrow> variant list \<Rightarrow> variant list option" where
  "remove_one v [] = None"
| "remove_one v (w # ws) = (if qv_equal w v then Some ws else map_option (Cons w) (remove_one v ws))"

fun delete_rows :: "variant list \<Rightarrow> nat \<Rightarrow> tgobject list \<Rightarrow> tgobject list \<times> view_event list" where
  "delete_rows ids i [] = ([], [])"
| "delete_rows ids i (row # rows) =
     (case remove_one (obj_get row ''messageId'') ids of
        Some ids1 \<Rightarrow> (let (rest, es) = delete_rows ids1 i rows in (rest, RowsRemoved i i # es))
      | None \<Rightarrow> (let (rest, es) = delete_rows ids (Suc i) rows in (row # rest, es)))"

definition mm_delete :: "variant list \<Rightarrow> messages_model \<Rightarrow> messages_model" where
  "mm_delete ids m = (let (rows, es) = delete_rows ids 0 (mm_rows m) in m\<lparr>mm_rows := rows, mm_log := mm_log m @ es\<rparr>)"

definition mm_gotUpdate :: "viewenv \<Rightarrow> tgobject \<Rightarrow> variant list \<Rightarrow> variant list \<Rightarrow> messages_model \<times> desk \<Rightarrow> messages_model \<times> desk" where
  "mm_gotUpdate env update users chats = (\<lambda>(m, d0).
     let d = desk_put users chats d0; c = objID update; message = qv_toMap (obj_get update ''message'');
         here = peersEqual (mm_peer m) (qv_toMap (obj_get message ''peer_id''))
     in if c = UpdateNewMessage \<or> c = UpdateNewChannelMessage
        then (if mm_downOffset m \<noteq> - 1 \<or> \<not> here then (m, d)
              else add_message env message (message_sender (mm_peer m) users chats message) users chats (m, d))
        else if c = UpdateEditMessage \<or> c = UpdateEditChannelMessage
        then (if here then edit_row env message users chats (m, d) else (m, d))
        else if c = UpdateDeleteChannelMessages
        then (if \<not> isChat (mm_peer m) \<or> getPeerId (mm_peer m) \<noteq> qv_toLongLong (obj_get update ''channel_id'') then (m, d)
              else (mm_delete (qv_toList (obj_get update ''messages'')) m, d))
        else if c = UpdateDeleteMessages then (mm_delete (qv_toList (obj_get update ''messages'')) m, d)
        else (m, d))"

subsection \<open>Sending\<close>

definition messagesSendMessage :: "clenv \<Rightarrow> tgobject \<Rightarrow> qstring \<Rightarrow> tgobject \<Rightarrow> i64 \<Rightarrow> i32 \<Rightarrow> cref \<Rightarrow> world \<Rightarrow> i64 \<times> world" where
  "messagesSendMessage env inputPeer message media randomId replyToMsgId =
     (let withMedia = (objID media \<noteq> 0)
      in sendObject env (if withMedia then writeTLMethodMessagesSendMedia else writeTLMethodMessagesSendMessage)
           ([(''_'', VInt (if withMedia then MessagesSendMediaMethod else MessagesSendMessageMethod)), (''peer'', VMap (toInputPeer inputPeer)),
             (''message'', VStr message), (''media'', VMap media), (''random_id'', VLong randomId)] @
            (if replyToMsgId \<noteq> 0
             then [(''reply_to'', VMap [(''_'', VInt InputReplyToMessage), (''reply_to_msg_id'', VInt replyToMsgId)])] else [])))"

definition messagesSendMedia :: "clenv \<Rightarrow> tgobject \<Rightarrow> tgobject \<Rightarrow> qstring \<Rightarrow> i64 \<Rightarrow> cref \<Rightarrow> world \<Rightarrow> i64 \<times> world" where
  "messagesSendMedia env inputPeer media message randomId = messagesSendMessage env inputPeer message media randomId 0"

definition messagesEditMessage :: "clenv \<Rightarrow> tgobject \<Rightarrow> i32 \<Rightarrow> qstring \<Rightarrow> cref \<Rightarrow> world \<Rightarrow> i64 \<times> world" where
  "messagesEditMessage env inputPeer messageId message =
     sendObject env writeTLMethodMessagesEditMessage
       [(''_'', VInt MessagesEditMessageMethod), (''peer'', VMap (toInputPeer inputPeer)), (''id'', VInt messageId), (''message'', VStr message)]"

definition editMessage :: "viewenv \<Rightarrow> i32 \<Rightarrow> qstring \<Rightarrow> messages_model \<times> desk \<Rightarrow> messages_model \<times> desk" where
  "editMessage env messageId message = (\<lambda>(m, d).
     if \<not> mm_client m \<or> \<not> desk_authorized d \<or> message = [] \<or> messageId = 0 then (m, d)
     else (m, snd (desk_ask (messagesEditMessage (ve_cl env) (mm_inputPeer m) messageId message) d)))"

definition sendMessage :: "viewenv \<Rightarrow> qstring \<Rightarrow> messages_model \<times> desk \<Rightarrow> messages_model \<times> desk" where
  "sendMessage env message = (\<lambda>(m, d).
     if \<not> mm_client m \<or> \<not> desk_authorized d \<or> commonPeerType (mm_inputPeer m) = 0 \<or> mm_uploadId m \<noteq> 0 \<or>
        (message = [] \<and> objID (qv_toMap (obj_get (mm_media m) ''file'')) = 0) then (m, d)
     else
       let (randomId, d1) = desk_ask (\<lambda>self. draw_file_id (ve_cl env)) d;
           (mid, d2) = desk_ask (messagesSendMessage (ve_cl env) (mm_inputPeer m) message (mm_media m) randomId (mm_replyToMsgId m)) d1
       in mm_cancelUpload env (m\<lparr>mm_sentMessages := AList.update mid message (mm_sentMessages m), mm_replyToMsgId := 0\<rparr>, d2))"

subsection \<open>Uploads\<close>

definition qs_endsWith :: "qstring \<Rightarrow> string \<Rightarrow> bool" where
  "qs_endsWith s t = qs_startsWith (rev s) (rev (qs t))"

definition upload_media :: "qstring \<Rightarrow> tgobject" where
  "upload_media selected =
     (if qs_endsWith selected ''.jpg'' \<or> qs_endsWith selected ''.jpeg'' \<or> qs_endsWith selected ''.png''
      then [(''_'', VInt InputMediaUploadedPhoto)]
      else [(''_'', VInt InputMediaUploadedDocument),
            (''attributes'', VList [VMap [(''_'', VInt DocumentAttributeFilename), (''file_name'', VStr (qs_fileName selected))]])])"

text \<open>The file the dialog returned, if any.\<close>

definition mm_uploadFile :: "viewenv \<Rightarrow> qstring option \<Rightarrow> messages_model \<times> desk \<Rightarrow> fault + messages_model \<times> desk" where
  "mm_uploadFile env chosen s =
     (let (m, d) = mm_cancelUpload env s
      in case chosen of
           None \<Rightarrow> Inr (m, d)
         | Some selected \<Rightarrow>
             (if selected = [] then Inr (m, d)
              else case uploadFile (ve_cl env) selected None (ap_world (dk_app d)) of
                     Inl e \<Rightarrow> Inl e
                   | Inr (uploadId, w) \<Rightarrow>
                       Inr (mm_emit (UploadingProgress 0) (m\<lparr>mm_media := upload_media selected, mm_uploadId := uploadId\<rparr>),
                            d\<lparr>dk_app := (dk_app d)\<lparr>ap_world := w\<rparr>\<rparr>)))"

definition mm_fileUploadCanceled :: "viewenv \<Rightarrow> i64 \<Rightarrow> messages_model \<times> desk \<Rightarrow> messages_model \<times> desk" where
  "mm_fileUploadCanceled env fileId = (\<lambda>(m, d).
     if mm_uploadId m \<noteq> fileId then (m, d) else mm_cancelUpload env (m\<lparr>mm_uploadId := 0\<rparr>, d))"

definition mm_fileUploaded :: "i64 \<Rightarrow> tgobject \<Rightarrow> messages_model \<Rightarrow> messages_model" where
  "mm_fileUploaded fileId inputFile m =
     (if mm_uploadId m \<noteq> fileId then m
      else mm_emit (UploadingProgress 100) (m\<lparr>mm_uploadId := 0, mm_media := obj_put ''file'' (VMap inputFile) (mm_media m)\<rparr>))"

definition mm_fileUploading :: "i64 \<Rightarrow> i32 \<Rightarrow> messages_model \<Rightarrow> messages_model" where
  "mm_fileUploading fileId progressPercentage m =
     (if mm_uploadId m \<noteq> fileId then m else mm_emit (UploadingProgress progressPercentage) m)"

end
