(* ===== verification/MessagesFacts.thy ===== *)
theory MessagesFacts
  imports MessageSlots StoreFacts
begin

section \<open>What the list of messages keeps\<close>

subsection \<open>Every row is announced, and none has an id the predicates read\<close>

abbreviation mm_announces :: "messages_model \<Rightarrow> messages_model \<Rightarrow> bool" where
  "mm_announces \<equiv> announces mm_rows mm_log"

definition idless :: "tgobject \<Rightarrow> bool" where
  "idless row \<longleftrightarrow> obj_get row ''id'' = VNull"

text \<open>What a slot may do to the rows.\<close>

definition mm_good :: "messages_model \<Rightarrow> messages_model \<Rightarrow> bool" where
  "mm_good m m' \<longleftrightarrow> mm_announces m m' \<and> (list_all idless (mm_rows m) \<longrightarrow> list_all idless (mm_rows m'))"

lemma mm_good_refl: "mm_good m m"
  by (simp add: mm_good_def announces_refl)

lemma mm_good_trans: "mm_good m m1 \<Longrightarrow> mm_good m1 m' \<Longrightarrow> mm_good m m'"
  by (auto simp: mm_good_def intro: announces_trans)

lemma mm_good_same: "mm_rows m' = mm_rows m \<Longrightarrow> mm_log m' = mm_log m \<Longrightarrow> mm_good m m'"
  by (auto simp: mm_good_def announces_def)

lemma mm_good_to: "mm_good m m1 \<Longrightarrow> mm_rows m' = mm_rows m1 \<Longrightarrow> mm_log m' = mm_log m1 \<Longrightarrow> mm_good m m'"
  by (auto simp: mm_good_def announces_def)

lemma mm_good_from: "mm_good m1 m' \<Longrightarrow> mm_rows m = mm_rows m1 \<Longrightarrow> mm_log m = mm_log m1 \<Longrightarrow> mm_good m m'"
  by (auto simp: mm_good_def announces_def)

lemma mm_good_events:
  "announced (mm_rows m) es (mm_rows m') \<Longrightarrow> mm_log m' = mm_log m @ es \<Longrightarrow>
   (list_all idless (mm_rows m) \<Longrightarrow> list_all idless (mm_rows m')) \<Longrightarrow> mm_good m m'"
  by (auto simp: mm_good_def announces_def)

lemma mm_emit_simps [simp]: "mm_rows (mm_emit e m) = mm_rows m" "mm_log (mm_emit e m) = mm_log m @ [e]"
  "mm_peer (mm_emit e m) = mm_peer m" "mm_client (mm_emit e m) = mm_client m" "mm_selectedIds (mm_emit e m) = mm_selectedIds m"
  "mm_readUpTo (mm_emit e m) = mm_readUpTo m" "mm_avatars (mm_emit e m) = mm_avatars m"
  by (simp_all add: mm_emit_def)

lemma mm_good_quiet: "quiet e \<Longrightarrow> mm_good m (mm_emit e m)"
  by (rule mm_good_events [where es = "[e]"]) (auto intro: announced_quiet)

lemma mm_good_redraw: "i < length (mm_rows m) \<Longrightarrow> mm_good m (mm_emit (DataChanged i i) m)"
  by (rule mm_good_events [where es = "[DataChanged i i]"]) (auto intro: announced_redraw)

lemma quiet_events [simp]: "quiet SelectionChanged" "quiet (ScrollTo n)" "quiet ScrollForNew" "quiet (DownloadUpdated a b f)"
  "quiet (UploadingProgress n)" "quiet (SentMessageUpdate u k)" "quiet (OpenUrl l)"
  by (simp_all add: quiet_def)

lemma reset_rows [simp]: "mm_rows (mm_resetState m) = []"
  by (simp add: mm_resetState_def Let_def)

lemma reset_good: "mm_good m (mm_resetState m)"
proof (cases "mm_rows m = []")
  case True
  then show ?thesis by (intro mm_good_events [where es = "[SelectionChanged]"]) (auto simp: mm_resetState_def intro: announced_quiet)
next
  case False
  have "announced (mm_rows m) ([RowsRemoved 0 (length (mm_rows m) - 1)] @ [SelectionChanged]) []"
    using False by (intro announced_with_quiet announced_clear) simp_all
  then show ?thesis using False
    by (intro mm_good_events [where es = "[RowsRemoved 0 (length (mm_rows m) - 1), SelectionChanged]"]) (auto simp: mm_resetState_def)
qed

lemma cancelUpload_good: "mm_good m (fst (mm_cancelUpload env (m, d)))"
  by (rule mm_good_events [where es = "[UploadingProgress (- 1)]"]) (auto simp: mm_cancelUpload_def intro: announced_quiet)

lemma cancelUpload_rows [simp]: "mm_rows (fst (mm_cancelUpload env (m, d))) = mm_rows m"
  by (simp add: mm_cancelUpload_def)

lemma fetch_simps [simp]:
  "mm_rows (fst (mm_fetchDown env s)) = mm_rows (fst s)" "mm_log (fst (mm_fetchDown env s)) = mm_log (fst s)"
  "mm_rows (fst (mm_fetchUp env s)) = mm_rows (fst s)" "mm_log (fst (mm_fetchUp env s)) = mm_log (fst s)"
  by (cases s; simp add: mm_fetchDown_def mm_fetchUp_def split_beta)+

lemma mm_good_update: "mm_good m m1 \<Longrightarrow> mm_rows m1 = mm_rows m2 \<Longrightarrow> mm_log m1 = mm_log m2 \<Longrightarrow> mm_good m2 m3 \<Longrightarrow> mm_good m m3"
  by (auto simp: mm_good_def announces_def intro: announced_trans)

lemma setPeer_good: "mm_good m (fst (mm_setPeer env data (m, d)))"
  by (rule mm_good_update [OF reset_good _ _ mm_good_to [OF cancelUpload_good]])
    (auto simp: mm_setPeer_def Let_def split_beta intro: refl)

lemma reload_good: "mm_good m (fst (mm_reloadHistory env (m, d)))"
  by (simp add: mm_reloadHistory_def setPeer_good mm_good_refl)

lemma setClient_good: "mm_good m (fst (mm_setClient env (m, d)))"
proof -
  let ?m = "m\<lparr>mm_client := True, mm_userId := 0\<rparr>"
  have eq: "fst (mm_setClient env (m, d)) = fst (mm_cancelUpload env (mm_resetState ?m, d))" by (simp add: mm_setClient_def split_beta)
  have "mm_good ?m (fst (mm_cancelUpload env (mm_resetState ?m, d)))" by (rule mm_good_trans [OF reset_good cancelUpload_good])
  then show ?thesis unfolding eq by (rule mm_good_from) simp_all
qed

lemma authorized_good: "mm_good m (fst (mm_authorized env userId (m, d)))"
proof (cases "mm_userId m = userId")
  case False
  then show ?thesis
    by (intro mm_good_to [OF mm_good_trans [OF reset_good cancelUpload_good]]) (auto simp: mm_authorized_def split_beta intro: refl)
qed (simp add: mm_authorized_def mm_good_refl)

subsection \<open>History\<close>

lemma createRow_idless [simp]: "idless (fst (mm_createRow env message sender users chats d))"
  by (simp add: idless_def)

lemma history_rows_simps:
  "length (fst (history_rows env chat users chats vs d)) = length vs"
  "list_all idless (fst (history_rows env chat users chats vs d))"
  "map (\<lambda>row. obj_get row ''messageId'') (fst (history_rows env chat users chats vs d)) = rev (map (\<lambda>v. obj_get (qv_toMap v) ''id'') vs)"
  by (induction vs arbitrary: d) (simp_all add: Let_def split_beta)

lemma mm_good_append:
  "new \<noteq> [] \<Longrightarrow> list_all idless new \<Longrightarrow>
   mm_good m (mm_emit (RowsInserted (length (mm_rows m)) (length (mm_rows m) + length new - 1)) (m\<lparr>mm_rows := mm_rows m @ new\<rparr>))"
  using announced_append [of new "mm_rows m"]
  by (intro mm_good_events [where es = "[RowsInserted (length (mm_rows m)) (length (mm_rows m) + length new - 1)]"]) simp_all

lemma mm_good_prepend:
  "new \<noteq> [] \<Longrightarrow> list_all idless new \<Longrightarrow> mm_good m (mm_emit (RowsInserted 0 (length new - 1)) (m\<lparr>mm_rows := new @ mm_rows m\<rparr>))"
  using announced_prepend [of new "mm_rows m"]
  by (intro mm_good_events [where es = "[RowsInserted 0 (length new - 1)]"]) simp_all

lemma mm_good_if: "mm_good m m1 \<Longrightarrow> (b \<Longrightarrow> mm_good m1 m2) \<Longrightarrow> mm_good m (if b then m2 else m1)"
  by (auto intro: mm_good_trans)

lemma down_good: "mm_good m (fst (handleHistoryResponse env data (m, d)))"
proof (cases "qv_toList (obj_get data ''messages'') = []")
  case True
  then show ?thesis by (simp add: handleHistoryResponse_def Let_def mm_good_same)
next
  case False
  let ?vs = "qv_toList (obj_get data ''messages'')" and ?n = "length (mm_rows m)"
  let ?h = "history_rows env (mm_peer m) (qv_toList (obj_get data ''users'')) (qv_toList (obj_get data ''chats'')) ?vs
    (desk_put (qv_toList (obj_get data ''users'')) (qv_toList (obj_get data ''chats'')) d)"
  let ?m = "m\<lparr>mm_downOffset := next_offset (mm_downOffset m) (hd ?vs) (length ?vs)\<rparr>"
  let ?m1 = "mm_emit (RowsInserted ?n (?n + length (fst ?h) - 1)) (?m\<lparr>mm_rows := mm_rows m @ fst ?h\<rparr>)"
  have new: "fst ?h \<noteq> []" "list_all idless (fst ?h)"
    using history_rows_simps(1,2) False by (metis length_0_conv, blast)
  have "mm_good ?m ?m1" using mm_good_append [OF new, of ?m] by simp
  then have one: "mm_good m ?m1" by (rule mm_good_from) simp_all
  then have two: "mm_good m (if 0 < ?n then mm_emit (DataChanged (?n - 1) (?n - 1)) ?m1 else ?m1)"
    by (rule mm_good_if) (rule mm_good_redraw, cases "mm_rows m", auto)
  then have "mm_good m (let m2 = (if 0 < ?n then mm_emit (DataChanged (?n - 1) (?n - 1)) ?m1 else ?m1)
      in if read_mark (mm_peer m) = mm_downOffset m then mm_emit (ScrollTo (of_nat (length (mm_rows m2)) - 1)) m2 else m2)"
    unfolding Let_def by (rule mm_good_if) (auto intro: mm_good_quiet)
  then show ?thesis unfolding handleHistoryResponse_def Let_def split_beta prod.case if_not_P [OF False] fst_conv snd_conv .
qed

lemma up_good: "mm_good m (fst (handleHistoryResponseUpwards env data (m, d)))"
proof (cases "qv_toList (obj_get data ''messages'') = []")
  case True
  then show ?thesis by (simp add: handleHistoryResponseUpwards_def Let_def mm_good_same)
next
  case False
  let ?vs = "qv_toList (obj_get data ''messages'')" and ?n = "length (mm_rows m)"
  let ?h = "history_rows env (mm_peer m) (qv_toList (obj_get data ''users'')) (qv_toList (obj_get data ''chats'')) ?vs
    (desk_put (qv_toList (obj_get data ''users'')) (qv_toList (obj_get data ''chats'')) d)"
  let ?k = "length (fst ?h)"
  let ?m = "m\<lparr>mm_upOffset := next_offset (mm_upOffset m) (last ?vs) (length ?vs)\<rparr>"
  let ?m1 = "mm_emit (RowsInserted 0 (?k - 1)) (?m\<lparr>mm_rows := fst ?h @ mm_rows m\<rparr>)"
  have new: "fst ?h \<noteq> []" "list_all idless (fst ?h)"
    using history_rows_simps(1,2) False by (metis length_0_conv, blast)
  have "mm_good ?m ?m1" using mm_good_prepend [OF new, of ?m] by simp
  then have one: "mm_good m ?m1" by (rule mm_good_from) simp_all
  then have two: "mm_good m (if 0 < ?n then mm_emit (DataChanged ?k ?k) ?m1 else ?m1)"
    by (rule mm_good_if) (rule mm_good_redraw, auto)
  then have all: "mm_good m (mm_emit (ScrollTo x) (if 0 < ?n then mm_emit (DataChanged ?k ?k) ?m1 else ?m1))" for x
    by (rule mm_good_trans) (auto intro: mm_good_quiet)
  show ?thesis unfolding handleHistoryResponseUpwards_def Let_def split_beta prod.case if_not_P [OF False] fst_conv snd_conv by (rule all)
qed

lemma history_good: "mm_good m (fst (mm_historyResponse env data messageId (m, d)))"
  using down_good [of m env data d] up_good [of m env data d]
  by (auto simp: mm_historyResponse_def split_beta mm_good_refl intro: mm_good_to)

subsection \<open>The selection\<close>

lemma unat_nonneg: "0 \<le> sint (w :: i32) \<Longrightarrow> int (unat w) = sint w"
proof -
  assume "0 \<le> sint w"
  moreover have "sint w < 2 ^ 31" using sint_less [of w] by simp
  ultimately have "sint w = uint w" unfolding uint_sint by (intro take_bit_int_eq_self [symmetric]) simp_all
  then show ?thesis by simp
qed

lemma toggle_good: "mm_good m (toggleSelection i m)"
proof (cases "i <s 0 \<or> int (length (mm_rows m)) \<le> sint i \<or> row_id (mm_rows m ! unat i) = 0")
  case True
  then show ?thesis by (auto simp: toggleSelection_def Let_def mm_good_refl)
next
  case False
  then have "0 \<le> sint i" by (simp add: word_sless_alt not_less)
  then have at: "unat i < length (mm_rows m)" using False unat_nonneg [of i] by linarith
  let ?ids = "if row_id (mm_rows m ! unat i) \<in> set (mm_selectedIds m) then removeAll (row_id (mm_rows m ! unat i)) (mm_selectedIds m)
    else mm_selectedIds m @ [row_id (mm_rows m ! unat i)]"
  let ?m = "m\<lparr>mm_selectedIds := ?ids\<rparr>"
  have "mm_good ?m (mm_emit (DataChanged (unat i) (unat i)) ?m)" using at by (intro mm_good_redraw) simp
  then have "mm_good ?m (mm_emit SelectionChanged (mm_emit (DataChanged (unat i) (unat i)) ?m))"
    by (rule mm_good_trans) (simp add: mm_good_quiet)
  then have "mm_good m (mm_emit SelectionChanged (mm_emit (DataChanged (unat i) (unat i)) ?m))" by (rule mm_good_from) simp_all
  then show ?thesis using False by (simp add: toggleSelection_def Let_def)
qed

lemma clearSelection_good: "mm_good m (clearSelection m)"
proof (cases "mm_selectedIds m = []")
  case False
  let ?m = "m\<lparr>mm_selectedIds := []\<rparr>"
  have "mm_good ?m (if mm_rows m = [] then ?m else mm_emit (DataChanged 0 (length (mm_rows m) - 1)) ?m)"
    using announced_redraw_all [of "mm_rows m"]
    by (auto simp: mm_good_refl intro!: mm_good_events [where es = "[DataChanged 0 (length (mm_rows m) - 1)]"])
  then have "mm_good m (if mm_rows m = [] then ?m else mm_emit (DataChanged 0 (length (mm_rows m) - 1)) ?m)"
    by (rule mm_good_from) simp_all
  then have "mm_good m (mm_emit SelectionChanged (if mm_rows m = [] then ?m else mm_emit (DataChanged 0 (length (mm_rows m) - 1)) ?m))"
    by (rule mm_good_trans) (simp add: mm_good_quiet)
  then show ?thesis using False by (simp add: clearSelection_def Let_def)
qed (simp add: clearSelection_def mm_good_refl)

lemma take_out_announced:
  "take_out P (length before) rows = (rows', es) \<Longrightarrow> announced (before @ rows) es (before @ rows') \<and> rows' = filter (\<lambda>row. \<not> P row) rows"
proof (induction rows arbitrary: before rows' es)
  case (Cons row rows)
  show ?case
  proof (cases "P row")
    case True
    then obtain es1 where t: "take_out P (length before) rows = (rows', es1)" "es = RowsRemoved (length before) (length before) # es1"
      using Cons.prems by (auto split: prod.splits)
    have "announced (before @ row # rows) [RowsRemoved (length before) (length before)] (before @ rows)"
      using announced_remove [of "length before" "before @ row # rows"] by simp
    then show ?thesis
      using Cons.IH [OF t(1)] announced_trans [of "before @ row # rows" "[RowsRemoved (length before) (length before)]" "before @ rows" es1] t(2) True
      by auto
  next
    case False
    then obtain rest where t: "take_out P (length (before @ [row])) rows = (rest, es)" "rows' = row # rest"
      using Cons.prems by (auto split: prod.splits)
    then show ?thesis using Cons.IH [OF t(1)] False by auto
  qed
qed auto

lemma delete_announced:
  "delete_rows ids (length before) rows = (rows', es) \<Longrightarrow>
   announced (before @ rows) es (before @ rows') \<and> (list_all idless rows \<longrightarrow> list_all idless rows')"
proof (induction rows arbitrary: ids before rows' es)
  case (Cons row rows)
  show ?case
  proof (cases "remove_one (obj_get row ''messageId'') ids")
    case (Some ids1)
    then obtain es1 where t: "delete_rows ids1 (length before) rows = (rows', es1)" "es = RowsRemoved (length before) (length before) # es1"
      using Cons.prems by (auto split: prod.splits)
    have "announced (before @ row # rows) [RowsRemoved (length before) (length before)] (before @ rows)"
      using announced_remove [of "length before" "before @ row # rows"] by simp
    then show ?thesis
      using Cons.IH [OF t(1)] announced_trans [of "before @ row # rows" "[RowsRemoved (length before) (length before)]" "before @ rows" es1] t(2)
      by auto
  next
    case None
    then obtain rest where t: "delete_rows ids (length (before @ [row])) rows = (rest, es)" "rows' = row # rest"
      using Cons.prems by (auto split: prod.splits)
    then show ?thesis using Cons.IH [OF t(1)] by simp
  qed
qed auto

lemma mm_delete_good: "mm_good m (mm_delete ids m)"
proof -
  obtain rows es where r: "delete_rows ids 0 (mm_rows m) = (rows, es)" by fastforce
  show ?thesis
    using delete_announced [of ids "[]" "mm_rows m" rows es] r by (intro mm_good_events [where es = es]) (simp_all add: mm_delete_def)
qed

lemma list_all_filter: "list_all P rows \<Longrightarrow> list_all P (filter Q rows)"
  by (auto simp: list_all_iff)

lemma deleteSelected_good: "mm_good m (fst (deleteSelected env revoke (m, d)))"
proof -
  obtain rows es where r: "take_out (\<lambda>row. row_id row \<in> set (mm_selectedIds m)) 0 (mm_rows m) = (rows, es)" by fastforce
  let ?m = "m\<lparr>mm_rows := rows, mm_log := mm_log m @ es, mm_selectedIds := []\<rparr>"
  have t: "announced (mm_rows m) es rows" "rows = filter (\<lambda>row. \<not> row_id row \<in> set (mm_selectedIds m)) (mm_rows m)"
    using take_out_announced [of "\<lambda>row. row_id row \<in> set (mm_selectedIds m)" "[]" "mm_rows m" rows es] r by auto
  have "mm_good m ?m"
    using t(1) by (intro mm_good_events [where es = es]) (auto simp: t(2) list_all_filter)
  then have "mm_good m (mm_emit SelectionChanged ?m)" by (rule mm_good_trans) (simp add: mm_good_quiet)
  then show ?thesis by (simp add: deleteSelected_def Let_def split_beta r mm_good_refl)
qed

lemma markRead_simps [simp]: "mm_rows (fst (markRead env (m, d))) = mm_rows m" "mm_log (fst (markRead env (m, d))) = mm_log m"
  by (simp_all add: markRead_def Let_def split_beta)

subsection \<open>Rows that change\<close>

lemma setRow_good: "i < length (mm_rows m) \<Longrightarrow> (idless (mm_rows m ! i) \<Longrightarrow> idless row) \<Longrightarrow> mm_good m (mm_setRow i row m)"
  by (rule mm_good_events [where es = "[DataChanged i i]"])
    (auto simp: mm_setRow_def list_all_length nth_list_update intro: announced_change)

lemma set_field_announced:
  "field \<noteq> ''id'' \<Longrightarrow> set_field key photoId field f (length before) rows = (rows', es) \<Longrightarrow>
   announced (before @ rows) es (before @ rows') \<and> (list_all idless rows \<longrightarrow> list_all idless rows')"
proof (induction rows arbitrary: before rows' es)
  case (Cons row rows)
  obtain rest es1 where t: "set_field key photoId field f (length (before @ [x])) rows = (rest, es1)" for x by fastforce
  show ?case
  proof (cases "qv_equal (obj_get row key) (VLong photoId)")
    case True
    let ?row = "obj_put field (VStr f) row"
    have out: "rows' = ?row # rest" "es = [DataChanged (length before) (length before)] @ es1" using Cons.prems t True by (auto simp: split_beta)
    have "announced (before @ row # rows) [DataChanged (length before) (length before)] (before @ ?row # rows)"
      using announced_change [of "length before" "before @ row # rows" ?row] by simp
    then show ?thesis
      using Cons.IH [OF Cons.prems(1) t, of ?row] out Cons.prems(1) announced_trans
      by (fastforce simp: idless_def)
  next
    case False
    then have "rows' = row # rest" "es = es1" using Cons.prems t by (auto simp: split_beta)
    then show ?thesis using Cons.IH [OF Cons.prems(1) t, of row] by simp
  qed
qed auto

lemma avatar_good: "mm_good m (mm_avatarDownloaded photoId f m)" "mm_good m (mm_photoDownloaded photoId f m)"
proof -
  obtain rows es where r: "set_field ''photoId'' photoId ''avatar'' f 0 (mm_rows m) = (rows, es)" by fastforce
  show "mm_good m (mm_avatarDownloaded photoId f m)"
    using set_field_announced [of "''avatar''" "''photoId''" photoId f "[]" "mm_rows m" rows es] r
    by (intro mm_good_events [where es = es]) (simp_all add: mm_avatarDownloaded_def)
  obtain rows es where r: "set_field ''photoFileId'' photoId ''photoFile'' f 0 (mm_rows m) = (rows, es)" by fastforce
  show "mm_good m (mm_photoDownloaded photoId f m)"
    using set_field_announced [of "''photoFile''" "''photoFileId''" photoId f "[]" "mm_rows m" rows es] r
    by (intro mm_good_events [where es = es]) (simp_all add: mm_photoDownloaded_def)
qed

lemma link_good: "i < length (mm_rows m) \<Longrightarrow> mm_good m (linkActivated le link i m)"
  by (auto simp: linkActivated_def Let_def mm_good_refl idless_def intro!: setRow_good mm_good_quiet split: option.split reveal.split)

subsection \<open>Files and sending\<close>

lemma mm_good_quiet_update: "mm_rows m1 = mm_rows m \<Longrightarrow> mm_log m1 = mm_log m \<Longrightarrow> quiet e \<Longrightarrow> mm_good m (mm_emit e m1)"
  by (rule mm_good_events [where es = "[e]"]) (auto intro: announced_quiet)

lemma take_request_good: "(\<And>mid. quiet (e mid)) \<Longrightarrow> mm_good m (take_request fileId e m)"
  by (auto simp: take_request_def mm_good_refl intro!: mm_good_quiet_update split: option.split)

lemma cancelDownload_good: "mm_good m (fst (mm_cancelDownload env i (m, d)))"
  by (auto simp: mm_cancelDownload_def Let_def mm_good_refl intro!: mm_good_quiet_update)

lemma downloadFile_good: "mm_downloadFile env le i (m, d) = Some (m', d') \<Longrightarrow> mm_good m m'"
proof -
  assume a: "mm_downloadFile env le i (m, d) = Some (m', d')"
  let ?m = "fst (mm_cancelDownload env i (m, d))"
  have "mm_good ?m (mm_emit e (?m\<lparr>mm_downloadRequests := r\<rparr>))" if "quiet e" for e r
    using that by (intro mm_good_quiet_update) simp_all
  then have "m' = m \<or> mm_good ?m m'"
    using a by (auto simp: mm_downloadFile_def Let_def split_beta split: if_splits option.splits)
  then show ?thesis using cancelDownload_good mm_good_trans mm_good_refl by blast
qed

lemma sendMessage_good: "mm_good m (fst (sendMessage env message (m, d)))"
proof -
  have "mm_good m (fst (mm_cancelUpload env (m\<lparr>mm_sentMessages := x, mm_replyToMsgId := 0\<rparr>, d1)))" for x d1
    by (rule mm_good_from [OF cancelUpload_good]) simp_all
  then show ?thesis by (simp add: sendMessage_def Let_def split_beta mm_good_refl)
qed

lemma uploadFile_good: "mm_uploadFile env chosen (m, d) = Inr (m', d') \<Longrightarrow> mm_good m m'"
proof -
  assume a: "mm_uploadFile env chosen (m, d) = Inr (m', d')"
  let ?m = "fst (mm_cancelUpload env (m, d))"
  have "mm_good ?m (mm_emit (UploadingProgress 0) (?m\<lparr>mm_media := x, mm_uploadId := y\<rparr>))" for x y
    by (intro mm_good_quiet_update) simp_all
  then have "m' = ?m \<or> mm_good ?m m'"
    using a by (auto simp: mm_uploadFile_def Let_def split_beta split: if_splits option.splits sum.splits)
  then show ?thesis using cancelUpload_good mm_good_trans by metis
qed

lemma upload_slots_good:
  "mm_good m (fst (mm_fileUploadCanceled env fileId (m, d)))"
  "mm_good m (mm_fileUploaded fileId inputFile m)" "mm_good m (mm_fileUploading fileId p m)"
proof -
  have "mm_good m (fst (mm_cancelUpload env (m\<lparr>mm_uploadId := 0\<rparr>, d)))" by (rule mm_good_from [OF cancelUpload_good]) simp_all
  then show "mm_good m (fst (mm_fileUploadCanceled env fileId (m, d)))" by (simp add: mm_fileUploadCanceled_def mm_good_refl)
qed (auto simp: mm_fileUploaded_def mm_fileUploading_def mm_good_refl intro!: mm_good_quiet_update)

subsection \<open>Updates\<close>

lemma add_message_good: "mm_good m (fst (add_message env message sender users chats (m, d)))"
proof -
  let ?n = "length (mm_rows m)" and ?row = "fst (mm_createRow env message sender users chats d)"
  let ?m1 = "mm_emit (RowsInserted ?n ?n) (m\<lparr>mm_rows := mm_rows m @ [?row]\<rparr>)"
  have "mm_good m ?m1" using mm_good_append [of "[?row]" m] by simp
  then have "mm_good m (if 0 < ?n then mm_emit (DataChanged (?n - 1) (?n - 1)) ?m1 else ?m1)"
    by (rule mm_good_if) (rule mm_good_redraw, cases "mm_rows m", auto)
  then have "mm_good m (mm_emit ScrollForNew (if 0 < ?n then mm_emit (DataChanged (?n - 1) (?n - 1)) ?m1 else ?m1))"
    by (rule mm_good_trans) (simp add: mm_good_quiet)
  then show ?thesis unfolding add_message_def Let_def split_beta prod.case fst_conv snd_conv .
qed

lemma add_short_good: "mm_good m (fst (add_short env update peerId fromId (m, d)))"
  by (simp add: add_short_def split_beta add_message_good)

lemma messageUpdate_good: "mm_good m (fst (mm_gotMessageUpdate env update messageId (m, d)))"
proof -
  have "mm_good m (fst (add_short env u p f (mm_emit (SentMessageUpdate u messageId) (m\<lparr>mm_sentMessages := x\<rparr>), d)))" for u p f x
    by (rule mm_good_trans [OF mm_good_quiet_update add_short_good]) simp_all
  then show ?thesis by (simp add: mm_gotMessageUpdate_def Let_def mm_good_refl add_short_good split: option.split)
qed

lemma edit_good: "mm_good m (fst (edit_row env message users chats (m, d)))"
  unfolding edit_row_def prod.case
proof (split option.split, intro conjI impI allI)
  fix i
  assume "find (\<lambda>i. qv_equal (obj_get (mm_rows m ! i) ''messageId'') (obj_get message ''id'')) [0..<length (mm_rows m)] = Some i"
  then have "i < length (mm_rows m)" by (auto simp: find_Some_iff)
  then show "mm_good m (fst (let sender = message_sender (mm_peer m) users chats message; (row, d1) = mm_createRow env message sender users chats d;
      d2 = if mm_avatars m then desk_photo env (qv_toMap (obj_get row ''_photoToDownload'')) (desk_avatar env (VMap sender) d1) else d1
    in (mm_setRow i row m, d2)))"
    by (simp add: Let_def split_beta setRow_good)
qed (simp add: mm_good_refl)

lemma gotUpdate_good: "mm_good m (fst (mm_gotUpdate env update users chats (m, d)))"
  by (simp add: mm_gotUpdate_def Let_def mm_good_refl add_message_good edit_good mm_delete_good)

subsection \<open>Every slot\<close>

inductive mm_step :: "viewenv \<Rightarrow> linkenv \<Rightarrow> messages_model \<Rightarrow> messages_model \<Rightarrow> bool" for env le where
  mm_st_setClient: "mm_step env le m (fst (mm_setClient env (m, d)))"
| mm_st_setAvatars: "mm_step env le m (m\<lparr>mm_avatars := given\<rparr>)"
| mm_st_setPeer: "mm_step env le m (fst (mm_setPeer env data (m, d)))"
| mm_st_updatesReset: "mm_step env le m (fst (mm_updatesReset env (m, d)))"
| mm_st_channelReset: "mm_step env le m (fst (mm_channelReset env channelId (m, d)))"
| mm_st_authorized: "mm_step env le m (fst (mm_authorized env userId (m, d)))"
| mm_st_fetchDown: "mm_step env le m (fst (mm_fetchDown env (m, d)))"
| mm_st_fetchUp: "mm_step env le m (fst (mm_fetchUp env (m, d)))"
| mm_st_history: "mm_step env le m (fst (mm_historyResponse env obj messageId (m, d)))"
| mm_st_markRead: "mm_step env le m (fst (markRead env (m, d)))"
| mm_st_toggle: "mm_step env le m (toggleSelection n m)"
| mm_st_clear: "mm_step env le m (clearSelection m)"
| mm_st_delete: "mm_step env le m (fst (deleteSelected env revoke (m, d)))"
| mm_st_setReplyTo: "mm_step env le m (setReplyTo n m)"
| mm_st_link: "i < length (mm_rows m) \<Longrightarrow> mm_step env le m (linkActivated le link i m)"
| mm_st_avatar: "mm_step env le m (mm_avatarDownloaded photoId f m)"
| mm_st_photo: "mm_step env le m (mm_photoDownloaded photoId f m)"
| mm_st_cancelDownload: "i < length (mm_rows m) \<Longrightarrow> mm_step env le m (fst (mm_cancelDownload env i (m, d)))"
| mm_st_downloadFile: "i < length (mm_rows m) \<Longrightarrow> mm_downloadFile env le i (m, d) = Some (m', d') \<Longrightarrow> mm_step env le m m'"
| mm_st_fileDownloaded: "mm_step env le m (mm_fileDownloaded fileId f m)"
| mm_st_fileCanceled: "mm_step env le m (mm_fileDownloadCanceled fileId m)"
| mm_st_messageUpdate: "mm_step env le m (fst (mm_gotMessageUpdate env update messageId (m, d)))"
| mm_st_gotUpdate: "mm_step env le m (fst (mm_gotUpdate env update users chats (m, d)))"
| mm_st_send: "mm_step env le m (fst (sendMessage env text (m, d)))"
| mm_st_edit: "mm_step env le m (fst (editMessage env n text (m, d)))"
| mm_st_upload: "mm_uploadFile env chosen (m, d) = Inr (m', d') \<Longrightarrow> mm_step env le m m'"
| mm_st_uploadCanceled: "mm_step env le m (fst (mm_fileUploadCanceled env fileId (m, d)))"
| mm_st_uploaded: "mm_step env le m (mm_fileUploaded fileId obj m)"
| mm_st_uploading: "mm_step env le m (mm_fileUploading fileId n m)"
| mm_st_cancelUpload: "mm_step env le m (fst (mm_cancelUpload env (m, d)))"

lemma mm_step_good: "mm_step env le m m' \<Longrightarrow> mm_good m m'"
proof (induction rule: mm_step.induct)
  case (mm_st_downloadFile i m d m' d')
  then show ?case by (blast intro: downloadFile_good)
next
  case (mm_st_upload chosen m d m' d')
  then show ?case by (blast intro: uploadFile_good)
next
  case (mm_st_edit m n msg d)
  show ?case by (simp add: editMessage_def mm_good_refl)
next
  case (mm_st_link i m link)
  then show ?case by (rule link_good)
qed (simp_all add: setClient_good mm_good_same setPeer_good mm_updatesReset_def mm_channelReset_def mm_good_refl reload_good authorized_good
    history_good toggle_good clearSelection_good deleteSelected_good setReplyTo_def avatar_good cancelDownload_good take_request_good
    mm_fileDownloaded_def mm_fileDownloadCanceled_def messageUpdate_good gotUpdate_good sendMessage_good upload_slots_good cancelUpload_good)

definition mm_run :: "messages_model \<times> viewenv \<times> linkenv \<Rightarrow> messages_model \<times> viewenv \<times> linkenv \<Rightarrow> bool" where
  "mm_run = (\<lambda>(m, env, le) (m', e). e = (env, le) \<and> mm_step env le m m')"

interpretation message_list: list_model "mm_rows \<circ> fst" "mm_log \<circ> fst" mm_run
  by unfold_locales (auto simp: mm_run_def announces_def mm_good_def dest!: mm_step_good)

lemma mm_run_from: "(mm_step env le)\<^sup>*\<^sup>* m m' \<Longrightarrow> mm_run\<^sup>*\<^sup>* (m, env, le) (m', env, le)"
proof (induction rule: rtranclp_induct)
  case (step y z)
  then have "mm_run (y, env, le) (z, env, le)" by (simp add: mm_run_def)
  then show ?case using step.IH by (auto intro: rtranclp.rtrancl_into_rtrancl)
qed simp

lemma messages_announced: "(mm_step env le)\<^sup>*\<^sup>* messages_new m \<Longrightarrow> announced [] (mm_log m) (mm_rows m)"
  using message_list.view_follows [of "(messages_new, env, le)" "(m, env, le)"] mm_run_from [of env le messages_new m]
  by (simp add: messages_new_def)

lemma messages_idless: "(mm_step env le)\<^sup>*\<^sup>* messages_new m \<Longrightarrow> list_all idless (mm_rows m)"
proof (induction rule: rtranclp_induct)
  case (step y z)
  then show ?case using mm_step_good by (auto simp: mm_good_def)
qed (simp add: messages_new_def)

subsection \<open>Nothing is ever offered for editing or revoking\<close>

lemma idless_not_editable: "idless row \<Longrightarrow> \<not> canEditMessage row now \<and> \<not> canDeleteMessage row \<and> \<not> canDeleteMessageForEveryone row now"
  by (simp add: idless_def canEditMessage_def isEditableKind_def canDeleteMessage_def canDeleteMessageForEveryone_def)

lemma edit_unavailable:
  assumes "(mm_step env le)\<^sup>*\<^sup>* messages_new m"
  shows "\<not> selectedIsEditable ui m"
    and "row \<in> set (mm_rows m) \<Longrightarrow> row_id row \<in> set (mm_selectedIds m) \<Longrightarrow> \<not> selectionIsRevocable ui m"
proof -
  have all: "row \<in> set (mm_rows m) \<Longrightarrow> idless row" for row using messages_idless [OF assms] by (simp add: list_all_iff)
  show "\<not> selectedIsEditable ui m"
    using all idless_not_editable by (auto simp: selectedIsEditable_def find_Some_iff split: list.splits option.splits)
  show "row \<in> set (mm_rows m) \<Longrightarrow> row_id row \<in> set (mm_selectedIds m) \<Longrightarrow> \<not> selectionIsRevocable ui m"
    using all [of row] idless_not_editable by (auto simp: selectionIsRevocable_def list_all_iff)
qed

subsection \<open>Deletions\<close>

text \<open>Rows the server numbered, each once.\<close>

definition numbered_rows :: "tgobject list \<Rightarrow> bool" where
  "numbered_rows rows \<longleftrightarrow> list_all (\<lambda>row. obj_get row ''messageId'' = VInt (row_id row)) rows \<and> distinct (map row_id rows)"

lemma qv_equal_int [simp]: "qv_equal (VInt a) (VInt b) \<longleftrightarrow> a = b"
  by (metis qv_equal_def qv_numeric.simps(1) qv_number_simps(2) qv_toInt_def)

lemma remove_one_ints: "remove_one (VInt k) (map VInt ks) = (if k \<in> set ks then Some (map VInt (remove1 k ks)) else None)"
  by (induction ks) auto

lemma delete_rows_filter:
  "numbered_rows rows \<Longrightarrow> fst (delete_rows (map VInt ks) i rows) = filter (\<lambda>row. row_id row \<notin> set ks) rows"
proof (induction rows arbitrary: ks i)
  case (Cons row rows)
  have n: "numbered_rows rows" "obj_get row ''messageId'' = VInt (row_id row)" "row_id row \<notin> set (map row_id rows)"
    using Cons.prems by (auto simp: numbered_rows_def)
  have same: "filter (\<lambda>r. row_id r \<notin> set (remove1 (row_id row) ks)) rows = filter (\<lambda>r. row_id r \<notin> set ks) rows"
    by (rule filter_cong) (use n(3) in \<open>auto dest: notin_set_remove1\<close>, metis imageI in_set_remove1 n(3) set_map)
  show ?case
    using Cons.IH [OF n(1)] by (simp add: n(2) remove_one_ints split_beta same)
qed simp

lemma account_delete:
  assumes "objID update = UpdateDeleteMessages" and "obj_get update ''messages'' = VList (map VInt ks)" and "numbered_rows (mm_rows m)"
  shows "mm_rows (fst (mm_gotUpdate env update users chats (m, d))) = filter (\<lambda>row. row_id row \<notin> set ks) (mm_rows m)"
  using assms delete_rows_filter [OF assms(3), of ks 0]
  by (simp add: mm_gotUpdate_def Let_def mm_delete_def split_beta message_ctor_ids UpdateNewMessage_def UpdateNewChannelMessage_def)

lemma sint_inject: "sint (a :: i32) = sint b \<longleftrightarrow> a = b"
proof
  assume "sint a = sint b"
  then have "(of_int (sint a) :: i32) = of_int (sint b)" by simp
  then show "a = b" by simp
qed simp

lemma delete_row_db: "st_open s \<Longrightarrow> kept_ids p (st_db (delete_row i k v s)) = kept_ids p (st_db s) - (if p = (i, k) then {sint (qv_toInt v)} else {})"
  by (auto simp: delete_row_def kept_ids_def sint_inject)

lemma delete_row_open [simp]: "st_open (delete_row i k v s) = st_open s"
  by (simp add: delete_row_def)

lemma kept_deleted:
  "st_open s \<Longrightarrow> kept_ids p (st_db (fold (delete_row i k) (map VInt ks) s)) = kept_ids p (st_db s) - (if p = (i, k) then sint ` set ks else {})"
  by (induction ks arbitrary: s) (auto simp: delete_row_db)

lemma store_delete_kept:
  "st_open s \<Longrightarrow> kept_ids p (st_db (store_deleteMessages i k (map VInt ks) s)) = kept_ids p (st_db s) - (if p = (i, k) then sint ` set ks else {})"
  using kept_deleted [of "beginBatch s" p i k ks] by (auto simp: store_deleteMessages_def)

lemma desk_expect_store [simp]: "ap_store (dk_app (desk_expect mid ch d)) = ap_store (dk_app d)"
  by (simp add: desk_expect_def desk_do_def)

lemma desk_ask_store [simp]: "ap_store (dk_app (snd (desk_ask f d))) = ap_store (dk_app d)"
  by (simp add: desk_ask_def split_beta)

lemma selection_deleted:
  assumes "mm_client m" and "desk_authorized d" and "mm_selectedIds m \<noteq> []" and "fst (desk_ask (delete_request env revoke m) d) \<noteq> 0"
    and "st_open (ap_store (dk_app d))"
  shows "mm_rows (fst (deleteSelected env revoke (m, d))) = filter (\<lambda>row. row_id row \<notin> set (mm_selectedIds m)) (mm_rows m)"
    and "mm_selectedIds (fst (deleteSelected env revoke (m, d))) = []"
    and "kept_ids p (st_db (ap_store (dk_app (snd (deleteSelected env revoke (m, d)))))) =
      kept_ids p (st_db (ap_store (dk_app d))) -
        (if p = (getPeerId (mm_peer m), commonPeerType (mm_peer m)) then sint ` set (mm_selectedIds m) else {})"
proof -
  obtain rows es where "take_out (\<lambda>row. row_id row \<in> set (mm_selectedIds m)) 0 (mm_rows m) = (rows, es)" by fastforce
  note rw = this
  have rows: "rows = filter (\<lambda>row. row_id row \<notin> set (mm_selectedIds m)) (mm_rows m)"
    using take_out_announced [of "\<lambda>row. row_id row \<in> set (mm_selectedIds m)" "[]" "mm_rows m" rows es] rw by auto
  have cond: "\<not> (\<not> mm_client m \<or> \<not> desk_authorized d \<or> mm_selectedIds m = [])" using assms(1-3) by simp
  have put: "ap_store (dk_app (x\<lparr>dk_app := y\<lparr>ap_store := s\<rparr>\<rparr>)) = s" for x y s by simp
  note slot = deleteSelected_def Let_def split_beta prod.case if_not_P [OF cond] if_not_P [OF assms(4)] rw fst_conv snd_conv
  show "mm_rows (fst (deleteSelected env revoke (m, d))) = filter (\<lambda>row. row_id row \<notin> set (mm_selectedIds m)) (mm_rows m)"
    and "mm_selectedIds (fst (deleteSelected env revoke (m, d))) = []"
    unfolding slot by (simp_all add: rows)
  show "kept_ids p (st_db (ap_store (dk_app (snd (deleteSelected env revoke (m, d)))))) =
      kept_ids p (st_db (ap_store (dk_app d))) -
        (if p = (getPeerId (mm_peer m), commonPeerType (mm_peer m)) then sint ` set (mm_selectedIds m) else {})"
    unfolding slot desk_expect_store desk_ask_store if_P [OF assms(5)] put by (rule store_delete_kept [OF assms(5)])
qed

subsection \<open>A file goes to a name that is free\<close>

lemma dec_digits_inject: "dec_digits a = dec_digits b \<Longrightarrow> a = b"
  by (metis parse_dec_digits option.inject)

lemma split_name_length: "length name \<le> Suc (length (fst (split_name name)) + length (snd (split_name name)))"
proof (cases "46 \<in> set name")
  case True
  let ?after = "rev (takeWhile (\<lambda>c. c \<noteq> 46) (rev name))"
  have "0 < length (dropWhile (\<lambda>c. c \<noteq> 46) (rev name))" using True by auto
  moreover have "length (takeWhile (\<lambda>c. c \<noteq> 46) (rev name)) + length (dropWhile (\<lambda>c. c \<noteq> 46) (rev name)) = length name"
    by (metis length_append length_rev takeWhile_dropWhile_id)
  ultimately have "length ?after < length name" by (simp only: length_rev)
  then show ?thesis using True by (auto simp: split_name_def Let_def)
qed (simp add: split_name_def)

lemma numbered_zero: "numbered name 0 = name"
  by (simp add: numbered_def)

lemma numbered_inject: "numbered name a = numbered name b \<Longrightarrow> a = b"
proof -
  assume eq: "numbered name a = numbered name b"
  have longer: "length name < length (numbered name n)" if "0 < n" for n
    using split_name_length [of name] that by (simp add: numbered_def qs_def)
  have zero: "a = 0 \<longleftrightarrow> b = 0"
    using longer [of a] longer [of b] eq numbered_zero [of name] by (cases "a = 0"; cases "b = 0") auto
  show ?thesis
  proof (cases "a = 0")
    case False
    then show ?thesis using zero eq by (auto simp: numbered_def dest: dec_digits_inject)
  qed (use zero in simp)
qed

text \<open>When each path names another file and only finitely many exist, the search ends, at a path no file has.\<close>

lemma free_index_finds:
  assumes "taken (n + j) = False" and "\<forall>i < j. taken (n + i)"
  shows "free_index taken n = Some (n + j)"
  using assms
proof (induction j arbitrary: n)
  case 0
  then show ?case by (subst free_index.simps) simp
next
  case (Suc j)
  have "taken n" using Suc.prems(2) by (metis add.right_neutral zero_less_Suc)
  moreover have "free_index taken (Suc n) = Some (Suc n + j)"
    using Suc.prems by (intro Suc.IH) (auto dest: spec [of _ "Suc _"])
  ultimately show ?case by (subst free_index.simps) simp
qed

lemma free_name_found:
  assumes "finite {p. w p \<noteq> None}" and "inj (le_downloads le)"
  shows "\<exists>n. free_index (\<lambda>n. w (target_path le name n) \<noteq> None) 0 = Some n \<and> w (target_path le name n) = None"
proof -
  let ?taken = "\<lambda>n. w (target_path le name n) \<noteq> None"
  have "inj (target_path le name)"
    using assms(2) by (auto simp: inj_def target_path_def dest: numbered_inject)
  then have "finite (target_path le name -` {p. w p \<noteq> None})" by (rule finite_vimageI [OF assms(1)])
  then have "finite {n. ?taken n}" by (simp add: vimage_def)
  then have "{n. ?taken n} \<noteq> UNIV" using infinite_UNIV_nat by metis
  then obtain k where "\<not> ?taken k" by blast
  then have least: "\<not> ?taken (LEAST n. \<not> ?taken n)" "\<forall>i < (LEAST n. \<not> ?taken n). ?taken i"
    using LeastI [of "\<lambda>n. \<not> ?taken n" k] not_less_Least by blast+
  define k1 where "k1 = (LEAST n. \<not> ?taken n)"
  have "free_index ?taken 0 = Some (0 + k1)"
    using least unfolding k1_def [symmetric] by (intro free_index_finds) simp_all
  then show ?thesis using least(1) unfolding k1_def [symmetric] by (intro exI [of _ k1]) simp
qed

text \<open>Cancelling the transfer under way first may remove a file, and adds none.\<close>

lemma next_download_disk: "w_disk (next_download env self w) = w_disk w"
  by (auto simp: next_download_def downloadNextFilePart_def download_finished_def sendObject_def Let_def split_beta split: option.split)

lemma cancelDownload_disk:
  "finite {p. w_disk (ap_world (dk_app d)) p \<noteq> None} \<Longrightarrow>
   finite {p. w_disk (ap_world (dk_app (snd (mm_cancelDownload env i (m, d))))) p \<noteq> None}"
  by (auto simp: mm_cancelDownload_def Let_def desk_do_def cancelDownload_def next_download_disk split: option.split elim!: finite_subset [rotated])

end
