(* ===== verification/Spec2Isabelle.thy ===== *)
theory Spec2Isabelle
  imports MtSchema UpdatesSeq TlMethods3 Factor Srp TransportFacts TransportInv TransportSession TransportFrames ClientFacts CacheFacts DispatchFacts MessageTextFacts DialogsFacts MessagesFacts "HOL-Library.Countable"
begin

text \<open>
  SymboGram is a Telegram client for Symbian phones, written in C++ over Qt. This library models its
  protocol code, under src/libkg, and the data behind its lists, under src/src, and proves what makes
  them correct. It follows the layers of the program.

  Values and the wire. \<open>Prelude\<close> has the machine types (\<open>qint32\<close> and \<open>qint64\<close> are words, read by \<open>sint\<close>) and
  endianness; \<open>QtBase\<close> the Qt values (\<open>QVariant\<close>, maps with string keys, decimal text). \<open>TgStream\<close> is
  tgstream.cpp: a stream is a buffer and a position, a reader returns a value and the stream after it.
  \<open>TlCodec\<close> states what a reader and a writer owe each other as the locale \<open>tl_codec\<close>, and every
  scalar is an interpretation of it. \<open>TlObject\<close> and \<open>TlFlags\<close> are the two shapes of generated code, without and with
  flag words; \<open>MtSchema\<close> (mtschema.cpp), \<open>TlSchema\<close>, \<open>TlSchema2\<close>, \<open>TlSchema3\<close>, \<open>TlTypes1\<close> to \<open>TlTypes8\<close>
  (tlschema.cpp) interpret the locale once for every type, so that the round trip is one theorem over a
  list of types, at the end of \<open>TlTypes8\<close>; \<open>TlMethods1\<close> to \<open>TlMethods3\<close> are the requests and their replies. Types that contain themselves, alone or in a
  group, are in \<open>TlInputPeer\<close>, \<open>TlPage\<close>, \<open>TlMedia\<close> and the later \<open>TlTypes\<close> theories; \<open>TlRecursion\<close> has the locale
  \<open>tl_recursion\<close> of such a group. A reader may go as deep as there are bytes left and a writer as deep as the object is large, which is
  shown to be enough: the equations of the source hold of the readers and writers.

  Updates. \<open>UpdatesState\<close> (tgupdatesstate.cpp) keeps the sequence numbers; \<open>Updates\<close> (tgupdates.cpp,
  tgc_updates.cpp) is the manager: a record of its members, one definition for every handler, a log of
  the requests it sends and the updates it delivers. \<open>UpdatesInv\<close> has its step relation and invariants,
  \<open>UpdatesSeq\<close> the refinement of the drain of held updates to an unordered specification. The drain's loop runs
  once for every held item at most.

  Cryptography. \<open>Aes\<close>, \<open>AesTables\<close>, \<open>AesInverse\<close> and \<open>Ige\<close> are the block cipher of mbedtls as it is
  configured here and the mode the protocol uses; \<open>Sha1\<close>, \<open>Sha2\<close>, \<open>Sha256\<close>, \<open>Sha512\<close>, \<open>MdHash\<close>,
  \<open>MdHashCorrect\<close> and \<open>Md\<close> the digests, in pieces and in one, and HMAC. \<open>Crypto\<close>, \<open>CryptoFacts\<close> and \<open>Factor\<close> are
  crypto.cpp; \<open>Pbkdf2\<close> and \<open>Srp\<close> are srp.cpp. \<open>Mpi\<close> gives the multi-precision calls by the numbers
  they compute, with their argument checks. Loops that wait for a suitable random number are
  \<open>partial_function\<close>s, whose value \<open>None\<close> is not to return.

  Transport. \<open>Transport\<close> (sending, sessions, timers), \<open>TransportAuth\<close> (key exchange) and
  \<open>TransportDispatch\<close> (receiving) are tgtransport.cpp: the members of \<open>TgTransport\<close>, its socket and its
  timers are one record, and connecting, writing and calling the client are entries of a log.
  \<open>handleObject\<close> carries a bound on the nesting of messages; a frame of finite depth is handled
  with enough of it, and an object that contains itself never is. \<open>TransportFacts\<close>, \<open>TransportInv\<close>,
  \<open>TransportSession\<close> and \<open>TransportFrames\<close> hold the facts: ids, authenticity and replay, the invariant of
  every reachable state (the locale \<open>invariant_system\<close>), resending and sessions, and the reassembly of
  frames.

  Client. \<open>ClientState\<close> has the record of a \<open>TgClient\<close> with its embedded transport and update manager, and the world of
  the clients, the files on disk and the signals emitted; \<open>ClientRequests\<close> the requests of the tgc_*.cpp
  files; \<open>ClientUtils\<close> tgc_utils.cpp; \<open>ClientFiles\<close> and \<open>ClientFilesFacts\<close> the transfers of tgc_files.cpp;
  \<open>ClientPassword\<close> tgc_password.cpp and the thread of tgsrpworker.cpp; \<open>Client\<close> and \<open>ClientFacts\<close> the
  handlers of tgclient.cpp.

  Cache. \<open>Store\<close> is tgstore.cpp: the tables of the SQLite file as lists of rows, with what a connection sees kept
  apart from what is committed. \<open>StoreFacts\<close> has the contract of a table with a primary key (the locale \<open>sql_table\<close>),
  what trimming and paging make of a conversation, and the invariant of every store the program can reach, killed processes
  included. \<open>ClientDispatch\<close> is how tgclient.cpp takes an answer apart, \<open>DispatchFacts\<close> shows that its switch
  knows every constructor of the types it handles, and \<open>CacheFacts\<close> what of an answer is on disk afterwards.

  Lists. Under src/src. \<open>PeerCache\<close>, \<open>MessageText\<close> and \<open>ServiceMessage\<close> are messageutil.cpp: the peers seen recently, the HTML
  and the preview of a text with its marked ranges, and the texts of service messages; \<open>MessageTextFacts\<close> shows that the code which
  moves ranges while it inserts tags gives what a message cut at its ranges should give. \<open>ViewBase\<close> has the signals of Qt's list models and
  the contract of a list as the locale \<open>list_model\<close>: a view that redraws what is announced, and nothing else, shows what the list
  has. \<open>Avatars\<close> is avatardownloader.cpp and currentuserinfo.cpp, \<open>Folders\<close> foldersmodel.cpp, \<open>Dialogs\<close> dialogsmodel.cpp with
  \<open>DialogsFacts\<close>, and \<open>MessageRows\<close>, \<open>Messages\<close>, \<open>MessageSlots\<close> messagesmodel.cpp with \<open>MessagesFacts\<close>; each list interprets the
  contract over its step relation, one rule for every slot. The name of a downloaded file is searched for by a \<open>partial_function\<close>,
  shown to end.

  Parameters. Not code of the repository, and so arguments of the definitions: UTF-8, the order of
  \<open>QHash::keys()\<close>, the random generators (arbitrary streams), zlib's inflate and deflate, the verdict of the
  primality test, the strings of the platform, which files can be opened, the writer of JSON values, whether the
  database opens, the form of a \<open>QVariant\<close> in a \<open>QDataStream\<close>, Qt's sort, its formatting of dates and floating-point numbers,
  its images and its XML, and the clock of the interface. The
  assumptions on them are hypotheses of the theorems, and every witness has a concrete instance.

  Not modelled. The arithmetic of \<open>double\<close>s, which are carried as their eight bytes (their conversion from other values is a parameter);
  what the interface does in
  response to a signal, so that an operation is never re-entered from one; logging; the limbs of
  multi-precision integers; allocation failures and the wiping of secrets; the parts of mbedtls the client
  never calls, zlib, the QML interface, platform notifications and start-up, which are input and output.
\<close>

section \<open>The wire format\<close>

text \<open>The readers and writers of both schemas, each with its encoding and the objects it admits.\<close>

definition schema_codecs :: "(tl_reader \<times> tl_writer \<times> (qtenv \<Rightarrow> variant \<Rightarrow> bytes) \<times> (qtenv \<Rightarrow> variant \<Rightarrow> bool)) list" where
  "schema_codecs = map (\<lambda>(R, W, t). (R, W, enc_object t, ok_object t)) mt_types @ all_codecs"

lemma schema_codecs_codec: "(R, W, e, k) \<in> set schema_codecs \<Longrightarrow> tl_codec R W e k"
  unfolding schema_codecs_def using mt_types_codec all_codecs_codec by auto

text \<open>C1: every type of the two schemas round trips inside a stream, with optional fields present exactly where the flag
  words say and types that contain themselves at every depth: what the writer produced for a well-formed object is read
  back as that object by the reader, which stops exactly at the end of it, whatever follows.\<close>

theorem schema_roundtrip:
  assumes "(R, W, e, k) \<in> set schema_codecs" and "k (sqt s) v"
    and "avail s = tlSerialize (sqt s) W v @ rest"
  shows "R old s = (v, advance (length (tlSerialize (sqt s) W v)) s)"
  using tl_codec.serialize [OF schema_codecs_codec [OF assms(1)] assms(2)]
    tl_codec.reads [OF schema_codecs_codec [OF assms(1)] assms(2)] assms(3)
  by simp

text \<open>Bold text that starts with a phone number.\<close>

definition sample_phone :: variant where
  "sample_phone = VMap [(''_'', VInt 483104362), (''text'', VMap [(''_'', VInt (- 599948721))]), (''phone'', VStr (qs ''112''))]"

definition sample_rich_text :: variant where
  "sample_rich_text = VMap [(''_'', VInt 1730456516), (''text'', VMap [(''_'', VInt 2120376535), (''texts'', VList
     [sample_phone, VMap [(''_'', VInt 1950782688), (''text'', VStr (qs ''now''))]])])]"

abbreviation rich_ok :: "nat \<Rightarrow> variant \<Rightarrow> bool" where
  "rich_ok n v \<equiv> ok_fobject (table_at richText_reads richText_writes richText_fields n ()) ascii_env v"

lemma sample_rich_text_ok: "ok_RichText ascii_env sample_rich_text"
proof -
  have 1: "rich_ok (Suc n) (VMap [(''_'', VInt (- 599948721))])" for n
    by (simp add: ok_fobject_def richText_fields_def)
  have 2: "rich_ok (Suc n) (VMap [(''_'', VInt 1950782688), (''text'', VStr (qs ''now''))])" for n
    by (simp add: ok_fobject_def richText_fields_def is_short_text_def ascii_env_def qs_def)
  have 3: "rich_ok (Suc n) sample_phone" if "rich_ok n (VMap [(''_'', VInt (- 599948721))])" for n
    using that unfolding table_at.simps(2) ok_fobject_def [of "richText_fields r w e k ()" for r w e k]
    by (simp add: richText_fields_def sample_phone_def is_short_text_def ascii_env_def qs_def)
  have 4: "rich_ok (Suc n) (VMap [(''_'', VInt 2120376535), (''texts'', VList [v, w])])" if "rich_ok n v" "rich_ok n w" for n v w
    using that unfolding table_at.simps(2) ok_fobject_def [of "richText_fields r w e k ()" for r w e k]
    by (simp add: richText_fields_def ok_vector_def)
  have 5: "rich_ok (Suc n) (VMap [(''_'', VInt 1730456516), (''text'', v)])" if "rich_ok n v" for n v
    using that unfolding table_at.simps(2) ok_fobject_def [of "richText_fields r w e k ()" for r w e k]
    by (simp add: richText_fields_def)
  have "rich_ok (Suc (Suc (Suc (Suc 0)))) sample_rich_text"
    unfolding sample_rich_text_def by (intro 5 4 3 2 1)
  then show ?thesis
    unfolding ok_RichText_def by (rule richText.ok_recI) (simp add: sample_rich_text_def sample_phone_def)
qed

theorem schema_roundtrip_witness:
  "readTLRichText VNull (mk_stream ascii_env (tlSerialize ascii_env writeTLRichText sample_rich_text @ [1, 2]))
   = (sample_rich_text, advance (length (tlSerialize ascii_env writeTLRichText sample_rich_text))
        (mk_stream ascii_env (tlSerialize ascii_env writeTLRichText sample_rich_text @ [1, 2])))"
  using schema_roundtrip [of readTLRichText writeTLRichText enc_RichText ok_RichText
      "mk_stream ascii_env (tlSerialize ascii_env writeTLRichText sample_rich_text @ [1, 2])"
      sample_rich_text "[1, 2]" VNull] sample_rich_text_ok
  by (simp add: schema_codecs_def all_codecs_def api_recursive_def)

section \<open>The update pipeline\<close>

text \<open>C2: no container of updates moves any sequence backwards.\<close>

theorem processUpdates_monotone:
  "sint (us_local c (m_state m)) \<le> sint (us_local c (m_state (processUpdates u mid m)))"
  using not_behind_processUpdates [of m u mid] by (simp add: not_behind_def)

text \<open>C3: \<open>drainPending\<close> implements the unordered specification of a drain: it dispatches,
  in order, a chain of held items each of which is next in its sequence when it is applied,
  drops only items at or below their position, and stops only when a gap precedes every
  item it leaves.\<close>

theorem drainPending_refines:
  "\<exists>xs. drains (m_state m) (mset (m_pending m)) xs
          (m_state (drainPending m)) (mset (m_pending (drainPending m))) \<and>
        m_out (drainPending m) = m_out m @ map item_event xs \<and>
        (\<forall>x. x \<in> set (m_pending (drainPending m)) \<longrightarrow> item_check (m_state (drainPending m)) x = Gap)"
  by (rule drainPending_spec [of m]) blast

definition sample_item :: "i32 \<Rightarrow> pending" where
  "sample_item p = \<lparr>pd_update = [(''_'', VInt p)], pd_users = [], pd_chats = [], pd_messageId = 0,
     pd_channelId = 0, pd_pts = p, pd_ptsCount = 1, pd_date = 0, pd_shortForm = False, pd_parkedAt = 0\<rparr>"

definition sample_manager :: manager where
  "sample_manager = (manager_new [] (\<lambda>n. of_nat n + 100))\<lparr>m_state := us_init\<lparr>us_pts := 10, us_valid := True\<rparr>\<rparr>"

theorem drainPending_refines_witness:
  "\<exists>xs. drains (m_state sample_manager) (mset []) xs
          (m_state (drainPending sample_manager)) (mset (m_pending (drainPending sample_manager)))"
  using drainPending_refines [of sample_manager] by (auto simp: sample_manager_def manager_new_def)

text \<open>C4: when the held items are a contiguous run after the current position of one
  sequence, in whatever order they arrived, \<open>drainPending\<close> dispatches every one of them,
  in sequence order, and leaves the position at the last.\<close>

theorem drainPending_delivers_run:
  assumes "mset (m_pending m) = mset xs" and "run c (sint (us_local c (m_state m))) xs"
    and "0 < sint (us_local c (m_state m))" and "xs \<noteq> []"
  shows "m_out (drainPending m) = m_out m @ map item_event xs \<and>
    m_pending (drainPending m) = [] \<and>
    us_local c (m_state (drainPending m)) = pd_pts (last xs)"
  using drain_run_parts [OF assms(1-3)] assms(4) by simp

theorem drainPending_delivers_run_witness:
  "m_out (drainPending (sample_manager\<lparr>m_pending := [sample_item 13, sample_item 11, sample_item 12]\<rparr>))
   = map item_event [sample_item 11, sample_item 12, sample_item 13]"
  using drainPending_delivers_run [of "sample_manager\<lparr>m_pending := [sample_item 13, sample_item 11, sample_item 12]\<rparr>"
      "[sample_item 11, sample_item 12, sample_item 13]" 0]
  by (simp add: sample_manager_def manager_new_def sample_item_def us_local_def)

text \<open>C5: in every reachable state at most 64 updates are held and at most 10 channel polls
  are in flight, held updates never outlive their gap timer, and no channel is polled or
  queued twice.\<close>

theorem manager_bounds:
  assumes "reachable m"
  shows "length (m_pending m) \<le> 64 \<and> length (m_chanReq m) \<le> 10 \<and>
    (m_timer m \<or> m_pending m = []) \<and> distinct (map snd (m_chanReq m) @ m_queue m)"
  using inv_reachable [OF assms]
  by (auto simp: inv_book_def book_def MaxPending_def MaxChannelPolls_def)

theorem manager_bounds_witness:
  "length (m_pending (authorized (manager_new [] (\<lambda>n. 5)))) \<le> 64"
  using manager_bounds [OF reach_step [OF reach_new st_authorized], of "[]" "\<lambda>n. 5"] by simp




text \<open>C7: a disconnect forgets the polls in flight but not the queue behind them, and asking
  again for a channel that waits there does not start it: it waits although no poll is in
  flight.\<close>

theorem disconnect_strands_queue:
  assumes "ch \<in> set (m_queue m)"
  shows "m_chanReq (disconnected m) = [] \<and> m_queue (disconnected m) = m_queue m \<and>
    enqueueChannel ch (disconnected m) = disconnected m"
  using assms by (auto simp: disconnected_def save_def enqueueChannel_def)

theorem disconnect_strands_queue_witness:
  "enqueueChannel 9 (disconnected (sample_manager\<lparr>m_queue := [9]\<rparr>)) = disconnected (sample_manager\<lparr>m_queue := [9]\<rparr>)"
  using disconnect_strands_queue [of 9 "sample_manager\<lparr>m_queue := [9]\<rparr>"] by simp

section \<open>Ciphers and hashes\<close>

text \<open>C9: each digest of the client, fed its input in any pieces through \<open>md.c\<close>, is the
  hash FIPS 180 defines of the concatenation; the unrolled, register-rotating block
  functions of the code against the standard's shifting registers and full schedule.\<close>

theorem digest_of_pieces:
  assumes "\<forall>p \<in> set ps. length p < 2 ^ 32"
  shows "\<exists>c c' d. md_starts (md_setup t False) = Inr c \<and>
    md_done (foldl (\<lambda>c p. case md_add c p of Inl _ \<Rightarrow> c | Inr c' \<Rightarrow> c') c ps) = Inr (c', d) \<and>
    d = md_hash_of t (concat ps)"
  using md_pieces [OF assms, of t False] by blast

theorem digest_of_pieces_witness:
  "\<exists>c c' d. md_starts (md_setup MD_SHA256 False) = Inr c \<and>
    md_done (foldl (\<lambda>c p. case md_add c p of Inl _ \<Rightarrow> c | Inr c' \<Rightarrow> c') c [[97], [], [98, 99]]) = Inr (c', d) \<and>
    d = fips_sha256 [97, 98, 99]"
  using digest_of_pieces [of "[[97], [], [98, 99]]" MD_SHA256] by simp

text \<open>C10: the derivation of the password key is RFC 8018's PBKDF2, unless the sink
  withdraws at a report, and then nothing is returned.\<close>

theorem pbkdf2_is_rfc8018:
  assumes "length P < 2 ^ 32" and "length S < 2 ^ 32" and "0 < sint c" and "0 < sint dkLen"
  shows "pbkdf2HmacSHA512 env P S c dkLen sink = rfc8018_pbkdf2 P S (nat (sint c)) (nat (sint dkLen)) \<or>
    pbkdf2HmacSHA512 env P S c dkLen sink = [] \<and>
    (\<exists>step done tot. sink = Some step \<and> done mod REPORT_EVERY = 0 \<and> \<not> step done tot)"
  by (rule pbkdf2_eq [OF assms])

theorem pbkdf2_is_rfc8018_witness:
  "pbkdf2HmacSHA512 ascii_env [112] [115] 3 100 None = rfc8018_pbkdf2 [112] [115] 3 100"
  using pbkdf2_is_rfc8018 [of "[112]" "[115]" 3 100 ascii_env None] by simp

section \<open>The password proof\<close>

text \<open>C11: when the server made \<open>B\<close> from the verifier of the client's password, the secret
  the client derives is the one the server derives, and deriving it does not fail.\<close>

theorem srp_secrets_agree:
  assumes "B = server_B p g k (g ^ x mod p) b" and "odd p" and "mpi_bitlen p \<le> MPI_MAX_BITS"
    and "mpi_bitlen x \<le> MPI_MAX_BITS" and "mpi_bitlen (u * x + a) \<le> MPI_MAX_BITS"
    and "u \<noteq> 0" and "g ^ b mod p \<noteq> 0"
  shows "srp_shared p g B a x k u = Inr (server_S p (g ^ a mod p) (g ^ x mod p) u b)"
  by (rule srp_shared_server [OF assms])

theorem srp_secrets_agree_witness:
  "srp_shared 23 5 (server_B 23 5 3 (5 ^ 6 mod 23) 9) 7 6 3 4 = Inr (server_S 23 (5 ^ 7 mod 23) (5 ^ 6 mod 23) 4 9)"
  using srp_secrets_agree [of _ 23 5 3 6 9 4 7, OF refl] by (simp add: mpi_bitlen.simps MPI_MAX_BITS_def)

section \<open>The transport\<close>

text \<open>A transport and an environment to evaluate on.\<close>

definition sample_env :: tpenv where
  "sample_env = \<lparr>te_qt = ascii_env, te_rng = \<lambda>n sz. Some (replicate sz 7), te_rand = \<lambda>_ _. 3, te_hash_order = \<lambda>ks. ks,
     te_gzip = \<lambda>_. None, te_gunzip = \<lambda>_. None, te_flushes = True, te_systemName = qs ''test'', te_appVersion = [],
     te_language = qs ''en'', te_api_id = 1, te_writeJSONValue = \<lambda>s v. s\<rparr>"

definition sample_transport :: transport where
  "sample_transport =
     \<lparr>tp_retryAttempt = 0, tp_autoReconnect = True, tp_notifiedDisconnect = False, tp_testMode = False,
      tp_mediaOnly = False, tp_currentDc = 2, tp_currentPort = 443, tp_currentHost = qs ''h'', tp_isMain = True,
      tp_config = [(''dc_options'', VList [VMap [(''id'', VInt 4), (''ip_address'', VStr (qs ''m'')), (''port'', VInt 80)]])],
      tp_nonce = [], tp_serverNonce = [], tp_newNonce = [], tp_authKey = replicate 256 1, tp_serverSalt = 3,
      tp_authKeyId = 5, tp_timeOffset = 0, tp_sequence = 0, tp_lastMessageId = 0, tp_sessionId = 9, tp_pingId = 0,
      tp_userId = 8, tp_pendingMessages = [(4, [1, 2])], tp_migrationMessages = [], tp_floodMessages = [],
      tp_noFloodReplay = [4], tp_msgsToAck = [], tp_authCheckMsgId = 0, tp_initialized = True,
      tp_handshaking = False, tp_seenMessageIds = [], tp_badPackets = 0, tp_socket = SkConnected,
      tp_pingTimer = True, tp_retryTimer = None, tp_connectTimer = False, tp_clock = 1700000000, tp_draws = 0,
      tp_settings = [], tp_log = []\<rparr>"

text \<open>C12: what the server seals for the session is opened by the client: a fresh odd id and a
  padding of 12 to 1024 bytes are accepted, and the body is dispatched, whatever it is.\<close>

theorem sealed_frame_delivered:
  assumes "tp_authKey t \<noteq> []" and "tp_authKeyId t \<noteq> 0" and "mid AND 1 = 1" and "mid \<notin> set (tp_seenMessageIds t)"
    and "12 \<le> length padding" and "length padding \<le> 1024"
    and "(32 + length body + length padding) mod 16 = 0" and "length body < 2 ^ 30"
  shows "processMessage n env (seal_packet env (tp_authKey t) (tp_authKeyId t)
           (inner_packet env salt (tp_sessionId t) mid seqno body padding) False) t =
    handleObject n env body mid (ack_message mid ((snd (acceptMessageId mid t))\<lparr>tp_badPackets := 0\<rparr>))"
  using processMessage_sealed [OF _ open_sealed_seal [OF assms(1,3,5-8), of env salt seqno], of n] assms(2,4)
    seal_packet_length [of env "tp_authKey t" "tp_authKeyId t" "inner_packet env salt (tp_sessionId t) mid seqno body padding" False]
  by (simp add: seal_packet_key)

theorem sealed_frame_delivered_witness:
  "processMessage 3 sample_env (seal_packet sample_env (replicate 256 1) 5 (inner_packet sample_env 3 9 7 0 [1, 2, 3, 4] (replicate 12 0)) False)
     sample_transport = handleObject 3 sample_env [1, 2, 3, 4] 7 (ack_message 7 ((snd (acceptMessageId 7 sample_transport))\<lparr>tp_badPackets := 0\<rparr>))"
  using sealed_frame_delivered [of sample_transport 7 "replicate 12 0" "[1, 2, 3, 4]" 3 sample_env 3 0]
  by (simp add: sample_transport_def)

text \<open>C13: outside the key exchange a frame changes nothing but the count of bad packets (and with the third in
  a row the connection), unless it is authentic: its key id and message key match, the message key is that
  of the decrypted bytes, and these name this session and a fresh odd id.\<close>

theorem only_authentic_frames:
  assumes "\<not> tp_handshaking t"
  shows "processMessage n env m t \<in> {Some t, Some (countBadPacket env t)} \<or>
    (\<exists>mid body plain. open_sealed env m t = FrameBody mid body \<and> mid \<notin> set (tp_seenMessageIds t) \<and> mid AND 1 \<noteq> 0 \<and>
       fst (next_long (packet_of env m)) = tp_authKeyId t \<and>
       calcMessageKey (tp_authKey t) plain False = fst (readRawBytes 16 (snd (next_long (packet_of env m)))) \<and>
       fst (next_long (snd (next_long (packet_of env plain)))) = tp_sessionId t)"
  using processMessage_cases [OF assms, of n env m] by (metis open_sealed_checked)

theorem only_authentic_frames_witness:
  "processMessage 3 sample_env (replicate 20 0) sample_transport \<in>
     {Some sample_transport, Some (countBadPacket sample_env sample_transport)}"
proof -
  have "(replicate 20 0 :: bytes) = le_encode 8 (0 :: i64) @ replicate 12 0" by code_simp
  then have "fst (next_long (packet_of sample_env (replicate 20 0))) = 0" by (simp only: next_long_key fst_conv)
  then have "open_sealed sample_env (replicate 20 0) sample_transport = FrameBad"
    by (simp add: open_sealed_def Let_def case_prod_unfold sample_transport_def)
  then show ?thesis
    using only_authentic_frames [of sample_transport 3 sample_env "replicate 20 0"] by (auto simp: sample_transport_def)
qed

text \<open>C14: a frame whose id was accepted is ignored when it arrives again, whatever else arrived in
  between, as long as fewer than 64 other messages did.\<close>

theorem replayed_frame_ignored:
  assumes "mid \<notin> set (tp_seenMessageIds t)" and "length ids < 64"
    and "fst (next_long (packet_of env m)) \<noteq> 0" and "4 < length m"
    and "open_sealed env m (accept_all ids (snd (acceptMessageId mid t))) = FrameBody mid d"
  shows "processMessage n env m (accept_all ids (snd (acceptMessageId mid t))) = Some (accept_all ids (snd (acceptMessageId mid t)))"
  using processMessage_sealed [OF assms(3,5,4), of n] replayed_in_window [OF assms(1,2)] by simp

theorem replayed_frame_ignored_witness:
  "processMessage 3 sample_env (seal_packet sample_env (replicate 256 1) 5 (inner_packet sample_env 3 9 7 0 [1, 2, 3, 4] (replicate 12 0)) False)
     (accept_all [11, 15] (snd (acceptMessageId 7 sample_transport))) = Some (accept_all [11, 15] (snd (acceptMessageId 7 sample_transport)))"
proof -
  let ?t = "accept_all [11, 15] (snd (acceptMessageId 7 sample_transport))"
  have f: "tp_authKey ?t = replicate 256 1" "tp_authKeyId ?t = 5" "tp_sessionId ?t = 9"
    by (simp_all only: accept_all_session accept_session) (simp_all add: sample_transport_def)
  let ?m = "seal_packet sample_env (replicate 256 1) 5 (inner_packet sample_env 3 9 7 0 [1, 2, 3, 4] (replicate 12 0)) False"
  have "open_sealed sample_env ?m ?t = FrameBody 7 [1, 2, 3, 4]"
    using open_sealed_seal [of ?t 7 "replicate 12 0" "[1, 2, 3, 4]" sample_env 3 0] unfolding f by simp
  then show ?thesis
    by (intro replayed_frame_ignored [of 7 sample_transport "[11, 15]" sample_env ?m "[1, 2, 3, 4]"])
      (use seal_packet_length [of sample_env "replicate 256 1" 5 "inner_packet sample_env 3 9 7 0 [1, 2, 3, 4] (replicate 12 0)" False]
        in \<open>simp_all add: seal_packet_key sample_transport_def\<close>)
qed

text \<open>C15: message ids increase and are divisible by four, even when the clock goes backwards between
  them: for times before 2038 and fewer than \<open>2 ^ 28\<close> messages.\<close>

theorem message_ids_increase:
  assumes "tp_lastMessageId t AND 3 = 0" and "0 \<le> sint (tp_lastMessageId t)" and "sint (tp_lastMessageId t) < 2 ^ 63 - 2 ^ 32"
    and "list_all sane_time cs" and "length cs < 2 ^ 28"
  shows "sorted_wrt (<) (map sint (tp_lastMessageId t # issue_ids cs t)) \<and> (\<forall>mid \<in> set (issue_ids cs t). mid AND 3 = 0)"
  using issue_ids_increase [of "2 ^ 63 - 2 ^ 32" t cs] assms by (simp add: last_id_ok_def)

theorem message_ids_increase_witness:
  "sorted_wrt (<) (map sint (0 # issue_ids [(1700000000, 0), (1600000000, - 5)] sample_transport))"
  using message_ids_increase [of sample_transport "[(1700000000, 0), (1600000000, - 5)]"]
  by (simp add: sane_time_def sample_transport_def)

text \<open>C16: in every state a transport can reach from a new one, whatever the client, the server and the
  network do, its tables have unique keys, its replay window has at most 64 distinct ids, its count
  of bad packets is below three and the delay of a pending reconnection is between 750 ms and 75 s.\<close>

theorem transport_invariant:
  assumes "(tp_step env)\<^sup>*\<^sup>* (transport_new env dc test st now) t"
  shows "tp_inv t"
  by (rule transport_inv.reached [OF _ assms]) (auto simp: tp_initial_def)

theorem transport_invariant_witness:
  "tp_inv (tp_start sample_env (transport_new sample_env 0 False [] 1700000000))"
  by (rule transport_invariant [of sample_env 0 False "[]" 1700000000]) (intro r_into_rtranclp step_start)

text \<open>C17: an id excluded from replay is not excluded any more once its request was refused for the salt
  and sent again: a flood wait for the new id parks the request, and it will be replayed.\<close>

theorem replay_exclusion_lost:
  fixes env seqno salt mid
  assumes "map_of (tp_pendingMessages t) bad = Some request" and "request \<noteq> []" and "tp_authKey t \<noteq> []" and "bad \<noteq> 0"
    and "bad \<in> set (tp_noFloodReplay t)" and "is_flood_wait env d"
  defines "t' \<equiv> handleBadServerSalt env (bad_salt_bytes bad seqno salt) mid t"
  assumes "tp_lastMessageId t' \<notin> set (tp_noFloodReplay t)"
  shows "EvClientMessageChanged bad (tp_lastMessageId t') \<in> set (tp_log t') \<and>
    map_of (tp_floodMessages (tp_handleRpcError env d (tp_lastMessageId t') t')) (tp_lastMessageId t') = Some request"
  using bad_salt_resend [OF assms(1-4), of env seqno salt mid]
    flood_wait_parks [OF assms(6), of t' "tp_lastMessageId t'" request] assms(8) unfolding t'_def by simp

definition sample_flood :: bytes where
  "sample_flood = le_encode 4 MT_RpcError @ le_encode 4 (420 :: i32) @ [12] @ map (of_nat \<circ> of_char) ''FLOOD_WAIT_3'' @ [0, 0, 0]"

lemma sample_flood_wait: "is_flood_wait sample_env sample_flood"
  by code_simp

lemma sample_new_id:
  "tp_lastMessageId (handleBadServerSalt sample_env (bad_salt_bytes 4 0 77) 9 sample_transport) \<noteq> 4"
proof -
  have "fst (getNewMessageId sample_transport) \<noteq> 4" by code_simp
  then show ?thesis by (subst bad_salt_new_id [where request = "[1, 2]"]) (simp_all add: sample_transport_def)
qed

theorem replay_exclusion_lost_witness:
  "\<exists>mid. mid \<noteq> 4 \<and> map_of (tp_floodMessages (tp_handleRpcError sample_env sample_flood mid
     (handleBadServerSalt sample_env (bad_salt_bytes 4 0 77) 9 sample_transport))) mid = Some [1, 2]"
  using replay_exclusion_lost [of sample_transport 4 "[1, 2]" sample_env sample_flood 0 77 9, OF _ _ _ _ _ sample_flood_wait]
    sample_new_id by (auto simp: sample_transport_def)





text \<open>C20: no depth is enough for a compressed object that contains itself: the handlers re-enter one another without end.\<close>

theorem self_containing_object_never_handled:
  assumes "length b < 2 ^ 24" and "te_gunzip env b = Some (gzip_bytes env b)"
  shows "handleObject n env (gzip_bytes env b) mid t = None"
  by (rule self_containing_never_returns [OF assms])

theorem self_containing_object_never_handled_witness:
  "handleObject 1000 (sample_env\<lparr>te_gunzip := \<lambda>b. Some (gzip_bytes sample_env b)\<rparr>) (gzip_bytes sample_env [1]) 7 sample_transport = None"
  using self_containing_object_never_handled [of "[1]" "sample_env\<lparr>te_gunzip := \<lambda>b. Some (gzip_bytes sample_env b)\<rparr>"]
  by (simp add: gzip_bytes_def)



section \<open>The client\<close>

text \<open>A client that is connected and signed in, alone, with the files of \<open>disk\<close>.\<close>

definition sample_clenv :: clenv where
  "sample_clenv = \<lparr>ce_tp = sample_env, ce_readable = \<lambda>_. True, ce_writable = \<lambda>_. True, ce_rng = \<lambda>n sz. Some (replicate sz 7),
     ce_newid = \<lambda>n. 5, ce_api_hash = [], ce_locale = qs ''en''\<rparr>"

definition sample_client :: client where
  "sample_client = (client_new sample_clenv 0 [] False [] 1700000000)\<lparr>cl_connected := True, cl_initialized := True, cl_authorized := True\<rparr>"

definition sample_world :: "(qstring \<Rightarrow> bytes option) \<Rightarrow> world" where
  "sample_world disk = \<lparr>w_root = sample_client, w_children = [], w_disk = disk, w_draws = 0, w_log = []\<rparr>"

definition sample_location :: tgobject where
  "sample_location = [(''_'', VInt InputDocumentFileLocation), (''id'', VLong 3)]"

lemma sample_world_simps [simp]:
  "client_at None (sample_world disk) = sample_client" "isAuthorized sample_client" "cl_main sample_client"
  "cl_downloads sample_client = []" "cl_currentDownloading sample_client = 0" "cl_srpWorker sample_client = None"
  "disk_bytes name (sample_world disk) = (case disk name of None \<Rightarrow> [] | Some b \<Rightarrow> b)"
  by (simp_all add: sample_world_def client_at_def sample_client_def client_new_def isAuthorized_def disk_bytes_def)

lemma sample_location_simps [simp]: "file_location sample_location sz dc = (sample_location, sz, dc)"
  "qv_toLongLong (obj_get sample_location ''id'') = 3"
  by (subst file_location.simps) (simp_all add: sample_location_def file_ids peer_ids isUser_def isChat_def commonPeerType_def)

text \<open>C22: an upload the server accepts part by part sends exactly the bytes of the file, in parts of
  512 KiB numbered in order and each with the right total, and ends by announcing the file with that number of
  parts.\<close>

theorem upload_sends_file:
  assumes "isAuthorized (client_at self w)" and "disk_bytes name w = F" and "F \<noteq> []" and "length F < 2 ^ 50"
    and "ce_readable env name"
  shows "\<exists>fileId w1 w'. uploadFile env name self w = Inr (fileId, w1) \<and> accept_parts env self (part_count F) w1 = Inr w' \<and>
    map fst (requests_of (w_log w')) = map fst (requests_of (w_log w)) @
      map (part_request F (10485760 < length F) fileId) [0..<part_count F] \<and>
    concat (map (\<lambda>k. file_part k F) [0..<part_count F]) = F \<and>
    last (w_log w') = (self, FileUploaded fileId [(''_'', VInt (if 10485760 < length F then InputFileBig else InputFile)),
      (''id'', VLong fileId), (''parts'', VInt (of_nat (part_count F))), (''name'', VStr (qs_fileName name))])"
  using uploadFile_run [OF assms] all_parts [of F] by simp

theorem upload_sends_file_witness:
  "\<exists>fileId w1 w'. uploadFile sample_clenv [97] None (sample_world (\<lambda>_. Some [1, 2, 3])) = Inr (fileId, w1) \<and>
     accept_parts sample_clenv None (part_count [1, 2, 3]) w1 = Inr w' \<and>
     map fst (requests_of (w_log w')) = map (part_request [1, 2, 3] False fileId) [0..<part_count [1, 2, 3]]"
  using upload_sends_file [of None "sample_world (\<lambda>_. Some [1, 2, 3])" "[97]" "[1, 2, 3]" sample_clenv]
  by (auto simp: sample_clenv_def) (auto simp: sample_world_def)

text \<open>C23: a download from a server that answers every part has the file's bytes on disk at its end,
  reports it, and forgets the transfer; when the size is a multiple of 512 KiB, it stays the current one.\<close>

theorem download_stores_file:
  assumes "isAuthorized (client_at self w)" and "cl_main (client_at self w)" and "cl_downloads (client_at self w) = []"
    and "cl_currentDownloading (client_at self w) = 0"
    and "file_location inputFile fileSize dcId = (loc, of_nat (length F), dc)"
    and "dc = 0 \<or> tp_currentDc (cl_transport (client_at self w)) = dc"
    and "qv_toLongLong (obj_get loc ''id'') \<noteq> 0 \<or> qv_toLongLong (obj_get loc ''photo_id'') \<noteq> 0"
    and "ce_writable env name" and "te_hash_order (ce_tp env) [fileId] = [fileId]" and "fileId \<noteq> 0"
    and "F \<noteq> []" and "length F < 2 ^ 50"
  shows "\<exists>w1 w'. downloadFile env name inputFile fileSize dcId fileId self w = (fileId, w1) \<and>
    serve_parts env F self (part_count F) 0 w1 = Inr w' \<and> disk_bytes name w' = F \<and>
    map_of (cl_downloads (client_at self w')) fileId = None \<and> (\<exists>s. (s, FileDownloaded fileId name) \<in> set (w_log w')) \<and>
    (length F mod FILE_PART_SIZE = 0 \<longrightarrow> cl_currentDownloading (client_at self w') = fileId)"
proof -
  obtain w1 where d: "downloadFile env name inputFile fileSize dcId fileId self w = (fileId, w1)"
    "downloading F 0 fileId name loc (last_request w1) self w1"
    using downloadFile_starts [OF refl assms] by blast
  have "0 < part_count F" by (simp add: part_count_def)
  from download_run [OF d(2) assms(11,12) this] show ?thesis using d(1) by auto
qed

theorem download_stores_file_witness:
  "\<exists>w1 w'. downloadFile sample_clenv [97] sample_location 3 0 7 None (sample_world (\<lambda>_. None)) = (7, w1) \<and>
     serve_parts sample_clenv [1, 2, 3] None (part_count [1, 2, 3]) 0 w1 = Inr w' \<and> disk_bytes [97] w' = [1, 2, 3]"
  using download_stores_file [of None "sample_world (\<lambda>_. None)" sample_location 3 0 sample_location "[1, 2, 3]" 0 sample_clenv "[97]" 7]
  by (auto simp: sample_clenv_def sample_env_def)



text \<open>C25: when the file of an upload has become shorter than the part to read, sending the next part
  never returns: \<open>readFully\<close> waits for ever at the end of the file.\<close>

theorem truncated_upload_hangs:
  assumes "isAuthorized (client_at self w)" and "map_of (cl_uploads (client_at self w)) fileId = Some ctx"
    and "fc_bytesLeft ctx = of_nat r" and "0 < r" and "r < 2 ^ 50"
    and "length (disk_bytes (fc_fileName ctx) w) < fc_pos ctx + min r FILE_PART_SIZE"
  shows "uploadNextFilePart env fileId self w = Inl FaultHang"
  by (rule truncated_upload [OF assms])

theorem truncated_upload_hangs_witness:
  "uploadNextFilePart sample_clenv 7 None
     ((sample_world (\<lambda>_. Some [1]))\<lparr>w_root := sample_client\<lparr>cl_uploads := [(7, (ctx_new 7 [97] 3 [])\<lparr>fc_open := True\<rparr>)]\<rparr>\<rparr>) = Inl FaultHang"
  by (rule truncated_upload_hangs [where ctx = "(ctx_new 7 [97] 3 [])\<lparr>fc_open := True\<rparr>" and r = 3])
    (simp_all add: client_at_def ctx_new_def isAuthorized_def sample_client_def FILE_PART_SIZE_def disk_bytes_def sample_world_def)

text \<open>C26: the answer to a part that was sent again under a new id, after a wrong salt, is recognised
  under that id: it is stored and the next part is asked for.\<close>

theorem renamed_part_continues:
  assumes "downloading F n fileId name loc oldMsg self w" and "F \<noteq> []" and "length F < 2 ^ 50" and "Suc n < part_count F"
  shows "\<exists>mid' w'. handleDownloadingFile env (part_answer (file_part n F)) newMsg self (cl_handleMessageChanged oldMsg newMsg self w) = Inr w' \<and>
    downloading F (Suc n) fileId name loc mid' self w'"
proof -
  have r: "obj_get (part_answer (file_part n F)) ''bytes'' = VBytes (file_part n F)" by (simp add: part_answer_def)
  show ?thesis using download_continues [OF renamed_part_awaited [OF assms(1)] assms(2-4) r] by blast
qed

theorem renamed_part_continues_witness:
  "\<exists>mid' w'. handleDownloadingFile sample_clenv (part_answer (file_part 0 (replicate 524289 1))) 6 None (cl_handleMessageChanged 4 6 None
      ((sample_world (\<lambda>_. Some []))\<lparr>w_root := sample_client\<lparr>cl_filePackets := [(4, 7)], cl_currentDownloading := 7,
        cl_downloads := [(7, (ctx_new 7 [97] 524289 [])\<lparr>fc_open := True, fc_queue := [4], fc_currentPart := 1\<rparr>)]\<rparr>\<rparr>)) = Inr w' \<and>
     downloading (replicate 524289 1) 1 7 [97] [] mid' None w'"
proof -
  have "downloading (replicate 524289 1) 0 7 [97] [] 4 None
      ((sample_world (\<lambda>_. Some []))\<lparr>w_root := sample_client\<lparr>cl_filePackets := [(4, 7)], cl_currentDownloading := 7,
        cl_downloads := [(7, (ctx_new 7 [97] 524289 [])\<lparr>fc_open := True, fc_queue := [4], fc_currentPart := 1\<rparr>)]\<rparr>\<rparr>)"
    by (simp add: downloading_def client_at_def ctx_new_def isAuthorized_def sample_client_def disk_bytes_def sample_world_def download_at_def)
  from renamed_part_continues [OF this, of sample_clenv 6] show ?thesis
    by (simp add: part_count_def FILE_PART_SIZE_def)
qed

section \<open>The password check\<close>

text \<open>C27: stale parameters are asked for once more and proved with again; when the second proof is
  refused for the same reason the flow ends, with the password forgotten: four requests in all.\<close>

theorem stale_parameters_retried_once:
  fixes self w env password ans ans' i a p i' a' p'
  assumes "cl_srpWorker (client_at self w) = None" and "to_utf8 (te_qt (ce_tp env)) password \<noteq> []"
    and "can_prove env ans" and "can_prove env ans'"
  defines "v1 \<equiv> authCheckPasswordSRP env password self w"
  defines "v2 \<equiv> pw_attempt env ans (i, a, p) self v1"
  defines "v3 \<equiv> snd (pw_stale env self v2)"
  defines "v4 \<equiv> pw_attempt env ans' (i', a', p') self v3"
  defines "v5 \<equiv> snd (pw_stale env self v4)"
  assumes "cl_passwordRequestId (client_at self v1) \<noteq> 0" and "cl_checkPasswordRequestId (client_at self v2) \<noteq> 0"
    and "cl_passwordRequestId (client_at self v3) \<noteq> 0" and "cl_checkPasswordRequestId (client_at self v4) \<noteq> 0"
  shows "fst (pw_stale env self v2) \<and> \<not> fst (pw_stale env self v4) \<and> cl_pendingPassword (client_at self v5) = [] \<and>
    cl_passwordRequestId (client_at self v5) = 0 \<and>
    map fst (requests_of (w_log v5)) = map fst (requests_of (w_log w)) @
      [[(''_'', VInt AccountGetPasswordMethod)], checkPassword_request i a p,
       [(''_'', VInt AccountGetPasswordMethod)], checkPassword_request i' a' p']"
proof -
  let ?pw = "to_utf8 (te_qt (ce_tp env)) password"
  note s1 = submit_awaits [OF assms(1), where env = env and password = password, folded v1_def]
  note s2 = attempt_effect [OF s1(1) assms(2,10,3), of i a p, folded v2_def]
  note s3 = stale_retry [OF conjunct1 [OF s2] assms(2,11), of env, folded v3_def]
  note s4 = attempt_effect [OF conjunct1 [OF conjunct2 [OF s3]] assms(2,12,4), of i' a' p', folded v4_def]
  note s5 = stale_again [OF conjunct1 [OF s4] assms(13), of env, folded v5_def]
  show ?thesis using s1(2) s2 s3 s4 s5 by auto
qed

definition sample_parameters :: tgobject where
  "sample_parameters = [(''has_password'', VBool True), (''current_algo'', VMap [(''_'', VInt 982592842)])]"

lemma sample_parameters_ok: "can_prove env sample_parameters"
  by (simp add: can_prove_def sample_parameters_def PasswordKdfAlgoSHA256SHA256PBKDF2HMACSHA512iter100000SHA256ModPow_def)

text \<open>Without an authorization key and with the clock standing still, the ids of the requests can be computed.\<close>

definition id_after :: "nat \<Rightarrow> client \<Rightarrow> bool" where
  "id_after k c \<longleftrightarrow> tp_authKey (cl_transport c) = [] \<and> tp_clock (cl_transport c) = 1700000000 \<and> tp_timeOffset (cl_transport c) = 0 \<and>
     tp_lastMessageId (cl_transport c) = (if k = 0 then 0 else 7301444403200000000 + 4 * of_nat (k - 1))"

lemma next_id:
  assumes "id_after k c" and "k < 4"
  shows "fst (getNewMessageId (cl_transport c)) \<noteq> 0 \<and> id_after (Suc k) (c\<lparr>cl_transport := snd (getNewMessageId (cl_transport c))\<rparr>)"
proof -
  from assms(2) have "k \<in> {0, 1, 2, 3}" by auto
  then show ?thesis using assms(1)
    by (elim insertE emptyE) (simp_all add: id_after_def getNewMessageId_def Let_def word_sle_eq)
qed

lemma id_after_send:
  assumes "id_after k (client_at self w)" and "k < 4" and "tlSerialize ascii_env W (VMap i) \<noteq> []"
  shows "fst (sendObject sample_clenv W i self w) \<noteq> 0" "id_after (Suc k) (client_at self (snd (sendObject sample_clenv W i self w)))"
  using next_id [OF assms(1,2)] assms(1,3)
  by (simp_all add: sendObject_def sendMTObject_def sendMTMessage_def sendPlainMessage_def Let_def case_prod_unfold sample_clenv_def
      sample_env_def id_after_def sendIntermediate_def sk_write_def tp_emit_def)

lemma id_after_other [simp]:
  "id_after k (c\<lparr>cl_pendingPassword := x1, cl_srpRetried := x2\<rparr>) = id_after k c"
  "id_after k (c\<lparr>cl_passwordRequestId := x3\<rparr>) = id_after k c" "id_after k (c\<lparr>cl_srpWorker := x4\<rparr>) = id_after k c"
  "id_after k (c\<lparr>cl_passwordRequestId := x3, cl_srpWorker := x4\<rparr>) = id_after k c"
  "id_after k (c\<lparr>cl_checkPasswordRequestId := x3, cl_srpRetried := x2\<rparr>) = id_after k c"
  "id_after k (c\<lparr>cl_checkPasswordRequestId := x3, cl_transport := doNotReplay x3 (cl_transport c)\<rparr>) = id_after k c"
  by (simp_all add: id_after_def doNotReplay_def)

lemma le_encode_4_written: "le_encode 4 v \<noteq> []"
  by (metis length_le_encode list.size(3) zero_neq_numeral)

definition written :: "tgstream \<Rightarrow> bool" where
  "written s \<longleftrightarrow> 0 < spos s \<and> sbuf s \<noteq> []"

lemma written_raw: "written s \<Longrightarrow> written (writeRawBytes s b)"
  by (cases "sbuf s") (auto simp: written_def writeRawBytes_def)

lemma written_bytes: "written s \<Longrightarrow> written (writeByteArray s i)"
  by (simp add: writeByteArray_def writeUInt8_def write_pad_def written_raw Let_def)

lemma written_start: "written (writeInt32 (mk_stream q []) i)"
  by (simp add: written_def writeInt32_def writeRawBytes_def mk_stream_def le_encode_4_written)

lemma password_requests_written:
  "tlSerialize ascii_env writeTLMethodAccountGetPassword (VMap [(''_'', VInt AccountGetPasswordMethod)]) \<noteq> []"
  "tlSerialize ascii_env writeTLMethodAuthCheckPassword (VMap (checkPassword_request 5 [1] [2])) \<noteq> []"
proof -
  have "written (writeTLMethodAccountGetPassword (mk_stream ascii_env []) (VMap [(''_'', VInt AccountGetPasswordMethod)]))"
    "written (writeTLMethodAuthCheckPassword (mk_stream ascii_env []) (VMap (checkPassword_request 5 [1] [2])))"
    by (simp_all add: writeTLMethodAccountGetPassword_def writeTLMethodAuthCheckPassword_def write_fobject_def wf_def
      checkPassword_request_def writeTLInputCheckPasswordSRP_def AccountGetPasswordMethod_def AuthCheckPasswordMethod_def
      InputCheckPasswordSRP_def written_start written_bytes)
      (simp_all add: written_start written_bytes written_raw writeInt64_def writeInt32_def [of "writeInt32 _ _"])
  then show "tlSerialize ascii_env writeTLMethodAccountGetPassword (VMap [(''_'', VInt AccountGetPasswordMethod)]) \<noteq> []"
    "tlSerialize ascii_env writeTLMethodAuthCheckPassword (VMap (checkPassword_request 5 [1] [2])) \<noteq> []"
    by (simp_all add: tlSerialize_def toByteArray_def written_def)
qed

lemma sample_submit:
  assumes "id_after k (client_at self w)" and "k < 4" and "cl_srpWorker (client_at self w) = None"
  shows "cl_passwordRequestId (client_at self (authCheckPasswordSRP sample_clenv pw self w)) \<noteq> 0 \<and>
    id_after (Suc k) (client_at self (authCheckPasswordSRP sample_clenv pw self w))"
  using assms id_after_send [OF _ assms(2) password_requests_written(1), of self
      "put_client self ((client_at self w)\<lparr>cl_pendingPassword := to_utf8 (te_qt (ce_tp sample_clenv)) pw, cl_srpRetried := False\<rparr>) w"]
  by (simp add: authCheckPasswordSRP_def accountGetPassword_def Let_def case_prod_unfold)

lemma sample_attempt:
  assumes "id_after k (client_at self w)" and "k < 4" and "cl_passwordRequestId (client_at self w) \<noteq> 0"
    and "cl_pendingPassword (client_at self w) \<noteq> []"
  shows "cl_checkPasswordRequestId (client_at self (pw_attempt sample_clenv sample_parameters (5, [1], [2]) self w)) \<noteq> 0 \<and>
    id_after (Suc k) (client_at self (pw_attempt sample_clenv sample_parameters (5, [1], [2]) self w))"
  using assms(1) id_after_send [OF _ assms(2) password_requests_written(2), of self
      "put_client self ((client_at self w)\<lparr>cl_passwordRequestId := 0, cl_srpWorker := None\<rparr>) w"]
  by (simp add: pw_attempt_def answer_starts_worker [OF assms(3,4) sample_parameters_ok] handleSrpProved_def authCheckPassword_def
      Let_def case_prod_unfold)

lemma sample_stale:
  assumes "id_after k (client_at self w)" and "k < 4" and "cl_checkPasswordRequestId (client_at self w) \<noteq> 0"
    and "awaiting_parameters pw False self w" and "pw \<noteq> []"
  shows "cl_passwordRequestId (client_at self (snd (pw_stale sample_clenv self w))) \<noteq> 0 \<and>
    id_after (Suc k) (client_at self (snd (pw_stale sample_clenv self w)))"
  using assms id_after_send [OF _ assms(2) password_requests_written(1), of self
      "put_client self ((client_at self w)\<lparr>cl_checkPasswordRequestId := 0, cl_srpRetried := True\<rparr>) w"]
  by (simp add: pw_stale_def handlePasswordRpcError_def accountGetPassword_def awaiting_parameters_def Let_def case_prod_unfold)


theorem stale_parameters_retried_once_witness:
  "map fst (requests_of (w_log (snd (pw_stale sample_clenv None
     (pw_attempt sample_clenv sample_parameters (5, [1], [2]) None (snd (pw_stale sample_clenv None
       (pw_attempt sample_clenv sample_parameters (5, [1], [2]) None (authCheckPasswordSRP sample_clenv [112] None (sample_world (\<lambda>_. None)))))))))))
   = [[(''_'', VInt AccountGetPasswordMethod)], checkPassword_request 5 [1] [2],
      [(''_'', VInt AccountGetPasswordMethod)], checkPassword_request 5 [1] [2]]"
proof -
  let ?w0 = "sample_world (\<lambda>_. None)"
  have 0: "id_after 0 (client_at None ?w0)" "cl_srpWorker (client_at None ?w0) = None"
    by (simp_all add: id_after_def sample_client_def client_new_def transport_new_def loadSession_def get_value_def Let_def)
  define u1 where "u1 = authCheckPasswordSRP sample_clenv [112] None ?w0"
  define u2 where "u2 = pw_attempt sample_clenv sample_parameters (5, [1], [2]) None u1"
  define u3 where "u3 = snd (pw_stale sample_clenv None u2)"
  define u4 where "u4 = pw_attempt sample_clenv sample_parameters (5, [1], [2]) None u3"
  have pw: "to_utf8 (te_qt (ce_tp sample_clenv)) [112] = [112]" by (simp add: sample_clenv_def sample_env_def ascii_env_def)
  have a1: "awaiting_parameters [112] False None u1"
    using submit_awaits(1) [OF 0(2), of sample_clenv "[112]"] by (simp add: u1_def pw)
  have 1: "cl_passwordRequestId (client_at None u1) \<noteq> 0" "id_after 1 (client_at None u1)"
    using sample_submit [OF 0(1) _ 0(2), of "[112]"] by (simp_all add: u1_def)
  have 2: "cl_checkPasswordRequestId (client_at None u2) \<noteq> 0" "id_after 2 (client_at None u2)"
    using sample_attempt [OF 1(2) _ 1(1)] a1 by (simp_all add: u2_def awaiting_parameters_def numeral_2_eq_2)
  have a2: "awaiting_parameters [112] False None u2"
    using attempt_effect [OF a1 _ 1(1) sample_parameters_ok] by (simp add: u2_def)
  have 3: "cl_passwordRequestId (client_at None u3) \<noteq> 0" "id_after 3 (client_at None u3)"
    using sample_stale [OF 2(2) _ 2(1) a2] by (simp_all add: u3_def numeral_3_eq_3 numeral_2_eq_2)
  have a3: "awaiting_parameters [112] True None u3" using stale_retry [OF a2 _ 2(1)] by (simp add: u3_def)
  have 4: "cl_checkPasswordRequestId (client_at None u4) \<noteq> 0"
    using sample_attempt [OF 3(2) _ 3(1)] a3 by (simp add: u4_def awaiting_parameters_def)
  have "map fst (requests_of (w_log ?w0)) = []" by (simp add: sample_world_def)
  then show ?thesis
    using stale_parameters_retried_once [OF 0(2) _ sample_parameters_ok sample_parameters_ok,
        where password = "[112]" and i = 5 and a = "[1]" and p = "[2]" and i' = 5 and a' = "[1]" and p' = "[2]"]
      1(1) 2(1) 3(1) 4 by (simp add: pw u1_def u2_def u3_def u4_def)
qed

text \<open>C28: the request for the parameters is not renamed when it is sent again under a new id: the
  answer, which would have started the proof, is ignored, and the password stays in memory.\<close>

theorem renamed_password_request_lost:
  assumes "cl_passwordRequestId (client_at self w) = oldMsg" and "oldMsg \<noteq> 0" and "newMsg \<noteq> oldMsg"
    and "cl_pendingPassword (client_at self w) \<noteq> []" and "can_prove env answer"
  defines "w' \<equiv> cl_handleMessageChanged oldMsg newMsg self w"
  shows "cl_srpWorker (client_at self (handleAccountPassword env answer oldMsg self w)) \<noteq> None \<and>
    handleAccountPassword env answer newMsg self w' = w' \<and> cl_pendingPassword (client_at self w') \<noteq> []"
  using assms(1-5) answer_starts_worker [of self w env answer]
    other_answer_ignored [of newMsg self w' env answer]
  by (auto simp: w'_def rename_keeps_password_ids)

theorem renamed_password_request_lost_witness:
  "handleAccountPassword sample_clenv sample_parameters 6 None (cl_handleMessageChanged 4 6 None
     ((sample_world (\<lambda>_. None))\<lparr>w_root := sample_client\<lparr>cl_passwordRequestId := 4, cl_pendingPassword := [112]\<rparr>\<rparr>)) =
   cl_handleMessageChanged 4 6 None
     ((sample_world (\<lambda>_. None))\<lparr>w_root := sample_client\<lparr>cl_passwordRequestId := 4, cl_pendingPassword := [112]\<rparr>\<rparr>)"
  using renamed_password_request_lost [where self = None and oldMsg = 4 and newMsg = 6 and env = sample_clenv and answer = sample_parameters and
      w = "(sample_world (\<lambda>_. None))\<lparr>w_root := sample_client\<lparr>cl_passwordRequestId := 4, cl_pendingPassword := [112]\<rparr>\<rparr>"]
  by (simp add: client_at_def sample_parameters_ok)

section \<open>The local cache\<close>

instance variant :: countable by countable_datatype

definition sample_sql :: sqlenv where
  "sample_sql = \<lparr>sq_driver = True, sq_opens = (\<lambda>_. True), sq_meta_ok = True, sq_tables_ok = True,
     sq_pack = (\<lambda>v. replicate (to_nat v) 0), sq_unpack = (\<lambda>b. from_nat (length b))\<rparr>"

lemma sample_sql_simps [simp]: "sq_driver sample_sql" "sq_opens sample_sql p" "sq_meta_ok sample_sql" "sq_tables_ok sample_sql"
  by (simp_all add: sample_sql_def)

lemma sample_codec: "codec_ok sample_sql"
  by (simp add: codec_ok_def sample_sql_def)

definition sample_store :: store where
  "sample_store = snd (store_open sample_sql (qs ''cache'') (qs ''c'') (store_new []))"

lemma sample_store_open: "st_open sample_store" "st_path sample_store = qs ''cache''"
  by (simp_all add: sample_store_def store_open_def store_close_def store_new_def createSchema_def Let_def committed_def
      sample_sql_def empty_db_def schema_stale_def meta_value_def)

lemma sample_store_reached: "(store_step sample_sql)\<^sup>*\<^sup>* (store_new []) sample_store"
  unfolding sample_store_def by (rule r_into_rtranclp) (rule ss_open)

definition sample_user :: variant where
  "sample_user = VMap [(''_'', VInt User), (''id'', VLong 5), (''first_name'', VStr (qs ''Ann''))]"

definition sample_message :: "i32 \<Rightarrow> tgobject \<Rightarrow> variant" where
  "sample_message n peer = VMap [(''_'', VInt 1), (''id'', VInt n), (''peer_id'', VMap peer)]"

definition user_five :: tgobject where "user_five = [(''_'', VInt PeerUser), (''user_id'', VLong 5)]"
definition chat_five :: tgobject where "chat_five = [(''_'', VInt PeerChat), (''chat_id'', VLong 5)]"

lemma sample_stored:
  "n \<noteq> 0 \<Longrightarrow> stored_message [] (qv_toMap (sample_message n user_five)) = Some ((5, User), n)"
  "n \<noteq> 0 \<Longrightarrow> stored_message [] (qv_toMap (sample_message n chat_five)) = Some ((5, Chat), n)"
  by (simp_all add: stored_message_def message_peer_def row_peer_def sample_message_def user_five_def chat_five_def Let_def
      objEMPTY_def peer_ids)

text \<open>C29: the cache answers a look-up of a peer with the record last put for its identifier and
  kind, an object without an identifier or a stub put nothing, and every other look-up is unchanged.\<close>

theorem peers_cached:
  assumes "codec_ok env" and "st_open s"
  shows "known_peers env (putPeers env users chats s) =
    fold (learn_peer Chat) chats (fold (learn_peer User) users (known_peers env s))"
  by (rule putPeers_learn [OF assms(2,1)])

theorem peers_cached_witness:
  "store_peer sample_sql 5 User (putPeers sample_sql [sample_user] [] sample_store) = qv_toMap sample_user"
  using peers_cached [OF sample_codec sample_store_open(1), of "[sample_user]" "[]", THEN fun_cong, of "(5, User)"]
  by (simp add: known_peers_def learn_peer_def sample_user_def is_stub_def Let_def peer_ids)



text \<open>C31: pages of a conversation, each asked for with the id of the oldest message of the page before, put
  together are what one request for as many messages returns: none is missed and none comes twice.\<close>

theorem history_pages_join:
  assumes "codec_ok env" and "(store_step env)\<^sup>*\<^sup>* (store_new []) s" and "st_open s"
    and "store_messages env i k 0 n s \<noteq> []" and "0 \<le> sint n" "0 \<le> sint m" "sint t = sint n + sint m"
  shows "store_messages env i k 0 t s = store_messages env i k 0 n s @
    store_messages env i k (qv_toInt (obj_get (qv_toMap (last (store_messages env i k 0 n s))) ''id'')) m s"
proof -
  have "store_inv env s" using cache.reached [OF _ cache_run [OF assms(2)]] assms(1) by (simp add: cache_start_def)
  then show ?thesis using assms by (intro pages_join)
qed

definition paged_store :: store where
  "paged_store = putMessages sample_sql [] (map (\<lambda>n. sample_message n user_five) [7, 8]) sample_store"

lemma paged_store_reached: "(store_step sample_sql)\<^sup>*\<^sup>* (store_new []) paged_store" "st_open paged_store"
  using rtranclp.rtrancl_into_rtrancl [OF sample_store_reached, of paged_store] sample_store_open
  by (simp_all add: paged_store_def ss_messages putMessages_frame)

lemma sample_store_db: "db_messages (st_db sample_store) = []" "st_inBatch sample_store = False"
  by (simp_all add: sample_store_def store_open_def store_close_def store_new_def createSchema_def Let_def committed_def
      sample_sql_def empty_db_def schema_stale_def meta_value_def)

lemma paged_first: "store_messages sample_sql 5 User 0 1 paged_store = [sample_message 8 user_five]"
  using sample_stored(1) [of 7] sample_stored(1) [of 8]
  by (simp add: paged_store_def store_messages_def message_rows_def putMessages_def sample_store_open put_message_step
      beginBatch_def sample_store_db store_trim_def trim_messages_def Let_def newest_rows_def limit_rows_def
      MaxMessagesPerPeer_def insert_message_def insert_or_replace_def message_key_def sample_sql_def sample_message_def)

theorem history_pages_join_witness:
  "store_messages sample_sql 5 User 0 2 paged_store =
     store_messages sample_sql 5 User 0 1 paged_store @ store_messages sample_sql 5 User 8 1 paged_store"
  using history_pages_join [OF sample_codec paged_store_reached, of 5 User 1 1 2]
  by (simp add: paged_first sample_message_def)

text \<open>C32: an answer with a list of dialogs is on disk when the client has handled it: killed at that point and
  started again, the cache reads as it did, and holds the peers of the answer.\<close>

theorem answer_survives_kill:
  assumes "codec_ok sql" and "(store_step sql)\<^sup>*\<^sup>* (store_new []) (ap_store a)" and "st_open (ap_store a)"
    and "sq_driver sql" "sq_opens sql (st_path (ap_store a))" "sq_meta_ok sql" "sq_tables_ok sql"
    and "qv_toInt (fst (readInt32 VNull (mk_stream (te_qt (ce_tp env)) data))) = MessagesDialogs"
    and "cl_handleObject env sql data mid self a = Inr a'"
  shows "known_peers sql (reopened_store sql conn (ap_store a')) =
      fold (learn_peer Chat) (qv_toList (obj_get (qv_toMap (tlDeserialize (te_qt (ce_tp env)) readTLMessagesDialogs data)) ''chats''))
        (fold (learn_peer User) (qv_toList (obj_get (qv_toMap (tlDeserialize (te_qt (ce_tp env)) readTLMessagesDialogs data)) ''users'')) (known_peers sql (ap_store a))) \<and>
    store_dialogs sql folderId lim (reopened_store sql conn (ap_store a')) = store_dialogs sql folderId lim (ap_store a') \<and>
    store_messages sql i k fromId lim (reopened_store sql conn (ap_store a')) = store_messages sql i k fromId lim (ap_store a')"
proof -
  have inv: "store_inv sql (ap_store a)" using cache.reached [OF _ cache_run [OF assms(2)]] assms(1) by (simp add: cache_start_def)
  have s: "ap_store a' = cacheResponse sql (qv_toMap (tlDeserialize (te_qt (ce_tp env)) readTLMessagesDialogs data)) (ap_store a)"
    using assms(9) dialogs_answer [OF assms(8), of sql mid self a] by (auto simp: app_emit_def)
  have c: "store_inv sql (ap_store a')" "st_open (ap_store a')" "\<not> st_inBatch (ap_store a')" "st_path (ap_store a') = st_path (ap_store a)"
    using inv_cacheResponse [OF assms(1) inv] cacheResponse_flushed [OF assms(1) inv assms(3)] assms(3)
    by (simp_all add: s cacheResponse_frame)
  note r = reopened_reads [OF c(1-3) assms(4), unfolded c(4), OF assms(5-7)]
  show ?thesis
    using r cacheResponse_peers [OF assms(1,3)] by (simp add: s)
qed

definition sample_app :: app where
  "sample_app = \<lparr>ap_world = sample_world (\<lambda>_. None), ap_store = sample_store\<rparr>"

text \<open>A list with no dialogs that mentions a user, as the server sends it.\<close>

definition answered_user :: variant where
  "answered_user = VMap [(''_'', VInt User), (''flags'', VUInt 2), (''flags2'', VUInt 0), (''id'', VLong 5), (''first_name'', VStr (qs ''Ann''))]"

definition sample_answer :: variant where
  "sample_answer = VMap [(''_'', VInt MessagesDialogs), (''dialogs'', VList []), (''messages'', VList []), (''chats'', VList []),
     (''users'', VList [answered_user])]"

abbreviation answer_bytes :: bytes where
  "answer_bytes \<equiv> tlSerialize (te_qt (ce_tp sample_clenv)) writeTLMessagesDialogs sample_answer"

lemma answered_user_ok: "ok_fobject TL_User_table (te_qt (ce_tp sample_clenv)) answered_user"
  by (simp add: ok_fobject_def TL_User_table_def answered_user_def User_def has_bit_def flag_word_def is_defs is_short_text_def
      sample_clenv_def sample_env_def ascii_env_def qs_def)

lemma sample_answer_ok: "ok_fobject TL_MessagesDialogs_table (te_qt (ce_tp sample_clenv)) sample_answer"
  using answered_user_ok by (simp add: ok_fobject_def TL_MessagesDialogs_table_def sample_answer_def MessagesDialogs_def ok_vector_def)

lemma sample_answer_id:
  "qv_toInt (fst (readInt32 VNull (mk_stream (te_qt (ce_tp sample_clenv)) answer_bytes))) = MessagesDialogs"
  unfolding tl_MessagesDialogs.serialize [OF sample_answer_ok]
  by (simp add: enc_fobject_def TL_MessagesDialogs_table_def sample_answer_def MessagesDialogs_def objID_def readInt32_def
      read_word_encoded)

theorem answer_survives_kill_witness:
  "\<exists>a'. cl_handleObject sample_clenv sample_sql answer_bytes 9 None sample_app = Inr a' \<and>
     store_peer sample_sql 5 User (reopened_store sample_sql [] (ap_store a')) = qv_toMap answered_user"
proof -
  obtain a' where a: "cl_handleObject sample_clenv sample_sql answer_bytes 9 None sample_app = Inr a'"
    using dialogs_answer [OF sample_answer_id] by blast
  have "known_peers sample_sql (reopened_store sample_sql [] (ap_store a')) = learn_peer User answered_user (known_peers sample_sql sample_store)"
    using answer_survives_kill [OF sample_codec _ _ _ _ _ _ sample_answer_id a, of "[]"] sample_store_reached sample_store_open
    by (simp add: sample_app_def sample_sql_simps tl_MessagesDialogs.deserialize_serialize [OF sample_answer_ok])
      (simp add: sample_answer_def)
  from this [THEN fun_cong, of "(5, User)"] a show ?thesis
    by (auto simp: known_peers_def learn_peer_def answered_user_def is_stub_def Let_def peer_ids)
qed

text \<open>C8: updates, differences, dialogs and messages reach the part that handles them: whatever well-formed object the
  server writes, the client looks up its constructor, decodes the same object and hands it on; no constructor of these types is missed.\<close>

theorem answers_reach_handlers:
  assumes "ok_fobject TL_Updates_table (te_qt (ce_tp env)) u" and "ok_fobject TL_UpdatesDifference_table (te_qt (ce_tp env)) d"
    and "ok_fobject TL_UpdatesChannelDifference_table (te_qt (ce_tp env)) c"
    and "ok_fobject TL_MessagesDialogs_table (te_qt (ce_tp env)) l" and "ok_fobject TL_MessagesMessages_table (te_qt (ce_tp env)) h"
  shows "answered env sql writeTLUpdates u mid self a =
      Inr (snd (with_updates sql (\<lambda>m. (True, processUpdates (qv_toMap u) mid m)) self a)) \<and>
    answered env sql writeTLUpdatesDifference d mid self a =
      Inr (unless_handled (nobodys env writeTLUpdatesDifference d mid) self (with_updates sql (handleDifference (qv_toMap d) mid) self a)) \<and>
    answered env sql writeTLUpdatesChannelDifference c mid self a =
      Inr (unless_handled (nobodys env writeTLUpdatesChannelDifference c mid) self
        (with_updates sql (handleChannelDifference (qv_toMap c) mid) self a)) \<and>
    answered env sql writeTLMessagesDialogs l mid self a =
      Inr (app_emit self (MessagesDialogsResponse (qv_toMap l) mid) (a\<lparr>ap_store := cacheResponse sql (qv_toMap l) (ap_store a)\<rparr>)) \<and>
    answered env sql writeTLMessagesMessages h mid self a =
      Inr (app_emit self (MessagesMessagesResponse (qv_toMap h) mid) (a\<lparr>ap_store := cacheResponse sql (qv_toMap h) (ap_store a)\<rparr>))"
  by (simp only: updates_handled [OF assms(1)] difference_handled [OF assms(2)] channel_difference_handled [OF assms(3)]
      dialogs_handled [OF assms(4)] messages_handled [OF assms(5)] simp_thms)

definition too_long :: variant where "too_long = VMap [(''_'', VInt (- 484987010))]"

definition nothing_new :: variant where "nothing_new = VMap [(''_'', VInt 1567990072), (''date'', VInt 1), (''seq'', VInt 2)]"

definition channel_up_to_date :: variant where
  "channel_up_to_date = VMap [(''_'', VInt 1041346555), (''flags'', VUInt 2), (''pts'', VInt 3), (''timeout'', VInt 30)]"

definition history_unchanged :: variant where "history_unchanged = VMap [(''_'', VInt 1951620897), (''count'', VInt 4)]"

lemma small_answers_ok:
  "ok_fobject TL_Updates_table q too_long" "ok_fobject TL_UpdatesDifference_table q nothing_new"
  "ok_fobject TL_UpdatesChannelDifference_table q channel_up_to_date" "ok_fobject TL_MessagesMessages_table q history_unchanged"
  by (simp_all add: ok_fobject_def TL_Updates_table_def TL_UpdatesDifference_table_def TL_UpdatesChannelDifference_table_def
      TL_MessagesMessages_table_def too_long_def nothing_new_def channel_up_to_date_def history_unchanged_def is_defs has_bit_def
      flag_word_def)

theorem answers_reach_handlers_witness:
  "answered sample_clenv sample_sql writeTLUpdates too_long 9 None sample_app =
     Inr (snd (with_updates sample_sql (\<lambda>m. (True, processUpdates (qv_toMap too_long) 9 m)) None sample_app)) \<and>
   answered sample_clenv sample_sql writeTLMessagesDialogs sample_answer 9 None sample_app =
     Inr (app_emit None (MessagesDialogsResponse (qv_toMap sample_answer) 9)
       (sample_app\<lparr>ap_store := cacheResponse sample_sql (qv_toMap sample_answer) (ap_store sample_app)\<rparr>))"
  using answers_reach_handlers [OF small_answers_ok(1-3) sample_answer_ok small_answers_ok(4)] by blast

section \<open>The lists of the interface\<close>

definition sample_uienv :: uienv where
  "sample_uienv = \<lparr>ue_sort = (\<lambda>_ vs. vs), ue_date = (\<lambda>_ _. []), ue_kilo = (\<lambda>_. []), ue_size = (\<lambda>_ _. []), ue_double = (\<lambda>_ _. []),
     ue_letter = (\<lambda>_. True), ue_upper = (\<lambda>c. c), ue_hsl = (\<lambda>_. []), ue_now = 1700000000\<rparr>"

definition sample_imgenv :: imgenv where
  "sample_imgenv = \<lparr>im_directory = (\<lambda>p. p), im_prefix = [], im_avatar = Some, im_thumbnail = Some\<rparr>"

definition sample_viewenv :: viewenv where
  "sample_viewenv = \<lparr>ve_cl = sample_clenv, ve_sql = sample_sql, ve_im = sample_imgenv, ve_ui = sample_uienv\<rparr>"

definition sample_linkenv :: linkenv where
  "sample_linkenv = \<lparr>le_parse = (\<lambda>_. None), le_print = (\<lambda>_. []), le_scheme = (\<lambda>_. False), le_downloads = (\<lambda>p. p), le_msecs = 1\<rparr>"

definition sample_desk :: desk where
  "sample_desk = \<lparr>dk_app = sample_app, dk_peers = peer_cache_new, dk_pics = avatars_new ([], [])\<rparr>"

lemma sample_desk_simps [simp]: "desk_authorized sample_desk" "dk_app sample_desk = sample_app" "ap_store sample_app = sample_store"
  "ap_world sample_app = sample_world (\<lambda>_. None)" "ve_cl sample_viewenv = sample_clenv"
  by (simp_all add: sample_desk_def desk_authorized_def app_authorized_def sample_app_def sample_viewenv_def)


definition own_message :: tgobject where
  "own_message = [(''_'', VInt 1), (''id'', VInt 7), (''out'', VBool True), (''message'', VStr (qs ''hi'')), (''date'', VInt 1699999999)]"

definition shown_messages :: messages_model where
  "shown_messages = fst (mm_historyResponse sample_viewenv [(''messages'', VList [VMap own_message])] 0 (messages_new, sample_desk))"

lemma shown_messages_reached: "(mm_step sample_viewenv le)\<^sup>*\<^sup>* messages_new shown_messages"
  unfolding shown_messages_def by (rule r_into_rtranclp) (rule mm_st_history)

lemma shown_messages_rows: "length (mm_rows shown_messages) = 1"
  by (simp add: shown_messages_def mm_historyResponse_def handleHistoryResponse_def messages_new_def Let_def split_beta)

definition user_six :: tgobject where
  "user_six = [(''_'', VInt User), (''id'', VLong 6), (''first_name'', VStr (qs ''Bob''))]"

definition two_chats :: tgobject where
  "two_chats = [(''_'', VInt MessagesDialogs), (''users'', VList [sample_user, VMap user_six]),
     (''dialogs'', VList [VMap [(''peer'', VMap user_five), (''pinned'', VBool True)],
        VMap [(''peer'', VMap [(''_'', VInt PeerUser), (''user_id'', VLong 6)])]])]"

definition shown_chats :: "bool \<Rightarrow> dialogs_model" where
  "shown_chats cached = fst (dm_response sample_viewenv folders_new two_chats 0 (dialogs_new\<lparr>dm_fromCache := cached\<rparr>, sample_desk))"



text \<open>C34: a message cut into plain and tagged pieces comes out as the pieces, each escaped, the tagged ones
  between their tags, with line breaks for the line feeds.\<close>

theorem html_tags:
  assumes "at_places (qsort entitiesSorter entities) (located 0 segs)"
    and "seg_body segs \<noteq> []" and "\<forall>e s. Tagged e s \<in> set segs \<longrightarrow> s \<noteq> []"
    and "length (rendered 0 (map seg_escaped segs)) < 2 ^ 31"
  shows "messageToHtml qsort (seg_body segs) entities =
    qs ''<html>'' @ qs_replace_unit 10 (qs ''<br />'') (rendered 0 (map seg_escaped segs)) @ qs ''</html>''"
  using assms html_of_segments [of qsort entities segs] by blast

definition bold_entity :: tgobject where
  "bold_entity = [(''_'', VInt MessageEntityBold), (''offset'', VInt 2), (''length'', VInt 1)]"

theorem html_tags_witness:
  "messageToHtml (\<lambda>_ vs. vs) (qs ''<aBc'') [VMap bold_entity] = qs ''<html>&lt;a<b>B</b>c</html>''"
  using html_tags [of "\<lambda>_ vs. vs" "[VMap bold_entity]" "[segment.Plain (qs ''<a''), Tagged bold_entity (qs ''B''), segment.Plain (qs ''c'')]"]
  by (simp add: at_places_def placed_def bold_entity_def ent_offset_def ent_length_def getTags_def entity_ids qs_replace_unit_def esc_def qs_def escape_unit_def)

text \<open>C35: no message the list ever shows can be edited, deleted or deleted for everyone as far as the predicates can see,
  the user's own included: they read the field \<open>id\<close>, and the rows have \<open>messageId\<close>. So editing is never offered.\<close>

theorem edit_never_offered:
  assumes "(mm_step env le)\<^sup>*\<^sup>* messages_new m"
  shows "\<not> selectedIsEditable ui m \<and>
    (\<forall>row \<in> set (mm_rows m). \<not> canEditMessage row now \<and> \<not> canDeleteMessage row \<and> \<not> canDeleteMessageForEveryone row now)"
  using edit_unavailable(1) [OF assms] messages_idless [OF assms] idless_not_editable by (simp add: list_all_iff)

theorem edit_never_offered_witness:
  "\<exists>row. mm_rows shown_messages = [row] \<and> \<not> canEditMessage row 1700000000"
proof -
  obtain row where "mm_rows shown_messages = [row]" using shown_messages_rows by (auto simp: length_Suc_conv)
  then show ?thesis using edit_never_offered [OF shown_messages_reached] by simp
qed



definition message_for :: "i64 \<Rightarrow> tgobject" where
  "message_for n = [(''_'', VInt 1), (''id'', VInt 9), (''peer_id'', VMap [(''_'', VInt PeerUser), (''user_id'', VLong n)])]"


text \<open>C37: the first page that replaces the cached list forgets which rows are pinned: a message to any
  other chat then moves it above all of them.\<close>

theorem pinned_lost_after_cache:
  fixes m d env fm data messageId
  assumes "dm_fromCache m" and "dm_requestId m = messageId" and "qv_toList (obj_get data ''dialogs'') \<noteq> []"
  defines m': "m' \<equiv> fst (dm_response env fm data messageId (m, d))"
  assumes "dm_offsets m' = []" and "row_of (qv_toMap (obj_get message ''peer_id'')) (dm_rows m') = Some i" and "\<not> row_pinned (dm_rows m' ! i)"
  shows "map row_pinned (dm_rows m') = map dialog_pinned (qv_toList (obj_get data ''dialogs'')) \<and>
    obj_get (hd (dm_rows (fst (new_message env message users chats (m', d'))))) ''peer'' = obj_get (dm_rows m' ! i) ''peer''"
proof -
  note r = response_after_cache [OF assms(1-3), of env fm d, folded m']
  have "dm_inv m'" using r(1) by (simp add: dm_inv_def)
  from new_message_rows [OF this assms(5-7) refl, of env users chats d'] r show ?thesis by auto
qed

lemma created_peer: "obj_get (fst (build_row env flds messages users chats dialog d)) ''peer'' =
    VMap (find_peer users chats (qv_toMap (obj_get dialog ''peer'')) [])"
  by (simp add: build_row_def dm_createRow_def dm_handleMessage_keeps Let_def)

lemma sample_found:
  "find_peer [sample_user, VMap user_six] [] user_five [] = qv_toMap sample_user"
  "find_peer [sample_user, VMap user_six] [] [(''_'', VInt PeerUser), (''user_id'', VLong 6)] [] = user_six"
  by (simp_all add: find_peer_def user_five_def user_six_def sample_user_def peersEqual_def isUser_def isChat_def commonPeerType_def
      getPeerId_def getPeerIdVariant_def peer_ids)

lemma shown_chats_state:
  "map (\<lambda>row. obj_get row ''peer'') (dm_rows (shown_chats True)) = [sample_user, VMap user_six]"
  "map row_pinned (dm_rows (shown_chats True)) = [True, False]" "dm_offsets (shown_chats True) = []"
  using response_after_cache(2) [of "dialogs_new\<lparr>dm_fromCache := True\<rparr>" 0 two_chats]
  by (simp_all add: shown_chats_def dm_response_def dialogs_new_def two_chats_def buildRows_def Let_def split_beta created_peer sample_found
      dm_canFetchMore_def next_offsets_def dialog_pinned_def) (simp_all add: sample_user_def)

theorem pinned_lost_after_cache_witness:
  "obj_get (hd (dm_rows (fst (new_message sample_viewenv (message_for 6) [] [] (shown_chats True, sample_desk))))) ''peer'' = VMap user_six"
proof -
  obtain a b where rows: "dm_rows (shown_chats True) = [a, b]" "obj_get a ''peer'' = sample_user" "obj_get b ''peer'' = VMap user_six"
    "\<not> row_pinned b"
    using shown_chats_state(1,2) by (auto simp: map_eq_Cons_conv)
  have "row_of (qv_toMap (obj_get (message_for 6) ''peer_id'')) (dm_rows (shown_chats True)) = Some 1"
    using rows by (simp add: row_of_def upt_rec message_for_def sample_user_def user_six_def peersEqual_def isUser_def isChat_def commonPeerType_def
      getPeerId_def getPeerIdVariant_def peer_ids)
  from pinned_lost_after_cache [of "dialogs_new\<lparr>dm_fromCache := True\<rparr>" 0 two_chats sample_viewenv folders_new sample_desk "message_for 6" 1 "[]" "[]" sample_desk,
      folded shown_chats_def, OF _ _ _ shown_chats_state(3) this]
  show ?thesis using rows by (simp add: dialogs_new_def two_chats_def)
qed

text \<open>C38: when another account logs in while an avatar is being fetched, that avatar is never shown again,
  whatever happens: it stays marked as being fetched, and no request for it is ever known.\<close>

theorem avatar_never_arrives:
  assumes "p \<noteq> 0" and "p \<in> ft_pending (av_avatars v)" and "userId \<noteq> av_userId v"
    and "p \<notin> set (ft_done (av_avatars v))" and "p \<notin> set (fst (av_saved v))" and "\<forall>f. AvatarDownloaded p f \<notin> set (av_log v)"
    and "(av_step env im)\<^sup>*\<^sup>* (av_authorized userId v, a) s"
  shows "stuck p (fst s)"
  using assms(7) by (induction rule: rtranclp_induct) (auto intro: stuck_step stuck_after_login [OF assms(1-6)])

theorem avatar_never_arrives_witness:
  "stuck 7 (fst (av_fileDownloaded sample_clenv sample_imgenv 1 [97] (av_authorized 9
     ((avatars_new ([], []))\<lparr>av_avatars := \<lparr>ft_requests = [(1, 7)], ft_pending = {7}, ft_done = []\<rparr>\<rparr>), sample_app)))"
proof -
  have run: "(av_step sample_clenv sample_imgenv)\<^sup>*\<^sup>* s (av_fileDownloaded sample_clenv sample_imgenv 1 [97] s)" for s
    by (intro r_into_rtranclp av_downloaded)
  show ?thesis by (rule avatar_never_arrives [OF _ _ _ _ _ _ run]) (simp_all add: avatars_new_def)
qed

text \<open>C39: deleting the selected messages, once the request is sent, takes exactly them from the list and
  from the cache, and nothing of another chat.\<close>

theorem selection_deleted_everywhere:
  assumes "mm_client m" and "desk_authorized d" and "mm_selectedIds m \<noteq> []" and "fst (desk_ask (delete_request env revoke m) d) \<noteq> 0"
    and "st_open (ap_store (dk_app d))"
  shows "mm_rows (fst (deleteSelected env revoke (m, d))) = filter (\<lambda>row. row_id row \<notin> set (mm_selectedIds m)) (mm_rows m) \<and>
    kept_ids p (st_db (ap_store (dk_app (snd (deleteSelected env revoke (m, d)))))) =
      kept_ids p (st_db (ap_store (dk_app d))) -
        (if p = (getPeerId (mm_peer m), commonPeerType (mm_peer m)) then sint ` set (mm_selectedIds m) else {})"
  using selection_deleted [OF assms] by blast

definition deleting_desk :: desk where
  "deleting_desk = sample_desk\<lparr>dk_app := sample_app\<lparr>ap_store := paged_store\<rparr>\<rparr>"

definition selecting_messages :: messages_model where
  "selecting_messages = messages_new\<lparr>mm_client := True, mm_peer := user_five, mm_selectedIds := [8],
     mm_rows := [[(''messageId'', VInt 7)], [(''messageId'', VInt 8)]]\<rparr>"

lemma sample_id_after: "id_after 0 (client_at None (sample_world disk))"
  by (simp add: id_after_def sample_client_def client_new_def transport_new_def loadSession_def get_value_def Let_def)

lemma delete_written: "tlSerialize ascii_env writeTLMethodMessagesDeleteMessages
   (VMap [(''_'', VInt MessagesDeleteMessagesMethod), (''id'', VList [VInt 8])]) \<noteq> []"
  by code_simp

lemma sample_deletes: "fst (desk_ask (delete_request sample_viewenv False selecting_messages) deleting_desk) \<noteq> 0"
  using id_after_send(1) [OF sample_id_after _ delete_written]
  by (simp add: desk_ask_def ask_def delete_request_def selecting_messages_def messagesDeleteMessages_def split_beta user_five_def isChat_def commonPeerType_def peer_ids deleting_desk_def)

theorem selection_deleted_everywhere_witness:
  "mm_rows (fst (deleteSelected sample_viewenv False (selecting_messages, deleting_desk))) = [[(''messageId'', VInt 7)]] \<and>
   kept_ids (5, User) (st_db (ap_store (dk_app (snd (deleteSelected sample_viewenv False (selecting_messages, deleting_desk)))))) =
     kept_ids (5, User) (st_db paged_store) - {8}"
  using selection_deleted_everywhere [OF _ _ _ sample_deletes, of "(5, User)"] paged_store_reached
  by (simp add: selecting_messages_def deleting_desk_def desk_authorized_def app_authorized_def row_id_def user_five_def getPeerId_def getPeerIdVariant_def
      commonPeerType_def isChat_def isUser_def peer_ids)

text \<open>C40: fetching a file ends with a name for it: the search for a number to add to the name stops, at a
  path where there is no file.\<close>

theorem download_name_found:
  fixes d env i m
  assumes "finite {p. w_disk (ap_world (dk_app d)) p \<noteq> None}" and "inj (le_downloads le)"
  defines w: "w \<equiv> ap_world (dk_app (snd (mm_cancelDownload env i (m, d))))"
  shows "mm_downloadFile env le i (m, d) \<noteq> None \<and>
    (\<exists>n. free_index (\<lambda>n. w_disk w (target_path le name n) \<noteq> None) 0 = Some n \<and> w_disk w (target_path le name n) = None)"
proof -
  note found = free_name_found [OF cancelDownload_disk [OF assms(1)] assms(2), of env i m, folded w]
  have "mm_downloadFile env le i (m, d) \<noteq> None"
  proof -
    have f: "(free_index (\<lambda>n. \<exists>y. w_disk w (target_path le x n) = Some y) 0 = None) = False" for x using found [of x] by auto
    show ?thesis by (simp add: mm_downloadFile_def Let_def split_beta f [unfolded w] split: option.split)
  qed
  then show ?thesis using found by blast
qed

definition taken_desk :: desk where
  "taken_desk = sample_desk\<lparr>dk_app := sample_app\<lparr>ap_world := sample_world (\<lambda>p. if p = qs ''Kutegram/1'' then Some [0] else None)\<rparr>\<rparr>"

theorem download_name_found_witness:
  "mm_downloadFile sample_viewenv sample_linkenv 0 (selecting_messages, taken_desk) \<noteq> None"
  using download_name_found [of taken_desk sample_linkenv sample_viewenv 0 selecting_messages]
  by (simp add: sample_world_def sample_linkenv_def inj_def taken_desk_def)

end
